(* ===== verification/Izene_Prelude.thy ===== *)
theory Izene_Prelude
  imports Main "HOL-Library.Word" "HOL-Library.Monad_Syntax"
begin

text \<open>
  Vocabulary shared by the component theories: names for the C++ integer types, checked
  access to arrays, the C \<open>int\<close> range, and the generic facts on lists, options and
  words that the component proofs rest on.

  Convention. A function whose C++ original may read or write outside an array, overflow a
  signed integer or loop forever returns an \<^typ>\<open>'a option\<close>: \<^const>\<open>None\<close> stands for
  undefined behaviour or divergence, so a lemma of the form \<open>f x = Some y\<close> states at
  once that the run is memory safe, that it ends and what it returns.
\<close>

unbundle bit_operations_syntax

section \<open>Types\<close>

type_synonym u8 = "8 word"
type_synonym u16 = "16 word"
type_synonym u32 = "32 word"
type_synonym u64 = "64 word"

named_theorems checked_simps \<open>equations of the checked array operations\<close>

section \<open>Checked arithmetic and checked array access\<close>

text \<open>Signed overflow of a C \<open>int\<close> is undefined behaviour.\<close>

definition chk_int :: "int \<Rightarrow> int option" where
  "chk_int x = (if - (2 ^ 31) \<le> x \<and> x < 2 ^ 31 then Some x else None)"

lemma chk_int_Some [checked_simps]:
  "- (2 ^ 31) \<le> x \<Longrightarrow> x < 2 ^ 31 \<Longrightarrow> chk_int x = Some x"
  by (simp add: chk_int_def)

text \<open>\<open>wrap32\<close> is the conversion of an unbounded count to \<open>uint32_t\<close>.\<close>

definition wrap32 :: "nat \<Rightarrow> nat" where
  "wrap32 n = n mod 2 ^ 32"

lemma wrap32_id [simp]: "n < 2 ^ 32 \<Longrightarrow> wrap32 n = n"
  by (simp add: wrap32_def)

lemma wrap32_less: "wrap32 n < 2 ^ 32"
  by (simp add: wrap32_def)

definition rd :: "'a list \<Rightarrow> nat \<Rightarrow> 'a option" where
  "rd xs i = (if i < length xs then Some (xs ! i) else None)"

definition rd_int :: "'a list \<Rightarrow> int \<Rightarrow> 'a option" where
  "rd_int xs i = (if 0 \<le> i then rd xs (nat i) else None)"

definition wr :: "'a list \<Rightarrow> nat \<Rightarrow> 'a \<Rightarrow> 'a list option" where
  "wr xs i v = (if i < length xs then Some (xs[i := v]) else None)"

text \<open>\<open>rd_seq xs i n\<close> reads \<open>n\<close> consecutive cells, as \<open>memcpy\<close> or a vector load does.\<close>

definition rd_seq :: "'a list \<Rightarrow> nat \<Rightarrow> nat \<Rightarrow> 'a list option" where
  "rd_seq xs i n = (if i + n \<le> length xs then Some (take n (drop i xs)) else None)"

text \<open>\<open>wr_seq xs i ys\<close> overwrites the cells from \<open>i\<close> on by \<open>ys\<close>.\<close>

definition wr_seq :: "'a list \<Rightarrow> nat \<Rightarrow> 'a list \<Rightarrow> 'a list option" where
  "wr_seq xs i ys =
     (if i + length ys \<le> length xs then Some (take i xs @ ys @ drop (i + length ys) xs) else None)"

lemma rd_Some [checked_simps]: "i < length xs \<Longrightarrow> rd xs i = Some (xs ! i)"
  by (simp add: rd_def)

lemma rd_None [checked_simps]: "length xs \<le> i \<Longrightarrow> rd xs i = None"
  by (simp add: rd_def)

lemma rd_int_nat [checked_simps]: "rd_int xs (int i) = rd xs i"
  by (simp add: rd_int_def)

lemma rd_int_Some [checked_simps]:
  "0 \<le> i \<Longrightarrow> nat i < length xs \<Longrightarrow> rd_int xs i = Some (xs ! nat i)"
  by (simp add: rd_int_def rd_def)

lemma wr_Some [checked_simps]: "i < length xs \<Longrightarrow> wr xs i v = Some (xs[i := v])"
  by (simp add: wr_def)

lemma rd_seq_Some [checked_simps]:
  "i + n \<le> length xs \<Longrightarrow> rd_seq xs i n = Some (take n (drop i xs))"
  by (simp add: rd_seq_def)

lemma wr_seq_Some [checked_simps]:
  "i + length ys \<le> length xs \<Longrightarrow>
     wr_seq xs i ys = Some (take i xs @ ys @ drop (i + length ys) xs)"
  by (simp add: wr_seq_def)

lemma rd_seq_SomeD: "rd_seq xs i n = Some ys \<Longrightarrow> i + n \<le> length xs \<and> ys = take n (drop i xs)"
  by (auto simp: rd_seq_def split: if_splits)

lemma wr_seq_length: "wr_seq xs i ys = Some zs \<Longrightarrow> length zs = length xs"
  by (auto simp: wr_seq_def split: if_splits)

lemma wr_length: "wr xs i v = Some zs \<Longrightarrow> length zs = length xs"
  by (auto simp: wr_def split: if_splits)

text \<open>Access to one part of an array that is laid out in parts.\<close>

lemma rd_seq_left: "i + n \<le> length xs \<Longrightarrow> rd_seq (xs @ ys) i n = rd_seq xs i n"
  by (simp add: rd_seq_def)

lemma rd_seq_right: "rd_seq (xs @ ys) (length xs + i) n = rd_seq ys i n"
  by (simp add: rd_seq_def)

lemma wr_seq_left: "i + length vs \<le> length xs \<Longrightarrow> wr_seq (xs @ ys) i vs = map_option (\<lambda>zs. zs @ ys) (wr_seq xs i vs)"
  by (simp add: wr_seq_def)

lemma wr_seq_right: "wr_seq (xs @ ys) (length xs + i) vs = map_option (\<lambda>zs. xs @ zs) (wr_seq ys i vs)"
  by (simp add: wr_seq_def add.assoc)

section \<open>Words and lists\<close>

lemma u32_less: "unat (w :: u32) < 4294967296"
  using unsigned_less [of w] by simp

lemma unat_add32: "unat a + unat b < 4294967296 \<Longrightarrow> unat (a + b :: u32) = unat a + unat b"
  using unat_add_lem [of a b] by simp

lemma unat_of_nat32: "k < 2 ^ 32 \<Longrightarrow> unat (of_nat k :: u32) = k"
  by (simp add: unat_of_nat)

lemma of_nat_u32_eq: "j < 2 ^ 32 \<Longrightarrow> k < 2 ^ 32 \<Longrightarrow> (of_nat j :: u32) = of_nat k \<longleftrightarrow> j = k"
  by (metis unat_of_nat32)

lemma those_map_Some [simp]: "those (map Some xs) = Some xs"
  by (induction xs) auto

lemma nth_wr_seq:
  assumes "i + length ys \<le> length xs" and "j < length xs"
  shows "(take i xs @ ys @ drop (i + length ys) xs) ! j =
         (if i \<le> j \<and> j < i + length ys then ys ! (j - i) else xs ! j)"
  using assms by (auto simp: nth_append min_def)

text \<open>The first position from \<open>lo\<close> on at which \<open>P\<close> holds.\<close>

definition first_at :: "(nat \<Rightarrow> bool) \<Rightarrow> nat \<Rightarrow> nat \<Rightarrow> bool" where
  "first_at P lo i \<longleftrightarrow> lo \<le> i \<and> P i \<and> (\<forall>j. lo \<le> j \<and> j < i \<longrightarrow> \<not> P j)"

lemma first_at_unique: "first_at P lo i \<Longrightarrow> first_at P lo j \<Longrightarrow> i = j"
  by (metis first_at_def linorder_neqE_nat)

lemma first_at_self: "P lo \<Longrightarrow> first_at P lo lo"
  by (auto simp: first_at_def)

lemma first_at_step: "\<not> P lo \<Longrightarrow> first_at P (Suc lo) i \<Longrightarrow> first_at P lo i"
  by (auto simp: first_at_def Suc_le_eq) (metis le_neq_implies_less)

lemma first_at_exists: "P n \<Longrightarrow> lo \<le> n \<Longrightarrow> \<exists>i \<le> n. first_at P lo i"
proof (induction "n - lo" arbitrary: lo)
  case 0
  then show ?case using first_at_self [of P lo] by (metis diff_is_0_eq le_antisym)
next
  case (Suc k)
  show ?case
  proof (cases "P lo")
    case True
    then show ?thesis using Suc.prems first_at_self by blast
  next
    case False
    with Suc have "Suc lo \<le> n" and "k = n - Suc lo"
      by (auto simp: Suc_le_eq le_less)
    with Suc.hyps(1) [of "Suc lo"] Suc.prems(1) obtain i where "i \<le> n" "first_at P (Suc lo) i"
      by blast
    with False show ?thesis by (blast intro: first_at_step)
  qed
qed

lemma length_filter_mono: "(\<And>x. x \<in> set xs \<Longrightarrow> P x \<Longrightarrow> Q x) \<Longrightarrow> length (filter P xs) \<le> length (filter Q xs)"
  by (induction xs) (auto simp: le_SucI)

lemma length_filter_eq:
  "(\<And>x. x \<in> set xs \<Longrightarrow> P x \<Longrightarrow> Q x) \<Longrightarrow>
   length (filter P xs) = length (filter Q xs) \<longleftrightarrow> (\<forall>x \<in> set xs. P x = Q x)"
proof (induction xs)
  case (Cons x xs)
  then show ?case using length_filter_mono [of xs P Q] by auto
qed simp

lemma length_eq_keys:
  assumes "distinct (map f xs)" "distinct (map g ys)" "f ` set xs = g ` set ys"
  shows "length xs = length ys"
  using assms by (metis distinct_card length_map set_map)

lemma in_keys: "x \<in> fst ` set xs \<longleftrightarrow> (\<exists>y. (x, y) \<in> set xs)"
  by force

section \<open>Prefixes of result lists\<close>

lemma list_all_drop: "list_all P xs \<Longrightarrow> list_all P (drop n xs)"
  by (meson in_set_dropD list.pred_set)

lemma dropWhile_append_hit: "dropWhile P xs \<noteq> [] \<Longrightarrow> dropWhile P (xs @ ys) = dropWhile P xs @ ys"
  by (auto simp: dropWhile_append1)

lemma dropWhile_append_miss: "dropWhile P xs = [] \<Longrightarrow> dropWhile P (xs @ ys) = dropWhile P ys"
  by auto

text \<open>A limit of 0 is no limit.\<close>

definition at_most :: "nat \<Rightarrow> 'a list \<Rightarrow> 'a list" where
  "at_most n xs = (if n = 0 then xs else take n xs)"

text \<open>Results of a query that stops at \<open>n\<close> hits when it has \<open>acc\<close> already.\<close>

definition up_to :: "nat \<Rightarrow> 'a list \<Rightarrow> 'a list \<Rightarrow> 'a list" where
  "up_to n acc zs = acc @ (if n = 0 then zs else take (n - length acc) zs)"

lemma up_to_Nil [simp]: "up_to n acc [] = acc"
  by (simp add: up_to_def)

lemma up_to_snoc: "n = 0 \<or> length acc < n \<Longrightarrow> up_to n acc (z # zs) = up_to n (acc @ [z]) zs"
  by (auto simp: up_to_def take_Cons')

lemma up_to_full: "length acc = n \<Longrightarrow> n \<noteq> 0 \<Longrightarrow> up_to n acc zs = acc"
  by (simp add: up_to_def)

text \<open>Sorting by a key and the least key.\<close>

lemma sort_key_map: "sort_key g (map f xs) = map f (sort_key (g \<circ> f) xs)"
proof (induction xs)
  case (Cons x xs)
  have "insort_key g (f x) (map f ys) = map f (insort_key (g \<circ> f) x ys)" for ys by (induction ys) auto
  with Cons show ?case by (simp add: comp_def)
qed simp

lemma fold_min_le_start: "fold (\<lambda>q m. min (f q) m) qs a \<le> (a :: 32 word)"
proof (induction qs arbitrary: a)
  case (Cons q qs)
  have "fold (\<lambda>q m. min (f q) m) qs (min (f q) a) \<le> min (f q) a" by (rule Cons.IH)
  then show ?case by simp
qed simp

lemma fold_min_le: "q \<in> set qs \<Longrightarrow> fold (\<lambda>q m. min (f q) m) qs a \<le> (f q :: 32 word)"
proof (induction qs arbitrary: a)
  case (Cons p qs)
  show ?case
  proof (cases "p = q")
    case True
    have "fold (\<lambda>q m. min (f q) m) qs (min (f p) a) \<le> min (f p) a" by (rule fold_min_le_start)
    with True show ?thesis by simp
  qed (use Cons in auto)
qed simp

lemma fold_min_ge:
  fixes f :: "'a \<Rightarrow> 32 word"
  shows "x \<le> a \<Longrightarrow> (\<And>q. q \<in> set qs \<Longrightarrow> x \<le> f q) \<Longrightarrow> x \<le> fold (\<lambda>q m. min (f q) m) qs a"
  by (induction qs arbitrary: a) auto

lemma u32_le_max: "(x :: 32 word) \<le> 0xFFFFFFFF"
proof -
  have "unat x < 2 ^ 32" using unsigned_less [of x] by simp
  then show ?thesis by (simp add: word_le_nat_alt)
qed

end
