(* ===== verification/Zambezi_Utils.thy ===== *)
theory Zambezi_Utils
  imports Izene_Prelude
begin

text \<open>
  The constants and macros of \<open>include/ir/Zambezi/Consts.hpp\<close> and
  \<open>include/ir/Zambezi/Utils.hpp\<close>: block sizes, the null values of pointers and
  identifiers, the comparison macros that read postings forwards or backwards, and the
  packing of a segment number and an offset into one 64-bit pointer.
\<close>

section \<open>Constants\<close>

definition BLOCK_SIZE :: nat where "BLOCK_SIZE = 128"
definition BP_BLOCK_SIZE :: nat where "BP_BLOCK_SIZE = 16 * BLOCK_SIZE"
definition MAX_BLOCK_SIZE :: nat where "MAX_BLOCK_SIZE = 32 * BLOCK_SIZE"
definition DF_CUTOFF :: nat where "DF_CUTOFF = 16"
definition EXPANSION_RATE :: nat where "EXPANSION_RATE = 2"

text \<open>The null values are the maxima of their types, \<open>std::numeric_limits<T>::max()\<close>.\<close>

definition UNDEFINED_POINTER :: u64 where "UNDEFINED_POINTER = 0xFFFFFFFFFFFFFFFF"
definition UNDEFINED_SEGMENT :: u32 where "UNDEFINED_SEGMENT = 0xFFFFFFFF"
definition UNDEFINED_OFFSET :: u32 where "UNDEFINED_OFFSET = 0xFFFFFFFF"
definition INVALID_ID :: u32 where "INVALID_ID = 0xFFFFFFFF"

lemma all_ones: "(0xFFFFFFFF :: u32) = - 1" "(0xFFFFFFFFFFFFFFFF :: u64) = - 1"
  by simp_all

lemma unat_INVALID_ID: "unat INVALID_ID = 4294967295"
  by (simp add: INVALID_ID_def)

text \<open>A docid that fits a C \<open>int\<close> reads the same signed and unsigned.\<close>

lemma sint_docid: "(x :: u32) < 2 ^ 31 \<Longrightarrow> sint x = int (unat x)"
proof -
  assume "x < 2 ^ 31"
  then have "uint x < 2 ^ 31" by (simp add: word_less_def)
  then have "signed_take_bit 31 (uint x) = uint x"
    by (intro signed_take_bit_int_eq_self) (auto intro: order_trans [OF _ uint_ge_0])
  then show ?thesis by (simp add: sint_uint)
qed

datatype IndexType = NON_POSITIONAL | TF_ONLY | POSITIONAL

datatype Algorithm = SVS | WAND | MBWAND | BWAND_OR | BWAND_AND

section \<open>Comparison macros\<close>

text \<open>The flag \<open>r\<close> says that the postings are kept in descending order.\<close>

definition LESS_THAN :: "'a::linorder \<Rightarrow> 'a \<Rightarrow> bool \<Rightarrow> bool" where
  "LESS_THAN x y r = (if r then x > y else x < y)"

definition LESS_THAN_EQUAL :: "'a::linorder \<Rightarrow> 'a \<Rightarrow> bool \<Rightarrow> bool" where
  "LESS_THAN_EQUAL x y r = (if r then x \<ge> y else x \<le> y)"

definition GREATER_THAN :: "'a::linorder \<Rightarrow> 'a \<Rightarrow> bool \<Rightarrow> bool" where
  "GREATER_THAN x y r = (if r then x < y else x > y)"

definition GREATER_THAN_EQUAL :: "'a::linorder \<Rightarrow> 'a \<Rightarrow> bool \<Rightarrow> bool" where
  "GREATER_THAN_EQUAL x y r = (if r then x \<le> y else x \<ge> y)"

text \<open>All four reduce to the first, which is a strict linear order for either flag.\<close>

lemma cmp_macros:
  "LESS_THAN_EQUAL x y r = (\<not> LESS_THAN y x r)"
  "GREATER_THAN x y r = LESS_THAN y x r"
  "GREATER_THAN_EQUAL x y r = (\<not> LESS_THAN x y r)"
  by (auto simp: LESS_THAN_EQUAL_def GREATER_THAN_def GREATER_THAN_EQUAL_def LESS_THAN_def)

lemma LESS_THAN_irrefl [simp]: "\<not> LESS_THAN x x r"
  by (simp add: LESS_THAN_def)

lemma LESS_THAN_trans: "LESS_THAN x y r \<Longrightarrow> LESS_THAN y z r \<Longrightarrow> LESS_THAN x z r"
  by (auto simp: LESS_THAN_def split: if_splits)

lemma LESS_THAN_linear: "LESS_THAN x y r \<or> x = y \<or> LESS_THAN y x r"
  by (auto simp: LESS_THAN_def)

lemma LESS_THAN_asym: "LESS_THAN x y r \<Longrightarrow> \<not> LESS_THAN y x r"
  by (auto simp: LESS_THAN_def split: if_splits)

lemma LESS_THAN_le_trans: "LESS_THAN x y r \<Longrightarrow> \<not> LESS_THAN z y r \<Longrightarrow> LESS_THAN x z r"
  by (metis LESS_THAN_linear LESS_THAN_trans)

lemma LESS_THAN_rev: "LESS_THAN x y (\<not> r) = LESS_THAN y x r"
  by (simp add: LESS_THAN_def)

text \<open>A posting list in index order: strictly ascending, or strictly descending when \<open>r\<close>.\<close>

definition postings :: "bool \<Rightarrow> 'a::linorder list \<Rightarrow> bool" where
  "postings r xs = sorted_wrt (\<lambda>x y. LESS_THAN x y r) xs"

lemma postings_nth_less:
  "postings r xs \<Longrightarrow> i < j \<Longrightarrow> j < length xs \<Longrightarrow> LESS_THAN (xs ! i) (xs ! j) r"
  by (simp add: postings_def sorted_wrt_iff_nth_less)

lemma postings_distinct: "postings r xs \<Longrightarrow> distinct xs"
  unfolding postings_def
  by (induction xs) auto

lemma postings_append:
  "postings r (xs @ ys) \<longleftrightarrow>
     postings r xs \<and> postings r ys \<and> (\<forall>x\<in>set xs. \<forall>y\<in>set ys. LESS_THAN x y r)"
  by (simp add: postings_def sorted_wrt_append)

lemma postings_rev: "postings r (rev xs) \<longleftrightarrow> postings (\<not> r) xs"
  by (simp add: postings_def sorted_wrt_rev LESS_THAN_rev)

section \<open>Pointers\<close>

definition DECODE_SEGMENT :: "u64 \<Rightarrow> u32" where
  "DECODE_SEGMENT p = ucast (drop_bit 32 p)"

definition DECODE_OFFSET :: "u64 \<Rightarrow> u32" where
  "DECODE_OFFSET p = ucast (p AND 0xFFFFFFFF)"

definition ENCODE_POINTER :: "u32 \<Rightarrow> u32 \<Rightarrow> u64" where
  "ENCODE_POINTER s off = push_bit 32 (ucast s) OR ucast off"

lemma bit_ENCODE_POINTER:
  "bit (ENCODE_POINTER s off) n \<longleftrightarrow> (if n < 32 then bit off n else bit s (n - 32))"
  by (auto simp: ENCODE_POINTER_def bit_simps dest: bit_imp_le_length)

lemma DECODE_SEGMENT_ENCODE [simp]: "DECODE_SEGMENT (ENCODE_POINTER s off) = s"
  by (rule bit_eqI) (auto simp: DECODE_SEGMENT_def bit_simps bit_ENCODE_POINTER)

lemma mask32_eq: "(0xFFFFFFFF :: u64) = mask 32"
  by (simp add: mask_eq_exp_minus_1)

lemma DECODE_OFFSET_ENCODE [simp]: "DECODE_OFFSET (ENCODE_POINTER s off) = off"
  by (rule bit_eqI)
     (auto simp: DECODE_OFFSET_def mask32_eq bit_simps bit_ENCODE_POINTER)

lemma ENCODE_DECODE [simp]: "ENCODE_POINTER (DECODE_SEGMENT p) (DECODE_OFFSET p) = p"
  by (rule bit_eqI)
     (auto simp: DECODE_SEGMENT_def DECODE_OFFSET_def mask32_eq bit_simps bit_ENCODE_POINTER)

lemma ENCODE_POINTER_inject [simp]:
  "ENCODE_POINTER s off = ENCODE_POINTER s' off' \<longleftrightarrow> s = s' \<and> off = off'"
  by (metis DECODE_SEGMENT_ENCODE DECODE_OFFSET_ENCODE)

lemma UNDEFINED_POINTER_ENCODE: "UNDEFINED_POINTER = ENCODE_POINTER UNDEFINED_SEGMENT UNDEFINED_OFFSET"
  by (rule bit_eqI)
     (auto simp: UNDEFINED_POINTER_def UNDEFINED_SEGMENT_def UNDEFINED_OFFSET_def all_ones
        bit_simps bit_ENCODE_POINTER)

text \<open>An encoded pointer to a real segment is never the null pointer.\<close>

lemma ENCODE_POINTER_defined: "s \<noteq> UNDEFINED_SEGMENT \<Longrightarrow> ENCODE_POINTER s off \<noteq> UNDEFINED_POINTER"
  by (simp add: UNDEFINED_POINTER_ENCODE)

lemma DECODE_UNDEFINED [simp]:
  "DECODE_SEGMENT UNDEFINED_POINTER = UNDEFINED_SEGMENT"
  "DECODE_OFFSET UNDEFINED_POINTER = UNDEFINED_OFFSET"
  by (simp_all add: UNDEFINED_POINTER_ENCODE)

section \<open>The integer hash\<close>

text \<open>Jenkins' integer hash, as written in \<open>Utils.hpp\<close>; all arithmetic wraps at 32 bits.\<close>

definition hash :: "u32 \<Rightarrow> u32 \<Rightarrow> u32" where
  "hash val0 seed =
     (let val1 = val0 + seed + push_bit 12 val0;
          val2 = val1 XOR 0xc761c23c XOR drop_bit 19 val1;
          val3 = val2 + 0x165667b1 + push_bit 5 val2;
          val4 = (val3 + 0xd3a2646c) XOR push_bit 9 val3;
          val5 = val4 + 0xfd7046c5 + push_bit 3 val4
      in val5 XOR 0xb55a4f09 XOR drop_bit 16 val5)"

end
