(* ===== verification/Byte_Stream.thy ===== *)
theory Byte_Stream
  imports Izene_Prelude
begin

text \<open>
  Integers as the bytes that \<open>std::ostream::write((const char*)&x, sizeof(x))\<close> emits on a
  little-endian machine, and the reads that take them back with \<open>std::istream::read\<close>. A stream
  is the list of the bytes still to be read; a read past its end is \<^const>\<open>None\<close>.
\<close>

section \<open>One integer\<close>

definition put_le :: "nat \<Rightarrow> 'a::len word \<Rightarrow> u8 list" where
  "put_le n w = map (\<lambda>i. ucast (drop_bit (8 * i) w)) [0..<n]"

primrec from_le :: "u8 list \<Rightarrow> 'a::len word" where
  "from_le [] = 0"
| "from_le (b # bs) = ucast b OR push_bit 8 (from_le bs)"

definition get_le :: "nat \<Rightarrow> u8 list \<Rightarrow> ('a::len word \<times> u8 list) option" where
  "get_le n s = (if n \<le> length s then Some (from_le (take n s), drop n s) else None)"

lemma length_put_le [simp]: "length (put_le n w) = n"
  by (simp add: put_le_def)

lemma bit_from_le:
  "bit (from_le bs :: 'a::len word) i \<longleftrightarrow>
     i < LENGTH('a) \<and> i div 8 < length bs \<and> bit (bs ! (i div 8)) (i mod 8)"
proof (induction bs arbitrary: i)
  case (Cons b bs)
  show ?case
  proof (cases "i < 8")
    case True
    then show ?thesis by (auto simp: bit_simps)
  next
    case False
    then have "i div 8 = Suc ((i - 8) div 8)" "i mod 8 = (i - 8) mod 8"
      by (simp_all add: le_div_geq le_mod_geq)
    moreover have "\<not> bit b i" using False by (metis bit_word.rep_eq bit_imp_le_length len_num1 len_bit0 mult_2 numeral_Bit0 numeral_One)
    ultimately show ?thesis
      using False Cons.IH [of "i - 8"] by (auto simp: bit_simps)
  qed
qed simp

lemma from_put_le:
  assumes "LENGTH('a) \<le> 8 * n"
  shows "from_le (put_le n (w :: 'a::len word)) = w"
proof (rule bit_word_eqI)
  fix i assume i: "i < LENGTH('a)"
  then have "i div 8 < n" using assms by linarith
  then show "bit (from_le (put_le n w) :: 'a word) i = bit w i"
    using i by (simp add: bit_from_le put_le_def bit_simps)
qed

lemma get_put_le:
  assumes "LENGTH('a) \<le> 8 * n"
  shows "get_le n (put_le n (w :: 'a::len word) @ s) = Some (w, s)"
  using from_put_le [OF assms, of w] by (simp add: get_le_def)

lemma put_from_le:
  assumes "length bs = n" "8 * n \<le> LENGTH('a)"
  shows "put_le n (from_le bs :: 'a::len word) = bs"
proof (rule nth_equalityI)
  fix i assume "i < length (put_le n (from_le bs :: 'a word))"
  then have i: "i < n" by simp
  show "put_le n (from_le bs :: 'a word) ! i = bs ! i"
  proof (rule bit_word_eqI)
    fix k assume k: "k < LENGTH(8)"
    then have "(8 * i + k) div 8 = i" "(8 * i + k) mod 8 = k" "8 * i + k < LENGTH('a)"
      using i assms by auto
    then show "bit (put_le n (from_le bs :: 'a word) ! i) k = bit (bs ! i) k"
      using i k assms by (simp add: put_le_def bit_simps bit_from_le)
  qed
qed (simp add: assms)

abbreviation put32 :: "u32 \<Rightarrow> u8 list" where "put32 \<equiv> put_le 4"
abbreviation get32 :: "u8 list \<Rightarrow> (u32 \<times> u8 list) option" where "get32 \<equiv> get_le 4"
abbreviation put64 :: "u64 \<Rightarrow> u8 list" where "put64 \<equiv> put_le 8"
abbreviation get64 :: "u8 list \<Rightarrow> (u64 \<times> u8 list) option" where "get64 \<equiv> get_le 8"

lemma get_put32 [simp]: "get32 (put32 w @ s) = Some (w, s)"
  by (rule get_put_le) simp

lemma get_put64 [simp]: "get64 (put64 w @ s) = Some (w, s)"
  by (rule get_put_le) simp

section \<open>An array\<close>

definition put32s :: "u32 list \<Rightarrow> u8 list" where
  "put32s ws = concat (map put32 ws)"

primrec get32s :: "nat \<Rightarrow> u8 list \<Rightarrow> (u32 list \<times> u8 list) option" where
  "get32s 0 s = Some ([], s)"
| "get32s (Suc n) s = do {
     (w, s1) \<leftarrow> get32 s;
     (ws, s2) \<leftarrow> get32s n s1;
     Some (w # ws, s2)
   }"

lemma get_put32s: "get32s (length ws) (put32s ws @ s) = Some (ws, s)"
  by (induction ws) (simp_all add: put32s_def)

lemma get32s_length: "get32s n s = Some (ws, s') \<Longrightarrow> length ws = n"
  by (induction n arbitrary: s ws) (auto split: bind_splits)

lemma length_put32s [simp]: "length (put32s ws) = 4 * length ws"
  by (induction ws) (simp_all add: put32s_def)

lemma put32s_append [simp]: "put32s (ws @ vs) = put32s ws @ put32s vs"
  by (simp add: put32s_def)

text \<open>\<open>memcpy\<close> of bytes into words.\<close>

fun words_of :: "u8 list \<Rightarrow> u32 list" where
  "words_of (a # b # c # d # bs) = from_le [a, b, c, d] # words_of bs"
| "words_of _ = []"

lemma put32s_words_of: "length bs mod 4 = 0 \<Longrightarrow> put32s (words_of bs) = bs \<and> length (words_of bs) = length bs div 4"
proof (induction bs rule: words_of.induct)
  case (1 a b c d bs)
  have "put32 (from_le [a, b, c, d]) = [a, b, c, d]" by (rule put_from_le) simp_all
  moreover have "length bs mod 4 = 0" using 1(2) by simp
  ultimately show ?case using 1(1) by (simp add: put32s_def)
qed (simp_all add: put32s_def)

text \<open>A character is one byte.\<close>

lemma char_byte: "char_of (unat (of_char c :: u8)) = c"
proof -
  have "unat (of_char c :: u8) = of_char c" by (simp add: of_char_def)
  then show ?thesis by simp
qed

end
