(* ===== verification/Zambezi_SegmentPool.thy ===== *)
theory Zambezi_SegmentPool
  imports Zambezi_Utils Byte_Stream
begin

text \<open>
  The segment pool of the Zambezi index (\<open>include/ir/Zambezi/SegmentPool.hpp\<close>,
  \<open>source/ir/Zambezi/SegmentPool.cpp\<close>): a vector of fixed-size arrays in which compressed posting
  blocks are laid out one behind the other and linked into one chain per term. A block occupies
  its length plus four header cells: the space taken, the segment and offset of the next block,
  and the largest docid. The locale \<open>segment_store\<close> is the interface the inverted indexes use: an
  append adds one block, links it behind a given block and in front of another one, and leaves
  every other block alone.
\<close>

section \<open>The model\<close>

text \<open>\<open>pool_\<close> is a vector of possibly null arrays. The contents of a newly allocated array are
  unspecified: they come from the parameter \<open>junk\<close>.\<close>

record SegmentPool =
  maxPoolSize :: u32
  numberOfPools :: u32
  segment :: u32
  offset :: u32
  pool :: "u32 list option list"

definition SegmentPool_new :: "u32 \<Rightarrow> u32 \<Rightarrow> SegmentPool" where
  "SegmentPool_new maxSize number =
     \<lparr> maxPoolSize = maxSize, numberOfPools = number, segment = 0, offset = 0,
       pool = replicate (unat number) None \<rparr>"

text \<open>\<open>cell\<close> is the read \<open>pool_[s][i]\<close>, the other three the writes: one cell, a \<open>memcpy\<close> or
  \<open>memset\<close>, and the allocation of an array that is still null.\<close>

definition cell :: "SegmentPool \<Rightarrow> nat \<times> nat \<Rightarrow> u32 option" where
  "cell sp = (\<lambda>(s, i). do { a \<leftarrow> rd (pool sp) s; arr \<leftarrow> a; rd arr i })"

definition set_cells :: "SegmentPool \<Rightarrow> nat \<Rightarrow> nat \<Rightarrow> u32 list \<Rightarrow> SegmentPool option" where
  "set_cells sp s i vs = do {
     a \<leftarrow> rd (pool sp) s;
     arr \<leftarrow> a;
     arr' \<leftarrow> wr_seq arr i vs;
     Some (sp \<lparr> pool := (pool sp)[s := Some arr'] \<rparr>)
   }"

definition set_cell :: "SegmentPool \<Rightarrow> nat \<Rightarrow> nat \<Rightarrow> u32 \<Rightarrow> SegmentPool option" where
  "set_cell sp s i v = set_cells sp s i [v]"

definition alloc_pool :: "(nat \<Rightarrow> u32) \<Rightarrow> SegmentPool \<Rightarrow> nat \<Rightarrow> SegmentPool option" where
  "alloc_pool junk sp s = do {
     a \<leftarrow> rd (pool sp) s;
     Some (case a of
         None \<Rightarrow> sp \<lparr> pool := (pool sp)[s := Some (map junk [0..<unat (maxPoolSize sp)])] \<rparr>
       | Some _ \<Rightarrow> sp)
   }"

text \<open>\<open>appendSegment\<close> in its four steps: move on to the next array when the block does not fit, allocate
  the array, write the header and the data, link the last block of the chain to the new one.\<close>

definition roll_pool :: "SegmentPool \<Rightarrow> u32 \<Rightarrow> SegmentPool option" where
  "roll_pool sp reqspace =
     (if reqspace > maxPoolSize sp - offset sp then do {
        sp' \<leftarrow> set_cells sp (unat (segment sp)) (unat (offset sp))
                (replicate (unat (maxPoolSize sp - offset sp)) 0);
        Some (sp' \<lparr> segment := segment sp + 1, offset := 0 \<rparr>)
      } else Some sp)"

definition write_block ::
  "SegmentPool \<Rightarrow> u32 \<Rightarrow> u32 list \<Rightarrow> u32 \<Rightarrow> u32 \<Rightarrow> u64 \<Rightarrow> SegmentPool option" where
  "write_block sp reqspace dataSegment maxDocId len nextPtr = do {
     let s = unat (segment sp);
     let off = offset sp;
     sp1 \<leftarrow> set_cell sp s (unat off) reqspace;
     sp2 \<leftarrow> set_cell sp1 s (unat (off + 1)) (DECODE_SEGMENT nextPtr);
     sp3 \<leftarrow> set_cell sp2 s (unat (off + 2)) (DECODE_OFFSET nextPtr);
     sp4 \<leftarrow> set_cell sp3 s (unat (off + 3)) maxDocId;
     dat \<leftarrow> rd_seq dataSegment 0 (unat len);
     set_cells sp4 s (unat (off + 4)) dat
   }"

definition link_last :: "SegmentPool \<Rightarrow> u64 \<Rightarrow> SegmentPool option" where
  "link_last sp lastPointer =
     (if lastPointer \<noteq> UNDEFINED_POINTER then do {
        let lastSegment = DECODE_SEGMENT lastPointer;
        let lastOffset = DECODE_OFFSET lastPointer;
        sp' \<leftarrow> set_cell sp (unat lastSegment) (unat (lastOffset + 1)) (segment sp);
        set_cell sp' (unat lastSegment) (unat (lastOffset + 2)) (offset sp)
      } else Some sp)"

definition appendSegment ::
  "(nat \<Rightarrow> u32) \<Rightarrow> SegmentPool \<Rightarrow> u32 list \<Rightarrow> u32 \<Rightarrow> u32 \<Rightarrow> u64 \<Rightarrow> u64 \<Rightarrow> (u64 \<times> SegmentPool) option"
where
  "appendSegment junk sp dataSegment maxDocId len lastPointer nextPtr = do {
     let reqspace = len + 4;
     sp1 \<leftarrow> roll_pool sp reqspace;
     sp2 \<leftarrow> alloc_pool junk sp1 (unat (segment sp1));
     sp3 \<leftarrow> write_block sp2 reqspace dataSegment maxDocId len nextPtr;
     sp4 \<leftarrow> link_last sp3 lastPointer;
     let newPointer = ENCODE_POINTER (segment sp4) (offset sp4);
     Some (newPointer, sp4 \<lparr> offset := offset sp4 + reqspace \<rparr>)
   }"

definition nextPointer :: "SegmentPool \<Rightarrow> u64 \<Rightarrow> u64 option" where
  "nextPointer sp pointer =
     (if pointer = UNDEFINED_POINTER then Some UNDEFINED_POINTER else do {
        let pSegment = DECODE_SEGMENT pointer;
        let pOffset = DECODE_OFFSET pointer;
        s \<leftarrow> cell sp (unat pSegment, unat (pOffset + 1));
        if s = UNDEFINED_SEGMENT then Some UNDEFINED_POINTER else do {
          off \<leftarrow> cell sp (unat pSegment, unat (pOffset + 2));
          Some (ENCODE_POINTER s off)
        }
      })"

partial_function (option) nextPointer_loop ::
  "SegmentPool \<Rightarrow> u32 \<Rightarrow> bool \<Rightarrow> u32 \<Rightarrow> u32 \<Rightarrow> u64 option"
where
  "nextPointer_loop sp pivot reverse pSegment pOffset = do {
     m \<leftarrow> cell sp (unat pSegment, unat (pOffset + 3));
     if LESS_THAN m pivot reverse then do {
       s \<leftarrow> cell sp (unat pSegment, unat (pOffset + 1));
       if s = UNDEFINED_SEGMENT then Some UNDEFINED_POINTER else do {
         off \<leftarrow> cell sp (unat pSegment, unat (pOffset + 2));
         nextPointer_loop sp pivot reverse s off
       }
     } else Some (ENCODE_POINTER pSegment pOffset)
   }"

definition nextPointer_pivot :: "SegmentPool \<Rightarrow> u64 \<Rightarrow> u32 \<Rightarrow> bool \<Rightarrow> u64 option" where
  "nextPointer_pivot sp pointer pivot reverse =
     (if pointer = UNDEFINED_POINTER then Some UNDEFINED_POINTER
      else nextPointer_loop sp pivot reverse (DECODE_SEGMENT pointer) (DECODE_OFFSET pointer))"

text \<open>Saving writes the four counters, the full arrays before the current one and the used part of
  the current one; loading keeps the arrays the pool already has and allocates the missing ones.\<close>

primrec save_pools :: "SegmentPool \<Rightarrow> nat \<Rightarrow> u8 list option" where
  "save_pools sp 0 = Some []"
| "save_pools sp (Suc i) = do {
     bytes \<leftarrow> save_pools sp i;
     a \<leftarrow> rd (pool sp) i;
     arr \<leftarrow> a;
     ws \<leftarrow> rd_seq arr 0 (unat (maxPoolSize sp));
     Some (bytes @ put32s ws)
   }"

definition save :: "SegmentPool \<Rightarrow> u8 list option" where
  "save sp = do {
     bytes \<leftarrow> save_pools sp (unat (segment sp));
     a \<leftarrow> rd (pool sp) (unat (segment sp));
     arr \<leftarrow> a;
     ws \<leftarrow> rd_seq arr 0 (unat (offset sp));
     Some (put32 (maxPoolSize sp) @ put32 (numberOfPools sp) @ put32 (segment sp) @
           put32 (offset sp) @ bytes @ put32s ws)
   }"

definition resize :: "'a \<Rightarrow> nat \<Rightarrow> 'a list \<Rightarrow> 'a list" where
  "resize d n xs = take n xs @ replicate (n - length xs) d"

primrec load_pools :: "(nat \<Rightarrow> u32) \<Rightarrow> SegmentPool \<Rightarrow> nat \<Rightarrow> u8 list \<Rightarrow> (SegmentPool \<times> u8 list) option" where
  "load_pools junk sp 0 bytes = Some (sp, bytes)"
| "load_pools junk sp (Suc i) bytes = do {
     (sp1, bytes1) \<leftarrow> load_pools junk sp i bytes;
     sp2 \<leftarrow> alloc_pool junk sp1 i;
     (ws, bytes2) \<leftarrow> get32s (unat (maxPoolSize sp)) bytes1;
     sp3 \<leftarrow> set_cells sp2 i 0 ws;
     Some (sp3, bytes2)
   }"

definition load :: "(nat \<Rightarrow> u32) \<Rightarrow> SegmentPool \<Rightarrow> u8 list \<Rightarrow> (SegmentPool \<times> u8 list) option" where
  "load junk sp bytes = do {
     (m, bytes1) \<leftarrow> get32 bytes;
     (n, bytes2) \<leftarrow> get32 bytes1;
     (s, bytes3) \<leftarrow> get32 bytes2;
     (off, bytes4) \<leftarrow> get32 bytes3;
     let sp1 = \<lparr> maxPoolSize = m, numberOfPools = n, segment = s, offset = off,
                 pool = resize None (unat (s + 1)) (pool sp) \<rparr>;
     (sp2, bytes5) \<leftarrow> load_pools junk sp1 (unat s) bytes4;
     sp3 \<leftarrow> alloc_pool junk sp2 (unat s);
     (ws, bytes6) \<leftarrow> get32s (unat off) bytes5;
     sp4 \<leftarrow> set_cells sp3 (unat s) 0 ws;
     Some (sp4, bytes6)
   }"

section \<open>Reads after writes\<close>

text \<open>\<open>shape\<close> collects what a write to a cell cannot change.\<close>

definition shape :: "SegmentPool \<Rightarrow> u32 \<times> u32 \<times> u32 \<times> u32 \<times> nat option list" where
  "shape sp = (maxPoolSize sp, numberOfPools sp, segment sp, offset sp,
     map (map_option length) (pool sp))"

lemma cell_bound:
  "cell sp (s, i) \<noteq> None \<longleftrightarrow>
     (s < length (pool sp) \<and> (\<exists>n. map (map_option length) (pool sp) ! s = Some n \<and> i < n))"
  by (auto simp: cell_def rd_def split: bind_splits)

lemma cell_Some:
  "cell sp (s, i) = Some v \<longleftrightarrow>
     (s < length (pool sp) \<and> (\<exists>arr. pool sp ! s = Some arr \<and> i < length arr \<and> arr ! i = v))"
  by (auto simp: cell_def rd_def split: bind_splits if_splits)

lemma cell_offset [simp]: "cell (sp \<lparr> offset := v \<rparr>) = cell sp"
  by (simp add: cell_def)

lemma cell_shape:
  assumes "shape sp = shape sp'"
  shows "cell sp x = None \<longleftrightarrow> cell sp' x = None"
proof -
  have l: "map (map_option length) (pool sp) = map (map_option length) (pool sp')"
    using assms by (simp add: shape_def)
  then have n: "length (pool sp) = length (pool sp')" by (rule map_eq_imp_length_eq)
  have "cell sp (s, i) \<noteq> None \<longleftrightarrow> cell sp' (s, i) \<noteq> None" for s i
    by (simp only: cell_bound l n)
  then show ?thesis by (cases x) blast
qed

lemma set_cells_ok:
  assumes arr: "s < length (pool sp)" "pool sp ! s = Some arr" "i + length vs \<le> length arr"
  shows "\<exists>sp'. set_cells sp s i vs = Some sp' \<and> shape sp' = shape sp \<and>
    cell sp' = (\<lambda>(t, j). if t = s \<and> i \<le> j \<and> j < i + length vs then Some (vs ! (j - i)) else cell sp (t, j))"
proof -
  let ?arr = "take i arr @ vs @ drop (i + length vs) arr"
  have upd: "set_cells sp s i vs = Some (sp \<lparr> pool := (pool sp)[s := Some ?arr] \<rparr>)"
    using arr by (simp add: set_cells_def rd_def wr_seq_def)
  have len: "length ?arr = length arr" using arr by simp
  have "map (map_option length) ((pool sp)[s := Some ?arr]) = map (map_option length) (pool sp)"
    using arr len by (intro nth_equalityI) (auto simp: nth_list_update)
  then have sh: "shape (sp \<lparr> pool := (pool sp)[s := Some ?arr] \<rparr>) = shape sp" by (simp add: shape_def)
  show ?thesis
    using arr len by (intro exI [of _ "sp \<lparr> pool := (pool sp)[s := Some ?arr] \<rparr>"] conjI upd sh ext)
      (auto simp: cell_def rd_def nth_list_update nth_wr_seq)
qed

lemma set_cell_ok:
  assumes "cell sp (s, i) \<noteq> None"
  shows "\<exists>sp'. set_cell sp s i v = Some sp' \<and> shape sp' = shape sp \<and> cell sp' = (cell sp)((s, i) \<mapsto> v)"
proof -
  from assms obtain arr where "s < length (pool sp)" "pool sp ! s = Some arr" "i < length arr"
    by (auto simp: cell_Some)
  with set_cells_ok [of s sp arr i "[v]"] obtain sp' where
    "set_cells sp s i [v] = Some sp'" "shape sp' = shape sp"
    "cell sp' = (\<lambda>(t, j). if t = s \<and> i \<le> j \<and> j < i + 1 then Some ([v] ! (j - i)) else cell sp (t, j))"
    by auto
  then show ?thesis by (auto simp: set_cell_def fun_eq_iff)
qed

text \<open>\<open>pool_ok\<close>: every array up to the current one has been allocated with \<open>maxPoolSize\<close> cells (the
  current one once something is stored in it) and \<open>offset\<close> points into it or just behind it.\<close>

definition pool_ok :: "SegmentPool \<Rightarrow> bool" where
  "pool_ok sp \<longleftrightarrow>
     unat (segment sp) < length (pool sp) \<and> length (pool sp) < 2 ^ 32 \<and> offset sp \<le> maxPoolSize sp \<and>
     (\<forall>i < length (pool sp). case pool sp ! i of
         None \<Rightarrow> unat (segment sp) < i \<or> unat (segment sp) = i \<and> offset sp = 0
       | Some a \<Rightarrow> length a = unat (maxPoolSize sp))"

definition used :: "SegmentPool \<Rightarrow> nat \<times> nat \<Rightarrow> bool" where
  "used sp = (\<lambda>(s, i). s < unat (segment sp) \<and> i < unat (maxPoolSize sp) \<or>
     s = unat (segment sp) \<and> i < unat (offset sp))"

text \<open>A block of \<open>n\<close> words can be stored: it fits an array, and the current one or a further one has
  room for it.\<close>

definition room :: "SegmentPool \<Rightarrow> nat \<Rightarrow> bool" where
  "room sp n \<longleftrightarrow> n + 4 \<le> unat (maxPoolSize sp) \<and>
     (unat (offset sp) + n + 4 \<le> unat (maxPoolSize sp) \<or> unat (segment sp) + 1 < length (pool sp))"

lemma pool_ok_alt:
  "pool_ok sp \<longleftrightarrow> (case shape sp of (m, _, s, off, lens) \<Rightarrow>
     unat s < length lens \<and> length lens < 2 ^ 32 \<and> off \<le> m \<and>
     (\<forall>i < length lens. lens ! i = Some (unat m) \<or>
        lens ! i = None \<and> (unat s < i \<or> unat s = i \<and> off = 0)))"
  by (auto simp: pool_ok_def shape_def split: option.splits)

lemma pool_ok_new: "0 < n \<Longrightarrow> pool_ok (SegmentPool_new m n)"
  using u32_less [of n] by (auto simp: pool_ok_def SegmentPool_new_def word_less_nat_alt)

lemma pool_array:
  assumes "pool_ok sp" and "s < unat (segment sp) \<or> s = unat (segment sp) \<and> offset sp \<noteq> 0"
  obtains arr where "s < length (pool sp)" "pool sp ! s = Some arr" "length arr = unat (maxPoolSize sp)"
proof (cases "pool sp ! s")
  case None
  with assms show ?thesis by (auto simp: pool_ok_def split: option.splits dest!: spec [of _ s])
next
  case (Some arr)
  with assms that show ?thesis by (auto simp: pool_ok_def split: option.splits)
qed

lemma pool_ok_used:
  assumes "pool_ok sp" and "used sp (s, i)"
  shows "cell sp (s, i) \<noteq> None"
proof -
  have "s < unat (segment sp) \<or> s = unat (segment sp) \<and> offset sp \<noteq> 0"
    and i: "i < unat (maxPoolSize sp)"
    using assms by (auto simp: used_def pool_ok_def word_le_nat_alt)
  with pool_array [OF assms(1)] obtain arr where
    "s < length (pool sp)" "pool sp ! s = Some arr" "length arr = unat (maxPoolSize sp)" by metis
  with i show ?thesis by (auto simp: cell_Some)
qed

lemma roll_pool_ok:
  assumes ok: "pool_ok sp" and rm: "room sp (unat len)"
  shows "\<exists>sp1. roll_pool sp (len + 4) = Some sp1 \<and> pool_ok sp1 \<and>
    maxPoolSize sp1 = maxPoolSize sp \<and> numberOfPools sp1 = numberOfPools sp \<and>
    length (pool sp1) = length (pool sp) \<and>
    unat (offset sp1) + unat len + 4 \<le> unat (maxPoolSize sp1) \<and>
    (\<forall>x. used sp x \<longrightarrow> used sp1 x \<and> cell sp1 x = cell sp x)"
proof -
  have req: "unat (len + 4) = unat len + 4"
    using rm u32_less [of "maxPoolSize sp"] by (subst unat_add32) (auto simp: room_def)
  have rest: "unat (maxPoolSize sp - offset sp) = unat (maxPoolSize sp) - unat (offset sp)"
    using ok by (simp add: pool_ok_def unat_sub)
  show ?thesis
  proof (cases "len + 4 > maxPoolSize sp - offset sp")
    case False
    then have "unat (offset sp) + unat len + 4 \<le> unat (maxPoolSize sp)"
      using ok by (simp add: word_less_nat_alt req rest pool_ok_def word_le_nat_alt)
    then show ?thesis using ok False by (simp add: roll_pool_def)
  next
    case True
    then have full: "unat (maxPoolSize sp) < unat (offset sp) + unat len + 4"
      using ok by (simp add: word_less_nat_alt req rest pool_ok_def word_le_nat_alt)
    with rm have nxt: "unat (segment sp) + 1 < length (pool sp)" and "offset sp \<noteq> 0"
      by (auto simp: room_def)
    have inc: "unat (segment sp + 1) = unat (segment sp) + 1"
      using nxt ok by (subst unat_add32) (auto simp: pool_ok_def)
    from pool_array [OF ok, of "unat (segment sp)"] \<open>offset sp \<noteq> 0\<close> obtain arr where
      arr: "unat (segment sp) < length (pool sp)" "pool sp ! unat (segment sp) = Some arr"
        "length arr = unat (maxPoolSize sp)" by blast
    let ?z = "replicate (unat (maxPoolSize sp - offset sp)) (0 :: u32)"
    have fit: "unat (offset sp) + length ?z = length arr"
      using ok arr by (simp add: rest pool_ok_def word_le_nat_alt)
    from set_cells_ok [OF arr(1,2), of "unat (offset sp)" ?z] fit obtain sp' where
      sp': "set_cells sp (unat (segment sp)) (unat (offset sp)) ?z = Some sp'" "shape sp' = shape sp"
      "cell sp' = (\<lambda>(t, j). if t = unat (segment sp) \<and> unat (offset sp) \<le> j \<and> j < unat (offset sp) + length ?z
         then Some (?z ! (j - unat (offset sp))) else cell sp (t, j))" by auto
    let ?sp1 = "sp' \<lparr> segment := segment sp + 1, offset := 0 \<rparr>"
    have "cell ?sp1 x = cell sp x" if "used sp x" for x
      using that sp'(3) by (cases x) (auto simp: used_def cell_def)
    moreover have "used ?sp1 x" if "used sp x" for x
      using that sp'(2) ok by (cases x) (auto simp: used_def inc shape_def pool_ok_def word_le_nat_alt)
    moreover have "pool_ok ?sp1"
      using sp'(2) ok nxt \<open>offset sp \<noteq> 0\<close> by (fastforce simp: pool_ok_alt shape_def inc)
    ultimately show ?thesis
      using True sp' rm by (auto simp: roll_pool_def shape_def room_def dest: map_eq_imp_length_eq)
  qed
qed

lemma alloc_pool_ok:
  assumes ok: "pool_ok sp"
  shows "\<exists>sp' arr. alloc_pool junk sp (unat (segment sp)) = Some sp' \<and> pool_ok sp' \<and>
    maxPoolSize sp' = maxPoolSize sp \<and> numberOfPools sp' = numberOfPools sp \<and>
    segment sp' = segment sp \<and> offset sp' = offset sp \<and> length (pool sp') = length (pool sp) \<and>
    pool sp' ! unat (segment sp) = Some arr \<and> length arr = unat (maxPoolSize sp) \<and>
    (\<forall>x. used sp x \<longrightarrow> cell sp' x = cell sp x)"
proof (cases "pool sp ! unat (segment sp)")
  case None
  let ?s = "unat (segment sp)"
  let ?new = "map junk [0..<unat (maxPoolSize sp)]"
  have s: "?s < length (pool sp)" and off: "offset sp = 0"
    using ok None by (auto simp: pool_ok_def split: option.splits)
  have keep: "cell (sp \<lparr> pool := (pool sp)[?s := Some ?new] \<rparr>) x = cell sp x" if "used sp x" for x
    using that off by (cases x) (auto simp: used_def cell_def rd_def nth_list_update)
  have "pool_ok (sp \<lparr> pool := (pool sp)[?s := Some ?new] \<rparr>)"
    using ok by (auto simp: pool_ok_def nth_list_update split: option.splits)
  with keep s None show ?thesis by (auto simp: alloc_pool_def rd_def)
next
  case (Some arr)
  with ok show ?thesis
    by (auto simp: alloc_pool_def rd_def pool_ok_def split: option.splits)
qed

text \<open>Writes to neighbouring cells combine into one.\<close>

lemma set_cells_append:
  "do { sp' \<leftarrow> set_cells sp s i vs; set_cells sp' s (i + length vs) ws } = set_cells sp s i (vs @ ws)"
  by (auto simp: set_cells_def wr_seq_def rd_def ac_simps split: bind_splits)

definition header :: "u32 \<Rightarrow> u64 \<Rightarrow> u32 \<Rightarrow> u32 list" where
  "header reqspace nextPtr maxDocId = [reqspace, DECODE_SEGMENT nextPtr, DECODE_OFFSET nextPtr, maxDocId]"

lemma length_header [simp]: "length (header w n m) = 4"
  by (simp add: header_def)

lemma write_block_ok:
  assumes arr: "unat (segment sp) < length (pool sp)" "pool sp ! unat (segment sp) = Some arr"
      "length arr = unat (maxPoolSize sp)"
    and fit: "unat (offset sp) + unat len + 4 \<le> unat (maxPoolSize sp)"
    and dat: "unat len \<le> length dataSegment"
  shows "\<exists>sp'. write_block sp reqspace dataSegment maxDocId len nextPtr = Some sp' \<and> shape sp' = shape sp \<and>
    cell sp' = (\<lambda>(t, j). if t = unat (segment sp) \<and> unat (offset sp) \<le> j \<and> j < unat (offset sp) + 4 + unat len
      then Some ((header reqspace nextPtr maxDocId @ take (unat len) dataSegment) ! (j - unat (offset sp)))
      else cell sp (t, j))"
proof -
  let ?s = "unat (segment sp)" and ?o = "unat (offset sp)"
  have o: "unat (offset sp + 1) = ?o + 1" "unat (offset sp + 2) = ?o + 2"
    "unat (offset sp + 3) = ?o + 3" "unat (offset sp + 4) = ?o + 4"
    using fit u32_less [of "maxPoolSize sp"] by (simp_all add: unat_add32)
  have "write_block sp reqspace dataSegment maxDocId len nextPtr =
      set_cells sp ?s ?o (header reqspace nextPtr maxDocId @ take (unat len) dataSegment)"
    using dat set_cells_append [of sp ?s ?o "[reqspace]" "[DECODE_SEGMENT nextPtr]"]
      set_cells_append [of sp ?s ?o "[reqspace, DECODE_SEGMENT nextPtr]" "[DECODE_OFFSET nextPtr]"]
      set_cells_append [of sp ?s ?o "[reqspace, DECODE_SEGMENT nextPtr, DECODE_OFFSET nextPtr]" "[maxDocId]"]
      set_cells_append [of sp ?s ?o "header reqspace nextPtr maxDocId" "take (unat len) dataSegment"]
    by (simp add: write_block_def set_cell_def header_def o rd_seq_Some numeral_eq_Suc
        flip: Option.bind_assoc)
  with set_cells_ok [OF arr(1,2), of ?o "header reqspace nextPtr maxDocId @ take (unat len) dataSegment"]
    arr(3) fit dat show ?thesis by (simp add: add.assoc)
qed

abbreviation seg_of :: "u64 \<Rightarrow> nat" where "seg_of p \<equiv> unat (DECODE_SEGMENT p)"
abbreviation off_of :: "u64 \<Rightarrow> nat" where "off_of p \<equiv> unat (DECODE_OFFSET p)"

text \<open>\<open>relinked p s off\<close> sets the link of the block at \<open>p\<close>, if there is one.\<close>

definition relinked :: "u64 \<Rightarrow> u32 \<Rightarrow> u32 \<Rightarrow> (nat \<times> nat \<Rightarrow> u32 option) \<Rightarrow> nat \<times> nat \<Rightarrow> u32 option" where
  "relinked p s off c = (if p = UNDEFINED_POINTER then c
     else c((seg_of p, off_of p + 1) \<mapsto> s, (seg_of p, off_of p + 2) \<mapsto> off))"

lemma relinked_cong: "c x = d x \<Longrightarrow> relinked p s off c x = relinked p s off d x"
  by (simp add: relinked_def)

lemma relinked_other:
  "p \<noteq> UNDEFINED_POINTER \<Longrightarrow> x \<noteq> (seg_of p, off_of p + 1) \<and> x \<noteq> (seg_of p, off_of p + 2) \<Longrightarrow> relinked p s off c x = c x"
  by (simp add: relinked_def)

lemma link_last_ok:
  assumes "p \<noteq> UNDEFINED_POINTER \<Longrightarrow> off_of p + 2 < 4294967296 \<and>
    cell sp (seg_of p, off_of p + 1) \<noteq> None \<and> cell sp (seg_of p, off_of p + 2) \<noteq> None"
  shows "\<exists>sp'. link_last sp p = Some sp' \<and> shape sp' = shape sp \<and>
    cell sp' = relinked p (segment sp) (offset sp) (cell sp)"
proof (cases "p = UNDEFINED_POINTER")
  case False
  note p = assms [OF False]
  have o: "unat (DECODE_OFFSET p + 1) = off_of p + 1" "unat (DECODE_OFFSET p + 2) = off_of p + 2"
    using p by (simp_all add: unat_add32)
  from p set_cell_ok [of sp "seg_of p" "off_of p + 1" "segment sp"] obtain sp1 where
    1: "set_cell sp (seg_of p) (off_of p + 1) (segment sp) = Some sp1" "shape sp1 = shape sp"
       "cell sp1 = (cell sp)((seg_of p, off_of p + 1) \<mapsto> segment sp)" by blast
  then have "cell sp1 (seg_of p, off_of p + 2) \<noteq> None" using p by simp
  from set_cell_ok [OF this, of "offset sp"] obtain sp2 where
    2: "set_cell sp1 (seg_of p) (off_of p + 2) (offset sp) = Some sp2" "shape sp2 = shape sp1"
       "cell sp2 = (cell sp1)((seg_of p, off_of p + 2) \<mapsto> offset sp)" by blast
  show ?thesis using False 1 2 by (simp add: link_last_def relinked_def o)
qed (simp add: link_last_def relinked_def)

section \<open>Blocks and the space they take\<close>

text \<open>\<open>block_at\<close> reads a stored block back: its largest docid and its data. \<open>extent\<close> is the set of cells
  it takes, and \<open>store_ok\<close> says that the blocks in \<open>L\<close> lie in the used part of the pool and do not
  overlap.\<close>

definition block_at :: "SegmentPool \<Rightarrow> u64 \<Rightarrow> (u32 \<times> u32 list) option" where
  "block_at sp p = do {
     w \<leftarrow> cell sp (seg_of p, off_of p);
     m \<leftarrow> cell sp (seg_of p, off_of p + 3);
     dat \<leftarrow> those (map (\<lambda>k. cell sp (seg_of p, off_of p + 4 + k)) [0..<unat w - 4]);
     Some (m, dat)
   }"

definition extent :: "SegmentPool \<Rightarrow> u64 \<Rightarrow> (nat \<times> nat) set" where
  "extent sp p = (case cell sp (seg_of p, off_of p) of
     None \<Rightarrow> {} | Some w \<Rightarrow> {seg_of p} \<times> {off_of p..<off_of p + unat w})"

definition valid :: "SegmentPool \<Rightarrow> u64 \<Rightarrow> bool" where
  "valid sp p \<longleftrightarrow> DECODE_SEGMENT p \<noteq> UNDEFINED_SEGMENT \<and>
     (\<exists>w. cell sp (seg_of p, off_of p) = Some w \<and> 4 \<le> unat w) \<and> (\<forall>x \<in> extent sp p. used sp x)"

definition store_ok :: "SegmentPool \<Rightarrow> u64 set \<Rightarrow> bool" where
  "store_ok sp L \<longleftrightarrow> pool_ok sp \<and> (\<forall>p \<in> L. valid sp p) \<and>
     pairwise (\<lambda>p q. disjnt (extent sp p) (extent sp q)) L"

lemma store_ok_new: "0 < n \<Longrightarrow> store_ok (SegmentPool_new m n) {}"
  by (simp add: store_ok_def pool_ok_new)

lemma valid_extent: "valid sp p \<Longrightarrow> k < 4 \<Longrightarrow> (seg_of p, off_of p + k) \<in> extent sp p"
  by (auto simp: valid_def extent_def)

lemma valid_off_bound:
  assumes "pool_ok sp" and "valid sp p"
  shows "off_of p + 3 < 4294967296"
proof -
  have "used sp (seg_of p, off_of p + 3)"
    using assms(2) valid_extent [OF assms(2), of 3] by (simp add: valid_def)
  then show ?thesis
    using assms(1) u32_less [of "maxPoolSize sp"] u32_less [of "offset sp"] by (auto simp: used_def)
qed

lemma valid_cell:
  assumes "pool_ok sp" and "valid sp p" and "k < 4"
  shows "cell sp (seg_of p, off_of p + k) \<noteq> None"
  using assms valid_extent [OF assms(2,3)] by (intro pool_ok_used) (auto simp: valid_def)

text \<open>A block is untouched by changes outside it and by changes to its link alone.\<close>

lemma block_frame:
  assumes "valid sp p"
    and same: "\<And>x. x \<in> extent sp p \<Longrightarrow> x \<noteq> (seg_of p, off_of p + 1) \<Longrightarrow> x \<noteq> (seg_of p, off_of p + 2) \<Longrightarrow>
      cell sp' x = cell sp x"
    and grow: "\<And>x. used sp x \<Longrightarrow> used sp' x"
  shows "valid sp' p" and "extent sp' p = extent sp p" and "block_at sp' p = block_at sp p"
proof -
  from \<open>valid sp p\<close> obtain w where w: "cell sp (seg_of p, off_of p) = Some w" "4 \<le> unat w"
    by (auto simp: valid_def)
  have head: "cell sp' (seg_of p, off_of p) = Some w"
    using same [of "(seg_of p, off_of p)"] w by (auto simp: extent_def)
  have mx: "cell sp' (seg_of p, off_of p + 3) = cell sp (seg_of p, off_of p + 3)"
    using w by (intro same) (auto simp: extent_def)
  have dat: "cell sp' (seg_of p, off_of p + 4 + k) = cell sp (seg_of p, off_of p + 4 + k)"
    if "k < unat w - 4" for k
    using w that by (intro same) (auto simp: extent_def)
  show "extent sp' p = extent sp p" using w head by (simp add: extent_def)
  then show "valid sp' p" using assms(1) head w grow by (auto simp: valid_def)
  have dats: "map (\<lambda>k. cell sp' (seg_of p, off_of p + 4 + k)) [0..<unat w - 4] =
      map (\<lambda>k. cell sp (seg_of p, off_of p + 4 + k)) [0..<unat w - 4]"
    using dat by (intro map_cong) auto
  show "block_at sp' p = block_at sp p"
    by (simp add: block_at_def w head mx dats)
qed

text \<open>\<open>nextPointer\<close> reads the two link cells.\<close>

lemma nextPointer_valid:
  assumes "pool_ok sp" and "valid sp p"
    and "cell sp (seg_of p, off_of p + 1) = Some (DECODE_SEGMENT q)"
    and "cell sp (seg_of p, off_of p + 2) = Some (DECODE_OFFSET q)"
    and "DECODE_SEGMENT q = UNDEFINED_SEGMENT \<longrightarrow> q = UNDEFINED_POINTER"
  shows "nextPointer sp p = Some q"
proof -
  have o: "unat (DECODE_OFFSET p + 1) = off_of p + 1" "unat (DECODE_OFFSET p + 2) = off_of p + 2"
    using valid_off_bound [OF assms(1,2)] by (simp_all add: unat_add32)
  have "p \<noteq> UNDEFINED_POINTER" using assms(2) by (auto simp: valid_def)
  with assms show ?thesis by (auto simp: nextPointer_def o Let_def)
qed

lemma nextPointer_frame:
  assumes "pool_ok sp" and "valid sp p"
    and "\<And>x. x \<in> extent sp p \<Longrightarrow> cell sp' x = cell sp x"
  shows "nextPointer sp' p = nextPointer sp p"
proof -
  have o: "unat (DECODE_OFFSET p + 1) = off_of p + 1" "unat (DECODE_OFFSET p + 2) = off_of p + 2"
    using valid_off_bound [OF assms(1,2)] by (simp_all add: unat_add32)
  have "cell sp' (seg_of p, off_of p + 1) = cell sp (seg_of p, off_of p + 1)"
    "cell sp' (seg_of p, off_of p + 2) = cell sp (seg_of p, off_of p + 2)"
    using valid_extent [OF assms(2)] by (auto intro!: assms(3) simp del: add_Suc_right add_2_eq_Suc')
  then show ?thesis by (simp only: nextPointer_def Let_def o)
qed

text \<open>What \<open>appendSegment\<close> leaves in each cell: \<open>N\<close> is the space of the new block, which was free.\<close>

lemma appendSegment_cells:
  fixes sp :: SegmentPool and len :: u32
  assumes st: "store_ok sp L" and rm: "room sp (unat len)" and dat: "unat len \<le> length dataSegment"
    and lst: "lastPointer = UNDEFINED_POINTER \<or> lastPointer \<in> L"
  obtains p sp' where
    "appendSegment junk sp dataSegment maxDocId len lastPointer nextPtr = Some (p, sp')"
    "DECODE_SEGMENT p \<noteq> UNDEFINED_SEGMENT" "pool_ok sp'"
    "maxPoolSize sp' = maxPoolSize sp" "length (pool sp') = length (pool sp)"
    "\<And>j. off_of p \<le> j \<Longrightarrow> j < off_of p + 4 + unat len \<Longrightarrow> \<not> used sp (seg_of p, j) \<and> used sp' (seg_of p, j) \<and>
       cell sp' (seg_of p, j) = Some ((header (len + 4) nextPtr maxDocId @ take (unat len) dataSegment) ! (j - off_of p))"
    "\<And>x. used sp x \<Longrightarrow> used sp' x"
    "\<And>x. used sp x \<Longrightarrow> cell sp' x = relinked lastPointer (DECODE_SEGMENT p) (DECODE_OFFSET p) (cell sp) x"
proof -
  have ok: "pool_ok sp" and val: "\<And>q. q \<in> L \<Longrightarrow> valid sp q" using st by (auto simp: store_ok_def)
  have req: "unat (len + 4) = unat len + 4"
    using rm u32_less [of "maxPoolSize sp"] by (subst unat_add32) (auto simp: room_def)
  from roll_pool_ok [OF ok rm] obtain sp1 where
    1: "roll_pool sp (len + 4) = Some sp1" "pool_ok sp1" "maxPoolSize sp1 = maxPoolSize sp"
      "length (pool sp1) = length (pool sp)" "unat (offset sp1) + unat len + 4 \<le> unat (maxPoolSize sp1)"
    and u1: "\<And>x. used sp x \<Longrightarrow> used sp1 x \<and> cell sp1 x = cell sp x" by blast
  from alloc_pool_ok [OF 1(2), of junk] obtain sp2 arr where
    2: "alloc_pool junk sp1 (unat (segment sp1)) = Some sp2" "pool_ok sp2" "maxPoolSize sp2 = maxPoolSize sp1"
      "segment sp2 = segment sp1" "offset sp2 = offset sp1" "length (pool sp2) = length (pool sp1)"
      "pool sp2 ! unat (segment sp2) = Some arr" "length arr = unat (maxPoolSize sp2)"
    and u2: "\<And>x. used sp1 x \<Longrightarrow> cell sp2 x = cell sp1 x" by metis
  have seg: "unat (segment sp2) < length (pool sp2)" using 2(2) by (simp add: pool_ok_def)
  have fit: "unat (offset sp2) + unat len + 4 \<le> unat (maxPoolSize sp2)" using 1(5) 2 by simp
  let ?s = "unat (segment sp2)" and ?o = "unat (offset sp2)"
  let ?blk = "header (len + 4) nextPtr maxDocId @ take (unat len) dataSegment"
  from write_block_ok [OF seg 2(7,8) fit dat, of "len + 4" maxDocId nextPtr] obtain sp3 where
    3: "write_block sp2 (len + 4) dataSegment maxDocId len nextPtr = Some sp3" "shape sp3 = shape sp2"
      "cell sp3 = (\<lambda>(t, j). if t = ?s \<and> ?o \<le> j \<and> j < ?o + 4 + unat len
         then Some (?blk ! (j - ?o)) else cell sp2 (t, j))" by blast
  have same2: "used sp2 x = used sp1 x" for x using 2 by (cases x) (auto simp: used_def)
  have old3: "cell sp3 x = cell sp x" if "used sp x" for x
    using u1 [OF that] u2 [of x] same2 [of x] 3(3) by (cases x) (auto simp: used_def)
  have lastp: "off_of lastPointer + 2 < 4294967296 \<and> used sp (seg_of lastPointer, off_of lastPointer + 1) \<and>
      used sp (seg_of lastPointer, off_of lastPointer + 2)"
    if "lastPointer \<noteq> UNDEFINED_POINTER"
  proof -
    have v: "valid sp lastPointer" using lst val that by blast
    with valid_extent [OF v, of 1] valid_extent [OF v, of 2] valid_off_bound [OF ok v] show ?thesis
      by (auto simp: valid_def)
  qed
  have "\<exists>sp4. link_last sp3 lastPointer = Some sp4 \<and> shape sp4 = shape sp3 \<and>
      cell sp4 = relinked lastPointer (segment sp3) (offset sp3) (cell sp3)"
  proof (rule link_last_ok)
    assume "lastPointer \<noteq> UNDEFINED_POINTER"
    from lastp [OF this] show "off_of lastPointer + 2 < 4294967296 \<and>
        cell sp3 (seg_of lastPointer, off_of lastPointer + 1) \<noteq> None \<and>
        cell sp3 (seg_of lastPointer, off_of lastPointer + 2) \<noteq> None"
      by (metis old3 pool_ok_used [OF ok])
  qed
  then obtain sp4 where 4: "link_last sp3 lastPointer = Some sp4" "shape sp4 = shape sp3"
    "cell sp4 = relinked lastPointer (segment sp3) (offset sp3) (cell sp3)" by blast
  have sh: "segment sp4 = segment sp2" "offset sp4 = offset sp2" "maxPoolSize sp4 = maxPoolSize sp2"
    "length (pool sp4) = length (pool sp2)" "segment sp3 = segment sp2" "offset sp3 = offset sp2"
    using 3(2) 4(2) by (auto simp: shape_def dest: map_eq_imp_length_eq)
  have end_off: "unat (offset sp2 + (len + 4)) = ?o + unat len + 4"
    using fit req u32_less [of "maxPoolSize sp2"] by (subst unat_add32) auto
  have new_seg: "segment sp2 \<noteq> UNDEFINED_SEGMENT"
    using seg 2(2) by (auto simp: pool_ok_def UNDEFINED_SEGMENT_def)
  let ?sp = "sp4 \<lparr> offset := offset sp4 + (len + 4) \<rparr>"
  define p where "p = ENCODE_POINTER (segment sp2) (offset sp2)"
  have p: "DECODE_SEGMENT p = segment sp2" "DECODE_OFFSET p = offset sp2" by (simp_all add: p_def)
  have new: "\<not> used sp (?s, j)" if "?o \<le> j" for j
    using u1 [of "(?s, j)"] same2 [of "(?s, j)"] that by (auto simp: used_def)
  show thesis
  proof (rule that [of p ?sp])
    show "appendSegment junk sp dataSegment maxDocId len lastPointer nextPtr = Some (p, ?sp)"
      using 1 2 3 4 sh by (simp add: appendSegment_def Let_def p_def)
    show "pool_ok ?sp"
      using 2(2) 3(2) 4(2) 2(7,8) fit end_off seg
      by (auto simp: pool_ok_alt shape_def word_le_nat_alt)
    show "used ?sp x" if "used sp x" for x
      using u1 [OF that] same2 [of x] end_off sh by (cases x) (auto simp: used_def)
    show "cell ?sp x = relinked lastPointer (DECODE_SEGMENT p) (DECODE_OFFSET p) (cell sp) x"
      if "used sp x" for x
      using old3 [OF that] sh by (simp add: 4(3) p relinked_cong [of "cell sp3" x "cell sp"])
    fix j assume j: "off_of p \<le> j" "j < off_of p + 4 + unat len"
    then have "cell sp3 (?s, j) = Some (?blk ! (j - ?o))" by (simp add: 3(3) p)
    moreover have "cell sp4 (?s, j) = cell sp3 (?s, j)"
      using j new [of j] lastp by (cases "lastPointer = UNDEFINED_POINTER")
        (auto simp: 4(3) p relinked_def)
    ultimately show "\<not> used sp (seg_of p, j) \<and> used ?sp (seg_of p, j) \<and>
       cell ?sp (seg_of p, j) = Some (?blk ! (j - off_of p))"
      using j new [of j] end_off sh by (simp add: p used_def)
  qed (use new_seg sh 1 2 p in simp_all)
qed

text \<open>The one-step specification of \<open>appendSegment\<close>.\<close>

lemma appendSegment_ok:
  assumes st: "store_ok sp L" and rm: "room sp (unat len)" and dat: "unat len \<le> length dataSegment"
    and lst: "lastPointer = UNDEFINED_POINTER \<or> lastPointer \<in> L"
    and nxt: "nextPtr = UNDEFINED_POINTER \<or> nextPtr \<in> L"
  shows "\<exists>p sp'. appendSegment junk sp dataSegment maxDocId len lastPointer nextPtr = Some (p, sp') \<and>
    p \<notin> L \<and> store_ok sp' (insert p L) \<and> nextPointer sp' p = Some nextPtr \<and>
    block_at sp' p = Some (maxDocId, take (unat len) dataSegment) \<and>
    (\<forall>q \<in> L. block_at sp' q = block_at sp q \<and>
       nextPointer sp' q = (if q = lastPointer then Some p else nextPointer sp q)) \<and>
    maxPoolSize sp' = maxPoolSize sp \<and> length (pool sp') = length (pool sp)"
proof -
  have ok: "pool_ok sp" and val: "\<And>q. q \<in> L \<Longrightarrow> valid sp q"
    and dis: "\<And>q q'. q \<in> L \<Longrightarrow> q' \<in> L \<Longrightarrow> q \<noteq> q' \<Longrightarrow> disjnt (extent sp q) (extent sp q')"
    using st by (auto simp: store_ok_def pairwise_def)
  have req: "unat (len + 4) = unat len + 4"
    using rm u32_less [of "maxPoolSize sp"] by (subst unat_add32) (auto simp: room_def)
  from appendSegment_cells [OF st rm dat lst, of junk maxDocId nextPtr] obtain p sp' where
    app: "appendSegment junk sp dataSegment maxDocId len lastPointer nextPtr = Some (p, sp')"
      "DECODE_SEGMENT p \<noteq> UNDEFINED_SEGMENT" "pool_ok sp'"
      "maxPoolSize sp' = maxPoolSize sp" "length (pool sp') = length (pool sp)"
    and new: "\<And>j. off_of p \<le> j \<Longrightarrow> j < off_of p + 4 + unat len \<Longrightarrow> \<not> used sp (seg_of p, j) \<and> used sp' (seg_of p, j) \<and>
       cell sp' (seg_of p, j) = Some ((header (len + 4) nextPtr maxDocId @ take (unat len) dataSegment) ! (j - off_of p))"
    and grow: "\<And>x. used sp x \<Longrightarrow> used sp' x"
    and old: "\<And>x. used sp x \<Longrightarrow> cell sp' x = relinked lastPointer (DECODE_SEGMENT p) (DECODE_OFFSET p) (cell sp) x"
    by blast
  have hd: "cell sp' (seg_of p, off_of p) = Some (len + 4)"
    "cell sp' (seg_of p, off_of p + 1) = Some (DECODE_SEGMENT nextPtr)"
    "cell sp' (seg_of p, off_of p + 2) = Some (DECODE_OFFSET nextPtr)"
    "cell sp' (seg_of p, off_of p + 3) = Some maxDocId"
    using new [of "off_of p"] new [of "off_of p + 1"] new [of "off_of p + 2"] new [of "off_of p + 3"]
    by (simp_all add: header_def)
  have ext: "extent sp' p = {seg_of p} \<times> {off_of p..<off_of p + (unat len + 4)}"
    by (simp only: extent_def hd option.case req)
  have vp: "valid sp' p" using app(2) hd(1) new by (auto simp: valid_def ext req)
  have link_in: "(seg_of q, off_of q + 1) \<in> extent sp q" "(seg_of q, off_of q + 2) \<in> extent sp q"
    if "q \<in> L" for q using valid_extent [OF val [OF that]] by (auto simp del: add_Suc_right add_2_eq_Suc')
  have usedq: "used sp x" if "q \<in> L" "x \<in> extent sp q" for q x
    using val [OF that(1)] that(2) by (auto simp: valid_def)
  have keep: "cell sp' x = cell sp x" if "q \<in> L" "x \<in> extent sp q"
    "x \<noteq> (seg_of lastPointer, off_of lastPointer + 1)" "x \<noteq> (seg_of lastPointer, off_of lastPointer + 2)" for q x
    using old [OF usedq [OF that(1,2)]] that(3,4) by (simp add: relinked_def)
  have away: "x \<noteq> (seg_of lastPointer, off_of lastPointer + 1) \<and> x \<noteq> (seg_of lastPointer, off_of lastPointer + 2)"
    if "q \<in> L" "x \<in> extent sp q" "q \<noteq> lastPointer" "lastPointer \<in> L" for q x
    using dis [OF that(1,4,3)] link_in [OF that(4)] that(2) by (auto simp: disjnt_iff)
  have frame: "cell sp' x = cell sp x" if "q \<in> L" "x \<in> extent sp q" "q \<noteq> lastPointer" for q x
    using lst old [OF usedq [OF that(1,2)]] keep [OF that(1,2)] away [OF that] by (auto simp: relinked_def)
  have keepq: "valid sp' q \<and> extent sp' q = extent sp q \<and> block_at sp' q = block_at sp q" if "q \<in> L" for q
    using block_frame [OF val [OF that], of sp'] grow keep [OF that] frame [OF that] by metis
  have nq: "nextPointer sp' q = (if q = lastPointer then Some p else nextPointer sp q)" if "q \<in> L" for q
  proof (cases "q = lastPointer")
    case True
    have "q \<noteq> UNDEFINED_POINTER" using val [OF that] by (auto simp: valid_def)
    with True have c: "cell sp' (seg_of q, off_of q + 1) = Some (DECODE_SEGMENT p)"
      "cell sp' (seg_of q, off_of q + 2) = Some (DECODE_OFFSET p)"
      using old [OF usedq [OF that link_in(1) [OF that]]] old [OF usedq [OF that link_in(2) [OF that]]]
      by (simp_all add: relinked_def)
    from nextPointer_valid [OF app(3) _ c] keepq [OF that] app(2) True show ?thesis by simp
  next
    case False
    have "nextPointer sp' q = nextPointer sp q"
      by (rule nextPointer_frame [OF ok val [OF that]]) (rule frame [OF that _ False])
    with False show ?thesis by simp
  qed
  have np: "nextPointer sp' p = Some nextPtr"
    using nextPointer_valid [OF app(3) vp hd(2,3)] nxt val by (auto simp: valid_def)
  have fresh: "p \<notin> L"
    using new [of "off_of p"] usedq [of p] valid_extent [OF val, of p 0] by auto
  have "x \<notin> extent sp' q" if "x \<in> extent sp' p" "q \<in> L" for x q
    using that new [of "snd x"] usedq [OF that(2), of x] keepq [OF that(2)] by (auto simp: ext)
  then have "disjnt (extent sp' p) (extent sp' q)" if "q \<in> L" for q
    using that by (auto simp: disjnt_iff)
  with app(3) vp keepq dis have ok': "store_ok sp' (insert p L)"
    by (auto simp: store_ok_def pairwise_insert pairwise_def disjnt_sym)
  have "map (\<lambda>k. cell sp' (seg_of p, off_of p + 4 + k)) [0..<unat len] = map Some (take (unat len) dataSegment)"
    using new dat by (intro nth_equalityI) (auto simp: nth_append)
  then have "block_at sp' p = Some (maxDocId, take (unat len) dataSegment)"
    by (simp add: block_at_def hd req those_map_Some)
  with app fresh ok' np keepq nq show ?thesis by auto
qed

section \<open>Chains of blocks\<close>

text \<open>\<open>chain nx ps p\<close>: following \<open>nx\<close> from \<open>p\<close> visits the blocks \<open>ps\<close> and then ends.\<close>

primrec chain :: "(u64 \<Rightarrow> u64 option) \<Rightarrow> u64 list \<Rightarrow> u64 \<Rightarrow> bool" where
  "chain nx [] p \<longleftrightarrow> p = UNDEFINED_POINTER"
| "chain nx (q # qs) p \<longleftrightarrow> p = q \<and> p \<noteq> UNDEFINED_POINTER \<and>
     (case nx p of None \<Rightarrow> False | Some n \<Rightarrow> chain nx qs n)"

lemma chain_unique: "chain nx ps p \<Longrightarrow> chain nx qs p \<Longrightarrow> ps = qs"
proof (induction ps arbitrary: p qs)
  case Nil
  then show ?case by (cases qs) auto
next
  case (Cons a ps)
  then show ?case by (cases qs) (auto split: option.splits)
qed

lemma chain_suffix: "chain nx (ps @ q # qs) p \<Longrightarrow> chain nx (q # qs) q"
proof (induction ps arbitrary: p)
  case (Cons a ps)
  then obtain n where "chain nx (ps @ q # qs) n" by (auto split: option.splits)
  then show ?case by (rule Cons.IH)
qed simp

lemma chain_distinct: "chain nx ps p \<Longrightarrow> distinct ps"
proof (induction ps arbitrary: p)
  case (Cons a ps)
  have "a \<notin> set ps"
  proof
    assume "a \<in> set ps"
    then obtain us vs where "ps = us @ a # vs" by (auto dest: split_list)
    with Cons.prems chain_suffix [of nx "a # us" a vs p] have "chain nx (a # vs) a" "chain nx (a # ps) a" by auto
    from chain_unique [OF this] \<open>ps = us @ a # vs\<close> show False by simp
  qed
  with Cons show ?case by (auto split: option.splits)
qed simp

lemma chain_cong: "chain nx ps p \<Longrightarrow> (\<And>q. q \<in> set ps \<Longrightarrow> nx' q = nx q) \<Longrightarrow> chain nx' ps p"
  by (induction ps arbitrary: p) (auto split: option.splits)

lemma chain_replace:
  assumes "chain nx (as @ t # ps) h" "\<And>q. q \<in> set as \<Longrightarrow> nx' q = nx q" "nx' t = Some p" "chain nx' qs p"
  shows "chain nx' (as @ t # qs) h"
  using assms(1,2)
proof (induction as arbitrary: h)
  case Nil
  then show ?case using assms(3,4) by auto
next
  case (Cons a as)
  then obtain n where n: "nx a = Some n" "chain nx (as @ t # ps) n" "h = a" "a \<noteq> UNDEFINED_POINTER" by (auto split: option.splits)
  from Cons.IH [OF n(2)] Cons.prems(2) have "chain nx' (as @ t # qs) n" by simp
  with n Cons.prems(2) [of a] show ?case by simp
qed

lemma chain_snoc:
  assumes "chain nx (ps @ [t]) p" and "\<And>q. q \<in> set ps \<Longrightarrow> nx' q = nx q"
    and "nx' t = Some q" "nx' q = Some UNDEFINED_POINTER" "q \<noteq> UNDEFINED_POINTER"
  shows "chain nx' (ps @ [t, q]) p"
  using assms by (induction ps arbitrary: p) (auto split: option.splits)

text \<open>The interface of the segment pool, and what its clients get from it: appending behind the tail
  of a chain makes the chain one block longer, appending in front of its head puts the new block first,
  and chains that do not contain the linked block stay as they are.\<close>

locale segment_store =
  fixes append :: "'s \<Rightarrow> u32 list \<Rightarrow> u32 \<Rightarrow> u64 \<Rightarrow> u64 \<Rightarrow> (u64 \<times> 's) option"
    and "next" :: "'s \<Rightarrow> u64 \<Rightarrow> u64 option"
    and block :: "'s \<Rightarrow> u64 \<Rightarrow> (u32 \<times> u32 list) option"
    and inv :: "'s \<Rightarrow> u64 set \<Rightarrow> bool"
    and fits :: "'s \<Rightarrow> nat \<Rightarrow> bool"
  assumes live: "inv st L \<Longrightarrow> UNDEFINED_POINTER \<notin> L"
    and append_ok: "inv st L \<Longrightarrow> fits st (length dat) \<Longrightarrow> lst = UNDEFINED_POINTER \<or> lst \<in> L \<Longrightarrow>
      nxt = UNDEFINED_POINTER \<or> nxt \<in> L \<Longrightarrow>
      \<exists>p st'. append st dat m lst nxt = Some (p, st') \<and> p \<notin> L \<and> inv st' (insert p L) \<and>
        next st' p = Some nxt \<and> block st' p = Some (m, dat) \<and>
        (\<forall>q \<in> L. block st' q = block st q \<and> next st' q = (if q = lst then Some p else next st q))"
begin

definition holds :: "'s \<Rightarrow> u64 set \<Rightarrow> u64 list \<Rightarrow> (u32 \<times> u32 list) list \<Rightarrow> u64 \<Rightarrow> bool" where
  "holds st L ps bs h \<longleftrightarrow> inv st L \<and> set ps \<subseteq> L \<and> chain (next st) ps h \<and> map (block st) ps = map Some bs"

lemma append_tail:
  assumes h: "holds st L (ps @ [t]) bs head" and f: "fits st (length dat)"
  shows "\<exists>p st'. append st dat m t UNDEFINED_POINTER = Some (p, st') \<and> p \<notin> L \<and>
    holds st' (insert p L) (ps @ [t, p]) (bs @ [(m, dat)]) head"
proof -
  from h have i: "inv st L" "t \<in> L" "set ps \<subseteq> L" "chain (next st) (ps @ [t]) head"
    "map (block st) (ps @ [t]) = map Some bs"
    by (auto simp: holds_def)
  from append_ok [OF i(1) f, of t UNDEFINED_POINTER m] i(2) obtain p st' where
    p: "append st dat m t UNDEFINED_POINTER = Some (p, st')" "p \<notin> L" "inv st' (insert p L)"
      "next st' p = Some UNDEFINED_POINTER" "block st' p = Some (m, dat)"
    and old: "\<And>q. q \<in> L \<Longrightarrow> block st' q = block st q"
      "\<And>q. q \<in> L \<Longrightarrow> next st' q = (if q = t then Some p else next st q)" by auto
  have "t \<notin> set ps" using chain_distinct [OF i(4)] by simp
  then have "next st' q = next st q" if "q \<in> set ps" for q using old(2) [of q] that i(3) by auto
  moreover have "p \<noteq> UNDEFINED_POINTER" using live [OF p(3)] by blast
  ultimately have "chain (next st') (ps @ [t, p]) head"
    using chain_snoc [OF i(4), of "next st'" p] p(4) old(2) [OF i(2)] by simp
  moreover have e: "map (block st') ps = map (block st) ps" "block st' t = block st t"
    using old(1) i(2,3) by (auto intro!: map_cong)
  have "map (block st') (ps @ [t, p]) = map Some (bs @ [(m, dat)])" using i(5) by (simp add: e p(5))
  ultimately have "holds st' (insert p L) (ps @ [t, p]) (bs @ [(m, dat)]) head"
    using p i by (auto simp: holds_def)
  with p show ?thesis by blast
qed

lemma append_head:
  assumes h: "holds st L ps bs head" and f: "fits st (length dat)"
  shows "\<exists>p st'. append st dat m UNDEFINED_POINTER head = Some (p, st') \<and> p \<notin> L \<and>
    holds st' (insert p L) (p # ps) ((m, dat) # bs) p"
proof -
  from h have i: "inv st L" "set ps \<subseteq> L" "chain (next st) ps head" "map (block st) ps = map Some bs"
    by (auto simp: holds_def)
  have "head = UNDEFINED_POINTER \<or> head \<in> L" using i(2,3) by (cases ps) auto
  with append_ok [OF i(1) f, of UNDEFINED_POINTER head m] obtain p st' where
    p: "append st dat m UNDEFINED_POINTER head = Some (p, st')" "p \<notin> L" "inv st' (insert p L)"
      "next st' p = Some head" "block st' p = Some (m, dat)"
    and old': "\<forall>q \<in> L. block st' q = block st q \<and>
        next st' q = (if q = UNDEFINED_POINTER then Some p else next st q)" by blast
  have old: "block st' q = block st q" "next st' q = next st q" if "q \<in> L" for q
    using old' that live [OF i(1)] by metis+
  have "chain (next st') ps head" using i(2) old(2) by (intro chain_cong [OF i(3)]) auto
  moreover have "p \<noteq> UNDEFINED_POINTER" using live [OF p(3)] by blast
  moreover have "map (block st') ps = map (block st) ps" using i(2) old(1) by (intro map_cong) auto
  ultimately show ?thesis using p i by (auto simp: holds_def)
qed

text \<open>A block can be put between any block of a chain and its successor.\<close>

lemma append_between:
  assumes h: "holds st L (as @ t # ps) (bs1 @ bs2) head" and l: "length bs1 = Suc (length as)"
    and n: "next st t = Some nxt" and f: "fits st (length dat)"
  shows "\<exists>p st'. append st dat m t nxt = Some (p, st') \<and> p \<notin> L \<and> next st' p = Some nxt \<and>
    holds st' (insert p L) (as @ t # p # ps) (bs1 @ (m, dat) # bs2) head"
proof -
  from h have i: "inv st L" "t \<in> L" "set as \<subseteq> L" "set ps \<subseteq> L" "chain (next st) (as @ t # ps) head"
    "map (block st) (as @ [t]) @ map (block st) ps = map Some bs1 @ map Some bs2"
    by (auto simp: holds_def)
  have eq: "map (block st) (as @ [t]) = map Some bs1" "map (block st) ps = map Some bs2"
    using i(6) l append_eq_append_conv [of "map (block st) (as @ [t])" "map Some bs1"] by auto
  have c: "chain (next st) ps nxt" using chain_suffix [OF i(5)] n by simp
  have "nxt = UNDEFINED_POINTER \<or> nxt \<in> L" using i(4) c by (cases ps) auto
  with append_ok [OF i(1) f, of t nxt m] i(2) obtain p st' where
    p: "append st dat m t nxt = Some (p, st')" "p \<notin> L" "inv st' (insert p L)"
      "next st' p = Some nxt" "block st' p = Some (m, dat)"
    and old: "\<And>q. q \<in> L \<Longrightarrow> block st' q = block st q"
      "\<And>q. q \<in> L \<Longrightarrow> next st' q = (if q = t then Some p else next st q)" by auto
  have t: "t \<notin> set as" "t \<notin> set ps" using chain_distinct [OF i(5)] by auto
  have "chain (next st') ps nxt" using i(4) old(2) t(2) by (intro chain_cong [OF c]) auto
  moreover have "p \<noteq> UNDEFINED_POINTER" using live [OF p(3)] by blast
  ultimately have "chain (next st') (p # ps) p" using p(4) by simp
  moreover have "next st' q = next st q" if "q \<in> set as" for q using old(2) [of q] that i(3) t(1) by auto
  ultimately have "chain (next st') (as @ t # p # ps) head" using chain_replace [OF i(5)] old(2) [OF i(2)] by auto
  moreover have "map (block st') (as @ t # p # ps) = map Some (bs1 @ (m, dat) # bs2)"
  proof -
    have "map (block st') (as @ [t]) = map (block st) (as @ [t])" "map (block st') ps = map (block st) ps"
      using i(2,3,4) old(1) by (auto intro!: map_cong)
    then have "map (block st') ((as @ [t]) @ p # ps) = map Some (bs1 @ (m, dat) # bs2)"
      unfolding map_append [of _ "as @ [t]"] using eq p(5) by (simp only: map_append list.map)
    then show ?thesis by simp
  qed
  ultimately show ?thesis using p i by (auto simp: holds_def)
qed

lemma append_second:
  assumes h: "holds st L (t # ps) (b # bs) t" and n: "next st t = Some nxt" and f: "fits st (length dat)"
  shows "\<exists>p st'. append st dat m t nxt = Some (p, st') \<and> p \<notin> L \<and>
    holds st' (insert p L) (t # p # ps) (b # (m, dat) # bs) t"
  using append_between [of st L "[]" t ps "[b]" bs t nxt dat m] assms by auto

lemma append_frame:
  assumes h: "holds st L ps bs head" and f: "fits st (length dat)"
    and l: "lst = UNDEFINED_POINTER \<or> lst \<in> L" "lst \<notin> set ps" and n: "nxt = UNDEFINED_POINTER \<or> nxt \<in> L"
    and a: "append st dat m lst nxt = Some (p, st')"
  shows "holds st' (insert p L) ps bs head"
proof -
  from h have i: "inv st L" "set ps \<subseteq> L" "chain (next st) ps head" "map (block st) ps = map Some bs"
    by (auto simp: holds_def)
  from append_ok [OF i(1) f l(1) n, of m] a have
    p: "inv st' (insert p L)" and old: "\<And>q. q \<in> L \<Longrightarrow> block st' q = block st q"
      "\<And>q. q \<in> L \<Longrightarrow> next st' q = (if q = lst then Some p else next st q)" by auto
  have "chain (next st') ps head" using i(2) old(2) l(2) by (intro chain_cong [OF i(3)]) auto
  moreover have "map (block st') ps = map (block st) ps" using i(2) old(1) by (intro map_cong) auto
  ultimately show ?thesis using p i by (auto simp: holds_def)
qed

end

definition pool_append ::
  "(nat \<Rightarrow> u32) \<Rightarrow> SegmentPool \<Rightarrow> u32 list \<Rightarrow> u32 \<Rightarrow> u64 \<Rightarrow> u64 \<Rightarrow> (u64 \<times> SegmentPool) option" where
  "pool_append junk sp dat maxDocId lastPointer nextPtr =
     appendSegment junk sp dat maxDocId (of_nat (length dat)) lastPointer nextPtr"

lemma room_len:
  assumes "room sp (length dat)"
  shows "unat (of_nat (length dat) :: u32) = length dat"
  using assms u32_less [of "maxPoolSize sp"] by (simp add: room_def unat_of_nat)

interpretation pool: segment_store "pool_append junk" nextPointer block_at store_ok room for junk
proof unfold_locales
  fix st L
  assume "store_ok st L"
  then show "UNDEFINED_POINTER \<notin> L" by (auto simp: store_ok_def valid_def)
next
  fix st :: SegmentPool and L and dat :: "u32 list" and lst nxt m
  assume a: "store_ok st L" "room st (length dat)" "lst = UNDEFINED_POINTER \<or> lst \<in> L"
    "nxt = UNDEFINED_POINTER \<or> nxt \<in> L"
  from appendSegment_ok [OF a(1) _ _ a(3,4), of "of_nat (length dat)" dat junk m] a(2)
  show "\<exists>p st'. pool_append junk st dat m lst nxt = Some (p, st') \<and> p \<notin> L \<and> store_ok st' (insert p L) \<and>
        nextPointer st' p = Some nxt \<and> block_at st' p = Some (m, dat) \<and>
        (\<forall>q \<in> L. block_at st' q = block_at st q \<and> nextPointer st' q = (if q = lst then Some p else nextPointer st q))"
    by (auto simp: pool_append_def room_len)
qed

text \<open>\<open>posting_chain sp L ps bs h\<close>: from head \<open>h\<close> the chain \<open>ps\<close> of blocks of \<open>L\<close> stores \<open>bs\<close>.\<close>

definition posting_chain ::
  "SegmentPool \<Rightarrow> u64 set \<Rightarrow> u64 list \<Rightarrow> (u32 \<times> u32 list) list \<Rightarrow> u64 \<Rightarrow> bool" where
  "posting_chain sp L ps bs h \<longleftrightarrow> store_ok sp L \<and> set ps \<subseteq> L \<and> chain (nextPointer sp) ps h \<and>
     map (block_at sp) ps = map Some bs"

lemma posting_chain_holds: "posting_chain = pool.holds"
  by (simp add: fun_eq_iff posting_chain_def pool.holds_def)

section \<open>Skipping along a chain\<close>

text \<open>\<open>nextPointer(pointer, pivot)\<close> walks to the first block whose largest docid does not precede the
  pivot.\<close>

lemma block_at_max:
  assumes "pool_ok sp" "valid sp p" "block_at sp p = Some (m, dat)"
  shows "cell sp (seg_of p, unat (DECODE_OFFSET p + 3)) = Some m"
proof -
  have "unat (DECODE_OFFSET p + 3) = off_of p + 3"
    using valid_off_bound [OF assms(1,2)] by (simp add: unat_add32)
  with assms(3) show ?thesis by (auto simp: block_at_def split: bind_splits)
qed

lemma nextPointer_loop_ok:
  assumes "store_ok sp L" "set ps \<subseteq> L" "chain (nextPointer sp) ps p" "map (block_at sp) ps = map Some bs" "ps \<noteq> []"
  shows "nextPointer_loop sp pivot r (DECODE_SEGMENT p) (DECODE_OFFSET p) =
    Some (case find (\<lambda>(q, m, dat). \<not> LESS_THAN m pivot r) (zip ps bs) of
        None \<Rightarrow> UNDEFINED_POINTER | Some (q, _) \<Rightarrow> q)"
  using assms(2-)
proof (induction ps arbitrary: p bs)
  case (Cons q ps)
  then obtain m dat bs' where bs: "bs = (m, dat) # bs'" "block_at sp p = Some (m, dat)"
    "map (block_at sp) ps = map Some bs'" "p = q"
    by (cases bs) auto
  have v: "pool_ok sp" "valid sp p" "p \<noteq> UNDEFINED_POINTER"
    using assms(1) Cons.prems by (auto simp: store_ok_def)
  obtain n where n: "nextPointer sp p = Some n" "chain (nextPointer sp) ps n"
    using Cons.prems by (auto split: option.splits)
  note mx = block_at_max [OF v(1,2) bs(2)]
  show ?case
  proof (cases "LESS_THAN m pivot r")
    case False
    then show ?thesis using mx bs by (subst nextPointer_loop.simps) simp
  next
    case True
    show ?thesis
    proof (cases ps)
      case Nil
      then have u: "n = UNDEFINED_POINTER" using n(2) by simp
      from n(1) v(3) have "cell sp (seg_of p, unat (DECODE_OFFSET p + 1)) = Some UNDEFINED_SEGMENT"
        unfolding u by (auto simp: nextPointer_def Let_def ENCODE_POINTER_defined split: bind_splits if_splits)
      then show ?thesis using True Nil mx bs by (subst nextPointer_loop.simps) simp
    next
      case (Cons q' ps')
      then have nq: "n = q'" "n \<noteq> UNDEFINED_POINTER" using n(2) by auto
      from n(1) v(3) nq(2) have
        "cell sp (seg_of p, unat (DECODE_OFFSET p + 1)) = Some (DECODE_SEGMENT n)"
        "cell sp (seg_of p, unat (DECODE_OFFSET p + 2)) = Some (DECODE_OFFSET n)"
        "DECODE_SEGMENT n \<noteq> UNDEFINED_SEGMENT"
        by (auto simp: nextPointer_def Let_def split: bind_splits if_splits)
      then have "nextPointer_loop sp pivot r (DECODE_SEGMENT p) (DECODE_OFFSET p) =
          nextPointer_loop sp pivot r (DECODE_SEGMENT n) (DECODE_OFFSET n)"
        using True mx by (subst nextPointer_loop.simps) simp
      then show ?thesis using Cons.IH [of n bs'] Cons.prems n bs True Cons by simp
    qed
  qed
qed simp

lemma nextPointer_pivot_find:
  assumes "posting_chain sp L ps bs h"
  shows "nextPointer_pivot sp h pivot r =
    Some (case find (\<lambda>(q, m, dat). \<not> LESS_THAN m pivot r) (zip ps bs) of
        None \<Rightarrow> UNDEFINED_POINTER | Some (q, _) \<Rightarrow> q)"
proof (cases ps)
  case Nil
  with assms show ?thesis by (simp add: posting_chain_def nextPointer_pivot_def)
next
  case (Cons q qs)
  with assms have "h \<noteq> UNDEFINED_POINTER" by (auto simp: posting_chain_def)
  moreover have "nextPointer_loop sp pivot r (DECODE_SEGMENT h) (DECODE_OFFSET h) =
      Some (case find (\<lambda>(q, m, dat). \<not> LESS_THAN m pivot r) (zip ps bs) of
        None \<Rightarrow> UNDEFINED_POINTER | Some (q, _) \<Rightarrow> q)"
    by (rule nextPointer_loop_ok [where L = L]) (use assms Cons in \<open>auto simp: posting_chain_def\<close>)
  ultimately show ?thesis by (simp add: nextPointer_pivot_def)
qed

section \<open>Save and load\<close>

lemma save_pools_ok:
  assumes "k \<le> length arrs" and "\<And>i. i < k \<Longrightarrow> rd (pool sp) i = Some (Some (arrs ! i))"
    and "\<And>i. i < k \<Longrightarrow> length (arrs ! i) = unat (maxPoolSize sp)"
  shows "save_pools sp k = Some (concat (map put32s (take k arrs)))"
  using assms by (induction k) (simp_all add: rd_seq_Some take_Suc_conv_app_nth)

text \<open>The arrays a pool already has when it is loaded must have the saved size.\<close>

definition sized :: "nat \<Rightarrow> u32 list option list \<Rightarrow> bool" where
  "sized n = list_all (pred_option (\<lambda>arr. length arr = n))"

lemma alloc_pool_sized:
  assumes "sized (unat (maxPoolSize sp)) (pool sp)" and "i < length (pool sp)"
  obtains arr where "alloc_pool junk sp i = Some (sp \<lparr> pool := (pool sp)[i := Some arr] \<rparr>)"
    "length arr = unat (maxPoolSize sp)"
proof (cases "pool sp ! i")
  case None
  with assms(2) show ?thesis
    by (intro that [of "map junk [0..<unat (maxPoolSize sp)]"]) (simp_all add: alloc_pool_def rd_def)
next
  case (Some arr)
  then have "(pool sp)[i := Some arr] = pool sp" by (metis list_update_id)
  then have "sp = sp \<lparr> pool := (pool sp)[i := Some arr] \<rparr>" by simp
  moreover have "pred_option (\<lambda>arr. length arr = unat (maxPoolSize sp)) (pool sp ! i)"
    using assms by (simp add: sized_def list_all_length)
  ultimately show ?thesis
    using Some assms(2) by (intro that [of arr]) (simp_all add: alloc_pool_def rd_def)
qed

lemma load_pools_ok:
  assumes "sized (unat (maxPoolSize sp)) (pool sp)" and "length arrs \<le> length (pool sp)"
    and "\<forall>a \<in> set arrs. length a = unat (maxPoolSize sp)"
  shows "load_pools junk sp (length arrs) (concat (map put32s arrs) @ rest) =
    Some (sp \<lparr> pool := map Some arrs @ drop (length arrs) (pool sp) \<rparr>, rest)"
  using assms(2,3)
proof (induction arrs arbitrary: rest rule: rev_induct)
  case (snoc a arrs)
  let ?k = "length arrs"
  let ?sp = "sp \<lparr> pool := map Some arrs @ drop ?k (pool sp) \<rparr>"
  have "sized (unat (maxPoolSize ?sp)) (pool ?sp)"
    using assms(1) snoc.prems by (auto simp: sized_def list_all_iff dest: in_set_dropD)
  with alloc_pool_sized [of ?sp ?k junk] snoc.prems obtain arr where
    arr: "alloc_pool junk ?sp ?k = Some (?sp \<lparr> pool := (pool ?sp)[?k := Some arr] \<rparr>)"
      "length arr = unat (maxPoolSize sp)" by auto
  have d: "drop ?k (pool sp) = pool sp ! ?k # drop (Suc ?k) (pool sp)"
    using snoc.prems by (simp add: Cons_nth_drop_Suc)
  show ?case
    using snoc arr get_put32s [of a rest]
    by (simp add: d set_cells_def wr_seq_def rd_def nth_append list_update_append)
qed simp

lemma load_last_array:
  assumes "sized (unat (maxPoolSize sp)) (pool sp)" "pool sp = ps @ [x]" "length ws \<le> unat (maxPoolSize sp)"
  obtains sp3 arr where "alloc_pool junk sp (length ps) = Some sp3" "length arr = unat (maxPoolSize sp)"
    "set_cells sp3 (length ps) 0 ws = Some (sp \<lparr> pool := ps @ [Some (ws @ drop (length ws) arr)] \<rparr>)"
proof -
  from assms(2) have "length ps < length (pool sp)" by simp
  from alloc_pool_sized [OF assms(1) this, of junk] obtain arr where
    arr: "alloc_pool junk sp (length ps) = Some (sp \<lparr> pool := (pool sp)[length ps := Some arr] \<rparr>)"
      "length arr = unat (maxPoolSize sp)" .
  show thesis
    by (rule that [OF arr]) (simp add: set_cells_def rd_def wr_seq_def assms arr(2))
qed

lemma sized_resize: "sized n ps \<Longrightarrow> sized n (resize None k ps)"
  by (auto simp: sized_def resize_def list_all_iff dest: in_set_takeD)

lemma length_resize [simp]: "length (resize d n xs) = n"
  by (simp add: resize_def)

text \<open>Loading what was saved gives back the counters and every used cell, whatever the new arrays
  held before.\<close>

lemma load_save:
  assumes ok: "pool_ok sp" and off: "offset sp \<noteq> 0" and l: "sized (unat (maxPoolSize sp)) (pool sp0)"
  obtains bytes sp' where "save sp = Some bytes" "load junk sp0 (bytes @ rest) = Some (sp', rest)"
    "maxPoolSize sp' = maxPoolSize sp" "numberOfPools sp' = numberOfPools sp"
    "segment sp' = segment sp" "offset sp' = offset sp" "length (pool sp') = unat (segment sp) + 1"
    "pool_ok sp'" "\<And>x. used sp x \<Longrightarrow> cell sp' x = cell sp x"
proof -
  let ?s = "unat (segment sp)" and ?m = "unat (maxPoolSize sp)" and ?o = "unat (offset sp)"
  have b: "?s < length (pool sp)" "length (pool sp) < 4294967296" "?o \<le> ?m"
    using ok by (auto simp: pool_ok_def word_le_nat_alt)
  have inc: "unat (segment sp + 1) = ?s + 1" using b by (subst unat_add32) auto
  define arrs where "arrs = map the (take (?s + 1) (pool sp))"
  have arrs: "pool sp ! i = Some (arrs ! i)" "length (arrs ! i) = ?m" if "i \<le> ?s" for i
  proof -
    from pool_array [OF ok, of i] that off obtain arr where "pool sp ! i = Some arr" "length arr = ?m"
      by (metis le_neq_implies_less)
    moreover have "arrs ! i = the (pool sp ! i)" using that b by (simp add: arrs_def)
    ultimately show "pool sp ! i = Some (arrs ! i)" "length (arrs ! i) = ?m" by simp_all
  qed
  have len: "length arrs = ?s + 1" using b by (simp add: arrs_def)
  let ?full = "take ?s arrs" and ?cur = "arrs ! ?s"
  have "save_pools sp ?s = Some (concat (map put32s ?full))"
    using len b arrs by (intro save_pools_ok) (auto simp: rd_def)
  then have sv: "save sp = Some (put32 (maxPoolSize sp) @ put32 (numberOfPools sp) @ put32 (segment sp) @
      put32 (offset sp) @ concat (map put32s ?full) @ put32s (take ?o ?cur))"
    using b arrs by (simp add: save_def rd_def rd_seq_Some)
  let ?sp1 = "\<lparr> maxPoolSize = maxPoolSize sp, numberOfPools = numberOfPools sp, segment = segment sp,
      offset = offset sp, pool = resize None (?s + 1) (pool sp0) \<rparr>"
  have sz1: "sized ?m (pool ?sp1)" using sized_resize [OF l] by simp
  have full: "\<forall>a \<in> set ?full. length a = ?m" using arrs len by (auto simp: in_set_conv_nth)
  note lp = load_pools_ok [of ?sp1 ?full, simplified, OF sz1 [simplified] _ full, unfolded len]
  let ?sp2 = "?sp1 \<lparr> pool := map Some ?full @ drop ?s (pool ?sp1) \<rparr>"
  have sz2: "sized (unat (maxPoolSize ?sp2)) (pool ?sp2)"
    using sz1 full by (auto simp: sized_def list_all_iff dest: in_set_dropD)
  have full_len: "length ?full = ?s" by (simp add: len)
  have "\<exists>x. ys = [x]" if "length ys = Suc 0" for ys :: "u32 list option list"
    using that by (simp add: length_Suc_conv)
  from this [of "drop ?s (pool ?sp1)"] obtain x where "drop ?s (pool ?sp1) = [x]" by auto
  then have p2: "pool ?sp2 = map Some ?full @ [x]" by simp
  have ol: "length (take ?o ?cur) = ?o" using arrs(2) [of ?s] b by simp
  from load_last_array [OF sz2 p2, of "take ?o ?cur" junk] ol b obtain sp3 arr where
    al: "alloc_pool junk ?sp2 ?s = Some sp3" "length arr = ?m"
      "set_cells sp3 ?s 0 (take ?o ?cur) = Some (?sp2 \<lparr> pool := map Some ?full @ [Some (take ?o ?cur @ drop ?o arr)] \<rparr>)"
    by (simp only: length_map full_len SegmentPool.select_convs SegmentPool.update_convs) blast
  let ?sp' = "?sp2 \<lparr> pool := map Some ?full @ [Some (take ?o ?cur @ drop ?o arr)] \<rparr>"
  have gt: "get32s ?o (put32s (take ?o ?cur) @ rest) = Some (take ?o ?cur, rest)"
    using get_put32s [of "take ?o ?cur" rest] ol by simp
  show thesis
  proof (rule that [OF sv, of ?sp'])
    show "load junk sp0 ((put32 (maxPoolSize sp) @ put32 (numberOfPools sp) @ put32 (segment sp) @
      put32 (offset sp) @ concat (map put32s ?full) @ put32s (take ?o ?cur)) @ rest) = Some (?sp', rest)"
      using lp al gt by (simp add: load_def inc Let_def)
    show "pool_ok ?sp'"
      using b arrs ol full al(2) full_len ok by (auto simp: pool_ok_def nth_append less_Suc_eq)
    show "cell ?sp' x = cell sp x" if "used sp x" for x
      using that b ol full_len arrs al(2) len
      by (cases x) (auto simp: used_def cell_def rd_def nth_append)
  qed (use full_len in simp_all)
qed

text \<open>None of the steps of a load changes the number of arrays or the counters.\<close>

lemma set_cells_same:
  "set_cells sp s i vs = Some sp' \<Longrightarrow> length (pool sp') = length (pool sp) \<and> segment sp' = segment sp"
  by (auto simp: set_cells_def split: bind_splits)

lemma alloc_pool_same:
  "alloc_pool junk sp s = Some sp' \<Longrightarrow> length (pool sp') = length (pool sp) \<and> segment sp' = segment sp"
  by (auto simp: alloc_pool_def split: bind_splits option.splits)

lemma load_pools_same:
  "load_pools junk sp k bytes = Some (sp', rest) \<Longrightarrow>
     length (pool sp') = length (pool sp) \<and> segment sp' = segment sp"
  by (induction k arbitrary: sp' rest)
     (auto split: bind_splits dest!: set_cells_same alloc_pool_same)

section \<open>Properties\<close>

text \<open>A pool that holds one block of one word, used to exercise the properties.\<close>

definition one_block :: SegmentPool where
  "one_block = \<lparr> maxPoolSize = 8, numberOfPools = 2, segment = 0, offset = 5,
     pool = [Some [5, 0xFFFFFFFF, 0xFFFFFFFF, 7, 42, 0, 0, 0], None] \<rparr>"

lemma DECODE_0 [simp]: "DECODE_SEGMENT 0 = 0" "DECODE_OFFSET 0 = 0"
  by (simp_all add: DECODE_SEGMENT_def DECODE_OFFSET_def)

lemma one_block_chain: "posting_chain one_block {0} ([] @ [0]) [(7, [42])] 0"
proof -
  have c: "cell one_block (0, 0) = Some 5" "cell one_block (0, 1) = Some UNDEFINED_SEGMENT"
    "cell one_block (0, 2) = Some UNDEFINED_OFFSET" "cell one_block (0, 3) = Some 7" "cell one_block (0, 4) = Some 42"
    by (simp_all add: cell_def rd_def one_block_def UNDEFINED_SEGMENT_def UNDEFINED_OFFSET_def)
  have "valid one_block 0"
    using c by (auto simp: valid_def extent_def used_def one_block_def UNDEFINED_SEGMENT_def)
  moreover have "pool_ok one_block"
    by (auto simp: pool_ok_def one_block_def less_Suc_eq)
  moreover have "nextPointer one_block 0 = Some UNDEFINED_POINTER"
    using c by (simp add: nextPointer_def UNDEFINED_POINTER_def)
  moreover have "block_at one_block 0 = Some (7, [42])"
    using c by (simp add: block_at_def)
  ultimately show ?thesis by (simp add: posting_chain_def store_ok_def UNDEFINED_POINTER_def)
qed

text \<open>C10. Appending a block behind the tail of a term's chain (the order of the forward index)
  succeeds whenever there is room, makes the chain one block longer with all stored blocks unchanged, and
  leaves every chain that does not contain the tail as it was.\<close>

theorem appendSegment_extends_chain:
  assumes "posting_chain sp L (ps @ [t]) bs h" and "room sp (length dat)"
  shows "\<exists>p sp'. appendSegment junk sp dat m (of_nat (length dat)) t UNDEFINED_POINTER = Some (p, sp') \<and>
    posting_chain sp' (insert p L) (ps @ [t, p]) (bs @ [(m, dat)]) h \<and>
    (\<forall>ps' bs' h'. posting_chain sp L ps' bs' h' \<and> t \<notin> set ps' \<longrightarrow>
       posting_chain sp' (insert p L) ps' bs' h')"
proof -
  have "t \<in> L" using assms(1) by (simp add: posting_chain_def)
  with pool.append_tail [of sp L ps t bs h dat junk m] pool.append_frame [where st = sp and dat = dat
      and m = m and lst = t and nxt = UNDEFINED_POINTER and L = L and junk = junk] assms
  show ?thesis by (fastforce simp: posting_chain_holds pool_append_def)
qed

theorem appendSegment_extends_chain_witness:
  "\<exists>p sp'. appendSegment (\<lambda>_. 0) one_block [1, 2] 9 (of_nat (length [1, 2 :: u32])) 0 UNDEFINED_POINTER = Some (p, sp') \<and>
    posting_chain sp' (insert p {0}) ([] @ [0, p]) ([(7, [42])] @ [(9, [1, 2])]) 0"
proof -
  have "room one_block (length [1, 2 :: u32])" by (simp add: room_def one_block_def)
  from appendSegment_extends_chain [OF one_block_chain this, of "\<lambda>_. 0" 9] show ?thesis by blast
qed

text \<open>Appending in front of the head (the order of the reversed index) puts the new block first,
  and leaves every other chain as it was.\<close>

theorem appendSegment_prepends_chain:
  assumes "posting_chain sp L ps bs h" and "room sp (length dat)"
  shows "\<exists>p sp'. appendSegment junk sp dat m (of_nat (length dat)) UNDEFINED_POINTER h = Some (p, sp') \<and>
    posting_chain sp' (insert p L) (p # ps) ((m, dat) # bs) p \<and>
    (\<forall>ps' bs' h'. posting_chain sp L ps' bs' h' \<longrightarrow> posting_chain sp' (insert p L) ps' bs' h')"
proof -
  have h: "h = UNDEFINED_POINTER \<or> h \<in> L" using assms(1) by (cases ps) (auto simp: posting_chain_def)
  have "UNDEFINED_POINTER \<notin> set ps'" if "posting_chain sp L ps' bs' h'" for ps' bs' h'
    using that pool.live [of sp L] by (auto simp: posting_chain_def)
  with h pool.append_head [of sp L ps bs h dat junk m] pool.append_frame [where st = sp and dat = dat
      and m = m and lst = UNDEFINED_POINTER and nxt = h and L = L and junk = junk] assms
  show ?thesis by (fastforce simp: posting_chain_holds pool_append_def)
qed

theorem appendSegment_prepends_chain_witness:
  "\<exists>p sp'. appendSegment (\<lambda>_. 0) one_block [] 9 (of_nat (length ([] :: u32 list))) UNDEFINED_POINTER 0 = Some (p, sp') \<and>
    posting_chain sp' (insert p {0}) (p # [] @ [0]) ((9, []) # [(7, [42])]) p"
proof -
  have "room one_block (length ([] :: u32 list))" by (simp add: room_def one_block_def)
  from appendSegment_prepends_chain [OF one_block_chain this, of "\<lambda>_. 0" 9] show ?thesis by blast
qed

text \<open>C34. Following a chain with a pivot ends, never leaves the pool, and stops at the first block
  whose largest docid does not precede the pivot, or at the end of the chain.\<close>

theorem nextPointer_pivot_skips:
  assumes "posting_chain sp L ps bs h"
  shows "nextPointer_pivot sp h pivot r =
    Some (case find (\<lambda>(q, m, dat). \<not> LESS_THAN m pivot r) (zip ps bs) of
        None \<Rightarrow> UNDEFINED_POINTER | Some (q, _) \<Rightarrow> q)"
  using assms by (rule nextPointer_pivot_find)

theorem nextPointer_pivot_skips_witness:
  "nextPointer_pivot one_block 0 6 False = Some 0 \<and>
   nextPointer_pivot one_block 0 8 False = Some UNDEFINED_POINTER"
  using nextPointer_pivot_skips [OF one_block_chain, of 6 False]
    nextPointer_pivot_skips [OF one_block_chain, of 8 False] by (simp add: LESS_THAN_def)

text \<open>C11. A pool that was saved and loaded back holds the same chains of the same blocks, and the
  bytes behind it in the stream are untouched.\<close>

theorem load_save_chains:
  assumes "posting_chain sp L ps bs h" and "offset sp \<noteq> 0" and "sized (unat (maxPoolSize sp)) (pool sp0)"
  shows "\<exists>bytes sp'. save sp = Some bytes \<and> load junk sp0 (bytes @ rest) = Some (sp', rest) \<and>
    posting_chain sp' L ps bs h"
proof -
  from assms(1) have st: "pool_ok sp" "\<And>p. p \<in> L \<Longrightarrow> valid sp p"
    by (auto simp: posting_chain_def store_ok_def)
  from load_save [OF st(1) assms(2,3), of junk rest] obtain bytes sp' where
    sv: "save sp = Some bytes" "load junk sp0 (bytes @ rest) = Some (sp', rest)" "pool_ok sp'"
    and f: "maxPoolSize sp' = maxPoolSize sp" "segment sp' = segment sp" "offset sp' = offset sp"
    and c: "\<And>x. used sp x \<Longrightarrow> cell sp' x = cell sp x" by metis
  have grow: "used sp' = used sp" using f by (simp add: used_def fun_eq_iff)
  have same: "cell sp' x = cell sp x" if "p \<in> L" "x \<in> extent sp p" for p x
    using st(2) [OF that(1)] that(2) by (intro c) (auto simp: valid_def)
  have blk: "valid sp' p" "extent sp' p = extent sp p" "block_at sp' p = block_at sp p"
    "nextPointer sp' p = nextPointer sp p" if "p \<in> L" for p
    using block_frame [OF st(2) [OF that], of sp'] nextPointer_frame [OF st(1) st(2) [OF that], of sp']
      same [OF that] grow by auto
  have "store_ok sp' L"
    using assms(1) sv(3) blk by (auto simp: posting_chain_def store_ok_def pairwise_def)
  moreover have "chain (nextPointer sp') ps h"
    using assms(1) blk by (auto simp: posting_chain_def intro!: chain_cong [of "nextPointer sp"])
  moreover have "map (block_at sp') ps = map (block_at sp) ps"
    using assms(1) blk(3) by (intro map_cong) (auto simp: posting_chain_def)
  then have "map (block_at sp') ps = map Some bs" using assms(1) by (metis posting_chain_def)
  ultimately show ?thesis using assms(1) sv by (simp add: posting_chain_def)
qed

theorem load_save_chains_witness:
  "\<exists>bytes sp'. save one_block = Some bytes \<and>
    load (\<lambda>_. 99) (SegmentPool_new 1 3) (bytes @ [77]) = Some (sp', [77]) \<and>
    posting_chain sp' {0} ([] @ [0]) [(7, [42])] 0"
  by (rule load_save_chains [OF one_block_chain])
     (simp_all add: one_block_def SegmentPool_new_def sized_def list_all_iff)

text \<open>C12. A loaded pool cannot grow beyond its last array, whatever \<open>numberOfPools_\<close> says: the array
  vector is resized to the arrays in use, so the first block that does not fit the current array indexes
  past the end of the vector.\<close>

theorem loaded_pool_cannot_roll:
  assumes "load junk sp0 bytes = Some (sp, rest)" and "segment sp + 1 \<noteq> 0"
    and "len + 4 > maxPoolSize sp - offset sp"
  shows "appendSegment junk' sp dat m len lst nxt = None"
proof -
  have inc: "unat (segment sp + 1) = unat (segment sp) + 1"
    using assms(2) unatSuc [of "segment sp"] by (simp add: add.commute)
  from assms(1) obtain sp1 sp2 sp3 n bytes1 bytes2 ws where
    "load_pools junk sp1 n bytes1 = Some (sp2, bytes2)" "alloc_pool junk sp2 n = Some sp3"
    "set_cells sp3 n 0 ws = Some sp" "length (pool sp1) = unat (segment sp1 + 1)"
    by (auto simp: load_def Let_def split: bind_splits)
  then have "length (pool sp) = unat (segment sp + 1)"
    by (auto dest!: load_pools_same alloc_pool_same set_cells_same)
  then have len: "length (pool sp) = unat (segment sp) + 1"
    using inc by simp
  show ?thesis
  proof (cases "roll_pool sp (len + 4)")
    case (Some sp1)
    then have "length (pool sp1) = length (pool sp)" "segment sp1 = segment sp + 1"
      using assms(3) by (auto simp: roll_pool_def split: bind_splits dest!: set_cells_same)
    then have "alloc_pool junk' sp1 (unat (segment sp1)) = None"
      using len inc by (simp add: alloc_pool_def rd_def)
    then show ?thesis using Some by (simp add: appendSegment_def)
  qed (simp add: appendSegment_def)
qed

theorem loaded_pool_cannot_roll_witness:
  "\<exists>sp. load (\<lambda>_. 0) (SegmentPool_new 1 3)
      (put32 8 @ put32 3 @ put32 0 @ put32 5 @ put32s [5, 0, 0, 7, 42]) = Some (sp, []) \<and>
    numberOfPools sp = 3 \<and> segment sp = 0 \<and>
    appendSegment (\<lambda>_. 0) sp [1, 2] 9 2 UNDEFINED_POINTER UNDEFINED_POINTER = None"
proof -
  have "length [5, 0, 0, 7, 42 :: u32] = 5" by simp
  then have "get32s 5 (put32s [5, 0, 0, 7, 42]) = Some ([5, 0, 0, 7, 42], [])"
    using get_put32s [of "[5, 0, 0, 7, 42]" "[]"] by (metis append_Nil2)
  then have "\<exists>sp. load (\<lambda>_. 0) (SegmentPool_new 1 3)
      (put32 8 @ put32 3 @ put32 0 @ put32 5 @ put32s [5, 0, 0, 7, 42]) = Some (sp, []) \<and>
    numberOfPools sp = 3 \<and> segment sp = 0 \<and> maxPoolSize sp = 8 \<and> offset sp = 5"
    by (simp add: load_def SegmentPool_new_def resize_def alloc_pool_def rd_def set_cells_def wr_seq_def)
  then obtain sp where sp: "load (\<lambda>_. 0) (SegmentPool_new 1 3)
      (put32 8 @ put32 3 @ put32 0 @ put32 5 @ put32s [5, 0, 0, 7, 42]) = Some (sp, [])"
    "numberOfPools sp = 3" "segment sp = 0" "maxPoolSize sp = 8" "offset sp = 5" by blast
  have "appendSegment (\<lambda>_. 0) sp [1, 2] 9 2 UNDEFINED_POINTER UNDEFINED_POINTER = None"
    by (rule loaded_pool_cannot_roll [OF sp(1)]) (simp_all add: sp)
  with sp show ?thesis by blast
qed

end
