(* ===== verification/Bitpack_Ref.thy ===== *)
theory Bitpack_Ref
  imports Izene_Prelude
begin

text \<open>
  The reference for the bit packing of \<open>source/util/compression/int/fastpfor/bitpacking.cpp\<close>. The
  file has one unrolled routine for every width from 0 to 32, which packs 32 integers of \<open>b\<close> bits into
  \<open>b\<close> words, and the routines that unpack them. Here the same arrangement is given once for every width:
  \<open>field b ws i\<close> is the \<open>i\<close>-th integer of packed words, \<open>pack_word b xs q\<close> the \<open>q\<close>-th packed word. Both
  are described by the bits they hold, from which the round trip follows. The theories
  \<open>Bitpack_Unpack\<close>, \<open>Bitpack_Pack\<close> and \<open>Bitpack_NoMask\<close> prove that every unrolled routine is an instance.
\<close>

section \<open>Definitions\<close>

text \<open>\<open>*out = e; *out |= e1; *out |= e2; \<dots>\<close>\<close>

definition accum :: "u32 \<Rightarrow> u32 list \<Rightarrow> u32" where
  "accum e es = foldl (OR) e es"

definition field :: "nat \<Rightarrow> u32 list \<Rightarrow> nat \<Rightarrow> u32" where
  "field b ws i =
     (let q = b * i div 32; r = b * i mod 32 in
      if r + b < 32 then drop_bit r (ws ! q) mod push_bit b 1
      else if r + b = 32 then drop_bit r (ws ! q)
      else drop_bit r (ws ! q) OR push_bit (32 - r) (ws ! (q + 1) mod push_bit (r + b - 32) 1))"

definition unpack_ref :: "nat \<Rightarrow> u32 list \<Rightarrow> u32 list" where
  "unpack_ref b ws = map (field b ws) [0..<32]"

definition contrib :: "nat \<Rightarrow> u32 list \<Rightarrow> nat \<Rightarrow> nat \<Rightarrow> u32" where
  "contrib b xs q i =
     (if b * i < 32 * q then drop_bit (32 * q - b * i) (xs ! i mod push_bit b 1)
      else if b * i + b < 32 * q + 32 then push_bit (b * i - 32 * q) (xs ! i mod push_bit b 1)
      else push_bit (b * i - 32 * q) (xs ! i))"

definition contrib_nomask :: "nat \<Rightarrow> u32 list \<Rightarrow> nat \<Rightarrow> nat \<Rightarrow> u32" where
  "contrib_nomask b xs q i =
     (if b * i < 32 * q then drop_bit (32 * q - b * i) (xs ! i) else push_bit (b * i - 32 * q) (xs ! i))"

definition pack_word :: "(nat \<Rightarrow> u32) \<Rightarrow> nat \<Rightarrow> nat \<Rightarrow> u32" where
  "pack_word c b q = accum (c (32 * q div b)) (map c [32 * q div b + 1..<(32 * q + 31) div b + 1])"

definition pack_ref :: "nat \<Rightarrow> u32 list \<Rightarrow> u32 list" where
  "pack_ref b xs = map (\<lambda>q. pack_word (contrib b xs q) b q) [0..<b]"

definition pack_nomask_ref :: "nat \<Rightarrow> u32 list \<Rightarrow> u32 list" where
  "pack_nomask_ref b xs = map (\<lambda>q. pack_word (contrib_nomask b xs q) b q) [0..<b]"

section \<open>Bits\<close>

lemma mod_push_bit: "(x :: u32) mod push_bit b 1 = take_bit b x"
  by (simp add: take_bit_eq_mod push_bit_eq_mult)

lemma accum_Nil [simp]: "accum e [] = e"
  by (simp add: accum_def)

lemma bit_accum: "bit (accum e es) k \<longleftrightarrow> bit e k \<or> (\<exists>x \<in> set es. bit x k)"
  unfolding accum_def by (induction es arbitrary: e) (auto simp: bit_or_iff)

lemma bit32: "bit (x :: u32) k \<Longrightarrow> k < 32"
  by (auto dest: bit_imp_le_length)

lemma div_mod_eq:
  fixes j b i :: nat
  assumes "b * i \<le> j" "j < b * i + b"
  shows "j div b = i" and "j mod b = j - b * i"
proof -
  show "j div b = i" using assms by (intro div_nat_eqI) (auto simp: mult.commute)
  then show "j mod b = j - b * i" by (metis minus_mult_div_eq_mod)
qed

text \<open>Bit \<open>k\<close> of the \<open>i\<close>-th field is bit \<open>b * i + k\<close> of the packed words.\<close>

lemma bit_field:
  assumes "0 < b" "b \<le> 32"
  shows "bit (field b ws i) k \<longleftrightarrow> k < b \<and> bit (ws ! ((b * i + k) div 32)) ((b * i + k) mod 32)"
proof -
  define q r where "q = b * i div 32" and "r = b * i mod 32"
  have p: "b * i = 32 * q + r" and r: "r < 32" by (simp_all add: q_def r_def)
  have f: "field b ws i = (if r + b < 32 then take_bit b (drop_bit r (ws ! q))
      else if r + b = 32 then drop_bit r (ws ! q)
      else drop_bit r (ws ! q) OR push_bit (32 - r) (take_bit (r + b - 32) (ws ! (q + 1))))"
    by (simp only: field_def Let_def mod_push_bit q_def r_def)
  consider (lo) "r + k < 32" | (hi) "32 \<le> r + k" "k < b" | (out) "b \<le> k" "32 \<le> r + k" by linarith
  then show ?thesis
  proof cases
    case lo
    then have "(b * i + k) div 32 = q" "(b * i + k) mod 32 = r + k"
      using div_mod_eq [of 32 q "b * i + k"] p by auto
    then show ?thesis using lo assms by (auto simp: f bit_simps add.commute)
  next
    case hi
    then have "(b * i + k) div 32 = q + 1" "(b * i + k) mod 32 = r + k - 32"
      using div_mod_eq [of 32 "q + 1" "b * i + k"] p assms r by auto
    moreover have "\<not> bit (ws ! q) (r + k)" using hi bit32 [of "ws ! q" "r + k"] by auto
    moreover have "k - (32 - r) = r + k - 32" using hi r by simp
    ultimately show ?thesis using hi assms r by (auto simp: f bit_simps add.commute)
  next
    case out
    moreover have "\<not> bit (ws ! q) (r + k)" using out bit32 [of "ws ! q" "r + k"] by auto
    moreover have "\<not> k - (32 - r) < r + b - 32" using out r by linarith
    ultimately show ?thesis using assms by (simp add: f bit_simps add.commute)
  qed
qed

text \<open>Bit \<open>k\<close> of the \<open>q\<close>-th packed word belongs to the integer \<open>(32 * q + k) div b\<close>.\<close>

lemma bit_contrib:
  assumes "0 < b" "b \<le> 32" "k < 32"
  shows "bit (contrib b xs q i) k \<longleftrightarrow> i = (32 * q + k) div b \<and> bit (xs ! i) ((32 * q + k) mod b)"
proof -
  define j where "j = 32 * q + k"
  have "b * (j div b) \<le> j" "j < b * (j div b) + b"
    using assms mult_div_mod_eq [of b j] mod_less_divisor [of b j] by linarith+
  then have i: "i = j div b \<longleftrightarrow> b * i \<le> j \<and> j < b * i + b"
    using div_mod_eq(1) [of b i j] by blast
  define x where "x = xs ! i"
  have c: "contrib b xs q i =
     (if b * i < 32 * q then drop_bit (32 * q - b * i) (take_bit b x)
      else if b * i + b < 32 * q + 32 then push_bit (b * i - 32 * q) (take_bit b x)
      else push_bit (b * i - 32 * q) x)"
    by (simp only: contrib_def mod_push_bit x_def)
  have "bit (contrib b xs q i) k \<longleftrightarrow> b * i \<le> j \<and> j < b * i + b \<and> bit x (j - b * i)"
  proof (cases "b * i < 32 * q")
    case True
    then have "32 * q - b * i + k = j - b * i" by (simp add: j_def)
    with True show ?thesis using assms by (auto simp: c bit_simps j_def)
  next
    case False
    then have "k - (b * i - 32 * q) = j - b * i" by (simp add: j_def)
    with False show ?thesis using assms by (auto simp: c bit_simps j_def)
  qed
  then have "bit (contrib b xs q i) k \<longleftrightarrow> i = j div b \<and> bit x (j mod b)"
    using i div_mod_eq(2) [of b i j] by auto
  then show ?thesis by (simp only: j_def x_def)
qed

lemma bit_pack_word:
  assumes "0 < b" "b \<le> 32" "k < 32"
  shows "bit (pack_word (contrib b xs q) b q) k \<longleftrightarrow> bit (xs ! ((32 * q + k) div b)) ((32 * q + k) mod b)"
proof -
  let ?i = "(32 * q + k) div b"
  have "32 * q div b \<le> ?i" "?i < (32 * q + 31) div b + 1"
    using assms by (auto simp: div_le_mono less_Suc_eq_le)
  then have "?i = 32 * q div b \<or> ?i \<in> set [32 * q div b + 1..<(32 * q + 31) div b + 1]" by auto
  then show ?thesis
    using assms by (auto simp: pack_word_def bit_accum bit_contrib)
qed

lemma length_pack_ref [simp]: "length (pack_ref b xs) = b"
  by (simp add: pack_ref_def)

lemma length_unpack_ref [simp]: "length (unpack_ref b ws) = 32"
  by (simp add: unpack_ref_def)

section \<open>Round trip\<close>

lemma field_pack:
  assumes "b \<le> 32" "i < 32"
  shows "field b (pack_ref b xs) i = take_bit b (xs ! i)"
proof (cases "b = 0")
  case True
  then show ?thesis by (simp add: field_def)
next
  case False
  show ?thesis
  proof (rule bit_eqI)
    fix k
    have "(b * i + k) div 32 < b" if "k < b"
    proof -
      have "b * i + k < b * (i + 1)" using that by simp
      also have "\<dots> \<le> b * 32" using assms by (intro mult_le_mono2) simp
      finally show ?thesis by (simp add: less_mult_imp_div_less)
    qed
    moreover have "(b * i + k) div b = i" "(b * i + k) mod b = k" if "k < b"
      using that by simp_all
    ultimately show "bit (field b (pack_ref b xs) i) k = bit (take_bit b (xs ! i)) k"
      using False assms by (auto simp: bit_field bit_simps pack_ref_def bit_pack_word)
  qed
qed

lemma unpack_pack_ref:
  assumes "b \<le> 32" "length xs = 32"
  shows "unpack_ref b (pack_ref b xs) = map (take_bit b) xs"
  using assms by (intro nth_equalityI) (auto simp: unpack_ref_def field_pack)

text \<open>Without masks the words are the same when every integer fits \<open>b\<close> bits.\<close>

lemma pack_nomask_eq:
  assumes "b \<le> 32" "\<And>i. i < 32 \<Longrightarrow> take_bit b (xs ! i) = xs ! i"
  shows "pack_nomask_ref b xs = pack_ref b xs"
proof -
  have same: "contrib_nomask b xs q i = contrib b xs q i" if "i < 32" for q i
    using assms(2) [OF that] by (simp only: contrib_nomask_def contrib_def mod_push_bit split: if_splits) simp
  have word: "pack_word (contrib_nomask b xs q) b q = pack_word (contrib b xs q) b q" if "q < b" for q
  proof -
    have hi: "(32 * q + 31) div b < 32" using that by (intro less_mult_imp_div_less) simp
    have "32 * q div b \<le> (32 * q + 31) div b" by (rule div_le_mono) simp
    then have lo: "32 * q div b < 32" using hi by linarith
    have "map (contrib_nomask b xs q) [32 * q div b + 1..<(32 * q + 31) div b + 1] =
        map (contrib b xs q) [32 * q div b + 1..<(32 * q + 31) div b + 1]"
      by (rule map_cong [OF refl]) (use hi in \<open>auto intro!: same\<close>)
    then show ?thesis by (simp only: pack_word_def same [OF lo])
  qed
  show ?thesis
    unfolding pack_nomask_ref_def pack_ref_def by (rule map_cong [OF refl]) (simp add: word)
qed

section \<open>Evaluation at a fixed width\<close>

lemma upt_step: "i < j \<Longrightarrow> [i..<j] = i # [i + 1..<j]"
  by (simp add: upt_conv_Cons)

lemma push_bit_1: "push_bit 1 (x :: u32) = x * 2"
  by simp

lemma drop_bit_mod_top:
  "drop_bit 28 (x :: u32) mod 16 = drop_bit 28 x" "drop_bit 24 (x :: u32) mod 256 = drop_bit 24 x"
  "drop_bit 16 (x :: u32) mod 65536 = drop_bit 16 x"
proof -
  have "take_bit b (drop_bit r x) = drop_bit r x" if "r + b = 32" for r b
  proof (rule bit_eqI)
    fix k
    show "bit (take_bit b (drop_bit r x)) k = bit (drop_bit r x) k"
      using that bit32 [of x "r + k"] by (auto simp: bit_simps)
  qed
  from this [of 28 4] this [of 24 8] this [of 16 16]
  show "drop_bit 28 (x :: u32) mod 16 = drop_bit 28 x" "drop_bit 24 (x :: u32) mod 256 = drop_bit 24 x"
    "drop_bit 16 (x :: u32) mod 65536 = drop_bit 16 x"
    by (simp_all add: take_bit_eq_mod)
qed

lemmas unpack_simps = unpack_ref_def field_def Let_def upt_step and_one_eq

lemmas pack_words = pack_ref_def pack_nomask_ref_def upt_step and_one_eq

lemmas pack_simps = pack_word_def contrib_def contrib_nomask_def upt_step and_one_eq push_bit_1

end
