(* ===== verification/SIMD_Ref.thy ===== *)
theory SIMD_Ref
  imports Bitpack_Ref
begin

text \<open>
  The SSE2 registers and intrinsics that the vectorised bit packing uses, and the vectors of the
  references. An \<open>__m128i\<close> is four 32-bit lanes; memory read by \<open>_mm_load_si128\<close> is a list of such
  vectors. Every vector routine works on each lane alone, so it is described by what it does to one lane:
  \<open>map (lane l)\<close> turns a list of vectors into the list of integers of that lane, and the references
  of \<open>Bitpack_Ref\<close> apply to those.
\<close>

section \<open>Registers\<close>

datatype m128i = M128 u32 u32 u32 u32

fun lane :: "nat \<Rightarrow> m128i \<Rightarrow> u32" where
  "lane l (M128 a b c d) = (if l = 0 then a else if l = 1 then b else if l = 2 then c else d)"

definition lanes :: "(nat \<Rightarrow> u32) \<Rightarrow> m128i" where
  "lanes f = M128 (f 0) (f 1) (f 2) (f 3)"

definition mm_and_si128 :: "m128i \<Rightarrow> m128i \<Rightarrow> m128i" where
  "mm_and_si128 x y = lanes (\<lambda>l. lane l x AND lane l y)"

definition mm_or_si128 :: "m128i \<Rightarrow> m128i \<Rightarrow> m128i" where
  "mm_or_si128 x y = lanes (\<lambda>l. lane l x OR lane l y)"

definition mm_add_epi32 :: "m128i \<Rightarrow> m128i \<Rightarrow> m128i" where
  "mm_add_epi32 x y = lanes (\<lambda>l. lane l x + lane l y)"

definition mm_sub_epi32 :: "m128i \<Rightarrow> m128i \<Rightarrow> m128i" where
  "mm_sub_epi32 x y = lanes (\<lambda>l. lane l x - lane l y)"

definition mm_slli_epi32 :: "m128i \<Rightarrow> nat \<Rightarrow> m128i" where
  "mm_slli_epi32 x n = lanes (\<lambda>l. push_bit n (lane l x))"

definition mm_srli_epi32 :: "m128i \<Rightarrow> nat \<Rightarrow> m128i" where
  "mm_srli_epi32 x n = lanes (\<lambda>l. drop_bit n (lane l x))"

definition mm_set1_epi32 :: "u32 \<Rightarrow> m128i" where
  "mm_set1_epi32 v = M128 v v v v"

text \<open>The shifts of a whole register by bytes act on the 128 bits.\<close>

definition to_si128 :: "m128i \<Rightarrow> 128 word" where
  "to_si128 x = ucast (lane 0 x) OR push_bit 32 (ucast (lane 1 x)) OR push_bit 64 (ucast (lane 2 x))
     OR push_bit 96 (ucast (lane 3 x))"

definition of_si128 :: "128 word \<Rightarrow> m128i" where
  "of_si128 w = lanes (\<lambda>l. ucast (drop_bit (32 * l) w))"

definition mm_slli_si128 :: "m128i \<Rightarrow> nat \<Rightarrow> m128i" where
  "mm_slli_si128 x n = of_si128 (push_bit (8 * n) (to_si128 x))"

definition mm_srli_si128 :: "m128i \<Rightarrow> nat \<Rightarrow> m128i" where
  "mm_srli_si128 x n = of_si128 (drop_bit (8 * n) (to_si128 x))"

text \<open>Lane \<open>l\<close> of a shuffle is the lane that bits \<open>2 l\<close> and \<open>2 l + 1\<close> of the immediate name.\<close>

definition mm_shuffle_epi32 :: "m128i \<Rightarrow> nat \<Rightarrow> m128i" where
  "mm_shuffle_epi32 x imm = lanes (\<lambda>l. lane (imm div 4 ^ l mod 4) x)"

definition MM_SHUFFLE :: "nat \<Rightarrow> nat \<Rightarrow> nat \<Rightarrow> nat \<Rightarrow> nat" where
  "MM_SHUFFLE z y x w = 64 * z + 16 * y + 4 * x + w"

text \<open>\<open>_mm_shuffle_pd\<close> takes one 64-bit half of each operand.\<close>

definition mm_shuffle_pd :: "m128i \<Rightarrow> m128i \<Rightarrow> nat \<Rightarrow> m128i" where
  "mm_shuffle_pd x y imm =
     (let i = 2 * (imm mod 2); j = 2 * (imm div 2 mod 2) in
      M128 (lane i x) (lane (i + 1) x) (lane j y) (lane (j + 1) y))"

definition MM_SHUFFLE2 :: "nat \<Rightarrow> nat \<Rightarrow> nat" where
  "MM_SHUFFLE2 x y = 2 * x + y"

section \<open>Lanes\<close>

named_theorems lane_simps \<open>the lanes of the intrinsics\<close>

lemma lane_lanes: "l < 4 \<Longrightarrow> lane l (lanes f) = f l"
  by (auto simp: lanes_def numeral_eq_Suc less_Suc_eq)

lemma lane_min: "lane l x = lane (min l 3) x"
  by (cases x) auto

lemma lane_lift: "(\<And>x. f (lane (min l 3) x) = f (lane l x)) \<Longrightarrow> lane l (lanes (\<lambda>l. f (lane l x))) = f (lane l x)"
  by (subst lane_min, subst lane_lanes) auto

lemma lane_mm [lane_simps]:
  "lane l (mm_and_si128 x y) = lane l x AND lane l y"
  "lane l (mm_or_si128 x y) = lane l x OR lane l y"
  "lane l (mm_add_epi32 x y) = lane l x + lane l y"
  "lane l (mm_sub_epi32 x y) = lane l x - lane l y"
  "lane l (mm_slli_epi32 x n) = push_bit n (lane l x)"
  "lane l (mm_srli_epi32 x n) = drop_bit n (lane l x)"
  "lane l (mm_set1_epi32 v) = v"
  by (cases x; cases y; simp add: mm_and_si128_def mm_or_si128_def mm_add_epi32_def mm_sub_epi32_def
      mm_slli_epi32_def mm_srli_epi32_def mm_set1_epi32_def lanes_def)+

lemma m128i_eqI: "(\<And>l. lane l x = lane l y) \<Longrightarrow> x = y"
proof (cases x; cases y)
  fix a b c d a' b' c' d'
  assume eq: "\<And>l. lane l x = lane l y" and x: "x = M128 a b c d" and y: "y = M128 a' b' c' d'"
  show "x = y" using eq [of 0] eq [of 1] eq [of 2] eq [of 3] by (simp add: x y)
qed

lemma vectors_eqI:
  assumes "\<And>l. map (lane l) xs = map (lane l) ys"
  shows "xs = ys"
proof -
  have len: "length xs = length ys" using arg_cong [OF assms [of 0], of length] by simp
  moreover have "xs ! i = ys ! i" if "i < length xs" for i
    using that len arg_cong [OF assms, of "\<lambda>zs. zs ! i"] by (intro m128i_eqI) simp
  ultimately show ?thesis by (rule nth_equalityI)
qed

lemma lane_of_si128: "l < 4 \<Longrightarrow> lane l (of_si128 w) = ucast (drop_bit (32 * l) w)"
  by (simp add: of_si128_def lane_lanes)

lemma bit_to_si128: "k < 128 \<Longrightarrow> bit (to_si128 x) k \<longleftrightarrow> bit (lane (k div 32) x) (k mod 32)"
proof -
  assume k: "k < 128"
  then consider "k div 32 = 0" | "k div 32 = 1" | "k div 32 = 2" | "k div 32 = 3" by linarith
  then show ?thesis
  proof cases
    case 1
    then have "k < 32" "k mod 32 = k" by auto
    then show ?thesis using 1 by (simp add: to_si128_def bit_simps)
  next
    case 2
    then have "32 \<le> k" "k < 64" "k mod 32 = k - 32" using minus_div_mult_eq_mod [of k 32] by auto
    then show ?thesis using 2 bit32 [of "lane 0 x" k] by (auto simp: to_si128_def bit_simps)
  next
    case 3
    then have "64 \<le> k" "k < 96" "k mod 32 = k - 64" using minus_div_mult_eq_mod [of k 32] by auto
    then show ?thesis using 3 bit32 [of "lane 0 x" k] bit32 [of "lane 1 x" "k - 32"]
      by (auto simp: to_si128_def bit_simps)
  next
    case 4
    then have "96 \<le> k" "k < 128" "k mod 32 = k - 96" using minus_div_mult_eq_mod [of k 32] by auto
    then show ?thesis using 4 bit32 [of "lane 0 x" k] bit32 [of "lane 1 x" "k - 32"]
        bit32 [of "lane 2 x" "k - 64"]
      by (auto simp: to_si128_def bit_simps)
  qed
qed

text \<open>Shifts by whole words move lanes.\<close>

lemma lane_slli_si128:
  assumes "l < 4"
  shows "lane l (mm_slli_si128 x (4 * n)) = (if l < n then 0 else lane (l - n) x)"
proof (rule bit_word_eqI)
  fix k assume "k < LENGTH(32)"
  then have k: "k < 32" by simp
  have "bit (lane l (mm_slli_si128 x (4 * n))) k \<longleftrightarrow> 32 * n \<le> 32 * l + k \<and> bit (to_si128 x) (32 * l + k - 32 * n)"
    using assms k by (auto simp: mm_slli_si128_def lane_of_si128 bit_simps)
  also have "\<dots> \<longleftrightarrow> n \<le> l \<and> bit (lane (l - n) x) k"
  proof (cases "n \<le> l")
    case True
    then have e: "32 * l + k - 32 * n = k + 32 * (l - n)" by (simp add: algebra_simps)
    show ?thesis using True assms k unfolding e by (simp add: bit_to_si128)
  qed (use k in simp)
  finally show "bit (lane l (mm_slli_si128 x (4 * n))) k = bit (if l < n then 0 else lane (l - n) x) k"
    by auto
qed

lemma lane_srli_si128:
  assumes "l < 4"
  shows "lane l (mm_srli_si128 x (4 * n)) = (if l + n < 4 then lane (l + n) x else 0)"
proof (rule bit_word_eqI)
  fix k assume "k < LENGTH(32)"
  then have k: "k < 32" by simp
  have "bit (lane l (mm_srli_si128 x (4 * n))) k \<longleftrightarrow> bit (to_si128 x) (k + 32 * (l + n))"
    using assms k by (simp add: mm_srli_si128_def lane_of_si128 bit_simps algebra_simps)
  also have "\<dots> \<longleftrightarrow> l + n < 4 \<and> bit (lane (l + n) x) k"
  proof (cases "l + n < 4")
    case True
    then have "k + 32 * (l + n) < 128" using k by presburger
    moreover have "(k + 32 * m) div 32 = m" "(k + 32 * m) mod 32 = k" for m :: nat using k by simp_all
    ultimately show ?thesis using True by (simp only: bit_to_si128 simp_thms)
  next
    case False
    then have "128 \<le> k + 32 * (l + n)" by simp
    then show ?thesis using False by (auto dest: bit_imp_le_length)
  qed
  finally show "bit (lane l (mm_srli_si128 x (4 * n))) k = bit (if l + n < 4 then lane (l + n) x else 0) k"
    by auto
qed

section \<open>Memory\<close>

text \<open>The vectors that an array of integers holds, and the integers that stored vectors leave.\<close>

fun load_si128s :: "u32 list \<Rightarrow> m128i list" where
  "load_si128s (a # b # c # d # xs) = M128 a b c d # load_si128s xs"
| "load_si128s _ = []"

fun store_si128 :: "m128i \<Rightarrow> u32 list" where
  "store_si128 (M128 a b c d) = [a, b, c, d]"

definition store_si128s :: "m128i list \<Rightarrow> u32 list" where
  "store_si128s vs = concat (map store_si128 vs)"

lemma load_store [simp]: "load_si128s (store_si128s vs @ []) = vs" "load_si128s (store_si128s vs) = vs"
proof -
  have "load_si128s (store_si128s vs) = vs"
  proof (induction vs)
    case (Cons v vs)
    then show ?case by (cases v) (simp add: store_si128s_def)
  qed (simp add: store_si128s_def)
  then show "load_si128s (store_si128s vs @ []) = vs" "load_si128s (store_si128s vs) = vs" by simp_all
qed

lemma store_load: "length xs = 4 * n \<Longrightarrow> store_si128s (load_si128s xs) = xs \<and> length (load_si128s xs) = n"
proof (induction xs arbitrary: n rule: load_si128s.induct)
  case (1 a b c d xs)
  then obtain m where "n = Suc m" by (cases n) auto
  with 1 show ?case by (simp add: store_si128s_def)
qed (simp_all add: store_si128s_def, presburger+)

lemma length_store [simp]: "length (store_si128s vs) = 4 * length vs"
proof (induction vs)
  case (Cons v vs)
  then show ?case by (cases v) (simp add: store_si128s_def)
qed (simp add: store_si128s_def)

lemma store_append [simp]: "store_si128s (vs @ ws) = store_si128s vs @ store_si128s ws"
  by (simp add: store_si128s_def)

section \<open>Differences and sums\<close>

text \<open>What \<open>InReg\<close> holds in turn in a packer with differential encoding (\<open>CurrIn\<close> is loaded,
  \<open>InReg = Delta(CurrIn, initOffset)\<close>, \<open>initOffset = CurrIn\<close>), and what an unpacker stores
  (\<open>OutReg = PrefixSum(OutReg, initOffset)\<close>, \<open>initOffset = OutReg\<close>).\<close>

primrec deltas :: "(m128i \<Rightarrow> m128i \<Rightarrow> m128i) \<Rightarrow> m128i \<Rightarrow> m128i list \<Rightarrow> m128i list" where
  "deltas Delta initOffset [] = []"
| "deltas Delta initOffset (v # vs) = Delta v initOffset # deltas Delta v vs"

primrec prefix_sums :: "(m128i \<Rightarrow> m128i \<Rightarrow> m128i) \<Rightarrow> m128i \<Rightarrow> m128i list \<Rightarrow> m128i list" where
  "prefix_sums PrefixSum initOffset [] = []"
| "prefix_sums PrefixSum initOffset (v # vs) =
     PrefixSum v initOffset # prefix_sums PrefixSum (PrefixSum v initOffset) vs"

lemma length_deltas [simp]: "length (deltas D p vs) = length vs"
  by (induction vs arbitrary: p) simp_all

lemma length_prefix_sums [simp]: "length (prefix_sums S p vs) = length vs"
  by (induction vs arbitrary: p) simp_all

lemma deltas_prefix_sums:
  assumes "\<And>v p. PrefixSum (Delta v p) p = v"
  shows "prefix_sums PrefixSum initOffset (deltas Delta initOffset vs) = vs"
  using assms by (induction vs arbitrary: initOffset) simp_all

section \<open>Packed vectors\<close>

definition accum128 :: "m128i \<Rightarrow> m128i list \<Rightarrow> m128i" where
  "accum128 e es = foldl mm_or_si128 e es"

lemma lane_accum128 [lane_simps]: "lane l (accum128 e es) = accum (lane l e) (map (lane l) es)"
  unfolding accum128_def accum_def
  by (induction es arbitrary: e) (simp_all add: lane_simps)

text \<open>The mask \<open>_mm_set1_epi32((1U << b) - 1)\<close>; some routines write its value.\<close>

definition low_mask :: "nat \<Rightarrow> m128i" where
  "low_mask b = mm_set1_epi32 (push_bit b 1 - 1)"

lemma and_low_mask: "(x :: u32) AND (push_bit b 1 - 1) = x mod push_bit b 1"
proof -
  have "push_bit b 1 - 1 = (mask b :: u32)" by (simp add: mask_eq_exp_minus_1)
  then show ?thesis by (simp only: mod_push_bit take_bit_eq_mask)
qed

lemma lane_low_mask [lane_simps]:
  "x AND lane l (low_mask b) = x mod push_bit b 1"
  "lane l (mm_and_si128 y (low_mask b)) = lane l y mod push_bit b 1"
  by (simp_all only: lane_simps low_mask_def and_low_mask)

lemma mask_literals:
  "mm_set1_epi32 1 = low_mask 1" "mm_set1_epi32 3 = low_mask 2" "mm_set1_epi32 7 = low_mask 3"
  "mm_set1_epi32 15 = low_mask 4"
  "mm_set1_epi32 31 = low_mask 5"
  "mm_set1_epi32 63 = low_mask 6"
  "mm_set1_epi32 127 = low_mask 7"
  "mm_set1_epi32 255 = low_mask 8"
  "mm_set1_epi32 511 = low_mask 9"
  "mm_set1_epi32 1023 = low_mask 10"
  "mm_set1_epi32 2047 = low_mask 11"
  "mm_set1_epi32 4095 = low_mask 12"
  "mm_set1_epi32 8191 = low_mask 13"
  "mm_set1_epi32 16383 = low_mask 14"
  "mm_set1_epi32 32767 = low_mask 15"
  "mm_set1_epi32 65535 = low_mask 16"
  "mm_set1_epi32 131071 = low_mask 17"
  "mm_set1_epi32 262143 = low_mask 18"
  "mm_set1_epi32 524287 = low_mask 19"
  "mm_set1_epi32 1048575 = low_mask 20"
  "mm_set1_epi32 2097151 = low_mask 21"
  "mm_set1_epi32 4194303 = low_mask 22"
  "mm_set1_epi32 8388607 = low_mask 23"
  "mm_set1_epi32 16777215 = low_mask 24"
  "mm_set1_epi32 33554431 = low_mask 25"
  "mm_set1_epi32 67108863 = low_mask 26"
  "mm_set1_epi32 134217727 = low_mask 27"
  "mm_set1_epi32 268435455 = low_mask 28"
  "mm_set1_epi32 536870911 = low_mask 29"
  "mm_set1_epi32 1073741823 = low_mask 30"
  "mm_set1_epi32 2147483647 = low_mask 31"
  by (simp_all add: low_mask_def)

text \<open>A vector unpacker masks the part of a field that comes from the next word after it shifted it.\<close>

definition vfield :: "nat \<Rightarrow> u32 list \<Rightarrow> nat \<Rightarrow> u32" where
  "vfield b ws i =
     (let q = b * i div 32; r = b * i mod 32 in
      if r + b < 32 then drop_bit r (ws ! q) mod push_bit b 1
      else if r + b = 32 then drop_bit r (ws ! q)
      else drop_bit r (ws ! q) OR push_bit (32 - r) (ws ! (q + 1)) mod push_bit b 1)"

definition vunpack_ref :: "nat \<Rightarrow> u32 list \<Rightarrow> u32 list" where
  "vunpack_ref b ws = map (vfield b ws) [0..<32]"

lemma vfield_eq: "b \<le> 32 \<Longrightarrow> vfield b ws i = field b ws i"
proof -
  assume b: "b \<le> 32"
  have "push_bit (32 - r) x mod push_bit b 1 = push_bit (32 - r) ((x :: u32) mod push_bit (r + b - 32) 1)"
    if "32 < r + b" "r < 32" for r x
  proof (rule bit_word_eqI)
    fix k
    show "bit (push_bit (32 - r) x mod push_bit b 1) k = bit (push_bit (32 - r) (x mod push_bit (r + b - 32) 1)) k"
      unfolding mod_push_bit using that b by (auto simp: bit_simps)
  qed
  then show ?thesis by (simp add: vfield_def field_def Let_def)
qed

lemma vunpack_ref_eq: "b \<le> 32 \<Longrightarrow> vunpack_ref b ws = unpack_ref b ws"
  by (simp add: vunpack_ref_def unpack_ref_def vfield_eq del: upt.simps)

text \<open>\<open>vmask b\<close> is what a packer with masks makes of its input.\<close>

definition vmask :: "nat \<Rightarrow> m128i list \<Rightarrow> m128i list" where
  "vmask b = map (\<lambda>x. mm_and_si128 x (low_mask b))"

lemma length_vmask [simp]: "length (vmask b vs) = length vs"
  by (simp add: vmask_def)

lemma lane_vmask: "map (lane l) (vmask b vs) = map (take_bit b) (map (lane l) vs)"
  by (simp add: vmask_def lane_low_mask(2) take_bit_eq_mod push_bit_eq_mult)

text \<open>What it means for a routine to pack or unpack 32 vectors of width \<open>b\<close>.\<close>

definition packs :: "nat \<Rightarrow> (m128i list \<Rightarrow> m128i list) \<Rightarrow> bool" where
  "packs b f \<longleftrightarrow> (\<forall>inp l. length inp = 32 \<longrightarrow> map (lane l) (f inp) = pack_nomask_ref b (map (lane l) inp))"

definition unpacks :: "nat \<Rightarrow> (m128i list \<Rightarrow> m128i list) \<Rightarrow> bool" where
  "unpacks b f \<longleftrightarrow> (\<forall>inp l. length inp = b \<longrightarrow> map (lane l) (f inp) = unpack_ref b (map (lane l) inp))"

lemma unpacks_vunpack:
  assumes "b \<le> 32" "\<And>inp l. length inp = b \<Longrightarrow> map (lane l) (f inp) = vunpack_ref b (map (lane l) inp)"
  shows "unpacks b f"
  using assms by (simp add: unpacks_def vunpack_ref_eq)

lemma packs_length: "packs b f \<Longrightarrow> length inp = 32 \<Longrightarrow> length (f inp) = b"
proof -
  assume "packs b f" "length inp = 32"
  then have "length (map (lane 0) (f inp)) = length (pack_nomask_ref b (map (lane 0) inp))"
    unfolding packs_def by metis
  then show ?thesis by (simp add: pack_nomask_ref_def)
qed

lemma unpacks_packs:
  assumes "packs b f" "unpacks b g" "b \<le> 32" "length inp = 32" "vmask b inp = inp"
  shows "g (f inp) = inp"
proof (rule vectors_eqI)
  fix l
  have fits: "take_bit b (map (lane l) inp ! i) = map (lane l) inp ! i" if "i < 32" for i
    using arg_cong [OF assms(5), of "\<lambda>v. map (lane l) v ! i"] assms(4) that
    by (simp add: lane_vmask del: map_map)
  have "map (lane l) (g (f inp)) = unpack_ref b (map (lane l) (f inp))"
    using assms packs_length by (simp add: unpacks_def)
  also have "\<dots> = unpack_ref b (pack_ref b (map (lane l) inp))"
    using assms fits by (simp add: packs_def pack_nomask_eq)
  also have "\<dots> = map (take_bit b) (map (lane l) inp)"
    using assms by (intro unpack_pack_ref) simp_all
  also have "\<dots> = map (lane l) inp"
    using assms(5) by (metis lane_vmask)
  finally show "map (lane l) (g (f inp)) = map (lane l) inp" .
qed

lemma vmask_idem [simp]: "vmask b (vmask b vs) = vmask b vs"
  by (rule vectors_eqI) (simp add: lane_vmask del: map_map, simp add: comp_def)

lemma mm_srli_0: "mm_srli_epi32 x 0 = x"
  by (rule m128i_eqI) (simp add: lane_simps)

lemma take_bit_32 [simp]: "take_bit 32 (x :: u32) = x"
  by (rule bit_eqI) (auto simp: bit_simps dest: bit32)

lemma vmask_32 [simp]: "vmask 32 inp = inp"
  by (rule vectors_eqI) (simp add: lane_vmask del: map_map, simp)

lemma drop_bit_31_mod: "drop_bit 31 (x :: u32) mod 2 = drop_bit 31 x"
proof -
  have "take_bit b (drop_bit r x) = drop_bit r x" if "r + b = 32" for r b
  proof (rule bit_eqI)
    fix k
    show "bit (take_bit b (drop_bit r x)) k = bit (drop_bit r x) k"
      using that bit32 [of x "r + k"] by (auto simp: bit_simps)
  qed
  from this [of 31 1] show ?thesis by (simp add: take_bit_eq_mod)
qed

lemma mm_srli_31: "mm_and_si128 (mm_srli_epi32 x 31) (low_mask 1) = mm_srli_epi32 x 31"
  by (rule m128i_eqI) (simp add: lane_simps drop_bit_31_mod)

text \<open>Evaluation of a routine of a fixed width on one lane.\<close>

lemmas vpack_simps = pack_words lane_simps

lemmas vunpack_simps = vunpack_ref_def vfield_def Let_def upt_step lane_simps mask_literals drop_bit_31_mod

end
