(* ===== verification/SIMD_Pack.thy ===== *)
theory SIMD_Pack
  imports SIMD_Ref
begin

text \<open>
  The unrolled routines \<open>__SIMD_fastpackwithoutmask0\<close> to \<open>__SIMD_fastpackwithoutmask32\<close> and
  \<open>__SIMD_fastpack0\<close> to \<open>__SIMD_fastpack32\<close> of
  \<open>source/util/compression/simd-compression/simdbitpacking.cpp\<close>, one definition each: the vectors stored
  through \<open>out\<close>, with the position of \<open>in\<close> written as an index and the chain of \<open>_mm_or_si128\<close> into
  \<open>OutReg\<close> as \<open>accum128\<close>. A routine with masks first masks what it loads, called \<open>d\<close>. Every routine packs
  each of the four lanes as the reference does.
\<close>

section \<open>The routines without masks\<close>

definition SIMD_fastpackwithoutmask0 :: "m128i list \<Rightarrow> m128i list" where
  "SIMD_fastpackwithoutmask0 inp =
    []"

definition SIMD_fastpackwithoutmask1 :: "m128i list \<Rightarrow> m128i list" where
  "SIMD_fastpackwithoutmask1 inp =
    [accum128 (inp ! 0)
       [mm_slli_epi32 (inp ! 1) 1, mm_slli_epi32 (inp ! 2) 2, mm_slli_epi32 (inp ! 3) 3,
        mm_slli_epi32 (inp ! 4) 4, mm_slli_epi32 (inp ! 5) 5, mm_slli_epi32 (inp ! 6) 6,
        mm_slli_epi32 (inp ! 7) 7, mm_slli_epi32 (inp ! 8) 8, mm_slli_epi32 (inp ! 9) 9,
        mm_slli_epi32 (inp ! 10) 10, mm_slli_epi32 (inp ! 11) 11, mm_slli_epi32 (inp ! 12) 12,
        mm_slli_epi32 (inp ! 13) 13, mm_slli_epi32 (inp ! 14) 14, mm_slli_epi32 (inp ! 15) 15,
        mm_slli_epi32 (inp ! 16) 16, mm_slli_epi32 (inp ! 17) 17, mm_slli_epi32 (inp ! 18) 18,
        mm_slli_epi32 (inp ! 19) 19, mm_slli_epi32 (inp ! 20) 20, mm_slli_epi32 (inp ! 21) 21,
        mm_slli_epi32 (inp ! 22) 22, mm_slli_epi32 (inp ! 23) 23, mm_slli_epi32 (inp ! 24) 24,
        mm_slli_epi32 (inp ! 25) 25, mm_slli_epi32 (inp ! 26) 26, mm_slli_epi32 (inp ! 27) 27,
        mm_slli_epi32 (inp ! 28) 28, mm_slli_epi32 (inp ! 29) 29, mm_slli_epi32 (inp ! 30) 30,
        mm_slli_epi32 (inp ! 31) 31]]"

definition SIMD_fastpackwithoutmask2 :: "m128i list \<Rightarrow> m128i list" where
  "SIMD_fastpackwithoutmask2 inp =
    [accum128 (inp ! 0)
       [mm_slli_epi32 (inp ! 1) 2, mm_slli_epi32 (inp ! 2) 4, mm_slli_epi32 (inp ! 3) 6,
        mm_slli_epi32 (inp ! 4) 8, mm_slli_epi32 (inp ! 5) 10, mm_slli_epi32 (inp ! 6) 12,
        mm_slli_epi32 (inp ! 7) 14, mm_slli_epi32 (inp ! 8) 16, mm_slli_epi32 (inp ! 9) 18,
        mm_slli_epi32 (inp ! 10) 20, mm_slli_epi32 (inp ! 11) 22, mm_slli_epi32 (inp ! 12) 24,
        mm_slli_epi32 (inp ! 13) 26, mm_slli_epi32 (inp ! 14) 28, mm_slli_epi32 (inp ! 15) 30],
     accum128 (inp ! 16)
       [mm_slli_epi32 (inp ! 17) 2, mm_slli_epi32 (inp ! 18) 4, mm_slli_epi32 (inp ! 19) 6,
        mm_slli_epi32 (inp ! 20) 8, mm_slli_epi32 (inp ! 21) 10, mm_slli_epi32 (inp ! 22) 12,
        mm_slli_epi32 (inp ! 23) 14, mm_slli_epi32 (inp ! 24) 16, mm_slli_epi32 (inp ! 25) 18,
        mm_slli_epi32 (inp ! 26) 20, mm_slli_epi32 (inp ! 27) 22, mm_slli_epi32 (inp ! 28) 24,
        mm_slli_epi32 (inp ! 29) 26, mm_slli_epi32 (inp ! 30) 28, mm_slli_epi32 (inp ! 31) 30]]"

definition SIMD_fastpackwithoutmask3 :: "m128i list \<Rightarrow> m128i list" where
  "SIMD_fastpackwithoutmask3 inp =
    [accum128 (inp ! 0)
       [mm_slli_epi32 (inp ! 1) 3, mm_slli_epi32 (inp ! 2) 6, mm_slli_epi32 (inp ! 3) 9,
        mm_slli_epi32 (inp ! 4) 12, mm_slli_epi32 (inp ! 5) 15, mm_slli_epi32 (inp ! 6) 18,
        mm_slli_epi32 (inp ! 7) 21, mm_slli_epi32 (inp ! 8) 24, mm_slli_epi32 (inp ! 9) 27,
        mm_slli_epi32 (inp ! 10) 30],
     accum128 (mm_srli_epi32 (inp ! 10) (3 - 1))
       [mm_slli_epi32 (inp ! 11) 1, mm_slli_epi32 (inp ! 12) 4, mm_slli_epi32 (inp ! 13) 7,
        mm_slli_epi32 (inp ! 14) 10, mm_slli_epi32 (inp ! 15) 13, mm_slli_epi32 (inp ! 16) 16,
        mm_slli_epi32 (inp ! 17) 19, mm_slli_epi32 (inp ! 18) 22, mm_slli_epi32 (inp ! 19) 25,
        mm_slli_epi32 (inp ! 20) 28, mm_slli_epi32 (inp ! 21) 31],
     accum128 (mm_srli_epi32 (inp ! 21) (3 - 2))
       [mm_slli_epi32 (inp ! 22) 2, mm_slli_epi32 (inp ! 23) 5, mm_slli_epi32 (inp ! 24) 8,
        mm_slli_epi32 (inp ! 25) 11, mm_slli_epi32 (inp ! 26) 14, mm_slli_epi32 (inp ! 27) 17,
        mm_slli_epi32 (inp ! 28) 20, mm_slli_epi32 (inp ! 29) 23, mm_slli_epi32 (inp ! 30) 26,
        mm_slli_epi32 (inp ! 31) 29]]"

definition SIMD_fastpackwithoutmask4 :: "m128i list \<Rightarrow> m128i list" where
  "SIMD_fastpackwithoutmask4 inp =
    concat (map (\<lambda>outer.
     [accum128 (inp ! (8 * outer))
       [mm_slli_epi32 (inp ! (8 * outer + 1)) 4, mm_slli_epi32 (inp ! (8 * outer + 2)) 8,
        mm_slli_epi32 (inp ! (8 * outer + 3)) 12, mm_slli_epi32 (inp ! (8 * outer + 4)) 16,
        mm_slli_epi32 (inp ! (8 * outer + 5)) 20, mm_slli_epi32 (inp ! (8 * outer + 6)) 24,
        mm_slli_epi32 (inp ! (8 * outer + 7)) 28]])
     [0..<4])"

definition SIMD_fastpackwithoutmask5 :: "m128i list \<Rightarrow> m128i list" where
  "SIMD_fastpackwithoutmask5 inp =
    [accum128 (inp ! 0)
       [mm_slli_epi32 (inp ! 1) 5, mm_slli_epi32 (inp ! 2) 10, mm_slli_epi32 (inp ! 3) 15,
        mm_slli_epi32 (inp ! 4) 20, mm_slli_epi32 (inp ! 5) 25, mm_slli_epi32 (inp ! 6) 30],
     accum128 (mm_srli_epi32 (inp ! 6) (5 - 3))
       [mm_slli_epi32 (inp ! 7) 3, mm_slli_epi32 (inp ! 8) 8, mm_slli_epi32 (inp ! 9) 13,
        mm_slli_epi32 (inp ! 10) 18, mm_slli_epi32 (inp ! 11) 23, mm_slli_epi32 (inp ! 12) 28],
     accum128 (mm_srli_epi32 (inp ! 12) (5 - 1))
       [mm_slli_epi32 (inp ! 13) 1, mm_slli_epi32 (inp ! 14) 6, mm_slli_epi32 (inp ! 15) 11,
        mm_slli_epi32 (inp ! 16) 16, mm_slli_epi32 (inp ! 17) 21, mm_slli_epi32 (inp ! 18) 26,
        mm_slli_epi32 (inp ! 19) 31],
     accum128 (mm_srli_epi32 (inp ! 19) (5 - 4))
       [mm_slli_epi32 (inp ! 20) 4, mm_slli_epi32 (inp ! 21) 9, mm_slli_epi32 (inp ! 22) 14,
        mm_slli_epi32 (inp ! 23) 19, mm_slli_epi32 (inp ! 24) 24, mm_slli_epi32 (inp ! 25) 29],
     accum128 (mm_srli_epi32 (inp ! 25) (5 - 2))
       [mm_slli_epi32 (inp ! 26) 2, mm_slli_epi32 (inp ! 27) 7, mm_slli_epi32 (inp ! 28) 12,
        mm_slli_epi32 (inp ! 29) 17, mm_slli_epi32 (inp ! 30) 22, mm_slli_epi32 (inp ! 31) 27]]"

definition SIMD_fastpackwithoutmask6 :: "m128i list \<Rightarrow> m128i list" where
  "SIMD_fastpackwithoutmask6 inp =
    [accum128 (inp ! 0)
       [mm_slli_epi32 (inp ! 1) 6, mm_slli_epi32 (inp ! 2) 12, mm_slli_epi32 (inp ! 3) 18,
        mm_slli_epi32 (inp ! 4) 24, mm_slli_epi32 (inp ! 5) 30],
     accum128 (mm_srli_epi32 (inp ! 5) (6 - 4))
       [mm_slli_epi32 (inp ! 6) 4, mm_slli_epi32 (inp ! 7) 10, mm_slli_epi32 (inp ! 8) 16,
        mm_slli_epi32 (inp ! 9) 22, mm_slli_epi32 (inp ! 10) 28],
     accum128 (mm_srli_epi32 (inp ! 10) (6 - 2))
       [mm_slli_epi32 (inp ! 11) 2, mm_slli_epi32 (inp ! 12) 8, mm_slli_epi32 (inp ! 13) 14,
        mm_slli_epi32 (inp ! 14) 20, mm_slli_epi32 (inp ! 15) 26],
     accum128 (inp ! 16)
       [mm_slli_epi32 (inp ! 17) 6, mm_slli_epi32 (inp ! 18) 12, mm_slli_epi32 (inp ! 19) 18,
        mm_slli_epi32 (inp ! 20) 24, mm_slli_epi32 (inp ! 21) 30],
     accum128 (mm_srli_epi32 (inp ! 21) (6 - 4))
       [mm_slli_epi32 (inp ! 22) 4, mm_slli_epi32 (inp ! 23) 10, mm_slli_epi32 (inp ! 24) 16,
        mm_slli_epi32 (inp ! 25) 22, mm_slli_epi32 (inp ! 26) 28],
     accum128 (mm_srli_epi32 (inp ! 26) (6 - 2))
       [mm_slli_epi32 (inp ! 27) 2, mm_slli_epi32 (inp ! 28) 8, mm_slli_epi32 (inp ! 29) 14,
        mm_slli_epi32 (inp ! 30) 20, mm_slli_epi32 (inp ! 31) 26]]"

definition SIMD_fastpackwithoutmask7 :: "m128i list \<Rightarrow> m128i list" where
  "SIMD_fastpackwithoutmask7 inp =
    [accum128 (inp ! 0)
       [mm_slli_epi32 (inp ! 1) 7, mm_slli_epi32 (inp ! 2) 14, mm_slli_epi32 (inp ! 3) 21,
        mm_slli_epi32 (inp ! 4) 28],
     accum128 (mm_srli_epi32 (inp ! 4) (7 - 3))
       [mm_slli_epi32 (inp ! 5) 3, mm_slli_epi32 (inp ! 6) 10, mm_slli_epi32 (inp ! 7) 17,
        mm_slli_epi32 (inp ! 8) 24, mm_slli_epi32 (inp ! 9) 31],
     accum128 (mm_srli_epi32 (inp ! 9) (7 - 6))
       [mm_slli_epi32 (inp ! 10) 6, mm_slli_epi32 (inp ! 11) 13, mm_slli_epi32 (inp ! 12) 20,
        mm_slli_epi32 (inp ! 13) 27],
     accum128 (mm_srli_epi32 (inp ! 13) (7 - 2))
       [mm_slli_epi32 (inp ! 14) 2, mm_slli_epi32 (inp ! 15) 9, mm_slli_epi32 (inp ! 16) 16,
        mm_slli_epi32 (inp ! 17) 23, mm_slli_epi32 (inp ! 18) 30],
     accum128 (mm_srli_epi32 (inp ! 18) (7 - 5))
       [mm_slli_epi32 (inp ! 19) 5, mm_slli_epi32 (inp ! 20) 12, mm_slli_epi32 (inp ! 21) 19,
        mm_slli_epi32 (inp ! 22) 26],
     accum128 (mm_srli_epi32 (inp ! 22) (7 - 1))
       [mm_slli_epi32 (inp ! 23) 1, mm_slli_epi32 (inp ! 24) 8, mm_slli_epi32 (inp ! 25) 15,
        mm_slli_epi32 (inp ! 26) 22, mm_slli_epi32 (inp ! 27) 29],
     accum128 (mm_srli_epi32 (inp ! 27) (7 - 4))
       [mm_slli_epi32 (inp ! 28) 4, mm_slli_epi32 (inp ! 29) 11, mm_slli_epi32 (inp ! 30) 18,
        mm_slli_epi32 (inp ! 31) 25]]"

definition SIMD_fastpackwithoutmask8 :: "m128i list \<Rightarrow> m128i list" where
  "SIMD_fastpackwithoutmask8 inp =
    concat (map (\<lambda>outer.
     [accum128 (inp ! (4 * outer))
       [mm_slli_epi32 (inp ! (4 * outer + 1)) 8, mm_slli_epi32 (inp ! (4 * outer + 2)) 16,
        mm_slli_epi32 (inp ! (4 * outer + 3)) 24]])
     [0..<8])"

definition SIMD_fastpackwithoutmask9 :: "m128i list \<Rightarrow> m128i list" where
  "SIMD_fastpackwithoutmask9 inp =
    [accum128 (inp ! 0)
       [mm_slli_epi32 (inp ! 1) 9, mm_slli_epi32 (inp ! 2) 18, mm_slli_epi32 (inp ! 3) 27],
     accum128 (mm_srli_epi32 (inp ! 3) (9 - 4))
       [mm_slli_epi32 (inp ! 4) 4, mm_slli_epi32 (inp ! 5) 13, mm_slli_epi32 (inp ! 6) 22,
        mm_slli_epi32 (inp ! 7) 31],
     accum128 (mm_srli_epi32 (inp ! 7) (9 - 8))
       [mm_slli_epi32 (inp ! 8) 8, mm_slli_epi32 (inp ! 9) 17, mm_slli_epi32 (inp ! 10) 26],
     accum128 (mm_srli_epi32 (inp ! 10) (9 - 3))
       [mm_slli_epi32 (inp ! 11) 3, mm_slli_epi32 (inp ! 12) 12, mm_slli_epi32 (inp ! 13) 21,
        mm_slli_epi32 (inp ! 14) 30],
     accum128 (mm_srli_epi32 (inp ! 14) (9 - 7))
       [mm_slli_epi32 (inp ! 15) 7, mm_slli_epi32 (inp ! 16) 16, mm_slli_epi32 (inp ! 17) 25],
     accum128 (mm_srli_epi32 (inp ! 17) (9 - 2))
       [mm_slli_epi32 (inp ! 18) 2, mm_slli_epi32 (inp ! 19) 11, mm_slli_epi32 (inp ! 20) 20,
        mm_slli_epi32 (inp ! 21) 29],
     accum128 (mm_srli_epi32 (inp ! 21) (9 - 6))
       [mm_slli_epi32 (inp ! 22) 6, mm_slli_epi32 (inp ! 23) 15, mm_slli_epi32 (inp ! 24) 24],
     accum128 (mm_srli_epi32 (inp ! 24) (9 - 1))
       [mm_slli_epi32 (inp ! 25) 1, mm_slli_epi32 (inp ! 26) 10, mm_slli_epi32 (inp ! 27) 19,
        mm_slli_epi32 (inp ! 28) 28],
     accum128 (mm_srli_epi32 (inp ! 28) (9 - 5))
       [mm_slli_epi32 (inp ! 29) 5, mm_slli_epi32 (inp ! 30) 14, mm_slli_epi32 (inp ! 31) 23]]"

definition SIMD_fastpackwithoutmask10 :: "m128i list \<Rightarrow> m128i list" where
  "SIMD_fastpackwithoutmask10 inp =
    [accum128 (inp ! 0)
       [mm_slli_epi32 (inp ! 1) 10, mm_slli_epi32 (inp ! 2) 20, mm_slli_epi32 (inp ! 3) 30],
     accum128 (mm_srli_epi32 (inp ! 3) (10 - 8))
       [mm_slli_epi32 (inp ! 4) 8, mm_slli_epi32 (inp ! 5) 18, mm_slli_epi32 (inp ! 6) 28],
     accum128 (mm_srli_epi32 (inp ! 6) (10 - 6))
       [mm_slli_epi32 (inp ! 7) 6, mm_slli_epi32 (inp ! 8) 16, mm_slli_epi32 (inp ! 9) 26],
     accum128 (mm_srli_epi32 (inp ! 9) (10 - 4))
       [mm_slli_epi32 (inp ! 10) 4, mm_slli_epi32 (inp ! 11) 14, mm_slli_epi32 (inp ! 12) 24],
     accum128 (mm_srli_epi32 (inp ! 12) (10 - 2))
       [mm_slli_epi32 (inp ! 13) 2, mm_slli_epi32 (inp ! 14) 12, mm_slli_epi32 (inp ! 15) 22],
     accum128 (inp ! 16)
       [mm_slli_epi32 (inp ! 17) 10, mm_slli_epi32 (inp ! 18) 20, mm_slli_epi32 (inp ! 19) 30],
     accum128 (mm_srli_epi32 (inp ! 19) (10 - 8))
       [mm_slli_epi32 (inp ! 20) 8, mm_slli_epi32 (inp ! 21) 18, mm_slli_epi32 (inp ! 22) 28],
     accum128 (mm_srli_epi32 (inp ! 22) (10 - 6))
       [mm_slli_epi32 (inp ! 23) 6, mm_slli_epi32 (inp ! 24) 16, mm_slli_epi32 (inp ! 25) 26],
     accum128 (mm_srli_epi32 (inp ! 25) (10 - 4))
       [mm_slli_epi32 (inp ! 26) 4, mm_slli_epi32 (inp ! 27) 14, mm_slli_epi32 (inp ! 28) 24],
     accum128 (mm_srli_epi32 (inp ! 28) (10 - 2))
       [mm_slli_epi32 (inp ! 29) 2, mm_slli_epi32 (inp ! 30) 12, mm_slli_epi32 (inp ! 31) 22]]"

definition SIMD_fastpackwithoutmask11 :: "m128i list \<Rightarrow> m128i list" where
  "SIMD_fastpackwithoutmask11 inp =
    [accum128 (inp ! 0)
       [mm_slli_epi32 (inp ! 1) 11, mm_slli_epi32 (inp ! 2) 22],
     accum128 (mm_srli_epi32 (inp ! 2) (11 - 1))
       [mm_slli_epi32 (inp ! 3) 1, mm_slli_epi32 (inp ! 4) 12, mm_slli_epi32 (inp ! 5) 23],
     accum128 (mm_srli_epi32 (inp ! 5) (11 - 2))
       [mm_slli_epi32 (inp ! 6) 2, mm_slli_epi32 (inp ! 7) 13, mm_slli_epi32 (inp ! 8) 24],
     accum128 (mm_srli_epi32 (inp ! 8) (11 - 3))
       [mm_slli_epi32 (inp ! 9) 3, mm_slli_epi32 (inp ! 10) 14, mm_slli_epi32 (inp ! 11) 25],
     accum128 (mm_srli_epi32 (inp ! 11) (11 - 4))
       [mm_slli_epi32 (inp ! 12) 4, mm_slli_epi32 (inp ! 13) 15, mm_slli_epi32 (inp ! 14) 26],
     accum128 (mm_srli_epi32 (inp ! 14) (11 - 5))
       [mm_slli_epi32 (inp ! 15) 5, mm_slli_epi32 (inp ! 16) 16, mm_slli_epi32 (inp ! 17) 27],
     accum128 (mm_srli_epi32 (inp ! 17) (11 - 6))
       [mm_slli_epi32 (inp ! 18) 6, mm_slli_epi32 (inp ! 19) 17, mm_slli_epi32 (inp ! 20) 28],
     accum128 (mm_srli_epi32 (inp ! 20) (11 - 7))
       [mm_slli_epi32 (inp ! 21) 7, mm_slli_epi32 (inp ! 22) 18, mm_slli_epi32 (inp ! 23) 29],
     accum128 (mm_srli_epi32 (inp ! 23) (11 - 8))
       [mm_slli_epi32 (inp ! 24) 8, mm_slli_epi32 (inp ! 25) 19, mm_slli_epi32 (inp ! 26) 30],
     accum128 (mm_srli_epi32 (inp ! 26) (11 - 9))
       [mm_slli_epi32 (inp ! 27) 9, mm_slli_epi32 (inp ! 28) 20, mm_slli_epi32 (inp ! 29) 31],
     accum128 (mm_srli_epi32 (inp ! 29) (11 - 10))
       [mm_slli_epi32 (inp ! 30) 10, mm_slli_epi32 (inp ! 31) 21]]"

definition SIMD_fastpackwithoutmask12 :: "m128i list \<Rightarrow> m128i list" where
  "SIMD_fastpackwithoutmask12 inp =
    [accum128 (inp ! 0)
       [mm_slli_epi32 (inp ! 1) 12, mm_slli_epi32 (inp ! 2) 24],
     accum128 (mm_srli_epi32 (inp ! 2) (12 - 4))
       [mm_slli_epi32 (inp ! 3) 4, mm_slli_epi32 (inp ! 4) 16, mm_slli_epi32 (inp ! 5) 28],
     accum128 (mm_srli_epi32 (inp ! 5) (12 - 8))
       [mm_slli_epi32 (inp ! 6) 8, mm_slli_epi32 (inp ! 7) 20],
     accum128 (inp ! 8)
       [mm_slli_epi32 (inp ! 9) 12, mm_slli_epi32 (inp ! 10) 24],
     accum128 (mm_srli_epi32 (inp ! 10) (12 - 4))
       [mm_slli_epi32 (inp ! 11) 4, mm_slli_epi32 (inp ! 12) 16, mm_slli_epi32 (inp ! 13) 28],
     accum128 (mm_srli_epi32 (inp ! 13) (12 - 8))
       [mm_slli_epi32 (inp ! 14) 8, mm_slli_epi32 (inp ! 15) 20],
     accum128 (inp ! 16)
       [mm_slli_epi32 (inp ! 17) 12, mm_slli_epi32 (inp ! 18) 24],
     accum128 (mm_srli_epi32 (inp ! 18) (12 - 4))
       [mm_slli_epi32 (inp ! 19) 4, mm_slli_epi32 (inp ! 20) 16, mm_slli_epi32 (inp ! 21) 28],
     accum128 (mm_srli_epi32 (inp ! 21) (12 - 8))
       [mm_slli_epi32 (inp ! 22) 8, mm_slli_epi32 (inp ! 23) 20],
     accum128 (inp ! 24)
       [mm_slli_epi32 (inp ! 25) 12, mm_slli_epi32 (inp ! 26) 24],
     accum128 (mm_srli_epi32 (inp ! 26) (12 - 4))
       [mm_slli_epi32 (inp ! 27) 4, mm_slli_epi32 (inp ! 28) 16, mm_slli_epi32 (inp ! 29) 28],
     accum128 (mm_srli_epi32 (inp ! 29) (12 - 8))
       [mm_slli_epi32 (inp ! 30) 8, mm_slli_epi32 (inp ! 31) 20]]"

definition SIMD_fastpackwithoutmask13 :: "m128i list \<Rightarrow> m128i list" where
  "SIMD_fastpackwithoutmask13 inp =
    [accum128 (inp ! 0)
       [mm_slli_epi32 (inp ! 1) 13, mm_slli_epi32 (inp ! 2) 26],
     accum128 (mm_srli_epi32 (inp ! 2) (13 - 7))
       [mm_slli_epi32 (inp ! 3) 7, mm_slli_epi32 (inp ! 4) 20],
     accum128 (mm_srli_epi32 (inp ! 4) (13 - 1))
       [mm_slli_epi32 (inp ! 5) 1, mm_slli_epi32 (inp ! 6) 14, mm_slli_epi32 (inp ! 7) 27],
     accum128 (mm_srli_epi32 (inp ! 7) (13 - 8))
       [mm_slli_epi32 (inp ! 8) 8, mm_slli_epi32 (inp ! 9) 21],
     accum128 (mm_srli_epi32 (inp ! 9) (13 - 2))
       [mm_slli_epi32 (inp ! 10) 2, mm_slli_epi32 (inp ! 11) 15, mm_slli_epi32 (inp ! 12) 28],
     accum128 (mm_srli_epi32 (inp ! 12) (13 - 9))
       [mm_slli_epi32 (inp ! 13) 9, mm_slli_epi32 (inp ! 14) 22],
     accum128 (mm_srli_epi32 (inp ! 14) (13 - 3))
       [mm_slli_epi32 (inp ! 15) 3, mm_slli_epi32 (inp ! 16) 16, mm_slli_epi32 (inp ! 17) 29],
     accum128 (mm_srli_epi32 (inp ! 17) (13 - 10))
       [mm_slli_epi32 (inp ! 18) 10, mm_slli_epi32 (inp ! 19) 23],
     accum128 (mm_srli_epi32 (inp ! 19) (13 - 4))
       [mm_slli_epi32 (inp ! 20) 4, mm_slli_epi32 (inp ! 21) 17, mm_slli_epi32 (inp ! 22) 30],
     accum128 (mm_srli_epi32 (inp ! 22) (13 - 11))
       [mm_slli_epi32 (inp ! 23) 11, mm_slli_epi32 (inp ! 24) 24],
     accum128 (mm_srli_epi32 (inp ! 24) (13 - 5))
       [mm_slli_epi32 (inp ! 25) 5, mm_slli_epi32 (inp ! 26) 18, mm_slli_epi32 (inp ! 27) 31],
     accum128 (mm_srli_epi32 (inp ! 27) (13 - 12))
       [mm_slli_epi32 (inp ! 28) 12, mm_slli_epi32 (inp ! 29) 25],
     accum128 (mm_srli_epi32 (inp ! 29) (13 - 6))
       [mm_slli_epi32 (inp ! 30) 6, mm_slli_epi32 (inp ! 31) 19]]"

definition SIMD_fastpackwithoutmask14 :: "m128i list \<Rightarrow> m128i list" where
  "SIMD_fastpackwithoutmask14 inp =
    [accum128 (inp ! 0)
       [mm_slli_epi32 (inp ! 1) 14, mm_slli_epi32 (inp ! 2) 28],
     accum128 (mm_srli_epi32 (inp ! 2) (14 - 10))
       [mm_slli_epi32 (inp ! 3) 10, mm_slli_epi32 (inp ! 4) 24],
     accum128 (mm_srli_epi32 (inp ! 4) (14 - 6))
       [mm_slli_epi32 (inp ! 5) 6, mm_slli_epi32 (inp ! 6) 20],
     accum128 (mm_srli_epi32 (inp ! 6) (14 - 2))
       [mm_slli_epi32 (inp ! 7) 2, mm_slli_epi32 (inp ! 8) 16, mm_slli_epi32 (inp ! 9) 30],
     accum128 (mm_srli_epi32 (inp ! 9) (14 - 12))
       [mm_slli_epi32 (inp ! 10) 12, mm_slli_epi32 (inp ! 11) 26],
     accum128 (mm_srli_epi32 (inp ! 11) (14 - 8))
       [mm_slli_epi32 (inp ! 12) 8, mm_slli_epi32 (inp ! 13) 22],
     accum128 (mm_srli_epi32 (inp ! 13) (14 - 4))
       [mm_slli_epi32 (inp ! 14) 4, mm_slli_epi32 (inp ! 15) 18],
     accum128 (inp ! 16)
       [mm_slli_epi32 (inp ! 17) 14, mm_slli_epi32 (inp ! 18) 28],
     accum128 (mm_srli_epi32 (inp ! 18) (14 - 10))
       [mm_slli_epi32 (inp ! 19) 10, mm_slli_epi32 (inp ! 20) 24],
     accum128 (mm_srli_epi32 (inp ! 20) (14 - 6))
       [mm_slli_epi32 (inp ! 21) 6, mm_slli_epi32 (inp ! 22) 20],
     accum128 (mm_srli_epi32 (inp ! 22) (14 - 2))
       [mm_slli_epi32 (inp ! 23) 2, mm_slli_epi32 (inp ! 24) 16, mm_slli_epi32 (inp ! 25) 30],
     accum128 (mm_srli_epi32 (inp ! 25) (14 - 12))
       [mm_slli_epi32 (inp ! 26) 12, mm_slli_epi32 (inp ! 27) 26],
     accum128 (mm_srli_epi32 (inp ! 27) (14 - 8))
       [mm_slli_epi32 (inp ! 28) 8, mm_slli_epi32 (inp ! 29) 22],
     accum128 (mm_srli_epi32 (inp ! 29) (14 - 4))
       [mm_slli_epi32 (inp ! 30) 4, mm_slli_epi32 (inp ! 31) 18]]"

definition SIMD_fastpackwithoutmask15 :: "m128i list \<Rightarrow> m128i list" where
  "SIMD_fastpackwithoutmask15 inp =
    [accum128 (inp ! 0)
       [mm_slli_epi32 (inp ! 1) 15, mm_slli_epi32 (inp ! 2) 30],
     accum128 (mm_srli_epi32 (inp ! 2) (15 - 13))
       [mm_slli_epi32 (inp ! 3) 13, mm_slli_epi32 (inp ! 4) 28],
     accum128 (mm_srli_epi32 (inp ! 4) (15 - 11))
       [mm_slli_epi32 (inp ! 5) 11, mm_slli_epi32 (inp ! 6) 26],
     accum128 (mm_srli_epi32 (inp ! 6) (15 - 9))
       [mm_slli_epi32 (inp ! 7) 9, mm_slli_epi32 (inp ! 8) 24],
     accum128 (mm_srli_epi32 (inp ! 8) (15 - 7))
       [mm_slli_epi32 (inp ! 9) 7, mm_slli_epi32 (inp ! 10) 22],
     accum128 (mm_srli_epi32 (inp ! 10) (15 - 5))
       [mm_slli_epi32 (inp ! 11) 5, mm_slli_epi32 (inp ! 12) 20],
     accum128 (mm_srli_epi32 (inp ! 12) (15 - 3))
       [mm_slli_epi32 (inp ! 13) 3, mm_slli_epi32 (inp ! 14) 18],
     accum128 (mm_srli_epi32 (inp ! 14) (15 - 1))
       [mm_slli_epi32 (inp ! 15) 1, mm_slli_epi32 (inp ! 16) 16, mm_slli_epi32 (inp ! 17) 31],
     accum128 (mm_srli_epi32 (inp ! 17) (15 - 14))
       [mm_slli_epi32 (inp ! 18) 14, mm_slli_epi32 (inp ! 19) 29],
     accum128 (mm_srli_epi32 (inp ! 19) (15 - 12))
       [mm_slli_epi32 (inp ! 20) 12, mm_slli_epi32 (inp ! 21) 27],
     accum128 (mm_srli_epi32 (inp ! 21) (15 - 10))
       [mm_slli_epi32 (inp ! 22) 10, mm_slli_epi32 (inp ! 23) 25],
     accum128 (mm_srli_epi32 (inp ! 23) (15 - 8))
       [mm_slli_epi32 (inp ! 24) 8, mm_slli_epi32 (inp ! 25) 23],
     accum128 (mm_srli_epi32 (inp ! 25) (15 - 6))
       [mm_slli_epi32 (inp ! 26) 6, mm_slli_epi32 (inp ! 27) 21],
     accum128 (mm_srli_epi32 (inp ! 27) (15 - 4))
       [mm_slli_epi32 (inp ! 28) 4, mm_slli_epi32 (inp ! 29) 19],
     accum128 (mm_srli_epi32 (inp ! 29) (15 - 2))
       [mm_slli_epi32 (inp ! 30) 2, mm_slli_epi32 (inp ! 31) 17]]"

definition SIMD_fastpackwithoutmask16 :: "m128i list \<Rightarrow> m128i list" where
  "SIMD_fastpackwithoutmask16 inp =
    concat (map (\<lambda>outer.
     [accum128 (inp ! (2 * outer))
       [mm_slli_epi32 (inp ! (2 * outer + 1)) 16]])
     [0..<16])"

definition SIMD_fastpackwithoutmask17 :: "m128i list \<Rightarrow> m128i list" where
  "SIMD_fastpackwithoutmask17 inp =
    [accum128 (inp ! 0)
       [mm_slli_epi32 (inp ! 1) 17],
     accum128 (mm_srli_epi32 (inp ! 1) (17 - 2))
       [mm_slli_epi32 (inp ! 2) 2, mm_slli_epi32 (inp ! 3) 19],
     accum128 (mm_srli_epi32 (inp ! 3) (17 - 4))
       [mm_slli_epi32 (inp ! 4) 4, mm_slli_epi32 (inp ! 5) 21],
     accum128 (mm_srli_epi32 (inp ! 5) (17 - 6))
       [mm_slli_epi32 (inp ! 6) 6, mm_slli_epi32 (inp ! 7) 23],
     accum128 (mm_srli_epi32 (inp ! 7) (17 - 8))
       [mm_slli_epi32 (inp ! 8) 8, mm_slli_epi32 (inp ! 9) 25],
     accum128 (mm_srli_epi32 (inp ! 9) (17 - 10))
       [mm_slli_epi32 (inp ! 10) 10, mm_slli_epi32 (inp ! 11) 27],
     accum128 (mm_srli_epi32 (inp ! 11) (17 - 12))
       [mm_slli_epi32 (inp ! 12) 12, mm_slli_epi32 (inp ! 13) 29],
     accum128 (mm_srli_epi32 (inp ! 13) (17 - 14))
       [mm_slli_epi32 (inp ! 14) 14, mm_slli_epi32 (inp ! 15) 31],
     accum128 (mm_srli_epi32 (inp ! 15) (17 - 16))
       [mm_slli_epi32 (inp ! 16) 16],
     accum128 (mm_srli_epi32 (inp ! 16) (17 - 1))
       [mm_slli_epi32 (inp ! 17) 1, mm_slli_epi32 (inp ! 18) 18],
     accum128 (mm_srli_epi32 (inp ! 18) (17 - 3))
       [mm_slli_epi32 (inp ! 19) 3, mm_slli_epi32 (inp ! 20) 20],
     accum128 (mm_srli_epi32 (inp ! 20) (17 - 5))
       [mm_slli_epi32 (inp ! 21) 5, mm_slli_epi32 (inp ! 22) 22],
     accum128 (mm_srli_epi32 (inp ! 22) (17 - 7))
       [mm_slli_epi32 (inp ! 23) 7, mm_slli_epi32 (inp ! 24) 24],
     accum128 (mm_srli_epi32 (inp ! 24) (17 - 9))
       [mm_slli_epi32 (inp ! 25) 9, mm_slli_epi32 (inp ! 26) 26],
     accum128 (mm_srli_epi32 (inp ! 26) (17 - 11))
       [mm_slli_epi32 (inp ! 27) 11, mm_slli_epi32 (inp ! 28) 28],
     accum128 (mm_srli_epi32 (inp ! 28) (17 - 13))
       [mm_slli_epi32 (inp ! 29) 13, mm_slli_epi32 (inp ! 30) 30],
     accum128 (mm_srli_epi32 (inp ! 30) (17 - 15))
       [mm_slli_epi32 (inp ! 31) 15]]"

definition SIMD_fastpackwithoutmask18 :: "m128i list \<Rightarrow> m128i list" where
  "SIMD_fastpackwithoutmask18 inp =
    [accum128 (inp ! 0)
       [mm_slli_epi32 (inp ! 1) 18],
     accum128 (mm_srli_epi32 (inp ! 1) (18 - 4))
       [mm_slli_epi32 (inp ! 2) 4, mm_slli_epi32 (inp ! 3) 22],
     accum128 (mm_srli_epi32 (inp ! 3) (18 - 8))
       [mm_slli_epi32 (inp ! 4) 8, mm_slli_epi32 (inp ! 5) 26],
     accum128 (mm_srli_epi32 (inp ! 5) (18 - 12))
       [mm_slli_epi32 (inp ! 6) 12, mm_slli_epi32 (inp ! 7) 30],
     accum128 (mm_srli_epi32 (inp ! 7) (18 - 16))
       [mm_slli_epi32 (inp ! 8) 16],
     accum128 (mm_srli_epi32 (inp ! 8) (18 - 2))
       [mm_slli_epi32 (inp ! 9) 2, mm_slli_epi32 (inp ! 10) 20],
     accum128 (mm_srli_epi32 (inp ! 10) (18 - 6))
       [mm_slli_epi32 (inp ! 11) 6, mm_slli_epi32 (inp ! 12) 24],
     accum128 (mm_srli_epi32 (inp ! 12) (18 - 10))
       [mm_slli_epi32 (inp ! 13) 10, mm_slli_epi32 (inp ! 14) 28],
     accum128 (mm_srli_epi32 (inp ! 14) (18 - 14))
       [mm_slli_epi32 (inp ! 15) 14],
     accum128 (inp ! 16)
       [mm_slli_epi32 (inp ! 17) 18],
     accum128 (mm_srli_epi32 (inp ! 17) (18 - 4))
       [mm_slli_epi32 (inp ! 18) 4, mm_slli_epi32 (inp ! 19) 22],
     accum128 (mm_srli_epi32 (inp ! 19) (18 - 8))
       [mm_slli_epi32 (inp ! 20) 8, mm_slli_epi32 (inp ! 21) 26],
     accum128 (mm_srli_epi32 (inp ! 21) (18 - 12))
       [mm_slli_epi32 (inp ! 22) 12, mm_slli_epi32 (inp ! 23) 30],
     accum128 (mm_srli_epi32 (inp ! 23) (18 - 16))
       [mm_slli_epi32 (inp ! 24) 16],
     accum128 (mm_srli_epi32 (inp ! 24) (18 - 2))
       [mm_slli_epi32 (inp ! 25) 2, mm_slli_epi32 (inp ! 26) 20],
     accum128 (mm_srli_epi32 (inp ! 26) (18 - 6))
       [mm_slli_epi32 (inp ! 27) 6, mm_slli_epi32 (inp ! 28) 24],
     accum128 (mm_srli_epi32 (inp ! 28) (18 - 10))
       [mm_slli_epi32 (inp ! 29) 10, mm_slli_epi32 (inp ! 30) 28],
     accum128 (mm_srli_epi32 (inp ! 30) (18 - 14))
       [mm_slli_epi32 (inp ! 31) 14]]"

definition SIMD_fastpackwithoutmask19 :: "m128i list \<Rightarrow> m128i list" where
  "SIMD_fastpackwithoutmask19 inp =
    [accum128 (inp ! 0)
       [mm_slli_epi32 (inp ! 1) 19],
     accum128 (mm_srli_epi32 (inp ! 1) (19 - 6))
       [mm_slli_epi32 (inp ! 2) 6, mm_slli_epi32 (inp ! 3) 25],
     accum128 (mm_srli_epi32 (inp ! 3) (19 - 12))
       [mm_slli_epi32 (inp ! 4) 12, mm_slli_epi32 (inp ! 5) 31],
     accum128 (mm_srli_epi32 (inp ! 5) (19 - 18))
       [mm_slli_epi32 (inp ! 6) 18],
     accum128 (mm_srli_epi32 (inp ! 6) (19 - 5))
       [mm_slli_epi32 (inp ! 7) 5, mm_slli_epi32 (inp ! 8) 24],
     accum128 (mm_srli_epi32 (inp ! 8) (19 - 11))
       [mm_slli_epi32 (inp ! 9) 11, mm_slli_epi32 (inp ! 10) 30],
     accum128 (mm_srli_epi32 (inp ! 10) (19 - 17))
       [mm_slli_epi32 (inp ! 11) 17],
     accum128 (mm_srli_epi32 (inp ! 11) (19 - 4))
       [mm_slli_epi32 (inp ! 12) 4, mm_slli_epi32 (inp ! 13) 23],
     accum128 (mm_srli_epi32 (inp ! 13) (19 - 10))
       [mm_slli_epi32 (inp ! 14) 10, mm_slli_epi32 (inp ! 15) 29],
     accum128 (mm_srli_epi32 (inp ! 15) (19 - 16))
       [mm_slli_epi32 (inp ! 16) 16],
     accum128 (mm_srli_epi32 (inp ! 16) (19 - 3))
       [mm_slli_epi32 (inp ! 17) 3, mm_slli_epi32 (inp ! 18) 22],
     accum128 (mm_srli_epi32 (inp ! 18) (19 - 9))
       [mm_slli_epi32 (inp ! 19) 9, mm_slli_epi32 (inp ! 20) 28],
     accum128 (mm_srli_epi32 (inp ! 20) (19 - 15))
       [mm_slli_epi32 (inp ! 21) 15],
     accum128 (mm_srli_epi32 (inp ! 21) (19 - 2))
       [mm_slli_epi32 (inp ! 22) 2, mm_slli_epi32 (inp ! 23) 21],
     accum128 (mm_srli_epi32 (inp ! 23) (19 - 8))
       [mm_slli_epi32 (inp ! 24) 8, mm_slli_epi32 (inp ! 25) 27],
     accum128 (mm_srli_epi32 (inp ! 25) (19 - 14))
       [mm_slli_epi32 (inp ! 26) 14],
     accum128 (mm_srli_epi32 (inp ! 26) (19 - 1))
       [mm_slli_epi32 (inp ! 27) 1, mm_slli_epi32 (inp ! 28) 20],
     accum128 (mm_srli_epi32 (inp ! 28) (19 - 7))
       [mm_slli_epi32 (inp ! 29) 7, mm_slli_epi32 (inp ! 30) 26],
     accum128 (mm_srli_epi32 (inp ! 30) (19 - 13))
       [mm_slli_epi32 (inp ! 31) 13]]"

definition SIMD_fastpackwithoutmask20 :: "m128i list \<Rightarrow> m128i list" where
  "SIMD_fastpackwithoutmask20 inp =
    [accum128 (inp ! 0)
       [mm_slli_epi32 (inp ! 1) 20],
     accum128 (mm_srli_epi32 (inp ! 1) (20 - 8))
       [mm_slli_epi32 (inp ! 2) 8, mm_slli_epi32 (inp ! 3) 28],
     accum128 (mm_srli_epi32 (inp ! 3) (20 - 16))
       [mm_slli_epi32 (inp ! 4) 16],
     accum128 (mm_srli_epi32 (inp ! 4) (20 - 4))
       [mm_slli_epi32 (inp ! 5) 4, mm_slli_epi32 (inp ! 6) 24],
     accum128 (mm_srli_epi32 (inp ! 6) (20 - 12))
       [mm_slli_epi32 (inp ! 7) 12],
     accum128 (inp ! 8)
       [mm_slli_epi32 (inp ! 9) 20],
     accum128 (mm_srli_epi32 (inp ! 9) (20 - 8))
       [mm_slli_epi32 (inp ! 10) 8, mm_slli_epi32 (inp ! 11) 28],
     accum128 (mm_srli_epi32 (inp ! 11) (20 - 16))
       [mm_slli_epi32 (inp ! 12) 16],
     accum128 (mm_srli_epi32 (inp ! 12) (20 - 4))
       [mm_slli_epi32 (inp ! 13) 4, mm_slli_epi32 (inp ! 14) 24],
     accum128 (mm_srli_epi32 (inp ! 14) (20 - 12))
       [mm_slli_epi32 (inp ! 15) 12],
     accum128 (inp ! 16)
       [mm_slli_epi32 (inp ! 17) 20],
     accum128 (mm_srli_epi32 (inp ! 17) (20 - 8))
       [mm_slli_epi32 (inp ! 18) 8, mm_slli_epi32 (inp ! 19) 28],
     accum128 (mm_srli_epi32 (inp ! 19) (20 - 16))
       [mm_slli_epi32 (inp ! 20) 16],
     accum128 (mm_srli_epi32 (inp ! 20) (20 - 4))
       [mm_slli_epi32 (inp ! 21) 4, mm_slli_epi32 (inp ! 22) 24],
     accum128 (mm_srli_epi32 (inp ! 22) (20 - 12))
       [mm_slli_epi32 (inp ! 23) 12],
     accum128 (inp ! 24)
       [mm_slli_epi32 (inp ! 25) 20],
     accum128 (mm_srli_epi32 (inp ! 25) (20 - 8))
       [mm_slli_epi32 (inp ! 26) 8, mm_slli_epi32 (inp ! 27) 28],
     accum128 (mm_srli_epi32 (inp ! 27) (20 - 16))
       [mm_slli_epi32 (inp ! 28) 16],
     accum128 (mm_srli_epi32 (inp ! 28) (20 - 4))
       [mm_slli_epi32 (inp ! 29) 4, mm_slli_epi32 (inp ! 30) 24],
     accum128 (mm_srli_epi32 (inp ! 30) (20 - 12))
       [mm_slli_epi32 (inp ! 31) 12]]"

definition SIMD_fastpackwithoutmask21 :: "m128i list \<Rightarrow> m128i list" where
  "SIMD_fastpackwithoutmask21 inp =
    [accum128 (inp ! 0)
       [mm_slli_epi32 (inp ! 1) 21],
     accum128 (mm_srli_epi32 (inp ! 1) (21 - 10))
       [mm_slli_epi32 (inp ! 2) 10, mm_slli_epi32 (inp ! 3) 31],
     accum128 (mm_srli_epi32 (inp ! 3) (21 - 20))
       [mm_slli_epi32 (inp ! 4) 20],
     accum128 (mm_srli_epi32 (inp ! 4) (21 - 9))
       [mm_slli_epi32 (inp ! 5) 9, mm_slli_epi32 (inp ! 6) 30],
     accum128 (mm_srli_epi32 (inp ! 6) (21 - 19))
       [mm_slli_epi32 (inp ! 7) 19],
     accum128 (mm_srli_epi32 (inp ! 7) (21 - 8))
       [mm_slli_epi32 (inp ! 8) 8, mm_slli_epi32 (inp ! 9) 29],
     accum128 (mm_srli_epi32 (inp ! 9) (21 - 18))
       [mm_slli_epi32 (inp ! 10) 18],
     accum128 (mm_srli_epi32 (inp ! 10) (21 - 7))
       [mm_slli_epi32 (inp ! 11) 7, mm_slli_epi32 (inp ! 12) 28],
     accum128 (mm_srli_epi32 (inp ! 12) (21 - 17))
       [mm_slli_epi32 (inp ! 13) 17],
     accum128 (mm_srli_epi32 (inp ! 13) (21 - 6))
       [mm_slli_epi32 (inp ! 14) 6, mm_slli_epi32 (inp ! 15) 27],
     accum128 (mm_srli_epi32 (inp ! 15) (21 - 16))
       [mm_slli_epi32 (inp ! 16) 16],
     accum128 (mm_srli_epi32 (inp ! 16) (21 - 5))
       [mm_slli_epi32 (inp ! 17) 5, mm_slli_epi32 (inp ! 18) 26],
     accum128 (mm_srli_epi32 (inp ! 18) (21 - 15))
       [mm_slli_epi32 (inp ! 19) 15],
     accum128 (mm_srli_epi32 (inp ! 19) (21 - 4))
       [mm_slli_epi32 (inp ! 20) 4, mm_slli_epi32 (inp ! 21) 25],
     accum128 (mm_srli_epi32 (inp ! 21) (21 - 14))
       [mm_slli_epi32 (inp ! 22) 14],
     accum128 (mm_srli_epi32 (inp ! 22) (21 - 3))
       [mm_slli_epi32 (inp ! 23) 3, mm_slli_epi32 (inp ! 24) 24],
     accum128 (mm_srli_epi32 (inp ! 24) (21 - 13))
       [mm_slli_epi32 (inp ! 25) 13],
     accum128 (mm_srli_epi32 (inp ! 25) (21 - 2))
       [mm_slli_epi32 (inp ! 26) 2, mm_slli_epi32 (inp ! 27) 23],
     accum128 (mm_srli_epi32 (inp ! 27) (21 - 12))
       [mm_slli_epi32 (inp ! 28) 12],
     accum128 (mm_srli_epi32 (inp ! 28) (21 - 1))
       [mm_slli_epi32 (inp ! 29) 1, mm_slli_epi32 (inp ! 30) 22],
     accum128 (mm_srli_epi32 (inp ! 30) (21 - 11))
       [mm_slli_epi32 (inp ! 31) 11]]"

definition SIMD_fastpackwithoutmask22 :: "m128i list \<Rightarrow> m128i list" where
  "SIMD_fastpackwithoutmask22 inp =
    [accum128 (inp ! 0)
       [mm_slli_epi32 (inp ! 1) 22],
     accum128 (mm_srli_epi32 (inp ! 1) (22 - 12))
       [mm_slli_epi32 (inp ! 2) 12],
     accum128 (mm_srli_epi32 (inp ! 2) (22 - 2))
       [mm_slli_epi32 (inp ! 3) 2, mm_slli_epi32 (inp ! 4) 24],
     accum128 (mm_srli_epi32 (inp ! 4) (22 - 14))
       [mm_slli_epi32 (inp ! 5) 14],
     accum128 (mm_srli_epi32 (inp ! 5) (22 - 4))
       [mm_slli_epi32 (inp ! 6) 4, mm_slli_epi32 (inp ! 7) 26],
     accum128 (mm_srli_epi32 (inp ! 7) (22 - 16))
       [mm_slli_epi32 (inp ! 8) 16],
     accum128 (mm_srli_epi32 (inp ! 8) (22 - 6))
       [mm_slli_epi32 (inp ! 9) 6, mm_slli_epi32 (inp ! 10) 28],
     accum128 (mm_srli_epi32 (inp ! 10) (22 - 18))
       [mm_slli_epi32 (inp ! 11) 18],
     accum128 (mm_srli_epi32 (inp ! 11) (22 - 8))
       [mm_slli_epi32 (inp ! 12) 8, mm_slli_epi32 (inp ! 13) 30],
     accum128 (mm_srli_epi32 (inp ! 13) (22 - 20))
       [mm_slli_epi32 (inp ! 14) 20],
     accum128 (mm_srli_epi32 (inp ! 14) (22 - 10))
       [mm_slli_epi32 (inp ! 15) 10],
     accum128 (inp ! 16)
       [mm_slli_epi32 (inp ! 17) 22],
     accum128 (mm_srli_epi32 (inp ! 17) (22 - 12))
       [mm_slli_epi32 (inp ! 18) 12],
     accum128 (mm_srli_epi32 (inp ! 18) (22 - 2))
       [mm_slli_epi32 (inp ! 19) 2, mm_slli_epi32 (inp ! 20) 24],
     accum128 (mm_srli_epi32 (inp ! 20) (22 - 14))
       [mm_slli_epi32 (inp ! 21) 14],
     accum128 (mm_srli_epi32 (inp ! 21) (22 - 4))
       [mm_slli_epi32 (inp ! 22) 4, mm_slli_epi32 (inp ! 23) 26],
     accum128 (mm_srli_epi32 (inp ! 23) (22 - 16))
       [mm_slli_epi32 (inp ! 24) 16],
     accum128 (mm_srli_epi32 (inp ! 24) (22 - 6))
       [mm_slli_epi32 (inp ! 25) 6, mm_slli_epi32 (inp ! 26) 28],
     accum128 (mm_srli_epi32 (inp ! 26) (22 - 18))
       [mm_slli_epi32 (inp ! 27) 18],
     accum128 (mm_srli_epi32 (inp ! 27) (22 - 8))
       [mm_slli_epi32 (inp ! 28) 8, mm_slli_epi32 (inp ! 29) 30],
     accum128 (mm_srli_epi32 (inp ! 29) (22 - 20))
       [mm_slli_epi32 (inp ! 30) 20],
     accum128 (mm_srli_epi32 (inp ! 30) (22 - 10))
       [mm_slli_epi32 (inp ! 31) 10]]"

definition SIMD_fastpackwithoutmask23 :: "m128i list \<Rightarrow> m128i list" where
  "SIMD_fastpackwithoutmask23 inp =
    [accum128 (inp ! 0)
       [mm_slli_epi32 (inp ! 1) 23],
     accum128 (mm_srli_epi32 (inp ! 1) (23 - 14))
       [mm_slli_epi32 (inp ! 2) 14],
     accum128 (mm_srli_epi32 (inp ! 2) (23 - 5))
       [mm_slli_epi32 (inp ! 3) 5, mm_slli_epi32 (inp ! 4) 28],
     accum128 (mm_srli_epi32 (inp ! 4) (23 - 19))
       [mm_slli_epi32 (inp ! 5) 19],
     accum128 (mm_srli_epi32 (inp ! 5) (23 - 10))
       [mm_slli_epi32 (inp ! 6) 10],
     accum128 (mm_srli_epi32 (inp ! 6) (23 - 1))
       [mm_slli_epi32 (inp ! 7) 1, mm_slli_epi32 (inp ! 8) 24],
     accum128 (mm_srli_epi32 (inp ! 8) (23 - 15))
       [mm_slli_epi32 (inp ! 9) 15],
     accum128 (mm_srli_epi32 (inp ! 9) (23 - 6))
       [mm_slli_epi32 (inp ! 10) 6, mm_slli_epi32 (inp ! 11) 29],
     accum128 (mm_srli_epi32 (inp ! 11) (23 - 20))
       [mm_slli_epi32 (inp ! 12) 20],
     accum128 (mm_srli_epi32 (inp ! 12) (23 - 11))
       [mm_slli_epi32 (inp ! 13) 11],
     accum128 (mm_srli_epi32 (inp ! 13) (23 - 2))
       [mm_slli_epi32 (inp ! 14) 2, mm_slli_epi32 (inp ! 15) 25],
     accum128 (mm_srli_epi32 (inp ! 15) (23 - 16))
       [mm_slli_epi32 (inp ! 16) 16],
     accum128 (mm_srli_epi32 (inp ! 16) (23 - 7))
       [mm_slli_epi32 (inp ! 17) 7, mm_slli_epi32 (inp ! 18) 30],
     accum128 (mm_srli_epi32 (inp ! 18) (23 - 21))
       [mm_slli_epi32 (inp ! 19) 21],
     accum128 (mm_srli_epi32 (inp ! 19) (23 - 12))
       [mm_slli_epi32 (inp ! 20) 12],
     accum128 (mm_srli_epi32 (inp ! 20) (23 - 3))
       [mm_slli_epi32 (inp ! 21) 3, mm_slli_epi32 (inp ! 22) 26],
     accum128 (mm_srli_epi32 (inp ! 22) (23 - 17))
       [mm_slli_epi32 (inp ! 23) 17],
     accum128 (mm_srli_epi32 (inp ! 23) (23 - 8))
       [mm_slli_epi32 (inp ! 24) 8, mm_slli_epi32 (inp ! 25) 31],
     accum128 (mm_srli_epi32 (inp ! 25) (23 - 22))
       [mm_slli_epi32 (inp ! 26) 22],
     accum128 (mm_srli_epi32 (inp ! 26) (23 - 13))
       [mm_slli_epi32 (inp ! 27) 13],
     accum128 (mm_srli_epi32 (inp ! 27) (23 - 4))
       [mm_slli_epi32 (inp ! 28) 4, mm_slli_epi32 (inp ! 29) 27],
     accum128 (mm_srli_epi32 (inp ! 29) (23 - 18))
       [mm_slli_epi32 (inp ! 30) 18],
     accum128 (mm_srli_epi32 (inp ! 30) (23 - 9))
       [mm_slli_epi32 (inp ! 31) 9]]"

definition SIMD_fastpackwithoutmask24 :: "m128i list \<Rightarrow> m128i list" where
  "SIMD_fastpackwithoutmask24 inp =
    [accum128 (inp ! 0)
       [mm_slli_epi32 (inp ! 1) 24],
     accum128 (mm_srli_epi32 (inp ! 1) (24 - 16))
       [mm_slli_epi32 (inp ! 2) 16],
     accum128 (mm_srli_epi32 (inp ! 2) (24 - 8))
       [mm_slli_epi32 (inp ! 3) 8],
     accum128 (inp ! 4)
       [mm_slli_epi32 (inp ! 5) 24],
     accum128 (mm_srli_epi32 (inp ! 5) (24 - 16))
       [mm_slli_epi32 (inp ! 6) 16],
     accum128 (mm_srli_epi32 (inp ! 6) (24 - 8))
       [mm_slli_epi32 (inp ! 7) 8],
     accum128 (inp ! 8)
       [mm_slli_epi32 (inp ! 9) 24],
     accum128 (mm_srli_epi32 (inp ! 9) (24 - 16))
       [mm_slli_epi32 (inp ! 10) 16],
     accum128 (mm_srli_epi32 (inp ! 10) (24 - 8))
       [mm_slli_epi32 (inp ! 11) 8],
     accum128 (inp ! 12)
       [mm_slli_epi32 (inp ! 13) 24],
     accum128 (mm_srli_epi32 (inp ! 13) (24 - 16))
       [mm_slli_epi32 (inp ! 14) 16],
     accum128 (mm_srli_epi32 (inp ! 14) (24 - 8))
       [mm_slli_epi32 (inp ! 15) 8],
     accum128 (inp ! 16)
       [mm_slli_epi32 (inp ! 17) 24],
     accum128 (mm_srli_epi32 (inp ! 17) (24 - 16))
       [mm_slli_epi32 (inp ! 18) 16],
     accum128 (mm_srli_epi32 (inp ! 18) (24 - 8))
       [mm_slli_epi32 (inp ! 19) 8],
     accum128 (inp ! 20)
       [mm_slli_epi32 (inp ! 21) 24],
     accum128 (mm_srli_epi32 (inp ! 21) (24 - 16))
       [mm_slli_epi32 (inp ! 22) 16],
     accum128 (mm_srli_epi32 (inp ! 22) (24 - 8))
       [mm_slli_epi32 (inp ! 23) 8],
     accum128 (inp ! 24)
       [mm_slli_epi32 (inp ! 25) 24],
     accum128 (mm_srli_epi32 (inp ! 25) (24 - 16))
       [mm_slli_epi32 (inp ! 26) 16],
     accum128 (mm_srli_epi32 (inp ! 26) (24 - 8))
       [mm_slli_epi32 (inp ! 27) 8],
     accum128 (inp ! 28)
       [mm_slli_epi32 (inp ! 29) 24],
     accum128 (mm_srli_epi32 (inp ! 29) (24 - 16))
       [mm_slli_epi32 (inp ! 30) 16],
     accum128 (mm_srli_epi32 (inp ! 30) (24 - 8))
       [mm_slli_epi32 (inp ! 31) 8]]"

definition SIMD_fastpackwithoutmask25 :: "m128i list \<Rightarrow> m128i list" where
  "SIMD_fastpackwithoutmask25 inp =
    [accum128 (inp ! 0)
       [mm_slli_epi32 (inp ! 1) 25],
     accum128 (mm_srli_epi32 (inp ! 1) (25 - 18))
       [mm_slli_epi32 (inp ! 2) 18],
     accum128 (mm_srli_epi32 (inp ! 2) (25 - 11))
       [mm_slli_epi32 (inp ! 3) 11],
     accum128 (mm_srli_epi32 (inp ! 3) (25 - 4))
       [mm_slli_epi32 (inp ! 4) 4, mm_slli_epi32 (inp ! 5) 29],
     accum128 (mm_srli_epi32 (inp ! 5) (25 - 22))
       [mm_slli_epi32 (inp ! 6) 22],
     accum128 (mm_srli_epi32 (inp ! 6) (25 - 15))
       [mm_slli_epi32 (inp ! 7) 15],
     accum128 (mm_srli_epi32 (inp ! 7) (25 - 8))
       [mm_slli_epi32 (inp ! 8) 8],
     accum128 (mm_srli_epi32 (inp ! 8) (25 - 1))
       [mm_slli_epi32 (inp ! 9) 1, mm_slli_epi32 (inp ! 10) 26],
     accum128 (mm_srli_epi32 (inp ! 10) (25 - 19))
       [mm_slli_epi32 (inp ! 11) 19],
     accum128 (mm_srli_epi32 (inp ! 11) (25 - 12))
       [mm_slli_epi32 (inp ! 12) 12],
     accum128 (mm_srli_epi32 (inp ! 12) (25 - 5))
       [mm_slli_epi32 (inp ! 13) 5, mm_slli_epi32 (inp ! 14) 30],
     accum128 (mm_srli_epi32 (inp ! 14) (25 - 23))
       [mm_slli_epi32 (inp ! 15) 23],
     accum128 (mm_srli_epi32 (inp ! 15) (25 - 16))
       [mm_slli_epi32 (inp ! 16) 16],
     accum128 (mm_srli_epi32 (inp ! 16) (25 - 9))
       [mm_slli_epi32 (inp ! 17) 9],
     accum128 (mm_srli_epi32 (inp ! 17) (25 - 2))
       [mm_slli_epi32 (inp ! 18) 2, mm_slli_epi32 (inp ! 19) 27],
     accum128 (mm_srli_epi32 (inp ! 19) (25 - 20))
       [mm_slli_epi32 (inp ! 20) 20],
     accum128 (mm_srli_epi32 (inp ! 20) (25 - 13))
       [mm_slli_epi32 (inp ! 21) 13],
     accum128 (mm_srli_epi32 (inp ! 21) (25 - 6))
       [mm_slli_epi32 (inp ! 22) 6, mm_slli_epi32 (inp ! 23) 31],
     accum128 (mm_srli_epi32 (inp ! 23) (25 - 24))
       [mm_slli_epi32 (inp ! 24) 24],
     accum128 (mm_srli_epi32 (inp ! 24) (25 - 17))
       [mm_slli_epi32 (inp ! 25) 17],
     accum128 (mm_srli_epi32 (inp ! 25) (25 - 10))
       [mm_slli_epi32 (inp ! 26) 10],
     accum128 (mm_srli_epi32 (inp ! 26) (25 - 3))
       [mm_slli_epi32 (inp ! 27) 3, mm_slli_epi32 (inp ! 28) 28],
     accum128 (mm_srli_epi32 (inp ! 28) (25 - 21))
       [mm_slli_epi32 (inp ! 29) 21],
     accum128 (mm_srli_epi32 (inp ! 29) (25 - 14))
       [mm_slli_epi32 (inp ! 30) 14],
     accum128 (mm_srli_epi32 (inp ! 30) (25 - 7))
       [mm_slli_epi32 (inp ! 31) 7]]"

definition SIMD_fastpackwithoutmask26 :: "m128i list \<Rightarrow> m128i list" where
  "SIMD_fastpackwithoutmask26 inp =
    [accum128 (inp ! 0)
       [mm_slli_epi32 (inp ! 1) 26],
     accum128 (mm_srli_epi32 (inp ! 1) (26 - 20))
       [mm_slli_epi32 (inp ! 2) 20],
     accum128 (mm_srli_epi32 (inp ! 2) (26 - 14))
       [mm_slli_epi32 (inp ! 3) 14],
     accum128 (mm_srli_epi32 (inp ! 3) (26 - 8))
       [mm_slli_epi32 (inp ! 4) 8],
     accum128 (mm_srli_epi32 (inp ! 4) (26 - 2))
       [mm_slli_epi32 (inp ! 5) 2, mm_slli_epi32 (inp ! 6) 28],
     accum128 (mm_srli_epi32 (inp ! 6) (26 - 22))
       [mm_slli_epi32 (inp ! 7) 22],
     accum128 (mm_srli_epi32 (inp ! 7) (26 - 16))
       [mm_slli_epi32 (inp ! 8) 16],
     accum128 (mm_srli_epi32 (inp ! 8) (26 - 10))
       [mm_slli_epi32 (inp ! 9) 10],
     accum128 (mm_srli_epi32 (inp ! 9) (26 - 4))
       [mm_slli_epi32 (inp ! 10) 4, mm_slli_epi32 (inp ! 11) 30],
     accum128 (mm_srli_epi32 (inp ! 11) (26 - 24))
       [mm_slli_epi32 (inp ! 12) 24],
     accum128 (mm_srli_epi32 (inp ! 12) (26 - 18))
       [mm_slli_epi32 (inp ! 13) 18],
     accum128 (mm_srli_epi32 (inp ! 13) (26 - 12))
       [mm_slli_epi32 (inp ! 14) 12],
     accum128 (mm_srli_epi32 (inp ! 14) (26 - 6))
       [mm_slli_epi32 (inp ! 15) 6],
     accum128 (inp ! 16)
       [mm_slli_epi32 (inp ! 17) 26],
     accum128 (mm_srli_epi32 (inp ! 17) (26 - 20))
       [mm_slli_epi32 (inp ! 18) 20],
     accum128 (mm_srli_epi32 (inp ! 18) (26 - 14))
       [mm_slli_epi32 (inp ! 19) 14],
     accum128 (mm_srli_epi32 (inp ! 19) (26 - 8))
       [mm_slli_epi32 (inp ! 20) 8],
     accum128 (mm_srli_epi32 (inp ! 20) (26 - 2))
       [mm_slli_epi32 (inp ! 21) 2, mm_slli_epi32 (inp ! 22) 28],
     accum128 (mm_srli_epi32 (inp ! 22) (26 - 22))
       [mm_slli_epi32 (inp ! 23) 22],
     accum128 (mm_srli_epi32 (inp ! 23) (26 - 16))
       [mm_slli_epi32 (inp ! 24) 16],
     accum128 (mm_srli_epi32 (inp ! 24) (26 - 10))
       [mm_slli_epi32 (inp ! 25) 10],
     accum128 (mm_srli_epi32 (inp ! 25) (26 - 4))
       [mm_slli_epi32 (inp ! 26) 4, mm_slli_epi32 (inp ! 27) 30],
     accum128 (mm_srli_epi32 (inp ! 27) (26 - 24))
       [mm_slli_epi32 (inp ! 28) 24],
     accum128 (mm_srli_epi32 (inp ! 28) (26 - 18))
       [mm_slli_epi32 (inp ! 29) 18],
     accum128 (mm_srli_epi32 (inp ! 29) (26 - 12))
       [mm_slli_epi32 (inp ! 30) 12],
     accum128 (mm_srli_epi32 (inp ! 30) (26 - 6))
       [mm_slli_epi32 (inp ! 31) 6]]"

definition SIMD_fastpackwithoutmask27 :: "m128i list \<Rightarrow> m128i list" where
  "SIMD_fastpackwithoutmask27 inp =
    [accum128 (inp ! 0)
       [mm_slli_epi32 (inp ! 1) 27],
     accum128 (mm_srli_epi32 (inp ! 1) (27 - 22))
       [mm_slli_epi32 (inp ! 2) 22],
     accum128 (mm_srli_epi32 (inp ! 2) (27 - 17))
       [mm_slli_epi32 (inp ! 3) 17],
     accum128 (mm_srli_epi32 (inp ! 3) (27 - 12))
       [mm_slli_epi32 (inp ! 4) 12],
     accum128 (mm_srli_epi32 (inp ! 4) (27 - 7))
       [mm_slli_epi32 (inp ! 5) 7],
     accum128 (mm_srli_epi32 (inp ! 5) (27 - 2))
       [mm_slli_epi32 (inp ! 6) 2, mm_slli_epi32 (inp ! 7) 29],
     accum128 (mm_srli_epi32 (inp ! 7) (27 - 24))
       [mm_slli_epi32 (inp ! 8) 24],
     accum128 (mm_srli_epi32 (inp ! 8) (27 - 19))
       [mm_slli_epi32 (inp ! 9) 19],
     accum128 (mm_srli_epi32 (inp ! 9) (27 - 14))
       [mm_slli_epi32 (inp ! 10) 14],
     accum128 (mm_srli_epi32 (inp ! 10) (27 - 9))
       [mm_slli_epi32 (inp ! 11) 9],
     accum128 (mm_srli_epi32 (inp ! 11) (27 - 4))
       [mm_slli_epi32 (inp ! 12) 4, mm_slli_epi32 (inp ! 13) 31],
     accum128 (mm_srli_epi32 (inp ! 13) (27 - 26))
       [mm_slli_epi32 (inp ! 14) 26],
     accum128 (mm_srli_epi32 (inp ! 14) (27 - 21))
       [mm_slli_epi32 (inp ! 15) 21],
     accum128 (mm_srli_epi32 (inp ! 15) (27 - 16))
       [mm_slli_epi32 (inp ! 16) 16],
     accum128 (mm_srli_epi32 (inp ! 16) (27 - 11))
       [mm_slli_epi32 (inp ! 17) 11],
     accum128 (mm_srli_epi32 (inp ! 17) (27 - 6))
       [mm_slli_epi32 (inp ! 18) 6],
     accum128 (mm_srli_epi32 (inp ! 18) (27 - 1))
       [mm_slli_epi32 (inp ! 19) 1, mm_slli_epi32 (inp ! 20) 28],
     accum128 (mm_srli_epi32 (inp ! 20) (27 - 23))
       [mm_slli_epi32 (inp ! 21) 23],
     accum128 (mm_srli_epi32 (inp ! 21) (27 - 18))
       [mm_slli_epi32 (inp ! 22) 18],
     accum128 (mm_srli_epi32 (inp ! 22) (27 - 13))
       [mm_slli_epi32 (inp ! 23) 13],
     accum128 (mm_srli_epi32 (inp ! 23) (27 - 8))
       [mm_slli_epi32 (inp ! 24) 8],
     accum128 (mm_srli_epi32 (inp ! 24) (27 - 3))
       [mm_slli_epi32 (inp ! 25) 3, mm_slli_epi32 (inp ! 26) 30],
     accum128 (mm_srli_epi32 (inp ! 26) (27 - 25))
       [mm_slli_epi32 (inp ! 27) 25],
     accum128 (mm_srli_epi32 (inp ! 27) (27 - 20))
       [mm_slli_epi32 (inp ! 28) 20],
     accum128 (mm_srli_epi32 (inp ! 28) (27 - 15))
       [mm_slli_epi32 (inp ! 29) 15],
     accum128 (mm_srli_epi32 (inp ! 29) (27 - 10))
       [mm_slli_epi32 (inp ! 30) 10],
     accum128 (mm_srli_epi32 (inp ! 30) (27 - 5))
       [mm_slli_epi32 (inp ! 31) 5]]"

definition SIMD_fastpackwithoutmask28 :: "m128i list \<Rightarrow> m128i list" where
  "SIMD_fastpackwithoutmask28 inp =
    [accum128 (inp ! 0)
       [mm_slli_epi32 (inp ! 1) 28],
     accum128 (mm_srli_epi32 (inp ! 1) (28 - 24))
       [mm_slli_epi32 (inp ! 2) 24],
     accum128 (mm_srli_epi32 (inp ! 2) (28 - 20))
       [mm_slli_epi32 (inp ! 3) 20],
     accum128 (mm_srli_epi32 (inp ! 3) (28 - 16))
       [mm_slli_epi32 (inp ! 4) 16],
     accum128 (mm_srli_epi32 (inp ! 4) (28 - 12))
       [mm_slli_epi32 (inp ! 5) 12],
     accum128 (mm_srli_epi32 (inp ! 5) (28 - 8))
       [mm_slli_epi32 (inp ! 6) 8],
     accum128 (mm_srli_epi32 (inp ! 6) (28 - 4))
       [mm_slli_epi32 (inp ! 7) 4],
     accum128 (inp ! 8)
       [mm_slli_epi32 (inp ! 9) 28],
     accum128 (mm_srli_epi32 (inp ! 9) (28 - 24))
       [mm_slli_epi32 (inp ! 10) 24],
     accum128 (mm_srli_epi32 (inp ! 10) (28 - 20))
       [mm_slli_epi32 (inp ! 11) 20],
     accum128 (mm_srli_epi32 (inp ! 11) (28 - 16))
       [mm_slli_epi32 (inp ! 12) 16],
     accum128 (mm_srli_epi32 (inp ! 12) (28 - 12))
       [mm_slli_epi32 (inp ! 13) 12],
     accum128 (mm_srli_epi32 (inp ! 13) (28 - 8))
       [mm_slli_epi32 (inp ! 14) 8],
     accum128 (mm_srli_epi32 (inp ! 14) (28 - 4))
       [mm_slli_epi32 (inp ! 15) 4],
     accum128 (inp ! 16)
       [mm_slli_epi32 (inp ! 17) 28],
     accum128 (mm_srli_epi32 (inp ! 17) (28 - 24))
       [mm_slli_epi32 (inp ! 18) 24],
     accum128 (mm_srli_epi32 (inp ! 18) (28 - 20))
       [mm_slli_epi32 (inp ! 19) 20],
     accum128 (mm_srli_epi32 (inp ! 19) (28 - 16))
       [mm_slli_epi32 (inp ! 20) 16],
     accum128 (mm_srli_epi32 (inp ! 20) (28 - 12))
       [mm_slli_epi32 (inp ! 21) 12],
     accum128 (mm_srli_epi32 (inp ! 21) (28 - 8))
       [mm_slli_epi32 (inp ! 22) 8],
     accum128 (mm_srli_epi32 (inp ! 22) (28 - 4))
       [mm_slli_epi32 (inp ! 23) 4],
     accum128 (inp ! 24)
       [mm_slli_epi32 (inp ! 25) 28],
     accum128 (mm_srli_epi32 (inp ! 25) (28 - 24))
       [mm_slli_epi32 (inp ! 26) 24],
     accum128 (mm_srli_epi32 (inp ! 26) (28 - 20))
       [mm_slli_epi32 (inp ! 27) 20],
     accum128 (mm_srli_epi32 (inp ! 27) (28 - 16))
       [mm_slli_epi32 (inp ! 28) 16],
     accum128 (mm_srli_epi32 (inp ! 28) (28 - 12))
       [mm_slli_epi32 (inp ! 29) 12],
     accum128 (mm_srli_epi32 (inp ! 29) (28 - 8))
       [mm_slli_epi32 (inp ! 30) 8],
     accum128 (mm_srli_epi32 (inp ! 30) (28 - 4))
       [mm_slli_epi32 (inp ! 31) 4]]"

definition SIMD_fastpackwithoutmask29 :: "m128i list \<Rightarrow> m128i list" where
  "SIMD_fastpackwithoutmask29 inp =
    [accum128 (inp ! 0)
       [mm_slli_epi32 (inp ! 1) 29],
     accum128 (mm_srli_epi32 (inp ! 1) (29 - 26))
       [mm_slli_epi32 (inp ! 2) 26],
     accum128 (mm_srli_epi32 (inp ! 2) (29 - 23))
       [mm_slli_epi32 (inp ! 3) 23],
     accum128 (mm_srli_epi32 (inp ! 3) (29 - 20))
       [mm_slli_epi32 (inp ! 4) 20],
     accum128 (mm_srli_epi32 (inp ! 4) (29 - 17))
       [mm_slli_epi32 (inp ! 5) 17],
     accum128 (mm_srli_epi32 (inp ! 5) (29 - 14))
       [mm_slli_epi32 (inp ! 6) 14],
     accum128 (mm_srli_epi32 (inp ! 6) (29 - 11))
       [mm_slli_epi32 (inp ! 7) 11],
     accum128 (mm_srli_epi32 (inp ! 7) (29 - 8))
       [mm_slli_epi32 (inp ! 8) 8],
     accum128 (mm_srli_epi32 (inp ! 8) (29 - 5))
       [mm_slli_epi32 (inp ! 9) 5],
     accum128 (mm_srli_epi32 (inp ! 9) (29 - 2))
       [mm_slli_epi32 (inp ! 10) 2, mm_slli_epi32 (inp ! 11) 31],
     accum128 (mm_srli_epi32 (inp ! 11) (29 - 28))
       [mm_slli_epi32 (inp ! 12) 28],
     accum128 (mm_srli_epi32 (inp ! 12) (29 - 25))
       [mm_slli_epi32 (inp ! 13) 25],
     accum128 (mm_srli_epi32 (inp ! 13) (29 - 22))
       [mm_slli_epi32 (inp ! 14) 22],
     accum128 (mm_srli_epi32 (inp ! 14) (29 - 19))
       [mm_slli_epi32 (inp ! 15) 19],
     accum128 (mm_srli_epi32 (inp ! 15) (29 - 16))
       [mm_slli_epi32 (inp ! 16) 16],
     accum128 (mm_srli_epi32 (inp ! 16) (29 - 13))
       [mm_slli_epi32 (inp ! 17) 13],
     accum128 (mm_srli_epi32 (inp ! 17) (29 - 10))
       [mm_slli_epi32 (inp ! 18) 10],
     accum128 (mm_srli_epi32 (inp ! 18) (29 - 7))
       [mm_slli_epi32 (inp ! 19) 7],
     accum128 (mm_srli_epi32 (inp ! 19) (29 - 4))
       [mm_slli_epi32 (inp ! 20) 4],
     accum128 (mm_srli_epi32 (inp ! 20) (29 - 1))
       [mm_slli_epi32 (inp ! 21) 1, mm_slli_epi32 (inp ! 22) 30],
     accum128 (mm_srli_epi32 (inp ! 22) (29 - 27))
       [mm_slli_epi32 (inp ! 23) 27],
     accum128 (mm_srli_epi32 (inp ! 23) (29 - 24))
       [mm_slli_epi32 (inp ! 24) 24],
     accum128 (mm_srli_epi32 (inp ! 24) (29 - 21))
       [mm_slli_epi32 (inp ! 25) 21],
     accum128 (mm_srli_epi32 (inp ! 25) (29 - 18))
       [mm_slli_epi32 (inp ! 26) 18],
     accum128 (mm_srli_epi32 (inp ! 26) (29 - 15))
       [mm_slli_epi32 (inp ! 27) 15],
     accum128 (mm_srli_epi32 (inp ! 27) (29 - 12))
       [mm_slli_epi32 (inp ! 28) 12],
     accum128 (mm_srli_epi32 (inp ! 28) (29 - 9))
       [mm_slli_epi32 (inp ! 29) 9],
     accum128 (mm_srli_epi32 (inp ! 29) (29 - 6))
       [mm_slli_epi32 (inp ! 30) 6],
     accum128 (mm_srli_epi32 (inp ! 30) (29 - 3))
       [mm_slli_epi32 (inp ! 31) 3]]"

definition SIMD_fastpackwithoutmask30 :: "m128i list \<Rightarrow> m128i list" where
  "SIMD_fastpackwithoutmask30 inp =
    [accum128 (inp ! 0)
       [mm_slli_epi32 (inp ! 1) 30],
     accum128 (mm_srli_epi32 (inp ! 1) (30 - 28))
       [mm_slli_epi32 (inp ! 2) 28],
     accum128 (mm_srli_epi32 (inp ! 2) (30 - 26))
       [mm_slli_epi32 (inp ! 3) 26],
     accum128 (mm_srli_epi32 (inp ! 3) (30 - 24))
       [mm_slli_epi32 (inp ! 4) 24],
     accum128 (mm_srli_epi32 (inp ! 4) (30 - 22))
       [mm_slli_epi32 (inp ! 5) 22],
     accum128 (mm_srli_epi32 (inp ! 5) (30 - 20))
       [mm_slli_epi32 (inp ! 6) 20],
     accum128 (mm_srli_epi32 (inp ! 6) (30 - 18))
       [mm_slli_epi32 (inp ! 7) 18],
     accum128 (mm_srli_epi32 (inp ! 7) (30 - 16))
       [mm_slli_epi32 (inp ! 8) 16],
     accum128 (mm_srli_epi32 (inp ! 8) (30 - 14))
       [mm_slli_epi32 (inp ! 9) 14],
     accum128 (mm_srli_epi32 (inp ! 9) (30 - 12))
       [mm_slli_epi32 (inp ! 10) 12],
     accum128 (mm_srli_epi32 (inp ! 10) (30 - 10))
       [mm_slli_epi32 (inp ! 11) 10],
     accum128 (mm_srli_epi32 (inp ! 11) (30 - 8))
       [mm_slli_epi32 (inp ! 12) 8],
     accum128 (mm_srli_epi32 (inp ! 12) (30 - 6))
       [mm_slli_epi32 (inp ! 13) 6],
     accum128 (mm_srli_epi32 (inp ! 13) (30 - 4))
       [mm_slli_epi32 (inp ! 14) 4],
     accum128 (mm_srli_epi32 (inp ! 14) (30 - 2))
       [mm_slli_epi32 (inp ! 15) 2],
     accum128 (inp ! 16)
       [mm_slli_epi32 (inp ! 17) 30],
     accum128 (mm_srli_epi32 (inp ! 17) (30 - 28))
       [mm_slli_epi32 (inp ! 18) 28],
     accum128 (mm_srli_epi32 (inp ! 18) (30 - 26))
       [mm_slli_epi32 (inp ! 19) 26],
     accum128 (mm_srli_epi32 (inp ! 19) (30 - 24))
       [mm_slli_epi32 (inp ! 20) 24],
     accum128 (mm_srli_epi32 (inp ! 20) (30 - 22))
       [mm_slli_epi32 (inp ! 21) 22],
     accum128 (mm_srli_epi32 (inp ! 21) (30 - 20))
       [mm_slli_epi32 (inp ! 22) 20],
     accum128 (mm_srli_epi32 (inp ! 22) (30 - 18))
       [mm_slli_epi32 (inp ! 23) 18],
     accum128 (mm_srli_epi32 (inp ! 23) (30 - 16))
       [mm_slli_epi32 (inp ! 24) 16],
     accum128 (mm_srli_epi32 (inp ! 24) (30 - 14))
       [mm_slli_epi32 (inp ! 25) 14],
     accum128 (mm_srli_epi32 (inp ! 25) (30 - 12))
       [mm_slli_epi32 (inp ! 26) 12],
     accum128 (mm_srli_epi32 (inp ! 26) (30 - 10))
       [mm_slli_epi32 (inp ! 27) 10],
     accum128 (mm_srli_epi32 (inp ! 27) (30 - 8))
       [mm_slli_epi32 (inp ! 28) 8],
     accum128 (mm_srli_epi32 (inp ! 28) (30 - 6))
       [mm_slli_epi32 (inp ! 29) 6],
     accum128 (mm_srli_epi32 (inp ! 29) (30 - 4))
       [mm_slli_epi32 (inp ! 30) 4],
     accum128 (mm_srli_epi32 (inp ! 30) (30 - 2))
       [mm_slli_epi32 (inp ! 31) 2]]"

definition SIMD_fastpackwithoutmask31 :: "m128i list \<Rightarrow> m128i list" where
  "SIMD_fastpackwithoutmask31 inp =
    [accum128 (inp ! 0)
       [mm_slli_epi32 (inp ! 1) 31],
     accum128 (mm_srli_epi32 (inp ! 1) (31 - 30))
       [mm_slli_epi32 (inp ! 2) 30],
     accum128 (mm_srli_epi32 (inp ! 2) (31 - 29))
       [mm_slli_epi32 (inp ! 3) 29],
     accum128 (mm_srli_epi32 (inp ! 3) (31 - 28))
       [mm_slli_epi32 (inp ! 4) 28],
     accum128 (mm_srli_epi32 (inp ! 4) (31 - 27))
       [mm_slli_epi32 (inp ! 5) 27],
     accum128 (mm_srli_epi32 (inp ! 5) (31 - 26))
       [mm_slli_epi32 (inp ! 6) 26],
     accum128 (mm_srli_epi32 (inp ! 6) (31 - 25))
       [mm_slli_epi32 (inp ! 7) 25],
     accum128 (mm_srli_epi32 (inp ! 7) (31 - 24))
       [mm_slli_epi32 (inp ! 8) 24],
     accum128 (mm_srli_epi32 (inp ! 8) (31 - 23))
       [mm_slli_epi32 (inp ! 9) 23],
     accum128 (mm_srli_epi32 (inp ! 9) (31 - 22))
       [mm_slli_epi32 (inp ! 10) 22],
     accum128 (mm_srli_epi32 (inp ! 10) (31 - 21))
       [mm_slli_epi32 (inp ! 11) 21],
     accum128 (mm_srli_epi32 (inp ! 11) (31 - 20))
       [mm_slli_epi32 (inp ! 12) 20],
     accum128 (mm_srli_epi32 (inp ! 12) (31 - 19))
       [mm_slli_epi32 (inp ! 13) 19],
     accum128 (mm_srli_epi32 (inp ! 13) (31 - 18))
       [mm_slli_epi32 (inp ! 14) 18],
     accum128 (mm_srli_epi32 (inp ! 14) (31 - 17))
       [mm_slli_epi32 (inp ! 15) 17],
     accum128 (mm_srli_epi32 (inp ! 15) (31 - 16))
       [mm_slli_epi32 (inp ! 16) 16],
     accum128 (mm_srli_epi32 (inp ! 16) (31 - 15))
       [mm_slli_epi32 (inp ! 17) 15],
     accum128 (mm_srli_epi32 (inp ! 17) (31 - 14))
       [mm_slli_epi32 (inp ! 18) 14],
     accum128 (mm_srli_epi32 (inp ! 18) (31 - 13))
       [mm_slli_epi32 (inp ! 19) 13],
     accum128 (mm_srli_epi32 (inp ! 19) (31 - 12))
       [mm_slli_epi32 (inp ! 20) 12],
     accum128 (mm_srli_epi32 (inp ! 20) (31 - 11))
       [mm_slli_epi32 (inp ! 21) 11],
     accum128 (mm_srli_epi32 (inp ! 21) (31 - 10))
       [mm_slli_epi32 (inp ! 22) 10],
     accum128 (mm_srli_epi32 (inp ! 22) (31 - 9))
       [mm_slli_epi32 (inp ! 23) 9],
     accum128 (mm_srli_epi32 (inp ! 23) (31 - 8))
       [mm_slli_epi32 (inp ! 24) 8],
     accum128 (mm_srli_epi32 (inp ! 24) (31 - 7))
       [mm_slli_epi32 (inp ! 25) 7],
     accum128 (mm_srli_epi32 (inp ! 25) (31 - 6))
       [mm_slli_epi32 (inp ! 26) 6],
     accum128 (mm_srli_epi32 (inp ! 26) (31 - 5))
       [mm_slli_epi32 (inp ! 27) 5],
     accum128 (mm_srli_epi32 (inp ! 27) (31 - 4))
       [mm_slli_epi32 (inp ! 28) 4],
     accum128 (mm_srli_epi32 (inp ! 28) (31 - 3))
       [mm_slli_epi32 (inp ! 29) 3],
     accum128 (mm_srli_epi32 (inp ! 29) (31 - 2))
       [mm_slli_epi32 (inp ! 30) 2],
     accum128 (mm_srli_epi32 (inp ! 30) (31 - 1))
       [mm_slli_epi32 (inp ! 31) 1]]"

definition SIMD_fastpackwithoutmask32 :: "m128i list \<Rightarrow> m128i list" where
  "SIMD_fastpackwithoutmask32 inp =
    [inp ! 0, inp ! 1, inp ! 2, inp ! 3, inp ! 4, inp ! 5, inp ! 6, inp ! 7, inp ! 8, inp ! 9,
     inp ! 10, inp ! 11, inp ! 12, inp ! 13, inp ! 14, inp ! 15, inp ! 16, inp ! 17, inp ! 18,
     inp ! 19, inp ! 20, inp ! 21, inp ! 22, inp ! 23, inp ! 24, inp ! 25, inp ! 26, inp ! 27,
     inp ! 28, inp ! 29, inp ! 30, inp ! 31]"

section \<open>The routines with masks\<close>

definition SIMD_fastpack0 :: "m128i list \<Rightarrow> m128i list" where
  "SIMD_fastpack0 inp =
    []"

definition SIMD_fastpack1 :: "m128i list \<Rightarrow> m128i list" where
  "SIMD_fastpack1 inp =
    (let d = map (\<lambda>x. mm_and_si128 x (low_mask 1)) inp in
    [accum128 (d ! 0)
       [mm_slli_epi32 (d ! 1) 1, mm_slli_epi32 (d ! 2) 2, mm_slli_epi32 (d ! 3) 3,
        mm_slli_epi32 (d ! 4) 4, mm_slli_epi32 (d ! 5) 5, mm_slli_epi32 (d ! 6) 6,
        mm_slli_epi32 (d ! 7) 7, mm_slli_epi32 (d ! 8) 8, mm_slli_epi32 (d ! 9) 9,
        mm_slli_epi32 (d ! 10) 10, mm_slli_epi32 (d ! 11) 11, mm_slli_epi32 (d ! 12) 12,
        mm_slli_epi32 (d ! 13) 13, mm_slli_epi32 (d ! 14) 14, mm_slli_epi32 (d ! 15) 15,
        mm_slli_epi32 (d ! 16) 16, mm_slli_epi32 (d ! 17) 17, mm_slli_epi32 (d ! 18) 18,
        mm_slli_epi32 (d ! 19) 19, mm_slli_epi32 (d ! 20) 20, mm_slli_epi32 (d ! 21) 21,
        mm_slli_epi32 (d ! 22) 22, mm_slli_epi32 (d ! 23) 23, mm_slli_epi32 (d ! 24) 24,
        mm_slli_epi32 (d ! 25) 25, mm_slli_epi32 (d ! 26) 26, mm_slli_epi32 (d ! 27) 27,
        mm_slli_epi32 (d ! 28) 28, mm_slli_epi32 (d ! 29) 29, mm_slli_epi32 (d ! 30) 30,
        mm_slli_epi32 (d ! 31) 31]])"

definition SIMD_fastpack2 :: "m128i list \<Rightarrow> m128i list" where
  "SIMD_fastpack2 inp =
    (let d = map (\<lambda>x. mm_and_si128 x (low_mask 2)) inp in
    [accum128 (d ! 0)
       [mm_slli_epi32 (d ! 1) 2, mm_slli_epi32 (d ! 2) 4, mm_slli_epi32 (d ! 3) 6,
        mm_slli_epi32 (d ! 4) 8, mm_slli_epi32 (d ! 5) 10, mm_slli_epi32 (d ! 6) 12,
        mm_slli_epi32 (d ! 7) 14, mm_slli_epi32 (d ! 8) 16, mm_slli_epi32 (d ! 9) 18,
        mm_slli_epi32 (d ! 10) 20, mm_slli_epi32 (d ! 11) 22, mm_slli_epi32 (d ! 12) 24,
        mm_slli_epi32 (d ! 13) 26, mm_slli_epi32 (d ! 14) 28, mm_slli_epi32 (d ! 15) 30],
     accum128 (d ! 16)
       [mm_slli_epi32 (d ! 17) 2, mm_slli_epi32 (d ! 18) 4, mm_slli_epi32 (d ! 19) 6,
        mm_slli_epi32 (d ! 20) 8, mm_slli_epi32 (d ! 21) 10, mm_slli_epi32 (d ! 22) 12,
        mm_slli_epi32 (d ! 23) 14, mm_slli_epi32 (d ! 24) 16, mm_slli_epi32 (d ! 25) 18,
        mm_slli_epi32 (d ! 26) 20, mm_slli_epi32 (d ! 27) 22, mm_slli_epi32 (d ! 28) 24,
        mm_slli_epi32 (d ! 29) 26, mm_slli_epi32 (d ! 30) 28, mm_slli_epi32 (d ! 31) 30]])"

definition SIMD_fastpack3 :: "m128i list \<Rightarrow> m128i list" where
  "SIMD_fastpack3 inp =
    (let d = map (\<lambda>x. mm_and_si128 x (low_mask 3)) inp in
    [accum128 (d ! 0)
       [mm_slli_epi32 (d ! 1) 3, mm_slli_epi32 (d ! 2) 6, mm_slli_epi32 (d ! 3) 9,
        mm_slli_epi32 (d ! 4) 12, mm_slli_epi32 (d ! 5) 15, mm_slli_epi32 (d ! 6) 18,
        mm_slli_epi32 (d ! 7) 21, mm_slli_epi32 (d ! 8) 24, mm_slli_epi32 (d ! 9) 27,
        mm_slli_epi32 (d ! 10) 30],
     accum128 (mm_srli_epi32 (d ! 10) (3 - 1))
       [mm_slli_epi32 (d ! 11) 1, mm_slli_epi32 (d ! 12) 4, mm_slli_epi32 (d ! 13) 7,
        mm_slli_epi32 (d ! 14) 10, mm_slli_epi32 (d ! 15) 13, mm_slli_epi32 (d ! 16) 16,
        mm_slli_epi32 (d ! 17) 19, mm_slli_epi32 (d ! 18) 22, mm_slli_epi32 (d ! 19) 25,
        mm_slli_epi32 (d ! 20) 28, mm_slli_epi32 (d ! 21) 31],
     accum128 (mm_srli_epi32 (d ! 21) (3 - 2))
       [mm_slli_epi32 (d ! 22) 2, mm_slli_epi32 (d ! 23) 5, mm_slli_epi32 (d ! 24) 8,
        mm_slli_epi32 (d ! 25) 11, mm_slli_epi32 (d ! 26) 14, mm_slli_epi32 (d ! 27) 17,
        mm_slli_epi32 (d ! 28) 20, mm_slli_epi32 (d ! 29) 23, mm_slli_epi32 (d ! 30) 26,
        mm_slli_epi32 (d ! 31) 29]])"

definition SIMD_fastpack4 :: "m128i list \<Rightarrow> m128i list" where
  "SIMD_fastpack4 inp =
    (let d = map (\<lambda>x. mm_and_si128 x (low_mask 4)) inp in
    concat (map (\<lambda>outer.
     [accum128 (d ! (8 * outer))
       [mm_slli_epi32 (d ! (8 * outer + 1)) 4, mm_slli_epi32 (d ! (8 * outer + 2)) 8,
        mm_slli_epi32 (d ! (8 * outer + 3)) 12, mm_slli_epi32 (d ! (8 * outer + 4)) 16,
        mm_slli_epi32 (d ! (8 * outer + 5)) 20, mm_slli_epi32 (d ! (8 * outer + 6)) 24,
        mm_slli_epi32 (d ! (8 * outer + 7)) 28]])
     [0..<4]))"

definition SIMD_fastpack5 :: "m128i list \<Rightarrow> m128i list" where
  "SIMD_fastpack5 inp =
    (let d = map (\<lambda>x. mm_and_si128 x (low_mask 5)) inp in
    [accum128 (d ! 0)
       [mm_slli_epi32 (d ! 1) 5, mm_slli_epi32 (d ! 2) 10, mm_slli_epi32 (d ! 3) 15,
        mm_slli_epi32 (d ! 4) 20, mm_slli_epi32 (d ! 5) 25, mm_slli_epi32 (d ! 6) 30],
     accum128 (mm_srli_epi32 (d ! 6) (5 - 3))
       [mm_slli_epi32 (d ! 7) 3, mm_slli_epi32 (d ! 8) 8, mm_slli_epi32 (d ! 9) 13,
        mm_slli_epi32 (d ! 10) 18, mm_slli_epi32 (d ! 11) 23, mm_slli_epi32 (d ! 12) 28],
     accum128 (mm_srli_epi32 (d ! 12) (5 - 1))
       [mm_slli_epi32 (d ! 13) 1, mm_slli_epi32 (d ! 14) 6, mm_slli_epi32 (d ! 15) 11,
        mm_slli_epi32 (d ! 16) 16, mm_slli_epi32 (d ! 17) 21, mm_slli_epi32 (d ! 18) 26,
        mm_slli_epi32 (d ! 19) 31],
     accum128 (mm_srli_epi32 (d ! 19) (5 - 4))
       [mm_slli_epi32 (d ! 20) 4, mm_slli_epi32 (d ! 21) 9, mm_slli_epi32 (d ! 22) 14,
        mm_slli_epi32 (d ! 23) 19, mm_slli_epi32 (d ! 24) 24, mm_slli_epi32 (d ! 25) 29],
     accum128 (mm_srli_epi32 (d ! 25) (5 - 2))
       [mm_slli_epi32 (d ! 26) 2, mm_slli_epi32 (d ! 27) 7, mm_slli_epi32 (d ! 28) 12,
        mm_slli_epi32 (d ! 29) 17, mm_slli_epi32 (d ! 30) 22, mm_slli_epi32 (d ! 31) 27]])"

definition SIMD_fastpack6 :: "m128i list \<Rightarrow> m128i list" where
  "SIMD_fastpack6 inp =
    (let d = map (\<lambda>x. mm_and_si128 x (low_mask 6)) inp in
    [accum128 (d ! 0)
       [mm_slli_epi32 (d ! 1) 6, mm_slli_epi32 (d ! 2) 12, mm_slli_epi32 (d ! 3) 18,
        mm_slli_epi32 (d ! 4) 24, mm_slli_epi32 (d ! 5) 30],
     accum128 (mm_srli_epi32 (d ! 5) (6 - 4))
       [mm_slli_epi32 (d ! 6) 4, mm_slli_epi32 (d ! 7) 10, mm_slli_epi32 (d ! 8) 16,
        mm_slli_epi32 (d ! 9) 22, mm_slli_epi32 (d ! 10) 28],
     accum128 (mm_srli_epi32 (d ! 10) (6 - 2))
       [mm_slli_epi32 (d ! 11) 2, mm_slli_epi32 (d ! 12) 8, mm_slli_epi32 (d ! 13) 14,
        mm_slli_epi32 (d ! 14) 20, mm_slli_epi32 (d ! 15) 26],
     accum128 (d ! 16)
       [mm_slli_epi32 (d ! 17) 6, mm_slli_epi32 (d ! 18) 12, mm_slli_epi32 (d ! 19) 18,
        mm_slli_epi32 (d ! 20) 24, mm_slli_epi32 (d ! 21) 30],
     accum128 (mm_srli_epi32 (d ! 21) (6 - 4))
       [mm_slli_epi32 (d ! 22) 4, mm_slli_epi32 (d ! 23) 10, mm_slli_epi32 (d ! 24) 16,
        mm_slli_epi32 (d ! 25) 22, mm_slli_epi32 (d ! 26) 28],
     accum128 (mm_srli_epi32 (d ! 26) (6 - 2))
       [mm_slli_epi32 (d ! 27) 2, mm_slli_epi32 (d ! 28) 8, mm_slli_epi32 (d ! 29) 14,
        mm_slli_epi32 (d ! 30) 20, mm_slli_epi32 (d ! 31) 26]])"

definition SIMD_fastpack7 :: "m128i list \<Rightarrow> m128i list" where
  "SIMD_fastpack7 inp =
    (let d = map (\<lambda>x. mm_and_si128 x (low_mask 7)) inp in
    [accum128 (d ! 0)
       [mm_slli_epi32 (d ! 1) 7, mm_slli_epi32 (d ! 2) 14, mm_slli_epi32 (d ! 3) 21,
        mm_slli_epi32 (d ! 4) 28],
     accum128 (mm_srli_epi32 (d ! 4) (7 - 3))
       [mm_slli_epi32 (d ! 5) 3, mm_slli_epi32 (d ! 6) 10, mm_slli_epi32 (d ! 7) 17,
        mm_slli_epi32 (d ! 8) 24, mm_slli_epi32 (d ! 9) 31],
     accum128 (mm_srli_epi32 (d ! 9) (7 - 6))
       [mm_slli_epi32 (d ! 10) 6, mm_slli_epi32 (d ! 11) 13, mm_slli_epi32 (d ! 12) 20,
        mm_slli_epi32 (d ! 13) 27],
     accum128 (mm_srli_epi32 (d ! 13) (7 - 2))
       [mm_slli_epi32 (d ! 14) 2, mm_slli_epi32 (d ! 15) 9, mm_slli_epi32 (d ! 16) 16,
        mm_slli_epi32 (d ! 17) 23, mm_slli_epi32 (d ! 18) 30],
     accum128 (mm_srli_epi32 (d ! 18) (7 - 5))
       [mm_slli_epi32 (d ! 19) 5, mm_slli_epi32 (d ! 20) 12, mm_slli_epi32 (d ! 21) 19,
        mm_slli_epi32 (d ! 22) 26],
     accum128 (mm_srli_epi32 (d ! 22) (7 - 1))
       [mm_slli_epi32 (d ! 23) 1, mm_slli_epi32 (d ! 24) 8, mm_slli_epi32 (d ! 25) 15,
        mm_slli_epi32 (d ! 26) 22, mm_slli_epi32 (d ! 27) 29],
     accum128 (mm_srli_epi32 (d ! 27) (7 - 4))
       [mm_slli_epi32 (d ! 28) 4, mm_slli_epi32 (d ! 29) 11, mm_slli_epi32 (d ! 30) 18,
        mm_slli_epi32 (d ! 31) 25]])"

definition SIMD_fastpack8 :: "m128i list \<Rightarrow> m128i list" where
  "SIMD_fastpack8 inp =
    (let d = map (\<lambda>x. mm_and_si128 x (low_mask 8)) inp in
    concat (map (\<lambda>outer.
     [accum128 (d ! (4 * outer))
       [mm_slli_epi32 (d ! (4 * outer + 1)) 8, mm_slli_epi32 (d ! (4 * outer + 2)) 16,
        mm_slli_epi32 (d ! (4 * outer + 3)) 24]])
     [0..<8]))"

definition SIMD_fastpack9 :: "m128i list \<Rightarrow> m128i list" where
  "SIMD_fastpack9 inp =
    (let d = map (\<lambda>x. mm_and_si128 x (low_mask 9)) inp in
    [accum128 (d ! 0)
       [mm_slli_epi32 (d ! 1) 9, mm_slli_epi32 (d ! 2) 18, mm_slli_epi32 (d ! 3) 27],
     accum128 (mm_srli_epi32 (d ! 3) (9 - 4))
       [mm_slli_epi32 (d ! 4) 4, mm_slli_epi32 (d ! 5) 13, mm_slli_epi32 (d ! 6) 22,
        mm_slli_epi32 (d ! 7) 31],
     accum128 (mm_srli_epi32 (d ! 7) (9 - 8))
       [mm_slli_epi32 (d ! 8) 8, mm_slli_epi32 (d ! 9) 17, mm_slli_epi32 (d ! 10) 26],
     accum128 (mm_srli_epi32 (d ! 10) (9 - 3))
       [mm_slli_epi32 (d ! 11) 3, mm_slli_epi32 (d ! 12) 12, mm_slli_epi32 (d ! 13) 21,
        mm_slli_epi32 (d ! 14) 30],
     accum128 (mm_srli_epi32 (d ! 14) (9 - 7))
       [mm_slli_epi32 (d ! 15) 7, mm_slli_epi32 (d ! 16) 16, mm_slli_epi32 (d ! 17) 25],
     accum128 (mm_srli_epi32 (d ! 17) (9 - 2))
       [mm_slli_epi32 (d ! 18) 2, mm_slli_epi32 (d ! 19) 11, mm_slli_epi32 (d ! 20) 20,
        mm_slli_epi32 (d ! 21) 29],
     accum128 (mm_srli_epi32 (d ! 21) (9 - 6))
       [mm_slli_epi32 (d ! 22) 6, mm_slli_epi32 (d ! 23) 15, mm_slli_epi32 (d ! 24) 24],
     accum128 (mm_srli_epi32 (d ! 24) (9 - 1))
       [mm_slli_epi32 (d ! 25) 1, mm_slli_epi32 (d ! 26) 10, mm_slli_epi32 (d ! 27) 19,
        mm_slli_epi32 (d ! 28) 28],
     accum128 (mm_srli_epi32 (d ! 28) (9 - 5))
       [mm_slli_epi32 (d ! 29) 5, mm_slli_epi32 (d ! 30) 14, mm_slli_epi32 (d ! 31) 23]])"

definition SIMD_fastpack10 :: "m128i list \<Rightarrow> m128i list" where
  "SIMD_fastpack10 inp =
    (let d = map (\<lambda>x. mm_and_si128 x (low_mask 10)) inp in
    [accum128 (d ! 0)
       [mm_slli_epi32 (d ! 1) 10, mm_slli_epi32 (d ! 2) 20, mm_slli_epi32 (d ! 3) 30],
     accum128 (mm_srli_epi32 (d ! 3) (10 - 8))
       [mm_slli_epi32 (d ! 4) 8, mm_slli_epi32 (d ! 5) 18, mm_slli_epi32 (d ! 6) 28],
     accum128 (mm_srli_epi32 (d ! 6) (10 - 6))
       [mm_slli_epi32 (d ! 7) 6, mm_slli_epi32 (d ! 8) 16, mm_slli_epi32 (d ! 9) 26],
     accum128 (mm_srli_epi32 (d ! 9) (10 - 4))
       [mm_slli_epi32 (d ! 10) 4, mm_slli_epi32 (d ! 11) 14, mm_slli_epi32 (d ! 12) 24],
     accum128 (mm_srli_epi32 (d ! 12) (10 - 2))
       [mm_slli_epi32 (d ! 13) 2, mm_slli_epi32 (d ! 14) 12, mm_slli_epi32 (d ! 15) 22],
     accum128 (d ! 16)
       [mm_slli_epi32 (d ! 17) 10, mm_slli_epi32 (d ! 18) 20, mm_slli_epi32 (d ! 19) 30],
     accum128 (mm_srli_epi32 (d ! 19) (10 - 8))
       [mm_slli_epi32 (d ! 20) 8, mm_slli_epi32 (d ! 21) 18, mm_slli_epi32 (d ! 22) 28],
     accum128 (mm_srli_epi32 (d ! 22) (10 - 6))
       [mm_slli_epi32 (d ! 23) 6, mm_slli_epi32 (d ! 24) 16, mm_slli_epi32 (d ! 25) 26],
     accum128 (mm_srli_epi32 (d ! 25) (10 - 4))
       [mm_slli_epi32 (d ! 26) 4, mm_slli_epi32 (d ! 27) 14, mm_slli_epi32 (d ! 28) 24],
     accum128 (mm_srli_epi32 (d ! 28) (10 - 2))
       [mm_slli_epi32 (d ! 29) 2, mm_slli_epi32 (d ! 30) 12, mm_slli_epi32 (d ! 31) 22]])"

definition SIMD_fastpack11 :: "m128i list \<Rightarrow> m128i list" where
  "SIMD_fastpack11 inp =
    (let d = map (\<lambda>x. mm_and_si128 x (low_mask 11)) inp in
    [accum128 (d ! 0)
       [mm_slli_epi32 (d ! 1) 11, mm_slli_epi32 (d ! 2) 22],
     accum128 (mm_srli_epi32 (d ! 2) (11 - 1))
       [mm_slli_epi32 (d ! 3) 1, mm_slli_epi32 (d ! 4) 12, mm_slli_epi32 (d ! 5) 23],
     accum128 (mm_srli_epi32 (d ! 5) (11 - 2))
       [mm_slli_epi32 (d ! 6) 2, mm_slli_epi32 (d ! 7) 13, mm_slli_epi32 (d ! 8) 24],
     accum128 (mm_srli_epi32 (d ! 8) (11 - 3))
       [mm_slli_epi32 (d ! 9) 3, mm_slli_epi32 (d ! 10) 14, mm_slli_epi32 (d ! 11) 25],
     accum128 (mm_srli_epi32 (d ! 11) (11 - 4))
       [mm_slli_epi32 (d ! 12) 4, mm_slli_epi32 (d ! 13) 15, mm_slli_epi32 (d ! 14) 26],
     accum128 (mm_srli_epi32 (d ! 14) (11 - 5))
       [mm_slli_epi32 (d ! 15) 5, mm_slli_epi32 (d ! 16) 16, mm_slli_epi32 (d ! 17) 27],
     accum128 (mm_srli_epi32 (d ! 17) (11 - 6))
       [mm_slli_epi32 (d ! 18) 6, mm_slli_epi32 (d ! 19) 17, mm_slli_epi32 (d ! 20) 28],
     accum128 (mm_srli_epi32 (d ! 20) (11 - 7))
       [mm_slli_epi32 (d ! 21) 7, mm_slli_epi32 (d ! 22) 18, mm_slli_epi32 (d ! 23) 29],
     accum128 (mm_srli_epi32 (d ! 23) (11 - 8))
       [mm_slli_epi32 (d ! 24) 8, mm_slli_epi32 (d ! 25) 19, mm_slli_epi32 (d ! 26) 30],
     accum128 (mm_srli_epi32 (d ! 26) (11 - 9))
       [mm_slli_epi32 (d ! 27) 9, mm_slli_epi32 (d ! 28) 20, mm_slli_epi32 (d ! 29) 31],
     accum128 (mm_srli_epi32 (d ! 29) (11 - 10))
       [mm_slli_epi32 (d ! 30) 10, mm_slli_epi32 (d ! 31) 21]])"

definition SIMD_fastpack12 :: "m128i list \<Rightarrow> m128i list" where
  "SIMD_fastpack12 inp =
    (let d = map (\<lambda>x. mm_and_si128 x (low_mask 12)) inp in
    [accum128 (d ! 0)
       [mm_slli_epi32 (d ! 1) 12, mm_slli_epi32 (d ! 2) 24],
     accum128 (mm_srli_epi32 (d ! 2) (12 - 4))
       [mm_slli_epi32 (d ! 3) 4, mm_slli_epi32 (d ! 4) 16, mm_slli_epi32 (d ! 5) 28],
     accum128 (mm_srli_epi32 (d ! 5) (12 - 8))
       [mm_slli_epi32 (d ! 6) 8, mm_slli_epi32 (d ! 7) 20],
     accum128 (d ! 8)
       [mm_slli_epi32 (d ! 9) 12, mm_slli_epi32 (d ! 10) 24],
     accum128 (mm_srli_epi32 (d ! 10) (12 - 4))
       [mm_slli_epi32 (d ! 11) 4, mm_slli_epi32 (d ! 12) 16, mm_slli_epi32 (d ! 13) 28],
     accum128 (mm_srli_epi32 (d ! 13) (12 - 8))
       [mm_slli_epi32 (d ! 14) 8, mm_slli_epi32 (d ! 15) 20],
     accum128 (d ! 16)
       [mm_slli_epi32 (d ! 17) 12, mm_slli_epi32 (d ! 18) 24],
     accum128 (mm_srli_epi32 (d ! 18) (12 - 4))
       [mm_slli_epi32 (d ! 19) 4, mm_slli_epi32 (d ! 20) 16, mm_slli_epi32 (d ! 21) 28],
     accum128 (mm_srli_epi32 (d ! 21) (12 - 8))
       [mm_slli_epi32 (d ! 22) 8, mm_slli_epi32 (d ! 23) 20],
     accum128 (d ! 24)
       [mm_slli_epi32 (d ! 25) 12, mm_slli_epi32 (d ! 26) 24],
     accum128 (mm_srli_epi32 (d ! 26) (12 - 4))
       [mm_slli_epi32 (d ! 27) 4, mm_slli_epi32 (d ! 28) 16, mm_slli_epi32 (d ! 29) 28],
     accum128 (mm_srli_epi32 (d ! 29) (12 - 8))
       [mm_slli_epi32 (d ! 30) 8, mm_slli_epi32 (d ! 31) 20]])"

definition SIMD_fastpack13 :: "m128i list \<Rightarrow> m128i list" where
  "SIMD_fastpack13 inp =
    (let d = map (\<lambda>x. mm_and_si128 x (low_mask 13)) inp in
    [accum128 (d ! 0)
       [mm_slli_epi32 (d ! 1) 13, mm_slli_epi32 (d ! 2) 26],
     accum128 (mm_srli_epi32 (d ! 2) (13 - 7))
       [mm_slli_epi32 (d ! 3) 7, mm_slli_epi32 (d ! 4) 20],
     accum128 (mm_srli_epi32 (d ! 4) (13 - 1))
       [mm_slli_epi32 (d ! 5) 1, mm_slli_epi32 (d ! 6) 14, mm_slli_epi32 (d ! 7) 27],
     accum128 (mm_srli_epi32 (d ! 7) (13 - 8))
       [mm_slli_epi32 (d ! 8) 8, mm_slli_epi32 (d ! 9) 21],
     accum128 (mm_srli_epi32 (d ! 9) (13 - 2))
       [mm_slli_epi32 (d ! 10) 2, mm_slli_epi32 (d ! 11) 15, mm_slli_epi32 (d ! 12) 28],
     accum128 (mm_srli_epi32 (d ! 12) (13 - 9))
       [mm_slli_epi32 (d ! 13) 9, mm_slli_epi32 (d ! 14) 22],
     accum128 (mm_srli_epi32 (d ! 14) (13 - 3))
       [mm_slli_epi32 (d ! 15) 3, mm_slli_epi32 (d ! 16) 16, mm_slli_epi32 (d ! 17) 29],
     accum128 (mm_srli_epi32 (d ! 17) (13 - 10))
       [mm_slli_epi32 (d ! 18) 10, mm_slli_epi32 (d ! 19) 23],
     accum128 (mm_srli_epi32 (d ! 19) (13 - 4))
       [mm_slli_epi32 (d ! 20) 4, mm_slli_epi32 (d ! 21) 17, mm_slli_epi32 (d ! 22) 30],
     accum128 (mm_srli_epi32 (d ! 22) (13 - 11))
       [mm_slli_epi32 (d ! 23) 11, mm_slli_epi32 (d ! 24) 24],
     accum128 (mm_srli_epi32 (d ! 24) (13 - 5))
       [mm_slli_epi32 (d ! 25) 5, mm_slli_epi32 (d ! 26) 18, mm_slli_epi32 (d ! 27) 31],
     accum128 (mm_srli_epi32 (d ! 27) (13 - 12))
       [mm_slli_epi32 (d ! 28) 12, mm_slli_epi32 (d ! 29) 25],
     accum128 (mm_srli_epi32 (d ! 29) (13 - 6))
       [mm_slli_epi32 (d ! 30) 6, mm_slli_epi32 (d ! 31) 19]])"

definition SIMD_fastpack14 :: "m128i list \<Rightarrow> m128i list" where
  "SIMD_fastpack14 inp =
    (let d = map (\<lambda>x. mm_and_si128 x (low_mask 14)) inp in
    [accum128 (d ! 0)
       [mm_slli_epi32 (d ! 1) 14, mm_slli_epi32 (d ! 2) 28],
     accum128 (mm_srli_epi32 (d ! 2) (14 - 10))
       [mm_slli_epi32 (d ! 3) 10, mm_slli_epi32 (d ! 4) 24],
     accum128 (mm_srli_epi32 (d ! 4) (14 - 6))
       [mm_slli_epi32 (d ! 5) 6, mm_slli_epi32 (d ! 6) 20],
     accum128 (mm_srli_epi32 (d ! 6) (14 - 2))
       [mm_slli_epi32 (d ! 7) 2, mm_slli_epi32 (d ! 8) 16, mm_slli_epi32 (d ! 9) 30],
     accum128 (mm_srli_epi32 (d ! 9) (14 - 12))
       [mm_slli_epi32 (d ! 10) 12, mm_slli_epi32 (d ! 11) 26],
     accum128 (mm_srli_epi32 (d ! 11) (14 - 8))
       [mm_slli_epi32 (d ! 12) 8, mm_slli_epi32 (d ! 13) 22],
     accum128 (mm_srli_epi32 (d ! 13) (14 - 4))
       [mm_slli_epi32 (d ! 14) 4, mm_slli_epi32 (d ! 15) 18],
     accum128 (d ! 16)
       [mm_slli_epi32 (d ! 17) 14, mm_slli_epi32 (d ! 18) 28],
     accum128 (mm_srli_epi32 (d ! 18) (14 - 10))
       [mm_slli_epi32 (d ! 19) 10, mm_slli_epi32 (d ! 20) 24],
     accum128 (mm_srli_epi32 (d ! 20) (14 - 6))
       [mm_slli_epi32 (d ! 21) 6, mm_slli_epi32 (d ! 22) 20],
     accum128 (mm_srli_epi32 (d ! 22) (14 - 2))
       [mm_slli_epi32 (d ! 23) 2, mm_slli_epi32 (d ! 24) 16, mm_slli_epi32 (d ! 25) 30],
     accum128 (mm_srli_epi32 (d ! 25) (14 - 12))
       [mm_slli_epi32 (d ! 26) 12, mm_slli_epi32 (d ! 27) 26],
     accum128 (mm_srli_epi32 (d ! 27) (14 - 8))
       [mm_slli_epi32 (d ! 28) 8, mm_slli_epi32 (d ! 29) 22],
     accum128 (mm_srli_epi32 (d ! 29) (14 - 4))
       [mm_slli_epi32 (d ! 30) 4, mm_slli_epi32 (d ! 31) 18]])"

definition SIMD_fastpack15 :: "m128i list \<Rightarrow> m128i list" where
  "SIMD_fastpack15 inp =
    (let d = map (\<lambda>x. mm_and_si128 x (low_mask 15)) inp in
    [accum128 (d ! 0)
       [mm_slli_epi32 (d ! 1) 15, mm_slli_epi32 (d ! 2) 30],
     accum128 (mm_srli_epi32 (d ! 2) (15 - 13))
       [mm_slli_epi32 (d ! 3) 13, mm_slli_epi32 (d ! 4) 28],
     accum128 (mm_srli_epi32 (d ! 4) (15 - 11))
       [mm_slli_epi32 (d ! 5) 11, mm_slli_epi32 (d ! 6) 26],
     accum128 (mm_srli_epi32 (d ! 6) (15 - 9))
       [mm_slli_epi32 (d ! 7) 9, mm_slli_epi32 (d ! 8) 24],
     accum128 (mm_srli_epi32 (d ! 8) (15 - 7))
       [mm_slli_epi32 (d ! 9) 7, mm_slli_epi32 (d ! 10) 22],
     accum128 (mm_srli_epi32 (d ! 10) (15 - 5))
       [mm_slli_epi32 (d ! 11) 5, mm_slli_epi32 (d ! 12) 20],
     accum128 (mm_srli_epi32 (d ! 12) (15 - 3))
       [mm_slli_epi32 (d ! 13) 3, mm_slli_epi32 (d ! 14) 18],
     accum128 (mm_srli_epi32 (d ! 14) (15 - 1))
       [mm_slli_epi32 (d ! 15) 1, mm_slli_epi32 (d ! 16) 16, mm_slli_epi32 (d ! 17) 31],
     accum128 (mm_srli_epi32 (d ! 17) (15 - 14))
       [mm_slli_epi32 (d ! 18) 14, mm_slli_epi32 (d ! 19) 29],
     accum128 (mm_srli_epi32 (d ! 19) (15 - 12))
       [mm_slli_epi32 (d ! 20) 12, mm_slli_epi32 (d ! 21) 27],
     accum128 (mm_srli_epi32 (d ! 21) (15 - 10))
       [mm_slli_epi32 (d ! 22) 10, mm_slli_epi32 (d ! 23) 25],
     accum128 (mm_srli_epi32 (d ! 23) (15 - 8))
       [mm_slli_epi32 (d ! 24) 8, mm_slli_epi32 (d ! 25) 23],
     accum128 (mm_srli_epi32 (d ! 25) (15 - 6))
       [mm_slli_epi32 (d ! 26) 6, mm_slli_epi32 (d ! 27) 21],
     accum128 (mm_srli_epi32 (d ! 27) (15 - 4))
       [mm_slli_epi32 (d ! 28) 4, mm_slli_epi32 (d ! 29) 19],
     accum128 (mm_srli_epi32 (d ! 29) (15 - 2))
       [mm_slli_epi32 (d ! 30) 2, mm_slli_epi32 (d ! 31) 17]])"

definition SIMD_fastpack16 :: "m128i list \<Rightarrow> m128i list" where
  "SIMD_fastpack16 inp =
    (let d = map (\<lambda>x. mm_and_si128 x (low_mask 16)) inp in
    concat (map (\<lambda>outer.
     [accum128 (d ! (2 * outer))
       [mm_slli_epi32 (d ! (2 * outer + 1)) 16]])
     [0..<16]))"

definition SIMD_fastpack17 :: "m128i list \<Rightarrow> m128i list" where
  "SIMD_fastpack17 inp =
    (let d = map (\<lambda>x. mm_and_si128 x (low_mask 17)) inp in
    [accum128 (d ! 0)
       [mm_slli_epi32 (d ! 1) 17],
     accum128 (mm_srli_epi32 (d ! 1) (17 - 2))
       [mm_slli_epi32 (d ! 2) 2, mm_slli_epi32 (d ! 3) 19],
     accum128 (mm_srli_epi32 (d ! 3) (17 - 4))
       [mm_slli_epi32 (d ! 4) 4, mm_slli_epi32 (d ! 5) 21],
     accum128 (mm_srli_epi32 (d ! 5) (17 - 6))
       [mm_slli_epi32 (d ! 6) 6, mm_slli_epi32 (d ! 7) 23],
     accum128 (mm_srli_epi32 (d ! 7) (17 - 8))
       [mm_slli_epi32 (d ! 8) 8, mm_slli_epi32 (d ! 9) 25],
     accum128 (mm_srli_epi32 (d ! 9) (17 - 10))
       [mm_slli_epi32 (d ! 10) 10, mm_slli_epi32 (d ! 11) 27],
     accum128 (mm_srli_epi32 (d ! 11) (17 - 12))
       [mm_slli_epi32 (d ! 12) 12, mm_slli_epi32 (d ! 13) 29],
     accum128 (mm_srli_epi32 (d ! 13) (17 - 14))
       [mm_slli_epi32 (d ! 14) 14, mm_slli_epi32 (d ! 15) 31],
     accum128 (mm_srli_epi32 (d ! 15) (17 - 16))
       [mm_slli_epi32 (d ! 16) 16],
     accum128 (mm_srli_epi32 (d ! 16) (17 - 1))
       [mm_slli_epi32 (d ! 17) 1, mm_slli_epi32 (d ! 18) 18],
     accum128 (mm_srli_epi32 (d ! 18) (17 - 3))
       [mm_slli_epi32 (d ! 19) 3, mm_slli_epi32 (d ! 20) 20],
     accum128 (mm_srli_epi32 (d ! 20) (17 - 5))
       [mm_slli_epi32 (d ! 21) 5, mm_slli_epi32 (d ! 22) 22],
     accum128 (mm_srli_epi32 (d ! 22) (17 - 7))
       [mm_slli_epi32 (d ! 23) 7, mm_slli_epi32 (d ! 24) 24],
     accum128 (mm_srli_epi32 (d ! 24) (17 - 9))
       [mm_slli_epi32 (d ! 25) 9, mm_slli_epi32 (d ! 26) 26],
     accum128 (mm_srli_epi32 (d ! 26) (17 - 11))
       [mm_slli_epi32 (d ! 27) 11, mm_slli_epi32 (d ! 28) 28],
     accum128 (mm_srli_epi32 (d ! 28) (17 - 13))
       [mm_slli_epi32 (d ! 29) 13, mm_slli_epi32 (d ! 30) 30],
     accum128 (mm_srli_epi32 (d ! 30) (17 - 15))
       [mm_slli_epi32 (d ! 31) 15]])"

definition SIMD_fastpack18 :: "m128i list \<Rightarrow> m128i list" where
  "SIMD_fastpack18 inp =
    (let d = map (\<lambda>x. mm_and_si128 x (low_mask 18)) inp in
    [accum128 (d ! 0)
       [mm_slli_epi32 (d ! 1) 18],
     accum128 (mm_srli_epi32 (d ! 1) (18 - 4))
       [mm_slli_epi32 (d ! 2) 4, mm_slli_epi32 (d ! 3) 22],
     accum128 (mm_srli_epi32 (d ! 3) (18 - 8))
       [mm_slli_epi32 (d ! 4) 8, mm_slli_epi32 (d ! 5) 26],
     accum128 (mm_srli_epi32 (d ! 5) (18 - 12))
       [mm_slli_epi32 (d ! 6) 12, mm_slli_epi32 (d ! 7) 30],
     accum128 (mm_srli_epi32 (d ! 7) (18 - 16))
       [mm_slli_epi32 (d ! 8) 16],
     accum128 (mm_srli_epi32 (d ! 8) (18 - 2))
       [mm_slli_epi32 (d ! 9) 2, mm_slli_epi32 (d ! 10) 20],
     accum128 (mm_srli_epi32 (d ! 10) (18 - 6))
       [mm_slli_epi32 (d ! 11) 6, mm_slli_epi32 (d ! 12) 24],
     accum128 (mm_srli_epi32 (d ! 12) (18 - 10))
       [mm_slli_epi32 (d ! 13) 10, mm_slli_epi32 (d ! 14) 28],
     accum128 (mm_srli_epi32 (d ! 14) (18 - 14))
       [mm_slli_epi32 (d ! 15) 14],
     accum128 (d ! 16)
       [mm_slli_epi32 (d ! 17) 18],
     accum128 (mm_srli_epi32 (d ! 17) (18 - 4))
       [mm_slli_epi32 (d ! 18) 4, mm_slli_epi32 (d ! 19) 22],
     accum128 (mm_srli_epi32 (d ! 19) (18 - 8))
       [mm_slli_epi32 (d ! 20) 8, mm_slli_epi32 (d ! 21) 26],
     accum128 (mm_srli_epi32 (d ! 21) (18 - 12))
       [mm_slli_epi32 (d ! 22) 12, mm_slli_epi32 (d ! 23) 30],
     accum128 (mm_srli_epi32 (d ! 23) (18 - 16))
       [mm_slli_epi32 (d ! 24) 16],
     accum128 (mm_srli_epi32 (d ! 24) (18 - 2))
       [mm_slli_epi32 (d ! 25) 2, mm_slli_epi32 (d ! 26) 20],
     accum128 (mm_srli_epi32 (d ! 26) (18 - 6))
       [mm_slli_epi32 (d ! 27) 6, mm_slli_epi32 (d ! 28) 24],
     accum128 (mm_srli_epi32 (d ! 28) (18 - 10))
       [mm_slli_epi32 (d ! 29) 10, mm_slli_epi32 (d ! 30) 28],
     accum128 (mm_srli_epi32 (d ! 30) (18 - 14))
       [mm_slli_epi32 (d ! 31) 14]])"

definition SIMD_fastpack19 :: "m128i list \<Rightarrow> m128i list" where
  "SIMD_fastpack19 inp =
    (let d = map (\<lambda>x. mm_and_si128 x (low_mask 19)) inp in
    [accum128 (d ! 0)
       [mm_slli_epi32 (d ! 1) 19],
     accum128 (mm_srli_epi32 (d ! 1) (19 - 6))
       [mm_slli_epi32 (d ! 2) 6, mm_slli_epi32 (d ! 3) 25],
     accum128 (mm_srli_epi32 (d ! 3) (19 - 12))
       [mm_slli_epi32 (d ! 4) 12, mm_slli_epi32 (d ! 5) 31],
     accum128 (mm_srli_epi32 (d ! 5) (19 - 18))
       [mm_slli_epi32 (d ! 6) 18],
     accum128 (mm_srli_epi32 (d ! 6) (19 - 5))
       [mm_slli_epi32 (d ! 7) 5, mm_slli_epi32 (d ! 8) 24],
     accum128 (mm_srli_epi32 (d ! 8) (19 - 11))
       [mm_slli_epi32 (d ! 9) 11, mm_slli_epi32 (d ! 10) 30],
     accum128 (mm_srli_epi32 (d ! 10) (19 - 17))
       [mm_slli_epi32 (d ! 11) 17],
     accum128 (mm_srli_epi32 (d ! 11) (19 - 4))
       [mm_slli_epi32 (d ! 12) 4, mm_slli_epi32 (d ! 13) 23],
     accum128 (mm_srli_epi32 (d ! 13) (19 - 10))
       [mm_slli_epi32 (d ! 14) 10, mm_slli_epi32 (d ! 15) 29],
     accum128 (mm_srli_epi32 (d ! 15) (19 - 16))
       [mm_slli_epi32 (d ! 16) 16],
     accum128 (mm_srli_epi32 (d ! 16) (19 - 3))
       [mm_slli_epi32 (d ! 17) 3, mm_slli_epi32 (d ! 18) 22],
     accum128 (mm_srli_epi32 (d ! 18) (19 - 9))
       [mm_slli_epi32 (d ! 19) 9, mm_slli_epi32 (d ! 20) 28],
     accum128 (mm_srli_epi32 (d ! 20) (19 - 15))
       [mm_slli_epi32 (d ! 21) 15],
     accum128 (mm_srli_epi32 (d ! 21) (19 - 2))
       [mm_slli_epi32 (d ! 22) 2, mm_slli_epi32 (d ! 23) 21],
     accum128 (mm_srli_epi32 (d ! 23) (19 - 8))
       [mm_slli_epi32 (d ! 24) 8, mm_slli_epi32 (d ! 25) 27],
     accum128 (mm_srli_epi32 (d ! 25) (19 - 14))
       [mm_slli_epi32 (d ! 26) 14],
     accum128 (mm_srli_epi32 (d ! 26) (19 - 1))
       [mm_slli_epi32 (d ! 27) 1, mm_slli_epi32 (d ! 28) 20],
     accum128 (mm_srli_epi32 (d ! 28) (19 - 7))
       [mm_slli_epi32 (d ! 29) 7, mm_slli_epi32 (d ! 30) 26],
     accum128 (mm_srli_epi32 (d ! 30) (19 - 13))
       [mm_slli_epi32 (d ! 31) 13]])"

definition SIMD_fastpack20 :: "m128i list \<Rightarrow> m128i list" where
  "SIMD_fastpack20 inp =
    (let d = map (\<lambda>x. mm_and_si128 x (low_mask 20)) inp in
    [accum128 (d ! 0)
       [mm_slli_epi32 (d ! 1) 20],
     accum128 (mm_srli_epi32 (d ! 1) (20 - 8))
       [mm_slli_epi32 (d ! 2) 8, mm_slli_epi32 (d ! 3) 28],
     accum128 (mm_srli_epi32 (d ! 3) (20 - 16))
       [mm_slli_epi32 (d ! 4) 16],
     accum128 (mm_srli_epi32 (d ! 4) (20 - 4))
       [mm_slli_epi32 (d ! 5) 4, mm_slli_epi32 (d ! 6) 24],
     accum128 (mm_srli_epi32 (d ! 6) (20 - 12))
       [mm_slli_epi32 (d ! 7) 12],
     accum128 (d ! 8)
       [mm_slli_epi32 (d ! 9) 20],
     accum128 (mm_srli_epi32 (d ! 9) (20 - 8))
       [mm_slli_epi32 (d ! 10) 8, mm_slli_epi32 (d ! 11) 28],
     accum128 (mm_srli_epi32 (d ! 11) (20 - 16))
       [mm_slli_epi32 (d ! 12) 16],
     accum128 (mm_srli_epi32 (d ! 12) (20 - 4))
       [mm_slli_epi32 (d ! 13) 4, mm_slli_epi32 (d ! 14) 24],
     accum128 (mm_srli_epi32 (d ! 14) (20 - 12))
       [mm_slli_epi32 (d ! 15) 12],
     accum128 (d ! 16)
       [mm_slli_epi32 (d ! 17) 20],
     accum128 (mm_srli_epi32 (d ! 17) (20 - 8))
       [mm_slli_epi32 (d ! 18) 8, mm_slli_epi32 (d ! 19) 28],
     accum128 (mm_srli_epi32 (d ! 19) (20 - 16))
       [mm_slli_epi32 (d ! 20) 16],
     accum128 (mm_srli_epi32 (d ! 20) (20 - 4))
       [mm_slli_epi32 (d ! 21) 4, mm_slli_epi32 (d ! 22) 24],
     accum128 (mm_srli_epi32 (d ! 22) (20 - 12))
       [mm_slli_epi32 (d ! 23) 12],
     accum128 (d ! 24)
       [mm_slli_epi32 (d ! 25) 20],
     accum128 (mm_srli_epi32 (d ! 25) (20 - 8))
       [mm_slli_epi32 (d ! 26) 8, mm_slli_epi32 (d ! 27) 28],
     accum128 (mm_srli_epi32 (d ! 27) (20 - 16))
       [mm_slli_epi32 (d ! 28) 16],
     accum128 (mm_srli_epi32 (d ! 28) (20 - 4))
       [mm_slli_epi32 (d ! 29) 4, mm_slli_epi32 (d ! 30) 24],
     accum128 (mm_srli_epi32 (d ! 30) (20 - 12))
       [mm_slli_epi32 (d ! 31) 12]])"

definition SIMD_fastpack21 :: "m128i list \<Rightarrow> m128i list" where
  "SIMD_fastpack21 inp =
    (let d = map (\<lambda>x. mm_and_si128 x (low_mask 21)) inp in
    [accum128 (d ! 0)
       [mm_slli_epi32 (d ! 1) 21],
     accum128 (mm_srli_epi32 (d ! 1) (21 - 10))
       [mm_slli_epi32 (d ! 2) 10, mm_slli_epi32 (d ! 3) 31],
     accum128 (mm_srli_epi32 (d ! 3) (21 - 20))
       [mm_slli_epi32 (d ! 4) 20],
     accum128 (mm_srli_epi32 (d ! 4) (21 - 9))
       [mm_slli_epi32 (d ! 5) 9, mm_slli_epi32 (d ! 6) 30],
     accum128 (mm_srli_epi32 (d ! 6) (21 - 19))
       [mm_slli_epi32 (d ! 7) 19],
     accum128 (mm_srli_epi32 (d ! 7) (21 - 8))
       [mm_slli_epi32 (d ! 8) 8, mm_slli_epi32 (d ! 9) 29],
     accum128 (mm_srli_epi32 (d ! 9) (21 - 18))
       [mm_slli_epi32 (d ! 10) 18],
     accum128 (mm_srli_epi32 (d ! 10) (21 - 7))
       [mm_slli_epi32 (d ! 11) 7, mm_slli_epi32 (d ! 12) 28],
     accum128 (mm_srli_epi32 (d ! 12) (21 - 17))
       [mm_slli_epi32 (d ! 13) 17],
     accum128 (mm_srli_epi32 (d ! 13) (21 - 6))
       [mm_slli_epi32 (d ! 14) 6, mm_slli_epi32 (d ! 15) 27],
     accum128 (mm_srli_epi32 (d ! 15) (21 - 16))
       [mm_slli_epi32 (d ! 16) 16],
     accum128 (mm_srli_epi32 (d ! 16) (21 - 5))
       [mm_slli_epi32 (d ! 17) 5, mm_slli_epi32 (d ! 18) 26],
     accum128 (mm_srli_epi32 (d ! 18) (21 - 15))
       [mm_slli_epi32 (d ! 19) 15],
     accum128 (mm_srli_epi32 (d ! 19) (21 - 4))
       [mm_slli_epi32 (d ! 20) 4, mm_slli_epi32 (d ! 21) 25],
     accum128 (mm_srli_epi32 (d ! 21) (21 - 14))
       [mm_slli_epi32 (d ! 22) 14],
     accum128 (mm_srli_epi32 (d ! 22) (21 - 3))
       [mm_slli_epi32 (d ! 23) 3, mm_slli_epi32 (d ! 24) 24],
     accum128 (mm_srli_epi32 (d ! 24) (21 - 13))
       [mm_slli_epi32 (d ! 25) 13],
     accum128 (mm_srli_epi32 (d ! 25) (21 - 2))
       [mm_slli_epi32 (d ! 26) 2, mm_slli_epi32 (d ! 27) 23],
     accum128 (mm_srli_epi32 (d ! 27) (21 - 12))
       [mm_slli_epi32 (d ! 28) 12],
     accum128 (mm_srli_epi32 (d ! 28) (21 - 1))
       [mm_slli_epi32 (d ! 29) 1, mm_slli_epi32 (d ! 30) 22],
     accum128 (mm_srli_epi32 (d ! 30) (21 - 11))
       [mm_slli_epi32 (d ! 31) 11]])"

definition SIMD_fastpack22 :: "m128i list \<Rightarrow> m128i list" where
  "SIMD_fastpack22 inp =
    (let d = map (\<lambda>x. mm_and_si128 x (low_mask 22)) inp in
    [accum128 (d ! 0)
       [mm_slli_epi32 (d ! 1) 22],
     accum128 (mm_srli_epi32 (d ! 1) (22 - 12))
       [mm_slli_epi32 (d ! 2) 12],
     accum128 (mm_srli_epi32 (d ! 2) (22 - 2))
       [mm_slli_epi32 (d ! 3) 2, mm_slli_epi32 (d ! 4) 24],
     accum128 (mm_srli_epi32 (d ! 4) (22 - 14))
       [mm_slli_epi32 (d ! 5) 14],
     accum128 (mm_srli_epi32 (d ! 5) (22 - 4))
       [mm_slli_epi32 (d ! 6) 4, mm_slli_epi32 (d ! 7) 26],
     accum128 (mm_srli_epi32 (d ! 7) (22 - 16))
       [mm_slli_epi32 (d ! 8) 16],
     accum128 (mm_srli_epi32 (d ! 8) (22 - 6))
       [mm_slli_epi32 (d ! 9) 6, mm_slli_epi32 (d ! 10) 28],
     accum128 (mm_srli_epi32 (d ! 10) (22 - 18))
       [mm_slli_epi32 (d ! 11) 18],
     accum128 (mm_srli_epi32 (d ! 11) (22 - 8))
       [mm_slli_epi32 (d ! 12) 8, mm_slli_epi32 (d ! 13) 30],
     accum128 (mm_srli_epi32 (d ! 13) (22 - 20))
       [mm_slli_epi32 (d ! 14) 20],
     accum128 (mm_srli_epi32 (d ! 14) (22 - 10))
       [mm_slli_epi32 (d ! 15) 10],
     accum128 (d ! 16)
       [mm_slli_epi32 (d ! 17) 22],
     accum128 (mm_srli_epi32 (d ! 17) (22 - 12))
       [mm_slli_epi32 (d ! 18) 12],
     accum128 (mm_srli_epi32 (d ! 18) (22 - 2))
       [mm_slli_epi32 (d ! 19) 2, mm_slli_epi32 (d ! 20) 24],
     accum128 (mm_srli_epi32 (d ! 20) (22 - 14))
       [mm_slli_epi32 (d ! 21) 14],
     accum128 (mm_srli_epi32 (d ! 21) (22 - 4))
       [mm_slli_epi32 (d ! 22) 4, mm_slli_epi32 (d ! 23) 26],
     accum128 (mm_srli_epi32 (d ! 23) (22 - 16))
       [mm_slli_epi32 (d ! 24) 16],
     accum128 (mm_srli_epi32 (d ! 24) (22 - 6))
       [mm_slli_epi32 (d ! 25) 6, mm_slli_epi32 (d ! 26) 28],
     accum128 (mm_srli_epi32 (d ! 26) (22 - 18))
       [mm_slli_epi32 (d ! 27) 18],
     accum128 (mm_srli_epi32 (d ! 27) (22 - 8))
       [mm_slli_epi32 (d ! 28) 8, mm_slli_epi32 (d ! 29) 30],
     accum128 (mm_srli_epi32 (d ! 29) (22 - 20))
       [mm_slli_epi32 (d ! 30) 20],
     accum128 (mm_srli_epi32 (d ! 30) (22 - 10))
       [mm_slli_epi32 (d ! 31) 10]])"

definition SIMD_fastpack23 :: "m128i list \<Rightarrow> m128i list" where
  "SIMD_fastpack23 inp =
    (let d = map (\<lambda>x. mm_and_si128 x (low_mask 23)) inp in
    [accum128 (d ! 0)
       [mm_slli_epi32 (d ! 1) 23],
     accum128 (mm_srli_epi32 (d ! 1) (23 - 14))
       [mm_slli_epi32 (d ! 2) 14],
     accum128 (mm_srli_epi32 (d ! 2) (23 - 5))
       [mm_slli_epi32 (d ! 3) 5, mm_slli_epi32 (d ! 4) 28],
     accum128 (mm_srli_epi32 (d ! 4) (23 - 19))
       [mm_slli_epi32 (d ! 5) 19],
     accum128 (mm_srli_epi32 (d ! 5) (23 - 10))
       [mm_slli_epi32 (d ! 6) 10],
     accum128 (mm_srli_epi32 (d ! 6) (23 - 1))
       [mm_slli_epi32 (d ! 7) 1, mm_slli_epi32 (d ! 8) 24],
     accum128 (mm_srli_epi32 (d ! 8) (23 - 15))
       [mm_slli_epi32 (d ! 9) 15],
     accum128 (mm_srli_epi32 (d ! 9) (23 - 6))
       [mm_slli_epi32 (d ! 10) 6, mm_slli_epi32 (d ! 11) 29],
     accum128 (mm_srli_epi32 (d ! 11) (23 - 20))
       [mm_slli_epi32 (d ! 12) 20],
     accum128 (mm_srli_epi32 (d ! 12) (23 - 11))
       [mm_slli_epi32 (d ! 13) 11],
     accum128 (mm_srli_epi32 (d ! 13) (23 - 2))
       [mm_slli_epi32 (d ! 14) 2, mm_slli_epi32 (d ! 15) 25],
     accum128 (mm_srli_epi32 (d ! 15) (23 - 16))
       [mm_slli_epi32 (d ! 16) 16],
     accum128 (mm_srli_epi32 (d ! 16) (23 - 7))
       [mm_slli_epi32 (d ! 17) 7, mm_slli_epi32 (d ! 18) 30],
     accum128 (mm_srli_epi32 (d ! 18) (23 - 21))
       [mm_slli_epi32 (d ! 19) 21],
     accum128 (mm_srli_epi32 (d ! 19) (23 - 12))
       [mm_slli_epi32 (d ! 20) 12],
     accum128 (mm_srli_epi32 (d ! 20) (23 - 3))
       [mm_slli_epi32 (d ! 21) 3, mm_slli_epi32 (d ! 22) 26],
     accum128 (mm_srli_epi32 (d ! 22) (23 - 17))
       [mm_slli_epi32 (d ! 23) 17],
     accum128 (mm_srli_epi32 (d ! 23) (23 - 8))
       [mm_slli_epi32 (d ! 24) 8, mm_slli_epi32 (d ! 25) 31],
     accum128 (mm_srli_epi32 (d ! 25) (23 - 22))
       [mm_slli_epi32 (d ! 26) 22],
     accum128 (mm_srli_epi32 (d ! 26) (23 - 13))
       [mm_slli_epi32 (d ! 27) 13],
     accum128 (mm_srli_epi32 (d ! 27) (23 - 4))
       [mm_slli_epi32 (d ! 28) 4, mm_slli_epi32 (d ! 29) 27],
     accum128 (mm_srli_epi32 (d ! 29) (23 - 18))
       [mm_slli_epi32 (d ! 30) 18],
     accum128 (mm_srli_epi32 (d ! 30) (23 - 9))
       [mm_slli_epi32 (d ! 31) 9]])"

definition SIMD_fastpack24 :: "m128i list \<Rightarrow> m128i list" where
  "SIMD_fastpack24 inp =
    (let d = map (\<lambda>x. mm_and_si128 x (low_mask 24)) inp in
    [accum128 (d ! 0)
       [mm_slli_epi32 (d ! 1) 24],
     accum128 (mm_srli_epi32 (d ! 1) (24 - 16))
       [mm_slli_epi32 (d ! 2) 16],
     accum128 (mm_srli_epi32 (d ! 2) (24 - 8))
       [mm_slli_epi32 (d ! 3) 8],
     accum128 (d ! 4)
       [mm_slli_epi32 (d ! 5) 24],
     accum128 (mm_srli_epi32 (d ! 5) (24 - 16))
       [mm_slli_epi32 (d ! 6) 16],
     accum128 (mm_srli_epi32 (d ! 6) (24 - 8))
       [mm_slli_epi32 (d ! 7) 8],
     accum128 (d ! 8)
       [mm_slli_epi32 (d ! 9) 24],
     accum128 (mm_srli_epi32 (d ! 9) (24 - 16))
       [mm_slli_epi32 (d ! 10) 16],
     accum128 (mm_srli_epi32 (d ! 10) (24 - 8))
       [mm_slli_epi32 (d ! 11) 8],
     accum128 (d ! 12)
       [mm_slli_epi32 (d ! 13) 24],
     accum128 (mm_srli_epi32 (d ! 13) (24 - 16))
       [mm_slli_epi32 (d ! 14) 16],
     accum128 (mm_srli_epi32 (d ! 14) (24 - 8))
       [mm_slli_epi32 (d ! 15) 8],
     accum128 (d ! 16)
       [mm_slli_epi32 (d ! 17) 24],
     accum128 (mm_srli_epi32 (d ! 17) (24 - 16))
       [mm_slli_epi32 (d ! 18) 16],
     accum128 (mm_srli_epi32 (d ! 18) (24 - 8))
       [mm_slli_epi32 (d ! 19) 8],
     accum128 (d ! 20)
       [mm_slli_epi32 (d ! 21) 24],
     accum128 (mm_srli_epi32 (d ! 21) (24 - 16))
       [mm_slli_epi32 (d ! 22) 16],
     accum128 (mm_srli_epi32 (d ! 22) (24 - 8))
       [mm_slli_epi32 (d ! 23) 8],
     accum128 (d ! 24)
       [mm_slli_epi32 (d ! 25) 24],
     accum128 (mm_srli_epi32 (d ! 25) (24 - 16))
       [mm_slli_epi32 (d ! 26) 16],
     accum128 (mm_srli_epi32 (d ! 26) (24 - 8))
       [mm_slli_epi32 (d ! 27) 8],
     accum128 (d ! 28)
       [mm_slli_epi32 (d ! 29) 24],
     accum128 (mm_srli_epi32 (d ! 29) (24 - 16))
       [mm_slli_epi32 (d ! 30) 16],
     accum128 (mm_srli_epi32 (d ! 30) (24 - 8))
       [mm_slli_epi32 (d ! 31) 8]])"

definition SIMD_fastpack25 :: "m128i list \<Rightarrow> m128i list" where
  "SIMD_fastpack25 inp =
    (let d = map (\<lambda>x. mm_and_si128 x (low_mask 25)) inp in
    [accum128 (d ! 0)
       [mm_slli_epi32 (d ! 1) 25],
     accum128 (mm_srli_epi32 (d ! 1) (25 - 18))
       [mm_slli_epi32 (d ! 2) 18],
     accum128 (mm_srli_epi32 (d ! 2) (25 - 11))
       [mm_slli_epi32 (d ! 3) 11],
     accum128 (mm_srli_epi32 (d ! 3) (25 - 4))
       [mm_slli_epi32 (d ! 4) 4, mm_slli_epi32 (d ! 5) 29],
     accum128 (mm_srli_epi32 (d ! 5) (25 - 22))
       [mm_slli_epi32 (d ! 6) 22],
     accum128 (mm_srli_epi32 (d ! 6) (25 - 15))
       [mm_slli_epi32 (d ! 7) 15],
     accum128 (mm_srli_epi32 (d ! 7) (25 - 8))
       [mm_slli_epi32 (d ! 8) 8],
     accum128 (mm_srli_epi32 (d ! 8) (25 - 1))
       [mm_slli_epi32 (d ! 9) 1, mm_slli_epi32 (d ! 10) 26],
     accum128 (mm_srli_epi32 (d ! 10) (25 - 19))
       [mm_slli_epi32 (d ! 11) 19],
     accum128 (mm_srli_epi32 (d ! 11) (25 - 12))
       [mm_slli_epi32 (d ! 12) 12],
     accum128 (mm_srli_epi32 (d ! 12) (25 - 5))
       [mm_slli_epi32 (d ! 13) 5, mm_slli_epi32 (d ! 14) 30],
     accum128 (mm_srli_epi32 (d ! 14) (25 - 23))
       [mm_slli_epi32 (d ! 15) 23],
     accum128 (mm_srli_epi32 (d ! 15) (25 - 16))
       [mm_slli_epi32 (d ! 16) 16],
     accum128 (mm_srli_epi32 (d ! 16) (25 - 9))
       [mm_slli_epi32 (d ! 17) 9],
     accum128 (mm_srli_epi32 (d ! 17) (25 - 2))
       [mm_slli_epi32 (d ! 18) 2, mm_slli_epi32 (d ! 19) 27],
     accum128 (mm_srli_epi32 (d ! 19) (25 - 20))
       [mm_slli_epi32 (d ! 20) 20],
     accum128 (mm_srli_epi32 (d ! 20) (25 - 13))
       [mm_slli_epi32 (d ! 21) 13],
     accum128 (mm_srli_epi32 (d ! 21) (25 - 6))
       [mm_slli_epi32 (d ! 22) 6, mm_slli_epi32 (d ! 23) 31],
     accum128 (mm_srli_epi32 (d ! 23) (25 - 24))
       [mm_slli_epi32 (d ! 24) 24],
     accum128 (mm_srli_epi32 (d ! 24) (25 - 17))
       [mm_slli_epi32 (d ! 25) 17],
     accum128 (mm_srli_epi32 (d ! 25) (25 - 10))
       [mm_slli_epi32 (d ! 26) 10],
     accum128 (mm_srli_epi32 (d ! 26) (25 - 3))
       [mm_slli_epi32 (d ! 27) 3, mm_slli_epi32 (d ! 28) 28],
     accum128 (mm_srli_epi32 (d ! 28) (25 - 21))
       [mm_slli_epi32 (d ! 29) 21],
     accum128 (mm_srli_epi32 (d ! 29) (25 - 14))
       [mm_slli_epi32 (d ! 30) 14],
     accum128 (mm_srli_epi32 (d ! 30) (25 - 7))
       [mm_slli_epi32 (d ! 31) 7]])"

definition SIMD_fastpack26 :: "m128i list \<Rightarrow> m128i list" where
  "SIMD_fastpack26 inp =
    (let d = map (\<lambda>x. mm_and_si128 x (low_mask 26)) inp in
    [accum128 (d ! 0)
       [mm_slli_epi32 (d ! 1) 26],
     accum128 (mm_srli_epi32 (d ! 1) (26 - 20))
       [mm_slli_epi32 (d ! 2) 20],
     accum128 (mm_srli_epi32 (d ! 2) (26 - 14))
       [mm_slli_epi32 (d ! 3) 14],
     accum128 (mm_srli_epi32 (d ! 3) (26 - 8))
       [mm_slli_epi32 (d ! 4) 8],
     accum128 (mm_srli_epi32 (d ! 4) (26 - 2))
       [mm_slli_epi32 (d ! 5) 2, mm_slli_epi32 (d ! 6) 28],
     accum128 (mm_srli_epi32 (d ! 6) (26 - 22))
       [mm_slli_epi32 (d ! 7) 22],
     accum128 (mm_srli_epi32 (d ! 7) (26 - 16))
       [mm_slli_epi32 (d ! 8) 16],
     accum128 (mm_srli_epi32 (d ! 8) (26 - 10))
       [mm_slli_epi32 (d ! 9) 10],
     accum128 (mm_srli_epi32 (d ! 9) (26 - 4))
       [mm_slli_epi32 (d ! 10) 4, mm_slli_epi32 (d ! 11) 30],
     accum128 (mm_srli_epi32 (d ! 11) (26 - 24))
       [mm_slli_epi32 (d ! 12) 24],
     accum128 (mm_srli_epi32 (d ! 12) (26 - 18))
       [mm_slli_epi32 (d ! 13) 18],
     accum128 (mm_srli_epi32 (d ! 13) (26 - 12))
       [mm_slli_epi32 (d ! 14) 12],
     accum128 (mm_srli_epi32 (d ! 14) (26 - 6))
       [mm_slli_epi32 (d ! 15) 6],
     accum128 (d ! 16)
       [mm_slli_epi32 (d ! 17) 26],
     accum128 (mm_srli_epi32 (d ! 17) (26 - 20))
       [mm_slli_epi32 (d ! 18) 20],
     accum128 (mm_srli_epi32 (d ! 18) (26 - 14))
       [mm_slli_epi32 (d ! 19) 14],
     accum128 (mm_srli_epi32 (d ! 19) (26 - 8))
       [mm_slli_epi32 (d ! 20) 8],
     accum128 (mm_srli_epi32 (d ! 20) (26 - 2))
       [mm_slli_epi32 (d ! 21) 2, mm_slli_epi32 (d ! 22) 28],
     accum128 (mm_srli_epi32 (d ! 22) (26 - 22))
       [mm_slli_epi32 (d ! 23) 22],
     accum128 (mm_srli_epi32 (d ! 23) (26 - 16))
       [mm_slli_epi32 (d ! 24) 16],
     accum128 (mm_srli_epi32 (d ! 24) (26 - 10))
       [mm_slli_epi32 (d ! 25) 10],
     accum128 (mm_srli_epi32 (d ! 25) (26 - 4))
       [mm_slli_epi32 (d ! 26) 4, mm_slli_epi32 (d ! 27) 30],
     accum128 (mm_srli_epi32 (d ! 27) (26 - 24))
       [mm_slli_epi32 (d ! 28) 24],
     accum128 (mm_srli_epi32 (d ! 28) (26 - 18))
       [mm_slli_epi32 (d ! 29) 18],
     accum128 (mm_srli_epi32 (d ! 29) (26 - 12))
       [mm_slli_epi32 (d ! 30) 12],
     accum128 (mm_srli_epi32 (d ! 30) (26 - 6))
       [mm_slli_epi32 (d ! 31) 6]])"

definition SIMD_fastpack27 :: "m128i list \<Rightarrow> m128i list" where
  "SIMD_fastpack27 inp =
    (let d = map (\<lambda>x. mm_and_si128 x (low_mask 27)) inp in
    [accum128 (d ! 0)
       [mm_slli_epi32 (d ! 1) 27],
     accum128 (mm_srli_epi32 (d ! 1) (27 - 22))
       [mm_slli_epi32 (d ! 2) 22],
     accum128 (mm_srli_epi32 (d ! 2) (27 - 17))
       [mm_slli_epi32 (d ! 3) 17],
     accum128 (mm_srli_epi32 (d ! 3) (27 - 12))
       [mm_slli_epi32 (d ! 4) 12],
     accum128 (mm_srli_epi32 (d ! 4) (27 - 7))
       [mm_slli_epi32 (d ! 5) 7],
     accum128 (mm_srli_epi32 (d ! 5) (27 - 2))
       [mm_slli_epi32 (d ! 6) 2, mm_slli_epi32 (d ! 7) 29],
     accum128 (mm_srli_epi32 (d ! 7) (27 - 24))
       [mm_slli_epi32 (d ! 8) 24],
     accum128 (mm_srli_epi32 (d ! 8) (27 - 19))
       [mm_slli_epi32 (d ! 9) 19],
     accum128 (mm_srli_epi32 (d ! 9) (27 - 14))
       [mm_slli_epi32 (d ! 10) 14],
     accum128 (mm_srli_epi32 (d ! 10) (27 - 9))
       [mm_slli_epi32 (d ! 11) 9],
     accum128 (mm_srli_epi32 (d ! 11) (27 - 4))
       [mm_slli_epi32 (d ! 12) 4, mm_slli_epi32 (d ! 13) 31],
     accum128 (mm_srli_epi32 (d ! 13) (27 - 26))
       [mm_slli_epi32 (d ! 14) 26],
     accum128 (mm_srli_epi32 (d ! 14) (27 - 21))
       [mm_slli_epi32 (d ! 15) 21],
     accum128 (mm_srli_epi32 (d ! 15) (27 - 16))
       [mm_slli_epi32 (d ! 16) 16],
     accum128 (mm_srli_epi32 (d ! 16) (27 - 11))
       [mm_slli_epi32 (d ! 17) 11],
     accum128 (mm_srli_epi32 (d ! 17) (27 - 6))
       [mm_slli_epi32 (d ! 18) 6],
     accum128 (mm_srli_epi32 (d ! 18) (27 - 1))
       [mm_slli_epi32 (d ! 19) 1, mm_slli_epi32 (d ! 20) 28],
     accum128 (mm_srli_epi32 (d ! 20) (27 - 23))
       [mm_slli_epi32 (d ! 21) 23],
     accum128 (mm_srli_epi32 (d ! 21) (27 - 18))
       [mm_slli_epi32 (d ! 22) 18],
     accum128 (mm_srli_epi32 (d ! 22) (27 - 13))
       [mm_slli_epi32 (d ! 23) 13],
     accum128 (mm_srli_epi32 (d ! 23) (27 - 8))
       [mm_slli_epi32 (d ! 24) 8],
     accum128 (mm_srli_epi32 (d ! 24) (27 - 3))
       [mm_slli_epi32 (d ! 25) 3, mm_slli_epi32 (d ! 26) 30],
     accum128 (mm_srli_epi32 (d ! 26) (27 - 25))
       [mm_slli_epi32 (d ! 27) 25],
     accum128 (mm_srli_epi32 (d ! 27) (27 - 20))
       [mm_slli_epi32 (d ! 28) 20],
     accum128 (mm_srli_epi32 (d ! 28) (27 - 15))
       [mm_slli_epi32 (d ! 29) 15],
     accum128 (mm_srli_epi32 (d ! 29) (27 - 10))
       [mm_slli_epi32 (d ! 30) 10],
     accum128 (mm_srli_epi32 (d ! 30) (27 - 5))
       [mm_slli_epi32 (d ! 31) 5]])"

definition SIMD_fastpack28 :: "m128i list \<Rightarrow> m128i list" where
  "SIMD_fastpack28 inp =
    (let d = map (\<lambda>x. mm_and_si128 x (low_mask 28)) inp in
    [accum128 (d ! 0)
       [mm_slli_epi32 (d ! 1) 28],
     accum128 (mm_srli_epi32 (d ! 1) (28 - 24))
       [mm_slli_epi32 (d ! 2) 24],
     accum128 (mm_srli_epi32 (d ! 2) (28 - 20))
       [mm_slli_epi32 (d ! 3) 20],
     accum128 (mm_srli_epi32 (d ! 3) (28 - 16))
       [mm_slli_epi32 (d ! 4) 16],
     accum128 (mm_srli_epi32 (d ! 4) (28 - 12))
       [mm_slli_epi32 (d ! 5) 12],
     accum128 (mm_srli_epi32 (d ! 5) (28 - 8))
       [mm_slli_epi32 (d ! 6) 8],
     accum128 (mm_srli_epi32 (d ! 6) (28 - 4))
       [mm_slli_epi32 (d ! 7) 4],
     accum128 (d ! 8)
       [mm_slli_epi32 (d ! 9) 28],
     accum128 (mm_srli_epi32 (d ! 9) (28 - 24))
       [mm_slli_epi32 (d ! 10) 24],
     accum128 (mm_srli_epi32 (d ! 10) (28 - 20))
       [mm_slli_epi32 (d ! 11) 20],
     accum128 (mm_srli_epi32 (d ! 11) (28 - 16))
       [mm_slli_epi32 (d ! 12) 16],
     accum128 (mm_srli_epi32 (d ! 12) (28 - 12))
       [mm_slli_epi32 (d ! 13) 12],
     accum128 (mm_srli_epi32 (d ! 13) (28 - 8))
       [mm_slli_epi32 (d ! 14) 8],
     accum128 (mm_srli_epi32 (d ! 14) (28 - 4))
       [mm_slli_epi32 (d ! 15) 4],
     accum128 (d ! 16)
       [mm_slli_epi32 (d ! 17) 28],
     accum128 (mm_srli_epi32 (d ! 17) (28 - 24))
       [mm_slli_epi32 (d ! 18) 24],
     accum128 (mm_srli_epi32 (d ! 18) (28 - 20))
       [mm_slli_epi32 (d ! 19) 20],
     accum128 (mm_srli_epi32 (d ! 19) (28 - 16))
       [mm_slli_epi32 (d ! 20) 16],
     accum128 (mm_srli_epi32 (d ! 20) (28 - 12))
       [mm_slli_epi32 (d ! 21) 12],
     accum128 (mm_srli_epi32 (d ! 21) (28 - 8))
       [mm_slli_epi32 (d ! 22) 8],
     accum128 (mm_srli_epi32 (d ! 22) (28 - 4))
       [mm_slli_epi32 (d ! 23) 4],
     accum128 (d ! 24)
       [mm_slli_epi32 (d ! 25) 28],
     accum128 (mm_srli_epi32 (d ! 25) (28 - 24))
       [mm_slli_epi32 (d ! 26) 24],
     accum128 (mm_srli_epi32 (d ! 26) (28 - 20))
       [mm_slli_epi32 (d ! 27) 20],
     accum128 (mm_srli_epi32 (d ! 27) (28 - 16))
       [mm_slli_epi32 (d ! 28) 16],
     accum128 (mm_srli_epi32 (d ! 28) (28 - 12))
       [mm_slli_epi32 (d ! 29) 12],
     accum128 (mm_srli_epi32 (d ! 29) (28 - 8))
       [mm_slli_epi32 (d ! 30) 8],
     accum128 (mm_srli_epi32 (d ! 30) (28 - 4))
       [mm_slli_epi32 (d ! 31) 4]])"

definition SIMD_fastpack29 :: "m128i list \<Rightarrow> m128i list" where
  "SIMD_fastpack29 inp =
    (let d = map (\<lambda>x. mm_and_si128 x (low_mask 29)) inp in
    [accum128 (d ! 0)
       [mm_slli_epi32 (d ! 1) 29],
     accum128 (mm_srli_epi32 (d ! 1) (29 - 26))
       [mm_slli_epi32 (d ! 2) 26],
     accum128 (mm_srli_epi32 (d ! 2) (29 - 23))
       [mm_slli_epi32 (d ! 3) 23],
     accum128 (mm_srli_epi32 (d ! 3) (29 - 20))
       [mm_slli_epi32 (d ! 4) 20],
     accum128 (mm_srli_epi32 (d ! 4) (29 - 17))
       [mm_slli_epi32 (d ! 5) 17],
     accum128 (mm_srli_epi32 (d ! 5) (29 - 14))
       [mm_slli_epi32 (d ! 6) 14],
     accum128 (mm_srli_epi32 (d ! 6) (29 - 11))
       [mm_slli_epi32 (d ! 7) 11],
     accum128 (mm_srli_epi32 (d ! 7) (29 - 8))
       [mm_slli_epi32 (d ! 8) 8],
     accum128 (mm_srli_epi32 (d ! 8) (29 - 5))
       [mm_slli_epi32 (d ! 9) 5],
     accum128 (mm_srli_epi32 (d ! 9) (29 - 2))
       [mm_slli_epi32 (d ! 10) 2, mm_slli_epi32 (d ! 11) 31],
     accum128 (mm_srli_epi32 (d ! 11) (29 - 28))
       [mm_slli_epi32 (d ! 12) 28],
     accum128 (mm_srli_epi32 (d ! 12) (29 - 25))
       [mm_slli_epi32 (d ! 13) 25],
     accum128 (mm_srli_epi32 (d ! 13) (29 - 22))
       [mm_slli_epi32 (d ! 14) 22],
     accum128 (mm_srli_epi32 (d ! 14) (29 - 19))
       [mm_slli_epi32 (d ! 15) 19],
     accum128 (mm_srli_epi32 (d ! 15) (29 - 16))
       [mm_slli_epi32 (d ! 16) 16],
     accum128 (mm_srli_epi32 (d ! 16) (29 - 13))
       [mm_slli_epi32 (d ! 17) 13],
     accum128 (mm_srli_epi32 (d ! 17) (29 - 10))
       [mm_slli_epi32 (d ! 18) 10],
     accum128 (mm_srli_epi32 (d ! 18) (29 - 7))
       [mm_slli_epi32 (d ! 19) 7],
     accum128 (mm_srli_epi32 (d ! 19) (29 - 4))
       [mm_slli_epi32 (d ! 20) 4],
     accum128 (mm_srli_epi32 (d ! 20) (29 - 1))
       [mm_slli_epi32 (d ! 21) 1, mm_slli_epi32 (d ! 22) 30],
     accum128 (mm_srli_epi32 (d ! 22) (29 - 27))
       [mm_slli_epi32 (d ! 23) 27],
     accum128 (mm_srli_epi32 (d ! 23) (29 - 24))
       [mm_slli_epi32 (d ! 24) 24],
     accum128 (mm_srli_epi32 (d ! 24) (29 - 21))
       [mm_slli_epi32 (d ! 25) 21],
     accum128 (mm_srli_epi32 (d ! 25) (29 - 18))
       [mm_slli_epi32 (d ! 26) 18],
     accum128 (mm_srli_epi32 (d ! 26) (29 - 15))
       [mm_slli_epi32 (d ! 27) 15],
     accum128 (mm_srli_epi32 (d ! 27) (29 - 12))
       [mm_slli_epi32 (d ! 28) 12],
     accum128 (mm_srli_epi32 (d ! 28) (29 - 9))
       [mm_slli_epi32 (d ! 29) 9],
     accum128 (mm_srli_epi32 (d ! 29) (29 - 6))
       [mm_slli_epi32 (d ! 30) 6],
     accum128 (mm_srli_epi32 (d ! 30) (29 - 3))
       [mm_slli_epi32 (d ! 31) 3]])"

definition SIMD_fastpack30 :: "m128i list \<Rightarrow> m128i list" where
  "SIMD_fastpack30 inp =
    (let d = map (\<lambda>x. mm_and_si128 x (low_mask 30)) inp in
    [accum128 (d ! 0)
       [mm_slli_epi32 (d ! 1) 30],
     accum128 (mm_srli_epi32 (d ! 1) (30 - 28))
       [mm_slli_epi32 (d ! 2) 28],
     accum128 (mm_srli_epi32 (d ! 2) (30 - 26))
       [mm_slli_epi32 (d ! 3) 26],
     accum128 (mm_srli_epi32 (d ! 3) (30 - 24))
       [mm_slli_epi32 (d ! 4) 24],
     accum128 (mm_srli_epi32 (d ! 4) (30 - 22))
       [mm_slli_epi32 (d ! 5) 22],
     accum128 (mm_srli_epi32 (d ! 5) (30 - 20))
       [mm_slli_epi32 (d ! 6) 20],
     accum128 (mm_srli_epi32 (d ! 6) (30 - 18))
       [mm_slli_epi32 (d ! 7) 18],
     accum128 (mm_srli_epi32 (d ! 7) (30 - 16))
       [mm_slli_epi32 (d ! 8) 16],
     accum128 (mm_srli_epi32 (d ! 8) (30 - 14))
       [mm_slli_epi32 (d ! 9) 14],
     accum128 (mm_srli_epi32 (d ! 9) (30 - 12))
       [mm_slli_epi32 (d ! 10) 12],
     accum128 (mm_srli_epi32 (d ! 10) (30 - 10))
       [mm_slli_epi32 (d ! 11) 10],
     accum128 (mm_srli_epi32 (d ! 11) (30 - 8))
       [mm_slli_epi32 (d ! 12) 8],
     accum128 (mm_srli_epi32 (d ! 12) (30 - 6))
       [mm_slli_epi32 (d ! 13) 6],
     accum128 (mm_srli_epi32 (d ! 13) (30 - 4))
       [mm_slli_epi32 (d ! 14) 4],
     accum128 (mm_srli_epi32 (d ! 14) (30 - 2))
       [mm_slli_epi32 (d ! 15) 2],
     accum128 (d ! 16)
       [mm_slli_epi32 (d ! 17) 30],
     accum128 (mm_srli_epi32 (d ! 17) (30 - 28))
       [mm_slli_epi32 (d ! 18) 28],
     accum128 (mm_srli_epi32 (d ! 18) (30 - 26))
       [mm_slli_epi32 (d ! 19) 26],
     accum128 (mm_srli_epi32 (d ! 19) (30 - 24))
       [mm_slli_epi32 (d ! 20) 24],
     accum128 (mm_srli_epi32 (d ! 20) (30 - 22))
       [mm_slli_epi32 (d ! 21) 22],
     accum128 (mm_srli_epi32 (d ! 21) (30 - 20))
       [mm_slli_epi32 (d ! 22) 20],
     accum128 (mm_srli_epi32 (d ! 22) (30 - 18))
       [mm_slli_epi32 (d ! 23) 18],
     accum128 (mm_srli_epi32 (d ! 23) (30 - 16))
       [mm_slli_epi32 (d ! 24) 16],
     accum128 (mm_srli_epi32 (d ! 24) (30 - 14))
       [mm_slli_epi32 (d ! 25) 14],
     accum128 (mm_srli_epi32 (d ! 25) (30 - 12))
       [mm_slli_epi32 (d ! 26) 12],
     accum128 (mm_srli_epi32 (d ! 26) (30 - 10))
       [mm_slli_epi32 (d ! 27) 10],
     accum128 (mm_srli_epi32 (d ! 27) (30 - 8))
       [mm_slli_epi32 (d ! 28) 8],
     accum128 (mm_srli_epi32 (d ! 28) (30 - 6))
       [mm_slli_epi32 (d ! 29) 6],
     accum128 (mm_srli_epi32 (d ! 29) (30 - 4))
       [mm_slli_epi32 (d ! 30) 4],
     accum128 (mm_srli_epi32 (d ! 30) (30 - 2))
       [mm_slli_epi32 (d ! 31) 2]])"

definition SIMD_fastpack31 :: "m128i list \<Rightarrow> m128i list" where
  "SIMD_fastpack31 inp =
    (let d = map (\<lambda>x. mm_and_si128 x (low_mask 31)) inp in
    [accum128 (d ! 0)
       [mm_slli_epi32 (d ! 1) 31],
     accum128 (mm_srli_epi32 (d ! 1) (31 - 30))
       [mm_slli_epi32 (d ! 2) 30],
     accum128 (mm_srli_epi32 (d ! 2) (31 - 29))
       [mm_slli_epi32 (d ! 3) 29],
     accum128 (mm_srli_epi32 (d ! 3) (31 - 28))
       [mm_slli_epi32 (d ! 4) 28],
     accum128 (mm_srli_epi32 (d ! 4) (31 - 27))
       [mm_slli_epi32 (d ! 5) 27],
     accum128 (mm_srli_epi32 (d ! 5) (31 - 26))
       [mm_slli_epi32 (d ! 6) 26],
     accum128 (mm_srli_epi32 (d ! 6) (31 - 25))
       [mm_slli_epi32 (d ! 7) 25],
     accum128 (mm_srli_epi32 (d ! 7) (31 - 24))
       [mm_slli_epi32 (d ! 8) 24],
     accum128 (mm_srli_epi32 (d ! 8) (31 - 23))
       [mm_slli_epi32 (d ! 9) 23],
     accum128 (mm_srli_epi32 (d ! 9) (31 - 22))
       [mm_slli_epi32 (d ! 10) 22],
     accum128 (mm_srli_epi32 (d ! 10) (31 - 21))
       [mm_slli_epi32 (d ! 11) 21],
     accum128 (mm_srli_epi32 (d ! 11) (31 - 20))
       [mm_slli_epi32 (d ! 12) 20],
     accum128 (mm_srli_epi32 (d ! 12) (31 - 19))
       [mm_slli_epi32 (d ! 13) 19],
     accum128 (mm_srli_epi32 (d ! 13) (31 - 18))
       [mm_slli_epi32 (d ! 14) 18],
     accum128 (mm_srli_epi32 (d ! 14) (31 - 17))
       [mm_slli_epi32 (d ! 15) 17],
     accum128 (mm_srli_epi32 (d ! 15) (31 - 16))
       [mm_slli_epi32 (d ! 16) 16],
     accum128 (mm_srli_epi32 (d ! 16) (31 - 15))
       [mm_slli_epi32 (d ! 17) 15],
     accum128 (mm_srli_epi32 (d ! 17) (31 - 14))
       [mm_slli_epi32 (d ! 18) 14],
     accum128 (mm_srli_epi32 (d ! 18) (31 - 13))
       [mm_slli_epi32 (d ! 19) 13],
     accum128 (mm_srli_epi32 (d ! 19) (31 - 12))
       [mm_slli_epi32 (d ! 20) 12],
     accum128 (mm_srli_epi32 (d ! 20) (31 - 11))
       [mm_slli_epi32 (d ! 21) 11],
     accum128 (mm_srli_epi32 (d ! 21) (31 - 10))
       [mm_slli_epi32 (d ! 22) 10],
     accum128 (mm_srli_epi32 (d ! 22) (31 - 9))
       [mm_slli_epi32 (d ! 23) 9],
     accum128 (mm_srli_epi32 (d ! 23) (31 - 8))
       [mm_slli_epi32 (d ! 24) 8],
     accum128 (mm_srli_epi32 (d ! 24) (31 - 7))
       [mm_slli_epi32 (d ! 25) 7],
     accum128 (mm_srli_epi32 (d ! 25) (31 - 6))
       [mm_slli_epi32 (d ! 26) 6],
     accum128 (mm_srli_epi32 (d ! 26) (31 - 5))
       [mm_slli_epi32 (d ! 27) 5],
     accum128 (mm_srli_epi32 (d ! 27) (31 - 4))
       [mm_slli_epi32 (d ! 28) 4],
     accum128 (mm_srli_epi32 (d ! 28) (31 - 3))
       [mm_slli_epi32 (d ! 29) 3],
     accum128 (mm_srli_epi32 (d ! 29) (31 - 2))
       [mm_slli_epi32 (d ! 30) 2],
     accum128 (mm_srli_epi32 (d ! 30) (31 - 1))
       [mm_slli_epi32 (d ! 31) 1]])"

definition SIMD_fastpack32 :: "m128i list \<Rightarrow> m128i list" where
  "SIMD_fastpack32 inp =
    [inp ! 0, inp ! 1, inp ! 2, inp ! 3, inp ! 4, inp ! 5, inp ! 6, inp ! 7, inp ! 8, inp ! 9,
     inp ! 10, inp ! 11, inp ! 12, inp ! 13, inp ! 14, inp ! 15, inp ! 16, inp ! 17, inp ! 18,
     inp ! 19, inp ! 20, inp ! 21, inp ! 22, inp ! 23, inp ! 24, inp ! 25, inp ! 26, inp ! 27,
     inp ! 28, inp ! 29, inp ! 30, inp ! 31]"

section \<open>Every routine packs the four lanes\<close>

lemma SIMD_fastpackwithoutmask0_packs: "packs 0 SIMD_fastpackwithoutmask0"
  by (simp add: packs_def SIMD_fastpackwithoutmask0_def pack_nomask_ref_def)

lemma SIMD_fastpackwithoutmask1_packs: "packs 1 SIMD_fastpackwithoutmask1"
  unfolding packs_def
  by (simp add: SIMD_fastpackwithoutmask1_def vpack_simps del: One_nat_def add_Suc_right flip: numeral_2_eq_2)
     (simp add: pack_simps del: One_nat_def add_Suc_right flip: numeral_2_eq_2)

lemma SIMD_fastpackwithoutmask2_packs: "packs 2 SIMD_fastpackwithoutmask2"
  unfolding packs_def
  by (simp add: SIMD_fastpackwithoutmask2_def vpack_simps del: One_nat_def add_Suc_right flip: numeral_2_eq_2)
     (simp add: pack_simps del: One_nat_def add_Suc_right flip: numeral_2_eq_2)

lemma SIMD_fastpackwithoutmask3_packs: "packs 3 SIMD_fastpackwithoutmask3"
  unfolding packs_def
  by (simp add: SIMD_fastpackwithoutmask3_def vpack_simps del: One_nat_def add_Suc_right flip: numeral_2_eq_2)
     (simp add: pack_simps del: One_nat_def add_Suc_right flip: numeral_2_eq_2)

lemma SIMD_fastpackwithoutmask4_packs: "packs 4 SIMD_fastpackwithoutmask4"
  unfolding packs_def
  by (simp add: SIMD_fastpackwithoutmask4_def vpack_simps del: One_nat_def add_Suc_right flip: numeral_2_eq_2)
     (simp add: pack_simps del: One_nat_def add_Suc_right flip: numeral_2_eq_2)

lemma SIMD_fastpackwithoutmask5_packs: "packs 5 SIMD_fastpackwithoutmask5"
  unfolding packs_def
  by (simp add: SIMD_fastpackwithoutmask5_def vpack_simps del: One_nat_def add_Suc_right flip: numeral_2_eq_2)
     (simp add: pack_simps del: One_nat_def add_Suc_right flip: numeral_2_eq_2)

lemma SIMD_fastpackwithoutmask6_packs: "packs 6 SIMD_fastpackwithoutmask6"
  unfolding packs_def
  by (simp add: SIMD_fastpackwithoutmask6_def vpack_simps del: One_nat_def add_Suc_right flip: numeral_2_eq_2)
     (simp add: pack_simps del: One_nat_def add_Suc_right flip: numeral_2_eq_2)

lemma SIMD_fastpackwithoutmask7_packs: "packs 7 SIMD_fastpackwithoutmask7"
  unfolding packs_def
  by (simp add: SIMD_fastpackwithoutmask7_def vpack_simps del: One_nat_def add_Suc_right flip: numeral_2_eq_2)
     (simp add: pack_simps del: One_nat_def add_Suc_right flip: numeral_2_eq_2)

lemma SIMD_fastpackwithoutmask8_packs: "packs 8 SIMD_fastpackwithoutmask8"
  unfolding packs_def
  by (simp add: SIMD_fastpackwithoutmask8_def vpack_simps del: One_nat_def add_Suc_right flip: numeral_2_eq_2)
     (simp add: pack_simps del: One_nat_def add_Suc_right flip: numeral_2_eq_2)

lemma SIMD_fastpackwithoutmask9_packs: "packs 9 SIMD_fastpackwithoutmask9"
  unfolding packs_def
  by (simp add: SIMD_fastpackwithoutmask9_def vpack_simps del: One_nat_def add_Suc_right flip: numeral_2_eq_2)
     (simp add: pack_simps del: One_nat_def add_Suc_right flip: numeral_2_eq_2)

lemma SIMD_fastpackwithoutmask10_packs: "packs 10 SIMD_fastpackwithoutmask10"
  unfolding packs_def
  by (simp add: SIMD_fastpackwithoutmask10_def vpack_simps del: One_nat_def add_Suc_right flip: numeral_2_eq_2)
     (simp add: pack_simps del: One_nat_def add_Suc_right flip: numeral_2_eq_2)

lemma SIMD_fastpackwithoutmask11_packs: "packs 11 SIMD_fastpackwithoutmask11"
  unfolding packs_def
  by (simp add: SIMD_fastpackwithoutmask11_def vpack_simps del: One_nat_def add_Suc_right flip: numeral_2_eq_2)
     (simp add: pack_simps del: One_nat_def add_Suc_right flip: numeral_2_eq_2)

lemma SIMD_fastpackwithoutmask12_packs: "packs 12 SIMD_fastpackwithoutmask12"
  unfolding packs_def
  by (simp add: SIMD_fastpackwithoutmask12_def vpack_simps del: One_nat_def add_Suc_right flip: numeral_2_eq_2)
     (simp add: pack_simps del: One_nat_def add_Suc_right flip: numeral_2_eq_2)

lemma SIMD_fastpackwithoutmask13_packs: "packs 13 SIMD_fastpackwithoutmask13"
  unfolding packs_def
  by (simp add: SIMD_fastpackwithoutmask13_def vpack_simps del: One_nat_def add_Suc_right flip: numeral_2_eq_2)
     (simp add: pack_simps del: One_nat_def add_Suc_right flip: numeral_2_eq_2)

lemma SIMD_fastpackwithoutmask14_packs: "packs 14 SIMD_fastpackwithoutmask14"
  unfolding packs_def
  by (simp add: SIMD_fastpackwithoutmask14_def vpack_simps del: One_nat_def add_Suc_right flip: numeral_2_eq_2)
     (simp add: pack_simps del: One_nat_def add_Suc_right flip: numeral_2_eq_2)

lemma SIMD_fastpackwithoutmask15_packs: "packs 15 SIMD_fastpackwithoutmask15"
  unfolding packs_def
  by (simp add: SIMD_fastpackwithoutmask15_def vpack_simps del: One_nat_def add_Suc_right flip: numeral_2_eq_2)
     (simp add: pack_simps del: One_nat_def add_Suc_right flip: numeral_2_eq_2)

lemma SIMD_fastpackwithoutmask16_packs: "packs 16 SIMD_fastpackwithoutmask16"
  unfolding packs_def
  by (simp add: SIMD_fastpackwithoutmask16_def vpack_simps del: One_nat_def add_Suc_right flip: numeral_2_eq_2)
     (simp add: pack_simps del: One_nat_def add_Suc_right flip: numeral_2_eq_2)

lemma SIMD_fastpackwithoutmask17_packs: "packs 17 SIMD_fastpackwithoutmask17"
  unfolding packs_def
  by (simp add: SIMD_fastpackwithoutmask17_def vpack_simps del: One_nat_def add_Suc_right flip: numeral_2_eq_2)
     (simp add: pack_simps del: One_nat_def add_Suc_right flip: numeral_2_eq_2)

lemma SIMD_fastpackwithoutmask18_packs: "packs 18 SIMD_fastpackwithoutmask18"
  unfolding packs_def
  by (simp add: SIMD_fastpackwithoutmask18_def vpack_simps del: One_nat_def add_Suc_right flip: numeral_2_eq_2)
     (simp add: pack_simps del: One_nat_def add_Suc_right flip: numeral_2_eq_2)

lemma SIMD_fastpackwithoutmask19_packs: "packs 19 SIMD_fastpackwithoutmask19"
  unfolding packs_def
  by (simp add: SIMD_fastpackwithoutmask19_def vpack_simps del: One_nat_def add_Suc_right flip: numeral_2_eq_2)
     (simp add: pack_simps del: One_nat_def add_Suc_right flip: numeral_2_eq_2)

lemma SIMD_fastpackwithoutmask20_packs: "packs 20 SIMD_fastpackwithoutmask20"
  unfolding packs_def
  by (simp add: SIMD_fastpackwithoutmask20_def vpack_simps del: One_nat_def add_Suc_right flip: numeral_2_eq_2)
     (simp add: pack_simps del: One_nat_def add_Suc_right flip: numeral_2_eq_2)

lemma SIMD_fastpackwithoutmask21_packs: "packs 21 SIMD_fastpackwithoutmask21"
  unfolding packs_def
  by (simp add: SIMD_fastpackwithoutmask21_def vpack_simps del: One_nat_def add_Suc_right flip: numeral_2_eq_2)
     (simp add: pack_simps del: One_nat_def add_Suc_right flip: numeral_2_eq_2)

lemma SIMD_fastpackwithoutmask22_packs: "packs 22 SIMD_fastpackwithoutmask22"
  unfolding packs_def
  by (simp add: SIMD_fastpackwithoutmask22_def vpack_simps del: One_nat_def add_Suc_right flip: numeral_2_eq_2)
     (simp add: pack_simps del: One_nat_def add_Suc_right flip: numeral_2_eq_2)

lemma SIMD_fastpackwithoutmask23_packs: "packs 23 SIMD_fastpackwithoutmask23"
  unfolding packs_def
  by (simp add: SIMD_fastpackwithoutmask23_def vpack_simps del: One_nat_def add_Suc_right flip: numeral_2_eq_2)
     (simp add: pack_simps del: One_nat_def add_Suc_right flip: numeral_2_eq_2)

lemma SIMD_fastpackwithoutmask24_packs: "packs 24 SIMD_fastpackwithoutmask24"
  unfolding packs_def
  by (simp add: SIMD_fastpackwithoutmask24_def vpack_simps del: One_nat_def add_Suc_right flip: numeral_2_eq_2)
     (simp add: pack_simps del: One_nat_def add_Suc_right flip: numeral_2_eq_2)

lemma SIMD_fastpackwithoutmask25_packs: "packs 25 SIMD_fastpackwithoutmask25"
  unfolding packs_def
  by (simp add: SIMD_fastpackwithoutmask25_def vpack_simps del: One_nat_def add_Suc_right flip: numeral_2_eq_2)
     (simp add: pack_simps del: One_nat_def add_Suc_right flip: numeral_2_eq_2)

lemma SIMD_fastpackwithoutmask26_packs: "packs 26 SIMD_fastpackwithoutmask26"
  unfolding packs_def
  by (simp add: SIMD_fastpackwithoutmask26_def vpack_simps del: One_nat_def add_Suc_right flip: numeral_2_eq_2)
     (simp add: pack_simps del: One_nat_def add_Suc_right flip: numeral_2_eq_2)

lemma SIMD_fastpackwithoutmask27_packs: "packs 27 SIMD_fastpackwithoutmask27"
  unfolding packs_def
  by (simp add: SIMD_fastpackwithoutmask27_def vpack_simps del: One_nat_def add_Suc_right flip: numeral_2_eq_2)
     (simp add: pack_simps del: One_nat_def add_Suc_right flip: numeral_2_eq_2)

lemma SIMD_fastpackwithoutmask28_packs: "packs 28 SIMD_fastpackwithoutmask28"
  unfolding packs_def
  by (simp add: SIMD_fastpackwithoutmask28_def vpack_simps del: One_nat_def add_Suc_right flip: numeral_2_eq_2)
     (simp add: pack_simps del: One_nat_def add_Suc_right flip: numeral_2_eq_2)

lemma SIMD_fastpackwithoutmask29_packs: "packs 29 SIMD_fastpackwithoutmask29"
  unfolding packs_def
  by (simp add: SIMD_fastpackwithoutmask29_def vpack_simps del: One_nat_def add_Suc_right flip: numeral_2_eq_2)
     (simp add: pack_simps del: One_nat_def add_Suc_right flip: numeral_2_eq_2)

lemma SIMD_fastpackwithoutmask30_packs: "packs 30 SIMD_fastpackwithoutmask30"
  unfolding packs_def
  by (simp add: SIMD_fastpackwithoutmask30_def vpack_simps del: One_nat_def add_Suc_right flip: numeral_2_eq_2)
     (simp add: pack_simps del: One_nat_def add_Suc_right flip: numeral_2_eq_2)

lemma SIMD_fastpackwithoutmask31_packs: "packs 31 SIMD_fastpackwithoutmask31"
  unfolding packs_def
  by (simp add: SIMD_fastpackwithoutmask31_def vpack_simps del: One_nat_def add_Suc_right flip: numeral_2_eq_2)
     (simp add: pack_simps del: One_nat_def add_Suc_right flip: numeral_2_eq_2)

lemma SIMD_fastpackwithoutmask32_packs: "packs 32 SIMD_fastpackwithoutmask32"
  unfolding packs_def
  by (simp add: SIMD_fastpackwithoutmask32_def vpack_simps del: One_nat_def add_Suc_right flip: numeral_2_eq_2)
     (simp add: pack_simps del: One_nat_def add_Suc_right flip: numeral_2_eq_2)

lemma SIMD_fastpack0_eq: "SIMD_fastpack0 inp = SIMD_fastpackwithoutmask0 inp"
  by (simp only: SIMD_fastpack0_def SIMD_fastpackwithoutmask0_def)

lemma SIMD_fastpack1_eq: "SIMD_fastpack1 inp = SIMD_fastpackwithoutmask1 (vmask 1 inp)"
  by (simp only: SIMD_fastpack1_def SIMD_fastpackwithoutmask1_def vmask_def Let_def)

lemma SIMD_fastpack2_eq: "SIMD_fastpack2 inp = SIMD_fastpackwithoutmask2 (vmask 2 inp)"
  by (simp only: SIMD_fastpack2_def SIMD_fastpackwithoutmask2_def vmask_def Let_def)

lemma SIMD_fastpack3_eq: "SIMD_fastpack3 inp = SIMD_fastpackwithoutmask3 (vmask 3 inp)"
  by (simp only: SIMD_fastpack3_def SIMD_fastpackwithoutmask3_def vmask_def Let_def)

lemma SIMD_fastpack4_eq: "SIMD_fastpack4 inp = SIMD_fastpackwithoutmask4 (vmask 4 inp)"
  by (simp only: SIMD_fastpack4_def SIMD_fastpackwithoutmask4_def vmask_def Let_def)

lemma SIMD_fastpack5_eq: "SIMD_fastpack5 inp = SIMD_fastpackwithoutmask5 (vmask 5 inp)"
  by (simp only: SIMD_fastpack5_def SIMD_fastpackwithoutmask5_def vmask_def Let_def)

lemma SIMD_fastpack6_eq: "SIMD_fastpack6 inp = SIMD_fastpackwithoutmask6 (vmask 6 inp)"
  by (simp only: SIMD_fastpack6_def SIMD_fastpackwithoutmask6_def vmask_def Let_def)

lemma SIMD_fastpack7_eq: "SIMD_fastpack7 inp = SIMD_fastpackwithoutmask7 (vmask 7 inp)"
  by (simp only: SIMD_fastpack7_def SIMD_fastpackwithoutmask7_def vmask_def Let_def)

lemma SIMD_fastpack8_eq: "SIMD_fastpack8 inp = SIMD_fastpackwithoutmask8 (vmask 8 inp)"
  by (simp only: SIMD_fastpack8_def SIMD_fastpackwithoutmask8_def vmask_def Let_def)

lemma SIMD_fastpack9_eq: "SIMD_fastpack9 inp = SIMD_fastpackwithoutmask9 (vmask 9 inp)"
  by (simp only: SIMD_fastpack9_def SIMD_fastpackwithoutmask9_def vmask_def Let_def)

lemma SIMD_fastpack10_eq: "SIMD_fastpack10 inp = SIMD_fastpackwithoutmask10 (vmask 10 inp)"
  by (simp only: SIMD_fastpack10_def SIMD_fastpackwithoutmask10_def vmask_def Let_def)

lemma SIMD_fastpack11_eq: "SIMD_fastpack11 inp = SIMD_fastpackwithoutmask11 (vmask 11 inp)"
  by (simp only: SIMD_fastpack11_def SIMD_fastpackwithoutmask11_def vmask_def Let_def)

lemma SIMD_fastpack12_eq: "SIMD_fastpack12 inp = SIMD_fastpackwithoutmask12 (vmask 12 inp)"
  by (simp only: SIMD_fastpack12_def SIMD_fastpackwithoutmask12_def vmask_def Let_def)

lemma SIMD_fastpack13_eq: "SIMD_fastpack13 inp = SIMD_fastpackwithoutmask13 (vmask 13 inp)"
  by (simp only: SIMD_fastpack13_def SIMD_fastpackwithoutmask13_def vmask_def Let_def)

lemma SIMD_fastpack14_eq: "SIMD_fastpack14 inp = SIMD_fastpackwithoutmask14 (vmask 14 inp)"
  by (simp only: SIMD_fastpack14_def SIMD_fastpackwithoutmask14_def vmask_def Let_def)

lemma SIMD_fastpack15_eq: "SIMD_fastpack15 inp = SIMD_fastpackwithoutmask15 (vmask 15 inp)"
  by (simp only: SIMD_fastpack15_def SIMD_fastpackwithoutmask15_def vmask_def Let_def)

lemma SIMD_fastpack16_eq: "SIMD_fastpack16 inp = SIMD_fastpackwithoutmask16 (vmask 16 inp)"
  by (simp only: SIMD_fastpack16_def SIMD_fastpackwithoutmask16_def vmask_def Let_def)

lemma SIMD_fastpack17_eq: "SIMD_fastpack17 inp = SIMD_fastpackwithoutmask17 (vmask 17 inp)"
  by (simp only: SIMD_fastpack17_def SIMD_fastpackwithoutmask17_def vmask_def Let_def)

lemma SIMD_fastpack18_eq: "SIMD_fastpack18 inp = SIMD_fastpackwithoutmask18 (vmask 18 inp)"
  by (simp only: SIMD_fastpack18_def SIMD_fastpackwithoutmask18_def vmask_def Let_def)

lemma SIMD_fastpack19_eq: "SIMD_fastpack19 inp = SIMD_fastpackwithoutmask19 (vmask 19 inp)"
  by (simp only: SIMD_fastpack19_def SIMD_fastpackwithoutmask19_def vmask_def Let_def)

lemma SIMD_fastpack20_eq: "SIMD_fastpack20 inp = SIMD_fastpackwithoutmask20 (vmask 20 inp)"
  by (simp only: SIMD_fastpack20_def SIMD_fastpackwithoutmask20_def vmask_def Let_def)

lemma SIMD_fastpack21_eq: "SIMD_fastpack21 inp = SIMD_fastpackwithoutmask21 (vmask 21 inp)"
  by (simp only: SIMD_fastpack21_def SIMD_fastpackwithoutmask21_def vmask_def Let_def)

lemma SIMD_fastpack22_eq: "SIMD_fastpack22 inp = SIMD_fastpackwithoutmask22 (vmask 22 inp)"
  by (simp only: SIMD_fastpack22_def SIMD_fastpackwithoutmask22_def vmask_def Let_def)

lemma SIMD_fastpack23_eq: "SIMD_fastpack23 inp = SIMD_fastpackwithoutmask23 (vmask 23 inp)"
  by (simp only: SIMD_fastpack23_def SIMD_fastpackwithoutmask23_def vmask_def Let_def)

lemma SIMD_fastpack24_eq: "SIMD_fastpack24 inp = SIMD_fastpackwithoutmask24 (vmask 24 inp)"
  by (simp only: SIMD_fastpack24_def SIMD_fastpackwithoutmask24_def vmask_def Let_def)

lemma SIMD_fastpack25_eq: "SIMD_fastpack25 inp = SIMD_fastpackwithoutmask25 (vmask 25 inp)"
  by (simp only: SIMD_fastpack25_def SIMD_fastpackwithoutmask25_def vmask_def Let_def)

lemma SIMD_fastpack26_eq: "SIMD_fastpack26 inp = SIMD_fastpackwithoutmask26 (vmask 26 inp)"
  by (simp only: SIMD_fastpack26_def SIMD_fastpackwithoutmask26_def vmask_def Let_def)

lemma SIMD_fastpack27_eq: "SIMD_fastpack27 inp = SIMD_fastpackwithoutmask27 (vmask 27 inp)"
  by (simp only: SIMD_fastpack27_def SIMD_fastpackwithoutmask27_def vmask_def Let_def)

lemma SIMD_fastpack28_eq: "SIMD_fastpack28 inp = SIMD_fastpackwithoutmask28 (vmask 28 inp)"
  by (simp only: SIMD_fastpack28_def SIMD_fastpackwithoutmask28_def vmask_def Let_def)

lemma SIMD_fastpack29_eq: "SIMD_fastpack29 inp = SIMD_fastpackwithoutmask29 (vmask 29 inp)"
  by (simp only: SIMD_fastpack29_def SIMD_fastpackwithoutmask29_def vmask_def Let_def)

lemma SIMD_fastpack30_eq: "SIMD_fastpack30 inp = SIMD_fastpackwithoutmask30 (vmask 30 inp)"
  by (simp only: SIMD_fastpack30_def SIMD_fastpackwithoutmask30_def vmask_def Let_def)

lemma SIMD_fastpack31_eq: "SIMD_fastpack31 inp = SIMD_fastpackwithoutmask31 (vmask 31 inp)"
  by (simp only: SIMD_fastpack31_def SIMD_fastpackwithoutmask31_def vmask_def Let_def)

lemma SIMD_fastpack32_eq: "SIMD_fastpack32 inp = SIMD_fastpackwithoutmask32 inp"
  by (simp only: SIMD_fastpack32_def SIMD_fastpackwithoutmask32_def)

text \<open>The dispatch arrays, \<open>packwithoutmask\<close> and \<open>pack\<close> of \<open>simdbitpackinghelpers.h\<close>.\<close>

definition SIMD_packwithoutmask_table :: "(m128i list \<Rightarrow> m128i list) list" where
  "SIMD_packwithoutmask_table =
    [SIMD_fastpackwithoutmask0, SIMD_fastpackwithoutmask1, SIMD_fastpackwithoutmask2,
     SIMD_fastpackwithoutmask3, SIMD_fastpackwithoutmask4, SIMD_fastpackwithoutmask5,
     SIMD_fastpackwithoutmask6, SIMD_fastpackwithoutmask7, SIMD_fastpackwithoutmask8,
     SIMD_fastpackwithoutmask9, SIMD_fastpackwithoutmask10, SIMD_fastpackwithoutmask11,
     SIMD_fastpackwithoutmask12, SIMD_fastpackwithoutmask13, SIMD_fastpackwithoutmask14,
     SIMD_fastpackwithoutmask15, SIMD_fastpackwithoutmask16, SIMD_fastpackwithoutmask17,
     SIMD_fastpackwithoutmask18, SIMD_fastpackwithoutmask19, SIMD_fastpackwithoutmask20,
     SIMD_fastpackwithoutmask21, SIMD_fastpackwithoutmask22, SIMD_fastpackwithoutmask23,
     SIMD_fastpackwithoutmask24, SIMD_fastpackwithoutmask25, SIMD_fastpackwithoutmask26,
     SIMD_fastpackwithoutmask27, SIMD_fastpackwithoutmask28, SIMD_fastpackwithoutmask29,
     SIMD_fastpackwithoutmask30, SIMD_fastpackwithoutmask31, SIMD_fastpackwithoutmask32]"

definition SIMD_pack_table :: "(m128i list \<Rightarrow> m128i list) list" where
  "SIMD_pack_table =
    [SIMD_fastpack0, SIMD_fastpack1, SIMD_fastpack2, SIMD_fastpack3, SIMD_fastpack4, SIMD_fastpack5,
     SIMD_fastpack6, SIMD_fastpack7, SIMD_fastpack8, SIMD_fastpack9, SIMD_fastpack10, SIMD_fastpack11,
     SIMD_fastpack12, SIMD_fastpack13, SIMD_fastpack14, SIMD_fastpack15, SIMD_fastpack16, SIMD_fastpack17,
     SIMD_fastpack18, SIMD_fastpack19, SIMD_fastpack20, SIMD_fastpack21, SIMD_fastpack22, SIMD_fastpack23,
     SIMD_fastpack24, SIMD_fastpack25, SIMD_fastpack26, SIMD_fastpack27, SIMD_fastpack28, SIMD_fastpack29,
     SIMD_fastpack30, SIMD_fastpack31, SIMD_fastpack32]"

lemmas SIMD_packs =
  SIMD_fastpackwithoutmask0_packs SIMD_fastpackwithoutmask1_packs SIMD_fastpackwithoutmask2_packs
  SIMD_fastpackwithoutmask3_packs SIMD_fastpackwithoutmask4_packs SIMD_fastpackwithoutmask5_packs
  SIMD_fastpackwithoutmask6_packs SIMD_fastpackwithoutmask7_packs SIMD_fastpackwithoutmask8_packs
  SIMD_fastpackwithoutmask9_packs SIMD_fastpackwithoutmask10_packs SIMD_fastpackwithoutmask11_packs
  SIMD_fastpackwithoutmask12_packs SIMD_fastpackwithoutmask13_packs SIMD_fastpackwithoutmask14_packs
  SIMD_fastpackwithoutmask15_packs SIMD_fastpackwithoutmask16_packs SIMD_fastpackwithoutmask17_packs
  SIMD_fastpackwithoutmask18_packs SIMD_fastpackwithoutmask19_packs SIMD_fastpackwithoutmask20_packs
  SIMD_fastpackwithoutmask21_packs SIMD_fastpackwithoutmask22_packs SIMD_fastpackwithoutmask23_packs
  SIMD_fastpackwithoutmask24_packs SIMD_fastpackwithoutmask25_packs SIMD_fastpackwithoutmask26_packs
  SIMD_fastpackwithoutmask27_packs SIMD_fastpackwithoutmask28_packs SIMD_fastpackwithoutmask29_packs
  SIMD_fastpackwithoutmask30_packs SIMD_fastpackwithoutmask31_packs SIMD_fastpackwithoutmask32_packs

lemmas SIMD_fastpack_eqs =
  SIMD_fastpack0_eq SIMD_fastpack1_eq SIMD_fastpack2_eq SIMD_fastpack3_eq SIMD_fastpack4_eq SIMD_fastpack5_eq
  SIMD_fastpack6_eq SIMD_fastpack7_eq SIMD_fastpack8_eq SIMD_fastpack9_eq SIMD_fastpack10_eq
  SIMD_fastpack11_eq SIMD_fastpack12_eq SIMD_fastpack13_eq SIMD_fastpack14_eq SIMD_fastpack15_eq
  SIMD_fastpack16_eq SIMD_fastpack17_eq SIMD_fastpack18_eq SIMD_fastpack19_eq SIMD_fastpack20_eq
  SIMD_fastpack21_eq SIMD_fastpack22_eq SIMD_fastpack23_eq SIMD_fastpack24_eq SIMD_fastpack25_eq
  SIMD_fastpack26_eq SIMD_fastpack27_eq SIMD_fastpack28_eq SIMD_fastpack29_eq SIMD_fastpack30_eq
  SIMD_fastpack31_eq SIMD_fastpack32_eq

lemma SIMD_packwithoutmask_table_packs: "list_all2 packs [0..<33] SIMD_packwithoutmask_table"
  by (simp add: SIMD_packwithoutmask_table_def upt_step SIMD_packs del: One_nat_def add_Suc_right)

lemma SIMD_fastpack0_any: "SIMD_fastpack0 inp = SIMD_fastpackwithoutmask0 (vmask 0 inp)"
  by (simp only: SIMD_fastpack0_def SIMD_fastpackwithoutmask0_def)

lemma SIMD_fastpack32_any: "SIMD_fastpack32 inp = SIMD_fastpackwithoutmask32 (vmask 32 inp)"
  by (simp only: SIMD_fastpack32_eq vmask_32)

text \<open>With masks is without masks on the masked input.\<close>

lemma SIMD_pack_table_eq:
  "list_all2 (\<lambda>b (f, g). \<forall>inp. f inp = g (vmask b inp)) [0..<33] (zip SIMD_pack_table SIMD_packwithoutmask_table)"
  by (simp only: SIMD_pack_table_def SIMD_packwithoutmask_table_def zip_Cons_Cons)
     (simp add: upt_step SIMD_fastpack_eqs SIMD_fastpack0_any SIMD_fastpack32_any del: One_nat_def add_Suc_right SIMD_fastpack0_eq SIMD_fastpack32_eq)

end
