(* ===== verification/SIMD_Unpack.thy ===== *)
theory SIMD_Unpack
  imports SIMD_Ref
begin

text \<open>
  The unrolled routines \<open>__SIMD_fastunpack1\<close> to \<open>__SIMD_fastunpack32\<close> of
  \<open>source/util/compression/simd-compression/simdbitpacking.cpp\<close>, one definition each: the 32 vectors
  stored through \<open>out\<close>. Every routine unpacks each of the four lanes as the reference does.
\<close>

section \<open>The routines\<close>

text \<open>\<open>SIMD_nullunpacker32\<close> of \<open>simdbitpackinghelpers.cpp\<close> clears the output.\<close>

definition SIMD_nullunpacker32 :: "m128i list \<Rightarrow> m128i list" where
  "SIMD_nullunpacker32 inp = replicate 32 (mm_set1_epi32 0)"

definition SIMD_fastunpack1 :: "m128i list \<Rightarrow> m128i list" where
  "SIMD_fastunpack1 inp =
    (let mask = mm_set1_epi32 1 in concat (map (\<lambda>i.
     [mm_and_si128 (mm_srli_epi32 (inp ! 0) (4 * i)) mask,
      mm_and_si128 (mm_srli_epi32 (inp ! 0) (4 * i + 1)) mask,
      mm_and_si128 (mm_srli_epi32 (inp ! 0) (4 * i + 2)) mask,
      mm_and_si128 (mm_srli_epi32 (inp ! 0) (4 * i + 3)) mask]) [0..<8]))"

definition SIMD_fastunpack2 :: "m128i list \<Rightarrow> m128i list" where
  "SIMD_fastunpack2 inp =
    (let mask = low_mask 2 in
    [mm_and_si128 (inp ! 0) mask, mm_and_si128 (mm_srli_epi32 (inp ! 0) 2) mask,
     mm_and_si128 (mm_srli_epi32 (inp ! 0) 4) mask,
     mm_and_si128 (mm_srli_epi32 (inp ! 0) 6) mask,
     mm_and_si128 (mm_srli_epi32 (inp ! 0) 8) mask,
     mm_and_si128 (mm_srli_epi32 (inp ! 0) 10) mask,
     mm_and_si128 (mm_srli_epi32 (inp ! 0) 12) mask,
     mm_and_si128 (mm_srli_epi32 (inp ! 0) 14) mask,
     mm_and_si128 (mm_srli_epi32 (inp ! 0) 16) mask,
     mm_and_si128 (mm_srli_epi32 (inp ! 0) 18) mask,
     mm_and_si128 (mm_srli_epi32 (inp ! 0) 20) mask,
     mm_and_si128 (mm_srli_epi32 (inp ! 0) 22) mask,
     mm_and_si128 (mm_srli_epi32 (inp ! 0) 24) mask,
     mm_and_si128 (mm_srli_epi32 (inp ! 0) 26) mask,
     mm_and_si128 (mm_srli_epi32 (inp ! 0) 28) mask, mm_srli_epi32 (inp ! 0) 30,
     mm_and_si128 (inp ! 1) mask, mm_and_si128 (mm_srli_epi32 (inp ! 1) 2) mask,
     mm_and_si128 (mm_srli_epi32 (inp ! 1) 4) mask,
     mm_and_si128 (mm_srli_epi32 (inp ! 1) 6) mask,
     mm_and_si128 (mm_srli_epi32 (inp ! 1) 8) mask,
     mm_and_si128 (mm_srli_epi32 (inp ! 1) 10) mask,
     mm_and_si128 (mm_srli_epi32 (inp ! 1) 12) mask,
     mm_and_si128 (mm_srli_epi32 (inp ! 1) 14) mask,
     mm_and_si128 (mm_srli_epi32 (inp ! 1) 16) mask,
     mm_and_si128 (mm_srli_epi32 (inp ! 1) 18) mask,
     mm_and_si128 (mm_srli_epi32 (inp ! 1) 20) mask,
     mm_and_si128 (mm_srli_epi32 (inp ! 1) 22) mask,
     mm_and_si128 (mm_srli_epi32 (inp ! 1) 24) mask,
     mm_and_si128 (mm_srli_epi32 (inp ! 1) 26) mask,
     mm_and_si128 (mm_srli_epi32 (inp ! 1) 28) mask, mm_srli_epi32 (inp ! 1) 30])"

definition SIMD_fastunpack3 :: "m128i list \<Rightarrow> m128i list" where
  "SIMD_fastunpack3 inp =
    (let mask = low_mask 3 in
    [mm_and_si128 (inp ! 0) mask, mm_and_si128 (mm_srli_epi32 (inp ! 0) 3) mask,
     mm_and_si128 (mm_srli_epi32 (inp ! 0) 6) mask,
     mm_and_si128 (mm_srli_epi32 (inp ! 0) 9) mask,
     mm_and_si128 (mm_srli_epi32 (inp ! 0) 12) mask,
     mm_and_si128 (mm_srli_epi32 (inp ! 0) 15) mask,
     mm_and_si128 (mm_srli_epi32 (inp ! 0) 18) mask,
     mm_and_si128 (mm_srli_epi32 (inp ! 0) 21) mask,
     mm_and_si128 (mm_srli_epi32 (inp ! 0) 24) mask,
     mm_and_si128 (mm_srli_epi32 (inp ! 0) 27) mask,
     mm_or_si128 (mm_srli_epi32 (inp ! 0) 30) (mm_and_si128 (mm_slli_epi32 (inp ! 1) (3 - 1)) mask),
     mm_and_si128 (mm_srli_epi32 (inp ! 1) 1) mask,
     mm_and_si128 (mm_srli_epi32 (inp ! 1) 4) mask,
     mm_and_si128 (mm_srli_epi32 (inp ! 1) 7) mask,
     mm_and_si128 (mm_srli_epi32 (inp ! 1) 10) mask,
     mm_and_si128 (mm_srli_epi32 (inp ! 1) 13) mask,
     mm_and_si128 (mm_srli_epi32 (inp ! 1) 16) mask,
     mm_and_si128 (mm_srli_epi32 (inp ! 1) 19) mask,
     mm_and_si128 (mm_srli_epi32 (inp ! 1) 22) mask,
     mm_and_si128 (mm_srli_epi32 (inp ! 1) 25) mask,
     mm_and_si128 (mm_srli_epi32 (inp ! 1) 28) mask,
     mm_or_si128 (mm_srli_epi32 (inp ! 1) 31) (mm_and_si128 (mm_slli_epi32 (inp ! 2) (3 - 2)) mask),
     mm_and_si128 (mm_srli_epi32 (inp ! 2) 2) mask,
     mm_and_si128 (mm_srli_epi32 (inp ! 2) 5) mask,
     mm_and_si128 (mm_srli_epi32 (inp ! 2) 8) mask,
     mm_and_si128 (mm_srli_epi32 (inp ! 2) 11) mask,
     mm_and_si128 (mm_srli_epi32 (inp ! 2) 14) mask,
     mm_and_si128 (mm_srli_epi32 (inp ! 2) 17) mask,
     mm_and_si128 (mm_srli_epi32 (inp ! 2) 20) mask,
     mm_and_si128 (mm_srli_epi32 (inp ! 2) 23) mask,
     mm_and_si128 (mm_srli_epi32 (inp ! 2) 26) mask, mm_srli_epi32 (inp ! 2) 29])"

definition SIMD_fastunpack4 :: "m128i list \<Rightarrow> m128i list" where
  "SIMD_fastunpack4 inp =
    (let mask = low_mask 4 in
    [mm_and_si128 (inp ! 0) mask, mm_and_si128 (mm_srli_epi32 (inp ! 0) 4) mask,
     mm_and_si128 (mm_srli_epi32 (inp ! 0) 8) mask,
     mm_and_si128 (mm_srli_epi32 (inp ! 0) 12) mask,
     mm_and_si128 (mm_srli_epi32 (inp ! 0) 16) mask,
     mm_and_si128 (mm_srli_epi32 (inp ! 0) 20) mask,
     mm_and_si128 (mm_srli_epi32 (inp ! 0) 24) mask, mm_srli_epi32 (inp ! 0) 28,
     mm_and_si128 (inp ! 1) mask, mm_and_si128 (mm_srli_epi32 (inp ! 1) 4) mask,
     mm_and_si128 (mm_srli_epi32 (inp ! 1) 8) mask,
     mm_and_si128 (mm_srli_epi32 (inp ! 1) 12) mask,
     mm_and_si128 (mm_srli_epi32 (inp ! 1) 16) mask,
     mm_and_si128 (mm_srli_epi32 (inp ! 1) 20) mask,
     mm_and_si128 (mm_srli_epi32 (inp ! 1) 24) mask, mm_srli_epi32 (inp ! 1) 28,
     mm_and_si128 (inp ! 2) mask, mm_and_si128 (mm_srli_epi32 (inp ! 2) 4) mask,
     mm_and_si128 (mm_srli_epi32 (inp ! 2) 8) mask,
     mm_and_si128 (mm_srli_epi32 (inp ! 2) 12) mask,
     mm_and_si128 (mm_srli_epi32 (inp ! 2) 16) mask,
     mm_and_si128 (mm_srli_epi32 (inp ! 2) 20) mask,
     mm_and_si128 (mm_srli_epi32 (inp ! 2) 24) mask, mm_srli_epi32 (inp ! 2) 28,
     mm_and_si128 (inp ! 3) mask, mm_and_si128 (mm_srli_epi32 (inp ! 3) 4) mask,
     mm_and_si128 (mm_srli_epi32 (inp ! 3) 8) mask,
     mm_and_si128 (mm_srli_epi32 (inp ! 3) 12) mask,
     mm_and_si128 (mm_srli_epi32 (inp ! 3) 16) mask,
     mm_and_si128 (mm_srli_epi32 (inp ! 3) 20) mask,
     mm_and_si128 (mm_srli_epi32 (inp ! 3) 24) mask, mm_srli_epi32 (inp ! 3) 28])"

definition SIMD_fastunpack5 :: "m128i list \<Rightarrow> m128i list" where
  "SIMD_fastunpack5 inp =
    (let mask = low_mask 5 in
    [mm_and_si128 (inp ! 0) mask, mm_and_si128 (mm_srli_epi32 (inp ! 0) 5) mask,
     mm_and_si128 (mm_srli_epi32 (inp ! 0) 10) mask,
     mm_and_si128 (mm_srli_epi32 (inp ! 0) 15) mask,
     mm_and_si128 (mm_srli_epi32 (inp ! 0) 20) mask,
     mm_and_si128 (mm_srli_epi32 (inp ! 0) 25) mask,
     mm_or_si128 (mm_srli_epi32 (inp ! 0) 30) (mm_and_si128 (mm_slli_epi32 (inp ! 1) (5 - 3)) mask),
     mm_and_si128 (mm_srli_epi32 (inp ! 1) 3) mask,
     mm_and_si128 (mm_srli_epi32 (inp ! 1) 8) mask,
     mm_and_si128 (mm_srli_epi32 (inp ! 1) 13) mask,
     mm_and_si128 (mm_srli_epi32 (inp ! 1) 18) mask,
     mm_and_si128 (mm_srli_epi32 (inp ! 1) 23) mask,
     mm_or_si128 (mm_srli_epi32 (inp ! 1) 28) (mm_and_si128 (mm_slli_epi32 (inp ! 2) (5 - 1)) mask),
     mm_and_si128 (mm_srli_epi32 (inp ! 2) 1) mask,
     mm_and_si128 (mm_srli_epi32 (inp ! 2) 6) mask,
     mm_and_si128 (mm_srli_epi32 (inp ! 2) 11) mask,
     mm_and_si128 (mm_srli_epi32 (inp ! 2) 16) mask,
     mm_and_si128 (mm_srli_epi32 (inp ! 2) 21) mask,
     mm_and_si128 (mm_srli_epi32 (inp ! 2) 26) mask,
     mm_or_si128 (mm_srli_epi32 (inp ! 2) 31) (mm_and_si128 (mm_slli_epi32 (inp ! 3) (5 - 4)) mask),
     mm_and_si128 (mm_srli_epi32 (inp ! 3) 4) mask,
     mm_and_si128 (mm_srli_epi32 (inp ! 3) 9) mask,
     mm_and_si128 (mm_srli_epi32 (inp ! 3) 14) mask,
     mm_and_si128 (mm_srli_epi32 (inp ! 3) 19) mask,
     mm_and_si128 (mm_srli_epi32 (inp ! 3) 24) mask,
     mm_or_si128 (mm_srli_epi32 (inp ! 3) 29) (mm_and_si128 (mm_slli_epi32 (inp ! 4) (5 - 2)) mask),
     mm_and_si128 (mm_srli_epi32 (inp ! 4) 2) mask,
     mm_and_si128 (mm_srli_epi32 (inp ! 4) 7) mask,
     mm_and_si128 (mm_srli_epi32 (inp ! 4) 12) mask,
     mm_and_si128 (mm_srli_epi32 (inp ! 4) 17) mask,
     mm_and_si128 (mm_srli_epi32 (inp ! 4) 22) mask, mm_srli_epi32 (inp ! 4) 27])"

definition SIMD_fastunpack6 :: "m128i list \<Rightarrow> m128i list" where
  "SIMD_fastunpack6 inp =
    (let mask = low_mask 6 in
    [mm_and_si128 (inp ! 0) mask, mm_and_si128 (mm_srli_epi32 (inp ! 0) 6) mask,
     mm_and_si128 (mm_srli_epi32 (inp ! 0) 12) mask,
     mm_and_si128 (mm_srli_epi32 (inp ! 0) 18) mask,
     mm_and_si128 (mm_srli_epi32 (inp ! 0) 24) mask,
     mm_or_si128 (mm_srli_epi32 (inp ! 0) 30) (mm_and_si128 (mm_slli_epi32 (inp ! 1) (6 - 4)) mask),
     mm_and_si128 (mm_srli_epi32 (inp ! 1) 4) mask,
     mm_and_si128 (mm_srli_epi32 (inp ! 1) 10) mask,
     mm_and_si128 (mm_srli_epi32 (inp ! 1) 16) mask,
     mm_and_si128 (mm_srli_epi32 (inp ! 1) 22) mask,
     mm_or_si128 (mm_srli_epi32 (inp ! 1) 28) (mm_and_si128 (mm_slli_epi32 (inp ! 2) (6 - 2)) mask),
     mm_and_si128 (mm_srli_epi32 (inp ! 2) 2) mask,
     mm_and_si128 (mm_srli_epi32 (inp ! 2) 8) mask,
     mm_and_si128 (mm_srli_epi32 (inp ! 2) 14) mask,
     mm_and_si128 (mm_srli_epi32 (inp ! 2) 20) mask, mm_srli_epi32 (inp ! 2) 26,
     mm_and_si128 (inp ! 3) mask, mm_and_si128 (mm_srli_epi32 (inp ! 3) 6) mask,
     mm_and_si128 (mm_srli_epi32 (inp ! 3) 12) mask,
     mm_and_si128 (mm_srli_epi32 (inp ! 3) 18) mask,
     mm_and_si128 (mm_srli_epi32 (inp ! 3) 24) mask,
     mm_or_si128 (mm_srli_epi32 (inp ! 3) 30) (mm_and_si128 (mm_slli_epi32 (inp ! 4) (6 - 4)) mask),
     mm_and_si128 (mm_srli_epi32 (inp ! 4) 4) mask,
     mm_and_si128 (mm_srli_epi32 (inp ! 4) 10) mask,
     mm_and_si128 (mm_srli_epi32 (inp ! 4) 16) mask,
     mm_and_si128 (mm_srli_epi32 (inp ! 4) 22) mask,
     mm_or_si128 (mm_srli_epi32 (inp ! 4) 28) (mm_and_si128 (mm_slli_epi32 (inp ! 5) (6 - 2)) mask),
     mm_and_si128 (mm_srli_epi32 (inp ! 5) 2) mask,
     mm_and_si128 (mm_srli_epi32 (inp ! 5) 8) mask,
     mm_and_si128 (mm_srli_epi32 (inp ! 5) 14) mask,
     mm_and_si128 (mm_srli_epi32 (inp ! 5) 20) mask, mm_srli_epi32 (inp ! 5) 26])"

definition SIMD_fastunpack7 :: "m128i list \<Rightarrow> m128i list" where
  "SIMD_fastunpack7 inp =
    (let mask = low_mask 7 in
    [mm_and_si128 (inp ! 0) mask, mm_and_si128 (mm_srli_epi32 (inp ! 0) 7) mask,
     mm_and_si128 (mm_srli_epi32 (inp ! 0) 14) mask,
     mm_and_si128 (mm_srli_epi32 (inp ! 0) 21) mask,
     mm_or_si128 (mm_srli_epi32 (inp ! 0) 28) (mm_and_si128 (mm_slli_epi32 (inp ! 1) (7 - 3)) mask),
     mm_and_si128 (mm_srli_epi32 (inp ! 1) 3) mask,
     mm_and_si128 (mm_srli_epi32 (inp ! 1) 10) mask,
     mm_and_si128 (mm_srli_epi32 (inp ! 1) 17) mask,
     mm_and_si128 (mm_srli_epi32 (inp ! 1) 24) mask,
     mm_or_si128 (mm_srli_epi32 (inp ! 1) 31) (mm_and_si128 (mm_slli_epi32 (inp ! 2) (7 - 6)) mask),
     mm_and_si128 (mm_srli_epi32 (inp ! 2) 6) mask,
     mm_and_si128 (mm_srli_epi32 (inp ! 2) 13) mask,
     mm_and_si128 (mm_srli_epi32 (inp ! 2) 20) mask,
     mm_or_si128 (mm_srli_epi32 (inp ! 2) 27) (mm_and_si128 (mm_slli_epi32 (inp ! 3) (7 - 2)) mask),
     mm_and_si128 (mm_srli_epi32 (inp ! 3) 2) mask,
     mm_and_si128 (mm_srli_epi32 (inp ! 3) 9) mask,
     mm_and_si128 (mm_srli_epi32 (inp ! 3) 16) mask,
     mm_and_si128 (mm_srli_epi32 (inp ! 3) 23) mask,
     mm_or_si128 (mm_srli_epi32 (inp ! 3) 30) (mm_and_si128 (mm_slli_epi32 (inp ! 4) (7 - 5)) mask),
     mm_and_si128 (mm_srli_epi32 (inp ! 4) 5) mask,
     mm_and_si128 (mm_srli_epi32 (inp ! 4) 12) mask,
     mm_and_si128 (mm_srli_epi32 (inp ! 4) 19) mask,
     mm_or_si128 (mm_srli_epi32 (inp ! 4) 26) (mm_and_si128 (mm_slli_epi32 (inp ! 5) (7 - 1)) mask),
     mm_and_si128 (mm_srli_epi32 (inp ! 5) 1) mask,
     mm_and_si128 (mm_srli_epi32 (inp ! 5) 8) mask,
     mm_and_si128 (mm_srli_epi32 (inp ! 5) 15) mask,
     mm_and_si128 (mm_srli_epi32 (inp ! 5) 22) mask,
     mm_or_si128 (mm_srli_epi32 (inp ! 5) 29) (mm_and_si128 (mm_slli_epi32 (inp ! 6) (7 - 4)) mask),
     mm_and_si128 (mm_srli_epi32 (inp ! 6) 4) mask,
     mm_and_si128 (mm_srli_epi32 (inp ! 6) 11) mask,
     mm_and_si128 (mm_srli_epi32 (inp ! 6) 18) mask, mm_srli_epi32 (inp ! 6) 25])"

definition SIMD_fastunpack8 :: "m128i list \<Rightarrow> m128i list" where
  "SIMD_fastunpack8 inp =
    (let mask = low_mask 8 in
    [mm_and_si128 (inp ! 0) mask, mm_and_si128 (mm_srli_epi32 (inp ! 0) 8) mask,
     mm_and_si128 (mm_srli_epi32 (inp ! 0) 16) mask, mm_srli_epi32 (inp ! 0) 24,
     mm_and_si128 (inp ! 1) mask, mm_and_si128 (mm_srli_epi32 (inp ! 1) 8) mask,
     mm_and_si128 (mm_srli_epi32 (inp ! 1) 16) mask, mm_srli_epi32 (inp ! 1) 24,
     mm_and_si128 (inp ! 2) mask, mm_and_si128 (mm_srli_epi32 (inp ! 2) 8) mask,
     mm_and_si128 (mm_srli_epi32 (inp ! 2) 16) mask, mm_srli_epi32 (inp ! 2) 24,
     mm_and_si128 (inp ! 3) mask, mm_and_si128 (mm_srli_epi32 (inp ! 3) 8) mask,
     mm_and_si128 (mm_srli_epi32 (inp ! 3) 16) mask, mm_srli_epi32 (inp ! 3) 24,
     mm_and_si128 (inp ! 4) mask, mm_and_si128 (mm_srli_epi32 (inp ! 4) 8) mask,
     mm_and_si128 (mm_srli_epi32 (inp ! 4) 16) mask, mm_srli_epi32 (inp ! 4) 24,
     mm_and_si128 (inp ! 5) mask, mm_and_si128 (mm_srli_epi32 (inp ! 5) 8) mask,
     mm_and_si128 (mm_srli_epi32 (inp ! 5) 16) mask, mm_srli_epi32 (inp ! 5) 24,
     mm_and_si128 (inp ! 6) mask, mm_and_si128 (mm_srli_epi32 (inp ! 6) 8) mask,
     mm_and_si128 (mm_srli_epi32 (inp ! 6) 16) mask, mm_srli_epi32 (inp ! 6) 24,
     mm_and_si128 (inp ! 7) mask, mm_and_si128 (mm_srli_epi32 (inp ! 7) 8) mask,
     mm_and_si128 (mm_srli_epi32 (inp ! 7) 16) mask, mm_srli_epi32 (inp ! 7) 24])"

definition SIMD_fastunpack9 :: "m128i list \<Rightarrow> m128i list" where
  "SIMD_fastunpack9 inp =
    (let mask = low_mask 9 in
    [mm_and_si128 (inp ! 0) mask, mm_and_si128 (mm_srli_epi32 (inp ! 0) 9) mask,
     mm_and_si128 (mm_srli_epi32 (inp ! 0) 18) mask,
     mm_or_si128 (mm_srli_epi32 (inp ! 0) 27) (mm_and_si128 (mm_slli_epi32 (inp ! 1) (9 - 4)) mask),
     mm_and_si128 (mm_srli_epi32 (inp ! 1) 4) mask,
     mm_and_si128 (mm_srli_epi32 (inp ! 1) 13) mask,
     mm_and_si128 (mm_srli_epi32 (inp ! 1) 22) mask,
     mm_or_si128 (mm_srli_epi32 (inp ! 1) 31) (mm_and_si128 (mm_slli_epi32 (inp ! 2) (9 - 8)) mask),
     mm_and_si128 (mm_srli_epi32 (inp ! 2) 8) mask,
     mm_and_si128 (mm_srli_epi32 (inp ! 2) 17) mask,
     mm_or_si128 (mm_srli_epi32 (inp ! 2) 26) (mm_and_si128 (mm_slli_epi32 (inp ! 3) (9 - 3)) mask),
     mm_and_si128 (mm_srli_epi32 (inp ! 3) 3) mask,
     mm_and_si128 (mm_srli_epi32 (inp ! 3) 12) mask,
     mm_and_si128 (mm_srli_epi32 (inp ! 3) 21) mask,
     mm_or_si128 (mm_srli_epi32 (inp ! 3) 30) (mm_and_si128 (mm_slli_epi32 (inp ! 4) (9 - 7)) mask),
     mm_and_si128 (mm_srli_epi32 (inp ! 4) 7) mask,
     mm_and_si128 (mm_srli_epi32 (inp ! 4) 16) mask,
     mm_or_si128 (mm_srli_epi32 (inp ! 4) 25) (mm_and_si128 (mm_slli_epi32 (inp ! 5) (9 - 2)) mask),
     mm_and_si128 (mm_srli_epi32 (inp ! 5) 2) mask,
     mm_and_si128 (mm_srli_epi32 (inp ! 5) 11) mask,
     mm_and_si128 (mm_srli_epi32 (inp ! 5) 20) mask,
     mm_or_si128 (mm_srli_epi32 (inp ! 5) 29) (mm_and_si128 (mm_slli_epi32 (inp ! 6) (9 - 6)) mask),
     mm_and_si128 (mm_srli_epi32 (inp ! 6) 6) mask,
     mm_and_si128 (mm_srli_epi32 (inp ! 6) 15) mask,
     mm_or_si128 (mm_srli_epi32 (inp ! 6) 24) (mm_and_si128 (mm_slli_epi32 (inp ! 7) (9 - 1)) mask),
     mm_and_si128 (mm_srli_epi32 (inp ! 7) 1) mask,
     mm_and_si128 (mm_srli_epi32 (inp ! 7) 10) mask,
     mm_and_si128 (mm_srli_epi32 (inp ! 7) 19) mask,
     mm_or_si128 (mm_srli_epi32 (inp ! 7) 28) (mm_and_si128 (mm_slli_epi32 (inp ! 8) (9 - 5)) mask),
     mm_and_si128 (mm_srli_epi32 (inp ! 8) 5) mask,
     mm_and_si128 (mm_srli_epi32 (inp ! 8) 14) mask, mm_srli_epi32 (inp ! 8) 23])"

definition SIMD_fastunpack10 :: "m128i list \<Rightarrow> m128i list" where
  "SIMD_fastunpack10 inp =
    (let mask = low_mask 10 in
    [mm_and_si128 (inp ! 0) mask, mm_and_si128 (mm_srli_epi32 (inp ! 0) 10) mask,
     mm_and_si128 (mm_srli_epi32 (inp ! 0) 20) mask,
     mm_or_si128 (mm_srli_epi32 (inp ! 0) 30) (mm_and_si128 (mm_slli_epi32 (inp ! 1) (10 - 8)) mask),
     mm_and_si128 (mm_srli_epi32 (inp ! 1) 8) mask,
     mm_and_si128 (mm_srli_epi32 (inp ! 1) 18) mask,
     mm_or_si128 (mm_srli_epi32 (inp ! 1) 28) (mm_and_si128 (mm_slli_epi32 (inp ! 2) (10 - 6)) mask),
     mm_and_si128 (mm_srli_epi32 (inp ! 2) 6) mask,
     mm_and_si128 (mm_srli_epi32 (inp ! 2) 16) mask,
     mm_or_si128 (mm_srli_epi32 (inp ! 2) 26) (mm_and_si128 (mm_slli_epi32 (inp ! 3) (10 - 4)) mask),
     mm_and_si128 (mm_srli_epi32 (inp ! 3) 4) mask,
     mm_and_si128 (mm_srli_epi32 (inp ! 3) 14) mask,
     mm_or_si128 (mm_srli_epi32 (inp ! 3) 24) (mm_and_si128 (mm_slli_epi32 (inp ! 4) (10 - 2)) mask),
     mm_and_si128 (mm_srli_epi32 (inp ! 4) 2) mask,
     mm_and_si128 (mm_srli_epi32 (inp ! 4) 12) mask, mm_srli_epi32 (inp ! 4) 22,
     mm_and_si128 (inp ! 5) mask, mm_and_si128 (mm_srli_epi32 (inp ! 5) 10) mask,
     mm_and_si128 (mm_srli_epi32 (inp ! 5) 20) mask,
     mm_or_si128 (mm_srli_epi32 (inp ! 5) 30) (mm_and_si128 (mm_slli_epi32 (inp ! 6) (10 - 8)) mask),
     mm_and_si128 (mm_srli_epi32 (inp ! 6) 8) mask,
     mm_and_si128 (mm_srli_epi32 (inp ! 6) 18) mask,
     mm_or_si128 (mm_srli_epi32 (inp ! 6) 28) (mm_and_si128 (mm_slli_epi32 (inp ! 7) (10 - 6)) mask),
     mm_and_si128 (mm_srli_epi32 (inp ! 7) 6) mask,
     mm_and_si128 (mm_srli_epi32 (inp ! 7) 16) mask,
     mm_or_si128 (mm_srli_epi32 (inp ! 7) 26) (mm_and_si128 (mm_slli_epi32 (inp ! 8) (10 - 4)) mask),
     mm_and_si128 (mm_srli_epi32 (inp ! 8) 4) mask,
     mm_and_si128 (mm_srli_epi32 (inp ! 8) 14) mask,
     mm_or_si128 (mm_srli_epi32 (inp ! 8) 24) (mm_and_si128 (mm_slli_epi32 (inp ! 9) (10 - 2)) mask),
     mm_and_si128 (mm_srli_epi32 (inp ! 9) 2) mask,
     mm_and_si128 (mm_srli_epi32 (inp ! 9) 12) mask, mm_srli_epi32 (inp ! 9) 22])"

definition SIMD_fastunpack11 :: "m128i list \<Rightarrow> m128i list" where
  "SIMD_fastunpack11 inp =
    (let mask = low_mask 11 in
    [mm_and_si128 (inp ! 0) mask, mm_and_si128 (mm_srli_epi32 (inp ! 0) 11) mask,
     mm_or_si128 (mm_srli_epi32 (inp ! 0) 22) (mm_and_si128 (mm_slli_epi32 (inp ! 1) (11 - 1)) mask),
     mm_and_si128 (mm_srli_epi32 (inp ! 1) 1) mask,
     mm_and_si128 (mm_srli_epi32 (inp ! 1) 12) mask,
     mm_or_si128 (mm_srli_epi32 (inp ! 1) 23) (mm_and_si128 (mm_slli_epi32 (inp ! 2) (11 - 2)) mask),
     mm_and_si128 (mm_srli_epi32 (inp ! 2) 2) mask,
     mm_and_si128 (mm_srli_epi32 (inp ! 2) 13) mask,
     mm_or_si128 (mm_srli_epi32 (inp ! 2) 24) (mm_and_si128 (mm_slli_epi32 (inp ! 3) (11 - 3)) mask),
     mm_and_si128 (mm_srli_epi32 (inp ! 3) 3) mask,
     mm_and_si128 (mm_srli_epi32 (inp ! 3) 14) mask,
     mm_or_si128 (mm_srli_epi32 (inp ! 3) 25) (mm_and_si128 (mm_slli_epi32 (inp ! 4) (11 - 4)) mask),
     mm_and_si128 (mm_srli_epi32 (inp ! 4) 4) mask,
     mm_and_si128 (mm_srli_epi32 (inp ! 4) 15) mask,
     mm_or_si128 (mm_srli_epi32 (inp ! 4) 26) (mm_and_si128 (mm_slli_epi32 (inp ! 5) (11 - 5)) mask),
     mm_and_si128 (mm_srli_epi32 (inp ! 5) 5) mask,
     mm_and_si128 (mm_srli_epi32 (inp ! 5) 16) mask,
     mm_or_si128 (mm_srli_epi32 (inp ! 5) 27) (mm_and_si128 (mm_slli_epi32 (inp ! 6) (11 - 6)) mask),
     mm_and_si128 (mm_srli_epi32 (inp ! 6) 6) mask,
     mm_and_si128 (mm_srli_epi32 (inp ! 6) 17) mask,
     mm_or_si128 (mm_srli_epi32 (inp ! 6) 28) (mm_and_si128 (mm_slli_epi32 (inp ! 7) (11 - 7)) mask),
     mm_and_si128 (mm_srli_epi32 (inp ! 7) 7) mask,
     mm_and_si128 (mm_srli_epi32 (inp ! 7) 18) mask,
     mm_or_si128 (mm_srli_epi32 (inp ! 7) 29) (mm_and_si128 (mm_slli_epi32 (inp ! 8) (11 - 8)) mask),
     mm_and_si128 (mm_srli_epi32 (inp ! 8) 8) mask,
     mm_and_si128 (mm_srli_epi32 (inp ! 8) 19) mask,
     mm_or_si128 (mm_srli_epi32 (inp ! 8) 30) (mm_and_si128 (mm_slli_epi32 (inp ! 9) (11 - 9)) mask),
     mm_and_si128 (mm_srli_epi32 (inp ! 9) 9) mask,
     mm_and_si128 (mm_srli_epi32 (inp ! 9) 20) mask,
     mm_or_si128 (mm_srli_epi32 (inp ! 9) 31) (mm_and_si128 (mm_slli_epi32 (inp ! 10) (11 - 10)) mask),
     mm_and_si128 (mm_srli_epi32 (inp ! 10) 10) mask, mm_srli_epi32 (inp ! 10) 21])"

definition SIMD_fastunpack12 :: "m128i list \<Rightarrow> m128i list" where
  "SIMD_fastunpack12 inp =
    (let mask = low_mask 12 in
    [mm_and_si128 (inp ! 0) mask, mm_and_si128 (mm_srli_epi32 (inp ! 0) 12) mask,
     mm_or_si128 (mm_srli_epi32 (inp ! 0) 24) (mm_and_si128 (mm_slli_epi32 (inp ! 1) (12 - 4)) mask),
     mm_and_si128 (mm_srli_epi32 (inp ! 1) 4) mask,
     mm_and_si128 (mm_srli_epi32 (inp ! 1) 16) mask,
     mm_or_si128 (mm_srli_epi32 (inp ! 1) 28) (mm_and_si128 (mm_slli_epi32 (inp ! 2) (12 - 8)) mask),
     mm_and_si128 (mm_srli_epi32 (inp ! 2) 8) mask, mm_srli_epi32 (inp ! 2) 20,
     mm_and_si128 (inp ! 3) mask, mm_and_si128 (mm_srli_epi32 (inp ! 3) 12) mask,
     mm_or_si128 (mm_srli_epi32 (inp ! 3) 24) (mm_and_si128 (mm_slli_epi32 (inp ! 4) (12 - 4)) mask),
     mm_and_si128 (mm_srli_epi32 (inp ! 4) 4) mask,
     mm_and_si128 (mm_srli_epi32 (inp ! 4) 16) mask,
     mm_or_si128 (mm_srli_epi32 (inp ! 4) 28) (mm_and_si128 (mm_slli_epi32 (inp ! 5) (12 - 8)) mask),
     mm_and_si128 (mm_srli_epi32 (inp ! 5) 8) mask, mm_srli_epi32 (inp ! 5) 20,
     mm_and_si128 (inp ! 6) mask, mm_and_si128 (mm_srli_epi32 (inp ! 6) 12) mask,
     mm_or_si128 (mm_srli_epi32 (inp ! 6) 24) (mm_and_si128 (mm_slli_epi32 (inp ! 7) (12 - 4)) mask),
     mm_and_si128 (mm_srli_epi32 (inp ! 7) 4) mask,
     mm_and_si128 (mm_srli_epi32 (inp ! 7) 16) mask,
     mm_or_si128 (mm_srli_epi32 (inp ! 7) 28) (mm_and_si128 (mm_slli_epi32 (inp ! 8) (12 - 8)) mask),
     mm_and_si128 (mm_srli_epi32 (inp ! 8) 8) mask, mm_srli_epi32 (inp ! 8) 20,
     mm_and_si128 (inp ! 9) mask, mm_and_si128 (mm_srli_epi32 (inp ! 9) 12) mask,
     mm_or_si128 (mm_srli_epi32 (inp ! 9) 24) (mm_and_si128 (mm_slli_epi32 (inp ! 10) (12 - 4)) mask),
     mm_and_si128 (mm_srli_epi32 (inp ! 10) 4) mask,
     mm_and_si128 (mm_srli_epi32 (inp ! 10) 16) mask,
     mm_or_si128 (mm_srli_epi32 (inp ! 10) 28) (mm_and_si128 (mm_slli_epi32 (inp ! 11) (12 - 8)) mask),
     mm_and_si128 (mm_srli_epi32 (inp ! 11) 8) mask, mm_srli_epi32 (inp ! 11) 20])"

definition SIMD_fastunpack13 :: "m128i list \<Rightarrow> m128i list" where
  "SIMD_fastunpack13 inp =
    (let mask = low_mask 13 in
    [mm_and_si128 (inp ! 0) mask, mm_and_si128 (mm_srli_epi32 (inp ! 0) 13) mask,
     mm_or_si128 (mm_srli_epi32 (inp ! 0) 26) (mm_and_si128 (mm_slli_epi32 (inp ! 1) (13 - 7)) mask),
     mm_and_si128 (mm_srli_epi32 (inp ! 1) 7) mask,
     mm_or_si128 (mm_srli_epi32 (inp ! 1) 20) (mm_and_si128 (mm_slli_epi32 (inp ! 2) (13 - 1)) mask),
     mm_and_si128 (mm_srli_epi32 (inp ! 2) 1) mask,
     mm_and_si128 (mm_srli_epi32 (inp ! 2) 14) mask,
     mm_or_si128 (mm_srli_epi32 (inp ! 2) 27) (mm_and_si128 (mm_slli_epi32 (inp ! 3) (13 - 8)) mask),
     mm_and_si128 (mm_srli_epi32 (inp ! 3) 8) mask,
     mm_or_si128 (mm_srli_epi32 (inp ! 3) 21) (mm_and_si128 (mm_slli_epi32 (inp ! 4) (13 - 2)) mask),
     mm_and_si128 (mm_srli_epi32 (inp ! 4) 2) mask,
     mm_and_si128 (mm_srli_epi32 (inp ! 4) 15) mask,
     mm_or_si128 (mm_srli_epi32 (inp ! 4) 28) (mm_and_si128 (mm_slli_epi32 (inp ! 5) (13 - 9)) mask),
     mm_and_si128 (mm_srli_epi32 (inp ! 5) 9) mask,
     mm_or_si128 (mm_srli_epi32 (inp ! 5) 22) (mm_and_si128 (mm_slli_epi32 (inp ! 6) (13 - 3)) mask),
     mm_and_si128 (mm_srli_epi32 (inp ! 6) 3) mask,
     mm_and_si128 (mm_srli_epi32 (inp ! 6) 16) mask,
     mm_or_si128 (mm_srli_epi32 (inp ! 6) 29) (mm_and_si128 (mm_slli_epi32 (inp ! 7) (13 - 10)) mask),
     mm_and_si128 (mm_srli_epi32 (inp ! 7) 10) mask,
     mm_or_si128 (mm_srli_epi32 (inp ! 7) 23) (mm_and_si128 (mm_slli_epi32 (inp ! 8) (13 - 4)) mask),
     mm_and_si128 (mm_srli_epi32 (inp ! 8) 4) mask,
     mm_and_si128 (mm_srli_epi32 (inp ! 8) 17) mask,
     mm_or_si128 (mm_srli_epi32 (inp ! 8) 30) (mm_and_si128 (mm_slli_epi32 (inp ! 9) (13 - 11)) mask),
     mm_and_si128 (mm_srli_epi32 (inp ! 9) 11) mask,
     mm_or_si128 (mm_srli_epi32 (inp ! 9) 24) (mm_and_si128 (mm_slli_epi32 (inp ! 10) (13 - 5)) mask),
     mm_and_si128 (mm_srli_epi32 (inp ! 10) 5) mask,
     mm_and_si128 (mm_srli_epi32 (inp ! 10) 18) mask,
     mm_or_si128 (mm_srli_epi32 (inp ! 10) 31) (mm_and_si128 (mm_slli_epi32 (inp ! 11) (13 - 12)) mask),
     mm_and_si128 (mm_srli_epi32 (inp ! 11) 12) mask,
     mm_or_si128 (mm_srli_epi32 (inp ! 11) 25) (mm_and_si128 (mm_slli_epi32 (inp ! 12) (13 - 6)) mask),
     mm_and_si128 (mm_srli_epi32 (inp ! 12) 6) mask, mm_srli_epi32 (inp ! 12) 19])"

definition SIMD_fastunpack14 :: "m128i list \<Rightarrow> m128i list" where
  "SIMD_fastunpack14 inp =
    (let mask = low_mask 14 in
    [mm_and_si128 (inp ! 0) mask, mm_and_si128 (mm_srli_epi32 (inp ! 0) 14) mask,
     mm_or_si128 (mm_srli_epi32 (inp ! 0) 28) (mm_and_si128 (mm_slli_epi32 (inp ! 1) (14 - 10)) mask),
     mm_and_si128 (mm_srli_epi32 (inp ! 1) 10) mask,
     mm_or_si128 (mm_srli_epi32 (inp ! 1) 24) (mm_and_si128 (mm_slli_epi32 (inp ! 2) (14 - 6)) mask),
     mm_and_si128 (mm_srli_epi32 (inp ! 2) 6) mask,
     mm_or_si128 (mm_srli_epi32 (inp ! 2) 20) (mm_and_si128 (mm_slli_epi32 (inp ! 3) (14 - 2)) mask),
     mm_and_si128 (mm_srli_epi32 (inp ! 3) 2) mask,
     mm_and_si128 (mm_srli_epi32 (inp ! 3) 16) mask,
     mm_or_si128 (mm_srli_epi32 (inp ! 3) 30) (mm_and_si128 (mm_slli_epi32 (inp ! 4) (14 - 12)) mask),
     mm_and_si128 (mm_srli_epi32 (inp ! 4) 12) mask,
     mm_or_si128 (mm_srli_epi32 (inp ! 4) 26) (mm_and_si128 (mm_slli_epi32 (inp ! 5) (14 - 8)) mask),
     mm_and_si128 (mm_srli_epi32 (inp ! 5) 8) mask,
     mm_or_si128 (mm_srli_epi32 (inp ! 5) 22) (mm_and_si128 (mm_slli_epi32 (inp ! 6) (14 - 4)) mask),
     mm_and_si128 (mm_srli_epi32 (inp ! 6) 4) mask, mm_srli_epi32 (inp ! 6) 18,
     mm_and_si128 (inp ! 7) mask, mm_and_si128 (mm_srli_epi32 (inp ! 7) 14) mask,
     mm_or_si128 (mm_srli_epi32 (inp ! 7) 28) (mm_and_si128 (mm_slli_epi32 (inp ! 8) (14 - 10)) mask),
     mm_and_si128 (mm_srli_epi32 (inp ! 8) 10) mask,
     mm_or_si128 (mm_srli_epi32 (inp ! 8) 24) (mm_and_si128 (mm_slli_epi32 (inp ! 9) (14 - 6)) mask),
     mm_and_si128 (mm_srli_epi32 (inp ! 9) 6) mask,
     mm_or_si128 (mm_srli_epi32 (inp ! 9) 20) (mm_and_si128 (mm_slli_epi32 (inp ! 10) (14 - 2)) mask),
     mm_and_si128 (mm_srli_epi32 (inp ! 10) 2) mask,
     mm_and_si128 (mm_srli_epi32 (inp ! 10) 16) mask,
     mm_or_si128 (mm_srli_epi32 (inp ! 10) 30) (mm_and_si128 (mm_slli_epi32 (inp ! 11) (14 - 12)) mask),
     mm_and_si128 (mm_srli_epi32 (inp ! 11) 12) mask,
     mm_or_si128 (mm_srli_epi32 (inp ! 11) 26) (mm_and_si128 (mm_slli_epi32 (inp ! 12) (14 - 8)) mask),
     mm_and_si128 (mm_srli_epi32 (inp ! 12) 8) mask,
     mm_or_si128 (mm_srli_epi32 (inp ! 12) 22) (mm_and_si128 (mm_slli_epi32 (inp ! 13) (14 - 4)) mask),
     mm_and_si128 (mm_srli_epi32 (inp ! 13) 4) mask, mm_srli_epi32 (inp ! 13) 18])"

definition SIMD_fastunpack15 :: "m128i list \<Rightarrow> m128i list" where
  "SIMD_fastunpack15 inp =
    (let mask = low_mask 15 in
    [mm_and_si128 (inp ! 0) mask, mm_and_si128 (mm_srli_epi32 (inp ! 0) 15) mask,
     mm_or_si128 (mm_srli_epi32 (inp ! 0) 30) (mm_and_si128 (mm_slli_epi32 (inp ! 1) (15 - 13)) mask),
     mm_and_si128 (mm_srli_epi32 (inp ! 1) 13) mask,
     mm_or_si128 (mm_srli_epi32 (inp ! 1) 28) (mm_and_si128 (mm_slli_epi32 (inp ! 2) (15 - 11)) mask),
     mm_and_si128 (mm_srli_epi32 (inp ! 2) 11) mask,
     mm_or_si128 (mm_srli_epi32 (inp ! 2) 26) (mm_and_si128 (mm_slli_epi32 (inp ! 3) (15 - 9)) mask),
     mm_and_si128 (mm_srli_epi32 (inp ! 3) 9) mask,
     mm_or_si128 (mm_srli_epi32 (inp ! 3) 24) (mm_and_si128 (mm_slli_epi32 (inp ! 4) (15 - 7)) mask),
     mm_and_si128 (mm_srli_epi32 (inp ! 4) 7) mask,
     mm_or_si128 (mm_srli_epi32 (inp ! 4) 22) (mm_and_si128 (mm_slli_epi32 (inp ! 5) (15 - 5)) mask),
     mm_and_si128 (mm_srli_epi32 (inp ! 5) 5) mask,
     mm_or_si128 (mm_srli_epi32 (inp ! 5) 20) (mm_and_si128 (mm_slli_epi32 (inp ! 6) (15 - 3)) mask),
     mm_and_si128 (mm_srli_epi32 (inp ! 6) 3) mask,
     mm_or_si128 (mm_srli_epi32 (inp ! 6) 18) (mm_and_si128 (mm_slli_epi32 (inp ! 7) (15 - 1)) mask),
     mm_and_si128 (mm_srli_epi32 (inp ! 7) 1) mask,
     mm_and_si128 (mm_srli_epi32 (inp ! 7) 16) mask,
     mm_or_si128 (mm_srli_epi32 (inp ! 7) 31) (mm_and_si128 (mm_slli_epi32 (inp ! 8) (15 - 14)) mask),
     mm_and_si128 (mm_srli_epi32 (inp ! 8) 14) mask,
     mm_or_si128 (mm_srli_epi32 (inp ! 8) 29) (mm_and_si128 (mm_slli_epi32 (inp ! 9) (15 - 12)) mask),
     mm_and_si128 (mm_srli_epi32 (inp ! 9) 12) mask,
     mm_or_si128 (mm_srli_epi32 (inp ! 9) 27) (mm_and_si128 (mm_slli_epi32 (inp ! 10) (15 - 10)) mask),
     mm_and_si128 (mm_srli_epi32 (inp ! 10) 10) mask,
     mm_or_si128 (mm_srli_epi32 (inp ! 10) 25) (mm_and_si128 (mm_slli_epi32 (inp ! 11) (15 - 8)) mask),
     mm_and_si128 (mm_srli_epi32 (inp ! 11) 8) mask,
     mm_or_si128 (mm_srli_epi32 (inp ! 11) 23) (mm_and_si128 (mm_slli_epi32 (inp ! 12) (15 - 6)) mask),
     mm_and_si128 (mm_srli_epi32 (inp ! 12) 6) mask,
     mm_or_si128 (mm_srli_epi32 (inp ! 12) 21) (mm_and_si128 (mm_slli_epi32 (inp ! 13) (15 - 4)) mask),
     mm_and_si128 (mm_srli_epi32 (inp ! 13) 4) mask,
     mm_or_si128 (mm_srli_epi32 (inp ! 13) 19) (mm_and_si128 (mm_slli_epi32 (inp ! 14) (15 - 2)) mask),
     mm_and_si128 (mm_srli_epi32 (inp ! 14) 2) mask, mm_srli_epi32 (inp ! 14) 17])"

definition SIMD_fastunpack16 :: "m128i list \<Rightarrow> m128i list" where
  "SIMD_fastunpack16 inp =
    (let mask = low_mask 16 in
    [mm_and_si128 (inp ! 0) mask, mm_srli_epi32 (inp ! 0) 16, mm_and_si128 (inp ! 1) mask,
     mm_srli_epi32 (inp ! 1) 16, mm_and_si128 (inp ! 2) mask, mm_srli_epi32 (inp ! 2) 16,
     mm_and_si128 (inp ! 3) mask, mm_srli_epi32 (inp ! 3) 16, mm_and_si128 (inp ! 4) mask,
     mm_srli_epi32 (inp ! 4) 16, mm_and_si128 (inp ! 5) mask, mm_srli_epi32 (inp ! 5) 16,
     mm_and_si128 (inp ! 6) mask, mm_srli_epi32 (inp ! 6) 16, mm_and_si128 (inp ! 7) mask,
     mm_srli_epi32 (inp ! 7) 16, mm_and_si128 (inp ! 8) mask, mm_srli_epi32 (inp ! 8) 16,
     mm_and_si128 (inp ! 9) mask, mm_srli_epi32 (inp ! 9) 16, mm_and_si128 (inp ! 10) mask,
     mm_srli_epi32 (inp ! 10) 16, mm_and_si128 (inp ! 11) mask, mm_srli_epi32 (inp ! 11) 16,
     mm_and_si128 (inp ! 12) mask, mm_srli_epi32 (inp ! 12) 16, mm_and_si128 (inp ! 13) mask,
     mm_srli_epi32 (inp ! 13) 16, mm_and_si128 (inp ! 14) mask, mm_srli_epi32 (inp ! 14) 16,
     mm_and_si128 (inp ! 15) mask, mm_srli_epi32 (inp ! 15) 16])"

definition SIMD_fastunpack17 :: "m128i list \<Rightarrow> m128i list" where
  "SIMD_fastunpack17 inp =
    (let mask = low_mask 17 in
    [mm_and_si128 (inp ! 0) mask,
     mm_or_si128 (mm_srli_epi32 (inp ! 0) 17) (mm_and_si128 (mm_slli_epi32 (inp ! 1) (17 - 2)) mask),
     mm_and_si128 (mm_srli_epi32 (inp ! 1) 2) mask,
     mm_or_si128 (mm_srli_epi32 (inp ! 1) 19) (mm_and_si128 (mm_slli_epi32 (inp ! 2) (17 - 4)) mask),
     mm_and_si128 (mm_srli_epi32 (inp ! 2) 4) mask,
     mm_or_si128 (mm_srli_epi32 (inp ! 2) 21) (mm_and_si128 (mm_slli_epi32 (inp ! 3) (17 - 6)) mask),
     mm_and_si128 (mm_srli_epi32 (inp ! 3) 6) mask,
     mm_or_si128 (mm_srli_epi32 (inp ! 3) 23) (mm_and_si128 (mm_slli_epi32 (inp ! 4) (17 - 8)) mask),
     mm_and_si128 (mm_srli_epi32 (inp ! 4) 8) mask,
     mm_or_si128 (mm_srli_epi32 (inp ! 4) 25) (mm_and_si128 (mm_slli_epi32 (inp ! 5) (17 - 10)) mask),
     mm_and_si128 (mm_srli_epi32 (inp ! 5) 10) mask,
     mm_or_si128 (mm_srli_epi32 (inp ! 5) 27) (mm_and_si128 (mm_slli_epi32 (inp ! 6) (17 - 12)) mask),
     mm_and_si128 (mm_srli_epi32 (inp ! 6) 12) mask,
     mm_or_si128 (mm_srli_epi32 (inp ! 6) 29) (mm_and_si128 (mm_slli_epi32 (inp ! 7) (17 - 14)) mask),
     mm_and_si128 (mm_srli_epi32 (inp ! 7) 14) mask,
     mm_or_si128 (mm_srli_epi32 (inp ! 7) 31) (mm_and_si128 (mm_slli_epi32 (inp ! 8) (17 - 16)) mask),
     mm_or_si128 (mm_srli_epi32 (inp ! 8) 16) (mm_and_si128 (mm_slli_epi32 (inp ! 9) (17 - 1)) mask),
     mm_and_si128 (mm_srli_epi32 (inp ! 9) 1) mask,
     mm_or_si128 (mm_srli_epi32 (inp ! 9) 18) (mm_and_si128 (mm_slli_epi32 (inp ! 10) (17 - 3)) mask),
     mm_and_si128 (mm_srli_epi32 (inp ! 10) 3) mask,
     mm_or_si128 (mm_srli_epi32 (inp ! 10) 20) (mm_and_si128 (mm_slli_epi32 (inp ! 11) (17 - 5)) mask),
     mm_and_si128 (mm_srli_epi32 (inp ! 11) 5) mask,
     mm_or_si128 (mm_srli_epi32 (inp ! 11) 22) (mm_and_si128 (mm_slli_epi32 (inp ! 12) (17 - 7)) mask),
     mm_and_si128 (mm_srli_epi32 (inp ! 12) 7) mask,
     mm_or_si128 (mm_srli_epi32 (inp ! 12) 24) (mm_and_si128 (mm_slli_epi32 (inp ! 13) (17 - 9)) mask),
     mm_and_si128 (mm_srli_epi32 (inp ! 13) 9) mask,
     mm_or_si128 (mm_srli_epi32 (inp ! 13) 26) (mm_and_si128 (mm_slli_epi32 (inp ! 14) (17 - 11)) mask),
     mm_and_si128 (mm_srli_epi32 (inp ! 14) 11) mask,
     mm_or_si128 (mm_srli_epi32 (inp ! 14) 28) (mm_and_si128 (mm_slli_epi32 (inp ! 15) (17 - 13)) mask),
     mm_and_si128 (mm_srli_epi32 (inp ! 15) 13) mask,
     mm_or_si128 (mm_srli_epi32 (inp ! 15) 30) (mm_and_si128 (mm_slli_epi32 (inp ! 16) (17 - 15)) mask),
     mm_srli_epi32 (inp ! 16) 15])"

definition SIMD_fastunpack18 :: "m128i list \<Rightarrow> m128i list" where
  "SIMD_fastunpack18 inp =
    (let mask = low_mask 18 in
    [mm_and_si128 (inp ! 0) mask,
     mm_or_si128 (mm_srli_epi32 (inp ! 0) 18) (mm_and_si128 (mm_slli_epi32 (inp ! 1) (18 - 4)) mask),
     mm_and_si128 (mm_srli_epi32 (inp ! 1) 4) mask,
     mm_or_si128 (mm_srli_epi32 (inp ! 1) 22) (mm_and_si128 (mm_slli_epi32 (inp ! 2) (18 - 8)) mask),
     mm_and_si128 (mm_srli_epi32 (inp ! 2) 8) mask,
     mm_or_si128 (mm_srli_epi32 (inp ! 2) 26) (mm_and_si128 (mm_slli_epi32 (inp ! 3) (18 - 12)) mask),
     mm_and_si128 (mm_srli_epi32 (inp ! 3) 12) mask,
     mm_or_si128 (mm_srli_epi32 (inp ! 3) 30) (mm_and_si128 (mm_slli_epi32 (inp ! 4) (18 - 16)) mask),
     mm_or_si128 (mm_srli_epi32 (inp ! 4) 16) (mm_and_si128 (mm_slli_epi32 (inp ! 5) (18 - 2)) mask),
     mm_and_si128 (mm_srli_epi32 (inp ! 5) 2) mask,
     mm_or_si128 (mm_srli_epi32 (inp ! 5) 20) (mm_and_si128 (mm_slli_epi32 (inp ! 6) (18 - 6)) mask),
     mm_and_si128 (mm_srli_epi32 (inp ! 6) 6) mask,
     mm_or_si128 (mm_srli_epi32 (inp ! 6) 24) (mm_and_si128 (mm_slli_epi32 (inp ! 7) (18 - 10)) mask),
     mm_and_si128 (mm_srli_epi32 (inp ! 7) 10) mask,
     mm_or_si128 (mm_srli_epi32 (inp ! 7) 28) (mm_and_si128 (mm_slli_epi32 (inp ! 8) (18 - 14)) mask),
     mm_srli_epi32 (inp ! 8) 14, mm_and_si128 (inp ! 9) mask,
     mm_or_si128 (mm_srli_epi32 (inp ! 9) 18) (mm_and_si128 (mm_slli_epi32 (inp ! 10) (18 - 4)) mask),
     mm_and_si128 (mm_srli_epi32 (inp ! 10) 4) mask,
     mm_or_si128 (mm_srli_epi32 (inp ! 10) 22) (mm_and_si128 (mm_slli_epi32 (inp ! 11) (18 - 8)) mask),
     mm_and_si128 (mm_srli_epi32 (inp ! 11) 8) mask,
     mm_or_si128 (mm_srli_epi32 (inp ! 11) 26) (mm_and_si128 (mm_slli_epi32 (inp ! 12) (18 - 12)) mask),
     mm_and_si128 (mm_srli_epi32 (inp ! 12) 12) mask,
     mm_or_si128 (mm_srli_epi32 (inp ! 12) 30) (mm_and_si128 (mm_slli_epi32 (inp ! 13) (18 - 16)) mask),
     mm_or_si128 (mm_srli_epi32 (inp ! 13) 16) (mm_and_si128 (mm_slli_epi32 (inp ! 14) (18 - 2)) mask),
     mm_and_si128 (mm_srli_epi32 (inp ! 14) 2) mask,
     mm_or_si128 (mm_srli_epi32 (inp ! 14) 20) (mm_and_si128 (mm_slli_epi32 (inp ! 15) (18 - 6)) mask),
     mm_and_si128 (mm_srli_epi32 (inp ! 15) 6) mask,
     mm_or_si128 (mm_srli_epi32 (inp ! 15) 24) (mm_and_si128 (mm_slli_epi32 (inp ! 16) (18 - 10)) mask),
     mm_and_si128 (mm_srli_epi32 (inp ! 16) 10) mask,
     mm_or_si128 (mm_srli_epi32 (inp ! 16) 28) (mm_and_si128 (mm_slli_epi32 (inp ! 17) (18 - 14)) mask),
     mm_srli_epi32 (inp ! 17) 14])"

definition SIMD_fastunpack19 :: "m128i list \<Rightarrow> m128i list" where
  "SIMD_fastunpack19 inp =
    (let mask = low_mask 19 in
    [mm_and_si128 (inp ! 0) mask,
     mm_or_si128 (mm_srli_epi32 (inp ! 0) 19) (mm_and_si128 (mm_slli_epi32 (inp ! 1) (19 - 6)) mask),
     mm_and_si128 (mm_srli_epi32 (inp ! 1) 6) mask,
     mm_or_si128 (mm_srli_epi32 (inp ! 1) 25) (mm_and_si128 (mm_slli_epi32 (inp ! 2) (19 - 12)) mask),
     mm_and_si128 (mm_srli_epi32 (inp ! 2) 12) mask,
     mm_or_si128 (mm_srli_epi32 (inp ! 2) 31) (mm_and_si128 (mm_slli_epi32 (inp ! 3) (19 - 18)) mask),
     mm_or_si128 (mm_srli_epi32 (inp ! 3) 18) (mm_and_si128 (mm_slli_epi32 (inp ! 4) (19 - 5)) mask),
     mm_and_si128 (mm_srli_epi32 (inp ! 4) 5) mask,
     mm_or_si128 (mm_srli_epi32 (inp ! 4) 24) (mm_and_si128 (mm_slli_epi32 (inp ! 5) (19 - 11)) mask),
     mm_and_si128 (mm_srli_epi32 (inp ! 5) 11) mask,
     mm_or_si128 (mm_srli_epi32 (inp ! 5) 30) (mm_and_si128 (mm_slli_epi32 (inp ! 6) (19 - 17)) mask),
     mm_or_si128 (mm_srli_epi32 (inp ! 6) 17) (mm_and_si128 (mm_slli_epi32 (inp ! 7) (19 - 4)) mask),
     mm_and_si128 (mm_srli_epi32 (inp ! 7) 4) mask,
     mm_or_si128 (mm_srli_epi32 (inp ! 7) 23) (mm_and_si128 (mm_slli_epi32 (inp ! 8) (19 - 10)) mask),
     mm_and_si128 (mm_srli_epi32 (inp ! 8) 10) mask,
     mm_or_si128 (mm_srli_epi32 (inp ! 8) 29) (mm_and_si128 (mm_slli_epi32 (inp ! 9) (19 - 16)) mask),
     mm_or_si128 (mm_srli_epi32 (inp ! 9) 16) (mm_and_si128 (mm_slli_epi32 (inp ! 10) (19 - 3)) mask),
     mm_and_si128 (mm_srli_epi32 (inp ! 10) 3) mask,
     mm_or_si128 (mm_srli_epi32 (inp ! 10) 22) (mm_and_si128 (mm_slli_epi32 (inp ! 11) (19 - 9)) mask),
     mm_and_si128 (mm_srli_epi32 (inp ! 11) 9) mask,
     mm_or_si128 (mm_srli_epi32 (inp ! 11) 28) (mm_and_si128 (mm_slli_epi32 (inp ! 12) (19 - 15)) mask),
     mm_or_si128 (mm_srli_epi32 (inp ! 12) 15) (mm_and_si128 (mm_slli_epi32 (inp ! 13) (19 - 2)) mask),
     mm_and_si128 (mm_srli_epi32 (inp ! 13) 2) mask,
     mm_or_si128 (mm_srli_epi32 (inp ! 13) 21) (mm_and_si128 (mm_slli_epi32 (inp ! 14) (19 - 8)) mask),
     mm_and_si128 (mm_srli_epi32 (inp ! 14) 8) mask,
     mm_or_si128 (mm_srli_epi32 (inp ! 14) 27) (mm_and_si128 (mm_slli_epi32 (inp ! 15) (19 - 14)) mask),
     mm_or_si128 (mm_srli_epi32 (inp ! 15) 14) (mm_and_si128 (mm_slli_epi32 (inp ! 16) (19 - 1)) mask),
     mm_and_si128 (mm_srli_epi32 (inp ! 16) 1) mask,
     mm_or_si128 (mm_srli_epi32 (inp ! 16) 20) (mm_and_si128 (mm_slli_epi32 (inp ! 17) (19 - 7)) mask),
     mm_and_si128 (mm_srli_epi32 (inp ! 17) 7) mask,
     mm_or_si128 (mm_srli_epi32 (inp ! 17) 26) (mm_and_si128 (mm_slli_epi32 (inp ! 18) (19 - 13)) mask),
     mm_srli_epi32 (inp ! 18) 13])"

definition SIMD_fastunpack20 :: "m128i list \<Rightarrow> m128i list" where
  "SIMD_fastunpack20 inp =
    (let mask = low_mask 20 in
    [mm_and_si128 (inp ! 0) mask,
     mm_or_si128 (mm_srli_epi32 (inp ! 0) 20) (mm_and_si128 (mm_slli_epi32 (inp ! 1) (20 - 8)) mask),
     mm_and_si128 (mm_srli_epi32 (inp ! 1) 8) mask,
     mm_or_si128 (mm_srli_epi32 (inp ! 1) 28) (mm_and_si128 (mm_slli_epi32 (inp ! 2) (20 - 16)) mask),
     mm_or_si128 (mm_srli_epi32 (inp ! 2) 16) (mm_and_si128 (mm_slli_epi32 (inp ! 3) (20 - 4)) mask),
     mm_and_si128 (mm_srli_epi32 (inp ! 3) 4) mask,
     mm_or_si128 (mm_srli_epi32 (inp ! 3) 24) (mm_and_si128 (mm_slli_epi32 (inp ! 4) (20 - 12)) mask),
     mm_srli_epi32 (inp ! 4) 12, mm_and_si128 (inp ! 5) mask,
     mm_or_si128 (mm_srli_epi32 (inp ! 5) 20) (mm_and_si128 (mm_slli_epi32 (inp ! 6) (20 - 8)) mask),
     mm_and_si128 (mm_srli_epi32 (inp ! 6) 8) mask,
     mm_or_si128 (mm_srli_epi32 (inp ! 6) 28) (mm_and_si128 (mm_slli_epi32 (inp ! 7) (20 - 16)) mask),
     mm_or_si128 (mm_srli_epi32 (inp ! 7) 16) (mm_and_si128 (mm_slli_epi32 (inp ! 8) (20 - 4)) mask),
     mm_and_si128 (mm_srli_epi32 (inp ! 8) 4) mask,
     mm_or_si128 (mm_srli_epi32 (inp ! 8) 24) (mm_and_si128 (mm_slli_epi32 (inp ! 9) (20 - 12)) mask),
     mm_srli_epi32 (inp ! 9) 12, mm_and_si128 (inp ! 10) mask,
     mm_or_si128 (mm_srli_epi32 (inp ! 10) 20) (mm_and_si128 (mm_slli_epi32 (inp ! 11) (20 - 8)) mask),
     mm_and_si128 (mm_srli_epi32 (inp ! 11) 8) mask,
     mm_or_si128 (mm_srli_epi32 (inp ! 11) 28) (mm_and_si128 (mm_slli_epi32 (inp ! 12) (20 - 16)) mask),
     mm_or_si128 (mm_srli_epi32 (inp ! 12) 16) (mm_and_si128 (mm_slli_epi32 (inp ! 13) (20 - 4)) mask),
     mm_and_si128 (mm_srli_epi32 (inp ! 13) 4) mask,
     mm_or_si128 (mm_srli_epi32 (inp ! 13) 24) (mm_and_si128 (mm_slli_epi32 (inp ! 14) (20 - 12)) mask),
     mm_srli_epi32 (inp ! 14) 12, mm_and_si128 (inp ! 15) mask,
     mm_or_si128 (mm_srli_epi32 (inp ! 15) 20) (mm_and_si128 (mm_slli_epi32 (inp ! 16) (20 - 8)) mask),
     mm_and_si128 (mm_srli_epi32 (inp ! 16) 8) mask,
     mm_or_si128 (mm_srli_epi32 (inp ! 16) 28) (mm_and_si128 (mm_slli_epi32 (inp ! 17) (20 - 16)) mask),
     mm_or_si128 (mm_srli_epi32 (inp ! 17) 16) (mm_and_si128 (mm_slli_epi32 (inp ! 18) (20 - 4)) mask),
     mm_and_si128 (mm_srli_epi32 (inp ! 18) 4) mask,
     mm_or_si128 (mm_srli_epi32 (inp ! 18) 24) (mm_and_si128 (mm_slli_epi32 (inp ! 19) (20 - 12)) mask),
     mm_srli_epi32 (inp ! 19) 12])"

definition SIMD_fastunpack21 :: "m128i list \<Rightarrow> m128i list" where
  "SIMD_fastunpack21 inp =
    (let mask = low_mask 21 in
    [mm_and_si128 (inp ! 0) mask,
     mm_or_si128 (mm_srli_epi32 (inp ! 0) 21) (mm_and_si128 (mm_slli_epi32 (inp ! 1) (21 - 10)) mask),
     mm_and_si128 (mm_srli_epi32 (inp ! 1) 10) mask,
     mm_or_si128 (mm_srli_epi32 (inp ! 1) 31) (mm_and_si128 (mm_slli_epi32 (inp ! 2) (21 - 20)) mask),
     mm_or_si128 (mm_srli_epi32 (inp ! 2) 20) (mm_and_si128 (mm_slli_epi32 (inp ! 3) (21 - 9)) mask),
     mm_and_si128 (mm_srli_epi32 (inp ! 3) 9) mask,
     mm_or_si128 (mm_srli_epi32 (inp ! 3) 30) (mm_and_si128 (mm_slli_epi32 (inp ! 4) (21 - 19)) mask),
     mm_or_si128 (mm_srli_epi32 (inp ! 4) 19) (mm_and_si128 (mm_slli_epi32 (inp ! 5) (21 - 8)) mask),
     mm_and_si128 (mm_srli_epi32 (inp ! 5) 8) mask,
     mm_or_si128 (mm_srli_epi32 (inp ! 5) 29) (mm_and_si128 (mm_slli_epi32 (inp ! 6) (21 - 18)) mask),
     mm_or_si128 (mm_srli_epi32 (inp ! 6) 18) (mm_and_si128 (mm_slli_epi32 (inp ! 7) (21 - 7)) mask),
     mm_and_si128 (mm_srli_epi32 (inp ! 7) 7) mask,
     mm_or_si128 (mm_srli_epi32 (inp ! 7) 28) (mm_and_si128 (mm_slli_epi32 (inp ! 8) (21 - 17)) mask),
     mm_or_si128 (mm_srli_epi32 (inp ! 8) 17) (mm_and_si128 (mm_slli_epi32 (inp ! 9) (21 - 6)) mask),
     mm_and_si128 (mm_srli_epi32 (inp ! 9) 6) mask,
     mm_or_si128 (mm_srli_epi32 (inp ! 9) 27) (mm_and_si128 (mm_slli_epi32 (inp ! 10) (21 - 16)) mask),
     mm_or_si128 (mm_srli_epi32 (inp ! 10) 16) (mm_and_si128 (mm_slli_epi32 (inp ! 11) (21 - 5)) mask),
     mm_and_si128 (mm_srli_epi32 (inp ! 11) 5) mask,
     mm_or_si128 (mm_srli_epi32 (inp ! 11) 26) (mm_and_si128 (mm_slli_epi32 (inp ! 12) (21 - 15)) mask),
     mm_or_si128 (mm_srli_epi32 (inp ! 12) 15) (mm_and_si128 (mm_slli_epi32 (inp ! 13) (21 - 4)) mask),
     mm_and_si128 (mm_srli_epi32 (inp ! 13) 4) mask,
     mm_or_si128 (mm_srli_epi32 (inp ! 13) 25) (mm_and_si128 (mm_slli_epi32 (inp ! 14) (21 - 14)) mask),
     mm_or_si128 (mm_srli_epi32 (inp ! 14) 14) (mm_and_si128 (mm_slli_epi32 (inp ! 15) (21 - 3)) mask),
     mm_and_si128 (mm_srli_epi32 (inp ! 15) 3) mask,
     mm_or_si128 (mm_srli_epi32 (inp ! 15) 24) (mm_and_si128 (mm_slli_epi32 (inp ! 16) (21 - 13)) mask),
     mm_or_si128 (mm_srli_epi32 (inp ! 16) 13) (mm_and_si128 (mm_slli_epi32 (inp ! 17) (21 - 2)) mask),
     mm_and_si128 (mm_srli_epi32 (inp ! 17) 2) mask,
     mm_or_si128 (mm_srli_epi32 (inp ! 17) 23) (mm_and_si128 (mm_slli_epi32 (inp ! 18) (21 - 12)) mask),
     mm_or_si128 (mm_srli_epi32 (inp ! 18) 12) (mm_and_si128 (mm_slli_epi32 (inp ! 19) (21 - 1)) mask),
     mm_and_si128 (mm_srli_epi32 (inp ! 19) 1) mask,
     mm_or_si128 (mm_srli_epi32 (inp ! 19) 22) (mm_and_si128 (mm_slli_epi32 (inp ! 20) (21 - 11)) mask),
     mm_srli_epi32 (inp ! 20) 11])"

definition SIMD_fastunpack22 :: "m128i list \<Rightarrow> m128i list" where
  "SIMD_fastunpack22 inp =
    (let mask = low_mask 22 in
    [mm_and_si128 (inp ! 0) mask,
     mm_or_si128 (mm_srli_epi32 (inp ! 0) 22) (mm_and_si128 (mm_slli_epi32 (inp ! 1) (22 - 12)) mask),
     mm_or_si128 (mm_srli_epi32 (inp ! 1) 12) (mm_and_si128 (mm_slli_epi32 (inp ! 2) (22 - 2)) mask),
     mm_and_si128 (mm_srli_epi32 (inp ! 2) 2) mask,
     mm_or_si128 (mm_srli_epi32 (inp ! 2) 24) (mm_and_si128 (mm_slli_epi32 (inp ! 3) (22 - 14)) mask),
     mm_or_si128 (mm_srli_epi32 (inp ! 3) 14) (mm_and_si128 (mm_slli_epi32 (inp ! 4) (22 - 4)) mask),
     mm_and_si128 (mm_srli_epi32 (inp ! 4) 4) mask,
     mm_or_si128 (mm_srli_epi32 (inp ! 4) 26) (mm_and_si128 (mm_slli_epi32 (inp ! 5) (22 - 16)) mask),
     mm_or_si128 (mm_srli_epi32 (inp ! 5) 16) (mm_and_si128 (mm_slli_epi32 (inp ! 6) (22 - 6)) mask),
     mm_and_si128 (mm_srli_epi32 (inp ! 6) 6) mask,
     mm_or_si128 (mm_srli_epi32 (inp ! 6) 28) (mm_and_si128 (mm_slli_epi32 (inp ! 7) (22 - 18)) mask),
     mm_or_si128 (mm_srli_epi32 (inp ! 7) 18) (mm_and_si128 (mm_slli_epi32 (inp ! 8) (22 - 8)) mask),
     mm_and_si128 (mm_srli_epi32 (inp ! 8) 8) mask,
     mm_or_si128 (mm_srli_epi32 (inp ! 8) 30) (mm_and_si128 (mm_slli_epi32 (inp ! 9) (22 - 20)) mask),
     mm_or_si128 (mm_srli_epi32 (inp ! 9) 20) (mm_and_si128 (mm_slli_epi32 (inp ! 10) (22 - 10)) mask),
     mm_srli_epi32 (inp ! 10) 10, mm_and_si128 (inp ! 11) mask,
     mm_or_si128 (mm_srli_epi32 (inp ! 11) 22) (mm_and_si128 (mm_slli_epi32 (inp ! 12) (22 - 12)) mask),
     mm_or_si128 (mm_srli_epi32 (inp ! 12) 12) (mm_and_si128 (mm_slli_epi32 (inp ! 13) (22 - 2)) mask),
     mm_and_si128 (mm_srli_epi32 (inp ! 13) 2) mask,
     mm_or_si128 (mm_srli_epi32 (inp ! 13) 24) (mm_and_si128 (mm_slli_epi32 (inp ! 14) (22 - 14)) mask),
     mm_or_si128 (mm_srli_epi32 (inp ! 14) 14) (mm_and_si128 (mm_slli_epi32 (inp ! 15) (22 - 4)) mask),
     mm_and_si128 (mm_srli_epi32 (inp ! 15) 4) mask,
     mm_or_si128 (mm_srli_epi32 (inp ! 15) 26) (mm_and_si128 (mm_slli_epi32 (inp ! 16) (22 - 16)) mask),
     mm_or_si128 (mm_srli_epi32 (inp ! 16) 16) (mm_and_si128 (mm_slli_epi32 (inp ! 17) (22 - 6)) mask),
     mm_and_si128 (mm_srli_epi32 (inp ! 17) 6) mask,
     mm_or_si128 (mm_srli_epi32 (inp ! 17) 28) (mm_and_si128 (mm_slli_epi32 (inp ! 18) (22 - 18)) mask),
     mm_or_si128 (mm_srli_epi32 (inp ! 18) 18) (mm_and_si128 (mm_slli_epi32 (inp ! 19) (22 - 8)) mask),
     mm_and_si128 (mm_srli_epi32 (inp ! 19) 8) mask,
     mm_or_si128 (mm_srli_epi32 (inp ! 19) 30) (mm_and_si128 (mm_slli_epi32 (inp ! 20) (22 - 20)) mask),
     mm_or_si128 (mm_srli_epi32 (inp ! 20) 20) (mm_and_si128 (mm_slli_epi32 (inp ! 21) (22 - 10)) mask),
     mm_srli_epi32 (inp ! 21) 10])"

definition SIMD_fastunpack23 :: "m128i list \<Rightarrow> m128i list" where
  "SIMD_fastunpack23 inp =
    (let mask = low_mask 23 in
    [mm_and_si128 (inp ! 0) mask,
     mm_or_si128 (mm_srli_epi32 (inp ! 0) 23) (mm_and_si128 (mm_slli_epi32 (inp ! 1) (23 - 14)) mask),
     mm_or_si128 (mm_srli_epi32 (inp ! 1) 14) (mm_and_si128 (mm_slli_epi32 (inp ! 2) (23 - 5)) mask),
     mm_and_si128 (mm_srli_epi32 (inp ! 2) 5) mask,
     mm_or_si128 (mm_srli_epi32 (inp ! 2) 28) (mm_and_si128 (mm_slli_epi32 (inp ! 3) (23 - 19)) mask),
     mm_or_si128 (mm_srli_epi32 (inp ! 3) 19) (mm_and_si128 (mm_slli_epi32 (inp ! 4) (23 - 10)) mask),
     mm_or_si128 (mm_srli_epi32 (inp ! 4) 10) (mm_and_si128 (mm_slli_epi32 (inp ! 5) (23 - 1)) mask),
     mm_and_si128 (mm_srli_epi32 (inp ! 5) 1) mask,
     mm_or_si128 (mm_srli_epi32 (inp ! 5) 24) (mm_and_si128 (mm_slli_epi32 (inp ! 6) (23 - 15)) mask),
     mm_or_si128 (mm_srli_epi32 (inp ! 6) 15) (mm_and_si128 (mm_slli_epi32 (inp ! 7) (23 - 6)) mask),
     mm_and_si128 (mm_srli_epi32 (inp ! 7) 6) mask,
     mm_or_si128 (mm_srli_epi32 (inp ! 7) 29) (mm_and_si128 (mm_slli_epi32 (inp ! 8) (23 - 20)) mask),
     mm_or_si128 (mm_srli_epi32 (inp ! 8) 20) (mm_and_si128 (mm_slli_epi32 (inp ! 9) (23 - 11)) mask),
     mm_or_si128 (mm_srli_epi32 (inp ! 9) 11) (mm_and_si128 (mm_slli_epi32 (inp ! 10) (23 - 2)) mask),
     mm_and_si128 (mm_srli_epi32 (inp ! 10) 2) mask,
     mm_or_si128 (mm_srli_epi32 (inp ! 10) 25) (mm_and_si128 (mm_slli_epi32 (inp ! 11) (23 - 16)) mask),
     mm_or_si128 (mm_srli_epi32 (inp ! 11) 16) (mm_and_si128 (mm_slli_epi32 (inp ! 12) (23 - 7)) mask),
     mm_and_si128 (mm_srli_epi32 (inp ! 12) 7) mask,
     mm_or_si128 (mm_srli_epi32 (inp ! 12) 30) (mm_and_si128 (mm_slli_epi32 (inp ! 13) (23 - 21)) mask),
     mm_or_si128 (mm_srli_epi32 (inp ! 13) 21) (mm_and_si128 (mm_slli_epi32 (inp ! 14) (23 - 12)) mask),
     mm_or_si128 (mm_srli_epi32 (inp ! 14) 12) (mm_and_si128 (mm_slli_epi32 (inp ! 15) (23 - 3)) mask),
     mm_and_si128 (mm_srli_epi32 (inp ! 15) 3) mask,
     mm_or_si128 (mm_srli_epi32 (inp ! 15) 26) (mm_and_si128 (mm_slli_epi32 (inp ! 16) (23 - 17)) mask),
     mm_or_si128 (mm_srli_epi32 (inp ! 16) 17) (mm_and_si128 (mm_slli_epi32 (inp ! 17) (23 - 8)) mask),
     mm_and_si128 (mm_srli_epi32 (inp ! 17) 8) mask,
     mm_or_si128 (mm_srli_epi32 (inp ! 17) 31) (mm_and_si128 (mm_slli_epi32 (inp ! 18) (23 - 22)) mask),
     mm_or_si128 (mm_srli_epi32 (inp ! 18) 22) (mm_and_si128 (mm_slli_epi32 (inp ! 19) (23 - 13)) mask),
     mm_or_si128 (mm_srli_epi32 (inp ! 19) 13) (mm_and_si128 (mm_slli_epi32 (inp ! 20) (23 - 4)) mask),
     mm_and_si128 (mm_srli_epi32 (inp ! 20) 4) mask,
     mm_or_si128 (mm_srli_epi32 (inp ! 20) 27) (mm_and_si128 (mm_slli_epi32 (inp ! 21) (23 - 18)) mask),
     mm_or_si128 (mm_srli_epi32 (inp ! 21) 18) (mm_and_si128 (mm_slli_epi32 (inp ! 22) (23 - 9)) mask),
     mm_srli_epi32 (inp ! 22) 9])"

definition SIMD_fastunpack24 :: "m128i list \<Rightarrow> m128i list" where
  "SIMD_fastunpack24 inp =
    (let mask = low_mask 24 in
    [mm_and_si128 (inp ! 0) mask,
     mm_or_si128 (mm_srli_epi32 (inp ! 0) 24) (mm_and_si128 (mm_slli_epi32 (inp ! 1) (24 - 16)) mask),
     mm_or_si128 (mm_srli_epi32 (inp ! 1) 16) (mm_and_si128 (mm_slli_epi32 (inp ! 2) (24 - 8)) mask),
     mm_srli_epi32 (inp ! 2) 8, mm_and_si128 (inp ! 3) mask,
     mm_or_si128 (mm_srli_epi32 (inp ! 3) 24) (mm_and_si128 (mm_slli_epi32 (inp ! 4) (24 - 16)) mask),
     mm_or_si128 (mm_srli_epi32 (inp ! 4) 16) (mm_and_si128 (mm_slli_epi32 (inp ! 5) (24 - 8)) mask),
     mm_srli_epi32 (inp ! 5) 8, mm_and_si128 (inp ! 6) mask,
     mm_or_si128 (mm_srli_epi32 (inp ! 6) 24) (mm_and_si128 (mm_slli_epi32 (inp ! 7) (24 - 16)) mask),
     mm_or_si128 (mm_srli_epi32 (inp ! 7) 16) (mm_and_si128 (mm_slli_epi32 (inp ! 8) (24 - 8)) mask),
     mm_srli_epi32 (inp ! 8) 8, mm_and_si128 (inp ! 9) mask,
     mm_or_si128 (mm_srli_epi32 (inp ! 9) 24) (mm_and_si128 (mm_slli_epi32 (inp ! 10) (24 - 16)) mask),
     mm_or_si128 (mm_srli_epi32 (inp ! 10) 16) (mm_and_si128 (mm_slli_epi32 (inp ! 11) (24 - 8)) mask),
     mm_srli_epi32 (inp ! 11) 8, mm_and_si128 (inp ! 12) mask,
     mm_or_si128 (mm_srli_epi32 (inp ! 12) 24) (mm_and_si128 (mm_slli_epi32 (inp ! 13) (24 - 16)) mask),
     mm_or_si128 (mm_srli_epi32 (inp ! 13) 16) (mm_and_si128 (mm_slli_epi32 (inp ! 14) (24 - 8)) mask),
     mm_srli_epi32 (inp ! 14) 8, mm_and_si128 (inp ! 15) mask,
     mm_or_si128 (mm_srli_epi32 (inp ! 15) 24) (mm_and_si128 (mm_slli_epi32 (inp ! 16) (24 - 16)) mask),
     mm_or_si128 (mm_srli_epi32 (inp ! 16) 16) (mm_and_si128 (mm_slli_epi32 (inp ! 17) (24 - 8)) mask),
     mm_srli_epi32 (inp ! 17) 8, mm_and_si128 (inp ! 18) mask,
     mm_or_si128 (mm_srli_epi32 (inp ! 18) 24) (mm_and_si128 (mm_slli_epi32 (inp ! 19) (24 - 16)) mask),
     mm_or_si128 (mm_srli_epi32 (inp ! 19) 16) (mm_and_si128 (mm_slli_epi32 (inp ! 20) (24 - 8)) mask),
     mm_srli_epi32 (inp ! 20) 8, mm_and_si128 (inp ! 21) mask,
     mm_or_si128 (mm_srli_epi32 (inp ! 21) 24) (mm_and_si128 (mm_slli_epi32 (inp ! 22) (24 - 16)) mask),
     mm_or_si128 (mm_srli_epi32 (inp ! 22) 16) (mm_and_si128 (mm_slli_epi32 (inp ! 23) (24 - 8)) mask),
     mm_srli_epi32 (inp ! 23) 8])"

definition SIMD_fastunpack25 :: "m128i list \<Rightarrow> m128i list" where
  "SIMD_fastunpack25 inp =
    (let mask = low_mask 25 in
    [mm_and_si128 (inp ! 0) mask,
     mm_or_si128 (mm_srli_epi32 (inp ! 0) 25) (mm_and_si128 (mm_slli_epi32 (inp ! 1) (25 - 18)) mask),
     mm_or_si128 (mm_srli_epi32 (inp ! 1) 18) (mm_and_si128 (mm_slli_epi32 (inp ! 2) (25 - 11)) mask),
     mm_or_si128 (mm_srli_epi32 (inp ! 2) 11) (mm_and_si128 (mm_slli_epi32 (inp ! 3) (25 - 4)) mask),
     mm_and_si128 (mm_srli_epi32 (inp ! 3) 4) mask,
     mm_or_si128 (mm_srli_epi32 (inp ! 3) 29) (mm_and_si128 (mm_slli_epi32 (inp ! 4) (25 - 22)) mask),
     mm_or_si128 (mm_srli_epi32 (inp ! 4) 22) (mm_and_si128 (mm_slli_epi32 (inp ! 5) (25 - 15)) mask),
     mm_or_si128 (mm_srli_epi32 (inp ! 5) 15) (mm_and_si128 (mm_slli_epi32 (inp ! 6) (25 - 8)) mask),
     mm_or_si128 (mm_srli_epi32 (inp ! 6) 8) (mm_and_si128 (mm_slli_epi32 (inp ! 7) (25 - 1)) mask),
     mm_and_si128 (mm_srli_epi32 (inp ! 7) 1) mask,
     mm_or_si128 (mm_srli_epi32 (inp ! 7) 26) (mm_and_si128 (mm_slli_epi32 (inp ! 8) (25 - 19)) mask),
     mm_or_si128 (mm_srli_epi32 (inp ! 8) 19) (mm_and_si128 (mm_slli_epi32 (inp ! 9) (25 - 12)) mask),
     mm_or_si128 (mm_srli_epi32 (inp ! 9) 12) (mm_and_si128 (mm_slli_epi32 (inp ! 10) (25 - 5)) mask),
     mm_and_si128 (mm_srli_epi32 (inp ! 10) 5) mask,
     mm_or_si128 (mm_srli_epi32 (inp ! 10) 30) (mm_and_si128 (mm_slli_epi32 (inp ! 11) (25 - 23)) mask),
     mm_or_si128 (mm_srli_epi32 (inp ! 11) 23) (mm_and_si128 (mm_slli_epi32 (inp ! 12) (25 - 16)) mask),
     mm_or_si128 (mm_srli_epi32 (inp ! 12) 16) (mm_and_si128 (mm_slli_epi32 (inp ! 13) (25 - 9)) mask),
     mm_or_si128 (mm_srli_epi32 (inp ! 13) 9) (mm_and_si128 (mm_slli_epi32 (inp ! 14) (25 - 2)) mask),
     mm_and_si128 (mm_srli_epi32 (inp ! 14) 2) mask,
     mm_or_si128 (mm_srli_epi32 (inp ! 14) 27) (mm_and_si128 (mm_slli_epi32 (inp ! 15) (25 - 20)) mask),
     mm_or_si128 (mm_srli_epi32 (inp ! 15) 20) (mm_and_si128 (mm_slli_epi32 (inp ! 16) (25 - 13)) mask),
     mm_or_si128 (mm_srli_epi32 (inp ! 16) 13) (mm_and_si128 (mm_slli_epi32 (inp ! 17) (25 - 6)) mask),
     mm_and_si128 (mm_srli_epi32 (inp ! 17) 6) mask,
     mm_or_si128 (mm_srli_epi32 (inp ! 17) 31) (mm_and_si128 (mm_slli_epi32 (inp ! 18) (25 - 24)) mask),
     mm_or_si128 (mm_srli_epi32 (inp ! 18) 24) (mm_and_si128 (mm_slli_epi32 (inp ! 19) (25 - 17)) mask),
     mm_or_si128 (mm_srli_epi32 (inp ! 19) 17) (mm_and_si128 (mm_slli_epi32 (inp ! 20) (25 - 10)) mask),
     mm_or_si128 (mm_srli_epi32 (inp ! 20) 10) (mm_and_si128 (mm_slli_epi32 (inp ! 21) (25 - 3)) mask),
     mm_and_si128 (mm_srli_epi32 (inp ! 21) 3) mask,
     mm_or_si128 (mm_srli_epi32 (inp ! 21) 28) (mm_and_si128 (mm_slli_epi32 (inp ! 22) (25 - 21)) mask),
     mm_or_si128 (mm_srli_epi32 (inp ! 22) 21) (mm_and_si128 (mm_slli_epi32 (inp ! 23) (25 - 14)) mask),
     mm_or_si128 (mm_srli_epi32 (inp ! 23) 14) (mm_and_si128 (mm_slli_epi32 (inp ! 24) (25 - 7)) mask),
     mm_srli_epi32 (inp ! 24) 7])"

definition SIMD_fastunpack26 :: "m128i list \<Rightarrow> m128i list" where
  "SIMD_fastunpack26 inp =
    (let mask = low_mask 26 in
    [mm_and_si128 (inp ! 0) mask,
     mm_or_si128 (mm_srli_epi32 (inp ! 0) 26) (mm_and_si128 (mm_slli_epi32 (inp ! 1) (26 - 20)) mask),
     mm_or_si128 (mm_srli_epi32 (inp ! 1) 20) (mm_and_si128 (mm_slli_epi32 (inp ! 2) (26 - 14)) mask),
     mm_or_si128 (mm_srli_epi32 (inp ! 2) 14) (mm_and_si128 (mm_slli_epi32 (inp ! 3) (26 - 8)) mask),
     mm_or_si128 (mm_srli_epi32 (inp ! 3) 8) (mm_and_si128 (mm_slli_epi32 (inp ! 4) (26 - 2)) mask),
     mm_and_si128 (mm_srli_epi32 (inp ! 4) 2) mask,
     mm_or_si128 (mm_srli_epi32 (inp ! 4) 28) (mm_and_si128 (mm_slli_epi32 (inp ! 5) (26 - 22)) mask),
     mm_or_si128 (mm_srli_epi32 (inp ! 5) 22) (mm_and_si128 (mm_slli_epi32 (inp ! 6) (26 - 16)) mask),
     mm_or_si128 (mm_srli_epi32 (inp ! 6) 16) (mm_and_si128 (mm_slli_epi32 (inp ! 7) (26 - 10)) mask),
     mm_or_si128 (mm_srli_epi32 (inp ! 7) 10) (mm_and_si128 (mm_slli_epi32 (inp ! 8) (26 - 4)) mask),
     mm_and_si128 (mm_srli_epi32 (inp ! 8) 4) mask,
     mm_or_si128 (mm_srli_epi32 (inp ! 8) 30) (mm_and_si128 (mm_slli_epi32 (inp ! 9) (26 - 24)) mask),
     mm_or_si128 (mm_srli_epi32 (inp ! 9) 24) (mm_and_si128 (mm_slli_epi32 (inp ! 10) (26 - 18)) mask),
     mm_or_si128 (mm_srli_epi32 (inp ! 10) 18) (mm_and_si128 (mm_slli_epi32 (inp ! 11) (26 - 12)) mask),
     mm_or_si128 (mm_srli_epi32 (inp ! 11) 12) (mm_and_si128 (mm_slli_epi32 (inp ! 12) (26 - 6)) mask),
     mm_srli_epi32 (inp ! 12) 6, mm_and_si128 (inp ! 13) mask,
     mm_or_si128 (mm_srli_epi32 (inp ! 13) 26) (mm_and_si128 (mm_slli_epi32 (inp ! 14) (26 - 20)) mask),
     mm_or_si128 (mm_srli_epi32 (inp ! 14) 20) (mm_and_si128 (mm_slli_epi32 (inp ! 15) (26 - 14)) mask),
     mm_or_si128 (mm_srli_epi32 (inp ! 15) 14) (mm_and_si128 (mm_slli_epi32 (inp ! 16) (26 - 8)) mask),
     mm_or_si128 (mm_srli_epi32 (inp ! 16) 8) (mm_and_si128 (mm_slli_epi32 (inp ! 17) (26 - 2)) mask),
     mm_and_si128 (mm_srli_epi32 (inp ! 17) 2) mask,
     mm_or_si128 (mm_srli_epi32 (inp ! 17) 28) (mm_and_si128 (mm_slli_epi32 (inp ! 18) (26 - 22)) mask),
     mm_or_si128 (mm_srli_epi32 (inp ! 18) 22) (mm_and_si128 (mm_slli_epi32 (inp ! 19) (26 - 16)) mask),
     mm_or_si128 (mm_srli_epi32 (inp ! 19) 16) (mm_and_si128 (mm_slli_epi32 (inp ! 20) (26 - 10)) mask),
     mm_or_si128 (mm_srli_epi32 (inp ! 20) 10) (mm_and_si128 (mm_slli_epi32 (inp ! 21) (26 - 4)) mask),
     mm_and_si128 (mm_srli_epi32 (inp ! 21) 4) mask,
     mm_or_si128 (mm_srli_epi32 (inp ! 21) 30) (mm_and_si128 (mm_slli_epi32 (inp ! 22) (26 - 24)) mask),
     mm_or_si128 (mm_srli_epi32 (inp ! 22) 24) (mm_and_si128 (mm_slli_epi32 (inp ! 23) (26 - 18)) mask),
     mm_or_si128 (mm_srli_epi32 (inp ! 23) 18) (mm_and_si128 (mm_slli_epi32 (inp ! 24) (26 - 12)) mask),
     mm_or_si128 (mm_srli_epi32 (inp ! 24) 12) (mm_and_si128 (mm_slli_epi32 (inp ! 25) (26 - 6)) mask),
     mm_srli_epi32 (inp ! 25) 6])"

definition SIMD_fastunpack27 :: "m128i list \<Rightarrow> m128i list" where
  "SIMD_fastunpack27 inp =
    (let mask = low_mask 27 in
    [mm_and_si128 (inp ! 0) mask,
     mm_or_si128 (mm_srli_epi32 (inp ! 0) 27) (mm_and_si128 (mm_slli_epi32 (inp ! 1) (27 - 22)) mask),
     mm_or_si128 (mm_srli_epi32 (inp ! 1) 22) (mm_and_si128 (mm_slli_epi32 (inp ! 2) (27 - 17)) mask),
     mm_or_si128 (mm_srli_epi32 (inp ! 2) 17) (mm_and_si128 (mm_slli_epi32 (inp ! 3) (27 - 12)) mask),
     mm_or_si128 (mm_srli_epi32 (inp ! 3) 12) (mm_and_si128 (mm_slli_epi32 (inp ! 4) (27 - 7)) mask),
     mm_or_si128 (mm_srli_epi32 (inp ! 4) 7) (mm_and_si128 (mm_slli_epi32 (inp ! 5) (27 - 2)) mask),
     mm_and_si128 (mm_srli_epi32 (inp ! 5) 2) mask,
     mm_or_si128 (mm_srli_epi32 (inp ! 5) 29) (mm_and_si128 (mm_slli_epi32 (inp ! 6) (27 - 24)) mask),
     mm_or_si128 (mm_srli_epi32 (inp ! 6) 24) (mm_and_si128 (mm_slli_epi32 (inp ! 7) (27 - 19)) mask),
     mm_or_si128 (mm_srli_epi32 (inp ! 7) 19) (mm_and_si128 (mm_slli_epi32 (inp ! 8) (27 - 14)) mask),
     mm_or_si128 (mm_srli_epi32 (inp ! 8) 14) (mm_and_si128 (mm_slli_epi32 (inp ! 9) (27 - 9)) mask),
     mm_or_si128 (mm_srli_epi32 (inp ! 9) 9) (mm_and_si128 (mm_slli_epi32 (inp ! 10) (27 - 4)) mask),
     mm_and_si128 (mm_srli_epi32 (inp ! 10) 4) mask,
     mm_or_si128 (mm_srli_epi32 (inp ! 10) 31) (mm_and_si128 (mm_slli_epi32 (inp ! 11) (27 - 26)) mask),
     mm_or_si128 (mm_srli_epi32 (inp ! 11) 26) (mm_and_si128 (mm_slli_epi32 (inp ! 12) (27 - 21)) mask),
     mm_or_si128 (mm_srli_epi32 (inp ! 12) 21) (mm_and_si128 (mm_slli_epi32 (inp ! 13) (27 - 16)) mask),
     mm_or_si128 (mm_srli_epi32 (inp ! 13) 16) (mm_and_si128 (mm_slli_epi32 (inp ! 14) (27 - 11)) mask),
     mm_or_si128 (mm_srli_epi32 (inp ! 14) 11) (mm_and_si128 (mm_slli_epi32 (inp ! 15) (27 - 6)) mask),
     mm_or_si128 (mm_srli_epi32 (inp ! 15) 6) (mm_and_si128 (mm_slli_epi32 (inp ! 16) (27 - 1)) mask),
     mm_and_si128 (mm_srli_epi32 (inp ! 16) 1) mask,
     mm_or_si128 (mm_srli_epi32 (inp ! 16) 28) (mm_and_si128 (mm_slli_epi32 (inp ! 17) (27 - 23)) mask),
     mm_or_si128 (mm_srli_epi32 (inp ! 17) 23) (mm_and_si128 (mm_slli_epi32 (inp ! 18) (27 - 18)) mask),
     mm_or_si128 (mm_srli_epi32 (inp ! 18) 18) (mm_and_si128 (mm_slli_epi32 (inp ! 19) (27 - 13)) mask),
     mm_or_si128 (mm_srli_epi32 (inp ! 19) 13) (mm_and_si128 (mm_slli_epi32 (inp ! 20) (27 - 8)) mask),
     mm_or_si128 (mm_srli_epi32 (inp ! 20) 8) (mm_and_si128 (mm_slli_epi32 (inp ! 21) (27 - 3)) mask),
     mm_and_si128 (mm_srli_epi32 (inp ! 21) 3) mask,
     mm_or_si128 (mm_srli_epi32 (inp ! 21) 30) (mm_and_si128 (mm_slli_epi32 (inp ! 22) (27 - 25)) mask),
     mm_or_si128 (mm_srli_epi32 (inp ! 22) 25) (mm_and_si128 (mm_slli_epi32 (inp ! 23) (27 - 20)) mask),
     mm_or_si128 (mm_srli_epi32 (inp ! 23) 20) (mm_and_si128 (mm_slli_epi32 (inp ! 24) (27 - 15)) mask),
     mm_or_si128 (mm_srli_epi32 (inp ! 24) 15) (mm_and_si128 (mm_slli_epi32 (inp ! 25) (27 - 10)) mask),
     mm_or_si128 (mm_srli_epi32 (inp ! 25) 10) (mm_and_si128 (mm_slli_epi32 (inp ! 26) (27 - 5)) mask),
     mm_srli_epi32 (inp ! 26) 5])"

definition SIMD_fastunpack28 :: "m128i list \<Rightarrow> m128i list" where
  "SIMD_fastunpack28 inp =
    (let mask = low_mask 28 in
    [mm_and_si128 (inp ! 0) mask,
     mm_or_si128 (mm_srli_epi32 (inp ! 0) 28) (mm_and_si128 (mm_slli_epi32 (inp ! 1) (28 - 24)) mask),
     mm_or_si128 (mm_srli_epi32 (inp ! 1) 24) (mm_and_si128 (mm_slli_epi32 (inp ! 2) (28 - 20)) mask),
     mm_or_si128 (mm_srli_epi32 (inp ! 2) 20) (mm_and_si128 (mm_slli_epi32 (inp ! 3) (28 - 16)) mask),
     mm_or_si128 (mm_srli_epi32 (inp ! 3) 16) (mm_and_si128 (mm_slli_epi32 (inp ! 4) (28 - 12)) mask),
     mm_or_si128 (mm_srli_epi32 (inp ! 4) 12) (mm_and_si128 (mm_slli_epi32 (inp ! 5) (28 - 8)) mask),
     mm_or_si128 (mm_srli_epi32 (inp ! 5) 8) (mm_and_si128 (mm_slli_epi32 (inp ! 6) (28 - 4)) mask),
     mm_srli_epi32 (inp ! 6) 4, mm_and_si128 (inp ! 7) mask,
     mm_or_si128 (mm_srli_epi32 (inp ! 7) 28) (mm_and_si128 (mm_slli_epi32 (inp ! 8) (28 - 24)) mask),
     mm_or_si128 (mm_srli_epi32 (inp ! 8) 24) (mm_and_si128 (mm_slli_epi32 (inp ! 9) (28 - 20)) mask),
     mm_or_si128 (mm_srli_epi32 (inp ! 9) 20) (mm_and_si128 (mm_slli_epi32 (inp ! 10) (28 - 16)) mask),
     mm_or_si128 (mm_srli_epi32 (inp ! 10) 16) (mm_and_si128 (mm_slli_epi32 (inp ! 11) (28 - 12)) mask),
     mm_or_si128 (mm_srli_epi32 (inp ! 11) 12) (mm_and_si128 (mm_slli_epi32 (inp ! 12) (28 - 8)) mask),
     mm_or_si128 (mm_srli_epi32 (inp ! 12) 8) (mm_and_si128 (mm_slli_epi32 (inp ! 13) (28 - 4)) mask),
     mm_srli_epi32 (inp ! 13) 4, mm_and_si128 (inp ! 14) mask,
     mm_or_si128 (mm_srli_epi32 (inp ! 14) 28) (mm_and_si128 (mm_slli_epi32 (inp ! 15) (28 - 24)) mask),
     mm_or_si128 (mm_srli_epi32 (inp ! 15) 24) (mm_and_si128 (mm_slli_epi32 (inp ! 16) (28 - 20)) mask),
     mm_or_si128 (mm_srli_epi32 (inp ! 16) 20) (mm_and_si128 (mm_slli_epi32 (inp ! 17) (28 - 16)) mask),
     mm_or_si128 (mm_srli_epi32 (inp ! 17) 16) (mm_and_si128 (mm_slli_epi32 (inp ! 18) (28 - 12)) mask),
     mm_or_si128 (mm_srli_epi32 (inp ! 18) 12) (mm_and_si128 (mm_slli_epi32 (inp ! 19) (28 - 8)) mask),
     mm_or_si128 (mm_srli_epi32 (inp ! 19) 8) (mm_and_si128 (mm_slli_epi32 (inp ! 20) (28 - 4)) mask),
     mm_srli_epi32 (inp ! 20) 4, mm_and_si128 (inp ! 21) mask,
     mm_or_si128 (mm_srli_epi32 (inp ! 21) 28) (mm_and_si128 (mm_slli_epi32 (inp ! 22) (28 - 24)) mask),
     mm_or_si128 (mm_srli_epi32 (inp ! 22) 24) (mm_and_si128 (mm_slli_epi32 (inp ! 23) (28 - 20)) mask),
     mm_or_si128 (mm_srli_epi32 (inp ! 23) 20) (mm_and_si128 (mm_slli_epi32 (inp ! 24) (28 - 16)) mask),
     mm_or_si128 (mm_srli_epi32 (inp ! 24) 16) (mm_and_si128 (mm_slli_epi32 (inp ! 25) (28 - 12)) mask),
     mm_or_si128 (mm_srli_epi32 (inp ! 25) 12) (mm_and_si128 (mm_slli_epi32 (inp ! 26) (28 - 8)) mask),
     mm_or_si128 (mm_srli_epi32 (inp ! 26) 8) (mm_and_si128 (mm_slli_epi32 (inp ! 27) (28 - 4)) mask),
     mm_srli_epi32 (inp ! 27) 4])"

definition SIMD_fastunpack29 :: "m128i list \<Rightarrow> m128i list" where
  "SIMD_fastunpack29 inp =
    (let mask = low_mask 29 in
    [mm_and_si128 (inp ! 0) mask,
     mm_or_si128 (mm_srli_epi32 (inp ! 0) 29) (mm_and_si128 (mm_slli_epi32 (inp ! 1) (29 - 26)) mask),
     mm_or_si128 (mm_srli_epi32 (inp ! 1) 26) (mm_and_si128 (mm_slli_epi32 (inp ! 2) (29 - 23)) mask),
     mm_or_si128 (mm_srli_epi32 (inp ! 2) 23) (mm_and_si128 (mm_slli_epi32 (inp ! 3) (29 - 20)) mask),
     mm_or_si128 (mm_srli_epi32 (inp ! 3) 20) (mm_and_si128 (mm_slli_epi32 (inp ! 4) (29 - 17)) mask),
     mm_or_si128 (mm_srli_epi32 (inp ! 4) 17) (mm_and_si128 (mm_slli_epi32 (inp ! 5) (29 - 14)) mask),
     mm_or_si128 (mm_srli_epi32 (inp ! 5) 14) (mm_and_si128 (mm_slli_epi32 (inp ! 6) (29 - 11)) mask),
     mm_or_si128 (mm_srli_epi32 (inp ! 6) 11) (mm_and_si128 (mm_slli_epi32 (inp ! 7) (29 - 8)) mask),
     mm_or_si128 (mm_srli_epi32 (inp ! 7) 8) (mm_and_si128 (mm_slli_epi32 (inp ! 8) (29 - 5)) mask),
     mm_or_si128 (mm_srli_epi32 (inp ! 8) 5) (mm_and_si128 (mm_slli_epi32 (inp ! 9) (29 - 2)) mask),
     mm_and_si128 (mm_srli_epi32 (inp ! 9) 2) mask,
     mm_or_si128 (mm_srli_epi32 (inp ! 9) 31) (mm_and_si128 (mm_slli_epi32 (inp ! 10) (29 - 28)) mask),
     mm_or_si128 (mm_srli_epi32 (inp ! 10) 28) (mm_and_si128 (mm_slli_epi32 (inp ! 11) (29 - 25)) mask),
     mm_or_si128 (mm_srli_epi32 (inp ! 11) 25) (mm_and_si128 (mm_slli_epi32 (inp ! 12) (29 - 22)) mask),
     mm_or_si128 (mm_srli_epi32 (inp ! 12) 22) (mm_and_si128 (mm_slli_epi32 (inp ! 13) (29 - 19)) mask),
     mm_or_si128 (mm_srli_epi32 (inp ! 13) 19) (mm_and_si128 (mm_slli_epi32 (inp ! 14) (29 - 16)) mask),
     mm_or_si128 (mm_srli_epi32 (inp ! 14) 16) (mm_and_si128 (mm_slli_epi32 (inp ! 15) (29 - 13)) mask),
     mm_or_si128 (mm_srli_epi32 (inp ! 15) 13) (mm_and_si128 (mm_slli_epi32 (inp ! 16) (29 - 10)) mask),
     mm_or_si128 (mm_srli_epi32 (inp ! 16) 10) (mm_and_si128 (mm_slli_epi32 (inp ! 17) (29 - 7)) mask),
     mm_or_si128 (mm_srli_epi32 (inp ! 17) 7) (mm_and_si128 (mm_slli_epi32 (inp ! 18) (29 - 4)) mask),
     mm_or_si128 (mm_srli_epi32 (inp ! 18) 4) (mm_and_si128 (mm_slli_epi32 (inp ! 19) (29 - 1)) mask),
     mm_and_si128 (mm_srli_epi32 (inp ! 19) 1) mask,
     mm_or_si128 (mm_srli_epi32 (inp ! 19) 30) (mm_and_si128 (mm_slli_epi32 (inp ! 20) (29 - 27)) mask),
     mm_or_si128 (mm_srli_epi32 (inp ! 20) 27) (mm_and_si128 (mm_slli_epi32 (inp ! 21) (29 - 24)) mask),
     mm_or_si128 (mm_srli_epi32 (inp ! 21) 24) (mm_and_si128 (mm_slli_epi32 (inp ! 22) (29 - 21)) mask),
     mm_or_si128 (mm_srli_epi32 (inp ! 22) 21) (mm_and_si128 (mm_slli_epi32 (inp ! 23) (29 - 18)) mask),
     mm_or_si128 (mm_srli_epi32 (inp ! 23) 18) (mm_and_si128 (mm_slli_epi32 (inp ! 24) (29 - 15)) mask),
     mm_or_si128 (mm_srli_epi32 (inp ! 24) 15) (mm_and_si128 (mm_slli_epi32 (inp ! 25) (29 - 12)) mask),
     mm_or_si128 (mm_srli_epi32 (inp ! 25) 12) (mm_and_si128 (mm_slli_epi32 (inp ! 26) (29 - 9)) mask),
     mm_or_si128 (mm_srli_epi32 (inp ! 26) 9) (mm_and_si128 (mm_slli_epi32 (inp ! 27) (29 - 6)) mask),
     mm_or_si128 (mm_srli_epi32 (inp ! 27) 6) (mm_and_si128 (mm_slli_epi32 (inp ! 28) (29 - 3)) mask),
     mm_srli_epi32 (inp ! 28) 3])"

definition SIMD_fastunpack30 :: "m128i list \<Rightarrow> m128i list" where
  "SIMD_fastunpack30 inp =
    (let mask = low_mask 30 in
    [mm_and_si128 (inp ! 0) mask,
     mm_or_si128 (mm_srli_epi32 (inp ! 0) 30) (mm_and_si128 (mm_slli_epi32 (inp ! 1) (30 - 28)) mask),
     mm_or_si128 (mm_srli_epi32 (inp ! 1) 28) (mm_and_si128 (mm_slli_epi32 (inp ! 2) (30 - 26)) mask),
     mm_or_si128 (mm_srli_epi32 (inp ! 2) 26) (mm_and_si128 (mm_slli_epi32 (inp ! 3) (30 - 24)) mask),
     mm_or_si128 (mm_srli_epi32 (inp ! 3) 24) (mm_and_si128 (mm_slli_epi32 (inp ! 4) (30 - 22)) mask),
     mm_or_si128 (mm_srli_epi32 (inp ! 4) 22) (mm_and_si128 (mm_slli_epi32 (inp ! 5) (30 - 20)) mask),
     mm_or_si128 (mm_srli_epi32 (inp ! 5) 20) (mm_and_si128 (mm_slli_epi32 (inp ! 6) (30 - 18)) mask),
     mm_or_si128 (mm_srli_epi32 (inp ! 6) 18) (mm_and_si128 (mm_slli_epi32 (inp ! 7) (30 - 16)) mask),
     mm_or_si128 (mm_srli_epi32 (inp ! 7) 16) (mm_and_si128 (mm_slli_epi32 (inp ! 8) (30 - 14)) mask),
     mm_or_si128 (mm_srli_epi32 (inp ! 8) 14) (mm_and_si128 (mm_slli_epi32 (inp ! 9) (30 - 12)) mask),
     mm_or_si128 (mm_srli_epi32 (inp ! 9) 12) (mm_and_si128 (mm_slli_epi32 (inp ! 10) (30 - 10)) mask),
     mm_or_si128 (mm_srli_epi32 (inp ! 10) 10) (mm_and_si128 (mm_slli_epi32 (inp ! 11) (30 - 8)) mask),
     mm_or_si128 (mm_srli_epi32 (inp ! 11) 8) (mm_and_si128 (mm_slli_epi32 (inp ! 12) (30 - 6)) mask),
     mm_or_si128 (mm_srli_epi32 (inp ! 12) 6) (mm_and_si128 (mm_slli_epi32 (inp ! 13) (30 - 4)) mask),
     mm_or_si128 (mm_srli_epi32 (inp ! 13) 4) (mm_and_si128 (mm_slli_epi32 (inp ! 14) (30 - 2)) mask),
     mm_srli_epi32 (inp ! 14) 2, mm_and_si128 (inp ! 15) mask,
     mm_or_si128 (mm_srli_epi32 (inp ! 15) 30) (mm_and_si128 (mm_slli_epi32 (inp ! 16) (30 - 28)) mask),
     mm_or_si128 (mm_srli_epi32 (inp ! 16) 28) (mm_and_si128 (mm_slli_epi32 (inp ! 17) (30 - 26)) mask),
     mm_or_si128 (mm_srli_epi32 (inp ! 17) 26) (mm_and_si128 (mm_slli_epi32 (inp ! 18) (30 - 24)) mask),
     mm_or_si128 (mm_srli_epi32 (inp ! 18) 24) (mm_and_si128 (mm_slli_epi32 (inp ! 19) (30 - 22)) mask),
     mm_or_si128 (mm_srli_epi32 (inp ! 19) 22) (mm_and_si128 (mm_slli_epi32 (inp ! 20) (30 - 20)) mask),
     mm_or_si128 (mm_srli_epi32 (inp ! 20) 20) (mm_and_si128 (mm_slli_epi32 (inp ! 21) (30 - 18)) mask),
     mm_or_si128 (mm_srli_epi32 (inp ! 21) 18) (mm_and_si128 (mm_slli_epi32 (inp ! 22) (30 - 16)) mask),
     mm_or_si128 (mm_srli_epi32 (inp ! 22) 16) (mm_and_si128 (mm_slli_epi32 (inp ! 23) (30 - 14)) mask),
     mm_or_si128 (mm_srli_epi32 (inp ! 23) 14) (mm_and_si128 (mm_slli_epi32 (inp ! 24) (30 - 12)) mask),
     mm_or_si128 (mm_srli_epi32 (inp ! 24) 12) (mm_and_si128 (mm_slli_epi32 (inp ! 25) (30 - 10)) mask),
     mm_or_si128 (mm_srli_epi32 (inp ! 25) 10) (mm_and_si128 (mm_slli_epi32 (inp ! 26) (30 - 8)) mask),
     mm_or_si128 (mm_srli_epi32 (inp ! 26) 8) (mm_and_si128 (mm_slli_epi32 (inp ! 27) (30 - 6)) mask),
     mm_or_si128 (mm_srli_epi32 (inp ! 27) 6) (mm_and_si128 (mm_slli_epi32 (inp ! 28) (30 - 4)) mask),
     mm_or_si128 (mm_srli_epi32 (inp ! 28) 4) (mm_and_si128 (mm_slli_epi32 (inp ! 29) (30 - 2)) mask),
     mm_srli_epi32 (inp ! 29) 2])"

definition SIMD_fastunpack31 :: "m128i list \<Rightarrow> m128i list" where
  "SIMD_fastunpack31 inp =
    (let mask = low_mask 31 in
    [mm_and_si128 (inp ! 0) mask,
     mm_or_si128 (mm_srli_epi32 (inp ! 0) 31) (mm_and_si128 (mm_slli_epi32 (inp ! 1) (31 - 30)) mask),
     mm_or_si128 (mm_srli_epi32 (inp ! 1) 30) (mm_and_si128 (mm_slli_epi32 (inp ! 2) (31 - 29)) mask),
     mm_or_si128 (mm_srli_epi32 (inp ! 2) 29) (mm_and_si128 (mm_slli_epi32 (inp ! 3) (31 - 28)) mask),
     mm_or_si128 (mm_srli_epi32 (inp ! 3) 28) (mm_and_si128 (mm_slli_epi32 (inp ! 4) (31 - 27)) mask),
     mm_or_si128 (mm_srli_epi32 (inp ! 4) 27) (mm_and_si128 (mm_slli_epi32 (inp ! 5) (31 - 26)) mask),
     mm_or_si128 (mm_srli_epi32 (inp ! 5) 26) (mm_and_si128 (mm_slli_epi32 (inp ! 6) (31 - 25)) mask),
     mm_or_si128 (mm_srli_epi32 (inp ! 6) 25) (mm_and_si128 (mm_slli_epi32 (inp ! 7) (31 - 24)) mask),
     mm_or_si128 (mm_srli_epi32 (inp ! 7) 24) (mm_and_si128 (mm_slli_epi32 (inp ! 8) (31 - 23)) mask),
     mm_or_si128 (mm_srli_epi32 (inp ! 8) 23) (mm_and_si128 (mm_slli_epi32 (inp ! 9) (31 - 22)) mask),
     mm_or_si128 (mm_srli_epi32 (inp ! 9) 22) (mm_and_si128 (mm_slli_epi32 (inp ! 10) (31 - 21)) mask),
     mm_or_si128 (mm_srli_epi32 (inp ! 10) 21) (mm_and_si128 (mm_slli_epi32 (inp ! 11) (31 - 20)) mask),
     mm_or_si128 (mm_srli_epi32 (inp ! 11) 20) (mm_and_si128 (mm_slli_epi32 (inp ! 12) (31 - 19)) mask),
     mm_or_si128 (mm_srli_epi32 (inp ! 12) 19) (mm_and_si128 (mm_slli_epi32 (inp ! 13) (31 - 18)) mask),
     mm_or_si128 (mm_srli_epi32 (inp ! 13) 18) (mm_and_si128 (mm_slli_epi32 (inp ! 14) (31 - 17)) mask),
     mm_or_si128 (mm_srli_epi32 (inp ! 14) 17) (mm_and_si128 (mm_slli_epi32 (inp ! 15) (31 - 16)) mask),
     mm_or_si128 (mm_srli_epi32 (inp ! 15) 16) (mm_and_si128 (mm_slli_epi32 (inp ! 16) (31 - 15)) mask),
     mm_or_si128 (mm_srli_epi32 (inp ! 16) 15) (mm_and_si128 (mm_slli_epi32 (inp ! 17) (31 - 14)) mask),
     mm_or_si128 (mm_srli_epi32 (inp ! 17) 14) (mm_and_si128 (mm_slli_epi32 (inp ! 18) (31 - 13)) mask),
     mm_or_si128 (mm_srli_epi32 (inp ! 18) 13) (mm_and_si128 (mm_slli_epi32 (inp ! 19) (31 - 12)) mask),
     mm_or_si128 (mm_srli_epi32 (inp ! 19) 12) (mm_and_si128 (mm_slli_epi32 (inp ! 20) (31 - 11)) mask),
     mm_or_si128 (mm_srli_epi32 (inp ! 20) 11) (mm_and_si128 (mm_slli_epi32 (inp ! 21) (31 - 10)) mask),
     mm_or_si128 (mm_srli_epi32 (inp ! 21) 10) (mm_and_si128 (mm_slli_epi32 (inp ! 22) (31 - 9)) mask),
     mm_or_si128 (mm_srli_epi32 (inp ! 22) 9) (mm_and_si128 (mm_slli_epi32 (inp ! 23) (31 - 8)) mask),
     mm_or_si128 (mm_srli_epi32 (inp ! 23) 8) (mm_and_si128 (mm_slli_epi32 (inp ! 24) (31 - 7)) mask),
     mm_or_si128 (mm_srli_epi32 (inp ! 24) 7) (mm_and_si128 (mm_slli_epi32 (inp ! 25) (31 - 6)) mask),
     mm_or_si128 (mm_srli_epi32 (inp ! 25) 6) (mm_and_si128 (mm_slli_epi32 (inp ! 26) (31 - 5)) mask),
     mm_or_si128 (mm_srli_epi32 (inp ! 26) 5) (mm_and_si128 (mm_slli_epi32 (inp ! 27) (31 - 4)) mask),
     mm_or_si128 (mm_srli_epi32 (inp ! 27) 4) (mm_and_si128 (mm_slli_epi32 (inp ! 28) (31 - 3)) mask),
     mm_or_si128 (mm_srli_epi32 (inp ! 28) 3) (mm_and_si128 (mm_slli_epi32 (inp ! 29) (31 - 2)) mask),
     mm_or_si128 (mm_srli_epi32 (inp ! 29) 2) (mm_and_si128 (mm_slli_epi32 (inp ! 30) (31 - 1)) mask),
     mm_srli_epi32 (inp ! 30) 1])"

definition SIMD_fastunpack32 :: "m128i list \<Rightarrow> m128i list" where
  "SIMD_fastunpack32 inp =
    map (\<lambda>outer. inp ! outer) [0..<32]"

section \<open>Every routine unpacks the four lanes\<close>

lemma SIMD_nullunpacker32_unpacks: "unpacks 0 SIMD_nullunpacker32"
proof -
  have "unpack_ref 0 [] = replicate 32 0"
    by (rule nth_equalityI) (simp_all add: unpack_ref_def field_def Let_def)
  then show ?thesis by (simp add: unpacks_def SIMD_nullunpacker32_def lane_simps)
qed

lemma SIMD_fastunpack1_unpacks: "unpacks 1 SIMD_fastunpack1"
  by (rule unpacks_vunpack) (simp_all add: SIMD_fastunpack1_def vunpack_simps del: One_nat_def add_Suc_right flip: numeral_2_eq_2)

lemma SIMD_fastunpack2_unpacks: "unpacks 2 SIMD_fastunpack2"
  by (rule unpacks_vunpack) (simp_all add: SIMD_fastunpack2_def vunpack_simps del: One_nat_def add_Suc_right flip: numeral_2_eq_2)

lemma SIMD_fastunpack3_unpacks: "unpacks 3 SIMD_fastunpack3"
  by (rule unpacks_vunpack) (simp_all add: SIMD_fastunpack3_def vunpack_simps del: One_nat_def add_Suc_right flip: numeral_2_eq_2)

lemma SIMD_fastunpack4_unpacks: "unpacks 4 SIMD_fastunpack4"
  by (rule unpacks_vunpack) (simp_all add: SIMD_fastunpack4_def vunpack_simps del: One_nat_def add_Suc_right flip: numeral_2_eq_2)

lemma SIMD_fastunpack5_unpacks: "unpacks 5 SIMD_fastunpack5"
  by (rule unpacks_vunpack) (simp_all add: SIMD_fastunpack5_def vunpack_simps del: One_nat_def add_Suc_right flip: numeral_2_eq_2)

lemma SIMD_fastunpack6_unpacks: "unpacks 6 SIMD_fastunpack6"
  by (rule unpacks_vunpack) (simp_all add: SIMD_fastunpack6_def vunpack_simps del: One_nat_def add_Suc_right flip: numeral_2_eq_2)

lemma SIMD_fastunpack7_unpacks: "unpacks 7 SIMD_fastunpack7"
  by (rule unpacks_vunpack) (simp_all add: SIMD_fastunpack7_def vunpack_simps del: One_nat_def add_Suc_right flip: numeral_2_eq_2)

lemma SIMD_fastunpack8_unpacks: "unpacks 8 SIMD_fastunpack8"
  by (rule unpacks_vunpack) (simp_all add: SIMD_fastunpack8_def vunpack_simps del: One_nat_def add_Suc_right flip: numeral_2_eq_2)

lemma SIMD_fastunpack9_unpacks: "unpacks 9 SIMD_fastunpack9"
  by (rule unpacks_vunpack) (simp_all add: SIMD_fastunpack9_def vunpack_simps del: One_nat_def add_Suc_right flip: numeral_2_eq_2)

lemma SIMD_fastunpack10_unpacks: "unpacks 10 SIMD_fastunpack10"
  by (rule unpacks_vunpack) (simp_all add: SIMD_fastunpack10_def vunpack_simps del: One_nat_def add_Suc_right flip: numeral_2_eq_2)

lemma SIMD_fastunpack11_unpacks: "unpacks 11 SIMD_fastunpack11"
  by (rule unpacks_vunpack) (simp_all add: SIMD_fastunpack11_def vunpack_simps del: One_nat_def add_Suc_right flip: numeral_2_eq_2)

lemma SIMD_fastunpack12_unpacks: "unpacks 12 SIMD_fastunpack12"
  by (rule unpacks_vunpack) (simp_all add: SIMD_fastunpack12_def vunpack_simps del: One_nat_def add_Suc_right flip: numeral_2_eq_2)

lemma SIMD_fastunpack13_unpacks: "unpacks 13 SIMD_fastunpack13"
  by (rule unpacks_vunpack) (simp_all add: SIMD_fastunpack13_def vunpack_simps del: One_nat_def add_Suc_right flip: numeral_2_eq_2)

lemma SIMD_fastunpack14_unpacks: "unpacks 14 SIMD_fastunpack14"
  by (rule unpacks_vunpack) (simp_all add: SIMD_fastunpack14_def vunpack_simps del: One_nat_def add_Suc_right flip: numeral_2_eq_2)

lemma SIMD_fastunpack15_unpacks: "unpacks 15 SIMD_fastunpack15"
  by (rule unpacks_vunpack) (simp_all add: SIMD_fastunpack15_def vunpack_simps del: One_nat_def add_Suc_right flip: numeral_2_eq_2)

lemma SIMD_fastunpack16_unpacks: "unpacks 16 SIMD_fastunpack16"
  by (rule unpacks_vunpack) (simp_all add: SIMD_fastunpack16_def vunpack_simps del: One_nat_def add_Suc_right flip: numeral_2_eq_2)

lemma SIMD_fastunpack17_unpacks: "unpacks 17 SIMD_fastunpack17"
  by (rule unpacks_vunpack) (simp_all add: SIMD_fastunpack17_def vunpack_simps del: One_nat_def add_Suc_right flip: numeral_2_eq_2)

lemma SIMD_fastunpack18_unpacks: "unpacks 18 SIMD_fastunpack18"
  by (rule unpacks_vunpack) (simp_all add: SIMD_fastunpack18_def vunpack_simps del: One_nat_def add_Suc_right flip: numeral_2_eq_2)

lemma SIMD_fastunpack19_unpacks: "unpacks 19 SIMD_fastunpack19"
  by (rule unpacks_vunpack) (simp_all add: SIMD_fastunpack19_def vunpack_simps del: One_nat_def add_Suc_right flip: numeral_2_eq_2)

lemma SIMD_fastunpack20_unpacks: "unpacks 20 SIMD_fastunpack20"
  by (rule unpacks_vunpack) (simp_all add: SIMD_fastunpack20_def vunpack_simps del: One_nat_def add_Suc_right flip: numeral_2_eq_2)

lemma SIMD_fastunpack21_unpacks: "unpacks 21 SIMD_fastunpack21"
  by (rule unpacks_vunpack) (simp_all add: SIMD_fastunpack21_def vunpack_simps del: One_nat_def add_Suc_right flip: numeral_2_eq_2)

lemma SIMD_fastunpack22_unpacks: "unpacks 22 SIMD_fastunpack22"
  by (rule unpacks_vunpack) (simp_all add: SIMD_fastunpack22_def vunpack_simps del: One_nat_def add_Suc_right flip: numeral_2_eq_2)

lemma SIMD_fastunpack23_unpacks: "unpacks 23 SIMD_fastunpack23"
  by (rule unpacks_vunpack) (simp_all add: SIMD_fastunpack23_def vunpack_simps del: One_nat_def add_Suc_right flip: numeral_2_eq_2)

lemma SIMD_fastunpack24_unpacks: "unpacks 24 SIMD_fastunpack24"
  by (rule unpacks_vunpack) (simp_all add: SIMD_fastunpack24_def vunpack_simps del: One_nat_def add_Suc_right flip: numeral_2_eq_2)

lemma SIMD_fastunpack25_unpacks: "unpacks 25 SIMD_fastunpack25"
  by (rule unpacks_vunpack) (simp_all add: SIMD_fastunpack25_def vunpack_simps del: One_nat_def add_Suc_right flip: numeral_2_eq_2)

lemma SIMD_fastunpack26_unpacks: "unpacks 26 SIMD_fastunpack26"
  by (rule unpacks_vunpack) (simp_all add: SIMD_fastunpack26_def vunpack_simps del: One_nat_def add_Suc_right flip: numeral_2_eq_2)

lemma SIMD_fastunpack27_unpacks: "unpacks 27 SIMD_fastunpack27"
  by (rule unpacks_vunpack) (simp_all add: SIMD_fastunpack27_def vunpack_simps del: One_nat_def add_Suc_right flip: numeral_2_eq_2)

lemma SIMD_fastunpack28_unpacks: "unpacks 28 SIMD_fastunpack28"
  by (rule unpacks_vunpack) (simp_all add: SIMD_fastunpack28_def vunpack_simps del: One_nat_def add_Suc_right flip: numeral_2_eq_2)

lemma SIMD_fastunpack29_unpacks: "unpacks 29 SIMD_fastunpack29"
  by (rule unpacks_vunpack) (simp_all add: SIMD_fastunpack29_def vunpack_simps del: One_nat_def add_Suc_right flip: numeral_2_eq_2)

lemma SIMD_fastunpack30_unpacks: "unpacks 30 SIMD_fastunpack30"
  by (rule unpacks_vunpack) (simp_all add: SIMD_fastunpack30_def vunpack_simps del: One_nat_def add_Suc_right flip: numeral_2_eq_2)

lemma SIMD_fastunpack31_unpacks: "unpacks 31 SIMD_fastunpack31"
  by (rule unpacks_vunpack) (simp_all add: SIMD_fastunpack31_def vunpack_simps del: One_nat_def add_Suc_right flip: numeral_2_eq_2)

lemma SIMD_fastunpack32_unpacks: "unpacks 32 SIMD_fastunpack32"
  by (rule unpacks_vunpack) (simp_all add: SIMD_fastunpack32_def vunpack_simps del: One_nat_def add_Suc_right flip: numeral_2_eq_2)

text \<open>The dispatch array \<open>unpack\<close> of \<open>simdbitpackinghelpers.h\<close>.\<close>

definition SIMD_unpack_table :: "(m128i list \<Rightarrow> m128i list) list" where
  "SIMD_unpack_table =
    [SIMD_nullunpacker32, SIMD_fastunpack1, SIMD_fastunpack2, SIMD_fastunpack3, SIMD_fastunpack4,
     SIMD_fastunpack5, SIMD_fastunpack6, SIMD_fastunpack7, SIMD_fastunpack8, SIMD_fastunpack9,
     SIMD_fastunpack10, SIMD_fastunpack11, SIMD_fastunpack12, SIMD_fastunpack13, SIMD_fastunpack14,
     SIMD_fastunpack15, SIMD_fastunpack16, SIMD_fastunpack17, SIMD_fastunpack18, SIMD_fastunpack19,
     SIMD_fastunpack20, SIMD_fastunpack21, SIMD_fastunpack22, SIMD_fastunpack23, SIMD_fastunpack24,
     SIMD_fastunpack25, SIMD_fastunpack26, SIMD_fastunpack27, SIMD_fastunpack28, SIMD_fastunpack29,
     SIMD_fastunpack30, SIMD_fastunpack31, SIMD_fastunpack32]"

lemmas SIMD_unpacks =
  SIMD_nullunpacker32_unpacks SIMD_fastunpack1_unpacks SIMD_fastunpack2_unpacks SIMD_fastunpack3_unpacks
  SIMD_fastunpack4_unpacks SIMD_fastunpack5_unpacks SIMD_fastunpack6_unpacks SIMD_fastunpack7_unpacks
  SIMD_fastunpack8_unpacks SIMD_fastunpack9_unpacks SIMD_fastunpack10_unpacks SIMD_fastunpack11_unpacks
  SIMD_fastunpack12_unpacks SIMD_fastunpack13_unpacks SIMD_fastunpack14_unpacks SIMD_fastunpack15_unpacks
  SIMD_fastunpack16_unpacks SIMD_fastunpack17_unpacks SIMD_fastunpack18_unpacks SIMD_fastunpack19_unpacks
  SIMD_fastunpack20_unpacks SIMD_fastunpack21_unpacks SIMD_fastunpack22_unpacks SIMD_fastunpack23_unpacks
  SIMD_fastunpack24_unpacks SIMD_fastunpack25_unpacks SIMD_fastunpack26_unpacks SIMD_fastunpack27_unpacks
  SIMD_fastunpack28_unpacks SIMD_fastunpack29_unpacks SIMD_fastunpack30_unpacks SIMD_fastunpack31_unpacks
  SIMD_fastunpack32_unpacks

lemma SIMD_unpack_table_unpacks: "list_all2 unpacks [0..<33] SIMD_unpack_table"
  by (simp add: SIMD_unpack_table_def upt_step SIMD_unpacks del: One_nat_def add_Suc_right)

end
