(* ===== verification/SIMD_Integrated.thy ===== *)
theory SIMD_Integrated
  imports SIMD_Pack SIMD_Unpack
begin

text \<open>
  The unrolled routines \<open>ipackwithoutmask0\<close> to \<open>ipackwithoutmask32\<close>, \<open>ipack0\<close> to \<open>ipack32\<close> and
  \<open>iunpack0\<close> to \<open>iunpack32\<close> of \<open>source/util/compression/simd-compression/simdintegratedbitpacking.cpp\<close>. They
  take the differences of the vectors while they pack, and sum them up while they unpack; the template parameter
  \<open>DeltaHelper\<close> is the pair of functions \<open>Delta\<close> and \<open>PrefixSum\<close>. In a packer \<open>d\<close> lists what \<open>InReg\<close> holds
  after each load. An unpacker gives the vectors it stores; it returns the last of them.
\<close>

section \<open>The packers\<close>

definition ipackwithoutmask0 :: "(m128i \<Rightarrow> m128i \<Rightarrow> m128i) \<Rightarrow> m128i \<Rightarrow> m128i list \<Rightarrow> m128i list" where
  "ipackwithoutmask0 Delta initOffset inp =
    []"

definition ipackwithoutmask1 :: "(m128i \<Rightarrow> m128i \<Rightarrow> m128i) \<Rightarrow> m128i \<Rightarrow> m128i list \<Rightarrow> m128i list" where
  "ipackwithoutmask1 Delta initOffset inp =
    (let d = deltas Delta initOffset inp in
    [accum128 (d ! 0)
       [mm_slli_epi32 (d ! 1) 1, mm_slli_epi32 (d ! 2) 2, mm_slli_epi32 (d ! 3) 3,
        mm_slli_epi32 (d ! 4) 4, mm_slli_epi32 (d ! 5) 5, mm_slli_epi32 (d ! 6) 6,
        mm_slli_epi32 (d ! 7) 7, mm_slli_epi32 (d ! 8) 8, mm_slli_epi32 (d ! 9) 9,
        mm_slli_epi32 (d ! 10) 10, mm_slli_epi32 (d ! 11) 11, mm_slli_epi32 (d ! 12) 12,
        mm_slli_epi32 (d ! 13) 13, mm_slli_epi32 (d ! 14) 14, mm_slli_epi32 (d ! 15) 15,
        mm_slli_epi32 (d ! 16) 16, mm_slli_epi32 (d ! 17) 17, mm_slli_epi32 (d ! 18) 18,
        mm_slli_epi32 (d ! 19) 19, mm_slli_epi32 (d ! 20) 20, mm_slli_epi32 (d ! 21) 21,
        mm_slli_epi32 (d ! 22) 22, mm_slli_epi32 (d ! 23) 23, mm_slli_epi32 (d ! 24) 24,
        mm_slli_epi32 (d ! 25) 25, mm_slli_epi32 (d ! 26) 26, mm_slli_epi32 (d ! 27) 27,
        mm_slli_epi32 (d ! 28) 28, mm_slli_epi32 (d ! 29) 29, mm_slli_epi32 (d ! 30) 30,
        mm_slli_epi32 (d ! 31) 31]])"

definition ipackwithoutmask2 :: "(m128i \<Rightarrow> m128i \<Rightarrow> m128i) \<Rightarrow> m128i \<Rightarrow> m128i list \<Rightarrow> m128i list" where
  "ipackwithoutmask2 Delta initOffset inp =
    (let d = deltas Delta initOffset inp in
    [accum128 (d ! 0)
       [mm_slli_epi32 (d ! 1) 2, mm_slli_epi32 (d ! 2) 4, mm_slli_epi32 (d ! 3) 6,
        mm_slli_epi32 (d ! 4) 8, mm_slli_epi32 (d ! 5) 10, mm_slli_epi32 (d ! 6) 12,
        mm_slli_epi32 (d ! 7) 14, mm_slli_epi32 (d ! 8) 16, mm_slli_epi32 (d ! 9) 18,
        mm_slli_epi32 (d ! 10) 20, mm_slli_epi32 (d ! 11) 22, mm_slli_epi32 (d ! 12) 24,
        mm_slli_epi32 (d ! 13) 26, mm_slli_epi32 (d ! 14) 28, mm_slli_epi32 (d ! 15) 30],
     accum128 (d ! 16)
       [mm_slli_epi32 (d ! 17) 2, mm_slli_epi32 (d ! 18) 4, mm_slli_epi32 (d ! 19) 6,
        mm_slli_epi32 (d ! 20) 8, mm_slli_epi32 (d ! 21) 10, mm_slli_epi32 (d ! 22) 12,
        mm_slli_epi32 (d ! 23) 14, mm_slli_epi32 (d ! 24) 16, mm_slli_epi32 (d ! 25) 18,
        mm_slli_epi32 (d ! 26) 20, mm_slli_epi32 (d ! 27) 22, mm_slli_epi32 (d ! 28) 24,
        mm_slli_epi32 (d ! 29) 26, mm_slli_epi32 (d ! 30) 28, mm_slli_epi32 (d ! 31) 30]])"

definition ipackwithoutmask3 :: "(m128i \<Rightarrow> m128i \<Rightarrow> m128i) \<Rightarrow> m128i \<Rightarrow> m128i list \<Rightarrow> m128i list" where
  "ipackwithoutmask3 Delta initOffset inp =
    (let d = deltas Delta initOffset inp in
    [accum128 (d ! 0)
       [mm_slli_epi32 (d ! 1) 3, mm_slli_epi32 (d ! 2) 6, mm_slli_epi32 (d ! 3) 9,
        mm_slli_epi32 (d ! 4) 12, mm_slli_epi32 (d ! 5) 15, mm_slli_epi32 (d ! 6) 18,
        mm_slli_epi32 (d ! 7) 21, mm_slli_epi32 (d ! 8) 24, mm_slli_epi32 (d ! 9) 27,
        mm_slli_epi32 (d ! 10) 30],
     accum128 (mm_srli_epi32 (d ! 10) (3 - 1))
       [mm_slli_epi32 (d ! 11) 1, mm_slli_epi32 (d ! 12) 4, mm_slli_epi32 (d ! 13) 7,
        mm_slli_epi32 (d ! 14) 10, mm_slli_epi32 (d ! 15) 13, mm_slli_epi32 (d ! 16) 16,
        mm_slli_epi32 (d ! 17) 19, mm_slli_epi32 (d ! 18) 22, mm_slli_epi32 (d ! 19) 25,
        mm_slli_epi32 (d ! 20) 28, mm_slli_epi32 (d ! 21) 31],
     accum128 (mm_srli_epi32 (d ! 21) (3 - 2))
       [mm_slli_epi32 (d ! 22) 2, mm_slli_epi32 (d ! 23) 5, mm_slli_epi32 (d ! 24) 8,
        mm_slli_epi32 (d ! 25) 11, mm_slli_epi32 (d ! 26) 14, mm_slli_epi32 (d ! 27) 17,
        mm_slli_epi32 (d ! 28) 20, mm_slli_epi32 (d ! 29) 23, mm_slli_epi32 (d ! 30) 26,
        mm_slli_epi32 (d ! 31) 29]])"

definition ipackwithoutmask4 :: "(m128i \<Rightarrow> m128i \<Rightarrow> m128i) \<Rightarrow> m128i \<Rightarrow> m128i list \<Rightarrow> m128i list" where
  "ipackwithoutmask4 Delta initOffset inp =
    (let d = deltas Delta initOffset inp in
    [accum128 (d ! 0)
       [mm_slli_epi32 (d ! 1) 4, mm_slli_epi32 (d ! 2) 8, mm_slli_epi32 (d ! 3) 12,
        mm_slli_epi32 (d ! 4) 16, mm_slli_epi32 (d ! 5) 20, mm_slli_epi32 (d ! 6) 24,
        mm_slli_epi32 (d ! 7) 28],
     accum128 (d ! 8)
       [mm_slli_epi32 (d ! 9) 4, mm_slli_epi32 (d ! 10) 8, mm_slli_epi32 (d ! 11) 12,
        mm_slli_epi32 (d ! 12) 16, mm_slli_epi32 (d ! 13) 20, mm_slli_epi32 (d ! 14) 24,
        mm_slli_epi32 (d ! 15) 28],
     accum128 (d ! 16)
       [mm_slli_epi32 (d ! 17) 4, mm_slli_epi32 (d ! 18) 8, mm_slli_epi32 (d ! 19) 12,
        mm_slli_epi32 (d ! 20) 16, mm_slli_epi32 (d ! 21) 20, mm_slli_epi32 (d ! 22) 24,
        mm_slli_epi32 (d ! 23) 28],
     accum128 (d ! 24)
       [mm_slli_epi32 (d ! 25) 4, mm_slli_epi32 (d ! 26) 8, mm_slli_epi32 (d ! 27) 12,
        mm_slli_epi32 (d ! 28) 16, mm_slli_epi32 (d ! 29) 20, mm_slli_epi32 (d ! 30) 24,
        mm_slli_epi32 (d ! 31) 28]])"

definition ipackwithoutmask5 :: "(m128i \<Rightarrow> m128i \<Rightarrow> m128i) \<Rightarrow> m128i \<Rightarrow> m128i list \<Rightarrow> m128i list" where
  "ipackwithoutmask5 Delta initOffset inp =
    (let d = deltas Delta initOffset inp in
    [accum128 (d ! 0)
       [mm_slli_epi32 (d ! 1) 5, mm_slli_epi32 (d ! 2) 10, mm_slli_epi32 (d ! 3) 15,
        mm_slli_epi32 (d ! 4) 20, mm_slli_epi32 (d ! 5) 25, mm_slli_epi32 (d ! 6) 30],
     accum128 (mm_srli_epi32 (d ! 6) (5 - 3))
       [mm_slli_epi32 (d ! 7) 3, mm_slli_epi32 (d ! 8) 8, mm_slli_epi32 (d ! 9) 13,
        mm_slli_epi32 (d ! 10) 18, mm_slli_epi32 (d ! 11) 23, mm_slli_epi32 (d ! 12) 28],
     accum128 (mm_srli_epi32 (d ! 12) (5 - 1))
       [mm_slli_epi32 (d ! 13) 1, mm_slli_epi32 (d ! 14) 6, mm_slli_epi32 (d ! 15) 11,
        mm_slli_epi32 (d ! 16) 16, mm_slli_epi32 (d ! 17) 21, mm_slli_epi32 (d ! 18) 26,
        mm_slli_epi32 (d ! 19) 31],
     accum128 (mm_srli_epi32 (d ! 19) (5 - 4))
       [mm_slli_epi32 (d ! 20) 4, mm_slli_epi32 (d ! 21) 9, mm_slli_epi32 (d ! 22) 14,
        mm_slli_epi32 (d ! 23) 19, mm_slli_epi32 (d ! 24) 24, mm_slli_epi32 (d ! 25) 29],
     accum128 (mm_srli_epi32 (d ! 25) (5 - 2))
       [mm_slli_epi32 (d ! 26) 2, mm_slli_epi32 (d ! 27) 7, mm_slli_epi32 (d ! 28) 12,
        mm_slli_epi32 (d ! 29) 17, mm_slli_epi32 (d ! 30) 22, mm_slli_epi32 (d ! 31) 27]])"

definition ipackwithoutmask6 :: "(m128i \<Rightarrow> m128i \<Rightarrow> m128i) \<Rightarrow> m128i \<Rightarrow> m128i list \<Rightarrow> m128i list" where
  "ipackwithoutmask6 Delta initOffset inp =
    (let d = deltas Delta initOffset inp in
    [accum128 (d ! 0)
       [mm_slli_epi32 (d ! 1) 6, mm_slli_epi32 (d ! 2) 12, mm_slli_epi32 (d ! 3) 18,
        mm_slli_epi32 (d ! 4) 24, mm_slli_epi32 (d ! 5) 30],
     accum128 (mm_srli_epi32 (d ! 5) (6 - 4))
       [mm_slli_epi32 (d ! 6) 4, mm_slli_epi32 (d ! 7) 10, mm_slli_epi32 (d ! 8) 16,
        mm_slli_epi32 (d ! 9) 22, mm_slli_epi32 (d ! 10) 28],
     accum128 (mm_srli_epi32 (d ! 10) (6 - 2))
       [mm_slli_epi32 (d ! 11) 2, mm_slli_epi32 (d ! 12) 8, mm_slli_epi32 (d ! 13) 14,
        mm_slli_epi32 (d ! 14) 20, mm_slli_epi32 (d ! 15) 26],
     accum128 (d ! 16)
       [mm_slli_epi32 (d ! 17) 6, mm_slli_epi32 (d ! 18) 12, mm_slli_epi32 (d ! 19) 18,
        mm_slli_epi32 (d ! 20) 24, mm_slli_epi32 (d ! 21) 30],
     accum128 (mm_srli_epi32 (d ! 21) (6 - 4))
       [mm_slli_epi32 (d ! 22) 4, mm_slli_epi32 (d ! 23) 10, mm_slli_epi32 (d ! 24) 16,
        mm_slli_epi32 (d ! 25) 22, mm_slli_epi32 (d ! 26) 28],
     accum128 (mm_srli_epi32 (d ! 26) (6 - 2))
       [mm_slli_epi32 (d ! 27) 2, mm_slli_epi32 (d ! 28) 8, mm_slli_epi32 (d ! 29) 14,
        mm_slli_epi32 (d ! 30) 20, mm_slli_epi32 (d ! 31) 26]])"

definition ipackwithoutmask7 :: "(m128i \<Rightarrow> m128i \<Rightarrow> m128i) \<Rightarrow> m128i \<Rightarrow> m128i list \<Rightarrow> m128i list" where
  "ipackwithoutmask7 Delta initOffset inp =
    (let d = deltas Delta initOffset inp in
    [accum128 (d ! 0)
       [mm_slli_epi32 (d ! 1) 7, mm_slli_epi32 (d ! 2) 14, mm_slli_epi32 (d ! 3) 21,
        mm_slli_epi32 (d ! 4) 28],
     accum128 (mm_srli_epi32 (d ! 4) (7 - 3))
       [mm_slli_epi32 (d ! 5) 3, mm_slli_epi32 (d ! 6) 10, mm_slli_epi32 (d ! 7) 17,
        mm_slli_epi32 (d ! 8) 24, mm_slli_epi32 (d ! 9) 31],
     accum128 (mm_srli_epi32 (d ! 9) (7 - 6))
       [mm_slli_epi32 (d ! 10) 6, mm_slli_epi32 (d ! 11) 13, mm_slli_epi32 (d ! 12) 20,
        mm_slli_epi32 (d ! 13) 27],
     accum128 (mm_srli_epi32 (d ! 13) (7 - 2))
       [mm_slli_epi32 (d ! 14) 2, mm_slli_epi32 (d ! 15) 9, mm_slli_epi32 (d ! 16) 16,
        mm_slli_epi32 (d ! 17) 23, mm_slli_epi32 (d ! 18) 30],
     accum128 (mm_srli_epi32 (d ! 18) (7 - 5))
       [mm_slli_epi32 (d ! 19) 5, mm_slli_epi32 (d ! 20) 12, mm_slli_epi32 (d ! 21) 19,
        mm_slli_epi32 (d ! 22) 26],
     accum128 (mm_srli_epi32 (d ! 22) (7 - 1))
       [mm_slli_epi32 (d ! 23) 1, mm_slli_epi32 (d ! 24) 8, mm_slli_epi32 (d ! 25) 15,
        mm_slli_epi32 (d ! 26) 22, mm_slli_epi32 (d ! 27) 29],
     accum128 (mm_srli_epi32 (d ! 27) (7 - 4))
       [mm_slli_epi32 (d ! 28) 4, mm_slli_epi32 (d ! 29) 11, mm_slli_epi32 (d ! 30) 18,
        mm_slli_epi32 (d ! 31) 25]])"

definition ipackwithoutmask8 :: "(m128i \<Rightarrow> m128i \<Rightarrow> m128i) \<Rightarrow> m128i \<Rightarrow> m128i list \<Rightarrow> m128i list" where
  "ipackwithoutmask8 Delta initOffset inp =
    (let d = deltas Delta initOffset inp in
    [accum128 (d ! 0)
       [mm_slli_epi32 (d ! 1) 8, mm_slli_epi32 (d ! 2) 16, mm_slli_epi32 (d ! 3) 24],
     accum128 (d ! 4)
       [mm_slli_epi32 (d ! 5) 8, mm_slli_epi32 (d ! 6) 16, mm_slli_epi32 (d ! 7) 24],
     accum128 (d ! 8)
       [mm_slli_epi32 (d ! 9) 8, mm_slli_epi32 (d ! 10) 16, mm_slli_epi32 (d ! 11) 24],
     accum128 (d ! 12)
       [mm_slli_epi32 (d ! 13) 8, mm_slli_epi32 (d ! 14) 16, mm_slli_epi32 (d ! 15) 24],
     accum128 (d ! 16)
       [mm_slli_epi32 (d ! 17) 8, mm_slli_epi32 (d ! 18) 16, mm_slli_epi32 (d ! 19) 24],
     accum128 (d ! 20)
       [mm_slli_epi32 (d ! 21) 8, mm_slli_epi32 (d ! 22) 16, mm_slli_epi32 (d ! 23) 24],
     accum128 (d ! 24)
       [mm_slli_epi32 (d ! 25) 8, mm_slli_epi32 (d ! 26) 16, mm_slli_epi32 (d ! 27) 24],
     accum128 (d ! 28)
       [mm_slli_epi32 (d ! 29) 8, mm_slli_epi32 (d ! 30) 16, mm_slli_epi32 (d ! 31) 24]])"

definition ipackwithoutmask9 :: "(m128i \<Rightarrow> m128i \<Rightarrow> m128i) \<Rightarrow> m128i \<Rightarrow> m128i list \<Rightarrow> m128i list" where
  "ipackwithoutmask9 Delta initOffset inp =
    (let d = deltas Delta initOffset inp in
    [accum128 (d ! 0)
       [mm_slli_epi32 (d ! 1) 9, mm_slli_epi32 (d ! 2) 18, mm_slli_epi32 (d ! 3) 27],
     accum128 (mm_srli_epi32 (d ! 3) (9 - 4))
       [mm_slli_epi32 (d ! 4) 4, mm_slli_epi32 (d ! 5) 13, mm_slli_epi32 (d ! 6) 22,
        mm_slli_epi32 (d ! 7) 31],
     accum128 (mm_srli_epi32 (d ! 7) (9 - 8))
       [mm_slli_epi32 (d ! 8) 8, mm_slli_epi32 (d ! 9) 17, mm_slli_epi32 (d ! 10) 26],
     accum128 (mm_srli_epi32 (d ! 10) (9 - 3))
       [mm_slli_epi32 (d ! 11) 3, mm_slli_epi32 (d ! 12) 12, mm_slli_epi32 (d ! 13) 21,
        mm_slli_epi32 (d ! 14) 30],
     accum128 (mm_srli_epi32 (d ! 14) (9 - 7))
       [mm_slli_epi32 (d ! 15) 7, mm_slli_epi32 (d ! 16) 16, mm_slli_epi32 (d ! 17) 25],
     accum128 (mm_srli_epi32 (d ! 17) (9 - 2))
       [mm_slli_epi32 (d ! 18) 2, mm_slli_epi32 (d ! 19) 11, mm_slli_epi32 (d ! 20) 20,
        mm_slli_epi32 (d ! 21) 29],
     accum128 (mm_srli_epi32 (d ! 21) (9 - 6))
       [mm_slli_epi32 (d ! 22) 6, mm_slli_epi32 (d ! 23) 15, mm_slli_epi32 (d ! 24) 24],
     accum128 (mm_srli_epi32 (d ! 24) (9 - 1))
       [mm_slli_epi32 (d ! 25) 1, mm_slli_epi32 (d ! 26) 10, mm_slli_epi32 (d ! 27) 19,
        mm_slli_epi32 (d ! 28) 28],
     accum128 (mm_srli_epi32 (d ! 28) (9 - 5))
       [mm_slli_epi32 (d ! 29) 5, mm_slli_epi32 (d ! 30) 14, mm_slli_epi32 (d ! 31) 23]])"

definition ipackwithoutmask10 :: "(m128i \<Rightarrow> m128i \<Rightarrow> m128i) \<Rightarrow> m128i \<Rightarrow> m128i list \<Rightarrow> m128i list" where
  "ipackwithoutmask10 Delta initOffset inp =
    (let d = deltas Delta initOffset inp in
    [accum128 (d ! 0)
       [mm_slli_epi32 (d ! 1) 10, mm_slli_epi32 (d ! 2) 20, mm_slli_epi32 (d ! 3) 30],
     accum128 (mm_srli_epi32 (d ! 3) (10 - 8))
       [mm_slli_epi32 (d ! 4) 8, mm_slli_epi32 (d ! 5) 18, mm_slli_epi32 (d ! 6) 28],
     accum128 (mm_srli_epi32 (d ! 6) (10 - 6))
       [mm_slli_epi32 (d ! 7) 6, mm_slli_epi32 (d ! 8) 16, mm_slli_epi32 (d ! 9) 26],
     accum128 (mm_srli_epi32 (d ! 9) (10 - 4))
       [mm_slli_epi32 (d ! 10) 4, mm_slli_epi32 (d ! 11) 14, mm_slli_epi32 (d ! 12) 24],
     accum128 (mm_srli_epi32 (d ! 12) (10 - 2))
       [mm_slli_epi32 (d ! 13) 2, mm_slli_epi32 (d ! 14) 12, mm_slli_epi32 (d ! 15) 22],
     accum128 (d ! 16)
       [mm_slli_epi32 (d ! 17) 10, mm_slli_epi32 (d ! 18) 20, mm_slli_epi32 (d ! 19) 30],
     accum128 (mm_srli_epi32 (d ! 19) (10 - 8))
       [mm_slli_epi32 (d ! 20) 8, mm_slli_epi32 (d ! 21) 18, mm_slli_epi32 (d ! 22) 28],
     accum128 (mm_srli_epi32 (d ! 22) (10 - 6))
       [mm_slli_epi32 (d ! 23) 6, mm_slli_epi32 (d ! 24) 16, mm_slli_epi32 (d ! 25) 26],
     accum128 (mm_srli_epi32 (d ! 25) (10 - 4))
       [mm_slli_epi32 (d ! 26) 4, mm_slli_epi32 (d ! 27) 14, mm_slli_epi32 (d ! 28) 24],
     accum128 (mm_srli_epi32 (d ! 28) (10 - 2))
       [mm_slli_epi32 (d ! 29) 2, mm_slli_epi32 (d ! 30) 12, mm_slli_epi32 (d ! 31) 22]])"

definition ipackwithoutmask11 :: "(m128i \<Rightarrow> m128i \<Rightarrow> m128i) \<Rightarrow> m128i \<Rightarrow> m128i list \<Rightarrow> m128i list" where
  "ipackwithoutmask11 Delta initOffset inp =
    (let d = deltas Delta initOffset inp in
    [accum128 (d ! 0)
       [mm_slli_epi32 (d ! 1) 11, mm_slli_epi32 (d ! 2) 22],
     accum128 (mm_srli_epi32 (d ! 2) (11 - 1))
       [mm_slli_epi32 (d ! 3) 1, mm_slli_epi32 (d ! 4) 12, mm_slli_epi32 (d ! 5) 23],
     accum128 (mm_srli_epi32 (d ! 5) (11 - 2))
       [mm_slli_epi32 (d ! 6) 2, mm_slli_epi32 (d ! 7) 13, mm_slli_epi32 (d ! 8) 24],
     accum128 (mm_srli_epi32 (d ! 8) (11 - 3))
       [mm_slli_epi32 (d ! 9) 3, mm_slli_epi32 (d ! 10) 14, mm_slli_epi32 (d ! 11) 25],
     accum128 (mm_srli_epi32 (d ! 11) (11 - 4))
       [mm_slli_epi32 (d ! 12) 4, mm_slli_epi32 (d ! 13) 15, mm_slli_epi32 (d ! 14) 26],
     accum128 (mm_srli_epi32 (d ! 14) (11 - 5))
       [mm_slli_epi32 (d ! 15) 5, mm_slli_epi32 (d ! 16) 16, mm_slli_epi32 (d ! 17) 27],
     accum128 (mm_srli_epi32 (d ! 17) (11 - 6))
       [mm_slli_epi32 (d ! 18) 6, mm_slli_epi32 (d ! 19) 17, mm_slli_epi32 (d ! 20) 28],
     accum128 (mm_srli_epi32 (d ! 20) (11 - 7))
       [mm_slli_epi32 (d ! 21) 7, mm_slli_epi32 (d ! 22) 18, mm_slli_epi32 (d ! 23) 29],
     accum128 (mm_srli_epi32 (d ! 23) (11 - 8))
       [mm_slli_epi32 (d ! 24) 8, mm_slli_epi32 (d ! 25) 19, mm_slli_epi32 (d ! 26) 30],
     accum128 (mm_srli_epi32 (d ! 26) (11 - 9))
       [mm_slli_epi32 (d ! 27) 9, mm_slli_epi32 (d ! 28) 20, mm_slli_epi32 (d ! 29) 31],
     accum128 (mm_srli_epi32 (d ! 29) (11 - 10))
       [mm_slli_epi32 (d ! 30) 10, mm_slli_epi32 (d ! 31) 21]])"

definition ipackwithoutmask12 :: "(m128i \<Rightarrow> m128i \<Rightarrow> m128i) \<Rightarrow> m128i \<Rightarrow> m128i list \<Rightarrow> m128i list" where
  "ipackwithoutmask12 Delta initOffset inp =
    (let d = deltas Delta initOffset inp in
    [accum128 (d ! 0)
       [mm_slli_epi32 (d ! 1) 12, mm_slli_epi32 (d ! 2) 24],
     accum128 (mm_srli_epi32 (d ! 2) (12 - 4))
       [mm_slli_epi32 (d ! 3) 4, mm_slli_epi32 (d ! 4) 16, mm_slli_epi32 (d ! 5) 28],
     accum128 (mm_srli_epi32 (d ! 5) (12 - 8))
       [mm_slli_epi32 (d ! 6) 8, mm_slli_epi32 (d ! 7) 20],
     accum128 (d ! 8)
       [mm_slli_epi32 (d ! 9) 12, mm_slli_epi32 (d ! 10) 24],
     accum128 (mm_srli_epi32 (d ! 10) (12 - 4))
       [mm_slli_epi32 (d ! 11) 4, mm_slli_epi32 (d ! 12) 16, mm_slli_epi32 (d ! 13) 28],
     accum128 (mm_srli_epi32 (d ! 13) (12 - 8))
       [mm_slli_epi32 (d ! 14) 8, mm_slli_epi32 (d ! 15) 20],
     accum128 (d ! 16)
       [mm_slli_epi32 (d ! 17) 12, mm_slli_epi32 (d ! 18) 24],
     accum128 (mm_srli_epi32 (d ! 18) (12 - 4))
       [mm_slli_epi32 (d ! 19) 4, mm_slli_epi32 (d ! 20) 16, mm_slli_epi32 (d ! 21) 28],
     accum128 (mm_srli_epi32 (d ! 21) (12 - 8))
       [mm_slli_epi32 (d ! 22) 8, mm_slli_epi32 (d ! 23) 20],
     accum128 (d ! 24)
       [mm_slli_epi32 (d ! 25) 12, mm_slli_epi32 (d ! 26) 24],
     accum128 (mm_srli_epi32 (d ! 26) (12 - 4))
       [mm_slli_epi32 (d ! 27) 4, mm_slli_epi32 (d ! 28) 16, mm_slli_epi32 (d ! 29) 28],
     accum128 (mm_srli_epi32 (d ! 29) (12 - 8))
       [mm_slli_epi32 (d ! 30) 8, mm_slli_epi32 (d ! 31) 20]])"

definition ipackwithoutmask13 :: "(m128i \<Rightarrow> m128i \<Rightarrow> m128i) \<Rightarrow> m128i \<Rightarrow> m128i list \<Rightarrow> m128i list" where
  "ipackwithoutmask13 Delta initOffset inp =
    (let d = deltas Delta initOffset inp in
    [accum128 (d ! 0)
       [mm_slli_epi32 (d ! 1) 13, mm_slli_epi32 (d ! 2) 26],
     accum128 (mm_srli_epi32 (d ! 2) (13 - 7))
       [mm_slli_epi32 (d ! 3) 7, mm_slli_epi32 (d ! 4) 20],
     accum128 (mm_srli_epi32 (d ! 4) (13 - 1))
       [mm_slli_epi32 (d ! 5) 1, mm_slli_epi32 (d ! 6) 14, mm_slli_epi32 (d ! 7) 27],
     accum128 (mm_srli_epi32 (d ! 7) (13 - 8))
       [mm_slli_epi32 (d ! 8) 8, mm_slli_epi32 (d ! 9) 21],
     accum128 (mm_srli_epi32 (d ! 9) (13 - 2))
       [mm_slli_epi32 (d ! 10) 2, mm_slli_epi32 (d ! 11) 15, mm_slli_epi32 (d ! 12) 28],
     accum128 (mm_srli_epi32 (d ! 12) (13 - 9))
       [mm_slli_epi32 (d ! 13) 9, mm_slli_epi32 (d ! 14) 22],
     accum128 (mm_srli_epi32 (d ! 14) (13 - 3))
       [mm_slli_epi32 (d ! 15) 3, mm_slli_epi32 (d ! 16) 16, mm_slli_epi32 (d ! 17) 29],
     accum128 (mm_srli_epi32 (d ! 17) (13 - 10))
       [mm_slli_epi32 (d ! 18) 10, mm_slli_epi32 (d ! 19) 23],
     accum128 (mm_srli_epi32 (d ! 19) (13 - 4))
       [mm_slli_epi32 (d ! 20) 4, mm_slli_epi32 (d ! 21) 17, mm_slli_epi32 (d ! 22) 30],
     accum128 (mm_srli_epi32 (d ! 22) (13 - 11))
       [mm_slli_epi32 (d ! 23) 11, mm_slli_epi32 (d ! 24) 24],
     accum128 (mm_srli_epi32 (d ! 24) (13 - 5))
       [mm_slli_epi32 (d ! 25) 5, mm_slli_epi32 (d ! 26) 18, mm_slli_epi32 (d ! 27) 31],
     accum128 (mm_srli_epi32 (d ! 27) (13 - 12))
       [mm_slli_epi32 (d ! 28) 12, mm_slli_epi32 (d ! 29) 25],
     accum128 (mm_srli_epi32 (d ! 29) (13 - 6))
       [mm_slli_epi32 (d ! 30) 6, mm_slli_epi32 (d ! 31) 19]])"

definition ipackwithoutmask14 :: "(m128i \<Rightarrow> m128i \<Rightarrow> m128i) \<Rightarrow> m128i \<Rightarrow> m128i list \<Rightarrow> m128i list" where
  "ipackwithoutmask14 Delta initOffset inp =
    (let d = deltas Delta initOffset inp in
    [accum128 (d ! 0)
       [mm_slli_epi32 (d ! 1) 14, mm_slli_epi32 (d ! 2) 28],
     accum128 (mm_srli_epi32 (d ! 2) (14 - 10))
       [mm_slli_epi32 (d ! 3) 10, mm_slli_epi32 (d ! 4) 24],
     accum128 (mm_srli_epi32 (d ! 4) (14 - 6))
       [mm_slli_epi32 (d ! 5) 6, mm_slli_epi32 (d ! 6) 20],
     accum128 (mm_srli_epi32 (d ! 6) (14 - 2))
       [mm_slli_epi32 (d ! 7) 2, mm_slli_epi32 (d ! 8) 16, mm_slli_epi32 (d ! 9) 30],
     accum128 (mm_srli_epi32 (d ! 9) (14 - 12))
       [mm_slli_epi32 (d ! 10) 12, mm_slli_epi32 (d ! 11) 26],
     accum128 (mm_srli_epi32 (d ! 11) (14 - 8))
       [mm_slli_epi32 (d ! 12) 8, mm_slli_epi32 (d ! 13) 22],
     accum128 (mm_srli_epi32 (d ! 13) (14 - 4))
       [mm_slli_epi32 (d ! 14) 4, mm_slli_epi32 (d ! 15) 18],
     accum128 (d ! 16)
       [mm_slli_epi32 (d ! 17) 14, mm_slli_epi32 (d ! 18) 28],
     accum128 (mm_srli_epi32 (d ! 18) (14 - 10))
       [mm_slli_epi32 (d ! 19) 10, mm_slli_epi32 (d ! 20) 24],
     accum128 (mm_srli_epi32 (d ! 20) (14 - 6))
       [mm_slli_epi32 (d ! 21) 6, mm_slli_epi32 (d ! 22) 20],
     accum128 (mm_srli_epi32 (d ! 22) (14 - 2))
       [mm_slli_epi32 (d ! 23) 2, mm_slli_epi32 (d ! 24) 16, mm_slli_epi32 (d ! 25) 30],
     accum128 (mm_srli_epi32 (d ! 25) (14 - 12))
       [mm_slli_epi32 (d ! 26) 12, mm_slli_epi32 (d ! 27) 26],
     accum128 (mm_srli_epi32 (d ! 27) (14 - 8))
       [mm_slli_epi32 (d ! 28) 8, mm_slli_epi32 (d ! 29) 22],
     accum128 (mm_srli_epi32 (d ! 29) (14 - 4))
       [mm_slli_epi32 (d ! 30) 4, mm_slli_epi32 (d ! 31) 18]])"

definition ipackwithoutmask15 :: "(m128i \<Rightarrow> m128i \<Rightarrow> m128i) \<Rightarrow> m128i \<Rightarrow> m128i list \<Rightarrow> m128i list" where
  "ipackwithoutmask15 Delta initOffset inp =
    (let d = deltas Delta initOffset inp in
    [accum128 (d ! 0)
       [mm_slli_epi32 (d ! 1) 15, mm_slli_epi32 (d ! 2) 30],
     accum128 (mm_srli_epi32 (d ! 2) (15 - 13))
       [mm_slli_epi32 (d ! 3) 13, mm_slli_epi32 (d ! 4) 28],
     accum128 (mm_srli_epi32 (d ! 4) (15 - 11))
       [mm_slli_epi32 (d ! 5) 11, mm_slli_epi32 (d ! 6) 26],
     accum128 (mm_srli_epi32 (d ! 6) (15 - 9))
       [mm_slli_epi32 (d ! 7) 9, mm_slli_epi32 (d ! 8) 24],
     accum128 (mm_srli_epi32 (d ! 8) (15 - 7))
       [mm_slli_epi32 (d ! 9) 7, mm_slli_epi32 (d ! 10) 22],
     accum128 (mm_srli_epi32 (d ! 10) (15 - 5))
       [mm_slli_epi32 (d ! 11) 5, mm_slli_epi32 (d ! 12) 20],
     accum128 (mm_srli_epi32 (d ! 12) (15 - 3))
       [mm_slli_epi32 (d ! 13) 3, mm_slli_epi32 (d ! 14) 18],
     accum128 (mm_srli_epi32 (d ! 14) (15 - 1))
       [mm_slli_epi32 (d ! 15) 1, mm_slli_epi32 (d ! 16) 16, mm_slli_epi32 (d ! 17) 31],
     accum128 (mm_srli_epi32 (d ! 17) (15 - 14))
       [mm_slli_epi32 (d ! 18) 14, mm_slli_epi32 (d ! 19) 29],
     accum128 (mm_srli_epi32 (d ! 19) (15 - 12))
       [mm_slli_epi32 (d ! 20) 12, mm_slli_epi32 (d ! 21) 27],
     accum128 (mm_srli_epi32 (d ! 21) (15 - 10))
       [mm_slli_epi32 (d ! 22) 10, mm_slli_epi32 (d ! 23) 25],
     accum128 (mm_srli_epi32 (d ! 23) (15 - 8))
       [mm_slli_epi32 (d ! 24) 8, mm_slli_epi32 (d ! 25) 23],
     accum128 (mm_srli_epi32 (d ! 25) (15 - 6))
       [mm_slli_epi32 (d ! 26) 6, mm_slli_epi32 (d ! 27) 21],
     accum128 (mm_srli_epi32 (d ! 27) (15 - 4))
       [mm_slli_epi32 (d ! 28) 4, mm_slli_epi32 (d ! 29) 19],
     accum128 (mm_srli_epi32 (d ! 29) (15 - 2))
       [mm_slli_epi32 (d ! 30) 2, mm_slli_epi32 (d ! 31) 17]])"

definition ipackwithoutmask16 :: "(m128i \<Rightarrow> m128i \<Rightarrow> m128i) \<Rightarrow> m128i \<Rightarrow> m128i list \<Rightarrow> m128i list" where
  "ipackwithoutmask16 Delta initOffset inp =
    (let d = deltas Delta initOffset inp in
    [accum128 (d ! 0)
       [mm_slli_epi32 (d ! 1) 16],
     accum128 (d ! 2)
       [mm_slli_epi32 (d ! 3) 16],
     accum128 (d ! 4)
       [mm_slli_epi32 (d ! 5) 16],
     accum128 (d ! 6)
       [mm_slli_epi32 (d ! 7) 16],
     accum128 (d ! 8)
       [mm_slli_epi32 (d ! 9) 16],
     accum128 (d ! 10)
       [mm_slli_epi32 (d ! 11) 16],
     accum128 (d ! 12)
       [mm_slli_epi32 (d ! 13) 16],
     accum128 (d ! 14)
       [mm_slli_epi32 (d ! 15) 16],
     accum128 (d ! 16)
       [mm_slli_epi32 (d ! 17) 16],
     accum128 (d ! 18)
       [mm_slli_epi32 (d ! 19) 16],
     accum128 (d ! 20)
       [mm_slli_epi32 (d ! 21) 16],
     accum128 (d ! 22)
       [mm_slli_epi32 (d ! 23) 16],
     accum128 (d ! 24)
       [mm_slli_epi32 (d ! 25) 16],
     accum128 (d ! 26)
       [mm_slli_epi32 (d ! 27) 16],
     accum128 (d ! 28)
       [mm_slli_epi32 (d ! 29) 16],
     accum128 (d ! 30)
       [mm_slli_epi32 (d ! 31) 16]])"

definition ipackwithoutmask17 :: "(m128i \<Rightarrow> m128i \<Rightarrow> m128i) \<Rightarrow> m128i \<Rightarrow> m128i list \<Rightarrow> m128i list" where
  "ipackwithoutmask17 Delta initOffset inp =
    (let d = deltas Delta initOffset inp in
    [accum128 (d ! 0)
       [mm_slli_epi32 (d ! 1) 17],
     accum128 (mm_srli_epi32 (d ! 1) (17 - 2))
       [mm_slli_epi32 (d ! 2) 2, mm_slli_epi32 (d ! 3) 19],
     accum128 (mm_srli_epi32 (d ! 3) (17 - 4))
       [mm_slli_epi32 (d ! 4) 4, mm_slli_epi32 (d ! 5) 21],
     accum128 (mm_srli_epi32 (d ! 5) (17 - 6))
       [mm_slli_epi32 (d ! 6) 6, mm_slli_epi32 (d ! 7) 23],
     accum128 (mm_srli_epi32 (d ! 7) (17 - 8))
       [mm_slli_epi32 (d ! 8) 8, mm_slli_epi32 (d ! 9) 25],
     accum128 (mm_srli_epi32 (d ! 9) (17 - 10))
       [mm_slli_epi32 (d ! 10) 10, mm_slli_epi32 (d ! 11) 27],
     accum128 (mm_srli_epi32 (d ! 11) (17 - 12))
       [mm_slli_epi32 (d ! 12) 12, mm_slli_epi32 (d ! 13) 29],
     accum128 (mm_srli_epi32 (d ! 13) (17 - 14))
       [mm_slli_epi32 (d ! 14) 14, mm_slli_epi32 (d ! 15) 31],
     accum128 (mm_srli_epi32 (d ! 15) (17 - 16))
       [mm_slli_epi32 (d ! 16) 16],
     accum128 (mm_srli_epi32 (d ! 16) (17 - 1))
       [mm_slli_epi32 (d ! 17) 1, mm_slli_epi32 (d ! 18) 18],
     accum128 (mm_srli_epi32 (d ! 18) (17 - 3))
       [mm_slli_epi32 (d ! 19) 3, mm_slli_epi32 (d ! 20) 20],
     accum128 (mm_srli_epi32 (d ! 20) (17 - 5))
       [mm_slli_epi32 (d ! 21) 5, mm_slli_epi32 (d ! 22) 22],
     accum128 (mm_srli_epi32 (d ! 22) (17 - 7))
       [mm_slli_epi32 (d ! 23) 7, mm_slli_epi32 (d ! 24) 24],
     accum128 (mm_srli_epi32 (d ! 24) (17 - 9))
       [mm_slli_epi32 (d ! 25) 9, mm_slli_epi32 (d ! 26) 26],
     accum128 (mm_srli_epi32 (d ! 26) (17 - 11))
       [mm_slli_epi32 (d ! 27) 11, mm_slli_epi32 (d ! 28) 28],
     accum128 (mm_srli_epi32 (d ! 28) (17 - 13))
       [mm_slli_epi32 (d ! 29) 13, mm_slli_epi32 (d ! 30) 30],
     accum128 (mm_srli_epi32 (d ! 30) (17 - 15))
       [mm_slli_epi32 (d ! 31) 15]])"

definition ipackwithoutmask18 :: "(m128i \<Rightarrow> m128i \<Rightarrow> m128i) \<Rightarrow> m128i \<Rightarrow> m128i list \<Rightarrow> m128i list" where
  "ipackwithoutmask18 Delta initOffset inp =
    (let d = deltas Delta initOffset inp in
    [accum128 (d ! 0)
       [mm_slli_epi32 (d ! 1) 18],
     accum128 (mm_srli_epi32 (d ! 1) (18 - 4))
       [mm_slli_epi32 (d ! 2) 4, mm_slli_epi32 (d ! 3) 22],
     accum128 (mm_srli_epi32 (d ! 3) (18 - 8))
       [mm_slli_epi32 (d ! 4) 8, mm_slli_epi32 (d ! 5) 26],
     accum128 (mm_srli_epi32 (d ! 5) (18 - 12))
       [mm_slli_epi32 (d ! 6) 12, mm_slli_epi32 (d ! 7) 30],
     accum128 (mm_srli_epi32 (d ! 7) (18 - 16))
       [mm_slli_epi32 (d ! 8) 16],
     accum128 (mm_srli_epi32 (d ! 8) (18 - 2))
       [mm_slli_epi32 (d ! 9) 2, mm_slli_epi32 (d ! 10) 20],
     accum128 (mm_srli_epi32 (d ! 10) (18 - 6))
       [mm_slli_epi32 (d ! 11) 6, mm_slli_epi32 (d ! 12) 24],
     accum128 (mm_srli_epi32 (d ! 12) (18 - 10))
       [mm_slli_epi32 (d ! 13) 10, mm_slli_epi32 (d ! 14) 28],
     accum128 (mm_srli_epi32 (d ! 14) (18 - 14))
       [mm_slli_epi32 (d ! 15) 14],
     accum128 (d ! 16)
       [mm_slli_epi32 (d ! 17) 18],
     accum128 (mm_srli_epi32 (d ! 17) (18 - 4))
       [mm_slli_epi32 (d ! 18) 4, mm_slli_epi32 (d ! 19) 22],
     accum128 (mm_srli_epi32 (d ! 19) (18 - 8))
       [mm_slli_epi32 (d ! 20) 8, mm_slli_epi32 (d ! 21) 26],
     accum128 (mm_srli_epi32 (d ! 21) (18 - 12))
       [mm_slli_epi32 (d ! 22) 12, mm_slli_epi32 (d ! 23) 30],
     accum128 (mm_srli_epi32 (d ! 23) (18 - 16))
       [mm_slli_epi32 (d ! 24) 16],
     accum128 (mm_srli_epi32 (d ! 24) (18 - 2))
       [mm_slli_epi32 (d ! 25) 2, mm_slli_epi32 (d ! 26) 20],
     accum128 (mm_srli_epi32 (d ! 26) (18 - 6))
       [mm_slli_epi32 (d ! 27) 6, mm_slli_epi32 (d ! 28) 24],
     accum128 (mm_srli_epi32 (d ! 28) (18 - 10))
       [mm_slli_epi32 (d ! 29) 10, mm_slli_epi32 (d ! 30) 28],
     accum128 (mm_srli_epi32 (d ! 30) (18 - 14))
       [mm_slli_epi32 (d ! 31) 14]])"

definition ipackwithoutmask19 :: "(m128i \<Rightarrow> m128i \<Rightarrow> m128i) \<Rightarrow> m128i \<Rightarrow> m128i list \<Rightarrow> m128i list" where
  "ipackwithoutmask19 Delta initOffset inp =
    (let d = deltas Delta initOffset inp in
    [accum128 (d ! 0)
       [mm_slli_epi32 (d ! 1) 19],
     accum128 (mm_srli_epi32 (d ! 1) (19 - 6))
       [mm_slli_epi32 (d ! 2) 6, mm_slli_epi32 (d ! 3) 25],
     accum128 (mm_srli_epi32 (d ! 3) (19 - 12))
       [mm_slli_epi32 (d ! 4) 12, mm_slli_epi32 (d ! 5) 31],
     accum128 (mm_srli_epi32 (d ! 5) (19 - 18))
       [mm_slli_epi32 (d ! 6) 18],
     accum128 (mm_srli_epi32 (d ! 6) (19 - 5))
       [mm_slli_epi32 (d ! 7) 5, mm_slli_epi32 (d ! 8) 24],
     accum128 (mm_srli_epi32 (d ! 8) (19 - 11))
       [mm_slli_epi32 (d ! 9) 11, mm_slli_epi32 (d ! 10) 30],
     accum128 (mm_srli_epi32 (d ! 10) (19 - 17))
       [mm_slli_epi32 (d ! 11) 17],
     accum128 (mm_srli_epi32 (d ! 11) (19 - 4))
       [mm_slli_epi32 (d ! 12) 4, mm_slli_epi32 (d ! 13) 23],
     accum128 (mm_srli_epi32 (d ! 13) (19 - 10))
       [mm_slli_epi32 (d ! 14) 10, mm_slli_epi32 (d ! 15) 29],
     accum128 (mm_srli_epi32 (d ! 15) (19 - 16))
       [mm_slli_epi32 (d ! 16) 16],
     accum128 (mm_srli_epi32 (d ! 16) (19 - 3))
       [mm_slli_epi32 (d ! 17) 3, mm_slli_epi32 (d ! 18) 22],
     accum128 (mm_srli_epi32 (d ! 18) (19 - 9))
       [mm_slli_epi32 (d ! 19) 9, mm_slli_epi32 (d ! 20) 28],
     accum128 (mm_srli_epi32 (d ! 20) (19 - 15))
       [mm_slli_epi32 (d ! 21) 15],
     accum128 (mm_srli_epi32 (d ! 21) (19 - 2))
       [mm_slli_epi32 (d ! 22) 2, mm_slli_epi32 (d ! 23) 21],
     accum128 (mm_srli_epi32 (d ! 23) (19 - 8))
       [mm_slli_epi32 (d ! 24) 8, mm_slli_epi32 (d ! 25) 27],
     accum128 (mm_srli_epi32 (d ! 25) (19 - 14))
       [mm_slli_epi32 (d ! 26) 14],
     accum128 (mm_srli_epi32 (d ! 26) (19 - 1))
       [mm_slli_epi32 (d ! 27) 1, mm_slli_epi32 (d ! 28) 20],
     accum128 (mm_srli_epi32 (d ! 28) (19 - 7))
       [mm_slli_epi32 (d ! 29) 7, mm_slli_epi32 (d ! 30) 26],
     accum128 (mm_srli_epi32 (d ! 30) (19 - 13))
       [mm_slli_epi32 (d ! 31) 13]])"

definition ipackwithoutmask20 :: "(m128i \<Rightarrow> m128i \<Rightarrow> m128i) \<Rightarrow> m128i \<Rightarrow> m128i list \<Rightarrow> m128i list" where
  "ipackwithoutmask20 Delta initOffset inp =
    (let d = deltas Delta initOffset inp in
    [accum128 (d ! 0)
       [mm_slli_epi32 (d ! 1) 20],
     accum128 (mm_srli_epi32 (d ! 1) (20 - 8))
       [mm_slli_epi32 (d ! 2) 8, mm_slli_epi32 (d ! 3) 28],
     accum128 (mm_srli_epi32 (d ! 3) (20 - 16))
       [mm_slli_epi32 (d ! 4) 16],
     accum128 (mm_srli_epi32 (d ! 4) (20 - 4))
       [mm_slli_epi32 (d ! 5) 4, mm_slli_epi32 (d ! 6) 24],
     accum128 (mm_srli_epi32 (d ! 6) (20 - 12))
       [mm_slli_epi32 (d ! 7) 12],
     accum128 (d ! 8)
       [mm_slli_epi32 (d ! 9) 20],
     accum128 (mm_srli_epi32 (d ! 9) (20 - 8))
       [mm_slli_epi32 (d ! 10) 8, mm_slli_epi32 (d ! 11) 28],
     accum128 (mm_srli_epi32 (d ! 11) (20 - 16))
       [mm_slli_epi32 (d ! 12) 16],
     accum128 (mm_srli_epi32 (d ! 12) (20 - 4))
       [mm_slli_epi32 (d ! 13) 4, mm_slli_epi32 (d ! 14) 24],
     accum128 (mm_srli_epi32 (d ! 14) (20 - 12))
       [mm_slli_epi32 (d ! 15) 12],
     accum128 (d ! 16)
       [mm_slli_epi32 (d ! 17) 20],
     accum128 (mm_srli_epi32 (d ! 17) (20 - 8))
       [mm_slli_epi32 (d ! 18) 8, mm_slli_epi32 (d ! 19) 28],
     accum128 (mm_srli_epi32 (d ! 19) (20 - 16))
       [mm_slli_epi32 (d ! 20) 16],
     accum128 (mm_srli_epi32 (d ! 20) (20 - 4))
       [mm_slli_epi32 (d ! 21) 4, mm_slli_epi32 (d ! 22) 24],
     accum128 (mm_srli_epi32 (d ! 22) (20 - 12))
       [mm_slli_epi32 (d ! 23) 12],
     accum128 (d ! 24)
       [mm_slli_epi32 (d ! 25) 20],
     accum128 (mm_srli_epi32 (d ! 25) (20 - 8))
       [mm_slli_epi32 (d ! 26) 8, mm_slli_epi32 (d ! 27) 28],
     accum128 (mm_srli_epi32 (d ! 27) (20 - 16))
       [mm_slli_epi32 (d ! 28) 16],
     accum128 (mm_srli_epi32 (d ! 28) (20 - 4))
       [mm_slli_epi32 (d ! 29) 4, mm_slli_epi32 (d ! 30) 24],
     accum128 (mm_srli_epi32 (d ! 30) (20 - 12))
       [mm_slli_epi32 (d ! 31) 12]])"

definition ipackwithoutmask21 :: "(m128i \<Rightarrow> m128i \<Rightarrow> m128i) \<Rightarrow> m128i \<Rightarrow> m128i list \<Rightarrow> m128i list" where
  "ipackwithoutmask21 Delta initOffset inp =
    (let d = deltas Delta initOffset inp in
    [accum128 (d ! 0)
       [mm_slli_epi32 (d ! 1) 21],
     accum128 (mm_srli_epi32 (d ! 1) (21 - 10))
       [mm_slli_epi32 (d ! 2) 10, mm_slli_epi32 (d ! 3) 31],
     accum128 (mm_srli_epi32 (d ! 3) (21 - 20))
       [mm_slli_epi32 (d ! 4) 20],
     accum128 (mm_srli_epi32 (d ! 4) (21 - 9))
       [mm_slli_epi32 (d ! 5) 9, mm_slli_epi32 (d ! 6) 30],
     accum128 (mm_srli_epi32 (d ! 6) (21 - 19))
       [mm_slli_epi32 (d ! 7) 19],
     accum128 (mm_srli_epi32 (d ! 7) (21 - 8))
       [mm_slli_epi32 (d ! 8) 8, mm_slli_epi32 (d ! 9) 29],
     accum128 (mm_srli_epi32 (d ! 9) (21 - 18))
       [mm_slli_epi32 (d ! 10) 18],
     accum128 (mm_srli_epi32 (d ! 10) (21 - 7))
       [mm_slli_epi32 (d ! 11) 7, mm_slli_epi32 (d ! 12) 28],
     accum128 (mm_srli_epi32 (d ! 12) (21 - 17))
       [mm_slli_epi32 (d ! 13) 17],
     accum128 (mm_srli_epi32 (d ! 13) (21 - 6))
       [mm_slli_epi32 (d ! 14) 6, mm_slli_epi32 (d ! 15) 27],
     accum128 (mm_srli_epi32 (d ! 15) (21 - 16))
       [mm_slli_epi32 (d ! 16) 16],
     accum128 (mm_srli_epi32 (d ! 16) (21 - 5))
       [mm_slli_epi32 (d ! 17) 5, mm_slli_epi32 (d ! 18) 26],
     accum128 (mm_srli_epi32 (d ! 18) (21 - 15))
       [mm_slli_epi32 (d ! 19) 15],
     accum128 (mm_srli_epi32 (d ! 19) (21 - 4))
       [mm_slli_epi32 (d ! 20) 4, mm_slli_epi32 (d ! 21) 25],
     accum128 (mm_srli_epi32 (d ! 21) (21 - 14))
       [mm_slli_epi32 (d ! 22) 14],
     accum128 (mm_srli_epi32 (d ! 22) (21 - 3))
       [mm_slli_epi32 (d ! 23) 3, mm_slli_epi32 (d ! 24) 24],
     accum128 (mm_srli_epi32 (d ! 24) (21 - 13))
       [mm_slli_epi32 (d ! 25) 13],
     accum128 (mm_srli_epi32 (d ! 25) (21 - 2))
       [mm_slli_epi32 (d ! 26) 2, mm_slli_epi32 (d ! 27) 23],
     accum128 (mm_srli_epi32 (d ! 27) (21 - 12))
       [mm_slli_epi32 (d ! 28) 12],
     accum128 (mm_srli_epi32 (d ! 28) (21 - 1))
       [mm_slli_epi32 (d ! 29) 1, mm_slli_epi32 (d ! 30) 22],
     accum128 (mm_srli_epi32 (d ! 30) (21 - 11))
       [mm_slli_epi32 (d ! 31) 11]])"

definition ipackwithoutmask22 :: "(m128i \<Rightarrow> m128i \<Rightarrow> m128i) \<Rightarrow> m128i \<Rightarrow> m128i list \<Rightarrow> m128i list" where
  "ipackwithoutmask22 Delta initOffset inp =
    (let d = deltas Delta initOffset inp in
    [accum128 (d ! 0)
       [mm_slli_epi32 (d ! 1) 22],
     accum128 (mm_srli_epi32 (d ! 1) (22 - 12))
       [mm_slli_epi32 (d ! 2) 12],
     accum128 (mm_srli_epi32 (d ! 2) (22 - 2))
       [mm_slli_epi32 (d ! 3) 2, mm_slli_epi32 (d ! 4) 24],
     accum128 (mm_srli_epi32 (d ! 4) (22 - 14))
       [mm_slli_epi32 (d ! 5) 14],
     accum128 (mm_srli_epi32 (d ! 5) (22 - 4))
       [mm_slli_epi32 (d ! 6) 4, mm_slli_epi32 (d ! 7) 26],
     accum128 (mm_srli_epi32 (d ! 7) (22 - 16))
       [mm_slli_epi32 (d ! 8) 16],
     accum128 (mm_srli_epi32 (d ! 8) (22 - 6))
       [mm_slli_epi32 (d ! 9) 6, mm_slli_epi32 (d ! 10) 28],
     accum128 (mm_srli_epi32 (d ! 10) (22 - 18))
       [mm_slli_epi32 (d ! 11) 18],
     accum128 (mm_srli_epi32 (d ! 11) (22 - 8))
       [mm_slli_epi32 (d ! 12) 8, mm_slli_epi32 (d ! 13) 30],
     accum128 (mm_srli_epi32 (d ! 13) (22 - 20))
       [mm_slli_epi32 (d ! 14) 20],
     accum128 (mm_srli_epi32 (d ! 14) (22 - 10))
       [mm_slli_epi32 (d ! 15) 10],
     accum128 (d ! 16)
       [mm_slli_epi32 (d ! 17) 22],
     accum128 (mm_srli_epi32 (d ! 17) (22 - 12))
       [mm_slli_epi32 (d ! 18) 12],
     accum128 (mm_srli_epi32 (d ! 18) (22 - 2))
       [mm_slli_epi32 (d ! 19) 2, mm_slli_epi32 (d ! 20) 24],
     accum128 (mm_srli_epi32 (d ! 20) (22 - 14))
       [mm_slli_epi32 (d ! 21) 14],
     accum128 (mm_srli_epi32 (d ! 21) (22 - 4))
       [mm_slli_epi32 (d ! 22) 4, mm_slli_epi32 (d ! 23) 26],
     accum128 (mm_srli_epi32 (d ! 23) (22 - 16))
       [mm_slli_epi32 (d ! 24) 16],
     accum128 (mm_srli_epi32 (d ! 24) (22 - 6))
       [mm_slli_epi32 (d ! 25) 6, mm_slli_epi32 (d ! 26) 28],
     accum128 (mm_srli_epi32 (d ! 26) (22 - 18))
       [mm_slli_epi32 (d ! 27) 18],
     accum128 (mm_srli_epi32 (d ! 27) (22 - 8))
       [mm_slli_epi32 (d ! 28) 8, mm_slli_epi32 (d ! 29) 30],
     accum128 (mm_srli_epi32 (d ! 29) (22 - 20))
       [mm_slli_epi32 (d ! 30) 20],
     accum128 (mm_srli_epi32 (d ! 30) (22 - 10))
       [mm_slli_epi32 (d ! 31) 10]])"

definition ipackwithoutmask23 :: "(m128i \<Rightarrow> m128i \<Rightarrow> m128i) \<Rightarrow> m128i \<Rightarrow> m128i list \<Rightarrow> m128i list" where
  "ipackwithoutmask23 Delta initOffset inp =
    (let d = deltas Delta initOffset inp in
    [accum128 (d ! 0)
       [mm_slli_epi32 (d ! 1) 23],
     accum128 (mm_srli_epi32 (d ! 1) (23 - 14))
       [mm_slli_epi32 (d ! 2) 14],
     accum128 (mm_srli_epi32 (d ! 2) (23 - 5))
       [mm_slli_epi32 (d ! 3) 5, mm_slli_epi32 (d ! 4) 28],
     accum128 (mm_srli_epi32 (d ! 4) (23 - 19))
       [mm_slli_epi32 (d ! 5) 19],
     accum128 (mm_srli_epi32 (d ! 5) (23 - 10))
       [mm_slli_epi32 (d ! 6) 10],
     accum128 (mm_srli_epi32 (d ! 6) (23 - 1))
       [mm_slli_epi32 (d ! 7) 1, mm_slli_epi32 (d ! 8) 24],
     accum128 (mm_srli_epi32 (d ! 8) (23 - 15))
       [mm_slli_epi32 (d ! 9) 15],
     accum128 (mm_srli_epi32 (d ! 9) (23 - 6))
       [mm_slli_epi32 (d ! 10) 6, mm_slli_epi32 (d ! 11) 29],
     accum128 (mm_srli_epi32 (d ! 11) (23 - 20))
       [mm_slli_epi32 (d ! 12) 20],
     accum128 (mm_srli_epi32 (d ! 12) (23 - 11))
       [mm_slli_epi32 (d ! 13) 11],
     accum128 (mm_srli_epi32 (d ! 13) (23 - 2))
       [mm_slli_epi32 (d ! 14) 2, mm_slli_epi32 (d ! 15) 25],
     accum128 (mm_srli_epi32 (d ! 15) (23 - 16))
       [mm_slli_epi32 (d ! 16) 16],
     accum128 (mm_srli_epi32 (d ! 16) (23 - 7))
       [mm_slli_epi32 (d ! 17) 7, mm_slli_epi32 (d ! 18) 30],
     accum128 (mm_srli_epi32 (d ! 18) (23 - 21))
       [mm_slli_epi32 (d ! 19) 21],
     accum128 (mm_srli_epi32 (d ! 19) (23 - 12))
       [mm_slli_epi32 (d ! 20) 12],
     accum128 (mm_srli_epi32 (d ! 20) (23 - 3))
       [mm_slli_epi32 (d ! 21) 3, mm_slli_epi32 (d ! 22) 26],
     accum128 (mm_srli_epi32 (d ! 22) (23 - 17))
       [mm_slli_epi32 (d ! 23) 17],
     accum128 (mm_srli_epi32 (d ! 23) (23 - 8))
       [mm_slli_epi32 (d ! 24) 8, mm_slli_epi32 (d ! 25) 31],
     accum128 (mm_srli_epi32 (d ! 25) (23 - 22))
       [mm_slli_epi32 (d ! 26) 22],
     accum128 (mm_srli_epi32 (d ! 26) (23 - 13))
       [mm_slli_epi32 (d ! 27) 13],
     accum128 (mm_srli_epi32 (d ! 27) (23 - 4))
       [mm_slli_epi32 (d ! 28) 4, mm_slli_epi32 (d ! 29) 27],
     accum128 (mm_srli_epi32 (d ! 29) (23 - 18))
       [mm_slli_epi32 (d ! 30) 18],
     accum128 (mm_srli_epi32 (d ! 30) (23 - 9))
       [mm_slli_epi32 (d ! 31) 9]])"

definition ipackwithoutmask24 :: "(m128i \<Rightarrow> m128i \<Rightarrow> m128i) \<Rightarrow> m128i \<Rightarrow> m128i list \<Rightarrow> m128i list" where
  "ipackwithoutmask24 Delta initOffset inp =
    (let d = deltas Delta initOffset inp in
    [accum128 (d ! 0)
       [mm_slli_epi32 (d ! 1) 24],
     accum128 (mm_srli_epi32 (d ! 1) (24 - 16))
       [mm_slli_epi32 (d ! 2) 16],
     accum128 (mm_srli_epi32 (d ! 2) (24 - 8))
       [mm_slli_epi32 (d ! 3) 8],
     accum128 (d ! 4)
       [mm_slli_epi32 (d ! 5) 24],
     accum128 (mm_srli_epi32 (d ! 5) (24 - 16))
       [mm_slli_epi32 (d ! 6) 16],
     accum128 (mm_srli_epi32 (d ! 6) (24 - 8))
       [mm_slli_epi32 (d ! 7) 8],
     accum128 (d ! 8)
       [mm_slli_epi32 (d ! 9) 24],
     accum128 (mm_srli_epi32 (d ! 9) (24 - 16))
       [mm_slli_epi32 (d ! 10) 16],
     accum128 (mm_srli_epi32 (d ! 10) (24 - 8))
       [mm_slli_epi32 (d ! 11) 8],
     accum128 (d ! 12)
       [mm_slli_epi32 (d ! 13) 24],
     accum128 (mm_srli_epi32 (d ! 13) (24 - 16))
       [mm_slli_epi32 (d ! 14) 16],
     accum128 (mm_srli_epi32 (d ! 14) (24 - 8))
       [mm_slli_epi32 (d ! 15) 8],
     accum128 (d ! 16)
       [mm_slli_epi32 (d ! 17) 24],
     accum128 (mm_srli_epi32 (d ! 17) (24 - 16))
       [mm_slli_epi32 (d ! 18) 16],
     accum128 (mm_srli_epi32 (d ! 18) (24 - 8))
       [mm_slli_epi32 (d ! 19) 8],
     accum128 (d ! 20)
       [mm_slli_epi32 (d ! 21) 24],
     accum128 (mm_srli_epi32 (d ! 21) (24 - 16))
       [mm_slli_epi32 (d ! 22) 16],
     accum128 (mm_srli_epi32 (d ! 22) (24 - 8))
       [mm_slli_epi32 (d ! 23) 8],
     accum128 (d ! 24)
       [mm_slli_epi32 (d ! 25) 24],
     accum128 (mm_srli_epi32 (d ! 25) (24 - 16))
       [mm_slli_epi32 (d ! 26) 16],
     accum128 (mm_srli_epi32 (d ! 26) (24 - 8))
       [mm_slli_epi32 (d ! 27) 8],
     accum128 (d ! 28)
       [mm_slli_epi32 (d ! 29) 24],
     accum128 (mm_srli_epi32 (d ! 29) (24 - 16))
       [mm_slli_epi32 (d ! 30) 16],
     accum128 (mm_srli_epi32 (d ! 30) (24 - 8))
       [mm_slli_epi32 (d ! 31) 8]])"

definition ipackwithoutmask25 :: "(m128i \<Rightarrow> m128i \<Rightarrow> m128i) \<Rightarrow> m128i \<Rightarrow> m128i list \<Rightarrow> m128i list" where
  "ipackwithoutmask25 Delta initOffset inp =
    (let d = deltas Delta initOffset inp in
    [accum128 (d ! 0)
       [mm_slli_epi32 (d ! 1) 25],
     accum128 (mm_srli_epi32 (d ! 1) (25 - 18))
       [mm_slli_epi32 (d ! 2) 18],
     accum128 (mm_srli_epi32 (d ! 2) (25 - 11))
       [mm_slli_epi32 (d ! 3) 11],
     accum128 (mm_srli_epi32 (d ! 3) (25 - 4))
       [mm_slli_epi32 (d ! 4) 4, mm_slli_epi32 (d ! 5) 29],
     accum128 (mm_srli_epi32 (d ! 5) (25 - 22))
       [mm_slli_epi32 (d ! 6) 22],
     accum128 (mm_srli_epi32 (d ! 6) (25 - 15))
       [mm_slli_epi32 (d ! 7) 15],
     accum128 (mm_srli_epi32 (d ! 7) (25 - 8))
       [mm_slli_epi32 (d ! 8) 8],
     accum128 (mm_srli_epi32 (d ! 8) (25 - 1))
       [mm_slli_epi32 (d ! 9) 1, mm_slli_epi32 (d ! 10) 26],
     accum128 (mm_srli_epi32 (d ! 10) (25 - 19))
       [mm_slli_epi32 (d ! 11) 19],
     accum128 (mm_srli_epi32 (d ! 11) (25 - 12))
       [mm_slli_epi32 (d ! 12) 12],
     accum128 (mm_srli_epi32 (d ! 12) (25 - 5))
       [mm_slli_epi32 (d ! 13) 5, mm_slli_epi32 (d ! 14) 30],
     accum128 (mm_srli_epi32 (d ! 14) (25 - 23))
       [mm_slli_epi32 (d ! 15) 23],
     accum128 (mm_srli_epi32 (d ! 15) (25 - 16))
       [mm_slli_epi32 (d ! 16) 16],
     accum128 (mm_srli_epi32 (d ! 16) (25 - 9))
       [mm_slli_epi32 (d ! 17) 9],
     accum128 (mm_srli_epi32 (d ! 17) (25 - 2))
       [mm_slli_epi32 (d ! 18) 2, mm_slli_epi32 (d ! 19) 27],
     accum128 (mm_srli_epi32 (d ! 19) (25 - 20))
       [mm_slli_epi32 (d ! 20) 20],
     accum128 (mm_srli_epi32 (d ! 20) (25 - 13))
       [mm_slli_epi32 (d ! 21) 13],
     accum128 (mm_srli_epi32 (d ! 21) (25 - 6))
       [mm_slli_epi32 (d ! 22) 6, mm_slli_epi32 (d ! 23) 31],
     accum128 (mm_srli_epi32 (d ! 23) (25 - 24))
       [mm_slli_epi32 (d ! 24) 24],
     accum128 (mm_srli_epi32 (d ! 24) (25 - 17))
       [mm_slli_epi32 (d ! 25) 17],
     accum128 (mm_srli_epi32 (d ! 25) (25 - 10))
       [mm_slli_epi32 (d ! 26) 10],
     accum128 (mm_srli_epi32 (d ! 26) (25 - 3))
       [mm_slli_epi32 (d ! 27) 3, mm_slli_epi32 (d ! 28) 28],
     accum128 (mm_srli_epi32 (d ! 28) (25 - 21))
       [mm_slli_epi32 (d ! 29) 21],
     accum128 (mm_srli_epi32 (d ! 29) (25 - 14))
       [mm_slli_epi32 (d ! 30) 14],
     accum128 (mm_srli_epi32 (d ! 30) (25 - 7))
       [mm_slli_epi32 (d ! 31) 7]])"

definition ipackwithoutmask26 :: "(m128i \<Rightarrow> m128i \<Rightarrow> m128i) \<Rightarrow> m128i \<Rightarrow> m128i list \<Rightarrow> m128i list" where
  "ipackwithoutmask26 Delta initOffset inp =
    (let d = deltas Delta initOffset inp in
    [accum128 (d ! 0)
       [mm_slli_epi32 (d ! 1) 26],
     accum128 (mm_srli_epi32 (d ! 1) (26 - 20))
       [mm_slli_epi32 (d ! 2) 20],
     accum128 (mm_srli_epi32 (d ! 2) (26 - 14))
       [mm_slli_epi32 (d ! 3) 14],
     accum128 (mm_srli_epi32 (d ! 3) (26 - 8))
       [mm_slli_epi32 (d ! 4) 8],
     accum128 (mm_srli_epi32 (d ! 4) (26 - 2))
       [mm_slli_epi32 (d ! 5) 2, mm_slli_epi32 (d ! 6) 28],
     accum128 (mm_srli_epi32 (d ! 6) (26 - 22))
       [mm_slli_epi32 (d ! 7) 22],
     accum128 (mm_srli_epi32 (d ! 7) (26 - 16))
       [mm_slli_epi32 (d ! 8) 16],
     accum128 (mm_srli_epi32 (d ! 8) (26 - 10))
       [mm_slli_epi32 (d ! 9) 10],
     accum128 (mm_srli_epi32 (d ! 9) (26 - 4))
       [mm_slli_epi32 (d ! 10) 4, mm_slli_epi32 (d ! 11) 30],
     accum128 (mm_srli_epi32 (d ! 11) (26 - 24))
       [mm_slli_epi32 (d ! 12) 24],
     accum128 (mm_srli_epi32 (d ! 12) (26 - 18))
       [mm_slli_epi32 (d ! 13) 18],
     accum128 (mm_srli_epi32 (d ! 13) (26 - 12))
       [mm_slli_epi32 (d ! 14) 12],
     accum128 (mm_srli_epi32 (d ! 14) (26 - 6))
       [mm_slli_epi32 (d ! 15) 6],
     accum128 (d ! 16)
       [mm_slli_epi32 (d ! 17) 26],
     accum128 (mm_srli_epi32 (d ! 17) (26 - 20))
       [mm_slli_epi32 (d ! 18) 20],
     accum128 (mm_srli_epi32 (d ! 18) (26 - 14))
       [mm_slli_epi32 (d ! 19) 14],
     accum128 (mm_srli_epi32 (d ! 19) (26 - 8))
       [mm_slli_epi32 (d ! 20) 8],
     accum128 (mm_srli_epi32 (d ! 20) (26 - 2))
       [mm_slli_epi32 (d ! 21) 2, mm_slli_epi32 (d ! 22) 28],
     accum128 (mm_srli_epi32 (d ! 22) (26 - 22))
       [mm_slli_epi32 (d ! 23) 22],
     accum128 (mm_srli_epi32 (d ! 23) (26 - 16))
       [mm_slli_epi32 (d ! 24) 16],
     accum128 (mm_srli_epi32 (d ! 24) (26 - 10))
       [mm_slli_epi32 (d ! 25) 10],
     accum128 (mm_srli_epi32 (d ! 25) (26 - 4))
       [mm_slli_epi32 (d ! 26) 4, mm_slli_epi32 (d ! 27) 30],
     accum128 (mm_srli_epi32 (d ! 27) (26 - 24))
       [mm_slli_epi32 (d ! 28) 24],
     accum128 (mm_srli_epi32 (d ! 28) (26 - 18))
       [mm_slli_epi32 (d ! 29) 18],
     accum128 (mm_srli_epi32 (d ! 29) (26 - 12))
       [mm_slli_epi32 (d ! 30) 12],
     accum128 (mm_srli_epi32 (d ! 30) (26 - 6))
       [mm_slli_epi32 (d ! 31) 6]])"

definition ipackwithoutmask27 :: "(m128i \<Rightarrow> m128i \<Rightarrow> m128i) \<Rightarrow> m128i \<Rightarrow> m128i list \<Rightarrow> m128i list" where
  "ipackwithoutmask27 Delta initOffset inp =
    (let d = deltas Delta initOffset inp in
    [accum128 (d ! 0)
       [mm_slli_epi32 (d ! 1) 27],
     accum128 (mm_srli_epi32 (d ! 1) (27 - 22))
       [mm_slli_epi32 (d ! 2) 22],
     accum128 (mm_srli_epi32 (d ! 2) (27 - 17))
       [mm_slli_epi32 (d ! 3) 17],
     accum128 (mm_srli_epi32 (d ! 3) (27 - 12))
       [mm_slli_epi32 (d ! 4) 12],
     accum128 (mm_srli_epi32 (d ! 4) (27 - 7))
       [mm_slli_epi32 (d ! 5) 7],
     accum128 (mm_srli_epi32 (d ! 5) (27 - 2))
       [mm_slli_epi32 (d ! 6) 2, mm_slli_epi32 (d ! 7) 29],
     accum128 (mm_srli_epi32 (d ! 7) (27 - 24))
       [mm_slli_epi32 (d ! 8) 24],
     accum128 (mm_srli_epi32 (d ! 8) (27 - 19))
       [mm_slli_epi32 (d ! 9) 19],
     accum128 (mm_srli_epi32 (d ! 9) (27 - 14))
       [mm_slli_epi32 (d ! 10) 14],
     accum128 (mm_srli_epi32 (d ! 10) (27 - 9))
       [mm_slli_epi32 (d ! 11) 9],
     accum128 (mm_srli_epi32 (d ! 11) (27 - 4))
       [mm_slli_epi32 (d ! 12) 4, mm_slli_epi32 (d ! 13) 31],
     accum128 (mm_srli_epi32 (d ! 13) (27 - 26))
       [mm_slli_epi32 (d ! 14) 26],
     accum128 (mm_srli_epi32 (d ! 14) (27 - 21))
       [mm_slli_epi32 (d ! 15) 21],
     accum128 (mm_srli_epi32 (d ! 15) (27 - 16))
       [mm_slli_epi32 (d ! 16) 16],
     accum128 (mm_srli_epi32 (d ! 16) (27 - 11))
       [mm_slli_epi32 (d ! 17) 11],
     accum128 (mm_srli_epi32 (d ! 17) (27 - 6))
       [mm_slli_epi32 (d ! 18) 6],
     accum128 (mm_srli_epi32 (d ! 18) (27 - 1))
       [mm_slli_epi32 (d ! 19) 1, mm_slli_epi32 (d ! 20) 28],
     accum128 (mm_srli_epi32 (d ! 20) (27 - 23))
       [mm_slli_epi32 (d ! 21) 23],
     accum128 (mm_srli_epi32 (d ! 21) (27 - 18))
       [mm_slli_epi32 (d ! 22) 18],
     accum128 (mm_srli_epi32 (d ! 22) (27 - 13))
       [mm_slli_epi32 (d ! 23) 13],
     accum128 (mm_srli_epi32 (d ! 23) (27 - 8))
       [mm_slli_epi32 (d ! 24) 8],
     accum128 (mm_srli_epi32 (d ! 24) (27 - 3))
       [mm_slli_epi32 (d ! 25) 3, mm_slli_epi32 (d ! 26) 30],
     accum128 (mm_srli_epi32 (d ! 26) (27 - 25))
       [mm_slli_epi32 (d ! 27) 25],
     accum128 (mm_srli_epi32 (d ! 27) (27 - 20))
       [mm_slli_epi32 (d ! 28) 20],
     accum128 (mm_srli_epi32 (d ! 28) (27 - 15))
       [mm_slli_epi32 (d ! 29) 15],
     accum128 (mm_srli_epi32 (d ! 29) (27 - 10))
       [mm_slli_epi32 (d ! 30) 10],
     accum128 (mm_srli_epi32 (d ! 30) (27 - 5))
       [mm_slli_epi32 (d ! 31) 5]])"

definition ipackwithoutmask28 :: "(m128i \<Rightarrow> m128i \<Rightarrow> m128i) \<Rightarrow> m128i \<Rightarrow> m128i list \<Rightarrow> m128i list" where
  "ipackwithoutmask28 Delta initOffset inp =
    (let d = deltas Delta initOffset inp in
    [accum128 (d ! 0)
       [mm_slli_epi32 (d ! 1) 28],
     accum128 (mm_srli_epi32 (d ! 1) (28 - 24))
       [mm_slli_epi32 (d ! 2) 24],
     accum128 (mm_srli_epi32 (d ! 2) (28 - 20))
       [mm_slli_epi32 (d ! 3) 20],
     accum128 (mm_srli_epi32 (d ! 3) (28 - 16))
       [mm_slli_epi32 (d ! 4) 16],
     accum128 (mm_srli_epi32 (d ! 4) (28 - 12))
       [mm_slli_epi32 (d ! 5) 12],
     accum128 (mm_srli_epi32 (d ! 5) (28 - 8))
       [mm_slli_epi32 (d ! 6) 8],
     accum128 (mm_srli_epi32 (d ! 6) (28 - 4))
       [mm_slli_epi32 (d ! 7) 4],
     accum128 (d ! 8)
       [mm_slli_epi32 (d ! 9) 28],
     accum128 (mm_srli_epi32 (d ! 9) (28 - 24))
       [mm_slli_epi32 (d ! 10) 24],
     accum128 (mm_srli_epi32 (d ! 10) (28 - 20))
       [mm_slli_epi32 (d ! 11) 20],
     accum128 (mm_srli_epi32 (d ! 11) (28 - 16))
       [mm_slli_epi32 (d ! 12) 16],
     accum128 (mm_srli_epi32 (d ! 12) (28 - 12))
       [mm_slli_epi32 (d ! 13) 12],
     accum128 (mm_srli_epi32 (d ! 13) (28 - 8))
       [mm_slli_epi32 (d ! 14) 8],
     accum128 (mm_srli_epi32 (d ! 14) (28 - 4))
       [mm_slli_epi32 (d ! 15) 4],
     accum128 (d ! 16)
       [mm_slli_epi32 (d ! 17) 28],
     accum128 (mm_srli_epi32 (d ! 17) (28 - 24))
       [mm_slli_epi32 (d ! 18) 24],
     accum128 (mm_srli_epi32 (d ! 18) (28 - 20))
       [mm_slli_epi32 (d ! 19) 20],
     accum128 (mm_srli_epi32 (d ! 19) (28 - 16))
       [mm_slli_epi32 (d ! 20) 16],
     accum128 (mm_srli_epi32 (d ! 20) (28 - 12))
       [mm_slli_epi32 (d ! 21) 12],
     accum128 (mm_srli_epi32 (d ! 21) (28 - 8))
       [mm_slli_epi32 (d ! 22) 8],
     accum128 (mm_srli_epi32 (d ! 22) (28 - 4))
       [mm_slli_epi32 (d ! 23) 4],
     accum128 (d ! 24)
       [mm_slli_epi32 (d ! 25) 28],
     accum128 (mm_srli_epi32 (d ! 25) (28 - 24))
       [mm_slli_epi32 (d ! 26) 24],
     accum128 (mm_srli_epi32 (d ! 26) (28 - 20))
       [mm_slli_epi32 (d ! 27) 20],
     accum128 (mm_srli_epi32 (d ! 27) (28 - 16))
       [mm_slli_epi32 (d ! 28) 16],
     accum128 (mm_srli_epi32 (d ! 28) (28 - 12))
       [mm_slli_epi32 (d ! 29) 12],
     accum128 (mm_srli_epi32 (d ! 29) (28 - 8))
       [mm_slli_epi32 (d ! 30) 8],
     accum128 (mm_srli_epi32 (d ! 30) (28 - 4))
       [mm_slli_epi32 (d ! 31) 4]])"

definition ipackwithoutmask29 :: "(m128i \<Rightarrow> m128i \<Rightarrow> m128i) \<Rightarrow> m128i \<Rightarrow> m128i list \<Rightarrow> m128i list" where
  "ipackwithoutmask29 Delta initOffset inp =
    (let d = deltas Delta initOffset inp in
    [accum128 (d ! 0)
       [mm_slli_epi32 (d ! 1) 29],
     accum128 (mm_srli_epi32 (d ! 1) (29 - 26))
       [mm_slli_epi32 (d ! 2) 26],
     accum128 (mm_srli_epi32 (d ! 2) (29 - 23))
       [mm_slli_epi32 (d ! 3) 23],
     accum128 (mm_srli_epi32 (d ! 3) (29 - 20))
       [mm_slli_epi32 (d ! 4) 20],
     accum128 (mm_srli_epi32 (d ! 4) (29 - 17))
       [mm_slli_epi32 (d ! 5) 17],
     accum128 (mm_srli_epi32 (d ! 5) (29 - 14))
       [mm_slli_epi32 (d ! 6) 14],
     accum128 (mm_srli_epi32 (d ! 6) (29 - 11))
       [mm_slli_epi32 (d ! 7) 11],
     accum128 (mm_srli_epi32 (d ! 7) (29 - 8))
       [mm_slli_epi32 (d ! 8) 8],
     accum128 (mm_srli_epi32 (d ! 8) (29 - 5))
       [mm_slli_epi32 (d ! 9) 5],
     accum128 (mm_srli_epi32 (d ! 9) (29 - 2))
       [mm_slli_epi32 (d ! 10) 2, mm_slli_epi32 (d ! 11) 31],
     accum128 (mm_srli_epi32 (d ! 11) (29 - 28))
       [mm_slli_epi32 (d ! 12) 28],
     accum128 (mm_srli_epi32 (d ! 12) (29 - 25))
       [mm_slli_epi32 (d ! 13) 25],
     accum128 (mm_srli_epi32 (d ! 13) (29 - 22))
       [mm_slli_epi32 (d ! 14) 22],
     accum128 (mm_srli_epi32 (d ! 14) (29 - 19))
       [mm_slli_epi32 (d ! 15) 19],
     accum128 (mm_srli_epi32 (d ! 15) (29 - 16))
       [mm_slli_epi32 (d ! 16) 16],
     accum128 (mm_srli_epi32 (d ! 16) (29 - 13))
       [mm_slli_epi32 (d ! 17) 13],
     accum128 (mm_srli_epi32 (d ! 17) (29 - 10))
       [mm_slli_epi32 (d ! 18) 10],
     accum128 (mm_srli_epi32 (d ! 18) (29 - 7))
       [mm_slli_epi32 (d ! 19) 7],
     accum128 (mm_srli_epi32 (d ! 19) (29 - 4))
       [mm_slli_epi32 (d ! 20) 4],
     accum128 (mm_srli_epi32 (d ! 20) (29 - 1))
       [mm_slli_epi32 (d ! 21) 1, mm_slli_epi32 (d ! 22) 30],
     accum128 (mm_srli_epi32 (d ! 22) (29 - 27))
       [mm_slli_epi32 (d ! 23) 27],
     accum128 (mm_srli_epi32 (d ! 23) (29 - 24))
       [mm_slli_epi32 (d ! 24) 24],
     accum128 (mm_srli_epi32 (d ! 24) (29 - 21))
       [mm_slli_epi32 (d ! 25) 21],
     accum128 (mm_srli_epi32 (d ! 25) (29 - 18))
       [mm_slli_epi32 (d ! 26) 18],
     accum128 (mm_srli_epi32 (d ! 26) (29 - 15))
       [mm_slli_epi32 (d ! 27) 15],
     accum128 (mm_srli_epi32 (d ! 27) (29 - 12))
       [mm_slli_epi32 (d ! 28) 12],
     accum128 (mm_srli_epi32 (d ! 28) (29 - 9))
       [mm_slli_epi32 (d ! 29) 9],
     accum128 (mm_srli_epi32 (d ! 29) (29 - 6))
       [mm_slli_epi32 (d ! 30) 6],
     accum128 (mm_srli_epi32 (d ! 30) (29 - 3))
       [mm_slli_epi32 (d ! 31) 3]])"

definition ipackwithoutmask30 :: "(m128i \<Rightarrow> m128i \<Rightarrow> m128i) \<Rightarrow> m128i \<Rightarrow> m128i list \<Rightarrow> m128i list" where
  "ipackwithoutmask30 Delta initOffset inp =
    (let d = deltas Delta initOffset inp in
    [accum128 (d ! 0)
       [mm_slli_epi32 (d ! 1) 30],
     accum128 (mm_srli_epi32 (d ! 1) (30 - 28))
       [mm_slli_epi32 (d ! 2) 28],
     accum128 (mm_srli_epi32 (d ! 2) (30 - 26))
       [mm_slli_epi32 (d ! 3) 26],
     accum128 (mm_srli_epi32 (d ! 3) (30 - 24))
       [mm_slli_epi32 (d ! 4) 24],
     accum128 (mm_srli_epi32 (d ! 4) (30 - 22))
       [mm_slli_epi32 (d ! 5) 22],
     accum128 (mm_srli_epi32 (d ! 5) (30 - 20))
       [mm_slli_epi32 (d ! 6) 20],
     accum128 (mm_srli_epi32 (d ! 6) (30 - 18))
       [mm_slli_epi32 (d ! 7) 18],
     accum128 (mm_srli_epi32 (d ! 7) (30 - 16))
       [mm_slli_epi32 (d ! 8) 16],
     accum128 (mm_srli_epi32 (d ! 8) (30 - 14))
       [mm_slli_epi32 (d ! 9) 14],
     accum128 (mm_srli_epi32 (d ! 9) (30 - 12))
       [mm_slli_epi32 (d ! 10) 12],
     accum128 (mm_srli_epi32 (d ! 10) (30 - 10))
       [mm_slli_epi32 (d ! 11) 10],
     accum128 (mm_srli_epi32 (d ! 11) (30 - 8))
       [mm_slli_epi32 (d ! 12) 8],
     accum128 (mm_srli_epi32 (d ! 12) (30 - 6))
       [mm_slli_epi32 (d ! 13) 6],
     accum128 (mm_srli_epi32 (d ! 13) (30 - 4))
       [mm_slli_epi32 (d ! 14) 4],
     accum128 (mm_srli_epi32 (d ! 14) (30 - 2))
       [mm_slli_epi32 (d ! 15) 2],
     accum128 (d ! 16)
       [mm_slli_epi32 (d ! 17) 30],
     accum128 (mm_srli_epi32 (d ! 17) (30 - 28))
       [mm_slli_epi32 (d ! 18) 28],
     accum128 (mm_srli_epi32 (d ! 18) (30 - 26))
       [mm_slli_epi32 (d ! 19) 26],
     accum128 (mm_srli_epi32 (d ! 19) (30 - 24))
       [mm_slli_epi32 (d ! 20) 24],
     accum128 (mm_srli_epi32 (d ! 20) (30 - 22))
       [mm_slli_epi32 (d ! 21) 22],
     accum128 (mm_srli_epi32 (d ! 21) (30 - 20))
       [mm_slli_epi32 (d ! 22) 20],
     accum128 (mm_srli_epi32 (d ! 22) (30 - 18))
       [mm_slli_epi32 (d ! 23) 18],
     accum128 (mm_srli_epi32 (d ! 23) (30 - 16))
       [mm_slli_epi32 (d ! 24) 16],
     accum128 (mm_srli_epi32 (d ! 24) (30 - 14))
       [mm_slli_epi32 (d ! 25) 14],
     accum128 (mm_srli_epi32 (d ! 25) (30 - 12))
       [mm_slli_epi32 (d ! 26) 12],
     accum128 (mm_srli_epi32 (d ! 26) (30 - 10))
       [mm_slli_epi32 (d ! 27) 10],
     accum128 (mm_srli_epi32 (d ! 27) (30 - 8))
       [mm_slli_epi32 (d ! 28) 8],
     accum128 (mm_srli_epi32 (d ! 28) (30 - 6))
       [mm_slli_epi32 (d ! 29) 6],
     accum128 (mm_srli_epi32 (d ! 29) (30 - 4))
       [mm_slli_epi32 (d ! 30) 4],
     accum128 (mm_srli_epi32 (d ! 30) (30 - 2))
       [mm_slli_epi32 (d ! 31) 2]])"

definition ipackwithoutmask31 :: "(m128i \<Rightarrow> m128i \<Rightarrow> m128i) \<Rightarrow> m128i \<Rightarrow> m128i list \<Rightarrow> m128i list" where
  "ipackwithoutmask31 Delta initOffset inp =
    (let d = deltas Delta initOffset inp in
    [accum128 (d ! 0)
       [mm_slli_epi32 (d ! 1) 31],
     accum128 (mm_srli_epi32 (d ! 1) (31 - 30))
       [mm_slli_epi32 (d ! 2) 30],
     accum128 (mm_srli_epi32 (d ! 2) (31 - 29))
       [mm_slli_epi32 (d ! 3) 29],
     accum128 (mm_srli_epi32 (d ! 3) (31 - 28))
       [mm_slli_epi32 (d ! 4) 28],
     accum128 (mm_srli_epi32 (d ! 4) (31 - 27))
       [mm_slli_epi32 (d ! 5) 27],
     accum128 (mm_srli_epi32 (d ! 5) (31 - 26))
       [mm_slli_epi32 (d ! 6) 26],
     accum128 (mm_srli_epi32 (d ! 6) (31 - 25))
       [mm_slli_epi32 (d ! 7) 25],
     accum128 (mm_srli_epi32 (d ! 7) (31 - 24))
       [mm_slli_epi32 (d ! 8) 24],
     accum128 (mm_srli_epi32 (d ! 8) (31 - 23))
       [mm_slli_epi32 (d ! 9) 23],
     accum128 (mm_srli_epi32 (d ! 9) (31 - 22))
       [mm_slli_epi32 (d ! 10) 22],
     accum128 (mm_srli_epi32 (d ! 10) (31 - 21))
       [mm_slli_epi32 (d ! 11) 21],
     accum128 (mm_srli_epi32 (d ! 11) (31 - 20))
       [mm_slli_epi32 (d ! 12) 20],
     accum128 (mm_srli_epi32 (d ! 12) (31 - 19))
       [mm_slli_epi32 (d ! 13) 19],
     accum128 (mm_srli_epi32 (d ! 13) (31 - 18))
       [mm_slli_epi32 (d ! 14) 18],
     accum128 (mm_srli_epi32 (d ! 14) (31 - 17))
       [mm_slli_epi32 (d ! 15) 17],
     accum128 (mm_srli_epi32 (d ! 15) (31 - 16))
       [mm_slli_epi32 (d ! 16) 16],
     accum128 (mm_srli_epi32 (d ! 16) (31 - 15))
       [mm_slli_epi32 (d ! 17) 15],
     accum128 (mm_srli_epi32 (d ! 17) (31 - 14))
       [mm_slli_epi32 (d ! 18) 14],
     accum128 (mm_srli_epi32 (d ! 18) (31 - 13))
       [mm_slli_epi32 (d ! 19) 13],
     accum128 (mm_srli_epi32 (d ! 19) (31 - 12))
       [mm_slli_epi32 (d ! 20) 12],
     accum128 (mm_srli_epi32 (d ! 20) (31 - 11))
       [mm_slli_epi32 (d ! 21) 11],
     accum128 (mm_srli_epi32 (d ! 21) (31 - 10))
       [mm_slli_epi32 (d ! 22) 10],
     accum128 (mm_srli_epi32 (d ! 22) (31 - 9))
       [mm_slli_epi32 (d ! 23) 9],
     accum128 (mm_srli_epi32 (d ! 23) (31 - 8))
       [mm_slli_epi32 (d ! 24) 8],
     accum128 (mm_srli_epi32 (d ! 24) (31 - 7))
       [mm_slli_epi32 (d ! 25) 7],
     accum128 (mm_srli_epi32 (d ! 25) (31 - 6))
       [mm_slli_epi32 (d ! 26) 6],
     accum128 (mm_srli_epi32 (d ! 26) (31 - 5))
       [mm_slli_epi32 (d ! 27) 5],
     accum128 (mm_srli_epi32 (d ! 27) (31 - 4))
       [mm_slli_epi32 (d ! 28) 4],
     accum128 (mm_srli_epi32 (d ! 28) (31 - 3))
       [mm_slli_epi32 (d ! 29) 3],
     accum128 (mm_srli_epi32 (d ! 29) (31 - 2))
       [mm_slli_epi32 (d ! 30) 2],
     accum128 (mm_srli_epi32 (d ! 30) (31 - 1))
       [mm_slli_epi32 (d ! 31) 1]])"

definition ipackwithoutmask32 :: "(m128i \<Rightarrow> m128i \<Rightarrow> m128i) \<Rightarrow> m128i \<Rightarrow> m128i list \<Rightarrow> m128i list" where
  "ipackwithoutmask32 Delta initOffset inp =
    [inp ! 0, inp ! 1, inp ! 2, inp ! 3, inp ! 4, inp ! 5, inp ! 6, inp ! 7, inp ! 8, inp ! 9,
     inp ! 10, inp ! 11, inp ! 12, inp ! 13, inp ! 14, inp ! 15, inp ! 16, inp ! 17, inp ! 18,
     inp ! 19, inp ! 20, inp ! 21, inp ! 22, inp ! 23, inp ! 24, inp ! 25, inp ! 26, inp ! 27,
     inp ! 28, inp ! 29, inp ! 30, inp ! 31]"

definition ipack0 :: "(m128i \<Rightarrow> m128i \<Rightarrow> m128i) \<Rightarrow> m128i \<Rightarrow> m128i list \<Rightarrow> m128i list" where
  "ipack0 Delta initOffset inp =
    []"

definition ipack1 :: "(m128i \<Rightarrow> m128i \<Rightarrow> m128i) \<Rightarrow> m128i \<Rightarrow> m128i list \<Rightarrow> m128i list" where
  "ipack1 Delta initOffset inp =
    (let d = map (\<lambda>x. mm_and_si128 x (mm_set1_epi32 1)) (deltas Delta initOffset inp) in
    [accum128 (d ! 0)
       [mm_slli_epi32 (d ! 1) 1, mm_slli_epi32 (d ! 2) 2, mm_slli_epi32 (d ! 3) 3,
        mm_slli_epi32 (d ! 4) 4, mm_slli_epi32 (d ! 5) 5, mm_slli_epi32 (d ! 6) 6,
        mm_slli_epi32 (d ! 7) 7, mm_slli_epi32 (d ! 8) 8, mm_slli_epi32 (d ! 9) 9,
        mm_slli_epi32 (d ! 10) 10, mm_slli_epi32 (d ! 11) 11, mm_slli_epi32 (d ! 12) 12,
        mm_slli_epi32 (d ! 13) 13, mm_slli_epi32 (d ! 14) 14, mm_slli_epi32 (d ! 15) 15,
        mm_slli_epi32 (d ! 16) 16, mm_slli_epi32 (d ! 17) 17, mm_slli_epi32 (d ! 18) 18,
        mm_slli_epi32 (d ! 19) 19, mm_slli_epi32 (d ! 20) 20, mm_slli_epi32 (d ! 21) 21,
        mm_slli_epi32 (d ! 22) 22, mm_slli_epi32 (d ! 23) 23, mm_slli_epi32 (d ! 24) 24,
        mm_slli_epi32 (d ! 25) 25, mm_slli_epi32 (d ! 26) 26, mm_slli_epi32 (d ! 27) 27,
        mm_slli_epi32 (d ! 28) 28, mm_slli_epi32 (d ! 29) 29, mm_slli_epi32 (d ! 30) 30,
        mm_slli_epi32 (d ! 31) 31]])"

definition ipack2 :: "(m128i \<Rightarrow> m128i \<Rightarrow> m128i) \<Rightarrow> m128i \<Rightarrow> m128i list \<Rightarrow> m128i list" where
  "ipack2 Delta initOffset inp =
    (let d = map (\<lambda>x. mm_and_si128 x (mm_set1_epi32 3)) (deltas Delta initOffset inp) in
    [accum128 (d ! 0)
       [mm_slli_epi32 (d ! 1) 2, mm_slli_epi32 (d ! 2) 4, mm_slli_epi32 (d ! 3) 6,
        mm_slli_epi32 (d ! 4) 8, mm_slli_epi32 (d ! 5) 10, mm_slli_epi32 (d ! 6) 12,
        mm_slli_epi32 (d ! 7) 14, mm_slli_epi32 (d ! 8) 16, mm_slli_epi32 (d ! 9) 18,
        mm_slli_epi32 (d ! 10) 20, mm_slli_epi32 (d ! 11) 22, mm_slli_epi32 (d ! 12) 24,
        mm_slli_epi32 (d ! 13) 26, mm_slli_epi32 (d ! 14) 28, mm_slli_epi32 (d ! 15) 30],
     accum128 (d ! 16)
       [mm_slli_epi32 (d ! 17) 2, mm_slli_epi32 (d ! 18) 4, mm_slli_epi32 (d ! 19) 6,
        mm_slli_epi32 (d ! 20) 8, mm_slli_epi32 (d ! 21) 10, mm_slli_epi32 (d ! 22) 12,
        mm_slli_epi32 (d ! 23) 14, mm_slli_epi32 (d ! 24) 16, mm_slli_epi32 (d ! 25) 18,
        mm_slli_epi32 (d ! 26) 20, mm_slli_epi32 (d ! 27) 22, mm_slli_epi32 (d ! 28) 24,
        mm_slli_epi32 (d ! 29) 26, mm_slli_epi32 (d ! 30) 28, mm_slli_epi32 (d ! 31) 30]])"

definition ipack3 :: "(m128i \<Rightarrow> m128i \<Rightarrow> m128i) \<Rightarrow> m128i \<Rightarrow> m128i list \<Rightarrow> m128i list" where
  "ipack3 Delta initOffset inp =
    (let d = map (\<lambda>x. mm_and_si128 x (mm_set1_epi32 7)) (deltas Delta initOffset inp) in
    [accum128 (d ! 0)
       [mm_slli_epi32 (d ! 1) 3, mm_slli_epi32 (d ! 2) 6, mm_slli_epi32 (d ! 3) 9,
        mm_slli_epi32 (d ! 4) 12, mm_slli_epi32 (d ! 5) 15, mm_slli_epi32 (d ! 6) 18,
        mm_slli_epi32 (d ! 7) 21, mm_slli_epi32 (d ! 8) 24, mm_slli_epi32 (d ! 9) 27,
        mm_slli_epi32 (d ! 10) 30],
     accum128 (mm_srli_epi32 (d ! 10) (3 - 1))
       [mm_slli_epi32 (d ! 11) 1, mm_slli_epi32 (d ! 12) 4, mm_slli_epi32 (d ! 13) 7,
        mm_slli_epi32 (d ! 14) 10, mm_slli_epi32 (d ! 15) 13, mm_slli_epi32 (d ! 16) 16,
        mm_slli_epi32 (d ! 17) 19, mm_slli_epi32 (d ! 18) 22, mm_slli_epi32 (d ! 19) 25,
        mm_slli_epi32 (d ! 20) 28, mm_slli_epi32 (d ! 21) 31],
     accum128 (mm_srli_epi32 (d ! 21) (3 - 2))
       [mm_slli_epi32 (d ! 22) 2, mm_slli_epi32 (d ! 23) 5, mm_slli_epi32 (d ! 24) 8,
        mm_slli_epi32 (d ! 25) 11, mm_slli_epi32 (d ! 26) 14, mm_slli_epi32 (d ! 27) 17,
        mm_slli_epi32 (d ! 28) 20, mm_slli_epi32 (d ! 29) 23, mm_slli_epi32 (d ! 30) 26,
        mm_slli_epi32 (d ! 31) 29]])"

definition ipack4 :: "(m128i \<Rightarrow> m128i \<Rightarrow> m128i) \<Rightarrow> m128i \<Rightarrow> m128i list \<Rightarrow> m128i list" where
  "ipack4 Delta initOffset inp =
    (let d = map (\<lambda>x. mm_and_si128 x (mm_set1_epi32 15)) (deltas Delta initOffset inp) in
    [accum128 (d ! 0)
       [mm_slli_epi32 (d ! 1) 4, mm_slli_epi32 (d ! 2) 8, mm_slli_epi32 (d ! 3) 12,
        mm_slli_epi32 (d ! 4) 16, mm_slli_epi32 (d ! 5) 20, mm_slli_epi32 (d ! 6) 24,
        mm_slli_epi32 (d ! 7) 28],
     accum128 (d ! 8)
       [mm_slli_epi32 (d ! 9) 4, mm_slli_epi32 (d ! 10) 8, mm_slli_epi32 (d ! 11) 12,
        mm_slli_epi32 (d ! 12) 16, mm_slli_epi32 (d ! 13) 20, mm_slli_epi32 (d ! 14) 24,
        mm_slli_epi32 (d ! 15) 28],
     accum128 (d ! 16)
       [mm_slli_epi32 (d ! 17) 4, mm_slli_epi32 (d ! 18) 8, mm_slli_epi32 (d ! 19) 12,
        mm_slli_epi32 (d ! 20) 16, mm_slli_epi32 (d ! 21) 20, mm_slli_epi32 (d ! 22) 24,
        mm_slli_epi32 (d ! 23) 28],
     accum128 (d ! 24)
       [mm_slli_epi32 (d ! 25) 4, mm_slli_epi32 (d ! 26) 8, mm_slli_epi32 (d ! 27) 12,
        mm_slli_epi32 (d ! 28) 16, mm_slli_epi32 (d ! 29) 20, mm_slli_epi32 (d ! 30) 24,
        mm_slli_epi32 (d ! 31) 28]])"

definition ipack5 :: "(m128i \<Rightarrow> m128i \<Rightarrow> m128i) \<Rightarrow> m128i \<Rightarrow> m128i list \<Rightarrow> m128i list" where
  "ipack5 Delta initOffset inp =
    (let d = map (\<lambda>x. mm_and_si128 x (mm_set1_epi32 31)) (deltas Delta initOffset inp) in
    [accum128 (d ! 0)
       [mm_slli_epi32 (d ! 1) 5, mm_slli_epi32 (d ! 2) 10, mm_slli_epi32 (d ! 3) 15,
        mm_slli_epi32 (d ! 4) 20, mm_slli_epi32 (d ! 5) 25, mm_slli_epi32 (d ! 6) 30],
     accum128 (mm_srli_epi32 (d ! 6) (5 - 3))
       [mm_slli_epi32 (d ! 7) 3, mm_slli_epi32 (d ! 8) 8, mm_slli_epi32 (d ! 9) 13,
        mm_slli_epi32 (d ! 10) 18, mm_slli_epi32 (d ! 11) 23, mm_slli_epi32 (d ! 12) 28],
     accum128 (mm_srli_epi32 (d ! 12) (5 - 1))
       [mm_slli_epi32 (d ! 13) 1, mm_slli_epi32 (d ! 14) 6, mm_slli_epi32 (d ! 15) 11,
        mm_slli_epi32 (d ! 16) 16, mm_slli_epi32 (d ! 17) 21, mm_slli_epi32 (d ! 18) 26,
        mm_slli_epi32 (d ! 19) 31],
     accum128 (mm_srli_epi32 (d ! 19) (5 - 4))
       [mm_slli_epi32 (d ! 20) 4, mm_slli_epi32 (d ! 21) 9, mm_slli_epi32 (d ! 22) 14,
        mm_slli_epi32 (d ! 23) 19, mm_slli_epi32 (d ! 24) 24, mm_slli_epi32 (d ! 25) 29],
     accum128 (mm_srli_epi32 (d ! 25) (5 - 2))
       [mm_slli_epi32 (d ! 26) 2, mm_slli_epi32 (d ! 27) 7, mm_slli_epi32 (d ! 28) 12,
        mm_slli_epi32 (d ! 29) 17, mm_slli_epi32 (d ! 30) 22, mm_slli_epi32 (d ! 31) 27]])"

definition ipack6 :: "(m128i \<Rightarrow> m128i \<Rightarrow> m128i) \<Rightarrow> m128i \<Rightarrow> m128i list \<Rightarrow> m128i list" where
  "ipack6 Delta initOffset inp =
    (let d = map (\<lambda>x. mm_and_si128 x (mm_set1_epi32 63)) (deltas Delta initOffset inp) in
    [accum128 (d ! 0)
       [mm_slli_epi32 (d ! 1) 6, mm_slli_epi32 (d ! 2) 12, mm_slli_epi32 (d ! 3) 18,
        mm_slli_epi32 (d ! 4) 24, mm_slli_epi32 (d ! 5) 30],
     accum128 (mm_srli_epi32 (d ! 5) (6 - 4))
       [mm_slli_epi32 (d ! 6) 4, mm_slli_epi32 (d ! 7) 10, mm_slli_epi32 (d ! 8) 16,
        mm_slli_epi32 (d ! 9) 22, mm_slli_epi32 (d ! 10) 28],
     accum128 (mm_srli_epi32 (d ! 10) (6 - 2))
       [mm_slli_epi32 (d ! 11) 2, mm_slli_epi32 (d ! 12) 8, mm_slli_epi32 (d ! 13) 14,
        mm_slli_epi32 (d ! 14) 20, mm_slli_epi32 (d ! 15) 26],
     accum128 (d ! 16)
       [mm_slli_epi32 (d ! 17) 6, mm_slli_epi32 (d ! 18) 12, mm_slli_epi32 (d ! 19) 18,
        mm_slli_epi32 (d ! 20) 24, mm_slli_epi32 (d ! 21) 30],
     accum128 (mm_srli_epi32 (d ! 21) (6 - 4))
       [mm_slli_epi32 (d ! 22) 4, mm_slli_epi32 (d ! 23) 10, mm_slli_epi32 (d ! 24) 16,
        mm_slli_epi32 (d ! 25) 22, mm_slli_epi32 (d ! 26) 28],
     accum128 (mm_srli_epi32 (d ! 26) (6 - 2))
       [mm_slli_epi32 (d ! 27) 2, mm_slli_epi32 (d ! 28) 8, mm_slli_epi32 (d ! 29) 14,
        mm_slli_epi32 (d ! 30) 20, mm_slli_epi32 (d ! 31) 26]])"

definition ipack7 :: "(m128i \<Rightarrow> m128i \<Rightarrow> m128i) \<Rightarrow> m128i \<Rightarrow> m128i list \<Rightarrow> m128i list" where
  "ipack7 Delta initOffset inp =
    (let d = map (\<lambda>x. mm_and_si128 x (mm_set1_epi32 127)) (deltas Delta initOffset inp) in
    [accum128 (d ! 0)
       [mm_slli_epi32 (d ! 1) 7, mm_slli_epi32 (d ! 2) 14, mm_slli_epi32 (d ! 3) 21,
        mm_slli_epi32 (d ! 4) 28],
     accum128 (mm_srli_epi32 (d ! 4) (7 - 3))
       [mm_slli_epi32 (d ! 5) 3, mm_slli_epi32 (d ! 6) 10, mm_slli_epi32 (d ! 7) 17,
        mm_slli_epi32 (d ! 8) 24, mm_slli_epi32 (d ! 9) 31],
     accum128 (mm_srli_epi32 (d ! 9) (7 - 6))
       [mm_slli_epi32 (d ! 10) 6, mm_slli_epi32 (d ! 11) 13, mm_slli_epi32 (d ! 12) 20,
        mm_slli_epi32 (d ! 13) 27],
     accum128 (mm_srli_epi32 (d ! 13) (7 - 2))
       [mm_slli_epi32 (d ! 14) 2, mm_slli_epi32 (d ! 15) 9, mm_slli_epi32 (d ! 16) 16,
        mm_slli_epi32 (d ! 17) 23, mm_slli_epi32 (d ! 18) 30],
     accum128 (mm_srli_epi32 (d ! 18) (7 - 5))
       [mm_slli_epi32 (d ! 19) 5, mm_slli_epi32 (d ! 20) 12, mm_slli_epi32 (d ! 21) 19,
        mm_slli_epi32 (d ! 22) 26],
     accum128 (mm_srli_epi32 (d ! 22) (7 - 1))
       [mm_slli_epi32 (d ! 23) 1, mm_slli_epi32 (d ! 24) 8, mm_slli_epi32 (d ! 25) 15,
        mm_slli_epi32 (d ! 26) 22, mm_slli_epi32 (d ! 27) 29],
     accum128 (mm_srli_epi32 (d ! 27) (7 - 4))
       [mm_slli_epi32 (d ! 28) 4, mm_slli_epi32 (d ! 29) 11, mm_slli_epi32 (d ! 30) 18,
        mm_slli_epi32 (d ! 31) 25]])"

definition ipack8 :: "(m128i \<Rightarrow> m128i \<Rightarrow> m128i) \<Rightarrow> m128i \<Rightarrow> m128i list \<Rightarrow> m128i list" where
  "ipack8 Delta initOffset inp =
    (let d = map (\<lambda>x. mm_and_si128 x (mm_set1_epi32 255)) (deltas Delta initOffset inp) in
    [accum128 (d ! 0)
       [mm_slli_epi32 (d ! 1) 8, mm_slli_epi32 (d ! 2) 16, mm_slli_epi32 (d ! 3) 24],
     accum128 (d ! 4)
       [mm_slli_epi32 (d ! 5) 8, mm_slli_epi32 (d ! 6) 16, mm_slli_epi32 (d ! 7) 24],
     accum128 (d ! 8)
       [mm_slli_epi32 (d ! 9) 8, mm_slli_epi32 (d ! 10) 16, mm_slli_epi32 (d ! 11) 24],
     accum128 (d ! 12)
       [mm_slli_epi32 (d ! 13) 8, mm_slli_epi32 (d ! 14) 16, mm_slli_epi32 (d ! 15) 24],
     accum128 (d ! 16)
       [mm_slli_epi32 (d ! 17) 8, mm_slli_epi32 (d ! 18) 16, mm_slli_epi32 (d ! 19) 24],
     accum128 (d ! 20)
       [mm_slli_epi32 (d ! 21) 8, mm_slli_epi32 (d ! 22) 16, mm_slli_epi32 (d ! 23) 24],
     accum128 (d ! 24)
       [mm_slli_epi32 (d ! 25) 8, mm_slli_epi32 (d ! 26) 16, mm_slli_epi32 (d ! 27) 24],
     accum128 (d ! 28)
       [mm_slli_epi32 (d ! 29) 8, mm_slli_epi32 (d ! 30) 16, mm_slli_epi32 (d ! 31) 24]])"

definition ipack9 :: "(m128i \<Rightarrow> m128i \<Rightarrow> m128i) \<Rightarrow> m128i \<Rightarrow> m128i list \<Rightarrow> m128i list" where
  "ipack9 Delta initOffset inp =
    (let d = map (\<lambda>x. mm_and_si128 x (mm_set1_epi32 511)) (deltas Delta initOffset inp) in
    [accum128 (d ! 0)
       [mm_slli_epi32 (d ! 1) 9, mm_slli_epi32 (d ! 2) 18, mm_slli_epi32 (d ! 3) 27],
     accum128 (mm_srli_epi32 (d ! 3) (9 - 4))
       [mm_slli_epi32 (d ! 4) 4, mm_slli_epi32 (d ! 5) 13, mm_slli_epi32 (d ! 6) 22,
        mm_slli_epi32 (d ! 7) 31],
     accum128 (mm_srli_epi32 (d ! 7) (9 - 8))
       [mm_slli_epi32 (d ! 8) 8, mm_slli_epi32 (d ! 9) 17, mm_slli_epi32 (d ! 10) 26],
     accum128 (mm_srli_epi32 (d ! 10) (9 - 3))
       [mm_slli_epi32 (d ! 11) 3, mm_slli_epi32 (d ! 12) 12, mm_slli_epi32 (d ! 13) 21,
        mm_slli_epi32 (d ! 14) 30],
     accum128 (mm_srli_epi32 (d ! 14) (9 - 7))
       [mm_slli_epi32 (d ! 15) 7, mm_slli_epi32 (d ! 16) 16, mm_slli_epi32 (d ! 17) 25],
     accum128 (mm_srli_epi32 (d ! 17) (9 - 2))
       [mm_slli_epi32 (d ! 18) 2, mm_slli_epi32 (d ! 19) 11, mm_slli_epi32 (d ! 20) 20,
        mm_slli_epi32 (d ! 21) 29],
     accum128 (mm_srli_epi32 (d ! 21) (9 - 6))
       [mm_slli_epi32 (d ! 22) 6, mm_slli_epi32 (d ! 23) 15, mm_slli_epi32 (d ! 24) 24],
     accum128 (mm_srli_epi32 (d ! 24) (9 - 1))
       [mm_slli_epi32 (d ! 25) 1, mm_slli_epi32 (d ! 26) 10, mm_slli_epi32 (d ! 27) 19,
        mm_slli_epi32 (d ! 28) 28],
     accum128 (mm_srli_epi32 (d ! 28) (9 - 5))
       [mm_slli_epi32 (d ! 29) 5, mm_slli_epi32 (d ! 30) 14, mm_slli_epi32 (d ! 31) 23]])"

definition ipack10 :: "(m128i \<Rightarrow> m128i \<Rightarrow> m128i) \<Rightarrow> m128i \<Rightarrow> m128i list \<Rightarrow> m128i list" where
  "ipack10 Delta initOffset inp =
    (let d = map (\<lambda>x. mm_and_si128 x (mm_set1_epi32 1023)) (deltas Delta initOffset inp) in
    [accum128 (d ! 0)
       [mm_slli_epi32 (d ! 1) 10, mm_slli_epi32 (d ! 2) 20, mm_slli_epi32 (d ! 3) 30],
     accum128 (mm_srli_epi32 (d ! 3) (10 - 8))
       [mm_slli_epi32 (d ! 4) 8, mm_slli_epi32 (d ! 5) 18, mm_slli_epi32 (d ! 6) 28],
     accum128 (mm_srli_epi32 (d ! 6) (10 - 6))
       [mm_slli_epi32 (d ! 7) 6, mm_slli_epi32 (d ! 8) 16, mm_slli_epi32 (d ! 9) 26],
     accum128 (mm_srli_epi32 (d ! 9) (10 - 4))
       [mm_slli_epi32 (d ! 10) 4, mm_slli_epi32 (d ! 11) 14, mm_slli_epi32 (d ! 12) 24],
     accum128 (mm_srli_epi32 (d ! 12) (10 - 2))
       [mm_slli_epi32 (d ! 13) 2, mm_slli_epi32 (d ! 14) 12, mm_slli_epi32 (d ! 15) 22],
     accum128 (d ! 16)
       [mm_slli_epi32 (d ! 17) 10, mm_slli_epi32 (d ! 18) 20, mm_slli_epi32 (d ! 19) 30],
     accum128 (mm_srli_epi32 (d ! 19) (10 - 8))
       [mm_slli_epi32 (d ! 20) 8, mm_slli_epi32 (d ! 21) 18, mm_slli_epi32 (d ! 22) 28],
     accum128 (mm_srli_epi32 (d ! 22) (10 - 6))
       [mm_slli_epi32 (d ! 23) 6, mm_slli_epi32 (d ! 24) 16, mm_slli_epi32 (d ! 25) 26],
     accum128 (mm_srli_epi32 (d ! 25) (10 - 4))
       [mm_slli_epi32 (d ! 26) 4, mm_slli_epi32 (d ! 27) 14, mm_slli_epi32 (d ! 28) 24],
     accum128 (mm_srli_epi32 (d ! 28) (10 - 2))
       [mm_slli_epi32 (d ! 29) 2, mm_slli_epi32 (d ! 30) 12, mm_slli_epi32 (d ! 31) 22]])"

definition ipack11 :: "(m128i \<Rightarrow> m128i \<Rightarrow> m128i) \<Rightarrow> m128i \<Rightarrow> m128i list \<Rightarrow> m128i list" where
  "ipack11 Delta initOffset inp =
    (let d = map (\<lambda>x. mm_and_si128 x (mm_set1_epi32 2047)) (deltas Delta initOffset inp) in
    [accum128 (d ! 0)
       [mm_slli_epi32 (d ! 1) 11, mm_slli_epi32 (d ! 2) 22],
     accum128 (mm_srli_epi32 (d ! 2) (11 - 1))
       [mm_slli_epi32 (d ! 3) 1, mm_slli_epi32 (d ! 4) 12, mm_slli_epi32 (d ! 5) 23],
     accum128 (mm_srli_epi32 (d ! 5) (11 - 2))
       [mm_slli_epi32 (d ! 6) 2, mm_slli_epi32 (d ! 7) 13, mm_slli_epi32 (d ! 8) 24],
     accum128 (mm_srli_epi32 (d ! 8) (11 - 3))
       [mm_slli_epi32 (d ! 9) 3, mm_slli_epi32 (d ! 10) 14, mm_slli_epi32 (d ! 11) 25],
     accum128 (mm_srli_epi32 (d ! 11) (11 - 4))
       [mm_slli_epi32 (d ! 12) 4, mm_slli_epi32 (d ! 13) 15, mm_slli_epi32 (d ! 14) 26],
     accum128 (mm_srli_epi32 (d ! 14) (11 - 5))
       [mm_slli_epi32 (d ! 15) 5, mm_slli_epi32 (d ! 16) 16, mm_slli_epi32 (d ! 17) 27],
     accum128 (mm_srli_epi32 (d ! 17) (11 - 6))
       [mm_slli_epi32 (d ! 18) 6, mm_slli_epi32 (d ! 19) 17, mm_slli_epi32 (d ! 20) 28],
     accum128 (mm_srli_epi32 (d ! 20) (11 - 7))
       [mm_slli_epi32 (d ! 21) 7, mm_slli_epi32 (d ! 22) 18, mm_slli_epi32 (d ! 23) 29],
     accum128 (mm_srli_epi32 (d ! 23) (11 - 8))
       [mm_slli_epi32 (d ! 24) 8, mm_slli_epi32 (d ! 25) 19, mm_slli_epi32 (d ! 26) 30],
     accum128 (mm_srli_epi32 (d ! 26) (11 - 9))
       [mm_slli_epi32 (d ! 27) 9, mm_slli_epi32 (d ! 28) 20, mm_slli_epi32 (d ! 29) 31],
     accum128 (mm_srli_epi32 (d ! 29) (11 - 10))
       [mm_slli_epi32 (d ! 30) 10, mm_slli_epi32 (d ! 31) 21]])"

definition ipack12 :: "(m128i \<Rightarrow> m128i \<Rightarrow> m128i) \<Rightarrow> m128i \<Rightarrow> m128i list \<Rightarrow> m128i list" where
  "ipack12 Delta initOffset inp =
    (let d = map (\<lambda>x. mm_and_si128 x (mm_set1_epi32 4095)) (deltas Delta initOffset inp) in
    [accum128 (d ! 0)
       [mm_slli_epi32 (d ! 1) 12, mm_slli_epi32 (d ! 2) 24],
     accum128 (mm_srli_epi32 (d ! 2) (12 - 4))
       [mm_slli_epi32 (d ! 3) 4, mm_slli_epi32 (d ! 4) 16, mm_slli_epi32 (d ! 5) 28],
     accum128 (mm_srli_epi32 (d ! 5) (12 - 8))
       [mm_slli_epi32 (d ! 6) 8, mm_slli_epi32 (d ! 7) 20],
     accum128 (d ! 8)
       [mm_slli_epi32 (d ! 9) 12, mm_slli_epi32 (d ! 10) 24],
     accum128 (mm_srli_epi32 (d ! 10) (12 - 4))
       [mm_slli_epi32 (d ! 11) 4, mm_slli_epi32 (d ! 12) 16, mm_slli_epi32 (d ! 13) 28],
     accum128 (mm_srli_epi32 (d ! 13) (12 - 8))
       [mm_slli_epi32 (d ! 14) 8, mm_slli_epi32 (d ! 15) 20],
     accum128 (d ! 16)
       [mm_slli_epi32 (d ! 17) 12, mm_slli_epi32 (d ! 18) 24],
     accum128 (mm_srli_epi32 (d ! 18) (12 - 4))
       [mm_slli_epi32 (d ! 19) 4, mm_slli_epi32 (d ! 20) 16, mm_slli_epi32 (d ! 21) 28],
     accum128 (mm_srli_epi32 (d ! 21) (12 - 8))
       [mm_slli_epi32 (d ! 22) 8, mm_slli_epi32 (d ! 23) 20],
     accum128 (d ! 24)
       [mm_slli_epi32 (d ! 25) 12, mm_slli_epi32 (d ! 26) 24],
     accum128 (mm_srli_epi32 (d ! 26) (12 - 4))
       [mm_slli_epi32 (d ! 27) 4, mm_slli_epi32 (d ! 28) 16, mm_slli_epi32 (d ! 29) 28],
     accum128 (mm_srli_epi32 (d ! 29) (12 - 8))
       [mm_slli_epi32 (d ! 30) 8, mm_slli_epi32 (d ! 31) 20]])"

definition ipack13 :: "(m128i \<Rightarrow> m128i \<Rightarrow> m128i) \<Rightarrow> m128i \<Rightarrow> m128i list \<Rightarrow> m128i list" where
  "ipack13 Delta initOffset inp =
    (let d = map (\<lambda>x. mm_and_si128 x (mm_set1_epi32 8191)) (deltas Delta initOffset inp) in
    [accum128 (d ! 0)
       [mm_slli_epi32 (d ! 1) 13, mm_slli_epi32 (d ! 2) 26],
     accum128 (mm_srli_epi32 (d ! 2) (13 - 7))
       [mm_slli_epi32 (d ! 3) 7, mm_slli_epi32 (d ! 4) 20],
     accum128 (mm_srli_epi32 (d ! 4) (13 - 1))
       [mm_slli_epi32 (d ! 5) 1, mm_slli_epi32 (d ! 6) 14, mm_slli_epi32 (d ! 7) 27],
     accum128 (mm_srli_epi32 (d ! 7) (13 - 8))
       [mm_slli_epi32 (d ! 8) 8, mm_slli_epi32 (d ! 9) 21],
     accum128 (mm_srli_epi32 (d ! 9) (13 - 2))
       [mm_slli_epi32 (d ! 10) 2, mm_slli_epi32 (d ! 11) 15, mm_slli_epi32 (d ! 12) 28],
     accum128 (mm_srli_epi32 (d ! 12) (13 - 9))
       [mm_slli_epi32 (d ! 13) 9, mm_slli_epi32 (d ! 14) 22],
     accum128 (mm_srli_epi32 (d ! 14) (13 - 3))
       [mm_slli_epi32 (d ! 15) 3, mm_slli_epi32 (d ! 16) 16, mm_slli_epi32 (d ! 17) 29],
     accum128 (mm_srli_epi32 (d ! 17) (13 - 10))
       [mm_slli_epi32 (d ! 18) 10, mm_slli_epi32 (d ! 19) 23],
     accum128 (mm_srli_epi32 (d ! 19) (13 - 4))
       [mm_slli_epi32 (d ! 20) 4, mm_slli_epi32 (d ! 21) 17, mm_slli_epi32 (d ! 22) 30],
     accum128 (mm_srli_epi32 (d ! 22) (13 - 11))
       [mm_slli_epi32 (d ! 23) 11, mm_slli_epi32 (d ! 24) 24],
     accum128 (mm_srli_epi32 (d ! 24) (13 - 5))
       [mm_slli_epi32 (d ! 25) 5, mm_slli_epi32 (d ! 26) 18, mm_slli_epi32 (d ! 27) 31],
     accum128 (mm_srli_epi32 (d ! 27) (13 - 12))
       [mm_slli_epi32 (d ! 28) 12, mm_slli_epi32 (d ! 29) 25],
     accum128 (mm_srli_epi32 (d ! 29) (13 - 6))
       [mm_slli_epi32 (d ! 30) 6, mm_slli_epi32 (d ! 31) 19]])"

definition ipack14 :: "(m128i \<Rightarrow> m128i \<Rightarrow> m128i) \<Rightarrow> m128i \<Rightarrow> m128i list \<Rightarrow> m128i list" where
  "ipack14 Delta initOffset inp =
    (let d = map (\<lambda>x. mm_and_si128 x (mm_set1_epi32 16383)) (deltas Delta initOffset inp) in
    [accum128 (d ! 0)
       [mm_slli_epi32 (d ! 1) 14, mm_slli_epi32 (d ! 2) 28],
     accum128 (mm_srli_epi32 (d ! 2) (14 - 10))
       [mm_slli_epi32 (d ! 3) 10, mm_slli_epi32 (d ! 4) 24],
     accum128 (mm_srli_epi32 (d ! 4) (14 - 6))
       [mm_slli_epi32 (d ! 5) 6, mm_slli_epi32 (d ! 6) 20],
     accum128 (mm_srli_epi32 (d ! 6) (14 - 2))
       [mm_slli_epi32 (d ! 7) 2, mm_slli_epi32 (d ! 8) 16, mm_slli_epi32 (d ! 9) 30],
     accum128 (mm_srli_epi32 (d ! 9) (14 - 12))
       [mm_slli_epi32 (d ! 10) 12, mm_slli_epi32 (d ! 11) 26],
     accum128 (mm_srli_epi32 (d ! 11) (14 - 8))
       [mm_slli_epi32 (d ! 12) 8, mm_slli_epi32 (d ! 13) 22],
     accum128 (mm_srli_epi32 (d ! 13) (14 - 4))
       [mm_slli_epi32 (d ! 14) 4, mm_slli_epi32 (d ! 15) 18],
     accum128 (d ! 16)
       [mm_slli_epi32 (d ! 17) 14, mm_slli_epi32 (d ! 18) 28],
     accum128 (mm_srli_epi32 (d ! 18) (14 - 10))
       [mm_slli_epi32 (d ! 19) 10, mm_slli_epi32 (d ! 20) 24],
     accum128 (mm_srli_epi32 (d ! 20) (14 - 6))
       [mm_slli_epi32 (d ! 21) 6, mm_slli_epi32 (d ! 22) 20],
     accum128 (mm_srli_epi32 (d ! 22) (14 - 2))
       [mm_slli_epi32 (d ! 23) 2, mm_slli_epi32 (d ! 24) 16, mm_slli_epi32 (d ! 25) 30],
     accum128 (mm_srli_epi32 (d ! 25) (14 - 12))
       [mm_slli_epi32 (d ! 26) 12, mm_slli_epi32 (d ! 27) 26],
     accum128 (mm_srli_epi32 (d ! 27) (14 - 8))
       [mm_slli_epi32 (d ! 28) 8, mm_slli_epi32 (d ! 29) 22],
     accum128 (mm_srli_epi32 (d ! 29) (14 - 4))
       [mm_slli_epi32 (d ! 30) 4, mm_slli_epi32 (d ! 31) 18]])"

definition ipack15 :: "(m128i \<Rightarrow> m128i \<Rightarrow> m128i) \<Rightarrow> m128i \<Rightarrow> m128i list \<Rightarrow> m128i list" where
  "ipack15 Delta initOffset inp =
    (let d = map (\<lambda>x. mm_and_si128 x (mm_set1_epi32 32767)) (deltas Delta initOffset inp) in
    [accum128 (d ! 0)
       [mm_slli_epi32 (d ! 1) 15, mm_slli_epi32 (d ! 2) 30],
     accum128 (mm_srli_epi32 (d ! 2) (15 - 13))
       [mm_slli_epi32 (d ! 3) 13, mm_slli_epi32 (d ! 4) 28],
     accum128 (mm_srli_epi32 (d ! 4) (15 - 11))
       [mm_slli_epi32 (d ! 5) 11, mm_slli_epi32 (d ! 6) 26],
     accum128 (mm_srli_epi32 (d ! 6) (15 - 9))
       [mm_slli_epi32 (d ! 7) 9, mm_slli_epi32 (d ! 8) 24],
     accum128 (mm_srli_epi32 (d ! 8) (15 - 7))
       [mm_slli_epi32 (d ! 9) 7, mm_slli_epi32 (d ! 10) 22],
     accum128 (mm_srli_epi32 (d ! 10) (15 - 5))
       [mm_slli_epi32 (d ! 11) 5, mm_slli_epi32 (d ! 12) 20],
     accum128 (mm_srli_epi32 (d ! 12) (15 - 3))
       [mm_slli_epi32 (d ! 13) 3, mm_slli_epi32 (d ! 14) 18],
     accum128 (mm_srli_epi32 (d ! 14) (15 - 1))
       [mm_slli_epi32 (d ! 15) 1, mm_slli_epi32 (d ! 16) 16, mm_slli_epi32 (d ! 17) 31],
     accum128 (mm_srli_epi32 (d ! 17) (15 - 14))
       [mm_slli_epi32 (d ! 18) 14, mm_slli_epi32 (d ! 19) 29],
     accum128 (mm_srli_epi32 (d ! 19) (15 - 12))
       [mm_slli_epi32 (d ! 20) 12, mm_slli_epi32 (d ! 21) 27],
     accum128 (mm_srli_epi32 (d ! 21) (15 - 10))
       [mm_slli_epi32 (d ! 22) 10, mm_slli_epi32 (d ! 23) 25],
     accum128 (mm_srli_epi32 (d ! 23) (15 - 8))
       [mm_slli_epi32 (d ! 24) 8, mm_slli_epi32 (d ! 25) 23],
     accum128 (mm_srli_epi32 (d ! 25) (15 - 6))
       [mm_slli_epi32 (d ! 26) 6, mm_slli_epi32 (d ! 27) 21],
     accum128 (mm_srli_epi32 (d ! 27) (15 - 4))
       [mm_slli_epi32 (d ! 28) 4, mm_slli_epi32 (d ! 29) 19],
     accum128 (mm_srli_epi32 (d ! 29) (15 - 2))
       [mm_slli_epi32 (d ! 30) 2, mm_slli_epi32 (d ! 31) 17]])"

definition ipack16 :: "(m128i \<Rightarrow> m128i \<Rightarrow> m128i) \<Rightarrow> m128i \<Rightarrow> m128i list \<Rightarrow> m128i list" where
  "ipack16 Delta initOffset inp =
    (let d = map (\<lambda>x. mm_and_si128 x (mm_set1_epi32 65535)) (deltas Delta initOffset inp) in
    [accum128 (d ! 0)
       [mm_slli_epi32 (d ! 1) 16],
     accum128 (d ! 2)
       [mm_slli_epi32 (d ! 3) 16],
     accum128 (d ! 4)
       [mm_slli_epi32 (d ! 5) 16],
     accum128 (d ! 6)
       [mm_slli_epi32 (d ! 7) 16],
     accum128 (d ! 8)
       [mm_slli_epi32 (d ! 9) 16],
     accum128 (d ! 10)
       [mm_slli_epi32 (d ! 11) 16],
     accum128 (d ! 12)
       [mm_slli_epi32 (d ! 13) 16],
     accum128 (d ! 14)
       [mm_slli_epi32 (d ! 15) 16],
     accum128 (d ! 16)
       [mm_slli_epi32 (d ! 17) 16],
     accum128 (d ! 18)
       [mm_slli_epi32 (d ! 19) 16],
     accum128 (d ! 20)
       [mm_slli_epi32 (d ! 21) 16],
     accum128 (d ! 22)
       [mm_slli_epi32 (d ! 23) 16],
     accum128 (d ! 24)
       [mm_slli_epi32 (d ! 25) 16],
     accum128 (d ! 26)
       [mm_slli_epi32 (d ! 27) 16],
     accum128 (d ! 28)
       [mm_slli_epi32 (d ! 29) 16],
     accum128 (d ! 30)
       [mm_slli_epi32 (d ! 31) 16]])"

definition ipack17 :: "(m128i \<Rightarrow> m128i \<Rightarrow> m128i) \<Rightarrow> m128i \<Rightarrow> m128i list \<Rightarrow> m128i list" where
  "ipack17 Delta initOffset inp =
    (let d = map (\<lambda>x. mm_and_si128 x (mm_set1_epi32 131071)) (deltas Delta initOffset inp) in
    [accum128 (d ! 0)
       [mm_slli_epi32 (d ! 1) 17],
     accum128 (mm_srli_epi32 (d ! 1) (17 - 2))
       [mm_slli_epi32 (d ! 2) 2, mm_slli_epi32 (d ! 3) 19],
     accum128 (mm_srli_epi32 (d ! 3) (17 - 4))
       [mm_slli_epi32 (d ! 4) 4, mm_slli_epi32 (d ! 5) 21],
     accum128 (mm_srli_epi32 (d ! 5) (17 - 6))
       [mm_slli_epi32 (d ! 6) 6, mm_slli_epi32 (d ! 7) 23],
     accum128 (mm_srli_epi32 (d ! 7) (17 - 8))
       [mm_slli_epi32 (d ! 8) 8, mm_slli_epi32 (d ! 9) 25],
     accum128 (mm_srli_epi32 (d ! 9) (17 - 10))
       [mm_slli_epi32 (d ! 10) 10, mm_slli_epi32 (d ! 11) 27],
     accum128 (mm_srli_epi32 (d ! 11) (17 - 12))
       [mm_slli_epi32 (d ! 12) 12, mm_slli_epi32 (d ! 13) 29],
     accum128 (mm_srli_epi32 (d ! 13) (17 - 14))
       [mm_slli_epi32 (d ! 14) 14, mm_slli_epi32 (d ! 15) 31],
     accum128 (mm_srli_epi32 (d ! 15) (17 - 16))
       [mm_slli_epi32 (d ! 16) 16],
     accum128 (mm_srli_epi32 (d ! 16) (17 - 1))
       [mm_slli_epi32 (d ! 17) 1, mm_slli_epi32 (d ! 18) 18],
     accum128 (mm_srli_epi32 (d ! 18) (17 - 3))
       [mm_slli_epi32 (d ! 19) 3, mm_slli_epi32 (d ! 20) 20],
     accum128 (mm_srli_epi32 (d ! 20) (17 - 5))
       [mm_slli_epi32 (d ! 21) 5, mm_slli_epi32 (d ! 22) 22],
     accum128 (mm_srli_epi32 (d ! 22) (17 - 7))
       [mm_slli_epi32 (d ! 23) 7, mm_slli_epi32 (d ! 24) 24],
     accum128 (mm_srli_epi32 (d ! 24) (17 - 9))
       [mm_slli_epi32 (d ! 25) 9, mm_slli_epi32 (d ! 26) 26],
     accum128 (mm_srli_epi32 (d ! 26) (17 - 11))
       [mm_slli_epi32 (d ! 27) 11, mm_slli_epi32 (d ! 28) 28],
     accum128 (mm_srli_epi32 (d ! 28) (17 - 13))
       [mm_slli_epi32 (d ! 29) 13, mm_slli_epi32 (d ! 30) 30],
     accum128 (mm_srli_epi32 (d ! 30) (17 - 15))
       [mm_slli_epi32 (d ! 31) 15]])"

definition ipack18 :: "(m128i \<Rightarrow> m128i \<Rightarrow> m128i) \<Rightarrow> m128i \<Rightarrow> m128i list \<Rightarrow> m128i list" where
  "ipack18 Delta initOffset inp =
    (let d = map (\<lambda>x. mm_and_si128 x (mm_set1_epi32 262143)) (deltas Delta initOffset inp) in
    [accum128 (d ! 0)
       [mm_slli_epi32 (d ! 1) 18],
     accum128 (mm_srli_epi32 (d ! 1) (18 - 4))
       [mm_slli_epi32 (d ! 2) 4, mm_slli_epi32 (d ! 3) 22],
     accum128 (mm_srli_epi32 (d ! 3) (18 - 8))
       [mm_slli_epi32 (d ! 4) 8, mm_slli_epi32 (d ! 5) 26],
     accum128 (mm_srli_epi32 (d ! 5) (18 - 12))
       [mm_slli_epi32 (d ! 6) 12, mm_slli_epi32 (d ! 7) 30],
     accum128 (mm_srli_epi32 (d ! 7) (18 - 16))
       [mm_slli_epi32 (d ! 8) 16],
     accum128 (mm_srli_epi32 (d ! 8) (18 - 2))
       [mm_slli_epi32 (d ! 9) 2, mm_slli_epi32 (d ! 10) 20],
     accum128 (mm_srli_epi32 (d ! 10) (18 - 6))
       [mm_slli_epi32 (d ! 11) 6, mm_slli_epi32 (d ! 12) 24],
     accum128 (mm_srli_epi32 (d ! 12) (18 - 10))
       [mm_slli_epi32 (d ! 13) 10, mm_slli_epi32 (d ! 14) 28],
     accum128 (mm_srli_epi32 (d ! 14) (18 - 14))
       [mm_slli_epi32 (d ! 15) 14],
     accum128 (d ! 16)
       [mm_slli_epi32 (d ! 17) 18],
     accum128 (mm_srli_epi32 (d ! 17) (18 - 4))
       [mm_slli_epi32 (d ! 18) 4, mm_slli_epi32 (d ! 19) 22],
     accum128 (mm_srli_epi32 (d ! 19) (18 - 8))
       [mm_slli_epi32 (d ! 20) 8, mm_slli_epi32 (d ! 21) 26],
     accum128 (mm_srli_epi32 (d ! 21) (18 - 12))
       [mm_slli_epi32 (d ! 22) 12, mm_slli_epi32 (d ! 23) 30],
     accum128 (mm_srli_epi32 (d ! 23) (18 - 16))
       [mm_slli_epi32 (d ! 24) 16],
     accum128 (mm_srli_epi32 (d ! 24) (18 - 2))
       [mm_slli_epi32 (d ! 25) 2, mm_slli_epi32 (d ! 26) 20],
     accum128 (mm_srli_epi32 (d ! 26) (18 - 6))
       [mm_slli_epi32 (d ! 27) 6, mm_slli_epi32 (d ! 28) 24],
     accum128 (mm_srli_epi32 (d ! 28) (18 - 10))
       [mm_slli_epi32 (d ! 29) 10, mm_slli_epi32 (d ! 30) 28],
     accum128 (mm_srli_epi32 (d ! 30) (18 - 14))
       [mm_slli_epi32 (d ! 31) 14]])"

definition ipack19 :: "(m128i \<Rightarrow> m128i \<Rightarrow> m128i) \<Rightarrow> m128i \<Rightarrow> m128i list \<Rightarrow> m128i list" where
  "ipack19 Delta initOffset inp =
    (let d = map (\<lambda>x. mm_and_si128 x (mm_set1_epi32 524287)) (deltas Delta initOffset inp) in
    [accum128 (d ! 0)
       [mm_slli_epi32 (d ! 1) 19],
     accum128 (mm_srli_epi32 (d ! 1) (19 - 6))
       [mm_slli_epi32 (d ! 2) 6, mm_slli_epi32 (d ! 3) 25],
     accum128 (mm_srli_epi32 (d ! 3) (19 - 12))
       [mm_slli_epi32 (d ! 4) 12, mm_slli_epi32 (d ! 5) 31],
     accum128 (mm_srli_epi32 (d ! 5) (19 - 18))
       [mm_slli_epi32 (d ! 6) 18],
     accum128 (mm_srli_epi32 (d ! 6) (19 - 5))
       [mm_slli_epi32 (d ! 7) 5, mm_slli_epi32 (d ! 8) 24],
     accum128 (mm_srli_epi32 (d ! 8) (19 - 11))
       [mm_slli_epi32 (d ! 9) 11, mm_slli_epi32 (d ! 10) 30],
     accum128 (mm_srli_epi32 (d ! 10) (19 - 17))
       [mm_slli_epi32 (d ! 11) 17],
     accum128 (mm_srli_epi32 (d ! 11) (19 - 4))
       [mm_slli_epi32 (d ! 12) 4, mm_slli_epi32 (d ! 13) 23],
     accum128 (mm_srli_epi32 (d ! 13) (19 - 10))
       [mm_slli_epi32 (d ! 14) 10, mm_slli_epi32 (d ! 15) 29],
     accum128 (mm_srli_epi32 (d ! 15) (19 - 16))
       [mm_slli_epi32 (d ! 16) 16],
     accum128 (mm_srli_epi32 (d ! 16) (19 - 3))
       [mm_slli_epi32 (d ! 17) 3, mm_slli_epi32 (d ! 18) 22],
     accum128 (mm_srli_epi32 (d ! 18) (19 - 9))
       [mm_slli_epi32 (d ! 19) 9, mm_slli_epi32 (d ! 20) 28],
     accum128 (mm_srli_epi32 (d ! 20) (19 - 15))
       [mm_slli_epi32 (d ! 21) 15],
     accum128 (mm_srli_epi32 (d ! 21) (19 - 2))
       [mm_slli_epi32 (d ! 22) 2, mm_slli_epi32 (d ! 23) 21],
     accum128 (mm_srli_epi32 (d ! 23) (19 - 8))
       [mm_slli_epi32 (d ! 24) 8, mm_slli_epi32 (d ! 25) 27],
     accum128 (mm_srli_epi32 (d ! 25) (19 - 14))
       [mm_slli_epi32 (d ! 26) 14],
     accum128 (mm_srli_epi32 (d ! 26) (19 - 1))
       [mm_slli_epi32 (d ! 27) 1, mm_slli_epi32 (d ! 28) 20],
     accum128 (mm_srli_epi32 (d ! 28) (19 - 7))
       [mm_slli_epi32 (d ! 29) 7, mm_slli_epi32 (d ! 30) 26],
     accum128 (mm_srli_epi32 (d ! 30) (19 - 13))
       [mm_slli_epi32 (d ! 31) 13]])"

definition ipack20 :: "(m128i \<Rightarrow> m128i \<Rightarrow> m128i) \<Rightarrow> m128i \<Rightarrow> m128i list \<Rightarrow> m128i list" where
  "ipack20 Delta initOffset inp =
    (let d = map (\<lambda>x. mm_and_si128 x (mm_set1_epi32 1048575)) (deltas Delta initOffset inp) in
    [accum128 (d ! 0)
       [mm_slli_epi32 (d ! 1) 20],
     accum128 (mm_srli_epi32 (d ! 1) (20 - 8))
       [mm_slli_epi32 (d ! 2) 8, mm_slli_epi32 (d ! 3) 28],
     accum128 (mm_srli_epi32 (d ! 3) (20 - 16))
       [mm_slli_epi32 (d ! 4) 16],
     accum128 (mm_srli_epi32 (d ! 4) (20 - 4))
       [mm_slli_epi32 (d ! 5) 4, mm_slli_epi32 (d ! 6) 24],
     accum128 (mm_srli_epi32 (d ! 6) (20 - 12))
       [mm_slli_epi32 (d ! 7) 12],
     accum128 (d ! 8)
       [mm_slli_epi32 (d ! 9) 20],
     accum128 (mm_srli_epi32 (d ! 9) (20 - 8))
       [mm_slli_epi32 (d ! 10) 8, mm_slli_epi32 (d ! 11) 28],
     accum128 (mm_srli_epi32 (d ! 11) (20 - 16))
       [mm_slli_epi32 (d ! 12) 16],
     accum128 (mm_srli_epi32 (d ! 12) (20 - 4))
       [mm_slli_epi32 (d ! 13) 4, mm_slli_epi32 (d ! 14) 24],
     accum128 (mm_srli_epi32 (d ! 14) (20 - 12))
       [mm_slli_epi32 (d ! 15) 12],
     accum128 (d ! 16)
       [mm_slli_epi32 (d ! 17) 20],
     accum128 (mm_srli_epi32 (d ! 17) (20 - 8))
       [mm_slli_epi32 (d ! 18) 8, mm_slli_epi32 (d ! 19) 28],
     accum128 (mm_srli_epi32 (d ! 19) (20 - 16))
       [mm_slli_epi32 (d ! 20) 16],
     accum128 (mm_srli_epi32 (d ! 20) (20 - 4))
       [mm_slli_epi32 (d ! 21) 4, mm_slli_epi32 (d ! 22) 24],
     accum128 (mm_srli_epi32 (d ! 22) (20 - 12))
       [mm_slli_epi32 (d ! 23) 12],
     accum128 (d ! 24)
       [mm_slli_epi32 (d ! 25) 20],
     accum128 (mm_srli_epi32 (d ! 25) (20 - 8))
       [mm_slli_epi32 (d ! 26) 8, mm_slli_epi32 (d ! 27) 28],
     accum128 (mm_srli_epi32 (d ! 27) (20 - 16))
       [mm_slli_epi32 (d ! 28) 16],
     accum128 (mm_srli_epi32 (d ! 28) (20 - 4))
       [mm_slli_epi32 (d ! 29) 4, mm_slli_epi32 (d ! 30) 24],
     accum128 (mm_srli_epi32 (d ! 30) (20 - 12))
       [mm_slli_epi32 (d ! 31) 12]])"

definition ipack21 :: "(m128i \<Rightarrow> m128i \<Rightarrow> m128i) \<Rightarrow> m128i \<Rightarrow> m128i list \<Rightarrow> m128i list" where
  "ipack21 Delta initOffset inp =
    (let d = map (\<lambda>x. mm_and_si128 x (mm_set1_epi32 2097151)) (deltas Delta initOffset inp) in
    [accum128 (d ! 0)
       [mm_slli_epi32 (d ! 1) 21],
     accum128 (mm_srli_epi32 (d ! 1) (21 - 10))
       [mm_slli_epi32 (d ! 2) 10, mm_slli_epi32 (d ! 3) 31],
     accum128 (mm_srli_epi32 (d ! 3) (21 - 20))
       [mm_slli_epi32 (d ! 4) 20],
     accum128 (mm_srli_epi32 (d ! 4) (21 - 9))
       [mm_slli_epi32 (d ! 5) 9, mm_slli_epi32 (d ! 6) 30],
     accum128 (mm_srli_epi32 (d ! 6) (21 - 19))
       [mm_slli_epi32 (d ! 7) 19],
     accum128 (mm_srli_epi32 (d ! 7) (21 - 8))
       [mm_slli_epi32 (d ! 8) 8, mm_slli_epi32 (d ! 9) 29],
     accum128 (mm_srli_epi32 (d ! 9) (21 - 18))
       [mm_slli_epi32 (d ! 10) 18],
     accum128 (mm_srli_epi32 (d ! 10) (21 - 7))
       [mm_slli_epi32 (d ! 11) 7, mm_slli_epi32 (d ! 12) 28],
     accum128 (mm_srli_epi32 (d ! 12) (21 - 17))
       [mm_slli_epi32 (d ! 13) 17],
     accum128 (mm_srli_epi32 (d ! 13) (21 - 6))
       [mm_slli_epi32 (d ! 14) 6, mm_slli_epi32 (d ! 15) 27],
     accum128 (mm_srli_epi32 (d ! 15) (21 - 16))
       [mm_slli_epi32 (d ! 16) 16],
     accum128 (mm_srli_epi32 (d ! 16) (21 - 5))
       [mm_slli_epi32 (d ! 17) 5, mm_slli_epi32 (d ! 18) 26],
     accum128 (mm_srli_epi32 (d ! 18) (21 - 15))
       [mm_slli_epi32 (d ! 19) 15],
     accum128 (mm_srli_epi32 (d ! 19) (21 - 4))
       [mm_slli_epi32 (d ! 20) 4, mm_slli_epi32 (d ! 21) 25],
     accum128 (mm_srli_epi32 (d ! 21) (21 - 14))
       [mm_slli_epi32 (d ! 22) 14],
     accum128 (mm_srli_epi32 (d ! 22) (21 - 3))
       [mm_slli_epi32 (d ! 23) 3, mm_slli_epi32 (d ! 24) 24],
     accum128 (mm_srli_epi32 (d ! 24) (21 - 13))
       [mm_slli_epi32 (d ! 25) 13],
     accum128 (mm_srli_epi32 (d ! 25) (21 - 2))
       [mm_slli_epi32 (d ! 26) 2, mm_slli_epi32 (d ! 27) 23],
     accum128 (mm_srli_epi32 (d ! 27) (21 - 12))
       [mm_slli_epi32 (d ! 28) 12],
     accum128 (mm_srli_epi32 (d ! 28) (21 - 1))
       [mm_slli_epi32 (d ! 29) 1, mm_slli_epi32 (d ! 30) 22],
     accum128 (mm_srli_epi32 (d ! 30) (21 - 11))
       [mm_slli_epi32 (d ! 31) 11]])"

definition ipack22 :: "(m128i \<Rightarrow> m128i \<Rightarrow> m128i) \<Rightarrow> m128i \<Rightarrow> m128i list \<Rightarrow> m128i list" where
  "ipack22 Delta initOffset inp =
    (let d = map (\<lambda>x. mm_and_si128 x (mm_set1_epi32 4194303)) (deltas Delta initOffset inp) in
    [accum128 (d ! 0)
       [mm_slli_epi32 (d ! 1) 22],
     accum128 (mm_srli_epi32 (d ! 1) (22 - 12))
       [mm_slli_epi32 (d ! 2) 12],
     accum128 (mm_srli_epi32 (d ! 2) (22 - 2))
       [mm_slli_epi32 (d ! 3) 2, mm_slli_epi32 (d ! 4) 24],
     accum128 (mm_srli_epi32 (d ! 4) (22 - 14))
       [mm_slli_epi32 (d ! 5) 14],
     accum128 (mm_srli_epi32 (d ! 5) (22 - 4))
       [mm_slli_epi32 (d ! 6) 4, mm_slli_epi32 (d ! 7) 26],
     accum128 (mm_srli_epi32 (d ! 7) (22 - 16))
       [mm_slli_epi32 (d ! 8) 16],
     accum128 (mm_srli_epi32 (d ! 8) (22 - 6))
       [mm_slli_epi32 (d ! 9) 6, mm_slli_epi32 (d ! 10) 28],
     accum128 (mm_srli_epi32 (d ! 10) (22 - 18))
       [mm_slli_epi32 (d ! 11) 18],
     accum128 (mm_srli_epi32 (d ! 11) (22 - 8))
       [mm_slli_epi32 (d ! 12) 8, mm_slli_epi32 (d ! 13) 30],
     accum128 (mm_srli_epi32 (d ! 13) (22 - 20))
       [mm_slli_epi32 (d ! 14) 20],
     accum128 (mm_srli_epi32 (d ! 14) (22 - 10))
       [mm_slli_epi32 (d ! 15) 10],
     accum128 (d ! 16)
       [mm_slli_epi32 (d ! 17) 22],
     accum128 (mm_srli_epi32 (d ! 17) (22 - 12))
       [mm_slli_epi32 (d ! 18) 12],
     accum128 (mm_srli_epi32 (d ! 18) (22 - 2))
       [mm_slli_epi32 (d ! 19) 2, mm_slli_epi32 (d ! 20) 24],
     accum128 (mm_srli_epi32 (d ! 20) (22 - 14))
       [mm_slli_epi32 (d ! 21) 14],
     accum128 (mm_srli_epi32 (d ! 21) (22 - 4))
       [mm_slli_epi32 (d ! 22) 4, mm_slli_epi32 (d ! 23) 26],
     accum128 (mm_srli_epi32 (d ! 23) (22 - 16))
       [mm_slli_epi32 (d ! 24) 16],
     accum128 (mm_srli_epi32 (d ! 24) (22 - 6))
       [mm_slli_epi32 (d ! 25) 6, mm_slli_epi32 (d ! 26) 28],
     accum128 (mm_srli_epi32 (d ! 26) (22 - 18))
       [mm_slli_epi32 (d ! 27) 18],
     accum128 (mm_srli_epi32 (d ! 27) (22 - 8))
       [mm_slli_epi32 (d ! 28) 8, mm_slli_epi32 (d ! 29) 30],
     accum128 (mm_srli_epi32 (d ! 29) (22 - 20))
       [mm_slli_epi32 (d ! 30) 20],
     accum128 (mm_srli_epi32 (d ! 30) (22 - 10))
       [mm_slli_epi32 (d ! 31) 10]])"

definition ipack23 :: "(m128i \<Rightarrow> m128i \<Rightarrow> m128i) \<Rightarrow> m128i \<Rightarrow> m128i list \<Rightarrow> m128i list" where
  "ipack23 Delta initOffset inp =
    (let d = map (\<lambda>x. mm_and_si128 x (mm_set1_epi32 8388607)) (deltas Delta initOffset inp) in
    [accum128 (d ! 0)
       [mm_slli_epi32 (d ! 1) 23],
     accum128 (mm_srli_epi32 (d ! 1) (23 - 14))
       [mm_slli_epi32 (d ! 2) 14],
     accum128 (mm_srli_epi32 (d ! 2) (23 - 5))
       [mm_slli_epi32 (d ! 3) 5, mm_slli_epi32 (d ! 4) 28],
     accum128 (mm_srli_epi32 (d ! 4) (23 - 19))
       [mm_slli_epi32 (d ! 5) 19],
     accum128 (mm_srli_epi32 (d ! 5) (23 - 10))
       [mm_slli_epi32 (d ! 6) 10],
     accum128 (mm_srli_epi32 (d ! 6) (23 - 1))
       [mm_slli_epi32 (d ! 7) 1, mm_slli_epi32 (d ! 8) 24],
     accum128 (mm_srli_epi32 (d ! 8) (23 - 15))
       [mm_slli_epi32 (d ! 9) 15],
     accum128 (mm_srli_epi32 (d ! 9) (23 - 6))
       [mm_slli_epi32 (d ! 10) 6, mm_slli_epi32 (d ! 11) 29],
     accum128 (mm_srli_epi32 (d ! 11) (23 - 20))
       [mm_slli_epi32 (d ! 12) 20],
     accum128 (mm_srli_epi32 (d ! 12) (23 - 11))
       [mm_slli_epi32 (d ! 13) 11],
     accum128 (mm_srli_epi32 (d ! 13) (23 - 2))
       [mm_slli_epi32 (d ! 14) 2, mm_slli_epi32 (d ! 15) 25],
     accum128 (mm_srli_epi32 (d ! 15) (23 - 16))
       [mm_slli_epi32 (d ! 16) 16],
     accum128 (mm_srli_epi32 (d ! 16) (23 - 7))
       [mm_slli_epi32 (d ! 17) 7, mm_slli_epi32 (d ! 18) 30],
     accum128 (mm_srli_epi32 (d ! 18) (23 - 21))
       [mm_slli_epi32 (d ! 19) 21],
     accum128 (mm_srli_epi32 (d ! 19) (23 - 12))
       [mm_slli_epi32 (d ! 20) 12],
     accum128 (mm_srli_epi32 (d ! 20) (23 - 3))
       [mm_slli_epi32 (d ! 21) 3, mm_slli_epi32 (d ! 22) 26],
     accum128 (mm_srli_epi32 (d ! 22) (23 - 17))
       [mm_slli_epi32 (d ! 23) 17],
     accum128 (mm_srli_epi32 (d ! 23) (23 - 8))
       [mm_slli_epi32 (d ! 24) 8, mm_slli_epi32 (d ! 25) 31],
     accum128 (mm_srli_epi32 (d ! 25) (23 - 22))
       [mm_slli_epi32 (d ! 26) 22],
     accum128 (mm_srli_epi32 (d ! 26) (23 - 13))
       [mm_slli_epi32 (d ! 27) 13],
     accum128 (mm_srli_epi32 (d ! 27) (23 - 4))
       [mm_slli_epi32 (d ! 28) 4, mm_slli_epi32 (d ! 29) 27],
     accum128 (mm_srli_epi32 (d ! 29) (23 - 18))
       [mm_slli_epi32 (d ! 30) 18],
     accum128 (mm_srli_epi32 (d ! 30) (23 - 9))
       [mm_slli_epi32 (d ! 31) 9]])"

definition ipack24 :: "(m128i \<Rightarrow> m128i \<Rightarrow> m128i) \<Rightarrow> m128i \<Rightarrow> m128i list \<Rightarrow> m128i list" where
  "ipack24 Delta initOffset inp =
    (let d = map (\<lambda>x. mm_and_si128 x (mm_set1_epi32 16777215)) (deltas Delta initOffset inp) in
    [accum128 (d ! 0)
       [mm_slli_epi32 (d ! 1) 24],
     accum128 (mm_srli_epi32 (d ! 1) (24 - 16))
       [mm_slli_epi32 (d ! 2) 16],
     accum128 (mm_srli_epi32 (d ! 2) (24 - 8))
       [mm_slli_epi32 (d ! 3) 8],
     accum128 (d ! 4)
       [mm_slli_epi32 (d ! 5) 24],
     accum128 (mm_srli_epi32 (d ! 5) (24 - 16))
       [mm_slli_epi32 (d ! 6) 16],
     accum128 (mm_srli_epi32 (d ! 6) (24 - 8))
       [mm_slli_epi32 (d ! 7) 8],
     accum128 (d ! 8)
       [mm_slli_epi32 (d ! 9) 24],
     accum128 (mm_srli_epi32 (d ! 9) (24 - 16))
       [mm_slli_epi32 (d ! 10) 16],
     accum128 (mm_srli_epi32 (d ! 10) (24 - 8))
       [mm_slli_epi32 (d ! 11) 8],
     accum128 (d ! 12)
       [mm_slli_epi32 (d ! 13) 24],
     accum128 (mm_srli_epi32 (d ! 13) (24 - 16))
       [mm_slli_epi32 (d ! 14) 16],
     accum128 (mm_srli_epi32 (d ! 14) (24 - 8))
       [mm_slli_epi32 (d ! 15) 8],
     accum128 (d ! 16)
       [mm_slli_epi32 (d ! 17) 24],
     accum128 (mm_srli_epi32 (d ! 17) (24 - 16))
       [mm_slli_epi32 (d ! 18) 16],
     accum128 (mm_srli_epi32 (d ! 18) (24 - 8))
       [mm_slli_epi32 (d ! 19) 8],
     accum128 (d ! 20)
       [mm_slli_epi32 (d ! 21) 24],
     accum128 (mm_srli_epi32 (d ! 21) (24 - 16))
       [mm_slli_epi32 (d ! 22) 16],
     accum128 (mm_srli_epi32 (d ! 22) (24 - 8))
       [mm_slli_epi32 (d ! 23) 8],
     accum128 (d ! 24)
       [mm_slli_epi32 (d ! 25) 24],
     accum128 (mm_srli_epi32 (d ! 25) (24 - 16))
       [mm_slli_epi32 (d ! 26) 16],
     accum128 (mm_srli_epi32 (d ! 26) (24 - 8))
       [mm_slli_epi32 (d ! 27) 8],
     accum128 (d ! 28)
       [mm_slli_epi32 (d ! 29) 24],
     accum128 (mm_srli_epi32 (d ! 29) (24 - 16))
       [mm_slli_epi32 (d ! 30) 16],
     accum128 (mm_srli_epi32 (d ! 30) (24 - 8))
       [mm_slli_epi32 (d ! 31) 8]])"

definition ipack25 :: "(m128i \<Rightarrow> m128i \<Rightarrow> m128i) \<Rightarrow> m128i \<Rightarrow> m128i list \<Rightarrow> m128i list" where
  "ipack25 Delta initOffset inp =
    (let d = map (\<lambda>x. mm_and_si128 x (mm_set1_epi32 33554431)) (deltas Delta initOffset inp) in
    [accum128 (d ! 0)
       [mm_slli_epi32 (d ! 1) 25],
     accum128 (mm_srli_epi32 (d ! 1) (25 - 18))
       [mm_slli_epi32 (d ! 2) 18],
     accum128 (mm_srli_epi32 (d ! 2) (25 - 11))
       [mm_slli_epi32 (d ! 3) 11],
     accum128 (mm_srli_epi32 (d ! 3) (25 - 4))
       [mm_slli_epi32 (d ! 4) 4, mm_slli_epi32 (d ! 5) 29],
     accum128 (mm_srli_epi32 (d ! 5) (25 - 22))
       [mm_slli_epi32 (d ! 6) 22],
     accum128 (mm_srli_epi32 (d ! 6) (25 - 15))
       [mm_slli_epi32 (d ! 7) 15],
     accum128 (mm_srli_epi32 (d ! 7) (25 - 8))
       [mm_slli_epi32 (d ! 8) 8],
     accum128 (mm_srli_epi32 (d ! 8) (25 - 1))
       [mm_slli_epi32 (d ! 9) 1, mm_slli_epi32 (d ! 10) 26],
     accum128 (mm_srli_epi32 (d ! 10) (25 - 19))
       [mm_slli_epi32 (d ! 11) 19],
     accum128 (mm_srli_epi32 (d ! 11) (25 - 12))
       [mm_slli_epi32 (d ! 12) 12],
     accum128 (mm_srli_epi32 (d ! 12) (25 - 5))
       [mm_slli_epi32 (d ! 13) 5, mm_slli_epi32 (d ! 14) 30],
     accum128 (mm_srli_epi32 (d ! 14) (25 - 23))
       [mm_slli_epi32 (d ! 15) 23],
     accum128 (mm_srli_epi32 (d ! 15) (25 - 16))
       [mm_slli_epi32 (d ! 16) 16],
     accum128 (mm_srli_epi32 (d ! 16) (25 - 9))
       [mm_slli_epi32 (d ! 17) 9],
     accum128 (mm_srli_epi32 (d ! 17) (25 - 2))
       [mm_slli_epi32 (d ! 18) 2, mm_slli_epi32 (d ! 19) 27],
     accum128 (mm_srli_epi32 (d ! 19) (25 - 20))
       [mm_slli_epi32 (d ! 20) 20],
     accum128 (mm_srli_epi32 (d ! 20) (25 - 13))
       [mm_slli_epi32 (d ! 21) 13],
     accum128 (mm_srli_epi32 (d ! 21) (25 - 6))
       [mm_slli_epi32 (d ! 22) 6, mm_slli_epi32 (d ! 23) 31],
     accum128 (mm_srli_epi32 (d ! 23) (25 - 24))
       [mm_slli_epi32 (d ! 24) 24],
     accum128 (mm_srli_epi32 (d ! 24) (25 - 17))
       [mm_slli_epi32 (d ! 25) 17],
     accum128 (mm_srli_epi32 (d ! 25) (25 - 10))
       [mm_slli_epi32 (d ! 26) 10],
     accum128 (mm_srli_epi32 (d ! 26) (25 - 3))
       [mm_slli_epi32 (d ! 27) 3, mm_slli_epi32 (d ! 28) 28],
     accum128 (mm_srli_epi32 (d ! 28) (25 - 21))
       [mm_slli_epi32 (d ! 29) 21],
     accum128 (mm_srli_epi32 (d ! 29) (25 - 14))
       [mm_slli_epi32 (d ! 30) 14],
     accum128 (mm_srli_epi32 (d ! 30) (25 - 7))
       [mm_slli_epi32 (d ! 31) 7]])"

definition ipack26 :: "(m128i \<Rightarrow> m128i \<Rightarrow> m128i) \<Rightarrow> m128i \<Rightarrow> m128i list \<Rightarrow> m128i list" where
  "ipack26 Delta initOffset inp =
    (let d = map (\<lambda>x. mm_and_si128 x (mm_set1_epi32 67108863)) (deltas Delta initOffset inp) in
    [accum128 (d ! 0)
       [mm_slli_epi32 (d ! 1) 26],
     accum128 (mm_srli_epi32 (d ! 1) (26 - 20))
       [mm_slli_epi32 (d ! 2) 20],
     accum128 (mm_srli_epi32 (d ! 2) (26 - 14))
       [mm_slli_epi32 (d ! 3) 14],
     accum128 (mm_srli_epi32 (d ! 3) (26 - 8))
       [mm_slli_epi32 (d ! 4) 8],
     accum128 (mm_srli_epi32 (d ! 4) (26 - 2))
       [mm_slli_epi32 (d ! 5) 2, mm_slli_epi32 (d ! 6) 28],
     accum128 (mm_srli_epi32 (d ! 6) (26 - 22))
       [mm_slli_epi32 (d ! 7) 22],
     accum128 (mm_srli_epi32 (d ! 7) (26 - 16))
       [mm_slli_epi32 (d ! 8) 16],
     accum128 (mm_srli_epi32 (d ! 8) (26 - 10))
       [mm_slli_epi32 (d ! 9) 10],
     accum128 (mm_srli_epi32 (d ! 9) (26 - 4))
       [mm_slli_epi32 (d ! 10) 4, mm_slli_epi32 (d ! 11) 30],
     accum128 (mm_srli_epi32 (d ! 11) (26 - 24))
       [mm_slli_epi32 (d ! 12) 24],
     accum128 (mm_srli_epi32 (d ! 12) (26 - 18))
       [mm_slli_epi32 (d ! 13) 18],
     accum128 (mm_srli_epi32 (d ! 13) (26 - 12))
       [mm_slli_epi32 (d ! 14) 12],
     accum128 (mm_srli_epi32 (d ! 14) (26 - 6))
       [mm_slli_epi32 (d ! 15) 6],
     accum128 (d ! 16)
       [mm_slli_epi32 (d ! 17) 26],
     accum128 (mm_srli_epi32 (d ! 17) (26 - 20))
       [mm_slli_epi32 (d ! 18) 20],
     accum128 (mm_srli_epi32 (d ! 18) (26 - 14))
       [mm_slli_epi32 (d ! 19) 14],
     accum128 (mm_srli_epi32 (d ! 19) (26 - 8))
       [mm_slli_epi32 (d ! 20) 8],
     accum128 (mm_srli_epi32 (d ! 20) (26 - 2))
       [mm_slli_epi32 (d ! 21) 2, mm_slli_epi32 (d ! 22) 28],
     accum128 (mm_srli_epi32 (d ! 22) (26 - 22))
       [mm_slli_epi32 (d ! 23) 22],
     accum128 (mm_srli_epi32 (d ! 23) (26 - 16))
       [mm_slli_epi32 (d ! 24) 16],
     accum128 (mm_srli_epi32 (d ! 24) (26 - 10))
       [mm_slli_epi32 (d ! 25) 10],
     accum128 (mm_srli_epi32 (d ! 25) (26 - 4))
       [mm_slli_epi32 (d ! 26) 4, mm_slli_epi32 (d ! 27) 30],
     accum128 (mm_srli_epi32 (d ! 27) (26 - 24))
       [mm_slli_epi32 (d ! 28) 24],
     accum128 (mm_srli_epi32 (d ! 28) (26 - 18))
       [mm_slli_epi32 (d ! 29) 18],
     accum128 (mm_srli_epi32 (d ! 29) (26 - 12))
       [mm_slli_epi32 (d ! 30) 12],
     accum128 (mm_srli_epi32 (d ! 30) (26 - 6))
       [mm_slli_epi32 (d ! 31) 6]])"

definition ipack27 :: "(m128i \<Rightarrow> m128i \<Rightarrow> m128i) \<Rightarrow> m128i \<Rightarrow> m128i list \<Rightarrow> m128i list" where
  "ipack27 Delta initOffset inp =
    (let d = map (\<lambda>x. mm_and_si128 x (mm_set1_epi32 134217727)) (deltas Delta initOffset inp) in
    [accum128 (d ! 0)
       [mm_slli_epi32 (d ! 1) 27],
     accum128 (mm_srli_epi32 (d ! 1) (27 - 22))
       [mm_slli_epi32 (d ! 2) 22],
     accum128 (mm_srli_epi32 (d ! 2) (27 - 17))
       [mm_slli_epi32 (d ! 3) 17],
     accum128 (mm_srli_epi32 (d ! 3) (27 - 12))
       [mm_slli_epi32 (d ! 4) 12],
     accum128 (mm_srli_epi32 (d ! 4) (27 - 7))
       [mm_slli_epi32 (d ! 5) 7],
     accum128 (mm_srli_epi32 (d ! 5) (27 - 2))
       [mm_slli_epi32 (d ! 6) 2, mm_slli_epi32 (d ! 7) 29],
     accum128 (mm_srli_epi32 (d ! 7) (27 - 24))
       [mm_slli_epi32 (d ! 8) 24],
     accum128 (mm_srli_epi32 (d ! 8) (27 - 19))
       [mm_slli_epi32 (d ! 9) 19],
     accum128 (mm_srli_epi32 (d ! 9) (27 - 14))
       [mm_slli_epi32 (d ! 10) 14],
     accum128 (mm_srli_epi32 (d ! 10) (27 - 9))
       [mm_slli_epi32 (d ! 11) 9],
     accum128 (mm_srli_epi32 (d ! 11) (27 - 4))
       [mm_slli_epi32 (d ! 12) 4, mm_slli_epi32 (d ! 13) 31],
     accum128 (mm_srli_epi32 (d ! 13) (27 - 26))
       [mm_slli_epi32 (d ! 14) 26],
     accum128 (mm_srli_epi32 (d ! 14) (27 - 21))
       [mm_slli_epi32 (d ! 15) 21],
     accum128 (mm_srli_epi32 (d ! 15) (27 - 16))
       [mm_slli_epi32 (d ! 16) 16],
     accum128 (mm_srli_epi32 (d ! 16) (27 - 11))
       [mm_slli_epi32 (d ! 17) 11],
     accum128 (mm_srli_epi32 (d ! 17) (27 - 6))
       [mm_slli_epi32 (d ! 18) 6],
     accum128 (mm_srli_epi32 (d ! 18) (27 - 1))
       [mm_slli_epi32 (d ! 19) 1, mm_slli_epi32 (d ! 20) 28],
     accum128 (mm_srli_epi32 (d ! 20) (27 - 23))
       [mm_slli_epi32 (d ! 21) 23],
     accum128 (mm_srli_epi32 (d ! 21) (27 - 18))
       [mm_slli_epi32 (d ! 22) 18],
     accum128 (mm_srli_epi32 (d ! 22) (27 - 13))
       [mm_slli_epi32 (d ! 23) 13],
     accum128 (mm_srli_epi32 (d ! 23) (27 - 8))
       [mm_slli_epi32 (d ! 24) 8],
     accum128 (mm_srli_epi32 (d ! 24) (27 - 3))
       [mm_slli_epi32 (d ! 25) 3, mm_slli_epi32 (d ! 26) 30],
     accum128 (mm_srli_epi32 (d ! 26) (27 - 25))
       [mm_slli_epi32 (d ! 27) 25],
     accum128 (mm_srli_epi32 (d ! 27) (27 - 20))
       [mm_slli_epi32 (d ! 28) 20],
     accum128 (mm_srli_epi32 (d ! 28) (27 - 15))
       [mm_slli_epi32 (d ! 29) 15],
     accum128 (mm_srli_epi32 (d ! 29) (27 - 10))
       [mm_slli_epi32 (d ! 30) 10],
     accum128 (mm_srli_epi32 (d ! 30) (27 - 5))
       [mm_slli_epi32 (d ! 31) 5]])"

definition ipack28 :: "(m128i \<Rightarrow> m128i \<Rightarrow> m128i) \<Rightarrow> m128i \<Rightarrow> m128i list \<Rightarrow> m128i list" where
  "ipack28 Delta initOffset inp =
    (let d = map (\<lambda>x. mm_and_si128 x (mm_set1_epi32 268435455)) (deltas Delta initOffset inp) in
    [accum128 (d ! 0)
       [mm_slli_epi32 (d ! 1) 28],
     accum128 (mm_srli_epi32 (d ! 1) (28 - 24))
       [mm_slli_epi32 (d ! 2) 24],
     accum128 (mm_srli_epi32 (d ! 2) (28 - 20))
       [mm_slli_epi32 (d ! 3) 20],
     accum128 (mm_srli_epi32 (d ! 3) (28 - 16))
       [mm_slli_epi32 (d ! 4) 16],
     accum128 (mm_srli_epi32 (d ! 4) (28 - 12))
       [mm_slli_epi32 (d ! 5) 12],
     accum128 (mm_srli_epi32 (d ! 5) (28 - 8))
       [mm_slli_epi32 (d ! 6) 8],
     accum128 (mm_srli_epi32 (d ! 6) (28 - 4))
       [mm_slli_epi32 (d ! 7) 4],
     accum128 (d ! 8)
       [mm_slli_epi32 (d ! 9) 28],
     accum128 (mm_srli_epi32 (d ! 9) (28 - 24))
       [mm_slli_epi32 (d ! 10) 24],
     accum128 (mm_srli_epi32 (d ! 10) (28 - 20))
       [mm_slli_epi32 (d ! 11) 20],
     accum128 (mm_srli_epi32 (d ! 11) (28 - 16))
       [mm_slli_epi32 (d ! 12) 16],
     accum128 (mm_srli_epi32 (d ! 12) (28 - 12))
       [mm_slli_epi32 (d ! 13) 12],
     accum128 (mm_srli_epi32 (d ! 13) (28 - 8))
       [mm_slli_epi32 (d ! 14) 8],
     accum128 (mm_srli_epi32 (d ! 14) (28 - 4))
       [mm_slli_epi32 (d ! 15) 4],
     accum128 (d ! 16)
       [mm_slli_epi32 (d ! 17) 28],
     accum128 (mm_srli_epi32 (d ! 17) (28 - 24))
       [mm_slli_epi32 (d ! 18) 24],
     accum128 (mm_srli_epi32 (d ! 18) (28 - 20))
       [mm_slli_epi32 (d ! 19) 20],
     accum128 (mm_srli_epi32 (d ! 19) (28 - 16))
       [mm_slli_epi32 (d ! 20) 16],
     accum128 (mm_srli_epi32 (d ! 20) (28 - 12))
       [mm_slli_epi32 (d ! 21) 12],
     accum128 (mm_srli_epi32 (d ! 21) (28 - 8))
       [mm_slli_epi32 (d ! 22) 8],
     accum128 (mm_srli_epi32 (d ! 22) (28 - 4))
       [mm_slli_epi32 (d ! 23) 4],
     accum128 (d ! 24)
       [mm_slli_epi32 (d ! 25) 28],
     accum128 (mm_srli_epi32 (d ! 25) (28 - 24))
       [mm_slli_epi32 (d ! 26) 24],
     accum128 (mm_srli_epi32 (d ! 26) (28 - 20))
       [mm_slli_epi32 (d ! 27) 20],
     accum128 (mm_srli_epi32 (d ! 27) (28 - 16))
       [mm_slli_epi32 (d ! 28) 16],
     accum128 (mm_srli_epi32 (d ! 28) (28 - 12))
       [mm_slli_epi32 (d ! 29) 12],
     accum128 (mm_srli_epi32 (d ! 29) (28 - 8))
       [mm_slli_epi32 (d ! 30) 8],
     accum128 (mm_srli_epi32 (d ! 30) (28 - 4))
       [mm_slli_epi32 (d ! 31) 4]])"

definition ipack29 :: "(m128i \<Rightarrow> m128i \<Rightarrow> m128i) \<Rightarrow> m128i \<Rightarrow> m128i list \<Rightarrow> m128i list" where
  "ipack29 Delta initOffset inp =
    (let d = map (\<lambda>x. mm_and_si128 x (mm_set1_epi32 536870911)) (deltas Delta initOffset inp) in
    [accum128 (d ! 0)
       [mm_slli_epi32 (d ! 1) 29],
     accum128 (mm_srli_epi32 (d ! 1) (29 - 26))
       [mm_slli_epi32 (d ! 2) 26],
     accum128 (mm_srli_epi32 (d ! 2) (29 - 23))
       [mm_slli_epi32 (d ! 3) 23],
     accum128 (mm_srli_epi32 (d ! 3) (29 - 20))
       [mm_slli_epi32 (d ! 4) 20],
     accum128 (mm_srli_epi32 (d ! 4) (29 - 17))
       [mm_slli_epi32 (d ! 5) 17],
     accum128 (mm_srli_epi32 (d ! 5) (29 - 14))
       [mm_slli_epi32 (d ! 6) 14],
     accum128 (mm_srli_epi32 (d ! 6) (29 - 11))
       [mm_slli_epi32 (d ! 7) 11],
     accum128 (mm_srli_epi32 (d ! 7) (29 - 8))
       [mm_slli_epi32 (d ! 8) 8],
     accum128 (mm_srli_epi32 (d ! 8) (29 - 5))
       [mm_slli_epi32 (d ! 9) 5],
     accum128 (mm_srli_epi32 (d ! 9) (29 - 2))
       [mm_slli_epi32 (d ! 10) 2, mm_slli_epi32 (d ! 11) 31],
     accum128 (mm_srli_epi32 (d ! 11) (29 - 28))
       [mm_slli_epi32 (d ! 12) 28],
     accum128 (mm_srli_epi32 (d ! 12) (29 - 25))
       [mm_slli_epi32 (d ! 13) 25],
     accum128 (mm_srli_epi32 (d ! 13) (29 - 22))
       [mm_slli_epi32 (d ! 14) 22],
     accum128 (mm_srli_epi32 (d ! 14) (29 - 19))
       [mm_slli_epi32 (d ! 15) 19],
     accum128 (mm_srli_epi32 (d ! 15) (29 - 16))
       [mm_slli_epi32 (d ! 16) 16],
     accum128 (mm_srli_epi32 (d ! 16) (29 - 13))
       [mm_slli_epi32 (d ! 17) 13],
     accum128 (mm_srli_epi32 (d ! 17) (29 - 10))
       [mm_slli_epi32 (d ! 18) 10],
     accum128 (mm_srli_epi32 (d ! 18) (29 - 7))
       [mm_slli_epi32 (d ! 19) 7],
     accum128 (mm_srli_epi32 (d ! 19) (29 - 4))
       [mm_slli_epi32 (d ! 20) 4],
     accum128 (mm_srli_epi32 (d ! 20) (29 - 1))
       [mm_slli_epi32 (d ! 21) 1, mm_slli_epi32 (d ! 22) 30],
     accum128 (mm_srli_epi32 (d ! 22) (29 - 27))
       [mm_slli_epi32 (d ! 23) 27],
     accum128 (mm_srli_epi32 (d ! 23) (29 - 24))
       [mm_slli_epi32 (d ! 24) 24],
     accum128 (mm_srli_epi32 (d ! 24) (29 - 21))
       [mm_slli_epi32 (d ! 25) 21],
     accum128 (mm_srli_epi32 (d ! 25) (29 - 18))
       [mm_slli_epi32 (d ! 26) 18],
     accum128 (mm_srli_epi32 (d ! 26) (29 - 15))
       [mm_slli_epi32 (d ! 27) 15],
     accum128 (mm_srli_epi32 (d ! 27) (29 - 12))
       [mm_slli_epi32 (d ! 28) 12],
     accum128 (mm_srli_epi32 (d ! 28) (29 - 9))
       [mm_slli_epi32 (d ! 29) 9],
     accum128 (mm_srli_epi32 (d ! 29) (29 - 6))
       [mm_slli_epi32 (d ! 30) 6],
     accum128 (mm_srli_epi32 (d ! 30) (29 - 3))
       [mm_slli_epi32 (d ! 31) 3]])"

definition ipack30 :: "(m128i \<Rightarrow> m128i \<Rightarrow> m128i) \<Rightarrow> m128i \<Rightarrow> m128i list \<Rightarrow> m128i list" where
  "ipack30 Delta initOffset inp =
    (let d = map (\<lambda>x. mm_and_si128 x (mm_set1_epi32 1073741823)) (deltas Delta initOffset inp) in
    [accum128 (d ! 0)
       [mm_slli_epi32 (d ! 1) 30],
     accum128 (mm_srli_epi32 (d ! 1) (30 - 28))
       [mm_slli_epi32 (d ! 2) 28],
     accum128 (mm_srli_epi32 (d ! 2) (30 - 26))
       [mm_slli_epi32 (d ! 3) 26],
     accum128 (mm_srli_epi32 (d ! 3) (30 - 24))
       [mm_slli_epi32 (d ! 4) 24],
     accum128 (mm_srli_epi32 (d ! 4) (30 - 22))
       [mm_slli_epi32 (d ! 5) 22],
     accum128 (mm_srli_epi32 (d ! 5) (30 - 20))
       [mm_slli_epi32 (d ! 6) 20],
     accum128 (mm_srli_epi32 (d ! 6) (30 - 18))
       [mm_slli_epi32 (d ! 7) 18],
     accum128 (mm_srli_epi32 (d ! 7) (30 - 16))
       [mm_slli_epi32 (d ! 8) 16],
     accum128 (mm_srli_epi32 (d ! 8) (30 - 14))
       [mm_slli_epi32 (d ! 9) 14],
     accum128 (mm_srli_epi32 (d ! 9) (30 - 12))
       [mm_slli_epi32 (d ! 10) 12],
     accum128 (mm_srli_epi32 (d ! 10) (30 - 10))
       [mm_slli_epi32 (d ! 11) 10],
     accum128 (mm_srli_epi32 (d ! 11) (30 - 8))
       [mm_slli_epi32 (d ! 12) 8],
     accum128 (mm_srli_epi32 (d ! 12) (30 - 6))
       [mm_slli_epi32 (d ! 13) 6],
     accum128 (mm_srli_epi32 (d ! 13) (30 - 4))
       [mm_slli_epi32 (d ! 14) 4],
     accum128 (mm_srli_epi32 (d ! 14) (30 - 2))
       [mm_slli_epi32 (d ! 15) 2],
     accum128 (d ! 16)
       [mm_slli_epi32 (d ! 17) 30],
     accum128 (mm_srli_epi32 (d ! 17) (30 - 28))
       [mm_slli_epi32 (d ! 18) 28],
     accum128 (mm_srli_epi32 (d ! 18) (30 - 26))
       [mm_slli_epi32 (d ! 19) 26],
     accum128 (mm_srli_epi32 (d ! 19) (30 - 24))
       [mm_slli_epi32 (d ! 20) 24],
     accum128 (mm_srli_epi32 (d ! 20) (30 - 22))
       [mm_slli_epi32 (d ! 21) 22],
     accum128 (mm_srli_epi32 (d ! 21) (30 - 20))
       [mm_slli_epi32 (d ! 22) 20],
     accum128 (mm_srli_epi32 (d ! 22) (30 - 18))
       [mm_slli_epi32 (d ! 23) 18],
     accum128 (mm_srli_epi32 (d ! 23) (30 - 16))
       [mm_slli_epi32 (d ! 24) 16],
     accum128 (mm_srli_epi32 (d ! 24) (30 - 14))
       [mm_slli_epi32 (d ! 25) 14],
     accum128 (mm_srli_epi32 (d ! 25) (30 - 12))
       [mm_slli_epi32 (d ! 26) 12],
     accum128 (mm_srli_epi32 (d ! 26) (30 - 10))
       [mm_slli_epi32 (d ! 27) 10],
     accum128 (mm_srli_epi32 (d ! 27) (30 - 8))
       [mm_slli_epi32 (d ! 28) 8],
     accum128 (mm_srli_epi32 (d ! 28) (30 - 6))
       [mm_slli_epi32 (d ! 29) 6],
     accum128 (mm_srli_epi32 (d ! 29) (30 - 4))
       [mm_slli_epi32 (d ! 30) 4],
     accum128 (mm_srli_epi32 (d ! 30) (30 - 2))
       [mm_slli_epi32 (d ! 31) 2]])"

definition ipack31 :: "(m128i \<Rightarrow> m128i \<Rightarrow> m128i) \<Rightarrow> m128i \<Rightarrow> m128i list \<Rightarrow> m128i list" where
  "ipack31 Delta initOffset inp =
    (let d = map (\<lambda>x. mm_and_si128 x (mm_set1_epi32 2147483647)) (deltas Delta initOffset inp) in
    [accum128 (d ! 0)
       [mm_slli_epi32 (d ! 1) 31],
     accum128 (mm_srli_epi32 (d ! 1) (31 - 30))
       [mm_slli_epi32 (d ! 2) 30],
     accum128 (mm_srli_epi32 (d ! 2) (31 - 29))
       [mm_slli_epi32 (d ! 3) 29],
     accum128 (mm_srli_epi32 (d ! 3) (31 - 28))
       [mm_slli_epi32 (d ! 4) 28],
     accum128 (mm_srli_epi32 (d ! 4) (31 - 27))
       [mm_slli_epi32 (d ! 5) 27],
     accum128 (mm_srli_epi32 (d ! 5) (31 - 26))
       [mm_slli_epi32 (d ! 6) 26],
     accum128 (mm_srli_epi32 (d ! 6) (31 - 25))
       [mm_slli_epi32 (d ! 7) 25],
     accum128 (mm_srli_epi32 (d ! 7) (31 - 24))
       [mm_slli_epi32 (d ! 8) 24],
     accum128 (mm_srli_epi32 (d ! 8) (31 - 23))
       [mm_slli_epi32 (d ! 9) 23],
     accum128 (mm_srli_epi32 (d ! 9) (31 - 22))
       [mm_slli_epi32 (d ! 10) 22],
     accum128 (mm_srli_epi32 (d ! 10) (31 - 21))
       [mm_slli_epi32 (d ! 11) 21],
     accum128 (mm_srli_epi32 (d ! 11) (31 - 20))
       [mm_slli_epi32 (d ! 12) 20],
     accum128 (mm_srli_epi32 (d ! 12) (31 - 19))
       [mm_slli_epi32 (d ! 13) 19],
     accum128 (mm_srli_epi32 (d ! 13) (31 - 18))
       [mm_slli_epi32 (d ! 14) 18],
     accum128 (mm_srli_epi32 (d ! 14) (31 - 17))
       [mm_slli_epi32 (d ! 15) 17],
     accum128 (mm_srli_epi32 (d ! 15) (31 - 16))
       [mm_slli_epi32 (d ! 16) 16],
     accum128 (mm_srli_epi32 (d ! 16) (31 - 15))
       [mm_slli_epi32 (d ! 17) 15],
     accum128 (mm_srli_epi32 (d ! 17) (31 - 14))
       [mm_slli_epi32 (d ! 18) 14],
     accum128 (mm_srli_epi32 (d ! 18) (31 - 13))
       [mm_slli_epi32 (d ! 19) 13],
     accum128 (mm_srli_epi32 (d ! 19) (31 - 12))
       [mm_slli_epi32 (d ! 20) 12],
     accum128 (mm_srli_epi32 (d ! 20) (31 - 11))
       [mm_slli_epi32 (d ! 21) 11],
     accum128 (mm_srli_epi32 (d ! 21) (31 - 10))
       [mm_slli_epi32 (d ! 22) 10],
     accum128 (mm_srli_epi32 (d ! 22) (31 - 9))
       [mm_slli_epi32 (d ! 23) 9],
     accum128 (mm_srli_epi32 (d ! 23) (31 - 8))
       [mm_slli_epi32 (d ! 24) 8],
     accum128 (mm_srli_epi32 (d ! 24) (31 - 7))
       [mm_slli_epi32 (d ! 25) 7],
     accum128 (mm_srli_epi32 (d ! 25) (31 - 6))
       [mm_slli_epi32 (d ! 26) 6],
     accum128 (mm_srli_epi32 (d ! 26) (31 - 5))
       [mm_slli_epi32 (d ! 27) 5],
     accum128 (mm_srli_epi32 (d ! 27) (31 - 4))
       [mm_slli_epi32 (d ! 28) 4],
     accum128 (mm_srli_epi32 (d ! 28) (31 - 3))
       [mm_slli_epi32 (d ! 29) 3],
     accum128 (mm_srli_epi32 (d ! 29) (31 - 2))
       [mm_slli_epi32 (d ! 30) 2],
     accum128 (mm_srli_epi32 (d ! 30) (31 - 1))
       [mm_slli_epi32 (d ! 31) 1]])"

definition ipack32 :: "(m128i \<Rightarrow> m128i \<Rightarrow> m128i) \<Rightarrow> m128i \<Rightarrow> m128i list \<Rightarrow> m128i list" where
  "ipack32 Delta initOffset inp =
    [inp ! 0, inp ! 1, inp ! 2, inp ! 3, inp ! 4, inp ! 5, inp ! 6, inp ! 7, inp ! 8, inp ! 9,
     inp ! 10, inp ! 11, inp ! 12, inp ! 13, inp ! 14, inp ! 15, inp ! 16, inp ! 17, inp ! 18,
     inp ! 19, inp ! 20, inp ! 21, inp ! 22, inp ! 23, inp ! 24, inp ! 25, inp ! 26, inp ! 27,
     inp ! 28, inp ! 29, inp ! 30, inp ! 31]"

section \<open>The unpackers\<close>

definition iunpack0 :: "(m128i \<Rightarrow> m128i \<Rightarrow> m128i) \<Rightarrow> m128i \<Rightarrow> m128i list \<Rightarrow> m128i list" where
  "iunpack0 PrefixSum initOffset inp =
    prefix_sums PrefixSum initOffset (replicate (8 * 4) (mm_set1_epi32 0))"

definition iunpack1 :: "(m128i \<Rightarrow> m128i \<Rightarrow> m128i) \<Rightarrow> m128i \<Rightarrow> m128i list \<Rightarrow> m128i list" where
  "iunpack1 PrefixSum initOffset inp =
    (let mask = low_mask 1 in prefix_sums PrefixSum initOffset
    [mm_and_si128 (inp ! 0) mask, mm_and_si128 (mm_srli_epi32 (inp ! 0) 1) mask,
     mm_and_si128 (mm_srli_epi32 (inp ! 0) 2) mask,
     mm_and_si128 (mm_srli_epi32 (inp ! 0) 3) mask,
     mm_and_si128 (mm_srli_epi32 (inp ! 0) 4) mask,
     mm_and_si128 (mm_srli_epi32 (inp ! 0) 5) mask,
     mm_and_si128 (mm_srli_epi32 (inp ! 0) 6) mask,
     mm_and_si128 (mm_srli_epi32 (inp ! 0) 7) mask,
     mm_and_si128 (mm_srli_epi32 (inp ! 0) 8) mask,
     mm_and_si128 (mm_srli_epi32 (inp ! 0) 9) mask,
     mm_and_si128 (mm_srli_epi32 (inp ! 0) 10) mask,
     mm_and_si128 (mm_srli_epi32 (inp ! 0) 11) mask,
     mm_and_si128 (mm_srli_epi32 (inp ! 0) 12) mask,
     mm_and_si128 (mm_srli_epi32 (inp ! 0) 13) mask,
     mm_and_si128 (mm_srli_epi32 (inp ! 0) 14) mask,
     mm_and_si128 (mm_srli_epi32 (inp ! 0) 15) mask,
     mm_and_si128 (mm_srli_epi32 (inp ! 0) 16) mask,
     mm_and_si128 (mm_srli_epi32 (inp ! 0) 17) mask,
     mm_and_si128 (mm_srli_epi32 (inp ! 0) 18) mask,
     mm_and_si128 (mm_srli_epi32 (inp ! 0) 19) mask,
     mm_and_si128 (mm_srli_epi32 (inp ! 0) 20) mask,
     mm_and_si128 (mm_srli_epi32 (inp ! 0) 21) mask,
     mm_and_si128 (mm_srli_epi32 (inp ! 0) 22) mask,
     mm_and_si128 (mm_srli_epi32 (inp ! 0) 23) mask,
     mm_and_si128 (mm_srli_epi32 (inp ! 0) 24) mask,
     mm_and_si128 (mm_srli_epi32 (inp ! 0) 25) mask,
     mm_and_si128 (mm_srli_epi32 (inp ! 0) 26) mask,
     mm_and_si128 (mm_srli_epi32 (inp ! 0) 27) mask,
     mm_and_si128 (mm_srli_epi32 (inp ! 0) 28) mask,
     mm_and_si128 (mm_srli_epi32 (inp ! 0) 29) mask,
     mm_and_si128 (mm_srli_epi32 (inp ! 0) 30) mask, mm_srli_epi32 (inp ! 0) 31])"

definition iunpack2 :: "(m128i \<Rightarrow> m128i \<Rightarrow> m128i) \<Rightarrow> m128i \<Rightarrow> m128i list \<Rightarrow> m128i list" where
  "iunpack2 PrefixSum initOffset inp =
    (let mask = low_mask 2 in prefix_sums PrefixSum initOffset
    [mm_and_si128 (inp ! 0) mask, mm_and_si128 (mm_srli_epi32 (inp ! 0) 2) mask,
     mm_and_si128 (mm_srli_epi32 (inp ! 0) 4) mask,
     mm_and_si128 (mm_srli_epi32 (inp ! 0) 6) mask,
     mm_and_si128 (mm_srli_epi32 (inp ! 0) 8) mask,
     mm_and_si128 (mm_srli_epi32 (inp ! 0) 10) mask,
     mm_and_si128 (mm_srli_epi32 (inp ! 0) 12) mask,
     mm_and_si128 (mm_srli_epi32 (inp ! 0) 14) mask,
     mm_and_si128 (mm_srli_epi32 (inp ! 0) 16) mask,
     mm_and_si128 (mm_srli_epi32 (inp ! 0) 18) mask,
     mm_and_si128 (mm_srli_epi32 (inp ! 0) 20) mask,
     mm_and_si128 (mm_srli_epi32 (inp ! 0) 22) mask,
     mm_and_si128 (mm_srli_epi32 (inp ! 0) 24) mask,
     mm_and_si128 (mm_srli_epi32 (inp ! 0) 26) mask,
     mm_and_si128 (mm_srli_epi32 (inp ! 0) 28) mask, mm_srli_epi32 (inp ! 0) 30,
     mm_and_si128 (inp ! 1) mask, mm_and_si128 (mm_srli_epi32 (inp ! 1) 2) mask,
     mm_and_si128 (mm_srli_epi32 (inp ! 1) 4) mask,
     mm_and_si128 (mm_srli_epi32 (inp ! 1) 6) mask,
     mm_and_si128 (mm_srli_epi32 (inp ! 1) 8) mask,
     mm_and_si128 (mm_srli_epi32 (inp ! 1) 10) mask,
     mm_and_si128 (mm_srli_epi32 (inp ! 1) 12) mask,
     mm_and_si128 (mm_srli_epi32 (inp ! 1) 14) mask,
     mm_and_si128 (mm_srli_epi32 (inp ! 1) 16) mask,
     mm_and_si128 (mm_srli_epi32 (inp ! 1) 18) mask,
     mm_and_si128 (mm_srli_epi32 (inp ! 1) 20) mask,
     mm_and_si128 (mm_srli_epi32 (inp ! 1) 22) mask,
     mm_and_si128 (mm_srli_epi32 (inp ! 1) 24) mask,
     mm_and_si128 (mm_srli_epi32 (inp ! 1) 26) mask,
     mm_and_si128 (mm_srli_epi32 (inp ! 1) 28) mask, mm_srli_epi32 (inp ! 1) 30])"

definition iunpack3 :: "(m128i \<Rightarrow> m128i \<Rightarrow> m128i) \<Rightarrow> m128i \<Rightarrow> m128i list \<Rightarrow> m128i list" where
  "iunpack3 PrefixSum initOffset inp =
    (let mask = low_mask 3 in prefix_sums PrefixSum initOffset
    [mm_and_si128 (inp ! 0) mask, mm_and_si128 (mm_srli_epi32 (inp ! 0) 3) mask,
     mm_and_si128 (mm_srli_epi32 (inp ! 0) 6) mask,
     mm_and_si128 (mm_srli_epi32 (inp ! 0) 9) mask,
     mm_and_si128 (mm_srli_epi32 (inp ! 0) 12) mask,
     mm_and_si128 (mm_srli_epi32 (inp ! 0) 15) mask,
     mm_and_si128 (mm_srli_epi32 (inp ! 0) 18) mask,
     mm_and_si128 (mm_srli_epi32 (inp ! 0) 21) mask,
     mm_and_si128 (mm_srli_epi32 (inp ! 0) 24) mask,
     mm_and_si128 (mm_srli_epi32 (inp ! 0) 27) mask,
     mm_or_si128 (mm_srli_epi32 (inp ! 0) 30) (mm_and_si128 (mm_slli_epi32 (inp ! 1) (3 - 1)) mask),
     mm_and_si128 (mm_srli_epi32 (inp ! 1) 1) mask,
     mm_and_si128 (mm_srli_epi32 (inp ! 1) 4) mask,
     mm_and_si128 (mm_srli_epi32 (inp ! 1) 7) mask,
     mm_and_si128 (mm_srli_epi32 (inp ! 1) 10) mask,
     mm_and_si128 (mm_srli_epi32 (inp ! 1) 13) mask,
     mm_and_si128 (mm_srli_epi32 (inp ! 1) 16) mask,
     mm_and_si128 (mm_srli_epi32 (inp ! 1) 19) mask,
     mm_and_si128 (mm_srli_epi32 (inp ! 1) 22) mask,
     mm_and_si128 (mm_srli_epi32 (inp ! 1) 25) mask,
     mm_and_si128 (mm_srli_epi32 (inp ! 1) 28) mask,
     mm_or_si128 (mm_srli_epi32 (inp ! 1) 31) (mm_and_si128 (mm_slli_epi32 (inp ! 2) (3 - 2)) mask),
     mm_and_si128 (mm_srli_epi32 (inp ! 2) 2) mask,
     mm_and_si128 (mm_srli_epi32 (inp ! 2) 5) mask,
     mm_and_si128 (mm_srli_epi32 (inp ! 2) 8) mask,
     mm_and_si128 (mm_srli_epi32 (inp ! 2) 11) mask,
     mm_and_si128 (mm_srli_epi32 (inp ! 2) 14) mask,
     mm_and_si128 (mm_srli_epi32 (inp ! 2) 17) mask,
     mm_and_si128 (mm_srli_epi32 (inp ! 2) 20) mask,
     mm_and_si128 (mm_srli_epi32 (inp ! 2) 23) mask,
     mm_and_si128 (mm_srli_epi32 (inp ! 2) 26) mask, mm_srli_epi32 (inp ! 2) 29])"

definition iunpack4 :: "(m128i \<Rightarrow> m128i \<Rightarrow> m128i) \<Rightarrow> m128i \<Rightarrow> m128i list \<Rightarrow> m128i list" where
  "iunpack4 PrefixSum initOffset inp =
    (let mask = low_mask 4 in prefix_sums PrefixSum initOffset
    [mm_and_si128 (inp ! 0) mask, mm_and_si128 (mm_srli_epi32 (inp ! 0) 4) mask,
     mm_and_si128 (mm_srli_epi32 (inp ! 0) 8) mask,
     mm_and_si128 (mm_srli_epi32 (inp ! 0) 12) mask,
     mm_and_si128 (mm_srli_epi32 (inp ! 0) 16) mask,
     mm_and_si128 (mm_srli_epi32 (inp ! 0) 20) mask,
     mm_and_si128 (mm_srli_epi32 (inp ! 0) 24) mask, mm_srli_epi32 (inp ! 0) 28,
     mm_and_si128 (inp ! 1) mask, mm_and_si128 (mm_srli_epi32 (inp ! 1) 4) mask,
     mm_and_si128 (mm_srli_epi32 (inp ! 1) 8) mask,
     mm_and_si128 (mm_srli_epi32 (inp ! 1) 12) mask,
     mm_and_si128 (mm_srli_epi32 (inp ! 1) 16) mask,
     mm_and_si128 (mm_srli_epi32 (inp ! 1) 20) mask,
     mm_and_si128 (mm_srli_epi32 (inp ! 1) 24) mask, mm_srli_epi32 (inp ! 1) 28,
     mm_and_si128 (inp ! 2) mask, mm_and_si128 (mm_srli_epi32 (inp ! 2) 4) mask,
     mm_and_si128 (mm_srli_epi32 (inp ! 2) 8) mask,
     mm_and_si128 (mm_srli_epi32 (inp ! 2) 12) mask,
     mm_and_si128 (mm_srli_epi32 (inp ! 2) 16) mask,
     mm_and_si128 (mm_srli_epi32 (inp ! 2) 20) mask,
     mm_and_si128 (mm_srli_epi32 (inp ! 2) 24) mask, mm_srli_epi32 (inp ! 2) 28,
     mm_and_si128 (inp ! 3) mask, mm_and_si128 (mm_srli_epi32 (inp ! 3) 4) mask,
     mm_and_si128 (mm_srli_epi32 (inp ! 3) 8) mask,
     mm_and_si128 (mm_srli_epi32 (inp ! 3) 12) mask,
     mm_and_si128 (mm_srli_epi32 (inp ! 3) 16) mask,
     mm_and_si128 (mm_srli_epi32 (inp ! 3) 20) mask,
     mm_and_si128 (mm_srli_epi32 (inp ! 3) 24) mask, mm_srli_epi32 (inp ! 3) 28])"

definition iunpack5 :: "(m128i \<Rightarrow> m128i \<Rightarrow> m128i) \<Rightarrow> m128i \<Rightarrow> m128i list \<Rightarrow> m128i list" where
  "iunpack5 PrefixSum initOffset inp =
    (let mask = low_mask 5 in prefix_sums PrefixSum initOffset
    [mm_and_si128 (inp ! 0) mask, mm_and_si128 (mm_srli_epi32 (inp ! 0) 5) mask,
     mm_and_si128 (mm_srli_epi32 (inp ! 0) 10) mask,
     mm_and_si128 (mm_srli_epi32 (inp ! 0) 15) mask,
     mm_and_si128 (mm_srli_epi32 (inp ! 0) 20) mask,
     mm_and_si128 (mm_srli_epi32 (inp ! 0) 25) mask,
     mm_or_si128 (mm_srli_epi32 (inp ! 0) 30) (mm_and_si128 (mm_slli_epi32 (inp ! 1) (5 - 3)) mask),
     mm_and_si128 (mm_srli_epi32 (inp ! 1) 3) mask,
     mm_and_si128 (mm_srli_epi32 (inp ! 1) 8) mask,
     mm_and_si128 (mm_srli_epi32 (inp ! 1) 13) mask,
     mm_and_si128 (mm_srli_epi32 (inp ! 1) 18) mask,
     mm_and_si128 (mm_srli_epi32 (inp ! 1) 23) mask,
     mm_or_si128 (mm_srli_epi32 (inp ! 1) 28) (mm_and_si128 (mm_slli_epi32 (inp ! 2) (5 - 1)) mask),
     mm_and_si128 (mm_srli_epi32 (inp ! 2) 1) mask,
     mm_and_si128 (mm_srli_epi32 (inp ! 2) 6) mask,
     mm_and_si128 (mm_srli_epi32 (inp ! 2) 11) mask,
     mm_and_si128 (mm_srli_epi32 (inp ! 2) 16) mask,
     mm_and_si128 (mm_srli_epi32 (inp ! 2) 21) mask,
     mm_and_si128 (mm_srli_epi32 (inp ! 2) 26) mask,
     mm_or_si128 (mm_srli_epi32 (inp ! 2) 31) (mm_and_si128 (mm_slli_epi32 (inp ! 3) (5 - 4)) mask),
     mm_and_si128 (mm_srli_epi32 (inp ! 3) 4) mask,
     mm_and_si128 (mm_srli_epi32 (inp ! 3) 9) mask,
     mm_and_si128 (mm_srli_epi32 (inp ! 3) 14) mask,
     mm_and_si128 (mm_srli_epi32 (inp ! 3) 19) mask,
     mm_and_si128 (mm_srli_epi32 (inp ! 3) 24) mask,
     mm_or_si128 (mm_srli_epi32 (inp ! 3) 29) (mm_and_si128 (mm_slli_epi32 (inp ! 4) (5 - 2)) mask),
     mm_and_si128 (mm_srli_epi32 (inp ! 4) 2) mask,
     mm_and_si128 (mm_srli_epi32 (inp ! 4) 7) mask,
     mm_and_si128 (mm_srli_epi32 (inp ! 4) 12) mask,
     mm_and_si128 (mm_srli_epi32 (inp ! 4) 17) mask,
     mm_and_si128 (mm_srli_epi32 (inp ! 4) 22) mask, mm_srli_epi32 (inp ! 4) 27])"

definition iunpack6 :: "(m128i \<Rightarrow> m128i \<Rightarrow> m128i) \<Rightarrow> m128i \<Rightarrow> m128i list \<Rightarrow> m128i list" where
  "iunpack6 PrefixSum initOffset inp =
    (let mask = low_mask 6 in prefix_sums PrefixSum initOffset
    [mm_and_si128 (inp ! 0) mask, mm_and_si128 (mm_srli_epi32 (inp ! 0) 6) mask,
     mm_and_si128 (mm_srli_epi32 (inp ! 0) 12) mask,
     mm_and_si128 (mm_srli_epi32 (inp ! 0) 18) mask,
     mm_and_si128 (mm_srli_epi32 (inp ! 0) 24) mask,
     mm_or_si128 (mm_srli_epi32 (inp ! 0) 30) (mm_and_si128 (mm_slli_epi32 (inp ! 1) (6 - 4)) mask),
     mm_and_si128 (mm_srli_epi32 (inp ! 1) 4) mask,
     mm_and_si128 (mm_srli_epi32 (inp ! 1) 10) mask,
     mm_and_si128 (mm_srli_epi32 (inp ! 1) 16) mask,
     mm_and_si128 (mm_srli_epi32 (inp ! 1) 22) mask,
     mm_or_si128 (mm_srli_epi32 (inp ! 1) 28) (mm_and_si128 (mm_slli_epi32 (inp ! 2) (6 - 2)) mask),
     mm_and_si128 (mm_srli_epi32 (inp ! 2) 2) mask,
     mm_and_si128 (mm_srli_epi32 (inp ! 2) 8) mask,
     mm_and_si128 (mm_srli_epi32 (inp ! 2) 14) mask,
     mm_and_si128 (mm_srli_epi32 (inp ! 2) 20) mask, mm_srli_epi32 (inp ! 2) 26,
     mm_and_si128 (inp ! 3) mask, mm_and_si128 (mm_srli_epi32 (inp ! 3) 6) mask,
     mm_and_si128 (mm_srli_epi32 (inp ! 3) 12) mask,
     mm_and_si128 (mm_srli_epi32 (inp ! 3) 18) mask,
     mm_and_si128 (mm_srli_epi32 (inp ! 3) 24) mask,
     mm_or_si128 (mm_srli_epi32 (inp ! 3) 30) (mm_and_si128 (mm_slli_epi32 (inp ! 4) (6 - 4)) mask),
     mm_and_si128 (mm_srli_epi32 (inp ! 4) 4) mask,
     mm_and_si128 (mm_srli_epi32 (inp ! 4) 10) mask,
     mm_and_si128 (mm_srli_epi32 (inp ! 4) 16) mask,
     mm_and_si128 (mm_srli_epi32 (inp ! 4) 22) mask,
     mm_or_si128 (mm_srli_epi32 (inp ! 4) 28) (mm_and_si128 (mm_slli_epi32 (inp ! 5) (6 - 2)) mask),
     mm_and_si128 (mm_srli_epi32 (inp ! 5) 2) mask,
     mm_and_si128 (mm_srli_epi32 (inp ! 5) 8) mask,
     mm_and_si128 (mm_srli_epi32 (inp ! 5) 14) mask,
     mm_and_si128 (mm_srli_epi32 (inp ! 5) 20) mask, mm_srli_epi32 (inp ! 5) 26])"

definition iunpack7 :: "(m128i \<Rightarrow> m128i \<Rightarrow> m128i) \<Rightarrow> m128i \<Rightarrow> m128i list \<Rightarrow> m128i list" where
  "iunpack7 PrefixSum initOffset inp =
    (let mask = low_mask 7 in prefix_sums PrefixSum initOffset
    [mm_and_si128 (inp ! 0) mask, mm_and_si128 (mm_srli_epi32 (inp ! 0) 7) mask,
     mm_and_si128 (mm_srli_epi32 (inp ! 0) 14) mask,
     mm_and_si128 (mm_srli_epi32 (inp ! 0) 21) mask,
     mm_or_si128 (mm_srli_epi32 (inp ! 0) 28) (mm_and_si128 (mm_slli_epi32 (inp ! 1) (7 - 3)) mask),
     mm_and_si128 (mm_srli_epi32 (inp ! 1) 3) mask,
     mm_and_si128 (mm_srli_epi32 (inp ! 1) 10) mask,
     mm_and_si128 (mm_srli_epi32 (inp ! 1) 17) mask,
     mm_and_si128 (mm_srli_epi32 (inp ! 1) 24) mask,
     mm_or_si128 (mm_srli_epi32 (inp ! 1) 31) (mm_and_si128 (mm_slli_epi32 (inp ! 2) (7 - 6)) mask),
     mm_and_si128 (mm_srli_epi32 (inp ! 2) 6) mask,
     mm_and_si128 (mm_srli_epi32 (inp ! 2) 13) mask,
     mm_and_si128 (mm_srli_epi32 (inp ! 2) 20) mask,
     mm_or_si128 (mm_srli_epi32 (inp ! 2) 27) (mm_and_si128 (mm_slli_epi32 (inp ! 3) (7 - 2)) mask),
     mm_and_si128 (mm_srli_epi32 (inp ! 3) 2) mask,
     mm_and_si128 (mm_srli_epi32 (inp ! 3) 9) mask,
     mm_and_si128 (mm_srli_epi32 (inp ! 3) 16) mask,
     mm_and_si128 (mm_srli_epi32 (inp ! 3) 23) mask,
     mm_or_si128 (mm_srli_epi32 (inp ! 3) 30) (mm_and_si128 (mm_slli_epi32 (inp ! 4) (7 - 5)) mask),
     mm_and_si128 (mm_srli_epi32 (inp ! 4) 5) mask,
     mm_and_si128 (mm_srli_epi32 (inp ! 4) 12) mask,
     mm_and_si128 (mm_srli_epi32 (inp ! 4) 19) mask,
     mm_or_si128 (mm_srli_epi32 (inp ! 4) 26) (mm_and_si128 (mm_slli_epi32 (inp ! 5) (7 - 1)) mask),
     mm_and_si128 (mm_srli_epi32 (inp ! 5) 1) mask,
     mm_and_si128 (mm_srli_epi32 (inp ! 5) 8) mask,
     mm_and_si128 (mm_srli_epi32 (inp ! 5) 15) mask,
     mm_and_si128 (mm_srli_epi32 (inp ! 5) 22) mask,
     mm_or_si128 (mm_srli_epi32 (inp ! 5) 29) (mm_and_si128 (mm_slli_epi32 (inp ! 6) (7 - 4)) mask),
     mm_and_si128 (mm_srli_epi32 (inp ! 6) 4) mask,
     mm_and_si128 (mm_srli_epi32 (inp ! 6) 11) mask,
     mm_and_si128 (mm_srli_epi32 (inp ! 6) 18) mask, mm_srli_epi32 (inp ! 6) 25])"

definition iunpack8 :: "(m128i \<Rightarrow> m128i \<Rightarrow> m128i) \<Rightarrow> m128i \<Rightarrow> m128i list \<Rightarrow> m128i list" where
  "iunpack8 PrefixSum initOffset inp =
    (let mask = low_mask 8 in prefix_sums PrefixSum initOffset
    [mm_and_si128 (inp ! 0) mask, mm_and_si128 (mm_srli_epi32 (inp ! 0) 8) mask,
     mm_and_si128 (mm_srli_epi32 (inp ! 0) 16) mask, mm_srli_epi32 (inp ! 0) 24,
     mm_and_si128 (inp ! 1) mask, mm_and_si128 (mm_srli_epi32 (inp ! 1) 8) mask,
     mm_and_si128 (mm_srli_epi32 (inp ! 1) 16) mask, mm_srli_epi32 (inp ! 1) 24,
     mm_and_si128 (inp ! 2) mask, mm_and_si128 (mm_srli_epi32 (inp ! 2) 8) mask,
     mm_and_si128 (mm_srli_epi32 (inp ! 2) 16) mask, mm_srli_epi32 (inp ! 2) 24,
     mm_and_si128 (inp ! 3) mask, mm_and_si128 (mm_srli_epi32 (inp ! 3) 8) mask,
     mm_and_si128 (mm_srli_epi32 (inp ! 3) 16) mask, mm_srli_epi32 (inp ! 3) 24,
     mm_and_si128 (inp ! 4) mask, mm_and_si128 (mm_srli_epi32 (inp ! 4) 8) mask,
     mm_and_si128 (mm_srli_epi32 (inp ! 4) 16) mask, mm_srli_epi32 (inp ! 4) 24,
     mm_and_si128 (inp ! 5) mask, mm_and_si128 (mm_srli_epi32 (inp ! 5) 8) mask,
     mm_and_si128 (mm_srli_epi32 (inp ! 5) 16) mask, mm_srli_epi32 (inp ! 5) 24,
     mm_and_si128 (inp ! 6) mask, mm_and_si128 (mm_srli_epi32 (inp ! 6) 8) mask,
     mm_and_si128 (mm_srli_epi32 (inp ! 6) 16) mask, mm_srli_epi32 (inp ! 6) 24,
     mm_and_si128 (inp ! 7) mask, mm_and_si128 (mm_srli_epi32 (inp ! 7) 8) mask,
     mm_and_si128 (mm_srli_epi32 (inp ! 7) 16) mask, mm_srli_epi32 (inp ! 7) 24])"

definition iunpack9 :: "(m128i \<Rightarrow> m128i \<Rightarrow> m128i) \<Rightarrow> m128i \<Rightarrow> m128i list \<Rightarrow> m128i list" where
  "iunpack9 PrefixSum initOffset inp =
    (let mask = low_mask 9 in prefix_sums PrefixSum initOffset
    [mm_and_si128 (inp ! 0) mask, mm_and_si128 (mm_srli_epi32 (inp ! 0) 9) mask,
     mm_and_si128 (mm_srli_epi32 (inp ! 0) 18) mask,
     mm_or_si128 (mm_srli_epi32 (inp ! 0) 27) (mm_and_si128 (mm_slli_epi32 (inp ! 1) (9 - 4)) mask),
     mm_and_si128 (mm_srli_epi32 (inp ! 1) 4) mask,
     mm_and_si128 (mm_srli_epi32 (inp ! 1) 13) mask,
     mm_and_si128 (mm_srli_epi32 (inp ! 1) 22) mask,
     mm_or_si128 (mm_srli_epi32 (inp ! 1) 31) (mm_and_si128 (mm_slli_epi32 (inp ! 2) (9 - 8)) mask),
     mm_and_si128 (mm_srli_epi32 (inp ! 2) 8) mask,
     mm_and_si128 (mm_srli_epi32 (inp ! 2) 17) mask,
     mm_or_si128 (mm_srli_epi32 (inp ! 2) 26) (mm_and_si128 (mm_slli_epi32 (inp ! 3) (9 - 3)) mask),
     mm_and_si128 (mm_srli_epi32 (inp ! 3) 3) mask,
     mm_and_si128 (mm_srli_epi32 (inp ! 3) 12) mask,
     mm_and_si128 (mm_srli_epi32 (inp ! 3) 21) mask,
     mm_or_si128 (mm_srli_epi32 (inp ! 3) 30) (mm_and_si128 (mm_slli_epi32 (inp ! 4) (9 - 7)) mask),
     mm_and_si128 (mm_srli_epi32 (inp ! 4) 7) mask,
     mm_and_si128 (mm_srli_epi32 (inp ! 4) 16) mask,
     mm_or_si128 (mm_srli_epi32 (inp ! 4) 25) (mm_and_si128 (mm_slli_epi32 (inp ! 5) (9 - 2)) mask),
     mm_and_si128 (mm_srli_epi32 (inp ! 5) 2) mask,
     mm_and_si128 (mm_srli_epi32 (inp ! 5) 11) mask,
     mm_and_si128 (mm_srli_epi32 (inp ! 5) 20) mask,
     mm_or_si128 (mm_srli_epi32 (inp ! 5) 29) (mm_and_si128 (mm_slli_epi32 (inp ! 6) (9 - 6)) mask),
     mm_and_si128 (mm_srli_epi32 (inp ! 6) 6) mask,
     mm_and_si128 (mm_srli_epi32 (inp ! 6) 15) mask,
     mm_or_si128 (mm_srli_epi32 (inp ! 6) 24) (mm_and_si128 (mm_slli_epi32 (inp ! 7) (9 - 1)) mask),
     mm_and_si128 (mm_srli_epi32 (inp ! 7) 1) mask,
     mm_and_si128 (mm_srli_epi32 (inp ! 7) 10) mask,
     mm_and_si128 (mm_srli_epi32 (inp ! 7) 19) mask,
     mm_or_si128 (mm_srli_epi32 (inp ! 7) 28) (mm_and_si128 (mm_slli_epi32 (inp ! 8) (9 - 5)) mask),
     mm_and_si128 (mm_srli_epi32 (inp ! 8) 5) mask,
     mm_and_si128 (mm_srli_epi32 (inp ! 8) 14) mask, mm_srli_epi32 (inp ! 8) 23])"

definition iunpack10 :: "(m128i \<Rightarrow> m128i \<Rightarrow> m128i) \<Rightarrow> m128i \<Rightarrow> m128i list \<Rightarrow> m128i list" where
  "iunpack10 PrefixSum initOffset inp =
    (let mask = low_mask 10 in prefix_sums PrefixSum initOffset
    [mm_and_si128 (inp ! 0) mask, mm_and_si128 (mm_srli_epi32 (inp ! 0) 10) mask,
     mm_and_si128 (mm_srli_epi32 (inp ! 0) 20) mask,
     mm_or_si128 (mm_srli_epi32 (inp ! 0) 30) (mm_and_si128 (mm_slli_epi32 (inp ! 1) (10 - 8)) mask),
     mm_and_si128 (mm_srli_epi32 (inp ! 1) 8) mask,
     mm_and_si128 (mm_srli_epi32 (inp ! 1) 18) mask,
     mm_or_si128 (mm_srli_epi32 (inp ! 1) 28) (mm_and_si128 (mm_slli_epi32 (inp ! 2) (10 - 6)) mask),
     mm_and_si128 (mm_srli_epi32 (inp ! 2) 6) mask,
     mm_and_si128 (mm_srli_epi32 (inp ! 2) 16) mask,
     mm_or_si128 (mm_srli_epi32 (inp ! 2) 26) (mm_and_si128 (mm_slli_epi32 (inp ! 3) (10 - 4)) mask),
     mm_and_si128 (mm_srli_epi32 (inp ! 3) 4) mask,
     mm_and_si128 (mm_srli_epi32 (inp ! 3) 14) mask,
     mm_or_si128 (mm_srli_epi32 (inp ! 3) 24) (mm_and_si128 (mm_slli_epi32 (inp ! 4) (10 - 2)) mask),
     mm_and_si128 (mm_srli_epi32 (inp ! 4) 2) mask,
     mm_and_si128 (mm_srli_epi32 (inp ! 4) 12) mask, mm_srli_epi32 (inp ! 4) 22,
     mm_and_si128 (inp ! 5) mask, mm_and_si128 (mm_srli_epi32 (inp ! 5) 10) mask,
     mm_and_si128 (mm_srli_epi32 (inp ! 5) 20) mask,
     mm_or_si128 (mm_srli_epi32 (inp ! 5) 30) (mm_and_si128 (mm_slli_epi32 (inp ! 6) (10 - 8)) mask),
     mm_and_si128 (mm_srli_epi32 (inp ! 6) 8) mask,
     mm_and_si128 (mm_srli_epi32 (inp ! 6) 18) mask,
     mm_or_si128 (mm_srli_epi32 (inp ! 6) 28) (mm_and_si128 (mm_slli_epi32 (inp ! 7) (10 - 6)) mask),
     mm_and_si128 (mm_srli_epi32 (inp ! 7) 6) mask,
     mm_and_si128 (mm_srli_epi32 (inp ! 7) 16) mask,
     mm_or_si128 (mm_srli_epi32 (inp ! 7) 26) (mm_and_si128 (mm_slli_epi32 (inp ! 8) (10 - 4)) mask),
     mm_and_si128 (mm_srli_epi32 (inp ! 8) 4) mask,
     mm_and_si128 (mm_srli_epi32 (inp ! 8) 14) mask,
     mm_or_si128 (mm_srli_epi32 (inp ! 8) 24) (mm_and_si128 (mm_slli_epi32 (inp ! 9) (10 - 2)) mask),
     mm_and_si128 (mm_srli_epi32 (inp ! 9) 2) mask,
     mm_and_si128 (mm_srli_epi32 (inp ! 9) 12) mask, mm_srli_epi32 (inp ! 9) 22])"

definition iunpack11 :: "(m128i \<Rightarrow> m128i \<Rightarrow> m128i) \<Rightarrow> m128i \<Rightarrow> m128i list \<Rightarrow> m128i list" where
  "iunpack11 PrefixSum initOffset inp =
    (let mask = low_mask 11 in prefix_sums PrefixSum initOffset
    [mm_and_si128 (inp ! 0) mask, mm_and_si128 (mm_srli_epi32 (inp ! 0) 11) mask,
     mm_or_si128 (mm_srli_epi32 (inp ! 0) 22) (mm_and_si128 (mm_slli_epi32 (inp ! 1) (11 - 1)) mask),
     mm_and_si128 (mm_srli_epi32 (inp ! 1) 1) mask,
     mm_and_si128 (mm_srli_epi32 (inp ! 1) 12) mask,
     mm_or_si128 (mm_srli_epi32 (inp ! 1) 23) (mm_and_si128 (mm_slli_epi32 (inp ! 2) (11 - 2)) mask),
     mm_and_si128 (mm_srli_epi32 (inp ! 2) 2) mask,
     mm_and_si128 (mm_srli_epi32 (inp ! 2) 13) mask,
     mm_or_si128 (mm_srli_epi32 (inp ! 2) 24) (mm_and_si128 (mm_slli_epi32 (inp ! 3) (11 - 3)) mask),
     mm_and_si128 (mm_srli_epi32 (inp ! 3) 3) mask,
     mm_and_si128 (mm_srli_epi32 (inp ! 3) 14) mask,
     mm_or_si128 (mm_srli_epi32 (inp ! 3) 25) (mm_and_si128 (mm_slli_epi32 (inp ! 4) (11 - 4)) mask),
     mm_and_si128 (mm_srli_epi32 (inp ! 4) 4) mask,
     mm_and_si128 (mm_srli_epi32 (inp ! 4) 15) mask,
     mm_or_si128 (mm_srli_epi32 (inp ! 4) 26) (mm_and_si128 (mm_slli_epi32 (inp ! 5) (11 - 5)) mask),
     mm_and_si128 (mm_srli_epi32 (inp ! 5) 5) mask,
     mm_and_si128 (mm_srli_epi32 (inp ! 5) 16) mask,
     mm_or_si128 (mm_srli_epi32 (inp ! 5) 27) (mm_and_si128 (mm_slli_epi32 (inp ! 6) (11 - 6)) mask),
     mm_and_si128 (mm_srli_epi32 (inp ! 6) 6) mask,
     mm_and_si128 (mm_srli_epi32 (inp ! 6) 17) mask,
     mm_or_si128 (mm_srli_epi32 (inp ! 6) 28) (mm_and_si128 (mm_slli_epi32 (inp ! 7) (11 - 7)) mask),
     mm_and_si128 (mm_srli_epi32 (inp ! 7) 7) mask,
     mm_and_si128 (mm_srli_epi32 (inp ! 7) 18) mask,
     mm_or_si128 (mm_srli_epi32 (inp ! 7) 29) (mm_and_si128 (mm_slli_epi32 (inp ! 8) (11 - 8)) mask),
     mm_and_si128 (mm_srli_epi32 (inp ! 8) 8) mask,
     mm_and_si128 (mm_srli_epi32 (inp ! 8) 19) mask,
     mm_or_si128 (mm_srli_epi32 (inp ! 8) 30) (mm_and_si128 (mm_slli_epi32 (inp ! 9) (11 - 9)) mask),
     mm_and_si128 (mm_srli_epi32 (inp ! 9) 9) mask,
     mm_and_si128 (mm_srli_epi32 (inp ! 9) 20) mask,
     mm_or_si128 (mm_srli_epi32 (inp ! 9) 31) (mm_and_si128 (mm_slli_epi32 (inp ! 10) (11 - 10)) mask),
     mm_and_si128 (mm_srli_epi32 (inp ! 10) 10) mask, mm_srli_epi32 (inp ! 10) 21])"

definition iunpack12 :: "(m128i \<Rightarrow> m128i \<Rightarrow> m128i) \<Rightarrow> m128i \<Rightarrow> m128i list \<Rightarrow> m128i list" where
  "iunpack12 PrefixSum initOffset inp =
    (let mask = low_mask 12 in prefix_sums PrefixSum initOffset
    [mm_and_si128 (inp ! 0) mask, mm_and_si128 (mm_srli_epi32 (inp ! 0) 12) mask,
     mm_or_si128 (mm_srli_epi32 (inp ! 0) 24) (mm_and_si128 (mm_slli_epi32 (inp ! 1) (12 - 4)) mask),
     mm_and_si128 (mm_srli_epi32 (inp ! 1) 4) mask,
     mm_and_si128 (mm_srli_epi32 (inp ! 1) 16) mask,
     mm_or_si128 (mm_srli_epi32 (inp ! 1) 28) (mm_and_si128 (mm_slli_epi32 (inp ! 2) (12 - 8)) mask),
     mm_and_si128 (mm_srli_epi32 (inp ! 2) 8) mask, mm_srli_epi32 (inp ! 2) 20,
     mm_and_si128 (inp ! 3) mask, mm_and_si128 (mm_srli_epi32 (inp ! 3) 12) mask,
     mm_or_si128 (mm_srli_epi32 (inp ! 3) 24) (mm_and_si128 (mm_slli_epi32 (inp ! 4) (12 - 4)) mask),
     mm_and_si128 (mm_srli_epi32 (inp ! 4) 4) mask,
     mm_and_si128 (mm_srli_epi32 (inp ! 4) 16) mask,
     mm_or_si128 (mm_srli_epi32 (inp ! 4) 28) (mm_and_si128 (mm_slli_epi32 (inp ! 5) (12 - 8)) mask),
     mm_and_si128 (mm_srli_epi32 (inp ! 5) 8) mask, mm_srli_epi32 (inp ! 5) 20,
     mm_and_si128 (inp ! 6) mask, mm_and_si128 (mm_srli_epi32 (inp ! 6) 12) mask,
     mm_or_si128 (mm_srli_epi32 (inp ! 6) 24) (mm_and_si128 (mm_slli_epi32 (inp ! 7) (12 - 4)) mask),
     mm_and_si128 (mm_srli_epi32 (inp ! 7) 4) mask,
     mm_and_si128 (mm_srli_epi32 (inp ! 7) 16) mask,
     mm_or_si128 (mm_srli_epi32 (inp ! 7) 28) (mm_and_si128 (mm_slli_epi32 (inp ! 8) (12 - 8)) mask),
     mm_and_si128 (mm_srli_epi32 (inp ! 8) 8) mask, mm_srli_epi32 (inp ! 8) 20,
     mm_and_si128 (inp ! 9) mask, mm_and_si128 (mm_srli_epi32 (inp ! 9) 12) mask,
     mm_or_si128 (mm_srli_epi32 (inp ! 9) 24) (mm_and_si128 (mm_slli_epi32 (inp ! 10) (12 - 4)) mask),
     mm_and_si128 (mm_srli_epi32 (inp ! 10) 4) mask,
     mm_and_si128 (mm_srli_epi32 (inp ! 10) 16) mask,
     mm_or_si128 (mm_srli_epi32 (inp ! 10) 28) (mm_and_si128 (mm_slli_epi32 (inp ! 11) (12 - 8)) mask),
     mm_and_si128 (mm_srli_epi32 (inp ! 11) 8) mask, mm_srli_epi32 (inp ! 11) 20])"

definition iunpack13 :: "(m128i \<Rightarrow> m128i \<Rightarrow> m128i) \<Rightarrow> m128i \<Rightarrow> m128i list \<Rightarrow> m128i list" where
  "iunpack13 PrefixSum initOffset inp =
    (let mask = low_mask 13 in prefix_sums PrefixSum initOffset
    [mm_and_si128 (inp ! 0) mask, mm_and_si128 (mm_srli_epi32 (inp ! 0) 13) mask,
     mm_or_si128 (mm_srli_epi32 (inp ! 0) 26) (mm_and_si128 (mm_slli_epi32 (inp ! 1) (13 - 7)) mask),
     mm_and_si128 (mm_srli_epi32 (inp ! 1) 7) mask,
     mm_or_si128 (mm_srli_epi32 (inp ! 1) 20) (mm_and_si128 (mm_slli_epi32 (inp ! 2) (13 - 1)) mask),
     mm_and_si128 (mm_srli_epi32 (inp ! 2) 1) mask,
     mm_and_si128 (mm_srli_epi32 (inp ! 2) 14) mask,
     mm_or_si128 (mm_srli_epi32 (inp ! 2) 27) (mm_and_si128 (mm_slli_epi32 (inp ! 3) (13 - 8)) mask),
     mm_and_si128 (mm_srli_epi32 (inp ! 3) 8) mask,
     mm_or_si128 (mm_srli_epi32 (inp ! 3) 21) (mm_and_si128 (mm_slli_epi32 (inp ! 4) (13 - 2)) mask),
     mm_and_si128 (mm_srli_epi32 (inp ! 4) 2) mask,
     mm_and_si128 (mm_srli_epi32 (inp ! 4) 15) mask,
     mm_or_si128 (mm_srli_epi32 (inp ! 4) 28) (mm_and_si128 (mm_slli_epi32 (inp ! 5) (13 - 9)) mask),
     mm_and_si128 (mm_srli_epi32 (inp ! 5) 9) mask,
     mm_or_si128 (mm_srli_epi32 (inp ! 5) 22) (mm_and_si128 (mm_slli_epi32 (inp ! 6) (13 - 3)) mask),
     mm_and_si128 (mm_srli_epi32 (inp ! 6) 3) mask,
     mm_and_si128 (mm_srli_epi32 (inp ! 6) 16) mask,
     mm_or_si128 (mm_srli_epi32 (inp ! 6) 29) (mm_and_si128 (mm_slli_epi32 (inp ! 7) (13 - 10)) mask),
     mm_and_si128 (mm_srli_epi32 (inp ! 7) 10) mask,
     mm_or_si128 (mm_srli_epi32 (inp ! 7) 23) (mm_and_si128 (mm_slli_epi32 (inp ! 8) (13 - 4)) mask),
     mm_and_si128 (mm_srli_epi32 (inp ! 8) 4) mask,
     mm_and_si128 (mm_srli_epi32 (inp ! 8) 17) mask,
     mm_or_si128 (mm_srli_epi32 (inp ! 8) 30) (mm_and_si128 (mm_slli_epi32 (inp ! 9) (13 - 11)) mask),
     mm_and_si128 (mm_srli_epi32 (inp ! 9) 11) mask,
     mm_or_si128 (mm_srli_epi32 (inp ! 9) 24) (mm_and_si128 (mm_slli_epi32 (inp ! 10) (13 - 5)) mask),
     mm_and_si128 (mm_srli_epi32 (inp ! 10) 5) mask,
     mm_and_si128 (mm_srli_epi32 (inp ! 10) 18) mask,
     mm_or_si128 (mm_srli_epi32 (inp ! 10) 31) (mm_and_si128 (mm_slli_epi32 (inp ! 11) (13 - 12)) mask),
     mm_and_si128 (mm_srli_epi32 (inp ! 11) 12) mask,
     mm_or_si128 (mm_srli_epi32 (inp ! 11) 25) (mm_and_si128 (mm_slli_epi32 (inp ! 12) (13 - 6)) mask),
     mm_and_si128 (mm_srli_epi32 (inp ! 12) 6) mask, mm_srli_epi32 (inp ! 12) 19])"

definition iunpack14 :: "(m128i \<Rightarrow> m128i \<Rightarrow> m128i) \<Rightarrow> m128i \<Rightarrow> m128i list \<Rightarrow> m128i list" where
  "iunpack14 PrefixSum initOffset inp =
    (let mask = low_mask 14 in prefix_sums PrefixSum initOffset
    [mm_and_si128 (inp ! 0) mask, mm_and_si128 (mm_srli_epi32 (inp ! 0) 14) mask,
     mm_or_si128 (mm_srli_epi32 (inp ! 0) 28) (mm_and_si128 (mm_slli_epi32 (inp ! 1) (14 - 10)) mask),
     mm_and_si128 (mm_srli_epi32 (inp ! 1) 10) mask,
     mm_or_si128 (mm_srli_epi32 (inp ! 1) 24) (mm_and_si128 (mm_slli_epi32 (inp ! 2) (14 - 6)) mask),
     mm_and_si128 (mm_srli_epi32 (inp ! 2) 6) mask,
     mm_or_si128 (mm_srli_epi32 (inp ! 2) 20) (mm_and_si128 (mm_slli_epi32 (inp ! 3) (14 - 2)) mask),
     mm_and_si128 (mm_srli_epi32 (inp ! 3) 2) mask,
     mm_and_si128 (mm_srli_epi32 (inp ! 3) 16) mask,
     mm_or_si128 (mm_srli_epi32 (inp ! 3) 30) (mm_and_si128 (mm_slli_epi32 (inp ! 4) (14 - 12)) mask),
     mm_and_si128 (mm_srli_epi32 (inp ! 4) 12) mask,
     mm_or_si128 (mm_srli_epi32 (inp ! 4) 26) (mm_and_si128 (mm_slli_epi32 (inp ! 5) (14 - 8)) mask),
     mm_and_si128 (mm_srli_epi32 (inp ! 5) 8) mask,
     mm_or_si128 (mm_srli_epi32 (inp ! 5) 22) (mm_and_si128 (mm_slli_epi32 (inp ! 6) (14 - 4)) mask),
     mm_and_si128 (mm_srli_epi32 (inp ! 6) 4) mask, mm_srli_epi32 (inp ! 6) 18,
     mm_and_si128 (inp ! 7) mask, mm_and_si128 (mm_srli_epi32 (inp ! 7) 14) mask,
     mm_or_si128 (mm_srli_epi32 (inp ! 7) 28) (mm_and_si128 (mm_slli_epi32 (inp ! 8) (14 - 10)) mask),
     mm_and_si128 (mm_srli_epi32 (inp ! 8) 10) mask,
     mm_or_si128 (mm_srli_epi32 (inp ! 8) 24) (mm_and_si128 (mm_slli_epi32 (inp ! 9) (14 - 6)) mask),
     mm_and_si128 (mm_srli_epi32 (inp ! 9) 6) mask,
     mm_or_si128 (mm_srli_epi32 (inp ! 9) 20) (mm_and_si128 (mm_slli_epi32 (inp ! 10) (14 - 2)) mask),
     mm_and_si128 (mm_srli_epi32 (inp ! 10) 2) mask,
     mm_and_si128 (mm_srli_epi32 (inp ! 10) 16) mask,
     mm_or_si128 (mm_srli_epi32 (inp ! 10) 30) (mm_and_si128 (mm_slli_epi32 (inp ! 11) (14 - 12)) mask),
     mm_and_si128 (mm_srli_epi32 (inp ! 11) 12) mask,
     mm_or_si128 (mm_srli_epi32 (inp ! 11) 26) (mm_and_si128 (mm_slli_epi32 (inp ! 12) (14 - 8)) mask),
     mm_and_si128 (mm_srli_epi32 (inp ! 12) 8) mask,
     mm_or_si128 (mm_srli_epi32 (inp ! 12) 22) (mm_and_si128 (mm_slli_epi32 (inp ! 13) (14 - 4)) mask),
     mm_and_si128 (mm_srli_epi32 (inp ! 13) 4) mask, mm_srli_epi32 (inp ! 13) 18])"

definition iunpack15 :: "(m128i \<Rightarrow> m128i \<Rightarrow> m128i) \<Rightarrow> m128i \<Rightarrow> m128i list \<Rightarrow> m128i list" where
  "iunpack15 PrefixSum initOffset inp =
    (let mask = low_mask 15 in prefix_sums PrefixSum initOffset
    [mm_and_si128 (inp ! 0) mask, mm_and_si128 (mm_srli_epi32 (inp ! 0) 15) mask,
     mm_or_si128 (mm_srli_epi32 (inp ! 0) 30) (mm_and_si128 (mm_slli_epi32 (inp ! 1) (15 - 13)) mask),
     mm_and_si128 (mm_srli_epi32 (inp ! 1) 13) mask,
     mm_or_si128 (mm_srli_epi32 (inp ! 1) 28) (mm_and_si128 (mm_slli_epi32 (inp ! 2) (15 - 11)) mask),
     mm_and_si128 (mm_srli_epi32 (inp ! 2) 11) mask,
     mm_or_si128 (mm_srli_epi32 (inp ! 2) 26) (mm_and_si128 (mm_slli_epi32 (inp ! 3) (15 - 9)) mask),
     mm_and_si128 (mm_srli_epi32 (inp ! 3) 9) mask,
     mm_or_si128 (mm_srli_epi32 (inp ! 3) 24) (mm_and_si128 (mm_slli_epi32 (inp ! 4) (15 - 7)) mask),
     mm_and_si128 (mm_srli_epi32 (inp ! 4) 7) mask,
     mm_or_si128 (mm_srli_epi32 (inp ! 4) 22) (mm_and_si128 (mm_slli_epi32 (inp ! 5) (15 - 5)) mask),
     mm_and_si128 (mm_srli_epi32 (inp ! 5) 5) mask,
     mm_or_si128 (mm_srli_epi32 (inp ! 5) 20) (mm_and_si128 (mm_slli_epi32 (inp ! 6) (15 - 3)) mask),
     mm_and_si128 (mm_srli_epi32 (inp ! 6) 3) mask,
     mm_or_si128 (mm_srli_epi32 (inp ! 6) 18) (mm_and_si128 (mm_slli_epi32 (inp ! 7) (15 - 1)) mask),
     mm_and_si128 (mm_srli_epi32 (inp ! 7) 1) mask,
     mm_and_si128 (mm_srli_epi32 (inp ! 7) 16) mask,
     mm_or_si128 (mm_srli_epi32 (inp ! 7) 31) (mm_and_si128 (mm_slli_epi32 (inp ! 8) (15 - 14)) mask),
     mm_and_si128 (mm_srli_epi32 (inp ! 8) 14) mask,
     mm_or_si128 (mm_srli_epi32 (inp ! 8) 29) (mm_and_si128 (mm_slli_epi32 (inp ! 9) (15 - 12)) mask),
     mm_and_si128 (mm_srli_epi32 (inp ! 9) 12) mask,
     mm_or_si128 (mm_srli_epi32 (inp ! 9) 27) (mm_and_si128 (mm_slli_epi32 (inp ! 10) (15 - 10)) mask),
     mm_and_si128 (mm_srli_epi32 (inp ! 10) 10) mask,
     mm_or_si128 (mm_srli_epi32 (inp ! 10) 25) (mm_and_si128 (mm_slli_epi32 (inp ! 11) (15 - 8)) mask),
     mm_and_si128 (mm_srli_epi32 (inp ! 11) 8) mask,
     mm_or_si128 (mm_srli_epi32 (inp ! 11) 23) (mm_and_si128 (mm_slli_epi32 (inp ! 12) (15 - 6)) mask),
     mm_and_si128 (mm_srli_epi32 (inp ! 12) 6) mask,
     mm_or_si128 (mm_srli_epi32 (inp ! 12) 21) (mm_and_si128 (mm_slli_epi32 (inp ! 13) (15 - 4)) mask),
     mm_and_si128 (mm_srli_epi32 (inp ! 13) 4) mask,
     mm_or_si128 (mm_srli_epi32 (inp ! 13) 19) (mm_and_si128 (mm_slli_epi32 (inp ! 14) (15 - 2)) mask),
     mm_and_si128 (mm_srli_epi32 (inp ! 14) 2) mask, mm_srli_epi32 (inp ! 14) 17])"

definition iunpack16 :: "(m128i \<Rightarrow> m128i \<Rightarrow> m128i) \<Rightarrow> m128i \<Rightarrow> m128i list \<Rightarrow> m128i list" where
  "iunpack16 PrefixSum initOffset inp =
    (let mask = low_mask 16 in prefix_sums PrefixSum initOffset
    [mm_and_si128 (inp ! 0) mask, mm_srli_epi32 (inp ! 0) 16, mm_and_si128 (inp ! 1) mask,
     mm_srli_epi32 (inp ! 1) 16, mm_and_si128 (inp ! 2) mask, mm_srli_epi32 (inp ! 2) 16,
     mm_and_si128 (inp ! 3) mask, mm_srli_epi32 (inp ! 3) 16, mm_and_si128 (inp ! 4) mask,
     mm_srli_epi32 (inp ! 4) 16, mm_and_si128 (inp ! 5) mask, mm_srli_epi32 (inp ! 5) 16,
     mm_and_si128 (inp ! 6) mask, mm_srli_epi32 (inp ! 6) 16, mm_and_si128 (inp ! 7) mask,
     mm_srli_epi32 (inp ! 7) 16, mm_and_si128 (inp ! 8) mask, mm_srli_epi32 (inp ! 8) 16,
     mm_and_si128 (inp ! 9) mask, mm_srli_epi32 (inp ! 9) 16, mm_and_si128 (inp ! 10) mask,
     mm_srli_epi32 (inp ! 10) 16, mm_and_si128 (inp ! 11) mask, mm_srli_epi32 (inp ! 11) 16,
     mm_and_si128 (inp ! 12) mask, mm_srli_epi32 (inp ! 12) 16, mm_and_si128 (inp ! 13) mask,
     mm_srli_epi32 (inp ! 13) 16, mm_and_si128 (inp ! 14) mask, mm_srli_epi32 (inp ! 14) 16,
     mm_and_si128 (inp ! 15) mask, mm_srli_epi32 (inp ! 15) 16])"

definition iunpack17 :: "(m128i \<Rightarrow> m128i \<Rightarrow> m128i) \<Rightarrow> m128i \<Rightarrow> m128i list \<Rightarrow> m128i list" where
  "iunpack17 PrefixSum initOffset inp =
    (let mask = low_mask 17 in prefix_sums PrefixSum initOffset
    [mm_and_si128 (inp ! 0) mask,
     mm_or_si128 (mm_srli_epi32 (inp ! 0) 17) (mm_and_si128 (mm_slli_epi32 (inp ! 1) (17 - 2)) mask),
     mm_and_si128 (mm_srli_epi32 (inp ! 1) 2) mask,
     mm_or_si128 (mm_srli_epi32 (inp ! 1) 19) (mm_and_si128 (mm_slli_epi32 (inp ! 2) (17 - 4)) mask),
     mm_and_si128 (mm_srli_epi32 (inp ! 2) 4) mask,
     mm_or_si128 (mm_srli_epi32 (inp ! 2) 21) (mm_and_si128 (mm_slli_epi32 (inp ! 3) (17 - 6)) mask),
     mm_and_si128 (mm_srli_epi32 (inp ! 3) 6) mask,
     mm_or_si128 (mm_srli_epi32 (inp ! 3) 23) (mm_and_si128 (mm_slli_epi32 (inp ! 4) (17 - 8)) mask),
     mm_and_si128 (mm_srli_epi32 (inp ! 4) 8) mask,
     mm_or_si128 (mm_srli_epi32 (inp ! 4) 25) (mm_and_si128 (mm_slli_epi32 (inp ! 5) (17 - 10)) mask),
     mm_and_si128 (mm_srli_epi32 (inp ! 5) 10) mask,
     mm_or_si128 (mm_srli_epi32 (inp ! 5) 27) (mm_and_si128 (mm_slli_epi32 (inp ! 6) (17 - 12)) mask),
     mm_and_si128 (mm_srli_epi32 (inp ! 6) 12) mask,
     mm_or_si128 (mm_srli_epi32 (inp ! 6) 29) (mm_and_si128 (mm_slli_epi32 (inp ! 7) (17 - 14)) mask),
     mm_and_si128 (mm_srli_epi32 (inp ! 7) 14) mask,
     mm_or_si128 (mm_srli_epi32 (inp ! 7) 31) (mm_and_si128 (mm_slli_epi32 (inp ! 8) (17 - 16)) mask),
     mm_or_si128 (mm_srli_epi32 (inp ! 8) 16) (mm_and_si128 (mm_slli_epi32 (inp ! 9) (17 - 1)) mask),
     mm_and_si128 (mm_srli_epi32 (inp ! 9) 1) mask,
     mm_or_si128 (mm_srli_epi32 (inp ! 9) 18) (mm_and_si128 (mm_slli_epi32 (inp ! 10) (17 - 3)) mask),
     mm_and_si128 (mm_srli_epi32 (inp ! 10) 3) mask,
     mm_or_si128 (mm_srli_epi32 (inp ! 10) 20) (mm_and_si128 (mm_slli_epi32 (inp ! 11) (17 - 5)) mask),
     mm_and_si128 (mm_srli_epi32 (inp ! 11) 5) mask,
     mm_or_si128 (mm_srli_epi32 (inp ! 11) 22) (mm_and_si128 (mm_slli_epi32 (inp ! 12) (17 - 7)) mask),
     mm_and_si128 (mm_srli_epi32 (inp ! 12) 7) mask,
     mm_or_si128 (mm_srli_epi32 (inp ! 12) 24) (mm_and_si128 (mm_slli_epi32 (inp ! 13) (17 - 9)) mask),
     mm_and_si128 (mm_srli_epi32 (inp ! 13) 9) mask,
     mm_or_si128 (mm_srli_epi32 (inp ! 13) 26) (mm_and_si128 (mm_slli_epi32 (inp ! 14) (17 - 11)) mask),
     mm_and_si128 (mm_srli_epi32 (inp ! 14) 11) mask,
     mm_or_si128 (mm_srli_epi32 (inp ! 14) 28) (mm_and_si128 (mm_slli_epi32 (inp ! 15) (17 - 13)) mask),
     mm_and_si128 (mm_srli_epi32 (inp ! 15) 13) mask,
     mm_or_si128 (mm_srli_epi32 (inp ! 15) 30) (mm_and_si128 (mm_slli_epi32 (inp ! 16) (17 - 15)) mask),
     mm_srli_epi32 (inp ! 16) 15])"

definition iunpack18 :: "(m128i \<Rightarrow> m128i \<Rightarrow> m128i) \<Rightarrow> m128i \<Rightarrow> m128i list \<Rightarrow> m128i list" where
  "iunpack18 PrefixSum initOffset inp =
    (let mask = low_mask 18 in prefix_sums PrefixSum initOffset
    [mm_and_si128 (inp ! 0) mask,
     mm_or_si128 (mm_srli_epi32 (inp ! 0) 18) (mm_and_si128 (mm_slli_epi32 (inp ! 1) (18 - 4)) mask),
     mm_and_si128 (mm_srli_epi32 (inp ! 1) 4) mask,
     mm_or_si128 (mm_srli_epi32 (inp ! 1) 22) (mm_and_si128 (mm_slli_epi32 (inp ! 2) (18 - 8)) mask),
     mm_and_si128 (mm_srli_epi32 (inp ! 2) 8) mask,
     mm_or_si128 (mm_srli_epi32 (inp ! 2) 26) (mm_and_si128 (mm_slli_epi32 (inp ! 3) (18 - 12)) mask),
     mm_and_si128 (mm_srli_epi32 (inp ! 3) 12) mask,
     mm_or_si128 (mm_srli_epi32 (inp ! 3) 30) (mm_and_si128 (mm_slli_epi32 (inp ! 4) (18 - 16)) mask),
     mm_or_si128 (mm_srli_epi32 (inp ! 4) 16) (mm_and_si128 (mm_slli_epi32 (inp ! 5) (18 - 2)) mask),
     mm_and_si128 (mm_srli_epi32 (inp ! 5) 2) mask,
     mm_or_si128 (mm_srli_epi32 (inp ! 5) 20) (mm_and_si128 (mm_slli_epi32 (inp ! 6) (18 - 6)) mask),
     mm_and_si128 (mm_srli_epi32 (inp ! 6) 6) mask,
     mm_or_si128 (mm_srli_epi32 (inp ! 6) 24) (mm_and_si128 (mm_slli_epi32 (inp ! 7) (18 - 10)) mask),
     mm_and_si128 (mm_srli_epi32 (inp ! 7) 10) mask,
     mm_or_si128 (mm_srli_epi32 (inp ! 7) 28) (mm_and_si128 (mm_slli_epi32 (inp ! 8) (18 - 14)) mask),
     mm_srli_epi32 (inp ! 8) 14, mm_and_si128 (inp ! 9) mask,
     mm_or_si128 (mm_srli_epi32 (inp ! 9) 18) (mm_and_si128 (mm_slli_epi32 (inp ! 10) (18 - 4)) mask),
     mm_and_si128 (mm_srli_epi32 (inp ! 10) 4) mask,
     mm_or_si128 (mm_srli_epi32 (inp ! 10) 22) (mm_and_si128 (mm_slli_epi32 (inp ! 11) (18 - 8)) mask),
     mm_and_si128 (mm_srli_epi32 (inp ! 11) 8) mask,
     mm_or_si128 (mm_srli_epi32 (inp ! 11) 26) (mm_and_si128 (mm_slli_epi32 (inp ! 12) (18 - 12)) mask),
     mm_and_si128 (mm_srli_epi32 (inp ! 12) 12) mask,
     mm_or_si128 (mm_srli_epi32 (inp ! 12) 30) (mm_and_si128 (mm_slli_epi32 (inp ! 13) (18 - 16)) mask),
     mm_or_si128 (mm_srli_epi32 (inp ! 13) 16) (mm_and_si128 (mm_slli_epi32 (inp ! 14) (18 - 2)) mask),
     mm_and_si128 (mm_srli_epi32 (inp ! 14) 2) mask,
     mm_or_si128 (mm_srli_epi32 (inp ! 14) 20) (mm_and_si128 (mm_slli_epi32 (inp ! 15) (18 - 6)) mask),
     mm_and_si128 (mm_srli_epi32 (inp ! 15) 6) mask,
     mm_or_si128 (mm_srli_epi32 (inp ! 15) 24) (mm_and_si128 (mm_slli_epi32 (inp ! 16) (18 - 10)) mask),
     mm_and_si128 (mm_srli_epi32 (inp ! 16) 10) mask,
     mm_or_si128 (mm_srli_epi32 (inp ! 16) 28) (mm_and_si128 (mm_slli_epi32 (inp ! 17) (18 - 14)) mask),
     mm_srli_epi32 (inp ! 17) 14])"

definition iunpack19 :: "(m128i \<Rightarrow> m128i \<Rightarrow> m128i) \<Rightarrow> m128i \<Rightarrow> m128i list \<Rightarrow> m128i list" where
  "iunpack19 PrefixSum initOffset inp =
    (let mask = low_mask 19 in prefix_sums PrefixSum initOffset
    [mm_and_si128 (inp ! 0) mask,
     mm_or_si128 (mm_srli_epi32 (inp ! 0) 19) (mm_and_si128 (mm_slli_epi32 (inp ! 1) (19 - 6)) mask),
     mm_and_si128 (mm_srli_epi32 (inp ! 1) 6) mask,
     mm_or_si128 (mm_srli_epi32 (inp ! 1) 25) (mm_and_si128 (mm_slli_epi32 (inp ! 2) (19 - 12)) mask),
     mm_and_si128 (mm_srli_epi32 (inp ! 2) 12) mask,
     mm_or_si128 (mm_srli_epi32 (inp ! 2) 31) (mm_and_si128 (mm_slli_epi32 (inp ! 3) (19 - 18)) mask),
     mm_or_si128 (mm_srli_epi32 (inp ! 3) 18) (mm_and_si128 (mm_slli_epi32 (inp ! 4) (19 - 5)) mask),
     mm_and_si128 (mm_srli_epi32 (inp ! 4) 5) mask,
     mm_or_si128 (mm_srli_epi32 (inp ! 4) 24) (mm_and_si128 (mm_slli_epi32 (inp ! 5) (19 - 11)) mask),
     mm_and_si128 (mm_srli_epi32 (inp ! 5) 11) mask,
     mm_or_si128 (mm_srli_epi32 (inp ! 5) 30) (mm_and_si128 (mm_slli_epi32 (inp ! 6) (19 - 17)) mask),
     mm_or_si128 (mm_srli_epi32 (inp ! 6) 17) (mm_and_si128 (mm_slli_epi32 (inp ! 7) (19 - 4)) mask),
     mm_and_si128 (mm_srli_epi32 (inp ! 7) 4) mask,
     mm_or_si128 (mm_srli_epi32 (inp ! 7) 23) (mm_and_si128 (mm_slli_epi32 (inp ! 8) (19 - 10)) mask),
     mm_and_si128 (mm_srli_epi32 (inp ! 8) 10) mask,
     mm_or_si128 (mm_srli_epi32 (inp ! 8) 29) (mm_and_si128 (mm_slli_epi32 (inp ! 9) (19 - 16)) mask),
     mm_or_si128 (mm_srli_epi32 (inp ! 9) 16) (mm_and_si128 (mm_slli_epi32 (inp ! 10) (19 - 3)) mask),
     mm_and_si128 (mm_srli_epi32 (inp ! 10) 3) mask,
     mm_or_si128 (mm_srli_epi32 (inp ! 10) 22) (mm_and_si128 (mm_slli_epi32 (inp ! 11) (19 - 9)) mask),
     mm_and_si128 (mm_srli_epi32 (inp ! 11) 9) mask,
     mm_or_si128 (mm_srli_epi32 (inp ! 11) 28) (mm_and_si128 (mm_slli_epi32 (inp ! 12) (19 - 15)) mask),
     mm_or_si128 (mm_srli_epi32 (inp ! 12) 15) (mm_and_si128 (mm_slli_epi32 (inp ! 13) (19 - 2)) mask),
     mm_and_si128 (mm_srli_epi32 (inp ! 13) 2) mask,
     mm_or_si128 (mm_srli_epi32 (inp ! 13) 21) (mm_and_si128 (mm_slli_epi32 (inp ! 14) (19 - 8)) mask),
     mm_and_si128 (mm_srli_epi32 (inp ! 14) 8) mask,
     mm_or_si128 (mm_srli_epi32 (inp ! 14) 27) (mm_and_si128 (mm_slli_epi32 (inp ! 15) (19 - 14)) mask),
     mm_or_si128 (mm_srli_epi32 (inp ! 15) 14) (mm_and_si128 (mm_slli_epi32 (inp ! 16) (19 - 1)) mask),
     mm_and_si128 (mm_srli_epi32 (inp ! 16) 1) mask,
     mm_or_si128 (mm_srli_epi32 (inp ! 16) 20) (mm_and_si128 (mm_slli_epi32 (inp ! 17) (19 - 7)) mask),
     mm_and_si128 (mm_srli_epi32 (inp ! 17) 7) mask,
     mm_or_si128 (mm_srli_epi32 (inp ! 17) 26) (mm_and_si128 (mm_slli_epi32 (inp ! 18) (19 - 13)) mask),
     mm_srli_epi32 (inp ! 18) 13])"

definition iunpack20 :: "(m128i \<Rightarrow> m128i \<Rightarrow> m128i) \<Rightarrow> m128i \<Rightarrow> m128i list \<Rightarrow> m128i list" where
  "iunpack20 PrefixSum initOffset inp =
    (let mask = low_mask 20 in prefix_sums PrefixSum initOffset
    [mm_and_si128 (inp ! 0) mask,
     mm_or_si128 (mm_srli_epi32 (inp ! 0) 20) (mm_and_si128 (mm_slli_epi32 (inp ! 1) (20 - 8)) mask),
     mm_and_si128 (mm_srli_epi32 (inp ! 1) 8) mask,
     mm_or_si128 (mm_srli_epi32 (inp ! 1) 28) (mm_and_si128 (mm_slli_epi32 (inp ! 2) (20 - 16)) mask),
     mm_or_si128 (mm_srli_epi32 (inp ! 2) 16) (mm_and_si128 (mm_slli_epi32 (inp ! 3) (20 - 4)) mask),
     mm_and_si128 (mm_srli_epi32 (inp ! 3) 4) mask,
     mm_or_si128 (mm_srli_epi32 (inp ! 3) 24) (mm_and_si128 (mm_slli_epi32 (inp ! 4) (20 - 12)) mask),
     mm_srli_epi32 (inp ! 4) 12, mm_and_si128 (inp ! 5) mask,
     mm_or_si128 (mm_srli_epi32 (inp ! 5) 20) (mm_and_si128 (mm_slli_epi32 (inp ! 6) (20 - 8)) mask),
     mm_and_si128 (mm_srli_epi32 (inp ! 6) 8) mask,
     mm_or_si128 (mm_srli_epi32 (inp ! 6) 28) (mm_and_si128 (mm_slli_epi32 (inp ! 7) (20 - 16)) mask),
     mm_or_si128 (mm_srli_epi32 (inp ! 7) 16) (mm_and_si128 (mm_slli_epi32 (inp ! 8) (20 - 4)) mask),
     mm_and_si128 (mm_srli_epi32 (inp ! 8) 4) mask,
     mm_or_si128 (mm_srli_epi32 (inp ! 8) 24) (mm_and_si128 (mm_slli_epi32 (inp ! 9) (20 - 12)) mask),
     mm_srli_epi32 (inp ! 9) 12, mm_and_si128 (inp ! 10) mask,
     mm_or_si128 (mm_srli_epi32 (inp ! 10) 20) (mm_and_si128 (mm_slli_epi32 (inp ! 11) (20 - 8)) mask),
     mm_and_si128 (mm_srli_epi32 (inp ! 11) 8) mask,
     mm_or_si128 (mm_srli_epi32 (inp ! 11) 28) (mm_and_si128 (mm_slli_epi32 (inp ! 12) (20 - 16)) mask),
     mm_or_si128 (mm_srli_epi32 (inp ! 12) 16) (mm_and_si128 (mm_slli_epi32 (inp ! 13) (20 - 4)) mask),
     mm_and_si128 (mm_srli_epi32 (inp ! 13) 4) mask,
     mm_or_si128 (mm_srli_epi32 (inp ! 13) 24) (mm_and_si128 (mm_slli_epi32 (inp ! 14) (20 - 12)) mask),
     mm_srli_epi32 (inp ! 14) 12, mm_and_si128 (inp ! 15) mask,
     mm_or_si128 (mm_srli_epi32 (inp ! 15) 20) (mm_and_si128 (mm_slli_epi32 (inp ! 16) (20 - 8)) mask),
     mm_and_si128 (mm_srli_epi32 (inp ! 16) 8) mask,
     mm_or_si128 (mm_srli_epi32 (inp ! 16) 28) (mm_and_si128 (mm_slli_epi32 (inp ! 17) (20 - 16)) mask),
     mm_or_si128 (mm_srli_epi32 (inp ! 17) 16) (mm_and_si128 (mm_slli_epi32 (inp ! 18) (20 - 4)) mask),
     mm_and_si128 (mm_srli_epi32 (inp ! 18) 4) mask,
     mm_or_si128 (mm_srli_epi32 (inp ! 18) 24) (mm_and_si128 (mm_slli_epi32 (inp ! 19) (20 - 12)) mask),
     mm_srli_epi32 (inp ! 19) 12])"

definition iunpack21 :: "(m128i \<Rightarrow> m128i \<Rightarrow> m128i) \<Rightarrow> m128i \<Rightarrow> m128i list \<Rightarrow> m128i list" where
  "iunpack21 PrefixSum initOffset inp =
    (let mask = low_mask 21 in prefix_sums PrefixSum initOffset
    [mm_and_si128 (inp ! 0) mask,
     mm_or_si128 (mm_srli_epi32 (inp ! 0) 21) (mm_and_si128 (mm_slli_epi32 (inp ! 1) (21 - 10)) mask),
     mm_and_si128 (mm_srli_epi32 (inp ! 1) 10) mask,
     mm_or_si128 (mm_srli_epi32 (inp ! 1) 31) (mm_and_si128 (mm_slli_epi32 (inp ! 2) (21 - 20)) mask),
     mm_or_si128 (mm_srli_epi32 (inp ! 2) 20) (mm_and_si128 (mm_slli_epi32 (inp ! 3) (21 - 9)) mask),
     mm_and_si128 (mm_srli_epi32 (inp ! 3) 9) mask,
     mm_or_si128 (mm_srli_epi32 (inp ! 3) 30) (mm_and_si128 (mm_slli_epi32 (inp ! 4) (21 - 19)) mask),
     mm_or_si128 (mm_srli_epi32 (inp ! 4) 19) (mm_and_si128 (mm_slli_epi32 (inp ! 5) (21 - 8)) mask),
     mm_and_si128 (mm_srli_epi32 (inp ! 5) 8) mask,
     mm_or_si128 (mm_srli_epi32 (inp ! 5) 29) (mm_and_si128 (mm_slli_epi32 (inp ! 6) (21 - 18)) mask),
     mm_or_si128 (mm_srli_epi32 (inp ! 6) 18) (mm_and_si128 (mm_slli_epi32 (inp ! 7) (21 - 7)) mask),
     mm_and_si128 (mm_srli_epi32 (inp ! 7) 7) mask,
     mm_or_si128 (mm_srli_epi32 (inp ! 7) 28) (mm_and_si128 (mm_slli_epi32 (inp ! 8) (21 - 17)) mask),
     mm_or_si128 (mm_srli_epi32 (inp ! 8) 17) (mm_and_si128 (mm_slli_epi32 (inp ! 9) (21 - 6)) mask),
     mm_and_si128 (mm_srli_epi32 (inp ! 9) 6) mask,
     mm_or_si128 (mm_srli_epi32 (inp ! 9) 27) (mm_and_si128 (mm_slli_epi32 (inp ! 10) (21 - 16)) mask),
     mm_or_si128 (mm_srli_epi32 (inp ! 10) 16) (mm_and_si128 (mm_slli_epi32 (inp ! 11) (21 - 5)) mask),
     mm_and_si128 (mm_srli_epi32 (inp ! 11) 5) mask,
     mm_or_si128 (mm_srli_epi32 (inp ! 11) 26) (mm_and_si128 (mm_slli_epi32 (inp ! 12) (21 - 15)) mask),
     mm_or_si128 (mm_srli_epi32 (inp ! 12) 15) (mm_and_si128 (mm_slli_epi32 (inp ! 13) (21 - 4)) mask),
     mm_and_si128 (mm_srli_epi32 (inp ! 13) 4) mask,
     mm_or_si128 (mm_srli_epi32 (inp ! 13) 25) (mm_and_si128 (mm_slli_epi32 (inp ! 14) (21 - 14)) mask),
     mm_or_si128 (mm_srli_epi32 (inp ! 14) 14) (mm_and_si128 (mm_slli_epi32 (inp ! 15) (21 - 3)) mask),
     mm_and_si128 (mm_srli_epi32 (inp ! 15) 3) mask,
     mm_or_si128 (mm_srli_epi32 (inp ! 15) 24) (mm_and_si128 (mm_slli_epi32 (inp ! 16) (21 - 13)) mask),
     mm_or_si128 (mm_srli_epi32 (inp ! 16) 13) (mm_and_si128 (mm_slli_epi32 (inp ! 17) (21 - 2)) mask),
     mm_and_si128 (mm_srli_epi32 (inp ! 17) 2) mask,
     mm_or_si128 (mm_srli_epi32 (inp ! 17) 23) (mm_and_si128 (mm_slli_epi32 (inp ! 18) (21 - 12)) mask),
     mm_or_si128 (mm_srli_epi32 (inp ! 18) 12) (mm_and_si128 (mm_slli_epi32 (inp ! 19) (21 - 1)) mask),
     mm_and_si128 (mm_srli_epi32 (inp ! 19) 1) mask,
     mm_or_si128 (mm_srli_epi32 (inp ! 19) 22) (mm_and_si128 (mm_slli_epi32 (inp ! 20) (21 - 11)) mask),
     mm_srli_epi32 (inp ! 20) 11])"

definition iunpack22 :: "(m128i \<Rightarrow> m128i \<Rightarrow> m128i) \<Rightarrow> m128i \<Rightarrow> m128i list \<Rightarrow> m128i list" where
  "iunpack22 PrefixSum initOffset inp =
    (let mask = low_mask 22 in prefix_sums PrefixSum initOffset
    [mm_and_si128 (inp ! 0) mask,
     mm_or_si128 (mm_srli_epi32 (inp ! 0) 22) (mm_and_si128 (mm_slli_epi32 (inp ! 1) (22 - 12)) mask),
     mm_or_si128 (mm_srli_epi32 (inp ! 1) 12) (mm_and_si128 (mm_slli_epi32 (inp ! 2) (22 - 2)) mask),
     mm_and_si128 (mm_srli_epi32 (inp ! 2) 2) mask,
     mm_or_si128 (mm_srli_epi32 (inp ! 2) 24) (mm_and_si128 (mm_slli_epi32 (inp ! 3) (22 - 14)) mask),
     mm_or_si128 (mm_srli_epi32 (inp ! 3) 14) (mm_and_si128 (mm_slli_epi32 (inp ! 4) (22 - 4)) mask),
     mm_and_si128 (mm_srli_epi32 (inp ! 4) 4) mask,
     mm_or_si128 (mm_srli_epi32 (inp ! 4) 26) (mm_and_si128 (mm_slli_epi32 (inp ! 5) (22 - 16)) mask),
     mm_or_si128 (mm_srli_epi32 (inp ! 5) 16) (mm_and_si128 (mm_slli_epi32 (inp ! 6) (22 - 6)) mask),
     mm_and_si128 (mm_srli_epi32 (inp ! 6) 6) mask,
     mm_or_si128 (mm_srli_epi32 (inp ! 6) 28) (mm_and_si128 (mm_slli_epi32 (inp ! 7) (22 - 18)) mask),
     mm_or_si128 (mm_srli_epi32 (inp ! 7) 18) (mm_and_si128 (mm_slli_epi32 (inp ! 8) (22 - 8)) mask),
     mm_and_si128 (mm_srli_epi32 (inp ! 8) 8) mask,
     mm_or_si128 (mm_srli_epi32 (inp ! 8) 30) (mm_and_si128 (mm_slli_epi32 (inp ! 9) (22 - 20)) mask),
     mm_or_si128 (mm_srli_epi32 (inp ! 9) 20) (mm_and_si128 (mm_slli_epi32 (inp ! 10) (22 - 10)) mask),
     mm_srli_epi32 (inp ! 10) 10, mm_and_si128 (inp ! 11) mask,
     mm_or_si128 (mm_srli_epi32 (inp ! 11) 22) (mm_and_si128 (mm_slli_epi32 (inp ! 12) (22 - 12)) mask),
     mm_or_si128 (mm_srli_epi32 (inp ! 12) 12) (mm_and_si128 (mm_slli_epi32 (inp ! 13) (22 - 2)) mask),
     mm_and_si128 (mm_srli_epi32 (inp ! 13) 2) mask,
     mm_or_si128 (mm_srli_epi32 (inp ! 13) 24) (mm_and_si128 (mm_slli_epi32 (inp ! 14) (22 - 14)) mask),
     mm_or_si128 (mm_srli_epi32 (inp ! 14) 14) (mm_and_si128 (mm_slli_epi32 (inp ! 15) (22 - 4)) mask),
     mm_and_si128 (mm_srli_epi32 (inp ! 15) 4) mask,
     mm_or_si128 (mm_srli_epi32 (inp ! 15) 26) (mm_and_si128 (mm_slli_epi32 (inp ! 16) (22 - 16)) mask),
     mm_or_si128 (mm_srli_epi32 (inp ! 16) 16) (mm_and_si128 (mm_slli_epi32 (inp ! 17) (22 - 6)) mask),
     mm_and_si128 (mm_srli_epi32 (inp ! 17) 6) mask,
     mm_or_si128 (mm_srli_epi32 (inp ! 17) 28) (mm_and_si128 (mm_slli_epi32 (inp ! 18) (22 - 18)) mask),
     mm_or_si128 (mm_srli_epi32 (inp ! 18) 18) (mm_and_si128 (mm_slli_epi32 (inp ! 19) (22 - 8)) mask),
     mm_and_si128 (mm_srli_epi32 (inp ! 19) 8) mask,
     mm_or_si128 (mm_srli_epi32 (inp ! 19) 30) (mm_and_si128 (mm_slli_epi32 (inp ! 20) (22 - 20)) mask),
     mm_or_si128 (mm_srli_epi32 (inp ! 20) 20) (mm_and_si128 (mm_slli_epi32 (inp ! 21) (22 - 10)) mask),
     mm_srli_epi32 (inp ! 21) 10])"

definition iunpack23 :: "(m128i \<Rightarrow> m128i \<Rightarrow> m128i) \<Rightarrow> m128i \<Rightarrow> m128i list \<Rightarrow> m128i list" where
  "iunpack23 PrefixSum initOffset inp =
    (let mask = low_mask 23 in prefix_sums PrefixSum initOffset
    [mm_and_si128 (inp ! 0) mask,
     mm_or_si128 (mm_srli_epi32 (inp ! 0) 23) (mm_and_si128 (mm_slli_epi32 (inp ! 1) (23 - 14)) mask),
     mm_or_si128 (mm_srli_epi32 (inp ! 1) 14) (mm_and_si128 (mm_slli_epi32 (inp ! 2) (23 - 5)) mask),
     mm_and_si128 (mm_srli_epi32 (inp ! 2) 5) mask,
     mm_or_si128 (mm_srli_epi32 (inp ! 2) 28) (mm_and_si128 (mm_slli_epi32 (inp ! 3) (23 - 19)) mask),
     mm_or_si128 (mm_srli_epi32 (inp ! 3) 19) (mm_and_si128 (mm_slli_epi32 (inp ! 4) (23 - 10)) mask),
     mm_or_si128 (mm_srli_epi32 (inp ! 4) 10) (mm_and_si128 (mm_slli_epi32 (inp ! 5) (23 - 1)) mask),
     mm_and_si128 (mm_srli_epi32 (inp ! 5) 1) mask,
     mm_or_si128 (mm_srli_epi32 (inp ! 5) 24) (mm_and_si128 (mm_slli_epi32 (inp ! 6) (23 - 15)) mask),
     mm_or_si128 (mm_srli_epi32 (inp ! 6) 15) (mm_and_si128 (mm_slli_epi32 (inp ! 7) (23 - 6)) mask),
     mm_and_si128 (mm_srli_epi32 (inp ! 7) 6) mask,
     mm_or_si128 (mm_srli_epi32 (inp ! 7) 29) (mm_and_si128 (mm_slli_epi32 (inp ! 8) (23 - 20)) mask),
     mm_or_si128 (mm_srli_epi32 (inp ! 8) 20) (mm_and_si128 (mm_slli_epi32 (inp ! 9) (23 - 11)) mask),
     mm_or_si128 (mm_srli_epi32 (inp ! 9) 11) (mm_and_si128 (mm_slli_epi32 (inp ! 10) (23 - 2)) mask),
     mm_and_si128 (mm_srli_epi32 (inp ! 10) 2) mask,
     mm_or_si128 (mm_srli_epi32 (inp ! 10) 25) (mm_and_si128 (mm_slli_epi32 (inp ! 11) (23 - 16)) mask),
     mm_or_si128 (mm_srli_epi32 (inp ! 11) 16) (mm_and_si128 (mm_slli_epi32 (inp ! 12) (23 - 7)) mask),
     mm_and_si128 (mm_srli_epi32 (inp ! 12) 7) mask,
     mm_or_si128 (mm_srli_epi32 (inp ! 12) 30) (mm_and_si128 (mm_slli_epi32 (inp ! 13) (23 - 21)) mask),
     mm_or_si128 (mm_srli_epi32 (inp ! 13) 21) (mm_and_si128 (mm_slli_epi32 (inp ! 14) (23 - 12)) mask),
     mm_or_si128 (mm_srli_epi32 (inp ! 14) 12) (mm_and_si128 (mm_slli_epi32 (inp ! 15) (23 - 3)) mask),
     mm_and_si128 (mm_srli_epi32 (inp ! 15) 3) mask,
     mm_or_si128 (mm_srli_epi32 (inp ! 15) 26) (mm_and_si128 (mm_slli_epi32 (inp ! 16) (23 - 17)) mask),
     mm_or_si128 (mm_srli_epi32 (inp ! 16) 17) (mm_and_si128 (mm_slli_epi32 (inp ! 17) (23 - 8)) mask),
     mm_and_si128 (mm_srli_epi32 (inp ! 17) 8) mask,
     mm_or_si128 (mm_srli_epi32 (inp ! 17) 31) (mm_and_si128 (mm_slli_epi32 (inp ! 18) (23 - 22)) mask),
     mm_or_si128 (mm_srli_epi32 (inp ! 18) 22) (mm_and_si128 (mm_slli_epi32 (inp ! 19) (23 - 13)) mask),
     mm_or_si128 (mm_srli_epi32 (inp ! 19) 13) (mm_and_si128 (mm_slli_epi32 (inp ! 20) (23 - 4)) mask),
     mm_and_si128 (mm_srli_epi32 (inp ! 20) 4) mask,
     mm_or_si128 (mm_srli_epi32 (inp ! 20) 27) (mm_and_si128 (mm_slli_epi32 (inp ! 21) (23 - 18)) mask),
     mm_or_si128 (mm_srli_epi32 (inp ! 21) 18) (mm_and_si128 (mm_slli_epi32 (inp ! 22) (23 - 9)) mask),
     mm_srli_epi32 (inp ! 22) 9])"

definition iunpack24 :: "(m128i \<Rightarrow> m128i \<Rightarrow> m128i) \<Rightarrow> m128i \<Rightarrow> m128i list \<Rightarrow> m128i list" where
  "iunpack24 PrefixSum initOffset inp =
    (let mask = low_mask 24 in prefix_sums PrefixSum initOffset
    [mm_and_si128 (inp ! 0) mask,
     mm_or_si128 (mm_srli_epi32 (inp ! 0) 24) (mm_and_si128 (mm_slli_epi32 (inp ! 1) (24 - 16)) mask),
     mm_or_si128 (mm_srli_epi32 (inp ! 1) 16) (mm_and_si128 (mm_slli_epi32 (inp ! 2) (24 - 8)) mask),
     mm_srli_epi32 (inp ! 2) 8, mm_and_si128 (inp ! 3) mask,
     mm_or_si128 (mm_srli_epi32 (inp ! 3) 24) (mm_and_si128 (mm_slli_epi32 (inp ! 4) (24 - 16)) mask),
     mm_or_si128 (mm_srli_epi32 (inp ! 4) 16) (mm_and_si128 (mm_slli_epi32 (inp ! 5) (24 - 8)) mask),
     mm_srli_epi32 (inp ! 5) 8, mm_and_si128 (inp ! 6) mask,
     mm_or_si128 (mm_srli_epi32 (inp ! 6) 24) (mm_and_si128 (mm_slli_epi32 (inp ! 7) (24 - 16)) mask),
     mm_or_si128 (mm_srli_epi32 (inp ! 7) 16) (mm_and_si128 (mm_slli_epi32 (inp ! 8) (24 - 8)) mask),
     mm_srli_epi32 (inp ! 8) 8, mm_and_si128 (inp ! 9) mask,
     mm_or_si128 (mm_srli_epi32 (inp ! 9) 24) (mm_and_si128 (mm_slli_epi32 (inp ! 10) (24 - 16)) mask),
     mm_or_si128 (mm_srli_epi32 (inp ! 10) 16) (mm_and_si128 (mm_slli_epi32 (inp ! 11) (24 - 8)) mask),
     mm_srli_epi32 (inp ! 11) 8, mm_and_si128 (inp ! 12) mask,
     mm_or_si128 (mm_srli_epi32 (inp ! 12) 24) (mm_and_si128 (mm_slli_epi32 (inp ! 13) (24 - 16)) mask),
     mm_or_si128 (mm_srli_epi32 (inp ! 13) 16) (mm_and_si128 (mm_slli_epi32 (inp ! 14) (24 - 8)) mask),
     mm_srli_epi32 (inp ! 14) 8, mm_and_si128 (inp ! 15) mask,
     mm_or_si128 (mm_srli_epi32 (inp ! 15) 24) (mm_and_si128 (mm_slli_epi32 (inp ! 16) (24 - 16)) mask),
     mm_or_si128 (mm_srli_epi32 (inp ! 16) 16) (mm_and_si128 (mm_slli_epi32 (inp ! 17) (24 - 8)) mask),
     mm_srli_epi32 (inp ! 17) 8, mm_and_si128 (inp ! 18) mask,
     mm_or_si128 (mm_srli_epi32 (inp ! 18) 24) (mm_and_si128 (mm_slli_epi32 (inp ! 19) (24 - 16)) mask),
     mm_or_si128 (mm_srli_epi32 (inp ! 19) 16) (mm_and_si128 (mm_slli_epi32 (inp ! 20) (24 - 8)) mask),
     mm_srli_epi32 (inp ! 20) 8, mm_and_si128 (inp ! 21) mask,
     mm_or_si128 (mm_srli_epi32 (inp ! 21) 24) (mm_and_si128 (mm_slli_epi32 (inp ! 22) (24 - 16)) mask),
     mm_or_si128 (mm_srli_epi32 (inp ! 22) 16) (mm_and_si128 (mm_slli_epi32 (inp ! 23) (24 - 8)) mask),
     mm_srli_epi32 (inp ! 23) 8])"

definition iunpack25 :: "(m128i \<Rightarrow> m128i \<Rightarrow> m128i) \<Rightarrow> m128i \<Rightarrow> m128i list \<Rightarrow> m128i list" where
  "iunpack25 PrefixSum initOffset inp =
    (let mask = low_mask 25 in prefix_sums PrefixSum initOffset
    [mm_and_si128 (inp ! 0) mask,
     mm_or_si128 (mm_srli_epi32 (inp ! 0) 25) (mm_and_si128 (mm_slli_epi32 (inp ! 1) (25 - 18)) mask),
     mm_or_si128 (mm_srli_epi32 (inp ! 1) 18) (mm_and_si128 (mm_slli_epi32 (inp ! 2) (25 - 11)) mask),
     mm_or_si128 (mm_srli_epi32 (inp ! 2) 11) (mm_and_si128 (mm_slli_epi32 (inp ! 3) (25 - 4)) mask),
     mm_and_si128 (mm_srli_epi32 (inp ! 3) 4) mask,
     mm_or_si128 (mm_srli_epi32 (inp ! 3) 29) (mm_and_si128 (mm_slli_epi32 (inp ! 4) (25 - 22)) mask),
     mm_or_si128 (mm_srli_epi32 (inp ! 4) 22) (mm_and_si128 (mm_slli_epi32 (inp ! 5) (25 - 15)) mask),
     mm_or_si128 (mm_srli_epi32 (inp ! 5) 15) (mm_and_si128 (mm_slli_epi32 (inp ! 6) (25 - 8)) mask),
     mm_or_si128 (mm_srli_epi32 (inp ! 6) 8) (mm_and_si128 (mm_slli_epi32 (inp ! 7) (25 - 1)) mask),
     mm_and_si128 (mm_srli_epi32 (inp ! 7) 1) mask,
     mm_or_si128 (mm_srli_epi32 (inp ! 7) 26) (mm_and_si128 (mm_slli_epi32 (inp ! 8) (25 - 19)) mask),
     mm_or_si128 (mm_srli_epi32 (inp ! 8) 19) (mm_and_si128 (mm_slli_epi32 (inp ! 9) (25 - 12)) mask),
     mm_or_si128 (mm_srli_epi32 (inp ! 9) 12) (mm_and_si128 (mm_slli_epi32 (inp ! 10) (25 - 5)) mask),
     mm_and_si128 (mm_srli_epi32 (inp ! 10) 5) mask,
     mm_or_si128 (mm_srli_epi32 (inp ! 10) 30) (mm_and_si128 (mm_slli_epi32 (inp ! 11) (25 - 23)) mask),
     mm_or_si128 (mm_srli_epi32 (inp ! 11) 23) (mm_and_si128 (mm_slli_epi32 (inp ! 12) (25 - 16)) mask),
     mm_or_si128 (mm_srli_epi32 (inp ! 12) 16) (mm_and_si128 (mm_slli_epi32 (inp ! 13) (25 - 9)) mask),
     mm_or_si128 (mm_srli_epi32 (inp ! 13) 9) (mm_and_si128 (mm_slli_epi32 (inp ! 14) (25 - 2)) mask),
     mm_and_si128 (mm_srli_epi32 (inp ! 14) 2) mask,
     mm_or_si128 (mm_srli_epi32 (inp ! 14) 27) (mm_and_si128 (mm_slli_epi32 (inp ! 15) (25 - 20)) mask),
     mm_or_si128 (mm_srli_epi32 (inp ! 15) 20) (mm_and_si128 (mm_slli_epi32 (inp ! 16) (25 - 13)) mask),
     mm_or_si128 (mm_srli_epi32 (inp ! 16) 13) (mm_and_si128 (mm_slli_epi32 (inp ! 17) (25 - 6)) mask),
     mm_and_si128 (mm_srli_epi32 (inp ! 17) 6) mask,
     mm_or_si128 (mm_srli_epi32 (inp ! 17) 31) (mm_and_si128 (mm_slli_epi32 (inp ! 18) (25 - 24)) mask),
     mm_or_si128 (mm_srli_epi32 (inp ! 18) 24) (mm_and_si128 (mm_slli_epi32 (inp ! 19) (25 - 17)) mask),
     mm_or_si128 (mm_srli_epi32 (inp ! 19) 17) (mm_and_si128 (mm_slli_epi32 (inp ! 20) (25 - 10)) mask),
     mm_or_si128 (mm_srli_epi32 (inp ! 20) 10) (mm_and_si128 (mm_slli_epi32 (inp ! 21) (25 - 3)) mask),
     mm_and_si128 (mm_srli_epi32 (inp ! 21) 3) mask,
     mm_or_si128 (mm_srli_epi32 (inp ! 21) 28) (mm_and_si128 (mm_slli_epi32 (inp ! 22) (25 - 21)) mask),
     mm_or_si128 (mm_srli_epi32 (inp ! 22) 21) (mm_and_si128 (mm_slli_epi32 (inp ! 23) (25 - 14)) mask),
     mm_or_si128 (mm_srli_epi32 (inp ! 23) 14) (mm_and_si128 (mm_slli_epi32 (inp ! 24) (25 - 7)) mask),
     mm_srli_epi32 (inp ! 24) 7])"

definition iunpack26 :: "(m128i \<Rightarrow> m128i \<Rightarrow> m128i) \<Rightarrow> m128i \<Rightarrow> m128i list \<Rightarrow> m128i list" where
  "iunpack26 PrefixSum initOffset inp =
    (let mask = low_mask 26 in prefix_sums PrefixSum initOffset
    [mm_and_si128 (inp ! 0) mask,
     mm_or_si128 (mm_srli_epi32 (inp ! 0) 26) (mm_and_si128 (mm_slli_epi32 (inp ! 1) (26 - 20)) mask),
     mm_or_si128 (mm_srli_epi32 (inp ! 1) 20) (mm_and_si128 (mm_slli_epi32 (inp ! 2) (26 - 14)) mask),
     mm_or_si128 (mm_srli_epi32 (inp ! 2) 14) (mm_and_si128 (mm_slli_epi32 (inp ! 3) (26 - 8)) mask),
     mm_or_si128 (mm_srli_epi32 (inp ! 3) 8) (mm_and_si128 (mm_slli_epi32 (inp ! 4) (26 - 2)) mask),
     mm_and_si128 (mm_srli_epi32 (inp ! 4) 2) mask,
     mm_or_si128 (mm_srli_epi32 (inp ! 4) 28) (mm_and_si128 (mm_slli_epi32 (inp ! 5) (26 - 22)) mask),
     mm_or_si128 (mm_srli_epi32 (inp ! 5) 22) (mm_and_si128 (mm_slli_epi32 (inp ! 6) (26 - 16)) mask),
     mm_or_si128 (mm_srli_epi32 (inp ! 6) 16) (mm_and_si128 (mm_slli_epi32 (inp ! 7) (26 - 10)) mask),
     mm_or_si128 (mm_srli_epi32 (inp ! 7) 10) (mm_and_si128 (mm_slli_epi32 (inp ! 8) (26 - 4)) mask),
     mm_and_si128 (mm_srli_epi32 (inp ! 8) 4) mask,
     mm_or_si128 (mm_srli_epi32 (inp ! 8) 30) (mm_and_si128 (mm_slli_epi32 (inp ! 9) (26 - 24)) mask),
     mm_or_si128 (mm_srli_epi32 (inp ! 9) 24) (mm_and_si128 (mm_slli_epi32 (inp ! 10) (26 - 18)) mask),
     mm_or_si128 (mm_srli_epi32 (inp ! 10) 18) (mm_and_si128 (mm_slli_epi32 (inp ! 11) (26 - 12)) mask),
     mm_or_si128 (mm_srli_epi32 (inp ! 11) 12) (mm_and_si128 (mm_slli_epi32 (inp ! 12) (26 - 6)) mask),
     mm_srli_epi32 (inp ! 12) 6, mm_and_si128 (inp ! 13) mask,
     mm_or_si128 (mm_srli_epi32 (inp ! 13) 26) (mm_and_si128 (mm_slli_epi32 (inp ! 14) (26 - 20)) mask),
     mm_or_si128 (mm_srli_epi32 (inp ! 14) 20) (mm_and_si128 (mm_slli_epi32 (inp ! 15) (26 - 14)) mask),
     mm_or_si128 (mm_srli_epi32 (inp ! 15) 14) (mm_and_si128 (mm_slli_epi32 (inp ! 16) (26 - 8)) mask),
     mm_or_si128 (mm_srli_epi32 (inp ! 16) 8) (mm_and_si128 (mm_slli_epi32 (inp ! 17) (26 - 2)) mask),
     mm_and_si128 (mm_srli_epi32 (inp ! 17) 2) mask,
     mm_or_si128 (mm_srli_epi32 (inp ! 17) 28) (mm_and_si128 (mm_slli_epi32 (inp ! 18) (26 - 22)) mask),
     mm_or_si128 (mm_srli_epi32 (inp ! 18) 22) (mm_and_si128 (mm_slli_epi32 (inp ! 19) (26 - 16)) mask),
     mm_or_si128 (mm_srli_epi32 (inp ! 19) 16) (mm_and_si128 (mm_slli_epi32 (inp ! 20) (26 - 10)) mask),
     mm_or_si128 (mm_srli_epi32 (inp ! 20) 10) (mm_and_si128 (mm_slli_epi32 (inp ! 21) (26 - 4)) mask),
     mm_and_si128 (mm_srli_epi32 (inp ! 21) 4) mask,
     mm_or_si128 (mm_srli_epi32 (inp ! 21) 30) (mm_and_si128 (mm_slli_epi32 (inp ! 22) (26 - 24)) mask),
     mm_or_si128 (mm_srli_epi32 (inp ! 22) 24) (mm_and_si128 (mm_slli_epi32 (inp ! 23) (26 - 18)) mask),
     mm_or_si128 (mm_srli_epi32 (inp ! 23) 18) (mm_and_si128 (mm_slli_epi32 (inp ! 24) (26 - 12)) mask),
     mm_or_si128 (mm_srli_epi32 (inp ! 24) 12) (mm_and_si128 (mm_slli_epi32 (inp ! 25) (26 - 6)) mask),
     mm_srli_epi32 (inp ! 25) 6])"

definition iunpack27 :: "(m128i \<Rightarrow> m128i \<Rightarrow> m128i) \<Rightarrow> m128i \<Rightarrow> m128i list \<Rightarrow> m128i list" where
  "iunpack27 PrefixSum initOffset inp =
    (let mask = low_mask 27 in prefix_sums PrefixSum initOffset
    [mm_and_si128 (inp ! 0) mask,
     mm_or_si128 (mm_srli_epi32 (inp ! 0) 27) (mm_and_si128 (mm_slli_epi32 (inp ! 1) (27 - 22)) mask),
     mm_or_si128 (mm_srli_epi32 (inp ! 1) 22) (mm_and_si128 (mm_slli_epi32 (inp ! 2) (27 - 17)) mask),
     mm_or_si128 (mm_srli_epi32 (inp ! 2) 17) (mm_and_si128 (mm_slli_epi32 (inp ! 3) (27 - 12)) mask),
     mm_or_si128 (mm_srli_epi32 (inp ! 3) 12) (mm_and_si128 (mm_slli_epi32 (inp ! 4) (27 - 7)) mask),
     mm_or_si128 (mm_srli_epi32 (inp ! 4) 7) (mm_and_si128 (mm_slli_epi32 (inp ! 5) (27 - 2)) mask),
     mm_and_si128 (mm_srli_epi32 (inp ! 5) 2) mask,
     mm_or_si128 (mm_srli_epi32 (inp ! 5) 29) (mm_and_si128 (mm_slli_epi32 (inp ! 6) (27 - 24)) mask),
     mm_or_si128 (mm_srli_epi32 (inp ! 6) 24) (mm_and_si128 (mm_slli_epi32 (inp ! 7) (27 - 19)) mask),
     mm_or_si128 (mm_srli_epi32 (inp ! 7) 19) (mm_and_si128 (mm_slli_epi32 (inp ! 8) (27 - 14)) mask),
     mm_or_si128 (mm_srli_epi32 (inp ! 8) 14) (mm_and_si128 (mm_slli_epi32 (inp ! 9) (27 - 9)) mask),
     mm_or_si128 (mm_srli_epi32 (inp ! 9) 9) (mm_and_si128 (mm_slli_epi32 (inp ! 10) (27 - 4)) mask),
     mm_and_si128 (mm_srli_epi32 (inp ! 10) 4) mask,
     mm_or_si128 (mm_srli_epi32 (inp ! 10) 31) (mm_and_si128 (mm_slli_epi32 (inp ! 11) (27 - 26)) mask),
     mm_or_si128 (mm_srli_epi32 (inp ! 11) 26) (mm_and_si128 (mm_slli_epi32 (inp ! 12) (27 - 21)) mask),
     mm_or_si128 (mm_srli_epi32 (inp ! 12) 21) (mm_and_si128 (mm_slli_epi32 (inp ! 13) (27 - 16)) mask),
     mm_or_si128 (mm_srli_epi32 (inp ! 13) 16) (mm_and_si128 (mm_slli_epi32 (inp ! 14) (27 - 11)) mask),
     mm_or_si128 (mm_srli_epi32 (inp ! 14) 11) (mm_and_si128 (mm_slli_epi32 (inp ! 15) (27 - 6)) mask),
     mm_or_si128 (mm_srli_epi32 (inp ! 15) 6) (mm_and_si128 (mm_slli_epi32 (inp ! 16) (27 - 1)) mask),
     mm_and_si128 (mm_srli_epi32 (inp ! 16) 1) mask,
     mm_or_si128 (mm_srli_epi32 (inp ! 16) 28) (mm_and_si128 (mm_slli_epi32 (inp ! 17) (27 - 23)) mask),
     mm_or_si128 (mm_srli_epi32 (inp ! 17) 23) (mm_and_si128 (mm_slli_epi32 (inp ! 18) (27 - 18)) mask),
     mm_or_si128 (mm_srli_epi32 (inp ! 18) 18) (mm_and_si128 (mm_slli_epi32 (inp ! 19) (27 - 13)) mask),
     mm_or_si128 (mm_srli_epi32 (inp ! 19) 13) (mm_and_si128 (mm_slli_epi32 (inp ! 20) (27 - 8)) mask),
     mm_or_si128 (mm_srli_epi32 (inp ! 20) 8) (mm_and_si128 (mm_slli_epi32 (inp ! 21) (27 - 3)) mask),
     mm_and_si128 (mm_srli_epi32 (inp ! 21) 3) mask,
     mm_or_si128 (mm_srli_epi32 (inp ! 21) 30) (mm_and_si128 (mm_slli_epi32 (inp ! 22) (27 - 25)) mask),
     mm_or_si128 (mm_srli_epi32 (inp ! 22) 25) (mm_and_si128 (mm_slli_epi32 (inp ! 23) (27 - 20)) mask),
     mm_or_si128 (mm_srli_epi32 (inp ! 23) 20) (mm_and_si128 (mm_slli_epi32 (inp ! 24) (27 - 15)) mask),
     mm_or_si128 (mm_srli_epi32 (inp ! 24) 15) (mm_and_si128 (mm_slli_epi32 (inp ! 25) (27 - 10)) mask),
     mm_or_si128 (mm_srli_epi32 (inp ! 25) 10) (mm_and_si128 (mm_slli_epi32 (inp ! 26) (27 - 5)) mask),
     mm_srli_epi32 (inp ! 26) 5])"

definition iunpack28 :: "(m128i \<Rightarrow> m128i \<Rightarrow> m128i) \<Rightarrow> m128i \<Rightarrow> m128i list \<Rightarrow> m128i list" where
  "iunpack28 PrefixSum initOffset inp =
    (let mask = low_mask 28 in prefix_sums PrefixSum initOffset
    [mm_and_si128 (inp ! 0) mask,
     mm_or_si128 (mm_srli_epi32 (inp ! 0) 28) (mm_and_si128 (mm_slli_epi32 (inp ! 1) (28 - 24)) mask),
     mm_or_si128 (mm_srli_epi32 (inp ! 1) 24) (mm_and_si128 (mm_slli_epi32 (inp ! 2) (28 - 20)) mask),
     mm_or_si128 (mm_srli_epi32 (inp ! 2) 20) (mm_and_si128 (mm_slli_epi32 (inp ! 3) (28 - 16)) mask),
     mm_or_si128 (mm_srli_epi32 (inp ! 3) 16) (mm_and_si128 (mm_slli_epi32 (inp ! 4) (28 - 12)) mask),
     mm_or_si128 (mm_srli_epi32 (inp ! 4) 12) (mm_and_si128 (mm_slli_epi32 (inp ! 5) (28 - 8)) mask),
     mm_or_si128 (mm_srli_epi32 (inp ! 5) 8) (mm_and_si128 (mm_slli_epi32 (inp ! 6) (28 - 4)) mask),
     mm_srli_epi32 (inp ! 6) 4, mm_and_si128 (inp ! 7) mask,
     mm_or_si128 (mm_srli_epi32 (inp ! 7) 28) (mm_and_si128 (mm_slli_epi32 (inp ! 8) (28 - 24)) mask),
     mm_or_si128 (mm_srli_epi32 (inp ! 8) 24) (mm_and_si128 (mm_slli_epi32 (inp ! 9) (28 - 20)) mask),
     mm_or_si128 (mm_srli_epi32 (inp ! 9) 20) (mm_and_si128 (mm_slli_epi32 (inp ! 10) (28 - 16)) mask),
     mm_or_si128 (mm_srli_epi32 (inp ! 10) 16) (mm_and_si128 (mm_slli_epi32 (inp ! 11) (28 - 12)) mask),
     mm_or_si128 (mm_srli_epi32 (inp ! 11) 12) (mm_and_si128 (mm_slli_epi32 (inp ! 12) (28 - 8)) mask),
     mm_or_si128 (mm_srli_epi32 (inp ! 12) 8) (mm_and_si128 (mm_slli_epi32 (inp ! 13) (28 - 4)) mask),
     mm_srli_epi32 (inp ! 13) 4, mm_and_si128 (inp ! 14) mask,
     mm_or_si128 (mm_srli_epi32 (inp ! 14) 28) (mm_and_si128 (mm_slli_epi32 (inp ! 15) (28 - 24)) mask),
     mm_or_si128 (mm_srli_epi32 (inp ! 15) 24) (mm_and_si128 (mm_slli_epi32 (inp ! 16) (28 - 20)) mask),
     mm_or_si128 (mm_srli_epi32 (inp ! 16) 20) (mm_and_si128 (mm_slli_epi32 (inp ! 17) (28 - 16)) mask),
     mm_or_si128 (mm_srli_epi32 (inp ! 17) 16) (mm_and_si128 (mm_slli_epi32 (inp ! 18) (28 - 12)) mask),
     mm_or_si128 (mm_srli_epi32 (inp ! 18) 12) (mm_and_si128 (mm_slli_epi32 (inp ! 19) (28 - 8)) mask),
     mm_or_si128 (mm_srli_epi32 (inp ! 19) 8) (mm_and_si128 (mm_slli_epi32 (inp ! 20) (28 - 4)) mask),
     mm_srli_epi32 (inp ! 20) 4, mm_and_si128 (inp ! 21) mask,
     mm_or_si128 (mm_srli_epi32 (inp ! 21) 28) (mm_and_si128 (mm_slli_epi32 (inp ! 22) (28 - 24)) mask),
     mm_or_si128 (mm_srli_epi32 (inp ! 22) 24) (mm_and_si128 (mm_slli_epi32 (inp ! 23) (28 - 20)) mask),
     mm_or_si128 (mm_srli_epi32 (inp ! 23) 20) (mm_and_si128 (mm_slli_epi32 (inp ! 24) (28 - 16)) mask),
     mm_or_si128 (mm_srli_epi32 (inp ! 24) 16) (mm_and_si128 (mm_slli_epi32 (inp ! 25) (28 - 12)) mask),
     mm_or_si128 (mm_srli_epi32 (inp ! 25) 12) (mm_and_si128 (mm_slli_epi32 (inp ! 26) (28 - 8)) mask),
     mm_or_si128 (mm_srli_epi32 (inp ! 26) 8) (mm_and_si128 (mm_slli_epi32 (inp ! 27) (28 - 4)) mask),
     mm_srli_epi32 (inp ! 27) 4])"

definition iunpack29 :: "(m128i \<Rightarrow> m128i \<Rightarrow> m128i) \<Rightarrow> m128i \<Rightarrow> m128i list \<Rightarrow> m128i list" where
  "iunpack29 PrefixSum initOffset inp =
    (let mask = low_mask 29 in prefix_sums PrefixSum initOffset
    [mm_and_si128 (inp ! 0) mask,
     mm_or_si128 (mm_srli_epi32 (inp ! 0) 29) (mm_and_si128 (mm_slli_epi32 (inp ! 1) (29 - 26)) mask),
     mm_or_si128 (mm_srli_epi32 (inp ! 1) 26) (mm_and_si128 (mm_slli_epi32 (inp ! 2) (29 - 23)) mask),
     mm_or_si128 (mm_srli_epi32 (inp ! 2) 23) (mm_and_si128 (mm_slli_epi32 (inp ! 3) (29 - 20)) mask),
     mm_or_si128 (mm_srli_epi32 (inp ! 3) 20) (mm_and_si128 (mm_slli_epi32 (inp ! 4) (29 - 17)) mask),
     mm_or_si128 (mm_srli_epi32 (inp ! 4) 17) (mm_and_si128 (mm_slli_epi32 (inp ! 5) (29 - 14)) mask),
     mm_or_si128 (mm_srli_epi32 (inp ! 5) 14) (mm_and_si128 (mm_slli_epi32 (inp ! 6) (29 - 11)) mask),
     mm_or_si128 (mm_srli_epi32 (inp ! 6) 11) (mm_and_si128 (mm_slli_epi32 (inp ! 7) (29 - 8)) mask),
     mm_or_si128 (mm_srli_epi32 (inp ! 7) 8) (mm_and_si128 (mm_slli_epi32 (inp ! 8) (29 - 5)) mask),
     mm_or_si128 (mm_srli_epi32 (inp ! 8) 5) (mm_and_si128 (mm_slli_epi32 (inp ! 9) (29 - 2)) mask),
     mm_and_si128 (mm_srli_epi32 (inp ! 9) 2) mask,
     mm_or_si128 (mm_srli_epi32 (inp ! 9) 31) (mm_and_si128 (mm_slli_epi32 (inp ! 10) (29 - 28)) mask),
     mm_or_si128 (mm_srli_epi32 (inp ! 10) 28) (mm_and_si128 (mm_slli_epi32 (inp ! 11) (29 - 25)) mask),
     mm_or_si128 (mm_srli_epi32 (inp ! 11) 25) (mm_and_si128 (mm_slli_epi32 (inp ! 12) (29 - 22)) mask),
     mm_or_si128 (mm_srli_epi32 (inp ! 12) 22) (mm_and_si128 (mm_slli_epi32 (inp ! 13) (29 - 19)) mask),
     mm_or_si128 (mm_srli_epi32 (inp ! 13) 19) (mm_and_si128 (mm_slli_epi32 (inp ! 14) (29 - 16)) mask),
     mm_or_si128 (mm_srli_epi32 (inp ! 14) 16) (mm_and_si128 (mm_slli_epi32 (inp ! 15) (29 - 13)) mask),
     mm_or_si128 (mm_srli_epi32 (inp ! 15) 13) (mm_and_si128 (mm_slli_epi32 (inp ! 16) (29 - 10)) mask),
     mm_or_si128 (mm_srli_epi32 (inp ! 16) 10) (mm_and_si128 (mm_slli_epi32 (inp ! 17) (29 - 7)) mask),
     mm_or_si128 (mm_srli_epi32 (inp ! 17) 7) (mm_and_si128 (mm_slli_epi32 (inp ! 18) (29 - 4)) mask),
     mm_or_si128 (mm_srli_epi32 (inp ! 18) 4) (mm_and_si128 (mm_slli_epi32 (inp ! 19) (29 - 1)) mask),
     mm_and_si128 (mm_srli_epi32 (inp ! 19) 1) mask,
     mm_or_si128 (mm_srli_epi32 (inp ! 19) 30) (mm_and_si128 (mm_slli_epi32 (inp ! 20) (29 - 27)) mask),
     mm_or_si128 (mm_srli_epi32 (inp ! 20) 27) (mm_and_si128 (mm_slli_epi32 (inp ! 21) (29 - 24)) mask),
     mm_or_si128 (mm_srli_epi32 (inp ! 21) 24) (mm_and_si128 (mm_slli_epi32 (inp ! 22) (29 - 21)) mask),
     mm_or_si128 (mm_srli_epi32 (inp ! 22) 21) (mm_and_si128 (mm_slli_epi32 (inp ! 23) (29 - 18)) mask),
     mm_or_si128 (mm_srli_epi32 (inp ! 23) 18) (mm_and_si128 (mm_slli_epi32 (inp ! 24) (29 - 15)) mask),
     mm_or_si128 (mm_srli_epi32 (inp ! 24) 15) (mm_and_si128 (mm_slli_epi32 (inp ! 25) (29 - 12)) mask),
     mm_or_si128 (mm_srli_epi32 (inp ! 25) 12) (mm_and_si128 (mm_slli_epi32 (inp ! 26) (29 - 9)) mask),
     mm_or_si128 (mm_srli_epi32 (inp ! 26) 9) (mm_and_si128 (mm_slli_epi32 (inp ! 27) (29 - 6)) mask),
     mm_or_si128 (mm_srli_epi32 (inp ! 27) 6) (mm_and_si128 (mm_slli_epi32 (inp ! 28) (29 - 3)) mask),
     mm_srli_epi32 (inp ! 28) 3])"

definition iunpack30 :: "(m128i \<Rightarrow> m128i \<Rightarrow> m128i) \<Rightarrow> m128i \<Rightarrow> m128i list \<Rightarrow> m128i list" where
  "iunpack30 PrefixSum initOffset inp =
    (let mask = low_mask 30 in prefix_sums PrefixSum initOffset
    [mm_and_si128 (inp ! 0) mask,
     mm_or_si128 (mm_srli_epi32 (inp ! 0) 30) (mm_and_si128 (mm_slli_epi32 (inp ! 1) (30 - 28)) mask),
     mm_or_si128 (mm_srli_epi32 (inp ! 1) 28) (mm_and_si128 (mm_slli_epi32 (inp ! 2) (30 - 26)) mask),
     mm_or_si128 (mm_srli_epi32 (inp ! 2) 26) (mm_and_si128 (mm_slli_epi32 (inp ! 3) (30 - 24)) mask),
     mm_or_si128 (mm_srli_epi32 (inp ! 3) 24) (mm_and_si128 (mm_slli_epi32 (inp ! 4) (30 - 22)) mask),
     mm_or_si128 (mm_srli_epi32 (inp ! 4) 22) (mm_and_si128 (mm_slli_epi32 (inp ! 5) (30 - 20)) mask),
     mm_or_si128 (mm_srli_epi32 (inp ! 5) 20) (mm_and_si128 (mm_slli_epi32 (inp ! 6) (30 - 18)) mask),
     mm_or_si128 (mm_srli_epi32 (inp ! 6) 18) (mm_and_si128 (mm_slli_epi32 (inp ! 7) (30 - 16)) mask),
     mm_or_si128 (mm_srli_epi32 (inp ! 7) 16) (mm_and_si128 (mm_slli_epi32 (inp ! 8) (30 - 14)) mask),
     mm_or_si128 (mm_srli_epi32 (inp ! 8) 14) (mm_and_si128 (mm_slli_epi32 (inp ! 9) (30 - 12)) mask),
     mm_or_si128 (mm_srli_epi32 (inp ! 9) 12) (mm_and_si128 (mm_slli_epi32 (inp ! 10) (30 - 10)) mask),
     mm_or_si128 (mm_srli_epi32 (inp ! 10) 10) (mm_and_si128 (mm_slli_epi32 (inp ! 11) (30 - 8)) mask),
     mm_or_si128 (mm_srli_epi32 (inp ! 11) 8) (mm_and_si128 (mm_slli_epi32 (inp ! 12) (30 - 6)) mask),
     mm_or_si128 (mm_srli_epi32 (inp ! 12) 6) (mm_and_si128 (mm_slli_epi32 (inp ! 13) (30 - 4)) mask),
     mm_or_si128 (mm_srli_epi32 (inp ! 13) 4) (mm_and_si128 (mm_slli_epi32 (inp ! 14) (30 - 2)) mask),
     mm_srli_epi32 (inp ! 14) 2, mm_and_si128 (inp ! 15) mask,
     mm_or_si128 (mm_srli_epi32 (inp ! 15) 30) (mm_and_si128 (mm_slli_epi32 (inp ! 16) (30 - 28)) mask),
     mm_or_si128 (mm_srli_epi32 (inp ! 16) 28) (mm_and_si128 (mm_slli_epi32 (inp ! 17) (30 - 26)) mask),
     mm_or_si128 (mm_srli_epi32 (inp ! 17) 26) (mm_and_si128 (mm_slli_epi32 (inp ! 18) (30 - 24)) mask),
     mm_or_si128 (mm_srli_epi32 (inp ! 18) 24) (mm_and_si128 (mm_slli_epi32 (inp ! 19) (30 - 22)) mask),
     mm_or_si128 (mm_srli_epi32 (inp ! 19) 22) (mm_and_si128 (mm_slli_epi32 (inp ! 20) (30 - 20)) mask),
     mm_or_si128 (mm_srli_epi32 (inp ! 20) 20) (mm_and_si128 (mm_slli_epi32 (inp ! 21) (30 - 18)) mask),
     mm_or_si128 (mm_srli_epi32 (inp ! 21) 18) (mm_and_si128 (mm_slli_epi32 (inp ! 22) (30 - 16)) mask),
     mm_or_si128 (mm_srli_epi32 (inp ! 22) 16) (mm_and_si128 (mm_slli_epi32 (inp ! 23) (30 - 14)) mask),
     mm_or_si128 (mm_srli_epi32 (inp ! 23) 14) (mm_and_si128 (mm_slli_epi32 (inp ! 24) (30 - 12)) mask),
     mm_or_si128 (mm_srli_epi32 (inp ! 24) 12) (mm_and_si128 (mm_slli_epi32 (inp ! 25) (30 - 10)) mask),
     mm_or_si128 (mm_srli_epi32 (inp ! 25) 10) (mm_and_si128 (mm_slli_epi32 (inp ! 26) (30 - 8)) mask),
     mm_or_si128 (mm_srli_epi32 (inp ! 26) 8) (mm_and_si128 (mm_slli_epi32 (inp ! 27) (30 - 6)) mask),
     mm_or_si128 (mm_srli_epi32 (inp ! 27) 6) (mm_and_si128 (mm_slli_epi32 (inp ! 28) (30 - 4)) mask),
     mm_or_si128 (mm_srli_epi32 (inp ! 28) 4) (mm_and_si128 (mm_slli_epi32 (inp ! 29) (30 - 2)) mask),
     mm_srli_epi32 (inp ! 29) 2])"

definition iunpack31 :: "(m128i \<Rightarrow> m128i \<Rightarrow> m128i) \<Rightarrow> m128i \<Rightarrow> m128i list \<Rightarrow> m128i list" where
  "iunpack31 PrefixSum initOffset inp =
    (let mask = low_mask 31 in prefix_sums PrefixSum initOffset
    [mm_and_si128 (inp ! 0) mask,
     mm_or_si128 (mm_srli_epi32 (inp ! 0) 31) (mm_and_si128 (mm_slli_epi32 (inp ! 1) (31 - 30)) mask),
     mm_or_si128 (mm_srli_epi32 (inp ! 1) 30) (mm_and_si128 (mm_slli_epi32 (inp ! 2) (31 - 29)) mask),
     mm_or_si128 (mm_srli_epi32 (inp ! 2) 29) (mm_and_si128 (mm_slli_epi32 (inp ! 3) (31 - 28)) mask),
     mm_or_si128 (mm_srli_epi32 (inp ! 3) 28) (mm_and_si128 (mm_slli_epi32 (inp ! 4) (31 - 27)) mask),
     mm_or_si128 (mm_srli_epi32 (inp ! 4) 27) (mm_and_si128 (mm_slli_epi32 (inp ! 5) (31 - 26)) mask),
     mm_or_si128 (mm_srli_epi32 (inp ! 5) 26) (mm_and_si128 (mm_slli_epi32 (inp ! 6) (31 - 25)) mask),
     mm_or_si128 (mm_srli_epi32 (inp ! 6) 25) (mm_and_si128 (mm_slli_epi32 (inp ! 7) (31 - 24)) mask),
     mm_or_si128 (mm_srli_epi32 (inp ! 7) 24) (mm_and_si128 (mm_slli_epi32 (inp ! 8) (31 - 23)) mask),
     mm_or_si128 (mm_srli_epi32 (inp ! 8) 23) (mm_and_si128 (mm_slli_epi32 (inp ! 9) (31 - 22)) mask),
     mm_or_si128 (mm_srli_epi32 (inp ! 9) 22) (mm_and_si128 (mm_slli_epi32 (inp ! 10) (31 - 21)) mask),
     mm_or_si128 (mm_srli_epi32 (inp ! 10) 21) (mm_and_si128 (mm_slli_epi32 (inp ! 11) (31 - 20)) mask),
     mm_or_si128 (mm_srli_epi32 (inp ! 11) 20) (mm_and_si128 (mm_slli_epi32 (inp ! 12) (31 - 19)) mask),
     mm_or_si128 (mm_srli_epi32 (inp ! 12) 19) (mm_and_si128 (mm_slli_epi32 (inp ! 13) (31 - 18)) mask),
     mm_or_si128 (mm_srli_epi32 (inp ! 13) 18) (mm_and_si128 (mm_slli_epi32 (inp ! 14) (31 - 17)) mask),
     mm_or_si128 (mm_srli_epi32 (inp ! 14) 17) (mm_and_si128 (mm_slli_epi32 (inp ! 15) (31 - 16)) mask),
     mm_or_si128 (mm_srli_epi32 (inp ! 15) 16) (mm_and_si128 (mm_slli_epi32 (inp ! 16) (31 - 15)) mask),
     mm_or_si128 (mm_srli_epi32 (inp ! 16) 15) (mm_and_si128 (mm_slli_epi32 (inp ! 17) (31 - 14)) mask),
     mm_or_si128 (mm_srli_epi32 (inp ! 17) 14) (mm_and_si128 (mm_slli_epi32 (inp ! 18) (31 - 13)) mask),
     mm_or_si128 (mm_srli_epi32 (inp ! 18) 13) (mm_and_si128 (mm_slli_epi32 (inp ! 19) (31 - 12)) mask),
     mm_or_si128 (mm_srli_epi32 (inp ! 19) 12) (mm_and_si128 (mm_slli_epi32 (inp ! 20) (31 - 11)) mask),
     mm_or_si128 (mm_srli_epi32 (inp ! 20) 11) (mm_and_si128 (mm_slli_epi32 (inp ! 21) (31 - 10)) mask),
     mm_or_si128 (mm_srli_epi32 (inp ! 21) 10) (mm_and_si128 (mm_slli_epi32 (inp ! 22) (31 - 9)) mask),
     mm_or_si128 (mm_srli_epi32 (inp ! 22) 9) (mm_and_si128 (mm_slli_epi32 (inp ! 23) (31 - 8)) mask),
     mm_or_si128 (mm_srli_epi32 (inp ! 23) 8) (mm_and_si128 (mm_slli_epi32 (inp ! 24) (31 - 7)) mask),
     mm_or_si128 (mm_srli_epi32 (inp ! 24) 7) (mm_and_si128 (mm_slli_epi32 (inp ! 25) (31 - 6)) mask),
     mm_or_si128 (mm_srli_epi32 (inp ! 25) 6) (mm_and_si128 (mm_slli_epi32 (inp ! 26) (31 - 5)) mask),
     mm_or_si128 (mm_srli_epi32 (inp ! 26) 5) (mm_and_si128 (mm_slli_epi32 (inp ! 27) (31 - 4)) mask),
     mm_or_si128 (mm_srli_epi32 (inp ! 27) 4) (mm_and_si128 (mm_slli_epi32 (inp ! 28) (31 - 3)) mask),
     mm_or_si128 (mm_srli_epi32 (inp ! 28) 3) (mm_and_si128 (mm_slli_epi32 (inp ! 29) (31 - 2)) mask),
     mm_or_si128 (mm_srli_epi32 (inp ! 29) 2) (mm_and_si128 (mm_slli_epi32 (inp ! 30) (31 - 1)) mask),
     mm_srli_epi32 (inp ! 30) 1])"

definition iunpack32 :: "(m128i \<Rightarrow> m128i \<Rightarrow> m128i) \<Rightarrow> m128i \<Rightarrow> m128i list \<Rightarrow> m128i list" where
  "iunpack32 PrefixSum initOffset inp =
    map (\<lambda>k. inp ! k) [0..<128 div 4]"

section \<open>Packing the differences\<close>

lemma ipackwithoutmask0_eq: "ipackwithoutmask0 Delta initOffset inp = SIMD_fastpackwithoutmask0 inp"
  by (simp only: ipackwithoutmask0_def SIMD_fastpackwithoutmask0_def Let_def)

lemma ipackwithoutmask1_eq: "ipackwithoutmask1 Delta initOffset inp = SIMD_fastpackwithoutmask1 (deltas Delta initOffset inp)"
  by (simp only: ipackwithoutmask1_def SIMD_fastpackwithoutmask1_def Let_def)

lemma ipackwithoutmask2_eq: "ipackwithoutmask2 Delta initOffset inp = SIMD_fastpackwithoutmask2 (deltas Delta initOffset inp)"
  by (simp only: ipackwithoutmask2_def SIMD_fastpackwithoutmask2_def Let_def)

lemma ipackwithoutmask3_eq: "ipackwithoutmask3 Delta initOffset inp = SIMD_fastpackwithoutmask3 (deltas Delta initOffset inp)"
  by (simp only: ipackwithoutmask3_def SIMD_fastpackwithoutmask3_def Let_def)

lemma ipackwithoutmask4_eq: "ipackwithoutmask4 Delta initOffset inp = SIMD_fastpackwithoutmask4 (deltas Delta initOffset inp)"
  by (simp add: ipackwithoutmask4_def SIMD_fastpackwithoutmask4_def Let_def upt_step del: One_nat_def add_Suc_right flip: numeral_2_eq_2)

lemma ipackwithoutmask5_eq: "ipackwithoutmask5 Delta initOffset inp = SIMD_fastpackwithoutmask5 (deltas Delta initOffset inp)"
  by (simp only: ipackwithoutmask5_def SIMD_fastpackwithoutmask5_def Let_def)

lemma ipackwithoutmask6_eq: "ipackwithoutmask6 Delta initOffset inp = SIMD_fastpackwithoutmask6 (deltas Delta initOffset inp)"
  by (simp only: ipackwithoutmask6_def SIMD_fastpackwithoutmask6_def Let_def)

lemma ipackwithoutmask7_eq: "ipackwithoutmask7 Delta initOffset inp = SIMD_fastpackwithoutmask7 (deltas Delta initOffset inp)"
  by (simp only: ipackwithoutmask7_def SIMD_fastpackwithoutmask7_def Let_def)

lemma ipackwithoutmask8_eq: "ipackwithoutmask8 Delta initOffset inp = SIMD_fastpackwithoutmask8 (deltas Delta initOffset inp)"
  by (simp add: ipackwithoutmask8_def SIMD_fastpackwithoutmask8_def Let_def upt_step del: One_nat_def add_Suc_right flip: numeral_2_eq_2)

lemma ipackwithoutmask9_eq: "ipackwithoutmask9 Delta initOffset inp = SIMD_fastpackwithoutmask9 (deltas Delta initOffset inp)"
  by (simp only: ipackwithoutmask9_def SIMD_fastpackwithoutmask9_def Let_def)

lemma ipackwithoutmask10_eq: "ipackwithoutmask10 Delta initOffset inp = SIMD_fastpackwithoutmask10 (deltas Delta initOffset inp)"
  by (simp only: ipackwithoutmask10_def SIMD_fastpackwithoutmask10_def Let_def)

lemma ipackwithoutmask11_eq: "ipackwithoutmask11 Delta initOffset inp = SIMD_fastpackwithoutmask11 (deltas Delta initOffset inp)"
  by (simp only: ipackwithoutmask11_def SIMD_fastpackwithoutmask11_def Let_def)

lemma ipackwithoutmask12_eq: "ipackwithoutmask12 Delta initOffset inp = SIMD_fastpackwithoutmask12 (deltas Delta initOffset inp)"
  by (simp only: ipackwithoutmask12_def SIMD_fastpackwithoutmask12_def Let_def)

lemma ipackwithoutmask13_eq: "ipackwithoutmask13 Delta initOffset inp = SIMD_fastpackwithoutmask13 (deltas Delta initOffset inp)"
  by (simp only: ipackwithoutmask13_def SIMD_fastpackwithoutmask13_def Let_def)

lemma ipackwithoutmask14_eq: "ipackwithoutmask14 Delta initOffset inp = SIMD_fastpackwithoutmask14 (deltas Delta initOffset inp)"
  by (simp only: ipackwithoutmask14_def SIMD_fastpackwithoutmask14_def Let_def)

lemma ipackwithoutmask15_eq: "ipackwithoutmask15 Delta initOffset inp = SIMD_fastpackwithoutmask15 (deltas Delta initOffset inp)"
  by (simp only: ipackwithoutmask15_def SIMD_fastpackwithoutmask15_def Let_def)

lemma ipackwithoutmask16_eq: "ipackwithoutmask16 Delta initOffset inp = SIMD_fastpackwithoutmask16 (deltas Delta initOffset inp)"
  by (simp add: ipackwithoutmask16_def SIMD_fastpackwithoutmask16_def Let_def upt_step del: One_nat_def add_Suc_right flip: numeral_2_eq_2)

lemma ipackwithoutmask17_eq: "ipackwithoutmask17 Delta initOffset inp = SIMD_fastpackwithoutmask17 (deltas Delta initOffset inp)"
  by (simp only: ipackwithoutmask17_def SIMD_fastpackwithoutmask17_def Let_def)

lemma ipackwithoutmask18_eq: "ipackwithoutmask18 Delta initOffset inp = SIMD_fastpackwithoutmask18 (deltas Delta initOffset inp)"
  by (simp only: ipackwithoutmask18_def SIMD_fastpackwithoutmask18_def Let_def)

lemma ipackwithoutmask19_eq: "ipackwithoutmask19 Delta initOffset inp = SIMD_fastpackwithoutmask19 (deltas Delta initOffset inp)"
  by (simp only: ipackwithoutmask19_def SIMD_fastpackwithoutmask19_def Let_def)

lemma ipackwithoutmask20_eq: "ipackwithoutmask20 Delta initOffset inp = SIMD_fastpackwithoutmask20 (deltas Delta initOffset inp)"
  by (simp only: ipackwithoutmask20_def SIMD_fastpackwithoutmask20_def Let_def)

lemma ipackwithoutmask21_eq: "ipackwithoutmask21 Delta initOffset inp = SIMD_fastpackwithoutmask21 (deltas Delta initOffset inp)"
  by (simp only: ipackwithoutmask21_def SIMD_fastpackwithoutmask21_def Let_def)

lemma ipackwithoutmask22_eq: "ipackwithoutmask22 Delta initOffset inp = SIMD_fastpackwithoutmask22 (deltas Delta initOffset inp)"
  by (simp only: ipackwithoutmask22_def SIMD_fastpackwithoutmask22_def Let_def)

lemma ipackwithoutmask23_eq: "ipackwithoutmask23 Delta initOffset inp = SIMD_fastpackwithoutmask23 (deltas Delta initOffset inp)"
  by (simp only: ipackwithoutmask23_def SIMD_fastpackwithoutmask23_def Let_def)

lemma ipackwithoutmask24_eq: "ipackwithoutmask24 Delta initOffset inp = SIMD_fastpackwithoutmask24 (deltas Delta initOffset inp)"
  by (simp only: ipackwithoutmask24_def SIMD_fastpackwithoutmask24_def Let_def)

lemma ipackwithoutmask25_eq: "ipackwithoutmask25 Delta initOffset inp = SIMD_fastpackwithoutmask25 (deltas Delta initOffset inp)"
  by (simp only: ipackwithoutmask25_def SIMD_fastpackwithoutmask25_def Let_def)

lemma ipackwithoutmask26_eq: "ipackwithoutmask26 Delta initOffset inp = SIMD_fastpackwithoutmask26 (deltas Delta initOffset inp)"
  by (simp only: ipackwithoutmask26_def SIMD_fastpackwithoutmask26_def Let_def)

lemma ipackwithoutmask27_eq: "ipackwithoutmask27 Delta initOffset inp = SIMD_fastpackwithoutmask27 (deltas Delta initOffset inp)"
  by (simp only: ipackwithoutmask27_def SIMD_fastpackwithoutmask27_def Let_def)

lemma ipackwithoutmask28_eq: "ipackwithoutmask28 Delta initOffset inp = SIMD_fastpackwithoutmask28 (deltas Delta initOffset inp)"
  by (simp only: ipackwithoutmask28_def SIMD_fastpackwithoutmask28_def Let_def)

lemma ipackwithoutmask29_eq: "ipackwithoutmask29 Delta initOffset inp = SIMD_fastpackwithoutmask29 (deltas Delta initOffset inp)"
  by (simp only: ipackwithoutmask29_def SIMD_fastpackwithoutmask29_def Let_def)

lemma ipackwithoutmask30_eq: "ipackwithoutmask30 Delta initOffset inp = SIMD_fastpackwithoutmask30 (deltas Delta initOffset inp)"
  by (simp only: ipackwithoutmask30_def SIMD_fastpackwithoutmask30_def Let_def)

lemma ipackwithoutmask31_eq: "ipackwithoutmask31 Delta initOffset inp = SIMD_fastpackwithoutmask31 (deltas Delta initOffset inp)"
  by (simp only: ipackwithoutmask31_def SIMD_fastpackwithoutmask31_def Let_def)

lemma ipackwithoutmask32_eq: "ipackwithoutmask32 Delta initOffset inp = SIMD_fastpackwithoutmask32 inp"
  by (simp only: ipackwithoutmask32_def SIMD_fastpackwithoutmask32_def Let_def)

lemma ipack0_eq: "ipack0 Delta initOffset inp = SIMD_fastpackwithoutmask0 inp"
  by (simp only: ipack0_def SIMD_fastpackwithoutmask0_def Let_def mask_literals vmask_def)

lemma ipack1_eq: "ipack1 Delta initOffset inp = SIMD_fastpackwithoutmask1 (vmask 1 (deltas Delta initOffset inp))"
  by (simp only: ipack1_def SIMD_fastpackwithoutmask1_def Let_def mask_literals vmask_def)

lemma ipack2_eq: "ipack2 Delta initOffset inp = SIMD_fastpackwithoutmask2 (vmask 2 (deltas Delta initOffset inp))"
  by (simp only: ipack2_def SIMD_fastpackwithoutmask2_def Let_def mask_literals vmask_def)

lemma ipack3_eq: "ipack3 Delta initOffset inp = SIMD_fastpackwithoutmask3 (vmask 3 (deltas Delta initOffset inp))"
  by (simp only: ipack3_def SIMD_fastpackwithoutmask3_def Let_def mask_literals vmask_def)

lemma ipack4_eq: "ipack4 Delta initOffset inp = SIMD_fastpackwithoutmask4 (vmask 4 (deltas Delta initOffset inp))"
  by (simp add: ipack4_def SIMD_fastpackwithoutmask4_def Let_def upt_step mask_literals vmask_def del: One_nat_def add_Suc_right flip: numeral_2_eq_2)

lemma ipack5_eq: "ipack5 Delta initOffset inp = SIMD_fastpackwithoutmask5 (vmask 5 (deltas Delta initOffset inp))"
  by (simp only: ipack5_def SIMD_fastpackwithoutmask5_def Let_def mask_literals vmask_def)

lemma ipack6_eq: "ipack6 Delta initOffset inp = SIMD_fastpackwithoutmask6 (vmask 6 (deltas Delta initOffset inp))"
  by (simp only: ipack6_def SIMD_fastpackwithoutmask6_def Let_def mask_literals vmask_def)

lemma ipack7_eq: "ipack7 Delta initOffset inp = SIMD_fastpackwithoutmask7 (vmask 7 (deltas Delta initOffset inp))"
  by (simp only: ipack7_def SIMD_fastpackwithoutmask7_def Let_def mask_literals vmask_def)

lemma ipack8_eq: "ipack8 Delta initOffset inp = SIMD_fastpackwithoutmask8 (vmask 8 (deltas Delta initOffset inp))"
  by (simp add: ipack8_def SIMD_fastpackwithoutmask8_def Let_def upt_step mask_literals vmask_def del: One_nat_def add_Suc_right flip: numeral_2_eq_2)

lemma ipack9_eq: "ipack9 Delta initOffset inp = SIMD_fastpackwithoutmask9 (vmask 9 (deltas Delta initOffset inp))"
  by (simp only: ipack9_def SIMD_fastpackwithoutmask9_def Let_def mask_literals vmask_def)

lemma ipack10_eq: "ipack10 Delta initOffset inp = SIMD_fastpackwithoutmask10 (vmask 10 (deltas Delta initOffset inp))"
  by (simp only: ipack10_def SIMD_fastpackwithoutmask10_def Let_def mask_literals vmask_def)

lemma ipack11_eq: "ipack11 Delta initOffset inp = SIMD_fastpackwithoutmask11 (vmask 11 (deltas Delta initOffset inp))"
  by (simp only: ipack11_def SIMD_fastpackwithoutmask11_def Let_def mask_literals vmask_def)

lemma ipack12_eq: "ipack12 Delta initOffset inp = SIMD_fastpackwithoutmask12 (vmask 12 (deltas Delta initOffset inp))"
  by (simp only: ipack12_def SIMD_fastpackwithoutmask12_def Let_def mask_literals vmask_def)

lemma ipack13_eq: "ipack13 Delta initOffset inp = SIMD_fastpackwithoutmask13 (vmask 13 (deltas Delta initOffset inp))"
  by (simp only: ipack13_def SIMD_fastpackwithoutmask13_def Let_def mask_literals vmask_def)

lemma ipack14_eq: "ipack14 Delta initOffset inp = SIMD_fastpackwithoutmask14 (vmask 14 (deltas Delta initOffset inp))"
  by (simp only: ipack14_def SIMD_fastpackwithoutmask14_def Let_def mask_literals vmask_def)

lemma ipack15_eq: "ipack15 Delta initOffset inp = SIMD_fastpackwithoutmask15 (vmask 15 (deltas Delta initOffset inp))"
  by (simp only: ipack15_def SIMD_fastpackwithoutmask15_def Let_def mask_literals vmask_def)

lemma ipack16_eq: "ipack16 Delta initOffset inp = SIMD_fastpackwithoutmask16 (vmask 16 (deltas Delta initOffset inp))"
  by (simp add: ipack16_def SIMD_fastpackwithoutmask16_def Let_def upt_step mask_literals vmask_def del: One_nat_def add_Suc_right flip: numeral_2_eq_2)

lemma ipack17_eq: "ipack17 Delta initOffset inp = SIMD_fastpackwithoutmask17 (vmask 17 (deltas Delta initOffset inp))"
  by (simp only: ipack17_def SIMD_fastpackwithoutmask17_def Let_def mask_literals vmask_def)

lemma ipack18_eq: "ipack18 Delta initOffset inp = SIMD_fastpackwithoutmask18 (vmask 18 (deltas Delta initOffset inp))"
  by (simp only: ipack18_def SIMD_fastpackwithoutmask18_def Let_def mask_literals vmask_def)

lemma ipack19_eq: "ipack19 Delta initOffset inp = SIMD_fastpackwithoutmask19 (vmask 19 (deltas Delta initOffset inp))"
  by (simp only: ipack19_def SIMD_fastpackwithoutmask19_def Let_def mask_literals vmask_def)

lemma ipack20_eq: "ipack20 Delta initOffset inp = SIMD_fastpackwithoutmask20 (vmask 20 (deltas Delta initOffset inp))"
  by (simp only: ipack20_def SIMD_fastpackwithoutmask20_def Let_def mask_literals vmask_def)

lemma ipack21_eq: "ipack21 Delta initOffset inp = SIMD_fastpackwithoutmask21 (vmask 21 (deltas Delta initOffset inp))"
  by (simp only: ipack21_def SIMD_fastpackwithoutmask21_def Let_def mask_literals vmask_def)

lemma ipack22_eq: "ipack22 Delta initOffset inp = SIMD_fastpackwithoutmask22 (vmask 22 (deltas Delta initOffset inp))"
  by (simp only: ipack22_def SIMD_fastpackwithoutmask22_def Let_def mask_literals vmask_def)

lemma ipack23_eq: "ipack23 Delta initOffset inp = SIMD_fastpackwithoutmask23 (vmask 23 (deltas Delta initOffset inp))"
  by (simp only: ipack23_def SIMD_fastpackwithoutmask23_def Let_def mask_literals vmask_def)

lemma ipack24_eq: "ipack24 Delta initOffset inp = SIMD_fastpackwithoutmask24 (vmask 24 (deltas Delta initOffset inp))"
  by (simp only: ipack24_def SIMD_fastpackwithoutmask24_def Let_def mask_literals vmask_def)

lemma ipack25_eq: "ipack25 Delta initOffset inp = SIMD_fastpackwithoutmask25 (vmask 25 (deltas Delta initOffset inp))"
  by (simp only: ipack25_def SIMD_fastpackwithoutmask25_def Let_def mask_literals vmask_def)

lemma ipack26_eq: "ipack26 Delta initOffset inp = SIMD_fastpackwithoutmask26 (vmask 26 (deltas Delta initOffset inp))"
  by (simp only: ipack26_def SIMD_fastpackwithoutmask26_def Let_def mask_literals vmask_def)

lemma ipack27_eq: "ipack27 Delta initOffset inp = SIMD_fastpackwithoutmask27 (vmask 27 (deltas Delta initOffset inp))"
  by (simp only: ipack27_def SIMD_fastpackwithoutmask27_def Let_def mask_literals vmask_def)

lemma ipack28_eq: "ipack28 Delta initOffset inp = SIMD_fastpackwithoutmask28 (vmask 28 (deltas Delta initOffset inp))"
  by (simp only: ipack28_def SIMD_fastpackwithoutmask28_def Let_def mask_literals vmask_def)

lemma ipack29_eq: "ipack29 Delta initOffset inp = SIMD_fastpackwithoutmask29 (vmask 29 (deltas Delta initOffset inp))"
  by (simp only: ipack29_def SIMD_fastpackwithoutmask29_def Let_def mask_literals vmask_def)

lemma ipack30_eq: "ipack30 Delta initOffset inp = SIMD_fastpackwithoutmask30 (vmask 30 (deltas Delta initOffset inp))"
  by (simp only: ipack30_def SIMD_fastpackwithoutmask30_def Let_def mask_literals vmask_def)

lemma ipack31_eq: "ipack31 Delta initOffset inp = SIMD_fastpackwithoutmask31 (vmask 31 (deltas Delta initOffset inp))"
  by (simp only: ipack31_def SIMD_fastpackwithoutmask31_def Let_def mask_literals vmask_def)

lemma ipack32_eq: "ipack32 Delta initOffset inp = SIMD_fastpackwithoutmask32 inp"
  by (simp only: ipack32_def SIMD_fastpackwithoutmask32_def Let_def mask_literals vmask_def)

section \<open>Summing up what is unpacked\<close>

lemma iunpack0_eq: "iunpack0 PrefixSum initOffset inp = prefix_sums PrefixSum initOffset (SIMD_nullunpacker32 inp)"
  by (simp add: iunpack0_def SIMD_nullunpacker32_def)

lemma iunpack1_eq: "iunpack1 PrefixSum initOffset inp = prefix_sums PrefixSum initOffset (SIMD_fastunpack1 inp)"
  by (simp add: iunpack1_def SIMD_fastunpack1_def Let_def upt_step mask_literals mm_srli_0 mm_srli_31 del: One_nat_def add_Suc_right flip: numeral_2_eq_2)

lemma iunpack2_eq: "iunpack2 PrefixSum initOffset inp = prefix_sums PrefixSum initOffset (SIMD_fastunpack2 inp)"
  by (simp only: iunpack2_def SIMD_fastunpack2_def Let_def mask_literals)

lemma iunpack3_eq: "iunpack3 PrefixSum initOffset inp = prefix_sums PrefixSum initOffset (SIMD_fastunpack3 inp)"
  by (simp only: iunpack3_def SIMD_fastunpack3_def Let_def mask_literals)

lemma iunpack4_eq: "iunpack4 PrefixSum initOffset inp = prefix_sums PrefixSum initOffset (SIMD_fastunpack4 inp)"
  by (simp only: iunpack4_def SIMD_fastunpack4_def Let_def mask_literals)

lemma iunpack5_eq: "iunpack5 PrefixSum initOffset inp = prefix_sums PrefixSum initOffset (SIMD_fastunpack5 inp)"
  by (simp only: iunpack5_def SIMD_fastunpack5_def Let_def mask_literals)

lemma iunpack6_eq: "iunpack6 PrefixSum initOffset inp = prefix_sums PrefixSum initOffset (SIMD_fastunpack6 inp)"
  by (simp only: iunpack6_def SIMD_fastunpack6_def Let_def mask_literals)

lemma iunpack7_eq: "iunpack7 PrefixSum initOffset inp = prefix_sums PrefixSum initOffset (SIMD_fastunpack7 inp)"
  by (simp only: iunpack7_def SIMD_fastunpack7_def Let_def mask_literals)

lemma iunpack8_eq: "iunpack8 PrefixSum initOffset inp = prefix_sums PrefixSum initOffset (SIMD_fastunpack8 inp)"
  by (simp only: iunpack8_def SIMD_fastunpack8_def Let_def mask_literals)

lemma iunpack9_eq: "iunpack9 PrefixSum initOffset inp = prefix_sums PrefixSum initOffset (SIMD_fastunpack9 inp)"
  by (simp only: iunpack9_def SIMD_fastunpack9_def Let_def mask_literals)

lemma iunpack10_eq: "iunpack10 PrefixSum initOffset inp = prefix_sums PrefixSum initOffset (SIMD_fastunpack10 inp)"
  by (simp only: iunpack10_def SIMD_fastunpack10_def Let_def mask_literals)

lemma iunpack11_eq: "iunpack11 PrefixSum initOffset inp = prefix_sums PrefixSum initOffset (SIMD_fastunpack11 inp)"
  by (simp only: iunpack11_def SIMD_fastunpack11_def Let_def mask_literals)

lemma iunpack12_eq: "iunpack12 PrefixSum initOffset inp = prefix_sums PrefixSum initOffset (SIMD_fastunpack12 inp)"
  by (simp only: iunpack12_def SIMD_fastunpack12_def Let_def mask_literals)

lemma iunpack13_eq: "iunpack13 PrefixSum initOffset inp = prefix_sums PrefixSum initOffset (SIMD_fastunpack13 inp)"
  by (simp only: iunpack13_def SIMD_fastunpack13_def Let_def mask_literals)

lemma iunpack14_eq: "iunpack14 PrefixSum initOffset inp = prefix_sums PrefixSum initOffset (SIMD_fastunpack14 inp)"
  by (simp only: iunpack14_def SIMD_fastunpack14_def Let_def mask_literals)

lemma iunpack15_eq: "iunpack15 PrefixSum initOffset inp = prefix_sums PrefixSum initOffset (SIMD_fastunpack15 inp)"
  by (simp only: iunpack15_def SIMD_fastunpack15_def Let_def mask_literals)

lemma iunpack16_eq: "iunpack16 PrefixSum initOffset inp = prefix_sums PrefixSum initOffset (SIMD_fastunpack16 inp)"
  by (simp only: iunpack16_def SIMD_fastunpack16_def Let_def mask_literals)

lemma iunpack17_eq: "iunpack17 PrefixSum initOffset inp = prefix_sums PrefixSum initOffset (SIMD_fastunpack17 inp)"
  by (simp only: iunpack17_def SIMD_fastunpack17_def Let_def mask_literals)

lemma iunpack18_eq: "iunpack18 PrefixSum initOffset inp = prefix_sums PrefixSum initOffset (SIMD_fastunpack18 inp)"
  by (simp only: iunpack18_def SIMD_fastunpack18_def Let_def mask_literals)

lemma iunpack19_eq: "iunpack19 PrefixSum initOffset inp = prefix_sums PrefixSum initOffset (SIMD_fastunpack19 inp)"
  by (simp only: iunpack19_def SIMD_fastunpack19_def Let_def mask_literals)

lemma iunpack20_eq: "iunpack20 PrefixSum initOffset inp = prefix_sums PrefixSum initOffset (SIMD_fastunpack20 inp)"
  by (simp only: iunpack20_def SIMD_fastunpack20_def Let_def mask_literals)

lemma iunpack21_eq: "iunpack21 PrefixSum initOffset inp = prefix_sums PrefixSum initOffset (SIMD_fastunpack21 inp)"
  by (simp only: iunpack21_def SIMD_fastunpack21_def Let_def mask_literals)

lemma iunpack22_eq: "iunpack22 PrefixSum initOffset inp = prefix_sums PrefixSum initOffset (SIMD_fastunpack22 inp)"
  by (simp only: iunpack22_def SIMD_fastunpack22_def Let_def mask_literals)

lemma iunpack23_eq: "iunpack23 PrefixSum initOffset inp = prefix_sums PrefixSum initOffset (SIMD_fastunpack23 inp)"
  by (simp only: iunpack23_def SIMD_fastunpack23_def Let_def mask_literals)

lemma iunpack24_eq: "iunpack24 PrefixSum initOffset inp = prefix_sums PrefixSum initOffset (SIMD_fastunpack24 inp)"
  by (simp only: iunpack24_def SIMD_fastunpack24_def Let_def mask_literals)

lemma iunpack25_eq: "iunpack25 PrefixSum initOffset inp = prefix_sums PrefixSum initOffset (SIMD_fastunpack25 inp)"
  by (simp only: iunpack25_def SIMD_fastunpack25_def Let_def mask_literals)

lemma iunpack26_eq: "iunpack26 PrefixSum initOffset inp = prefix_sums PrefixSum initOffset (SIMD_fastunpack26 inp)"
  by (simp only: iunpack26_def SIMD_fastunpack26_def Let_def mask_literals)

lemma iunpack27_eq: "iunpack27 PrefixSum initOffset inp = prefix_sums PrefixSum initOffset (SIMD_fastunpack27 inp)"
  by (simp only: iunpack27_def SIMD_fastunpack27_def Let_def mask_literals)

lemma iunpack28_eq: "iunpack28 PrefixSum initOffset inp = prefix_sums PrefixSum initOffset (SIMD_fastunpack28 inp)"
  by (simp only: iunpack28_def SIMD_fastunpack28_def Let_def mask_literals)

lemma iunpack29_eq: "iunpack29 PrefixSum initOffset inp = prefix_sums PrefixSum initOffset (SIMD_fastunpack29 inp)"
  by (simp only: iunpack29_def SIMD_fastunpack29_def Let_def mask_literals)

lemma iunpack30_eq: "iunpack30 PrefixSum initOffset inp = prefix_sums PrefixSum initOffset (SIMD_fastunpack30 inp)"
  by (simp only: iunpack30_def SIMD_fastunpack30_def Let_def mask_literals)

lemma iunpack31_eq: "iunpack31 PrefixSum initOffset inp = prefix_sums PrefixSum initOffset (SIMD_fastunpack31 inp)"
  by (simp only: iunpack31_def SIMD_fastunpack31_def Let_def mask_literals)

lemma iunpack32_eq: "iunpack32 PrefixSum initOffset inp = SIMD_fastunpack32 inp"
  by (simp add: iunpack32_def SIMD_fastunpack32_def)

text \<open>The dispatch arrays of \<open>IntegratedArrayDispatch\<close> in \<open>simdintegratedbitpacking.h\<close>.\<close>

definition ipackwithoutmask_table :: "((m128i \<Rightarrow> m128i \<Rightarrow> m128i) \<Rightarrow> m128i \<Rightarrow> m128i list \<Rightarrow> m128i list) list" where
  "ipackwithoutmask_table =
    [ipackwithoutmask0, ipackwithoutmask1, ipackwithoutmask2, ipackwithoutmask3, ipackwithoutmask4,
     ipackwithoutmask5, ipackwithoutmask6, ipackwithoutmask7, ipackwithoutmask8, ipackwithoutmask9,
     ipackwithoutmask10, ipackwithoutmask11, ipackwithoutmask12, ipackwithoutmask13, ipackwithoutmask14,
     ipackwithoutmask15, ipackwithoutmask16, ipackwithoutmask17, ipackwithoutmask18, ipackwithoutmask19,
     ipackwithoutmask20, ipackwithoutmask21, ipackwithoutmask22, ipackwithoutmask23, ipackwithoutmask24,
     ipackwithoutmask25, ipackwithoutmask26, ipackwithoutmask27, ipackwithoutmask28, ipackwithoutmask29,
     ipackwithoutmask30, ipackwithoutmask31, ipackwithoutmask32]"

lemmas ipackwithoutmask_eqs =
  ipackwithoutmask0_eq ipackwithoutmask1_eq ipackwithoutmask2_eq ipackwithoutmask3_eq ipackwithoutmask4_eq
  ipackwithoutmask5_eq ipackwithoutmask6_eq ipackwithoutmask7_eq ipackwithoutmask8_eq ipackwithoutmask9_eq
  ipackwithoutmask10_eq ipackwithoutmask11_eq ipackwithoutmask12_eq ipackwithoutmask13_eq
  ipackwithoutmask14_eq ipackwithoutmask15_eq ipackwithoutmask16_eq ipackwithoutmask17_eq
  ipackwithoutmask18_eq ipackwithoutmask19_eq ipackwithoutmask20_eq ipackwithoutmask21_eq
  ipackwithoutmask22_eq ipackwithoutmask23_eq ipackwithoutmask24_eq ipackwithoutmask25_eq
  ipackwithoutmask26_eq ipackwithoutmask27_eq ipackwithoutmask28_eq ipackwithoutmask29_eq
  ipackwithoutmask30_eq ipackwithoutmask31_eq ipackwithoutmask32_eq

definition ipack_table :: "((m128i \<Rightarrow> m128i \<Rightarrow> m128i) \<Rightarrow> m128i \<Rightarrow> m128i list \<Rightarrow> m128i list) list" where
  "ipack_table =
    [ipack0, ipack1, ipack2, ipack3, ipack4, ipack5, ipack6, ipack7, ipack8, ipack9, ipack10, ipack11,
     ipack12, ipack13, ipack14, ipack15, ipack16, ipack17, ipack18, ipack19, ipack20, ipack21, ipack22,
     ipack23, ipack24, ipack25, ipack26, ipack27, ipack28, ipack29, ipack30, ipack31, ipack32]"

lemmas ipack_eqs =
  ipack0_eq ipack1_eq ipack2_eq ipack3_eq ipack4_eq ipack5_eq ipack6_eq ipack7_eq ipack8_eq ipack9_eq
  ipack10_eq ipack11_eq ipack12_eq ipack13_eq ipack14_eq ipack15_eq ipack16_eq ipack17_eq ipack18_eq
  ipack19_eq ipack20_eq ipack21_eq ipack22_eq ipack23_eq ipack24_eq ipack25_eq ipack26_eq ipack27_eq
  ipack28_eq ipack29_eq ipack30_eq ipack31_eq ipack32_eq

definition iunpack_table :: "((m128i \<Rightarrow> m128i \<Rightarrow> m128i) \<Rightarrow> m128i \<Rightarrow> m128i list \<Rightarrow> m128i list) list" where
  "iunpack_table =
    [iunpack0, iunpack1, iunpack2, iunpack3, iunpack4, iunpack5, iunpack6, iunpack7, iunpack8, iunpack9,
     iunpack10, iunpack11, iunpack12, iunpack13, iunpack14, iunpack15, iunpack16, iunpack17, iunpack18,
     iunpack19, iunpack20, iunpack21, iunpack22, iunpack23, iunpack24, iunpack25, iunpack26, iunpack27,
     iunpack28, iunpack29, iunpack30, iunpack31, iunpack32]"

lemmas iunpack_eqs =
  iunpack0_eq iunpack1_eq iunpack2_eq iunpack3_eq iunpack4_eq iunpack5_eq iunpack6_eq iunpack7_eq iunpack8_eq
  iunpack9_eq iunpack10_eq iunpack11_eq iunpack12_eq iunpack13_eq iunpack14_eq iunpack15_eq iunpack16_eq
  iunpack17_eq iunpack18_eq iunpack19_eq iunpack20_eq iunpack21_eq iunpack22_eq iunpack23_eq iunpack24_eq
  iunpack25_eq iunpack26_eq iunpack27_eq iunpack28_eq iunpack29_eq iunpack30_eq iunpack31_eq iunpack32_eq

text \<open>The integrated routines are the plain ones on differences; at the widths 0 and 32 they leave the
  differences out.\<close>

lemma ipackwithoutmask_table_eq:
  "list_all2 (\<lambda>b (f, g). \<forall>D p inp. f D p inp = g (if b = 0 \<or> b = 32 then inp else deltas D p inp))
     [0..<33] (zip ipackwithoutmask_table SIMD_packwithoutmask_table)"
  by (simp only: ipackwithoutmask_table_def SIMD_packwithoutmask_table_def zip_Cons_Cons)
     (simp add: upt_step ipackwithoutmask_eqs del: One_nat_def add_Suc_right)

lemma ipack_table_eq:
  "list_all2 (\<lambda>b (f, g). \<forall>D p inp. f D p inp = g (if b = 0 \<or> b = 32 then inp else vmask b (deltas D p inp)))
     [0..<33] (zip ipack_table SIMD_packwithoutmask_table)"
  by (simp only: ipack_table_def SIMD_packwithoutmask_table_def zip_Cons_Cons)
     (simp add: upt_step ipack_eqs del: One_nat_def add_Suc_right)

lemma iunpack_table_eq:
  "list_all2 (\<lambda>b (f, g). \<forall>S p inp. f S p inp = (if b = 32 then g inp else prefix_sums S p (g inp)))
     [0..<33] (zip iunpack_table SIMD_unpack_table)"
  by (simp only: iunpack_table_def SIMD_unpack_table_def zip_Cons_Cons)
     (simp add: upt_step iunpack_eqs del: One_nat_def add_Suc_right)

end
