(* ===== verification/Bitpack.thy ===== *)
theory Bitpack
  imports Bitpack_Unpack Bitpack_Pack Bitpack_NoMask
begin

text \<open>
  The callers of the bit packing routines: the width switches and the block loops of
  \<open>include/util/compression/int/fastpfor/bitpackinghelpers.h\<close>, and the growable vectors of
  \<open>packingvectors.h\<close>. A packer is modelled by the words it stores from \<open>out\<close> on, an unpacker also
  by what is left of its input. The locale \<open>chunk_codec\<close> is what the loops rely on: packing 32
  integers of a width and unpacking them gives them back.
\<close>

section \<open>The width switches\<close>

definition fastunpack :: "u32 list \<Rightarrow> nat \<Rightarrow> u32 list" where
  "fastunpack inp b = (if b < 33 then (fastunpack_table ! b) inp else [])"

definition fastpack :: "u32 list \<Rightarrow> nat \<Rightarrow> u32 list" where
  "fastpack inp b = (if b < 33 then (fastpack_table ! b) inp else [])"

definition fastpackwithoutmask :: "u32 list \<Rightarrow> nat \<Rightarrow> u32 list" where
  "fastpackwithoutmask inp b = (if b < 33 then (fastpackwithoutmask_table ! b) inp else [])"

lemma fastunpack_ref: "b \<le> 32 \<Longrightarrow> fastunpack ws b = unpack_ref b ws"
  by (simp add: fastunpack_def fastunpack_table_eq del: upt.simps)

lemma fastpack_ref: "b \<le> 32 \<Longrightarrow> fastpack xs b = pack_ref b xs"
  by (simp add: fastpack_def fastpack_table_eq del: upt.simps)

lemma fastpackwithoutmask_ref: "b \<le> 32 \<Longrightarrow> fastpackwithoutmask xs b = pack_nomask_ref b xs"
  by (simp add: fastpackwithoutmask_def fastpackwithoutmask_table_eq del: upt.simps)

section \<open>Blocks\<close>

text \<open>The loops over the chunks of 32 integers. The counter \<open>j\<close> is a \<open>uint32_t\<close>: it wraps.\<close>

partial_function (option) pack_loop ::
  "(u32 list \<Rightarrow> nat \<Rightarrow> u32 list) \<Rightarrow> nat \<Rightarrow> u32 list \<Rightarrow> nat \<Rightarrow> nat \<Rightarrow> u32 list option"
where
  "pack_loop pk n source b j =
     (if j = n then Some [] else do {
        xs \<leftarrow> rd_seq source j 32;
        rest \<leftarrow> pack_loop pk n source b ((j + 32) mod 2 ^ 32);
        Some (pk xs b @ rest)
      })"

partial_function (option) unpack_loop ::
  "nat \<Rightarrow> u32 list \<Rightarrow> nat \<Rightarrow> nat \<Rightarrow> (u32 list \<times> u32 list) option"
where
  "unpack_loop n source b j =
     (if j = n then Some ([], source) else do {
        ws \<leftarrow> rd_seq source 0 b;
        (out, rest) \<leftarrow> unpack_loop n (drop b source) b ((j + 32) mod 2 ^ 32);
        Some (fastunpack ws b @ out, rest)
      })"

text \<open>A width above 32 makes the switches do nothing while \<open>out\<close> still advances, so that cells keep
  what they held: such a call has no model.\<close>

definition packblockup :: "nat \<Rightarrow> u32 list \<Rightarrow> nat \<Rightarrow> u32 list option" where
  "packblockup BlockSize source b =
     (if b > 32 then None else pack_loop fastpack BlockSize source b 0)"

definition unpackblock :: "nat \<Rightarrow> u32 list \<Rightarrow> nat \<Rightarrow> (u32 list \<times> u32 list) option" where
  "unpackblock BlockSize source b =
     (if b > 32 then None else unpack_loop BlockSize source b 0)"

section \<open>Vectors\<close>

definition PACKSIZE :: nat where "PACKSIZE = 32"

definition round_up :: "nat \<Rightarrow> nat" where
  "round_up n = (n + PACKSIZE - 1) div PACKSIZE * PACKSIZE"

definition packme :: "(u32 list \<Rightarrow> nat \<Rightarrow> u32 list) \<Rightarrow> u32 list \<Rightarrow> nat \<Rightarrow> u32 list option" where
  "packme pk source b =
     (if source = [] then Some [0]
      else if b > 32 then None else do {
        let padded = source @ replicate (round_up (length source) - length source) 0;
        ws \<leftarrow> pack_loop pk (length padded) padded b 0;
        Some (of_nat (length source) # ws)
      })"

definition packmeup :: "u32 list \<Rightarrow> nat \<Rightarrow> u32 list option" where
  "packmeup = packme fastpack"

definition packmeupwithoutmask :: "u32 list \<Rightarrow> nat \<Rightarrow> u32 list option" where
  "packmeupwithoutmask = packme fastpackwithoutmask"

text \<open>\<open>size + PACKSIZE - 1\<close> is computed in \<open>uint32_t\<close>.\<close>

definition unpackme :: "u32 list \<Rightarrow> nat \<Rightarrow> (u32 list \<times> u32 list) option" where
  "unpackme source b =
     (if b > 32 then None else do {
        n \<leftarrow> rd source 0;
        let rounded = unat ((n + 32 - 1) div 32 * 32);
        (out, rest) \<leftarrow> unpack_loop rounded (drop 1 source) b 0;
        Some (take (unat n) out @ replicate (unat n - length out) 0, rest)
      })"

section \<open>What the loops rely on\<close>

locale chunk_codec =
  fixes pk :: "u32 list \<Rightarrow> nat \<Rightarrow> u32 list"
    and valid :: "nat \<Rightarrow> u32 \<Rightarrow> bool"
  assumes pk_length: "b \<le> 32 \<Longrightarrow> length xs = 32 \<Longrightarrow> length (pk xs b) = b"
    and up_pk: "b \<le> 32 \<Longrightarrow> length xs = 32 \<Longrightarrow> list_all (valid b) xs \<Longrightarrow>
      fastunpack (pk xs b) b = map (take_bit b) xs"
    and valid_0: "valid b 0"
begin

lemma loops:
  assumes "b \<le> 32" "j + 32 * k = n" "n \<le> length source" "n < 2 ^ 32"
    and "list_all (valid b) source"
  shows "\<exists>out. pack_loop pk n source b j = Some out \<and> length out = k * b \<and>
    unpack_loop n (out @ rest) b j = Some (map (take_bit b) (take (32 * k) (drop j source)), rest)"
  using assms(2)
proof (induction k arbitrary: j)
  case 0
  then show ?case by (subst pack_loop.simps, subst unpack_loop.simps) simp
next
  case (Suc k)
  then obtain out where out: "pack_loop pk n source b (j + 32) = Some out" "length out = k * b"
    "unpack_loop n (out @ rest) b (j + 32) =
       Some (map (take_bit b) (take (32 * k) (drop (j + 32) source)), rest)"
    using Suc.IH [of "j + 32"] by auto
  let ?xs = "take 32 (drop j source)"
  have xs: "rd_seq source j 32 = Some ?xs" "length ?xs = 32"
    using Suc.prems assms(3) by (auto simp: rd_seq_def)
  have v: "list_all (valid b) ?xs"
    using assms(5) by (auto simp: list_all_iff dest: in_set_takeD in_set_dropD)
  have j: "j \<noteq> n" "k = 0 \<Longrightarrow> j + 32 = n" "(j + 32) mod 2 ^ 32 = j + 32"
    using Suc.prems assms(4) by auto
  have p: "pack_loop pk n source b j = Some (pk ?xs b @ out)"
    using j out xs by (subst pack_loop.simps) simp
  have l: "length (pk ?xs b) = b" using pk_length [OF assms(1) xs(2)] .
  have "unpack_loop n ((pk ?xs b @ out) @ rest) b j =
      Some (fastunpack (pk ?xs b) b @ map (take_bit b) (take (32 * k) (drop (j + 32) source)), rest)"
    using j out l by (subst unpack_loop.simps) (simp add: rd_seq_def)
  also have "fastunpack (pk ?xs b) b @ map (take_bit b) (take (32 * k) (drop (j + 32) source)) =
      map (take_bit b) (take (32 * Suc k) (drop j source))"
    using up_pk [OF assms(1) xs(2) v] take_add [of 32 "32 * k" "drop j source"]
    by (simp add: add.commute)
  finally show ?case using p l out by auto
qed

text \<open>The vectors: the length goes first and the last chunk is filled up with zeros.\<close>

lemma vectors:
  assumes "b \<le> 32" "length source < 2 ^ 31" "list_all (valid b) source"
  shows "\<exists>out. packme pk source b = Some out \<and>
    unpackme (out @ rest) b = Some (map (take_bit b) source, rest)"
proof (cases "source = []")
  case True
  then show ?thesis using assms(1)
    by (simp add: packme_def unpackme_def rd_def) (subst unpack_loop.simps, simp)
next
  case False
  let ?n = "length source"
  define r where "r = round_up ?n"
  have r: "r = 32 * ((?n + 31) div 32)" "?n \<le> r" "r < ?n + 32"
    by (auto simp: r_def round_up_def PACKSIZE_def)
  let ?p = "source @ replicate (r - ?n) 0"
  have lp: "length ?p = r" using r by simp
  have v: "list_all (valid b) ?p" using assms(3) valid_0 by (auto simp: list_all_iff)
  from loops [of b 0 "(?n + 31) div 32" r ?p rest] v r assms(1,2) lp obtain out where
    out: "pack_loop pk r ?p b 0 = Some out"
      "unpack_loop r (out @ rest) b 0 = Some (map (take_bit b) ?p, rest)"
    by auto
  have n: "unat (of_nat ?n :: u32) = ?n" using assms(2) by (simp add: unat_of_nat)
  have "unat (of_nat ?n + 31 :: u32) = ?n + 31" using assms(2) n by (subst unat_add32) auto
  then have "unat ((of_nat ?n + 31 :: u32) div 32 * 32) = r"
    using r assms(2) by (simp add: unat_div unat_mult_lem [THEN iffD1])
  then have "unat ((of_nat ?n + 32 - 1 :: u32) div 32 * 32) = r" by (simp add: algebra_simps)
  then show ?thesis
    using out False assms(1) lp n r by (simp add: packme_def unpackme_def rd_def r_def [symmetric])
qed

end

interpretation masked: chunk_codec fastpack "\<lambda>b x. True"
  by unfold_locales (simp_all add: fastpack_ref fastunpack_ref unpack_pack_ref)

interpretation unmasked: chunk_codec fastpackwithoutmask "\<lambda>b x. take_bit b x = x"
proof unfold_locales
  fix b :: nat and xs :: "u32 list"
  assume "b \<le> 32" "length xs = 32" "list_all (\<lambda>x. take_bit b x = x) xs"
  then show "fastunpack (fastpackwithoutmask xs b) b = map (take_bit b) xs"
    by (simp add: fastpackwithoutmask_ref fastunpack_ref pack_nomask_eq list_all_length unpack_pack_ref)
qed (simp_all add: fastpackwithoutmask_ref pack_nomask_ref_def)

section \<open>Properties\<close>

text \<open>C13. Each of the 99 unrolled routines computes the reference packing or unpacking of its width: bit
  \<open>k\<close> of the \<open>i\<close>-th integer is bit \<open>b * i + k\<close> of the packed words, read as one stream of bits.\<close>

theorem routines_match_reference:
  assumes "b \<le> 32"
  shows "fastunpack ws b = unpack_ref b ws \<and> fastpack xs b = pack_ref b xs \<and>
    fastpackwithoutmask xs b = pack_nomask_ref b xs \<and>
    (\<forall>i k. 0 < b \<and> i < 32 \<longrightarrow> bit (fastunpack ws b ! i) k =
       (k < b \<and> bit (ws ! ((b * i + k) div 32)) ((b * i + k) mod 32)))"
  using assms fastunpack_ref fastpack_ref fastpackwithoutmask_ref
  by (simp add: unpack_ref_def bit_field)

theorem routines_match_reference_witness:
  "fastunpack [7, 8] 2 = unpack_ref 2 [7, 8] \<and> fastpack [1, 2] 2 = pack_ref 2 [1, 2] \<and>
    fastpackwithoutmask [1, 2] 2 = pack_nomask_ref 2 [1, 2] \<and> bit (fastunpack [7, 8] 2 ! 1) 0"
proof -
  have two: "(2 :: nat) \<le> 32" by simp
  note r = routines_match_reference [OF two, of "[7, 8]" "[1, 2]"]
  have "bit (fastunpack [7, 8] 2 ! 1) 0"
    using r [THEN conjunct2, THEN conjunct2, THEN conjunct2, rule_format, of 1 0] by simp
  with r show ?thesis by blast
qed

text \<open>For every width up to 32 the unrolled packers and unpackers are inverse: unpacking what
  \<open>fastpack\<close> packed gives the low \<open>b\<close> bits of each integer, and \<open>fastpackwithoutmask\<close> loses nothing
  when the integers fit the width.\<close>

theorem fastunpack_fastpack:
  assumes "b \<le> 32" and "length xs = 32"
  shows "fastunpack (fastpack xs b) b = map (take_bit b) xs \<and>
    (list_all (\<lambda>x. take_bit b x = x) xs \<longrightarrow> fastunpack (fastpackwithoutmask xs b) b = xs)"
  using masked.up_pk [OF assms] unmasked.up_pk [OF assms] by (simp add: list_all_iff map_idI)

theorem fastunpack_fastpack_witness:
  "fastunpack (fastpack (replicate 32 9) 3) 3 = replicate 32 1 \<and>
    fastunpack (fastpackwithoutmask (replicate 32 5) 3) 3 = replicate 32 5"
  using fastunpack_fastpack [of 3 "replicate 32 9"] fastunpack_fastpack [of 3 "replicate 32 5"]
  by (simp add: take_bit_eq_mod list_all_iff)

text \<open>\<open>packblockup\<close> and \<open>unpackblock\<close> on a block of any multiple of 32 integers end, store
  \<open>b\<close> words for each 32 integers, and the unpacked block holds the low \<open>b\<close> bits of the integers, with the
  words behind the packed block left over.\<close>

theorem unpackblock_packblockup:
  assumes "b \<le> 32" and "32 * k \<le> length source" and "32 * k < 2 ^ 32"
  shows "\<exists>out. packblockup (32 * k) source b = Some out \<and> length out = k * b \<and>
    unpackblock (32 * k) (out @ rest) b = Some (map (take_bit b) (take (32 * k) source), rest)"
  using masked.loops [of b 0 k "32 * k" source rest] assms
  by (simp add: packblockup_def unpackblock_def list_all_iff)

theorem unpackblock_packblockup_witness:
  "\<exists>out. packblockup (32 * 4) (replicate 128 5) 7 = Some out \<and> length out = 4 * 7 \<and>
    unpackblock (32 * 4) (out @ [1]) 7 = Some (map (take_bit 7) (take (32 * 4) (replicate 128 5)), [1])"
  by (rule unpackblock_packblockup) simp_all

text \<open>\<open>packmeup\<close> and \<open>packmeupwithoutmask\<close> on a vector of any length are undone by \<open>unpackme\<close>, which
  drops the zeros that filled up the last chunk.\<close>

theorem unpackme_packmeup:
  assumes "b \<le> 32" and "length source < 2 ^ 31"
  shows "(\<exists>out. packmeup source b = Some out \<and> unpackme (out @ rest) b = Some (map (take_bit b) source, rest)) \<and>
    (list_all (\<lambda>x. take_bit b x = x) source \<longrightarrow>
      (\<exists>out. packmeupwithoutmask source b = Some out \<and> unpackme (out @ rest) b = Some (source, rest)))"
proof -
  have "map (take_bit b) source = source" if "list_all (\<lambda>x. take_bit b x = x) source"
    using that by (simp add: list_all_iff map_idI)
  then show ?thesis
    using masked.vectors [OF assms, of rest] unmasked.vectors [OF assms, of rest]
    by (auto simp: packmeup_def packmeupwithoutmask_def list_all_iff)
qed

theorem unpackme_packmeup_witness:
  "(\<exists>out. packmeup [70, 3, 9] 4 = Some out \<and> unpackme (out @ []) 4 = Some ([6, 3, 9], [])) \<and>
    (\<exists>out. packmeupwithoutmask [7, 3, 9] 4 = Some out \<and> unpackme (out @ [1]) 4 = Some ([7, 3, 9], [1]))"
  using unpackme_packmeup [of 4 "[70, 3, 9]" "[]"] unpackme_packmeup [of 4 "[7, 3, 9]" "[1]"]
  by (simp add: take_bit_eq_mod)

end
