(* ===== verification/Codec_Base.thy ===== *)
theory Codec_Base
  imports Bitpack
begin

text \<open>
  The codec interface of \<open>include/util/compression/int/fastpfor/codecs.h\<close> and the bit-width helpers of
  \<open>util.h\<close>, with the two codecs of \<open>codecs.h\<close>, \<open>JustCopy\<close> and \<open>PackedCODEC\<close>, and the
  \<open>CompositeCodec\<close> of \<open>compositecodec.h\<close>. An \<open>encodeArray\<close> gives the words it stores, given the number
  \<open>cap\<close> of words that fit behind \<open>out\<close>. A \<open>decodeArray\<close> reads from the list of the words at \<open>in\<close>, is told the number \<open>len\<close> of encoded words
  and the capacity \<open>nvalue\<close> of the output, and gives the integers and what lies behind the pointer it
  returns. The locales \<open>int_codec\<close> and \<open>self_delimiting\<close> state what the callers of a codec rely on.
\<close>

section \<open>Results\<close>

text \<open>The exceptions the codecs throw; \<^const>\<open>None\<close> stays undefined behaviour or a failed assertion.\<close>

datatype codec_error = NotEnoughStorage nat | NotDivisible nat nat | AlignmentIssue | CookieIssue | LogicError

type_synonym 'a codec_result = "(codec_error + 'a) option"

definition and_then :: "'a codec_result \<Rightarrow> ('a \<Rightarrow> 'b codec_result) \<Rightarrow> 'b codec_result" where
  "and_then r f = (case r of None \<Rightarrow> None | Some (Inl e) \<Rightarrow> Some (Inl e) | Some (Inr x) \<Rightarrow> f x)"

lemma and_then_simps [simp]:
  "and_then None f = None" "and_then (Some (Inl e)) f = Some (Inl e)" "and_then (Some (Inr x)) f = f x"
  by (simp_all add: and_then_def)

definition checkifdivisibleby :: "nat \<Rightarrow> nat \<Rightarrow> unit codec_result" where
  "checkifdivisibleby a x = (if a mod x = 0 then Some (Inr ()) else Some (Inl (NotDivisible a x)))"

text \<open>\<open>diffs\<close> resizes its result before it appends the differences, so the differences follow as many
  zeros.\<close>

definition diffs :: "u32 list \<Rightarrow> bool \<Rightarrow> u32 list" where
  "diffs inp aredistinct =
     (if inp = [] then []
      else replicate (length inp - 1) 0 @
        map (\<lambda>k. if aredistinct then inp ! (k + 1) - inp ! k - 1 else inp ! (k + 1) - inp ! k) [0..<length inp - 1])"

section \<open>Bit widths\<close>

text \<open>\<open>bsr\<close>: the position of the highest set bit; \<open>__builtin_clz(0)\<close> is undefined.\<close>

definition bsr :: "u32 \<Rightarrow> nat" where
  "bsr v = length (dropWhile (\<lambda>i. \<not> bit v i) (rev [0..<32])) - 1"

definition builtin_clz :: "u32 \<Rightarrow> nat option" where
  "builtin_clz v = (if v = 0 then None else Some (31 - bsr v))"

definition asmbits :: "u32 \<Rightarrow> nat" where
  "asmbits v = (if v = 0 then 0 else bsr v + 1)"

definition gccbits :: "u32 \<Rightarrow> nat option" where
  "gccbits v = do { z \<leftarrow> builtin_clz v; Some (32 - z) }"

definition maxbits :: "u32 list \<Rightarrow> nat option" where
  "maxbits xs = gccbits (foldl (OR) 0 xs)"

lemma dropWhile_upt_bits:
  "length (dropWhile (\<lambda>i. \<not> bit (v :: u32) i) (rev [0..<n])) \<le> b \<longleftrightarrow> (\<forall>i. b \<le> i \<and> i < n \<longrightarrow> \<not> bit v i)"
proof (induction n)
  case (Suc n)
  show ?case
  proof (cases "bit v n")
    case True
    then have "length (dropWhile (\<lambda>i. \<not> bit v i) (rev [0..<Suc n])) = Suc n" by simp
    moreover have "Suc n \<le> b \<longleftrightarrow> (\<forall>i. b \<le> i \<and> i < Suc n \<longrightarrow> \<not> bit v i)"
      using True by (metis lessI not_less_eq_eq le_less_trans not_le)
    ultimately show ?thesis by simp
  next
    case False
    then show ?thesis using Suc by (auto simp: less_Suc_eq)
  qed
qed simp

lemma bsr_bound:
  assumes "v \<noteq> 0"
  shows "bsr v + 1 = length (dropWhile (\<lambda>i. \<not> bit v i) (rev [0..<32]))" and "bsr v < 32"
proof -
  obtain i where i: "bit v i" using assms by (auto simp: bit_eq_iff)
  then have "\<not> length (dropWhile (\<lambda>i. \<not> bit v i) (rev [0..<32])) \<le> 0"
    using dropWhile_upt_bits [of v 32 0] bit32 by blast
  then show "bsr v + 1 = length (dropWhile (\<lambda>i. \<not> bit v i) (rev [0..<32]))"
    by (simp add: bsr_def)
  moreover have "length (dropWhile (\<lambda>i. \<not> bit v i) (rev [0..<32])) \<le> length (rev [0..<32])"
    by (rule length_dropWhile_le)
  ultimately show "bsr v < 32" by simp
qed

text \<open>\<open>asmbits\<close> is the least width an integer fits.\<close>

lemma asmbits_le: "asmbits v \<le> b \<longleftrightarrow> take_bit b v = v"
proof -
  have "asmbits v \<le> b \<longleftrightarrow> (\<forall>i. b \<le> i \<and> i < 32 \<longrightarrow> \<not> bit v i)"
  proof (cases "v = 0")
    case False
    then show ?thesis using bsr_bound(1) [of v] dropWhile_upt_bits [of v 32 b] by (simp add: asmbits_def)
  qed (simp add: asmbits_def)
  also have "\<dots> \<longleftrightarrow> take_bit b v = v"
    using bit32 [of v] by (auto simp: bit_eq_iff bit_simps not_less)
  finally show ?thesis .
qed

lemma asmbits_le32: "asmbits v \<le> 32"
  using asmbits_le [of v 32] by (auto intro!: bit_eqI simp: bit_simps dest: bit32)

lemma gccbits_eq: "gccbits v = (if v = 0 then None else Some (asmbits v))"
  using bsr_bound(2) [of v] by (auto simp: gccbits_def builtin_clz_def asmbits_def)

lemma bit_foldl_OR: "bit (foldl (OR) a xs) i \<longleftrightarrow> bit (a :: u32) i \<or> (\<exists>x \<in> set xs. bit x i)"
  by (induction xs arbitrary: a) (auto simp: bit_or_iff)

lemma maxbits_fits:
  assumes "maxbits xs = Some b"
  shows "b \<le> 32" and "x \<in> set xs \<Longrightarrow> take_bit b x = x"
proof -
  let ?v = "foldl (OR) 0 xs"
  have b: "b = asmbits ?v" using assms by (auto simp: maxbits_def gccbits_eq split: if_splits)
  then show "b \<le> 32" by (simp add: asmbits_le32)
  assume x: "x \<in> set xs"
  have "take_bit b ?v = ?v" using b asmbits_le [of ?v b] by simp
  then show "take_bit b x = x"
    using x by (auto simp: bit_eq_iff bit_simps bit_foldl_OR)
qed

section \<open>The interface\<close>

text \<open>Storing more words than there is room for is undefined.\<close>

definition within :: "nat \<Rightarrow> u32 list \<Rightarrow> u32 list codec_result" where
  "within cap ws = (if length ws \<le> cap then Some (Inr ws) else None)"

text \<open>A codec decodes what it encoded, given the number of encoded words and enough room. It is
  self-delimiting when it also does so with more words behind the encoded ones, as the first part of a
  composite codec must.\<close>

locale int_codec =
  fixes enc :: "nat \<Rightarrow> u32 list \<Rightarrow> u32 list codec_result"
    and dec :: "u32 list \<Rightarrow> nat \<Rightarrow> nat \<Rightarrow> (u32 list \<times> u32 list) codec_result"
    and accepts :: "u32 list \<Rightarrow> bool"
  assumes codec_round_trip: "accepts xs \<Longrightarrow> \<exists>ws. (\<forall>cap. length ws \<le> cap \<longrightarrow> enc cap xs = Some (Inr ws)) \<and>
      (\<forall>nvalue rest. length xs \<le> nvalue \<longrightarrow> dec (ws @ rest) (length ws) nvalue = Some (Inr (xs, rest)))"

locale self_delimiting =
  fixes enc :: "nat \<Rightarrow> u32 list \<Rightarrow> u32 list codec_result"
    and dec :: "u32 list \<Rightarrow> nat \<Rightarrow> nat \<Rightarrow> (u32 list \<times> u32 list) codec_result"
    and accepts :: "u32 list \<Rightarrow> bool"
  assumes sd_round_trip: "accepts xs \<Longrightarrow> \<exists>ws. (\<forall>cap. length ws \<le> cap \<longrightarrow> enc cap xs = Some (Inr ws)) \<and>
      (\<forall>nvalue len rest. length xs \<le> nvalue \<and> length ws \<le> len \<longrightarrow>
         dec (ws @ rest) len nvalue = Some (Inr (xs, rest)))"

sublocale self_delimiting \<subseteq> int_codec
proof unfold_locales
  fix xs assume "accepts xs"
  from sd_round_trip [OF this]
  show "\<exists>ws. (\<forall>cap. length ws \<le> cap \<longrightarrow> enc cap xs = Some (Inr ws)) \<and>
      (\<forall>nvalue rest. length xs \<le> nvalue \<longrightarrow> dec (ws @ rest) (length ws) nvalue = Some (Inr (xs, rest)))"
    by blast
qed

section \<open>The convenience wrappers\<close>

text \<open>\<open>IntegerCODEC::compress\<close> allocates \<open>2 * size + 1024\<close> words. \<open>IntegerCODEC::uncompress\<close> calls the codec
  with the expected size, and once more after a \<open>NotEnoughStorage\<close>: the vector has been resized, but
  \<open>memavailable\<close>, the capacity passed on, has not.\<close>

definition compress :: "(nat \<Rightarrow> u32 list \<Rightarrow> u32 list codec_result) \<Rightarrow> u32 list \<Rightarrow> u32 list codec_result" where
  "compress enc dat = enc (length dat * 2 + 1024) dat"

definition uncompress ::
  "(u32 list \<Rightarrow> nat \<Rightarrow> nat \<Rightarrow> (u32 list \<times> u32 list) codec_result) \<Rightarrow> u32 list \<Rightarrow> nat \<Rightarrow> u32 list codec_result"
where
  "uncompress dec compresseddata expected =
     (let memavailable = expected;
          r = dec compresseddata (length compresseddata) memavailable;
          r' = (case r of Some (Inl (NotEnoughStorage req)) \<Rightarrow>
                    dec compresseddata (length compresseddata) memavailable
                | _ \<Rightarrow> r)
      in and_then r' (\<lambda>(out, _). Some (Inr out)))"

lemma uncompress_retry_fails:
  assumes "dec ws (length ws) expected = Some (Inl (NotEnoughStorage req))"
  shows "uncompress dec ws expected = Some (Inl (NotEnoughStorage req))"
  using assms by (simp add: uncompress_def)

section \<open>JustCopy\<close>

definition JustCopy_encode :: "nat \<Rightarrow> u32 list \<Rightarrow> u32 list codec_result" where
  "JustCopy_encode cap inp = within cap inp"

definition JustCopy_decode :: "u32 list \<Rightarrow> nat \<Rightarrow> nat \<Rightarrow> (u32 list \<times> u32 list) codec_result" where
  "JustCopy_decode inp len nvalue = do {
     xs \<leftarrow> rd_seq inp 0 len;
     if nvalue < len then None else Some (Inr (xs, drop len inp))
   }"

interpretation JustCopy: int_codec JustCopy_encode JustCopy_decode "\<lambda>_. True"
  by unfold_locales
     (auto simp: JustCopy_encode_def JustCopy_decode_def within_def rd_seq_def intro!: exI)

section \<open>PackedCODEC\<close>

primrec pack_runs :: "nat \<Rightarrow> u32 list \<Rightarrow> nat \<Rightarrow> u32 list option" where
  "pack_runs 0 inp b = Some []"
| "pack_runs (Suc n) inp b = do {
     xs \<leftarrow> rd_seq inp 0 32;
     rest \<leftarrow> pack_runs n (drop 32 inp) b;
     Some (fastpackwithoutmask xs b @ rest)
   }"

primrec unpack_runs :: "nat \<Rightarrow> u32 list \<Rightarrow> nat \<Rightarrow> (u32 list \<times> u32 list) option" where
  "unpack_runs 0 inp b = Some ([], inp)"
| "unpack_runs (Suc n) inp b = do {
     ws \<leftarrow> rd_seq inp 0 b;
     (out, rest) \<leftarrow> unpack_runs n (drop b inp) b;
     Some (fastunpack ws b @ out, rest)
   }"

definition PackedCODEC_encode :: "nat \<Rightarrow> u32 list \<Rightarrow> u32 list codec_result" where
  "PackedCODEC_encode cap inp =
     and_then (checkifdivisibleby (length inp) 32) (\<lambda>_. do {
       b \<leftarrow> maxbits inp;
       ws \<leftarrow> pack_runs (length inp div 32) inp b;
       within cap (of_nat (length inp) # of_nat b # ws)
     })"

definition PackedCODEC_decode :: "u32 list \<Rightarrow> nat \<Rightarrow> nat \<Rightarrow> (u32 list \<times> u32 list) codec_result" where
  "PackedCODEC_decode inp len nvalue = do {
     n \<leftarrow> rd inp 0;
     b \<leftarrow> rd inp 1;
     if len < unat n * unat b div 32 \<or> unat b > 32 \<or> nvalue < unat n div 32 * 32 then None
     else do {
       (out, rest) \<leftarrow> unpack_runs (unat n div 32) (drop 2 inp) (unat b);
       Some (Inr (out, rest))
     }
   }"

lemma runs_round_trip:
  assumes "b \<le> 32" "length xs = 32 * k" "list_all (\<lambda>x. take_bit b x = x) xs"
  shows "\<exists>ws. pack_runs k xs b = Some ws \<and> length ws = k * b \<and> unpack_runs k (ws @ rest) b = Some (xs, rest)"
  using assms(2,3)
proof (induction k arbitrary: xs)
  case (Suc k)
  have l: "length (take 32 xs) = 32" using Suc.prems by simp
  have v: "list_all (\<lambda>x. take_bit b x = x) (take 32 xs)" "list_all (\<lambda>x. take_bit b x = x) (drop 32 xs)"
    using Suc.prems by (auto simp: list_all_iff dest: in_set_takeD in_set_dropD)
  from Suc.IH [of "drop 32 xs"] Suc.prems v obtain ws where
    ws: "pack_runs k (drop 32 xs) b = Some ws" "length ws = k * b" "unpack_runs k (ws @ rest) b = Some (drop 32 xs, rest)"
    by auto
  have "fastunpack (fastpackwithoutmask (take 32 xs) b) b = take 32 xs"
    using unmasked.up_pk [OF assms(1) l v(1)] v(1) by (simp add: list_all_iff map_idI)
  moreover have "length (fastpackwithoutmask (take 32 xs) b) = b"
    using unmasked.pk_length [OF assms(1) l] .
  ultimately show ?case
    using ws Suc.prems by (auto simp: rd_seq_def intro!: exI [of _ "fastpackwithoutmask (take 32 xs) b @ ws"])
qed simp

text \<open>\<open>PackedCODEC\<close> takes whole multiples of 32 integers that are not all zero.\<close>

definition PackedCODEC_accepts :: "u32 list \<Rightarrow> bool" where
  "PackedCODEC_accepts xs \<longleftrightarrow> length xs mod 32 = 0 \<and> length xs < 2 ^ 32 \<and> list_ex (\<lambda>x. x \<noteq> 0) xs"

lemma maxbits_defined:
  assumes "list_ex (\<lambda>x. x \<noteq> 0) xs"
  obtains b where "maxbits xs = Some b"
proof -
  from assms obtain x i where "x \<in> set xs" "bit x i" by (auto simp: list_ex_iff bit_eq_iff)
  then have "bit (foldl (OR) 0 xs) i" by (auto simp: bit_foldl_OR)
  then have "foldl (OR) 0 xs \<noteq> 0" by auto
  then show ?thesis using that by (simp add: maxbits_def gccbits_eq)
qed

interpretation PackedCODEC: self_delimiting PackedCODEC_encode PackedCODEC_decode PackedCODEC_accepts
proof unfold_locales
  fix xs assume a: "PackedCODEC_accepts xs"
  then obtain k where k: "length xs = 32 * k" and n: "length xs < 2 ^ 32" and z: "list_ex (\<lambda>x. x \<noteq> 0) xs"
    by (auto simp: PackedCODEC_accepts_def)
  from maxbits_defined [OF z] obtain b where b: "maxbits xs = Some b" .
  note fits = maxbits_fits [OF b]
  have v: "list_all (\<lambda>x. take_bit b x = x) xs" using fits(2) by (simp add: list_all_iff)
  have u: "unat (of_nat (length xs) :: u32) = length xs" "unat (of_nat b :: u32) = b"
    using n fits(1) by (simp_all add: unat_of_nat)
  from runs_round_trip [OF fits(1) k v] obtain ws where
    ws: "pack_runs k xs b = Some ws" "length ws = k * b" by blast
  have un: "unpack_runs k (ws @ rest) b = Some (xs, rest)" for rest
    using runs_round_trip [OF fits(1) k v, of rest] ws by auto
  let ?ws = "of_nat (length xs) # of_nat b # ws"
  have e: "PackedCODEC_encode cap xs = Some (Inr ?ws)" if "length ?ws \<le> cap" for cap
    using that k b ws by (simp add: PackedCODEC_encode_def checkifdivisibleby_def within_def)
  have "PackedCODEC_decode (?ws @ rest) len nvalue = Some (Inr (xs, rest))"
    if "length xs \<le> nvalue" "length ?ws \<le> len" for nvalue len rest
    using that k fits(1) ws u un [of rest] by (simp add: PackedCODEC_decode_def rd_def mult.commute)
  with e show "\<exists>ws. (\<forall>cap. length ws \<le> cap \<longrightarrow> PackedCODEC_encode cap xs = Some (Inr ws)) \<and>
      (\<forall>nvalue len rest. length xs \<le> nvalue \<and> length ws \<le> len \<longrightarrow>
         PackedCODEC_decode (ws @ rest) len nvalue = Some (Inr (xs, rest)))" by blast
qed

section \<open>CompositeCodec\<close>

definition CompositeCodec_encode ::
  "nat \<Rightarrow> (nat \<Rightarrow> u32 list \<Rightarrow> u32 list codec_result) \<Rightarrow> (nat \<Rightarrow> u32 list \<Rightarrow> u32 list codec_result) \<Rightarrow>
   nat \<Rightarrow> u32 list \<Rightarrow> u32 list codec_result"
where
  "CompositeCodec_encode BlockSize enc1 enc2 cap inp =
     (let roundedlength = length inp div BlockSize * BlockSize in
      and_then (enc1 cap (take roundedlength inp)) (\<lambda>ws1.
        if roundedlength < length inp then
          if cap < length ws1 then None
          else and_then (enc2 (cap - length ws1) (drop roundedlength inp)) (\<lambda>ws2. Some (Inr (ws1 @ ws2)))
        else Some (Inr ws1)))"

definition CompositeCodec_decode ::
  "(u32 list \<Rightarrow> nat \<Rightarrow> nat \<Rightarrow> (u32 list \<times> u32 list) codec_result) \<Rightarrow>
   (u32 list \<Rightarrow> nat \<Rightarrow> nat \<Rightarrow> (u32 list \<times> u32 list) codec_result) \<Rightarrow>
   u32 list \<Rightarrow> nat \<Rightarrow> nat \<Rightarrow> (u32 list \<times> u32 list) codec_result"
where
  "CompositeCodec_decode dec1 dec2 inp len nvalue =
     and_then (dec1 inp len nvalue) (\<lambda>(out1, in2).
       let read = length inp - length in2 in
       if read < len then
         if nvalue \<le> length out1 then None
         else and_then (dec2 in2 (len - read) (nvalue - length out1)) (\<lambda>(out2, in3). Some (Inr (out1 @ out2, in3)))
       else Some (Inr (out1, in2)))"

text \<open>Two codecs compose when the first is self-delimiting and the second never encodes a nonempty
  array to nothing.\<close>

locale composite =
  c1: self_delimiting enc1 dec1 accepts1 + c2: int_codec enc2 dec2 accepts2
  for enc1 :: "nat \<Rightarrow> u32 list \<Rightarrow> u32 list codec_result" and dec1 accepts1
    and enc2 :: "nat \<Rightarrow> u32 list \<Rightarrow> u32 list codec_result" and dec2 accepts2 +
  fixes BlockSize :: nat
  assumes nonempty: "xs \<noteq> [] \<Longrightarrow> enc2 cap xs \<noteq> Some (Inr [])"
begin

definition composite_accepts :: "u32 list \<Rightarrow> bool" where
  "composite_accepts xs \<longleftrightarrow> accepts1 (take (length xs div BlockSize * BlockSize) xs) \<and>
     accepts2 (drop (length xs div BlockSize * BlockSize) xs)"

lemma round_trip:
  assumes "composite_accepts xs"
  shows "\<exists>ws. (\<forall>cap. length ws \<le> cap \<longrightarrow> CompositeCodec_encode BlockSize enc1 enc2 cap xs = Some (Inr ws)) \<and>
    (\<forall>nvalue rest. length xs \<le> nvalue \<longrightarrow>
       CompositeCodec_decode dec1 dec2 (ws @ rest) (length ws) nvalue = Some (Inr (xs, rest)))"
proof -
  let ?r = "length xs div BlockSize * BlockSize"
  define a b where "a = take ?r xs" and "b = drop ?r xs"
  have rl: "?r \<le> length xs" by simp
  have ab: "length a = ?r" "length b = length xs - ?r" "a @ b = xs" "accepts1 a" "accepts2 b"
    using rl assms by (simp_all add: a_def b_def composite_accepts_def)
  from c1.sd_round_trip [OF ab(4), unfolded ab(1)] obtain ws1 where
    1: "\<And>cap. length ws1 \<le> cap \<Longrightarrow> enc1 cap a = Some (Inr ws1)"
       "\<And>nvalue len rest. ?r \<le> nvalue \<Longrightarrow> length ws1 \<le> len \<Longrightarrow> dec1 (ws1 @ rest) len nvalue = Some (Inr (a, rest))"
    by blast
  from c2.codec_round_trip [OF ab(5), unfolded ab(2)] obtain ws2 where
    2: "\<And>cap. length ws2 \<le> cap \<Longrightarrow> enc2 cap b = Some (Inr ws2)"
       "\<And>nvalue rest. length xs - ?r \<le> nvalue \<Longrightarrow> dec2 (ws2 @ rest) (length ws2) nvalue = Some (Inr (b, rest))"
    by blast
  have e: "CompositeCodec_encode BlockSize enc1 enc2 cap xs = and_then (enc1 cap a) (\<lambda>ws1.
      if ?r < length xs then
        if cap < length ws1 then None
        else and_then (enc2 (cap - length ws1) b) (\<lambda>ws2. Some (Inr (ws1 @ ws2)))
      else Some (Inr ws1))" for cap
    unfolding CompositeCodec_encode_def Let_def a_def b_def ..
  show ?thesis
  proof (cases "?r < length xs")
    case False
    then have "a = xs" using rl by (simp add: a_def)
    moreover have "dec1 (ws1 @ rest) len nvalue = Some (Inr (a, rest))"
      if "length xs \<le> nvalue" "length ws1 \<le> len" for nvalue len rest
      using 1(2) le_trans [OF rl that(1)] that(2) by blast
    ultimately show ?thesis using False 1(1)
      by (intro exI [of _ ws1]) (auto simp: e CompositeCodec_decode_def Let_def)
  next
    case True
    then have "b \<noteq> []" by (auto simp: b_def)
    then have "ws2 \<noteq> []" using nonempty [of b "length ws2"] 2(1) [of "length ws2"] by auto
    have "CompositeCodec_encode BlockSize enc1 enc2 cap xs = Some (Inr (ws1 @ ws2))"
      if "length (ws1 @ ws2) \<le> cap" for cap
      using that True 1(1) [of cap] 2(1) [of "cap - length ws1"] by (simp add: e)
    moreover have "CompositeCodec_decode dec1 dec2 ((ws1 @ ws2) @ rest) (length (ws1 @ ws2)) nvalue =
        Some (Inr (xs, rest))" if "length xs \<le> nvalue" for nvalue rest
      using that True rl ab(1,3) \<open>ws2 \<noteq> []\<close> 1(2) [of nvalue "length (ws1 @ ws2)" "ws2 @ rest"] 2(2) [of "nvalue - ?r" rest]
      by (simp add: CompositeCodec_decode_def Let_def)
    ultimately show ?thesis by blast
  qed
qed

end

sublocale composite \<subseteq> both: int_codec "CompositeCodec_encode BlockSize enc1 enc2"
  "CompositeCodec_decode dec1 dec2" composite_accepts
  by unfold_locales (rule round_trip)

section \<open>Properties\<close>

text \<open>\<open>PackedCODEC\<close> restores every array of a multiple of 32 integers that are not all zero, whatever
  words lie behind the encoded ones.\<close>

theorem PackedCODEC_round_trip:
  assumes "PackedCODEC_accepts xs"
  shows "\<exists>ws. PackedCODEC_encode (length ws) xs = Some (Inr ws) \<and>
    PackedCODEC_decode (ws @ rest) (length ws) (length xs) = Some (Inr (xs, rest))"
  using PackedCODEC.codec_round_trip [OF assms] by blast

theorem PackedCODEC_round_trip_witness:
  "\<exists>ws. PackedCODEC_encode (length ws) (replicate 32 6) = Some (Inr ws) \<and>
    PackedCODEC_decode (ws @ [9]) (length ws) (length (replicate 32 (6 :: u32))) = Some (Inr (replicate 32 6, [9]))"
  by (rule PackedCODEC_round_trip) (simp add: PackedCODEC_accepts_def list_ex_iff)

text \<open>\<open>PackedCODEC\<close> is undefined on an array of zeros, the empty one included: the width is taken with
  \<open>__builtin_clz\<close> of the disjunction of the integers, which has no value at zero. \<open>asmbits\<close> handles
  that case, \<open>gccbits\<close> does not.\<close>

theorem PackedCODEC_zeros_undefined:
  assumes "length xs mod 32 = 0" and "list_all (\<lambda>x. x = 0) xs"
  shows "PackedCODEC_encode cap xs = None"
proof -
  have "foldl (OR) 0 xs = 0"
    using assms(2) by (intro bit_eqI) (auto simp: bit_foldl_OR list_all_iff)
  then show ?thesis
    using assms(1) by (simp add: PackedCODEC_encode_def checkifdivisibleby_def maxbits_def gccbits_eq)
qed

theorem PackedCODEC_zeros_undefined_witness: "PackedCODEC_encode 100 (replicate 32 0) = None"
  by (rule PackedCODEC_zeros_undefined) (simp_all add: list_all_iff)

end
