(* ===== verification/SIMD_Blocks.thy ===== *)
theory SIMD_Blocks
  imports SIMD_Integrated Codec_Base
begin

text \<open>
  The differential encodings of \<open>include/util/compression/simd-compression/deltatemplates.h\<close> and the two block
  packers of \<open>simdbinarypacking.h\<close>, which pack 128 integers, held as 32 vectors, at the width
  of their largest difference. A struct such as \<open>RegularDeltaSIMD\<close> is the pair of its functions \<open>Delta\<close> and
  \<open>PrefixSum\<close>. The locale \<open>delta_helper\<close> is what the packers rely on, \<open>block_packer\<close> what they promise to
  \<open>SIMDBinaryPacking\<close>.
\<close>

section \<open>Differential encodings\<close>

definition NoDelta_PrefixSum :: "m128i \<Rightarrow> m128i \<Rightarrow> m128i" where
  "NoDelta_PrefixSum cur prev = cur"

definition NoDelta_Delta :: "m128i \<Rightarrow> m128i \<Rightarrow> m128i" where
  "NoDelta_Delta cur prev = cur"

definition RegularDelta_PrefixSum :: "m128i \<Rightarrow> m128i \<Rightarrow> m128i" where
  "RegularDelta_PrefixSum cur prev =
     (let tmp1 = mm_add_epi32 (mm_slli_si128 cur 8) cur;
          tmp2 = mm_add_epi32 (mm_slli_si128 tmp1 4) tmp1
      in mm_add_epi32 tmp2 (mm_shuffle_epi32 prev 0xff))"

definition RegularDelta_Delta :: "m128i \<Rightarrow> m128i \<Rightarrow> m128i" where
  "RegularDelta_Delta cur prev = mm_sub_epi32 cur (mm_or_si128 (mm_slli_si128 cur 4) (mm_srli_si128 prev 12))"

definition CoarseDelta4_PrefixSum :: "m128i \<Rightarrow> m128i \<Rightarrow> m128i" where
  "CoarseDelta4_PrefixSum cur prev = mm_add_epi32 cur prev"

definition CoarseDelta4_Delta :: "m128i \<Rightarrow> m128i \<Rightarrow> m128i" where
  "CoarseDelta4_Delta cur prev = mm_sub_epi32 cur prev"

definition CoarseDelta2_PrefixSum :: "m128i \<Rightarrow> m128i \<Rightarrow> m128i" where
  "CoarseDelta2_PrefixSum cur prev =
     (let tmp1 = mm_add_epi32 (mm_slli_si128 cur 8) cur
      in mm_add_epi32 tmp1 (mm_shuffle_epi32 prev (MM_SHUFFLE 3 2 3 2)))"

definition CoarseDelta2_Delta :: "m128i \<Rightarrow> m128i \<Rightarrow> m128i" where
  "CoarseDelta2_Delta cur prev = mm_sub_epi32 cur (mm_shuffle_pd prev cur (MM_SHUFFLE2 0 1))"

definition Max4Delta_PrefixSum :: "m128i \<Rightarrow> m128i \<Rightarrow> m128i" where
  "Max4Delta_PrefixSum cur prev = mm_add_epi32 cur (mm_shuffle_epi32 prev 0xff)"

definition Max4Delta_Delta :: "m128i \<Rightarrow> m128i \<Rightarrow> m128i" where
  "Max4Delta_Delta cur prev = mm_sub_epi32 cur (mm_shuffle_epi32 prev 0xff)"

definition ReverseRegularDelta_PrefixSum :: "m128i \<Rightarrow> m128i \<Rightarrow> m128i" where
  "ReverseRegularDelta_PrefixSum cur prev =
     (let tmp1 = mm_add_epi32 (mm_slli_si128 cur 8) cur;
          tmp2 = mm_add_epi32 (mm_slli_si128 tmp1 4) tmp1
      in mm_sub_epi32 (mm_shuffle_epi32 prev 0xff) tmp2)"

definition ReverseRegularDelta_Delta :: "m128i \<Rightarrow> m128i \<Rightarrow> m128i" where
  "ReverseRegularDelta_Delta cur prev =
     mm_sub_epi32 (mm_or_si128 (mm_slli_si128 cur 4) (mm_srli_si128 prev 12)) cur"

definition ReverseCoarseDelta4_PrefixSum :: "m128i \<Rightarrow> m128i \<Rightarrow> m128i" where
  "ReverseCoarseDelta4_PrefixSum cur prev = mm_sub_epi32 prev cur"

definition ReverseCoarseDelta4_Delta :: "m128i \<Rightarrow> m128i \<Rightarrow> m128i" where
  "ReverseCoarseDelta4_Delta cur prev = mm_sub_epi32 prev cur"

definition ReverseCoarseDelta2_PrefixSum :: "m128i \<Rightarrow> m128i \<Rightarrow> m128i" where
  "ReverseCoarseDelta2_PrefixSum cur prev =
     (let tmp1 = mm_add_epi32 (mm_slli_si128 cur 8) cur
      in mm_sub_epi32 (mm_shuffle_epi32 prev (MM_SHUFFLE 3 2 3 2)) tmp1)"

definition ReverseCoarseDelta2_Delta :: "m128i \<Rightarrow> m128i \<Rightarrow> m128i" where
  "ReverseCoarseDelta2_Delta cur prev = mm_sub_epi32 (mm_shuffle_pd prev cur (MM_SHUFFLE2 0 1)) cur"

definition ReverseMax4Delta_PrefixSum :: "m128i \<Rightarrow> m128i \<Rightarrow> m128i" where
  "ReverseMax4Delta_PrefixSum cur prev = mm_sub_epi32 (mm_shuffle_epi32 prev 0xff) cur"

definition ReverseMax4Delta_Delta :: "m128i \<Rightarrow> m128i \<Rightarrow> m128i" where
  "ReverseMax4Delta_Delta cur prev = mm_sub_epi32 (mm_shuffle_epi32 prev 0xff) cur"

section \<open>The delta processor\<close>

text \<open>\<open>SIMDDeltaProcessor\<close>, on the vectors of a block. Both loops are unrolled by two; on an odd number of
  vectors \<open>runPrefixSum\<close> would run over the end.\<close>

fun runPrefixSum ::
  "(m128i \<Rightarrow> m128i \<Rightarrow> m128i) \<Rightarrow> m128i \<Rightarrow> m128i list \<Rightarrow> (m128i list \<times> m128i) option"
where
  "runPrefixSum PrefixSum initOffset [] = Some ([], initOffset)"
| "runPrefixSum PrefixSum initOffset [a] = None"
| "runPrefixSum PrefixSum initOffset (a # b # vs) = (
     let x = PrefixSum a initOffset; y = PrefixSum b x in do {
       (rest, last) \<leftarrow> runPrefixSum PrefixSum y vs;
       Some (x # y # rest, last)
     })"

text \<open>\<open>runDelta\<close> goes backwards through the block it overwrites; \<open>a\<close> is the vector at \<open>pCurr\<close>.\<close>

function runDelta_loop ::
  "(m128i \<Rightarrow> m128i \<Rightarrow> m128i) \<Rightarrow> m128i list \<Rightarrow> nat \<Rightarrow> m128i \<Rightarrow> m128i list \<times> m128i"
where
  "runDelta_loop Delta vs pCurr a =
     (if 1 < pCurr then
        let b = vs ! (pCurr - 1); vs1 = vs[pCurr := Delta a b];
            b1 = vs1 ! (pCurr - 2); vs2 = vs1[pCurr - 1 := Delta b b1]
        in runDelta_loop Delta vs2 (pCurr - 2) b1
      else (vs, a))"
  by auto
termination by (relation "measure (\<lambda>(D, vs, p, a). p)") auto

definition runDelta :: "(m128i \<Rightarrow> m128i \<Rightarrow> m128i) \<Rightarrow> m128i \<Rightarrow> m128i list \<Rightarrow> m128i list" where
  "runDelta Delta initOffset vs =
     (let (vs1, a) = runDelta_loop Delta vs (length vs - 1) (vs ! (length vs - 1));
          b = vs1 ! 0
      in vs1[1 := Delta a b, 0 := Delta b initOffset])"

declare runDelta_loop.simps [simp del]

section \<open>The block packers\<close>

text \<open>\<open>maxbitas32int\<close> takes the width of the disjunction of the lanes with \<open>gccbits\<close>, which is undefined on
  zero.\<close>

definition maxbitas32int :: "m128i \<Rightarrow> nat option" where
  "maxbitas32int accumulator =
     gccbits (lane 0 accumulator OR lane 1 accumulator OR lane 2 accumulator OR lane 3 accumulator)"

definition SIMDBlock_maxbits ::
  "(m128i \<Rightarrow> m128i \<Rightarrow> m128i) \<Rightarrow> m128i list \<Rightarrow> m128i \<Rightarrow> (nat \<times> m128i) option"
where
  "SIMDBlock_maxbits Delta vs initoffset = (case deltas Delta initoffset vs of
       [] \<Rightarrow> None
     | d # ds \<Rightarrow> do {
         b \<leftarrow> maxbitas32int (accum128 d ds);
         Some (b, last vs)
       })"

text \<open>\<open>ArrayDispatch\<close> and \<open>IntegratedArrayDispatch\<close>: the width is an index into an array of 33 routines.\<close>

definition SIMDunpack :: "m128i list \<Rightarrow> nat \<Rightarrow> m128i list option" where
  "SIMDunpack inp b = do {
     f \<leftarrow> rd SIMD_unpack_table b;
     ws \<leftarrow> rd_seq inp 0 b;
     Some (f ws)
   }"

definition SIMDpackwithoutmask :: "m128i list \<Rightarrow> nat \<Rightarrow> m128i list option" where
  "SIMDpackwithoutmask inp b = do {
     f \<leftarrow> rd SIMD_packwithoutmask_table b;
     Some (f inp)
   }"

definition SIMDiunpack ::
  "(m128i \<Rightarrow> m128i \<Rightarrow> m128i) \<Rightarrow> m128i \<Rightarrow> m128i list \<Rightarrow> nat \<Rightarrow> m128i list option"
where
  "SIMDiunpack PrefixSum initOffset inp b = do {
     f \<leftarrow> rd iunpack_table b;
     ws \<leftarrow> rd_seq inp 0 b;
     Some (f PrefixSum initOffset ws)
   }"

definition SIMDipackwithoutmask ::
  "(m128i \<Rightarrow> m128i \<Rightarrow> m128i) \<Rightarrow> m128i \<Rightarrow> m128i list \<Rightarrow> nat \<Rightarrow> m128i list option"
where
  "SIMDipackwithoutmask Delta initOffset inp b = do {
     f \<leftarrow> rd ipackwithoutmask_table b;
     Some (f Delta initOffset inp)
   }"

text \<open>\<open>SIMDBlockPacker::packblockwithoutmask\<close> overwrites its input with the differences; it gives that, what it
  stores and the next offset.\<close>

definition SIMDBlockPacker_packblock ::
  "(m128i \<Rightarrow> m128i \<Rightarrow> m128i) \<Rightarrow> m128i list \<Rightarrow> nat \<Rightarrow> m128i \<Rightarrow> (m128i list \<times> m128i list \<times> m128i) option"
where
  "SIMDBlockPacker_packblock Delta vs b initoffset = (
     let nextoffset = last vs;
         vs1 = (if b < 32 then runDelta Delta initoffset vs else vs)
     in do {
       out \<leftarrow> SIMDpackwithoutmask vs1 b;
       Some (vs1, out, nextoffset)
     })"

definition SIMDBlockPacker_unpackblock ::
  "(m128i \<Rightarrow> m128i \<Rightarrow> m128i) \<Rightarrow> m128i list \<Rightarrow> nat \<Rightarrow> m128i \<Rightarrow> (m128i list \<times> m128i) option"
where
  "SIMDBlockPacker_unpackblock PrefixSum inp b initoffset = do {
     out \<leftarrow> SIMDunpack inp b;
     if b < 32 then runPrefixSum PrefixSum initoffset out else Some (out, last out)
   }"

definition SIMDIntegratedBlockPacker_packblock ::
  "(m128i \<Rightarrow> m128i \<Rightarrow> m128i) \<Rightarrow> m128i list \<Rightarrow> nat \<Rightarrow> m128i \<Rightarrow> (m128i list \<times> m128i list \<times> m128i) option"
where
  "SIMDIntegratedBlockPacker_packblock Delta vs b initoffset = (
     let nextoffset = last vs in do {
       out \<leftarrow> SIMDipackwithoutmask Delta initoffset vs b;
       Some (vs, out, nextoffset)
     })"

definition SIMDIntegratedBlockPacker_unpackblock ::
  "(m128i \<Rightarrow> m128i \<Rightarrow> m128i) \<Rightarrow> m128i list \<Rightarrow> nat \<Rightarrow> m128i \<Rightarrow> (m128i list \<times> m128i) option"
where
  "SIMDIntegratedBlockPacker_unpackblock PrefixSum inp b initoffset = do {
     out \<leftarrow> SIMDiunpack PrefixSum initoffset inp b;
     Some (out, last out)
   }"

section \<open>The encodings are inverse\<close>

locale delta_helper =
  fixes Delta PrefixSum :: "m128i \<Rightarrow> m128i \<Rightarrow> m128i"
  assumes PrefixSum_Delta: "PrefixSum (Delta v p) p = v"
begin

lemma sums_deltas: "prefix_sums PrefixSum p (deltas Delta p vs) = vs"
  by (rule deltas_prefix_sums) (rule PrefixSum_Delta)

end

lemma mm_M128:
  "mm_add_epi32 (M128 a b c d) (M128 e f g h) = M128 (a + e) (b + f) (c + g) (d + h)"
  "mm_sub_epi32 (M128 a b c d) (M128 e f g h) = M128 (a - e) (b - f) (c - g) (d - h)"
  "mm_or_si128 (M128 a b c d) (M128 e f g h) = M128 (a OR e) (b OR f) (c OR g) (d OR h)"
  by (simp_all add: mm_add_epi32_def mm_sub_epi32_def mm_or_si128_def lanes_def)

lemma shuffle_M128:
  "mm_shuffle_epi32 (M128 a b c d) 255 = M128 d d d d"
  "mm_shuffle_epi32 (M128 a b c d) (MM_SHUFFLE 3 2 3 2) = M128 c d c d"
  "mm_shuffle_pd (M128 a b c d) (M128 e f g h) (MM_SHUFFLE2 0 1) = M128 c d e f"
  by (simp_all add: mm_shuffle_epi32_def MM_SHUFFLE_def mm_shuffle_pd_def MM_SHUFFLE2_def lanes_def)

lemma m128i_lanes: "x = M128 (lane 0 x) (lane 1 x) (lane 2 x) (lane 3 x)"
  by (cases x) simp

lemma shift_M128:
  "mm_slli_si128 (M128 a b c d) 4 = M128 0 a b c"
  "mm_slli_si128 (M128 a b c d) 8 = M128 0 0 a b"
  "mm_srli_si128 (M128 a b c d) 12 = M128 d 0 0 0"
proof -
  note up1 = lane_slli_si128 [of _ "M128 a b c d" 1, simplified]
  note up2 = lane_slli_si128 [of _ "M128 a b c d" 2, simplified]
  note dn3 = lane_srli_si128 [of _ "M128 a b c d" 3, simplified]
  show "mm_slli_si128 (M128 a b c d) 4 = M128 0 a b c"
    by (rule trans [OF m128i_lanes]) (simp add: up1)
  show "mm_slli_si128 (M128 a b c d) 8 = M128 0 0 a b"
    by (rule trans [OF m128i_lanes]) (simp add: up2)
  show "mm_srli_si128 (M128 a b c d) 12 = M128 d 0 0 0"
    by (rule trans [OF m128i_lanes]) (simp add: dn3)
qed

lemmas delta_defs =
  NoDelta_PrefixSum_def NoDelta_Delta_def RegularDelta_PrefixSum_def RegularDelta_Delta_def
  CoarseDelta4_PrefixSum_def CoarseDelta4_Delta_def CoarseDelta2_PrefixSum_def CoarseDelta2_Delta_def
  Max4Delta_PrefixSum_def Max4Delta_Delta_def ReverseRegularDelta_PrefixSum_def ReverseRegularDelta_Delta_def
  ReverseCoarseDelta4_PrefixSum_def ReverseCoarseDelta4_Delta_def ReverseCoarseDelta2_PrefixSum_def
  ReverseCoarseDelta2_Delta_def ReverseMax4Delta_PrefixSum_def ReverseMax4Delta_Delta_def

lemmas delta_simps = delta_defs Let_def mm_M128 shuffle_M128 shift_M128

interpretation no_delta: delta_helper NoDelta_Delta NoDelta_PrefixSum
proof
  fix v p show "NoDelta_PrefixSum (NoDelta_Delta v p) p = v" by (cases v; cases p) (simp add: delta_simps del: One_nat_def)
qed

interpretation regular: delta_helper RegularDelta_Delta RegularDelta_PrefixSum
proof
  fix v p show "RegularDelta_PrefixSum (RegularDelta_Delta v p) p = v" by (cases v; cases p) (simp add: delta_simps del: One_nat_def)
qed

interpretation coarse4: delta_helper CoarseDelta4_Delta CoarseDelta4_PrefixSum
proof
  fix v p show "CoarseDelta4_PrefixSum (CoarseDelta4_Delta v p) p = v" by (cases v; cases p) (simp add: delta_simps del: One_nat_def)
qed

interpretation coarse2: delta_helper CoarseDelta2_Delta CoarseDelta2_PrefixSum
proof
  fix v p show "CoarseDelta2_PrefixSum (CoarseDelta2_Delta v p) p = v" by (cases v; cases p) (simp add: delta_simps del: One_nat_def)
qed

interpretation max4: delta_helper Max4Delta_Delta Max4Delta_PrefixSum
proof
  fix v p show "Max4Delta_PrefixSum (Max4Delta_Delta v p) p = v" by (cases v; cases p) (simp add: delta_simps del: One_nat_def)
qed

interpretation reverse_regular: delta_helper ReverseRegularDelta_Delta ReverseRegularDelta_PrefixSum
proof
  fix v p show "ReverseRegularDelta_PrefixSum (ReverseRegularDelta_Delta v p) p = v" by (cases v; cases p) (simp add: delta_simps del: One_nat_def)
qed

interpretation reverse_coarse4: delta_helper ReverseCoarseDelta4_Delta ReverseCoarseDelta4_PrefixSum
proof
  fix v p show "ReverseCoarseDelta4_PrefixSum (ReverseCoarseDelta4_Delta v p) p = v" by (cases v; cases p) (simp add: delta_simps del: One_nat_def)
qed

interpretation reverse_coarse2: delta_helper ReverseCoarseDelta2_Delta ReverseCoarseDelta2_PrefixSum
proof
  fix v p show "ReverseCoarseDelta2_PrefixSum (ReverseCoarseDelta2_Delta v p) p = v" by (cases v; cases p) (simp add: delta_simps del: One_nat_def)
qed

interpretation reverse_max4: delta_helper ReverseMax4Delta_Delta ReverseMax4Delta_PrefixSum
proof
  fix v p show "ReverseMax4Delta_PrefixSum (ReverseMax4Delta_Delta v p) p = v" by (cases v; cases p) (simp add: delta_simps del: One_nat_def)
qed

section \<open>The loops of the delta processor\<close>

lemma runPrefixSum_eq:
  "even (length vs) \<Longrightarrow> runPrefixSum S p vs = Some (prefix_sums S p vs, last (p # prefix_sums S p vs))"
  by (induction S p vs rule: runPrefixSum.induct) (simp_all add: Let_def)

lemma deltas_nth: "i < length vs \<Longrightarrow> deltas D p vs ! i = D (vs ! i) ((p # vs) ! i)"
proof (induction vs arbitrary: p i)
  case (Cons v vs)
  then show ?case by (cases i) simp_all
qed simp

lemma runDelta_loop_eq:
  "odd k \<Longrightarrow> k < length vs \<Longrightarrow> a = vs ! k \<Longrightarrow> runDelta_loop D vs k a =
     (map (\<lambda>j. if 1 < j \<and> j \<le> k then D (vs ! j) (vs ! (j - 1)) else vs ! j) [0..<length vs], vs ! 1)"
proof (induction D vs k a rule: runDelta_loop.induct)
  case (1 D vs k a)
  show ?case
  proof (cases "1 < k")
    case False
    then have "k = 1" using 1(2) by (cases k) auto
    then show ?thesis using 1(4) by (subst runDelta_loop.simps) (auto intro!: nth_equalityI)
  next
    case True
    with 1(2) have k: "3 \<le> k" by presburger
    let ?vs = "vs[k := D a (vs ! (k - 1)), k - 1 := D (vs ! (k - 1)) (vs ! (k - 2))]"
    have o: "odd (k - 2)" "k - 2 < length ?vs" "vs ! (k - 2) = ?vs ! (k - 2)"
      using 1(2,3) k by auto
    have "runDelta_loop D vs k a = runDelta_loop D ?vs (k - 2) (vs ! (k - 2))"
      using True by (subst runDelta_loop.simps) (simp add: Let_def)
    also have "\<dots> = (map (\<lambda>j. if 1 < j \<and> j \<le> k - 2 then D (?vs ! j) (?vs ! (j - 1)) else ?vs ! j) [0..<length ?vs], ?vs ! 1)"
      by (rule 1(1)) (use True 1(3) o in \<open>simp_all add: Let_def\<close>)
    also have "?vs ! 1 = vs ! 1" using k by simp
    also have "map (\<lambda>j. if 1 < j \<and> j \<le> k - 2 then D (?vs ! j) (?vs ! (j - 1)) else ?vs ! j) [0..<length ?vs] =
        map (\<lambda>j. if 1 < j \<and> j \<le> k then D (vs ! j) (vs ! (j - 1)) else vs ! j) [0..<length vs]"
    proof (rule nth_equalityI, simp)
      fix j assume "j < length (map (\<lambda>j. if 1 < j \<and> j \<le> k - 2 then D (?vs ! j) (?vs ! (j - 1)) else ?vs ! j) [0..<length ?vs])"
      then have j: "j < length vs" by simp
      consider "j \<le> k - 2" | "j = k - 1" | "j = k" | "k < j" by linarith
      then show "map (\<lambda>j. if 1 < j \<and> j \<le> k - 2 then D (?vs ! j) (?vs ! (j - 1)) else ?vs ! j) [0..<length ?vs] ! j =
          map (\<lambda>j. if 1 < j \<and> j \<le> k then D (vs ! j) (vs ! (j - 1)) else vs ! j) [0..<length vs] ! j"
        using j k 1(4) by cases (auto simp: nth_list_update numeral_2_eq_2)
    qed
    finally show ?thesis .
  qed
qed

lemma runDelta_eq:
  assumes "even (length vs)" "vs \<noteq> []"
  shows "runDelta D p vs = deltas D p vs"
proof -
  obtain n where n: "length vs = Suc (Suc n)" "even n"
    using assms by (cases "length vs"; cases "length vs - 1") auto
  then have o: "odd (length vs - 1)" "length vs - 1 < length vs" "2 \<le> length vs" by simp_all
  show ?thesis
  proof (rule nth_equalityI)
    fix i assume "i < length (runDelta D p vs)"
    then have i: "i < length vs"
      using runDelta_loop_eq [OF o(1,2) refl] by (simp add: runDelta_def Let_def)
    then show "runDelta D p vs ! i = deltas D p vs ! i"
      using runDelta_loop_eq [OF o(1,2) refl, of D] o(3) assms(2)
      by (cases i) (auto simp: runDelta_def Let_def deltas_nth nth_list_update)
  qed (use runDelta_loop_eq [OF o(1,2) refl, of D] in \<open>simp add: runDelta_def Let_def\<close>)
qed

section \<open>The tables\<close>

lemma table_lookup:
  assumes "list_all2 P [0..<33] tab" "b \<le> 32"
  shows "rd tab b = Some (tab ! b) \<and> P b (tab ! b)"
proof -
  have l: "length tab = 33" using assms(1) by (auto simp: list_all2_lengthD [symmetric])
  moreover have "P ([0..<33] ! b) (tab ! b)" by (rule list_all2_nthD [OF assms(1)]) (use assms(2) in simp)
  ultimately show ?thesis using assms(2) by (simp add: rd_def del: upt.simps)
qed

lemma table_lookup2:
  assumes "list_all2 P [0..<33] (zip tab tab')" "length tab' = 33" "b \<le> 32"
  shows "rd tab b = Some (tab ! b) \<and> P b (tab ! b, tab' ! b)"
proof -
  have l: "length (zip tab tab') = 33" using list_all2_lengthD [OF assms(1)] by simp
  with assms(2) have t: "33 \<le> length tab" by simp
  have "P ([0..<33] ! b) (zip tab tab' ! b)" by (rule list_all2_nthD [OF assms(1)]) (use assms(3) in simp)
  then show ?thesis using assms t by (simp add: rd_def del: upt.simps)
qed

lemma tables_length:
  "length SIMD_packwithoutmask_table = 33" "length SIMD_unpack_table = 33"
  by (simp_all add: SIMD_packwithoutmask_table_def SIMD_unpack_table_def)

lemmas pack_lookup = table_lookup [OF SIMD_packwithoutmask_table_packs]
lemmas unpack_lookup = table_lookup [OF SIMD_unpack_table_unpacks]
lemmas ipack_lookup = table_lookup2 [OF ipackwithoutmask_table_eq tables_length(1)]
lemmas iunpack_lookup = table_lookup2 [OF iunpack_table_eq tables_length(2)]

text \<open>Packing at a width that fits and unpacking again.\<close>

lemma dispatch_round_trip:
  assumes "b \<le> 32" "length vs = 32" "vmask b vs = vs"
  shows "\<exists>out. SIMDpackwithoutmask vs b = Some out \<and> length out = b \<and> SIMDunpack (out @ rest) b = Some vs"
proof -
  let ?f = "SIMD_packwithoutmask_table ! b" and ?g = "SIMD_unpack_table ! b"
  have f: "packs b ?f" "rd SIMD_packwithoutmask_table b = Some ?f" using pack_lookup [OF assms(1)] by simp_all
  have g: "unpacks b ?g" "rd SIMD_unpack_table b = Some ?g" using unpack_lookup [OF assms(1)] by simp_all
  have "length (?f vs) = b" using packs_length [OF f(1) assms(2)] .
  moreover have "?g (?f vs) = vs" by (rule unpacks_packs [OF f(1) g(1) assms])
  ultimately show ?thesis using f(2) g(2) by (simp add: SIMDpackwithoutmask_def SIMDunpack_def rd_seq_def)
qed

section \<open>The contract of a block packer\<close>

locale block_packer =
  fixes mb :: "m128i list \<Rightarrow> m128i \<Rightarrow> (nat \<times> m128i) option"
    and pk :: "m128i list \<Rightarrow> nat \<Rightarrow> m128i \<Rightarrow> (m128i list \<times> m128i list \<times> m128i) option"
    and up :: "m128i list \<Rightarrow> nat \<Rightarrow> m128i \<Rightarrow> (m128i list \<times> m128i) option"
  assumes width: "length vs = 32 \<Longrightarrow> mb vs p = Some (b, off) \<Longrightarrow> b \<le> 32 \<and> off = last vs"
    and block: "length vs = 32 \<Longrightarrow> mb vs p = Some (b, off) \<Longrightarrow>
      \<exists>vs' out. pk vs b p = Some (vs', out, last vs) \<and> length out = b \<and>
        (\<forall>rest. up (out @ rest) b p = Some (vs, last vs))"

text \<open>The width that \<open>maxbits\<close> finds fits every difference and is never zero.\<close>

lemma maxbits_vectors:
  assumes "SIMDBlock_maxbits D vs p = Some (b, off)"
  shows "0 < b" "b \<le> 32" "vmask b (deltas D p vs) = deltas D p vs" "off = last vs"
proof -
  from assms obtain d ds where d: "deltas D p vs = d # ds" and
    w: "maxbitas32int (accum128 d ds) = Some b" and off: "off = last vs"
    by (auto simp: SIMDBlock_maxbits_def split: list.splits bind_splits)
  let ?a = "accum128 d ds"
  define v where "v = (lane 0 ?a OR lane 1 ?a OR lane 2 ?a OR lane 3 ?a)"
  have v: "v \<noteq> 0" "b = asmbits v"
    using w by (auto simp: maxbitas32int_def gccbits_eq v_def split: if_splits)
  then show "0 < b" by (auto simp: asmbits_def)
  show "b \<le> 32" using v asmbits_le32 by simp
  show "off = last vs" by (rule off)
  have fit: "take_bit b v = v" using v asmbits_le [of v b] by simp
  have cover: "bit v i" if "x \<in> set (d # ds)" "bit (lane l x) i" for x l i
  proof -
    have "bit (lane l ?a) i" using that by (auto simp: lane_accum128 bit_accum)
    moreover have "lane l ?a = lane 0 ?a \<or> lane l ?a = lane 1 ?a \<or> lane l ?a = lane 2 ?a \<or> lane l ?a = lane 3 ?a"
      by (cases ?a) simp
    ultimately show ?thesis by (auto simp: bit_or_iff v_def)
  qed
  have "take_bit b (lane l x) = lane l x" if "x \<in> set (deltas D p vs)" for l x
  proof (rule bit_eqI)
    fix i
    have "bit v i \<Longrightarrow> i < b" using fit by (metis bit_take_bit_iff)
    then show "bit (take_bit b (lane l x)) i = bit (lane l x) i"
      using cover [of x l i] that d by (auto simp: bit_take_bit_iff)
  qed
  then show "vmask b (deltas D p vs) = deltas D p vs"
    by (intro vectors_eqI) (simp add: lane_vmask)
qed

sublocale delta_helper \<subseteq> plain: block_packer "SIMDBlock_maxbits Delta" "SIMDBlockPacker_packblock Delta"
  "SIMDBlockPacker_unpackblock PrefixSum"
proof unfold_locales
  fix vs p b off assume l: "length vs = 32" and m: "SIMDBlock_maxbits Delta vs p = Some (b, off)"
  note mb = maxbits_vectors [OF m]
  show "b \<le> 32 \<and> off = last vs" using mb by simp
  define ws where "ws = (if b < 32 then deltas Delta p vs else vs)"
  have ws: "length ws = 32" "vmask b ws = ws" using mb l by (auto simp: ws_def)
  from dispatch_round_trip [OF mb(2) ws] obtain out where
    out: "SIMDpackwithoutmask ws b = Some out" "length out = b" "SIMDunpack (out @ []) b = Some ws" by blast
  have un: "SIMDunpack (out @ rest) b = Some ws" for rest
    using dispatch_round_trip [OF mb(2) ws, of rest] out(1) by auto
  have "vs \<noteq> []" using l by auto
  then have "(if b < 32 then runDelta Delta p vs else vs) = ws" using l by (simp add: ws_def runDelta_eq)
  then have "SIMDBlockPacker_packblock Delta vs b p = Some (ws, out, last vs)"
    using out(1) by (simp add: SIMDBlockPacker_packblock_def Let_def)
  moreover have "SIMDBlockPacker_unpackblock PrefixSum (out @ rest) b p = Some (vs, last vs)" for rest
    using un [of rest] mb(2) \<open>vs \<noteq> []\<close> l
    by (auto simp: SIMDBlockPacker_unpackblock_def ws_def runPrefixSum_eq sums_deltas)
  ultimately show "\<exists>vs' out. SIMDBlockPacker_packblock Delta vs b p = Some (vs', out, last vs) \<and> length out = b \<and>
      (\<forall>rest. SIMDBlockPacker_unpackblock PrefixSum (out @ rest) b p = Some (vs, last vs))"
    using out(2) by blast
qed

sublocale delta_helper \<subseteq> integrated: block_packer "SIMDBlock_maxbits Delta"
  "SIMDIntegratedBlockPacker_packblock Delta" "SIMDIntegratedBlockPacker_unpackblock PrefixSum"
proof unfold_locales
  fix vs p b off assume l: "length vs = 32" and m: "SIMDBlock_maxbits Delta vs p = Some (b, off)"
  note mb = maxbits_vectors [OF m]
  show "b \<le> 32 \<and> off = last vs" using mb by simp
  let ?f = "SIMD_packwithoutmask_table ! b" and ?g = "SIMD_unpack_table ! b"
  define ws where "ws = (if b < 32 then deltas Delta p vs else vs)"
  have ws: "length ws = 32" "vmask b ws = ws" using mb l by (auto simp: ws_def)
  have f: "packs b ?f" and g: "unpacks b ?g"
    using pack_lookup [OF mb(2)] unpack_lookup [OF mb(2)] by simp_all
  have len: "length (?f ws) = b" by (rule packs_length [OF f ws(1)])
  have gf: "?g (?f ws) = ws" by (rule unpacks_packs [OF f g mb(2) ws])
  have "vs \<noteq> []" using l by auto
  have "SIMDIntegratedBlockPacker_packblock Delta vs b p = Some (vs, ?f ws, last vs)"
    using ipack_lookup [OF mb(2)] mb(1,2)
    by (auto simp: SIMDIntegratedBlockPacker_packblock_def SIMDipackwithoutmask_def ws_def)
  moreover have "SIMDiunpack PrefixSum p (?f ws @ rest) b = Some vs" for rest
    using iunpack_lookup [OF mb(2)] len gf mb(2)
    by (auto simp: SIMDiunpack_def rd_seq_def ws_def sums_deltas)
  then have "SIMDIntegratedBlockPacker_unpackblock PrefixSum (?f ws @ rest) b p = Some (vs, last vs)" for rest
    by (simp add: SIMDIntegratedBlockPacker_unpackblock_def)
  ultimately show "\<exists>vs' out. SIMDIntegratedBlockPacker_packblock Delta vs b p = Some (vs', out, last vs) \<and>
      length out = b \<and>
      (\<forall>rest. SIMDIntegratedBlockPacker_unpackblock PrefixSum (out @ rest) b p = Some (vs, last vs))"
    using len by blast
qed

context delta_helper
begin

lemma integrated_packer:
  "block_packer (SIMDBlock_maxbits Delta) (SIMDIntegratedBlockPacker_packblock Delta)
     (SIMDIntegratedBlockPacker_unpackblock PrefixSum)"
  by (rule integrated.block_packer_axioms)

end

end
