(* ===== verification/FastPFor.thy ===== *)
theory FastPFor
  imports Codec_Base Byte_Stream
begin

text \<open>
  The FastPFor codec (\<open>include/util/compression/int/fastpfor/fastpfor.h\<close>), which compresses the
  posting blocks of the positional Zambezi index. Every block of 128 integers is bit-packed at a width
  that need not fit all of them; the high bits of the integers that do not fit, its exceptions, are
  kept in vectors sorted by their width, and a stream of bytes says for each block its width, the number
  of its exceptions and their positions.
\<close>

section \<open>Choosing the width of a block\<close>

definition BlockSize :: nat where "BlockSize = 128"

definition freqs_of :: "u32 list \<Rightarrow> nat list" where
  "freqs_of inp = foldl (\<lambda>freqs x. freqs[asmbits x := freqs ! asmbits x + 1]) (replicate 33 0) (take BlockSize inp)"

text \<open>\<open>while (freqs[bestb] == 0) bestb--;\<close>\<close>

fun highest :: "nat list \<Rightarrow> nat \<Rightarrow> nat" where
  "highest freqs 0 = 0"
| "highest freqs (Suc b) = (if freqs ! Suc b = 0 then highest freqs b else Suc b)"

text \<open>The loop over the smaller widths; the state is (bestcost, bestb, bestcexcept, cexcept). The two
  results are stored in \<open>uint8_t\<close>s.\<close>

fun best_loop :: "nat list \<Rightarrow> nat \<Rightarrow> nat \<Rightarrow> nat \<times> nat \<times> nat \<times> nat \<Rightarrow> nat \<times> nat \<times> nat \<times> nat" where
  "best_loop freqs maxb 0 st = st"
| "best_loop freqs maxb (Suc b) (bestcost, bestb, bestcexcept, cexcept) =
     (let cexcept' = cexcept + freqs ! (b + 1);
          thiscost = cexcept' * 8 + cexcept' * (maxb - b) + b * BlockSize + 8
      in best_loop freqs maxb b
           (if thiscost < bestcost then (thiscost, b mod 256, cexcept' mod 256, cexcept')
            else (bestcost, bestb, bestcexcept, cexcept')))"

definition getBestBFromData :: "u32 list \<Rightarrow> nat \<times> nat \<times> nat" where
  "getBestBFromData inp =
     (let freqs = freqs_of inp;
          maxb = highest freqs 32;
          (_, bestb, bestcexcept, _) = best_loop freqs maxb maxb (maxb * BlockSize, maxb, 0, 0)
      in (bestb, bestcexcept, maxb))"

text \<open>The counts of the widths, and the invariant of the loop: the chosen width is at most the largest one
  and comes with the exact number of integers that do not fit it.\<close>

definition over :: "nat \<Rightarrow> u32 list \<Rightarrow> nat" where
  "over b xs = length (filter (\<lambda>x. b < asmbits x) xs)"

lemma foldl_freqs:
  assumes "length fs = 33" "k \<le> 32"
  shows "foldl (\<lambda>freqs x. freqs[asmbits x := freqs ! asmbits x + 1]) fs xs ! k =
    fs ! k + length (filter (\<lambda>x. asmbits x = k) xs)"
  using assms(1)
proof (induction xs arbitrary: fs)
  case (Cons x xs)
  have "asmbits x < 33" using asmbits_le32 [of x] by simp
  then show ?case using Cons assms(2) by (simp add: nth_list_update)
qed simp

lemma freqs_nth:
  "k \<le> 32 \<Longrightarrow> freqs_of inp ! k = length (filter (\<lambda>x. asmbits x = k) (take BlockSize inp))"
  using foldl_freqs [of "replicate 33 0" k "take BlockSize inp"] by (simp add: freqs_of_def)

lemma over_step: "over b xs = over (Suc b) xs + length (filter (\<lambda>x. asmbits x = Suc b) xs)"
  unfolding over_def by (induction xs) auto

lemma over_32 [simp]: "over 32 xs = 0"
  using asmbits_le32 by (simp add: over_def filter_empty_conv not_less)

lemma highest_spec:
  assumes "b \<le> 32" "over b (take BlockSize inp) = 0"
  shows "highest (freqs_of inp) b \<le> b \<and> over (highest (freqs_of inp) b) (take BlockSize inp) = 0"
  using assms
proof (induction b)
  case (Suc b)
  show ?case
  proof (cases "freqs_of inp ! Suc b = 0")
    case True
    then have "over b (take BlockSize inp) = 0"
      using Suc.prems freqs_nth [of "Suc b" inp] over_step [of b "take BlockSize inp"] by simp
    with Suc True show ?thesis by (simp add: le_SucI)
  next
    case False
    then show ?thesis using Suc.prems by simp
  qed
qed simp

lemma over_le: "over b xs \<le> length xs"
  by (simp add: over_def)

lemma best_loop_spec:
  assumes "best_loop (freqs_of inp) maxb b (bestcost, bestb, bestc, over b (take BlockSize inp)) = (c', b', n', m')"
    and "b \<le> maxb" "maxb \<le> 32" "bestb \<le> maxb" "bestc = over bestb (take BlockSize inp)"
  shows "b' \<le> maxb \<and> n' = over b' (take BlockSize inp)"
  using assms
proof (induction b arbitrary: bestcost bestb bestc)
  case (Suc b)
  let ?xs = "take BlockSize inp"
  have cnt: "over (Suc b) ?xs + freqs_of inp ! (b + 1) = over b ?xs"
    using Suc.prems freqs_nth [of "Suc b" inp] over_step [of b ?xs] by simp
  have small: "over b ?xs mod 256 = over b ?xs" "b mod 256 = b"
    using over_le [of b ?xs] Suc.prems by (auto simp: BlockSize_def)
  show ?case
    using Suc.prems Suc.IH cnt small by (auto simp: Let_def split: if_splits)
qed simp

lemma getBest_spec:
  assumes "getBestBFromData inp = (bestb, bestc, maxb)"
  shows "bestb \<le> maxb" "maxb \<le> 32" "bestc = over bestb (take BlockSize inp)"
    "over maxb (take BlockSize inp) = 0"
proof -
  let ?f = "freqs_of inp" and ?m = "highest (freqs_of inp) 32"
  have m: "?m \<le> 32" "over ?m (take BlockSize inp) = 0" using highest_spec [of 32 inp] by simp_all
  obtain c' b' n' m' where l: "best_loop ?f ?m ?m (?m * BlockSize, ?m, 0, 0) = (c', b', n', m')"
    by (metis prod_cases4)
  have r: "bestb = b'" "bestc = n'" "maxb = ?m"
    using assms l by (simp_all add: getBestBFromData_def Let_def)
  have "b' \<le> ?m \<and> n' = over b' (take BlockSize inp)"
    using best_loop_spec [of inp ?m ?m "?m * BlockSize" ?m 0 c' b' n' m'] l m by simp
  with r m show "bestb \<le> maxb" "maxb \<le> 32" "bestc = over bestb (take BlockSize inp)"
    "over maxb (take BlockSize inp) = 0" by simp_all
qed

text \<open>The cost of a width in bits, as the loop weighs it, and that the loop minimises it.\<close>

definition width_cost :: "u32 list \<Rightarrow> nat \<Rightarrow> nat \<Rightarrow> nat" where
  "width_cost xs maxb b =
     (if b = maxb then maxb * BlockSize else over b xs * 8 + over b xs * (maxb - b) + b * BlockSize + 8)"

lemma best_loop_least:
  assumes "best_loop (freqs_of inp) maxb b (bestcost, bestb, bestc, over b (take BlockSize inp)) = (c', b', n', m')"
    and "b \<le> maxb" "maxb \<le> 32" "bestb \<le> maxb" "bestcost = width_cost (take BlockSize inp) maxb bestb"
  shows "c' = width_cost (take BlockSize inp) maxb b' \<and> c' \<le> bestcost \<and>
    (\<forall>i < b. c' \<le> width_cost (take BlockSize inp) maxb i)"
  using assms
proof (induction b arbitrary: bestcost bestb bestc)
  case (Suc b)
  let ?xs = "take BlockSize inp"
  have cnt: "over (Suc b) ?xs + freqs_of inp ! (b + 1) = over b ?xs"
    using Suc.prems freqs_nth [of "Suc b" inp] over_step [of b ?xs] by simp
  have small: "b mod 256 = b" using Suc.prems by simp
  define cost where "cost = over b ?xs * 8 + over b ?xs * (maxb - b) + b * BlockSize + 8"
  have cost: "width_cost ?xs maxb b = cost" using Suc.prems(2) by (simp add: width_cost_def cost_def)
  let ?st = "if cost < bestcost then (cost, b, over b ?xs mod 256, over b ?xs) else (bestcost, bestb, bestc, over b ?xs)"
  have l: "best_loop (freqs_of inp) maxb b ?st = (c', b', n', m')"
    using Suc.prems(1) unfolding best_loop.simps Let_def cnt small cost_def .
  have "c' = width_cost ?xs maxb b' \<and> c' \<le> min cost bestcost \<and> (\<forall>i < b. c' \<le> width_cost ?xs maxb i)"
  proof (cases "cost < bestcost")
    case True
    from True l have "best_loop (freqs_of inp) maxb b (cost, b, over b ?xs mod 256, over b ?xs) = (c', b', n', m')"
      by (simp only: if_True)
    from Suc.IH [OF this _ Suc.prems(3) _ cost [symmetric]] True Suc.prems(2) show ?thesis by (auto simp: min_def)
  next
    case False
    from False l have "best_loop (freqs_of inp) maxb b (bestcost, bestb, bestc, over b ?xs) = (c', b', n', m')"
      by (simp only: if_False)
    from Suc.IH [OF this _ Suc.prems(3,4,5)] False Suc.prems(2) show ?thesis by (auto simp: min_def)
  qed
  then show ?case using cost by (auto simp: less_Suc_eq)
qed simp

lemma getBest_least:
  assumes "getBestBFromData inp = (bestb, bestc, maxb)" and "b \<le> maxb"
  shows "width_cost (take BlockSize inp) maxb bestb \<le> width_cost (take BlockSize inp) maxb b"
proof -
  let ?f = "freqs_of inp" and ?m = "highest (freqs_of inp) 32"
  have m: "?m \<le> 32" "over ?m (take BlockSize inp) = 0" using highest_spec [of 32 inp] by simp_all
  obtain c' b' n' m' where l: "best_loop ?f ?m ?m (?m * BlockSize, ?m, 0, 0) = (c', b', n', m')"
    by (metis prod_cases4)
  have r: "bestb = b'" "maxb = ?m"
    using assms(1) l by (simp_all add: getBestBFromData_def Let_def)
  have w: "?m * BlockSize = width_cost (take BlockSize inp) ?m ?m" by (simp add: width_cost_def)
  have "c' = width_cost (take BlockSize inp) ?m b' \<and> c' \<le> ?m * BlockSize \<and>
      (\<forall>i < ?m. c' \<le> width_cost (take BlockSize inp) ?m i)"
    by (rule best_loop_least [of inp ?m ?m "?m * BlockSize" ?m 0 c' b' n' m', unfolded m(2), OF l order_refl m(1) order_refl w])
  moreover note w
  ultimately show ?thesis unfolding r using assms(2) [unfolded r] by (metis le_neq_implies_less)
qed

section \<open>Encoding\<close>

text \<open>The state of the block loop: the packed words, the bytes in \<open>bytescontainer\<close> and the vectors
  \<open>datatobepacked\<close>.\<close>

type_synonym enc_state = "u32 list \<times> u8 list \<times> u32 list list"

definition exception_positions :: "nat \<Rightarrow> u32 list \<Rightarrow> nat list" where
  "exception_positions bestb blk = filter (\<lambda>k. blk ! k \<ge> push_bit bestb 1) [0..<BlockSize]"

definition encode_block :: "enc_state \<Rightarrow> u32 list \<Rightarrow> enc_state option" where
  "encode_block st blk =
     (let (out, bc, dat) = st;
          (bestb, bestcexcept, maxb) = getBestBFromData blk;
          bc1 = bc @ [of_nat bestb, of_nat bestcexcept];
          (bc2, dat2) =
            (if bestcexcept > 0 then
               let ks = exception_positions bestb blk; i = maxb - bestb in
               (bc1 @ of_nat maxb # map of_nat ks,
                dat[i := dat ! i @ map (\<lambda>k. drop_bit bestb (blk ! k)) ks])
             else (bc1, dat))
      in do {
        packed \<leftarrow> packblockup BlockSize blk bestb;
        Some (out @ packed, bc2, dat2)
      })"

function encode_blocks :: "enc_state \<Rightarrow> u32 list \<Rightarrow> enc_state option" where
  "encode_blocks st inp =
     (if length inp < BlockSize then Some st else do {
        st' \<leftarrow> encode_block st (take BlockSize inp);
        encode_blocks st' (drop BlockSize inp)
      })"
  by auto

termination encode_blocks
  by (relation "measure (\<lambda>(st, inp). length inp)") (auto simp: BlockSize_def)

declare encode_blocks.simps [simp del]

text \<open>The bytes are copied into whole words; what the rest of the last word holds is unspecified.\<close>

definition padding :: "(nat \<Rightarrow> u8) \<Rightarrow> u8 list \<Rightarrow> u8 list" where
  "padding junk bs = map junk [0..<(length bs + 3) div 4 * 4 - length bs]"

definition bitmap_of :: "u32 list list \<Rightarrow> u32" where
  "bitmap_of dat = foldl (\<lambda>bitmap k. if length (dat ! k) \<noteq> 0 then bitmap OR push_bit (k - 1) 1 else bitmap) 0 [1..<33]"

fun pack_exceptions :: "u32 list list \<Rightarrow> nat list \<Rightarrow> u32 list option" where
  "pack_exceptions dat [] = Some []"
| "pack_exceptions dat (k # ks) =
     (if length (dat ! k) > 0 then do {
        ws \<leftarrow> packmeupwithoutmask (dat ! k) k;
        rest \<leftarrow> pack_exceptions dat ks;
        Some (ws @ rest)
      } else pack_exceptions dat ks)"

text \<open>The size the constructor gives \<open>bytescontainer\<close>, in 32-bit arithmetic.\<close>

definition bytescontainer_size :: "nat \<Rightarrow> nat" where
  "bytescontainer_size PageSize = wrap32 (PageSize + wrap32 (3 * PageSize) div BlockSize)"

text \<open>\<open>__encodeArray\<close>, one page.\<close>

definition encode_page :: "nat \<Rightarrow> (nat \<Rightarrow> u8) \<Rightarrow> u32 list \<Rightarrow> u32 list codec_result" where
  "encode_page PageSize junk inp =
     and_then (checkifdivisibleby (length inp) BlockSize) (\<lambda>_. do {
       (packed, bc, dat) \<leftarrow> encode_blocks ([], [], replicate 33 []) inp;
       if length bc > bytescontainer_size PageSize then None else do {
         exc \<leftarrow> pack_exceptions dat [1..<33];
         Some (Inr (of_nat (length packed + 1) # packed @ of_nat (length bc) #
           words_of (bc @ padding junk bc) @ bitmap_of dat # exc))
       }
     })"

partial_function (option) encode_pages ::
  "nat \<Rightarrow> (nat \<Rightarrow> nat \<Rightarrow> u8) \<Rightarrow> nat \<Rightarrow> u32 list \<Rightarrow> u32 list codec_result"
where
  "encode_pages PageSize junk i inp =
     (if inp = [] then Some (Inr []) else do {
        let thissize = (if length inp > PageSize then PageSize else length inp);
        r \<leftarrow> encode_page PageSize (junk i) (take thissize inp);
        case r of Inl e \<Rightarrow> Some (Inl e)
        | Inr ws \<Rightarrow> do {
            r' \<leftarrow> encode_pages PageSize junk (i + 1) (drop thissize inp);
            case r' of Inl e \<Rightarrow> Some (Inl e) | Inr rest \<Rightarrow> Some (Inr (ws @ rest))
          }
      })"

text \<open>\<open>encodeArray\<close>.\<close>

definition FastPFor_encode :: "nat \<Rightarrow> (nat \<Rightarrow> nat \<Rightarrow> u8) \<Rightarrow> nat \<Rightarrow> u32 list \<Rightarrow> u32 list codec_result" where
  "FastPFor_encode PageSize junk cap inp =
     and_then (checkifdivisibleby (length inp) BlockSize) (\<lambda>_.
       and_then (encode_pages PageSize junk 0 inp) (\<lambda>ws. within cap (of_nat (length inp) # ws)))"

section \<open>Decoding\<close>

primrec unpack_exceptions ::
  "u32 \<Rightarrow> nat list \<Rightarrow> u32 list list \<Rightarrow> u32 list \<Rightarrow> (u32 list list \<times> u32 list) option"
where
  "unpack_exceptions bitmap [] dat inexcept = Some (dat, inexcept)"
| "unpack_exceptions bitmap (k # ks) dat inexcept =
     (if bitmap AND push_bit (k - 1) 1 \<noteq> 0 then do {
        (v, rest) \<leftarrow> unpackme inexcept k;
        unpack_exceptions bitmap ks (dat[k := v]) rest
      } else unpack_exceptions bitmap ks dat inexcept)"

text \<open>The patches of one block. An exception position outside the block cannot be decoded here.\<close>

primrec patch :: "nat \<Rightarrow> nat \<Rightarrow> u8 list \<Rightarrow> u32 list \<Rightarrow> u32 list \<Rightarrow> (u32 list \<times> u8 list \<times> u32 list) option" where
  "patch b 0 bytep exc out = Some (out, bytep, exc)"
| "patch b (Suc n) bytep exc out =
     (case (bytep, exc) of
        (pos # bytep', e # exc') \<Rightarrow>
          if unat pos < length out
          then patch b n bytep' exc' (out[unat pos := out ! unat pos OR push_bit b e])
          else None
      | _ \<Rightarrow> None)"

text \<open>The state of the run loop: \<open>in\<close>, \<open>bytep\<close> and what is left at the \<open>unpackpointers\<close>.\<close>

type_synonym dec_state = "u32 list \<times> u8 list \<times> u32 list list"

definition decode_block :: "dec_state \<Rightarrow> (u32 list \<times> dec_state) option" where
  "decode_block st = (let (inp, bytep, ptrs) = st in do {
     b \<leftarrow> rd bytep 0;
     cexcept \<leftarrow> rd bytep 1;
     (out, inp') \<leftarrow> unpackblock BlockSize inp (unat b);
     if unat cexcept > 0 then do {
       maxbits \<leftarrow> rd bytep 2;
       let i = int (unat maxbits) - int (unat b);
       if i < 1 then None else do {
         exc \<leftarrow> rd_int ptrs i;
         (out', bytep', exc') \<leftarrow> patch (unat b) (unat cexcept) (drop 3 bytep) exc out;
         Some (out', inp', bytep', ptrs[nat i := exc'])
       }
     } else Some (out, inp', drop 2 bytep, ptrs)
   })"

primrec decode_blocks :: "nat \<Rightarrow> dec_state \<Rightarrow> (u32 list \<times> dec_state) option" where
  "decode_blocks 0 st = Some ([], st)"
| "decode_blocks (Suc n) st = do {
     (out, st') \<leftarrow> decode_block st;
     (outs, st'') \<leftarrow> decode_blocks n st';
     Some (out @ outs, st'')
   }"

text \<open>\<open>__decodeArray\<close>, one page: the integers, the words behind it and the vectors left in the codec.\<close>

definition decode_page :: "u32 list list \<Rightarrow> u32 list \<Rightarrow> nat \<Rightarrow> (u32 list \<times> u32 list \<times> u32 list list) option" where
  "decode_page dat inp nvalue = do {
     wheremeta \<leftarrow> rd inp 0;
     let meta = drop (unat wheremeta) inp;
     bytesize \<leftarrow> rd meta 0;
     let bytep = put32s (drop 1 meta);
     let inexcept = drop (1 + (unat bytesize + 3) div 4) meta;
     bitmap \<leftarrow> rd inexcept 0;
     (dat', rest) \<leftarrow> unpack_exceptions bitmap [1..<33] dat (drop 1 inexcept);
     (out, inp', _) \<leftarrow> decode_blocks (nvalue div BlockSize) (drop 1 inp, bytep, dat');
     if length inp' \<noteq> length meta then None else Some (out, rest, dat')
   }"

text \<open>A page whose size is no multiple of the block size leaves cells of the output unwritten.\<close>

partial_function (option) decode_pages ::
  "nat \<Rightarrow> u32 list list \<Rightarrow> u32 list \<Rightarrow> nat \<Rightarrow> (u32 list \<times> u32 list) option"
where
  "decode_pages PageSize dat inp left =
     (if left = 0 then Some ([], inp) else do {
        let thissize = (if left > PageSize then PageSize else left);
        if thissize mod BlockSize \<noteq> 0 then None else do {
          (out, rest, dat') \<leftarrow> decode_page dat inp thissize;
          (outs, rest') \<leftarrow> decode_pages PageSize dat' rest (left - thissize);
          Some (out @ outs, rest')
        }
      })"

text \<open>\<open>decodeArray\<close>.\<close>

definition FastPFor_decode ::
  "nat \<Rightarrow> u32 list list \<Rightarrow> u32 list \<Rightarrow> nat \<Rightarrow> nat \<Rightarrow> (u32 list \<times> u32 list) codec_result" where
  "FastPFor_decode PageSize dat inp len nvalue = do {
     mynvalue \<leftarrow> rd inp 0;
     if unat mynvalue > nvalue then Some (Inl (NotEnoughStorage (unat mynvalue))) else do {
       (out, rest) \<leftarrow> decode_pages PageSize dat (drop 1 inp) (unat mynvalue);
       Some (Inr (out, rest))
     }
   }"

section \<open>One block\<close>

lemma ge_push_bit:
  assumes "b < 32"
  shows "push_bit b 1 \<le> (x :: u32) \<longleftrightarrow> b < asmbits x"
proof -
  have "unat (push_bit b 1 :: u32) = 2 ^ b"
    using assms by (simp only: unsigned_push_bit_eq) (simp add: take_bit_nat_eq_self push_bit_eq_mult)
  then have "push_bit b 1 \<le> x \<longleftrightarrow> 2 ^ b \<le> unat x" by (simp add: word_le_nat_alt)
  also have "\<dots> \<longleftrightarrow> take_bit b (unat x) \<noteq> unat x" by (simp add: take_bit_nat_eq_self_iff not_less)
  also have "\<dots> \<longleftrightarrow> take_bit b x \<noteq> x" by (metis unsigned_take_bit_eq unsigned_word_eqI)
  finally show ?thesis using asmbits_le [of x b] by linarith
qed

lemma length_filter_nth: "length (filter (\<lambda>k. P (xs ! k)) [0..<length xs]) = length (filter P xs)"
proof -
  have "filter P xs = map ((!) xs) (filter (P \<circ> (!) xs) [0..<length xs])"
    by (metis filter_map map_nth)
  then show ?thesis by (simp add: comp_def)
qed

lemma length_positions:
  assumes "length blk = BlockSize" "b < 32"
  shows "length (exception_positions b blk) = over b blk"
  unfolding exception_positions_def over_def ge_push_bit [OF assms(2)]
  using length_filter_nth [of "\<lambda>x. b < asmbits x" blk] assms(1) by simp

lemma unat_u8: "k < 256 \<Longrightarrow> unat (of_nat k :: u8) = k"
  by (simp add: unat_of_nat)

text \<open>Patching puts back the high bits at the listed positions.\<close>

lemma patch_ok:
  assumes "distinct ks" "\<forall>k \<in> set ks. k < length out \<and> k < 256"
  shows "\<exists>out'. patch b (length ks) (map of_nat ks @ bytes) (map f ks @ exc) out = Some (out', bytes, exc) \<and>
    length out' = length out \<and>
    (\<forall>k < length out. out' ! k = (if k \<in> set ks then out ! k OR push_bit b (f k) else out ! k))"
  using assms
proof (induction ks arbitrary: out)
  case (Cons k ks)
  let ?o = "out[k := out ! k OR push_bit b (f k)]"
  from Cons.IH [of ?o] Cons.prems obtain out' where
    o: "patch b (length ks) (map of_nat ks @ bytes) (map f ks @ exc) ?o = Some (out', bytes, exc)"
      "length out' = length out"
      "\<forall>j < length out. out' ! j = (if j \<in> set ks then ?o ! j OR push_bit b (f j) else ?o ! j)" by auto
  have "\<forall>j < length out. out' ! j = (if j \<in> set (k # ks) then out ! j OR push_bit b (f j) else out ! j)"
    using o(3) Cons.prems by (auto simp: nth_list_update)
  with o Cons.prems show ?case by (simp add: unat_u8)
qed simp

definition bytes_of :: "u32 list \<Rightarrow> u8 list" where
  "bytes_of blk = (let (b, c, m) = getBestBFromData blk in
     [of_nat b, of_nat c] @ (if c > 0 then of_nat m # map of_nat (exception_positions b blk) else []))"

definition exc_of :: "u32 list \<Rightarrow> nat \<Rightarrow> u32 list" where
  "exc_of blk k = (let (b, c, m) = getBestBFromData blk in
     if c > 0 \<and> m - b = k then map (\<lambda>i. drop_bit b (blk ! i)) (exception_positions b blk) else [])"

lemma block_widths:
  assumes "getBestBFromData blk = (b, c, m)" "length blk = BlockSize"
  shows "b \<le> 32" "m \<le> 32" "c = over b blk" "c \<le> 128" "0 < c \<Longrightarrow> b < m" "over m blk = 0" "b \<le> m"
proof -
  note g = getBest_spec [OF assms(1)]
  show "b \<le> 32" "m \<le> 32" "c = over b blk" "over m blk = 0" "b \<le> m" using g assms(2) by simp_all
  then show "c \<le> 128" using over_le [of b blk] assms(2) by (simp add: BlockSize_def)
  show "0 < c \<Longrightarrow> b < m" using g assms(2) by (cases "b = m") auto
qed

text \<open>Decoding a block takes from each stream what encoding it added.\<close>

lemma pack_block:
  assumes "b \<le> 32" "length blk = BlockSize"
  shows "\<exists>pk. packblockup BlockSize blk b = Some pk \<and> length pk = 4 * b \<and>
    (\<forall>rest. unpackblock BlockSize (pk @ rest) b = Some (map (take_bit b) blk, rest))"
proof -
  note rt = masked.loops [of b 0 4 BlockSize blk]
  from rt [of "[]"] assms obtain pk where pk: "pack_loop fastpack BlockSize blk b 0 = Some pk" "length pk = 4 * b"
    by (auto simp: BlockSize_def list_all_iff)
  have "unpack_loop BlockSize (pk @ rest) b 0 = Some (map (take_bit b) blk, rest)" for rest
    using rt [of rest] assms pk by (auto simp: BlockSize_def list_all_iff)
  with pk assms(1) show ?thesis by (simp add: packblockup_def unpackblock_def)
qed

lemma patch_block:
  assumes "length blk = BlockSize" "b < 32"
  shows "patch b (length (exception_positions b blk)) (map of_nat (exception_positions b blk) @ bytes)
      (map (\<lambda>k. drop_bit b (blk ! k)) (exception_positions b blk) @ exc) (map (take_bit b) blk) =
    Some (blk, bytes, exc)"
proof -
  let ?ks = "exception_positions b blk"
  have mem: "k \<in> set ?ks \<longleftrightarrow> b < asmbits (blk ! k)" if "k < length blk" for k
    using that assms(1) unfolding exception_positions_def ge_push_bit [OF assms(2)] by simp
  have ks: "distinct ?ks" "\<forall>k \<in> set ?ks. k < length (map (take_bit b) blk) \<and> k < 256"
    using assms by (auto simp: exception_positions_def BlockSize_def)
  from patch_ok [OF ks, of b bytes "\<lambda>k. drop_bit b (blk ! k)" exc] obtain out' where
    o: "patch b (length ?ks) (map of_nat ?ks @ bytes) (map (\<lambda>k. drop_bit b (blk ! k)) ?ks @ exc)
        (map (take_bit b) blk) = Some (out', bytes, exc)" "length out' = length blk"
      "\<forall>k < length blk. out' ! k = (if k \<in> set ?ks then take_bit b (blk ! k) OR push_bit b (drop_bit b (blk ! k))
         else take_bit b (blk ! k))" by auto
  have "take_bit b x OR push_bit b (drop_bit b x) = x" for x :: u32
  proof (rule bit_eqI)
    fix n
    show "bit (take_bit b x OR push_bit b (drop_bit b x)) n = bit x n"
      by (cases "b \<le> n") (auto simp: bit_simps dest: bit32)
  qed
  then have "out' = blk"
    using o mem by (intro nth_equalityI) (auto simp: asmbits_le [symmetric] not_less)
  with o show ?thesis by simp
qed

lemma encode_block_ok:
  assumes "length blk = BlockSize" "length dat = 33"
  shows "\<exists>pk. encode_block (out, bc, dat) blk =
      Some (out @ pk, bc @ bytes_of blk, map (\<lambda>k. dat ! k @ exc_of blk k) [0..<33]) \<and>
    length pk \<le> BlockSize \<and>
    (\<forall>inp bytes ptrs. length ptrs = 33 \<longrightarrow>
       decode_block (pk @ inp, bytes_of blk @ bytes, map (\<lambda>k. exc_of blk k @ ptrs ! k) [0..<33]) =
         Some (blk, inp, bytes, ptrs))"
proof -
  obtain b c m where g: "getBestBFromData blk = (b, c, m)" by (metis prod_cases3)
  note w = block_widths [OF g assms(1)]
  from pack_block [OF w(1) assms(1)] obtain pk where
    pk: "packblockup BlockSize blk b = Some pk" "length pk = 4 * b"
      "\<And>rest. unpackblock BlockSize (pk @ rest) b = Some (map (take_bit b) blk, rest)" by blast
  have u: "unat (of_nat b :: u8) = b" "unat (of_nat c :: u8) = c" "unat (of_nat m :: u8) = m"
    using w by (simp_all add: unat_u8)
  have len: "length pk \<le> BlockSize" using pk(2) w(1) by (simp add: BlockSize_def)
  show ?thesis
  proof (cases "c > 0")
    case False
    have ex: "exc_of blk k = []" for k using False g by (simp add: exc_of_def)
    have byt: "bytes_of blk = [of_nat b, of_nat c]" using False g by (simp add: bytes_of_def)
    have "map (take_bit b) blk = blk"
    proof (rule map_idI)
      fix x assume "x \<in> set blk"
      with False w(3) show "take_bit b x = x"
        by (auto simp: over_def filter_empty_conv asmbits_le [symmetric] not_less)
    qed
    moreover have "map (\<lambda>k. ptrs ! k) [0..<33] = ptrs" if "length ptrs = 33" for ptrs :: "u32 list list"
      using that by (metis map_nth)
    ultimately show ?thesis
      using False g pk assms len u by (simp add: encode_block_def decode_block_def ex byt rd_def)
  next
    case True
    then have bm: "b < m" "b < 32" using w by auto
    define i where "i = m - b"
    define ks where "ks = exception_positions b blk"
    define es where "es = map (\<lambda>k. drop_bit b (blk ! k)) ks"
    have i: "i < 33" "1 \<le> i" using bm w by (auto simp: i_def)
    have ex: "exc_of blk k = (if k = i then es else [])" for k
      using True g by (auto simp: exc_of_def i_def ks_def es_def)
    have byt: "bytes_of blk = [of_nat b, of_nat c, of_nat m] @ map of_nat ks"
      using True g by (simp add: bytes_of_def ks_def)
    have "encode_block (out, bc, dat) blk = Some (out @ pk, bc @ bytes_of blk, dat[i := dat ! i @ es])"
      using True g pk(1) by (simp add: encode_block_def Let_def byt ks_def [symmetric] es_def i_def)
    moreover have "dat[i := dat ! i @ es] = map (\<lambda>k. dat ! k @ exc_of blk k) [0..<33]"
      using assms(2) i by (intro nth_equalityI) (auto simp: ex nth_list_update)
    moreover have "decode_block (pk @ inp, bytes_of blk @ bytes, map (\<lambda>k. exc_of blk k @ ptrs ! k) [0..<33]) =
        Some (blk, inp, bytes, ptrs)" if "length ptrs = 33" for inp bytes ptrs
    proof -
      have c: "c = length ks" using length_positions [OF assms(1) bm(2)] w(3) by (simp add: ks_def)
      have patched: "patch b c (map of_nat ks @ bytes) (es @ ptrs ! i) (map (take_bit b) blk) = Some (blk, bytes, ptrs ! i)"
        using patch_block [OF assms(1) bm(2), of bytes "ptrs ! i"] by (simp add: c ks_def es_def)
      have ptr: "rd_int (map (\<lambda>k. exc_of blk k @ ptrs ! k) [0..<33]) (int m - int b) = Some (es @ ptrs ! i)"
        using i bm by (simp add: rd_int_def rd_def ex i_def nat_diff_distrib)
      have "(map (\<lambda>k. exc_of blk k @ ptrs ! k) [0..<33])[i := ptrs ! i] = ptrs"
        using that i by (intro nth_equalityI) (auto simp: ex nth_list_update)
      moreover have "uint (of_nat b :: u8) = int b" "uint (of_nat m :: u8) = int m"
        using u(1,3) by (metis of_nat_unat)+
      ultimately show ?thesis
        using True bm pk(3) u ptr patched
        by (simp add: decode_block_def byt rd_def i_def nat_diff_distrib)
    qed
    ultimately show ?thesis using len by auto
  qed
qed

section \<open>One page\<close>

lemma length_bytes_of:
  assumes "length blk = BlockSize"
  shows "length (bytes_of blk) \<le> BlockSize + 3"
proof -
  have "length (exception_positions b blk) \<le> BlockSize" for b
    using length_filter_le [of _ "[0..<BlockSize]"] by (simp add: exception_positions_def)
  then show ?thesis by (auto simp: bytes_of_def split: prod.splits)
qed

text \<open>The exceptions kept under width \<open>k\<close> have at most \<open>k\<close> bits.\<close>

lemma exc_of_fits:
  assumes "length blk = BlockSize"
  shows "length (exc_of blk k) \<le> BlockSize" "list_all (\<lambda>e. take_bit k e = e) (exc_of blk k)" "exc_of blk 0 = []"
proof -
  obtain b c m where g: "getBestBFromData blk = (b, c, m)" by (metis prod_cases3)
  note w = block_widths [OF g assms(1)]
  show "exc_of blk 0 = []" using g w(5) by (auto simp: exc_of_def)
  show "length (exc_of blk k) \<le> BlockSize"
    using g length_filter_le [of _ "[0..<BlockSize]"] by (simp add: exc_of_def exception_positions_def)
  have "take_bit k (drop_bit b (blk ! i)) = drop_bit b (blk ! i)" if "i < BlockSize" "m - b = k" for i
  proof (rule bit_eqI)
    fix j
    have "asmbits (blk ! i) \<le> m"
      using w(6) that(1) assms by (auto simp: over_def filter_empty_conv not_less)
    then have "take_bit m (blk ! i) = blk ! i" by (simp add: asmbits_le)
    then have "bit (blk ! i) (b + j) \<Longrightarrow> b + j < m" by (metis bit_take_bit_iff)
    then show "bit (take_bit k (drop_bit b (blk ! i))) j = bit (drop_bit b (blk ! i)) j"
      using that(2) by (auto simp: bit_simps)
  qed
  then show "list_all (\<lambda>e. take_bit k e = e) (exc_of blk k)"
    using g by (auto simp: exc_of_def list_all_iff exception_positions_def)
qed

text \<open>All blocks of a page: what encoding adds to the streams, decoding takes from them.\<close>

lemma encode_blocks_ok:
  assumes "length xs = n * BlockSize" "length dat = 33"
  shows "\<exists>pk bs ex. encode_blocks (out, bc, dat) xs = Some (out @ pk, bc @ bs, map (\<lambda>k. dat ! k @ ex k) [0..<33]) \<and>
    length pk \<le> length xs \<and> length bs \<le> n * (BlockSize + 3) \<and> ex 0 = [] \<and>
    (\<forall>k. length (ex k) \<le> length xs \<and> list_all (\<lambda>e. take_bit k e = e) (ex k)) \<and>
    (\<forall>inp bytes ptrs. length ptrs = 33 \<longrightarrow>
       decode_blocks n (pk @ inp, bs @ bytes, map (\<lambda>k. ex k @ ptrs ! k) [0..<33]) =
         Some (xs, inp, bytes, ptrs))"
  using assms
proof (induction n arbitrary: xs out bc dat)
  case 0
  have "encode_blocks (out, bc, dat) xs = Some (out @ [], bc @ [], map (\<lambda>k. dat ! k @ []) [0..<33])"
    using 0 map_nth [of dat] by (simp add: encode_blocks.simps BlockSize_def)
  moreover have "map (\<lambda>k. [] @ ptrs ! k) [0..<33] = ptrs" if "length ptrs = 33" for ptrs :: "u32 list list"
    using that map_nth [of ptrs] by simp
  ultimately show ?case using 0
    by (intro exI [of _ "[]"] exI [of _ "[]"] exI [of _ "\<lambda>k. []"]) auto
next
  case (Suc n)
  let ?blk = "take BlockSize xs" and ?xs = "drop BlockSize xs"
  have l: "length ?blk = BlockSize" "length ?xs = n * BlockSize" "\<not> length xs < BlockSize"
    using Suc.prems by auto
  let ?dat = "map (\<lambda>k. dat ! k @ exc_of ?blk k) [0..<33]"
  from encode_block_ok [OF l(1) Suc.prems(2), of out bc] obtain pk1 where
    1: "encode_block (out, bc, dat) ?blk = Some (out @ pk1, bc @ bytes_of ?blk, ?dat)" "length pk1 \<le> BlockSize"
      "\<And>inp bytes ptrs. length ptrs = 33 \<Longrightarrow>
         decode_block (pk1 @ inp, bytes_of ?blk @ bytes, map (\<lambda>k. exc_of ?blk k @ ptrs ! k) [0..<33]) =
           Some (?blk, inp, bytes, ptrs)" by blast
  from Suc.IH [OF l(2), of ?dat "out @ pk1" "bc @ bytes_of ?blk"] obtain pk bs ex where
    2: "encode_blocks (out @ pk1, bc @ bytes_of ?blk, ?dat) ?xs =
         Some ((out @ pk1) @ pk, (bc @ bytes_of ?blk) @ bs, map (\<lambda>k. ?dat ! k @ ex k) [0..<33])"
      "length pk \<le> length ?xs" "length bs \<le> n * (BlockSize + 3)" "ex 0 = []"
      "\<forall>k. length (ex k) \<le> length ?xs \<and> list_all (\<lambda>e. take_bit k e = e) (ex k)"
      "\<And>inp bytes ptrs. length ptrs = 33 \<Longrightarrow>
         decode_blocks n (pk @ inp, bs @ bytes, map (\<lambda>k. ex k @ ptrs ! k) [0..<33]) = Some (?xs, inp, bytes, ptrs)"
    by auto
  let ?ex = "\<lambda>k. exc_of ?blk k @ ex k"
  have "map (\<lambda>k. ?dat ! k @ ex k) [0..<33] = map (\<lambda>k. dat ! k @ ?ex k) [0..<33]" by auto
  then have e: "encode_blocks (out, bc, dat) xs =
      Some (out @ (pk1 @ pk), bc @ (bytes_of ?blk @ bs), map (\<lambda>k. dat ! k @ ?ex k) [0..<33])"
    using l(3) 1(1) 2(1) by (subst encode_blocks.simps) (simp del: map_eq_conv)
  have d: "decode_blocks (Suc n) ((pk1 @ pk) @ inp, (bytes_of ?blk @ bs) @ bytes, map (\<lambda>k. ?ex k @ ptrs ! k) [0..<33]) =
      Some (xs, inp, bytes, ptrs)" if "length ptrs = 33" for inp bytes ptrs
  proof -
    let ?p = "map (\<lambda>k. ex k @ ptrs ! k) [0..<33]"
    have "map (\<lambda>k. ?ex k @ ptrs ! k) [0..<33] = map (\<lambda>k. exc_of ?blk k @ ?p ! k) [0..<33]" by auto
    then have "decode_block ((pk1 @ pk) @ inp, (bytes_of ?blk @ bs) @ bytes, map (\<lambda>k. ?ex k @ ptrs ! k) [0..<33]) =
        Some (?blk, pk @ inp, bs @ bytes, ?p)"
      using 1(3) [of ?p "pk @ inp" "bs @ bytes"] by (simp del: map_eq_conv)
    then show ?thesis using 2(6) [OF that, of inp bytes] by (simp del: map_eq_conv)
  qed
  have l1: "length (pk1 @ pk) \<le> length xs" using 1(2) 2(2) l by simp
  have l2: "length (bytes_of ?blk @ bs) \<le> Suc n * (BlockSize + 3)"
    using 2(3) length_bytes_of [OF l(1)] by simp
  have f: "length (?ex k) \<le> length xs" "list_all (\<lambda>e. take_bit k e = e) (?ex k)" for k
    using 2(5) exc_of_fits(1,2) [OF l(1), of k] l by (auto simp: le_diff_conv2 add.commute dest!: spec [of _ k])
  show ?case
    by (rule exI [of _ "pk1 @ pk"], rule exI [of _ "bytes_of ?blk @ bs"], rule exI [of _ ?ex])
       (intro conjI allI impI e d l1 l2 f, simp add: 2(4) exc_of_fits(3) [OF l(1)])
qed

text \<open>The exception vectors. A vector that is not stored leaves what the decoder held before.\<close>

lemma bit_bitmap_of: "bit (bitmap_of dat) j \<longleftrightarrow> j < 32 \<and> dat ! (j + 1) \<noteq> []"
proof -
  have *: "bit (foldl (\<lambda>bitmap k. if length (dat ! k) \<noteq> 0 then bitmap OR push_bit (k - 1) 1 else bitmap) a ks) j \<longleftrightarrow>
      bit a j \<or> (j + 1 \<in> set ks \<and> j < 32 \<and> dat ! (j + 1) \<noteq> [])"
    if "\<forall>k \<in> set ks. 1 \<le> k" for a :: u32 and ks
    using that by (induction ks arbitrary: a) (auto simp: bit_simps)
  show ?thesis unfolding bitmap_of_def by (subst *) auto
qed

lemma exceptions_round_trip:
  assumes "distinct ks"
    and "\<forall>k \<in> set ks. k \<le> 32 \<and> length (dat ! k) < 2 ^ 31 \<and> list_all (\<lambda>e. take_bit k e = e) (dat ! k) \<and>
      (bit bitmap (k - 1) \<longleftrightarrow> dat ! k \<noteq> [])"
  shows "\<exists>ws. pack_exceptions dat ks = Some ws \<and> (\<forall>rest dat0. length dat0 = 33 \<longrightarrow>
    unpack_exceptions bitmap ks dat0 (ws @ rest) =
      Some (map (\<lambda>k. if k \<in> set ks \<and> dat ! k \<noteq> [] then dat ! k else dat0 ! k) [0..<33], rest))"
  using assms
proof (induction ks)
  case Nil
  show ?case using map_nth by (auto simp: map_nth intro!: exI [of _ "[]"]) (metis map_nth)
next
  case (Cons k ks)
  then obtain ws where ws: "pack_exceptions dat ks = Some ws"
    "\<And>rest dat0. length dat0 = 33 \<Longrightarrow> unpack_exceptions bitmap ks dat0 (ws @ rest) =
      Some (map (\<lambda>k. if k \<in> set ks \<and> dat ! k \<noteq> [] then dat ! k else dat0 ! k) [0..<33], rest)" by auto
  have test: "bitmap AND push_bit (k - 1) 1 \<noteq> 0 \<longleftrightarrow> dat ! k \<noteq> []"
    using Cons.prems by (simp add: push_bit_eq_mult and_exp_eq_0_iff_not_bit)
  show ?case
  proof (cases "dat ! k = []")
    case True
    then show ?thesis using ws test by (auto intro!: exI [of _ ws] simp del: push_bit_of_1)
  next
    case False
    have k: "k \<le> 32" "length (dat ! k) < 2 ^ 31" "list_all (\<lambda>x. take_bit k x = x) (dat ! k)"
      using Cons.prems by auto
    have id: "map (take_bit k) (dat ! k) = dat ! k" using k(3) by (simp add: list_all_iff map_idI)
    from unmasked.vectors [OF k, of "[]"] obtain v where v: "packmeupwithoutmask (dat ! k) k = Some v"
      by (auto simp: packmeupwithoutmask_def)
    have u: "unpackme (v @ rest) k = Some (dat ! k, rest)" for rest
      using unmasked.vectors [OF k, of rest] v id by (auto simp: packmeupwithoutmask_def)
    have "unpack_exceptions bitmap (k # ks) dat0 ((v @ ws) @ rest) =
      Some (map (\<lambda>j. if j \<in> set (k # ks) \<and> dat ! j \<noteq> [] then dat ! j else dat0 ! j) [0..<33], rest)"
      if "length dat0 = 33" for rest dat0
    proof -
      have "map (\<lambda>j. if j \<in> set ks \<and> dat ! j \<noteq> [] then dat ! j else dat0[k := dat ! k] ! j) [0..<33] =
          map (\<lambda>j. if j \<in> set (k # ks) \<and> dat ! j \<noteq> [] then dat ! j else dat0 ! j) [0..<33]"
        using that k(1) False by (auto simp: nth_list_update)
      then show ?thesis
        using False test u ws(2) [of "dat0[k := dat ! k]" rest] that by (simp del: map_eq_conv push_bit_of_1)
    qed
    then show ?thesis using False ws(1) v by (intro exI [of _ "v @ ws"]) simp
  qed
qed

text \<open>The bytes of a page read back from its words.\<close>

lemma padded_bytes:
  "put32s (words_of (bs @ padding junk bs)) = bs @ padding junk bs"
  "length (words_of (bs @ padding junk bs)) = (length bs + 3) div 4"
proof -
  have "length bs \<le> (length bs + 3) div 4 * 4" by simp
  then have "length (bs @ padding junk bs) = (length bs + 3) div 4 * 4" by (simp add: padding_def)
  then show "put32s (words_of (bs @ padding junk bs)) = bs @ padding junk bs"
    "length (words_of (bs @ padding junk bs)) = (length bs + 3) div 4"
    using put32s_words_of [of "bs @ padding junk bs"] by simp_all
qed

lemma decode_page_eq:
  assumes "rd inp 0 = Some wm" "drop (unat wm) inp = meta" "rd meta 0 = Some bytesize"
    "put32s (drop 1 meta) = bytep" "drop (1 + (unat bytesize + 3) div 4) meta = bitmap # exc"
    "unpack_exceptions bitmap [1..<33] dat exc = Some (dat', rest)"
    "decode_blocks (nvalue div BlockSize) (drop 1 inp, bytep, dat') = Some (out, meta, bytep', ptrs)"
  shows "decode_page dat inp nvalue = Some (out, rest, dat')"
  unfolding decode_page_def assms(1) Option.bind.bind_lunit Let_def assms(2,3,4,5,7)
  using assms(6,7) by (simp add: rd_def del: upt_Suc)

lemma bytescontainer_size_eq:
  assumes "PageSize < 2 ^ 30"
  shows "bytescontainer_size PageSize = PageSize + 3 * PageSize div BlockSize"
proof -
  have "3 * PageSize < 2 ^ 32" "PageSize + 3 * PageSize div BlockSize < 2 ^ 32"
    using assms by (auto simp: BlockSize_def)
  then show ?thesis by (simp only: bytescontainer_size_def wrap32_id)
qed

lemma page_round_trip:
  assumes xs: "length xs = n * BlockSize" "n \<le> p" and p: "PageSize = p * BlockSize" "PageSize < 2 ^ 30"
  shows "\<exists>ws. encode_page PageSize junk xs = Some (Inr ws) \<and> (\<forall>rest dat0. length dat0 = 33 \<longrightarrow>
    (\<exists>dat1. decode_page dat0 (ws @ rest) (length xs) = Some (xs, rest, dat1) \<and> length dat1 = 33))"
proof -
  from encode_blocks_ok [OF xs(1), of "replicate 33 []" "[]" "[]"] obtain pk bs ex where
    e: "encode_blocks ([], [], replicate 33 []) xs = Some (pk, bs, map (\<lambda>k. replicate 33 [] ! k @ ex k) [0..<33])"
      "length pk \<le> length xs" "length bs \<le> n * (BlockSize + 3)" "ex 0 = []"
      "\<And>k. length (ex k) \<le> length xs \<and> list_all (\<lambda>e. take_bit k e = e) (ex k)"
    and d: "\<And>inp bytes ptrs. length ptrs = 33 \<Longrightarrow>
       decode_blocks n (pk @ inp, bs @ bytes, map (\<lambda>k. ex k @ ptrs ! k) [0..<33]) = Some (xs, inp, bytes, ptrs)"
    by auto
  define dat where "dat = map ex [0..<33]"
  have dat: "dat ! k = ex k" if "k < 33" for k using that by (simp add: dat_def)
  have "map (\<lambda>k. replicate 33 [] ! k @ ex k) [0..<33] = dat" by (auto simp: dat_def)
  note e1 = e(1) [unfolded this]
  have lx: "length xs \<le> PageSize" using xs p(1) by simp
  have p31: "PageSize < 2 ^ 31" using p(2) by simp
  have "\<forall>k \<in> set [1..<33]. k \<le> 32 \<and> length (dat ! k) < 2 ^ 31 \<and> list_all (\<lambda>e. take_bit k e = e) (dat ! k) \<and>
      (bit (bitmap_of dat) (k - 1) \<longleftrightarrow> dat ! k \<noteq> [])"
    using e(5) lx p31 by (auto simp: bit_bitmap_of dat intro: le_less_trans)
  from exceptions_round_trip [OF _ this] obtain exc where
    exc: "pack_exceptions dat [1..<33] = Some exc"
    "\<And>rest dat0. length dat0 = 33 \<Longrightarrow> unpack_exceptions (bitmap_of dat) [1..<33] dat0 (exc @ rest) =
      Some (map (\<lambda>k. if k \<in> set [1..<33] \<and> dat ! k \<noteq> [] then dat ! k else dat0 ! k) [0..<33], rest)" by auto
  define W where "W = words_of (bs @ padding junk bs)"
  have W: "put32s W = bs @ padding junk bs" "length W = (length bs + 3) div 4"
    using padded_bytes [of bs junk] by (simp_all add: W_def)
  have "n * (BlockSize + 3) \<le> p * (BlockSize + 3)" using xs(2) by (rule mult_le_mono1)
  then have cap: "length bs \<le> PageSize + 3 * PageSize div BlockSize"
    using e(3) p(1) by (simp add: BlockSize_def)
  have u: "unat (of_nat (length pk + 1) :: u32) = length pk + 1" "unat (of_nat (length bs) :: u32) = length bs"
    using e(2) lx p cap by (simp_all only: unat_of_nat) (simp_all add: BlockSize_def)
  let ?ws = "of_nat (length pk + 1) # pk @ of_nat (length bs) # W @ bitmap_of dat # exc"
  have "encode_page PageSize junk xs = Some (Inr ?ws)"
    using e1 exc(1) cap xs(1) by (simp add: encode_page_def checkifdivisibleby_def W_def bytescontainer_size_eq [OF p(2)])
  moreover have "\<exists>dat1. decode_page dat0 (?ws @ rest) (length xs) = Some (xs, rest, dat1) \<and> length dat1 = 33"
    if "length dat0 = 33" for rest dat0
  proof -
    let ?meta = "of_nat (length bs) # W @ bitmap_of dat # exc @ rest"
    let ?dat1 = "map (\<lambda>k. if k \<in> set [1..<33] \<and> dat ! k \<noteq> [] then dat ! k else dat0 ! k) [0..<33]"
    define ptrs where "ptrs = map (\<lambda>k. if k \<in> set [1..<33] \<and> dat ! k \<noteq> [] then [] else dat0 ! k) [0..<33]"
    have meta: "drop (length pk + 1) (?ws @ rest) = ?meta" by simp
    have ine: "drop (1 + (length bs + 3) div 4) ?meta = bitmap_of dat # exc @ rest" using W(2) by simp
    have bytes: "put32s (drop 1 ?meta) = bs @ padding junk bs @ put32s (bitmap_of dat # exc @ rest)"
      using W(1) by (simp del: append_Cons)
    have "?dat1 = map (\<lambda>k. ex k @ ptrs ! k) [0..<33]"
      using e(4) dat by (auto simp: ptrs_def) (metis One_nat_def less_one not_less)
    then have run: "decode_blocks n (pk @ ?meta, bs @ padding junk bs @ put32s (bitmap_of dat # exc @ rest), ?dat1) =
        Some (xs, ?meta, padding junk bs @ put32s (bitmap_of dat # exc @ rest), ptrs)"
      using d [of ptrs ?meta "padding junk bs @ put32s (bitmap_of dat # exc @ rest)"] by (simp add: ptrs_def del: map_eq_conv)
    have nb: "length xs div BlockSize = n" using xs(1) by (simp add: BlockSize_def)
    have "decode_page dat0 (?ws @ rest) (length xs) = Some (xs, rest, ?dat1)"
    proof (rule decode_page_eq)
      show "rd (?ws @ rest) 0 = Some (of_nat (length pk + 1))" by (simp add: rd_def)
      show "drop (unat (of_nat (length pk + 1) :: u32)) (?ws @ rest) = ?meta" unfolding u by (rule meta)
      show "rd ?meta 0 = Some (of_nat (length bs))" by (simp add: rd_def)
      show "put32s (drop 1 ?meta) = bs @ padding junk bs @ put32s (bitmap_of dat # exc @ rest)" by (rule bytes)
      show "drop (1 + (unat (of_nat (length bs) :: u32) + 3) div 4) ?meta = bitmap_of dat # exc @ rest"
        unfolding u by (rule ine)
      show "unpack_exceptions (bitmap_of dat) [1..<33] dat0 (exc @ rest) = Some (?dat1, rest)" by (rule exc(2) [OF that])
      show "decode_blocks (length xs div BlockSize)
          (drop 1 (?ws @ rest), bs @ padding junk bs @ put32s (bitmap_of dat # exc @ rest), ?dat1) =
          Some (xs, ?meta, padding junk bs @ put32s (bitmap_of dat # exc @ rest), ptrs)"
        using run unfolding nb by simp
    qed
    then show ?thesis by auto
  qed
  ultimately show ?thesis by blast
qed

section \<open>The codec\<close>

lemma pages_round_trip:
  assumes "length xs = n * BlockSize" and p: "PageSize = p * BlockSize" "PageSize < 2 ^ 30" "0 < p"
  shows "\<exists>ws. encode_pages PageSize junk i xs = Some (Inr ws) \<and> (\<forall>rest dat0. length dat0 = 33 \<longrightarrow>
    decode_pages PageSize dat0 (ws @ rest) (length xs) = Some (xs, rest))"
  using assms(1)
proof (induction "length xs" arbitrary: xs n i rule: less_induct)
  case less
  show ?case
  proof (cases "xs = []")
    case True
    then show ?thesis by (subst encode_pages.simps, subst decode_pages.simps) simp
  next
    case False
    define t where "t = (if length xs > PageSize then PageSize else length xs)"
    define k where "k = (if length xs > PageSize then p else n)"
    have "0 < length xs" using False by simp
    then have t: "t = k * BlockSize" "k \<le> p" "t \<le> length xs" "0 < t"
      using less.prems p by (auto simp: t_def k_def BlockSize_def)
    have lt: "length (take t xs) = k * BlockSize" "length (take t xs) = t" using t by auto
    have ld: "length (drop t xs) = (n - k) * BlockSize" "length (drop t xs) < length xs"
      using t less.prems by (auto simp: diff_mult_distrib)
    from page_round_trip [OF lt(1) t(2) p(1,2), of "junk i"] lt(2) obtain ws where
      ws: "encode_page PageSize (junk i) (take t xs) = Some (Inr ws)"
      "\<And>rest dat0. length dat0 = 33 \<Longrightarrow>
         \<exists>dat1. decode_page dat0 (ws @ rest) t = Some (take t xs, rest, dat1) \<and> length dat1 = 33" by auto
    from less.hyps [OF ld(2,1), of "i + 1"] obtain vs where
      vs: "encode_pages PageSize junk (i + 1) (drop t xs) = Some (Inr vs)"
      "\<And>rest dat0. length dat0 = 33 \<Longrightarrow>
         decode_pages PageSize dat0 (vs @ rest) (length (drop t xs)) = Some (drop t xs, rest)" by blast
    have "encode_pages PageSize junk i xs = Some (Inr (ws @ vs))"
      using False ws(1) vs(1) by (subst encode_pages.simps) (simp add: t_def [symmetric])
    moreover have "decode_pages PageSize dat0 ((ws @ vs) @ rest) (length xs) = Some (xs, rest)"
      if "length dat0 = 33" for rest dat0
    proof -
      from ws(2) [OF that, of "vs @ rest"] obtain dat1 where
        "decode_page dat0 (ws @ vs @ rest) t = Some (take t xs, vs @ rest, dat1)" "length dat1 = 33" by blast
      moreover have "t mod BlockSize = 0" using t(1) by simp
      ultimately show ?thesis
        using False vs(2) [of dat1 rest] by (subst decode_pages.simps) (simp add: t_def [symmetric])
    qed
    ultimately show ?thesis by blast
  qed
qed

definition FastPFor_accepts :: "u32 list \<Rightarrow> bool" where
  "FastPFor_accepts xs \<longleftrightarrow> length xs mod BlockSize = 0 \<and> length xs < 2 ^ 32"

lemma FastPFor_ok:
  assumes "FastPFor_accepts xs" and p: "PageSize mod BlockSize = 0" "0 < PageSize" "PageSize < 2 ^ 30"
  shows "\<exists>ws. (\<forall>cap. length ws \<le> cap \<longrightarrow> FastPFor_encode PageSize junk cap xs = Some (Inr ws)) \<and>
    rd ws 0 = Some (of_nat (length xs)) \<and>
    (\<forall>nvalue len rest. length xs \<le> nvalue \<and> length ws \<le> len \<longrightarrow>
       FastPFor_decode PageSize (replicate 33 []) (ws @ rest) len nvalue = Some (Inr (xs, rest)))"
proof -
  from assms(1) have n: "length xs = length xs div BlockSize * BlockSize" "length xs < 2 ^ 32"
    by (auto simp: FastPFor_accepts_def)
  have p': "PageSize = PageSize div BlockSize * BlockSize" "0 < PageSize div BlockSize"
    using p by (auto simp: BlockSize_def)
  from pages_round_trip [OF n(1) p'(1) p(3) p'(2), of junk 0] obtain ws where
    ws: "encode_pages PageSize junk 0 xs = Some (Inr ws)"
    "\<And>rest. decode_pages PageSize (replicate 33 []) (ws @ rest) (length xs) = Some (xs, rest)" by auto
  have u: "unat (of_nat (length xs) :: u32) = length xs" using n(2) by (simp add: unat_of_nat)
  have "FastPFor_encode PageSize junk cap xs = Some (Inr (of_nat (length xs) # ws))"
    if "length (of_nat (length xs) # ws :: u32 list) \<le> cap" for cap
    using that ws(1) assms(1) by (simp add: FastPFor_encode_def checkifdivisibleby_def within_def FastPFor_accepts_def)
  moreover have "FastPFor_decode PageSize (replicate 33 []) ((of_nat (length xs) # ws) @ rest) len nvalue =
      Some (Inr (xs, rest))" if "length xs \<le> nvalue" for len nvalue rest
    using that ws(2) [of rest] u by (simp add: FastPFor_decode_def rd_def)
  ultimately show ?thesis by (intro exI [of _ "of_nat (length xs) # ws"]) (simp add: rd_def)
qed

text \<open>The codec as the Zambezi index and \<open>codecfactory.h\<close> construct it, with the default page size.\<close>

interpretation pfor: self_delimiting "FastPFor_encode 65536 junk"
  "FastPFor_decode 65536 (replicate 33 [])" FastPFor_accepts for junk
proof unfold_locales
  fix xs assume "FastPFor_accepts xs"
  from FastPFor_ok [OF this, of 65536 junk]
  show "\<exists>ws. (\<forall>cap. length ws \<le> cap \<longrightarrow> FastPFor_encode 65536 junk cap xs = Some (Inr ws)) \<and>
      (\<forall>nvalue len rest. length xs \<le> nvalue \<and> length ws \<le> len \<longrightarrow>
         FastPFor_decode 65536 (replicate 33 []) (ws @ rest) len nvalue = Some (Inr (xs, rest)))"
    by (auto simp: BlockSize_def)
qed

section \<open>Properties\<close>

text \<open>C14. FastPFor restores every array whose length is a multiple of 128, for every page size that is a
  multiple of 128 below \<open>2 ^ 30\<close>: encoding ends without an overrun of \<open>bytescontainer\<close>, and decoding gives
  back the integers and stops right behind the encoded words, whatever the unwritten bytes of the
  buffer hold.\<close>

theorem FastPFor_round_trip:
  assumes "length xs mod BlockSize = 0" "length xs < 2 ^ 32"
    and "PageSize mod BlockSize = 0" "0 < PageSize" "PageSize < 2 ^ 30"
  shows "\<exists>ws. FastPFor_encode PageSize junk (length ws) xs = Some (Inr ws) \<and>
    FastPFor_decode PageSize (replicate 33 []) (ws @ rest) (length ws) (length xs) = Some (Inr (xs, rest))"
  using FastPFor_ok [of xs PageSize junk] assms by (auto simp: FastPFor_accepts_def)

theorem FastPFor_round_trip_witness:
  "\<exists>ws. FastPFor_encode 256 (\<lambda>i j. 170) (length ws) (replicate 383 3 @ [70000]) = Some (Inr ws) \<and>
    FastPFor_decode 256 (replicate 33 []) (ws @ [1]) (length ws) (length (replicate 383 3 @ [70000 :: u32])) =
      Some (Inr (replicate 383 3 @ [70000], [1]))"
  by (rule FastPFor_round_trip) (simp_all add: BlockSize_def)

text \<open>\<open>getBestBFromData\<close> gives a width that minimises the cost the source weighs (eight bits for the position of each
  exception, its high bits, the packed block and the byte for the largest width) among all widths up to the
  largest one, together with the exact number of the integers of the block that do not fit it; every
  integer fits the largest width.\<close>

theorem getBestBFromData_optimal:
  assumes "getBestBFromData inp = (bestb, bestcexcept, maxb)" "b \<le> maxb" "x \<in> set (take BlockSize inp)"
  shows "bestb \<le> maxb \<and> maxb \<le> 32 \<and> take_bit maxb x = x \<and>
    bestcexcept = length (filter (\<lambda>x. take_bit bestb x \<noteq> x) (take BlockSize inp)) \<and>
    width_cost (take BlockSize inp) maxb bestb \<le> width_cost (take BlockSize inp) maxb b"
proof -
  have "over b xs = length (filter (\<lambda>x. take_bit b x \<noteq> x) xs)" for b and xs :: "u32 list"
    by (simp add: over_def asmbits_le [symmetric] not_le)
  moreover from this [of maxb "take BlockSize inp"] getBest_spec(4) [OF assms(1)] assms(3)
  have "take_bit maxb x = x" by (auto simp: filter_empty_conv)
  ultimately show ?thesis using getBest_spec(1-3) [OF assms(1)] getBest_least [OF assms(1,2)] by simp
qed

theorem getBestBFromData_optimal_witness:
  "getBestBFromData (replicate 127 1 @ [1000]) = (1, 1, 10) \<and> (1 :: nat) \<le> 10 \<and> (10 :: nat) \<le> 32 \<and>
    take_bit 10 (1000 :: u32) = 1000 \<and>
    1 = length (filter (\<lambda>x. take_bit 1 x \<noteq> x) (take BlockSize (replicate 127 1 @ [1000 :: u32]))) \<and>
    width_cost (take BlockSize (replicate 127 1 @ [1000])) 10 1 \<le>
      width_cost (take BlockSize (replicate 127 1 @ [1000])) 10 5"
proof -
  have e: "getBestBFromData (replicate 127 1 @ [1000]) = (1, 1, 10)" by code_simp
  have "(1000 :: u32) \<in> set (take BlockSize (replicate 127 1 @ [1000]))" by (simp add: BlockSize_def)
  note r = getBestBFromData_optimal [OF e _ this, of 5]
  have "(5 :: nat) \<le> 10" by simp
  from e r [OF this] show ?thesis by blast
qed

text \<open>C16. An array whose length is no multiple of 128 is refused with a \<open>logic_error\<close>, and an output that is too
  small with \<open>NotEnoughStorage\<close>; the retry of \<open>IntegerCODEC::uncompress\<close> after the latter fails again although the
  vector has been enlarged.\<close>

theorem FastPFor_errors:
  assumes "length xs mod BlockSize = 0" "length xs < 2 ^ 32" "expected < length xs" "length ys mod BlockSize \<noteq> 0"
  shows "FastPFor_encode 65536 junk cap ys = Some (Inl (NotDivisible (length ys) BlockSize)) \<and>
    (\<exists>ws. FastPFor_encode 65536 junk (length ws) xs = Some (Inr ws) \<and>
       uncompress (FastPFor_decode 65536 (replicate 33 [])) ws (length xs) = Some (Inr xs) \<and>
       uncompress (FastPFor_decode 65536 (replicate 33 [])) ws expected =
         Some (Inl (NotEnoughStorage (length xs))))"
proof -
  have acc: "FastPFor_accepts xs" using assms by (simp add: FastPFor_accepts_def)
  have u: "unat (of_nat (length xs) :: u32) = length xs" using assms(2) by (simp add: unat_of_nat)
  have page: "(65536 :: nat) mod BlockSize = 0" "(0 :: nat) < 65536" "(65536 :: nat) < 2 ^ 30"
    by (simp_all add: BlockSize_def)
  from FastPFor_ok [OF acc page, of junk] obtain ws where
    ws: "FastPFor_encode 65536 junk (length ws) xs = Some (Inr ws)" "rd ws 0 = Some (of_nat (length xs))"
      "FastPFor_decode 65536 (replicate 33 []) (ws @ []) (length ws) (length xs) = Some (Inr (xs, []))" by blast
  have "FastPFor_decode 65536 (replicate 33 []) ws (length ws) expected = Some (Inl (NotEnoughStorage (length xs)))"
    using ws(2) u assms(3) by (simp add: FastPFor_decode_def)
  then have "uncompress (FastPFor_decode 65536 (replicate 33 [])) ws expected = Some (Inl (NotEnoughStorage (length xs)))"
    by (rule uncompress_retry_fails)
  moreover have "uncompress (FastPFor_decode 65536 (replicate 33 [])) ws (length xs) = Some (Inr xs)"
    using ws(3) by (simp add: uncompress_def)
  moreover have "FastPFor_encode 65536 junk cap ys = Some (Inl (NotDivisible (length ys) BlockSize))"
    using assms(4) by (simp add: FastPFor_encode_def checkifdivisibleby_def)
  ultimately show ?thesis using ws(1) by blast
qed

theorem FastPFor_errors_witness:
  "FastPFor_encode 65536 (\<lambda>i j. 0) 10 [1, 2] = Some (Inl (NotDivisible (length [1, 2 :: u32]) BlockSize)) \<and>
    (\<exists>ws. FastPFor_encode 65536 (\<lambda>i j. 0) (length ws) (replicate 128 5) = Some (Inr ws) \<and>
       uncompress (FastPFor_decode 65536 (replicate 33 [])) ws (length (replicate 128 (5 :: u32))) = Some (Inr (replicate 128 5)) \<and>
       uncompress (FastPFor_decode 65536 (replicate 33 [])) ws 7 =
         Some (Inl (NotEnoughStorage (length (replicate 128 (5 :: u32))))))"
  by (rule FastPFor_errors) (simp_all add: BlockSize_def)

end
