(* ===== verification/VariableByte.thy ===== *)
theory VariableByte
  imports FastPFor
begin

text \<open>
  The \<open>VariableByte\<close> codec (\<open>include/util/compression/int/fastpfor/variablebyte.h\<close>): seven bits of an
  integer in each byte, low bits first, with the top bit of the last byte set; and the composite of
  FastPFor and VariableByte that \<open>codecfactory.h\<close> registers as \<open>"fastpfor"\<close>, which accepts arrays of every
  length.
\<close>

section \<open>The model\<close>

definition extract7bits :: "nat \<Rightarrow> u32 \<Rightarrow> u8" where
  "extract7bits i val = ucast (drop_bit (7 * i) val AND (push_bit 7 1 - 1))"

definition extract7bitsmaskless :: "nat \<Rightarrow> u32 \<Rightarrow> u8" where
  "extract7bitsmaskless i val = ucast (drop_bit (7 * i) val)"

definition encode_val :: "u32 \<Rightarrow> u8 list" where
  "encode_val val =
     (if val < push_bit 7 1 then [ucast (val OR push_bit 7 1)]
      else if val < push_bit 14 1 then
        [extract7bits 0 val, extract7bitsmaskless 1 val OR push_bit 7 1]
      else if val < push_bit 21 1 then
        [extract7bits 0 val, extract7bits 1 val, extract7bitsmaskless 2 val OR push_bit 7 1]
      else if val < push_bit 28 1 then
        [extract7bits 0 val, extract7bits 1 val, extract7bits 2 val,
         extract7bitsmaskless 3 val OR push_bit 7 1]
      else
        [extract7bits 0 val, extract7bits 1 val, extract7bits 2 val, extract7bits 3 val,
         extract7bitsmaskless 4 val OR push_bit 7 1])"

text \<open>\<open>while (needPaddingTo32Bits(bout)) *bout++ = 0;\<close> on an output that starts at a word.\<close>

definition pad32 :: "u8 list \<Rightarrow> u8 list" where
  "pad32 bs = bs @ replicate ((4 - length bs mod 4) mod 4) 0"

definition VariableByte_encode :: "nat \<Rightarrow> u32 list \<Rightarrow> u32 list codec_result" where
  "VariableByte_encode cap inp = within cap (words_of (pad32 (concat (map encode_val inp))))"

text \<open>The two nested loops: \<open>v\<close> and \<open>shift\<close> belong to the integer being read. A shift of 32 or more, or one
  whose value does not fit 32 bits, is undefined.\<close>

fun decode_bytes :: "u8 list \<Rightarrow> u32 \<Rightarrow> nat \<Rightarrow> u32 list option" where
  "decode_bytes [] v shift = Some []"
| "decode_bytes (c # cs) v shift =
     (if shift \<ge> 32 \<or> unat (c AND 127) * 2 ^ shift \<ge> 2 ^ 32 then None
      else let v' = v + push_bit shift (ucast (c AND 127)) in
        if c AND 128 \<noteq> 0 then map_option (Cons v') (decode_bytes cs 0 0)
        else decode_bytes cs v' (shift + 7))"

definition VariableByte_decode :: "u32 list \<Rightarrow> nat \<Rightarrow> nat \<Rightarrow> (u32 list \<times> u32 list) codec_result" where
  "VariableByte_decode inp len nvalue =
     (if len = 0 then Some (Inr ([], inp)) else do {
        ws \<leftarrow> rd_seq inp 0 len;
        out \<leftarrow> decode_bytes (put32s ws) 0 0;
        if length out > nvalue then None else Some (Inr (out, drop len inp))
      })"

section \<open>One integer\<close>

lemma bit_masks [simp]: "bit (127 :: int) n \<longleftrightarrow> n < 7" "bit (128 :: int) n \<longleftrightarrow> n = 7"
proof -
  have "bit (mask 7 :: int) n \<longleftrightarrow> n < 7" by (simp only: bit_mask_iff) simp
  then show "bit (127 :: int) n \<longleftrightarrow> n < 7" by (simp add: mask_eq_exp_minus_1)
  have "bit (2 ^ 7 :: int) n \<longleftrightarrow> n = 7" by (simp only: bit_exp_iff) auto
  then show "bit (128 :: int) n \<longleftrightarrow> n = 7" by simp
qed

lemma and_128: "(c :: u8) AND 128 = 0 \<longleftrightarrow> \<not> bit c 7"
proof -
  have "(128 :: u8) = 2 ^ 7" by simp
  then show ?thesis by (metis and_exp_eq_0_iff_not_bit)
qed

text \<open>The low seven bits of either kind of byte, and the flag.\<close>

lemma low7:
  "(ucast (extract7bits i val AND 127) :: u32) = take_bit 7 (drop_bit (7 * i) val)"
  "(ucast ((extract7bitsmaskless i val OR push_bit 7 1) AND 127) :: u32) = take_bit 7 (drop_bit (7 * i) val)"
  by (rule bit_eqI, auto simp: extract7bits_def extract7bitsmaskless_def bit_simps)+

lemma flag:
  "extract7bits i val AND 128 = 0" "(extract7bitsmaskless i val OR push_bit 7 1) AND 128 \<noteq> 0"
  by (simp_all add: and_128 extract7bits_def bit_simps)

lemma take_bit_step:
  "take_bit n (x :: u32) + push_bit n (take_bit m (drop_bit n x)) = take_bit (n + m) x"
proof -
  have "take_bit n x + push_bit n (take_bit m (drop_bit n x)) = take_bit n x OR push_bit n (take_bit m (drop_bit n x))"
    by (rule disjunctive_add) (auto simp: bit_simps)
  also have "\<dots> = take_bit (n + m) x"
  proof (rule bit_eqI)
    fix k
    show "bit (take_bit n x OR push_bit n (take_bit m (drop_bit n x))) k = bit (take_bit (n + m) x) k"
      by (cases "n \<le> k") (auto simp: bit_simps dest: bit32)
  qed
  finally show ?thesis .
qed

lemma shift_fits: "unat (take_bit 7 (drop_bit n (x :: u32))) * 2 ^ n < 2 ^ 32"
proof -
  have "unat (take_bit 7 (drop_bit n x)) \<le> unat x div 2 ^ n"
  proof -
    have "unat (take_bit 7 (drop_bit n x)) = take_bit 7 (take_bit 32 (unat x) div 2 ^ n)"
      unfolding unsigned_take_bit_eq unsigned_drop_bit_eq by (simp add: drop_bit_eq_div)
    also have "\<dots> \<le> take_bit 32 (unat x) div 2 ^ n" by (rule take_bit_nat_less_eq_self)
    also have "\<dots> \<le> unat x div 2 ^ n" by (rule div_le_mono) (rule take_bit_nat_less_eq_self)
    finally show ?thesis .
  qed
  then have "unat (take_bit 7 (drop_bit n x)) * 2 ^ n \<le> unat x div 2 ^ n * 2 ^ n" by simp
  also have "\<dots> \<le> unat x" by simp
  finally show ?thesis using u32_less [of x] by simp
qed

lemma unat_ucast8: "unat (ucast (c :: u8) :: u32) = unat c"
proof -
  have "unat c < 256" using unsigned_less [of c] by simp
  then show ?thesis by (simp add: unsigned_ucast_eq take_bit_nat_eq_self)
qed

lemma decode_step:
  assumes "7 * i < 32"
  shows "decode_bytes (extract7bits i val # cs) (take_bit (7 * i) val) (7 * i) =
      decode_bytes cs (take_bit (7 * i + 7) val) (7 * i + 7)"
    and "decode_bytes ((extract7bitsmaskless i val OR push_bit 7 1) # cs) (take_bit (7 * i) val) (7 * i) =
      map_option (Cons (take_bit (7 * i + 7) val)) (decode_bytes cs 0 0)"
proof -
  have f: "unat (c AND 127) * 2 ^ (7 * i) < 2 ^ 32"
    if "(ucast (c AND 127) :: u32) = take_bit 7 (drop_bit (7 * i) val)" for c :: u8
    using shift_fits [of "7 * i" val] that unat_ucast8 [of "c AND 127"] by simp
  show "decode_bytes (extract7bits i val # cs) (take_bit (7 * i) val) (7 * i) =
      decode_bytes cs (take_bit (7 * i + 7) val) (7 * i + 7)"
    using assms f [OF low7(1)] flag(1) [of i val] low7(1) [of i val] take_bit_step [of "7 * i" val 7]
    by (simp add: not_le)
  show "decode_bytes ((extract7bitsmaskless i val OR push_bit 7 1) # cs) (take_bit (7 * i) val) (7 * i) =
      map_option (Cons (take_bit (7 * i + 7) val)) (decode_bytes cs 0 0)"
    using assms f [OF low7(2)] flag(2) [of i val] low7(2) [of i val] take_bit_step [of "7 * i" val 7]
    by (simp add: not_le)
qed

lemma less_push_bit:
  assumes "b < 32" "(x :: u32) < push_bit b 1"
  shows "take_bit b x = x"
  using assms ge_push_bit [of b x] asmbits_le [of x b] by (simp add: not_le [symmetric])

lemma decode_val: "decode_bytes (encode_val val @ cs) 0 0 = map_option (Cons val) (decode_bytes cs 0 0)"
proof -
  note s0 = decode_step [of 0 val, simplified]
  note s1 = decode_step [of 1 val, simplified]
  note s2 = decode_step [of 2 val, simplified]
  note s3 = decode_step [of 3 val, simplified]
  note s4 = decode_step [of 4 val, simplified]
  have full: "take_bit 35 val = val" by (rule bit_eqI) (auto simp: bit_simps dest: bit32)
  have one: "ucast (val OR push_bit 7 1) = extract7bitsmaskless 0 val OR (push_bit 7 1 :: u8)"
    by (rule bit_eqI) (auto simp: extract7bitsmaskless_def bit_simps)
  have b1: ?thesis if "val < push_bit 7 1"
    using that s0(2) [of cs] less_push_bit [of 7 val] by (simp only: encode_val_def if_True one append.simps) simp
  have b2: ?thesis if "\<not> val < push_bit 7 1" "val < push_bit 14 1"
    using that s0(1) s1(2) [of cs] less_push_bit [of 14 val]
    by (simp only: encode_val_def if_True if_False append.simps) simp
  have b3: ?thesis if "\<not> val < push_bit 7 1" "\<not> val < push_bit 14 1" "val < push_bit 21 1"
    using that s0(1) s1(1) s2(2) [of cs] less_push_bit [of 21 val]
    by (simp only: encode_val_def if_True if_False append.simps) simp
  have b4: ?thesis if "\<not> val < push_bit 7 1" "\<not> val < push_bit 14 1" "\<not> val < push_bit 21 1" "val < push_bit 28 1"
    using that s0(1) s1(1) s2(1) s3(2) [of cs] less_push_bit [of 28 val]
    by (simp only: encode_val_def if_True if_False append.simps) simp
  have b5: ?thesis if "\<not> val < push_bit 7 1" "\<not> val < push_bit 14 1" "\<not> val < push_bit 21 1" "\<not> val < push_bit 28 1"
    using that s0(1) s1(1) s2(1) s3(1) s4(2) [of cs] full
    by (simp only: encode_val_def if_True if_False append.simps) simp
  from b1 b2 b3 b4 b5 show ?thesis by blast
qed

lemma decode_vals: "decode_bytes (concat (map encode_val xs) @ cs) 0 0 = map_option ((@) xs) (decode_bytes cs 0 0)"
  by (induction xs) (simp_all add: decode_val option.map_comp comp_def option.map_ident)

lemma decode_padding: "shift + 7 * n \<le> 32 \<Longrightarrow> decode_bytes (replicate n 0) v shift = Some []"
  by (induction n arbitrary: v shift) simp_all

section \<open>The codec\<close>

lemma length_pad32: "length (pad32 bs) = (length bs + 3) div 4 * 4"
proof -
  have pad: "n + (4 - n mod 4) mod 4 = (n + 3) div 4 * 4" for n :: nat
  proof -
    define q r where "q = n div 4" and "r = n mod 4"
    have "n = 4 * q + r" "r = 0 \<or> r = 1 \<or> r = 2 \<or> r = 3" by (auto simp: q_def r_def)
    then show ?thesis by auto
  qed
  have "length bs + (4 - length bs mod 4) mod 4 = (length bs + 3) div 4 * 4" by (rule pad)
  then show ?thesis by (simp add: pad32_def)
qed

lemma words_of_pad32:
  "put32s (words_of (pad32 bs)) = pad32 bs" "length (words_of (pad32 bs)) = (length bs + 3) div 4"
proof -
  have "length (pad32 bs) mod 4 = 0" by (simp add: length_pad32)
  then have "put32s (words_of (pad32 bs)) = pad32 bs \<and> length (words_of (pad32 bs)) = length (pad32 bs) div 4"
    by (rule put32s_words_of)
  then show "put32s (words_of (pad32 bs)) = pad32 bs" "length (words_of (pad32 bs)) = (length bs + 3) div 4"
    by (simp_all add: length_pad32)
qed

lemma length_encode_val: "0 < length (encode_val val) \<and> length (encode_val val) \<le> 5"
  unfolding encode_val_def by auto

lemma length_encode_vals: "length xs \<le> length (concat (map encode_val xs)) \<and> length (concat (map encode_val xs)) \<le> 5 * length xs"
proof (induction xs)
  case (Cons x xs)
  then show ?case using length_encode_val [of x] by (simp del: length_greater_0_conv)
qed simp

abbreviation VariableByte_words :: "u32 list \<Rightarrow> u32 list" where
  "VariableByte_words xs \<equiv> words_of (pad32 (concat (map encode_val xs)))"

lemma VariableByte_decode_words:
  assumes "length xs \<le> nvalue"
  shows "VariableByte_decode (VariableByte_words xs @ rest) (length (VariableByte_words xs)) nvalue = Some (Inr (xs, rest))"
proof -
  let ?bs = "concat (map encode_val xs)"
  have "decode_bytes (pad32 ?bs) 0 0 = Some xs"
    unfolding pad32_def decode_vals by (subst decode_padding) simp_all
  then have d: "decode_bytes (put32s (VariableByte_words xs)) 0 0 = Some xs" by (simp only: words_of_pad32)
  show ?thesis
  proof (cases "length (VariableByte_words xs) = 0")
    case True
    then have "length ?bs = 0" using words_of_pad32(2) [of ?bs] by linarith
    then have "xs = []" using length_encode_vals [of xs] by (metis le_zero_eq length_0_conv)
    then show ?thesis by (simp add: VariableByte_decode_def pad32_def)
  next
    case False
    then show ?thesis using d assms by (simp add: VariableByte_decode_def rd_seq_def)
  qed
qed

interpretation vbyte: int_codec VariableByte_encode VariableByte_decode "\<lambda>_. True"
proof unfold_locales
  fix xs :: "u32 list"
  show "\<exists>ws. (\<forall>cap. length ws \<le> cap \<longrightarrow> VariableByte_encode cap xs = Some (Inr ws)) \<and>
      (\<forall>nvalue rest. length xs \<le> nvalue \<longrightarrow> VariableByte_decode (ws @ rest) (length ws) nvalue = Some (Inr (xs, rest)))"
    by (intro exI [of _ "VariableByte_words xs"]) (simp add: VariableByte_encode_def within_def VariableByte_decode_words)
qed

text \<open>The codec registered as \<open>"fastpfor"\<close>.\<close>

definition fastpfor_encode :: "(nat \<Rightarrow> nat \<Rightarrow> u8) \<Rightarrow> nat \<Rightarrow> u32 list \<Rightarrow> u32 list codec_result" where
  "fastpfor_encode junk = CompositeCodec_encode BlockSize (FastPFor_encode 65536 junk) VariableByte_encode"

definition fastpfor_decode :: "u32 list \<Rightarrow> nat \<Rightarrow> nat \<Rightarrow> (u32 list \<times> u32 list) codec_result" where
  "fastpfor_decode = CompositeCodec_decode (FastPFor_decode 65536 (replicate 33 [])) VariableByte_decode"

interpretation fastpfor: composite "FastPFor_encode 65536 junk" "FastPFor_decode 65536 (replicate 33 [])"
  FastPFor_accepts VariableByte_encode VariableByte_decode "\<lambda>_. True" BlockSize for junk
proof unfold_locales
  fix xs :: "u32 list" and cap assume "xs \<noteq> []"
  then have "0 < length (concat (map encode_val xs))"
    using length_encode_vals [of xs] by (metis length_greater_0_conv order_less_le_trans)
  then have "length (VariableByte_words xs) \<noteq> 0"
    using words_of_pad32(2) [of "concat (map encode_val xs)"] by linarith
  then show "VariableByte_encode cap xs \<noteq> Some (Inr [])"
    by (auto simp: VariableByte_encode_def within_def)
qed

section \<open>Properties\<close>

text \<open>\<open>VariableByte\<close> restores every array of integers through \<open>compress\<close> and \<open>uncompress\<close>: the encoding takes at most
  five bytes for an integer and so always fits the vector \<open>compress\<close> allocates, the padding
  to a whole word reads as no integer, and no shift of the decoder is undefined.\<close>

theorem VariableByte_round_trip:
  "\<exists>ws. compress VariableByte_encode xs = Some (Inr ws) \<and> 4 * length ws \<le> 5 * length xs + 3 \<and>
    uncompress VariableByte_decode ws (length xs) = Some (Inr xs)"
proof (intro exI conjI)
  let ?ws = "VariableByte_words xs"
  show l: "4 * length ?ws \<le> 5 * length xs + 3"
    using length_encode_vals [of xs] words_of_pad32(2) [of "concat (map encode_val xs)"] by linarith
  then show "compress VariableByte_encode xs = Some (Inr ?ws)"
    by (simp add: compress_def VariableByte_encode_def within_def)
  show "uncompress VariableByte_decode ?ws (length xs) = Some (Inr xs)"
    using VariableByte_decode_words [of xs "length xs" "[]"] by (simp add: uncompress_def)
qed

text \<open>C15. The codec registered as \<open>"fastpfor"\<close>, FastPFor on the whole blocks followed by VariableByte on the
  rest, restores every array of fewer than \<open>2 ^ 32\<close> integers of every length, and leaves the words behind
  the encoded ones alone.\<close>

theorem fastpfor_composite_round_trip:
  assumes "length xs < 2 ^ 32"
  shows "\<exists>ws. fastpfor_encode junk (length ws) xs = Some (Inr ws) \<and>
    fastpfor_decode (ws @ rest) (length ws) (length xs) = Some (Inr (xs, rest))"
proof -
  have "fastpfor.composite_accepts xs"
    using assms by (simp add: fastpfor.composite_accepts_def FastPFor_accepts_def)
      (metis div_times_less_eq_dividend le_less_trans min.coboundedI1)
  from fastpfor.both.codec_round_trip [OF this, of junk] show ?thesis
    unfolding fastpfor_encode_def fastpfor_decode_def by blast
qed

theorem fastpfor_composite_round_trip_witness:
  "\<exists>ws. fastpfor_encode (\<lambda>i j. 9) (length ws) (replicate 130 4 @ [2 ^ 31]) = Some (Inr ws) \<and>
    fastpfor_decode (ws @ [8]) (length ws) (length (replicate 130 4 @ [2 ^ 31 :: u32])) =
      Some (Inr (replicate 130 4 @ [2 ^ 31], [8]))"
  by (rule fastpfor_composite_round_trip) simp

end
