(* ===== verification/SIMD_Codec.thy ===== *)
theory SIMD_Codec
  imports SIMD_Blocks VariableByte
begin

text \<open>
  The codecs of \<open>include/util/compression/simd-compression\<close> that the inverted indexes use: \<open>SIMDBinaryPacking\<close> of
  \<open>simdbinarypacking.h\<close> over either block packer, \<open>VariableByte\<close> of \<open>variablebyte.h\<close> with and without
  differences, and their \<open>CompositeCodec\<close>. Pointers matter here, since the vector loads need
  aligned memory: \<open>inaddr\<close> and \<open>outaddr\<close> are the addresses of \<open>in\<close> and \<open>out\<close> counted in 32-bit words,
  \<open>room\<close> is the number of words that may be stored behind \<open>out\<close>, \<open>nvalue\<close> what the caller passes for the
  parameter of that name.
\<close>

section \<open>SIMDBinaryPacking\<close>

definition CookiePadder :: u32 where "CookiePadder = 123456"
definition MiniBlockSize :: nat where "MiniBlockSize = 128"
definition HowManyMiniBlocks :: nat where "HowManyMiniBlocks = 16"

definition needPaddingTo128Bits :: "nat \<Rightarrow> bool" where
  "needPaddingTo128Bits addr \<longleftrightarrow> addr mod 4 \<noteq> 0"

text \<open>\<open>while (needPaddingTo128Bits(out)) *out++ = CookiePadder;\<close>\<close>

definition cookies :: "nat \<Rightarrow> u32 list" where
  "cookies addr = replicate ((4 - addr mod 4) mod 4) CookiePadder"

text \<open>The widths of \<open>k\<close> miniblocks of 32 vectors each.\<close>

primrec widths ::
  "(m128i list \<Rightarrow> m128i \<Rightarrow> (nat \<times> m128i) option) \<Rightarrow> nat \<Rightarrow> m128i list \<Rightarrow> m128i \<Rightarrow> nat list option"
where
  "widths mb 0 vs init = Some []"
| "widths mb (Suc k) vs init = do {
     (b, init1) \<leftarrow> mb (take 32 vs) init;
     bs \<leftarrow> widths mb k (drop 32 vs) init1;
     Some (b # bs)
   }"

primrec packblocks ::
  "(m128i list \<Rightarrow> nat \<Rightarrow> m128i \<Rightarrow> (m128i list \<times> m128i list \<times> m128i) option) \<Rightarrow>
   nat list \<Rightarrow> m128i list \<Rightarrow> m128i \<Rightarrow> (m128i list \<times> m128i) option"
where
  "packblocks pk [] vs init = Some ([], init)"
| "packblocks pk (b # bs) vs init = do {
     (_, out, init1) \<leftarrow> pk (take 32 vs) b init;
     (rest, init2) \<leftarrow> packblocks pk bs (drop 32 vs) init1;
     Some (out @ rest, init2)
   }"

definition width_word :: "nat list \<Rightarrow> nat \<Rightarrow> u32" where
  "width_word Bs i = push_bit 24 (of_nat (Bs ! i)) OR push_bit 16 (of_nat (Bs ! (i + 1)))
     OR push_bit 8 (of_nat (Bs ! (i + 2))) OR of_nat (Bs ! (i + 3))"

definition pack_group ::
  "(m128i list \<Rightarrow> m128i \<Rightarrow> (nat \<times> m128i) option) \<Rightarrow>
   (m128i list \<Rightarrow> nat \<Rightarrow> m128i \<Rightarrow> (m128i list \<times> m128i list \<times> m128i) option) \<Rightarrow>
   nat \<Rightarrow> m128i list \<Rightarrow> m128i \<Rightarrow> (u32 list \<times> m128i) option"
where
  "pack_group mb pk howmany vs init = do {
     bs \<leftarrow> widths mb howmany vs init;
     let Bs = bs @ replicate (HowManyMiniBlocks - howmany) 0;
     (out, init1) \<leftarrow> packblocks pk bs vs init;
     Some ([width_word Bs 0, width_word Bs 4, width_word Bs 8, width_word Bs 12] @ store_si128s out, init1)
   }"

function pack_groups ::
  "(m128i list \<Rightarrow> m128i \<Rightarrow> (nat \<times> m128i) option) \<Rightarrow>
   (m128i list \<Rightarrow> nat \<Rightarrow> m128i \<Rightarrow> (m128i list \<times> m128i list \<times> m128i) option) \<Rightarrow>
   m128i list \<Rightarrow> m128i \<Rightarrow> u32 list option"
where
  "pack_groups mb pk vs init =
     (if HowManyMiniBlocks * 32 \<le> length vs then do {
        (ws, init1) \<leftarrow> pack_group mb pk HowManyMiniBlocks vs init;
        rest \<leftarrow> pack_groups mb pk (drop (HowManyMiniBlocks * 32) vs) init1;
        Some (ws @ rest)
      }
      else if vs \<noteq> [] then do {
        (ws, init1) \<leftarrow> pack_group mb pk (length vs div 32) vs init;
        Some ws
      }
      else Some [])"
  by auto
termination by (relation "measure (\<lambda>(mb, pk, vs, init). length vs)") (auto simp: HowManyMiniBlocks_def)

declare pack_groups.simps [simp del]

definition SIMDBinaryPacking_encode ::
  "(m128i list \<Rightarrow> m128i \<Rightarrow> (nat \<times> m128i) option) \<Rightarrow>
   (m128i list \<Rightarrow> nat \<Rightarrow> m128i \<Rightarrow> (m128i list \<times> m128i list \<times> m128i) option) \<Rightarrow>
   nat \<Rightarrow> nat \<Rightarrow> nat \<Rightarrow> nat \<Rightarrow> u32 list \<Rightarrow> u32 list codec_result"
where
  "SIMDBinaryPacking_encode mb pk inaddr outaddr room nvalue inp =
     and_then (checkifdivisibleby (length inp) MiniBlockSize) (\<lambda>_.
       if needPaddingTo128Bits outaddr \<or> needPaddingTo128Bits inaddr then Some (Inl AlignmentIssue)
       else do {
         ws \<leftarrow> pack_groups mb pk (load_si128s inp) (mm_set1_epi32 0);
         within room (of_nat (length inp) # cookies (outaddr + 1) @ ws)
       })"

text \<open>The decoder takes the widths out of the four header words of a group.\<close>

definition width_bytes :: "u32 \<Rightarrow> nat list" where
  "width_bytes w = [unat (ucast (drop_bit 24 w) :: u8), unat (ucast (drop_bit 16 w) :: u8),
     unat (ucast (drop_bit 8 w) :: u8), unat (ucast w :: u8)]"

definition read_widths :: "u32 list \<Rightarrow> (nat list \<times> u32 list) option" where
  "read_widths ws = do {
     hs \<leftarrow> rd_seq ws 0 4;
     Some (concat (map width_bytes hs), drop 4 ws)
   }"

primrec unpackblocks ::
  "(m128i list \<Rightarrow> nat \<Rightarrow> m128i \<Rightarrow> (m128i list \<times> m128i) option) \<Rightarrow>
   nat list \<Rightarrow> u32 list \<Rightarrow> m128i \<Rightarrow> (m128i list \<times> u32 list \<times> m128i) option"
where
  "unpackblocks up [] ws init = Some ([], ws, init)"
| "unpackblocks up (b # bs) ws init = do {
     (vs, init1) \<leftarrow> up (load_si128s ws) b init;
     (rest, ws1, init2) \<leftarrow> unpackblocks up bs (drop (MiniBlockSize div 32 * b) ws) init1;
     Some (vs @ rest, ws1, init2)
   }"

text \<open>\<open>n\<close> integers are still to be decoded; a rest that is no multiple of the miniblock fails an assertion.\<close>

function unpack_groups ::
  "(m128i list \<Rightarrow> nat \<Rightarrow> m128i \<Rightarrow> (m128i list \<times> m128i) option) \<Rightarrow>
   nat \<Rightarrow> u32 list \<Rightarrow> m128i \<Rightarrow> (m128i list \<times> u32 list) option"
where
  "unpack_groups up n ws init =
     (if HowManyMiniBlocks * MiniBlockSize \<le> n then do {
        (Bs, ws1) \<leftarrow> read_widths ws;
        (vs, ws2, init1) \<leftarrow> unpackblocks up Bs ws1 init;
        (rest, ws3) \<leftarrow> unpack_groups up (n - HowManyMiniBlocks * MiniBlockSize) ws2 init1;
        Some (vs @ rest, ws3)
      }
      else if 0 < n then do {
        (Bs, ws1) \<leftarrow> read_widths ws;
        (vs, ws2, _) \<leftarrow> unpackblocks up (take (n div MiniBlockSize) Bs) ws1 init;
        if n mod MiniBlockSize = 0 then Some (vs, ws2) else None
      }
      else Some ([], ws))"
  by auto
termination by (relation "measure (\<lambda>(up, n, ws, init). n)") (auto simp: HowManyMiniBlocks_def MiniBlockSize_def)

declare unpack_groups.simps [simp del]

definition SIMDBinaryPacking_decode ::
  "(m128i list \<Rightarrow> nat \<Rightarrow> m128i \<Rightarrow> (m128i list \<times> m128i) option) \<Rightarrow>
   nat \<Rightarrow> nat \<Rightarrow> nat \<Rightarrow> u32 list \<Rightarrow> nat \<Rightarrow> nat \<Rightarrow> (u32 list \<times> u32 list) codec_result"
where
  "SIMDBinaryPacking_decode up inaddr outaddr room inp len nvalue =
     (if needPaddingTo128Bits outaddr \<or> needPaddingTo128Bits inaddr then Some (Inl AlignmentIssue)
      else do {
        actuallength \<leftarrow> rd inp 0;
        let pads = cookies (inaddr + 1);
        ps \<leftarrow> rd_seq inp 1 (length pads);
        if ps \<noteq> pads then Some (Inl CookieIssue)
        else do {
          (vs, ws) \<leftarrow> unpack_groups up (unat actuallength) (drop (1 + length pads) inp) (mm_set1_epi32 0);
          if 4 * length vs \<le> room then Some (Inr (store_si128s vs, ws)) else None
        }
      })"

section \<open>The headers\<close>

lemma length_cookies: "addr mod 4 = 0 \<Longrightarrow> length (cookies (addr + 1)) = 3"
  by (simp add: cookies_def mod_Suc)

lemma cookies_aligned: "a mod 4 = 0 \<Longrightarrow> b mod 4 = 0 \<Longrightarrow> cookies (a + 1) = cookies (b + 1)"
  by (simp add: cookies_def mod_Suc)

lemma bit_above: "n < 256 \<Longrightarrow> 8 \<le> k \<Longrightarrow> \<not> bit (n :: nat) k"
proof -
  assume n: "n < 256" and k: "8 \<le> k"
  have "(2 :: nat) ^ 8 \<le> 2 ^ k" using k by (intro power_increasing) auto
  then have "n div 2 ^ k = 0" using n by simp
  then show ?thesis by (simp add: bit_iff_odd)
qed

lemma byte_of_width:
  assumes "a < 256" "b < 256" "c < 256" "d < 256"
  shows "width_bytes (push_bit 24 (of_nat a) OR push_bit 16 (of_nat b) OR push_bit 8 (of_nat c) OR of_nat d) =
    [a, b, c, d]"
proof -
  let ?w = "push_bit 24 (of_nat a) OR push_bit 16 (of_nat b) OR push_bit 8 (of_nat c) OR of_nat d :: u32"
  have u: "unat (of_nat n :: u8) = n" if "n < 256" for n using that by (simp add: unat_of_nat)
  note s = assms [THEN bit_above]
  have 1: "(ucast (drop_bit 24 ?w) :: u8) = of_nat a"
    by (rule bit_eqI) (auto simp: bit_simps s)
  have 2: "(ucast (drop_bit 16 ?w) :: u8) = of_nat b"
    by (rule bit_eqI) (auto simp: bit_simps s)
  have 3: "(ucast (drop_bit 8 ?w) :: u8) = of_nat c"
    by (rule bit_eqI) (auto simp: bit_simps s)
  have 4: "(ucast ?w :: u8) = of_nat d"
    by (rule bit_eqI) (auto simp: bit_simps s)
  show ?thesis unfolding width_bytes_def 1 2 3 4 using assms by (simp add: u)
qed

lemma read_widths_words:
  assumes "length Bs = 16" "\<forall>b \<in> set Bs. b < 256"
  shows "read_widths ([width_word Bs 0, width_word Bs 4, width_word Bs 8, width_word Bs 12] @ rest) = Some (Bs, rest)"
proof -
  have b: "Bs ! i < 256" if "i < 16" for i using that assms by (auto simp: all_set_conv_all_nth)
  have w: "width_bytes (width_word Bs i) = [Bs ! i, Bs ! (i + 1), Bs ! (i + 2), Bs ! (i + 3)]" if "i + 3 < 16" for i
    unfolding width_word_def by (rule byte_of_width) (use that in \<open>auto intro!: b\<close>)
  have "concat (map width_bytes [width_word Bs 0, width_word Bs 4, width_word Bs 8, width_word Bs 12]) = map ((!) Bs) [0..<16]"
    by (simp add: w upt_step del: One_nat_def add_Suc_right upt.simps flip: numeral_2_eq_2)
  also have "map ((!) Bs) [0..<16] = Bs" using assms(1) map_nth [of Bs] by simp
  finally show ?thesis by (simp add: read_widths_def rd_seq_def)
qed

section \<open>Blocks\<close>

lemma load_store_append [simp]: "load_si128s (store_si128s vs @ ws) = vs @ load_si128s ws"
proof (induction vs)
  case (Cons v vs)
  then show ?case by (cases v) (simp add: store_si128s_def)
qed (simp add: store_si128s_def)

lemma widths_length: "widths mb k vs p = Some bs \<Longrightarrow> length bs = k"
  by (induction k arbitrary: vs p bs) (auto split: bind_splits)

context block_packer
begin

lemma widths_append:
  assumes "length vs = 32 * (j + k)" "widths mb (j + k) vs p = Some bs"
  shows "widths mb j (take (32 * j) vs) p = Some (take j bs)"
    and "widths mb k (drop (32 * j) vs) (last (p # take (32 * j) vs)) = Some (drop j bs)"
proof -
  have "widths mb j (take (32 * j) vs) p = Some (take j bs) \<and>
      widths mb k (drop (32 * j) vs) (last (p # take (32 * j) vs)) = Some (drop j bs)"
    using assms
  proof (induction j arbitrary: vs p bs)
    case (Suc j)
    let ?v = "take 32 vs"
    from Suc.prems(2) obtain b off bs' where b: "mb ?v p = Some (b, off)" "bs = b # bs'"
      "widths mb (j + k) (drop 32 vs) off = Some bs'"
      by (auto split: bind_splits)
    have l: "length ?v = 32" using Suc.prems(1) by simp
    have off: "off = last ?v" using width [OF l b(1)] by simp
    have v: "?v \<noteq> []" using l by auto
    have ih: "widths mb j (take (32 * j) (drop 32 vs)) off = Some (take j bs')"
      "widths mb k (drop (32 * j) (drop 32 vs)) (last (off # take (32 * j) (drop 32 vs))) = Some (drop j bs')"
      using Suc.IH [of "drop 32 vs" off bs'] Suc.prems(1) b(3) by simp_all
    have t: "take (32 * Suc j) vs = ?v @ take (32 * j) (drop 32 vs)"
      using take_add [of 32 "32 * j" vs] by simp
    have "last (p # take (32 * Suc j) vs) = last (off # take (32 * j) (drop 32 vs))"
      unfolding t using v off by (cases "take (32 * j) (drop 32 vs)") (auto simp: last_append)
    then have "widths mb k (drop (32 * Suc j) vs) (last (p # take (32 * Suc j) vs)) = Some (drop j bs')"
      using ih(2) by (simp only: drop_drop) (simp only: mult_Suc_right add.commute)
    moreover have "widths mb (Suc j) (take (32 * Suc j) vs) p = Some (take (Suc j) bs)"
      using ih(1) b t l by simp
    ultimately show ?case by (simp only: b(2) drop_Suc_Cons)
  qed simp
  then show "widths mb j (take (32 * j) vs) p = Some (take j bs)"
    "widths mb k (drop (32 * j) vs) (last (p # take (32 * j) vs)) = Some (drop j bs)" by simp_all
qed

lemma widths_take: "widths mb k vs p = widths mb k (take (32 * k) vs) p"
  by (induction k arbitrary: vs p) (simp_all add: min_def drop_take)

lemma blocks:
  assumes "length vs = 32 * k" "widths mb k vs p = Some bs"
  shows "(\<forall>b \<in> set bs. b \<le> 32) \<and> (\<exists>out. packblocks pk bs vs p = Some (out, last (p # vs)) \<and>
    length out = sum_list bs \<and>
    (\<forall>rest. unpackblocks up bs (store_si128s out @ rest) p = Some (vs, rest, last (p # vs))))"
  using assms
proof (induction k arbitrary: vs p bs)
  case (Suc k)
  let ?v = "take 32 vs" and ?w = "drop 32 vs"
  from Suc.prems(2) obtain b off bs' where b: "mb ?v p = Some (b, off)" "bs = b # bs'" "widths mb k ?w off = Some bs'"
    by (auto split: bind_splits)
  have l: "length ?v = 32" "length ?w = 32 * k" using Suc.prems(1) by simp_all
  have off: "b \<le> 32" "off = last ?v" using width [OF l(1) b(1)] by simp_all
  from block [OF l(1) b(1)] obtain v' out where
    o: "pk ?v b p = Some (v', out, last ?v)" "length out = b" "\<And>rest. up (out @ rest) b p = Some (?v, last ?v)" by blast
  from Suc.IH [OF l(2) b(3)] obtain out' where
    o': "\<forall>b \<in> set bs'. b \<le> 32" "packblocks pk bs' ?w off = Some (out', last (off # ?w))" "length out' = sum_list bs'"
      "\<And>rest. unpackblocks up bs' (store_si128s out' @ rest) off = Some (?w, rest, last (off # ?w))" by blast
  have v: "?v \<noteq> []" using l(1) by auto
  have last: "last (off # ?w) = last (p # vs)"
  proof -
    have "last (p # vs) = last (?v @ ?w)" using v by (auto simp: append_take_drop_id)
    then show ?thesis using v off by (cases ?w) (auto simp: last_append)
  qed
  have "unpackblocks up bs (store_si128s (out @ out') @ rest) p = Some (vs, rest, last (p # vs))" for rest
    using o'(4) [of rest] o(2,3) off(2) b(2) last by (simp add: MiniBlockSize_def)
  moreover have "packblocks pk bs vs p = Some (out @ out', last (p # vs))"
    using o o' b off last by simp
  ultimately show ?case using o' off b o(2) by auto
qed (simp add: store_si128s_def)

lemma packblocks_take: "packblocks pk bs vs p = packblocks pk bs (take (32 * length bs) vs) p"
  by (induction bs arbitrary: vs p) (simp_all add: min_def drop_take)

text \<open>A group of up to 16 miniblocks: four header words and the packed vectors.\<close>

lemma group:
  assumes "32 * k \<le> length vs" "k \<le> 16" "widths mb k vs p = Some bs"
  defines "Bs \<equiv> bs @ replicate (16 - k) 0"
  shows "\<exists>ws out. pack_group mb pk k vs p = Some (ws, last (p # take (32 * k) vs)) \<and>
    length ws = 4 + 4 * sum_list bs \<and> (\<forall>rest. read_widths (ws @ rest) = Some (Bs, store_si128s out @ rest) \<and>
    unpackblocks up bs (store_si128s out @ rest) p = Some (take (32 * k) vs, rest, last (p # take (32 * k) vs)))"
proof -
  let ?vs = "take (32 * k) vs"
  have l: "length ?vs = 32 * k" "length bs = k" using assms(1,3) widths_length by auto
  have w: "widths mb k ?vs p = Some bs" using assms(3) widths_take [of k vs p] by simp
  from blocks [OF l(1) w] obtain out where b: "\<forall>b \<in> set bs. b \<le> 32"
    "packblocks pk bs ?vs p = Some (out, last (p # ?vs))" "length out = sum_list bs"
    "\<And>rest. unpackblocks up bs (store_si128s out @ rest) p = Some (?vs, rest, last (p # ?vs))" by blast
  have pb: "packblocks pk bs vs p = Some (out, last (p # ?vs))"
    using b(2) packblocks_take [of bs vs p] l(2) by simp
  have Bs: "length Bs = 16" "\<forall>b \<in> set Bs. b < 256" using b(1) l(2) assms(2) by (force simp: Bs_def)+
  let ?h = "[width_word Bs 0, width_word Bs 4, width_word Bs 8, width_word Bs 12]"
  have g: "pack_group mb pk k vs p = Some (?h @ store_si128s out, last (p # ?vs))"
    using assms(3) pb by (simp add: pack_group_def HowManyMiniBlocks_def Bs_def Let_def del: last.simps)
  have r: "read_widths ((?h @ store_si128s out) @ rest) = Some (Bs, store_si128s out @ rest)" for rest
    using read_widths_words [OF Bs, of "store_si128s out @ rest"] by simp
  show ?thesis
    by (rule exI [of _ "?h @ store_si128s out"], rule exI [of _ out]) (use g r b in simp)
qed

lemma groups:
  assumes "length vs = 32 * n" "widths mb n vs p = Some bs"
  shows "\<exists>ws. pack_groups mb pk vs p = Some ws \<and> length ws = 4 * ((n + 15) div 16) + 4 * sum_list bs \<and>
    (\<forall>rest. unpack_groups up (128 * n) (ws @ rest) p = Some (vs, rest))"
  using assms
proof (induction n arbitrary: vs p bs rule: less_induct)
  case (less n)
  note c = HowManyMiniBlocks_def MiniBlockSize_def
  show ?case
  proof (cases "16 \<le> n")
    case True
    then obtain m where m: "n = 16 + m" using le_Suc_ex by blast
    let ?v = "take (32 * 16) vs" and ?w = "drop (32 * 16) vs"
    define p' where "p' = last (p # ?v)"
    have w: "widths mb 16 ?v p = Some (take 16 bs)" "widths mb m ?w p' = Some (drop 16 bs)"
      using widths_append [of vs 16 m p bs] less.prems m by (simp_all add: p'_def)
    have "widths mb 16 vs p = Some (take 16 bs)" using w(1) widths_take [of 16 vs p] by simp
    from group [OF _ _ this] less.prems(1) m obtain ws out where
      g: "pack_group mb pk 16 vs p = Some (ws, p')" "length ws = 4 + 4 * sum_list (take 16 bs)"
        "\<And>rest. read_widths (ws @ rest) = Some (take 16 bs, store_si128s out @ rest)"
        "\<And>rest. unpackblocks up (take 16 bs) (store_si128s out @ rest) p = Some (?v, rest, p')"
      by (auto simp: p'_def)
    from less.IH [of m ?w p' "drop 16 bs"] less.prems(1) m w(2) obtain ws' where
      t: "pack_groups mb pk ?w p' = Some ws'" "length ws' = 4 * ((m + 15) div 16) + 4 * sum_list (drop 16 bs)"
        "\<And>rest. unpack_groups up (128 * m) (ws' @ rest) p' = Some (?w, rest)"
      by auto
    have "pack_groups mb pk vs p = Some (ws @ ws')"
      using g(1) t(1) less.prems(1) m by (subst pack_groups.simps) (simp add: c)
    moreover have "unpack_groups up (128 * n) ((ws @ ws') @ rest) p = Some (vs, rest)" for rest
      using g(3) [of "ws' @ rest"] g(4) [of "ws' @ rest"] t(3) [of rest] m
      by (subst unpack_groups.simps) (simp add: c)
    moreover have "sum_list bs = sum_list (take 16 bs) + sum_list (drop 16 bs)"
      by (metis append_take_drop_id sum_list_append)
    then have "length (ws @ ws') = 4 * ((n + 15) div 16) + 4 * sum_list bs"
      using g(2) t(2) m div_add_self1 [of 16 "m + 15"] by simp
    ultimately show ?thesis by blast
  next
    case False
    show ?thesis
    proof (cases "n = 0")
      case True
      then show ?thesis using less.prems
        by (subst pack_groups.simps, subst unpack_groups.simps) (simp add: c)
    next
      case nz: False
      from group [of n vs p bs] less.prems False obtain ws out where
        g: "pack_group mb pk n vs p = Some (ws, last (p # vs))" "length ws = 4 + 4 * sum_list bs"
          "\<And>rest. read_widths (ws @ rest) = Some (bs @ replicate (16 - n) 0, store_si128s out @ rest)"
          "\<And>rest. unpackblocks up bs (store_si128s out @ rest) p = Some (vs, rest, last (p # vs))"
        by auto
      have "length bs = n" using less.prems widths_length by simp
      then have "unpack_groups up (128 * n) (ws @ rest) p = Some (vs, rest)" for rest
        using g(3,4) [of rest] False nz by (subst unpack_groups.simps) (simp add: c)
      moreover have "pack_groups mb pk vs p = Some ws"
        using g(1) False nz less.prems(1) by (subst pack_groups.simps) (auto simp: c)
      moreover have "(n + 15) div 16 = 1" using False nz by simp
      ultimately show ?thesis using g(2) by auto
    qed
  qed
qed

text \<open>A miniblock without a width makes the whole encoding undefined.\<close>

lemma widths_concat:
  assumes "32 * j \<le> length vs" "widths mb j vs p = Some bs"
    and "widths mb k (drop (32 * j) vs) (last (p # take (32 * j) vs)) = Some bs'"
  shows "widths mb (j + k) vs p = Some (bs @ bs')"
  using assms
proof (induction j arbitrary: vs p bs)
  case (Suc j)
  let ?v = "take 32 vs"
  from Suc.prems(2) obtain b off bs1 where b: "mb ?v p = Some (b, off)" "bs = b # bs1" "widths mb j (drop 32 vs) off = Some bs1"
    by (auto split: bind_splits)
  have l: "length ?v = 32" using Suc.prems(1) by simp
  have off: "off = last ?v" using width [OF l b(1)] by simp
  have t: "take (32 * Suc j) vs = ?v @ take (32 * j) (drop 32 vs)" using take_add [of 32 "32 * j" vs] by simp
  have "?v \<noteq> []" using l by auto
  then have "last (p # take (32 * Suc j) vs) = last (off # take (32 * j) (drop 32 vs))"
    unfolding t using off by (cases "take (32 * j) (drop 32 vs)") (auto simp: last_append)
  then have "widths mb k (drop (32 * j) (drop 32 vs)) (last (off # take (32 * j) (drop 32 vs))) = Some bs'"
    using Suc.prems(3) by (simp only: drop_drop) (simp only: mult_Suc_right add.commute)
  from Suc.IH [OF _ b(3) this] Suc.prems(1) have "widths mb (j + k) (drop 32 vs) off = Some (bs1 @ bs')" by simp
  then show ?case using b by simp
qed simp

lemma groups_undefined:
  assumes "length vs = 32 * n" "widths mb n vs p = None"
  shows "pack_groups mb pk vs p = None"
  using assms
proof (induction n arbitrary: vs p rule: less_induct)
  case (less n)
  show ?case
  proof (cases "16 \<le> n")
    case True
    then obtain m where m: "n = 16 + m" using le_Suc_ex by blast
    show ?thesis
    proof (cases "widths mb 16 vs p")
      case None
      then show ?thesis using less.prems(1) m by (subst pack_groups.simps) (simp add: HowManyMiniBlocks_def pack_group_def)
    next
      case (Some bs)
      define p' where "p' = last (p # take (32 * 16) vs)"
      from group [OF _ _ Some] less.prems(1) m obtain ws where
        g: "pack_group mb pk 16 vs p = Some (ws, p')" by (auto simp: p'_def)
      have "widths mb m (drop (32 * 16) vs) p' = None"
        using widths_concat [of 16 vs p bs m] Some less.prems m unfolding p'_def
        by (cases "widths mb m (drop (32 * 16) vs) (last (p # take (32 * 16) vs))") auto
      then have "pack_groups mb pk (drop (32 * 16) vs) p' = None"
        using less.IH [of m "drop (32 * 16) vs" p'] less.prems(1) m by simp
      then show ?thesis using g less.prems(1) m by (subst pack_groups.simps) (simp add: HowManyMiniBlocks_def)
    qed
  next
    case False
    then have "n \<noteq> 0" using less.prems(2) by (cases n) auto
    then show ?thesis using False less.prems
      by (subst pack_groups.simps) (auto simp: HowManyMiniBlocks_def pack_group_def)
  qed
qed

lemma bp_round_trip:
  assumes "length xs = 128 * n" "length xs < 2 ^ 32"
    and "widths mb n (load_si128s xs) (mm_set1_epi32 0) = Some bs"
  shows "\<exists>ws. length ws = 4 + 4 * ((n + 15) div 16) + 4 * sum_list bs \<and>
    (\<forall>ia oa room nvalue. ia mod 4 = 0 \<and> oa mod 4 = 0 \<and> length ws \<le> room \<longrightarrow>
       SIMDBinaryPacking_encode mb pk ia oa room nvalue xs = Some (Inr ws)) \<and>
    (\<forall>ia oa room len nvalue rest. ia mod 4 = 0 \<and> oa mod 4 = 0 \<and> length xs \<le> room \<longrightarrow>
       SIMDBinaryPacking_decode up ia oa room (ws @ rest) len nvalue = Some (Inr (xs, rest)))"
proof -
  let ?vs = "load_si128s xs"
  have v: "length ?vs = 32 * n" "store_si128s ?vs = xs" using store_load [of xs "32 * n"] assms(1) by simp_all
  from groups [OF v(1) assms(3)] obtain gs where
    g: "pack_groups mb pk ?vs (mm_set1_epi32 0) = Some gs" "length gs = 4 * ((n + 15) div 16) + 4 * sum_list bs"
      "\<And>rest. unpack_groups up (128 * n) (gs @ rest) (mm_set1_epi32 0) = Some (?vs, rest)" by blast
  let ?c = "cookies (0 + 1)"
  let ?ws = "of_nat (length xs) # ?c @ gs"
  have c: "cookies (a + 1) = ?c" "length ?c = 3" if "a mod 4 = 0" for a
    using cookies_aligned [OF that, of 0] length_cookies [of 0] by simp_all
  have "unat (of_nat (length xs) :: u32) = length xs" using assms(2) by (simp add: unat_of_nat)
  then have u: "unat (of_nat (length xs) :: u32) = 128 * n" by (simp only: assms(1))
  have e: "SIMDBinaryPacking_encode mb pk ia oa room nvalue xs = Some (Inr ?ws)"
    if "ia mod 4 = 0" "oa mod 4 = 0" "length ?ws \<le> room" for ia oa room nvalue
    using that assms(1) c(1) [OF that(2)] g(1)
    by (simp add: SIMDBinaryPacking_encode_def checkifdivisibleby_def MiniBlockSize_def needPaddingTo128Bits_def within_def)
  have d: "SIMDBinaryPacking_decode up ia oa room (?ws @ rest) len nvalue = Some (Inr (xs, rest))"
    if "ia mod 4 = 0" "oa mod 4 = 0" "length xs \<le> room" for ia oa room len nvalue rest
    using that c(1) [OF that(1)] c(2) [OF that(1)] g(3) [of rest] u v assms(1)
    by (simp add: SIMDBinaryPacking_decode_def needPaddingTo128Bits_def rd_def rd_seq_def)
  have l: "length ?ws = 4 + 4 * ((n + 15) div 16) + 4 * sum_list bs" using g(2) c(2) [of 0] by simp
  show ?thesis
    by (rule exI [of _ ?ws], intro conjI allI impI, rule l, elim conjE, erule (2) e, elim conjE, erule (2) d)
qed

end

section \<open>VariableByte\<close>

text \<open>\<open>VariableByte<true>\<close> encodes each integer as its difference to the one before, \<open>VariableByte<false>\<close> is the codec of
  \<open>fastpfor\<close>. Neither looks at \<open>nvalue\<close>.\<close>

primrec vb_deltas :: "u32 \<Rightarrow> u32 list \<Rightarrow> u32 list" where
  "vb_deltas prev [] = []"
| "vb_deltas prev (x # xs) = (x - prev) # vb_deltas x xs"

primrec vb_sums :: "u32 \<Rightarrow> u32 list \<Rightarrow> u32 list" where
  "vb_sums prev [] = []"
| "vb_sums prev (v # vs) = (v + prev) # vb_sums (v + prev) vs"

definition SIMDVariableByte_encode ::
  "bool \<Rightarrow> nat \<Rightarrow> nat \<Rightarrow> nat \<Rightarrow> nat \<Rightarrow> u32 list \<Rightarrow> u32 list codec_result"
where
  "SIMDVariableByte_encode delta inaddr outaddr room nvalue inp =
     within room (words_of (pad32 (concat (map encode_val (if delta then vb_deltas 0 inp else inp)))))"

definition SIMDVariableByte_decode ::
  "bool \<Rightarrow> nat \<Rightarrow> nat \<Rightarrow> nat \<Rightarrow> u32 list \<Rightarrow> nat \<Rightarrow> nat \<Rightarrow> (u32 list \<times> u32 list) codec_result"
where
  "SIMDVariableByte_decode delta inaddr outaddr room inp len nvalue =
     (if len = 0 then Some (Inr ([], inp)) else do {
        ws \<leftarrow> rd_seq inp 0 len;
        vs \<leftarrow> decode_bytes (put32s ws) 0 0;
        let out = (if delta then vb_sums 0 vs else vs);
        if length out > room then None else Some (Inr (out, drop len inp))
      })"

lemma vb_sums_deltas: "vb_sums prev (vb_deltas prev xs) = xs"
  by (induction xs arbitrary: prev) simp_all

lemma length_vb [simp]: "length (vb_deltas prev xs) = length xs" "length (vb_sums prev xs) = length xs"
  by (induction xs arbitrary: prev) simp_all

lemma SIMDVariableByte_eq:
  "SIMDVariableByte_encode delta ia oa room nvalue xs = VariableByte_encode room (if delta then vb_deltas 0 xs else xs)"
  "SIMDVariableByte_decode delta ia oa room ws len nvalue =
     and_then (VariableByte_decode ws len room) (\<lambda>(vs, rest). Some (Inr (if delta then vb_sums 0 vs else vs, rest)))"
  by (auto simp: SIMDVariableByte_encode_def VariableByte_encode_def SIMDVariableByte_decode_def VariableByte_decode_def
      Let_def and_then_def split: bind_splits)

section \<open>The composite\<close>

definition SIMDComposite_encode ::
  "nat \<Rightarrow> (nat \<Rightarrow> nat \<Rightarrow> nat \<Rightarrow> nat \<Rightarrow> u32 list \<Rightarrow> u32 list codec_result) \<Rightarrow>
   (nat \<Rightarrow> nat \<Rightarrow> nat \<Rightarrow> nat \<Rightarrow> u32 list \<Rightarrow> u32 list codec_result) \<Rightarrow>
   nat \<Rightarrow> nat \<Rightarrow> nat \<Rightarrow> nat \<Rightarrow> u32 list \<Rightarrow> u32 list codec_result"
where
  "SIMDComposite_encode bsize enc1 enc2 inaddr outaddr room nvalue inp =
     (let roundedlength = length inp div bsize * bsize in
      and_then (enc1 inaddr outaddr room nvalue (take roundedlength inp)) (\<lambda>ws1.
        if roundedlength < length inp then
          if nvalue < length ws1 then None
          else and_then (enc2 (inaddr + roundedlength) (outaddr + length ws1) (room - length ws1)
                  (nvalue - length ws1) (drop roundedlength inp)) (\<lambda>ws2. Some (Inr (ws1 @ ws2)))
        else Some (Inr ws1)))"

definition SIMDComposite_decode ::
  "(nat \<Rightarrow> nat \<Rightarrow> nat \<Rightarrow> u32 list \<Rightarrow> nat \<Rightarrow> nat \<Rightarrow> (u32 list \<times> u32 list) codec_result) \<Rightarrow>
   (nat \<Rightarrow> nat \<Rightarrow> nat \<Rightarrow> u32 list \<Rightarrow> nat \<Rightarrow> nat \<Rightarrow> (u32 list \<times> u32 list) codec_result) \<Rightarrow>
   nat \<Rightarrow> nat \<Rightarrow> nat \<Rightarrow> u32 list \<Rightarrow> nat \<Rightarrow> nat \<Rightarrow> (u32 list \<times> u32 list) codec_result"
where
  "SIMDComposite_decode dec1 dec2 inaddr outaddr room inp len nvalue =
     and_then (dec1 inaddr outaddr room inp len nvalue) (\<lambda>(out1, in2).
       let read = length inp - length in2 in
       if read < len then
         if nvalue \<le> length out1 then None
         else and_then (dec2 (inaddr + read) (outaddr + length out1) (room - length out1) in2 (len - read)
                 (nvalue - length out1)) (\<lambda>(out2, in3). Some (Inr (out1 @ out2, in3)))
       else Some (Inr (out1, in2)))"

abbreviation vb_words :: "bool \<Rightarrow> u32 list \<Rightarrow> u32 list" where
  "vb_words delta xs \<equiv> VariableByte_words (if delta then vb_deltas 0 xs else xs)"

lemma vb_round_trip:
  "length (vb_words delta xs) \<le> room \<Longrightarrow> SIMDVariableByte_encode delta ia oa room nvalue xs = Some (Inr (vb_words delta xs))"
  "length xs \<le> room \<Longrightarrow>
     SIMDVariableByte_decode delta ia oa room (vb_words delta xs @ rest) (length (vb_words delta xs)) nvalue = Some (Inr (xs, rest))"
  using VariableByte_decode_words [of "if delta then vb_deltas 0 xs else xs" room rest]
  by (simp_all add: SIMDVariableByte_eq VariableByte_encode_def within_def vb_sums_deltas)

lemma vb_words_nonempty: "xs \<noteq> [] \<Longrightarrow> vb_words delta xs \<noteq> []"
proof -
  assume "xs \<noteq> []"
  define ys where "ys = (if delta then vb_deltas 0 xs else xs)"
  have "length ys = length xs" by (simp add: ys_def)
  then have "0 < length ys" using \<open>xs \<noteq> []\<close> by simp
  then have "0 < length (concat (map encode_val ys))" using length_encode_vals [of ys] by linarith
  then have "length (VariableByte_words ys) \<noteq> 0" using words_of_pad32(2) [of "concat (map encode_val ys)"] by linarith
  then show ?thesis unfolding ys_def by (metis list.size(3))
qed

context block_packer
begin

abbreviation comp_enc :: "bool \<Rightarrow> nat \<Rightarrow> nat \<Rightarrow> nat \<Rightarrow> nat \<Rightarrow> u32 list \<Rightarrow> u32 list codec_result" where
  "comp_enc delta \<equiv> SIMDComposite_encode 128 (SIMDBinaryPacking_encode mb pk) (SIMDVariableByte_encode delta)"

abbreviation comp_dec ::
  "bool \<Rightarrow> nat \<Rightarrow> nat \<Rightarrow> nat \<Rightarrow> u32 list \<Rightarrow> nat \<Rightarrow> nat \<Rightarrow> (u32 list \<times> u32 list) codec_result"
where
  "comp_dec delta \<equiv> SIMDComposite_decode (SIMDBinaryPacking_decode up) (SIMDVariableByte_decode delta)"

text \<open>The composite restores every array; a multiple of 128 integers takes the words of \<open>SIMDBinaryPacking\<close> only.\<close>

lemma comp_round_trip:
  assumes "n = length xs div 128" "length xs < 2 ^ 32"
    and "widths mb n (load_si128s (take (128 * n) xs)) (mm_set1_epi32 0) = Some bs"
  shows "\<exists>ws. (length xs mod 128 = 0 \<longrightarrow> length ws = 4 + 4 * ((n + 15) div 16) + 4 * sum_list bs) \<and>
    (\<forall>ia oa room nvalue. ia mod 4 = 0 \<and> oa mod 4 = 0 \<and> length ws \<le> room \<and>
       (length xs mod 128 = 0 \<or> length ws \<le> nvalue) \<longrightarrow> comp_enc delta ia oa room nvalue xs = Some (Inr ws)) \<and>
    (\<forall>ia oa room nvalue rest. ia mod 4 = 0 \<and> oa mod 4 = 0 \<and> length xs \<le> room \<and> length xs \<le> nvalue \<longrightarrow>
       comp_dec delta ia oa room (ws @ rest) (length ws) nvalue = Some (Inr (xs, rest)))"
proof -
  have len: "length xs = 128 * n + length xs mod 128" using assms(1) by simp
  define a b where "a = take (128 * n) xs" and "b = drop (128 * n) xs"
  have la: "length a = 128 * n" "length b = length xs mod 128" "xs = a @ b"
    using len by (simp_all add: a_def b_def)
  have "length a < 2 ^ 32" using la(3) assms(2) by simp
  from bp_round_trip [OF la(1) this, of bs] assms(3) a_def obtain w1 where
    w1: "length w1 = 4 + 4 * ((n + 15) div 16) + 4 * sum_list bs"
      "\<And>ia oa room nvalue. ia mod 4 = 0 \<Longrightarrow> oa mod 4 = 0 \<Longrightarrow> length w1 \<le> room \<Longrightarrow>
         SIMDBinaryPacking_encode mb pk ia oa room nvalue a = Some (Inr w1)"
      "\<And>ia oa room len nvalue rest. ia mod 4 = 0 \<Longrightarrow> oa mod 4 = 0 \<Longrightarrow> length a \<le> room \<Longrightarrow>
         SIMDBinaryPacking_decode up ia oa room (w1 @ rest) len nvalue = Some (Inr (a, rest))"
    by auto
  define w2 where "w2 = (if b = [] then [] else vb_words delta b)"
  have w2: "w2 = [] \<longleftrightarrow> b = []" using vb_words_nonempty [of b delta] by (simp add: w2_def)
  have r: "length xs div 128 * 128 = 128 * n" using assms(1) by simp
  have b0: "b = [] \<longleftrightarrow> length xs mod 128 = 0" using la(2) by auto
  have e: "comp_enc delta ia oa room nvalue xs = Some (Inr (w1 @ w2))"
    if "ia mod 4 = 0" "oa mod 4 = 0" "length (w1 @ w2) \<le> room" "b = [] \<or> length (w1 @ w2) \<le> nvalue" for ia oa room nvalue
  proof -
    have "128 * n < length xs \<longleftrightarrow> b \<noteq> []" using la by auto
    moreover have "SIMDVariableByte_encode delta (ia + 128 * n) (oa + length w1) (room - length w1) (nvalue - length w1) b =
        Some (Inr w2)" if "b \<noteq> []"
      using vb_round_trip(1) [of delta b "room - length w1"] that \<open>length (w1 @ w2) \<le> room\<close> by (simp add: w2_def)
    ultimately show ?thesis
      using that w1(2) [OF that(1,2), of room nvalue] w2
      unfolding SIMDComposite_encode_def r Let_def a_def [symmetric] b_def [symmetric] by auto
  qed
  have d: "comp_dec delta ia oa room ((w1 @ w2) @ rest) (length (w1 @ w2)) nvalue = Some (Inr (xs, rest))"
    if "ia mod 4 = 0" "oa mod 4 = 0" "length xs \<le> room" "length xs \<le> nvalue" for ia oa room nvalue rest
  proof -
    have "SIMDVariableByte_decode delta (ia + length w1) (oa + length a) (room - length a) (w2 @ rest) (length w2)
        (nvalue - length a) = Some (Inr (b, rest))" if "b \<noteq> []"
      using vb_round_trip(2) [of b "room - length a"] that \<open>length xs \<le> room\<close> la(3) by (simp add: w2_def)
    moreover have "length a < nvalue" if "b \<noteq> []" using that \<open>length xs \<le> nvalue\<close> la(3) by (cases b) simp_all
    ultimately show ?thesis
      using that w1(3) [OF that(1,2), of room "w2 @ rest" "length (w1 @ w2)" nvalue] w2 la(3)
      by (auto simp: SIMDComposite_decode_def Let_def)
  qed
  have l: "length (w1 @ w2) = 4 + 4 * ((n + 15) div 16) + 4 * sum_list bs" if "length xs mod 128 = 0"
    using that b0 w2 w1(1) by simp
  show ?thesis
    by (rule exI [of _ "w1 @ w2"], intro conjI allI impI, erule l, elim conjE,
        erule (2) e [unfolded b0], assumption, elim conjE, erule (2) d, assumption)
qed

end

section \<open>The codecs of the indexes\<close>

text \<open>\<open>forwardCodec\<close>, \<open>reverseCodec\<close> and \<open>noDeltaCodec\<close> of \<open>AttrScoreInvertedIndex.cpp\<close>.\<close>

definition forwardCodec_encode :: "nat \<Rightarrow> nat \<Rightarrow> nat \<Rightarrow> nat \<Rightarrow> u32 list \<Rightarrow> u32 list codec_result" where
  "forwardCodec_encode = SIMDComposite_encode 128
     (SIMDBinaryPacking_encode (SIMDBlock_maxbits CoarseDelta4_Delta) (SIMDIntegratedBlockPacker_packblock CoarseDelta4_Delta))
     (SIMDVariableByte_encode True)"

definition forwardCodec_decode ::
  "nat \<Rightarrow> nat \<Rightarrow> nat \<Rightarrow> u32 list \<Rightarrow> nat \<Rightarrow> nat \<Rightarrow> (u32 list \<times> u32 list) codec_result"
where
  "forwardCodec_decode = SIMDComposite_decode
     (SIMDBinaryPacking_decode (SIMDIntegratedBlockPacker_unpackblock CoarseDelta4_PrefixSum))
     (SIMDVariableByte_decode True)"

definition reverseCodec_encode :: "nat \<Rightarrow> nat \<Rightarrow> nat \<Rightarrow> nat \<Rightarrow> u32 list \<Rightarrow> u32 list codec_result" where
  "reverseCodec_encode = SIMDComposite_encode 128
     (SIMDBinaryPacking_encode (SIMDBlock_maxbits ReverseCoarseDelta4_Delta)
        (SIMDIntegratedBlockPacker_packblock ReverseCoarseDelta4_Delta))
     (SIMDVariableByte_encode True)"

definition reverseCodec_decode ::
  "nat \<Rightarrow> nat \<Rightarrow> nat \<Rightarrow> u32 list \<Rightarrow> nat \<Rightarrow> nat \<Rightarrow> (u32 list \<times> u32 list) codec_result"
where
  "reverseCodec_decode = SIMDComposite_decode
     (SIMDBinaryPacking_decode (SIMDIntegratedBlockPacker_unpackblock ReverseCoarseDelta4_PrefixSum))
     (SIMDVariableByte_decode True)"

definition noDeltaCodec_encode :: "nat \<Rightarrow> nat \<Rightarrow> nat \<Rightarrow> nat \<Rightarrow> u32 list \<Rightarrow> u32 list codec_result" where
  "noDeltaCodec_encode = SIMDComposite_encode 128
     (SIMDBinaryPacking_encode (SIMDBlock_maxbits NoDelta_Delta) (SIMDBlockPacker_packblock NoDelta_Delta))
     (SIMDVariableByte_encode False)"

definition noDeltaCodec_decode ::
  "nat \<Rightarrow> nat \<Rightarrow> nat \<Rightarrow> u32 list \<Rightarrow> nat \<Rightarrow> nat \<Rightarrow> (u32 list \<times> u32 list) codec_result"
where
  "noDeltaCodec_decode = SIMDComposite_decode
     (SIMDBinaryPacking_decode (SIMDBlockPacker_unpackblock NoDelta_PrefixSum))
     (SIMDVariableByte_decode False)"

section \<open>When the widths are defined\<close>

lemma maxbits_defined_vectors:
  assumes "v \<in> set (deltas D p vs)" "lane l v \<noteq> 0"
  shows "\<exists>b. SIMDBlock_maxbits D vs p = Some (b, last vs)"
proof -
  from assms(1) obtain d ds where d: "deltas D p vs = d # ds" by (cases "deltas D p vs") auto
  let ?a = "accum128 d ds"
  from assms(2) obtain i where i: "bit (lane l v) i" by (auto simp: bit_eq_iff)
  have "bit (lane l ?a) i" using assms(1) d i by (auto simp: lane_accum128 bit_accum)
  moreover have "lane l ?a = lane 0 ?a \<or> lane l ?a = lane 1 ?a \<or> lane l ?a = lane 2 ?a \<or> lane l ?a = lane 3 ?a"
    by (cases ?a) simp
  ultimately have "bit (lane 0 ?a OR lane 1 ?a OR lane 2 ?a OR lane 3 ?a) i" by (auto simp: bit_or_iff)
  then have "lane 0 ?a OR lane 1 ?a OR lane 2 ?a OR lane 3 ?a \<noteq> 0" by (metis bit_0_eq bot_apply bot_bool_def)
  then show ?thesis using d by (simp add: SIMDBlock_maxbits_def maxbitas32int_def gccbits_eq)
qed

lemma maxbits_undefined_vectors:
  assumes "\<forall>v \<in> set (deltas D p vs). \<forall>l. lane l v = 0"
  shows "SIMDBlock_maxbits D vs p = None"
proof (cases "deltas D p vs")
  case Nil
  then show ?thesis by (simp add: SIMDBlock_maxbits_def)
next
  case (Cons d ds)
  have "lane l (accum128 d ds) = 0" for l
    by (rule bit_eqI) (use assms Cons in \<open>auto simp: lane_accum128 bit_accum\<close>)
  then show ?thesis using Cons by (simp add: SIMDBlock_maxbits_def maxbitas32int_def gccbits_eq)
qed

lemma maxbits_bound:
  assumes "SIMDBlock_maxbits D vs p = Some (b, off)"
    and "\<forall>v \<in> set (deltas D p vs). \<forall>l. take_bit c (lane l v) = lane l v"
  shows "b \<le> c"
proof -
  from assms(1) obtain d ds where d: "deltas D p vs = d # ds" and w: "maxbitas32int (accum128 d ds) = Some b"
    by (auto simp: SIMDBlock_maxbits_def split: list.splits bind_splits)
  let ?a = "accum128 d ds"
  have "take_bit c (lane l ?a) = lane l ?a" for l
  proof (rule bit_eqI)
    fix i
    have "i < c" if "v \<in> set (d # ds)" "bit (lane l v) i" for v
      using that assms(2) d by (metis bit_take_bit_iff)
    then show "bit (take_bit c (lane l ?a)) i = bit (lane l ?a) i"
      by (auto simp: bit_take_bit_iff lane_accum128 bit_accum)
  qed
  then have "take_bit c (lane 0 ?a OR lane 1 ?a OR lane 2 ?a OR lane 3 ?a) = lane 0 ?a OR lane 1 ?a OR lane 2 ?a OR lane 3 ?a"
    by (simp only: take_bit_or)
  then show ?thesis using w asmbits_le by (auto simp: maxbitas32int_def gccbits_eq split: if_splits)
qed

lemma widths_defined:
  assumes "length vs = 32 * n" "\<And>j. j < n \<Longrightarrow> lane 0 (D (vs ! (32 * j + 1)) (vs ! (32 * j))) \<noteq> 0"
  shows "\<exists>bs. widths (SIMDBlock_maxbits D) n vs p = Some bs"
  using assms
proof (induction n arbitrary: vs p)
  case (Suc n)
  let ?v = "take 32 vs"
  have l: "length ?v = 32" using Suc.prems(1) by simp
  have "deltas D p ?v ! 1 = D (vs ! 1) (vs ! 0)" using Suc.prems(1) by (subst deltas_nth) simp_all
  moreover have "deltas D p ?v ! 1 \<in> set (deltas D p ?v)" using l by (intro nth_mem) simp
  ultimately have "\<exists>b. SIMDBlock_maxbits D ?v p = Some (b, last ?v)"
    using Suc.prems(2) [of 0] by (intro maxbits_defined_vectors [of _ D p ?v 0]) simp_all
  moreover have "\<exists>bs. widths (SIMDBlock_maxbits D) n (drop 32 vs) q = Some bs" for q
    using Suc.prems(1) Suc.prems(2) [of "Suc j" for j] by (intro Suc.IH) (simp_all add: add.commute)
  ultimately show ?case by (metis (no_types, lifting) bind.bind_lunit case_prod_conv widths.simps(2))
qed simp

lemma widths_bound:
  assumes "widths (SIMDBlock_maxbits D) n vs p = Some bs" "length vs = 32 * n"
    and "\<And>k l. k < 32 * n \<Longrightarrow> take_bit c (lane l (D (vs ! k) ((p # vs) ! k))) = lane l (D (vs ! k) ((p # vs) ! k))"
  shows "sum_list bs \<le> c * n"
  using assms
proof (induction n arbitrary: vs p bs)
  case (Suc n)
  let ?v = "take 32 vs"
  from Suc.prems(1) obtain b off bs' where b: "SIMDBlock_maxbits D ?v p = Some (b, off)" "bs = b # bs'"
    "widths (SIMDBlock_maxbits D) n (drop 32 vs) off = Some bs'"
    by (auto split: bind_splits)
  have l: "length ?v = 32" using Suc.prems(2) by simp
  have off: "off = last ?v" using maxbits_vectors(4) [OF b(1)] .
  have "take_bit c (lane l v) = lane l v" if v: "v \<in> set (deltas D p ?v)" for v l
  proof -
    from v obtain k where k: "k < 32" "v = deltas D p ?v ! k" using l by (auto simp: in_set_conv_nth)
    then have "v = D (vs ! k) ((p # vs) ! k)" using l by (cases k) (simp_all add: deltas_nth)
    then show ?thesis using Suc.prems(3) [of k l] k(1) by simp
  qed
  then have "b \<le> c" using maxbits_bound [OF b(1), of c] by blast
  moreover have "sum_list bs' \<le> c * n"
  proof (rule Suc.IH [OF b(3)])
    show "length (drop 32 vs) = 32 * n" using Suc.prems(2) by simp
    fix k l assume k: "k < 32 * n"
    have "last ?v = vs ! 31" using l by (subst last_conv_nth) auto
    then have "(off # drop 32 vs) ! k = (p # vs) ! (32 + k)"
      using off l Suc.prems(2) k by (cases k) auto
    then show "take_bit c (lane l (D (drop 32 vs ! k) ((off # drop 32 vs) ! k))) =
        lane l (D (drop 32 vs ! k) ((off # drop 32 vs) ! k))"
      using Suc.prems(2) Suc.prems(3) [of "32 + k" l] k by (simp del: nth_Cons)
  qed
  ultimately show ?case using b(2) by simp
qed simp

lemma load_nth: "length xs = 4 * m \<Longrightarrow> i < m \<Longrightarrow> l < 4 \<Longrightarrow> lane l (load_si128s xs ! i) = xs ! (4 * i + l)"
proof (induction xs arbitrary: m i rule: load_si128s.induct)
  case (1 a b c d xs)
  then obtain m' where m: "m = Suc m'" by (cases m) auto
  have "l = 0 \<or> l = 1 \<or> l = 2 \<or> l = 3" using 1(4) by auto
  then show ?case using 1 m by (cases i) (auto simp: numeral_eq_Suc)
qed auto

section \<open>Sorted arrays\<close>

lemma small31: "(x :: u32) < 2 ^ 31 \<Longrightarrow> take_bit 31 x = x"
  using less_push_bit [of 31 x] by simp

lemma diff31: "(a :: u32) \<le> b \<Longrightarrow> b < 2 ^ 31 \<Longrightarrow> take_bit 31 (b - a) = b - a"
  by (rule small31) (metis order_le_less_trans word_sub_le)

lemma lane_coarse4:
  "lane l (CoarseDelta4_Delta v p) = lane l v - lane l p"
  "lane l (ReverseCoarseDelta4_Delta v p) = lane l p - lane l v"
  "lane l (NoDelta_Delta v p) = lane l v"
  by (simp_all add: delta_defs lane_simps)

lemma load_lane:
  assumes "length xs = 128 * n" "k < 32 * n"
  shows "lane l (load_si128s xs ! k) = xs ! (4 * k + min l 3)"
  using load_nth [of xs "32 * n" k "min l 3"] assms by (subst lane_min) simp

lemma forward_widths:
  assumes "sorted_wrt (<) xs" "length xs = 128 * n"
  shows "\<exists>bs. widths (SIMDBlock_maxbits CoarseDelta4_Delta) n (load_si128s xs) (mm_set1_epi32 0) = Some bs \<and>
    (list_all (\<lambda>x. x < 2 ^ 31) xs \<longrightarrow> sum_list bs \<le> 31 * n)"
proof -
  let ?vs = "load_si128s xs" and ?p = "mm_set1_epi32 0"
  have l: "length ?vs = 32 * n" using store_load [of xs "32 * n"] assms(2) by simp
  note ll = load_lane [OF assms(2)]
  have lt: "xs ! i < xs ! j" if "i < j" "j < 128 * n" for i j
    using sorted_wrt_nth_less [OF assms(1) that(1)] that assms(2) by simp
  have "\<exists>bs. widths (SIMDBlock_maxbits CoarseDelta4_Delta) n ?vs ?p = Some bs"
  proof (rule widths_defined [OF l])
    fix j assume j: "j < n"
    have "xs ! (4 * (32 * j)) < xs ! (4 * (32 * j + 1))" by (rule lt) (use j in auto)
    then show "lane 0 (CoarseDelta4_Delta (?vs ! (32 * j + 1)) (?vs ! (32 * j))) \<noteq> 0"
      using j by (simp add: lane_coarse4 ll)
  qed
  then obtain bs where bs: "widths (SIMDBlock_maxbits CoarseDelta4_Delta) n ?vs ?p = Some bs" by blast
  have "sum_list bs \<le> 31 * n" if small: "list_all (\<lambda>x. x < 2 ^ 31) xs"
  proof (rule widths_bound [OF bs l])
    fix k l assume k: "k < 32 * n"
    have s: "xs ! (4 * k + min l 3) < 2 ^ 31" using small k assms(2) by (simp add: list_all_length)
    show "take_bit 31 (lane l (CoarseDelta4_Delta (?vs ! k) ((?p # ?vs) ! k))) =
        lane l (CoarseDelta4_Delta (?vs ! k) ((?p # ?vs) ! k))"
    proof (cases k)
      case 0
      then show ?thesis using k s by (simp add: lane_coarse4 lane_mm ll small31)
    next
      case (Suc k')
      have "xs ! (4 * k' + min l 3) \<le> xs ! (4 * k + min l 3)"
        using k Suc by (intro less_imp_le lt) auto
      then show ?thesis using k Suc s by (simp add: lane_coarse4 ll diff31)
    qed
  qed
  with bs show ?thesis by blast
qed

lemma reverse_widths:
  assumes "sorted_wrt (>) xs" "length xs = 128 * n"
  shows "\<exists>bs. widths (SIMDBlock_maxbits ReverseCoarseDelta4_Delta) n (load_si128s xs) (mm_set1_epi32 0) = Some bs \<and>
    (list_all (\<lambda>x. x < 2 ^ 31) xs \<longrightarrow> sum_list bs \<le> 31 * n + 1)"
proof -
  let ?vs = "load_si128s xs" and ?p = "mm_set1_epi32 0"
  have l: "length ?vs = 32 * n" using store_load [of xs "32 * n"] assms(2) by simp
  note ll = load_lane [OF assms(2)]
  have gt: "xs ! j < xs ! i" if "i < j" "j < 128 * n" for i j
    using sorted_wrt_nth_less [OF assms(1) that(1)] that assms(2) by simp
  have "\<exists>bs. widths (SIMDBlock_maxbits ReverseCoarseDelta4_Delta) n ?vs ?p = Some bs"
  proof (rule widths_defined [OF l])
    fix j assume j: "j < n"
    have "xs ! (4 * (32 * j + 1)) < xs ! (4 * (32 * j))" by (rule gt) (use j in auto)
    then show "lane 0 (ReverseCoarseDelta4_Delta (?vs ! (32 * j + 1)) (?vs ! (32 * j))) \<noteq> 0"
      using j by (simp add: lane_coarse4 ll)
  qed
  then obtain bs where bs: "widths (SIMDBlock_maxbits ReverseCoarseDelta4_Delta) n ?vs ?p = Some bs" by blast
  have "sum_list bs \<le> 31 * n + 1" if small: "list_all (\<lambda>x. x < 2 ^ 31) xs"
  proof (cases n)
    case (Suc m)
    let ?v = "take 32 ?vs" and ?w = "drop 32 ?vs"
    from bs Suc obtain b off bs' where b: "SIMDBlock_maxbits ReverseCoarseDelta4_Delta ?v ?p = Some (b, off)" "bs = b # bs'"
      "widths (SIMDBlock_maxbits ReverseCoarseDelta4_Delta) m ?w off = Some bs'"
      by (auto split: bind_splits)
    have "off = last ?v" "b \<le> 32" using maxbits_vectors(2,4) [OF b(1)] by simp_all
    then have off: "off = ?vs ! 31" using l Suc by (subst (asm) last_conv_nth) auto
    have "sum_list bs' \<le> 31 * m"
    proof (rule widths_bound [OF b(3)])
      show "length ?w = 32 * m" using l Suc by simp
      fix k l' assume k: "k < 32 * m"
      define i where "i = 4 * (31 + k) + min l' 3"
      have i: "i + 4 < 128 * n" using k Suc by (auto simp: i_def)
      have "xs ! i < 2 ^ 31" using small i assms(2) by (simp add: list_all_length)
      moreover have "xs ! (i + 4) \<le> xs ! i" using i by (intro less_imp_le gt) auto
      ultimately have d: "take_bit 31 (xs ! i - xs ! (i + 4)) = xs ! i - xs ! (i + 4)" by (intro diff31)
      have "(off # ?w) ! k = ?vs ! (31 + k)" using off l k Suc by (cases k) auto
      then have "lane l' ((off # ?w) ! k) = xs ! i" using k Suc by (simp add: ll i_def del: nth_Cons)
      moreover have "lane l' (?w ! k) = xs ! (i + 4)" using l k Suc by (simp add: ll i_def algebra_simps)
      ultimately show "take_bit 31 (lane l' (ReverseCoarseDelta4_Delta (?w ! k) ((off # ?w) ! k))) =
          lane l' (ReverseCoarseDelta4_Delta (?w ! k) ((off # ?w) ! k))"
        using d by (simp add: lane_coarse4 del: nth_Cons)
    qed
    then show ?thesis using \<open>b \<le> 32\<close> b(2) Suc by simp
  qed (use bs in simp)
  with bs show ?thesis by blast
qed

text \<open>Without differences every miniblock of 128 integers needs one that is not zero.\<close>

definition nonzero_blocks :: "u32 list \<Rightarrow> bool" where
  "nonzero_blocks xs \<longleftrightarrow> list_all (\<lambda>j. list_ex (\<lambda>x. x \<noteq> 0) (take 128 (drop (128 * j) xs))) [0..<length xs div 128]"

lemma deltas_no_delta: "deltas NoDelta_Delta p vs = vs"
  by (induction vs arbitrary: p) (simp_all add: NoDelta_Delta_def)

lemma lane_of_store: "x \<in> set (store_si128s vs) \<longleftrightarrow> (\<exists>v \<in> set vs. \<exists>l. x = lane l v)"
proof -
  have "x \<in> set (store_si128 v) \<longleftrightarrow> (\<exists>l. x = lane l v)" for v
  proof -
    have "x \<in> set (store_si128 v) \<longleftrightarrow> x = lane 0 v \<or> x = lane 1 v \<or> x = lane 2 v \<or> x = lane 3 v"
      by (cases v) simp
    moreover have "lane l v = lane 0 v \<or> lane l v = lane 1 v \<or> lane l v = lane 2 v \<or> lane l v = lane 3 v" for l
      by (cases v) simp
    ultimately show ?thesis by metis
  qed
  then show ?thesis by (auto simp: store_si128s_def)
qed

lemma load_append: "length xs = 4 * m \<Longrightarrow> load_si128s (xs @ ys) = load_si128s xs @ load_si128s ys"
proof (induction m arbitrary: xs)
  case (Suc m)
  then obtain a b c d zs where "xs = a # b # c # d # zs" "length zs = 4 * m"
    by (auto simp: numeral_eq_Suc length_Suc_conv)
  with Suc.IH [of zs] show ?case by simp
qed simp

lemma nonzero_widths:
  assumes "length xs = 128 * n"
  shows "(\<exists>bs. widths (SIMDBlock_maxbits NoDelta_Delta) n (load_si128s xs) p = Some bs) \<longleftrightarrow> nonzero_blocks xs"
  using assms
proof (induction n arbitrary: xs p)
  case (Suc n)
  define a b where "a = take 128 xs" and "b = drop 128 xs"
  have ab: "length a = 4 * 32" "length b = 128 * n" "xs = a @ b" using Suc.prems by (simp_all add: a_def b_def)
  have v: "load_si128s xs = load_si128s a @ load_si128s b" "length (load_si128s a) = 32" "store_si128s (load_si128s a) = a"
    using load_append [OF ab(1)] store_load [OF ab(1)] ab(3) by simp_all
  have t: "take 32 (load_si128s xs) = load_si128s a" "drop 32 (load_si128s xs) = load_si128s b" using v by simp_all
  have m: "(\<exists>bo. SIMDBlock_maxbits NoDelta_Delta (load_si128s a) p = Some bo) \<longleftrightarrow> list_ex (\<lambda>x. x \<noteq> 0) a" for p
  proof
    assume "list_ex (\<lambda>x. x \<noteq> 0) a"
    then obtain x where "x \<in> set (store_si128s (load_si128s a))" "x \<noteq> 0" using v(3) by (auto simp: list_ex_iff)
    then obtain w l where "w \<in> set (load_si128s a)" "lane l w \<noteq> 0" by (auto simp: lane_of_store)
    then show "\<exists>bo. SIMDBlock_maxbits NoDelta_Delta (load_si128s a) p = Some bo"
      using maxbits_defined_vectors [of w NoDelta_Delta p "load_si128s a" l] by (auto simp: deltas_no_delta)
  next
    assume ex: "\<exists>bo. SIMDBlock_maxbits NoDelta_Delta (load_si128s a) p = Some bo"
    show "list_ex (\<lambda>x. x \<noteq> 0) a"
    proof (rule ccontr)
      assume "\<not> list_ex (\<lambda>x. x \<noteq> 0) a"
      then have "\<forall>x \<in> set (store_si128s (load_si128s a)). x = 0" using v(3) by (simp add: list_ex_iff)
      then have "\<forall>w \<in> set (load_si128s a). \<forall>l. lane l w = 0" by (metis lane_of_store)
      then show False using ex maxbits_undefined_vectors [of NoDelta_Delta p "load_si128s a"] by (simp add: deltas_no_delta)
    qed
  qed
  have "nonzero_blocks xs \<longleftrightarrow> list_ex (\<lambda>x. x \<noteq> 0) a \<and> nonzero_blocks b"
  proof -
    have u: "[0..<length xs div 128] = 0 # map Suc [0..<length b div 128]"
      using Suc.prems ab(2) by (simp add: upt_conv_Cons map_Suc_upt del: upt_Suc)
    have d: "drop (128 * Suc j) xs = drop (128 * j) b" for j by (simp add: b_def add.commute)
    show ?thesis unfolding nonzero_blocks_def u list.pred_inject(2) list.pred_map comp_def d by (simp add: a_def)
  qed
  moreover have ih: "(\<exists>bs. widths (SIMDBlock_maxbits NoDelta_Delta) n (load_si128s b) q = Some bs) \<longleftrightarrow> nonzero_blocks b" for q
    by (rule Suc.IH [OF ab(2)])
  have "(\<exists>bs. widths (SIMDBlock_maxbits NoDelta_Delta) (Suc n) (load_si128s xs) p = Some bs) \<longleftrightarrow>
      list_ex (\<lambda>x. x \<noteq> 0) a \<and> nonzero_blocks b"
  proof (cases "SIMDBlock_maxbits NoDelta_Delta (load_si128s a) p")
    case None
    then show ?thesis using m [of p] by (simp add: t)
  next
    case (Some bo)
    obtain w off where bo: "bo = (w, off)" by (cases bo)
    have "widths (SIMDBlock_maxbits NoDelta_Delta) (Suc n) (load_si128s xs) p =
        map_option (Cons w) (widths (SIMDBlock_maxbits NoDelta_Delta) n (load_si128s b) off)"
      using Some bo by (simp add: t map_conv_bind_option comp_def)
    moreover have "list_ex (\<lambda>x. x \<noteq> 0) a" using Some m [of p] by blast
    ultimately show ?thesis using ih [of off] by auto
  qed
  ultimately show ?case by blast
qed (simp add: nonzero_blocks_def)

section \<open>The codecs restore their arrays\<close>

text \<open>What a caller of a codec needs: the words \<open>ws\<close> stand for \<open>xs\<close>.\<close>

definition encodes ::
  "(nat \<Rightarrow> nat \<Rightarrow> nat \<Rightarrow> nat \<Rightarrow> u32 list \<Rightarrow> u32 list codec_result) \<Rightarrow>
   (nat \<Rightarrow> nat \<Rightarrow> nat \<Rightarrow> u32 list \<Rightarrow> nat \<Rightarrow> nat \<Rightarrow> (u32 list \<times> u32 list) codec_result) \<Rightarrow> u32 list \<Rightarrow> u32 list \<Rightarrow> bool"
where
  "encodes enc dec xs ws \<longleftrightarrow>
     (\<forall>ia oa room nvalue. ia mod 4 = 0 \<and> oa mod 4 = 0 \<and> length ws \<le> room \<and>
        (length xs mod 128 = 0 \<or> length ws \<le> nvalue) \<longrightarrow> enc ia oa room nvalue xs = Some (Inr ws)) \<and>
     (\<forall>ia oa room nvalue rest. ia mod 4 = 0 \<and> oa mod 4 = 0 \<and> length xs \<le> room \<and> length xs \<le> nvalue \<longrightarrow>
        dec ia oa room (ws @ rest) (length ws) nvalue = Some (Inr (xs, rest)))"

lemma comp_encodes:
  fixes xs :: "u32 list"
  defines "n \<equiv> length xs div 128"
  assumes "block_packer mb pk up" "length xs < 2 ^ 32"
    and "widths mb n (load_si128s (take (128 * n) xs)) (mm_set1_epi32 0) = Some bs"
  shows "\<exists>ws. (length xs mod 128 = 0 \<longrightarrow> length ws = 4 + 4 * ((n + 15) div 16) + 4 * sum_list bs) \<and>
    encodes (SIMDComposite_encode 128 (SIMDBinaryPacking_encode mb pk) (SIMDVariableByte_encode delta))
      (SIMDComposite_decode (SIMDBinaryPacking_decode up) (SIMDVariableByte_decode delta)) xs ws"
  using block_packer.comp_round_trip [OF assms(2), of n xs bs delta] assms(1,3,4) unfolding encodes_def by blast

lemma sorted_wrt_take: "sorted_wrt P xs \<Longrightarrow> sorted_wrt P (take n xs)"
  by (induction xs arbitrary: n) (auto simp: take_Cons split: nat.splits dest: in_set_takeD)

lemma length_take_blocks: "length (take (128 * (length xs div 128)) xs) = 128 * (length xs div 128)"
  by simp

lemma forward_encodes:
  assumes "sorted_wrt (<) xs" "length xs < 2 ^ 32"
  shows "\<exists>ws. encodes forwardCodec_encode forwardCodec_decode xs ws \<and>
    (list_all (\<lambda>x. x < 2 ^ 31) xs \<and> length xs mod 128 = 0 \<longrightarrow>
       length ws \<le> 4 + 4 * ((length xs div 128 + 15) div 16) + 124 * (length xs div 128))"
proof -
  let ?n = "length xs div 128"
  from forward_widths [OF sorted_wrt_take [OF assms(1)] length_take_blocks] obtain bs where
    bs: "widths (SIMDBlock_maxbits CoarseDelta4_Delta) ?n (load_si128s (take (128 * ?n) xs)) (mm_set1_epi32 0) = Some bs"
      "list_all (\<lambda>x. x < 2 ^ 31) (take (128 * ?n) xs) \<longrightarrow> sum_list bs \<le> 31 * ?n" by blast
  from comp_encodes [OF coarse4.integrated.block_packer_axioms assms(2) bs(1), of True] bs(2)
  show ?thesis unfolding forwardCodec_encode_def [symmetric] forwardCodec_decode_def [symmetric]
    by (fastforce simp: list_all_iff dest: in_set_takeD)
qed

lemma reverse_encodes:
  assumes "sorted_wrt (>) xs" "length xs < 2 ^ 32"
  shows "\<exists>ws. encodes reverseCodec_encode reverseCodec_decode xs ws \<and>
    (list_all (\<lambda>x. x < 2 ^ 31) xs \<and> length xs mod 128 = 0 \<longrightarrow>
       length ws \<le> 8 + 4 * ((length xs div 128 + 15) div 16) + 124 * (length xs div 128))"
proof -
  let ?n = "length xs div 128"
  from reverse_widths [OF sorted_wrt_take [OF assms(1)] length_take_blocks] obtain bs where
    bs: "widths (SIMDBlock_maxbits ReverseCoarseDelta4_Delta) ?n (load_si128s (take (128 * ?n) xs)) (mm_set1_epi32 0) = Some bs"
      "list_all (\<lambda>x. x < 2 ^ 31) (take (128 * ?n) xs) \<longrightarrow> sum_list bs \<le> 31 * ?n + 1" by blast
  from comp_encodes [OF reverse_coarse4.integrated.block_packer_axioms assms(2) bs(1), of True] bs(2)
  show ?thesis unfolding reverseCodec_encode_def [symmetric] reverseCodec_decode_def [symmetric]
    by (fastforce simp: list_all_iff dest: in_set_takeD)
qed

lemma no_delta_encodes:
  assumes "nonzero_blocks xs" "length xs < 2 ^ 32"
  shows "\<exists>ws. encodes noDeltaCodec_encode noDeltaCodec_decode xs ws \<and>
    (length xs mod 128 = 0 \<longrightarrow> length ws \<le> 4 + 4 * ((length xs div 128 + 15) div 16) + 128 * (length xs div 128))"
proof -
  let ?n = "length xs div 128" and ?xs = "take (128 * (length xs div 128)) xs"
  have "take 128 (drop (128 * j) ?xs) = take 128 (drop (128 * j) xs)" if "j < ?n" for j
    using that by (simp add: drop_take min_def mult.commute)
  then have "nonzero_blocks ?xs" using assms(1) by (simp add: nonzero_blocks_def list_all_iff)
  then obtain bs where
    bs: "widths (SIMDBlock_maxbits NoDelta_Delta) ?n (load_si128s ?xs) (mm_set1_epi32 0) = Some bs"
    using nonzero_widths [OF length_take_blocks, of xs "mm_set1_epi32 0"] by blast
  have l: "length (load_si128s ?xs) = 32 * ?n" using store_load [of ?xs "32 * ?n"] by simp
  have "sum_list bs \<le> 32 * ?n" by (rule widths_bound [OF bs l]) simp
  with comp_encodes [OF no_delta.plain.block_packer_axioms assms(2) bs, of False]
  show ?thesis unfolding noDeltaCodec_encode_def [symmetric] noDeltaCodec_decode_def [symmetric] by fastforce
qed

text \<open>The codec that keeps the docids of the index, chosen by the order of the postings.\<close>

definition docCodec_encode :: "bool \<Rightarrow> nat \<Rightarrow> nat \<Rightarrow> nat \<Rightarrow> nat \<Rightarrow> u32 list \<Rightarrow> u32 list codec_result" where
  "docCodec_encode reverse = (if reverse then reverseCodec_encode else forwardCodec_encode)"

definition docCodec_decode ::
  "bool \<Rightarrow> nat \<Rightarrow> nat \<Rightarrow> nat \<Rightarrow> u32 list \<Rightarrow> nat \<Rightarrow> nat \<Rightarrow> (u32 list \<times> u32 list) codec_result"
where
  "docCodec_decode reverse = (if reverse then reverseCodec_decode else forwardCodec_decode)"

lemma doc_encodes:
  assumes "sorted_wrt (\<lambda>x y. if reverse then x > y else x < y) xs" "length xs < 2 ^ 32"
  shows "\<exists>ws. encodes (docCodec_encode reverse) (docCodec_decode reverse) xs ws \<and>
    (list_all (\<lambda>x. x < 2 ^ 31) xs \<and> length xs mod 128 = 0 \<longrightarrow>
       length ws \<le> 8 + 4 * ((length xs div 128 + 15) div 16) + 124 * (length xs div 128))"
proof (cases reverse)
  case True
  with assms reverse_encodes [of xs] show ?thesis by (simp add: docCodec_encode_def docCodec_decode_def)
next
  case False
  with assms forward_encodes [of xs] show ?thesis by (fastforce simp: docCodec_encode_def docCodec_decode_def)
qed

section \<open>Properties\<close>

text \<open>C22. The codecs of the inverted indexes restore what they encode: \<open>forwardCodec\<close> every strictly ascending array of docids,
  \<open>reverseCodec\<close> every strictly descending one, of any length below \<open>2 ^ 32\<close>. The encoder gets aligned pointers
  and enough room, the decoder reads the words with anything behind them and needs no more room
  than there are integers. A multiple of 128 docids below \<open>2 ^ 31\<close> takes at most 31 bits each, and 12 words more
  for a full block of 2048.\<close>

theorem docid_codecs_round_trip:
  assumes "sorted_wrt (\<lambda>x y. if reverse then x > y else x < y) xs" and "length xs < 2 ^ 32"
    and "ia mod 4 = 0" and "oa mod 4 = 0" and "ia' mod 4 = 0" and "oa' mod 4 = 0"
  shows "\<exists>ws. docCodec_encode reverse ia oa (length ws) (length ws) xs = Some (Inr ws) \<and>
    docCodec_decode reverse ia' oa' (length xs) (ws @ rest) (length ws) (length xs) = Some (Inr (xs, rest)) \<and>
    (list_all (\<lambda>x. x < 2 ^ 31) xs \<and> length xs mod 128 = 0 \<longrightarrow>
       length ws \<le> 8 + 4 * ((length xs div 128 + 15) div 16) + 124 * (length xs div 128))"
proof -
  from doc_encodes [OF assms(1,2)] obtain ws where
    "encodes (docCodec_encode reverse) (docCodec_decode reverse) xs ws"
    "list_all (\<lambda>x. x < 2 ^ 31) xs \<and> length xs mod 128 = 0 \<longrightarrow>
       length ws \<le> 8 + 4 * ((length xs div 128 + 15) div 16) + 124 * (length xs div 128)" by blast
  then show ?thesis using assms(3-6) unfolding encodes_def by (intro exI [of _ ws]) auto
qed

theorem docid_codecs_round_trip_witness:
  "\<exists>ws. docCodec_encode False 0 4 (length ws) (length ws) (map of_nat [1..<131]) = Some (Inr ws) \<and>
    docCodec_decode False 8 0 (length (map of_nat [1..<131] :: u32 list)) (ws @ [7]) (length ws)
      (length (map of_nat [1..<131] :: u32 list)) = Some (Inr (map of_nat [1..<131], [7]))"
proof -
  have "sorted_wrt (\<lambda>x y. (of_nat x :: u32) < of_nat y) [1..<131]"
    by (rule sorted_wrt_mono_rel [OF _ sorted_wrt_upt]) (simp add: word_less_nat_alt unat_of_nat)
  then have "sorted_wrt (\<lambda>x y. if False then x > y else x < y) (map of_nat [1..<131] :: u32 list)"
    by (simp add: sorted_wrt_map del: upt.simps)
  from docid_codecs_round_trip [OF this, of 0 4 8 0 "[7]"] show ?thesis by (auto simp del: upt.simps)
qed

text \<open>C23. \<open>noDeltaCodec\<close>, which keeps the scores, restores an array when each of its miniblocks of 128 integers holds
  one that is not zero, and is undefined on every array with a miniblock of zeros: the width is then
  taken with \<open>__builtin_clz(0)\<close>.\<close>

theorem score_codec_defined_iff:
  assumes "length xs < 2 ^ 32" and "ia mod 4 = 0" and "oa mod 4 = 0" and "ia' mod 4 = 0" and "oa' mod 4 = 0"
  shows "if nonzero_blocks xs then
      \<exists>ws. noDeltaCodec_encode ia oa (length ws) (length ws) xs = Some (Inr ws) \<and>
        noDeltaCodec_decode ia' oa' (length xs) (ws @ rest) (length ws) (length xs) = Some (Inr (xs, rest))
    else \<forall>room nvalue. noDeltaCodec_encode ia oa room nvalue xs = None"
proof (cases "nonzero_blocks xs")
  case True
  from no_delta_encodes [OF this assms(1)] obtain ws where
    "encodes noDeltaCodec_encode noDeltaCodec_decode xs ws" by blast
  then have "noDeltaCodec_encode ia oa (length ws) (length ws) xs = Some (Inr ws)"
    "noDeltaCodec_decode ia' oa' (length xs) (ws @ rest) (length ws) (length xs) = Some (Inr (xs, rest))"
    using assms(2-5) unfolding encodes_def by simp_all
  then show ?thesis using True by auto
next
  case False
  let ?n = "length xs div 128" and ?xs = "take (128 * (length xs div 128)) xs"
  have "take 128 (drop (128 * j) ?xs) = take 128 (drop (128 * j) xs)" if "j < ?n" for j
    using that by (simp add: drop_take min_def mult.commute)
  then have "\<not> nonzero_blocks ?xs" using False by (simp add: nonzero_blocks_def list_all_iff)
  then have "widths (SIMDBlock_maxbits NoDelta_Delta) ?n (load_si128s ?xs) (mm_set1_epi32 0) = None"
    using nonzero_widths [OF length_take_blocks, of xs "mm_set1_epi32 0"] by (metis not_None_eq)
  moreover have "length (load_si128s ?xs) = 32 * ?n" using store_load [of ?xs "32 * ?n"] by simp
  ultimately have "pack_groups (SIMDBlock_maxbits NoDelta_Delta) (SIMDBlockPacker_packblock NoDelta_Delta)
      (load_si128s ?xs) (mm_set1_epi32 0) = None"
    by (rule no_delta.plain.groups_undefined [rotated])
  then show ?thesis using False assms(2,3)
    by (simp add: noDeltaCodec_encode_def SIMDComposite_encode_def SIMDBinaryPacking_encode_def Let_def
        checkifdivisibleby_def MiniBlockSize_def needPaddingTo128Bits_def mult.commute)
qed

theorem score_codec_defined_iff_witness:
  "(\<exists>ws. noDeltaCodec_encode 0 4 (length ws) (length ws) (replicate 128 5) = Some (Inr ws) \<and>
      noDeltaCodec_decode 8 0 (length (replicate 128 (5 :: u32))) (ws @ [7]) (length ws) (length (replicate 128 (5 :: u32))) =
        Some (Inr (replicate 128 5, [7]))) \<and>
    (\<forall>room nvalue. noDeltaCodec_encode 0 4 room nvalue (replicate 128 0) = None)"
  using score_codec_defined_iff [of "replicate 128 5" 0 4 8 0 "[7]"] score_codec_defined_iff [of "replicate 128 0" 0 4 8 0 "[7]"]
  by (simp add: nonzero_blocks_def list_ex_iff)

end
