(* ===== verification/SIMD_Unaligned.thy ===== *)
theory SIMD_Unaligned
  imports SIMD_Pack SIMD_Unpack
begin

text \<open>
  The routines of \<open>source/util/compression/simd-compression/usimdbitpacking.cpp\<close>, which load and store
  unaligned vectors. Each computes what its aligned counterpart computes.
\<close>

section \<open>The routines\<close>

definition uSIMD_nullunpacker32 :: "m128i list \<Rightarrow> m128i list" where
  "uSIMD_nullunpacker32 inp = replicate 32 (mm_set1_epi32 0)"

definition uSIMD_fastpackwithoutmask0 :: "m128i list \<Rightarrow> m128i list" where
  "uSIMD_fastpackwithoutmask0 inp =
    []"

definition uSIMD_fastpackwithoutmask1 :: "m128i list \<Rightarrow> m128i list" where
  "uSIMD_fastpackwithoutmask1 inp =
    [accum128 (inp ! 0)
       [mm_slli_epi32 (inp ! 1) 1, mm_slli_epi32 (inp ! 2) 2, mm_slli_epi32 (inp ! 3) 3,
        mm_slli_epi32 (inp ! 4) 4, mm_slli_epi32 (inp ! 5) 5, mm_slli_epi32 (inp ! 6) 6,
        mm_slli_epi32 (inp ! 7) 7, mm_slli_epi32 (inp ! 8) 8, mm_slli_epi32 (inp ! 9) 9,
        mm_slli_epi32 (inp ! 10) 10, mm_slli_epi32 (inp ! 11) 11, mm_slli_epi32 (inp ! 12) 12,
        mm_slli_epi32 (inp ! 13) 13, mm_slli_epi32 (inp ! 14) 14, mm_slli_epi32 (inp ! 15) 15,
        mm_slli_epi32 (inp ! 16) 16, mm_slli_epi32 (inp ! 17) 17, mm_slli_epi32 (inp ! 18) 18,
        mm_slli_epi32 (inp ! 19) 19, mm_slli_epi32 (inp ! 20) 20, mm_slli_epi32 (inp ! 21) 21,
        mm_slli_epi32 (inp ! 22) 22, mm_slli_epi32 (inp ! 23) 23, mm_slli_epi32 (inp ! 24) 24,
        mm_slli_epi32 (inp ! 25) 25, mm_slli_epi32 (inp ! 26) 26, mm_slli_epi32 (inp ! 27) 27,
        mm_slli_epi32 (inp ! 28) 28, mm_slli_epi32 (inp ! 29) 29, mm_slli_epi32 (inp ! 30) 30,
        mm_slli_epi32 (inp ! 31) 31]]"

definition uSIMD_fastpackwithoutmask2 :: "m128i list \<Rightarrow> m128i list" where
  "uSIMD_fastpackwithoutmask2 inp =
    [accum128 (inp ! 0)
       [mm_slli_epi32 (inp ! 1) 2, mm_slli_epi32 (inp ! 2) 4, mm_slli_epi32 (inp ! 3) 6,
        mm_slli_epi32 (inp ! 4) 8, mm_slli_epi32 (inp ! 5) 10, mm_slli_epi32 (inp ! 6) 12,
        mm_slli_epi32 (inp ! 7) 14, mm_slli_epi32 (inp ! 8) 16, mm_slli_epi32 (inp ! 9) 18,
        mm_slli_epi32 (inp ! 10) 20, mm_slli_epi32 (inp ! 11) 22, mm_slli_epi32 (inp ! 12) 24,
        mm_slli_epi32 (inp ! 13) 26, mm_slli_epi32 (inp ! 14) 28, mm_slli_epi32 (inp ! 15) 30],
     accum128 (inp ! 16)
       [mm_slli_epi32 (inp ! 17) 2, mm_slli_epi32 (inp ! 18) 4, mm_slli_epi32 (inp ! 19) 6,
        mm_slli_epi32 (inp ! 20) 8, mm_slli_epi32 (inp ! 21) 10, mm_slli_epi32 (inp ! 22) 12,
        mm_slli_epi32 (inp ! 23) 14, mm_slli_epi32 (inp ! 24) 16, mm_slli_epi32 (inp ! 25) 18,
        mm_slli_epi32 (inp ! 26) 20, mm_slli_epi32 (inp ! 27) 22, mm_slli_epi32 (inp ! 28) 24,
        mm_slli_epi32 (inp ! 29) 26, mm_slli_epi32 (inp ! 30) 28, mm_slli_epi32 (inp ! 31) 30]]"

definition uSIMD_fastpackwithoutmask3 :: "m128i list \<Rightarrow> m128i list" where
  "uSIMD_fastpackwithoutmask3 inp =
    [accum128 (inp ! 0)
       [mm_slli_epi32 (inp ! 1) 3, mm_slli_epi32 (inp ! 2) 6, mm_slli_epi32 (inp ! 3) 9,
        mm_slli_epi32 (inp ! 4) 12, mm_slli_epi32 (inp ! 5) 15, mm_slli_epi32 (inp ! 6) 18,
        mm_slli_epi32 (inp ! 7) 21, mm_slli_epi32 (inp ! 8) 24, mm_slli_epi32 (inp ! 9) 27,
        mm_slli_epi32 (inp ! 10) 30],
     accum128 (mm_srli_epi32 (inp ! 10) (3 - 1))
       [mm_slli_epi32 (inp ! 11) 1, mm_slli_epi32 (inp ! 12) 4, mm_slli_epi32 (inp ! 13) 7,
        mm_slli_epi32 (inp ! 14) 10, mm_slli_epi32 (inp ! 15) 13, mm_slli_epi32 (inp ! 16) 16,
        mm_slli_epi32 (inp ! 17) 19, mm_slli_epi32 (inp ! 18) 22, mm_slli_epi32 (inp ! 19) 25,
        mm_slli_epi32 (inp ! 20) 28, mm_slli_epi32 (inp ! 21) 31],
     accum128 (mm_srli_epi32 (inp ! 21) (3 - 2))
       [mm_slli_epi32 (inp ! 22) 2, mm_slli_epi32 (inp ! 23) 5, mm_slli_epi32 (inp ! 24) 8,
        mm_slli_epi32 (inp ! 25) 11, mm_slli_epi32 (inp ! 26) 14, mm_slli_epi32 (inp ! 27) 17,
        mm_slli_epi32 (inp ! 28) 20, mm_slli_epi32 (inp ! 29) 23, mm_slli_epi32 (inp ! 30) 26,
        mm_slli_epi32 (inp ! 31) 29]]"

definition uSIMD_fastpackwithoutmask4 :: "m128i list \<Rightarrow> m128i list" where
  "uSIMD_fastpackwithoutmask4 inp =
    concat (map (\<lambda>outer.
     [accum128 (inp ! (8 * outer))
       [mm_slli_epi32 (inp ! (8 * outer + 1)) 4, mm_slli_epi32 (inp ! (8 * outer + 2)) 8,
        mm_slli_epi32 (inp ! (8 * outer + 3)) 12, mm_slli_epi32 (inp ! (8 * outer + 4)) 16,
        mm_slli_epi32 (inp ! (8 * outer + 5)) 20, mm_slli_epi32 (inp ! (8 * outer + 6)) 24,
        mm_slli_epi32 (inp ! (8 * outer + 7)) 28]])
     [0..<4])"

definition uSIMD_fastpackwithoutmask5 :: "m128i list \<Rightarrow> m128i list" where
  "uSIMD_fastpackwithoutmask5 inp =
    [accum128 (inp ! 0)
       [mm_slli_epi32 (inp ! 1) 5, mm_slli_epi32 (inp ! 2) 10, mm_slli_epi32 (inp ! 3) 15,
        mm_slli_epi32 (inp ! 4) 20, mm_slli_epi32 (inp ! 5) 25, mm_slli_epi32 (inp ! 6) 30],
     accum128 (mm_srli_epi32 (inp ! 6) (5 - 3))
       [mm_slli_epi32 (inp ! 7) 3, mm_slli_epi32 (inp ! 8) 8, mm_slli_epi32 (inp ! 9) 13,
        mm_slli_epi32 (inp ! 10) 18, mm_slli_epi32 (inp ! 11) 23, mm_slli_epi32 (inp ! 12) 28],
     accum128 (mm_srli_epi32 (inp ! 12) (5 - 1))
       [mm_slli_epi32 (inp ! 13) 1, mm_slli_epi32 (inp ! 14) 6, mm_slli_epi32 (inp ! 15) 11,
        mm_slli_epi32 (inp ! 16) 16, mm_slli_epi32 (inp ! 17) 21, mm_slli_epi32 (inp ! 18) 26,
        mm_slli_epi32 (inp ! 19) 31],
     accum128 (mm_srli_epi32 (inp ! 19) (5 - 4))
       [mm_slli_epi32 (inp ! 20) 4, mm_slli_epi32 (inp ! 21) 9, mm_slli_epi32 (inp ! 22) 14,
        mm_slli_epi32 (inp ! 23) 19, mm_slli_epi32 (inp ! 24) 24, mm_slli_epi32 (inp ! 25) 29],
     accum128 (mm_srli_epi32 (inp ! 25) (5 - 2))
       [mm_slli_epi32 (inp ! 26) 2, mm_slli_epi32 (inp ! 27) 7, mm_slli_epi32 (inp ! 28) 12,
        mm_slli_epi32 (inp ! 29) 17, mm_slli_epi32 (inp ! 30) 22, mm_slli_epi32 (inp ! 31) 27]]"

definition uSIMD_fastpackwithoutmask6 :: "m128i list \<Rightarrow> m128i list" where
  "uSIMD_fastpackwithoutmask6 inp =
    [accum128 (inp ! 0)
       [mm_slli_epi32 (inp ! 1) 6, mm_slli_epi32 (inp ! 2) 12, mm_slli_epi32 (inp ! 3) 18,
        mm_slli_epi32 (inp ! 4) 24, mm_slli_epi32 (inp ! 5) 30],
     accum128 (mm_srli_epi32 (inp ! 5) (6 - 4))
       [mm_slli_epi32 (inp ! 6) 4, mm_slli_epi32 (inp ! 7) 10, mm_slli_epi32 (inp ! 8) 16,
        mm_slli_epi32 (inp ! 9) 22, mm_slli_epi32 (inp ! 10) 28],
     accum128 (mm_srli_epi32 (inp ! 10) (6 - 2))
       [mm_slli_epi32 (inp ! 11) 2, mm_slli_epi32 (inp ! 12) 8, mm_slli_epi32 (inp ! 13) 14,
        mm_slli_epi32 (inp ! 14) 20, mm_slli_epi32 (inp ! 15) 26],
     accum128 (inp ! 16)
       [mm_slli_epi32 (inp ! 17) 6, mm_slli_epi32 (inp ! 18) 12, mm_slli_epi32 (inp ! 19) 18,
        mm_slli_epi32 (inp ! 20) 24, mm_slli_epi32 (inp ! 21) 30],
     accum128 (mm_srli_epi32 (inp ! 21) (6 - 4))
       [mm_slli_epi32 (inp ! 22) 4, mm_slli_epi32 (inp ! 23) 10, mm_slli_epi32 (inp ! 24) 16,
        mm_slli_epi32 (inp ! 25) 22, mm_slli_epi32 (inp ! 26) 28],
     accum128 (mm_srli_epi32 (inp ! 26) (6 - 2))
       [mm_slli_epi32 (inp ! 27) 2, mm_slli_epi32 (inp ! 28) 8, mm_slli_epi32 (inp ! 29) 14,
        mm_slli_epi32 (inp ! 30) 20, mm_slli_epi32 (inp ! 31) 26]]"

definition uSIMD_fastpackwithoutmask7 :: "m128i list \<Rightarrow> m128i list" where
  "uSIMD_fastpackwithoutmask7 inp =
    [accum128 (inp ! 0)
       [mm_slli_epi32 (inp ! 1) 7, mm_slli_epi32 (inp ! 2) 14, mm_slli_epi32 (inp ! 3) 21,
        mm_slli_epi32 (inp ! 4) 28],
     accum128 (mm_srli_epi32 (inp ! 4) (7 - 3))
       [mm_slli_epi32 (inp ! 5) 3, mm_slli_epi32 (inp ! 6) 10, mm_slli_epi32 (inp ! 7) 17,
        mm_slli_epi32 (inp ! 8) 24, mm_slli_epi32 (inp ! 9) 31],
     accum128 (mm_srli_epi32 (inp ! 9) (7 - 6))
       [mm_slli_epi32 (inp ! 10) 6, mm_slli_epi32 (inp ! 11) 13, mm_slli_epi32 (inp ! 12) 20,
        mm_slli_epi32 (inp ! 13) 27],
     accum128 (mm_srli_epi32 (inp ! 13) (7 - 2))
       [mm_slli_epi32 (inp ! 14) 2, mm_slli_epi32 (inp ! 15) 9, mm_slli_epi32 (inp ! 16) 16,
        mm_slli_epi32 (inp ! 17) 23, mm_slli_epi32 (inp ! 18) 30],
     accum128 (mm_srli_epi32 (inp ! 18) (7 - 5))
       [mm_slli_epi32 (inp ! 19) 5, mm_slli_epi32 (inp ! 20) 12, mm_slli_epi32 (inp ! 21) 19,
        mm_slli_epi32 (inp ! 22) 26],
     accum128 (mm_srli_epi32 (inp ! 22) (7 - 1))
       [mm_slli_epi32 (inp ! 23) 1, mm_slli_epi32 (inp ! 24) 8, mm_slli_epi32 (inp ! 25) 15,
        mm_slli_epi32 (inp ! 26) 22, mm_slli_epi32 (inp ! 27) 29],
     accum128 (mm_srli_epi32 (inp ! 27) (7 - 4))
       [mm_slli_epi32 (inp ! 28) 4, mm_slli_epi32 (inp ! 29) 11, mm_slli_epi32 (inp ! 30) 18,
        mm_slli_epi32 (inp ! 31) 25]]"

definition uSIMD_fastpackwithoutmask8 :: "m128i list \<Rightarrow> m128i list" where
  "uSIMD_fastpackwithoutmask8 inp =
    concat (map (\<lambda>outer.
     [accum128 (inp ! (4 * outer))
       [mm_slli_epi32 (inp ! (4 * outer + 1)) 8, mm_slli_epi32 (inp ! (4 * outer + 2)) 16,
        mm_slli_epi32 (inp ! (4 * outer + 3)) 24]])
     [0..<8])"

definition uSIMD_fastpackwithoutmask9 :: "m128i list \<Rightarrow> m128i list" where
  "uSIMD_fastpackwithoutmask9 inp =
    [accum128 (inp ! 0)
       [mm_slli_epi32 (inp ! 1) 9, mm_slli_epi32 (inp ! 2) 18, mm_slli_epi32 (inp ! 3) 27],
     accum128 (mm_srli_epi32 (inp ! 3) (9 - 4))
       [mm_slli_epi32 (inp ! 4) 4, mm_slli_epi32 (inp ! 5) 13, mm_slli_epi32 (inp ! 6) 22,
        mm_slli_epi32 (inp ! 7) 31],
     accum128 (mm_srli_epi32 (inp ! 7) (9 - 8))
       [mm_slli_epi32 (inp ! 8) 8, mm_slli_epi32 (inp ! 9) 17, mm_slli_epi32 (inp ! 10) 26],
     accum128 (mm_srli_epi32 (inp ! 10) (9 - 3))
       [mm_slli_epi32 (inp ! 11) 3, mm_slli_epi32 (inp ! 12) 12, mm_slli_epi32 (inp ! 13) 21,
        mm_slli_epi32 (inp ! 14) 30],
     accum128 (mm_srli_epi32 (inp ! 14) (9 - 7))
       [mm_slli_epi32 (inp ! 15) 7, mm_slli_epi32 (inp ! 16) 16, mm_slli_epi32 (inp ! 17) 25],
     accum128 (mm_srli_epi32 (inp ! 17) (9 - 2))
       [mm_slli_epi32 (inp ! 18) 2, mm_slli_epi32 (inp ! 19) 11, mm_slli_epi32 (inp ! 20) 20,
        mm_slli_epi32 (inp ! 21) 29],
     accum128 (mm_srli_epi32 (inp ! 21) (9 - 6))
       [mm_slli_epi32 (inp ! 22) 6, mm_slli_epi32 (inp ! 23) 15, mm_slli_epi32 (inp ! 24) 24],
     accum128 (mm_srli_epi32 (inp ! 24) (9 - 1))
       [mm_slli_epi32 (inp ! 25) 1, mm_slli_epi32 (inp ! 26) 10, mm_slli_epi32 (inp ! 27) 19,
        mm_slli_epi32 (inp ! 28) 28],
     accum128 (mm_srli_epi32 (inp ! 28) (9 - 5))
       [mm_slli_epi32 (inp ! 29) 5, mm_slli_epi32 (inp ! 30) 14, mm_slli_epi32 (inp ! 31) 23]]"

definition uSIMD_fastpackwithoutmask10 :: "m128i list \<Rightarrow> m128i list" where
  "uSIMD_fastpackwithoutmask10 inp =
    [accum128 (inp ! 0)
       [mm_slli_epi32 (inp ! 1) 10, mm_slli_epi32 (inp ! 2) 20, mm_slli_epi32 (inp ! 3) 30],
     accum128 (mm_srli_epi32 (inp ! 3) (10 - 8))
       [mm_slli_epi32 (inp ! 4) 8, mm_slli_epi32 (inp ! 5) 18, mm_slli_epi32 (inp ! 6) 28],
     accum128 (mm_srli_epi32 (inp ! 6) (10 - 6))
       [mm_slli_epi32 (inp ! 7) 6, mm_slli_epi32 (inp ! 8) 16, mm_slli_epi32 (inp ! 9) 26],
     accum128 (mm_srli_epi32 (inp ! 9) (10 - 4))
       [mm_slli_epi32 (inp ! 10) 4, mm_slli_epi32 (inp ! 11) 14, mm_slli_epi32 (inp ! 12) 24],
     accum128 (mm_srli_epi32 (inp ! 12) (10 - 2))
       [mm_slli_epi32 (inp ! 13) 2, mm_slli_epi32 (inp ! 14) 12, mm_slli_epi32 (inp ! 15) 22],
     accum128 (inp ! 16)
       [mm_slli_epi32 (inp ! 17) 10, mm_slli_epi32 (inp ! 18) 20, mm_slli_epi32 (inp ! 19) 30],
     accum128 (mm_srli_epi32 (inp ! 19) (10 - 8))
       [mm_slli_epi32 (inp ! 20) 8, mm_slli_epi32 (inp ! 21) 18, mm_slli_epi32 (inp ! 22) 28],
     accum128 (mm_srli_epi32 (inp ! 22) (10 - 6))
       [mm_slli_epi32 (inp ! 23) 6, mm_slli_epi32 (inp ! 24) 16, mm_slli_epi32 (inp ! 25) 26],
     accum128 (mm_srli_epi32 (inp ! 25) (10 - 4))
       [mm_slli_epi32 (inp ! 26) 4, mm_slli_epi32 (inp ! 27) 14, mm_slli_epi32 (inp ! 28) 24],
     accum128 (mm_srli_epi32 (inp ! 28) (10 - 2))
       [mm_slli_epi32 (inp ! 29) 2, mm_slli_epi32 (inp ! 30) 12, mm_slli_epi32 (inp ! 31) 22]]"

definition uSIMD_fastpackwithoutmask11 :: "m128i list \<Rightarrow> m128i list" where
  "uSIMD_fastpackwithoutmask11 inp =
    [accum128 (inp ! 0)
       [mm_slli_epi32 (inp ! 1) 11, mm_slli_epi32 (inp ! 2) 22],
     accum128 (mm_srli_epi32 (inp ! 2) (11 - 1))
       [mm_slli_epi32 (inp ! 3) 1, mm_slli_epi32 (inp ! 4) 12, mm_slli_epi32 (inp ! 5) 23],
     accum128 (mm_srli_epi32 (inp ! 5) (11 - 2))
       [mm_slli_epi32 (inp ! 6) 2, mm_slli_epi32 (inp ! 7) 13, mm_slli_epi32 (inp ! 8) 24],
     accum128 (mm_srli_epi32 (inp ! 8) (11 - 3))
       [mm_slli_epi32 (inp ! 9) 3, mm_slli_epi32 (inp ! 10) 14, mm_slli_epi32 (inp ! 11) 25],
     accum128 (mm_srli_epi32 (inp ! 11) (11 - 4))
       [mm_slli_epi32 (inp ! 12) 4, mm_slli_epi32 (inp ! 13) 15, mm_slli_epi32 (inp ! 14) 26],
     accum128 (mm_srli_epi32 (inp ! 14) (11 - 5))
       [mm_slli_epi32 (inp ! 15) 5, mm_slli_epi32 (inp ! 16) 16, mm_slli_epi32 (inp ! 17) 27],
     accum128 (mm_srli_epi32 (inp ! 17) (11 - 6))
       [mm_slli_epi32 (inp ! 18) 6, mm_slli_epi32 (inp ! 19) 17, mm_slli_epi32 (inp ! 20) 28],
     accum128 (mm_srli_epi32 (inp ! 20) (11 - 7))
       [mm_slli_epi32 (inp ! 21) 7, mm_slli_epi32 (inp ! 22) 18, mm_slli_epi32 (inp ! 23) 29],
     accum128 (mm_srli_epi32 (inp ! 23) (11 - 8))
       [mm_slli_epi32 (inp ! 24) 8, mm_slli_epi32 (inp ! 25) 19, mm_slli_epi32 (inp ! 26) 30],
     accum128 (mm_srli_epi32 (inp ! 26) (11 - 9))
       [mm_slli_epi32 (inp ! 27) 9, mm_slli_epi32 (inp ! 28) 20, mm_slli_epi32 (inp ! 29) 31],
     accum128 (mm_srli_epi32 (inp ! 29) (11 - 10))
       [mm_slli_epi32 (inp ! 30) 10, mm_slli_epi32 (inp ! 31) 21]]"

definition uSIMD_fastpackwithoutmask12 :: "m128i list \<Rightarrow> m128i list" where
  "uSIMD_fastpackwithoutmask12 inp =
    [accum128 (inp ! 0)
       [mm_slli_epi32 (inp ! 1) 12, mm_slli_epi32 (inp ! 2) 24],
     accum128 (mm_srli_epi32 (inp ! 2) (12 - 4))
       [mm_slli_epi32 (inp ! 3) 4, mm_slli_epi32 (inp ! 4) 16, mm_slli_epi32 (inp ! 5) 28],
     accum128 (mm_srli_epi32 (inp ! 5) (12 - 8))
       [mm_slli_epi32 (inp ! 6) 8, mm_slli_epi32 (inp ! 7) 20],
     accum128 (inp ! 8)
       [mm_slli_epi32 (inp ! 9) 12, mm_slli_epi32 (inp ! 10) 24],
     accum128 (mm_srli_epi32 (inp ! 10) (12 - 4))
       [mm_slli_epi32 (inp ! 11) 4, mm_slli_epi32 (inp ! 12) 16, mm_slli_epi32 (inp ! 13) 28],
     accum128 (mm_srli_epi32 (inp ! 13) (12 - 8))
       [mm_slli_epi32 (inp ! 14) 8, mm_slli_epi32 (inp ! 15) 20],
     accum128 (inp ! 16)
       [mm_slli_epi32 (inp ! 17) 12, mm_slli_epi32 (inp ! 18) 24],
     accum128 (mm_srli_epi32 (inp ! 18) (12 - 4))
       [mm_slli_epi32 (inp ! 19) 4, mm_slli_epi32 (inp ! 20) 16, mm_slli_epi32 (inp ! 21) 28],
     accum128 (mm_srli_epi32 (inp ! 21) (12 - 8))
       [mm_slli_epi32 (inp ! 22) 8, mm_slli_epi32 (inp ! 23) 20],
     accum128 (inp ! 24)
       [mm_slli_epi32 (inp ! 25) 12, mm_slli_epi32 (inp ! 26) 24],
     accum128 (mm_srli_epi32 (inp ! 26) (12 - 4))
       [mm_slli_epi32 (inp ! 27) 4, mm_slli_epi32 (inp ! 28) 16, mm_slli_epi32 (inp ! 29) 28],
     accum128 (mm_srli_epi32 (inp ! 29) (12 - 8))
       [mm_slli_epi32 (inp ! 30) 8, mm_slli_epi32 (inp ! 31) 20]]"

definition uSIMD_fastpackwithoutmask13 :: "m128i list \<Rightarrow> m128i list" where
  "uSIMD_fastpackwithoutmask13 inp =
    [accum128 (inp ! 0)
       [mm_slli_epi32 (inp ! 1) 13, mm_slli_epi32 (inp ! 2) 26],
     accum128 (mm_srli_epi32 (inp ! 2) (13 - 7))
       [mm_slli_epi32 (inp ! 3) 7, mm_slli_epi32 (inp ! 4) 20],
     accum128 (mm_srli_epi32 (inp ! 4) (13 - 1))
       [mm_slli_epi32 (inp ! 5) 1, mm_slli_epi32 (inp ! 6) 14, mm_slli_epi32 (inp ! 7) 27],
     accum128 (mm_srli_epi32 (inp ! 7) (13 - 8))
       [mm_slli_epi32 (inp ! 8) 8, mm_slli_epi32 (inp ! 9) 21],
     accum128 (mm_srli_epi32 (inp ! 9) (13 - 2))
       [mm_slli_epi32 (inp ! 10) 2, mm_slli_epi32 (inp ! 11) 15, mm_slli_epi32 (inp ! 12) 28],
     accum128 (mm_srli_epi32 (inp ! 12) (13 - 9))
       [mm_slli_epi32 (inp ! 13) 9, mm_slli_epi32 (inp ! 14) 22],
     accum128 (mm_srli_epi32 (inp ! 14) (13 - 3))
       [mm_slli_epi32 (inp ! 15) 3, mm_slli_epi32 (inp ! 16) 16, mm_slli_epi32 (inp ! 17) 29],
     accum128 (mm_srli_epi32 (inp ! 17) (13 - 10))
       [mm_slli_epi32 (inp ! 18) 10, mm_slli_epi32 (inp ! 19) 23],
     accum128 (mm_srli_epi32 (inp ! 19) (13 - 4))
       [mm_slli_epi32 (inp ! 20) 4, mm_slli_epi32 (inp ! 21) 17, mm_slli_epi32 (inp ! 22) 30],
     accum128 (mm_srli_epi32 (inp ! 22) (13 - 11))
       [mm_slli_epi32 (inp ! 23) 11, mm_slli_epi32 (inp ! 24) 24],
     accum128 (mm_srli_epi32 (inp ! 24) (13 - 5))
       [mm_slli_epi32 (inp ! 25) 5, mm_slli_epi32 (inp ! 26) 18, mm_slli_epi32 (inp ! 27) 31],
     accum128 (mm_srli_epi32 (inp ! 27) (13 - 12))
       [mm_slli_epi32 (inp ! 28) 12, mm_slli_epi32 (inp ! 29) 25],
     accum128 (mm_srli_epi32 (inp ! 29) (13 - 6))
       [mm_slli_epi32 (inp ! 30) 6, mm_slli_epi32 (inp ! 31) 19]]"

definition uSIMD_fastpackwithoutmask14 :: "m128i list \<Rightarrow> m128i list" where
  "uSIMD_fastpackwithoutmask14 inp =
    [accum128 (inp ! 0)
       [mm_slli_epi32 (inp ! 1) 14, mm_slli_epi32 (inp ! 2) 28],
     accum128 (mm_srli_epi32 (inp ! 2) (14 - 10))
       [mm_slli_epi32 (inp ! 3) 10, mm_slli_epi32 (inp ! 4) 24],
     accum128 (mm_srli_epi32 (inp ! 4) (14 - 6))
       [mm_slli_epi32 (inp ! 5) 6, mm_slli_epi32 (inp ! 6) 20],
     accum128 (mm_srli_epi32 (inp ! 6) (14 - 2))
       [mm_slli_epi32 (inp ! 7) 2, mm_slli_epi32 (inp ! 8) 16, mm_slli_epi32 (inp ! 9) 30],
     accum128 (mm_srli_epi32 (inp ! 9) (14 - 12))
       [mm_slli_epi32 (inp ! 10) 12, mm_slli_epi32 (inp ! 11) 26],
     accum128 (mm_srli_epi32 (inp ! 11) (14 - 8))
       [mm_slli_epi32 (inp ! 12) 8, mm_slli_epi32 (inp ! 13) 22],
     accum128 (mm_srli_epi32 (inp ! 13) (14 - 4))
       [mm_slli_epi32 (inp ! 14) 4, mm_slli_epi32 (inp ! 15) 18],
     accum128 (inp ! 16)
       [mm_slli_epi32 (inp ! 17) 14, mm_slli_epi32 (inp ! 18) 28],
     accum128 (mm_srli_epi32 (inp ! 18) (14 - 10))
       [mm_slli_epi32 (inp ! 19) 10, mm_slli_epi32 (inp ! 20) 24],
     accum128 (mm_srli_epi32 (inp ! 20) (14 - 6))
       [mm_slli_epi32 (inp ! 21) 6, mm_slli_epi32 (inp ! 22) 20],
     accum128 (mm_srli_epi32 (inp ! 22) (14 - 2))
       [mm_slli_epi32 (inp ! 23) 2, mm_slli_epi32 (inp ! 24) 16, mm_slli_epi32 (inp ! 25) 30],
     accum128 (mm_srli_epi32 (inp ! 25) (14 - 12))
       [mm_slli_epi32 (inp ! 26) 12, mm_slli_epi32 (inp ! 27) 26],
     accum128 (mm_srli_epi32 (inp ! 27) (14 - 8))
       [mm_slli_epi32 (inp ! 28) 8, mm_slli_epi32 (inp ! 29) 22],
     accum128 (mm_srli_epi32 (inp ! 29) (14 - 4))
       [mm_slli_epi32 (inp ! 30) 4, mm_slli_epi32 (inp ! 31) 18]]"

definition uSIMD_fastpackwithoutmask15 :: "m128i list \<Rightarrow> m128i list" where
  "uSIMD_fastpackwithoutmask15 inp =
    [accum128 (inp ! 0)
       [mm_slli_epi32 (inp ! 1) 15, mm_slli_epi32 (inp ! 2) 30],
     accum128 (mm_srli_epi32 (inp ! 2) (15 - 13))
       [mm_slli_epi32 (inp ! 3) 13, mm_slli_epi32 (inp ! 4) 28],
     accum128 (mm_srli_epi32 (inp ! 4) (15 - 11))
       [mm_slli_epi32 (inp ! 5) 11, mm_slli_epi32 (inp ! 6) 26],
     accum128 (mm_srli_epi32 (inp ! 6) (15 - 9))
       [mm_slli_epi32 (inp ! 7) 9, mm_slli_epi32 (inp ! 8) 24],
     accum128 (mm_srli_epi32 (inp ! 8) (15 - 7))
       [mm_slli_epi32 (inp ! 9) 7, mm_slli_epi32 (inp ! 10) 22],
     accum128 (mm_srli_epi32 (inp ! 10) (15 - 5))
       [mm_slli_epi32 (inp ! 11) 5, mm_slli_epi32 (inp ! 12) 20],
     accum128 (mm_srli_epi32 (inp ! 12) (15 - 3))
       [mm_slli_epi32 (inp ! 13) 3, mm_slli_epi32 (inp ! 14) 18],
     accum128 (mm_srli_epi32 (inp ! 14) (15 - 1))
       [mm_slli_epi32 (inp ! 15) 1, mm_slli_epi32 (inp ! 16) 16, mm_slli_epi32 (inp ! 17) 31],
     accum128 (mm_srli_epi32 (inp ! 17) (15 - 14))
       [mm_slli_epi32 (inp ! 18) 14, mm_slli_epi32 (inp ! 19) 29],
     accum128 (mm_srli_epi32 (inp ! 19) (15 - 12))
       [mm_slli_epi32 (inp ! 20) 12, mm_slli_epi32 (inp ! 21) 27],
     accum128 (mm_srli_epi32 (inp ! 21) (15 - 10))
       [mm_slli_epi32 (inp ! 22) 10, mm_slli_epi32 (inp ! 23) 25],
     accum128 (mm_srli_epi32 (inp ! 23) (15 - 8))
       [mm_slli_epi32 (inp ! 24) 8, mm_slli_epi32 (inp ! 25) 23],
     accum128 (mm_srli_epi32 (inp ! 25) (15 - 6))
       [mm_slli_epi32 (inp ! 26) 6, mm_slli_epi32 (inp ! 27) 21],
     accum128 (mm_srli_epi32 (inp ! 27) (15 - 4))
       [mm_slli_epi32 (inp ! 28) 4, mm_slli_epi32 (inp ! 29) 19],
     accum128 (mm_srli_epi32 (inp ! 29) (15 - 2))
       [mm_slli_epi32 (inp ! 30) 2, mm_slli_epi32 (inp ! 31) 17]]"

definition uSIMD_fastpackwithoutmask16 :: "m128i list \<Rightarrow> m128i list" where
  "uSIMD_fastpackwithoutmask16 inp =
    concat (map (\<lambda>outer.
     [accum128 (inp ! (2 * outer))
       [mm_slli_epi32 (inp ! (2 * outer + 1)) 16]])
     [0..<16])"

definition uSIMD_fastpackwithoutmask17 :: "m128i list \<Rightarrow> m128i list" where
  "uSIMD_fastpackwithoutmask17 inp =
    [accum128 (inp ! 0)
       [mm_slli_epi32 (inp ! 1) 17],
     accum128 (mm_srli_epi32 (inp ! 1) (17 - 2))
       [mm_slli_epi32 (inp ! 2) 2, mm_slli_epi32 (inp ! 3) 19],
     accum128 (mm_srli_epi32 (inp ! 3) (17 - 4))
       [mm_slli_epi32 (inp ! 4) 4, mm_slli_epi32 (inp ! 5) 21],
     accum128 (mm_srli_epi32 (inp ! 5) (17 - 6))
       [mm_slli_epi32 (inp ! 6) 6, mm_slli_epi32 (inp ! 7) 23],
     accum128 (mm_srli_epi32 (inp ! 7) (17 - 8))
       [mm_slli_epi32 (inp ! 8) 8, mm_slli_epi32 (inp ! 9) 25],
     accum128 (mm_srli_epi32 (inp ! 9) (17 - 10))
       [mm_slli_epi32 (inp ! 10) 10, mm_slli_epi32 (inp ! 11) 27],
     accum128 (mm_srli_epi32 (inp ! 11) (17 - 12))
       [mm_slli_epi32 (inp ! 12) 12, mm_slli_epi32 (inp ! 13) 29],
     accum128 (mm_srli_epi32 (inp ! 13) (17 - 14))
       [mm_slli_epi32 (inp ! 14) 14, mm_slli_epi32 (inp ! 15) 31],
     accum128 (mm_srli_epi32 (inp ! 15) (17 - 16))
       [mm_slli_epi32 (inp ! 16) 16],
     accum128 (mm_srli_epi32 (inp ! 16) (17 - 1))
       [mm_slli_epi32 (inp ! 17) 1, mm_slli_epi32 (inp ! 18) 18],
     accum128 (mm_srli_epi32 (inp ! 18) (17 - 3))
       [mm_slli_epi32 (inp ! 19) 3, mm_slli_epi32 (inp ! 20) 20],
     accum128 (mm_srli_epi32 (inp ! 20) (17 - 5))
       [mm_slli_epi32 (inp ! 21) 5, mm_slli_epi32 (inp ! 22) 22],
     accum128 (mm_srli_epi32 (inp ! 22) (17 - 7))
       [mm_slli_epi32 (inp ! 23) 7, mm_slli_epi32 (inp ! 24) 24],
     accum128 (mm_srli_epi32 (inp ! 24) (17 - 9))
       [mm_slli_epi32 (inp ! 25) 9, mm_slli_epi32 (inp ! 26) 26],
     accum128 (mm_srli_epi32 (inp ! 26) (17 - 11))
       [mm_slli_epi32 (inp ! 27) 11, mm_slli_epi32 (inp ! 28) 28],
     accum128 (mm_srli_epi32 (inp ! 28) (17 - 13))
       [mm_slli_epi32 (inp ! 29) 13, mm_slli_epi32 (inp ! 30) 30],
     accum128 (mm_srli_epi32 (inp ! 30) (17 - 15))
       [mm_slli_epi32 (inp ! 31) 15]]"

definition uSIMD_fastpackwithoutmask18 :: "m128i list \<Rightarrow> m128i list" where
  "uSIMD_fastpackwithoutmask18 inp =
    [accum128 (inp ! 0)
       [mm_slli_epi32 (inp ! 1) 18],
     accum128 (mm_srli_epi32 (inp ! 1) (18 - 4))
       [mm_slli_epi32 (inp ! 2) 4, mm_slli_epi32 (inp ! 3) 22],
     accum128 (mm_srli_epi32 (inp ! 3) (18 - 8))
       [mm_slli_epi32 (inp ! 4) 8, mm_slli_epi32 (inp ! 5) 26],
     accum128 (mm_srli_epi32 (inp ! 5) (18 - 12))
       [mm_slli_epi32 (inp ! 6) 12, mm_slli_epi32 (inp ! 7) 30],
     accum128 (mm_srli_epi32 (inp ! 7) (18 - 16))
       [mm_slli_epi32 (inp ! 8) 16],
     accum128 (mm_srli_epi32 (inp ! 8) (18 - 2))
       [mm_slli_epi32 (inp ! 9) 2, mm_slli_epi32 (inp ! 10) 20],
     accum128 (mm_srli_epi32 (inp ! 10) (18 - 6))
       [mm_slli_epi32 (inp ! 11) 6, mm_slli_epi32 (inp ! 12) 24],
     accum128 (mm_srli_epi32 (inp ! 12) (18 - 10))
       [mm_slli_epi32 (inp ! 13) 10, mm_slli_epi32 (inp ! 14) 28],
     accum128 (mm_srli_epi32 (inp ! 14) (18 - 14))
       [mm_slli_epi32 (inp ! 15) 14],
     accum128 (inp ! 16)
       [mm_slli_epi32 (inp ! 17) 18],
     accum128 (mm_srli_epi32 (inp ! 17) (18 - 4))
       [mm_slli_epi32 (inp ! 18) 4, mm_slli_epi32 (inp ! 19) 22],
     accum128 (mm_srli_epi32 (inp ! 19) (18 - 8))
       [mm_slli_epi32 (inp ! 20) 8, mm_slli_epi32 (inp ! 21) 26],
     accum128 (mm_srli_epi32 (inp ! 21) (18 - 12))
       [mm_slli_epi32 (inp ! 22) 12, mm_slli_epi32 (inp ! 23) 30],
     accum128 (mm_srli_epi32 (inp ! 23) (18 - 16))
       [mm_slli_epi32 (inp ! 24) 16],
     accum128 (mm_srli_epi32 (inp ! 24) (18 - 2))
       [mm_slli_epi32 (inp ! 25) 2, mm_slli_epi32 (inp ! 26) 20],
     accum128 (mm_srli_epi32 (inp ! 26) (18 - 6))
       [mm_slli_epi32 (inp ! 27) 6, mm_slli_epi32 (inp ! 28) 24],
     accum128 (mm_srli_epi32 (inp ! 28) (18 - 10))
       [mm_slli_epi32 (inp ! 29) 10, mm_slli_epi32 (inp ! 30) 28],
     accum128 (mm_srli_epi32 (inp ! 30) (18 - 14))
       [mm_slli_epi32 (inp ! 31) 14]]"

definition uSIMD_fastpackwithoutmask19 :: "m128i list \<Rightarrow> m128i list" where
  "uSIMD_fastpackwithoutmask19 inp =
    [accum128 (inp ! 0)
       [mm_slli_epi32 (inp ! 1) 19],
     accum128 (mm_srli_epi32 (inp ! 1) (19 - 6))
       [mm_slli_epi32 (inp ! 2) 6, mm_slli_epi32 (inp ! 3) 25],
     accum128 (mm_srli_epi32 (inp ! 3) (19 - 12))
       [mm_slli_epi32 (inp ! 4) 12, mm_slli_epi32 (inp ! 5) 31],
     accum128 (mm_srli_epi32 (inp ! 5) (19 - 18))
       [mm_slli_epi32 (inp ! 6) 18],
     accum128 (mm_srli_epi32 (inp ! 6) (19 - 5))
       [mm_slli_epi32 (inp ! 7) 5, mm_slli_epi32 (inp ! 8) 24],
     accum128 (mm_srli_epi32 (inp ! 8) (19 - 11))
       [mm_slli_epi32 (inp ! 9) 11, mm_slli_epi32 (inp ! 10) 30],
     accum128 (mm_srli_epi32 (inp ! 10) (19 - 17))
       [mm_slli_epi32 (inp ! 11) 17],
     accum128 (mm_srli_epi32 (inp ! 11) (19 - 4))
       [mm_slli_epi32 (inp ! 12) 4, mm_slli_epi32 (inp ! 13) 23],
     accum128 (mm_srli_epi32 (inp ! 13) (19 - 10))
       [mm_slli_epi32 (inp ! 14) 10, mm_slli_epi32 (inp ! 15) 29],
     accum128 (mm_srli_epi32 (inp ! 15) (19 - 16))
       [mm_slli_epi32 (inp ! 16) 16],
     accum128 (mm_srli_epi32 (inp ! 16) (19 - 3))
       [mm_slli_epi32 (inp ! 17) 3, mm_slli_epi32 (inp ! 18) 22],
     accum128 (mm_srli_epi32 (inp ! 18) (19 - 9))
       [mm_slli_epi32 (inp ! 19) 9, mm_slli_epi32 (inp ! 20) 28],
     accum128 (mm_srli_epi32 (inp ! 20) (19 - 15))
       [mm_slli_epi32 (inp ! 21) 15],
     accum128 (mm_srli_epi32 (inp ! 21) (19 - 2))
       [mm_slli_epi32 (inp ! 22) 2, mm_slli_epi32 (inp ! 23) 21],
     accum128 (mm_srli_epi32 (inp ! 23) (19 - 8))
       [mm_slli_epi32 (inp ! 24) 8, mm_slli_epi32 (inp ! 25) 27],
     accum128 (mm_srli_epi32 (inp ! 25) (19 - 14))
       [mm_slli_epi32 (inp ! 26) 14],
     accum128 (mm_srli_epi32 (inp ! 26) (19 - 1))
       [mm_slli_epi32 (inp ! 27) 1, mm_slli_epi32 (inp ! 28) 20],
     accum128 (mm_srli_epi32 (inp ! 28) (19 - 7))
       [mm_slli_epi32 (inp ! 29) 7, mm_slli_epi32 (inp ! 30) 26],
     accum128 (mm_srli_epi32 (inp ! 30) (19 - 13))
       [mm_slli_epi32 (inp ! 31) 13]]"

definition uSIMD_fastpackwithoutmask20 :: "m128i list \<Rightarrow> m128i list" where
  "uSIMD_fastpackwithoutmask20 inp =
    [accum128 (inp ! 0)
       [mm_slli_epi32 (inp ! 1) 20],
     accum128 (mm_srli_epi32 (inp ! 1) (20 - 8))
       [mm_slli_epi32 (inp ! 2) 8, mm_slli_epi32 (inp ! 3) 28],
     accum128 (mm_srli_epi32 (inp ! 3) (20 - 16))
       [mm_slli_epi32 (inp ! 4) 16],
     accum128 (mm_srli_epi32 (inp ! 4) (20 - 4))
       [mm_slli_epi32 (inp ! 5) 4, mm_slli_epi32 (inp ! 6) 24],
     accum128 (mm_srli_epi32 (inp ! 6) (20 - 12))
       [mm_slli_epi32 (inp ! 7) 12],
     accum128 (inp ! 8)
       [mm_slli_epi32 (inp ! 9) 20],
     accum128 (mm_srli_epi32 (inp ! 9) (20 - 8))
       [mm_slli_epi32 (inp ! 10) 8, mm_slli_epi32 (inp ! 11) 28],
     accum128 (mm_srli_epi32 (inp ! 11) (20 - 16))
       [mm_slli_epi32 (inp ! 12) 16],
     accum128 (mm_srli_epi32 (inp ! 12) (20 - 4))
       [mm_slli_epi32 (inp ! 13) 4, mm_slli_epi32 (inp ! 14) 24],
     accum128 (mm_srli_epi32 (inp ! 14) (20 - 12))
       [mm_slli_epi32 (inp ! 15) 12],
     accum128 (inp ! 16)
       [mm_slli_epi32 (inp ! 17) 20],
     accum128 (mm_srli_epi32 (inp ! 17) (20 - 8))
       [mm_slli_epi32 (inp ! 18) 8, mm_slli_epi32 (inp ! 19) 28],
     accum128 (mm_srli_epi32 (inp ! 19) (20 - 16))
       [mm_slli_epi32 (inp ! 20) 16],
     accum128 (mm_srli_epi32 (inp ! 20) (20 - 4))
       [mm_slli_epi32 (inp ! 21) 4, mm_slli_epi32 (inp ! 22) 24],
     accum128 (mm_srli_epi32 (inp ! 22) (20 - 12))
       [mm_slli_epi32 (inp ! 23) 12],
     accum128 (inp ! 24)
       [mm_slli_epi32 (inp ! 25) 20],
     accum128 (mm_srli_epi32 (inp ! 25) (20 - 8))
       [mm_slli_epi32 (inp ! 26) 8, mm_slli_epi32 (inp ! 27) 28],
     accum128 (mm_srli_epi32 (inp ! 27) (20 - 16))
       [mm_slli_epi32 (inp ! 28) 16],
     accum128 (mm_srli_epi32 (inp ! 28) (20 - 4))
       [mm_slli_epi32 (inp ! 29) 4, mm_slli_epi32 (inp ! 30) 24],
     accum128 (mm_srli_epi32 (inp ! 30) (20 - 12))
       [mm_slli_epi32 (inp ! 31) 12]]"

definition uSIMD_fastpackwithoutmask21 :: "m128i list \<Rightarrow> m128i list" where
  "uSIMD_fastpackwithoutmask21 inp =
    [accum128 (inp ! 0)
       [mm_slli_epi32 (inp ! 1) 21],
     accum128 (mm_srli_epi32 (inp ! 1) (21 - 10))
       [mm_slli_epi32 (inp ! 2) 10, mm_slli_epi32 (inp ! 3) 31],
     accum128 (mm_srli_epi32 (inp ! 3) (21 - 20))
       [mm_slli_epi32 (inp ! 4) 20],
     accum128 (mm_srli_epi32 (inp ! 4) (21 - 9))
       [mm_slli_epi32 (inp ! 5) 9, mm_slli_epi32 (inp ! 6) 30],
     accum128 (mm_srli_epi32 (inp ! 6) (21 - 19))
       [mm_slli_epi32 (inp ! 7) 19],
     accum128 (mm_srli_epi32 (inp ! 7) (21 - 8))
       [mm_slli_epi32 (inp ! 8) 8, mm_slli_epi32 (inp ! 9) 29],
     accum128 (mm_srli_epi32 (inp ! 9) (21 - 18))
       [mm_slli_epi32 (inp ! 10) 18],
     accum128 (mm_srli_epi32 (inp ! 10) (21 - 7))
       [mm_slli_epi32 (inp ! 11) 7, mm_slli_epi32 (inp ! 12) 28],
     accum128 (mm_srli_epi32 (inp ! 12) (21 - 17))
       [mm_slli_epi32 (inp ! 13) 17],
     accum128 (mm_srli_epi32 (inp ! 13) (21 - 6))
       [mm_slli_epi32 (inp ! 14) 6, mm_slli_epi32 (inp ! 15) 27],
     accum128 (mm_srli_epi32 (inp ! 15) (21 - 16))
       [mm_slli_epi32 (inp ! 16) 16],
     accum128 (mm_srli_epi32 (inp ! 16) (21 - 5))
       [mm_slli_epi32 (inp ! 17) 5, mm_slli_epi32 (inp ! 18) 26],
     accum128 (mm_srli_epi32 (inp ! 18) (21 - 15))
       [mm_slli_epi32 (inp ! 19) 15],
     accum128 (mm_srli_epi32 (inp ! 19) (21 - 4))
       [mm_slli_epi32 (inp ! 20) 4, mm_slli_epi32 (inp ! 21) 25],
     accum128 (mm_srli_epi32 (inp ! 21) (21 - 14))
       [mm_slli_epi32 (inp ! 22) 14],
     accum128 (mm_srli_epi32 (inp ! 22) (21 - 3))
       [mm_slli_epi32 (inp ! 23) 3, mm_slli_epi32 (inp ! 24) 24],
     accum128 (mm_srli_epi32 (inp ! 24) (21 - 13))
       [mm_slli_epi32 (inp ! 25) 13],
     accum128 (mm_srli_epi32 (inp ! 25) (21 - 2))
       [mm_slli_epi32 (inp ! 26) 2, mm_slli_epi32 (inp ! 27) 23],
     accum128 (mm_srli_epi32 (inp ! 27) (21 - 12))
       [mm_slli_epi32 (inp ! 28) 12],
     accum128 (mm_srli_epi32 (inp ! 28) (21 - 1))
       [mm_slli_epi32 (inp ! 29) 1, mm_slli_epi32 (inp ! 30) 22],
     accum128 (mm_srli_epi32 (inp ! 30) (21 - 11))
       [mm_slli_epi32 (inp ! 31) 11]]"

definition uSIMD_fastpackwithoutmask22 :: "m128i list \<Rightarrow> m128i list" where
  "uSIMD_fastpackwithoutmask22 inp =
    [accum128 (inp ! 0)
       [mm_slli_epi32 (inp ! 1) 22],
     accum128 (mm_srli_epi32 (inp ! 1) (22 - 12))
       [mm_slli_epi32 (inp ! 2) 12],
     accum128 (mm_srli_epi32 (inp ! 2) (22 - 2))
       [mm_slli_epi32 (inp ! 3) 2, mm_slli_epi32 (inp ! 4) 24],
     accum128 (mm_srli_epi32 (inp ! 4) (22 - 14))
       [mm_slli_epi32 (inp ! 5) 14],
     accum128 (mm_srli_epi32 (inp ! 5) (22 - 4))
       [mm_slli_epi32 (inp ! 6) 4, mm_slli_epi32 (inp ! 7) 26],
     accum128 (mm_srli_epi32 (inp ! 7) (22 - 16))
       [mm_slli_epi32 (inp ! 8) 16],
     accum128 (mm_srli_epi32 (inp ! 8) (22 - 6))
       [mm_slli_epi32 (inp ! 9) 6, mm_slli_epi32 (inp ! 10) 28],
     accum128 (mm_srli_epi32 (inp ! 10) (22 - 18))
       [mm_slli_epi32 (inp ! 11) 18],
     accum128 (mm_srli_epi32 (inp ! 11) (22 - 8))
       [mm_slli_epi32 (inp ! 12) 8, mm_slli_epi32 (inp ! 13) 30],
     accum128 (mm_srli_epi32 (inp ! 13) (22 - 20))
       [mm_slli_epi32 (inp ! 14) 20],
     accum128 (mm_srli_epi32 (inp ! 14) (22 - 10))
       [mm_slli_epi32 (inp ! 15) 10],
     accum128 (inp ! 16)
       [mm_slli_epi32 (inp ! 17) 22],
     accum128 (mm_srli_epi32 (inp ! 17) (22 - 12))
       [mm_slli_epi32 (inp ! 18) 12],
     accum128 (mm_srli_epi32 (inp ! 18) (22 - 2))
       [mm_slli_epi32 (inp ! 19) 2, mm_slli_epi32 (inp ! 20) 24],
     accum128 (mm_srli_epi32 (inp ! 20) (22 - 14))
       [mm_slli_epi32 (inp ! 21) 14],
     accum128 (mm_srli_epi32 (inp ! 21) (22 - 4))
       [mm_slli_epi32 (inp ! 22) 4, mm_slli_epi32 (inp ! 23) 26],
     accum128 (mm_srli_epi32 (inp ! 23) (22 - 16))
       [mm_slli_epi32 (inp ! 24) 16],
     accum128 (mm_srli_epi32 (inp ! 24) (22 - 6))
       [mm_slli_epi32 (inp ! 25) 6, mm_slli_epi32 (inp ! 26) 28],
     accum128 (mm_srli_epi32 (inp ! 26) (22 - 18))
       [mm_slli_epi32 (inp ! 27) 18],
     accum128 (mm_srli_epi32 (inp ! 27) (22 - 8))
       [mm_slli_epi32 (inp ! 28) 8, mm_slli_epi32 (inp ! 29) 30],
     accum128 (mm_srli_epi32 (inp ! 29) (22 - 20))
       [mm_slli_epi32 (inp ! 30) 20],
     accum128 (mm_srli_epi32 (inp ! 30) (22 - 10))
       [mm_slli_epi32 (inp ! 31) 10]]"

definition uSIMD_fastpackwithoutmask23 :: "m128i list \<Rightarrow> m128i list" where
  "uSIMD_fastpackwithoutmask23 inp =
    [accum128 (inp ! 0)
       [mm_slli_epi32 (inp ! 1) 23],
     accum128 (mm_srli_epi32 (inp ! 1) (23 - 14))
       [mm_slli_epi32 (inp ! 2) 14],
     accum128 (mm_srli_epi32 (inp ! 2) (23 - 5))
       [mm_slli_epi32 (inp ! 3) 5, mm_slli_epi32 (inp ! 4) 28],
     accum128 (mm_srli_epi32 (inp ! 4) (23 - 19))
       [mm_slli_epi32 (inp ! 5) 19],
     accum128 (mm_srli_epi32 (inp ! 5) (23 - 10))
       [mm_slli_epi32 (inp ! 6) 10],
     accum128 (mm_srli_epi32 (inp ! 6) (23 - 1))
       [mm_slli_epi32 (inp ! 7) 1, mm_slli_epi32 (inp ! 8) 24],
     accum128 (mm_srli_epi32 (inp ! 8) (23 - 15))
       [mm_slli_epi32 (inp ! 9) 15],
     accum128 (mm_srli_epi32 (inp ! 9) (23 - 6))
       [mm_slli_epi32 (inp ! 10) 6, mm_slli_epi32 (inp ! 11) 29],
     accum128 (mm_srli_epi32 (inp ! 11) (23 - 20))
       [mm_slli_epi32 (inp ! 12) 20],
     accum128 (mm_srli_epi32 (inp ! 12) (23 - 11))
       [mm_slli_epi32 (inp ! 13) 11],
     accum128 (mm_srli_epi32 (inp ! 13) (23 - 2))
       [mm_slli_epi32 (inp ! 14) 2, mm_slli_epi32 (inp ! 15) 25],
     accum128 (mm_srli_epi32 (inp ! 15) (23 - 16))
       [mm_slli_epi32 (inp ! 16) 16],
     accum128 (mm_srli_epi32 (inp ! 16) (23 - 7))
       [mm_slli_epi32 (inp ! 17) 7, mm_slli_epi32 (inp ! 18) 30],
     accum128 (mm_srli_epi32 (inp ! 18) (23 - 21))
       [mm_slli_epi32 (inp ! 19) 21],
     accum128 (mm_srli_epi32 (inp ! 19) (23 - 12))
       [mm_slli_epi32 (inp ! 20) 12],
     accum128 (mm_srli_epi32 (inp ! 20) (23 - 3))
       [mm_slli_epi32 (inp ! 21) 3, mm_slli_epi32 (inp ! 22) 26],
     accum128 (mm_srli_epi32 (inp ! 22) (23 - 17))
       [mm_slli_epi32 (inp ! 23) 17],
     accum128 (mm_srli_epi32 (inp ! 23) (23 - 8))
       [mm_slli_epi32 (inp ! 24) 8, mm_slli_epi32 (inp ! 25) 31],
     accum128 (mm_srli_epi32 (inp ! 25) (23 - 22))
       [mm_slli_epi32 (inp ! 26) 22],
     accum128 (mm_srli_epi32 (inp ! 26) (23 - 13))
       [mm_slli_epi32 (inp ! 27) 13],
     accum128 (mm_srli_epi32 (inp ! 27) (23 - 4))
       [mm_slli_epi32 (inp ! 28) 4, mm_slli_epi32 (inp ! 29) 27],
     accum128 (mm_srli_epi32 (inp ! 29) (23 - 18))
       [mm_slli_epi32 (inp ! 30) 18],
     accum128 (mm_srli_epi32 (inp ! 30) (23 - 9))
       [mm_slli_epi32 (inp ! 31) 9]]"

definition uSIMD_fastpackwithoutmask24 :: "m128i list \<Rightarrow> m128i list" where
  "uSIMD_fastpackwithoutmask24 inp =
    [accum128 (inp ! 0)
       [mm_slli_epi32 (inp ! 1) 24],
     accum128 (mm_srli_epi32 (inp ! 1) (24 - 16))
       [mm_slli_epi32 (inp ! 2) 16],
     accum128 (mm_srli_epi32 (inp ! 2) (24 - 8))
       [mm_slli_epi32 (inp ! 3) 8],
     accum128 (inp ! 4)
       [mm_slli_epi32 (inp ! 5) 24],
     accum128 (mm_srli_epi32 (inp ! 5) (24 - 16))
       [mm_slli_epi32 (inp ! 6) 16],
     accum128 (mm_srli_epi32 (inp ! 6) (24 - 8))
       [mm_slli_epi32 (inp ! 7) 8],
     accum128 (inp ! 8)
       [mm_slli_epi32 (inp ! 9) 24],
     accum128 (mm_srli_epi32 (inp ! 9) (24 - 16))
       [mm_slli_epi32 (inp ! 10) 16],
     accum128 (mm_srli_epi32 (inp ! 10) (24 - 8))
       [mm_slli_epi32 (inp ! 11) 8],
     accum128 (inp ! 12)
       [mm_slli_epi32 (inp ! 13) 24],
     accum128 (mm_srli_epi32 (inp ! 13) (24 - 16))
       [mm_slli_epi32 (inp ! 14) 16],
     accum128 (mm_srli_epi32 (inp ! 14) (24 - 8))
       [mm_slli_epi32 (inp ! 15) 8],
     accum128 (inp ! 16)
       [mm_slli_epi32 (inp ! 17) 24],
     accum128 (mm_srli_epi32 (inp ! 17) (24 - 16))
       [mm_slli_epi32 (inp ! 18) 16],
     accum128 (mm_srli_epi32 (inp ! 18) (24 - 8))
       [mm_slli_epi32 (inp ! 19) 8],
     accum128 (inp ! 20)
       [mm_slli_epi32 (inp ! 21) 24],
     accum128 (mm_srli_epi32 (inp ! 21) (24 - 16))
       [mm_slli_epi32 (inp ! 22) 16],
     accum128 (mm_srli_epi32 (inp ! 22) (24 - 8))
       [mm_slli_epi32 (inp ! 23) 8],
     accum128 (inp ! 24)
       [mm_slli_epi32 (inp ! 25) 24],
     accum128 (mm_srli_epi32 (inp ! 25) (24 - 16))
       [mm_slli_epi32 (inp ! 26) 16],
     accum128 (mm_srli_epi32 (inp ! 26) (24 - 8))
       [mm_slli_epi32 (inp ! 27) 8],
     accum128 (inp ! 28)
       [mm_slli_epi32 (inp ! 29) 24],
     accum128 (mm_srli_epi32 (inp ! 29) (24 - 16))
       [mm_slli_epi32 (inp ! 30) 16],
     accum128 (mm_srli_epi32 (inp ! 30) (24 - 8))
       [mm_slli_epi32 (inp ! 31) 8]]"

definition uSIMD_fastpackwithoutmask25 :: "m128i list \<Rightarrow> m128i list" where
  "uSIMD_fastpackwithoutmask25 inp =
    [accum128 (inp ! 0)
       [mm_slli_epi32 (inp ! 1) 25],
     accum128 (mm_srli_epi32 (inp ! 1) (25 - 18))
       [mm_slli_epi32 (inp ! 2) 18],
     accum128 (mm_srli_epi32 (inp ! 2) (25 - 11))
       [mm_slli_epi32 (inp ! 3) 11],
     accum128 (mm_srli_epi32 (inp ! 3) (25 - 4))
       [mm_slli_epi32 (inp ! 4) 4, mm_slli_epi32 (inp ! 5) 29],
     accum128 (mm_srli_epi32 (inp ! 5) (25 - 22))
       [mm_slli_epi32 (inp ! 6) 22],
     accum128 (mm_srli_epi32 (inp ! 6) (25 - 15))
       [mm_slli_epi32 (inp ! 7) 15],
     accum128 (mm_srli_epi32 (inp ! 7) (25 - 8))
       [mm_slli_epi32 (inp ! 8) 8],
     accum128 (mm_srli_epi32 (inp ! 8) (25 - 1))
       [mm_slli_epi32 (inp ! 9) 1, mm_slli_epi32 (inp ! 10) 26],
     accum128 (mm_srli_epi32 (inp ! 10) (25 - 19))
       [mm_slli_epi32 (inp ! 11) 19],
     accum128 (mm_srli_epi32 (inp ! 11) (25 - 12))
       [mm_slli_epi32 (inp ! 12) 12],
     accum128 (mm_srli_epi32 (inp ! 12) (25 - 5))
       [mm_slli_epi32 (inp ! 13) 5, mm_slli_epi32 (inp ! 14) 30],
     accum128 (mm_srli_epi32 (inp ! 14) (25 - 23))
       [mm_slli_epi32 (inp ! 15) 23],
     accum128 (mm_srli_epi32 (inp ! 15) (25 - 16))
       [mm_slli_epi32 (inp ! 16) 16],
     accum128 (mm_srli_epi32 (inp ! 16) (25 - 9))
       [mm_slli_epi32 (inp ! 17) 9],
     accum128 (mm_srli_epi32 (inp ! 17) (25 - 2))
       [mm_slli_epi32 (inp ! 18) 2, mm_slli_epi32 (inp ! 19) 27],
     accum128 (mm_srli_epi32 (inp ! 19) (25 - 20))
       [mm_slli_epi32 (inp ! 20) 20],
     accum128 (mm_srli_epi32 (inp ! 20) (25 - 13))
       [mm_slli_epi32 (inp ! 21) 13],
     accum128 (mm_srli_epi32 (inp ! 21) (25 - 6))
       [mm_slli_epi32 (inp ! 22) 6, mm_slli_epi32 (inp ! 23) 31],
     accum128 (mm_srli_epi32 (inp ! 23) (25 - 24))
       [mm_slli_epi32 (inp ! 24) 24],
     accum128 (mm_srli_epi32 (inp ! 24) (25 - 17))
       [mm_slli_epi32 (inp ! 25) 17],
     accum128 (mm_srli_epi32 (inp ! 25) (25 - 10))
       [mm_slli_epi32 (inp ! 26) 10],
     accum128 (mm_srli_epi32 (inp ! 26) (25 - 3))
       [mm_slli_epi32 (inp ! 27) 3, mm_slli_epi32 (inp ! 28) 28],
     accum128 (mm_srli_epi32 (inp ! 28) (25 - 21))
       [mm_slli_epi32 (inp ! 29) 21],
     accum128 (mm_srli_epi32 (inp ! 29) (25 - 14))
       [mm_slli_epi32 (inp ! 30) 14],
     accum128 (mm_srli_epi32 (inp ! 30) (25 - 7))
       [mm_slli_epi32 (inp ! 31) 7]]"

definition uSIMD_fastpackwithoutmask26 :: "m128i list \<Rightarrow> m128i list" where
  "uSIMD_fastpackwithoutmask26 inp =
    [accum128 (inp ! 0)
       [mm_slli_epi32 (inp ! 1) 26],
     accum128 (mm_srli_epi32 (inp ! 1) (26 - 20))
       [mm_slli_epi32 (inp ! 2) 20],
     accum128 (mm_srli_epi32 (inp ! 2) (26 - 14))
       [mm_slli_epi32 (inp ! 3) 14],
     accum128 (mm_srli_epi32 (inp ! 3) (26 - 8))
       [mm_slli_epi32 (inp ! 4) 8],
     accum128 (mm_srli_epi32 (inp ! 4) (26 - 2))
       [mm_slli_epi32 (inp ! 5) 2, mm_slli_epi32 (inp ! 6) 28],
     accum128 (mm_srli_epi32 (inp ! 6) (26 - 22))
       [mm_slli_epi32 (inp ! 7) 22],
     accum128 (mm_srli_epi32 (inp ! 7) (26 - 16))
       [mm_slli_epi32 (inp ! 8) 16],
     accum128 (mm_srli_epi32 (inp ! 8) (26 - 10))
       [mm_slli_epi32 (inp ! 9) 10],
     accum128 (mm_srli_epi32 (inp ! 9) (26 - 4))
       [mm_slli_epi32 (inp ! 10) 4, mm_slli_epi32 (inp ! 11) 30],
     accum128 (mm_srli_epi32 (inp ! 11) (26 - 24))
       [mm_slli_epi32 (inp ! 12) 24],
     accum128 (mm_srli_epi32 (inp ! 12) (26 - 18))
       [mm_slli_epi32 (inp ! 13) 18],
     accum128 (mm_srli_epi32 (inp ! 13) (26 - 12))
       [mm_slli_epi32 (inp ! 14) 12],
     accum128 (mm_srli_epi32 (inp ! 14) (26 - 6))
       [mm_slli_epi32 (inp ! 15) 6],
     accum128 (inp ! 16)
       [mm_slli_epi32 (inp ! 17) 26],
     accum128 (mm_srli_epi32 (inp ! 17) (26 - 20))
       [mm_slli_epi32 (inp ! 18) 20],
     accum128 (mm_srli_epi32 (inp ! 18) (26 - 14))
       [mm_slli_epi32 (inp ! 19) 14],
     accum128 (mm_srli_epi32 (inp ! 19) (26 - 8))
       [mm_slli_epi32 (inp ! 20) 8],
     accum128 (mm_srli_epi32 (inp ! 20) (26 - 2))
       [mm_slli_epi32 (inp ! 21) 2, mm_slli_epi32 (inp ! 22) 28],
     accum128 (mm_srli_epi32 (inp ! 22) (26 - 22))
       [mm_slli_epi32 (inp ! 23) 22],
     accum128 (mm_srli_epi32 (inp ! 23) (26 - 16))
       [mm_slli_epi32 (inp ! 24) 16],
     accum128 (mm_srli_epi32 (inp ! 24) (26 - 10))
       [mm_slli_epi32 (inp ! 25) 10],
     accum128 (mm_srli_epi32 (inp ! 25) (26 - 4))
       [mm_slli_epi32 (inp ! 26) 4, mm_slli_epi32 (inp ! 27) 30],
     accum128 (mm_srli_epi32 (inp ! 27) (26 - 24))
       [mm_slli_epi32 (inp ! 28) 24],
     accum128 (mm_srli_epi32 (inp ! 28) (26 - 18))
       [mm_slli_epi32 (inp ! 29) 18],
     accum128 (mm_srli_epi32 (inp ! 29) (26 - 12))
       [mm_slli_epi32 (inp ! 30) 12],
     accum128 (mm_srli_epi32 (inp ! 30) (26 - 6))
       [mm_slli_epi32 (inp ! 31) 6]]"

definition uSIMD_fastpackwithoutmask27 :: "m128i list \<Rightarrow> m128i list" where
  "uSIMD_fastpackwithoutmask27 inp =
    [accum128 (inp ! 0)
       [mm_slli_epi32 (inp ! 1) 27],
     accum128 (mm_srli_epi32 (inp ! 1) (27 - 22))
       [mm_slli_epi32 (inp ! 2) 22],
     accum128 (mm_srli_epi32 (inp ! 2) (27 - 17))
       [mm_slli_epi32 (inp ! 3) 17],
     accum128 (mm_srli_epi32 (inp ! 3) (27 - 12))
       [mm_slli_epi32 (inp ! 4) 12],
     accum128 (mm_srli_epi32 (inp ! 4) (27 - 7))
       [mm_slli_epi32 (inp ! 5) 7],
     accum128 (mm_srli_epi32 (inp ! 5) (27 - 2))
       [mm_slli_epi32 (inp ! 6) 2, mm_slli_epi32 (inp ! 7) 29],
     accum128 (mm_srli_epi32 (inp ! 7) (27 - 24))
       [mm_slli_epi32 (inp ! 8) 24],
     accum128 (mm_srli_epi32 (inp ! 8) (27 - 19))
       [mm_slli_epi32 (inp ! 9) 19],
     accum128 (mm_srli_epi32 (inp ! 9) (27 - 14))
       [mm_slli_epi32 (inp ! 10) 14],
     accum128 (mm_srli_epi32 (inp ! 10) (27 - 9))
       [mm_slli_epi32 (inp ! 11) 9],
     accum128 (mm_srli_epi32 (inp ! 11) (27 - 4))
       [mm_slli_epi32 (inp ! 12) 4, mm_slli_epi32 (inp ! 13) 31],
     accum128 (mm_srli_epi32 (inp ! 13) (27 - 26))
       [mm_slli_epi32 (inp ! 14) 26],
     accum128 (mm_srli_epi32 (inp ! 14) (27 - 21))
       [mm_slli_epi32 (inp ! 15) 21],
     accum128 (mm_srli_epi32 (inp ! 15) (27 - 16))
       [mm_slli_epi32 (inp ! 16) 16],
     accum128 (mm_srli_epi32 (inp ! 16) (27 - 11))
       [mm_slli_epi32 (inp ! 17) 11],
     accum128 (mm_srli_epi32 (inp ! 17) (27 - 6))
       [mm_slli_epi32 (inp ! 18) 6],
     accum128 (mm_srli_epi32 (inp ! 18) (27 - 1))
       [mm_slli_epi32 (inp ! 19) 1, mm_slli_epi32 (inp ! 20) 28],
     accum128 (mm_srli_epi32 (inp ! 20) (27 - 23))
       [mm_slli_epi32 (inp ! 21) 23],
     accum128 (mm_srli_epi32 (inp ! 21) (27 - 18))
       [mm_slli_epi32 (inp ! 22) 18],
     accum128 (mm_srli_epi32 (inp ! 22) (27 - 13))
       [mm_slli_epi32 (inp ! 23) 13],
     accum128 (mm_srli_epi32 (inp ! 23) (27 - 8))
       [mm_slli_epi32 (inp ! 24) 8],
     accum128 (mm_srli_epi32 (inp ! 24) (27 - 3))
       [mm_slli_epi32 (inp ! 25) 3, mm_slli_epi32 (inp ! 26) 30],
     accum128 (mm_srli_epi32 (inp ! 26) (27 - 25))
       [mm_slli_epi32 (inp ! 27) 25],
     accum128 (mm_srli_epi32 (inp ! 27) (27 - 20))
       [mm_slli_epi32 (inp ! 28) 20],
     accum128 (mm_srli_epi32 (inp ! 28) (27 - 15))
       [mm_slli_epi32 (inp ! 29) 15],
     accum128 (mm_srli_epi32 (inp ! 29) (27 - 10))
       [mm_slli_epi32 (inp ! 30) 10],
     accum128 (mm_srli_epi32 (inp ! 30) (27 - 5))
       [mm_slli_epi32 (inp ! 31) 5]]"

definition uSIMD_fastpackwithoutmask28 :: "m128i list \<Rightarrow> m128i list" where
  "uSIMD_fastpackwithoutmask28 inp =
    [accum128 (inp ! 0)
       [mm_slli_epi32 (inp ! 1) 28],
     accum128 (mm_srli_epi32 (inp ! 1) (28 - 24))
       [mm_slli_epi32 (inp ! 2) 24],
     accum128 (mm_srli_epi32 (inp ! 2) (28 - 20))
       [mm_slli_epi32 (inp ! 3) 20],
     accum128 (mm_srli_epi32 (inp ! 3) (28 - 16))
       [mm_slli_epi32 (inp ! 4) 16],
     accum128 (mm_srli_epi32 (inp ! 4) (28 - 12))
       [mm_slli_epi32 (inp ! 5) 12],
     accum128 (mm_srli_epi32 (inp ! 5) (28 - 8))
       [mm_slli_epi32 (inp ! 6) 8],
     accum128 (mm_srli_epi32 (inp ! 6) (28 - 4))
       [mm_slli_epi32 (inp ! 7) 4],
     accum128 (inp ! 8)
       [mm_slli_epi32 (inp ! 9) 28],
     accum128 (mm_srli_epi32 (inp ! 9) (28 - 24))
       [mm_slli_epi32 (inp ! 10) 24],
     accum128 (mm_srli_epi32 (inp ! 10) (28 - 20))
       [mm_slli_epi32 (inp ! 11) 20],
     accum128 (mm_srli_epi32 (inp ! 11) (28 - 16))
       [mm_slli_epi32 (inp ! 12) 16],
     accum128 (mm_srli_epi32 (inp ! 12) (28 - 12))
       [mm_slli_epi32 (inp ! 13) 12],
     accum128 (mm_srli_epi32 (inp ! 13) (28 - 8))
       [mm_slli_epi32 (inp ! 14) 8],
     accum128 (mm_srli_epi32 (inp ! 14) (28 - 4))
       [mm_slli_epi32 (inp ! 15) 4],
     accum128 (inp ! 16)
       [mm_slli_epi32 (inp ! 17) 28],
     accum128 (mm_srli_epi32 (inp ! 17) (28 - 24))
       [mm_slli_epi32 (inp ! 18) 24],
     accum128 (mm_srli_epi32 (inp ! 18) (28 - 20))
       [mm_slli_epi32 (inp ! 19) 20],
     accum128 (mm_srli_epi32 (inp ! 19) (28 - 16))
       [mm_slli_epi32 (inp ! 20) 16],
     accum128 (mm_srli_epi32 (inp ! 20) (28 - 12))
       [mm_slli_epi32 (inp ! 21) 12],
     accum128 (mm_srli_epi32 (inp ! 21) (28 - 8))
       [mm_slli_epi32 (inp ! 22) 8],
     accum128 (mm_srli_epi32 (inp ! 22) (28 - 4))
       [mm_slli_epi32 (inp ! 23) 4],
     accum128 (inp ! 24)
       [mm_slli_epi32 (inp ! 25) 28],
     accum128 (mm_srli_epi32 (inp ! 25) (28 - 24))
       [mm_slli_epi32 (inp ! 26) 24],
     accum128 (mm_srli_epi32 (inp ! 26) (28 - 20))
       [mm_slli_epi32 (inp ! 27) 20],
     accum128 (mm_srli_epi32 (inp ! 27) (28 - 16))
       [mm_slli_epi32 (inp ! 28) 16],
     accum128 (mm_srli_epi32 (inp ! 28) (28 - 12))
       [mm_slli_epi32 (inp ! 29) 12],
     accum128 (mm_srli_epi32 (inp ! 29) (28 - 8))
       [mm_slli_epi32 (inp ! 30) 8],
     accum128 (mm_srli_epi32 (inp ! 30) (28 - 4))
       [mm_slli_epi32 (inp ! 31) 4]]"

definition uSIMD_fastpackwithoutmask29 :: "m128i list \<Rightarrow> m128i list" where
  "uSIMD_fastpackwithoutmask29 inp =
    [accum128 (inp ! 0)
       [mm_slli_epi32 (inp ! 1) 29],
     accum128 (mm_srli_epi32 (inp ! 1) (29 - 26))
       [mm_slli_epi32 (inp ! 2) 26],
     accum128 (mm_srli_epi32 (inp ! 2) (29 - 23))
       [mm_slli_epi32 (inp ! 3) 23],
     accum128 (mm_srli_epi32 (inp ! 3) (29 - 20))
       [mm_slli_epi32 (inp ! 4) 20],
     accum128 (mm_srli_epi32 (inp ! 4) (29 - 17))
       [mm_slli_epi32 (inp ! 5) 17],
     accum128 (mm_srli_epi32 (inp ! 5) (29 - 14))
       [mm_slli_epi32 (inp ! 6) 14],
     accum128 (mm_srli_epi32 (inp ! 6) (29 - 11))
       [mm_slli_epi32 (inp ! 7) 11],
     accum128 (mm_srli_epi32 (inp ! 7) (29 - 8))
       [mm_slli_epi32 (inp ! 8) 8],
     accum128 (mm_srli_epi32 (inp ! 8) (29 - 5))
       [mm_slli_epi32 (inp ! 9) 5],
     accum128 (mm_srli_epi32 (inp ! 9) (29 - 2))
       [mm_slli_epi32 (inp ! 10) 2, mm_slli_epi32 (inp ! 11) 31],
     accum128 (mm_srli_epi32 (inp ! 11) (29 - 28))
       [mm_slli_epi32 (inp ! 12) 28],
     accum128 (mm_srli_epi32 (inp ! 12) (29 - 25))
       [mm_slli_epi32 (inp ! 13) 25],
     accum128 (mm_srli_epi32 (inp ! 13) (29 - 22))
       [mm_slli_epi32 (inp ! 14) 22],
     accum128 (mm_srli_epi32 (inp ! 14) (29 - 19))
       [mm_slli_epi32 (inp ! 15) 19],
     accum128 (mm_srli_epi32 (inp ! 15) (29 - 16))
       [mm_slli_epi32 (inp ! 16) 16],
     accum128 (mm_srli_epi32 (inp ! 16) (29 - 13))
       [mm_slli_epi32 (inp ! 17) 13],
     accum128 (mm_srli_epi32 (inp ! 17) (29 - 10))
       [mm_slli_epi32 (inp ! 18) 10],
     accum128 (mm_srli_epi32 (inp ! 18) (29 - 7))
       [mm_slli_epi32 (inp ! 19) 7],
     accum128 (mm_srli_epi32 (inp ! 19) (29 - 4))
       [mm_slli_epi32 (inp ! 20) 4],
     accum128 (mm_srli_epi32 (inp ! 20) (29 - 1))
       [mm_slli_epi32 (inp ! 21) 1, mm_slli_epi32 (inp ! 22) 30],
     accum128 (mm_srli_epi32 (inp ! 22) (29 - 27))
       [mm_slli_epi32 (inp ! 23) 27],
     accum128 (mm_srli_epi32 (inp ! 23) (29 - 24))
       [mm_slli_epi32 (inp ! 24) 24],
     accum128 (mm_srli_epi32 (inp ! 24) (29 - 21))
       [mm_slli_epi32 (inp ! 25) 21],
     accum128 (mm_srli_epi32 (inp ! 25) (29 - 18))
       [mm_slli_epi32 (inp ! 26) 18],
     accum128 (mm_srli_epi32 (inp ! 26) (29 - 15))
       [mm_slli_epi32 (inp ! 27) 15],
     accum128 (mm_srli_epi32 (inp ! 27) (29 - 12))
       [mm_slli_epi32 (inp ! 28) 12],
     accum128 (mm_srli_epi32 (inp ! 28) (29 - 9))
       [mm_slli_epi32 (inp ! 29) 9],
     accum128 (mm_srli_epi32 (inp ! 29) (29 - 6))
       [mm_slli_epi32 (inp ! 30) 6],
     accum128 (mm_srli_epi32 (inp ! 30) (29 - 3))
       [mm_slli_epi32 (inp ! 31) 3]]"

definition uSIMD_fastpackwithoutmask30 :: "m128i list \<Rightarrow> m128i list" where
  "uSIMD_fastpackwithoutmask30 inp =
    [accum128 (inp ! 0)
       [mm_slli_epi32 (inp ! 1) 30],
     accum128 (mm_srli_epi32 (inp ! 1) (30 - 28))
       [mm_slli_epi32 (inp ! 2) 28],
     accum128 (mm_srli_epi32 (inp ! 2) (30 - 26))
       [mm_slli_epi32 (inp ! 3) 26],
     accum128 (mm_srli_epi32 (inp ! 3) (30 - 24))
       [mm_slli_epi32 (inp ! 4) 24],
     accum128 (mm_srli_epi32 (inp ! 4) (30 - 22))
       [mm_slli_epi32 (inp ! 5) 22],
     accum128 (mm_srli_epi32 (inp ! 5) (30 - 20))
       [mm_slli_epi32 (inp ! 6) 20],
     accum128 (mm_srli_epi32 (inp ! 6) (30 - 18))
       [mm_slli_epi32 (inp ! 7) 18],
     accum128 (mm_srli_epi32 (inp ! 7) (30 - 16))
       [mm_slli_epi32 (inp ! 8) 16],
     accum128 (mm_srli_epi32 (inp ! 8) (30 - 14))
       [mm_slli_epi32 (inp ! 9) 14],
     accum128 (mm_srli_epi32 (inp ! 9) (30 - 12))
       [mm_slli_epi32 (inp ! 10) 12],
     accum128 (mm_srli_epi32 (inp ! 10) (30 - 10))
       [mm_slli_epi32 (inp ! 11) 10],
     accum128 (mm_srli_epi32 (inp ! 11) (30 - 8))
       [mm_slli_epi32 (inp ! 12) 8],
     accum128 (mm_srli_epi32 (inp ! 12) (30 - 6))
       [mm_slli_epi32 (inp ! 13) 6],
     accum128 (mm_srli_epi32 (inp ! 13) (30 - 4))
       [mm_slli_epi32 (inp ! 14) 4],
     accum128 (mm_srli_epi32 (inp ! 14) (30 - 2))
       [mm_slli_epi32 (inp ! 15) 2],
     accum128 (inp ! 16)
       [mm_slli_epi32 (inp ! 17) 30],
     accum128 (mm_srli_epi32 (inp ! 17) (30 - 28))
       [mm_slli_epi32 (inp ! 18) 28],
     accum128 (mm_srli_epi32 (inp ! 18) (30 - 26))
       [mm_slli_epi32 (inp ! 19) 26],
     accum128 (mm_srli_epi32 (inp ! 19) (30 - 24))
       [mm_slli_epi32 (inp ! 20) 24],
     accum128 (mm_srli_epi32 (inp ! 20) (30 - 22))
       [mm_slli_epi32 (inp ! 21) 22],
     accum128 (mm_srli_epi32 (inp ! 21) (30 - 20))
       [mm_slli_epi32 (inp ! 22) 20],
     accum128 (mm_srli_epi32 (inp ! 22) (30 - 18))
       [mm_slli_epi32 (inp ! 23) 18],
     accum128 (mm_srli_epi32 (inp ! 23) (30 - 16))
       [mm_slli_epi32 (inp ! 24) 16],
     accum128 (mm_srli_epi32 (inp ! 24) (30 - 14))
       [mm_slli_epi32 (inp ! 25) 14],
     accum128 (mm_srli_epi32 (inp ! 25) (30 - 12))
       [mm_slli_epi32 (inp ! 26) 12],
     accum128 (mm_srli_epi32 (inp ! 26) (30 - 10))
       [mm_slli_epi32 (inp ! 27) 10],
     accum128 (mm_srli_epi32 (inp ! 27) (30 - 8))
       [mm_slli_epi32 (inp ! 28) 8],
     accum128 (mm_srli_epi32 (inp ! 28) (30 - 6))
       [mm_slli_epi32 (inp ! 29) 6],
     accum128 (mm_srli_epi32 (inp ! 29) (30 - 4))
       [mm_slli_epi32 (inp ! 30) 4],
     accum128 (mm_srli_epi32 (inp ! 30) (30 - 2))
       [mm_slli_epi32 (inp ! 31) 2]]"

definition uSIMD_fastpackwithoutmask31 :: "m128i list \<Rightarrow> m128i list" where
  "uSIMD_fastpackwithoutmask31 inp =
    [accum128 (inp ! 0)
       [mm_slli_epi32 (inp ! 1) 31],
     accum128 (mm_srli_epi32 (inp ! 1) (31 - 30))
       [mm_slli_epi32 (inp ! 2) 30],
     accum128 (mm_srli_epi32 (inp ! 2) (31 - 29))
       [mm_slli_epi32 (inp ! 3) 29],
     accum128 (mm_srli_epi32 (inp ! 3) (31 - 28))
       [mm_slli_epi32 (inp ! 4) 28],
     accum128 (mm_srli_epi32 (inp ! 4) (31 - 27))
       [mm_slli_epi32 (inp ! 5) 27],
     accum128 (mm_srli_epi32 (inp ! 5) (31 - 26))
       [mm_slli_epi32 (inp ! 6) 26],
     accum128 (mm_srli_epi32 (inp ! 6) (31 - 25))
       [mm_slli_epi32 (inp ! 7) 25],
     accum128 (mm_srli_epi32 (inp ! 7) (31 - 24))
       [mm_slli_epi32 (inp ! 8) 24],
     accum128 (mm_srli_epi32 (inp ! 8) (31 - 23))
       [mm_slli_epi32 (inp ! 9) 23],
     accum128 (mm_srli_epi32 (inp ! 9) (31 - 22))
       [mm_slli_epi32 (inp ! 10) 22],
     accum128 (mm_srli_epi32 (inp ! 10) (31 - 21))
       [mm_slli_epi32 (inp ! 11) 21],
     accum128 (mm_srli_epi32 (inp ! 11) (31 - 20))
       [mm_slli_epi32 (inp ! 12) 20],
     accum128 (mm_srli_epi32 (inp ! 12) (31 - 19))
       [mm_slli_epi32 (inp ! 13) 19],
     accum128 (mm_srli_epi32 (inp ! 13) (31 - 18))
       [mm_slli_epi32 (inp ! 14) 18],
     accum128 (mm_srli_epi32 (inp ! 14) (31 - 17))
       [mm_slli_epi32 (inp ! 15) 17],
     accum128 (mm_srli_epi32 (inp ! 15) (31 - 16))
       [mm_slli_epi32 (inp ! 16) 16],
     accum128 (mm_srli_epi32 (inp ! 16) (31 - 15))
       [mm_slli_epi32 (inp ! 17) 15],
     accum128 (mm_srli_epi32 (inp ! 17) (31 - 14))
       [mm_slli_epi32 (inp ! 18) 14],
     accum128 (mm_srli_epi32 (inp ! 18) (31 - 13))
       [mm_slli_epi32 (inp ! 19) 13],
     accum128 (mm_srli_epi32 (inp ! 19) (31 - 12))
       [mm_slli_epi32 (inp ! 20) 12],
     accum128 (mm_srli_epi32 (inp ! 20) (31 - 11))
       [mm_slli_epi32 (inp ! 21) 11],
     accum128 (mm_srli_epi32 (inp ! 21) (31 - 10))
       [mm_slli_epi32 (inp ! 22) 10],
     accum128 (mm_srli_epi32 (inp ! 22) (31 - 9))
       [mm_slli_epi32 (inp ! 23) 9],
     accum128 (mm_srli_epi32 (inp ! 23) (31 - 8))
       [mm_slli_epi32 (inp ! 24) 8],
     accum128 (mm_srli_epi32 (inp ! 24) (31 - 7))
       [mm_slli_epi32 (inp ! 25) 7],
     accum128 (mm_srli_epi32 (inp ! 25) (31 - 6))
       [mm_slli_epi32 (inp ! 26) 6],
     accum128 (mm_srli_epi32 (inp ! 26) (31 - 5))
       [mm_slli_epi32 (inp ! 27) 5],
     accum128 (mm_srli_epi32 (inp ! 27) (31 - 4))
       [mm_slli_epi32 (inp ! 28) 4],
     accum128 (mm_srli_epi32 (inp ! 28) (31 - 3))
       [mm_slli_epi32 (inp ! 29) 3],
     accum128 (mm_srli_epi32 (inp ! 29) (31 - 2))
       [mm_slli_epi32 (inp ! 30) 2],
     accum128 (mm_srli_epi32 (inp ! 30) (31 - 1))
       [mm_slli_epi32 (inp ! 31) 1]]"

definition uSIMD_fastpackwithoutmask32 :: "m128i list \<Rightarrow> m128i list" where
  "uSIMD_fastpackwithoutmask32 inp =
    [inp ! 0, inp ! 1, inp ! 2, inp ! 3, inp ! 4, inp ! 5, inp ! 6, inp ! 7, inp ! 8, inp ! 9,
     inp ! 10, inp ! 11, inp ! 12, inp ! 13, inp ! 14, inp ! 15, inp ! 16, inp ! 17, inp ! 18,
     inp ! 19, inp ! 20, inp ! 21, inp ! 22, inp ! 23, inp ! 24, inp ! 25, inp ! 26, inp ! 27,
     inp ! 28, inp ! 29, inp ! 30, inp ! 31]"

definition uSIMD_fastpack0 :: "m128i list \<Rightarrow> m128i list" where
  "uSIMD_fastpack0 inp =
    []"

definition uSIMD_fastpack1 :: "m128i list \<Rightarrow> m128i list" where
  "uSIMD_fastpack1 inp =
    (let d = map (\<lambda>x. mm_and_si128 x (low_mask 1)) inp in
    [accum128 (d ! 0)
       [mm_slli_epi32 (d ! 1) 1, mm_slli_epi32 (d ! 2) 2, mm_slli_epi32 (d ! 3) 3,
        mm_slli_epi32 (d ! 4) 4, mm_slli_epi32 (d ! 5) 5, mm_slli_epi32 (d ! 6) 6,
        mm_slli_epi32 (d ! 7) 7, mm_slli_epi32 (d ! 8) 8, mm_slli_epi32 (d ! 9) 9,
        mm_slli_epi32 (d ! 10) 10, mm_slli_epi32 (d ! 11) 11, mm_slli_epi32 (d ! 12) 12,
        mm_slli_epi32 (d ! 13) 13, mm_slli_epi32 (d ! 14) 14, mm_slli_epi32 (d ! 15) 15,
        mm_slli_epi32 (d ! 16) 16, mm_slli_epi32 (d ! 17) 17, mm_slli_epi32 (d ! 18) 18,
        mm_slli_epi32 (d ! 19) 19, mm_slli_epi32 (d ! 20) 20, mm_slli_epi32 (d ! 21) 21,
        mm_slli_epi32 (d ! 22) 22, mm_slli_epi32 (d ! 23) 23, mm_slli_epi32 (d ! 24) 24,
        mm_slli_epi32 (d ! 25) 25, mm_slli_epi32 (d ! 26) 26, mm_slli_epi32 (d ! 27) 27,
        mm_slli_epi32 (d ! 28) 28, mm_slli_epi32 (d ! 29) 29, mm_slli_epi32 (d ! 30) 30,
        mm_slli_epi32 (d ! 31) 31]])"

definition uSIMD_fastpack2 :: "m128i list \<Rightarrow> m128i list" where
  "uSIMD_fastpack2 inp =
    (let d = map (\<lambda>x. mm_and_si128 x (low_mask 2)) inp in
    [accum128 (d ! 0)
       [mm_slli_epi32 (d ! 1) 2, mm_slli_epi32 (d ! 2) 4, mm_slli_epi32 (d ! 3) 6,
        mm_slli_epi32 (d ! 4) 8, mm_slli_epi32 (d ! 5) 10, mm_slli_epi32 (d ! 6) 12,
        mm_slli_epi32 (d ! 7) 14, mm_slli_epi32 (d ! 8) 16, mm_slli_epi32 (d ! 9) 18,
        mm_slli_epi32 (d ! 10) 20, mm_slli_epi32 (d ! 11) 22, mm_slli_epi32 (d ! 12) 24,
        mm_slli_epi32 (d ! 13) 26, mm_slli_epi32 (d ! 14) 28, mm_slli_epi32 (d ! 15) 30],
     accum128 (d ! 16)
       [mm_slli_epi32 (d ! 17) 2, mm_slli_epi32 (d ! 18) 4, mm_slli_epi32 (d ! 19) 6,
        mm_slli_epi32 (d ! 20) 8, mm_slli_epi32 (d ! 21) 10, mm_slli_epi32 (d ! 22) 12,
        mm_slli_epi32 (d ! 23) 14, mm_slli_epi32 (d ! 24) 16, mm_slli_epi32 (d ! 25) 18,
        mm_slli_epi32 (d ! 26) 20, mm_slli_epi32 (d ! 27) 22, mm_slli_epi32 (d ! 28) 24,
        mm_slli_epi32 (d ! 29) 26, mm_slli_epi32 (d ! 30) 28, mm_slli_epi32 (d ! 31) 30]])"

definition uSIMD_fastpack3 :: "m128i list \<Rightarrow> m128i list" where
  "uSIMD_fastpack3 inp =
    (let d = map (\<lambda>x. mm_and_si128 x (low_mask 3)) inp in
    [accum128 (d ! 0)
       [mm_slli_epi32 (d ! 1) 3, mm_slli_epi32 (d ! 2) 6, mm_slli_epi32 (d ! 3) 9,
        mm_slli_epi32 (d ! 4) 12, mm_slli_epi32 (d ! 5) 15, mm_slli_epi32 (d ! 6) 18,
        mm_slli_epi32 (d ! 7) 21, mm_slli_epi32 (d ! 8) 24, mm_slli_epi32 (d ! 9) 27,
        mm_slli_epi32 (d ! 10) 30],
     accum128 (mm_srli_epi32 (d ! 10) (3 - 1))
       [mm_slli_epi32 (d ! 11) 1, mm_slli_epi32 (d ! 12) 4, mm_slli_epi32 (d ! 13) 7,
        mm_slli_epi32 (d ! 14) 10, mm_slli_epi32 (d ! 15) 13, mm_slli_epi32 (d ! 16) 16,
        mm_slli_epi32 (d ! 17) 19, mm_slli_epi32 (d ! 18) 22, mm_slli_epi32 (d ! 19) 25,
        mm_slli_epi32 (d ! 20) 28, mm_slli_epi32 (d ! 21) 31],
     accum128 (mm_srli_epi32 (d ! 21) (3 - 2))
       [mm_slli_epi32 (d ! 22) 2, mm_slli_epi32 (d ! 23) 5, mm_slli_epi32 (d ! 24) 8,
        mm_slli_epi32 (d ! 25) 11, mm_slli_epi32 (d ! 26) 14, mm_slli_epi32 (d ! 27) 17,
        mm_slli_epi32 (d ! 28) 20, mm_slli_epi32 (d ! 29) 23, mm_slli_epi32 (d ! 30) 26,
        mm_slli_epi32 (d ! 31) 29]])"

definition uSIMD_fastpack4 :: "m128i list \<Rightarrow> m128i list" where
  "uSIMD_fastpack4 inp =
    (let d = map (\<lambda>x. mm_and_si128 x (low_mask 4)) inp in
    concat (map (\<lambda>outer.
     [accum128 (d ! (8 * outer))
       [mm_slli_epi32 (d ! (8 * outer + 1)) 4, mm_slli_epi32 (d ! (8 * outer + 2)) 8,
        mm_slli_epi32 (d ! (8 * outer + 3)) 12, mm_slli_epi32 (d ! (8 * outer + 4)) 16,
        mm_slli_epi32 (d ! (8 * outer + 5)) 20, mm_slli_epi32 (d ! (8 * outer + 6)) 24,
        mm_slli_epi32 (d ! (8 * outer + 7)) 28]])
     [0..<4]))"

definition uSIMD_fastpack5 :: "m128i list \<Rightarrow> m128i list" where
  "uSIMD_fastpack5 inp =
    (let d = map (\<lambda>x. mm_and_si128 x (low_mask 5)) inp in
    [accum128 (d ! 0)
       [mm_slli_epi32 (d ! 1) 5, mm_slli_epi32 (d ! 2) 10, mm_slli_epi32 (d ! 3) 15,
        mm_slli_epi32 (d ! 4) 20, mm_slli_epi32 (d ! 5) 25, mm_slli_epi32 (d ! 6) 30],
     accum128 (mm_srli_epi32 (d ! 6) (5 - 3))
       [mm_slli_epi32 (d ! 7) 3, mm_slli_epi32 (d ! 8) 8, mm_slli_epi32 (d ! 9) 13,
        mm_slli_epi32 (d ! 10) 18, mm_slli_epi32 (d ! 11) 23, mm_slli_epi32 (d ! 12) 28],
     accum128 (mm_srli_epi32 (d ! 12) (5 - 1))
       [mm_slli_epi32 (d ! 13) 1, mm_slli_epi32 (d ! 14) 6, mm_slli_epi32 (d ! 15) 11,
        mm_slli_epi32 (d ! 16) 16, mm_slli_epi32 (d ! 17) 21, mm_slli_epi32 (d ! 18) 26,
        mm_slli_epi32 (d ! 19) 31],
     accum128 (mm_srli_epi32 (d ! 19) (5 - 4))
       [mm_slli_epi32 (d ! 20) 4, mm_slli_epi32 (d ! 21) 9, mm_slli_epi32 (d ! 22) 14,
        mm_slli_epi32 (d ! 23) 19, mm_slli_epi32 (d ! 24) 24, mm_slli_epi32 (d ! 25) 29],
     accum128 (mm_srli_epi32 (d ! 25) (5 - 2))
       [mm_slli_epi32 (d ! 26) 2, mm_slli_epi32 (d ! 27) 7, mm_slli_epi32 (d ! 28) 12,
        mm_slli_epi32 (d ! 29) 17, mm_slli_epi32 (d ! 30) 22, mm_slli_epi32 (d ! 31) 27]])"

definition uSIMD_fastpack6 :: "m128i list \<Rightarrow> m128i list" where
  "uSIMD_fastpack6 inp =
    (let d = map (\<lambda>x. mm_and_si128 x (low_mask 6)) inp in
    [accum128 (d ! 0)
       [mm_slli_epi32 (d ! 1) 6, mm_slli_epi32 (d ! 2) 12, mm_slli_epi32 (d ! 3) 18,
        mm_slli_epi32 (d ! 4) 24, mm_slli_epi32 (d ! 5) 30],
     accum128 (mm_srli_epi32 (d ! 5) (6 - 4))
       [mm_slli_epi32 (d ! 6) 4, mm_slli_epi32 (d ! 7) 10, mm_slli_epi32 (d ! 8) 16,
        mm_slli_epi32 (d ! 9) 22, mm_slli_epi32 (d ! 10) 28],
     accum128 (mm_srli_epi32 (d ! 10) (6 - 2))
       [mm_slli_epi32 (d ! 11) 2, mm_slli_epi32 (d ! 12) 8, mm_slli_epi32 (d ! 13) 14,
        mm_slli_epi32 (d ! 14) 20, mm_slli_epi32 (d ! 15) 26],
     accum128 (d ! 16)
       [mm_slli_epi32 (d ! 17) 6, mm_slli_epi32 (d ! 18) 12, mm_slli_epi32 (d ! 19) 18,
        mm_slli_epi32 (d ! 20) 24, mm_slli_epi32 (d ! 21) 30],
     accum128 (mm_srli_epi32 (d ! 21) (6 - 4))
       [mm_slli_epi32 (d ! 22) 4, mm_slli_epi32 (d ! 23) 10, mm_slli_epi32 (d ! 24) 16,
        mm_slli_epi32 (d ! 25) 22, mm_slli_epi32 (d ! 26) 28],
     accum128 (mm_srli_epi32 (d ! 26) (6 - 2))
       [mm_slli_epi32 (d ! 27) 2, mm_slli_epi32 (d ! 28) 8, mm_slli_epi32 (d ! 29) 14,
        mm_slli_epi32 (d ! 30) 20, mm_slli_epi32 (d ! 31) 26]])"

definition uSIMD_fastpack7 :: "m128i list \<Rightarrow> m128i list" where
  "uSIMD_fastpack7 inp =
    (let d = map (\<lambda>x. mm_and_si128 x (low_mask 7)) inp in
    [accum128 (d ! 0)
       [mm_slli_epi32 (d ! 1) 7, mm_slli_epi32 (d ! 2) 14, mm_slli_epi32 (d ! 3) 21,
        mm_slli_epi32 (d ! 4) 28],
     accum128 (mm_srli_epi32 (d ! 4) (7 - 3))
       [mm_slli_epi32 (d ! 5) 3, mm_slli_epi32 (d ! 6) 10, mm_slli_epi32 (d ! 7) 17,
        mm_slli_epi32 (d ! 8) 24, mm_slli_epi32 (d ! 9) 31],
     accum128 (mm_srli_epi32 (d ! 9) (7 - 6))
       [mm_slli_epi32 (d ! 10) 6, mm_slli_epi32 (d ! 11) 13, mm_slli_epi32 (d ! 12) 20,
        mm_slli_epi32 (d ! 13) 27],
     accum128 (mm_srli_epi32 (d ! 13) (7 - 2))
       [mm_slli_epi32 (d ! 14) 2, mm_slli_epi32 (d ! 15) 9, mm_slli_epi32 (d ! 16) 16,
        mm_slli_epi32 (d ! 17) 23, mm_slli_epi32 (d ! 18) 30],
     accum128 (mm_srli_epi32 (d ! 18) (7 - 5))
       [mm_slli_epi32 (d ! 19) 5, mm_slli_epi32 (d ! 20) 12, mm_slli_epi32 (d ! 21) 19,
        mm_slli_epi32 (d ! 22) 26],
     accum128 (mm_srli_epi32 (d ! 22) (7 - 1))
       [mm_slli_epi32 (d ! 23) 1, mm_slli_epi32 (d ! 24) 8, mm_slli_epi32 (d ! 25) 15,
        mm_slli_epi32 (d ! 26) 22, mm_slli_epi32 (d ! 27) 29],
     accum128 (mm_srli_epi32 (d ! 27) (7 - 4))
       [mm_slli_epi32 (d ! 28) 4, mm_slli_epi32 (d ! 29) 11, mm_slli_epi32 (d ! 30) 18,
        mm_slli_epi32 (d ! 31) 25]])"

definition uSIMD_fastpack8 :: "m128i list \<Rightarrow> m128i list" where
  "uSIMD_fastpack8 inp =
    (let d = map (\<lambda>x. mm_and_si128 x (low_mask 8)) inp in
    concat (map (\<lambda>outer.
     [accum128 (d ! (4 * outer))
       [mm_slli_epi32 (d ! (4 * outer + 1)) 8, mm_slli_epi32 (d ! (4 * outer + 2)) 16,
        mm_slli_epi32 (d ! (4 * outer + 3)) 24]])
     [0..<8]))"

definition uSIMD_fastpack9 :: "m128i list \<Rightarrow> m128i list" where
  "uSIMD_fastpack9 inp =
    (let d = map (\<lambda>x. mm_and_si128 x (low_mask 9)) inp in
    [accum128 (d ! 0)
       [mm_slli_epi32 (d ! 1) 9, mm_slli_epi32 (d ! 2) 18, mm_slli_epi32 (d ! 3) 27],
     accum128 (mm_srli_epi32 (d ! 3) (9 - 4))
       [mm_slli_epi32 (d ! 4) 4, mm_slli_epi32 (d ! 5) 13, mm_slli_epi32 (d ! 6) 22,
        mm_slli_epi32 (d ! 7) 31],
     accum128 (mm_srli_epi32 (d ! 7) (9 - 8))
       [mm_slli_epi32 (d ! 8) 8, mm_slli_epi32 (d ! 9) 17, mm_slli_epi32 (d ! 10) 26],
     accum128 (mm_srli_epi32 (d ! 10) (9 - 3))
       [mm_slli_epi32 (d ! 11) 3, mm_slli_epi32 (d ! 12) 12, mm_slli_epi32 (d ! 13) 21,
        mm_slli_epi32 (d ! 14) 30],
     accum128 (mm_srli_epi32 (d ! 14) (9 - 7))
       [mm_slli_epi32 (d ! 15) 7, mm_slli_epi32 (d ! 16) 16, mm_slli_epi32 (d ! 17) 25],
     accum128 (mm_srli_epi32 (d ! 17) (9 - 2))
       [mm_slli_epi32 (d ! 18) 2, mm_slli_epi32 (d ! 19) 11, mm_slli_epi32 (d ! 20) 20,
        mm_slli_epi32 (d ! 21) 29],
     accum128 (mm_srli_epi32 (d ! 21) (9 - 6))
       [mm_slli_epi32 (d ! 22) 6, mm_slli_epi32 (d ! 23) 15, mm_slli_epi32 (d ! 24) 24],
     accum128 (mm_srli_epi32 (d ! 24) (9 - 1))
       [mm_slli_epi32 (d ! 25) 1, mm_slli_epi32 (d ! 26) 10, mm_slli_epi32 (d ! 27) 19,
        mm_slli_epi32 (d ! 28) 28],
     accum128 (mm_srli_epi32 (d ! 28) (9 - 5))
       [mm_slli_epi32 (d ! 29) 5, mm_slli_epi32 (d ! 30) 14, mm_slli_epi32 (d ! 31) 23]])"

definition uSIMD_fastpack10 :: "m128i list \<Rightarrow> m128i list" where
  "uSIMD_fastpack10 inp =
    (let d = map (\<lambda>x. mm_and_si128 x (low_mask 10)) inp in
    [accum128 (d ! 0)
       [mm_slli_epi32 (d ! 1) 10, mm_slli_epi32 (d ! 2) 20, mm_slli_epi32 (d ! 3) 30],
     accum128 (mm_srli_epi32 (d ! 3) (10 - 8))
       [mm_slli_epi32 (d ! 4) 8, mm_slli_epi32 (d ! 5) 18, mm_slli_epi32 (d ! 6) 28],
     accum128 (mm_srli_epi32 (d ! 6) (10 - 6))
       [mm_slli_epi32 (d ! 7) 6, mm_slli_epi32 (d ! 8) 16, mm_slli_epi32 (d ! 9) 26],
     accum128 (mm_srli_epi32 (d ! 9) (10 - 4))
       [mm_slli_epi32 (d ! 10) 4, mm_slli_epi32 (d ! 11) 14, mm_slli_epi32 (d ! 12) 24],
     accum128 (mm_srli_epi32 (d ! 12) (10 - 2))
       [mm_slli_epi32 (d ! 13) 2, mm_slli_epi32 (d ! 14) 12, mm_slli_epi32 (d ! 15) 22],
     accum128 (d ! 16)
       [mm_slli_epi32 (d ! 17) 10, mm_slli_epi32 (d ! 18) 20, mm_slli_epi32 (d ! 19) 30],
     accum128 (mm_srli_epi32 (d ! 19) (10 - 8))
       [mm_slli_epi32 (d ! 20) 8, mm_slli_epi32 (d ! 21) 18, mm_slli_epi32 (d ! 22) 28],
     accum128 (mm_srli_epi32 (d ! 22) (10 - 6))
       [mm_slli_epi32 (d ! 23) 6, mm_slli_epi32 (d ! 24) 16, mm_slli_epi32 (d ! 25) 26],
     accum128 (mm_srli_epi32 (d ! 25) (10 - 4))
       [mm_slli_epi32 (d ! 26) 4, mm_slli_epi32 (d ! 27) 14, mm_slli_epi32 (d ! 28) 24],
     accum128 (mm_srli_epi32 (d ! 28) (10 - 2))
       [mm_slli_epi32 (d ! 29) 2, mm_slli_epi32 (d ! 30) 12, mm_slli_epi32 (d ! 31) 22]])"

definition uSIMD_fastpack11 :: "m128i list \<Rightarrow> m128i list" where
  "uSIMD_fastpack11 inp =
    (let d = map (\<lambda>x. mm_and_si128 x (low_mask 11)) inp in
    [accum128 (d ! 0)
       [mm_slli_epi32 (d ! 1) 11, mm_slli_epi32 (d ! 2) 22],
     accum128 (mm_srli_epi32 (d ! 2) (11 - 1))
       [mm_slli_epi32 (d ! 3) 1, mm_slli_epi32 (d ! 4) 12, mm_slli_epi32 (d ! 5) 23],
     accum128 (mm_srli_epi32 (d ! 5) (11 - 2))
       [mm_slli_epi32 (d ! 6) 2, mm_slli_epi32 (d ! 7) 13, mm_slli_epi32 (d ! 8) 24],
     accum128 (mm_srli_epi32 (d ! 8) (11 - 3))
       [mm_slli_epi32 (d ! 9) 3, mm_slli_epi32 (d ! 10) 14, mm_slli_epi32 (d ! 11) 25],
     accum128 (mm_srli_epi32 (d ! 11) (11 - 4))
       [mm_slli_epi32 (d ! 12) 4, mm_slli_epi32 (d ! 13) 15, mm_slli_epi32 (d ! 14) 26],
     accum128 (mm_srli_epi32 (d ! 14) (11 - 5))
       [mm_slli_epi32 (d ! 15) 5, mm_slli_epi32 (d ! 16) 16, mm_slli_epi32 (d ! 17) 27],
     accum128 (mm_srli_epi32 (d ! 17) (11 - 6))
       [mm_slli_epi32 (d ! 18) 6, mm_slli_epi32 (d ! 19) 17, mm_slli_epi32 (d ! 20) 28],
     accum128 (mm_srli_epi32 (d ! 20) (11 - 7))
       [mm_slli_epi32 (d ! 21) 7, mm_slli_epi32 (d ! 22) 18, mm_slli_epi32 (d ! 23) 29],
     accum128 (mm_srli_epi32 (d ! 23) (11 - 8))
       [mm_slli_epi32 (d ! 24) 8, mm_slli_epi32 (d ! 25) 19, mm_slli_epi32 (d ! 26) 30],
     accum128 (mm_srli_epi32 (d ! 26) (11 - 9))
       [mm_slli_epi32 (d ! 27) 9, mm_slli_epi32 (d ! 28) 20, mm_slli_epi32 (d ! 29) 31],
     accum128 (mm_srli_epi32 (d ! 29) (11 - 10))
       [mm_slli_epi32 (d ! 30) 10, mm_slli_epi32 (d ! 31) 21]])"

definition uSIMD_fastpack12 :: "m128i list \<Rightarrow> m128i list" where
  "uSIMD_fastpack12 inp =
    (let d = map (\<lambda>x. mm_and_si128 x (low_mask 12)) inp in
    [accum128 (d ! 0)
       [mm_slli_epi32 (d ! 1) 12, mm_slli_epi32 (d ! 2) 24],
     accum128 (mm_srli_epi32 (d ! 2) (12 - 4))
       [mm_slli_epi32 (d ! 3) 4, mm_slli_epi32 (d ! 4) 16, mm_slli_epi32 (d ! 5) 28],
     accum128 (mm_srli_epi32 (d ! 5) (12 - 8))
       [mm_slli_epi32 (d ! 6) 8, mm_slli_epi32 (d ! 7) 20],
     accum128 (d ! 8)
       [mm_slli_epi32 (d ! 9) 12, mm_slli_epi32 (d ! 10) 24],
     accum128 (mm_srli_epi32 (d ! 10) (12 - 4))
       [mm_slli_epi32 (d ! 11) 4, mm_slli_epi32 (d ! 12) 16, mm_slli_epi32 (d ! 13) 28],
     accum128 (mm_srli_epi32 (d ! 13) (12 - 8))
       [mm_slli_epi32 (d ! 14) 8, mm_slli_epi32 (d ! 15) 20],
     accum128 (d ! 16)
       [mm_slli_epi32 (d ! 17) 12, mm_slli_epi32 (d ! 18) 24],
     accum128 (mm_srli_epi32 (d ! 18) (12 - 4))
       [mm_slli_epi32 (d ! 19) 4, mm_slli_epi32 (d ! 20) 16, mm_slli_epi32 (d ! 21) 28],
     accum128 (mm_srli_epi32 (d ! 21) (12 - 8))
       [mm_slli_epi32 (d ! 22) 8, mm_slli_epi32 (d ! 23) 20],
     accum128 (d ! 24)
       [mm_slli_epi32 (d ! 25) 12, mm_slli_epi32 (d ! 26) 24],
     accum128 (mm_srli_epi32 (d ! 26) (12 - 4))
       [mm_slli_epi32 (d ! 27) 4, mm_slli_epi32 (d ! 28) 16, mm_slli_epi32 (d ! 29) 28],
     accum128 (mm_srli_epi32 (d ! 29) (12 - 8))
       [mm_slli_epi32 (d ! 30) 8, mm_slli_epi32 (d ! 31) 20]])"

definition uSIMD_fastpack13 :: "m128i list \<Rightarrow> m128i list" where
  "uSIMD_fastpack13 inp =
    (let d = map (\<lambda>x. mm_and_si128 x (low_mask 13)) inp in
    [accum128 (d ! 0)
       [mm_slli_epi32 (d ! 1) 13, mm_slli_epi32 (d ! 2) 26],
     accum128 (mm_srli_epi32 (d ! 2) (13 - 7))
       [mm_slli_epi32 (d ! 3) 7, mm_slli_epi32 (d ! 4) 20],
     accum128 (mm_srli_epi32 (d ! 4) (13 - 1))
       [mm_slli_epi32 (d ! 5) 1, mm_slli_epi32 (d ! 6) 14, mm_slli_epi32 (d ! 7) 27],
     accum128 (mm_srli_epi32 (d ! 7) (13 - 8))
       [mm_slli_epi32 (d ! 8) 8, mm_slli_epi32 (d ! 9) 21],
     accum128 (mm_srli_epi32 (d ! 9) (13 - 2))
       [mm_slli_epi32 (d ! 10) 2, mm_slli_epi32 (d ! 11) 15, mm_slli_epi32 (d ! 12) 28],
     accum128 (mm_srli_epi32 (d ! 12) (13 - 9))
       [mm_slli_epi32 (d ! 13) 9, mm_slli_epi32 (d ! 14) 22],
     accum128 (mm_srli_epi32 (d ! 14) (13 - 3))
       [mm_slli_epi32 (d ! 15) 3, mm_slli_epi32 (d ! 16) 16, mm_slli_epi32 (d ! 17) 29],
     accum128 (mm_srli_epi32 (d ! 17) (13 - 10))
       [mm_slli_epi32 (d ! 18) 10, mm_slli_epi32 (d ! 19) 23],
     accum128 (mm_srli_epi32 (d ! 19) (13 - 4))
       [mm_slli_epi32 (d ! 20) 4, mm_slli_epi32 (d ! 21) 17, mm_slli_epi32 (d ! 22) 30],
     accum128 (mm_srli_epi32 (d ! 22) (13 - 11))
       [mm_slli_epi32 (d ! 23) 11, mm_slli_epi32 (d ! 24) 24],
     accum128 (mm_srli_epi32 (d ! 24) (13 - 5))
       [mm_slli_epi32 (d ! 25) 5, mm_slli_epi32 (d ! 26) 18, mm_slli_epi32 (d ! 27) 31],
     accum128 (mm_srli_epi32 (d ! 27) (13 - 12))
       [mm_slli_epi32 (d ! 28) 12, mm_slli_epi32 (d ! 29) 25],
     accum128 (mm_srli_epi32 (d ! 29) (13 - 6))
       [mm_slli_epi32 (d ! 30) 6, mm_slli_epi32 (d ! 31) 19]])"

definition uSIMD_fastpack14 :: "m128i list \<Rightarrow> m128i list" where
  "uSIMD_fastpack14 inp =
    (let d = map (\<lambda>x. mm_and_si128 x (low_mask 14)) inp in
    [accum128 (d ! 0)
       [mm_slli_epi32 (d ! 1) 14, mm_slli_epi32 (d ! 2) 28],
     accum128 (mm_srli_epi32 (d ! 2) (14 - 10))
       [mm_slli_epi32 (d ! 3) 10, mm_slli_epi32 (d ! 4) 24],
     accum128 (mm_srli_epi32 (d ! 4) (14 - 6))
       [mm_slli_epi32 (d ! 5) 6, mm_slli_epi32 (d ! 6) 20],
     accum128 (mm_srli_epi32 (d ! 6) (14 - 2))
       [mm_slli_epi32 (d ! 7) 2, mm_slli_epi32 (d ! 8) 16, mm_slli_epi32 (d ! 9) 30],
     accum128 (mm_srli_epi32 (d ! 9) (14 - 12))
       [mm_slli_epi32 (d ! 10) 12, mm_slli_epi32 (d ! 11) 26],
     accum128 (mm_srli_epi32 (d ! 11) (14 - 8))
       [mm_slli_epi32 (d ! 12) 8, mm_slli_epi32 (d ! 13) 22],
     accum128 (mm_srli_epi32 (d ! 13) (14 - 4))
       [mm_slli_epi32 (d ! 14) 4, mm_slli_epi32 (d ! 15) 18],
     accum128 (d ! 16)
       [mm_slli_epi32 (d ! 17) 14, mm_slli_epi32 (d ! 18) 28],
     accum128 (mm_srli_epi32 (d ! 18) (14 - 10))
       [mm_slli_epi32 (d ! 19) 10, mm_slli_epi32 (d ! 20) 24],
     accum128 (mm_srli_epi32 (d ! 20) (14 - 6))
       [mm_slli_epi32 (d ! 21) 6, mm_slli_epi32 (d ! 22) 20],
     accum128 (mm_srli_epi32 (d ! 22) (14 - 2))
       [mm_slli_epi32 (d ! 23) 2, mm_slli_epi32 (d ! 24) 16, mm_slli_epi32 (d ! 25) 30],
     accum128 (mm_srli_epi32 (d ! 25) (14 - 12))
       [mm_slli_epi32 (d ! 26) 12, mm_slli_epi32 (d ! 27) 26],
     accum128 (mm_srli_epi32 (d ! 27) (14 - 8))
       [mm_slli_epi32 (d ! 28) 8, mm_slli_epi32 (d ! 29) 22],
     accum128 (mm_srli_epi32 (d ! 29) (14 - 4))
       [mm_slli_epi32 (d ! 30) 4, mm_slli_epi32 (d ! 31) 18]])"

definition uSIMD_fastpack15 :: "m128i list \<Rightarrow> m128i list" where
  "uSIMD_fastpack15 inp =
    (let d = map (\<lambda>x. mm_and_si128 x (low_mask 15)) inp in
    [accum128 (d ! 0)
       [mm_slli_epi32 (d ! 1) 15, mm_slli_epi32 (d ! 2) 30],
     accum128 (mm_srli_epi32 (d ! 2) (15 - 13))
       [mm_slli_epi32 (d ! 3) 13, mm_slli_epi32 (d ! 4) 28],
     accum128 (mm_srli_epi32 (d ! 4) (15 - 11))
       [mm_slli_epi32 (d ! 5) 11, mm_slli_epi32 (d ! 6) 26],
     accum128 (mm_srli_epi32 (d ! 6) (15 - 9))
       [mm_slli_epi32 (d ! 7) 9, mm_slli_epi32 (d ! 8) 24],
     accum128 (mm_srli_epi32 (d ! 8) (15 - 7))
       [mm_slli_epi32 (d ! 9) 7, mm_slli_epi32 (d ! 10) 22],
     accum128 (mm_srli_epi32 (d ! 10) (15 - 5))
       [mm_slli_epi32 (d ! 11) 5, mm_slli_epi32 (d ! 12) 20],
     accum128 (mm_srli_epi32 (d ! 12) (15 - 3))
       [mm_slli_epi32 (d ! 13) 3, mm_slli_epi32 (d ! 14) 18],
     accum128 (mm_srli_epi32 (d ! 14) (15 - 1))
       [mm_slli_epi32 (d ! 15) 1, mm_slli_epi32 (d ! 16) 16, mm_slli_epi32 (d ! 17) 31],
     accum128 (mm_srli_epi32 (d ! 17) (15 - 14))
       [mm_slli_epi32 (d ! 18) 14, mm_slli_epi32 (d ! 19) 29],
     accum128 (mm_srli_epi32 (d ! 19) (15 - 12))
       [mm_slli_epi32 (d ! 20) 12, mm_slli_epi32 (d ! 21) 27],
     accum128 (mm_srli_epi32 (d ! 21) (15 - 10))
       [mm_slli_epi32 (d ! 22) 10, mm_slli_epi32 (d ! 23) 25],
     accum128 (mm_srli_epi32 (d ! 23) (15 - 8))
       [mm_slli_epi32 (d ! 24) 8, mm_slli_epi32 (d ! 25) 23],
     accum128 (mm_srli_epi32 (d ! 25) (15 - 6))
       [mm_slli_epi32 (d ! 26) 6, mm_slli_epi32 (d ! 27) 21],
     accum128 (mm_srli_epi32 (d ! 27) (15 - 4))
       [mm_slli_epi32 (d ! 28) 4, mm_slli_epi32 (d ! 29) 19],
     accum128 (mm_srli_epi32 (d ! 29) (15 - 2))
       [mm_slli_epi32 (d ! 30) 2, mm_slli_epi32 (d ! 31) 17]])"

definition uSIMD_fastpack16 :: "m128i list \<Rightarrow> m128i list" where
  "uSIMD_fastpack16 inp =
    (let d = map (\<lambda>x. mm_and_si128 x (low_mask 16)) inp in
    concat (map (\<lambda>outer.
     [accum128 (d ! (2 * outer))
       [mm_slli_epi32 (d ! (2 * outer + 1)) 16]])
     [0..<16]))"

definition uSIMD_fastpack17 :: "m128i list \<Rightarrow> m128i list" where
  "uSIMD_fastpack17 inp =
    (let d = map (\<lambda>x. mm_and_si128 x (low_mask 17)) inp in
    [accum128 (d ! 0)
       [mm_slli_epi32 (d ! 1) 17],
     accum128 (mm_srli_epi32 (d ! 1) (17 - 2))
       [mm_slli_epi32 (d ! 2) 2, mm_slli_epi32 (d ! 3) 19],
     accum128 (mm_srli_epi32 (d ! 3) (17 - 4))
       [mm_slli_epi32 (d ! 4) 4, mm_slli_epi32 (d ! 5) 21],
     accum128 (mm_srli_epi32 (d ! 5) (17 - 6))
       [mm_slli_epi32 (d ! 6) 6, mm_slli_epi32 (d ! 7) 23],
     accum128 (mm_srli_epi32 (d ! 7) (17 - 8))
       [mm_slli_epi32 (d ! 8) 8, mm_slli_epi32 (d ! 9) 25],
     accum128 (mm_srli_epi32 (d ! 9) (17 - 10))
       [mm_slli_epi32 (d ! 10) 10, mm_slli_epi32 (d ! 11) 27],
     accum128 (mm_srli_epi32 (d ! 11) (17 - 12))
       [mm_slli_epi32 (d ! 12) 12, mm_slli_epi32 (d ! 13) 29],
     accum128 (mm_srli_epi32 (d ! 13) (17 - 14))
       [mm_slli_epi32 (d ! 14) 14, mm_slli_epi32 (d ! 15) 31],
     accum128 (mm_srli_epi32 (d ! 15) (17 - 16))
       [mm_slli_epi32 (d ! 16) 16],
     accum128 (mm_srli_epi32 (d ! 16) (17 - 1))
       [mm_slli_epi32 (d ! 17) 1, mm_slli_epi32 (d ! 18) 18],
     accum128 (mm_srli_epi32 (d ! 18) (17 - 3))
       [mm_slli_epi32 (d ! 19) 3, mm_slli_epi32 (d ! 20) 20],
     accum128 (mm_srli_epi32 (d ! 20) (17 - 5))
       [mm_slli_epi32 (d ! 21) 5, mm_slli_epi32 (d ! 22) 22],
     accum128 (mm_srli_epi32 (d ! 22) (17 - 7))
       [mm_slli_epi32 (d ! 23) 7, mm_slli_epi32 (d ! 24) 24],
     accum128 (mm_srli_epi32 (d ! 24) (17 - 9))
       [mm_slli_epi32 (d ! 25) 9, mm_slli_epi32 (d ! 26) 26],
     accum128 (mm_srli_epi32 (d ! 26) (17 - 11))
       [mm_slli_epi32 (d ! 27) 11, mm_slli_epi32 (d ! 28) 28],
     accum128 (mm_srli_epi32 (d ! 28) (17 - 13))
       [mm_slli_epi32 (d ! 29) 13, mm_slli_epi32 (d ! 30) 30],
     accum128 (mm_srli_epi32 (d ! 30) (17 - 15))
       [mm_slli_epi32 (d ! 31) 15]])"

definition uSIMD_fastpack18 :: "m128i list \<Rightarrow> m128i list" where
  "uSIMD_fastpack18 inp =
    (let d = map (\<lambda>x. mm_and_si128 x (low_mask 18)) inp in
    [accum128 (d ! 0)
       [mm_slli_epi32 (d ! 1) 18],
     accum128 (mm_srli_epi32 (d ! 1) (18 - 4))
       [mm_slli_epi32 (d ! 2) 4, mm_slli_epi32 (d ! 3) 22],
     accum128 (mm_srli_epi32 (d ! 3) (18 - 8))
       [mm_slli_epi32 (d ! 4) 8, mm_slli_epi32 (d ! 5) 26],
     accum128 (mm_srli_epi32 (d ! 5) (18 - 12))
       [mm_slli_epi32 (d ! 6) 12, mm_slli_epi32 (d ! 7) 30],
     accum128 (mm_srli_epi32 (d ! 7) (18 - 16))
       [mm_slli_epi32 (d ! 8) 16],
     accum128 (mm_srli_epi32 (d ! 8) (18 - 2))
       [mm_slli_epi32 (d ! 9) 2, mm_slli_epi32 (d ! 10) 20],
     accum128 (mm_srli_epi32 (d ! 10) (18 - 6))
       [mm_slli_epi32 (d ! 11) 6, mm_slli_epi32 (d ! 12) 24],
     accum128 (mm_srli_epi32 (d ! 12) (18 - 10))
       [mm_slli_epi32 (d ! 13) 10, mm_slli_epi32 (d ! 14) 28],
     accum128 (mm_srli_epi32 (d ! 14) (18 - 14))
       [mm_slli_epi32 (d ! 15) 14],
     accum128 (d ! 16)
       [mm_slli_epi32 (d ! 17) 18],
     accum128 (mm_srli_epi32 (d ! 17) (18 - 4))
       [mm_slli_epi32 (d ! 18) 4, mm_slli_epi32 (d ! 19) 22],
     accum128 (mm_srli_epi32 (d ! 19) (18 - 8))
       [mm_slli_epi32 (d ! 20) 8, mm_slli_epi32 (d ! 21) 26],
     accum128 (mm_srli_epi32 (d ! 21) (18 - 12))
       [mm_slli_epi32 (d ! 22) 12, mm_slli_epi32 (d ! 23) 30],
     accum128 (mm_srli_epi32 (d ! 23) (18 - 16))
       [mm_slli_epi32 (d ! 24) 16],
     accum128 (mm_srli_epi32 (d ! 24) (18 - 2))
       [mm_slli_epi32 (d ! 25) 2, mm_slli_epi32 (d ! 26) 20],
     accum128 (mm_srli_epi32 (d ! 26) (18 - 6))
       [mm_slli_epi32 (d ! 27) 6, mm_slli_epi32 (d ! 28) 24],
     accum128 (mm_srli_epi32 (d ! 28) (18 - 10))
       [mm_slli_epi32 (d ! 29) 10, mm_slli_epi32 (d ! 30) 28],
     accum128 (mm_srli_epi32 (d ! 30) (18 - 14))
       [mm_slli_epi32 (d ! 31) 14]])"

definition uSIMD_fastpack19 :: "m128i list \<Rightarrow> m128i list" where
  "uSIMD_fastpack19 inp =
    (let d = map (\<lambda>x. mm_and_si128 x (low_mask 19)) inp in
    [accum128 (d ! 0)
       [mm_slli_epi32 (d ! 1) 19],
     accum128 (mm_srli_epi32 (d ! 1) (19 - 6))
       [mm_slli_epi32 (d ! 2) 6, mm_slli_epi32 (d ! 3) 25],
     accum128 (mm_srli_epi32 (d ! 3) (19 - 12))
       [mm_slli_epi32 (d ! 4) 12, mm_slli_epi32 (d ! 5) 31],
     accum128 (mm_srli_epi32 (d ! 5) (19 - 18))
       [mm_slli_epi32 (d ! 6) 18],
     accum128 (mm_srli_epi32 (d ! 6) (19 - 5))
       [mm_slli_epi32 (d ! 7) 5, mm_slli_epi32 (d ! 8) 24],
     accum128 (mm_srli_epi32 (d ! 8) (19 - 11))
       [mm_slli_epi32 (d ! 9) 11, mm_slli_epi32 (d ! 10) 30],
     accum128 (mm_srli_epi32 (d ! 10) (19 - 17))
       [mm_slli_epi32 (d ! 11) 17],
     accum128 (mm_srli_epi32 (d ! 11) (19 - 4))
       [mm_slli_epi32 (d ! 12) 4, mm_slli_epi32 (d ! 13) 23],
     accum128 (mm_srli_epi32 (d ! 13) (19 - 10))
       [mm_slli_epi32 (d ! 14) 10, mm_slli_epi32 (d ! 15) 29],
     accum128 (mm_srli_epi32 (d ! 15) (19 - 16))
       [mm_slli_epi32 (d ! 16) 16],
     accum128 (mm_srli_epi32 (d ! 16) (19 - 3))
       [mm_slli_epi32 (d ! 17) 3, mm_slli_epi32 (d ! 18) 22],
     accum128 (mm_srli_epi32 (d ! 18) (19 - 9))
       [mm_slli_epi32 (d ! 19) 9, mm_slli_epi32 (d ! 20) 28],
     accum128 (mm_srli_epi32 (d ! 20) (19 - 15))
       [mm_slli_epi32 (d ! 21) 15],
     accum128 (mm_srli_epi32 (d ! 21) (19 - 2))
       [mm_slli_epi32 (d ! 22) 2, mm_slli_epi32 (d ! 23) 21],
     accum128 (mm_srli_epi32 (d ! 23) (19 - 8))
       [mm_slli_epi32 (d ! 24) 8, mm_slli_epi32 (d ! 25) 27],
     accum128 (mm_srli_epi32 (d ! 25) (19 - 14))
       [mm_slli_epi32 (d ! 26) 14],
     accum128 (mm_srli_epi32 (d ! 26) (19 - 1))
       [mm_slli_epi32 (d ! 27) 1, mm_slli_epi32 (d ! 28) 20],
     accum128 (mm_srli_epi32 (d ! 28) (19 - 7))
       [mm_slli_epi32 (d ! 29) 7, mm_slli_epi32 (d ! 30) 26],
     accum128 (mm_srli_epi32 (d ! 30) (19 - 13))
       [mm_slli_epi32 (d ! 31) 13]])"

definition uSIMD_fastpack20 :: "m128i list \<Rightarrow> m128i list" where
  "uSIMD_fastpack20 inp =
    (let d = map (\<lambda>x. mm_and_si128 x (low_mask 20)) inp in
    [accum128 (d ! 0)
       [mm_slli_epi32 (d ! 1) 20],
     accum128 (mm_srli_epi32 (d ! 1) (20 - 8))
       [mm_slli_epi32 (d ! 2) 8, mm_slli_epi32 (d ! 3) 28],
     accum128 (mm_srli_epi32 (d ! 3) (20 - 16))
       [mm_slli_epi32 (d ! 4) 16],
     accum128 (mm_srli_epi32 (d ! 4) (20 - 4))
       [mm_slli_epi32 (d ! 5) 4, mm_slli_epi32 (d ! 6) 24],
     accum128 (mm_srli_epi32 (d ! 6) (20 - 12))
       [mm_slli_epi32 (d ! 7) 12],
     accum128 (d ! 8)
       [mm_slli_epi32 (d ! 9) 20],
     accum128 (mm_srli_epi32 (d ! 9) (20 - 8))
       [mm_slli_epi32 (d ! 10) 8, mm_slli_epi32 (d ! 11) 28],
     accum128 (mm_srli_epi32 (d ! 11) (20 - 16))
       [mm_slli_epi32 (d ! 12) 16],
     accum128 (mm_srli_epi32 (d ! 12) (20 - 4))
       [mm_slli_epi32 (d ! 13) 4, mm_slli_epi32 (d ! 14) 24],
     accum128 (mm_srli_epi32 (d ! 14) (20 - 12))
       [mm_slli_epi32 (d ! 15) 12],
     accum128 (d ! 16)
       [mm_slli_epi32 (d ! 17) 20],
     accum128 (mm_srli_epi32 (d ! 17) (20 - 8))
       [mm_slli_epi32 (d ! 18) 8, mm_slli_epi32 (d ! 19) 28],
     accum128 (mm_srli_epi32 (d ! 19) (20 - 16))
       [mm_slli_epi32 (d ! 20) 16],
     accum128 (mm_srli_epi32 (d ! 20) (20 - 4))
       [mm_slli_epi32 (d ! 21) 4, mm_slli_epi32 (d ! 22) 24],
     accum128 (mm_srli_epi32 (d ! 22) (20 - 12))
       [mm_slli_epi32 (d ! 23) 12],
     accum128 (d ! 24)
       [mm_slli_epi32 (d ! 25) 20],
     accum128 (mm_srli_epi32 (d ! 25) (20 - 8))
       [mm_slli_epi32 (d ! 26) 8, mm_slli_epi32 (d ! 27) 28],
     accum128 (mm_srli_epi32 (d ! 27) (20 - 16))
       [mm_slli_epi32 (d ! 28) 16],
     accum128 (mm_srli_epi32 (d ! 28) (20 - 4))
       [mm_slli_epi32 (d ! 29) 4, mm_slli_epi32 (d ! 30) 24],
     accum128 (mm_srli_epi32 (d ! 30) (20 - 12))
       [mm_slli_epi32 (d ! 31) 12]])"

definition uSIMD_fastpack21 :: "m128i list \<Rightarrow> m128i list" where
  "uSIMD_fastpack21 inp =
    (let d = map (\<lambda>x. mm_and_si128 x (low_mask 21)) inp in
    [accum128 (d ! 0)
       [mm_slli_epi32 (d ! 1) 21],
     accum128 (mm_srli_epi32 (d ! 1) (21 - 10))
       [mm_slli_epi32 (d ! 2) 10, mm_slli_epi32 (d ! 3) 31],
     accum128 (mm_srli_epi32 (d ! 3) (21 - 20))
       [mm_slli_epi32 (d ! 4) 20],
     accum128 (mm_srli_epi32 (d ! 4) (21 - 9))
       [mm_slli_epi32 (d ! 5) 9, mm_slli_epi32 (d ! 6) 30],
     accum128 (mm_srli_epi32 (d ! 6) (21 - 19))
       [mm_slli_epi32 (d ! 7) 19],
     accum128 (mm_srli_epi32 (d ! 7) (21 - 8))
       [mm_slli_epi32 (d ! 8) 8, mm_slli_epi32 (d ! 9) 29],
     accum128 (mm_srli_epi32 (d ! 9) (21 - 18))
       [mm_slli_epi32 (d ! 10) 18],
     accum128 (mm_srli_epi32 (d ! 10) (21 - 7))
       [mm_slli_epi32 (d ! 11) 7, mm_slli_epi32 (d ! 12) 28],
     accum128 (mm_srli_epi32 (d ! 12) (21 - 17))
       [mm_slli_epi32 (d ! 13) 17],
     accum128 (mm_srli_epi32 (d ! 13) (21 - 6))
       [mm_slli_epi32 (d ! 14) 6, mm_slli_epi32 (d ! 15) 27],
     accum128 (mm_srli_epi32 (d ! 15) (21 - 16))
       [mm_slli_epi32 (d ! 16) 16],
     accum128 (mm_srli_epi32 (d ! 16) (21 - 5))
       [mm_slli_epi32 (d ! 17) 5, mm_slli_epi32 (d ! 18) 26],
     accum128 (mm_srli_epi32 (d ! 18) (21 - 15))
       [mm_slli_epi32 (d ! 19) 15],
     accum128 (mm_srli_epi32 (d ! 19) (21 - 4))
       [mm_slli_epi32 (d ! 20) 4, mm_slli_epi32 (d ! 21) 25],
     accum128 (mm_srli_epi32 (d ! 21) (21 - 14))
       [mm_slli_epi32 (d ! 22) 14],
     accum128 (mm_srli_epi32 (d ! 22) (21 - 3))
       [mm_slli_epi32 (d ! 23) 3, mm_slli_epi32 (d ! 24) 24],
     accum128 (mm_srli_epi32 (d ! 24) (21 - 13))
       [mm_slli_epi32 (d ! 25) 13],
     accum128 (mm_srli_epi32 (d ! 25) (21 - 2))
       [mm_slli_epi32 (d ! 26) 2, mm_slli_epi32 (d ! 27) 23],
     accum128 (mm_srli_epi32 (d ! 27) (21 - 12))
       [mm_slli_epi32 (d ! 28) 12],
     accum128 (mm_srli_epi32 (d ! 28) (21 - 1))
       [mm_slli_epi32 (d ! 29) 1, mm_slli_epi32 (d ! 30) 22],
     accum128 (mm_srli_epi32 (d ! 30) (21 - 11))
       [mm_slli_epi32 (d ! 31) 11]])"

definition uSIMD_fastpack22 :: "m128i list \<Rightarrow> m128i list" where
  "uSIMD_fastpack22 inp =
    (let d = map (\<lambda>x. mm_and_si128 x (low_mask 22)) inp in
    [accum128 (d ! 0)
       [mm_slli_epi32 (d ! 1) 22],
     accum128 (mm_srli_epi32 (d ! 1) (22 - 12))
       [mm_slli_epi32 (d ! 2) 12],
     accum128 (mm_srli_epi32 (d ! 2) (22 - 2))
       [mm_slli_epi32 (d ! 3) 2, mm_slli_epi32 (d ! 4) 24],
     accum128 (mm_srli_epi32 (d ! 4) (22 - 14))
       [mm_slli_epi32 (d ! 5) 14],
     accum128 (mm_srli_epi32 (d ! 5) (22 - 4))
       [mm_slli_epi32 (d ! 6) 4, mm_slli_epi32 (d ! 7) 26],
     accum128 (mm_srli_epi32 (d ! 7) (22 - 16))
       [mm_slli_epi32 (d ! 8) 16],
     accum128 (mm_srli_epi32 (d ! 8) (22 - 6))
       [mm_slli_epi32 (d ! 9) 6, mm_slli_epi32 (d ! 10) 28],
     accum128 (mm_srli_epi32 (d ! 10) (22 - 18))
       [mm_slli_epi32 (d ! 11) 18],
     accum128 (mm_srli_epi32 (d ! 11) (22 - 8))
       [mm_slli_epi32 (d ! 12) 8, mm_slli_epi32 (d ! 13) 30],
     accum128 (mm_srli_epi32 (d ! 13) (22 - 20))
       [mm_slli_epi32 (d ! 14) 20],
     accum128 (mm_srli_epi32 (d ! 14) (22 - 10))
       [mm_slli_epi32 (d ! 15) 10],
     accum128 (d ! 16)
       [mm_slli_epi32 (d ! 17) 22],
     accum128 (mm_srli_epi32 (d ! 17) (22 - 12))
       [mm_slli_epi32 (d ! 18) 12],
     accum128 (mm_srli_epi32 (d ! 18) (22 - 2))
       [mm_slli_epi32 (d ! 19) 2, mm_slli_epi32 (d ! 20) 24],
     accum128 (mm_srli_epi32 (d ! 20) (22 - 14))
       [mm_slli_epi32 (d ! 21) 14],
     accum128 (mm_srli_epi32 (d ! 21) (22 - 4))
       [mm_slli_epi32 (d ! 22) 4, mm_slli_epi32 (d ! 23) 26],
     accum128 (mm_srli_epi32 (d ! 23) (22 - 16))
       [mm_slli_epi32 (d ! 24) 16],
     accum128 (mm_srli_epi32 (d ! 24) (22 - 6))
       [mm_slli_epi32 (d ! 25) 6, mm_slli_epi32 (d ! 26) 28],
     accum128 (mm_srli_epi32 (d ! 26) (22 - 18))
       [mm_slli_epi32 (d ! 27) 18],
     accum128 (mm_srli_epi32 (d ! 27) (22 - 8))
       [mm_slli_epi32 (d ! 28) 8, mm_slli_epi32 (d ! 29) 30],
     accum128 (mm_srli_epi32 (d ! 29) (22 - 20))
       [mm_slli_epi32 (d ! 30) 20],
     accum128 (mm_srli_epi32 (d ! 30) (22 - 10))
       [mm_slli_epi32 (d ! 31) 10]])"

definition uSIMD_fastpack23 :: "m128i list \<Rightarrow> m128i list" where
  "uSIMD_fastpack23 inp =
    (let d = map (\<lambda>x. mm_and_si128 x (low_mask 23)) inp in
    [accum128 (d ! 0)
       [mm_slli_epi32 (d ! 1) 23],
     accum128 (mm_srli_epi32 (d ! 1) (23 - 14))
       [mm_slli_epi32 (d ! 2) 14],
     accum128 (mm_srli_epi32 (d ! 2) (23 - 5))
       [mm_slli_epi32 (d ! 3) 5, mm_slli_epi32 (d ! 4) 28],
     accum128 (mm_srli_epi32 (d ! 4) (23 - 19))
       [mm_slli_epi32 (d ! 5) 19],
     accum128 (mm_srli_epi32 (d ! 5) (23 - 10))
       [mm_slli_epi32 (d ! 6) 10],
     accum128 (mm_srli_epi32 (d ! 6) (23 - 1))
       [mm_slli_epi32 (d ! 7) 1, mm_slli_epi32 (d ! 8) 24],
     accum128 (mm_srli_epi32 (d ! 8) (23 - 15))
       [mm_slli_epi32 (d ! 9) 15],
     accum128 (mm_srli_epi32 (d ! 9) (23 - 6))
       [mm_slli_epi32 (d ! 10) 6, mm_slli_epi32 (d ! 11) 29],
     accum128 (mm_srli_epi32 (d ! 11) (23 - 20))
       [mm_slli_epi32 (d ! 12) 20],
     accum128 (mm_srli_epi32 (d ! 12) (23 - 11))
       [mm_slli_epi32 (d ! 13) 11],
     accum128 (mm_srli_epi32 (d ! 13) (23 - 2))
       [mm_slli_epi32 (d ! 14) 2, mm_slli_epi32 (d ! 15) 25],
     accum128 (mm_srli_epi32 (d ! 15) (23 - 16))
       [mm_slli_epi32 (d ! 16) 16],
     accum128 (mm_srli_epi32 (d ! 16) (23 - 7))
       [mm_slli_epi32 (d ! 17) 7, mm_slli_epi32 (d ! 18) 30],
     accum128 (mm_srli_epi32 (d ! 18) (23 - 21))
       [mm_slli_epi32 (d ! 19) 21],
     accum128 (mm_srli_epi32 (d ! 19) (23 - 12))
       [mm_slli_epi32 (d ! 20) 12],
     accum128 (mm_srli_epi32 (d ! 20) (23 - 3))
       [mm_slli_epi32 (d ! 21) 3, mm_slli_epi32 (d ! 22) 26],
     accum128 (mm_srli_epi32 (d ! 22) (23 - 17))
       [mm_slli_epi32 (d ! 23) 17],
     accum128 (mm_srli_epi32 (d ! 23) (23 - 8))
       [mm_slli_epi32 (d ! 24) 8, mm_slli_epi32 (d ! 25) 31],
     accum128 (mm_srli_epi32 (d ! 25) (23 - 22))
       [mm_slli_epi32 (d ! 26) 22],
     accum128 (mm_srli_epi32 (d ! 26) (23 - 13))
       [mm_slli_epi32 (d ! 27) 13],
     accum128 (mm_srli_epi32 (d ! 27) (23 - 4))
       [mm_slli_epi32 (d ! 28) 4, mm_slli_epi32 (d ! 29) 27],
     accum128 (mm_srli_epi32 (d ! 29) (23 - 18))
       [mm_slli_epi32 (d ! 30) 18],
     accum128 (mm_srli_epi32 (d ! 30) (23 - 9))
       [mm_slli_epi32 (d ! 31) 9]])"

definition uSIMD_fastpack24 :: "m128i list \<Rightarrow> m128i list" where
  "uSIMD_fastpack24 inp =
    (let d = map (\<lambda>x. mm_and_si128 x (low_mask 24)) inp in
    [accum128 (d ! 0)
       [mm_slli_epi32 (d ! 1) 24],
     accum128 (mm_srli_epi32 (d ! 1) (24 - 16))
       [mm_slli_epi32 (d ! 2) 16],
     accum128 (mm_srli_epi32 (d ! 2) (24 - 8))
       [mm_slli_epi32 (d ! 3) 8],
     accum128 (d ! 4)
       [mm_slli_epi32 (d ! 5) 24],
     accum128 (mm_srli_epi32 (d ! 5) (24 - 16))
       [mm_slli_epi32 (d ! 6) 16],
     accum128 (mm_srli_epi32 (d ! 6) (24 - 8))
       [mm_slli_epi32 (d ! 7) 8],
     accum128 (d ! 8)
       [mm_slli_epi32 (d ! 9) 24],
     accum128 (mm_srli_epi32 (d ! 9) (24 - 16))
       [mm_slli_epi32 (d ! 10) 16],
     accum128 (mm_srli_epi32 (d ! 10) (24 - 8))
       [mm_slli_epi32 (d ! 11) 8],
     accum128 (d ! 12)
       [mm_slli_epi32 (d ! 13) 24],
     accum128 (mm_srli_epi32 (d ! 13) (24 - 16))
       [mm_slli_epi32 (d ! 14) 16],
     accum128 (mm_srli_epi32 (d ! 14) (24 - 8))
       [mm_slli_epi32 (d ! 15) 8],
     accum128 (d ! 16)
       [mm_slli_epi32 (d ! 17) 24],
     accum128 (mm_srli_epi32 (d ! 17) (24 - 16))
       [mm_slli_epi32 (d ! 18) 16],
     accum128 (mm_srli_epi32 (d ! 18) (24 - 8))
       [mm_slli_epi32 (d ! 19) 8],
     accum128 (d ! 20)
       [mm_slli_epi32 (d ! 21) 24],
     accum128 (mm_srli_epi32 (d ! 21) (24 - 16))
       [mm_slli_epi32 (d ! 22) 16],
     accum128 (mm_srli_epi32 (d ! 22) (24 - 8))
       [mm_slli_epi32 (d ! 23) 8],
     accum128 (d ! 24)
       [mm_slli_epi32 (d ! 25) 24],
     accum128 (mm_srli_epi32 (d ! 25) (24 - 16))
       [mm_slli_epi32 (d ! 26) 16],
     accum128 (mm_srli_epi32 (d ! 26) (24 - 8))
       [mm_slli_epi32 (d ! 27) 8],
     accum128 (d ! 28)
       [mm_slli_epi32 (d ! 29) 24],
     accum128 (mm_srli_epi32 (d ! 29) (24 - 16))
       [mm_slli_epi32 (d ! 30) 16],
     accum128 (mm_srli_epi32 (d ! 30) (24 - 8))
       [mm_slli_epi32 (d ! 31) 8]])"

definition uSIMD_fastpack25 :: "m128i list \<Rightarrow> m128i list" where
  "uSIMD_fastpack25 inp =
    (let d = map (\<lambda>x. mm_and_si128 x (low_mask 25)) inp in
    [accum128 (d ! 0)
       [mm_slli_epi32 (d ! 1) 25],
     accum128 (mm_srli_epi32 (d ! 1) (25 - 18))
       [mm_slli_epi32 (d ! 2) 18],
     accum128 (mm_srli_epi32 (d ! 2) (25 - 11))
       [mm_slli_epi32 (d ! 3) 11],
     accum128 (mm_srli_epi32 (d ! 3) (25 - 4))
       [mm_slli_epi32 (d ! 4) 4, mm_slli_epi32 (d ! 5) 29],
     accum128 (mm_srli_epi32 (d ! 5) (25 - 22))
       [mm_slli_epi32 (d ! 6) 22],
     accum128 (mm_srli_epi32 (d ! 6) (25 - 15))
       [mm_slli_epi32 (d ! 7) 15],
     accum128 (mm_srli_epi32 (d ! 7) (25 - 8))
       [mm_slli_epi32 (d ! 8) 8],
     accum128 (mm_srli_epi32 (d ! 8) (25 - 1))
       [mm_slli_epi32 (d ! 9) 1, mm_slli_epi32 (d ! 10) 26],
     accum128 (mm_srli_epi32 (d ! 10) (25 - 19))
       [mm_slli_epi32 (d ! 11) 19],
     accum128 (mm_srli_epi32 (d ! 11) (25 - 12))
       [mm_slli_epi32 (d ! 12) 12],
     accum128 (mm_srli_epi32 (d ! 12) (25 - 5))
       [mm_slli_epi32 (d ! 13) 5, mm_slli_epi32 (d ! 14) 30],
     accum128 (mm_srli_epi32 (d ! 14) (25 - 23))
       [mm_slli_epi32 (d ! 15) 23],
     accum128 (mm_srli_epi32 (d ! 15) (25 - 16))
       [mm_slli_epi32 (d ! 16) 16],
     accum128 (mm_srli_epi32 (d ! 16) (25 - 9))
       [mm_slli_epi32 (d ! 17) 9],
     accum128 (mm_srli_epi32 (d ! 17) (25 - 2))
       [mm_slli_epi32 (d ! 18) 2, mm_slli_epi32 (d ! 19) 27],
     accum128 (mm_srli_epi32 (d ! 19) (25 - 20))
       [mm_slli_epi32 (d ! 20) 20],
     accum128 (mm_srli_epi32 (d ! 20) (25 - 13))
       [mm_slli_epi32 (d ! 21) 13],
     accum128 (mm_srli_epi32 (d ! 21) (25 - 6))
       [mm_slli_epi32 (d ! 22) 6, mm_slli_epi32 (d ! 23) 31],
     accum128 (mm_srli_epi32 (d ! 23) (25 - 24))
       [mm_slli_epi32 (d ! 24) 24],
     accum128 (mm_srli_epi32 (d ! 24) (25 - 17))
       [mm_slli_epi32 (d ! 25) 17],
     accum128 (mm_srli_epi32 (d ! 25) (25 - 10))
       [mm_slli_epi32 (d ! 26) 10],
     accum128 (mm_srli_epi32 (d ! 26) (25 - 3))
       [mm_slli_epi32 (d ! 27) 3, mm_slli_epi32 (d ! 28) 28],
     accum128 (mm_srli_epi32 (d ! 28) (25 - 21))
       [mm_slli_epi32 (d ! 29) 21],
     accum128 (mm_srli_epi32 (d ! 29) (25 - 14))
       [mm_slli_epi32 (d ! 30) 14],
     accum128 (mm_srli_epi32 (d ! 30) (25 - 7))
       [mm_slli_epi32 (d ! 31) 7]])"

definition uSIMD_fastpack26 :: "m128i list \<Rightarrow> m128i list" where
  "uSIMD_fastpack26 inp =
    (let d = map (\<lambda>x. mm_and_si128 x (low_mask 26)) inp in
    [accum128 (d ! 0)
       [mm_slli_epi32 (d ! 1) 26],
     accum128 (mm_srli_epi32 (d ! 1) (26 - 20))
       [mm_slli_epi32 (d ! 2) 20],
     accum128 (mm_srli_epi32 (d ! 2) (26 - 14))
       [mm_slli_epi32 (d ! 3) 14],
     accum128 (mm_srli_epi32 (d ! 3) (26 - 8))
       [mm_slli_epi32 (d ! 4) 8],
     accum128 (mm_srli_epi32 (d ! 4) (26 - 2))
       [mm_slli_epi32 (d ! 5) 2, mm_slli_epi32 (d ! 6) 28],
     accum128 (mm_srli_epi32 (d ! 6) (26 - 22))
       [mm_slli_epi32 (d ! 7) 22],
     accum128 (mm_srli_epi32 (d ! 7) (26 - 16))
       [mm_slli_epi32 (d ! 8) 16],
     accum128 (mm_srli_epi32 (d ! 8) (26 - 10))
       [mm_slli_epi32 (d ! 9) 10],
     accum128 (mm_srli_epi32 (d ! 9) (26 - 4))
       [mm_slli_epi32 (d ! 10) 4, mm_slli_epi32 (d ! 11) 30],
     accum128 (mm_srli_epi32 (d ! 11) (26 - 24))
       [mm_slli_epi32 (d ! 12) 24],
     accum128 (mm_srli_epi32 (d ! 12) (26 - 18))
       [mm_slli_epi32 (d ! 13) 18],
     accum128 (mm_srli_epi32 (d ! 13) (26 - 12))
       [mm_slli_epi32 (d ! 14) 12],
     accum128 (mm_srli_epi32 (d ! 14) (26 - 6))
       [mm_slli_epi32 (d ! 15) 6],
     accum128 (d ! 16)
       [mm_slli_epi32 (d ! 17) 26],
     accum128 (mm_srli_epi32 (d ! 17) (26 - 20))
       [mm_slli_epi32 (d ! 18) 20],
     accum128 (mm_srli_epi32 (d ! 18) (26 - 14))
       [mm_slli_epi32 (d ! 19) 14],
     accum128 (mm_srli_epi32 (d ! 19) (26 - 8))
       [mm_slli_epi32 (d ! 20) 8],
     accum128 (mm_srli_epi32 (d ! 20) (26 - 2))
       [mm_slli_epi32 (d ! 21) 2, mm_slli_epi32 (d ! 22) 28],
     accum128 (mm_srli_epi32 (d ! 22) (26 - 22))
       [mm_slli_epi32 (d ! 23) 22],
     accum128 (mm_srli_epi32 (d ! 23) (26 - 16))
       [mm_slli_epi32 (d ! 24) 16],
     accum128 (mm_srli_epi32 (d ! 24) (26 - 10))
       [mm_slli_epi32 (d ! 25) 10],
     accum128 (mm_srli_epi32 (d ! 25) (26 - 4))
       [mm_slli_epi32 (d ! 26) 4, mm_slli_epi32 (d ! 27) 30],
     accum128 (mm_srli_epi32 (d ! 27) (26 - 24))
       [mm_slli_epi32 (d ! 28) 24],
     accum128 (mm_srli_epi32 (d ! 28) (26 - 18))
       [mm_slli_epi32 (d ! 29) 18],
     accum128 (mm_srli_epi32 (d ! 29) (26 - 12))
       [mm_slli_epi32 (d ! 30) 12],
     accum128 (mm_srli_epi32 (d ! 30) (26 - 6))
       [mm_slli_epi32 (d ! 31) 6]])"

definition uSIMD_fastpack27 :: "m128i list \<Rightarrow> m128i list" where
  "uSIMD_fastpack27 inp =
    (let d = map (\<lambda>x. mm_and_si128 x (low_mask 27)) inp in
    [accum128 (d ! 0)
       [mm_slli_epi32 (d ! 1) 27],
     accum128 (mm_srli_epi32 (d ! 1) (27 - 22))
       [mm_slli_epi32 (d ! 2) 22],
     accum128 (mm_srli_epi32 (d ! 2) (27 - 17))
       [mm_slli_epi32 (d ! 3) 17],
     accum128 (mm_srli_epi32 (d ! 3) (27 - 12))
       [mm_slli_epi32 (d ! 4) 12],
     accum128 (mm_srli_epi32 (d ! 4) (27 - 7))
       [mm_slli_epi32 (d ! 5) 7],
     accum128 (mm_srli_epi32 (d ! 5) (27 - 2))
       [mm_slli_epi32 (d ! 6) 2, mm_slli_epi32 (d ! 7) 29],
     accum128 (mm_srli_epi32 (d ! 7) (27 - 24))
       [mm_slli_epi32 (d ! 8) 24],
     accum128 (mm_srli_epi32 (d ! 8) (27 - 19))
       [mm_slli_epi32 (d ! 9) 19],
     accum128 (mm_srli_epi32 (d ! 9) (27 - 14))
       [mm_slli_epi32 (d ! 10) 14],
     accum128 (mm_srli_epi32 (d ! 10) (27 - 9))
       [mm_slli_epi32 (d ! 11) 9],
     accum128 (mm_srli_epi32 (d ! 11) (27 - 4))
       [mm_slli_epi32 (d ! 12) 4, mm_slli_epi32 (d ! 13) 31],
     accum128 (mm_srli_epi32 (d ! 13) (27 - 26))
       [mm_slli_epi32 (d ! 14) 26],
     accum128 (mm_srli_epi32 (d ! 14) (27 - 21))
       [mm_slli_epi32 (d ! 15) 21],
     accum128 (mm_srli_epi32 (d ! 15) (27 - 16))
       [mm_slli_epi32 (d ! 16) 16],
     accum128 (mm_srli_epi32 (d ! 16) (27 - 11))
       [mm_slli_epi32 (d ! 17) 11],
     accum128 (mm_srli_epi32 (d ! 17) (27 - 6))
       [mm_slli_epi32 (d ! 18) 6],
     accum128 (mm_srli_epi32 (d ! 18) (27 - 1))
       [mm_slli_epi32 (d ! 19) 1, mm_slli_epi32 (d ! 20) 28],
     accum128 (mm_srli_epi32 (d ! 20) (27 - 23))
       [mm_slli_epi32 (d ! 21) 23],
     accum128 (mm_srli_epi32 (d ! 21) (27 - 18))
       [mm_slli_epi32 (d ! 22) 18],
     accum128 (mm_srli_epi32 (d ! 22) (27 - 13))
       [mm_slli_epi32 (d ! 23) 13],
     accum128 (mm_srli_epi32 (d ! 23) (27 - 8))
       [mm_slli_epi32 (d ! 24) 8],
     accum128 (mm_srli_epi32 (d ! 24) (27 - 3))
       [mm_slli_epi32 (d ! 25) 3, mm_slli_epi32 (d ! 26) 30],
     accum128 (mm_srli_epi32 (d ! 26) (27 - 25))
       [mm_slli_epi32 (d ! 27) 25],
     accum128 (mm_srli_epi32 (d ! 27) (27 - 20))
       [mm_slli_epi32 (d ! 28) 20],
     accum128 (mm_srli_epi32 (d ! 28) (27 - 15))
       [mm_slli_epi32 (d ! 29) 15],
     accum128 (mm_srli_epi32 (d ! 29) (27 - 10))
       [mm_slli_epi32 (d ! 30) 10],
     accum128 (mm_srli_epi32 (d ! 30) (27 - 5))
       [mm_slli_epi32 (d ! 31) 5]])"

definition uSIMD_fastpack28 :: "m128i list \<Rightarrow> m128i list" where
  "uSIMD_fastpack28 inp =
    (let d = map (\<lambda>x. mm_and_si128 x (low_mask 28)) inp in
    [accum128 (d ! 0)
       [mm_slli_epi32 (d ! 1) 28],
     accum128 (mm_srli_epi32 (d ! 1) (28 - 24))
       [mm_slli_epi32 (d ! 2) 24],
     accum128 (mm_srli_epi32 (d ! 2) (28 - 20))
       [mm_slli_epi32 (d ! 3) 20],
     accum128 (mm_srli_epi32 (d ! 3) (28 - 16))
       [mm_slli_epi32 (d ! 4) 16],
     accum128 (mm_srli_epi32 (d ! 4) (28 - 12))
       [mm_slli_epi32 (d ! 5) 12],
     accum128 (mm_srli_epi32 (d ! 5) (28 - 8))
       [mm_slli_epi32 (d ! 6) 8],
     accum128 (mm_srli_epi32 (d ! 6) (28 - 4))
       [mm_slli_epi32 (d ! 7) 4],
     accum128 (d ! 8)
       [mm_slli_epi32 (d ! 9) 28],
     accum128 (mm_srli_epi32 (d ! 9) (28 - 24))
       [mm_slli_epi32 (d ! 10) 24],
     accum128 (mm_srli_epi32 (d ! 10) (28 - 20))
       [mm_slli_epi32 (d ! 11) 20],
     accum128 (mm_srli_epi32 (d ! 11) (28 - 16))
       [mm_slli_epi32 (d ! 12) 16],
     accum128 (mm_srli_epi32 (d ! 12) (28 - 12))
       [mm_slli_epi32 (d ! 13) 12],
     accum128 (mm_srli_epi32 (d ! 13) (28 - 8))
       [mm_slli_epi32 (d ! 14) 8],
     accum128 (mm_srli_epi32 (d ! 14) (28 - 4))
       [mm_slli_epi32 (d ! 15) 4],
     accum128 (d ! 16)
       [mm_slli_epi32 (d ! 17) 28],
     accum128 (mm_srli_epi32 (d ! 17) (28 - 24))
       [mm_slli_epi32 (d ! 18) 24],
     accum128 (mm_srli_epi32 (d ! 18) (28 - 20))
       [mm_slli_epi32 (d ! 19) 20],
     accum128 (mm_srli_epi32 (d ! 19) (28 - 16))
       [mm_slli_epi32 (d ! 20) 16],
     accum128 (mm_srli_epi32 (d ! 20) (28 - 12))
       [mm_slli_epi32 (d ! 21) 12],
     accum128 (mm_srli_epi32 (d ! 21) (28 - 8))
       [mm_slli_epi32 (d ! 22) 8],
     accum128 (mm_srli_epi32 (d ! 22) (28 - 4))
       [mm_slli_epi32 (d ! 23) 4],
     accum128 (d ! 24)
       [mm_slli_epi32 (d ! 25) 28],
     accum128 (mm_srli_epi32 (d ! 25) (28 - 24))
       [mm_slli_epi32 (d ! 26) 24],
     accum128 (mm_srli_epi32 (d ! 26) (28 - 20))
       [mm_slli_epi32 (d ! 27) 20],
     accum128 (mm_srli_epi32 (d ! 27) (28 - 16))
       [mm_slli_epi32 (d ! 28) 16],
     accum128 (mm_srli_epi32 (d ! 28) (28 - 12))
       [mm_slli_epi32 (d ! 29) 12],
     accum128 (mm_srli_epi32 (d ! 29) (28 - 8))
       [mm_slli_epi32 (d ! 30) 8],
     accum128 (mm_srli_epi32 (d ! 30) (28 - 4))
       [mm_slli_epi32 (d ! 31) 4]])"

definition uSIMD_fastpack29 :: "m128i list \<Rightarrow> m128i list" where
  "uSIMD_fastpack29 inp =
    (let d = map (\<lambda>x. mm_and_si128 x (low_mask 29)) inp in
    [accum128 (d ! 0)
       [mm_slli_epi32 (d ! 1) 29],
     accum128 (mm_srli_epi32 (d ! 1) (29 - 26))
       [mm_slli_epi32 (d ! 2) 26],
     accum128 (mm_srli_epi32 (d ! 2) (29 - 23))
       [mm_slli_epi32 (d ! 3) 23],
     accum128 (mm_srli_epi32 (d ! 3) (29 - 20))
       [mm_slli_epi32 (d ! 4) 20],
     accum128 (mm_srli_epi32 (d ! 4) (29 - 17))
       [mm_slli_epi32 (d ! 5) 17],
     accum128 (mm_srli_epi32 (d ! 5) (29 - 14))
       [mm_slli_epi32 (d ! 6) 14],
     accum128 (mm_srli_epi32 (d ! 6) (29 - 11))
       [mm_slli_epi32 (d ! 7) 11],
     accum128 (mm_srli_epi32 (d ! 7) (29 - 8))
       [mm_slli_epi32 (d ! 8) 8],
     accum128 (mm_srli_epi32 (d ! 8) (29 - 5))
       [mm_slli_epi32 (d ! 9) 5],
     accum128 (mm_srli_epi32 (d ! 9) (29 - 2))
       [mm_slli_epi32 (d ! 10) 2, mm_slli_epi32 (d ! 11) 31],
     accum128 (mm_srli_epi32 (d ! 11) (29 - 28))
       [mm_slli_epi32 (d ! 12) 28],
     accum128 (mm_srli_epi32 (d ! 12) (29 - 25))
       [mm_slli_epi32 (d ! 13) 25],
     accum128 (mm_srli_epi32 (d ! 13) (29 - 22))
       [mm_slli_epi32 (d ! 14) 22],
     accum128 (mm_srli_epi32 (d ! 14) (29 - 19))
       [mm_slli_epi32 (d ! 15) 19],
     accum128 (mm_srli_epi32 (d ! 15) (29 - 16))
       [mm_slli_epi32 (d ! 16) 16],
     accum128 (mm_srli_epi32 (d ! 16) (29 - 13))
       [mm_slli_epi32 (d ! 17) 13],
     accum128 (mm_srli_epi32 (d ! 17) (29 - 10))
       [mm_slli_epi32 (d ! 18) 10],
     accum128 (mm_srli_epi32 (d ! 18) (29 - 7))
       [mm_slli_epi32 (d ! 19) 7],
     accum128 (mm_srli_epi32 (d ! 19) (29 - 4))
       [mm_slli_epi32 (d ! 20) 4],
     accum128 (mm_srli_epi32 (d ! 20) (29 - 1))
       [mm_slli_epi32 (d ! 21) 1, mm_slli_epi32 (d ! 22) 30],
     accum128 (mm_srli_epi32 (d ! 22) (29 - 27))
       [mm_slli_epi32 (d ! 23) 27],
     accum128 (mm_srli_epi32 (d ! 23) (29 - 24))
       [mm_slli_epi32 (d ! 24) 24],
     accum128 (mm_srli_epi32 (d ! 24) (29 - 21))
       [mm_slli_epi32 (d ! 25) 21],
     accum128 (mm_srli_epi32 (d ! 25) (29 - 18))
       [mm_slli_epi32 (d ! 26) 18],
     accum128 (mm_srli_epi32 (d ! 26) (29 - 15))
       [mm_slli_epi32 (d ! 27) 15],
     accum128 (mm_srli_epi32 (d ! 27) (29 - 12))
       [mm_slli_epi32 (d ! 28) 12],
     accum128 (mm_srli_epi32 (d ! 28) (29 - 9))
       [mm_slli_epi32 (d ! 29) 9],
     accum128 (mm_srli_epi32 (d ! 29) (29 - 6))
       [mm_slli_epi32 (d ! 30) 6],
     accum128 (mm_srli_epi32 (d ! 30) (29 - 3))
       [mm_slli_epi32 (d ! 31) 3]])"

definition uSIMD_fastpack30 :: "m128i list \<Rightarrow> m128i list" where
  "uSIMD_fastpack30 inp =
    (let d = map (\<lambda>x. mm_and_si128 x (low_mask 30)) inp in
    [accum128 (d ! 0)
       [mm_slli_epi32 (d ! 1) 30],
     accum128 (mm_srli_epi32 (d ! 1) (30 - 28))
       [mm_slli_epi32 (d ! 2) 28],
     accum128 (mm_srli_epi32 (d ! 2) (30 - 26))
       [mm_slli_epi32 (d ! 3) 26],
     accum128 (mm_srli_epi32 (d ! 3) (30 - 24))
       [mm_slli_epi32 (d ! 4) 24],
     accum128 (mm_srli_epi32 (d ! 4) (30 - 22))
       [mm_slli_epi32 (d ! 5) 22],
     accum128 (mm_srli_epi32 (d ! 5) (30 - 20))
       [mm_slli_epi32 (d ! 6) 20],
     accum128 (mm_srli_epi32 (d ! 6) (30 - 18))
       [mm_slli_epi32 (d ! 7) 18],
     accum128 (mm_srli_epi32 (d ! 7) (30 - 16))
       [mm_slli_epi32 (d ! 8) 16],
     accum128 (mm_srli_epi32 (d ! 8) (30 - 14))
       [mm_slli_epi32 (d ! 9) 14],
     accum128 (mm_srli_epi32 (d ! 9) (30 - 12))
       [mm_slli_epi32 (d ! 10) 12],
     accum128 (mm_srli_epi32 (d ! 10) (30 - 10))
       [mm_slli_epi32 (d ! 11) 10],
     accum128 (mm_srli_epi32 (d ! 11) (30 - 8))
       [mm_slli_epi32 (d ! 12) 8],
     accum128 (mm_srli_epi32 (d ! 12) (30 - 6))
       [mm_slli_epi32 (d ! 13) 6],
     accum128 (mm_srli_epi32 (d ! 13) (30 - 4))
       [mm_slli_epi32 (d ! 14) 4],
     accum128 (mm_srli_epi32 (d ! 14) (30 - 2))
       [mm_slli_epi32 (d ! 15) 2],
     accum128 (d ! 16)
       [mm_slli_epi32 (d ! 17) 30],
     accum128 (mm_srli_epi32 (d ! 17) (30 - 28))
       [mm_slli_epi32 (d ! 18) 28],
     accum128 (mm_srli_epi32 (d ! 18) (30 - 26))
       [mm_slli_epi32 (d ! 19) 26],
     accum128 (mm_srli_epi32 (d ! 19) (30 - 24))
       [mm_slli_epi32 (d ! 20) 24],
     accum128 (mm_srli_epi32 (d ! 20) (30 - 22))
       [mm_slli_epi32 (d ! 21) 22],
     accum128 (mm_srli_epi32 (d ! 21) (30 - 20))
       [mm_slli_epi32 (d ! 22) 20],
     accum128 (mm_srli_epi32 (d ! 22) (30 - 18))
       [mm_slli_epi32 (d ! 23) 18],
     accum128 (mm_srli_epi32 (d ! 23) (30 - 16))
       [mm_slli_epi32 (d ! 24) 16],
     accum128 (mm_srli_epi32 (d ! 24) (30 - 14))
       [mm_slli_epi32 (d ! 25) 14],
     accum128 (mm_srli_epi32 (d ! 25) (30 - 12))
       [mm_slli_epi32 (d ! 26) 12],
     accum128 (mm_srli_epi32 (d ! 26) (30 - 10))
       [mm_slli_epi32 (d ! 27) 10],
     accum128 (mm_srli_epi32 (d ! 27) (30 - 8))
       [mm_slli_epi32 (d ! 28) 8],
     accum128 (mm_srli_epi32 (d ! 28) (30 - 6))
       [mm_slli_epi32 (d ! 29) 6],
     accum128 (mm_srli_epi32 (d ! 29) (30 - 4))
       [mm_slli_epi32 (d ! 30) 4],
     accum128 (mm_srli_epi32 (d ! 30) (30 - 2))
       [mm_slli_epi32 (d ! 31) 2]])"

definition uSIMD_fastpack31 :: "m128i list \<Rightarrow> m128i list" where
  "uSIMD_fastpack31 inp =
    (let d = map (\<lambda>x. mm_and_si128 x (low_mask 31)) inp in
    [accum128 (d ! 0)
       [mm_slli_epi32 (d ! 1) 31],
     accum128 (mm_srli_epi32 (d ! 1) (31 - 30))
       [mm_slli_epi32 (d ! 2) 30],
     accum128 (mm_srli_epi32 (d ! 2) (31 - 29))
       [mm_slli_epi32 (d ! 3) 29],
     accum128 (mm_srli_epi32 (d ! 3) (31 - 28))
       [mm_slli_epi32 (d ! 4) 28],
     accum128 (mm_srli_epi32 (d ! 4) (31 - 27))
       [mm_slli_epi32 (d ! 5) 27],
     accum128 (mm_srli_epi32 (d ! 5) (31 - 26))
       [mm_slli_epi32 (d ! 6) 26],
     accum128 (mm_srli_epi32 (d ! 6) (31 - 25))
       [mm_slli_epi32 (d ! 7) 25],
     accum128 (mm_srli_epi32 (d ! 7) (31 - 24))
       [mm_slli_epi32 (d ! 8) 24],
     accum128 (mm_srli_epi32 (d ! 8) (31 - 23))
       [mm_slli_epi32 (d ! 9) 23],
     accum128 (mm_srli_epi32 (d ! 9) (31 - 22))
       [mm_slli_epi32 (d ! 10) 22],
     accum128 (mm_srli_epi32 (d ! 10) (31 - 21))
       [mm_slli_epi32 (d ! 11) 21],
     accum128 (mm_srli_epi32 (d ! 11) (31 - 20))
       [mm_slli_epi32 (d ! 12) 20],
     accum128 (mm_srli_epi32 (d ! 12) (31 - 19))
       [mm_slli_epi32 (d ! 13) 19],
     accum128 (mm_srli_epi32 (d ! 13) (31 - 18))
       [mm_slli_epi32 (d ! 14) 18],
     accum128 (mm_srli_epi32 (d ! 14) (31 - 17))
       [mm_slli_epi32 (d ! 15) 17],
     accum128 (mm_srli_epi32 (d ! 15) (31 - 16))
       [mm_slli_epi32 (d ! 16) 16],
     accum128 (mm_srli_epi32 (d ! 16) (31 - 15))
       [mm_slli_epi32 (d ! 17) 15],
     accum128 (mm_srli_epi32 (d ! 17) (31 - 14))
       [mm_slli_epi32 (d ! 18) 14],
     accum128 (mm_srli_epi32 (d ! 18) (31 - 13))
       [mm_slli_epi32 (d ! 19) 13],
     accum128 (mm_srli_epi32 (d ! 19) (31 - 12))
       [mm_slli_epi32 (d ! 20) 12],
     accum128 (mm_srli_epi32 (d ! 20) (31 - 11))
       [mm_slli_epi32 (d ! 21) 11],
     accum128 (mm_srli_epi32 (d ! 21) (31 - 10))
       [mm_slli_epi32 (d ! 22) 10],
     accum128 (mm_srli_epi32 (d ! 22) (31 - 9))
       [mm_slli_epi32 (d ! 23) 9],
     accum128 (mm_srli_epi32 (d ! 23) (31 - 8))
       [mm_slli_epi32 (d ! 24) 8],
     accum128 (mm_srli_epi32 (d ! 24) (31 - 7))
       [mm_slli_epi32 (d ! 25) 7],
     accum128 (mm_srli_epi32 (d ! 25) (31 - 6))
       [mm_slli_epi32 (d ! 26) 6],
     accum128 (mm_srli_epi32 (d ! 26) (31 - 5))
       [mm_slli_epi32 (d ! 27) 5],
     accum128 (mm_srli_epi32 (d ! 27) (31 - 4))
       [mm_slli_epi32 (d ! 28) 4],
     accum128 (mm_srli_epi32 (d ! 28) (31 - 3))
       [mm_slli_epi32 (d ! 29) 3],
     accum128 (mm_srli_epi32 (d ! 29) (31 - 2))
       [mm_slli_epi32 (d ! 30) 2],
     accum128 (mm_srli_epi32 (d ! 30) (31 - 1))
       [mm_slli_epi32 (d ! 31) 1]])"

definition uSIMD_fastpack32 :: "m128i list \<Rightarrow> m128i list" where
  "uSIMD_fastpack32 inp =
    [inp ! 0, inp ! 1, inp ! 2, inp ! 3, inp ! 4, inp ! 5, inp ! 6, inp ! 7, inp ! 8, inp ! 9,
     inp ! 10, inp ! 11, inp ! 12, inp ! 13, inp ! 14, inp ! 15, inp ! 16, inp ! 17, inp ! 18,
     inp ! 19, inp ! 20, inp ! 21, inp ! 22, inp ! 23, inp ! 24, inp ! 25, inp ! 26, inp ! 27,
     inp ! 28, inp ! 29, inp ! 30, inp ! 31]"

definition uSIMD_fastunpack1 :: "m128i list \<Rightarrow> m128i list" where
  "uSIMD_fastunpack1 inp =
    (let mask = mm_set1_epi32 1 in concat (map (\<lambda>i.
     [mm_and_si128 (mm_srli_epi32 (inp ! 0) (4 * i)) mask,
      mm_and_si128 (mm_srli_epi32 (inp ! 0) (4 * i + 1)) mask,
      mm_and_si128 (mm_srli_epi32 (inp ! 0) (4 * i + 2)) mask,
      mm_and_si128 (mm_srli_epi32 (inp ! 0) (4 * i + 3)) mask]) [0..<8]))"

definition uSIMD_fastunpack2 :: "m128i list \<Rightarrow> m128i list" where
  "uSIMD_fastunpack2 inp =
    (let mask = low_mask 2 in
    [mm_and_si128 (inp ! 0) mask, mm_and_si128 (mm_srli_epi32 (inp ! 0) 2) mask,
     mm_and_si128 (mm_srli_epi32 (inp ! 0) 4) mask,
     mm_and_si128 (mm_srli_epi32 (inp ! 0) 6) mask,
     mm_and_si128 (mm_srli_epi32 (inp ! 0) 8) mask,
     mm_and_si128 (mm_srli_epi32 (inp ! 0) 10) mask,
     mm_and_si128 (mm_srli_epi32 (inp ! 0) 12) mask,
     mm_and_si128 (mm_srli_epi32 (inp ! 0) 14) mask,
     mm_and_si128 (mm_srli_epi32 (inp ! 0) 16) mask,
     mm_and_si128 (mm_srli_epi32 (inp ! 0) 18) mask,
     mm_and_si128 (mm_srli_epi32 (inp ! 0) 20) mask,
     mm_and_si128 (mm_srli_epi32 (inp ! 0) 22) mask,
     mm_and_si128 (mm_srli_epi32 (inp ! 0) 24) mask,
     mm_and_si128 (mm_srli_epi32 (inp ! 0) 26) mask,
     mm_and_si128 (mm_srli_epi32 (inp ! 0) 28) mask, mm_srli_epi32 (inp ! 0) 30,
     mm_and_si128 (inp ! 1) mask, mm_and_si128 (mm_srli_epi32 (inp ! 1) 2) mask,
     mm_and_si128 (mm_srli_epi32 (inp ! 1) 4) mask,
     mm_and_si128 (mm_srli_epi32 (inp ! 1) 6) mask,
     mm_and_si128 (mm_srli_epi32 (inp ! 1) 8) mask,
     mm_and_si128 (mm_srli_epi32 (inp ! 1) 10) mask,
     mm_and_si128 (mm_srli_epi32 (inp ! 1) 12) mask,
     mm_and_si128 (mm_srli_epi32 (inp ! 1) 14) mask,
     mm_and_si128 (mm_srli_epi32 (inp ! 1) 16) mask,
     mm_and_si128 (mm_srli_epi32 (inp ! 1) 18) mask,
     mm_and_si128 (mm_srli_epi32 (inp ! 1) 20) mask,
     mm_and_si128 (mm_srli_epi32 (inp ! 1) 22) mask,
     mm_and_si128 (mm_srli_epi32 (inp ! 1) 24) mask,
     mm_and_si128 (mm_srli_epi32 (inp ! 1) 26) mask,
     mm_and_si128 (mm_srli_epi32 (inp ! 1) 28) mask, mm_srli_epi32 (inp ! 1) 30])"

definition uSIMD_fastunpack3 :: "m128i list \<Rightarrow> m128i list" where
  "uSIMD_fastunpack3 inp =
    (let mask = low_mask 3 in
    [mm_and_si128 (inp ! 0) mask, mm_and_si128 (mm_srli_epi32 (inp ! 0) 3) mask,
     mm_and_si128 (mm_srli_epi32 (inp ! 0) 6) mask,
     mm_and_si128 (mm_srli_epi32 (inp ! 0) 9) mask,
     mm_and_si128 (mm_srli_epi32 (inp ! 0) 12) mask,
     mm_and_si128 (mm_srli_epi32 (inp ! 0) 15) mask,
     mm_and_si128 (mm_srli_epi32 (inp ! 0) 18) mask,
     mm_and_si128 (mm_srli_epi32 (inp ! 0) 21) mask,
     mm_and_si128 (mm_srli_epi32 (inp ! 0) 24) mask,
     mm_and_si128 (mm_srli_epi32 (inp ! 0) 27) mask,
     mm_or_si128 (mm_srli_epi32 (inp ! 0) 30) (mm_and_si128 (mm_slli_epi32 (inp ! 1) (3 - 1)) mask),
     mm_and_si128 (mm_srli_epi32 (inp ! 1) 1) mask,
     mm_and_si128 (mm_srli_epi32 (inp ! 1) 4) mask,
     mm_and_si128 (mm_srli_epi32 (inp ! 1) 7) mask,
     mm_and_si128 (mm_srli_epi32 (inp ! 1) 10) mask,
     mm_and_si128 (mm_srli_epi32 (inp ! 1) 13) mask,
     mm_and_si128 (mm_srli_epi32 (inp ! 1) 16) mask,
     mm_and_si128 (mm_srli_epi32 (inp ! 1) 19) mask,
     mm_and_si128 (mm_srli_epi32 (inp ! 1) 22) mask,
     mm_and_si128 (mm_srli_epi32 (inp ! 1) 25) mask,
     mm_and_si128 (mm_srli_epi32 (inp ! 1) 28) mask,
     mm_or_si128 (mm_srli_epi32 (inp ! 1) 31) (mm_and_si128 (mm_slli_epi32 (inp ! 2) (3 - 2)) mask),
     mm_and_si128 (mm_srli_epi32 (inp ! 2) 2) mask,
     mm_and_si128 (mm_srli_epi32 (inp ! 2) 5) mask,
     mm_and_si128 (mm_srli_epi32 (inp ! 2) 8) mask,
     mm_and_si128 (mm_srli_epi32 (inp ! 2) 11) mask,
     mm_and_si128 (mm_srli_epi32 (inp ! 2) 14) mask,
     mm_and_si128 (mm_srli_epi32 (inp ! 2) 17) mask,
     mm_and_si128 (mm_srli_epi32 (inp ! 2) 20) mask,
     mm_and_si128 (mm_srli_epi32 (inp ! 2) 23) mask,
     mm_and_si128 (mm_srli_epi32 (inp ! 2) 26) mask, mm_srli_epi32 (inp ! 2) 29])"

definition uSIMD_fastunpack4 :: "m128i list \<Rightarrow> m128i list" where
  "uSIMD_fastunpack4 inp =
    (let mask = low_mask 4 in
    [mm_and_si128 (inp ! 0) mask, mm_and_si128 (mm_srli_epi32 (inp ! 0) 4) mask,
     mm_and_si128 (mm_srli_epi32 (inp ! 0) 8) mask,
     mm_and_si128 (mm_srli_epi32 (inp ! 0) 12) mask,
     mm_and_si128 (mm_srli_epi32 (inp ! 0) 16) mask,
     mm_and_si128 (mm_srli_epi32 (inp ! 0) 20) mask,
     mm_and_si128 (mm_srli_epi32 (inp ! 0) 24) mask, mm_srli_epi32 (inp ! 0) 28,
     mm_and_si128 (inp ! 1) mask, mm_and_si128 (mm_srli_epi32 (inp ! 1) 4) mask,
     mm_and_si128 (mm_srli_epi32 (inp ! 1) 8) mask,
     mm_and_si128 (mm_srli_epi32 (inp ! 1) 12) mask,
     mm_and_si128 (mm_srli_epi32 (inp ! 1) 16) mask,
     mm_and_si128 (mm_srli_epi32 (inp ! 1) 20) mask,
     mm_and_si128 (mm_srli_epi32 (inp ! 1) 24) mask, mm_srli_epi32 (inp ! 1) 28,
     mm_and_si128 (inp ! 2) mask, mm_and_si128 (mm_srli_epi32 (inp ! 2) 4) mask,
     mm_and_si128 (mm_srli_epi32 (inp ! 2) 8) mask,
     mm_and_si128 (mm_srli_epi32 (inp ! 2) 12) mask,
     mm_and_si128 (mm_srli_epi32 (inp ! 2) 16) mask,
     mm_and_si128 (mm_srli_epi32 (inp ! 2) 20) mask,
     mm_and_si128 (mm_srli_epi32 (inp ! 2) 24) mask, mm_srli_epi32 (inp ! 2) 28,
     mm_and_si128 (inp ! 3) mask, mm_and_si128 (mm_srli_epi32 (inp ! 3) 4) mask,
     mm_and_si128 (mm_srli_epi32 (inp ! 3) 8) mask,
     mm_and_si128 (mm_srli_epi32 (inp ! 3) 12) mask,
     mm_and_si128 (mm_srli_epi32 (inp ! 3) 16) mask,
     mm_and_si128 (mm_srli_epi32 (inp ! 3) 20) mask,
     mm_and_si128 (mm_srli_epi32 (inp ! 3) 24) mask, mm_srli_epi32 (inp ! 3) 28])"

definition uSIMD_fastunpack5 :: "m128i list \<Rightarrow> m128i list" where
  "uSIMD_fastunpack5 inp =
    (let mask = low_mask 5 in
    [mm_and_si128 (inp ! 0) mask, mm_and_si128 (mm_srli_epi32 (inp ! 0) 5) mask,
     mm_and_si128 (mm_srli_epi32 (inp ! 0) 10) mask,
     mm_and_si128 (mm_srli_epi32 (inp ! 0) 15) mask,
     mm_and_si128 (mm_srli_epi32 (inp ! 0) 20) mask,
     mm_and_si128 (mm_srli_epi32 (inp ! 0) 25) mask,
     mm_or_si128 (mm_srli_epi32 (inp ! 0) 30) (mm_and_si128 (mm_slli_epi32 (inp ! 1) (5 - 3)) mask),
     mm_and_si128 (mm_srli_epi32 (inp ! 1) 3) mask,
     mm_and_si128 (mm_srli_epi32 (inp ! 1) 8) mask,
     mm_and_si128 (mm_srli_epi32 (inp ! 1) 13) mask,
     mm_and_si128 (mm_srli_epi32 (inp ! 1) 18) mask,
     mm_and_si128 (mm_srli_epi32 (inp ! 1) 23) mask,
     mm_or_si128 (mm_srli_epi32 (inp ! 1) 28) (mm_and_si128 (mm_slli_epi32 (inp ! 2) (5 - 1)) mask),
     mm_and_si128 (mm_srli_epi32 (inp ! 2) 1) mask,
     mm_and_si128 (mm_srli_epi32 (inp ! 2) 6) mask,
     mm_and_si128 (mm_srli_epi32 (inp ! 2) 11) mask,
     mm_and_si128 (mm_srli_epi32 (inp ! 2) 16) mask,
     mm_and_si128 (mm_srli_epi32 (inp ! 2) 21) mask,
     mm_and_si128 (mm_srli_epi32 (inp ! 2) 26) mask,
     mm_or_si128 (mm_srli_epi32 (inp ! 2) 31) (mm_and_si128 (mm_slli_epi32 (inp ! 3) (5 - 4)) mask),
     mm_and_si128 (mm_srli_epi32 (inp ! 3) 4) mask,
     mm_and_si128 (mm_srli_epi32 (inp ! 3) 9) mask,
     mm_and_si128 (mm_srli_epi32 (inp ! 3) 14) mask,
     mm_and_si128 (mm_srli_epi32 (inp ! 3) 19) mask,
     mm_and_si128 (mm_srli_epi32 (inp ! 3) 24) mask,
     mm_or_si128 (mm_srli_epi32 (inp ! 3) 29) (mm_and_si128 (mm_slli_epi32 (inp ! 4) (5 - 2)) mask),
     mm_and_si128 (mm_srli_epi32 (inp ! 4) 2) mask,
     mm_and_si128 (mm_srli_epi32 (inp ! 4) 7) mask,
     mm_and_si128 (mm_srli_epi32 (inp ! 4) 12) mask,
     mm_and_si128 (mm_srli_epi32 (inp ! 4) 17) mask,
     mm_and_si128 (mm_srli_epi32 (inp ! 4) 22) mask, mm_srli_epi32 (inp ! 4) 27])"

definition uSIMD_fastunpack6 :: "m128i list \<Rightarrow> m128i list" where
  "uSIMD_fastunpack6 inp =
    (let mask = low_mask 6 in
    [mm_and_si128 (inp ! 0) mask, mm_and_si128 (mm_srli_epi32 (inp ! 0) 6) mask,
     mm_and_si128 (mm_srli_epi32 (inp ! 0) 12) mask,
     mm_and_si128 (mm_srli_epi32 (inp ! 0) 18) mask,
     mm_and_si128 (mm_srli_epi32 (inp ! 0) 24) mask,
     mm_or_si128 (mm_srli_epi32 (inp ! 0) 30) (mm_and_si128 (mm_slli_epi32 (inp ! 1) (6 - 4)) mask),
     mm_and_si128 (mm_srli_epi32 (inp ! 1) 4) mask,
     mm_and_si128 (mm_srli_epi32 (inp ! 1) 10) mask,
     mm_and_si128 (mm_srli_epi32 (inp ! 1) 16) mask,
     mm_and_si128 (mm_srli_epi32 (inp ! 1) 22) mask,
     mm_or_si128 (mm_srli_epi32 (inp ! 1) 28) (mm_and_si128 (mm_slli_epi32 (inp ! 2) (6 - 2)) mask),
     mm_and_si128 (mm_srli_epi32 (inp ! 2) 2) mask,
     mm_and_si128 (mm_srli_epi32 (inp ! 2) 8) mask,
     mm_and_si128 (mm_srli_epi32 (inp ! 2) 14) mask,
     mm_and_si128 (mm_srli_epi32 (inp ! 2) 20) mask, mm_srli_epi32 (inp ! 2) 26,
     mm_and_si128 (inp ! 3) mask, mm_and_si128 (mm_srli_epi32 (inp ! 3) 6) mask,
     mm_and_si128 (mm_srli_epi32 (inp ! 3) 12) mask,
     mm_and_si128 (mm_srli_epi32 (inp ! 3) 18) mask,
     mm_and_si128 (mm_srli_epi32 (inp ! 3) 24) mask,
     mm_or_si128 (mm_srli_epi32 (inp ! 3) 30) (mm_and_si128 (mm_slli_epi32 (inp ! 4) (6 - 4)) mask),
     mm_and_si128 (mm_srli_epi32 (inp ! 4) 4) mask,
     mm_and_si128 (mm_srli_epi32 (inp ! 4) 10) mask,
     mm_and_si128 (mm_srli_epi32 (inp ! 4) 16) mask,
     mm_and_si128 (mm_srli_epi32 (inp ! 4) 22) mask,
     mm_or_si128 (mm_srli_epi32 (inp ! 4) 28) (mm_and_si128 (mm_slli_epi32 (inp ! 5) (6 - 2)) mask),
     mm_and_si128 (mm_srli_epi32 (inp ! 5) 2) mask,
     mm_and_si128 (mm_srli_epi32 (inp ! 5) 8) mask,
     mm_and_si128 (mm_srli_epi32 (inp ! 5) 14) mask,
     mm_and_si128 (mm_srli_epi32 (inp ! 5) 20) mask, mm_srli_epi32 (inp ! 5) 26])"

definition uSIMD_fastunpack7 :: "m128i list \<Rightarrow> m128i list" where
  "uSIMD_fastunpack7 inp =
    (let mask = low_mask 7 in
    [mm_and_si128 (inp ! 0) mask, mm_and_si128 (mm_srli_epi32 (inp ! 0) 7) mask,
     mm_and_si128 (mm_srli_epi32 (inp ! 0) 14) mask,
     mm_and_si128 (mm_srli_epi32 (inp ! 0) 21) mask,
     mm_or_si128 (mm_srli_epi32 (inp ! 0) 28) (mm_and_si128 (mm_slli_epi32 (inp ! 1) (7 - 3)) mask),
     mm_and_si128 (mm_srli_epi32 (inp ! 1) 3) mask,
     mm_and_si128 (mm_srli_epi32 (inp ! 1) 10) mask,
     mm_and_si128 (mm_srli_epi32 (inp ! 1) 17) mask,
     mm_and_si128 (mm_srli_epi32 (inp ! 1) 24) mask,
     mm_or_si128 (mm_srli_epi32 (inp ! 1) 31) (mm_and_si128 (mm_slli_epi32 (inp ! 2) (7 - 6)) mask),
     mm_and_si128 (mm_srli_epi32 (inp ! 2) 6) mask,
     mm_and_si128 (mm_srli_epi32 (inp ! 2) 13) mask,
     mm_and_si128 (mm_srli_epi32 (inp ! 2) 20) mask,
     mm_or_si128 (mm_srli_epi32 (inp ! 2) 27) (mm_and_si128 (mm_slli_epi32 (inp ! 3) (7 - 2)) mask),
     mm_and_si128 (mm_srli_epi32 (inp ! 3) 2) mask,
     mm_and_si128 (mm_srli_epi32 (inp ! 3) 9) mask,
     mm_and_si128 (mm_srli_epi32 (inp ! 3) 16) mask,
     mm_and_si128 (mm_srli_epi32 (inp ! 3) 23) mask,
     mm_or_si128 (mm_srli_epi32 (inp ! 3) 30) (mm_and_si128 (mm_slli_epi32 (inp ! 4) (7 - 5)) mask),
     mm_and_si128 (mm_srli_epi32 (inp ! 4) 5) mask,
     mm_and_si128 (mm_srli_epi32 (inp ! 4) 12) mask,
     mm_and_si128 (mm_srli_epi32 (inp ! 4) 19) mask,
     mm_or_si128 (mm_srli_epi32 (inp ! 4) 26) (mm_and_si128 (mm_slli_epi32 (inp ! 5) (7 - 1)) mask),
     mm_and_si128 (mm_srli_epi32 (inp ! 5) 1) mask,
     mm_and_si128 (mm_srli_epi32 (inp ! 5) 8) mask,
     mm_and_si128 (mm_srli_epi32 (inp ! 5) 15) mask,
     mm_and_si128 (mm_srli_epi32 (inp ! 5) 22) mask,
     mm_or_si128 (mm_srli_epi32 (inp ! 5) 29) (mm_and_si128 (mm_slli_epi32 (inp ! 6) (7 - 4)) mask),
     mm_and_si128 (mm_srli_epi32 (inp ! 6) 4) mask,
     mm_and_si128 (mm_srli_epi32 (inp ! 6) 11) mask,
     mm_and_si128 (mm_srli_epi32 (inp ! 6) 18) mask, mm_srli_epi32 (inp ! 6) 25])"

definition uSIMD_fastunpack8 :: "m128i list \<Rightarrow> m128i list" where
  "uSIMD_fastunpack8 inp =
    (let mask = low_mask 8 in
    [mm_and_si128 (inp ! 0) mask, mm_and_si128 (mm_srli_epi32 (inp ! 0) 8) mask,
     mm_and_si128 (mm_srli_epi32 (inp ! 0) 16) mask, mm_srli_epi32 (inp ! 0) 24,
     mm_and_si128 (inp ! 1) mask, mm_and_si128 (mm_srli_epi32 (inp ! 1) 8) mask,
     mm_and_si128 (mm_srli_epi32 (inp ! 1) 16) mask, mm_srli_epi32 (inp ! 1) 24,
     mm_and_si128 (inp ! 2) mask, mm_and_si128 (mm_srli_epi32 (inp ! 2) 8) mask,
     mm_and_si128 (mm_srli_epi32 (inp ! 2) 16) mask, mm_srli_epi32 (inp ! 2) 24,
     mm_and_si128 (inp ! 3) mask, mm_and_si128 (mm_srli_epi32 (inp ! 3) 8) mask,
     mm_and_si128 (mm_srli_epi32 (inp ! 3) 16) mask, mm_srli_epi32 (inp ! 3) 24,
     mm_and_si128 (inp ! 4) mask, mm_and_si128 (mm_srli_epi32 (inp ! 4) 8) mask,
     mm_and_si128 (mm_srli_epi32 (inp ! 4) 16) mask, mm_srli_epi32 (inp ! 4) 24,
     mm_and_si128 (inp ! 5) mask, mm_and_si128 (mm_srli_epi32 (inp ! 5) 8) mask,
     mm_and_si128 (mm_srli_epi32 (inp ! 5) 16) mask, mm_srli_epi32 (inp ! 5) 24,
     mm_and_si128 (inp ! 6) mask, mm_and_si128 (mm_srli_epi32 (inp ! 6) 8) mask,
     mm_and_si128 (mm_srli_epi32 (inp ! 6) 16) mask, mm_srli_epi32 (inp ! 6) 24,
     mm_and_si128 (inp ! 7) mask, mm_and_si128 (mm_srli_epi32 (inp ! 7) 8) mask,
     mm_and_si128 (mm_srli_epi32 (inp ! 7) 16) mask, mm_srli_epi32 (inp ! 7) 24])"

definition uSIMD_fastunpack9 :: "m128i list \<Rightarrow> m128i list" where
  "uSIMD_fastunpack9 inp =
    (let mask = low_mask 9 in
    [mm_and_si128 (inp ! 0) mask, mm_and_si128 (mm_srli_epi32 (inp ! 0) 9) mask,
     mm_and_si128 (mm_srli_epi32 (inp ! 0) 18) mask,
     mm_or_si128 (mm_srli_epi32 (inp ! 0) 27) (mm_and_si128 (mm_slli_epi32 (inp ! 1) (9 - 4)) mask),
     mm_and_si128 (mm_srli_epi32 (inp ! 1) 4) mask,
     mm_and_si128 (mm_srli_epi32 (inp ! 1) 13) mask,
     mm_and_si128 (mm_srli_epi32 (inp ! 1) 22) mask,
     mm_or_si128 (mm_srli_epi32 (inp ! 1) 31) (mm_and_si128 (mm_slli_epi32 (inp ! 2) (9 - 8)) mask),
     mm_and_si128 (mm_srli_epi32 (inp ! 2) 8) mask,
     mm_and_si128 (mm_srli_epi32 (inp ! 2) 17) mask,
     mm_or_si128 (mm_srli_epi32 (inp ! 2) 26) (mm_and_si128 (mm_slli_epi32 (inp ! 3) (9 - 3)) mask),
     mm_and_si128 (mm_srli_epi32 (inp ! 3) 3) mask,
     mm_and_si128 (mm_srli_epi32 (inp ! 3) 12) mask,
     mm_and_si128 (mm_srli_epi32 (inp ! 3) 21) mask,
     mm_or_si128 (mm_srli_epi32 (inp ! 3) 30) (mm_and_si128 (mm_slli_epi32 (inp ! 4) (9 - 7)) mask),
     mm_and_si128 (mm_srli_epi32 (inp ! 4) 7) mask,
     mm_and_si128 (mm_srli_epi32 (inp ! 4) 16) mask,
     mm_or_si128 (mm_srli_epi32 (inp ! 4) 25) (mm_and_si128 (mm_slli_epi32 (inp ! 5) (9 - 2)) mask),
     mm_and_si128 (mm_srli_epi32 (inp ! 5) 2) mask,
     mm_and_si128 (mm_srli_epi32 (inp ! 5) 11) mask,
     mm_and_si128 (mm_srli_epi32 (inp ! 5) 20) mask,
     mm_or_si128 (mm_srli_epi32 (inp ! 5) 29) (mm_and_si128 (mm_slli_epi32 (inp ! 6) (9 - 6)) mask),
     mm_and_si128 (mm_srli_epi32 (inp ! 6) 6) mask,
     mm_and_si128 (mm_srli_epi32 (inp ! 6) 15) mask,
     mm_or_si128 (mm_srli_epi32 (inp ! 6) 24) (mm_and_si128 (mm_slli_epi32 (inp ! 7) (9 - 1)) mask),
     mm_and_si128 (mm_srli_epi32 (inp ! 7) 1) mask,
     mm_and_si128 (mm_srli_epi32 (inp ! 7) 10) mask,
     mm_and_si128 (mm_srli_epi32 (inp ! 7) 19) mask,
     mm_or_si128 (mm_srli_epi32 (inp ! 7) 28) (mm_and_si128 (mm_slli_epi32 (inp ! 8) (9 - 5)) mask),
     mm_and_si128 (mm_srli_epi32 (inp ! 8) 5) mask,
     mm_and_si128 (mm_srli_epi32 (inp ! 8) 14) mask, mm_srli_epi32 (inp ! 8) 23])"

definition uSIMD_fastunpack10 :: "m128i list \<Rightarrow> m128i list" where
  "uSIMD_fastunpack10 inp =
    (let mask = low_mask 10 in
    [mm_and_si128 (inp ! 0) mask, mm_and_si128 (mm_srli_epi32 (inp ! 0) 10) mask,
     mm_and_si128 (mm_srli_epi32 (inp ! 0) 20) mask,
     mm_or_si128 (mm_srli_epi32 (inp ! 0) 30) (mm_and_si128 (mm_slli_epi32 (inp ! 1) (10 - 8)) mask),
     mm_and_si128 (mm_srli_epi32 (inp ! 1) 8) mask,
     mm_and_si128 (mm_srli_epi32 (inp ! 1) 18) mask,
     mm_or_si128 (mm_srli_epi32 (inp ! 1) 28) (mm_and_si128 (mm_slli_epi32 (inp ! 2) (10 - 6)) mask),
     mm_and_si128 (mm_srli_epi32 (inp ! 2) 6) mask,
     mm_and_si128 (mm_srli_epi32 (inp ! 2) 16) mask,
     mm_or_si128 (mm_srli_epi32 (inp ! 2) 26) (mm_and_si128 (mm_slli_epi32 (inp ! 3) (10 - 4)) mask),
     mm_and_si128 (mm_srli_epi32 (inp ! 3) 4) mask,
     mm_and_si128 (mm_srli_epi32 (inp ! 3) 14) mask,
     mm_or_si128 (mm_srli_epi32 (inp ! 3) 24) (mm_and_si128 (mm_slli_epi32 (inp ! 4) (10 - 2)) mask),
     mm_and_si128 (mm_srli_epi32 (inp ! 4) 2) mask,
     mm_and_si128 (mm_srli_epi32 (inp ! 4) 12) mask, mm_srli_epi32 (inp ! 4) 22,
     mm_and_si128 (inp ! 5) mask, mm_and_si128 (mm_srli_epi32 (inp ! 5) 10) mask,
     mm_and_si128 (mm_srli_epi32 (inp ! 5) 20) mask,
     mm_or_si128 (mm_srli_epi32 (inp ! 5) 30) (mm_and_si128 (mm_slli_epi32 (inp ! 6) (10 - 8)) mask),
     mm_and_si128 (mm_srli_epi32 (inp ! 6) 8) mask,
     mm_and_si128 (mm_srli_epi32 (inp ! 6) 18) mask,
     mm_or_si128 (mm_srli_epi32 (inp ! 6) 28) (mm_and_si128 (mm_slli_epi32 (inp ! 7) (10 - 6)) mask),
     mm_and_si128 (mm_srli_epi32 (inp ! 7) 6) mask,
     mm_and_si128 (mm_srli_epi32 (inp ! 7) 16) mask,
     mm_or_si128 (mm_srli_epi32 (inp ! 7) 26) (mm_and_si128 (mm_slli_epi32 (inp ! 8) (10 - 4)) mask),
     mm_and_si128 (mm_srli_epi32 (inp ! 8) 4) mask,
     mm_and_si128 (mm_srli_epi32 (inp ! 8) 14) mask,
     mm_or_si128 (mm_srli_epi32 (inp ! 8) 24) (mm_and_si128 (mm_slli_epi32 (inp ! 9) (10 - 2)) mask),
     mm_and_si128 (mm_srli_epi32 (inp ! 9) 2) mask,
     mm_and_si128 (mm_srli_epi32 (inp ! 9) 12) mask, mm_srli_epi32 (inp ! 9) 22])"

definition uSIMD_fastunpack11 :: "m128i list \<Rightarrow> m128i list" where
  "uSIMD_fastunpack11 inp =
    (let mask = low_mask 11 in
    [mm_and_si128 (inp ! 0) mask, mm_and_si128 (mm_srli_epi32 (inp ! 0) 11) mask,
     mm_or_si128 (mm_srli_epi32 (inp ! 0) 22) (mm_and_si128 (mm_slli_epi32 (inp ! 1) (11 - 1)) mask),
     mm_and_si128 (mm_srli_epi32 (inp ! 1) 1) mask,
     mm_and_si128 (mm_srli_epi32 (inp ! 1) 12) mask,
     mm_or_si128 (mm_srli_epi32 (inp ! 1) 23) (mm_and_si128 (mm_slli_epi32 (inp ! 2) (11 - 2)) mask),
     mm_and_si128 (mm_srli_epi32 (inp ! 2) 2) mask,
     mm_and_si128 (mm_srli_epi32 (inp ! 2) 13) mask,
     mm_or_si128 (mm_srli_epi32 (inp ! 2) 24) (mm_and_si128 (mm_slli_epi32 (inp ! 3) (11 - 3)) mask),
     mm_and_si128 (mm_srli_epi32 (inp ! 3) 3) mask,
     mm_and_si128 (mm_srli_epi32 (inp ! 3) 14) mask,
     mm_or_si128 (mm_srli_epi32 (inp ! 3) 25) (mm_and_si128 (mm_slli_epi32 (inp ! 4) (11 - 4)) mask),
     mm_and_si128 (mm_srli_epi32 (inp ! 4) 4) mask,
     mm_and_si128 (mm_srli_epi32 (inp ! 4) 15) mask,
     mm_or_si128 (mm_srli_epi32 (inp ! 4) 26) (mm_and_si128 (mm_slli_epi32 (inp ! 5) (11 - 5)) mask),
     mm_and_si128 (mm_srli_epi32 (inp ! 5) 5) mask,
     mm_and_si128 (mm_srli_epi32 (inp ! 5) 16) mask,
     mm_or_si128 (mm_srli_epi32 (inp ! 5) 27) (mm_and_si128 (mm_slli_epi32 (inp ! 6) (11 - 6)) mask),
     mm_and_si128 (mm_srli_epi32 (inp ! 6) 6) mask,
     mm_and_si128 (mm_srli_epi32 (inp ! 6) 17) mask,
     mm_or_si128 (mm_srli_epi32 (inp ! 6) 28) (mm_and_si128 (mm_slli_epi32 (inp ! 7) (11 - 7)) mask),
     mm_and_si128 (mm_srli_epi32 (inp ! 7) 7) mask,
     mm_and_si128 (mm_srli_epi32 (inp ! 7) 18) mask,
     mm_or_si128 (mm_srli_epi32 (inp ! 7) 29) (mm_and_si128 (mm_slli_epi32 (inp ! 8) (11 - 8)) mask),
     mm_and_si128 (mm_srli_epi32 (inp ! 8) 8) mask,
     mm_and_si128 (mm_srli_epi32 (inp ! 8) 19) mask,
     mm_or_si128 (mm_srli_epi32 (inp ! 8) 30) (mm_and_si128 (mm_slli_epi32 (inp ! 9) (11 - 9)) mask),
     mm_and_si128 (mm_srli_epi32 (inp ! 9) 9) mask,
     mm_and_si128 (mm_srli_epi32 (inp ! 9) 20) mask,
     mm_or_si128 (mm_srli_epi32 (inp ! 9) 31) (mm_and_si128 (mm_slli_epi32 (inp ! 10) (11 - 10)) mask),
     mm_and_si128 (mm_srli_epi32 (inp ! 10) 10) mask, mm_srli_epi32 (inp ! 10) 21])"

definition uSIMD_fastunpack12 :: "m128i list \<Rightarrow> m128i list" where
  "uSIMD_fastunpack12 inp =
    (let mask = low_mask 12 in
    [mm_and_si128 (inp ! 0) mask, mm_and_si128 (mm_srli_epi32 (inp ! 0) 12) mask,
     mm_or_si128 (mm_srli_epi32 (inp ! 0) 24) (mm_and_si128 (mm_slli_epi32 (inp ! 1) (12 - 4)) mask),
     mm_and_si128 (mm_srli_epi32 (inp ! 1) 4) mask,
     mm_and_si128 (mm_srli_epi32 (inp ! 1) 16) mask,
     mm_or_si128 (mm_srli_epi32 (inp ! 1) 28) (mm_and_si128 (mm_slli_epi32 (inp ! 2) (12 - 8)) mask),
     mm_and_si128 (mm_srli_epi32 (inp ! 2) 8) mask, mm_srli_epi32 (inp ! 2) 20,
     mm_and_si128 (inp ! 3) mask, mm_and_si128 (mm_srli_epi32 (inp ! 3) 12) mask,
     mm_or_si128 (mm_srli_epi32 (inp ! 3) 24) (mm_and_si128 (mm_slli_epi32 (inp ! 4) (12 - 4)) mask),
     mm_and_si128 (mm_srli_epi32 (inp ! 4) 4) mask,
     mm_and_si128 (mm_srli_epi32 (inp ! 4) 16) mask,
     mm_or_si128 (mm_srli_epi32 (inp ! 4) 28) (mm_and_si128 (mm_slli_epi32 (inp ! 5) (12 - 8)) mask),
     mm_and_si128 (mm_srli_epi32 (inp ! 5) 8) mask, mm_srli_epi32 (inp ! 5) 20,
     mm_and_si128 (inp ! 6) mask, mm_and_si128 (mm_srli_epi32 (inp ! 6) 12) mask,
     mm_or_si128 (mm_srli_epi32 (inp ! 6) 24) (mm_and_si128 (mm_slli_epi32 (inp ! 7) (12 - 4)) mask),
     mm_and_si128 (mm_srli_epi32 (inp ! 7) 4) mask,
     mm_and_si128 (mm_srli_epi32 (inp ! 7) 16) mask,
     mm_or_si128 (mm_srli_epi32 (inp ! 7) 28) (mm_and_si128 (mm_slli_epi32 (inp ! 8) (12 - 8)) mask),
     mm_and_si128 (mm_srli_epi32 (inp ! 8) 8) mask, mm_srli_epi32 (inp ! 8) 20,
     mm_and_si128 (inp ! 9) mask, mm_and_si128 (mm_srli_epi32 (inp ! 9) 12) mask,
     mm_or_si128 (mm_srli_epi32 (inp ! 9) 24) (mm_and_si128 (mm_slli_epi32 (inp ! 10) (12 - 4)) mask),
     mm_and_si128 (mm_srli_epi32 (inp ! 10) 4) mask,
     mm_and_si128 (mm_srli_epi32 (inp ! 10) 16) mask,
     mm_or_si128 (mm_srli_epi32 (inp ! 10) 28) (mm_and_si128 (mm_slli_epi32 (inp ! 11) (12 - 8)) mask),
     mm_and_si128 (mm_srli_epi32 (inp ! 11) 8) mask, mm_srli_epi32 (inp ! 11) 20])"

definition uSIMD_fastunpack13 :: "m128i list \<Rightarrow> m128i list" where
  "uSIMD_fastunpack13 inp =
    (let mask = low_mask 13 in
    [mm_and_si128 (inp ! 0) mask, mm_and_si128 (mm_srli_epi32 (inp ! 0) 13) mask,
     mm_or_si128 (mm_srli_epi32 (inp ! 0) 26) (mm_and_si128 (mm_slli_epi32 (inp ! 1) (13 - 7)) mask),
     mm_and_si128 (mm_srli_epi32 (inp ! 1) 7) mask,
     mm_or_si128 (mm_srli_epi32 (inp ! 1) 20) (mm_and_si128 (mm_slli_epi32 (inp ! 2) (13 - 1)) mask),
     mm_and_si128 (mm_srli_epi32 (inp ! 2) 1) mask,
     mm_and_si128 (mm_srli_epi32 (inp ! 2) 14) mask,
     mm_or_si128 (mm_srli_epi32 (inp ! 2) 27) (mm_and_si128 (mm_slli_epi32 (inp ! 3) (13 - 8)) mask),
     mm_and_si128 (mm_srli_epi32 (inp ! 3) 8) mask,
     mm_or_si128 (mm_srli_epi32 (inp ! 3) 21) (mm_and_si128 (mm_slli_epi32 (inp ! 4) (13 - 2)) mask),
     mm_and_si128 (mm_srli_epi32 (inp ! 4) 2) mask,
     mm_and_si128 (mm_srli_epi32 (inp ! 4) 15) mask,
     mm_or_si128 (mm_srli_epi32 (inp ! 4) 28) (mm_and_si128 (mm_slli_epi32 (inp ! 5) (13 - 9)) mask),
     mm_and_si128 (mm_srli_epi32 (inp ! 5) 9) mask,
     mm_or_si128 (mm_srli_epi32 (inp ! 5) 22) (mm_and_si128 (mm_slli_epi32 (inp ! 6) (13 - 3)) mask),
     mm_and_si128 (mm_srli_epi32 (inp ! 6) 3) mask,
     mm_and_si128 (mm_srli_epi32 (inp ! 6) 16) mask,
     mm_or_si128 (mm_srli_epi32 (inp ! 6) 29) (mm_and_si128 (mm_slli_epi32 (inp ! 7) (13 - 10)) mask),
     mm_and_si128 (mm_srli_epi32 (inp ! 7) 10) mask,
     mm_or_si128 (mm_srli_epi32 (inp ! 7) 23) (mm_and_si128 (mm_slli_epi32 (inp ! 8) (13 - 4)) mask),
     mm_and_si128 (mm_srli_epi32 (inp ! 8) 4) mask,
     mm_and_si128 (mm_srli_epi32 (inp ! 8) 17) mask,
     mm_or_si128 (mm_srli_epi32 (inp ! 8) 30) (mm_and_si128 (mm_slli_epi32 (inp ! 9) (13 - 11)) mask),
     mm_and_si128 (mm_srli_epi32 (inp ! 9) 11) mask,
     mm_or_si128 (mm_srli_epi32 (inp ! 9) 24) (mm_and_si128 (mm_slli_epi32 (inp ! 10) (13 - 5)) mask),
     mm_and_si128 (mm_srli_epi32 (inp ! 10) 5) mask,
     mm_and_si128 (mm_srli_epi32 (inp ! 10) 18) mask,
     mm_or_si128 (mm_srli_epi32 (inp ! 10) 31) (mm_and_si128 (mm_slli_epi32 (inp ! 11) (13 - 12)) mask),
     mm_and_si128 (mm_srli_epi32 (inp ! 11) 12) mask,
     mm_or_si128 (mm_srli_epi32 (inp ! 11) 25) (mm_and_si128 (mm_slli_epi32 (inp ! 12) (13 - 6)) mask),
     mm_and_si128 (mm_srli_epi32 (inp ! 12) 6) mask, mm_srli_epi32 (inp ! 12) 19])"

definition uSIMD_fastunpack14 :: "m128i list \<Rightarrow> m128i list" where
  "uSIMD_fastunpack14 inp =
    (let mask = low_mask 14 in
    [mm_and_si128 (inp ! 0) mask, mm_and_si128 (mm_srli_epi32 (inp ! 0) 14) mask,
     mm_or_si128 (mm_srli_epi32 (inp ! 0) 28) (mm_and_si128 (mm_slli_epi32 (inp ! 1) (14 - 10)) mask),
     mm_and_si128 (mm_srli_epi32 (inp ! 1) 10) mask,
     mm_or_si128 (mm_srli_epi32 (inp ! 1) 24) (mm_and_si128 (mm_slli_epi32 (inp ! 2) (14 - 6)) mask),
     mm_and_si128 (mm_srli_epi32 (inp ! 2) 6) mask,
     mm_or_si128 (mm_srli_epi32 (inp ! 2) 20) (mm_and_si128 (mm_slli_epi32 (inp ! 3) (14 - 2)) mask),
     mm_and_si128 (mm_srli_epi32 (inp ! 3) 2) mask,
     mm_and_si128 (mm_srli_epi32 (inp ! 3) 16) mask,
     mm_or_si128 (mm_srli_epi32 (inp ! 3) 30) (mm_and_si128 (mm_slli_epi32 (inp ! 4) (14 - 12)) mask),
     mm_and_si128 (mm_srli_epi32 (inp ! 4) 12) mask,
     mm_or_si128 (mm_srli_epi32 (inp ! 4) 26) (mm_and_si128 (mm_slli_epi32 (inp ! 5) (14 - 8)) mask),
     mm_and_si128 (mm_srli_epi32 (inp ! 5) 8) mask,
     mm_or_si128 (mm_srli_epi32 (inp ! 5) 22) (mm_and_si128 (mm_slli_epi32 (inp ! 6) (14 - 4)) mask),
     mm_and_si128 (mm_srli_epi32 (inp ! 6) 4) mask, mm_srli_epi32 (inp ! 6) 18,
     mm_and_si128 (inp ! 7) mask, mm_and_si128 (mm_srli_epi32 (inp ! 7) 14) mask,
     mm_or_si128 (mm_srli_epi32 (inp ! 7) 28) (mm_and_si128 (mm_slli_epi32 (inp ! 8) (14 - 10)) mask),
     mm_and_si128 (mm_srli_epi32 (inp ! 8) 10) mask,
     mm_or_si128 (mm_srli_epi32 (inp ! 8) 24) (mm_and_si128 (mm_slli_epi32 (inp ! 9) (14 - 6)) mask),
     mm_and_si128 (mm_srli_epi32 (inp ! 9) 6) mask,
     mm_or_si128 (mm_srli_epi32 (inp ! 9) 20) (mm_and_si128 (mm_slli_epi32 (inp ! 10) (14 - 2)) mask),
     mm_and_si128 (mm_srli_epi32 (inp ! 10) 2) mask,
     mm_and_si128 (mm_srli_epi32 (inp ! 10) 16) mask,
     mm_or_si128 (mm_srli_epi32 (inp ! 10) 30) (mm_and_si128 (mm_slli_epi32 (inp ! 11) (14 - 12)) mask),
     mm_and_si128 (mm_srli_epi32 (inp ! 11) 12) mask,
     mm_or_si128 (mm_srli_epi32 (inp ! 11) 26) (mm_and_si128 (mm_slli_epi32 (inp ! 12) (14 - 8)) mask),
     mm_and_si128 (mm_srli_epi32 (inp ! 12) 8) mask,
     mm_or_si128 (mm_srli_epi32 (inp ! 12) 22) (mm_and_si128 (mm_slli_epi32 (inp ! 13) (14 - 4)) mask),
     mm_and_si128 (mm_srli_epi32 (inp ! 13) 4) mask, mm_srli_epi32 (inp ! 13) 18])"

definition uSIMD_fastunpack15 :: "m128i list \<Rightarrow> m128i list" where
  "uSIMD_fastunpack15 inp =
    (let mask = low_mask 15 in
    [mm_and_si128 (inp ! 0) mask, mm_and_si128 (mm_srli_epi32 (inp ! 0) 15) mask,
     mm_or_si128 (mm_srli_epi32 (inp ! 0) 30) (mm_and_si128 (mm_slli_epi32 (inp ! 1) (15 - 13)) mask),
     mm_and_si128 (mm_srli_epi32 (inp ! 1) 13) mask,
     mm_or_si128 (mm_srli_epi32 (inp ! 1) 28) (mm_and_si128 (mm_slli_epi32 (inp ! 2) (15 - 11)) mask),
     mm_and_si128 (mm_srli_epi32 (inp ! 2) 11) mask,
     mm_or_si128 (mm_srli_epi32 (inp ! 2) 26) (mm_and_si128 (mm_slli_epi32 (inp ! 3) (15 - 9)) mask),
     mm_and_si128 (mm_srli_epi32 (inp ! 3) 9) mask,
     mm_or_si128 (mm_srli_epi32 (inp ! 3) 24) (mm_and_si128 (mm_slli_epi32 (inp ! 4) (15 - 7)) mask),
     mm_and_si128 (mm_srli_epi32 (inp ! 4) 7) mask,
     mm_or_si128 (mm_srli_epi32 (inp ! 4) 22) (mm_and_si128 (mm_slli_epi32 (inp ! 5) (15 - 5)) mask),
     mm_and_si128 (mm_srli_epi32 (inp ! 5) 5) mask,
     mm_or_si128 (mm_srli_epi32 (inp ! 5) 20) (mm_and_si128 (mm_slli_epi32 (inp ! 6) (15 - 3)) mask),
     mm_and_si128 (mm_srli_epi32 (inp ! 6) 3) mask,
     mm_or_si128 (mm_srli_epi32 (inp ! 6) 18) (mm_and_si128 (mm_slli_epi32 (inp ! 7) (15 - 1)) mask),
     mm_and_si128 (mm_srli_epi32 (inp ! 7) 1) mask,
     mm_and_si128 (mm_srli_epi32 (inp ! 7) 16) mask,
     mm_or_si128 (mm_srli_epi32 (inp ! 7) 31) (mm_and_si128 (mm_slli_epi32 (inp ! 8) (15 - 14)) mask),
     mm_and_si128 (mm_srli_epi32 (inp ! 8) 14) mask,
     mm_or_si128 (mm_srli_epi32 (inp ! 8) 29) (mm_and_si128 (mm_slli_epi32 (inp ! 9) (15 - 12)) mask),
     mm_and_si128 (mm_srli_epi32 (inp ! 9) 12) mask,
     mm_or_si128 (mm_srli_epi32 (inp ! 9) 27) (mm_and_si128 (mm_slli_epi32 (inp ! 10) (15 - 10)) mask),
     mm_and_si128 (mm_srli_epi32 (inp ! 10) 10) mask,
     mm_or_si128 (mm_srli_epi32 (inp ! 10) 25) (mm_and_si128 (mm_slli_epi32 (inp ! 11) (15 - 8)) mask),
     mm_and_si128 (mm_srli_epi32 (inp ! 11) 8) mask,
     mm_or_si128 (mm_srli_epi32 (inp ! 11) 23) (mm_and_si128 (mm_slli_epi32 (inp ! 12) (15 - 6)) mask),
     mm_and_si128 (mm_srli_epi32 (inp ! 12) 6) mask,
     mm_or_si128 (mm_srli_epi32 (inp ! 12) 21) (mm_and_si128 (mm_slli_epi32 (inp ! 13) (15 - 4)) mask),
     mm_and_si128 (mm_srli_epi32 (inp ! 13) 4) mask,
     mm_or_si128 (mm_srli_epi32 (inp ! 13) 19) (mm_and_si128 (mm_slli_epi32 (inp ! 14) (15 - 2)) mask),
     mm_and_si128 (mm_srli_epi32 (inp ! 14) 2) mask, mm_srli_epi32 (inp ! 14) 17])"

definition uSIMD_fastunpack16 :: "m128i list \<Rightarrow> m128i list" where
  "uSIMD_fastunpack16 inp =
    (let mask = low_mask 16 in
    [mm_and_si128 (inp ! 0) mask, mm_srli_epi32 (inp ! 0) 16, mm_and_si128 (inp ! 1) mask,
     mm_srli_epi32 (inp ! 1) 16, mm_and_si128 (inp ! 2) mask, mm_srli_epi32 (inp ! 2) 16,
     mm_and_si128 (inp ! 3) mask, mm_srli_epi32 (inp ! 3) 16, mm_and_si128 (inp ! 4) mask,
     mm_srli_epi32 (inp ! 4) 16, mm_and_si128 (inp ! 5) mask, mm_srli_epi32 (inp ! 5) 16,
     mm_and_si128 (inp ! 6) mask, mm_srli_epi32 (inp ! 6) 16, mm_and_si128 (inp ! 7) mask,
     mm_srli_epi32 (inp ! 7) 16, mm_and_si128 (inp ! 8) mask, mm_srli_epi32 (inp ! 8) 16,
     mm_and_si128 (inp ! 9) mask, mm_srli_epi32 (inp ! 9) 16, mm_and_si128 (inp ! 10) mask,
     mm_srli_epi32 (inp ! 10) 16, mm_and_si128 (inp ! 11) mask, mm_srli_epi32 (inp ! 11) 16,
     mm_and_si128 (inp ! 12) mask, mm_srli_epi32 (inp ! 12) 16, mm_and_si128 (inp ! 13) mask,
     mm_srli_epi32 (inp ! 13) 16, mm_and_si128 (inp ! 14) mask, mm_srli_epi32 (inp ! 14) 16,
     mm_and_si128 (inp ! 15) mask, mm_srli_epi32 (inp ! 15) 16])"

definition uSIMD_fastunpack17 :: "m128i list \<Rightarrow> m128i list" where
  "uSIMD_fastunpack17 inp =
    (let mask = low_mask 17 in
    [mm_and_si128 (inp ! 0) mask,
     mm_or_si128 (mm_srli_epi32 (inp ! 0) 17) (mm_and_si128 (mm_slli_epi32 (inp ! 1) (17 - 2)) mask),
     mm_and_si128 (mm_srli_epi32 (inp ! 1) 2) mask,
     mm_or_si128 (mm_srli_epi32 (inp ! 1) 19) (mm_and_si128 (mm_slli_epi32 (inp ! 2) (17 - 4)) mask),
     mm_and_si128 (mm_srli_epi32 (inp ! 2) 4) mask,
     mm_or_si128 (mm_srli_epi32 (inp ! 2) 21) (mm_and_si128 (mm_slli_epi32 (inp ! 3) (17 - 6)) mask),
     mm_and_si128 (mm_srli_epi32 (inp ! 3) 6) mask,
     mm_or_si128 (mm_srli_epi32 (inp ! 3) 23) (mm_and_si128 (mm_slli_epi32 (inp ! 4) (17 - 8)) mask),
     mm_and_si128 (mm_srli_epi32 (inp ! 4) 8) mask,
     mm_or_si128 (mm_srli_epi32 (inp ! 4) 25) (mm_and_si128 (mm_slli_epi32 (inp ! 5) (17 - 10)) mask),
     mm_and_si128 (mm_srli_epi32 (inp ! 5) 10) mask,
     mm_or_si128 (mm_srli_epi32 (inp ! 5) 27) (mm_and_si128 (mm_slli_epi32 (inp ! 6) (17 - 12)) mask),
     mm_and_si128 (mm_srli_epi32 (inp ! 6) 12) mask,
     mm_or_si128 (mm_srli_epi32 (inp ! 6) 29) (mm_and_si128 (mm_slli_epi32 (inp ! 7) (17 - 14)) mask),
     mm_and_si128 (mm_srli_epi32 (inp ! 7) 14) mask,
     mm_or_si128 (mm_srli_epi32 (inp ! 7) 31) (mm_and_si128 (mm_slli_epi32 (inp ! 8) (17 - 16)) mask),
     mm_or_si128 (mm_srli_epi32 (inp ! 8) 16) (mm_and_si128 (mm_slli_epi32 (inp ! 9) (17 - 1)) mask),
     mm_and_si128 (mm_srli_epi32 (inp ! 9) 1) mask,
     mm_or_si128 (mm_srli_epi32 (inp ! 9) 18) (mm_and_si128 (mm_slli_epi32 (inp ! 10) (17 - 3)) mask),
     mm_and_si128 (mm_srli_epi32 (inp ! 10) 3) mask,
     mm_or_si128 (mm_srli_epi32 (inp ! 10) 20) (mm_and_si128 (mm_slli_epi32 (inp ! 11) (17 - 5)) mask),
     mm_and_si128 (mm_srli_epi32 (inp ! 11) 5) mask,
     mm_or_si128 (mm_srli_epi32 (inp ! 11) 22) (mm_and_si128 (mm_slli_epi32 (inp ! 12) (17 - 7)) mask),
     mm_and_si128 (mm_srli_epi32 (inp ! 12) 7) mask,
     mm_or_si128 (mm_srli_epi32 (inp ! 12) 24) (mm_and_si128 (mm_slli_epi32 (inp ! 13) (17 - 9)) mask),
     mm_and_si128 (mm_srli_epi32 (inp ! 13) 9) mask,
     mm_or_si128 (mm_srli_epi32 (inp ! 13) 26) (mm_and_si128 (mm_slli_epi32 (inp ! 14) (17 - 11)) mask),
     mm_and_si128 (mm_srli_epi32 (inp ! 14) 11) mask,
     mm_or_si128 (mm_srli_epi32 (inp ! 14) 28) (mm_and_si128 (mm_slli_epi32 (inp ! 15) (17 - 13)) mask),
     mm_and_si128 (mm_srli_epi32 (inp ! 15) 13) mask,
     mm_or_si128 (mm_srli_epi32 (inp ! 15) 30) (mm_and_si128 (mm_slli_epi32 (inp ! 16) (17 - 15)) mask),
     mm_srli_epi32 (inp ! 16) 15])"

definition uSIMD_fastunpack18 :: "m128i list \<Rightarrow> m128i list" where
  "uSIMD_fastunpack18 inp =
    (let mask = low_mask 18 in
    [mm_and_si128 (inp ! 0) mask,
     mm_or_si128 (mm_srli_epi32 (inp ! 0) 18) (mm_and_si128 (mm_slli_epi32 (inp ! 1) (18 - 4)) mask),
     mm_and_si128 (mm_srli_epi32 (inp ! 1) 4) mask,
     mm_or_si128 (mm_srli_epi32 (inp ! 1) 22) (mm_and_si128 (mm_slli_epi32 (inp ! 2) (18 - 8)) mask),
     mm_and_si128 (mm_srli_epi32 (inp ! 2) 8) mask,
     mm_or_si128 (mm_srli_epi32 (inp ! 2) 26) (mm_and_si128 (mm_slli_epi32 (inp ! 3) (18 - 12)) mask),
     mm_and_si128 (mm_srli_epi32 (inp ! 3) 12) mask,
     mm_or_si128 (mm_srli_epi32 (inp ! 3) 30) (mm_and_si128 (mm_slli_epi32 (inp ! 4) (18 - 16)) mask),
     mm_or_si128 (mm_srli_epi32 (inp ! 4) 16) (mm_and_si128 (mm_slli_epi32 (inp ! 5) (18 - 2)) mask),
     mm_and_si128 (mm_srli_epi32 (inp ! 5) 2) mask,
     mm_or_si128 (mm_srli_epi32 (inp ! 5) 20) (mm_and_si128 (mm_slli_epi32 (inp ! 6) (18 - 6)) mask),
     mm_and_si128 (mm_srli_epi32 (inp ! 6) 6) mask,
     mm_or_si128 (mm_srli_epi32 (inp ! 6) 24) (mm_and_si128 (mm_slli_epi32 (inp ! 7) (18 - 10)) mask),
     mm_and_si128 (mm_srli_epi32 (inp ! 7) 10) mask,
     mm_or_si128 (mm_srli_epi32 (inp ! 7) 28) (mm_and_si128 (mm_slli_epi32 (inp ! 8) (18 - 14)) mask),
     mm_srli_epi32 (inp ! 8) 14, mm_and_si128 (inp ! 9) mask,
     mm_or_si128 (mm_srli_epi32 (inp ! 9) 18) (mm_and_si128 (mm_slli_epi32 (inp ! 10) (18 - 4)) mask),
     mm_and_si128 (mm_srli_epi32 (inp ! 10) 4) mask,
     mm_or_si128 (mm_srli_epi32 (inp ! 10) 22) (mm_and_si128 (mm_slli_epi32 (inp ! 11) (18 - 8)) mask),
     mm_and_si128 (mm_srli_epi32 (inp ! 11) 8) mask,
     mm_or_si128 (mm_srli_epi32 (inp ! 11) 26) (mm_and_si128 (mm_slli_epi32 (inp ! 12) (18 - 12)) mask),
     mm_and_si128 (mm_srli_epi32 (inp ! 12) 12) mask,
     mm_or_si128 (mm_srli_epi32 (inp ! 12) 30) (mm_and_si128 (mm_slli_epi32 (inp ! 13) (18 - 16)) mask),
     mm_or_si128 (mm_srli_epi32 (inp ! 13) 16) (mm_and_si128 (mm_slli_epi32 (inp ! 14) (18 - 2)) mask),
     mm_and_si128 (mm_srli_epi32 (inp ! 14) 2) mask,
     mm_or_si128 (mm_srli_epi32 (inp ! 14) 20) (mm_and_si128 (mm_slli_epi32 (inp ! 15) (18 - 6)) mask),
     mm_and_si128 (mm_srli_epi32 (inp ! 15) 6) mask,
     mm_or_si128 (mm_srli_epi32 (inp ! 15) 24) (mm_and_si128 (mm_slli_epi32 (inp ! 16) (18 - 10)) mask),
     mm_and_si128 (mm_srli_epi32 (inp ! 16) 10) mask,
     mm_or_si128 (mm_srli_epi32 (inp ! 16) 28) (mm_and_si128 (mm_slli_epi32 (inp ! 17) (18 - 14)) mask),
     mm_srli_epi32 (inp ! 17) 14])"

definition uSIMD_fastunpack19 :: "m128i list \<Rightarrow> m128i list" where
  "uSIMD_fastunpack19 inp =
    (let mask = low_mask 19 in
    [mm_and_si128 (inp ! 0) mask,
     mm_or_si128 (mm_srli_epi32 (inp ! 0) 19) (mm_and_si128 (mm_slli_epi32 (inp ! 1) (19 - 6)) mask),
     mm_and_si128 (mm_srli_epi32 (inp ! 1) 6) mask,
     mm_or_si128 (mm_srli_epi32 (inp ! 1) 25) (mm_and_si128 (mm_slli_epi32 (inp ! 2) (19 - 12)) mask),
     mm_and_si128 (mm_srli_epi32 (inp ! 2) 12) mask,
     mm_or_si128 (mm_srli_epi32 (inp ! 2) 31) (mm_and_si128 (mm_slli_epi32 (inp ! 3) (19 - 18)) mask),
     mm_or_si128 (mm_srli_epi32 (inp ! 3) 18) (mm_and_si128 (mm_slli_epi32 (inp ! 4) (19 - 5)) mask),
     mm_and_si128 (mm_srli_epi32 (inp ! 4) 5) mask,
     mm_or_si128 (mm_srli_epi32 (inp ! 4) 24) (mm_and_si128 (mm_slli_epi32 (inp ! 5) (19 - 11)) mask),
     mm_and_si128 (mm_srli_epi32 (inp ! 5) 11) mask,
     mm_or_si128 (mm_srli_epi32 (inp ! 5) 30) (mm_and_si128 (mm_slli_epi32 (inp ! 6) (19 - 17)) mask),
     mm_or_si128 (mm_srli_epi32 (inp ! 6) 17) (mm_and_si128 (mm_slli_epi32 (inp ! 7) (19 - 4)) mask),
     mm_and_si128 (mm_srli_epi32 (inp ! 7) 4) mask,
     mm_or_si128 (mm_srli_epi32 (inp ! 7) 23) (mm_and_si128 (mm_slli_epi32 (inp ! 8) (19 - 10)) mask),
     mm_and_si128 (mm_srli_epi32 (inp ! 8) 10) mask,
     mm_or_si128 (mm_srli_epi32 (inp ! 8) 29) (mm_and_si128 (mm_slli_epi32 (inp ! 9) (19 - 16)) mask),
     mm_or_si128 (mm_srli_epi32 (inp ! 9) 16) (mm_and_si128 (mm_slli_epi32 (inp ! 10) (19 - 3)) mask),
     mm_and_si128 (mm_srli_epi32 (inp ! 10) 3) mask,
     mm_or_si128 (mm_srli_epi32 (inp ! 10) 22) (mm_and_si128 (mm_slli_epi32 (inp ! 11) (19 - 9)) mask),
     mm_and_si128 (mm_srli_epi32 (inp ! 11) 9) mask,
     mm_or_si128 (mm_srli_epi32 (inp ! 11) 28) (mm_and_si128 (mm_slli_epi32 (inp ! 12) (19 - 15)) mask),
     mm_or_si128 (mm_srli_epi32 (inp ! 12) 15) (mm_and_si128 (mm_slli_epi32 (inp ! 13) (19 - 2)) mask),
     mm_and_si128 (mm_srli_epi32 (inp ! 13) 2) mask,
     mm_or_si128 (mm_srli_epi32 (inp ! 13) 21) (mm_and_si128 (mm_slli_epi32 (inp ! 14) (19 - 8)) mask),
     mm_and_si128 (mm_srli_epi32 (inp ! 14) 8) mask,
     mm_or_si128 (mm_srli_epi32 (inp ! 14) 27) (mm_and_si128 (mm_slli_epi32 (inp ! 15) (19 - 14)) mask),
     mm_or_si128 (mm_srli_epi32 (inp ! 15) 14) (mm_and_si128 (mm_slli_epi32 (inp ! 16) (19 - 1)) mask),
     mm_and_si128 (mm_srli_epi32 (inp ! 16) 1) mask,
     mm_or_si128 (mm_srli_epi32 (inp ! 16) 20) (mm_and_si128 (mm_slli_epi32 (inp ! 17) (19 - 7)) mask),
     mm_and_si128 (mm_srli_epi32 (inp ! 17) 7) mask,
     mm_or_si128 (mm_srli_epi32 (inp ! 17) 26) (mm_and_si128 (mm_slli_epi32 (inp ! 18) (19 - 13)) mask),
     mm_srli_epi32 (inp ! 18) 13])"

definition uSIMD_fastunpack20 :: "m128i list \<Rightarrow> m128i list" where
  "uSIMD_fastunpack20 inp =
    (let mask = low_mask 20 in
    [mm_and_si128 (inp ! 0) mask,
     mm_or_si128 (mm_srli_epi32 (inp ! 0) 20) (mm_and_si128 (mm_slli_epi32 (inp ! 1) (20 - 8)) mask),
     mm_and_si128 (mm_srli_epi32 (inp ! 1) 8) mask,
     mm_or_si128 (mm_srli_epi32 (inp ! 1) 28) (mm_and_si128 (mm_slli_epi32 (inp ! 2) (20 - 16)) mask),
     mm_or_si128 (mm_srli_epi32 (inp ! 2) 16) (mm_and_si128 (mm_slli_epi32 (inp ! 3) (20 - 4)) mask),
     mm_and_si128 (mm_srli_epi32 (inp ! 3) 4) mask,
     mm_or_si128 (mm_srli_epi32 (inp ! 3) 24) (mm_and_si128 (mm_slli_epi32 (inp ! 4) (20 - 12)) mask),
     mm_srli_epi32 (inp ! 4) 12, mm_and_si128 (inp ! 5) mask,
     mm_or_si128 (mm_srli_epi32 (inp ! 5) 20) (mm_and_si128 (mm_slli_epi32 (inp ! 6) (20 - 8)) mask),
     mm_and_si128 (mm_srli_epi32 (inp ! 6) 8) mask,
     mm_or_si128 (mm_srli_epi32 (inp ! 6) 28) (mm_and_si128 (mm_slli_epi32 (inp ! 7) (20 - 16)) mask),
     mm_or_si128 (mm_srli_epi32 (inp ! 7) 16) (mm_and_si128 (mm_slli_epi32 (inp ! 8) (20 - 4)) mask),
     mm_and_si128 (mm_srli_epi32 (inp ! 8) 4) mask,
     mm_or_si128 (mm_srli_epi32 (inp ! 8) 24) (mm_and_si128 (mm_slli_epi32 (inp ! 9) (20 - 12)) mask),
     mm_srli_epi32 (inp ! 9) 12, mm_and_si128 (inp ! 10) mask,
     mm_or_si128 (mm_srli_epi32 (inp ! 10) 20) (mm_and_si128 (mm_slli_epi32 (inp ! 11) (20 - 8)) mask),
     mm_and_si128 (mm_srli_epi32 (inp ! 11) 8) mask,
     mm_or_si128 (mm_srli_epi32 (inp ! 11) 28) (mm_and_si128 (mm_slli_epi32 (inp ! 12) (20 - 16)) mask),
     mm_or_si128 (mm_srli_epi32 (inp ! 12) 16) (mm_and_si128 (mm_slli_epi32 (inp ! 13) (20 - 4)) mask),
     mm_and_si128 (mm_srli_epi32 (inp ! 13) 4) mask,
     mm_or_si128 (mm_srli_epi32 (inp ! 13) 24) (mm_and_si128 (mm_slli_epi32 (inp ! 14) (20 - 12)) mask),
     mm_srli_epi32 (inp ! 14) 12, mm_and_si128 (inp ! 15) mask,
     mm_or_si128 (mm_srli_epi32 (inp ! 15) 20) (mm_and_si128 (mm_slli_epi32 (inp ! 16) (20 - 8)) mask),
     mm_and_si128 (mm_srli_epi32 (inp ! 16) 8) mask,
     mm_or_si128 (mm_srli_epi32 (inp ! 16) 28) (mm_and_si128 (mm_slli_epi32 (inp ! 17) (20 - 16)) mask),
     mm_or_si128 (mm_srli_epi32 (inp ! 17) 16) (mm_and_si128 (mm_slli_epi32 (inp ! 18) (20 - 4)) mask),
     mm_and_si128 (mm_srli_epi32 (inp ! 18) 4) mask,
     mm_or_si128 (mm_srli_epi32 (inp ! 18) 24) (mm_and_si128 (mm_slli_epi32 (inp ! 19) (20 - 12)) mask),
     mm_srli_epi32 (inp ! 19) 12])"

definition uSIMD_fastunpack21 :: "m128i list \<Rightarrow> m128i list" where
  "uSIMD_fastunpack21 inp =
    (let mask = low_mask 21 in
    [mm_and_si128 (inp ! 0) mask,
     mm_or_si128 (mm_srli_epi32 (inp ! 0) 21) (mm_and_si128 (mm_slli_epi32 (inp ! 1) (21 - 10)) mask),
     mm_and_si128 (mm_srli_epi32 (inp ! 1) 10) mask,
     mm_or_si128 (mm_srli_epi32 (inp ! 1) 31) (mm_and_si128 (mm_slli_epi32 (inp ! 2) (21 - 20)) mask),
     mm_or_si128 (mm_srli_epi32 (inp ! 2) 20) (mm_and_si128 (mm_slli_epi32 (inp ! 3) (21 - 9)) mask),
     mm_and_si128 (mm_srli_epi32 (inp ! 3) 9) mask,
     mm_or_si128 (mm_srli_epi32 (inp ! 3) 30) (mm_and_si128 (mm_slli_epi32 (inp ! 4) (21 - 19)) mask),
     mm_or_si128 (mm_srli_epi32 (inp ! 4) 19) (mm_and_si128 (mm_slli_epi32 (inp ! 5) (21 - 8)) mask),
     mm_and_si128 (mm_srli_epi32 (inp ! 5) 8) mask,
     mm_or_si128 (mm_srli_epi32 (inp ! 5) 29) (mm_and_si128 (mm_slli_epi32 (inp ! 6) (21 - 18)) mask),
     mm_or_si128 (mm_srli_epi32 (inp ! 6) 18) (mm_and_si128 (mm_slli_epi32 (inp ! 7) (21 - 7)) mask),
     mm_and_si128 (mm_srli_epi32 (inp ! 7) 7) mask,
     mm_or_si128 (mm_srli_epi32 (inp ! 7) 28) (mm_and_si128 (mm_slli_epi32 (inp ! 8) (21 - 17)) mask),
     mm_or_si128 (mm_srli_epi32 (inp ! 8) 17) (mm_and_si128 (mm_slli_epi32 (inp ! 9) (21 - 6)) mask),
     mm_and_si128 (mm_srli_epi32 (inp ! 9) 6) mask,
     mm_or_si128 (mm_srli_epi32 (inp ! 9) 27) (mm_and_si128 (mm_slli_epi32 (inp ! 10) (21 - 16)) mask),
     mm_or_si128 (mm_srli_epi32 (inp ! 10) 16) (mm_and_si128 (mm_slli_epi32 (inp ! 11) (21 - 5)) mask),
     mm_and_si128 (mm_srli_epi32 (inp ! 11) 5) mask,
     mm_or_si128 (mm_srli_epi32 (inp ! 11) 26) (mm_and_si128 (mm_slli_epi32 (inp ! 12) (21 - 15)) mask),
     mm_or_si128 (mm_srli_epi32 (inp ! 12) 15) (mm_and_si128 (mm_slli_epi32 (inp ! 13) (21 - 4)) mask),
     mm_and_si128 (mm_srli_epi32 (inp ! 13) 4) mask,
     mm_or_si128 (mm_srli_epi32 (inp ! 13) 25) (mm_and_si128 (mm_slli_epi32 (inp ! 14) (21 - 14)) mask),
     mm_or_si128 (mm_srli_epi32 (inp ! 14) 14) (mm_and_si128 (mm_slli_epi32 (inp ! 15) (21 - 3)) mask),
     mm_and_si128 (mm_srli_epi32 (inp ! 15) 3) mask,
     mm_or_si128 (mm_srli_epi32 (inp ! 15) 24) (mm_and_si128 (mm_slli_epi32 (inp ! 16) (21 - 13)) mask),
     mm_or_si128 (mm_srli_epi32 (inp ! 16) 13) (mm_and_si128 (mm_slli_epi32 (inp ! 17) (21 - 2)) mask),
     mm_and_si128 (mm_srli_epi32 (inp ! 17) 2) mask,
     mm_or_si128 (mm_srli_epi32 (inp ! 17) 23) (mm_and_si128 (mm_slli_epi32 (inp ! 18) (21 - 12)) mask),
     mm_or_si128 (mm_srli_epi32 (inp ! 18) 12) (mm_and_si128 (mm_slli_epi32 (inp ! 19) (21 - 1)) mask),
     mm_and_si128 (mm_srli_epi32 (inp ! 19) 1) mask,
     mm_or_si128 (mm_srli_epi32 (inp ! 19) 22) (mm_and_si128 (mm_slli_epi32 (inp ! 20) (21 - 11)) mask),
     mm_srli_epi32 (inp ! 20) 11])"

definition uSIMD_fastunpack22 :: "m128i list \<Rightarrow> m128i list" where
  "uSIMD_fastunpack22 inp =
    (let mask = low_mask 22 in
    [mm_and_si128 (inp ! 0) mask,
     mm_or_si128 (mm_srli_epi32 (inp ! 0) 22) (mm_and_si128 (mm_slli_epi32 (inp ! 1) (22 - 12)) mask),
     mm_or_si128 (mm_srli_epi32 (inp ! 1) 12) (mm_and_si128 (mm_slli_epi32 (inp ! 2) (22 - 2)) mask),
     mm_and_si128 (mm_srli_epi32 (inp ! 2) 2) mask,
     mm_or_si128 (mm_srli_epi32 (inp ! 2) 24) (mm_and_si128 (mm_slli_epi32 (inp ! 3) (22 - 14)) mask),
     mm_or_si128 (mm_srli_epi32 (inp ! 3) 14) (mm_and_si128 (mm_slli_epi32 (inp ! 4) (22 - 4)) mask),
     mm_and_si128 (mm_srli_epi32 (inp ! 4) 4) mask,
     mm_or_si128 (mm_srli_epi32 (inp ! 4) 26) (mm_and_si128 (mm_slli_epi32 (inp ! 5) (22 - 16)) mask),
     mm_or_si128 (mm_srli_epi32 (inp ! 5) 16) (mm_and_si128 (mm_slli_epi32 (inp ! 6) (22 - 6)) mask),
     mm_and_si128 (mm_srli_epi32 (inp ! 6) 6) mask,
     mm_or_si128 (mm_srli_epi32 (inp ! 6) 28) (mm_and_si128 (mm_slli_epi32 (inp ! 7) (22 - 18)) mask),
     mm_or_si128 (mm_srli_epi32 (inp ! 7) 18) (mm_and_si128 (mm_slli_epi32 (inp ! 8) (22 - 8)) mask),
     mm_and_si128 (mm_srli_epi32 (inp ! 8) 8) mask,
     mm_or_si128 (mm_srli_epi32 (inp ! 8) 30) (mm_and_si128 (mm_slli_epi32 (inp ! 9) (22 - 20)) mask),
     mm_or_si128 (mm_srli_epi32 (inp ! 9) 20) (mm_and_si128 (mm_slli_epi32 (inp ! 10) (22 - 10)) mask),
     mm_srli_epi32 (inp ! 10) 10, mm_and_si128 (inp ! 11) mask,
     mm_or_si128 (mm_srli_epi32 (inp ! 11) 22) (mm_and_si128 (mm_slli_epi32 (inp ! 12) (22 - 12)) mask),
     mm_or_si128 (mm_srli_epi32 (inp ! 12) 12) (mm_and_si128 (mm_slli_epi32 (inp ! 13) (22 - 2)) mask),
     mm_and_si128 (mm_srli_epi32 (inp ! 13) 2) mask,
     mm_or_si128 (mm_srli_epi32 (inp ! 13) 24) (mm_and_si128 (mm_slli_epi32 (inp ! 14) (22 - 14)) mask),
     mm_or_si128 (mm_srli_epi32 (inp ! 14) 14) (mm_and_si128 (mm_slli_epi32 (inp ! 15) (22 - 4)) mask),
     mm_and_si128 (mm_srli_epi32 (inp ! 15) 4) mask,
     mm_or_si128 (mm_srli_epi32 (inp ! 15) 26) (mm_and_si128 (mm_slli_epi32 (inp ! 16) (22 - 16)) mask),
     mm_or_si128 (mm_srli_epi32 (inp ! 16) 16) (mm_and_si128 (mm_slli_epi32 (inp ! 17) (22 - 6)) mask),
     mm_and_si128 (mm_srli_epi32 (inp ! 17) 6) mask,
     mm_or_si128 (mm_srli_epi32 (inp ! 17) 28) (mm_and_si128 (mm_slli_epi32 (inp ! 18) (22 - 18)) mask),
     mm_or_si128 (mm_srli_epi32 (inp ! 18) 18) (mm_and_si128 (mm_slli_epi32 (inp ! 19) (22 - 8)) mask),
     mm_and_si128 (mm_srli_epi32 (inp ! 19) 8) mask,
     mm_or_si128 (mm_srli_epi32 (inp ! 19) 30) (mm_and_si128 (mm_slli_epi32 (inp ! 20) (22 - 20)) mask),
     mm_or_si128 (mm_srli_epi32 (inp ! 20) 20) (mm_and_si128 (mm_slli_epi32 (inp ! 21) (22 - 10)) mask),
     mm_srli_epi32 (inp ! 21) 10])"

definition uSIMD_fastunpack23 :: "m128i list \<Rightarrow> m128i list" where
  "uSIMD_fastunpack23 inp =
    (let mask = low_mask 23 in
    [mm_and_si128 (inp ! 0) mask,
     mm_or_si128 (mm_srli_epi32 (inp ! 0) 23) (mm_and_si128 (mm_slli_epi32 (inp ! 1) (23 - 14)) mask),
     mm_or_si128 (mm_srli_epi32 (inp ! 1) 14) (mm_and_si128 (mm_slli_epi32 (inp ! 2) (23 - 5)) mask),
     mm_and_si128 (mm_srli_epi32 (inp ! 2) 5) mask,
     mm_or_si128 (mm_srli_epi32 (inp ! 2) 28) (mm_and_si128 (mm_slli_epi32 (inp ! 3) (23 - 19)) mask),
     mm_or_si128 (mm_srli_epi32 (inp ! 3) 19) (mm_and_si128 (mm_slli_epi32 (inp ! 4) (23 - 10)) mask),
     mm_or_si128 (mm_srli_epi32 (inp ! 4) 10) (mm_and_si128 (mm_slli_epi32 (inp ! 5) (23 - 1)) mask),
     mm_and_si128 (mm_srli_epi32 (inp ! 5) 1) mask,
     mm_or_si128 (mm_srli_epi32 (inp ! 5) 24) (mm_and_si128 (mm_slli_epi32 (inp ! 6) (23 - 15)) mask),
     mm_or_si128 (mm_srli_epi32 (inp ! 6) 15) (mm_and_si128 (mm_slli_epi32 (inp ! 7) (23 - 6)) mask),
     mm_and_si128 (mm_srli_epi32 (inp ! 7) 6) mask,
     mm_or_si128 (mm_srli_epi32 (inp ! 7) 29) (mm_and_si128 (mm_slli_epi32 (inp ! 8) (23 - 20)) mask),
     mm_or_si128 (mm_srli_epi32 (inp ! 8) 20) (mm_and_si128 (mm_slli_epi32 (inp ! 9) (23 - 11)) mask),
     mm_or_si128 (mm_srli_epi32 (inp ! 9) 11) (mm_and_si128 (mm_slli_epi32 (inp ! 10) (23 - 2)) mask),
     mm_and_si128 (mm_srli_epi32 (inp ! 10) 2) mask,
     mm_or_si128 (mm_srli_epi32 (inp ! 10) 25) (mm_and_si128 (mm_slli_epi32 (inp ! 11) (23 - 16)) mask),
     mm_or_si128 (mm_srli_epi32 (inp ! 11) 16) (mm_and_si128 (mm_slli_epi32 (inp ! 12) (23 - 7)) mask),
     mm_and_si128 (mm_srli_epi32 (inp ! 12) 7) mask,
     mm_or_si128 (mm_srli_epi32 (inp ! 12) 30) (mm_and_si128 (mm_slli_epi32 (inp ! 13) (23 - 21)) mask),
     mm_or_si128 (mm_srli_epi32 (inp ! 13) 21) (mm_and_si128 (mm_slli_epi32 (inp ! 14) (23 - 12)) mask),
     mm_or_si128 (mm_srli_epi32 (inp ! 14) 12) (mm_and_si128 (mm_slli_epi32 (inp ! 15) (23 - 3)) mask),
     mm_and_si128 (mm_srli_epi32 (inp ! 15) 3) mask,
     mm_or_si128 (mm_srli_epi32 (inp ! 15) 26) (mm_and_si128 (mm_slli_epi32 (inp ! 16) (23 - 17)) mask),
     mm_or_si128 (mm_srli_epi32 (inp ! 16) 17) (mm_and_si128 (mm_slli_epi32 (inp ! 17) (23 - 8)) mask),
     mm_and_si128 (mm_srli_epi32 (inp ! 17) 8) mask,
     mm_or_si128 (mm_srli_epi32 (inp ! 17) 31) (mm_and_si128 (mm_slli_epi32 (inp ! 18) (23 - 22)) mask),
     mm_or_si128 (mm_srli_epi32 (inp ! 18) 22) (mm_and_si128 (mm_slli_epi32 (inp ! 19) (23 - 13)) mask),
     mm_or_si128 (mm_srli_epi32 (inp ! 19) 13) (mm_and_si128 (mm_slli_epi32 (inp ! 20) (23 - 4)) mask),
     mm_and_si128 (mm_srli_epi32 (inp ! 20) 4) mask,
     mm_or_si128 (mm_srli_epi32 (inp ! 20) 27) (mm_and_si128 (mm_slli_epi32 (inp ! 21) (23 - 18)) mask),
     mm_or_si128 (mm_srli_epi32 (inp ! 21) 18) (mm_and_si128 (mm_slli_epi32 (inp ! 22) (23 - 9)) mask),
     mm_srli_epi32 (inp ! 22) 9])"

definition uSIMD_fastunpack24 :: "m128i list \<Rightarrow> m128i list" where
  "uSIMD_fastunpack24 inp =
    (let mask = low_mask 24 in
    [mm_and_si128 (inp ! 0) mask,
     mm_or_si128 (mm_srli_epi32 (inp ! 0) 24) (mm_and_si128 (mm_slli_epi32 (inp ! 1) (24 - 16)) mask),
     mm_or_si128 (mm_srli_epi32 (inp ! 1) 16) (mm_and_si128 (mm_slli_epi32 (inp ! 2) (24 - 8)) mask),
     mm_srli_epi32 (inp ! 2) 8, mm_and_si128 (inp ! 3) mask,
     mm_or_si128 (mm_srli_epi32 (inp ! 3) 24) (mm_and_si128 (mm_slli_epi32 (inp ! 4) (24 - 16)) mask),
     mm_or_si128 (mm_srli_epi32 (inp ! 4) 16) (mm_and_si128 (mm_slli_epi32 (inp ! 5) (24 - 8)) mask),
     mm_srli_epi32 (inp ! 5) 8, mm_and_si128 (inp ! 6) mask,
     mm_or_si128 (mm_srli_epi32 (inp ! 6) 24) (mm_and_si128 (mm_slli_epi32 (inp ! 7) (24 - 16)) mask),
     mm_or_si128 (mm_srli_epi32 (inp ! 7) 16) (mm_and_si128 (mm_slli_epi32 (inp ! 8) (24 - 8)) mask),
     mm_srli_epi32 (inp ! 8) 8, mm_and_si128 (inp ! 9) mask,
     mm_or_si128 (mm_srli_epi32 (inp ! 9) 24) (mm_and_si128 (mm_slli_epi32 (inp ! 10) (24 - 16)) mask),
     mm_or_si128 (mm_srli_epi32 (inp ! 10) 16) (mm_and_si128 (mm_slli_epi32 (inp ! 11) (24 - 8)) mask),
     mm_srli_epi32 (inp ! 11) 8, mm_and_si128 (inp ! 12) mask,
     mm_or_si128 (mm_srli_epi32 (inp ! 12) 24) (mm_and_si128 (mm_slli_epi32 (inp ! 13) (24 - 16)) mask),
     mm_or_si128 (mm_srli_epi32 (inp ! 13) 16) (mm_and_si128 (mm_slli_epi32 (inp ! 14) (24 - 8)) mask),
     mm_srli_epi32 (inp ! 14) 8, mm_and_si128 (inp ! 15) mask,
     mm_or_si128 (mm_srli_epi32 (inp ! 15) 24) (mm_and_si128 (mm_slli_epi32 (inp ! 16) (24 - 16)) mask),
     mm_or_si128 (mm_srli_epi32 (inp ! 16) 16) (mm_and_si128 (mm_slli_epi32 (inp ! 17) (24 - 8)) mask),
     mm_srli_epi32 (inp ! 17) 8, mm_and_si128 (inp ! 18) mask,
     mm_or_si128 (mm_srli_epi32 (inp ! 18) 24) (mm_and_si128 (mm_slli_epi32 (inp ! 19) (24 - 16)) mask),
     mm_or_si128 (mm_srli_epi32 (inp ! 19) 16) (mm_and_si128 (mm_slli_epi32 (inp ! 20) (24 - 8)) mask),
     mm_srli_epi32 (inp ! 20) 8, mm_and_si128 (inp ! 21) mask,
     mm_or_si128 (mm_srli_epi32 (inp ! 21) 24) (mm_and_si128 (mm_slli_epi32 (inp ! 22) (24 - 16)) mask),
     mm_or_si128 (mm_srli_epi32 (inp ! 22) 16) (mm_and_si128 (mm_slli_epi32 (inp ! 23) (24 - 8)) mask),
     mm_srli_epi32 (inp ! 23) 8])"

definition uSIMD_fastunpack25 :: "m128i list \<Rightarrow> m128i list" where
  "uSIMD_fastunpack25 inp =
    (let mask = low_mask 25 in
    [mm_and_si128 (inp ! 0) mask,
     mm_or_si128 (mm_srli_epi32 (inp ! 0) 25) (mm_and_si128 (mm_slli_epi32 (inp ! 1) (25 - 18)) mask),
     mm_or_si128 (mm_srli_epi32 (inp ! 1) 18) (mm_and_si128 (mm_slli_epi32 (inp ! 2) (25 - 11)) mask),
     mm_or_si128 (mm_srli_epi32 (inp ! 2) 11) (mm_and_si128 (mm_slli_epi32 (inp ! 3) (25 - 4)) mask),
     mm_and_si128 (mm_srli_epi32 (inp ! 3) 4) mask,
     mm_or_si128 (mm_srli_epi32 (inp ! 3) 29) (mm_and_si128 (mm_slli_epi32 (inp ! 4) (25 - 22)) mask),
     mm_or_si128 (mm_srli_epi32 (inp ! 4) 22) (mm_and_si128 (mm_slli_epi32 (inp ! 5) (25 - 15)) mask),
     mm_or_si128 (mm_srli_epi32 (inp ! 5) 15) (mm_and_si128 (mm_slli_epi32 (inp ! 6) (25 - 8)) mask),
     mm_or_si128 (mm_srli_epi32 (inp ! 6) 8) (mm_and_si128 (mm_slli_epi32 (inp ! 7) (25 - 1)) mask),
     mm_and_si128 (mm_srli_epi32 (inp ! 7) 1) mask,
     mm_or_si128 (mm_srli_epi32 (inp ! 7) 26) (mm_and_si128 (mm_slli_epi32 (inp ! 8) (25 - 19)) mask),
     mm_or_si128 (mm_srli_epi32 (inp ! 8) 19) (mm_and_si128 (mm_slli_epi32 (inp ! 9) (25 - 12)) mask),
     mm_or_si128 (mm_srli_epi32 (inp ! 9) 12) (mm_and_si128 (mm_slli_epi32 (inp ! 10) (25 - 5)) mask),
     mm_and_si128 (mm_srli_epi32 (inp ! 10) 5) mask,
     mm_or_si128 (mm_srli_epi32 (inp ! 10) 30) (mm_and_si128 (mm_slli_epi32 (inp ! 11) (25 - 23)) mask),
     mm_or_si128 (mm_srli_epi32 (inp ! 11) 23) (mm_and_si128 (mm_slli_epi32 (inp ! 12) (25 - 16)) mask),
     mm_or_si128 (mm_srli_epi32 (inp ! 12) 16) (mm_and_si128 (mm_slli_epi32 (inp ! 13) (25 - 9)) mask),
     mm_or_si128 (mm_srli_epi32 (inp ! 13) 9) (mm_and_si128 (mm_slli_epi32 (inp ! 14) (25 - 2)) mask),
     mm_and_si128 (mm_srli_epi32 (inp ! 14) 2) mask,
     mm_or_si128 (mm_srli_epi32 (inp ! 14) 27) (mm_and_si128 (mm_slli_epi32 (inp ! 15) (25 - 20)) mask),
     mm_or_si128 (mm_srli_epi32 (inp ! 15) 20) (mm_and_si128 (mm_slli_epi32 (inp ! 16) (25 - 13)) mask),
     mm_or_si128 (mm_srli_epi32 (inp ! 16) 13) (mm_and_si128 (mm_slli_epi32 (inp ! 17) (25 - 6)) mask),
     mm_and_si128 (mm_srli_epi32 (inp ! 17) 6) mask,
     mm_or_si128 (mm_srli_epi32 (inp ! 17) 31) (mm_and_si128 (mm_slli_epi32 (inp ! 18) (25 - 24)) mask),
     mm_or_si128 (mm_srli_epi32 (inp ! 18) 24) (mm_and_si128 (mm_slli_epi32 (inp ! 19) (25 - 17)) mask),
     mm_or_si128 (mm_srli_epi32 (inp ! 19) 17) (mm_and_si128 (mm_slli_epi32 (inp ! 20) (25 - 10)) mask),
     mm_or_si128 (mm_srli_epi32 (inp ! 20) 10) (mm_and_si128 (mm_slli_epi32 (inp ! 21) (25 - 3)) mask),
     mm_and_si128 (mm_srli_epi32 (inp ! 21) 3) mask,
     mm_or_si128 (mm_srli_epi32 (inp ! 21) 28) (mm_and_si128 (mm_slli_epi32 (inp ! 22) (25 - 21)) mask),
     mm_or_si128 (mm_srli_epi32 (inp ! 22) 21) (mm_and_si128 (mm_slli_epi32 (inp ! 23) (25 - 14)) mask),
     mm_or_si128 (mm_srli_epi32 (inp ! 23) 14) (mm_and_si128 (mm_slli_epi32 (inp ! 24) (25 - 7)) mask),
     mm_srli_epi32 (inp ! 24) 7])"

definition uSIMD_fastunpack26 :: "m128i list \<Rightarrow> m128i list" where
  "uSIMD_fastunpack26 inp =
    (let mask = low_mask 26 in
    [mm_and_si128 (inp ! 0) mask,
     mm_or_si128 (mm_srli_epi32 (inp ! 0) 26) (mm_and_si128 (mm_slli_epi32 (inp ! 1) (26 - 20)) mask),
     mm_or_si128 (mm_srli_epi32 (inp ! 1) 20) (mm_and_si128 (mm_slli_epi32 (inp ! 2) (26 - 14)) mask),
     mm_or_si128 (mm_srli_epi32 (inp ! 2) 14) (mm_and_si128 (mm_slli_epi32 (inp ! 3) (26 - 8)) mask),
     mm_or_si128 (mm_srli_epi32 (inp ! 3) 8) (mm_and_si128 (mm_slli_epi32 (inp ! 4) (26 - 2)) mask),
     mm_and_si128 (mm_srli_epi32 (inp ! 4) 2) mask,
     mm_or_si128 (mm_srli_epi32 (inp ! 4) 28) (mm_and_si128 (mm_slli_epi32 (inp ! 5) (26 - 22)) mask),
     mm_or_si128 (mm_srli_epi32 (inp ! 5) 22) (mm_and_si128 (mm_slli_epi32 (inp ! 6) (26 - 16)) mask),
     mm_or_si128 (mm_srli_epi32 (inp ! 6) 16) (mm_and_si128 (mm_slli_epi32 (inp ! 7) (26 - 10)) mask),
     mm_or_si128 (mm_srli_epi32 (inp ! 7) 10) (mm_and_si128 (mm_slli_epi32 (inp ! 8) (26 - 4)) mask),
     mm_and_si128 (mm_srli_epi32 (inp ! 8) 4) mask,
     mm_or_si128 (mm_srli_epi32 (inp ! 8) 30) (mm_and_si128 (mm_slli_epi32 (inp ! 9) (26 - 24)) mask),
     mm_or_si128 (mm_srli_epi32 (inp ! 9) 24) (mm_and_si128 (mm_slli_epi32 (inp ! 10) (26 - 18)) mask),
     mm_or_si128 (mm_srli_epi32 (inp ! 10) 18) (mm_and_si128 (mm_slli_epi32 (inp ! 11) (26 - 12)) mask),
     mm_or_si128 (mm_srli_epi32 (inp ! 11) 12) (mm_and_si128 (mm_slli_epi32 (inp ! 12) (26 - 6)) mask),
     mm_srli_epi32 (inp ! 12) 6, mm_and_si128 (inp ! 13) mask,
     mm_or_si128 (mm_srli_epi32 (inp ! 13) 26) (mm_and_si128 (mm_slli_epi32 (inp ! 14) (26 - 20)) mask),
     mm_or_si128 (mm_srli_epi32 (inp ! 14) 20) (mm_and_si128 (mm_slli_epi32 (inp ! 15) (26 - 14)) mask),
     mm_or_si128 (mm_srli_epi32 (inp ! 15) 14) (mm_and_si128 (mm_slli_epi32 (inp ! 16) (26 - 8)) mask),
     mm_or_si128 (mm_srli_epi32 (inp ! 16) 8) (mm_and_si128 (mm_slli_epi32 (inp ! 17) (26 - 2)) mask),
     mm_and_si128 (mm_srli_epi32 (inp ! 17) 2) mask,
     mm_or_si128 (mm_srli_epi32 (inp ! 17) 28) (mm_and_si128 (mm_slli_epi32 (inp ! 18) (26 - 22)) mask),
     mm_or_si128 (mm_srli_epi32 (inp ! 18) 22) (mm_and_si128 (mm_slli_epi32 (inp ! 19) (26 - 16)) mask),
     mm_or_si128 (mm_srli_epi32 (inp ! 19) 16) (mm_and_si128 (mm_slli_epi32 (inp ! 20) (26 - 10)) mask),
     mm_or_si128 (mm_srli_epi32 (inp ! 20) 10) (mm_and_si128 (mm_slli_epi32 (inp ! 21) (26 - 4)) mask),
     mm_and_si128 (mm_srli_epi32 (inp ! 21) 4) mask,
     mm_or_si128 (mm_srli_epi32 (inp ! 21) 30) (mm_and_si128 (mm_slli_epi32 (inp ! 22) (26 - 24)) mask),
     mm_or_si128 (mm_srli_epi32 (inp ! 22) 24) (mm_and_si128 (mm_slli_epi32 (inp ! 23) (26 - 18)) mask),
     mm_or_si128 (mm_srli_epi32 (inp ! 23) 18) (mm_and_si128 (mm_slli_epi32 (inp ! 24) (26 - 12)) mask),
     mm_or_si128 (mm_srli_epi32 (inp ! 24) 12) (mm_and_si128 (mm_slli_epi32 (inp ! 25) (26 - 6)) mask),
     mm_srli_epi32 (inp ! 25) 6])"

definition uSIMD_fastunpack27 :: "m128i list \<Rightarrow> m128i list" where
  "uSIMD_fastunpack27 inp =
    (let mask = low_mask 27 in
    [mm_and_si128 (inp ! 0) mask,
     mm_or_si128 (mm_srli_epi32 (inp ! 0) 27) (mm_and_si128 (mm_slli_epi32 (inp ! 1) (27 - 22)) mask),
     mm_or_si128 (mm_srli_epi32 (inp ! 1) 22) (mm_and_si128 (mm_slli_epi32 (inp ! 2) (27 - 17)) mask),
     mm_or_si128 (mm_srli_epi32 (inp ! 2) 17) (mm_and_si128 (mm_slli_epi32 (inp ! 3) (27 - 12)) mask),
     mm_or_si128 (mm_srli_epi32 (inp ! 3) 12) (mm_and_si128 (mm_slli_epi32 (inp ! 4) (27 - 7)) mask),
     mm_or_si128 (mm_srli_epi32 (inp ! 4) 7) (mm_and_si128 (mm_slli_epi32 (inp ! 5) (27 - 2)) mask),
     mm_and_si128 (mm_srli_epi32 (inp ! 5) 2) mask,
     mm_or_si128 (mm_srli_epi32 (inp ! 5) 29) (mm_and_si128 (mm_slli_epi32 (inp ! 6) (27 - 24)) mask),
     mm_or_si128 (mm_srli_epi32 (inp ! 6) 24) (mm_and_si128 (mm_slli_epi32 (inp ! 7) (27 - 19)) mask),
     mm_or_si128 (mm_srli_epi32 (inp ! 7) 19) (mm_and_si128 (mm_slli_epi32 (inp ! 8) (27 - 14)) mask),
     mm_or_si128 (mm_srli_epi32 (inp ! 8) 14) (mm_and_si128 (mm_slli_epi32 (inp ! 9) (27 - 9)) mask),
     mm_or_si128 (mm_srli_epi32 (inp ! 9) 9) (mm_and_si128 (mm_slli_epi32 (inp ! 10) (27 - 4)) mask),
     mm_and_si128 (mm_srli_epi32 (inp ! 10) 4) mask,
     mm_or_si128 (mm_srli_epi32 (inp ! 10) 31) (mm_and_si128 (mm_slli_epi32 (inp ! 11) (27 - 26)) mask),
     mm_or_si128 (mm_srli_epi32 (inp ! 11) 26) (mm_and_si128 (mm_slli_epi32 (inp ! 12) (27 - 21)) mask),
     mm_or_si128 (mm_srli_epi32 (inp ! 12) 21) (mm_and_si128 (mm_slli_epi32 (inp ! 13) (27 - 16)) mask),
     mm_or_si128 (mm_srli_epi32 (inp ! 13) 16) (mm_and_si128 (mm_slli_epi32 (inp ! 14) (27 - 11)) mask),
     mm_or_si128 (mm_srli_epi32 (inp ! 14) 11) (mm_and_si128 (mm_slli_epi32 (inp ! 15) (27 - 6)) mask),
     mm_or_si128 (mm_srli_epi32 (inp ! 15) 6) (mm_and_si128 (mm_slli_epi32 (inp ! 16) (27 - 1)) mask),
     mm_and_si128 (mm_srli_epi32 (inp ! 16) 1) mask,
     mm_or_si128 (mm_srli_epi32 (inp ! 16) 28) (mm_and_si128 (mm_slli_epi32 (inp ! 17) (27 - 23)) mask),
     mm_or_si128 (mm_srli_epi32 (inp ! 17) 23) (mm_and_si128 (mm_slli_epi32 (inp ! 18) (27 - 18)) mask),
     mm_or_si128 (mm_srli_epi32 (inp ! 18) 18) (mm_and_si128 (mm_slli_epi32 (inp ! 19) (27 - 13)) mask),
     mm_or_si128 (mm_srli_epi32 (inp ! 19) 13) (mm_and_si128 (mm_slli_epi32 (inp ! 20) (27 - 8)) mask),
     mm_or_si128 (mm_srli_epi32 (inp ! 20) 8) (mm_and_si128 (mm_slli_epi32 (inp ! 21) (27 - 3)) mask),
     mm_and_si128 (mm_srli_epi32 (inp ! 21) 3) mask,
     mm_or_si128 (mm_srli_epi32 (inp ! 21) 30) (mm_and_si128 (mm_slli_epi32 (inp ! 22) (27 - 25)) mask),
     mm_or_si128 (mm_srli_epi32 (inp ! 22) 25) (mm_and_si128 (mm_slli_epi32 (inp ! 23) (27 - 20)) mask),
     mm_or_si128 (mm_srli_epi32 (inp ! 23) 20) (mm_and_si128 (mm_slli_epi32 (inp ! 24) (27 - 15)) mask),
     mm_or_si128 (mm_srli_epi32 (inp ! 24) 15) (mm_and_si128 (mm_slli_epi32 (inp ! 25) (27 - 10)) mask),
     mm_or_si128 (mm_srli_epi32 (inp ! 25) 10) (mm_and_si128 (mm_slli_epi32 (inp ! 26) (27 - 5)) mask),
     mm_srli_epi32 (inp ! 26) 5])"

definition uSIMD_fastunpack28 :: "m128i list \<Rightarrow> m128i list" where
  "uSIMD_fastunpack28 inp =
    (let mask = low_mask 28 in
    [mm_and_si128 (inp ! 0) mask,
     mm_or_si128 (mm_srli_epi32 (inp ! 0) 28) (mm_and_si128 (mm_slli_epi32 (inp ! 1) (28 - 24)) mask),
     mm_or_si128 (mm_srli_epi32 (inp ! 1) 24) (mm_and_si128 (mm_slli_epi32 (inp ! 2) (28 - 20)) mask),
     mm_or_si128 (mm_srli_epi32 (inp ! 2) 20) (mm_and_si128 (mm_slli_epi32 (inp ! 3) (28 - 16)) mask),
     mm_or_si128 (mm_srli_epi32 (inp ! 3) 16) (mm_and_si128 (mm_slli_epi32 (inp ! 4) (28 - 12)) mask),
     mm_or_si128 (mm_srli_epi32 (inp ! 4) 12) (mm_and_si128 (mm_slli_epi32 (inp ! 5) (28 - 8)) mask),
     mm_or_si128 (mm_srli_epi32 (inp ! 5) 8) (mm_and_si128 (mm_slli_epi32 (inp ! 6) (28 - 4)) mask),
     mm_srli_epi32 (inp ! 6) 4, mm_and_si128 (inp ! 7) mask,
     mm_or_si128 (mm_srli_epi32 (inp ! 7) 28) (mm_and_si128 (mm_slli_epi32 (inp ! 8) (28 - 24)) mask),
     mm_or_si128 (mm_srli_epi32 (inp ! 8) 24) (mm_and_si128 (mm_slli_epi32 (inp ! 9) (28 - 20)) mask),
     mm_or_si128 (mm_srli_epi32 (inp ! 9) 20) (mm_and_si128 (mm_slli_epi32 (inp ! 10) (28 - 16)) mask),
     mm_or_si128 (mm_srli_epi32 (inp ! 10) 16) (mm_and_si128 (mm_slli_epi32 (inp ! 11) (28 - 12)) mask),
     mm_or_si128 (mm_srli_epi32 (inp ! 11) 12) (mm_and_si128 (mm_slli_epi32 (inp ! 12) (28 - 8)) mask),
     mm_or_si128 (mm_srli_epi32 (inp ! 12) 8) (mm_and_si128 (mm_slli_epi32 (inp ! 13) (28 - 4)) mask),
     mm_srli_epi32 (inp ! 13) 4, mm_and_si128 (inp ! 14) mask,
     mm_or_si128 (mm_srli_epi32 (inp ! 14) 28) (mm_and_si128 (mm_slli_epi32 (inp ! 15) (28 - 24)) mask),
     mm_or_si128 (mm_srli_epi32 (inp ! 15) 24) (mm_and_si128 (mm_slli_epi32 (inp ! 16) (28 - 20)) mask),
     mm_or_si128 (mm_srli_epi32 (inp ! 16) 20) (mm_and_si128 (mm_slli_epi32 (inp ! 17) (28 - 16)) mask),
     mm_or_si128 (mm_srli_epi32 (inp ! 17) 16) (mm_and_si128 (mm_slli_epi32 (inp ! 18) (28 - 12)) mask),
     mm_or_si128 (mm_srli_epi32 (inp ! 18) 12) (mm_and_si128 (mm_slli_epi32 (inp ! 19) (28 - 8)) mask),
     mm_or_si128 (mm_srli_epi32 (inp ! 19) 8) (mm_and_si128 (mm_slli_epi32 (inp ! 20) (28 - 4)) mask),
     mm_srli_epi32 (inp ! 20) 4, mm_and_si128 (inp ! 21) mask,
     mm_or_si128 (mm_srli_epi32 (inp ! 21) 28) (mm_and_si128 (mm_slli_epi32 (inp ! 22) (28 - 24)) mask),
     mm_or_si128 (mm_srli_epi32 (inp ! 22) 24) (mm_and_si128 (mm_slli_epi32 (inp ! 23) (28 - 20)) mask),
     mm_or_si128 (mm_srli_epi32 (inp ! 23) 20) (mm_and_si128 (mm_slli_epi32 (inp ! 24) (28 - 16)) mask),
     mm_or_si128 (mm_srli_epi32 (inp ! 24) 16) (mm_and_si128 (mm_slli_epi32 (inp ! 25) (28 - 12)) mask),
     mm_or_si128 (mm_srli_epi32 (inp ! 25) 12) (mm_and_si128 (mm_slli_epi32 (inp ! 26) (28 - 8)) mask),
     mm_or_si128 (mm_srli_epi32 (inp ! 26) 8) (mm_and_si128 (mm_slli_epi32 (inp ! 27) (28 - 4)) mask),
     mm_srli_epi32 (inp ! 27) 4])"

definition uSIMD_fastunpack29 :: "m128i list \<Rightarrow> m128i list" where
  "uSIMD_fastunpack29 inp =
    (let mask = low_mask 29 in
    [mm_and_si128 (inp ! 0) mask,
     mm_or_si128 (mm_srli_epi32 (inp ! 0) 29) (mm_and_si128 (mm_slli_epi32 (inp ! 1) (29 - 26)) mask),
     mm_or_si128 (mm_srli_epi32 (inp ! 1) 26) (mm_and_si128 (mm_slli_epi32 (inp ! 2) (29 - 23)) mask),
     mm_or_si128 (mm_srli_epi32 (inp ! 2) 23) (mm_and_si128 (mm_slli_epi32 (inp ! 3) (29 - 20)) mask),
     mm_or_si128 (mm_srli_epi32 (inp ! 3) 20) (mm_and_si128 (mm_slli_epi32 (inp ! 4) (29 - 17)) mask),
     mm_or_si128 (mm_srli_epi32 (inp ! 4) 17) (mm_and_si128 (mm_slli_epi32 (inp ! 5) (29 - 14)) mask),
     mm_or_si128 (mm_srli_epi32 (inp ! 5) 14) (mm_and_si128 (mm_slli_epi32 (inp ! 6) (29 - 11)) mask),
     mm_or_si128 (mm_srli_epi32 (inp ! 6) 11) (mm_and_si128 (mm_slli_epi32 (inp ! 7) (29 - 8)) mask),
     mm_or_si128 (mm_srli_epi32 (inp ! 7) 8) (mm_and_si128 (mm_slli_epi32 (inp ! 8) (29 - 5)) mask),
     mm_or_si128 (mm_srli_epi32 (inp ! 8) 5) (mm_and_si128 (mm_slli_epi32 (inp ! 9) (29 - 2)) mask),
     mm_and_si128 (mm_srli_epi32 (inp ! 9) 2) mask,
     mm_or_si128 (mm_srli_epi32 (inp ! 9) 31) (mm_and_si128 (mm_slli_epi32 (inp ! 10) (29 - 28)) mask),
     mm_or_si128 (mm_srli_epi32 (inp ! 10) 28) (mm_and_si128 (mm_slli_epi32 (inp ! 11) (29 - 25)) mask),
     mm_or_si128 (mm_srli_epi32 (inp ! 11) 25) (mm_and_si128 (mm_slli_epi32 (inp ! 12) (29 - 22)) mask),
     mm_or_si128 (mm_srli_epi32 (inp ! 12) 22) (mm_and_si128 (mm_slli_epi32 (inp ! 13) (29 - 19)) mask),
     mm_or_si128 (mm_srli_epi32 (inp ! 13) 19) (mm_and_si128 (mm_slli_epi32 (inp ! 14) (29 - 16)) mask),
     mm_or_si128 (mm_srli_epi32 (inp ! 14) 16) (mm_and_si128 (mm_slli_epi32 (inp ! 15) (29 - 13)) mask),
     mm_or_si128 (mm_srli_epi32 (inp ! 15) 13) (mm_and_si128 (mm_slli_epi32 (inp ! 16) (29 - 10)) mask),
     mm_or_si128 (mm_srli_epi32 (inp ! 16) 10) (mm_and_si128 (mm_slli_epi32 (inp ! 17) (29 - 7)) mask),
     mm_or_si128 (mm_srli_epi32 (inp ! 17) 7) (mm_and_si128 (mm_slli_epi32 (inp ! 18) (29 - 4)) mask),
     mm_or_si128 (mm_srli_epi32 (inp ! 18) 4) (mm_and_si128 (mm_slli_epi32 (inp ! 19) (29 - 1)) mask),
     mm_and_si128 (mm_srli_epi32 (inp ! 19) 1) mask,
     mm_or_si128 (mm_srli_epi32 (inp ! 19) 30) (mm_and_si128 (mm_slli_epi32 (inp ! 20) (29 - 27)) mask),
     mm_or_si128 (mm_srli_epi32 (inp ! 20) 27) (mm_and_si128 (mm_slli_epi32 (inp ! 21) (29 - 24)) mask),
     mm_or_si128 (mm_srli_epi32 (inp ! 21) 24) (mm_and_si128 (mm_slli_epi32 (inp ! 22) (29 - 21)) mask),
     mm_or_si128 (mm_srli_epi32 (inp ! 22) 21) (mm_and_si128 (mm_slli_epi32 (inp ! 23) (29 - 18)) mask),
     mm_or_si128 (mm_srli_epi32 (inp ! 23) 18) (mm_and_si128 (mm_slli_epi32 (inp ! 24) (29 - 15)) mask),
     mm_or_si128 (mm_srli_epi32 (inp ! 24) 15) (mm_and_si128 (mm_slli_epi32 (inp ! 25) (29 - 12)) mask),
     mm_or_si128 (mm_srli_epi32 (inp ! 25) 12) (mm_and_si128 (mm_slli_epi32 (inp ! 26) (29 - 9)) mask),
     mm_or_si128 (mm_srli_epi32 (inp ! 26) 9) (mm_and_si128 (mm_slli_epi32 (inp ! 27) (29 - 6)) mask),
     mm_or_si128 (mm_srli_epi32 (inp ! 27) 6) (mm_and_si128 (mm_slli_epi32 (inp ! 28) (29 - 3)) mask),
     mm_srli_epi32 (inp ! 28) 3])"

definition uSIMD_fastunpack30 :: "m128i list \<Rightarrow> m128i list" where
  "uSIMD_fastunpack30 inp =
    (let mask = low_mask 30 in
    [mm_and_si128 (inp ! 0) mask,
     mm_or_si128 (mm_srli_epi32 (inp ! 0) 30) (mm_and_si128 (mm_slli_epi32 (inp ! 1) (30 - 28)) mask),
     mm_or_si128 (mm_srli_epi32 (inp ! 1) 28) (mm_and_si128 (mm_slli_epi32 (inp ! 2) (30 - 26)) mask),
     mm_or_si128 (mm_srli_epi32 (inp ! 2) 26) (mm_and_si128 (mm_slli_epi32 (inp ! 3) (30 - 24)) mask),
     mm_or_si128 (mm_srli_epi32 (inp ! 3) 24) (mm_and_si128 (mm_slli_epi32 (inp ! 4) (30 - 22)) mask),
     mm_or_si128 (mm_srli_epi32 (inp ! 4) 22) (mm_and_si128 (mm_slli_epi32 (inp ! 5) (30 - 20)) mask),
     mm_or_si128 (mm_srli_epi32 (inp ! 5) 20) (mm_and_si128 (mm_slli_epi32 (inp ! 6) (30 - 18)) mask),
     mm_or_si128 (mm_srli_epi32 (inp ! 6) 18) (mm_and_si128 (mm_slli_epi32 (inp ! 7) (30 - 16)) mask),
     mm_or_si128 (mm_srli_epi32 (inp ! 7) 16) (mm_and_si128 (mm_slli_epi32 (inp ! 8) (30 - 14)) mask),
     mm_or_si128 (mm_srli_epi32 (inp ! 8) 14) (mm_and_si128 (mm_slli_epi32 (inp ! 9) (30 - 12)) mask),
     mm_or_si128 (mm_srli_epi32 (inp ! 9) 12) (mm_and_si128 (mm_slli_epi32 (inp ! 10) (30 - 10)) mask),
     mm_or_si128 (mm_srli_epi32 (inp ! 10) 10) (mm_and_si128 (mm_slli_epi32 (inp ! 11) (30 - 8)) mask),
     mm_or_si128 (mm_srli_epi32 (inp ! 11) 8) (mm_and_si128 (mm_slli_epi32 (inp ! 12) (30 - 6)) mask),
     mm_or_si128 (mm_srli_epi32 (inp ! 12) 6) (mm_and_si128 (mm_slli_epi32 (inp ! 13) (30 - 4)) mask),
     mm_or_si128 (mm_srli_epi32 (inp ! 13) 4) (mm_and_si128 (mm_slli_epi32 (inp ! 14) (30 - 2)) mask),
     mm_srli_epi32 (inp ! 14) 2, mm_and_si128 (inp ! 15) mask,
     mm_or_si128 (mm_srli_epi32 (inp ! 15) 30) (mm_and_si128 (mm_slli_epi32 (inp ! 16) (30 - 28)) mask),
     mm_or_si128 (mm_srli_epi32 (inp ! 16) 28) (mm_and_si128 (mm_slli_epi32 (inp ! 17) (30 - 26)) mask),
     mm_or_si128 (mm_srli_epi32 (inp ! 17) 26) (mm_and_si128 (mm_slli_epi32 (inp ! 18) (30 - 24)) mask),
     mm_or_si128 (mm_srli_epi32 (inp ! 18) 24) (mm_and_si128 (mm_slli_epi32 (inp ! 19) (30 - 22)) mask),
     mm_or_si128 (mm_srli_epi32 (inp ! 19) 22) (mm_and_si128 (mm_slli_epi32 (inp ! 20) (30 - 20)) mask),
     mm_or_si128 (mm_srli_epi32 (inp ! 20) 20) (mm_and_si128 (mm_slli_epi32 (inp ! 21) (30 - 18)) mask),
     mm_or_si128 (mm_srli_epi32 (inp ! 21) 18) (mm_and_si128 (mm_slli_epi32 (inp ! 22) (30 - 16)) mask),
     mm_or_si128 (mm_srli_epi32 (inp ! 22) 16) (mm_and_si128 (mm_slli_epi32 (inp ! 23) (30 - 14)) mask),
     mm_or_si128 (mm_srli_epi32 (inp ! 23) 14) (mm_and_si128 (mm_slli_epi32 (inp ! 24) (30 - 12)) mask),
     mm_or_si128 (mm_srli_epi32 (inp ! 24) 12) (mm_and_si128 (mm_slli_epi32 (inp ! 25) (30 - 10)) mask),
     mm_or_si128 (mm_srli_epi32 (inp ! 25) 10) (mm_and_si128 (mm_slli_epi32 (inp ! 26) (30 - 8)) mask),
     mm_or_si128 (mm_srli_epi32 (inp ! 26) 8) (mm_and_si128 (mm_slli_epi32 (inp ! 27) (30 - 6)) mask),
     mm_or_si128 (mm_srli_epi32 (inp ! 27) 6) (mm_and_si128 (mm_slli_epi32 (inp ! 28) (30 - 4)) mask),
     mm_or_si128 (mm_srli_epi32 (inp ! 28) 4) (mm_and_si128 (mm_slli_epi32 (inp ! 29) (30 - 2)) mask),
     mm_srli_epi32 (inp ! 29) 2])"

definition uSIMD_fastunpack31 :: "m128i list \<Rightarrow> m128i list" where
  "uSIMD_fastunpack31 inp =
    (let mask = low_mask 31 in
    [mm_and_si128 (inp ! 0) mask,
     mm_or_si128 (mm_srli_epi32 (inp ! 0) 31) (mm_and_si128 (mm_slli_epi32 (inp ! 1) (31 - 30)) mask),
     mm_or_si128 (mm_srli_epi32 (inp ! 1) 30) (mm_and_si128 (mm_slli_epi32 (inp ! 2) (31 - 29)) mask),
     mm_or_si128 (mm_srli_epi32 (inp ! 2) 29) (mm_and_si128 (mm_slli_epi32 (inp ! 3) (31 - 28)) mask),
     mm_or_si128 (mm_srli_epi32 (inp ! 3) 28) (mm_and_si128 (mm_slli_epi32 (inp ! 4) (31 - 27)) mask),
     mm_or_si128 (mm_srli_epi32 (inp ! 4) 27) (mm_and_si128 (mm_slli_epi32 (inp ! 5) (31 - 26)) mask),
     mm_or_si128 (mm_srli_epi32 (inp ! 5) 26) (mm_and_si128 (mm_slli_epi32 (inp ! 6) (31 - 25)) mask),
     mm_or_si128 (mm_srli_epi32 (inp ! 6) 25) (mm_and_si128 (mm_slli_epi32 (inp ! 7) (31 - 24)) mask),
     mm_or_si128 (mm_srli_epi32 (inp ! 7) 24) (mm_and_si128 (mm_slli_epi32 (inp ! 8) (31 - 23)) mask),
     mm_or_si128 (mm_srli_epi32 (inp ! 8) 23) (mm_and_si128 (mm_slli_epi32 (inp ! 9) (31 - 22)) mask),
     mm_or_si128 (mm_srli_epi32 (inp ! 9) 22) (mm_and_si128 (mm_slli_epi32 (inp ! 10) (31 - 21)) mask),
     mm_or_si128 (mm_srli_epi32 (inp ! 10) 21) (mm_and_si128 (mm_slli_epi32 (inp ! 11) (31 - 20)) mask),
     mm_or_si128 (mm_srli_epi32 (inp ! 11) 20) (mm_and_si128 (mm_slli_epi32 (inp ! 12) (31 - 19)) mask),
     mm_or_si128 (mm_srli_epi32 (inp ! 12) 19) (mm_and_si128 (mm_slli_epi32 (inp ! 13) (31 - 18)) mask),
     mm_or_si128 (mm_srli_epi32 (inp ! 13) 18) (mm_and_si128 (mm_slli_epi32 (inp ! 14) (31 - 17)) mask),
     mm_or_si128 (mm_srli_epi32 (inp ! 14) 17) (mm_and_si128 (mm_slli_epi32 (inp ! 15) (31 - 16)) mask),
     mm_or_si128 (mm_srli_epi32 (inp ! 15) 16) (mm_and_si128 (mm_slli_epi32 (inp ! 16) (31 - 15)) mask),
     mm_or_si128 (mm_srli_epi32 (inp ! 16) 15) (mm_and_si128 (mm_slli_epi32 (inp ! 17) (31 - 14)) mask),
     mm_or_si128 (mm_srli_epi32 (inp ! 17) 14) (mm_and_si128 (mm_slli_epi32 (inp ! 18) (31 - 13)) mask),
     mm_or_si128 (mm_srli_epi32 (inp ! 18) 13) (mm_and_si128 (mm_slli_epi32 (inp ! 19) (31 - 12)) mask),
     mm_or_si128 (mm_srli_epi32 (inp ! 19) 12) (mm_and_si128 (mm_slli_epi32 (inp ! 20) (31 - 11)) mask),
     mm_or_si128 (mm_srli_epi32 (inp ! 20) 11) (mm_and_si128 (mm_slli_epi32 (inp ! 21) (31 - 10)) mask),
     mm_or_si128 (mm_srli_epi32 (inp ! 21) 10) (mm_and_si128 (mm_slli_epi32 (inp ! 22) (31 - 9)) mask),
     mm_or_si128 (mm_srli_epi32 (inp ! 22) 9) (mm_and_si128 (mm_slli_epi32 (inp ! 23) (31 - 8)) mask),
     mm_or_si128 (mm_srli_epi32 (inp ! 23) 8) (mm_and_si128 (mm_slli_epi32 (inp ! 24) (31 - 7)) mask),
     mm_or_si128 (mm_srli_epi32 (inp ! 24) 7) (mm_and_si128 (mm_slli_epi32 (inp ! 25) (31 - 6)) mask),
     mm_or_si128 (mm_srli_epi32 (inp ! 25) 6) (mm_and_si128 (mm_slli_epi32 (inp ! 26) (31 - 5)) mask),
     mm_or_si128 (mm_srli_epi32 (inp ! 26) 5) (mm_and_si128 (mm_slli_epi32 (inp ! 27) (31 - 4)) mask),
     mm_or_si128 (mm_srli_epi32 (inp ! 27) 4) (mm_and_si128 (mm_slli_epi32 (inp ! 28) (31 - 3)) mask),
     mm_or_si128 (mm_srli_epi32 (inp ! 28) 3) (mm_and_si128 (mm_slli_epi32 (inp ! 29) (31 - 2)) mask),
     mm_or_si128 (mm_srli_epi32 (inp ! 29) 2) (mm_and_si128 (mm_slli_epi32 (inp ! 30) (31 - 1)) mask),
     mm_srli_epi32 (inp ! 30) 1])"

definition uSIMD_fastunpack32 :: "m128i list \<Rightarrow> m128i list" where
  "uSIMD_fastunpack32 inp =
    map (\<lambda>outer. inp ! outer) [0..<32]"

section \<open>They are the aligned routines\<close>

lemma uSIMD_fastpackwithoutmask0_eq: "uSIMD_fastpackwithoutmask0 = SIMD_fastpackwithoutmask0"
  by (rule ext) (simp only: uSIMD_fastpackwithoutmask0_def SIMD_fastpackwithoutmask0_def)

lemma uSIMD_fastpackwithoutmask1_eq: "uSIMD_fastpackwithoutmask1 = SIMD_fastpackwithoutmask1"
  by (rule ext) (simp only: uSIMD_fastpackwithoutmask1_def SIMD_fastpackwithoutmask1_def)

lemma uSIMD_fastpackwithoutmask2_eq: "uSIMD_fastpackwithoutmask2 = SIMD_fastpackwithoutmask2"
  by (rule ext) (simp only: uSIMD_fastpackwithoutmask2_def SIMD_fastpackwithoutmask2_def)

lemma uSIMD_fastpackwithoutmask3_eq: "uSIMD_fastpackwithoutmask3 = SIMD_fastpackwithoutmask3"
  by (rule ext) (simp only: uSIMD_fastpackwithoutmask3_def SIMD_fastpackwithoutmask3_def)

lemma uSIMD_fastpackwithoutmask4_eq: "uSIMD_fastpackwithoutmask4 = SIMD_fastpackwithoutmask4"
  by (rule ext) (simp only: uSIMD_fastpackwithoutmask4_def SIMD_fastpackwithoutmask4_def)

lemma uSIMD_fastpackwithoutmask5_eq: "uSIMD_fastpackwithoutmask5 = SIMD_fastpackwithoutmask5"
  by (rule ext) (simp only: uSIMD_fastpackwithoutmask5_def SIMD_fastpackwithoutmask5_def)

lemma uSIMD_fastpackwithoutmask6_eq: "uSIMD_fastpackwithoutmask6 = SIMD_fastpackwithoutmask6"
  by (rule ext) (simp only: uSIMD_fastpackwithoutmask6_def SIMD_fastpackwithoutmask6_def)

lemma uSIMD_fastpackwithoutmask7_eq: "uSIMD_fastpackwithoutmask7 = SIMD_fastpackwithoutmask7"
  by (rule ext) (simp only: uSIMD_fastpackwithoutmask7_def SIMD_fastpackwithoutmask7_def)

lemma uSIMD_fastpackwithoutmask8_eq: "uSIMD_fastpackwithoutmask8 = SIMD_fastpackwithoutmask8"
  by (rule ext) (simp only: uSIMD_fastpackwithoutmask8_def SIMD_fastpackwithoutmask8_def)

lemma uSIMD_fastpackwithoutmask9_eq: "uSIMD_fastpackwithoutmask9 = SIMD_fastpackwithoutmask9"
  by (rule ext) (simp only: uSIMD_fastpackwithoutmask9_def SIMD_fastpackwithoutmask9_def)

lemma uSIMD_fastpackwithoutmask10_eq: "uSIMD_fastpackwithoutmask10 = SIMD_fastpackwithoutmask10"
  by (rule ext) (simp only: uSIMD_fastpackwithoutmask10_def SIMD_fastpackwithoutmask10_def)

lemma uSIMD_fastpackwithoutmask11_eq: "uSIMD_fastpackwithoutmask11 = SIMD_fastpackwithoutmask11"
  by (rule ext) (simp only: uSIMD_fastpackwithoutmask11_def SIMD_fastpackwithoutmask11_def)

lemma uSIMD_fastpackwithoutmask12_eq: "uSIMD_fastpackwithoutmask12 = SIMD_fastpackwithoutmask12"
  by (rule ext) (simp only: uSIMD_fastpackwithoutmask12_def SIMD_fastpackwithoutmask12_def)

lemma uSIMD_fastpackwithoutmask13_eq: "uSIMD_fastpackwithoutmask13 = SIMD_fastpackwithoutmask13"
  by (rule ext) (simp only: uSIMD_fastpackwithoutmask13_def SIMD_fastpackwithoutmask13_def)

lemma uSIMD_fastpackwithoutmask14_eq: "uSIMD_fastpackwithoutmask14 = SIMD_fastpackwithoutmask14"
  by (rule ext) (simp only: uSIMD_fastpackwithoutmask14_def SIMD_fastpackwithoutmask14_def)

lemma uSIMD_fastpackwithoutmask15_eq: "uSIMD_fastpackwithoutmask15 = SIMD_fastpackwithoutmask15"
  by (rule ext) (simp only: uSIMD_fastpackwithoutmask15_def SIMD_fastpackwithoutmask15_def)

lemma uSIMD_fastpackwithoutmask16_eq: "uSIMD_fastpackwithoutmask16 = SIMD_fastpackwithoutmask16"
  by (rule ext) (simp only: uSIMD_fastpackwithoutmask16_def SIMD_fastpackwithoutmask16_def)

lemma uSIMD_fastpackwithoutmask17_eq: "uSIMD_fastpackwithoutmask17 = SIMD_fastpackwithoutmask17"
  by (rule ext) (simp only: uSIMD_fastpackwithoutmask17_def SIMD_fastpackwithoutmask17_def)

lemma uSIMD_fastpackwithoutmask18_eq: "uSIMD_fastpackwithoutmask18 = SIMD_fastpackwithoutmask18"
  by (rule ext) (simp only: uSIMD_fastpackwithoutmask18_def SIMD_fastpackwithoutmask18_def)

lemma uSIMD_fastpackwithoutmask19_eq: "uSIMD_fastpackwithoutmask19 = SIMD_fastpackwithoutmask19"
  by (rule ext) (simp only: uSIMD_fastpackwithoutmask19_def SIMD_fastpackwithoutmask19_def)

lemma uSIMD_fastpackwithoutmask20_eq: "uSIMD_fastpackwithoutmask20 = SIMD_fastpackwithoutmask20"
  by (rule ext) (simp only: uSIMD_fastpackwithoutmask20_def SIMD_fastpackwithoutmask20_def)

lemma uSIMD_fastpackwithoutmask21_eq: "uSIMD_fastpackwithoutmask21 = SIMD_fastpackwithoutmask21"
  by (rule ext) (simp only: uSIMD_fastpackwithoutmask21_def SIMD_fastpackwithoutmask21_def)

lemma uSIMD_fastpackwithoutmask22_eq: "uSIMD_fastpackwithoutmask22 = SIMD_fastpackwithoutmask22"
  by (rule ext) (simp only: uSIMD_fastpackwithoutmask22_def SIMD_fastpackwithoutmask22_def)

lemma uSIMD_fastpackwithoutmask23_eq: "uSIMD_fastpackwithoutmask23 = SIMD_fastpackwithoutmask23"
  by (rule ext) (simp only: uSIMD_fastpackwithoutmask23_def SIMD_fastpackwithoutmask23_def)

lemma uSIMD_fastpackwithoutmask24_eq: "uSIMD_fastpackwithoutmask24 = SIMD_fastpackwithoutmask24"
  by (rule ext) (simp only: uSIMD_fastpackwithoutmask24_def SIMD_fastpackwithoutmask24_def)

lemma uSIMD_fastpackwithoutmask25_eq: "uSIMD_fastpackwithoutmask25 = SIMD_fastpackwithoutmask25"
  by (rule ext) (simp only: uSIMD_fastpackwithoutmask25_def SIMD_fastpackwithoutmask25_def)

lemma uSIMD_fastpackwithoutmask26_eq: "uSIMD_fastpackwithoutmask26 = SIMD_fastpackwithoutmask26"
  by (rule ext) (simp only: uSIMD_fastpackwithoutmask26_def SIMD_fastpackwithoutmask26_def)

lemma uSIMD_fastpackwithoutmask27_eq: "uSIMD_fastpackwithoutmask27 = SIMD_fastpackwithoutmask27"
  by (rule ext) (simp only: uSIMD_fastpackwithoutmask27_def SIMD_fastpackwithoutmask27_def)

lemma uSIMD_fastpackwithoutmask28_eq: "uSIMD_fastpackwithoutmask28 = SIMD_fastpackwithoutmask28"
  by (rule ext) (simp only: uSIMD_fastpackwithoutmask28_def SIMD_fastpackwithoutmask28_def)

lemma uSIMD_fastpackwithoutmask29_eq: "uSIMD_fastpackwithoutmask29 = SIMD_fastpackwithoutmask29"
  by (rule ext) (simp only: uSIMD_fastpackwithoutmask29_def SIMD_fastpackwithoutmask29_def)

lemma uSIMD_fastpackwithoutmask30_eq: "uSIMD_fastpackwithoutmask30 = SIMD_fastpackwithoutmask30"
  by (rule ext) (simp only: uSIMD_fastpackwithoutmask30_def SIMD_fastpackwithoutmask30_def)

lemma uSIMD_fastpackwithoutmask31_eq: "uSIMD_fastpackwithoutmask31 = SIMD_fastpackwithoutmask31"
  by (rule ext) (simp only: uSIMD_fastpackwithoutmask31_def SIMD_fastpackwithoutmask31_def)

lemma uSIMD_fastpackwithoutmask32_eq: "uSIMD_fastpackwithoutmask32 = SIMD_fastpackwithoutmask32"
  by (rule ext) (simp only: uSIMD_fastpackwithoutmask32_def SIMD_fastpackwithoutmask32_def)

lemma uSIMD_fastpack0_eq: "uSIMD_fastpack0 = SIMD_fastpack0"
  by (rule ext) (simp only: uSIMD_fastpack0_def SIMD_fastpack0_def)

lemma uSIMD_fastpack1_eq: "uSIMD_fastpack1 = SIMD_fastpack1"
  by (rule ext) (simp only: uSIMD_fastpack1_def SIMD_fastpack1_def)

lemma uSIMD_fastpack2_eq: "uSIMD_fastpack2 = SIMD_fastpack2"
  by (rule ext) (simp only: uSIMD_fastpack2_def SIMD_fastpack2_def)

lemma uSIMD_fastpack3_eq: "uSIMD_fastpack3 = SIMD_fastpack3"
  by (rule ext) (simp only: uSIMD_fastpack3_def SIMD_fastpack3_def)

lemma uSIMD_fastpack4_eq: "uSIMD_fastpack4 = SIMD_fastpack4"
  by (rule ext) (simp only: uSIMD_fastpack4_def SIMD_fastpack4_def)

lemma uSIMD_fastpack5_eq: "uSIMD_fastpack5 = SIMD_fastpack5"
  by (rule ext) (simp only: uSIMD_fastpack5_def SIMD_fastpack5_def)

lemma uSIMD_fastpack6_eq: "uSIMD_fastpack6 = SIMD_fastpack6"
  by (rule ext) (simp only: uSIMD_fastpack6_def SIMD_fastpack6_def)

lemma uSIMD_fastpack7_eq: "uSIMD_fastpack7 = SIMD_fastpack7"
  by (rule ext) (simp only: uSIMD_fastpack7_def SIMD_fastpack7_def)

lemma uSIMD_fastpack8_eq: "uSIMD_fastpack8 = SIMD_fastpack8"
  by (rule ext) (simp only: uSIMD_fastpack8_def SIMD_fastpack8_def)

lemma uSIMD_fastpack9_eq: "uSIMD_fastpack9 = SIMD_fastpack9"
  by (rule ext) (simp only: uSIMD_fastpack9_def SIMD_fastpack9_def)

lemma uSIMD_fastpack10_eq: "uSIMD_fastpack10 = SIMD_fastpack10"
  by (rule ext) (simp only: uSIMD_fastpack10_def SIMD_fastpack10_def)

lemma uSIMD_fastpack11_eq: "uSIMD_fastpack11 = SIMD_fastpack11"
  by (rule ext) (simp only: uSIMD_fastpack11_def SIMD_fastpack11_def)

lemma uSIMD_fastpack12_eq: "uSIMD_fastpack12 = SIMD_fastpack12"
  by (rule ext) (simp only: uSIMD_fastpack12_def SIMD_fastpack12_def)

lemma uSIMD_fastpack13_eq: "uSIMD_fastpack13 = SIMD_fastpack13"
  by (rule ext) (simp only: uSIMD_fastpack13_def SIMD_fastpack13_def)

lemma uSIMD_fastpack14_eq: "uSIMD_fastpack14 = SIMD_fastpack14"
  by (rule ext) (simp only: uSIMD_fastpack14_def SIMD_fastpack14_def)

lemma uSIMD_fastpack15_eq: "uSIMD_fastpack15 = SIMD_fastpack15"
  by (rule ext) (simp only: uSIMD_fastpack15_def SIMD_fastpack15_def)

lemma uSIMD_fastpack16_eq: "uSIMD_fastpack16 = SIMD_fastpack16"
  by (rule ext) (simp only: uSIMD_fastpack16_def SIMD_fastpack16_def)

lemma uSIMD_fastpack17_eq: "uSIMD_fastpack17 = SIMD_fastpack17"
  by (rule ext) (simp only: uSIMD_fastpack17_def SIMD_fastpack17_def)

lemma uSIMD_fastpack18_eq: "uSIMD_fastpack18 = SIMD_fastpack18"
  by (rule ext) (simp only: uSIMD_fastpack18_def SIMD_fastpack18_def)

lemma uSIMD_fastpack19_eq: "uSIMD_fastpack19 = SIMD_fastpack19"
  by (rule ext) (simp only: uSIMD_fastpack19_def SIMD_fastpack19_def)

lemma uSIMD_fastpack20_eq: "uSIMD_fastpack20 = SIMD_fastpack20"
  by (rule ext) (simp only: uSIMD_fastpack20_def SIMD_fastpack20_def)

lemma uSIMD_fastpack21_eq: "uSIMD_fastpack21 = SIMD_fastpack21"
  by (rule ext) (simp only: uSIMD_fastpack21_def SIMD_fastpack21_def)

lemma uSIMD_fastpack22_eq: "uSIMD_fastpack22 = SIMD_fastpack22"
  by (rule ext) (simp only: uSIMD_fastpack22_def SIMD_fastpack22_def)

lemma uSIMD_fastpack23_eq: "uSIMD_fastpack23 = SIMD_fastpack23"
  by (rule ext) (simp only: uSIMD_fastpack23_def SIMD_fastpack23_def)

lemma uSIMD_fastpack24_eq: "uSIMD_fastpack24 = SIMD_fastpack24"
  by (rule ext) (simp only: uSIMD_fastpack24_def SIMD_fastpack24_def)

lemma uSIMD_fastpack25_eq: "uSIMD_fastpack25 = SIMD_fastpack25"
  by (rule ext) (simp only: uSIMD_fastpack25_def SIMD_fastpack25_def)

lemma uSIMD_fastpack26_eq: "uSIMD_fastpack26 = SIMD_fastpack26"
  by (rule ext) (simp only: uSIMD_fastpack26_def SIMD_fastpack26_def)

lemma uSIMD_fastpack27_eq: "uSIMD_fastpack27 = SIMD_fastpack27"
  by (rule ext) (simp only: uSIMD_fastpack27_def SIMD_fastpack27_def)

lemma uSIMD_fastpack28_eq: "uSIMD_fastpack28 = SIMD_fastpack28"
  by (rule ext) (simp only: uSIMD_fastpack28_def SIMD_fastpack28_def)

lemma uSIMD_fastpack29_eq: "uSIMD_fastpack29 = SIMD_fastpack29"
  by (rule ext) (simp only: uSIMD_fastpack29_def SIMD_fastpack29_def)

lemma uSIMD_fastpack30_eq: "uSIMD_fastpack30 = SIMD_fastpack30"
  by (rule ext) (simp only: uSIMD_fastpack30_def SIMD_fastpack30_def)

lemma uSIMD_fastpack31_eq: "uSIMD_fastpack31 = SIMD_fastpack31"
  by (rule ext) (simp only: uSIMD_fastpack31_def SIMD_fastpack31_def)

lemma uSIMD_fastpack32_eq: "uSIMD_fastpack32 = SIMD_fastpack32"
  by (rule ext) (simp only: uSIMD_fastpack32_def SIMD_fastpack32_def)

lemma uSIMD_nullunpacker32_eq: "uSIMD_nullunpacker32 = SIMD_nullunpacker32"
  by (rule ext) (simp only: uSIMD_nullunpacker32_def SIMD_nullunpacker32_def)

lemma uSIMD_fastunpack1_eq: "uSIMD_fastunpack1 = SIMD_fastunpack1"
  by (rule ext) (simp only: uSIMD_fastunpack1_def SIMD_fastunpack1_def)

lemma uSIMD_fastunpack2_eq: "uSIMD_fastunpack2 = SIMD_fastunpack2"
  by (rule ext) (simp only: uSIMD_fastunpack2_def SIMD_fastunpack2_def)

lemma uSIMD_fastunpack3_eq: "uSIMD_fastunpack3 = SIMD_fastunpack3"
  by (rule ext) (simp only: uSIMD_fastunpack3_def SIMD_fastunpack3_def)

lemma uSIMD_fastunpack4_eq: "uSIMD_fastunpack4 = SIMD_fastunpack4"
  by (rule ext) (simp only: uSIMD_fastunpack4_def SIMD_fastunpack4_def)

lemma uSIMD_fastunpack5_eq: "uSIMD_fastunpack5 = SIMD_fastunpack5"
  by (rule ext) (simp only: uSIMD_fastunpack5_def SIMD_fastunpack5_def)

lemma uSIMD_fastunpack6_eq: "uSIMD_fastunpack6 = SIMD_fastunpack6"
  by (rule ext) (simp only: uSIMD_fastunpack6_def SIMD_fastunpack6_def)

lemma uSIMD_fastunpack7_eq: "uSIMD_fastunpack7 = SIMD_fastunpack7"
  by (rule ext) (simp only: uSIMD_fastunpack7_def SIMD_fastunpack7_def)

lemma uSIMD_fastunpack8_eq: "uSIMD_fastunpack8 = SIMD_fastunpack8"
  by (rule ext) (simp only: uSIMD_fastunpack8_def SIMD_fastunpack8_def)

lemma uSIMD_fastunpack9_eq: "uSIMD_fastunpack9 = SIMD_fastunpack9"
  by (rule ext) (simp only: uSIMD_fastunpack9_def SIMD_fastunpack9_def)

lemma uSIMD_fastunpack10_eq: "uSIMD_fastunpack10 = SIMD_fastunpack10"
  by (rule ext) (simp only: uSIMD_fastunpack10_def SIMD_fastunpack10_def)

lemma uSIMD_fastunpack11_eq: "uSIMD_fastunpack11 = SIMD_fastunpack11"
  by (rule ext) (simp only: uSIMD_fastunpack11_def SIMD_fastunpack11_def)

lemma uSIMD_fastunpack12_eq: "uSIMD_fastunpack12 = SIMD_fastunpack12"
  by (rule ext) (simp only: uSIMD_fastunpack12_def SIMD_fastunpack12_def)

lemma uSIMD_fastunpack13_eq: "uSIMD_fastunpack13 = SIMD_fastunpack13"
  by (rule ext) (simp only: uSIMD_fastunpack13_def SIMD_fastunpack13_def)

lemma uSIMD_fastunpack14_eq: "uSIMD_fastunpack14 = SIMD_fastunpack14"
  by (rule ext) (simp only: uSIMD_fastunpack14_def SIMD_fastunpack14_def)

lemma uSIMD_fastunpack15_eq: "uSIMD_fastunpack15 = SIMD_fastunpack15"
  by (rule ext) (simp only: uSIMD_fastunpack15_def SIMD_fastunpack15_def)

lemma uSIMD_fastunpack16_eq: "uSIMD_fastunpack16 = SIMD_fastunpack16"
  by (rule ext) (simp only: uSIMD_fastunpack16_def SIMD_fastunpack16_def)

lemma uSIMD_fastunpack17_eq: "uSIMD_fastunpack17 = SIMD_fastunpack17"
  by (rule ext) (simp only: uSIMD_fastunpack17_def SIMD_fastunpack17_def)

lemma uSIMD_fastunpack18_eq: "uSIMD_fastunpack18 = SIMD_fastunpack18"
  by (rule ext) (simp only: uSIMD_fastunpack18_def SIMD_fastunpack18_def)

lemma uSIMD_fastunpack19_eq: "uSIMD_fastunpack19 = SIMD_fastunpack19"
  by (rule ext) (simp only: uSIMD_fastunpack19_def SIMD_fastunpack19_def)

lemma uSIMD_fastunpack20_eq: "uSIMD_fastunpack20 = SIMD_fastunpack20"
  by (rule ext) (simp only: uSIMD_fastunpack20_def SIMD_fastunpack20_def)

lemma uSIMD_fastunpack21_eq: "uSIMD_fastunpack21 = SIMD_fastunpack21"
  by (rule ext) (simp only: uSIMD_fastunpack21_def SIMD_fastunpack21_def)

lemma uSIMD_fastunpack22_eq: "uSIMD_fastunpack22 = SIMD_fastunpack22"
  by (rule ext) (simp only: uSIMD_fastunpack22_def SIMD_fastunpack22_def)

lemma uSIMD_fastunpack23_eq: "uSIMD_fastunpack23 = SIMD_fastunpack23"
  by (rule ext) (simp only: uSIMD_fastunpack23_def SIMD_fastunpack23_def)

lemma uSIMD_fastunpack24_eq: "uSIMD_fastunpack24 = SIMD_fastunpack24"
  by (rule ext) (simp only: uSIMD_fastunpack24_def SIMD_fastunpack24_def)

lemma uSIMD_fastunpack25_eq: "uSIMD_fastunpack25 = SIMD_fastunpack25"
  by (rule ext) (simp only: uSIMD_fastunpack25_def SIMD_fastunpack25_def)

lemma uSIMD_fastunpack26_eq: "uSIMD_fastunpack26 = SIMD_fastunpack26"
  by (rule ext) (simp only: uSIMD_fastunpack26_def SIMD_fastunpack26_def)

lemma uSIMD_fastunpack27_eq: "uSIMD_fastunpack27 = SIMD_fastunpack27"
  by (rule ext) (simp only: uSIMD_fastunpack27_def SIMD_fastunpack27_def)

lemma uSIMD_fastunpack28_eq: "uSIMD_fastunpack28 = SIMD_fastunpack28"
  by (rule ext) (simp only: uSIMD_fastunpack28_def SIMD_fastunpack28_def)

lemma uSIMD_fastunpack29_eq: "uSIMD_fastunpack29 = SIMD_fastunpack29"
  by (rule ext) (simp only: uSIMD_fastunpack29_def SIMD_fastunpack29_def)

lemma uSIMD_fastunpack30_eq: "uSIMD_fastunpack30 = SIMD_fastunpack30"
  by (rule ext) (simp only: uSIMD_fastunpack30_def SIMD_fastunpack30_def)

lemma uSIMD_fastunpack31_eq: "uSIMD_fastunpack31 = SIMD_fastunpack31"
  by (rule ext) (simp only: uSIMD_fastunpack31_def SIMD_fastunpack31_def)

lemma uSIMD_fastunpack32_eq: "uSIMD_fastunpack32 = SIMD_fastunpack32"
  by (rule ext) (simp only: uSIMD_fastunpack32_def SIMD_fastunpack32_def)

text \<open>The dispatch arrays \<open>Upackwithoutmask\<close>, \<open>Upack\<close> and \<open>Uunpack\<close> of \<open>simdbitpackinghelpers.h\<close>.\<close>

definition uSIMD_packwithoutmask_table :: "(m128i list \<Rightarrow> m128i list) list" where
  "uSIMD_packwithoutmask_table =
    [uSIMD_fastpackwithoutmask0, uSIMD_fastpackwithoutmask1, uSIMD_fastpackwithoutmask2,
     uSIMD_fastpackwithoutmask3, uSIMD_fastpackwithoutmask4, uSIMD_fastpackwithoutmask5,
     uSIMD_fastpackwithoutmask6, uSIMD_fastpackwithoutmask7, uSIMD_fastpackwithoutmask8,
     uSIMD_fastpackwithoutmask9, uSIMD_fastpackwithoutmask10, uSIMD_fastpackwithoutmask11,
     uSIMD_fastpackwithoutmask12, uSIMD_fastpackwithoutmask13, uSIMD_fastpackwithoutmask14,
     uSIMD_fastpackwithoutmask15, uSIMD_fastpackwithoutmask16, uSIMD_fastpackwithoutmask17,
     uSIMD_fastpackwithoutmask18, uSIMD_fastpackwithoutmask19, uSIMD_fastpackwithoutmask20,
     uSIMD_fastpackwithoutmask21, uSIMD_fastpackwithoutmask22, uSIMD_fastpackwithoutmask23,
     uSIMD_fastpackwithoutmask24, uSIMD_fastpackwithoutmask25, uSIMD_fastpackwithoutmask26,
     uSIMD_fastpackwithoutmask27, uSIMD_fastpackwithoutmask28, uSIMD_fastpackwithoutmask29,
     uSIMD_fastpackwithoutmask30, uSIMD_fastpackwithoutmask31, uSIMD_fastpackwithoutmask32]"

lemmas uSIMD_packwithoutmask_eqs =
  uSIMD_fastpackwithoutmask0_eq uSIMD_fastpackwithoutmask1_eq uSIMD_fastpackwithoutmask2_eq
  uSIMD_fastpackwithoutmask3_eq uSIMD_fastpackwithoutmask4_eq uSIMD_fastpackwithoutmask5_eq
  uSIMD_fastpackwithoutmask6_eq uSIMD_fastpackwithoutmask7_eq uSIMD_fastpackwithoutmask8_eq
  uSIMD_fastpackwithoutmask9_eq uSIMD_fastpackwithoutmask10_eq uSIMD_fastpackwithoutmask11_eq
  uSIMD_fastpackwithoutmask12_eq uSIMD_fastpackwithoutmask13_eq uSIMD_fastpackwithoutmask14_eq
  uSIMD_fastpackwithoutmask15_eq uSIMD_fastpackwithoutmask16_eq uSIMD_fastpackwithoutmask17_eq
  uSIMD_fastpackwithoutmask18_eq uSIMD_fastpackwithoutmask19_eq uSIMD_fastpackwithoutmask20_eq
  uSIMD_fastpackwithoutmask21_eq uSIMD_fastpackwithoutmask22_eq uSIMD_fastpackwithoutmask23_eq
  uSIMD_fastpackwithoutmask24_eq uSIMD_fastpackwithoutmask25_eq uSIMD_fastpackwithoutmask26_eq
  uSIMD_fastpackwithoutmask27_eq uSIMD_fastpackwithoutmask28_eq uSIMD_fastpackwithoutmask29_eq
  uSIMD_fastpackwithoutmask30_eq uSIMD_fastpackwithoutmask31_eq uSIMD_fastpackwithoutmask32_eq

lemma uSIMD_packwithoutmask_table_eq: "uSIMD_packwithoutmask_table = SIMD_packwithoutmask_table"
  by (simp only: uSIMD_packwithoutmask_table_def SIMD_packwithoutmask_table_def uSIMD_packwithoutmask_eqs)

definition uSIMD_pack_table :: "(m128i list \<Rightarrow> m128i list) list" where
  "uSIMD_pack_table =
    [uSIMD_fastpack0, uSIMD_fastpack1, uSIMD_fastpack2, uSIMD_fastpack3, uSIMD_fastpack4, uSIMD_fastpack5,
     uSIMD_fastpack6, uSIMD_fastpack7, uSIMD_fastpack8, uSIMD_fastpack9, uSIMD_fastpack10, uSIMD_fastpack11,
     uSIMD_fastpack12, uSIMD_fastpack13, uSIMD_fastpack14, uSIMD_fastpack15, uSIMD_fastpack16,
     uSIMD_fastpack17, uSIMD_fastpack18, uSIMD_fastpack19, uSIMD_fastpack20, uSIMD_fastpack21,
     uSIMD_fastpack22, uSIMD_fastpack23, uSIMD_fastpack24, uSIMD_fastpack25, uSIMD_fastpack26,
     uSIMD_fastpack27, uSIMD_fastpack28, uSIMD_fastpack29, uSIMD_fastpack30, uSIMD_fastpack31,
     uSIMD_fastpack32]"

lemmas uSIMD_pack_eqs =
  uSIMD_fastpack0_eq uSIMD_fastpack1_eq uSIMD_fastpack2_eq uSIMD_fastpack3_eq uSIMD_fastpack4_eq
  uSIMD_fastpack5_eq uSIMD_fastpack6_eq uSIMD_fastpack7_eq uSIMD_fastpack8_eq uSIMD_fastpack9_eq
  uSIMD_fastpack10_eq uSIMD_fastpack11_eq uSIMD_fastpack12_eq uSIMD_fastpack13_eq uSIMD_fastpack14_eq
  uSIMD_fastpack15_eq uSIMD_fastpack16_eq uSIMD_fastpack17_eq uSIMD_fastpack18_eq uSIMD_fastpack19_eq
  uSIMD_fastpack20_eq uSIMD_fastpack21_eq uSIMD_fastpack22_eq uSIMD_fastpack23_eq uSIMD_fastpack24_eq
  uSIMD_fastpack25_eq uSIMD_fastpack26_eq uSIMD_fastpack27_eq uSIMD_fastpack28_eq uSIMD_fastpack29_eq
  uSIMD_fastpack30_eq uSIMD_fastpack31_eq uSIMD_fastpack32_eq

lemma uSIMD_pack_table_eq: "uSIMD_pack_table = SIMD_pack_table"
  by (simp only: uSIMD_pack_table_def SIMD_pack_table_def uSIMD_pack_eqs)

definition uSIMD_unpack_table :: "(m128i list \<Rightarrow> m128i list) list" where
  "uSIMD_unpack_table =
    [uSIMD_nullunpacker32, uSIMD_fastunpack1, uSIMD_fastunpack2, uSIMD_fastunpack3, uSIMD_fastunpack4,
     uSIMD_fastunpack5, uSIMD_fastunpack6, uSIMD_fastunpack7, uSIMD_fastunpack8, uSIMD_fastunpack9,
     uSIMD_fastunpack10, uSIMD_fastunpack11, uSIMD_fastunpack12, uSIMD_fastunpack13, uSIMD_fastunpack14,
     uSIMD_fastunpack15, uSIMD_fastunpack16, uSIMD_fastunpack17, uSIMD_fastunpack18, uSIMD_fastunpack19,
     uSIMD_fastunpack20, uSIMD_fastunpack21, uSIMD_fastunpack22, uSIMD_fastunpack23, uSIMD_fastunpack24,
     uSIMD_fastunpack25, uSIMD_fastunpack26, uSIMD_fastunpack27, uSIMD_fastunpack28, uSIMD_fastunpack29,
     uSIMD_fastunpack30, uSIMD_fastunpack31, uSIMD_fastunpack32]"

lemmas uSIMD_unpack_eqs =
  uSIMD_nullunpacker32_eq uSIMD_fastunpack1_eq uSIMD_fastunpack2_eq uSIMD_fastunpack3_eq uSIMD_fastunpack4_eq
  uSIMD_fastunpack5_eq uSIMD_fastunpack6_eq uSIMD_fastunpack7_eq uSIMD_fastunpack8_eq uSIMD_fastunpack9_eq
  uSIMD_fastunpack10_eq uSIMD_fastunpack11_eq uSIMD_fastunpack12_eq uSIMD_fastunpack13_eq
  uSIMD_fastunpack14_eq uSIMD_fastunpack15_eq uSIMD_fastunpack16_eq uSIMD_fastunpack17_eq
  uSIMD_fastunpack18_eq uSIMD_fastunpack19_eq uSIMD_fastunpack20_eq uSIMD_fastunpack21_eq
  uSIMD_fastunpack22_eq uSIMD_fastunpack23_eq uSIMD_fastunpack24_eq uSIMD_fastunpack25_eq
  uSIMD_fastunpack26_eq uSIMD_fastunpack27_eq uSIMD_fastunpack28_eq uSIMD_fastunpack29_eq
  uSIMD_fastunpack30_eq uSIMD_fastunpack31_eq uSIMD_fastunpack32_eq

lemma uSIMD_unpack_table_eq: "uSIMD_unpack_table = SIMD_unpack_table"
  by (simp only: uSIMD_unpack_table_def SIMD_unpack_table_def uSIMD_unpack_eqs)


end
