(* ===== verification/SIMD_FastPFor.thy ===== *)
theory SIMD_FastPFor
  imports SIMD_Pack SIMD_Unpack
begin

text \<open>
  The routines of \<open>source/util/compression/int/fastpfor/simdbitpacking.cpp\<close>. The packers are those of
  \<open>simd-compression\<close> but for the way the masks are written; the unpackers mask the second part of a field
  before they shift it. They are named with the suffix \<open>_32\<close> of the source.
\<close>

section \<open>The routines\<close>

definition SIMD_nullunpacker32_32 :: "m128i list \<Rightarrow> m128i list" where
  "SIMD_nullunpacker32_32 inp = replicate 32 (mm_set1_epi32 0)"

definition SIMD_fastpackwithoutmask1_32 :: "m128i list \<Rightarrow> m128i list" where
  "SIMD_fastpackwithoutmask1_32 inp =
    [accum128 (inp ! 0)
       [mm_slli_epi32 (inp ! 1) 1, mm_slli_epi32 (inp ! 2) 2, mm_slli_epi32 (inp ! 3) 3,
        mm_slli_epi32 (inp ! 4) 4, mm_slli_epi32 (inp ! 5) 5, mm_slli_epi32 (inp ! 6) 6,
        mm_slli_epi32 (inp ! 7) 7, mm_slli_epi32 (inp ! 8) 8, mm_slli_epi32 (inp ! 9) 9,
        mm_slli_epi32 (inp ! 10) 10, mm_slli_epi32 (inp ! 11) 11, mm_slli_epi32 (inp ! 12) 12,
        mm_slli_epi32 (inp ! 13) 13, mm_slli_epi32 (inp ! 14) 14, mm_slli_epi32 (inp ! 15) 15,
        mm_slli_epi32 (inp ! 16) 16, mm_slli_epi32 (inp ! 17) 17, mm_slli_epi32 (inp ! 18) 18,
        mm_slli_epi32 (inp ! 19) 19, mm_slli_epi32 (inp ! 20) 20, mm_slli_epi32 (inp ! 21) 21,
        mm_slli_epi32 (inp ! 22) 22, mm_slli_epi32 (inp ! 23) 23, mm_slli_epi32 (inp ! 24) 24,
        mm_slli_epi32 (inp ! 25) 25, mm_slli_epi32 (inp ! 26) 26, mm_slli_epi32 (inp ! 27) 27,
        mm_slli_epi32 (inp ! 28) 28, mm_slli_epi32 (inp ! 29) 29, mm_slli_epi32 (inp ! 30) 30,
        mm_slli_epi32 (inp ! 31) 31]]"

definition SIMD_fastpackwithoutmask2_32 :: "m128i list \<Rightarrow> m128i list" where
  "SIMD_fastpackwithoutmask2_32 inp =
    [accum128 (inp ! 0)
       [mm_slli_epi32 (inp ! 1) 2, mm_slli_epi32 (inp ! 2) 4, mm_slli_epi32 (inp ! 3) 6,
        mm_slli_epi32 (inp ! 4) 8, mm_slli_epi32 (inp ! 5) 10, mm_slli_epi32 (inp ! 6) 12,
        mm_slli_epi32 (inp ! 7) 14, mm_slli_epi32 (inp ! 8) 16, mm_slli_epi32 (inp ! 9) 18,
        mm_slli_epi32 (inp ! 10) 20, mm_slli_epi32 (inp ! 11) 22, mm_slli_epi32 (inp ! 12) 24,
        mm_slli_epi32 (inp ! 13) 26, mm_slli_epi32 (inp ! 14) 28, mm_slli_epi32 (inp ! 15) 30],
     accum128 (inp ! 16)
       [mm_slli_epi32 (inp ! 17) 2, mm_slli_epi32 (inp ! 18) 4, mm_slli_epi32 (inp ! 19) 6,
        mm_slli_epi32 (inp ! 20) 8, mm_slli_epi32 (inp ! 21) 10, mm_slli_epi32 (inp ! 22) 12,
        mm_slli_epi32 (inp ! 23) 14, mm_slli_epi32 (inp ! 24) 16, mm_slli_epi32 (inp ! 25) 18,
        mm_slli_epi32 (inp ! 26) 20, mm_slli_epi32 (inp ! 27) 22, mm_slli_epi32 (inp ! 28) 24,
        mm_slli_epi32 (inp ! 29) 26, mm_slli_epi32 (inp ! 30) 28, mm_slli_epi32 (inp ! 31) 30]]"

definition SIMD_fastpackwithoutmask3_32 :: "m128i list \<Rightarrow> m128i list" where
  "SIMD_fastpackwithoutmask3_32 inp =
    [accum128 (inp ! 0)
       [mm_slli_epi32 (inp ! 1) 3, mm_slli_epi32 (inp ! 2) 6, mm_slli_epi32 (inp ! 3) 9,
        mm_slli_epi32 (inp ! 4) 12, mm_slli_epi32 (inp ! 5) 15, mm_slli_epi32 (inp ! 6) 18,
        mm_slli_epi32 (inp ! 7) 21, mm_slli_epi32 (inp ! 8) 24, mm_slli_epi32 (inp ! 9) 27,
        mm_slli_epi32 (inp ! 10) 30],
     accum128 (mm_srli_epi32 (inp ! 10) (3 - 1))
       [mm_slli_epi32 (inp ! 11) 1, mm_slli_epi32 (inp ! 12) 4, mm_slli_epi32 (inp ! 13) 7,
        mm_slli_epi32 (inp ! 14) 10, mm_slli_epi32 (inp ! 15) 13, mm_slli_epi32 (inp ! 16) 16,
        mm_slli_epi32 (inp ! 17) 19, mm_slli_epi32 (inp ! 18) 22, mm_slli_epi32 (inp ! 19) 25,
        mm_slli_epi32 (inp ! 20) 28, mm_slli_epi32 (inp ! 21) 31],
     accum128 (mm_srli_epi32 (inp ! 21) (3 - 2))
       [mm_slli_epi32 (inp ! 22) 2, mm_slli_epi32 (inp ! 23) 5, mm_slli_epi32 (inp ! 24) 8,
        mm_slli_epi32 (inp ! 25) 11, mm_slli_epi32 (inp ! 26) 14, mm_slli_epi32 (inp ! 27) 17,
        mm_slli_epi32 (inp ! 28) 20, mm_slli_epi32 (inp ! 29) 23, mm_slli_epi32 (inp ! 30) 26,
        mm_slli_epi32 (inp ! 31) 29]]"

definition SIMD_fastpackwithoutmask4_32 :: "m128i list \<Rightarrow> m128i list" where
  "SIMD_fastpackwithoutmask4_32 inp =
    concat (map (\<lambda>outer.
     [accum128 (inp ! (8 * outer))
       [mm_slli_epi32 (inp ! (8 * outer + 1)) 4, mm_slli_epi32 (inp ! (8 * outer + 2)) 8,
        mm_slli_epi32 (inp ! (8 * outer + 3)) 12, mm_slli_epi32 (inp ! (8 * outer + 4)) 16,
        mm_slli_epi32 (inp ! (8 * outer + 5)) 20, mm_slli_epi32 (inp ! (8 * outer + 6)) 24,
        mm_slli_epi32 (inp ! (8 * outer + 7)) 28]])
     [0..<4])"

definition SIMD_fastpackwithoutmask5_32 :: "m128i list \<Rightarrow> m128i list" where
  "SIMD_fastpackwithoutmask5_32 inp =
    [accum128 (inp ! 0)
       [mm_slli_epi32 (inp ! 1) 5, mm_slli_epi32 (inp ! 2) 10, mm_slli_epi32 (inp ! 3) 15,
        mm_slli_epi32 (inp ! 4) 20, mm_slli_epi32 (inp ! 5) 25, mm_slli_epi32 (inp ! 6) 30],
     accum128 (mm_srli_epi32 (inp ! 6) (5 - 3))
       [mm_slli_epi32 (inp ! 7) 3, mm_slli_epi32 (inp ! 8) 8, mm_slli_epi32 (inp ! 9) 13,
        mm_slli_epi32 (inp ! 10) 18, mm_slli_epi32 (inp ! 11) 23, mm_slli_epi32 (inp ! 12) 28],
     accum128 (mm_srli_epi32 (inp ! 12) (5 - 1))
       [mm_slli_epi32 (inp ! 13) 1, mm_slli_epi32 (inp ! 14) 6, mm_slli_epi32 (inp ! 15) 11,
        mm_slli_epi32 (inp ! 16) 16, mm_slli_epi32 (inp ! 17) 21, mm_slli_epi32 (inp ! 18) 26,
        mm_slli_epi32 (inp ! 19) 31],
     accum128 (mm_srli_epi32 (inp ! 19) (5 - 4))
       [mm_slli_epi32 (inp ! 20) 4, mm_slli_epi32 (inp ! 21) 9, mm_slli_epi32 (inp ! 22) 14,
        mm_slli_epi32 (inp ! 23) 19, mm_slli_epi32 (inp ! 24) 24, mm_slli_epi32 (inp ! 25) 29],
     accum128 (mm_srli_epi32 (inp ! 25) (5 - 2))
       [mm_slli_epi32 (inp ! 26) 2, mm_slli_epi32 (inp ! 27) 7, mm_slli_epi32 (inp ! 28) 12,
        mm_slli_epi32 (inp ! 29) 17, mm_slli_epi32 (inp ! 30) 22, mm_slli_epi32 (inp ! 31) 27]]"

definition SIMD_fastpackwithoutmask6_32 :: "m128i list \<Rightarrow> m128i list" where
  "SIMD_fastpackwithoutmask6_32 inp =
    [accum128 (inp ! 0)
       [mm_slli_epi32 (inp ! 1) 6, mm_slli_epi32 (inp ! 2) 12, mm_slli_epi32 (inp ! 3) 18,
        mm_slli_epi32 (inp ! 4) 24, mm_slli_epi32 (inp ! 5) 30],
     accum128 (mm_srli_epi32 (inp ! 5) (6 - 4))
       [mm_slli_epi32 (inp ! 6) 4, mm_slli_epi32 (inp ! 7) 10, mm_slli_epi32 (inp ! 8) 16,
        mm_slli_epi32 (inp ! 9) 22, mm_slli_epi32 (inp ! 10) 28],
     accum128 (mm_srli_epi32 (inp ! 10) (6 - 2))
       [mm_slli_epi32 (inp ! 11) 2, mm_slli_epi32 (inp ! 12) 8, mm_slli_epi32 (inp ! 13) 14,
        mm_slli_epi32 (inp ! 14) 20, mm_slli_epi32 (inp ! 15) 26],
     accum128 (inp ! 16)
       [mm_slli_epi32 (inp ! 17) 6, mm_slli_epi32 (inp ! 18) 12, mm_slli_epi32 (inp ! 19) 18,
        mm_slli_epi32 (inp ! 20) 24, mm_slli_epi32 (inp ! 21) 30],
     accum128 (mm_srli_epi32 (inp ! 21) (6 - 4))
       [mm_slli_epi32 (inp ! 22) 4, mm_slli_epi32 (inp ! 23) 10, mm_slli_epi32 (inp ! 24) 16,
        mm_slli_epi32 (inp ! 25) 22, mm_slli_epi32 (inp ! 26) 28],
     accum128 (mm_srli_epi32 (inp ! 26) (6 - 2))
       [mm_slli_epi32 (inp ! 27) 2, mm_slli_epi32 (inp ! 28) 8, mm_slli_epi32 (inp ! 29) 14,
        mm_slli_epi32 (inp ! 30) 20, mm_slli_epi32 (inp ! 31) 26]]"

definition SIMD_fastpackwithoutmask7_32 :: "m128i list \<Rightarrow> m128i list" where
  "SIMD_fastpackwithoutmask7_32 inp =
    [accum128 (inp ! 0)
       [mm_slli_epi32 (inp ! 1) 7, mm_slli_epi32 (inp ! 2) 14, mm_slli_epi32 (inp ! 3) 21,
        mm_slli_epi32 (inp ! 4) 28],
     accum128 (mm_srli_epi32 (inp ! 4) (7 - 3))
       [mm_slli_epi32 (inp ! 5) 3, mm_slli_epi32 (inp ! 6) 10, mm_slli_epi32 (inp ! 7) 17,
        mm_slli_epi32 (inp ! 8) 24, mm_slli_epi32 (inp ! 9) 31],
     accum128 (mm_srli_epi32 (inp ! 9) (7 - 6))
       [mm_slli_epi32 (inp ! 10) 6, mm_slli_epi32 (inp ! 11) 13, mm_slli_epi32 (inp ! 12) 20,
        mm_slli_epi32 (inp ! 13) 27],
     accum128 (mm_srli_epi32 (inp ! 13) (7 - 2))
       [mm_slli_epi32 (inp ! 14) 2, mm_slli_epi32 (inp ! 15) 9, mm_slli_epi32 (inp ! 16) 16,
        mm_slli_epi32 (inp ! 17) 23, mm_slli_epi32 (inp ! 18) 30],
     accum128 (mm_srli_epi32 (inp ! 18) (7 - 5))
       [mm_slli_epi32 (inp ! 19) 5, mm_slli_epi32 (inp ! 20) 12, mm_slli_epi32 (inp ! 21) 19,
        mm_slli_epi32 (inp ! 22) 26],
     accum128 (mm_srli_epi32 (inp ! 22) (7 - 1))
       [mm_slli_epi32 (inp ! 23) 1, mm_slli_epi32 (inp ! 24) 8, mm_slli_epi32 (inp ! 25) 15,
        mm_slli_epi32 (inp ! 26) 22, mm_slli_epi32 (inp ! 27) 29],
     accum128 (mm_srli_epi32 (inp ! 27) (7 - 4))
       [mm_slli_epi32 (inp ! 28) 4, mm_slli_epi32 (inp ! 29) 11, mm_slli_epi32 (inp ! 30) 18,
        mm_slli_epi32 (inp ! 31) 25]]"

definition SIMD_fastpackwithoutmask8_32 :: "m128i list \<Rightarrow> m128i list" where
  "SIMD_fastpackwithoutmask8_32 inp =
    concat (map (\<lambda>outer.
     [accum128 (inp ! (4 * outer))
       [mm_slli_epi32 (inp ! (4 * outer + 1)) 8, mm_slli_epi32 (inp ! (4 * outer + 2)) 16,
        mm_slli_epi32 (inp ! (4 * outer + 3)) 24]])
     [0..<8])"

definition SIMD_fastpackwithoutmask9_32 :: "m128i list \<Rightarrow> m128i list" where
  "SIMD_fastpackwithoutmask9_32 inp =
    [accum128 (inp ! 0)
       [mm_slli_epi32 (inp ! 1) 9, mm_slli_epi32 (inp ! 2) 18, mm_slli_epi32 (inp ! 3) 27],
     accum128 (mm_srli_epi32 (inp ! 3) (9 - 4))
       [mm_slli_epi32 (inp ! 4) 4, mm_slli_epi32 (inp ! 5) 13, mm_slli_epi32 (inp ! 6) 22,
        mm_slli_epi32 (inp ! 7) 31],
     accum128 (mm_srli_epi32 (inp ! 7) (9 - 8))
       [mm_slli_epi32 (inp ! 8) 8, mm_slli_epi32 (inp ! 9) 17, mm_slli_epi32 (inp ! 10) 26],
     accum128 (mm_srli_epi32 (inp ! 10) (9 - 3))
       [mm_slli_epi32 (inp ! 11) 3, mm_slli_epi32 (inp ! 12) 12, mm_slli_epi32 (inp ! 13) 21,
        mm_slli_epi32 (inp ! 14) 30],
     accum128 (mm_srli_epi32 (inp ! 14) (9 - 7))
       [mm_slli_epi32 (inp ! 15) 7, mm_slli_epi32 (inp ! 16) 16, mm_slli_epi32 (inp ! 17) 25],
     accum128 (mm_srli_epi32 (inp ! 17) (9 - 2))
       [mm_slli_epi32 (inp ! 18) 2, mm_slli_epi32 (inp ! 19) 11, mm_slli_epi32 (inp ! 20) 20,
        mm_slli_epi32 (inp ! 21) 29],
     accum128 (mm_srli_epi32 (inp ! 21) (9 - 6))
       [mm_slli_epi32 (inp ! 22) 6, mm_slli_epi32 (inp ! 23) 15, mm_slli_epi32 (inp ! 24) 24],
     accum128 (mm_srli_epi32 (inp ! 24) (9 - 1))
       [mm_slli_epi32 (inp ! 25) 1, mm_slli_epi32 (inp ! 26) 10, mm_slli_epi32 (inp ! 27) 19,
        mm_slli_epi32 (inp ! 28) 28],
     accum128 (mm_srli_epi32 (inp ! 28) (9 - 5))
       [mm_slli_epi32 (inp ! 29) 5, mm_slli_epi32 (inp ! 30) 14, mm_slli_epi32 (inp ! 31) 23]]"

definition SIMD_fastpackwithoutmask10_32 :: "m128i list \<Rightarrow> m128i list" where
  "SIMD_fastpackwithoutmask10_32 inp =
    [accum128 (inp ! 0)
       [mm_slli_epi32 (inp ! 1) 10, mm_slli_epi32 (inp ! 2) 20, mm_slli_epi32 (inp ! 3) 30],
     accum128 (mm_srli_epi32 (inp ! 3) (10 - 8))
       [mm_slli_epi32 (inp ! 4) 8, mm_slli_epi32 (inp ! 5) 18, mm_slli_epi32 (inp ! 6) 28],
     accum128 (mm_srli_epi32 (inp ! 6) (10 - 6))
       [mm_slli_epi32 (inp ! 7) 6, mm_slli_epi32 (inp ! 8) 16, mm_slli_epi32 (inp ! 9) 26],
     accum128 (mm_srli_epi32 (inp ! 9) (10 - 4))
       [mm_slli_epi32 (inp ! 10) 4, mm_slli_epi32 (inp ! 11) 14, mm_slli_epi32 (inp ! 12) 24],
     accum128 (mm_srli_epi32 (inp ! 12) (10 - 2))
       [mm_slli_epi32 (inp ! 13) 2, mm_slli_epi32 (inp ! 14) 12, mm_slli_epi32 (inp ! 15) 22],
     accum128 (inp ! 16)
       [mm_slli_epi32 (inp ! 17) 10, mm_slli_epi32 (inp ! 18) 20, mm_slli_epi32 (inp ! 19) 30],
     accum128 (mm_srli_epi32 (inp ! 19) (10 - 8))
       [mm_slli_epi32 (inp ! 20) 8, mm_slli_epi32 (inp ! 21) 18, mm_slli_epi32 (inp ! 22) 28],
     accum128 (mm_srli_epi32 (inp ! 22) (10 - 6))
       [mm_slli_epi32 (inp ! 23) 6, mm_slli_epi32 (inp ! 24) 16, mm_slli_epi32 (inp ! 25) 26],
     accum128 (mm_srli_epi32 (inp ! 25) (10 - 4))
       [mm_slli_epi32 (inp ! 26) 4, mm_slli_epi32 (inp ! 27) 14, mm_slli_epi32 (inp ! 28) 24],
     accum128 (mm_srli_epi32 (inp ! 28) (10 - 2))
       [mm_slli_epi32 (inp ! 29) 2, mm_slli_epi32 (inp ! 30) 12, mm_slli_epi32 (inp ! 31) 22]]"

definition SIMD_fastpackwithoutmask11_32 :: "m128i list \<Rightarrow> m128i list" where
  "SIMD_fastpackwithoutmask11_32 inp =
    [accum128 (inp ! 0)
       [mm_slli_epi32 (inp ! 1) 11, mm_slli_epi32 (inp ! 2) 22],
     accum128 (mm_srli_epi32 (inp ! 2) (11 - 1))
       [mm_slli_epi32 (inp ! 3) 1, mm_slli_epi32 (inp ! 4) 12, mm_slli_epi32 (inp ! 5) 23],
     accum128 (mm_srli_epi32 (inp ! 5) (11 - 2))
       [mm_slli_epi32 (inp ! 6) 2, mm_slli_epi32 (inp ! 7) 13, mm_slli_epi32 (inp ! 8) 24],
     accum128 (mm_srli_epi32 (inp ! 8) (11 - 3))
       [mm_slli_epi32 (inp ! 9) 3, mm_slli_epi32 (inp ! 10) 14, mm_slli_epi32 (inp ! 11) 25],
     accum128 (mm_srli_epi32 (inp ! 11) (11 - 4))
       [mm_slli_epi32 (inp ! 12) 4, mm_slli_epi32 (inp ! 13) 15, mm_slli_epi32 (inp ! 14) 26],
     accum128 (mm_srli_epi32 (inp ! 14) (11 - 5))
       [mm_slli_epi32 (inp ! 15) 5, mm_slli_epi32 (inp ! 16) 16, mm_slli_epi32 (inp ! 17) 27],
     accum128 (mm_srli_epi32 (inp ! 17) (11 - 6))
       [mm_slli_epi32 (inp ! 18) 6, mm_slli_epi32 (inp ! 19) 17, mm_slli_epi32 (inp ! 20) 28],
     accum128 (mm_srli_epi32 (inp ! 20) (11 - 7))
       [mm_slli_epi32 (inp ! 21) 7, mm_slli_epi32 (inp ! 22) 18, mm_slli_epi32 (inp ! 23) 29],
     accum128 (mm_srli_epi32 (inp ! 23) (11 - 8))
       [mm_slli_epi32 (inp ! 24) 8, mm_slli_epi32 (inp ! 25) 19, mm_slli_epi32 (inp ! 26) 30],
     accum128 (mm_srli_epi32 (inp ! 26) (11 - 9))
       [mm_slli_epi32 (inp ! 27) 9, mm_slli_epi32 (inp ! 28) 20, mm_slli_epi32 (inp ! 29) 31],
     accum128 (mm_srli_epi32 (inp ! 29) (11 - 10))
       [mm_slli_epi32 (inp ! 30) 10, mm_slli_epi32 (inp ! 31) 21]]"

definition SIMD_fastpackwithoutmask12_32 :: "m128i list \<Rightarrow> m128i list" where
  "SIMD_fastpackwithoutmask12_32 inp =
    [accum128 (inp ! 0)
       [mm_slli_epi32 (inp ! 1) 12, mm_slli_epi32 (inp ! 2) 24],
     accum128 (mm_srli_epi32 (inp ! 2) (12 - 4))
       [mm_slli_epi32 (inp ! 3) 4, mm_slli_epi32 (inp ! 4) 16, mm_slli_epi32 (inp ! 5) 28],
     accum128 (mm_srli_epi32 (inp ! 5) (12 - 8))
       [mm_slli_epi32 (inp ! 6) 8, mm_slli_epi32 (inp ! 7) 20],
     accum128 (inp ! 8)
       [mm_slli_epi32 (inp ! 9) 12, mm_slli_epi32 (inp ! 10) 24],
     accum128 (mm_srli_epi32 (inp ! 10) (12 - 4))
       [mm_slli_epi32 (inp ! 11) 4, mm_slli_epi32 (inp ! 12) 16, mm_slli_epi32 (inp ! 13) 28],
     accum128 (mm_srli_epi32 (inp ! 13) (12 - 8))
       [mm_slli_epi32 (inp ! 14) 8, mm_slli_epi32 (inp ! 15) 20],
     accum128 (inp ! 16)
       [mm_slli_epi32 (inp ! 17) 12, mm_slli_epi32 (inp ! 18) 24],
     accum128 (mm_srli_epi32 (inp ! 18) (12 - 4))
       [mm_slli_epi32 (inp ! 19) 4, mm_slli_epi32 (inp ! 20) 16, mm_slli_epi32 (inp ! 21) 28],
     accum128 (mm_srli_epi32 (inp ! 21) (12 - 8))
       [mm_slli_epi32 (inp ! 22) 8, mm_slli_epi32 (inp ! 23) 20],
     accum128 (inp ! 24)
       [mm_slli_epi32 (inp ! 25) 12, mm_slli_epi32 (inp ! 26) 24],
     accum128 (mm_srli_epi32 (inp ! 26) (12 - 4))
       [mm_slli_epi32 (inp ! 27) 4, mm_slli_epi32 (inp ! 28) 16, mm_slli_epi32 (inp ! 29) 28],
     accum128 (mm_srli_epi32 (inp ! 29) (12 - 8))
       [mm_slli_epi32 (inp ! 30) 8, mm_slli_epi32 (inp ! 31) 20]]"

definition SIMD_fastpackwithoutmask13_32 :: "m128i list \<Rightarrow> m128i list" where
  "SIMD_fastpackwithoutmask13_32 inp =
    [accum128 (inp ! 0)
       [mm_slli_epi32 (inp ! 1) 13, mm_slli_epi32 (inp ! 2) 26],
     accum128 (mm_srli_epi32 (inp ! 2) (13 - 7))
       [mm_slli_epi32 (inp ! 3) 7, mm_slli_epi32 (inp ! 4) 20],
     accum128 (mm_srli_epi32 (inp ! 4) (13 - 1))
       [mm_slli_epi32 (inp ! 5) 1, mm_slli_epi32 (inp ! 6) 14, mm_slli_epi32 (inp ! 7) 27],
     accum128 (mm_srli_epi32 (inp ! 7) (13 - 8))
       [mm_slli_epi32 (inp ! 8) 8, mm_slli_epi32 (inp ! 9) 21],
     accum128 (mm_srli_epi32 (inp ! 9) (13 - 2))
       [mm_slli_epi32 (inp ! 10) 2, mm_slli_epi32 (inp ! 11) 15, mm_slli_epi32 (inp ! 12) 28],
     accum128 (mm_srli_epi32 (inp ! 12) (13 - 9))
       [mm_slli_epi32 (inp ! 13) 9, mm_slli_epi32 (inp ! 14) 22],
     accum128 (mm_srli_epi32 (inp ! 14) (13 - 3))
       [mm_slli_epi32 (inp ! 15) 3, mm_slli_epi32 (inp ! 16) 16, mm_slli_epi32 (inp ! 17) 29],
     accum128 (mm_srli_epi32 (inp ! 17) (13 - 10))
       [mm_slli_epi32 (inp ! 18) 10, mm_slli_epi32 (inp ! 19) 23],
     accum128 (mm_srli_epi32 (inp ! 19) (13 - 4))
       [mm_slli_epi32 (inp ! 20) 4, mm_slli_epi32 (inp ! 21) 17, mm_slli_epi32 (inp ! 22) 30],
     accum128 (mm_srli_epi32 (inp ! 22) (13 - 11))
       [mm_slli_epi32 (inp ! 23) 11, mm_slli_epi32 (inp ! 24) 24],
     accum128 (mm_srli_epi32 (inp ! 24) (13 - 5))
       [mm_slli_epi32 (inp ! 25) 5, mm_slli_epi32 (inp ! 26) 18, mm_slli_epi32 (inp ! 27) 31],
     accum128 (mm_srli_epi32 (inp ! 27) (13 - 12))
       [mm_slli_epi32 (inp ! 28) 12, mm_slli_epi32 (inp ! 29) 25],
     accum128 (mm_srli_epi32 (inp ! 29) (13 - 6))
       [mm_slli_epi32 (inp ! 30) 6, mm_slli_epi32 (inp ! 31) 19]]"

definition SIMD_fastpackwithoutmask14_32 :: "m128i list \<Rightarrow> m128i list" where
  "SIMD_fastpackwithoutmask14_32 inp =
    [accum128 (inp ! 0)
       [mm_slli_epi32 (inp ! 1) 14, mm_slli_epi32 (inp ! 2) 28],
     accum128 (mm_srli_epi32 (inp ! 2) (14 - 10))
       [mm_slli_epi32 (inp ! 3) 10, mm_slli_epi32 (inp ! 4) 24],
     accum128 (mm_srli_epi32 (inp ! 4) (14 - 6))
       [mm_slli_epi32 (inp ! 5) 6, mm_slli_epi32 (inp ! 6) 20],
     accum128 (mm_srli_epi32 (inp ! 6) (14 - 2))
       [mm_slli_epi32 (inp ! 7) 2, mm_slli_epi32 (inp ! 8) 16, mm_slli_epi32 (inp ! 9) 30],
     accum128 (mm_srli_epi32 (inp ! 9) (14 - 12))
       [mm_slli_epi32 (inp ! 10) 12, mm_slli_epi32 (inp ! 11) 26],
     accum128 (mm_srli_epi32 (inp ! 11) (14 - 8))
       [mm_slli_epi32 (inp ! 12) 8, mm_slli_epi32 (inp ! 13) 22],
     accum128 (mm_srli_epi32 (inp ! 13) (14 - 4))
       [mm_slli_epi32 (inp ! 14) 4, mm_slli_epi32 (inp ! 15) 18],
     accum128 (inp ! 16)
       [mm_slli_epi32 (inp ! 17) 14, mm_slli_epi32 (inp ! 18) 28],
     accum128 (mm_srli_epi32 (inp ! 18) (14 - 10))
       [mm_slli_epi32 (inp ! 19) 10, mm_slli_epi32 (inp ! 20) 24],
     accum128 (mm_srli_epi32 (inp ! 20) (14 - 6))
       [mm_slli_epi32 (inp ! 21) 6, mm_slli_epi32 (inp ! 22) 20],
     accum128 (mm_srli_epi32 (inp ! 22) (14 - 2))
       [mm_slli_epi32 (inp ! 23) 2, mm_slli_epi32 (inp ! 24) 16, mm_slli_epi32 (inp ! 25) 30],
     accum128 (mm_srli_epi32 (inp ! 25) (14 - 12))
       [mm_slli_epi32 (inp ! 26) 12, mm_slli_epi32 (inp ! 27) 26],
     accum128 (mm_srli_epi32 (inp ! 27) (14 - 8))
       [mm_slli_epi32 (inp ! 28) 8, mm_slli_epi32 (inp ! 29) 22],
     accum128 (mm_srli_epi32 (inp ! 29) (14 - 4))
       [mm_slli_epi32 (inp ! 30) 4, mm_slli_epi32 (inp ! 31) 18]]"

definition SIMD_fastpackwithoutmask15_32 :: "m128i list \<Rightarrow> m128i list" where
  "SIMD_fastpackwithoutmask15_32 inp =
    [accum128 (inp ! 0)
       [mm_slli_epi32 (inp ! 1) 15, mm_slli_epi32 (inp ! 2) 30],
     accum128 (mm_srli_epi32 (inp ! 2) (15 - 13))
       [mm_slli_epi32 (inp ! 3) 13, mm_slli_epi32 (inp ! 4) 28],
     accum128 (mm_srli_epi32 (inp ! 4) (15 - 11))
       [mm_slli_epi32 (inp ! 5) 11, mm_slli_epi32 (inp ! 6) 26],
     accum128 (mm_srli_epi32 (inp ! 6) (15 - 9))
       [mm_slli_epi32 (inp ! 7) 9, mm_slli_epi32 (inp ! 8) 24],
     accum128 (mm_srli_epi32 (inp ! 8) (15 - 7))
       [mm_slli_epi32 (inp ! 9) 7, mm_slli_epi32 (inp ! 10) 22],
     accum128 (mm_srli_epi32 (inp ! 10) (15 - 5))
       [mm_slli_epi32 (inp ! 11) 5, mm_slli_epi32 (inp ! 12) 20],
     accum128 (mm_srli_epi32 (inp ! 12) (15 - 3))
       [mm_slli_epi32 (inp ! 13) 3, mm_slli_epi32 (inp ! 14) 18],
     accum128 (mm_srli_epi32 (inp ! 14) (15 - 1))
       [mm_slli_epi32 (inp ! 15) 1, mm_slli_epi32 (inp ! 16) 16, mm_slli_epi32 (inp ! 17) 31],
     accum128 (mm_srli_epi32 (inp ! 17) (15 - 14))
       [mm_slli_epi32 (inp ! 18) 14, mm_slli_epi32 (inp ! 19) 29],
     accum128 (mm_srli_epi32 (inp ! 19) (15 - 12))
       [mm_slli_epi32 (inp ! 20) 12, mm_slli_epi32 (inp ! 21) 27],
     accum128 (mm_srli_epi32 (inp ! 21) (15 - 10))
       [mm_slli_epi32 (inp ! 22) 10, mm_slli_epi32 (inp ! 23) 25],
     accum128 (mm_srli_epi32 (inp ! 23) (15 - 8))
       [mm_slli_epi32 (inp ! 24) 8, mm_slli_epi32 (inp ! 25) 23],
     accum128 (mm_srli_epi32 (inp ! 25) (15 - 6))
       [mm_slli_epi32 (inp ! 26) 6, mm_slli_epi32 (inp ! 27) 21],
     accum128 (mm_srli_epi32 (inp ! 27) (15 - 4))
       [mm_slli_epi32 (inp ! 28) 4, mm_slli_epi32 (inp ! 29) 19],
     accum128 (mm_srli_epi32 (inp ! 29) (15 - 2))
       [mm_slli_epi32 (inp ! 30) 2, mm_slli_epi32 (inp ! 31) 17]]"

definition SIMD_fastpackwithoutmask16_32 :: "m128i list \<Rightarrow> m128i list" where
  "SIMD_fastpackwithoutmask16_32 inp =
    concat (map (\<lambda>outer.
     [accum128 (inp ! (2 * outer))
       [mm_slli_epi32 (inp ! (2 * outer + 1)) 16]])
     [0..<16])"

definition SIMD_fastpackwithoutmask17_32 :: "m128i list \<Rightarrow> m128i list" where
  "SIMD_fastpackwithoutmask17_32 inp =
    [accum128 (inp ! 0)
       [mm_slli_epi32 (inp ! 1) 17],
     accum128 (mm_srli_epi32 (inp ! 1) (17 - 2))
       [mm_slli_epi32 (inp ! 2) 2, mm_slli_epi32 (inp ! 3) 19],
     accum128 (mm_srli_epi32 (inp ! 3) (17 - 4))
       [mm_slli_epi32 (inp ! 4) 4, mm_slli_epi32 (inp ! 5) 21],
     accum128 (mm_srli_epi32 (inp ! 5) (17 - 6))
       [mm_slli_epi32 (inp ! 6) 6, mm_slli_epi32 (inp ! 7) 23],
     accum128 (mm_srli_epi32 (inp ! 7) (17 - 8))
       [mm_slli_epi32 (inp ! 8) 8, mm_slli_epi32 (inp ! 9) 25],
     accum128 (mm_srli_epi32 (inp ! 9) (17 - 10))
       [mm_slli_epi32 (inp ! 10) 10, mm_slli_epi32 (inp ! 11) 27],
     accum128 (mm_srli_epi32 (inp ! 11) (17 - 12))
       [mm_slli_epi32 (inp ! 12) 12, mm_slli_epi32 (inp ! 13) 29],
     accum128 (mm_srli_epi32 (inp ! 13) (17 - 14))
       [mm_slli_epi32 (inp ! 14) 14, mm_slli_epi32 (inp ! 15) 31],
     accum128 (mm_srli_epi32 (inp ! 15) (17 - 16))
       [mm_slli_epi32 (inp ! 16) 16],
     accum128 (mm_srli_epi32 (inp ! 16) (17 - 1))
       [mm_slli_epi32 (inp ! 17) 1, mm_slli_epi32 (inp ! 18) 18],
     accum128 (mm_srli_epi32 (inp ! 18) (17 - 3))
       [mm_slli_epi32 (inp ! 19) 3, mm_slli_epi32 (inp ! 20) 20],
     accum128 (mm_srli_epi32 (inp ! 20) (17 - 5))
       [mm_slli_epi32 (inp ! 21) 5, mm_slli_epi32 (inp ! 22) 22],
     accum128 (mm_srli_epi32 (inp ! 22) (17 - 7))
       [mm_slli_epi32 (inp ! 23) 7, mm_slli_epi32 (inp ! 24) 24],
     accum128 (mm_srli_epi32 (inp ! 24) (17 - 9))
       [mm_slli_epi32 (inp ! 25) 9, mm_slli_epi32 (inp ! 26) 26],
     accum128 (mm_srli_epi32 (inp ! 26) (17 - 11))
       [mm_slli_epi32 (inp ! 27) 11, mm_slli_epi32 (inp ! 28) 28],
     accum128 (mm_srli_epi32 (inp ! 28) (17 - 13))
       [mm_slli_epi32 (inp ! 29) 13, mm_slli_epi32 (inp ! 30) 30],
     accum128 (mm_srli_epi32 (inp ! 30) (17 - 15))
       [mm_slli_epi32 (inp ! 31) 15]]"

definition SIMD_fastpackwithoutmask18_32 :: "m128i list \<Rightarrow> m128i list" where
  "SIMD_fastpackwithoutmask18_32 inp =
    [accum128 (inp ! 0)
       [mm_slli_epi32 (inp ! 1) 18],
     accum128 (mm_srli_epi32 (inp ! 1) (18 - 4))
       [mm_slli_epi32 (inp ! 2) 4, mm_slli_epi32 (inp ! 3) 22],
     accum128 (mm_srli_epi32 (inp ! 3) (18 - 8))
       [mm_slli_epi32 (inp ! 4) 8, mm_slli_epi32 (inp ! 5) 26],
     accum128 (mm_srli_epi32 (inp ! 5) (18 - 12))
       [mm_slli_epi32 (inp ! 6) 12, mm_slli_epi32 (inp ! 7) 30],
     accum128 (mm_srli_epi32 (inp ! 7) (18 - 16))
       [mm_slli_epi32 (inp ! 8) 16],
     accum128 (mm_srli_epi32 (inp ! 8) (18 - 2))
       [mm_slli_epi32 (inp ! 9) 2, mm_slli_epi32 (inp ! 10) 20],
     accum128 (mm_srli_epi32 (inp ! 10) (18 - 6))
       [mm_slli_epi32 (inp ! 11) 6, mm_slli_epi32 (inp ! 12) 24],
     accum128 (mm_srli_epi32 (inp ! 12) (18 - 10))
       [mm_slli_epi32 (inp ! 13) 10, mm_slli_epi32 (inp ! 14) 28],
     accum128 (mm_srli_epi32 (inp ! 14) (18 - 14))
       [mm_slli_epi32 (inp ! 15) 14],
     accum128 (inp ! 16)
       [mm_slli_epi32 (inp ! 17) 18],
     accum128 (mm_srli_epi32 (inp ! 17) (18 - 4))
       [mm_slli_epi32 (inp ! 18) 4, mm_slli_epi32 (inp ! 19) 22],
     accum128 (mm_srli_epi32 (inp ! 19) (18 - 8))
       [mm_slli_epi32 (inp ! 20) 8, mm_slli_epi32 (inp ! 21) 26],
     accum128 (mm_srli_epi32 (inp ! 21) (18 - 12))
       [mm_slli_epi32 (inp ! 22) 12, mm_slli_epi32 (inp ! 23) 30],
     accum128 (mm_srli_epi32 (inp ! 23) (18 - 16))
       [mm_slli_epi32 (inp ! 24) 16],
     accum128 (mm_srli_epi32 (inp ! 24) (18 - 2))
       [mm_slli_epi32 (inp ! 25) 2, mm_slli_epi32 (inp ! 26) 20],
     accum128 (mm_srli_epi32 (inp ! 26) (18 - 6))
       [mm_slli_epi32 (inp ! 27) 6, mm_slli_epi32 (inp ! 28) 24],
     accum128 (mm_srli_epi32 (inp ! 28) (18 - 10))
       [mm_slli_epi32 (inp ! 29) 10, mm_slli_epi32 (inp ! 30) 28],
     accum128 (mm_srli_epi32 (inp ! 30) (18 - 14))
       [mm_slli_epi32 (inp ! 31) 14]]"

definition SIMD_fastpackwithoutmask19_32 :: "m128i list \<Rightarrow> m128i list" where
  "SIMD_fastpackwithoutmask19_32 inp =
    [accum128 (inp ! 0)
       [mm_slli_epi32 (inp ! 1) 19],
     accum128 (mm_srli_epi32 (inp ! 1) (19 - 6))
       [mm_slli_epi32 (inp ! 2) 6, mm_slli_epi32 (inp ! 3) 25],
     accum128 (mm_srli_epi32 (inp ! 3) (19 - 12))
       [mm_slli_epi32 (inp ! 4) 12, mm_slli_epi32 (inp ! 5) 31],
     accum128 (mm_srli_epi32 (inp ! 5) (19 - 18))
       [mm_slli_epi32 (inp ! 6) 18],
     accum128 (mm_srli_epi32 (inp ! 6) (19 - 5))
       [mm_slli_epi32 (inp ! 7) 5, mm_slli_epi32 (inp ! 8) 24],
     accum128 (mm_srli_epi32 (inp ! 8) (19 - 11))
       [mm_slli_epi32 (inp ! 9) 11, mm_slli_epi32 (inp ! 10) 30],
     accum128 (mm_srli_epi32 (inp ! 10) (19 - 17))
       [mm_slli_epi32 (inp ! 11) 17],
     accum128 (mm_srli_epi32 (inp ! 11) (19 - 4))
       [mm_slli_epi32 (inp ! 12) 4, mm_slli_epi32 (inp ! 13) 23],
     accum128 (mm_srli_epi32 (inp ! 13) (19 - 10))
       [mm_slli_epi32 (inp ! 14) 10, mm_slli_epi32 (inp ! 15) 29],
     accum128 (mm_srli_epi32 (inp ! 15) (19 - 16))
       [mm_slli_epi32 (inp ! 16) 16],
     accum128 (mm_srli_epi32 (inp ! 16) (19 - 3))
       [mm_slli_epi32 (inp ! 17) 3, mm_slli_epi32 (inp ! 18) 22],
     accum128 (mm_srli_epi32 (inp ! 18) (19 - 9))
       [mm_slli_epi32 (inp ! 19) 9, mm_slli_epi32 (inp ! 20) 28],
     accum128 (mm_srli_epi32 (inp ! 20) (19 - 15))
       [mm_slli_epi32 (inp ! 21) 15],
     accum128 (mm_srli_epi32 (inp ! 21) (19 - 2))
       [mm_slli_epi32 (inp ! 22) 2, mm_slli_epi32 (inp ! 23) 21],
     accum128 (mm_srli_epi32 (inp ! 23) (19 - 8))
       [mm_slli_epi32 (inp ! 24) 8, mm_slli_epi32 (inp ! 25) 27],
     accum128 (mm_srli_epi32 (inp ! 25) (19 - 14))
       [mm_slli_epi32 (inp ! 26) 14],
     accum128 (mm_srli_epi32 (inp ! 26) (19 - 1))
       [mm_slli_epi32 (inp ! 27) 1, mm_slli_epi32 (inp ! 28) 20],
     accum128 (mm_srli_epi32 (inp ! 28) (19 - 7))
       [mm_slli_epi32 (inp ! 29) 7, mm_slli_epi32 (inp ! 30) 26],
     accum128 (mm_srli_epi32 (inp ! 30) (19 - 13))
       [mm_slli_epi32 (inp ! 31) 13]]"

definition SIMD_fastpackwithoutmask20_32 :: "m128i list \<Rightarrow> m128i list" where
  "SIMD_fastpackwithoutmask20_32 inp =
    [accum128 (inp ! 0)
       [mm_slli_epi32 (inp ! 1) 20],
     accum128 (mm_srli_epi32 (inp ! 1) (20 - 8))
       [mm_slli_epi32 (inp ! 2) 8, mm_slli_epi32 (inp ! 3) 28],
     accum128 (mm_srli_epi32 (inp ! 3) (20 - 16))
       [mm_slli_epi32 (inp ! 4) 16],
     accum128 (mm_srli_epi32 (inp ! 4) (20 - 4))
       [mm_slli_epi32 (inp ! 5) 4, mm_slli_epi32 (inp ! 6) 24],
     accum128 (mm_srli_epi32 (inp ! 6) (20 - 12))
       [mm_slli_epi32 (inp ! 7) 12],
     accum128 (inp ! 8)
       [mm_slli_epi32 (inp ! 9) 20],
     accum128 (mm_srli_epi32 (inp ! 9) (20 - 8))
       [mm_slli_epi32 (inp ! 10) 8, mm_slli_epi32 (inp ! 11) 28],
     accum128 (mm_srli_epi32 (inp ! 11) (20 - 16))
       [mm_slli_epi32 (inp ! 12) 16],
     accum128 (mm_srli_epi32 (inp ! 12) (20 - 4))
       [mm_slli_epi32 (inp ! 13) 4, mm_slli_epi32 (inp ! 14) 24],
     accum128 (mm_srli_epi32 (inp ! 14) (20 - 12))
       [mm_slli_epi32 (inp ! 15) 12],
     accum128 (inp ! 16)
       [mm_slli_epi32 (inp ! 17) 20],
     accum128 (mm_srli_epi32 (inp ! 17) (20 - 8))
       [mm_slli_epi32 (inp ! 18) 8, mm_slli_epi32 (inp ! 19) 28],
     accum128 (mm_srli_epi32 (inp ! 19) (20 - 16))
       [mm_slli_epi32 (inp ! 20) 16],
     accum128 (mm_srli_epi32 (inp ! 20) (20 - 4))
       [mm_slli_epi32 (inp ! 21) 4, mm_slli_epi32 (inp ! 22) 24],
     accum128 (mm_srli_epi32 (inp ! 22) (20 - 12))
       [mm_slli_epi32 (inp ! 23) 12],
     accum128 (inp ! 24)
       [mm_slli_epi32 (inp ! 25) 20],
     accum128 (mm_srli_epi32 (inp ! 25) (20 - 8))
       [mm_slli_epi32 (inp ! 26) 8, mm_slli_epi32 (inp ! 27) 28],
     accum128 (mm_srli_epi32 (inp ! 27) (20 - 16))
       [mm_slli_epi32 (inp ! 28) 16],
     accum128 (mm_srli_epi32 (inp ! 28) (20 - 4))
       [mm_slli_epi32 (inp ! 29) 4, mm_slli_epi32 (inp ! 30) 24],
     accum128 (mm_srli_epi32 (inp ! 30) (20 - 12))
       [mm_slli_epi32 (inp ! 31) 12]]"

definition SIMD_fastpackwithoutmask21_32 :: "m128i list \<Rightarrow> m128i list" where
  "SIMD_fastpackwithoutmask21_32 inp =
    [accum128 (inp ! 0)
       [mm_slli_epi32 (inp ! 1) 21],
     accum128 (mm_srli_epi32 (inp ! 1) (21 - 10))
       [mm_slli_epi32 (inp ! 2) 10, mm_slli_epi32 (inp ! 3) 31],
     accum128 (mm_srli_epi32 (inp ! 3) (21 - 20))
       [mm_slli_epi32 (inp ! 4) 20],
     accum128 (mm_srli_epi32 (inp ! 4) (21 - 9))
       [mm_slli_epi32 (inp ! 5) 9, mm_slli_epi32 (inp ! 6) 30],
     accum128 (mm_srli_epi32 (inp ! 6) (21 - 19))
       [mm_slli_epi32 (inp ! 7) 19],
     accum128 (mm_srli_epi32 (inp ! 7) (21 - 8))
       [mm_slli_epi32 (inp ! 8) 8, mm_slli_epi32 (inp ! 9) 29],
     accum128 (mm_srli_epi32 (inp ! 9) (21 - 18))
       [mm_slli_epi32 (inp ! 10) 18],
     accum128 (mm_srli_epi32 (inp ! 10) (21 - 7))
       [mm_slli_epi32 (inp ! 11) 7, mm_slli_epi32 (inp ! 12) 28],
     accum128 (mm_srli_epi32 (inp ! 12) (21 - 17))
       [mm_slli_epi32 (inp ! 13) 17],
     accum128 (mm_srli_epi32 (inp ! 13) (21 - 6))
       [mm_slli_epi32 (inp ! 14) 6, mm_slli_epi32 (inp ! 15) 27],
     accum128 (mm_srli_epi32 (inp ! 15) (21 - 16))
       [mm_slli_epi32 (inp ! 16) 16],
     accum128 (mm_srli_epi32 (inp ! 16) (21 - 5))
       [mm_slli_epi32 (inp ! 17) 5, mm_slli_epi32 (inp ! 18) 26],
     accum128 (mm_srli_epi32 (inp ! 18) (21 - 15))
       [mm_slli_epi32 (inp ! 19) 15],
     accum128 (mm_srli_epi32 (inp ! 19) (21 - 4))
       [mm_slli_epi32 (inp ! 20) 4, mm_slli_epi32 (inp ! 21) 25],
     accum128 (mm_srli_epi32 (inp ! 21) (21 - 14))
       [mm_slli_epi32 (inp ! 22) 14],
     accum128 (mm_srli_epi32 (inp ! 22) (21 - 3))
       [mm_slli_epi32 (inp ! 23) 3, mm_slli_epi32 (inp ! 24) 24],
     accum128 (mm_srli_epi32 (inp ! 24) (21 - 13))
       [mm_slli_epi32 (inp ! 25) 13],
     accum128 (mm_srli_epi32 (inp ! 25) (21 - 2))
       [mm_slli_epi32 (inp ! 26) 2, mm_slli_epi32 (inp ! 27) 23],
     accum128 (mm_srli_epi32 (inp ! 27) (21 - 12))
       [mm_slli_epi32 (inp ! 28) 12],
     accum128 (mm_srli_epi32 (inp ! 28) (21 - 1))
       [mm_slli_epi32 (inp ! 29) 1, mm_slli_epi32 (inp ! 30) 22],
     accum128 (mm_srli_epi32 (inp ! 30) (21 - 11))
       [mm_slli_epi32 (inp ! 31) 11]]"

definition SIMD_fastpackwithoutmask22_32 :: "m128i list \<Rightarrow> m128i list" where
  "SIMD_fastpackwithoutmask22_32 inp =
    [accum128 (inp ! 0)
       [mm_slli_epi32 (inp ! 1) 22],
     accum128 (mm_srli_epi32 (inp ! 1) (22 - 12))
       [mm_slli_epi32 (inp ! 2) 12],
     accum128 (mm_srli_epi32 (inp ! 2) (22 - 2))
       [mm_slli_epi32 (inp ! 3) 2, mm_slli_epi32 (inp ! 4) 24],
     accum128 (mm_srli_epi32 (inp ! 4) (22 - 14))
       [mm_slli_epi32 (inp ! 5) 14],
     accum128 (mm_srli_epi32 (inp ! 5) (22 - 4))
       [mm_slli_epi32 (inp ! 6) 4, mm_slli_epi32 (inp ! 7) 26],
     accum128 (mm_srli_epi32 (inp ! 7) (22 - 16))
       [mm_slli_epi32 (inp ! 8) 16],
     accum128 (mm_srli_epi32 (inp ! 8) (22 - 6))
       [mm_slli_epi32 (inp ! 9) 6, mm_slli_epi32 (inp ! 10) 28],
     accum128 (mm_srli_epi32 (inp ! 10) (22 - 18))
       [mm_slli_epi32 (inp ! 11) 18],
     accum128 (mm_srli_epi32 (inp ! 11) (22 - 8))
       [mm_slli_epi32 (inp ! 12) 8, mm_slli_epi32 (inp ! 13) 30],
     accum128 (mm_srli_epi32 (inp ! 13) (22 - 20))
       [mm_slli_epi32 (inp ! 14) 20],
     accum128 (mm_srli_epi32 (inp ! 14) (22 - 10))
       [mm_slli_epi32 (inp ! 15) 10],
     accum128 (inp ! 16)
       [mm_slli_epi32 (inp ! 17) 22],
     accum128 (mm_srli_epi32 (inp ! 17) (22 - 12))
       [mm_slli_epi32 (inp ! 18) 12],
     accum128 (mm_srli_epi32 (inp ! 18) (22 - 2))
       [mm_slli_epi32 (inp ! 19) 2, mm_slli_epi32 (inp ! 20) 24],
     accum128 (mm_srli_epi32 (inp ! 20) (22 - 14))
       [mm_slli_epi32 (inp ! 21) 14],
     accum128 (mm_srli_epi32 (inp ! 21) (22 - 4))
       [mm_slli_epi32 (inp ! 22) 4, mm_slli_epi32 (inp ! 23) 26],
     accum128 (mm_srli_epi32 (inp ! 23) (22 - 16))
       [mm_slli_epi32 (inp ! 24) 16],
     accum128 (mm_srli_epi32 (inp ! 24) (22 - 6))
       [mm_slli_epi32 (inp ! 25) 6, mm_slli_epi32 (inp ! 26) 28],
     accum128 (mm_srli_epi32 (inp ! 26) (22 - 18))
       [mm_slli_epi32 (inp ! 27) 18],
     accum128 (mm_srli_epi32 (inp ! 27) (22 - 8))
       [mm_slli_epi32 (inp ! 28) 8, mm_slli_epi32 (inp ! 29) 30],
     accum128 (mm_srli_epi32 (inp ! 29) (22 - 20))
       [mm_slli_epi32 (inp ! 30) 20],
     accum128 (mm_srli_epi32 (inp ! 30) (22 - 10))
       [mm_slli_epi32 (inp ! 31) 10]]"

definition SIMD_fastpackwithoutmask23_32 :: "m128i list \<Rightarrow> m128i list" where
  "SIMD_fastpackwithoutmask23_32 inp =
    [accum128 (inp ! 0)
       [mm_slli_epi32 (inp ! 1) 23],
     accum128 (mm_srli_epi32 (inp ! 1) (23 - 14))
       [mm_slli_epi32 (inp ! 2) 14],
     accum128 (mm_srli_epi32 (inp ! 2) (23 - 5))
       [mm_slli_epi32 (inp ! 3) 5, mm_slli_epi32 (inp ! 4) 28],
     accum128 (mm_srli_epi32 (inp ! 4) (23 - 19))
       [mm_slli_epi32 (inp ! 5) 19],
     accum128 (mm_srli_epi32 (inp ! 5) (23 - 10))
       [mm_slli_epi32 (inp ! 6) 10],
     accum128 (mm_srli_epi32 (inp ! 6) (23 - 1))
       [mm_slli_epi32 (inp ! 7) 1, mm_slli_epi32 (inp ! 8) 24],
     accum128 (mm_srli_epi32 (inp ! 8) (23 - 15))
       [mm_slli_epi32 (inp ! 9) 15],
     accum128 (mm_srli_epi32 (inp ! 9) (23 - 6))
       [mm_slli_epi32 (inp ! 10) 6, mm_slli_epi32 (inp ! 11) 29],
     accum128 (mm_srli_epi32 (inp ! 11) (23 - 20))
       [mm_slli_epi32 (inp ! 12) 20],
     accum128 (mm_srli_epi32 (inp ! 12) (23 - 11))
       [mm_slli_epi32 (inp ! 13) 11],
     accum128 (mm_srli_epi32 (inp ! 13) (23 - 2))
       [mm_slli_epi32 (inp ! 14) 2, mm_slli_epi32 (inp ! 15) 25],
     accum128 (mm_srli_epi32 (inp ! 15) (23 - 16))
       [mm_slli_epi32 (inp ! 16) 16],
     accum128 (mm_srli_epi32 (inp ! 16) (23 - 7))
       [mm_slli_epi32 (inp ! 17) 7, mm_slli_epi32 (inp ! 18) 30],
     accum128 (mm_srli_epi32 (inp ! 18) (23 - 21))
       [mm_slli_epi32 (inp ! 19) 21],
     accum128 (mm_srli_epi32 (inp ! 19) (23 - 12))
       [mm_slli_epi32 (inp ! 20) 12],
     accum128 (mm_srli_epi32 (inp ! 20) (23 - 3))
       [mm_slli_epi32 (inp ! 21) 3, mm_slli_epi32 (inp ! 22) 26],
     accum128 (mm_srli_epi32 (inp ! 22) (23 - 17))
       [mm_slli_epi32 (inp ! 23) 17],
     accum128 (mm_srli_epi32 (inp ! 23) (23 - 8))
       [mm_slli_epi32 (inp ! 24) 8, mm_slli_epi32 (inp ! 25) 31],
     accum128 (mm_srli_epi32 (inp ! 25) (23 - 22))
       [mm_slli_epi32 (inp ! 26) 22],
     accum128 (mm_srli_epi32 (inp ! 26) (23 - 13))
       [mm_slli_epi32 (inp ! 27) 13],
     accum128 (mm_srli_epi32 (inp ! 27) (23 - 4))
       [mm_slli_epi32 (inp ! 28) 4, mm_slli_epi32 (inp ! 29) 27],
     accum128 (mm_srli_epi32 (inp ! 29) (23 - 18))
       [mm_slli_epi32 (inp ! 30) 18],
     accum128 (mm_srli_epi32 (inp ! 30) (23 - 9))
       [mm_slli_epi32 (inp ! 31) 9]]"

definition SIMD_fastpackwithoutmask24_32 :: "m128i list \<Rightarrow> m128i list" where
  "SIMD_fastpackwithoutmask24_32 inp =
    [accum128 (inp ! 0)
       [mm_slli_epi32 (inp ! 1) 24],
     accum128 (mm_srli_epi32 (inp ! 1) (24 - 16))
       [mm_slli_epi32 (inp ! 2) 16],
     accum128 (mm_srli_epi32 (inp ! 2) (24 - 8))
       [mm_slli_epi32 (inp ! 3) 8],
     accum128 (inp ! 4)
       [mm_slli_epi32 (inp ! 5) 24],
     accum128 (mm_srli_epi32 (inp ! 5) (24 - 16))
       [mm_slli_epi32 (inp ! 6) 16],
     accum128 (mm_srli_epi32 (inp ! 6) (24 - 8))
       [mm_slli_epi32 (inp ! 7) 8],
     accum128 (inp ! 8)
       [mm_slli_epi32 (inp ! 9) 24],
     accum128 (mm_srli_epi32 (inp ! 9) (24 - 16))
       [mm_slli_epi32 (inp ! 10) 16],
     accum128 (mm_srli_epi32 (inp ! 10) (24 - 8))
       [mm_slli_epi32 (inp ! 11) 8],
     accum128 (inp ! 12)
       [mm_slli_epi32 (inp ! 13) 24],
     accum128 (mm_srli_epi32 (inp ! 13) (24 - 16))
       [mm_slli_epi32 (inp ! 14) 16],
     accum128 (mm_srli_epi32 (inp ! 14) (24 - 8))
       [mm_slli_epi32 (inp ! 15) 8],
     accum128 (inp ! 16)
       [mm_slli_epi32 (inp ! 17) 24],
     accum128 (mm_srli_epi32 (inp ! 17) (24 - 16))
       [mm_slli_epi32 (inp ! 18) 16],
     accum128 (mm_srli_epi32 (inp ! 18) (24 - 8))
       [mm_slli_epi32 (inp ! 19) 8],
     accum128 (inp ! 20)
       [mm_slli_epi32 (inp ! 21) 24],
     accum128 (mm_srli_epi32 (inp ! 21) (24 - 16))
       [mm_slli_epi32 (inp ! 22) 16],
     accum128 (mm_srli_epi32 (inp ! 22) (24 - 8))
       [mm_slli_epi32 (inp ! 23) 8],
     accum128 (inp ! 24)
       [mm_slli_epi32 (inp ! 25) 24],
     accum128 (mm_srli_epi32 (inp ! 25) (24 - 16))
       [mm_slli_epi32 (inp ! 26) 16],
     accum128 (mm_srli_epi32 (inp ! 26) (24 - 8))
       [mm_slli_epi32 (inp ! 27) 8],
     accum128 (inp ! 28)
       [mm_slli_epi32 (inp ! 29) 24],
     accum128 (mm_srli_epi32 (inp ! 29) (24 - 16))
       [mm_slli_epi32 (inp ! 30) 16],
     accum128 (mm_srli_epi32 (inp ! 30) (24 - 8))
       [mm_slli_epi32 (inp ! 31) 8]]"

definition SIMD_fastpackwithoutmask25_32 :: "m128i list \<Rightarrow> m128i list" where
  "SIMD_fastpackwithoutmask25_32 inp =
    [accum128 (inp ! 0)
       [mm_slli_epi32 (inp ! 1) 25],
     accum128 (mm_srli_epi32 (inp ! 1) (25 - 18))
       [mm_slli_epi32 (inp ! 2) 18],
     accum128 (mm_srli_epi32 (inp ! 2) (25 - 11))
       [mm_slli_epi32 (inp ! 3) 11],
     accum128 (mm_srli_epi32 (inp ! 3) (25 - 4))
       [mm_slli_epi32 (inp ! 4) 4, mm_slli_epi32 (inp ! 5) 29],
     accum128 (mm_srli_epi32 (inp ! 5) (25 - 22))
       [mm_slli_epi32 (inp ! 6) 22],
     accum128 (mm_srli_epi32 (inp ! 6) (25 - 15))
       [mm_slli_epi32 (inp ! 7) 15],
     accum128 (mm_srli_epi32 (inp ! 7) (25 - 8))
       [mm_slli_epi32 (inp ! 8) 8],
     accum128 (mm_srli_epi32 (inp ! 8) (25 - 1))
       [mm_slli_epi32 (inp ! 9) 1, mm_slli_epi32 (inp ! 10) 26],
     accum128 (mm_srli_epi32 (inp ! 10) (25 - 19))
       [mm_slli_epi32 (inp ! 11) 19],
     accum128 (mm_srli_epi32 (inp ! 11) (25 - 12))
       [mm_slli_epi32 (inp ! 12) 12],
     accum128 (mm_srli_epi32 (inp ! 12) (25 - 5))
       [mm_slli_epi32 (inp ! 13) 5, mm_slli_epi32 (inp ! 14) 30],
     accum128 (mm_srli_epi32 (inp ! 14) (25 - 23))
       [mm_slli_epi32 (inp ! 15) 23],
     accum128 (mm_srli_epi32 (inp ! 15) (25 - 16))
       [mm_slli_epi32 (inp ! 16) 16],
     accum128 (mm_srli_epi32 (inp ! 16) (25 - 9))
       [mm_slli_epi32 (inp ! 17) 9],
     accum128 (mm_srli_epi32 (inp ! 17) (25 - 2))
       [mm_slli_epi32 (inp ! 18) 2, mm_slli_epi32 (inp ! 19) 27],
     accum128 (mm_srli_epi32 (inp ! 19) (25 - 20))
       [mm_slli_epi32 (inp ! 20) 20],
     accum128 (mm_srli_epi32 (inp ! 20) (25 - 13))
       [mm_slli_epi32 (inp ! 21) 13],
     accum128 (mm_srli_epi32 (inp ! 21) (25 - 6))
       [mm_slli_epi32 (inp ! 22) 6, mm_slli_epi32 (inp ! 23) 31],
     accum128 (mm_srli_epi32 (inp ! 23) (25 - 24))
       [mm_slli_epi32 (inp ! 24) 24],
     accum128 (mm_srli_epi32 (inp ! 24) (25 - 17))
       [mm_slli_epi32 (inp ! 25) 17],
     accum128 (mm_srli_epi32 (inp ! 25) (25 - 10))
       [mm_slli_epi32 (inp ! 26) 10],
     accum128 (mm_srli_epi32 (inp ! 26) (25 - 3))
       [mm_slli_epi32 (inp ! 27) 3, mm_slli_epi32 (inp ! 28) 28],
     accum128 (mm_srli_epi32 (inp ! 28) (25 - 21))
       [mm_slli_epi32 (inp ! 29) 21],
     accum128 (mm_srli_epi32 (inp ! 29) (25 - 14))
       [mm_slli_epi32 (inp ! 30) 14],
     accum128 (mm_srli_epi32 (inp ! 30) (25 - 7))
       [mm_slli_epi32 (inp ! 31) 7]]"

definition SIMD_fastpackwithoutmask26_32 :: "m128i list \<Rightarrow> m128i list" where
  "SIMD_fastpackwithoutmask26_32 inp =
    [accum128 (inp ! 0)
       [mm_slli_epi32 (inp ! 1) 26],
     accum128 (mm_srli_epi32 (inp ! 1) (26 - 20))
       [mm_slli_epi32 (inp ! 2) 20],
     accum128 (mm_srli_epi32 (inp ! 2) (26 - 14))
       [mm_slli_epi32 (inp ! 3) 14],
     accum128 (mm_srli_epi32 (inp ! 3) (26 - 8))
       [mm_slli_epi32 (inp ! 4) 8],
     accum128 (mm_srli_epi32 (inp ! 4) (26 - 2))
       [mm_slli_epi32 (inp ! 5) 2, mm_slli_epi32 (inp ! 6) 28],
     accum128 (mm_srli_epi32 (inp ! 6) (26 - 22))
       [mm_slli_epi32 (inp ! 7) 22],
     accum128 (mm_srli_epi32 (inp ! 7) (26 - 16))
       [mm_slli_epi32 (inp ! 8) 16],
     accum128 (mm_srli_epi32 (inp ! 8) (26 - 10))
       [mm_slli_epi32 (inp ! 9) 10],
     accum128 (mm_srli_epi32 (inp ! 9) (26 - 4))
       [mm_slli_epi32 (inp ! 10) 4, mm_slli_epi32 (inp ! 11) 30],
     accum128 (mm_srli_epi32 (inp ! 11) (26 - 24))
       [mm_slli_epi32 (inp ! 12) 24],
     accum128 (mm_srli_epi32 (inp ! 12) (26 - 18))
       [mm_slli_epi32 (inp ! 13) 18],
     accum128 (mm_srli_epi32 (inp ! 13) (26 - 12))
       [mm_slli_epi32 (inp ! 14) 12],
     accum128 (mm_srli_epi32 (inp ! 14) (26 - 6))
       [mm_slli_epi32 (inp ! 15) 6],
     accum128 (inp ! 16)
       [mm_slli_epi32 (inp ! 17) 26],
     accum128 (mm_srli_epi32 (inp ! 17) (26 - 20))
       [mm_slli_epi32 (inp ! 18) 20],
     accum128 (mm_srli_epi32 (inp ! 18) (26 - 14))
       [mm_slli_epi32 (inp ! 19) 14],
     accum128 (mm_srli_epi32 (inp ! 19) (26 - 8))
       [mm_slli_epi32 (inp ! 20) 8],
     accum128 (mm_srli_epi32 (inp ! 20) (26 - 2))
       [mm_slli_epi32 (inp ! 21) 2, mm_slli_epi32 (inp ! 22) 28],
     accum128 (mm_srli_epi32 (inp ! 22) (26 - 22))
       [mm_slli_epi32 (inp ! 23) 22],
     accum128 (mm_srli_epi32 (inp ! 23) (26 - 16))
       [mm_slli_epi32 (inp ! 24) 16],
     accum128 (mm_srli_epi32 (inp ! 24) (26 - 10))
       [mm_slli_epi32 (inp ! 25) 10],
     accum128 (mm_srli_epi32 (inp ! 25) (26 - 4))
       [mm_slli_epi32 (inp ! 26) 4, mm_slli_epi32 (inp ! 27) 30],
     accum128 (mm_srli_epi32 (inp ! 27) (26 - 24))
       [mm_slli_epi32 (inp ! 28) 24],
     accum128 (mm_srli_epi32 (inp ! 28) (26 - 18))
       [mm_slli_epi32 (inp ! 29) 18],
     accum128 (mm_srli_epi32 (inp ! 29) (26 - 12))
       [mm_slli_epi32 (inp ! 30) 12],
     accum128 (mm_srli_epi32 (inp ! 30) (26 - 6))
       [mm_slli_epi32 (inp ! 31) 6]]"

definition SIMD_fastpackwithoutmask27_32 :: "m128i list \<Rightarrow> m128i list" where
  "SIMD_fastpackwithoutmask27_32 inp =
    [accum128 (inp ! 0)
       [mm_slli_epi32 (inp ! 1) 27],
     accum128 (mm_srli_epi32 (inp ! 1) (27 - 22))
       [mm_slli_epi32 (inp ! 2) 22],
     accum128 (mm_srli_epi32 (inp ! 2) (27 - 17))
       [mm_slli_epi32 (inp ! 3) 17],
     accum128 (mm_srli_epi32 (inp ! 3) (27 - 12))
       [mm_slli_epi32 (inp ! 4) 12],
     accum128 (mm_srli_epi32 (inp ! 4) (27 - 7))
       [mm_slli_epi32 (inp ! 5) 7],
     accum128 (mm_srli_epi32 (inp ! 5) (27 - 2))
       [mm_slli_epi32 (inp ! 6) 2, mm_slli_epi32 (inp ! 7) 29],
     accum128 (mm_srli_epi32 (inp ! 7) (27 - 24))
       [mm_slli_epi32 (inp ! 8) 24],
     accum128 (mm_srli_epi32 (inp ! 8) (27 - 19))
       [mm_slli_epi32 (inp ! 9) 19],
     accum128 (mm_srli_epi32 (inp ! 9) (27 - 14))
       [mm_slli_epi32 (inp ! 10) 14],
     accum128 (mm_srli_epi32 (inp ! 10) (27 - 9))
       [mm_slli_epi32 (inp ! 11) 9],
     accum128 (mm_srli_epi32 (inp ! 11) (27 - 4))
       [mm_slli_epi32 (inp ! 12) 4, mm_slli_epi32 (inp ! 13) 31],
     accum128 (mm_srli_epi32 (inp ! 13) (27 - 26))
       [mm_slli_epi32 (inp ! 14) 26],
     accum128 (mm_srli_epi32 (inp ! 14) (27 - 21))
       [mm_slli_epi32 (inp ! 15) 21],
     accum128 (mm_srli_epi32 (inp ! 15) (27 - 16))
       [mm_slli_epi32 (inp ! 16) 16],
     accum128 (mm_srli_epi32 (inp ! 16) (27 - 11))
       [mm_slli_epi32 (inp ! 17) 11],
     accum128 (mm_srli_epi32 (inp ! 17) (27 - 6))
       [mm_slli_epi32 (inp ! 18) 6],
     accum128 (mm_srli_epi32 (inp ! 18) (27 - 1))
       [mm_slli_epi32 (inp ! 19) 1, mm_slli_epi32 (inp ! 20) 28],
     accum128 (mm_srli_epi32 (inp ! 20) (27 - 23))
       [mm_slli_epi32 (inp ! 21) 23],
     accum128 (mm_srli_epi32 (inp ! 21) (27 - 18))
       [mm_slli_epi32 (inp ! 22) 18],
     accum128 (mm_srli_epi32 (inp ! 22) (27 - 13))
       [mm_slli_epi32 (inp ! 23) 13],
     accum128 (mm_srli_epi32 (inp ! 23) (27 - 8))
       [mm_slli_epi32 (inp ! 24) 8],
     accum128 (mm_srli_epi32 (inp ! 24) (27 - 3))
       [mm_slli_epi32 (inp ! 25) 3, mm_slli_epi32 (inp ! 26) 30],
     accum128 (mm_srli_epi32 (inp ! 26) (27 - 25))
       [mm_slli_epi32 (inp ! 27) 25],
     accum128 (mm_srli_epi32 (inp ! 27) (27 - 20))
       [mm_slli_epi32 (inp ! 28) 20],
     accum128 (mm_srli_epi32 (inp ! 28) (27 - 15))
       [mm_slli_epi32 (inp ! 29) 15],
     accum128 (mm_srli_epi32 (inp ! 29) (27 - 10))
       [mm_slli_epi32 (inp ! 30) 10],
     accum128 (mm_srli_epi32 (inp ! 30) (27 - 5))
       [mm_slli_epi32 (inp ! 31) 5]]"

definition SIMD_fastpackwithoutmask28_32 :: "m128i list \<Rightarrow> m128i list" where
  "SIMD_fastpackwithoutmask28_32 inp =
    [accum128 (inp ! 0)
       [mm_slli_epi32 (inp ! 1) 28],
     accum128 (mm_srli_epi32 (inp ! 1) (28 - 24))
       [mm_slli_epi32 (inp ! 2) 24],
     accum128 (mm_srli_epi32 (inp ! 2) (28 - 20))
       [mm_slli_epi32 (inp ! 3) 20],
     accum128 (mm_srli_epi32 (inp ! 3) (28 - 16))
       [mm_slli_epi32 (inp ! 4) 16],
     accum128 (mm_srli_epi32 (inp ! 4) (28 - 12))
       [mm_slli_epi32 (inp ! 5) 12],
     accum128 (mm_srli_epi32 (inp ! 5) (28 - 8))
       [mm_slli_epi32 (inp ! 6) 8],
     accum128 (mm_srli_epi32 (inp ! 6) (28 - 4))
       [mm_slli_epi32 (inp ! 7) 4],
     accum128 (inp ! 8)
       [mm_slli_epi32 (inp ! 9) 28],
     accum128 (mm_srli_epi32 (inp ! 9) (28 - 24))
       [mm_slli_epi32 (inp ! 10) 24],
     accum128 (mm_srli_epi32 (inp ! 10) (28 - 20))
       [mm_slli_epi32 (inp ! 11) 20],
     accum128 (mm_srli_epi32 (inp ! 11) (28 - 16))
       [mm_slli_epi32 (inp ! 12) 16],
     accum128 (mm_srli_epi32 (inp ! 12) (28 - 12))
       [mm_slli_epi32 (inp ! 13) 12],
     accum128 (mm_srli_epi32 (inp ! 13) (28 - 8))
       [mm_slli_epi32 (inp ! 14) 8],
     accum128 (mm_srli_epi32 (inp ! 14) (28 - 4))
       [mm_slli_epi32 (inp ! 15) 4],
     accum128 (inp ! 16)
       [mm_slli_epi32 (inp ! 17) 28],
     accum128 (mm_srli_epi32 (inp ! 17) (28 - 24))
       [mm_slli_epi32 (inp ! 18) 24],
     accum128 (mm_srli_epi32 (inp ! 18) (28 - 20))
       [mm_slli_epi32 (inp ! 19) 20],
     accum128 (mm_srli_epi32 (inp ! 19) (28 - 16))
       [mm_slli_epi32 (inp ! 20) 16],
     accum128 (mm_srli_epi32 (inp ! 20) (28 - 12))
       [mm_slli_epi32 (inp ! 21) 12],
     accum128 (mm_srli_epi32 (inp ! 21) (28 - 8))
       [mm_slli_epi32 (inp ! 22) 8],
     accum128 (mm_srli_epi32 (inp ! 22) (28 - 4))
       [mm_slli_epi32 (inp ! 23) 4],
     accum128 (inp ! 24)
       [mm_slli_epi32 (inp ! 25) 28],
     accum128 (mm_srli_epi32 (inp ! 25) (28 - 24))
       [mm_slli_epi32 (inp ! 26) 24],
     accum128 (mm_srli_epi32 (inp ! 26) (28 - 20))
       [mm_slli_epi32 (inp ! 27) 20],
     accum128 (mm_srli_epi32 (inp ! 27) (28 - 16))
       [mm_slli_epi32 (inp ! 28) 16],
     accum128 (mm_srli_epi32 (inp ! 28) (28 - 12))
       [mm_slli_epi32 (inp ! 29) 12],
     accum128 (mm_srli_epi32 (inp ! 29) (28 - 8))
       [mm_slli_epi32 (inp ! 30) 8],
     accum128 (mm_srli_epi32 (inp ! 30) (28 - 4))
       [mm_slli_epi32 (inp ! 31) 4]]"

definition SIMD_fastpackwithoutmask29_32 :: "m128i list \<Rightarrow> m128i list" where
  "SIMD_fastpackwithoutmask29_32 inp =
    [accum128 (inp ! 0)
       [mm_slli_epi32 (inp ! 1) 29],
     accum128 (mm_srli_epi32 (inp ! 1) (29 - 26))
       [mm_slli_epi32 (inp ! 2) 26],
     accum128 (mm_srli_epi32 (inp ! 2) (29 - 23))
       [mm_slli_epi32 (inp ! 3) 23],
     accum128 (mm_srli_epi32 (inp ! 3) (29 - 20))
       [mm_slli_epi32 (inp ! 4) 20],
     accum128 (mm_srli_epi32 (inp ! 4) (29 - 17))
       [mm_slli_epi32 (inp ! 5) 17],
     accum128 (mm_srli_epi32 (inp ! 5) (29 - 14))
       [mm_slli_epi32 (inp ! 6) 14],
     accum128 (mm_srli_epi32 (inp ! 6) (29 - 11))
       [mm_slli_epi32 (inp ! 7) 11],
     accum128 (mm_srli_epi32 (inp ! 7) (29 - 8))
       [mm_slli_epi32 (inp ! 8) 8],
     accum128 (mm_srli_epi32 (inp ! 8) (29 - 5))
       [mm_slli_epi32 (inp ! 9) 5],
     accum128 (mm_srli_epi32 (inp ! 9) (29 - 2))
       [mm_slli_epi32 (inp ! 10) 2, mm_slli_epi32 (inp ! 11) 31],
     accum128 (mm_srli_epi32 (inp ! 11) (29 - 28))
       [mm_slli_epi32 (inp ! 12) 28],
     accum128 (mm_srli_epi32 (inp ! 12) (29 - 25))
       [mm_slli_epi32 (inp ! 13) 25],
     accum128 (mm_srli_epi32 (inp ! 13) (29 - 22))
       [mm_slli_epi32 (inp ! 14) 22],
     accum128 (mm_srli_epi32 (inp ! 14) (29 - 19))
       [mm_slli_epi32 (inp ! 15) 19],
     accum128 (mm_srli_epi32 (inp ! 15) (29 - 16))
       [mm_slli_epi32 (inp ! 16) 16],
     accum128 (mm_srli_epi32 (inp ! 16) (29 - 13))
       [mm_slli_epi32 (inp ! 17) 13],
     accum128 (mm_srli_epi32 (inp ! 17) (29 - 10))
       [mm_slli_epi32 (inp ! 18) 10],
     accum128 (mm_srli_epi32 (inp ! 18) (29 - 7))
       [mm_slli_epi32 (inp ! 19) 7],
     accum128 (mm_srli_epi32 (inp ! 19) (29 - 4))
       [mm_slli_epi32 (inp ! 20) 4],
     accum128 (mm_srli_epi32 (inp ! 20) (29 - 1))
       [mm_slli_epi32 (inp ! 21) 1, mm_slli_epi32 (inp ! 22) 30],
     accum128 (mm_srli_epi32 (inp ! 22) (29 - 27))
       [mm_slli_epi32 (inp ! 23) 27],
     accum128 (mm_srli_epi32 (inp ! 23) (29 - 24))
       [mm_slli_epi32 (inp ! 24) 24],
     accum128 (mm_srli_epi32 (inp ! 24) (29 - 21))
       [mm_slli_epi32 (inp ! 25) 21],
     accum128 (mm_srli_epi32 (inp ! 25) (29 - 18))
       [mm_slli_epi32 (inp ! 26) 18],
     accum128 (mm_srli_epi32 (inp ! 26) (29 - 15))
       [mm_slli_epi32 (inp ! 27) 15],
     accum128 (mm_srli_epi32 (inp ! 27) (29 - 12))
       [mm_slli_epi32 (inp ! 28) 12],
     accum128 (mm_srli_epi32 (inp ! 28) (29 - 9))
       [mm_slli_epi32 (inp ! 29) 9],
     accum128 (mm_srli_epi32 (inp ! 29) (29 - 6))
       [mm_slli_epi32 (inp ! 30) 6],
     accum128 (mm_srli_epi32 (inp ! 30) (29 - 3))
       [mm_slli_epi32 (inp ! 31) 3]]"

definition SIMD_fastpackwithoutmask30_32 :: "m128i list \<Rightarrow> m128i list" where
  "SIMD_fastpackwithoutmask30_32 inp =
    [accum128 (inp ! 0)
       [mm_slli_epi32 (inp ! 1) 30],
     accum128 (mm_srli_epi32 (inp ! 1) (30 - 28))
       [mm_slli_epi32 (inp ! 2) 28],
     accum128 (mm_srli_epi32 (inp ! 2) (30 - 26))
       [mm_slli_epi32 (inp ! 3) 26],
     accum128 (mm_srli_epi32 (inp ! 3) (30 - 24))
       [mm_slli_epi32 (inp ! 4) 24],
     accum128 (mm_srli_epi32 (inp ! 4) (30 - 22))
       [mm_slli_epi32 (inp ! 5) 22],
     accum128 (mm_srli_epi32 (inp ! 5) (30 - 20))
       [mm_slli_epi32 (inp ! 6) 20],
     accum128 (mm_srli_epi32 (inp ! 6) (30 - 18))
       [mm_slli_epi32 (inp ! 7) 18],
     accum128 (mm_srli_epi32 (inp ! 7) (30 - 16))
       [mm_slli_epi32 (inp ! 8) 16],
     accum128 (mm_srli_epi32 (inp ! 8) (30 - 14))
       [mm_slli_epi32 (inp ! 9) 14],
     accum128 (mm_srli_epi32 (inp ! 9) (30 - 12))
       [mm_slli_epi32 (inp ! 10) 12],
     accum128 (mm_srli_epi32 (inp ! 10) (30 - 10))
       [mm_slli_epi32 (inp ! 11) 10],
     accum128 (mm_srli_epi32 (inp ! 11) (30 - 8))
       [mm_slli_epi32 (inp ! 12) 8],
     accum128 (mm_srli_epi32 (inp ! 12) (30 - 6))
       [mm_slli_epi32 (inp ! 13) 6],
     accum128 (mm_srli_epi32 (inp ! 13) (30 - 4))
       [mm_slli_epi32 (inp ! 14) 4],
     accum128 (mm_srli_epi32 (inp ! 14) (30 - 2))
       [mm_slli_epi32 (inp ! 15) 2],
     accum128 (inp ! 16)
       [mm_slli_epi32 (inp ! 17) 30],
     accum128 (mm_srli_epi32 (inp ! 17) (30 - 28))
       [mm_slli_epi32 (inp ! 18) 28],
     accum128 (mm_srli_epi32 (inp ! 18) (30 - 26))
       [mm_slli_epi32 (inp ! 19) 26],
     accum128 (mm_srli_epi32 (inp ! 19) (30 - 24))
       [mm_slli_epi32 (inp ! 20) 24],
     accum128 (mm_srli_epi32 (inp ! 20) (30 - 22))
       [mm_slli_epi32 (inp ! 21) 22],
     accum128 (mm_srli_epi32 (inp ! 21) (30 - 20))
       [mm_slli_epi32 (inp ! 22) 20],
     accum128 (mm_srli_epi32 (inp ! 22) (30 - 18))
       [mm_slli_epi32 (inp ! 23) 18],
     accum128 (mm_srli_epi32 (inp ! 23) (30 - 16))
       [mm_slli_epi32 (inp ! 24) 16],
     accum128 (mm_srli_epi32 (inp ! 24) (30 - 14))
       [mm_slli_epi32 (inp ! 25) 14],
     accum128 (mm_srli_epi32 (inp ! 25) (30 - 12))
       [mm_slli_epi32 (inp ! 26) 12],
     accum128 (mm_srli_epi32 (inp ! 26) (30 - 10))
       [mm_slli_epi32 (inp ! 27) 10],
     accum128 (mm_srli_epi32 (inp ! 27) (30 - 8))
       [mm_slli_epi32 (inp ! 28) 8],
     accum128 (mm_srli_epi32 (inp ! 28) (30 - 6))
       [mm_slli_epi32 (inp ! 29) 6],
     accum128 (mm_srli_epi32 (inp ! 29) (30 - 4))
       [mm_slli_epi32 (inp ! 30) 4],
     accum128 (mm_srli_epi32 (inp ! 30) (30 - 2))
       [mm_slli_epi32 (inp ! 31) 2]]"

definition SIMD_fastpackwithoutmask31_32 :: "m128i list \<Rightarrow> m128i list" where
  "SIMD_fastpackwithoutmask31_32 inp =
    [accum128 (inp ! 0)
       [mm_slli_epi32 (inp ! 1) 31],
     accum128 (mm_srli_epi32 (inp ! 1) (31 - 30))
       [mm_slli_epi32 (inp ! 2) 30],
     accum128 (mm_srli_epi32 (inp ! 2) (31 - 29))
       [mm_slli_epi32 (inp ! 3) 29],
     accum128 (mm_srli_epi32 (inp ! 3) (31 - 28))
       [mm_slli_epi32 (inp ! 4) 28],
     accum128 (mm_srli_epi32 (inp ! 4) (31 - 27))
       [mm_slli_epi32 (inp ! 5) 27],
     accum128 (mm_srli_epi32 (inp ! 5) (31 - 26))
       [mm_slli_epi32 (inp ! 6) 26],
     accum128 (mm_srli_epi32 (inp ! 6) (31 - 25))
       [mm_slli_epi32 (inp ! 7) 25],
     accum128 (mm_srli_epi32 (inp ! 7) (31 - 24))
       [mm_slli_epi32 (inp ! 8) 24],
     accum128 (mm_srli_epi32 (inp ! 8) (31 - 23))
       [mm_slli_epi32 (inp ! 9) 23],
     accum128 (mm_srli_epi32 (inp ! 9) (31 - 22))
       [mm_slli_epi32 (inp ! 10) 22],
     accum128 (mm_srli_epi32 (inp ! 10) (31 - 21))
       [mm_slli_epi32 (inp ! 11) 21],
     accum128 (mm_srli_epi32 (inp ! 11) (31 - 20))
       [mm_slli_epi32 (inp ! 12) 20],
     accum128 (mm_srli_epi32 (inp ! 12) (31 - 19))
       [mm_slli_epi32 (inp ! 13) 19],
     accum128 (mm_srli_epi32 (inp ! 13) (31 - 18))
       [mm_slli_epi32 (inp ! 14) 18],
     accum128 (mm_srli_epi32 (inp ! 14) (31 - 17))
       [mm_slli_epi32 (inp ! 15) 17],
     accum128 (mm_srli_epi32 (inp ! 15) (31 - 16))
       [mm_slli_epi32 (inp ! 16) 16],
     accum128 (mm_srli_epi32 (inp ! 16) (31 - 15))
       [mm_slli_epi32 (inp ! 17) 15],
     accum128 (mm_srli_epi32 (inp ! 17) (31 - 14))
       [mm_slli_epi32 (inp ! 18) 14],
     accum128 (mm_srli_epi32 (inp ! 18) (31 - 13))
       [mm_slli_epi32 (inp ! 19) 13],
     accum128 (mm_srli_epi32 (inp ! 19) (31 - 12))
       [mm_slli_epi32 (inp ! 20) 12],
     accum128 (mm_srli_epi32 (inp ! 20) (31 - 11))
       [mm_slli_epi32 (inp ! 21) 11],
     accum128 (mm_srli_epi32 (inp ! 21) (31 - 10))
       [mm_slli_epi32 (inp ! 22) 10],
     accum128 (mm_srli_epi32 (inp ! 22) (31 - 9))
       [mm_slli_epi32 (inp ! 23) 9],
     accum128 (mm_srli_epi32 (inp ! 23) (31 - 8))
       [mm_slli_epi32 (inp ! 24) 8],
     accum128 (mm_srli_epi32 (inp ! 24) (31 - 7))
       [mm_slli_epi32 (inp ! 25) 7],
     accum128 (mm_srli_epi32 (inp ! 25) (31 - 6))
       [mm_slli_epi32 (inp ! 26) 6],
     accum128 (mm_srli_epi32 (inp ! 26) (31 - 5))
       [mm_slli_epi32 (inp ! 27) 5],
     accum128 (mm_srli_epi32 (inp ! 27) (31 - 4))
       [mm_slli_epi32 (inp ! 28) 4],
     accum128 (mm_srli_epi32 (inp ! 28) (31 - 3))
       [mm_slli_epi32 (inp ! 29) 3],
     accum128 (mm_srli_epi32 (inp ! 29) (31 - 2))
       [mm_slli_epi32 (inp ! 30) 2],
     accum128 (mm_srli_epi32 (inp ! 30) (31 - 1))
       [mm_slli_epi32 (inp ! 31) 1]]"

definition SIMD_fastpackwithoutmask32_32 :: "m128i list \<Rightarrow> m128i list" where
  "SIMD_fastpackwithoutmask32_32 inp =
    [inp ! 0, inp ! 1, inp ! 2, inp ! 3, inp ! 4, inp ! 5, inp ! 6, inp ! 7, inp ! 8, inp ! 9,
     inp ! 10, inp ! 11, inp ! 12, inp ! 13, inp ! 14, inp ! 15, inp ! 16, inp ! 17, inp ! 18,
     inp ! 19, inp ! 20, inp ! 21, inp ! 22, inp ! 23, inp ! 24, inp ! 25, inp ! 26, inp ! 27,
     inp ! 28, inp ! 29, inp ! 30, inp ! 31]"

definition SIMD_fastpack1_32 :: "m128i list \<Rightarrow> m128i list" where
  "SIMD_fastpack1_32 inp =
    (let d = map (\<lambda>x. mm_and_si128 x (mm_set1_epi32 1)) inp in
    [accum128 (d ! 0)
       [mm_slli_epi32 (d ! 1) 1, mm_slli_epi32 (d ! 2) 2, mm_slli_epi32 (d ! 3) 3,
        mm_slli_epi32 (d ! 4) 4, mm_slli_epi32 (d ! 5) 5, mm_slli_epi32 (d ! 6) 6,
        mm_slli_epi32 (d ! 7) 7, mm_slli_epi32 (d ! 8) 8, mm_slli_epi32 (d ! 9) 9,
        mm_slli_epi32 (d ! 10) 10, mm_slli_epi32 (d ! 11) 11, mm_slli_epi32 (d ! 12) 12,
        mm_slli_epi32 (d ! 13) 13, mm_slli_epi32 (d ! 14) 14, mm_slli_epi32 (d ! 15) 15,
        mm_slli_epi32 (d ! 16) 16, mm_slli_epi32 (d ! 17) 17, mm_slli_epi32 (d ! 18) 18,
        mm_slli_epi32 (d ! 19) 19, mm_slli_epi32 (d ! 20) 20, mm_slli_epi32 (d ! 21) 21,
        mm_slli_epi32 (d ! 22) 22, mm_slli_epi32 (d ! 23) 23, mm_slli_epi32 (d ! 24) 24,
        mm_slli_epi32 (d ! 25) 25, mm_slli_epi32 (d ! 26) 26, mm_slli_epi32 (d ! 27) 27,
        mm_slli_epi32 (d ! 28) 28, mm_slli_epi32 (d ! 29) 29, mm_slli_epi32 (d ! 30) 30,
        mm_slli_epi32 (d ! 31) 31]])"

definition SIMD_fastpack2_32 :: "m128i list \<Rightarrow> m128i list" where
  "SIMD_fastpack2_32 inp =
    (let d = map (\<lambda>x. mm_and_si128 x (mm_set1_epi32 3)) inp in
    [accum128 (d ! 0)
       [mm_slli_epi32 (d ! 1) 2, mm_slli_epi32 (d ! 2) 4, mm_slli_epi32 (d ! 3) 6,
        mm_slli_epi32 (d ! 4) 8, mm_slli_epi32 (d ! 5) 10, mm_slli_epi32 (d ! 6) 12,
        mm_slli_epi32 (d ! 7) 14, mm_slli_epi32 (d ! 8) 16, mm_slli_epi32 (d ! 9) 18,
        mm_slli_epi32 (d ! 10) 20, mm_slli_epi32 (d ! 11) 22, mm_slli_epi32 (d ! 12) 24,
        mm_slli_epi32 (d ! 13) 26, mm_slli_epi32 (d ! 14) 28, mm_slli_epi32 (d ! 15) 30],
     accum128 (d ! 16)
       [mm_slli_epi32 (d ! 17) 2, mm_slli_epi32 (d ! 18) 4, mm_slli_epi32 (d ! 19) 6,
        mm_slli_epi32 (d ! 20) 8, mm_slli_epi32 (d ! 21) 10, mm_slli_epi32 (d ! 22) 12,
        mm_slli_epi32 (d ! 23) 14, mm_slli_epi32 (d ! 24) 16, mm_slli_epi32 (d ! 25) 18,
        mm_slli_epi32 (d ! 26) 20, mm_slli_epi32 (d ! 27) 22, mm_slli_epi32 (d ! 28) 24,
        mm_slli_epi32 (d ! 29) 26, mm_slli_epi32 (d ! 30) 28, mm_slli_epi32 (d ! 31) 30]])"

definition SIMD_fastpack3_32 :: "m128i list \<Rightarrow> m128i list" where
  "SIMD_fastpack3_32 inp =
    (let d = map (\<lambda>x. mm_and_si128 x (mm_set1_epi32 7)) inp in
    [accum128 (d ! 0)
       [mm_slli_epi32 (d ! 1) 3, mm_slli_epi32 (d ! 2) 6, mm_slli_epi32 (d ! 3) 9,
        mm_slli_epi32 (d ! 4) 12, mm_slli_epi32 (d ! 5) 15, mm_slli_epi32 (d ! 6) 18,
        mm_slli_epi32 (d ! 7) 21, mm_slli_epi32 (d ! 8) 24, mm_slli_epi32 (d ! 9) 27,
        mm_slli_epi32 (d ! 10) 30],
     accum128 (mm_srli_epi32 (d ! 10) (3 - 1))
       [mm_slli_epi32 (d ! 11) 1, mm_slli_epi32 (d ! 12) 4, mm_slli_epi32 (d ! 13) 7,
        mm_slli_epi32 (d ! 14) 10, mm_slli_epi32 (d ! 15) 13, mm_slli_epi32 (d ! 16) 16,
        mm_slli_epi32 (d ! 17) 19, mm_slli_epi32 (d ! 18) 22, mm_slli_epi32 (d ! 19) 25,
        mm_slli_epi32 (d ! 20) 28, mm_slli_epi32 (d ! 21) 31],
     accum128 (mm_srli_epi32 (d ! 21) (3 - 2))
       [mm_slli_epi32 (d ! 22) 2, mm_slli_epi32 (d ! 23) 5, mm_slli_epi32 (d ! 24) 8,
        mm_slli_epi32 (d ! 25) 11, mm_slli_epi32 (d ! 26) 14, mm_slli_epi32 (d ! 27) 17,
        mm_slli_epi32 (d ! 28) 20, mm_slli_epi32 (d ! 29) 23, mm_slli_epi32 (d ! 30) 26,
        mm_slli_epi32 (d ! 31) 29]])"

definition SIMD_fastpack4_32 :: "m128i list \<Rightarrow> m128i list" where
  "SIMD_fastpack4_32 inp =
    (let d = map (\<lambda>x. mm_and_si128 x (mm_set1_epi32 15)) inp in
    concat (map (\<lambda>outer.
     [accum128 (d ! (8 * outer))
       [mm_slli_epi32 (d ! (8 * outer + 1)) 4, mm_slli_epi32 (d ! (8 * outer + 2)) 8,
        mm_slli_epi32 (d ! (8 * outer + 3)) 12, mm_slli_epi32 (d ! (8 * outer + 4)) 16,
        mm_slli_epi32 (d ! (8 * outer + 5)) 20, mm_slli_epi32 (d ! (8 * outer + 6)) 24,
        mm_slli_epi32 (d ! (8 * outer + 7)) 28]])
     [0..<4]))"

definition SIMD_fastpack5_32 :: "m128i list \<Rightarrow> m128i list" where
  "SIMD_fastpack5_32 inp =
    (let d = map (\<lambda>x. mm_and_si128 x (mm_set1_epi32 31)) inp in
    [accum128 (d ! 0)
       [mm_slli_epi32 (d ! 1) 5, mm_slli_epi32 (d ! 2) 10, mm_slli_epi32 (d ! 3) 15,
        mm_slli_epi32 (d ! 4) 20, mm_slli_epi32 (d ! 5) 25, mm_slli_epi32 (d ! 6) 30],
     accum128 (mm_srli_epi32 (d ! 6) (5 - 3))
       [mm_slli_epi32 (d ! 7) 3, mm_slli_epi32 (d ! 8) 8, mm_slli_epi32 (d ! 9) 13,
        mm_slli_epi32 (d ! 10) 18, mm_slli_epi32 (d ! 11) 23, mm_slli_epi32 (d ! 12) 28],
     accum128 (mm_srli_epi32 (d ! 12) (5 - 1))
       [mm_slli_epi32 (d ! 13) 1, mm_slli_epi32 (d ! 14) 6, mm_slli_epi32 (d ! 15) 11,
        mm_slli_epi32 (d ! 16) 16, mm_slli_epi32 (d ! 17) 21, mm_slli_epi32 (d ! 18) 26,
        mm_slli_epi32 (d ! 19) 31],
     accum128 (mm_srli_epi32 (d ! 19) (5 - 4))
       [mm_slli_epi32 (d ! 20) 4, mm_slli_epi32 (d ! 21) 9, mm_slli_epi32 (d ! 22) 14,
        mm_slli_epi32 (d ! 23) 19, mm_slli_epi32 (d ! 24) 24, mm_slli_epi32 (d ! 25) 29],
     accum128 (mm_srli_epi32 (d ! 25) (5 - 2))
       [mm_slli_epi32 (d ! 26) 2, mm_slli_epi32 (d ! 27) 7, mm_slli_epi32 (d ! 28) 12,
        mm_slli_epi32 (d ! 29) 17, mm_slli_epi32 (d ! 30) 22, mm_slli_epi32 (d ! 31) 27]])"

definition SIMD_fastpack6_32 :: "m128i list \<Rightarrow> m128i list" where
  "SIMD_fastpack6_32 inp =
    (let d = map (\<lambda>x. mm_and_si128 x (mm_set1_epi32 63)) inp in
    [accum128 (d ! 0)
       [mm_slli_epi32 (d ! 1) 6, mm_slli_epi32 (d ! 2) 12, mm_slli_epi32 (d ! 3) 18,
        mm_slli_epi32 (d ! 4) 24, mm_slli_epi32 (d ! 5) 30],
     accum128 (mm_srli_epi32 (d ! 5) (6 - 4))
       [mm_slli_epi32 (d ! 6) 4, mm_slli_epi32 (d ! 7) 10, mm_slli_epi32 (d ! 8) 16,
        mm_slli_epi32 (d ! 9) 22, mm_slli_epi32 (d ! 10) 28],
     accum128 (mm_srli_epi32 (d ! 10) (6 - 2))
       [mm_slli_epi32 (d ! 11) 2, mm_slli_epi32 (d ! 12) 8, mm_slli_epi32 (d ! 13) 14,
        mm_slli_epi32 (d ! 14) 20, mm_slli_epi32 (d ! 15) 26],
     accum128 (d ! 16)
       [mm_slli_epi32 (d ! 17) 6, mm_slli_epi32 (d ! 18) 12, mm_slli_epi32 (d ! 19) 18,
        mm_slli_epi32 (d ! 20) 24, mm_slli_epi32 (d ! 21) 30],
     accum128 (mm_srli_epi32 (d ! 21) (6 - 4))
       [mm_slli_epi32 (d ! 22) 4, mm_slli_epi32 (d ! 23) 10, mm_slli_epi32 (d ! 24) 16,
        mm_slli_epi32 (d ! 25) 22, mm_slli_epi32 (d ! 26) 28],
     accum128 (mm_srli_epi32 (d ! 26) (6 - 2))
       [mm_slli_epi32 (d ! 27) 2, mm_slli_epi32 (d ! 28) 8, mm_slli_epi32 (d ! 29) 14,
        mm_slli_epi32 (d ! 30) 20, mm_slli_epi32 (d ! 31) 26]])"

definition SIMD_fastpack7_32 :: "m128i list \<Rightarrow> m128i list" where
  "SIMD_fastpack7_32 inp =
    (let d = map (\<lambda>x. mm_and_si128 x (mm_set1_epi32 127)) inp in
    [accum128 (d ! 0)
       [mm_slli_epi32 (d ! 1) 7, mm_slli_epi32 (d ! 2) 14, mm_slli_epi32 (d ! 3) 21,
        mm_slli_epi32 (d ! 4) 28],
     accum128 (mm_srli_epi32 (d ! 4) (7 - 3))
       [mm_slli_epi32 (d ! 5) 3, mm_slli_epi32 (d ! 6) 10, mm_slli_epi32 (d ! 7) 17,
        mm_slli_epi32 (d ! 8) 24, mm_slli_epi32 (d ! 9) 31],
     accum128 (mm_srli_epi32 (d ! 9) (7 - 6))
       [mm_slli_epi32 (d ! 10) 6, mm_slli_epi32 (d ! 11) 13, mm_slli_epi32 (d ! 12) 20,
        mm_slli_epi32 (d ! 13) 27],
     accum128 (mm_srli_epi32 (d ! 13) (7 - 2))
       [mm_slli_epi32 (d ! 14) 2, mm_slli_epi32 (d ! 15) 9, mm_slli_epi32 (d ! 16) 16,
        mm_slli_epi32 (d ! 17) 23, mm_slli_epi32 (d ! 18) 30],
     accum128 (mm_srli_epi32 (d ! 18) (7 - 5))
       [mm_slli_epi32 (d ! 19) 5, mm_slli_epi32 (d ! 20) 12, mm_slli_epi32 (d ! 21) 19,
        mm_slli_epi32 (d ! 22) 26],
     accum128 (mm_srli_epi32 (d ! 22) (7 - 1))
       [mm_slli_epi32 (d ! 23) 1, mm_slli_epi32 (d ! 24) 8, mm_slli_epi32 (d ! 25) 15,
        mm_slli_epi32 (d ! 26) 22, mm_slli_epi32 (d ! 27) 29],
     accum128 (mm_srli_epi32 (d ! 27) (7 - 4))
       [mm_slli_epi32 (d ! 28) 4, mm_slli_epi32 (d ! 29) 11, mm_slli_epi32 (d ! 30) 18,
        mm_slli_epi32 (d ! 31) 25]])"

definition SIMD_fastpack8_32 :: "m128i list \<Rightarrow> m128i list" where
  "SIMD_fastpack8_32 inp =
    (let d = map (\<lambda>x. mm_and_si128 x (mm_set1_epi32 255)) inp in
    concat (map (\<lambda>outer.
     [accum128 (d ! (4 * outer))
       [mm_slli_epi32 (d ! (4 * outer + 1)) 8, mm_slli_epi32 (d ! (4 * outer + 2)) 16,
        mm_slli_epi32 (d ! (4 * outer + 3)) 24]])
     [0..<8]))"

definition SIMD_fastpack9_32 :: "m128i list \<Rightarrow> m128i list" where
  "SIMD_fastpack9_32 inp =
    (let d = map (\<lambda>x. mm_and_si128 x (mm_set1_epi32 511)) inp in
    [accum128 (d ! 0)
       [mm_slli_epi32 (d ! 1) 9, mm_slli_epi32 (d ! 2) 18, mm_slli_epi32 (d ! 3) 27],
     accum128 (mm_srli_epi32 (d ! 3) (9 - 4))
       [mm_slli_epi32 (d ! 4) 4, mm_slli_epi32 (d ! 5) 13, mm_slli_epi32 (d ! 6) 22,
        mm_slli_epi32 (d ! 7) 31],
     accum128 (mm_srli_epi32 (d ! 7) (9 - 8))
       [mm_slli_epi32 (d ! 8) 8, mm_slli_epi32 (d ! 9) 17, mm_slli_epi32 (d ! 10) 26],
     accum128 (mm_srli_epi32 (d ! 10) (9 - 3))
       [mm_slli_epi32 (d ! 11) 3, mm_slli_epi32 (d ! 12) 12, mm_slli_epi32 (d ! 13) 21,
        mm_slli_epi32 (d ! 14) 30],
     accum128 (mm_srli_epi32 (d ! 14) (9 - 7))
       [mm_slli_epi32 (d ! 15) 7, mm_slli_epi32 (d ! 16) 16, mm_slli_epi32 (d ! 17) 25],
     accum128 (mm_srli_epi32 (d ! 17) (9 - 2))
       [mm_slli_epi32 (d ! 18) 2, mm_slli_epi32 (d ! 19) 11, mm_slli_epi32 (d ! 20) 20,
        mm_slli_epi32 (d ! 21) 29],
     accum128 (mm_srli_epi32 (d ! 21) (9 - 6))
       [mm_slli_epi32 (d ! 22) 6, mm_slli_epi32 (d ! 23) 15, mm_slli_epi32 (d ! 24) 24],
     accum128 (mm_srli_epi32 (d ! 24) (9 - 1))
       [mm_slli_epi32 (d ! 25) 1, mm_slli_epi32 (d ! 26) 10, mm_slli_epi32 (d ! 27) 19,
        mm_slli_epi32 (d ! 28) 28],
     accum128 (mm_srli_epi32 (d ! 28) (9 - 5))
       [mm_slli_epi32 (d ! 29) 5, mm_slli_epi32 (d ! 30) 14, mm_slli_epi32 (d ! 31) 23]])"

definition SIMD_fastpack10_32 :: "m128i list \<Rightarrow> m128i list" where
  "SIMD_fastpack10_32 inp =
    (let d = map (\<lambda>x. mm_and_si128 x (mm_set1_epi32 1023)) inp in
    [accum128 (d ! 0)
       [mm_slli_epi32 (d ! 1) 10, mm_slli_epi32 (d ! 2) 20, mm_slli_epi32 (d ! 3) 30],
     accum128 (mm_srli_epi32 (d ! 3) (10 - 8))
       [mm_slli_epi32 (d ! 4) 8, mm_slli_epi32 (d ! 5) 18, mm_slli_epi32 (d ! 6) 28],
     accum128 (mm_srli_epi32 (d ! 6) (10 - 6))
       [mm_slli_epi32 (d ! 7) 6, mm_slli_epi32 (d ! 8) 16, mm_slli_epi32 (d ! 9) 26],
     accum128 (mm_srli_epi32 (d ! 9) (10 - 4))
       [mm_slli_epi32 (d ! 10) 4, mm_slli_epi32 (d ! 11) 14, mm_slli_epi32 (d ! 12) 24],
     accum128 (mm_srli_epi32 (d ! 12) (10 - 2))
       [mm_slli_epi32 (d ! 13) 2, mm_slli_epi32 (d ! 14) 12, mm_slli_epi32 (d ! 15) 22],
     accum128 (d ! 16)
       [mm_slli_epi32 (d ! 17) 10, mm_slli_epi32 (d ! 18) 20, mm_slli_epi32 (d ! 19) 30],
     accum128 (mm_srli_epi32 (d ! 19) (10 - 8))
       [mm_slli_epi32 (d ! 20) 8, mm_slli_epi32 (d ! 21) 18, mm_slli_epi32 (d ! 22) 28],
     accum128 (mm_srli_epi32 (d ! 22) (10 - 6))
       [mm_slli_epi32 (d ! 23) 6, mm_slli_epi32 (d ! 24) 16, mm_slli_epi32 (d ! 25) 26],
     accum128 (mm_srli_epi32 (d ! 25) (10 - 4))
       [mm_slli_epi32 (d ! 26) 4, mm_slli_epi32 (d ! 27) 14, mm_slli_epi32 (d ! 28) 24],
     accum128 (mm_srli_epi32 (d ! 28) (10 - 2))
       [mm_slli_epi32 (d ! 29) 2, mm_slli_epi32 (d ! 30) 12, mm_slli_epi32 (d ! 31) 22]])"

definition SIMD_fastpack11_32 :: "m128i list \<Rightarrow> m128i list" where
  "SIMD_fastpack11_32 inp =
    (let d = map (\<lambda>x. mm_and_si128 x (mm_set1_epi32 2047)) inp in
    [accum128 (d ! 0)
       [mm_slli_epi32 (d ! 1) 11, mm_slli_epi32 (d ! 2) 22],
     accum128 (mm_srli_epi32 (d ! 2) (11 - 1))
       [mm_slli_epi32 (d ! 3) 1, mm_slli_epi32 (d ! 4) 12, mm_slli_epi32 (d ! 5) 23],
     accum128 (mm_srli_epi32 (d ! 5) (11 - 2))
       [mm_slli_epi32 (d ! 6) 2, mm_slli_epi32 (d ! 7) 13, mm_slli_epi32 (d ! 8) 24],
     accum128 (mm_srli_epi32 (d ! 8) (11 - 3))
       [mm_slli_epi32 (d ! 9) 3, mm_slli_epi32 (d ! 10) 14, mm_slli_epi32 (d ! 11) 25],
     accum128 (mm_srli_epi32 (d ! 11) (11 - 4))
       [mm_slli_epi32 (d ! 12) 4, mm_slli_epi32 (d ! 13) 15, mm_slli_epi32 (d ! 14) 26],
     accum128 (mm_srli_epi32 (d ! 14) (11 - 5))
       [mm_slli_epi32 (d ! 15) 5, mm_slli_epi32 (d ! 16) 16, mm_slli_epi32 (d ! 17) 27],
     accum128 (mm_srli_epi32 (d ! 17) (11 - 6))
       [mm_slli_epi32 (d ! 18) 6, mm_slli_epi32 (d ! 19) 17, mm_slli_epi32 (d ! 20) 28],
     accum128 (mm_srli_epi32 (d ! 20) (11 - 7))
       [mm_slli_epi32 (d ! 21) 7, mm_slli_epi32 (d ! 22) 18, mm_slli_epi32 (d ! 23) 29],
     accum128 (mm_srli_epi32 (d ! 23) (11 - 8))
       [mm_slli_epi32 (d ! 24) 8, mm_slli_epi32 (d ! 25) 19, mm_slli_epi32 (d ! 26) 30],
     accum128 (mm_srli_epi32 (d ! 26) (11 - 9))
       [mm_slli_epi32 (d ! 27) 9, mm_slli_epi32 (d ! 28) 20, mm_slli_epi32 (d ! 29) 31],
     accum128 (mm_srli_epi32 (d ! 29) (11 - 10))
       [mm_slli_epi32 (d ! 30) 10, mm_slli_epi32 (d ! 31) 21]])"

definition SIMD_fastpack12_32 :: "m128i list \<Rightarrow> m128i list" where
  "SIMD_fastpack12_32 inp =
    (let d = map (\<lambda>x. mm_and_si128 x (mm_set1_epi32 4095)) inp in
    [accum128 (d ! 0)
       [mm_slli_epi32 (d ! 1) 12, mm_slli_epi32 (d ! 2) 24],
     accum128 (mm_srli_epi32 (d ! 2) (12 - 4))
       [mm_slli_epi32 (d ! 3) 4, mm_slli_epi32 (d ! 4) 16, mm_slli_epi32 (d ! 5) 28],
     accum128 (mm_srli_epi32 (d ! 5) (12 - 8))
       [mm_slli_epi32 (d ! 6) 8, mm_slli_epi32 (d ! 7) 20],
     accum128 (d ! 8)
       [mm_slli_epi32 (d ! 9) 12, mm_slli_epi32 (d ! 10) 24],
     accum128 (mm_srli_epi32 (d ! 10) (12 - 4))
       [mm_slli_epi32 (d ! 11) 4, mm_slli_epi32 (d ! 12) 16, mm_slli_epi32 (d ! 13) 28],
     accum128 (mm_srli_epi32 (d ! 13) (12 - 8))
       [mm_slli_epi32 (d ! 14) 8, mm_slli_epi32 (d ! 15) 20],
     accum128 (d ! 16)
       [mm_slli_epi32 (d ! 17) 12, mm_slli_epi32 (d ! 18) 24],
     accum128 (mm_srli_epi32 (d ! 18) (12 - 4))
       [mm_slli_epi32 (d ! 19) 4, mm_slli_epi32 (d ! 20) 16, mm_slli_epi32 (d ! 21) 28],
     accum128 (mm_srli_epi32 (d ! 21) (12 - 8))
       [mm_slli_epi32 (d ! 22) 8, mm_slli_epi32 (d ! 23) 20],
     accum128 (d ! 24)
       [mm_slli_epi32 (d ! 25) 12, mm_slli_epi32 (d ! 26) 24],
     accum128 (mm_srli_epi32 (d ! 26) (12 - 4))
       [mm_slli_epi32 (d ! 27) 4, mm_slli_epi32 (d ! 28) 16, mm_slli_epi32 (d ! 29) 28],
     accum128 (mm_srli_epi32 (d ! 29) (12 - 8))
       [mm_slli_epi32 (d ! 30) 8, mm_slli_epi32 (d ! 31) 20]])"

definition SIMD_fastpack13_32 :: "m128i list \<Rightarrow> m128i list" where
  "SIMD_fastpack13_32 inp =
    (let d = map (\<lambda>x. mm_and_si128 x (mm_set1_epi32 8191)) inp in
    [accum128 (d ! 0)
       [mm_slli_epi32 (d ! 1) 13, mm_slli_epi32 (d ! 2) 26],
     accum128 (mm_srli_epi32 (d ! 2) (13 - 7))
       [mm_slli_epi32 (d ! 3) 7, mm_slli_epi32 (d ! 4) 20],
     accum128 (mm_srli_epi32 (d ! 4) (13 - 1))
       [mm_slli_epi32 (d ! 5) 1, mm_slli_epi32 (d ! 6) 14, mm_slli_epi32 (d ! 7) 27],
     accum128 (mm_srli_epi32 (d ! 7) (13 - 8))
       [mm_slli_epi32 (d ! 8) 8, mm_slli_epi32 (d ! 9) 21],
     accum128 (mm_srli_epi32 (d ! 9) (13 - 2))
       [mm_slli_epi32 (d ! 10) 2, mm_slli_epi32 (d ! 11) 15, mm_slli_epi32 (d ! 12) 28],
     accum128 (mm_srli_epi32 (d ! 12) (13 - 9))
       [mm_slli_epi32 (d ! 13) 9, mm_slli_epi32 (d ! 14) 22],
     accum128 (mm_srli_epi32 (d ! 14) (13 - 3))
       [mm_slli_epi32 (d ! 15) 3, mm_slli_epi32 (d ! 16) 16, mm_slli_epi32 (d ! 17) 29],
     accum128 (mm_srli_epi32 (d ! 17) (13 - 10))
       [mm_slli_epi32 (d ! 18) 10, mm_slli_epi32 (d ! 19) 23],
     accum128 (mm_srli_epi32 (d ! 19) (13 - 4))
       [mm_slli_epi32 (d ! 20) 4, mm_slli_epi32 (d ! 21) 17, mm_slli_epi32 (d ! 22) 30],
     accum128 (mm_srli_epi32 (d ! 22) (13 - 11))
       [mm_slli_epi32 (d ! 23) 11, mm_slli_epi32 (d ! 24) 24],
     accum128 (mm_srli_epi32 (d ! 24) (13 - 5))
       [mm_slli_epi32 (d ! 25) 5, mm_slli_epi32 (d ! 26) 18, mm_slli_epi32 (d ! 27) 31],
     accum128 (mm_srli_epi32 (d ! 27) (13 - 12))
       [mm_slli_epi32 (d ! 28) 12, mm_slli_epi32 (d ! 29) 25],
     accum128 (mm_srli_epi32 (d ! 29) (13 - 6))
       [mm_slli_epi32 (d ! 30) 6, mm_slli_epi32 (d ! 31) 19]])"

definition SIMD_fastpack14_32 :: "m128i list \<Rightarrow> m128i list" where
  "SIMD_fastpack14_32 inp =
    (let d = map (\<lambda>x. mm_and_si128 x (mm_set1_epi32 16383)) inp in
    [accum128 (d ! 0)
       [mm_slli_epi32 (d ! 1) 14, mm_slli_epi32 (d ! 2) 28],
     accum128 (mm_srli_epi32 (d ! 2) (14 - 10))
       [mm_slli_epi32 (d ! 3) 10, mm_slli_epi32 (d ! 4) 24],
     accum128 (mm_srli_epi32 (d ! 4) (14 - 6))
       [mm_slli_epi32 (d ! 5) 6, mm_slli_epi32 (d ! 6) 20],
     accum128 (mm_srli_epi32 (d ! 6) (14 - 2))
       [mm_slli_epi32 (d ! 7) 2, mm_slli_epi32 (d ! 8) 16, mm_slli_epi32 (d ! 9) 30],
     accum128 (mm_srli_epi32 (d ! 9) (14 - 12))
       [mm_slli_epi32 (d ! 10) 12, mm_slli_epi32 (d ! 11) 26],
     accum128 (mm_srli_epi32 (d ! 11) (14 - 8))
       [mm_slli_epi32 (d ! 12) 8, mm_slli_epi32 (d ! 13) 22],
     accum128 (mm_srli_epi32 (d ! 13) (14 - 4))
       [mm_slli_epi32 (d ! 14) 4, mm_slli_epi32 (d ! 15) 18],
     accum128 (d ! 16)
       [mm_slli_epi32 (d ! 17) 14, mm_slli_epi32 (d ! 18) 28],
     accum128 (mm_srli_epi32 (d ! 18) (14 - 10))
       [mm_slli_epi32 (d ! 19) 10, mm_slli_epi32 (d ! 20) 24],
     accum128 (mm_srli_epi32 (d ! 20) (14 - 6))
       [mm_slli_epi32 (d ! 21) 6, mm_slli_epi32 (d ! 22) 20],
     accum128 (mm_srli_epi32 (d ! 22) (14 - 2))
       [mm_slli_epi32 (d ! 23) 2, mm_slli_epi32 (d ! 24) 16, mm_slli_epi32 (d ! 25) 30],
     accum128 (mm_srli_epi32 (d ! 25) (14 - 12))
       [mm_slli_epi32 (d ! 26) 12, mm_slli_epi32 (d ! 27) 26],
     accum128 (mm_srli_epi32 (d ! 27) (14 - 8))
       [mm_slli_epi32 (d ! 28) 8, mm_slli_epi32 (d ! 29) 22],
     accum128 (mm_srli_epi32 (d ! 29) (14 - 4))
       [mm_slli_epi32 (d ! 30) 4, mm_slli_epi32 (d ! 31) 18]])"

definition SIMD_fastpack15_32 :: "m128i list \<Rightarrow> m128i list" where
  "SIMD_fastpack15_32 inp =
    (let d = map (\<lambda>x. mm_and_si128 x (mm_set1_epi32 32767)) inp in
    [accum128 (d ! 0)
       [mm_slli_epi32 (d ! 1) 15, mm_slli_epi32 (d ! 2) 30],
     accum128 (mm_srli_epi32 (d ! 2) (15 - 13))
       [mm_slli_epi32 (d ! 3) 13, mm_slli_epi32 (d ! 4) 28],
     accum128 (mm_srli_epi32 (d ! 4) (15 - 11))
       [mm_slli_epi32 (d ! 5) 11, mm_slli_epi32 (d ! 6) 26],
     accum128 (mm_srli_epi32 (d ! 6) (15 - 9))
       [mm_slli_epi32 (d ! 7) 9, mm_slli_epi32 (d ! 8) 24],
     accum128 (mm_srli_epi32 (d ! 8) (15 - 7))
       [mm_slli_epi32 (d ! 9) 7, mm_slli_epi32 (d ! 10) 22],
     accum128 (mm_srli_epi32 (d ! 10) (15 - 5))
       [mm_slli_epi32 (d ! 11) 5, mm_slli_epi32 (d ! 12) 20],
     accum128 (mm_srli_epi32 (d ! 12) (15 - 3))
       [mm_slli_epi32 (d ! 13) 3, mm_slli_epi32 (d ! 14) 18],
     accum128 (mm_srli_epi32 (d ! 14) (15 - 1))
       [mm_slli_epi32 (d ! 15) 1, mm_slli_epi32 (d ! 16) 16, mm_slli_epi32 (d ! 17) 31],
     accum128 (mm_srli_epi32 (d ! 17) (15 - 14))
       [mm_slli_epi32 (d ! 18) 14, mm_slli_epi32 (d ! 19) 29],
     accum128 (mm_srli_epi32 (d ! 19) (15 - 12))
       [mm_slli_epi32 (d ! 20) 12, mm_slli_epi32 (d ! 21) 27],
     accum128 (mm_srli_epi32 (d ! 21) (15 - 10))
       [mm_slli_epi32 (d ! 22) 10, mm_slli_epi32 (d ! 23) 25],
     accum128 (mm_srli_epi32 (d ! 23) (15 - 8))
       [mm_slli_epi32 (d ! 24) 8, mm_slli_epi32 (d ! 25) 23],
     accum128 (mm_srli_epi32 (d ! 25) (15 - 6))
       [mm_slli_epi32 (d ! 26) 6, mm_slli_epi32 (d ! 27) 21],
     accum128 (mm_srli_epi32 (d ! 27) (15 - 4))
       [mm_slli_epi32 (d ! 28) 4, mm_slli_epi32 (d ! 29) 19],
     accum128 (mm_srli_epi32 (d ! 29) (15 - 2))
       [mm_slli_epi32 (d ! 30) 2, mm_slli_epi32 (d ! 31) 17]])"

definition SIMD_fastpack16_32 :: "m128i list \<Rightarrow> m128i list" where
  "SIMD_fastpack16_32 inp =
    (let d = map (\<lambda>x. mm_and_si128 x (mm_set1_epi32 65535)) inp in
    concat (map (\<lambda>outer.
     [accum128 (d ! (2 * outer))
       [mm_slli_epi32 (d ! (2 * outer + 1)) 16]])
     [0..<16]))"

definition SIMD_fastpack17_32 :: "m128i list \<Rightarrow> m128i list" where
  "SIMD_fastpack17_32 inp =
    (let d = map (\<lambda>x. mm_and_si128 x (mm_set1_epi32 131071)) inp in
    [accum128 (d ! 0)
       [mm_slli_epi32 (d ! 1) 17],
     accum128 (mm_srli_epi32 (d ! 1) (17 - 2))
       [mm_slli_epi32 (d ! 2) 2, mm_slli_epi32 (d ! 3) 19],
     accum128 (mm_srli_epi32 (d ! 3) (17 - 4))
       [mm_slli_epi32 (d ! 4) 4, mm_slli_epi32 (d ! 5) 21],
     accum128 (mm_srli_epi32 (d ! 5) (17 - 6))
       [mm_slli_epi32 (d ! 6) 6, mm_slli_epi32 (d ! 7) 23],
     accum128 (mm_srli_epi32 (d ! 7) (17 - 8))
       [mm_slli_epi32 (d ! 8) 8, mm_slli_epi32 (d ! 9) 25],
     accum128 (mm_srli_epi32 (d ! 9) (17 - 10))
       [mm_slli_epi32 (d ! 10) 10, mm_slli_epi32 (d ! 11) 27],
     accum128 (mm_srli_epi32 (d ! 11) (17 - 12))
       [mm_slli_epi32 (d ! 12) 12, mm_slli_epi32 (d ! 13) 29],
     accum128 (mm_srli_epi32 (d ! 13) (17 - 14))
       [mm_slli_epi32 (d ! 14) 14, mm_slli_epi32 (d ! 15) 31],
     accum128 (mm_srli_epi32 (d ! 15) (17 - 16))
       [mm_slli_epi32 (d ! 16) 16],
     accum128 (mm_srli_epi32 (d ! 16) (17 - 1))
       [mm_slli_epi32 (d ! 17) 1, mm_slli_epi32 (d ! 18) 18],
     accum128 (mm_srli_epi32 (d ! 18) (17 - 3))
       [mm_slli_epi32 (d ! 19) 3, mm_slli_epi32 (d ! 20) 20],
     accum128 (mm_srli_epi32 (d ! 20) (17 - 5))
       [mm_slli_epi32 (d ! 21) 5, mm_slli_epi32 (d ! 22) 22],
     accum128 (mm_srli_epi32 (d ! 22) (17 - 7))
       [mm_slli_epi32 (d ! 23) 7, mm_slli_epi32 (d ! 24) 24],
     accum128 (mm_srli_epi32 (d ! 24) (17 - 9))
       [mm_slli_epi32 (d ! 25) 9, mm_slli_epi32 (d ! 26) 26],
     accum128 (mm_srli_epi32 (d ! 26) (17 - 11))
       [mm_slli_epi32 (d ! 27) 11, mm_slli_epi32 (d ! 28) 28],
     accum128 (mm_srli_epi32 (d ! 28) (17 - 13))
       [mm_slli_epi32 (d ! 29) 13, mm_slli_epi32 (d ! 30) 30],
     accum128 (mm_srli_epi32 (d ! 30) (17 - 15))
       [mm_slli_epi32 (d ! 31) 15]])"

definition SIMD_fastpack18_32 :: "m128i list \<Rightarrow> m128i list" where
  "SIMD_fastpack18_32 inp =
    (let d = map (\<lambda>x. mm_and_si128 x (mm_set1_epi32 262143)) inp in
    [accum128 (d ! 0)
       [mm_slli_epi32 (d ! 1) 18],
     accum128 (mm_srli_epi32 (d ! 1) (18 - 4))
       [mm_slli_epi32 (d ! 2) 4, mm_slli_epi32 (d ! 3) 22],
     accum128 (mm_srli_epi32 (d ! 3) (18 - 8))
       [mm_slli_epi32 (d ! 4) 8, mm_slli_epi32 (d ! 5) 26],
     accum128 (mm_srli_epi32 (d ! 5) (18 - 12))
       [mm_slli_epi32 (d ! 6) 12, mm_slli_epi32 (d ! 7) 30],
     accum128 (mm_srli_epi32 (d ! 7) (18 - 16))
       [mm_slli_epi32 (d ! 8) 16],
     accum128 (mm_srli_epi32 (d ! 8) (18 - 2))
       [mm_slli_epi32 (d ! 9) 2, mm_slli_epi32 (d ! 10) 20],
     accum128 (mm_srli_epi32 (d ! 10) (18 - 6))
       [mm_slli_epi32 (d ! 11) 6, mm_slli_epi32 (d ! 12) 24],
     accum128 (mm_srli_epi32 (d ! 12) (18 - 10))
       [mm_slli_epi32 (d ! 13) 10, mm_slli_epi32 (d ! 14) 28],
     accum128 (mm_srli_epi32 (d ! 14) (18 - 14))
       [mm_slli_epi32 (d ! 15) 14],
     accum128 (d ! 16)
       [mm_slli_epi32 (d ! 17) 18],
     accum128 (mm_srli_epi32 (d ! 17) (18 - 4))
       [mm_slli_epi32 (d ! 18) 4, mm_slli_epi32 (d ! 19) 22],
     accum128 (mm_srli_epi32 (d ! 19) (18 - 8))
       [mm_slli_epi32 (d ! 20) 8, mm_slli_epi32 (d ! 21) 26],
     accum128 (mm_srli_epi32 (d ! 21) (18 - 12))
       [mm_slli_epi32 (d ! 22) 12, mm_slli_epi32 (d ! 23) 30],
     accum128 (mm_srli_epi32 (d ! 23) (18 - 16))
       [mm_slli_epi32 (d ! 24) 16],
     accum128 (mm_srli_epi32 (d ! 24) (18 - 2))
       [mm_slli_epi32 (d ! 25) 2, mm_slli_epi32 (d ! 26) 20],
     accum128 (mm_srli_epi32 (d ! 26) (18 - 6))
       [mm_slli_epi32 (d ! 27) 6, mm_slli_epi32 (d ! 28) 24],
     accum128 (mm_srli_epi32 (d ! 28) (18 - 10))
       [mm_slli_epi32 (d ! 29) 10, mm_slli_epi32 (d ! 30) 28],
     accum128 (mm_srli_epi32 (d ! 30) (18 - 14))
       [mm_slli_epi32 (d ! 31) 14]])"

definition SIMD_fastpack19_32 :: "m128i list \<Rightarrow> m128i list" where
  "SIMD_fastpack19_32 inp =
    (let d = map (\<lambda>x. mm_and_si128 x (mm_set1_epi32 524287)) inp in
    [accum128 (d ! 0)
       [mm_slli_epi32 (d ! 1) 19],
     accum128 (mm_srli_epi32 (d ! 1) (19 - 6))
       [mm_slli_epi32 (d ! 2) 6, mm_slli_epi32 (d ! 3) 25],
     accum128 (mm_srli_epi32 (d ! 3) (19 - 12))
       [mm_slli_epi32 (d ! 4) 12, mm_slli_epi32 (d ! 5) 31],
     accum128 (mm_srli_epi32 (d ! 5) (19 - 18))
       [mm_slli_epi32 (d ! 6) 18],
     accum128 (mm_srli_epi32 (d ! 6) (19 - 5))
       [mm_slli_epi32 (d ! 7) 5, mm_slli_epi32 (d ! 8) 24],
     accum128 (mm_srli_epi32 (d ! 8) (19 - 11))
       [mm_slli_epi32 (d ! 9) 11, mm_slli_epi32 (d ! 10) 30],
     accum128 (mm_srli_epi32 (d ! 10) (19 - 17))
       [mm_slli_epi32 (d ! 11) 17],
     accum128 (mm_srli_epi32 (d ! 11) (19 - 4))
       [mm_slli_epi32 (d ! 12) 4, mm_slli_epi32 (d ! 13) 23],
     accum128 (mm_srli_epi32 (d ! 13) (19 - 10))
       [mm_slli_epi32 (d ! 14) 10, mm_slli_epi32 (d ! 15) 29],
     accum128 (mm_srli_epi32 (d ! 15) (19 - 16))
       [mm_slli_epi32 (d ! 16) 16],
     accum128 (mm_srli_epi32 (d ! 16) (19 - 3))
       [mm_slli_epi32 (d ! 17) 3, mm_slli_epi32 (d ! 18) 22],
     accum128 (mm_srli_epi32 (d ! 18) (19 - 9))
       [mm_slli_epi32 (d ! 19) 9, mm_slli_epi32 (d ! 20) 28],
     accum128 (mm_srli_epi32 (d ! 20) (19 - 15))
       [mm_slli_epi32 (d ! 21) 15],
     accum128 (mm_srli_epi32 (d ! 21) (19 - 2))
       [mm_slli_epi32 (d ! 22) 2, mm_slli_epi32 (d ! 23) 21],
     accum128 (mm_srli_epi32 (d ! 23) (19 - 8))
       [mm_slli_epi32 (d ! 24) 8, mm_slli_epi32 (d ! 25) 27],
     accum128 (mm_srli_epi32 (d ! 25) (19 - 14))
       [mm_slli_epi32 (d ! 26) 14],
     accum128 (mm_srli_epi32 (d ! 26) (19 - 1))
       [mm_slli_epi32 (d ! 27) 1, mm_slli_epi32 (d ! 28) 20],
     accum128 (mm_srli_epi32 (d ! 28) (19 - 7))
       [mm_slli_epi32 (d ! 29) 7, mm_slli_epi32 (d ! 30) 26],
     accum128 (mm_srli_epi32 (d ! 30) (19 - 13))
       [mm_slli_epi32 (d ! 31) 13]])"

definition SIMD_fastpack20_32 :: "m128i list \<Rightarrow> m128i list" where
  "SIMD_fastpack20_32 inp =
    (let d = map (\<lambda>x. mm_and_si128 x (mm_set1_epi32 1048575)) inp in
    [accum128 (d ! 0)
       [mm_slli_epi32 (d ! 1) 20],
     accum128 (mm_srli_epi32 (d ! 1) (20 - 8))
       [mm_slli_epi32 (d ! 2) 8, mm_slli_epi32 (d ! 3) 28],
     accum128 (mm_srli_epi32 (d ! 3) (20 - 16))
       [mm_slli_epi32 (d ! 4) 16],
     accum128 (mm_srli_epi32 (d ! 4) (20 - 4))
       [mm_slli_epi32 (d ! 5) 4, mm_slli_epi32 (d ! 6) 24],
     accum128 (mm_srli_epi32 (d ! 6) (20 - 12))
       [mm_slli_epi32 (d ! 7) 12],
     accum128 (d ! 8)
       [mm_slli_epi32 (d ! 9) 20],
     accum128 (mm_srli_epi32 (d ! 9) (20 - 8))
       [mm_slli_epi32 (d ! 10) 8, mm_slli_epi32 (d ! 11) 28],
     accum128 (mm_srli_epi32 (d ! 11) (20 - 16))
       [mm_slli_epi32 (d ! 12) 16],
     accum128 (mm_srli_epi32 (d ! 12) (20 - 4))
       [mm_slli_epi32 (d ! 13) 4, mm_slli_epi32 (d ! 14) 24],
     accum128 (mm_srli_epi32 (d ! 14) (20 - 12))
       [mm_slli_epi32 (d ! 15) 12],
     accum128 (d ! 16)
       [mm_slli_epi32 (d ! 17) 20],
     accum128 (mm_srli_epi32 (d ! 17) (20 - 8))
       [mm_slli_epi32 (d ! 18) 8, mm_slli_epi32 (d ! 19) 28],
     accum128 (mm_srli_epi32 (d ! 19) (20 - 16))
       [mm_slli_epi32 (d ! 20) 16],
     accum128 (mm_srli_epi32 (d ! 20) (20 - 4))
       [mm_slli_epi32 (d ! 21) 4, mm_slli_epi32 (d ! 22) 24],
     accum128 (mm_srli_epi32 (d ! 22) (20 - 12))
       [mm_slli_epi32 (d ! 23) 12],
     accum128 (d ! 24)
       [mm_slli_epi32 (d ! 25) 20],
     accum128 (mm_srli_epi32 (d ! 25) (20 - 8))
       [mm_slli_epi32 (d ! 26) 8, mm_slli_epi32 (d ! 27) 28],
     accum128 (mm_srli_epi32 (d ! 27) (20 - 16))
       [mm_slli_epi32 (d ! 28) 16],
     accum128 (mm_srli_epi32 (d ! 28) (20 - 4))
       [mm_slli_epi32 (d ! 29) 4, mm_slli_epi32 (d ! 30) 24],
     accum128 (mm_srli_epi32 (d ! 30) (20 - 12))
       [mm_slli_epi32 (d ! 31) 12]])"

definition SIMD_fastpack21_32 :: "m128i list \<Rightarrow> m128i list" where
  "SIMD_fastpack21_32 inp =
    (let d = map (\<lambda>x. mm_and_si128 x (mm_set1_epi32 2097151)) inp in
    [accum128 (d ! 0)
       [mm_slli_epi32 (d ! 1) 21],
     accum128 (mm_srli_epi32 (d ! 1) (21 - 10))
       [mm_slli_epi32 (d ! 2) 10, mm_slli_epi32 (d ! 3) 31],
     accum128 (mm_srli_epi32 (d ! 3) (21 - 20))
       [mm_slli_epi32 (d ! 4) 20],
     accum128 (mm_srli_epi32 (d ! 4) (21 - 9))
       [mm_slli_epi32 (d ! 5) 9, mm_slli_epi32 (d ! 6) 30],
     accum128 (mm_srli_epi32 (d ! 6) (21 - 19))
       [mm_slli_epi32 (d ! 7) 19],
     accum128 (mm_srli_epi32 (d ! 7) (21 - 8))
       [mm_slli_epi32 (d ! 8) 8, mm_slli_epi32 (d ! 9) 29],
     accum128 (mm_srli_epi32 (d ! 9) (21 - 18))
       [mm_slli_epi32 (d ! 10) 18],
     accum128 (mm_srli_epi32 (d ! 10) (21 - 7))
       [mm_slli_epi32 (d ! 11) 7, mm_slli_epi32 (d ! 12) 28],
     accum128 (mm_srli_epi32 (d ! 12) (21 - 17))
       [mm_slli_epi32 (d ! 13) 17],
     accum128 (mm_srli_epi32 (d ! 13) (21 - 6))
       [mm_slli_epi32 (d ! 14) 6, mm_slli_epi32 (d ! 15) 27],
     accum128 (mm_srli_epi32 (d ! 15) (21 - 16))
       [mm_slli_epi32 (d ! 16) 16],
     accum128 (mm_srli_epi32 (d ! 16) (21 - 5))
       [mm_slli_epi32 (d ! 17) 5, mm_slli_epi32 (d ! 18) 26],
     accum128 (mm_srli_epi32 (d ! 18) (21 - 15))
       [mm_slli_epi32 (d ! 19) 15],
     accum128 (mm_srli_epi32 (d ! 19) (21 - 4))
       [mm_slli_epi32 (d ! 20) 4, mm_slli_epi32 (d ! 21) 25],
     accum128 (mm_srli_epi32 (d ! 21) (21 - 14))
       [mm_slli_epi32 (d ! 22) 14],
     accum128 (mm_srli_epi32 (d ! 22) (21 - 3))
       [mm_slli_epi32 (d ! 23) 3, mm_slli_epi32 (d ! 24) 24],
     accum128 (mm_srli_epi32 (d ! 24) (21 - 13))
       [mm_slli_epi32 (d ! 25) 13],
     accum128 (mm_srli_epi32 (d ! 25) (21 - 2))
       [mm_slli_epi32 (d ! 26) 2, mm_slli_epi32 (d ! 27) 23],
     accum128 (mm_srli_epi32 (d ! 27) (21 - 12))
       [mm_slli_epi32 (d ! 28) 12],
     accum128 (mm_srli_epi32 (d ! 28) (21 - 1))
       [mm_slli_epi32 (d ! 29) 1, mm_slli_epi32 (d ! 30) 22],
     accum128 (mm_srli_epi32 (d ! 30) (21 - 11))
       [mm_slli_epi32 (d ! 31) 11]])"

definition SIMD_fastpack22_32 :: "m128i list \<Rightarrow> m128i list" where
  "SIMD_fastpack22_32 inp =
    (let d = map (\<lambda>x. mm_and_si128 x (mm_set1_epi32 4194303)) inp in
    [accum128 (d ! 0)
       [mm_slli_epi32 (d ! 1) 22],
     accum128 (mm_srli_epi32 (d ! 1) (22 - 12))
       [mm_slli_epi32 (d ! 2) 12],
     accum128 (mm_srli_epi32 (d ! 2) (22 - 2))
       [mm_slli_epi32 (d ! 3) 2, mm_slli_epi32 (d ! 4) 24],
     accum128 (mm_srli_epi32 (d ! 4) (22 - 14))
       [mm_slli_epi32 (d ! 5) 14],
     accum128 (mm_srli_epi32 (d ! 5) (22 - 4))
       [mm_slli_epi32 (d ! 6) 4, mm_slli_epi32 (d ! 7) 26],
     accum128 (mm_srli_epi32 (d ! 7) (22 - 16))
       [mm_slli_epi32 (d ! 8) 16],
     accum128 (mm_srli_epi32 (d ! 8) (22 - 6))
       [mm_slli_epi32 (d ! 9) 6, mm_slli_epi32 (d ! 10) 28],
     accum128 (mm_srli_epi32 (d ! 10) (22 - 18))
       [mm_slli_epi32 (d ! 11) 18],
     accum128 (mm_srli_epi32 (d ! 11) (22 - 8))
       [mm_slli_epi32 (d ! 12) 8, mm_slli_epi32 (d ! 13) 30],
     accum128 (mm_srli_epi32 (d ! 13) (22 - 20))
       [mm_slli_epi32 (d ! 14) 20],
     accum128 (mm_srli_epi32 (d ! 14) (22 - 10))
       [mm_slli_epi32 (d ! 15) 10],
     accum128 (d ! 16)
       [mm_slli_epi32 (d ! 17) 22],
     accum128 (mm_srli_epi32 (d ! 17) (22 - 12))
       [mm_slli_epi32 (d ! 18) 12],
     accum128 (mm_srli_epi32 (d ! 18) (22 - 2))
       [mm_slli_epi32 (d ! 19) 2, mm_slli_epi32 (d ! 20) 24],
     accum128 (mm_srli_epi32 (d ! 20) (22 - 14))
       [mm_slli_epi32 (d ! 21) 14],
     accum128 (mm_srli_epi32 (d ! 21) (22 - 4))
       [mm_slli_epi32 (d ! 22) 4, mm_slli_epi32 (d ! 23) 26],
     accum128 (mm_srli_epi32 (d ! 23) (22 - 16))
       [mm_slli_epi32 (d ! 24) 16],
     accum128 (mm_srli_epi32 (d ! 24) (22 - 6))
       [mm_slli_epi32 (d ! 25) 6, mm_slli_epi32 (d ! 26) 28],
     accum128 (mm_srli_epi32 (d ! 26) (22 - 18))
       [mm_slli_epi32 (d ! 27) 18],
     accum128 (mm_srli_epi32 (d ! 27) (22 - 8))
       [mm_slli_epi32 (d ! 28) 8, mm_slli_epi32 (d ! 29) 30],
     accum128 (mm_srli_epi32 (d ! 29) (22 - 20))
       [mm_slli_epi32 (d ! 30) 20],
     accum128 (mm_srli_epi32 (d ! 30) (22 - 10))
       [mm_slli_epi32 (d ! 31) 10]])"

definition SIMD_fastpack23_32 :: "m128i list \<Rightarrow> m128i list" where
  "SIMD_fastpack23_32 inp =
    (let d = map (\<lambda>x. mm_and_si128 x (mm_set1_epi32 8388607)) inp in
    [accum128 (d ! 0)
       [mm_slli_epi32 (d ! 1) 23],
     accum128 (mm_srli_epi32 (d ! 1) (23 - 14))
       [mm_slli_epi32 (d ! 2) 14],
     accum128 (mm_srli_epi32 (d ! 2) (23 - 5))
       [mm_slli_epi32 (d ! 3) 5, mm_slli_epi32 (d ! 4) 28],
     accum128 (mm_srli_epi32 (d ! 4) (23 - 19))
       [mm_slli_epi32 (d ! 5) 19],
     accum128 (mm_srli_epi32 (d ! 5) (23 - 10))
       [mm_slli_epi32 (d ! 6) 10],
     accum128 (mm_srli_epi32 (d ! 6) (23 - 1))
       [mm_slli_epi32 (d ! 7) 1, mm_slli_epi32 (d ! 8) 24],
     accum128 (mm_srli_epi32 (d ! 8) (23 - 15))
       [mm_slli_epi32 (d ! 9) 15],
     accum128 (mm_srli_epi32 (d ! 9) (23 - 6))
       [mm_slli_epi32 (d ! 10) 6, mm_slli_epi32 (d ! 11) 29],
     accum128 (mm_srli_epi32 (d ! 11) (23 - 20))
       [mm_slli_epi32 (d ! 12) 20],
     accum128 (mm_srli_epi32 (d ! 12) (23 - 11))
       [mm_slli_epi32 (d ! 13) 11],
     accum128 (mm_srli_epi32 (d ! 13) (23 - 2))
       [mm_slli_epi32 (d ! 14) 2, mm_slli_epi32 (d ! 15) 25],
     accum128 (mm_srli_epi32 (d ! 15) (23 - 16))
       [mm_slli_epi32 (d ! 16) 16],
     accum128 (mm_srli_epi32 (d ! 16) (23 - 7))
       [mm_slli_epi32 (d ! 17) 7, mm_slli_epi32 (d ! 18) 30],
     accum128 (mm_srli_epi32 (d ! 18) (23 - 21))
       [mm_slli_epi32 (d ! 19) 21],
     accum128 (mm_srli_epi32 (d ! 19) (23 - 12))
       [mm_slli_epi32 (d ! 20) 12],
     accum128 (mm_srli_epi32 (d ! 20) (23 - 3))
       [mm_slli_epi32 (d ! 21) 3, mm_slli_epi32 (d ! 22) 26],
     accum128 (mm_srli_epi32 (d ! 22) (23 - 17))
       [mm_slli_epi32 (d ! 23) 17],
     accum128 (mm_srli_epi32 (d ! 23) (23 - 8))
       [mm_slli_epi32 (d ! 24) 8, mm_slli_epi32 (d ! 25) 31],
     accum128 (mm_srli_epi32 (d ! 25) (23 - 22))
       [mm_slli_epi32 (d ! 26) 22],
     accum128 (mm_srli_epi32 (d ! 26) (23 - 13))
       [mm_slli_epi32 (d ! 27) 13],
     accum128 (mm_srli_epi32 (d ! 27) (23 - 4))
       [mm_slli_epi32 (d ! 28) 4, mm_slli_epi32 (d ! 29) 27],
     accum128 (mm_srli_epi32 (d ! 29) (23 - 18))
       [mm_slli_epi32 (d ! 30) 18],
     accum128 (mm_srli_epi32 (d ! 30) (23 - 9))
       [mm_slli_epi32 (d ! 31) 9]])"

definition SIMD_fastpack24_32 :: "m128i list \<Rightarrow> m128i list" where
  "SIMD_fastpack24_32 inp =
    (let d = map (\<lambda>x. mm_and_si128 x (mm_set1_epi32 16777215)) inp in
    [accum128 (d ! 0)
       [mm_slli_epi32 (d ! 1) 24],
     accum128 (mm_srli_epi32 (d ! 1) (24 - 16))
       [mm_slli_epi32 (d ! 2) 16],
     accum128 (mm_srli_epi32 (d ! 2) (24 - 8))
       [mm_slli_epi32 (d ! 3) 8],
     accum128 (d ! 4)
       [mm_slli_epi32 (d ! 5) 24],
     accum128 (mm_srli_epi32 (d ! 5) (24 - 16))
       [mm_slli_epi32 (d ! 6) 16],
     accum128 (mm_srli_epi32 (d ! 6) (24 - 8))
       [mm_slli_epi32 (d ! 7) 8],
     accum128 (d ! 8)
       [mm_slli_epi32 (d ! 9) 24],
     accum128 (mm_srli_epi32 (d ! 9) (24 - 16))
       [mm_slli_epi32 (d ! 10) 16],
     accum128 (mm_srli_epi32 (d ! 10) (24 - 8))
       [mm_slli_epi32 (d ! 11) 8],
     accum128 (d ! 12)
       [mm_slli_epi32 (d ! 13) 24],
     accum128 (mm_srli_epi32 (d ! 13) (24 - 16))
       [mm_slli_epi32 (d ! 14) 16],
     accum128 (mm_srli_epi32 (d ! 14) (24 - 8))
       [mm_slli_epi32 (d ! 15) 8],
     accum128 (d ! 16)
       [mm_slli_epi32 (d ! 17) 24],
     accum128 (mm_srli_epi32 (d ! 17) (24 - 16))
       [mm_slli_epi32 (d ! 18) 16],
     accum128 (mm_srli_epi32 (d ! 18) (24 - 8))
       [mm_slli_epi32 (d ! 19) 8],
     accum128 (d ! 20)
       [mm_slli_epi32 (d ! 21) 24],
     accum128 (mm_srli_epi32 (d ! 21) (24 - 16))
       [mm_slli_epi32 (d ! 22) 16],
     accum128 (mm_srli_epi32 (d ! 22) (24 - 8))
       [mm_slli_epi32 (d ! 23) 8],
     accum128 (d ! 24)
       [mm_slli_epi32 (d ! 25) 24],
     accum128 (mm_srli_epi32 (d ! 25) (24 - 16))
       [mm_slli_epi32 (d ! 26) 16],
     accum128 (mm_srli_epi32 (d ! 26) (24 - 8))
       [mm_slli_epi32 (d ! 27) 8],
     accum128 (d ! 28)
       [mm_slli_epi32 (d ! 29) 24],
     accum128 (mm_srli_epi32 (d ! 29) (24 - 16))
       [mm_slli_epi32 (d ! 30) 16],
     accum128 (mm_srli_epi32 (d ! 30) (24 - 8))
       [mm_slli_epi32 (d ! 31) 8]])"

definition SIMD_fastpack25_32 :: "m128i list \<Rightarrow> m128i list" where
  "SIMD_fastpack25_32 inp =
    (let d = map (\<lambda>x. mm_and_si128 x (mm_set1_epi32 33554431)) inp in
    [accum128 (d ! 0)
       [mm_slli_epi32 (d ! 1) 25],
     accum128 (mm_srli_epi32 (d ! 1) (25 - 18))
       [mm_slli_epi32 (d ! 2) 18],
     accum128 (mm_srli_epi32 (d ! 2) (25 - 11))
       [mm_slli_epi32 (d ! 3) 11],
     accum128 (mm_srli_epi32 (d ! 3) (25 - 4))
       [mm_slli_epi32 (d ! 4) 4, mm_slli_epi32 (d ! 5) 29],
     accum128 (mm_srli_epi32 (d ! 5) (25 - 22))
       [mm_slli_epi32 (d ! 6) 22],
     accum128 (mm_srli_epi32 (d ! 6) (25 - 15))
       [mm_slli_epi32 (d ! 7) 15],
     accum128 (mm_srli_epi32 (d ! 7) (25 - 8))
       [mm_slli_epi32 (d ! 8) 8],
     accum128 (mm_srli_epi32 (d ! 8) (25 - 1))
       [mm_slli_epi32 (d ! 9) 1, mm_slli_epi32 (d ! 10) 26],
     accum128 (mm_srli_epi32 (d ! 10) (25 - 19))
       [mm_slli_epi32 (d ! 11) 19],
     accum128 (mm_srli_epi32 (d ! 11) (25 - 12))
       [mm_slli_epi32 (d ! 12) 12],
     accum128 (mm_srli_epi32 (d ! 12) (25 - 5))
       [mm_slli_epi32 (d ! 13) 5, mm_slli_epi32 (d ! 14) 30],
     accum128 (mm_srli_epi32 (d ! 14) (25 - 23))
       [mm_slli_epi32 (d ! 15) 23],
     accum128 (mm_srli_epi32 (d ! 15) (25 - 16))
       [mm_slli_epi32 (d ! 16) 16],
     accum128 (mm_srli_epi32 (d ! 16) (25 - 9))
       [mm_slli_epi32 (d ! 17) 9],
     accum128 (mm_srli_epi32 (d ! 17) (25 - 2))
       [mm_slli_epi32 (d ! 18) 2, mm_slli_epi32 (d ! 19) 27],
     accum128 (mm_srli_epi32 (d ! 19) (25 - 20))
       [mm_slli_epi32 (d ! 20) 20],
     accum128 (mm_srli_epi32 (d ! 20) (25 - 13))
       [mm_slli_epi32 (d ! 21) 13],
     accum128 (mm_srli_epi32 (d ! 21) (25 - 6))
       [mm_slli_epi32 (d ! 22) 6, mm_slli_epi32 (d ! 23) 31],
     accum128 (mm_srli_epi32 (d ! 23) (25 - 24))
       [mm_slli_epi32 (d ! 24) 24],
     accum128 (mm_srli_epi32 (d ! 24) (25 - 17))
       [mm_slli_epi32 (d ! 25) 17],
     accum128 (mm_srli_epi32 (d ! 25) (25 - 10))
       [mm_slli_epi32 (d ! 26) 10],
     accum128 (mm_srli_epi32 (d ! 26) (25 - 3))
       [mm_slli_epi32 (d ! 27) 3, mm_slli_epi32 (d ! 28) 28],
     accum128 (mm_srli_epi32 (d ! 28) (25 - 21))
       [mm_slli_epi32 (d ! 29) 21],
     accum128 (mm_srli_epi32 (d ! 29) (25 - 14))
       [mm_slli_epi32 (d ! 30) 14],
     accum128 (mm_srli_epi32 (d ! 30) (25 - 7))
       [mm_slli_epi32 (d ! 31) 7]])"

definition SIMD_fastpack26_32 :: "m128i list \<Rightarrow> m128i list" where
  "SIMD_fastpack26_32 inp =
    (let d = map (\<lambda>x. mm_and_si128 x (mm_set1_epi32 67108863)) inp in
    [accum128 (d ! 0)
       [mm_slli_epi32 (d ! 1) 26],
     accum128 (mm_srli_epi32 (d ! 1) (26 - 20))
       [mm_slli_epi32 (d ! 2) 20],
     accum128 (mm_srli_epi32 (d ! 2) (26 - 14))
       [mm_slli_epi32 (d ! 3) 14],
     accum128 (mm_srli_epi32 (d ! 3) (26 - 8))
       [mm_slli_epi32 (d ! 4) 8],
     accum128 (mm_srli_epi32 (d ! 4) (26 - 2))
       [mm_slli_epi32 (d ! 5) 2, mm_slli_epi32 (d ! 6) 28],
     accum128 (mm_srli_epi32 (d ! 6) (26 - 22))
       [mm_slli_epi32 (d ! 7) 22],
     accum128 (mm_srli_epi32 (d ! 7) (26 - 16))
       [mm_slli_epi32 (d ! 8) 16],
     accum128 (mm_srli_epi32 (d ! 8) (26 - 10))
       [mm_slli_epi32 (d ! 9) 10],
     accum128 (mm_srli_epi32 (d ! 9) (26 - 4))
       [mm_slli_epi32 (d ! 10) 4, mm_slli_epi32 (d ! 11) 30],
     accum128 (mm_srli_epi32 (d ! 11) (26 - 24))
       [mm_slli_epi32 (d ! 12) 24],
     accum128 (mm_srli_epi32 (d ! 12) (26 - 18))
       [mm_slli_epi32 (d ! 13) 18],
     accum128 (mm_srli_epi32 (d ! 13) (26 - 12))
       [mm_slli_epi32 (d ! 14) 12],
     accum128 (mm_srli_epi32 (d ! 14) (26 - 6))
       [mm_slli_epi32 (d ! 15) 6],
     accum128 (d ! 16)
       [mm_slli_epi32 (d ! 17) 26],
     accum128 (mm_srli_epi32 (d ! 17) (26 - 20))
       [mm_slli_epi32 (d ! 18) 20],
     accum128 (mm_srli_epi32 (d ! 18) (26 - 14))
       [mm_slli_epi32 (d ! 19) 14],
     accum128 (mm_srli_epi32 (d ! 19) (26 - 8))
       [mm_slli_epi32 (d ! 20) 8],
     accum128 (mm_srli_epi32 (d ! 20) (26 - 2))
       [mm_slli_epi32 (d ! 21) 2, mm_slli_epi32 (d ! 22) 28],
     accum128 (mm_srli_epi32 (d ! 22) (26 - 22))
       [mm_slli_epi32 (d ! 23) 22],
     accum128 (mm_srli_epi32 (d ! 23) (26 - 16))
       [mm_slli_epi32 (d ! 24) 16],
     accum128 (mm_srli_epi32 (d ! 24) (26 - 10))
       [mm_slli_epi32 (d ! 25) 10],
     accum128 (mm_srli_epi32 (d ! 25) (26 - 4))
       [mm_slli_epi32 (d ! 26) 4, mm_slli_epi32 (d ! 27) 30],
     accum128 (mm_srli_epi32 (d ! 27) (26 - 24))
       [mm_slli_epi32 (d ! 28) 24],
     accum128 (mm_srli_epi32 (d ! 28) (26 - 18))
       [mm_slli_epi32 (d ! 29) 18],
     accum128 (mm_srli_epi32 (d ! 29) (26 - 12))
       [mm_slli_epi32 (d ! 30) 12],
     accum128 (mm_srli_epi32 (d ! 30) (26 - 6))
       [mm_slli_epi32 (d ! 31) 6]])"

definition SIMD_fastpack27_32 :: "m128i list \<Rightarrow> m128i list" where
  "SIMD_fastpack27_32 inp =
    (let d = map (\<lambda>x. mm_and_si128 x (mm_set1_epi32 134217727)) inp in
    [accum128 (d ! 0)
       [mm_slli_epi32 (d ! 1) 27],
     accum128 (mm_srli_epi32 (d ! 1) (27 - 22))
       [mm_slli_epi32 (d ! 2) 22],
     accum128 (mm_srli_epi32 (d ! 2) (27 - 17))
       [mm_slli_epi32 (d ! 3) 17],
     accum128 (mm_srli_epi32 (d ! 3) (27 - 12))
       [mm_slli_epi32 (d ! 4) 12],
     accum128 (mm_srli_epi32 (d ! 4) (27 - 7))
       [mm_slli_epi32 (d ! 5) 7],
     accum128 (mm_srli_epi32 (d ! 5) (27 - 2))
       [mm_slli_epi32 (d ! 6) 2, mm_slli_epi32 (d ! 7) 29],
     accum128 (mm_srli_epi32 (d ! 7) (27 - 24))
       [mm_slli_epi32 (d ! 8) 24],
     accum128 (mm_srli_epi32 (d ! 8) (27 - 19))
       [mm_slli_epi32 (d ! 9) 19],
     accum128 (mm_srli_epi32 (d ! 9) (27 - 14))
       [mm_slli_epi32 (d ! 10) 14],
     accum128 (mm_srli_epi32 (d ! 10) (27 - 9))
       [mm_slli_epi32 (d ! 11) 9],
     accum128 (mm_srli_epi32 (d ! 11) (27 - 4))
       [mm_slli_epi32 (d ! 12) 4, mm_slli_epi32 (d ! 13) 31],
     accum128 (mm_srli_epi32 (d ! 13) (27 - 26))
       [mm_slli_epi32 (d ! 14) 26],
     accum128 (mm_srli_epi32 (d ! 14) (27 - 21))
       [mm_slli_epi32 (d ! 15) 21],
     accum128 (mm_srli_epi32 (d ! 15) (27 - 16))
       [mm_slli_epi32 (d ! 16) 16],
     accum128 (mm_srli_epi32 (d ! 16) (27 - 11))
       [mm_slli_epi32 (d ! 17) 11],
     accum128 (mm_srli_epi32 (d ! 17) (27 - 6))
       [mm_slli_epi32 (d ! 18) 6],
     accum128 (mm_srli_epi32 (d ! 18) (27 - 1))
       [mm_slli_epi32 (d ! 19) 1, mm_slli_epi32 (d ! 20) 28],
     accum128 (mm_srli_epi32 (d ! 20) (27 - 23))
       [mm_slli_epi32 (d ! 21) 23],
     accum128 (mm_srli_epi32 (d ! 21) (27 - 18))
       [mm_slli_epi32 (d ! 22) 18],
     accum128 (mm_srli_epi32 (d ! 22) (27 - 13))
       [mm_slli_epi32 (d ! 23) 13],
     accum128 (mm_srli_epi32 (d ! 23) (27 - 8))
       [mm_slli_epi32 (d ! 24) 8],
     accum128 (mm_srli_epi32 (d ! 24) (27 - 3))
       [mm_slli_epi32 (d ! 25) 3, mm_slli_epi32 (d ! 26) 30],
     accum128 (mm_srli_epi32 (d ! 26) (27 - 25))
       [mm_slli_epi32 (d ! 27) 25],
     accum128 (mm_srli_epi32 (d ! 27) (27 - 20))
       [mm_slli_epi32 (d ! 28) 20],
     accum128 (mm_srli_epi32 (d ! 28) (27 - 15))
       [mm_slli_epi32 (d ! 29) 15],
     accum128 (mm_srli_epi32 (d ! 29) (27 - 10))
       [mm_slli_epi32 (d ! 30) 10],
     accum128 (mm_srli_epi32 (d ! 30) (27 - 5))
       [mm_slli_epi32 (d ! 31) 5]])"

definition SIMD_fastpack28_32 :: "m128i list \<Rightarrow> m128i list" where
  "SIMD_fastpack28_32 inp =
    (let d = map (\<lambda>x. mm_and_si128 x (mm_set1_epi32 268435455)) inp in
    [accum128 (d ! 0)
       [mm_slli_epi32 (d ! 1) 28],
     accum128 (mm_srli_epi32 (d ! 1) (28 - 24))
       [mm_slli_epi32 (d ! 2) 24],
     accum128 (mm_srli_epi32 (d ! 2) (28 - 20))
       [mm_slli_epi32 (d ! 3) 20],
     accum128 (mm_srli_epi32 (d ! 3) (28 - 16))
       [mm_slli_epi32 (d ! 4) 16],
     accum128 (mm_srli_epi32 (d ! 4) (28 - 12))
       [mm_slli_epi32 (d ! 5) 12],
     accum128 (mm_srli_epi32 (d ! 5) (28 - 8))
       [mm_slli_epi32 (d ! 6) 8],
     accum128 (mm_srli_epi32 (d ! 6) (28 - 4))
       [mm_slli_epi32 (d ! 7) 4],
     accum128 (d ! 8)
       [mm_slli_epi32 (d ! 9) 28],
     accum128 (mm_srli_epi32 (d ! 9) (28 - 24))
       [mm_slli_epi32 (d ! 10) 24],
     accum128 (mm_srli_epi32 (d ! 10) (28 - 20))
       [mm_slli_epi32 (d ! 11) 20],
     accum128 (mm_srli_epi32 (d ! 11) (28 - 16))
       [mm_slli_epi32 (d ! 12) 16],
     accum128 (mm_srli_epi32 (d ! 12) (28 - 12))
       [mm_slli_epi32 (d ! 13) 12],
     accum128 (mm_srli_epi32 (d ! 13) (28 - 8))
       [mm_slli_epi32 (d ! 14) 8],
     accum128 (mm_srli_epi32 (d ! 14) (28 - 4))
       [mm_slli_epi32 (d ! 15) 4],
     accum128 (d ! 16)
       [mm_slli_epi32 (d ! 17) 28],
     accum128 (mm_srli_epi32 (d ! 17) (28 - 24))
       [mm_slli_epi32 (d ! 18) 24],
     accum128 (mm_srli_epi32 (d ! 18) (28 - 20))
       [mm_slli_epi32 (d ! 19) 20],
     accum128 (mm_srli_epi32 (d ! 19) (28 - 16))
       [mm_slli_epi32 (d ! 20) 16],
     accum128 (mm_srli_epi32 (d ! 20) (28 - 12))
       [mm_slli_epi32 (d ! 21) 12],
     accum128 (mm_srli_epi32 (d ! 21) (28 - 8))
       [mm_slli_epi32 (d ! 22) 8],
     accum128 (mm_srli_epi32 (d ! 22) (28 - 4))
       [mm_slli_epi32 (d ! 23) 4],
     accum128 (d ! 24)
       [mm_slli_epi32 (d ! 25) 28],
     accum128 (mm_srli_epi32 (d ! 25) (28 - 24))
       [mm_slli_epi32 (d ! 26) 24],
     accum128 (mm_srli_epi32 (d ! 26) (28 - 20))
       [mm_slli_epi32 (d ! 27) 20],
     accum128 (mm_srli_epi32 (d ! 27) (28 - 16))
       [mm_slli_epi32 (d ! 28) 16],
     accum128 (mm_srli_epi32 (d ! 28) (28 - 12))
       [mm_slli_epi32 (d ! 29) 12],
     accum128 (mm_srli_epi32 (d ! 29) (28 - 8))
       [mm_slli_epi32 (d ! 30) 8],
     accum128 (mm_srli_epi32 (d ! 30) (28 - 4))
       [mm_slli_epi32 (d ! 31) 4]])"

definition SIMD_fastpack29_32 :: "m128i list \<Rightarrow> m128i list" where
  "SIMD_fastpack29_32 inp =
    (let d = map (\<lambda>x. mm_and_si128 x (mm_set1_epi32 536870911)) inp in
    [accum128 (d ! 0)
       [mm_slli_epi32 (d ! 1) 29],
     accum128 (mm_srli_epi32 (d ! 1) (29 - 26))
       [mm_slli_epi32 (d ! 2) 26],
     accum128 (mm_srli_epi32 (d ! 2) (29 - 23))
       [mm_slli_epi32 (d ! 3) 23],
     accum128 (mm_srli_epi32 (d ! 3) (29 - 20))
       [mm_slli_epi32 (d ! 4) 20],
     accum128 (mm_srli_epi32 (d ! 4) (29 - 17))
       [mm_slli_epi32 (d ! 5) 17],
     accum128 (mm_srli_epi32 (d ! 5) (29 - 14))
       [mm_slli_epi32 (d ! 6) 14],
     accum128 (mm_srli_epi32 (d ! 6) (29 - 11))
       [mm_slli_epi32 (d ! 7) 11],
     accum128 (mm_srli_epi32 (d ! 7) (29 - 8))
       [mm_slli_epi32 (d ! 8) 8],
     accum128 (mm_srli_epi32 (d ! 8) (29 - 5))
       [mm_slli_epi32 (d ! 9) 5],
     accum128 (mm_srli_epi32 (d ! 9) (29 - 2))
       [mm_slli_epi32 (d ! 10) 2, mm_slli_epi32 (d ! 11) 31],
     accum128 (mm_srli_epi32 (d ! 11) (29 - 28))
       [mm_slli_epi32 (d ! 12) 28],
     accum128 (mm_srli_epi32 (d ! 12) (29 - 25))
       [mm_slli_epi32 (d ! 13) 25],
     accum128 (mm_srli_epi32 (d ! 13) (29 - 22))
       [mm_slli_epi32 (d ! 14) 22],
     accum128 (mm_srli_epi32 (d ! 14) (29 - 19))
       [mm_slli_epi32 (d ! 15) 19],
     accum128 (mm_srli_epi32 (d ! 15) (29 - 16))
       [mm_slli_epi32 (d ! 16) 16],
     accum128 (mm_srli_epi32 (d ! 16) (29 - 13))
       [mm_slli_epi32 (d ! 17) 13],
     accum128 (mm_srli_epi32 (d ! 17) (29 - 10))
       [mm_slli_epi32 (d ! 18) 10],
     accum128 (mm_srli_epi32 (d ! 18) (29 - 7))
       [mm_slli_epi32 (d ! 19) 7],
     accum128 (mm_srli_epi32 (d ! 19) (29 - 4))
       [mm_slli_epi32 (d ! 20) 4],
     accum128 (mm_srli_epi32 (d ! 20) (29 - 1))
       [mm_slli_epi32 (d ! 21) 1, mm_slli_epi32 (d ! 22) 30],
     accum128 (mm_srli_epi32 (d ! 22) (29 - 27))
       [mm_slli_epi32 (d ! 23) 27],
     accum128 (mm_srli_epi32 (d ! 23) (29 - 24))
       [mm_slli_epi32 (d ! 24) 24],
     accum128 (mm_srli_epi32 (d ! 24) (29 - 21))
       [mm_slli_epi32 (d ! 25) 21],
     accum128 (mm_srli_epi32 (d ! 25) (29 - 18))
       [mm_slli_epi32 (d ! 26) 18],
     accum128 (mm_srli_epi32 (d ! 26) (29 - 15))
       [mm_slli_epi32 (d ! 27) 15],
     accum128 (mm_srli_epi32 (d ! 27) (29 - 12))
       [mm_slli_epi32 (d ! 28) 12],
     accum128 (mm_srli_epi32 (d ! 28) (29 - 9))
       [mm_slli_epi32 (d ! 29) 9],
     accum128 (mm_srli_epi32 (d ! 29) (29 - 6))
       [mm_slli_epi32 (d ! 30) 6],
     accum128 (mm_srli_epi32 (d ! 30) (29 - 3))
       [mm_slli_epi32 (d ! 31) 3]])"

definition SIMD_fastpack30_32 :: "m128i list \<Rightarrow> m128i list" where
  "SIMD_fastpack30_32 inp =
    (let d = map (\<lambda>x. mm_and_si128 x (mm_set1_epi32 1073741823)) inp in
    [accum128 (d ! 0)
       [mm_slli_epi32 (d ! 1) 30],
     accum128 (mm_srli_epi32 (d ! 1) (30 - 28))
       [mm_slli_epi32 (d ! 2) 28],
     accum128 (mm_srli_epi32 (d ! 2) (30 - 26))
       [mm_slli_epi32 (d ! 3) 26],
     accum128 (mm_srli_epi32 (d ! 3) (30 - 24))
       [mm_slli_epi32 (d ! 4) 24],
     accum128 (mm_srli_epi32 (d ! 4) (30 - 22))
       [mm_slli_epi32 (d ! 5) 22],
     accum128 (mm_srli_epi32 (d ! 5) (30 - 20))
       [mm_slli_epi32 (d ! 6) 20],
     accum128 (mm_srli_epi32 (d ! 6) (30 - 18))
       [mm_slli_epi32 (d ! 7) 18],
     accum128 (mm_srli_epi32 (d ! 7) (30 - 16))
       [mm_slli_epi32 (d ! 8) 16],
     accum128 (mm_srli_epi32 (d ! 8) (30 - 14))
       [mm_slli_epi32 (d ! 9) 14],
     accum128 (mm_srli_epi32 (d ! 9) (30 - 12))
       [mm_slli_epi32 (d ! 10) 12],
     accum128 (mm_srli_epi32 (d ! 10) (30 - 10))
       [mm_slli_epi32 (d ! 11) 10],
     accum128 (mm_srli_epi32 (d ! 11) (30 - 8))
       [mm_slli_epi32 (d ! 12) 8],
     accum128 (mm_srli_epi32 (d ! 12) (30 - 6))
       [mm_slli_epi32 (d ! 13) 6],
     accum128 (mm_srli_epi32 (d ! 13) (30 - 4))
       [mm_slli_epi32 (d ! 14) 4],
     accum128 (mm_srli_epi32 (d ! 14) (30 - 2))
       [mm_slli_epi32 (d ! 15) 2],
     accum128 (d ! 16)
       [mm_slli_epi32 (d ! 17) 30],
     accum128 (mm_srli_epi32 (d ! 17) (30 - 28))
       [mm_slli_epi32 (d ! 18) 28],
     accum128 (mm_srli_epi32 (d ! 18) (30 - 26))
       [mm_slli_epi32 (d ! 19) 26],
     accum128 (mm_srli_epi32 (d ! 19) (30 - 24))
       [mm_slli_epi32 (d ! 20) 24],
     accum128 (mm_srli_epi32 (d ! 20) (30 - 22))
       [mm_slli_epi32 (d ! 21) 22],
     accum128 (mm_srli_epi32 (d ! 21) (30 - 20))
       [mm_slli_epi32 (d ! 22) 20],
     accum128 (mm_srli_epi32 (d ! 22) (30 - 18))
       [mm_slli_epi32 (d ! 23) 18],
     accum128 (mm_srli_epi32 (d ! 23) (30 - 16))
       [mm_slli_epi32 (d ! 24) 16],
     accum128 (mm_srli_epi32 (d ! 24) (30 - 14))
       [mm_slli_epi32 (d ! 25) 14],
     accum128 (mm_srli_epi32 (d ! 25) (30 - 12))
       [mm_slli_epi32 (d ! 26) 12],
     accum128 (mm_srli_epi32 (d ! 26) (30 - 10))
       [mm_slli_epi32 (d ! 27) 10],
     accum128 (mm_srli_epi32 (d ! 27) (30 - 8))
       [mm_slli_epi32 (d ! 28) 8],
     accum128 (mm_srli_epi32 (d ! 28) (30 - 6))
       [mm_slli_epi32 (d ! 29) 6],
     accum128 (mm_srli_epi32 (d ! 29) (30 - 4))
       [mm_slli_epi32 (d ! 30) 4],
     accum128 (mm_srli_epi32 (d ! 30) (30 - 2))
       [mm_slli_epi32 (d ! 31) 2]])"

definition SIMD_fastpack31_32 :: "m128i list \<Rightarrow> m128i list" where
  "SIMD_fastpack31_32 inp =
    (let d = map (\<lambda>x. mm_and_si128 x (mm_set1_epi32 2147483647)) inp in
    [accum128 (d ! 0)
       [mm_slli_epi32 (d ! 1) 31],
     accum128 (mm_srli_epi32 (d ! 1) (31 - 30))
       [mm_slli_epi32 (d ! 2) 30],
     accum128 (mm_srli_epi32 (d ! 2) (31 - 29))
       [mm_slli_epi32 (d ! 3) 29],
     accum128 (mm_srli_epi32 (d ! 3) (31 - 28))
       [mm_slli_epi32 (d ! 4) 28],
     accum128 (mm_srli_epi32 (d ! 4) (31 - 27))
       [mm_slli_epi32 (d ! 5) 27],
     accum128 (mm_srli_epi32 (d ! 5) (31 - 26))
       [mm_slli_epi32 (d ! 6) 26],
     accum128 (mm_srli_epi32 (d ! 6) (31 - 25))
       [mm_slli_epi32 (d ! 7) 25],
     accum128 (mm_srli_epi32 (d ! 7) (31 - 24))
       [mm_slli_epi32 (d ! 8) 24],
     accum128 (mm_srli_epi32 (d ! 8) (31 - 23))
       [mm_slli_epi32 (d ! 9) 23],
     accum128 (mm_srli_epi32 (d ! 9) (31 - 22))
       [mm_slli_epi32 (d ! 10) 22],
     accum128 (mm_srli_epi32 (d ! 10) (31 - 21))
       [mm_slli_epi32 (d ! 11) 21],
     accum128 (mm_srli_epi32 (d ! 11) (31 - 20))
       [mm_slli_epi32 (d ! 12) 20],
     accum128 (mm_srli_epi32 (d ! 12) (31 - 19))
       [mm_slli_epi32 (d ! 13) 19],
     accum128 (mm_srli_epi32 (d ! 13) (31 - 18))
       [mm_slli_epi32 (d ! 14) 18],
     accum128 (mm_srli_epi32 (d ! 14) (31 - 17))
       [mm_slli_epi32 (d ! 15) 17],
     accum128 (mm_srli_epi32 (d ! 15) (31 - 16))
       [mm_slli_epi32 (d ! 16) 16],
     accum128 (mm_srli_epi32 (d ! 16) (31 - 15))
       [mm_slli_epi32 (d ! 17) 15],
     accum128 (mm_srli_epi32 (d ! 17) (31 - 14))
       [mm_slli_epi32 (d ! 18) 14],
     accum128 (mm_srli_epi32 (d ! 18) (31 - 13))
       [mm_slli_epi32 (d ! 19) 13],
     accum128 (mm_srli_epi32 (d ! 19) (31 - 12))
       [mm_slli_epi32 (d ! 20) 12],
     accum128 (mm_srli_epi32 (d ! 20) (31 - 11))
       [mm_slli_epi32 (d ! 21) 11],
     accum128 (mm_srli_epi32 (d ! 21) (31 - 10))
       [mm_slli_epi32 (d ! 22) 10],
     accum128 (mm_srli_epi32 (d ! 22) (31 - 9))
       [mm_slli_epi32 (d ! 23) 9],
     accum128 (mm_srli_epi32 (d ! 23) (31 - 8))
       [mm_slli_epi32 (d ! 24) 8],
     accum128 (mm_srli_epi32 (d ! 24) (31 - 7))
       [mm_slli_epi32 (d ! 25) 7],
     accum128 (mm_srli_epi32 (d ! 25) (31 - 6))
       [mm_slli_epi32 (d ! 26) 6],
     accum128 (mm_srli_epi32 (d ! 26) (31 - 5))
       [mm_slli_epi32 (d ! 27) 5],
     accum128 (mm_srli_epi32 (d ! 27) (31 - 4))
       [mm_slli_epi32 (d ! 28) 4],
     accum128 (mm_srli_epi32 (d ! 28) (31 - 3))
       [mm_slli_epi32 (d ! 29) 3],
     accum128 (mm_srli_epi32 (d ! 29) (31 - 2))
       [mm_slli_epi32 (d ! 30) 2],
     accum128 (mm_srli_epi32 (d ! 30) (31 - 1))
       [mm_slli_epi32 (d ! 31) 1]])"

definition SIMD_fastpack32_32 :: "m128i list \<Rightarrow> m128i list" where
  "SIMD_fastpack32_32 inp =
    [inp ! 0, inp ! 1, inp ! 2, inp ! 3, inp ! 4, inp ! 5, inp ! 6, inp ! 7, inp ! 8, inp ! 9,
     inp ! 10, inp ! 11, inp ! 12, inp ! 13, inp ! 14, inp ! 15, inp ! 16, inp ! 17, inp ! 18,
     inp ! 19, inp ! 20, inp ! 21, inp ! 22, inp ! 23, inp ! 24, inp ! 25, inp ! 26, inp ! 27,
     inp ! 28, inp ! 29, inp ! 30, inp ! 31]"

definition SIMD_fastunpack1_32 :: "m128i list \<Rightarrow> m128i list" where
  "SIMD_fastunpack1_32 inp =
    (let mask = mm_set1_epi32 1 in concat (map (\<lambda>i.
     [mm_and_si128 (mm_srli_epi32 (inp ! 0) (4 * i)) mask,
      mm_and_si128 (mm_srli_epi32 (inp ! 0) (4 * i + 1)) mask,
      mm_and_si128 (mm_srli_epi32 (inp ! 0) (4 * i + 2)) mask,
      mm_and_si128 (mm_srli_epi32 (inp ! 0) (4 * i + 3)) mask]) [0..<8]))"

definition SIMD_fastunpack2_32 :: "m128i list \<Rightarrow> m128i list" where
  "SIMD_fastunpack2_32 inp =
    (let mask = mm_set1_epi32 3 in
    [mm_and_si128 (inp ! 0) mask, mm_and_si128 (mm_srli_epi32 (inp ! 0) 2) mask,
     mm_and_si128 (mm_srli_epi32 (inp ! 0) 4) mask,
     mm_and_si128 (mm_srli_epi32 (inp ! 0) 6) mask,
     mm_and_si128 (mm_srli_epi32 (inp ! 0) 8) mask,
     mm_and_si128 (mm_srli_epi32 (inp ! 0) 10) mask,
     mm_and_si128 (mm_srli_epi32 (inp ! 0) 12) mask,
     mm_and_si128 (mm_srli_epi32 (inp ! 0) 14) mask,
     mm_and_si128 (mm_srli_epi32 (inp ! 0) 16) mask,
     mm_and_si128 (mm_srli_epi32 (inp ! 0) 18) mask,
     mm_and_si128 (mm_srli_epi32 (inp ! 0) 20) mask,
     mm_and_si128 (mm_srli_epi32 (inp ! 0) 22) mask,
     mm_and_si128 (mm_srli_epi32 (inp ! 0) 24) mask,
     mm_and_si128 (mm_srli_epi32 (inp ! 0) 26) mask,
     mm_and_si128 (mm_srli_epi32 (inp ! 0) 28) mask, mm_srli_epi32 (inp ! 0) 30,
     mm_and_si128 (inp ! 1) mask, mm_and_si128 (mm_srli_epi32 (inp ! 1) 2) mask,
     mm_and_si128 (mm_srli_epi32 (inp ! 1) 4) mask,
     mm_and_si128 (mm_srli_epi32 (inp ! 1) 6) mask,
     mm_and_si128 (mm_srli_epi32 (inp ! 1) 8) mask,
     mm_and_si128 (mm_srli_epi32 (inp ! 1) 10) mask,
     mm_and_si128 (mm_srli_epi32 (inp ! 1) 12) mask,
     mm_and_si128 (mm_srli_epi32 (inp ! 1) 14) mask,
     mm_and_si128 (mm_srli_epi32 (inp ! 1) 16) mask,
     mm_and_si128 (mm_srli_epi32 (inp ! 1) 18) mask,
     mm_and_si128 (mm_srli_epi32 (inp ! 1) 20) mask,
     mm_and_si128 (mm_srli_epi32 (inp ! 1) 22) mask,
     mm_and_si128 (mm_srli_epi32 (inp ! 1) 24) mask,
     mm_and_si128 (mm_srli_epi32 (inp ! 1) 26) mask,
     mm_and_si128 (mm_srli_epi32 (inp ! 1) 28) mask, mm_srli_epi32 (inp ! 1) 30])"

definition SIMD_fastunpack3_32 :: "m128i list \<Rightarrow> m128i list" where
  "SIMD_fastunpack3_32 inp =
    (let mask = mm_set1_epi32 7 in
    [mm_and_si128 (inp ! 0) mask, mm_and_si128 (mm_srli_epi32 (inp ! 0) 3) mask,
     mm_and_si128 (mm_srli_epi32 (inp ! 0) 6) mask,
     mm_and_si128 (mm_srli_epi32 (inp ! 0) 9) mask,
     mm_and_si128 (mm_srli_epi32 (inp ! 0) 12) mask,
     mm_and_si128 (mm_srli_epi32 (inp ! 0) 15) mask,
     mm_and_si128 (mm_srli_epi32 (inp ! 0) 18) mask,
     mm_and_si128 (mm_srli_epi32 (inp ! 0) 21) mask,
     mm_and_si128 (mm_srli_epi32 (inp ! 0) 24) mask,
     mm_and_si128 (mm_srli_epi32 (inp ! 0) 27) mask,
     mm_or_si128 (mm_srli_epi32 (inp ! 0) 30) (mm_slli_epi32 (mm_and_si128 (inp ! 1) (mm_set1_epi32 1)) (3 - 1)),
     mm_and_si128 (mm_srli_epi32 (inp ! 1) 1) mask,
     mm_and_si128 (mm_srli_epi32 (inp ! 1) 4) mask,
     mm_and_si128 (mm_srli_epi32 (inp ! 1) 7) mask,
     mm_and_si128 (mm_srli_epi32 (inp ! 1) 10) mask,
     mm_and_si128 (mm_srli_epi32 (inp ! 1) 13) mask,
     mm_and_si128 (mm_srli_epi32 (inp ! 1) 16) mask,
     mm_and_si128 (mm_srli_epi32 (inp ! 1) 19) mask,
     mm_and_si128 (mm_srli_epi32 (inp ! 1) 22) mask,
     mm_and_si128 (mm_srli_epi32 (inp ! 1) 25) mask,
     mm_and_si128 (mm_srli_epi32 (inp ! 1) 28) mask,
     mm_or_si128 (mm_srli_epi32 (inp ! 1) 31) (mm_slli_epi32 (mm_and_si128 (inp ! 2) (mm_set1_epi32 3)) (3 - 2)),
     mm_and_si128 (mm_srli_epi32 (inp ! 2) 2) mask,
     mm_and_si128 (mm_srli_epi32 (inp ! 2) 5) mask,
     mm_and_si128 (mm_srli_epi32 (inp ! 2) 8) mask,
     mm_and_si128 (mm_srli_epi32 (inp ! 2) 11) mask,
     mm_and_si128 (mm_srli_epi32 (inp ! 2) 14) mask,
     mm_and_si128 (mm_srli_epi32 (inp ! 2) 17) mask,
     mm_and_si128 (mm_srli_epi32 (inp ! 2) 20) mask,
     mm_and_si128 (mm_srli_epi32 (inp ! 2) 23) mask,
     mm_and_si128 (mm_srli_epi32 (inp ! 2) 26) mask, mm_srli_epi32 (inp ! 2) 29])"

definition SIMD_fastunpack4_32 :: "m128i list \<Rightarrow> m128i list" where
  "SIMD_fastunpack4_32 inp =
    (let mask = mm_set1_epi32 15 in
    [mm_and_si128 (inp ! 0) mask, mm_and_si128 (mm_srli_epi32 (inp ! 0) 4) mask,
     mm_and_si128 (mm_srli_epi32 (inp ! 0) 8) mask,
     mm_and_si128 (mm_srli_epi32 (inp ! 0) 12) mask,
     mm_and_si128 (mm_srli_epi32 (inp ! 0) 16) mask,
     mm_and_si128 (mm_srli_epi32 (inp ! 0) 20) mask,
     mm_and_si128 (mm_srli_epi32 (inp ! 0) 24) mask, mm_srli_epi32 (inp ! 0) 28,
     mm_and_si128 (inp ! 1) mask, mm_and_si128 (mm_srli_epi32 (inp ! 1) 4) mask,
     mm_and_si128 (mm_srli_epi32 (inp ! 1) 8) mask,
     mm_and_si128 (mm_srli_epi32 (inp ! 1) 12) mask,
     mm_and_si128 (mm_srli_epi32 (inp ! 1) 16) mask,
     mm_and_si128 (mm_srli_epi32 (inp ! 1) 20) mask,
     mm_and_si128 (mm_srli_epi32 (inp ! 1) 24) mask, mm_srli_epi32 (inp ! 1) 28,
     mm_and_si128 (inp ! 2) mask, mm_and_si128 (mm_srli_epi32 (inp ! 2) 4) mask,
     mm_and_si128 (mm_srli_epi32 (inp ! 2) 8) mask,
     mm_and_si128 (mm_srli_epi32 (inp ! 2) 12) mask,
     mm_and_si128 (mm_srli_epi32 (inp ! 2) 16) mask,
     mm_and_si128 (mm_srli_epi32 (inp ! 2) 20) mask,
     mm_and_si128 (mm_srli_epi32 (inp ! 2) 24) mask, mm_srli_epi32 (inp ! 2) 28,
     mm_and_si128 (inp ! 3) mask, mm_and_si128 (mm_srli_epi32 (inp ! 3) 4) mask,
     mm_and_si128 (mm_srli_epi32 (inp ! 3) 8) mask,
     mm_and_si128 (mm_srli_epi32 (inp ! 3) 12) mask,
     mm_and_si128 (mm_srli_epi32 (inp ! 3) 16) mask,
     mm_and_si128 (mm_srli_epi32 (inp ! 3) 20) mask,
     mm_and_si128 (mm_srli_epi32 (inp ! 3) 24) mask, mm_srli_epi32 (inp ! 3) 28])"

definition SIMD_fastunpack5_32 :: "m128i list \<Rightarrow> m128i list" where
  "SIMD_fastunpack5_32 inp =
    (let mask = mm_set1_epi32 31 in
    [mm_and_si128 (inp ! 0) mask, mm_and_si128 (mm_srli_epi32 (inp ! 0) 5) mask,
     mm_and_si128 (mm_srli_epi32 (inp ! 0) 10) mask,
     mm_and_si128 (mm_srli_epi32 (inp ! 0) 15) mask,
     mm_and_si128 (mm_srli_epi32 (inp ! 0) 20) mask,
     mm_and_si128 (mm_srli_epi32 (inp ! 0) 25) mask,
     mm_or_si128 (mm_srli_epi32 (inp ! 0) 30) (mm_slli_epi32 (mm_and_si128 (inp ! 1) (mm_set1_epi32 7)) (5 - 3)),
     mm_and_si128 (mm_srli_epi32 (inp ! 1) 3) mask,
     mm_and_si128 (mm_srli_epi32 (inp ! 1) 8) mask,
     mm_and_si128 (mm_srli_epi32 (inp ! 1) 13) mask,
     mm_and_si128 (mm_srli_epi32 (inp ! 1) 18) mask,
     mm_and_si128 (mm_srli_epi32 (inp ! 1) 23) mask,
     mm_or_si128 (mm_srli_epi32 (inp ! 1) 28) (mm_slli_epi32 (mm_and_si128 (inp ! 2) (mm_set1_epi32 1)) (5 - 1)),
     mm_and_si128 (mm_srli_epi32 (inp ! 2) 1) mask,
     mm_and_si128 (mm_srli_epi32 (inp ! 2) 6) mask,
     mm_and_si128 (mm_srli_epi32 (inp ! 2) 11) mask,
     mm_and_si128 (mm_srli_epi32 (inp ! 2) 16) mask,
     mm_and_si128 (mm_srli_epi32 (inp ! 2) 21) mask,
     mm_and_si128 (mm_srli_epi32 (inp ! 2) 26) mask,
     mm_or_si128 (mm_srli_epi32 (inp ! 2) 31) (mm_slli_epi32 (mm_and_si128 (inp ! 3) (mm_set1_epi32 15)) (5 - 4)),
     mm_and_si128 (mm_srli_epi32 (inp ! 3) 4) mask,
     mm_and_si128 (mm_srli_epi32 (inp ! 3) 9) mask,
     mm_and_si128 (mm_srli_epi32 (inp ! 3) 14) mask,
     mm_and_si128 (mm_srli_epi32 (inp ! 3) 19) mask,
     mm_and_si128 (mm_srli_epi32 (inp ! 3) 24) mask,
     mm_or_si128 (mm_srli_epi32 (inp ! 3) 29) (mm_slli_epi32 (mm_and_si128 (inp ! 4) (mm_set1_epi32 3)) (5 - 2)),
     mm_and_si128 (mm_srli_epi32 (inp ! 4) 2) mask,
     mm_and_si128 (mm_srli_epi32 (inp ! 4) 7) mask,
     mm_and_si128 (mm_srli_epi32 (inp ! 4) 12) mask,
     mm_and_si128 (mm_srli_epi32 (inp ! 4) 17) mask,
     mm_and_si128 (mm_srli_epi32 (inp ! 4) 22) mask, mm_srli_epi32 (inp ! 4) 27])"

definition SIMD_fastunpack6_32 :: "m128i list \<Rightarrow> m128i list" where
  "SIMD_fastunpack6_32 inp =
    (let mask = mm_set1_epi32 63 in
    [mm_and_si128 (inp ! 0) mask, mm_and_si128 (mm_srli_epi32 (inp ! 0) 6) mask,
     mm_and_si128 (mm_srli_epi32 (inp ! 0) 12) mask,
     mm_and_si128 (mm_srli_epi32 (inp ! 0) 18) mask,
     mm_and_si128 (mm_srli_epi32 (inp ! 0) 24) mask,
     mm_or_si128 (mm_srli_epi32 (inp ! 0) 30) (mm_slli_epi32 (mm_and_si128 (inp ! 1) (mm_set1_epi32 15)) (6 - 4)),
     mm_and_si128 (mm_srli_epi32 (inp ! 1) 4) mask,
     mm_and_si128 (mm_srli_epi32 (inp ! 1) 10) mask,
     mm_and_si128 (mm_srli_epi32 (inp ! 1) 16) mask,
     mm_and_si128 (mm_srli_epi32 (inp ! 1) 22) mask,
     mm_or_si128 (mm_srli_epi32 (inp ! 1) 28) (mm_slli_epi32 (mm_and_si128 (inp ! 2) (mm_set1_epi32 3)) (6 - 2)),
     mm_and_si128 (mm_srli_epi32 (inp ! 2) 2) mask,
     mm_and_si128 (mm_srli_epi32 (inp ! 2) 8) mask,
     mm_and_si128 (mm_srli_epi32 (inp ! 2) 14) mask,
     mm_and_si128 (mm_srli_epi32 (inp ! 2) 20) mask, mm_srli_epi32 (inp ! 2) 26,
     mm_and_si128 (inp ! 3) mask, mm_and_si128 (mm_srli_epi32 (inp ! 3) 6) mask,
     mm_and_si128 (mm_srli_epi32 (inp ! 3) 12) mask,
     mm_and_si128 (mm_srli_epi32 (inp ! 3) 18) mask,
     mm_and_si128 (mm_srli_epi32 (inp ! 3) 24) mask,
     mm_or_si128 (mm_srli_epi32 (inp ! 3) 30) (mm_slli_epi32 (mm_and_si128 (inp ! 4) (mm_set1_epi32 15)) (6 - 4)),
     mm_and_si128 (mm_srli_epi32 (inp ! 4) 4) mask,
     mm_and_si128 (mm_srli_epi32 (inp ! 4) 10) mask,
     mm_and_si128 (mm_srli_epi32 (inp ! 4) 16) mask,
     mm_and_si128 (mm_srli_epi32 (inp ! 4) 22) mask,
     mm_or_si128 (mm_srli_epi32 (inp ! 4) 28) (mm_slli_epi32 (mm_and_si128 (inp ! 5) (mm_set1_epi32 3)) (6 - 2)),
     mm_and_si128 (mm_srli_epi32 (inp ! 5) 2) mask,
     mm_and_si128 (mm_srli_epi32 (inp ! 5) 8) mask,
     mm_and_si128 (mm_srli_epi32 (inp ! 5) 14) mask,
     mm_and_si128 (mm_srli_epi32 (inp ! 5) 20) mask, mm_srli_epi32 (inp ! 5) 26])"

definition SIMD_fastunpack7_32 :: "m128i list \<Rightarrow> m128i list" where
  "SIMD_fastunpack7_32 inp =
    (let mask = mm_set1_epi32 127 in
    [mm_and_si128 (inp ! 0) mask, mm_and_si128 (mm_srli_epi32 (inp ! 0) 7) mask,
     mm_and_si128 (mm_srli_epi32 (inp ! 0) 14) mask,
     mm_and_si128 (mm_srli_epi32 (inp ! 0) 21) mask,
     mm_or_si128 (mm_srli_epi32 (inp ! 0) 28) (mm_slli_epi32 (mm_and_si128 (inp ! 1) (mm_set1_epi32 7)) (7 - 3)),
     mm_and_si128 (mm_srli_epi32 (inp ! 1) 3) mask,
     mm_and_si128 (mm_srli_epi32 (inp ! 1) 10) mask,
     mm_and_si128 (mm_srli_epi32 (inp ! 1) 17) mask,
     mm_and_si128 (mm_srli_epi32 (inp ! 1) 24) mask,
     mm_or_si128 (mm_srli_epi32 (inp ! 1) 31) (mm_slli_epi32 (mm_and_si128 (inp ! 2) (mm_set1_epi32 63)) (7 - 6)),
     mm_and_si128 (mm_srli_epi32 (inp ! 2) 6) mask,
     mm_and_si128 (mm_srli_epi32 (inp ! 2) 13) mask,
     mm_and_si128 (mm_srli_epi32 (inp ! 2) 20) mask,
     mm_or_si128 (mm_srli_epi32 (inp ! 2) 27) (mm_slli_epi32 (mm_and_si128 (inp ! 3) (mm_set1_epi32 3)) (7 - 2)),
     mm_and_si128 (mm_srli_epi32 (inp ! 3) 2) mask,
     mm_and_si128 (mm_srli_epi32 (inp ! 3) 9) mask,
     mm_and_si128 (mm_srli_epi32 (inp ! 3) 16) mask,
     mm_and_si128 (mm_srli_epi32 (inp ! 3) 23) mask,
     mm_or_si128 (mm_srli_epi32 (inp ! 3) 30) (mm_slli_epi32 (mm_and_si128 (inp ! 4) (mm_set1_epi32 31)) (7 - 5)),
     mm_and_si128 (mm_srli_epi32 (inp ! 4) 5) mask,
     mm_and_si128 (mm_srli_epi32 (inp ! 4) 12) mask,
     mm_and_si128 (mm_srli_epi32 (inp ! 4) 19) mask,
     mm_or_si128 (mm_srli_epi32 (inp ! 4) 26) (mm_slli_epi32 (mm_and_si128 (inp ! 5) (mm_set1_epi32 1)) (7 - 1)),
     mm_and_si128 (mm_srli_epi32 (inp ! 5) 1) mask,
     mm_and_si128 (mm_srli_epi32 (inp ! 5) 8) mask,
     mm_and_si128 (mm_srli_epi32 (inp ! 5) 15) mask,
     mm_and_si128 (mm_srli_epi32 (inp ! 5) 22) mask,
     mm_or_si128 (mm_srli_epi32 (inp ! 5) 29) (mm_slli_epi32 (mm_and_si128 (inp ! 6) (mm_set1_epi32 15)) (7 - 4)),
     mm_and_si128 (mm_srli_epi32 (inp ! 6) 4) mask,
     mm_and_si128 (mm_srli_epi32 (inp ! 6) 11) mask,
     mm_and_si128 (mm_srli_epi32 (inp ! 6) 18) mask, mm_srli_epi32 (inp ! 6) 25])"

definition SIMD_fastunpack8_32 :: "m128i list \<Rightarrow> m128i list" where
  "SIMD_fastunpack8_32 inp =
    (let mask = mm_set1_epi32 255 in
    [mm_and_si128 (inp ! 0) mask, mm_and_si128 (mm_srli_epi32 (inp ! 0) 8) mask,
     mm_and_si128 (mm_srli_epi32 (inp ! 0) 16) mask, mm_srli_epi32 (inp ! 0) 24,
     mm_and_si128 (inp ! 1) mask, mm_and_si128 (mm_srli_epi32 (inp ! 1) 8) mask,
     mm_and_si128 (mm_srli_epi32 (inp ! 1) 16) mask, mm_srli_epi32 (inp ! 1) 24,
     mm_and_si128 (inp ! 2) mask, mm_and_si128 (mm_srli_epi32 (inp ! 2) 8) mask,
     mm_and_si128 (mm_srli_epi32 (inp ! 2) 16) mask, mm_srli_epi32 (inp ! 2) 24,
     mm_and_si128 (inp ! 3) mask, mm_and_si128 (mm_srli_epi32 (inp ! 3) 8) mask,
     mm_and_si128 (mm_srli_epi32 (inp ! 3) 16) mask, mm_srli_epi32 (inp ! 3) 24,
     mm_and_si128 (inp ! 4) mask, mm_and_si128 (mm_srli_epi32 (inp ! 4) 8) mask,
     mm_and_si128 (mm_srli_epi32 (inp ! 4) 16) mask, mm_srli_epi32 (inp ! 4) 24,
     mm_and_si128 (inp ! 5) mask, mm_and_si128 (mm_srli_epi32 (inp ! 5) 8) mask,
     mm_and_si128 (mm_srli_epi32 (inp ! 5) 16) mask, mm_srli_epi32 (inp ! 5) 24,
     mm_and_si128 (inp ! 6) mask, mm_and_si128 (mm_srli_epi32 (inp ! 6) 8) mask,
     mm_and_si128 (mm_srli_epi32 (inp ! 6) 16) mask, mm_srli_epi32 (inp ! 6) 24,
     mm_and_si128 (inp ! 7) mask, mm_and_si128 (mm_srli_epi32 (inp ! 7) 8) mask,
     mm_and_si128 (mm_srli_epi32 (inp ! 7) 16) mask, mm_srli_epi32 (inp ! 7) 24])"

definition SIMD_fastunpack9_32 :: "m128i list \<Rightarrow> m128i list" where
  "SIMD_fastunpack9_32 inp =
    (let mask = mm_set1_epi32 511 in
    [mm_and_si128 (inp ! 0) mask, mm_and_si128 (mm_srli_epi32 (inp ! 0) 9) mask,
     mm_and_si128 (mm_srli_epi32 (inp ! 0) 18) mask,
     mm_or_si128 (mm_srli_epi32 (inp ! 0) 27) (mm_slli_epi32 (mm_and_si128 (inp ! 1) (mm_set1_epi32 15)) (9 - 4)),
     mm_and_si128 (mm_srli_epi32 (inp ! 1) 4) mask,
     mm_and_si128 (mm_srli_epi32 (inp ! 1) 13) mask,
     mm_and_si128 (mm_srli_epi32 (inp ! 1) 22) mask,
     mm_or_si128 (mm_srli_epi32 (inp ! 1) 31) (mm_slli_epi32 (mm_and_si128 (inp ! 2) (mm_set1_epi32 255)) (9 - 8)),
     mm_and_si128 (mm_srli_epi32 (inp ! 2) 8) mask,
     mm_and_si128 (mm_srli_epi32 (inp ! 2) 17) mask,
     mm_or_si128 (mm_srli_epi32 (inp ! 2) 26) (mm_slli_epi32 (mm_and_si128 (inp ! 3) (mm_set1_epi32 7)) (9 - 3)),
     mm_and_si128 (mm_srli_epi32 (inp ! 3) 3) mask,
     mm_and_si128 (mm_srli_epi32 (inp ! 3) 12) mask,
     mm_and_si128 (mm_srli_epi32 (inp ! 3) 21) mask,
     mm_or_si128 (mm_srli_epi32 (inp ! 3) 30) (mm_slli_epi32 (mm_and_si128 (inp ! 4) (mm_set1_epi32 127)) (9 - 7)),
     mm_and_si128 (mm_srli_epi32 (inp ! 4) 7) mask,
     mm_and_si128 (mm_srli_epi32 (inp ! 4) 16) mask,
     mm_or_si128 (mm_srli_epi32 (inp ! 4) 25) (mm_slli_epi32 (mm_and_si128 (inp ! 5) (mm_set1_epi32 3)) (9 - 2)),
     mm_and_si128 (mm_srli_epi32 (inp ! 5) 2) mask,
     mm_and_si128 (mm_srli_epi32 (inp ! 5) 11) mask,
     mm_and_si128 (mm_srli_epi32 (inp ! 5) 20) mask,
     mm_or_si128 (mm_srli_epi32 (inp ! 5) 29) (mm_slli_epi32 (mm_and_si128 (inp ! 6) (mm_set1_epi32 63)) (9 - 6)),
     mm_and_si128 (mm_srli_epi32 (inp ! 6) 6) mask,
     mm_and_si128 (mm_srli_epi32 (inp ! 6) 15) mask,
     mm_or_si128 (mm_srli_epi32 (inp ! 6) 24) (mm_slli_epi32 (mm_and_si128 (inp ! 7) (mm_set1_epi32 1)) (9 - 1)),
     mm_and_si128 (mm_srli_epi32 (inp ! 7) 1) mask,
     mm_and_si128 (mm_srli_epi32 (inp ! 7) 10) mask,
     mm_and_si128 (mm_srli_epi32 (inp ! 7) 19) mask,
     mm_or_si128 (mm_srli_epi32 (inp ! 7) 28) (mm_slli_epi32 (mm_and_si128 (inp ! 8) (mm_set1_epi32 31)) (9 - 5)),
     mm_and_si128 (mm_srli_epi32 (inp ! 8) 5) mask,
     mm_and_si128 (mm_srli_epi32 (inp ! 8) 14) mask, mm_srli_epi32 (inp ! 8) 23])"

definition SIMD_fastunpack10_32 :: "m128i list \<Rightarrow> m128i list" where
  "SIMD_fastunpack10_32 inp =
    (let mask = mm_set1_epi32 1023 in
    [mm_and_si128 (inp ! 0) mask, mm_and_si128 (mm_srli_epi32 (inp ! 0) 10) mask,
     mm_and_si128 (mm_srli_epi32 (inp ! 0) 20) mask,
     mm_or_si128 (mm_srli_epi32 (inp ! 0) 30) (mm_slli_epi32 (mm_and_si128 (inp ! 1) (mm_set1_epi32 255)) (10 - 8)),
     mm_and_si128 (mm_srli_epi32 (inp ! 1) 8) mask,
     mm_and_si128 (mm_srli_epi32 (inp ! 1) 18) mask,
     mm_or_si128 (mm_srli_epi32 (inp ! 1) 28) (mm_slli_epi32 (mm_and_si128 (inp ! 2) (mm_set1_epi32 63)) (10 - 6)),
     mm_and_si128 (mm_srli_epi32 (inp ! 2) 6) mask,
     mm_and_si128 (mm_srli_epi32 (inp ! 2) 16) mask,
     mm_or_si128 (mm_srli_epi32 (inp ! 2) 26) (mm_slli_epi32 (mm_and_si128 (inp ! 3) (mm_set1_epi32 15)) (10 - 4)),
     mm_and_si128 (mm_srli_epi32 (inp ! 3) 4) mask,
     mm_and_si128 (mm_srli_epi32 (inp ! 3) 14) mask,
     mm_or_si128 (mm_srli_epi32 (inp ! 3) 24) (mm_slli_epi32 (mm_and_si128 (inp ! 4) (mm_set1_epi32 3)) (10 - 2)),
     mm_and_si128 (mm_srli_epi32 (inp ! 4) 2) mask,
     mm_and_si128 (mm_srli_epi32 (inp ! 4) 12) mask, mm_srli_epi32 (inp ! 4) 22,
     mm_and_si128 (inp ! 5) mask, mm_and_si128 (mm_srli_epi32 (inp ! 5) 10) mask,
     mm_and_si128 (mm_srli_epi32 (inp ! 5) 20) mask,
     mm_or_si128 (mm_srli_epi32 (inp ! 5) 30) (mm_slli_epi32 (mm_and_si128 (inp ! 6) (mm_set1_epi32 255)) (10 - 8)),
     mm_and_si128 (mm_srli_epi32 (inp ! 6) 8) mask,
     mm_and_si128 (mm_srli_epi32 (inp ! 6) 18) mask,
     mm_or_si128 (mm_srli_epi32 (inp ! 6) 28) (mm_slli_epi32 (mm_and_si128 (inp ! 7) (mm_set1_epi32 63)) (10 - 6)),
     mm_and_si128 (mm_srli_epi32 (inp ! 7) 6) mask,
     mm_and_si128 (mm_srli_epi32 (inp ! 7) 16) mask,
     mm_or_si128 (mm_srli_epi32 (inp ! 7) 26) (mm_slli_epi32 (mm_and_si128 (inp ! 8) (mm_set1_epi32 15)) (10 - 4)),
     mm_and_si128 (mm_srli_epi32 (inp ! 8) 4) mask,
     mm_and_si128 (mm_srli_epi32 (inp ! 8) 14) mask,
     mm_or_si128 (mm_srli_epi32 (inp ! 8) 24) (mm_slli_epi32 (mm_and_si128 (inp ! 9) (mm_set1_epi32 3)) (10 - 2)),
     mm_and_si128 (mm_srli_epi32 (inp ! 9) 2) mask,
     mm_and_si128 (mm_srli_epi32 (inp ! 9) 12) mask, mm_srli_epi32 (inp ! 9) 22])"

definition SIMD_fastunpack11_32 :: "m128i list \<Rightarrow> m128i list" where
  "SIMD_fastunpack11_32 inp =
    (let mask = mm_set1_epi32 2047 in
    [mm_and_si128 (inp ! 0) mask, mm_and_si128 (mm_srli_epi32 (inp ! 0) 11) mask,
     mm_or_si128 (mm_srli_epi32 (inp ! 0) 22) (mm_slli_epi32 (mm_and_si128 (inp ! 1) (mm_set1_epi32 1)) (11 - 1)),
     mm_and_si128 (mm_srli_epi32 (inp ! 1) 1) mask,
     mm_and_si128 (mm_srli_epi32 (inp ! 1) 12) mask,
     mm_or_si128 (mm_srli_epi32 (inp ! 1) 23) (mm_slli_epi32 (mm_and_si128 (inp ! 2) (mm_set1_epi32 3)) (11 - 2)),
     mm_and_si128 (mm_srli_epi32 (inp ! 2) 2) mask,
     mm_and_si128 (mm_srli_epi32 (inp ! 2) 13) mask,
     mm_or_si128 (mm_srli_epi32 (inp ! 2) 24) (mm_slli_epi32 (mm_and_si128 (inp ! 3) (mm_set1_epi32 7)) (11 - 3)),
     mm_and_si128 (mm_srli_epi32 (inp ! 3) 3) mask,
     mm_and_si128 (mm_srli_epi32 (inp ! 3) 14) mask,
     mm_or_si128 (mm_srli_epi32 (inp ! 3) 25) (mm_slli_epi32 (mm_and_si128 (inp ! 4) (mm_set1_epi32 15)) (11 - 4)),
     mm_and_si128 (mm_srli_epi32 (inp ! 4) 4) mask,
     mm_and_si128 (mm_srli_epi32 (inp ! 4) 15) mask,
     mm_or_si128 (mm_srli_epi32 (inp ! 4) 26) (mm_slli_epi32 (mm_and_si128 (inp ! 5) (mm_set1_epi32 31)) (11 - 5)),
     mm_and_si128 (mm_srli_epi32 (inp ! 5) 5) mask,
     mm_and_si128 (mm_srli_epi32 (inp ! 5) 16) mask,
     mm_or_si128 (mm_srli_epi32 (inp ! 5) 27) (mm_slli_epi32 (mm_and_si128 (inp ! 6) (mm_set1_epi32 63)) (11 - 6)),
     mm_and_si128 (mm_srli_epi32 (inp ! 6) 6) mask,
     mm_and_si128 (mm_srli_epi32 (inp ! 6) 17) mask,
     mm_or_si128 (mm_srli_epi32 (inp ! 6) 28) (mm_slli_epi32 (mm_and_si128 (inp ! 7) (mm_set1_epi32 127)) (11 - 7)),
     mm_and_si128 (mm_srli_epi32 (inp ! 7) 7) mask,
     mm_and_si128 (mm_srli_epi32 (inp ! 7) 18) mask,
     mm_or_si128 (mm_srli_epi32 (inp ! 7) 29) (mm_slli_epi32 (mm_and_si128 (inp ! 8) (mm_set1_epi32 255)) (11 - 8)),
     mm_and_si128 (mm_srli_epi32 (inp ! 8) 8) mask,
     mm_and_si128 (mm_srli_epi32 (inp ! 8) 19) mask,
     mm_or_si128 (mm_srli_epi32 (inp ! 8) 30) (mm_slli_epi32 (mm_and_si128 (inp ! 9) (mm_set1_epi32 511)) (11 - 9)),
     mm_and_si128 (mm_srli_epi32 (inp ! 9) 9) mask,
     mm_and_si128 (mm_srli_epi32 (inp ! 9) 20) mask,
     mm_or_si128 (mm_srli_epi32 (inp ! 9) 31) (mm_slli_epi32 (mm_and_si128 (inp ! 10) (mm_set1_epi32 1023)) (11 - 10)),
     mm_and_si128 (mm_srli_epi32 (inp ! 10) 10) mask, mm_srli_epi32 (inp ! 10) 21])"

definition SIMD_fastunpack12_32 :: "m128i list \<Rightarrow> m128i list" where
  "SIMD_fastunpack12_32 inp =
    (let mask = mm_set1_epi32 4095 in
    [mm_and_si128 (inp ! 0) mask, mm_and_si128 (mm_srli_epi32 (inp ! 0) 12) mask,
     mm_or_si128 (mm_srli_epi32 (inp ! 0) 24) (mm_slli_epi32 (mm_and_si128 (inp ! 1) (mm_set1_epi32 15)) (12 - 4)),
     mm_and_si128 (mm_srli_epi32 (inp ! 1) 4) mask,
     mm_and_si128 (mm_srli_epi32 (inp ! 1) 16) mask,
     mm_or_si128 (mm_srli_epi32 (inp ! 1) 28) (mm_slli_epi32 (mm_and_si128 (inp ! 2) (mm_set1_epi32 255)) (12 - 8)),
     mm_and_si128 (mm_srli_epi32 (inp ! 2) 8) mask, mm_srli_epi32 (inp ! 2) 20,
     mm_and_si128 (inp ! 3) mask, mm_and_si128 (mm_srli_epi32 (inp ! 3) 12) mask,
     mm_or_si128 (mm_srli_epi32 (inp ! 3) 24) (mm_slli_epi32 (mm_and_si128 (inp ! 4) (mm_set1_epi32 15)) (12 - 4)),
     mm_and_si128 (mm_srli_epi32 (inp ! 4) 4) mask,
     mm_and_si128 (mm_srli_epi32 (inp ! 4) 16) mask,
     mm_or_si128 (mm_srli_epi32 (inp ! 4) 28) (mm_slli_epi32 (mm_and_si128 (inp ! 5) (mm_set1_epi32 255)) (12 - 8)),
     mm_and_si128 (mm_srli_epi32 (inp ! 5) 8) mask, mm_srli_epi32 (inp ! 5) 20,
     mm_and_si128 (inp ! 6) mask, mm_and_si128 (mm_srli_epi32 (inp ! 6) 12) mask,
     mm_or_si128 (mm_srli_epi32 (inp ! 6) 24) (mm_slli_epi32 (mm_and_si128 (inp ! 7) (mm_set1_epi32 15)) (12 - 4)),
     mm_and_si128 (mm_srli_epi32 (inp ! 7) 4) mask,
     mm_and_si128 (mm_srli_epi32 (inp ! 7) 16) mask,
     mm_or_si128 (mm_srli_epi32 (inp ! 7) 28) (mm_slli_epi32 (mm_and_si128 (inp ! 8) (mm_set1_epi32 255)) (12 - 8)),
     mm_and_si128 (mm_srli_epi32 (inp ! 8) 8) mask, mm_srli_epi32 (inp ! 8) 20,
     mm_and_si128 (inp ! 9) mask, mm_and_si128 (mm_srli_epi32 (inp ! 9) 12) mask,
     mm_or_si128 (mm_srli_epi32 (inp ! 9) 24) (mm_slli_epi32 (mm_and_si128 (inp ! 10) (mm_set1_epi32 15)) (12 - 4)),
     mm_and_si128 (mm_srli_epi32 (inp ! 10) 4) mask,
     mm_and_si128 (mm_srli_epi32 (inp ! 10) 16) mask,
     mm_or_si128 (mm_srli_epi32 (inp ! 10) 28) (mm_slli_epi32 (mm_and_si128 (inp ! 11) (mm_set1_epi32 255)) (12 - 8)),
     mm_and_si128 (mm_srli_epi32 (inp ! 11) 8) mask, mm_srli_epi32 (inp ! 11) 20])"

definition SIMD_fastunpack13_32 :: "m128i list \<Rightarrow> m128i list" where
  "SIMD_fastunpack13_32 inp =
    (let mask = mm_set1_epi32 8191 in
    [mm_and_si128 (inp ! 0) mask, mm_and_si128 (mm_srli_epi32 (inp ! 0) 13) mask,
     mm_or_si128 (mm_srli_epi32 (inp ! 0) 26) (mm_slli_epi32 (mm_and_si128 (inp ! 1) (mm_set1_epi32 127)) (13 - 7)),
     mm_and_si128 (mm_srli_epi32 (inp ! 1) 7) mask,
     mm_or_si128 (mm_srli_epi32 (inp ! 1) 20) (mm_slli_epi32 (mm_and_si128 (inp ! 2) (mm_set1_epi32 1)) (13 - 1)),
     mm_and_si128 (mm_srli_epi32 (inp ! 2) 1) mask,
     mm_and_si128 (mm_srli_epi32 (inp ! 2) 14) mask,
     mm_or_si128 (mm_srli_epi32 (inp ! 2) 27) (mm_slli_epi32 (mm_and_si128 (inp ! 3) (mm_set1_epi32 255)) (13 - 8)),
     mm_and_si128 (mm_srli_epi32 (inp ! 3) 8) mask,
     mm_or_si128 (mm_srli_epi32 (inp ! 3) 21) (mm_slli_epi32 (mm_and_si128 (inp ! 4) (mm_set1_epi32 3)) (13 - 2)),
     mm_and_si128 (mm_srli_epi32 (inp ! 4) 2) mask,
     mm_and_si128 (mm_srli_epi32 (inp ! 4) 15) mask,
     mm_or_si128 (mm_srli_epi32 (inp ! 4) 28) (mm_slli_epi32 (mm_and_si128 (inp ! 5) (mm_set1_epi32 511)) (13 - 9)),
     mm_and_si128 (mm_srli_epi32 (inp ! 5) 9) mask,
     mm_or_si128 (mm_srli_epi32 (inp ! 5) 22) (mm_slli_epi32 (mm_and_si128 (inp ! 6) (mm_set1_epi32 7)) (13 - 3)),
     mm_and_si128 (mm_srli_epi32 (inp ! 6) 3) mask,
     mm_and_si128 (mm_srli_epi32 (inp ! 6) 16) mask,
     mm_or_si128 (mm_srli_epi32 (inp ! 6) 29) (mm_slli_epi32 (mm_and_si128 (inp ! 7) (mm_set1_epi32 1023)) (13 - 10)),
     mm_and_si128 (mm_srli_epi32 (inp ! 7) 10) mask,
     mm_or_si128 (mm_srli_epi32 (inp ! 7) 23) (mm_slli_epi32 (mm_and_si128 (inp ! 8) (mm_set1_epi32 15)) (13 - 4)),
     mm_and_si128 (mm_srli_epi32 (inp ! 8) 4) mask,
     mm_and_si128 (mm_srli_epi32 (inp ! 8) 17) mask,
     mm_or_si128 (mm_srli_epi32 (inp ! 8) 30) (mm_slli_epi32 (mm_and_si128 (inp ! 9) (mm_set1_epi32 2047)) (13 - 11)),
     mm_and_si128 (mm_srli_epi32 (inp ! 9) 11) mask,
     mm_or_si128 (mm_srli_epi32 (inp ! 9) 24) (mm_slli_epi32 (mm_and_si128 (inp ! 10) (mm_set1_epi32 31)) (13 - 5)),
     mm_and_si128 (mm_srli_epi32 (inp ! 10) 5) mask,
     mm_and_si128 (mm_srli_epi32 (inp ! 10) 18) mask,
     mm_or_si128 (mm_srli_epi32 (inp ! 10) 31) (mm_slli_epi32 (mm_and_si128 (inp ! 11) (mm_set1_epi32 4095)) (13 - 12)),
     mm_and_si128 (mm_srli_epi32 (inp ! 11) 12) mask,
     mm_or_si128 (mm_srli_epi32 (inp ! 11) 25) (mm_slli_epi32 (mm_and_si128 (inp ! 12) (mm_set1_epi32 63)) (13 - 6)),
     mm_and_si128 (mm_srli_epi32 (inp ! 12) 6) mask, mm_srli_epi32 (inp ! 12) 19])"

definition SIMD_fastunpack14_32 :: "m128i list \<Rightarrow> m128i list" where
  "SIMD_fastunpack14_32 inp =
    (let mask = mm_set1_epi32 16383 in
    [mm_and_si128 (inp ! 0) mask, mm_and_si128 (mm_srli_epi32 (inp ! 0) 14) mask,
     mm_or_si128 (mm_srli_epi32 (inp ! 0) 28) (mm_slli_epi32 (mm_and_si128 (inp ! 1) (mm_set1_epi32 1023)) (14 - 10)),
     mm_and_si128 (mm_srli_epi32 (inp ! 1) 10) mask,
     mm_or_si128 (mm_srli_epi32 (inp ! 1) 24) (mm_slli_epi32 (mm_and_si128 (inp ! 2) (mm_set1_epi32 63)) (14 - 6)),
     mm_and_si128 (mm_srli_epi32 (inp ! 2) 6) mask,
     mm_or_si128 (mm_srli_epi32 (inp ! 2) 20) (mm_slli_epi32 (mm_and_si128 (inp ! 3) (mm_set1_epi32 3)) (14 - 2)),
     mm_and_si128 (mm_srli_epi32 (inp ! 3) 2) mask,
     mm_and_si128 (mm_srli_epi32 (inp ! 3) 16) mask,
     mm_or_si128 (mm_srli_epi32 (inp ! 3) 30) (mm_slli_epi32 (mm_and_si128 (inp ! 4) (mm_set1_epi32 4095)) (14 - 12)),
     mm_and_si128 (mm_srli_epi32 (inp ! 4) 12) mask,
     mm_or_si128 (mm_srli_epi32 (inp ! 4) 26) (mm_slli_epi32 (mm_and_si128 (inp ! 5) (mm_set1_epi32 255)) (14 - 8)),
     mm_and_si128 (mm_srli_epi32 (inp ! 5) 8) mask,
     mm_or_si128 (mm_srli_epi32 (inp ! 5) 22) (mm_slli_epi32 (mm_and_si128 (inp ! 6) (mm_set1_epi32 15)) (14 - 4)),
     mm_and_si128 (mm_srli_epi32 (inp ! 6) 4) mask, mm_srli_epi32 (inp ! 6) 18,
     mm_and_si128 (inp ! 7) mask, mm_and_si128 (mm_srli_epi32 (inp ! 7) 14) mask,
     mm_or_si128 (mm_srli_epi32 (inp ! 7) 28) (mm_slli_epi32 (mm_and_si128 (inp ! 8) (mm_set1_epi32 1023)) (14 - 10)),
     mm_and_si128 (mm_srli_epi32 (inp ! 8) 10) mask,
     mm_or_si128 (mm_srli_epi32 (inp ! 8) 24) (mm_slli_epi32 (mm_and_si128 (inp ! 9) (mm_set1_epi32 63)) (14 - 6)),
     mm_and_si128 (mm_srli_epi32 (inp ! 9) 6) mask,
     mm_or_si128 (mm_srli_epi32 (inp ! 9) 20) (mm_slli_epi32 (mm_and_si128 (inp ! 10) (mm_set1_epi32 3)) (14 - 2)),
     mm_and_si128 (mm_srli_epi32 (inp ! 10) 2) mask,
     mm_and_si128 (mm_srli_epi32 (inp ! 10) 16) mask,
     mm_or_si128 (mm_srli_epi32 (inp ! 10) 30) (mm_slli_epi32 (mm_and_si128 (inp ! 11) (mm_set1_epi32 4095)) (14 - 12)),
     mm_and_si128 (mm_srli_epi32 (inp ! 11) 12) mask,
     mm_or_si128 (mm_srli_epi32 (inp ! 11) 26) (mm_slli_epi32 (mm_and_si128 (inp ! 12) (mm_set1_epi32 255)) (14 - 8)),
     mm_and_si128 (mm_srli_epi32 (inp ! 12) 8) mask,
     mm_or_si128 (mm_srli_epi32 (inp ! 12) 22) (mm_slli_epi32 (mm_and_si128 (inp ! 13) (mm_set1_epi32 15)) (14 - 4)),
     mm_and_si128 (mm_srli_epi32 (inp ! 13) 4) mask, mm_srli_epi32 (inp ! 13) 18])"

definition SIMD_fastunpack15_32 :: "m128i list \<Rightarrow> m128i list" where
  "SIMD_fastunpack15_32 inp =
    (let mask = mm_set1_epi32 32767 in
    [mm_and_si128 (inp ! 0) mask, mm_and_si128 (mm_srli_epi32 (inp ! 0) 15) mask,
     mm_or_si128 (mm_srli_epi32 (inp ! 0) 30) (mm_slli_epi32 (mm_and_si128 (inp ! 1) (mm_set1_epi32 8191)) (15 - 13)),
     mm_and_si128 (mm_srli_epi32 (inp ! 1) 13) mask,
     mm_or_si128 (mm_srli_epi32 (inp ! 1) 28) (mm_slli_epi32 (mm_and_si128 (inp ! 2) (mm_set1_epi32 2047)) (15 - 11)),
     mm_and_si128 (mm_srli_epi32 (inp ! 2) 11) mask,
     mm_or_si128 (mm_srli_epi32 (inp ! 2) 26) (mm_slli_epi32 (mm_and_si128 (inp ! 3) (mm_set1_epi32 511)) (15 - 9)),
     mm_and_si128 (mm_srli_epi32 (inp ! 3) 9) mask,
     mm_or_si128 (mm_srli_epi32 (inp ! 3) 24) (mm_slli_epi32 (mm_and_si128 (inp ! 4) (mm_set1_epi32 127)) (15 - 7)),
     mm_and_si128 (mm_srli_epi32 (inp ! 4) 7) mask,
     mm_or_si128 (mm_srli_epi32 (inp ! 4) 22) (mm_slli_epi32 (mm_and_si128 (inp ! 5) (mm_set1_epi32 31)) (15 - 5)),
     mm_and_si128 (mm_srli_epi32 (inp ! 5) 5) mask,
     mm_or_si128 (mm_srli_epi32 (inp ! 5) 20) (mm_slli_epi32 (mm_and_si128 (inp ! 6) (mm_set1_epi32 7)) (15 - 3)),
     mm_and_si128 (mm_srli_epi32 (inp ! 6) 3) mask,
     mm_or_si128 (mm_srli_epi32 (inp ! 6) 18) (mm_slli_epi32 (mm_and_si128 (inp ! 7) (mm_set1_epi32 1)) (15 - 1)),
     mm_and_si128 (mm_srli_epi32 (inp ! 7) 1) mask,
     mm_and_si128 (mm_srli_epi32 (inp ! 7) 16) mask,
     mm_or_si128 (mm_srli_epi32 (inp ! 7) 31) (mm_slli_epi32 (mm_and_si128 (inp ! 8) (mm_set1_epi32 16383)) (15 - 14)),
     mm_and_si128 (mm_srli_epi32 (inp ! 8) 14) mask,
     mm_or_si128 (mm_srli_epi32 (inp ! 8) 29) (mm_slli_epi32 (mm_and_si128 (inp ! 9) (mm_set1_epi32 4095)) (15 - 12)),
     mm_and_si128 (mm_srli_epi32 (inp ! 9) 12) mask,
     mm_or_si128 (mm_srli_epi32 (inp ! 9) 27) (mm_slli_epi32 (mm_and_si128 (inp ! 10) (mm_set1_epi32 1023)) (15 - 10)),
     mm_and_si128 (mm_srli_epi32 (inp ! 10) 10) mask,
     mm_or_si128 (mm_srli_epi32 (inp ! 10) 25) (mm_slli_epi32 (mm_and_si128 (inp ! 11) (mm_set1_epi32 255)) (15 - 8)),
     mm_and_si128 (mm_srli_epi32 (inp ! 11) 8) mask,
     mm_or_si128 (mm_srli_epi32 (inp ! 11) 23) (mm_slli_epi32 (mm_and_si128 (inp ! 12) (mm_set1_epi32 63)) (15 - 6)),
     mm_and_si128 (mm_srli_epi32 (inp ! 12) 6) mask,
     mm_or_si128 (mm_srli_epi32 (inp ! 12) 21) (mm_slli_epi32 (mm_and_si128 (inp ! 13) (mm_set1_epi32 15)) (15 - 4)),
     mm_and_si128 (mm_srli_epi32 (inp ! 13) 4) mask,
     mm_or_si128 (mm_srli_epi32 (inp ! 13) 19) (mm_slli_epi32 (mm_and_si128 (inp ! 14) (mm_set1_epi32 3)) (15 - 2)),
     mm_and_si128 (mm_srli_epi32 (inp ! 14) 2) mask, mm_srli_epi32 (inp ! 14) 17])"

definition SIMD_fastunpack16_32 :: "m128i list \<Rightarrow> m128i list" where
  "SIMD_fastunpack16_32 inp =
    (let mask = mm_set1_epi32 65535 in
    [mm_and_si128 (inp ! 0) mask, mm_srli_epi32 (inp ! 0) 16, mm_and_si128 (inp ! 1) mask,
     mm_srli_epi32 (inp ! 1) 16, mm_and_si128 (inp ! 2) mask, mm_srli_epi32 (inp ! 2) 16,
     mm_and_si128 (inp ! 3) mask, mm_srli_epi32 (inp ! 3) 16, mm_and_si128 (inp ! 4) mask,
     mm_srli_epi32 (inp ! 4) 16, mm_and_si128 (inp ! 5) mask, mm_srli_epi32 (inp ! 5) 16,
     mm_and_si128 (inp ! 6) mask, mm_srli_epi32 (inp ! 6) 16, mm_and_si128 (inp ! 7) mask,
     mm_srli_epi32 (inp ! 7) 16, mm_and_si128 (inp ! 8) mask, mm_srli_epi32 (inp ! 8) 16,
     mm_and_si128 (inp ! 9) mask, mm_srli_epi32 (inp ! 9) 16, mm_and_si128 (inp ! 10) mask,
     mm_srli_epi32 (inp ! 10) 16, mm_and_si128 (inp ! 11) mask, mm_srli_epi32 (inp ! 11) 16,
     mm_and_si128 (inp ! 12) mask, mm_srli_epi32 (inp ! 12) 16, mm_and_si128 (inp ! 13) mask,
     mm_srli_epi32 (inp ! 13) 16, mm_and_si128 (inp ! 14) mask, mm_srli_epi32 (inp ! 14) 16,
     mm_and_si128 (inp ! 15) mask, mm_srli_epi32 (inp ! 15) 16])"

definition SIMD_fastunpack17_32 :: "m128i list \<Rightarrow> m128i list" where
  "SIMD_fastunpack17_32 inp =
    (let mask = mm_set1_epi32 131071 in
    [mm_and_si128 (inp ! 0) mask,
     mm_or_si128 (mm_srli_epi32 (inp ! 0) 17) (mm_slli_epi32 (mm_and_si128 (inp ! 1) (mm_set1_epi32 3)) (17 - 2)),
     mm_and_si128 (mm_srli_epi32 (inp ! 1) 2) mask,
     mm_or_si128 (mm_srli_epi32 (inp ! 1) 19) (mm_slli_epi32 (mm_and_si128 (inp ! 2) (mm_set1_epi32 15)) (17 - 4)),
     mm_and_si128 (mm_srli_epi32 (inp ! 2) 4) mask,
     mm_or_si128 (mm_srli_epi32 (inp ! 2) 21) (mm_slli_epi32 (mm_and_si128 (inp ! 3) (mm_set1_epi32 63)) (17 - 6)),
     mm_and_si128 (mm_srli_epi32 (inp ! 3) 6) mask,
     mm_or_si128 (mm_srli_epi32 (inp ! 3) 23) (mm_slli_epi32 (mm_and_si128 (inp ! 4) (mm_set1_epi32 255)) (17 - 8)),
     mm_and_si128 (mm_srli_epi32 (inp ! 4) 8) mask,
     mm_or_si128 (mm_srli_epi32 (inp ! 4) 25) (mm_slli_epi32 (mm_and_si128 (inp ! 5) (mm_set1_epi32 1023)) (17 - 10)),
     mm_and_si128 (mm_srli_epi32 (inp ! 5) 10) mask,
     mm_or_si128 (mm_srli_epi32 (inp ! 5) 27) (mm_slli_epi32 (mm_and_si128 (inp ! 6) (mm_set1_epi32 4095)) (17 - 12)),
     mm_and_si128 (mm_srli_epi32 (inp ! 6) 12) mask,
     mm_or_si128 (mm_srli_epi32 (inp ! 6) 29) (mm_slli_epi32 (mm_and_si128 (inp ! 7) (mm_set1_epi32 16383)) (17 - 14)),
     mm_and_si128 (mm_srli_epi32 (inp ! 7) 14) mask,
     mm_or_si128 (mm_srli_epi32 (inp ! 7) 31) (mm_slli_epi32 (mm_and_si128 (inp ! 8) (mm_set1_epi32 65535)) (17 - 16)),
     mm_or_si128 (mm_srli_epi32 (inp ! 8) 16) (mm_slli_epi32 (mm_and_si128 (inp ! 9) (mm_set1_epi32 1)) (17 - 1)),
     mm_and_si128 (mm_srli_epi32 (inp ! 9) 1) mask,
     mm_or_si128 (mm_srli_epi32 (inp ! 9) 18) (mm_slli_epi32 (mm_and_si128 (inp ! 10) (mm_set1_epi32 7)) (17 - 3)),
     mm_and_si128 (mm_srli_epi32 (inp ! 10) 3) mask,
     mm_or_si128 (mm_srli_epi32 (inp ! 10) 20) (mm_slli_epi32 (mm_and_si128 (inp ! 11) (mm_set1_epi32 31)) (17 - 5)),
     mm_and_si128 (mm_srli_epi32 (inp ! 11) 5) mask,
     mm_or_si128 (mm_srli_epi32 (inp ! 11) 22) (mm_slli_epi32 (mm_and_si128 (inp ! 12) (mm_set1_epi32 127)) (17 - 7)),
     mm_and_si128 (mm_srli_epi32 (inp ! 12) 7) mask,
     mm_or_si128 (mm_srli_epi32 (inp ! 12) 24) (mm_slli_epi32 (mm_and_si128 (inp ! 13) (mm_set1_epi32 511)) (17 - 9)),
     mm_and_si128 (mm_srli_epi32 (inp ! 13) 9) mask,
     mm_or_si128 (mm_srli_epi32 (inp ! 13) 26) (mm_slli_epi32 (mm_and_si128 (inp ! 14) (mm_set1_epi32 2047)) (17 - 11)),
     mm_and_si128 (mm_srli_epi32 (inp ! 14) 11) mask,
     mm_or_si128 (mm_srli_epi32 (inp ! 14) 28) (mm_slli_epi32 (mm_and_si128 (inp ! 15) (mm_set1_epi32 8191)) (17 - 13)),
     mm_and_si128 (mm_srli_epi32 (inp ! 15) 13) mask,
     mm_or_si128 (mm_srli_epi32 (inp ! 15) 30) (mm_slli_epi32 (mm_and_si128 (inp ! 16) (mm_set1_epi32 32767)) (17 - 15)),
     mm_srli_epi32 (inp ! 16) 15])"

definition SIMD_fastunpack18_32 :: "m128i list \<Rightarrow> m128i list" where
  "SIMD_fastunpack18_32 inp =
    (let mask = mm_set1_epi32 262143 in
    [mm_and_si128 (inp ! 0) mask,
     mm_or_si128 (mm_srli_epi32 (inp ! 0) 18) (mm_slli_epi32 (mm_and_si128 (inp ! 1) (mm_set1_epi32 15)) (18 - 4)),
     mm_and_si128 (mm_srli_epi32 (inp ! 1) 4) mask,
     mm_or_si128 (mm_srli_epi32 (inp ! 1) 22) (mm_slli_epi32 (mm_and_si128 (inp ! 2) (mm_set1_epi32 255)) (18 - 8)),
     mm_and_si128 (mm_srli_epi32 (inp ! 2) 8) mask,
     mm_or_si128 (mm_srli_epi32 (inp ! 2) 26) (mm_slli_epi32 (mm_and_si128 (inp ! 3) (mm_set1_epi32 4095)) (18 - 12)),
     mm_and_si128 (mm_srli_epi32 (inp ! 3) 12) mask,
     mm_or_si128 (mm_srli_epi32 (inp ! 3) 30) (mm_slli_epi32 (mm_and_si128 (inp ! 4) (mm_set1_epi32 65535)) (18 - 16)),
     mm_or_si128 (mm_srli_epi32 (inp ! 4) 16) (mm_slli_epi32 (mm_and_si128 (inp ! 5) (mm_set1_epi32 3)) (18 - 2)),
     mm_and_si128 (mm_srli_epi32 (inp ! 5) 2) mask,
     mm_or_si128 (mm_srli_epi32 (inp ! 5) 20) (mm_slli_epi32 (mm_and_si128 (inp ! 6) (mm_set1_epi32 63)) (18 - 6)),
     mm_and_si128 (mm_srli_epi32 (inp ! 6) 6) mask,
     mm_or_si128 (mm_srli_epi32 (inp ! 6) 24) (mm_slli_epi32 (mm_and_si128 (inp ! 7) (mm_set1_epi32 1023)) (18 - 10)),
     mm_and_si128 (mm_srli_epi32 (inp ! 7) 10) mask,
     mm_or_si128 (mm_srli_epi32 (inp ! 7) 28) (mm_slli_epi32 (mm_and_si128 (inp ! 8) (mm_set1_epi32 16383)) (18 - 14)),
     mm_srli_epi32 (inp ! 8) 14, mm_and_si128 (inp ! 9) mask,
     mm_or_si128 (mm_srli_epi32 (inp ! 9) 18) (mm_slli_epi32 (mm_and_si128 (inp ! 10) (mm_set1_epi32 15)) (18 - 4)),
     mm_and_si128 (mm_srli_epi32 (inp ! 10) 4) mask,
     mm_or_si128 (mm_srli_epi32 (inp ! 10) 22) (mm_slli_epi32 (mm_and_si128 (inp ! 11) (mm_set1_epi32 255)) (18 - 8)),
     mm_and_si128 (mm_srli_epi32 (inp ! 11) 8) mask,
     mm_or_si128 (mm_srli_epi32 (inp ! 11) 26) (mm_slli_epi32 (mm_and_si128 (inp ! 12) (mm_set1_epi32 4095)) (18 - 12)),
     mm_and_si128 (mm_srli_epi32 (inp ! 12) 12) mask,
     mm_or_si128 (mm_srli_epi32 (inp ! 12) 30) (mm_slli_epi32 (mm_and_si128 (inp ! 13) (mm_set1_epi32 65535)) (18 - 16)),
     mm_or_si128 (mm_srli_epi32 (inp ! 13) 16) (mm_slli_epi32 (mm_and_si128 (inp ! 14) (mm_set1_epi32 3)) (18 - 2)),
     mm_and_si128 (mm_srli_epi32 (inp ! 14) 2) mask,
     mm_or_si128 (mm_srli_epi32 (inp ! 14) 20) (mm_slli_epi32 (mm_and_si128 (inp ! 15) (mm_set1_epi32 63)) (18 - 6)),
     mm_and_si128 (mm_srli_epi32 (inp ! 15) 6) mask,
     mm_or_si128 (mm_srli_epi32 (inp ! 15) 24) (mm_slli_epi32 (mm_and_si128 (inp ! 16) (mm_set1_epi32 1023)) (18 - 10)),
     mm_and_si128 (mm_srli_epi32 (inp ! 16) 10) mask,
     mm_or_si128 (mm_srli_epi32 (inp ! 16) 28) (mm_slli_epi32 (mm_and_si128 (inp ! 17) (mm_set1_epi32 16383)) (18 - 14)),
     mm_srli_epi32 (inp ! 17) 14])"

definition SIMD_fastunpack19_32 :: "m128i list \<Rightarrow> m128i list" where
  "SIMD_fastunpack19_32 inp =
    (let mask = mm_set1_epi32 524287 in
    [mm_and_si128 (inp ! 0) mask,
     mm_or_si128 (mm_srli_epi32 (inp ! 0) 19) (mm_slli_epi32 (mm_and_si128 (inp ! 1) (mm_set1_epi32 63)) (19 - 6)),
     mm_and_si128 (mm_srli_epi32 (inp ! 1) 6) mask,
     mm_or_si128 (mm_srli_epi32 (inp ! 1) 25) (mm_slli_epi32 (mm_and_si128 (inp ! 2) (mm_set1_epi32 4095)) (19 - 12)),
     mm_and_si128 (mm_srli_epi32 (inp ! 2) 12) mask,
     mm_or_si128 (mm_srli_epi32 (inp ! 2) 31) (mm_slli_epi32 (mm_and_si128 (inp ! 3) (mm_set1_epi32 262143)) (19 - 18)),
     mm_or_si128 (mm_srli_epi32 (inp ! 3) 18) (mm_slli_epi32 (mm_and_si128 (inp ! 4) (mm_set1_epi32 31)) (19 - 5)),
     mm_and_si128 (mm_srli_epi32 (inp ! 4) 5) mask,
     mm_or_si128 (mm_srli_epi32 (inp ! 4) 24) (mm_slli_epi32 (mm_and_si128 (inp ! 5) (mm_set1_epi32 2047)) (19 - 11)),
     mm_and_si128 (mm_srli_epi32 (inp ! 5) 11) mask,
     mm_or_si128 (mm_srli_epi32 (inp ! 5) 30) (mm_slli_epi32 (mm_and_si128 (inp ! 6) (mm_set1_epi32 131071)) (19 - 17)),
     mm_or_si128 (mm_srli_epi32 (inp ! 6) 17) (mm_slli_epi32 (mm_and_si128 (inp ! 7) (mm_set1_epi32 15)) (19 - 4)),
     mm_and_si128 (mm_srli_epi32 (inp ! 7) 4) mask,
     mm_or_si128 (mm_srli_epi32 (inp ! 7) 23) (mm_slli_epi32 (mm_and_si128 (inp ! 8) (mm_set1_epi32 1023)) (19 - 10)),
     mm_and_si128 (mm_srli_epi32 (inp ! 8) 10) mask,
     mm_or_si128 (mm_srli_epi32 (inp ! 8) 29) (mm_slli_epi32 (mm_and_si128 (inp ! 9) (mm_set1_epi32 65535)) (19 - 16)),
     mm_or_si128 (mm_srli_epi32 (inp ! 9) 16) (mm_slli_epi32 (mm_and_si128 (inp ! 10) (mm_set1_epi32 7)) (19 - 3)),
     mm_and_si128 (mm_srli_epi32 (inp ! 10) 3) mask,
     mm_or_si128 (mm_srli_epi32 (inp ! 10) 22) (mm_slli_epi32 (mm_and_si128 (inp ! 11) (mm_set1_epi32 511)) (19 - 9)),
     mm_and_si128 (mm_srli_epi32 (inp ! 11) 9) mask,
     mm_or_si128 (mm_srli_epi32 (inp ! 11) 28) (mm_slli_epi32 (mm_and_si128 (inp ! 12) (mm_set1_epi32 32767)) (19 - 15)),
     mm_or_si128 (mm_srli_epi32 (inp ! 12) 15) (mm_slli_epi32 (mm_and_si128 (inp ! 13) (mm_set1_epi32 3)) (19 - 2)),
     mm_and_si128 (mm_srli_epi32 (inp ! 13) 2) mask,
     mm_or_si128 (mm_srli_epi32 (inp ! 13) 21) (mm_slli_epi32 (mm_and_si128 (inp ! 14) (mm_set1_epi32 255)) (19 - 8)),
     mm_and_si128 (mm_srli_epi32 (inp ! 14) 8) mask,
     mm_or_si128 (mm_srli_epi32 (inp ! 14) 27) (mm_slli_epi32 (mm_and_si128 (inp ! 15) (mm_set1_epi32 16383)) (19 - 14)),
     mm_or_si128 (mm_srli_epi32 (inp ! 15) 14) (mm_slli_epi32 (mm_and_si128 (inp ! 16) (mm_set1_epi32 1)) (19 - 1)),
     mm_and_si128 (mm_srli_epi32 (inp ! 16) 1) mask,
     mm_or_si128 (mm_srli_epi32 (inp ! 16) 20) (mm_slli_epi32 (mm_and_si128 (inp ! 17) (mm_set1_epi32 127)) (19 - 7)),
     mm_and_si128 (mm_srli_epi32 (inp ! 17) 7) mask,
     mm_or_si128 (mm_srli_epi32 (inp ! 17) 26) (mm_slli_epi32 (mm_and_si128 (inp ! 18) (mm_set1_epi32 8191)) (19 - 13)),
     mm_srli_epi32 (inp ! 18) 13])"

definition SIMD_fastunpack20_32 :: "m128i list \<Rightarrow> m128i list" where
  "SIMD_fastunpack20_32 inp =
    (let mask = mm_set1_epi32 1048575 in
    [mm_and_si128 (inp ! 0) mask,
     mm_or_si128 (mm_srli_epi32 (inp ! 0) 20) (mm_slli_epi32 (mm_and_si128 (inp ! 1) (mm_set1_epi32 255)) (20 - 8)),
     mm_and_si128 (mm_srli_epi32 (inp ! 1) 8) mask,
     mm_or_si128 (mm_srli_epi32 (inp ! 1) 28) (mm_slli_epi32 (mm_and_si128 (inp ! 2) (mm_set1_epi32 65535)) (20 - 16)),
     mm_or_si128 (mm_srli_epi32 (inp ! 2) 16) (mm_slli_epi32 (mm_and_si128 (inp ! 3) (mm_set1_epi32 15)) (20 - 4)),
     mm_and_si128 (mm_srli_epi32 (inp ! 3) 4) mask,
     mm_or_si128 (mm_srli_epi32 (inp ! 3) 24) (mm_slli_epi32 (mm_and_si128 (inp ! 4) (mm_set1_epi32 4095)) (20 - 12)),
     mm_srli_epi32 (inp ! 4) 12, mm_and_si128 (inp ! 5) mask,
     mm_or_si128 (mm_srli_epi32 (inp ! 5) 20) (mm_slli_epi32 (mm_and_si128 (inp ! 6) (mm_set1_epi32 255)) (20 - 8)),
     mm_and_si128 (mm_srli_epi32 (inp ! 6) 8) mask,
     mm_or_si128 (mm_srli_epi32 (inp ! 6) 28) (mm_slli_epi32 (mm_and_si128 (inp ! 7) (mm_set1_epi32 65535)) (20 - 16)),
     mm_or_si128 (mm_srli_epi32 (inp ! 7) 16) (mm_slli_epi32 (mm_and_si128 (inp ! 8) (mm_set1_epi32 15)) (20 - 4)),
     mm_and_si128 (mm_srli_epi32 (inp ! 8) 4) mask,
     mm_or_si128 (mm_srli_epi32 (inp ! 8) 24) (mm_slli_epi32 (mm_and_si128 (inp ! 9) (mm_set1_epi32 4095)) (20 - 12)),
     mm_srli_epi32 (inp ! 9) 12, mm_and_si128 (inp ! 10) mask,
     mm_or_si128 (mm_srli_epi32 (inp ! 10) 20) (mm_slli_epi32 (mm_and_si128 (inp ! 11) (mm_set1_epi32 255)) (20 - 8)),
     mm_and_si128 (mm_srli_epi32 (inp ! 11) 8) mask,
     mm_or_si128 (mm_srli_epi32 (inp ! 11) 28) (mm_slli_epi32 (mm_and_si128 (inp ! 12) (mm_set1_epi32 65535)) (20 - 16)),
     mm_or_si128 (mm_srli_epi32 (inp ! 12) 16) (mm_slli_epi32 (mm_and_si128 (inp ! 13) (mm_set1_epi32 15)) (20 - 4)),
     mm_and_si128 (mm_srli_epi32 (inp ! 13) 4) mask,
     mm_or_si128 (mm_srli_epi32 (inp ! 13) 24) (mm_slli_epi32 (mm_and_si128 (inp ! 14) (mm_set1_epi32 4095)) (20 - 12)),
     mm_srli_epi32 (inp ! 14) 12, mm_and_si128 (inp ! 15) mask,
     mm_or_si128 (mm_srli_epi32 (inp ! 15) 20) (mm_slli_epi32 (mm_and_si128 (inp ! 16) (mm_set1_epi32 255)) (20 - 8)),
     mm_and_si128 (mm_srli_epi32 (inp ! 16) 8) mask,
     mm_or_si128 (mm_srli_epi32 (inp ! 16) 28) (mm_slli_epi32 (mm_and_si128 (inp ! 17) (mm_set1_epi32 65535)) (20 - 16)),
     mm_or_si128 (mm_srli_epi32 (inp ! 17) 16) (mm_slli_epi32 (mm_and_si128 (inp ! 18) (mm_set1_epi32 15)) (20 - 4)),
     mm_and_si128 (mm_srli_epi32 (inp ! 18) 4) mask,
     mm_or_si128 (mm_srli_epi32 (inp ! 18) 24) (mm_slli_epi32 (mm_and_si128 (inp ! 19) (mm_set1_epi32 4095)) (20 - 12)),
     mm_srli_epi32 (inp ! 19) 12])"

definition SIMD_fastunpack21_32 :: "m128i list \<Rightarrow> m128i list" where
  "SIMD_fastunpack21_32 inp =
    (let mask = mm_set1_epi32 2097151 in
    [mm_and_si128 (inp ! 0) mask,
     mm_or_si128 (mm_srli_epi32 (inp ! 0) 21) (mm_slli_epi32 (mm_and_si128 (inp ! 1) (mm_set1_epi32 1023)) (21 - 10)),
     mm_and_si128 (mm_srli_epi32 (inp ! 1) 10) mask,
     mm_or_si128 (mm_srli_epi32 (inp ! 1) 31) (mm_slli_epi32 (mm_and_si128 (inp ! 2) (mm_set1_epi32 1048575)) (21 - 20)),
     mm_or_si128 (mm_srli_epi32 (inp ! 2) 20) (mm_slli_epi32 (mm_and_si128 (inp ! 3) (mm_set1_epi32 511)) (21 - 9)),
     mm_and_si128 (mm_srli_epi32 (inp ! 3) 9) mask,
     mm_or_si128 (mm_srli_epi32 (inp ! 3) 30) (mm_slli_epi32 (mm_and_si128 (inp ! 4) (mm_set1_epi32 524287)) (21 - 19)),
     mm_or_si128 (mm_srli_epi32 (inp ! 4) 19) (mm_slli_epi32 (mm_and_si128 (inp ! 5) (mm_set1_epi32 255)) (21 - 8)),
     mm_and_si128 (mm_srli_epi32 (inp ! 5) 8) mask,
     mm_or_si128 (mm_srli_epi32 (inp ! 5) 29) (mm_slli_epi32 (mm_and_si128 (inp ! 6) (mm_set1_epi32 262143)) (21 - 18)),
     mm_or_si128 (mm_srli_epi32 (inp ! 6) 18) (mm_slli_epi32 (mm_and_si128 (inp ! 7) (mm_set1_epi32 127)) (21 - 7)),
     mm_and_si128 (mm_srli_epi32 (inp ! 7) 7) mask,
     mm_or_si128 (mm_srli_epi32 (inp ! 7) 28) (mm_slli_epi32 (mm_and_si128 (inp ! 8) (mm_set1_epi32 131071)) (21 - 17)),
     mm_or_si128 (mm_srli_epi32 (inp ! 8) 17) (mm_slli_epi32 (mm_and_si128 (inp ! 9) (mm_set1_epi32 63)) (21 - 6)),
     mm_and_si128 (mm_srli_epi32 (inp ! 9) 6) mask,
     mm_or_si128 (mm_srli_epi32 (inp ! 9) 27) (mm_slli_epi32 (mm_and_si128 (inp ! 10) (mm_set1_epi32 65535)) (21 - 16)),
     mm_or_si128 (mm_srli_epi32 (inp ! 10) 16) (mm_slli_epi32 (mm_and_si128 (inp ! 11) (mm_set1_epi32 31)) (21 - 5)),
     mm_and_si128 (mm_srli_epi32 (inp ! 11) 5) mask,
     mm_or_si128 (mm_srli_epi32 (inp ! 11) 26) (mm_slli_epi32 (mm_and_si128 (inp ! 12) (mm_set1_epi32 32767)) (21 - 15)),
     mm_or_si128 (mm_srli_epi32 (inp ! 12) 15) (mm_slli_epi32 (mm_and_si128 (inp ! 13) (mm_set1_epi32 15)) (21 - 4)),
     mm_and_si128 (mm_srli_epi32 (inp ! 13) 4) mask,
     mm_or_si128 (mm_srli_epi32 (inp ! 13) 25) (mm_slli_epi32 (mm_and_si128 (inp ! 14) (mm_set1_epi32 16383)) (21 - 14)),
     mm_or_si128 (mm_srli_epi32 (inp ! 14) 14) (mm_slli_epi32 (mm_and_si128 (inp ! 15) (mm_set1_epi32 7)) (21 - 3)),
     mm_and_si128 (mm_srli_epi32 (inp ! 15) 3) mask,
     mm_or_si128 (mm_srli_epi32 (inp ! 15) 24) (mm_slli_epi32 (mm_and_si128 (inp ! 16) (mm_set1_epi32 8191)) (21 - 13)),
     mm_or_si128 (mm_srli_epi32 (inp ! 16) 13) (mm_slli_epi32 (mm_and_si128 (inp ! 17) (mm_set1_epi32 3)) (21 - 2)),
     mm_and_si128 (mm_srli_epi32 (inp ! 17) 2) mask,
     mm_or_si128 (mm_srli_epi32 (inp ! 17) 23) (mm_slli_epi32 (mm_and_si128 (inp ! 18) (mm_set1_epi32 4095)) (21 - 12)),
     mm_or_si128 (mm_srli_epi32 (inp ! 18) 12) (mm_slli_epi32 (mm_and_si128 (inp ! 19) (mm_set1_epi32 1)) (21 - 1)),
     mm_and_si128 (mm_srli_epi32 (inp ! 19) 1) mask,
     mm_or_si128 (mm_srli_epi32 (inp ! 19) 22) (mm_slli_epi32 (mm_and_si128 (inp ! 20) (mm_set1_epi32 2047)) (21 - 11)),
     mm_srli_epi32 (inp ! 20) 11])"

definition SIMD_fastunpack22_32 :: "m128i list \<Rightarrow> m128i list" where
  "SIMD_fastunpack22_32 inp =
    (let mask = mm_set1_epi32 4194303 in
    [mm_and_si128 (inp ! 0) mask,
     mm_or_si128 (mm_srli_epi32 (inp ! 0) 22) (mm_slli_epi32 (mm_and_si128 (inp ! 1) (mm_set1_epi32 4095)) (22 - 12)),
     mm_or_si128 (mm_srli_epi32 (inp ! 1) 12) (mm_slli_epi32 (mm_and_si128 (inp ! 2) (mm_set1_epi32 3)) (22 - 2)),
     mm_and_si128 (mm_srli_epi32 (inp ! 2) 2) mask,
     mm_or_si128 (mm_srli_epi32 (inp ! 2) 24) (mm_slli_epi32 (mm_and_si128 (inp ! 3) (mm_set1_epi32 16383)) (22 - 14)),
     mm_or_si128 (mm_srli_epi32 (inp ! 3) 14) (mm_slli_epi32 (mm_and_si128 (inp ! 4) (mm_set1_epi32 15)) (22 - 4)),
     mm_and_si128 (mm_srli_epi32 (inp ! 4) 4) mask,
     mm_or_si128 (mm_srli_epi32 (inp ! 4) 26) (mm_slli_epi32 (mm_and_si128 (inp ! 5) (mm_set1_epi32 65535)) (22 - 16)),
     mm_or_si128 (mm_srli_epi32 (inp ! 5) 16) (mm_slli_epi32 (mm_and_si128 (inp ! 6) (mm_set1_epi32 63)) (22 - 6)),
     mm_and_si128 (mm_srli_epi32 (inp ! 6) 6) mask,
     mm_or_si128 (mm_srli_epi32 (inp ! 6) 28) (mm_slli_epi32 (mm_and_si128 (inp ! 7) (mm_set1_epi32 262143)) (22 - 18)),
     mm_or_si128 (mm_srli_epi32 (inp ! 7) 18) (mm_slli_epi32 (mm_and_si128 (inp ! 8) (mm_set1_epi32 255)) (22 - 8)),
     mm_and_si128 (mm_srli_epi32 (inp ! 8) 8) mask,
     mm_or_si128 (mm_srli_epi32 (inp ! 8) 30) (mm_slli_epi32 (mm_and_si128 (inp ! 9) (mm_set1_epi32 1048575)) (22 - 20)),
     mm_or_si128 (mm_srli_epi32 (inp ! 9) 20) (mm_slli_epi32 (mm_and_si128 (inp ! 10) (mm_set1_epi32 1023)) (22 - 10)),
     mm_srli_epi32 (inp ! 10) 10, mm_and_si128 (inp ! 11) mask,
     mm_or_si128 (mm_srli_epi32 (inp ! 11) 22) (mm_slli_epi32 (mm_and_si128 (inp ! 12) (mm_set1_epi32 4095)) (22 - 12)),
     mm_or_si128 (mm_srli_epi32 (inp ! 12) 12) (mm_slli_epi32 (mm_and_si128 (inp ! 13) (mm_set1_epi32 3)) (22 - 2)),
     mm_and_si128 (mm_srli_epi32 (inp ! 13) 2) mask,
     mm_or_si128 (mm_srli_epi32 (inp ! 13) 24) (mm_slli_epi32 (mm_and_si128 (inp ! 14) (mm_set1_epi32 16383)) (22 - 14)),
     mm_or_si128 (mm_srli_epi32 (inp ! 14) 14) (mm_slli_epi32 (mm_and_si128 (inp ! 15) (mm_set1_epi32 15)) (22 - 4)),
     mm_and_si128 (mm_srli_epi32 (inp ! 15) 4) mask,
     mm_or_si128 (mm_srli_epi32 (inp ! 15) 26) (mm_slli_epi32 (mm_and_si128 (inp ! 16) (mm_set1_epi32 65535)) (22 - 16)),
     mm_or_si128 (mm_srli_epi32 (inp ! 16) 16) (mm_slli_epi32 (mm_and_si128 (inp ! 17) (mm_set1_epi32 63)) (22 - 6)),
     mm_and_si128 (mm_srli_epi32 (inp ! 17) 6) mask,
     mm_or_si128 (mm_srli_epi32 (inp ! 17) 28) (mm_slli_epi32 (mm_and_si128 (inp ! 18) (mm_set1_epi32 262143)) (22 - 18)),
     mm_or_si128 (mm_srli_epi32 (inp ! 18) 18) (mm_slli_epi32 (mm_and_si128 (inp ! 19) (mm_set1_epi32 255)) (22 - 8)),
     mm_and_si128 (mm_srli_epi32 (inp ! 19) 8) mask,
     mm_or_si128 (mm_srli_epi32 (inp ! 19) 30) (mm_slli_epi32 (mm_and_si128 (inp ! 20) (mm_set1_epi32 1048575)) (22 - 20)),
     mm_or_si128 (mm_srli_epi32 (inp ! 20) 20) (mm_slli_epi32 (mm_and_si128 (inp ! 21) (mm_set1_epi32 1023)) (22 - 10)),
     mm_srli_epi32 (inp ! 21) 10])"

definition SIMD_fastunpack23_32 :: "m128i list \<Rightarrow> m128i list" where
  "SIMD_fastunpack23_32 inp =
    (let mask = mm_set1_epi32 8388607 in
    [mm_and_si128 (inp ! 0) mask,
     mm_or_si128 (mm_srli_epi32 (inp ! 0) 23) (mm_slli_epi32 (mm_and_si128 (inp ! 1) (mm_set1_epi32 16383)) (23 - 14)),
     mm_or_si128 (mm_srli_epi32 (inp ! 1) 14) (mm_slli_epi32 (mm_and_si128 (inp ! 2) (mm_set1_epi32 31)) (23 - 5)),
     mm_and_si128 (mm_srli_epi32 (inp ! 2) 5) mask,
     mm_or_si128 (mm_srli_epi32 (inp ! 2) 28) (mm_slli_epi32 (mm_and_si128 (inp ! 3) (mm_set1_epi32 524287)) (23 - 19)),
     mm_or_si128 (mm_srli_epi32 (inp ! 3) 19) (mm_slli_epi32 (mm_and_si128 (inp ! 4) (mm_set1_epi32 1023)) (23 - 10)),
     mm_or_si128 (mm_srli_epi32 (inp ! 4) 10) (mm_slli_epi32 (mm_and_si128 (inp ! 5) (mm_set1_epi32 1)) (23 - 1)),
     mm_and_si128 (mm_srli_epi32 (inp ! 5) 1) mask,
     mm_or_si128 (mm_srli_epi32 (inp ! 5) 24) (mm_slli_epi32 (mm_and_si128 (inp ! 6) (mm_set1_epi32 32767)) (23 - 15)),
     mm_or_si128 (mm_srli_epi32 (inp ! 6) 15) (mm_slli_epi32 (mm_and_si128 (inp ! 7) (mm_set1_epi32 63)) (23 - 6)),
     mm_and_si128 (mm_srli_epi32 (inp ! 7) 6) mask,
     mm_or_si128 (mm_srli_epi32 (inp ! 7) 29) (mm_slli_epi32 (mm_and_si128 (inp ! 8) (mm_set1_epi32 1048575)) (23 - 20)),
     mm_or_si128 (mm_srli_epi32 (inp ! 8) 20) (mm_slli_epi32 (mm_and_si128 (inp ! 9) (mm_set1_epi32 2047)) (23 - 11)),
     mm_or_si128 (mm_srli_epi32 (inp ! 9) 11) (mm_slli_epi32 (mm_and_si128 (inp ! 10) (mm_set1_epi32 3)) (23 - 2)),
     mm_and_si128 (mm_srli_epi32 (inp ! 10) 2) mask,
     mm_or_si128 (mm_srli_epi32 (inp ! 10) 25) (mm_slli_epi32 (mm_and_si128 (inp ! 11) (mm_set1_epi32 65535)) (23 - 16)),
     mm_or_si128 (mm_srli_epi32 (inp ! 11) 16) (mm_slli_epi32 (mm_and_si128 (inp ! 12) (mm_set1_epi32 127)) (23 - 7)),
     mm_and_si128 (mm_srli_epi32 (inp ! 12) 7) mask,
     mm_or_si128 (mm_srli_epi32 (inp ! 12) 30) (mm_slli_epi32 (mm_and_si128 (inp ! 13) (mm_set1_epi32 2097151)) (23 - 21)),
     mm_or_si128 (mm_srli_epi32 (inp ! 13) 21) (mm_slli_epi32 (mm_and_si128 (inp ! 14) (mm_set1_epi32 4095)) (23 - 12)),
     mm_or_si128 (mm_srli_epi32 (inp ! 14) 12) (mm_slli_epi32 (mm_and_si128 (inp ! 15) (mm_set1_epi32 7)) (23 - 3)),
     mm_and_si128 (mm_srli_epi32 (inp ! 15) 3) mask,
     mm_or_si128 (mm_srli_epi32 (inp ! 15) 26) (mm_slli_epi32 (mm_and_si128 (inp ! 16) (mm_set1_epi32 131071)) (23 - 17)),
     mm_or_si128 (mm_srli_epi32 (inp ! 16) 17) (mm_slli_epi32 (mm_and_si128 (inp ! 17) (mm_set1_epi32 255)) (23 - 8)),
     mm_and_si128 (mm_srli_epi32 (inp ! 17) 8) mask,
     mm_or_si128 (mm_srli_epi32 (inp ! 17) 31) (mm_slli_epi32 (mm_and_si128 (inp ! 18) (mm_set1_epi32 4194303)) (23 - 22)),
     mm_or_si128 (mm_srli_epi32 (inp ! 18) 22) (mm_slli_epi32 (mm_and_si128 (inp ! 19) (mm_set1_epi32 8191)) (23 - 13)),
     mm_or_si128 (mm_srli_epi32 (inp ! 19) 13) (mm_slli_epi32 (mm_and_si128 (inp ! 20) (mm_set1_epi32 15)) (23 - 4)),
     mm_and_si128 (mm_srli_epi32 (inp ! 20) 4) mask,
     mm_or_si128 (mm_srli_epi32 (inp ! 20) 27) (mm_slli_epi32 (mm_and_si128 (inp ! 21) (mm_set1_epi32 262143)) (23 - 18)),
     mm_or_si128 (mm_srli_epi32 (inp ! 21) 18) (mm_slli_epi32 (mm_and_si128 (inp ! 22) (mm_set1_epi32 511)) (23 - 9)),
     mm_srli_epi32 (inp ! 22) 9])"

definition SIMD_fastunpack24_32 :: "m128i list \<Rightarrow> m128i list" where
  "SIMD_fastunpack24_32 inp =
    (let mask = mm_set1_epi32 16777215 in
    [mm_and_si128 (inp ! 0) mask,
     mm_or_si128 (mm_srli_epi32 (inp ! 0) 24) (mm_slli_epi32 (mm_and_si128 (inp ! 1) (mm_set1_epi32 65535)) (24 - 16)),
     mm_or_si128 (mm_srli_epi32 (inp ! 1) 16) (mm_slli_epi32 (mm_and_si128 (inp ! 2) (mm_set1_epi32 255)) (24 - 8)),
     mm_srli_epi32 (inp ! 2) 8, mm_and_si128 (inp ! 3) mask,
     mm_or_si128 (mm_srli_epi32 (inp ! 3) 24) (mm_slli_epi32 (mm_and_si128 (inp ! 4) (mm_set1_epi32 65535)) (24 - 16)),
     mm_or_si128 (mm_srli_epi32 (inp ! 4) 16) (mm_slli_epi32 (mm_and_si128 (inp ! 5) (mm_set1_epi32 255)) (24 - 8)),
     mm_srli_epi32 (inp ! 5) 8, mm_and_si128 (inp ! 6) mask,
     mm_or_si128 (mm_srli_epi32 (inp ! 6) 24) (mm_slli_epi32 (mm_and_si128 (inp ! 7) (mm_set1_epi32 65535)) (24 - 16)),
     mm_or_si128 (mm_srli_epi32 (inp ! 7) 16) (mm_slli_epi32 (mm_and_si128 (inp ! 8) (mm_set1_epi32 255)) (24 - 8)),
     mm_srli_epi32 (inp ! 8) 8, mm_and_si128 (inp ! 9) mask,
     mm_or_si128 (mm_srli_epi32 (inp ! 9) 24) (mm_slli_epi32 (mm_and_si128 (inp ! 10) (mm_set1_epi32 65535)) (24 - 16)),
     mm_or_si128 (mm_srli_epi32 (inp ! 10) 16) (mm_slli_epi32 (mm_and_si128 (inp ! 11) (mm_set1_epi32 255)) (24 - 8)),
     mm_srli_epi32 (inp ! 11) 8, mm_and_si128 (inp ! 12) mask,
     mm_or_si128 (mm_srli_epi32 (inp ! 12) 24) (mm_slli_epi32 (mm_and_si128 (inp ! 13) (mm_set1_epi32 65535)) (24 - 16)),
     mm_or_si128 (mm_srli_epi32 (inp ! 13) 16) (mm_slli_epi32 (mm_and_si128 (inp ! 14) (mm_set1_epi32 255)) (24 - 8)),
     mm_srli_epi32 (inp ! 14) 8, mm_and_si128 (inp ! 15) mask,
     mm_or_si128 (mm_srli_epi32 (inp ! 15) 24) (mm_slli_epi32 (mm_and_si128 (inp ! 16) (mm_set1_epi32 65535)) (24 - 16)),
     mm_or_si128 (mm_srli_epi32 (inp ! 16) 16) (mm_slli_epi32 (mm_and_si128 (inp ! 17) (mm_set1_epi32 255)) (24 - 8)),
     mm_srli_epi32 (inp ! 17) 8, mm_and_si128 (inp ! 18) mask,
     mm_or_si128 (mm_srli_epi32 (inp ! 18) 24) (mm_slli_epi32 (mm_and_si128 (inp ! 19) (mm_set1_epi32 65535)) (24 - 16)),
     mm_or_si128 (mm_srli_epi32 (inp ! 19) 16) (mm_slli_epi32 (mm_and_si128 (inp ! 20) (mm_set1_epi32 255)) (24 - 8)),
     mm_srli_epi32 (inp ! 20) 8, mm_and_si128 (inp ! 21) mask,
     mm_or_si128 (mm_srli_epi32 (inp ! 21) 24) (mm_slli_epi32 (mm_and_si128 (inp ! 22) (mm_set1_epi32 65535)) (24 - 16)),
     mm_or_si128 (mm_srli_epi32 (inp ! 22) 16) (mm_slli_epi32 (mm_and_si128 (inp ! 23) (mm_set1_epi32 255)) (24 - 8)),
     mm_srli_epi32 (inp ! 23) 8])"

definition SIMD_fastunpack25_32 :: "m128i list \<Rightarrow> m128i list" where
  "SIMD_fastunpack25_32 inp =
    (let mask = mm_set1_epi32 33554431 in
    [mm_and_si128 (inp ! 0) mask,
     mm_or_si128 (mm_srli_epi32 (inp ! 0) 25) (mm_slli_epi32 (mm_and_si128 (inp ! 1) (mm_set1_epi32 262143)) (25 - 18)),
     mm_or_si128 (mm_srli_epi32 (inp ! 1) 18) (mm_slli_epi32 (mm_and_si128 (inp ! 2) (mm_set1_epi32 2047)) (25 - 11)),
     mm_or_si128 (mm_srli_epi32 (inp ! 2) 11) (mm_slli_epi32 (mm_and_si128 (inp ! 3) (mm_set1_epi32 15)) (25 - 4)),
     mm_and_si128 (mm_srli_epi32 (inp ! 3) 4) mask,
     mm_or_si128 (mm_srli_epi32 (inp ! 3) 29) (mm_slli_epi32 (mm_and_si128 (inp ! 4) (mm_set1_epi32 4194303)) (25 - 22)),
     mm_or_si128 (mm_srli_epi32 (inp ! 4) 22) (mm_slli_epi32 (mm_and_si128 (inp ! 5) (mm_set1_epi32 32767)) (25 - 15)),
     mm_or_si128 (mm_srli_epi32 (inp ! 5) 15) (mm_slli_epi32 (mm_and_si128 (inp ! 6) (mm_set1_epi32 255)) (25 - 8)),
     mm_or_si128 (mm_srli_epi32 (inp ! 6) 8) (mm_slli_epi32 (mm_and_si128 (inp ! 7) (mm_set1_epi32 1)) (25 - 1)),
     mm_and_si128 (mm_srli_epi32 (inp ! 7) 1) mask,
     mm_or_si128 (mm_srli_epi32 (inp ! 7) 26) (mm_slli_epi32 (mm_and_si128 (inp ! 8) (mm_set1_epi32 524287)) (25 - 19)),
     mm_or_si128 (mm_srli_epi32 (inp ! 8) 19) (mm_slli_epi32 (mm_and_si128 (inp ! 9) (mm_set1_epi32 4095)) (25 - 12)),
     mm_or_si128 (mm_srli_epi32 (inp ! 9) 12) (mm_slli_epi32 (mm_and_si128 (inp ! 10) (mm_set1_epi32 31)) (25 - 5)),
     mm_and_si128 (mm_srli_epi32 (inp ! 10) 5) mask,
     mm_or_si128 (mm_srli_epi32 (inp ! 10) 30) (mm_slli_epi32 (mm_and_si128 (inp ! 11) (mm_set1_epi32 8388607)) (25 - 23)),
     mm_or_si128 (mm_srli_epi32 (inp ! 11) 23) (mm_slli_epi32 (mm_and_si128 (inp ! 12) (mm_set1_epi32 65535)) (25 - 16)),
     mm_or_si128 (mm_srli_epi32 (inp ! 12) 16) (mm_slli_epi32 (mm_and_si128 (inp ! 13) (mm_set1_epi32 511)) (25 - 9)),
     mm_or_si128 (mm_srli_epi32 (inp ! 13) 9) (mm_slli_epi32 (mm_and_si128 (inp ! 14) (mm_set1_epi32 3)) (25 - 2)),
     mm_and_si128 (mm_srli_epi32 (inp ! 14) 2) mask,
     mm_or_si128 (mm_srli_epi32 (inp ! 14) 27) (mm_slli_epi32 (mm_and_si128 (inp ! 15) (mm_set1_epi32 1048575)) (25 - 20)),
     mm_or_si128 (mm_srli_epi32 (inp ! 15) 20) (mm_slli_epi32 (mm_and_si128 (inp ! 16) (mm_set1_epi32 8191)) (25 - 13)),
     mm_or_si128 (mm_srli_epi32 (inp ! 16) 13) (mm_slli_epi32 (mm_and_si128 (inp ! 17) (mm_set1_epi32 63)) (25 - 6)),
     mm_and_si128 (mm_srli_epi32 (inp ! 17) 6) mask,
     mm_or_si128 (mm_srli_epi32 (inp ! 17) 31) (mm_slli_epi32 (mm_and_si128 (inp ! 18) (mm_set1_epi32 16777215)) (25 - 24)),
     mm_or_si128 (mm_srli_epi32 (inp ! 18) 24) (mm_slli_epi32 (mm_and_si128 (inp ! 19) (mm_set1_epi32 131071)) (25 - 17)),
     mm_or_si128 (mm_srli_epi32 (inp ! 19) 17) (mm_slli_epi32 (mm_and_si128 (inp ! 20) (mm_set1_epi32 1023)) (25 - 10)),
     mm_or_si128 (mm_srli_epi32 (inp ! 20) 10) (mm_slli_epi32 (mm_and_si128 (inp ! 21) (mm_set1_epi32 7)) (25 - 3)),
     mm_and_si128 (mm_srli_epi32 (inp ! 21) 3) mask,
     mm_or_si128 (mm_srli_epi32 (inp ! 21) 28) (mm_slli_epi32 (mm_and_si128 (inp ! 22) (mm_set1_epi32 2097151)) (25 - 21)),
     mm_or_si128 (mm_srli_epi32 (inp ! 22) 21) (mm_slli_epi32 (mm_and_si128 (inp ! 23) (mm_set1_epi32 16383)) (25 - 14)),
     mm_or_si128 (mm_srli_epi32 (inp ! 23) 14) (mm_slli_epi32 (mm_and_si128 (inp ! 24) (mm_set1_epi32 127)) (25 - 7)),
     mm_srli_epi32 (inp ! 24) 7])"

definition SIMD_fastunpack26_32 :: "m128i list \<Rightarrow> m128i list" where
  "SIMD_fastunpack26_32 inp =
    (let mask = mm_set1_epi32 67108863 in
    [mm_and_si128 (inp ! 0) mask,
     mm_or_si128 (mm_srli_epi32 (inp ! 0) 26) (mm_slli_epi32 (mm_and_si128 (inp ! 1) (mm_set1_epi32 1048575)) (26 - 20)),
     mm_or_si128 (mm_srli_epi32 (inp ! 1) 20) (mm_slli_epi32 (mm_and_si128 (inp ! 2) (mm_set1_epi32 16383)) (26 - 14)),
     mm_or_si128 (mm_srli_epi32 (inp ! 2) 14) (mm_slli_epi32 (mm_and_si128 (inp ! 3) (mm_set1_epi32 255)) (26 - 8)),
     mm_or_si128 (mm_srli_epi32 (inp ! 3) 8) (mm_slli_epi32 (mm_and_si128 (inp ! 4) (mm_set1_epi32 3)) (26 - 2)),
     mm_and_si128 (mm_srli_epi32 (inp ! 4) 2) mask,
     mm_or_si128 (mm_srli_epi32 (inp ! 4) 28) (mm_slli_epi32 (mm_and_si128 (inp ! 5) (mm_set1_epi32 4194303)) (26 - 22)),
     mm_or_si128 (mm_srli_epi32 (inp ! 5) 22) (mm_slli_epi32 (mm_and_si128 (inp ! 6) (mm_set1_epi32 65535)) (26 - 16)),
     mm_or_si128 (mm_srli_epi32 (inp ! 6) 16) (mm_slli_epi32 (mm_and_si128 (inp ! 7) (mm_set1_epi32 1023)) (26 - 10)),
     mm_or_si128 (mm_srli_epi32 (inp ! 7) 10) (mm_slli_epi32 (mm_and_si128 (inp ! 8) (mm_set1_epi32 15)) (26 - 4)),
     mm_and_si128 (mm_srli_epi32 (inp ! 8) 4) mask,
     mm_or_si128 (mm_srli_epi32 (inp ! 8) 30) (mm_slli_epi32 (mm_and_si128 (inp ! 9) (mm_set1_epi32 16777215)) (26 - 24)),
     mm_or_si128 (mm_srli_epi32 (inp ! 9) 24) (mm_slli_epi32 (mm_and_si128 (inp ! 10) (mm_set1_epi32 262143)) (26 - 18)),
     mm_or_si128 (mm_srli_epi32 (inp ! 10) 18) (mm_slli_epi32 (mm_and_si128 (inp ! 11) (mm_set1_epi32 4095)) (26 - 12)),
     mm_or_si128 (mm_srli_epi32 (inp ! 11) 12) (mm_slli_epi32 (mm_and_si128 (inp ! 12) (mm_set1_epi32 63)) (26 - 6)),
     mm_srli_epi32 (inp ! 12) 6, mm_and_si128 (inp ! 13) mask,
     mm_or_si128 (mm_srli_epi32 (inp ! 13) 26) (mm_slli_epi32 (mm_and_si128 (inp ! 14) (mm_set1_epi32 1048575)) (26 - 20)),
     mm_or_si128 (mm_srli_epi32 (inp ! 14) 20) (mm_slli_epi32 (mm_and_si128 (inp ! 15) (mm_set1_epi32 16383)) (26 - 14)),
     mm_or_si128 (mm_srli_epi32 (inp ! 15) 14) (mm_slli_epi32 (mm_and_si128 (inp ! 16) (mm_set1_epi32 255)) (26 - 8)),
     mm_or_si128 (mm_srli_epi32 (inp ! 16) 8) (mm_slli_epi32 (mm_and_si128 (inp ! 17) (mm_set1_epi32 3)) (26 - 2)),
     mm_and_si128 (mm_srli_epi32 (inp ! 17) 2) mask,
     mm_or_si128 (mm_srli_epi32 (inp ! 17) 28) (mm_slli_epi32 (mm_and_si128 (inp ! 18) (mm_set1_epi32 4194303)) (26 - 22)),
     mm_or_si128 (mm_srli_epi32 (inp ! 18) 22) (mm_slli_epi32 (mm_and_si128 (inp ! 19) (mm_set1_epi32 65535)) (26 - 16)),
     mm_or_si128 (mm_srli_epi32 (inp ! 19) 16) (mm_slli_epi32 (mm_and_si128 (inp ! 20) (mm_set1_epi32 1023)) (26 - 10)),
     mm_or_si128 (mm_srli_epi32 (inp ! 20) 10) (mm_slli_epi32 (mm_and_si128 (inp ! 21) (mm_set1_epi32 15)) (26 - 4)),
     mm_and_si128 (mm_srli_epi32 (inp ! 21) 4) mask,
     mm_or_si128 (mm_srli_epi32 (inp ! 21) 30) (mm_slli_epi32 (mm_and_si128 (inp ! 22) (mm_set1_epi32 16777215)) (26 - 24)),
     mm_or_si128 (mm_srli_epi32 (inp ! 22) 24) (mm_slli_epi32 (mm_and_si128 (inp ! 23) (mm_set1_epi32 262143)) (26 - 18)),
     mm_or_si128 (mm_srli_epi32 (inp ! 23) 18) (mm_slli_epi32 (mm_and_si128 (inp ! 24) (mm_set1_epi32 4095)) (26 - 12)),
     mm_or_si128 (mm_srli_epi32 (inp ! 24) 12) (mm_slli_epi32 (mm_and_si128 (inp ! 25) (mm_set1_epi32 63)) (26 - 6)),
     mm_srli_epi32 (inp ! 25) 6])"

definition SIMD_fastunpack27_32 :: "m128i list \<Rightarrow> m128i list" where
  "SIMD_fastunpack27_32 inp =
    (let mask = mm_set1_epi32 134217727 in
    [mm_and_si128 (inp ! 0) mask,
     mm_or_si128 (mm_srli_epi32 (inp ! 0) 27) (mm_slli_epi32 (mm_and_si128 (inp ! 1) (mm_set1_epi32 4194303)) (27 - 22)),
     mm_or_si128 (mm_srli_epi32 (inp ! 1) 22) (mm_slli_epi32 (mm_and_si128 (inp ! 2) (mm_set1_epi32 131071)) (27 - 17)),
     mm_or_si128 (mm_srli_epi32 (inp ! 2) 17) (mm_slli_epi32 (mm_and_si128 (inp ! 3) (mm_set1_epi32 4095)) (27 - 12)),
     mm_or_si128 (mm_srli_epi32 (inp ! 3) 12) (mm_slli_epi32 (mm_and_si128 (inp ! 4) (mm_set1_epi32 127)) (27 - 7)),
     mm_or_si128 (mm_srli_epi32 (inp ! 4) 7) (mm_slli_epi32 (mm_and_si128 (inp ! 5) (mm_set1_epi32 3)) (27 - 2)),
     mm_and_si128 (mm_srli_epi32 (inp ! 5) 2) mask,
     mm_or_si128 (mm_srli_epi32 (inp ! 5) 29) (mm_slli_epi32 (mm_and_si128 (inp ! 6) (mm_set1_epi32 16777215)) (27 - 24)),
     mm_or_si128 (mm_srli_epi32 (inp ! 6) 24) (mm_slli_epi32 (mm_and_si128 (inp ! 7) (mm_set1_epi32 524287)) (27 - 19)),
     mm_or_si128 (mm_srli_epi32 (inp ! 7) 19) (mm_slli_epi32 (mm_and_si128 (inp ! 8) (mm_set1_epi32 16383)) (27 - 14)),
     mm_or_si128 (mm_srli_epi32 (inp ! 8) 14) (mm_slli_epi32 (mm_and_si128 (inp ! 9) (mm_set1_epi32 511)) (27 - 9)),
     mm_or_si128 (mm_srli_epi32 (inp ! 9) 9) (mm_slli_epi32 (mm_and_si128 (inp ! 10) (mm_set1_epi32 15)) (27 - 4)),
     mm_and_si128 (mm_srli_epi32 (inp ! 10) 4) mask,
     mm_or_si128 (mm_srli_epi32 (inp ! 10) 31) (mm_slli_epi32 (mm_and_si128 (inp ! 11) (mm_set1_epi32 67108863)) (27 - 26)),
     mm_or_si128 (mm_srli_epi32 (inp ! 11) 26) (mm_slli_epi32 (mm_and_si128 (inp ! 12) (mm_set1_epi32 2097151)) (27 - 21)),
     mm_or_si128 (mm_srli_epi32 (inp ! 12) 21) (mm_slli_epi32 (mm_and_si128 (inp ! 13) (mm_set1_epi32 65535)) (27 - 16)),
     mm_or_si128 (mm_srli_epi32 (inp ! 13) 16) (mm_slli_epi32 (mm_and_si128 (inp ! 14) (mm_set1_epi32 2047)) (27 - 11)),
     mm_or_si128 (mm_srli_epi32 (inp ! 14) 11) (mm_slli_epi32 (mm_and_si128 (inp ! 15) (mm_set1_epi32 63)) (27 - 6)),
     mm_or_si128 (mm_srli_epi32 (inp ! 15) 6) (mm_slli_epi32 (mm_and_si128 (inp ! 16) (mm_set1_epi32 1)) (27 - 1)),
     mm_and_si128 (mm_srli_epi32 (inp ! 16) 1) mask,
     mm_or_si128 (mm_srli_epi32 (inp ! 16) 28) (mm_slli_epi32 (mm_and_si128 (inp ! 17) (mm_set1_epi32 8388607)) (27 - 23)),
     mm_or_si128 (mm_srli_epi32 (inp ! 17) 23) (mm_slli_epi32 (mm_and_si128 (inp ! 18) (mm_set1_epi32 262143)) (27 - 18)),
     mm_or_si128 (mm_srli_epi32 (inp ! 18) 18) (mm_slli_epi32 (mm_and_si128 (inp ! 19) (mm_set1_epi32 8191)) (27 - 13)),
     mm_or_si128 (mm_srli_epi32 (inp ! 19) 13) (mm_slli_epi32 (mm_and_si128 (inp ! 20) (mm_set1_epi32 255)) (27 - 8)),
     mm_or_si128 (mm_srli_epi32 (inp ! 20) 8) (mm_slli_epi32 (mm_and_si128 (inp ! 21) (mm_set1_epi32 7)) (27 - 3)),
     mm_and_si128 (mm_srli_epi32 (inp ! 21) 3) mask,
     mm_or_si128 (mm_srli_epi32 (inp ! 21) 30) (mm_slli_epi32 (mm_and_si128 (inp ! 22) (mm_set1_epi32 33554431)) (27 - 25)),
     mm_or_si128 (mm_srli_epi32 (inp ! 22) 25) (mm_slli_epi32 (mm_and_si128 (inp ! 23) (mm_set1_epi32 1048575)) (27 - 20)),
     mm_or_si128 (mm_srli_epi32 (inp ! 23) 20) (mm_slli_epi32 (mm_and_si128 (inp ! 24) (mm_set1_epi32 32767)) (27 - 15)),
     mm_or_si128 (mm_srli_epi32 (inp ! 24) 15) (mm_slli_epi32 (mm_and_si128 (inp ! 25) (mm_set1_epi32 1023)) (27 - 10)),
     mm_or_si128 (mm_srli_epi32 (inp ! 25) 10) (mm_slli_epi32 (mm_and_si128 (inp ! 26) (mm_set1_epi32 31)) (27 - 5)),
     mm_srli_epi32 (inp ! 26) 5])"

definition SIMD_fastunpack28_32 :: "m128i list \<Rightarrow> m128i list" where
  "SIMD_fastunpack28_32 inp =
    (let mask = mm_set1_epi32 268435455 in
    [mm_and_si128 (inp ! 0) mask,
     mm_or_si128 (mm_srli_epi32 (inp ! 0) 28) (mm_slli_epi32 (mm_and_si128 (inp ! 1) (mm_set1_epi32 16777215)) (28 - 24)),
     mm_or_si128 (mm_srli_epi32 (inp ! 1) 24) (mm_slli_epi32 (mm_and_si128 (inp ! 2) (mm_set1_epi32 1048575)) (28 - 20)),
     mm_or_si128 (mm_srli_epi32 (inp ! 2) 20) (mm_slli_epi32 (mm_and_si128 (inp ! 3) (mm_set1_epi32 65535)) (28 - 16)),
     mm_or_si128 (mm_srli_epi32 (inp ! 3) 16) (mm_slli_epi32 (mm_and_si128 (inp ! 4) (mm_set1_epi32 4095)) (28 - 12)),
     mm_or_si128 (mm_srli_epi32 (inp ! 4) 12) (mm_slli_epi32 (mm_and_si128 (inp ! 5) (mm_set1_epi32 255)) (28 - 8)),
     mm_or_si128 (mm_srli_epi32 (inp ! 5) 8) (mm_slli_epi32 (mm_and_si128 (inp ! 6) (mm_set1_epi32 15)) (28 - 4)),
     mm_srli_epi32 (inp ! 6) 4, mm_and_si128 (inp ! 7) mask,
     mm_or_si128 (mm_srli_epi32 (inp ! 7) 28) (mm_slli_epi32 (mm_and_si128 (inp ! 8) (mm_set1_epi32 16777215)) (28 - 24)),
     mm_or_si128 (mm_srli_epi32 (inp ! 8) 24) (mm_slli_epi32 (mm_and_si128 (inp ! 9) (mm_set1_epi32 1048575)) (28 - 20)),
     mm_or_si128 (mm_srli_epi32 (inp ! 9) 20) (mm_slli_epi32 (mm_and_si128 (inp ! 10) (mm_set1_epi32 65535)) (28 - 16)),
     mm_or_si128 (mm_srli_epi32 (inp ! 10) 16) (mm_slli_epi32 (mm_and_si128 (inp ! 11) (mm_set1_epi32 4095)) (28 - 12)),
     mm_or_si128 (mm_srli_epi32 (inp ! 11) 12) (mm_slli_epi32 (mm_and_si128 (inp ! 12) (mm_set1_epi32 255)) (28 - 8)),
     mm_or_si128 (mm_srli_epi32 (inp ! 12) 8) (mm_slli_epi32 (mm_and_si128 (inp ! 13) (mm_set1_epi32 15)) (28 - 4)),
     mm_srli_epi32 (inp ! 13) 4, mm_and_si128 (inp ! 14) mask,
     mm_or_si128 (mm_srli_epi32 (inp ! 14) 28) (mm_slli_epi32 (mm_and_si128 (inp ! 15) (mm_set1_epi32 16777215)) (28 - 24)),
     mm_or_si128 (mm_srli_epi32 (inp ! 15) 24) (mm_slli_epi32 (mm_and_si128 (inp ! 16) (mm_set1_epi32 1048575)) (28 - 20)),
     mm_or_si128 (mm_srli_epi32 (inp ! 16) 20) (mm_slli_epi32 (mm_and_si128 (inp ! 17) (mm_set1_epi32 65535)) (28 - 16)),
     mm_or_si128 (mm_srli_epi32 (inp ! 17) 16) (mm_slli_epi32 (mm_and_si128 (inp ! 18) (mm_set1_epi32 4095)) (28 - 12)),
     mm_or_si128 (mm_srli_epi32 (inp ! 18) 12) (mm_slli_epi32 (mm_and_si128 (inp ! 19) (mm_set1_epi32 255)) (28 - 8)),
     mm_or_si128 (mm_srli_epi32 (inp ! 19) 8) (mm_slli_epi32 (mm_and_si128 (inp ! 20) (mm_set1_epi32 15)) (28 - 4)),
     mm_srli_epi32 (inp ! 20) 4, mm_and_si128 (inp ! 21) mask,
     mm_or_si128 (mm_srli_epi32 (inp ! 21) 28) (mm_slli_epi32 (mm_and_si128 (inp ! 22) (mm_set1_epi32 16777215)) (28 - 24)),
     mm_or_si128 (mm_srli_epi32 (inp ! 22) 24) (mm_slli_epi32 (mm_and_si128 (inp ! 23) (mm_set1_epi32 1048575)) (28 - 20)),
     mm_or_si128 (mm_srli_epi32 (inp ! 23) 20) (mm_slli_epi32 (mm_and_si128 (inp ! 24) (mm_set1_epi32 65535)) (28 - 16)),
     mm_or_si128 (mm_srli_epi32 (inp ! 24) 16) (mm_slli_epi32 (mm_and_si128 (inp ! 25) (mm_set1_epi32 4095)) (28 - 12)),
     mm_or_si128 (mm_srli_epi32 (inp ! 25) 12) (mm_slli_epi32 (mm_and_si128 (inp ! 26) (mm_set1_epi32 255)) (28 - 8)),
     mm_or_si128 (mm_srli_epi32 (inp ! 26) 8) (mm_slli_epi32 (mm_and_si128 (inp ! 27) (mm_set1_epi32 15)) (28 - 4)),
     mm_srli_epi32 (inp ! 27) 4])"

definition SIMD_fastunpack29_32 :: "m128i list \<Rightarrow> m128i list" where
  "SIMD_fastunpack29_32 inp =
    (let mask = mm_set1_epi32 536870911 in
    [mm_and_si128 (inp ! 0) mask,
     mm_or_si128 (mm_srli_epi32 (inp ! 0) 29) (mm_slli_epi32 (mm_and_si128 (inp ! 1) (mm_set1_epi32 67108863)) (29 - 26)),
     mm_or_si128 (mm_srli_epi32 (inp ! 1) 26) (mm_slli_epi32 (mm_and_si128 (inp ! 2) (mm_set1_epi32 8388607)) (29 - 23)),
     mm_or_si128 (mm_srli_epi32 (inp ! 2) 23) (mm_slli_epi32 (mm_and_si128 (inp ! 3) (mm_set1_epi32 1048575)) (29 - 20)),
     mm_or_si128 (mm_srli_epi32 (inp ! 3) 20) (mm_slli_epi32 (mm_and_si128 (inp ! 4) (mm_set1_epi32 131071)) (29 - 17)),
     mm_or_si128 (mm_srli_epi32 (inp ! 4) 17) (mm_slli_epi32 (mm_and_si128 (inp ! 5) (mm_set1_epi32 16383)) (29 - 14)),
     mm_or_si128 (mm_srli_epi32 (inp ! 5) 14) (mm_slli_epi32 (mm_and_si128 (inp ! 6) (mm_set1_epi32 2047)) (29 - 11)),
     mm_or_si128 (mm_srli_epi32 (inp ! 6) 11) (mm_slli_epi32 (mm_and_si128 (inp ! 7) (mm_set1_epi32 255)) (29 - 8)),
     mm_or_si128 (mm_srli_epi32 (inp ! 7) 8) (mm_slli_epi32 (mm_and_si128 (inp ! 8) (mm_set1_epi32 31)) (29 - 5)),
     mm_or_si128 (mm_srli_epi32 (inp ! 8) 5) (mm_slli_epi32 (mm_and_si128 (inp ! 9) (mm_set1_epi32 3)) (29 - 2)),
     mm_and_si128 (mm_srli_epi32 (inp ! 9) 2) mask,
     mm_or_si128 (mm_srli_epi32 (inp ! 9) 31) (mm_slli_epi32 (mm_and_si128 (inp ! 10) (mm_set1_epi32 268435455)) (29 - 28)),
     mm_or_si128 (mm_srli_epi32 (inp ! 10) 28) (mm_slli_epi32 (mm_and_si128 (inp ! 11) (mm_set1_epi32 33554431)) (29 - 25)),
     mm_or_si128 (mm_srli_epi32 (inp ! 11) 25) (mm_slli_epi32 (mm_and_si128 (inp ! 12) (mm_set1_epi32 4194303)) (29 - 22)),
     mm_or_si128 (mm_srli_epi32 (inp ! 12) 22) (mm_slli_epi32 (mm_and_si128 (inp ! 13) (mm_set1_epi32 524287)) (29 - 19)),
     mm_or_si128 (mm_srli_epi32 (inp ! 13) 19) (mm_slli_epi32 (mm_and_si128 (inp ! 14) (mm_set1_epi32 65535)) (29 - 16)),
     mm_or_si128 (mm_srli_epi32 (inp ! 14) 16) (mm_slli_epi32 (mm_and_si128 (inp ! 15) (mm_set1_epi32 8191)) (29 - 13)),
     mm_or_si128 (mm_srli_epi32 (inp ! 15) 13) (mm_slli_epi32 (mm_and_si128 (inp ! 16) (mm_set1_epi32 1023)) (29 - 10)),
     mm_or_si128 (mm_srli_epi32 (inp ! 16) 10) (mm_slli_epi32 (mm_and_si128 (inp ! 17) (mm_set1_epi32 127)) (29 - 7)),
     mm_or_si128 (mm_srli_epi32 (inp ! 17) 7) (mm_slli_epi32 (mm_and_si128 (inp ! 18) (mm_set1_epi32 15)) (29 - 4)),
     mm_or_si128 (mm_srli_epi32 (inp ! 18) 4) (mm_slli_epi32 (mm_and_si128 (inp ! 19) (mm_set1_epi32 1)) (29 - 1)),
     mm_and_si128 (mm_srli_epi32 (inp ! 19) 1) mask,
     mm_or_si128 (mm_srli_epi32 (inp ! 19) 30) (mm_slli_epi32 (mm_and_si128 (inp ! 20) (mm_set1_epi32 134217727)) (29 - 27)),
     mm_or_si128 (mm_srli_epi32 (inp ! 20) 27) (mm_slli_epi32 (mm_and_si128 (inp ! 21) (mm_set1_epi32 16777215)) (29 - 24)),
     mm_or_si128 (mm_srli_epi32 (inp ! 21) 24) (mm_slli_epi32 (mm_and_si128 (inp ! 22) (mm_set1_epi32 2097151)) (29 - 21)),
     mm_or_si128 (mm_srli_epi32 (inp ! 22) 21) (mm_slli_epi32 (mm_and_si128 (inp ! 23) (mm_set1_epi32 262143)) (29 - 18)),
     mm_or_si128 (mm_srli_epi32 (inp ! 23) 18) (mm_slli_epi32 (mm_and_si128 (inp ! 24) (mm_set1_epi32 32767)) (29 - 15)),
     mm_or_si128 (mm_srli_epi32 (inp ! 24) 15) (mm_slli_epi32 (mm_and_si128 (inp ! 25) (mm_set1_epi32 4095)) (29 - 12)),
     mm_or_si128 (mm_srli_epi32 (inp ! 25) 12) (mm_slli_epi32 (mm_and_si128 (inp ! 26) (mm_set1_epi32 511)) (29 - 9)),
     mm_or_si128 (mm_srli_epi32 (inp ! 26) 9) (mm_slli_epi32 (mm_and_si128 (inp ! 27) (mm_set1_epi32 63)) (29 - 6)),
     mm_or_si128 (mm_srli_epi32 (inp ! 27) 6) (mm_slli_epi32 (mm_and_si128 (inp ! 28) (mm_set1_epi32 7)) (29 - 3)),
     mm_srli_epi32 (inp ! 28) 3])"

definition SIMD_fastunpack30_32 :: "m128i list \<Rightarrow> m128i list" where
  "SIMD_fastunpack30_32 inp =
    (let mask = mm_set1_epi32 1073741823 in
    [mm_and_si128 (inp ! 0) mask,
     mm_or_si128 (mm_srli_epi32 (inp ! 0) 30) (mm_slli_epi32 (mm_and_si128 (inp ! 1) (mm_set1_epi32 268435455)) (30 - 28)),
     mm_or_si128 (mm_srli_epi32 (inp ! 1) 28) (mm_slli_epi32 (mm_and_si128 (inp ! 2) (mm_set1_epi32 67108863)) (30 - 26)),
     mm_or_si128 (mm_srli_epi32 (inp ! 2) 26) (mm_slli_epi32 (mm_and_si128 (inp ! 3) (mm_set1_epi32 16777215)) (30 - 24)),
     mm_or_si128 (mm_srli_epi32 (inp ! 3) 24) (mm_slli_epi32 (mm_and_si128 (inp ! 4) (mm_set1_epi32 4194303)) (30 - 22)),
     mm_or_si128 (mm_srli_epi32 (inp ! 4) 22) (mm_slli_epi32 (mm_and_si128 (inp ! 5) (mm_set1_epi32 1048575)) (30 - 20)),
     mm_or_si128 (mm_srli_epi32 (inp ! 5) 20) (mm_slli_epi32 (mm_and_si128 (inp ! 6) (mm_set1_epi32 262143)) (30 - 18)),
     mm_or_si128 (mm_srli_epi32 (inp ! 6) 18) (mm_slli_epi32 (mm_and_si128 (inp ! 7) (mm_set1_epi32 65535)) (30 - 16)),
     mm_or_si128 (mm_srli_epi32 (inp ! 7) 16) (mm_slli_epi32 (mm_and_si128 (inp ! 8) (mm_set1_epi32 16383)) (30 - 14)),
     mm_or_si128 (mm_srli_epi32 (inp ! 8) 14) (mm_slli_epi32 (mm_and_si128 (inp ! 9) (mm_set1_epi32 4095)) (30 - 12)),
     mm_or_si128 (mm_srli_epi32 (inp ! 9) 12) (mm_slli_epi32 (mm_and_si128 (inp ! 10) (mm_set1_epi32 1023)) (30 - 10)),
     mm_or_si128 (mm_srli_epi32 (inp ! 10) 10) (mm_slli_epi32 (mm_and_si128 (inp ! 11) (mm_set1_epi32 255)) (30 - 8)),
     mm_or_si128 (mm_srli_epi32 (inp ! 11) 8) (mm_slli_epi32 (mm_and_si128 (inp ! 12) (mm_set1_epi32 63)) (30 - 6)),
     mm_or_si128 (mm_srli_epi32 (inp ! 12) 6) (mm_slli_epi32 (mm_and_si128 (inp ! 13) (mm_set1_epi32 15)) (30 - 4)),
     mm_or_si128 (mm_srli_epi32 (inp ! 13) 4) (mm_slli_epi32 (mm_and_si128 (inp ! 14) (mm_set1_epi32 3)) (30 - 2)),
     mm_srli_epi32 (inp ! 14) 2, mm_and_si128 (inp ! 15) mask,
     mm_or_si128 (mm_srli_epi32 (inp ! 15) 30) (mm_slli_epi32 (mm_and_si128 (inp ! 16) (mm_set1_epi32 268435455)) (30 - 28)),
     mm_or_si128 (mm_srli_epi32 (inp ! 16) 28) (mm_slli_epi32 (mm_and_si128 (inp ! 17) (mm_set1_epi32 67108863)) (30 - 26)),
     mm_or_si128 (mm_srli_epi32 (inp ! 17) 26) (mm_slli_epi32 (mm_and_si128 (inp ! 18) (mm_set1_epi32 16777215)) (30 - 24)),
     mm_or_si128 (mm_srli_epi32 (inp ! 18) 24) (mm_slli_epi32 (mm_and_si128 (inp ! 19) (mm_set1_epi32 4194303)) (30 - 22)),
     mm_or_si128 (mm_srli_epi32 (inp ! 19) 22) (mm_slli_epi32 (mm_and_si128 (inp ! 20) (mm_set1_epi32 1048575)) (30 - 20)),
     mm_or_si128 (mm_srli_epi32 (inp ! 20) 20) (mm_slli_epi32 (mm_and_si128 (inp ! 21) (mm_set1_epi32 262143)) (30 - 18)),
     mm_or_si128 (mm_srli_epi32 (inp ! 21) 18) (mm_slli_epi32 (mm_and_si128 (inp ! 22) (mm_set1_epi32 65535)) (30 - 16)),
     mm_or_si128 (mm_srli_epi32 (inp ! 22) 16) (mm_slli_epi32 (mm_and_si128 (inp ! 23) (mm_set1_epi32 16383)) (30 - 14)),
     mm_or_si128 (mm_srli_epi32 (inp ! 23) 14) (mm_slli_epi32 (mm_and_si128 (inp ! 24) (mm_set1_epi32 4095)) (30 - 12)),
     mm_or_si128 (mm_srli_epi32 (inp ! 24) 12) (mm_slli_epi32 (mm_and_si128 (inp ! 25) (mm_set1_epi32 1023)) (30 - 10)),
     mm_or_si128 (mm_srli_epi32 (inp ! 25) 10) (mm_slli_epi32 (mm_and_si128 (inp ! 26) (mm_set1_epi32 255)) (30 - 8)),
     mm_or_si128 (mm_srli_epi32 (inp ! 26) 8) (mm_slli_epi32 (mm_and_si128 (inp ! 27) (mm_set1_epi32 63)) (30 - 6)),
     mm_or_si128 (mm_srli_epi32 (inp ! 27) 6) (mm_slli_epi32 (mm_and_si128 (inp ! 28) (mm_set1_epi32 15)) (30 - 4)),
     mm_or_si128 (mm_srli_epi32 (inp ! 28) 4) (mm_slli_epi32 (mm_and_si128 (inp ! 29) (mm_set1_epi32 3)) (30 - 2)),
     mm_srli_epi32 (inp ! 29) 2])"

definition SIMD_fastunpack31_32 :: "m128i list \<Rightarrow> m128i list" where
  "SIMD_fastunpack31_32 inp =
    (let mask = mm_set1_epi32 2147483647 in
    [mm_and_si128 (inp ! 0) mask,
     mm_or_si128 (mm_srli_epi32 (inp ! 0) 31) (mm_slli_epi32 (mm_and_si128 (inp ! 1) (mm_set1_epi32 1073741823)) (31 - 30)),
     mm_or_si128 (mm_srli_epi32 (inp ! 1) 30) (mm_slli_epi32 (mm_and_si128 (inp ! 2) (mm_set1_epi32 536870911)) (31 - 29)),
     mm_or_si128 (mm_srli_epi32 (inp ! 2) 29) (mm_slli_epi32 (mm_and_si128 (inp ! 3) (mm_set1_epi32 268435455)) (31 - 28)),
     mm_or_si128 (mm_srli_epi32 (inp ! 3) 28) (mm_slli_epi32 (mm_and_si128 (inp ! 4) (mm_set1_epi32 134217727)) (31 - 27)),
     mm_or_si128 (mm_srli_epi32 (inp ! 4) 27) (mm_slli_epi32 (mm_and_si128 (inp ! 5) (mm_set1_epi32 67108863)) (31 - 26)),
     mm_or_si128 (mm_srli_epi32 (inp ! 5) 26) (mm_slli_epi32 (mm_and_si128 (inp ! 6) (mm_set1_epi32 33554431)) (31 - 25)),
     mm_or_si128 (mm_srli_epi32 (inp ! 6) 25) (mm_slli_epi32 (mm_and_si128 (inp ! 7) (mm_set1_epi32 16777215)) (31 - 24)),
     mm_or_si128 (mm_srli_epi32 (inp ! 7) 24) (mm_slli_epi32 (mm_and_si128 (inp ! 8) (mm_set1_epi32 8388607)) (31 - 23)),
     mm_or_si128 (mm_srli_epi32 (inp ! 8) 23) (mm_slli_epi32 (mm_and_si128 (inp ! 9) (mm_set1_epi32 4194303)) (31 - 22)),
     mm_or_si128 (mm_srli_epi32 (inp ! 9) 22) (mm_slli_epi32 (mm_and_si128 (inp ! 10) (mm_set1_epi32 2097151)) (31 - 21)),
     mm_or_si128 (mm_srli_epi32 (inp ! 10) 21) (mm_slli_epi32 (mm_and_si128 (inp ! 11) (mm_set1_epi32 1048575)) (31 - 20)),
     mm_or_si128 (mm_srli_epi32 (inp ! 11) 20) (mm_slli_epi32 (mm_and_si128 (inp ! 12) (mm_set1_epi32 524287)) (31 - 19)),
     mm_or_si128 (mm_srli_epi32 (inp ! 12) 19) (mm_slli_epi32 (mm_and_si128 (inp ! 13) (mm_set1_epi32 262143)) (31 - 18)),
     mm_or_si128 (mm_srli_epi32 (inp ! 13) 18) (mm_slli_epi32 (mm_and_si128 (inp ! 14) (mm_set1_epi32 131071)) (31 - 17)),
     mm_or_si128 (mm_srli_epi32 (inp ! 14) 17) (mm_slli_epi32 (mm_and_si128 (inp ! 15) (mm_set1_epi32 65535)) (31 - 16)),
     mm_or_si128 (mm_srli_epi32 (inp ! 15) 16) (mm_slli_epi32 (mm_and_si128 (inp ! 16) (mm_set1_epi32 32767)) (31 - 15)),
     mm_or_si128 (mm_srli_epi32 (inp ! 16) 15) (mm_slli_epi32 (mm_and_si128 (inp ! 17) (mm_set1_epi32 16383)) (31 - 14)),
     mm_or_si128 (mm_srli_epi32 (inp ! 17) 14) (mm_slli_epi32 (mm_and_si128 (inp ! 18) (mm_set1_epi32 8191)) (31 - 13)),
     mm_or_si128 (mm_srli_epi32 (inp ! 18) 13) (mm_slli_epi32 (mm_and_si128 (inp ! 19) (mm_set1_epi32 4095)) (31 - 12)),
     mm_or_si128 (mm_srli_epi32 (inp ! 19) 12) (mm_slli_epi32 (mm_and_si128 (inp ! 20) (mm_set1_epi32 2047)) (31 - 11)),
     mm_or_si128 (mm_srli_epi32 (inp ! 20) 11) (mm_slli_epi32 (mm_and_si128 (inp ! 21) (mm_set1_epi32 1023)) (31 - 10)),
     mm_or_si128 (mm_srli_epi32 (inp ! 21) 10) (mm_slli_epi32 (mm_and_si128 (inp ! 22) (mm_set1_epi32 511)) (31 - 9)),
     mm_or_si128 (mm_srli_epi32 (inp ! 22) 9) (mm_slli_epi32 (mm_and_si128 (inp ! 23) (mm_set1_epi32 255)) (31 - 8)),
     mm_or_si128 (mm_srli_epi32 (inp ! 23) 8) (mm_slli_epi32 (mm_and_si128 (inp ! 24) (mm_set1_epi32 127)) (31 - 7)),
     mm_or_si128 (mm_srli_epi32 (inp ! 24) 7) (mm_slli_epi32 (mm_and_si128 (inp ! 25) (mm_set1_epi32 63)) (31 - 6)),
     mm_or_si128 (mm_srli_epi32 (inp ! 25) 6) (mm_slli_epi32 (mm_and_si128 (inp ! 26) (mm_set1_epi32 31)) (31 - 5)),
     mm_or_si128 (mm_srli_epi32 (inp ! 26) 5) (mm_slli_epi32 (mm_and_si128 (inp ! 27) (mm_set1_epi32 15)) (31 - 4)),
     mm_or_si128 (mm_srli_epi32 (inp ! 27) 4) (mm_slli_epi32 (mm_and_si128 (inp ! 28) (mm_set1_epi32 7)) (31 - 3)),
     mm_or_si128 (mm_srli_epi32 (inp ! 28) 3) (mm_slli_epi32 (mm_and_si128 (inp ! 29) (mm_set1_epi32 3)) (31 - 2)),
     mm_or_si128 (mm_srli_epi32 (inp ! 29) 2) (mm_slli_epi32 (mm_and_si128 (inp ! 30) (mm_set1_epi32 1)) (31 - 1)),
     mm_srli_epi32 (inp ! 30) 1])"

definition SIMD_fastunpack32_32 :: "m128i list \<Rightarrow> m128i list" where
  "SIMD_fastunpack32_32 inp =
    map (\<lambda>outer. inp ! outer) [0..<32]"

section \<open>They pack and unpack as their counterparts\<close>

lemma SIMD_fastpackwithoutmask1_32_eq: "SIMD_fastpackwithoutmask1_32 = SIMD_fastpackwithoutmask1"
  by (rule ext) (simp only: SIMD_fastpackwithoutmask1_32_def SIMD_fastpackwithoutmask1_def mask_literals)

lemma SIMD_fastpackwithoutmask2_32_eq: "SIMD_fastpackwithoutmask2_32 = SIMD_fastpackwithoutmask2"
  by (rule ext) (simp only: SIMD_fastpackwithoutmask2_32_def SIMD_fastpackwithoutmask2_def mask_literals)

lemma SIMD_fastpackwithoutmask3_32_eq: "SIMD_fastpackwithoutmask3_32 = SIMD_fastpackwithoutmask3"
  by (rule ext) (simp only: SIMD_fastpackwithoutmask3_32_def SIMD_fastpackwithoutmask3_def mask_literals)

lemma SIMD_fastpackwithoutmask4_32_eq: "SIMD_fastpackwithoutmask4_32 = SIMD_fastpackwithoutmask4"
  by (rule ext) (simp only: SIMD_fastpackwithoutmask4_32_def SIMD_fastpackwithoutmask4_def mask_literals)

lemma SIMD_fastpackwithoutmask5_32_eq: "SIMD_fastpackwithoutmask5_32 = SIMD_fastpackwithoutmask5"
  by (rule ext) (simp only: SIMD_fastpackwithoutmask5_32_def SIMD_fastpackwithoutmask5_def mask_literals)

lemma SIMD_fastpackwithoutmask6_32_eq: "SIMD_fastpackwithoutmask6_32 = SIMD_fastpackwithoutmask6"
  by (rule ext) (simp only: SIMD_fastpackwithoutmask6_32_def SIMD_fastpackwithoutmask6_def mask_literals)

lemma SIMD_fastpackwithoutmask7_32_eq: "SIMD_fastpackwithoutmask7_32 = SIMD_fastpackwithoutmask7"
  by (rule ext) (simp only: SIMD_fastpackwithoutmask7_32_def SIMD_fastpackwithoutmask7_def mask_literals)

lemma SIMD_fastpackwithoutmask8_32_eq: "SIMD_fastpackwithoutmask8_32 = SIMD_fastpackwithoutmask8"
  by (rule ext) (simp only: SIMD_fastpackwithoutmask8_32_def SIMD_fastpackwithoutmask8_def mask_literals)

lemma SIMD_fastpackwithoutmask9_32_eq: "SIMD_fastpackwithoutmask9_32 = SIMD_fastpackwithoutmask9"
  by (rule ext) (simp only: SIMD_fastpackwithoutmask9_32_def SIMD_fastpackwithoutmask9_def mask_literals)

lemma SIMD_fastpackwithoutmask10_32_eq: "SIMD_fastpackwithoutmask10_32 = SIMD_fastpackwithoutmask10"
  by (rule ext) (simp only: SIMD_fastpackwithoutmask10_32_def SIMD_fastpackwithoutmask10_def mask_literals)

lemma SIMD_fastpackwithoutmask11_32_eq: "SIMD_fastpackwithoutmask11_32 = SIMD_fastpackwithoutmask11"
  by (rule ext) (simp only: SIMD_fastpackwithoutmask11_32_def SIMD_fastpackwithoutmask11_def mask_literals)

lemma SIMD_fastpackwithoutmask12_32_eq: "SIMD_fastpackwithoutmask12_32 = SIMD_fastpackwithoutmask12"
  by (rule ext) (simp only: SIMD_fastpackwithoutmask12_32_def SIMD_fastpackwithoutmask12_def mask_literals)

lemma SIMD_fastpackwithoutmask13_32_eq: "SIMD_fastpackwithoutmask13_32 = SIMD_fastpackwithoutmask13"
  by (rule ext) (simp only: SIMD_fastpackwithoutmask13_32_def SIMD_fastpackwithoutmask13_def mask_literals)

lemma SIMD_fastpackwithoutmask14_32_eq: "SIMD_fastpackwithoutmask14_32 = SIMD_fastpackwithoutmask14"
  by (rule ext) (simp only: SIMD_fastpackwithoutmask14_32_def SIMD_fastpackwithoutmask14_def mask_literals)

lemma SIMD_fastpackwithoutmask15_32_eq: "SIMD_fastpackwithoutmask15_32 = SIMD_fastpackwithoutmask15"
  by (rule ext) (simp only: SIMD_fastpackwithoutmask15_32_def SIMD_fastpackwithoutmask15_def mask_literals)

lemma SIMD_fastpackwithoutmask16_32_eq: "SIMD_fastpackwithoutmask16_32 = SIMD_fastpackwithoutmask16"
  by (rule ext) (simp only: SIMD_fastpackwithoutmask16_32_def SIMD_fastpackwithoutmask16_def mask_literals)

lemma SIMD_fastpackwithoutmask17_32_eq: "SIMD_fastpackwithoutmask17_32 = SIMD_fastpackwithoutmask17"
  by (rule ext) (simp only: SIMD_fastpackwithoutmask17_32_def SIMD_fastpackwithoutmask17_def mask_literals)

lemma SIMD_fastpackwithoutmask18_32_eq: "SIMD_fastpackwithoutmask18_32 = SIMD_fastpackwithoutmask18"
  by (rule ext) (simp only: SIMD_fastpackwithoutmask18_32_def SIMD_fastpackwithoutmask18_def mask_literals)

lemma SIMD_fastpackwithoutmask19_32_eq: "SIMD_fastpackwithoutmask19_32 = SIMD_fastpackwithoutmask19"
  by (rule ext) (simp only: SIMD_fastpackwithoutmask19_32_def SIMD_fastpackwithoutmask19_def mask_literals)

lemma SIMD_fastpackwithoutmask20_32_eq: "SIMD_fastpackwithoutmask20_32 = SIMD_fastpackwithoutmask20"
  by (rule ext) (simp only: SIMD_fastpackwithoutmask20_32_def SIMD_fastpackwithoutmask20_def mask_literals)

lemma SIMD_fastpackwithoutmask21_32_eq: "SIMD_fastpackwithoutmask21_32 = SIMD_fastpackwithoutmask21"
  by (rule ext) (simp only: SIMD_fastpackwithoutmask21_32_def SIMD_fastpackwithoutmask21_def mask_literals)

lemma SIMD_fastpackwithoutmask22_32_eq: "SIMD_fastpackwithoutmask22_32 = SIMD_fastpackwithoutmask22"
  by (rule ext) (simp only: SIMD_fastpackwithoutmask22_32_def SIMD_fastpackwithoutmask22_def mask_literals)

lemma SIMD_fastpackwithoutmask23_32_eq: "SIMD_fastpackwithoutmask23_32 = SIMD_fastpackwithoutmask23"
  by (rule ext) (simp only: SIMD_fastpackwithoutmask23_32_def SIMD_fastpackwithoutmask23_def mask_literals)

lemma SIMD_fastpackwithoutmask24_32_eq: "SIMD_fastpackwithoutmask24_32 = SIMD_fastpackwithoutmask24"
  by (rule ext) (simp only: SIMD_fastpackwithoutmask24_32_def SIMD_fastpackwithoutmask24_def mask_literals)

lemma SIMD_fastpackwithoutmask25_32_eq: "SIMD_fastpackwithoutmask25_32 = SIMD_fastpackwithoutmask25"
  by (rule ext) (simp only: SIMD_fastpackwithoutmask25_32_def SIMD_fastpackwithoutmask25_def mask_literals)

lemma SIMD_fastpackwithoutmask26_32_eq: "SIMD_fastpackwithoutmask26_32 = SIMD_fastpackwithoutmask26"
  by (rule ext) (simp only: SIMD_fastpackwithoutmask26_32_def SIMD_fastpackwithoutmask26_def mask_literals)

lemma SIMD_fastpackwithoutmask27_32_eq: "SIMD_fastpackwithoutmask27_32 = SIMD_fastpackwithoutmask27"
  by (rule ext) (simp only: SIMD_fastpackwithoutmask27_32_def SIMD_fastpackwithoutmask27_def mask_literals)

lemma SIMD_fastpackwithoutmask28_32_eq: "SIMD_fastpackwithoutmask28_32 = SIMD_fastpackwithoutmask28"
  by (rule ext) (simp only: SIMD_fastpackwithoutmask28_32_def SIMD_fastpackwithoutmask28_def mask_literals)

lemma SIMD_fastpackwithoutmask29_32_eq: "SIMD_fastpackwithoutmask29_32 = SIMD_fastpackwithoutmask29"
  by (rule ext) (simp only: SIMD_fastpackwithoutmask29_32_def SIMD_fastpackwithoutmask29_def mask_literals)

lemma SIMD_fastpackwithoutmask30_32_eq: "SIMD_fastpackwithoutmask30_32 = SIMD_fastpackwithoutmask30"
  by (rule ext) (simp only: SIMD_fastpackwithoutmask30_32_def SIMD_fastpackwithoutmask30_def mask_literals)

lemma SIMD_fastpackwithoutmask31_32_eq: "SIMD_fastpackwithoutmask31_32 = SIMD_fastpackwithoutmask31"
  by (rule ext) (simp only: SIMD_fastpackwithoutmask31_32_def SIMD_fastpackwithoutmask31_def mask_literals)

lemma SIMD_fastpackwithoutmask32_32_eq: "SIMD_fastpackwithoutmask32_32 = SIMD_fastpackwithoutmask32"
  by (rule ext) (simp only: SIMD_fastpackwithoutmask32_32_def SIMD_fastpackwithoutmask32_def mask_literals)

lemma SIMD_fastpack1_32_eq: "SIMD_fastpack1_32 = SIMD_fastpack1"
  by (rule ext) (simp only: SIMD_fastpack1_32_def SIMD_fastpack1_def mask_literals)

lemma SIMD_fastpack2_32_eq: "SIMD_fastpack2_32 = SIMD_fastpack2"
  by (rule ext) (simp only: SIMD_fastpack2_32_def SIMD_fastpack2_def mask_literals)

lemma SIMD_fastpack3_32_eq: "SIMD_fastpack3_32 = SIMD_fastpack3"
  by (rule ext) (simp only: SIMD_fastpack3_32_def SIMD_fastpack3_def mask_literals)

lemma SIMD_fastpack4_32_eq: "SIMD_fastpack4_32 = SIMD_fastpack4"
  by (rule ext) (simp only: SIMD_fastpack4_32_def SIMD_fastpack4_def mask_literals)

lemma SIMD_fastpack5_32_eq: "SIMD_fastpack5_32 = SIMD_fastpack5"
  by (rule ext) (simp only: SIMD_fastpack5_32_def SIMD_fastpack5_def mask_literals)

lemma SIMD_fastpack6_32_eq: "SIMD_fastpack6_32 = SIMD_fastpack6"
  by (rule ext) (simp only: SIMD_fastpack6_32_def SIMD_fastpack6_def mask_literals)

lemma SIMD_fastpack7_32_eq: "SIMD_fastpack7_32 = SIMD_fastpack7"
  by (rule ext) (simp only: SIMD_fastpack7_32_def SIMD_fastpack7_def mask_literals)

lemma SIMD_fastpack8_32_eq: "SIMD_fastpack8_32 = SIMD_fastpack8"
  by (rule ext) (simp only: SIMD_fastpack8_32_def SIMD_fastpack8_def mask_literals)

lemma SIMD_fastpack9_32_eq: "SIMD_fastpack9_32 = SIMD_fastpack9"
  by (rule ext) (simp only: SIMD_fastpack9_32_def SIMD_fastpack9_def mask_literals)

lemma SIMD_fastpack10_32_eq: "SIMD_fastpack10_32 = SIMD_fastpack10"
  by (rule ext) (simp only: SIMD_fastpack10_32_def SIMD_fastpack10_def mask_literals)

lemma SIMD_fastpack11_32_eq: "SIMD_fastpack11_32 = SIMD_fastpack11"
  by (rule ext) (simp only: SIMD_fastpack11_32_def SIMD_fastpack11_def mask_literals)

lemma SIMD_fastpack12_32_eq: "SIMD_fastpack12_32 = SIMD_fastpack12"
  by (rule ext) (simp only: SIMD_fastpack12_32_def SIMD_fastpack12_def mask_literals)

lemma SIMD_fastpack13_32_eq: "SIMD_fastpack13_32 = SIMD_fastpack13"
  by (rule ext) (simp only: SIMD_fastpack13_32_def SIMD_fastpack13_def mask_literals)

lemma SIMD_fastpack14_32_eq: "SIMD_fastpack14_32 = SIMD_fastpack14"
  by (rule ext) (simp only: SIMD_fastpack14_32_def SIMD_fastpack14_def mask_literals)

lemma SIMD_fastpack15_32_eq: "SIMD_fastpack15_32 = SIMD_fastpack15"
  by (rule ext) (simp only: SIMD_fastpack15_32_def SIMD_fastpack15_def mask_literals)

lemma SIMD_fastpack16_32_eq: "SIMD_fastpack16_32 = SIMD_fastpack16"
  by (rule ext) (simp only: SIMD_fastpack16_32_def SIMD_fastpack16_def mask_literals)

lemma SIMD_fastpack17_32_eq: "SIMD_fastpack17_32 = SIMD_fastpack17"
  by (rule ext) (simp only: SIMD_fastpack17_32_def SIMD_fastpack17_def mask_literals)

lemma SIMD_fastpack18_32_eq: "SIMD_fastpack18_32 = SIMD_fastpack18"
  by (rule ext) (simp only: SIMD_fastpack18_32_def SIMD_fastpack18_def mask_literals)

lemma SIMD_fastpack19_32_eq: "SIMD_fastpack19_32 = SIMD_fastpack19"
  by (rule ext) (simp only: SIMD_fastpack19_32_def SIMD_fastpack19_def mask_literals)

lemma SIMD_fastpack20_32_eq: "SIMD_fastpack20_32 = SIMD_fastpack20"
  by (rule ext) (simp only: SIMD_fastpack20_32_def SIMD_fastpack20_def mask_literals)

lemma SIMD_fastpack21_32_eq: "SIMD_fastpack21_32 = SIMD_fastpack21"
  by (rule ext) (simp only: SIMD_fastpack21_32_def SIMD_fastpack21_def mask_literals)

lemma SIMD_fastpack22_32_eq: "SIMD_fastpack22_32 = SIMD_fastpack22"
  by (rule ext) (simp only: SIMD_fastpack22_32_def SIMD_fastpack22_def mask_literals)

lemma SIMD_fastpack23_32_eq: "SIMD_fastpack23_32 = SIMD_fastpack23"
  by (rule ext) (simp only: SIMD_fastpack23_32_def SIMD_fastpack23_def mask_literals)

lemma SIMD_fastpack24_32_eq: "SIMD_fastpack24_32 = SIMD_fastpack24"
  by (rule ext) (simp only: SIMD_fastpack24_32_def SIMD_fastpack24_def mask_literals)

lemma SIMD_fastpack25_32_eq: "SIMD_fastpack25_32 = SIMD_fastpack25"
  by (rule ext) (simp only: SIMD_fastpack25_32_def SIMD_fastpack25_def mask_literals)

lemma SIMD_fastpack26_32_eq: "SIMD_fastpack26_32 = SIMD_fastpack26"
  by (rule ext) (simp only: SIMD_fastpack26_32_def SIMD_fastpack26_def mask_literals)

lemma SIMD_fastpack27_32_eq: "SIMD_fastpack27_32 = SIMD_fastpack27"
  by (rule ext) (simp only: SIMD_fastpack27_32_def SIMD_fastpack27_def mask_literals)

lemma SIMD_fastpack28_32_eq: "SIMD_fastpack28_32 = SIMD_fastpack28"
  by (rule ext) (simp only: SIMD_fastpack28_32_def SIMD_fastpack28_def mask_literals)

lemma SIMD_fastpack29_32_eq: "SIMD_fastpack29_32 = SIMD_fastpack29"
  by (rule ext) (simp only: SIMD_fastpack29_32_def SIMD_fastpack29_def mask_literals)

lemma SIMD_fastpack30_32_eq: "SIMD_fastpack30_32 = SIMD_fastpack30"
  by (rule ext) (simp only: SIMD_fastpack30_32_def SIMD_fastpack30_def mask_literals)

lemma SIMD_fastpack31_32_eq: "SIMD_fastpack31_32 = SIMD_fastpack31"
  by (rule ext) (simp only: SIMD_fastpack31_32_def SIMD_fastpack31_def mask_literals)

lemma SIMD_fastpack32_32_eq: "SIMD_fastpack32_32 = SIMD_fastpack32"
  by (rule ext) (simp only: SIMD_fastpack32_32_def SIMD_fastpack32_def mask_literals)

lemma SIMD_nullunpacker32_32_eq: "SIMD_nullunpacker32_32 = SIMD_nullunpacker32"
  by (rule ext) (simp only: SIMD_nullunpacker32_32_def SIMD_nullunpacker32_def)

lemma SIMD_fastunpack1_32_unpacks: "unpacks 1 SIMD_fastunpack1_32"
  unfolding unpacks_def
  by (simp add: SIMD_fastunpack1_32_def unpack_simps lane_simps mask_literals drop_bit_31_mod del: One_nat_def add_Suc_right flip: numeral_2_eq_2)

lemma SIMD_fastunpack2_32_unpacks: "unpacks 2 SIMD_fastunpack2_32"
  unfolding unpacks_def
  by (simp add: SIMD_fastunpack2_32_def unpack_simps lane_simps mask_literals drop_bit_31_mod del: One_nat_def add_Suc_right flip: numeral_2_eq_2)

lemma SIMD_fastunpack3_32_unpacks: "unpacks 3 SIMD_fastunpack3_32"
  unfolding unpacks_def
  by (simp add: SIMD_fastunpack3_32_def unpack_simps lane_simps mask_literals drop_bit_31_mod del: One_nat_def add_Suc_right flip: numeral_2_eq_2)

lemma SIMD_fastunpack4_32_unpacks: "unpacks 4 SIMD_fastunpack4_32"
  unfolding unpacks_def
  by (simp add: SIMD_fastunpack4_32_def unpack_simps lane_simps mask_literals drop_bit_31_mod del: One_nat_def add_Suc_right flip: numeral_2_eq_2)

lemma SIMD_fastunpack5_32_unpacks: "unpacks 5 SIMD_fastunpack5_32"
  unfolding unpacks_def
  by (simp add: SIMD_fastunpack5_32_def unpack_simps lane_simps mask_literals drop_bit_31_mod del: One_nat_def add_Suc_right flip: numeral_2_eq_2)

lemma SIMD_fastunpack6_32_unpacks: "unpacks 6 SIMD_fastunpack6_32"
  unfolding unpacks_def
  by (simp add: SIMD_fastunpack6_32_def unpack_simps lane_simps mask_literals drop_bit_31_mod del: One_nat_def add_Suc_right flip: numeral_2_eq_2)

lemma SIMD_fastunpack7_32_unpacks: "unpacks 7 SIMD_fastunpack7_32"
  unfolding unpacks_def
  by (simp add: SIMD_fastunpack7_32_def unpack_simps lane_simps mask_literals drop_bit_31_mod del: One_nat_def add_Suc_right flip: numeral_2_eq_2)

lemma SIMD_fastunpack8_32_unpacks: "unpacks 8 SIMD_fastunpack8_32"
  unfolding unpacks_def
  by (simp add: SIMD_fastunpack8_32_def unpack_simps lane_simps mask_literals drop_bit_31_mod del: One_nat_def add_Suc_right flip: numeral_2_eq_2)

lemma SIMD_fastunpack9_32_unpacks: "unpacks 9 SIMD_fastunpack9_32"
  unfolding unpacks_def
  by (simp add: SIMD_fastunpack9_32_def unpack_simps lane_simps mask_literals drop_bit_31_mod del: One_nat_def add_Suc_right flip: numeral_2_eq_2)

lemma SIMD_fastunpack10_32_unpacks: "unpacks 10 SIMD_fastunpack10_32"
  unfolding unpacks_def
  by (simp add: SIMD_fastunpack10_32_def unpack_simps lane_simps mask_literals drop_bit_31_mod del: One_nat_def add_Suc_right flip: numeral_2_eq_2)

lemma SIMD_fastunpack11_32_unpacks: "unpacks 11 SIMD_fastunpack11_32"
  unfolding unpacks_def
  by (simp add: SIMD_fastunpack11_32_def unpack_simps lane_simps mask_literals drop_bit_31_mod del: One_nat_def add_Suc_right flip: numeral_2_eq_2)

lemma SIMD_fastunpack12_32_unpacks: "unpacks 12 SIMD_fastunpack12_32"
  unfolding unpacks_def
  by (simp add: SIMD_fastunpack12_32_def unpack_simps lane_simps mask_literals drop_bit_31_mod del: One_nat_def add_Suc_right flip: numeral_2_eq_2)

lemma SIMD_fastunpack13_32_unpacks: "unpacks 13 SIMD_fastunpack13_32"
  unfolding unpacks_def
  by (simp add: SIMD_fastunpack13_32_def unpack_simps lane_simps mask_literals drop_bit_31_mod del: One_nat_def add_Suc_right flip: numeral_2_eq_2)

lemma SIMD_fastunpack14_32_unpacks: "unpacks 14 SIMD_fastunpack14_32"
  unfolding unpacks_def
  by (simp add: SIMD_fastunpack14_32_def unpack_simps lane_simps mask_literals drop_bit_31_mod del: One_nat_def add_Suc_right flip: numeral_2_eq_2)

lemma SIMD_fastunpack15_32_unpacks: "unpacks 15 SIMD_fastunpack15_32"
  unfolding unpacks_def
  by (simp add: SIMD_fastunpack15_32_def unpack_simps lane_simps mask_literals drop_bit_31_mod del: One_nat_def add_Suc_right flip: numeral_2_eq_2)

lemma SIMD_fastunpack16_32_unpacks: "unpacks 16 SIMD_fastunpack16_32"
  unfolding unpacks_def
  by (simp add: SIMD_fastunpack16_32_def unpack_simps lane_simps mask_literals drop_bit_31_mod del: One_nat_def add_Suc_right flip: numeral_2_eq_2)

lemma SIMD_fastunpack17_32_unpacks: "unpacks 17 SIMD_fastunpack17_32"
  unfolding unpacks_def
  by (simp add: SIMD_fastunpack17_32_def unpack_simps lane_simps mask_literals drop_bit_31_mod del: One_nat_def add_Suc_right flip: numeral_2_eq_2)

lemma SIMD_fastunpack18_32_unpacks: "unpacks 18 SIMD_fastunpack18_32"
  unfolding unpacks_def
  by (simp add: SIMD_fastunpack18_32_def unpack_simps lane_simps mask_literals drop_bit_31_mod del: One_nat_def add_Suc_right flip: numeral_2_eq_2)

lemma SIMD_fastunpack19_32_unpacks: "unpacks 19 SIMD_fastunpack19_32"
  unfolding unpacks_def
  by (simp add: SIMD_fastunpack19_32_def unpack_simps lane_simps mask_literals drop_bit_31_mod del: One_nat_def add_Suc_right flip: numeral_2_eq_2)

lemma SIMD_fastunpack20_32_unpacks: "unpacks 20 SIMD_fastunpack20_32"
  unfolding unpacks_def
  by (simp add: SIMD_fastunpack20_32_def unpack_simps lane_simps mask_literals drop_bit_31_mod del: One_nat_def add_Suc_right flip: numeral_2_eq_2)

lemma SIMD_fastunpack21_32_unpacks: "unpacks 21 SIMD_fastunpack21_32"
  unfolding unpacks_def
  by (simp add: SIMD_fastunpack21_32_def unpack_simps lane_simps mask_literals drop_bit_31_mod del: One_nat_def add_Suc_right flip: numeral_2_eq_2)

lemma SIMD_fastunpack22_32_unpacks: "unpacks 22 SIMD_fastunpack22_32"
  unfolding unpacks_def
  by (simp add: SIMD_fastunpack22_32_def unpack_simps lane_simps mask_literals drop_bit_31_mod del: One_nat_def add_Suc_right flip: numeral_2_eq_2)

lemma SIMD_fastunpack23_32_unpacks: "unpacks 23 SIMD_fastunpack23_32"
  unfolding unpacks_def
  by (simp add: SIMD_fastunpack23_32_def unpack_simps lane_simps mask_literals drop_bit_31_mod del: One_nat_def add_Suc_right flip: numeral_2_eq_2)

lemma SIMD_fastunpack24_32_unpacks: "unpacks 24 SIMD_fastunpack24_32"
  unfolding unpacks_def
  by (simp add: SIMD_fastunpack24_32_def unpack_simps lane_simps mask_literals drop_bit_31_mod del: One_nat_def add_Suc_right flip: numeral_2_eq_2)

lemma SIMD_fastunpack25_32_unpacks: "unpacks 25 SIMD_fastunpack25_32"
  unfolding unpacks_def
  by (simp add: SIMD_fastunpack25_32_def unpack_simps lane_simps mask_literals drop_bit_31_mod del: One_nat_def add_Suc_right flip: numeral_2_eq_2)

lemma SIMD_fastunpack26_32_unpacks: "unpacks 26 SIMD_fastunpack26_32"
  unfolding unpacks_def
  by (simp add: SIMD_fastunpack26_32_def unpack_simps lane_simps mask_literals drop_bit_31_mod del: One_nat_def add_Suc_right flip: numeral_2_eq_2)

lemma SIMD_fastunpack27_32_unpacks: "unpacks 27 SIMD_fastunpack27_32"
  unfolding unpacks_def
  by (simp add: SIMD_fastunpack27_32_def unpack_simps lane_simps mask_literals drop_bit_31_mod del: One_nat_def add_Suc_right flip: numeral_2_eq_2)

lemma SIMD_fastunpack28_32_unpacks: "unpacks 28 SIMD_fastunpack28_32"
  unfolding unpacks_def
  by (simp add: SIMD_fastunpack28_32_def unpack_simps lane_simps mask_literals drop_bit_31_mod del: One_nat_def add_Suc_right flip: numeral_2_eq_2)

lemma SIMD_fastunpack29_32_unpacks: "unpacks 29 SIMD_fastunpack29_32"
  unfolding unpacks_def
  by (simp add: SIMD_fastunpack29_32_def unpack_simps lane_simps mask_literals drop_bit_31_mod del: One_nat_def add_Suc_right flip: numeral_2_eq_2)

lemma SIMD_fastunpack30_32_unpacks: "unpacks 30 SIMD_fastunpack30_32"
  unfolding unpacks_def
  by (simp add: SIMD_fastunpack30_32_def unpack_simps lane_simps mask_literals drop_bit_31_mod del: One_nat_def add_Suc_right flip: numeral_2_eq_2)

lemma SIMD_fastunpack31_32_unpacks: "unpacks 31 SIMD_fastunpack31_32"
  unfolding unpacks_def
  by (simp add: SIMD_fastunpack31_32_def unpack_simps lane_simps mask_literals drop_bit_31_mod del: One_nat_def add_Suc_right flip: numeral_2_eq_2)

lemma SIMD_fastunpack32_32_unpacks: "unpacks 32 SIMD_fastunpack32_32"
  unfolding unpacks_def
  by (simp add: SIMD_fastunpack32_32_def unpack_simps lane_simps mask_literals drop_bit_31_mod del: One_nat_def add_Suc_right flip: numeral_2_eq_2)

text \<open>The switches \<open>SIMD_fastpack_32\<close> and so on, as arrays.\<close>

definition SIMD_packwithoutmask_32_table :: "(m128i list \<Rightarrow> m128i list) list" where
  "SIMD_packwithoutmask_32_table =
    [SIMD_fastpackwithoutmask0, SIMD_fastpackwithoutmask1_32, SIMD_fastpackwithoutmask2_32,
     SIMD_fastpackwithoutmask3_32, SIMD_fastpackwithoutmask4_32, SIMD_fastpackwithoutmask5_32,
     SIMD_fastpackwithoutmask6_32, SIMD_fastpackwithoutmask7_32, SIMD_fastpackwithoutmask8_32,
     SIMD_fastpackwithoutmask9_32, SIMD_fastpackwithoutmask10_32, SIMD_fastpackwithoutmask11_32,
     SIMD_fastpackwithoutmask12_32, SIMD_fastpackwithoutmask13_32, SIMD_fastpackwithoutmask14_32,
     SIMD_fastpackwithoutmask15_32, SIMD_fastpackwithoutmask16_32, SIMD_fastpackwithoutmask17_32,
     SIMD_fastpackwithoutmask18_32, SIMD_fastpackwithoutmask19_32, SIMD_fastpackwithoutmask20_32,
     SIMD_fastpackwithoutmask21_32, SIMD_fastpackwithoutmask22_32, SIMD_fastpackwithoutmask23_32,
     SIMD_fastpackwithoutmask24_32, SIMD_fastpackwithoutmask25_32, SIMD_fastpackwithoutmask26_32,
     SIMD_fastpackwithoutmask27_32, SIMD_fastpackwithoutmask28_32, SIMD_fastpackwithoutmask29_32,
     SIMD_fastpackwithoutmask30_32, SIMD_fastpackwithoutmask31_32, SIMD_fastpackwithoutmask32_32]"

definition SIMD_pack_32_table :: "(m128i list \<Rightarrow> m128i list) list" where
  "SIMD_pack_32_table =
    [SIMD_fastpack0, SIMD_fastpack1_32, SIMD_fastpack2_32, SIMD_fastpack3_32, SIMD_fastpack4_32,
     SIMD_fastpack5_32, SIMD_fastpack6_32, SIMD_fastpack7_32, SIMD_fastpack8_32, SIMD_fastpack9_32,
     SIMD_fastpack10_32, SIMD_fastpack11_32, SIMD_fastpack12_32, SIMD_fastpack13_32, SIMD_fastpack14_32,
     SIMD_fastpack15_32, SIMD_fastpack16_32, SIMD_fastpack17_32, SIMD_fastpack18_32, SIMD_fastpack19_32,
     SIMD_fastpack20_32, SIMD_fastpack21_32, SIMD_fastpack22_32, SIMD_fastpack23_32, SIMD_fastpack24_32,
     SIMD_fastpack25_32, SIMD_fastpack26_32, SIMD_fastpack27_32, SIMD_fastpack28_32, SIMD_fastpack29_32,
     SIMD_fastpack30_32, SIMD_fastpack31_32, SIMD_fastpack32_32]"

definition SIMD_unpack_32_table :: "(m128i list \<Rightarrow> m128i list) list" where
  "SIMD_unpack_32_table =
    [SIMD_nullunpacker32_32, SIMD_fastunpack1_32, SIMD_fastunpack2_32, SIMD_fastunpack3_32,
     SIMD_fastunpack4_32, SIMD_fastunpack5_32, SIMD_fastunpack6_32, SIMD_fastunpack7_32, SIMD_fastunpack8_32,
     SIMD_fastunpack9_32, SIMD_fastunpack10_32, SIMD_fastunpack11_32, SIMD_fastunpack12_32,
     SIMD_fastunpack13_32, SIMD_fastunpack14_32, SIMD_fastunpack15_32, SIMD_fastunpack16_32,
     SIMD_fastunpack17_32, SIMD_fastunpack18_32, SIMD_fastunpack19_32, SIMD_fastunpack20_32,
     SIMD_fastunpack21_32, SIMD_fastunpack22_32, SIMD_fastunpack23_32, SIMD_fastunpack24_32,
     SIMD_fastunpack25_32, SIMD_fastunpack26_32, SIMD_fastunpack27_32, SIMD_fastunpack28_32,
     SIMD_fastunpack29_32, SIMD_fastunpack30_32, SIMD_fastunpack31_32, SIMD_fastunpack32_32]"

lemmas SIMD_packwithoutmask_32_eqs =
  SIMD_fastpackwithoutmask1_32_eq SIMD_fastpackwithoutmask2_32_eq SIMD_fastpackwithoutmask3_32_eq
  SIMD_fastpackwithoutmask4_32_eq SIMD_fastpackwithoutmask5_32_eq SIMD_fastpackwithoutmask6_32_eq
  SIMD_fastpackwithoutmask7_32_eq SIMD_fastpackwithoutmask8_32_eq SIMD_fastpackwithoutmask9_32_eq
  SIMD_fastpackwithoutmask10_32_eq SIMD_fastpackwithoutmask11_32_eq SIMD_fastpackwithoutmask12_32_eq
  SIMD_fastpackwithoutmask13_32_eq SIMD_fastpackwithoutmask14_32_eq SIMD_fastpackwithoutmask15_32_eq
  SIMD_fastpackwithoutmask16_32_eq SIMD_fastpackwithoutmask17_32_eq SIMD_fastpackwithoutmask18_32_eq
  SIMD_fastpackwithoutmask19_32_eq SIMD_fastpackwithoutmask20_32_eq SIMD_fastpackwithoutmask21_32_eq
  SIMD_fastpackwithoutmask22_32_eq SIMD_fastpackwithoutmask23_32_eq SIMD_fastpackwithoutmask24_32_eq
  SIMD_fastpackwithoutmask25_32_eq SIMD_fastpackwithoutmask26_32_eq SIMD_fastpackwithoutmask27_32_eq
  SIMD_fastpackwithoutmask28_32_eq SIMD_fastpackwithoutmask29_32_eq SIMD_fastpackwithoutmask30_32_eq
  SIMD_fastpackwithoutmask31_32_eq SIMD_fastpackwithoutmask32_32_eq

lemma SIMD_packwithoutmask_32_table_eq: "SIMD_packwithoutmask_32_table = SIMD_packwithoutmask_table"
  by (simp only: SIMD_packwithoutmask_32_table_def SIMD_packwithoutmask_table_def SIMD_packwithoutmask_32_eqs)

lemmas SIMD_pack_32_eqs =
  SIMD_fastpack1_32_eq SIMD_fastpack2_32_eq SIMD_fastpack3_32_eq SIMD_fastpack4_32_eq SIMD_fastpack5_32_eq
  SIMD_fastpack6_32_eq SIMD_fastpack7_32_eq SIMD_fastpack8_32_eq SIMD_fastpack9_32_eq SIMD_fastpack10_32_eq
  SIMD_fastpack11_32_eq SIMD_fastpack12_32_eq SIMD_fastpack13_32_eq SIMD_fastpack14_32_eq
  SIMD_fastpack15_32_eq SIMD_fastpack16_32_eq SIMD_fastpack17_32_eq SIMD_fastpack18_32_eq
  SIMD_fastpack19_32_eq SIMD_fastpack20_32_eq SIMD_fastpack21_32_eq SIMD_fastpack22_32_eq
  SIMD_fastpack23_32_eq SIMD_fastpack24_32_eq SIMD_fastpack25_32_eq SIMD_fastpack26_32_eq
  SIMD_fastpack27_32_eq SIMD_fastpack28_32_eq SIMD_fastpack29_32_eq SIMD_fastpack30_32_eq
  SIMD_fastpack31_32_eq SIMD_fastpack32_32_eq

lemma SIMD_pack_32_table_eq: "SIMD_pack_32_table = SIMD_pack_table"
  by (simp only: SIMD_pack_32_table_def SIMD_pack_table_def SIMD_pack_32_eqs)

lemmas SIMD_unpacks_32 =
  SIMD_fastunpack1_32_unpacks SIMD_fastunpack2_32_unpacks SIMD_fastunpack3_32_unpacks
  SIMD_fastunpack4_32_unpacks SIMD_fastunpack5_32_unpacks SIMD_fastunpack6_32_unpacks
  SIMD_fastunpack7_32_unpacks SIMD_fastunpack8_32_unpacks SIMD_fastunpack9_32_unpacks
  SIMD_fastunpack10_32_unpacks SIMD_fastunpack11_32_unpacks SIMD_fastunpack12_32_unpacks
  SIMD_fastunpack13_32_unpacks SIMD_fastunpack14_32_unpacks SIMD_fastunpack15_32_unpacks
  SIMD_fastunpack16_32_unpacks SIMD_fastunpack17_32_unpacks SIMD_fastunpack18_32_unpacks
  SIMD_fastunpack19_32_unpacks SIMD_fastunpack20_32_unpacks SIMD_fastunpack21_32_unpacks
  SIMD_fastunpack22_32_unpacks SIMD_fastunpack23_32_unpacks SIMD_fastunpack24_32_unpacks
  SIMD_fastunpack25_32_unpacks SIMD_fastunpack26_32_unpacks SIMD_fastunpack27_32_unpacks
  SIMD_fastunpack28_32_unpacks SIMD_fastunpack29_32_unpacks SIMD_fastunpack30_32_unpacks
  SIMD_fastunpack31_32_unpacks SIMD_fastunpack32_32_unpacks

lemma SIMD_unpack_32_table_unpacks: "list_all2 unpacks [0..<33] SIMD_unpack_32_table"
  by (simp add: SIMD_unpack_32_table_def upt_step SIMD_nullunpacker32_32_eq SIMD_nullunpacker32_unpacks
      SIMD_unpacks_32 del: One_nat_def add_Suc_right)

end
