(* ===== verification/SIMD_Tables.thy ===== *)
theory SIMD_Tables
  imports SIMD_Codec SIMD_Unaligned SIMD_FastPFor
begin

text \<open>
  The width switches over the vectorised routines: \<open>simdunpack\<close>, \<open>simdpack\<close>, \<open>simdpackwithoutmask\<close> of
  \<open>source/util/compression/simd-compression/simdbitpackinghelpers.cpp\<close> with their unaligned counterparts, those of
  \<open>source/util/compression/int/fastpfor/simdbitpacking.cpp\<close>, and what they have in common.
\<close>

section \<open>The switches\<close>

text \<open>A width above 32 throws; \<^const>\<open>Inl\<close> carries the width.\<close>

definition by_width :: "(m128i list \<Rightarrow> m128i list) list \<Rightarrow> m128i list \<Rightarrow> nat \<Rightarrow> nat + m128i list" where
  "by_width tab inp b = (if b < 33 then Inr ((tab ! b) inp) else Inl b)"

definition simdunpack :: "m128i list \<Rightarrow> nat \<Rightarrow> nat + m128i list" where
  "simdunpack = by_width SIMD_unpack_table"

definition simdpackwithoutmask :: "m128i list \<Rightarrow> nat \<Rightarrow> nat + m128i list" where
  "simdpackwithoutmask = by_width SIMD_packwithoutmask_table"

definition simdpack :: "m128i list \<Rightarrow> nat \<Rightarrow> nat + m128i list" where
  "simdpack = by_width SIMD_pack_table"

definition usimdunpack :: "m128i list \<Rightarrow> nat \<Rightarrow> nat + m128i list" where
  "usimdunpack = by_width uSIMD_unpack_table"

definition usimdpackwithoutmask :: "m128i list \<Rightarrow> nat \<Rightarrow> nat + m128i list" where
  "usimdpackwithoutmask = by_width uSIMD_packwithoutmask_table"

definition usimdpack :: "m128i list \<Rightarrow> nat \<Rightarrow> nat + m128i list" where
  "usimdpack = by_width uSIMD_pack_table"

definition SIMD_fastunpack_32 :: "m128i list \<Rightarrow> nat \<Rightarrow> nat + m128i list" where
  "SIMD_fastunpack_32 = by_width SIMD_unpack_32_table"

definition SIMD_fastpackwithoutmask_32 :: "m128i list \<Rightarrow> nat \<Rightarrow> nat + m128i list" where
  "SIMD_fastpackwithoutmask_32 = by_width SIMD_packwithoutmask_32_table"

definition SIMD_fastpack_32 :: "m128i list \<Rightarrow> nat \<Rightarrow> nat + m128i list" where
  "SIMD_fastpack_32 = by_width SIMD_pack_32_table"

section \<open>Lookups\<close>

lemmas fp_unpack_lookup = table_lookup [OF SIMD_unpack_32_table_unpacks]
lemmas mask_lookup = table_lookup2 [OF SIMD_pack_table_eq tables_length(1)]

lemma simdpackwithoutmask_packs: "b \<le> 32 \<Longrightarrow> simdpackwithoutmask inp b = Inr ((SIMD_packwithoutmask_table ! b) inp)"
  by (simp add: simdpackwithoutmask_def by_width_def)

lemma switches_agree:
  "usimdunpack = simdunpack" "usimdpackwithoutmask = simdpackwithoutmask" "usimdpack = simdpack"
  "SIMD_fastpackwithoutmask_32 = simdpackwithoutmask" "SIMD_fastpack_32 = simdpack"
  by (simp_all add: usimdunpack_def usimdpackwithoutmask_def usimdpack_def simdunpack_def simdpackwithoutmask_def
      simdpack_def SIMD_fastpackwithoutmask_32_def SIMD_fastpack_32_def uSIMD_unpack_table_eq
      uSIMD_packwithoutmask_table_eq uSIMD_pack_table_eq SIMD_packwithoutmask_32_table_eq SIMD_pack_32_table_eq)

section \<open>Properties\<close>

text \<open>C24. The vectorised routines of all three source files pack and unpack as the scalar reference does, lane by
  lane: for a width up to 32 every switch finds a routine, packing 32 vectors gives \<open>b\<close>
  vectors each of whose lanes is the reference packing of that lane, masking first where the routine masks,
  and unpacking is the reference unpacking. The aligned, unaligned and \<open>fastpfor\<close> routines of each of the three kinds give the
  same vectors; all nine throw for a width above 32, whatever the input.\<close>

theorem simd_routines_match_reference:
  assumes "length inp = 32"
  shows "if b \<le> 32 then
      (\<exists>out. simdpackwithoutmask inp b = Inr out \<and> usimdpackwithoutmask inp b = Inr out \<and>
         SIMD_fastpackwithoutmask_32 inp b = Inr out \<and> length out = b \<and>
         (\<forall>l. map (lane l) out = pack_nomask_ref b (map (lane l) inp))) \<and>
      simdpack inp b = simdpackwithoutmask (vmask b inp) b \<and> usimdpack inp b = simdpackwithoutmask (vmask b inp) b \<and>
      SIMD_fastpack_32 inp b = simdpackwithoutmask (vmask b inp) b \<and>
      (\<forall>ws. length ws = b \<longrightarrow> (\<exists>out. simdunpack ws b = Inr out \<and> usimdunpack ws b = Inr out \<and> SIMD_fastunpack_32 ws b = Inr out \<and>
         (\<forall>l. map (lane l) out = unpack_ref b (map (lane l) ws))))
    else (\<forall>ws. simdpackwithoutmask ws b = Inl b \<and> usimdpackwithoutmask ws b = Inl b \<and> SIMD_fastpackwithoutmask_32 ws b = Inl b \<and>
      simdpack ws b = Inl b \<and> usimdpack ws b = Inl b \<and> SIMD_fastpack_32 ws b = Inl b \<and>
      simdunpack ws b = Inl b \<and> usimdunpack ws b = Inl b \<and> SIMD_fastunpack_32 ws b = Inl b)"
proof (cases "b \<le> 32")
  case True
  let ?f = "SIMD_packwithoutmask_table ! b"
  have f: "packs b ?f" using pack_lookup [OF True] by simp
  have p: "simdpackwithoutmask ws b = Inr (?f ws)" for ws by (rule simdpackwithoutmask_packs [OF True])
  have 1: "\<exists>out. simdpackwithoutmask inp b = Inr out \<and> length out = b \<and>
      (\<forall>l. map (lane l) out = pack_nomask_ref b (map (lane l) inp))"
    using f assms packs_length [OF f assms] by (simp add: p packs_def)
  have 2: "simdpack inp b = simdpackwithoutmask (vmask b inp) b"
    using mask_lookup [OF True] True by (simp add: p simdpack_def by_width_def)
  have 3: "\<exists>out. simdunpack ws b = Inr out \<and> SIMD_fastunpack_32 ws b = Inr out \<and>
      (\<forall>l. map (lane l) out = unpack_ref b (map (lane l) ws))" if "length ws = b" for ws
  proof -
    have u: "unpacks b (SIMD_unpack_table ! b)" "unpacks b (SIMD_unpack_32_table ! b)"
      using unpack_lookup [OF True] fp_unpack_lookup [OF True] by simp_all
    then have "(SIMD_unpack_32_table ! b) ws = (SIMD_unpack_table ! b) ws"
      using that by (intro vectors_eqI) (simp add: unpacks_def)
    then show ?thesis using u that True by (simp add: simdunpack_def SIMD_fastunpack_32_def by_width_def unpacks_def)
  qed
  from 1 2 3 True show ?thesis by (simp add: switches_agree)
qed (simp add: switches_agree SIMD_fastunpack_32_def simdpackwithoutmask_def simdpack_def simdunpack_def by_width_def)

theorem simd_routines_match_reference_witness:
  "usimdpack (replicate 32 (M128 1 2 3 4)) 7 = simdpackwithoutmask (vmask 7 (replicate 32 (M128 1 2 3 4))) 7 \<and>
    SIMD_fastunpack_32 (replicate 32 (M128 1 2 3 4)) 40 = Inl 40"
  using simd_routines_match_reference [of "replicate 32 (M128 1 2 3 4)" 7]
    simd_routines_match_reference [of "replicate 32 (M128 1 2 3 4)" 40] by simp





end
