(* ===== verification/Block_Loops.thy ===== *)
theory Block_Loops
  imports Codec_Base
begin

text \<open>
  The loops that the classes \<open>BinaryPacking\<close>, \<open>FastBinaryPacking\<close> and \<open>BP32\<close> of
  \<open>include/util/compression/int/fastpfor/blockpacking.h\<close> share. An array is cut into blocks of \<open>HowManyMiniBlocks\<close> miniblocks of
  \<open>MiniBlockSize\<close> integers, a positive template parameter; a block is stored as the widths of its miniblocks, called its head here, and then the miniblocks,
  each packed at its width. The classes differ in the head and in the routines they pack with: both are arguments of the
  loops. A locale states what the loops rely on, and the round trip is proved in it.
\<close>

section \<open>Storing through the output pointer\<close>

text \<open>\<open>out\<close> holds the words stored so far; the output has \<open>cap\<close> cells.\<close>

definition emit :: "nat \<Rightarrow> u32 list \<Rightarrow> u32 list \<Rightarrow> u32 list codec_result" where
  "emit cap out ws = within cap (out @ ws)"

section \<open>The loops over miniblocks and blocks\<close>

definition mini_widths :: "nat \<Rightarrow> nat \<Rightarrow> u32 list \<Rightarrow> nat list option" where
  "mini_widths HowMany Mini inp = those (map (\<lambda>i. maxbits (take Mini (drop (i * Mini) inp))) [0..<HowMany])"

primrec put_minis ::
  "(u32 list \<Rightarrow> nat \<Rightarrow> u32 list codec_result) \<Rightarrow> nat \<Rightarrow> nat \<Rightarrow> u32 list \<Rightarrow> nat list \<Rightarrow> u32 list \<Rightarrow> u32 list codec_result"
where
  "put_minis put Mini cap inp [] out = Some (Inr out)"
| "put_minis put Mini cap inp (b # Bs) out =
     and_then (put (take Mini inp) b) (\<lambda>ws.
     and_then (emit cap out ws) (put_minis put Mini cap (drop Mini inp) Bs))"

primrec put_blocks ::
  "nat \<Rightarrow> nat \<Rightarrow> (nat list \<Rightarrow> u32 list codec_result) \<Rightarrow> (u32 list \<Rightarrow> nat \<Rightarrow> u32 list codec_result) \<Rightarrow> nat \<Rightarrow>
   nat \<Rightarrow> u32 list \<Rightarrow> u32 list \<Rightarrow> u32 list codec_result"
where
  "put_blocks HowMany Mini head put cap 0 inp out = Some (Inr out)"
| "put_blocks HowMany Mini head put cap (Suc k) inp out = do {
     Bs \<leftarrow> mini_widths HowMany Mini inp;
     and_then (head Bs) (\<lambda>hd.
     and_then (emit cap out hd) (\<lambda>out.
     and_then (put_minis put Mini cap inp Bs out) (\<lambda>out.
       put_blocks HowMany Mini head put cap k (drop (HowMany * Mini) inp) out)))
   }"

definition pack_array ::
  "nat \<Rightarrow> nat \<Rightarrow> (nat list \<Rightarrow> u32 list codec_result) \<Rightarrow> (u32 list \<Rightarrow> nat \<Rightarrow> u32 list codec_result) \<Rightarrow> nat \<Rightarrow>
   u32 list \<Rightarrow> u32 list codec_result"
where
  "pack_array HowMany Mini head put cap inp =
     and_then (checkifdivisibleby (length inp) (HowMany * Mini)) (\<lambda>_.
     and_then (emit cap [] [of_nat (length inp)]) (\<lambda>out.
       put_blocks HowMany Mini head put cap (length inp div (HowMany * Mini)) inp out))"

primrec get_minis ::
  "(u32 list \<Rightarrow> nat \<Rightarrow> (u32 list \<times> nat) codec_result) \<Rightarrow> nat \<Rightarrow> nat list \<Rightarrow> u32 list \<Rightarrow> u32 list \<Rightarrow>
   (u32 list \<times> u32 list) codec_result"
where
  "get_minis get nvalue [] inp out = Some (Inr (out, inp))"
| "get_minis get nvalue (b # Bs) inp out =
     and_then (get inp b) (\<lambda>(xs, n).
     and_then (emit nvalue out xs) (get_minis get nvalue Bs (drop n inp)))"

primrec get_blocks ::
  "(u32 list \<Rightarrow> (nat list \<times> nat) codec_result) \<Rightarrow> (u32 list \<Rightarrow> nat \<Rightarrow> (u32 list \<times> nat) codec_result) \<Rightarrow> nat \<Rightarrow>
   nat \<Rightarrow> u32 list \<Rightarrow> u32 list \<Rightarrow> (u32 list \<times> u32 list) codec_result"
where
  "get_blocks head get nvalue 0 inp out = Some (Inr (out, inp))"
| "get_blocks head get nvalue (Suc k) inp out =
     and_then (head inp) (\<lambda>(Bs, n).
     and_then (get_minis get nvalue Bs (drop n inp) out) (\<lambda>(out, inp).
       get_blocks head get nvalue k inp out))"

text \<open>The decoders ignore the number of encoded words. Their loop runs while fewer than \<open>actuallength\<close> integers are
  stored, and every turn stores a whole block.\<close>

definition unpack_array ::
  "nat \<Rightarrow> nat \<Rightarrow> (u32 list \<Rightarrow> (nat list \<times> nat) codec_result) \<Rightarrow> (u32 list \<Rightarrow> nat \<Rightarrow> (u32 list \<times> nat) codec_result) \<Rightarrow>
   u32 list \<Rightarrow> nat \<Rightarrow> nat \<Rightarrow> (u32 list \<times> u32 list) codec_result"
where
  "unpack_array HowMany Mini head get inp len nvalue = do {
     actuallength \<leftarrow> rd inp 0;
     get_blocks head get nvalue ((unat actuallength + HowMany * Mini - 1) div (HowMany * Mini)) (drop 1 inp) []
   }"

section \<open>What the loops rely on\<close>

text \<open>A packer and an unpacker of \<open>N\<close> integers: integers that fit the width come back, whatever lies behind the
  words, and the unpacker says how many words it has read.\<close>

locale chunk_coder =
  fixes N :: nat
    and pk :: "u32 list \<Rightarrow> nat \<Rightarrow> u32 list codec_result"
    and up :: "u32 list \<Rightarrow> nat \<Rightarrow> (u32 list \<times> nat) codec_result"
  assumes chunk: "\<lbrakk>b \<le> 32; length xs = N; \<And>x. x \<in> set xs \<Longrightarrow> take_bit b x = x\<rbrakk> \<Longrightarrow>
      \<exists>ws. pk xs b = Some (Inr ws) \<and> (\<forall>rest. up (ws @ rest) b = Some (Inr (xs, length ws)))"

text \<open>A head of widths can be read back.\<close>

locale mini_blocks = chunk_coder Mini put get
  for Mini :: nat and put :: "u32 list \<Rightarrow> nat \<Rightarrow> u32 list codec_result" and get +
  fixes HowMany :: nat
    and head :: "nat list \<Rightarrow> u32 list codec_result"
    and get_head :: "u32 list \<Rightarrow> (nat list \<times> nat) codec_result"
  assumes positive: "0 < HowMany" "0 < Mini"
    and heads: "\<lbrakk>length Bs = HowMany; \<And>b. b \<in> set Bs \<Longrightarrow> b \<le> 32\<rbrakk> \<Longrightarrow>
      \<exists>ws. head Bs = Some (Inr ws) \<and> (\<forall>rest. get_head (ws @ rest) = Some (Inr (Bs, length ws)))"

section \<open>Widths\<close>

primrec minis_fit :: "nat \<Rightarrow> u32 list \<Rightarrow> nat list \<Rightarrow> bool" where
  "minis_fit Mini inp [] = True"
| "minis_fit Mini inp (b # Bs) =
     (b \<le> 32 \<and> (\<forall>x \<in> set (take Mini inp). take_bit b x = x) \<and> minis_fit Mini (drop Mini inp) Bs)"

lemma minis_fit_le: "minis_fit Mini inp Bs \<Longrightarrow> b \<in> set Bs \<Longrightarrow> b \<le> 32"
  by (induction Bs arbitrary: inp) auto

text \<open>The arrays the codecs take: whole blocks, without a miniblock of zeros.\<close>

definition no_zero_mini :: "nat \<Rightarrow> nat \<Rightarrow> u32 list \<Rightarrow> bool" where
  "no_zero_mini n Mini xs \<longleftrightarrow> (\<forall>i < n. list_ex (\<lambda>x. x \<noteq> 0) (take Mini (drop (i * Mini) xs)))"

definition packable :: "nat \<Rightarrow> nat \<Rightarrow> u32 list \<Rightarrow> bool" where
  "packable HowMany Mini xs \<longleftrightarrow> length xs mod (HowMany * Mini) = 0 \<and> length xs < 2 ^ 32 \<and>
     no_zero_mini (length xs div Mini) Mini xs"

lemma no_zero_mini_add:
  "no_zero_mini (n + m) Mini xs \<longleftrightarrow> no_zero_mini n Mini xs \<and> no_zero_mini m Mini (drop (n * Mini) xs)"
proof -
  have "(\<forall>i < n + m. P i) \<longleftrightarrow> (\<forall>i < n. P i) \<and> (\<forall>i < m. P (i + n))" for P :: "nat \<Rightarrow> bool"
    by (metis add.commute add_diff_inverse_nat nat_add_left_cancel_less trans_less_add1)
  then show ?thesis by (simp add: no_zero_mini_def add.commute add_mult_distrib)
qed

lemma mini_widths_Suc:
  "mini_widths (Suc n) Mini inp = do { b \<leftarrow> maxbits (take Mini inp); Bs \<leftarrow> mini_widths n Mini (drop Mini inp); Some (b # Bs) }"
proof -
  have "map (\<lambda>i. maxbits (take Mini (drop (i * Mini) inp))) [0..<Suc n] =
      maxbits (take Mini inp) # map (\<lambda>i. maxbits (take Mini (drop (i * Mini) (drop Mini inp)))) [0..<n]"
    by (simp add: upt_conv_Cons map_Suc_upt [symmetric] comp_def add.commute del: upt_Suc)
  then show ?thesis by (simp add: mini_widths_def split: option.splits) (auto simp: map_option_case split: option.splits)
qed

lemma mini_widths_defined:
  assumes "no_zero_mini n Mini inp"
  shows "\<exists>Bs. mini_widths n Mini inp = Some Bs \<and> length Bs = n \<and> minis_fit Mini inp Bs"
  using assms
proof (induction n arbitrary: inp)
  case 0
  show ?case by (simp add: mini_widths_def)
next
  case (Suc n)
  have z: "list_ex (\<lambda>x. x \<noteq> 0) (take Mini inp)" "no_zero_mini n Mini (drop Mini inp)"
    using Suc.prems no_zero_mini_add [of 1 n Mini inp] by (simp_all add: no_zero_mini_def)
  from maxbits_defined [OF z(1)] obtain b where b: "maxbits (take Mini inp) = Some b" .
  from Suc.IH [OF z(2)] obtain Bs where
    Bs: "mini_widths n Mini (drop Mini inp) = Some Bs" "length Bs = n" "minis_fit Mini (drop Mini inp) Bs" by blast
  show ?case using b Bs maxbits_fits [OF b] by (intro exI [of _ "b # Bs"]) (simp add: mini_widths_Suc)
qed

text \<open>The four bytes of a head.\<close>

lemma head_bytes:
  fixes a b c d :: u32
  assumes "take_bit 8 a = a" "take_bit 8 b = b" "take_bit 8 c = c" "take_bit 8 d = d"
  defines "w \<equiv> push_bit 24 a OR push_bit 16 b OR push_bit 8 c OR d"
  shows "(ucast (drop_bit 24 w) :: u8) = ucast a" "(ucast (drop_bit 16 w) :: u8) = ucast b"
    "(ucast (drop_bit 8 w) :: u8) = ucast c" "(ucast w :: u8) = ucast d"
proof -
  have small: "bit x i \<Longrightarrow> i < 8" if "take_bit 8 x = x" for x :: u32 and i
    using that by (metis bit_take_bit_iff)
  note s = small [OF assms(1)] small [OF assms(2)] small [OF assms(3)] small [OF assms(4)]
  show "(ucast (drop_bit 24 w) :: u8) = ucast a" "(ucast (drop_bit 16 w) :: u8) = ucast b"
    "(ucast (drop_bit 8 w) :: u8) = ucast c" "(ucast w :: u8) = ucast d"
    by (rule bit_eqI; use s in \<open>fastforce simp: w_def bit_simps\<close>)+
qed

section \<open>The round trip of the loops\<close>

context mini_blocks begin

lemma minis_round_trip:
  assumes "minis_fit Mini inp Bs" "length Bs * Mini \<le> length inp"
  shows "\<exists>ws. (\<forall>cap out. length out + length ws \<le> cap \<longrightarrow> put_minis put Mini cap inp Bs out = Some (Inr (out @ ws))) \<and>
    (\<forall>nvalue rest out. length out + length Bs * Mini \<le> nvalue \<longrightarrow>
       get_minis get nvalue Bs (ws @ rest) out = Some (Inr (out @ take (length Bs * Mini) inp, rest)))"
  using assms
proof (induction Bs arbitrary: inp)
  case (Cons b Bs)
  have l: "length (take Mini inp) = Mini" "length Bs * Mini \<le> length (drop Mini inp)" using Cons.prems(2) by simp_all
  have f: "b \<le> 32" "\<And>x. x \<in> set (take Mini inp) \<Longrightarrow> take_bit b x = x" "minis_fit Mini (drop Mini inp) Bs"
    using Cons.prems(1) by simp_all
  from chunk [OF f(1) l(1) f(2)] obtain ws1 where
    1: "put (take Mini inp) b = Some (Inr ws1)" "\<And>rest. get (ws1 @ rest) b = Some (Inr (take Mini inp, length ws1))" by blast
  from Cons.IH [OF f(3) l(2)] obtain ws2 where
    2: "\<And>cap out. length out + length ws2 \<le> cap \<Longrightarrow> put_minis put Mini cap (drop Mini inp) Bs out = Some (Inr (out @ ws2))"
       "\<And>nvalue rest out. length out + length Bs * Mini \<le> nvalue \<Longrightarrow>
          get_minis get nvalue Bs (ws2 @ rest) out = Some (Inr (out @ take (length Bs * Mini) (drop Mini inp), rest))"
    by blast
  have "put_minis put Mini cap inp (b # Bs) out = Some (Inr (out @ ws1 @ ws2))" if "length out + length (ws1 @ ws2) \<le> cap" for cap out
    using that 1(1) 2(1) [of "out @ ws1" cap] by (simp add: emit_def within_def)
  moreover have "get_minis get nvalue (b # Bs) ((ws1 @ ws2) @ rest) out =
      Some (Inr (out @ take (length (b # Bs) * Mini) inp, rest))"
    if "length out + length (b # Bs) * Mini \<le> nvalue" for nvalue rest out
    using that l(1) 1(2) [of "ws2 @ rest"] 2(2) [of "out @ take Mini inp" nvalue rest]
    by (simp add: emit_def within_def take_add)
  ultimately show ?case by blast
qed (rule exI [of _ "[]"], simp)

lemma blocks_round_trip:
  assumes "length inp = k * (HowMany * Mini)" "no_zero_mini (k * HowMany) Mini inp"
  shows "\<exists>ws. (\<forall>cap out. length out + length ws \<le> cap \<longrightarrow>
       put_blocks HowMany Mini head put cap k inp out = Some (Inr (out @ ws))) \<and>
    (\<forall>nvalue rest out. length out + length inp \<le> nvalue \<longrightarrow>
       get_blocks get_head get nvalue k (ws @ rest) out = Some (Inr (out @ inp, rest)))"
  using assms
proof (induction k arbitrary: inp)
  case (Suc k)
  let ?B = "HowMany * Mini"
  have z: "no_zero_mini HowMany Mini inp" "no_zero_mini (k * HowMany) Mini (drop ?B inp)"
    using Suc.prems(2) by (simp_all add: no_zero_mini_add)
  have l: "length (drop ?B inp) = k * ?B" "?B \<le> length inp" using Suc.prems(1) by simp_all
  from mini_widths_defined [OF z(1)] obtain Bs where
    Bs: "mini_widths HowMany Mini inp = Some Bs" "length Bs = HowMany" "minis_fit Mini inp Bs" by blast
  from heads [OF Bs(2) minis_fit_le [OF Bs(3)]] obtain hd where
    h: "head Bs = Some (Inr hd)" "\<And>rest. get_head (hd @ rest) = Some (Inr (Bs, length hd))" by blast
  from minis_round_trip [OF Bs(3)] l(2) obtain ws1 where
    1: "\<And>cap out. length out + length ws1 \<le> cap \<Longrightarrow> put_minis put Mini cap inp Bs out = Some (Inr (out @ ws1))"
       "\<And>nvalue rest out. length out + ?B \<le> nvalue \<Longrightarrow>
          get_minis get nvalue Bs (ws1 @ rest) out = Some (Inr (out @ take ?B inp, rest))"
    unfolding Bs(2) by blast
  from Suc.IH [OF l(1) z(2)] obtain ws2 where
    2: "\<And>cap out. length out + length ws2 \<le> cap \<Longrightarrow>
          put_blocks HowMany Mini head put cap k (drop ?B inp) out = Some (Inr (out @ ws2))"
       "\<And>nvalue rest out. length out + length (drop ?B inp) \<le> nvalue \<Longrightarrow>
          get_blocks get_head get nvalue k (ws2 @ rest) out = Some (Inr (out @ drop ?B inp, rest))"
    by blast
  have "put_blocks HowMany Mini head put cap (Suc k) inp out = Some (Inr (out @ hd @ ws1 @ ws2))"
    if "length out + length (hd @ ws1 @ ws2) \<le> cap" for cap out
    using that Bs(1) h(1) 1(1) [of "out @ hd" cap] 2(1) [of "out @ hd @ ws1" cap] by (simp add: emit_def within_def)
  moreover have "get_blocks get_head get nvalue (Suc k) ((hd @ ws1 @ ws2) @ rest) out = Some (Inr (out @ inp, rest))"
    if "length out + length inp \<le> nvalue" for nvalue rest out
    using that l h(2) [of "ws1 @ ws2 @ rest"] 1(2) [of out nvalue "ws2 @ rest"] 2(2) [of "out @ take ?B inp" nvalue rest]
    by simp
  ultimately show ?case by blast
qed (rule exI [of _ "[]"], simp)

lemma packing_round_trip:
  assumes "packable HowMany Mini xs"
  shows "\<exists>ws. (\<forall>cap. length ws \<le> cap \<longrightarrow> pack_array HowMany Mini head put cap xs = Some (Inr ws)) \<and>
    (\<forall>nvalue len rest. length xs \<le> nvalue \<and> length ws \<le> len \<longrightarrow>
       unpack_array HowMany Mini get_head get (ws @ rest) len nvalue = Some (Inr (xs, rest)))"
proof -
  let ?B = "HowMany * Mini"
  have B: "0 < ?B" using positive by simp
  from assms have m: "length xs mod ?B = 0" and n: "length xs < 2 ^ 32" and z: "no_zero_mini (length xs div Mini) Mini xs"
    by (simp_all only: packable_def)
  from mod_0_imp_dvd [OF m] obtain k where k: "length xs = k * ?B" by (metis dvdE mult.commute)
  have ceil: "(k * B + B - 1) div B = k" if "0 < B" for B :: nat
    using that by (intro div_nat_eqI) (simp_all add: mult.commute)
  have d: "length xs div Mini = k * HowMany" "length xs div ?B = k" "(length xs + ?B - 1) div ?B = k"
    unfolding k using positive B ceil [OF B] by (simp_all add: mult.assoc [symmetric])
  from blocks_round_trip [OF k] z d(1) obtain ws where
    ws: "\<And>cap out. length out + length ws \<le> cap \<Longrightarrow> put_blocks HowMany Mini head put cap k xs out = Some (Inr (out @ ws))"
        "\<And>nvalue rest out. length out + length xs \<le> nvalue \<Longrightarrow>
           get_blocks get_head get nvalue k (ws @ rest) out = Some (Inr (out @ xs, rest))"
    by auto
  let ?h = "of_nat (length xs) :: u32"
  have u: "unat ?h = length xs" using n by (simp add: unat_of_nat)
  have "pack_array HowMany Mini head put cap xs = Some (Inr (?h # ws))" if "length (?h # ws) \<le> cap" for cap
    using that m ws(1) [of "[?h]" cap] d(2) by (simp add: pack_array_def checkifdivisibleby_def emit_def within_def)
  moreover have "unpack_array HowMany Mini get_head get ((?h # ws) @ rest) len nvalue = Some (Inr (xs, rest))"
    if "length xs \<le> nvalue" for nvalue len rest
    using that ws(2) [of "[]" nvalue rest] u d(3) by (simp add: unpack_array_def rd_def)
  ultimately show ?thesis by blast
qed

end

sublocale mini_blocks \<subseteq> codec: self_delimiting "pack_array HowMany Mini head put"
  "unpack_array HowMany Mini get_head get" "packable HowMany Mini"
  by unfold_locales (rule packing_round_trip)

end
