(* ===== verification/Bitpack_Short.thy ===== *)
theory Bitpack_Short
  imports Bitpack_Ref
begin

text \<open>
  The reference for the routines that pack fewer than 32 integers or return the pointer behind what they read:
  \<open>n\<close> integers of \<open>b\<close> bits are arranged as in \<open>Bitpack_Ref\<close>, and the last word may be used in part.
\<close>

definition packed_words :: "nat \<Rightarrow> nat \<Rightarrow> nat" where
  "packed_words n b = (n * b + 31) div 32"

text \<open>The integers, and the number of words behind which the returned pointer stands.\<close>

definition unpack_short :: "nat \<Rightarrow> nat \<Rightarrow> u32 list \<Rightarrow> u32 list \<times> nat" where
  "unpack_short n b ws = (map (field b ws) [0..<n], packed_words n b)"

definition pack_short_word :: "nat \<Rightarrow> nat \<Rightarrow> u32 list \<Rightarrow> nat \<Rightarrow> u32" where
  "pack_short_word n b xs q =
     accum (contrib_nomask b xs q (32 * q div b)) (map (contrib_nomask b xs q) [32 * q div b + 1..<min n ((32 * q + 31) div b + 1)])"

definition pack_short :: "nat \<Rightarrow> nat \<Rightarrow> u32 list \<Rightarrow> u32 list" where
  "pack_short n b xs = map (pack_short_word n b xs) [0..<packed_words n b]"

lemma length_pack_short [simp]: "length (pack_short n b xs) = packed_words n b"
  by (simp add: pack_short_def)

lemma contrib_nomask_fits:
  assumes "take_bit b (xs ! i) = xs ! i"
  shows "contrib_nomask b xs q i = contrib b xs q i"
  using assms by (simp only: contrib_nomask_def contrib_def mod_push_bit split: if_splits) simp

lemma bit_pack_short_word:
  assumes b: "0 < b" "b \<le> 32" and k: "k < 32" and fit: "\<And>i. i < n \<Longrightarrow> take_bit b (xs ! i) = xs ! i" and q: "(32 * q + k) div b < n"
  shows "bit (pack_short_word n b xs q) k \<longleftrightarrow> bit (xs ! ((32 * q + k) div b)) ((32 * q + k) mod b)"
proof -
  let ?i = "(32 * q + k) div b"
  have r: "32 * q div b \<le> ?i" "?i < min n ((32 * q + 31) div b + 1)"
    using k q by (auto simp: div_le_mono less_Suc_eq_le)
  then have first: "32 * q div b < n" using q by linarith
  let ?I = "insert (32 * q div b) (set [32 * q div b + 1..<min n ((32 * q + 31) div b + 1)])"
  have c: "bit (contrib_nomask b xs q i) k \<longleftrightarrow> i = ?i \<and> bit (xs ! i) ((32 * q + k) mod b)" if "i < n" for i
    unfolding contrib_nomask_fits [OF fit [OF that]] by (rule bit_contrib [OF b k])
  have "bit (pack_short_word n b xs q) k \<longleftrightarrow> (\<exists>i \<in> ?I. bit (contrib_nomask b xs q i) k)" by (simp add: pack_short_word_def bit_accum)
  also have "\<dots> \<longleftrightarrow> (\<exists>i \<in> ?I. i = ?i \<and> bit (xs ! i) ((32 * q + k) mod b))"
    using first by (intro bex_cong [OF refl] c) auto
  also have "\<dots> \<longleftrightarrow> bit (xs ! ?i) ((32 * q + k) mod b)" using r by (cases "?i = 32 * q div b") auto
  finally show ?thesis .
qed

lemma field_pack_short:
  assumes "b \<le> 32" "i < n" "\<And>i. i < n \<Longrightarrow> take_bit b (xs ! i) = xs ! i"
  shows "field b (pack_short n b xs @ rest) i = xs ! i"
proof (cases "b = 0")
  case True
  then show ?thesis using assms(3) [OF assms(2)] by (simp add: field_def)
next
  case False
  show ?thesis
  proof (rule bit_eqI)
    fix k
    have "bit (field b (pack_short n b xs @ rest) i) k \<longleftrightarrow> k < b \<and> bit (xs ! i) k"
    proof (cases "k < b")
      case True
      let ?p = "b * i + k"
      have p: "?p div b = i" "?p mod b = k" using True by simp_all
      have "?p < n * b"
      proof -
        have "?p < b * (i + 1)" using True by simp
        also have "\<dots> \<le> b * n" using assms(2) by (intro mult_le_mono2) simp
        finally show ?thesis by (simp add: mult.commute)
      qed
      then have w: "?p div 32 < packed_words n b" by (simp add: packed_words_def less_mult_imp_div_less)
      have s: "32 * (?p div 32) + ?p mod 32 = ?p" by simp
      have "bit (pack_short_word n b xs (?p div 32)) (?p mod 32) \<longleftrightarrow> bit (xs ! i) k"
        using bit_pack_short_word [of b "?p mod 32" n xs "?p div 32"] False assms p unfolding s by simp
      then show ?thesis using True w False assms(1) by (simp add: bit_field nth_append pack_short_def)
    qed (use False assms(1) in \<open>simp add: bit_field\<close>)
    moreover have "bit (xs ! i) k \<Longrightarrow> k < b" using assms(3) [OF assms(2)] by (metis bit_take_bit_iff)
    ultimately show "bit (field b (pack_short n b xs @ rest) i) k \<longleftrightarrow> bit (xs ! i) k" by blast
  qed
qed

text \<open>Integers that fit the width are restored, whatever follows the packed words.\<close>

lemma unpack_pack_short:
  assumes "b \<le> 32" "length xs = n" "\<And>x. x \<in> set xs \<Longrightarrow> take_bit b x = x"
  shows "unpack_short n b (pack_short n b xs @ rest) = (xs, packed_words n b)"
proof -
  have "map (field b (pack_short n b xs @ rest)) [0..<n] = xs"
    using assms by (intro nth_equalityI) (simp_all add: field_pack_short)
  then show ?thesis by (simp add: unpack_short_def)
qed

lemma unpack_short_0: "unpack_short n 0 ws = (replicate n 0, 0)"
proof -
  have "field 0 ws = (\<lambda>i. 0)" by (rule ext) (simp add: field_def)
  then show ?thesis by (simp add: unpack_short_def packed_words_def map_replicate_const)
qed

lemmas unpack_short_simps = unpack_short_def packed_words_def field_def Let_def upt_step and_one_eq

lemmas pack_short_words = pack_short_def pack_short_word_def packed_words_def upt_step and_one_eq min_def

lemmas pack_short_simps = contrib_nomask_def upt_step and_one_eq push_bit_1

end
