(* ===== verification/Aligned_Unpack.thy ===== *)
theory Aligned_Unpack
  imports Bitpack_Short
begin

text \<open>
  The unrolled routines \<open>__fastunpackB_N\<close> of \<open>source/util/compression/int/fastpfor/bitpackingaligned.cpp\<close>, which unpack \<open>N\<close> integers of \<open>B\<close>
  bits for \<open>N\<close> one of 8, 16, 24 and 32. Each gives the integers stored through \<open>out\<close> and the distance of the returned pointer from \<open>in\<close> in words, and
  is the reference of its width.
\<close>

section \<open>The routines\<close>

definition nullunpacker8 :: "u32 list \<Rightarrow> u32 list \<times> nat" where
  "nullunpacker8 inp = (replicate 8 0, 0)"

definition fastunpack1_8 :: "u32 list \<Rightarrow> u32 list \<times> nat" where
  "fastunpack1_8 inp =
    ([drop_bit 0 (inp ! 0) AND 1, drop_bit 1 (inp ! 0) AND 1, drop_bit 2 (inp ! 0) AND 1, drop_bit 3 (inp ! 0) AND 1,
      drop_bit 4 (inp ! 0) AND 1, drop_bit 5 (inp ! 0) AND 1, drop_bit 6 (inp ! 0) AND 1, drop_bit 7 (inp ! 0) AND 1], 1)"

definition fastunpack2_8 :: "u32 list \<Rightarrow> u32 list \<times> nat" where
  "fastunpack2_8 inp =
    ([drop_bit 0 (inp ! 0) mod push_bit 2 1, drop_bit 2 (inp ! 0) mod push_bit 2 1,
      drop_bit 4 (inp ! 0) mod push_bit 2 1, drop_bit 6 (inp ! 0) mod push_bit 2 1,
      drop_bit 8 (inp ! 0) mod push_bit 2 1, drop_bit 10 (inp ! 0) mod push_bit 2 1,
      drop_bit 12 (inp ! 0) mod push_bit 2 1, drop_bit 14 (inp ! 0) mod push_bit 2 1], 1)"

definition fastunpack3_8 :: "u32 list \<Rightarrow> u32 list \<times> nat" where
  "fastunpack3_8 inp =
    ([drop_bit 0 (inp ! 0) mod push_bit 3 1, drop_bit 3 (inp ! 0) mod push_bit 3 1,
      drop_bit 6 (inp ! 0) mod push_bit 3 1, drop_bit 9 (inp ! 0) mod push_bit 3 1,
      drop_bit 12 (inp ! 0) mod push_bit 3 1, drop_bit 15 (inp ! 0) mod push_bit 3 1,
      drop_bit 18 (inp ! 0) mod push_bit 3 1, drop_bit 21 (inp ! 0) mod push_bit 3 1], 1)"

definition fastunpack4_8 :: "u32 list \<Rightarrow> u32 list \<times> nat" where
  "fastunpack4_8 inp =
    ([drop_bit 0 (inp ! 0) mod push_bit 4 1, drop_bit 4 (inp ! 0) mod push_bit 4 1,
      drop_bit 8 (inp ! 0) mod push_bit 4 1, drop_bit 12 (inp ! 0) mod push_bit 4 1,
      drop_bit 16 (inp ! 0) mod push_bit 4 1, drop_bit 20 (inp ! 0) mod push_bit 4 1,
      drop_bit 24 (inp ! 0) mod push_bit 4 1, drop_bit 28 (inp ! 0)], 1)"

definition fastunpack5_8 :: "u32 list \<Rightarrow> u32 list \<times> nat" where
  "fastunpack5_8 inp =
    ([drop_bit 0 (inp ! 0) mod push_bit 5 1, drop_bit 5 (inp ! 0) mod push_bit 5 1,
      drop_bit 10 (inp ! 0) mod push_bit 5 1, drop_bit 15 (inp ! 0) mod push_bit 5 1,
      drop_bit 20 (inp ! 0) mod push_bit 5 1, drop_bit 25 (inp ! 0) mod push_bit 5 1,
      drop_bit 30 (inp ! 0) OR push_bit (5 - 3) (inp ! 1 mod push_bit 3 1), drop_bit 3 (inp ! 1) mod push_bit 5 1], 2)"

definition fastunpack6_8 :: "u32 list \<Rightarrow> u32 list \<times> nat" where
  "fastunpack6_8 inp =
    ([drop_bit 0 (inp ! 0) mod push_bit 6 1, drop_bit 6 (inp ! 0) mod push_bit 6 1,
      drop_bit 12 (inp ! 0) mod push_bit 6 1, drop_bit 18 (inp ! 0) mod push_bit 6 1,
      drop_bit 24 (inp ! 0) mod push_bit 6 1, drop_bit 30 (inp ! 0) OR push_bit (6 - 4) (inp ! 1 mod push_bit 4 1),
      drop_bit 4 (inp ! 1) mod push_bit 6 1, drop_bit 10 (inp ! 1) mod push_bit 6 1], 2)"

definition fastunpack7_8 :: "u32 list \<Rightarrow> u32 list \<times> nat" where
  "fastunpack7_8 inp =
    ([drop_bit 0 (inp ! 0) mod push_bit 7 1, drop_bit 7 (inp ! 0) mod push_bit 7 1,
      drop_bit 14 (inp ! 0) mod push_bit 7 1, drop_bit 21 (inp ! 0) mod push_bit 7 1,
      drop_bit 28 (inp ! 0) OR push_bit (7 - 3) (inp ! 1 mod push_bit 3 1), drop_bit 3 (inp ! 1) mod push_bit 7 1,
      drop_bit 10 (inp ! 1) mod push_bit 7 1, drop_bit 17 (inp ! 1) mod push_bit 7 1], 2)"

definition fastunpack8_8 :: "u32 list \<Rightarrow> u32 list \<times> nat" where
  "fastunpack8_8 inp =
    ([drop_bit 0 (inp ! 0) mod push_bit 8 1, drop_bit 8 (inp ! 0) mod push_bit 8 1,
      drop_bit 16 (inp ! 0) mod push_bit 8 1, drop_bit 24 (inp ! 0), drop_bit 0 (inp ! 1) mod push_bit 8 1,
      drop_bit 8 (inp ! 1) mod push_bit 8 1, drop_bit 16 (inp ! 1) mod push_bit 8 1, drop_bit 24 (inp ! 1)], 2)"

definition fastunpack9_8 :: "u32 list \<Rightarrow> u32 list \<times> nat" where
  "fastunpack9_8 inp =
    ([drop_bit 0 (inp ! 0) mod push_bit 9 1, drop_bit 9 (inp ! 0) mod push_bit 9 1,
      drop_bit 18 (inp ! 0) mod push_bit 9 1, drop_bit 27 (inp ! 0) OR push_bit (9 - 4) (inp ! 1 mod push_bit 4 1),
      drop_bit 4 (inp ! 1) mod push_bit 9 1, drop_bit 13 (inp ! 1) mod push_bit 9 1,
      drop_bit 22 (inp ! 1) mod push_bit 9 1, drop_bit 31 (inp ! 1) OR push_bit (9 - 8) (inp ! 2 mod push_bit 8 1)], 3)"

definition fastunpack10_8 :: "u32 list \<Rightarrow> u32 list \<times> nat" where
  "fastunpack10_8 inp =
    ([drop_bit 0 (inp ! 0) mod push_bit 10 1, drop_bit 10 (inp ! 0) mod push_bit 10 1,
      drop_bit 20 (inp ! 0) mod push_bit 10 1, drop_bit 30 (inp ! 0) OR push_bit (10 - 8) (inp ! 1 mod push_bit 8 1),
      drop_bit 8 (inp ! 1) mod push_bit 10 1, drop_bit 18 (inp ! 1) mod push_bit 10 1,
      drop_bit 28 (inp ! 1) OR push_bit (10 - 6) (inp ! 2 mod push_bit 6 1), drop_bit 6 (inp ! 2) mod push_bit 10 1], 3)"

definition fastunpack11_8 :: "u32 list \<Rightarrow> u32 list \<times> nat" where
  "fastunpack11_8 inp =
    ([drop_bit 0 (inp ! 0) mod push_bit 11 1, drop_bit 11 (inp ! 0) mod push_bit 11 1,
      drop_bit 22 (inp ! 0) OR push_bit (11 - 1) (inp ! 1 mod push_bit 1 1), drop_bit 1 (inp ! 1) mod push_bit 11 1,
      drop_bit 12 (inp ! 1) mod push_bit 11 1, drop_bit 23 (inp ! 1) OR push_bit (11 - 2) (inp ! 2 mod push_bit 2 1),
      drop_bit 2 (inp ! 2) mod push_bit 11 1, drop_bit 13 (inp ! 2) mod push_bit 11 1], 3)"

definition fastunpack12_8 :: "u32 list \<Rightarrow> u32 list \<times> nat" where
  "fastunpack12_8 inp =
    ([drop_bit 0 (inp ! 0) mod push_bit 12 1, drop_bit 12 (inp ! 0) mod push_bit 12 1,
      drop_bit 24 (inp ! 0) OR push_bit (12 - 4) (inp ! 1 mod push_bit 4 1), drop_bit 4 (inp ! 1) mod push_bit 12 1,
      drop_bit 16 (inp ! 1) mod push_bit 12 1, drop_bit 28 (inp ! 1) OR push_bit (12 - 8) (inp ! 2 mod push_bit 8 1),
      drop_bit 8 (inp ! 2) mod push_bit 12 1, drop_bit 20 (inp ! 2)], 3)"

definition fastunpack13_8 :: "u32 list \<Rightarrow> u32 list \<times> nat" where
  "fastunpack13_8 inp =
    ([drop_bit 0 (inp ! 0) mod push_bit 13 1, drop_bit 13 (inp ! 0) mod push_bit 13 1,
      drop_bit 26 (inp ! 0) OR push_bit (13 - 7) (inp ! 1 mod push_bit 7 1), drop_bit 7 (inp ! 1) mod push_bit 13 1,
      drop_bit 20 (inp ! 1) OR push_bit (13 - 1) (inp ! 2 mod push_bit 1 1), drop_bit 1 (inp ! 2) mod push_bit 13 1,
      drop_bit 14 (inp ! 2) mod push_bit 13 1, drop_bit 27 (inp ! 2) OR push_bit (13 - 8) (inp ! 3 mod push_bit 8 1)], 4)"

definition fastunpack14_8 :: "u32 list \<Rightarrow> u32 list \<times> nat" where
  "fastunpack14_8 inp =
    ([drop_bit 0 (inp ! 0) mod push_bit 14 1, drop_bit 14 (inp ! 0) mod push_bit 14 1,
      drop_bit 28 (inp ! 0) OR push_bit (14 - 10) (inp ! 1 mod push_bit 10 1),
      drop_bit 10 (inp ! 1) mod push_bit 14 1, drop_bit 24 (inp ! 1) OR push_bit (14 - 6) (inp ! 2 mod push_bit 6 1),
      drop_bit 6 (inp ! 2) mod push_bit 14 1, drop_bit 20 (inp ! 2) OR push_bit (14 - 2) (inp ! 3 mod push_bit 2 1),
      drop_bit 2 (inp ! 3) mod push_bit 14 1], 4)"

definition fastunpack15_8 :: "u32 list \<Rightarrow> u32 list \<times> nat" where
  "fastunpack15_8 inp =
    ([drop_bit 0 (inp ! 0) mod push_bit 15 1, drop_bit 15 (inp ! 0) mod push_bit 15 1,
      drop_bit 30 (inp ! 0) OR push_bit (15 - 13) (inp ! 1 mod push_bit 13 1),
      drop_bit 13 (inp ! 1) mod push_bit 15 1,
      drop_bit 28 (inp ! 1) OR push_bit (15 - 11) (inp ! 2 mod push_bit 11 1),
      drop_bit 11 (inp ! 2) mod push_bit 15 1, drop_bit 26 (inp ! 2) OR push_bit (15 - 9) (inp ! 3 mod push_bit 9 1),
      drop_bit 9 (inp ! 3) mod push_bit 15 1], 4)"

definition fastunpack16_8 :: "u32 list \<Rightarrow> u32 list \<times> nat" where
  "fastunpack16_8 inp =
    ([drop_bit 0 (inp ! 0) mod push_bit 16 1, drop_bit 16 (inp ! 0), drop_bit 0 (inp ! 1) mod push_bit 16 1,
      drop_bit 16 (inp ! 1), drop_bit 0 (inp ! 2) mod push_bit 16 1, drop_bit 16 (inp ! 2),
      drop_bit 0 (inp ! 3) mod push_bit 16 1, drop_bit 16 (inp ! 3)], 4)"

definition fastunpack17_8 :: "u32 list \<Rightarrow> u32 list \<times> nat" where
  "fastunpack17_8 inp =
    ([drop_bit 0 (inp ! 0) mod push_bit 17 1, drop_bit 17 (inp ! 0) OR push_bit (17 - 2) (inp ! 1 mod push_bit 2 1),
      drop_bit 2 (inp ! 1) mod push_bit 17 1, drop_bit 19 (inp ! 1) OR push_bit (17 - 4) (inp ! 2 mod push_bit 4 1),
      drop_bit 4 (inp ! 2) mod push_bit 17 1, drop_bit 21 (inp ! 2) OR push_bit (17 - 6) (inp ! 3 mod push_bit 6 1),
      drop_bit 6 (inp ! 3) mod push_bit 17 1, drop_bit 23 (inp ! 3) OR push_bit (17 - 8) (inp ! 4 mod push_bit 8 1)], 5)"

definition fastunpack18_8 :: "u32 list \<Rightarrow> u32 list \<times> nat" where
  "fastunpack18_8 inp =
    ([drop_bit 0 (inp ! 0) mod push_bit 18 1, drop_bit 18 (inp ! 0) OR push_bit (18 - 4) (inp ! 1 mod push_bit 4 1),
      drop_bit 4 (inp ! 1) mod push_bit 18 1, drop_bit 22 (inp ! 1) OR push_bit (18 - 8) (inp ! 2 mod push_bit 8 1),
      drop_bit 8 (inp ! 2) mod push_bit 18 1,
      drop_bit 26 (inp ! 2) OR push_bit (18 - 12) (inp ! 3 mod push_bit 12 1),
      drop_bit 12 (inp ! 3) mod push_bit 18 1, drop_bit 30 (inp ! 3) OR push_bit (18 - 16) (inp ! 4 mod push_bit 16 1)], 5)"

definition fastunpack19_8 :: "u32 list \<Rightarrow> u32 list \<times> nat" where
  "fastunpack19_8 inp =
    ([drop_bit 0 (inp ! 0) mod push_bit 19 1, drop_bit 19 (inp ! 0) OR push_bit (19 - 6) (inp ! 1 mod push_bit 6 1),
      drop_bit 6 (inp ! 1) mod push_bit 19 1,
      drop_bit 25 (inp ! 1) OR push_bit (19 - 12) (inp ! 2 mod push_bit 12 1),
      drop_bit 12 (inp ! 2) mod push_bit 19 1,
      drop_bit 31 (inp ! 2) OR push_bit (19 - 18) (inp ! 3 mod push_bit 18 1),
      drop_bit 18 (inp ! 3) OR push_bit (19 - 5) (inp ! 4 mod push_bit 5 1), drop_bit 5 (inp ! 4) mod push_bit 19 1], 5)"

definition fastunpack20_8 :: "u32 list \<Rightarrow> u32 list \<times> nat" where
  "fastunpack20_8 inp =
    ([drop_bit 0 (inp ! 0) mod push_bit 20 1, drop_bit 20 (inp ! 0) OR push_bit (20 - 8) (inp ! 1 mod push_bit 8 1),
      drop_bit 8 (inp ! 1) mod push_bit 20 1,
      drop_bit 28 (inp ! 1) OR push_bit (20 - 16) (inp ! 2 mod push_bit 16 1),
      drop_bit 16 (inp ! 2) OR push_bit (20 - 4) (inp ! 3 mod push_bit 4 1), drop_bit 4 (inp ! 3) mod push_bit 20 1,
      drop_bit 24 (inp ! 3) OR push_bit (20 - 12) (inp ! 4 mod push_bit 12 1), drop_bit 12 (inp ! 4)], 5)"

definition fastunpack21_8 :: "u32 list \<Rightarrow> u32 list \<times> nat" where
  "fastunpack21_8 inp =
    ([drop_bit 0 (inp ! 0) mod push_bit 21 1,
      drop_bit 21 (inp ! 0) OR push_bit (21 - 10) (inp ! 1 mod push_bit 10 1),
      drop_bit 10 (inp ! 1) mod push_bit 21 1,
      drop_bit 31 (inp ! 1) OR push_bit (21 - 20) (inp ! 2 mod push_bit 20 1),
      drop_bit 20 (inp ! 2) OR push_bit (21 - 9) (inp ! 3 mod push_bit 9 1), drop_bit 9 (inp ! 3) mod push_bit 21 1,
      drop_bit 30 (inp ! 3) OR push_bit (21 - 19) (inp ! 4 mod push_bit 19 1),
      drop_bit 19 (inp ! 4) OR push_bit (21 - 8) (inp ! 5 mod push_bit 8 1)], 6)"

definition fastunpack22_8 :: "u32 list \<Rightarrow> u32 list \<times> nat" where
  "fastunpack22_8 inp =
    ([drop_bit 0 (inp ! 0) mod push_bit 22 1,
      drop_bit 22 (inp ! 0) OR push_bit (22 - 12) (inp ! 1 mod push_bit 12 1),
      drop_bit 12 (inp ! 1) OR push_bit (22 - 2) (inp ! 2 mod push_bit 2 1), drop_bit 2 (inp ! 2) mod push_bit 22 1,
      drop_bit 24 (inp ! 2) OR push_bit (22 - 14) (inp ! 3 mod push_bit 14 1),
      drop_bit 14 (inp ! 3) OR push_bit (22 - 4) (inp ! 4 mod push_bit 4 1), drop_bit 4 (inp ! 4) mod push_bit 22 1,
      drop_bit 26 (inp ! 4) OR push_bit (22 - 16) (inp ! 5 mod push_bit 16 1)], 6)"

definition fastunpack23_8 :: "u32 list \<Rightarrow> u32 list \<times> nat" where
  "fastunpack23_8 inp =
    ([drop_bit 0 (inp ! 0) mod push_bit 23 1,
      drop_bit 23 (inp ! 0) OR push_bit (23 - 14) (inp ! 1 mod push_bit 14 1),
      drop_bit 14 (inp ! 1) OR push_bit (23 - 5) (inp ! 2 mod push_bit 5 1), drop_bit 5 (inp ! 2) mod push_bit 23 1,
      drop_bit 28 (inp ! 2) OR push_bit (23 - 19) (inp ! 3 mod push_bit 19 1),
      drop_bit 19 (inp ! 3) OR push_bit (23 - 10) (inp ! 4 mod push_bit 10 1),
      drop_bit 10 (inp ! 4) OR push_bit (23 - 1) (inp ! 5 mod push_bit 1 1), drop_bit 1 (inp ! 5) mod push_bit 23 1], 6)"

definition fastunpack24_8 :: "u32 list \<Rightarrow> u32 list \<times> nat" where
  "fastunpack24_8 inp =
    ([drop_bit 0 (inp ! 0) mod push_bit 24 1,
      drop_bit 24 (inp ! 0) OR push_bit (24 - 16) (inp ! 1 mod push_bit 16 1),
      drop_bit 16 (inp ! 1) OR push_bit (24 - 8) (inp ! 2 mod push_bit 8 1), drop_bit 8 (inp ! 2),
      drop_bit 0 (inp ! 3) mod push_bit 24 1,
      drop_bit 24 (inp ! 3) OR push_bit (24 - 16) (inp ! 4 mod push_bit 16 1),
      drop_bit 16 (inp ! 4) OR push_bit (24 - 8) (inp ! 5 mod push_bit 8 1), drop_bit 8 (inp ! 5)], 6)"

definition fastunpack25_8 :: "u32 list \<Rightarrow> u32 list \<times> nat" where
  "fastunpack25_8 inp =
    ([drop_bit 0 (inp ! 0) mod push_bit 25 1,
      drop_bit 25 (inp ! 0) OR push_bit (25 - 18) (inp ! 1 mod push_bit 18 1),
      drop_bit 18 (inp ! 1) OR push_bit (25 - 11) (inp ! 2 mod push_bit 11 1),
      drop_bit 11 (inp ! 2) OR push_bit (25 - 4) (inp ! 3 mod push_bit 4 1), drop_bit 4 (inp ! 3) mod push_bit 25 1,
      drop_bit 29 (inp ! 3) OR push_bit (25 - 22) (inp ! 4 mod push_bit 22 1),
      drop_bit 22 (inp ! 4) OR push_bit (25 - 15) (inp ! 5 mod push_bit 15 1),
      drop_bit 15 (inp ! 5) OR push_bit (25 - 8) (inp ! 6 mod push_bit 8 1)], 7)"

definition fastunpack26_8 :: "u32 list \<Rightarrow> u32 list \<times> nat" where
  "fastunpack26_8 inp =
    ([drop_bit 0 (inp ! 0) mod push_bit 26 1,
      drop_bit 26 (inp ! 0) OR push_bit (26 - 20) (inp ! 1 mod push_bit 20 1),
      drop_bit 20 (inp ! 1) OR push_bit (26 - 14) (inp ! 2 mod push_bit 14 1),
      drop_bit 14 (inp ! 2) OR push_bit (26 - 8) (inp ! 3 mod push_bit 8 1),
      drop_bit 8 (inp ! 3) OR push_bit (26 - 2) (inp ! 4 mod push_bit 2 1), drop_bit 2 (inp ! 4) mod push_bit 26 1,
      drop_bit 28 (inp ! 4) OR push_bit (26 - 22) (inp ! 5 mod push_bit 22 1),
      drop_bit 22 (inp ! 5) OR push_bit (26 - 16) (inp ! 6 mod push_bit 16 1)], 7)"

definition fastunpack27_8 :: "u32 list \<Rightarrow> u32 list \<times> nat" where
  "fastunpack27_8 inp =
    ([drop_bit 0 (inp ! 0) mod push_bit 27 1,
      drop_bit 27 (inp ! 0) OR push_bit (27 - 22) (inp ! 1 mod push_bit 22 1),
      drop_bit 22 (inp ! 1) OR push_bit (27 - 17) (inp ! 2 mod push_bit 17 1),
      drop_bit 17 (inp ! 2) OR push_bit (27 - 12) (inp ! 3 mod push_bit 12 1),
      drop_bit 12 (inp ! 3) OR push_bit (27 - 7) (inp ! 4 mod push_bit 7 1),
      drop_bit 7 (inp ! 4) OR push_bit (27 - 2) (inp ! 5 mod push_bit 2 1), drop_bit 2 (inp ! 5) mod push_bit 27 1,
      drop_bit 29 (inp ! 5) OR push_bit (27 - 24) (inp ! 6 mod push_bit 24 1)], 7)"

definition fastunpack28_8 :: "u32 list \<Rightarrow> u32 list \<times> nat" where
  "fastunpack28_8 inp =
    ([drop_bit 0 (inp ! 0) mod push_bit 28 1,
      drop_bit 28 (inp ! 0) OR push_bit (28 - 24) (inp ! 1 mod push_bit 24 1),
      drop_bit 24 (inp ! 1) OR push_bit (28 - 20) (inp ! 2 mod push_bit 20 1),
      drop_bit 20 (inp ! 2) OR push_bit (28 - 16) (inp ! 3 mod push_bit 16 1),
      drop_bit 16 (inp ! 3) OR push_bit (28 - 12) (inp ! 4 mod push_bit 12 1),
      drop_bit 12 (inp ! 4) OR push_bit (28 - 8) (inp ! 5 mod push_bit 8 1),
      drop_bit 8 (inp ! 5) OR push_bit (28 - 4) (inp ! 6 mod push_bit 4 1), drop_bit 4 (inp ! 6)], 7)"

definition fastunpack29_8 :: "u32 list \<Rightarrow> u32 list \<times> nat" where
  "fastunpack29_8 inp =
    ([drop_bit 0 (inp ! 0) mod push_bit 29 1,
      drop_bit 29 (inp ! 0) OR push_bit (29 - 26) (inp ! 1 mod push_bit 26 1),
      drop_bit 26 (inp ! 1) OR push_bit (29 - 23) (inp ! 2 mod push_bit 23 1),
      drop_bit 23 (inp ! 2) OR push_bit (29 - 20) (inp ! 3 mod push_bit 20 1),
      drop_bit 20 (inp ! 3) OR push_bit (29 - 17) (inp ! 4 mod push_bit 17 1),
      drop_bit 17 (inp ! 4) OR push_bit (29 - 14) (inp ! 5 mod push_bit 14 1),
      drop_bit 14 (inp ! 5) OR push_bit (29 - 11) (inp ! 6 mod push_bit 11 1),
      drop_bit 11 (inp ! 6) OR push_bit (29 - 8) (inp ! 7 mod push_bit 8 1)], 8)"

definition fastunpack30_8 :: "u32 list \<Rightarrow> u32 list \<times> nat" where
  "fastunpack30_8 inp =
    ([drop_bit 0 (inp ! 0) mod push_bit 30 1,
      drop_bit 30 (inp ! 0) OR push_bit (30 - 28) (inp ! 1 mod push_bit 28 1),
      drop_bit 28 (inp ! 1) OR push_bit (30 - 26) (inp ! 2 mod push_bit 26 1),
      drop_bit 26 (inp ! 2) OR push_bit (30 - 24) (inp ! 3 mod push_bit 24 1),
      drop_bit 24 (inp ! 3) OR push_bit (30 - 22) (inp ! 4 mod push_bit 22 1),
      drop_bit 22 (inp ! 4) OR push_bit (30 - 20) (inp ! 5 mod push_bit 20 1),
      drop_bit 20 (inp ! 5) OR push_bit (30 - 18) (inp ! 6 mod push_bit 18 1),
      drop_bit 18 (inp ! 6) OR push_bit (30 - 16) (inp ! 7 mod push_bit 16 1)], 8)"

definition fastunpack31_8 :: "u32 list \<Rightarrow> u32 list \<times> nat" where
  "fastunpack31_8 inp =
    ([drop_bit 0 (inp ! 0) mod push_bit 31 1,
      drop_bit 31 (inp ! 0) OR push_bit (31 - 30) (inp ! 1 mod push_bit 30 1),
      drop_bit 30 (inp ! 1) OR push_bit (31 - 29) (inp ! 2 mod push_bit 29 1),
      drop_bit 29 (inp ! 2) OR push_bit (31 - 28) (inp ! 3 mod push_bit 28 1),
      drop_bit 28 (inp ! 3) OR push_bit (31 - 27) (inp ! 4 mod push_bit 27 1),
      drop_bit 27 (inp ! 4) OR push_bit (31 - 26) (inp ! 5 mod push_bit 26 1),
      drop_bit 26 (inp ! 5) OR push_bit (31 - 25) (inp ! 6 mod push_bit 25 1),
      drop_bit 25 (inp ! 6) OR push_bit (31 - 24) (inp ! 7 mod push_bit 24 1)], 8)"

definition fastunpack32_8 :: "u32 list \<Rightarrow> u32 list \<times> nat" where
  "fastunpack32_8 inp =
    ([drop_bit 0 (inp ! 0), drop_bit 0 (inp ! 1), drop_bit 0 (inp ! 2), drop_bit 0 (inp ! 3), drop_bit 0 (inp ! 4),
      drop_bit 0 (inp ! 5), drop_bit 0 (inp ! 6), drop_bit 0 (inp ! 7)], 8)"

definition nullunpacker16 :: "u32 list \<Rightarrow> u32 list \<times> nat" where
  "nullunpacker16 inp = (replicate 16 0, 0)"

definition fastunpack1_16 :: "u32 list \<Rightarrow> u32 list \<times> nat" where
  "fastunpack1_16 inp =
    ([drop_bit 0 (inp ! 0) AND 1, drop_bit 1 (inp ! 0) AND 1, drop_bit 2 (inp ! 0) AND 1, drop_bit 3 (inp ! 0) AND 1,
      drop_bit 4 (inp ! 0) AND 1, drop_bit 5 (inp ! 0) AND 1, drop_bit 6 (inp ! 0) AND 1, drop_bit 7 (inp ! 0) AND 1,
      drop_bit 8 (inp ! 0) AND 1, drop_bit 9 (inp ! 0) AND 1, drop_bit 10 (inp ! 0) AND 1,
      drop_bit 11 (inp ! 0) AND 1, drop_bit 12 (inp ! 0) AND 1, drop_bit 13 (inp ! 0) AND 1,
      drop_bit 14 (inp ! 0) AND 1, drop_bit 15 (inp ! 0) AND 1], 1)"

definition fastunpack2_16 :: "u32 list \<Rightarrow> u32 list \<times> nat" where
  "fastunpack2_16 inp =
    ([drop_bit 0 (inp ! 0) mod push_bit 2 1, drop_bit 2 (inp ! 0) mod push_bit 2 1,
      drop_bit 4 (inp ! 0) mod push_bit 2 1, drop_bit 6 (inp ! 0) mod push_bit 2 1,
      drop_bit 8 (inp ! 0) mod push_bit 2 1, drop_bit 10 (inp ! 0) mod push_bit 2 1,
      drop_bit 12 (inp ! 0) mod push_bit 2 1, drop_bit 14 (inp ! 0) mod push_bit 2 1,
      drop_bit 16 (inp ! 0) mod push_bit 2 1, drop_bit 18 (inp ! 0) mod push_bit 2 1,
      drop_bit 20 (inp ! 0) mod push_bit 2 1, drop_bit 22 (inp ! 0) mod push_bit 2 1,
      drop_bit 24 (inp ! 0) mod push_bit 2 1, drop_bit 26 (inp ! 0) mod push_bit 2 1,
      drop_bit 28 (inp ! 0) mod push_bit 2 1, drop_bit 30 (inp ! 0)], 1)"

definition fastunpack3_16 :: "u32 list \<Rightarrow> u32 list \<times> nat" where
  "fastunpack3_16 inp =
    ([drop_bit 0 (inp ! 0) mod push_bit 3 1, drop_bit 3 (inp ! 0) mod push_bit 3 1,
      drop_bit 6 (inp ! 0) mod push_bit 3 1, drop_bit 9 (inp ! 0) mod push_bit 3 1,
      drop_bit 12 (inp ! 0) mod push_bit 3 1, drop_bit 15 (inp ! 0) mod push_bit 3 1,
      drop_bit 18 (inp ! 0) mod push_bit 3 1, drop_bit 21 (inp ! 0) mod push_bit 3 1,
      drop_bit 24 (inp ! 0) mod push_bit 3 1, drop_bit 27 (inp ! 0) mod push_bit 3 1,
      drop_bit 30 (inp ! 0) OR push_bit (3 - 1) (inp ! 1 mod push_bit 1 1), drop_bit 1 (inp ! 1) mod push_bit 3 1,
      drop_bit 4 (inp ! 1) mod push_bit 3 1, drop_bit 7 (inp ! 1) mod push_bit 3 1,
      drop_bit 10 (inp ! 1) mod push_bit 3 1, drop_bit 13 (inp ! 1) mod push_bit 3 1], 2)"

definition fastunpack4_16 :: "u32 list \<Rightarrow> u32 list \<times> nat" where
  "fastunpack4_16 inp =
    ([drop_bit 0 (inp ! 0) mod push_bit 4 1, drop_bit 4 (inp ! 0) mod push_bit 4 1,
      drop_bit 8 (inp ! 0) mod push_bit 4 1, drop_bit 12 (inp ! 0) mod push_bit 4 1,
      drop_bit 16 (inp ! 0) mod push_bit 4 1, drop_bit 20 (inp ! 0) mod push_bit 4 1,
      drop_bit 24 (inp ! 0) mod push_bit 4 1, drop_bit 28 (inp ! 0), drop_bit 0 (inp ! 1) mod push_bit 4 1,
      drop_bit 4 (inp ! 1) mod push_bit 4 1, drop_bit 8 (inp ! 1) mod push_bit 4 1,
      drop_bit 12 (inp ! 1) mod push_bit 4 1, drop_bit 16 (inp ! 1) mod push_bit 4 1,
      drop_bit 20 (inp ! 1) mod push_bit 4 1, drop_bit 24 (inp ! 1) mod push_bit 4 1, drop_bit 28 (inp ! 1)], 2)"

definition fastunpack5_16 :: "u32 list \<Rightarrow> u32 list \<times> nat" where
  "fastunpack5_16 inp =
    ([drop_bit 0 (inp ! 0) mod push_bit 5 1, drop_bit 5 (inp ! 0) mod push_bit 5 1,
      drop_bit 10 (inp ! 0) mod push_bit 5 1, drop_bit 15 (inp ! 0) mod push_bit 5 1,
      drop_bit 20 (inp ! 0) mod push_bit 5 1, drop_bit 25 (inp ! 0) mod push_bit 5 1,
      drop_bit 30 (inp ! 0) OR push_bit (5 - 3) (inp ! 1 mod push_bit 3 1), drop_bit 3 (inp ! 1) mod push_bit 5 1,
      drop_bit 8 (inp ! 1) mod push_bit 5 1, drop_bit 13 (inp ! 1) mod push_bit 5 1,
      drop_bit 18 (inp ! 1) mod push_bit 5 1, drop_bit 23 (inp ! 1) mod push_bit 5 1,
      drop_bit 28 (inp ! 1) OR push_bit (5 - 1) (inp ! 2 mod push_bit 1 1), drop_bit 1 (inp ! 2) mod push_bit 5 1,
      drop_bit 6 (inp ! 2) mod push_bit 5 1, drop_bit 11 (inp ! 2) mod push_bit 5 1], 3)"

definition fastunpack6_16 :: "u32 list \<Rightarrow> u32 list \<times> nat" where
  "fastunpack6_16 inp =
    ([drop_bit 0 (inp ! 0) mod push_bit 6 1, drop_bit 6 (inp ! 0) mod push_bit 6 1,
      drop_bit 12 (inp ! 0) mod push_bit 6 1, drop_bit 18 (inp ! 0) mod push_bit 6 1,
      drop_bit 24 (inp ! 0) mod push_bit 6 1, drop_bit 30 (inp ! 0) OR push_bit (6 - 4) (inp ! 1 mod push_bit 4 1),
      drop_bit 4 (inp ! 1) mod push_bit 6 1, drop_bit 10 (inp ! 1) mod push_bit 6 1,
      drop_bit 16 (inp ! 1) mod push_bit 6 1, drop_bit 22 (inp ! 1) mod push_bit 6 1,
      drop_bit 28 (inp ! 1) OR push_bit (6 - 2) (inp ! 2 mod push_bit 2 1), drop_bit 2 (inp ! 2) mod push_bit 6 1,
      drop_bit 8 (inp ! 2) mod push_bit 6 1, drop_bit 14 (inp ! 2) mod push_bit 6 1,
      drop_bit 20 (inp ! 2) mod push_bit 6 1, drop_bit 26 (inp ! 2)], 3)"

definition fastunpack7_16 :: "u32 list \<Rightarrow> u32 list \<times> nat" where
  "fastunpack7_16 inp =
    ([drop_bit 0 (inp ! 0) mod push_bit 7 1, drop_bit 7 (inp ! 0) mod push_bit 7 1,
      drop_bit 14 (inp ! 0) mod push_bit 7 1, drop_bit 21 (inp ! 0) mod push_bit 7 1,
      drop_bit 28 (inp ! 0) OR push_bit (7 - 3) (inp ! 1 mod push_bit 3 1), drop_bit 3 (inp ! 1) mod push_bit 7 1,
      drop_bit 10 (inp ! 1) mod push_bit 7 1, drop_bit 17 (inp ! 1) mod push_bit 7 1,
      drop_bit 24 (inp ! 1) mod push_bit 7 1, drop_bit 31 (inp ! 1) OR push_bit (7 - 6) (inp ! 2 mod push_bit 6 1),
      drop_bit 6 (inp ! 2) mod push_bit 7 1, drop_bit 13 (inp ! 2) mod push_bit 7 1,
      drop_bit 20 (inp ! 2) mod push_bit 7 1, drop_bit 27 (inp ! 2) OR push_bit (7 - 2) (inp ! 3 mod push_bit 2 1),
      drop_bit 2 (inp ! 3) mod push_bit 7 1, drop_bit 9 (inp ! 3) mod push_bit 7 1], 4)"

definition fastunpack8_16 :: "u32 list \<Rightarrow> u32 list \<times> nat" where
  "fastunpack8_16 inp =
    ([drop_bit 0 (inp ! 0) mod push_bit 8 1, drop_bit 8 (inp ! 0) mod push_bit 8 1,
      drop_bit 16 (inp ! 0) mod push_bit 8 1, drop_bit 24 (inp ! 0), drop_bit 0 (inp ! 1) mod push_bit 8 1,
      drop_bit 8 (inp ! 1) mod push_bit 8 1, drop_bit 16 (inp ! 1) mod push_bit 8 1, drop_bit 24 (inp ! 1),
      drop_bit 0 (inp ! 2) mod push_bit 8 1, drop_bit 8 (inp ! 2) mod push_bit 8 1,
      drop_bit 16 (inp ! 2) mod push_bit 8 1, drop_bit 24 (inp ! 2), drop_bit 0 (inp ! 3) mod push_bit 8 1,
      drop_bit 8 (inp ! 3) mod push_bit 8 1, drop_bit 16 (inp ! 3) mod push_bit 8 1, drop_bit 24 (inp ! 3)], 4)"

definition fastunpack9_16 :: "u32 list \<Rightarrow> u32 list \<times> nat" where
  "fastunpack9_16 inp =
    ([drop_bit 0 (inp ! 0) mod push_bit 9 1, drop_bit 9 (inp ! 0) mod push_bit 9 1,
      drop_bit 18 (inp ! 0) mod push_bit 9 1, drop_bit 27 (inp ! 0) OR push_bit (9 - 4) (inp ! 1 mod push_bit 4 1),
      drop_bit 4 (inp ! 1) mod push_bit 9 1, drop_bit 13 (inp ! 1) mod push_bit 9 1,
      drop_bit 22 (inp ! 1) mod push_bit 9 1, drop_bit 31 (inp ! 1) OR push_bit (9 - 8) (inp ! 2 mod push_bit 8 1),
      drop_bit 8 (inp ! 2) mod push_bit 9 1, drop_bit 17 (inp ! 2) mod push_bit 9 1,
      drop_bit 26 (inp ! 2) OR push_bit (9 - 3) (inp ! 3 mod push_bit 3 1), drop_bit 3 (inp ! 3) mod push_bit 9 1,
      drop_bit 12 (inp ! 3) mod push_bit 9 1, drop_bit 21 (inp ! 3) mod push_bit 9 1,
      drop_bit 30 (inp ! 3) OR push_bit (9 - 7) (inp ! 4 mod push_bit 7 1), drop_bit 7 (inp ! 4) mod push_bit 9 1], 5)"

definition fastunpack10_16 :: "u32 list \<Rightarrow> u32 list \<times> nat" where
  "fastunpack10_16 inp =
    ([drop_bit 0 (inp ! 0) mod push_bit 10 1, drop_bit 10 (inp ! 0) mod push_bit 10 1,
      drop_bit 20 (inp ! 0) mod push_bit 10 1, drop_bit 30 (inp ! 0) OR push_bit (10 - 8) (inp ! 1 mod push_bit 8 1),
      drop_bit 8 (inp ! 1) mod push_bit 10 1, drop_bit 18 (inp ! 1) mod push_bit 10 1,
      drop_bit 28 (inp ! 1) OR push_bit (10 - 6) (inp ! 2 mod push_bit 6 1), drop_bit 6 (inp ! 2) mod push_bit 10 1,
      drop_bit 16 (inp ! 2) mod push_bit 10 1, drop_bit 26 (inp ! 2) OR push_bit (10 - 4) (inp ! 3 mod push_bit 4 1),
      drop_bit 4 (inp ! 3) mod push_bit 10 1, drop_bit 14 (inp ! 3) mod push_bit 10 1,
      drop_bit 24 (inp ! 3) OR push_bit (10 - 2) (inp ! 4 mod push_bit 2 1), drop_bit 2 (inp ! 4) mod push_bit 10 1,
      drop_bit 12 (inp ! 4) mod push_bit 10 1, drop_bit 22 (inp ! 4)], 5)"

definition fastunpack11_16 :: "u32 list \<Rightarrow> u32 list \<times> nat" where
  "fastunpack11_16 inp =
    ([drop_bit 0 (inp ! 0) mod push_bit 11 1, drop_bit 11 (inp ! 0) mod push_bit 11 1,
      drop_bit 22 (inp ! 0) OR push_bit (11 - 1) (inp ! 1 mod push_bit 1 1), drop_bit 1 (inp ! 1) mod push_bit 11 1,
      drop_bit 12 (inp ! 1) mod push_bit 11 1, drop_bit 23 (inp ! 1) OR push_bit (11 - 2) (inp ! 2 mod push_bit 2 1),
      drop_bit 2 (inp ! 2) mod push_bit 11 1, drop_bit 13 (inp ! 2) mod push_bit 11 1,
      drop_bit 24 (inp ! 2) OR push_bit (11 - 3) (inp ! 3 mod push_bit 3 1), drop_bit 3 (inp ! 3) mod push_bit 11 1,
      drop_bit 14 (inp ! 3) mod push_bit 11 1, drop_bit 25 (inp ! 3) OR push_bit (11 - 4) (inp ! 4 mod push_bit 4 1),
      drop_bit 4 (inp ! 4) mod push_bit 11 1, drop_bit 15 (inp ! 4) mod push_bit 11 1,
      drop_bit 26 (inp ! 4) OR push_bit (11 - 5) (inp ! 5 mod push_bit 5 1), drop_bit 5 (inp ! 5) mod push_bit 11 1], 6)"

definition fastunpack12_16 :: "u32 list \<Rightarrow> u32 list \<times> nat" where
  "fastunpack12_16 inp =
    ([drop_bit 0 (inp ! 0) mod push_bit 12 1, drop_bit 12 (inp ! 0) mod push_bit 12 1,
      drop_bit 24 (inp ! 0) OR push_bit (12 - 4) (inp ! 1 mod push_bit 4 1), drop_bit 4 (inp ! 1) mod push_bit 12 1,
      drop_bit 16 (inp ! 1) mod push_bit 12 1, drop_bit 28 (inp ! 1) OR push_bit (12 - 8) (inp ! 2 mod push_bit 8 1),
      drop_bit 8 (inp ! 2) mod push_bit 12 1, drop_bit 20 (inp ! 2), drop_bit 0 (inp ! 3) mod push_bit 12 1,
      drop_bit 12 (inp ! 3) mod push_bit 12 1, drop_bit 24 (inp ! 3) OR push_bit (12 - 4) (inp ! 4 mod push_bit 4 1),
      drop_bit 4 (inp ! 4) mod push_bit 12 1, drop_bit 16 (inp ! 4) mod push_bit 12 1,
      drop_bit 28 (inp ! 4) OR push_bit (12 - 8) (inp ! 5 mod push_bit 8 1), drop_bit 8 (inp ! 5) mod push_bit 12 1,
      drop_bit 20 (inp ! 5)], 6)"

definition fastunpack13_16 :: "u32 list \<Rightarrow> u32 list \<times> nat" where
  "fastunpack13_16 inp =
    ([drop_bit 0 (inp ! 0) mod push_bit 13 1, drop_bit 13 (inp ! 0) mod push_bit 13 1,
      drop_bit 26 (inp ! 0) OR push_bit (13 - 7) (inp ! 1 mod push_bit 7 1), drop_bit 7 (inp ! 1) mod push_bit 13 1,
      drop_bit 20 (inp ! 1) OR push_bit (13 - 1) (inp ! 2 mod push_bit 1 1), drop_bit 1 (inp ! 2) mod push_bit 13 1,
      drop_bit 14 (inp ! 2) mod push_bit 13 1, drop_bit 27 (inp ! 2) OR push_bit (13 - 8) (inp ! 3 mod push_bit 8 1),
      drop_bit 8 (inp ! 3) mod push_bit 13 1, drop_bit 21 (inp ! 3) OR push_bit (13 - 2) (inp ! 4 mod push_bit 2 1),
      drop_bit 2 (inp ! 4) mod push_bit 13 1, drop_bit 15 (inp ! 4) mod push_bit 13 1,
      drop_bit 28 (inp ! 4) OR push_bit (13 - 9) (inp ! 5 mod push_bit 9 1), drop_bit 9 (inp ! 5) mod push_bit 13 1,
      drop_bit 22 (inp ! 5) OR push_bit (13 - 3) (inp ! 6 mod push_bit 3 1), drop_bit 3 (inp ! 6) mod push_bit 13 1], 7)"

definition fastunpack14_16 :: "u32 list \<Rightarrow> u32 list \<times> nat" where
  "fastunpack14_16 inp =
    ([drop_bit 0 (inp ! 0) mod push_bit 14 1, drop_bit 14 (inp ! 0) mod push_bit 14 1,
      drop_bit 28 (inp ! 0) OR push_bit (14 - 10) (inp ! 1 mod push_bit 10 1),
      drop_bit 10 (inp ! 1) mod push_bit 14 1, drop_bit 24 (inp ! 1) OR push_bit (14 - 6) (inp ! 2 mod push_bit 6 1),
      drop_bit 6 (inp ! 2) mod push_bit 14 1, drop_bit 20 (inp ! 2) OR push_bit (14 - 2) (inp ! 3 mod push_bit 2 1),
      drop_bit 2 (inp ! 3) mod push_bit 14 1, drop_bit 16 (inp ! 3) mod push_bit 14 1,
      drop_bit 30 (inp ! 3) OR push_bit (14 - 12) (inp ! 4 mod push_bit 12 1),
      drop_bit 12 (inp ! 4) mod push_bit 14 1, drop_bit 26 (inp ! 4) OR push_bit (14 - 8) (inp ! 5 mod push_bit 8 1),
      drop_bit 8 (inp ! 5) mod push_bit 14 1, drop_bit 22 (inp ! 5) OR push_bit (14 - 4) (inp ! 6 mod push_bit 4 1),
      drop_bit 4 (inp ! 6) mod push_bit 14 1, drop_bit 18 (inp ! 6)], 7)"

definition fastunpack15_16 :: "u32 list \<Rightarrow> u32 list \<times> nat" where
  "fastunpack15_16 inp =
    ([drop_bit 0 (inp ! 0) mod push_bit 15 1, drop_bit 15 (inp ! 0) mod push_bit 15 1,
      drop_bit 30 (inp ! 0) OR push_bit (15 - 13) (inp ! 1 mod push_bit 13 1),
      drop_bit 13 (inp ! 1) mod push_bit 15 1,
      drop_bit 28 (inp ! 1) OR push_bit (15 - 11) (inp ! 2 mod push_bit 11 1),
      drop_bit 11 (inp ! 2) mod push_bit 15 1, drop_bit 26 (inp ! 2) OR push_bit (15 - 9) (inp ! 3 mod push_bit 9 1),
      drop_bit 9 (inp ! 3) mod push_bit 15 1, drop_bit 24 (inp ! 3) OR push_bit (15 - 7) (inp ! 4 mod push_bit 7 1),
      drop_bit 7 (inp ! 4) mod push_bit 15 1, drop_bit 22 (inp ! 4) OR push_bit (15 - 5) (inp ! 5 mod push_bit 5 1),
      drop_bit 5 (inp ! 5) mod push_bit 15 1, drop_bit 20 (inp ! 5) OR push_bit (15 - 3) (inp ! 6 mod push_bit 3 1),
      drop_bit 3 (inp ! 6) mod push_bit 15 1, drop_bit 18 (inp ! 6) OR push_bit (15 - 1) (inp ! 7 mod push_bit 1 1),
      drop_bit 1 (inp ! 7) mod push_bit 15 1], 8)"

definition fastunpack16_16 :: "u32 list \<Rightarrow> u32 list \<times> nat" where
  "fastunpack16_16 inp =
    ([drop_bit 0 (inp ! 0) mod push_bit 16 1, drop_bit 16 (inp ! 0), drop_bit 0 (inp ! 1) mod push_bit 16 1,
      drop_bit 16 (inp ! 1), drop_bit 0 (inp ! 2) mod push_bit 16 1, drop_bit 16 (inp ! 2),
      drop_bit 0 (inp ! 3) mod push_bit 16 1, drop_bit 16 (inp ! 3), drop_bit 0 (inp ! 4) mod push_bit 16 1,
      drop_bit 16 (inp ! 4), drop_bit 0 (inp ! 5) mod push_bit 16 1, drop_bit 16 (inp ! 5),
      drop_bit 0 (inp ! 6) mod push_bit 16 1, drop_bit 16 (inp ! 6), drop_bit 0 (inp ! 7) mod push_bit 16 1,
      drop_bit 16 (inp ! 7)], 8)"

definition fastunpack17_16 :: "u32 list \<Rightarrow> u32 list \<times> nat" where
  "fastunpack17_16 inp =
    ([drop_bit 0 (inp ! 0) mod push_bit 17 1, drop_bit 17 (inp ! 0) OR push_bit (17 - 2) (inp ! 1 mod push_bit 2 1),
      drop_bit 2 (inp ! 1) mod push_bit 17 1, drop_bit 19 (inp ! 1) OR push_bit (17 - 4) (inp ! 2 mod push_bit 4 1),
      drop_bit 4 (inp ! 2) mod push_bit 17 1, drop_bit 21 (inp ! 2) OR push_bit (17 - 6) (inp ! 3 mod push_bit 6 1),
      drop_bit 6 (inp ! 3) mod push_bit 17 1, drop_bit 23 (inp ! 3) OR push_bit (17 - 8) (inp ! 4 mod push_bit 8 1),
      drop_bit 8 (inp ! 4) mod push_bit 17 1,
      drop_bit 25 (inp ! 4) OR push_bit (17 - 10) (inp ! 5 mod push_bit 10 1),
      drop_bit 10 (inp ! 5) mod push_bit 17 1,
      drop_bit 27 (inp ! 5) OR push_bit (17 - 12) (inp ! 6 mod push_bit 12 1),
      drop_bit 12 (inp ! 6) mod push_bit 17 1,
      drop_bit 29 (inp ! 6) OR push_bit (17 - 14) (inp ! 7 mod push_bit 14 1),
      drop_bit 14 (inp ! 7) mod push_bit 17 1, drop_bit 31 (inp ! 7) OR push_bit (17 - 16) (inp ! 8 mod push_bit 16 1)], 9)"

definition fastunpack18_16 :: "u32 list \<Rightarrow> u32 list \<times> nat" where
  "fastunpack18_16 inp =
    ([drop_bit 0 (inp ! 0) mod push_bit 18 1, drop_bit 18 (inp ! 0) OR push_bit (18 - 4) (inp ! 1 mod push_bit 4 1),
      drop_bit 4 (inp ! 1) mod push_bit 18 1, drop_bit 22 (inp ! 1) OR push_bit (18 - 8) (inp ! 2 mod push_bit 8 1),
      drop_bit 8 (inp ! 2) mod push_bit 18 1,
      drop_bit 26 (inp ! 2) OR push_bit (18 - 12) (inp ! 3 mod push_bit 12 1),
      drop_bit 12 (inp ! 3) mod push_bit 18 1,
      drop_bit 30 (inp ! 3) OR push_bit (18 - 16) (inp ! 4 mod push_bit 16 1),
      drop_bit 16 (inp ! 4) OR push_bit (18 - 2) (inp ! 5 mod push_bit 2 1), drop_bit 2 (inp ! 5) mod push_bit 18 1,
      drop_bit 20 (inp ! 5) OR push_bit (18 - 6) (inp ! 6 mod push_bit 6 1), drop_bit 6 (inp ! 6) mod push_bit 18 1,
      drop_bit 24 (inp ! 6) OR push_bit (18 - 10) (inp ! 7 mod push_bit 10 1),
      drop_bit 10 (inp ! 7) mod push_bit 18 1,
      drop_bit 28 (inp ! 7) OR push_bit (18 - 14) (inp ! 8 mod push_bit 14 1), drop_bit 14 (inp ! 8)], 9)"

definition fastunpack19_16 :: "u32 list \<Rightarrow> u32 list \<times> nat" where
  "fastunpack19_16 inp =
    ([drop_bit 0 (inp ! 0) mod push_bit 19 1, drop_bit 19 (inp ! 0) OR push_bit (19 - 6) (inp ! 1 mod push_bit 6 1),
      drop_bit 6 (inp ! 1) mod push_bit 19 1,
      drop_bit 25 (inp ! 1) OR push_bit (19 - 12) (inp ! 2 mod push_bit 12 1),
      drop_bit 12 (inp ! 2) mod push_bit 19 1,
      drop_bit 31 (inp ! 2) OR push_bit (19 - 18) (inp ! 3 mod push_bit 18 1),
      drop_bit 18 (inp ! 3) OR push_bit (19 - 5) (inp ! 4 mod push_bit 5 1), drop_bit 5 (inp ! 4) mod push_bit 19 1,
      drop_bit 24 (inp ! 4) OR push_bit (19 - 11) (inp ! 5 mod push_bit 11 1),
      drop_bit 11 (inp ! 5) mod push_bit 19 1,
      drop_bit 30 (inp ! 5) OR push_bit (19 - 17) (inp ! 6 mod push_bit 17 1),
      drop_bit 17 (inp ! 6) OR push_bit (19 - 4) (inp ! 7 mod push_bit 4 1), drop_bit 4 (inp ! 7) mod push_bit 19 1,
      drop_bit 23 (inp ! 7) OR push_bit (19 - 10) (inp ! 8 mod push_bit 10 1),
      drop_bit 10 (inp ! 8) mod push_bit 19 1, drop_bit 29 (inp ! 8) OR push_bit (19 - 16) (inp ! 9 mod push_bit 16 1)], 10)"

definition fastunpack20_16 :: "u32 list \<Rightarrow> u32 list \<times> nat" where
  "fastunpack20_16 inp =
    ([drop_bit 0 (inp ! 0) mod push_bit 20 1, drop_bit 20 (inp ! 0) OR push_bit (20 - 8) (inp ! 1 mod push_bit 8 1),
      drop_bit 8 (inp ! 1) mod push_bit 20 1,
      drop_bit 28 (inp ! 1) OR push_bit (20 - 16) (inp ! 2 mod push_bit 16 1),
      drop_bit 16 (inp ! 2) OR push_bit (20 - 4) (inp ! 3 mod push_bit 4 1), drop_bit 4 (inp ! 3) mod push_bit 20 1,
      drop_bit 24 (inp ! 3) OR push_bit (20 - 12) (inp ! 4 mod push_bit 12 1), drop_bit 12 (inp ! 4),
      drop_bit 0 (inp ! 5) mod push_bit 20 1, drop_bit 20 (inp ! 5) OR push_bit (20 - 8) (inp ! 6 mod push_bit 8 1),
      drop_bit 8 (inp ! 6) mod push_bit 20 1,
      drop_bit 28 (inp ! 6) OR push_bit (20 - 16) (inp ! 7 mod push_bit 16 1),
      drop_bit 16 (inp ! 7) OR push_bit (20 - 4) (inp ! 8 mod push_bit 4 1), drop_bit 4 (inp ! 8) mod push_bit 20 1,
      drop_bit 24 (inp ! 8) OR push_bit (20 - 12) (inp ! 9 mod push_bit 12 1), drop_bit 12 (inp ! 9)], 10)"

definition fastunpack21_16 :: "u32 list \<Rightarrow> u32 list \<times> nat" where
  "fastunpack21_16 inp =
    ([drop_bit 0 (inp ! 0) mod push_bit 21 1,
      drop_bit 21 (inp ! 0) OR push_bit (21 - 10) (inp ! 1 mod push_bit 10 1),
      drop_bit 10 (inp ! 1) mod push_bit 21 1,
      drop_bit 31 (inp ! 1) OR push_bit (21 - 20) (inp ! 2 mod push_bit 20 1),
      drop_bit 20 (inp ! 2) OR push_bit (21 - 9) (inp ! 3 mod push_bit 9 1), drop_bit 9 (inp ! 3) mod push_bit 21 1,
      drop_bit 30 (inp ! 3) OR push_bit (21 - 19) (inp ! 4 mod push_bit 19 1),
      drop_bit 19 (inp ! 4) OR push_bit (21 - 8) (inp ! 5 mod push_bit 8 1), drop_bit 8 (inp ! 5) mod push_bit 21 1,
      drop_bit 29 (inp ! 5) OR push_bit (21 - 18) (inp ! 6 mod push_bit 18 1),
      drop_bit 18 (inp ! 6) OR push_bit (21 - 7) (inp ! 7 mod push_bit 7 1), drop_bit 7 (inp ! 7) mod push_bit 21 1,
      drop_bit 28 (inp ! 7) OR push_bit (21 - 17) (inp ! 8 mod push_bit 17 1),
      drop_bit 17 (inp ! 8) OR push_bit (21 - 6) (inp ! 9 mod push_bit 6 1), drop_bit 6 (inp ! 9) mod push_bit 21 1,
      drop_bit 27 (inp ! 9) OR push_bit (21 - 16) (inp ! 10 mod push_bit 16 1)], 11)"

definition fastunpack22_16 :: "u32 list \<Rightarrow> u32 list \<times> nat" where
  "fastunpack22_16 inp =
    ([drop_bit 0 (inp ! 0) mod push_bit 22 1,
      drop_bit 22 (inp ! 0) OR push_bit (22 - 12) (inp ! 1 mod push_bit 12 1),
      drop_bit 12 (inp ! 1) OR push_bit (22 - 2) (inp ! 2 mod push_bit 2 1), drop_bit 2 (inp ! 2) mod push_bit 22 1,
      drop_bit 24 (inp ! 2) OR push_bit (22 - 14) (inp ! 3 mod push_bit 14 1),
      drop_bit 14 (inp ! 3) OR push_bit (22 - 4) (inp ! 4 mod push_bit 4 1), drop_bit 4 (inp ! 4) mod push_bit 22 1,
      drop_bit 26 (inp ! 4) OR push_bit (22 - 16) (inp ! 5 mod push_bit 16 1),
      drop_bit 16 (inp ! 5) OR push_bit (22 - 6) (inp ! 6 mod push_bit 6 1), drop_bit 6 (inp ! 6) mod push_bit 22 1,
      drop_bit 28 (inp ! 6) OR push_bit (22 - 18) (inp ! 7 mod push_bit 18 1),
      drop_bit 18 (inp ! 7) OR push_bit (22 - 8) (inp ! 8 mod push_bit 8 1), drop_bit 8 (inp ! 8) mod push_bit 22 1,
      drop_bit 30 (inp ! 8) OR push_bit (22 - 20) (inp ! 9 mod push_bit 20 1),
      drop_bit 20 (inp ! 9) OR push_bit (22 - 10) (inp ! 10 mod push_bit 10 1), drop_bit 10 (inp ! 10)], 11)"

definition fastunpack23_16 :: "u32 list \<Rightarrow> u32 list \<times> nat" where
  "fastunpack23_16 inp =
    ([drop_bit 0 (inp ! 0) mod push_bit 23 1,
      drop_bit 23 (inp ! 0) OR push_bit (23 - 14) (inp ! 1 mod push_bit 14 1),
      drop_bit 14 (inp ! 1) OR push_bit (23 - 5) (inp ! 2 mod push_bit 5 1), drop_bit 5 (inp ! 2) mod push_bit 23 1,
      drop_bit 28 (inp ! 2) OR push_bit (23 - 19) (inp ! 3 mod push_bit 19 1),
      drop_bit 19 (inp ! 3) OR push_bit (23 - 10) (inp ! 4 mod push_bit 10 1),
      drop_bit 10 (inp ! 4) OR push_bit (23 - 1) (inp ! 5 mod push_bit 1 1), drop_bit 1 (inp ! 5) mod push_bit 23 1,
      drop_bit 24 (inp ! 5) OR push_bit (23 - 15) (inp ! 6 mod push_bit 15 1),
      drop_bit 15 (inp ! 6) OR push_bit (23 - 6) (inp ! 7 mod push_bit 6 1), drop_bit 6 (inp ! 7) mod push_bit 23 1,
      drop_bit 29 (inp ! 7) OR push_bit (23 - 20) (inp ! 8 mod push_bit 20 1),
      drop_bit 20 (inp ! 8) OR push_bit (23 - 11) (inp ! 9 mod push_bit 11 1),
      drop_bit 11 (inp ! 9) OR push_bit (23 - 2) (inp ! 10 mod push_bit 2 1),
      drop_bit 2 (inp ! 10) mod push_bit 23 1,
      drop_bit 25 (inp ! 10) OR push_bit (23 - 16) (inp ! 11 mod push_bit 16 1)], 12)"

definition fastunpack24_16 :: "u32 list \<Rightarrow> u32 list \<times> nat" where
  "fastunpack24_16 inp =
    ([drop_bit 0 (inp ! 0) mod push_bit 24 1,
      drop_bit 24 (inp ! 0) OR push_bit (24 - 16) (inp ! 1 mod push_bit 16 1),
      drop_bit 16 (inp ! 1) OR push_bit (24 - 8) (inp ! 2 mod push_bit 8 1), drop_bit 8 (inp ! 2),
      drop_bit 0 (inp ! 3) mod push_bit 24 1,
      drop_bit 24 (inp ! 3) OR push_bit (24 - 16) (inp ! 4 mod push_bit 16 1),
      drop_bit 16 (inp ! 4) OR push_bit (24 - 8) (inp ! 5 mod push_bit 8 1), drop_bit 8 (inp ! 5),
      drop_bit 0 (inp ! 6) mod push_bit 24 1,
      drop_bit 24 (inp ! 6) OR push_bit (24 - 16) (inp ! 7 mod push_bit 16 1),
      drop_bit 16 (inp ! 7) OR push_bit (24 - 8) (inp ! 8 mod push_bit 8 1), drop_bit 8 (inp ! 8),
      drop_bit 0 (inp ! 9) mod push_bit 24 1,
      drop_bit 24 (inp ! 9) OR push_bit (24 - 16) (inp ! 10 mod push_bit 16 1),
      drop_bit 16 (inp ! 10) OR push_bit (24 - 8) (inp ! 11 mod push_bit 8 1), drop_bit 8 (inp ! 11)], 12)"

definition fastunpack25_16 :: "u32 list \<Rightarrow> u32 list \<times> nat" where
  "fastunpack25_16 inp =
    ([drop_bit 0 (inp ! 0) mod push_bit 25 1,
      drop_bit 25 (inp ! 0) OR push_bit (25 - 18) (inp ! 1 mod push_bit 18 1),
      drop_bit 18 (inp ! 1) OR push_bit (25 - 11) (inp ! 2 mod push_bit 11 1),
      drop_bit 11 (inp ! 2) OR push_bit (25 - 4) (inp ! 3 mod push_bit 4 1), drop_bit 4 (inp ! 3) mod push_bit 25 1,
      drop_bit 29 (inp ! 3) OR push_bit (25 - 22) (inp ! 4 mod push_bit 22 1),
      drop_bit 22 (inp ! 4) OR push_bit (25 - 15) (inp ! 5 mod push_bit 15 1),
      drop_bit 15 (inp ! 5) OR push_bit (25 - 8) (inp ! 6 mod push_bit 8 1),
      drop_bit 8 (inp ! 6) OR push_bit (25 - 1) (inp ! 7 mod push_bit 1 1), drop_bit 1 (inp ! 7) mod push_bit 25 1,
      drop_bit 26 (inp ! 7) OR push_bit (25 - 19) (inp ! 8 mod push_bit 19 1),
      drop_bit 19 (inp ! 8) OR push_bit (25 - 12) (inp ! 9 mod push_bit 12 1),
      drop_bit 12 (inp ! 9) OR push_bit (25 - 5) (inp ! 10 mod push_bit 5 1),
      drop_bit 5 (inp ! 10) mod push_bit 25 1,
      drop_bit 30 (inp ! 10) OR push_bit (25 - 23) (inp ! 11 mod push_bit 23 1),
      drop_bit 23 (inp ! 11) OR push_bit (25 - 16) (inp ! 12 mod push_bit 16 1)], 13)"

definition fastunpack26_16 :: "u32 list \<Rightarrow> u32 list \<times> nat" where
  "fastunpack26_16 inp =
    ([drop_bit 0 (inp ! 0) mod push_bit 26 1,
      drop_bit 26 (inp ! 0) OR push_bit (26 - 20) (inp ! 1 mod push_bit 20 1),
      drop_bit 20 (inp ! 1) OR push_bit (26 - 14) (inp ! 2 mod push_bit 14 1),
      drop_bit 14 (inp ! 2) OR push_bit (26 - 8) (inp ! 3 mod push_bit 8 1),
      drop_bit 8 (inp ! 3) OR push_bit (26 - 2) (inp ! 4 mod push_bit 2 1), drop_bit 2 (inp ! 4) mod push_bit 26 1,
      drop_bit 28 (inp ! 4) OR push_bit (26 - 22) (inp ! 5 mod push_bit 22 1),
      drop_bit 22 (inp ! 5) OR push_bit (26 - 16) (inp ! 6 mod push_bit 16 1),
      drop_bit 16 (inp ! 6) OR push_bit (26 - 10) (inp ! 7 mod push_bit 10 1),
      drop_bit 10 (inp ! 7) OR push_bit (26 - 4) (inp ! 8 mod push_bit 4 1), drop_bit 4 (inp ! 8) mod push_bit 26 1,
      drop_bit 30 (inp ! 8) OR push_bit (26 - 24) (inp ! 9 mod push_bit 24 1),
      drop_bit 24 (inp ! 9) OR push_bit (26 - 18) (inp ! 10 mod push_bit 18 1),
      drop_bit 18 (inp ! 10) OR push_bit (26 - 12) (inp ! 11 mod push_bit 12 1),
      drop_bit 12 (inp ! 11) OR push_bit (26 - 6) (inp ! 12 mod push_bit 6 1), drop_bit 6 (inp ! 12)], 13)"

definition fastunpack27_16 :: "u32 list \<Rightarrow> u32 list \<times> nat" where
  "fastunpack27_16 inp =
    ([drop_bit 0 (inp ! 0) mod push_bit 27 1,
      drop_bit 27 (inp ! 0) OR push_bit (27 - 22) (inp ! 1 mod push_bit 22 1),
      drop_bit 22 (inp ! 1) OR push_bit (27 - 17) (inp ! 2 mod push_bit 17 1),
      drop_bit 17 (inp ! 2) OR push_bit (27 - 12) (inp ! 3 mod push_bit 12 1),
      drop_bit 12 (inp ! 3) OR push_bit (27 - 7) (inp ! 4 mod push_bit 7 1),
      drop_bit 7 (inp ! 4) OR push_bit (27 - 2) (inp ! 5 mod push_bit 2 1), drop_bit 2 (inp ! 5) mod push_bit 27 1,
      drop_bit 29 (inp ! 5) OR push_bit (27 - 24) (inp ! 6 mod push_bit 24 1),
      drop_bit 24 (inp ! 6) OR push_bit (27 - 19) (inp ! 7 mod push_bit 19 1),
      drop_bit 19 (inp ! 7) OR push_bit (27 - 14) (inp ! 8 mod push_bit 14 1),
      drop_bit 14 (inp ! 8) OR push_bit (27 - 9) (inp ! 9 mod push_bit 9 1),
      drop_bit 9 (inp ! 9) OR push_bit (27 - 4) (inp ! 10 mod push_bit 4 1), drop_bit 4 (inp ! 10) mod push_bit 27 1,
      drop_bit 31 (inp ! 10) OR push_bit (27 - 26) (inp ! 11 mod push_bit 26 1),
      drop_bit 26 (inp ! 11) OR push_bit (27 - 21) (inp ! 12 mod push_bit 21 1),
      drop_bit 21 (inp ! 12) OR push_bit (27 - 16) (inp ! 13 mod push_bit 16 1)], 14)"

definition fastunpack28_16 :: "u32 list \<Rightarrow> u32 list \<times> nat" where
  "fastunpack28_16 inp =
    ([drop_bit 0 (inp ! 0) mod push_bit 28 1,
      drop_bit 28 (inp ! 0) OR push_bit (28 - 24) (inp ! 1 mod push_bit 24 1),
      drop_bit 24 (inp ! 1) OR push_bit (28 - 20) (inp ! 2 mod push_bit 20 1),
      drop_bit 20 (inp ! 2) OR push_bit (28 - 16) (inp ! 3 mod push_bit 16 1),
      drop_bit 16 (inp ! 3) OR push_bit (28 - 12) (inp ! 4 mod push_bit 12 1),
      drop_bit 12 (inp ! 4) OR push_bit (28 - 8) (inp ! 5 mod push_bit 8 1),
      drop_bit 8 (inp ! 5) OR push_bit (28 - 4) (inp ! 6 mod push_bit 4 1), drop_bit 4 (inp ! 6),
      drop_bit 0 (inp ! 7) mod push_bit 28 1,
      drop_bit 28 (inp ! 7) OR push_bit (28 - 24) (inp ! 8 mod push_bit 24 1),
      drop_bit 24 (inp ! 8) OR push_bit (28 - 20) (inp ! 9 mod push_bit 20 1),
      drop_bit 20 (inp ! 9) OR push_bit (28 - 16) (inp ! 10 mod push_bit 16 1),
      drop_bit 16 (inp ! 10) OR push_bit (28 - 12) (inp ! 11 mod push_bit 12 1),
      drop_bit 12 (inp ! 11) OR push_bit (28 - 8) (inp ! 12 mod push_bit 8 1),
      drop_bit 8 (inp ! 12) OR push_bit (28 - 4) (inp ! 13 mod push_bit 4 1), drop_bit 4 (inp ! 13)], 14)"

definition fastunpack29_16 :: "u32 list \<Rightarrow> u32 list \<times> nat" where
  "fastunpack29_16 inp =
    ([drop_bit 0 (inp ! 0) mod push_bit 29 1,
      drop_bit 29 (inp ! 0) OR push_bit (29 - 26) (inp ! 1 mod push_bit 26 1),
      drop_bit 26 (inp ! 1) OR push_bit (29 - 23) (inp ! 2 mod push_bit 23 1),
      drop_bit 23 (inp ! 2) OR push_bit (29 - 20) (inp ! 3 mod push_bit 20 1),
      drop_bit 20 (inp ! 3) OR push_bit (29 - 17) (inp ! 4 mod push_bit 17 1),
      drop_bit 17 (inp ! 4) OR push_bit (29 - 14) (inp ! 5 mod push_bit 14 1),
      drop_bit 14 (inp ! 5) OR push_bit (29 - 11) (inp ! 6 mod push_bit 11 1),
      drop_bit 11 (inp ! 6) OR push_bit (29 - 8) (inp ! 7 mod push_bit 8 1),
      drop_bit 8 (inp ! 7) OR push_bit (29 - 5) (inp ! 8 mod push_bit 5 1),
      drop_bit 5 (inp ! 8) OR push_bit (29 - 2) (inp ! 9 mod push_bit 2 1), drop_bit 2 (inp ! 9) mod push_bit 29 1,
      drop_bit 31 (inp ! 9) OR push_bit (29 - 28) (inp ! 10 mod push_bit 28 1),
      drop_bit 28 (inp ! 10) OR push_bit (29 - 25) (inp ! 11 mod push_bit 25 1),
      drop_bit 25 (inp ! 11) OR push_bit (29 - 22) (inp ! 12 mod push_bit 22 1),
      drop_bit 22 (inp ! 12) OR push_bit (29 - 19) (inp ! 13 mod push_bit 19 1),
      drop_bit 19 (inp ! 13) OR push_bit (29 - 16) (inp ! 14 mod push_bit 16 1)], 15)"

definition fastunpack30_16 :: "u32 list \<Rightarrow> u32 list \<times> nat" where
  "fastunpack30_16 inp =
    ([drop_bit 0 (inp ! 0) mod push_bit 30 1,
      drop_bit 30 (inp ! 0) OR push_bit (30 - 28) (inp ! 1 mod push_bit 28 1),
      drop_bit 28 (inp ! 1) OR push_bit (30 - 26) (inp ! 2 mod push_bit 26 1),
      drop_bit 26 (inp ! 2) OR push_bit (30 - 24) (inp ! 3 mod push_bit 24 1),
      drop_bit 24 (inp ! 3) OR push_bit (30 - 22) (inp ! 4 mod push_bit 22 1),
      drop_bit 22 (inp ! 4) OR push_bit (30 - 20) (inp ! 5 mod push_bit 20 1),
      drop_bit 20 (inp ! 5) OR push_bit (30 - 18) (inp ! 6 mod push_bit 18 1),
      drop_bit 18 (inp ! 6) OR push_bit (30 - 16) (inp ! 7 mod push_bit 16 1),
      drop_bit 16 (inp ! 7) OR push_bit (30 - 14) (inp ! 8 mod push_bit 14 1),
      drop_bit 14 (inp ! 8) OR push_bit (30 - 12) (inp ! 9 mod push_bit 12 1),
      drop_bit 12 (inp ! 9) OR push_bit (30 - 10) (inp ! 10 mod push_bit 10 1),
      drop_bit 10 (inp ! 10) OR push_bit (30 - 8) (inp ! 11 mod push_bit 8 1),
      drop_bit 8 (inp ! 11) OR push_bit (30 - 6) (inp ! 12 mod push_bit 6 1),
      drop_bit 6 (inp ! 12) OR push_bit (30 - 4) (inp ! 13 mod push_bit 4 1),
      drop_bit 4 (inp ! 13) OR push_bit (30 - 2) (inp ! 14 mod push_bit 2 1), drop_bit 2 (inp ! 14)], 15)"

definition fastunpack31_16 :: "u32 list \<Rightarrow> u32 list \<times> nat" where
  "fastunpack31_16 inp =
    ([drop_bit 0 (inp ! 0) mod push_bit 31 1,
      drop_bit 31 (inp ! 0) OR push_bit (31 - 30) (inp ! 1 mod push_bit 30 1),
      drop_bit 30 (inp ! 1) OR push_bit (31 - 29) (inp ! 2 mod push_bit 29 1),
      drop_bit 29 (inp ! 2) OR push_bit (31 - 28) (inp ! 3 mod push_bit 28 1),
      drop_bit 28 (inp ! 3) OR push_bit (31 - 27) (inp ! 4 mod push_bit 27 1),
      drop_bit 27 (inp ! 4) OR push_bit (31 - 26) (inp ! 5 mod push_bit 26 1),
      drop_bit 26 (inp ! 5) OR push_bit (31 - 25) (inp ! 6 mod push_bit 25 1),
      drop_bit 25 (inp ! 6) OR push_bit (31 - 24) (inp ! 7 mod push_bit 24 1),
      drop_bit 24 (inp ! 7) OR push_bit (31 - 23) (inp ! 8 mod push_bit 23 1),
      drop_bit 23 (inp ! 8) OR push_bit (31 - 22) (inp ! 9 mod push_bit 22 1),
      drop_bit 22 (inp ! 9) OR push_bit (31 - 21) (inp ! 10 mod push_bit 21 1),
      drop_bit 21 (inp ! 10) OR push_bit (31 - 20) (inp ! 11 mod push_bit 20 1),
      drop_bit 20 (inp ! 11) OR push_bit (31 - 19) (inp ! 12 mod push_bit 19 1),
      drop_bit 19 (inp ! 12) OR push_bit (31 - 18) (inp ! 13 mod push_bit 18 1),
      drop_bit 18 (inp ! 13) OR push_bit (31 - 17) (inp ! 14 mod push_bit 17 1),
      drop_bit 17 (inp ! 14) OR push_bit (31 - 16) (inp ! 15 mod push_bit 16 1)], 16)"

definition fastunpack32_16 :: "u32 list \<Rightarrow> u32 list \<times> nat" where
  "fastunpack32_16 inp =
    ([drop_bit 0 (inp ! 0), drop_bit 0 (inp ! 1), drop_bit 0 (inp ! 2), drop_bit 0 (inp ! 3), drop_bit 0 (inp ! 4),
      drop_bit 0 (inp ! 5), drop_bit 0 (inp ! 6), drop_bit 0 (inp ! 7), drop_bit 0 (inp ! 8), drop_bit 0 (inp ! 9),
      drop_bit 0 (inp ! 10), drop_bit 0 (inp ! 11), drop_bit 0 (inp ! 12), drop_bit 0 (inp ! 13),
      drop_bit 0 (inp ! 14), drop_bit 0 (inp ! 15)], 16)"

definition nullunpacker24 :: "u32 list \<Rightarrow> u32 list \<times> nat" where
  "nullunpacker24 inp = (replicate 24 0, 0)"

definition fastunpack1_24 :: "u32 list \<Rightarrow> u32 list \<times> nat" where
  "fastunpack1_24 inp =
    ([drop_bit 0 (inp ! 0) AND 1, drop_bit 1 (inp ! 0) AND 1, drop_bit 2 (inp ! 0) AND 1, drop_bit 3 (inp ! 0) AND 1,
      drop_bit 4 (inp ! 0) AND 1, drop_bit 5 (inp ! 0) AND 1, drop_bit 6 (inp ! 0) AND 1, drop_bit 7 (inp ! 0) AND 1,
      drop_bit 8 (inp ! 0) AND 1, drop_bit 9 (inp ! 0) AND 1, drop_bit 10 (inp ! 0) AND 1,
      drop_bit 11 (inp ! 0) AND 1, drop_bit 12 (inp ! 0) AND 1, drop_bit 13 (inp ! 0) AND 1,
      drop_bit 14 (inp ! 0) AND 1, drop_bit 15 (inp ! 0) AND 1, drop_bit 16 (inp ! 0) AND 1,
      drop_bit 17 (inp ! 0) AND 1, drop_bit 18 (inp ! 0) AND 1, drop_bit 19 (inp ! 0) AND 1,
      drop_bit 20 (inp ! 0) AND 1, drop_bit 21 (inp ! 0) AND 1, drop_bit 22 (inp ! 0) AND 1,
      drop_bit 23 (inp ! 0) AND 1], 1)"

definition fastunpack2_24 :: "u32 list \<Rightarrow> u32 list \<times> nat" where
  "fastunpack2_24 inp =
    ([drop_bit 0 (inp ! 0) mod push_bit 2 1, drop_bit 2 (inp ! 0) mod push_bit 2 1,
      drop_bit 4 (inp ! 0) mod push_bit 2 1, drop_bit 6 (inp ! 0) mod push_bit 2 1,
      drop_bit 8 (inp ! 0) mod push_bit 2 1, drop_bit 10 (inp ! 0) mod push_bit 2 1,
      drop_bit 12 (inp ! 0) mod push_bit 2 1, drop_bit 14 (inp ! 0) mod push_bit 2 1,
      drop_bit 16 (inp ! 0) mod push_bit 2 1, drop_bit 18 (inp ! 0) mod push_bit 2 1,
      drop_bit 20 (inp ! 0) mod push_bit 2 1, drop_bit 22 (inp ! 0) mod push_bit 2 1,
      drop_bit 24 (inp ! 0) mod push_bit 2 1, drop_bit 26 (inp ! 0) mod push_bit 2 1,
      drop_bit 28 (inp ! 0) mod push_bit 2 1, drop_bit 30 (inp ! 0), drop_bit 0 (inp ! 1) mod push_bit 2 1,
      drop_bit 2 (inp ! 1) mod push_bit 2 1, drop_bit 4 (inp ! 1) mod push_bit 2 1,
      drop_bit 6 (inp ! 1) mod push_bit 2 1, drop_bit 8 (inp ! 1) mod push_bit 2 1,
      drop_bit 10 (inp ! 1) mod push_bit 2 1, drop_bit 12 (inp ! 1) mod push_bit 2 1,
      drop_bit 14 (inp ! 1) mod push_bit 2 1], 2)"

definition fastunpack3_24 :: "u32 list \<Rightarrow> u32 list \<times> nat" where
  "fastunpack3_24 inp =
    ([drop_bit 0 (inp ! 0) mod push_bit 3 1, drop_bit 3 (inp ! 0) mod push_bit 3 1,
      drop_bit 6 (inp ! 0) mod push_bit 3 1, drop_bit 9 (inp ! 0) mod push_bit 3 1,
      drop_bit 12 (inp ! 0) mod push_bit 3 1, drop_bit 15 (inp ! 0) mod push_bit 3 1,
      drop_bit 18 (inp ! 0) mod push_bit 3 1, drop_bit 21 (inp ! 0) mod push_bit 3 1,
      drop_bit 24 (inp ! 0) mod push_bit 3 1, drop_bit 27 (inp ! 0) mod push_bit 3 1,
      drop_bit 30 (inp ! 0) OR push_bit (3 - 1) (inp ! 1 mod push_bit 1 1), drop_bit 1 (inp ! 1) mod push_bit 3 1,
      drop_bit 4 (inp ! 1) mod push_bit 3 1, drop_bit 7 (inp ! 1) mod push_bit 3 1,
      drop_bit 10 (inp ! 1) mod push_bit 3 1, drop_bit 13 (inp ! 1) mod push_bit 3 1,
      drop_bit 16 (inp ! 1) mod push_bit 3 1, drop_bit 19 (inp ! 1) mod push_bit 3 1,
      drop_bit 22 (inp ! 1) mod push_bit 3 1, drop_bit 25 (inp ! 1) mod push_bit 3 1,
      drop_bit 28 (inp ! 1) mod push_bit 3 1, drop_bit 31 (inp ! 1) OR push_bit (3 - 2) (inp ! 2 mod push_bit 2 1),
      drop_bit 2 (inp ! 2) mod push_bit 3 1, drop_bit 5 (inp ! 2) mod push_bit 3 1], 3)"

definition fastunpack4_24 :: "u32 list \<Rightarrow> u32 list \<times> nat" where
  "fastunpack4_24 inp =
    ([drop_bit 0 (inp ! 0) mod push_bit 4 1, drop_bit 4 (inp ! 0) mod push_bit 4 1,
      drop_bit 8 (inp ! 0) mod push_bit 4 1, drop_bit 12 (inp ! 0) mod push_bit 4 1,
      drop_bit 16 (inp ! 0) mod push_bit 4 1, drop_bit 20 (inp ! 0) mod push_bit 4 1,
      drop_bit 24 (inp ! 0) mod push_bit 4 1, drop_bit 28 (inp ! 0), drop_bit 0 (inp ! 1) mod push_bit 4 1,
      drop_bit 4 (inp ! 1) mod push_bit 4 1, drop_bit 8 (inp ! 1) mod push_bit 4 1,
      drop_bit 12 (inp ! 1) mod push_bit 4 1, drop_bit 16 (inp ! 1) mod push_bit 4 1,
      drop_bit 20 (inp ! 1) mod push_bit 4 1, drop_bit 24 (inp ! 1) mod push_bit 4 1, drop_bit 28 (inp ! 1),
      drop_bit 0 (inp ! 2) mod push_bit 4 1, drop_bit 4 (inp ! 2) mod push_bit 4 1,
      drop_bit 8 (inp ! 2) mod push_bit 4 1, drop_bit 12 (inp ! 2) mod push_bit 4 1,
      drop_bit 16 (inp ! 2) mod push_bit 4 1, drop_bit 20 (inp ! 2) mod push_bit 4 1,
      drop_bit 24 (inp ! 2) mod push_bit 4 1, drop_bit 28 (inp ! 2)], 3)"

definition fastunpack5_24 :: "u32 list \<Rightarrow> u32 list \<times> nat" where
  "fastunpack5_24 inp =
    ([drop_bit 0 (inp ! 0) mod push_bit 5 1, drop_bit 5 (inp ! 0) mod push_bit 5 1,
      drop_bit 10 (inp ! 0) mod push_bit 5 1, drop_bit 15 (inp ! 0) mod push_bit 5 1,
      drop_bit 20 (inp ! 0) mod push_bit 5 1, drop_bit 25 (inp ! 0) mod push_bit 5 1,
      drop_bit 30 (inp ! 0) OR push_bit (5 - 3) (inp ! 1 mod push_bit 3 1), drop_bit 3 (inp ! 1) mod push_bit 5 1,
      drop_bit 8 (inp ! 1) mod push_bit 5 1, drop_bit 13 (inp ! 1) mod push_bit 5 1,
      drop_bit 18 (inp ! 1) mod push_bit 5 1, drop_bit 23 (inp ! 1) mod push_bit 5 1,
      drop_bit 28 (inp ! 1) OR push_bit (5 - 1) (inp ! 2 mod push_bit 1 1), drop_bit 1 (inp ! 2) mod push_bit 5 1,
      drop_bit 6 (inp ! 2) mod push_bit 5 1, drop_bit 11 (inp ! 2) mod push_bit 5 1,
      drop_bit 16 (inp ! 2) mod push_bit 5 1, drop_bit 21 (inp ! 2) mod push_bit 5 1,
      drop_bit 26 (inp ! 2) mod push_bit 5 1, drop_bit 31 (inp ! 2) OR push_bit (5 - 4) (inp ! 3 mod push_bit 4 1),
      drop_bit 4 (inp ! 3) mod push_bit 5 1, drop_bit 9 (inp ! 3) mod push_bit 5 1,
      drop_bit 14 (inp ! 3) mod push_bit 5 1, drop_bit 19 (inp ! 3) mod push_bit 5 1], 4)"

definition fastunpack6_24 :: "u32 list \<Rightarrow> u32 list \<times> nat" where
  "fastunpack6_24 inp =
    ([drop_bit 0 (inp ! 0) mod push_bit 6 1, drop_bit 6 (inp ! 0) mod push_bit 6 1,
      drop_bit 12 (inp ! 0) mod push_bit 6 1, drop_bit 18 (inp ! 0) mod push_bit 6 1,
      drop_bit 24 (inp ! 0) mod push_bit 6 1, drop_bit 30 (inp ! 0) OR push_bit (6 - 4) (inp ! 1 mod push_bit 4 1),
      drop_bit 4 (inp ! 1) mod push_bit 6 1, drop_bit 10 (inp ! 1) mod push_bit 6 1,
      drop_bit 16 (inp ! 1) mod push_bit 6 1, drop_bit 22 (inp ! 1) mod push_bit 6 1,
      drop_bit 28 (inp ! 1) OR push_bit (6 - 2) (inp ! 2 mod push_bit 2 1), drop_bit 2 (inp ! 2) mod push_bit 6 1,
      drop_bit 8 (inp ! 2) mod push_bit 6 1, drop_bit 14 (inp ! 2) mod push_bit 6 1,
      drop_bit 20 (inp ! 2) mod push_bit 6 1, drop_bit 26 (inp ! 2), drop_bit 0 (inp ! 3) mod push_bit 6 1,
      drop_bit 6 (inp ! 3) mod push_bit 6 1, drop_bit 12 (inp ! 3) mod push_bit 6 1,
      drop_bit 18 (inp ! 3) mod push_bit 6 1, drop_bit 24 (inp ! 3) mod push_bit 6 1,
      drop_bit 30 (inp ! 3) OR push_bit (6 - 4) (inp ! 4 mod push_bit 4 1), drop_bit 4 (inp ! 4) mod push_bit 6 1,
      drop_bit 10 (inp ! 4) mod push_bit 6 1], 5)"

definition fastunpack7_24 :: "u32 list \<Rightarrow> u32 list \<times> nat" where
  "fastunpack7_24 inp =
    ([drop_bit 0 (inp ! 0) mod push_bit 7 1, drop_bit 7 (inp ! 0) mod push_bit 7 1,
      drop_bit 14 (inp ! 0) mod push_bit 7 1, drop_bit 21 (inp ! 0) mod push_bit 7 1,
      drop_bit 28 (inp ! 0) OR push_bit (7 - 3) (inp ! 1 mod push_bit 3 1), drop_bit 3 (inp ! 1) mod push_bit 7 1,
      drop_bit 10 (inp ! 1) mod push_bit 7 1, drop_bit 17 (inp ! 1) mod push_bit 7 1,
      drop_bit 24 (inp ! 1) mod push_bit 7 1, drop_bit 31 (inp ! 1) OR push_bit (7 - 6) (inp ! 2 mod push_bit 6 1),
      drop_bit 6 (inp ! 2) mod push_bit 7 1, drop_bit 13 (inp ! 2) mod push_bit 7 1,
      drop_bit 20 (inp ! 2) mod push_bit 7 1, drop_bit 27 (inp ! 2) OR push_bit (7 - 2) (inp ! 3 mod push_bit 2 1),
      drop_bit 2 (inp ! 3) mod push_bit 7 1, drop_bit 9 (inp ! 3) mod push_bit 7 1,
      drop_bit 16 (inp ! 3) mod push_bit 7 1, drop_bit 23 (inp ! 3) mod push_bit 7 1,
      drop_bit 30 (inp ! 3) OR push_bit (7 - 5) (inp ! 4 mod push_bit 5 1), drop_bit 5 (inp ! 4) mod push_bit 7 1,
      drop_bit 12 (inp ! 4) mod push_bit 7 1, drop_bit 19 (inp ! 4) mod push_bit 7 1,
      drop_bit 26 (inp ! 4) OR push_bit (7 - 1) (inp ! 5 mod push_bit 1 1), drop_bit 1 (inp ! 5) mod push_bit 7 1], 6)"

definition fastunpack8_24 :: "u32 list \<Rightarrow> u32 list \<times> nat" where
  "fastunpack8_24 inp =
    ([drop_bit 0 (inp ! 0) mod push_bit 8 1, drop_bit 8 (inp ! 0) mod push_bit 8 1,
      drop_bit 16 (inp ! 0) mod push_bit 8 1, drop_bit 24 (inp ! 0), drop_bit 0 (inp ! 1) mod push_bit 8 1,
      drop_bit 8 (inp ! 1) mod push_bit 8 1, drop_bit 16 (inp ! 1) mod push_bit 8 1, drop_bit 24 (inp ! 1),
      drop_bit 0 (inp ! 2) mod push_bit 8 1, drop_bit 8 (inp ! 2) mod push_bit 8 1,
      drop_bit 16 (inp ! 2) mod push_bit 8 1, drop_bit 24 (inp ! 2), drop_bit 0 (inp ! 3) mod push_bit 8 1,
      drop_bit 8 (inp ! 3) mod push_bit 8 1, drop_bit 16 (inp ! 3) mod push_bit 8 1, drop_bit 24 (inp ! 3),
      drop_bit 0 (inp ! 4) mod push_bit 8 1, drop_bit 8 (inp ! 4) mod push_bit 8 1,
      drop_bit 16 (inp ! 4) mod push_bit 8 1, drop_bit 24 (inp ! 4), drop_bit 0 (inp ! 5) mod push_bit 8 1,
      drop_bit 8 (inp ! 5) mod push_bit 8 1, drop_bit 16 (inp ! 5) mod push_bit 8 1, drop_bit 24 (inp ! 5)], 6)"

definition fastunpack9_24 :: "u32 list \<Rightarrow> u32 list \<times> nat" where
  "fastunpack9_24 inp =
    ([drop_bit 0 (inp ! 0) mod push_bit 9 1, drop_bit 9 (inp ! 0) mod push_bit 9 1,
      drop_bit 18 (inp ! 0) mod push_bit 9 1, drop_bit 27 (inp ! 0) OR push_bit (9 - 4) (inp ! 1 mod push_bit 4 1),
      drop_bit 4 (inp ! 1) mod push_bit 9 1, drop_bit 13 (inp ! 1) mod push_bit 9 1,
      drop_bit 22 (inp ! 1) mod push_bit 9 1, drop_bit 31 (inp ! 1) OR push_bit (9 - 8) (inp ! 2 mod push_bit 8 1),
      drop_bit 8 (inp ! 2) mod push_bit 9 1, drop_bit 17 (inp ! 2) mod push_bit 9 1,
      drop_bit 26 (inp ! 2) OR push_bit (9 - 3) (inp ! 3 mod push_bit 3 1), drop_bit 3 (inp ! 3) mod push_bit 9 1,
      drop_bit 12 (inp ! 3) mod push_bit 9 1, drop_bit 21 (inp ! 3) mod push_bit 9 1,
      drop_bit 30 (inp ! 3) OR push_bit (9 - 7) (inp ! 4 mod push_bit 7 1), drop_bit 7 (inp ! 4) mod push_bit 9 1,
      drop_bit 16 (inp ! 4) mod push_bit 9 1, drop_bit 25 (inp ! 4) OR push_bit (9 - 2) (inp ! 5 mod push_bit 2 1),
      drop_bit 2 (inp ! 5) mod push_bit 9 1, drop_bit 11 (inp ! 5) mod push_bit 9 1,
      drop_bit 20 (inp ! 5) mod push_bit 9 1, drop_bit 29 (inp ! 5) OR push_bit (9 - 6) (inp ! 6 mod push_bit 6 1),
      drop_bit 6 (inp ! 6) mod push_bit 9 1, drop_bit 15 (inp ! 6) mod push_bit 9 1], 7)"

definition fastunpack10_24 :: "u32 list \<Rightarrow> u32 list \<times> nat" where
  "fastunpack10_24 inp =
    ([drop_bit 0 (inp ! 0) mod push_bit 10 1, drop_bit 10 (inp ! 0) mod push_bit 10 1,
      drop_bit 20 (inp ! 0) mod push_bit 10 1, drop_bit 30 (inp ! 0) OR push_bit (10 - 8) (inp ! 1 mod push_bit 8 1),
      drop_bit 8 (inp ! 1) mod push_bit 10 1, drop_bit 18 (inp ! 1) mod push_bit 10 1,
      drop_bit 28 (inp ! 1) OR push_bit (10 - 6) (inp ! 2 mod push_bit 6 1), drop_bit 6 (inp ! 2) mod push_bit 10 1,
      drop_bit 16 (inp ! 2) mod push_bit 10 1, drop_bit 26 (inp ! 2) OR push_bit (10 - 4) (inp ! 3 mod push_bit 4 1),
      drop_bit 4 (inp ! 3) mod push_bit 10 1, drop_bit 14 (inp ! 3) mod push_bit 10 1,
      drop_bit 24 (inp ! 3) OR push_bit (10 - 2) (inp ! 4 mod push_bit 2 1), drop_bit 2 (inp ! 4) mod push_bit 10 1,
      drop_bit 12 (inp ! 4) mod push_bit 10 1, drop_bit 22 (inp ! 4), drop_bit 0 (inp ! 5) mod push_bit 10 1,
      drop_bit 10 (inp ! 5) mod push_bit 10 1, drop_bit 20 (inp ! 5) mod push_bit 10 1,
      drop_bit 30 (inp ! 5) OR push_bit (10 - 8) (inp ! 6 mod push_bit 8 1), drop_bit 8 (inp ! 6) mod push_bit 10 1,
      drop_bit 18 (inp ! 6) mod push_bit 10 1, drop_bit 28 (inp ! 6) OR push_bit (10 - 6) (inp ! 7 mod push_bit 6 1),
      drop_bit 6 (inp ! 7) mod push_bit 10 1], 8)"

definition fastunpack11_24 :: "u32 list \<Rightarrow> u32 list \<times> nat" where
  "fastunpack11_24 inp =
    ([drop_bit 0 (inp ! 0) mod push_bit 11 1, drop_bit 11 (inp ! 0) mod push_bit 11 1,
      drop_bit 22 (inp ! 0) OR push_bit (11 - 1) (inp ! 1 mod push_bit 1 1), drop_bit 1 (inp ! 1) mod push_bit 11 1,
      drop_bit 12 (inp ! 1) mod push_bit 11 1, drop_bit 23 (inp ! 1) OR push_bit (11 - 2) (inp ! 2 mod push_bit 2 1),
      drop_bit 2 (inp ! 2) mod push_bit 11 1, drop_bit 13 (inp ! 2) mod push_bit 11 1,
      drop_bit 24 (inp ! 2) OR push_bit (11 - 3) (inp ! 3 mod push_bit 3 1), drop_bit 3 (inp ! 3) mod push_bit 11 1,
      drop_bit 14 (inp ! 3) mod push_bit 11 1, drop_bit 25 (inp ! 3) OR push_bit (11 - 4) (inp ! 4 mod push_bit 4 1),
      drop_bit 4 (inp ! 4) mod push_bit 11 1, drop_bit 15 (inp ! 4) mod push_bit 11 1,
      drop_bit 26 (inp ! 4) OR push_bit (11 - 5) (inp ! 5 mod push_bit 5 1), drop_bit 5 (inp ! 5) mod push_bit 11 1,
      drop_bit 16 (inp ! 5) mod push_bit 11 1, drop_bit 27 (inp ! 5) OR push_bit (11 - 6) (inp ! 6 mod push_bit 6 1),
      drop_bit 6 (inp ! 6) mod push_bit 11 1, drop_bit 17 (inp ! 6) mod push_bit 11 1,
      drop_bit 28 (inp ! 6) OR push_bit (11 - 7) (inp ! 7 mod push_bit 7 1), drop_bit 7 (inp ! 7) mod push_bit 11 1,
      drop_bit 18 (inp ! 7) mod push_bit 11 1, drop_bit 29 (inp ! 7) OR push_bit (11 - 8) (inp ! 8 mod push_bit 8 1)], 9)"

definition fastunpack12_24 :: "u32 list \<Rightarrow> u32 list \<times> nat" where
  "fastunpack12_24 inp =
    ([drop_bit 0 (inp ! 0) mod push_bit 12 1, drop_bit 12 (inp ! 0) mod push_bit 12 1,
      drop_bit 24 (inp ! 0) OR push_bit (12 - 4) (inp ! 1 mod push_bit 4 1), drop_bit 4 (inp ! 1) mod push_bit 12 1,
      drop_bit 16 (inp ! 1) mod push_bit 12 1, drop_bit 28 (inp ! 1) OR push_bit (12 - 8) (inp ! 2 mod push_bit 8 1),
      drop_bit 8 (inp ! 2) mod push_bit 12 1, drop_bit 20 (inp ! 2), drop_bit 0 (inp ! 3) mod push_bit 12 1,
      drop_bit 12 (inp ! 3) mod push_bit 12 1, drop_bit 24 (inp ! 3) OR push_bit (12 - 4) (inp ! 4 mod push_bit 4 1),
      drop_bit 4 (inp ! 4) mod push_bit 12 1, drop_bit 16 (inp ! 4) mod push_bit 12 1,
      drop_bit 28 (inp ! 4) OR push_bit (12 - 8) (inp ! 5 mod push_bit 8 1), drop_bit 8 (inp ! 5) mod push_bit 12 1,
      drop_bit 20 (inp ! 5), drop_bit 0 (inp ! 6) mod push_bit 12 1, drop_bit 12 (inp ! 6) mod push_bit 12 1,
      drop_bit 24 (inp ! 6) OR push_bit (12 - 4) (inp ! 7 mod push_bit 4 1), drop_bit 4 (inp ! 7) mod push_bit 12 1,
      drop_bit 16 (inp ! 7) mod push_bit 12 1, drop_bit 28 (inp ! 7) OR push_bit (12 - 8) (inp ! 8 mod push_bit 8 1),
      drop_bit 8 (inp ! 8) mod push_bit 12 1, drop_bit 20 (inp ! 8)], 9)"

definition fastunpack13_24 :: "u32 list \<Rightarrow> u32 list \<times> nat" where
  "fastunpack13_24 inp =
    ([drop_bit 0 (inp ! 0) mod push_bit 13 1, drop_bit 13 (inp ! 0) mod push_bit 13 1,
      drop_bit 26 (inp ! 0) OR push_bit (13 - 7) (inp ! 1 mod push_bit 7 1), drop_bit 7 (inp ! 1) mod push_bit 13 1,
      drop_bit 20 (inp ! 1) OR push_bit (13 - 1) (inp ! 2 mod push_bit 1 1), drop_bit 1 (inp ! 2) mod push_bit 13 1,
      drop_bit 14 (inp ! 2) mod push_bit 13 1, drop_bit 27 (inp ! 2) OR push_bit (13 - 8) (inp ! 3 mod push_bit 8 1),
      drop_bit 8 (inp ! 3) mod push_bit 13 1, drop_bit 21 (inp ! 3) OR push_bit (13 - 2) (inp ! 4 mod push_bit 2 1),
      drop_bit 2 (inp ! 4) mod push_bit 13 1, drop_bit 15 (inp ! 4) mod push_bit 13 1,
      drop_bit 28 (inp ! 4) OR push_bit (13 - 9) (inp ! 5 mod push_bit 9 1), drop_bit 9 (inp ! 5) mod push_bit 13 1,
      drop_bit 22 (inp ! 5) OR push_bit (13 - 3) (inp ! 6 mod push_bit 3 1), drop_bit 3 (inp ! 6) mod push_bit 13 1,
      drop_bit 16 (inp ! 6) mod push_bit 13 1,
      drop_bit 29 (inp ! 6) OR push_bit (13 - 10) (inp ! 7 mod push_bit 10 1),
      drop_bit 10 (inp ! 7) mod push_bit 13 1, drop_bit 23 (inp ! 7) OR push_bit (13 - 4) (inp ! 8 mod push_bit 4 1),
      drop_bit 4 (inp ! 8) mod push_bit 13 1, drop_bit 17 (inp ! 8) mod push_bit 13 1,
      drop_bit 30 (inp ! 8) OR push_bit (13 - 11) (inp ! 9 mod push_bit 11 1), drop_bit 11 (inp ! 9) mod push_bit 13 1], 10)"

definition fastunpack14_24 :: "u32 list \<Rightarrow> u32 list \<times> nat" where
  "fastunpack14_24 inp =
    ([drop_bit 0 (inp ! 0) mod push_bit 14 1, drop_bit 14 (inp ! 0) mod push_bit 14 1,
      drop_bit 28 (inp ! 0) OR push_bit (14 - 10) (inp ! 1 mod push_bit 10 1),
      drop_bit 10 (inp ! 1) mod push_bit 14 1, drop_bit 24 (inp ! 1) OR push_bit (14 - 6) (inp ! 2 mod push_bit 6 1),
      drop_bit 6 (inp ! 2) mod push_bit 14 1, drop_bit 20 (inp ! 2) OR push_bit (14 - 2) (inp ! 3 mod push_bit 2 1),
      drop_bit 2 (inp ! 3) mod push_bit 14 1, drop_bit 16 (inp ! 3) mod push_bit 14 1,
      drop_bit 30 (inp ! 3) OR push_bit (14 - 12) (inp ! 4 mod push_bit 12 1),
      drop_bit 12 (inp ! 4) mod push_bit 14 1, drop_bit 26 (inp ! 4) OR push_bit (14 - 8) (inp ! 5 mod push_bit 8 1),
      drop_bit 8 (inp ! 5) mod push_bit 14 1, drop_bit 22 (inp ! 5) OR push_bit (14 - 4) (inp ! 6 mod push_bit 4 1),
      drop_bit 4 (inp ! 6) mod push_bit 14 1, drop_bit 18 (inp ! 6), drop_bit 0 (inp ! 7) mod push_bit 14 1,
      drop_bit 14 (inp ! 7) mod push_bit 14 1,
      drop_bit 28 (inp ! 7) OR push_bit (14 - 10) (inp ! 8 mod push_bit 10 1),
      drop_bit 10 (inp ! 8) mod push_bit 14 1, drop_bit 24 (inp ! 8) OR push_bit (14 - 6) (inp ! 9 mod push_bit 6 1),
      drop_bit 6 (inp ! 9) mod push_bit 14 1, drop_bit 20 (inp ! 9) OR push_bit (14 - 2) (inp ! 10 mod push_bit 2 1),
      drop_bit 2 (inp ! 10) mod push_bit 14 1], 11)"

definition fastunpack15_24 :: "u32 list \<Rightarrow> u32 list \<times> nat" where
  "fastunpack15_24 inp =
    ([drop_bit 0 (inp ! 0) mod push_bit 15 1, drop_bit 15 (inp ! 0) mod push_bit 15 1,
      drop_bit 30 (inp ! 0) OR push_bit (15 - 13) (inp ! 1 mod push_bit 13 1),
      drop_bit 13 (inp ! 1) mod push_bit 15 1,
      drop_bit 28 (inp ! 1) OR push_bit (15 - 11) (inp ! 2 mod push_bit 11 1),
      drop_bit 11 (inp ! 2) mod push_bit 15 1, drop_bit 26 (inp ! 2) OR push_bit (15 - 9) (inp ! 3 mod push_bit 9 1),
      drop_bit 9 (inp ! 3) mod push_bit 15 1, drop_bit 24 (inp ! 3) OR push_bit (15 - 7) (inp ! 4 mod push_bit 7 1),
      drop_bit 7 (inp ! 4) mod push_bit 15 1, drop_bit 22 (inp ! 4) OR push_bit (15 - 5) (inp ! 5 mod push_bit 5 1),
      drop_bit 5 (inp ! 5) mod push_bit 15 1, drop_bit 20 (inp ! 5) OR push_bit (15 - 3) (inp ! 6 mod push_bit 3 1),
      drop_bit 3 (inp ! 6) mod push_bit 15 1, drop_bit 18 (inp ! 6) OR push_bit (15 - 1) (inp ! 7 mod push_bit 1 1),
      drop_bit 1 (inp ! 7) mod push_bit 15 1, drop_bit 16 (inp ! 7) mod push_bit 15 1,
      drop_bit 31 (inp ! 7) OR push_bit (15 - 14) (inp ! 8 mod push_bit 14 1),
      drop_bit 14 (inp ! 8) mod push_bit 15 1,
      drop_bit 29 (inp ! 8) OR push_bit (15 - 12) (inp ! 9 mod push_bit 12 1),
      drop_bit 12 (inp ! 9) mod push_bit 15 1,
      drop_bit 27 (inp ! 9) OR push_bit (15 - 10) (inp ! 10 mod push_bit 10 1),
      drop_bit 10 (inp ! 10) mod push_bit 15 1,
      drop_bit 25 (inp ! 10) OR push_bit (15 - 8) (inp ! 11 mod push_bit 8 1)], 12)"

definition fastunpack16_24 :: "u32 list \<Rightarrow> u32 list \<times> nat" where
  "fastunpack16_24 inp =
    ([drop_bit 0 (inp ! 0) mod push_bit 16 1, drop_bit 16 (inp ! 0), drop_bit 0 (inp ! 1) mod push_bit 16 1,
      drop_bit 16 (inp ! 1), drop_bit 0 (inp ! 2) mod push_bit 16 1, drop_bit 16 (inp ! 2),
      drop_bit 0 (inp ! 3) mod push_bit 16 1, drop_bit 16 (inp ! 3), drop_bit 0 (inp ! 4) mod push_bit 16 1,
      drop_bit 16 (inp ! 4), drop_bit 0 (inp ! 5) mod push_bit 16 1, drop_bit 16 (inp ! 5),
      drop_bit 0 (inp ! 6) mod push_bit 16 1, drop_bit 16 (inp ! 6), drop_bit 0 (inp ! 7) mod push_bit 16 1,
      drop_bit 16 (inp ! 7), drop_bit 0 (inp ! 8) mod push_bit 16 1, drop_bit 16 (inp ! 8),
      drop_bit 0 (inp ! 9) mod push_bit 16 1, drop_bit 16 (inp ! 9), drop_bit 0 (inp ! 10) mod push_bit 16 1,
      drop_bit 16 (inp ! 10), drop_bit 0 (inp ! 11) mod push_bit 16 1, drop_bit 16 (inp ! 11)], 12)"

definition fastunpack17_24 :: "u32 list \<Rightarrow> u32 list \<times> nat" where
  "fastunpack17_24 inp =
    ([drop_bit 0 (inp ! 0) mod push_bit 17 1, drop_bit 17 (inp ! 0) OR push_bit (17 - 2) (inp ! 1 mod push_bit 2 1),
      drop_bit 2 (inp ! 1) mod push_bit 17 1, drop_bit 19 (inp ! 1) OR push_bit (17 - 4) (inp ! 2 mod push_bit 4 1),
      drop_bit 4 (inp ! 2) mod push_bit 17 1, drop_bit 21 (inp ! 2) OR push_bit (17 - 6) (inp ! 3 mod push_bit 6 1),
      drop_bit 6 (inp ! 3) mod push_bit 17 1, drop_bit 23 (inp ! 3) OR push_bit (17 - 8) (inp ! 4 mod push_bit 8 1),
      drop_bit 8 (inp ! 4) mod push_bit 17 1,
      drop_bit 25 (inp ! 4) OR push_bit (17 - 10) (inp ! 5 mod push_bit 10 1),
      drop_bit 10 (inp ! 5) mod push_bit 17 1,
      drop_bit 27 (inp ! 5) OR push_bit (17 - 12) (inp ! 6 mod push_bit 12 1),
      drop_bit 12 (inp ! 6) mod push_bit 17 1,
      drop_bit 29 (inp ! 6) OR push_bit (17 - 14) (inp ! 7 mod push_bit 14 1),
      drop_bit 14 (inp ! 7) mod push_bit 17 1,
      drop_bit 31 (inp ! 7) OR push_bit (17 - 16) (inp ! 8 mod push_bit 16 1),
      drop_bit 16 (inp ! 8) OR push_bit (17 - 1) (inp ! 9 mod push_bit 1 1), drop_bit 1 (inp ! 9) mod push_bit 17 1,
      drop_bit 18 (inp ! 9) OR push_bit (17 - 3) (inp ! 10 mod push_bit 3 1),
      drop_bit 3 (inp ! 10) mod push_bit 17 1,
      drop_bit 20 (inp ! 10) OR push_bit (17 - 5) (inp ! 11 mod push_bit 5 1),
      drop_bit 5 (inp ! 11) mod push_bit 17 1,
      drop_bit 22 (inp ! 11) OR push_bit (17 - 7) (inp ! 12 mod push_bit 7 1), drop_bit 7 (inp ! 12) mod push_bit 17 1], 13)"

definition fastunpack18_24 :: "u32 list \<Rightarrow> u32 list \<times> nat" where
  "fastunpack18_24 inp =
    ([drop_bit 0 (inp ! 0) mod push_bit 18 1, drop_bit 18 (inp ! 0) OR push_bit (18 - 4) (inp ! 1 mod push_bit 4 1),
      drop_bit 4 (inp ! 1) mod push_bit 18 1, drop_bit 22 (inp ! 1) OR push_bit (18 - 8) (inp ! 2 mod push_bit 8 1),
      drop_bit 8 (inp ! 2) mod push_bit 18 1,
      drop_bit 26 (inp ! 2) OR push_bit (18 - 12) (inp ! 3 mod push_bit 12 1),
      drop_bit 12 (inp ! 3) mod push_bit 18 1,
      drop_bit 30 (inp ! 3) OR push_bit (18 - 16) (inp ! 4 mod push_bit 16 1),
      drop_bit 16 (inp ! 4) OR push_bit (18 - 2) (inp ! 5 mod push_bit 2 1), drop_bit 2 (inp ! 5) mod push_bit 18 1,
      drop_bit 20 (inp ! 5) OR push_bit (18 - 6) (inp ! 6 mod push_bit 6 1), drop_bit 6 (inp ! 6) mod push_bit 18 1,
      drop_bit 24 (inp ! 6) OR push_bit (18 - 10) (inp ! 7 mod push_bit 10 1),
      drop_bit 10 (inp ! 7) mod push_bit 18 1,
      drop_bit 28 (inp ! 7) OR push_bit (18 - 14) (inp ! 8 mod push_bit 14 1), drop_bit 14 (inp ! 8),
      drop_bit 0 (inp ! 9) mod push_bit 18 1, drop_bit 18 (inp ! 9) OR push_bit (18 - 4) (inp ! 10 mod push_bit 4 1),
      drop_bit 4 (inp ! 10) mod push_bit 18 1,
      drop_bit 22 (inp ! 10) OR push_bit (18 - 8) (inp ! 11 mod push_bit 8 1),
      drop_bit 8 (inp ! 11) mod push_bit 18 1,
      drop_bit 26 (inp ! 11) OR push_bit (18 - 12) (inp ! 12 mod push_bit 12 1),
      drop_bit 12 (inp ! 12) mod push_bit 18 1,
      drop_bit 30 (inp ! 12) OR push_bit (18 - 16) (inp ! 13 mod push_bit 16 1)], 14)"

definition fastunpack19_24 :: "u32 list \<Rightarrow> u32 list \<times> nat" where
  "fastunpack19_24 inp =
    ([drop_bit 0 (inp ! 0) mod push_bit 19 1, drop_bit 19 (inp ! 0) OR push_bit (19 - 6) (inp ! 1 mod push_bit 6 1),
      drop_bit 6 (inp ! 1) mod push_bit 19 1,
      drop_bit 25 (inp ! 1) OR push_bit (19 - 12) (inp ! 2 mod push_bit 12 1),
      drop_bit 12 (inp ! 2) mod push_bit 19 1,
      drop_bit 31 (inp ! 2) OR push_bit (19 - 18) (inp ! 3 mod push_bit 18 1),
      drop_bit 18 (inp ! 3) OR push_bit (19 - 5) (inp ! 4 mod push_bit 5 1), drop_bit 5 (inp ! 4) mod push_bit 19 1,
      drop_bit 24 (inp ! 4) OR push_bit (19 - 11) (inp ! 5 mod push_bit 11 1),
      drop_bit 11 (inp ! 5) mod push_bit 19 1,
      drop_bit 30 (inp ! 5) OR push_bit (19 - 17) (inp ! 6 mod push_bit 17 1),
      drop_bit 17 (inp ! 6) OR push_bit (19 - 4) (inp ! 7 mod push_bit 4 1), drop_bit 4 (inp ! 7) mod push_bit 19 1,
      drop_bit 23 (inp ! 7) OR push_bit (19 - 10) (inp ! 8 mod push_bit 10 1),
      drop_bit 10 (inp ! 8) mod push_bit 19 1,
      drop_bit 29 (inp ! 8) OR push_bit (19 - 16) (inp ! 9 mod push_bit 16 1),
      drop_bit 16 (inp ! 9) OR push_bit (19 - 3) (inp ! 10 mod push_bit 3 1),
      drop_bit 3 (inp ! 10) mod push_bit 19 1,
      drop_bit 22 (inp ! 10) OR push_bit (19 - 9) (inp ! 11 mod push_bit 9 1),
      drop_bit 9 (inp ! 11) mod push_bit 19 1,
      drop_bit 28 (inp ! 11) OR push_bit (19 - 15) (inp ! 12 mod push_bit 15 1),
      drop_bit 15 (inp ! 12) OR push_bit (19 - 2) (inp ! 13 mod push_bit 2 1),
      drop_bit 2 (inp ! 13) mod push_bit 19 1, drop_bit 21 (inp ! 13) OR push_bit (19 - 8) (inp ! 14 mod push_bit 8 1)], 15)"

definition fastunpack20_24 :: "u32 list \<Rightarrow> u32 list \<times> nat" where
  "fastunpack20_24 inp =
    ([drop_bit 0 (inp ! 0) mod push_bit 20 1, drop_bit 20 (inp ! 0) OR push_bit (20 - 8) (inp ! 1 mod push_bit 8 1),
      drop_bit 8 (inp ! 1) mod push_bit 20 1,
      drop_bit 28 (inp ! 1) OR push_bit (20 - 16) (inp ! 2 mod push_bit 16 1),
      drop_bit 16 (inp ! 2) OR push_bit (20 - 4) (inp ! 3 mod push_bit 4 1), drop_bit 4 (inp ! 3) mod push_bit 20 1,
      drop_bit 24 (inp ! 3) OR push_bit (20 - 12) (inp ! 4 mod push_bit 12 1), drop_bit 12 (inp ! 4),
      drop_bit 0 (inp ! 5) mod push_bit 20 1, drop_bit 20 (inp ! 5) OR push_bit (20 - 8) (inp ! 6 mod push_bit 8 1),
      drop_bit 8 (inp ! 6) mod push_bit 20 1,
      drop_bit 28 (inp ! 6) OR push_bit (20 - 16) (inp ! 7 mod push_bit 16 1),
      drop_bit 16 (inp ! 7) OR push_bit (20 - 4) (inp ! 8 mod push_bit 4 1), drop_bit 4 (inp ! 8) mod push_bit 20 1,
      drop_bit 24 (inp ! 8) OR push_bit (20 - 12) (inp ! 9 mod push_bit 12 1), drop_bit 12 (inp ! 9),
      drop_bit 0 (inp ! 10) mod push_bit 20 1,
      drop_bit 20 (inp ! 10) OR push_bit (20 - 8) (inp ! 11 mod push_bit 8 1),
      drop_bit 8 (inp ! 11) mod push_bit 20 1,
      drop_bit 28 (inp ! 11) OR push_bit (20 - 16) (inp ! 12 mod push_bit 16 1),
      drop_bit 16 (inp ! 12) OR push_bit (20 - 4) (inp ! 13 mod push_bit 4 1),
      drop_bit 4 (inp ! 13) mod push_bit 20 1,
      drop_bit 24 (inp ! 13) OR push_bit (20 - 12) (inp ! 14 mod push_bit 12 1), drop_bit 12 (inp ! 14)], 15)"

definition fastunpack21_24 :: "u32 list \<Rightarrow> u32 list \<times> nat" where
  "fastunpack21_24 inp =
    ([drop_bit 0 (inp ! 0) mod push_bit 21 1,
      drop_bit 21 (inp ! 0) OR push_bit (21 - 10) (inp ! 1 mod push_bit 10 1),
      drop_bit 10 (inp ! 1) mod push_bit 21 1,
      drop_bit 31 (inp ! 1) OR push_bit (21 - 20) (inp ! 2 mod push_bit 20 1),
      drop_bit 20 (inp ! 2) OR push_bit (21 - 9) (inp ! 3 mod push_bit 9 1), drop_bit 9 (inp ! 3) mod push_bit 21 1,
      drop_bit 30 (inp ! 3) OR push_bit (21 - 19) (inp ! 4 mod push_bit 19 1),
      drop_bit 19 (inp ! 4) OR push_bit (21 - 8) (inp ! 5 mod push_bit 8 1), drop_bit 8 (inp ! 5) mod push_bit 21 1,
      drop_bit 29 (inp ! 5) OR push_bit (21 - 18) (inp ! 6 mod push_bit 18 1),
      drop_bit 18 (inp ! 6) OR push_bit (21 - 7) (inp ! 7 mod push_bit 7 1), drop_bit 7 (inp ! 7) mod push_bit 21 1,
      drop_bit 28 (inp ! 7) OR push_bit (21 - 17) (inp ! 8 mod push_bit 17 1),
      drop_bit 17 (inp ! 8) OR push_bit (21 - 6) (inp ! 9 mod push_bit 6 1), drop_bit 6 (inp ! 9) mod push_bit 21 1,
      drop_bit 27 (inp ! 9) OR push_bit (21 - 16) (inp ! 10 mod push_bit 16 1),
      drop_bit 16 (inp ! 10) OR push_bit (21 - 5) (inp ! 11 mod push_bit 5 1),
      drop_bit 5 (inp ! 11) mod push_bit 21 1,
      drop_bit 26 (inp ! 11) OR push_bit (21 - 15) (inp ! 12 mod push_bit 15 1),
      drop_bit 15 (inp ! 12) OR push_bit (21 - 4) (inp ! 13 mod push_bit 4 1),
      drop_bit 4 (inp ! 13) mod push_bit 21 1,
      drop_bit 25 (inp ! 13) OR push_bit (21 - 14) (inp ! 14 mod push_bit 14 1),
      drop_bit 14 (inp ! 14) OR push_bit (21 - 3) (inp ! 15 mod push_bit 3 1), drop_bit 3 (inp ! 15) mod push_bit 21 1], 16)"

definition fastunpack22_24 :: "u32 list \<Rightarrow> u32 list \<times> nat" where
  "fastunpack22_24 inp =
    ([drop_bit 0 (inp ! 0) mod push_bit 22 1,
      drop_bit 22 (inp ! 0) OR push_bit (22 - 12) (inp ! 1 mod push_bit 12 1),
      drop_bit 12 (inp ! 1) OR push_bit (22 - 2) (inp ! 2 mod push_bit 2 1), drop_bit 2 (inp ! 2) mod push_bit 22 1,
      drop_bit 24 (inp ! 2) OR push_bit (22 - 14) (inp ! 3 mod push_bit 14 1),
      drop_bit 14 (inp ! 3) OR push_bit (22 - 4) (inp ! 4 mod push_bit 4 1), drop_bit 4 (inp ! 4) mod push_bit 22 1,
      drop_bit 26 (inp ! 4) OR push_bit (22 - 16) (inp ! 5 mod push_bit 16 1),
      drop_bit 16 (inp ! 5) OR push_bit (22 - 6) (inp ! 6 mod push_bit 6 1), drop_bit 6 (inp ! 6) mod push_bit 22 1,
      drop_bit 28 (inp ! 6) OR push_bit (22 - 18) (inp ! 7 mod push_bit 18 1),
      drop_bit 18 (inp ! 7) OR push_bit (22 - 8) (inp ! 8 mod push_bit 8 1), drop_bit 8 (inp ! 8) mod push_bit 22 1,
      drop_bit 30 (inp ! 8) OR push_bit (22 - 20) (inp ! 9 mod push_bit 20 1),
      drop_bit 20 (inp ! 9) OR push_bit (22 - 10) (inp ! 10 mod push_bit 10 1), drop_bit 10 (inp ! 10),
      drop_bit 0 (inp ! 11) mod push_bit 22 1,
      drop_bit 22 (inp ! 11) OR push_bit (22 - 12) (inp ! 12 mod push_bit 12 1),
      drop_bit 12 (inp ! 12) OR push_bit (22 - 2) (inp ! 13 mod push_bit 2 1),
      drop_bit 2 (inp ! 13) mod push_bit 22 1,
      drop_bit 24 (inp ! 13) OR push_bit (22 - 14) (inp ! 14 mod push_bit 14 1),
      drop_bit 14 (inp ! 14) OR push_bit (22 - 4) (inp ! 15 mod push_bit 4 1),
      drop_bit 4 (inp ! 15) mod push_bit 22 1,
      drop_bit 26 (inp ! 15) OR push_bit (22 - 16) (inp ! 16 mod push_bit 16 1)], 17)"

definition fastunpack23_24 :: "u32 list \<Rightarrow> u32 list \<times> nat" where
  "fastunpack23_24 inp =
    ([drop_bit 0 (inp ! 0) mod push_bit 23 1,
      drop_bit 23 (inp ! 0) OR push_bit (23 - 14) (inp ! 1 mod push_bit 14 1),
      drop_bit 14 (inp ! 1) OR push_bit (23 - 5) (inp ! 2 mod push_bit 5 1), drop_bit 5 (inp ! 2) mod push_bit 23 1,
      drop_bit 28 (inp ! 2) OR push_bit (23 - 19) (inp ! 3 mod push_bit 19 1),
      drop_bit 19 (inp ! 3) OR push_bit (23 - 10) (inp ! 4 mod push_bit 10 1),
      drop_bit 10 (inp ! 4) OR push_bit (23 - 1) (inp ! 5 mod push_bit 1 1), drop_bit 1 (inp ! 5) mod push_bit 23 1,
      drop_bit 24 (inp ! 5) OR push_bit (23 - 15) (inp ! 6 mod push_bit 15 1),
      drop_bit 15 (inp ! 6) OR push_bit (23 - 6) (inp ! 7 mod push_bit 6 1), drop_bit 6 (inp ! 7) mod push_bit 23 1,
      drop_bit 29 (inp ! 7) OR push_bit (23 - 20) (inp ! 8 mod push_bit 20 1),
      drop_bit 20 (inp ! 8) OR push_bit (23 - 11) (inp ! 9 mod push_bit 11 1),
      drop_bit 11 (inp ! 9) OR push_bit (23 - 2) (inp ! 10 mod push_bit 2 1),
      drop_bit 2 (inp ! 10) mod push_bit 23 1,
      drop_bit 25 (inp ! 10) OR push_bit (23 - 16) (inp ! 11 mod push_bit 16 1),
      drop_bit 16 (inp ! 11) OR push_bit (23 - 7) (inp ! 12 mod push_bit 7 1),
      drop_bit 7 (inp ! 12) mod push_bit 23 1,
      drop_bit 30 (inp ! 12) OR push_bit (23 - 21) (inp ! 13 mod push_bit 21 1),
      drop_bit 21 (inp ! 13) OR push_bit (23 - 12) (inp ! 14 mod push_bit 12 1),
      drop_bit 12 (inp ! 14) OR push_bit (23 - 3) (inp ! 15 mod push_bit 3 1),
      drop_bit 3 (inp ! 15) mod push_bit 23 1,
      drop_bit 26 (inp ! 15) OR push_bit (23 - 17) (inp ! 16 mod push_bit 17 1),
      drop_bit 17 (inp ! 16) OR push_bit (23 - 8) (inp ! 17 mod push_bit 8 1)], 18)"

definition fastunpack24_24 :: "u32 list \<Rightarrow> u32 list \<times> nat" where
  "fastunpack24_24 inp =
    ([drop_bit 0 (inp ! 0) mod push_bit 24 1,
      drop_bit 24 (inp ! 0) OR push_bit (24 - 16) (inp ! 1 mod push_bit 16 1),
      drop_bit 16 (inp ! 1) OR push_bit (24 - 8) (inp ! 2 mod push_bit 8 1), drop_bit 8 (inp ! 2),
      drop_bit 0 (inp ! 3) mod push_bit 24 1,
      drop_bit 24 (inp ! 3) OR push_bit (24 - 16) (inp ! 4 mod push_bit 16 1),
      drop_bit 16 (inp ! 4) OR push_bit (24 - 8) (inp ! 5 mod push_bit 8 1), drop_bit 8 (inp ! 5),
      drop_bit 0 (inp ! 6) mod push_bit 24 1,
      drop_bit 24 (inp ! 6) OR push_bit (24 - 16) (inp ! 7 mod push_bit 16 1),
      drop_bit 16 (inp ! 7) OR push_bit (24 - 8) (inp ! 8 mod push_bit 8 1), drop_bit 8 (inp ! 8),
      drop_bit 0 (inp ! 9) mod push_bit 24 1,
      drop_bit 24 (inp ! 9) OR push_bit (24 - 16) (inp ! 10 mod push_bit 16 1),
      drop_bit 16 (inp ! 10) OR push_bit (24 - 8) (inp ! 11 mod push_bit 8 1), drop_bit 8 (inp ! 11),
      drop_bit 0 (inp ! 12) mod push_bit 24 1,
      drop_bit 24 (inp ! 12) OR push_bit (24 - 16) (inp ! 13 mod push_bit 16 1),
      drop_bit 16 (inp ! 13) OR push_bit (24 - 8) (inp ! 14 mod push_bit 8 1), drop_bit 8 (inp ! 14),
      drop_bit 0 (inp ! 15) mod push_bit 24 1,
      drop_bit 24 (inp ! 15) OR push_bit (24 - 16) (inp ! 16 mod push_bit 16 1),
      drop_bit 16 (inp ! 16) OR push_bit (24 - 8) (inp ! 17 mod push_bit 8 1), drop_bit 8 (inp ! 17)], 18)"

definition fastunpack25_24 :: "u32 list \<Rightarrow> u32 list \<times> nat" where
  "fastunpack25_24 inp =
    ([drop_bit 0 (inp ! 0) mod push_bit 25 1,
      drop_bit 25 (inp ! 0) OR push_bit (25 - 18) (inp ! 1 mod push_bit 18 1),
      drop_bit 18 (inp ! 1) OR push_bit (25 - 11) (inp ! 2 mod push_bit 11 1),
      drop_bit 11 (inp ! 2) OR push_bit (25 - 4) (inp ! 3 mod push_bit 4 1), drop_bit 4 (inp ! 3) mod push_bit 25 1,
      drop_bit 29 (inp ! 3) OR push_bit (25 - 22) (inp ! 4 mod push_bit 22 1),
      drop_bit 22 (inp ! 4) OR push_bit (25 - 15) (inp ! 5 mod push_bit 15 1),
      drop_bit 15 (inp ! 5) OR push_bit (25 - 8) (inp ! 6 mod push_bit 8 1),
      drop_bit 8 (inp ! 6) OR push_bit (25 - 1) (inp ! 7 mod push_bit 1 1), drop_bit 1 (inp ! 7) mod push_bit 25 1,
      drop_bit 26 (inp ! 7) OR push_bit (25 - 19) (inp ! 8 mod push_bit 19 1),
      drop_bit 19 (inp ! 8) OR push_bit (25 - 12) (inp ! 9 mod push_bit 12 1),
      drop_bit 12 (inp ! 9) OR push_bit (25 - 5) (inp ! 10 mod push_bit 5 1),
      drop_bit 5 (inp ! 10) mod push_bit 25 1,
      drop_bit 30 (inp ! 10) OR push_bit (25 - 23) (inp ! 11 mod push_bit 23 1),
      drop_bit 23 (inp ! 11) OR push_bit (25 - 16) (inp ! 12 mod push_bit 16 1),
      drop_bit 16 (inp ! 12) OR push_bit (25 - 9) (inp ! 13 mod push_bit 9 1),
      drop_bit 9 (inp ! 13) OR push_bit (25 - 2) (inp ! 14 mod push_bit 2 1),
      drop_bit 2 (inp ! 14) mod push_bit 25 1,
      drop_bit 27 (inp ! 14) OR push_bit (25 - 20) (inp ! 15 mod push_bit 20 1),
      drop_bit 20 (inp ! 15) OR push_bit (25 - 13) (inp ! 16 mod push_bit 13 1),
      drop_bit 13 (inp ! 16) OR push_bit (25 - 6) (inp ! 17 mod push_bit 6 1),
      drop_bit 6 (inp ! 17) mod push_bit 25 1,
      drop_bit 31 (inp ! 17) OR push_bit (25 - 24) (inp ! 18 mod push_bit 24 1)], 19)"

definition fastunpack26_24 :: "u32 list \<Rightarrow> u32 list \<times> nat" where
  "fastunpack26_24 inp =
    ([drop_bit 0 (inp ! 0) mod push_bit 26 1,
      drop_bit 26 (inp ! 0) OR push_bit (26 - 20) (inp ! 1 mod push_bit 20 1),
      drop_bit 20 (inp ! 1) OR push_bit (26 - 14) (inp ! 2 mod push_bit 14 1),
      drop_bit 14 (inp ! 2) OR push_bit (26 - 8) (inp ! 3 mod push_bit 8 1),
      drop_bit 8 (inp ! 3) OR push_bit (26 - 2) (inp ! 4 mod push_bit 2 1), drop_bit 2 (inp ! 4) mod push_bit 26 1,
      drop_bit 28 (inp ! 4) OR push_bit (26 - 22) (inp ! 5 mod push_bit 22 1),
      drop_bit 22 (inp ! 5) OR push_bit (26 - 16) (inp ! 6 mod push_bit 16 1),
      drop_bit 16 (inp ! 6) OR push_bit (26 - 10) (inp ! 7 mod push_bit 10 1),
      drop_bit 10 (inp ! 7) OR push_bit (26 - 4) (inp ! 8 mod push_bit 4 1), drop_bit 4 (inp ! 8) mod push_bit 26 1,
      drop_bit 30 (inp ! 8) OR push_bit (26 - 24) (inp ! 9 mod push_bit 24 1),
      drop_bit 24 (inp ! 9) OR push_bit (26 - 18) (inp ! 10 mod push_bit 18 1),
      drop_bit 18 (inp ! 10) OR push_bit (26 - 12) (inp ! 11 mod push_bit 12 1),
      drop_bit 12 (inp ! 11) OR push_bit (26 - 6) (inp ! 12 mod push_bit 6 1), drop_bit 6 (inp ! 12),
      drop_bit 0 (inp ! 13) mod push_bit 26 1,
      drop_bit 26 (inp ! 13) OR push_bit (26 - 20) (inp ! 14 mod push_bit 20 1),
      drop_bit 20 (inp ! 14) OR push_bit (26 - 14) (inp ! 15 mod push_bit 14 1),
      drop_bit 14 (inp ! 15) OR push_bit (26 - 8) (inp ! 16 mod push_bit 8 1),
      drop_bit 8 (inp ! 16) OR push_bit (26 - 2) (inp ! 17 mod push_bit 2 1),
      drop_bit 2 (inp ! 17) mod push_bit 26 1,
      drop_bit 28 (inp ! 17) OR push_bit (26 - 22) (inp ! 18 mod push_bit 22 1),
      drop_bit 22 (inp ! 18) OR push_bit (26 - 16) (inp ! 19 mod push_bit 16 1)], 20)"

definition fastunpack27_24 :: "u32 list \<Rightarrow> u32 list \<times> nat" where
  "fastunpack27_24 inp =
    ([drop_bit 0 (inp ! 0) mod push_bit 27 1,
      drop_bit 27 (inp ! 0) OR push_bit (27 - 22) (inp ! 1 mod push_bit 22 1),
      drop_bit 22 (inp ! 1) OR push_bit (27 - 17) (inp ! 2 mod push_bit 17 1),
      drop_bit 17 (inp ! 2) OR push_bit (27 - 12) (inp ! 3 mod push_bit 12 1),
      drop_bit 12 (inp ! 3) OR push_bit (27 - 7) (inp ! 4 mod push_bit 7 1),
      drop_bit 7 (inp ! 4) OR push_bit (27 - 2) (inp ! 5 mod push_bit 2 1), drop_bit 2 (inp ! 5) mod push_bit 27 1,
      drop_bit 29 (inp ! 5) OR push_bit (27 - 24) (inp ! 6 mod push_bit 24 1),
      drop_bit 24 (inp ! 6) OR push_bit (27 - 19) (inp ! 7 mod push_bit 19 1),
      drop_bit 19 (inp ! 7) OR push_bit (27 - 14) (inp ! 8 mod push_bit 14 1),
      drop_bit 14 (inp ! 8) OR push_bit (27 - 9) (inp ! 9 mod push_bit 9 1),
      drop_bit 9 (inp ! 9) OR push_bit (27 - 4) (inp ! 10 mod push_bit 4 1), drop_bit 4 (inp ! 10) mod push_bit 27 1,
      drop_bit 31 (inp ! 10) OR push_bit (27 - 26) (inp ! 11 mod push_bit 26 1),
      drop_bit 26 (inp ! 11) OR push_bit (27 - 21) (inp ! 12 mod push_bit 21 1),
      drop_bit 21 (inp ! 12) OR push_bit (27 - 16) (inp ! 13 mod push_bit 16 1),
      drop_bit 16 (inp ! 13) OR push_bit (27 - 11) (inp ! 14 mod push_bit 11 1),
      drop_bit 11 (inp ! 14) OR push_bit (27 - 6) (inp ! 15 mod push_bit 6 1),
      drop_bit 6 (inp ! 15) OR push_bit (27 - 1) (inp ! 16 mod push_bit 1 1),
      drop_bit 1 (inp ! 16) mod push_bit 27 1,
      drop_bit 28 (inp ! 16) OR push_bit (27 - 23) (inp ! 17 mod push_bit 23 1),
      drop_bit 23 (inp ! 17) OR push_bit (27 - 18) (inp ! 18 mod push_bit 18 1),
      drop_bit 18 (inp ! 18) OR push_bit (27 - 13) (inp ! 19 mod push_bit 13 1),
      drop_bit 13 (inp ! 19) OR push_bit (27 - 8) (inp ! 20 mod push_bit 8 1)], 21)"

definition fastunpack28_24 :: "u32 list \<Rightarrow> u32 list \<times> nat" where
  "fastunpack28_24 inp =
    ([drop_bit 0 (inp ! 0) mod push_bit 28 1,
      drop_bit 28 (inp ! 0) OR push_bit (28 - 24) (inp ! 1 mod push_bit 24 1),
      drop_bit 24 (inp ! 1) OR push_bit (28 - 20) (inp ! 2 mod push_bit 20 1),
      drop_bit 20 (inp ! 2) OR push_bit (28 - 16) (inp ! 3 mod push_bit 16 1),
      drop_bit 16 (inp ! 3) OR push_bit (28 - 12) (inp ! 4 mod push_bit 12 1),
      drop_bit 12 (inp ! 4) OR push_bit (28 - 8) (inp ! 5 mod push_bit 8 1),
      drop_bit 8 (inp ! 5) OR push_bit (28 - 4) (inp ! 6 mod push_bit 4 1), drop_bit 4 (inp ! 6),
      drop_bit 0 (inp ! 7) mod push_bit 28 1,
      drop_bit 28 (inp ! 7) OR push_bit (28 - 24) (inp ! 8 mod push_bit 24 1),
      drop_bit 24 (inp ! 8) OR push_bit (28 - 20) (inp ! 9 mod push_bit 20 1),
      drop_bit 20 (inp ! 9) OR push_bit (28 - 16) (inp ! 10 mod push_bit 16 1),
      drop_bit 16 (inp ! 10) OR push_bit (28 - 12) (inp ! 11 mod push_bit 12 1),
      drop_bit 12 (inp ! 11) OR push_bit (28 - 8) (inp ! 12 mod push_bit 8 1),
      drop_bit 8 (inp ! 12) OR push_bit (28 - 4) (inp ! 13 mod push_bit 4 1), drop_bit 4 (inp ! 13),
      drop_bit 0 (inp ! 14) mod push_bit 28 1,
      drop_bit 28 (inp ! 14) OR push_bit (28 - 24) (inp ! 15 mod push_bit 24 1),
      drop_bit 24 (inp ! 15) OR push_bit (28 - 20) (inp ! 16 mod push_bit 20 1),
      drop_bit 20 (inp ! 16) OR push_bit (28 - 16) (inp ! 17 mod push_bit 16 1),
      drop_bit 16 (inp ! 17) OR push_bit (28 - 12) (inp ! 18 mod push_bit 12 1),
      drop_bit 12 (inp ! 18) OR push_bit (28 - 8) (inp ! 19 mod push_bit 8 1),
      drop_bit 8 (inp ! 19) OR push_bit (28 - 4) (inp ! 20 mod push_bit 4 1), drop_bit 4 (inp ! 20)], 21)"

definition fastunpack29_24 :: "u32 list \<Rightarrow> u32 list \<times> nat" where
  "fastunpack29_24 inp =
    ([drop_bit 0 (inp ! 0) mod push_bit 29 1,
      drop_bit 29 (inp ! 0) OR push_bit (29 - 26) (inp ! 1 mod push_bit 26 1),
      drop_bit 26 (inp ! 1) OR push_bit (29 - 23) (inp ! 2 mod push_bit 23 1),
      drop_bit 23 (inp ! 2) OR push_bit (29 - 20) (inp ! 3 mod push_bit 20 1),
      drop_bit 20 (inp ! 3) OR push_bit (29 - 17) (inp ! 4 mod push_bit 17 1),
      drop_bit 17 (inp ! 4) OR push_bit (29 - 14) (inp ! 5 mod push_bit 14 1),
      drop_bit 14 (inp ! 5) OR push_bit (29 - 11) (inp ! 6 mod push_bit 11 1),
      drop_bit 11 (inp ! 6) OR push_bit (29 - 8) (inp ! 7 mod push_bit 8 1),
      drop_bit 8 (inp ! 7) OR push_bit (29 - 5) (inp ! 8 mod push_bit 5 1),
      drop_bit 5 (inp ! 8) OR push_bit (29 - 2) (inp ! 9 mod push_bit 2 1), drop_bit 2 (inp ! 9) mod push_bit 29 1,
      drop_bit 31 (inp ! 9) OR push_bit (29 - 28) (inp ! 10 mod push_bit 28 1),
      drop_bit 28 (inp ! 10) OR push_bit (29 - 25) (inp ! 11 mod push_bit 25 1),
      drop_bit 25 (inp ! 11) OR push_bit (29 - 22) (inp ! 12 mod push_bit 22 1),
      drop_bit 22 (inp ! 12) OR push_bit (29 - 19) (inp ! 13 mod push_bit 19 1),
      drop_bit 19 (inp ! 13) OR push_bit (29 - 16) (inp ! 14 mod push_bit 16 1),
      drop_bit 16 (inp ! 14) OR push_bit (29 - 13) (inp ! 15 mod push_bit 13 1),
      drop_bit 13 (inp ! 15) OR push_bit (29 - 10) (inp ! 16 mod push_bit 10 1),
      drop_bit 10 (inp ! 16) OR push_bit (29 - 7) (inp ! 17 mod push_bit 7 1),
      drop_bit 7 (inp ! 17) OR push_bit (29 - 4) (inp ! 18 mod push_bit 4 1),
      drop_bit 4 (inp ! 18) OR push_bit (29 - 1) (inp ! 19 mod push_bit 1 1),
      drop_bit 1 (inp ! 19) mod push_bit 29 1,
      drop_bit 30 (inp ! 19) OR push_bit (29 - 27) (inp ! 20 mod push_bit 27 1),
      drop_bit 27 (inp ! 20) OR push_bit (29 - 24) (inp ! 21 mod push_bit 24 1)], 22)"

definition fastunpack30_24 :: "u32 list \<Rightarrow> u32 list \<times> nat" where
  "fastunpack30_24 inp =
    ([drop_bit 0 (inp ! 0) mod push_bit 30 1,
      drop_bit 30 (inp ! 0) OR push_bit (30 - 28) (inp ! 1 mod push_bit 28 1),
      drop_bit 28 (inp ! 1) OR push_bit (30 - 26) (inp ! 2 mod push_bit 26 1),
      drop_bit 26 (inp ! 2) OR push_bit (30 - 24) (inp ! 3 mod push_bit 24 1),
      drop_bit 24 (inp ! 3) OR push_bit (30 - 22) (inp ! 4 mod push_bit 22 1),
      drop_bit 22 (inp ! 4) OR push_bit (30 - 20) (inp ! 5 mod push_bit 20 1),
      drop_bit 20 (inp ! 5) OR push_bit (30 - 18) (inp ! 6 mod push_bit 18 1),
      drop_bit 18 (inp ! 6) OR push_bit (30 - 16) (inp ! 7 mod push_bit 16 1),
      drop_bit 16 (inp ! 7) OR push_bit (30 - 14) (inp ! 8 mod push_bit 14 1),
      drop_bit 14 (inp ! 8) OR push_bit (30 - 12) (inp ! 9 mod push_bit 12 1),
      drop_bit 12 (inp ! 9) OR push_bit (30 - 10) (inp ! 10 mod push_bit 10 1),
      drop_bit 10 (inp ! 10) OR push_bit (30 - 8) (inp ! 11 mod push_bit 8 1),
      drop_bit 8 (inp ! 11) OR push_bit (30 - 6) (inp ! 12 mod push_bit 6 1),
      drop_bit 6 (inp ! 12) OR push_bit (30 - 4) (inp ! 13 mod push_bit 4 1),
      drop_bit 4 (inp ! 13) OR push_bit (30 - 2) (inp ! 14 mod push_bit 2 1), drop_bit 2 (inp ! 14),
      drop_bit 0 (inp ! 15) mod push_bit 30 1,
      drop_bit 30 (inp ! 15) OR push_bit (30 - 28) (inp ! 16 mod push_bit 28 1),
      drop_bit 28 (inp ! 16) OR push_bit (30 - 26) (inp ! 17 mod push_bit 26 1),
      drop_bit 26 (inp ! 17) OR push_bit (30 - 24) (inp ! 18 mod push_bit 24 1),
      drop_bit 24 (inp ! 18) OR push_bit (30 - 22) (inp ! 19 mod push_bit 22 1),
      drop_bit 22 (inp ! 19) OR push_bit (30 - 20) (inp ! 20 mod push_bit 20 1),
      drop_bit 20 (inp ! 20) OR push_bit (30 - 18) (inp ! 21 mod push_bit 18 1),
      drop_bit 18 (inp ! 21) OR push_bit (30 - 16) (inp ! 22 mod push_bit 16 1)], 23)"

definition fastunpack31_24 :: "u32 list \<Rightarrow> u32 list \<times> nat" where
  "fastunpack31_24 inp =
    ([drop_bit 0 (inp ! 0) mod push_bit 31 1,
      drop_bit 31 (inp ! 0) OR push_bit (31 - 30) (inp ! 1 mod push_bit 30 1),
      drop_bit 30 (inp ! 1) OR push_bit (31 - 29) (inp ! 2 mod push_bit 29 1),
      drop_bit 29 (inp ! 2) OR push_bit (31 - 28) (inp ! 3 mod push_bit 28 1),
      drop_bit 28 (inp ! 3) OR push_bit (31 - 27) (inp ! 4 mod push_bit 27 1),
      drop_bit 27 (inp ! 4) OR push_bit (31 - 26) (inp ! 5 mod push_bit 26 1),
      drop_bit 26 (inp ! 5) OR push_bit (31 - 25) (inp ! 6 mod push_bit 25 1),
      drop_bit 25 (inp ! 6) OR push_bit (31 - 24) (inp ! 7 mod push_bit 24 1),
      drop_bit 24 (inp ! 7) OR push_bit (31 - 23) (inp ! 8 mod push_bit 23 1),
      drop_bit 23 (inp ! 8) OR push_bit (31 - 22) (inp ! 9 mod push_bit 22 1),
      drop_bit 22 (inp ! 9) OR push_bit (31 - 21) (inp ! 10 mod push_bit 21 1),
      drop_bit 21 (inp ! 10) OR push_bit (31 - 20) (inp ! 11 mod push_bit 20 1),
      drop_bit 20 (inp ! 11) OR push_bit (31 - 19) (inp ! 12 mod push_bit 19 1),
      drop_bit 19 (inp ! 12) OR push_bit (31 - 18) (inp ! 13 mod push_bit 18 1),
      drop_bit 18 (inp ! 13) OR push_bit (31 - 17) (inp ! 14 mod push_bit 17 1),
      drop_bit 17 (inp ! 14) OR push_bit (31 - 16) (inp ! 15 mod push_bit 16 1),
      drop_bit 16 (inp ! 15) OR push_bit (31 - 15) (inp ! 16 mod push_bit 15 1),
      drop_bit 15 (inp ! 16) OR push_bit (31 - 14) (inp ! 17 mod push_bit 14 1),
      drop_bit 14 (inp ! 17) OR push_bit (31 - 13) (inp ! 18 mod push_bit 13 1),
      drop_bit 13 (inp ! 18) OR push_bit (31 - 12) (inp ! 19 mod push_bit 12 1),
      drop_bit 12 (inp ! 19) OR push_bit (31 - 11) (inp ! 20 mod push_bit 11 1),
      drop_bit 11 (inp ! 20) OR push_bit (31 - 10) (inp ! 21 mod push_bit 10 1),
      drop_bit 10 (inp ! 21) OR push_bit (31 - 9) (inp ! 22 mod push_bit 9 1),
      drop_bit 9 (inp ! 22) OR push_bit (31 - 8) (inp ! 23 mod push_bit 8 1)], 24)"

definition fastunpack32_24 :: "u32 list \<Rightarrow> u32 list \<times> nat" where
  "fastunpack32_24 inp =
    ([drop_bit 0 (inp ! 0), drop_bit 0 (inp ! 1), drop_bit 0 (inp ! 2), drop_bit 0 (inp ! 3), drop_bit 0 (inp ! 4),
      drop_bit 0 (inp ! 5), drop_bit 0 (inp ! 6), drop_bit 0 (inp ! 7), drop_bit 0 (inp ! 8), drop_bit 0 (inp ! 9),
      drop_bit 0 (inp ! 10), drop_bit 0 (inp ! 11), drop_bit 0 (inp ! 12), drop_bit 0 (inp ! 13),
      drop_bit 0 (inp ! 14), drop_bit 0 (inp ! 15), drop_bit 0 (inp ! 16), drop_bit 0 (inp ! 17),
      drop_bit 0 (inp ! 18), drop_bit 0 (inp ! 19), drop_bit 0 (inp ! 20), drop_bit 0 (inp ! 21),
      drop_bit 0 (inp ! 22), drop_bit 0 (inp ! 23)], 24)"

definition nullunpacker32 :: "u32 list \<Rightarrow> u32 list \<times> nat" where
  "nullunpacker32 inp = (replicate 32 0, 0)"

definition fastunpack1_32 :: "u32 list \<Rightarrow> u32 list \<times> nat" where
  "fastunpack1_32 inp =
    ([drop_bit 0 (inp ! 0) AND 1, drop_bit 1 (inp ! 0) AND 1, drop_bit 2 (inp ! 0) AND 1, drop_bit 3 (inp ! 0) AND 1,
      drop_bit 4 (inp ! 0) AND 1, drop_bit 5 (inp ! 0) AND 1, drop_bit 6 (inp ! 0) AND 1, drop_bit 7 (inp ! 0) AND 1,
      drop_bit 8 (inp ! 0) AND 1, drop_bit 9 (inp ! 0) AND 1, drop_bit 10 (inp ! 0) AND 1,
      drop_bit 11 (inp ! 0) AND 1, drop_bit 12 (inp ! 0) AND 1, drop_bit 13 (inp ! 0) AND 1,
      drop_bit 14 (inp ! 0) AND 1, drop_bit 15 (inp ! 0) AND 1, drop_bit 16 (inp ! 0) AND 1,
      drop_bit 17 (inp ! 0) AND 1, drop_bit 18 (inp ! 0) AND 1, drop_bit 19 (inp ! 0) AND 1,
      drop_bit 20 (inp ! 0) AND 1, drop_bit 21 (inp ! 0) AND 1, drop_bit 22 (inp ! 0) AND 1,
      drop_bit 23 (inp ! 0) AND 1, drop_bit 24 (inp ! 0) AND 1, drop_bit 25 (inp ! 0) AND 1,
      drop_bit 26 (inp ! 0) AND 1, drop_bit 27 (inp ! 0) AND 1, drop_bit 28 (inp ! 0) AND 1,
      drop_bit 29 (inp ! 0) AND 1, drop_bit 30 (inp ! 0) AND 1, drop_bit 31 (inp ! 0)], 1)"

definition fastunpack2_32 :: "u32 list \<Rightarrow> u32 list \<times> nat" where
  "fastunpack2_32 inp =
    ([drop_bit 0 (inp ! 0) mod push_bit 2 1, drop_bit 2 (inp ! 0) mod push_bit 2 1,
      drop_bit 4 (inp ! 0) mod push_bit 2 1, drop_bit 6 (inp ! 0) mod push_bit 2 1,
      drop_bit 8 (inp ! 0) mod push_bit 2 1, drop_bit 10 (inp ! 0) mod push_bit 2 1,
      drop_bit 12 (inp ! 0) mod push_bit 2 1, drop_bit 14 (inp ! 0) mod push_bit 2 1,
      drop_bit 16 (inp ! 0) mod push_bit 2 1, drop_bit 18 (inp ! 0) mod push_bit 2 1,
      drop_bit 20 (inp ! 0) mod push_bit 2 1, drop_bit 22 (inp ! 0) mod push_bit 2 1,
      drop_bit 24 (inp ! 0) mod push_bit 2 1, drop_bit 26 (inp ! 0) mod push_bit 2 1,
      drop_bit 28 (inp ! 0) mod push_bit 2 1, drop_bit 30 (inp ! 0), drop_bit 0 (inp ! 1) mod push_bit 2 1,
      drop_bit 2 (inp ! 1) mod push_bit 2 1, drop_bit 4 (inp ! 1) mod push_bit 2 1,
      drop_bit 6 (inp ! 1) mod push_bit 2 1, drop_bit 8 (inp ! 1) mod push_bit 2 1,
      drop_bit 10 (inp ! 1) mod push_bit 2 1, drop_bit 12 (inp ! 1) mod push_bit 2 1,
      drop_bit 14 (inp ! 1) mod push_bit 2 1, drop_bit 16 (inp ! 1) mod push_bit 2 1,
      drop_bit 18 (inp ! 1) mod push_bit 2 1, drop_bit 20 (inp ! 1) mod push_bit 2 1,
      drop_bit 22 (inp ! 1) mod push_bit 2 1, drop_bit 24 (inp ! 1) mod push_bit 2 1,
      drop_bit 26 (inp ! 1) mod push_bit 2 1, drop_bit 28 (inp ! 1) mod push_bit 2 1, drop_bit 30 (inp ! 1)], 2)"

definition fastunpack3_32 :: "u32 list \<Rightarrow> u32 list \<times> nat" where
  "fastunpack3_32 inp =
    ([drop_bit 0 (inp ! 0) mod push_bit 3 1, drop_bit 3 (inp ! 0) mod push_bit 3 1,
      drop_bit 6 (inp ! 0) mod push_bit 3 1, drop_bit 9 (inp ! 0) mod push_bit 3 1,
      drop_bit 12 (inp ! 0) mod push_bit 3 1, drop_bit 15 (inp ! 0) mod push_bit 3 1,
      drop_bit 18 (inp ! 0) mod push_bit 3 1, drop_bit 21 (inp ! 0) mod push_bit 3 1,
      drop_bit 24 (inp ! 0) mod push_bit 3 1, drop_bit 27 (inp ! 0) mod push_bit 3 1,
      drop_bit 30 (inp ! 0) OR push_bit (3 - 1) (inp ! 1 mod push_bit 1 1), drop_bit 1 (inp ! 1) mod push_bit 3 1,
      drop_bit 4 (inp ! 1) mod push_bit 3 1, drop_bit 7 (inp ! 1) mod push_bit 3 1,
      drop_bit 10 (inp ! 1) mod push_bit 3 1, drop_bit 13 (inp ! 1) mod push_bit 3 1,
      drop_bit 16 (inp ! 1) mod push_bit 3 1, drop_bit 19 (inp ! 1) mod push_bit 3 1,
      drop_bit 22 (inp ! 1) mod push_bit 3 1, drop_bit 25 (inp ! 1) mod push_bit 3 1,
      drop_bit 28 (inp ! 1) mod push_bit 3 1, drop_bit 31 (inp ! 1) OR push_bit (3 - 2) (inp ! 2 mod push_bit 2 1),
      drop_bit 2 (inp ! 2) mod push_bit 3 1, drop_bit 5 (inp ! 2) mod push_bit 3 1,
      drop_bit 8 (inp ! 2) mod push_bit 3 1, drop_bit 11 (inp ! 2) mod push_bit 3 1,
      drop_bit 14 (inp ! 2) mod push_bit 3 1, drop_bit 17 (inp ! 2) mod push_bit 3 1,
      drop_bit 20 (inp ! 2) mod push_bit 3 1, drop_bit 23 (inp ! 2) mod push_bit 3 1,
      drop_bit 26 (inp ! 2) mod push_bit 3 1, drop_bit 29 (inp ! 2)], 3)"

definition fastunpack4_32 :: "u32 list \<Rightarrow> u32 list \<times> nat" where
  "fastunpack4_32 inp =
    ([drop_bit 0 (inp ! 0) mod push_bit 4 1, drop_bit 4 (inp ! 0) mod push_bit 4 1,
      drop_bit 8 (inp ! 0) mod push_bit 4 1, drop_bit 12 (inp ! 0) mod push_bit 4 1,
      drop_bit 16 (inp ! 0) mod push_bit 4 1, drop_bit 20 (inp ! 0) mod push_bit 4 1,
      drop_bit 24 (inp ! 0) mod push_bit 4 1, drop_bit 28 (inp ! 0), drop_bit 0 (inp ! 1) mod push_bit 4 1,
      drop_bit 4 (inp ! 1) mod push_bit 4 1, drop_bit 8 (inp ! 1) mod push_bit 4 1,
      drop_bit 12 (inp ! 1) mod push_bit 4 1, drop_bit 16 (inp ! 1) mod push_bit 4 1,
      drop_bit 20 (inp ! 1) mod push_bit 4 1, drop_bit 24 (inp ! 1) mod push_bit 4 1, drop_bit 28 (inp ! 1),
      drop_bit 0 (inp ! 2) mod push_bit 4 1, drop_bit 4 (inp ! 2) mod push_bit 4 1,
      drop_bit 8 (inp ! 2) mod push_bit 4 1, drop_bit 12 (inp ! 2) mod push_bit 4 1,
      drop_bit 16 (inp ! 2) mod push_bit 4 1, drop_bit 20 (inp ! 2) mod push_bit 4 1,
      drop_bit 24 (inp ! 2) mod push_bit 4 1, drop_bit 28 (inp ! 2), drop_bit 0 (inp ! 3) mod push_bit 4 1,
      drop_bit 4 (inp ! 3) mod push_bit 4 1, drop_bit 8 (inp ! 3) mod push_bit 4 1,
      drop_bit 12 (inp ! 3) mod push_bit 4 1, drop_bit 16 (inp ! 3) mod push_bit 4 1,
      drop_bit 20 (inp ! 3) mod push_bit 4 1, drop_bit 24 (inp ! 3) mod push_bit 4 1, drop_bit 28 (inp ! 3)], 4)"

definition fastunpack5_32 :: "u32 list \<Rightarrow> u32 list \<times> nat" where
  "fastunpack5_32 inp =
    ([drop_bit 0 (inp ! 0) mod push_bit 5 1, drop_bit 5 (inp ! 0) mod push_bit 5 1,
      drop_bit 10 (inp ! 0) mod push_bit 5 1, drop_bit 15 (inp ! 0) mod push_bit 5 1,
      drop_bit 20 (inp ! 0) mod push_bit 5 1, drop_bit 25 (inp ! 0) mod push_bit 5 1,
      drop_bit 30 (inp ! 0) OR push_bit (5 - 3) (inp ! 1 mod push_bit 3 1), drop_bit 3 (inp ! 1) mod push_bit 5 1,
      drop_bit 8 (inp ! 1) mod push_bit 5 1, drop_bit 13 (inp ! 1) mod push_bit 5 1,
      drop_bit 18 (inp ! 1) mod push_bit 5 1, drop_bit 23 (inp ! 1) mod push_bit 5 1,
      drop_bit 28 (inp ! 1) OR push_bit (5 - 1) (inp ! 2 mod push_bit 1 1), drop_bit 1 (inp ! 2) mod push_bit 5 1,
      drop_bit 6 (inp ! 2) mod push_bit 5 1, drop_bit 11 (inp ! 2) mod push_bit 5 1,
      drop_bit 16 (inp ! 2) mod push_bit 5 1, drop_bit 21 (inp ! 2) mod push_bit 5 1,
      drop_bit 26 (inp ! 2) mod push_bit 5 1, drop_bit 31 (inp ! 2) OR push_bit (5 - 4) (inp ! 3 mod push_bit 4 1),
      drop_bit 4 (inp ! 3) mod push_bit 5 1, drop_bit 9 (inp ! 3) mod push_bit 5 1,
      drop_bit 14 (inp ! 3) mod push_bit 5 1, drop_bit 19 (inp ! 3) mod push_bit 5 1,
      drop_bit 24 (inp ! 3) mod push_bit 5 1, drop_bit 29 (inp ! 3) OR push_bit (5 - 2) (inp ! 4 mod push_bit 2 1),
      drop_bit 2 (inp ! 4) mod push_bit 5 1, drop_bit 7 (inp ! 4) mod push_bit 5 1,
      drop_bit 12 (inp ! 4) mod push_bit 5 1, drop_bit 17 (inp ! 4) mod push_bit 5 1,
      drop_bit 22 (inp ! 4) mod push_bit 5 1, drop_bit 27 (inp ! 4)], 5)"

definition fastunpack6_32 :: "u32 list \<Rightarrow> u32 list \<times> nat" where
  "fastunpack6_32 inp =
    ([drop_bit 0 (inp ! 0) mod push_bit 6 1, drop_bit 6 (inp ! 0) mod push_bit 6 1,
      drop_bit 12 (inp ! 0) mod push_bit 6 1, drop_bit 18 (inp ! 0) mod push_bit 6 1,
      drop_bit 24 (inp ! 0) mod push_bit 6 1, drop_bit 30 (inp ! 0) OR push_bit (6 - 4) (inp ! 1 mod push_bit 4 1),
      drop_bit 4 (inp ! 1) mod push_bit 6 1, drop_bit 10 (inp ! 1) mod push_bit 6 1,
      drop_bit 16 (inp ! 1) mod push_bit 6 1, drop_bit 22 (inp ! 1) mod push_bit 6 1,
      drop_bit 28 (inp ! 1) OR push_bit (6 - 2) (inp ! 2 mod push_bit 2 1), drop_bit 2 (inp ! 2) mod push_bit 6 1,
      drop_bit 8 (inp ! 2) mod push_bit 6 1, drop_bit 14 (inp ! 2) mod push_bit 6 1,
      drop_bit 20 (inp ! 2) mod push_bit 6 1, drop_bit 26 (inp ! 2), drop_bit 0 (inp ! 3) mod push_bit 6 1,
      drop_bit 6 (inp ! 3) mod push_bit 6 1, drop_bit 12 (inp ! 3) mod push_bit 6 1,
      drop_bit 18 (inp ! 3) mod push_bit 6 1, drop_bit 24 (inp ! 3) mod push_bit 6 1,
      drop_bit 30 (inp ! 3) OR push_bit (6 - 4) (inp ! 4 mod push_bit 4 1), drop_bit 4 (inp ! 4) mod push_bit 6 1,
      drop_bit 10 (inp ! 4) mod push_bit 6 1, drop_bit 16 (inp ! 4) mod push_bit 6 1,
      drop_bit 22 (inp ! 4) mod push_bit 6 1, drop_bit 28 (inp ! 4) OR push_bit (6 - 2) (inp ! 5 mod push_bit 2 1),
      drop_bit 2 (inp ! 5) mod push_bit 6 1, drop_bit 8 (inp ! 5) mod push_bit 6 1,
      drop_bit 14 (inp ! 5) mod push_bit 6 1, drop_bit 20 (inp ! 5) mod push_bit 6 1, drop_bit 26 (inp ! 5)], 6)"

definition fastunpack7_32 :: "u32 list \<Rightarrow> u32 list \<times> nat" where
  "fastunpack7_32 inp =
    ([drop_bit 0 (inp ! 0) mod push_bit 7 1, drop_bit 7 (inp ! 0) mod push_bit 7 1,
      drop_bit 14 (inp ! 0) mod push_bit 7 1, drop_bit 21 (inp ! 0) mod push_bit 7 1,
      drop_bit 28 (inp ! 0) OR push_bit (7 - 3) (inp ! 1 mod push_bit 3 1), drop_bit 3 (inp ! 1) mod push_bit 7 1,
      drop_bit 10 (inp ! 1) mod push_bit 7 1, drop_bit 17 (inp ! 1) mod push_bit 7 1,
      drop_bit 24 (inp ! 1) mod push_bit 7 1, drop_bit 31 (inp ! 1) OR push_bit (7 - 6) (inp ! 2 mod push_bit 6 1),
      drop_bit 6 (inp ! 2) mod push_bit 7 1, drop_bit 13 (inp ! 2) mod push_bit 7 1,
      drop_bit 20 (inp ! 2) mod push_bit 7 1, drop_bit 27 (inp ! 2) OR push_bit (7 - 2) (inp ! 3 mod push_bit 2 1),
      drop_bit 2 (inp ! 3) mod push_bit 7 1, drop_bit 9 (inp ! 3) mod push_bit 7 1,
      drop_bit 16 (inp ! 3) mod push_bit 7 1, drop_bit 23 (inp ! 3) mod push_bit 7 1,
      drop_bit 30 (inp ! 3) OR push_bit (7 - 5) (inp ! 4 mod push_bit 5 1), drop_bit 5 (inp ! 4) mod push_bit 7 1,
      drop_bit 12 (inp ! 4) mod push_bit 7 1, drop_bit 19 (inp ! 4) mod push_bit 7 1,
      drop_bit 26 (inp ! 4) OR push_bit (7 - 1) (inp ! 5 mod push_bit 1 1), drop_bit 1 (inp ! 5) mod push_bit 7 1,
      drop_bit 8 (inp ! 5) mod push_bit 7 1, drop_bit 15 (inp ! 5) mod push_bit 7 1,
      drop_bit 22 (inp ! 5) mod push_bit 7 1, drop_bit 29 (inp ! 5) OR push_bit (7 - 4) (inp ! 6 mod push_bit 4 1),
      drop_bit 4 (inp ! 6) mod push_bit 7 1, drop_bit 11 (inp ! 6) mod push_bit 7 1,
      drop_bit 18 (inp ! 6) mod push_bit 7 1, drop_bit 25 (inp ! 6)], 7)"

definition fastunpack8_32 :: "u32 list \<Rightarrow> u32 list \<times> nat" where
  "fastunpack8_32 inp =
    ([drop_bit 0 (inp ! 0) mod push_bit 8 1, drop_bit 8 (inp ! 0) mod push_bit 8 1,
      drop_bit 16 (inp ! 0) mod push_bit 8 1, drop_bit 24 (inp ! 0), drop_bit 0 (inp ! 1) mod push_bit 8 1,
      drop_bit 8 (inp ! 1) mod push_bit 8 1, drop_bit 16 (inp ! 1) mod push_bit 8 1, drop_bit 24 (inp ! 1),
      drop_bit 0 (inp ! 2) mod push_bit 8 1, drop_bit 8 (inp ! 2) mod push_bit 8 1,
      drop_bit 16 (inp ! 2) mod push_bit 8 1, drop_bit 24 (inp ! 2), drop_bit 0 (inp ! 3) mod push_bit 8 1,
      drop_bit 8 (inp ! 3) mod push_bit 8 1, drop_bit 16 (inp ! 3) mod push_bit 8 1, drop_bit 24 (inp ! 3),
      drop_bit 0 (inp ! 4) mod push_bit 8 1, drop_bit 8 (inp ! 4) mod push_bit 8 1,
      drop_bit 16 (inp ! 4) mod push_bit 8 1, drop_bit 24 (inp ! 4), drop_bit 0 (inp ! 5) mod push_bit 8 1,
      drop_bit 8 (inp ! 5) mod push_bit 8 1, drop_bit 16 (inp ! 5) mod push_bit 8 1, drop_bit 24 (inp ! 5),
      drop_bit 0 (inp ! 6) mod push_bit 8 1, drop_bit 8 (inp ! 6) mod push_bit 8 1,
      drop_bit 16 (inp ! 6) mod push_bit 8 1, drop_bit 24 (inp ! 6), drop_bit 0 (inp ! 7) mod push_bit 8 1,
      drop_bit 8 (inp ! 7) mod push_bit 8 1, drop_bit 16 (inp ! 7) mod push_bit 8 1, drop_bit 24 (inp ! 7)], 8)"

definition fastunpack9_32 :: "u32 list \<Rightarrow> u32 list \<times> nat" where
  "fastunpack9_32 inp =
    ([drop_bit 0 (inp ! 0) mod push_bit 9 1, drop_bit 9 (inp ! 0) mod push_bit 9 1,
      drop_bit 18 (inp ! 0) mod push_bit 9 1, drop_bit 27 (inp ! 0) OR push_bit (9 - 4) (inp ! 1 mod push_bit 4 1),
      drop_bit 4 (inp ! 1) mod push_bit 9 1, drop_bit 13 (inp ! 1) mod push_bit 9 1,
      drop_bit 22 (inp ! 1) mod push_bit 9 1, drop_bit 31 (inp ! 1) OR push_bit (9 - 8) (inp ! 2 mod push_bit 8 1),
      drop_bit 8 (inp ! 2) mod push_bit 9 1, drop_bit 17 (inp ! 2) mod push_bit 9 1,
      drop_bit 26 (inp ! 2) OR push_bit (9 - 3) (inp ! 3 mod push_bit 3 1), drop_bit 3 (inp ! 3) mod push_bit 9 1,
      drop_bit 12 (inp ! 3) mod push_bit 9 1, drop_bit 21 (inp ! 3) mod push_bit 9 1,
      drop_bit 30 (inp ! 3) OR push_bit (9 - 7) (inp ! 4 mod push_bit 7 1), drop_bit 7 (inp ! 4) mod push_bit 9 1,
      drop_bit 16 (inp ! 4) mod push_bit 9 1, drop_bit 25 (inp ! 4) OR push_bit (9 - 2) (inp ! 5 mod push_bit 2 1),
      drop_bit 2 (inp ! 5) mod push_bit 9 1, drop_bit 11 (inp ! 5) mod push_bit 9 1,
      drop_bit 20 (inp ! 5) mod push_bit 9 1, drop_bit 29 (inp ! 5) OR push_bit (9 - 6) (inp ! 6 mod push_bit 6 1),
      drop_bit 6 (inp ! 6) mod push_bit 9 1, drop_bit 15 (inp ! 6) mod push_bit 9 1,
      drop_bit 24 (inp ! 6) OR push_bit (9 - 1) (inp ! 7 mod push_bit 1 1), drop_bit 1 (inp ! 7) mod push_bit 9 1,
      drop_bit 10 (inp ! 7) mod push_bit 9 1, drop_bit 19 (inp ! 7) mod push_bit 9 1,
      drop_bit 28 (inp ! 7) OR push_bit (9 - 5) (inp ! 8 mod push_bit 5 1), drop_bit 5 (inp ! 8) mod push_bit 9 1,
      drop_bit 14 (inp ! 8) mod push_bit 9 1, drop_bit 23 (inp ! 8)], 9)"

definition fastunpack10_32 :: "u32 list \<Rightarrow> u32 list \<times> nat" where
  "fastunpack10_32 inp =
    ([drop_bit 0 (inp ! 0) mod push_bit 10 1, drop_bit 10 (inp ! 0) mod push_bit 10 1,
      drop_bit 20 (inp ! 0) mod push_bit 10 1, drop_bit 30 (inp ! 0) OR push_bit (10 - 8) (inp ! 1 mod push_bit 8 1),
      drop_bit 8 (inp ! 1) mod push_bit 10 1, drop_bit 18 (inp ! 1) mod push_bit 10 1,
      drop_bit 28 (inp ! 1) OR push_bit (10 - 6) (inp ! 2 mod push_bit 6 1), drop_bit 6 (inp ! 2) mod push_bit 10 1,
      drop_bit 16 (inp ! 2) mod push_bit 10 1, drop_bit 26 (inp ! 2) OR push_bit (10 - 4) (inp ! 3 mod push_bit 4 1),
      drop_bit 4 (inp ! 3) mod push_bit 10 1, drop_bit 14 (inp ! 3) mod push_bit 10 1,
      drop_bit 24 (inp ! 3) OR push_bit (10 - 2) (inp ! 4 mod push_bit 2 1), drop_bit 2 (inp ! 4) mod push_bit 10 1,
      drop_bit 12 (inp ! 4) mod push_bit 10 1, drop_bit 22 (inp ! 4), drop_bit 0 (inp ! 5) mod push_bit 10 1,
      drop_bit 10 (inp ! 5) mod push_bit 10 1, drop_bit 20 (inp ! 5) mod push_bit 10 1,
      drop_bit 30 (inp ! 5) OR push_bit (10 - 8) (inp ! 6 mod push_bit 8 1), drop_bit 8 (inp ! 6) mod push_bit 10 1,
      drop_bit 18 (inp ! 6) mod push_bit 10 1, drop_bit 28 (inp ! 6) OR push_bit (10 - 6) (inp ! 7 mod push_bit 6 1),
      drop_bit 6 (inp ! 7) mod push_bit 10 1, drop_bit 16 (inp ! 7) mod push_bit 10 1,
      drop_bit 26 (inp ! 7) OR push_bit (10 - 4) (inp ! 8 mod push_bit 4 1), drop_bit 4 (inp ! 8) mod push_bit 10 1,
      drop_bit 14 (inp ! 8) mod push_bit 10 1, drop_bit 24 (inp ! 8) OR push_bit (10 - 2) (inp ! 9 mod push_bit 2 1),
      drop_bit 2 (inp ! 9) mod push_bit 10 1, drop_bit 12 (inp ! 9) mod push_bit 10 1, drop_bit 22 (inp ! 9)], 10)"

definition fastunpack11_32 :: "u32 list \<Rightarrow> u32 list \<times> nat" where
  "fastunpack11_32 inp =
    ([drop_bit 0 (inp ! 0) mod push_bit 11 1, drop_bit 11 (inp ! 0) mod push_bit 11 1,
      drop_bit 22 (inp ! 0) OR push_bit (11 - 1) (inp ! 1 mod push_bit 1 1), drop_bit 1 (inp ! 1) mod push_bit 11 1,
      drop_bit 12 (inp ! 1) mod push_bit 11 1, drop_bit 23 (inp ! 1) OR push_bit (11 - 2) (inp ! 2 mod push_bit 2 1),
      drop_bit 2 (inp ! 2) mod push_bit 11 1, drop_bit 13 (inp ! 2) mod push_bit 11 1,
      drop_bit 24 (inp ! 2) OR push_bit (11 - 3) (inp ! 3 mod push_bit 3 1), drop_bit 3 (inp ! 3) mod push_bit 11 1,
      drop_bit 14 (inp ! 3) mod push_bit 11 1, drop_bit 25 (inp ! 3) OR push_bit (11 - 4) (inp ! 4 mod push_bit 4 1),
      drop_bit 4 (inp ! 4) mod push_bit 11 1, drop_bit 15 (inp ! 4) mod push_bit 11 1,
      drop_bit 26 (inp ! 4) OR push_bit (11 - 5) (inp ! 5 mod push_bit 5 1), drop_bit 5 (inp ! 5) mod push_bit 11 1,
      drop_bit 16 (inp ! 5) mod push_bit 11 1, drop_bit 27 (inp ! 5) OR push_bit (11 - 6) (inp ! 6 mod push_bit 6 1),
      drop_bit 6 (inp ! 6) mod push_bit 11 1, drop_bit 17 (inp ! 6) mod push_bit 11 1,
      drop_bit 28 (inp ! 6) OR push_bit (11 - 7) (inp ! 7 mod push_bit 7 1), drop_bit 7 (inp ! 7) mod push_bit 11 1,
      drop_bit 18 (inp ! 7) mod push_bit 11 1, drop_bit 29 (inp ! 7) OR push_bit (11 - 8) (inp ! 8 mod push_bit 8 1),
      drop_bit 8 (inp ! 8) mod push_bit 11 1, drop_bit 19 (inp ! 8) mod push_bit 11 1,
      drop_bit 30 (inp ! 8) OR push_bit (11 - 9) (inp ! 9 mod push_bit 9 1), drop_bit 9 (inp ! 9) mod push_bit 11 1,
      drop_bit 20 (inp ! 9) mod push_bit 11 1,
      drop_bit 31 (inp ! 9) OR push_bit (11 - 10) (inp ! 10 mod push_bit 10 1),
      drop_bit 10 (inp ! 10) mod push_bit 11 1, drop_bit 21 (inp ! 10)], 11)"

definition fastunpack12_32 :: "u32 list \<Rightarrow> u32 list \<times> nat" where
  "fastunpack12_32 inp =
    ([drop_bit 0 (inp ! 0) mod push_bit 12 1, drop_bit 12 (inp ! 0) mod push_bit 12 1,
      drop_bit 24 (inp ! 0) OR push_bit (12 - 4) (inp ! 1 mod push_bit 4 1), drop_bit 4 (inp ! 1) mod push_bit 12 1,
      drop_bit 16 (inp ! 1) mod push_bit 12 1, drop_bit 28 (inp ! 1) OR push_bit (12 - 8) (inp ! 2 mod push_bit 8 1),
      drop_bit 8 (inp ! 2) mod push_bit 12 1, drop_bit 20 (inp ! 2), drop_bit 0 (inp ! 3) mod push_bit 12 1,
      drop_bit 12 (inp ! 3) mod push_bit 12 1, drop_bit 24 (inp ! 3) OR push_bit (12 - 4) (inp ! 4 mod push_bit 4 1),
      drop_bit 4 (inp ! 4) mod push_bit 12 1, drop_bit 16 (inp ! 4) mod push_bit 12 1,
      drop_bit 28 (inp ! 4) OR push_bit (12 - 8) (inp ! 5 mod push_bit 8 1), drop_bit 8 (inp ! 5) mod push_bit 12 1,
      drop_bit 20 (inp ! 5), drop_bit 0 (inp ! 6) mod push_bit 12 1, drop_bit 12 (inp ! 6) mod push_bit 12 1,
      drop_bit 24 (inp ! 6) OR push_bit (12 - 4) (inp ! 7 mod push_bit 4 1), drop_bit 4 (inp ! 7) mod push_bit 12 1,
      drop_bit 16 (inp ! 7) mod push_bit 12 1, drop_bit 28 (inp ! 7) OR push_bit (12 - 8) (inp ! 8 mod push_bit 8 1),
      drop_bit 8 (inp ! 8) mod push_bit 12 1, drop_bit 20 (inp ! 8), drop_bit 0 (inp ! 9) mod push_bit 12 1,
      drop_bit 12 (inp ! 9) mod push_bit 12 1,
      drop_bit 24 (inp ! 9) OR push_bit (12 - 4) (inp ! 10 mod push_bit 4 1),
      drop_bit 4 (inp ! 10) mod push_bit 12 1, drop_bit 16 (inp ! 10) mod push_bit 12 1,
      drop_bit 28 (inp ! 10) OR push_bit (12 - 8) (inp ! 11 mod push_bit 8 1),
      drop_bit 8 (inp ! 11) mod push_bit 12 1, drop_bit 20 (inp ! 11)], 12)"

definition fastunpack13_32 :: "u32 list \<Rightarrow> u32 list \<times> nat" where
  "fastunpack13_32 inp =
    ([drop_bit 0 (inp ! 0) mod push_bit 13 1, drop_bit 13 (inp ! 0) mod push_bit 13 1,
      drop_bit 26 (inp ! 0) OR push_bit (13 - 7) (inp ! 1 mod push_bit 7 1), drop_bit 7 (inp ! 1) mod push_bit 13 1,
      drop_bit 20 (inp ! 1) OR push_bit (13 - 1) (inp ! 2 mod push_bit 1 1), drop_bit 1 (inp ! 2) mod push_bit 13 1,
      drop_bit 14 (inp ! 2) mod push_bit 13 1, drop_bit 27 (inp ! 2) OR push_bit (13 - 8) (inp ! 3 mod push_bit 8 1),
      drop_bit 8 (inp ! 3) mod push_bit 13 1, drop_bit 21 (inp ! 3) OR push_bit (13 - 2) (inp ! 4 mod push_bit 2 1),
      drop_bit 2 (inp ! 4) mod push_bit 13 1, drop_bit 15 (inp ! 4) mod push_bit 13 1,
      drop_bit 28 (inp ! 4) OR push_bit (13 - 9) (inp ! 5 mod push_bit 9 1), drop_bit 9 (inp ! 5) mod push_bit 13 1,
      drop_bit 22 (inp ! 5) OR push_bit (13 - 3) (inp ! 6 mod push_bit 3 1), drop_bit 3 (inp ! 6) mod push_bit 13 1,
      drop_bit 16 (inp ! 6) mod push_bit 13 1,
      drop_bit 29 (inp ! 6) OR push_bit (13 - 10) (inp ! 7 mod push_bit 10 1),
      drop_bit 10 (inp ! 7) mod push_bit 13 1, drop_bit 23 (inp ! 7) OR push_bit (13 - 4) (inp ! 8 mod push_bit 4 1),
      drop_bit 4 (inp ! 8) mod push_bit 13 1, drop_bit 17 (inp ! 8) mod push_bit 13 1,
      drop_bit 30 (inp ! 8) OR push_bit (13 - 11) (inp ! 9 mod push_bit 11 1),
      drop_bit 11 (inp ! 9) mod push_bit 13 1,
      drop_bit 24 (inp ! 9) OR push_bit (13 - 5) (inp ! 10 mod push_bit 5 1),
      drop_bit 5 (inp ! 10) mod push_bit 13 1, drop_bit 18 (inp ! 10) mod push_bit 13 1,
      drop_bit 31 (inp ! 10) OR push_bit (13 - 12) (inp ! 11 mod push_bit 12 1),
      drop_bit 12 (inp ! 11) mod push_bit 13 1,
      drop_bit 25 (inp ! 11) OR push_bit (13 - 6) (inp ! 12 mod push_bit 6 1),
      drop_bit 6 (inp ! 12) mod push_bit 13 1, drop_bit 19 (inp ! 12)], 13)"

definition fastunpack14_32 :: "u32 list \<Rightarrow> u32 list \<times> nat" where
  "fastunpack14_32 inp =
    ([drop_bit 0 (inp ! 0) mod push_bit 14 1, drop_bit 14 (inp ! 0) mod push_bit 14 1,
      drop_bit 28 (inp ! 0) OR push_bit (14 - 10) (inp ! 1 mod push_bit 10 1),
      drop_bit 10 (inp ! 1) mod push_bit 14 1, drop_bit 24 (inp ! 1) OR push_bit (14 - 6) (inp ! 2 mod push_bit 6 1),
      drop_bit 6 (inp ! 2) mod push_bit 14 1, drop_bit 20 (inp ! 2) OR push_bit (14 - 2) (inp ! 3 mod push_bit 2 1),
      drop_bit 2 (inp ! 3) mod push_bit 14 1, drop_bit 16 (inp ! 3) mod push_bit 14 1,
      drop_bit 30 (inp ! 3) OR push_bit (14 - 12) (inp ! 4 mod push_bit 12 1),
      drop_bit 12 (inp ! 4) mod push_bit 14 1, drop_bit 26 (inp ! 4) OR push_bit (14 - 8) (inp ! 5 mod push_bit 8 1),
      drop_bit 8 (inp ! 5) mod push_bit 14 1, drop_bit 22 (inp ! 5) OR push_bit (14 - 4) (inp ! 6 mod push_bit 4 1),
      drop_bit 4 (inp ! 6) mod push_bit 14 1, drop_bit 18 (inp ! 6), drop_bit 0 (inp ! 7) mod push_bit 14 1,
      drop_bit 14 (inp ! 7) mod push_bit 14 1,
      drop_bit 28 (inp ! 7) OR push_bit (14 - 10) (inp ! 8 mod push_bit 10 1),
      drop_bit 10 (inp ! 8) mod push_bit 14 1, drop_bit 24 (inp ! 8) OR push_bit (14 - 6) (inp ! 9 mod push_bit 6 1),
      drop_bit 6 (inp ! 9) mod push_bit 14 1, drop_bit 20 (inp ! 9) OR push_bit (14 - 2) (inp ! 10 mod push_bit 2 1),
      drop_bit 2 (inp ! 10) mod push_bit 14 1, drop_bit 16 (inp ! 10) mod push_bit 14 1,
      drop_bit 30 (inp ! 10) OR push_bit (14 - 12) (inp ! 11 mod push_bit 12 1),
      drop_bit 12 (inp ! 11) mod push_bit 14 1,
      drop_bit 26 (inp ! 11) OR push_bit (14 - 8) (inp ! 12 mod push_bit 8 1),
      drop_bit 8 (inp ! 12) mod push_bit 14 1,
      drop_bit 22 (inp ! 12) OR push_bit (14 - 4) (inp ! 13 mod push_bit 4 1),
      drop_bit 4 (inp ! 13) mod push_bit 14 1, drop_bit 18 (inp ! 13)], 14)"

definition fastunpack15_32 :: "u32 list \<Rightarrow> u32 list \<times> nat" where
  "fastunpack15_32 inp =
    ([drop_bit 0 (inp ! 0) mod push_bit 15 1, drop_bit 15 (inp ! 0) mod push_bit 15 1,
      drop_bit 30 (inp ! 0) OR push_bit (15 - 13) (inp ! 1 mod push_bit 13 1),
      drop_bit 13 (inp ! 1) mod push_bit 15 1,
      drop_bit 28 (inp ! 1) OR push_bit (15 - 11) (inp ! 2 mod push_bit 11 1),
      drop_bit 11 (inp ! 2) mod push_bit 15 1, drop_bit 26 (inp ! 2) OR push_bit (15 - 9) (inp ! 3 mod push_bit 9 1),
      drop_bit 9 (inp ! 3) mod push_bit 15 1, drop_bit 24 (inp ! 3) OR push_bit (15 - 7) (inp ! 4 mod push_bit 7 1),
      drop_bit 7 (inp ! 4) mod push_bit 15 1, drop_bit 22 (inp ! 4) OR push_bit (15 - 5) (inp ! 5 mod push_bit 5 1),
      drop_bit 5 (inp ! 5) mod push_bit 15 1, drop_bit 20 (inp ! 5) OR push_bit (15 - 3) (inp ! 6 mod push_bit 3 1),
      drop_bit 3 (inp ! 6) mod push_bit 15 1, drop_bit 18 (inp ! 6) OR push_bit (15 - 1) (inp ! 7 mod push_bit 1 1),
      drop_bit 1 (inp ! 7) mod push_bit 15 1, drop_bit 16 (inp ! 7) mod push_bit 15 1,
      drop_bit 31 (inp ! 7) OR push_bit (15 - 14) (inp ! 8 mod push_bit 14 1),
      drop_bit 14 (inp ! 8) mod push_bit 15 1,
      drop_bit 29 (inp ! 8) OR push_bit (15 - 12) (inp ! 9 mod push_bit 12 1),
      drop_bit 12 (inp ! 9) mod push_bit 15 1,
      drop_bit 27 (inp ! 9) OR push_bit (15 - 10) (inp ! 10 mod push_bit 10 1),
      drop_bit 10 (inp ! 10) mod push_bit 15 1,
      drop_bit 25 (inp ! 10) OR push_bit (15 - 8) (inp ! 11 mod push_bit 8 1),
      drop_bit 8 (inp ! 11) mod push_bit 15 1,
      drop_bit 23 (inp ! 11) OR push_bit (15 - 6) (inp ! 12 mod push_bit 6 1),
      drop_bit 6 (inp ! 12) mod push_bit 15 1,
      drop_bit 21 (inp ! 12) OR push_bit (15 - 4) (inp ! 13 mod push_bit 4 1),
      drop_bit 4 (inp ! 13) mod push_bit 15 1,
      drop_bit 19 (inp ! 13) OR push_bit (15 - 2) (inp ! 14 mod push_bit 2 1),
      drop_bit 2 (inp ! 14) mod push_bit 15 1, drop_bit 17 (inp ! 14)], 15)"

definition fastunpack16_32 :: "u32 list \<Rightarrow> u32 list \<times> nat" where
  "fastunpack16_32 inp =
    ([drop_bit 0 (inp ! 0) mod push_bit 16 1, drop_bit 16 (inp ! 0), drop_bit 0 (inp ! 1) mod push_bit 16 1,
      drop_bit 16 (inp ! 1), drop_bit 0 (inp ! 2) mod push_bit 16 1, drop_bit 16 (inp ! 2),
      drop_bit 0 (inp ! 3) mod push_bit 16 1, drop_bit 16 (inp ! 3), drop_bit 0 (inp ! 4) mod push_bit 16 1,
      drop_bit 16 (inp ! 4), drop_bit 0 (inp ! 5) mod push_bit 16 1, drop_bit 16 (inp ! 5),
      drop_bit 0 (inp ! 6) mod push_bit 16 1, drop_bit 16 (inp ! 6), drop_bit 0 (inp ! 7) mod push_bit 16 1,
      drop_bit 16 (inp ! 7), drop_bit 0 (inp ! 8) mod push_bit 16 1, drop_bit 16 (inp ! 8),
      drop_bit 0 (inp ! 9) mod push_bit 16 1, drop_bit 16 (inp ! 9), drop_bit 0 (inp ! 10) mod push_bit 16 1,
      drop_bit 16 (inp ! 10), drop_bit 0 (inp ! 11) mod push_bit 16 1, drop_bit 16 (inp ! 11),
      drop_bit 0 (inp ! 12) mod push_bit 16 1, drop_bit 16 (inp ! 12), drop_bit 0 (inp ! 13) mod push_bit 16 1,
      drop_bit 16 (inp ! 13), drop_bit 0 (inp ! 14) mod push_bit 16 1, drop_bit 16 (inp ! 14),
      drop_bit 0 (inp ! 15) mod push_bit 16 1, drop_bit 16 (inp ! 15)], 16)"

definition fastunpack17_32 :: "u32 list \<Rightarrow> u32 list \<times> nat" where
  "fastunpack17_32 inp =
    ([drop_bit 0 (inp ! 0) mod push_bit 17 1, drop_bit 17 (inp ! 0) OR push_bit (17 - 2) (inp ! 1 mod push_bit 2 1),
      drop_bit 2 (inp ! 1) mod push_bit 17 1, drop_bit 19 (inp ! 1) OR push_bit (17 - 4) (inp ! 2 mod push_bit 4 1),
      drop_bit 4 (inp ! 2) mod push_bit 17 1, drop_bit 21 (inp ! 2) OR push_bit (17 - 6) (inp ! 3 mod push_bit 6 1),
      drop_bit 6 (inp ! 3) mod push_bit 17 1, drop_bit 23 (inp ! 3) OR push_bit (17 - 8) (inp ! 4 mod push_bit 8 1),
      drop_bit 8 (inp ! 4) mod push_bit 17 1,
      drop_bit 25 (inp ! 4) OR push_bit (17 - 10) (inp ! 5 mod push_bit 10 1),
      drop_bit 10 (inp ! 5) mod push_bit 17 1,
      drop_bit 27 (inp ! 5) OR push_bit (17 - 12) (inp ! 6 mod push_bit 12 1),
      drop_bit 12 (inp ! 6) mod push_bit 17 1,
      drop_bit 29 (inp ! 6) OR push_bit (17 - 14) (inp ! 7 mod push_bit 14 1),
      drop_bit 14 (inp ! 7) mod push_bit 17 1,
      drop_bit 31 (inp ! 7) OR push_bit (17 - 16) (inp ! 8 mod push_bit 16 1),
      drop_bit 16 (inp ! 8) OR push_bit (17 - 1) (inp ! 9 mod push_bit 1 1), drop_bit 1 (inp ! 9) mod push_bit 17 1,
      drop_bit 18 (inp ! 9) OR push_bit (17 - 3) (inp ! 10 mod push_bit 3 1),
      drop_bit 3 (inp ! 10) mod push_bit 17 1,
      drop_bit 20 (inp ! 10) OR push_bit (17 - 5) (inp ! 11 mod push_bit 5 1),
      drop_bit 5 (inp ! 11) mod push_bit 17 1,
      drop_bit 22 (inp ! 11) OR push_bit (17 - 7) (inp ! 12 mod push_bit 7 1),
      drop_bit 7 (inp ! 12) mod push_bit 17 1,
      drop_bit 24 (inp ! 12) OR push_bit (17 - 9) (inp ! 13 mod push_bit 9 1),
      drop_bit 9 (inp ! 13) mod push_bit 17 1,
      drop_bit 26 (inp ! 13) OR push_bit (17 - 11) (inp ! 14 mod push_bit 11 1),
      drop_bit 11 (inp ! 14) mod push_bit 17 1,
      drop_bit 28 (inp ! 14) OR push_bit (17 - 13) (inp ! 15 mod push_bit 13 1),
      drop_bit 13 (inp ! 15) mod push_bit 17 1,
      drop_bit 30 (inp ! 15) OR push_bit (17 - 15) (inp ! 16 mod push_bit 15 1), drop_bit 15 (inp ! 16)], 17)"

definition fastunpack18_32 :: "u32 list \<Rightarrow> u32 list \<times> nat" where
  "fastunpack18_32 inp =
    ([drop_bit 0 (inp ! 0) mod push_bit 18 1, drop_bit 18 (inp ! 0) OR push_bit (18 - 4) (inp ! 1 mod push_bit 4 1),
      drop_bit 4 (inp ! 1) mod push_bit 18 1, drop_bit 22 (inp ! 1) OR push_bit (18 - 8) (inp ! 2 mod push_bit 8 1),
      drop_bit 8 (inp ! 2) mod push_bit 18 1,
      drop_bit 26 (inp ! 2) OR push_bit (18 - 12) (inp ! 3 mod push_bit 12 1),
      drop_bit 12 (inp ! 3) mod push_bit 18 1,
      drop_bit 30 (inp ! 3) OR push_bit (18 - 16) (inp ! 4 mod push_bit 16 1),
      drop_bit 16 (inp ! 4) OR push_bit (18 - 2) (inp ! 5 mod push_bit 2 1), drop_bit 2 (inp ! 5) mod push_bit 18 1,
      drop_bit 20 (inp ! 5) OR push_bit (18 - 6) (inp ! 6 mod push_bit 6 1), drop_bit 6 (inp ! 6) mod push_bit 18 1,
      drop_bit 24 (inp ! 6) OR push_bit (18 - 10) (inp ! 7 mod push_bit 10 1),
      drop_bit 10 (inp ! 7) mod push_bit 18 1,
      drop_bit 28 (inp ! 7) OR push_bit (18 - 14) (inp ! 8 mod push_bit 14 1), drop_bit 14 (inp ! 8),
      drop_bit 0 (inp ! 9) mod push_bit 18 1, drop_bit 18 (inp ! 9) OR push_bit (18 - 4) (inp ! 10 mod push_bit 4 1),
      drop_bit 4 (inp ! 10) mod push_bit 18 1,
      drop_bit 22 (inp ! 10) OR push_bit (18 - 8) (inp ! 11 mod push_bit 8 1),
      drop_bit 8 (inp ! 11) mod push_bit 18 1,
      drop_bit 26 (inp ! 11) OR push_bit (18 - 12) (inp ! 12 mod push_bit 12 1),
      drop_bit 12 (inp ! 12) mod push_bit 18 1,
      drop_bit 30 (inp ! 12) OR push_bit (18 - 16) (inp ! 13 mod push_bit 16 1),
      drop_bit 16 (inp ! 13) OR push_bit (18 - 2) (inp ! 14 mod push_bit 2 1),
      drop_bit 2 (inp ! 14) mod push_bit 18 1,
      drop_bit 20 (inp ! 14) OR push_bit (18 - 6) (inp ! 15 mod push_bit 6 1),
      drop_bit 6 (inp ! 15) mod push_bit 18 1,
      drop_bit 24 (inp ! 15) OR push_bit (18 - 10) (inp ! 16 mod push_bit 10 1),
      drop_bit 10 (inp ! 16) mod push_bit 18 1,
      drop_bit 28 (inp ! 16) OR push_bit (18 - 14) (inp ! 17 mod push_bit 14 1), drop_bit 14 (inp ! 17)], 18)"

definition fastunpack19_32 :: "u32 list \<Rightarrow> u32 list \<times> nat" where
  "fastunpack19_32 inp =
    ([drop_bit 0 (inp ! 0) mod push_bit 19 1, drop_bit 19 (inp ! 0) OR push_bit (19 - 6) (inp ! 1 mod push_bit 6 1),
      drop_bit 6 (inp ! 1) mod push_bit 19 1,
      drop_bit 25 (inp ! 1) OR push_bit (19 - 12) (inp ! 2 mod push_bit 12 1),
      drop_bit 12 (inp ! 2) mod push_bit 19 1,
      drop_bit 31 (inp ! 2) OR push_bit (19 - 18) (inp ! 3 mod push_bit 18 1),
      drop_bit 18 (inp ! 3) OR push_bit (19 - 5) (inp ! 4 mod push_bit 5 1), drop_bit 5 (inp ! 4) mod push_bit 19 1,
      drop_bit 24 (inp ! 4) OR push_bit (19 - 11) (inp ! 5 mod push_bit 11 1),
      drop_bit 11 (inp ! 5) mod push_bit 19 1,
      drop_bit 30 (inp ! 5) OR push_bit (19 - 17) (inp ! 6 mod push_bit 17 1),
      drop_bit 17 (inp ! 6) OR push_bit (19 - 4) (inp ! 7 mod push_bit 4 1), drop_bit 4 (inp ! 7) mod push_bit 19 1,
      drop_bit 23 (inp ! 7) OR push_bit (19 - 10) (inp ! 8 mod push_bit 10 1),
      drop_bit 10 (inp ! 8) mod push_bit 19 1,
      drop_bit 29 (inp ! 8) OR push_bit (19 - 16) (inp ! 9 mod push_bit 16 1),
      drop_bit 16 (inp ! 9) OR push_bit (19 - 3) (inp ! 10 mod push_bit 3 1),
      drop_bit 3 (inp ! 10) mod push_bit 19 1,
      drop_bit 22 (inp ! 10) OR push_bit (19 - 9) (inp ! 11 mod push_bit 9 1),
      drop_bit 9 (inp ! 11) mod push_bit 19 1,
      drop_bit 28 (inp ! 11) OR push_bit (19 - 15) (inp ! 12 mod push_bit 15 1),
      drop_bit 15 (inp ! 12) OR push_bit (19 - 2) (inp ! 13 mod push_bit 2 1),
      drop_bit 2 (inp ! 13) mod push_bit 19 1,
      drop_bit 21 (inp ! 13) OR push_bit (19 - 8) (inp ! 14 mod push_bit 8 1),
      drop_bit 8 (inp ! 14) mod push_bit 19 1,
      drop_bit 27 (inp ! 14) OR push_bit (19 - 14) (inp ! 15 mod push_bit 14 1),
      drop_bit 14 (inp ! 15) OR push_bit (19 - 1) (inp ! 16 mod push_bit 1 1),
      drop_bit 1 (inp ! 16) mod push_bit 19 1,
      drop_bit 20 (inp ! 16) OR push_bit (19 - 7) (inp ! 17 mod push_bit 7 1),
      drop_bit 7 (inp ! 17) mod push_bit 19 1,
      drop_bit 26 (inp ! 17) OR push_bit (19 - 13) (inp ! 18 mod push_bit 13 1), drop_bit 13 (inp ! 18)], 19)"

definition fastunpack20_32 :: "u32 list \<Rightarrow> u32 list \<times> nat" where
  "fastunpack20_32 inp =
    ([drop_bit 0 (inp ! 0) mod push_bit 20 1, drop_bit 20 (inp ! 0) OR push_bit (20 - 8) (inp ! 1 mod push_bit 8 1),
      drop_bit 8 (inp ! 1) mod push_bit 20 1,
      drop_bit 28 (inp ! 1) OR push_bit (20 - 16) (inp ! 2 mod push_bit 16 1),
      drop_bit 16 (inp ! 2) OR push_bit (20 - 4) (inp ! 3 mod push_bit 4 1), drop_bit 4 (inp ! 3) mod push_bit 20 1,
      drop_bit 24 (inp ! 3) OR push_bit (20 - 12) (inp ! 4 mod push_bit 12 1), drop_bit 12 (inp ! 4),
      drop_bit 0 (inp ! 5) mod push_bit 20 1, drop_bit 20 (inp ! 5) OR push_bit (20 - 8) (inp ! 6 mod push_bit 8 1),
      drop_bit 8 (inp ! 6) mod push_bit 20 1,
      drop_bit 28 (inp ! 6) OR push_bit (20 - 16) (inp ! 7 mod push_bit 16 1),
      drop_bit 16 (inp ! 7) OR push_bit (20 - 4) (inp ! 8 mod push_bit 4 1), drop_bit 4 (inp ! 8) mod push_bit 20 1,
      drop_bit 24 (inp ! 8) OR push_bit (20 - 12) (inp ! 9 mod push_bit 12 1), drop_bit 12 (inp ! 9),
      drop_bit 0 (inp ! 10) mod push_bit 20 1,
      drop_bit 20 (inp ! 10) OR push_bit (20 - 8) (inp ! 11 mod push_bit 8 1),
      drop_bit 8 (inp ! 11) mod push_bit 20 1,
      drop_bit 28 (inp ! 11) OR push_bit (20 - 16) (inp ! 12 mod push_bit 16 1),
      drop_bit 16 (inp ! 12) OR push_bit (20 - 4) (inp ! 13 mod push_bit 4 1),
      drop_bit 4 (inp ! 13) mod push_bit 20 1,
      drop_bit 24 (inp ! 13) OR push_bit (20 - 12) (inp ! 14 mod push_bit 12 1), drop_bit 12 (inp ! 14),
      drop_bit 0 (inp ! 15) mod push_bit 20 1,
      drop_bit 20 (inp ! 15) OR push_bit (20 - 8) (inp ! 16 mod push_bit 8 1),
      drop_bit 8 (inp ! 16) mod push_bit 20 1,
      drop_bit 28 (inp ! 16) OR push_bit (20 - 16) (inp ! 17 mod push_bit 16 1),
      drop_bit 16 (inp ! 17) OR push_bit (20 - 4) (inp ! 18 mod push_bit 4 1),
      drop_bit 4 (inp ! 18) mod push_bit 20 1,
      drop_bit 24 (inp ! 18) OR push_bit (20 - 12) (inp ! 19 mod push_bit 12 1), drop_bit 12 (inp ! 19)], 20)"

definition fastunpack21_32 :: "u32 list \<Rightarrow> u32 list \<times> nat" where
  "fastunpack21_32 inp =
    ([drop_bit 0 (inp ! 0) mod push_bit 21 1,
      drop_bit 21 (inp ! 0) OR push_bit (21 - 10) (inp ! 1 mod push_bit 10 1),
      drop_bit 10 (inp ! 1) mod push_bit 21 1,
      drop_bit 31 (inp ! 1) OR push_bit (21 - 20) (inp ! 2 mod push_bit 20 1),
      drop_bit 20 (inp ! 2) OR push_bit (21 - 9) (inp ! 3 mod push_bit 9 1), drop_bit 9 (inp ! 3) mod push_bit 21 1,
      drop_bit 30 (inp ! 3) OR push_bit (21 - 19) (inp ! 4 mod push_bit 19 1),
      drop_bit 19 (inp ! 4) OR push_bit (21 - 8) (inp ! 5 mod push_bit 8 1), drop_bit 8 (inp ! 5) mod push_bit 21 1,
      drop_bit 29 (inp ! 5) OR push_bit (21 - 18) (inp ! 6 mod push_bit 18 1),
      drop_bit 18 (inp ! 6) OR push_bit (21 - 7) (inp ! 7 mod push_bit 7 1), drop_bit 7 (inp ! 7) mod push_bit 21 1,
      drop_bit 28 (inp ! 7) OR push_bit (21 - 17) (inp ! 8 mod push_bit 17 1),
      drop_bit 17 (inp ! 8) OR push_bit (21 - 6) (inp ! 9 mod push_bit 6 1), drop_bit 6 (inp ! 9) mod push_bit 21 1,
      drop_bit 27 (inp ! 9) OR push_bit (21 - 16) (inp ! 10 mod push_bit 16 1),
      drop_bit 16 (inp ! 10) OR push_bit (21 - 5) (inp ! 11 mod push_bit 5 1),
      drop_bit 5 (inp ! 11) mod push_bit 21 1,
      drop_bit 26 (inp ! 11) OR push_bit (21 - 15) (inp ! 12 mod push_bit 15 1),
      drop_bit 15 (inp ! 12) OR push_bit (21 - 4) (inp ! 13 mod push_bit 4 1),
      drop_bit 4 (inp ! 13) mod push_bit 21 1,
      drop_bit 25 (inp ! 13) OR push_bit (21 - 14) (inp ! 14 mod push_bit 14 1),
      drop_bit 14 (inp ! 14) OR push_bit (21 - 3) (inp ! 15 mod push_bit 3 1),
      drop_bit 3 (inp ! 15) mod push_bit 21 1,
      drop_bit 24 (inp ! 15) OR push_bit (21 - 13) (inp ! 16 mod push_bit 13 1),
      drop_bit 13 (inp ! 16) OR push_bit (21 - 2) (inp ! 17 mod push_bit 2 1),
      drop_bit 2 (inp ! 17) mod push_bit 21 1,
      drop_bit 23 (inp ! 17) OR push_bit (21 - 12) (inp ! 18 mod push_bit 12 1),
      drop_bit 12 (inp ! 18) OR push_bit (21 - 1) (inp ! 19 mod push_bit 1 1),
      drop_bit 1 (inp ! 19) mod push_bit 21 1,
      drop_bit 22 (inp ! 19) OR push_bit (21 - 11) (inp ! 20 mod push_bit 11 1), drop_bit 11 (inp ! 20)], 21)"

definition fastunpack22_32 :: "u32 list \<Rightarrow> u32 list \<times> nat" where
  "fastunpack22_32 inp =
    ([drop_bit 0 (inp ! 0) mod push_bit 22 1,
      drop_bit 22 (inp ! 0) OR push_bit (22 - 12) (inp ! 1 mod push_bit 12 1),
      drop_bit 12 (inp ! 1) OR push_bit (22 - 2) (inp ! 2 mod push_bit 2 1), drop_bit 2 (inp ! 2) mod push_bit 22 1,
      drop_bit 24 (inp ! 2) OR push_bit (22 - 14) (inp ! 3 mod push_bit 14 1),
      drop_bit 14 (inp ! 3) OR push_bit (22 - 4) (inp ! 4 mod push_bit 4 1), drop_bit 4 (inp ! 4) mod push_bit 22 1,
      drop_bit 26 (inp ! 4) OR push_bit (22 - 16) (inp ! 5 mod push_bit 16 1),
      drop_bit 16 (inp ! 5) OR push_bit (22 - 6) (inp ! 6 mod push_bit 6 1), drop_bit 6 (inp ! 6) mod push_bit 22 1,
      drop_bit 28 (inp ! 6) OR push_bit (22 - 18) (inp ! 7 mod push_bit 18 1),
      drop_bit 18 (inp ! 7) OR push_bit (22 - 8) (inp ! 8 mod push_bit 8 1), drop_bit 8 (inp ! 8) mod push_bit 22 1,
      drop_bit 30 (inp ! 8) OR push_bit (22 - 20) (inp ! 9 mod push_bit 20 1),
      drop_bit 20 (inp ! 9) OR push_bit (22 - 10) (inp ! 10 mod push_bit 10 1), drop_bit 10 (inp ! 10),
      drop_bit 0 (inp ! 11) mod push_bit 22 1,
      drop_bit 22 (inp ! 11) OR push_bit (22 - 12) (inp ! 12 mod push_bit 12 1),
      drop_bit 12 (inp ! 12) OR push_bit (22 - 2) (inp ! 13 mod push_bit 2 1),
      drop_bit 2 (inp ! 13) mod push_bit 22 1,
      drop_bit 24 (inp ! 13) OR push_bit (22 - 14) (inp ! 14 mod push_bit 14 1),
      drop_bit 14 (inp ! 14) OR push_bit (22 - 4) (inp ! 15 mod push_bit 4 1),
      drop_bit 4 (inp ! 15) mod push_bit 22 1,
      drop_bit 26 (inp ! 15) OR push_bit (22 - 16) (inp ! 16 mod push_bit 16 1),
      drop_bit 16 (inp ! 16) OR push_bit (22 - 6) (inp ! 17 mod push_bit 6 1),
      drop_bit 6 (inp ! 17) mod push_bit 22 1,
      drop_bit 28 (inp ! 17) OR push_bit (22 - 18) (inp ! 18 mod push_bit 18 1),
      drop_bit 18 (inp ! 18) OR push_bit (22 - 8) (inp ! 19 mod push_bit 8 1),
      drop_bit 8 (inp ! 19) mod push_bit 22 1,
      drop_bit 30 (inp ! 19) OR push_bit (22 - 20) (inp ! 20 mod push_bit 20 1),
      drop_bit 20 (inp ! 20) OR push_bit (22 - 10) (inp ! 21 mod push_bit 10 1), drop_bit 10 (inp ! 21)], 22)"

definition fastunpack23_32 :: "u32 list \<Rightarrow> u32 list \<times> nat" where
  "fastunpack23_32 inp =
    ([drop_bit 0 (inp ! 0) mod push_bit 23 1,
      drop_bit 23 (inp ! 0) OR push_bit (23 - 14) (inp ! 1 mod push_bit 14 1),
      drop_bit 14 (inp ! 1) OR push_bit (23 - 5) (inp ! 2 mod push_bit 5 1), drop_bit 5 (inp ! 2) mod push_bit 23 1,
      drop_bit 28 (inp ! 2) OR push_bit (23 - 19) (inp ! 3 mod push_bit 19 1),
      drop_bit 19 (inp ! 3) OR push_bit (23 - 10) (inp ! 4 mod push_bit 10 1),
      drop_bit 10 (inp ! 4) OR push_bit (23 - 1) (inp ! 5 mod push_bit 1 1), drop_bit 1 (inp ! 5) mod push_bit 23 1,
      drop_bit 24 (inp ! 5) OR push_bit (23 - 15) (inp ! 6 mod push_bit 15 1),
      drop_bit 15 (inp ! 6) OR push_bit (23 - 6) (inp ! 7 mod push_bit 6 1), drop_bit 6 (inp ! 7) mod push_bit 23 1,
      drop_bit 29 (inp ! 7) OR push_bit (23 - 20) (inp ! 8 mod push_bit 20 1),
      drop_bit 20 (inp ! 8) OR push_bit (23 - 11) (inp ! 9 mod push_bit 11 1),
      drop_bit 11 (inp ! 9) OR push_bit (23 - 2) (inp ! 10 mod push_bit 2 1),
      drop_bit 2 (inp ! 10) mod push_bit 23 1,
      drop_bit 25 (inp ! 10) OR push_bit (23 - 16) (inp ! 11 mod push_bit 16 1),
      drop_bit 16 (inp ! 11) OR push_bit (23 - 7) (inp ! 12 mod push_bit 7 1),
      drop_bit 7 (inp ! 12) mod push_bit 23 1,
      drop_bit 30 (inp ! 12) OR push_bit (23 - 21) (inp ! 13 mod push_bit 21 1),
      drop_bit 21 (inp ! 13) OR push_bit (23 - 12) (inp ! 14 mod push_bit 12 1),
      drop_bit 12 (inp ! 14) OR push_bit (23 - 3) (inp ! 15 mod push_bit 3 1),
      drop_bit 3 (inp ! 15) mod push_bit 23 1,
      drop_bit 26 (inp ! 15) OR push_bit (23 - 17) (inp ! 16 mod push_bit 17 1),
      drop_bit 17 (inp ! 16) OR push_bit (23 - 8) (inp ! 17 mod push_bit 8 1),
      drop_bit 8 (inp ! 17) mod push_bit 23 1,
      drop_bit 31 (inp ! 17) OR push_bit (23 - 22) (inp ! 18 mod push_bit 22 1),
      drop_bit 22 (inp ! 18) OR push_bit (23 - 13) (inp ! 19 mod push_bit 13 1),
      drop_bit 13 (inp ! 19) OR push_bit (23 - 4) (inp ! 20 mod push_bit 4 1),
      drop_bit 4 (inp ! 20) mod push_bit 23 1,
      drop_bit 27 (inp ! 20) OR push_bit (23 - 18) (inp ! 21 mod push_bit 18 1),
      drop_bit 18 (inp ! 21) OR push_bit (23 - 9) (inp ! 22 mod push_bit 9 1), drop_bit 9 (inp ! 22)], 23)"

definition fastunpack24_32 :: "u32 list \<Rightarrow> u32 list \<times> nat" where
  "fastunpack24_32 inp =
    ([drop_bit 0 (inp ! 0) mod push_bit 24 1,
      drop_bit 24 (inp ! 0) OR push_bit (24 - 16) (inp ! 1 mod push_bit 16 1),
      drop_bit 16 (inp ! 1) OR push_bit (24 - 8) (inp ! 2 mod push_bit 8 1), drop_bit 8 (inp ! 2),
      drop_bit 0 (inp ! 3) mod push_bit 24 1,
      drop_bit 24 (inp ! 3) OR push_bit (24 - 16) (inp ! 4 mod push_bit 16 1),
      drop_bit 16 (inp ! 4) OR push_bit (24 - 8) (inp ! 5 mod push_bit 8 1), drop_bit 8 (inp ! 5),
      drop_bit 0 (inp ! 6) mod push_bit 24 1,
      drop_bit 24 (inp ! 6) OR push_bit (24 - 16) (inp ! 7 mod push_bit 16 1),
      drop_bit 16 (inp ! 7) OR push_bit (24 - 8) (inp ! 8 mod push_bit 8 1), drop_bit 8 (inp ! 8),
      drop_bit 0 (inp ! 9) mod push_bit 24 1,
      drop_bit 24 (inp ! 9) OR push_bit (24 - 16) (inp ! 10 mod push_bit 16 1),
      drop_bit 16 (inp ! 10) OR push_bit (24 - 8) (inp ! 11 mod push_bit 8 1), drop_bit 8 (inp ! 11),
      drop_bit 0 (inp ! 12) mod push_bit 24 1,
      drop_bit 24 (inp ! 12) OR push_bit (24 - 16) (inp ! 13 mod push_bit 16 1),
      drop_bit 16 (inp ! 13) OR push_bit (24 - 8) (inp ! 14 mod push_bit 8 1), drop_bit 8 (inp ! 14),
      drop_bit 0 (inp ! 15) mod push_bit 24 1,
      drop_bit 24 (inp ! 15) OR push_bit (24 - 16) (inp ! 16 mod push_bit 16 1),
      drop_bit 16 (inp ! 16) OR push_bit (24 - 8) (inp ! 17 mod push_bit 8 1), drop_bit 8 (inp ! 17),
      drop_bit 0 (inp ! 18) mod push_bit 24 1,
      drop_bit 24 (inp ! 18) OR push_bit (24 - 16) (inp ! 19 mod push_bit 16 1),
      drop_bit 16 (inp ! 19) OR push_bit (24 - 8) (inp ! 20 mod push_bit 8 1), drop_bit 8 (inp ! 20),
      drop_bit 0 (inp ! 21) mod push_bit 24 1,
      drop_bit 24 (inp ! 21) OR push_bit (24 - 16) (inp ! 22 mod push_bit 16 1),
      drop_bit 16 (inp ! 22) OR push_bit (24 - 8) (inp ! 23 mod push_bit 8 1), drop_bit 8 (inp ! 23)], 24)"

definition fastunpack25_32 :: "u32 list \<Rightarrow> u32 list \<times> nat" where
  "fastunpack25_32 inp =
    ([drop_bit 0 (inp ! 0) mod push_bit 25 1,
      drop_bit 25 (inp ! 0) OR push_bit (25 - 18) (inp ! 1 mod push_bit 18 1),
      drop_bit 18 (inp ! 1) OR push_bit (25 - 11) (inp ! 2 mod push_bit 11 1),
      drop_bit 11 (inp ! 2) OR push_bit (25 - 4) (inp ! 3 mod push_bit 4 1), drop_bit 4 (inp ! 3) mod push_bit 25 1,
      drop_bit 29 (inp ! 3) OR push_bit (25 - 22) (inp ! 4 mod push_bit 22 1),
      drop_bit 22 (inp ! 4) OR push_bit (25 - 15) (inp ! 5 mod push_bit 15 1),
      drop_bit 15 (inp ! 5) OR push_bit (25 - 8) (inp ! 6 mod push_bit 8 1),
      drop_bit 8 (inp ! 6) OR push_bit (25 - 1) (inp ! 7 mod push_bit 1 1), drop_bit 1 (inp ! 7) mod push_bit 25 1,
      drop_bit 26 (inp ! 7) OR push_bit (25 - 19) (inp ! 8 mod push_bit 19 1),
      drop_bit 19 (inp ! 8) OR push_bit (25 - 12) (inp ! 9 mod push_bit 12 1),
      drop_bit 12 (inp ! 9) OR push_bit (25 - 5) (inp ! 10 mod push_bit 5 1),
      drop_bit 5 (inp ! 10) mod push_bit 25 1,
      drop_bit 30 (inp ! 10) OR push_bit (25 - 23) (inp ! 11 mod push_bit 23 1),
      drop_bit 23 (inp ! 11) OR push_bit (25 - 16) (inp ! 12 mod push_bit 16 1),
      drop_bit 16 (inp ! 12) OR push_bit (25 - 9) (inp ! 13 mod push_bit 9 1),
      drop_bit 9 (inp ! 13) OR push_bit (25 - 2) (inp ! 14 mod push_bit 2 1),
      drop_bit 2 (inp ! 14) mod push_bit 25 1,
      drop_bit 27 (inp ! 14) OR push_bit (25 - 20) (inp ! 15 mod push_bit 20 1),
      drop_bit 20 (inp ! 15) OR push_bit (25 - 13) (inp ! 16 mod push_bit 13 1),
      drop_bit 13 (inp ! 16) OR push_bit (25 - 6) (inp ! 17 mod push_bit 6 1),
      drop_bit 6 (inp ! 17) mod push_bit 25 1,
      drop_bit 31 (inp ! 17) OR push_bit (25 - 24) (inp ! 18 mod push_bit 24 1),
      drop_bit 24 (inp ! 18) OR push_bit (25 - 17) (inp ! 19 mod push_bit 17 1),
      drop_bit 17 (inp ! 19) OR push_bit (25 - 10) (inp ! 20 mod push_bit 10 1),
      drop_bit 10 (inp ! 20) OR push_bit (25 - 3) (inp ! 21 mod push_bit 3 1),
      drop_bit 3 (inp ! 21) mod push_bit 25 1,
      drop_bit 28 (inp ! 21) OR push_bit (25 - 21) (inp ! 22 mod push_bit 21 1),
      drop_bit 21 (inp ! 22) OR push_bit (25 - 14) (inp ! 23 mod push_bit 14 1),
      drop_bit 14 (inp ! 23) OR push_bit (25 - 7) (inp ! 24 mod push_bit 7 1), drop_bit 7 (inp ! 24)], 25)"

definition fastunpack26_32 :: "u32 list \<Rightarrow> u32 list \<times> nat" where
  "fastunpack26_32 inp =
    ([drop_bit 0 (inp ! 0) mod push_bit 26 1,
      drop_bit 26 (inp ! 0) OR push_bit (26 - 20) (inp ! 1 mod push_bit 20 1),
      drop_bit 20 (inp ! 1) OR push_bit (26 - 14) (inp ! 2 mod push_bit 14 1),
      drop_bit 14 (inp ! 2) OR push_bit (26 - 8) (inp ! 3 mod push_bit 8 1),
      drop_bit 8 (inp ! 3) OR push_bit (26 - 2) (inp ! 4 mod push_bit 2 1), drop_bit 2 (inp ! 4) mod push_bit 26 1,
      drop_bit 28 (inp ! 4) OR push_bit (26 - 22) (inp ! 5 mod push_bit 22 1),
      drop_bit 22 (inp ! 5) OR push_bit (26 - 16) (inp ! 6 mod push_bit 16 1),
      drop_bit 16 (inp ! 6) OR push_bit (26 - 10) (inp ! 7 mod push_bit 10 1),
      drop_bit 10 (inp ! 7) OR push_bit (26 - 4) (inp ! 8 mod push_bit 4 1), drop_bit 4 (inp ! 8) mod push_bit 26 1,
      drop_bit 30 (inp ! 8) OR push_bit (26 - 24) (inp ! 9 mod push_bit 24 1),
      drop_bit 24 (inp ! 9) OR push_bit (26 - 18) (inp ! 10 mod push_bit 18 1),
      drop_bit 18 (inp ! 10) OR push_bit (26 - 12) (inp ! 11 mod push_bit 12 1),
      drop_bit 12 (inp ! 11) OR push_bit (26 - 6) (inp ! 12 mod push_bit 6 1), drop_bit 6 (inp ! 12),
      drop_bit 0 (inp ! 13) mod push_bit 26 1,
      drop_bit 26 (inp ! 13) OR push_bit (26 - 20) (inp ! 14 mod push_bit 20 1),
      drop_bit 20 (inp ! 14) OR push_bit (26 - 14) (inp ! 15 mod push_bit 14 1),
      drop_bit 14 (inp ! 15) OR push_bit (26 - 8) (inp ! 16 mod push_bit 8 1),
      drop_bit 8 (inp ! 16) OR push_bit (26 - 2) (inp ! 17 mod push_bit 2 1),
      drop_bit 2 (inp ! 17) mod push_bit 26 1,
      drop_bit 28 (inp ! 17) OR push_bit (26 - 22) (inp ! 18 mod push_bit 22 1),
      drop_bit 22 (inp ! 18) OR push_bit (26 - 16) (inp ! 19 mod push_bit 16 1),
      drop_bit 16 (inp ! 19) OR push_bit (26 - 10) (inp ! 20 mod push_bit 10 1),
      drop_bit 10 (inp ! 20) OR push_bit (26 - 4) (inp ! 21 mod push_bit 4 1),
      drop_bit 4 (inp ! 21) mod push_bit 26 1,
      drop_bit 30 (inp ! 21) OR push_bit (26 - 24) (inp ! 22 mod push_bit 24 1),
      drop_bit 24 (inp ! 22) OR push_bit (26 - 18) (inp ! 23 mod push_bit 18 1),
      drop_bit 18 (inp ! 23) OR push_bit (26 - 12) (inp ! 24 mod push_bit 12 1),
      drop_bit 12 (inp ! 24) OR push_bit (26 - 6) (inp ! 25 mod push_bit 6 1), drop_bit 6 (inp ! 25)], 26)"

definition fastunpack27_32 :: "u32 list \<Rightarrow> u32 list \<times> nat" where
  "fastunpack27_32 inp =
    ([drop_bit 0 (inp ! 0) mod push_bit 27 1,
      drop_bit 27 (inp ! 0) OR push_bit (27 - 22) (inp ! 1 mod push_bit 22 1),
      drop_bit 22 (inp ! 1) OR push_bit (27 - 17) (inp ! 2 mod push_bit 17 1),
      drop_bit 17 (inp ! 2) OR push_bit (27 - 12) (inp ! 3 mod push_bit 12 1),
      drop_bit 12 (inp ! 3) OR push_bit (27 - 7) (inp ! 4 mod push_bit 7 1),
      drop_bit 7 (inp ! 4) OR push_bit (27 - 2) (inp ! 5 mod push_bit 2 1), drop_bit 2 (inp ! 5) mod push_bit 27 1,
      drop_bit 29 (inp ! 5) OR push_bit (27 - 24) (inp ! 6 mod push_bit 24 1),
      drop_bit 24 (inp ! 6) OR push_bit (27 - 19) (inp ! 7 mod push_bit 19 1),
      drop_bit 19 (inp ! 7) OR push_bit (27 - 14) (inp ! 8 mod push_bit 14 1),
      drop_bit 14 (inp ! 8) OR push_bit (27 - 9) (inp ! 9 mod push_bit 9 1),
      drop_bit 9 (inp ! 9) OR push_bit (27 - 4) (inp ! 10 mod push_bit 4 1), drop_bit 4 (inp ! 10) mod push_bit 27 1,
      drop_bit 31 (inp ! 10) OR push_bit (27 - 26) (inp ! 11 mod push_bit 26 1),
      drop_bit 26 (inp ! 11) OR push_bit (27 - 21) (inp ! 12 mod push_bit 21 1),
      drop_bit 21 (inp ! 12) OR push_bit (27 - 16) (inp ! 13 mod push_bit 16 1),
      drop_bit 16 (inp ! 13) OR push_bit (27 - 11) (inp ! 14 mod push_bit 11 1),
      drop_bit 11 (inp ! 14) OR push_bit (27 - 6) (inp ! 15 mod push_bit 6 1),
      drop_bit 6 (inp ! 15) OR push_bit (27 - 1) (inp ! 16 mod push_bit 1 1),
      drop_bit 1 (inp ! 16) mod push_bit 27 1,
      drop_bit 28 (inp ! 16) OR push_bit (27 - 23) (inp ! 17 mod push_bit 23 1),
      drop_bit 23 (inp ! 17) OR push_bit (27 - 18) (inp ! 18 mod push_bit 18 1),
      drop_bit 18 (inp ! 18) OR push_bit (27 - 13) (inp ! 19 mod push_bit 13 1),
      drop_bit 13 (inp ! 19) OR push_bit (27 - 8) (inp ! 20 mod push_bit 8 1),
      drop_bit 8 (inp ! 20) OR push_bit (27 - 3) (inp ! 21 mod push_bit 3 1),
      drop_bit 3 (inp ! 21) mod push_bit 27 1,
      drop_bit 30 (inp ! 21) OR push_bit (27 - 25) (inp ! 22 mod push_bit 25 1),
      drop_bit 25 (inp ! 22) OR push_bit (27 - 20) (inp ! 23 mod push_bit 20 1),
      drop_bit 20 (inp ! 23) OR push_bit (27 - 15) (inp ! 24 mod push_bit 15 1),
      drop_bit 15 (inp ! 24) OR push_bit (27 - 10) (inp ! 25 mod push_bit 10 1),
      drop_bit 10 (inp ! 25) OR push_bit (27 - 5) (inp ! 26 mod push_bit 5 1), drop_bit 5 (inp ! 26)], 27)"

definition fastunpack28_32 :: "u32 list \<Rightarrow> u32 list \<times> nat" where
  "fastunpack28_32 inp =
    ([drop_bit 0 (inp ! 0) mod push_bit 28 1,
      drop_bit 28 (inp ! 0) OR push_bit (28 - 24) (inp ! 1 mod push_bit 24 1),
      drop_bit 24 (inp ! 1) OR push_bit (28 - 20) (inp ! 2 mod push_bit 20 1),
      drop_bit 20 (inp ! 2) OR push_bit (28 - 16) (inp ! 3 mod push_bit 16 1),
      drop_bit 16 (inp ! 3) OR push_bit (28 - 12) (inp ! 4 mod push_bit 12 1),
      drop_bit 12 (inp ! 4) OR push_bit (28 - 8) (inp ! 5 mod push_bit 8 1),
      drop_bit 8 (inp ! 5) OR push_bit (28 - 4) (inp ! 6 mod push_bit 4 1), drop_bit 4 (inp ! 6),
      drop_bit 0 (inp ! 7) mod push_bit 28 1,
      drop_bit 28 (inp ! 7) OR push_bit (28 - 24) (inp ! 8 mod push_bit 24 1),
      drop_bit 24 (inp ! 8) OR push_bit (28 - 20) (inp ! 9 mod push_bit 20 1),
      drop_bit 20 (inp ! 9) OR push_bit (28 - 16) (inp ! 10 mod push_bit 16 1),
      drop_bit 16 (inp ! 10) OR push_bit (28 - 12) (inp ! 11 mod push_bit 12 1),
      drop_bit 12 (inp ! 11) OR push_bit (28 - 8) (inp ! 12 mod push_bit 8 1),
      drop_bit 8 (inp ! 12) OR push_bit (28 - 4) (inp ! 13 mod push_bit 4 1), drop_bit 4 (inp ! 13),
      drop_bit 0 (inp ! 14) mod push_bit 28 1,
      drop_bit 28 (inp ! 14) OR push_bit (28 - 24) (inp ! 15 mod push_bit 24 1),
      drop_bit 24 (inp ! 15) OR push_bit (28 - 20) (inp ! 16 mod push_bit 20 1),
      drop_bit 20 (inp ! 16) OR push_bit (28 - 16) (inp ! 17 mod push_bit 16 1),
      drop_bit 16 (inp ! 17) OR push_bit (28 - 12) (inp ! 18 mod push_bit 12 1),
      drop_bit 12 (inp ! 18) OR push_bit (28 - 8) (inp ! 19 mod push_bit 8 1),
      drop_bit 8 (inp ! 19) OR push_bit (28 - 4) (inp ! 20 mod push_bit 4 1), drop_bit 4 (inp ! 20),
      drop_bit 0 (inp ! 21) mod push_bit 28 1,
      drop_bit 28 (inp ! 21) OR push_bit (28 - 24) (inp ! 22 mod push_bit 24 1),
      drop_bit 24 (inp ! 22) OR push_bit (28 - 20) (inp ! 23 mod push_bit 20 1),
      drop_bit 20 (inp ! 23) OR push_bit (28 - 16) (inp ! 24 mod push_bit 16 1),
      drop_bit 16 (inp ! 24) OR push_bit (28 - 12) (inp ! 25 mod push_bit 12 1),
      drop_bit 12 (inp ! 25) OR push_bit (28 - 8) (inp ! 26 mod push_bit 8 1),
      drop_bit 8 (inp ! 26) OR push_bit (28 - 4) (inp ! 27 mod push_bit 4 1), drop_bit 4 (inp ! 27)], 28)"

definition fastunpack29_32 :: "u32 list \<Rightarrow> u32 list \<times> nat" where
  "fastunpack29_32 inp =
    ([drop_bit 0 (inp ! 0) mod push_bit 29 1,
      drop_bit 29 (inp ! 0) OR push_bit (29 - 26) (inp ! 1 mod push_bit 26 1),
      drop_bit 26 (inp ! 1) OR push_bit (29 - 23) (inp ! 2 mod push_bit 23 1),
      drop_bit 23 (inp ! 2) OR push_bit (29 - 20) (inp ! 3 mod push_bit 20 1),
      drop_bit 20 (inp ! 3) OR push_bit (29 - 17) (inp ! 4 mod push_bit 17 1),
      drop_bit 17 (inp ! 4) OR push_bit (29 - 14) (inp ! 5 mod push_bit 14 1),
      drop_bit 14 (inp ! 5) OR push_bit (29 - 11) (inp ! 6 mod push_bit 11 1),
      drop_bit 11 (inp ! 6) OR push_bit (29 - 8) (inp ! 7 mod push_bit 8 1),
      drop_bit 8 (inp ! 7) OR push_bit (29 - 5) (inp ! 8 mod push_bit 5 1),
      drop_bit 5 (inp ! 8) OR push_bit (29 - 2) (inp ! 9 mod push_bit 2 1), drop_bit 2 (inp ! 9) mod push_bit 29 1,
      drop_bit 31 (inp ! 9) OR push_bit (29 - 28) (inp ! 10 mod push_bit 28 1),
      drop_bit 28 (inp ! 10) OR push_bit (29 - 25) (inp ! 11 mod push_bit 25 1),
      drop_bit 25 (inp ! 11) OR push_bit (29 - 22) (inp ! 12 mod push_bit 22 1),
      drop_bit 22 (inp ! 12) OR push_bit (29 - 19) (inp ! 13 mod push_bit 19 1),
      drop_bit 19 (inp ! 13) OR push_bit (29 - 16) (inp ! 14 mod push_bit 16 1),
      drop_bit 16 (inp ! 14) OR push_bit (29 - 13) (inp ! 15 mod push_bit 13 1),
      drop_bit 13 (inp ! 15) OR push_bit (29 - 10) (inp ! 16 mod push_bit 10 1),
      drop_bit 10 (inp ! 16) OR push_bit (29 - 7) (inp ! 17 mod push_bit 7 1),
      drop_bit 7 (inp ! 17) OR push_bit (29 - 4) (inp ! 18 mod push_bit 4 1),
      drop_bit 4 (inp ! 18) OR push_bit (29 - 1) (inp ! 19 mod push_bit 1 1),
      drop_bit 1 (inp ! 19) mod push_bit 29 1,
      drop_bit 30 (inp ! 19) OR push_bit (29 - 27) (inp ! 20 mod push_bit 27 1),
      drop_bit 27 (inp ! 20) OR push_bit (29 - 24) (inp ! 21 mod push_bit 24 1),
      drop_bit 24 (inp ! 21) OR push_bit (29 - 21) (inp ! 22 mod push_bit 21 1),
      drop_bit 21 (inp ! 22) OR push_bit (29 - 18) (inp ! 23 mod push_bit 18 1),
      drop_bit 18 (inp ! 23) OR push_bit (29 - 15) (inp ! 24 mod push_bit 15 1),
      drop_bit 15 (inp ! 24) OR push_bit (29 - 12) (inp ! 25 mod push_bit 12 1),
      drop_bit 12 (inp ! 25) OR push_bit (29 - 9) (inp ! 26 mod push_bit 9 1),
      drop_bit 9 (inp ! 26) OR push_bit (29 - 6) (inp ! 27 mod push_bit 6 1),
      drop_bit 6 (inp ! 27) OR push_bit (29 - 3) (inp ! 28 mod push_bit 3 1), drop_bit 3 (inp ! 28)], 29)"

definition fastunpack30_32 :: "u32 list \<Rightarrow> u32 list \<times> nat" where
  "fastunpack30_32 inp =
    ([drop_bit 0 (inp ! 0) mod push_bit 30 1,
      drop_bit 30 (inp ! 0) OR push_bit (30 - 28) (inp ! 1 mod push_bit 28 1),
      drop_bit 28 (inp ! 1) OR push_bit (30 - 26) (inp ! 2 mod push_bit 26 1),
      drop_bit 26 (inp ! 2) OR push_bit (30 - 24) (inp ! 3 mod push_bit 24 1),
      drop_bit 24 (inp ! 3) OR push_bit (30 - 22) (inp ! 4 mod push_bit 22 1),
      drop_bit 22 (inp ! 4) OR push_bit (30 - 20) (inp ! 5 mod push_bit 20 1),
      drop_bit 20 (inp ! 5) OR push_bit (30 - 18) (inp ! 6 mod push_bit 18 1),
      drop_bit 18 (inp ! 6) OR push_bit (30 - 16) (inp ! 7 mod push_bit 16 1),
      drop_bit 16 (inp ! 7) OR push_bit (30 - 14) (inp ! 8 mod push_bit 14 1),
      drop_bit 14 (inp ! 8) OR push_bit (30 - 12) (inp ! 9 mod push_bit 12 1),
      drop_bit 12 (inp ! 9) OR push_bit (30 - 10) (inp ! 10 mod push_bit 10 1),
      drop_bit 10 (inp ! 10) OR push_bit (30 - 8) (inp ! 11 mod push_bit 8 1),
      drop_bit 8 (inp ! 11) OR push_bit (30 - 6) (inp ! 12 mod push_bit 6 1),
      drop_bit 6 (inp ! 12) OR push_bit (30 - 4) (inp ! 13 mod push_bit 4 1),
      drop_bit 4 (inp ! 13) OR push_bit (30 - 2) (inp ! 14 mod push_bit 2 1), drop_bit 2 (inp ! 14),
      drop_bit 0 (inp ! 15) mod push_bit 30 1,
      drop_bit 30 (inp ! 15) OR push_bit (30 - 28) (inp ! 16 mod push_bit 28 1),
      drop_bit 28 (inp ! 16) OR push_bit (30 - 26) (inp ! 17 mod push_bit 26 1),
      drop_bit 26 (inp ! 17) OR push_bit (30 - 24) (inp ! 18 mod push_bit 24 1),
      drop_bit 24 (inp ! 18) OR push_bit (30 - 22) (inp ! 19 mod push_bit 22 1),
      drop_bit 22 (inp ! 19) OR push_bit (30 - 20) (inp ! 20 mod push_bit 20 1),
      drop_bit 20 (inp ! 20) OR push_bit (30 - 18) (inp ! 21 mod push_bit 18 1),
      drop_bit 18 (inp ! 21) OR push_bit (30 - 16) (inp ! 22 mod push_bit 16 1),
      drop_bit 16 (inp ! 22) OR push_bit (30 - 14) (inp ! 23 mod push_bit 14 1),
      drop_bit 14 (inp ! 23) OR push_bit (30 - 12) (inp ! 24 mod push_bit 12 1),
      drop_bit 12 (inp ! 24) OR push_bit (30 - 10) (inp ! 25 mod push_bit 10 1),
      drop_bit 10 (inp ! 25) OR push_bit (30 - 8) (inp ! 26 mod push_bit 8 1),
      drop_bit 8 (inp ! 26) OR push_bit (30 - 6) (inp ! 27 mod push_bit 6 1),
      drop_bit 6 (inp ! 27) OR push_bit (30 - 4) (inp ! 28 mod push_bit 4 1),
      drop_bit 4 (inp ! 28) OR push_bit (30 - 2) (inp ! 29 mod push_bit 2 1), drop_bit 2 (inp ! 29)], 30)"

definition fastunpack31_32 :: "u32 list \<Rightarrow> u32 list \<times> nat" where
  "fastunpack31_32 inp =
    ([drop_bit 0 (inp ! 0) mod push_bit 31 1,
      drop_bit 31 (inp ! 0) OR push_bit (31 - 30) (inp ! 1 mod push_bit 30 1),
      drop_bit 30 (inp ! 1) OR push_bit (31 - 29) (inp ! 2 mod push_bit 29 1),
      drop_bit 29 (inp ! 2) OR push_bit (31 - 28) (inp ! 3 mod push_bit 28 1),
      drop_bit 28 (inp ! 3) OR push_bit (31 - 27) (inp ! 4 mod push_bit 27 1),
      drop_bit 27 (inp ! 4) OR push_bit (31 - 26) (inp ! 5 mod push_bit 26 1),
      drop_bit 26 (inp ! 5) OR push_bit (31 - 25) (inp ! 6 mod push_bit 25 1),
      drop_bit 25 (inp ! 6) OR push_bit (31 - 24) (inp ! 7 mod push_bit 24 1),
      drop_bit 24 (inp ! 7) OR push_bit (31 - 23) (inp ! 8 mod push_bit 23 1),
      drop_bit 23 (inp ! 8) OR push_bit (31 - 22) (inp ! 9 mod push_bit 22 1),
      drop_bit 22 (inp ! 9) OR push_bit (31 - 21) (inp ! 10 mod push_bit 21 1),
      drop_bit 21 (inp ! 10) OR push_bit (31 - 20) (inp ! 11 mod push_bit 20 1),
      drop_bit 20 (inp ! 11) OR push_bit (31 - 19) (inp ! 12 mod push_bit 19 1),
      drop_bit 19 (inp ! 12) OR push_bit (31 - 18) (inp ! 13 mod push_bit 18 1),
      drop_bit 18 (inp ! 13) OR push_bit (31 - 17) (inp ! 14 mod push_bit 17 1),
      drop_bit 17 (inp ! 14) OR push_bit (31 - 16) (inp ! 15 mod push_bit 16 1),
      drop_bit 16 (inp ! 15) OR push_bit (31 - 15) (inp ! 16 mod push_bit 15 1),
      drop_bit 15 (inp ! 16) OR push_bit (31 - 14) (inp ! 17 mod push_bit 14 1),
      drop_bit 14 (inp ! 17) OR push_bit (31 - 13) (inp ! 18 mod push_bit 13 1),
      drop_bit 13 (inp ! 18) OR push_bit (31 - 12) (inp ! 19 mod push_bit 12 1),
      drop_bit 12 (inp ! 19) OR push_bit (31 - 11) (inp ! 20 mod push_bit 11 1),
      drop_bit 11 (inp ! 20) OR push_bit (31 - 10) (inp ! 21 mod push_bit 10 1),
      drop_bit 10 (inp ! 21) OR push_bit (31 - 9) (inp ! 22 mod push_bit 9 1),
      drop_bit 9 (inp ! 22) OR push_bit (31 - 8) (inp ! 23 mod push_bit 8 1),
      drop_bit 8 (inp ! 23) OR push_bit (31 - 7) (inp ! 24 mod push_bit 7 1),
      drop_bit 7 (inp ! 24) OR push_bit (31 - 6) (inp ! 25 mod push_bit 6 1),
      drop_bit 6 (inp ! 25) OR push_bit (31 - 5) (inp ! 26 mod push_bit 5 1),
      drop_bit 5 (inp ! 26) OR push_bit (31 - 4) (inp ! 27 mod push_bit 4 1),
      drop_bit 4 (inp ! 27) OR push_bit (31 - 3) (inp ! 28 mod push_bit 3 1),
      drop_bit 3 (inp ! 28) OR push_bit (31 - 2) (inp ! 29 mod push_bit 2 1),
      drop_bit 2 (inp ! 29) OR push_bit (31 - 1) (inp ! 30 mod push_bit 1 1), drop_bit 1 (inp ! 30)], 31)"

definition fastunpack32_32 :: "u32 list \<Rightarrow> u32 list \<times> nat" where
  "fastunpack32_32 inp =
    ([drop_bit 0 (inp ! 0), drop_bit 0 (inp ! 1), drop_bit 0 (inp ! 2), drop_bit 0 (inp ! 3), drop_bit 0 (inp ! 4),
      drop_bit 0 (inp ! 5), drop_bit 0 (inp ! 6), drop_bit 0 (inp ! 7), drop_bit 0 (inp ! 8), drop_bit 0 (inp ! 9),
      drop_bit 0 (inp ! 10), drop_bit 0 (inp ! 11), drop_bit 0 (inp ! 12), drop_bit 0 (inp ! 13),
      drop_bit 0 (inp ! 14), drop_bit 0 (inp ! 15), drop_bit 0 (inp ! 16), drop_bit 0 (inp ! 17),
      drop_bit 0 (inp ! 18), drop_bit 0 (inp ! 19), drop_bit 0 (inp ! 20), drop_bit 0 (inp ! 21),
      drop_bit 0 (inp ! 22), drop_bit 0 (inp ! 23), drop_bit 0 (inp ! 24), drop_bit 0 (inp ! 25),
      drop_bit 0 (inp ! 26), drop_bit 0 (inp ! 27), drop_bit 0 (inp ! 28), drop_bit 0 (inp ! 29),
      drop_bit 0 (inp ! 30), drop_bit 0 (inp ! 31)], 32)"

section \<open>Every routine is an instance of the reference\<close>

lemma nullunpacker8_eq: "nullunpacker8 = unpack_short 8 0"
  by (rule ext) (simp add: nullunpacker8_def unpack_short_0)

lemma fastunpack1_8_eq: "fastunpack1_8 = unpack_short 8 1"
  by (rule ext) (simp add: fastunpack1_8_def unpack_short_simps del: One_nat_def add_Suc_right)

lemma fastunpack2_8_eq: "fastunpack2_8 = unpack_short 8 2"
  by (rule ext) (simp add: fastunpack2_8_def unpack_short_simps del: One_nat_def add_Suc_right)

lemma fastunpack3_8_eq: "fastunpack3_8 = unpack_short 8 3"
  by (rule ext) (simp add: fastunpack3_8_def unpack_short_simps del: One_nat_def add_Suc_right)

lemma fastunpack4_8_eq: "fastunpack4_8 = unpack_short 8 4"
  by (rule ext) (simp add: fastunpack4_8_def unpack_short_simps del: One_nat_def add_Suc_right)

lemma fastunpack5_8_eq: "fastunpack5_8 = unpack_short 8 5"
  by (rule ext) (simp add: fastunpack5_8_def unpack_short_simps del: One_nat_def add_Suc_right)

lemma fastunpack6_8_eq: "fastunpack6_8 = unpack_short 8 6"
  by (rule ext) (simp add: fastunpack6_8_def unpack_short_simps del: One_nat_def add_Suc_right)

lemma fastunpack7_8_eq: "fastunpack7_8 = unpack_short 8 7"
  by (rule ext) (simp add: fastunpack7_8_def unpack_short_simps del: One_nat_def add_Suc_right)

lemma fastunpack8_8_eq: "fastunpack8_8 = unpack_short 8 8"
  by (rule ext) (simp add: fastunpack8_8_def unpack_short_simps del: One_nat_def add_Suc_right)

lemma fastunpack9_8_eq: "fastunpack9_8 = unpack_short 8 9"
  by (rule ext) (simp add: fastunpack9_8_def unpack_short_simps del: One_nat_def add_Suc_right)

lemma fastunpack10_8_eq: "fastunpack10_8 = unpack_short 8 10"
  by (rule ext) (simp add: fastunpack10_8_def unpack_short_simps del: One_nat_def add_Suc_right)

lemma fastunpack11_8_eq: "fastunpack11_8 = unpack_short 8 11"
  by (rule ext) (simp add: fastunpack11_8_def unpack_short_simps del: One_nat_def add_Suc_right)

lemma fastunpack12_8_eq: "fastunpack12_8 = unpack_short 8 12"
  by (rule ext) (simp add: fastunpack12_8_def unpack_short_simps del: One_nat_def add_Suc_right)

lemma fastunpack13_8_eq: "fastunpack13_8 = unpack_short 8 13"
  by (rule ext) (simp add: fastunpack13_8_def unpack_short_simps del: One_nat_def add_Suc_right)

lemma fastunpack14_8_eq: "fastunpack14_8 = unpack_short 8 14"
  by (rule ext) (simp add: fastunpack14_8_def unpack_short_simps del: One_nat_def add_Suc_right)

lemma fastunpack15_8_eq: "fastunpack15_8 = unpack_short 8 15"
  by (rule ext) (simp add: fastunpack15_8_def unpack_short_simps del: One_nat_def add_Suc_right)

lemma fastunpack16_8_eq: "fastunpack16_8 = unpack_short 8 16"
  by (rule ext) (simp add: fastunpack16_8_def unpack_short_simps del: One_nat_def add_Suc_right)

lemma fastunpack17_8_eq: "fastunpack17_8 = unpack_short 8 17"
  by (rule ext) (simp add: fastunpack17_8_def unpack_short_simps del: One_nat_def add_Suc_right)

lemma fastunpack18_8_eq: "fastunpack18_8 = unpack_short 8 18"
  by (rule ext) (simp add: fastunpack18_8_def unpack_short_simps del: One_nat_def add_Suc_right)

lemma fastunpack19_8_eq: "fastunpack19_8 = unpack_short 8 19"
  by (rule ext) (simp add: fastunpack19_8_def unpack_short_simps del: One_nat_def add_Suc_right)

lemma fastunpack20_8_eq: "fastunpack20_8 = unpack_short 8 20"
  by (rule ext) (simp add: fastunpack20_8_def unpack_short_simps del: One_nat_def add_Suc_right)

lemma fastunpack21_8_eq: "fastunpack21_8 = unpack_short 8 21"
  by (rule ext) (simp add: fastunpack21_8_def unpack_short_simps del: One_nat_def add_Suc_right)

lemma fastunpack22_8_eq: "fastunpack22_8 = unpack_short 8 22"
  by (rule ext) (simp add: fastunpack22_8_def unpack_short_simps del: One_nat_def add_Suc_right)

lemma fastunpack23_8_eq: "fastunpack23_8 = unpack_short 8 23"
  by (rule ext) (simp add: fastunpack23_8_def unpack_short_simps del: One_nat_def add_Suc_right)

lemma fastunpack24_8_eq: "fastunpack24_8 = unpack_short 8 24"
  by (rule ext) (simp add: fastunpack24_8_def unpack_short_simps del: One_nat_def add_Suc_right)

lemma fastunpack25_8_eq: "fastunpack25_8 = unpack_short 8 25"
  by (rule ext) (simp add: fastunpack25_8_def unpack_short_simps del: One_nat_def add_Suc_right)

lemma fastunpack26_8_eq: "fastunpack26_8 = unpack_short 8 26"
  by (rule ext) (simp add: fastunpack26_8_def unpack_short_simps del: One_nat_def add_Suc_right)

lemma fastunpack27_8_eq: "fastunpack27_8 = unpack_short 8 27"
  by (rule ext) (simp add: fastunpack27_8_def unpack_short_simps del: One_nat_def add_Suc_right)

lemma fastunpack28_8_eq: "fastunpack28_8 = unpack_short 8 28"
  by (rule ext) (simp add: fastunpack28_8_def unpack_short_simps del: One_nat_def add_Suc_right)

lemma fastunpack29_8_eq: "fastunpack29_8 = unpack_short 8 29"
  by (rule ext) (simp add: fastunpack29_8_def unpack_short_simps del: One_nat_def add_Suc_right)

lemma fastunpack30_8_eq: "fastunpack30_8 = unpack_short 8 30"
  by (rule ext) (simp add: fastunpack30_8_def unpack_short_simps del: One_nat_def add_Suc_right)

lemma fastunpack31_8_eq: "fastunpack31_8 = unpack_short 8 31"
  by (rule ext) (simp add: fastunpack31_8_def unpack_short_simps del: One_nat_def add_Suc_right)

lemma fastunpack32_8_eq: "fastunpack32_8 = unpack_short 8 32"
  by (rule ext) (simp add: fastunpack32_8_def unpack_short_simps del: One_nat_def add_Suc_right)

lemma nullunpacker16_eq: "nullunpacker16 = unpack_short 16 0"
  by (rule ext) (simp add: nullunpacker16_def unpack_short_0)

lemma fastunpack1_16_eq: "fastunpack1_16 = unpack_short 16 1"
  by (rule ext) (simp add: fastunpack1_16_def unpack_short_simps del: One_nat_def add_Suc_right)

lemma fastunpack2_16_eq: "fastunpack2_16 = unpack_short 16 2"
  by (rule ext) (simp add: fastunpack2_16_def unpack_short_simps del: One_nat_def add_Suc_right)

lemma fastunpack3_16_eq: "fastunpack3_16 = unpack_short 16 3"
  by (rule ext) (simp add: fastunpack3_16_def unpack_short_simps del: One_nat_def add_Suc_right)

lemma fastunpack4_16_eq: "fastunpack4_16 = unpack_short 16 4"
  by (rule ext) (simp add: fastunpack4_16_def unpack_short_simps del: One_nat_def add_Suc_right)

lemma fastunpack5_16_eq: "fastunpack5_16 = unpack_short 16 5"
  by (rule ext) (simp add: fastunpack5_16_def unpack_short_simps del: One_nat_def add_Suc_right)

lemma fastunpack6_16_eq: "fastunpack6_16 = unpack_short 16 6"
  by (rule ext) (simp add: fastunpack6_16_def unpack_short_simps del: One_nat_def add_Suc_right)

lemma fastunpack7_16_eq: "fastunpack7_16 = unpack_short 16 7"
  by (rule ext) (simp add: fastunpack7_16_def unpack_short_simps del: One_nat_def add_Suc_right)

lemma fastunpack8_16_eq: "fastunpack8_16 = unpack_short 16 8"
  by (rule ext) (simp add: fastunpack8_16_def unpack_short_simps del: One_nat_def add_Suc_right)

lemma fastunpack9_16_eq: "fastunpack9_16 = unpack_short 16 9"
  by (rule ext) (simp add: fastunpack9_16_def unpack_short_simps del: One_nat_def add_Suc_right)

lemma fastunpack10_16_eq: "fastunpack10_16 = unpack_short 16 10"
  by (rule ext) (simp add: fastunpack10_16_def unpack_short_simps del: One_nat_def add_Suc_right)

lemma fastunpack11_16_eq: "fastunpack11_16 = unpack_short 16 11"
  by (rule ext) (simp add: fastunpack11_16_def unpack_short_simps del: One_nat_def add_Suc_right)

lemma fastunpack12_16_eq: "fastunpack12_16 = unpack_short 16 12"
  by (rule ext) (simp add: fastunpack12_16_def unpack_short_simps del: One_nat_def add_Suc_right)

lemma fastunpack13_16_eq: "fastunpack13_16 = unpack_short 16 13"
  by (rule ext) (simp add: fastunpack13_16_def unpack_short_simps del: One_nat_def add_Suc_right)

lemma fastunpack14_16_eq: "fastunpack14_16 = unpack_short 16 14"
  by (rule ext) (simp add: fastunpack14_16_def unpack_short_simps del: One_nat_def add_Suc_right)

lemma fastunpack15_16_eq: "fastunpack15_16 = unpack_short 16 15"
  by (rule ext) (simp add: fastunpack15_16_def unpack_short_simps del: One_nat_def add_Suc_right)

lemma fastunpack16_16_eq: "fastunpack16_16 = unpack_short 16 16"
  by (rule ext) (simp add: fastunpack16_16_def unpack_short_simps del: One_nat_def add_Suc_right)

lemma fastunpack17_16_eq: "fastunpack17_16 = unpack_short 16 17"
  by (rule ext) (simp add: fastunpack17_16_def unpack_short_simps del: One_nat_def add_Suc_right)

lemma fastunpack18_16_eq: "fastunpack18_16 = unpack_short 16 18"
  by (rule ext) (simp add: fastunpack18_16_def unpack_short_simps del: One_nat_def add_Suc_right)

lemma fastunpack19_16_eq: "fastunpack19_16 = unpack_short 16 19"
  by (rule ext) (simp add: fastunpack19_16_def unpack_short_simps del: One_nat_def add_Suc_right)

lemma fastunpack20_16_eq: "fastunpack20_16 = unpack_short 16 20"
  by (rule ext) (simp add: fastunpack20_16_def unpack_short_simps del: One_nat_def add_Suc_right)

lemma fastunpack21_16_eq: "fastunpack21_16 = unpack_short 16 21"
  by (rule ext) (simp add: fastunpack21_16_def unpack_short_simps del: One_nat_def add_Suc_right)

lemma fastunpack22_16_eq: "fastunpack22_16 = unpack_short 16 22"
  by (rule ext) (simp add: fastunpack22_16_def unpack_short_simps del: One_nat_def add_Suc_right)

lemma fastunpack23_16_eq: "fastunpack23_16 = unpack_short 16 23"
  by (rule ext) (simp add: fastunpack23_16_def unpack_short_simps del: One_nat_def add_Suc_right)

lemma fastunpack24_16_eq: "fastunpack24_16 = unpack_short 16 24"
  by (rule ext) (simp add: fastunpack24_16_def unpack_short_simps del: One_nat_def add_Suc_right)

lemma fastunpack25_16_eq: "fastunpack25_16 = unpack_short 16 25"
  by (rule ext) (simp add: fastunpack25_16_def unpack_short_simps del: One_nat_def add_Suc_right)

lemma fastunpack26_16_eq: "fastunpack26_16 = unpack_short 16 26"
  by (rule ext) (simp add: fastunpack26_16_def unpack_short_simps del: One_nat_def add_Suc_right)

lemma fastunpack27_16_eq: "fastunpack27_16 = unpack_short 16 27"
  by (rule ext) (simp add: fastunpack27_16_def unpack_short_simps del: One_nat_def add_Suc_right)

lemma fastunpack28_16_eq: "fastunpack28_16 = unpack_short 16 28"
  by (rule ext) (simp add: fastunpack28_16_def unpack_short_simps del: One_nat_def add_Suc_right)

lemma fastunpack29_16_eq: "fastunpack29_16 = unpack_short 16 29"
  by (rule ext) (simp add: fastunpack29_16_def unpack_short_simps del: One_nat_def add_Suc_right)

lemma fastunpack30_16_eq: "fastunpack30_16 = unpack_short 16 30"
  by (rule ext) (simp add: fastunpack30_16_def unpack_short_simps del: One_nat_def add_Suc_right)

lemma fastunpack31_16_eq: "fastunpack31_16 = unpack_short 16 31"
  by (rule ext) (simp add: fastunpack31_16_def unpack_short_simps del: One_nat_def add_Suc_right)

lemma fastunpack32_16_eq: "fastunpack32_16 = unpack_short 16 32"
  by (rule ext) (simp add: fastunpack32_16_def unpack_short_simps del: One_nat_def add_Suc_right)

lemma nullunpacker24_eq: "nullunpacker24 = unpack_short 24 0"
  by (rule ext) (simp add: nullunpacker24_def unpack_short_0)

lemma fastunpack1_24_eq: "fastunpack1_24 = unpack_short 24 1"
  by (rule ext) (simp add: fastunpack1_24_def unpack_short_simps del: One_nat_def add_Suc_right)

lemma fastunpack2_24_eq: "fastunpack2_24 = unpack_short 24 2"
  by (rule ext) (simp add: fastunpack2_24_def unpack_short_simps del: One_nat_def add_Suc_right)

lemma fastunpack3_24_eq: "fastunpack3_24 = unpack_short 24 3"
  by (rule ext) (simp add: fastunpack3_24_def unpack_short_simps del: One_nat_def add_Suc_right)

lemma fastunpack4_24_eq: "fastunpack4_24 = unpack_short 24 4"
  by (rule ext) (simp add: fastunpack4_24_def unpack_short_simps del: One_nat_def add_Suc_right)

lemma fastunpack5_24_eq: "fastunpack5_24 = unpack_short 24 5"
  by (rule ext) (simp add: fastunpack5_24_def unpack_short_simps del: One_nat_def add_Suc_right)

lemma fastunpack6_24_eq: "fastunpack6_24 = unpack_short 24 6"
  by (rule ext) (simp add: fastunpack6_24_def unpack_short_simps del: One_nat_def add_Suc_right)

lemma fastunpack7_24_eq: "fastunpack7_24 = unpack_short 24 7"
  by (rule ext) (simp add: fastunpack7_24_def unpack_short_simps del: One_nat_def add_Suc_right)

lemma fastunpack8_24_eq: "fastunpack8_24 = unpack_short 24 8"
  by (rule ext) (simp add: fastunpack8_24_def unpack_short_simps del: One_nat_def add_Suc_right)

lemma fastunpack9_24_eq: "fastunpack9_24 = unpack_short 24 9"
  by (rule ext) (simp add: fastunpack9_24_def unpack_short_simps del: One_nat_def add_Suc_right)

lemma fastunpack10_24_eq: "fastunpack10_24 = unpack_short 24 10"
  by (rule ext) (simp add: fastunpack10_24_def unpack_short_simps del: One_nat_def add_Suc_right)

lemma fastunpack11_24_eq: "fastunpack11_24 = unpack_short 24 11"
  by (rule ext) (simp add: fastunpack11_24_def unpack_short_simps del: One_nat_def add_Suc_right)

lemma fastunpack12_24_eq: "fastunpack12_24 = unpack_short 24 12"
  by (rule ext) (simp add: fastunpack12_24_def unpack_short_simps del: One_nat_def add_Suc_right)

lemma fastunpack13_24_eq: "fastunpack13_24 = unpack_short 24 13"
  by (rule ext) (simp add: fastunpack13_24_def unpack_short_simps del: One_nat_def add_Suc_right)

lemma fastunpack14_24_eq: "fastunpack14_24 = unpack_short 24 14"
  by (rule ext) (simp add: fastunpack14_24_def unpack_short_simps del: One_nat_def add_Suc_right)

lemma fastunpack15_24_eq: "fastunpack15_24 = unpack_short 24 15"
  by (rule ext) (simp add: fastunpack15_24_def unpack_short_simps del: One_nat_def add_Suc_right)

lemma fastunpack16_24_eq: "fastunpack16_24 = unpack_short 24 16"
  by (rule ext) (simp add: fastunpack16_24_def unpack_short_simps del: One_nat_def add_Suc_right)

lemma fastunpack17_24_eq: "fastunpack17_24 = unpack_short 24 17"
  by (rule ext) (simp add: fastunpack17_24_def unpack_short_simps del: One_nat_def add_Suc_right)

lemma fastunpack18_24_eq: "fastunpack18_24 = unpack_short 24 18"
  by (rule ext) (simp add: fastunpack18_24_def unpack_short_simps del: One_nat_def add_Suc_right)

lemma fastunpack19_24_eq: "fastunpack19_24 = unpack_short 24 19"
  by (rule ext) (simp add: fastunpack19_24_def unpack_short_simps del: One_nat_def add_Suc_right)

lemma fastunpack20_24_eq: "fastunpack20_24 = unpack_short 24 20"
  by (rule ext) (simp add: fastunpack20_24_def unpack_short_simps del: One_nat_def add_Suc_right)

lemma fastunpack21_24_eq: "fastunpack21_24 = unpack_short 24 21"
  by (rule ext) (simp add: fastunpack21_24_def unpack_short_simps del: One_nat_def add_Suc_right)

lemma fastunpack22_24_eq: "fastunpack22_24 = unpack_short 24 22"
  by (rule ext) (simp add: fastunpack22_24_def unpack_short_simps del: One_nat_def add_Suc_right)

lemma fastunpack23_24_eq: "fastunpack23_24 = unpack_short 24 23"
  by (rule ext) (simp add: fastunpack23_24_def unpack_short_simps del: One_nat_def add_Suc_right)

lemma fastunpack24_24_eq: "fastunpack24_24 = unpack_short 24 24"
  by (rule ext) (simp add: fastunpack24_24_def unpack_short_simps del: One_nat_def add_Suc_right)

lemma fastunpack25_24_eq: "fastunpack25_24 = unpack_short 24 25"
  by (rule ext) (simp add: fastunpack25_24_def unpack_short_simps del: One_nat_def add_Suc_right)

lemma fastunpack26_24_eq: "fastunpack26_24 = unpack_short 24 26"
  by (rule ext) (simp add: fastunpack26_24_def unpack_short_simps del: One_nat_def add_Suc_right)

lemma fastunpack27_24_eq: "fastunpack27_24 = unpack_short 24 27"
  by (rule ext) (simp add: fastunpack27_24_def unpack_short_simps del: One_nat_def add_Suc_right)

lemma fastunpack28_24_eq: "fastunpack28_24 = unpack_short 24 28"
  by (rule ext) (simp add: fastunpack28_24_def unpack_short_simps del: One_nat_def add_Suc_right)

lemma fastunpack29_24_eq: "fastunpack29_24 = unpack_short 24 29"
  by (rule ext) (simp add: fastunpack29_24_def unpack_short_simps del: One_nat_def add_Suc_right)

lemma fastunpack30_24_eq: "fastunpack30_24 = unpack_short 24 30"
  by (rule ext) (simp add: fastunpack30_24_def unpack_short_simps del: One_nat_def add_Suc_right)

lemma fastunpack31_24_eq: "fastunpack31_24 = unpack_short 24 31"
  by (rule ext) (simp add: fastunpack31_24_def unpack_short_simps del: One_nat_def add_Suc_right)

lemma fastunpack32_24_eq: "fastunpack32_24 = unpack_short 24 32"
  by (rule ext) (simp add: fastunpack32_24_def unpack_short_simps del: One_nat_def add_Suc_right)

lemma nullunpacker32_eq: "nullunpacker32 = unpack_short 32 0"
  by (rule ext) (simp add: nullunpacker32_def unpack_short_0)

lemma fastunpack1_32_eq: "fastunpack1_32 = unpack_short 32 1"
  by (rule ext) (simp add: fastunpack1_32_def unpack_short_simps del: One_nat_def add_Suc_right)

lemma fastunpack2_32_eq: "fastunpack2_32 = unpack_short 32 2"
  by (rule ext) (simp add: fastunpack2_32_def unpack_short_simps del: One_nat_def add_Suc_right)

lemma fastunpack3_32_eq: "fastunpack3_32 = unpack_short 32 3"
  by (rule ext) (simp add: fastunpack3_32_def unpack_short_simps del: One_nat_def add_Suc_right)

lemma fastunpack4_32_eq: "fastunpack4_32 = unpack_short 32 4"
  by (rule ext) (simp add: fastunpack4_32_def unpack_short_simps del: One_nat_def add_Suc_right)

lemma fastunpack5_32_eq: "fastunpack5_32 = unpack_short 32 5"
  by (rule ext) (simp add: fastunpack5_32_def unpack_short_simps del: One_nat_def add_Suc_right)

lemma fastunpack6_32_eq: "fastunpack6_32 = unpack_short 32 6"
  by (rule ext) (simp add: fastunpack6_32_def unpack_short_simps del: One_nat_def add_Suc_right)

lemma fastunpack7_32_eq: "fastunpack7_32 = unpack_short 32 7"
  by (rule ext) (simp add: fastunpack7_32_def unpack_short_simps del: One_nat_def add_Suc_right)

lemma fastunpack8_32_eq: "fastunpack8_32 = unpack_short 32 8"
  by (rule ext) (simp add: fastunpack8_32_def unpack_short_simps del: One_nat_def add_Suc_right)

lemma fastunpack9_32_eq: "fastunpack9_32 = unpack_short 32 9"
  by (rule ext) (simp add: fastunpack9_32_def unpack_short_simps del: One_nat_def add_Suc_right)

lemma fastunpack10_32_eq: "fastunpack10_32 = unpack_short 32 10"
  by (rule ext) (simp add: fastunpack10_32_def unpack_short_simps del: One_nat_def add_Suc_right)

lemma fastunpack11_32_eq: "fastunpack11_32 = unpack_short 32 11"
  by (rule ext) (simp add: fastunpack11_32_def unpack_short_simps del: One_nat_def add_Suc_right)

lemma fastunpack12_32_eq: "fastunpack12_32 = unpack_short 32 12"
  by (rule ext) (simp add: fastunpack12_32_def unpack_short_simps del: One_nat_def add_Suc_right)

lemma fastunpack13_32_eq: "fastunpack13_32 = unpack_short 32 13"
  by (rule ext) (simp add: fastunpack13_32_def unpack_short_simps del: One_nat_def add_Suc_right)

lemma fastunpack14_32_eq: "fastunpack14_32 = unpack_short 32 14"
  by (rule ext) (simp add: fastunpack14_32_def unpack_short_simps del: One_nat_def add_Suc_right)

lemma fastunpack15_32_eq: "fastunpack15_32 = unpack_short 32 15"
  by (rule ext) (simp add: fastunpack15_32_def unpack_short_simps del: One_nat_def add_Suc_right)

lemma fastunpack16_32_eq: "fastunpack16_32 = unpack_short 32 16"
  by (rule ext) (simp add: fastunpack16_32_def unpack_short_simps del: One_nat_def add_Suc_right)

lemma fastunpack17_32_eq: "fastunpack17_32 = unpack_short 32 17"
  by (rule ext) (simp add: fastunpack17_32_def unpack_short_simps del: One_nat_def add_Suc_right)

lemma fastunpack18_32_eq: "fastunpack18_32 = unpack_short 32 18"
  by (rule ext) (simp add: fastunpack18_32_def unpack_short_simps del: One_nat_def add_Suc_right)

lemma fastunpack19_32_eq: "fastunpack19_32 = unpack_short 32 19"
  by (rule ext) (simp add: fastunpack19_32_def unpack_short_simps del: One_nat_def add_Suc_right)

lemma fastunpack20_32_eq: "fastunpack20_32 = unpack_short 32 20"
  by (rule ext) (simp add: fastunpack20_32_def unpack_short_simps del: One_nat_def add_Suc_right)

lemma fastunpack21_32_eq: "fastunpack21_32 = unpack_short 32 21"
  by (rule ext) (simp add: fastunpack21_32_def unpack_short_simps del: One_nat_def add_Suc_right)

lemma fastunpack22_32_eq: "fastunpack22_32 = unpack_short 32 22"
  by (rule ext) (simp add: fastunpack22_32_def unpack_short_simps del: One_nat_def add_Suc_right)

lemma fastunpack23_32_eq: "fastunpack23_32 = unpack_short 32 23"
  by (rule ext) (simp add: fastunpack23_32_def unpack_short_simps del: One_nat_def add_Suc_right)

lemma fastunpack24_32_eq: "fastunpack24_32 = unpack_short 32 24"
  by (rule ext) (simp add: fastunpack24_32_def unpack_short_simps del: One_nat_def add_Suc_right)

lemma fastunpack25_32_eq: "fastunpack25_32 = unpack_short 32 25"
  by (rule ext) (simp add: fastunpack25_32_def unpack_short_simps del: One_nat_def add_Suc_right)

lemma fastunpack26_32_eq: "fastunpack26_32 = unpack_short 32 26"
  by (rule ext) (simp add: fastunpack26_32_def unpack_short_simps del: One_nat_def add_Suc_right)

lemma fastunpack27_32_eq: "fastunpack27_32 = unpack_short 32 27"
  by (rule ext) (simp add: fastunpack27_32_def unpack_short_simps del: One_nat_def add_Suc_right)

lemma fastunpack28_32_eq: "fastunpack28_32 = unpack_short 32 28"
  by (rule ext) (simp add: fastunpack28_32_def unpack_short_simps del: One_nat_def add_Suc_right)

lemma fastunpack29_32_eq: "fastunpack29_32 = unpack_short 32 29"
  by (rule ext) (simp add: fastunpack29_32_def unpack_short_simps del: One_nat_def add_Suc_right)

lemma fastunpack30_32_eq: "fastunpack30_32 = unpack_short 32 30"
  by (rule ext) (simp add: fastunpack30_32_def unpack_short_simps del: One_nat_def add_Suc_right)

lemma fastunpack31_32_eq: "fastunpack31_32 = unpack_short 32 31"
  by (rule ext) (simp add: fastunpack31_32_def unpack_short_simps del: One_nat_def add_Suc_right)

lemma fastunpack32_32_eq: "fastunpack32_32 = unpack_short 32 32"
  by (rule ext) (simp add: fastunpack32_32_def unpack_short_simps del: One_nat_def add_Suc_right)

section \<open>The routines in the order of their widths\<close>

definition fastunpack_8_table :: "(u32 list \<Rightarrow> u32 list \<times> nat) list" where
  "fastunpack_8_table =
    [nullunpacker8, fastunpack1_8, fastunpack2_8, fastunpack3_8, fastunpack4_8, fastunpack5_8, fastunpack6_8,
     fastunpack7_8, fastunpack8_8, fastunpack9_8, fastunpack10_8, fastunpack11_8, fastunpack12_8, fastunpack13_8,
     fastunpack14_8, fastunpack15_8, fastunpack16_8, fastunpack17_8, fastunpack18_8, fastunpack19_8, fastunpack20_8,
     fastunpack21_8, fastunpack22_8, fastunpack23_8, fastunpack24_8, fastunpack25_8, fastunpack26_8, fastunpack27_8,
     fastunpack28_8, fastunpack29_8, fastunpack30_8, fastunpack31_8, fastunpack32_8]"

lemma fastunpack_8_table_eq: "fastunpack_8_table = map (unpack_short 8) [0..<33]"
  by (simp add: fastunpack_8_table_def
    nullunpacker8_eq fastunpack1_8_eq fastunpack2_8_eq fastunpack3_8_eq fastunpack4_8_eq fastunpack5_8_eq
    fastunpack6_8_eq fastunpack7_8_eq fastunpack8_8_eq fastunpack9_8_eq fastunpack10_8_eq fastunpack11_8_eq
    fastunpack12_8_eq fastunpack13_8_eq fastunpack14_8_eq fastunpack15_8_eq fastunpack16_8_eq fastunpack17_8_eq
    fastunpack18_8_eq fastunpack19_8_eq fastunpack20_8_eq fastunpack21_8_eq fastunpack22_8_eq fastunpack23_8_eq
    fastunpack24_8_eq fastunpack25_8_eq fastunpack26_8_eq fastunpack27_8_eq fastunpack28_8_eq fastunpack29_8_eq
    fastunpack30_8_eq fastunpack31_8_eq fastunpack32_8_eq
    upt_step del: One_nat_def add_Suc_right)

definition fastunpack_16_table :: "(u32 list \<Rightarrow> u32 list \<times> nat) list" where
  "fastunpack_16_table =
    [nullunpacker16, fastunpack1_16, fastunpack2_16, fastunpack3_16, fastunpack4_16, fastunpack5_16, fastunpack6_16,
     fastunpack7_16, fastunpack8_16, fastunpack9_16, fastunpack10_16, fastunpack11_16, fastunpack12_16,
     fastunpack13_16, fastunpack14_16, fastunpack15_16, fastunpack16_16, fastunpack17_16, fastunpack18_16,
     fastunpack19_16, fastunpack20_16, fastunpack21_16, fastunpack22_16, fastunpack23_16, fastunpack24_16,
     fastunpack25_16, fastunpack26_16, fastunpack27_16, fastunpack28_16, fastunpack29_16, fastunpack30_16,
     fastunpack31_16, fastunpack32_16]"

lemma fastunpack_16_table_eq: "fastunpack_16_table = map (unpack_short 16) [0..<33]"
  by (simp add: fastunpack_16_table_def
    nullunpacker16_eq fastunpack1_16_eq fastunpack2_16_eq fastunpack3_16_eq fastunpack4_16_eq fastunpack5_16_eq
    fastunpack6_16_eq fastunpack7_16_eq fastunpack8_16_eq fastunpack9_16_eq fastunpack10_16_eq fastunpack11_16_eq
    fastunpack12_16_eq fastunpack13_16_eq fastunpack14_16_eq fastunpack15_16_eq fastunpack16_16_eq
    fastunpack17_16_eq fastunpack18_16_eq fastunpack19_16_eq fastunpack20_16_eq fastunpack21_16_eq
    fastunpack22_16_eq fastunpack23_16_eq fastunpack24_16_eq fastunpack25_16_eq fastunpack26_16_eq
    fastunpack27_16_eq fastunpack28_16_eq fastunpack29_16_eq fastunpack30_16_eq fastunpack31_16_eq
    fastunpack32_16_eq
    upt_step del: One_nat_def add_Suc_right)

definition fastunpack_24_table :: "(u32 list \<Rightarrow> u32 list \<times> nat) list" where
  "fastunpack_24_table =
    [nullunpacker24, fastunpack1_24, fastunpack2_24, fastunpack3_24, fastunpack4_24, fastunpack5_24, fastunpack6_24,
     fastunpack7_24, fastunpack8_24, fastunpack9_24, fastunpack10_24, fastunpack11_24, fastunpack12_24,
     fastunpack13_24, fastunpack14_24, fastunpack15_24, fastunpack16_24, fastunpack17_24, fastunpack18_24,
     fastunpack19_24, fastunpack20_24, fastunpack21_24, fastunpack22_24, fastunpack23_24, fastunpack24_24,
     fastunpack25_24, fastunpack26_24, fastunpack27_24, fastunpack28_24, fastunpack29_24, fastunpack30_24,
     fastunpack31_24, fastunpack32_24]"

lemma fastunpack_24_table_eq: "fastunpack_24_table = map (unpack_short 24) [0..<33]"
  by (simp add: fastunpack_24_table_def
    nullunpacker24_eq fastunpack1_24_eq fastunpack2_24_eq fastunpack3_24_eq fastunpack4_24_eq fastunpack5_24_eq
    fastunpack6_24_eq fastunpack7_24_eq fastunpack8_24_eq fastunpack9_24_eq fastunpack10_24_eq fastunpack11_24_eq
    fastunpack12_24_eq fastunpack13_24_eq fastunpack14_24_eq fastunpack15_24_eq fastunpack16_24_eq
    fastunpack17_24_eq fastunpack18_24_eq fastunpack19_24_eq fastunpack20_24_eq fastunpack21_24_eq
    fastunpack22_24_eq fastunpack23_24_eq fastunpack24_24_eq fastunpack25_24_eq fastunpack26_24_eq
    fastunpack27_24_eq fastunpack28_24_eq fastunpack29_24_eq fastunpack30_24_eq fastunpack31_24_eq
    fastunpack32_24_eq
    upt_step del: One_nat_def add_Suc_right)

definition fastunpack_32_table :: "(u32 list \<Rightarrow> u32 list \<times> nat) list" where
  "fastunpack_32_table =
    [nullunpacker32, fastunpack1_32, fastunpack2_32, fastunpack3_32, fastunpack4_32, fastunpack5_32, fastunpack6_32,
     fastunpack7_32, fastunpack8_32, fastunpack9_32, fastunpack10_32, fastunpack11_32, fastunpack12_32,
     fastunpack13_32, fastunpack14_32, fastunpack15_32, fastunpack16_32, fastunpack17_32, fastunpack18_32,
     fastunpack19_32, fastunpack20_32, fastunpack21_32, fastunpack22_32, fastunpack23_32, fastunpack24_32,
     fastunpack25_32, fastunpack26_32, fastunpack27_32, fastunpack28_32, fastunpack29_32, fastunpack30_32,
     fastunpack31_32, fastunpack32_32]"

lemma fastunpack_32_table_eq: "fastunpack_32_table = map (unpack_short 32) [0..<33]"
  by (simp add: fastunpack_32_table_def
    nullunpacker32_eq fastunpack1_32_eq fastunpack2_32_eq fastunpack3_32_eq fastunpack4_32_eq fastunpack5_32_eq
    fastunpack6_32_eq fastunpack7_32_eq fastunpack8_32_eq fastunpack9_32_eq fastunpack10_32_eq fastunpack11_32_eq
    fastunpack12_32_eq fastunpack13_32_eq fastunpack14_32_eq fastunpack15_32_eq fastunpack16_32_eq
    fastunpack17_32_eq fastunpack18_32_eq fastunpack19_32_eq fastunpack20_32_eq fastunpack21_32_eq
    fastunpack22_32_eq fastunpack23_32_eq fastunpack24_32_eq fastunpack25_32_eq fastunpack26_32_eq
    fastunpack27_32_eq fastunpack28_32_eq fastunpack29_32_eq fastunpack30_32_eq fastunpack31_32_eq
    fastunpack32_32_eq
    upt_step del: One_nat_def add_Suc_right)

end
