(* ===== verification/Aligned_Pack.thy ===== *)
theory Aligned_Pack
  imports Bitpack_Short
begin

text \<open>
  The unrolled routines \<open>__fastpackwithoutmaskB_N\<close> of \<open>source/util/compression/int/fastpfor/bitpackingaligned.cpp\<close>, which pack \<open>N\<close> integers of \<open>B\<close>
  bits for \<open>N\<close> one of 8, 16, 24 and 32. Each gives the words stored through \<open>out\<close>, behind which the returned pointer stands, and is the reference of its
  width.
\<close>

section \<open>The routines\<close>

definition nullpacker :: "u32 list \<Rightarrow> u32 list" where
  "nullpacker inp = []"

definition fastpackwithoutmask1_8 :: "u32 list \<Rightarrow> u32 list" where
  "fastpackwithoutmask1_8 inp =
    [accum (inp ! 0)
       [push_bit 1 (inp ! 1), push_bit 2 (inp ! 2), push_bit 3 (inp ! 3), push_bit 4 (inp ! 4), push_bit 5 (inp ! 5),
        push_bit 6 (inp ! 6), push_bit 7 (inp ! 7)]]"

definition fastpackwithoutmask2_8 :: "u32 list \<Rightarrow> u32 list" where
  "fastpackwithoutmask2_8 inp =
    [accum (inp ! 0)
       [push_bit 2 (inp ! 1), push_bit 4 (inp ! 2), push_bit 6 (inp ! 3), push_bit 8 (inp ! 4), push_bit 10 (inp ! 5),
        push_bit 12 (inp ! 6), push_bit 14 (inp ! 7)]]"

definition fastpackwithoutmask3_8 :: "u32 list \<Rightarrow> u32 list" where
  "fastpackwithoutmask3_8 inp =
    [accum (inp ! 0)
       [push_bit 3 (inp ! 1), push_bit 6 (inp ! 2), push_bit 9 (inp ! 3), push_bit 12 (inp ! 4), push_bit 15 (inp ! 5),
        push_bit 18 (inp ! 6), push_bit 21 (inp ! 7)]]"

definition fastpackwithoutmask4_8 :: "u32 list \<Rightarrow> u32 list" where
  "fastpackwithoutmask4_8 inp =
    [accum (inp ! 0)
       [push_bit 4 (inp ! 1), push_bit 8 (inp ! 2), push_bit 12 (inp ! 3), push_bit 16 (inp ! 4),
        push_bit 20 (inp ! 5), push_bit 24 (inp ! 6), push_bit 28 (inp ! 7)]]"

definition fastpackwithoutmask5_8 :: "u32 list \<Rightarrow> u32 list" where
  "fastpackwithoutmask5_8 inp =
    [accum (inp ! 0)
       [push_bit 5 (inp ! 1), push_bit 10 (inp ! 2), push_bit 15 (inp ! 3), push_bit 20 (inp ! 4),
        push_bit 25 (inp ! 5), push_bit 30 (inp ! 6)],
     accum (drop_bit (5 - 3) (inp ! 6))
       [push_bit 3 (inp ! 7)]]"

definition fastpackwithoutmask6_8 :: "u32 list \<Rightarrow> u32 list" where
  "fastpackwithoutmask6_8 inp =
    [accum (inp ! 0)
       [push_bit 6 (inp ! 1), push_bit 12 (inp ! 2), push_bit 18 (inp ! 3), push_bit 24 (inp ! 4), push_bit 30 (inp ! 5)],
     accum (drop_bit (6 - 4) (inp ! 5))
       [push_bit 4 (inp ! 6), push_bit 10 (inp ! 7)]]"

definition fastpackwithoutmask7_8 :: "u32 list \<Rightarrow> u32 list" where
  "fastpackwithoutmask7_8 inp =
    [accum (inp ! 0)
       [push_bit 7 (inp ! 1), push_bit 14 (inp ! 2), push_bit 21 (inp ! 3), push_bit 28 (inp ! 4)],
     accum (drop_bit (7 - 3) (inp ! 4))
       [push_bit 3 (inp ! 5), push_bit 10 (inp ! 6), push_bit 17 (inp ! 7)]]"

definition fastpackwithoutmask8_8 :: "u32 list \<Rightarrow> u32 list" where
  "fastpackwithoutmask8_8 inp =
    [accum (inp ! 0)
       [push_bit 8 (inp ! 1), push_bit 16 (inp ! 2), push_bit 24 (inp ! 3)],
     accum (inp ! 4)
       [push_bit 8 (inp ! 5), push_bit 16 (inp ! 6), push_bit 24 (inp ! 7)]]"

definition fastpackwithoutmask9_8 :: "u32 list \<Rightarrow> u32 list" where
  "fastpackwithoutmask9_8 inp =
    [accum (inp ! 0)
       [push_bit 9 (inp ! 1), push_bit 18 (inp ! 2), push_bit 27 (inp ! 3)],
     accum (drop_bit (9 - 4) (inp ! 3))
       [push_bit 4 (inp ! 4), push_bit 13 (inp ! 5), push_bit 22 (inp ! 6), push_bit 31 (inp ! 7)],
     accum (drop_bit (9 - 8) (inp ! 7)) []]"

definition fastpackwithoutmask10_8 :: "u32 list \<Rightarrow> u32 list" where
  "fastpackwithoutmask10_8 inp =
    [accum (inp ! 0)
       [push_bit 10 (inp ! 1), push_bit 20 (inp ! 2), push_bit 30 (inp ! 3)],
     accum (drop_bit (10 - 8) (inp ! 3))
       [push_bit 8 (inp ! 4), push_bit 18 (inp ! 5), push_bit 28 (inp ! 6)],
     accum (drop_bit (10 - 6) (inp ! 6))
       [push_bit 6 (inp ! 7)]]"

definition fastpackwithoutmask11_8 :: "u32 list \<Rightarrow> u32 list" where
  "fastpackwithoutmask11_8 inp =
    [accum (inp ! 0)
       [push_bit 11 (inp ! 1), push_bit 22 (inp ! 2)],
     accum (drop_bit (11 - 1) (inp ! 2))
       [push_bit 1 (inp ! 3), push_bit 12 (inp ! 4), push_bit 23 (inp ! 5)],
     accum (drop_bit (11 - 2) (inp ! 5))
       [push_bit 2 (inp ! 6), push_bit 13 (inp ! 7)]]"

definition fastpackwithoutmask12_8 :: "u32 list \<Rightarrow> u32 list" where
  "fastpackwithoutmask12_8 inp =
    [accum (inp ! 0)
       [push_bit 12 (inp ! 1), push_bit 24 (inp ! 2)],
     accum (drop_bit (12 - 4) (inp ! 2))
       [push_bit 4 (inp ! 3), push_bit 16 (inp ! 4), push_bit 28 (inp ! 5)],
     accum (drop_bit (12 - 8) (inp ! 5))
       [push_bit 8 (inp ! 6), push_bit 20 (inp ! 7)]]"

definition fastpackwithoutmask13_8 :: "u32 list \<Rightarrow> u32 list" where
  "fastpackwithoutmask13_8 inp =
    [accum (inp ! 0)
       [push_bit 13 (inp ! 1), push_bit 26 (inp ! 2)],
     accum (drop_bit (13 - 7) (inp ! 2))
       [push_bit 7 (inp ! 3), push_bit 20 (inp ! 4)],
     accum (drop_bit (13 - 1) (inp ! 4))
       [push_bit 1 (inp ! 5), push_bit 14 (inp ! 6), push_bit 27 (inp ! 7)],
     accum (drop_bit (13 - 8) (inp ! 7)) []]"

definition fastpackwithoutmask14_8 :: "u32 list \<Rightarrow> u32 list" where
  "fastpackwithoutmask14_8 inp =
    [accum (inp ! 0)
       [push_bit 14 (inp ! 1), push_bit 28 (inp ! 2)],
     accum (drop_bit (14 - 10) (inp ! 2))
       [push_bit 10 (inp ! 3), push_bit 24 (inp ! 4)],
     accum (drop_bit (14 - 6) (inp ! 4))
       [push_bit 6 (inp ! 5), push_bit 20 (inp ! 6)],
     accum (drop_bit (14 - 2) (inp ! 6))
       [push_bit 2 (inp ! 7)]]"

definition fastpackwithoutmask15_8 :: "u32 list \<Rightarrow> u32 list" where
  "fastpackwithoutmask15_8 inp =
    [accum (inp ! 0)
       [push_bit 15 (inp ! 1), push_bit 30 (inp ! 2)],
     accum (drop_bit (15 - 13) (inp ! 2))
       [push_bit 13 (inp ! 3), push_bit 28 (inp ! 4)],
     accum (drop_bit (15 - 11) (inp ! 4))
       [push_bit 11 (inp ! 5), push_bit 26 (inp ! 6)],
     accum (drop_bit (15 - 9) (inp ! 6))
       [push_bit 9 (inp ! 7)]]"

definition fastpackwithoutmask16_8 :: "u32 list \<Rightarrow> u32 list" where
  "fastpackwithoutmask16_8 inp =
    [accum (inp ! 0)
       [push_bit 16 (inp ! 1)],
     accum (inp ! 2)
       [push_bit 16 (inp ! 3)],
     accum (inp ! 4)
       [push_bit 16 (inp ! 5)],
     accum (inp ! 6)
       [push_bit 16 (inp ! 7)]]"

definition fastpackwithoutmask17_8 :: "u32 list \<Rightarrow> u32 list" where
  "fastpackwithoutmask17_8 inp =
    [accum (inp ! 0)
       [push_bit 17 (inp ! 1)],
     accum (drop_bit (17 - 2) (inp ! 1))
       [push_bit 2 (inp ! 2), push_bit 19 (inp ! 3)],
     accum (drop_bit (17 - 4) (inp ! 3))
       [push_bit 4 (inp ! 4), push_bit 21 (inp ! 5)],
     accum (drop_bit (17 - 6) (inp ! 5))
       [push_bit 6 (inp ! 6), push_bit 23 (inp ! 7)],
     accum (drop_bit (17 - 8) (inp ! 7)) []]"

definition fastpackwithoutmask18_8 :: "u32 list \<Rightarrow> u32 list" where
  "fastpackwithoutmask18_8 inp =
    [accum (inp ! 0)
       [push_bit 18 (inp ! 1)],
     accum (drop_bit (18 - 4) (inp ! 1))
       [push_bit 4 (inp ! 2), push_bit 22 (inp ! 3)],
     accum (drop_bit (18 - 8) (inp ! 3))
       [push_bit 8 (inp ! 4), push_bit 26 (inp ! 5)],
     accum (drop_bit (18 - 12) (inp ! 5))
       [push_bit 12 (inp ! 6), push_bit 30 (inp ! 7)],
     accum (drop_bit (18 - 16) (inp ! 7)) []]"

definition fastpackwithoutmask19_8 :: "u32 list \<Rightarrow> u32 list" where
  "fastpackwithoutmask19_8 inp =
    [accum (inp ! 0)
       [push_bit 19 (inp ! 1)],
     accum (drop_bit (19 - 6) (inp ! 1))
       [push_bit 6 (inp ! 2), push_bit 25 (inp ! 3)],
     accum (drop_bit (19 - 12) (inp ! 3))
       [push_bit 12 (inp ! 4), push_bit 31 (inp ! 5)],
     accum (drop_bit (19 - 18) (inp ! 5))
       [push_bit 18 (inp ! 6)],
     accum (drop_bit (19 - 5) (inp ! 6))
       [push_bit 5 (inp ! 7)]]"

definition fastpackwithoutmask20_8 :: "u32 list \<Rightarrow> u32 list" where
  "fastpackwithoutmask20_8 inp =
    [accum (inp ! 0)
       [push_bit 20 (inp ! 1)],
     accum (drop_bit (20 - 8) (inp ! 1))
       [push_bit 8 (inp ! 2), push_bit 28 (inp ! 3)],
     accum (drop_bit (20 - 16) (inp ! 3))
       [push_bit 16 (inp ! 4)],
     accum (drop_bit (20 - 4) (inp ! 4))
       [push_bit 4 (inp ! 5), push_bit 24 (inp ! 6)],
     accum (drop_bit (20 - 12) (inp ! 6))
       [push_bit 12 (inp ! 7)]]"

definition fastpackwithoutmask21_8 :: "u32 list \<Rightarrow> u32 list" where
  "fastpackwithoutmask21_8 inp =
    [accum (inp ! 0)
       [push_bit 21 (inp ! 1)],
     accum (drop_bit (21 - 10) (inp ! 1))
       [push_bit 10 (inp ! 2), push_bit 31 (inp ! 3)],
     accum (drop_bit (21 - 20) (inp ! 3))
       [push_bit 20 (inp ! 4)],
     accum (drop_bit (21 - 9) (inp ! 4))
       [push_bit 9 (inp ! 5), push_bit 30 (inp ! 6)],
     accum (drop_bit (21 - 19) (inp ! 6))
       [push_bit 19 (inp ! 7)],
     accum (drop_bit (21 - 8) (inp ! 7)) []]"

definition fastpackwithoutmask22_8 :: "u32 list \<Rightarrow> u32 list" where
  "fastpackwithoutmask22_8 inp =
    [accum (inp ! 0)
       [push_bit 22 (inp ! 1)],
     accum (drop_bit (22 - 12) (inp ! 1))
       [push_bit 12 (inp ! 2)],
     accum (drop_bit (22 - 2) (inp ! 2))
       [push_bit 2 (inp ! 3), push_bit 24 (inp ! 4)],
     accum (drop_bit (22 - 14) (inp ! 4))
       [push_bit 14 (inp ! 5)],
     accum (drop_bit (22 - 4) (inp ! 5))
       [push_bit 4 (inp ! 6), push_bit 26 (inp ! 7)],
     accum (drop_bit (22 - 16) (inp ! 7)) []]"

definition fastpackwithoutmask23_8 :: "u32 list \<Rightarrow> u32 list" where
  "fastpackwithoutmask23_8 inp =
    [accum (inp ! 0)
       [push_bit 23 (inp ! 1)],
     accum (drop_bit (23 - 14) (inp ! 1))
       [push_bit 14 (inp ! 2)],
     accum (drop_bit (23 - 5) (inp ! 2))
       [push_bit 5 (inp ! 3), push_bit 28 (inp ! 4)],
     accum (drop_bit (23 - 19) (inp ! 4))
       [push_bit 19 (inp ! 5)],
     accum (drop_bit (23 - 10) (inp ! 5))
       [push_bit 10 (inp ! 6)],
     accum (drop_bit (23 - 1) (inp ! 6))
       [push_bit 1 (inp ! 7)]]"

definition fastpackwithoutmask24_8 :: "u32 list \<Rightarrow> u32 list" where
  "fastpackwithoutmask24_8 inp =
    [accum (inp ! 0)
       [push_bit 24 (inp ! 1)],
     accum (drop_bit (24 - 16) (inp ! 1))
       [push_bit 16 (inp ! 2)],
     accum (drop_bit (24 - 8) (inp ! 2))
       [push_bit 8 (inp ! 3)],
     accum (inp ! 4)
       [push_bit 24 (inp ! 5)],
     accum (drop_bit (24 - 16) (inp ! 5))
       [push_bit 16 (inp ! 6)],
     accum (drop_bit (24 - 8) (inp ! 6))
       [push_bit 8 (inp ! 7)]]"

definition fastpackwithoutmask25_8 :: "u32 list \<Rightarrow> u32 list" where
  "fastpackwithoutmask25_8 inp =
    [accum (inp ! 0)
       [push_bit 25 (inp ! 1)],
     accum (drop_bit (25 - 18) (inp ! 1))
       [push_bit 18 (inp ! 2)],
     accum (drop_bit (25 - 11) (inp ! 2))
       [push_bit 11 (inp ! 3)],
     accum (drop_bit (25 - 4) (inp ! 3))
       [push_bit 4 (inp ! 4), push_bit 29 (inp ! 5)],
     accum (drop_bit (25 - 22) (inp ! 5))
       [push_bit 22 (inp ! 6)],
     accum (drop_bit (25 - 15) (inp ! 6))
       [push_bit 15 (inp ! 7)],
     accum (drop_bit (25 - 8) (inp ! 7)) []]"

definition fastpackwithoutmask26_8 :: "u32 list \<Rightarrow> u32 list" where
  "fastpackwithoutmask26_8 inp =
    [accum (inp ! 0)
       [push_bit 26 (inp ! 1)],
     accum (drop_bit (26 - 20) (inp ! 1))
       [push_bit 20 (inp ! 2)],
     accum (drop_bit (26 - 14) (inp ! 2))
       [push_bit 14 (inp ! 3)],
     accum (drop_bit (26 - 8) (inp ! 3))
       [push_bit 8 (inp ! 4)],
     accum (drop_bit (26 - 2) (inp ! 4))
       [push_bit 2 (inp ! 5), push_bit 28 (inp ! 6)],
     accum (drop_bit (26 - 22) (inp ! 6))
       [push_bit 22 (inp ! 7)],
     accum (drop_bit (26 - 16) (inp ! 7)) []]"

definition fastpackwithoutmask27_8 :: "u32 list \<Rightarrow> u32 list" where
  "fastpackwithoutmask27_8 inp =
    [accum (inp ! 0)
       [push_bit 27 (inp ! 1)],
     accum (drop_bit (27 - 22) (inp ! 1))
       [push_bit 22 (inp ! 2)],
     accum (drop_bit (27 - 17) (inp ! 2))
       [push_bit 17 (inp ! 3)],
     accum (drop_bit (27 - 12) (inp ! 3))
       [push_bit 12 (inp ! 4)],
     accum (drop_bit (27 - 7) (inp ! 4))
       [push_bit 7 (inp ! 5)],
     accum (drop_bit (27 - 2) (inp ! 5))
       [push_bit 2 (inp ! 6), push_bit 29 (inp ! 7)],
     accum (drop_bit (27 - 24) (inp ! 7)) []]"

definition fastpackwithoutmask28_8 :: "u32 list \<Rightarrow> u32 list" where
  "fastpackwithoutmask28_8 inp =
    [accum (inp ! 0)
       [push_bit 28 (inp ! 1)],
     accum (drop_bit (28 - 24) (inp ! 1))
       [push_bit 24 (inp ! 2)],
     accum (drop_bit (28 - 20) (inp ! 2))
       [push_bit 20 (inp ! 3)],
     accum (drop_bit (28 - 16) (inp ! 3))
       [push_bit 16 (inp ! 4)],
     accum (drop_bit (28 - 12) (inp ! 4))
       [push_bit 12 (inp ! 5)],
     accum (drop_bit (28 - 8) (inp ! 5))
       [push_bit 8 (inp ! 6)],
     accum (drop_bit (28 - 4) (inp ! 6))
       [push_bit 4 (inp ! 7)]]"

definition fastpackwithoutmask29_8 :: "u32 list \<Rightarrow> u32 list" where
  "fastpackwithoutmask29_8 inp =
    [accum (inp ! 0)
       [push_bit 29 (inp ! 1)],
     accum (drop_bit (29 - 26) (inp ! 1))
       [push_bit 26 (inp ! 2)],
     accum (drop_bit (29 - 23) (inp ! 2))
       [push_bit 23 (inp ! 3)],
     accum (drop_bit (29 - 20) (inp ! 3))
       [push_bit 20 (inp ! 4)],
     accum (drop_bit (29 - 17) (inp ! 4))
       [push_bit 17 (inp ! 5)],
     accum (drop_bit (29 - 14) (inp ! 5))
       [push_bit 14 (inp ! 6)],
     accum (drop_bit (29 - 11) (inp ! 6))
       [push_bit 11 (inp ! 7)],
     accum (drop_bit (29 - 8) (inp ! 7)) []]"

definition fastpackwithoutmask30_8 :: "u32 list \<Rightarrow> u32 list" where
  "fastpackwithoutmask30_8 inp =
    [accum (inp ! 0)
       [push_bit 30 (inp ! 1)],
     accum (drop_bit (30 - 28) (inp ! 1))
       [push_bit 28 (inp ! 2)],
     accum (drop_bit (30 - 26) (inp ! 2))
       [push_bit 26 (inp ! 3)],
     accum (drop_bit (30 - 24) (inp ! 3))
       [push_bit 24 (inp ! 4)],
     accum (drop_bit (30 - 22) (inp ! 4))
       [push_bit 22 (inp ! 5)],
     accum (drop_bit (30 - 20) (inp ! 5))
       [push_bit 20 (inp ! 6)],
     accum (drop_bit (30 - 18) (inp ! 6))
       [push_bit 18 (inp ! 7)],
     accum (drop_bit (30 - 16) (inp ! 7)) []]"

definition fastpackwithoutmask31_8 :: "u32 list \<Rightarrow> u32 list" where
  "fastpackwithoutmask31_8 inp =
    [accum (inp ! 0)
       [push_bit 31 (inp ! 1)],
     accum (drop_bit (31 - 30) (inp ! 1))
       [push_bit 30 (inp ! 2)],
     accum (drop_bit (31 - 29) (inp ! 2))
       [push_bit 29 (inp ! 3)],
     accum (drop_bit (31 - 28) (inp ! 3))
       [push_bit 28 (inp ! 4)],
     accum (drop_bit (31 - 27) (inp ! 4))
       [push_bit 27 (inp ! 5)],
     accum (drop_bit (31 - 26) (inp ! 5))
       [push_bit 26 (inp ! 6)],
     accum (drop_bit (31 - 25) (inp ! 6))
       [push_bit 25 (inp ! 7)],
     accum (drop_bit (31 - 24) (inp ! 7)) []]"

definition fastpackwithoutmask32_8 :: "u32 list \<Rightarrow> u32 list" where
  "fastpackwithoutmask32_8 inp =
    [accum (inp ! 0) [],
     accum (inp ! 1) [],
     accum (inp ! 2) [],
     accum (inp ! 3) [],
     accum (inp ! 4) [],
     accum (inp ! 5) [],
     accum (inp ! 6) [],
     accum (inp ! 7) []]"

definition fastpackwithoutmask1_16 :: "u32 list \<Rightarrow> u32 list" where
  "fastpackwithoutmask1_16 inp =
    [accum (inp ! 0)
       [push_bit 1 (inp ! 1), push_bit 2 (inp ! 2), push_bit 3 (inp ! 3), push_bit 4 (inp ! 4), push_bit 5 (inp ! 5),
        push_bit 6 (inp ! 6), push_bit 7 (inp ! 7), push_bit 8 (inp ! 8), push_bit 9 (inp ! 9), push_bit 10 (inp ! 10),
        push_bit 11 (inp ! 11), push_bit 12 (inp ! 12), push_bit 13 (inp ! 13), push_bit 14 (inp ! 14),
        push_bit 15 (inp ! 15)]]"

definition fastpackwithoutmask2_16 :: "u32 list \<Rightarrow> u32 list" where
  "fastpackwithoutmask2_16 inp =
    [accum (inp ! 0)
       [push_bit 2 (inp ! 1), push_bit 4 (inp ! 2), push_bit 6 (inp ! 3), push_bit 8 (inp ! 4), push_bit 10 (inp ! 5),
        push_bit 12 (inp ! 6), push_bit 14 (inp ! 7), push_bit 16 (inp ! 8), push_bit 18 (inp ! 9),
        push_bit 20 (inp ! 10), push_bit 22 (inp ! 11), push_bit 24 (inp ! 12), push_bit 26 (inp ! 13),
        push_bit 28 (inp ! 14), push_bit 30 (inp ! 15)]]"

definition fastpackwithoutmask3_16 :: "u32 list \<Rightarrow> u32 list" where
  "fastpackwithoutmask3_16 inp =
    [accum (inp ! 0)
       [push_bit 3 (inp ! 1), push_bit 6 (inp ! 2), push_bit 9 (inp ! 3), push_bit 12 (inp ! 4), push_bit 15 (inp ! 5),
        push_bit 18 (inp ! 6), push_bit 21 (inp ! 7), push_bit 24 (inp ! 8), push_bit 27 (inp ! 9),
        push_bit 30 (inp ! 10)],
     accum (drop_bit (3 - 1) (inp ! 10))
       [push_bit 1 (inp ! 11), push_bit 4 (inp ! 12), push_bit 7 (inp ! 13), push_bit 10 (inp ! 14),
        push_bit 13 (inp ! 15)]]"

definition fastpackwithoutmask4_16 :: "u32 list \<Rightarrow> u32 list" where
  "fastpackwithoutmask4_16 inp =
    [accum (inp ! 0)
       [push_bit 4 (inp ! 1), push_bit 8 (inp ! 2), push_bit 12 (inp ! 3), push_bit 16 (inp ! 4),
        push_bit 20 (inp ! 5), push_bit 24 (inp ! 6), push_bit 28 (inp ! 7)],
     accum (inp ! 8)
       [push_bit 4 (inp ! 9), push_bit 8 (inp ! 10), push_bit 12 (inp ! 11), push_bit 16 (inp ! 12),
        push_bit 20 (inp ! 13), push_bit 24 (inp ! 14), push_bit 28 (inp ! 15)]]"

definition fastpackwithoutmask5_16 :: "u32 list \<Rightarrow> u32 list" where
  "fastpackwithoutmask5_16 inp =
    [accum (inp ! 0)
       [push_bit 5 (inp ! 1), push_bit 10 (inp ! 2), push_bit 15 (inp ! 3), push_bit 20 (inp ! 4),
        push_bit 25 (inp ! 5), push_bit 30 (inp ! 6)],
     accum (drop_bit (5 - 3) (inp ! 6))
       [push_bit 3 (inp ! 7), push_bit 8 (inp ! 8), push_bit 13 (inp ! 9), push_bit 18 (inp ! 10),
        push_bit 23 (inp ! 11), push_bit 28 (inp ! 12)],
     accum (drop_bit (5 - 1) (inp ! 12))
       [push_bit 1 (inp ! 13), push_bit 6 (inp ! 14), push_bit 11 (inp ! 15)]]"

definition fastpackwithoutmask6_16 :: "u32 list \<Rightarrow> u32 list" where
  "fastpackwithoutmask6_16 inp =
    [accum (inp ! 0)
       [push_bit 6 (inp ! 1), push_bit 12 (inp ! 2), push_bit 18 (inp ! 3), push_bit 24 (inp ! 4), push_bit 30 (inp ! 5)],
     accum (drop_bit (6 - 4) (inp ! 5))
       [push_bit 4 (inp ! 6), push_bit 10 (inp ! 7), push_bit 16 (inp ! 8), push_bit 22 (inp ! 9),
        push_bit 28 (inp ! 10)],
     accum (drop_bit (6 - 2) (inp ! 10))
       [push_bit 2 (inp ! 11), push_bit 8 (inp ! 12), push_bit 14 (inp ! 13), push_bit 20 (inp ! 14),
        push_bit 26 (inp ! 15)]]"

definition fastpackwithoutmask7_16 :: "u32 list \<Rightarrow> u32 list" where
  "fastpackwithoutmask7_16 inp =
    [accum (inp ! 0)
       [push_bit 7 (inp ! 1), push_bit 14 (inp ! 2), push_bit 21 (inp ! 3), push_bit 28 (inp ! 4)],
     accum (drop_bit (7 - 3) (inp ! 4))
       [push_bit 3 (inp ! 5), push_bit 10 (inp ! 6), push_bit 17 (inp ! 7), push_bit 24 (inp ! 8), push_bit 31 (inp ! 9)],
     accum (drop_bit (7 - 6) (inp ! 9))
       [push_bit 6 (inp ! 10), push_bit 13 (inp ! 11), push_bit 20 (inp ! 12), push_bit 27 (inp ! 13)],
     accum (drop_bit (7 - 2) (inp ! 13))
       [push_bit 2 (inp ! 14), push_bit 9 (inp ! 15)]]"

definition fastpackwithoutmask8_16 :: "u32 list \<Rightarrow> u32 list" where
  "fastpackwithoutmask8_16 inp =
    [accum (inp ! 0)
       [push_bit 8 (inp ! 1), push_bit 16 (inp ! 2), push_bit 24 (inp ! 3)],
     accum (inp ! 4)
       [push_bit 8 (inp ! 5), push_bit 16 (inp ! 6), push_bit 24 (inp ! 7)],
     accum (inp ! 8)
       [push_bit 8 (inp ! 9), push_bit 16 (inp ! 10), push_bit 24 (inp ! 11)],
     accum (inp ! 12)
       [push_bit 8 (inp ! 13), push_bit 16 (inp ! 14), push_bit 24 (inp ! 15)]]"

definition fastpackwithoutmask9_16 :: "u32 list \<Rightarrow> u32 list" where
  "fastpackwithoutmask9_16 inp =
    [accum (inp ! 0)
       [push_bit 9 (inp ! 1), push_bit 18 (inp ! 2), push_bit 27 (inp ! 3)],
     accum (drop_bit (9 - 4) (inp ! 3))
       [push_bit 4 (inp ! 4), push_bit 13 (inp ! 5), push_bit 22 (inp ! 6), push_bit 31 (inp ! 7)],
     accum (drop_bit (9 - 8) (inp ! 7))
       [push_bit 8 (inp ! 8), push_bit 17 (inp ! 9), push_bit 26 (inp ! 10)],
     accum (drop_bit (9 - 3) (inp ! 10))
       [push_bit 3 (inp ! 11), push_bit 12 (inp ! 12), push_bit 21 (inp ! 13), push_bit 30 (inp ! 14)],
     accum (drop_bit (9 - 7) (inp ! 14))
       [push_bit 7 (inp ! 15)]]"

definition fastpackwithoutmask10_16 :: "u32 list \<Rightarrow> u32 list" where
  "fastpackwithoutmask10_16 inp =
    [accum (inp ! 0)
       [push_bit 10 (inp ! 1), push_bit 20 (inp ! 2), push_bit 30 (inp ! 3)],
     accum (drop_bit (10 - 8) (inp ! 3))
       [push_bit 8 (inp ! 4), push_bit 18 (inp ! 5), push_bit 28 (inp ! 6)],
     accum (drop_bit (10 - 6) (inp ! 6))
       [push_bit 6 (inp ! 7), push_bit 16 (inp ! 8), push_bit 26 (inp ! 9)],
     accum (drop_bit (10 - 4) (inp ! 9))
       [push_bit 4 (inp ! 10), push_bit 14 (inp ! 11), push_bit 24 (inp ! 12)],
     accum (drop_bit (10 - 2) (inp ! 12))
       [push_bit 2 (inp ! 13), push_bit 12 (inp ! 14), push_bit 22 (inp ! 15)]]"

definition fastpackwithoutmask11_16 :: "u32 list \<Rightarrow> u32 list" where
  "fastpackwithoutmask11_16 inp =
    [accum (inp ! 0)
       [push_bit 11 (inp ! 1), push_bit 22 (inp ! 2)],
     accum (drop_bit (11 - 1) (inp ! 2))
       [push_bit 1 (inp ! 3), push_bit 12 (inp ! 4), push_bit 23 (inp ! 5)],
     accum (drop_bit (11 - 2) (inp ! 5))
       [push_bit 2 (inp ! 6), push_bit 13 (inp ! 7), push_bit 24 (inp ! 8)],
     accum (drop_bit (11 - 3) (inp ! 8))
       [push_bit 3 (inp ! 9), push_bit 14 (inp ! 10), push_bit 25 (inp ! 11)],
     accum (drop_bit (11 - 4) (inp ! 11))
       [push_bit 4 (inp ! 12), push_bit 15 (inp ! 13), push_bit 26 (inp ! 14)],
     accum (drop_bit (11 - 5) (inp ! 14))
       [push_bit 5 (inp ! 15)]]"

definition fastpackwithoutmask12_16 :: "u32 list \<Rightarrow> u32 list" where
  "fastpackwithoutmask12_16 inp =
    [accum (inp ! 0)
       [push_bit 12 (inp ! 1), push_bit 24 (inp ! 2)],
     accum (drop_bit (12 - 4) (inp ! 2))
       [push_bit 4 (inp ! 3), push_bit 16 (inp ! 4), push_bit 28 (inp ! 5)],
     accum (drop_bit (12 - 8) (inp ! 5))
       [push_bit 8 (inp ! 6), push_bit 20 (inp ! 7)],
     accum (inp ! 8)
       [push_bit 12 (inp ! 9), push_bit 24 (inp ! 10)],
     accum (drop_bit (12 - 4) (inp ! 10))
       [push_bit 4 (inp ! 11), push_bit 16 (inp ! 12), push_bit 28 (inp ! 13)],
     accum (drop_bit (12 - 8) (inp ! 13))
       [push_bit 8 (inp ! 14), push_bit 20 (inp ! 15)]]"

definition fastpackwithoutmask13_16 :: "u32 list \<Rightarrow> u32 list" where
  "fastpackwithoutmask13_16 inp =
    [accum (inp ! 0)
       [push_bit 13 (inp ! 1), push_bit 26 (inp ! 2)],
     accum (drop_bit (13 - 7) (inp ! 2))
       [push_bit 7 (inp ! 3), push_bit 20 (inp ! 4)],
     accum (drop_bit (13 - 1) (inp ! 4))
       [push_bit 1 (inp ! 5), push_bit 14 (inp ! 6), push_bit 27 (inp ! 7)],
     accum (drop_bit (13 - 8) (inp ! 7))
       [push_bit 8 (inp ! 8), push_bit 21 (inp ! 9)],
     accum (drop_bit (13 - 2) (inp ! 9))
       [push_bit 2 (inp ! 10), push_bit 15 (inp ! 11), push_bit 28 (inp ! 12)],
     accum (drop_bit (13 - 9) (inp ! 12))
       [push_bit 9 (inp ! 13), push_bit 22 (inp ! 14)],
     accum (drop_bit (13 - 3) (inp ! 14))
       [push_bit 3 (inp ! 15)]]"

definition fastpackwithoutmask14_16 :: "u32 list \<Rightarrow> u32 list" where
  "fastpackwithoutmask14_16 inp =
    [accum (inp ! 0)
       [push_bit 14 (inp ! 1), push_bit 28 (inp ! 2)],
     accum (drop_bit (14 - 10) (inp ! 2))
       [push_bit 10 (inp ! 3), push_bit 24 (inp ! 4)],
     accum (drop_bit (14 - 6) (inp ! 4))
       [push_bit 6 (inp ! 5), push_bit 20 (inp ! 6)],
     accum (drop_bit (14 - 2) (inp ! 6))
       [push_bit 2 (inp ! 7), push_bit 16 (inp ! 8), push_bit 30 (inp ! 9)],
     accum (drop_bit (14 - 12) (inp ! 9))
       [push_bit 12 (inp ! 10), push_bit 26 (inp ! 11)],
     accum (drop_bit (14 - 8) (inp ! 11))
       [push_bit 8 (inp ! 12), push_bit 22 (inp ! 13)],
     accum (drop_bit (14 - 4) (inp ! 13))
       [push_bit 4 (inp ! 14), push_bit 18 (inp ! 15)]]"

definition fastpackwithoutmask15_16 :: "u32 list \<Rightarrow> u32 list" where
  "fastpackwithoutmask15_16 inp =
    [accum (inp ! 0)
       [push_bit 15 (inp ! 1), push_bit 30 (inp ! 2)],
     accum (drop_bit (15 - 13) (inp ! 2))
       [push_bit 13 (inp ! 3), push_bit 28 (inp ! 4)],
     accum (drop_bit (15 - 11) (inp ! 4))
       [push_bit 11 (inp ! 5), push_bit 26 (inp ! 6)],
     accum (drop_bit (15 - 9) (inp ! 6))
       [push_bit 9 (inp ! 7), push_bit 24 (inp ! 8)],
     accum (drop_bit (15 - 7) (inp ! 8))
       [push_bit 7 (inp ! 9), push_bit 22 (inp ! 10)],
     accum (drop_bit (15 - 5) (inp ! 10))
       [push_bit 5 (inp ! 11), push_bit 20 (inp ! 12)],
     accum (drop_bit (15 - 3) (inp ! 12))
       [push_bit 3 (inp ! 13), push_bit 18 (inp ! 14)],
     accum (drop_bit (15 - 1) (inp ! 14))
       [push_bit 1 (inp ! 15)]]"

definition fastpackwithoutmask16_16 :: "u32 list \<Rightarrow> u32 list" where
  "fastpackwithoutmask16_16 inp =
    [accum (inp ! 0)
       [push_bit 16 (inp ! 1)],
     accum (inp ! 2)
       [push_bit 16 (inp ! 3)],
     accum (inp ! 4)
       [push_bit 16 (inp ! 5)],
     accum (inp ! 6)
       [push_bit 16 (inp ! 7)],
     accum (inp ! 8)
       [push_bit 16 (inp ! 9)],
     accum (inp ! 10)
       [push_bit 16 (inp ! 11)],
     accum (inp ! 12)
       [push_bit 16 (inp ! 13)],
     accum (inp ! 14)
       [push_bit 16 (inp ! 15)]]"

definition fastpackwithoutmask17_16 :: "u32 list \<Rightarrow> u32 list" where
  "fastpackwithoutmask17_16 inp =
    [accum (inp ! 0)
       [push_bit 17 (inp ! 1)],
     accum (drop_bit (17 - 2) (inp ! 1))
       [push_bit 2 (inp ! 2), push_bit 19 (inp ! 3)],
     accum (drop_bit (17 - 4) (inp ! 3))
       [push_bit 4 (inp ! 4), push_bit 21 (inp ! 5)],
     accum (drop_bit (17 - 6) (inp ! 5))
       [push_bit 6 (inp ! 6), push_bit 23 (inp ! 7)],
     accum (drop_bit (17 - 8) (inp ! 7))
       [push_bit 8 (inp ! 8), push_bit 25 (inp ! 9)],
     accum (drop_bit (17 - 10) (inp ! 9))
       [push_bit 10 (inp ! 10), push_bit 27 (inp ! 11)],
     accum (drop_bit (17 - 12) (inp ! 11))
       [push_bit 12 (inp ! 12), push_bit 29 (inp ! 13)],
     accum (drop_bit (17 - 14) (inp ! 13))
       [push_bit 14 (inp ! 14), push_bit 31 (inp ! 15)],
     accum (drop_bit (17 - 16) (inp ! 15)) []]"

definition fastpackwithoutmask18_16 :: "u32 list \<Rightarrow> u32 list" where
  "fastpackwithoutmask18_16 inp =
    [accum (inp ! 0)
       [push_bit 18 (inp ! 1)],
     accum (drop_bit (18 - 4) (inp ! 1))
       [push_bit 4 (inp ! 2), push_bit 22 (inp ! 3)],
     accum (drop_bit (18 - 8) (inp ! 3))
       [push_bit 8 (inp ! 4), push_bit 26 (inp ! 5)],
     accum (drop_bit (18 - 12) (inp ! 5))
       [push_bit 12 (inp ! 6), push_bit 30 (inp ! 7)],
     accum (drop_bit (18 - 16) (inp ! 7))
       [push_bit 16 (inp ! 8)],
     accum (drop_bit (18 - 2) (inp ! 8))
       [push_bit 2 (inp ! 9), push_bit 20 (inp ! 10)],
     accum (drop_bit (18 - 6) (inp ! 10))
       [push_bit 6 (inp ! 11), push_bit 24 (inp ! 12)],
     accum (drop_bit (18 - 10) (inp ! 12))
       [push_bit 10 (inp ! 13), push_bit 28 (inp ! 14)],
     accum (drop_bit (18 - 14) (inp ! 14))
       [push_bit 14 (inp ! 15)]]"

definition fastpackwithoutmask19_16 :: "u32 list \<Rightarrow> u32 list" where
  "fastpackwithoutmask19_16 inp =
    [accum (inp ! 0)
       [push_bit 19 (inp ! 1)],
     accum (drop_bit (19 - 6) (inp ! 1))
       [push_bit 6 (inp ! 2), push_bit 25 (inp ! 3)],
     accum (drop_bit (19 - 12) (inp ! 3))
       [push_bit 12 (inp ! 4), push_bit 31 (inp ! 5)],
     accum (drop_bit (19 - 18) (inp ! 5))
       [push_bit 18 (inp ! 6)],
     accum (drop_bit (19 - 5) (inp ! 6))
       [push_bit 5 (inp ! 7), push_bit 24 (inp ! 8)],
     accum (drop_bit (19 - 11) (inp ! 8))
       [push_bit 11 (inp ! 9), push_bit 30 (inp ! 10)],
     accum (drop_bit (19 - 17) (inp ! 10))
       [push_bit 17 (inp ! 11)],
     accum (drop_bit (19 - 4) (inp ! 11))
       [push_bit 4 (inp ! 12), push_bit 23 (inp ! 13)],
     accum (drop_bit (19 - 10) (inp ! 13))
       [push_bit 10 (inp ! 14), push_bit 29 (inp ! 15)],
     accum (drop_bit (19 - 16) (inp ! 15)) []]"

definition fastpackwithoutmask20_16 :: "u32 list \<Rightarrow> u32 list" where
  "fastpackwithoutmask20_16 inp =
    [accum (inp ! 0)
       [push_bit 20 (inp ! 1)],
     accum (drop_bit (20 - 8) (inp ! 1))
       [push_bit 8 (inp ! 2), push_bit 28 (inp ! 3)],
     accum (drop_bit (20 - 16) (inp ! 3))
       [push_bit 16 (inp ! 4)],
     accum (drop_bit (20 - 4) (inp ! 4))
       [push_bit 4 (inp ! 5), push_bit 24 (inp ! 6)],
     accum (drop_bit (20 - 12) (inp ! 6))
       [push_bit 12 (inp ! 7)],
     accum (inp ! 8)
       [push_bit 20 (inp ! 9)],
     accum (drop_bit (20 - 8) (inp ! 9))
       [push_bit 8 (inp ! 10), push_bit 28 (inp ! 11)],
     accum (drop_bit (20 - 16) (inp ! 11))
       [push_bit 16 (inp ! 12)],
     accum (drop_bit (20 - 4) (inp ! 12))
       [push_bit 4 (inp ! 13), push_bit 24 (inp ! 14)],
     accum (drop_bit (20 - 12) (inp ! 14))
       [push_bit 12 (inp ! 15)]]"

definition fastpackwithoutmask21_16 :: "u32 list \<Rightarrow> u32 list" where
  "fastpackwithoutmask21_16 inp =
    [accum (inp ! 0)
       [push_bit 21 (inp ! 1)],
     accum (drop_bit (21 - 10) (inp ! 1))
       [push_bit 10 (inp ! 2), push_bit 31 (inp ! 3)],
     accum (drop_bit (21 - 20) (inp ! 3))
       [push_bit 20 (inp ! 4)],
     accum (drop_bit (21 - 9) (inp ! 4))
       [push_bit 9 (inp ! 5), push_bit 30 (inp ! 6)],
     accum (drop_bit (21 - 19) (inp ! 6))
       [push_bit 19 (inp ! 7)],
     accum (drop_bit (21 - 8) (inp ! 7))
       [push_bit 8 (inp ! 8), push_bit 29 (inp ! 9)],
     accum (drop_bit (21 - 18) (inp ! 9))
       [push_bit 18 (inp ! 10)],
     accum (drop_bit (21 - 7) (inp ! 10))
       [push_bit 7 (inp ! 11), push_bit 28 (inp ! 12)],
     accum (drop_bit (21 - 17) (inp ! 12))
       [push_bit 17 (inp ! 13)],
     accum (drop_bit (21 - 6) (inp ! 13))
       [push_bit 6 (inp ! 14), push_bit 27 (inp ! 15)],
     accum (drop_bit (21 - 16) (inp ! 15)) []]"

definition fastpackwithoutmask22_16 :: "u32 list \<Rightarrow> u32 list" where
  "fastpackwithoutmask22_16 inp =
    [accum (inp ! 0)
       [push_bit 22 (inp ! 1)],
     accum (drop_bit (22 - 12) (inp ! 1))
       [push_bit 12 (inp ! 2)],
     accum (drop_bit (22 - 2) (inp ! 2))
       [push_bit 2 (inp ! 3), push_bit 24 (inp ! 4)],
     accum (drop_bit (22 - 14) (inp ! 4))
       [push_bit 14 (inp ! 5)],
     accum (drop_bit (22 - 4) (inp ! 5))
       [push_bit 4 (inp ! 6), push_bit 26 (inp ! 7)],
     accum (drop_bit (22 - 16) (inp ! 7))
       [push_bit 16 (inp ! 8)],
     accum (drop_bit (22 - 6) (inp ! 8))
       [push_bit 6 (inp ! 9), push_bit 28 (inp ! 10)],
     accum (drop_bit (22 - 18) (inp ! 10))
       [push_bit 18 (inp ! 11)],
     accum (drop_bit (22 - 8) (inp ! 11))
       [push_bit 8 (inp ! 12), push_bit 30 (inp ! 13)],
     accum (drop_bit (22 - 20) (inp ! 13))
       [push_bit 20 (inp ! 14)],
     accum (drop_bit (22 - 10) (inp ! 14))
       [push_bit 10 (inp ! 15)]]"

definition fastpackwithoutmask23_16 :: "u32 list \<Rightarrow> u32 list" where
  "fastpackwithoutmask23_16 inp =
    [accum (inp ! 0)
       [push_bit 23 (inp ! 1)],
     accum (drop_bit (23 - 14) (inp ! 1))
       [push_bit 14 (inp ! 2)],
     accum (drop_bit (23 - 5) (inp ! 2))
       [push_bit 5 (inp ! 3), push_bit 28 (inp ! 4)],
     accum (drop_bit (23 - 19) (inp ! 4))
       [push_bit 19 (inp ! 5)],
     accum (drop_bit (23 - 10) (inp ! 5))
       [push_bit 10 (inp ! 6)],
     accum (drop_bit (23 - 1) (inp ! 6))
       [push_bit 1 (inp ! 7), push_bit 24 (inp ! 8)],
     accum (drop_bit (23 - 15) (inp ! 8))
       [push_bit 15 (inp ! 9)],
     accum (drop_bit (23 - 6) (inp ! 9))
       [push_bit 6 (inp ! 10), push_bit 29 (inp ! 11)],
     accum (drop_bit (23 - 20) (inp ! 11))
       [push_bit 20 (inp ! 12)],
     accum (drop_bit (23 - 11) (inp ! 12))
       [push_bit 11 (inp ! 13)],
     accum (drop_bit (23 - 2) (inp ! 13))
       [push_bit 2 (inp ! 14), push_bit 25 (inp ! 15)],
     accum (drop_bit (23 - 16) (inp ! 15)) []]"

definition fastpackwithoutmask24_16 :: "u32 list \<Rightarrow> u32 list" where
  "fastpackwithoutmask24_16 inp =
    [accum (inp ! 0)
       [push_bit 24 (inp ! 1)],
     accum (drop_bit (24 - 16) (inp ! 1))
       [push_bit 16 (inp ! 2)],
     accum (drop_bit (24 - 8) (inp ! 2))
       [push_bit 8 (inp ! 3)],
     accum (inp ! 4)
       [push_bit 24 (inp ! 5)],
     accum (drop_bit (24 - 16) (inp ! 5))
       [push_bit 16 (inp ! 6)],
     accum (drop_bit (24 - 8) (inp ! 6))
       [push_bit 8 (inp ! 7)],
     accum (inp ! 8)
       [push_bit 24 (inp ! 9)],
     accum (drop_bit (24 - 16) (inp ! 9))
       [push_bit 16 (inp ! 10)],
     accum (drop_bit (24 - 8) (inp ! 10))
       [push_bit 8 (inp ! 11)],
     accum (inp ! 12)
       [push_bit 24 (inp ! 13)],
     accum (drop_bit (24 - 16) (inp ! 13))
       [push_bit 16 (inp ! 14)],
     accum (drop_bit (24 - 8) (inp ! 14))
       [push_bit 8 (inp ! 15)]]"

definition fastpackwithoutmask25_16 :: "u32 list \<Rightarrow> u32 list" where
  "fastpackwithoutmask25_16 inp =
    [accum (inp ! 0)
       [push_bit 25 (inp ! 1)],
     accum (drop_bit (25 - 18) (inp ! 1))
       [push_bit 18 (inp ! 2)],
     accum (drop_bit (25 - 11) (inp ! 2))
       [push_bit 11 (inp ! 3)],
     accum (drop_bit (25 - 4) (inp ! 3))
       [push_bit 4 (inp ! 4), push_bit 29 (inp ! 5)],
     accum (drop_bit (25 - 22) (inp ! 5))
       [push_bit 22 (inp ! 6)],
     accum (drop_bit (25 - 15) (inp ! 6))
       [push_bit 15 (inp ! 7)],
     accum (drop_bit (25 - 8) (inp ! 7))
       [push_bit 8 (inp ! 8)],
     accum (drop_bit (25 - 1) (inp ! 8))
       [push_bit 1 (inp ! 9), push_bit 26 (inp ! 10)],
     accum (drop_bit (25 - 19) (inp ! 10))
       [push_bit 19 (inp ! 11)],
     accum (drop_bit (25 - 12) (inp ! 11))
       [push_bit 12 (inp ! 12)],
     accum (drop_bit (25 - 5) (inp ! 12))
       [push_bit 5 (inp ! 13), push_bit 30 (inp ! 14)],
     accum (drop_bit (25 - 23) (inp ! 14))
       [push_bit 23 (inp ! 15)],
     accum (drop_bit (25 - 16) (inp ! 15)) []]"

definition fastpackwithoutmask26_16 :: "u32 list \<Rightarrow> u32 list" where
  "fastpackwithoutmask26_16 inp =
    [accum (inp ! 0)
       [push_bit 26 (inp ! 1)],
     accum (drop_bit (26 - 20) (inp ! 1))
       [push_bit 20 (inp ! 2)],
     accum (drop_bit (26 - 14) (inp ! 2))
       [push_bit 14 (inp ! 3)],
     accum (drop_bit (26 - 8) (inp ! 3))
       [push_bit 8 (inp ! 4)],
     accum (drop_bit (26 - 2) (inp ! 4))
       [push_bit 2 (inp ! 5), push_bit 28 (inp ! 6)],
     accum (drop_bit (26 - 22) (inp ! 6))
       [push_bit 22 (inp ! 7)],
     accum (drop_bit (26 - 16) (inp ! 7))
       [push_bit 16 (inp ! 8)],
     accum (drop_bit (26 - 10) (inp ! 8))
       [push_bit 10 (inp ! 9)],
     accum (drop_bit (26 - 4) (inp ! 9))
       [push_bit 4 (inp ! 10), push_bit 30 (inp ! 11)],
     accum (drop_bit (26 - 24) (inp ! 11))
       [push_bit 24 (inp ! 12)],
     accum (drop_bit (26 - 18) (inp ! 12))
       [push_bit 18 (inp ! 13)],
     accum (drop_bit (26 - 12) (inp ! 13))
       [push_bit 12 (inp ! 14)],
     accum (drop_bit (26 - 6) (inp ! 14))
       [push_bit 6 (inp ! 15)]]"

definition fastpackwithoutmask27_16 :: "u32 list \<Rightarrow> u32 list" where
  "fastpackwithoutmask27_16 inp =
    [accum (inp ! 0)
       [push_bit 27 (inp ! 1)],
     accum (drop_bit (27 - 22) (inp ! 1))
       [push_bit 22 (inp ! 2)],
     accum (drop_bit (27 - 17) (inp ! 2))
       [push_bit 17 (inp ! 3)],
     accum (drop_bit (27 - 12) (inp ! 3))
       [push_bit 12 (inp ! 4)],
     accum (drop_bit (27 - 7) (inp ! 4))
       [push_bit 7 (inp ! 5)],
     accum (drop_bit (27 - 2) (inp ! 5))
       [push_bit 2 (inp ! 6), push_bit 29 (inp ! 7)],
     accum (drop_bit (27 - 24) (inp ! 7))
       [push_bit 24 (inp ! 8)],
     accum (drop_bit (27 - 19) (inp ! 8))
       [push_bit 19 (inp ! 9)],
     accum (drop_bit (27 - 14) (inp ! 9))
       [push_bit 14 (inp ! 10)],
     accum (drop_bit (27 - 9) (inp ! 10))
       [push_bit 9 (inp ! 11)],
     accum (drop_bit (27 - 4) (inp ! 11))
       [push_bit 4 (inp ! 12), push_bit 31 (inp ! 13)],
     accum (drop_bit (27 - 26) (inp ! 13))
       [push_bit 26 (inp ! 14)],
     accum (drop_bit (27 - 21) (inp ! 14))
       [push_bit 21 (inp ! 15)],
     accum (drop_bit (27 - 16) (inp ! 15)) []]"

definition fastpackwithoutmask28_16 :: "u32 list \<Rightarrow> u32 list" where
  "fastpackwithoutmask28_16 inp =
    [accum (inp ! 0)
       [push_bit 28 (inp ! 1)],
     accum (drop_bit (28 - 24) (inp ! 1))
       [push_bit 24 (inp ! 2)],
     accum (drop_bit (28 - 20) (inp ! 2))
       [push_bit 20 (inp ! 3)],
     accum (drop_bit (28 - 16) (inp ! 3))
       [push_bit 16 (inp ! 4)],
     accum (drop_bit (28 - 12) (inp ! 4))
       [push_bit 12 (inp ! 5)],
     accum (drop_bit (28 - 8) (inp ! 5))
       [push_bit 8 (inp ! 6)],
     accum (drop_bit (28 - 4) (inp ! 6))
       [push_bit 4 (inp ! 7)],
     accum (inp ! 8)
       [push_bit 28 (inp ! 9)],
     accum (drop_bit (28 - 24) (inp ! 9))
       [push_bit 24 (inp ! 10)],
     accum (drop_bit (28 - 20) (inp ! 10))
       [push_bit 20 (inp ! 11)],
     accum (drop_bit (28 - 16) (inp ! 11))
       [push_bit 16 (inp ! 12)],
     accum (drop_bit (28 - 12) (inp ! 12))
       [push_bit 12 (inp ! 13)],
     accum (drop_bit (28 - 8) (inp ! 13))
       [push_bit 8 (inp ! 14)],
     accum (drop_bit (28 - 4) (inp ! 14))
       [push_bit 4 (inp ! 15)]]"

definition fastpackwithoutmask29_16 :: "u32 list \<Rightarrow> u32 list" where
  "fastpackwithoutmask29_16 inp =
    [accum (inp ! 0)
       [push_bit 29 (inp ! 1)],
     accum (drop_bit (29 - 26) (inp ! 1))
       [push_bit 26 (inp ! 2)],
     accum (drop_bit (29 - 23) (inp ! 2))
       [push_bit 23 (inp ! 3)],
     accum (drop_bit (29 - 20) (inp ! 3))
       [push_bit 20 (inp ! 4)],
     accum (drop_bit (29 - 17) (inp ! 4))
       [push_bit 17 (inp ! 5)],
     accum (drop_bit (29 - 14) (inp ! 5))
       [push_bit 14 (inp ! 6)],
     accum (drop_bit (29 - 11) (inp ! 6))
       [push_bit 11 (inp ! 7)],
     accum (drop_bit (29 - 8) (inp ! 7))
       [push_bit 8 (inp ! 8)],
     accum (drop_bit (29 - 5) (inp ! 8))
       [push_bit 5 (inp ! 9)],
     accum (drop_bit (29 - 2) (inp ! 9))
       [push_bit 2 (inp ! 10), push_bit 31 (inp ! 11)],
     accum (drop_bit (29 - 28) (inp ! 11))
       [push_bit 28 (inp ! 12)],
     accum (drop_bit (29 - 25) (inp ! 12))
       [push_bit 25 (inp ! 13)],
     accum (drop_bit (29 - 22) (inp ! 13))
       [push_bit 22 (inp ! 14)],
     accum (drop_bit (29 - 19) (inp ! 14))
       [push_bit 19 (inp ! 15)],
     accum (drop_bit (29 - 16) (inp ! 15)) []]"

definition fastpackwithoutmask30_16 :: "u32 list \<Rightarrow> u32 list" where
  "fastpackwithoutmask30_16 inp =
    [accum (inp ! 0)
       [push_bit 30 (inp ! 1)],
     accum (drop_bit (30 - 28) (inp ! 1))
       [push_bit 28 (inp ! 2)],
     accum (drop_bit (30 - 26) (inp ! 2))
       [push_bit 26 (inp ! 3)],
     accum (drop_bit (30 - 24) (inp ! 3))
       [push_bit 24 (inp ! 4)],
     accum (drop_bit (30 - 22) (inp ! 4))
       [push_bit 22 (inp ! 5)],
     accum (drop_bit (30 - 20) (inp ! 5))
       [push_bit 20 (inp ! 6)],
     accum (drop_bit (30 - 18) (inp ! 6))
       [push_bit 18 (inp ! 7)],
     accum (drop_bit (30 - 16) (inp ! 7))
       [push_bit 16 (inp ! 8)],
     accum (drop_bit (30 - 14) (inp ! 8))
       [push_bit 14 (inp ! 9)],
     accum (drop_bit (30 - 12) (inp ! 9))
       [push_bit 12 (inp ! 10)],
     accum (drop_bit (30 - 10) (inp ! 10))
       [push_bit 10 (inp ! 11)],
     accum (drop_bit (30 - 8) (inp ! 11))
       [push_bit 8 (inp ! 12)],
     accum (drop_bit (30 - 6) (inp ! 12))
       [push_bit 6 (inp ! 13)],
     accum (drop_bit (30 - 4) (inp ! 13))
       [push_bit 4 (inp ! 14)],
     accum (drop_bit (30 - 2) (inp ! 14))
       [push_bit 2 (inp ! 15)]]"

definition fastpackwithoutmask31_16 :: "u32 list \<Rightarrow> u32 list" where
  "fastpackwithoutmask31_16 inp =
    [accum (inp ! 0)
       [push_bit 31 (inp ! 1)],
     accum (drop_bit (31 - 30) (inp ! 1))
       [push_bit 30 (inp ! 2)],
     accum (drop_bit (31 - 29) (inp ! 2))
       [push_bit 29 (inp ! 3)],
     accum (drop_bit (31 - 28) (inp ! 3))
       [push_bit 28 (inp ! 4)],
     accum (drop_bit (31 - 27) (inp ! 4))
       [push_bit 27 (inp ! 5)],
     accum (drop_bit (31 - 26) (inp ! 5))
       [push_bit 26 (inp ! 6)],
     accum (drop_bit (31 - 25) (inp ! 6))
       [push_bit 25 (inp ! 7)],
     accum (drop_bit (31 - 24) (inp ! 7))
       [push_bit 24 (inp ! 8)],
     accum (drop_bit (31 - 23) (inp ! 8))
       [push_bit 23 (inp ! 9)],
     accum (drop_bit (31 - 22) (inp ! 9))
       [push_bit 22 (inp ! 10)],
     accum (drop_bit (31 - 21) (inp ! 10))
       [push_bit 21 (inp ! 11)],
     accum (drop_bit (31 - 20) (inp ! 11))
       [push_bit 20 (inp ! 12)],
     accum (drop_bit (31 - 19) (inp ! 12))
       [push_bit 19 (inp ! 13)],
     accum (drop_bit (31 - 18) (inp ! 13))
       [push_bit 18 (inp ! 14)],
     accum (drop_bit (31 - 17) (inp ! 14))
       [push_bit 17 (inp ! 15)],
     accum (drop_bit (31 - 16) (inp ! 15)) []]"

definition fastpackwithoutmask32_16 :: "u32 list \<Rightarrow> u32 list" where
  "fastpackwithoutmask32_16 inp =
    [accum (inp ! 0) [],
     accum (inp ! 1) [],
     accum (inp ! 2) [],
     accum (inp ! 3) [],
     accum (inp ! 4) [],
     accum (inp ! 5) [],
     accum (inp ! 6) [],
     accum (inp ! 7) [],
     accum (inp ! 8) [],
     accum (inp ! 9) [],
     accum (inp ! 10) [],
     accum (inp ! 11) [],
     accum (inp ! 12) [],
     accum (inp ! 13) [],
     accum (inp ! 14) [],
     accum (inp ! 15) []]"

definition fastpackwithoutmask1_24 :: "u32 list \<Rightarrow> u32 list" where
  "fastpackwithoutmask1_24 inp =
    [accum (inp ! 0)
       [push_bit 1 (inp ! 1), push_bit 2 (inp ! 2), push_bit 3 (inp ! 3), push_bit 4 (inp ! 4), push_bit 5 (inp ! 5),
        push_bit 6 (inp ! 6), push_bit 7 (inp ! 7), push_bit 8 (inp ! 8), push_bit 9 (inp ! 9), push_bit 10 (inp ! 10),
        push_bit 11 (inp ! 11), push_bit 12 (inp ! 12), push_bit 13 (inp ! 13), push_bit 14 (inp ! 14),
        push_bit 15 (inp ! 15), push_bit 16 (inp ! 16), push_bit 17 (inp ! 17), push_bit 18 (inp ! 18),
        push_bit 19 (inp ! 19), push_bit 20 (inp ! 20), push_bit 21 (inp ! 21), push_bit 22 (inp ! 22),
        push_bit 23 (inp ! 23)]]"

definition fastpackwithoutmask2_24 :: "u32 list \<Rightarrow> u32 list" where
  "fastpackwithoutmask2_24 inp =
    [accum (inp ! 0)
       [push_bit 2 (inp ! 1), push_bit 4 (inp ! 2), push_bit 6 (inp ! 3), push_bit 8 (inp ! 4), push_bit 10 (inp ! 5),
        push_bit 12 (inp ! 6), push_bit 14 (inp ! 7), push_bit 16 (inp ! 8), push_bit 18 (inp ! 9),
        push_bit 20 (inp ! 10), push_bit 22 (inp ! 11), push_bit 24 (inp ! 12), push_bit 26 (inp ! 13),
        push_bit 28 (inp ! 14), push_bit 30 (inp ! 15)],
     accum (inp ! 16)
       [push_bit 2 (inp ! 17), push_bit 4 (inp ! 18), push_bit 6 (inp ! 19), push_bit 8 (inp ! 20),
        push_bit 10 (inp ! 21), push_bit 12 (inp ! 22), push_bit 14 (inp ! 23)]]"

definition fastpackwithoutmask3_24 :: "u32 list \<Rightarrow> u32 list" where
  "fastpackwithoutmask3_24 inp =
    [accum (inp ! 0)
       [push_bit 3 (inp ! 1), push_bit 6 (inp ! 2), push_bit 9 (inp ! 3), push_bit 12 (inp ! 4), push_bit 15 (inp ! 5),
        push_bit 18 (inp ! 6), push_bit 21 (inp ! 7), push_bit 24 (inp ! 8), push_bit 27 (inp ! 9),
        push_bit 30 (inp ! 10)],
     accum (drop_bit (3 - 1) (inp ! 10))
       [push_bit 1 (inp ! 11), push_bit 4 (inp ! 12), push_bit 7 (inp ! 13), push_bit 10 (inp ! 14),
        push_bit 13 (inp ! 15), push_bit 16 (inp ! 16), push_bit 19 (inp ! 17), push_bit 22 (inp ! 18),
        push_bit 25 (inp ! 19), push_bit 28 (inp ! 20), push_bit 31 (inp ! 21)],
     accum (drop_bit (3 - 2) (inp ! 21))
       [push_bit 2 (inp ! 22), push_bit 5 (inp ! 23)]]"

definition fastpackwithoutmask4_24 :: "u32 list \<Rightarrow> u32 list" where
  "fastpackwithoutmask4_24 inp =
    [accum (inp ! 0)
       [push_bit 4 (inp ! 1), push_bit 8 (inp ! 2), push_bit 12 (inp ! 3), push_bit 16 (inp ! 4),
        push_bit 20 (inp ! 5), push_bit 24 (inp ! 6), push_bit 28 (inp ! 7)],
     accum (inp ! 8)
       [push_bit 4 (inp ! 9), push_bit 8 (inp ! 10), push_bit 12 (inp ! 11), push_bit 16 (inp ! 12),
        push_bit 20 (inp ! 13), push_bit 24 (inp ! 14), push_bit 28 (inp ! 15)],
     accum (inp ! 16)
       [push_bit 4 (inp ! 17), push_bit 8 (inp ! 18), push_bit 12 (inp ! 19), push_bit 16 (inp ! 20),
        push_bit 20 (inp ! 21), push_bit 24 (inp ! 22), push_bit 28 (inp ! 23)]]"

definition fastpackwithoutmask5_24 :: "u32 list \<Rightarrow> u32 list" where
  "fastpackwithoutmask5_24 inp =
    [accum (inp ! 0)
       [push_bit 5 (inp ! 1), push_bit 10 (inp ! 2), push_bit 15 (inp ! 3), push_bit 20 (inp ! 4),
        push_bit 25 (inp ! 5), push_bit 30 (inp ! 6)],
     accum (drop_bit (5 - 3) (inp ! 6))
       [push_bit 3 (inp ! 7), push_bit 8 (inp ! 8), push_bit 13 (inp ! 9), push_bit 18 (inp ! 10),
        push_bit 23 (inp ! 11), push_bit 28 (inp ! 12)],
     accum (drop_bit (5 - 1) (inp ! 12))
       [push_bit 1 (inp ! 13), push_bit 6 (inp ! 14), push_bit 11 (inp ! 15), push_bit 16 (inp ! 16),
        push_bit 21 (inp ! 17), push_bit 26 (inp ! 18), push_bit 31 (inp ! 19)],
     accum (drop_bit (5 - 4) (inp ! 19))
       [push_bit 4 (inp ! 20), push_bit 9 (inp ! 21), push_bit 14 (inp ! 22), push_bit 19 (inp ! 23)]]"

definition fastpackwithoutmask6_24 :: "u32 list \<Rightarrow> u32 list" where
  "fastpackwithoutmask6_24 inp =
    [accum (inp ! 0)
       [push_bit 6 (inp ! 1), push_bit 12 (inp ! 2), push_bit 18 (inp ! 3), push_bit 24 (inp ! 4), push_bit 30 (inp ! 5)],
     accum (drop_bit (6 - 4) (inp ! 5))
       [push_bit 4 (inp ! 6), push_bit 10 (inp ! 7), push_bit 16 (inp ! 8), push_bit 22 (inp ! 9),
        push_bit 28 (inp ! 10)],
     accum (drop_bit (6 - 2) (inp ! 10))
       [push_bit 2 (inp ! 11), push_bit 8 (inp ! 12), push_bit 14 (inp ! 13), push_bit 20 (inp ! 14),
        push_bit 26 (inp ! 15)],
     accum (inp ! 16)
       [push_bit 6 (inp ! 17), push_bit 12 (inp ! 18), push_bit 18 (inp ! 19), push_bit 24 (inp ! 20),
        push_bit 30 (inp ! 21)],
     accum (drop_bit (6 - 4) (inp ! 21))
       [push_bit 4 (inp ! 22), push_bit 10 (inp ! 23)]]"

definition fastpackwithoutmask7_24 :: "u32 list \<Rightarrow> u32 list" where
  "fastpackwithoutmask7_24 inp =
    [accum (inp ! 0)
       [push_bit 7 (inp ! 1), push_bit 14 (inp ! 2), push_bit 21 (inp ! 3), push_bit 28 (inp ! 4)],
     accum (drop_bit (7 - 3) (inp ! 4))
       [push_bit 3 (inp ! 5), push_bit 10 (inp ! 6), push_bit 17 (inp ! 7), push_bit 24 (inp ! 8), push_bit 31 (inp ! 9)],
     accum (drop_bit (7 - 6) (inp ! 9))
       [push_bit 6 (inp ! 10), push_bit 13 (inp ! 11), push_bit 20 (inp ! 12), push_bit 27 (inp ! 13)],
     accum (drop_bit (7 - 2) (inp ! 13))
       [push_bit 2 (inp ! 14), push_bit 9 (inp ! 15), push_bit 16 (inp ! 16), push_bit 23 (inp ! 17),
        push_bit 30 (inp ! 18)],
     accum (drop_bit (7 - 5) (inp ! 18))
       [push_bit 5 (inp ! 19), push_bit 12 (inp ! 20), push_bit 19 (inp ! 21), push_bit 26 (inp ! 22)],
     accum (drop_bit (7 - 1) (inp ! 22))
       [push_bit 1 (inp ! 23)]]"

definition fastpackwithoutmask8_24 :: "u32 list \<Rightarrow> u32 list" where
  "fastpackwithoutmask8_24 inp =
    [accum (inp ! 0)
       [push_bit 8 (inp ! 1), push_bit 16 (inp ! 2), push_bit 24 (inp ! 3)],
     accum (inp ! 4)
       [push_bit 8 (inp ! 5), push_bit 16 (inp ! 6), push_bit 24 (inp ! 7)],
     accum (inp ! 8)
       [push_bit 8 (inp ! 9), push_bit 16 (inp ! 10), push_bit 24 (inp ! 11)],
     accum (inp ! 12)
       [push_bit 8 (inp ! 13), push_bit 16 (inp ! 14), push_bit 24 (inp ! 15)],
     accum (inp ! 16)
       [push_bit 8 (inp ! 17), push_bit 16 (inp ! 18), push_bit 24 (inp ! 19)],
     accum (inp ! 20)
       [push_bit 8 (inp ! 21), push_bit 16 (inp ! 22), push_bit 24 (inp ! 23)]]"

definition fastpackwithoutmask9_24 :: "u32 list \<Rightarrow> u32 list" where
  "fastpackwithoutmask9_24 inp =
    [accum (inp ! 0)
       [push_bit 9 (inp ! 1), push_bit 18 (inp ! 2), push_bit 27 (inp ! 3)],
     accum (drop_bit (9 - 4) (inp ! 3))
       [push_bit 4 (inp ! 4), push_bit 13 (inp ! 5), push_bit 22 (inp ! 6), push_bit 31 (inp ! 7)],
     accum (drop_bit (9 - 8) (inp ! 7))
       [push_bit 8 (inp ! 8), push_bit 17 (inp ! 9), push_bit 26 (inp ! 10)],
     accum (drop_bit (9 - 3) (inp ! 10))
       [push_bit 3 (inp ! 11), push_bit 12 (inp ! 12), push_bit 21 (inp ! 13), push_bit 30 (inp ! 14)],
     accum (drop_bit (9 - 7) (inp ! 14))
       [push_bit 7 (inp ! 15), push_bit 16 (inp ! 16), push_bit 25 (inp ! 17)],
     accum (drop_bit (9 - 2) (inp ! 17))
       [push_bit 2 (inp ! 18), push_bit 11 (inp ! 19), push_bit 20 (inp ! 20), push_bit 29 (inp ! 21)],
     accum (drop_bit (9 - 6) (inp ! 21))
       [push_bit 6 (inp ! 22), push_bit 15 (inp ! 23)]]"

definition fastpackwithoutmask10_24 :: "u32 list \<Rightarrow> u32 list" where
  "fastpackwithoutmask10_24 inp =
    [accum (inp ! 0)
       [push_bit 10 (inp ! 1), push_bit 20 (inp ! 2), push_bit 30 (inp ! 3)],
     accum (drop_bit (10 - 8) (inp ! 3))
       [push_bit 8 (inp ! 4), push_bit 18 (inp ! 5), push_bit 28 (inp ! 6)],
     accum (drop_bit (10 - 6) (inp ! 6))
       [push_bit 6 (inp ! 7), push_bit 16 (inp ! 8), push_bit 26 (inp ! 9)],
     accum (drop_bit (10 - 4) (inp ! 9))
       [push_bit 4 (inp ! 10), push_bit 14 (inp ! 11), push_bit 24 (inp ! 12)],
     accum (drop_bit (10 - 2) (inp ! 12))
       [push_bit 2 (inp ! 13), push_bit 12 (inp ! 14), push_bit 22 (inp ! 15)],
     accum (inp ! 16)
       [push_bit 10 (inp ! 17), push_bit 20 (inp ! 18), push_bit 30 (inp ! 19)],
     accum (drop_bit (10 - 8) (inp ! 19))
       [push_bit 8 (inp ! 20), push_bit 18 (inp ! 21), push_bit 28 (inp ! 22)],
     accum (drop_bit (10 - 6) (inp ! 22))
       [push_bit 6 (inp ! 23)]]"

definition fastpackwithoutmask11_24 :: "u32 list \<Rightarrow> u32 list" where
  "fastpackwithoutmask11_24 inp =
    [accum (inp ! 0)
       [push_bit 11 (inp ! 1), push_bit 22 (inp ! 2)],
     accum (drop_bit (11 - 1) (inp ! 2))
       [push_bit 1 (inp ! 3), push_bit 12 (inp ! 4), push_bit 23 (inp ! 5)],
     accum (drop_bit (11 - 2) (inp ! 5))
       [push_bit 2 (inp ! 6), push_bit 13 (inp ! 7), push_bit 24 (inp ! 8)],
     accum (drop_bit (11 - 3) (inp ! 8))
       [push_bit 3 (inp ! 9), push_bit 14 (inp ! 10), push_bit 25 (inp ! 11)],
     accum (drop_bit (11 - 4) (inp ! 11))
       [push_bit 4 (inp ! 12), push_bit 15 (inp ! 13), push_bit 26 (inp ! 14)],
     accum (drop_bit (11 - 5) (inp ! 14))
       [push_bit 5 (inp ! 15), push_bit 16 (inp ! 16), push_bit 27 (inp ! 17)],
     accum (drop_bit (11 - 6) (inp ! 17))
       [push_bit 6 (inp ! 18), push_bit 17 (inp ! 19), push_bit 28 (inp ! 20)],
     accum (drop_bit (11 - 7) (inp ! 20))
       [push_bit 7 (inp ! 21), push_bit 18 (inp ! 22), push_bit 29 (inp ! 23)],
     accum (drop_bit (11 - 8) (inp ! 23)) []]"

definition fastpackwithoutmask12_24 :: "u32 list \<Rightarrow> u32 list" where
  "fastpackwithoutmask12_24 inp =
    [accum (inp ! 0)
       [push_bit 12 (inp ! 1), push_bit 24 (inp ! 2)],
     accum (drop_bit (12 - 4) (inp ! 2))
       [push_bit 4 (inp ! 3), push_bit 16 (inp ! 4), push_bit 28 (inp ! 5)],
     accum (drop_bit (12 - 8) (inp ! 5))
       [push_bit 8 (inp ! 6), push_bit 20 (inp ! 7)],
     accum (inp ! 8)
       [push_bit 12 (inp ! 9), push_bit 24 (inp ! 10)],
     accum (drop_bit (12 - 4) (inp ! 10))
       [push_bit 4 (inp ! 11), push_bit 16 (inp ! 12), push_bit 28 (inp ! 13)],
     accum (drop_bit (12 - 8) (inp ! 13))
       [push_bit 8 (inp ! 14), push_bit 20 (inp ! 15)],
     accum (inp ! 16)
       [push_bit 12 (inp ! 17), push_bit 24 (inp ! 18)],
     accum (drop_bit (12 - 4) (inp ! 18))
       [push_bit 4 (inp ! 19), push_bit 16 (inp ! 20), push_bit 28 (inp ! 21)],
     accum (drop_bit (12 - 8) (inp ! 21))
       [push_bit 8 (inp ! 22), push_bit 20 (inp ! 23)]]"

definition fastpackwithoutmask13_24 :: "u32 list \<Rightarrow> u32 list" where
  "fastpackwithoutmask13_24 inp =
    [accum (inp ! 0)
       [push_bit 13 (inp ! 1), push_bit 26 (inp ! 2)],
     accum (drop_bit (13 - 7) (inp ! 2))
       [push_bit 7 (inp ! 3), push_bit 20 (inp ! 4)],
     accum (drop_bit (13 - 1) (inp ! 4))
       [push_bit 1 (inp ! 5), push_bit 14 (inp ! 6), push_bit 27 (inp ! 7)],
     accum (drop_bit (13 - 8) (inp ! 7))
       [push_bit 8 (inp ! 8), push_bit 21 (inp ! 9)],
     accum (drop_bit (13 - 2) (inp ! 9))
       [push_bit 2 (inp ! 10), push_bit 15 (inp ! 11), push_bit 28 (inp ! 12)],
     accum (drop_bit (13 - 9) (inp ! 12))
       [push_bit 9 (inp ! 13), push_bit 22 (inp ! 14)],
     accum (drop_bit (13 - 3) (inp ! 14))
       [push_bit 3 (inp ! 15), push_bit 16 (inp ! 16), push_bit 29 (inp ! 17)],
     accum (drop_bit (13 - 10) (inp ! 17))
       [push_bit 10 (inp ! 18), push_bit 23 (inp ! 19)],
     accum (drop_bit (13 - 4) (inp ! 19))
       [push_bit 4 (inp ! 20), push_bit 17 (inp ! 21), push_bit 30 (inp ! 22)],
     accum (drop_bit (13 - 11) (inp ! 22))
       [push_bit 11 (inp ! 23)]]"

definition fastpackwithoutmask14_24 :: "u32 list \<Rightarrow> u32 list" where
  "fastpackwithoutmask14_24 inp =
    [accum (inp ! 0)
       [push_bit 14 (inp ! 1), push_bit 28 (inp ! 2)],
     accum (drop_bit (14 - 10) (inp ! 2))
       [push_bit 10 (inp ! 3), push_bit 24 (inp ! 4)],
     accum (drop_bit (14 - 6) (inp ! 4))
       [push_bit 6 (inp ! 5), push_bit 20 (inp ! 6)],
     accum (drop_bit (14 - 2) (inp ! 6))
       [push_bit 2 (inp ! 7), push_bit 16 (inp ! 8), push_bit 30 (inp ! 9)],
     accum (drop_bit (14 - 12) (inp ! 9))
       [push_bit 12 (inp ! 10), push_bit 26 (inp ! 11)],
     accum (drop_bit (14 - 8) (inp ! 11))
       [push_bit 8 (inp ! 12), push_bit 22 (inp ! 13)],
     accum (drop_bit (14 - 4) (inp ! 13))
       [push_bit 4 (inp ! 14), push_bit 18 (inp ! 15)],
     accum (inp ! 16)
       [push_bit 14 (inp ! 17), push_bit 28 (inp ! 18)],
     accum (drop_bit (14 - 10) (inp ! 18))
       [push_bit 10 (inp ! 19), push_bit 24 (inp ! 20)],
     accum (drop_bit (14 - 6) (inp ! 20))
       [push_bit 6 (inp ! 21), push_bit 20 (inp ! 22)],
     accum (drop_bit (14 - 2) (inp ! 22))
       [push_bit 2 (inp ! 23)]]"

definition fastpackwithoutmask15_24 :: "u32 list \<Rightarrow> u32 list" where
  "fastpackwithoutmask15_24 inp =
    [accum (inp ! 0)
       [push_bit 15 (inp ! 1), push_bit 30 (inp ! 2)],
     accum (drop_bit (15 - 13) (inp ! 2))
       [push_bit 13 (inp ! 3), push_bit 28 (inp ! 4)],
     accum (drop_bit (15 - 11) (inp ! 4))
       [push_bit 11 (inp ! 5), push_bit 26 (inp ! 6)],
     accum (drop_bit (15 - 9) (inp ! 6))
       [push_bit 9 (inp ! 7), push_bit 24 (inp ! 8)],
     accum (drop_bit (15 - 7) (inp ! 8))
       [push_bit 7 (inp ! 9), push_bit 22 (inp ! 10)],
     accum (drop_bit (15 - 5) (inp ! 10))
       [push_bit 5 (inp ! 11), push_bit 20 (inp ! 12)],
     accum (drop_bit (15 - 3) (inp ! 12))
       [push_bit 3 (inp ! 13), push_bit 18 (inp ! 14)],
     accum (drop_bit (15 - 1) (inp ! 14))
       [push_bit 1 (inp ! 15), push_bit 16 (inp ! 16), push_bit 31 (inp ! 17)],
     accum (drop_bit (15 - 14) (inp ! 17))
       [push_bit 14 (inp ! 18), push_bit 29 (inp ! 19)],
     accum (drop_bit (15 - 12) (inp ! 19))
       [push_bit 12 (inp ! 20), push_bit 27 (inp ! 21)],
     accum (drop_bit (15 - 10) (inp ! 21))
       [push_bit 10 (inp ! 22), push_bit 25 (inp ! 23)],
     accum (drop_bit (15 - 8) (inp ! 23)) []]"

definition fastpackwithoutmask16_24 :: "u32 list \<Rightarrow> u32 list" where
  "fastpackwithoutmask16_24 inp =
    [accum (inp ! 0)
       [push_bit 16 (inp ! 1)],
     accum (inp ! 2)
       [push_bit 16 (inp ! 3)],
     accum (inp ! 4)
       [push_bit 16 (inp ! 5)],
     accum (inp ! 6)
       [push_bit 16 (inp ! 7)],
     accum (inp ! 8)
       [push_bit 16 (inp ! 9)],
     accum (inp ! 10)
       [push_bit 16 (inp ! 11)],
     accum (inp ! 12)
       [push_bit 16 (inp ! 13)],
     accum (inp ! 14)
       [push_bit 16 (inp ! 15)],
     accum (inp ! 16)
       [push_bit 16 (inp ! 17)],
     accum (inp ! 18)
       [push_bit 16 (inp ! 19)],
     accum (inp ! 20)
       [push_bit 16 (inp ! 21)],
     accum (inp ! 22)
       [push_bit 16 (inp ! 23)]]"

definition fastpackwithoutmask17_24 :: "u32 list \<Rightarrow> u32 list" where
  "fastpackwithoutmask17_24 inp =
    [accum (inp ! 0)
       [push_bit 17 (inp ! 1)],
     accum (drop_bit (17 - 2) (inp ! 1))
       [push_bit 2 (inp ! 2), push_bit 19 (inp ! 3)],
     accum (drop_bit (17 - 4) (inp ! 3))
       [push_bit 4 (inp ! 4), push_bit 21 (inp ! 5)],
     accum (drop_bit (17 - 6) (inp ! 5))
       [push_bit 6 (inp ! 6), push_bit 23 (inp ! 7)],
     accum (drop_bit (17 - 8) (inp ! 7))
       [push_bit 8 (inp ! 8), push_bit 25 (inp ! 9)],
     accum (drop_bit (17 - 10) (inp ! 9))
       [push_bit 10 (inp ! 10), push_bit 27 (inp ! 11)],
     accum (drop_bit (17 - 12) (inp ! 11))
       [push_bit 12 (inp ! 12), push_bit 29 (inp ! 13)],
     accum (drop_bit (17 - 14) (inp ! 13))
       [push_bit 14 (inp ! 14), push_bit 31 (inp ! 15)],
     accum (drop_bit (17 - 16) (inp ! 15))
       [push_bit 16 (inp ! 16)],
     accum (drop_bit (17 - 1) (inp ! 16))
       [push_bit 1 (inp ! 17), push_bit 18 (inp ! 18)],
     accum (drop_bit (17 - 3) (inp ! 18))
       [push_bit 3 (inp ! 19), push_bit 20 (inp ! 20)],
     accum (drop_bit (17 - 5) (inp ! 20))
       [push_bit 5 (inp ! 21), push_bit 22 (inp ! 22)],
     accum (drop_bit (17 - 7) (inp ! 22))
       [push_bit 7 (inp ! 23)]]"

definition fastpackwithoutmask18_24 :: "u32 list \<Rightarrow> u32 list" where
  "fastpackwithoutmask18_24 inp =
    [accum (inp ! 0)
       [push_bit 18 (inp ! 1)],
     accum (drop_bit (18 - 4) (inp ! 1))
       [push_bit 4 (inp ! 2), push_bit 22 (inp ! 3)],
     accum (drop_bit (18 - 8) (inp ! 3))
       [push_bit 8 (inp ! 4), push_bit 26 (inp ! 5)],
     accum (drop_bit (18 - 12) (inp ! 5))
       [push_bit 12 (inp ! 6), push_bit 30 (inp ! 7)],
     accum (drop_bit (18 - 16) (inp ! 7))
       [push_bit 16 (inp ! 8)],
     accum (drop_bit (18 - 2) (inp ! 8))
       [push_bit 2 (inp ! 9), push_bit 20 (inp ! 10)],
     accum (drop_bit (18 - 6) (inp ! 10))
       [push_bit 6 (inp ! 11), push_bit 24 (inp ! 12)],
     accum (drop_bit (18 - 10) (inp ! 12))
       [push_bit 10 (inp ! 13), push_bit 28 (inp ! 14)],
     accum (drop_bit (18 - 14) (inp ! 14))
       [push_bit 14 (inp ! 15)],
     accum (inp ! 16)
       [push_bit 18 (inp ! 17)],
     accum (drop_bit (18 - 4) (inp ! 17))
       [push_bit 4 (inp ! 18), push_bit 22 (inp ! 19)],
     accum (drop_bit (18 - 8) (inp ! 19))
       [push_bit 8 (inp ! 20), push_bit 26 (inp ! 21)],
     accum (drop_bit (18 - 12) (inp ! 21))
       [push_bit 12 (inp ! 22), push_bit 30 (inp ! 23)],
     accum (drop_bit (18 - 16) (inp ! 23)) []]"

definition fastpackwithoutmask19_24 :: "u32 list \<Rightarrow> u32 list" where
  "fastpackwithoutmask19_24 inp =
    [accum (inp ! 0)
       [push_bit 19 (inp ! 1)],
     accum (drop_bit (19 - 6) (inp ! 1))
       [push_bit 6 (inp ! 2), push_bit 25 (inp ! 3)],
     accum (drop_bit (19 - 12) (inp ! 3))
       [push_bit 12 (inp ! 4), push_bit 31 (inp ! 5)],
     accum (drop_bit (19 - 18) (inp ! 5))
       [push_bit 18 (inp ! 6)],
     accum (drop_bit (19 - 5) (inp ! 6))
       [push_bit 5 (inp ! 7), push_bit 24 (inp ! 8)],
     accum (drop_bit (19 - 11) (inp ! 8))
       [push_bit 11 (inp ! 9), push_bit 30 (inp ! 10)],
     accum (drop_bit (19 - 17) (inp ! 10))
       [push_bit 17 (inp ! 11)],
     accum (drop_bit (19 - 4) (inp ! 11))
       [push_bit 4 (inp ! 12), push_bit 23 (inp ! 13)],
     accum (drop_bit (19 - 10) (inp ! 13))
       [push_bit 10 (inp ! 14), push_bit 29 (inp ! 15)],
     accum (drop_bit (19 - 16) (inp ! 15))
       [push_bit 16 (inp ! 16)],
     accum (drop_bit (19 - 3) (inp ! 16))
       [push_bit 3 (inp ! 17), push_bit 22 (inp ! 18)],
     accum (drop_bit (19 - 9) (inp ! 18))
       [push_bit 9 (inp ! 19), push_bit 28 (inp ! 20)],
     accum (drop_bit (19 - 15) (inp ! 20))
       [push_bit 15 (inp ! 21)],
     accum (drop_bit (19 - 2) (inp ! 21))
       [push_bit 2 (inp ! 22), push_bit 21 (inp ! 23)],
     accum (drop_bit (19 - 8) (inp ! 23)) []]"

definition fastpackwithoutmask20_24 :: "u32 list \<Rightarrow> u32 list" where
  "fastpackwithoutmask20_24 inp =
    [accum (inp ! 0)
       [push_bit 20 (inp ! 1)],
     accum (drop_bit (20 - 8) (inp ! 1))
       [push_bit 8 (inp ! 2), push_bit 28 (inp ! 3)],
     accum (drop_bit (20 - 16) (inp ! 3))
       [push_bit 16 (inp ! 4)],
     accum (drop_bit (20 - 4) (inp ! 4))
       [push_bit 4 (inp ! 5), push_bit 24 (inp ! 6)],
     accum (drop_bit (20 - 12) (inp ! 6))
       [push_bit 12 (inp ! 7)],
     accum (inp ! 8)
       [push_bit 20 (inp ! 9)],
     accum (drop_bit (20 - 8) (inp ! 9))
       [push_bit 8 (inp ! 10), push_bit 28 (inp ! 11)],
     accum (drop_bit (20 - 16) (inp ! 11))
       [push_bit 16 (inp ! 12)],
     accum (drop_bit (20 - 4) (inp ! 12))
       [push_bit 4 (inp ! 13), push_bit 24 (inp ! 14)],
     accum (drop_bit (20 - 12) (inp ! 14))
       [push_bit 12 (inp ! 15)],
     accum (inp ! 16)
       [push_bit 20 (inp ! 17)],
     accum (drop_bit (20 - 8) (inp ! 17))
       [push_bit 8 (inp ! 18), push_bit 28 (inp ! 19)],
     accum (drop_bit (20 - 16) (inp ! 19))
       [push_bit 16 (inp ! 20)],
     accum (drop_bit (20 - 4) (inp ! 20))
       [push_bit 4 (inp ! 21), push_bit 24 (inp ! 22)],
     accum (drop_bit (20 - 12) (inp ! 22))
       [push_bit 12 (inp ! 23)]]"

definition fastpackwithoutmask21_24 :: "u32 list \<Rightarrow> u32 list" where
  "fastpackwithoutmask21_24 inp =
    [accum (inp ! 0)
       [push_bit 21 (inp ! 1)],
     accum (drop_bit (21 - 10) (inp ! 1))
       [push_bit 10 (inp ! 2), push_bit 31 (inp ! 3)],
     accum (drop_bit (21 - 20) (inp ! 3))
       [push_bit 20 (inp ! 4)],
     accum (drop_bit (21 - 9) (inp ! 4))
       [push_bit 9 (inp ! 5), push_bit 30 (inp ! 6)],
     accum (drop_bit (21 - 19) (inp ! 6))
       [push_bit 19 (inp ! 7)],
     accum (drop_bit (21 - 8) (inp ! 7))
       [push_bit 8 (inp ! 8), push_bit 29 (inp ! 9)],
     accum (drop_bit (21 - 18) (inp ! 9))
       [push_bit 18 (inp ! 10)],
     accum (drop_bit (21 - 7) (inp ! 10))
       [push_bit 7 (inp ! 11), push_bit 28 (inp ! 12)],
     accum (drop_bit (21 - 17) (inp ! 12))
       [push_bit 17 (inp ! 13)],
     accum (drop_bit (21 - 6) (inp ! 13))
       [push_bit 6 (inp ! 14), push_bit 27 (inp ! 15)],
     accum (drop_bit (21 - 16) (inp ! 15))
       [push_bit 16 (inp ! 16)],
     accum (drop_bit (21 - 5) (inp ! 16))
       [push_bit 5 (inp ! 17), push_bit 26 (inp ! 18)],
     accum (drop_bit (21 - 15) (inp ! 18))
       [push_bit 15 (inp ! 19)],
     accum (drop_bit (21 - 4) (inp ! 19))
       [push_bit 4 (inp ! 20), push_bit 25 (inp ! 21)],
     accum (drop_bit (21 - 14) (inp ! 21))
       [push_bit 14 (inp ! 22)],
     accum (drop_bit (21 - 3) (inp ! 22))
       [push_bit 3 (inp ! 23)]]"

definition fastpackwithoutmask22_24 :: "u32 list \<Rightarrow> u32 list" where
  "fastpackwithoutmask22_24 inp =
    [accum (inp ! 0)
       [push_bit 22 (inp ! 1)],
     accum (drop_bit (22 - 12) (inp ! 1))
       [push_bit 12 (inp ! 2)],
     accum (drop_bit (22 - 2) (inp ! 2))
       [push_bit 2 (inp ! 3), push_bit 24 (inp ! 4)],
     accum (drop_bit (22 - 14) (inp ! 4))
       [push_bit 14 (inp ! 5)],
     accum (drop_bit (22 - 4) (inp ! 5))
       [push_bit 4 (inp ! 6), push_bit 26 (inp ! 7)],
     accum (drop_bit (22 - 16) (inp ! 7))
       [push_bit 16 (inp ! 8)],
     accum (drop_bit (22 - 6) (inp ! 8))
       [push_bit 6 (inp ! 9), push_bit 28 (inp ! 10)],
     accum (drop_bit (22 - 18) (inp ! 10))
       [push_bit 18 (inp ! 11)],
     accum (drop_bit (22 - 8) (inp ! 11))
       [push_bit 8 (inp ! 12), push_bit 30 (inp ! 13)],
     accum (drop_bit (22 - 20) (inp ! 13))
       [push_bit 20 (inp ! 14)],
     accum (drop_bit (22 - 10) (inp ! 14))
       [push_bit 10 (inp ! 15)],
     accum (inp ! 16)
       [push_bit 22 (inp ! 17)],
     accum (drop_bit (22 - 12) (inp ! 17))
       [push_bit 12 (inp ! 18)],
     accum (drop_bit (22 - 2) (inp ! 18))
       [push_bit 2 (inp ! 19), push_bit 24 (inp ! 20)],
     accum (drop_bit (22 - 14) (inp ! 20))
       [push_bit 14 (inp ! 21)],
     accum (drop_bit (22 - 4) (inp ! 21))
       [push_bit 4 (inp ! 22), push_bit 26 (inp ! 23)],
     accum (drop_bit (22 - 16) (inp ! 23)) []]"

definition fastpackwithoutmask23_24 :: "u32 list \<Rightarrow> u32 list" where
  "fastpackwithoutmask23_24 inp =
    [accum (inp ! 0)
       [push_bit 23 (inp ! 1)],
     accum (drop_bit (23 - 14) (inp ! 1))
       [push_bit 14 (inp ! 2)],
     accum (drop_bit (23 - 5) (inp ! 2))
       [push_bit 5 (inp ! 3), push_bit 28 (inp ! 4)],
     accum (drop_bit (23 - 19) (inp ! 4))
       [push_bit 19 (inp ! 5)],
     accum (drop_bit (23 - 10) (inp ! 5))
       [push_bit 10 (inp ! 6)],
     accum (drop_bit (23 - 1) (inp ! 6))
       [push_bit 1 (inp ! 7), push_bit 24 (inp ! 8)],
     accum (drop_bit (23 - 15) (inp ! 8))
       [push_bit 15 (inp ! 9)],
     accum (drop_bit (23 - 6) (inp ! 9))
       [push_bit 6 (inp ! 10), push_bit 29 (inp ! 11)],
     accum (drop_bit (23 - 20) (inp ! 11))
       [push_bit 20 (inp ! 12)],
     accum (drop_bit (23 - 11) (inp ! 12))
       [push_bit 11 (inp ! 13)],
     accum (drop_bit (23 - 2) (inp ! 13))
       [push_bit 2 (inp ! 14), push_bit 25 (inp ! 15)],
     accum (drop_bit (23 - 16) (inp ! 15))
       [push_bit 16 (inp ! 16)],
     accum (drop_bit (23 - 7) (inp ! 16))
       [push_bit 7 (inp ! 17), push_bit 30 (inp ! 18)],
     accum (drop_bit (23 - 21) (inp ! 18))
       [push_bit 21 (inp ! 19)],
     accum (drop_bit (23 - 12) (inp ! 19))
       [push_bit 12 (inp ! 20)],
     accum (drop_bit (23 - 3) (inp ! 20))
       [push_bit 3 (inp ! 21), push_bit 26 (inp ! 22)],
     accum (drop_bit (23 - 17) (inp ! 22))
       [push_bit 17 (inp ! 23)],
     accum (drop_bit (23 - 8) (inp ! 23)) []]"

definition fastpackwithoutmask24_24 :: "u32 list \<Rightarrow> u32 list" where
  "fastpackwithoutmask24_24 inp =
    [accum (inp ! 0)
       [push_bit 24 (inp ! 1)],
     accum (drop_bit (24 - 16) (inp ! 1))
       [push_bit 16 (inp ! 2)],
     accum (drop_bit (24 - 8) (inp ! 2))
       [push_bit 8 (inp ! 3)],
     accum (inp ! 4)
       [push_bit 24 (inp ! 5)],
     accum (drop_bit (24 - 16) (inp ! 5))
       [push_bit 16 (inp ! 6)],
     accum (drop_bit (24 - 8) (inp ! 6))
       [push_bit 8 (inp ! 7)],
     accum (inp ! 8)
       [push_bit 24 (inp ! 9)],
     accum (drop_bit (24 - 16) (inp ! 9))
       [push_bit 16 (inp ! 10)],
     accum (drop_bit (24 - 8) (inp ! 10))
       [push_bit 8 (inp ! 11)],
     accum (inp ! 12)
       [push_bit 24 (inp ! 13)],
     accum (drop_bit (24 - 16) (inp ! 13))
       [push_bit 16 (inp ! 14)],
     accum (drop_bit (24 - 8) (inp ! 14))
       [push_bit 8 (inp ! 15)],
     accum (inp ! 16)
       [push_bit 24 (inp ! 17)],
     accum (drop_bit (24 - 16) (inp ! 17))
       [push_bit 16 (inp ! 18)],
     accum (drop_bit (24 - 8) (inp ! 18))
       [push_bit 8 (inp ! 19)],
     accum (inp ! 20)
       [push_bit 24 (inp ! 21)],
     accum (drop_bit (24 - 16) (inp ! 21))
       [push_bit 16 (inp ! 22)],
     accum (drop_bit (24 - 8) (inp ! 22))
       [push_bit 8 (inp ! 23)]]"

definition fastpackwithoutmask25_24 :: "u32 list \<Rightarrow> u32 list" where
  "fastpackwithoutmask25_24 inp =
    [accum (inp ! 0)
       [push_bit 25 (inp ! 1)],
     accum (drop_bit (25 - 18) (inp ! 1))
       [push_bit 18 (inp ! 2)],
     accum (drop_bit (25 - 11) (inp ! 2))
       [push_bit 11 (inp ! 3)],
     accum (drop_bit (25 - 4) (inp ! 3))
       [push_bit 4 (inp ! 4), push_bit 29 (inp ! 5)],
     accum (drop_bit (25 - 22) (inp ! 5))
       [push_bit 22 (inp ! 6)],
     accum (drop_bit (25 - 15) (inp ! 6))
       [push_bit 15 (inp ! 7)],
     accum (drop_bit (25 - 8) (inp ! 7))
       [push_bit 8 (inp ! 8)],
     accum (drop_bit (25 - 1) (inp ! 8))
       [push_bit 1 (inp ! 9), push_bit 26 (inp ! 10)],
     accum (drop_bit (25 - 19) (inp ! 10))
       [push_bit 19 (inp ! 11)],
     accum (drop_bit (25 - 12) (inp ! 11))
       [push_bit 12 (inp ! 12)],
     accum (drop_bit (25 - 5) (inp ! 12))
       [push_bit 5 (inp ! 13), push_bit 30 (inp ! 14)],
     accum (drop_bit (25 - 23) (inp ! 14))
       [push_bit 23 (inp ! 15)],
     accum (drop_bit (25 - 16) (inp ! 15))
       [push_bit 16 (inp ! 16)],
     accum (drop_bit (25 - 9) (inp ! 16))
       [push_bit 9 (inp ! 17)],
     accum (drop_bit (25 - 2) (inp ! 17))
       [push_bit 2 (inp ! 18), push_bit 27 (inp ! 19)],
     accum (drop_bit (25 - 20) (inp ! 19))
       [push_bit 20 (inp ! 20)],
     accum (drop_bit (25 - 13) (inp ! 20))
       [push_bit 13 (inp ! 21)],
     accum (drop_bit (25 - 6) (inp ! 21))
       [push_bit 6 (inp ! 22), push_bit 31 (inp ! 23)],
     accum (drop_bit (25 - 24) (inp ! 23)) []]"

definition fastpackwithoutmask26_24 :: "u32 list \<Rightarrow> u32 list" where
  "fastpackwithoutmask26_24 inp =
    [accum (inp ! 0)
       [push_bit 26 (inp ! 1)],
     accum (drop_bit (26 - 20) (inp ! 1))
       [push_bit 20 (inp ! 2)],
     accum (drop_bit (26 - 14) (inp ! 2))
       [push_bit 14 (inp ! 3)],
     accum (drop_bit (26 - 8) (inp ! 3))
       [push_bit 8 (inp ! 4)],
     accum (drop_bit (26 - 2) (inp ! 4))
       [push_bit 2 (inp ! 5), push_bit 28 (inp ! 6)],
     accum (drop_bit (26 - 22) (inp ! 6))
       [push_bit 22 (inp ! 7)],
     accum (drop_bit (26 - 16) (inp ! 7))
       [push_bit 16 (inp ! 8)],
     accum (drop_bit (26 - 10) (inp ! 8))
       [push_bit 10 (inp ! 9)],
     accum (drop_bit (26 - 4) (inp ! 9))
       [push_bit 4 (inp ! 10), push_bit 30 (inp ! 11)],
     accum (drop_bit (26 - 24) (inp ! 11))
       [push_bit 24 (inp ! 12)],
     accum (drop_bit (26 - 18) (inp ! 12))
       [push_bit 18 (inp ! 13)],
     accum (drop_bit (26 - 12) (inp ! 13))
       [push_bit 12 (inp ! 14)],
     accum (drop_bit (26 - 6) (inp ! 14))
       [push_bit 6 (inp ! 15)],
     accum (inp ! 16)
       [push_bit 26 (inp ! 17)],
     accum (drop_bit (26 - 20) (inp ! 17))
       [push_bit 20 (inp ! 18)],
     accum (drop_bit (26 - 14) (inp ! 18))
       [push_bit 14 (inp ! 19)],
     accum (drop_bit (26 - 8) (inp ! 19))
       [push_bit 8 (inp ! 20)],
     accum (drop_bit (26 - 2) (inp ! 20))
       [push_bit 2 (inp ! 21), push_bit 28 (inp ! 22)],
     accum (drop_bit (26 - 22) (inp ! 22))
       [push_bit 22 (inp ! 23)],
     accum (drop_bit (26 - 16) (inp ! 23)) []]"

definition fastpackwithoutmask27_24 :: "u32 list \<Rightarrow> u32 list" where
  "fastpackwithoutmask27_24 inp =
    [accum (inp ! 0)
       [push_bit 27 (inp ! 1)],
     accum (drop_bit (27 - 22) (inp ! 1))
       [push_bit 22 (inp ! 2)],
     accum (drop_bit (27 - 17) (inp ! 2))
       [push_bit 17 (inp ! 3)],
     accum (drop_bit (27 - 12) (inp ! 3))
       [push_bit 12 (inp ! 4)],
     accum (drop_bit (27 - 7) (inp ! 4))
       [push_bit 7 (inp ! 5)],
     accum (drop_bit (27 - 2) (inp ! 5))
       [push_bit 2 (inp ! 6), push_bit 29 (inp ! 7)],
     accum (drop_bit (27 - 24) (inp ! 7))
       [push_bit 24 (inp ! 8)],
     accum (drop_bit (27 - 19) (inp ! 8))
       [push_bit 19 (inp ! 9)],
     accum (drop_bit (27 - 14) (inp ! 9))
       [push_bit 14 (inp ! 10)],
     accum (drop_bit (27 - 9) (inp ! 10))
       [push_bit 9 (inp ! 11)],
     accum (drop_bit (27 - 4) (inp ! 11))
       [push_bit 4 (inp ! 12), push_bit 31 (inp ! 13)],
     accum (drop_bit (27 - 26) (inp ! 13))
       [push_bit 26 (inp ! 14)],
     accum (drop_bit (27 - 21) (inp ! 14))
       [push_bit 21 (inp ! 15)],
     accum (drop_bit (27 - 16) (inp ! 15))
       [push_bit 16 (inp ! 16)],
     accum (drop_bit (27 - 11) (inp ! 16))
       [push_bit 11 (inp ! 17)],
     accum (drop_bit (27 - 6) (inp ! 17))
       [push_bit 6 (inp ! 18)],
     accum (drop_bit (27 - 1) (inp ! 18))
       [push_bit 1 (inp ! 19), push_bit 28 (inp ! 20)],
     accum (drop_bit (27 - 23) (inp ! 20))
       [push_bit 23 (inp ! 21)],
     accum (drop_bit (27 - 18) (inp ! 21))
       [push_bit 18 (inp ! 22)],
     accum (drop_bit (27 - 13) (inp ! 22))
       [push_bit 13 (inp ! 23)],
     accum (drop_bit (27 - 8) (inp ! 23)) []]"

definition fastpackwithoutmask28_24 :: "u32 list \<Rightarrow> u32 list" where
  "fastpackwithoutmask28_24 inp =
    [accum (inp ! 0)
       [push_bit 28 (inp ! 1)],
     accum (drop_bit (28 - 24) (inp ! 1))
       [push_bit 24 (inp ! 2)],
     accum (drop_bit (28 - 20) (inp ! 2))
       [push_bit 20 (inp ! 3)],
     accum (drop_bit (28 - 16) (inp ! 3))
       [push_bit 16 (inp ! 4)],
     accum (drop_bit (28 - 12) (inp ! 4))
       [push_bit 12 (inp ! 5)],
     accum (drop_bit (28 - 8) (inp ! 5))
       [push_bit 8 (inp ! 6)],
     accum (drop_bit (28 - 4) (inp ! 6))
       [push_bit 4 (inp ! 7)],
     accum (inp ! 8)
       [push_bit 28 (inp ! 9)],
     accum (drop_bit (28 - 24) (inp ! 9))
       [push_bit 24 (inp ! 10)],
     accum (drop_bit (28 - 20) (inp ! 10))
       [push_bit 20 (inp ! 11)],
     accum (drop_bit (28 - 16) (inp ! 11))
       [push_bit 16 (inp ! 12)],
     accum (drop_bit (28 - 12) (inp ! 12))
       [push_bit 12 (inp ! 13)],
     accum (drop_bit (28 - 8) (inp ! 13))
       [push_bit 8 (inp ! 14)],
     accum (drop_bit (28 - 4) (inp ! 14))
       [push_bit 4 (inp ! 15)],
     accum (inp ! 16)
       [push_bit 28 (inp ! 17)],
     accum (drop_bit (28 - 24) (inp ! 17))
       [push_bit 24 (inp ! 18)],
     accum (drop_bit (28 - 20) (inp ! 18))
       [push_bit 20 (inp ! 19)],
     accum (drop_bit (28 - 16) (inp ! 19))
       [push_bit 16 (inp ! 20)],
     accum (drop_bit (28 - 12) (inp ! 20))
       [push_bit 12 (inp ! 21)],
     accum (drop_bit (28 - 8) (inp ! 21))
       [push_bit 8 (inp ! 22)],
     accum (drop_bit (28 - 4) (inp ! 22))
       [push_bit 4 (inp ! 23)]]"

definition fastpackwithoutmask29_24 :: "u32 list \<Rightarrow> u32 list" where
  "fastpackwithoutmask29_24 inp =
    [accum (inp ! 0)
       [push_bit 29 (inp ! 1)],
     accum (drop_bit (29 - 26) (inp ! 1))
       [push_bit 26 (inp ! 2)],
     accum (drop_bit (29 - 23) (inp ! 2))
       [push_bit 23 (inp ! 3)],
     accum (drop_bit (29 - 20) (inp ! 3))
       [push_bit 20 (inp ! 4)],
     accum (drop_bit (29 - 17) (inp ! 4))
       [push_bit 17 (inp ! 5)],
     accum (drop_bit (29 - 14) (inp ! 5))
       [push_bit 14 (inp ! 6)],
     accum (drop_bit (29 - 11) (inp ! 6))
       [push_bit 11 (inp ! 7)],
     accum (drop_bit (29 - 8) (inp ! 7))
       [push_bit 8 (inp ! 8)],
     accum (drop_bit (29 - 5) (inp ! 8))
       [push_bit 5 (inp ! 9)],
     accum (drop_bit (29 - 2) (inp ! 9))
       [push_bit 2 (inp ! 10), push_bit 31 (inp ! 11)],
     accum (drop_bit (29 - 28) (inp ! 11))
       [push_bit 28 (inp ! 12)],
     accum (drop_bit (29 - 25) (inp ! 12))
       [push_bit 25 (inp ! 13)],
     accum (drop_bit (29 - 22) (inp ! 13))
       [push_bit 22 (inp ! 14)],
     accum (drop_bit (29 - 19) (inp ! 14))
       [push_bit 19 (inp ! 15)],
     accum (drop_bit (29 - 16) (inp ! 15))
       [push_bit 16 (inp ! 16)],
     accum (drop_bit (29 - 13) (inp ! 16))
       [push_bit 13 (inp ! 17)],
     accum (drop_bit (29 - 10) (inp ! 17))
       [push_bit 10 (inp ! 18)],
     accum (drop_bit (29 - 7) (inp ! 18))
       [push_bit 7 (inp ! 19)],
     accum (drop_bit (29 - 4) (inp ! 19))
       [push_bit 4 (inp ! 20)],
     accum (drop_bit (29 - 1) (inp ! 20))
       [push_bit 1 (inp ! 21), push_bit 30 (inp ! 22)],
     accum (drop_bit (29 - 27) (inp ! 22))
       [push_bit 27 (inp ! 23)],
     accum (drop_bit (29 - 24) (inp ! 23)) []]"

definition fastpackwithoutmask30_24 :: "u32 list \<Rightarrow> u32 list" where
  "fastpackwithoutmask30_24 inp =
    [accum (inp ! 0)
       [push_bit 30 (inp ! 1)],
     accum (drop_bit (30 - 28) (inp ! 1))
       [push_bit 28 (inp ! 2)],
     accum (drop_bit (30 - 26) (inp ! 2))
       [push_bit 26 (inp ! 3)],
     accum (drop_bit (30 - 24) (inp ! 3))
       [push_bit 24 (inp ! 4)],
     accum (drop_bit (30 - 22) (inp ! 4))
       [push_bit 22 (inp ! 5)],
     accum (drop_bit (30 - 20) (inp ! 5))
       [push_bit 20 (inp ! 6)],
     accum (drop_bit (30 - 18) (inp ! 6))
       [push_bit 18 (inp ! 7)],
     accum (drop_bit (30 - 16) (inp ! 7))
       [push_bit 16 (inp ! 8)],
     accum (drop_bit (30 - 14) (inp ! 8))
       [push_bit 14 (inp ! 9)],
     accum (drop_bit (30 - 12) (inp ! 9))
       [push_bit 12 (inp ! 10)],
     accum (drop_bit (30 - 10) (inp ! 10))
       [push_bit 10 (inp ! 11)],
     accum (drop_bit (30 - 8) (inp ! 11))
       [push_bit 8 (inp ! 12)],
     accum (drop_bit (30 - 6) (inp ! 12))
       [push_bit 6 (inp ! 13)],
     accum (drop_bit (30 - 4) (inp ! 13))
       [push_bit 4 (inp ! 14)],
     accum (drop_bit (30 - 2) (inp ! 14))
       [push_bit 2 (inp ! 15)],
     accum (inp ! 16)
       [push_bit 30 (inp ! 17)],
     accum (drop_bit (30 - 28) (inp ! 17))
       [push_bit 28 (inp ! 18)],
     accum (drop_bit (30 - 26) (inp ! 18))
       [push_bit 26 (inp ! 19)],
     accum (drop_bit (30 - 24) (inp ! 19))
       [push_bit 24 (inp ! 20)],
     accum (drop_bit (30 - 22) (inp ! 20))
       [push_bit 22 (inp ! 21)],
     accum (drop_bit (30 - 20) (inp ! 21))
       [push_bit 20 (inp ! 22)],
     accum (drop_bit (30 - 18) (inp ! 22))
       [push_bit 18 (inp ! 23)],
     accum (drop_bit (30 - 16) (inp ! 23)) []]"

definition fastpackwithoutmask31_24 :: "u32 list \<Rightarrow> u32 list" where
  "fastpackwithoutmask31_24 inp =
    [accum (inp ! 0)
       [push_bit 31 (inp ! 1)],
     accum (drop_bit (31 - 30) (inp ! 1))
       [push_bit 30 (inp ! 2)],
     accum (drop_bit (31 - 29) (inp ! 2))
       [push_bit 29 (inp ! 3)],
     accum (drop_bit (31 - 28) (inp ! 3))
       [push_bit 28 (inp ! 4)],
     accum (drop_bit (31 - 27) (inp ! 4))
       [push_bit 27 (inp ! 5)],
     accum (drop_bit (31 - 26) (inp ! 5))
       [push_bit 26 (inp ! 6)],
     accum (drop_bit (31 - 25) (inp ! 6))
       [push_bit 25 (inp ! 7)],
     accum (drop_bit (31 - 24) (inp ! 7))
       [push_bit 24 (inp ! 8)],
     accum (drop_bit (31 - 23) (inp ! 8))
       [push_bit 23 (inp ! 9)],
     accum (drop_bit (31 - 22) (inp ! 9))
       [push_bit 22 (inp ! 10)],
     accum (drop_bit (31 - 21) (inp ! 10))
       [push_bit 21 (inp ! 11)],
     accum (drop_bit (31 - 20) (inp ! 11))
       [push_bit 20 (inp ! 12)],
     accum (drop_bit (31 - 19) (inp ! 12))
       [push_bit 19 (inp ! 13)],
     accum (drop_bit (31 - 18) (inp ! 13))
       [push_bit 18 (inp ! 14)],
     accum (drop_bit (31 - 17) (inp ! 14))
       [push_bit 17 (inp ! 15)],
     accum (drop_bit (31 - 16) (inp ! 15))
       [push_bit 16 (inp ! 16)],
     accum (drop_bit (31 - 15) (inp ! 16))
       [push_bit 15 (inp ! 17)],
     accum (drop_bit (31 - 14) (inp ! 17))
       [push_bit 14 (inp ! 18)],
     accum (drop_bit (31 - 13) (inp ! 18))
       [push_bit 13 (inp ! 19)],
     accum (drop_bit (31 - 12) (inp ! 19))
       [push_bit 12 (inp ! 20)],
     accum (drop_bit (31 - 11) (inp ! 20))
       [push_bit 11 (inp ! 21)],
     accum (drop_bit (31 - 10) (inp ! 21))
       [push_bit 10 (inp ! 22)],
     accum (drop_bit (31 - 9) (inp ! 22))
       [push_bit 9 (inp ! 23)],
     accum (drop_bit (31 - 8) (inp ! 23)) []]"

definition fastpackwithoutmask32_24 :: "u32 list \<Rightarrow> u32 list" where
  "fastpackwithoutmask32_24 inp =
    [accum (inp ! 0) [],
     accum (inp ! 1) [],
     accum (inp ! 2) [],
     accum (inp ! 3) [],
     accum (inp ! 4) [],
     accum (inp ! 5) [],
     accum (inp ! 6) [],
     accum (inp ! 7) [],
     accum (inp ! 8) [],
     accum (inp ! 9) [],
     accum (inp ! 10) [],
     accum (inp ! 11) [],
     accum (inp ! 12) [],
     accum (inp ! 13) [],
     accum (inp ! 14) [],
     accum (inp ! 15) [],
     accum (inp ! 16) [],
     accum (inp ! 17) [],
     accum (inp ! 18) [],
     accum (inp ! 19) [],
     accum (inp ! 20) [],
     accum (inp ! 21) [],
     accum (inp ! 22) [],
     accum (inp ! 23) []]"

definition fastpackwithoutmask1_32 :: "u32 list \<Rightarrow> u32 list" where
  "fastpackwithoutmask1_32 inp =
    [accum (inp ! 0)
       [push_bit 1 (inp ! 1), push_bit 2 (inp ! 2), push_bit 3 (inp ! 3), push_bit 4 (inp ! 4), push_bit 5 (inp ! 5),
        push_bit 6 (inp ! 6), push_bit 7 (inp ! 7), push_bit 8 (inp ! 8), push_bit 9 (inp ! 9), push_bit 10 (inp ! 10),
        push_bit 11 (inp ! 11), push_bit 12 (inp ! 12), push_bit 13 (inp ! 13), push_bit 14 (inp ! 14),
        push_bit 15 (inp ! 15), push_bit 16 (inp ! 16), push_bit 17 (inp ! 17), push_bit 18 (inp ! 18),
        push_bit 19 (inp ! 19), push_bit 20 (inp ! 20), push_bit 21 (inp ! 21), push_bit 22 (inp ! 22),
        push_bit 23 (inp ! 23), push_bit 24 (inp ! 24), push_bit 25 (inp ! 25), push_bit 26 (inp ! 26),
        push_bit 27 (inp ! 27), push_bit 28 (inp ! 28), push_bit 29 (inp ! 29), push_bit 30 (inp ! 30),
        push_bit 31 (inp ! 31)]]"

definition fastpackwithoutmask2_32 :: "u32 list \<Rightarrow> u32 list" where
  "fastpackwithoutmask2_32 inp =
    [accum (inp ! 0)
       [push_bit 2 (inp ! 1), push_bit 4 (inp ! 2), push_bit 6 (inp ! 3), push_bit 8 (inp ! 4), push_bit 10 (inp ! 5),
        push_bit 12 (inp ! 6), push_bit 14 (inp ! 7), push_bit 16 (inp ! 8), push_bit 18 (inp ! 9),
        push_bit 20 (inp ! 10), push_bit 22 (inp ! 11), push_bit 24 (inp ! 12), push_bit 26 (inp ! 13),
        push_bit 28 (inp ! 14), push_bit 30 (inp ! 15)],
     accum (inp ! 16)
       [push_bit 2 (inp ! 17), push_bit 4 (inp ! 18), push_bit 6 (inp ! 19), push_bit 8 (inp ! 20),
        push_bit 10 (inp ! 21), push_bit 12 (inp ! 22), push_bit 14 (inp ! 23), push_bit 16 (inp ! 24),
        push_bit 18 (inp ! 25), push_bit 20 (inp ! 26), push_bit 22 (inp ! 27), push_bit 24 (inp ! 28),
        push_bit 26 (inp ! 29), push_bit 28 (inp ! 30), push_bit 30 (inp ! 31)]]"

definition fastpackwithoutmask3_32 :: "u32 list \<Rightarrow> u32 list" where
  "fastpackwithoutmask3_32 inp =
    [accum (inp ! 0)
       [push_bit 3 (inp ! 1), push_bit 6 (inp ! 2), push_bit 9 (inp ! 3), push_bit 12 (inp ! 4), push_bit 15 (inp ! 5),
        push_bit 18 (inp ! 6), push_bit 21 (inp ! 7), push_bit 24 (inp ! 8), push_bit 27 (inp ! 9),
        push_bit 30 (inp ! 10)],
     accum (drop_bit (3 - 1) (inp ! 10))
       [push_bit 1 (inp ! 11), push_bit 4 (inp ! 12), push_bit 7 (inp ! 13), push_bit 10 (inp ! 14),
        push_bit 13 (inp ! 15), push_bit 16 (inp ! 16), push_bit 19 (inp ! 17), push_bit 22 (inp ! 18),
        push_bit 25 (inp ! 19), push_bit 28 (inp ! 20), push_bit 31 (inp ! 21)],
     accum (drop_bit (3 - 2) (inp ! 21))
       [push_bit 2 (inp ! 22), push_bit 5 (inp ! 23), push_bit 8 (inp ! 24), push_bit 11 (inp ! 25),
        push_bit 14 (inp ! 26), push_bit 17 (inp ! 27), push_bit 20 (inp ! 28), push_bit 23 (inp ! 29),
        push_bit 26 (inp ! 30), push_bit 29 (inp ! 31)]]"

definition fastpackwithoutmask4_32 :: "u32 list \<Rightarrow> u32 list" where
  "fastpackwithoutmask4_32 inp =
    [accum (inp ! 0)
       [push_bit 4 (inp ! 1), push_bit 8 (inp ! 2), push_bit 12 (inp ! 3), push_bit 16 (inp ! 4),
        push_bit 20 (inp ! 5), push_bit 24 (inp ! 6), push_bit 28 (inp ! 7)],
     accum (inp ! 8)
       [push_bit 4 (inp ! 9), push_bit 8 (inp ! 10), push_bit 12 (inp ! 11), push_bit 16 (inp ! 12),
        push_bit 20 (inp ! 13), push_bit 24 (inp ! 14), push_bit 28 (inp ! 15)],
     accum (inp ! 16)
       [push_bit 4 (inp ! 17), push_bit 8 (inp ! 18), push_bit 12 (inp ! 19), push_bit 16 (inp ! 20),
        push_bit 20 (inp ! 21), push_bit 24 (inp ! 22), push_bit 28 (inp ! 23)],
     accum (inp ! 24)
       [push_bit 4 (inp ! 25), push_bit 8 (inp ! 26), push_bit 12 (inp ! 27), push_bit 16 (inp ! 28),
        push_bit 20 (inp ! 29), push_bit 24 (inp ! 30), push_bit 28 (inp ! 31)]]"

definition fastpackwithoutmask5_32 :: "u32 list \<Rightarrow> u32 list" where
  "fastpackwithoutmask5_32 inp =
    [accum (inp ! 0)
       [push_bit 5 (inp ! 1), push_bit 10 (inp ! 2), push_bit 15 (inp ! 3), push_bit 20 (inp ! 4),
        push_bit 25 (inp ! 5), push_bit 30 (inp ! 6)],
     accum (drop_bit (5 - 3) (inp ! 6))
       [push_bit 3 (inp ! 7), push_bit 8 (inp ! 8), push_bit 13 (inp ! 9), push_bit 18 (inp ! 10),
        push_bit 23 (inp ! 11), push_bit 28 (inp ! 12)],
     accum (drop_bit (5 - 1) (inp ! 12))
       [push_bit 1 (inp ! 13), push_bit 6 (inp ! 14), push_bit 11 (inp ! 15), push_bit 16 (inp ! 16),
        push_bit 21 (inp ! 17), push_bit 26 (inp ! 18), push_bit 31 (inp ! 19)],
     accum (drop_bit (5 - 4) (inp ! 19))
       [push_bit 4 (inp ! 20), push_bit 9 (inp ! 21), push_bit 14 (inp ! 22), push_bit 19 (inp ! 23),
        push_bit 24 (inp ! 24), push_bit 29 (inp ! 25)],
     accum (drop_bit (5 - 2) (inp ! 25))
       [push_bit 2 (inp ! 26), push_bit 7 (inp ! 27), push_bit 12 (inp ! 28), push_bit 17 (inp ! 29),
        push_bit 22 (inp ! 30), push_bit 27 (inp ! 31)]]"

definition fastpackwithoutmask6_32 :: "u32 list \<Rightarrow> u32 list" where
  "fastpackwithoutmask6_32 inp =
    [accum (inp ! 0)
       [push_bit 6 (inp ! 1), push_bit 12 (inp ! 2), push_bit 18 (inp ! 3), push_bit 24 (inp ! 4), push_bit 30 (inp ! 5)],
     accum (drop_bit (6 - 4) (inp ! 5))
       [push_bit 4 (inp ! 6), push_bit 10 (inp ! 7), push_bit 16 (inp ! 8), push_bit 22 (inp ! 9),
        push_bit 28 (inp ! 10)],
     accum (drop_bit (6 - 2) (inp ! 10))
       [push_bit 2 (inp ! 11), push_bit 8 (inp ! 12), push_bit 14 (inp ! 13), push_bit 20 (inp ! 14),
        push_bit 26 (inp ! 15)],
     accum (inp ! 16)
       [push_bit 6 (inp ! 17), push_bit 12 (inp ! 18), push_bit 18 (inp ! 19), push_bit 24 (inp ! 20),
        push_bit 30 (inp ! 21)],
     accum (drop_bit (6 - 4) (inp ! 21))
       [push_bit 4 (inp ! 22), push_bit 10 (inp ! 23), push_bit 16 (inp ! 24), push_bit 22 (inp ! 25),
        push_bit 28 (inp ! 26)],
     accum (drop_bit (6 - 2) (inp ! 26))
       [push_bit 2 (inp ! 27), push_bit 8 (inp ! 28), push_bit 14 (inp ! 29), push_bit 20 (inp ! 30),
        push_bit 26 (inp ! 31)]]"

definition fastpackwithoutmask7_32 :: "u32 list \<Rightarrow> u32 list" where
  "fastpackwithoutmask7_32 inp =
    [accum (inp ! 0)
       [push_bit 7 (inp ! 1), push_bit 14 (inp ! 2), push_bit 21 (inp ! 3), push_bit 28 (inp ! 4)],
     accum (drop_bit (7 - 3) (inp ! 4))
       [push_bit 3 (inp ! 5), push_bit 10 (inp ! 6), push_bit 17 (inp ! 7), push_bit 24 (inp ! 8), push_bit 31 (inp ! 9)],
     accum (drop_bit (7 - 6) (inp ! 9))
       [push_bit 6 (inp ! 10), push_bit 13 (inp ! 11), push_bit 20 (inp ! 12), push_bit 27 (inp ! 13)],
     accum (drop_bit (7 - 2) (inp ! 13))
       [push_bit 2 (inp ! 14), push_bit 9 (inp ! 15), push_bit 16 (inp ! 16), push_bit 23 (inp ! 17),
        push_bit 30 (inp ! 18)],
     accum (drop_bit (7 - 5) (inp ! 18))
       [push_bit 5 (inp ! 19), push_bit 12 (inp ! 20), push_bit 19 (inp ! 21), push_bit 26 (inp ! 22)],
     accum (drop_bit (7 - 1) (inp ! 22))
       [push_bit 1 (inp ! 23), push_bit 8 (inp ! 24), push_bit 15 (inp ! 25), push_bit 22 (inp ! 26),
        push_bit 29 (inp ! 27)],
     accum (drop_bit (7 - 4) (inp ! 27))
       [push_bit 4 (inp ! 28), push_bit 11 (inp ! 29), push_bit 18 (inp ! 30), push_bit 25 (inp ! 31)]]"

definition fastpackwithoutmask8_32 :: "u32 list \<Rightarrow> u32 list" where
  "fastpackwithoutmask8_32 inp =
    [accum (inp ! 0)
       [push_bit 8 (inp ! 1), push_bit 16 (inp ! 2), push_bit 24 (inp ! 3)],
     accum (inp ! 4)
       [push_bit 8 (inp ! 5), push_bit 16 (inp ! 6), push_bit 24 (inp ! 7)],
     accum (inp ! 8)
       [push_bit 8 (inp ! 9), push_bit 16 (inp ! 10), push_bit 24 (inp ! 11)],
     accum (inp ! 12)
       [push_bit 8 (inp ! 13), push_bit 16 (inp ! 14), push_bit 24 (inp ! 15)],
     accum (inp ! 16)
       [push_bit 8 (inp ! 17), push_bit 16 (inp ! 18), push_bit 24 (inp ! 19)],
     accum (inp ! 20)
       [push_bit 8 (inp ! 21), push_bit 16 (inp ! 22), push_bit 24 (inp ! 23)],
     accum (inp ! 24)
       [push_bit 8 (inp ! 25), push_bit 16 (inp ! 26), push_bit 24 (inp ! 27)],
     accum (inp ! 28)
       [push_bit 8 (inp ! 29), push_bit 16 (inp ! 30), push_bit 24 (inp ! 31)]]"

definition fastpackwithoutmask9_32 :: "u32 list \<Rightarrow> u32 list" where
  "fastpackwithoutmask9_32 inp =
    [accum (inp ! 0)
       [push_bit 9 (inp ! 1), push_bit 18 (inp ! 2), push_bit 27 (inp ! 3)],
     accum (drop_bit (9 - 4) (inp ! 3))
       [push_bit 4 (inp ! 4), push_bit 13 (inp ! 5), push_bit 22 (inp ! 6), push_bit 31 (inp ! 7)],
     accum (drop_bit (9 - 8) (inp ! 7))
       [push_bit 8 (inp ! 8), push_bit 17 (inp ! 9), push_bit 26 (inp ! 10)],
     accum (drop_bit (9 - 3) (inp ! 10))
       [push_bit 3 (inp ! 11), push_bit 12 (inp ! 12), push_bit 21 (inp ! 13), push_bit 30 (inp ! 14)],
     accum (drop_bit (9 - 7) (inp ! 14))
       [push_bit 7 (inp ! 15), push_bit 16 (inp ! 16), push_bit 25 (inp ! 17)],
     accum (drop_bit (9 - 2) (inp ! 17))
       [push_bit 2 (inp ! 18), push_bit 11 (inp ! 19), push_bit 20 (inp ! 20), push_bit 29 (inp ! 21)],
     accum (drop_bit (9 - 6) (inp ! 21))
       [push_bit 6 (inp ! 22), push_bit 15 (inp ! 23), push_bit 24 (inp ! 24)],
     accum (drop_bit (9 - 1) (inp ! 24))
       [push_bit 1 (inp ! 25), push_bit 10 (inp ! 26), push_bit 19 (inp ! 27), push_bit 28 (inp ! 28)],
     accum (drop_bit (9 - 5) (inp ! 28))
       [push_bit 5 (inp ! 29), push_bit 14 (inp ! 30), push_bit 23 (inp ! 31)]]"

definition fastpackwithoutmask10_32 :: "u32 list \<Rightarrow> u32 list" where
  "fastpackwithoutmask10_32 inp =
    [accum (inp ! 0)
       [push_bit 10 (inp ! 1), push_bit 20 (inp ! 2), push_bit 30 (inp ! 3)],
     accum (drop_bit (10 - 8) (inp ! 3))
       [push_bit 8 (inp ! 4), push_bit 18 (inp ! 5), push_bit 28 (inp ! 6)],
     accum (drop_bit (10 - 6) (inp ! 6))
       [push_bit 6 (inp ! 7), push_bit 16 (inp ! 8), push_bit 26 (inp ! 9)],
     accum (drop_bit (10 - 4) (inp ! 9))
       [push_bit 4 (inp ! 10), push_bit 14 (inp ! 11), push_bit 24 (inp ! 12)],
     accum (drop_bit (10 - 2) (inp ! 12))
       [push_bit 2 (inp ! 13), push_bit 12 (inp ! 14), push_bit 22 (inp ! 15)],
     accum (inp ! 16)
       [push_bit 10 (inp ! 17), push_bit 20 (inp ! 18), push_bit 30 (inp ! 19)],
     accum (drop_bit (10 - 8) (inp ! 19))
       [push_bit 8 (inp ! 20), push_bit 18 (inp ! 21), push_bit 28 (inp ! 22)],
     accum (drop_bit (10 - 6) (inp ! 22))
       [push_bit 6 (inp ! 23), push_bit 16 (inp ! 24), push_bit 26 (inp ! 25)],
     accum (drop_bit (10 - 4) (inp ! 25))
       [push_bit 4 (inp ! 26), push_bit 14 (inp ! 27), push_bit 24 (inp ! 28)],
     accum (drop_bit (10 - 2) (inp ! 28))
       [push_bit 2 (inp ! 29), push_bit 12 (inp ! 30), push_bit 22 (inp ! 31)]]"

definition fastpackwithoutmask11_32 :: "u32 list \<Rightarrow> u32 list" where
  "fastpackwithoutmask11_32 inp =
    [accum (inp ! 0)
       [push_bit 11 (inp ! 1), push_bit 22 (inp ! 2)],
     accum (drop_bit (11 - 1) (inp ! 2))
       [push_bit 1 (inp ! 3), push_bit 12 (inp ! 4), push_bit 23 (inp ! 5)],
     accum (drop_bit (11 - 2) (inp ! 5))
       [push_bit 2 (inp ! 6), push_bit 13 (inp ! 7), push_bit 24 (inp ! 8)],
     accum (drop_bit (11 - 3) (inp ! 8))
       [push_bit 3 (inp ! 9), push_bit 14 (inp ! 10), push_bit 25 (inp ! 11)],
     accum (drop_bit (11 - 4) (inp ! 11))
       [push_bit 4 (inp ! 12), push_bit 15 (inp ! 13), push_bit 26 (inp ! 14)],
     accum (drop_bit (11 - 5) (inp ! 14))
       [push_bit 5 (inp ! 15), push_bit 16 (inp ! 16), push_bit 27 (inp ! 17)],
     accum (drop_bit (11 - 6) (inp ! 17))
       [push_bit 6 (inp ! 18), push_bit 17 (inp ! 19), push_bit 28 (inp ! 20)],
     accum (drop_bit (11 - 7) (inp ! 20))
       [push_bit 7 (inp ! 21), push_bit 18 (inp ! 22), push_bit 29 (inp ! 23)],
     accum (drop_bit (11 - 8) (inp ! 23))
       [push_bit 8 (inp ! 24), push_bit 19 (inp ! 25), push_bit 30 (inp ! 26)],
     accum (drop_bit (11 - 9) (inp ! 26))
       [push_bit 9 (inp ! 27), push_bit 20 (inp ! 28), push_bit 31 (inp ! 29)],
     accum (drop_bit (11 - 10) (inp ! 29))
       [push_bit 10 (inp ! 30), push_bit 21 (inp ! 31)]]"

definition fastpackwithoutmask12_32 :: "u32 list \<Rightarrow> u32 list" where
  "fastpackwithoutmask12_32 inp =
    [accum (inp ! 0)
       [push_bit 12 (inp ! 1), push_bit 24 (inp ! 2)],
     accum (drop_bit (12 - 4) (inp ! 2))
       [push_bit 4 (inp ! 3), push_bit 16 (inp ! 4), push_bit 28 (inp ! 5)],
     accum (drop_bit (12 - 8) (inp ! 5))
       [push_bit 8 (inp ! 6), push_bit 20 (inp ! 7)],
     accum (inp ! 8)
       [push_bit 12 (inp ! 9), push_bit 24 (inp ! 10)],
     accum (drop_bit (12 - 4) (inp ! 10))
       [push_bit 4 (inp ! 11), push_bit 16 (inp ! 12), push_bit 28 (inp ! 13)],
     accum (drop_bit (12 - 8) (inp ! 13))
       [push_bit 8 (inp ! 14), push_bit 20 (inp ! 15)],
     accum (inp ! 16)
       [push_bit 12 (inp ! 17), push_bit 24 (inp ! 18)],
     accum (drop_bit (12 - 4) (inp ! 18))
       [push_bit 4 (inp ! 19), push_bit 16 (inp ! 20), push_bit 28 (inp ! 21)],
     accum (drop_bit (12 - 8) (inp ! 21))
       [push_bit 8 (inp ! 22), push_bit 20 (inp ! 23)],
     accum (inp ! 24)
       [push_bit 12 (inp ! 25), push_bit 24 (inp ! 26)],
     accum (drop_bit (12 - 4) (inp ! 26))
       [push_bit 4 (inp ! 27), push_bit 16 (inp ! 28), push_bit 28 (inp ! 29)],
     accum (drop_bit (12 - 8) (inp ! 29))
       [push_bit 8 (inp ! 30), push_bit 20 (inp ! 31)]]"

definition fastpackwithoutmask13_32 :: "u32 list \<Rightarrow> u32 list" where
  "fastpackwithoutmask13_32 inp =
    [accum (inp ! 0)
       [push_bit 13 (inp ! 1), push_bit 26 (inp ! 2)],
     accum (drop_bit (13 - 7) (inp ! 2))
       [push_bit 7 (inp ! 3), push_bit 20 (inp ! 4)],
     accum (drop_bit (13 - 1) (inp ! 4))
       [push_bit 1 (inp ! 5), push_bit 14 (inp ! 6), push_bit 27 (inp ! 7)],
     accum (drop_bit (13 - 8) (inp ! 7))
       [push_bit 8 (inp ! 8), push_bit 21 (inp ! 9)],
     accum (drop_bit (13 - 2) (inp ! 9))
       [push_bit 2 (inp ! 10), push_bit 15 (inp ! 11), push_bit 28 (inp ! 12)],
     accum (drop_bit (13 - 9) (inp ! 12))
       [push_bit 9 (inp ! 13), push_bit 22 (inp ! 14)],
     accum (drop_bit (13 - 3) (inp ! 14))
       [push_bit 3 (inp ! 15), push_bit 16 (inp ! 16), push_bit 29 (inp ! 17)],
     accum (drop_bit (13 - 10) (inp ! 17))
       [push_bit 10 (inp ! 18), push_bit 23 (inp ! 19)],
     accum (drop_bit (13 - 4) (inp ! 19))
       [push_bit 4 (inp ! 20), push_bit 17 (inp ! 21), push_bit 30 (inp ! 22)],
     accum (drop_bit (13 - 11) (inp ! 22))
       [push_bit 11 (inp ! 23), push_bit 24 (inp ! 24)],
     accum (drop_bit (13 - 5) (inp ! 24))
       [push_bit 5 (inp ! 25), push_bit 18 (inp ! 26), push_bit 31 (inp ! 27)],
     accum (drop_bit (13 - 12) (inp ! 27))
       [push_bit 12 (inp ! 28), push_bit 25 (inp ! 29)],
     accum (drop_bit (13 - 6) (inp ! 29))
       [push_bit 6 (inp ! 30), push_bit 19 (inp ! 31)]]"

definition fastpackwithoutmask14_32 :: "u32 list \<Rightarrow> u32 list" where
  "fastpackwithoutmask14_32 inp =
    [accum (inp ! 0)
       [push_bit 14 (inp ! 1), push_bit 28 (inp ! 2)],
     accum (drop_bit (14 - 10) (inp ! 2))
       [push_bit 10 (inp ! 3), push_bit 24 (inp ! 4)],
     accum (drop_bit (14 - 6) (inp ! 4))
       [push_bit 6 (inp ! 5), push_bit 20 (inp ! 6)],
     accum (drop_bit (14 - 2) (inp ! 6))
       [push_bit 2 (inp ! 7), push_bit 16 (inp ! 8), push_bit 30 (inp ! 9)],
     accum (drop_bit (14 - 12) (inp ! 9))
       [push_bit 12 (inp ! 10), push_bit 26 (inp ! 11)],
     accum (drop_bit (14 - 8) (inp ! 11))
       [push_bit 8 (inp ! 12), push_bit 22 (inp ! 13)],
     accum (drop_bit (14 - 4) (inp ! 13))
       [push_bit 4 (inp ! 14), push_bit 18 (inp ! 15)],
     accum (inp ! 16)
       [push_bit 14 (inp ! 17), push_bit 28 (inp ! 18)],
     accum (drop_bit (14 - 10) (inp ! 18))
       [push_bit 10 (inp ! 19), push_bit 24 (inp ! 20)],
     accum (drop_bit (14 - 6) (inp ! 20))
       [push_bit 6 (inp ! 21), push_bit 20 (inp ! 22)],
     accum (drop_bit (14 - 2) (inp ! 22))
       [push_bit 2 (inp ! 23), push_bit 16 (inp ! 24), push_bit 30 (inp ! 25)],
     accum (drop_bit (14 - 12) (inp ! 25))
       [push_bit 12 (inp ! 26), push_bit 26 (inp ! 27)],
     accum (drop_bit (14 - 8) (inp ! 27))
       [push_bit 8 (inp ! 28), push_bit 22 (inp ! 29)],
     accum (drop_bit (14 - 4) (inp ! 29))
       [push_bit 4 (inp ! 30), push_bit 18 (inp ! 31)]]"

definition fastpackwithoutmask15_32 :: "u32 list \<Rightarrow> u32 list" where
  "fastpackwithoutmask15_32 inp =
    [accum (inp ! 0)
       [push_bit 15 (inp ! 1), push_bit 30 (inp ! 2)],
     accum (drop_bit (15 - 13) (inp ! 2))
       [push_bit 13 (inp ! 3), push_bit 28 (inp ! 4)],
     accum (drop_bit (15 - 11) (inp ! 4))
       [push_bit 11 (inp ! 5), push_bit 26 (inp ! 6)],
     accum (drop_bit (15 - 9) (inp ! 6))
       [push_bit 9 (inp ! 7), push_bit 24 (inp ! 8)],
     accum (drop_bit (15 - 7) (inp ! 8))
       [push_bit 7 (inp ! 9), push_bit 22 (inp ! 10)],
     accum (drop_bit (15 - 5) (inp ! 10))
       [push_bit 5 (inp ! 11), push_bit 20 (inp ! 12)],
     accum (drop_bit (15 - 3) (inp ! 12))
       [push_bit 3 (inp ! 13), push_bit 18 (inp ! 14)],
     accum (drop_bit (15 - 1) (inp ! 14))
       [push_bit 1 (inp ! 15), push_bit 16 (inp ! 16), push_bit 31 (inp ! 17)],
     accum (drop_bit (15 - 14) (inp ! 17))
       [push_bit 14 (inp ! 18), push_bit 29 (inp ! 19)],
     accum (drop_bit (15 - 12) (inp ! 19))
       [push_bit 12 (inp ! 20), push_bit 27 (inp ! 21)],
     accum (drop_bit (15 - 10) (inp ! 21))
       [push_bit 10 (inp ! 22), push_bit 25 (inp ! 23)],
     accum (drop_bit (15 - 8) (inp ! 23))
       [push_bit 8 (inp ! 24), push_bit 23 (inp ! 25)],
     accum (drop_bit (15 - 6) (inp ! 25))
       [push_bit 6 (inp ! 26), push_bit 21 (inp ! 27)],
     accum (drop_bit (15 - 4) (inp ! 27))
       [push_bit 4 (inp ! 28), push_bit 19 (inp ! 29)],
     accum (drop_bit (15 - 2) (inp ! 29))
       [push_bit 2 (inp ! 30), push_bit 17 (inp ! 31)]]"

definition fastpackwithoutmask16_32 :: "u32 list \<Rightarrow> u32 list" where
  "fastpackwithoutmask16_32 inp =
    [accum (inp ! 0)
       [push_bit 16 (inp ! 1)],
     accum (inp ! 2)
       [push_bit 16 (inp ! 3)],
     accum (inp ! 4)
       [push_bit 16 (inp ! 5)],
     accum (inp ! 6)
       [push_bit 16 (inp ! 7)],
     accum (inp ! 8)
       [push_bit 16 (inp ! 9)],
     accum (inp ! 10)
       [push_bit 16 (inp ! 11)],
     accum (inp ! 12)
       [push_bit 16 (inp ! 13)],
     accum (inp ! 14)
       [push_bit 16 (inp ! 15)],
     accum (inp ! 16)
       [push_bit 16 (inp ! 17)],
     accum (inp ! 18)
       [push_bit 16 (inp ! 19)],
     accum (inp ! 20)
       [push_bit 16 (inp ! 21)],
     accum (inp ! 22)
       [push_bit 16 (inp ! 23)],
     accum (inp ! 24)
       [push_bit 16 (inp ! 25)],
     accum (inp ! 26)
       [push_bit 16 (inp ! 27)],
     accum (inp ! 28)
       [push_bit 16 (inp ! 29)],
     accum (inp ! 30)
       [push_bit 16 (inp ! 31)]]"

definition fastpackwithoutmask17_32 :: "u32 list \<Rightarrow> u32 list" where
  "fastpackwithoutmask17_32 inp =
    [accum (inp ! 0)
       [push_bit 17 (inp ! 1)],
     accum (drop_bit (17 - 2) (inp ! 1))
       [push_bit 2 (inp ! 2), push_bit 19 (inp ! 3)],
     accum (drop_bit (17 - 4) (inp ! 3))
       [push_bit 4 (inp ! 4), push_bit 21 (inp ! 5)],
     accum (drop_bit (17 - 6) (inp ! 5))
       [push_bit 6 (inp ! 6), push_bit 23 (inp ! 7)],
     accum (drop_bit (17 - 8) (inp ! 7))
       [push_bit 8 (inp ! 8), push_bit 25 (inp ! 9)],
     accum (drop_bit (17 - 10) (inp ! 9))
       [push_bit 10 (inp ! 10), push_bit 27 (inp ! 11)],
     accum (drop_bit (17 - 12) (inp ! 11))
       [push_bit 12 (inp ! 12), push_bit 29 (inp ! 13)],
     accum (drop_bit (17 - 14) (inp ! 13))
       [push_bit 14 (inp ! 14), push_bit 31 (inp ! 15)],
     accum (drop_bit (17 - 16) (inp ! 15))
       [push_bit 16 (inp ! 16)],
     accum (drop_bit (17 - 1) (inp ! 16))
       [push_bit 1 (inp ! 17), push_bit 18 (inp ! 18)],
     accum (drop_bit (17 - 3) (inp ! 18))
       [push_bit 3 (inp ! 19), push_bit 20 (inp ! 20)],
     accum (drop_bit (17 - 5) (inp ! 20))
       [push_bit 5 (inp ! 21), push_bit 22 (inp ! 22)],
     accum (drop_bit (17 - 7) (inp ! 22))
       [push_bit 7 (inp ! 23), push_bit 24 (inp ! 24)],
     accum (drop_bit (17 - 9) (inp ! 24))
       [push_bit 9 (inp ! 25), push_bit 26 (inp ! 26)],
     accum (drop_bit (17 - 11) (inp ! 26))
       [push_bit 11 (inp ! 27), push_bit 28 (inp ! 28)],
     accum (drop_bit (17 - 13) (inp ! 28))
       [push_bit 13 (inp ! 29), push_bit 30 (inp ! 30)],
     accum (drop_bit (17 - 15) (inp ! 30))
       [push_bit 15 (inp ! 31)]]"

definition fastpackwithoutmask18_32 :: "u32 list \<Rightarrow> u32 list" where
  "fastpackwithoutmask18_32 inp =
    [accum (inp ! 0)
       [push_bit 18 (inp ! 1)],
     accum (drop_bit (18 - 4) (inp ! 1))
       [push_bit 4 (inp ! 2), push_bit 22 (inp ! 3)],
     accum (drop_bit (18 - 8) (inp ! 3))
       [push_bit 8 (inp ! 4), push_bit 26 (inp ! 5)],
     accum (drop_bit (18 - 12) (inp ! 5))
       [push_bit 12 (inp ! 6), push_bit 30 (inp ! 7)],
     accum (drop_bit (18 - 16) (inp ! 7))
       [push_bit 16 (inp ! 8)],
     accum (drop_bit (18 - 2) (inp ! 8))
       [push_bit 2 (inp ! 9), push_bit 20 (inp ! 10)],
     accum (drop_bit (18 - 6) (inp ! 10))
       [push_bit 6 (inp ! 11), push_bit 24 (inp ! 12)],
     accum (drop_bit (18 - 10) (inp ! 12))
       [push_bit 10 (inp ! 13), push_bit 28 (inp ! 14)],
     accum (drop_bit (18 - 14) (inp ! 14))
       [push_bit 14 (inp ! 15)],
     accum (inp ! 16)
       [push_bit 18 (inp ! 17)],
     accum (drop_bit (18 - 4) (inp ! 17))
       [push_bit 4 (inp ! 18), push_bit 22 (inp ! 19)],
     accum (drop_bit (18 - 8) (inp ! 19))
       [push_bit 8 (inp ! 20), push_bit 26 (inp ! 21)],
     accum (drop_bit (18 - 12) (inp ! 21))
       [push_bit 12 (inp ! 22), push_bit 30 (inp ! 23)],
     accum (drop_bit (18 - 16) (inp ! 23))
       [push_bit 16 (inp ! 24)],
     accum (drop_bit (18 - 2) (inp ! 24))
       [push_bit 2 (inp ! 25), push_bit 20 (inp ! 26)],
     accum (drop_bit (18 - 6) (inp ! 26))
       [push_bit 6 (inp ! 27), push_bit 24 (inp ! 28)],
     accum (drop_bit (18 - 10) (inp ! 28))
       [push_bit 10 (inp ! 29), push_bit 28 (inp ! 30)],
     accum (drop_bit (18 - 14) (inp ! 30))
       [push_bit 14 (inp ! 31)]]"

definition fastpackwithoutmask19_32 :: "u32 list \<Rightarrow> u32 list" where
  "fastpackwithoutmask19_32 inp =
    [accum (inp ! 0)
       [push_bit 19 (inp ! 1)],
     accum (drop_bit (19 - 6) (inp ! 1))
       [push_bit 6 (inp ! 2), push_bit 25 (inp ! 3)],
     accum (drop_bit (19 - 12) (inp ! 3))
       [push_bit 12 (inp ! 4), push_bit 31 (inp ! 5)],
     accum (drop_bit (19 - 18) (inp ! 5))
       [push_bit 18 (inp ! 6)],
     accum (drop_bit (19 - 5) (inp ! 6))
       [push_bit 5 (inp ! 7), push_bit 24 (inp ! 8)],
     accum (drop_bit (19 - 11) (inp ! 8))
       [push_bit 11 (inp ! 9), push_bit 30 (inp ! 10)],
     accum (drop_bit (19 - 17) (inp ! 10))
       [push_bit 17 (inp ! 11)],
     accum (drop_bit (19 - 4) (inp ! 11))
       [push_bit 4 (inp ! 12), push_bit 23 (inp ! 13)],
     accum (drop_bit (19 - 10) (inp ! 13))
       [push_bit 10 (inp ! 14), push_bit 29 (inp ! 15)],
     accum (drop_bit (19 - 16) (inp ! 15))
       [push_bit 16 (inp ! 16)],
     accum (drop_bit (19 - 3) (inp ! 16))
       [push_bit 3 (inp ! 17), push_bit 22 (inp ! 18)],
     accum (drop_bit (19 - 9) (inp ! 18))
       [push_bit 9 (inp ! 19), push_bit 28 (inp ! 20)],
     accum (drop_bit (19 - 15) (inp ! 20))
       [push_bit 15 (inp ! 21)],
     accum (drop_bit (19 - 2) (inp ! 21))
       [push_bit 2 (inp ! 22), push_bit 21 (inp ! 23)],
     accum (drop_bit (19 - 8) (inp ! 23))
       [push_bit 8 (inp ! 24), push_bit 27 (inp ! 25)],
     accum (drop_bit (19 - 14) (inp ! 25))
       [push_bit 14 (inp ! 26)],
     accum (drop_bit (19 - 1) (inp ! 26))
       [push_bit 1 (inp ! 27), push_bit 20 (inp ! 28)],
     accum (drop_bit (19 - 7) (inp ! 28))
       [push_bit 7 (inp ! 29), push_bit 26 (inp ! 30)],
     accum (drop_bit (19 - 13) (inp ! 30))
       [push_bit 13 (inp ! 31)]]"

definition fastpackwithoutmask20_32 :: "u32 list \<Rightarrow> u32 list" where
  "fastpackwithoutmask20_32 inp =
    [accum (inp ! 0)
       [push_bit 20 (inp ! 1)],
     accum (drop_bit (20 - 8) (inp ! 1))
       [push_bit 8 (inp ! 2), push_bit 28 (inp ! 3)],
     accum (drop_bit (20 - 16) (inp ! 3))
       [push_bit 16 (inp ! 4)],
     accum (drop_bit (20 - 4) (inp ! 4))
       [push_bit 4 (inp ! 5), push_bit 24 (inp ! 6)],
     accum (drop_bit (20 - 12) (inp ! 6))
       [push_bit 12 (inp ! 7)],
     accum (inp ! 8)
       [push_bit 20 (inp ! 9)],
     accum (drop_bit (20 - 8) (inp ! 9))
       [push_bit 8 (inp ! 10), push_bit 28 (inp ! 11)],
     accum (drop_bit (20 - 16) (inp ! 11))
       [push_bit 16 (inp ! 12)],
     accum (drop_bit (20 - 4) (inp ! 12))
       [push_bit 4 (inp ! 13), push_bit 24 (inp ! 14)],
     accum (drop_bit (20 - 12) (inp ! 14))
       [push_bit 12 (inp ! 15)],
     accum (inp ! 16)
       [push_bit 20 (inp ! 17)],
     accum (drop_bit (20 - 8) (inp ! 17))
       [push_bit 8 (inp ! 18), push_bit 28 (inp ! 19)],
     accum (drop_bit (20 - 16) (inp ! 19))
       [push_bit 16 (inp ! 20)],
     accum (drop_bit (20 - 4) (inp ! 20))
       [push_bit 4 (inp ! 21), push_bit 24 (inp ! 22)],
     accum (drop_bit (20 - 12) (inp ! 22))
       [push_bit 12 (inp ! 23)],
     accum (inp ! 24)
       [push_bit 20 (inp ! 25)],
     accum (drop_bit (20 - 8) (inp ! 25))
       [push_bit 8 (inp ! 26), push_bit 28 (inp ! 27)],
     accum (drop_bit (20 - 16) (inp ! 27))
       [push_bit 16 (inp ! 28)],
     accum (drop_bit (20 - 4) (inp ! 28))
       [push_bit 4 (inp ! 29), push_bit 24 (inp ! 30)],
     accum (drop_bit (20 - 12) (inp ! 30))
       [push_bit 12 (inp ! 31)]]"

definition fastpackwithoutmask21_32 :: "u32 list \<Rightarrow> u32 list" where
  "fastpackwithoutmask21_32 inp =
    [accum (inp ! 0)
       [push_bit 21 (inp ! 1)],
     accum (drop_bit (21 - 10) (inp ! 1))
       [push_bit 10 (inp ! 2), push_bit 31 (inp ! 3)],
     accum (drop_bit (21 - 20) (inp ! 3))
       [push_bit 20 (inp ! 4)],
     accum (drop_bit (21 - 9) (inp ! 4))
       [push_bit 9 (inp ! 5), push_bit 30 (inp ! 6)],
     accum (drop_bit (21 - 19) (inp ! 6))
       [push_bit 19 (inp ! 7)],
     accum (drop_bit (21 - 8) (inp ! 7))
       [push_bit 8 (inp ! 8), push_bit 29 (inp ! 9)],
     accum (drop_bit (21 - 18) (inp ! 9))
       [push_bit 18 (inp ! 10)],
     accum (drop_bit (21 - 7) (inp ! 10))
       [push_bit 7 (inp ! 11), push_bit 28 (inp ! 12)],
     accum (drop_bit (21 - 17) (inp ! 12))
       [push_bit 17 (inp ! 13)],
     accum (drop_bit (21 - 6) (inp ! 13))
       [push_bit 6 (inp ! 14), push_bit 27 (inp ! 15)],
     accum (drop_bit (21 - 16) (inp ! 15))
       [push_bit 16 (inp ! 16)],
     accum (drop_bit (21 - 5) (inp ! 16))
       [push_bit 5 (inp ! 17), push_bit 26 (inp ! 18)],
     accum (drop_bit (21 - 15) (inp ! 18))
       [push_bit 15 (inp ! 19)],
     accum (drop_bit (21 - 4) (inp ! 19))
       [push_bit 4 (inp ! 20), push_bit 25 (inp ! 21)],
     accum (drop_bit (21 - 14) (inp ! 21))
       [push_bit 14 (inp ! 22)],
     accum (drop_bit (21 - 3) (inp ! 22))
       [push_bit 3 (inp ! 23), push_bit 24 (inp ! 24)],
     accum (drop_bit (21 - 13) (inp ! 24))
       [push_bit 13 (inp ! 25)],
     accum (drop_bit (21 - 2) (inp ! 25))
       [push_bit 2 (inp ! 26), push_bit 23 (inp ! 27)],
     accum (drop_bit (21 - 12) (inp ! 27))
       [push_bit 12 (inp ! 28)],
     accum (drop_bit (21 - 1) (inp ! 28))
       [push_bit 1 (inp ! 29), push_bit 22 (inp ! 30)],
     accum (drop_bit (21 - 11) (inp ! 30))
       [push_bit 11 (inp ! 31)]]"

definition fastpackwithoutmask22_32 :: "u32 list \<Rightarrow> u32 list" where
  "fastpackwithoutmask22_32 inp =
    [accum (inp ! 0)
       [push_bit 22 (inp ! 1)],
     accum (drop_bit (22 - 12) (inp ! 1))
       [push_bit 12 (inp ! 2)],
     accum (drop_bit (22 - 2) (inp ! 2))
       [push_bit 2 (inp ! 3), push_bit 24 (inp ! 4)],
     accum (drop_bit (22 - 14) (inp ! 4))
       [push_bit 14 (inp ! 5)],
     accum (drop_bit (22 - 4) (inp ! 5))
       [push_bit 4 (inp ! 6), push_bit 26 (inp ! 7)],
     accum (drop_bit (22 - 16) (inp ! 7))
       [push_bit 16 (inp ! 8)],
     accum (drop_bit (22 - 6) (inp ! 8))
       [push_bit 6 (inp ! 9), push_bit 28 (inp ! 10)],
     accum (drop_bit (22 - 18) (inp ! 10))
       [push_bit 18 (inp ! 11)],
     accum (drop_bit (22 - 8) (inp ! 11))
       [push_bit 8 (inp ! 12), push_bit 30 (inp ! 13)],
     accum (drop_bit (22 - 20) (inp ! 13))
       [push_bit 20 (inp ! 14)],
     accum (drop_bit (22 - 10) (inp ! 14))
       [push_bit 10 (inp ! 15)],
     accum (inp ! 16)
       [push_bit 22 (inp ! 17)],
     accum (drop_bit (22 - 12) (inp ! 17))
       [push_bit 12 (inp ! 18)],
     accum (drop_bit (22 - 2) (inp ! 18))
       [push_bit 2 (inp ! 19), push_bit 24 (inp ! 20)],
     accum (drop_bit (22 - 14) (inp ! 20))
       [push_bit 14 (inp ! 21)],
     accum (drop_bit (22 - 4) (inp ! 21))
       [push_bit 4 (inp ! 22), push_bit 26 (inp ! 23)],
     accum (drop_bit (22 - 16) (inp ! 23))
       [push_bit 16 (inp ! 24)],
     accum (drop_bit (22 - 6) (inp ! 24))
       [push_bit 6 (inp ! 25), push_bit 28 (inp ! 26)],
     accum (drop_bit (22 - 18) (inp ! 26))
       [push_bit 18 (inp ! 27)],
     accum (drop_bit (22 - 8) (inp ! 27))
       [push_bit 8 (inp ! 28), push_bit 30 (inp ! 29)],
     accum (drop_bit (22 - 20) (inp ! 29))
       [push_bit 20 (inp ! 30)],
     accum (drop_bit (22 - 10) (inp ! 30))
       [push_bit 10 (inp ! 31)]]"

definition fastpackwithoutmask23_32 :: "u32 list \<Rightarrow> u32 list" where
  "fastpackwithoutmask23_32 inp =
    [accum (inp ! 0)
       [push_bit 23 (inp ! 1)],
     accum (drop_bit (23 - 14) (inp ! 1))
       [push_bit 14 (inp ! 2)],
     accum (drop_bit (23 - 5) (inp ! 2))
       [push_bit 5 (inp ! 3), push_bit 28 (inp ! 4)],
     accum (drop_bit (23 - 19) (inp ! 4))
       [push_bit 19 (inp ! 5)],
     accum (drop_bit (23 - 10) (inp ! 5))
       [push_bit 10 (inp ! 6)],
     accum (drop_bit (23 - 1) (inp ! 6))
       [push_bit 1 (inp ! 7), push_bit 24 (inp ! 8)],
     accum (drop_bit (23 - 15) (inp ! 8))
       [push_bit 15 (inp ! 9)],
     accum (drop_bit (23 - 6) (inp ! 9))
       [push_bit 6 (inp ! 10), push_bit 29 (inp ! 11)],
     accum (drop_bit (23 - 20) (inp ! 11))
       [push_bit 20 (inp ! 12)],
     accum (drop_bit (23 - 11) (inp ! 12))
       [push_bit 11 (inp ! 13)],
     accum (drop_bit (23 - 2) (inp ! 13))
       [push_bit 2 (inp ! 14), push_bit 25 (inp ! 15)],
     accum (drop_bit (23 - 16) (inp ! 15))
       [push_bit 16 (inp ! 16)],
     accum (drop_bit (23 - 7) (inp ! 16))
       [push_bit 7 (inp ! 17), push_bit 30 (inp ! 18)],
     accum (drop_bit (23 - 21) (inp ! 18))
       [push_bit 21 (inp ! 19)],
     accum (drop_bit (23 - 12) (inp ! 19))
       [push_bit 12 (inp ! 20)],
     accum (drop_bit (23 - 3) (inp ! 20))
       [push_bit 3 (inp ! 21), push_bit 26 (inp ! 22)],
     accum (drop_bit (23 - 17) (inp ! 22))
       [push_bit 17 (inp ! 23)],
     accum (drop_bit (23 - 8) (inp ! 23))
       [push_bit 8 (inp ! 24), push_bit 31 (inp ! 25)],
     accum (drop_bit (23 - 22) (inp ! 25))
       [push_bit 22 (inp ! 26)],
     accum (drop_bit (23 - 13) (inp ! 26))
       [push_bit 13 (inp ! 27)],
     accum (drop_bit (23 - 4) (inp ! 27))
       [push_bit 4 (inp ! 28), push_bit 27 (inp ! 29)],
     accum (drop_bit (23 - 18) (inp ! 29))
       [push_bit 18 (inp ! 30)],
     accum (drop_bit (23 - 9) (inp ! 30))
       [push_bit 9 (inp ! 31)]]"

definition fastpackwithoutmask24_32 :: "u32 list \<Rightarrow> u32 list" where
  "fastpackwithoutmask24_32 inp =
    [accum (inp ! 0)
       [push_bit 24 (inp ! 1)],
     accum (drop_bit (24 - 16) (inp ! 1))
       [push_bit 16 (inp ! 2)],
     accum (drop_bit (24 - 8) (inp ! 2))
       [push_bit 8 (inp ! 3)],
     accum (inp ! 4)
       [push_bit 24 (inp ! 5)],
     accum (drop_bit (24 - 16) (inp ! 5))
       [push_bit 16 (inp ! 6)],
     accum (drop_bit (24 - 8) (inp ! 6))
       [push_bit 8 (inp ! 7)],
     accum (inp ! 8)
       [push_bit 24 (inp ! 9)],
     accum (drop_bit (24 - 16) (inp ! 9))
       [push_bit 16 (inp ! 10)],
     accum (drop_bit (24 - 8) (inp ! 10))
       [push_bit 8 (inp ! 11)],
     accum (inp ! 12)
       [push_bit 24 (inp ! 13)],
     accum (drop_bit (24 - 16) (inp ! 13))
       [push_bit 16 (inp ! 14)],
     accum (drop_bit (24 - 8) (inp ! 14))
       [push_bit 8 (inp ! 15)],
     accum (inp ! 16)
       [push_bit 24 (inp ! 17)],
     accum (drop_bit (24 - 16) (inp ! 17))
       [push_bit 16 (inp ! 18)],
     accum (drop_bit (24 - 8) (inp ! 18))
       [push_bit 8 (inp ! 19)],
     accum (inp ! 20)
       [push_bit 24 (inp ! 21)],
     accum (drop_bit (24 - 16) (inp ! 21))
       [push_bit 16 (inp ! 22)],
     accum (drop_bit (24 - 8) (inp ! 22))
       [push_bit 8 (inp ! 23)],
     accum (inp ! 24)
       [push_bit 24 (inp ! 25)],
     accum (drop_bit (24 - 16) (inp ! 25))
       [push_bit 16 (inp ! 26)],
     accum (drop_bit (24 - 8) (inp ! 26))
       [push_bit 8 (inp ! 27)],
     accum (inp ! 28)
       [push_bit 24 (inp ! 29)],
     accum (drop_bit (24 - 16) (inp ! 29))
       [push_bit 16 (inp ! 30)],
     accum (drop_bit (24 - 8) (inp ! 30))
       [push_bit 8 (inp ! 31)]]"

definition fastpackwithoutmask25_32 :: "u32 list \<Rightarrow> u32 list" where
  "fastpackwithoutmask25_32 inp =
    [accum (inp ! 0)
       [push_bit 25 (inp ! 1)],
     accum (drop_bit (25 - 18) (inp ! 1))
       [push_bit 18 (inp ! 2)],
     accum (drop_bit (25 - 11) (inp ! 2))
       [push_bit 11 (inp ! 3)],
     accum (drop_bit (25 - 4) (inp ! 3))
       [push_bit 4 (inp ! 4), push_bit 29 (inp ! 5)],
     accum (drop_bit (25 - 22) (inp ! 5))
       [push_bit 22 (inp ! 6)],
     accum (drop_bit (25 - 15) (inp ! 6))
       [push_bit 15 (inp ! 7)],
     accum (drop_bit (25 - 8) (inp ! 7))
       [push_bit 8 (inp ! 8)],
     accum (drop_bit (25 - 1) (inp ! 8))
       [push_bit 1 (inp ! 9), push_bit 26 (inp ! 10)],
     accum (drop_bit (25 - 19) (inp ! 10))
       [push_bit 19 (inp ! 11)],
     accum (drop_bit (25 - 12) (inp ! 11))
       [push_bit 12 (inp ! 12)],
     accum (drop_bit (25 - 5) (inp ! 12))
       [push_bit 5 (inp ! 13), push_bit 30 (inp ! 14)],
     accum (drop_bit (25 - 23) (inp ! 14))
       [push_bit 23 (inp ! 15)],
     accum (drop_bit (25 - 16) (inp ! 15))
       [push_bit 16 (inp ! 16)],
     accum (drop_bit (25 - 9) (inp ! 16))
       [push_bit 9 (inp ! 17)],
     accum (drop_bit (25 - 2) (inp ! 17))
       [push_bit 2 (inp ! 18), push_bit 27 (inp ! 19)],
     accum (drop_bit (25 - 20) (inp ! 19))
       [push_bit 20 (inp ! 20)],
     accum (drop_bit (25 - 13) (inp ! 20))
       [push_bit 13 (inp ! 21)],
     accum (drop_bit (25 - 6) (inp ! 21))
       [push_bit 6 (inp ! 22), push_bit 31 (inp ! 23)],
     accum (drop_bit (25 - 24) (inp ! 23))
       [push_bit 24 (inp ! 24)],
     accum (drop_bit (25 - 17) (inp ! 24))
       [push_bit 17 (inp ! 25)],
     accum (drop_bit (25 - 10) (inp ! 25))
       [push_bit 10 (inp ! 26)],
     accum (drop_bit (25 - 3) (inp ! 26))
       [push_bit 3 (inp ! 27), push_bit 28 (inp ! 28)],
     accum (drop_bit (25 - 21) (inp ! 28))
       [push_bit 21 (inp ! 29)],
     accum (drop_bit (25 - 14) (inp ! 29))
       [push_bit 14 (inp ! 30)],
     accum (drop_bit (25 - 7) (inp ! 30))
       [push_bit 7 (inp ! 31)]]"

definition fastpackwithoutmask26_32 :: "u32 list \<Rightarrow> u32 list" where
  "fastpackwithoutmask26_32 inp =
    [accum (inp ! 0)
       [push_bit 26 (inp ! 1)],
     accum (drop_bit (26 - 20) (inp ! 1))
       [push_bit 20 (inp ! 2)],
     accum (drop_bit (26 - 14) (inp ! 2))
       [push_bit 14 (inp ! 3)],
     accum (drop_bit (26 - 8) (inp ! 3))
       [push_bit 8 (inp ! 4)],
     accum (drop_bit (26 - 2) (inp ! 4))
       [push_bit 2 (inp ! 5), push_bit 28 (inp ! 6)],
     accum (drop_bit (26 - 22) (inp ! 6))
       [push_bit 22 (inp ! 7)],
     accum (drop_bit (26 - 16) (inp ! 7))
       [push_bit 16 (inp ! 8)],
     accum (drop_bit (26 - 10) (inp ! 8))
       [push_bit 10 (inp ! 9)],
     accum (drop_bit (26 - 4) (inp ! 9))
       [push_bit 4 (inp ! 10), push_bit 30 (inp ! 11)],
     accum (drop_bit (26 - 24) (inp ! 11))
       [push_bit 24 (inp ! 12)],
     accum (drop_bit (26 - 18) (inp ! 12))
       [push_bit 18 (inp ! 13)],
     accum (drop_bit (26 - 12) (inp ! 13))
       [push_bit 12 (inp ! 14)],
     accum (drop_bit (26 - 6) (inp ! 14))
       [push_bit 6 (inp ! 15)],
     accum (inp ! 16)
       [push_bit 26 (inp ! 17)],
     accum (drop_bit (26 - 20) (inp ! 17))
       [push_bit 20 (inp ! 18)],
     accum (drop_bit (26 - 14) (inp ! 18))
       [push_bit 14 (inp ! 19)],
     accum (drop_bit (26 - 8) (inp ! 19))
       [push_bit 8 (inp ! 20)],
     accum (drop_bit (26 - 2) (inp ! 20))
       [push_bit 2 (inp ! 21), push_bit 28 (inp ! 22)],
     accum (drop_bit (26 - 22) (inp ! 22))
       [push_bit 22 (inp ! 23)],
     accum (drop_bit (26 - 16) (inp ! 23))
       [push_bit 16 (inp ! 24)],
     accum (drop_bit (26 - 10) (inp ! 24))
       [push_bit 10 (inp ! 25)],
     accum (drop_bit (26 - 4) (inp ! 25))
       [push_bit 4 (inp ! 26), push_bit 30 (inp ! 27)],
     accum (drop_bit (26 - 24) (inp ! 27))
       [push_bit 24 (inp ! 28)],
     accum (drop_bit (26 - 18) (inp ! 28))
       [push_bit 18 (inp ! 29)],
     accum (drop_bit (26 - 12) (inp ! 29))
       [push_bit 12 (inp ! 30)],
     accum (drop_bit (26 - 6) (inp ! 30))
       [push_bit 6 (inp ! 31)]]"

definition fastpackwithoutmask27_32 :: "u32 list \<Rightarrow> u32 list" where
  "fastpackwithoutmask27_32 inp =
    [accum (inp ! 0)
       [push_bit 27 (inp ! 1)],
     accum (drop_bit (27 - 22) (inp ! 1))
       [push_bit 22 (inp ! 2)],
     accum (drop_bit (27 - 17) (inp ! 2))
       [push_bit 17 (inp ! 3)],
     accum (drop_bit (27 - 12) (inp ! 3))
       [push_bit 12 (inp ! 4)],
     accum (drop_bit (27 - 7) (inp ! 4))
       [push_bit 7 (inp ! 5)],
     accum (drop_bit (27 - 2) (inp ! 5))
       [push_bit 2 (inp ! 6), push_bit 29 (inp ! 7)],
     accum (drop_bit (27 - 24) (inp ! 7))
       [push_bit 24 (inp ! 8)],
     accum (drop_bit (27 - 19) (inp ! 8))
       [push_bit 19 (inp ! 9)],
     accum (drop_bit (27 - 14) (inp ! 9))
       [push_bit 14 (inp ! 10)],
     accum (drop_bit (27 - 9) (inp ! 10))
       [push_bit 9 (inp ! 11)],
     accum (drop_bit (27 - 4) (inp ! 11))
       [push_bit 4 (inp ! 12), push_bit 31 (inp ! 13)],
     accum (drop_bit (27 - 26) (inp ! 13))
       [push_bit 26 (inp ! 14)],
     accum (drop_bit (27 - 21) (inp ! 14))
       [push_bit 21 (inp ! 15)],
     accum (drop_bit (27 - 16) (inp ! 15))
       [push_bit 16 (inp ! 16)],
     accum (drop_bit (27 - 11) (inp ! 16))
       [push_bit 11 (inp ! 17)],
     accum (drop_bit (27 - 6) (inp ! 17))
       [push_bit 6 (inp ! 18)],
     accum (drop_bit (27 - 1) (inp ! 18))
       [push_bit 1 (inp ! 19), push_bit 28 (inp ! 20)],
     accum (drop_bit (27 - 23) (inp ! 20))
       [push_bit 23 (inp ! 21)],
     accum (drop_bit (27 - 18) (inp ! 21))
       [push_bit 18 (inp ! 22)],
     accum (drop_bit (27 - 13) (inp ! 22))
       [push_bit 13 (inp ! 23)],
     accum (drop_bit (27 - 8) (inp ! 23))
       [push_bit 8 (inp ! 24)],
     accum (drop_bit (27 - 3) (inp ! 24))
       [push_bit 3 (inp ! 25), push_bit 30 (inp ! 26)],
     accum (drop_bit (27 - 25) (inp ! 26))
       [push_bit 25 (inp ! 27)],
     accum (drop_bit (27 - 20) (inp ! 27))
       [push_bit 20 (inp ! 28)],
     accum (drop_bit (27 - 15) (inp ! 28))
       [push_bit 15 (inp ! 29)],
     accum (drop_bit (27 - 10) (inp ! 29))
       [push_bit 10 (inp ! 30)],
     accum (drop_bit (27 - 5) (inp ! 30))
       [push_bit 5 (inp ! 31)]]"

definition fastpackwithoutmask28_32 :: "u32 list \<Rightarrow> u32 list" where
  "fastpackwithoutmask28_32 inp =
    [accum (inp ! 0)
       [push_bit 28 (inp ! 1)],
     accum (drop_bit (28 - 24) (inp ! 1))
       [push_bit 24 (inp ! 2)],
     accum (drop_bit (28 - 20) (inp ! 2))
       [push_bit 20 (inp ! 3)],
     accum (drop_bit (28 - 16) (inp ! 3))
       [push_bit 16 (inp ! 4)],
     accum (drop_bit (28 - 12) (inp ! 4))
       [push_bit 12 (inp ! 5)],
     accum (drop_bit (28 - 8) (inp ! 5))
       [push_bit 8 (inp ! 6)],
     accum (drop_bit (28 - 4) (inp ! 6))
       [push_bit 4 (inp ! 7)],
     accum (inp ! 8)
       [push_bit 28 (inp ! 9)],
     accum (drop_bit (28 - 24) (inp ! 9))
       [push_bit 24 (inp ! 10)],
     accum (drop_bit (28 - 20) (inp ! 10))
       [push_bit 20 (inp ! 11)],
     accum (drop_bit (28 - 16) (inp ! 11))
       [push_bit 16 (inp ! 12)],
     accum (drop_bit (28 - 12) (inp ! 12))
       [push_bit 12 (inp ! 13)],
     accum (drop_bit (28 - 8) (inp ! 13))
       [push_bit 8 (inp ! 14)],
     accum (drop_bit (28 - 4) (inp ! 14))
       [push_bit 4 (inp ! 15)],
     accum (inp ! 16)
       [push_bit 28 (inp ! 17)],
     accum (drop_bit (28 - 24) (inp ! 17))
       [push_bit 24 (inp ! 18)],
     accum (drop_bit (28 - 20) (inp ! 18))
       [push_bit 20 (inp ! 19)],
     accum (drop_bit (28 - 16) (inp ! 19))
       [push_bit 16 (inp ! 20)],
     accum (drop_bit (28 - 12) (inp ! 20))
       [push_bit 12 (inp ! 21)],
     accum (drop_bit (28 - 8) (inp ! 21))
       [push_bit 8 (inp ! 22)],
     accum (drop_bit (28 - 4) (inp ! 22))
       [push_bit 4 (inp ! 23)],
     accum (inp ! 24)
       [push_bit 28 (inp ! 25)],
     accum (drop_bit (28 - 24) (inp ! 25))
       [push_bit 24 (inp ! 26)],
     accum (drop_bit (28 - 20) (inp ! 26))
       [push_bit 20 (inp ! 27)],
     accum (drop_bit (28 - 16) (inp ! 27))
       [push_bit 16 (inp ! 28)],
     accum (drop_bit (28 - 12) (inp ! 28))
       [push_bit 12 (inp ! 29)],
     accum (drop_bit (28 - 8) (inp ! 29))
       [push_bit 8 (inp ! 30)],
     accum (drop_bit (28 - 4) (inp ! 30))
       [push_bit 4 (inp ! 31)]]"

definition fastpackwithoutmask29_32 :: "u32 list \<Rightarrow> u32 list" where
  "fastpackwithoutmask29_32 inp =
    [accum (inp ! 0)
       [push_bit 29 (inp ! 1)],
     accum (drop_bit (29 - 26) (inp ! 1))
       [push_bit 26 (inp ! 2)],
     accum (drop_bit (29 - 23) (inp ! 2))
       [push_bit 23 (inp ! 3)],
     accum (drop_bit (29 - 20) (inp ! 3))
       [push_bit 20 (inp ! 4)],
     accum (drop_bit (29 - 17) (inp ! 4))
       [push_bit 17 (inp ! 5)],
     accum (drop_bit (29 - 14) (inp ! 5))
       [push_bit 14 (inp ! 6)],
     accum (drop_bit (29 - 11) (inp ! 6))
       [push_bit 11 (inp ! 7)],
     accum (drop_bit (29 - 8) (inp ! 7))
       [push_bit 8 (inp ! 8)],
     accum (drop_bit (29 - 5) (inp ! 8))
       [push_bit 5 (inp ! 9)],
     accum (drop_bit (29 - 2) (inp ! 9))
       [push_bit 2 (inp ! 10), push_bit 31 (inp ! 11)],
     accum (drop_bit (29 - 28) (inp ! 11))
       [push_bit 28 (inp ! 12)],
     accum (drop_bit (29 - 25) (inp ! 12))
       [push_bit 25 (inp ! 13)],
     accum (drop_bit (29 - 22) (inp ! 13))
       [push_bit 22 (inp ! 14)],
     accum (drop_bit (29 - 19) (inp ! 14))
       [push_bit 19 (inp ! 15)],
     accum (drop_bit (29 - 16) (inp ! 15))
       [push_bit 16 (inp ! 16)],
     accum (drop_bit (29 - 13) (inp ! 16))
       [push_bit 13 (inp ! 17)],
     accum (drop_bit (29 - 10) (inp ! 17))
       [push_bit 10 (inp ! 18)],
     accum (drop_bit (29 - 7) (inp ! 18))
       [push_bit 7 (inp ! 19)],
     accum (drop_bit (29 - 4) (inp ! 19))
       [push_bit 4 (inp ! 20)],
     accum (drop_bit (29 - 1) (inp ! 20))
       [push_bit 1 (inp ! 21), push_bit 30 (inp ! 22)],
     accum (drop_bit (29 - 27) (inp ! 22))
       [push_bit 27 (inp ! 23)],
     accum (drop_bit (29 - 24) (inp ! 23))
       [push_bit 24 (inp ! 24)],
     accum (drop_bit (29 - 21) (inp ! 24))
       [push_bit 21 (inp ! 25)],
     accum (drop_bit (29 - 18) (inp ! 25))
       [push_bit 18 (inp ! 26)],
     accum (drop_bit (29 - 15) (inp ! 26))
       [push_bit 15 (inp ! 27)],
     accum (drop_bit (29 - 12) (inp ! 27))
       [push_bit 12 (inp ! 28)],
     accum (drop_bit (29 - 9) (inp ! 28))
       [push_bit 9 (inp ! 29)],
     accum (drop_bit (29 - 6) (inp ! 29))
       [push_bit 6 (inp ! 30)],
     accum (drop_bit (29 - 3) (inp ! 30))
       [push_bit 3 (inp ! 31)]]"

definition fastpackwithoutmask30_32 :: "u32 list \<Rightarrow> u32 list" where
  "fastpackwithoutmask30_32 inp =
    [accum (inp ! 0)
       [push_bit 30 (inp ! 1)],
     accum (drop_bit (30 - 28) (inp ! 1))
       [push_bit 28 (inp ! 2)],
     accum (drop_bit (30 - 26) (inp ! 2))
       [push_bit 26 (inp ! 3)],
     accum (drop_bit (30 - 24) (inp ! 3))
       [push_bit 24 (inp ! 4)],
     accum (drop_bit (30 - 22) (inp ! 4))
       [push_bit 22 (inp ! 5)],
     accum (drop_bit (30 - 20) (inp ! 5))
       [push_bit 20 (inp ! 6)],
     accum (drop_bit (30 - 18) (inp ! 6))
       [push_bit 18 (inp ! 7)],
     accum (drop_bit (30 - 16) (inp ! 7))
       [push_bit 16 (inp ! 8)],
     accum (drop_bit (30 - 14) (inp ! 8))
       [push_bit 14 (inp ! 9)],
     accum (drop_bit (30 - 12) (inp ! 9))
       [push_bit 12 (inp ! 10)],
     accum (drop_bit (30 - 10) (inp ! 10))
       [push_bit 10 (inp ! 11)],
     accum (drop_bit (30 - 8) (inp ! 11))
       [push_bit 8 (inp ! 12)],
     accum (drop_bit (30 - 6) (inp ! 12))
       [push_bit 6 (inp ! 13)],
     accum (drop_bit (30 - 4) (inp ! 13))
       [push_bit 4 (inp ! 14)],
     accum (drop_bit (30 - 2) (inp ! 14))
       [push_bit 2 (inp ! 15)],
     accum (inp ! 16)
       [push_bit 30 (inp ! 17)],
     accum (drop_bit (30 - 28) (inp ! 17))
       [push_bit 28 (inp ! 18)],
     accum (drop_bit (30 - 26) (inp ! 18))
       [push_bit 26 (inp ! 19)],
     accum (drop_bit (30 - 24) (inp ! 19))
       [push_bit 24 (inp ! 20)],
     accum (drop_bit (30 - 22) (inp ! 20))
       [push_bit 22 (inp ! 21)],
     accum (drop_bit (30 - 20) (inp ! 21))
       [push_bit 20 (inp ! 22)],
     accum (drop_bit (30 - 18) (inp ! 22))
       [push_bit 18 (inp ! 23)],
     accum (drop_bit (30 - 16) (inp ! 23))
       [push_bit 16 (inp ! 24)],
     accum (drop_bit (30 - 14) (inp ! 24))
       [push_bit 14 (inp ! 25)],
     accum (drop_bit (30 - 12) (inp ! 25))
       [push_bit 12 (inp ! 26)],
     accum (drop_bit (30 - 10) (inp ! 26))
       [push_bit 10 (inp ! 27)],
     accum (drop_bit (30 - 8) (inp ! 27))
       [push_bit 8 (inp ! 28)],
     accum (drop_bit (30 - 6) (inp ! 28))
       [push_bit 6 (inp ! 29)],
     accum (drop_bit (30 - 4) (inp ! 29))
       [push_bit 4 (inp ! 30)],
     accum (drop_bit (30 - 2) (inp ! 30))
       [push_bit 2 (inp ! 31)]]"

definition fastpackwithoutmask31_32 :: "u32 list \<Rightarrow> u32 list" where
  "fastpackwithoutmask31_32 inp =
    [accum (inp ! 0)
       [push_bit 31 (inp ! 1)],
     accum (drop_bit (31 - 30) (inp ! 1))
       [push_bit 30 (inp ! 2)],
     accum (drop_bit (31 - 29) (inp ! 2))
       [push_bit 29 (inp ! 3)],
     accum (drop_bit (31 - 28) (inp ! 3))
       [push_bit 28 (inp ! 4)],
     accum (drop_bit (31 - 27) (inp ! 4))
       [push_bit 27 (inp ! 5)],
     accum (drop_bit (31 - 26) (inp ! 5))
       [push_bit 26 (inp ! 6)],
     accum (drop_bit (31 - 25) (inp ! 6))
       [push_bit 25 (inp ! 7)],
     accum (drop_bit (31 - 24) (inp ! 7))
       [push_bit 24 (inp ! 8)],
     accum (drop_bit (31 - 23) (inp ! 8))
       [push_bit 23 (inp ! 9)],
     accum (drop_bit (31 - 22) (inp ! 9))
       [push_bit 22 (inp ! 10)],
     accum (drop_bit (31 - 21) (inp ! 10))
       [push_bit 21 (inp ! 11)],
     accum (drop_bit (31 - 20) (inp ! 11))
       [push_bit 20 (inp ! 12)],
     accum (drop_bit (31 - 19) (inp ! 12))
       [push_bit 19 (inp ! 13)],
     accum (drop_bit (31 - 18) (inp ! 13))
       [push_bit 18 (inp ! 14)],
     accum (drop_bit (31 - 17) (inp ! 14))
       [push_bit 17 (inp ! 15)],
     accum (drop_bit (31 - 16) (inp ! 15))
       [push_bit 16 (inp ! 16)],
     accum (drop_bit (31 - 15) (inp ! 16))
       [push_bit 15 (inp ! 17)],
     accum (drop_bit (31 - 14) (inp ! 17))
       [push_bit 14 (inp ! 18)],
     accum (drop_bit (31 - 13) (inp ! 18))
       [push_bit 13 (inp ! 19)],
     accum (drop_bit (31 - 12) (inp ! 19))
       [push_bit 12 (inp ! 20)],
     accum (drop_bit (31 - 11) (inp ! 20))
       [push_bit 11 (inp ! 21)],
     accum (drop_bit (31 - 10) (inp ! 21))
       [push_bit 10 (inp ! 22)],
     accum (drop_bit (31 - 9) (inp ! 22))
       [push_bit 9 (inp ! 23)],
     accum (drop_bit (31 - 8) (inp ! 23))
       [push_bit 8 (inp ! 24)],
     accum (drop_bit (31 - 7) (inp ! 24))
       [push_bit 7 (inp ! 25)],
     accum (drop_bit (31 - 6) (inp ! 25))
       [push_bit 6 (inp ! 26)],
     accum (drop_bit (31 - 5) (inp ! 26))
       [push_bit 5 (inp ! 27)],
     accum (drop_bit (31 - 4) (inp ! 27))
       [push_bit 4 (inp ! 28)],
     accum (drop_bit (31 - 3) (inp ! 28))
       [push_bit 3 (inp ! 29)],
     accum (drop_bit (31 - 2) (inp ! 29))
       [push_bit 2 (inp ! 30)],
     accum (drop_bit (31 - 1) (inp ! 30))
       [push_bit 1 (inp ! 31)]]"

definition fastpackwithoutmask32_32 :: "u32 list \<Rightarrow> u32 list" where
  "fastpackwithoutmask32_32 inp =
    [accum (inp ! 0) [],
     accum (inp ! 1) [],
     accum (inp ! 2) [],
     accum (inp ! 3) [],
     accum (inp ! 4) [],
     accum (inp ! 5) [],
     accum (inp ! 6) [],
     accum (inp ! 7) [],
     accum (inp ! 8) [],
     accum (inp ! 9) [],
     accum (inp ! 10) [],
     accum (inp ! 11) [],
     accum (inp ! 12) [],
     accum (inp ! 13) [],
     accum (inp ! 14) [],
     accum (inp ! 15) [],
     accum (inp ! 16) [],
     accum (inp ! 17) [],
     accum (inp ! 18) [],
     accum (inp ! 19) [],
     accum (inp ! 20) [],
     accum (inp ! 21) [],
     accum (inp ! 22) [],
     accum (inp ! 23) [],
     accum (inp ! 24) [],
     accum (inp ! 25) [],
     accum (inp ! 26) [],
     accum (inp ! 27) [],
     accum (inp ! 28) [],
     accum (inp ! 29) [],
     accum (inp ! 30) [],
     accum (inp ! 31) []]"

section \<open>Every routine is an instance of the reference\<close>

lemma nullpacker_eq: "nullpacker = pack_short n 0"
  by (rule ext) (simp add: nullpacker_def pack_short_def packed_words_def)

lemma fastpackwithoutmask1_8_eq: "fastpackwithoutmask1_8 = pack_short 8 1"
  by (rule ext, simp add: fastpackwithoutmask1_8_def pack_short_words del: One_nat_def add_Suc_right)
     (simp add: pack_short_simps del: One_nat_def add_Suc_right)

lemma fastpackwithoutmask2_8_eq: "fastpackwithoutmask2_8 = pack_short 8 2"
  by (rule ext, simp add: fastpackwithoutmask2_8_def pack_short_words del: One_nat_def add_Suc_right)
     (simp add: pack_short_simps del: One_nat_def add_Suc_right)

lemma fastpackwithoutmask3_8_eq: "fastpackwithoutmask3_8 = pack_short 8 3"
  by (rule ext, simp add: fastpackwithoutmask3_8_def pack_short_words del: One_nat_def add_Suc_right)
     (simp add: pack_short_simps del: One_nat_def add_Suc_right)

lemma fastpackwithoutmask4_8_eq: "fastpackwithoutmask4_8 = pack_short 8 4"
  by (rule ext, simp add: fastpackwithoutmask4_8_def pack_short_words del: One_nat_def add_Suc_right)
     (simp add: pack_short_simps del: One_nat_def add_Suc_right)

lemma fastpackwithoutmask5_8_eq: "fastpackwithoutmask5_8 = pack_short 8 5"
  by (rule ext, simp add: fastpackwithoutmask5_8_def pack_short_words del: One_nat_def add_Suc_right)
     (simp add: pack_short_simps del: One_nat_def add_Suc_right)

lemma fastpackwithoutmask6_8_eq: "fastpackwithoutmask6_8 = pack_short 8 6"
  by (rule ext, simp add: fastpackwithoutmask6_8_def pack_short_words del: One_nat_def add_Suc_right)
     (simp add: pack_short_simps del: One_nat_def add_Suc_right)

lemma fastpackwithoutmask7_8_eq: "fastpackwithoutmask7_8 = pack_short 8 7"
  by (rule ext, simp add: fastpackwithoutmask7_8_def pack_short_words del: One_nat_def add_Suc_right)
     (simp add: pack_short_simps del: One_nat_def add_Suc_right)

lemma fastpackwithoutmask8_8_eq: "fastpackwithoutmask8_8 = pack_short 8 8"
  by (rule ext, simp add: fastpackwithoutmask8_8_def pack_short_words del: One_nat_def add_Suc_right)
     (simp add: pack_short_simps del: One_nat_def add_Suc_right)

lemma fastpackwithoutmask9_8_eq: "fastpackwithoutmask9_8 = pack_short 8 9"
  by (rule ext, simp add: fastpackwithoutmask9_8_def pack_short_words del: One_nat_def add_Suc_right)
     (simp add: pack_short_simps del: One_nat_def add_Suc_right)

lemma fastpackwithoutmask10_8_eq: "fastpackwithoutmask10_8 = pack_short 8 10"
  by (rule ext, simp add: fastpackwithoutmask10_8_def pack_short_words del: One_nat_def add_Suc_right)
     (simp add: pack_short_simps del: One_nat_def add_Suc_right)

lemma fastpackwithoutmask11_8_eq: "fastpackwithoutmask11_8 = pack_short 8 11"
  by (rule ext, simp add: fastpackwithoutmask11_8_def pack_short_words del: One_nat_def add_Suc_right)
     (simp add: pack_short_simps del: One_nat_def add_Suc_right)

lemma fastpackwithoutmask12_8_eq: "fastpackwithoutmask12_8 = pack_short 8 12"
  by (rule ext, simp add: fastpackwithoutmask12_8_def pack_short_words del: One_nat_def add_Suc_right)
     (simp add: pack_short_simps del: One_nat_def add_Suc_right)

lemma fastpackwithoutmask13_8_eq: "fastpackwithoutmask13_8 = pack_short 8 13"
  by (rule ext, simp add: fastpackwithoutmask13_8_def pack_short_words del: One_nat_def add_Suc_right)
     (simp add: pack_short_simps del: One_nat_def add_Suc_right)

lemma fastpackwithoutmask14_8_eq: "fastpackwithoutmask14_8 = pack_short 8 14"
  by (rule ext, simp add: fastpackwithoutmask14_8_def pack_short_words del: One_nat_def add_Suc_right)
     (simp add: pack_short_simps del: One_nat_def add_Suc_right)

lemma fastpackwithoutmask15_8_eq: "fastpackwithoutmask15_8 = pack_short 8 15"
  by (rule ext, simp add: fastpackwithoutmask15_8_def pack_short_words del: One_nat_def add_Suc_right)
     (simp add: pack_short_simps del: One_nat_def add_Suc_right)

lemma fastpackwithoutmask16_8_eq: "fastpackwithoutmask16_8 = pack_short 8 16"
  by (rule ext, simp add: fastpackwithoutmask16_8_def pack_short_words del: One_nat_def add_Suc_right)
     (simp add: pack_short_simps del: One_nat_def add_Suc_right)

lemma fastpackwithoutmask17_8_eq: "fastpackwithoutmask17_8 = pack_short 8 17"
  by (rule ext, simp add: fastpackwithoutmask17_8_def pack_short_words del: One_nat_def add_Suc_right)
     (simp add: pack_short_simps del: One_nat_def add_Suc_right)

lemma fastpackwithoutmask18_8_eq: "fastpackwithoutmask18_8 = pack_short 8 18"
  by (rule ext, simp add: fastpackwithoutmask18_8_def pack_short_words del: One_nat_def add_Suc_right)
     (simp add: pack_short_simps del: One_nat_def add_Suc_right)

lemma fastpackwithoutmask19_8_eq: "fastpackwithoutmask19_8 = pack_short 8 19"
  by (rule ext, simp add: fastpackwithoutmask19_8_def pack_short_words del: One_nat_def add_Suc_right)
     (simp add: pack_short_simps del: One_nat_def add_Suc_right)

lemma fastpackwithoutmask20_8_eq: "fastpackwithoutmask20_8 = pack_short 8 20"
  by (rule ext, simp add: fastpackwithoutmask20_8_def pack_short_words del: One_nat_def add_Suc_right)
     (simp add: pack_short_simps del: One_nat_def add_Suc_right)

lemma fastpackwithoutmask21_8_eq: "fastpackwithoutmask21_8 = pack_short 8 21"
  by (rule ext, simp add: fastpackwithoutmask21_8_def pack_short_words del: One_nat_def add_Suc_right)
     (simp add: pack_short_simps del: One_nat_def add_Suc_right)

lemma fastpackwithoutmask22_8_eq: "fastpackwithoutmask22_8 = pack_short 8 22"
  by (rule ext, simp add: fastpackwithoutmask22_8_def pack_short_words del: One_nat_def add_Suc_right)
     (simp add: pack_short_simps del: One_nat_def add_Suc_right)

lemma fastpackwithoutmask23_8_eq: "fastpackwithoutmask23_8 = pack_short 8 23"
  by (rule ext, simp add: fastpackwithoutmask23_8_def pack_short_words del: One_nat_def add_Suc_right)
     (simp add: pack_short_simps del: One_nat_def add_Suc_right)

lemma fastpackwithoutmask24_8_eq: "fastpackwithoutmask24_8 = pack_short 8 24"
  by (rule ext, simp add: fastpackwithoutmask24_8_def pack_short_words del: One_nat_def add_Suc_right)
     (simp add: pack_short_simps del: One_nat_def add_Suc_right)

lemma fastpackwithoutmask25_8_eq: "fastpackwithoutmask25_8 = pack_short 8 25"
  by (rule ext, simp add: fastpackwithoutmask25_8_def pack_short_words del: One_nat_def add_Suc_right)
     (simp add: pack_short_simps del: One_nat_def add_Suc_right)

lemma fastpackwithoutmask26_8_eq: "fastpackwithoutmask26_8 = pack_short 8 26"
  by (rule ext, simp add: fastpackwithoutmask26_8_def pack_short_words del: One_nat_def add_Suc_right)
     (simp add: pack_short_simps del: One_nat_def add_Suc_right)

lemma fastpackwithoutmask27_8_eq: "fastpackwithoutmask27_8 = pack_short 8 27"
  by (rule ext, simp add: fastpackwithoutmask27_8_def pack_short_words del: One_nat_def add_Suc_right)
     (simp add: pack_short_simps del: One_nat_def add_Suc_right)

lemma fastpackwithoutmask28_8_eq: "fastpackwithoutmask28_8 = pack_short 8 28"
  by (rule ext, simp add: fastpackwithoutmask28_8_def pack_short_words del: One_nat_def add_Suc_right)
     (simp add: pack_short_simps del: One_nat_def add_Suc_right)

lemma fastpackwithoutmask29_8_eq: "fastpackwithoutmask29_8 = pack_short 8 29"
  by (rule ext, simp add: fastpackwithoutmask29_8_def pack_short_words del: One_nat_def add_Suc_right)
     (simp add: pack_short_simps del: One_nat_def add_Suc_right)

lemma fastpackwithoutmask30_8_eq: "fastpackwithoutmask30_8 = pack_short 8 30"
  by (rule ext, simp add: fastpackwithoutmask30_8_def pack_short_words del: One_nat_def add_Suc_right)
     (simp add: pack_short_simps del: One_nat_def add_Suc_right)

lemma fastpackwithoutmask31_8_eq: "fastpackwithoutmask31_8 = pack_short 8 31"
  by (rule ext, simp add: fastpackwithoutmask31_8_def pack_short_words del: One_nat_def add_Suc_right)
     (simp add: pack_short_simps del: One_nat_def add_Suc_right)

lemma fastpackwithoutmask32_8_eq: "fastpackwithoutmask32_8 = pack_short 8 32"
  by (rule ext, simp add: fastpackwithoutmask32_8_def pack_short_words del: One_nat_def add_Suc_right)
     (simp add: pack_short_simps del: One_nat_def add_Suc_right)

lemma fastpackwithoutmask1_16_eq: "fastpackwithoutmask1_16 = pack_short 16 1"
  by (rule ext, simp add: fastpackwithoutmask1_16_def pack_short_words del: One_nat_def add_Suc_right)
     (simp add: pack_short_simps del: One_nat_def add_Suc_right)

lemma fastpackwithoutmask2_16_eq: "fastpackwithoutmask2_16 = pack_short 16 2"
  by (rule ext, simp add: fastpackwithoutmask2_16_def pack_short_words del: One_nat_def add_Suc_right)
     (simp add: pack_short_simps del: One_nat_def add_Suc_right)

lemma fastpackwithoutmask3_16_eq: "fastpackwithoutmask3_16 = pack_short 16 3"
  by (rule ext, simp add: fastpackwithoutmask3_16_def pack_short_words del: One_nat_def add_Suc_right)
     (simp add: pack_short_simps del: One_nat_def add_Suc_right)

lemma fastpackwithoutmask4_16_eq: "fastpackwithoutmask4_16 = pack_short 16 4"
  by (rule ext, simp add: fastpackwithoutmask4_16_def pack_short_words del: One_nat_def add_Suc_right)
     (simp add: pack_short_simps del: One_nat_def add_Suc_right)

lemma fastpackwithoutmask5_16_eq: "fastpackwithoutmask5_16 = pack_short 16 5"
  by (rule ext, simp add: fastpackwithoutmask5_16_def pack_short_words del: One_nat_def add_Suc_right)
     (simp add: pack_short_simps del: One_nat_def add_Suc_right)

lemma fastpackwithoutmask6_16_eq: "fastpackwithoutmask6_16 = pack_short 16 6"
  by (rule ext, simp add: fastpackwithoutmask6_16_def pack_short_words del: One_nat_def add_Suc_right)
     (simp add: pack_short_simps del: One_nat_def add_Suc_right)

lemma fastpackwithoutmask7_16_eq: "fastpackwithoutmask7_16 = pack_short 16 7"
  by (rule ext, simp add: fastpackwithoutmask7_16_def pack_short_words del: One_nat_def add_Suc_right)
     (simp add: pack_short_simps del: One_nat_def add_Suc_right)

lemma fastpackwithoutmask8_16_eq: "fastpackwithoutmask8_16 = pack_short 16 8"
  by (rule ext, simp add: fastpackwithoutmask8_16_def pack_short_words del: One_nat_def add_Suc_right)
     (simp add: pack_short_simps del: One_nat_def add_Suc_right)

lemma fastpackwithoutmask9_16_eq: "fastpackwithoutmask9_16 = pack_short 16 9"
  by (rule ext, simp add: fastpackwithoutmask9_16_def pack_short_words del: One_nat_def add_Suc_right)
     (simp add: pack_short_simps del: One_nat_def add_Suc_right)

lemma fastpackwithoutmask10_16_eq: "fastpackwithoutmask10_16 = pack_short 16 10"
  by (rule ext, simp add: fastpackwithoutmask10_16_def pack_short_words del: One_nat_def add_Suc_right)
     (simp add: pack_short_simps del: One_nat_def add_Suc_right)

lemma fastpackwithoutmask11_16_eq: "fastpackwithoutmask11_16 = pack_short 16 11"
  by (rule ext, simp add: fastpackwithoutmask11_16_def pack_short_words del: One_nat_def add_Suc_right)
     (simp add: pack_short_simps del: One_nat_def add_Suc_right)

lemma fastpackwithoutmask12_16_eq: "fastpackwithoutmask12_16 = pack_short 16 12"
  by (rule ext, simp add: fastpackwithoutmask12_16_def pack_short_words del: One_nat_def add_Suc_right)
     (simp add: pack_short_simps del: One_nat_def add_Suc_right)

lemma fastpackwithoutmask13_16_eq: "fastpackwithoutmask13_16 = pack_short 16 13"
  by (rule ext, simp add: fastpackwithoutmask13_16_def pack_short_words del: One_nat_def add_Suc_right)
     (simp add: pack_short_simps del: One_nat_def add_Suc_right)

lemma fastpackwithoutmask14_16_eq: "fastpackwithoutmask14_16 = pack_short 16 14"
  by (rule ext, simp add: fastpackwithoutmask14_16_def pack_short_words del: One_nat_def add_Suc_right)
     (simp add: pack_short_simps del: One_nat_def add_Suc_right)

lemma fastpackwithoutmask15_16_eq: "fastpackwithoutmask15_16 = pack_short 16 15"
  by (rule ext, simp add: fastpackwithoutmask15_16_def pack_short_words del: One_nat_def add_Suc_right)
     (simp add: pack_short_simps del: One_nat_def add_Suc_right)

lemma fastpackwithoutmask16_16_eq: "fastpackwithoutmask16_16 = pack_short 16 16"
  by (rule ext, simp add: fastpackwithoutmask16_16_def pack_short_words del: One_nat_def add_Suc_right)
     (simp add: pack_short_simps del: One_nat_def add_Suc_right)

lemma fastpackwithoutmask17_16_eq: "fastpackwithoutmask17_16 = pack_short 16 17"
  by (rule ext, simp add: fastpackwithoutmask17_16_def pack_short_words del: One_nat_def add_Suc_right)
     (simp add: pack_short_simps del: One_nat_def add_Suc_right)

lemma fastpackwithoutmask18_16_eq: "fastpackwithoutmask18_16 = pack_short 16 18"
  by (rule ext, simp add: fastpackwithoutmask18_16_def pack_short_words del: One_nat_def add_Suc_right)
     (simp add: pack_short_simps del: One_nat_def add_Suc_right)

lemma fastpackwithoutmask19_16_eq: "fastpackwithoutmask19_16 = pack_short 16 19"
  by (rule ext, simp add: fastpackwithoutmask19_16_def pack_short_words del: One_nat_def add_Suc_right)
     (simp add: pack_short_simps del: One_nat_def add_Suc_right)

lemma fastpackwithoutmask20_16_eq: "fastpackwithoutmask20_16 = pack_short 16 20"
  by (rule ext, simp add: fastpackwithoutmask20_16_def pack_short_words del: One_nat_def add_Suc_right)
     (simp add: pack_short_simps del: One_nat_def add_Suc_right)

lemma fastpackwithoutmask21_16_eq: "fastpackwithoutmask21_16 = pack_short 16 21"
  by (rule ext, simp add: fastpackwithoutmask21_16_def pack_short_words del: One_nat_def add_Suc_right)
     (simp add: pack_short_simps del: One_nat_def add_Suc_right)

lemma fastpackwithoutmask22_16_eq: "fastpackwithoutmask22_16 = pack_short 16 22"
  by (rule ext, simp add: fastpackwithoutmask22_16_def pack_short_words del: One_nat_def add_Suc_right)
     (simp add: pack_short_simps del: One_nat_def add_Suc_right)

lemma fastpackwithoutmask23_16_eq: "fastpackwithoutmask23_16 = pack_short 16 23"
  by (rule ext, simp add: fastpackwithoutmask23_16_def pack_short_words del: One_nat_def add_Suc_right)
     (simp add: pack_short_simps del: One_nat_def add_Suc_right)

lemma fastpackwithoutmask24_16_eq: "fastpackwithoutmask24_16 = pack_short 16 24"
  by (rule ext, simp add: fastpackwithoutmask24_16_def pack_short_words del: One_nat_def add_Suc_right)
     (simp add: pack_short_simps del: One_nat_def add_Suc_right)

lemma fastpackwithoutmask25_16_eq: "fastpackwithoutmask25_16 = pack_short 16 25"
  by (rule ext, simp add: fastpackwithoutmask25_16_def pack_short_words del: One_nat_def add_Suc_right)
     (simp add: pack_short_simps del: One_nat_def add_Suc_right)

lemma fastpackwithoutmask26_16_eq: "fastpackwithoutmask26_16 = pack_short 16 26"
  by (rule ext, simp add: fastpackwithoutmask26_16_def pack_short_words del: One_nat_def add_Suc_right)
     (simp add: pack_short_simps del: One_nat_def add_Suc_right)

lemma fastpackwithoutmask27_16_eq: "fastpackwithoutmask27_16 = pack_short 16 27"
  by (rule ext, simp add: fastpackwithoutmask27_16_def pack_short_words del: One_nat_def add_Suc_right)
     (simp add: pack_short_simps del: One_nat_def add_Suc_right)

lemma fastpackwithoutmask28_16_eq: "fastpackwithoutmask28_16 = pack_short 16 28"
  by (rule ext, simp add: fastpackwithoutmask28_16_def pack_short_words del: One_nat_def add_Suc_right)
     (simp add: pack_short_simps del: One_nat_def add_Suc_right)

lemma fastpackwithoutmask29_16_eq: "fastpackwithoutmask29_16 = pack_short 16 29"
  by (rule ext, simp add: fastpackwithoutmask29_16_def pack_short_words del: One_nat_def add_Suc_right)
     (simp add: pack_short_simps del: One_nat_def add_Suc_right)

lemma fastpackwithoutmask30_16_eq: "fastpackwithoutmask30_16 = pack_short 16 30"
  by (rule ext, simp add: fastpackwithoutmask30_16_def pack_short_words del: One_nat_def add_Suc_right)
     (simp add: pack_short_simps del: One_nat_def add_Suc_right)

lemma fastpackwithoutmask31_16_eq: "fastpackwithoutmask31_16 = pack_short 16 31"
  by (rule ext, simp add: fastpackwithoutmask31_16_def pack_short_words del: One_nat_def add_Suc_right)
     (simp add: pack_short_simps del: One_nat_def add_Suc_right)

lemma fastpackwithoutmask32_16_eq: "fastpackwithoutmask32_16 = pack_short 16 32"
  by (rule ext, simp add: fastpackwithoutmask32_16_def pack_short_words del: One_nat_def add_Suc_right)
     (simp add: pack_short_simps del: One_nat_def add_Suc_right)

lemma fastpackwithoutmask1_24_eq: "fastpackwithoutmask1_24 = pack_short 24 1"
  by (rule ext, simp add: fastpackwithoutmask1_24_def pack_short_words del: One_nat_def add_Suc_right)
     (simp add: pack_short_simps del: One_nat_def add_Suc_right)

lemma fastpackwithoutmask2_24_eq: "fastpackwithoutmask2_24 = pack_short 24 2"
  by (rule ext, simp add: fastpackwithoutmask2_24_def pack_short_words del: One_nat_def add_Suc_right)
     (simp add: pack_short_simps del: One_nat_def add_Suc_right)

lemma fastpackwithoutmask3_24_eq: "fastpackwithoutmask3_24 = pack_short 24 3"
  by (rule ext, simp add: fastpackwithoutmask3_24_def pack_short_words del: One_nat_def add_Suc_right)
     (simp add: pack_short_simps del: One_nat_def add_Suc_right)

lemma fastpackwithoutmask4_24_eq: "fastpackwithoutmask4_24 = pack_short 24 4"
  by (rule ext, simp add: fastpackwithoutmask4_24_def pack_short_words del: One_nat_def add_Suc_right)
     (simp add: pack_short_simps del: One_nat_def add_Suc_right)

lemma fastpackwithoutmask5_24_eq: "fastpackwithoutmask5_24 = pack_short 24 5"
  by (rule ext, simp add: fastpackwithoutmask5_24_def pack_short_words del: One_nat_def add_Suc_right)
     (simp add: pack_short_simps del: One_nat_def add_Suc_right)

lemma fastpackwithoutmask6_24_eq: "fastpackwithoutmask6_24 = pack_short 24 6"
  by (rule ext, simp add: fastpackwithoutmask6_24_def pack_short_words del: One_nat_def add_Suc_right)
     (simp add: pack_short_simps del: One_nat_def add_Suc_right)

lemma fastpackwithoutmask7_24_eq: "fastpackwithoutmask7_24 = pack_short 24 7"
  by (rule ext, simp add: fastpackwithoutmask7_24_def pack_short_words del: One_nat_def add_Suc_right)
     (simp add: pack_short_simps del: One_nat_def add_Suc_right)

lemma fastpackwithoutmask8_24_eq: "fastpackwithoutmask8_24 = pack_short 24 8"
  by (rule ext, simp add: fastpackwithoutmask8_24_def pack_short_words del: One_nat_def add_Suc_right)
     (simp add: pack_short_simps del: One_nat_def add_Suc_right)

lemma fastpackwithoutmask9_24_eq: "fastpackwithoutmask9_24 = pack_short 24 9"
  by (rule ext, simp add: fastpackwithoutmask9_24_def pack_short_words del: One_nat_def add_Suc_right)
     (simp add: pack_short_simps del: One_nat_def add_Suc_right)

lemma fastpackwithoutmask10_24_eq: "fastpackwithoutmask10_24 = pack_short 24 10"
  by (rule ext, simp add: fastpackwithoutmask10_24_def pack_short_words del: One_nat_def add_Suc_right)
     (simp add: pack_short_simps del: One_nat_def add_Suc_right)

lemma fastpackwithoutmask11_24_eq: "fastpackwithoutmask11_24 = pack_short 24 11"
  by (rule ext, simp add: fastpackwithoutmask11_24_def pack_short_words del: One_nat_def add_Suc_right)
     (simp add: pack_short_simps del: One_nat_def add_Suc_right)

lemma fastpackwithoutmask12_24_eq: "fastpackwithoutmask12_24 = pack_short 24 12"
  by (rule ext, simp add: fastpackwithoutmask12_24_def pack_short_words del: One_nat_def add_Suc_right)
     (simp add: pack_short_simps del: One_nat_def add_Suc_right)

lemma fastpackwithoutmask13_24_eq: "fastpackwithoutmask13_24 = pack_short 24 13"
  by (rule ext, simp add: fastpackwithoutmask13_24_def pack_short_words del: One_nat_def add_Suc_right)
     (simp add: pack_short_simps del: One_nat_def add_Suc_right)

lemma fastpackwithoutmask14_24_eq: "fastpackwithoutmask14_24 = pack_short 24 14"
  by (rule ext, simp add: fastpackwithoutmask14_24_def pack_short_words del: One_nat_def add_Suc_right)
     (simp add: pack_short_simps del: One_nat_def add_Suc_right)

lemma fastpackwithoutmask15_24_eq: "fastpackwithoutmask15_24 = pack_short 24 15"
  by (rule ext, simp add: fastpackwithoutmask15_24_def pack_short_words del: One_nat_def add_Suc_right)
     (simp add: pack_short_simps del: One_nat_def add_Suc_right)

lemma fastpackwithoutmask16_24_eq: "fastpackwithoutmask16_24 = pack_short 24 16"
  by (rule ext, simp add: fastpackwithoutmask16_24_def pack_short_words del: One_nat_def add_Suc_right)
     (simp add: pack_short_simps del: One_nat_def add_Suc_right)

lemma fastpackwithoutmask17_24_eq: "fastpackwithoutmask17_24 = pack_short 24 17"
  by (rule ext, simp add: fastpackwithoutmask17_24_def pack_short_words del: One_nat_def add_Suc_right)
     (simp add: pack_short_simps del: One_nat_def add_Suc_right)

lemma fastpackwithoutmask18_24_eq: "fastpackwithoutmask18_24 = pack_short 24 18"
  by (rule ext, simp add: fastpackwithoutmask18_24_def pack_short_words del: One_nat_def add_Suc_right)
     (simp add: pack_short_simps del: One_nat_def add_Suc_right)

lemma fastpackwithoutmask19_24_eq: "fastpackwithoutmask19_24 = pack_short 24 19"
  by (rule ext, simp add: fastpackwithoutmask19_24_def pack_short_words del: One_nat_def add_Suc_right)
     (simp add: pack_short_simps del: One_nat_def add_Suc_right)

lemma fastpackwithoutmask20_24_eq: "fastpackwithoutmask20_24 = pack_short 24 20"
  by (rule ext, simp add: fastpackwithoutmask20_24_def pack_short_words del: One_nat_def add_Suc_right)
     (simp add: pack_short_simps del: One_nat_def add_Suc_right)

lemma fastpackwithoutmask21_24_eq: "fastpackwithoutmask21_24 = pack_short 24 21"
  by (rule ext, simp add: fastpackwithoutmask21_24_def pack_short_words del: One_nat_def add_Suc_right)
     (simp add: pack_short_simps del: One_nat_def add_Suc_right)

lemma fastpackwithoutmask22_24_eq: "fastpackwithoutmask22_24 = pack_short 24 22"
  by (rule ext, simp add: fastpackwithoutmask22_24_def pack_short_words del: One_nat_def add_Suc_right)
     (simp add: pack_short_simps del: One_nat_def add_Suc_right)

lemma fastpackwithoutmask23_24_eq: "fastpackwithoutmask23_24 = pack_short 24 23"
  by (rule ext, simp add: fastpackwithoutmask23_24_def pack_short_words del: One_nat_def add_Suc_right)
     (simp add: pack_short_simps del: One_nat_def add_Suc_right)

lemma fastpackwithoutmask24_24_eq: "fastpackwithoutmask24_24 = pack_short 24 24"
  by (rule ext, simp add: fastpackwithoutmask24_24_def pack_short_words del: One_nat_def add_Suc_right)
     (simp add: pack_short_simps del: One_nat_def add_Suc_right)

lemma fastpackwithoutmask25_24_eq: "fastpackwithoutmask25_24 = pack_short 24 25"
  by (rule ext, simp add: fastpackwithoutmask25_24_def pack_short_words del: One_nat_def add_Suc_right)
     (simp add: pack_short_simps del: One_nat_def add_Suc_right)

lemma fastpackwithoutmask26_24_eq: "fastpackwithoutmask26_24 = pack_short 24 26"
  by (rule ext, simp add: fastpackwithoutmask26_24_def pack_short_words del: One_nat_def add_Suc_right)
     (simp add: pack_short_simps del: One_nat_def add_Suc_right)

lemma fastpackwithoutmask27_24_eq: "fastpackwithoutmask27_24 = pack_short 24 27"
  by (rule ext, simp add: fastpackwithoutmask27_24_def pack_short_words del: One_nat_def add_Suc_right)
     (simp add: pack_short_simps del: One_nat_def add_Suc_right)

lemma fastpackwithoutmask28_24_eq: "fastpackwithoutmask28_24 = pack_short 24 28"
  by (rule ext, simp add: fastpackwithoutmask28_24_def pack_short_words del: One_nat_def add_Suc_right)
     (simp add: pack_short_simps del: One_nat_def add_Suc_right)

lemma fastpackwithoutmask29_24_eq: "fastpackwithoutmask29_24 = pack_short 24 29"
  by (rule ext, simp add: fastpackwithoutmask29_24_def pack_short_words del: One_nat_def add_Suc_right)
     (simp add: pack_short_simps del: One_nat_def add_Suc_right)

lemma fastpackwithoutmask30_24_eq: "fastpackwithoutmask30_24 = pack_short 24 30"
  by (rule ext, simp add: fastpackwithoutmask30_24_def pack_short_words del: One_nat_def add_Suc_right)
     (simp add: pack_short_simps del: One_nat_def add_Suc_right)

lemma fastpackwithoutmask31_24_eq: "fastpackwithoutmask31_24 = pack_short 24 31"
  by (rule ext, simp add: fastpackwithoutmask31_24_def pack_short_words del: One_nat_def add_Suc_right)
     (simp add: pack_short_simps del: One_nat_def add_Suc_right)

lemma fastpackwithoutmask32_24_eq: "fastpackwithoutmask32_24 = pack_short 24 32"
  by (rule ext, simp add: fastpackwithoutmask32_24_def pack_short_words del: One_nat_def add_Suc_right)
     (simp add: pack_short_simps del: One_nat_def add_Suc_right)

lemma fastpackwithoutmask1_32_eq: "fastpackwithoutmask1_32 = pack_short 32 1"
  by (rule ext, simp add: fastpackwithoutmask1_32_def pack_short_words del: One_nat_def add_Suc_right)
     (simp add: pack_short_simps del: One_nat_def add_Suc_right)

lemma fastpackwithoutmask2_32_eq: "fastpackwithoutmask2_32 = pack_short 32 2"
  by (rule ext, simp add: fastpackwithoutmask2_32_def pack_short_words del: One_nat_def add_Suc_right)
     (simp add: pack_short_simps del: One_nat_def add_Suc_right)

lemma fastpackwithoutmask3_32_eq: "fastpackwithoutmask3_32 = pack_short 32 3"
  by (rule ext, simp add: fastpackwithoutmask3_32_def pack_short_words del: One_nat_def add_Suc_right)
     (simp add: pack_short_simps del: One_nat_def add_Suc_right)

lemma fastpackwithoutmask4_32_eq: "fastpackwithoutmask4_32 = pack_short 32 4"
  by (rule ext, simp add: fastpackwithoutmask4_32_def pack_short_words del: One_nat_def add_Suc_right)
     (simp add: pack_short_simps del: One_nat_def add_Suc_right)

lemma fastpackwithoutmask5_32_eq: "fastpackwithoutmask5_32 = pack_short 32 5"
  by (rule ext, simp add: fastpackwithoutmask5_32_def pack_short_words del: One_nat_def add_Suc_right)
     (simp add: pack_short_simps del: One_nat_def add_Suc_right)

lemma fastpackwithoutmask6_32_eq: "fastpackwithoutmask6_32 = pack_short 32 6"
  by (rule ext, simp add: fastpackwithoutmask6_32_def pack_short_words del: One_nat_def add_Suc_right)
     (simp add: pack_short_simps del: One_nat_def add_Suc_right)

lemma fastpackwithoutmask7_32_eq: "fastpackwithoutmask7_32 = pack_short 32 7"
  by (rule ext, simp add: fastpackwithoutmask7_32_def pack_short_words del: One_nat_def add_Suc_right)
     (simp add: pack_short_simps del: One_nat_def add_Suc_right)

lemma fastpackwithoutmask8_32_eq: "fastpackwithoutmask8_32 = pack_short 32 8"
  by (rule ext, simp add: fastpackwithoutmask8_32_def pack_short_words del: One_nat_def add_Suc_right)
     (simp add: pack_short_simps del: One_nat_def add_Suc_right)

lemma fastpackwithoutmask9_32_eq: "fastpackwithoutmask9_32 = pack_short 32 9"
  by (rule ext, simp add: fastpackwithoutmask9_32_def pack_short_words del: One_nat_def add_Suc_right)
     (simp add: pack_short_simps del: One_nat_def add_Suc_right)

lemma fastpackwithoutmask10_32_eq: "fastpackwithoutmask10_32 = pack_short 32 10"
  by (rule ext, simp add: fastpackwithoutmask10_32_def pack_short_words del: One_nat_def add_Suc_right)
     (simp add: pack_short_simps del: One_nat_def add_Suc_right)

lemma fastpackwithoutmask11_32_eq: "fastpackwithoutmask11_32 = pack_short 32 11"
  by (rule ext, simp add: fastpackwithoutmask11_32_def pack_short_words del: One_nat_def add_Suc_right)
     (simp add: pack_short_simps del: One_nat_def add_Suc_right)

lemma fastpackwithoutmask12_32_eq: "fastpackwithoutmask12_32 = pack_short 32 12"
  by (rule ext, simp add: fastpackwithoutmask12_32_def pack_short_words del: One_nat_def add_Suc_right)
     (simp add: pack_short_simps del: One_nat_def add_Suc_right)

lemma fastpackwithoutmask13_32_eq: "fastpackwithoutmask13_32 = pack_short 32 13"
  by (rule ext, simp add: fastpackwithoutmask13_32_def pack_short_words del: One_nat_def add_Suc_right)
     (simp add: pack_short_simps del: One_nat_def add_Suc_right)

lemma fastpackwithoutmask14_32_eq: "fastpackwithoutmask14_32 = pack_short 32 14"
  by (rule ext, simp add: fastpackwithoutmask14_32_def pack_short_words del: One_nat_def add_Suc_right)
     (simp add: pack_short_simps del: One_nat_def add_Suc_right)

lemma fastpackwithoutmask15_32_eq: "fastpackwithoutmask15_32 = pack_short 32 15"
  by (rule ext, simp add: fastpackwithoutmask15_32_def pack_short_words del: One_nat_def add_Suc_right)
     (simp add: pack_short_simps del: One_nat_def add_Suc_right)

lemma fastpackwithoutmask16_32_eq: "fastpackwithoutmask16_32 = pack_short 32 16"
  by (rule ext, simp add: fastpackwithoutmask16_32_def pack_short_words del: One_nat_def add_Suc_right)
     (simp add: pack_short_simps del: One_nat_def add_Suc_right)

lemma fastpackwithoutmask17_32_eq: "fastpackwithoutmask17_32 = pack_short 32 17"
  by (rule ext, simp add: fastpackwithoutmask17_32_def pack_short_words del: One_nat_def add_Suc_right)
     (simp add: pack_short_simps del: One_nat_def add_Suc_right)

lemma fastpackwithoutmask18_32_eq: "fastpackwithoutmask18_32 = pack_short 32 18"
  by (rule ext, simp add: fastpackwithoutmask18_32_def pack_short_words del: One_nat_def add_Suc_right)
     (simp add: pack_short_simps del: One_nat_def add_Suc_right)

lemma fastpackwithoutmask19_32_eq: "fastpackwithoutmask19_32 = pack_short 32 19"
  by (rule ext, simp add: fastpackwithoutmask19_32_def pack_short_words del: One_nat_def add_Suc_right)
     (simp add: pack_short_simps del: One_nat_def add_Suc_right)

lemma fastpackwithoutmask20_32_eq: "fastpackwithoutmask20_32 = pack_short 32 20"
  by (rule ext, simp add: fastpackwithoutmask20_32_def pack_short_words del: One_nat_def add_Suc_right)
     (simp add: pack_short_simps del: One_nat_def add_Suc_right)

lemma fastpackwithoutmask21_32_eq: "fastpackwithoutmask21_32 = pack_short 32 21"
  by (rule ext, simp add: fastpackwithoutmask21_32_def pack_short_words del: One_nat_def add_Suc_right)
     (simp add: pack_short_simps del: One_nat_def add_Suc_right)

lemma fastpackwithoutmask22_32_eq: "fastpackwithoutmask22_32 = pack_short 32 22"
  by (rule ext, simp add: fastpackwithoutmask22_32_def pack_short_words del: One_nat_def add_Suc_right)
     (simp add: pack_short_simps del: One_nat_def add_Suc_right)

lemma fastpackwithoutmask23_32_eq: "fastpackwithoutmask23_32 = pack_short 32 23"
  by (rule ext, simp add: fastpackwithoutmask23_32_def pack_short_words del: One_nat_def add_Suc_right)
     (simp add: pack_short_simps del: One_nat_def add_Suc_right)

lemma fastpackwithoutmask24_32_eq: "fastpackwithoutmask24_32 = pack_short 32 24"
  by (rule ext, simp add: fastpackwithoutmask24_32_def pack_short_words del: One_nat_def add_Suc_right)
     (simp add: pack_short_simps del: One_nat_def add_Suc_right)

lemma fastpackwithoutmask25_32_eq: "fastpackwithoutmask25_32 = pack_short 32 25"
  by (rule ext, simp add: fastpackwithoutmask25_32_def pack_short_words del: One_nat_def add_Suc_right)
     (simp add: pack_short_simps del: One_nat_def add_Suc_right)

lemma fastpackwithoutmask26_32_eq: "fastpackwithoutmask26_32 = pack_short 32 26"
  by (rule ext, simp add: fastpackwithoutmask26_32_def pack_short_words del: One_nat_def add_Suc_right)
     (simp add: pack_short_simps del: One_nat_def add_Suc_right)

lemma fastpackwithoutmask27_32_eq: "fastpackwithoutmask27_32 = pack_short 32 27"
  by (rule ext, simp add: fastpackwithoutmask27_32_def pack_short_words del: One_nat_def add_Suc_right)
     (simp add: pack_short_simps del: One_nat_def add_Suc_right)

lemma fastpackwithoutmask28_32_eq: "fastpackwithoutmask28_32 = pack_short 32 28"
  by (rule ext, simp add: fastpackwithoutmask28_32_def pack_short_words del: One_nat_def add_Suc_right)
     (simp add: pack_short_simps del: One_nat_def add_Suc_right)

lemma fastpackwithoutmask29_32_eq: "fastpackwithoutmask29_32 = pack_short 32 29"
  by (rule ext, simp add: fastpackwithoutmask29_32_def pack_short_words del: One_nat_def add_Suc_right)
     (simp add: pack_short_simps del: One_nat_def add_Suc_right)

lemma fastpackwithoutmask30_32_eq: "fastpackwithoutmask30_32 = pack_short 32 30"
  by (rule ext, simp add: fastpackwithoutmask30_32_def pack_short_words del: One_nat_def add_Suc_right)
     (simp add: pack_short_simps del: One_nat_def add_Suc_right)

lemma fastpackwithoutmask31_32_eq: "fastpackwithoutmask31_32 = pack_short 32 31"
  by (rule ext, simp add: fastpackwithoutmask31_32_def pack_short_words del: One_nat_def add_Suc_right)
     (simp add: pack_short_simps del: One_nat_def add_Suc_right)

lemma fastpackwithoutmask32_32_eq: "fastpackwithoutmask32_32 = pack_short 32 32"
  by (rule ext, simp add: fastpackwithoutmask32_32_def pack_short_words del: One_nat_def add_Suc_right)
     (simp add: pack_short_simps del: One_nat_def add_Suc_right)

section \<open>The routines in the order of their widths\<close>

definition fastpackwithoutmask_8_table :: "(u32 list \<Rightarrow> u32 list) list" where
  "fastpackwithoutmask_8_table =
    [nullpacker, fastpackwithoutmask1_8, fastpackwithoutmask2_8, fastpackwithoutmask3_8, fastpackwithoutmask4_8,
     fastpackwithoutmask5_8, fastpackwithoutmask6_8, fastpackwithoutmask7_8, fastpackwithoutmask8_8,
     fastpackwithoutmask9_8, fastpackwithoutmask10_8, fastpackwithoutmask11_8, fastpackwithoutmask12_8,
     fastpackwithoutmask13_8, fastpackwithoutmask14_8, fastpackwithoutmask15_8, fastpackwithoutmask16_8,
     fastpackwithoutmask17_8, fastpackwithoutmask18_8, fastpackwithoutmask19_8, fastpackwithoutmask20_8,
     fastpackwithoutmask21_8, fastpackwithoutmask22_8, fastpackwithoutmask23_8, fastpackwithoutmask24_8,
     fastpackwithoutmask25_8, fastpackwithoutmask26_8, fastpackwithoutmask27_8, fastpackwithoutmask28_8,
     fastpackwithoutmask29_8, fastpackwithoutmask30_8, fastpackwithoutmask31_8, fastpackwithoutmask32_8]"

lemma fastpackwithoutmask_8_table_eq: "fastpackwithoutmask_8_table = map (pack_short 8) [0..<33]"
  by (simp add: fastpackwithoutmask_8_table_def
    nullpacker_eq [of 8] fastpackwithoutmask1_8_eq fastpackwithoutmask2_8_eq fastpackwithoutmask3_8_eq
    fastpackwithoutmask4_8_eq fastpackwithoutmask5_8_eq fastpackwithoutmask6_8_eq fastpackwithoutmask7_8_eq
    fastpackwithoutmask8_8_eq fastpackwithoutmask9_8_eq fastpackwithoutmask10_8_eq fastpackwithoutmask11_8_eq
    fastpackwithoutmask12_8_eq fastpackwithoutmask13_8_eq fastpackwithoutmask14_8_eq fastpackwithoutmask15_8_eq
    fastpackwithoutmask16_8_eq fastpackwithoutmask17_8_eq fastpackwithoutmask18_8_eq fastpackwithoutmask19_8_eq
    fastpackwithoutmask20_8_eq fastpackwithoutmask21_8_eq fastpackwithoutmask22_8_eq fastpackwithoutmask23_8_eq
    fastpackwithoutmask24_8_eq fastpackwithoutmask25_8_eq fastpackwithoutmask26_8_eq fastpackwithoutmask27_8_eq
    fastpackwithoutmask28_8_eq fastpackwithoutmask29_8_eq fastpackwithoutmask30_8_eq fastpackwithoutmask31_8_eq
    fastpackwithoutmask32_8_eq
    upt_step del: One_nat_def add_Suc_right)

definition fastpackwithoutmask_16_table :: "(u32 list \<Rightarrow> u32 list) list" where
  "fastpackwithoutmask_16_table =
    [nullpacker, fastpackwithoutmask1_16, fastpackwithoutmask2_16, fastpackwithoutmask3_16, fastpackwithoutmask4_16,
     fastpackwithoutmask5_16, fastpackwithoutmask6_16, fastpackwithoutmask7_16, fastpackwithoutmask8_16,
     fastpackwithoutmask9_16, fastpackwithoutmask10_16, fastpackwithoutmask11_16, fastpackwithoutmask12_16,
     fastpackwithoutmask13_16, fastpackwithoutmask14_16, fastpackwithoutmask15_16, fastpackwithoutmask16_16,
     fastpackwithoutmask17_16, fastpackwithoutmask18_16, fastpackwithoutmask19_16, fastpackwithoutmask20_16,
     fastpackwithoutmask21_16, fastpackwithoutmask22_16, fastpackwithoutmask23_16, fastpackwithoutmask24_16,
     fastpackwithoutmask25_16, fastpackwithoutmask26_16, fastpackwithoutmask27_16, fastpackwithoutmask28_16,
     fastpackwithoutmask29_16, fastpackwithoutmask30_16, fastpackwithoutmask31_16, fastpackwithoutmask32_16]"

lemma fastpackwithoutmask_16_table_eq: "fastpackwithoutmask_16_table = map (pack_short 16) [0..<33]"
  by (simp add: fastpackwithoutmask_16_table_def
    nullpacker_eq [of 16] fastpackwithoutmask1_16_eq fastpackwithoutmask2_16_eq fastpackwithoutmask3_16_eq
    fastpackwithoutmask4_16_eq fastpackwithoutmask5_16_eq fastpackwithoutmask6_16_eq fastpackwithoutmask7_16_eq
    fastpackwithoutmask8_16_eq fastpackwithoutmask9_16_eq fastpackwithoutmask10_16_eq fastpackwithoutmask11_16_eq
    fastpackwithoutmask12_16_eq fastpackwithoutmask13_16_eq fastpackwithoutmask14_16_eq fastpackwithoutmask15_16_eq
    fastpackwithoutmask16_16_eq fastpackwithoutmask17_16_eq fastpackwithoutmask18_16_eq fastpackwithoutmask19_16_eq
    fastpackwithoutmask20_16_eq fastpackwithoutmask21_16_eq fastpackwithoutmask22_16_eq fastpackwithoutmask23_16_eq
    fastpackwithoutmask24_16_eq fastpackwithoutmask25_16_eq fastpackwithoutmask26_16_eq fastpackwithoutmask27_16_eq
    fastpackwithoutmask28_16_eq fastpackwithoutmask29_16_eq fastpackwithoutmask30_16_eq fastpackwithoutmask31_16_eq
    fastpackwithoutmask32_16_eq
    upt_step del: One_nat_def add_Suc_right)

definition fastpackwithoutmask_24_table :: "(u32 list \<Rightarrow> u32 list) list" where
  "fastpackwithoutmask_24_table =
    [nullpacker, fastpackwithoutmask1_24, fastpackwithoutmask2_24, fastpackwithoutmask3_24, fastpackwithoutmask4_24,
     fastpackwithoutmask5_24, fastpackwithoutmask6_24, fastpackwithoutmask7_24, fastpackwithoutmask8_24,
     fastpackwithoutmask9_24, fastpackwithoutmask10_24, fastpackwithoutmask11_24, fastpackwithoutmask12_24,
     fastpackwithoutmask13_24, fastpackwithoutmask14_24, fastpackwithoutmask15_24, fastpackwithoutmask16_24,
     fastpackwithoutmask17_24, fastpackwithoutmask18_24, fastpackwithoutmask19_24, fastpackwithoutmask20_24,
     fastpackwithoutmask21_24, fastpackwithoutmask22_24, fastpackwithoutmask23_24, fastpackwithoutmask24_24,
     fastpackwithoutmask25_24, fastpackwithoutmask26_24, fastpackwithoutmask27_24, fastpackwithoutmask28_24,
     fastpackwithoutmask29_24, fastpackwithoutmask30_24, fastpackwithoutmask31_24, fastpackwithoutmask32_24]"

lemma fastpackwithoutmask_24_table_eq: "fastpackwithoutmask_24_table = map (pack_short 24) [0..<33]"
  by (simp add: fastpackwithoutmask_24_table_def
    nullpacker_eq [of 24] fastpackwithoutmask1_24_eq fastpackwithoutmask2_24_eq fastpackwithoutmask3_24_eq
    fastpackwithoutmask4_24_eq fastpackwithoutmask5_24_eq fastpackwithoutmask6_24_eq fastpackwithoutmask7_24_eq
    fastpackwithoutmask8_24_eq fastpackwithoutmask9_24_eq fastpackwithoutmask10_24_eq fastpackwithoutmask11_24_eq
    fastpackwithoutmask12_24_eq fastpackwithoutmask13_24_eq fastpackwithoutmask14_24_eq fastpackwithoutmask15_24_eq
    fastpackwithoutmask16_24_eq fastpackwithoutmask17_24_eq fastpackwithoutmask18_24_eq fastpackwithoutmask19_24_eq
    fastpackwithoutmask20_24_eq fastpackwithoutmask21_24_eq fastpackwithoutmask22_24_eq fastpackwithoutmask23_24_eq
    fastpackwithoutmask24_24_eq fastpackwithoutmask25_24_eq fastpackwithoutmask26_24_eq fastpackwithoutmask27_24_eq
    fastpackwithoutmask28_24_eq fastpackwithoutmask29_24_eq fastpackwithoutmask30_24_eq fastpackwithoutmask31_24_eq
    fastpackwithoutmask32_24_eq
    upt_step del: One_nat_def add_Suc_right)

definition fastpackwithoutmask_32_table :: "(u32 list \<Rightarrow> u32 list) list" where
  "fastpackwithoutmask_32_table =
    [nullpacker, fastpackwithoutmask1_32, fastpackwithoutmask2_32, fastpackwithoutmask3_32, fastpackwithoutmask4_32,
     fastpackwithoutmask5_32, fastpackwithoutmask6_32, fastpackwithoutmask7_32, fastpackwithoutmask8_32,
     fastpackwithoutmask9_32, fastpackwithoutmask10_32, fastpackwithoutmask11_32, fastpackwithoutmask12_32,
     fastpackwithoutmask13_32, fastpackwithoutmask14_32, fastpackwithoutmask15_32, fastpackwithoutmask16_32,
     fastpackwithoutmask17_32, fastpackwithoutmask18_32, fastpackwithoutmask19_32, fastpackwithoutmask20_32,
     fastpackwithoutmask21_32, fastpackwithoutmask22_32, fastpackwithoutmask23_32, fastpackwithoutmask24_32,
     fastpackwithoutmask25_32, fastpackwithoutmask26_32, fastpackwithoutmask27_32, fastpackwithoutmask28_32,
     fastpackwithoutmask29_32, fastpackwithoutmask30_32, fastpackwithoutmask31_32, fastpackwithoutmask32_32]"

lemma fastpackwithoutmask_32_table_eq: "fastpackwithoutmask_32_table = map (pack_short 32) [0..<33]"
  by (simp add: fastpackwithoutmask_32_table_def
    nullpacker_eq [of 32] fastpackwithoutmask1_32_eq fastpackwithoutmask2_32_eq fastpackwithoutmask3_32_eq
    fastpackwithoutmask4_32_eq fastpackwithoutmask5_32_eq fastpackwithoutmask6_32_eq fastpackwithoutmask7_32_eq
    fastpackwithoutmask8_32_eq fastpackwithoutmask9_32_eq fastpackwithoutmask10_32_eq fastpackwithoutmask11_32_eq
    fastpackwithoutmask12_32_eq fastpackwithoutmask13_32_eq fastpackwithoutmask14_32_eq fastpackwithoutmask15_32_eq
    fastpackwithoutmask16_32_eq fastpackwithoutmask17_32_eq fastpackwithoutmask18_32_eq fastpackwithoutmask19_32_eq
    fastpackwithoutmask20_32_eq fastpackwithoutmask21_32_eq fastpackwithoutmask22_32_eq fastpackwithoutmask23_32_eq
    fastpackwithoutmask24_32_eq fastpackwithoutmask25_32_eq fastpackwithoutmask26_32_eq fastpackwithoutmask27_32_eq
    fastpackwithoutmask28_32_eq fastpackwithoutmask29_32_eq fastpackwithoutmask30_32_eq fastpackwithoutmask31_32_eq
    fastpackwithoutmask32_32_eq
    upt_step del: One_nat_def add_Suc_right)

end
