(* ===== verification/Aligned_Bitpack.thy ===== *)
theory Aligned_Bitpack
  imports Block_Loops Aligned_Unpack Aligned_Pack
begin

text \<open>
  The width switches at the end of the four sections of \<open>source/util/compression/int/fastpfor/bitpackingaligned.cpp\<close>. A width above 32
  throws a \<open>logic_error\<close>. Reading fewer words than a routine needs is undefined.
\<close>

section \<open>The switches\<close>

definition unpack_switch :: "(u32 list \<Rightarrow> u32 list \<times> nat) list \<Rightarrow> u32 list \<Rightarrow> nat \<Rightarrow> (u32 list \<times> nat) codec_result" where
  "unpack_switch table inp b =
     (if 32 < b then Some (Inl LogicError)
      else let (out, n) = (table ! b) inp in if length inp < n then None else Some (Inr (out, n)))"

definition pack_switch :: "nat \<Rightarrow> (u32 list \<Rightarrow> u32 list) list \<Rightarrow> u32 list \<Rightarrow> nat \<Rightarrow> u32 list codec_result" where
  "pack_switch n table inp b =
     (if 32 < b then Some (Inl LogicError)
      else if 0 < b \<and> length inp < n then None else Some (Inr ((table ! b) inp)))"

definition fastunpack_8 :: "u32 list \<Rightarrow> nat \<Rightarrow> (u32 list \<times> nat) codec_result" where
  "fastunpack_8 inp b = unpack_switch fastunpack_8_table inp b"

definition fastpackwithoutmask_8 :: "u32 list \<Rightarrow> nat \<Rightarrow> u32 list codec_result" where
  "fastpackwithoutmask_8 inp b = pack_switch 8 fastpackwithoutmask_8_table inp b"

definition fastunpack_16 :: "u32 list \<Rightarrow> nat \<Rightarrow> (u32 list \<times> nat) codec_result" where
  "fastunpack_16 inp b = unpack_switch fastunpack_16_table inp b"

definition fastpackwithoutmask_16 :: "u32 list \<Rightarrow> nat \<Rightarrow> u32 list codec_result" where
  "fastpackwithoutmask_16 inp b = pack_switch 16 fastpackwithoutmask_16_table inp b"

definition fastunpack_24 :: "u32 list \<Rightarrow> nat \<Rightarrow> (u32 list \<times> nat) codec_result" where
  "fastunpack_24 inp b = unpack_switch fastunpack_24_table inp b"

definition fastpackwithoutmask_24 :: "u32 list \<Rightarrow> nat \<Rightarrow> u32 list codec_result" where
  "fastpackwithoutmask_24 inp b = pack_switch 24 fastpackwithoutmask_24_table inp b"

definition fastunpack_32 :: "u32 list \<Rightarrow> nat \<Rightarrow> (u32 list \<times> nat) codec_result" where
  "fastunpack_32 inp b = unpack_switch fastunpack_32_table inp b"

definition fastpackwithoutmask_32 :: "u32 list \<Rightarrow> nat \<Rightarrow> u32 list codec_result" where
  "fastpackwithoutmask_32 inp b = pack_switch 32 fastpackwithoutmask_32_table inp b"

section \<open>Every switch packs what it unpacks\<close>

lemma switches_chunk_coder:
  assumes "up_table = map (unpack_short N) [0..<33]" and "pk_table = map (pack_short N) [0..<33]"
  shows "chunk_coder N (pack_switch N pk_table) (unpack_switch up_table)"
proof
  fix b :: nat and xs :: "u32 list"
  assume a: "b \<le> 32" "length xs = N" "\<And>x. x \<in> set xs \<Longrightarrow> take_bit b x = x"
  have t: "up_table ! b = unpack_short N b" "pk_table ! b = pack_short N b"
    using a(1) unfolding assms by (simp_all del: upt.simps)
  have "unpack_switch up_table (pack_short N b xs @ rest) b = Some (Inr (xs, length (pack_short N b xs)))" for rest
    using a(1) by (simp add: unpack_switch_def t unpack_pack_short [OF a])
  moreover have "pack_switch N pk_table xs b = Some (Inr (pack_short N b xs))"
    using a(1,2) by (simp add: pack_switch_def t)
  ultimately show "\<exists>ws. pack_switch N pk_table xs b = Some (Inr ws) \<and>
      (\<forall>rest. unpack_switch up_table (ws @ rest) b = Some (Inr (xs, length ws)))" by blast
qed

lemma switch_eqs:
  "fastunpack_8 = unpack_switch fastunpack_8_table" "fastpackwithoutmask_8 = pack_switch 8 fastpackwithoutmask_8_table"
  "fastunpack_16 = unpack_switch fastunpack_16_table" "fastpackwithoutmask_16 = pack_switch 16 fastpackwithoutmask_16_table"
  "fastunpack_24 = unpack_switch fastunpack_24_table" "fastpackwithoutmask_24 = pack_switch 24 fastpackwithoutmask_24_table"
  "fastunpack_32 = unpack_switch fastunpack_32_table" "fastpackwithoutmask_32 = pack_switch 32 fastpackwithoutmask_32_table"
  by (simp_all add: fun_eq_iff fastunpack_8_def fastpackwithoutmask_8_def fastunpack_16_def fastpackwithoutmask_16_def
      fastunpack_24_def fastpackwithoutmask_24_def fastunpack_32_def fastpackwithoutmask_32_def)

interpretation c8: chunk_coder 8 fastpackwithoutmask_8 fastunpack_8
  unfolding switch_eqs by (rule switches_chunk_coder [OF fastunpack_8_table_eq fastpackwithoutmask_8_table_eq])

interpretation c16: chunk_coder 16 fastpackwithoutmask_16 fastunpack_16
  unfolding switch_eqs by (rule switches_chunk_coder [OF fastunpack_16_table_eq fastpackwithoutmask_16_table_eq])

interpretation c24: chunk_coder 24 fastpackwithoutmask_24 fastunpack_24
  unfolding switch_eqs by (rule switches_chunk_coder [OF fastunpack_24_table_eq fastpackwithoutmask_24_table_eq])

interpretation c32: chunk_coder 32 fastpackwithoutmask_32 fastunpack_32
  unfolding switch_eqs by (rule switches_chunk_coder [OF fastunpack_32_table_eq fastpackwithoutmask_32_table_eq])

end
