(* ===== verification/Unaligned_Bitpack.thy ===== *)
theory Unaligned_Bitpack
  imports Bitpack_Short
begin

text \<open>
  The routines of \<open>source/util/compression/int/fastpfor/bitpackingunaligned.cpp\<close>, which pack \<open>N\<close> integers of \<open>B\<close> bits for \<open>N\<close> one of 8 and 16 and return
  a pointer at byte granularity. \<open>__fastunalignedunpackB_N\<close> and \<open>__fastunalignedpackwithoutmaskB_N\<close> read and write whole words of 32 bits: the model
  gives the integers, or the words stored, and the distance in bytes of the returned pointer from the start, which may lie inside the last word. The byte
  routines do the same with bytes for integers of up to 8 bits; the promotions to \<open>int\<close> in them end in a conversion back to \<open>uint8_t\<close>, so that the
  model computes on bytes. Every routine is the reference of its width.
\<close>

section \<open>The reference for bytes\<close>

definition field8 :: "nat \<Rightarrow> u8 list \<Rightarrow> nat \<Rightarrow> u8" where
  "field8 b ws i =
     (let q = b * i div 8; r = b * i mod 8 in
      if r + b \<le> 8 then drop_bit r (ws ! q) mod push_bit b 1
      else drop_bit r (ws ! q) mod push_bit b 1 OR push_bit (8 - r) (ws ! (q + 1) mod push_bit (r + b - 8) 1))"

definition contrib8 :: "nat \<Rightarrow> u8 list \<Rightarrow> nat \<Rightarrow> nat \<Rightarrow> u8" where
  "contrib8 b xs q i = (if b * i < 8 * q then drop_bit (8 * q - b * i) (xs ! i) else push_bit (b * i - 8 * q) (xs ! i))"

definition accum8 :: "u8 \<Rightarrow> u8 list \<Rightarrow> u8" where
  "accum8 e es = foldl (OR) e es"

definition pack8_word :: "nat \<Rightarrow> nat \<Rightarrow> u8 list \<Rightarrow> nat \<Rightarrow> u8" where
  "pack8_word n b xs q = accum8 (contrib8 b xs q (8 * q div b)) (map (contrib8 b xs q) [8 * q div b + 1..<min n ((8 * q + 7) div b + 1)])"

definition unpack_bytes :: "nat \<Rightarrow> nat \<Rightarrow> u8 list \<Rightarrow> u8 list" where
  "unpack_bytes n b ws = map (field8 b ws) [0..<n]"

definition pack_bytes :: "nat \<Rightarrow> nat \<Rightarrow> u8 list \<Rightarrow> u8 list" where
  "pack_bytes n b xs = map (pack8_word n b xs) [0..<n * b div 8]"

definition unpack_unaligned :: "nat \<Rightarrow> nat \<Rightarrow> u32 list \<Rightarrow> u32 list \<times> nat" where
  "unpack_unaligned n b ws = (map (field b ws) [0..<n], n * b div 8)"

definition pack_unaligned :: "nat \<Rightarrow> nat \<Rightarrow> u32 list \<Rightarrow> u32 list \<times> nat" where
  "pack_unaligned n b xs = (pack_short n b xs, n * b div 8)"

text \<open>A byte routine reads and stores whole bytes, behind which the returned pointer stands.\<close>

lemma unpack_unaligned_0: "unpack_unaligned n 0 ws = (replicate n 0, 0)"
  using unpack_short_0 [of n ws] by (simp add: unpack_unaligned_def unpack_short_def)

lemma unpack_bytes_0: "unpack_bytes n 0 ws = replicate n 0"
proof -
  have "field8 0 ws = (\<lambda>i. 0)" by (rule ext) (simp add: field8_def)
  then show ?thesis by (simp add: unpack_bytes_def map_replicate_const)
qed

text \<open>Integers that fit the width are restored.\<close>

lemma unpack_pack_unaligned:
  assumes "b \<le> 32" "length xs = n" "\<And>x. x \<in> set xs \<Longrightarrow> take_bit b x = x"
  shows "unpack_unaligned n b (fst (pack_unaligned n b xs) @ rest) = (xs, n * b div 8)"
  using unpack_pack_short [OF assms, of rest] by (simp add: unpack_unaligned_def pack_unaligned_def unpack_short_def)

lemma byte_simps: "push_bit 1 (x :: u8) = x * 2"
  by simp

lemmas unaligned_simps = unpack_unaligned_def field_def Let_def upt_step and_one_eq

lemmas unaligned_words = pack_unaligned_def pack_short_words

lemmas byte_unpack_simps = unpack_bytes_def field8_def Let_def upt_step and_one_eq

lemmas byte_pack_words = pack_bytes_def pack8_word_def upt_step and_one_eq min_def

lemmas byte_pack_simps = contrib8_def upt_step and_one_eq byte_simps

section \<open>The routines\<close>

definition nullunalignedpacker :: "u32 list \<Rightarrow> u32 list \<times> nat" where
  "nullunalignedpacker inp = ([], 0)"

definition nullbytepacker :: "u8 list \<Rightarrow> u8 list" where
  "nullbytepacker inp = []"

definition nullunalignedunpacker8 :: "u32 list \<Rightarrow> u32 list \<times> nat" where
  "nullunalignedunpacker8 inp = (replicate 8 0, 0)"

definition nullbyteunpacker8 :: "u8 list \<Rightarrow> u8 list" where
  "nullbyteunpacker8 inp = replicate 8 0"

definition fastunalignedunpack1_8 :: "u32 list \<Rightarrow> u32 list \<times> nat" where
  "fastunalignedunpack1_8 inp =
    ([drop_bit 0 (inp ! 0) AND 1, drop_bit 1 (inp ! 0) AND 1, drop_bit 2 (inp ! 0) AND 1, drop_bit 3 (inp ! 0) AND 1,
      drop_bit 4 (inp ! 0) AND 1, drop_bit 5 (inp ! 0) AND 1, drop_bit 6 (inp ! 0) AND 1, drop_bit 7 (inp ! 0) AND 1], 1)"

definition fastunalignedunpack2_8 :: "u32 list \<Rightarrow> u32 list \<times> nat" where
  "fastunalignedunpack2_8 inp =
    ([drop_bit 0 (inp ! 0) mod push_bit 2 1, drop_bit 2 (inp ! 0) mod push_bit 2 1,
      drop_bit 4 (inp ! 0) mod push_bit 2 1, drop_bit 6 (inp ! 0) mod push_bit 2 1,
      drop_bit 8 (inp ! 0) mod push_bit 2 1, drop_bit 10 (inp ! 0) mod push_bit 2 1,
      drop_bit 12 (inp ! 0) mod push_bit 2 1, drop_bit 14 (inp ! 0) mod push_bit 2 1], 2)"

definition fastunalignedunpack3_8 :: "u32 list \<Rightarrow> u32 list \<times> nat" where
  "fastunalignedunpack3_8 inp =
    ([drop_bit 0 (inp ! 0) mod push_bit 3 1, drop_bit 3 (inp ! 0) mod push_bit 3 1,
      drop_bit 6 (inp ! 0) mod push_bit 3 1, drop_bit 9 (inp ! 0) mod push_bit 3 1,
      drop_bit 12 (inp ! 0) mod push_bit 3 1, drop_bit 15 (inp ! 0) mod push_bit 3 1,
      drop_bit 18 (inp ! 0) mod push_bit 3 1, drop_bit 21 (inp ! 0) mod push_bit 3 1], 3)"

definition fastunalignedunpack4_8 :: "u32 list \<Rightarrow> u32 list \<times> nat" where
  "fastunalignedunpack4_8 inp =
    ([drop_bit 0 (inp ! 0) mod push_bit 4 1, drop_bit 4 (inp ! 0) mod push_bit 4 1,
      drop_bit 8 (inp ! 0) mod push_bit 4 1, drop_bit 12 (inp ! 0) mod push_bit 4 1,
      drop_bit 16 (inp ! 0) mod push_bit 4 1, drop_bit 20 (inp ! 0) mod push_bit 4 1,
      drop_bit 24 (inp ! 0) mod push_bit 4 1, drop_bit 28 (inp ! 0)], 4)"

definition fastunalignedunpack5_8 :: "u32 list \<Rightarrow> u32 list \<times> nat" where
  "fastunalignedunpack5_8 inp =
    ([drop_bit 0 (inp ! 0) mod push_bit 5 1, drop_bit 5 (inp ! 0) mod push_bit 5 1,
      drop_bit 10 (inp ! 0) mod push_bit 5 1, drop_bit 15 (inp ! 0) mod push_bit 5 1,
      drop_bit 20 (inp ! 0) mod push_bit 5 1, drop_bit 25 (inp ! 0) mod push_bit 5 1,
      drop_bit 30 (inp ! 0) OR push_bit (5 - 3) (inp ! 1 mod push_bit 3 1), drop_bit 3 (inp ! 1) mod push_bit 5 1], 5)"

definition fastunalignedunpack6_8 :: "u32 list \<Rightarrow> u32 list \<times> nat" where
  "fastunalignedunpack6_8 inp =
    ([drop_bit 0 (inp ! 0) mod push_bit 6 1, drop_bit 6 (inp ! 0) mod push_bit 6 1,
      drop_bit 12 (inp ! 0) mod push_bit 6 1, drop_bit 18 (inp ! 0) mod push_bit 6 1,
      drop_bit 24 (inp ! 0) mod push_bit 6 1, drop_bit 30 (inp ! 0) OR push_bit (6 - 4) (inp ! 1 mod push_bit 4 1),
      drop_bit 4 (inp ! 1) mod push_bit 6 1, drop_bit 10 (inp ! 1) mod push_bit 6 1], 6)"

definition fastunalignedunpack7_8 :: "u32 list \<Rightarrow> u32 list \<times> nat" where
  "fastunalignedunpack7_8 inp =
    ([drop_bit 0 (inp ! 0) mod push_bit 7 1, drop_bit 7 (inp ! 0) mod push_bit 7 1,
      drop_bit 14 (inp ! 0) mod push_bit 7 1, drop_bit 21 (inp ! 0) mod push_bit 7 1,
      drop_bit 28 (inp ! 0) OR push_bit (7 - 3) (inp ! 1 mod push_bit 3 1), drop_bit 3 (inp ! 1) mod push_bit 7 1,
      drop_bit 10 (inp ! 1) mod push_bit 7 1, drop_bit 17 (inp ! 1) mod push_bit 7 1], 7)"

definition fastunalignedunpack8_8 :: "u32 list \<Rightarrow> u32 list \<times> nat" where
  "fastunalignedunpack8_8 inp =
    ([drop_bit 0 (inp ! 0) mod push_bit 8 1, drop_bit 8 (inp ! 0) mod push_bit 8 1,
      drop_bit 16 (inp ! 0) mod push_bit 8 1, drop_bit 24 (inp ! 0), drop_bit 0 (inp ! 1) mod push_bit 8 1,
      drop_bit 8 (inp ! 1) mod push_bit 8 1, drop_bit 16 (inp ! 1) mod push_bit 8 1, drop_bit 24 (inp ! 1)], 8)"

definition fastunalignedunpack9_8 :: "u32 list \<Rightarrow> u32 list \<times> nat" where
  "fastunalignedunpack9_8 inp =
    ([drop_bit 0 (inp ! 0) mod push_bit 9 1, drop_bit 9 (inp ! 0) mod push_bit 9 1,
      drop_bit 18 (inp ! 0) mod push_bit 9 1, drop_bit 27 (inp ! 0) OR push_bit (9 - 4) (inp ! 1 mod push_bit 4 1),
      drop_bit 4 (inp ! 1) mod push_bit 9 1, drop_bit 13 (inp ! 1) mod push_bit 9 1,
      drop_bit 22 (inp ! 1) mod push_bit 9 1, drop_bit 31 (inp ! 1) OR push_bit (9 - 8) (inp ! 2 mod push_bit 8 1)], 9)"

definition fastunalignedunpack10_8 :: "u32 list \<Rightarrow> u32 list \<times> nat" where
  "fastunalignedunpack10_8 inp =
    ([drop_bit 0 (inp ! 0) mod push_bit 10 1, drop_bit 10 (inp ! 0) mod push_bit 10 1,
      drop_bit 20 (inp ! 0) mod push_bit 10 1, drop_bit 30 (inp ! 0) OR push_bit (10 - 8) (inp ! 1 mod push_bit 8 1),
      drop_bit 8 (inp ! 1) mod push_bit 10 1, drop_bit 18 (inp ! 1) mod push_bit 10 1,
      drop_bit 28 (inp ! 1) OR push_bit (10 - 6) (inp ! 2 mod push_bit 6 1), drop_bit 6 (inp ! 2) mod push_bit 10 1], 10)"

definition fastunalignedunpack11_8 :: "u32 list \<Rightarrow> u32 list \<times> nat" where
  "fastunalignedunpack11_8 inp =
    ([drop_bit 0 (inp ! 0) mod push_bit 11 1, drop_bit 11 (inp ! 0) mod push_bit 11 1,
      drop_bit 22 (inp ! 0) OR push_bit (11 - 1) (inp ! 1 mod push_bit 1 1), drop_bit 1 (inp ! 1) mod push_bit 11 1,
      drop_bit 12 (inp ! 1) mod push_bit 11 1, drop_bit 23 (inp ! 1) OR push_bit (11 - 2) (inp ! 2 mod push_bit 2 1),
      drop_bit 2 (inp ! 2) mod push_bit 11 1, drop_bit 13 (inp ! 2) mod push_bit 11 1], 11)"

definition fastunalignedunpack12_8 :: "u32 list \<Rightarrow> u32 list \<times> nat" where
  "fastunalignedunpack12_8 inp =
    ([drop_bit 0 (inp ! 0) mod push_bit 12 1, drop_bit 12 (inp ! 0) mod push_bit 12 1,
      drop_bit 24 (inp ! 0) OR push_bit (12 - 4) (inp ! 1 mod push_bit 4 1), drop_bit 4 (inp ! 1) mod push_bit 12 1,
      drop_bit 16 (inp ! 1) mod push_bit 12 1, drop_bit 28 (inp ! 1) OR push_bit (12 - 8) (inp ! 2 mod push_bit 8 1),
      drop_bit 8 (inp ! 2) mod push_bit 12 1, drop_bit 20 (inp ! 2)], 12)"

definition fastunalignedunpack13_8 :: "u32 list \<Rightarrow> u32 list \<times> nat" where
  "fastunalignedunpack13_8 inp =
    ([drop_bit 0 (inp ! 0) mod push_bit 13 1, drop_bit 13 (inp ! 0) mod push_bit 13 1,
      drop_bit 26 (inp ! 0) OR push_bit (13 - 7) (inp ! 1 mod push_bit 7 1), drop_bit 7 (inp ! 1) mod push_bit 13 1,
      drop_bit 20 (inp ! 1) OR push_bit (13 - 1) (inp ! 2 mod push_bit 1 1), drop_bit 1 (inp ! 2) mod push_bit 13 1,
      drop_bit 14 (inp ! 2) mod push_bit 13 1, drop_bit 27 (inp ! 2) OR push_bit (13 - 8) (inp ! 3 mod push_bit 8 1)], 13)"

definition fastunalignedunpack14_8 :: "u32 list \<Rightarrow> u32 list \<times> nat" where
  "fastunalignedunpack14_8 inp =
    ([drop_bit 0 (inp ! 0) mod push_bit 14 1, drop_bit 14 (inp ! 0) mod push_bit 14 1,
      drop_bit 28 (inp ! 0) OR push_bit (14 - 10) (inp ! 1 mod push_bit 10 1),
      drop_bit 10 (inp ! 1) mod push_bit 14 1, drop_bit 24 (inp ! 1) OR push_bit (14 - 6) (inp ! 2 mod push_bit 6 1),
      drop_bit 6 (inp ! 2) mod push_bit 14 1, drop_bit 20 (inp ! 2) OR push_bit (14 - 2) (inp ! 3 mod push_bit 2 1),
      drop_bit 2 (inp ! 3) mod push_bit 14 1], 14)"

definition fastunalignedunpack15_8 :: "u32 list \<Rightarrow> u32 list \<times> nat" where
  "fastunalignedunpack15_8 inp =
    ([drop_bit 0 (inp ! 0) mod push_bit 15 1, drop_bit 15 (inp ! 0) mod push_bit 15 1,
      drop_bit 30 (inp ! 0) OR push_bit (15 - 13) (inp ! 1 mod push_bit 13 1),
      drop_bit 13 (inp ! 1) mod push_bit 15 1,
      drop_bit 28 (inp ! 1) OR push_bit (15 - 11) (inp ! 2 mod push_bit 11 1),
      drop_bit 11 (inp ! 2) mod push_bit 15 1, drop_bit 26 (inp ! 2) OR push_bit (15 - 9) (inp ! 3 mod push_bit 9 1),
      drop_bit 9 (inp ! 3) mod push_bit 15 1], 15)"

definition fastunalignedunpack16_8 :: "u32 list \<Rightarrow> u32 list \<times> nat" where
  "fastunalignedunpack16_8 inp =
    ([drop_bit 0 (inp ! 0) mod push_bit 16 1, drop_bit 16 (inp ! 0), drop_bit 0 (inp ! 1) mod push_bit 16 1,
      drop_bit 16 (inp ! 1), drop_bit 0 (inp ! 2) mod push_bit 16 1, drop_bit 16 (inp ! 2),
      drop_bit 0 (inp ! 3) mod push_bit 16 1, drop_bit 16 (inp ! 3)], 16)"

definition fastunalignedunpack17_8 :: "u32 list \<Rightarrow> u32 list \<times> nat" where
  "fastunalignedunpack17_8 inp =
    ([drop_bit 0 (inp ! 0) mod push_bit 17 1, drop_bit 17 (inp ! 0) OR push_bit (17 - 2) (inp ! 1 mod push_bit 2 1),
      drop_bit 2 (inp ! 1) mod push_bit 17 1, drop_bit 19 (inp ! 1) OR push_bit (17 - 4) (inp ! 2 mod push_bit 4 1),
      drop_bit 4 (inp ! 2) mod push_bit 17 1, drop_bit 21 (inp ! 2) OR push_bit (17 - 6) (inp ! 3 mod push_bit 6 1),
      drop_bit 6 (inp ! 3) mod push_bit 17 1, drop_bit 23 (inp ! 3) OR push_bit (17 - 8) (inp ! 4 mod push_bit 8 1)], 17)"

definition fastunalignedunpack18_8 :: "u32 list \<Rightarrow> u32 list \<times> nat" where
  "fastunalignedunpack18_8 inp =
    ([drop_bit 0 (inp ! 0) mod push_bit 18 1, drop_bit 18 (inp ! 0) OR push_bit (18 - 4) (inp ! 1 mod push_bit 4 1),
      drop_bit 4 (inp ! 1) mod push_bit 18 1, drop_bit 22 (inp ! 1) OR push_bit (18 - 8) (inp ! 2 mod push_bit 8 1),
      drop_bit 8 (inp ! 2) mod push_bit 18 1,
      drop_bit 26 (inp ! 2) OR push_bit (18 - 12) (inp ! 3 mod push_bit 12 1),
      drop_bit 12 (inp ! 3) mod push_bit 18 1, drop_bit 30 (inp ! 3) OR push_bit (18 - 16) (inp ! 4 mod push_bit 16 1)], 18)"

definition fastunalignedunpack19_8 :: "u32 list \<Rightarrow> u32 list \<times> nat" where
  "fastunalignedunpack19_8 inp =
    ([drop_bit 0 (inp ! 0) mod push_bit 19 1, drop_bit 19 (inp ! 0) OR push_bit (19 - 6) (inp ! 1 mod push_bit 6 1),
      drop_bit 6 (inp ! 1) mod push_bit 19 1,
      drop_bit 25 (inp ! 1) OR push_bit (19 - 12) (inp ! 2 mod push_bit 12 1),
      drop_bit 12 (inp ! 2) mod push_bit 19 1,
      drop_bit 31 (inp ! 2) OR push_bit (19 - 18) (inp ! 3 mod push_bit 18 1),
      drop_bit 18 (inp ! 3) OR push_bit (19 - 5) (inp ! 4 mod push_bit 5 1), drop_bit 5 (inp ! 4) mod push_bit 19 1], 19)"

definition fastunalignedunpack20_8 :: "u32 list \<Rightarrow> u32 list \<times> nat" where
  "fastunalignedunpack20_8 inp =
    ([drop_bit 0 (inp ! 0) mod push_bit 20 1, drop_bit 20 (inp ! 0) OR push_bit (20 - 8) (inp ! 1 mod push_bit 8 1),
      drop_bit 8 (inp ! 1) mod push_bit 20 1,
      drop_bit 28 (inp ! 1) OR push_bit (20 - 16) (inp ! 2 mod push_bit 16 1),
      drop_bit 16 (inp ! 2) OR push_bit (20 - 4) (inp ! 3 mod push_bit 4 1), drop_bit 4 (inp ! 3) mod push_bit 20 1,
      drop_bit 24 (inp ! 3) OR push_bit (20 - 12) (inp ! 4 mod push_bit 12 1), drop_bit 12 (inp ! 4)], 20)"

definition fastunalignedunpack21_8 :: "u32 list \<Rightarrow> u32 list \<times> nat" where
  "fastunalignedunpack21_8 inp =
    ([drop_bit 0 (inp ! 0) mod push_bit 21 1,
      drop_bit 21 (inp ! 0) OR push_bit (21 - 10) (inp ! 1 mod push_bit 10 1),
      drop_bit 10 (inp ! 1) mod push_bit 21 1,
      drop_bit 31 (inp ! 1) OR push_bit (21 - 20) (inp ! 2 mod push_bit 20 1),
      drop_bit 20 (inp ! 2) OR push_bit (21 - 9) (inp ! 3 mod push_bit 9 1), drop_bit 9 (inp ! 3) mod push_bit 21 1,
      drop_bit 30 (inp ! 3) OR push_bit (21 - 19) (inp ! 4 mod push_bit 19 1),
      drop_bit 19 (inp ! 4) OR push_bit (21 - 8) (inp ! 5 mod push_bit 8 1)], 21)"

definition fastunalignedunpack22_8 :: "u32 list \<Rightarrow> u32 list \<times> nat" where
  "fastunalignedunpack22_8 inp =
    ([drop_bit 0 (inp ! 0) mod push_bit 22 1,
      drop_bit 22 (inp ! 0) OR push_bit (22 - 12) (inp ! 1 mod push_bit 12 1),
      drop_bit 12 (inp ! 1) OR push_bit (22 - 2) (inp ! 2 mod push_bit 2 1), drop_bit 2 (inp ! 2) mod push_bit 22 1,
      drop_bit 24 (inp ! 2) OR push_bit (22 - 14) (inp ! 3 mod push_bit 14 1),
      drop_bit 14 (inp ! 3) OR push_bit (22 - 4) (inp ! 4 mod push_bit 4 1), drop_bit 4 (inp ! 4) mod push_bit 22 1,
      drop_bit 26 (inp ! 4) OR push_bit (22 - 16) (inp ! 5 mod push_bit 16 1)], 22)"

definition fastunalignedunpack23_8 :: "u32 list \<Rightarrow> u32 list \<times> nat" where
  "fastunalignedunpack23_8 inp =
    ([drop_bit 0 (inp ! 0) mod push_bit 23 1,
      drop_bit 23 (inp ! 0) OR push_bit (23 - 14) (inp ! 1 mod push_bit 14 1),
      drop_bit 14 (inp ! 1) OR push_bit (23 - 5) (inp ! 2 mod push_bit 5 1), drop_bit 5 (inp ! 2) mod push_bit 23 1,
      drop_bit 28 (inp ! 2) OR push_bit (23 - 19) (inp ! 3 mod push_bit 19 1),
      drop_bit 19 (inp ! 3) OR push_bit (23 - 10) (inp ! 4 mod push_bit 10 1),
      drop_bit 10 (inp ! 4) OR push_bit (23 - 1) (inp ! 5 mod push_bit 1 1), drop_bit 1 (inp ! 5) mod push_bit 23 1], 23)"

definition fastunalignedunpack24_8 :: "u32 list \<Rightarrow> u32 list \<times> nat" where
  "fastunalignedunpack24_8 inp =
    ([drop_bit 0 (inp ! 0) mod push_bit 24 1,
      drop_bit 24 (inp ! 0) OR push_bit (24 - 16) (inp ! 1 mod push_bit 16 1),
      drop_bit 16 (inp ! 1) OR push_bit (24 - 8) (inp ! 2 mod push_bit 8 1), drop_bit 8 (inp ! 2),
      drop_bit 0 (inp ! 3) mod push_bit 24 1,
      drop_bit 24 (inp ! 3) OR push_bit (24 - 16) (inp ! 4 mod push_bit 16 1),
      drop_bit 16 (inp ! 4) OR push_bit (24 - 8) (inp ! 5 mod push_bit 8 1), drop_bit 8 (inp ! 5)], 24)"

definition fastunalignedunpack25_8 :: "u32 list \<Rightarrow> u32 list \<times> nat" where
  "fastunalignedunpack25_8 inp =
    ([drop_bit 0 (inp ! 0) mod push_bit 25 1,
      drop_bit 25 (inp ! 0) OR push_bit (25 - 18) (inp ! 1 mod push_bit 18 1),
      drop_bit 18 (inp ! 1) OR push_bit (25 - 11) (inp ! 2 mod push_bit 11 1),
      drop_bit 11 (inp ! 2) OR push_bit (25 - 4) (inp ! 3 mod push_bit 4 1), drop_bit 4 (inp ! 3) mod push_bit 25 1,
      drop_bit 29 (inp ! 3) OR push_bit (25 - 22) (inp ! 4 mod push_bit 22 1),
      drop_bit 22 (inp ! 4) OR push_bit (25 - 15) (inp ! 5 mod push_bit 15 1),
      drop_bit 15 (inp ! 5) OR push_bit (25 - 8) (inp ! 6 mod push_bit 8 1)], 25)"

definition fastunalignedunpack26_8 :: "u32 list \<Rightarrow> u32 list \<times> nat" where
  "fastunalignedunpack26_8 inp =
    ([drop_bit 0 (inp ! 0) mod push_bit 26 1,
      drop_bit 26 (inp ! 0) OR push_bit (26 - 20) (inp ! 1 mod push_bit 20 1),
      drop_bit 20 (inp ! 1) OR push_bit (26 - 14) (inp ! 2 mod push_bit 14 1),
      drop_bit 14 (inp ! 2) OR push_bit (26 - 8) (inp ! 3 mod push_bit 8 1),
      drop_bit 8 (inp ! 3) OR push_bit (26 - 2) (inp ! 4 mod push_bit 2 1), drop_bit 2 (inp ! 4) mod push_bit 26 1,
      drop_bit 28 (inp ! 4) OR push_bit (26 - 22) (inp ! 5 mod push_bit 22 1),
      drop_bit 22 (inp ! 5) OR push_bit (26 - 16) (inp ! 6 mod push_bit 16 1)], 26)"

definition fastunalignedunpack27_8 :: "u32 list \<Rightarrow> u32 list \<times> nat" where
  "fastunalignedunpack27_8 inp =
    ([drop_bit 0 (inp ! 0) mod push_bit 27 1,
      drop_bit 27 (inp ! 0) OR push_bit (27 - 22) (inp ! 1 mod push_bit 22 1),
      drop_bit 22 (inp ! 1) OR push_bit (27 - 17) (inp ! 2 mod push_bit 17 1),
      drop_bit 17 (inp ! 2) OR push_bit (27 - 12) (inp ! 3 mod push_bit 12 1),
      drop_bit 12 (inp ! 3) OR push_bit (27 - 7) (inp ! 4 mod push_bit 7 1),
      drop_bit 7 (inp ! 4) OR push_bit (27 - 2) (inp ! 5 mod push_bit 2 1), drop_bit 2 (inp ! 5) mod push_bit 27 1,
      drop_bit 29 (inp ! 5) OR push_bit (27 - 24) (inp ! 6 mod push_bit 24 1)], 27)"

definition fastunalignedunpack28_8 :: "u32 list \<Rightarrow> u32 list \<times> nat" where
  "fastunalignedunpack28_8 inp =
    ([drop_bit 0 (inp ! 0) mod push_bit 28 1,
      drop_bit 28 (inp ! 0) OR push_bit (28 - 24) (inp ! 1 mod push_bit 24 1),
      drop_bit 24 (inp ! 1) OR push_bit (28 - 20) (inp ! 2 mod push_bit 20 1),
      drop_bit 20 (inp ! 2) OR push_bit (28 - 16) (inp ! 3 mod push_bit 16 1),
      drop_bit 16 (inp ! 3) OR push_bit (28 - 12) (inp ! 4 mod push_bit 12 1),
      drop_bit 12 (inp ! 4) OR push_bit (28 - 8) (inp ! 5 mod push_bit 8 1),
      drop_bit 8 (inp ! 5) OR push_bit (28 - 4) (inp ! 6 mod push_bit 4 1), drop_bit 4 (inp ! 6)], 28)"

definition fastunalignedunpack29_8 :: "u32 list \<Rightarrow> u32 list \<times> nat" where
  "fastunalignedunpack29_8 inp =
    ([drop_bit 0 (inp ! 0) mod push_bit 29 1,
      drop_bit 29 (inp ! 0) OR push_bit (29 - 26) (inp ! 1 mod push_bit 26 1),
      drop_bit 26 (inp ! 1) OR push_bit (29 - 23) (inp ! 2 mod push_bit 23 1),
      drop_bit 23 (inp ! 2) OR push_bit (29 - 20) (inp ! 3 mod push_bit 20 1),
      drop_bit 20 (inp ! 3) OR push_bit (29 - 17) (inp ! 4 mod push_bit 17 1),
      drop_bit 17 (inp ! 4) OR push_bit (29 - 14) (inp ! 5 mod push_bit 14 1),
      drop_bit 14 (inp ! 5) OR push_bit (29 - 11) (inp ! 6 mod push_bit 11 1),
      drop_bit 11 (inp ! 6) OR push_bit (29 - 8) (inp ! 7 mod push_bit 8 1)], 29)"

definition fastunalignedunpack30_8 :: "u32 list \<Rightarrow> u32 list \<times> nat" where
  "fastunalignedunpack30_8 inp =
    ([drop_bit 0 (inp ! 0) mod push_bit 30 1,
      drop_bit 30 (inp ! 0) OR push_bit (30 - 28) (inp ! 1 mod push_bit 28 1),
      drop_bit 28 (inp ! 1) OR push_bit (30 - 26) (inp ! 2 mod push_bit 26 1),
      drop_bit 26 (inp ! 2) OR push_bit (30 - 24) (inp ! 3 mod push_bit 24 1),
      drop_bit 24 (inp ! 3) OR push_bit (30 - 22) (inp ! 4 mod push_bit 22 1),
      drop_bit 22 (inp ! 4) OR push_bit (30 - 20) (inp ! 5 mod push_bit 20 1),
      drop_bit 20 (inp ! 5) OR push_bit (30 - 18) (inp ! 6 mod push_bit 18 1),
      drop_bit 18 (inp ! 6) OR push_bit (30 - 16) (inp ! 7 mod push_bit 16 1)], 30)"

definition fastunalignedunpack31_8 :: "u32 list \<Rightarrow> u32 list \<times> nat" where
  "fastunalignedunpack31_8 inp =
    ([drop_bit 0 (inp ! 0) mod push_bit 31 1,
      drop_bit 31 (inp ! 0) OR push_bit (31 - 30) (inp ! 1 mod push_bit 30 1),
      drop_bit 30 (inp ! 1) OR push_bit (31 - 29) (inp ! 2 mod push_bit 29 1),
      drop_bit 29 (inp ! 2) OR push_bit (31 - 28) (inp ! 3 mod push_bit 28 1),
      drop_bit 28 (inp ! 3) OR push_bit (31 - 27) (inp ! 4 mod push_bit 27 1),
      drop_bit 27 (inp ! 4) OR push_bit (31 - 26) (inp ! 5 mod push_bit 26 1),
      drop_bit 26 (inp ! 5) OR push_bit (31 - 25) (inp ! 6 mod push_bit 25 1),
      drop_bit 25 (inp ! 6) OR push_bit (31 - 24) (inp ! 7 mod push_bit 24 1)], 31)"

definition fastunalignedunpack32_8 :: "u32 list \<Rightarrow> u32 list \<times> nat" where
  "fastunalignedunpack32_8 inp =
    ([drop_bit 0 (inp ! 0), drop_bit 0 (inp ! 1), drop_bit 0 (inp ! 2), drop_bit 0 (inp ! 3), drop_bit 0 (inp ! 4),
      drop_bit 0 (inp ! 5), drop_bit 0 (inp ! 6), drop_bit 0 (inp ! 7)], 32)"

definition fastunalignedpackwithoutmask1_8 :: "u32 list \<Rightarrow> u32 list \<times> nat" where
  "fastunalignedpackwithoutmask1_8 inp =
    ([accum (inp ! 0)
        [push_bit 1 (inp ! 1), push_bit 2 (inp ! 2), push_bit 3 (inp ! 3), push_bit 4 (inp ! 4), push_bit 5 (inp ! 5),
         push_bit 6 (inp ! 6), push_bit 7 (inp ! 7)]], 1)"

definition fastunalignedpackwithoutmask2_8 :: "u32 list \<Rightarrow> u32 list \<times> nat" where
  "fastunalignedpackwithoutmask2_8 inp =
    ([accum (inp ! 0)
        [push_bit 2 (inp ! 1), push_bit 4 (inp ! 2), push_bit 6 (inp ! 3), push_bit 8 (inp ! 4), push_bit 10 (inp ! 5),
         push_bit 12 (inp ! 6), push_bit 14 (inp ! 7)]], 2)"

definition fastunalignedpackwithoutmask3_8 :: "u32 list \<Rightarrow> u32 list \<times> nat" where
  "fastunalignedpackwithoutmask3_8 inp =
    ([accum (inp ! 0)
        [push_bit 3 (inp ! 1), push_bit 6 (inp ! 2), push_bit 9 (inp ! 3), push_bit 12 (inp ! 4), push_bit 15 (inp ! 5),
         push_bit 18 (inp ! 6), push_bit 21 (inp ! 7)]], 3)"

definition fastunalignedpackwithoutmask4_8 :: "u32 list \<Rightarrow> u32 list \<times> nat" where
  "fastunalignedpackwithoutmask4_8 inp =
    ([accum (inp ! 0)
        [push_bit 4 (inp ! 1), push_bit 8 (inp ! 2), push_bit 12 (inp ! 3), push_bit 16 (inp ! 4),
         push_bit 20 (inp ! 5), push_bit 24 (inp ! 6), push_bit 28 (inp ! 7)]], 4)"

definition fastunalignedpackwithoutmask5_8 :: "u32 list \<Rightarrow> u32 list \<times> nat" where
  "fastunalignedpackwithoutmask5_8 inp =
    ([accum (inp ! 0)
        [push_bit 5 (inp ! 1), push_bit 10 (inp ! 2), push_bit 15 (inp ! 3), push_bit 20 (inp ! 4),
         push_bit 25 (inp ! 5), push_bit 30 (inp ! 6)],
      accum (drop_bit (5 - 3) (inp ! 6))
        [push_bit 3 (inp ! 7)]], 5)"

definition fastunalignedpackwithoutmask6_8 :: "u32 list \<Rightarrow> u32 list \<times> nat" where
  "fastunalignedpackwithoutmask6_8 inp =
    ([accum (inp ! 0)
        [push_bit 6 (inp ! 1), push_bit 12 (inp ! 2), push_bit 18 (inp ! 3), push_bit 24 (inp ! 4), push_bit 30 (inp ! 5)],
      accum (drop_bit (6 - 4) (inp ! 5))
        [push_bit 4 (inp ! 6), push_bit 10 (inp ! 7)]], 6)"

definition fastunalignedpackwithoutmask7_8 :: "u32 list \<Rightarrow> u32 list \<times> nat" where
  "fastunalignedpackwithoutmask7_8 inp =
    ([accum (inp ! 0)
        [push_bit 7 (inp ! 1), push_bit 14 (inp ! 2), push_bit 21 (inp ! 3), push_bit 28 (inp ! 4)],
      accum (drop_bit (7 - 3) (inp ! 4))
        [push_bit 3 (inp ! 5), push_bit 10 (inp ! 6), push_bit 17 (inp ! 7)]], 7)"

definition fastunalignedpackwithoutmask8_8 :: "u32 list \<Rightarrow> u32 list \<times> nat" where
  "fastunalignedpackwithoutmask8_8 inp =
    ([accum (inp ! 0)
        [push_bit 8 (inp ! 1), push_bit 16 (inp ! 2), push_bit 24 (inp ! 3)],
      accum (inp ! 4)
        [push_bit 8 (inp ! 5), push_bit 16 (inp ! 6), push_bit 24 (inp ! 7)]], 8)"

definition fastunalignedpackwithoutmask9_8 :: "u32 list \<Rightarrow> u32 list \<times> nat" where
  "fastunalignedpackwithoutmask9_8 inp =
    ([accum (inp ! 0)
        [push_bit 9 (inp ! 1), push_bit 18 (inp ! 2), push_bit 27 (inp ! 3)],
      accum (drop_bit (9 - 4) (inp ! 3))
        [push_bit 4 (inp ! 4), push_bit 13 (inp ! 5), push_bit 22 (inp ! 6), push_bit 31 (inp ! 7)],
      accum (drop_bit (9 - 8) (inp ! 7)) []], 9)"

definition fastunalignedpackwithoutmask10_8 :: "u32 list \<Rightarrow> u32 list \<times> nat" where
  "fastunalignedpackwithoutmask10_8 inp =
    ([accum (inp ! 0)
        [push_bit 10 (inp ! 1), push_bit 20 (inp ! 2), push_bit 30 (inp ! 3)],
      accum (drop_bit (10 - 8) (inp ! 3))
        [push_bit 8 (inp ! 4), push_bit 18 (inp ! 5), push_bit 28 (inp ! 6)],
      accum (drop_bit (10 - 6) (inp ! 6))
        [push_bit 6 (inp ! 7)]], 10)"

definition fastunalignedpackwithoutmask11_8 :: "u32 list \<Rightarrow> u32 list \<times> nat" where
  "fastunalignedpackwithoutmask11_8 inp =
    ([accum (inp ! 0)
        [push_bit 11 (inp ! 1), push_bit 22 (inp ! 2)],
      accum (drop_bit (11 - 1) (inp ! 2))
        [push_bit 1 (inp ! 3), push_bit 12 (inp ! 4), push_bit 23 (inp ! 5)],
      accum (drop_bit (11 - 2) (inp ! 5))
        [push_bit 2 (inp ! 6), push_bit 13 (inp ! 7)]], 11)"

definition fastunalignedpackwithoutmask12_8 :: "u32 list \<Rightarrow> u32 list \<times> nat" where
  "fastunalignedpackwithoutmask12_8 inp =
    ([accum (inp ! 0)
        [push_bit 12 (inp ! 1), push_bit 24 (inp ! 2)],
      accum (drop_bit (12 - 4) (inp ! 2))
        [push_bit 4 (inp ! 3), push_bit 16 (inp ! 4), push_bit 28 (inp ! 5)],
      accum (drop_bit (12 - 8) (inp ! 5))
        [push_bit 8 (inp ! 6), push_bit 20 (inp ! 7)]], 12)"

definition fastunalignedpackwithoutmask13_8 :: "u32 list \<Rightarrow> u32 list \<times> nat" where
  "fastunalignedpackwithoutmask13_8 inp =
    ([accum (inp ! 0)
        [push_bit 13 (inp ! 1), push_bit 26 (inp ! 2)],
      accum (drop_bit (13 - 7) (inp ! 2))
        [push_bit 7 (inp ! 3), push_bit 20 (inp ! 4)],
      accum (drop_bit (13 - 1) (inp ! 4))
        [push_bit 1 (inp ! 5), push_bit 14 (inp ! 6), push_bit 27 (inp ! 7)],
      accum (drop_bit (13 - 8) (inp ! 7)) []], 13)"

definition fastunalignedpackwithoutmask14_8 :: "u32 list \<Rightarrow> u32 list \<times> nat" where
  "fastunalignedpackwithoutmask14_8 inp =
    ([accum (inp ! 0)
        [push_bit 14 (inp ! 1), push_bit 28 (inp ! 2)],
      accum (drop_bit (14 - 10) (inp ! 2))
        [push_bit 10 (inp ! 3), push_bit 24 (inp ! 4)],
      accum (drop_bit (14 - 6) (inp ! 4))
        [push_bit 6 (inp ! 5), push_bit 20 (inp ! 6)],
      accum (drop_bit (14 - 2) (inp ! 6))
        [push_bit 2 (inp ! 7)]], 14)"

definition fastunalignedpackwithoutmask15_8 :: "u32 list \<Rightarrow> u32 list \<times> nat" where
  "fastunalignedpackwithoutmask15_8 inp =
    ([accum (inp ! 0)
        [push_bit 15 (inp ! 1), push_bit 30 (inp ! 2)],
      accum (drop_bit (15 - 13) (inp ! 2))
        [push_bit 13 (inp ! 3), push_bit 28 (inp ! 4)],
      accum (drop_bit (15 - 11) (inp ! 4))
        [push_bit 11 (inp ! 5), push_bit 26 (inp ! 6)],
      accum (drop_bit (15 - 9) (inp ! 6))
        [push_bit 9 (inp ! 7)]], 15)"

definition fastunalignedpackwithoutmask16_8 :: "u32 list \<Rightarrow> u32 list \<times> nat" where
  "fastunalignedpackwithoutmask16_8 inp =
    ([accum (inp ! 0)
        [push_bit 16 (inp ! 1)],
      accum (inp ! 2)
        [push_bit 16 (inp ! 3)],
      accum (inp ! 4)
        [push_bit 16 (inp ! 5)],
      accum (inp ! 6)
        [push_bit 16 (inp ! 7)]], 16)"

definition fastunalignedpackwithoutmask17_8 :: "u32 list \<Rightarrow> u32 list \<times> nat" where
  "fastunalignedpackwithoutmask17_8 inp =
    ([accum (inp ! 0)
        [push_bit 17 (inp ! 1)],
      accum (drop_bit (17 - 2) (inp ! 1))
        [push_bit 2 (inp ! 2), push_bit 19 (inp ! 3)],
      accum (drop_bit (17 - 4) (inp ! 3))
        [push_bit 4 (inp ! 4), push_bit 21 (inp ! 5)],
      accum (drop_bit (17 - 6) (inp ! 5))
        [push_bit 6 (inp ! 6), push_bit 23 (inp ! 7)],
      accum (drop_bit (17 - 8) (inp ! 7)) []], 17)"

definition fastunalignedpackwithoutmask18_8 :: "u32 list \<Rightarrow> u32 list \<times> nat" where
  "fastunalignedpackwithoutmask18_8 inp =
    ([accum (inp ! 0)
        [push_bit 18 (inp ! 1)],
      accum (drop_bit (18 - 4) (inp ! 1))
        [push_bit 4 (inp ! 2), push_bit 22 (inp ! 3)],
      accum (drop_bit (18 - 8) (inp ! 3))
        [push_bit 8 (inp ! 4), push_bit 26 (inp ! 5)],
      accum (drop_bit (18 - 12) (inp ! 5))
        [push_bit 12 (inp ! 6), push_bit 30 (inp ! 7)],
      accum (drop_bit (18 - 16) (inp ! 7)) []], 18)"

definition fastunalignedpackwithoutmask19_8 :: "u32 list \<Rightarrow> u32 list \<times> nat" where
  "fastunalignedpackwithoutmask19_8 inp =
    ([accum (inp ! 0)
        [push_bit 19 (inp ! 1)],
      accum (drop_bit (19 - 6) (inp ! 1))
        [push_bit 6 (inp ! 2), push_bit 25 (inp ! 3)],
      accum (drop_bit (19 - 12) (inp ! 3))
        [push_bit 12 (inp ! 4), push_bit 31 (inp ! 5)],
      accum (drop_bit (19 - 18) (inp ! 5))
        [push_bit 18 (inp ! 6)],
      accum (drop_bit (19 - 5) (inp ! 6))
        [push_bit 5 (inp ! 7)]], 19)"

definition fastunalignedpackwithoutmask20_8 :: "u32 list \<Rightarrow> u32 list \<times> nat" where
  "fastunalignedpackwithoutmask20_8 inp =
    ([accum (inp ! 0)
        [push_bit 20 (inp ! 1)],
      accum (drop_bit (20 - 8) (inp ! 1))
        [push_bit 8 (inp ! 2), push_bit 28 (inp ! 3)],
      accum (drop_bit (20 - 16) (inp ! 3))
        [push_bit 16 (inp ! 4)],
      accum (drop_bit (20 - 4) (inp ! 4))
        [push_bit 4 (inp ! 5), push_bit 24 (inp ! 6)],
      accum (drop_bit (20 - 12) (inp ! 6))
        [push_bit 12 (inp ! 7)]], 20)"

definition fastunalignedpackwithoutmask21_8 :: "u32 list \<Rightarrow> u32 list \<times> nat" where
  "fastunalignedpackwithoutmask21_8 inp =
    ([accum (inp ! 0)
        [push_bit 21 (inp ! 1)],
      accum (drop_bit (21 - 10) (inp ! 1))
        [push_bit 10 (inp ! 2), push_bit 31 (inp ! 3)],
      accum (drop_bit (21 - 20) (inp ! 3))
        [push_bit 20 (inp ! 4)],
      accum (drop_bit (21 - 9) (inp ! 4))
        [push_bit 9 (inp ! 5), push_bit 30 (inp ! 6)],
      accum (drop_bit (21 - 19) (inp ! 6))
        [push_bit 19 (inp ! 7)],
      accum (drop_bit (21 - 8) (inp ! 7)) []], 21)"

definition fastunalignedpackwithoutmask22_8 :: "u32 list \<Rightarrow> u32 list \<times> nat" where
  "fastunalignedpackwithoutmask22_8 inp =
    ([accum (inp ! 0)
        [push_bit 22 (inp ! 1)],
      accum (drop_bit (22 - 12) (inp ! 1))
        [push_bit 12 (inp ! 2)],
      accum (drop_bit (22 - 2) (inp ! 2))
        [push_bit 2 (inp ! 3), push_bit 24 (inp ! 4)],
      accum (drop_bit (22 - 14) (inp ! 4))
        [push_bit 14 (inp ! 5)],
      accum (drop_bit (22 - 4) (inp ! 5))
        [push_bit 4 (inp ! 6), push_bit 26 (inp ! 7)],
      accum (drop_bit (22 - 16) (inp ! 7)) []], 22)"

definition fastunalignedpackwithoutmask23_8 :: "u32 list \<Rightarrow> u32 list \<times> nat" where
  "fastunalignedpackwithoutmask23_8 inp =
    ([accum (inp ! 0)
        [push_bit 23 (inp ! 1)],
      accum (drop_bit (23 - 14) (inp ! 1))
        [push_bit 14 (inp ! 2)],
      accum (drop_bit (23 - 5) (inp ! 2))
        [push_bit 5 (inp ! 3), push_bit 28 (inp ! 4)],
      accum (drop_bit (23 - 19) (inp ! 4))
        [push_bit 19 (inp ! 5)],
      accum (drop_bit (23 - 10) (inp ! 5))
        [push_bit 10 (inp ! 6)],
      accum (drop_bit (23 - 1) (inp ! 6))
        [push_bit 1 (inp ! 7)]], 23)"

definition fastunalignedpackwithoutmask24_8 :: "u32 list \<Rightarrow> u32 list \<times> nat" where
  "fastunalignedpackwithoutmask24_8 inp =
    ([accum (inp ! 0)
        [push_bit 24 (inp ! 1)],
      accum (drop_bit (24 - 16) (inp ! 1))
        [push_bit 16 (inp ! 2)],
      accum (drop_bit (24 - 8) (inp ! 2))
        [push_bit 8 (inp ! 3)],
      accum (inp ! 4)
        [push_bit 24 (inp ! 5)],
      accum (drop_bit (24 - 16) (inp ! 5))
        [push_bit 16 (inp ! 6)],
      accum (drop_bit (24 - 8) (inp ! 6))
        [push_bit 8 (inp ! 7)]], 24)"

definition fastunalignedpackwithoutmask25_8 :: "u32 list \<Rightarrow> u32 list \<times> nat" where
  "fastunalignedpackwithoutmask25_8 inp =
    ([accum (inp ! 0)
        [push_bit 25 (inp ! 1)],
      accum (drop_bit (25 - 18) (inp ! 1))
        [push_bit 18 (inp ! 2)],
      accum (drop_bit (25 - 11) (inp ! 2))
        [push_bit 11 (inp ! 3)],
      accum (drop_bit (25 - 4) (inp ! 3))
        [push_bit 4 (inp ! 4), push_bit 29 (inp ! 5)],
      accum (drop_bit (25 - 22) (inp ! 5))
        [push_bit 22 (inp ! 6)],
      accum (drop_bit (25 - 15) (inp ! 6))
        [push_bit 15 (inp ! 7)],
      accum (drop_bit (25 - 8) (inp ! 7)) []], 25)"

definition fastunalignedpackwithoutmask26_8 :: "u32 list \<Rightarrow> u32 list \<times> nat" where
  "fastunalignedpackwithoutmask26_8 inp =
    ([accum (inp ! 0)
        [push_bit 26 (inp ! 1)],
      accum (drop_bit (26 - 20) (inp ! 1))
        [push_bit 20 (inp ! 2)],
      accum (drop_bit (26 - 14) (inp ! 2))
        [push_bit 14 (inp ! 3)],
      accum (drop_bit (26 - 8) (inp ! 3))
        [push_bit 8 (inp ! 4)],
      accum (drop_bit (26 - 2) (inp ! 4))
        [push_bit 2 (inp ! 5), push_bit 28 (inp ! 6)],
      accum (drop_bit (26 - 22) (inp ! 6))
        [push_bit 22 (inp ! 7)],
      accum (drop_bit (26 - 16) (inp ! 7)) []], 26)"

definition fastunalignedpackwithoutmask27_8 :: "u32 list \<Rightarrow> u32 list \<times> nat" where
  "fastunalignedpackwithoutmask27_8 inp =
    ([accum (inp ! 0)
        [push_bit 27 (inp ! 1)],
      accum (drop_bit (27 - 22) (inp ! 1))
        [push_bit 22 (inp ! 2)],
      accum (drop_bit (27 - 17) (inp ! 2))
        [push_bit 17 (inp ! 3)],
      accum (drop_bit (27 - 12) (inp ! 3))
        [push_bit 12 (inp ! 4)],
      accum (drop_bit (27 - 7) (inp ! 4))
        [push_bit 7 (inp ! 5)],
      accum (drop_bit (27 - 2) (inp ! 5))
        [push_bit 2 (inp ! 6), push_bit 29 (inp ! 7)],
      accum (drop_bit (27 - 24) (inp ! 7)) []], 27)"

definition fastunalignedpackwithoutmask28_8 :: "u32 list \<Rightarrow> u32 list \<times> nat" where
  "fastunalignedpackwithoutmask28_8 inp =
    ([accum (inp ! 0)
        [push_bit 28 (inp ! 1)],
      accum (drop_bit (28 - 24) (inp ! 1))
        [push_bit 24 (inp ! 2)],
      accum (drop_bit (28 - 20) (inp ! 2))
        [push_bit 20 (inp ! 3)],
      accum (drop_bit (28 - 16) (inp ! 3))
        [push_bit 16 (inp ! 4)],
      accum (drop_bit (28 - 12) (inp ! 4))
        [push_bit 12 (inp ! 5)],
      accum (drop_bit (28 - 8) (inp ! 5))
        [push_bit 8 (inp ! 6)],
      accum (drop_bit (28 - 4) (inp ! 6))
        [push_bit 4 (inp ! 7)]], 28)"

definition fastunalignedpackwithoutmask29_8 :: "u32 list \<Rightarrow> u32 list \<times> nat" where
  "fastunalignedpackwithoutmask29_8 inp =
    ([accum (inp ! 0)
        [push_bit 29 (inp ! 1)],
      accum (drop_bit (29 - 26) (inp ! 1))
        [push_bit 26 (inp ! 2)],
      accum (drop_bit (29 - 23) (inp ! 2))
        [push_bit 23 (inp ! 3)],
      accum (drop_bit (29 - 20) (inp ! 3))
        [push_bit 20 (inp ! 4)],
      accum (drop_bit (29 - 17) (inp ! 4))
        [push_bit 17 (inp ! 5)],
      accum (drop_bit (29 - 14) (inp ! 5))
        [push_bit 14 (inp ! 6)],
      accum (drop_bit (29 - 11) (inp ! 6))
        [push_bit 11 (inp ! 7)],
      accum (drop_bit (29 - 8) (inp ! 7)) []], 29)"

definition fastunalignedpackwithoutmask30_8 :: "u32 list \<Rightarrow> u32 list \<times> nat" where
  "fastunalignedpackwithoutmask30_8 inp =
    ([accum (inp ! 0)
        [push_bit 30 (inp ! 1)],
      accum (drop_bit (30 - 28) (inp ! 1))
        [push_bit 28 (inp ! 2)],
      accum (drop_bit (30 - 26) (inp ! 2))
        [push_bit 26 (inp ! 3)],
      accum (drop_bit (30 - 24) (inp ! 3))
        [push_bit 24 (inp ! 4)],
      accum (drop_bit (30 - 22) (inp ! 4))
        [push_bit 22 (inp ! 5)],
      accum (drop_bit (30 - 20) (inp ! 5))
        [push_bit 20 (inp ! 6)],
      accum (drop_bit (30 - 18) (inp ! 6))
        [push_bit 18 (inp ! 7)],
      accum (drop_bit (30 - 16) (inp ! 7)) []], 30)"

definition fastunalignedpackwithoutmask31_8 :: "u32 list \<Rightarrow> u32 list \<times> nat" where
  "fastunalignedpackwithoutmask31_8 inp =
    ([accum (inp ! 0)
        [push_bit 31 (inp ! 1)],
      accum (drop_bit (31 - 30) (inp ! 1))
        [push_bit 30 (inp ! 2)],
      accum (drop_bit (31 - 29) (inp ! 2))
        [push_bit 29 (inp ! 3)],
      accum (drop_bit (31 - 28) (inp ! 3))
        [push_bit 28 (inp ! 4)],
      accum (drop_bit (31 - 27) (inp ! 4))
        [push_bit 27 (inp ! 5)],
      accum (drop_bit (31 - 26) (inp ! 5))
        [push_bit 26 (inp ! 6)],
      accum (drop_bit (31 - 25) (inp ! 6))
        [push_bit 25 (inp ! 7)],
      accum (drop_bit (31 - 24) (inp ! 7)) []], 31)"

definition fastunalignedpackwithoutmask32_8 :: "u32 list \<Rightarrow> u32 list \<times> nat" where
  "fastunalignedpackwithoutmask32_8 inp =
    ([accum (inp ! 0) [],
      accum (inp ! 1) [],
      accum (inp ! 2) [],
      accum (inp ! 3) [],
      accum (inp ! 4) [],
      accum (inp ! 5) [],
      accum (inp ! 6) [],
      accum (inp ! 7) []], 32)"

definition fastunalignedbyteunpack1_8 :: "u8 list \<Rightarrow> u8 list" where
  "fastunalignedbyteunpack1_8 inp =
    [drop_bit 0 (inp ! 0) AND 1, drop_bit 1 (inp ! 0) AND 1, drop_bit 2 (inp ! 0) AND 1, drop_bit 3 (inp ! 0) AND 1,
     drop_bit 4 (inp ! 0) AND 1, drop_bit 5 (inp ! 0) AND 1, drop_bit 6 (inp ! 0) AND 1, drop_bit 7 (inp ! 0) AND 1]"

definition fastunalignedbyteunpack2_8 :: "u8 list \<Rightarrow> u8 list" where
  "fastunalignedbyteunpack2_8 inp =
    [drop_bit 0 (inp ! 0) mod push_bit 2 1, drop_bit 2 (inp ! 0) mod push_bit 2 1,
     drop_bit 4 (inp ! 0) mod push_bit 2 1, drop_bit 6 (inp ! 0) mod push_bit 2 1,
     drop_bit 0 (inp ! 1) mod push_bit 2 1, drop_bit 2 (inp ! 1) mod push_bit 2 1,
     drop_bit 4 (inp ! 1) mod push_bit 2 1, drop_bit 6 (inp ! 1) mod push_bit 2 1]"

definition fastunalignedbyteunpack3_8 :: "u8 list \<Rightarrow> u8 list" where
  "fastunalignedbyteunpack3_8 inp =
    [drop_bit 0 (inp ! 0) mod push_bit 3 1, drop_bit 3 (inp ! 0) mod push_bit 3 1,
     drop_bit 6 (inp ! 0) mod push_bit 3 1 OR push_bit (3 - 1) (inp ! 1 mod push_bit 1 1),
     drop_bit 1 (inp ! 1) mod push_bit 3 1, drop_bit 4 (inp ! 1) mod push_bit 3 1,
     drop_bit 7 (inp ! 1) mod push_bit 3 1 OR push_bit (3 - 2) (inp ! 2 mod push_bit 2 1),
     drop_bit 2 (inp ! 2) mod push_bit 3 1, drop_bit 5 (inp ! 2) mod push_bit 3 1]"

definition fastunalignedbyteunpack4_8 :: "u8 list \<Rightarrow> u8 list" where
  "fastunalignedbyteunpack4_8 inp =
    [drop_bit 0 (inp ! 0) mod push_bit 4 1, drop_bit 4 (inp ! 0) mod push_bit 4 1,
     drop_bit 0 (inp ! 1) mod push_bit 4 1, drop_bit 4 (inp ! 1) mod push_bit 4 1,
     drop_bit 0 (inp ! 2) mod push_bit 4 1, drop_bit 4 (inp ! 2) mod push_bit 4 1,
     drop_bit 0 (inp ! 3) mod push_bit 4 1, drop_bit 4 (inp ! 3) mod push_bit 4 1]"

definition fastunalignedbyteunpack5_8 :: "u8 list \<Rightarrow> u8 list" where
  "fastunalignedbyteunpack5_8 inp =
    [drop_bit 0 (inp ! 0) mod push_bit 5 1,
     drop_bit 5 (inp ! 0) mod push_bit 5 1 OR push_bit (5 - 2) (inp ! 1 mod push_bit 2 1),
     drop_bit 2 (inp ! 1) mod push_bit 5 1,
     drop_bit 7 (inp ! 1) mod push_bit 5 1 OR push_bit (5 - 4) (inp ! 2 mod push_bit 4 1),
     drop_bit 4 (inp ! 2) mod push_bit 5 1 OR push_bit (5 - 1) (inp ! 3 mod push_bit 1 1),
     drop_bit 1 (inp ! 3) mod push_bit 5 1,
     drop_bit 6 (inp ! 3) mod push_bit 5 1 OR push_bit (5 - 3) (inp ! 4 mod push_bit 3 1),
     drop_bit 3 (inp ! 4) mod push_bit 5 1]"

definition fastunalignedbyteunpack6_8 :: "u8 list \<Rightarrow> u8 list" where
  "fastunalignedbyteunpack6_8 inp =
    [drop_bit 0 (inp ! 0) mod push_bit 6 1,
     drop_bit 6 (inp ! 0) mod push_bit 6 1 OR push_bit (6 - 4) (inp ! 1 mod push_bit 4 1),
     drop_bit 4 (inp ! 1) mod push_bit 6 1 OR push_bit (6 - 2) (inp ! 2 mod push_bit 2 1),
     drop_bit 2 (inp ! 2) mod push_bit 6 1, drop_bit 0 (inp ! 3) mod push_bit 6 1,
     drop_bit 6 (inp ! 3) mod push_bit 6 1 OR push_bit (6 - 4) (inp ! 4 mod push_bit 4 1),
     drop_bit 4 (inp ! 4) mod push_bit 6 1 OR push_bit (6 - 2) (inp ! 5 mod push_bit 2 1),
     drop_bit 2 (inp ! 5) mod push_bit 6 1]"

definition fastunalignedbyteunpack7_8 :: "u8 list \<Rightarrow> u8 list" where
  "fastunalignedbyteunpack7_8 inp =
    [drop_bit 0 (inp ! 0) mod push_bit 7 1,
     drop_bit 7 (inp ! 0) mod push_bit 7 1 OR push_bit (7 - 6) (inp ! 1 mod push_bit 6 1),
     drop_bit 6 (inp ! 1) mod push_bit 7 1 OR push_bit (7 - 5) (inp ! 2 mod push_bit 5 1),
     drop_bit 5 (inp ! 2) mod push_bit 7 1 OR push_bit (7 - 4) (inp ! 3 mod push_bit 4 1),
     drop_bit 4 (inp ! 3) mod push_bit 7 1 OR push_bit (7 - 3) (inp ! 4 mod push_bit 3 1),
     drop_bit 3 (inp ! 4) mod push_bit 7 1 OR push_bit (7 - 2) (inp ! 5 mod push_bit 2 1),
     drop_bit 2 (inp ! 5) mod push_bit 7 1 OR push_bit (7 - 1) (inp ! 6 mod push_bit 1 1),
     drop_bit 1 (inp ! 6) mod push_bit 7 1]"

definition fastunalignedbyteunpack8_8 :: "u8 list \<Rightarrow> u8 list" where
  "fastunalignedbyteunpack8_8 inp =
    [drop_bit 0 (inp ! 0) mod push_bit 8 1, drop_bit 0 (inp ! 1) mod push_bit 8 1,
     drop_bit 0 (inp ! 2) mod push_bit 8 1, drop_bit 0 (inp ! 3) mod push_bit 8 1,
     drop_bit 0 (inp ! 4) mod push_bit 8 1, drop_bit 0 (inp ! 5) mod push_bit 8 1,
     drop_bit 0 (inp ! 6) mod push_bit 8 1, drop_bit 0 (inp ! 7) mod push_bit 8 1]"

definition fastunalignedbytepackwithoutmask1_8 :: "u8 list \<Rightarrow> u8 list" where
  "fastunalignedbytepackwithoutmask1_8 inp =
    [accum8 (inp ! 0)
       [push_bit 1 (inp ! 1), push_bit 2 (inp ! 2), push_bit 3 (inp ! 3), push_bit 4 (inp ! 4), push_bit 5 (inp ! 5),
        push_bit 6 (inp ! 6), push_bit 7 (inp ! 7)]]"

definition fastunalignedbytepackwithoutmask2_8 :: "u8 list \<Rightarrow> u8 list" where
  "fastunalignedbytepackwithoutmask2_8 inp =
    [accum8 (inp ! 0)
       [push_bit 2 (inp ! 1), push_bit 4 (inp ! 2), push_bit 6 (inp ! 3)],
     accum8 (inp ! 4)
       [push_bit 2 (inp ! 5), push_bit 4 (inp ! 6), push_bit 6 (inp ! 7)]]"

definition fastunalignedbytepackwithoutmask3_8 :: "u8 list \<Rightarrow> u8 list" where
  "fastunalignedbytepackwithoutmask3_8 inp =
    [accum8 (inp ! 0)
       [push_bit 3 (inp ! 1), push_bit 6 (inp ! 2)],
     accum8 (drop_bit (3 - 1) (inp ! 2))
       [push_bit 1 (inp ! 3), push_bit 4 (inp ! 4), push_bit 7 (inp ! 5)],
     accum8 (drop_bit (3 - 2) (inp ! 5))
       [push_bit 2 (inp ! 6), push_bit 5 (inp ! 7)]]"

definition fastunalignedbytepackwithoutmask4_8 :: "u8 list \<Rightarrow> u8 list" where
  "fastunalignedbytepackwithoutmask4_8 inp =
    [accum8 (inp ! 0)
       [push_bit 4 (inp ! 1)],
     accum8 (inp ! 2)
       [push_bit 4 (inp ! 3)],
     accum8 (inp ! 4)
       [push_bit 4 (inp ! 5)],
     accum8 (inp ! 6)
       [push_bit 4 (inp ! 7)]]"

definition fastunalignedbytepackwithoutmask5_8 :: "u8 list \<Rightarrow> u8 list" where
  "fastunalignedbytepackwithoutmask5_8 inp =
    [accum8 (inp ! 0)
       [push_bit 5 (inp ! 1)],
     accum8 (drop_bit (5 - 2) (inp ! 1))
       [push_bit 2 (inp ! 2), push_bit 7 (inp ! 3)],
     accum8 (drop_bit (5 - 4) (inp ! 3))
       [push_bit 4 (inp ! 4)],
     accum8 (drop_bit (5 - 1) (inp ! 4))
       [push_bit 1 (inp ! 5), push_bit 6 (inp ! 6)],
     accum8 (drop_bit (5 - 3) (inp ! 6))
       [push_bit 3 (inp ! 7)]]"

definition fastunalignedbytepackwithoutmask6_8 :: "u8 list \<Rightarrow> u8 list" where
  "fastunalignedbytepackwithoutmask6_8 inp =
    [accum8 (inp ! 0)
       [push_bit 6 (inp ! 1)],
     accum8 (drop_bit (6 - 4) (inp ! 1))
       [push_bit 4 (inp ! 2)],
     accum8 (drop_bit (6 - 2) (inp ! 2))
       [push_bit 2 (inp ! 3)],
     accum8 (inp ! 4)
       [push_bit 6 (inp ! 5)],
     accum8 (drop_bit (6 - 4) (inp ! 5))
       [push_bit 4 (inp ! 6)],
     accum8 (drop_bit (6 - 2) (inp ! 6))
       [push_bit 2 (inp ! 7)]]"

definition fastunalignedbytepackwithoutmask7_8 :: "u8 list \<Rightarrow> u8 list" where
  "fastunalignedbytepackwithoutmask7_8 inp =
    [accum8 (inp ! 0)
       [push_bit 7 (inp ! 1)],
     accum8 (drop_bit (7 - 6) (inp ! 1))
       [push_bit 6 (inp ! 2)],
     accum8 (drop_bit (7 - 5) (inp ! 2))
       [push_bit 5 (inp ! 3)],
     accum8 (drop_bit (7 - 4) (inp ! 3))
       [push_bit 4 (inp ! 4)],
     accum8 (drop_bit (7 - 3) (inp ! 4))
       [push_bit 3 (inp ! 5)],
     accum8 (drop_bit (7 - 2) (inp ! 5))
       [push_bit 2 (inp ! 6)],
     accum8 (drop_bit (7 - 1) (inp ! 6))
       [push_bit 1 (inp ! 7)]]"

definition fastunalignedbytepackwithoutmask8_8 :: "u8 list \<Rightarrow> u8 list" where
  "fastunalignedbytepackwithoutmask8_8 inp =
    [accum8 (inp ! 0) [],
     accum8 (inp ! 1) [],
     accum8 (inp ! 2) [],
     accum8 (inp ! 3) [],
     accum8 (inp ! 4) [],
     accum8 (inp ! 5) [],
     accum8 (inp ! 6) [],
     accum8 (inp ! 7) []]"

definition nullunalignedunpacker16 :: "u32 list \<Rightarrow> u32 list \<times> nat" where
  "nullunalignedunpacker16 inp = (replicate 16 0, 0)"

definition nullbyteunpacker16 :: "u8 list \<Rightarrow> u8 list" where
  "nullbyteunpacker16 inp = replicate 16 0"

definition fastunalignedunpack1_16 :: "u32 list \<Rightarrow> u32 list \<times> nat" where
  "fastunalignedunpack1_16 inp =
    ([drop_bit 0 (inp ! 0) AND 1, drop_bit 1 (inp ! 0) AND 1, drop_bit 2 (inp ! 0) AND 1, drop_bit 3 (inp ! 0) AND 1,
      drop_bit 4 (inp ! 0) AND 1, drop_bit 5 (inp ! 0) AND 1, drop_bit 6 (inp ! 0) AND 1, drop_bit 7 (inp ! 0) AND 1,
      drop_bit 8 (inp ! 0) AND 1, drop_bit 9 (inp ! 0) AND 1, drop_bit 10 (inp ! 0) AND 1,
      drop_bit 11 (inp ! 0) AND 1, drop_bit 12 (inp ! 0) AND 1, drop_bit 13 (inp ! 0) AND 1,
      drop_bit 14 (inp ! 0) AND 1, drop_bit 15 (inp ! 0) AND 1], 2)"

definition fastunalignedunpack2_16 :: "u32 list \<Rightarrow> u32 list \<times> nat" where
  "fastunalignedunpack2_16 inp =
    ([drop_bit 0 (inp ! 0) mod push_bit 2 1, drop_bit 2 (inp ! 0) mod push_bit 2 1,
      drop_bit 4 (inp ! 0) mod push_bit 2 1, drop_bit 6 (inp ! 0) mod push_bit 2 1,
      drop_bit 8 (inp ! 0) mod push_bit 2 1, drop_bit 10 (inp ! 0) mod push_bit 2 1,
      drop_bit 12 (inp ! 0) mod push_bit 2 1, drop_bit 14 (inp ! 0) mod push_bit 2 1,
      drop_bit 16 (inp ! 0) mod push_bit 2 1, drop_bit 18 (inp ! 0) mod push_bit 2 1,
      drop_bit 20 (inp ! 0) mod push_bit 2 1, drop_bit 22 (inp ! 0) mod push_bit 2 1,
      drop_bit 24 (inp ! 0) mod push_bit 2 1, drop_bit 26 (inp ! 0) mod push_bit 2 1,
      drop_bit 28 (inp ! 0) mod push_bit 2 1, drop_bit 30 (inp ! 0)], 4)"

definition fastunalignedunpack3_16 :: "u32 list \<Rightarrow> u32 list \<times> nat" where
  "fastunalignedunpack3_16 inp =
    ([drop_bit 0 (inp ! 0) mod push_bit 3 1, drop_bit 3 (inp ! 0) mod push_bit 3 1,
      drop_bit 6 (inp ! 0) mod push_bit 3 1, drop_bit 9 (inp ! 0) mod push_bit 3 1,
      drop_bit 12 (inp ! 0) mod push_bit 3 1, drop_bit 15 (inp ! 0) mod push_bit 3 1,
      drop_bit 18 (inp ! 0) mod push_bit 3 1, drop_bit 21 (inp ! 0) mod push_bit 3 1,
      drop_bit 24 (inp ! 0) mod push_bit 3 1, drop_bit 27 (inp ! 0) mod push_bit 3 1,
      drop_bit 30 (inp ! 0) OR push_bit (3 - 1) (inp ! 1 mod push_bit 1 1), drop_bit 1 (inp ! 1) mod push_bit 3 1,
      drop_bit 4 (inp ! 1) mod push_bit 3 1, drop_bit 7 (inp ! 1) mod push_bit 3 1,
      drop_bit 10 (inp ! 1) mod push_bit 3 1, drop_bit 13 (inp ! 1) mod push_bit 3 1], 6)"

definition fastunalignedunpack4_16 :: "u32 list \<Rightarrow> u32 list \<times> nat" where
  "fastunalignedunpack4_16 inp =
    ([drop_bit 0 (inp ! 0) mod push_bit 4 1, drop_bit 4 (inp ! 0) mod push_bit 4 1,
      drop_bit 8 (inp ! 0) mod push_bit 4 1, drop_bit 12 (inp ! 0) mod push_bit 4 1,
      drop_bit 16 (inp ! 0) mod push_bit 4 1, drop_bit 20 (inp ! 0) mod push_bit 4 1,
      drop_bit 24 (inp ! 0) mod push_bit 4 1, drop_bit 28 (inp ! 0), drop_bit 0 (inp ! 1) mod push_bit 4 1,
      drop_bit 4 (inp ! 1) mod push_bit 4 1, drop_bit 8 (inp ! 1) mod push_bit 4 1,
      drop_bit 12 (inp ! 1) mod push_bit 4 1, drop_bit 16 (inp ! 1) mod push_bit 4 1,
      drop_bit 20 (inp ! 1) mod push_bit 4 1, drop_bit 24 (inp ! 1) mod push_bit 4 1, drop_bit 28 (inp ! 1)], 8)"

definition fastunalignedunpack5_16 :: "u32 list \<Rightarrow> u32 list \<times> nat" where
  "fastunalignedunpack5_16 inp =
    ([drop_bit 0 (inp ! 0) mod push_bit 5 1, drop_bit 5 (inp ! 0) mod push_bit 5 1,
      drop_bit 10 (inp ! 0) mod push_bit 5 1, drop_bit 15 (inp ! 0) mod push_bit 5 1,
      drop_bit 20 (inp ! 0) mod push_bit 5 1, drop_bit 25 (inp ! 0) mod push_bit 5 1,
      drop_bit 30 (inp ! 0) OR push_bit (5 - 3) (inp ! 1 mod push_bit 3 1), drop_bit 3 (inp ! 1) mod push_bit 5 1,
      drop_bit 8 (inp ! 1) mod push_bit 5 1, drop_bit 13 (inp ! 1) mod push_bit 5 1,
      drop_bit 18 (inp ! 1) mod push_bit 5 1, drop_bit 23 (inp ! 1) mod push_bit 5 1,
      drop_bit 28 (inp ! 1) OR push_bit (5 - 1) (inp ! 2 mod push_bit 1 1), drop_bit 1 (inp ! 2) mod push_bit 5 1,
      drop_bit 6 (inp ! 2) mod push_bit 5 1, drop_bit 11 (inp ! 2) mod push_bit 5 1], 10)"

definition fastunalignedunpack6_16 :: "u32 list \<Rightarrow> u32 list \<times> nat" where
  "fastunalignedunpack6_16 inp =
    ([drop_bit 0 (inp ! 0) mod push_bit 6 1, drop_bit 6 (inp ! 0) mod push_bit 6 1,
      drop_bit 12 (inp ! 0) mod push_bit 6 1, drop_bit 18 (inp ! 0) mod push_bit 6 1,
      drop_bit 24 (inp ! 0) mod push_bit 6 1, drop_bit 30 (inp ! 0) OR push_bit (6 - 4) (inp ! 1 mod push_bit 4 1),
      drop_bit 4 (inp ! 1) mod push_bit 6 1, drop_bit 10 (inp ! 1) mod push_bit 6 1,
      drop_bit 16 (inp ! 1) mod push_bit 6 1, drop_bit 22 (inp ! 1) mod push_bit 6 1,
      drop_bit 28 (inp ! 1) OR push_bit (6 - 2) (inp ! 2 mod push_bit 2 1), drop_bit 2 (inp ! 2) mod push_bit 6 1,
      drop_bit 8 (inp ! 2) mod push_bit 6 1, drop_bit 14 (inp ! 2) mod push_bit 6 1,
      drop_bit 20 (inp ! 2) mod push_bit 6 1, drop_bit 26 (inp ! 2)], 12)"

definition fastunalignedunpack7_16 :: "u32 list \<Rightarrow> u32 list \<times> nat" where
  "fastunalignedunpack7_16 inp =
    ([drop_bit 0 (inp ! 0) mod push_bit 7 1, drop_bit 7 (inp ! 0) mod push_bit 7 1,
      drop_bit 14 (inp ! 0) mod push_bit 7 1, drop_bit 21 (inp ! 0) mod push_bit 7 1,
      drop_bit 28 (inp ! 0) OR push_bit (7 - 3) (inp ! 1 mod push_bit 3 1), drop_bit 3 (inp ! 1) mod push_bit 7 1,
      drop_bit 10 (inp ! 1) mod push_bit 7 1, drop_bit 17 (inp ! 1) mod push_bit 7 1,
      drop_bit 24 (inp ! 1) mod push_bit 7 1, drop_bit 31 (inp ! 1) OR push_bit (7 - 6) (inp ! 2 mod push_bit 6 1),
      drop_bit 6 (inp ! 2) mod push_bit 7 1, drop_bit 13 (inp ! 2) mod push_bit 7 1,
      drop_bit 20 (inp ! 2) mod push_bit 7 1, drop_bit 27 (inp ! 2) OR push_bit (7 - 2) (inp ! 3 mod push_bit 2 1),
      drop_bit 2 (inp ! 3) mod push_bit 7 1, drop_bit 9 (inp ! 3) mod push_bit 7 1], 14)"

definition fastunalignedunpack8_16 :: "u32 list \<Rightarrow> u32 list \<times> nat" where
  "fastunalignedunpack8_16 inp =
    ([drop_bit 0 (inp ! 0) mod push_bit 8 1, drop_bit 8 (inp ! 0) mod push_bit 8 1,
      drop_bit 16 (inp ! 0) mod push_bit 8 1, drop_bit 24 (inp ! 0), drop_bit 0 (inp ! 1) mod push_bit 8 1,
      drop_bit 8 (inp ! 1) mod push_bit 8 1, drop_bit 16 (inp ! 1) mod push_bit 8 1, drop_bit 24 (inp ! 1),
      drop_bit 0 (inp ! 2) mod push_bit 8 1, drop_bit 8 (inp ! 2) mod push_bit 8 1,
      drop_bit 16 (inp ! 2) mod push_bit 8 1, drop_bit 24 (inp ! 2), drop_bit 0 (inp ! 3) mod push_bit 8 1,
      drop_bit 8 (inp ! 3) mod push_bit 8 1, drop_bit 16 (inp ! 3) mod push_bit 8 1, drop_bit 24 (inp ! 3)], 16)"

definition fastunalignedunpack9_16 :: "u32 list \<Rightarrow> u32 list \<times> nat" where
  "fastunalignedunpack9_16 inp =
    ([drop_bit 0 (inp ! 0) mod push_bit 9 1, drop_bit 9 (inp ! 0) mod push_bit 9 1,
      drop_bit 18 (inp ! 0) mod push_bit 9 1, drop_bit 27 (inp ! 0) OR push_bit (9 - 4) (inp ! 1 mod push_bit 4 1),
      drop_bit 4 (inp ! 1) mod push_bit 9 1, drop_bit 13 (inp ! 1) mod push_bit 9 1,
      drop_bit 22 (inp ! 1) mod push_bit 9 1, drop_bit 31 (inp ! 1) OR push_bit (9 - 8) (inp ! 2 mod push_bit 8 1),
      drop_bit 8 (inp ! 2) mod push_bit 9 1, drop_bit 17 (inp ! 2) mod push_bit 9 1,
      drop_bit 26 (inp ! 2) OR push_bit (9 - 3) (inp ! 3 mod push_bit 3 1), drop_bit 3 (inp ! 3) mod push_bit 9 1,
      drop_bit 12 (inp ! 3) mod push_bit 9 1, drop_bit 21 (inp ! 3) mod push_bit 9 1,
      drop_bit 30 (inp ! 3) OR push_bit (9 - 7) (inp ! 4 mod push_bit 7 1), drop_bit 7 (inp ! 4) mod push_bit 9 1], 18)"

definition fastunalignedunpack10_16 :: "u32 list \<Rightarrow> u32 list \<times> nat" where
  "fastunalignedunpack10_16 inp =
    ([drop_bit 0 (inp ! 0) mod push_bit 10 1, drop_bit 10 (inp ! 0) mod push_bit 10 1,
      drop_bit 20 (inp ! 0) mod push_bit 10 1, drop_bit 30 (inp ! 0) OR push_bit (10 - 8) (inp ! 1 mod push_bit 8 1),
      drop_bit 8 (inp ! 1) mod push_bit 10 1, drop_bit 18 (inp ! 1) mod push_bit 10 1,
      drop_bit 28 (inp ! 1) OR push_bit (10 - 6) (inp ! 2 mod push_bit 6 1), drop_bit 6 (inp ! 2) mod push_bit 10 1,
      drop_bit 16 (inp ! 2) mod push_bit 10 1, drop_bit 26 (inp ! 2) OR push_bit (10 - 4) (inp ! 3 mod push_bit 4 1),
      drop_bit 4 (inp ! 3) mod push_bit 10 1, drop_bit 14 (inp ! 3) mod push_bit 10 1,
      drop_bit 24 (inp ! 3) OR push_bit (10 - 2) (inp ! 4 mod push_bit 2 1), drop_bit 2 (inp ! 4) mod push_bit 10 1,
      drop_bit 12 (inp ! 4) mod push_bit 10 1, drop_bit 22 (inp ! 4)], 20)"

definition fastunalignedunpack11_16 :: "u32 list \<Rightarrow> u32 list \<times> nat" where
  "fastunalignedunpack11_16 inp =
    ([drop_bit 0 (inp ! 0) mod push_bit 11 1, drop_bit 11 (inp ! 0) mod push_bit 11 1,
      drop_bit 22 (inp ! 0) OR push_bit (11 - 1) (inp ! 1 mod push_bit 1 1), drop_bit 1 (inp ! 1) mod push_bit 11 1,
      drop_bit 12 (inp ! 1) mod push_bit 11 1, drop_bit 23 (inp ! 1) OR push_bit (11 - 2) (inp ! 2 mod push_bit 2 1),
      drop_bit 2 (inp ! 2) mod push_bit 11 1, drop_bit 13 (inp ! 2) mod push_bit 11 1,
      drop_bit 24 (inp ! 2) OR push_bit (11 - 3) (inp ! 3 mod push_bit 3 1), drop_bit 3 (inp ! 3) mod push_bit 11 1,
      drop_bit 14 (inp ! 3) mod push_bit 11 1, drop_bit 25 (inp ! 3) OR push_bit (11 - 4) (inp ! 4 mod push_bit 4 1),
      drop_bit 4 (inp ! 4) mod push_bit 11 1, drop_bit 15 (inp ! 4) mod push_bit 11 1,
      drop_bit 26 (inp ! 4) OR push_bit (11 - 5) (inp ! 5 mod push_bit 5 1), drop_bit 5 (inp ! 5) mod push_bit 11 1], 22)"

definition fastunalignedunpack12_16 :: "u32 list \<Rightarrow> u32 list \<times> nat" where
  "fastunalignedunpack12_16 inp =
    ([drop_bit 0 (inp ! 0) mod push_bit 12 1, drop_bit 12 (inp ! 0) mod push_bit 12 1,
      drop_bit 24 (inp ! 0) OR push_bit (12 - 4) (inp ! 1 mod push_bit 4 1), drop_bit 4 (inp ! 1) mod push_bit 12 1,
      drop_bit 16 (inp ! 1) mod push_bit 12 1, drop_bit 28 (inp ! 1) OR push_bit (12 - 8) (inp ! 2 mod push_bit 8 1),
      drop_bit 8 (inp ! 2) mod push_bit 12 1, drop_bit 20 (inp ! 2), drop_bit 0 (inp ! 3) mod push_bit 12 1,
      drop_bit 12 (inp ! 3) mod push_bit 12 1, drop_bit 24 (inp ! 3) OR push_bit (12 - 4) (inp ! 4 mod push_bit 4 1),
      drop_bit 4 (inp ! 4) mod push_bit 12 1, drop_bit 16 (inp ! 4) mod push_bit 12 1,
      drop_bit 28 (inp ! 4) OR push_bit (12 - 8) (inp ! 5 mod push_bit 8 1), drop_bit 8 (inp ! 5) mod push_bit 12 1,
      drop_bit 20 (inp ! 5)], 24)"

definition fastunalignedunpack13_16 :: "u32 list \<Rightarrow> u32 list \<times> nat" where
  "fastunalignedunpack13_16 inp =
    ([drop_bit 0 (inp ! 0) mod push_bit 13 1, drop_bit 13 (inp ! 0) mod push_bit 13 1,
      drop_bit 26 (inp ! 0) OR push_bit (13 - 7) (inp ! 1 mod push_bit 7 1), drop_bit 7 (inp ! 1) mod push_bit 13 1,
      drop_bit 20 (inp ! 1) OR push_bit (13 - 1) (inp ! 2 mod push_bit 1 1), drop_bit 1 (inp ! 2) mod push_bit 13 1,
      drop_bit 14 (inp ! 2) mod push_bit 13 1, drop_bit 27 (inp ! 2) OR push_bit (13 - 8) (inp ! 3 mod push_bit 8 1),
      drop_bit 8 (inp ! 3) mod push_bit 13 1, drop_bit 21 (inp ! 3) OR push_bit (13 - 2) (inp ! 4 mod push_bit 2 1),
      drop_bit 2 (inp ! 4) mod push_bit 13 1, drop_bit 15 (inp ! 4) mod push_bit 13 1,
      drop_bit 28 (inp ! 4) OR push_bit (13 - 9) (inp ! 5 mod push_bit 9 1), drop_bit 9 (inp ! 5) mod push_bit 13 1,
      drop_bit 22 (inp ! 5) OR push_bit (13 - 3) (inp ! 6 mod push_bit 3 1), drop_bit 3 (inp ! 6) mod push_bit 13 1], 26)"

definition fastunalignedunpack14_16 :: "u32 list \<Rightarrow> u32 list \<times> nat" where
  "fastunalignedunpack14_16 inp =
    ([drop_bit 0 (inp ! 0) mod push_bit 14 1, drop_bit 14 (inp ! 0) mod push_bit 14 1,
      drop_bit 28 (inp ! 0) OR push_bit (14 - 10) (inp ! 1 mod push_bit 10 1),
      drop_bit 10 (inp ! 1) mod push_bit 14 1, drop_bit 24 (inp ! 1) OR push_bit (14 - 6) (inp ! 2 mod push_bit 6 1),
      drop_bit 6 (inp ! 2) mod push_bit 14 1, drop_bit 20 (inp ! 2) OR push_bit (14 - 2) (inp ! 3 mod push_bit 2 1),
      drop_bit 2 (inp ! 3) mod push_bit 14 1, drop_bit 16 (inp ! 3) mod push_bit 14 1,
      drop_bit 30 (inp ! 3) OR push_bit (14 - 12) (inp ! 4 mod push_bit 12 1),
      drop_bit 12 (inp ! 4) mod push_bit 14 1, drop_bit 26 (inp ! 4) OR push_bit (14 - 8) (inp ! 5 mod push_bit 8 1),
      drop_bit 8 (inp ! 5) mod push_bit 14 1, drop_bit 22 (inp ! 5) OR push_bit (14 - 4) (inp ! 6 mod push_bit 4 1),
      drop_bit 4 (inp ! 6) mod push_bit 14 1, drop_bit 18 (inp ! 6)], 28)"

definition fastunalignedunpack15_16 :: "u32 list \<Rightarrow> u32 list \<times> nat" where
  "fastunalignedunpack15_16 inp =
    ([drop_bit 0 (inp ! 0) mod push_bit 15 1, drop_bit 15 (inp ! 0) mod push_bit 15 1,
      drop_bit 30 (inp ! 0) OR push_bit (15 - 13) (inp ! 1 mod push_bit 13 1),
      drop_bit 13 (inp ! 1) mod push_bit 15 1,
      drop_bit 28 (inp ! 1) OR push_bit (15 - 11) (inp ! 2 mod push_bit 11 1),
      drop_bit 11 (inp ! 2) mod push_bit 15 1, drop_bit 26 (inp ! 2) OR push_bit (15 - 9) (inp ! 3 mod push_bit 9 1),
      drop_bit 9 (inp ! 3) mod push_bit 15 1, drop_bit 24 (inp ! 3) OR push_bit (15 - 7) (inp ! 4 mod push_bit 7 1),
      drop_bit 7 (inp ! 4) mod push_bit 15 1, drop_bit 22 (inp ! 4) OR push_bit (15 - 5) (inp ! 5 mod push_bit 5 1),
      drop_bit 5 (inp ! 5) mod push_bit 15 1, drop_bit 20 (inp ! 5) OR push_bit (15 - 3) (inp ! 6 mod push_bit 3 1),
      drop_bit 3 (inp ! 6) mod push_bit 15 1, drop_bit 18 (inp ! 6) OR push_bit (15 - 1) (inp ! 7 mod push_bit 1 1),
      drop_bit 1 (inp ! 7) mod push_bit 15 1], 30)"

definition fastunalignedunpack16_16 :: "u32 list \<Rightarrow> u32 list \<times> nat" where
  "fastunalignedunpack16_16 inp =
    ([drop_bit 0 (inp ! 0) mod push_bit 16 1, drop_bit 16 (inp ! 0), drop_bit 0 (inp ! 1) mod push_bit 16 1,
      drop_bit 16 (inp ! 1), drop_bit 0 (inp ! 2) mod push_bit 16 1, drop_bit 16 (inp ! 2),
      drop_bit 0 (inp ! 3) mod push_bit 16 1, drop_bit 16 (inp ! 3), drop_bit 0 (inp ! 4) mod push_bit 16 1,
      drop_bit 16 (inp ! 4), drop_bit 0 (inp ! 5) mod push_bit 16 1, drop_bit 16 (inp ! 5),
      drop_bit 0 (inp ! 6) mod push_bit 16 1, drop_bit 16 (inp ! 6), drop_bit 0 (inp ! 7) mod push_bit 16 1,
      drop_bit 16 (inp ! 7)], 32)"

definition fastunalignedunpack17_16 :: "u32 list \<Rightarrow> u32 list \<times> nat" where
  "fastunalignedunpack17_16 inp =
    ([drop_bit 0 (inp ! 0) mod push_bit 17 1, drop_bit 17 (inp ! 0) OR push_bit (17 - 2) (inp ! 1 mod push_bit 2 1),
      drop_bit 2 (inp ! 1) mod push_bit 17 1, drop_bit 19 (inp ! 1) OR push_bit (17 - 4) (inp ! 2 mod push_bit 4 1),
      drop_bit 4 (inp ! 2) mod push_bit 17 1, drop_bit 21 (inp ! 2) OR push_bit (17 - 6) (inp ! 3 mod push_bit 6 1),
      drop_bit 6 (inp ! 3) mod push_bit 17 1, drop_bit 23 (inp ! 3) OR push_bit (17 - 8) (inp ! 4 mod push_bit 8 1),
      drop_bit 8 (inp ! 4) mod push_bit 17 1,
      drop_bit 25 (inp ! 4) OR push_bit (17 - 10) (inp ! 5 mod push_bit 10 1),
      drop_bit 10 (inp ! 5) mod push_bit 17 1,
      drop_bit 27 (inp ! 5) OR push_bit (17 - 12) (inp ! 6 mod push_bit 12 1),
      drop_bit 12 (inp ! 6) mod push_bit 17 1,
      drop_bit 29 (inp ! 6) OR push_bit (17 - 14) (inp ! 7 mod push_bit 14 1),
      drop_bit 14 (inp ! 7) mod push_bit 17 1, drop_bit 31 (inp ! 7) OR push_bit (17 - 16) (inp ! 8 mod push_bit 16 1)], 34)"

definition fastunalignedunpack18_16 :: "u32 list \<Rightarrow> u32 list \<times> nat" where
  "fastunalignedunpack18_16 inp =
    ([drop_bit 0 (inp ! 0) mod push_bit 18 1, drop_bit 18 (inp ! 0) OR push_bit (18 - 4) (inp ! 1 mod push_bit 4 1),
      drop_bit 4 (inp ! 1) mod push_bit 18 1, drop_bit 22 (inp ! 1) OR push_bit (18 - 8) (inp ! 2 mod push_bit 8 1),
      drop_bit 8 (inp ! 2) mod push_bit 18 1,
      drop_bit 26 (inp ! 2) OR push_bit (18 - 12) (inp ! 3 mod push_bit 12 1),
      drop_bit 12 (inp ! 3) mod push_bit 18 1,
      drop_bit 30 (inp ! 3) OR push_bit (18 - 16) (inp ! 4 mod push_bit 16 1),
      drop_bit 16 (inp ! 4) OR push_bit (18 - 2) (inp ! 5 mod push_bit 2 1), drop_bit 2 (inp ! 5) mod push_bit 18 1,
      drop_bit 20 (inp ! 5) OR push_bit (18 - 6) (inp ! 6 mod push_bit 6 1), drop_bit 6 (inp ! 6) mod push_bit 18 1,
      drop_bit 24 (inp ! 6) OR push_bit (18 - 10) (inp ! 7 mod push_bit 10 1),
      drop_bit 10 (inp ! 7) mod push_bit 18 1,
      drop_bit 28 (inp ! 7) OR push_bit (18 - 14) (inp ! 8 mod push_bit 14 1), drop_bit 14 (inp ! 8)], 36)"

definition fastunalignedunpack19_16 :: "u32 list \<Rightarrow> u32 list \<times> nat" where
  "fastunalignedunpack19_16 inp =
    ([drop_bit 0 (inp ! 0) mod push_bit 19 1, drop_bit 19 (inp ! 0) OR push_bit (19 - 6) (inp ! 1 mod push_bit 6 1),
      drop_bit 6 (inp ! 1) mod push_bit 19 1,
      drop_bit 25 (inp ! 1) OR push_bit (19 - 12) (inp ! 2 mod push_bit 12 1),
      drop_bit 12 (inp ! 2) mod push_bit 19 1,
      drop_bit 31 (inp ! 2) OR push_bit (19 - 18) (inp ! 3 mod push_bit 18 1),
      drop_bit 18 (inp ! 3) OR push_bit (19 - 5) (inp ! 4 mod push_bit 5 1), drop_bit 5 (inp ! 4) mod push_bit 19 1,
      drop_bit 24 (inp ! 4) OR push_bit (19 - 11) (inp ! 5 mod push_bit 11 1),
      drop_bit 11 (inp ! 5) mod push_bit 19 1,
      drop_bit 30 (inp ! 5) OR push_bit (19 - 17) (inp ! 6 mod push_bit 17 1),
      drop_bit 17 (inp ! 6) OR push_bit (19 - 4) (inp ! 7 mod push_bit 4 1), drop_bit 4 (inp ! 7) mod push_bit 19 1,
      drop_bit 23 (inp ! 7) OR push_bit (19 - 10) (inp ! 8 mod push_bit 10 1),
      drop_bit 10 (inp ! 8) mod push_bit 19 1, drop_bit 29 (inp ! 8) OR push_bit (19 - 16) (inp ! 9 mod push_bit 16 1)], 38)"

definition fastunalignedunpack20_16 :: "u32 list \<Rightarrow> u32 list \<times> nat" where
  "fastunalignedunpack20_16 inp =
    ([drop_bit 0 (inp ! 0) mod push_bit 20 1, drop_bit 20 (inp ! 0) OR push_bit (20 - 8) (inp ! 1 mod push_bit 8 1),
      drop_bit 8 (inp ! 1) mod push_bit 20 1,
      drop_bit 28 (inp ! 1) OR push_bit (20 - 16) (inp ! 2 mod push_bit 16 1),
      drop_bit 16 (inp ! 2) OR push_bit (20 - 4) (inp ! 3 mod push_bit 4 1), drop_bit 4 (inp ! 3) mod push_bit 20 1,
      drop_bit 24 (inp ! 3) OR push_bit (20 - 12) (inp ! 4 mod push_bit 12 1), drop_bit 12 (inp ! 4),
      drop_bit 0 (inp ! 5) mod push_bit 20 1, drop_bit 20 (inp ! 5) OR push_bit (20 - 8) (inp ! 6 mod push_bit 8 1),
      drop_bit 8 (inp ! 6) mod push_bit 20 1,
      drop_bit 28 (inp ! 6) OR push_bit (20 - 16) (inp ! 7 mod push_bit 16 1),
      drop_bit 16 (inp ! 7) OR push_bit (20 - 4) (inp ! 8 mod push_bit 4 1), drop_bit 4 (inp ! 8) mod push_bit 20 1,
      drop_bit 24 (inp ! 8) OR push_bit (20 - 12) (inp ! 9 mod push_bit 12 1), drop_bit 12 (inp ! 9)], 40)"

definition fastunalignedunpack21_16 :: "u32 list \<Rightarrow> u32 list \<times> nat" where
  "fastunalignedunpack21_16 inp =
    ([drop_bit 0 (inp ! 0) mod push_bit 21 1,
      drop_bit 21 (inp ! 0) OR push_bit (21 - 10) (inp ! 1 mod push_bit 10 1),
      drop_bit 10 (inp ! 1) mod push_bit 21 1,
      drop_bit 31 (inp ! 1) OR push_bit (21 - 20) (inp ! 2 mod push_bit 20 1),
      drop_bit 20 (inp ! 2) OR push_bit (21 - 9) (inp ! 3 mod push_bit 9 1), drop_bit 9 (inp ! 3) mod push_bit 21 1,
      drop_bit 30 (inp ! 3) OR push_bit (21 - 19) (inp ! 4 mod push_bit 19 1),
      drop_bit 19 (inp ! 4) OR push_bit (21 - 8) (inp ! 5 mod push_bit 8 1), drop_bit 8 (inp ! 5) mod push_bit 21 1,
      drop_bit 29 (inp ! 5) OR push_bit (21 - 18) (inp ! 6 mod push_bit 18 1),
      drop_bit 18 (inp ! 6) OR push_bit (21 - 7) (inp ! 7 mod push_bit 7 1), drop_bit 7 (inp ! 7) mod push_bit 21 1,
      drop_bit 28 (inp ! 7) OR push_bit (21 - 17) (inp ! 8 mod push_bit 17 1),
      drop_bit 17 (inp ! 8) OR push_bit (21 - 6) (inp ! 9 mod push_bit 6 1), drop_bit 6 (inp ! 9) mod push_bit 21 1,
      drop_bit 27 (inp ! 9) OR push_bit (21 - 16) (inp ! 10 mod push_bit 16 1)], 42)"

definition fastunalignedunpack22_16 :: "u32 list \<Rightarrow> u32 list \<times> nat" where
  "fastunalignedunpack22_16 inp =
    ([drop_bit 0 (inp ! 0) mod push_bit 22 1,
      drop_bit 22 (inp ! 0) OR push_bit (22 - 12) (inp ! 1 mod push_bit 12 1),
      drop_bit 12 (inp ! 1) OR push_bit (22 - 2) (inp ! 2 mod push_bit 2 1), drop_bit 2 (inp ! 2) mod push_bit 22 1,
      drop_bit 24 (inp ! 2) OR push_bit (22 - 14) (inp ! 3 mod push_bit 14 1),
      drop_bit 14 (inp ! 3) OR push_bit (22 - 4) (inp ! 4 mod push_bit 4 1), drop_bit 4 (inp ! 4) mod push_bit 22 1,
      drop_bit 26 (inp ! 4) OR push_bit (22 - 16) (inp ! 5 mod push_bit 16 1),
      drop_bit 16 (inp ! 5) OR push_bit (22 - 6) (inp ! 6 mod push_bit 6 1), drop_bit 6 (inp ! 6) mod push_bit 22 1,
      drop_bit 28 (inp ! 6) OR push_bit (22 - 18) (inp ! 7 mod push_bit 18 1),
      drop_bit 18 (inp ! 7) OR push_bit (22 - 8) (inp ! 8 mod push_bit 8 1), drop_bit 8 (inp ! 8) mod push_bit 22 1,
      drop_bit 30 (inp ! 8) OR push_bit (22 - 20) (inp ! 9 mod push_bit 20 1),
      drop_bit 20 (inp ! 9) OR push_bit (22 - 10) (inp ! 10 mod push_bit 10 1), drop_bit 10 (inp ! 10)], 44)"

definition fastunalignedunpack23_16 :: "u32 list \<Rightarrow> u32 list \<times> nat" where
  "fastunalignedunpack23_16 inp =
    ([drop_bit 0 (inp ! 0) mod push_bit 23 1,
      drop_bit 23 (inp ! 0) OR push_bit (23 - 14) (inp ! 1 mod push_bit 14 1),
      drop_bit 14 (inp ! 1) OR push_bit (23 - 5) (inp ! 2 mod push_bit 5 1), drop_bit 5 (inp ! 2) mod push_bit 23 1,
      drop_bit 28 (inp ! 2) OR push_bit (23 - 19) (inp ! 3 mod push_bit 19 1),
      drop_bit 19 (inp ! 3) OR push_bit (23 - 10) (inp ! 4 mod push_bit 10 1),
      drop_bit 10 (inp ! 4) OR push_bit (23 - 1) (inp ! 5 mod push_bit 1 1), drop_bit 1 (inp ! 5) mod push_bit 23 1,
      drop_bit 24 (inp ! 5) OR push_bit (23 - 15) (inp ! 6 mod push_bit 15 1),
      drop_bit 15 (inp ! 6) OR push_bit (23 - 6) (inp ! 7 mod push_bit 6 1), drop_bit 6 (inp ! 7) mod push_bit 23 1,
      drop_bit 29 (inp ! 7) OR push_bit (23 - 20) (inp ! 8 mod push_bit 20 1),
      drop_bit 20 (inp ! 8) OR push_bit (23 - 11) (inp ! 9 mod push_bit 11 1),
      drop_bit 11 (inp ! 9) OR push_bit (23 - 2) (inp ! 10 mod push_bit 2 1),
      drop_bit 2 (inp ! 10) mod push_bit 23 1,
      drop_bit 25 (inp ! 10) OR push_bit (23 - 16) (inp ! 11 mod push_bit 16 1)], 46)"

definition fastunalignedunpack24_16 :: "u32 list \<Rightarrow> u32 list \<times> nat" where
  "fastunalignedunpack24_16 inp =
    ([drop_bit 0 (inp ! 0) mod push_bit 24 1,
      drop_bit 24 (inp ! 0) OR push_bit (24 - 16) (inp ! 1 mod push_bit 16 1),
      drop_bit 16 (inp ! 1) OR push_bit (24 - 8) (inp ! 2 mod push_bit 8 1), drop_bit 8 (inp ! 2),
      drop_bit 0 (inp ! 3) mod push_bit 24 1,
      drop_bit 24 (inp ! 3) OR push_bit (24 - 16) (inp ! 4 mod push_bit 16 1),
      drop_bit 16 (inp ! 4) OR push_bit (24 - 8) (inp ! 5 mod push_bit 8 1), drop_bit 8 (inp ! 5),
      drop_bit 0 (inp ! 6) mod push_bit 24 1,
      drop_bit 24 (inp ! 6) OR push_bit (24 - 16) (inp ! 7 mod push_bit 16 1),
      drop_bit 16 (inp ! 7) OR push_bit (24 - 8) (inp ! 8 mod push_bit 8 1), drop_bit 8 (inp ! 8),
      drop_bit 0 (inp ! 9) mod push_bit 24 1,
      drop_bit 24 (inp ! 9) OR push_bit (24 - 16) (inp ! 10 mod push_bit 16 1),
      drop_bit 16 (inp ! 10) OR push_bit (24 - 8) (inp ! 11 mod push_bit 8 1), drop_bit 8 (inp ! 11)], 48)"

definition fastunalignedunpack25_16 :: "u32 list \<Rightarrow> u32 list \<times> nat" where
  "fastunalignedunpack25_16 inp =
    ([drop_bit 0 (inp ! 0) mod push_bit 25 1,
      drop_bit 25 (inp ! 0) OR push_bit (25 - 18) (inp ! 1 mod push_bit 18 1),
      drop_bit 18 (inp ! 1) OR push_bit (25 - 11) (inp ! 2 mod push_bit 11 1),
      drop_bit 11 (inp ! 2) OR push_bit (25 - 4) (inp ! 3 mod push_bit 4 1), drop_bit 4 (inp ! 3) mod push_bit 25 1,
      drop_bit 29 (inp ! 3) OR push_bit (25 - 22) (inp ! 4 mod push_bit 22 1),
      drop_bit 22 (inp ! 4) OR push_bit (25 - 15) (inp ! 5 mod push_bit 15 1),
      drop_bit 15 (inp ! 5) OR push_bit (25 - 8) (inp ! 6 mod push_bit 8 1),
      drop_bit 8 (inp ! 6) OR push_bit (25 - 1) (inp ! 7 mod push_bit 1 1), drop_bit 1 (inp ! 7) mod push_bit 25 1,
      drop_bit 26 (inp ! 7) OR push_bit (25 - 19) (inp ! 8 mod push_bit 19 1),
      drop_bit 19 (inp ! 8) OR push_bit (25 - 12) (inp ! 9 mod push_bit 12 1),
      drop_bit 12 (inp ! 9) OR push_bit (25 - 5) (inp ! 10 mod push_bit 5 1),
      drop_bit 5 (inp ! 10) mod push_bit 25 1,
      drop_bit 30 (inp ! 10) OR push_bit (25 - 23) (inp ! 11 mod push_bit 23 1),
      drop_bit 23 (inp ! 11) OR push_bit (25 - 16) (inp ! 12 mod push_bit 16 1)], 50)"

definition fastunalignedunpack26_16 :: "u32 list \<Rightarrow> u32 list \<times> nat" where
  "fastunalignedunpack26_16 inp =
    ([drop_bit 0 (inp ! 0) mod push_bit 26 1,
      drop_bit 26 (inp ! 0) OR push_bit (26 - 20) (inp ! 1 mod push_bit 20 1),
      drop_bit 20 (inp ! 1) OR push_bit (26 - 14) (inp ! 2 mod push_bit 14 1),
      drop_bit 14 (inp ! 2) OR push_bit (26 - 8) (inp ! 3 mod push_bit 8 1),
      drop_bit 8 (inp ! 3) OR push_bit (26 - 2) (inp ! 4 mod push_bit 2 1), drop_bit 2 (inp ! 4) mod push_bit 26 1,
      drop_bit 28 (inp ! 4) OR push_bit (26 - 22) (inp ! 5 mod push_bit 22 1),
      drop_bit 22 (inp ! 5) OR push_bit (26 - 16) (inp ! 6 mod push_bit 16 1),
      drop_bit 16 (inp ! 6) OR push_bit (26 - 10) (inp ! 7 mod push_bit 10 1),
      drop_bit 10 (inp ! 7) OR push_bit (26 - 4) (inp ! 8 mod push_bit 4 1), drop_bit 4 (inp ! 8) mod push_bit 26 1,
      drop_bit 30 (inp ! 8) OR push_bit (26 - 24) (inp ! 9 mod push_bit 24 1),
      drop_bit 24 (inp ! 9) OR push_bit (26 - 18) (inp ! 10 mod push_bit 18 1),
      drop_bit 18 (inp ! 10) OR push_bit (26 - 12) (inp ! 11 mod push_bit 12 1),
      drop_bit 12 (inp ! 11) OR push_bit (26 - 6) (inp ! 12 mod push_bit 6 1), drop_bit 6 (inp ! 12)], 52)"

definition fastunalignedunpack27_16 :: "u32 list \<Rightarrow> u32 list \<times> nat" where
  "fastunalignedunpack27_16 inp =
    ([drop_bit 0 (inp ! 0) mod push_bit 27 1,
      drop_bit 27 (inp ! 0) OR push_bit (27 - 22) (inp ! 1 mod push_bit 22 1),
      drop_bit 22 (inp ! 1) OR push_bit (27 - 17) (inp ! 2 mod push_bit 17 1),
      drop_bit 17 (inp ! 2) OR push_bit (27 - 12) (inp ! 3 mod push_bit 12 1),
      drop_bit 12 (inp ! 3) OR push_bit (27 - 7) (inp ! 4 mod push_bit 7 1),
      drop_bit 7 (inp ! 4) OR push_bit (27 - 2) (inp ! 5 mod push_bit 2 1), drop_bit 2 (inp ! 5) mod push_bit 27 1,
      drop_bit 29 (inp ! 5) OR push_bit (27 - 24) (inp ! 6 mod push_bit 24 1),
      drop_bit 24 (inp ! 6) OR push_bit (27 - 19) (inp ! 7 mod push_bit 19 1),
      drop_bit 19 (inp ! 7) OR push_bit (27 - 14) (inp ! 8 mod push_bit 14 1),
      drop_bit 14 (inp ! 8) OR push_bit (27 - 9) (inp ! 9 mod push_bit 9 1),
      drop_bit 9 (inp ! 9) OR push_bit (27 - 4) (inp ! 10 mod push_bit 4 1), drop_bit 4 (inp ! 10) mod push_bit 27 1,
      drop_bit 31 (inp ! 10) OR push_bit (27 - 26) (inp ! 11 mod push_bit 26 1),
      drop_bit 26 (inp ! 11) OR push_bit (27 - 21) (inp ! 12 mod push_bit 21 1),
      drop_bit 21 (inp ! 12) OR push_bit (27 - 16) (inp ! 13 mod push_bit 16 1)], 54)"

definition fastunalignedunpack28_16 :: "u32 list \<Rightarrow> u32 list \<times> nat" where
  "fastunalignedunpack28_16 inp =
    ([drop_bit 0 (inp ! 0) mod push_bit 28 1,
      drop_bit 28 (inp ! 0) OR push_bit (28 - 24) (inp ! 1 mod push_bit 24 1),
      drop_bit 24 (inp ! 1) OR push_bit (28 - 20) (inp ! 2 mod push_bit 20 1),
      drop_bit 20 (inp ! 2) OR push_bit (28 - 16) (inp ! 3 mod push_bit 16 1),
      drop_bit 16 (inp ! 3) OR push_bit (28 - 12) (inp ! 4 mod push_bit 12 1),
      drop_bit 12 (inp ! 4) OR push_bit (28 - 8) (inp ! 5 mod push_bit 8 1),
      drop_bit 8 (inp ! 5) OR push_bit (28 - 4) (inp ! 6 mod push_bit 4 1), drop_bit 4 (inp ! 6),
      drop_bit 0 (inp ! 7) mod push_bit 28 1,
      drop_bit 28 (inp ! 7) OR push_bit (28 - 24) (inp ! 8 mod push_bit 24 1),
      drop_bit 24 (inp ! 8) OR push_bit (28 - 20) (inp ! 9 mod push_bit 20 1),
      drop_bit 20 (inp ! 9) OR push_bit (28 - 16) (inp ! 10 mod push_bit 16 1),
      drop_bit 16 (inp ! 10) OR push_bit (28 - 12) (inp ! 11 mod push_bit 12 1),
      drop_bit 12 (inp ! 11) OR push_bit (28 - 8) (inp ! 12 mod push_bit 8 1),
      drop_bit 8 (inp ! 12) OR push_bit (28 - 4) (inp ! 13 mod push_bit 4 1), drop_bit 4 (inp ! 13)], 56)"

definition fastunalignedunpack29_16 :: "u32 list \<Rightarrow> u32 list \<times> nat" where
  "fastunalignedunpack29_16 inp =
    ([drop_bit 0 (inp ! 0) mod push_bit 29 1,
      drop_bit 29 (inp ! 0) OR push_bit (29 - 26) (inp ! 1 mod push_bit 26 1),
      drop_bit 26 (inp ! 1) OR push_bit (29 - 23) (inp ! 2 mod push_bit 23 1),
      drop_bit 23 (inp ! 2) OR push_bit (29 - 20) (inp ! 3 mod push_bit 20 1),
      drop_bit 20 (inp ! 3) OR push_bit (29 - 17) (inp ! 4 mod push_bit 17 1),
      drop_bit 17 (inp ! 4) OR push_bit (29 - 14) (inp ! 5 mod push_bit 14 1),
      drop_bit 14 (inp ! 5) OR push_bit (29 - 11) (inp ! 6 mod push_bit 11 1),
      drop_bit 11 (inp ! 6) OR push_bit (29 - 8) (inp ! 7 mod push_bit 8 1),
      drop_bit 8 (inp ! 7) OR push_bit (29 - 5) (inp ! 8 mod push_bit 5 1),
      drop_bit 5 (inp ! 8) OR push_bit (29 - 2) (inp ! 9 mod push_bit 2 1), drop_bit 2 (inp ! 9) mod push_bit 29 1,
      drop_bit 31 (inp ! 9) OR push_bit (29 - 28) (inp ! 10 mod push_bit 28 1),
      drop_bit 28 (inp ! 10) OR push_bit (29 - 25) (inp ! 11 mod push_bit 25 1),
      drop_bit 25 (inp ! 11) OR push_bit (29 - 22) (inp ! 12 mod push_bit 22 1),
      drop_bit 22 (inp ! 12) OR push_bit (29 - 19) (inp ! 13 mod push_bit 19 1),
      drop_bit 19 (inp ! 13) OR push_bit (29 - 16) (inp ! 14 mod push_bit 16 1)], 58)"

definition fastunalignedunpack30_16 :: "u32 list \<Rightarrow> u32 list \<times> nat" where
  "fastunalignedunpack30_16 inp =
    ([drop_bit 0 (inp ! 0) mod push_bit 30 1,
      drop_bit 30 (inp ! 0) OR push_bit (30 - 28) (inp ! 1 mod push_bit 28 1),
      drop_bit 28 (inp ! 1) OR push_bit (30 - 26) (inp ! 2 mod push_bit 26 1),
      drop_bit 26 (inp ! 2) OR push_bit (30 - 24) (inp ! 3 mod push_bit 24 1),
      drop_bit 24 (inp ! 3) OR push_bit (30 - 22) (inp ! 4 mod push_bit 22 1),
      drop_bit 22 (inp ! 4) OR push_bit (30 - 20) (inp ! 5 mod push_bit 20 1),
      drop_bit 20 (inp ! 5) OR push_bit (30 - 18) (inp ! 6 mod push_bit 18 1),
      drop_bit 18 (inp ! 6) OR push_bit (30 - 16) (inp ! 7 mod push_bit 16 1),
      drop_bit 16 (inp ! 7) OR push_bit (30 - 14) (inp ! 8 mod push_bit 14 1),
      drop_bit 14 (inp ! 8) OR push_bit (30 - 12) (inp ! 9 mod push_bit 12 1),
      drop_bit 12 (inp ! 9) OR push_bit (30 - 10) (inp ! 10 mod push_bit 10 1),
      drop_bit 10 (inp ! 10) OR push_bit (30 - 8) (inp ! 11 mod push_bit 8 1),
      drop_bit 8 (inp ! 11) OR push_bit (30 - 6) (inp ! 12 mod push_bit 6 1),
      drop_bit 6 (inp ! 12) OR push_bit (30 - 4) (inp ! 13 mod push_bit 4 1),
      drop_bit 4 (inp ! 13) OR push_bit (30 - 2) (inp ! 14 mod push_bit 2 1), drop_bit 2 (inp ! 14)], 60)"

definition fastunalignedunpack31_16 :: "u32 list \<Rightarrow> u32 list \<times> nat" where
  "fastunalignedunpack31_16 inp =
    ([drop_bit 0 (inp ! 0) mod push_bit 31 1,
      drop_bit 31 (inp ! 0) OR push_bit (31 - 30) (inp ! 1 mod push_bit 30 1),
      drop_bit 30 (inp ! 1) OR push_bit (31 - 29) (inp ! 2 mod push_bit 29 1),
      drop_bit 29 (inp ! 2) OR push_bit (31 - 28) (inp ! 3 mod push_bit 28 1),
      drop_bit 28 (inp ! 3) OR push_bit (31 - 27) (inp ! 4 mod push_bit 27 1),
      drop_bit 27 (inp ! 4) OR push_bit (31 - 26) (inp ! 5 mod push_bit 26 1),
      drop_bit 26 (inp ! 5) OR push_bit (31 - 25) (inp ! 6 mod push_bit 25 1),
      drop_bit 25 (inp ! 6) OR push_bit (31 - 24) (inp ! 7 mod push_bit 24 1),
      drop_bit 24 (inp ! 7) OR push_bit (31 - 23) (inp ! 8 mod push_bit 23 1),
      drop_bit 23 (inp ! 8) OR push_bit (31 - 22) (inp ! 9 mod push_bit 22 1),
      drop_bit 22 (inp ! 9) OR push_bit (31 - 21) (inp ! 10 mod push_bit 21 1),
      drop_bit 21 (inp ! 10) OR push_bit (31 - 20) (inp ! 11 mod push_bit 20 1),
      drop_bit 20 (inp ! 11) OR push_bit (31 - 19) (inp ! 12 mod push_bit 19 1),
      drop_bit 19 (inp ! 12) OR push_bit (31 - 18) (inp ! 13 mod push_bit 18 1),
      drop_bit 18 (inp ! 13) OR push_bit (31 - 17) (inp ! 14 mod push_bit 17 1),
      drop_bit 17 (inp ! 14) OR push_bit (31 - 16) (inp ! 15 mod push_bit 16 1)], 62)"

definition fastunalignedunpack32_16 :: "u32 list \<Rightarrow> u32 list \<times> nat" where
  "fastunalignedunpack32_16 inp =
    ([drop_bit 0 (inp ! 0), drop_bit 0 (inp ! 1), drop_bit 0 (inp ! 2), drop_bit 0 (inp ! 3), drop_bit 0 (inp ! 4),
      drop_bit 0 (inp ! 5), drop_bit 0 (inp ! 6), drop_bit 0 (inp ! 7), drop_bit 0 (inp ! 8), drop_bit 0 (inp ! 9),
      drop_bit 0 (inp ! 10), drop_bit 0 (inp ! 11), drop_bit 0 (inp ! 12), drop_bit 0 (inp ! 13),
      drop_bit 0 (inp ! 14), drop_bit 0 (inp ! 15)], 64)"

definition fastunalignedpackwithoutmask1_16 :: "u32 list \<Rightarrow> u32 list \<times> nat" where
  "fastunalignedpackwithoutmask1_16 inp =
    ([accum (inp ! 0)
        [push_bit 1 (inp ! 1), push_bit 2 (inp ! 2), push_bit 3 (inp ! 3), push_bit 4 (inp ! 4), push_bit 5 (inp ! 5),
         push_bit 6 (inp ! 6), push_bit 7 (inp ! 7), push_bit 8 (inp ! 8), push_bit 9 (inp ! 9), push_bit 10 (inp ! 10),
         push_bit 11 (inp ! 11), push_bit 12 (inp ! 12), push_bit 13 (inp ! 13), push_bit 14 (inp ! 14),
         push_bit 15 (inp ! 15)]], 2)"

definition fastunalignedpackwithoutmask2_16 :: "u32 list \<Rightarrow> u32 list \<times> nat" where
  "fastunalignedpackwithoutmask2_16 inp =
    ([accum (inp ! 0)
        [push_bit 2 (inp ! 1), push_bit 4 (inp ! 2), push_bit 6 (inp ! 3), push_bit 8 (inp ! 4), push_bit 10 (inp ! 5),
         push_bit 12 (inp ! 6), push_bit 14 (inp ! 7), push_bit 16 (inp ! 8), push_bit 18 (inp ! 9),
         push_bit 20 (inp ! 10), push_bit 22 (inp ! 11), push_bit 24 (inp ! 12), push_bit 26 (inp ! 13),
         push_bit 28 (inp ! 14), push_bit 30 (inp ! 15)]], 4)"

definition fastunalignedpackwithoutmask3_16 :: "u32 list \<Rightarrow> u32 list \<times> nat" where
  "fastunalignedpackwithoutmask3_16 inp =
    ([accum (inp ! 0)
        [push_bit 3 (inp ! 1), push_bit 6 (inp ! 2), push_bit 9 (inp ! 3), push_bit 12 (inp ! 4), push_bit 15 (inp ! 5),
         push_bit 18 (inp ! 6), push_bit 21 (inp ! 7), push_bit 24 (inp ! 8), push_bit 27 (inp ! 9),
         push_bit 30 (inp ! 10)],
      accum (drop_bit (3 - 1) (inp ! 10))
        [push_bit 1 (inp ! 11), push_bit 4 (inp ! 12), push_bit 7 (inp ! 13), push_bit 10 (inp ! 14),
         push_bit 13 (inp ! 15)]], 6)"

definition fastunalignedpackwithoutmask4_16 :: "u32 list \<Rightarrow> u32 list \<times> nat" where
  "fastunalignedpackwithoutmask4_16 inp =
    ([accum (inp ! 0)
        [push_bit 4 (inp ! 1), push_bit 8 (inp ! 2), push_bit 12 (inp ! 3), push_bit 16 (inp ! 4),
         push_bit 20 (inp ! 5), push_bit 24 (inp ! 6), push_bit 28 (inp ! 7)],
      accum (inp ! 8)
        [push_bit 4 (inp ! 9), push_bit 8 (inp ! 10), push_bit 12 (inp ! 11), push_bit 16 (inp ! 12),
         push_bit 20 (inp ! 13), push_bit 24 (inp ! 14), push_bit 28 (inp ! 15)]], 8)"

definition fastunalignedpackwithoutmask5_16 :: "u32 list \<Rightarrow> u32 list \<times> nat" where
  "fastunalignedpackwithoutmask5_16 inp =
    ([accum (inp ! 0)
        [push_bit 5 (inp ! 1), push_bit 10 (inp ! 2), push_bit 15 (inp ! 3), push_bit 20 (inp ! 4),
         push_bit 25 (inp ! 5), push_bit 30 (inp ! 6)],
      accum (drop_bit (5 - 3) (inp ! 6))
        [push_bit 3 (inp ! 7), push_bit 8 (inp ! 8), push_bit 13 (inp ! 9), push_bit 18 (inp ! 10),
         push_bit 23 (inp ! 11), push_bit 28 (inp ! 12)],
      accum (drop_bit (5 - 1) (inp ! 12))
        [push_bit 1 (inp ! 13), push_bit 6 (inp ! 14), push_bit 11 (inp ! 15)]], 10)"

definition fastunalignedpackwithoutmask6_16 :: "u32 list \<Rightarrow> u32 list \<times> nat" where
  "fastunalignedpackwithoutmask6_16 inp =
    ([accum (inp ! 0)
        [push_bit 6 (inp ! 1), push_bit 12 (inp ! 2), push_bit 18 (inp ! 3), push_bit 24 (inp ! 4), push_bit 30 (inp ! 5)],
      accum (drop_bit (6 - 4) (inp ! 5))
        [push_bit 4 (inp ! 6), push_bit 10 (inp ! 7), push_bit 16 (inp ! 8), push_bit 22 (inp ! 9),
         push_bit 28 (inp ! 10)],
      accum (drop_bit (6 - 2) (inp ! 10))
        [push_bit 2 (inp ! 11), push_bit 8 (inp ! 12), push_bit 14 (inp ! 13), push_bit 20 (inp ! 14),
         push_bit 26 (inp ! 15)]], 12)"

definition fastunalignedpackwithoutmask7_16 :: "u32 list \<Rightarrow> u32 list \<times> nat" where
  "fastunalignedpackwithoutmask7_16 inp =
    ([accum (inp ! 0)
        [push_bit 7 (inp ! 1), push_bit 14 (inp ! 2), push_bit 21 (inp ! 3), push_bit 28 (inp ! 4)],
      accum (drop_bit (7 - 3) (inp ! 4))
        [push_bit 3 (inp ! 5), push_bit 10 (inp ! 6), push_bit 17 (inp ! 7), push_bit 24 (inp ! 8), push_bit 31 (inp ! 9)],
      accum (drop_bit (7 - 6) (inp ! 9))
        [push_bit 6 (inp ! 10), push_bit 13 (inp ! 11), push_bit 20 (inp ! 12), push_bit 27 (inp ! 13)],
      accum (drop_bit (7 - 2) (inp ! 13))
        [push_bit 2 (inp ! 14), push_bit 9 (inp ! 15)]], 14)"

definition fastunalignedpackwithoutmask8_16 :: "u32 list \<Rightarrow> u32 list \<times> nat" where
  "fastunalignedpackwithoutmask8_16 inp =
    ([accum (inp ! 0)
        [push_bit 8 (inp ! 1), push_bit 16 (inp ! 2), push_bit 24 (inp ! 3)],
      accum (inp ! 4)
        [push_bit 8 (inp ! 5), push_bit 16 (inp ! 6), push_bit 24 (inp ! 7)],
      accum (inp ! 8)
        [push_bit 8 (inp ! 9), push_bit 16 (inp ! 10), push_bit 24 (inp ! 11)],
      accum (inp ! 12)
        [push_bit 8 (inp ! 13), push_bit 16 (inp ! 14), push_bit 24 (inp ! 15)]], 16)"

definition fastunalignedpackwithoutmask9_16 :: "u32 list \<Rightarrow> u32 list \<times> nat" where
  "fastunalignedpackwithoutmask9_16 inp =
    ([accum (inp ! 0)
        [push_bit 9 (inp ! 1), push_bit 18 (inp ! 2), push_bit 27 (inp ! 3)],
      accum (drop_bit (9 - 4) (inp ! 3))
        [push_bit 4 (inp ! 4), push_bit 13 (inp ! 5), push_bit 22 (inp ! 6), push_bit 31 (inp ! 7)],
      accum (drop_bit (9 - 8) (inp ! 7))
        [push_bit 8 (inp ! 8), push_bit 17 (inp ! 9), push_bit 26 (inp ! 10)],
      accum (drop_bit (9 - 3) (inp ! 10))
        [push_bit 3 (inp ! 11), push_bit 12 (inp ! 12), push_bit 21 (inp ! 13), push_bit 30 (inp ! 14)],
      accum (drop_bit (9 - 7) (inp ! 14))
        [push_bit 7 (inp ! 15)]], 18)"

definition fastunalignedpackwithoutmask10_16 :: "u32 list \<Rightarrow> u32 list \<times> nat" where
  "fastunalignedpackwithoutmask10_16 inp =
    ([accum (inp ! 0)
        [push_bit 10 (inp ! 1), push_bit 20 (inp ! 2), push_bit 30 (inp ! 3)],
      accum (drop_bit (10 - 8) (inp ! 3))
        [push_bit 8 (inp ! 4), push_bit 18 (inp ! 5), push_bit 28 (inp ! 6)],
      accum (drop_bit (10 - 6) (inp ! 6))
        [push_bit 6 (inp ! 7), push_bit 16 (inp ! 8), push_bit 26 (inp ! 9)],
      accum (drop_bit (10 - 4) (inp ! 9))
        [push_bit 4 (inp ! 10), push_bit 14 (inp ! 11), push_bit 24 (inp ! 12)],
      accum (drop_bit (10 - 2) (inp ! 12))
        [push_bit 2 (inp ! 13), push_bit 12 (inp ! 14), push_bit 22 (inp ! 15)]], 20)"

definition fastunalignedpackwithoutmask11_16 :: "u32 list \<Rightarrow> u32 list \<times> nat" where
  "fastunalignedpackwithoutmask11_16 inp =
    ([accum (inp ! 0)
        [push_bit 11 (inp ! 1), push_bit 22 (inp ! 2)],
      accum (drop_bit (11 - 1) (inp ! 2))
        [push_bit 1 (inp ! 3), push_bit 12 (inp ! 4), push_bit 23 (inp ! 5)],
      accum (drop_bit (11 - 2) (inp ! 5))
        [push_bit 2 (inp ! 6), push_bit 13 (inp ! 7), push_bit 24 (inp ! 8)],
      accum (drop_bit (11 - 3) (inp ! 8))
        [push_bit 3 (inp ! 9), push_bit 14 (inp ! 10), push_bit 25 (inp ! 11)],
      accum (drop_bit (11 - 4) (inp ! 11))
        [push_bit 4 (inp ! 12), push_bit 15 (inp ! 13), push_bit 26 (inp ! 14)],
      accum (drop_bit (11 - 5) (inp ! 14))
        [push_bit 5 (inp ! 15)]], 22)"

definition fastunalignedpackwithoutmask12_16 :: "u32 list \<Rightarrow> u32 list \<times> nat" where
  "fastunalignedpackwithoutmask12_16 inp =
    ([accum (inp ! 0)
        [push_bit 12 (inp ! 1), push_bit 24 (inp ! 2)],
      accum (drop_bit (12 - 4) (inp ! 2))
        [push_bit 4 (inp ! 3), push_bit 16 (inp ! 4), push_bit 28 (inp ! 5)],
      accum (drop_bit (12 - 8) (inp ! 5))
        [push_bit 8 (inp ! 6), push_bit 20 (inp ! 7)],
      accum (inp ! 8)
        [push_bit 12 (inp ! 9), push_bit 24 (inp ! 10)],
      accum (drop_bit (12 - 4) (inp ! 10))
        [push_bit 4 (inp ! 11), push_bit 16 (inp ! 12), push_bit 28 (inp ! 13)],
      accum (drop_bit (12 - 8) (inp ! 13))
        [push_bit 8 (inp ! 14), push_bit 20 (inp ! 15)]], 24)"

definition fastunalignedpackwithoutmask13_16 :: "u32 list \<Rightarrow> u32 list \<times> nat" where
  "fastunalignedpackwithoutmask13_16 inp =
    ([accum (inp ! 0)
        [push_bit 13 (inp ! 1), push_bit 26 (inp ! 2)],
      accum (drop_bit (13 - 7) (inp ! 2))
        [push_bit 7 (inp ! 3), push_bit 20 (inp ! 4)],
      accum (drop_bit (13 - 1) (inp ! 4))
        [push_bit 1 (inp ! 5), push_bit 14 (inp ! 6), push_bit 27 (inp ! 7)],
      accum (drop_bit (13 - 8) (inp ! 7))
        [push_bit 8 (inp ! 8), push_bit 21 (inp ! 9)],
      accum (drop_bit (13 - 2) (inp ! 9))
        [push_bit 2 (inp ! 10), push_bit 15 (inp ! 11), push_bit 28 (inp ! 12)],
      accum (drop_bit (13 - 9) (inp ! 12))
        [push_bit 9 (inp ! 13), push_bit 22 (inp ! 14)],
      accum (drop_bit (13 - 3) (inp ! 14))
        [push_bit 3 (inp ! 15)]], 26)"

definition fastunalignedpackwithoutmask14_16 :: "u32 list \<Rightarrow> u32 list \<times> nat" where
  "fastunalignedpackwithoutmask14_16 inp =
    ([accum (inp ! 0)
        [push_bit 14 (inp ! 1), push_bit 28 (inp ! 2)],
      accum (drop_bit (14 - 10) (inp ! 2))
        [push_bit 10 (inp ! 3), push_bit 24 (inp ! 4)],
      accum (drop_bit (14 - 6) (inp ! 4))
        [push_bit 6 (inp ! 5), push_bit 20 (inp ! 6)],
      accum (drop_bit (14 - 2) (inp ! 6))
        [push_bit 2 (inp ! 7), push_bit 16 (inp ! 8), push_bit 30 (inp ! 9)],
      accum (drop_bit (14 - 12) (inp ! 9))
        [push_bit 12 (inp ! 10), push_bit 26 (inp ! 11)],
      accum (drop_bit (14 - 8) (inp ! 11))
        [push_bit 8 (inp ! 12), push_bit 22 (inp ! 13)],
      accum (drop_bit (14 - 4) (inp ! 13))
        [push_bit 4 (inp ! 14), push_bit 18 (inp ! 15)]], 28)"

definition fastunalignedpackwithoutmask15_16 :: "u32 list \<Rightarrow> u32 list \<times> nat" where
  "fastunalignedpackwithoutmask15_16 inp =
    ([accum (inp ! 0)
        [push_bit 15 (inp ! 1), push_bit 30 (inp ! 2)],
      accum (drop_bit (15 - 13) (inp ! 2))
        [push_bit 13 (inp ! 3), push_bit 28 (inp ! 4)],
      accum (drop_bit (15 - 11) (inp ! 4))
        [push_bit 11 (inp ! 5), push_bit 26 (inp ! 6)],
      accum (drop_bit (15 - 9) (inp ! 6))
        [push_bit 9 (inp ! 7), push_bit 24 (inp ! 8)],
      accum (drop_bit (15 - 7) (inp ! 8))
        [push_bit 7 (inp ! 9), push_bit 22 (inp ! 10)],
      accum (drop_bit (15 - 5) (inp ! 10))
        [push_bit 5 (inp ! 11), push_bit 20 (inp ! 12)],
      accum (drop_bit (15 - 3) (inp ! 12))
        [push_bit 3 (inp ! 13), push_bit 18 (inp ! 14)],
      accum (drop_bit (15 - 1) (inp ! 14))
        [push_bit 1 (inp ! 15)]], 30)"

definition fastunalignedpackwithoutmask16_16 :: "u32 list \<Rightarrow> u32 list \<times> nat" where
  "fastunalignedpackwithoutmask16_16 inp =
    ([accum (inp ! 0)
        [push_bit 16 (inp ! 1)],
      accum (inp ! 2)
        [push_bit 16 (inp ! 3)],
      accum (inp ! 4)
        [push_bit 16 (inp ! 5)],
      accum (inp ! 6)
        [push_bit 16 (inp ! 7)],
      accum (inp ! 8)
        [push_bit 16 (inp ! 9)],
      accum (inp ! 10)
        [push_bit 16 (inp ! 11)],
      accum (inp ! 12)
        [push_bit 16 (inp ! 13)],
      accum (inp ! 14)
        [push_bit 16 (inp ! 15)]], 32)"

definition fastunalignedpackwithoutmask17_16 :: "u32 list \<Rightarrow> u32 list \<times> nat" where
  "fastunalignedpackwithoutmask17_16 inp =
    ([accum (inp ! 0)
        [push_bit 17 (inp ! 1)],
      accum (drop_bit (17 - 2) (inp ! 1))
        [push_bit 2 (inp ! 2), push_bit 19 (inp ! 3)],
      accum (drop_bit (17 - 4) (inp ! 3))
        [push_bit 4 (inp ! 4), push_bit 21 (inp ! 5)],
      accum (drop_bit (17 - 6) (inp ! 5))
        [push_bit 6 (inp ! 6), push_bit 23 (inp ! 7)],
      accum (drop_bit (17 - 8) (inp ! 7))
        [push_bit 8 (inp ! 8), push_bit 25 (inp ! 9)],
      accum (drop_bit (17 - 10) (inp ! 9))
        [push_bit 10 (inp ! 10), push_bit 27 (inp ! 11)],
      accum (drop_bit (17 - 12) (inp ! 11))
        [push_bit 12 (inp ! 12), push_bit 29 (inp ! 13)],
      accum (drop_bit (17 - 14) (inp ! 13))
        [push_bit 14 (inp ! 14), push_bit 31 (inp ! 15)],
      accum (drop_bit (17 - 16) (inp ! 15)) []], 34)"

definition fastunalignedpackwithoutmask18_16 :: "u32 list \<Rightarrow> u32 list \<times> nat" where
  "fastunalignedpackwithoutmask18_16 inp =
    ([accum (inp ! 0)
        [push_bit 18 (inp ! 1)],
      accum (drop_bit (18 - 4) (inp ! 1))
        [push_bit 4 (inp ! 2), push_bit 22 (inp ! 3)],
      accum (drop_bit (18 - 8) (inp ! 3))
        [push_bit 8 (inp ! 4), push_bit 26 (inp ! 5)],
      accum (drop_bit (18 - 12) (inp ! 5))
        [push_bit 12 (inp ! 6), push_bit 30 (inp ! 7)],
      accum (drop_bit (18 - 16) (inp ! 7))
        [push_bit 16 (inp ! 8)],
      accum (drop_bit (18 - 2) (inp ! 8))
        [push_bit 2 (inp ! 9), push_bit 20 (inp ! 10)],
      accum (drop_bit (18 - 6) (inp ! 10))
        [push_bit 6 (inp ! 11), push_bit 24 (inp ! 12)],
      accum (drop_bit (18 - 10) (inp ! 12))
        [push_bit 10 (inp ! 13), push_bit 28 (inp ! 14)],
      accum (drop_bit (18 - 14) (inp ! 14))
        [push_bit 14 (inp ! 15)]], 36)"

definition fastunalignedpackwithoutmask19_16 :: "u32 list \<Rightarrow> u32 list \<times> nat" where
  "fastunalignedpackwithoutmask19_16 inp =
    ([accum (inp ! 0)
        [push_bit 19 (inp ! 1)],
      accum (drop_bit (19 - 6) (inp ! 1))
        [push_bit 6 (inp ! 2), push_bit 25 (inp ! 3)],
      accum (drop_bit (19 - 12) (inp ! 3))
        [push_bit 12 (inp ! 4), push_bit 31 (inp ! 5)],
      accum (drop_bit (19 - 18) (inp ! 5))
        [push_bit 18 (inp ! 6)],
      accum (drop_bit (19 - 5) (inp ! 6))
        [push_bit 5 (inp ! 7), push_bit 24 (inp ! 8)],
      accum (drop_bit (19 - 11) (inp ! 8))
        [push_bit 11 (inp ! 9), push_bit 30 (inp ! 10)],
      accum (drop_bit (19 - 17) (inp ! 10))
        [push_bit 17 (inp ! 11)],
      accum (drop_bit (19 - 4) (inp ! 11))
        [push_bit 4 (inp ! 12), push_bit 23 (inp ! 13)],
      accum (drop_bit (19 - 10) (inp ! 13))
        [push_bit 10 (inp ! 14), push_bit 29 (inp ! 15)],
      accum (drop_bit (19 - 16) (inp ! 15)) []], 38)"

definition fastunalignedpackwithoutmask20_16 :: "u32 list \<Rightarrow> u32 list \<times> nat" where
  "fastunalignedpackwithoutmask20_16 inp =
    ([accum (inp ! 0)
        [push_bit 20 (inp ! 1)],
      accum (drop_bit (20 - 8) (inp ! 1))
        [push_bit 8 (inp ! 2), push_bit 28 (inp ! 3)],
      accum (drop_bit (20 - 16) (inp ! 3))
        [push_bit 16 (inp ! 4)],
      accum (drop_bit (20 - 4) (inp ! 4))
        [push_bit 4 (inp ! 5), push_bit 24 (inp ! 6)],
      accum (drop_bit (20 - 12) (inp ! 6))
        [push_bit 12 (inp ! 7)],
      accum (inp ! 8)
        [push_bit 20 (inp ! 9)],
      accum (drop_bit (20 - 8) (inp ! 9))
        [push_bit 8 (inp ! 10), push_bit 28 (inp ! 11)],
      accum (drop_bit (20 - 16) (inp ! 11))
        [push_bit 16 (inp ! 12)],
      accum (drop_bit (20 - 4) (inp ! 12))
        [push_bit 4 (inp ! 13), push_bit 24 (inp ! 14)],
      accum (drop_bit (20 - 12) (inp ! 14))
        [push_bit 12 (inp ! 15)]], 40)"

definition fastunalignedpackwithoutmask21_16 :: "u32 list \<Rightarrow> u32 list \<times> nat" where
  "fastunalignedpackwithoutmask21_16 inp =
    ([accum (inp ! 0)
        [push_bit 21 (inp ! 1)],
      accum (drop_bit (21 - 10) (inp ! 1))
        [push_bit 10 (inp ! 2), push_bit 31 (inp ! 3)],
      accum (drop_bit (21 - 20) (inp ! 3))
        [push_bit 20 (inp ! 4)],
      accum (drop_bit (21 - 9) (inp ! 4))
        [push_bit 9 (inp ! 5), push_bit 30 (inp ! 6)],
      accum (drop_bit (21 - 19) (inp ! 6))
        [push_bit 19 (inp ! 7)],
      accum (drop_bit (21 - 8) (inp ! 7))
        [push_bit 8 (inp ! 8), push_bit 29 (inp ! 9)],
      accum (drop_bit (21 - 18) (inp ! 9))
        [push_bit 18 (inp ! 10)],
      accum (drop_bit (21 - 7) (inp ! 10))
        [push_bit 7 (inp ! 11), push_bit 28 (inp ! 12)],
      accum (drop_bit (21 - 17) (inp ! 12))
        [push_bit 17 (inp ! 13)],
      accum (drop_bit (21 - 6) (inp ! 13))
        [push_bit 6 (inp ! 14), push_bit 27 (inp ! 15)],
      accum (drop_bit (21 - 16) (inp ! 15)) []], 42)"

definition fastunalignedpackwithoutmask22_16 :: "u32 list \<Rightarrow> u32 list \<times> nat" where
  "fastunalignedpackwithoutmask22_16 inp =
    ([accum (inp ! 0)
        [push_bit 22 (inp ! 1)],
      accum (drop_bit (22 - 12) (inp ! 1))
        [push_bit 12 (inp ! 2)],
      accum (drop_bit (22 - 2) (inp ! 2))
        [push_bit 2 (inp ! 3), push_bit 24 (inp ! 4)],
      accum (drop_bit (22 - 14) (inp ! 4))
        [push_bit 14 (inp ! 5)],
      accum (drop_bit (22 - 4) (inp ! 5))
        [push_bit 4 (inp ! 6), push_bit 26 (inp ! 7)],
      accum (drop_bit (22 - 16) (inp ! 7))
        [push_bit 16 (inp ! 8)],
      accum (drop_bit (22 - 6) (inp ! 8))
        [push_bit 6 (inp ! 9), push_bit 28 (inp ! 10)],
      accum (drop_bit (22 - 18) (inp ! 10))
        [push_bit 18 (inp ! 11)],
      accum (drop_bit (22 - 8) (inp ! 11))
        [push_bit 8 (inp ! 12), push_bit 30 (inp ! 13)],
      accum (drop_bit (22 - 20) (inp ! 13))
        [push_bit 20 (inp ! 14)],
      accum (drop_bit (22 - 10) (inp ! 14))
        [push_bit 10 (inp ! 15)]], 44)"

definition fastunalignedpackwithoutmask23_16 :: "u32 list \<Rightarrow> u32 list \<times> nat" where
  "fastunalignedpackwithoutmask23_16 inp =
    ([accum (inp ! 0)
        [push_bit 23 (inp ! 1)],
      accum (drop_bit (23 - 14) (inp ! 1))
        [push_bit 14 (inp ! 2)],
      accum (drop_bit (23 - 5) (inp ! 2))
        [push_bit 5 (inp ! 3), push_bit 28 (inp ! 4)],
      accum (drop_bit (23 - 19) (inp ! 4))
        [push_bit 19 (inp ! 5)],
      accum (drop_bit (23 - 10) (inp ! 5))
        [push_bit 10 (inp ! 6)],
      accum (drop_bit (23 - 1) (inp ! 6))
        [push_bit 1 (inp ! 7), push_bit 24 (inp ! 8)],
      accum (drop_bit (23 - 15) (inp ! 8))
        [push_bit 15 (inp ! 9)],
      accum (drop_bit (23 - 6) (inp ! 9))
        [push_bit 6 (inp ! 10), push_bit 29 (inp ! 11)],
      accum (drop_bit (23 - 20) (inp ! 11))
        [push_bit 20 (inp ! 12)],
      accum (drop_bit (23 - 11) (inp ! 12))
        [push_bit 11 (inp ! 13)],
      accum (drop_bit (23 - 2) (inp ! 13))
        [push_bit 2 (inp ! 14), push_bit 25 (inp ! 15)],
      accum (drop_bit (23 - 16) (inp ! 15)) []], 46)"

definition fastunalignedpackwithoutmask24_16 :: "u32 list \<Rightarrow> u32 list \<times> nat" where
  "fastunalignedpackwithoutmask24_16 inp =
    ([accum (inp ! 0)
        [push_bit 24 (inp ! 1)],
      accum (drop_bit (24 - 16) (inp ! 1))
        [push_bit 16 (inp ! 2)],
      accum (drop_bit (24 - 8) (inp ! 2))
        [push_bit 8 (inp ! 3)],
      accum (inp ! 4)
        [push_bit 24 (inp ! 5)],
      accum (drop_bit (24 - 16) (inp ! 5))
        [push_bit 16 (inp ! 6)],
      accum (drop_bit (24 - 8) (inp ! 6))
        [push_bit 8 (inp ! 7)],
      accum (inp ! 8)
        [push_bit 24 (inp ! 9)],
      accum (drop_bit (24 - 16) (inp ! 9))
        [push_bit 16 (inp ! 10)],
      accum (drop_bit (24 - 8) (inp ! 10))
        [push_bit 8 (inp ! 11)],
      accum (inp ! 12)
        [push_bit 24 (inp ! 13)],
      accum (drop_bit (24 - 16) (inp ! 13))
        [push_bit 16 (inp ! 14)],
      accum (drop_bit (24 - 8) (inp ! 14))
        [push_bit 8 (inp ! 15)]], 48)"

definition fastunalignedpackwithoutmask25_16 :: "u32 list \<Rightarrow> u32 list \<times> nat" where
  "fastunalignedpackwithoutmask25_16 inp =
    ([accum (inp ! 0)
        [push_bit 25 (inp ! 1)],
      accum (drop_bit (25 - 18) (inp ! 1))
        [push_bit 18 (inp ! 2)],
      accum (drop_bit (25 - 11) (inp ! 2))
        [push_bit 11 (inp ! 3)],
      accum (drop_bit (25 - 4) (inp ! 3))
        [push_bit 4 (inp ! 4), push_bit 29 (inp ! 5)],
      accum (drop_bit (25 - 22) (inp ! 5))
        [push_bit 22 (inp ! 6)],
      accum (drop_bit (25 - 15) (inp ! 6))
        [push_bit 15 (inp ! 7)],
      accum (drop_bit (25 - 8) (inp ! 7))
        [push_bit 8 (inp ! 8)],
      accum (drop_bit (25 - 1) (inp ! 8))
        [push_bit 1 (inp ! 9), push_bit 26 (inp ! 10)],
      accum (drop_bit (25 - 19) (inp ! 10))
        [push_bit 19 (inp ! 11)],
      accum (drop_bit (25 - 12) (inp ! 11))
        [push_bit 12 (inp ! 12)],
      accum (drop_bit (25 - 5) (inp ! 12))
        [push_bit 5 (inp ! 13), push_bit 30 (inp ! 14)],
      accum (drop_bit (25 - 23) (inp ! 14))
        [push_bit 23 (inp ! 15)],
      accum (drop_bit (25 - 16) (inp ! 15)) []], 50)"

definition fastunalignedpackwithoutmask26_16 :: "u32 list \<Rightarrow> u32 list \<times> nat" where
  "fastunalignedpackwithoutmask26_16 inp =
    ([accum (inp ! 0)
        [push_bit 26 (inp ! 1)],
      accum (drop_bit (26 - 20) (inp ! 1))
        [push_bit 20 (inp ! 2)],
      accum (drop_bit (26 - 14) (inp ! 2))
        [push_bit 14 (inp ! 3)],
      accum (drop_bit (26 - 8) (inp ! 3))
        [push_bit 8 (inp ! 4)],
      accum (drop_bit (26 - 2) (inp ! 4))
        [push_bit 2 (inp ! 5), push_bit 28 (inp ! 6)],
      accum (drop_bit (26 - 22) (inp ! 6))
        [push_bit 22 (inp ! 7)],
      accum (drop_bit (26 - 16) (inp ! 7))
        [push_bit 16 (inp ! 8)],
      accum (drop_bit (26 - 10) (inp ! 8))
        [push_bit 10 (inp ! 9)],
      accum (drop_bit (26 - 4) (inp ! 9))
        [push_bit 4 (inp ! 10), push_bit 30 (inp ! 11)],
      accum (drop_bit (26 - 24) (inp ! 11))
        [push_bit 24 (inp ! 12)],
      accum (drop_bit (26 - 18) (inp ! 12))
        [push_bit 18 (inp ! 13)],
      accum (drop_bit (26 - 12) (inp ! 13))
        [push_bit 12 (inp ! 14)],
      accum (drop_bit (26 - 6) (inp ! 14))
        [push_bit 6 (inp ! 15)]], 52)"

definition fastunalignedpackwithoutmask27_16 :: "u32 list \<Rightarrow> u32 list \<times> nat" where
  "fastunalignedpackwithoutmask27_16 inp =
    ([accum (inp ! 0)
        [push_bit 27 (inp ! 1)],
      accum (drop_bit (27 - 22) (inp ! 1))
        [push_bit 22 (inp ! 2)],
      accum (drop_bit (27 - 17) (inp ! 2))
        [push_bit 17 (inp ! 3)],
      accum (drop_bit (27 - 12) (inp ! 3))
        [push_bit 12 (inp ! 4)],
      accum (drop_bit (27 - 7) (inp ! 4))
        [push_bit 7 (inp ! 5)],
      accum (drop_bit (27 - 2) (inp ! 5))
        [push_bit 2 (inp ! 6), push_bit 29 (inp ! 7)],
      accum (drop_bit (27 - 24) (inp ! 7))
        [push_bit 24 (inp ! 8)],
      accum (drop_bit (27 - 19) (inp ! 8))
        [push_bit 19 (inp ! 9)],
      accum (drop_bit (27 - 14) (inp ! 9))
        [push_bit 14 (inp ! 10)],
      accum (drop_bit (27 - 9) (inp ! 10))
        [push_bit 9 (inp ! 11)],
      accum (drop_bit (27 - 4) (inp ! 11))
        [push_bit 4 (inp ! 12), push_bit 31 (inp ! 13)],
      accum (drop_bit (27 - 26) (inp ! 13))
        [push_bit 26 (inp ! 14)],
      accum (drop_bit (27 - 21) (inp ! 14))
        [push_bit 21 (inp ! 15)],
      accum (drop_bit (27 - 16) (inp ! 15)) []], 54)"

definition fastunalignedpackwithoutmask28_16 :: "u32 list \<Rightarrow> u32 list \<times> nat" where
  "fastunalignedpackwithoutmask28_16 inp =
    ([accum (inp ! 0)
        [push_bit 28 (inp ! 1)],
      accum (drop_bit (28 - 24) (inp ! 1))
        [push_bit 24 (inp ! 2)],
      accum (drop_bit (28 - 20) (inp ! 2))
        [push_bit 20 (inp ! 3)],
      accum (drop_bit (28 - 16) (inp ! 3))
        [push_bit 16 (inp ! 4)],
      accum (drop_bit (28 - 12) (inp ! 4))
        [push_bit 12 (inp ! 5)],
      accum (drop_bit (28 - 8) (inp ! 5))
        [push_bit 8 (inp ! 6)],
      accum (drop_bit (28 - 4) (inp ! 6))
        [push_bit 4 (inp ! 7)],
      accum (inp ! 8)
        [push_bit 28 (inp ! 9)],
      accum (drop_bit (28 - 24) (inp ! 9))
        [push_bit 24 (inp ! 10)],
      accum (drop_bit (28 - 20) (inp ! 10))
        [push_bit 20 (inp ! 11)],
      accum (drop_bit (28 - 16) (inp ! 11))
        [push_bit 16 (inp ! 12)],
      accum (drop_bit (28 - 12) (inp ! 12))
        [push_bit 12 (inp ! 13)],
      accum (drop_bit (28 - 8) (inp ! 13))
        [push_bit 8 (inp ! 14)],
      accum (drop_bit (28 - 4) (inp ! 14))
        [push_bit 4 (inp ! 15)]], 56)"

definition fastunalignedpackwithoutmask29_16 :: "u32 list \<Rightarrow> u32 list \<times> nat" where
  "fastunalignedpackwithoutmask29_16 inp =
    ([accum (inp ! 0)
        [push_bit 29 (inp ! 1)],
      accum (drop_bit (29 - 26) (inp ! 1))
        [push_bit 26 (inp ! 2)],
      accum (drop_bit (29 - 23) (inp ! 2))
        [push_bit 23 (inp ! 3)],
      accum (drop_bit (29 - 20) (inp ! 3))
        [push_bit 20 (inp ! 4)],
      accum (drop_bit (29 - 17) (inp ! 4))
        [push_bit 17 (inp ! 5)],
      accum (drop_bit (29 - 14) (inp ! 5))
        [push_bit 14 (inp ! 6)],
      accum (drop_bit (29 - 11) (inp ! 6))
        [push_bit 11 (inp ! 7)],
      accum (drop_bit (29 - 8) (inp ! 7))
        [push_bit 8 (inp ! 8)],
      accum (drop_bit (29 - 5) (inp ! 8))
        [push_bit 5 (inp ! 9)],
      accum (drop_bit (29 - 2) (inp ! 9))
        [push_bit 2 (inp ! 10), push_bit 31 (inp ! 11)],
      accum (drop_bit (29 - 28) (inp ! 11))
        [push_bit 28 (inp ! 12)],
      accum (drop_bit (29 - 25) (inp ! 12))
        [push_bit 25 (inp ! 13)],
      accum (drop_bit (29 - 22) (inp ! 13))
        [push_bit 22 (inp ! 14)],
      accum (drop_bit (29 - 19) (inp ! 14))
        [push_bit 19 (inp ! 15)],
      accum (drop_bit (29 - 16) (inp ! 15)) []], 58)"

definition fastunalignedpackwithoutmask30_16 :: "u32 list \<Rightarrow> u32 list \<times> nat" where
  "fastunalignedpackwithoutmask30_16 inp =
    ([accum (inp ! 0)
        [push_bit 30 (inp ! 1)],
      accum (drop_bit (30 - 28) (inp ! 1))
        [push_bit 28 (inp ! 2)],
      accum (drop_bit (30 - 26) (inp ! 2))
        [push_bit 26 (inp ! 3)],
      accum (drop_bit (30 - 24) (inp ! 3))
        [push_bit 24 (inp ! 4)],
      accum (drop_bit (30 - 22) (inp ! 4))
        [push_bit 22 (inp ! 5)],
      accum (drop_bit (30 - 20) (inp ! 5))
        [push_bit 20 (inp ! 6)],
      accum (drop_bit (30 - 18) (inp ! 6))
        [push_bit 18 (inp ! 7)],
      accum (drop_bit (30 - 16) (inp ! 7))
        [push_bit 16 (inp ! 8)],
      accum (drop_bit (30 - 14) (inp ! 8))
        [push_bit 14 (inp ! 9)],
      accum (drop_bit (30 - 12) (inp ! 9))
        [push_bit 12 (inp ! 10)],
      accum (drop_bit (30 - 10) (inp ! 10))
        [push_bit 10 (inp ! 11)],
      accum (drop_bit (30 - 8) (inp ! 11))
        [push_bit 8 (inp ! 12)],
      accum (drop_bit (30 - 6) (inp ! 12))
        [push_bit 6 (inp ! 13)],
      accum (drop_bit (30 - 4) (inp ! 13))
        [push_bit 4 (inp ! 14)],
      accum (drop_bit (30 - 2) (inp ! 14))
        [push_bit 2 (inp ! 15)]], 60)"

definition fastunalignedpackwithoutmask31_16 :: "u32 list \<Rightarrow> u32 list \<times> nat" where
  "fastunalignedpackwithoutmask31_16 inp =
    ([accum (inp ! 0)
        [push_bit 31 (inp ! 1)],
      accum (drop_bit (31 - 30) (inp ! 1))
        [push_bit 30 (inp ! 2)],
      accum (drop_bit (31 - 29) (inp ! 2))
        [push_bit 29 (inp ! 3)],
      accum (drop_bit (31 - 28) (inp ! 3))
        [push_bit 28 (inp ! 4)],
      accum (drop_bit (31 - 27) (inp ! 4))
        [push_bit 27 (inp ! 5)],
      accum (drop_bit (31 - 26) (inp ! 5))
        [push_bit 26 (inp ! 6)],
      accum (drop_bit (31 - 25) (inp ! 6))
        [push_bit 25 (inp ! 7)],
      accum (drop_bit (31 - 24) (inp ! 7))
        [push_bit 24 (inp ! 8)],
      accum (drop_bit (31 - 23) (inp ! 8))
        [push_bit 23 (inp ! 9)],
      accum (drop_bit (31 - 22) (inp ! 9))
        [push_bit 22 (inp ! 10)],
      accum (drop_bit (31 - 21) (inp ! 10))
        [push_bit 21 (inp ! 11)],
      accum (drop_bit (31 - 20) (inp ! 11))
        [push_bit 20 (inp ! 12)],
      accum (drop_bit (31 - 19) (inp ! 12))
        [push_bit 19 (inp ! 13)],
      accum (drop_bit (31 - 18) (inp ! 13))
        [push_bit 18 (inp ! 14)],
      accum (drop_bit (31 - 17) (inp ! 14))
        [push_bit 17 (inp ! 15)],
      accum (drop_bit (31 - 16) (inp ! 15)) []], 62)"

definition fastunalignedpackwithoutmask32_16 :: "u32 list \<Rightarrow> u32 list \<times> nat" where
  "fastunalignedpackwithoutmask32_16 inp =
    ([accum (inp ! 0) [],
      accum (inp ! 1) [],
      accum (inp ! 2) [],
      accum (inp ! 3) [],
      accum (inp ! 4) [],
      accum (inp ! 5) [],
      accum (inp ! 6) [],
      accum (inp ! 7) [],
      accum (inp ! 8) [],
      accum (inp ! 9) [],
      accum (inp ! 10) [],
      accum (inp ! 11) [],
      accum (inp ! 12) [],
      accum (inp ! 13) [],
      accum (inp ! 14) [],
      accum (inp ! 15) []], 64)"

definition fastunalignedbyteunpack1_16 :: "u8 list \<Rightarrow> u8 list" where
  "fastunalignedbyteunpack1_16 inp =
    [drop_bit 0 (inp ! 0) AND 1, drop_bit 1 (inp ! 0) AND 1, drop_bit 2 (inp ! 0) AND 1, drop_bit 3 (inp ! 0) AND 1,
     drop_bit 4 (inp ! 0) AND 1, drop_bit 5 (inp ! 0) AND 1, drop_bit 6 (inp ! 0) AND 1, drop_bit 7 (inp ! 0) AND 1,
     drop_bit 0 (inp ! 1) AND 1, drop_bit 1 (inp ! 1) AND 1, drop_bit 2 (inp ! 1) AND 1, drop_bit 3 (inp ! 1) AND 1,
     drop_bit 4 (inp ! 1) AND 1, drop_bit 5 (inp ! 1) AND 1, drop_bit 6 (inp ! 1) AND 1, drop_bit 7 (inp ! 1) AND 1]"

definition fastunalignedbyteunpack2_16 :: "u8 list \<Rightarrow> u8 list" where
  "fastunalignedbyteunpack2_16 inp =
    [drop_bit 0 (inp ! 0) mod push_bit 2 1, drop_bit 2 (inp ! 0) mod push_bit 2 1,
     drop_bit 4 (inp ! 0) mod push_bit 2 1, drop_bit 6 (inp ! 0) mod push_bit 2 1,
     drop_bit 0 (inp ! 1) mod push_bit 2 1, drop_bit 2 (inp ! 1) mod push_bit 2 1,
     drop_bit 4 (inp ! 1) mod push_bit 2 1, drop_bit 6 (inp ! 1) mod push_bit 2 1,
     drop_bit 0 (inp ! 2) mod push_bit 2 1, drop_bit 2 (inp ! 2) mod push_bit 2 1,
     drop_bit 4 (inp ! 2) mod push_bit 2 1, drop_bit 6 (inp ! 2) mod push_bit 2 1,
     drop_bit 0 (inp ! 3) mod push_bit 2 1, drop_bit 2 (inp ! 3) mod push_bit 2 1,
     drop_bit 4 (inp ! 3) mod push_bit 2 1, drop_bit 6 (inp ! 3) mod push_bit 2 1]"

definition fastunalignedbyteunpack3_16 :: "u8 list \<Rightarrow> u8 list" where
  "fastunalignedbyteunpack3_16 inp =
    [drop_bit 0 (inp ! 0) mod push_bit 3 1, drop_bit 3 (inp ! 0) mod push_bit 3 1,
     drop_bit 6 (inp ! 0) mod push_bit 3 1 OR push_bit (3 - 1) (inp ! 1 mod push_bit 1 1),
     drop_bit 1 (inp ! 1) mod push_bit 3 1, drop_bit 4 (inp ! 1) mod push_bit 3 1,
     drop_bit 7 (inp ! 1) mod push_bit 3 1 OR push_bit (3 - 2) (inp ! 2 mod push_bit 2 1),
     drop_bit 2 (inp ! 2) mod push_bit 3 1, drop_bit 5 (inp ! 2) mod push_bit 3 1,
     drop_bit 0 (inp ! 3) mod push_bit 3 1, drop_bit 3 (inp ! 3) mod push_bit 3 1,
     drop_bit 6 (inp ! 3) mod push_bit 3 1 OR push_bit (3 - 1) (inp ! 4 mod push_bit 1 1),
     drop_bit 1 (inp ! 4) mod push_bit 3 1, drop_bit 4 (inp ! 4) mod push_bit 3 1,
     drop_bit 7 (inp ! 4) mod push_bit 3 1 OR push_bit (3 - 2) (inp ! 5 mod push_bit 2 1),
     drop_bit 2 (inp ! 5) mod push_bit 3 1, drop_bit 5 (inp ! 5) mod push_bit 3 1]"

definition fastunalignedbyteunpack4_16 :: "u8 list \<Rightarrow> u8 list" where
  "fastunalignedbyteunpack4_16 inp =
    [drop_bit 0 (inp ! 0) mod push_bit 4 1, drop_bit 4 (inp ! 0) mod push_bit 4 1,
     drop_bit 0 (inp ! 1) mod push_bit 4 1, drop_bit 4 (inp ! 1) mod push_bit 4 1,
     drop_bit 0 (inp ! 2) mod push_bit 4 1, drop_bit 4 (inp ! 2) mod push_bit 4 1,
     drop_bit 0 (inp ! 3) mod push_bit 4 1, drop_bit 4 (inp ! 3) mod push_bit 4 1,
     drop_bit 0 (inp ! 4) mod push_bit 4 1, drop_bit 4 (inp ! 4) mod push_bit 4 1,
     drop_bit 0 (inp ! 5) mod push_bit 4 1, drop_bit 4 (inp ! 5) mod push_bit 4 1,
     drop_bit 0 (inp ! 6) mod push_bit 4 1, drop_bit 4 (inp ! 6) mod push_bit 4 1,
     drop_bit 0 (inp ! 7) mod push_bit 4 1, drop_bit 4 (inp ! 7) mod push_bit 4 1]"

definition fastunalignedbyteunpack5_16 :: "u8 list \<Rightarrow> u8 list" where
  "fastunalignedbyteunpack5_16 inp =
    [drop_bit 0 (inp ! 0) mod push_bit 5 1,
     drop_bit 5 (inp ! 0) mod push_bit 5 1 OR push_bit (5 - 2) (inp ! 1 mod push_bit 2 1),
     drop_bit 2 (inp ! 1) mod push_bit 5 1,
     drop_bit 7 (inp ! 1) mod push_bit 5 1 OR push_bit (5 - 4) (inp ! 2 mod push_bit 4 1),
     drop_bit 4 (inp ! 2) mod push_bit 5 1 OR push_bit (5 - 1) (inp ! 3 mod push_bit 1 1),
     drop_bit 1 (inp ! 3) mod push_bit 5 1,
     drop_bit 6 (inp ! 3) mod push_bit 5 1 OR push_bit (5 - 3) (inp ! 4 mod push_bit 3 1),
     drop_bit 3 (inp ! 4) mod push_bit 5 1, drop_bit 0 (inp ! 5) mod push_bit 5 1,
     drop_bit 5 (inp ! 5) mod push_bit 5 1 OR push_bit (5 - 2) (inp ! 6 mod push_bit 2 1),
     drop_bit 2 (inp ! 6) mod push_bit 5 1,
     drop_bit 7 (inp ! 6) mod push_bit 5 1 OR push_bit (5 - 4) (inp ! 7 mod push_bit 4 1),
     drop_bit 4 (inp ! 7) mod push_bit 5 1 OR push_bit (5 - 1) (inp ! 8 mod push_bit 1 1),
     drop_bit 1 (inp ! 8) mod push_bit 5 1,
     drop_bit 6 (inp ! 8) mod push_bit 5 1 OR push_bit (5 - 3) (inp ! 9 mod push_bit 3 1),
     drop_bit 3 (inp ! 9) mod push_bit 5 1]"

definition fastunalignedbyteunpack6_16 :: "u8 list \<Rightarrow> u8 list" where
  "fastunalignedbyteunpack6_16 inp =
    [drop_bit 0 (inp ! 0) mod push_bit 6 1,
     drop_bit 6 (inp ! 0) mod push_bit 6 1 OR push_bit (6 - 4) (inp ! 1 mod push_bit 4 1),
     drop_bit 4 (inp ! 1) mod push_bit 6 1 OR push_bit (6 - 2) (inp ! 2 mod push_bit 2 1),
     drop_bit 2 (inp ! 2) mod push_bit 6 1, drop_bit 0 (inp ! 3) mod push_bit 6 1,
     drop_bit 6 (inp ! 3) mod push_bit 6 1 OR push_bit (6 - 4) (inp ! 4 mod push_bit 4 1),
     drop_bit 4 (inp ! 4) mod push_bit 6 1 OR push_bit (6 - 2) (inp ! 5 mod push_bit 2 1),
     drop_bit 2 (inp ! 5) mod push_bit 6 1, drop_bit 0 (inp ! 6) mod push_bit 6 1,
     drop_bit 6 (inp ! 6) mod push_bit 6 1 OR push_bit (6 - 4) (inp ! 7 mod push_bit 4 1),
     drop_bit 4 (inp ! 7) mod push_bit 6 1 OR push_bit (6 - 2) (inp ! 8 mod push_bit 2 1),
     drop_bit 2 (inp ! 8) mod push_bit 6 1, drop_bit 0 (inp ! 9) mod push_bit 6 1,
     drop_bit 6 (inp ! 9) mod push_bit 6 1 OR push_bit (6 - 4) (inp ! 10 mod push_bit 4 1),
     drop_bit 4 (inp ! 10) mod push_bit 6 1 OR push_bit (6 - 2) (inp ! 11 mod push_bit 2 1),
     drop_bit 2 (inp ! 11) mod push_bit 6 1]"

definition fastunalignedbyteunpack7_16 :: "u8 list \<Rightarrow> u8 list" where
  "fastunalignedbyteunpack7_16 inp =
    [drop_bit 0 (inp ! 0) mod push_bit 7 1,
     drop_bit 7 (inp ! 0) mod push_bit 7 1 OR push_bit (7 - 6) (inp ! 1 mod push_bit 6 1),
     drop_bit 6 (inp ! 1) mod push_bit 7 1 OR push_bit (7 - 5) (inp ! 2 mod push_bit 5 1),
     drop_bit 5 (inp ! 2) mod push_bit 7 1 OR push_bit (7 - 4) (inp ! 3 mod push_bit 4 1),
     drop_bit 4 (inp ! 3) mod push_bit 7 1 OR push_bit (7 - 3) (inp ! 4 mod push_bit 3 1),
     drop_bit 3 (inp ! 4) mod push_bit 7 1 OR push_bit (7 - 2) (inp ! 5 mod push_bit 2 1),
     drop_bit 2 (inp ! 5) mod push_bit 7 1 OR push_bit (7 - 1) (inp ! 6 mod push_bit 1 1),
     drop_bit 1 (inp ! 6) mod push_bit 7 1, drop_bit 0 (inp ! 7) mod push_bit 7 1,
     drop_bit 7 (inp ! 7) mod push_bit 7 1 OR push_bit (7 - 6) (inp ! 8 mod push_bit 6 1),
     drop_bit 6 (inp ! 8) mod push_bit 7 1 OR push_bit (7 - 5) (inp ! 9 mod push_bit 5 1),
     drop_bit 5 (inp ! 9) mod push_bit 7 1 OR push_bit (7 - 4) (inp ! 10 mod push_bit 4 1),
     drop_bit 4 (inp ! 10) mod push_bit 7 1 OR push_bit (7 - 3) (inp ! 11 mod push_bit 3 1),
     drop_bit 3 (inp ! 11) mod push_bit 7 1 OR push_bit (7 - 2) (inp ! 12 mod push_bit 2 1),
     drop_bit 2 (inp ! 12) mod push_bit 7 1 OR push_bit (7 - 1) (inp ! 13 mod push_bit 1 1),
     drop_bit 1 (inp ! 13) mod push_bit 7 1]"

definition fastunalignedbyteunpack8_16 :: "u8 list \<Rightarrow> u8 list" where
  "fastunalignedbyteunpack8_16 inp =
    [drop_bit 0 (inp ! 0) mod push_bit 8 1, drop_bit 0 (inp ! 1) mod push_bit 8 1,
     drop_bit 0 (inp ! 2) mod push_bit 8 1, drop_bit 0 (inp ! 3) mod push_bit 8 1,
     drop_bit 0 (inp ! 4) mod push_bit 8 1, drop_bit 0 (inp ! 5) mod push_bit 8 1,
     drop_bit 0 (inp ! 6) mod push_bit 8 1, drop_bit 0 (inp ! 7) mod push_bit 8 1,
     drop_bit 0 (inp ! 8) mod push_bit 8 1, drop_bit 0 (inp ! 9) mod push_bit 8 1,
     drop_bit 0 (inp ! 10) mod push_bit 8 1, drop_bit 0 (inp ! 11) mod push_bit 8 1,
     drop_bit 0 (inp ! 12) mod push_bit 8 1, drop_bit 0 (inp ! 13) mod push_bit 8 1,
     drop_bit 0 (inp ! 14) mod push_bit 8 1, drop_bit 0 (inp ! 15) mod push_bit 8 1]"

definition fastunalignedbytepackwithoutmask1_16 :: "u8 list \<Rightarrow> u8 list" where
  "fastunalignedbytepackwithoutmask1_16 inp =
    [accum8 (inp ! 0)
       [push_bit 1 (inp ! 1), push_bit 2 (inp ! 2), push_bit 3 (inp ! 3), push_bit 4 (inp ! 4), push_bit 5 (inp ! 5),
        push_bit 6 (inp ! 6), push_bit 7 (inp ! 7)],
     accum8 (inp ! 8)
       [push_bit 1 (inp ! 9), push_bit 2 (inp ! 10), push_bit 3 (inp ! 11), push_bit 4 (inp ! 12),
        push_bit 5 (inp ! 13), push_bit 6 (inp ! 14), push_bit 7 (inp ! 15)]]"

definition fastunalignedbytepackwithoutmask2_16 :: "u8 list \<Rightarrow> u8 list" where
  "fastunalignedbytepackwithoutmask2_16 inp =
    [accum8 (inp ! 0)
       [push_bit 2 (inp ! 1), push_bit 4 (inp ! 2), push_bit 6 (inp ! 3)],
     accum8 (inp ! 4)
       [push_bit 2 (inp ! 5), push_bit 4 (inp ! 6), push_bit 6 (inp ! 7)],
     accum8 (inp ! 8)
       [push_bit 2 (inp ! 9), push_bit 4 (inp ! 10), push_bit 6 (inp ! 11)],
     accum8 (inp ! 12)
       [push_bit 2 (inp ! 13), push_bit 4 (inp ! 14), push_bit 6 (inp ! 15)]]"

definition fastunalignedbytepackwithoutmask3_16 :: "u8 list \<Rightarrow> u8 list" where
  "fastunalignedbytepackwithoutmask3_16 inp =
    [accum8 (inp ! 0)
       [push_bit 3 (inp ! 1), push_bit 6 (inp ! 2)],
     accum8 (drop_bit (3 - 1) (inp ! 2))
       [push_bit 1 (inp ! 3), push_bit 4 (inp ! 4), push_bit 7 (inp ! 5)],
     accum8 (drop_bit (3 - 2) (inp ! 5))
       [push_bit 2 (inp ! 6), push_bit 5 (inp ! 7)],
     accum8 (inp ! 8)
       [push_bit 3 (inp ! 9), push_bit 6 (inp ! 10)],
     accum8 (drop_bit (3 - 1) (inp ! 10))
       [push_bit 1 (inp ! 11), push_bit 4 (inp ! 12), push_bit 7 (inp ! 13)],
     accum8 (drop_bit (3 - 2) (inp ! 13))
       [push_bit 2 (inp ! 14), push_bit 5 (inp ! 15)]]"

definition fastunalignedbytepackwithoutmask4_16 :: "u8 list \<Rightarrow> u8 list" where
  "fastunalignedbytepackwithoutmask4_16 inp =
    [accum8 (inp ! 0)
       [push_bit 4 (inp ! 1)],
     accum8 (inp ! 2)
       [push_bit 4 (inp ! 3)],
     accum8 (inp ! 4)
       [push_bit 4 (inp ! 5)],
     accum8 (inp ! 6)
       [push_bit 4 (inp ! 7)],
     accum8 (inp ! 8)
       [push_bit 4 (inp ! 9)],
     accum8 (inp ! 10)
       [push_bit 4 (inp ! 11)],
     accum8 (inp ! 12)
       [push_bit 4 (inp ! 13)],
     accum8 (inp ! 14)
       [push_bit 4 (inp ! 15)]]"

definition fastunalignedbytepackwithoutmask5_16 :: "u8 list \<Rightarrow> u8 list" where
  "fastunalignedbytepackwithoutmask5_16 inp =
    [accum8 (inp ! 0)
       [push_bit 5 (inp ! 1)],
     accum8 (drop_bit (5 - 2) (inp ! 1))
       [push_bit 2 (inp ! 2), push_bit 7 (inp ! 3)],
     accum8 (drop_bit (5 - 4) (inp ! 3))
       [push_bit 4 (inp ! 4)],
     accum8 (drop_bit (5 - 1) (inp ! 4))
       [push_bit 1 (inp ! 5), push_bit 6 (inp ! 6)],
     accum8 (drop_bit (5 - 3) (inp ! 6))
       [push_bit 3 (inp ! 7)],
     accum8 (inp ! 8)
       [push_bit 5 (inp ! 9)],
     accum8 (drop_bit (5 - 2) (inp ! 9))
       [push_bit 2 (inp ! 10), push_bit 7 (inp ! 11)],
     accum8 (drop_bit (5 - 4) (inp ! 11))
       [push_bit 4 (inp ! 12)],
     accum8 (drop_bit (5 - 1) (inp ! 12))
       [push_bit 1 (inp ! 13), push_bit 6 (inp ! 14)],
     accum8 (drop_bit (5 - 3) (inp ! 14))
       [push_bit 3 (inp ! 15)]]"

definition fastunalignedbytepackwithoutmask6_16 :: "u8 list \<Rightarrow> u8 list" where
  "fastunalignedbytepackwithoutmask6_16 inp =
    [accum8 (inp ! 0)
       [push_bit 6 (inp ! 1)],
     accum8 (drop_bit (6 - 4) (inp ! 1))
       [push_bit 4 (inp ! 2)],
     accum8 (drop_bit (6 - 2) (inp ! 2))
       [push_bit 2 (inp ! 3)],
     accum8 (inp ! 4)
       [push_bit 6 (inp ! 5)],
     accum8 (drop_bit (6 - 4) (inp ! 5))
       [push_bit 4 (inp ! 6)],
     accum8 (drop_bit (6 - 2) (inp ! 6))
       [push_bit 2 (inp ! 7)],
     accum8 (inp ! 8)
       [push_bit 6 (inp ! 9)],
     accum8 (drop_bit (6 - 4) (inp ! 9))
       [push_bit 4 (inp ! 10)],
     accum8 (drop_bit (6 - 2) (inp ! 10))
       [push_bit 2 (inp ! 11)],
     accum8 (inp ! 12)
       [push_bit 6 (inp ! 13)],
     accum8 (drop_bit (6 - 4) (inp ! 13))
       [push_bit 4 (inp ! 14)],
     accum8 (drop_bit (6 - 2) (inp ! 14))
       [push_bit 2 (inp ! 15)]]"

definition fastunalignedbytepackwithoutmask7_16 :: "u8 list \<Rightarrow> u8 list" where
  "fastunalignedbytepackwithoutmask7_16 inp =
    [accum8 (inp ! 0)
       [push_bit 7 (inp ! 1)],
     accum8 (drop_bit (7 - 6) (inp ! 1))
       [push_bit 6 (inp ! 2)],
     accum8 (drop_bit (7 - 5) (inp ! 2))
       [push_bit 5 (inp ! 3)],
     accum8 (drop_bit (7 - 4) (inp ! 3))
       [push_bit 4 (inp ! 4)],
     accum8 (drop_bit (7 - 3) (inp ! 4))
       [push_bit 3 (inp ! 5)],
     accum8 (drop_bit (7 - 2) (inp ! 5))
       [push_bit 2 (inp ! 6)],
     accum8 (drop_bit (7 - 1) (inp ! 6))
       [push_bit 1 (inp ! 7)],
     accum8 (inp ! 8)
       [push_bit 7 (inp ! 9)],
     accum8 (drop_bit (7 - 6) (inp ! 9))
       [push_bit 6 (inp ! 10)],
     accum8 (drop_bit (7 - 5) (inp ! 10))
       [push_bit 5 (inp ! 11)],
     accum8 (drop_bit (7 - 4) (inp ! 11))
       [push_bit 4 (inp ! 12)],
     accum8 (drop_bit (7 - 3) (inp ! 12))
       [push_bit 3 (inp ! 13)],
     accum8 (drop_bit (7 - 2) (inp ! 13))
       [push_bit 2 (inp ! 14)],
     accum8 (drop_bit (7 - 1) (inp ! 14))
       [push_bit 1 (inp ! 15)]]"

definition fastunalignedbytepackwithoutmask8_16 :: "u8 list \<Rightarrow> u8 list" where
  "fastunalignedbytepackwithoutmask8_16 inp =
    [accum8 (inp ! 0) [],
     accum8 (inp ! 1) [],
     accum8 (inp ! 2) [],
     accum8 (inp ! 3) [],
     accum8 (inp ! 4) [],
     accum8 (inp ! 5) [],
     accum8 (inp ! 6) [],
     accum8 (inp ! 7) [],
     accum8 (inp ! 8) [],
     accum8 (inp ! 9) [],
     accum8 (inp ! 10) [],
     accum8 (inp ! 11) [],
     accum8 (inp ! 12) [],
     accum8 (inp ! 13) [],
     accum8 (inp ! 14) [],
     accum8 (inp ! 15) []]"

section \<open>Every routine is an instance of the reference\<close>

lemma nullunalignedpacker_eq: "nullunalignedpacker = pack_unaligned n 0"
  by (rule ext) (simp add: nullunalignedpacker_def pack_unaligned_def pack_short_def packed_words_def)

lemma nullbytepacker_eq: "nullbytepacker = pack_bytes n 0"
  by (rule ext) (simp add: nullbytepacker_def pack_bytes_def)

lemma nullunalignedunpacker8_eq: "nullunalignedunpacker8 = unpack_unaligned 8 0"
  by (rule ext) (simp add: nullunalignedunpacker8_def unpack_unaligned_0)

lemma nullbyteunpacker8_eq: "nullbyteunpacker8 = unpack_bytes 8 0"
  by (rule ext) (simp add: nullbyteunpacker8_def unpack_bytes_0)

lemma fastunalignedunpack1_8_eq: "fastunalignedunpack1_8 = unpack_unaligned 8 1"
  by (rule ext) (simp add: fastunalignedunpack1_8_def unaligned_simps del: One_nat_def add_Suc_right)

lemma fastunalignedunpack2_8_eq: "fastunalignedunpack2_8 = unpack_unaligned 8 2"
  by (rule ext) (simp add: fastunalignedunpack2_8_def unaligned_simps del: One_nat_def add_Suc_right)

lemma fastunalignedunpack3_8_eq: "fastunalignedunpack3_8 = unpack_unaligned 8 3"
  by (rule ext) (simp add: fastunalignedunpack3_8_def unaligned_simps del: One_nat_def add_Suc_right)

lemma fastunalignedunpack4_8_eq: "fastunalignedunpack4_8 = unpack_unaligned 8 4"
  by (rule ext) (simp add: fastunalignedunpack4_8_def unaligned_simps del: One_nat_def add_Suc_right)

lemma fastunalignedunpack5_8_eq: "fastunalignedunpack5_8 = unpack_unaligned 8 5"
  by (rule ext) (simp add: fastunalignedunpack5_8_def unaligned_simps del: One_nat_def add_Suc_right)

lemma fastunalignedunpack6_8_eq: "fastunalignedunpack6_8 = unpack_unaligned 8 6"
  by (rule ext) (simp add: fastunalignedunpack6_8_def unaligned_simps del: One_nat_def add_Suc_right)

lemma fastunalignedunpack7_8_eq: "fastunalignedunpack7_8 = unpack_unaligned 8 7"
  by (rule ext) (simp add: fastunalignedunpack7_8_def unaligned_simps del: One_nat_def add_Suc_right)

lemma fastunalignedunpack8_8_eq: "fastunalignedunpack8_8 = unpack_unaligned 8 8"
  by (rule ext) (simp add: fastunalignedunpack8_8_def unaligned_simps del: One_nat_def add_Suc_right)

lemma fastunalignedunpack9_8_eq: "fastunalignedunpack9_8 = unpack_unaligned 8 9"
  by (rule ext) (simp add: fastunalignedunpack9_8_def unaligned_simps del: One_nat_def add_Suc_right)

lemma fastunalignedunpack10_8_eq: "fastunalignedunpack10_8 = unpack_unaligned 8 10"
  by (rule ext) (simp add: fastunalignedunpack10_8_def unaligned_simps del: One_nat_def add_Suc_right)

lemma fastunalignedunpack11_8_eq: "fastunalignedunpack11_8 = unpack_unaligned 8 11"
  by (rule ext) (simp add: fastunalignedunpack11_8_def unaligned_simps del: One_nat_def add_Suc_right)

lemma fastunalignedunpack12_8_eq: "fastunalignedunpack12_8 = unpack_unaligned 8 12"
  by (rule ext) (simp add: fastunalignedunpack12_8_def unaligned_simps del: One_nat_def add_Suc_right)

lemma fastunalignedunpack13_8_eq: "fastunalignedunpack13_8 = unpack_unaligned 8 13"
  by (rule ext) (simp add: fastunalignedunpack13_8_def unaligned_simps del: One_nat_def add_Suc_right)

lemma fastunalignedunpack14_8_eq: "fastunalignedunpack14_8 = unpack_unaligned 8 14"
  by (rule ext) (simp add: fastunalignedunpack14_8_def unaligned_simps del: One_nat_def add_Suc_right)

lemma fastunalignedunpack15_8_eq: "fastunalignedunpack15_8 = unpack_unaligned 8 15"
  by (rule ext) (simp add: fastunalignedunpack15_8_def unaligned_simps del: One_nat_def add_Suc_right)

lemma fastunalignedunpack16_8_eq: "fastunalignedunpack16_8 = unpack_unaligned 8 16"
  by (rule ext) (simp add: fastunalignedunpack16_8_def unaligned_simps del: One_nat_def add_Suc_right)

lemma fastunalignedunpack17_8_eq: "fastunalignedunpack17_8 = unpack_unaligned 8 17"
  by (rule ext) (simp add: fastunalignedunpack17_8_def unaligned_simps del: One_nat_def add_Suc_right)

lemma fastunalignedunpack18_8_eq: "fastunalignedunpack18_8 = unpack_unaligned 8 18"
  by (rule ext) (simp add: fastunalignedunpack18_8_def unaligned_simps del: One_nat_def add_Suc_right)

lemma fastunalignedunpack19_8_eq: "fastunalignedunpack19_8 = unpack_unaligned 8 19"
  by (rule ext) (simp add: fastunalignedunpack19_8_def unaligned_simps del: One_nat_def add_Suc_right)

lemma fastunalignedunpack20_8_eq: "fastunalignedunpack20_8 = unpack_unaligned 8 20"
  by (rule ext) (simp add: fastunalignedunpack20_8_def unaligned_simps del: One_nat_def add_Suc_right)

lemma fastunalignedunpack21_8_eq: "fastunalignedunpack21_8 = unpack_unaligned 8 21"
  by (rule ext) (simp add: fastunalignedunpack21_8_def unaligned_simps del: One_nat_def add_Suc_right)

lemma fastunalignedunpack22_8_eq: "fastunalignedunpack22_8 = unpack_unaligned 8 22"
  by (rule ext) (simp add: fastunalignedunpack22_8_def unaligned_simps del: One_nat_def add_Suc_right)

lemma fastunalignedunpack23_8_eq: "fastunalignedunpack23_8 = unpack_unaligned 8 23"
  by (rule ext) (simp add: fastunalignedunpack23_8_def unaligned_simps del: One_nat_def add_Suc_right)

lemma fastunalignedunpack24_8_eq: "fastunalignedunpack24_8 = unpack_unaligned 8 24"
  by (rule ext) (simp add: fastunalignedunpack24_8_def unaligned_simps del: One_nat_def add_Suc_right)

lemma fastunalignedunpack25_8_eq: "fastunalignedunpack25_8 = unpack_unaligned 8 25"
  by (rule ext) (simp add: fastunalignedunpack25_8_def unaligned_simps del: One_nat_def add_Suc_right)

lemma fastunalignedunpack26_8_eq: "fastunalignedunpack26_8 = unpack_unaligned 8 26"
  by (rule ext) (simp add: fastunalignedunpack26_8_def unaligned_simps del: One_nat_def add_Suc_right)

lemma fastunalignedunpack27_8_eq: "fastunalignedunpack27_8 = unpack_unaligned 8 27"
  by (rule ext) (simp add: fastunalignedunpack27_8_def unaligned_simps del: One_nat_def add_Suc_right)

lemma fastunalignedunpack28_8_eq: "fastunalignedunpack28_8 = unpack_unaligned 8 28"
  by (rule ext) (simp add: fastunalignedunpack28_8_def unaligned_simps del: One_nat_def add_Suc_right)

lemma fastunalignedunpack29_8_eq: "fastunalignedunpack29_8 = unpack_unaligned 8 29"
  by (rule ext) (simp add: fastunalignedunpack29_8_def unaligned_simps del: One_nat_def add_Suc_right)

lemma fastunalignedunpack30_8_eq: "fastunalignedunpack30_8 = unpack_unaligned 8 30"
  by (rule ext) (simp add: fastunalignedunpack30_8_def unaligned_simps del: One_nat_def add_Suc_right)

lemma fastunalignedunpack31_8_eq: "fastunalignedunpack31_8 = unpack_unaligned 8 31"
  by (rule ext) (simp add: fastunalignedunpack31_8_def unaligned_simps del: One_nat_def add_Suc_right)

lemma fastunalignedunpack32_8_eq: "fastunalignedunpack32_8 = unpack_unaligned 8 32"
  by (rule ext) (simp add: fastunalignedunpack32_8_def unaligned_simps del: One_nat_def add_Suc_right)

lemma fastunalignedpackwithoutmask1_8_eq: "fastunalignedpackwithoutmask1_8 = pack_unaligned 8 1"
  by (rule ext, simp add: fastunalignedpackwithoutmask1_8_def unaligned_words del: One_nat_def add_Suc_right)
     (simp add: pack_short_simps del: One_nat_def add_Suc_right)

lemma fastunalignedpackwithoutmask2_8_eq: "fastunalignedpackwithoutmask2_8 = pack_unaligned 8 2"
  by (rule ext, simp add: fastunalignedpackwithoutmask2_8_def unaligned_words del: One_nat_def add_Suc_right)
     (simp add: pack_short_simps del: One_nat_def add_Suc_right)

lemma fastunalignedpackwithoutmask3_8_eq: "fastunalignedpackwithoutmask3_8 = pack_unaligned 8 3"
  by (rule ext, simp add: fastunalignedpackwithoutmask3_8_def unaligned_words del: One_nat_def add_Suc_right)
     (simp add: pack_short_simps del: One_nat_def add_Suc_right)

lemma fastunalignedpackwithoutmask4_8_eq: "fastunalignedpackwithoutmask4_8 = pack_unaligned 8 4"
  by (rule ext, simp add: fastunalignedpackwithoutmask4_8_def unaligned_words del: One_nat_def add_Suc_right)
     (simp add: pack_short_simps del: One_nat_def add_Suc_right)

lemma fastunalignedpackwithoutmask5_8_eq: "fastunalignedpackwithoutmask5_8 = pack_unaligned 8 5"
  by (rule ext, simp add: fastunalignedpackwithoutmask5_8_def unaligned_words del: One_nat_def add_Suc_right)
     (simp add: pack_short_simps del: One_nat_def add_Suc_right)

lemma fastunalignedpackwithoutmask6_8_eq: "fastunalignedpackwithoutmask6_8 = pack_unaligned 8 6"
  by (rule ext, simp add: fastunalignedpackwithoutmask6_8_def unaligned_words del: One_nat_def add_Suc_right)
     (simp add: pack_short_simps del: One_nat_def add_Suc_right)

lemma fastunalignedpackwithoutmask7_8_eq: "fastunalignedpackwithoutmask7_8 = pack_unaligned 8 7"
  by (rule ext, simp add: fastunalignedpackwithoutmask7_8_def unaligned_words del: One_nat_def add_Suc_right)
     (simp add: pack_short_simps del: One_nat_def add_Suc_right)

lemma fastunalignedpackwithoutmask8_8_eq: "fastunalignedpackwithoutmask8_8 = pack_unaligned 8 8"
  by (rule ext, simp add: fastunalignedpackwithoutmask8_8_def unaligned_words del: One_nat_def add_Suc_right)
     (simp add: pack_short_simps del: One_nat_def add_Suc_right)

lemma fastunalignedpackwithoutmask9_8_eq: "fastunalignedpackwithoutmask9_8 = pack_unaligned 8 9"
  by (rule ext, simp add: fastunalignedpackwithoutmask9_8_def unaligned_words del: One_nat_def add_Suc_right)
     (simp add: pack_short_simps del: One_nat_def add_Suc_right)

lemma fastunalignedpackwithoutmask10_8_eq: "fastunalignedpackwithoutmask10_8 = pack_unaligned 8 10"
  by (rule ext, simp add: fastunalignedpackwithoutmask10_8_def unaligned_words del: One_nat_def add_Suc_right)
     (simp add: pack_short_simps del: One_nat_def add_Suc_right)

lemma fastunalignedpackwithoutmask11_8_eq: "fastunalignedpackwithoutmask11_8 = pack_unaligned 8 11"
  by (rule ext, simp add: fastunalignedpackwithoutmask11_8_def unaligned_words del: One_nat_def add_Suc_right)
     (simp add: pack_short_simps del: One_nat_def add_Suc_right)

lemma fastunalignedpackwithoutmask12_8_eq: "fastunalignedpackwithoutmask12_8 = pack_unaligned 8 12"
  by (rule ext, simp add: fastunalignedpackwithoutmask12_8_def unaligned_words del: One_nat_def add_Suc_right)
     (simp add: pack_short_simps del: One_nat_def add_Suc_right)

lemma fastunalignedpackwithoutmask13_8_eq: "fastunalignedpackwithoutmask13_8 = pack_unaligned 8 13"
  by (rule ext, simp add: fastunalignedpackwithoutmask13_8_def unaligned_words del: One_nat_def add_Suc_right)
     (simp add: pack_short_simps del: One_nat_def add_Suc_right)

lemma fastunalignedpackwithoutmask14_8_eq: "fastunalignedpackwithoutmask14_8 = pack_unaligned 8 14"
  by (rule ext, simp add: fastunalignedpackwithoutmask14_8_def unaligned_words del: One_nat_def add_Suc_right)
     (simp add: pack_short_simps del: One_nat_def add_Suc_right)

lemma fastunalignedpackwithoutmask15_8_eq: "fastunalignedpackwithoutmask15_8 = pack_unaligned 8 15"
  by (rule ext, simp add: fastunalignedpackwithoutmask15_8_def unaligned_words del: One_nat_def add_Suc_right)
     (simp add: pack_short_simps del: One_nat_def add_Suc_right)

lemma fastunalignedpackwithoutmask16_8_eq: "fastunalignedpackwithoutmask16_8 = pack_unaligned 8 16"
  by (rule ext, simp add: fastunalignedpackwithoutmask16_8_def unaligned_words del: One_nat_def add_Suc_right)
     (simp add: pack_short_simps del: One_nat_def add_Suc_right)

lemma fastunalignedpackwithoutmask17_8_eq: "fastunalignedpackwithoutmask17_8 = pack_unaligned 8 17"
  by (rule ext, simp add: fastunalignedpackwithoutmask17_8_def unaligned_words del: One_nat_def add_Suc_right)
     (simp add: pack_short_simps del: One_nat_def add_Suc_right)

lemma fastunalignedpackwithoutmask18_8_eq: "fastunalignedpackwithoutmask18_8 = pack_unaligned 8 18"
  by (rule ext, simp add: fastunalignedpackwithoutmask18_8_def unaligned_words del: One_nat_def add_Suc_right)
     (simp add: pack_short_simps del: One_nat_def add_Suc_right)

lemma fastunalignedpackwithoutmask19_8_eq: "fastunalignedpackwithoutmask19_8 = pack_unaligned 8 19"
  by (rule ext, simp add: fastunalignedpackwithoutmask19_8_def unaligned_words del: One_nat_def add_Suc_right)
     (simp add: pack_short_simps del: One_nat_def add_Suc_right)

lemma fastunalignedpackwithoutmask20_8_eq: "fastunalignedpackwithoutmask20_8 = pack_unaligned 8 20"
  by (rule ext, simp add: fastunalignedpackwithoutmask20_8_def unaligned_words del: One_nat_def add_Suc_right)
     (simp add: pack_short_simps del: One_nat_def add_Suc_right)

lemma fastunalignedpackwithoutmask21_8_eq: "fastunalignedpackwithoutmask21_8 = pack_unaligned 8 21"
  by (rule ext, simp add: fastunalignedpackwithoutmask21_8_def unaligned_words del: One_nat_def add_Suc_right)
     (simp add: pack_short_simps del: One_nat_def add_Suc_right)

lemma fastunalignedpackwithoutmask22_8_eq: "fastunalignedpackwithoutmask22_8 = pack_unaligned 8 22"
  by (rule ext, simp add: fastunalignedpackwithoutmask22_8_def unaligned_words del: One_nat_def add_Suc_right)
     (simp add: pack_short_simps del: One_nat_def add_Suc_right)

lemma fastunalignedpackwithoutmask23_8_eq: "fastunalignedpackwithoutmask23_8 = pack_unaligned 8 23"
  by (rule ext, simp add: fastunalignedpackwithoutmask23_8_def unaligned_words del: One_nat_def add_Suc_right)
     (simp add: pack_short_simps del: One_nat_def add_Suc_right)

lemma fastunalignedpackwithoutmask24_8_eq: "fastunalignedpackwithoutmask24_8 = pack_unaligned 8 24"
  by (rule ext, simp add: fastunalignedpackwithoutmask24_8_def unaligned_words del: One_nat_def add_Suc_right)
     (simp add: pack_short_simps del: One_nat_def add_Suc_right)

lemma fastunalignedpackwithoutmask25_8_eq: "fastunalignedpackwithoutmask25_8 = pack_unaligned 8 25"
  by (rule ext, simp add: fastunalignedpackwithoutmask25_8_def unaligned_words del: One_nat_def add_Suc_right)
     (simp add: pack_short_simps del: One_nat_def add_Suc_right)

lemma fastunalignedpackwithoutmask26_8_eq: "fastunalignedpackwithoutmask26_8 = pack_unaligned 8 26"
  by (rule ext, simp add: fastunalignedpackwithoutmask26_8_def unaligned_words del: One_nat_def add_Suc_right)
     (simp add: pack_short_simps del: One_nat_def add_Suc_right)

lemma fastunalignedpackwithoutmask27_8_eq: "fastunalignedpackwithoutmask27_8 = pack_unaligned 8 27"
  by (rule ext, simp add: fastunalignedpackwithoutmask27_8_def unaligned_words del: One_nat_def add_Suc_right)
     (simp add: pack_short_simps del: One_nat_def add_Suc_right)

lemma fastunalignedpackwithoutmask28_8_eq: "fastunalignedpackwithoutmask28_8 = pack_unaligned 8 28"
  by (rule ext, simp add: fastunalignedpackwithoutmask28_8_def unaligned_words del: One_nat_def add_Suc_right)
     (simp add: pack_short_simps del: One_nat_def add_Suc_right)

lemma fastunalignedpackwithoutmask29_8_eq: "fastunalignedpackwithoutmask29_8 = pack_unaligned 8 29"
  by (rule ext, simp add: fastunalignedpackwithoutmask29_8_def unaligned_words del: One_nat_def add_Suc_right)
     (simp add: pack_short_simps del: One_nat_def add_Suc_right)

lemma fastunalignedpackwithoutmask30_8_eq: "fastunalignedpackwithoutmask30_8 = pack_unaligned 8 30"
  by (rule ext, simp add: fastunalignedpackwithoutmask30_8_def unaligned_words del: One_nat_def add_Suc_right)
     (simp add: pack_short_simps del: One_nat_def add_Suc_right)

lemma fastunalignedpackwithoutmask31_8_eq: "fastunalignedpackwithoutmask31_8 = pack_unaligned 8 31"
  by (rule ext, simp add: fastunalignedpackwithoutmask31_8_def unaligned_words del: One_nat_def add_Suc_right)
     (simp add: pack_short_simps del: One_nat_def add_Suc_right)

lemma fastunalignedpackwithoutmask32_8_eq: "fastunalignedpackwithoutmask32_8 = pack_unaligned 8 32"
  by (rule ext, simp add: fastunalignedpackwithoutmask32_8_def unaligned_words del: One_nat_def add_Suc_right)
     (simp add: pack_short_simps del: One_nat_def add_Suc_right)

lemma fastunalignedbyteunpack1_8_eq: "fastunalignedbyteunpack1_8 = unpack_bytes 8 1"
  by (rule ext) (simp add: fastunalignedbyteunpack1_8_def byte_unpack_simps del: One_nat_def add_Suc_right)

lemma fastunalignedbyteunpack2_8_eq: "fastunalignedbyteunpack2_8 = unpack_bytes 8 2"
  by (rule ext) (simp add: fastunalignedbyteunpack2_8_def byte_unpack_simps del: One_nat_def add_Suc_right)

lemma fastunalignedbyteunpack3_8_eq: "fastunalignedbyteunpack3_8 = unpack_bytes 8 3"
  by (rule ext) (simp add: fastunalignedbyteunpack3_8_def byte_unpack_simps del: One_nat_def add_Suc_right)

lemma fastunalignedbyteunpack4_8_eq: "fastunalignedbyteunpack4_8 = unpack_bytes 8 4"
  by (rule ext) (simp add: fastunalignedbyteunpack4_8_def byte_unpack_simps del: One_nat_def add_Suc_right)

lemma fastunalignedbyteunpack5_8_eq: "fastunalignedbyteunpack5_8 = unpack_bytes 8 5"
  by (rule ext) (simp add: fastunalignedbyteunpack5_8_def byte_unpack_simps del: One_nat_def add_Suc_right)

lemma fastunalignedbyteunpack6_8_eq: "fastunalignedbyteunpack6_8 = unpack_bytes 8 6"
  by (rule ext) (simp add: fastunalignedbyteunpack6_8_def byte_unpack_simps del: One_nat_def add_Suc_right)

lemma fastunalignedbyteunpack7_8_eq: "fastunalignedbyteunpack7_8 = unpack_bytes 8 7"
  by (rule ext) (simp add: fastunalignedbyteunpack7_8_def byte_unpack_simps del: One_nat_def add_Suc_right)

lemma fastunalignedbyteunpack8_8_eq: "fastunalignedbyteunpack8_8 = unpack_bytes 8 8"
  by (rule ext) (simp add: fastunalignedbyteunpack8_8_def byte_unpack_simps del: One_nat_def add_Suc_right)

lemma fastunalignedbytepackwithoutmask1_8_eq: "fastunalignedbytepackwithoutmask1_8 = pack_bytes 8 1"
  by (rule ext, simp add: fastunalignedbytepackwithoutmask1_8_def byte_pack_words del: One_nat_def add_Suc_right)
     (simp add: byte_pack_simps del: One_nat_def add_Suc_right)

lemma fastunalignedbytepackwithoutmask2_8_eq: "fastunalignedbytepackwithoutmask2_8 = pack_bytes 8 2"
  by (rule ext, simp add: fastunalignedbytepackwithoutmask2_8_def byte_pack_words del: One_nat_def add_Suc_right)
     (simp add: byte_pack_simps del: One_nat_def add_Suc_right)

lemma fastunalignedbytepackwithoutmask3_8_eq: "fastunalignedbytepackwithoutmask3_8 = pack_bytes 8 3"
  by (rule ext, simp add: fastunalignedbytepackwithoutmask3_8_def byte_pack_words del: One_nat_def add_Suc_right)
     (simp add: byte_pack_simps del: One_nat_def add_Suc_right)

lemma fastunalignedbytepackwithoutmask4_8_eq: "fastunalignedbytepackwithoutmask4_8 = pack_bytes 8 4"
  by (rule ext, simp add: fastunalignedbytepackwithoutmask4_8_def byte_pack_words del: One_nat_def add_Suc_right)
     (simp add: byte_pack_simps del: One_nat_def add_Suc_right)

lemma fastunalignedbytepackwithoutmask5_8_eq: "fastunalignedbytepackwithoutmask5_8 = pack_bytes 8 5"
  by (rule ext, simp add: fastunalignedbytepackwithoutmask5_8_def byte_pack_words del: One_nat_def add_Suc_right)
     (simp add: byte_pack_simps del: One_nat_def add_Suc_right)

lemma fastunalignedbytepackwithoutmask6_8_eq: "fastunalignedbytepackwithoutmask6_8 = pack_bytes 8 6"
  by (rule ext, simp add: fastunalignedbytepackwithoutmask6_8_def byte_pack_words del: One_nat_def add_Suc_right)
     (simp add: byte_pack_simps del: One_nat_def add_Suc_right)

lemma fastunalignedbytepackwithoutmask7_8_eq: "fastunalignedbytepackwithoutmask7_8 = pack_bytes 8 7"
  by (rule ext, simp add: fastunalignedbytepackwithoutmask7_8_def byte_pack_words del: One_nat_def add_Suc_right)
     (simp add: byte_pack_simps del: One_nat_def add_Suc_right)

lemma fastunalignedbytepackwithoutmask8_8_eq: "fastunalignedbytepackwithoutmask8_8 = pack_bytes 8 8"
  by (rule ext, simp add: fastunalignedbytepackwithoutmask8_8_def byte_pack_words del: One_nat_def add_Suc_right)
     (simp add: byte_pack_simps del: One_nat_def add_Suc_right)

lemma nullunalignedunpacker16_eq: "nullunalignedunpacker16 = unpack_unaligned 16 0"
  by (rule ext) (simp add: nullunalignedunpacker16_def unpack_unaligned_0)

lemma nullbyteunpacker16_eq: "nullbyteunpacker16 = unpack_bytes 16 0"
  by (rule ext) (simp add: nullbyteunpacker16_def unpack_bytes_0)

lemma fastunalignedunpack1_16_eq: "fastunalignedunpack1_16 = unpack_unaligned 16 1"
  by (rule ext) (simp add: fastunalignedunpack1_16_def unaligned_simps del: One_nat_def add_Suc_right)

lemma fastunalignedunpack2_16_eq: "fastunalignedunpack2_16 = unpack_unaligned 16 2"
  by (rule ext) (simp add: fastunalignedunpack2_16_def unaligned_simps del: One_nat_def add_Suc_right)

lemma fastunalignedunpack3_16_eq: "fastunalignedunpack3_16 = unpack_unaligned 16 3"
  by (rule ext) (simp add: fastunalignedunpack3_16_def unaligned_simps del: One_nat_def add_Suc_right)

lemma fastunalignedunpack4_16_eq: "fastunalignedunpack4_16 = unpack_unaligned 16 4"
  by (rule ext) (simp add: fastunalignedunpack4_16_def unaligned_simps del: One_nat_def add_Suc_right)

lemma fastunalignedunpack5_16_eq: "fastunalignedunpack5_16 = unpack_unaligned 16 5"
  by (rule ext) (simp add: fastunalignedunpack5_16_def unaligned_simps del: One_nat_def add_Suc_right)

lemma fastunalignedunpack6_16_eq: "fastunalignedunpack6_16 = unpack_unaligned 16 6"
  by (rule ext) (simp add: fastunalignedunpack6_16_def unaligned_simps del: One_nat_def add_Suc_right)

lemma fastunalignedunpack7_16_eq: "fastunalignedunpack7_16 = unpack_unaligned 16 7"
  by (rule ext) (simp add: fastunalignedunpack7_16_def unaligned_simps del: One_nat_def add_Suc_right)

lemma fastunalignedunpack8_16_eq: "fastunalignedunpack8_16 = unpack_unaligned 16 8"
  by (rule ext) (simp add: fastunalignedunpack8_16_def unaligned_simps del: One_nat_def add_Suc_right)

lemma fastunalignedunpack9_16_eq: "fastunalignedunpack9_16 = unpack_unaligned 16 9"
  by (rule ext) (simp add: fastunalignedunpack9_16_def unaligned_simps del: One_nat_def add_Suc_right)

lemma fastunalignedunpack10_16_eq: "fastunalignedunpack10_16 = unpack_unaligned 16 10"
  by (rule ext) (simp add: fastunalignedunpack10_16_def unaligned_simps del: One_nat_def add_Suc_right)

lemma fastunalignedunpack11_16_eq: "fastunalignedunpack11_16 = unpack_unaligned 16 11"
  by (rule ext) (simp add: fastunalignedunpack11_16_def unaligned_simps del: One_nat_def add_Suc_right)

lemma fastunalignedunpack12_16_eq: "fastunalignedunpack12_16 = unpack_unaligned 16 12"
  by (rule ext) (simp add: fastunalignedunpack12_16_def unaligned_simps del: One_nat_def add_Suc_right)

lemma fastunalignedunpack13_16_eq: "fastunalignedunpack13_16 = unpack_unaligned 16 13"
  by (rule ext) (simp add: fastunalignedunpack13_16_def unaligned_simps del: One_nat_def add_Suc_right)

lemma fastunalignedunpack14_16_eq: "fastunalignedunpack14_16 = unpack_unaligned 16 14"
  by (rule ext) (simp add: fastunalignedunpack14_16_def unaligned_simps del: One_nat_def add_Suc_right)

lemma fastunalignedunpack15_16_eq: "fastunalignedunpack15_16 = unpack_unaligned 16 15"
  by (rule ext) (simp add: fastunalignedunpack15_16_def unaligned_simps del: One_nat_def add_Suc_right)

lemma fastunalignedunpack16_16_eq: "fastunalignedunpack16_16 = unpack_unaligned 16 16"
  by (rule ext) (simp add: fastunalignedunpack16_16_def unaligned_simps del: One_nat_def add_Suc_right)

lemma fastunalignedunpack17_16_eq: "fastunalignedunpack17_16 = unpack_unaligned 16 17"
  by (rule ext) (simp add: fastunalignedunpack17_16_def unaligned_simps del: One_nat_def add_Suc_right)

lemma fastunalignedunpack18_16_eq: "fastunalignedunpack18_16 = unpack_unaligned 16 18"
  by (rule ext) (simp add: fastunalignedunpack18_16_def unaligned_simps del: One_nat_def add_Suc_right)

lemma fastunalignedunpack19_16_eq: "fastunalignedunpack19_16 = unpack_unaligned 16 19"
  by (rule ext) (simp add: fastunalignedunpack19_16_def unaligned_simps del: One_nat_def add_Suc_right)

lemma fastunalignedunpack20_16_eq: "fastunalignedunpack20_16 = unpack_unaligned 16 20"
  by (rule ext) (simp add: fastunalignedunpack20_16_def unaligned_simps del: One_nat_def add_Suc_right)

lemma fastunalignedunpack21_16_eq: "fastunalignedunpack21_16 = unpack_unaligned 16 21"
  by (rule ext) (simp add: fastunalignedunpack21_16_def unaligned_simps del: One_nat_def add_Suc_right)

lemma fastunalignedunpack22_16_eq: "fastunalignedunpack22_16 = unpack_unaligned 16 22"
  by (rule ext) (simp add: fastunalignedunpack22_16_def unaligned_simps del: One_nat_def add_Suc_right)

lemma fastunalignedunpack23_16_eq: "fastunalignedunpack23_16 = unpack_unaligned 16 23"
  by (rule ext) (simp add: fastunalignedunpack23_16_def unaligned_simps del: One_nat_def add_Suc_right)

lemma fastunalignedunpack24_16_eq: "fastunalignedunpack24_16 = unpack_unaligned 16 24"
  by (rule ext) (simp add: fastunalignedunpack24_16_def unaligned_simps del: One_nat_def add_Suc_right)

lemma fastunalignedunpack25_16_eq: "fastunalignedunpack25_16 = unpack_unaligned 16 25"
  by (rule ext) (simp add: fastunalignedunpack25_16_def unaligned_simps del: One_nat_def add_Suc_right)

lemma fastunalignedunpack26_16_eq: "fastunalignedunpack26_16 = unpack_unaligned 16 26"
  by (rule ext) (simp add: fastunalignedunpack26_16_def unaligned_simps del: One_nat_def add_Suc_right)

lemma fastunalignedunpack27_16_eq: "fastunalignedunpack27_16 = unpack_unaligned 16 27"
  by (rule ext) (simp add: fastunalignedunpack27_16_def unaligned_simps del: One_nat_def add_Suc_right)

lemma fastunalignedunpack28_16_eq: "fastunalignedunpack28_16 = unpack_unaligned 16 28"
  by (rule ext) (simp add: fastunalignedunpack28_16_def unaligned_simps del: One_nat_def add_Suc_right)

lemma fastunalignedunpack29_16_eq: "fastunalignedunpack29_16 = unpack_unaligned 16 29"
  by (rule ext) (simp add: fastunalignedunpack29_16_def unaligned_simps del: One_nat_def add_Suc_right)

lemma fastunalignedunpack30_16_eq: "fastunalignedunpack30_16 = unpack_unaligned 16 30"
  by (rule ext) (simp add: fastunalignedunpack30_16_def unaligned_simps del: One_nat_def add_Suc_right)

lemma fastunalignedunpack31_16_eq: "fastunalignedunpack31_16 = unpack_unaligned 16 31"
  by (rule ext) (simp add: fastunalignedunpack31_16_def unaligned_simps del: One_nat_def add_Suc_right)

lemma fastunalignedunpack32_16_eq: "fastunalignedunpack32_16 = unpack_unaligned 16 32"
  by (rule ext) (simp add: fastunalignedunpack32_16_def unaligned_simps del: One_nat_def add_Suc_right)

lemma fastunalignedpackwithoutmask1_16_eq: "fastunalignedpackwithoutmask1_16 = pack_unaligned 16 1"
  by (rule ext, simp add: fastunalignedpackwithoutmask1_16_def unaligned_words del: One_nat_def add_Suc_right)
     (simp add: pack_short_simps del: One_nat_def add_Suc_right)

lemma fastunalignedpackwithoutmask2_16_eq: "fastunalignedpackwithoutmask2_16 = pack_unaligned 16 2"
  by (rule ext, simp add: fastunalignedpackwithoutmask2_16_def unaligned_words del: One_nat_def add_Suc_right)
     (simp add: pack_short_simps del: One_nat_def add_Suc_right)

lemma fastunalignedpackwithoutmask3_16_eq: "fastunalignedpackwithoutmask3_16 = pack_unaligned 16 3"
  by (rule ext, simp add: fastunalignedpackwithoutmask3_16_def unaligned_words del: One_nat_def add_Suc_right)
     (simp add: pack_short_simps del: One_nat_def add_Suc_right)

lemma fastunalignedpackwithoutmask4_16_eq: "fastunalignedpackwithoutmask4_16 = pack_unaligned 16 4"
  by (rule ext, simp add: fastunalignedpackwithoutmask4_16_def unaligned_words del: One_nat_def add_Suc_right)
     (simp add: pack_short_simps del: One_nat_def add_Suc_right)

lemma fastunalignedpackwithoutmask5_16_eq: "fastunalignedpackwithoutmask5_16 = pack_unaligned 16 5"
  by (rule ext, simp add: fastunalignedpackwithoutmask5_16_def unaligned_words del: One_nat_def add_Suc_right)
     (simp add: pack_short_simps del: One_nat_def add_Suc_right)

lemma fastunalignedpackwithoutmask6_16_eq: "fastunalignedpackwithoutmask6_16 = pack_unaligned 16 6"
  by (rule ext, simp add: fastunalignedpackwithoutmask6_16_def unaligned_words del: One_nat_def add_Suc_right)
     (simp add: pack_short_simps del: One_nat_def add_Suc_right)

lemma fastunalignedpackwithoutmask7_16_eq: "fastunalignedpackwithoutmask7_16 = pack_unaligned 16 7"
  by (rule ext, simp add: fastunalignedpackwithoutmask7_16_def unaligned_words del: One_nat_def add_Suc_right)
     (simp add: pack_short_simps del: One_nat_def add_Suc_right)

lemma fastunalignedpackwithoutmask8_16_eq: "fastunalignedpackwithoutmask8_16 = pack_unaligned 16 8"
  by (rule ext, simp add: fastunalignedpackwithoutmask8_16_def unaligned_words del: One_nat_def add_Suc_right)
     (simp add: pack_short_simps del: One_nat_def add_Suc_right)

lemma fastunalignedpackwithoutmask9_16_eq: "fastunalignedpackwithoutmask9_16 = pack_unaligned 16 9"
  by (rule ext, simp add: fastunalignedpackwithoutmask9_16_def unaligned_words del: One_nat_def add_Suc_right)
     (simp add: pack_short_simps del: One_nat_def add_Suc_right)

lemma fastunalignedpackwithoutmask10_16_eq: "fastunalignedpackwithoutmask10_16 = pack_unaligned 16 10"
  by (rule ext, simp add: fastunalignedpackwithoutmask10_16_def unaligned_words del: One_nat_def add_Suc_right)
     (simp add: pack_short_simps del: One_nat_def add_Suc_right)

lemma fastunalignedpackwithoutmask11_16_eq: "fastunalignedpackwithoutmask11_16 = pack_unaligned 16 11"
  by (rule ext, simp add: fastunalignedpackwithoutmask11_16_def unaligned_words del: One_nat_def add_Suc_right)
     (simp add: pack_short_simps del: One_nat_def add_Suc_right)

lemma fastunalignedpackwithoutmask12_16_eq: "fastunalignedpackwithoutmask12_16 = pack_unaligned 16 12"
  by (rule ext, simp add: fastunalignedpackwithoutmask12_16_def unaligned_words del: One_nat_def add_Suc_right)
     (simp add: pack_short_simps del: One_nat_def add_Suc_right)

lemma fastunalignedpackwithoutmask13_16_eq: "fastunalignedpackwithoutmask13_16 = pack_unaligned 16 13"
  by (rule ext, simp add: fastunalignedpackwithoutmask13_16_def unaligned_words del: One_nat_def add_Suc_right)
     (simp add: pack_short_simps del: One_nat_def add_Suc_right)

lemma fastunalignedpackwithoutmask14_16_eq: "fastunalignedpackwithoutmask14_16 = pack_unaligned 16 14"
  by (rule ext, simp add: fastunalignedpackwithoutmask14_16_def unaligned_words del: One_nat_def add_Suc_right)
     (simp add: pack_short_simps del: One_nat_def add_Suc_right)

lemma fastunalignedpackwithoutmask15_16_eq: "fastunalignedpackwithoutmask15_16 = pack_unaligned 16 15"
  by (rule ext, simp add: fastunalignedpackwithoutmask15_16_def unaligned_words del: One_nat_def add_Suc_right)
     (simp add: pack_short_simps del: One_nat_def add_Suc_right)

lemma fastunalignedpackwithoutmask16_16_eq: "fastunalignedpackwithoutmask16_16 = pack_unaligned 16 16"
  by (rule ext, simp add: fastunalignedpackwithoutmask16_16_def unaligned_words del: One_nat_def add_Suc_right)
     (simp add: pack_short_simps del: One_nat_def add_Suc_right)

lemma fastunalignedpackwithoutmask17_16_eq: "fastunalignedpackwithoutmask17_16 = pack_unaligned 16 17"
  by (rule ext, simp add: fastunalignedpackwithoutmask17_16_def unaligned_words del: One_nat_def add_Suc_right)
     (simp add: pack_short_simps del: One_nat_def add_Suc_right)

lemma fastunalignedpackwithoutmask18_16_eq: "fastunalignedpackwithoutmask18_16 = pack_unaligned 16 18"
  by (rule ext, simp add: fastunalignedpackwithoutmask18_16_def unaligned_words del: One_nat_def add_Suc_right)
     (simp add: pack_short_simps del: One_nat_def add_Suc_right)

lemma fastunalignedpackwithoutmask19_16_eq: "fastunalignedpackwithoutmask19_16 = pack_unaligned 16 19"
  by (rule ext, simp add: fastunalignedpackwithoutmask19_16_def unaligned_words del: One_nat_def add_Suc_right)
     (simp add: pack_short_simps del: One_nat_def add_Suc_right)

lemma fastunalignedpackwithoutmask20_16_eq: "fastunalignedpackwithoutmask20_16 = pack_unaligned 16 20"
  by (rule ext, simp add: fastunalignedpackwithoutmask20_16_def unaligned_words del: One_nat_def add_Suc_right)
     (simp add: pack_short_simps del: One_nat_def add_Suc_right)

lemma fastunalignedpackwithoutmask21_16_eq: "fastunalignedpackwithoutmask21_16 = pack_unaligned 16 21"
  by (rule ext, simp add: fastunalignedpackwithoutmask21_16_def unaligned_words del: One_nat_def add_Suc_right)
     (simp add: pack_short_simps del: One_nat_def add_Suc_right)

lemma fastunalignedpackwithoutmask22_16_eq: "fastunalignedpackwithoutmask22_16 = pack_unaligned 16 22"
  by (rule ext, simp add: fastunalignedpackwithoutmask22_16_def unaligned_words del: One_nat_def add_Suc_right)
     (simp add: pack_short_simps del: One_nat_def add_Suc_right)

lemma fastunalignedpackwithoutmask23_16_eq: "fastunalignedpackwithoutmask23_16 = pack_unaligned 16 23"
  by (rule ext, simp add: fastunalignedpackwithoutmask23_16_def unaligned_words del: One_nat_def add_Suc_right)
     (simp add: pack_short_simps del: One_nat_def add_Suc_right)

lemma fastunalignedpackwithoutmask24_16_eq: "fastunalignedpackwithoutmask24_16 = pack_unaligned 16 24"
  by (rule ext, simp add: fastunalignedpackwithoutmask24_16_def unaligned_words del: One_nat_def add_Suc_right)
     (simp add: pack_short_simps del: One_nat_def add_Suc_right)

lemma fastunalignedpackwithoutmask25_16_eq: "fastunalignedpackwithoutmask25_16 = pack_unaligned 16 25"
  by (rule ext, simp add: fastunalignedpackwithoutmask25_16_def unaligned_words del: One_nat_def add_Suc_right)
     (simp add: pack_short_simps del: One_nat_def add_Suc_right)

lemma fastunalignedpackwithoutmask26_16_eq: "fastunalignedpackwithoutmask26_16 = pack_unaligned 16 26"
  by (rule ext, simp add: fastunalignedpackwithoutmask26_16_def unaligned_words del: One_nat_def add_Suc_right)
     (simp add: pack_short_simps del: One_nat_def add_Suc_right)

lemma fastunalignedpackwithoutmask27_16_eq: "fastunalignedpackwithoutmask27_16 = pack_unaligned 16 27"
  by (rule ext, simp add: fastunalignedpackwithoutmask27_16_def unaligned_words del: One_nat_def add_Suc_right)
     (simp add: pack_short_simps del: One_nat_def add_Suc_right)

lemma fastunalignedpackwithoutmask28_16_eq: "fastunalignedpackwithoutmask28_16 = pack_unaligned 16 28"
  by (rule ext, simp add: fastunalignedpackwithoutmask28_16_def unaligned_words del: One_nat_def add_Suc_right)
     (simp add: pack_short_simps del: One_nat_def add_Suc_right)

lemma fastunalignedpackwithoutmask29_16_eq: "fastunalignedpackwithoutmask29_16 = pack_unaligned 16 29"
  by (rule ext, simp add: fastunalignedpackwithoutmask29_16_def unaligned_words del: One_nat_def add_Suc_right)
     (simp add: pack_short_simps del: One_nat_def add_Suc_right)

lemma fastunalignedpackwithoutmask30_16_eq: "fastunalignedpackwithoutmask30_16 = pack_unaligned 16 30"
  by (rule ext, simp add: fastunalignedpackwithoutmask30_16_def unaligned_words del: One_nat_def add_Suc_right)
     (simp add: pack_short_simps del: One_nat_def add_Suc_right)

lemma fastunalignedpackwithoutmask31_16_eq: "fastunalignedpackwithoutmask31_16 = pack_unaligned 16 31"
  by (rule ext, simp add: fastunalignedpackwithoutmask31_16_def unaligned_words del: One_nat_def add_Suc_right)
     (simp add: pack_short_simps del: One_nat_def add_Suc_right)

lemma fastunalignedpackwithoutmask32_16_eq: "fastunalignedpackwithoutmask32_16 = pack_unaligned 16 32"
  by (rule ext, simp add: fastunalignedpackwithoutmask32_16_def unaligned_words del: One_nat_def add_Suc_right)
     (simp add: pack_short_simps del: One_nat_def add_Suc_right)

lemma fastunalignedbyteunpack1_16_eq: "fastunalignedbyteunpack1_16 = unpack_bytes 16 1"
  by (rule ext) (simp add: fastunalignedbyteunpack1_16_def byte_unpack_simps del: One_nat_def add_Suc_right)

lemma fastunalignedbyteunpack2_16_eq: "fastunalignedbyteunpack2_16 = unpack_bytes 16 2"
  by (rule ext) (simp add: fastunalignedbyteunpack2_16_def byte_unpack_simps del: One_nat_def add_Suc_right)

lemma fastunalignedbyteunpack3_16_eq: "fastunalignedbyteunpack3_16 = unpack_bytes 16 3"
  by (rule ext) (simp add: fastunalignedbyteunpack3_16_def byte_unpack_simps del: One_nat_def add_Suc_right)

lemma fastunalignedbyteunpack4_16_eq: "fastunalignedbyteunpack4_16 = unpack_bytes 16 4"
  by (rule ext) (simp add: fastunalignedbyteunpack4_16_def byte_unpack_simps del: One_nat_def add_Suc_right)

lemma fastunalignedbyteunpack5_16_eq: "fastunalignedbyteunpack5_16 = unpack_bytes 16 5"
  by (rule ext) (simp add: fastunalignedbyteunpack5_16_def byte_unpack_simps del: One_nat_def add_Suc_right)

lemma fastunalignedbyteunpack6_16_eq: "fastunalignedbyteunpack6_16 = unpack_bytes 16 6"
  by (rule ext) (simp add: fastunalignedbyteunpack6_16_def byte_unpack_simps del: One_nat_def add_Suc_right)

lemma fastunalignedbyteunpack7_16_eq: "fastunalignedbyteunpack7_16 = unpack_bytes 16 7"
  by (rule ext) (simp add: fastunalignedbyteunpack7_16_def byte_unpack_simps del: One_nat_def add_Suc_right)

lemma fastunalignedbyteunpack8_16_eq: "fastunalignedbyteunpack8_16 = unpack_bytes 16 8"
  by (rule ext) (simp add: fastunalignedbyteunpack8_16_def byte_unpack_simps del: One_nat_def add_Suc_right)

lemma fastunalignedbytepackwithoutmask1_16_eq: "fastunalignedbytepackwithoutmask1_16 = pack_bytes 16 1"
  by (rule ext, simp add: fastunalignedbytepackwithoutmask1_16_def byte_pack_words del: One_nat_def add_Suc_right)
     (simp add: byte_pack_simps del: One_nat_def add_Suc_right)

lemma fastunalignedbytepackwithoutmask2_16_eq: "fastunalignedbytepackwithoutmask2_16 = pack_bytes 16 2"
  by (rule ext, simp add: fastunalignedbytepackwithoutmask2_16_def byte_pack_words del: One_nat_def add_Suc_right)
     (simp add: byte_pack_simps del: One_nat_def add_Suc_right)

lemma fastunalignedbytepackwithoutmask3_16_eq: "fastunalignedbytepackwithoutmask3_16 = pack_bytes 16 3"
  by (rule ext, simp add: fastunalignedbytepackwithoutmask3_16_def byte_pack_words del: One_nat_def add_Suc_right)
     (simp add: byte_pack_simps del: One_nat_def add_Suc_right)

lemma fastunalignedbytepackwithoutmask4_16_eq: "fastunalignedbytepackwithoutmask4_16 = pack_bytes 16 4"
  by (rule ext, simp add: fastunalignedbytepackwithoutmask4_16_def byte_pack_words del: One_nat_def add_Suc_right)
     (simp add: byte_pack_simps del: One_nat_def add_Suc_right)

lemma fastunalignedbytepackwithoutmask5_16_eq: "fastunalignedbytepackwithoutmask5_16 = pack_bytes 16 5"
  by (rule ext, simp add: fastunalignedbytepackwithoutmask5_16_def byte_pack_words del: One_nat_def add_Suc_right)
     (simp add: byte_pack_simps del: One_nat_def add_Suc_right)

lemma fastunalignedbytepackwithoutmask6_16_eq: "fastunalignedbytepackwithoutmask6_16 = pack_bytes 16 6"
  by (rule ext, simp add: fastunalignedbytepackwithoutmask6_16_def byte_pack_words del: One_nat_def add_Suc_right)
     (simp add: byte_pack_simps del: One_nat_def add_Suc_right)

lemma fastunalignedbytepackwithoutmask7_16_eq: "fastunalignedbytepackwithoutmask7_16 = pack_bytes 16 7"
  by (rule ext, simp add: fastunalignedbytepackwithoutmask7_16_def byte_pack_words del: One_nat_def add_Suc_right)
     (simp add: byte_pack_simps del: One_nat_def add_Suc_right)

lemma fastunalignedbytepackwithoutmask8_16_eq: "fastunalignedbytepackwithoutmask8_16 = pack_bytes 16 8"
  by (rule ext, simp add: fastunalignedbytepackwithoutmask8_16_def byte_pack_words del: One_nat_def add_Suc_right)
     (simp add: byte_pack_simps del: One_nat_def add_Suc_right)

section \<open>The routines in the order of their widths\<close>

definition fastunalignedunpack_8_table :: "(u32 list \<Rightarrow> u32 list \<times> nat) list" where
  "fastunalignedunpack_8_table =
    [nullunalignedunpacker8, fastunalignedunpack1_8, fastunalignedunpack2_8, fastunalignedunpack3_8,
     fastunalignedunpack4_8, fastunalignedunpack5_8, fastunalignedunpack6_8, fastunalignedunpack7_8,
     fastunalignedunpack8_8, fastunalignedunpack9_8, fastunalignedunpack10_8, fastunalignedunpack11_8,
     fastunalignedunpack12_8, fastunalignedunpack13_8, fastunalignedunpack14_8, fastunalignedunpack15_8,
     fastunalignedunpack16_8, fastunalignedunpack17_8, fastunalignedunpack18_8, fastunalignedunpack19_8,
     fastunalignedunpack20_8, fastunalignedunpack21_8, fastunalignedunpack22_8, fastunalignedunpack23_8,
     fastunalignedunpack24_8, fastunalignedunpack25_8, fastunalignedunpack26_8, fastunalignedunpack27_8,
     fastunalignedunpack28_8, fastunalignedunpack29_8, fastunalignedunpack30_8, fastunalignedunpack31_8,
     fastunalignedunpack32_8]"

lemma fastunalignedunpack_8_table_eq: "fastunalignedunpack_8_table = map (unpack_unaligned 8) [0..<33]"
  by (simp add: fastunalignedunpack_8_table_def
    nullunalignedunpacker8_eq fastunalignedunpack1_8_eq fastunalignedunpack2_8_eq fastunalignedunpack3_8_eq
    fastunalignedunpack4_8_eq fastunalignedunpack5_8_eq fastunalignedunpack6_8_eq fastunalignedunpack7_8_eq
    fastunalignedunpack8_8_eq fastunalignedunpack9_8_eq fastunalignedunpack10_8_eq fastunalignedunpack11_8_eq
    fastunalignedunpack12_8_eq fastunalignedunpack13_8_eq fastunalignedunpack14_8_eq fastunalignedunpack15_8_eq
    fastunalignedunpack16_8_eq fastunalignedunpack17_8_eq fastunalignedunpack18_8_eq fastunalignedunpack19_8_eq
    fastunalignedunpack20_8_eq fastunalignedunpack21_8_eq fastunalignedunpack22_8_eq fastunalignedunpack23_8_eq
    fastunalignedunpack24_8_eq fastunalignedunpack25_8_eq fastunalignedunpack26_8_eq fastunalignedunpack27_8_eq
    fastunalignedunpack28_8_eq fastunalignedunpack29_8_eq fastunalignedunpack30_8_eq fastunalignedunpack31_8_eq
    fastunalignedunpack32_8_eq
    upt_step del: One_nat_def add_Suc_right)

definition fastunalignedpackwithoutmask_8_table :: "(u32 list \<Rightarrow> u32 list \<times> nat) list" where
  "fastunalignedpackwithoutmask_8_table =
    [nullunalignedpacker, fastunalignedpackwithoutmask1_8, fastunalignedpackwithoutmask2_8,
     fastunalignedpackwithoutmask3_8, fastunalignedpackwithoutmask4_8, fastunalignedpackwithoutmask5_8,
     fastunalignedpackwithoutmask6_8, fastunalignedpackwithoutmask7_8, fastunalignedpackwithoutmask8_8,
     fastunalignedpackwithoutmask9_8, fastunalignedpackwithoutmask10_8, fastunalignedpackwithoutmask11_8,
     fastunalignedpackwithoutmask12_8, fastunalignedpackwithoutmask13_8, fastunalignedpackwithoutmask14_8,
     fastunalignedpackwithoutmask15_8, fastunalignedpackwithoutmask16_8, fastunalignedpackwithoutmask17_8,
     fastunalignedpackwithoutmask18_8, fastunalignedpackwithoutmask19_8, fastunalignedpackwithoutmask20_8,
     fastunalignedpackwithoutmask21_8, fastunalignedpackwithoutmask22_8, fastunalignedpackwithoutmask23_8,
     fastunalignedpackwithoutmask24_8, fastunalignedpackwithoutmask25_8, fastunalignedpackwithoutmask26_8,
     fastunalignedpackwithoutmask27_8, fastunalignedpackwithoutmask28_8, fastunalignedpackwithoutmask29_8,
     fastunalignedpackwithoutmask30_8, fastunalignedpackwithoutmask31_8, fastunalignedpackwithoutmask32_8]"

lemma fastunalignedpackwithoutmask_8_table_eq: "fastunalignedpackwithoutmask_8_table = map (pack_unaligned 8) [0..<33]"
  by (simp add: fastunalignedpackwithoutmask_8_table_def
    nullunalignedpacker_eq [of 8] fastunalignedpackwithoutmask1_8_eq fastunalignedpackwithoutmask2_8_eq
    fastunalignedpackwithoutmask3_8_eq fastunalignedpackwithoutmask4_8_eq fastunalignedpackwithoutmask5_8_eq
    fastunalignedpackwithoutmask6_8_eq fastunalignedpackwithoutmask7_8_eq fastunalignedpackwithoutmask8_8_eq
    fastunalignedpackwithoutmask9_8_eq fastunalignedpackwithoutmask10_8_eq fastunalignedpackwithoutmask11_8_eq
    fastunalignedpackwithoutmask12_8_eq fastunalignedpackwithoutmask13_8_eq fastunalignedpackwithoutmask14_8_eq
    fastunalignedpackwithoutmask15_8_eq fastunalignedpackwithoutmask16_8_eq fastunalignedpackwithoutmask17_8_eq
    fastunalignedpackwithoutmask18_8_eq fastunalignedpackwithoutmask19_8_eq fastunalignedpackwithoutmask20_8_eq
    fastunalignedpackwithoutmask21_8_eq fastunalignedpackwithoutmask22_8_eq fastunalignedpackwithoutmask23_8_eq
    fastunalignedpackwithoutmask24_8_eq fastunalignedpackwithoutmask25_8_eq fastunalignedpackwithoutmask26_8_eq
    fastunalignedpackwithoutmask27_8_eq fastunalignedpackwithoutmask28_8_eq fastunalignedpackwithoutmask29_8_eq
    fastunalignedpackwithoutmask30_8_eq fastunalignedpackwithoutmask31_8_eq fastunalignedpackwithoutmask32_8_eq
    upt_step del: One_nat_def add_Suc_right)

definition fastunalignedbyteunpack_8_table :: "(u8 list \<Rightarrow> u8 list) list" where
  "fastunalignedbyteunpack_8_table =
    [nullbyteunpacker8, fastunalignedbyteunpack1_8, fastunalignedbyteunpack2_8, fastunalignedbyteunpack3_8,
     fastunalignedbyteunpack4_8, fastunalignedbyteunpack5_8, fastunalignedbyteunpack6_8, fastunalignedbyteunpack7_8,
     fastunalignedbyteunpack8_8]"

lemma fastunalignedbyteunpack_8_table_eq: "fastunalignedbyteunpack_8_table = map (unpack_bytes 8) [0..<9]"
  by (simp add: fastunalignedbyteunpack_8_table_def
    nullbyteunpacker8_eq fastunalignedbyteunpack1_8_eq fastunalignedbyteunpack2_8_eq fastunalignedbyteunpack3_8_eq
    fastunalignedbyteunpack4_8_eq fastunalignedbyteunpack5_8_eq fastunalignedbyteunpack6_8_eq
    fastunalignedbyteunpack7_8_eq fastunalignedbyteunpack8_8_eq
    upt_step del: One_nat_def add_Suc_right)

definition fastunalignedbytepackwithoutmask_8_table :: "(u8 list \<Rightarrow> u8 list) list" where
  "fastunalignedbytepackwithoutmask_8_table =
    [nullbytepacker, fastunalignedbytepackwithoutmask1_8, fastunalignedbytepackwithoutmask2_8,
     fastunalignedbytepackwithoutmask3_8, fastunalignedbytepackwithoutmask4_8, fastunalignedbytepackwithoutmask5_8,
     fastunalignedbytepackwithoutmask6_8, fastunalignedbytepackwithoutmask7_8, fastunalignedbytepackwithoutmask8_8]"

lemma fastunalignedbytepackwithoutmask_8_table_eq: "fastunalignedbytepackwithoutmask_8_table = map (pack_bytes 8) [0..<9]"
  by (simp add: fastunalignedbytepackwithoutmask_8_table_def
    nullbytepacker_eq [of 8] fastunalignedbytepackwithoutmask1_8_eq fastunalignedbytepackwithoutmask2_8_eq
    fastunalignedbytepackwithoutmask3_8_eq fastunalignedbytepackwithoutmask4_8_eq
    fastunalignedbytepackwithoutmask5_8_eq fastunalignedbytepackwithoutmask6_8_eq
    fastunalignedbytepackwithoutmask7_8_eq fastunalignedbytepackwithoutmask8_8_eq
    upt_step del: One_nat_def add_Suc_right)

definition fastunalignedunpack_16_table :: "(u32 list \<Rightarrow> u32 list \<times> nat) list" where
  "fastunalignedunpack_16_table =
    [nullunalignedunpacker16, fastunalignedunpack1_16, fastunalignedunpack2_16, fastunalignedunpack3_16,
     fastunalignedunpack4_16, fastunalignedunpack5_16, fastunalignedunpack6_16, fastunalignedunpack7_16,
     fastunalignedunpack8_16, fastunalignedunpack9_16, fastunalignedunpack10_16, fastunalignedunpack11_16,
     fastunalignedunpack12_16, fastunalignedunpack13_16, fastunalignedunpack14_16, fastunalignedunpack15_16,
     fastunalignedunpack16_16, fastunalignedunpack17_16, fastunalignedunpack18_16, fastunalignedunpack19_16,
     fastunalignedunpack20_16, fastunalignedunpack21_16, fastunalignedunpack22_16, fastunalignedunpack23_16,
     fastunalignedunpack24_16, fastunalignedunpack25_16, fastunalignedunpack26_16, fastunalignedunpack27_16,
     fastunalignedunpack28_16, fastunalignedunpack29_16, fastunalignedunpack30_16, fastunalignedunpack31_16,
     fastunalignedunpack32_16]"

lemma fastunalignedunpack_16_table_eq: "fastunalignedunpack_16_table = map (unpack_unaligned 16) [0..<33]"
  by (simp add: fastunalignedunpack_16_table_def
    nullunalignedunpacker16_eq fastunalignedunpack1_16_eq fastunalignedunpack2_16_eq fastunalignedunpack3_16_eq
    fastunalignedunpack4_16_eq fastunalignedunpack5_16_eq fastunalignedunpack6_16_eq fastunalignedunpack7_16_eq
    fastunalignedunpack8_16_eq fastunalignedunpack9_16_eq fastunalignedunpack10_16_eq fastunalignedunpack11_16_eq
    fastunalignedunpack12_16_eq fastunalignedunpack13_16_eq fastunalignedunpack14_16_eq fastunalignedunpack15_16_eq
    fastunalignedunpack16_16_eq fastunalignedunpack17_16_eq fastunalignedunpack18_16_eq fastunalignedunpack19_16_eq
    fastunalignedunpack20_16_eq fastunalignedunpack21_16_eq fastunalignedunpack22_16_eq fastunalignedunpack23_16_eq
    fastunalignedunpack24_16_eq fastunalignedunpack25_16_eq fastunalignedunpack26_16_eq fastunalignedunpack27_16_eq
    fastunalignedunpack28_16_eq fastunalignedunpack29_16_eq fastunalignedunpack30_16_eq fastunalignedunpack31_16_eq
    fastunalignedunpack32_16_eq
    upt_step del: One_nat_def add_Suc_right)

definition fastunalignedpackwithoutmask_16_table :: "(u32 list \<Rightarrow> u32 list \<times> nat) list" where
  "fastunalignedpackwithoutmask_16_table =
    [nullunalignedpacker, fastunalignedpackwithoutmask1_16, fastunalignedpackwithoutmask2_16,
     fastunalignedpackwithoutmask3_16, fastunalignedpackwithoutmask4_16, fastunalignedpackwithoutmask5_16,
     fastunalignedpackwithoutmask6_16, fastunalignedpackwithoutmask7_16, fastunalignedpackwithoutmask8_16,
     fastunalignedpackwithoutmask9_16, fastunalignedpackwithoutmask10_16, fastunalignedpackwithoutmask11_16,
     fastunalignedpackwithoutmask12_16, fastunalignedpackwithoutmask13_16, fastunalignedpackwithoutmask14_16,
     fastunalignedpackwithoutmask15_16, fastunalignedpackwithoutmask16_16, fastunalignedpackwithoutmask17_16,
     fastunalignedpackwithoutmask18_16, fastunalignedpackwithoutmask19_16, fastunalignedpackwithoutmask20_16,
     fastunalignedpackwithoutmask21_16, fastunalignedpackwithoutmask22_16, fastunalignedpackwithoutmask23_16,
     fastunalignedpackwithoutmask24_16, fastunalignedpackwithoutmask25_16, fastunalignedpackwithoutmask26_16,
     fastunalignedpackwithoutmask27_16, fastunalignedpackwithoutmask28_16, fastunalignedpackwithoutmask29_16,
     fastunalignedpackwithoutmask30_16, fastunalignedpackwithoutmask31_16, fastunalignedpackwithoutmask32_16]"

lemma fastunalignedpackwithoutmask_16_table_eq: "fastunalignedpackwithoutmask_16_table = map (pack_unaligned 16) [0..<33]"
  by (simp add: fastunalignedpackwithoutmask_16_table_def
    nullunalignedpacker_eq [of 16] fastunalignedpackwithoutmask1_16_eq fastunalignedpackwithoutmask2_16_eq
    fastunalignedpackwithoutmask3_16_eq fastunalignedpackwithoutmask4_16_eq fastunalignedpackwithoutmask5_16_eq
    fastunalignedpackwithoutmask6_16_eq fastunalignedpackwithoutmask7_16_eq fastunalignedpackwithoutmask8_16_eq
    fastunalignedpackwithoutmask9_16_eq fastunalignedpackwithoutmask10_16_eq fastunalignedpackwithoutmask11_16_eq
    fastunalignedpackwithoutmask12_16_eq fastunalignedpackwithoutmask13_16_eq fastunalignedpackwithoutmask14_16_eq
    fastunalignedpackwithoutmask15_16_eq fastunalignedpackwithoutmask16_16_eq fastunalignedpackwithoutmask17_16_eq
    fastunalignedpackwithoutmask18_16_eq fastunalignedpackwithoutmask19_16_eq fastunalignedpackwithoutmask20_16_eq
    fastunalignedpackwithoutmask21_16_eq fastunalignedpackwithoutmask22_16_eq fastunalignedpackwithoutmask23_16_eq
    fastunalignedpackwithoutmask24_16_eq fastunalignedpackwithoutmask25_16_eq fastunalignedpackwithoutmask26_16_eq
    fastunalignedpackwithoutmask27_16_eq fastunalignedpackwithoutmask28_16_eq fastunalignedpackwithoutmask29_16_eq
    fastunalignedpackwithoutmask30_16_eq fastunalignedpackwithoutmask31_16_eq fastunalignedpackwithoutmask32_16_eq
    upt_step del: One_nat_def add_Suc_right)

definition fastunalignedbyteunpack_16_table :: "(u8 list \<Rightarrow> u8 list) list" where
  "fastunalignedbyteunpack_16_table =
    [nullbyteunpacker16, fastunalignedbyteunpack1_16, fastunalignedbyteunpack2_16, fastunalignedbyteunpack3_16,
     fastunalignedbyteunpack4_16, fastunalignedbyteunpack5_16, fastunalignedbyteunpack6_16,
     fastunalignedbyteunpack7_16, fastunalignedbyteunpack8_16]"

lemma fastunalignedbyteunpack_16_table_eq: "fastunalignedbyteunpack_16_table = map (unpack_bytes 16) [0..<9]"
  by (simp add: fastunalignedbyteunpack_16_table_def
    nullbyteunpacker16_eq fastunalignedbyteunpack1_16_eq fastunalignedbyteunpack2_16_eq
    fastunalignedbyteunpack3_16_eq fastunalignedbyteunpack4_16_eq fastunalignedbyteunpack5_16_eq
    fastunalignedbyteunpack6_16_eq fastunalignedbyteunpack7_16_eq fastunalignedbyteunpack8_16_eq
    upt_step del: One_nat_def add_Suc_right)

definition fastunalignedbytepackwithoutmask_16_table :: "(u8 list \<Rightarrow> u8 list) list" where
  "fastunalignedbytepackwithoutmask_16_table =
    [nullbytepacker, fastunalignedbytepackwithoutmask1_16, fastunalignedbytepackwithoutmask2_16,
     fastunalignedbytepackwithoutmask3_16, fastunalignedbytepackwithoutmask4_16,
     fastunalignedbytepackwithoutmask5_16, fastunalignedbytepackwithoutmask6_16,
     fastunalignedbytepackwithoutmask7_16, fastunalignedbytepackwithoutmask8_16]"

lemma fastunalignedbytepackwithoutmask_16_table_eq: "fastunalignedbytepackwithoutmask_16_table = map (pack_bytes 16) [0..<9]"
  by (simp add: fastunalignedbytepackwithoutmask_16_table_def
    nullbytepacker_eq [of 16] fastunalignedbytepackwithoutmask1_16_eq fastunalignedbytepackwithoutmask2_16_eq
    fastunalignedbytepackwithoutmask3_16_eq fastunalignedbytepackwithoutmask4_16_eq
    fastunalignedbytepackwithoutmask5_16_eq fastunalignedbytepackwithoutmask6_16_eq
    fastunalignedbytepackwithoutmask7_16_eq fastunalignedbytepackwithoutmask8_16_eq
    upt_step del: One_nat_def add_Suc_right)

end
