(* ===== verification/Short_Tables.thy ===== *)
theory Short_Tables
  imports Aligned_Bitpack Unaligned_Bitpack
begin

text \<open>
  The width switches of \<open>source/util/compression/int/fastpfor/bitpackingunaligned.cpp\<close>, and one theorem on the routines of this file and of
  \<open>bitpackingaligned.cpp\<close>. The words or bytes in the input are those from the pointer \<open>in\<close> on. A width above 32, or above 8 for the byte routines,
  throws a \<open>logic_error\<close>.
\<close>

section \<open>The switches\<close>

definition unaligned_switch :: "nat \<Rightarrow> (nat \<Rightarrow> nat) \<Rightarrow> ('a list \<Rightarrow> 'b) list \<Rightarrow> 'a list \<Rightarrow> nat \<Rightarrow> 'b codec_result" where
  "unaligned_switch most needed table inp b =
     (if most < b then Some (Inl LogicError)
      else if length inp < needed b then None else Some (Inr ((table ! b) inp)))"

definition all_read :: "nat \<Rightarrow> nat \<Rightarrow> nat" where
  "all_read n b = (if b = 0 then 0 else n)"

definition fastunalignedunpack_8 :: "u32 list \<Rightarrow> nat \<Rightarrow> (u32 list \<times> nat) codec_result" where
  "fastunalignedunpack_8 inp b = unaligned_switch 32 (packed_words 8) fastunalignedunpack_8_table inp b"

definition fastunalignedpackwithoutmask_8 :: "u32 list \<Rightarrow> nat \<Rightarrow> (u32 list \<times> nat) codec_result" where
  "fastunalignedpackwithoutmask_8 inp b = unaligned_switch 32 (all_read 8) fastunalignedpackwithoutmask_8_table inp b"

definition fastunalignedbyteunpack_8 :: "u8 list \<Rightarrow> nat \<Rightarrow> u8 list codec_result" where
  "fastunalignedbyteunpack_8 inp b = unaligned_switch 8 (\<lambda>b. 8 * b div 8) fastunalignedbyteunpack_8_table inp b"

definition fastunalignedbytepackwithoutmask_8 :: "u8 list \<Rightarrow> nat \<Rightarrow> u8 list codec_result" where
  "fastunalignedbytepackwithoutmask_8 inp b = unaligned_switch 8 (all_read 8) fastunalignedbytepackwithoutmask_8_table inp b"

definition fastunalignedunpack_16 :: "u32 list \<Rightarrow> nat \<Rightarrow> (u32 list \<times> nat) codec_result" where
  "fastunalignedunpack_16 inp b = unaligned_switch 32 (packed_words 16) fastunalignedunpack_16_table inp b"

definition fastunalignedpackwithoutmask_16 :: "u32 list \<Rightarrow> nat \<Rightarrow> (u32 list \<times> nat) codec_result" where
  "fastunalignedpackwithoutmask_16 inp b = unaligned_switch 32 (all_read 16) fastunalignedpackwithoutmask_16_table inp b"

definition fastunalignedbyteunpack_16 :: "u8 list \<Rightarrow> nat \<Rightarrow> u8 list codec_result" where
  "fastunalignedbyteunpack_16 inp b = unaligned_switch 8 (\<lambda>b. 16 * b div 8) fastunalignedbyteunpack_16_table inp b"

definition fastunalignedbytepackwithoutmask_16 :: "u8 list \<Rightarrow> nat \<Rightarrow> u8 list codec_result" where
  "fastunalignedbytepackwithoutmask_16 inp b = unaligned_switch 8 (all_read 16) fastunalignedbytepackwithoutmask_16_table inp b"

section \<open>Properties\<close>

text \<open>C37. Each routine of the two files computes the reference packing or unpacking of its number and width of integers. In the references on
  words, bit \<open>k\<close> of the \<open>i\<close>-th integer is bit \<open>b * i + k\<close> of the words, read as one stream of bits.\<close>

theorem short_routines_match_reference:
  assumes "b \<le> 32"
  shows
    "fastunpack_8_table ! b = unpack_short 8 b \<and>
     fastpackwithoutmask_8_table ! b = pack_short 8 b \<and>
     fastunpack_16_table ! b = unpack_short 16 b \<and>
     fastpackwithoutmask_16_table ! b = pack_short 16 b \<and>
     fastunpack_24_table ! b = unpack_short 24 b \<and>
     fastpackwithoutmask_24_table ! b = pack_short 24 b \<and>
     fastunpack_32_table ! b = unpack_short 32 b \<and>
     fastpackwithoutmask_32_table ! b = pack_short 32 b \<and>
     fastunalignedunpack_8_table ! b = unpack_unaligned 8 b \<and>
     fastunalignedpackwithoutmask_8_table ! b = pack_unaligned 8 b \<and>
     fastunalignedunpack_16_table ! b = unpack_unaligned 16 b \<and>
     fastunalignedpackwithoutmask_16_table ! b = pack_unaligned 16 b \<and>
     (b \<le> 8 \<longrightarrow> fastunalignedbyteunpack_8_table ! b = unpack_bytes 8 b \<and>
        fastunalignedbytepackwithoutmask_8_table ! b = pack_bytes 8 b \<and>
        fastunalignedbyteunpack_16_table ! b = unpack_bytes 16 b \<and>
        fastunalignedbytepackwithoutmask_16_table ! b = pack_bytes 16 b) \<and>
     (\<forall>n ws i k. 0 < b \<and> i < n \<longrightarrow>
        bit (fst (unpack_short n b ws) ! i) k = (k < b \<and> bit (ws ! ((b * i + k) div 32)) ((b * i + k) mod 32)))"
proof -
  have len: "b < length [0..<33]" using assms by simp
  have up: "map f [0..<33] ! b = f b" for f :: "nat \<Rightarrow> 'c" using assms by (simp del: upt.simps)
  have up8: "b \<le> 8 \<Longrightarrow> map f [0..<9] ! b = f b" for f :: "nat \<Rightarrow> 'c" by (simp del: upt.simps)
  have bits: "bit (fst (unpack_short n b ws) ! i) k = (k < b \<and> bit (ws ! ((b * i + k) div 32)) ((b * i + k) mod 32))"
    if "0 < b" "i < n" for n ws i k
    using that assms by (simp add: unpack_short_def bit_field)
  show ?thesis
    by (simp add: up up8 bits fastunpack_8_table_eq fastpackwithoutmask_8_table_eq fastunpack_16_table_eq
        fastpackwithoutmask_16_table_eq fastunpack_24_table_eq fastpackwithoutmask_24_table_eq
        fastunpack_32_table_eq fastpackwithoutmask_32_table_eq fastunalignedunpack_8_table_eq
        fastunalignedpackwithoutmask_8_table_eq fastunalignedunpack_16_table_eq fastunalignedpackwithoutmask_16_table_eq
        fastunalignedbyteunpack_8_table_eq fastunalignedbytepackwithoutmask_8_table_eq fastunalignedbyteunpack_16_table_eq
        fastunalignedbytepackwithoutmask_16_table_eq del: upt.simps)
qed

theorem short_routines_match_reference_witness:
  "(fastpackwithoutmask_24_table ! 7) [1, 2, 3] = pack_short 24 7 [1, 2, 3] \<and>
    (fastunalignedbyteunpack_8_table ! 7) [9] = unpack_bytes 8 7 [9] \<and>
    bit (fst ((fastunpack_24_table ! 7) [128]) ! 1) 0"
proof -
  have seven: "(7 :: nat) \<le> 32" by simp
  note r = short_routines_match_reference [OF seven]
  have bits: "\<forall>n ws i k. 0 < (7 :: nat) \<and> i < n \<longrightarrow>
      bit (fst (unpack_short n 7 ws) ! i) k = (k < 7 \<and> bit (ws ! ((7 * i + k) div 32)) ((7 * i + k) mod 32))"
    using r by blast
  have "bit (fst (unpack_short 24 7 [128]) ! 1) 0 = bit (128 :: u32) 7"
    using bits [rule_format, of 1 24 "[128]" 0] by simp
  moreover have "bit (128 :: u32) 7" by (simp add: bit_numeral_rec(1) numeral_eq_Suc)
  ultimately show ?thesis using r by simp
qed

end
