(* ===== verification/Block_Packing.thy ===== *)
theory Block_Packing
  imports Aligned_Bitpack
begin

text \<open>
  The codecs \<open>BinaryPacking\<close>, \<open>FastBinaryPacking\<close> and \<open>BP32\<close> of \<open>include/util/compression/int/fastpfor/blockpacking.h\<close>. An array is cut into
  blocks of \<open>HowManyMiniBlocks\<close> miniblocks of \<open>MiniBlockSize\<close> integers, a positive template parameter; a block is stored as the widths of its miniblocks and then the
  miniblocks, each packed at its width. The three classes differ in the head that holds the widths and in the routines they
  pack with; the loops, which are the same in all of them, take these as arguments.
\<close>

section \<open>BinaryPacking\<close>

definition BinaryPacking_put :: "nat \<Rightarrow> u32 list \<Rightarrow> nat \<Rightarrow> u32 list codec_result" where
  "BinaryPacking_put MiniBlockSize inp b =
     (if MiniBlockSize = 8 then fastpackwithoutmask_8 inp b
      else if MiniBlockSize = 16 then fastpackwithoutmask_16 inp b
      else if MiniBlockSize = 24 then fastpackwithoutmask_24 inp b
      else if MiniBlockSize = 32 then fastpackwithoutmask_32 inp b
      else Some (Inl LogicError))"

definition BinaryPacking_get :: "nat \<Rightarrow> u32 list \<Rightarrow> nat \<Rightarrow> (u32 list \<times> nat) codec_result" where
  "BinaryPacking_get MiniBlockSize inp b =
     (if MiniBlockSize = 8 then fastunpack_8 inp b
      else if MiniBlockSize = 16 then fastunpack_16 inp b
      else if MiniBlockSize = 24 then fastunpack_24 inp b
      else if MiniBlockSize = 32 then fastunpack_32 inp b
      else Some (Inl LogicError))"

text \<open>The 16 widths are packed themselves, at \<open>bits32 = 6\<close> bits.\<close>

definition BinaryPacking_head :: "nat list \<Rightarrow> u32 list codec_result" where
  "BinaryPacking_head Bs = fastpackwithoutmask_16 (map of_nat Bs) 6"

definition BinaryPacking_widths :: "u32 list \<Rightarrow> (nat list \<times> nat) codec_result" where
  "BinaryPacking_widths inp = and_then (fastunpack_16 inp 6) (\<lambda>(Bs, n). Some (Inr (map unat Bs, n)))"

definition BinaryPacking_encode :: "nat \<Rightarrow> nat \<Rightarrow> u32 list \<Rightarrow> u32 list codec_result" where
  "BinaryPacking_encode MiniBlockSize = pack_array 16 MiniBlockSize BinaryPacking_head (BinaryPacking_put MiniBlockSize)"

definition BinaryPacking_decode :: "nat \<Rightarrow> u32 list \<Rightarrow> nat \<Rightarrow> nat \<Rightarrow> (u32 list \<times> u32 list) codec_result" where
  "BinaryPacking_decode MiniBlockSize = unpack_array 16 MiniBlockSize BinaryPacking_widths (BinaryPacking_get MiniBlockSize)"

section \<open>FastBinaryPacking and BP32\<close>

text \<open>\<open>fastunpack\<close> stores nothing at a width above 32, so that the output keeps what it held before: the model leaves
  this undefined. The routines of 32 integers do not return a pointer; the caller advances it by the width.\<close>

definition unpack32 :: "u32 list \<Rightarrow> nat \<Rightarrow> (u32 list \<times> nat) codec_result" where
  "unpack32 inp b = (if 32 < b then None else do { ws \<leftarrow> rd_seq inp 0 b; Some (Inr (fastunpack ws b, b)) })"

definition pack32 :: "u32 list \<Rightarrow> nat \<Rightarrow> u32 list codec_result" where
  "pack32 inp b = (if length inp < 32 then None else Some (Inr (fastpackwithoutmask inp b)))"

definition FastBinaryPacking_put :: "nat \<Rightarrow> u32 list \<Rightarrow> nat \<Rightarrow> u32 list codec_result" where
  "FastBinaryPacking_put MiniBlockSize inp b =
     (if MiniBlockSize = 8 then fastpackwithoutmask_8 inp b
      else if MiniBlockSize = 16 then fastpackwithoutmask_16 inp b
      else if MiniBlockSize = 24 then fastpackwithoutmask_24 inp b
      else if MiniBlockSize = 32 then pack32 inp b
      else Some (Inl LogicError))"

definition FastBinaryPacking_get :: "nat \<Rightarrow> u32 list \<Rightarrow> nat \<Rightarrow> (u32 list \<times> nat) codec_result" where
  "FastBinaryPacking_get MiniBlockSize inp b =
     (if MiniBlockSize = 8 then fastunpack_8 inp b
      else if MiniBlockSize = 16 then fastunpack_16 inp b
      else if MiniBlockSize = 24 then fastunpack_24 inp b
      else if MiniBlockSize = 32 then unpack32 inp b
      else Some (Inl LogicError))"

text \<open>The four widths share a word.\<close>

definition FastBinaryPacking_head :: "nat list \<Rightarrow> u32 list codec_result" where
  "FastBinaryPacking_head Bs = Some (Inr
     [push_bit 24 (of_nat (Bs ! 0)) OR push_bit 16 (of_nat (Bs ! 1)) OR push_bit 8 (of_nat (Bs ! 2)) OR of_nat (Bs ! 3)])"

definition FastBinaryPacking_widths :: "u32 list \<Rightarrow> (nat list \<times> nat) codec_result" where
  "FastBinaryPacking_widths inp = do {
     w \<leftarrow> rd inp 0;
     Some (Inr ([unat (ucast (drop_bit 24 w) :: u8), unat (ucast (drop_bit 16 w) :: u8),
                 unat (ucast (drop_bit 8 w) :: u8), unat (ucast w :: u8)], 1))
   }"

definition FastBinaryPacking_encode :: "nat \<Rightarrow> nat \<Rightarrow> u32 list \<Rightarrow> u32 list codec_result" where
  "FastBinaryPacking_encode MiniBlockSize =
     pack_array 4 MiniBlockSize FastBinaryPacking_head (FastBinaryPacking_put MiniBlockSize)"

definition FastBinaryPacking_decode :: "nat \<Rightarrow> u32 list \<Rightarrow> nat \<Rightarrow> nat \<Rightarrow> (u32 list \<times> u32 list) codec_result" where
  "FastBinaryPacking_decode MiniBlockSize =
     unpack_array 4 MiniBlockSize FastBinaryPacking_widths (FastBinaryPacking_get MiniBlockSize)"

definition BP32_encode :: "nat \<Rightarrow> u32 list \<Rightarrow> u32 list codec_result" where
  "BP32_encode = pack_array 4 32 FastBinaryPacking_head pack32"

definition BP32_decode :: "u32 list \<Rightarrow> nat \<Rightarrow> nat \<Rightarrow> (u32 list \<times> u32 list) codec_result" where
  "BP32_decode = unpack_array 4 32 FastBinaryPacking_widths unpack32"

section \<open>The classes as instances of the loops\<close>

definition supported :: "nat \<Rightarrow> bool" where
  "supported MiniBlockSize \<longleftrightarrow> MiniBlockSize = 8 \<or> MiniBlockSize = 16 \<or> MiniBlockSize = 24 \<or> MiniBlockSize = 32"

interpretation p32: chunk_coder 32 pack32 unpack32
proof
  fix b :: nat and xs :: "u32 list"
  assume a: "b \<le> 32" "length xs = 32" "\<And>x. x \<in> set xs \<Longrightarrow> take_bit b x = x"
  then have v: "list_all (\<lambda>x. take_bit b x = x) xs" by (simp add: list_all_iff)
  have "fastunpack (fastpackwithoutmask xs b) b = xs"
    using unmasked.up_pk [OF a(1,2) v] v by (simp add: list_all_iff map_idI)
  then show "\<exists>ws. pack32 xs b = Some (Inr ws) \<and> (\<forall>rest. unpack32 (ws @ rest) b = Some (Inr (xs, length ws)))"
    using a unmasked.pk_length [OF a(1,2)] by (simp add: pack32_def unpack32_def rd_seq_def)
qed

lemma BinaryPacking_chunks:
  assumes "supported M"
  shows "chunk_coder M (BinaryPacking_put M) (BinaryPacking_get M)"
    and "chunk_coder M (FastBinaryPacking_put M) (FastBinaryPacking_get M)"
  using assms c8.chunk_coder_axioms c16.chunk_coder_axioms c24.chunk_coder_axioms c32.chunk_coder_axioms
    p32.chunk_coder_axioms
  by (auto simp: supported_def BinaryPacking_put_def [abs_def] BinaryPacking_get_def [abs_def]
      FastBinaryPacking_put_def [abs_def] FastBinaryPacking_get_def [abs_def])

lemma BinaryPacking_heads:
  assumes "length Bs = 16" "\<And>b. b \<in> set Bs \<Longrightarrow> b \<le> 32"
  shows "\<exists>ws. BinaryPacking_head Bs = Some (Inr ws) \<and> (\<forall>rest. BinaryPacking_widths (ws @ rest) = Some (Inr (Bs, length ws)))"
proof -
  let ?xs = "map of_nat Bs :: u32 list"
  have "take_bit 6 x = x" if "x \<in> set ?xs" for x
  proof -
    from that assms(2) obtain b where b: "x = of_nat b" "b \<le> 32" by auto
    then show ?thesis by (simp add: take_bit_of_nat take_bit_nat_eq_self)
  qed
  from c16.chunk [OF _ _ this, of "?xs"] assms(1) obtain ws where
    ws: "fastpackwithoutmask_16 ?xs 6 = Some (Inr ws)" "\<And>rest. fastunpack_16 (ws @ rest) 6 = Some (Inr (?xs, length ws))"
    by auto
  have "map (unat \<circ> (of_nat :: nat \<Rightarrow> u32)) Bs = Bs"
    using assms(2) by (intro map_idI) (fastforce simp: unat_of_nat)
  then show ?thesis using ws by (simp add: BinaryPacking_head_def BinaryPacking_widths_def)
qed

lemma FastBinaryPacking_heads:
  assumes "length Bs = 4" "\<And>b. b \<in> set Bs \<Longrightarrow> b \<le> 32"
  shows "\<exists>ws. FastBinaryPacking_head Bs = Some (Inr ws) \<and>
    (\<forall>rest. FastBinaryPacking_widths (ws @ rest) = Some (Inr (Bs, length ws)))"
proof -
  from assms(1) obtain a b c d where Bs: "Bs = [a, b, c, d]" by (auto simp: numeral_eq_Suc length_Suc_conv)
  have t: "take_bit 8 (of_nat n :: u32) = of_nat n" "unat (ucast (of_nat n :: u32) :: u8) = n" if "n \<le> 32" for n
    using that by (simp_all add: take_bit_of_nat take_bit_nat_eq_self unsigned_ucast_eq unsigned_of_nat)
  have n: "a \<le> 32" "b \<le> 32" "c \<le> 32" "d \<le> 32" using assms(2) by (simp_all add: Bs)
  note bytes = head_bytes [OF t(1) [OF n(1)] t(1) [OF n(2)] t(1) [OF n(3)] t(1) [OF n(4)]]
  show ?thesis
    using n by (simp add: FastBinaryPacking_head_def FastBinaryPacking_widths_def Bs rd_def bytes t del: drop_bit_or)
qed

lemma BinaryPacking_blocks: "supported M \<Longrightarrow> mini_blocks M (BinaryPacking_put M) (BinaryPacking_get M) 16 BinaryPacking_head BinaryPacking_widths"
  by (intro mini_blocks.intro mini_blocks_axioms.intro BinaryPacking_chunks BinaryPacking_heads)
     (auto simp: supported_def)

lemma FastBinaryPacking_blocks:
  "supported M \<Longrightarrow> mini_blocks M (FastBinaryPacking_put M) (FastBinaryPacking_get M) 4 FastBinaryPacking_head FastBinaryPacking_widths"
  by (intro mini_blocks.intro mini_blocks_axioms.intro BinaryPacking_chunks FastBinaryPacking_heads)
     (auto simp: supported_def)

interpretation BP32: mini_blocks 32 pack32 unpack32 4 FastBinaryPacking_head FastBinaryPacking_widths
  by (intro mini_blocks.intro mini_blocks_axioms.intro p32.chunk_coder_axioms FastBinaryPacking_heads) simp_all

lemma BP32_is_FastBinaryPacking: "BP32_encode = FastBinaryPacking_encode 32" "BP32_decode = FastBinaryPacking_decode 32"
  by (simp_all add: BP32_encode_def BP32_decode_def FastBinaryPacking_encode_def FastBinaryPacking_decode_def
      FastBinaryPacking_put_def [abs_def] FastBinaryPacking_get_def [abs_def])

section \<open>Properties\<close>

text \<open>C38. The three classes restore every array of whole blocks in which no miniblock is zero, whatever words lie behind the encoded ones and however much longer
  the caller says they are, for every size of miniblocks they support; \<open>BP32\<close> is \<open>FastBinaryPacking\<close> for
  miniblocks of 32 integers.\<close>

theorem block_packing_round_trip:
  assumes "supported M" and "packable HowMany M xs"
    and "HowMany = 16 \<and> enc = BinaryPacking_encode M \<and> dec = BinaryPacking_decode M \<or>
      HowMany = 4 \<and> enc = FastBinaryPacking_encode M \<and> dec = FastBinaryPacking_decode M \<or>
      HowMany = 4 \<and> M = 32 \<and> enc = BP32_encode \<and> dec = BP32_decode"
  shows "\<exists>ws. (\<forall>cap. length ws \<le> cap \<longrightarrow> enc cap xs = Some (Inr ws)) \<and>
    (\<forall>nvalue len rest. length xs \<le> nvalue \<and> length ws \<le> len \<longrightarrow> dec (ws @ rest) len nvalue = Some (Inr (xs, rest)))"
  using assms(3)
proof (elim disjE conjE)
  assume "HowMany = 16" "enc = BinaryPacking_encode M" "dec = BinaryPacking_decode M"
  then show ?thesis
    using mini_blocks.packing_round_trip [OF BinaryPacking_blocks] assms(1,2)
    by (simp add: BinaryPacking_encode_def BinaryPacking_decode_def)
next
  assume "HowMany = 4" "enc = FastBinaryPacking_encode M" "dec = FastBinaryPacking_decode M"
  then show ?thesis
    using mini_blocks.packing_round_trip [OF FastBinaryPacking_blocks] assms(1,2)
    by (simp add: FastBinaryPacking_encode_def FastBinaryPacking_decode_def)
next
  assume "HowMany = 4" "M = 32" "enc = BP32_encode" "dec = BP32_decode"
  then show ?thesis using BP32.packing_round_trip assms(2) by (simp add: BP32_encode_def BP32_decode_def)
qed

lemma packable_sample: "packable 16 8 (replicate 128 5)" "packable 4 32 (replicate 128 5)"
  by (auto simp: packable_def no_zero_mini_def list_ex_iff)

theorem block_packing_round_trip_witness:
  "\<exists>ws. BinaryPacking_encode 8 (length ws) (replicate 128 5) = Some (Inr ws) \<and>
    BinaryPacking_decode 8 (ws @ [9]) (length ws) 128 = Some (Inr (replicate 128 5, [9]))"
  using block_packing_round_trip [of 8 16 "replicate 128 5" "BinaryPacking_encode 8" "BinaryPacking_decode 8"] packable_sample(1)
  by (auto simp: supported_def)

text \<open>What the encoders do with other arrays: a length that is no multiple of the block is refused, an unsupported size of miniblocks throws as soon as there
  is a block, and a miniblock of zeros is undefined, since its width is \<open>gccbits(0)\<close>.\<close>

theorem BinaryPacking_errors:
  assumes "0 < M"
  shows "length xs mod (16 * M) \<noteq> 0 \<Longrightarrow> BinaryPacking_encode M cap xs = Some (Inl (NotDivisible (length xs) (16 * M)))"
    and "\<lbrakk>length xs mod (16 * M) = 0; xs \<noteq> []; i < 16; list_all (\<lambda>x. x = 0) (take M (drop (i * M) xs))\<rbrakk> \<Longrightarrow>
      BinaryPacking_encode M cap xs = None"
proof -
  show "BinaryPacking_encode M cap xs = Some (Inl (NotDivisible (length xs) (16 * M)))" if "length xs mod (16 * M) \<noteq> 0"
    using that by (simp add: BinaryPacking_encode_def pack_array_def checkifdivisibleby_def)
next
  assume a: "length xs mod (16 * M) = 0" "xs \<noteq> []" "i < 16" "list_all (\<lambda>x. x = 0) (take M (drop (i * M) xs))"
  have "0 < length xs div (16 * M)" using a(1,2) assms by (metis div_greater_zero_iff gr0I length_0_conv mod_less mult_pos_pos not_le zero_less_numeral)
  then obtain k where k: "length xs div (16 * M) = Suc k" using gr0_implies_Suc by blast
  have "foldl (OR) 0 (take M (drop (i * M) xs)) = 0"
    using a(4) by (intro bit_eqI) (auto simp: bit_foldl_OR list_all_iff)
  then have "maxbits (take M (drop (i * M) xs)) = None" by (simp add: maxbits_def gccbits_eq)
  then have "None \<in> set (map (\<lambda>i. maxbits (take M (drop (i * M) xs))) [0..<16])" using a(3) by (force simp del: upt.simps)
  moreover have "None \<in> set ys \<Longrightarrow> those ys = None" for ys :: "nat option list"
    by (induction ys) (auto split: option.splits)
  ultimately have "mini_widths 16 M xs = None" unfolding mini_widths_def by blast
  then show "BinaryPacking_encode M cap xs = None"
    using a(1) k by (simp add: BinaryPacking_encode_def pack_array_def checkifdivisibleby_def emit_def within_def)
qed

end
