(* ===== verification/Scalar_Unpack.thy ===== *)
theory Scalar_Unpack
  imports Bitpack_Ref
begin

text \<open>
  The routines \<open>__fastunpack0\<close> to \<open>__fastunpack32\<close> of \<open>source/util/compression/simd-compression/bitpacking.cpp\<close>, the copy of the
  scalar bit packing that the codecs of simd-compression use. The routines for 4, 8 and 16 bits are loops, as in the source. Every routine is
  the reference unpacking of its width.
\<close>

section \<open>The routines\<close>

definition sc_fastunpack0 :: "u32 list \<Rightarrow> u32 list" where
  "sc_fastunpack0 inp = map (\<lambda>i. 0) [0..<32]"

definition sc_fastunpack1 :: "u32 list \<Rightarrow> u32 list" where
  "sc_fastunpack1 inp =
    [drop_bit 0 (inp ! 0) AND 1, drop_bit 1 (inp ! 0) AND 1, drop_bit 2 (inp ! 0) AND 1, drop_bit 3 (inp ! 0) AND 1,
     drop_bit 4 (inp ! 0) AND 1, drop_bit 5 (inp ! 0) AND 1, drop_bit 6 (inp ! 0) AND 1, drop_bit 7 (inp ! 0) AND 1,
     drop_bit 8 (inp ! 0) AND 1, drop_bit 9 (inp ! 0) AND 1, drop_bit 10 (inp ! 0) AND 1,
     drop_bit 11 (inp ! 0) AND 1, drop_bit 12 (inp ! 0) AND 1, drop_bit 13 (inp ! 0) AND 1,
     drop_bit 14 (inp ! 0) AND 1, drop_bit 15 (inp ! 0) AND 1, drop_bit 16 (inp ! 0) AND 1,
     drop_bit 17 (inp ! 0) AND 1, drop_bit 18 (inp ! 0) AND 1, drop_bit 19 (inp ! 0) AND 1,
     drop_bit 20 (inp ! 0) AND 1, drop_bit 21 (inp ! 0) AND 1, drop_bit 22 (inp ! 0) AND 1,
     drop_bit 23 (inp ! 0) AND 1, drop_bit 24 (inp ! 0) AND 1, drop_bit 25 (inp ! 0) AND 1,
     drop_bit 26 (inp ! 0) AND 1, drop_bit 27 (inp ! 0) AND 1, drop_bit 28 (inp ! 0) AND 1,
     drop_bit 29 (inp ! 0) AND 1, drop_bit 30 (inp ! 0) AND 1, drop_bit 31 (inp ! 0)]"

definition sc_fastunpack2 :: "u32 list \<Rightarrow> u32 list" where
  "sc_fastunpack2 inp =
    [drop_bit 0 (inp ! 0) mod push_bit 2 1, drop_bit 2 (inp ! 0) mod push_bit 2 1,
     drop_bit 4 (inp ! 0) mod push_bit 2 1, drop_bit 6 (inp ! 0) mod push_bit 2 1,
     drop_bit 8 (inp ! 0) mod push_bit 2 1, drop_bit 10 (inp ! 0) mod push_bit 2 1,
     drop_bit 12 (inp ! 0) mod push_bit 2 1, drop_bit 14 (inp ! 0) mod push_bit 2 1,
     drop_bit 16 (inp ! 0) mod push_bit 2 1, drop_bit 18 (inp ! 0) mod push_bit 2 1,
     drop_bit 20 (inp ! 0) mod push_bit 2 1, drop_bit 22 (inp ! 0) mod push_bit 2 1,
     drop_bit 24 (inp ! 0) mod push_bit 2 1, drop_bit 26 (inp ! 0) mod push_bit 2 1,
     drop_bit 28 (inp ! 0) mod push_bit 2 1, drop_bit 30 (inp ! 0), drop_bit 0 (inp ! 1) mod push_bit 2 1,
     drop_bit 2 (inp ! 1) mod push_bit 2 1, drop_bit 4 (inp ! 1) mod push_bit 2 1,
     drop_bit 6 (inp ! 1) mod push_bit 2 1, drop_bit 8 (inp ! 1) mod push_bit 2 1,
     drop_bit 10 (inp ! 1) mod push_bit 2 1, drop_bit 12 (inp ! 1) mod push_bit 2 1,
     drop_bit 14 (inp ! 1) mod push_bit 2 1, drop_bit 16 (inp ! 1) mod push_bit 2 1,
     drop_bit 18 (inp ! 1) mod push_bit 2 1, drop_bit 20 (inp ! 1) mod push_bit 2 1,
     drop_bit 22 (inp ! 1) mod push_bit 2 1, drop_bit 24 (inp ! 1) mod push_bit 2 1,
     drop_bit 26 (inp ! 1) mod push_bit 2 1, drop_bit 28 (inp ! 1) mod push_bit 2 1, drop_bit 30 (inp ! 1)]"

definition sc_fastunpack3 :: "u32 list \<Rightarrow> u32 list" where
  "sc_fastunpack3 inp =
    [drop_bit 0 (inp ! 0) mod push_bit 3 1, drop_bit 3 (inp ! 0) mod push_bit 3 1,
     drop_bit 6 (inp ! 0) mod push_bit 3 1, drop_bit 9 (inp ! 0) mod push_bit 3 1,
     drop_bit 12 (inp ! 0) mod push_bit 3 1, drop_bit 15 (inp ! 0) mod push_bit 3 1,
     drop_bit 18 (inp ! 0) mod push_bit 3 1, drop_bit 21 (inp ! 0) mod push_bit 3 1,
     drop_bit 24 (inp ! 0) mod push_bit 3 1, drop_bit 27 (inp ! 0) mod push_bit 3 1,
     drop_bit 30 (inp ! 0) OR push_bit (3 - 1) (inp ! 1 mod push_bit 1 1), drop_bit 1 (inp ! 1) mod push_bit 3 1,
     drop_bit 4 (inp ! 1) mod push_bit 3 1, drop_bit 7 (inp ! 1) mod push_bit 3 1,
     drop_bit 10 (inp ! 1) mod push_bit 3 1, drop_bit 13 (inp ! 1) mod push_bit 3 1,
     drop_bit 16 (inp ! 1) mod push_bit 3 1, drop_bit 19 (inp ! 1) mod push_bit 3 1,
     drop_bit 22 (inp ! 1) mod push_bit 3 1, drop_bit 25 (inp ! 1) mod push_bit 3 1,
     drop_bit 28 (inp ! 1) mod push_bit 3 1, drop_bit 31 (inp ! 1) OR push_bit (3 - 2) (inp ! 2 mod push_bit 2 1),
     drop_bit 2 (inp ! 2) mod push_bit 3 1, drop_bit 5 (inp ! 2) mod push_bit 3 1,
     drop_bit 8 (inp ! 2) mod push_bit 3 1, drop_bit 11 (inp ! 2) mod push_bit 3 1,
     drop_bit 14 (inp ! 2) mod push_bit 3 1, drop_bit 17 (inp ! 2) mod push_bit 3 1,
     drop_bit 20 (inp ! 2) mod push_bit 3 1, drop_bit 23 (inp ! 2) mod push_bit 3 1,
     drop_bit 26 (inp ! 2) mod push_bit 3 1, drop_bit 29 (inp ! 2)]"

definition sc_fastunpack4 :: "u32 list \<Rightarrow> u32 list" where
  "sc_fastunpack4 inp = concat (map (\<lambda>outer. map (\<lambda>k. drop_bit (4 * k) (inp ! outer) mod push_bit 4 1) [0..<8]) [0..<4])"

definition sc_fastunpack5 :: "u32 list \<Rightarrow> u32 list" where
  "sc_fastunpack5 inp =
    [drop_bit 0 (inp ! 0) mod push_bit 5 1, drop_bit 5 (inp ! 0) mod push_bit 5 1,
     drop_bit 10 (inp ! 0) mod push_bit 5 1, drop_bit 15 (inp ! 0) mod push_bit 5 1,
     drop_bit 20 (inp ! 0) mod push_bit 5 1, drop_bit 25 (inp ! 0) mod push_bit 5 1,
     drop_bit 30 (inp ! 0) OR push_bit (5 - 3) (inp ! 1 mod push_bit 3 1), drop_bit 3 (inp ! 1) mod push_bit 5 1,
     drop_bit 8 (inp ! 1) mod push_bit 5 1, drop_bit 13 (inp ! 1) mod push_bit 5 1,
     drop_bit 18 (inp ! 1) mod push_bit 5 1, drop_bit 23 (inp ! 1) mod push_bit 5 1,
     drop_bit 28 (inp ! 1) OR push_bit (5 - 1) (inp ! 2 mod push_bit 1 1), drop_bit 1 (inp ! 2) mod push_bit 5 1,
     drop_bit 6 (inp ! 2) mod push_bit 5 1, drop_bit 11 (inp ! 2) mod push_bit 5 1,
     drop_bit 16 (inp ! 2) mod push_bit 5 1, drop_bit 21 (inp ! 2) mod push_bit 5 1,
     drop_bit 26 (inp ! 2) mod push_bit 5 1, drop_bit 31 (inp ! 2) OR push_bit (5 - 4) (inp ! 3 mod push_bit 4 1),
     drop_bit 4 (inp ! 3) mod push_bit 5 1, drop_bit 9 (inp ! 3) mod push_bit 5 1,
     drop_bit 14 (inp ! 3) mod push_bit 5 1, drop_bit 19 (inp ! 3) mod push_bit 5 1,
     drop_bit 24 (inp ! 3) mod push_bit 5 1, drop_bit 29 (inp ! 3) OR push_bit (5 - 2) (inp ! 4 mod push_bit 2 1),
     drop_bit 2 (inp ! 4) mod push_bit 5 1, drop_bit 7 (inp ! 4) mod push_bit 5 1,
     drop_bit 12 (inp ! 4) mod push_bit 5 1, drop_bit 17 (inp ! 4) mod push_bit 5 1,
     drop_bit 22 (inp ! 4) mod push_bit 5 1, drop_bit 27 (inp ! 4)]"

definition sc_fastunpack6 :: "u32 list \<Rightarrow> u32 list" where
  "sc_fastunpack6 inp =
    [drop_bit 0 (inp ! 0) mod push_bit 6 1, drop_bit 6 (inp ! 0) mod push_bit 6 1,
     drop_bit 12 (inp ! 0) mod push_bit 6 1, drop_bit 18 (inp ! 0) mod push_bit 6 1,
     drop_bit 24 (inp ! 0) mod push_bit 6 1, drop_bit 30 (inp ! 0) OR push_bit (6 - 4) (inp ! 1 mod push_bit 4 1),
     drop_bit 4 (inp ! 1) mod push_bit 6 1, drop_bit 10 (inp ! 1) mod push_bit 6 1,
     drop_bit 16 (inp ! 1) mod push_bit 6 1, drop_bit 22 (inp ! 1) mod push_bit 6 1,
     drop_bit 28 (inp ! 1) OR push_bit (6 - 2) (inp ! 2 mod push_bit 2 1), drop_bit 2 (inp ! 2) mod push_bit 6 1,
     drop_bit 8 (inp ! 2) mod push_bit 6 1, drop_bit 14 (inp ! 2) mod push_bit 6 1,
     drop_bit 20 (inp ! 2) mod push_bit 6 1, drop_bit 26 (inp ! 2), drop_bit 0 (inp ! 3) mod push_bit 6 1,
     drop_bit 6 (inp ! 3) mod push_bit 6 1, drop_bit 12 (inp ! 3) mod push_bit 6 1,
     drop_bit 18 (inp ! 3) mod push_bit 6 1, drop_bit 24 (inp ! 3) mod push_bit 6 1,
     drop_bit 30 (inp ! 3) OR push_bit (6 - 4) (inp ! 4 mod push_bit 4 1), drop_bit 4 (inp ! 4) mod push_bit 6 1,
     drop_bit 10 (inp ! 4) mod push_bit 6 1, drop_bit 16 (inp ! 4) mod push_bit 6 1,
     drop_bit 22 (inp ! 4) mod push_bit 6 1, drop_bit 28 (inp ! 4) OR push_bit (6 - 2) (inp ! 5 mod push_bit 2 1),
     drop_bit 2 (inp ! 5) mod push_bit 6 1, drop_bit 8 (inp ! 5) mod push_bit 6 1,
     drop_bit 14 (inp ! 5) mod push_bit 6 1, drop_bit 20 (inp ! 5) mod push_bit 6 1, drop_bit 26 (inp ! 5)]"

definition sc_fastunpack7 :: "u32 list \<Rightarrow> u32 list" where
  "sc_fastunpack7 inp =
    [drop_bit 0 (inp ! 0) mod push_bit 7 1, drop_bit 7 (inp ! 0) mod push_bit 7 1,
     drop_bit 14 (inp ! 0) mod push_bit 7 1, drop_bit 21 (inp ! 0) mod push_bit 7 1,
     drop_bit 28 (inp ! 0) OR push_bit (7 - 3) (inp ! 1 mod push_bit 3 1), drop_bit 3 (inp ! 1) mod push_bit 7 1,
     drop_bit 10 (inp ! 1) mod push_bit 7 1, drop_bit 17 (inp ! 1) mod push_bit 7 1,
     drop_bit 24 (inp ! 1) mod push_bit 7 1, drop_bit 31 (inp ! 1) OR push_bit (7 - 6) (inp ! 2 mod push_bit 6 1),
     drop_bit 6 (inp ! 2) mod push_bit 7 1, drop_bit 13 (inp ! 2) mod push_bit 7 1,
     drop_bit 20 (inp ! 2) mod push_bit 7 1, drop_bit 27 (inp ! 2) OR push_bit (7 - 2) (inp ! 3 mod push_bit 2 1),
     drop_bit 2 (inp ! 3) mod push_bit 7 1, drop_bit 9 (inp ! 3) mod push_bit 7 1,
     drop_bit 16 (inp ! 3) mod push_bit 7 1, drop_bit 23 (inp ! 3) mod push_bit 7 1,
     drop_bit 30 (inp ! 3) OR push_bit (7 - 5) (inp ! 4 mod push_bit 5 1), drop_bit 5 (inp ! 4) mod push_bit 7 1,
     drop_bit 12 (inp ! 4) mod push_bit 7 1, drop_bit 19 (inp ! 4) mod push_bit 7 1,
     drop_bit 26 (inp ! 4) OR push_bit (7 - 1) (inp ! 5 mod push_bit 1 1), drop_bit 1 (inp ! 5) mod push_bit 7 1,
     drop_bit 8 (inp ! 5) mod push_bit 7 1, drop_bit 15 (inp ! 5) mod push_bit 7 1,
     drop_bit 22 (inp ! 5) mod push_bit 7 1, drop_bit 29 (inp ! 5) OR push_bit (7 - 4) (inp ! 6 mod push_bit 4 1),
     drop_bit 4 (inp ! 6) mod push_bit 7 1, drop_bit 11 (inp ! 6) mod push_bit 7 1,
     drop_bit 18 (inp ! 6) mod push_bit 7 1, drop_bit 25 (inp ! 6)]"

definition sc_fastunpack8 :: "u32 list \<Rightarrow> u32 list" where
  "sc_fastunpack8 inp = concat (map (\<lambda>outer. map (\<lambda>k. drop_bit (8 * k) (inp ! outer) mod push_bit 8 1) [0..<4]) [0..<8])"

definition sc_fastunpack9 :: "u32 list \<Rightarrow> u32 list" where
  "sc_fastunpack9 inp =
    [drop_bit 0 (inp ! 0) mod push_bit 9 1, drop_bit 9 (inp ! 0) mod push_bit 9 1,
     drop_bit 18 (inp ! 0) mod push_bit 9 1, drop_bit 27 (inp ! 0) OR push_bit (9 - 4) (inp ! 1 mod push_bit 4 1),
     drop_bit 4 (inp ! 1) mod push_bit 9 1, drop_bit 13 (inp ! 1) mod push_bit 9 1,
     drop_bit 22 (inp ! 1) mod push_bit 9 1, drop_bit 31 (inp ! 1) OR push_bit (9 - 8) (inp ! 2 mod push_bit 8 1),
     drop_bit 8 (inp ! 2) mod push_bit 9 1, drop_bit 17 (inp ! 2) mod push_bit 9 1,
     drop_bit 26 (inp ! 2) OR push_bit (9 - 3) (inp ! 3 mod push_bit 3 1), drop_bit 3 (inp ! 3) mod push_bit 9 1,
     drop_bit 12 (inp ! 3) mod push_bit 9 1, drop_bit 21 (inp ! 3) mod push_bit 9 1,
     drop_bit 30 (inp ! 3) OR push_bit (9 - 7) (inp ! 4 mod push_bit 7 1), drop_bit 7 (inp ! 4) mod push_bit 9 1,
     drop_bit 16 (inp ! 4) mod push_bit 9 1, drop_bit 25 (inp ! 4) OR push_bit (9 - 2) (inp ! 5 mod push_bit 2 1),
     drop_bit 2 (inp ! 5) mod push_bit 9 1, drop_bit 11 (inp ! 5) mod push_bit 9 1,
     drop_bit 20 (inp ! 5) mod push_bit 9 1, drop_bit 29 (inp ! 5) OR push_bit (9 - 6) (inp ! 6 mod push_bit 6 1),
     drop_bit 6 (inp ! 6) mod push_bit 9 1, drop_bit 15 (inp ! 6) mod push_bit 9 1,
     drop_bit 24 (inp ! 6) OR push_bit (9 - 1) (inp ! 7 mod push_bit 1 1), drop_bit 1 (inp ! 7) mod push_bit 9 1,
     drop_bit 10 (inp ! 7) mod push_bit 9 1, drop_bit 19 (inp ! 7) mod push_bit 9 1,
     drop_bit 28 (inp ! 7) OR push_bit (9 - 5) (inp ! 8 mod push_bit 5 1), drop_bit 5 (inp ! 8) mod push_bit 9 1,
     drop_bit 14 (inp ! 8) mod push_bit 9 1, drop_bit 23 (inp ! 8)]"

definition sc_fastunpack10 :: "u32 list \<Rightarrow> u32 list" where
  "sc_fastunpack10 inp =
    [drop_bit 0 (inp ! 0) mod push_bit 10 1, drop_bit 10 (inp ! 0) mod push_bit 10 1,
     drop_bit 20 (inp ! 0) mod push_bit 10 1, drop_bit 30 (inp ! 0) OR push_bit (10 - 8) (inp ! 1 mod push_bit 8 1),
     drop_bit 8 (inp ! 1) mod push_bit 10 1, drop_bit 18 (inp ! 1) mod push_bit 10 1,
     drop_bit 28 (inp ! 1) OR push_bit (10 - 6) (inp ! 2 mod push_bit 6 1), drop_bit 6 (inp ! 2) mod push_bit 10 1,
     drop_bit 16 (inp ! 2) mod push_bit 10 1, drop_bit 26 (inp ! 2) OR push_bit (10 - 4) (inp ! 3 mod push_bit 4 1),
     drop_bit 4 (inp ! 3) mod push_bit 10 1, drop_bit 14 (inp ! 3) mod push_bit 10 1,
     drop_bit 24 (inp ! 3) OR push_bit (10 - 2) (inp ! 4 mod push_bit 2 1), drop_bit 2 (inp ! 4) mod push_bit 10 1,
     drop_bit 12 (inp ! 4) mod push_bit 10 1, drop_bit 22 (inp ! 4), drop_bit 0 (inp ! 5) mod push_bit 10 1,
     drop_bit 10 (inp ! 5) mod push_bit 10 1, drop_bit 20 (inp ! 5) mod push_bit 10 1,
     drop_bit 30 (inp ! 5) OR push_bit (10 - 8) (inp ! 6 mod push_bit 8 1), drop_bit 8 (inp ! 6) mod push_bit 10 1,
     drop_bit 18 (inp ! 6) mod push_bit 10 1, drop_bit 28 (inp ! 6) OR push_bit (10 - 6) (inp ! 7 mod push_bit 6 1),
     drop_bit 6 (inp ! 7) mod push_bit 10 1, drop_bit 16 (inp ! 7) mod push_bit 10 1,
     drop_bit 26 (inp ! 7) OR push_bit (10 - 4) (inp ! 8 mod push_bit 4 1), drop_bit 4 (inp ! 8) mod push_bit 10 1,
     drop_bit 14 (inp ! 8) mod push_bit 10 1, drop_bit 24 (inp ! 8) OR push_bit (10 - 2) (inp ! 9 mod push_bit 2 1),
     drop_bit 2 (inp ! 9) mod push_bit 10 1, drop_bit 12 (inp ! 9) mod push_bit 10 1, drop_bit 22 (inp ! 9)]"

definition sc_fastunpack11 :: "u32 list \<Rightarrow> u32 list" where
  "sc_fastunpack11 inp =
    [drop_bit 0 (inp ! 0) mod push_bit 11 1, drop_bit 11 (inp ! 0) mod push_bit 11 1,
     drop_bit 22 (inp ! 0) OR push_bit (11 - 1) (inp ! 1 mod push_bit 1 1), drop_bit 1 (inp ! 1) mod push_bit 11 1,
     drop_bit 12 (inp ! 1) mod push_bit 11 1, drop_bit 23 (inp ! 1) OR push_bit (11 - 2) (inp ! 2 mod push_bit 2 1),
     drop_bit 2 (inp ! 2) mod push_bit 11 1, drop_bit 13 (inp ! 2) mod push_bit 11 1,
     drop_bit 24 (inp ! 2) OR push_bit (11 - 3) (inp ! 3 mod push_bit 3 1), drop_bit 3 (inp ! 3) mod push_bit 11 1,
     drop_bit 14 (inp ! 3) mod push_bit 11 1, drop_bit 25 (inp ! 3) OR push_bit (11 - 4) (inp ! 4 mod push_bit 4 1),
     drop_bit 4 (inp ! 4) mod push_bit 11 1, drop_bit 15 (inp ! 4) mod push_bit 11 1,
     drop_bit 26 (inp ! 4) OR push_bit (11 - 5) (inp ! 5 mod push_bit 5 1), drop_bit 5 (inp ! 5) mod push_bit 11 1,
     drop_bit 16 (inp ! 5) mod push_bit 11 1, drop_bit 27 (inp ! 5) OR push_bit (11 - 6) (inp ! 6 mod push_bit 6 1),
     drop_bit 6 (inp ! 6) mod push_bit 11 1, drop_bit 17 (inp ! 6) mod push_bit 11 1,
     drop_bit 28 (inp ! 6) OR push_bit (11 - 7) (inp ! 7 mod push_bit 7 1), drop_bit 7 (inp ! 7) mod push_bit 11 1,
     drop_bit 18 (inp ! 7) mod push_bit 11 1, drop_bit 29 (inp ! 7) OR push_bit (11 - 8) (inp ! 8 mod push_bit 8 1),
     drop_bit 8 (inp ! 8) mod push_bit 11 1, drop_bit 19 (inp ! 8) mod push_bit 11 1,
     drop_bit 30 (inp ! 8) OR push_bit (11 - 9) (inp ! 9 mod push_bit 9 1), drop_bit 9 (inp ! 9) mod push_bit 11 1,
     drop_bit 20 (inp ! 9) mod push_bit 11 1,
     drop_bit 31 (inp ! 9) OR push_bit (11 - 10) (inp ! 10 mod push_bit 10 1),
     drop_bit 10 (inp ! 10) mod push_bit 11 1, drop_bit 21 (inp ! 10)]"

definition sc_fastunpack12 :: "u32 list \<Rightarrow> u32 list" where
  "sc_fastunpack12 inp =
    [drop_bit 0 (inp ! 0) mod push_bit 12 1, drop_bit 12 (inp ! 0) mod push_bit 12 1,
     drop_bit 24 (inp ! 0) OR push_bit (12 - 4) (inp ! 1 mod push_bit 4 1), drop_bit 4 (inp ! 1) mod push_bit 12 1,
     drop_bit 16 (inp ! 1) mod push_bit 12 1, drop_bit 28 (inp ! 1) OR push_bit (12 - 8) (inp ! 2 mod push_bit 8 1),
     drop_bit 8 (inp ! 2) mod push_bit 12 1, drop_bit 20 (inp ! 2), drop_bit 0 (inp ! 3) mod push_bit 12 1,
     drop_bit 12 (inp ! 3) mod push_bit 12 1, drop_bit 24 (inp ! 3) OR push_bit (12 - 4) (inp ! 4 mod push_bit 4 1),
     drop_bit 4 (inp ! 4) mod push_bit 12 1, drop_bit 16 (inp ! 4) mod push_bit 12 1,
     drop_bit 28 (inp ! 4) OR push_bit (12 - 8) (inp ! 5 mod push_bit 8 1), drop_bit 8 (inp ! 5) mod push_bit 12 1,
     drop_bit 20 (inp ! 5), drop_bit 0 (inp ! 6) mod push_bit 12 1, drop_bit 12 (inp ! 6) mod push_bit 12 1,
     drop_bit 24 (inp ! 6) OR push_bit (12 - 4) (inp ! 7 mod push_bit 4 1), drop_bit 4 (inp ! 7) mod push_bit 12 1,
     drop_bit 16 (inp ! 7) mod push_bit 12 1, drop_bit 28 (inp ! 7) OR push_bit (12 - 8) (inp ! 8 mod push_bit 8 1),
     drop_bit 8 (inp ! 8) mod push_bit 12 1, drop_bit 20 (inp ! 8), drop_bit 0 (inp ! 9) mod push_bit 12 1,
     drop_bit 12 (inp ! 9) mod push_bit 12 1,
     drop_bit 24 (inp ! 9) OR push_bit (12 - 4) (inp ! 10 mod push_bit 4 1),
     drop_bit 4 (inp ! 10) mod push_bit 12 1, drop_bit 16 (inp ! 10) mod push_bit 12 1,
     drop_bit 28 (inp ! 10) OR push_bit (12 - 8) (inp ! 11 mod push_bit 8 1),
     drop_bit 8 (inp ! 11) mod push_bit 12 1, drop_bit 20 (inp ! 11)]"

definition sc_fastunpack13 :: "u32 list \<Rightarrow> u32 list" where
  "sc_fastunpack13 inp =
    [drop_bit 0 (inp ! 0) mod push_bit 13 1, drop_bit 13 (inp ! 0) mod push_bit 13 1,
     drop_bit 26 (inp ! 0) OR push_bit (13 - 7) (inp ! 1 mod push_bit 7 1), drop_bit 7 (inp ! 1) mod push_bit 13 1,
     drop_bit 20 (inp ! 1) OR push_bit (13 - 1) (inp ! 2 mod push_bit 1 1), drop_bit 1 (inp ! 2) mod push_bit 13 1,
     drop_bit 14 (inp ! 2) mod push_bit 13 1, drop_bit 27 (inp ! 2) OR push_bit (13 - 8) (inp ! 3 mod push_bit 8 1),
     drop_bit 8 (inp ! 3) mod push_bit 13 1, drop_bit 21 (inp ! 3) OR push_bit (13 - 2) (inp ! 4 mod push_bit 2 1),
     drop_bit 2 (inp ! 4) mod push_bit 13 1, drop_bit 15 (inp ! 4) mod push_bit 13 1,
     drop_bit 28 (inp ! 4) OR push_bit (13 - 9) (inp ! 5 mod push_bit 9 1), drop_bit 9 (inp ! 5) mod push_bit 13 1,
     drop_bit 22 (inp ! 5) OR push_bit (13 - 3) (inp ! 6 mod push_bit 3 1), drop_bit 3 (inp ! 6) mod push_bit 13 1,
     drop_bit 16 (inp ! 6) mod push_bit 13 1,
     drop_bit 29 (inp ! 6) OR push_bit (13 - 10) (inp ! 7 mod push_bit 10 1),
     drop_bit 10 (inp ! 7) mod push_bit 13 1, drop_bit 23 (inp ! 7) OR push_bit (13 - 4) (inp ! 8 mod push_bit 4 1),
     drop_bit 4 (inp ! 8) mod push_bit 13 1, drop_bit 17 (inp ! 8) mod push_bit 13 1,
     drop_bit 30 (inp ! 8) OR push_bit (13 - 11) (inp ! 9 mod push_bit 11 1),
     drop_bit 11 (inp ! 9) mod push_bit 13 1,
     drop_bit 24 (inp ! 9) OR push_bit (13 - 5) (inp ! 10 mod push_bit 5 1),
     drop_bit 5 (inp ! 10) mod push_bit 13 1, drop_bit 18 (inp ! 10) mod push_bit 13 1,
     drop_bit 31 (inp ! 10) OR push_bit (13 - 12) (inp ! 11 mod push_bit 12 1),
     drop_bit 12 (inp ! 11) mod push_bit 13 1,
     drop_bit 25 (inp ! 11) OR push_bit (13 - 6) (inp ! 12 mod push_bit 6 1),
     drop_bit 6 (inp ! 12) mod push_bit 13 1, drop_bit 19 (inp ! 12)]"

definition sc_fastunpack14 :: "u32 list \<Rightarrow> u32 list" where
  "sc_fastunpack14 inp =
    [drop_bit 0 (inp ! 0) mod push_bit 14 1, drop_bit 14 (inp ! 0) mod push_bit 14 1,
     drop_bit 28 (inp ! 0) OR push_bit (14 - 10) (inp ! 1 mod push_bit 10 1),
     drop_bit 10 (inp ! 1) mod push_bit 14 1, drop_bit 24 (inp ! 1) OR push_bit (14 - 6) (inp ! 2 mod push_bit 6 1),
     drop_bit 6 (inp ! 2) mod push_bit 14 1, drop_bit 20 (inp ! 2) OR push_bit (14 - 2) (inp ! 3 mod push_bit 2 1),
     drop_bit 2 (inp ! 3) mod push_bit 14 1, drop_bit 16 (inp ! 3) mod push_bit 14 1,
     drop_bit 30 (inp ! 3) OR push_bit (14 - 12) (inp ! 4 mod push_bit 12 1),
     drop_bit 12 (inp ! 4) mod push_bit 14 1, drop_bit 26 (inp ! 4) OR push_bit (14 - 8) (inp ! 5 mod push_bit 8 1),
     drop_bit 8 (inp ! 5) mod push_bit 14 1, drop_bit 22 (inp ! 5) OR push_bit (14 - 4) (inp ! 6 mod push_bit 4 1),
     drop_bit 4 (inp ! 6) mod push_bit 14 1, drop_bit 18 (inp ! 6), drop_bit 0 (inp ! 7) mod push_bit 14 1,
     drop_bit 14 (inp ! 7) mod push_bit 14 1,
     drop_bit 28 (inp ! 7) OR push_bit (14 - 10) (inp ! 8 mod push_bit 10 1),
     drop_bit 10 (inp ! 8) mod push_bit 14 1, drop_bit 24 (inp ! 8) OR push_bit (14 - 6) (inp ! 9 mod push_bit 6 1),
     drop_bit 6 (inp ! 9) mod push_bit 14 1, drop_bit 20 (inp ! 9) OR push_bit (14 - 2) (inp ! 10 mod push_bit 2 1),
     drop_bit 2 (inp ! 10) mod push_bit 14 1, drop_bit 16 (inp ! 10) mod push_bit 14 1,
     drop_bit 30 (inp ! 10) OR push_bit (14 - 12) (inp ! 11 mod push_bit 12 1),
     drop_bit 12 (inp ! 11) mod push_bit 14 1,
     drop_bit 26 (inp ! 11) OR push_bit (14 - 8) (inp ! 12 mod push_bit 8 1),
     drop_bit 8 (inp ! 12) mod push_bit 14 1,
     drop_bit 22 (inp ! 12) OR push_bit (14 - 4) (inp ! 13 mod push_bit 4 1),
     drop_bit 4 (inp ! 13) mod push_bit 14 1, drop_bit 18 (inp ! 13)]"

definition sc_fastunpack15 :: "u32 list \<Rightarrow> u32 list" where
  "sc_fastunpack15 inp =
    [drop_bit 0 (inp ! 0) mod push_bit 15 1, drop_bit 15 (inp ! 0) mod push_bit 15 1,
     drop_bit 30 (inp ! 0) OR push_bit (15 - 13) (inp ! 1 mod push_bit 13 1),
     drop_bit 13 (inp ! 1) mod push_bit 15 1,
     drop_bit 28 (inp ! 1) OR push_bit (15 - 11) (inp ! 2 mod push_bit 11 1),
     drop_bit 11 (inp ! 2) mod push_bit 15 1, drop_bit 26 (inp ! 2) OR push_bit (15 - 9) (inp ! 3 mod push_bit 9 1),
     drop_bit 9 (inp ! 3) mod push_bit 15 1, drop_bit 24 (inp ! 3) OR push_bit (15 - 7) (inp ! 4 mod push_bit 7 1),
     drop_bit 7 (inp ! 4) mod push_bit 15 1, drop_bit 22 (inp ! 4) OR push_bit (15 - 5) (inp ! 5 mod push_bit 5 1),
     drop_bit 5 (inp ! 5) mod push_bit 15 1, drop_bit 20 (inp ! 5) OR push_bit (15 - 3) (inp ! 6 mod push_bit 3 1),
     drop_bit 3 (inp ! 6) mod push_bit 15 1, drop_bit 18 (inp ! 6) OR push_bit (15 - 1) (inp ! 7 mod push_bit 1 1),
     drop_bit 1 (inp ! 7) mod push_bit 15 1, drop_bit 16 (inp ! 7) mod push_bit 15 1,
     drop_bit 31 (inp ! 7) OR push_bit (15 - 14) (inp ! 8 mod push_bit 14 1),
     drop_bit 14 (inp ! 8) mod push_bit 15 1,
     drop_bit 29 (inp ! 8) OR push_bit (15 - 12) (inp ! 9 mod push_bit 12 1),
     drop_bit 12 (inp ! 9) mod push_bit 15 1,
     drop_bit 27 (inp ! 9) OR push_bit (15 - 10) (inp ! 10 mod push_bit 10 1),
     drop_bit 10 (inp ! 10) mod push_bit 15 1,
     drop_bit 25 (inp ! 10) OR push_bit (15 - 8) (inp ! 11 mod push_bit 8 1),
     drop_bit 8 (inp ! 11) mod push_bit 15 1,
     drop_bit 23 (inp ! 11) OR push_bit (15 - 6) (inp ! 12 mod push_bit 6 1),
     drop_bit 6 (inp ! 12) mod push_bit 15 1,
     drop_bit 21 (inp ! 12) OR push_bit (15 - 4) (inp ! 13 mod push_bit 4 1),
     drop_bit 4 (inp ! 13) mod push_bit 15 1,
     drop_bit 19 (inp ! 13) OR push_bit (15 - 2) (inp ! 14 mod push_bit 2 1),
     drop_bit 2 (inp ! 14) mod push_bit 15 1, drop_bit 17 (inp ! 14)]"

definition sc_fastunpack16 :: "u32 list \<Rightarrow> u32 list" where
  "sc_fastunpack16 inp = concat (map (\<lambda>outer. map (\<lambda>k. drop_bit (16 * k) (inp ! outer) mod push_bit 16 1) [0..<2]) [0..<16])"

definition sc_fastunpack17 :: "u32 list \<Rightarrow> u32 list" where
  "sc_fastunpack17 inp =
    [drop_bit 0 (inp ! 0) mod push_bit 17 1, drop_bit 17 (inp ! 0) OR push_bit (17 - 2) (inp ! 1 mod push_bit 2 1),
     drop_bit 2 (inp ! 1) mod push_bit 17 1, drop_bit 19 (inp ! 1) OR push_bit (17 - 4) (inp ! 2 mod push_bit 4 1),
     drop_bit 4 (inp ! 2) mod push_bit 17 1, drop_bit 21 (inp ! 2) OR push_bit (17 - 6) (inp ! 3 mod push_bit 6 1),
     drop_bit 6 (inp ! 3) mod push_bit 17 1, drop_bit 23 (inp ! 3) OR push_bit (17 - 8) (inp ! 4 mod push_bit 8 1),
     drop_bit 8 (inp ! 4) mod push_bit 17 1,
     drop_bit 25 (inp ! 4) OR push_bit (17 - 10) (inp ! 5 mod push_bit 10 1),
     drop_bit 10 (inp ! 5) mod push_bit 17 1,
     drop_bit 27 (inp ! 5) OR push_bit (17 - 12) (inp ! 6 mod push_bit 12 1),
     drop_bit 12 (inp ! 6) mod push_bit 17 1,
     drop_bit 29 (inp ! 6) OR push_bit (17 - 14) (inp ! 7 mod push_bit 14 1),
     drop_bit 14 (inp ! 7) mod push_bit 17 1,
     drop_bit 31 (inp ! 7) OR push_bit (17 - 16) (inp ! 8 mod push_bit 16 1),
     drop_bit 16 (inp ! 8) OR push_bit (17 - 1) (inp ! 9 mod push_bit 1 1), drop_bit 1 (inp ! 9) mod push_bit 17 1,
     drop_bit 18 (inp ! 9) OR push_bit (17 - 3) (inp ! 10 mod push_bit 3 1),
     drop_bit 3 (inp ! 10) mod push_bit 17 1,
     drop_bit 20 (inp ! 10) OR push_bit (17 - 5) (inp ! 11 mod push_bit 5 1),
     drop_bit 5 (inp ! 11) mod push_bit 17 1,
     drop_bit 22 (inp ! 11) OR push_bit (17 - 7) (inp ! 12 mod push_bit 7 1),
     drop_bit 7 (inp ! 12) mod push_bit 17 1,
     drop_bit 24 (inp ! 12) OR push_bit (17 - 9) (inp ! 13 mod push_bit 9 1),
     drop_bit 9 (inp ! 13) mod push_bit 17 1,
     drop_bit 26 (inp ! 13) OR push_bit (17 - 11) (inp ! 14 mod push_bit 11 1),
     drop_bit 11 (inp ! 14) mod push_bit 17 1,
     drop_bit 28 (inp ! 14) OR push_bit (17 - 13) (inp ! 15 mod push_bit 13 1),
     drop_bit 13 (inp ! 15) mod push_bit 17 1,
     drop_bit 30 (inp ! 15) OR push_bit (17 - 15) (inp ! 16 mod push_bit 15 1), drop_bit 15 (inp ! 16)]"

definition sc_fastunpack18 :: "u32 list \<Rightarrow> u32 list" where
  "sc_fastunpack18 inp =
    [drop_bit 0 (inp ! 0) mod push_bit 18 1, drop_bit 18 (inp ! 0) OR push_bit (18 - 4) (inp ! 1 mod push_bit 4 1),
     drop_bit 4 (inp ! 1) mod push_bit 18 1, drop_bit 22 (inp ! 1) OR push_bit (18 - 8) (inp ! 2 mod push_bit 8 1),
     drop_bit 8 (inp ! 2) mod push_bit 18 1,
     drop_bit 26 (inp ! 2) OR push_bit (18 - 12) (inp ! 3 mod push_bit 12 1),
     drop_bit 12 (inp ! 3) mod push_bit 18 1,
     drop_bit 30 (inp ! 3) OR push_bit (18 - 16) (inp ! 4 mod push_bit 16 1),
     drop_bit 16 (inp ! 4) OR push_bit (18 - 2) (inp ! 5 mod push_bit 2 1), drop_bit 2 (inp ! 5) mod push_bit 18 1,
     drop_bit 20 (inp ! 5) OR push_bit (18 - 6) (inp ! 6 mod push_bit 6 1), drop_bit 6 (inp ! 6) mod push_bit 18 1,
     drop_bit 24 (inp ! 6) OR push_bit (18 - 10) (inp ! 7 mod push_bit 10 1),
     drop_bit 10 (inp ! 7) mod push_bit 18 1,
     drop_bit 28 (inp ! 7) OR push_bit (18 - 14) (inp ! 8 mod push_bit 14 1), drop_bit 14 (inp ! 8),
     drop_bit 0 (inp ! 9) mod push_bit 18 1, drop_bit 18 (inp ! 9) OR push_bit (18 - 4) (inp ! 10 mod push_bit 4 1),
     drop_bit 4 (inp ! 10) mod push_bit 18 1,
     drop_bit 22 (inp ! 10) OR push_bit (18 - 8) (inp ! 11 mod push_bit 8 1),
     drop_bit 8 (inp ! 11) mod push_bit 18 1,
     drop_bit 26 (inp ! 11) OR push_bit (18 - 12) (inp ! 12 mod push_bit 12 1),
     drop_bit 12 (inp ! 12) mod push_bit 18 1,
     drop_bit 30 (inp ! 12) OR push_bit (18 - 16) (inp ! 13 mod push_bit 16 1),
     drop_bit 16 (inp ! 13) OR push_bit (18 - 2) (inp ! 14 mod push_bit 2 1),
     drop_bit 2 (inp ! 14) mod push_bit 18 1,
     drop_bit 20 (inp ! 14) OR push_bit (18 - 6) (inp ! 15 mod push_bit 6 1),
     drop_bit 6 (inp ! 15) mod push_bit 18 1,
     drop_bit 24 (inp ! 15) OR push_bit (18 - 10) (inp ! 16 mod push_bit 10 1),
     drop_bit 10 (inp ! 16) mod push_bit 18 1,
     drop_bit 28 (inp ! 16) OR push_bit (18 - 14) (inp ! 17 mod push_bit 14 1), drop_bit 14 (inp ! 17)]"

definition sc_fastunpack19 :: "u32 list \<Rightarrow> u32 list" where
  "sc_fastunpack19 inp =
    [drop_bit 0 (inp ! 0) mod push_bit 19 1, drop_bit 19 (inp ! 0) OR push_bit (19 - 6) (inp ! 1 mod push_bit 6 1),
     drop_bit 6 (inp ! 1) mod push_bit 19 1,
     drop_bit 25 (inp ! 1) OR push_bit (19 - 12) (inp ! 2 mod push_bit 12 1),
     drop_bit 12 (inp ! 2) mod push_bit 19 1,
     drop_bit 31 (inp ! 2) OR push_bit (19 - 18) (inp ! 3 mod push_bit 18 1),
     drop_bit 18 (inp ! 3) OR push_bit (19 - 5) (inp ! 4 mod push_bit 5 1), drop_bit 5 (inp ! 4) mod push_bit 19 1,
     drop_bit 24 (inp ! 4) OR push_bit (19 - 11) (inp ! 5 mod push_bit 11 1),
     drop_bit 11 (inp ! 5) mod push_bit 19 1,
     drop_bit 30 (inp ! 5) OR push_bit (19 - 17) (inp ! 6 mod push_bit 17 1),
     drop_bit 17 (inp ! 6) OR push_bit (19 - 4) (inp ! 7 mod push_bit 4 1), drop_bit 4 (inp ! 7) mod push_bit 19 1,
     drop_bit 23 (inp ! 7) OR push_bit (19 - 10) (inp ! 8 mod push_bit 10 1),
     drop_bit 10 (inp ! 8) mod push_bit 19 1,
     drop_bit 29 (inp ! 8) OR push_bit (19 - 16) (inp ! 9 mod push_bit 16 1),
     drop_bit 16 (inp ! 9) OR push_bit (19 - 3) (inp ! 10 mod push_bit 3 1),
     drop_bit 3 (inp ! 10) mod push_bit 19 1,
     drop_bit 22 (inp ! 10) OR push_bit (19 - 9) (inp ! 11 mod push_bit 9 1),
     drop_bit 9 (inp ! 11) mod push_bit 19 1,
     drop_bit 28 (inp ! 11) OR push_bit (19 - 15) (inp ! 12 mod push_bit 15 1),
     drop_bit 15 (inp ! 12) OR push_bit (19 - 2) (inp ! 13 mod push_bit 2 1),
     drop_bit 2 (inp ! 13) mod push_bit 19 1,
     drop_bit 21 (inp ! 13) OR push_bit (19 - 8) (inp ! 14 mod push_bit 8 1),
     drop_bit 8 (inp ! 14) mod push_bit 19 1,
     drop_bit 27 (inp ! 14) OR push_bit (19 - 14) (inp ! 15 mod push_bit 14 1),
     drop_bit 14 (inp ! 15) OR push_bit (19 - 1) (inp ! 16 mod push_bit 1 1),
     drop_bit 1 (inp ! 16) mod push_bit 19 1,
     drop_bit 20 (inp ! 16) OR push_bit (19 - 7) (inp ! 17 mod push_bit 7 1),
     drop_bit 7 (inp ! 17) mod push_bit 19 1,
     drop_bit 26 (inp ! 17) OR push_bit (19 - 13) (inp ! 18 mod push_bit 13 1), drop_bit 13 (inp ! 18)]"

definition sc_fastunpack20 :: "u32 list \<Rightarrow> u32 list" where
  "sc_fastunpack20 inp =
    [drop_bit 0 (inp ! 0) mod push_bit 20 1, drop_bit 20 (inp ! 0) OR push_bit (20 - 8) (inp ! 1 mod push_bit 8 1),
     drop_bit 8 (inp ! 1) mod push_bit 20 1,
     drop_bit 28 (inp ! 1) OR push_bit (20 - 16) (inp ! 2 mod push_bit 16 1),
     drop_bit 16 (inp ! 2) OR push_bit (20 - 4) (inp ! 3 mod push_bit 4 1), drop_bit 4 (inp ! 3) mod push_bit 20 1,
     drop_bit 24 (inp ! 3) OR push_bit (20 - 12) (inp ! 4 mod push_bit 12 1), drop_bit 12 (inp ! 4),
     drop_bit 0 (inp ! 5) mod push_bit 20 1, drop_bit 20 (inp ! 5) OR push_bit (20 - 8) (inp ! 6 mod push_bit 8 1),
     drop_bit 8 (inp ! 6) mod push_bit 20 1,
     drop_bit 28 (inp ! 6) OR push_bit (20 - 16) (inp ! 7 mod push_bit 16 1),
     drop_bit 16 (inp ! 7) OR push_bit (20 - 4) (inp ! 8 mod push_bit 4 1), drop_bit 4 (inp ! 8) mod push_bit 20 1,
     drop_bit 24 (inp ! 8) OR push_bit (20 - 12) (inp ! 9 mod push_bit 12 1), drop_bit 12 (inp ! 9),
     drop_bit 0 (inp ! 10) mod push_bit 20 1,
     drop_bit 20 (inp ! 10) OR push_bit (20 - 8) (inp ! 11 mod push_bit 8 1),
     drop_bit 8 (inp ! 11) mod push_bit 20 1,
     drop_bit 28 (inp ! 11) OR push_bit (20 - 16) (inp ! 12 mod push_bit 16 1),
     drop_bit 16 (inp ! 12) OR push_bit (20 - 4) (inp ! 13 mod push_bit 4 1),
     drop_bit 4 (inp ! 13) mod push_bit 20 1,
     drop_bit 24 (inp ! 13) OR push_bit (20 - 12) (inp ! 14 mod push_bit 12 1), drop_bit 12 (inp ! 14),
     drop_bit 0 (inp ! 15) mod push_bit 20 1,
     drop_bit 20 (inp ! 15) OR push_bit (20 - 8) (inp ! 16 mod push_bit 8 1),
     drop_bit 8 (inp ! 16) mod push_bit 20 1,
     drop_bit 28 (inp ! 16) OR push_bit (20 - 16) (inp ! 17 mod push_bit 16 1),
     drop_bit 16 (inp ! 17) OR push_bit (20 - 4) (inp ! 18 mod push_bit 4 1),
     drop_bit 4 (inp ! 18) mod push_bit 20 1,
     drop_bit 24 (inp ! 18) OR push_bit (20 - 12) (inp ! 19 mod push_bit 12 1), drop_bit 12 (inp ! 19)]"

definition sc_fastunpack21 :: "u32 list \<Rightarrow> u32 list" where
  "sc_fastunpack21 inp =
    [drop_bit 0 (inp ! 0) mod push_bit 21 1,
     drop_bit 21 (inp ! 0) OR push_bit (21 - 10) (inp ! 1 mod push_bit 10 1),
     drop_bit 10 (inp ! 1) mod push_bit 21 1,
     drop_bit 31 (inp ! 1) OR push_bit (21 - 20) (inp ! 2 mod push_bit 20 1),
     drop_bit 20 (inp ! 2) OR push_bit (21 - 9) (inp ! 3 mod push_bit 9 1), drop_bit 9 (inp ! 3) mod push_bit 21 1,
     drop_bit 30 (inp ! 3) OR push_bit (21 - 19) (inp ! 4 mod push_bit 19 1),
     drop_bit 19 (inp ! 4) OR push_bit (21 - 8) (inp ! 5 mod push_bit 8 1), drop_bit 8 (inp ! 5) mod push_bit 21 1,
     drop_bit 29 (inp ! 5) OR push_bit (21 - 18) (inp ! 6 mod push_bit 18 1),
     drop_bit 18 (inp ! 6) OR push_bit (21 - 7) (inp ! 7 mod push_bit 7 1), drop_bit 7 (inp ! 7) mod push_bit 21 1,
     drop_bit 28 (inp ! 7) OR push_bit (21 - 17) (inp ! 8 mod push_bit 17 1),
     drop_bit 17 (inp ! 8) OR push_bit (21 - 6) (inp ! 9 mod push_bit 6 1), drop_bit 6 (inp ! 9) mod push_bit 21 1,
     drop_bit 27 (inp ! 9) OR push_bit (21 - 16) (inp ! 10 mod push_bit 16 1),
     drop_bit 16 (inp ! 10) OR push_bit (21 - 5) (inp ! 11 mod push_bit 5 1),
     drop_bit 5 (inp ! 11) mod push_bit 21 1,
     drop_bit 26 (inp ! 11) OR push_bit (21 - 15) (inp ! 12 mod push_bit 15 1),
     drop_bit 15 (inp ! 12) OR push_bit (21 - 4) (inp ! 13 mod push_bit 4 1),
     drop_bit 4 (inp ! 13) mod push_bit 21 1,
     drop_bit 25 (inp ! 13) OR push_bit (21 - 14) (inp ! 14 mod push_bit 14 1),
     drop_bit 14 (inp ! 14) OR push_bit (21 - 3) (inp ! 15 mod push_bit 3 1),
     drop_bit 3 (inp ! 15) mod push_bit 21 1,
     drop_bit 24 (inp ! 15) OR push_bit (21 - 13) (inp ! 16 mod push_bit 13 1),
     drop_bit 13 (inp ! 16) OR push_bit (21 - 2) (inp ! 17 mod push_bit 2 1),
     drop_bit 2 (inp ! 17) mod push_bit 21 1,
     drop_bit 23 (inp ! 17) OR push_bit (21 - 12) (inp ! 18 mod push_bit 12 1),
     drop_bit 12 (inp ! 18) OR push_bit (21 - 1) (inp ! 19 mod push_bit 1 1),
     drop_bit 1 (inp ! 19) mod push_bit 21 1,
     drop_bit 22 (inp ! 19) OR push_bit (21 - 11) (inp ! 20 mod push_bit 11 1), drop_bit 11 (inp ! 20)]"

definition sc_fastunpack22 :: "u32 list \<Rightarrow> u32 list" where
  "sc_fastunpack22 inp =
    [drop_bit 0 (inp ! 0) mod push_bit 22 1,
     drop_bit 22 (inp ! 0) OR push_bit (22 - 12) (inp ! 1 mod push_bit 12 1),
     drop_bit 12 (inp ! 1) OR push_bit (22 - 2) (inp ! 2 mod push_bit 2 1), drop_bit 2 (inp ! 2) mod push_bit 22 1,
     drop_bit 24 (inp ! 2) OR push_bit (22 - 14) (inp ! 3 mod push_bit 14 1),
     drop_bit 14 (inp ! 3) OR push_bit (22 - 4) (inp ! 4 mod push_bit 4 1), drop_bit 4 (inp ! 4) mod push_bit 22 1,
     drop_bit 26 (inp ! 4) OR push_bit (22 - 16) (inp ! 5 mod push_bit 16 1),
     drop_bit 16 (inp ! 5) OR push_bit (22 - 6) (inp ! 6 mod push_bit 6 1), drop_bit 6 (inp ! 6) mod push_bit 22 1,
     drop_bit 28 (inp ! 6) OR push_bit (22 - 18) (inp ! 7 mod push_bit 18 1),
     drop_bit 18 (inp ! 7) OR push_bit (22 - 8) (inp ! 8 mod push_bit 8 1), drop_bit 8 (inp ! 8) mod push_bit 22 1,
     drop_bit 30 (inp ! 8) OR push_bit (22 - 20) (inp ! 9 mod push_bit 20 1),
     drop_bit 20 (inp ! 9) OR push_bit (22 - 10) (inp ! 10 mod push_bit 10 1), drop_bit 10 (inp ! 10),
     drop_bit 0 (inp ! 11) mod push_bit 22 1,
     drop_bit 22 (inp ! 11) OR push_bit (22 - 12) (inp ! 12 mod push_bit 12 1),
     drop_bit 12 (inp ! 12) OR push_bit (22 - 2) (inp ! 13 mod push_bit 2 1),
     drop_bit 2 (inp ! 13) mod push_bit 22 1,
     drop_bit 24 (inp ! 13) OR push_bit (22 - 14) (inp ! 14 mod push_bit 14 1),
     drop_bit 14 (inp ! 14) OR push_bit (22 - 4) (inp ! 15 mod push_bit 4 1),
     drop_bit 4 (inp ! 15) mod push_bit 22 1,
     drop_bit 26 (inp ! 15) OR push_bit (22 - 16) (inp ! 16 mod push_bit 16 1),
     drop_bit 16 (inp ! 16) OR push_bit (22 - 6) (inp ! 17 mod push_bit 6 1),
     drop_bit 6 (inp ! 17) mod push_bit 22 1,
     drop_bit 28 (inp ! 17) OR push_bit (22 - 18) (inp ! 18 mod push_bit 18 1),
     drop_bit 18 (inp ! 18) OR push_bit (22 - 8) (inp ! 19 mod push_bit 8 1),
     drop_bit 8 (inp ! 19) mod push_bit 22 1,
     drop_bit 30 (inp ! 19) OR push_bit (22 - 20) (inp ! 20 mod push_bit 20 1),
     drop_bit 20 (inp ! 20) OR push_bit (22 - 10) (inp ! 21 mod push_bit 10 1), drop_bit 10 (inp ! 21)]"

definition sc_fastunpack23 :: "u32 list \<Rightarrow> u32 list" where
  "sc_fastunpack23 inp =
    [drop_bit 0 (inp ! 0) mod push_bit 23 1,
     drop_bit 23 (inp ! 0) OR push_bit (23 - 14) (inp ! 1 mod push_bit 14 1),
     drop_bit 14 (inp ! 1) OR push_bit (23 - 5) (inp ! 2 mod push_bit 5 1), drop_bit 5 (inp ! 2) mod push_bit 23 1,
     drop_bit 28 (inp ! 2) OR push_bit (23 - 19) (inp ! 3 mod push_bit 19 1),
     drop_bit 19 (inp ! 3) OR push_bit (23 - 10) (inp ! 4 mod push_bit 10 1),
     drop_bit 10 (inp ! 4) OR push_bit (23 - 1) (inp ! 5 mod push_bit 1 1), drop_bit 1 (inp ! 5) mod push_bit 23 1,
     drop_bit 24 (inp ! 5) OR push_bit (23 - 15) (inp ! 6 mod push_bit 15 1),
     drop_bit 15 (inp ! 6) OR push_bit (23 - 6) (inp ! 7 mod push_bit 6 1), drop_bit 6 (inp ! 7) mod push_bit 23 1,
     drop_bit 29 (inp ! 7) OR push_bit (23 - 20) (inp ! 8 mod push_bit 20 1),
     drop_bit 20 (inp ! 8) OR push_bit (23 - 11) (inp ! 9 mod push_bit 11 1),
     drop_bit 11 (inp ! 9) OR push_bit (23 - 2) (inp ! 10 mod push_bit 2 1),
     drop_bit 2 (inp ! 10) mod push_bit 23 1,
     drop_bit 25 (inp ! 10) OR push_bit (23 - 16) (inp ! 11 mod push_bit 16 1),
     drop_bit 16 (inp ! 11) OR push_bit (23 - 7) (inp ! 12 mod push_bit 7 1),
     drop_bit 7 (inp ! 12) mod push_bit 23 1,
     drop_bit 30 (inp ! 12) OR push_bit (23 - 21) (inp ! 13 mod push_bit 21 1),
     drop_bit 21 (inp ! 13) OR push_bit (23 - 12) (inp ! 14 mod push_bit 12 1),
     drop_bit 12 (inp ! 14) OR push_bit (23 - 3) (inp ! 15 mod push_bit 3 1),
     drop_bit 3 (inp ! 15) mod push_bit 23 1,
     drop_bit 26 (inp ! 15) OR push_bit (23 - 17) (inp ! 16 mod push_bit 17 1),
     drop_bit 17 (inp ! 16) OR push_bit (23 - 8) (inp ! 17 mod push_bit 8 1),
     drop_bit 8 (inp ! 17) mod push_bit 23 1,
     drop_bit 31 (inp ! 17) OR push_bit (23 - 22) (inp ! 18 mod push_bit 22 1),
     drop_bit 22 (inp ! 18) OR push_bit (23 - 13) (inp ! 19 mod push_bit 13 1),
     drop_bit 13 (inp ! 19) OR push_bit (23 - 4) (inp ! 20 mod push_bit 4 1),
     drop_bit 4 (inp ! 20) mod push_bit 23 1,
     drop_bit 27 (inp ! 20) OR push_bit (23 - 18) (inp ! 21 mod push_bit 18 1),
     drop_bit 18 (inp ! 21) OR push_bit (23 - 9) (inp ! 22 mod push_bit 9 1), drop_bit 9 (inp ! 22)]"

definition sc_fastunpack24 :: "u32 list \<Rightarrow> u32 list" where
  "sc_fastunpack24 inp =
    [drop_bit 0 (inp ! 0) mod push_bit 24 1,
     drop_bit 24 (inp ! 0) OR push_bit (24 - 16) (inp ! 1 mod push_bit 16 1),
     drop_bit 16 (inp ! 1) OR push_bit (24 - 8) (inp ! 2 mod push_bit 8 1), drop_bit 8 (inp ! 2),
     drop_bit 0 (inp ! 3) mod push_bit 24 1,
     drop_bit 24 (inp ! 3) OR push_bit (24 - 16) (inp ! 4 mod push_bit 16 1),
     drop_bit 16 (inp ! 4) OR push_bit (24 - 8) (inp ! 5 mod push_bit 8 1), drop_bit 8 (inp ! 5),
     drop_bit 0 (inp ! 6) mod push_bit 24 1,
     drop_bit 24 (inp ! 6) OR push_bit (24 - 16) (inp ! 7 mod push_bit 16 1),
     drop_bit 16 (inp ! 7) OR push_bit (24 - 8) (inp ! 8 mod push_bit 8 1), drop_bit 8 (inp ! 8),
     drop_bit 0 (inp ! 9) mod push_bit 24 1,
     drop_bit 24 (inp ! 9) OR push_bit (24 - 16) (inp ! 10 mod push_bit 16 1),
     drop_bit 16 (inp ! 10) OR push_bit (24 - 8) (inp ! 11 mod push_bit 8 1), drop_bit 8 (inp ! 11),
     drop_bit 0 (inp ! 12) mod push_bit 24 1,
     drop_bit 24 (inp ! 12) OR push_bit (24 - 16) (inp ! 13 mod push_bit 16 1),
     drop_bit 16 (inp ! 13) OR push_bit (24 - 8) (inp ! 14 mod push_bit 8 1), drop_bit 8 (inp ! 14),
     drop_bit 0 (inp ! 15) mod push_bit 24 1,
     drop_bit 24 (inp ! 15) OR push_bit (24 - 16) (inp ! 16 mod push_bit 16 1),
     drop_bit 16 (inp ! 16) OR push_bit (24 - 8) (inp ! 17 mod push_bit 8 1), drop_bit 8 (inp ! 17),
     drop_bit 0 (inp ! 18) mod push_bit 24 1,
     drop_bit 24 (inp ! 18) OR push_bit (24 - 16) (inp ! 19 mod push_bit 16 1),
     drop_bit 16 (inp ! 19) OR push_bit (24 - 8) (inp ! 20 mod push_bit 8 1), drop_bit 8 (inp ! 20),
     drop_bit 0 (inp ! 21) mod push_bit 24 1,
     drop_bit 24 (inp ! 21) OR push_bit (24 - 16) (inp ! 22 mod push_bit 16 1),
     drop_bit 16 (inp ! 22) OR push_bit (24 - 8) (inp ! 23 mod push_bit 8 1), drop_bit 8 (inp ! 23)]"

definition sc_fastunpack25 :: "u32 list \<Rightarrow> u32 list" where
  "sc_fastunpack25 inp =
    [drop_bit 0 (inp ! 0) mod push_bit 25 1,
     drop_bit 25 (inp ! 0) OR push_bit (25 - 18) (inp ! 1 mod push_bit 18 1),
     drop_bit 18 (inp ! 1) OR push_bit (25 - 11) (inp ! 2 mod push_bit 11 1),
     drop_bit 11 (inp ! 2) OR push_bit (25 - 4) (inp ! 3 mod push_bit 4 1), drop_bit 4 (inp ! 3) mod push_bit 25 1,
     drop_bit 29 (inp ! 3) OR push_bit (25 - 22) (inp ! 4 mod push_bit 22 1),
     drop_bit 22 (inp ! 4) OR push_bit (25 - 15) (inp ! 5 mod push_bit 15 1),
     drop_bit 15 (inp ! 5) OR push_bit (25 - 8) (inp ! 6 mod push_bit 8 1),
     drop_bit 8 (inp ! 6) OR push_bit (25 - 1) (inp ! 7 mod push_bit 1 1), drop_bit 1 (inp ! 7) mod push_bit 25 1,
     drop_bit 26 (inp ! 7) OR push_bit (25 - 19) (inp ! 8 mod push_bit 19 1),
     drop_bit 19 (inp ! 8) OR push_bit (25 - 12) (inp ! 9 mod push_bit 12 1),
     drop_bit 12 (inp ! 9) OR push_bit (25 - 5) (inp ! 10 mod push_bit 5 1),
     drop_bit 5 (inp ! 10) mod push_bit 25 1,
     drop_bit 30 (inp ! 10) OR push_bit (25 - 23) (inp ! 11 mod push_bit 23 1),
     drop_bit 23 (inp ! 11) OR push_bit (25 - 16) (inp ! 12 mod push_bit 16 1),
     drop_bit 16 (inp ! 12) OR push_bit (25 - 9) (inp ! 13 mod push_bit 9 1),
     drop_bit 9 (inp ! 13) OR push_bit (25 - 2) (inp ! 14 mod push_bit 2 1),
     drop_bit 2 (inp ! 14) mod push_bit 25 1,
     drop_bit 27 (inp ! 14) OR push_bit (25 - 20) (inp ! 15 mod push_bit 20 1),
     drop_bit 20 (inp ! 15) OR push_bit (25 - 13) (inp ! 16 mod push_bit 13 1),
     drop_bit 13 (inp ! 16) OR push_bit (25 - 6) (inp ! 17 mod push_bit 6 1),
     drop_bit 6 (inp ! 17) mod push_bit 25 1,
     drop_bit 31 (inp ! 17) OR push_bit (25 - 24) (inp ! 18 mod push_bit 24 1),
     drop_bit 24 (inp ! 18) OR push_bit (25 - 17) (inp ! 19 mod push_bit 17 1),
     drop_bit 17 (inp ! 19) OR push_bit (25 - 10) (inp ! 20 mod push_bit 10 1),
     drop_bit 10 (inp ! 20) OR push_bit (25 - 3) (inp ! 21 mod push_bit 3 1),
     drop_bit 3 (inp ! 21) mod push_bit 25 1,
     drop_bit 28 (inp ! 21) OR push_bit (25 - 21) (inp ! 22 mod push_bit 21 1),
     drop_bit 21 (inp ! 22) OR push_bit (25 - 14) (inp ! 23 mod push_bit 14 1),
     drop_bit 14 (inp ! 23) OR push_bit (25 - 7) (inp ! 24 mod push_bit 7 1), drop_bit 7 (inp ! 24)]"

definition sc_fastunpack26 :: "u32 list \<Rightarrow> u32 list" where
  "sc_fastunpack26 inp =
    [drop_bit 0 (inp ! 0) mod push_bit 26 1,
     drop_bit 26 (inp ! 0) OR push_bit (26 - 20) (inp ! 1 mod push_bit 20 1),
     drop_bit 20 (inp ! 1) OR push_bit (26 - 14) (inp ! 2 mod push_bit 14 1),
     drop_bit 14 (inp ! 2) OR push_bit (26 - 8) (inp ! 3 mod push_bit 8 1),
     drop_bit 8 (inp ! 3) OR push_bit (26 - 2) (inp ! 4 mod push_bit 2 1), drop_bit 2 (inp ! 4) mod push_bit 26 1,
     drop_bit 28 (inp ! 4) OR push_bit (26 - 22) (inp ! 5 mod push_bit 22 1),
     drop_bit 22 (inp ! 5) OR push_bit (26 - 16) (inp ! 6 mod push_bit 16 1),
     drop_bit 16 (inp ! 6) OR push_bit (26 - 10) (inp ! 7 mod push_bit 10 1),
     drop_bit 10 (inp ! 7) OR push_bit (26 - 4) (inp ! 8 mod push_bit 4 1), drop_bit 4 (inp ! 8) mod push_bit 26 1,
     drop_bit 30 (inp ! 8) OR push_bit (26 - 24) (inp ! 9 mod push_bit 24 1),
     drop_bit 24 (inp ! 9) OR push_bit (26 - 18) (inp ! 10 mod push_bit 18 1),
     drop_bit 18 (inp ! 10) OR push_bit (26 - 12) (inp ! 11 mod push_bit 12 1),
     drop_bit 12 (inp ! 11) OR push_bit (26 - 6) (inp ! 12 mod push_bit 6 1), drop_bit 6 (inp ! 12),
     drop_bit 0 (inp ! 13) mod push_bit 26 1,
     drop_bit 26 (inp ! 13) OR push_bit (26 - 20) (inp ! 14 mod push_bit 20 1),
     drop_bit 20 (inp ! 14) OR push_bit (26 - 14) (inp ! 15 mod push_bit 14 1),
     drop_bit 14 (inp ! 15) OR push_bit (26 - 8) (inp ! 16 mod push_bit 8 1),
     drop_bit 8 (inp ! 16) OR push_bit (26 - 2) (inp ! 17 mod push_bit 2 1),
     drop_bit 2 (inp ! 17) mod push_bit 26 1,
     drop_bit 28 (inp ! 17) OR push_bit (26 - 22) (inp ! 18 mod push_bit 22 1),
     drop_bit 22 (inp ! 18) OR push_bit (26 - 16) (inp ! 19 mod push_bit 16 1),
     drop_bit 16 (inp ! 19) OR push_bit (26 - 10) (inp ! 20 mod push_bit 10 1),
     drop_bit 10 (inp ! 20) OR push_bit (26 - 4) (inp ! 21 mod push_bit 4 1),
     drop_bit 4 (inp ! 21) mod push_bit 26 1,
     drop_bit 30 (inp ! 21) OR push_bit (26 - 24) (inp ! 22 mod push_bit 24 1),
     drop_bit 24 (inp ! 22) OR push_bit (26 - 18) (inp ! 23 mod push_bit 18 1),
     drop_bit 18 (inp ! 23) OR push_bit (26 - 12) (inp ! 24 mod push_bit 12 1),
     drop_bit 12 (inp ! 24) OR push_bit (26 - 6) (inp ! 25 mod push_bit 6 1), drop_bit 6 (inp ! 25)]"

definition sc_fastunpack27 :: "u32 list \<Rightarrow> u32 list" where
  "sc_fastunpack27 inp =
    [drop_bit 0 (inp ! 0) mod push_bit 27 1,
     drop_bit 27 (inp ! 0) OR push_bit (27 - 22) (inp ! 1 mod push_bit 22 1),
     drop_bit 22 (inp ! 1) OR push_bit (27 - 17) (inp ! 2 mod push_bit 17 1),
     drop_bit 17 (inp ! 2) OR push_bit (27 - 12) (inp ! 3 mod push_bit 12 1),
     drop_bit 12 (inp ! 3) OR push_bit (27 - 7) (inp ! 4 mod push_bit 7 1),
     drop_bit 7 (inp ! 4) OR push_bit (27 - 2) (inp ! 5 mod push_bit 2 1), drop_bit 2 (inp ! 5) mod push_bit 27 1,
     drop_bit 29 (inp ! 5) OR push_bit (27 - 24) (inp ! 6 mod push_bit 24 1),
     drop_bit 24 (inp ! 6) OR push_bit (27 - 19) (inp ! 7 mod push_bit 19 1),
     drop_bit 19 (inp ! 7) OR push_bit (27 - 14) (inp ! 8 mod push_bit 14 1),
     drop_bit 14 (inp ! 8) OR push_bit (27 - 9) (inp ! 9 mod push_bit 9 1),
     drop_bit 9 (inp ! 9) OR push_bit (27 - 4) (inp ! 10 mod push_bit 4 1), drop_bit 4 (inp ! 10) mod push_bit 27 1,
     drop_bit 31 (inp ! 10) OR push_bit (27 - 26) (inp ! 11 mod push_bit 26 1),
     drop_bit 26 (inp ! 11) OR push_bit (27 - 21) (inp ! 12 mod push_bit 21 1),
     drop_bit 21 (inp ! 12) OR push_bit (27 - 16) (inp ! 13 mod push_bit 16 1),
     drop_bit 16 (inp ! 13) OR push_bit (27 - 11) (inp ! 14 mod push_bit 11 1),
     drop_bit 11 (inp ! 14) OR push_bit (27 - 6) (inp ! 15 mod push_bit 6 1),
     drop_bit 6 (inp ! 15) OR push_bit (27 - 1) (inp ! 16 mod push_bit 1 1),
     drop_bit 1 (inp ! 16) mod push_bit 27 1,
     drop_bit 28 (inp ! 16) OR push_bit (27 - 23) (inp ! 17 mod push_bit 23 1),
     drop_bit 23 (inp ! 17) OR push_bit (27 - 18) (inp ! 18 mod push_bit 18 1),
     drop_bit 18 (inp ! 18) OR push_bit (27 - 13) (inp ! 19 mod push_bit 13 1),
     drop_bit 13 (inp ! 19) OR push_bit (27 - 8) (inp ! 20 mod push_bit 8 1),
     drop_bit 8 (inp ! 20) OR push_bit (27 - 3) (inp ! 21 mod push_bit 3 1),
     drop_bit 3 (inp ! 21) mod push_bit 27 1,
     drop_bit 30 (inp ! 21) OR push_bit (27 - 25) (inp ! 22 mod push_bit 25 1),
     drop_bit 25 (inp ! 22) OR push_bit (27 - 20) (inp ! 23 mod push_bit 20 1),
     drop_bit 20 (inp ! 23) OR push_bit (27 - 15) (inp ! 24 mod push_bit 15 1),
     drop_bit 15 (inp ! 24) OR push_bit (27 - 10) (inp ! 25 mod push_bit 10 1),
     drop_bit 10 (inp ! 25) OR push_bit (27 - 5) (inp ! 26 mod push_bit 5 1), drop_bit 5 (inp ! 26)]"

definition sc_fastunpack28 :: "u32 list \<Rightarrow> u32 list" where
  "sc_fastunpack28 inp =
    [drop_bit 0 (inp ! 0) mod push_bit 28 1,
     drop_bit 28 (inp ! 0) OR push_bit (28 - 24) (inp ! 1 mod push_bit 24 1),
     drop_bit 24 (inp ! 1) OR push_bit (28 - 20) (inp ! 2 mod push_bit 20 1),
     drop_bit 20 (inp ! 2) OR push_bit (28 - 16) (inp ! 3 mod push_bit 16 1),
     drop_bit 16 (inp ! 3) OR push_bit (28 - 12) (inp ! 4 mod push_bit 12 1),
     drop_bit 12 (inp ! 4) OR push_bit (28 - 8) (inp ! 5 mod push_bit 8 1),
     drop_bit 8 (inp ! 5) OR push_bit (28 - 4) (inp ! 6 mod push_bit 4 1), drop_bit 4 (inp ! 6),
     drop_bit 0 (inp ! 7) mod push_bit 28 1,
     drop_bit 28 (inp ! 7) OR push_bit (28 - 24) (inp ! 8 mod push_bit 24 1),
     drop_bit 24 (inp ! 8) OR push_bit (28 - 20) (inp ! 9 mod push_bit 20 1),
     drop_bit 20 (inp ! 9) OR push_bit (28 - 16) (inp ! 10 mod push_bit 16 1),
     drop_bit 16 (inp ! 10) OR push_bit (28 - 12) (inp ! 11 mod push_bit 12 1),
     drop_bit 12 (inp ! 11) OR push_bit (28 - 8) (inp ! 12 mod push_bit 8 1),
     drop_bit 8 (inp ! 12) OR push_bit (28 - 4) (inp ! 13 mod push_bit 4 1), drop_bit 4 (inp ! 13),
     drop_bit 0 (inp ! 14) mod push_bit 28 1,
     drop_bit 28 (inp ! 14) OR push_bit (28 - 24) (inp ! 15 mod push_bit 24 1),
     drop_bit 24 (inp ! 15) OR push_bit (28 - 20) (inp ! 16 mod push_bit 20 1),
     drop_bit 20 (inp ! 16) OR push_bit (28 - 16) (inp ! 17 mod push_bit 16 1),
     drop_bit 16 (inp ! 17) OR push_bit (28 - 12) (inp ! 18 mod push_bit 12 1),
     drop_bit 12 (inp ! 18) OR push_bit (28 - 8) (inp ! 19 mod push_bit 8 1),
     drop_bit 8 (inp ! 19) OR push_bit (28 - 4) (inp ! 20 mod push_bit 4 1), drop_bit 4 (inp ! 20),
     drop_bit 0 (inp ! 21) mod push_bit 28 1,
     drop_bit 28 (inp ! 21) OR push_bit (28 - 24) (inp ! 22 mod push_bit 24 1),
     drop_bit 24 (inp ! 22) OR push_bit (28 - 20) (inp ! 23 mod push_bit 20 1),
     drop_bit 20 (inp ! 23) OR push_bit (28 - 16) (inp ! 24 mod push_bit 16 1),
     drop_bit 16 (inp ! 24) OR push_bit (28 - 12) (inp ! 25 mod push_bit 12 1),
     drop_bit 12 (inp ! 25) OR push_bit (28 - 8) (inp ! 26 mod push_bit 8 1),
     drop_bit 8 (inp ! 26) OR push_bit (28 - 4) (inp ! 27 mod push_bit 4 1), drop_bit 4 (inp ! 27)]"

definition sc_fastunpack29 :: "u32 list \<Rightarrow> u32 list" where
  "sc_fastunpack29 inp =
    [drop_bit 0 (inp ! 0) mod push_bit 29 1,
     drop_bit 29 (inp ! 0) OR push_bit (29 - 26) (inp ! 1 mod push_bit 26 1),
     drop_bit 26 (inp ! 1) OR push_bit (29 - 23) (inp ! 2 mod push_bit 23 1),
     drop_bit 23 (inp ! 2) OR push_bit (29 - 20) (inp ! 3 mod push_bit 20 1),
     drop_bit 20 (inp ! 3) OR push_bit (29 - 17) (inp ! 4 mod push_bit 17 1),
     drop_bit 17 (inp ! 4) OR push_bit (29 - 14) (inp ! 5 mod push_bit 14 1),
     drop_bit 14 (inp ! 5) OR push_bit (29 - 11) (inp ! 6 mod push_bit 11 1),
     drop_bit 11 (inp ! 6) OR push_bit (29 - 8) (inp ! 7 mod push_bit 8 1),
     drop_bit 8 (inp ! 7) OR push_bit (29 - 5) (inp ! 8 mod push_bit 5 1),
     drop_bit 5 (inp ! 8) OR push_bit (29 - 2) (inp ! 9 mod push_bit 2 1), drop_bit 2 (inp ! 9) mod push_bit 29 1,
     drop_bit 31 (inp ! 9) OR push_bit (29 - 28) (inp ! 10 mod push_bit 28 1),
     drop_bit 28 (inp ! 10) OR push_bit (29 - 25) (inp ! 11 mod push_bit 25 1),
     drop_bit 25 (inp ! 11) OR push_bit (29 - 22) (inp ! 12 mod push_bit 22 1),
     drop_bit 22 (inp ! 12) OR push_bit (29 - 19) (inp ! 13 mod push_bit 19 1),
     drop_bit 19 (inp ! 13) OR push_bit (29 - 16) (inp ! 14 mod push_bit 16 1),
     drop_bit 16 (inp ! 14) OR push_bit (29 - 13) (inp ! 15 mod push_bit 13 1),
     drop_bit 13 (inp ! 15) OR push_bit (29 - 10) (inp ! 16 mod push_bit 10 1),
     drop_bit 10 (inp ! 16) OR push_bit (29 - 7) (inp ! 17 mod push_bit 7 1),
     drop_bit 7 (inp ! 17) OR push_bit (29 - 4) (inp ! 18 mod push_bit 4 1),
     drop_bit 4 (inp ! 18) OR push_bit (29 - 1) (inp ! 19 mod push_bit 1 1),
     drop_bit 1 (inp ! 19) mod push_bit 29 1,
     drop_bit 30 (inp ! 19) OR push_bit (29 - 27) (inp ! 20 mod push_bit 27 1),
     drop_bit 27 (inp ! 20) OR push_bit (29 - 24) (inp ! 21 mod push_bit 24 1),
     drop_bit 24 (inp ! 21) OR push_bit (29 - 21) (inp ! 22 mod push_bit 21 1),
     drop_bit 21 (inp ! 22) OR push_bit (29 - 18) (inp ! 23 mod push_bit 18 1),
     drop_bit 18 (inp ! 23) OR push_bit (29 - 15) (inp ! 24 mod push_bit 15 1),
     drop_bit 15 (inp ! 24) OR push_bit (29 - 12) (inp ! 25 mod push_bit 12 1),
     drop_bit 12 (inp ! 25) OR push_bit (29 - 9) (inp ! 26 mod push_bit 9 1),
     drop_bit 9 (inp ! 26) OR push_bit (29 - 6) (inp ! 27 mod push_bit 6 1),
     drop_bit 6 (inp ! 27) OR push_bit (29 - 3) (inp ! 28 mod push_bit 3 1), drop_bit 3 (inp ! 28)]"

definition sc_fastunpack30 :: "u32 list \<Rightarrow> u32 list" where
  "sc_fastunpack30 inp =
    [drop_bit 0 (inp ! 0) mod push_bit 30 1,
     drop_bit 30 (inp ! 0) OR push_bit (30 - 28) (inp ! 1 mod push_bit 28 1),
     drop_bit 28 (inp ! 1) OR push_bit (30 - 26) (inp ! 2 mod push_bit 26 1),
     drop_bit 26 (inp ! 2) OR push_bit (30 - 24) (inp ! 3 mod push_bit 24 1),
     drop_bit 24 (inp ! 3) OR push_bit (30 - 22) (inp ! 4 mod push_bit 22 1),
     drop_bit 22 (inp ! 4) OR push_bit (30 - 20) (inp ! 5 mod push_bit 20 1),
     drop_bit 20 (inp ! 5) OR push_bit (30 - 18) (inp ! 6 mod push_bit 18 1),
     drop_bit 18 (inp ! 6) OR push_bit (30 - 16) (inp ! 7 mod push_bit 16 1),
     drop_bit 16 (inp ! 7) OR push_bit (30 - 14) (inp ! 8 mod push_bit 14 1),
     drop_bit 14 (inp ! 8) OR push_bit (30 - 12) (inp ! 9 mod push_bit 12 1),
     drop_bit 12 (inp ! 9) OR push_bit (30 - 10) (inp ! 10 mod push_bit 10 1),
     drop_bit 10 (inp ! 10) OR push_bit (30 - 8) (inp ! 11 mod push_bit 8 1),
     drop_bit 8 (inp ! 11) OR push_bit (30 - 6) (inp ! 12 mod push_bit 6 1),
     drop_bit 6 (inp ! 12) OR push_bit (30 - 4) (inp ! 13 mod push_bit 4 1),
     drop_bit 4 (inp ! 13) OR push_bit (30 - 2) (inp ! 14 mod push_bit 2 1), drop_bit 2 (inp ! 14),
     drop_bit 0 (inp ! 15) mod push_bit 30 1,
     drop_bit 30 (inp ! 15) OR push_bit (30 - 28) (inp ! 16 mod push_bit 28 1),
     drop_bit 28 (inp ! 16) OR push_bit (30 - 26) (inp ! 17 mod push_bit 26 1),
     drop_bit 26 (inp ! 17) OR push_bit (30 - 24) (inp ! 18 mod push_bit 24 1),
     drop_bit 24 (inp ! 18) OR push_bit (30 - 22) (inp ! 19 mod push_bit 22 1),
     drop_bit 22 (inp ! 19) OR push_bit (30 - 20) (inp ! 20 mod push_bit 20 1),
     drop_bit 20 (inp ! 20) OR push_bit (30 - 18) (inp ! 21 mod push_bit 18 1),
     drop_bit 18 (inp ! 21) OR push_bit (30 - 16) (inp ! 22 mod push_bit 16 1),
     drop_bit 16 (inp ! 22) OR push_bit (30 - 14) (inp ! 23 mod push_bit 14 1),
     drop_bit 14 (inp ! 23) OR push_bit (30 - 12) (inp ! 24 mod push_bit 12 1),
     drop_bit 12 (inp ! 24) OR push_bit (30 - 10) (inp ! 25 mod push_bit 10 1),
     drop_bit 10 (inp ! 25) OR push_bit (30 - 8) (inp ! 26 mod push_bit 8 1),
     drop_bit 8 (inp ! 26) OR push_bit (30 - 6) (inp ! 27 mod push_bit 6 1),
     drop_bit 6 (inp ! 27) OR push_bit (30 - 4) (inp ! 28 mod push_bit 4 1),
     drop_bit 4 (inp ! 28) OR push_bit (30 - 2) (inp ! 29 mod push_bit 2 1), drop_bit 2 (inp ! 29)]"

definition sc_fastunpack31 :: "u32 list \<Rightarrow> u32 list" where
  "sc_fastunpack31 inp =
    [drop_bit 0 (inp ! 0) mod push_bit 31 1,
     drop_bit 31 (inp ! 0) OR push_bit (31 - 30) (inp ! 1 mod push_bit 30 1),
     drop_bit 30 (inp ! 1) OR push_bit (31 - 29) (inp ! 2 mod push_bit 29 1),
     drop_bit 29 (inp ! 2) OR push_bit (31 - 28) (inp ! 3 mod push_bit 28 1),
     drop_bit 28 (inp ! 3) OR push_bit (31 - 27) (inp ! 4 mod push_bit 27 1),
     drop_bit 27 (inp ! 4) OR push_bit (31 - 26) (inp ! 5 mod push_bit 26 1),
     drop_bit 26 (inp ! 5) OR push_bit (31 - 25) (inp ! 6 mod push_bit 25 1),
     drop_bit 25 (inp ! 6) OR push_bit (31 - 24) (inp ! 7 mod push_bit 24 1),
     drop_bit 24 (inp ! 7) OR push_bit (31 - 23) (inp ! 8 mod push_bit 23 1),
     drop_bit 23 (inp ! 8) OR push_bit (31 - 22) (inp ! 9 mod push_bit 22 1),
     drop_bit 22 (inp ! 9) OR push_bit (31 - 21) (inp ! 10 mod push_bit 21 1),
     drop_bit 21 (inp ! 10) OR push_bit (31 - 20) (inp ! 11 mod push_bit 20 1),
     drop_bit 20 (inp ! 11) OR push_bit (31 - 19) (inp ! 12 mod push_bit 19 1),
     drop_bit 19 (inp ! 12) OR push_bit (31 - 18) (inp ! 13 mod push_bit 18 1),
     drop_bit 18 (inp ! 13) OR push_bit (31 - 17) (inp ! 14 mod push_bit 17 1),
     drop_bit 17 (inp ! 14) OR push_bit (31 - 16) (inp ! 15 mod push_bit 16 1),
     drop_bit 16 (inp ! 15) OR push_bit (31 - 15) (inp ! 16 mod push_bit 15 1),
     drop_bit 15 (inp ! 16) OR push_bit (31 - 14) (inp ! 17 mod push_bit 14 1),
     drop_bit 14 (inp ! 17) OR push_bit (31 - 13) (inp ! 18 mod push_bit 13 1),
     drop_bit 13 (inp ! 18) OR push_bit (31 - 12) (inp ! 19 mod push_bit 12 1),
     drop_bit 12 (inp ! 19) OR push_bit (31 - 11) (inp ! 20 mod push_bit 11 1),
     drop_bit 11 (inp ! 20) OR push_bit (31 - 10) (inp ! 21 mod push_bit 10 1),
     drop_bit 10 (inp ! 21) OR push_bit (31 - 9) (inp ! 22 mod push_bit 9 1),
     drop_bit 9 (inp ! 22) OR push_bit (31 - 8) (inp ! 23 mod push_bit 8 1),
     drop_bit 8 (inp ! 23) OR push_bit (31 - 7) (inp ! 24 mod push_bit 7 1),
     drop_bit 7 (inp ! 24) OR push_bit (31 - 6) (inp ! 25 mod push_bit 6 1),
     drop_bit 6 (inp ! 25) OR push_bit (31 - 5) (inp ! 26 mod push_bit 5 1),
     drop_bit 5 (inp ! 26) OR push_bit (31 - 4) (inp ! 27 mod push_bit 4 1),
     drop_bit 4 (inp ! 27) OR push_bit (31 - 3) (inp ! 28 mod push_bit 3 1),
     drop_bit 3 (inp ! 28) OR push_bit (31 - 2) (inp ! 29 mod push_bit 2 1),
     drop_bit 2 (inp ! 29) OR push_bit (31 - 1) (inp ! 30 mod push_bit 1 1), drop_bit 1 (inp ! 30)]"

definition sc_fastunpack32 :: "u32 list \<Rightarrow> u32 list" where
  "sc_fastunpack32 inp = map (\<lambda>k. inp ! k) [0..<32]"

section \<open>Every routine is an instance of the reference\<close>

lemma sc_fastunpack0_eq: "sc_fastunpack0 = unpack_ref 0"
  by (rule ext) (simp add: sc_fastunpack0_def unpack_simps del: One_nat_def add_Suc_right)

lemma sc_fastunpack1_eq: "sc_fastunpack1 = unpack_ref 1"
  by (rule ext) (simp add: sc_fastunpack1_def unpack_simps del: One_nat_def add_Suc_right)

lemma sc_fastunpack2_eq: "sc_fastunpack2 = unpack_ref 2"
  by (rule ext) (simp add: sc_fastunpack2_def unpack_simps del: One_nat_def add_Suc_right)

lemma sc_fastunpack3_eq: "sc_fastunpack3 = unpack_ref 3"
  by (rule ext) (simp add: sc_fastunpack3_def unpack_simps del: One_nat_def add_Suc_right)

lemma sc_fastunpack4_eq: "sc_fastunpack4 = unpack_ref 4"
  by (rule ext) (simp add: sc_fastunpack4_def unpack_simps drop_bit_mod_top del: One_nat_def add_Suc_right)

lemma sc_fastunpack5_eq: "sc_fastunpack5 = unpack_ref 5"
  by (rule ext) (simp add: sc_fastunpack5_def unpack_simps del: One_nat_def add_Suc_right)

lemma sc_fastunpack6_eq: "sc_fastunpack6 = unpack_ref 6"
  by (rule ext) (simp add: sc_fastunpack6_def unpack_simps del: One_nat_def add_Suc_right)

lemma sc_fastunpack7_eq: "sc_fastunpack7 = unpack_ref 7"
  by (rule ext) (simp add: sc_fastunpack7_def unpack_simps del: One_nat_def add_Suc_right)

lemma sc_fastunpack8_eq: "sc_fastunpack8 = unpack_ref 8"
  by (rule ext) (simp add: sc_fastunpack8_def unpack_simps drop_bit_mod_top del: One_nat_def add_Suc_right)

lemma sc_fastunpack9_eq: "sc_fastunpack9 = unpack_ref 9"
  by (rule ext) (simp add: sc_fastunpack9_def unpack_simps del: One_nat_def add_Suc_right)

lemma sc_fastunpack10_eq: "sc_fastunpack10 = unpack_ref 10"
  by (rule ext) (simp add: sc_fastunpack10_def unpack_simps del: One_nat_def add_Suc_right)

lemma sc_fastunpack11_eq: "sc_fastunpack11 = unpack_ref 11"
  by (rule ext) (simp add: sc_fastunpack11_def unpack_simps del: One_nat_def add_Suc_right)

lemma sc_fastunpack12_eq: "sc_fastunpack12 = unpack_ref 12"
  by (rule ext) (simp add: sc_fastunpack12_def unpack_simps del: One_nat_def add_Suc_right)

lemma sc_fastunpack13_eq: "sc_fastunpack13 = unpack_ref 13"
  by (rule ext) (simp add: sc_fastunpack13_def unpack_simps del: One_nat_def add_Suc_right)

lemma sc_fastunpack14_eq: "sc_fastunpack14 = unpack_ref 14"
  by (rule ext) (simp add: sc_fastunpack14_def unpack_simps del: One_nat_def add_Suc_right)

lemma sc_fastunpack15_eq: "sc_fastunpack15 = unpack_ref 15"
  by (rule ext) (simp add: sc_fastunpack15_def unpack_simps del: One_nat_def add_Suc_right)

lemma sc_fastunpack16_eq: "sc_fastunpack16 = unpack_ref 16"
  by (rule ext) (simp add: sc_fastunpack16_def unpack_simps drop_bit_mod_top del: One_nat_def add_Suc_right)

lemma sc_fastunpack17_eq: "sc_fastunpack17 = unpack_ref 17"
  by (rule ext) (simp add: sc_fastunpack17_def unpack_simps del: One_nat_def add_Suc_right)

lemma sc_fastunpack18_eq: "sc_fastunpack18 = unpack_ref 18"
  by (rule ext) (simp add: sc_fastunpack18_def unpack_simps del: One_nat_def add_Suc_right)

lemma sc_fastunpack19_eq: "sc_fastunpack19 = unpack_ref 19"
  by (rule ext) (simp add: sc_fastunpack19_def unpack_simps del: One_nat_def add_Suc_right)

lemma sc_fastunpack20_eq: "sc_fastunpack20 = unpack_ref 20"
  by (rule ext) (simp add: sc_fastunpack20_def unpack_simps del: One_nat_def add_Suc_right)

lemma sc_fastunpack21_eq: "sc_fastunpack21 = unpack_ref 21"
  by (rule ext) (simp add: sc_fastunpack21_def unpack_simps del: One_nat_def add_Suc_right)

lemma sc_fastunpack22_eq: "sc_fastunpack22 = unpack_ref 22"
  by (rule ext) (simp add: sc_fastunpack22_def unpack_simps del: One_nat_def add_Suc_right)

lemma sc_fastunpack23_eq: "sc_fastunpack23 = unpack_ref 23"
  by (rule ext) (simp add: sc_fastunpack23_def unpack_simps del: One_nat_def add_Suc_right)

lemma sc_fastunpack24_eq: "sc_fastunpack24 = unpack_ref 24"
  by (rule ext) (simp add: sc_fastunpack24_def unpack_simps del: One_nat_def add_Suc_right)

lemma sc_fastunpack25_eq: "sc_fastunpack25 = unpack_ref 25"
  by (rule ext) (simp add: sc_fastunpack25_def unpack_simps del: One_nat_def add_Suc_right)

lemma sc_fastunpack26_eq: "sc_fastunpack26 = unpack_ref 26"
  by (rule ext) (simp add: sc_fastunpack26_def unpack_simps del: One_nat_def add_Suc_right)

lemma sc_fastunpack27_eq: "sc_fastunpack27 = unpack_ref 27"
  by (rule ext) (simp add: sc_fastunpack27_def unpack_simps del: One_nat_def add_Suc_right)

lemma sc_fastunpack28_eq: "sc_fastunpack28 = unpack_ref 28"
  by (rule ext) (simp add: sc_fastunpack28_def unpack_simps del: One_nat_def add_Suc_right)

lemma sc_fastunpack29_eq: "sc_fastunpack29 = unpack_ref 29"
  by (rule ext) (simp add: sc_fastunpack29_def unpack_simps del: One_nat_def add_Suc_right)

lemma sc_fastunpack30_eq: "sc_fastunpack30 = unpack_ref 30"
  by (rule ext) (simp add: sc_fastunpack30_def unpack_simps del: One_nat_def add_Suc_right)

lemma sc_fastunpack31_eq: "sc_fastunpack31 = unpack_ref 31"
  by (rule ext) (simp add: sc_fastunpack31_def unpack_simps del: One_nat_def add_Suc_right)

lemma sc_fastunpack32_eq: "sc_fastunpack32 = unpack_ref 32"
  by (rule ext) (simp add: sc_fastunpack32_def unpack_simps del: One_nat_def add_Suc_right)

definition sc_fastunpack_table :: "(u32 list \<Rightarrow> u32 list) list" where
  "sc_fastunpack_table =
    [sc_fastunpack0, sc_fastunpack1, sc_fastunpack2, sc_fastunpack3, sc_fastunpack4, sc_fastunpack5, sc_fastunpack6,
     sc_fastunpack7, sc_fastunpack8, sc_fastunpack9, sc_fastunpack10, sc_fastunpack11, sc_fastunpack12,
     sc_fastunpack13, sc_fastunpack14, sc_fastunpack15, sc_fastunpack16, sc_fastunpack17, sc_fastunpack18,
     sc_fastunpack19, sc_fastunpack20, sc_fastunpack21, sc_fastunpack22, sc_fastunpack23, sc_fastunpack24,
     sc_fastunpack25, sc_fastunpack26, sc_fastunpack27, sc_fastunpack28, sc_fastunpack29, sc_fastunpack30,
     sc_fastunpack31, sc_fastunpack32]"

lemma sc_fastunpack_table_eq: "sc_fastunpack_table = map unpack_ref [0..<33]"
  by (simp add: sc_fastunpack_table_def
    sc_fastunpack0_eq sc_fastunpack1_eq sc_fastunpack2_eq sc_fastunpack3_eq sc_fastunpack4_eq sc_fastunpack5_eq
    sc_fastunpack6_eq sc_fastunpack7_eq sc_fastunpack8_eq sc_fastunpack9_eq sc_fastunpack10_eq sc_fastunpack11_eq
    sc_fastunpack12_eq sc_fastunpack13_eq sc_fastunpack14_eq sc_fastunpack15_eq sc_fastunpack16_eq
    sc_fastunpack17_eq sc_fastunpack18_eq sc_fastunpack19_eq sc_fastunpack20_eq sc_fastunpack21_eq
    sc_fastunpack22_eq sc_fastunpack23_eq sc_fastunpack24_eq sc_fastunpack25_eq sc_fastunpack26_eq
    sc_fastunpack27_eq sc_fastunpack28_eq sc_fastunpack29_eq sc_fastunpack30_eq sc_fastunpack31_eq
    sc_fastunpack32_eq
    upt_step del: One_nat_def add_Suc_right)

end
