(* ===== verification/Scalar_Pack.thy ===== *)
theory Scalar_Pack
  imports Bitpack_Ref
begin

text \<open>
  The routines \<open>__fastpack0\<close> to \<open>__fastpack32\<close> of \<open>source/util/compression/simd-compression/bitpacking.cpp\<close>. Every routine
  is the reference packing of its width.
\<close>

section \<open>The routines\<close>

definition sc_fastpack0 :: "u32 list \<Rightarrow> u32 list" where
  "sc_fastpack0 inp = []"

definition sc_fastpack1 :: "u32 list \<Rightarrow> u32 list" where
  "sc_fastpack1 inp =
    [accum (inp ! 0 AND 1)
       [push_bit 1 (inp ! 1 AND 1), push_bit 2 (inp ! 2 AND 1), push_bit 3 (inp ! 3 AND 1), push_bit 4 (inp ! 4 AND 1),
        push_bit 5 (inp ! 5 AND 1), push_bit 6 (inp ! 6 AND 1), push_bit 7 (inp ! 7 AND 1), push_bit 8 (inp ! 8 AND 1),
        push_bit 9 (inp ! 9 AND 1), push_bit 10 (inp ! 10 AND 1), push_bit 11 (inp ! 11 AND 1),
        push_bit 12 (inp ! 12 AND 1), push_bit 13 (inp ! 13 AND 1), push_bit 14 (inp ! 14 AND 1),
        push_bit 15 (inp ! 15 AND 1), push_bit 16 (inp ! 16 AND 1), push_bit 17 (inp ! 17 AND 1),
        push_bit 18 (inp ! 18 AND 1), push_bit 19 (inp ! 19 AND 1), push_bit 20 (inp ! 20 AND 1),
        push_bit 21 (inp ! 21 AND 1), push_bit 22 (inp ! 22 AND 1), push_bit 23 (inp ! 23 AND 1),
        push_bit 24 (inp ! 24 AND 1), push_bit 25 (inp ! 25 AND 1), push_bit 26 (inp ! 26 AND 1),
        push_bit 27 (inp ! 27 AND 1), push_bit 28 (inp ! 28 AND 1), push_bit 29 (inp ! 29 AND 1),
        push_bit 30 (inp ! 30 AND 1), push_bit 31 (inp ! 31)]]"

definition sc_fastpack2 :: "u32 list \<Rightarrow> u32 list" where
  "sc_fastpack2 inp =
    [accum (inp ! 0 mod push_bit 2 1)
       [push_bit 2 (inp ! 1 mod push_bit 2 1), push_bit 4 (inp ! 2 mod push_bit 2 1),
        push_bit 6 (inp ! 3 mod push_bit 2 1), push_bit 8 (inp ! 4 mod push_bit 2 1),
        push_bit 10 (inp ! 5 mod push_bit 2 1), push_bit 12 (inp ! 6 mod push_bit 2 1),
        push_bit 14 (inp ! 7 mod push_bit 2 1), push_bit 16 (inp ! 8 mod push_bit 2 1),
        push_bit 18 (inp ! 9 mod push_bit 2 1), push_bit 20 (inp ! 10 mod push_bit 2 1),
        push_bit 22 (inp ! 11 mod push_bit 2 1), push_bit 24 (inp ! 12 mod push_bit 2 1),
        push_bit 26 (inp ! 13 mod push_bit 2 1), push_bit 28 (inp ! 14 mod push_bit 2 1), push_bit 30 (inp ! 15)],
     accum (inp ! 16 mod push_bit 2 1)
       [push_bit 2 (inp ! 17 mod push_bit 2 1), push_bit 4 (inp ! 18 mod push_bit 2 1),
        push_bit 6 (inp ! 19 mod push_bit 2 1), push_bit 8 (inp ! 20 mod push_bit 2 1),
        push_bit 10 (inp ! 21 mod push_bit 2 1), push_bit 12 (inp ! 22 mod push_bit 2 1),
        push_bit 14 (inp ! 23 mod push_bit 2 1), push_bit 16 (inp ! 24 mod push_bit 2 1),
        push_bit 18 (inp ! 25 mod push_bit 2 1), push_bit 20 (inp ! 26 mod push_bit 2 1),
        push_bit 22 (inp ! 27 mod push_bit 2 1), push_bit 24 (inp ! 28 mod push_bit 2 1),
        push_bit 26 (inp ! 29 mod push_bit 2 1), push_bit 28 (inp ! 30 mod push_bit 2 1), push_bit 30 (inp ! 31)]]"

definition sc_fastpack3 :: "u32 list \<Rightarrow> u32 list" where
  "sc_fastpack3 inp =
    [accum (inp ! 0 mod push_bit 3 1)
       [push_bit 3 (inp ! 1 mod push_bit 3 1), push_bit 6 (inp ! 2 mod push_bit 3 1),
        push_bit 9 (inp ! 3 mod push_bit 3 1), push_bit 12 (inp ! 4 mod push_bit 3 1),
        push_bit 15 (inp ! 5 mod push_bit 3 1), push_bit 18 (inp ! 6 mod push_bit 3 1),
        push_bit 21 (inp ! 7 mod push_bit 3 1), push_bit 24 (inp ! 8 mod push_bit 3 1),
        push_bit 27 (inp ! 9 mod push_bit 3 1), push_bit 30 (inp ! 10)],
     accum (drop_bit (3 - 1) (inp ! 10 mod push_bit 3 1))
       [push_bit 1 (inp ! 11 mod push_bit 3 1), push_bit 4 (inp ! 12 mod push_bit 3 1),
        push_bit 7 (inp ! 13 mod push_bit 3 1), push_bit 10 (inp ! 14 mod push_bit 3 1),
        push_bit 13 (inp ! 15 mod push_bit 3 1), push_bit 16 (inp ! 16 mod push_bit 3 1),
        push_bit 19 (inp ! 17 mod push_bit 3 1), push_bit 22 (inp ! 18 mod push_bit 3 1),
        push_bit 25 (inp ! 19 mod push_bit 3 1), push_bit 28 (inp ! 20 mod push_bit 3 1), push_bit 31 (inp ! 21)],
     accum (drop_bit (3 - 2) (inp ! 21 mod push_bit 3 1))
       [push_bit 2 (inp ! 22 mod push_bit 3 1), push_bit 5 (inp ! 23 mod push_bit 3 1),
        push_bit 8 (inp ! 24 mod push_bit 3 1), push_bit 11 (inp ! 25 mod push_bit 3 1),
        push_bit 14 (inp ! 26 mod push_bit 3 1), push_bit 17 (inp ! 27 mod push_bit 3 1),
        push_bit 20 (inp ! 28 mod push_bit 3 1), push_bit 23 (inp ! 29 mod push_bit 3 1),
        push_bit 26 (inp ! 30 mod push_bit 3 1), push_bit 29 (inp ! 31)]]"

definition sc_fastpack4 :: "u32 list \<Rightarrow> u32 list" where
  "sc_fastpack4 inp =
    [accum (inp ! 0 mod push_bit 4 1)
       [push_bit 4 (inp ! 1 mod push_bit 4 1), push_bit 8 (inp ! 2 mod push_bit 4 1),
        push_bit 12 (inp ! 3 mod push_bit 4 1), push_bit 16 (inp ! 4 mod push_bit 4 1),
        push_bit 20 (inp ! 5 mod push_bit 4 1), push_bit 24 (inp ! 6 mod push_bit 4 1), push_bit 28 (inp ! 7)],
     accum (inp ! 8 mod push_bit 4 1)
       [push_bit 4 (inp ! 9 mod push_bit 4 1), push_bit 8 (inp ! 10 mod push_bit 4 1),
        push_bit 12 (inp ! 11 mod push_bit 4 1), push_bit 16 (inp ! 12 mod push_bit 4 1),
        push_bit 20 (inp ! 13 mod push_bit 4 1), push_bit 24 (inp ! 14 mod push_bit 4 1), push_bit 28 (inp ! 15)],
     accum (inp ! 16 mod push_bit 4 1)
       [push_bit 4 (inp ! 17 mod push_bit 4 1), push_bit 8 (inp ! 18 mod push_bit 4 1),
        push_bit 12 (inp ! 19 mod push_bit 4 1), push_bit 16 (inp ! 20 mod push_bit 4 1),
        push_bit 20 (inp ! 21 mod push_bit 4 1), push_bit 24 (inp ! 22 mod push_bit 4 1), push_bit 28 (inp ! 23)],
     accum (inp ! 24 mod push_bit 4 1)
       [push_bit 4 (inp ! 25 mod push_bit 4 1), push_bit 8 (inp ! 26 mod push_bit 4 1),
        push_bit 12 (inp ! 27 mod push_bit 4 1), push_bit 16 (inp ! 28 mod push_bit 4 1),
        push_bit 20 (inp ! 29 mod push_bit 4 1), push_bit 24 (inp ! 30 mod push_bit 4 1), push_bit 28 (inp ! 31)]]"

definition sc_fastpack5 :: "u32 list \<Rightarrow> u32 list" where
  "sc_fastpack5 inp =
    [accum (inp ! 0 mod push_bit 5 1)
       [push_bit 5 (inp ! 1 mod push_bit 5 1), push_bit 10 (inp ! 2 mod push_bit 5 1),
        push_bit 15 (inp ! 3 mod push_bit 5 1), push_bit 20 (inp ! 4 mod push_bit 5 1),
        push_bit 25 (inp ! 5 mod push_bit 5 1), push_bit 30 (inp ! 6)],
     accum (drop_bit (5 - 3) (inp ! 6 mod push_bit 5 1))
       [push_bit 3 (inp ! 7 mod push_bit 5 1), push_bit 8 (inp ! 8 mod push_bit 5 1),
        push_bit 13 (inp ! 9 mod push_bit 5 1), push_bit 18 (inp ! 10 mod push_bit 5 1),
        push_bit 23 (inp ! 11 mod push_bit 5 1), push_bit 28 (inp ! 12)],
     accum (drop_bit (5 - 1) (inp ! 12 mod push_bit 5 1))
       [push_bit 1 (inp ! 13 mod push_bit 5 1), push_bit 6 (inp ! 14 mod push_bit 5 1),
        push_bit 11 (inp ! 15 mod push_bit 5 1), push_bit 16 (inp ! 16 mod push_bit 5 1),
        push_bit 21 (inp ! 17 mod push_bit 5 1), push_bit 26 (inp ! 18 mod push_bit 5 1), push_bit 31 (inp ! 19)],
     accum (drop_bit (5 - 4) (inp ! 19 mod push_bit 5 1))
       [push_bit 4 (inp ! 20 mod push_bit 5 1), push_bit 9 (inp ! 21 mod push_bit 5 1),
        push_bit 14 (inp ! 22 mod push_bit 5 1), push_bit 19 (inp ! 23 mod push_bit 5 1),
        push_bit 24 (inp ! 24 mod push_bit 5 1), push_bit 29 (inp ! 25)],
     accum (drop_bit (5 - 2) (inp ! 25 mod push_bit 5 1))
       [push_bit 2 (inp ! 26 mod push_bit 5 1), push_bit 7 (inp ! 27 mod push_bit 5 1),
        push_bit 12 (inp ! 28 mod push_bit 5 1), push_bit 17 (inp ! 29 mod push_bit 5 1),
        push_bit 22 (inp ! 30 mod push_bit 5 1), push_bit 27 (inp ! 31)]]"

definition sc_fastpack6 :: "u32 list \<Rightarrow> u32 list" where
  "sc_fastpack6 inp =
    [accum (inp ! 0 mod push_bit 6 1)
       [push_bit 6 (inp ! 1 mod push_bit 6 1), push_bit 12 (inp ! 2 mod push_bit 6 1),
        push_bit 18 (inp ! 3 mod push_bit 6 1), push_bit 24 (inp ! 4 mod push_bit 6 1), push_bit 30 (inp ! 5)],
     accum (drop_bit (6 - 4) (inp ! 5 mod push_bit 6 1))
       [push_bit 4 (inp ! 6 mod push_bit 6 1), push_bit 10 (inp ! 7 mod push_bit 6 1),
        push_bit 16 (inp ! 8 mod push_bit 6 1), push_bit 22 (inp ! 9 mod push_bit 6 1), push_bit 28 (inp ! 10)],
     accum (drop_bit (6 - 2) (inp ! 10 mod push_bit 6 1))
       [push_bit 2 (inp ! 11 mod push_bit 6 1), push_bit 8 (inp ! 12 mod push_bit 6 1),
        push_bit 14 (inp ! 13 mod push_bit 6 1), push_bit 20 (inp ! 14 mod push_bit 6 1), push_bit 26 (inp ! 15)],
     accum (inp ! 16 mod push_bit 6 1)
       [push_bit 6 (inp ! 17 mod push_bit 6 1), push_bit 12 (inp ! 18 mod push_bit 6 1),
        push_bit 18 (inp ! 19 mod push_bit 6 1), push_bit 24 (inp ! 20 mod push_bit 6 1), push_bit 30 (inp ! 21)],
     accum (drop_bit (6 - 4) (inp ! 21 mod push_bit 6 1))
       [push_bit 4 (inp ! 22 mod push_bit 6 1), push_bit 10 (inp ! 23 mod push_bit 6 1),
        push_bit 16 (inp ! 24 mod push_bit 6 1), push_bit 22 (inp ! 25 mod push_bit 6 1), push_bit 28 (inp ! 26)],
     accum (drop_bit (6 - 2) (inp ! 26 mod push_bit 6 1))
       [push_bit 2 (inp ! 27 mod push_bit 6 1), push_bit 8 (inp ! 28 mod push_bit 6 1),
        push_bit 14 (inp ! 29 mod push_bit 6 1), push_bit 20 (inp ! 30 mod push_bit 6 1), push_bit 26 (inp ! 31)]]"

definition sc_fastpack7 :: "u32 list \<Rightarrow> u32 list" where
  "sc_fastpack7 inp =
    [accum (inp ! 0 mod push_bit 7 1)
       [push_bit 7 (inp ! 1 mod push_bit 7 1), push_bit 14 (inp ! 2 mod push_bit 7 1),
        push_bit 21 (inp ! 3 mod push_bit 7 1), push_bit 28 (inp ! 4)],
     accum (drop_bit (7 - 3) (inp ! 4 mod push_bit 7 1))
       [push_bit 3 (inp ! 5 mod push_bit 7 1), push_bit 10 (inp ! 6 mod push_bit 7 1),
        push_bit 17 (inp ! 7 mod push_bit 7 1), push_bit 24 (inp ! 8 mod push_bit 7 1), push_bit 31 (inp ! 9)],
     accum (drop_bit (7 - 6) (inp ! 9 mod push_bit 7 1))
       [push_bit 6 (inp ! 10 mod push_bit 7 1), push_bit 13 (inp ! 11 mod push_bit 7 1),
        push_bit 20 (inp ! 12 mod push_bit 7 1), push_bit 27 (inp ! 13)],
     accum (drop_bit (7 - 2) (inp ! 13 mod push_bit 7 1))
       [push_bit 2 (inp ! 14 mod push_bit 7 1), push_bit 9 (inp ! 15 mod push_bit 7 1),
        push_bit 16 (inp ! 16 mod push_bit 7 1), push_bit 23 (inp ! 17 mod push_bit 7 1), push_bit 30 (inp ! 18)],
     accum (drop_bit (7 - 5) (inp ! 18 mod push_bit 7 1))
       [push_bit 5 (inp ! 19 mod push_bit 7 1), push_bit 12 (inp ! 20 mod push_bit 7 1),
        push_bit 19 (inp ! 21 mod push_bit 7 1), push_bit 26 (inp ! 22)],
     accum (drop_bit (7 - 1) (inp ! 22 mod push_bit 7 1))
       [push_bit 1 (inp ! 23 mod push_bit 7 1), push_bit 8 (inp ! 24 mod push_bit 7 1),
        push_bit 15 (inp ! 25 mod push_bit 7 1), push_bit 22 (inp ! 26 mod push_bit 7 1), push_bit 29 (inp ! 27)],
     accum (drop_bit (7 - 4) (inp ! 27 mod push_bit 7 1))
       [push_bit 4 (inp ! 28 mod push_bit 7 1), push_bit 11 (inp ! 29 mod push_bit 7 1),
        push_bit 18 (inp ! 30 mod push_bit 7 1), push_bit 25 (inp ! 31)]]"

definition sc_fastpack8 :: "u32 list \<Rightarrow> u32 list" where
  "sc_fastpack8 inp =
    [accum (inp ! 0 mod push_bit 8 1)
       [push_bit 8 (inp ! 1 mod push_bit 8 1), push_bit 16 (inp ! 2 mod push_bit 8 1), push_bit 24 (inp ! 3)],
     accum (inp ! 4 mod push_bit 8 1)
       [push_bit 8 (inp ! 5 mod push_bit 8 1), push_bit 16 (inp ! 6 mod push_bit 8 1), push_bit 24 (inp ! 7)],
     accum (inp ! 8 mod push_bit 8 1)
       [push_bit 8 (inp ! 9 mod push_bit 8 1), push_bit 16 (inp ! 10 mod push_bit 8 1), push_bit 24 (inp ! 11)],
     accum (inp ! 12 mod push_bit 8 1)
       [push_bit 8 (inp ! 13 mod push_bit 8 1), push_bit 16 (inp ! 14 mod push_bit 8 1), push_bit 24 (inp ! 15)],
     accum (inp ! 16 mod push_bit 8 1)
       [push_bit 8 (inp ! 17 mod push_bit 8 1), push_bit 16 (inp ! 18 mod push_bit 8 1), push_bit 24 (inp ! 19)],
     accum (inp ! 20 mod push_bit 8 1)
       [push_bit 8 (inp ! 21 mod push_bit 8 1), push_bit 16 (inp ! 22 mod push_bit 8 1), push_bit 24 (inp ! 23)],
     accum (inp ! 24 mod push_bit 8 1)
       [push_bit 8 (inp ! 25 mod push_bit 8 1), push_bit 16 (inp ! 26 mod push_bit 8 1), push_bit 24 (inp ! 27)],
     accum (inp ! 28 mod push_bit 8 1)
       [push_bit 8 (inp ! 29 mod push_bit 8 1), push_bit 16 (inp ! 30 mod push_bit 8 1), push_bit 24 (inp ! 31)]]"

definition sc_fastpack9 :: "u32 list \<Rightarrow> u32 list" where
  "sc_fastpack9 inp =
    [accum (inp ! 0 mod push_bit 9 1)
       [push_bit 9 (inp ! 1 mod push_bit 9 1), push_bit 18 (inp ! 2 mod push_bit 9 1), push_bit 27 (inp ! 3)],
     accum (drop_bit (9 - 4) (inp ! 3 mod push_bit 9 1))
       [push_bit 4 (inp ! 4 mod push_bit 9 1), push_bit 13 (inp ! 5 mod push_bit 9 1),
        push_bit 22 (inp ! 6 mod push_bit 9 1), push_bit 31 (inp ! 7)],
     accum (drop_bit (9 - 8) (inp ! 7 mod push_bit 9 1))
       [push_bit 8 (inp ! 8 mod push_bit 9 1), push_bit 17 (inp ! 9 mod push_bit 9 1), push_bit 26 (inp ! 10)],
     accum (drop_bit (9 - 3) (inp ! 10 mod push_bit 9 1))
       [push_bit 3 (inp ! 11 mod push_bit 9 1), push_bit 12 (inp ! 12 mod push_bit 9 1),
        push_bit 21 (inp ! 13 mod push_bit 9 1), push_bit 30 (inp ! 14)],
     accum (drop_bit (9 - 7) (inp ! 14 mod push_bit 9 1))
       [push_bit 7 (inp ! 15 mod push_bit 9 1), push_bit 16 (inp ! 16 mod push_bit 9 1), push_bit 25 (inp ! 17)],
     accum (drop_bit (9 - 2) (inp ! 17 mod push_bit 9 1))
       [push_bit 2 (inp ! 18 mod push_bit 9 1), push_bit 11 (inp ! 19 mod push_bit 9 1),
        push_bit 20 (inp ! 20 mod push_bit 9 1), push_bit 29 (inp ! 21)],
     accum (drop_bit (9 - 6) (inp ! 21 mod push_bit 9 1))
       [push_bit 6 (inp ! 22 mod push_bit 9 1), push_bit 15 (inp ! 23 mod push_bit 9 1), push_bit 24 (inp ! 24)],
     accum (drop_bit (9 - 1) (inp ! 24 mod push_bit 9 1))
       [push_bit 1 (inp ! 25 mod push_bit 9 1), push_bit 10 (inp ! 26 mod push_bit 9 1),
        push_bit 19 (inp ! 27 mod push_bit 9 1), push_bit 28 (inp ! 28)],
     accum (drop_bit (9 - 5) (inp ! 28 mod push_bit 9 1))
       [push_bit 5 (inp ! 29 mod push_bit 9 1), push_bit 14 (inp ! 30 mod push_bit 9 1), push_bit 23 (inp ! 31)]]"

definition sc_fastpack10 :: "u32 list \<Rightarrow> u32 list" where
  "sc_fastpack10 inp =
    [accum (inp ! 0 mod push_bit 10 1)
       [push_bit 10 (inp ! 1 mod push_bit 10 1), push_bit 20 (inp ! 2 mod push_bit 10 1), push_bit 30 (inp ! 3)],
     accum (drop_bit (10 - 8) (inp ! 3 mod push_bit 10 1))
       [push_bit 8 (inp ! 4 mod push_bit 10 1), push_bit 18 (inp ! 5 mod push_bit 10 1), push_bit 28 (inp ! 6)],
     accum (drop_bit (10 - 6) (inp ! 6 mod push_bit 10 1))
       [push_bit 6 (inp ! 7 mod push_bit 10 1), push_bit 16 (inp ! 8 mod push_bit 10 1), push_bit 26 (inp ! 9)],
     accum (drop_bit (10 - 4) (inp ! 9 mod push_bit 10 1))
       [push_bit 4 (inp ! 10 mod push_bit 10 1), push_bit 14 (inp ! 11 mod push_bit 10 1), push_bit 24 (inp ! 12)],
     accum (drop_bit (10 - 2) (inp ! 12 mod push_bit 10 1))
       [push_bit 2 (inp ! 13 mod push_bit 10 1), push_bit 12 (inp ! 14 mod push_bit 10 1), push_bit 22 (inp ! 15)],
     accum (inp ! 16 mod push_bit 10 1)
       [push_bit 10 (inp ! 17 mod push_bit 10 1), push_bit 20 (inp ! 18 mod push_bit 10 1), push_bit 30 (inp ! 19)],
     accum (drop_bit (10 - 8) (inp ! 19 mod push_bit 10 1))
       [push_bit 8 (inp ! 20 mod push_bit 10 1), push_bit 18 (inp ! 21 mod push_bit 10 1), push_bit 28 (inp ! 22)],
     accum (drop_bit (10 - 6) (inp ! 22 mod push_bit 10 1))
       [push_bit 6 (inp ! 23 mod push_bit 10 1), push_bit 16 (inp ! 24 mod push_bit 10 1), push_bit 26 (inp ! 25)],
     accum (drop_bit (10 - 4) (inp ! 25 mod push_bit 10 1))
       [push_bit 4 (inp ! 26 mod push_bit 10 1), push_bit 14 (inp ! 27 mod push_bit 10 1), push_bit 24 (inp ! 28)],
     accum (drop_bit (10 - 2) (inp ! 28 mod push_bit 10 1))
       [push_bit 2 (inp ! 29 mod push_bit 10 1), push_bit 12 (inp ! 30 mod push_bit 10 1), push_bit 22 (inp ! 31)]]"

definition sc_fastpack11 :: "u32 list \<Rightarrow> u32 list" where
  "sc_fastpack11 inp =
    [accum (inp ! 0 mod push_bit 11 1)
       [push_bit 11 (inp ! 1 mod push_bit 11 1), push_bit 22 (inp ! 2)],
     accum (drop_bit (11 - 1) (inp ! 2 mod push_bit 11 1))
       [push_bit 1 (inp ! 3 mod push_bit 11 1), push_bit 12 (inp ! 4 mod push_bit 11 1), push_bit 23 (inp ! 5)],
     accum (drop_bit (11 - 2) (inp ! 5 mod push_bit 11 1))
       [push_bit 2 (inp ! 6 mod push_bit 11 1), push_bit 13 (inp ! 7 mod push_bit 11 1), push_bit 24 (inp ! 8)],
     accum (drop_bit (11 - 3) (inp ! 8 mod push_bit 11 1))
       [push_bit 3 (inp ! 9 mod push_bit 11 1), push_bit 14 (inp ! 10 mod push_bit 11 1), push_bit 25 (inp ! 11)],
     accum (drop_bit (11 - 4) (inp ! 11 mod push_bit 11 1))
       [push_bit 4 (inp ! 12 mod push_bit 11 1), push_bit 15 (inp ! 13 mod push_bit 11 1), push_bit 26 (inp ! 14)],
     accum (drop_bit (11 - 5) (inp ! 14 mod push_bit 11 1))
       [push_bit 5 (inp ! 15 mod push_bit 11 1), push_bit 16 (inp ! 16 mod push_bit 11 1), push_bit 27 (inp ! 17)],
     accum (drop_bit (11 - 6) (inp ! 17 mod push_bit 11 1))
       [push_bit 6 (inp ! 18 mod push_bit 11 1), push_bit 17 (inp ! 19 mod push_bit 11 1), push_bit 28 (inp ! 20)],
     accum (drop_bit (11 - 7) (inp ! 20 mod push_bit 11 1))
       [push_bit 7 (inp ! 21 mod push_bit 11 1), push_bit 18 (inp ! 22 mod push_bit 11 1), push_bit 29 (inp ! 23)],
     accum (drop_bit (11 - 8) (inp ! 23 mod push_bit 11 1))
       [push_bit 8 (inp ! 24 mod push_bit 11 1), push_bit 19 (inp ! 25 mod push_bit 11 1), push_bit 30 (inp ! 26)],
     accum (drop_bit (11 - 9) (inp ! 26 mod push_bit 11 1))
       [push_bit 9 (inp ! 27 mod push_bit 11 1), push_bit 20 (inp ! 28 mod push_bit 11 1), push_bit 31 (inp ! 29)],
     accum (drop_bit (11 - 10) (inp ! 29 mod push_bit 11 1))
       [push_bit 10 (inp ! 30 mod push_bit 11 1), push_bit 21 (inp ! 31)]]"

definition sc_fastpack12 :: "u32 list \<Rightarrow> u32 list" where
  "sc_fastpack12 inp =
    [accum (inp ! 0 mod push_bit 12 1)
       [push_bit 12 (inp ! 1 mod push_bit 12 1), push_bit 24 (inp ! 2)],
     accum (drop_bit (12 - 4) (inp ! 2 mod push_bit 12 1))
       [push_bit 4 (inp ! 3 mod push_bit 12 1), push_bit 16 (inp ! 4 mod push_bit 12 1), push_bit 28 (inp ! 5)],
     accum (drop_bit (12 - 8) (inp ! 5 mod push_bit 12 1))
       [push_bit 8 (inp ! 6 mod push_bit 12 1), push_bit 20 (inp ! 7)],
     accum (inp ! 8 mod push_bit 12 1)
       [push_bit 12 (inp ! 9 mod push_bit 12 1), push_bit 24 (inp ! 10)],
     accum (drop_bit (12 - 4) (inp ! 10 mod push_bit 12 1))
       [push_bit 4 (inp ! 11 mod push_bit 12 1), push_bit 16 (inp ! 12 mod push_bit 12 1), push_bit 28 (inp ! 13)],
     accum (drop_bit (12 - 8) (inp ! 13 mod push_bit 12 1))
       [push_bit 8 (inp ! 14 mod push_bit 12 1), push_bit 20 (inp ! 15)],
     accum (inp ! 16 mod push_bit 12 1)
       [push_bit 12 (inp ! 17 mod push_bit 12 1), push_bit 24 (inp ! 18)],
     accum (drop_bit (12 - 4) (inp ! 18 mod push_bit 12 1))
       [push_bit 4 (inp ! 19 mod push_bit 12 1), push_bit 16 (inp ! 20 mod push_bit 12 1), push_bit 28 (inp ! 21)],
     accum (drop_bit (12 - 8) (inp ! 21 mod push_bit 12 1))
       [push_bit 8 (inp ! 22 mod push_bit 12 1), push_bit 20 (inp ! 23)],
     accum (inp ! 24 mod push_bit 12 1)
       [push_bit 12 (inp ! 25 mod push_bit 12 1), push_bit 24 (inp ! 26)],
     accum (drop_bit (12 - 4) (inp ! 26 mod push_bit 12 1))
       [push_bit 4 (inp ! 27 mod push_bit 12 1), push_bit 16 (inp ! 28 mod push_bit 12 1), push_bit 28 (inp ! 29)],
     accum (drop_bit (12 - 8) (inp ! 29 mod push_bit 12 1))
       [push_bit 8 (inp ! 30 mod push_bit 12 1), push_bit 20 (inp ! 31)]]"

definition sc_fastpack13 :: "u32 list \<Rightarrow> u32 list" where
  "sc_fastpack13 inp =
    [accum (inp ! 0 mod push_bit 13 1)
       [push_bit 13 (inp ! 1 mod push_bit 13 1), push_bit 26 (inp ! 2)],
     accum (drop_bit (13 - 7) (inp ! 2 mod push_bit 13 1))
       [push_bit 7 (inp ! 3 mod push_bit 13 1), push_bit 20 (inp ! 4)],
     accum (drop_bit (13 - 1) (inp ! 4 mod push_bit 13 1))
       [push_bit 1 (inp ! 5 mod push_bit 13 1), push_bit 14 (inp ! 6 mod push_bit 13 1), push_bit 27 (inp ! 7)],
     accum (drop_bit (13 - 8) (inp ! 7 mod push_bit 13 1))
       [push_bit 8 (inp ! 8 mod push_bit 13 1), push_bit 21 (inp ! 9)],
     accum (drop_bit (13 - 2) (inp ! 9 mod push_bit 13 1))
       [push_bit 2 (inp ! 10 mod push_bit 13 1), push_bit 15 (inp ! 11 mod push_bit 13 1), push_bit 28 (inp ! 12)],
     accum (drop_bit (13 - 9) (inp ! 12 mod push_bit 13 1))
       [push_bit 9 (inp ! 13 mod push_bit 13 1), push_bit 22 (inp ! 14)],
     accum (drop_bit (13 - 3) (inp ! 14 mod push_bit 13 1))
       [push_bit 3 (inp ! 15 mod push_bit 13 1), push_bit 16 (inp ! 16 mod push_bit 13 1), push_bit 29 (inp ! 17)],
     accum (drop_bit (13 - 10) (inp ! 17 mod push_bit 13 1))
       [push_bit 10 (inp ! 18 mod push_bit 13 1), push_bit 23 (inp ! 19)],
     accum (drop_bit (13 - 4) (inp ! 19 mod push_bit 13 1))
       [push_bit 4 (inp ! 20 mod push_bit 13 1), push_bit 17 (inp ! 21 mod push_bit 13 1), push_bit 30 (inp ! 22)],
     accum (drop_bit (13 - 11) (inp ! 22 mod push_bit 13 1))
       [push_bit 11 (inp ! 23 mod push_bit 13 1), push_bit 24 (inp ! 24)],
     accum (drop_bit (13 - 5) (inp ! 24 mod push_bit 13 1))
       [push_bit 5 (inp ! 25 mod push_bit 13 1), push_bit 18 (inp ! 26 mod push_bit 13 1), push_bit 31 (inp ! 27)],
     accum (drop_bit (13 - 12) (inp ! 27 mod push_bit 13 1))
       [push_bit 12 (inp ! 28 mod push_bit 13 1), push_bit 25 (inp ! 29)],
     accum (drop_bit (13 - 6) (inp ! 29 mod push_bit 13 1))
       [push_bit 6 (inp ! 30 mod push_bit 13 1), push_bit 19 (inp ! 31)]]"

definition sc_fastpack14 :: "u32 list \<Rightarrow> u32 list" where
  "sc_fastpack14 inp =
    [accum (inp ! 0 mod push_bit 14 1)
       [push_bit 14 (inp ! 1 mod push_bit 14 1), push_bit 28 (inp ! 2)],
     accum (drop_bit (14 - 10) (inp ! 2 mod push_bit 14 1))
       [push_bit 10 (inp ! 3 mod push_bit 14 1), push_bit 24 (inp ! 4)],
     accum (drop_bit (14 - 6) (inp ! 4 mod push_bit 14 1))
       [push_bit 6 (inp ! 5 mod push_bit 14 1), push_bit 20 (inp ! 6)],
     accum (drop_bit (14 - 2) (inp ! 6 mod push_bit 14 1))
       [push_bit 2 (inp ! 7 mod push_bit 14 1), push_bit 16 (inp ! 8 mod push_bit 14 1), push_bit 30 (inp ! 9)],
     accum (drop_bit (14 - 12) (inp ! 9 mod push_bit 14 1))
       [push_bit 12 (inp ! 10 mod push_bit 14 1), push_bit 26 (inp ! 11)],
     accum (drop_bit (14 - 8) (inp ! 11 mod push_bit 14 1))
       [push_bit 8 (inp ! 12 mod push_bit 14 1), push_bit 22 (inp ! 13)],
     accum (drop_bit (14 - 4) (inp ! 13 mod push_bit 14 1))
       [push_bit 4 (inp ! 14 mod push_bit 14 1), push_bit 18 (inp ! 15)],
     accum (inp ! 16 mod push_bit 14 1)
       [push_bit 14 (inp ! 17 mod push_bit 14 1), push_bit 28 (inp ! 18)],
     accum (drop_bit (14 - 10) (inp ! 18 mod push_bit 14 1))
       [push_bit 10 (inp ! 19 mod push_bit 14 1), push_bit 24 (inp ! 20)],
     accum (drop_bit (14 - 6) (inp ! 20 mod push_bit 14 1))
       [push_bit 6 (inp ! 21 mod push_bit 14 1), push_bit 20 (inp ! 22)],
     accum (drop_bit (14 - 2) (inp ! 22 mod push_bit 14 1))
       [push_bit 2 (inp ! 23 mod push_bit 14 1), push_bit 16 (inp ! 24 mod push_bit 14 1), push_bit 30 (inp ! 25)],
     accum (drop_bit (14 - 12) (inp ! 25 mod push_bit 14 1))
       [push_bit 12 (inp ! 26 mod push_bit 14 1), push_bit 26 (inp ! 27)],
     accum (drop_bit (14 - 8) (inp ! 27 mod push_bit 14 1))
       [push_bit 8 (inp ! 28 mod push_bit 14 1), push_bit 22 (inp ! 29)],
     accum (drop_bit (14 - 4) (inp ! 29 mod push_bit 14 1))
       [push_bit 4 (inp ! 30 mod push_bit 14 1), push_bit 18 (inp ! 31)]]"

definition sc_fastpack15 :: "u32 list \<Rightarrow> u32 list" where
  "sc_fastpack15 inp =
    [accum (inp ! 0 mod push_bit 15 1)
       [push_bit 15 (inp ! 1 mod push_bit 15 1), push_bit 30 (inp ! 2)],
     accum (drop_bit (15 - 13) (inp ! 2 mod push_bit 15 1))
       [push_bit 13 (inp ! 3 mod push_bit 15 1), push_bit 28 (inp ! 4)],
     accum (drop_bit (15 - 11) (inp ! 4 mod push_bit 15 1))
       [push_bit 11 (inp ! 5 mod push_bit 15 1), push_bit 26 (inp ! 6)],
     accum (drop_bit (15 - 9) (inp ! 6 mod push_bit 15 1))
       [push_bit 9 (inp ! 7 mod push_bit 15 1), push_bit 24 (inp ! 8)],
     accum (drop_bit (15 - 7) (inp ! 8 mod push_bit 15 1))
       [push_bit 7 (inp ! 9 mod push_bit 15 1), push_bit 22 (inp ! 10)],
     accum (drop_bit (15 - 5) (inp ! 10 mod push_bit 15 1))
       [push_bit 5 (inp ! 11 mod push_bit 15 1), push_bit 20 (inp ! 12)],
     accum (drop_bit (15 - 3) (inp ! 12 mod push_bit 15 1))
       [push_bit 3 (inp ! 13 mod push_bit 15 1), push_bit 18 (inp ! 14)],
     accum (drop_bit (15 - 1) (inp ! 14 mod push_bit 15 1))
       [push_bit 1 (inp ! 15 mod push_bit 15 1), push_bit 16 (inp ! 16 mod push_bit 15 1), push_bit 31 (inp ! 17)],
     accum (drop_bit (15 - 14) (inp ! 17 mod push_bit 15 1))
       [push_bit 14 (inp ! 18 mod push_bit 15 1), push_bit 29 (inp ! 19)],
     accum (drop_bit (15 - 12) (inp ! 19 mod push_bit 15 1))
       [push_bit 12 (inp ! 20 mod push_bit 15 1), push_bit 27 (inp ! 21)],
     accum (drop_bit (15 - 10) (inp ! 21 mod push_bit 15 1))
       [push_bit 10 (inp ! 22 mod push_bit 15 1), push_bit 25 (inp ! 23)],
     accum (drop_bit (15 - 8) (inp ! 23 mod push_bit 15 1))
       [push_bit 8 (inp ! 24 mod push_bit 15 1), push_bit 23 (inp ! 25)],
     accum (drop_bit (15 - 6) (inp ! 25 mod push_bit 15 1))
       [push_bit 6 (inp ! 26 mod push_bit 15 1), push_bit 21 (inp ! 27)],
     accum (drop_bit (15 - 4) (inp ! 27 mod push_bit 15 1))
       [push_bit 4 (inp ! 28 mod push_bit 15 1), push_bit 19 (inp ! 29)],
     accum (drop_bit (15 - 2) (inp ! 29 mod push_bit 15 1))
       [push_bit 2 (inp ! 30 mod push_bit 15 1), push_bit 17 (inp ! 31)]]"

definition sc_fastpack16 :: "u32 list \<Rightarrow> u32 list" where
  "sc_fastpack16 inp =
    [accum (inp ! 0 mod push_bit 16 1)
       [push_bit 16 (inp ! 1)],
     accum (inp ! 2 mod push_bit 16 1)
       [push_bit 16 (inp ! 3)],
     accum (inp ! 4 mod push_bit 16 1)
       [push_bit 16 (inp ! 5)],
     accum (inp ! 6 mod push_bit 16 1)
       [push_bit 16 (inp ! 7)],
     accum (inp ! 8 mod push_bit 16 1)
       [push_bit 16 (inp ! 9)],
     accum (inp ! 10 mod push_bit 16 1)
       [push_bit 16 (inp ! 11)],
     accum (inp ! 12 mod push_bit 16 1)
       [push_bit 16 (inp ! 13)],
     accum (inp ! 14 mod push_bit 16 1)
       [push_bit 16 (inp ! 15)],
     accum (inp ! 16 mod push_bit 16 1)
       [push_bit 16 (inp ! 17)],
     accum (inp ! 18 mod push_bit 16 1)
       [push_bit 16 (inp ! 19)],
     accum (inp ! 20 mod push_bit 16 1)
       [push_bit 16 (inp ! 21)],
     accum (inp ! 22 mod push_bit 16 1)
       [push_bit 16 (inp ! 23)],
     accum (inp ! 24 mod push_bit 16 1)
       [push_bit 16 (inp ! 25)],
     accum (inp ! 26 mod push_bit 16 1)
       [push_bit 16 (inp ! 27)],
     accum (inp ! 28 mod push_bit 16 1)
       [push_bit 16 (inp ! 29)],
     accum (inp ! 30 mod push_bit 16 1)
       [push_bit 16 (inp ! 31)]]"

definition sc_fastpack17 :: "u32 list \<Rightarrow> u32 list" where
  "sc_fastpack17 inp =
    [accum (inp ! 0 mod push_bit 17 1)
       [push_bit 17 (inp ! 1)],
     accum (drop_bit (17 - 2) (inp ! 1 mod push_bit 17 1))
       [push_bit 2 (inp ! 2 mod push_bit 17 1), push_bit 19 (inp ! 3)],
     accum (drop_bit (17 - 4) (inp ! 3 mod push_bit 17 1))
       [push_bit 4 (inp ! 4 mod push_bit 17 1), push_bit 21 (inp ! 5)],
     accum (drop_bit (17 - 6) (inp ! 5 mod push_bit 17 1))
       [push_bit 6 (inp ! 6 mod push_bit 17 1), push_bit 23 (inp ! 7)],
     accum (drop_bit (17 - 8) (inp ! 7 mod push_bit 17 1))
       [push_bit 8 (inp ! 8 mod push_bit 17 1), push_bit 25 (inp ! 9)],
     accum (drop_bit (17 - 10) (inp ! 9 mod push_bit 17 1))
       [push_bit 10 (inp ! 10 mod push_bit 17 1), push_bit 27 (inp ! 11)],
     accum (drop_bit (17 - 12) (inp ! 11 mod push_bit 17 1))
       [push_bit 12 (inp ! 12 mod push_bit 17 1), push_bit 29 (inp ! 13)],
     accum (drop_bit (17 - 14) (inp ! 13 mod push_bit 17 1))
       [push_bit 14 (inp ! 14 mod push_bit 17 1), push_bit 31 (inp ! 15)],
     accum (drop_bit (17 - 16) (inp ! 15 mod push_bit 17 1))
       [push_bit 16 (inp ! 16)],
     accum (drop_bit (17 - 1) (inp ! 16 mod push_bit 17 1))
       [push_bit 1 (inp ! 17 mod push_bit 17 1), push_bit 18 (inp ! 18)],
     accum (drop_bit (17 - 3) (inp ! 18 mod push_bit 17 1))
       [push_bit 3 (inp ! 19 mod push_bit 17 1), push_bit 20 (inp ! 20)],
     accum (drop_bit (17 - 5) (inp ! 20 mod push_bit 17 1))
       [push_bit 5 (inp ! 21 mod push_bit 17 1), push_bit 22 (inp ! 22)],
     accum (drop_bit (17 - 7) (inp ! 22 mod push_bit 17 1))
       [push_bit 7 (inp ! 23 mod push_bit 17 1), push_bit 24 (inp ! 24)],
     accum (drop_bit (17 - 9) (inp ! 24 mod push_bit 17 1))
       [push_bit 9 (inp ! 25 mod push_bit 17 1), push_bit 26 (inp ! 26)],
     accum (drop_bit (17 - 11) (inp ! 26 mod push_bit 17 1))
       [push_bit 11 (inp ! 27 mod push_bit 17 1), push_bit 28 (inp ! 28)],
     accum (drop_bit (17 - 13) (inp ! 28 mod push_bit 17 1))
       [push_bit 13 (inp ! 29 mod push_bit 17 1), push_bit 30 (inp ! 30)],
     accum (drop_bit (17 - 15) (inp ! 30 mod push_bit 17 1))
       [push_bit 15 (inp ! 31)]]"

definition sc_fastpack18 :: "u32 list \<Rightarrow> u32 list" where
  "sc_fastpack18 inp =
    [accum (inp ! 0 mod push_bit 18 1)
       [push_bit 18 (inp ! 1)],
     accum (drop_bit (18 - 4) (inp ! 1 mod push_bit 18 1))
       [push_bit 4 (inp ! 2 mod push_bit 18 1), push_bit 22 (inp ! 3)],
     accum (drop_bit (18 - 8) (inp ! 3 mod push_bit 18 1))
       [push_bit 8 (inp ! 4 mod push_bit 18 1), push_bit 26 (inp ! 5)],
     accum (drop_bit (18 - 12) (inp ! 5 mod push_bit 18 1))
       [push_bit 12 (inp ! 6 mod push_bit 18 1), push_bit 30 (inp ! 7)],
     accum (drop_bit (18 - 16) (inp ! 7 mod push_bit 18 1))
       [push_bit 16 (inp ! 8)],
     accum (drop_bit (18 - 2) (inp ! 8 mod push_bit 18 1))
       [push_bit 2 (inp ! 9 mod push_bit 18 1), push_bit 20 (inp ! 10)],
     accum (drop_bit (18 - 6) (inp ! 10 mod push_bit 18 1))
       [push_bit 6 (inp ! 11 mod push_bit 18 1), push_bit 24 (inp ! 12)],
     accum (drop_bit (18 - 10) (inp ! 12 mod push_bit 18 1))
       [push_bit 10 (inp ! 13 mod push_bit 18 1), push_bit 28 (inp ! 14)],
     accum (drop_bit (18 - 14) (inp ! 14 mod push_bit 18 1))
       [push_bit 14 (inp ! 15)],
     accum (inp ! 16 mod push_bit 18 1)
       [push_bit 18 (inp ! 17)],
     accum (drop_bit (18 - 4) (inp ! 17 mod push_bit 18 1))
       [push_bit 4 (inp ! 18 mod push_bit 18 1), push_bit 22 (inp ! 19)],
     accum (drop_bit (18 - 8) (inp ! 19 mod push_bit 18 1))
       [push_bit 8 (inp ! 20 mod push_bit 18 1), push_bit 26 (inp ! 21)],
     accum (drop_bit (18 - 12) (inp ! 21 mod push_bit 18 1))
       [push_bit 12 (inp ! 22 mod push_bit 18 1), push_bit 30 (inp ! 23)],
     accum (drop_bit (18 - 16) (inp ! 23 mod push_bit 18 1))
       [push_bit 16 (inp ! 24)],
     accum (drop_bit (18 - 2) (inp ! 24 mod push_bit 18 1))
       [push_bit 2 (inp ! 25 mod push_bit 18 1), push_bit 20 (inp ! 26)],
     accum (drop_bit (18 - 6) (inp ! 26 mod push_bit 18 1))
       [push_bit 6 (inp ! 27 mod push_bit 18 1), push_bit 24 (inp ! 28)],
     accum (drop_bit (18 - 10) (inp ! 28 mod push_bit 18 1))
       [push_bit 10 (inp ! 29 mod push_bit 18 1), push_bit 28 (inp ! 30)],
     accum (drop_bit (18 - 14) (inp ! 30 mod push_bit 18 1))
       [push_bit 14 (inp ! 31)]]"

definition sc_fastpack19 :: "u32 list \<Rightarrow> u32 list" where
  "sc_fastpack19 inp =
    [accum (inp ! 0 mod push_bit 19 1)
       [push_bit 19 (inp ! 1)],
     accum (drop_bit (19 - 6) (inp ! 1 mod push_bit 19 1))
       [push_bit 6 (inp ! 2 mod push_bit 19 1), push_bit 25 (inp ! 3)],
     accum (drop_bit (19 - 12) (inp ! 3 mod push_bit 19 1))
       [push_bit 12 (inp ! 4 mod push_bit 19 1), push_bit 31 (inp ! 5)],
     accum (drop_bit (19 - 18) (inp ! 5 mod push_bit 19 1))
       [push_bit 18 (inp ! 6)],
     accum (drop_bit (19 - 5) (inp ! 6 mod push_bit 19 1))
       [push_bit 5 (inp ! 7 mod push_bit 19 1), push_bit 24 (inp ! 8)],
     accum (drop_bit (19 - 11) (inp ! 8 mod push_bit 19 1))
       [push_bit 11 (inp ! 9 mod push_bit 19 1), push_bit 30 (inp ! 10)],
     accum (drop_bit (19 - 17) (inp ! 10 mod push_bit 19 1))
       [push_bit 17 (inp ! 11)],
     accum (drop_bit (19 - 4) (inp ! 11 mod push_bit 19 1))
       [push_bit 4 (inp ! 12 mod push_bit 19 1), push_bit 23 (inp ! 13)],
     accum (drop_bit (19 - 10) (inp ! 13 mod push_bit 19 1))
       [push_bit 10 (inp ! 14 mod push_bit 19 1), push_bit 29 (inp ! 15)],
     accum (drop_bit (19 - 16) (inp ! 15 mod push_bit 19 1))
       [push_bit 16 (inp ! 16)],
     accum (drop_bit (19 - 3) (inp ! 16 mod push_bit 19 1))
       [push_bit 3 (inp ! 17 mod push_bit 19 1), push_bit 22 (inp ! 18)],
     accum (drop_bit (19 - 9) (inp ! 18 mod push_bit 19 1))
       [push_bit 9 (inp ! 19 mod push_bit 19 1), push_bit 28 (inp ! 20)],
     accum (drop_bit (19 - 15) (inp ! 20 mod push_bit 19 1))
       [push_bit 15 (inp ! 21)],
     accum (drop_bit (19 - 2) (inp ! 21 mod push_bit 19 1))
       [push_bit 2 (inp ! 22 mod push_bit 19 1), push_bit 21 (inp ! 23)],
     accum (drop_bit (19 - 8) (inp ! 23 mod push_bit 19 1))
       [push_bit 8 (inp ! 24 mod push_bit 19 1), push_bit 27 (inp ! 25)],
     accum (drop_bit (19 - 14) (inp ! 25 mod push_bit 19 1))
       [push_bit 14 (inp ! 26)],
     accum (drop_bit (19 - 1) (inp ! 26 mod push_bit 19 1))
       [push_bit 1 (inp ! 27 mod push_bit 19 1), push_bit 20 (inp ! 28)],
     accum (drop_bit (19 - 7) (inp ! 28 mod push_bit 19 1))
       [push_bit 7 (inp ! 29 mod push_bit 19 1), push_bit 26 (inp ! 30)],
     accum (drop_bit (19 - 13) (inp ! 30 mod push_bit 19 1))
       [push_bit 13 (inp ! 31)]]"

definition sc_fastpack20 :: "u32 list \<Rightarrow> u32 list" where
  "sc_fastpack20 inp =
    [accum (inp ! 0 mod push_bit 20 1)
       [push_bit 20 (inp ! 1)],
     accum (drop_bit (20 - 8) (inp ! 1 mod push_bit 20 1))
       [push_bit 8 (inp ! 2 mod push_bit 20 1), push_bit 28 (inp ! 3)],
     accum (drop_bit (20 - 16) (inp ! 3 mod push_bit 20 1))
       [push_bit 16 (inp ! 4)],
     accum (drop_bit (20 - 4) (inp ! 4 mod push_bit 20 1))
       [push_bit 4 (inp ! 5 mod push_bit 20 1), push_bit 24 (inp ! 6)],
     accum (drop_bit (20 - 12) (inp ! 6 mod push_bit 20 1))
       [push_bit 12 (inp ! 7)],
     accum (inp ! 8 mod push_bit 20 1)
       [push_bit 20 (inp ! 9)],
     accum (drop_bit (20 - 8) (inp ! 9 mod push_bit 20 1))
       [push_bit 8 (inp ! 10 mod push_bit 20 1), push_bit 28 (inp ! 11)],
     accum (drop_bit (20 - 16) (inp ! 11 mod push_bit 20 1))
       [push_bit 16 (inp ! 12)],
     accum (drop_bit (20 - 4) (inp ! 12 mod push_bit 20 1))
       [push_bit 4 (inp ! 13 mod push_bit 20 1), push_bit 24 (inp ! 14)],
     accum (drop_bit (20 - 12) (inp ! 14 mod push_bit 20 1))
       [push_bit 12 (inp ! 15)],
     accum (inp ! 16 mod push_bit 20 1)
       [push_bit 20 (inp ! 17)],
     accum (drop_bit (20 - 8) (inp ! 17 mod push_bit 20 1))
       [push_bit 8 (inp ! 18 mod push_bit 20 1), push_bit 28 (inp ! 19)],
     accum (drop_bit (20 - 16) (inp ! 19 mod push_bit 20 1))
       [push_bit 16 (inp ! 20)],
     accum (drop_bit (20 - 4) (inp ! 20 mod push_bit 20 1))
       [push_bit 4 (inp ! 21 mod push_bit 20 1), push_bit 24 (inp ! 22)],
     accum (drop_bit (20 - 12) (inp ! 22 mod push_bit 20 1))
       [push_bit 12 (inp ! 23)],
     accum (inp ! 24 mod push_bit 20 1)
       [push_bit 20 (inp ! 25)],
     accum (drop_bit (20 - 8) (inp ! 25 mod push_bit 20 1))
       [push_bit 8 (inp ! 26 mod push_bit 20 1), push_bit 28 (inp ! 27)],
     accum (drop_bit (20 - 16) (inp ! 27 mod push_bit 20 1))
       [push_bit 16 (inp ! 28)],
     accum (drop_bit (20 - 4) (inp ! 28 mod push_bit 20 1))
       [push_bit 4 (inp ! 29 mod push_bit 20 1), push_bit 24 (inp ! 30)],
     accum (drop_bit (20 - 12) (inp ! 30 mod push_bit 20 1))
       [push_bit 12 (inp ! 31)]]"

definition sc_fastpack21 :: "u32 list \<Rightarrow> u32 list" where
  "sc_fastpack21 inp =
    [accum (inp ! 0 mod push_bit 21 1)
       [push_bit 21 (inp ! 1)],
     accum (drop_bit (21 - 10) (inp ! 1 mod push_bit 21 1))
       [push_bit 10 (inp ! 2 mod push_bit 21 1), push_bit 31 (inp ! 3)],
     accum (drop_bit (21 - 20) (inp ! 3 mod push_bit 21 1))
       [push_bit 20 (inp ! 4)],
     accum (drop_bit (21 - 9) (inp ! 4 mod push_bit 21 1))
       [push_bit 9 (inp ! 5 mod push_bit 21 1), push_bit 30 (inp ! 6)],
     accum (drop_bit (21 - 19) (inp ! 6 mod push_bit 21 1))
       [push_bit 19 (inp ! 7)],
     accum (drop_bit (21 - 8) (inp ! 7 mod push_bit 21 1))
       [push_bit 8 (inp ! 8 mod push_bit 21 1), push_bit 29 (inp ! 9)],
     accum (drop_bit (21 - 18) (inp ! 9 mod push_bit 21 1))
       [push_bit 18 (inp ! 10)],
     accum (drop_bit (21 - 7) (inp ! 10 mod push_bit 21 1))
       [push_bit 7 (inp ! 11 mod push_bit 21 1), push_bit 28 (inp ! 12)],
     accum (drop_bit (21 - 17) (inp ! 12 mod push_bit 21 1))
       [push_bit 17 (inp ! 13)],
     accum (drop_bit (21 - 6) (inp ! 13 mod push_bit 21 1))
       [push_bit 6 (inp ! 14 mod push_bit 21 1), push_bit 27 (inp ! 15)],
     accum (drop_bit (21 - 16) (inp ! 15 mod push_bit 21 1))
       [push_bit 16 (inp ! 16)],
     accum (drop_bit (21 - 5) (inp ! 16 mod push_bit 21 1))
       [push_bit 5 (inp ! 17 mod push_bit 21 1), push_bit 26 (inp ! 18)],
     accum (drop_bit (21 - 15) (inp ! 18 mod push_bit 21 1))
       [push_bit 15 (inp ! 19)],
     accum (drop_bit (21 - 4) (inp ! 19 mod push_bit 21 1))
       [push_bit 4 (inp ! 20 mod push_bit 21 1), push_bit 25 (inp ! 21)],
     accum (drop_bit (21 - 14) (inp ! 21 mod push_bit 21 1))
       [push_bit 14 (inp ! 22)],
     accum (drop_bit (21 - 3) (inp ! 22 mod push_bit 21 1))
       [push_bit 3 (inp ! 23 mod push_bit 21 1), push_bit 24 (inp ! 24)],
     accum (drop_bit (21 - 13) (inp ! 24 mod push_bit 21 1))
       [push_bit 13 (inp ! 25)],
     accum (drop_bit (21 - 2) (inp ! 25 mod push_bit 21 1))
       [push_bit 2 (inp ! 26 mod push_bit 21 1), push_bit 23 (inp ! 27)],
     accum (drop_bit (21 - 12) (inp ! 27 mod push_bit 21 1))
       [push_bit 12 (inp ! 28)],
     accum (drop_bit (21 - 1) (inp ! 28 mod push_bit 21 1))
       [push_bit 1 (inp ! 29 mod push_bit 21 1), push_bit 22 (inp ! 30)],
     accum (drop_bit (21 - 11) (inp ! 30 mod push_bit 21 1))
       [push_bit 11 (inp ! 31)]]"

definition sc_fastpack22 :: "u32 list \<Rightarrow> u32 list" where
  "sc_fastpack22 inp =
    [accum (inp ! 0 mod push_bit 22 1)
       [push_bit 22 (inp ! 1)],
     accum (drop_bit (22 - 12) (inp ! 1 mod push_bit 22 1))
       [push_bit 12 (inp ! 2)],
     accum (drop_bit (22 - 2) (inp ! 2 mod push_bit 22 1))
       [push_bit 2 (inp ! 3 mod push_bit 22 1), push_bit 24 (inp ! 4)],
     accum (drop_bit (22 - 14) (inp ! 4 mod push_bit 22 1))
       [push_bit 14 (inp ! 5)],
     accum (drop_bit (22 - 4) (inp ! 5 mod push_bit 22 1))
       [push_bit 4 (inp ! 6 mod push_bit 22 1), push_bit 26 (inp ! 7)],
     accum (drop_bit (22 - 16) (inp ! 7 mod push_bit 22 1))
       [push_bit 16 (inp ! 8)],
     accum (drop_bit (22 - 6) (inp ! 8 mod push_bit 22 1))
       [push_bit 6 (inp ! 9 mod push_bit 22 1), push_bit 28 (inp ! 10)],
     accum (drop_bit (22 - 18) (inp ! 10 mod push_bit 22 1))
       [push_bit 18 (inp ! 11)],
     accum (drop_bit (22 - 8) (inp ! 11 mod push_bit 22 1))
       [push_bit 8 (inp ! 12 mod push_bit 22 1), push_bit 30 (inp ! 13)],
     accum (drop_bit (22 - 20) (inp ! 13 mod push_bit 22 1))
       [push_bit 20 (inp ! 14)],
     accum (drop_bit (22 - 10) (inp ! 14 mod push_bit 22 1))
       [push_bit 10 (inp ! 15)],
     accum (inp ! 16 mod push_bit 22 1)
       [push_bit 22 (inp ! 17)],
     accum (drop_bit (22 - 12) (inp ! 17 mod push_bit 22 1))
       [push_bit 12 (inp ! 18)],
     accum (drop_bit (22 - 2) (inp ! 18 mod push_bit 22 1))
       [push_bit 2 (inp ! 19 mod push_bit 22 1), push_bit 24 (inp ! 20)],
     accum (drop_bit (22 - 14) (inp ! 20 mod push_bit 22 1))
       [push_bit 14 (inp ! 21)],
     accum (drop_bit (22 - 4) (inp ! 21 mod push_bit 22 1))
       [push_bit 4 (inp ! 22 mod push_bit 22 1), push_bit 26 (inp ! 23)],
     accum (drop_bit (22 - 16) (inp ! 23 mod push_bit 22 1))
       [push_bit 16 (inp ! 24)],
     accum (drop_bit (22 - 6) (inp ! 24 mod push_bit 22 1))
       [push_bit 6 (inp ! 25 mod push_bit 22 1), push_bit 28 (inp ! 26)],
     accum (drop_bit (22 - 18) (inp ! 26 mod push_bit 22 1))
       [push_bit 18 (inp ! 27)],
     accum (drop_bit (22 - 8) (inp ! 27 mod push_bit 22 1))
       [push_bit 8 (inp ! 28 mod push_bit 22 1), push_bit 30 (inp ! 29)],
     accum (drop_bit (22 - 20) (inp ! 29 mod push_bit 22 1))
       [push_bit 20 (inp ! 30)],
     accum (drop_bit (22 - 10) (inp ! 30 mod push_bit 22 1))
       [push_bit 10 (inp ! 31)]]"

definition sc_fastpack23 :: "u32 list \<Rightarrow> u32 list" where
  "sc_fastpack23 inp =
    [accum (inp ! 0 mod push_bit 23 1)
       [push_bit 23 (inp ! 1)],
     accum (drop_bit (23 - 14) (inp ! 1 mod push_bit 23 1))
       [push_bit 14 (inp ! 2)],
     accum (drop_bit (23 - 5) (inp ! 2 mod push_bit 23 1))
       [push_bit 5 (inp ! 3 mod push_bit 23 1), push_bit 28 (inp ! 4)],
     accum (drop_bit (23 - 19) (inp ! 4 mod push_bit 23 1))
       [push_bit 19 (inp ! 5)],
     accum (drop_bit (23 - 10) (inp ! 5 mod push_bit 23 1))
       [push_bit 10 (inp ! 6)],
     accum (drop_bit (23 - 1) (inp ! 6 mod push_bit 23 1))
       [push_bit 1 (inp ! 7 mod push_bit 23 1), push_bit 24 (inp ! 8)],
     accum (drop_bit (23 - 15) (inp ! 8 mod push_bit 23 1))
       [push_bit 15 (inp ! 9)],
     accum (drop_bit (23 - 6) (inp ! 9 mod push_bit 23 1))
       [push_bit 6 (inp ! 10 mod push_bit 23 1), push_bit 29 (inp ! 11)],
     accum (drop_bit (23 - 20) (inp ! 11 mod push_bit 23 1))
       [push_bit 20 (inp ! 12)],
     accum (drop_bit (23 - 11) (inp ! 12 mod push_bit 23 1))
       [push_bit 11 (inp ! 13)],
     accum (drop_bit (23 - 2) (inp ! 13 mod push_bit 23 1))
       [push_bit 2 (inp ! 14 mod push_bit 23 1), push_bit 25 (inp ! 15)],
     accum (drop_bit (23 - 16) (inp ! 15 mod push_bit 23 1))
       [push_bit 16 (inp ! 16)],
     accum (drop_bit (23 - 7) (inp ! 16 mod push_bit 23 1))
       [push_bit 7 (inp ! 17 mod push_bit 23 1), push_bit 30 (inp ! 18)],
     accum (drop_bit (23 - 21) (inp ! 18 mod push_bit 23 1))
       [push_bit 21 (inp ! 19)],
     accum (drop_bit (23 - 12) (inp ! 19 mod push_bit 23 1))
       [push_bit 12 (inp ! 20)],
     accum (drop_bit (23 - 3) (inp ! 20 mod push_bit 23 1))
       [push_bit 3 (inp ! 21 mod push_bit 23 1), push_bit 26 (inp ! 22)],
     accum (drop_bit (23 - 17) (inp ! 22 mod push_bit 23 1))
       [push_bit 17 (inp ! 23)],
     accum (drop_bit (23 - 8) (inp ! 23 mod push_bit 23 1))
       [push_bit 8 (inp ! 24 mod push_bit 23 1), push_bit 31 (inp ! 25)],
     accum (drop_bit (23 - 22) (inp ! 25 mod push_bit 23 1))
       [push_bit 22 (inp ! 26)],
     accum (drop_bit (23 - 13) (inp ! 26 mod push_bit 23 1))
       [push_bit 13 (inp ! 27)],
     accum (drop_bit (23 - 4) (inp ! 27 mod push_bit 23 1))
       [push_bit 4 (inp ! 28 mod push_bit 23 1), push_bit 27 (inp ! 29)],
     accum (drop_bit (23 - 18) (inp ! 29 mod push_bit 23 1))
       [push_bit 18 (inp ! 30)],
     accum (drop_bit (23 - 9) (inp ! 30 mod push_bit 23 1))
       [push_bit 9 (inp ! 31)]]"

definition sc_fastpack24 :: "u32 list \<Rightarrow> u32 list" where
  "sc_fastpack24 inp =
    [accum (inp ! 0 mod push_bit 24 1)
       [push_bit 24 (inp ! 1)],
     accum (drop_bit (24 - 16) (inp ! 1 mod push_bit 24 1))
       [push_bit 16 (inp ! 2)],
     accum (drop_bit (24 - 8) (inp ! 2 mod push_bit 24 1))
       [push_bit 8 (inp ! 3)],
     accum (inp ! 4 mod push_bit 24 1)
       [push_bit 24 (inp ! 5)],
     accum (drop_bit (24 - 16) (inp ! 5 mod push_bit 24 1))
       [push_bit 16 (inp ! 6)],
     accum (drop_bit (24 - 8) (inp ! 6 mod push_bit 24 1))
       [push_bit 8 (inp ! 7)],
     accum (inp ! 8 mod push_bit 24 1)
       [push_bit 24 (inp ! 9)],
     accum (drop_bit (24 - 16) (inp ! 9 mod push_bit 24 1))
       [push_bit 16 (inp ! 10)],
     accum (drop_bit (24 - 8) (inp ! 10 mod push_bit 24 1))
       [push_bit 8 (inp ! 11)],
     accum (inp ! 12 mod push_bit 24 1)
       [push_bit 24 (inp ! 13)],
     accum (drop_bit (24 - 16) (inp ! 13 mod push_bit 24 1))
       [push_bit 16 (inp ! 14)],
     accum (drop_bit (24 - 8) (inp ! 14 mod push_bit 24 1))
       [push_bit 8 (inp ! 15)],
     accum (inp ! 16 mod push_bit 24 1)
       [push_bit 24 (inp ! 17)],
     accum (drop_bit (24 - 16) (inp ! 17 mod push_bit 24 1))
       [push_bit 16 (inp ! 18)],
     accum (drop_bit (24 - 8) (inp ! 18 mod push_bit 24 1))
       [push_bit 8 (inp ! 19)],
     accum (inp ! 20 mod push_bit 24 1)
       [push_bit 24 (inp ! 21)],
     accum (drop_bit (24 - 16) (inp ! 21 mod push_bit 24 1))
       [push_bit 16 (inp ! 22)],
     accum (drop_bit (24 - 8) (inp ! 22 mod push_bit 24 1))
       [push_bit 8 (inp ! 23)],
     accum (inp ! 24 mod push_bit 24 1)
       [push_bit 24 (inp ! 25)],
     accum (drop_bit (24 - 16) (inp ! 25 mod push_bit 24 1))
       [push_bit 16 (inp ! 26)],
     accum (drop_bit (24 - 8) (inp ! 26 mod push_bit 24 1))
       [push_bit 8 (inp ! 27)],
     accum (inp ! 28 mod push_bit 24 1)
       [push_bit 24 (inp ! 29)],
     accum (drop_bit (24 - 16) (inp ! 29 mod push_bit 24 1))
       [push_bit 16 (inp ! 30)],
     accum (drop_bit (24 - 8) (inp ! 30 mod push_bit 24 1))
       [push_bit 8 (inp ! 31)]]"

definition sc_fastpack25 :: "u32 list \<Rightarrow> u32 list" where
  "sc_fastpack25 inp =
    [accum (inp ! 0 mod push_bit 25 1)
       [push_bit 25 (inp ! 1)],
     accum (drop_bit (25 - 18) (inp ! 1 mod push_bit 25 1))
       [push_bit 18 (inp ! 2)],
     accum (drop_bit (25 - 11) (inp ! 2 mod push_bit 25 1))
       [push_bit 11 (inp ! 3)],
     accum (drop_bit (25 - 4) (inp ! 3 mod push_bit 25 1))
       [push_bit 4 (inp ! 4 mod push_bit 25 1), push_bit 29 (inp ! 5)],
     accum (drop_bit (25 - 22) (inp ! 5 mod push_bit 25 1))
       [push_bit 22 (inp ! 6)],
     accum (drop_bit (25 - 15) (inp ! 6 mod push_bit 25 1))
       [push_bit 15 (inp ! 7)],
     accum (drop_bit (25 - 8) (inp ! 7 mod push_bit 25 1))
       [push_bit 8 (inp ! 8)],
     accum (drop_bit (25 - 1) (inp ! 8 mod push_bit 25 1))
       [push_bit 1 (inp ! 9 mod push_bit 25 1), push_bit 26 (inp ! 10)],
     accum (drop_bit (25 - 19) (inp ! 10 mod push_bit 25 1))
       [push_bit 19 (inp ! 11)],
     accum (drop_bit (25 - 12) (inp ! 11 mod push_bit 25 1))
       [push_bit 12 (inp ! 12)],
     accum (drop_bit (25 - 5) (inp ! 12 mod push_bit 25 1))
       [push_bit 5 (inp ! 13 mod push_bit 25 1), push_bit 30 (inp ! 14)],
     accum (drop_bit (25 - 23) (inp ! 14 mod push_bit 25 1))
       [push_bit 23 (inp ! 15)],
     accum (drop_bit (25 - 16) (inp ! 15 mod push_bit 25 1))
       [push_bit 16 (inp ! 16)],
     accum (drop_bit (25 - 9) (inp ! 16 mod push_bit 25 1))
       [push_bit 9 (inp ! 17)],
     accum (drop_bit (25 - 2) (inp ! 17 mod push_bit 25 1))
       [push_bit 2 (inp ! 18 mod push_bit 25 1), push_bit 27 (inp ! 19)],
     accum (drop_bit (25 - 20) (inp ! 19 mod push_bit 25 1))
       [push_bit 20 (inp ! 20)],
     accum (drop_bit (25 - 13) (inp ! 20 mod push_bit 25 1))
       [push_bit 13 (inp ! 21)],
     accum (drop_bit (25 - 6) (inp ! 21 mod push_bit 25 1))
       [push_bit 6 (inp ! 22 mod push_bit 25 1), push_bit 31 (inp ! 23)],
     accum (drop_bit (25 - 24) (inp ! 23 mod push_bit 25 1))
       [push_bit 24 (inp ! 24)],
     accum (drop_bit (25 - 17) (inp ! 24 mod push_bit 25 1))
       [push_bit 17 (inp ! 25)],
     accum (drop_bit (25 - 10) (inp ! 25 mod push_bit 25 1))
       [push_bit 10 (inp ! 26)],
     accum (drop_bit (25 - 3) (inp ! 26 mod push_bit 25 1))
       [push_bit 3 (inp ! 27 mod push_bit 25 1), push_bit 28 (inp ! 28)],
     accum (drop_bit (25 - 21) (inp ! 28 mod push_bit 25 1))
       [push_bit 21 (inp ! 29)],
     accum (drop_bit (25 - 14) (inp ! 29 mod push_bit 25 1))
       [push_bit 14 (inp ! 30)],
     accum (drop_bit (25 - 7) (inp ! 30 mod push_bit 25 1))
       [push_bit 7 (inp ! 31)]]"

definition sc_fastpack26 :: "u32 list \<Rightarrow> u32 list" where
  "sc_fastpack26 inp =
    [accum (inp ! 0 mod push_bit 26 1)
       [push_bit 26 (inp ! 1)],
     accum (drop_bit (26 - 20) (inp ! 1 mod push_bit 26 1))
       [push_bit 20 (inp ! 2)],
     accum (drop_bit (26 - 14) (inp ! 2 mod push_bit 26 1))
       [push_bit 14 (inp ! 3)],
     accum (drop_bit (26 - 8) (inp ! 3 mod push_bit 26 1))
       [push_bit 8 (inp ! 4)],
     accum (drop_bit (26 - 2) (inp ! 4 mod push_bit 26 1))
       [push_bit 2 (inp ! 5 mod push_bit 26 1), push_bit 28 (inp ! 6)],
     accum (drop_bit (26 - 22) (inp ! 6 mod push_bit 26 1))
       [push_bit 22 (inp ! 7)],
     accum (drop_bit (26 - 16) (inp ! 7 mod push_bit 26 1))
       [push_bit 16 (inp ! 8)],
     accum (drop_bit (26 - 10) (inp ! 8 mod push_bit 26 1))
       [push_bit 10 (inp ! 9)],
     accum (drop_bit (26 - 4) (inp ! 9 mod push_bit 26 1))
       [push_bit 4 (inp ! 10 mod push_bit 26 1), push_bit 30 (inp ! 11)],
     accum (drop_bit (26 - 24) (inp ! 11 mod push_bit 26 1))
       [push_bit 24 (inp ! 12)],
     accum (drop_bit (26 - 18) (inp ! 12 mod push_bit 26 1))
       [push_bit 18 (inp ! 13)],
     accum (drop_bit (26 - 12) (inp ! 13 mod push_bit 26 1))
       [push_bit 12 (inp ! 14)],
     accum (drop_bit (26 - 6) (inp ! 14 mod push_bit 26 1))
       [push_bit 6 (inp ! 15)],
     accum (inp ! 16 mod push_bit 26 1)
       [push_bit 26 (inp ! 17)],
     accum (drop_bit (26 - 20) (inp ! 17 mod push_bit 26 1))
       [push_bit 20 (inp ! 18)],
     accum (drop_bit (26 - 14) (inp ! 18 mod push_bit 26 1))
       [push_bit 14 (inp ! 19)],
     accum (drop_bit (26 - 8) (inp ! 19 mod push_bit 26 1))
       [push_bit 8 (inp ! 20)],
     accum (drop_bit (26 - 2) (inp ! 20 mod push_bit 26 1))
       [push_bit 2 (inp ! 21 mod push_bit 26 1), push_bit 28 (inp ! 22)],
     accum (drop_bit (26 - 22) (inp ! 22 mod push_bit 26 1))
       [push_bit 22 (inp ! 23)],
     accum (drop_bit (26 - 16) (inp ! 23 mod push_bit 26 1))
       [push_bit 16 (inp ! 24)],
     accum (drop_bit (26 - 10) (inp ! 24 mod push_bit 26 1))
       [push_bit 10 (inp ! 25)],
     accum (drop_bit (26 - 4) (inp ! 25 mod push_bit 26 1))
       [push_bit 4 (inp ! 26 mod push_bit 26 1), push_bit 30 (inp ! 27)],
     accum (drop_bit (26 - 24) (inp ! 27 mod push_bit 26 1))
       [push_bit 24 (inp ! 28)],
     accum (drop_bit (26 - 18) (inp ! 28 mod push_bit 26 1))
       [push_bit 18 (inp ! 29)],
     accum (drop_bit (26 - 12) (inp ! 29 mod push_bit 26 1))
       [push_bit 12 (inp ! 30)],
     accum (drop_bit (26 - 6) (inp ! 30 mod push_bit 26 1))
       [push_bit 6 (inp ! 31)]]"

definition sc_fastpack27 :: "u32 list \<Rightarrow> u32 list" where
  "sc_fastpack27 inp =
    [accum (inp ! 0 mod push_bit 27 1)
       [push_bit 27 (inp ! 1)],
     accum (drop_bit (27 - 22) (inp ! 1 mod push_bit 27 1))
       [push_bit 22 (inp ! 2)],
     accum (drop_bit (27 - 17) (inp ! 2 mod push_bit 27 1))
       [push_bit 17 (inp ! 3)],
     accum (drop_bit (27 - 12) (inp ! 3 mod push_bit 27 1))
       [push_bit 12 (inp ! 4)],
     accum (drop_bit (27 - 7) (inp ! 4 mod push_bit 27 1))
       [push_bit 7 (inp ! 5)],
     accum (drop_bit (27 - 2) (inp ! 5 mod push_bit 27 1))
       [push_bit 2 (inp ! 6 mod push_bit 27 1), push_bit 29 (inp ! 7)],
     accum (drop_bit (27 - 24) (inp ! 7 mod push_bit 27 1))
       [push_bit 24 (inp ! 8)],
     accum (drop_bit (27 - 19) (inp ! 8 mod push_bit 27 1))
       [push_bit 19 (inp ! 9)],
     accum (drop_bit (27 - 14) (inp ! 9 mod push_bit 27 1))
       [push_bit 14 (inp ! 10)],
     accum (drop_bit (27 - 9) (inp ! 10 mod push_bit 27 1))
       [push_bit 9 (inp ! 11)],
     accum (drop_bit (27 - 4) (inp ! 11 mod push_bit 27 1))
       [push_bit 4 (inp ! 12 mod push_bit 27 1), push_bit 31 (inp ! 13)],
     accum (drop_bit (27 - 26) (inp ! 13 mod push_bit 27 1))
       [push_bit 26 (inp ! 14)],
     accum (drop_bit (27 - 21) (inp ! 14 mod push_bit 27 1))
       [push_bit 21 (inp ! 15)],
     accum (drop_bit (27 - 16) (inp ! 15 mod push_bit 27 1))
       [push_bit 16 (inp ! 16)],
     accum (drop_bit (27 - 11) (inp ! 16 mod push_bit 27 1))
       [push_bit 11 (inp ! 17)],
     accum (drop_bit (27 - 6) (inp ! 17 mod push_bit 27 1))
       [push_bit 6 (inp ! 18)],
     accum (drop_bit (27 - 1) (inp ! 18 mod push_bit 27 1))
       [push_bit 1 (inp ! 19 mod push_bit 27 1), push_bit 28 (inp ! 20)],
     accum (drop_bit (27 - 23) (inp ! 20 mod push_bit 27 1))
       [push_bit 23 (inp ! 21)],
     accum (drop_bit (27 - 18) (inp ! 21 mod push_bit 27 1))
       [push_bit 18 (inp ! 22)],
     accum (drop_bit (27 - 13) (inp ! 22 mod push_bit 27 1))
       [push_bit 13 (inp ! 23)],
     accum (drop_bit (27 - 8) (inp ! 23 mod push_bit 27 1))
       [push_bit 8 (inp ! 24)],
     accum (drop_bit (27 - 3) (inp ! 24 mod push_bit 27 1))
       [push_bit 3 (inp ! 25 mod push_bit 27 1), push_bit 30 (inp ! 26)],
     accum (drop_bit (27 - 25) (inp ! 26 mod push_bit 27 1))
       [push_bit 25 (inp ! 27)],
     accum (drop_bit (27 - 20) (inp ! 27 mod push_bit 27 1))
       [push_bit 20 (inp ! 28)],
     accum (drop_bit (27 - 15) (inp ! 28 mod push_bit 27 1))
       [push_bit 15 (inp ! 29)],
     accum (drop_bit (27 - 10) (inp ! 29 mod push_bit 27 1))
       [push_bit 10 (inp ! 30)],
     accum (drop_bit (27 - 5) (inp ! 30 mod push_bit 27 1))
       [push_bit 5 (inp ! 31)]]"

definition sc_fastpack28 :: "u32 list \<Rightarrow> u32 list" where
  "sc_fastpack28 inp =
    [accum (inp ! 0 mod push_bit 28 1)
       [push_bit 28 (inp ! 1)],
     accum (drop_bit (28 - 24) (inp ! 1 mod push_bit 28 1))
       [push_bit 24 (inp ! 2)],
     accum (drop_bit (28 - 20) (inp ! 2 mod push_bit 28 1))
       [push_bit 20 (inp ! 3)],
     accum (drop_bit (28 - 16) (inp ! 3 mod push_bit 28 1))
       [push_bit 16 (inp ! 4)],
     accum (drop_bit (28 - 12) (inp ! 4 mod push_bit 28 1))
       [push_bit 12 (inp ! 5)],
     accum (drop_bit (28 - 8) (inp ! 5 mod push_bit 28 1))
       [push_bit 8 (inp ! 6)],
     accum (drop_bit (28 - 4) (inp ! 6 mod push_bit 28 1))
       [push_bit 4 (inp ! 7)],
     accum (inp ! 8 mod push_bit 28 1)
       [push_bit 28 (inp ! 9)],
     accum (drop_bit (28 - 24) (inp ! 9 mod push_bit 28 1))
       [push_bit 24 (inp ! 10)],
     accum (drop_bit (28 - 20) (inp ! 10 mod push_bit 28 1))
       [push_bit 20 (inp ! 11)],
     accum (drop_bit (28 - 16) (inp ! 11 mod push_bit 28 1))
       [push_bit 16 (inp ! 12)],
     accum (drop_bit (28 - 12) (inp ! 12 mod push_bit 28 1))
       [push_bit 12 (inp ! 13)],
     accum (drop_bit (28 - 8) (inp ! 13 mod push_bit 28 1))
       [push_bit 8 (inp ! 14)],
     accum (drop_bit (28 - 4) (inp ! 14 mod push_bit 28 1))
       [push_bit 4 (inp ! 15)],
     accum (inp ! 16 mod push_bit 28 1)
       [push_bit 28 (inp ! 17)],
     accum (drop_bit (28 - 24) (inp ! 17 mod push_bit 28 1))
       [push_bit 24 (inp ! 18)],
     accum (drop_bit (28 - 20) (inp ! 18 mod push_bit 28 1))
       [push_bit 20 (inp ! 19)],
     accum (drop_bit (28 - 16) (inp ! 19 mod push_bit 28 1))
       [push_bit 16 (inp ! 20)],
     accum (drop_bit (28 - 12) (inp ! 20 mod push_bit 28 1))
       [push_bit 12 (inp ! 21)],
     accum (drop_bit (28 - 8) (inp ! 21 mod push_bit 28 1))
       [push_bit 8 (inp ! 22)],
     accum (drop_bit (28 - 4) (inp ! 22 mod push_bit 28 1))
       [push_bit 4 (inp ! 23)],
     accum (inp ! 24 mod push_bit 28 1)
       [push_bit 28 (inp ! 25)],
     accum (drop_bit (28 - 24) (inp ! 25 mod push_bit 28 1))
       [push_bit 24 (inp ! 26)],
     accum (drop_bit (28 - 20) (inp ! 26 mod push_bit 28 1))
       [push_bit 20 (inp ! 27)],
     accum (drop_bit (28 - 16) (inp ! 27 mod push_bit 28 1))
       [push_bit 16 (inp ! 28)],
     accum (drop_bit (28 - 12) (inp ! 28 mod push_bit 28 1))
       [push_bit 12 (inp ! 29)],
     accum (drop_bit (28 - 8) (inp ! 29 mod push_bit 28 1))
       [push_bit 8 (inp ! 30)],
     accum (drop_bit (28 - 4) (inp ! 30 mod push_bit 28 1))
       [push_bit 4 (inp ! 31)]]"

definition sc_fastpack29 :: "u32 list \<Rightarrow> u32 list" where
  "sc_fastpack29 inp =
    [accum (inp ! 0 mod push_bit 29 1)
       [push_bit 29 (inp ! 1)],
     accum (drop_bit (29 - 26) (inp ! 1 mod push_bit 29 1))
       [push_bit 26 (inp ! 2)],
     accum (drop_bit (29 - 23) (inp ! 2 mod push_bit 29 1))
       [push_bit 23 (inp ! 3)],
     accum (drop_bit (29 - 20) (inp ! 3 mod push_bit 29 1))
       [push_bit 20 (inp ! 4)],
     accum (drop_bit (29 - 17) (inp ! 4 mod push_bit 29 1))
       [push_bit 17 (inp ! 5)],
     accum (drop_bit (29 - 14) (inp ! 5 mod push_bit 29 1))
       [push_bit 14 (inp ! 6)],
     accum (drop_bit (29 - 11) (inp ! 6 mod push_bit 29 1))
       [push_bit 11 (inp ! 7)],
     accum (drop_bit (29 - 8) (inp ! 7 mod push_bit 29 1))
       [push_bit 8 (inp ! 8)],
     accum (drop_bit (29 - 5) (inp ! 8 mod push_bit 29 1))
       [push_bit 5 (inp ! 9)],
     accum (drop_bit (29 - 2) (inp ! 9 mod push_bit 29 1))
       [push_bit 2 (inp ! 10 mod push_bit 29 1), push_bit 31 (inp ! 11)],
     accum (drop_bit (29 - 28) (inp ! 11 mod push_bit 29 1))
       [push_bit 28 (inp ! 12)],
     accum (drop_bit (29 - 25) (inp ! 12 mod push_bit 29 1))
       [push_bit 25 (inp ! 13)],
     accum (drop_bit (29 - 22) (inp ! 13 mod push_bit 29 1))
       [push_bit 22 (inp ! 14)],
     accum (drop_bit (29 - 19) (inp ! 14 mod push_bit 29 1))
       [push_bit 19 (inp ! 15)],
     accum (drop_bit (29 - 16) (inp ! 15 mod push_bit 29 1))
       [push_bit 16 (inp ! 16)],
     accum (drop_bit (29 - 13) (inp ! 16 mod push_bit 29 1))
       [push_bit 13 (inp ! 17)],
     accum (drop_bit (29 - 10) (inp ! 17 mod push_bit 29 1))
       [push_bit 10 (inp ! 18)],
     accum (drop_bit (29 - 7) (inp ! 18 mod push_bit 29 1))
       [push_bit 7 (inp ! 19)],
     accum (drop_bit (29 - 4) (inp ! 19 mod push_bit 29 1))
       [push_bit 4 (inp ! 20)],
     accum (drop_bit (29 - 1) (inp ! 20 mod push_bit 29 1))
       [push_bit 1 (inp ! 21 mod push_bit 29 1), push_bit 30 (inp ! 22)],
     accum (drop_bit (29 - 27) (inp ! 22 mod push_bit 29 1))
       [push_bit 27 (inp ! 23)],
     accum (drop_bit (29 - 24) (inp ! 23 mod push_bit 29 1))
       [push_bit 24 (inp ! 24)],
     accum (drop_bit (29 - 21) (inp ! 24 mod push_bit 29 1))
       [push_bit 21 (inp ! 25)],
     accum (drop_bit (29 - 18) (inp ! 25 mod push_bit 29 1))
       [push_bit 18 (inp ! 26)],
     accum (drop_bit (29 - 15) (inp ! 26 mod push_bit 29 1))
       [push_bit 15 (inp ! 27)],
     accum (drop_bit (29 - 12) (inp ! 27 mod push_bit 29 1))
       [push_bit 12 (inp ! 28)],
     accum (drop_bit (29 - 9) (inp ! 28 mod push_bit 29 1))
       [push_bit 9 (inp ! 29)],
     accum (drop_bit (29 - 6) (inp ! 29 mod push_bit 29 1))
       [push_bit 6 (inp ! 30)],
     accum (drop_bit (29 - 3) (inp ! 30 mod push_bit 29 1))
       [push_bit 3 (inp ! 31)]]"

definition sc_fastpack30 :: "u32 list \<Rightarrow> u32 list" where
  "sc_fastpack30 inp =
    [accum (inp ! 0 mod push_bit 30 1)
       [push_bit 30 (inp ! 1)],
     accum (drop_bit (30 - 28) (inp ! 1 mod push_bit 30 1))
       [push_bit 28 (inp ! 2)],
     accum (drop_bit (30 - 26) (inp ! 2 mod push_bit 30 1))
       [push_bit 26 (inp ! 3)],
     accum (drop_bit (30 - 24) (inp ! 3 mod push_bit 30 1))
       [push_bit 24 (inp ! 4)],
     accum (drop_bit (30 - 22) (inp ! 4 mod push_bit 30 1))
       [push_bit 22 (inp ! 5)],
     accum (drop_bit (30 - 20) (inp ! 5 mod push_bit 30 1))
       [push_bit 20 (inp ! 6)],
     accum (drop_bit (30 - 18) (inp ! 6 mod push_bit 30 1))
       [push_bit 18 (inp ! 7)],
     accum (drop_bit (30 - 16) (inp ! 7 mod push_bit 30 1))
       [push_bit 16 (inp ! 8)],
     accum (drop_bit (30 - 14) (inp ! 8 mod push_bit 30 1))
       [push_bit 14 (inp ! 9)],
     accum (drop_bit (30 - 12) (inp ! 9 mod push_bit 30 1))
       [push_bit 12 (inp ! 10)],
     accum (drop_bit (30 - 10) (inp ! 10 mod push_bit 30 1))
       [push_bit 10 (inp ! 11)],
     accum (drop_bit (30 - 8) (inp ! 11 mod push_bit 30 1))
       [push_bit 8 (inp ! 12)],
     accum (drop_bit (30 - 6) (inp ! 12 mod push_bit 30 1))
       [push_bit 6 (inp ! 13)],
     accum (drop_bit (30 - 4) (inp ! 13 mod push_bit 30 1))
       [push_bit 4 (inp ! 14)],
     accum (drop_bit (30 - 2) (inp ! 14 mod push_bit 30 1))
       [push_bit 2 (inp ! 15)],
     accum (inp ! 16 mod push_bit 30 1)
       [push_bit 30 (inp ! 17)],
     accum (drop_bit (30 - 28) (inp ! 17 mod push_bit 30 1))
       [push_bit 28 (inp ! 18)],
     accum (drop_bit (30 - 26) (inp ! 18 mod push_bit 30 1))
       [push_bit 26 (inp ! 19)],
     accum (drop_bit (30 - 24) (inp ! 19 mod push_bit 30 1))
       [push_bit 24 (inp ! 20)],
     accum (drop_bit (30 - 22) (inp ! 20 mod push_bit 30 1))
       [push_bit 22 (inp ! 21)],
     accum (drop_bit (30 - 20) (inp ! 21 mod push_bit 30 1))
       [push_bit 20 (inp ! 22)],
     accum (drop_bit (30 - 18) (inp ! 22 mod push_bit 30 1))
       [push_bit 18 (inp ! 23)],
     accum (drop_bit (30 - 16) (inp ! 23 mod push_bit 30 1))
       [push_bit 16 (inp ! 24)],
     accum (drop_bit (30 - 14) (inp ! 24 mod push_bit 30 1))
       [push_bit 14 (inp ! 25)],
     accum (drop_bit (30 - 12) (inp ! 25 mod push_bit 30 1))
       [push_bit 12 (inp ! 26)],
     accum (drop_bit (30 - 10) (inp ! 26 mod push_bit 30 1))
       [push_bit 10 (inp ! 27)],
     accum (drop_bit (30 - 8) (inp ! 27 mod push_bit 30 1))
       [push_bit 8 (inp ! 28)],
     accum (drop_bit (30 - 6) (inp ! 28 mod push_bit 30 1))
       [push_bit 6 (inp ! 29)],
     accum (drop_bit (30 - 4) (inp ! 29 mod push_bit 30 1))
       [push_bit 4 (inp ! 30)],
     accum (drop_bit (30 - 2) (inp ! 30 mod push_bit 30 1))
       [push_bit 2 (inp ! 31)]]"

definition sc_fastpack31 :: "u32 list \<Rightarrow> u32 list" where
  "sc_fastpack31 inp =
    [accum (inp ! 0 mod push_bit 31 1)
       [push_bit 31 (inp ! 1)],
     accum (drop_bit (31 - 30) (inp ! 1 mod push_bit 31 1))
       [push_bit 30 (inp ! 2)],
     accum (drop_bit (31 - 29) (inp ! 2 mod push_bit 31 1))
       [push_bit 29 (inp ! 3)],
     accum (drop_bit (31 - 28) (inp ! 3 mod push_bit 31 1))
       [push_bit 28 (inp ! 4)],
     accum (drop_bit (31 - 27) (inp ! 4 mod push_bit 31 1))
       [push_bit 27 (inp ! 5)],
     accum (drop_bit (31 - 26) (inp ! 5 mod push_bit 31 1))
       [push_bit 26 (inp ! 6)],
     accum (drop_bit (31 - 25) (inp ! 6 mod push_bit 31 1))
       [push_bit 25 (inp ! 7)],
     accum (drop_bit (31 - 24) (inp ! 7 mod push_bit 31 1))
       [push_bit 24 (inp ! 8)],
     accum (drop_bit (31 - 23) (inp ! 8 mod push_bit 31 1))
       [push_bit 23 (inp ! 9)],
     accum (drop_bit (31 - 22) (inp ! 9 mod push_bit 31 1))
       [push_bit 22 (inp ! 10)],
     accum (drop_bit (31 - 21) (inp ! 10 mod push_bit 31 1))
       [push_bit 21 (inp ! 11)],
     accum (drop_bit (31 - 20) (inp ! 11 mod push_bit 31 1))
       [push_bit 20 (inp ! 12)],
     accum (drop_bit (31 - 19) (inp ! 12 mod push_bit 31 1))
       [push_bit 19 (inp ! 13)],
     accum (drop_bit (31 - 18) (inp ! 13 mod push_bit 31 1))
       [push_bit 18 (inp ! 14)],
     accum (drop_bit (31 - 17) (inp ! 14 mod push_bit 31 1))
       [push_bit 17 (inp ! 15)],
     accum (drop_bit (31 - 16) (inp ! 15 mod push_bit 31 1))
       [push_bit 16 (inp ! 16)],
     accum (drop_bit (31 - 15) (inp ! 16 mod push_bit 31 1))
       [push_bit 15 (inp ! 17)],
     accum (drop_bit (31 - 14) (inp ! 17 mod push_bit 31 1))
       [push_bit 14 (inp ! 18)],
     accum (drop_bit (31 - 13) (inp ! 18 mod push_bit 31 1))
       [push_bit 13 (inp ! 19)],
     accum (drop_bit (31 - 12) (inp ! 19 mod push_bit 31 1))
       [push_bit 12 (inp ! 20)],
     accum (drop_bit (31 - 11) (inp ! 20 mod push_bit 31 1))
       [push_bit 11 (inp ! 21)],
     accum (drop_bit (31 - 10) (inp ! 21 mod push_bit 31 1))
       [push_bit 10 (inp ! 22)],
     accum (drop_bit (31 - 9) (inp ! 22 mod push_bit 31 1))
       [push_bit 9 (inp ! 23)],
     accum (drop_bit (31 - 8) (inp ! 23 mod push_bit 31 1))
       [push_bit 8 (inp ! 24)],
     accum (drop_bit (31 - 7) (inp ! 24 mod push_bit 31 1))
       [push_bit 7 (inp ! 25)],
     accum (drop_bit (31 - 6) (inp ! 25 mod push_bit 31 1))
       [push_bit 6 (inp ! 26)],
     accum (drop_bit (31 - 5) (inp ! 26 mod push_bit 31 1))
       [push_bit 5 (inp ! 27)],
     accum (drop_bit (31 - 4) (inp ! 27 mod push_bit 31 1))
       [push_bit 4 (inp ! 28)],
     accum (drop_bit (31 - 3) (inp ! 28 mod push_bit 31 1))
       [push_bit 3 (inp ! 29)],
     accum (drop_bit (31 - 2) (inp ! 29 mod push_bit 31 1))
       [push_bit 2 (inp ! 30)],
     accum (drop_bit (31 - 1) (inp ! 30 mod push_bit 31 1))
       [push_bit 1 (inp ! 31)]]"

definition sc_fastpack32 :: "u32 list \<Rightarrow> u32 list" where
  "sc_fastpack32 inp = map (\<lambda>k. inp ! k) [0..<32]"

section \<open>Every routine is an instance of the reference\<close>

lemma sc_fastpack0_eq: "sc_fastpack0 = pack_ref 0"
  by (rule ext) (simp add: sc_fastpack0_def pack_words)

lemma sc_fastpack1_eq: "sc_fastpack1 = pack_ref 1"
  by (rule ext, simp add: sc_fastpack1_def pack_words del: One_nat_def add_Suc_right)
     (simp add: pack_simps del: One_nat_def add_Suc_right)

lemma sc_fastpack2_eq: "sc_fastpack2 = pack_ref 2"
  by (rule ext, simp add: sc_fastpack2_def pack_words del: One_nat_def add_Suc_right)
     (simp add: pack_simps del: One_nat_def add_Suc_right)

lemma sc_fastpack3_eq: "sc_fastpack3 = pack_ref 3"
  by (rule ext, simp add: sc_fastpack3_def pack_words del: One_nat_def add_Suc_right)
     (simp add: pack_simps del: One_nat_def add_Suc_right)

lemma sc_fastpack4_eq: "sc_fastpack4 = pack_ref 4"
  by (rule ext, simp add: sc_fastpack4_def pack_words del: One_nat_def add_Suc_right)
     (simp add: pack_simps del: One_nat_def add_Suc_right)

lemma sc_fastpack5_eq: "sc_fastpack5 = pack_ref 5"
  by (rule ext, simp add: sc_fastpack5_def pack_words del: One_nat_def add_Suc_right)
     (simp add: pack_simps del: One_nat_def add_Suc_right)

lemma sc_fastpack6_eq: "sc_fastpack6 = pack_ref 6"
  by (rule ext, simp add: sc_fastpack6_def pack_words del: One_nat_def add_Suc_right)
     (simp add: pack_simps del: One_nat_def add_Suc_right)

lemma sc_fastpack7_eq: "sc_fastpack7 = pack_ref 7"
  by (rule ext, simp add: sc_fastpack7_def pack_words del: One_nat_def add_Suc_right)
     (simp add: pack_simps del: One_nat_def add_Suc_right)

lemma sc_fastpack8_eq: "sc_fastpack8 = pack_ref 8"
  by (rule ext, simp add: sc_fastpack8_def pack_words del: One_nat_def add_Suc_right)
     (simp add: pack_simps del: One_nat_def add_Suc_right)

lemma sc_fastpack9_eq: "sc_fastpack9 = pack_ref 9"
  by (rule ext, simp add: sc_fastpack9_def pack_words del: One_nat_def add_Suc_right)
     (simp add: pack_simps del: One_nat_def add_Suc_right)

lemma sc_fastpack10_eq: "sc_fastpack10 = pack_ref 10"
  by (rule ext, simp add: sc_fastpack10_def pack_words del: One_nat_def add_Suc_right)
     (simp add: pack_simps del: One_nat_def add_Suc_right)

lemma sc_fastpack11_eq: "sc_fastpack11 = pack_ref 11"
  by (rule ext, simp add: sc_fastpack11_def pack_words del: One_nat_def add_Suc_right)
     (simp add: pack_simps del: One_nat_def add_Suc_right)

lemma sc_fastpack12_eq: "sc_fastpack12 = pack_ref 12"
  by (rule ext, simp add: sc_fastpack12_def pack_words del: One_nat_def add_Suc_right)
     (simp add: pack_simps del: One_nat_def add_Suc_right)

lemma sc_fastpack13_eq: "sc_fastpack13 = pack_ref 13"
  by (rule ext, simp add: sc_fastpack13_def pack_words del: One_nat_def add_Suc_right)
     (simp add: pack_simps del: One_nat_def add_Suc_right)

lemma sc_fastpack14_eq: "sc_fastpack14 = pack_ref 14"
  by (rule ext, simp add: sc_fastpack14_def pack_words del: One_nat_def add_Suc_right)
     (simp add: pack_simps del: One_nat_def add_Suc_right)

lemma sc_fastpack15_eq: "sc_fastpack15 = pack_ref 15"
  by (rule ext, simp add: sc_fastpack15_def pack_words del: One_nat_def add_Suc_right)
     (simp add: pack_simps del: One_nat_def add_Suc_right)

lemma sc_fastpack16_eq: "sc_fastpack16 = pack_ref 16"
  by (rule ext, simp add: sc_fastpack16_def pack_words del: One_nat_def add_Suc_right)
     (simp add: pack_simps del: One_nat_def add_Suc_right)

lemma sc_fastpack17_eq: "sc_fastpack17 = pack_ref 17"
  by (rule ext, simp add: sc_fastpack17_def pack_words del: One_nat_def add_Suc_right)
     (simp add: pack_simps del: One_nat_def add_Suc_right)

lemma sc_fastpack18_eq: "sc_fastpack18 = pack_ref 18"
  by (rule ext, simp add: sc_fastpack18_def pack_words del: One_nat_def add_Suc_right)
     (simp add: pack_simps del: One_nat_def add_Suc_right)

lemma sc_fastpack19_eq: "sc_fastpack19 = pack_ref 19"
  by (rule ext, simp add: sc_fastpack19_def pack_words del: One_nat_def add_Suc_right)
     (simp add: pack_simps del: One_nat_def add_Suc_right)

lemma sc_fastpack20_eq: "sc_fastpack20 = pack_ref 20"
  by (rule ext, simp add: sc_fastpack20_def pack_words del: One_nat_def add_Suc_right)
     (simp add: pack_simps del: One_nat_def add_Suc_right)

lemma sc_fastpack21_eq: "sc_fastpack21 = pack_ref 21"
  by (rule ext, simp add: sc_fastpack21_def pack_words del: One_nat_def add_Suc_right)
     (simp add: pack_simps del: One_nat_def add_Suc_right)

lemma sc_fastpack22_eq: "sc_fastpack22 = pack_ref 22"
  by (rule ext, simp add: sc_fastpack22_def pack_words del: One_nat_def add_Suc_right)
     (simp add: pack_simps del: One_nat_def add_Suc_right)

lemma sc_fastpack23_eq: "sc_fastpack23 = pack_ref 23"
  by (rule ext, simp add: sc_fastpack23_def pack_words del: One_nat_def add_Suc_right)
     (simp add: pack_simps del: One_nat_def add_Suc_right)

lemma sc_fastpack24_eq: "sc_fastpack24 = pack_ref 24"
  by (rule ext, simp add: sc_fastpack24_def pack_words del: One_nat_def add_Suc_right)
     (simp add: pack_simps del: One_nat_def add_Suc_right)

lemma sc_fastpack25_eq: "sc_fastpack25 = pack_ref 25"
  by (rule ext, simp add: sc_fastpack25_def pack_words del: One_nat_def add_Suc_right)
     (simp add: pack_simps del: One_nat_def add_Suc_right)

lemma sc_fastpack26_eq: "sc_fastpack26 = pack_ref 26"
  by (rule ext, simp add: sc_fastpack26_def pack_words del: One_nat_def add_Suc_right)
     (simp add: pack_simps del: One_nat_def add_Suc_right)

lemma sc_fastpack27_eq: "sc_fastpack27 = pack_ref 27"
  by (rule ext, simp add: sc_fastpack27_def pack_words del: One_nat_def add_Suc_right)
     (simp add: pack_simps del: One_nat_def add_Suc_right)

lemma sc_fastpack28_eq: "sc_fastpack28 = pack_ref 28"
  by (rule ext, simp add: sc_fastpack28_def pack_words del: One_nat_def add_Suc_right)
     (simp add: pack_simps del: One_nat_def add_Suc_right)

lemma sc_fastpack29_eq: "sc_fastpack29 = pack_ref 29"
  by (rule ext, simp add: sc_fastpack29_def pack_words del: One_nat_def add_Suc_right)
     (simp add: pack_simps del: One_nat_def add_Suc_right)

lemma sc_fastpack30_eq: "sc_fastpack30 = pack_ref 30"
  by (rule ext, simp add: sc_fastpack30_def pack_words del: One_nat_def add_Suc_right)
     (simp add: pack_simps del: One_nat_def add_Suc_right)

lemma sc_fastpack31_eq: "sc_fastpack31 = pack_ref 31"
  by (rule ext, simp add: sc_fastpack31_def pack_words del: One_nat_def add_Suc_right)
     (simp add: pack_simps del: One_nat_def add_Suc_right)

lemma sc_fastpack32_eq: "sc_fastpack32 = pack_ref 32"
  by (rule ext, simp add: sc_fastpack32_def pack_words del: One_nat_def add_Suc_right)
     (simp add: pack_simps del: One_nat_def add_Suc_right)

definition sc_fastpack_table :: "(u32 list \<Rightarrow> u32 list) list" where
  "sc_fastpack_table =
    [sc_fastpack0, sc_fastpack1, sc_fastpack2, sc_fastpack3, sc_fastpack4, sc_fastpack5, sc_fastpack6, sc_fastpack7,
     sc_fastpack8, sc_fastpack9, sc_fastpack10, sc_fastpack11, sc_fastpack12, sc_fastpack13, sc_fastpack14,
     sc_fastpack15, sc_fastpack16, sc_fastpack17, sc_fastpack18, sc_fastpack19, sc_fastpack20, sc_fastpack21,
     sc_fastpack22, sc_fastpack23, sc_fastpack24, sc_fastpack25, sc_fastpack26, sc_fastpack27, sc_fastpack28,
     sc_fastpack29, sc_fastpack30, sc_fastpack31, sc_fastpack32]"

lemma sc_fastpack_table_eq: "sc_fastpack_table = map pack_ref [0..<33]"
  by (simp add: sc_fastpack_table_def
    sc_fastpack0_eq sc_fastpack1_eq sc_fastpack2_eq sc_fastpack3_eq sc_fastpack4_eq sc_fastpack5_eq sc_fastpack6_eq
    sc_fastpack7_eq sc_fastpack8_eq sc_fastpack9_eq sc_fastpack10_eq sc_fastpack11_eq sc_fastpack12_eq
    sc_fastpack13_eq sc_fastpack14_eq sc_fastpack15_eq sc_fastpack16_eq sc_fastpack17_eq sc_fastpack18_eq
    sc_fastpack19_eq sc_fastpack20_eq sc_fastpack21_eq sc_fastpack22_eq sc_fastpack23_eq sc_fastpack24_eq
    sc_fastpack25_eq sc_fastpack26_eq sc_fastpack27_eq sc_fastpack28_eq sc_fastpack29_eq sc_fastpack30_eq
    sc_fastpack31_eq sc_fastpack32_eq
    upt_step del: One_nat_def add_Suc_right)

end
