(* ===== verification/Scalar_NoMask.thy ===== *)
theory Scalar_NoMask
  imports Bitpack_Ref
begin

text \<open>
  The routines \<open>__fastpackwithoutmask0\<close> to \<open>__fastpackwithoutmask32\<close> of \<open>source/util/compression/simd-compression/bitpacking.cpp\<close>.
  Every routine is the reference packing of its width without masks.
\<close>

section \<open>The routines\<close>

definition sc_fastpackwithoutmask0 :: "u32 list \<Rightarrow> u32 list" where
  "sc_fastpackwithoutmask0 inp = []"

definition sc_fastpackwithoutmask1 :: "u32 list \<Rightarrow> u32 list" where
  "sc_fastpackwithoutmask1 inp =
    [accum (inp ! 0)
       [push_bit 1 (inp ! 1), push_bit 2 (inp ! 2), push_bit 3 (inp ! 3), push_bit 4 (inp ! 4), push_bit 5 (inp ! 5),
        push_bit 6 (inp ! 6), push_bit 7 (inp ! 7), push_bit 8 (inp ! 8), push_bit 9 (inp ! 9), push_bit 10 (inp ! 10),
        push_bit 11 (inp ! 11), push_bit 12 (inp ! 12), push_bit 13 (inp ! 13), push_bit 14 (inp ! 14),
        push_bit 15 (inp ! 15), push_bit 16 (inp ! 16), push_bit 17 (inp ! 17), push_bit 18 (inp ! 18),
        push_bit 19 (inp ! 19), push_bit 20 (inp ! 20), push_bit 21 (inp ! 21), push_bit 22 (inp ! 22),
        push_bit 23 (inp ! 23), push_bit 24 (inp ! 24), push_bit 25 (inp ! 25), push_bit 26 (inp ! 26),
        push_bit 27 (inp ! 27), push_bit 28 (inp ! 28), push_bit 29 (inp ! 29), push_bit 30 (inp ! 30),
        push_bit 31 (inp ! 31)]]"

definition sc_fastpackwithoutmask2 :: "u32 list \<Rightarrow> u32 list" where
  "sc_fastpackwithoutmask2 inp =
    [accum (inp ! 0)
       [push_bit 2 (inp ! 1), push_bit 4 (inp ! 2), push_bit 6 (inp ! 3), push_bit 8 (inp ! 4), push_bit 10 (inp ! 5),
        push_bit 12 (inp ! 6), push_bit 14 (inp ! 7), push_bit 16 (inp ! 8), push_bit 18 (inp ! 9),
        push_bit 20 (inp ! 10), push_bit 22 (inp ! 11), push_bit 24 (inp ! 12), push_bit 26 (inp ! 13),
        push_bit 28 (inp ! 14), push_bit 30 (inp ! 15)],
     accum (inp ! 16)
       [push_bit 2 (inp ! 17), push_bit 4 (inp ! 18), push_bit 6 (inp ! 19), push_bit 8 (inp ! 20),
        push_bit 10 (inp ! 21), push_bit 12 (inp ! 22), push_bit 14 (inp ! 23), push_bit 16 (inp ! 24),
        push_bit 18 (inp ! 25), push_bit 20 (inp ! 26), push_bit 22 (inp ! 27), push_bit 24 (inp ! 28),
        push_bit 26 (inp ! 29), push_bit 28 (inp ! 30), push_bit 30 (inp ! 31)]]"

definition sc_fastpackwithoutmask3 :: "u32 list \<Rightarrow> u32 list" where
  "sc_fastpackwithoutmask3 inp =
    [accum (inp ! 0)
       [push_bit 3 (inp ! 1), push_bit 6 (inp ! 2), push_bit 9 (inp ! 3), push_bit 12 (inp ! 4), push_bit 15 (inp ! 5),
        push_bit 18 (inp ! 6), push_bit 21 (inp ! 7), push_bit 24 (inp ! 8), push_bit 27 (inp ! 9),
        push_bit 30 (inp ! 10)],
     accum (drop_bit (3 - 1) (inp ! 10))
       [push_bit 1 (inp ! 11), push_bit 4 (inp ! 12), push_bit 7 (inp ! 13), push_bit 10 (inp ! 14),
        push_bit 13 (inp ! 15), push_bit 16 (inp ! 16), push_bit 19 (inp ! 17), push_bit 22 (inp ! 18),
        push_bit 25 (inp ! 19), push_bit 28 (inp ! 20), push_bit 31 (inp ! 21)],
     accum (drop_bit (3 - 2) (inp ! 21))
       [push_bit 2 (inp ! 22), push_bit 5 (inp ! 23), push_bit 8 (inp ! 24), push_bit 11 (inp ! 25),
        push_bit 14 (inp ! 26), push_bit 17 (inp ! 27), push_bit 20 (inp ! 28), push_bit 23 (inp ! 29),
        push_bit 26 (inp ! 30), push_bit 29 (inp ! 31)]]"

definition sc_fastpackwithoutmask4 :: "u32 list \<Rightarrow> u32 list" where
  "sc_fastpackwithoutmask4 inp =
    [accum (inp ! 0)
       [push_bit 4 (inp ! 1), push_bit 8 (inp ! 2), push_bit 12 (inp ! 3), push_bit 16 (inp ! 4),
        push_bit 20 (inp ! 5), push_bit 24 (inp ! 6), push_bit 28 (inp ! 7)],
     accum (inp ! 8)
       [push_bit 4 (inp ! 9), push_bit 8 (inp ! 10), push_bit 12 (inp ! 11), push_bit 16 (inp ! 12),
        push_bit 20 (inp ! 13), push_bit 24 (inp ! 14), push_bit 28 (inp ! 15)],
     accum (inp ! 16)
       [push_bit 4 (inp ! 17), push_bit 8 (inp ! 18), push_bit 12 (inp ! 19), push_bit 16 (inp ! 20),
        push_bit 20 (inp ! 21), push_bit 24 (inp ! 22), push_bit 28 (inp ! 23)],
     accum (inp ! 24)
       [push_bit 4 (inp ! 25), push_bit 8 (inp ! 26), push_bit 12 (inp ! 27), push_bit 16 (inp ! 28),
        push_bit 20 (inp ! 29), push_bit 24 (inp ! 30), push_bit 28 (inp ! 31)]]"

definition sc_fastpackwithoutmask5 :: "u32 list \<Rightarrow> u32 list" where
  "sc_fastpackwithoutmask5 inp =
    [accum (inp ! 0)
       [push_bit 5 (inp ! 1), push_bit 10 (inp ! 2), push_bit 15 (inp ! 3), push_bit 20 (inp ! 4),
        push_bit 25 (inp ! 5), push_bit 30 (inp ! 6)],
     accum (drop_bit (5 - 3) (inp ! 6))
       [push_bit 3 (inp ! 7), push_bit 8 (inp ! 8), push_bit 13 (inp ! 9), push_bit 18 (inp ! 10),
        push_bit 23 (inp ! 11), push_bit 28 (inp ! 12)],
     accum (drop_bit (5 - 1) (inp ! 12))
       [push_bit 1 (inp ! 13), push_bit 6 (inp ! 14), push_bit 11 (inp ! 15), push_bit 16 (inp ! 16),
        push_bit 21 (inp ! 17), push_bit 26 (inp ! 18), push_bit 31 (inp ! 19)],
     accum (drop_bit (5 - 4) (inp ! 19))
       [push_bit 4 (inp ! 20), push_bit 9 (inp ! 21), push_bit 14 (inp ! 22), push_bit 19 (inp ! 23),
        push_bit 24 (inp ! 24), push_bit 29 (inp ! 25)],
     accum (drop_bit (5 - 2) (inp ! 25))
       [push_bit 2 (inp ! 26), push_bit 7 (inp ! 27), push_bit 12 (inp ! 28), push_bit 17 (inp ! 29),
        push_bit 22 (inp ! 30), push_bit 27 (inp ! 31)]]"

definition sc_fastpackwithoutmask6 :: "u32 list \<Rightarrow> u32 list" where
  "sc_fastpackwithoutmask6 inp =
    [accum (inp ! 0)
       [push_bit 6 (inp ! 1), push_bit 12 (inp ! 2), push_bit 18 (inp ! 3), push_bit 24 (inp ! 4), push_bit 30 (inp ! 5)],
     accum (drop_bit (6 - 4) (inp ! 5))
       [push_bit 4 (inp ! 6), push_bit 10 (inp ! 7), push_bit 16 (inp ! 8), push_bit 22 (inp ! 9),
        push_bit 28 (inp ! 10)],
     accum (drop_bit (6 - 2) (inp ! 10))
       [push_bit 2 (inp ! 11), push_bit 8 (inp ! 12), push_bit 14 (inp ! 13), push_bit 20 (inp ! 14),
        push_bit 26 (inp ! 15)],
     accum (inp ! 16)
       [push_bit 6 (inp ! 17), push_bit 12 (inp ! 18), push_bit 18 (inp ! 19), push_bit 24 (inp ! 20),
        push_bit 30 (inp ! 21)],
     accum (drop_bit (6 - 4) (inp ! 21))
       [push_bit 4 (inp ! 22), push_bit 10 (inp ! 23), push_bit 16 (inp ! 24), push_bit 22 (inp ! 25),
        push_bit 28 (inp ! 26)],
     accum (drop_bit (6 - 2) (inp ! 26))
       [push_bit 2 (inp ! 27), push_bit 8 (inp ! 28), push_bit 14 (inp ! 29), push_bit 20 (inp ! 30),
        push_bit 26 (inp ! 31)]]"

definition sc_fastpackwithoutmask7 :: "u32 list \<Rightarrow> u32 list" where
  "sc_fastpackwithoutmask7 inp =
    [accum (inp ! 0)
       [push_bit 7 (inp ! 1), push_bit 14 (inp ! 2), push_bit 21 (inp ! 3), push_bit 28 (inp ! 4)],
     accum (drop_bit (7 - 3) (inp ! 4))
       [push_bit 3 (inp ! 5), push_bit 10 (inp ! 6), push_bit 17 (inp ! 7), push_bit 24 (inp ! 8), push_bit 31 (inp ! 9)],
     accum (drop_bit (7 - 6) (inp ! 9))
       [push_bit 6 (inp ! 10), push_bit 13 (inp ! 11), push_bit 20 (inp ! 12), push_bit 27 (inp ! 13)],
     accum (drop_bit (7 - 2) (inp ! 13))
       [push_bit 2 (inp ! 14), push_bit 9 (inp ! 15), push_bit 16 (inp ! 16), push_bit 23 (inp ! 17),
        push_bit 30 (inp ! 18)],
     accum (drop_bit (7 - 5) (inp ! 18))
       [push_bit 5 (inp ! 19), push_bit 12 (inp ! 20), push_bit 19 (inp ! 21), push_bit 26 (inp ! 22)],
     accum (drop_bit (7 - 1) (inp ! 22))
       [push_bit 1 (inp ! 23), push_bit 8 (inp ! 24), push_bit 15 (inp ! 25), push_bit 22 (inp ! 26),
        push_bit 29 (inp ! 27)],
     accum (drop_bit (7 - 4) (inp ! 27))
       [push_bit 4 (inp ! 28), push_bit 11 (inp ! 29), push_bit 18 (inp ! 30), push_bit 25 (inp ! 31)]]"

definition sc_fastpackwithoutmask8 :: "u32 list \<Rightarrow> u32 list" where
  "sc_fastpackwithoutmask8 inp =
    [accum (inp ! 0)
       [push_bit 8 (inp ! 1), push_bit 16 (inp ! 2), push_bit 24 (inp ! 3)],
     accum (inp ! 4)
       [push_bit 8 (inp ! 5), push_bit 16 (inp ! 6), push_bit 24 (inp ! 7)],
     accum (inp ! 8)
       [push_bit 8 (inp ! 9), push_bit 16 (inp ! 10), push_bit 24 (inp ! 11)],
     accum (inp ! 12)
       [push_bit 8 (inp ! 13), push_bit 16 (inp ! 14), push_bit 24 (inp ! 15)],
     accum (inp ! 16)
       [push_bit 8 (inp ! 17), push_bit 16 (inp ! 18), push_bit 24 (inp ! 19)],
     accum (inp ! 20)
       [push_bit 8 (inp ! 21), push_bit 16 (inp ! 22), push_bit 24 (inp ! 23)],
     accum (inp ! 24)
       [push_bit 8 (inp ! 25), push_bit 16 (inp ! 26), push_bit 24 (inp ! 27)],
     accum (inp ! 28)
       [push_bit 8 (inp ! 29), push_bit 16 (inp ! 30), push_bit 24 (inp ! 31)]]"

definition sc_fastpackwithoutmask9 :: "u32 list \<Rightarrow> u32 list" where
  "sc_fastpackwithoutmask9 inp =
    [accum (inp ! 0)
       [push_bit 9 (inp ! 1), push_bit 18 (inp ! 2), push_bit 27 (inp ! 3)],
     accum (drop_bit (9 - 4) (inp ! 3))
       [push_bit 4 (inp ! 4), push_bit 13 (inp ! 5), push_bit 22 (inp ! 6), push_bit 31 (inp ! 7)],
     accum (drop_bit (9 - 8) (inp ! 7))
       [push_bit 8 (inp ! 8), push_bit 17 (inp ! 9), push_bit 26 (inp ! 10)],
     accum (drop_bit (9 - 3) (inp ! 10))
       [push_bit 3 (inp ! 11), push_bit 12 (inp ! 12), push_bit 21 (inp ! 13), push_bit 30 (inp ! 14)],
     accum (drop_bit (9 - 7) (inp ! 14))
       [push_bit 7 (inp ! 15), push_bit 16 (inp ! 16), push_bit 25 (inp ! 17)],
     accum (drop_bit (9 - 2) (inp ! 17))
       [push_bit 2 (inp ! 18), push_bit 11 (inp ! 19), push_bit 20 (inp ! 20), push_bit 29 (inp ! 21)],
     accum (drop_bit (9 - 6) (inp ! 21))
       [push_bit 6 (inp ! 22), push_bit 15 (inp ! 23), push_bit 24 (inp ! 24)],
     accum (drop_bit (9 - 1) (inp ! 24))
       [push_bit 1 (inp ! 25), push_bit 10 (inp ! 26), push_bit 19 (inp ! 27), push_bit 28 (inp ! 28)],
     accum (drop_bit (9 - 5) (inp ! 28))
       [push_bit 5 (inp ! 29), push_bit 14 (inp ! 30), push_bit 23 (inp ! 31)]]"

definition sc_fastpackwithoutmask10 :: "u32 list \<Rightarrow> u32 list" where
  "sc_fastpackwithoutmask10 inp =
    [accum (inp ! 0)
       [push_bit 10 (inp ! 1), push_bit 20 (inp ! 2), push_bit 30 (inp ! 3)],
     accum (drop_bit (10 - 8) (inp ! 3))
       [push_bit 8 (inp ! 4), push_bit 18 (inp ! 5), push_bit 28 (inp ! 6)],
     accum (drop_bit (10 - 6) (inp ! 6))
       [push_bit 6 (inp ! 7), push_bit 16 (inp ! 8), push_bit 26 (inp ! 9)],
     accum (drop_bit (10 - 4) (inp ! 9))
       [push_bit 4 (inp ! 10), push_bit 14 (inp ! 11), push_bit 24 (inp ! 12)],
     accum (drop_bit (10 - 2) (inp ! 12))
       [push_bit 2 (inp ! 13), push_bit 12 (inp ! 14), push_bit 22 (inp ! 15)],
     accum (inp ! 16)
       [push_bit 10 (inp ! 17), push_bit 20 (inp ! 18), push_bit 30 (inp ! 19)],
     accum (drop_bit (10 - 8) (inp ! 19))
       [push_bit 8 (inp ! 20), push_bit 18 (inp ! 21), push_bit 28 (inp ! 22)],
     accum (drop_bit (10 - 6) (inp ! 22))
       [push_bit 6 (inp ! 23), push_bit 16 (inp ! 24), push_bit 26 (inp ! 25)],
     accum (drop_bit (10 - 4) (inp ! 25))
       [push_bit 4 (inp ! 26), push_bit 14 (inp ! 27), push_bit 24 (inp ! 28)],
     accum (drop_bit (10 - 2) (inp ! 28))
       [push_bit 2 (inp ! 29), push_bit 12 (inp ! 30), push_bit 22 (inp ! 31)]]"

definition sc_fastpackwithoutmask11 :: "u32 list \<Rightarrow> u32 list" where
  "sc_fastpackwithoutmask11 inp =
    [accum (inp ! 0)
       [push_bit 11 (inp ! 1), push_bit 22 (inp ! 2)],
     accum (drop_bit (11 - 1) (inp ! 2))
       [push_bit 1 (inp ! 3), push_bit 12 (inp ! 4), push_bit 23 (inp ! 5)],
     accum (drop_bit (11 - 2) (inp ! 5))
       [push_bit 2 (inp ! 6), push_bit 13 (inp ! 7), push_bit 24 (inp ! 8)],
     accum (drop_bit (11 - 3) (inp ! 8))
       [push_bit 3 (inp ! 9), push_bit 14 (inp ! 10), push_bit 25 (inp ! 11)],
     accum (drop_bit (11 - 4) (inp ! 11))
       [push_bit 4 (inp ! 12), push_bit 15 (inp ! 13), push_bit 26 (inp ! 14)],
     accum (drop_bit (11 - 5) (inp ! 14))
       [push_bit 5 (inp ! 15), push_bit 16 (inp ! 16), push_bit 27 (inp ! 17)],
     accum (drop_bit (11 - 6) (inp ! 17))
       [push_bit 6 (inp ! 18), push_bit 17 (inp ! 19), push_bit 28 (inp ! 20)],
     accum (drop_bit (11 - 7) (inp ! 20))
       [push_bit 7 (inp ! 21), push_bit 18 (inp ! 22), push_bit 29 (inp ! 23)],
     accum (drop_bit (11 - 8) (inp ! 23))
       [push_bit 8 (inp ! 24), push_bit 19 (inp ! 25), push_bit 30 (inp ! 26)],
     accum (drop_bit (11 - 9) (inp ! 26))
       [push_bit 9 (inp ! 27), push_bit 20 (inp ! 28), push_bit 31 (inp ! 29)],
     accum (drop_bit (11 - 10) (inp ! 29))
       [push_bit 10 (inp ! 30), push_bit 21 (inp ! 31)]]"

definition sc_fastpackwithoutmask12 :: "u32 list \<Rightarrow> u32 list" where
  "sc_fastpackwithoutmask12 inp =
    [accum (inp ! 0)
       [push_bit 12 (inp ! 1), push_bit 24 (inp ! 2)],
     accum (drop_bit (12 - 4) (inp ! 2))
       [push_bit 4 (inp ! 3), push_bit 16 (inp ! 4), push_bit 28 (inp ! 5)],
     accum (drop_bit (12 - 8) (inp ! 5))
       [push_bit 8 (inp ! 6), push_bit 20 (inp ! 7)],
     accum (inp ! 8)
       [push_bit 12 (inp ! 9), push_bit 24 (inp ! 10)],
     accum (drop_bit (12 - 4) (inp ! 10))
       [push_bit 4 (inp ! 11), push_bit 16 (inp ! 12), push_bit 28 (inp ! 13)],
     accum (drop_bit (12 - 8) (inp ! 13))
       [push_bit 8 (inp ! 14), push_bit 20 (inp ! 15)],
     accum (inp ! 16)
       [push_bit 12 (inp ! 17), push_bit 24 (inp ! 18)],
     accum (drop_bit (12 - 4) (inp ! 18))
       [push_bit 4 (inp ! 19), push_bit 16 (inp ! 20), push_bit 28 (inp ! 21)],
     accum (drop_bit (12 - 8) (inp ! 21))
       [push_bit 8 (inp ! 22), push_bit 20 (inp ! 23)],
     accum (inp ! 24)
       [push_bit 12 (inp ! 25), push_bit 24 (inp ! 26)],
     accum (drop_bit (12 - 4) (inp ! 26))
       [push_bit 4 (inp ! 27), push_bit 16 (inp ! 28), push_bit 28 (inp ! 29)],
     accum (drop_bit (12 - 8) (inp ! 29))
       [push_bit 8 (inp ! 30), push_bit 20 (inp ! 31)]]"

definition sc_fastpackwithoutmask13 :: "u32 list \<Rightarrow> u32 list" where
  "sc_fastpackwithoutmask13 inp =
    [accum (inp ! 0)
       [push_bit 13 (inp ! 1), push_bit 26 (inp ! 2)],
     accum (drop_bit (13 - 7) (inp ! 2))
       [push_bit 7 (inp ! 3), push_bit 20 (inp ! 4)],
     accum (drop_bit (13 - 1) (inp ! 4))
       [push_bit 1 (inp ! 5), push_bit 14 (inp ! 6), push_bit 27 (inp ! 7)],
     accum (drop_bit (13 - 8) (inp ! 7))
       [push_bit 8 (inp ! 8), push_bit 21 (inp ! 9)],
     accum (drop_bit (13 - 2) (inp ! 9))
       [push_bit 2 (inp ! 10), push_bit 15 (inp ! 11), push_bit 28 (inp ! 12)],
     accum (drop_bit (13 - 9) (inp ! 12))
       [push_bit 9 (inp ! 13), push_bit 22 (inp ! 14)],
     accum (drop_bit (13 - 3) (inp ! 14))
       [push_bit 3 (inp ! 15), push_bit 16 (inp ! 16), push_bit 29 (inp ! 17)],
     accum (drop_bit (13 - 10) (inp ! 17))
       [push_bit 10 (inp ! 18), push_bit 23 (inp ! 19)],
     accum (drop_bit (13 - 4) (inp ! 19))
       [push_bit 4 (inp ! 20), push_bit 17 (inp ! 21), push_bit 30 (inp ! 22)],
     accum (drop_bit (13 - 11) (inp ! 22))
       [push_bit 11 (inp ! 23), push_bit 24 (inp ! 24)],
     accum (drop_bit (13 - 5) (inp ! 24))
       [push_bit 5 (inp ! 25), push_bit 18 (inp ! 26), push_bit 31 (inp ! 27)],
     accum (drop_bit (13 - 12) (inp ! 27))
       [push_bit 12 (inp ! 28), push_bit 25 (inp ! 29)],
     accum (drop_bit (13 - 6) (inp ! 29))
       [push_bit 6 (inp ! 30), push_bit 19 (inp ! 31)]]"

definition sc_fastpackwithoutmask14 :: "u32 list \<Rightarrow> u32 list" where
  "sc_fastpackwithoutmask14 inp =
    [accum (inp ! 0)
       [push_bit 14 (inp ! 1), push_bit 28 (inp ! 2)],
     accum (drop_bit (14 - 10) (inp ! 2))
       [push_bit 10 (inp ! 3), push_bit 24 (inp ! 4)],
     accum (drop_bit (14 - 6) (inp ! 4))
       [push_bit 6 (inp ! 5), push_bit 20 (inp ! 6)],
     accum (drop_bit (14 - 2) (inp ! 6))
       [push_bit 2 (inp ! 7), push_bit 16 (inp ! 8), push_bit 30 (inp ! 9)],
     accum (drop_bit (14 - 12) (inp ! 9))
       [push_bit 12 (inp ! 10), push_bit 26 (inp ! 11)],
     accum (drop_bit (14 - 8) (inp ! 11))
       [push_bit 8 (inp ! 12), push_bit 22 (inp ! 13)],
     accum (drop_bit (14 - 4) (inp ! 13))
       [push_bit 4 (inp ! 14), push_bit 18 (inp ! 15)],
     accum (inp ! 16)
       [push_bit 14 (inp ! 17), push_bit 28 (inp ! 18)],
     accum (drop_bit (14 - 10) (inp ! 18))
       [push_bit 10 (inp ! 19), push_bit 24 (inp ! 20)],
     accum (drop_bit (14 - 6) (inp ! 20))
       [push_bit 6 (inp ! 21), push_bit 20 (inp ! 22)],
     accum (drop_bit (14 - 2) (inp ! 22))
       [push_bit 2 (inp ! 23), push_bit 16 (inp ! 24), push_bit 30 (inp ! 25)],
     accum (drop_bit (14 - 12) (inp ! 25))
       [push_bit 12 (inp ! 26), push_bit 26 (inp ! 27)],
     accum (drop_bit (14 - 8) (inp ! 27))
       [push_bit 8 (inp ! 28), push_bit 22 (inp ! 29)],
     accum (drop_bit (14 - 4) (inp ! 29))
       [push_bit 4 (inp ! 30), push_bit 18 (inp ! 31)]]"

definition sc_fastpackwithoutmask15 :: "u32 list \<Rightarrow> u32 list" where
  "sc_fastpackwithoutmask15 inp =
    [accum (inp ! 0)
       [push_bit 15 (inp ! 1), push_bit 30 (inp ! 2)],
     accum (drop_bit (15 - 13) (inp ! 2))
       [push_bit 13 (inp ! 3), push_bit 28 (inp ! 4)],
     accum (drop_bit (15 - 11) (inp ! 4))
       [push_bit 11 (inp ! 5), push_bit 26 (inp ! 6)],
     accum (drop_bit (15 - 9) (inp ! 6))
       [push_bit 9 (inp ! 7), push_bit 24 (inp ! 8)],
     accum (drop_bit (15 - 7) (inp ! 8))
       [push_bit 7 (inp ! 9), push_bit 22 (inp ! 10)],
     accum (drop_bit (15 - 5) (inp ! 10))
       [push_bit 5 (inp ! 11), push_bit 20 (inp ! 12)],
     accum (drop_bit (15 - 3) (inp ! 12))
       [push_bit 3 (inp ! 13), push_bit 18 (inp ! 14)],
     accum (drop_bit (15 - 1) (inp ! 14))
       [push_bit 1 (inp ! 15), push_bit 16 (inp ! 16), push_bit 31 (inp ! 17)],
     accum (drop_bit (15 - 14) (inp ! 17))
       [push_bit 14 (inp ! 18), push_bit 29 (inp ! 19)],
     accum (drop_bit (15 - 12) (inp ! 19))
       [push_bit 12 (inp ! 20), push_bit 27 (inp ! 21)],
     accum (drop_bit (15 - 10) (inp ! 21))
       [push_bit 10 (inp ! 22), push_bit 25 (inp ! 23)],
     accum (drop_bit (15 - 8) (inp ! 23))
       [push_bit 8 (inp ! 24), push_bit 23 (inp ! 25)],
     accum (drop_bit (15 - 6) (inp ! 25))
       [push_bit 6 (inp ! 26), push_bit 21 (inp ! 27)],
     accum (drop_bit (15 - 4) (inp ! 27))
       [push_bit 4 (inp ! 28), push_bit 19 (inp ! 29)],
     accum (drop_bit (15 - 2) (inp ! 29))
       [push_bit 2 (inp ! 30), push_bit 17 (inp ! 31)]]"

definition sc_fastpackwithoutmask16 :: "u32 list \<Rightarrow> u32 list" where
  "sc_fastpackwithoutmask16 inp =
    [accum (inp ! 0)
       [push_bit 16 (inp ! 1)],
     accum (inp ! 2)
       [push_bit 16 (inp ! 3)],
     accum (inp ! 4)
       [push_bit 16 (inp ! 5)],
     accum (inp ! 6)
       [push_bit 16 (inp ! 7)],
     accum (inp ! 8)
       [push_bit 16 (inp ! 9)],
     accum (inp ! 10)
       [push_bit 16 (inp ! 11)],
     accum (inp ! 12)
       [push_bit 16 (inp ! 13)],
     accum (inp ! 14)
       [push_bit 16 (inp ! 15)],
     accum (inp ! 16)
       [push_bit 16 (inp ! 17)],
     accum (inp ! 18)
       [push_bit 16 (inp ! 19)],
     accum (inp ! 20)
       [push_bit 16 (inp ! 21)],
     accum (inp ! 22)
       [push_bit 16 (inp ! 23)],
     accum (inp ! 24)
       [push_bit 16 (inp ! 25)],
     accum (inp ! 26)
       [push_bit 16 (inp ! 27)],
     accum (inp ! 28)
       [push_bit 16 (inp ! 29)],
     accum (inp ! 30)
       [push_bit 16 (inp ! 31)]]"

definition sc_fastpackwithoutmask17 :: "u32 list \<Rightarrow> u32 list" where
  "sc_fastpackwithoutmask17 inp =
    [accum (inp ! 0)
       [push_bit 17 (inp ! 1)],
     accum (drop_bit (17 - 2) (inp ! 1))
       [push_bit 2 (inp ! 2), push_bit 19 (inp ! 3)],
     accum (drop_bit (17 - 4) (inp ! 3))
       [push_bit 4 (inp ! 4), push_bit 21 (inp ! 5)],
     accum (drop_bit (17 - 6) (inp ! 5))
       [push_bit 6 (inp ! 6), push_bit 23 (inp ! 7)],
     accum (drop_bit (17 - 8) (inp ! 7))
       [push_bit 8 (inp ! 8), push_bit 25 (inp ! 9)],
     accum (drop_bit (17 - 10) (inp ! 9))
       [push_bit 10 (inp ! 10), push_bit 27 (inp ! 11)],
     accum (drop_bit (17 - 12) (inp ! 11))
       [push_bit 12 (inp ! 12), push_bit 29 (inp ! 13)],
     accum (drop_bit (17 - 14) (inp ! 13))
       [push_bit 14 (inp ! 14), push_bit 31 (inp ! 15)],
     accum (drop_bit (17 - 16) (inp ! 15))
       [push_bit 16 (inp ! 16)],
     accum (drop_bit (17 - 1) (inp ! 16))
       [push_bit 1 (inp ! 17), push_bit 18 (inp ! 18)],
     accum (drop_bit (17 - 3) (inp ! 18))
       [push_bit 3 (inp ! 19), push_bit 20 (inp ! 20)],
     accum (drop_bit (17 - 5) (inp ! 20))
       [push_bit 5 (inp ! 21), push_bit 22 (inp ! 22)],
     accum (drop_bit (17 - 7) (inp ! 22))
       [push_bit 7 (inp ! 23), push_bit 24 (inp ! 24)],
     accum (drop_bit (17 - 9) (inp ! 24))
       [push_bit 9 (inp ! 25), push_bit 26 (inp ! 26)],
     accum (drop_bit (17 - 11) (inp ! 26))
       [push_bit 11 (inp ! 27), push_bit 28 (inp ! 28)],
     accum (drop_bit (17 - 13) (inp ! 28))
       [push_bit 13 (inp ! 29), push_bit 30 (inp ! 30)],
     accum (drop_bit (17 - 15) (inp ! 30))
       [push_bit 15 (inp ! 31)]]"

definition sc_fastpackwithoutmask18 :: "u32 list \<Rightarrow> u32 list" where
  "sc_fastpackwithoutmask18 inp =
    [accum (inp ! 0)
       [push_bit 18 (inp ! 1)],
     accum (drop_bit (18 - 4) (inp ! 1))
       [push_bit 4 (inp ! 2), push_bit 22 (inp ! 3)],
     accum (drop_bit (18 - 8) (inp ! 3))
       [push_bit 8 (inp ! 4), push_bit 26 (inp ! 5)],
     accum (drop_bit (18 - 12) (inp ! 5))
       [push_bit 12 (inp ! 6), push_bit 30 (inp ! 7)],
     accum (drop_bit (18 - 16) (inp ! 7))
       [push_bit 16 (inp ! 8)],
     accum (drop_bit (18 - 2) (inp ! 8))
       [push_bit 2 (inp ! 9), push_bit 20 (inp ! 10)],
     accum (drop_bit (18 - 6) (inp ! 10))
       [push_bit 6 (inp ! 11), push_bit 24 (inp ! 12)],
     accum (drop_bit (18 - 10) (inp ! 12))
       [push_bit 10 (inp ! 13), push_bit 28 (inp ! 14)],
     accum (drop_bit (18 - 14) (inp ! 14))
       [push_bit 14 (inp ! 15)],
     accum (inp ! 16)
       [push_bit 18 (inp ! 17)],
     accum (drop_bit (18 - 4) (inp ! 17))
       [push_bit 4 (inp ! 18), push_bit 22 (inp ! 19)],
     accum (drop_bit (18 - 8) (inp ! 19))
       [push_bit 8 (inp ! 20), push_bit 26 (inp ! 21)],
     accum (drop_bit (18 - 12) (inp ! 21))
       [push_bit 12 (inp ! 22), push_bit 30 (inp ! 23)],
     accum (drop_bit (18 - 16) (inp ! 23))
       [push_bit 16 (inp ! 24)],
     accum (drop_bit (18 - 2) (inp ! 24))
       [push_bit 2 (inp ! 25), push_bit 20 (inp ! 26)],
     accum (drop_bit (18 - 6) (inp ! 26))
       [push_bit 6 (inp ! 27), push_bit 24 (inp ! 28)],
     accum (drop_bit (18 - 10) (inp ! 28))
       [push_bit 10 (inp ! 29), push_bit 28 (inp ! 30)],
     accum (drop_bit (18 - 14) (inp ! 30))
       [push_bit 14 (inp ! 31)]]"

definition sc_fastpackwithoutmask19 :: "u32 list \<Rightarrow> u32 list" where
  "sc_fastpackwithoutmask19 inp =
    [accum (inp ! 0)
       [push_bit 19 (inp ! 1)],
     accum (drop_bit (19 - 6) (inp ! 1))
       [push_bit 6 (inp ! 2), push_bit 25 (inp ! 3)],
     accum (drop_bit (19 - 12) (inp ! 3))
       [push_bit 12 (inp ! 4), push_bit 31 (inp ! 5)],
     accum (drop_bit (19 - 18) (inp ! 5))
       [push_bit 18 (inp ! 6)],
     accum (drop_bit (19 - 5) (inp ! 6))
       [push_bit 5 (inp ! 7), push_bit 24 (inp ! 8)],
     accum (drop_bit (19 - 11) (inp ! 8))
       [push_bit 11 (inp ! 9), push_bit 30 (inp ! 10)],
     accum (drop_bit (19 - 17) (inp ! 10))
       [push_bit 17 (inp ! 11)],
     accum (drop_bit (19 - 4) (inp ! 11))
       [push_bit 4 (inp ! 12), push_bit 23 (inp ! 13)],
     accum (drop_bit (19 - 10) (inp ! 13))
       [push_bit 10 (inp ! 14), push_bit 29 (inp ! 15)],
     accum (drop_bit (19 - 16) (inp ! 15))
       [push_bit 16 (inp ! 16)],
     accum (drop_bit (19 - 3) (inp ! 16))
       [push_bit 3 (inp ! 17), push_bit 22 (inp ! 18)],
     accum (drop_bit (19 - 9) (inp ! 18))
       [push_bit 9 (inp ! 19), push_bit 28 (inp ! 20)],
     accum (drop_bit (19 - 15) (inp ! 20))
       [push_bit 15 (inp ! 21)],
     accum (drop_bit (19 - 2) (inp ! 21))
       [push_bit 2 (inp ! 22), push_bit 21 (inp ! 23)],
     accum (drop_bit (19 - 8) (inp ! 23))
       [push_bit 8 (inp ! 24), push_bit 27 (inp ! 25)],
     accum (drop_bit (19 - 14) (inp ! 25))
       [push_bit 14 (inp ! 26)],
     accum (drop_bit (19 - 1) (inp ! 26))
       [push_bit 1 (inp ! 27), push_bit 20 (inp ! 28)],
     accum (drop_bit (19 - 7) (inp ! 28))
       [push_bit 7 (inp ! 29), push_bit 26 (inp ! 30)],
     accum (drop_bit (19 - 13) (inp ! 30))
       [push_bit 13 (inp ! 31)]]"

definition sc_fastpackwithoutmask20 :: "u32 list \<Rightarrow> u32 list" where
  "sc_fastpackwithoutmask20 inp =
    [accum (inp ! 0)
       [push_bit 20 (inp ! 1)],
     accum (drop_bit (20 - 8) (inp ! 1))
       [push_bit 8 (inp ! 2), push_bit 28 (inp ! 3)],
     accum (drop_bit (20 - 16) (inp ! 3))
       [push_bit 16 (inp ! 4)],
     accum (drop_bit (20 - 4) (inp ! 4))
       [push_bit 4 (inp ! 5), push_bit 24 (inp ! 6)],
     accum (drop_bit (20 - 12) (inp ! 6))
       [push_bit 12 (inp ! 7)],
     accum (inp ! 8)
       [push_bit 20 (inp ! 9)],
     accum (drop_bit (20 - 8) (inp ! 9))
       [push_bit 8 (inp ! 10), push_bit 28 (inp ! 11)],
     accum (drop_bit (20 - 16) (inp ! 11))
       [push_bit 16 (inp ! 12)],
     accum (drop_bit (20 - 4) (inp ! 12))
       [push_bit 4 (inp ! 13), push_bit 24 (inp ! 14)],
     accum (drop_bit (20 - 12) (inp ! 14))
       [push_bit 12 (inp ! 15)],
     accum (inp ! 16)
       [push_bit 20 (inp ! 17)],
     accum (drop_bit (20 - 8) (inp ! 17))
       [push_bit 8 (inp ! 18), push_bit 28 (inp ! 19)],
     accum (drop_bit (20 - 16) (inp ! 19))
       [push_bit 16 (inp ! 20)],
     accum (drop_bit (20 - 4) (inp ! 20))
       [push_bit 4 (inp ! 21), push_bit 24 (inp ! 22)],
     accum (drop_bit (20 - 12) (inp ! 22))
       [push_bit 12 (inp ! 23)],
     accum (inp ! 24)
       [push_bit 20 (inp ! 25)],
     accum (drop_bit (20 - 8) (inp ! 25))
       [push_bit 8 (inp ! 26), push_bit 28 (inp ! 27)],
     accum (drop_bit (20 - 16) (inp ! 27))
       [push_bit 16 (inp ! 28)],
     accum (drop_bit (20 - 4) (inp ! 28))
       [push_bit 4 (inp ! 29), push_bit 24 (inp ! 30)],
     accum (drop_bit (20 - 12) (inp ! 30))
       [push_bit 12 (inp ! 31)]]"

definition sc_fastpackwithoutmask21 :: "u32 list \<Rightarrow> u32 list" where
  "sc_fastpackwithoutmask21 inp =
    [accum (inp ! 0)
       [push_bit 21 (inp ! 1)],
     accum (drop_bit (21 - 10) (inp ! 1))
       [push_bit 10 (inp ! 2), push_bit 31 (inp ! 3)],
     accum (drop_bit (21 - 20) (inp ! 3))
       [push_bit 20 (inp ! 4)],
     accum (drop_bit (21 - 9) (inp ! 4))
       [push_bit 9 (inp ! 5), push_bit 30 (inp ! 6)],
     accum (drop_bit (21 - 19) (inp ! 6))
       [push_bit 19 (inp ! 7)],
     accum (drop_bit (21 - 8) (inp ! 7))
       [push_bit 8 (inp ! 8), push_bit 29 (inp ! 9)],
     accum (drop_bit (21 - 18) (inp ! 9))
       [push_bit 18 (inp ! 10)],
     accum (drop_bit (21 - 7) (inp ! 10))
       [push_bit 7 (inp ! 11), push_bit 28 (inp ! 12)],
     accum (drop_bit (21 - 17) (inp ! 12))
       [push_bit 17 (inp ! 13)],
     accum (drop_bit (21 - 6) (inp ! 13))
       [push_bit 6 (inp ! 14), push_bit 27 (inp ! 15)],
     accum (drop_bit (21 - 16) (inp ! 15))
       [push_bit 16 (inp ! 16)],
     accum (drop_bit (21 - 5) (inp ! 16))
       [push_bit 5 (inp ! 17), push_bit 26 (inp ! 18)],
     accum (drop_bit (21 - 15) (inp ! 18))
       [push_bit 15 (inp ! 19)],
     accum (drop_bit (21 - 4) (inp ! 19))
       [push_bit 4 (inp ! 20), push_bit 25 (inp ! 21)],
     accum (drop_bit (21 - 14) (inp ! 21))
       [push_bit 14 (inp ! 22)],
     accum (drop_bit (21 - 3) (inp ! 22))
       [push_bit 3 (inp ! 23), push_bit 24 (inp ! 24)],
     accum (drop_bit (21 - 13) (inp ! 24))
       [push_bit 13 (inp ! 25)],
     accum (drop_bit (21 - 2) (inp ! 25))
       [push_bit 2 (inp ! 26), push_bit 23 (inp ! 27)],
     accum (drop_bit (21 - 12) (inp ! 27))
       [push_bit 12 (inp ! 28)],
     accum (drop_bit (21 - 1) (inp ! 28))
       [push_bit 1 (inp ! 29), push_bit 22 (inp ! 30)],
     accum (drop_bit (21 - 11) (inp ! 30))
       [push_bit 11 (inp ! 31)]]"

definition sc_fastpackwithoutmask22 :: "u32 list \<Rightarrow> u32 list" where
  "sc_fastpackwithoutmask22 inp =
    [accum (inp ! 0)
       [push_bit 22 (inp ! 1)],
     accum (drop_bit (22 - 12) (inp ! 1))
       [push_bit 12 (inp ! 2)],
     accum (drop_bit (22 - 2) (inp ! 2))
       [push_bit 2 (inp ! 3), push_bit 24 (inp ! 4)],
     accum (drop_bit (22 - 14) (inp ! 4))
       [push_bit 14 (inp ! 5)],
     accum (drop_bit (22 - 4) (inp ! 5))
       [push_bit 4 (inp ! 6), push_bit 26 (inp ! 7)],
     accum (drop_bit (22 - 16) (inp ! 7))
       [push_bit 16 (inp ! 8)],
     accum (drop_bit (22 - 6) (inp ! 8))
       [push_bit 6 (inp ! 9), push_bit 28 (inp ! 10)],
     accum (drop_bit (22 - 18) (inp ! 10))
       [push_bit 18 (inp ! 11)],
     accum (drop_bit (22 - 8) (inp ! 11))
       [push_bit 8 (inp ! 12), push_bit 30 (inp ! 13)],
     accum (drop_bit (22 - 20) (inp ! 13))
       [push_bit 20 (inp ! 14)],
     accum (drop_bit (22 - 10) (inp ! 14))
       [push_bit 10 (inp ! 15)],
     accum (inp ! 16)
       [push_bit 22 (inp ! 17)],
     accum (drop_bit (22 - 12) (inp ! 17))
       [push_bit 12 (inp ! 18)],
     accum (drop_bit (22 - 2) (inp ! 18))
       [push_bit 2 (inp ! 19), push_bit 24 (inp ! 20)],
     accum (drop_bit (22 - 14) (inp ! 20))
       [push_bit 14 (inp ! 21)],
     accum (drop_bit (22 - 4) (inp ! 21))
       [push_bit 4 (inp ! 22), push_bit 26 (inp ! 23)],
     accum (drop_bit (22 - 16) (inp ! 23))
       [push_bit 16 (inp ! 24)],
     accum (drop_bit (22 - 6) (inp ! 24))
       [push_bit 6 (inp ! 25), push_bit 28 (inp ! 26)],
     accum (drop_bit (22 - 18) (inp ! 26))
       [push_bit 18 (inp ! 27)],
     accum (drop_bit (22 - 8) (inp ! 27))
       [push_bit 8 (inp ! 28), push_bit 30 (inp ! 29)],
     accum (drop_bit (22 - 20) (inp ! 29))
       [push_bit 20 (inp ! 30)],
     accum (drop_bit (22 - 10) (inp ! 30))
       [push_bit 10 (inp ! 31)]]"

definition sc_fastpackwithoutmask23 :: "u32 list \<Rightarrow> u32 list" where
  "sc_fastpackwithoutmask23 inp =
    [accum (inp ! 0)
       [push_bit 23 (inp ! 1)],
     accum (drop_bit (23 - 14) (inp ! 1))
       [push_bit 14 (inp ! 2)],
     accum (drop_bit (23 - 5) (inp ! 2))
       [push_bit 5 (inp ! 3), push_bit 28 (inp ! 4)],
     accum (drop_bit (23 - 19) (inp ! 4))
       [push_bit 19 (inp ! 5)],
     accum (drop_bit (23 - 10) (inp ! 5))
       [push_bit 10 (inp ! 6)],
     accum (drop_bit (23 - 1) (inp ! 6))
       [push_bit 1 (inp ! 7), push_bit 24 (inp ! 8)],
     accum (drop_bit (23 - 15) (inp ! 8))
       [push_bit 15 (inp ! 9)],
     accum (drop_bit (23 - 6) (inp ! 9))
       [push_bit 6 (inp ! 10), push_bit 29 (inp ! 11)],
     accum (drop_bit (23 - 20) (inp ! 11))
       [push_bit 20 (inp ! 12)],
     accum (drop_bit (23 - 11) (inp ! 12))
       [push_bit 11 (inp ! 13)],
     accum (drop_bit (23 - 2) (inp ! 13))
       [push_bit 2 (inp ! 14), push_bit 25 (inp ! 15)],
     accum (drop_bit (23 - 16) (inp ! 15))
       [push_bit 16 (inp ! 16)],
     accum (drop_bit (23 - 7) (inp ! 16))
       [push_bit 7 (inp ! 17), push_bit 30 (inp ! 18)],
     accum (drop_bit (23 - 21) (inp ! 18))
       [push_bit 21 (inp ! 19)],
     accum (drop_bit (23 - 12) (inp ! 19))
       [push_bit 12 (inp ! 20)],
     accum (drop_bit (23 - 3) (inp ! 20))
       [push_bit 3 (inp ! 21), push_bit 26 (inp ! 22)],
     accum (drop_bit (23 - 17) (inp ! 22))
       [push_bit 17 (inp ! 23)],
     accum (drop_bit (23 - 8) (inp ! 23))
       [push_bit 8 (inp ! 24), push_bit 31 (inp ! 25)],
     accum (drop_bit (23 - 22) (inp ! 25))
       [push_bit 22 (inp ! 26)],
     accum (drop_bit (23 - 13) (inp ! 26))
       [push_bit 13 (inp ! 27)],
     accum (drop_bit (23 - 4) (inp ! 27))
       [push_bit 4 (inp ! 28), push_bit 27 (inp ! 29)],
     accum (drop_bit (23 - 18) (inp ! 29))
       [push_bit 18 (inp ! 30)],
     accum (drop_bit (23 - 9) (inp ! 30))
       [push_bit 9 (inp ! 31)]]"

definition sc_fastpackwithoutmask24 :: "u32 list \<Rightarrow> u32 list" where
  "sc_fastpackwithoutmask24 inp =
    [accum (inp ! 0)
       [push_bit 24 (inp ! 1)],
     accum (drop_bit (24 - 16) (inp ! 1))
       [push_bit 16 (inp ! 2)],
     accum (drop_bit (24 - 8) (inp ! 2))
       [push_bit 8 (inp ! 3)],
     accum (inp ! 4)
       [push_bit 24 (inp ! 5)],
     accum (drop_bit (24 - 16) (inp ! 5))
       [push_bit 16 (inp ! 6)],
     accum (drop_bit (24 - 8) (inp ! 6))
       [push_bit 8 (inp ! 7)],
     accum (inp ! 8)
       [push_bit 24 (inp ! 9)],
     accum (drop_bit (24 - 16) (inp ! 9))
       [push_bit 16 (inp ! 10)],
     accum (drop_bit (24 - 8) (inp ! 10))
       [push_bit 8 (inp ! 11)],
     accum (inp ! 12)
       [push_bit 24 (inp ! 13)],
     accum (drop_bit (24 - 16) (inp ! 13))
       [push_bit 16 (inp ! 14)],
     accum (drop_bit (24 - 8) (inp ! 14))
       [push_bit 8 (inp ! 15)],
     accum (inp ! 16)
       [push_bit 24 (inp ! 17)],
     accum (drop_bit (24 - 16) (inp ! 17))
       [push_bit 16 (inp ! 18)],
     accum (drop_bit (24 - 8) (inp ! 18))
       [push_bit 8 (inp ! 19)],
     accum (inp ! 20)
       [push_bit 24 (inp ! 21)],
     accum (drop_bit (24 - 16) (inp ! 21))
       [push_bit 16 (inp ! 22)],
     accum (drop_bit (24 - 8) (inp ! 22))
       [push_bit 8 (inp ! 23)],
     accum (inp ! 24)
       [push_bit 24 (inp ! 25)],
     accum (drop_bit (24 - 16) (inp ! 25))
       [push_bit 16 (inp ! 26)],
     accum (drop_bit (24 - 8) (inp ! 26))
       [push_bit 8 (inp ! 27)],
     accum (inp ! 28)
       [push_bit 24 (inp ! 29)],
     accum (drop_bit (24 - 16) (inp ! 29))
       [push_bit 16 (inp ! 30)],
     accum (drop_bit (24 - 8) (inp ! 30))
       [push_bit 8 (inp ! 31)]]"

definition sc_fastpackwithoutmask25 :: "u32 list \<Rightarrow> u32 list" where
  "sc_fastpackwithoutmask25 inp =
    [accum (inp ! 0)
       [push_bit 25 (inp ! 1)],
     accum (drop_bit (25 - 18) (inp ! 1))
       [push_bit 18 (inp ! 2)],
     accum (drop_bit (25 - 11) (inp ! 2))
       [push_bit 11 (inp ! 3)],
     accum (drop_bit (25 - 4) (inp ! 3))
       [push_bit 4 (inp ! 4), push_bit 29 (inp ! 5)],
     accum (drop_bit (25 - 22) (inp ! 5))
       [push_bit 22 (inp ! 6)],
     accum (drop_bit (25 - 15) (inp ! 6))
       [push_bit 15 (inp ! 7)],
     accum (drop_bit (25 - 8) (inp ! 7))
       [push_bit 8 (inp ! 8)],
     accum (drop_bit (25 - 1) (inp ! 8))
       [push_bit 1 (inp ! 9), push_bit 26 (inp ! 10)],
     accum (drop_bit (25 - 19) (inp ! 10))
       [push_bit 19 (inp ! 11)],
     accum (drop_bit (25 - 12) (inp ! 11))
       [push_bit 12 (inp ! 12)],
     accum (drop_bit (25 - 5) (inp ! 12))
       [push_bit 5 (inp ! 13), push_bit 30 (inp ! 14)],
     accum (drop_bit (25 - 23) (inp ! 14))
       [push_bit 23 (inp ! 15)],
     accum (drop_bit (25 - 16) (inp ! 15))
       [push_bit 16 (inp ! 16)],
     accum (drop_bit (25 - 9) (inp ! 16))
       [push_bit 9 (inp ! 17)],
     accum (drop_bit (25 - 2) (inp ! 17))
       [push_bit 2 (inp ! 18), push_bit 27 (inp ! 19)],
     accum (drop_bit (25 - 20) (inp ! 19))
       [push_bit 20 (inp ! 20)],
     accum (drop_bit (25 - 13) (inp ! 20))
       [push_bit 13 (inp ! 21)],
     accum (drop_bit (25 - 6) (inp ! 21))
       [push_bit 6 (inp ! 22), push_bit 31 (inp ! 23)],
     accum (drop_bit (25 - 24) (inp ! 23))
       [push_bit 24 (inp ! 24)],
     accum (drop_bit (25 - 17) (inp ! 24))
       [push_bit 17 (inp ! 25)],
     accum (drop_bit (25 - 10) (inp ! 25))
       [push_bit 10 (inp ! 26)],
     accum (drop_bit (25 - 3) (inp ! 26))
       [push_bit 3 (inp ! 27), push_bit 28 (inp ! 28)],
     accum (drop_bit (25 - 21) (inp ! 28))
       [push_bit 21 (inp ! 29)],
     accum (drop_bit (25 - 14) (inp ! 29))
       [push_bit 14 (inp ! 30)],
     accum (drop_bit (25 - 7) (inp ! 30))
       [push_bit 7 (inp ! 31)]]"

definition sc_fastpackwithoutmask26 :: "u32 list \<Rightarrow> u32 list" where
  "sc_fastpackwithoutmask26 inp =
    [accum (inp ! 0)
       [push_bit 26 (inp ! 1)],
     accum (drop_bit (26 - 20) (inp ! 1))
       [push_bit 20 (inp ! 2)],
     accum (drop_bit (26 - 14) (inp ! 2))
       [push_bit 14 (inp ! 3)],
     accum (drop_bit (26 - 8) (inp ! 3))
       [push_bit 8 (inp ! 4)],
     accum (drop_bit (26 - 2) (inp ! 4))
       [push_bit 2 (inp ! 5), push_bit 28 (inp ! 6)],
     accum (drop_bit (26 - 22) (inp ! 6))
       [push_bit 22 (inp ! 7)],
     accum (drop_bit (26 - 16) (inp ! 7))
       [push_bit 16 (inp ! 8)],
     accum (drop_bit (26 - 10) (inp ! 8))
       [push_bit 10 (inp ! 9)],
     accum (drop_bit (26 - 4) (inp ! 9))
       [push_bit 4 (inp ! 10), push_bit 30 (inp ! 11)],
     accum (drop_bit (26 - 24) (inp ! 11))
       [push_bit 24 (inp ! 12)],
     accum (drop_bit (26 - 18) (inp ! 12))
       [push_bit 18 (inp ! 13)],
     accum (drop_bit (26 - 12) (inp ! 13))
       [push_bit 12 (inp ! 14)],
     accum (drop_bit (26 - 6) (inp ! 14))
       [push_bit 6 (inp ! 15)],
     accum (inp ! 16)
       [push_bit 26 (inp ! 17)],
     accum (drop_bit (26 - 20) (inp ! 17))
       [push_bit 20 (inp ! 18)],
     accum (drop_bit (26 - 14) (inp ! 18))
       [push_bit 14 (inp ! 19)],
     accum (drop_bit (26 - 8) (inp ! 19))
       [push_bit 8 (inp ! 20)],
     accum (drop_bit (26 - 2) (inp ! 20))
       [push_bit 2 (inp ! 21), push_bit 28 (inp ! 22)],
     accum (drop_bit (26 - 22) (inp ! 22))
       [push_bit 22 (inp ! 23)],
     accum (drop_bit (26 - 16) (inp ! 23))
       [push_bit 16 (inp ! 24)],
     accum (drop_bit (26 - 10) (inp ! 24))
       [push_bit 10 (inp ! 25)],
     accum (drop_bit (26 - 4) (inp ! 25))
       [push_bit 4 (inp ! 26), push_bit 30 (inp ! 27)],
     accum (drop_bit (26 - 24) (inp ! 27))
       [push_bit 24 (inp ! 28)],
     accum (drop_bit (26 - 18) (inp ! 28))
       [push_bit 18 (inp ! 29)],
     accum (drop_bit (26 - 12) (inp ! 29))
       [push_bit 12 (inp ! 30)],
     accum (drop_bit (26 - 6) (inp ! 30))
       [push_bit 6 (inp ! 31)]]"

definition sc_fastpackwithoutmask27 :: "u32 list \<Rightarrow> u32 list" where
  "sc_fastpackwithoutmask27 inp =
    [accum (inp ! 0)
       [push_bit 27 (inp ! 1)],
     accum (drop_bit (27 - 22) (inp ! 1))
       [push_bit 22 (inp ! 2)],
     accum (drop_bit (27 - 17) (inp ! 2))
       [push_bit 17 (inp ! 3)],
     accum (drop_bit (27 - 12) (inp ! 3))
       [push_bit 12 (inp ! 4)],
     accum (drop_bit (27 - 7) (inp ! 4))
       [push_bit 7 (inp ! 5)],
     accum (drop_bit (27 - 2) (inp ! 5))
       [push_bit 2 (inp ! 6), push_bit 29 (inp ! 7)],
     accum (drop_bit (27 - 24) (inp ! 7))
       [push_bit 24 (inp ! 8)],
     accum (drop_bit (27 - 19) (inp ! 8))
       [push_bit 19 (inp ! 9)],
     accum (drop_bit (27 - 14) (inp ! 9))
       [push_bit 14 (inp ! 10)],
     accum (drop_bit (27 - 9) (inp ! 10))
       [push_bit 9 (inp ! 11)],
     accum (drop_bit (27 - 4) (inp ! 11))
       [push_bit 4 (inp ! 12), push_bit 31 (inp ! 13)],
     accum (drop_bit (27 - 26) (inp ! 13))
       [push_bit 26 (inp ! 14)],
     accum (drop_bit (27 - 21) (inp ! 14))
       [push_bit 21 (inp ! 15)],
     accum (drop_bit (27 - 16) (inp ! 15))
       [push_bit 16 (inp ! 16)],
     accum (drop_bit (27 - 11) (inp ! 16))
       [push_bit 11 (inp ! 17)],
     accum (drop_bit (27 - 6) (inp ! 17))
       [push_bit 6 (inp ! 18)],
     accum (drop_bit (27 - 1) (inp ! 18))
       [push_bit 1 (inp ! 19), push_bit 28 (inp ! 20)],
     accum (drop_bit (27 - 23) (inp ! 20))
       [push_bit 23 (inp ! 21)],
     accum (drop_bit (27 - 18) (inp ! 21))
       [push_bit 18 (inp ! 22)],
     accum (drop_bit (27 - 13) (inp ! 22))
       [push_bit 13 (inp ! 23)],
     accum (drop_bit (27 - 8) (inp ! 23))
       [push_bit 8 (inp ! 24)],
     accum (drop_bit (27 - 3) (inp ! 24))
       [push_bit 3 (inp ! 25), push_bit 30 (inp ! 26)],
     accum (drop_bit (27 - 25) (inp ! 26))
       [push_bit 25 (inp ! 27)],
     accum (drop_bit (27 - 20) (inp ! 27))
       [push_bit 20 (inp ! 28)],
     accum (drop_bit (27 - 15) (inp ! 28))
       [push_bit 15 (inp ! 29)],
     accum (drop_bit (27 - 10) (inp ! 29))
       [push_bit 10 (inp ! 30)],
     accum (drop_bit (27 - 5) (inp ! 30))
       [push_bit 5 (inp ! 31)]]"

definition sc_fastpackwithoutmask28 :: "u32 list \<Rightarrow> u32 list" where
  "sc_fastpackwithoutmask28 inp =
    [accum (inp ! 0)
       [push_bit 28 (inp ! 1)],
     accum (drop_bit (28 - 24) (inp ! 1))
       [push_bit 24 (inp ! 2)],
     accum (drop_bit (28 - 20) (inp ! 2))
       [push_bit 20 (inp ! 3)],
     accum (drop_bit (28 - 16) (inp ! 3))
       [push_bit 16 (inp ! 4)],
     accum (drop_bit (28 - 12) (inp ! 4))
       [push_bit 12 (inp ! 5)],
     accum (drop_bit (28 - 8) (inp ! 5))
       [push_bit 8 (inp ! 6)],
     accum (drop_bit (28 - 4) (inp ! 6))
       [push_bit 4 (inp ! 7)],
     accum (inp ! 8)
       [push_bit 28 (inp ! 9)],
     accum (drop_bit (28 - 24) (inp ! 9))
       [push_bit 24 (inp ! 10)],
     accum (drop_bit (28 - 20) (inp ! 10))
       [push_bit 20 (inp ! 11)],
     accum (drop_bit (28 - 16) (inp ! 11))
       [push_bit 16 (inp ! 12)],
     accum (drop_bit (28 - 12) (inp ! 12))
       [push_bit 12 (inp ! 13)],
     accum (drop_bit (28 - 8) (inp ! 13))
       [push_bit 8 (inp ! 14)],
     accum (drop_bit (28 - 4) (inp ! 14))
       [push_bit 4 (inp ! 15)],
     accum (inp ! 16)
       [push_bit 28 (inp ! 17)],
     accum (drop_bit (28 - 24) (inp ! 17))
       [push_bit 24 (inp ! 18)],
     accum (drop_bit (28 - 20) (inp ! 18))
       [push_bit 20 (inp ! 19)],
     accum (drop_bit (28 - 16) (inp ! 19))
       [push_bit 16 (inp ! 20)],
     accum (drop_bit (28 - 12) (inp ! 20))
       [push_bit 12 (inp ! 21)],
     accum (drop_bit (28 - 8) (inp ! 21))
       [push_bit 8 (inp ! 22)],
     accum (drop_bit (28 - 4) (inp ! 22))
       [push_bit 4 (inp ! 23)],
     accum (inp ! 24)
       [push_bit 28 (inp ! 25)],
     accum (drop_bit (28 - 24) (inp ! 25))
       [push_bit 24 (inp ! 26)],
     accum (drop_bit (28 - 20) (inp ! 26))
       [push_bit 20 (inp ! 27)],
     accum (drop_bit (28 - 16) (inp ! 27))
       [push_bit 16 (inp ! 28)],
     accum (drop_bit (28 - 12) (inp ! 28))
       [push_bit 12 (inp ! 29)],
     accum (drop_bit (28 - 8) (inp ! 29))
       [push_bit 8 (inp ! 30)],
     accum (drop_bit (28 - 4) (inp ! 30))
       [push_bit 4 (inp ! 31)]]"

definition sc_fastpackwithoutmask29 :: "u32 list \<Rightarrow> u32 list" where
  "sc_fastpackwithoutmask29 inp =
    [accum (inp ! 0)
       [push_bit 29 (inp ! 1)],
     accum (drop_bit (29 - 26) (inp ! 1))
       [push_bit 26 (inp ! 2)],
     accum (drop_bit (29 - 23) (inp ! 2))
       [push_bit 23 (inp ! 3)],
     accum (drop_bit (29 - 20) (inp ! 3))
       [push_bit 20 (inp ! 4)],
     accum (drop_bit (29 - 17) (inp ! 4))
       [push_bit 17 (inp ! 5)],
     accum (drop_bit (29 - 14) (inp ! 5))
       [push_bit 14 (inp ! 6)],
     accum (drop_bit (29 - 11) (inp ! 6))
       [push_bit 11 (inp ! 7)],
     accum (drop_bit (29 - 8) (inp ! 7))
       [push_bit 8 (inp ! 8)],
     accum (drop_bit (29 - 5) (inp ! 8))
       [push_bit 5 (inp ! 9)],
     accum (drop_bit (29 - 2) (inp ! 9))
       [push_bit 2 (inp ! 10), push_bit 31 (inp ! 11)],
     accum (drop_bit (29 - 28) (inp ! 11))
       [push_bit 28 (inp ! 12)],
     accum (drop_bit (29 - 25) (inp ! 12))
       [push_bit 25 (inp ! 13)],
     accum (drop_bit (29 - 22) (inp ! 13))
       [push_bit 22 (inp ! 14)],
     accum (drop_bit (29 - 19) (inp ! 14))
       [push_bit 19 (inp ! 15)],
     accum (drop_bit (29 - 16) (inp ! 15))
       [push_bit 16 (inp ! 16)],
     accum (drop_bit (29 - 13) (inp ! 16))
       [push_bit 13 (inp ! 17)],
     accum (drop_bit (29 - 10) (inp ! 17))
       [push_bit 10 (inp ! 18)],
     accum (drop_bit (29 - 7) (inp ! 18))
       [push_bit 7 (inp ! 19)],
     accum (drop_bit (29 - 4) (inp ! 19))
       [push_bit 4 (inp ! 20)],
     accum (drop_bit (29 - 1) (inp ! 20))
       [push_bit 1 (inp ! 21), push_bit 30 (inp ! 22)],
     accum (drop_bit (29 - 27) (inp ! 22))
       [push_bit 27 (inp ! 23)],
     accum (drop_bit (29 - 24) (inp ! 23))
       [push_bit 24 (inp ! 24)],
     accum (drop_bit (29 - 21) (inp ! 24))
       [push_bit 21 (inp ! 25)],
     accum (drop_bit (29 - 18) (inp ! 25))
       [push_bit 18 (inp ! 26)],
     accum (drop_bit (29 - 15) (inp ! 26))
       [push_bit 15 (inp ! 27)],
     accum (drop_bit (29 - 12) (inp ! 27))
       [push_bit 12 (inp ! 28)],
     accum (drop_bit (29 - 9) (inp ! 28))
       [push_bit 9 (inp ! 29)],
     accum (drop_bit (29 - 6) (inp ! 29))
       [push_bit 6 (inp ! 30)],
     accum (drop_bit (29 - 3) (inp ! 30))
       [push_bit 3 (inp ! 31)]]"

definition sc_fastpackwithoutmask30 :: "u32 list \<Rightarrow> u32 list" where
  "sc_fastpackwithoutmask30 inp =
    [accum (inp ! 0)
       [push_bit 30 (inp ! 1)],
     accum (drop_bit (30 - 28) (inp ! 1))
       [push_bit 28 (inp ! 2)],
     accum (drop_bit (30 - 26) (inp ! 2))
       [push_bit 26 (inp ! 3)],
     accum (drop_bit (30 - 24) (inp ! 3))
       [push_bit 24 (inp ! 4)],
     accum (drop_bit (30 - 22) (inp ! 4))
       [push_bit 22 (inp ! 5)],
     accum (drop_bit (30 - 20) (inp ! 5))
       [push_bit 20 (inp ! 6)],
     accum (drop_bit (30 - 18) (inp ! 6))
       [push_bit 18 (inp ! 7)],
     accum (drop_bit (30 - 16) (inp ! 7))
       [push_bit 16 (inp ! 8)],
     accum (drop_bit (30 - 14) (inp ! 8))
       [push_bit 14 (inp ! 9)],
     accum (drop_bit (30 - 12) (inp ! 9))
       [push_bit 12 (inp ! 10)],
     accum (drop_bit (30 - 10) (inp ! 10))
       [push_bit 10 (inp ! 11)],
     accum (drop_bit (30 - 8) (inp ! 11))
       [push_bit 8 (inp ! 12)],
     accum (drop_bit (30 - 6) (inp ! 12))
       [push_bit 6 (inp ! 13)],
     accum (drop_bit (30 - 4) (inp ! 13))
       [push_bit 4 (inp ! 14)],
     accum (drop_bit (30 - 2) (inp ! 14))
       [push_bit 2 (inp ! 15)],
     accum (inp ! 16)
       [push_bit 30 (inp ! 17)],
     accum (drop_bit (30 - 28) (inp ! 17))
       [push_bit 28 (inp ! 18)],
     accum (drop_bit (30 - 26) (inp ! 18))
       [push_bit 26 (inp ! 19)],
     accum (drop_bit (30 - 24) (inp ! 19))
       [push_bit 24 (inp ! 20)],
     accum (drop_bit (30 - 22) (inp ! 20))
       [push_bit 22 (inp ! 21)],
     accum (drop_bit (30 - 20) (inp ! 21))
       [push_bit 20 (inp ! 22)],
     accum (drop_bit (30 - 18) (inp ! 22))
       [push_bit 18 (inp ! 23)],
     accum (drop_bit (30 - 16) (inp ! 23))
       [push_bit 16 (inp ! 24)],
     accum (drop_bit (30 - 14) (inp ! 24))
       [push_bit 14 (inp ! 25)],
     accum (drop_bit (30 - 12) (inp ! 25))
       [push_bit 12 (inp ! 26)],
     accum (drop_bit (30 - 10) (inp ! 26))
       [push_bit 10 (inp ! 27)],
     accum (drop_bit (30 - 8) (inp ! 27))
       [push_bit 8 (inp ! 28)],
     accum (drop_bit (30 - 6) (inp ! 28))
       [push_bit 6 (inp ! 29)],
     accum (drop_bit (30 - 4) (inp ! 29))
       [push_bit 4 (inp ! 30)],
     accum (drop_bit (30 - 2) (inp ! 30))
       [push_bit 2 (inp ! 31)]]"

definition sc_fastpackwithoutmask31 :: "u32 list \<Rightarrow> u32 list" where
  "sc_fastpackwithoutmask31 inp =
    [accum (inp ! 0)
       [push_bit 31 (inp ! 1)],
     accum (drop_bit (31 - 30) (inp ! 1))
       [push_bit 30 (inp ! 2)],
     accum (drop_bit (31 - 29) (inp ! 2))
       [push_bit 29 (inp ! 3)],
     accum (drop_bit (31 - 28) (inp ! 3))
       [push_bit 28 (inp ! 4)],
     accum (drop_bit (31 - 27) (inp ! 4))
       [push_bit 27 (inp ! 5)],
     accum (drop_bit (31 - 26) (inp ! 5))
       [push_bit 26 (inp ! 6)],
     accum (drop_bit (31 - 25) (inp ! 6))
       [push_bit 25 (inp ! 7)],
     accum (drop_bit (31 - 24) (inp ! 7))
       [push_bit 24 (inp ! 8)],
     accum (drop_bit (31 - 23) (inp ! 8))
       [push_bit 23 (inp ! 9)],
     accum (drop_bit (31 - 22) (inp ! 9))
       [push_bit 22 (inp ! 10)],
     accum (drop_bit (31 - 21) (inp ! 10))
       [push_bit 21 (inp ! 11)],
     accum (drop_bit (31 - 20) (inp ! 11))
       [push_bit 20 (inp ! 12)],
     accum (drop_bit (31 - 19) (inp ! 12))
       [push_bit 19 (inp ! 13)],
     accum (drop_bit (31 - 18) (inp ! 13))
       [push_bit 18 (inp ! 14)],
     accum (drop_bit (31 - 17) (inp ! 14))
       [push_bit 17 (inp ! 15)],
     accum (drop_bit (31 - 16) (inp ! 15))
       [push_bit 16 (inp ! 16)],
     accum (drop_bit (31 - 15) (inp ! 16))
       [push_bit 15 (inp ! 17)],
     accum (drop_bit (31 - 14) (inp ! 17))
       [push_bit 14 (inp ! 18)],
     accum (drop_bit (31 - 13) (inp ! 18))
       [push_bit 13 (inp ! 19)],
     accum (drop_bit (31 - 12) (inp ! 19))
       [push_bit 12 (inp ! 20)],
     accum (drop_bit (31 - 11) (inp ! 20))
       [push_bit 11 (inp ! 21)],
     accum (drop_bit (31 - 10) (inp ! 21))
       [push_bit 10 (inp ! 22)],
     accum (drop_bit (31 - 9) (inp ! 22))
       [push_bit 9 (inp ! 23)],
     accum (drop_bit (31 - 8) (inp ! 23))
       [push_bit 8 (inp ! 24)],
     accum (drop_bit (31 - 7) (inp ! 24))
       [push_bit 7 (inp ! 25)],
     accum (drop_bit (31 - 6) (inp ! 25))
       [push_bit 6 (inp ! 26)],
     accum (drop_bit (31 - 5) (inp ! 26))
       [push_bit 5 (inp ! 27)],
     accum (drop_bit (31 - 4) (inp ! 27))
       [push_bit 4 (inp ! 28)],
     accum (drop_bit (31 - 3) (inp ! 28))
       [push_bit 3 (inp ! 29)],
     accum (drop_bit (31 - 2) (inp ! 29))
       [push_bit 2 (inp ! 30)],
     accum (drop_bit (31 - 1) (inp ! 30))
       [push_bit 1 (inp ! 31)]]"

definition sc_fastpackwithoutmask32 :: "u32 list \<Rightarrow> u32 list" where
  "sc_fastpackwithoutmask32 inp = map (\<lambda>k. inp ! k) [0..<32]"

section \<open>Every routine is an instance of the reference\<close>

lemma sc_fastpackwithoutmask0_eq: "sc_fastpackwithoutmask0 = pack_nomask_ref 0"
  by (rule ext) (simp add: sc_fastpackwithoutmask0_def pack_words)

lemma sc_fastpackwithoutmask1_eq: "sc_fastpackwithoutmask1 = pack_nomask_ref 1"
  by (rule ext, simp add: sc_fastpackwithoutmask1_def pack_words del: One_nat_def add_Suc_right)
     (simp add: pack_simps del: One_nat_def add_Suc_right)

lemma sc_fastpackwithoutmask2_eq: "sc_fastpackwithoutmask2 = pack_nomask_ref 2"
  by (rule ext, simp add: sc_fastpackwithoutmask2_def pack_words del: One_nat_def add_Suc_right)
     (simp add: pack_simps del: One_nat_def add_Suc_right)

lemma sc_fastpackwithoutmask3_eq: "sc_fastpackwithoutmask3 = pack_nomask_ref 3"
  by (rule ext, simp add: sc_fastpackwithoutmask3_def pack_words del: One_nat_def add_Suc_right)
     (simp add: pack_simps del: One_nat_def add_Suc_right)

lemma sc_fastpackwithoutmask4_eq: "sc_fastpackwithoutmask4 = pack_nomask_ref 4"
  by (rule ext, simp add: sc_fastpackwithoutmask4_def pack_words del: One_nat_def add_Suc_right)
     (simp add: pack_simps del: One_nat_def add_Suc_right)

lemma sc_fastpackwithoutmask5_eq: "sc_fastpackwithoutmask5 = pack_nomask_ref 5"
  by (rule ext, simp add: sc_fastpackwithoutmask5_def pack_words del: One_nat_def add_Suc_right)
     (simp add: pack_simps del: One_nat_def add_Suc_right)

lemma sc_fastpackwithoutmask6_eq: "sc_fastpackwithoutmask6 = pack_nomask_ref 6"
  by (rule ext, simp add: sc_fastpackwithoutmask6_def pack_words del: One_nat_def add_Suc_right)
     (simp add: pack_simps del: One_nat_def add_Suc_right)

lemma sc_fastpackwithoutmask7_eq: "sc_fastpackwithoutmask7 = pack_nomask_ref 7"
  by (rule ext, simp add: sc_fastpackwithoutmask7_def pack_words del: One_nat_def add_Suc_right)
     (simp add: pack_simps del: One_nat_def add_Suc_right)

lemma sc_fastpackwithoutmask8_eq: "sc_fastpackwithoutmask8 = pack_nomask_ref 8"
  by (rule ext, simp add: sc_fastpackwithoutmask8_def pack_words del: One_nat_def add_Suc_right)
     (simp add: pack_simps del: One_nat_def add_Suc_right)

lemma sc_fastpackwithoutmask9_eq: "sc_fastpackwithoutmask9 = pack_nomask_ref 9"
  by (rule ext, simp add: sc_fastpackwithoutmask9_def pack_words del: One_nat_def add_Suc_right)
     (simp add: pack_simps del: One_nat_def add_Suc_right)

lemma sc_fastpackwithoutmask10_eq: "sc_fastpackwithoutmask10 = pack_nomask_ref 10"
  by (rule ext, simp add: sc_fastpackwithoutmask10_def pack_words del: One_nat_def add_Suc_right)
     (simp add: pack_simps del: One_nat_def add_Suc_right)

lemma sc_fastpackwithoutmask11_eq: "sc_fastpackwithoutmask11 = pack_nomask_ref 11"
  by (rule ext, simp add: sc_fastpackwithoutmask11_def pack_words del: One_nat_def add_Suc_right)
     (simp add: pack_simps del: One_nat_def add_Suc_right)

lemma sc_fastpackwithoutmask12_eq: "sc_fastpackwithoutmask12 = pack_nomask_ref 12"
  by (rule ext, simp add: sc_fastpackwithoutmask12_def pack_words del: One_nat_def add_Suc_right)
     (simp add: pack_simps del: One_nat_def add_Suc_right)

lemma sc_fastpackwithoutmask13_eq: "sc_fastpackwithoutmask13 = pack_nomask_ref 13"
  by (rule ext, simp add: sc_fastpackwithoutmask13_def pack_words del: One_nat_def add_Suc_right)
     (simp add: pack_simps del: One_nat_def add_Suc_right)

lemma sc_fastpackwithoutmask14_eq: "sc_fastpackwithoutmask14 = pack_nomask_ref 14"
  by (rule ext, simp add: sc_fastpackwithoutmask14_def pack_words del: One_nat_def add_Suc_right)
     (simp add: pack_simps del: One_nat_def add_Suc_right)

lemma sc_fastpackwithoutmask15_eq: "sc_fastpackwithoutmask15 = pack_nomask_ref 15"
  by (rule ext, simp add: sc_fastpackwithoutmask15_def pack_words del: One_nat_def add_Suc_right)
     (simp add: pack_simps del: One_nat_def add_Suc_right)

lemma sc_fastpackwithoutmask16_eq: "sc_fastpackwithoutmask16 = pack_nomask_ref 16"
  by (rule ext, simp add: sc_fastpackwithoutmask16_def pack_words del: One_nat_def add_Suc_right)
     (simp add: pack_simps del: One_nat_def add_Suc_right)

lemma sc_fastpackwithoutmask17_eq: "sc_fastpackwithoutmask17 = pack_nomask_ref 17"
  by (rule ext, simp add: sc_fastpackwithoutmask17_def pack_words del: One_nat_def add_Suc_right)
     (simp add: pack_simps del: One_nat_def add_Suc_right)

lemma sc_fastpackwithoutmask18_eq: "sc_fastpackwithoutmask18 = pack_nomask_ref 18"
  by (rule ext, simp add: sc_fastpackwithoutmask18_def pack_words del: One_nat_def add_Suc_right)
     (simp add: pack_simps del: One_nat_def add_Suc_right)

lemma sc_fastpackwithoutmask19_eq: "sc_fastpackwithoutmask19 = pack_nomask_ref 19"
  by (rule ext, simp add: sc_fastpackwithoutmask19_def pack_words del: One_nat_def add_Suc_right)
     (simp add: pack_simps del: One_nat_def add_Suc_right)

lemma sc_fastpackwithoutmask20_eq: "sc_fastpackwithoutmask20 = pack_nomask_ref 20"
  by (rule ext, simp add: sc_fastpackwithoutmask20_def pack_words del: One_nat_def add_Suc_right)
     (simp add: pack_simps del: One_nat_def add_Suc_right)

lemma sc_fastpackwithoutmask21_eq: "sc_fastpackwithoutmask21 = pack_nomask_ref 21"
  by (rule ext, simp add: sc_fastpackwithoutmask21_def pack_words del: One_nat_def add_Suc_right)
     (simp add: pack_simps del: One_nat_def add_Suc_right)

lemma sc_fastpackwithoutmask22_eq: "sc_fastpackwithoutmask22 = pack_nomask_ref 22"
  by (rule ext, simp add: sc_fastpackwithoutmask22_def pack_words del: One_nat_def add_Suc_right)
     (simp add: pack_simps del: One_nat_def add_Suc_right)

lemma sc_fastpackwithoutmask23_eq: "sc_fastpackwithoutmask23 = pack_nomask_ref 23"
  by (rule ext, simp add: sc_fastpackwithoutmask23_def pack_words del: One_nat_def add_Suc_right)
     (simp add: pack_simps del: One_nat_def add_Suc_right)

lemma sc_fastpackwithoutmask24_eq: "sc_fastpackwithoutmask24 = pack_nomask_ref 24"
  by (rule ext, simp add: sc_fastpackwithoutmask24_def pack_words del: One_nat_def add_Suc_right)
     (simp add: pack_simps del: One_nat_def add_Suc_right)

lemma sc_fastpackwithoutmask25_eq: "sc_fastpackwithoutmask25 = pack_nomask_ref 25"
  by (rule ext, simp add: sc_fastpackwithoutmask25_def pack_words del: One_nat_def add_Suc_right)
     (simp add: pack_simps del: One_nat_def add_Suc_right)

lemma sc_fastpackwithoutmask26_eq: "sc_fastpackwithoutmask26 = pack_nomask_ref 26"
  by (rule ext, simp add: sc_fastpackwithoutmask26_def pack_words del: One_nat_def add_Suc_right)
     (simp add: pack_simps del: One_nat_def add_Suc_right)

lemma sc_fastpackwithoutmask27_eq: "sc_fastpackwithoutmask27 = pack_nomask_ref 27"
  by (rule ext, simp add: sc_fastpackwithoutmask27_def pack_words del: One_nat_def add_Suc_right)
     (simp add: pack_simps del: One_nat_def add_Suc_right)

lemma sc_fastpackwithoutmask28_eq: "sc_fastpackwithoutmask28 = pack_nomask_ref 28"
  by (rule ext, simp add: sc_fastpackwithoutmask28_def pack_words del: One_nat_def add_Suc_right)
     (simp add: pack_simps del: One_nat_def add_Suc_right)

lemma sc_fastpackwithoutmask29_eq: "sc_fastpackwithoutmask29 = pack_nomask_ref 29"
  by (rule ext, simp add: sc_fastpackwithoutmask29_def pack_words del: One_nat_def add_Suc_right)
     (simp add: pack_simps del: One_nat_def add_Suc_right)

lemma sc_fastpackwithoutmask30_eq: "sc_fastpackwithoutmask30 = pack_nomask_ref 30"
  by (rule ext, simp add: sc_fastpackwithoutmask30_def pack_words del: One_nat_def add_Suc_right)
     (simp add: pack_simps del: One_nat_def add_Suc_right)

lemma sc_fastpackwithoutmask31_eq: "sc_fastpackwithoutmask31 = pack_nomask_ref 31"
  by (rule ext, simp add: sc_fastpackwithoutmask31_def pack_words del: One_nat_def add_Suc_right)
     (simp add: pack_simps del: One_nat_def add_Suc_right)

lemma sc_fastpackwithoutmask32_eq: "sc_fastpackwithoutmask32 = pack_nomask_ref 32"
  by (rule ext, simp add: sc_fastpackwithoutmask32_def pack_words del: One_nat_def add_Suc_right)
     (simp add: pack_simps del: One_nat_def add_Suc_right)

definition sc_fastpackwithoutmask_table :: "(u32 list \<Rightarrow> u32 list) list" where
  "sc_fastpackwithoutmask_table =
    [sc_fastpackwithoutmask0, sc_fastpackwithoutmask1, sc_fastpackwithoutmask2, sc_fastpackwithoutmask3,
     sc_fastpackwithoutmask4, sc_fastpackwithoutmask5, sc_fastpackwithoutmask6, sc_fastpackwithoutmask7,
     sc_fastpackwithoutmask8, sc_fastpackwithoutmask9, sc_fastpackwithoutmask10, sc_fastpackwithoutmask11,
     sc_fastpackwithoutmask12, sc_fastpackwithoutmask13, sc_fastpackwithoutmask14, sc_fastpackwithoutmask15,
     sc_fastpackwithoutmask16, sc_fastpackwithoutmask17, sc_fastpackwithoutmask18, sc_fastpackwithoutmask19,
     sc_fastpackwithoutmask20, sc_fastpackwithoutmask21, sc_fastpackwithoutmask22, sc_fastpackwithoutmask23,
     sc_fastpackwithoutmask24, sc_fastpackwithoutmask25, sc_fastpackwithoutmask26, sc_fastpackwithoutmask27,
     sc_fastpackwithoutmask28, sc_fastpackwithoutmask29, sc_fastpackwithoutmask30, sc_fastpackwithoutmask31,
     sc_fastpackwithoutmask32]"

lemma sc_fastpackwithoutmask_table_eq: "sc_fastpackwithoutmask_table = map pack_nomask_ref [0..<33]"
  by (simp add: sc_fastpackwithoutmask_table_def
    sc_fastpackwithoutmask0_eq sc_fastpackwithoutmask1_eq sc_fastpackwithoutmask2_eq sc_fastpackwithoutmask3_eq
    sc_fastpackwithoutmask4_eq sc_fastpackwithoutmask5_eq sc_fastpackwithoutmask6_eq sc_fastpackwithoutmask7_eq
    sc_fastpackwithoutmask8_eq sc_fastpackwithoutmask9_eq sc_fastpackwithoutmask10_eq sc_fastpackwithoutmask11_eq
    sc_fastpackwithoutmask12_eq sc_fastpackwithoutmask13_eq sc_fastpackwithoutmask14_eq sc_fastpackwithoutmask15_eq
    sc_fastpackwithoutmask16_eq sc_fastpackwithoutmask17_eq sc_fastpackwithoutmask18_eq sc_fastpackwithoutmask19_eq
    sc_fastpackwithoutmask20_eq sc_fastpackwithoutmask21_eq sc_fastpackwithoutmask22_eq sc_fastpackwithoutmask23_eq
    sc_fastpackwithoutmask24_eq sc_fastpackwithoutmask25_eq sc_fastpackwithoutmask26_eq sc_fastpackwithoutmask27_eq
    sc_fastpackwithoutmask28_eq sc_fastpackwithoutmask29_eq sc_fastpackwithoutmask30_eq sc_fastpackwithoutmask31_eq
    sc_fastpackwithoutmask32_eq
    upt_step del: One_nat_def add_Suc_right)

end
