(* ===== verification/Scalar_Integrated.thy ===== *)
theory Scalar_Integrated
  imports Bitpack_Ref
begin

text \<open>
  The routines of \<open>source/util/compression/simd-compression/integratedbitpacking.cpp\<close>, which pack 32 integers as the differences from their predecessors; the
  integer in front of the first is \<open>initoffset\<close>. The routines for 1, 4, 8 and 16 bits are loops in the source and here, and pack without masks. The routines for
  32 bits ignore the differences.
\<close>

section \<open>Differences and sums\<close>

text \<open>\<open>*in - initoffset\<close> at the first integer and \<open>*in - in[-1]\<close> at the others.\<close>

definition diff_at :: "u32 \<Rightarrow> u32 list \<Rightarrow> nat \<Rightarrow> u32" where
  "diff_at initoffset inp k = (if k = 0 then inp ! 0 - initoffset else inp ! k - inp ! (k - 1))"

definition diffs_from :: "u32 \<Rightarrow> u32 list \<Rightarrow> u32 list" where
  "diffs_from initoffset inp = map (diff_at initoffset inp) [0..<32]"

text \<open>The integers stored through \<open>out\<close>, each with \<open>initoffset\<close> or \<open>out[-1]\<close> added.\<close>

primrec sums :: "u32 \<Rightarrow> u32 list \<Rightarrow> u32 list" where
  "sums a [] = []"
| "sums a (x # xs) = (x + a) # sums (x + a) xs"

declare sums.simps [simp del]

lemma sums_zeros: "sums a (replicate n 0) = replicate n a"
  by (induction n) (simp_all add: sums.simps)

lemma length_sums [simp]: "length (sums a xs) = length xs"
  by (induction xs arbitrary: a) (simp_all add: sums.simps)

lemma nth_diffs: "k < 32 \<Longrightarrow> diffs_from i inp ! k = diff_at i inp k"
  by (simp add: diffs_from_def)

lemma length_diffs_from [simp]: "length (diffs_from i inp) = 32"
  by (simp add: diffs_from_def)

lemma sums_diff_at:
  assumes "k + n \<le> length inp"
  shows "sums (if k = 0 then i else inp ! (k - 1)) (map (diff_at i inp) [k..<k + n]) = take n (drop k inp)"
  using assms
proof (induction n arbitrary: k)
  case (Suc n)
  have "take (Suc n) (drop k inp) = inp ! k # take n (drop (Suc k) inp)"
    using Suc.prems by (simp add: Cons_nth_drop_Suc [symmetric])
  moreover have "diff_at i inp k + (if k = 0 then i else inp ! (k - 1)) = inp ! k" by (simp add: diff_at_def)
  ultimately show ?case
    using Suc.IH [of "Suc k"] Suc.prems by (simp add: upt_conv_Cons sums.simps del: upt_Suc)
qed (simp add: sums.simps)

text \<open>Summing the differences gives the integers back.\<close>

lemma sums_diffs_from: "length inp = 32 \<Longrightarrow> sums i (diffs_from i inp) = inp"
  using sums_diff_at [of 0 32 inp i] by (simp add: diffs_from_def)

lemma unpack_ref_0: "unpack_ref 0 ws = replicate 32 0"
proof -
  have "field 0 ws = (\<lambda>i. 0)" by (rule ext) (simp add: field_def)
  then show ?thesis by (simp add: unpack_ref_def map_replicate_const)
qed

lemma drop_bit_mod_2: "drop_bit 31 (x :: u32) mod 2 = drop_bit 31 x"
proof -
  have "take_bit b (drop_bit r x) = drop_bit r x" if "r + b = 32" for r b
    using that bit32 [of x] by (intro bit_eqI) (fastforce simp: bit_simps)
  from this [of 31 1] show ?thesis by (simp add: take_bit_eq_mod)
qed

section \<open>The routines\<close>

definition integratedfastunpack0 :: "u32 \<Rightarrow> u32 list \<Rightarrow> u32 list" where
  "integratedfastunpack0 initoffset inp = map (\<lambda>i. initoffset) [0..<32]"

definition integratedfastunpack1 :: "u32 \<Rightarrow> u32 list \<Rightarrow> u32 list" where
  "integratedfastunpack1 initoffset inp =
    sums initoffset ((inp ! 0 AND 1) # (drop_bit 1 (inp ! 0) AND 1) # map (\<lambda>i. drop_bit i (inp ! 0) AND 1) [2..<32])"

definition integratedfastunpack2 :: "u32 \<Rightarrow> u32 list \<Rightarrow> u32 list" where
  "integratedfastunpack2 initoffset inp =
    sums initoffset
      [drop_bit 0 (inp ! 0) mod push_bit 2 1, drop_bit 2 (inp ! 0) mod push_bit 2 1,
       drop_bit 4 (inp ! 0) mod push_bit 2 1, drop_bit 6 (inp ! 0) mod push_bit 2 1,
       drop_bit 8 (inp ! 0) mod push_bit 2 1, drop_bit 10 (inp ! 0) mod push_bit 2 1,
       drop_bit 12 (inp ! 0) mod push_bit 2 1, drop_bit 14 (inp ! 0) mod push_bit 2 1,
       drop_bit 16 (inp ! 0) mod push_bit 2 1, drop_bit 18 (inp ! 0) mod push_bit 2 1,
       drop_bit 20 (inp ! 0) mod push_bit 2 1, drop_bit 22 (inp ! 0) mod push_bit 2 1,
       drop_bit 24 (inp ! 0) mod push_bit 2 1, drop_bit 26 (inp ! 0) mod push_bit 2 1,
       drop_bit 28 (inp ! 0) mod push_bit 2 1, drop_bit 30 (inp ! 0), drop_bit 0 (inp ! 1) mod push_bit 2 1,
       drop_bit 2 (inp ! 1) mod push_bit 2 1, drop_bit 4 (inp ! 1) mod push_bit 2 1,
       drop_bit 6 (inp ! 1) mod push_bit 2 1, drop_bit 8 (inp ! 1) mod push_bit 2 1,
       drop_bit 10 (inp ! 1) mod push_bit 2 1, drop_bit 12 (inp ! 1) mod push_bit 2 1,
       drop_bit 14 (inp ! 1) mod push_bit 2 1, drop_bit 16 (inp ! 1) mod push_bit 2 1,
       drop_bit 18 (inp ! 1) mod push_bit 2 1, drop_bit 20 (inp ! 1) mod push_bit 2 1,
       drop_bit 22 (inp ! 1) mod push_bit 2 1, drop_bit 24 (inp ! 1) mod push_bit 2 1,
       drop_bit 26 (inp ! 1) mod push_bit 2 1, drop_bit 28 (inp ! 1) mod push_bit 2 1, drop_bit 30 (inp ! 1)]"

definition integratedfastunpack3 :: "u32 \<Rightarrow> u32 list \<Rightarrow> u32 list" where
  "integratedfastunpack3 initoffset inp =
    sums initoffset
      [drop_bit 0 (inp ! 0) mod push_bit 3 1, drop_bit 3 (inp ! 0) mod push_bit 3 1,
       drop_bit 6 (inp ! 0) mod push_bit 3 1, drop_bit 9 (inp ! 0) mod push_bit 3 1,
       drop_bit 12 (inp ! 0) mod push_bit 3 1, drop_bit 15 (inp ! 0) mod push_bit 3 1,
       drop_bit 18 (inp ! 0) mod push_bit 3 1, drop_bit 21 (inp ! 0) mod push_bit 3 1,
       drop_bit 24 (inp ! 0) mod push_bit 3 1, drop_bit 27 (inp ! 0) mod push_bit 3 1,
       drop_bit 30 (inp ! 0) OR push_bit (3 - 1) (inp ! 1 mod push_bit 1 1), drop_bit 1 (inp ! 1) mod push_bit 3 1,
       drop_bit 4 (inp ! 1) mod push_bit 3 1, drop_bit 7 (inp ! 1) mod push_bit 3 1,
       drop_bit 10 (inp ! 1) mod push_bit 3 1, drop_bit 13 (inp ! 1) mod push_bit 3 1,
       drop_bit 16 (inp ! 1) mod push_bit 3 1, drop_bit 19 (inp ! 1) mod push_bit 3 1,
       drop_bit 22 (inp ! 1) mod push_bit 3 1, drop_bit 25 (inp ! 1) mod push_bit 3 1,
       drop_bit 28 (inp ! 1) mod push_bit 3 1, drop_bit 31 (inp ! 1) OR push_bit (3 - 2) (inp ! 2 mod push_bit 2 1),
       drop_bit 2 (inp ! 2) mod push_bit 3 1, drop_bit 5 (inp ! 2) mod push_bit 3 1,
       drop_bit 8 (inp ! 2) mod push_bit 3 1, drop_bit 11 (inp ! 2) mod push_bit 3 1,
       drop_bit 14 (inp ! 2) mod push_bit 3 1, drop_bit 17 (inp ! 2) mod push_bit 3 1,
       drop_bit 20 (inp ! 2) mod push_bit 3 1, drop_bit 23 (inp ! 2) mod push_bit 3 1,
       drop_bit 26 (inp ! 2) mod push_bit 3 1, drop_bit 29 (inp ! 2)]"

definition integratedfastunpack4 :: "u32 \<Rightarrow> u32 list \<Rightarrow> u32 list" where
  "integratedfastunpack4 initoffset inp =
    sums initoffset
      ((inp ! 0 mod push_bit 4 1) # map (\<lambda>k. drop_bit (4 * k) (inp ! 0) mod push_bit 4 1) [1..<8] @
       concat (map (\<lambda>w. map (\<lambda>k. drop_bit (4 * k) (inp ! w) mod push_bit 4 1) [0..<8]) [1..<4]))"

definition integratedfastunpack5 :: "u32 \<Rightarrow> u32 list \<Rightarrow> u32 list" where
  "integratedfastunpack5 initoffset inp =
    sums initoffset
      [drop_bit 0 (inp ! 0) mod push_bit 5 1, drop_bit 5 (inp ! 0) mod push_bit 5 1,
       drop_bit 10 (inp ! 0) mod push_bit 5 1, drop_bit 15 (inp ! 0) mod push_bit 5 1,
       drop_bit 20 (inp ! 0) mod push_bit 5 1, drop_bit 25 (inp ! 0) mod push_bit 5 1,
       drop_bit 30 (inp ! 0) OR push_bit (5 - 3) (inp ! 1 mod push_bit 3 1), drop_bit 3 (inp ! 1) mod push_bit 5 1,
       drop_bit 8 (inp ! 1) mod push_bit 5 1, drop_bit 13 (inp ! 1) mod push_bit 5 1,
       drop_bit 18 (inp ! 1) mod push_bit 5 1, drop_bit 23 (inp ! 1) mod push_bit 5 1,
       drop_bit 28 (inp ! 1) OR push_bit (5 - 1) (inp ! 2 mod push_bit 1 1), drop_bit 1 (inp ! 2) mod push_bit 5 1,
       drop_bit 6 (inp ! 2) mod push_bit 5 1, drop_bit 11 (inp ! 2) mod push_bit 5 1,
       drop_bit 16 (inp ! 2) mod push_bit 5 1, drop_bit 21 (inp ! 2) mod push_bit 5 1,
       drop_bit 26 (inp ! 2) mod push_bit 5 1, drop_bit 31 (inp ! 2) OR push_bit (5 - 4) (inp ! 3 mod push_bit 4 1),
       drop_bit 4 (inp ! 3) mod push_bit 5 1, drop_bit 9 (inp ! 3) mod push_bit 5 1,
       drop_bit 14 (inp ! 3) mod push_bit 5 1, drop_bit 19 (inp ! 3) mod push_bit 5 1,
       drop_bit 24 (inp ! 3) mod push_bit 5 1, drop_bit 29 (inp ! 3) OR push_bit (5 - 2) (inp ! 4 mod push_bit 2 1),
       drop_bit 2 (inp ! 4) mod push_bit 5 1, drop_bit 7 (inp ! 4) mod push_bit 5 1,
       drop_bit 12 (inp ! 4) mod push_bit 5 1, drop_bit 17 (inp ! 4) mod push_bit 5 1,
       drop_bit 22 (inp ! 4) mod push_bit 5 1, drop_bit 27 (inp ! 4)]"

definition integratedfastunpack6 :: "u32 \<Rightarrow> u32 list \<Rightarrow> u32 list" where
  "integratedfastunpack6 initoffset inp =
    sums initoffset
      [drop_bit 0 (inp ! 0) mod push_bit 6 1, drop_bit 6 (inp ! 0) mod push_bit 6 1,
       drop_bit 12 (inp ! 0) mod push_bit 6 1, drop_bit 18 (inp ! 0) mod push_bit 6 1,
       drop_bit 24 (inp ! 0) mod push_bit 6 1, drop_bit 30 (inp ! 0) OR push_bit (6 - 4) (inp ! 1 mod push_bit 4 1),
       drop_bit 4 (inp ! 1) mod push_bit 6 1, drop_bit 10 (inp ! 1) mod push_bit 6 1,
       drop_bit 16 (inp ! 1) mod push_bit 6 1, drop_bit 22 (inp ! 1) mod push_bit 6 1,
       drop_bit 28 (inp ! 1) OR push_bit (6 - 2) (inp ! 2 mod push_bit 2 1), drop_bit 2 (inp ! 2) mod push_bit 6 1,
       drop_bit 8 (inp ! 2) mod push_bit 6 1, drop_bit 14 (inp ! 2) mod push_bit 6 1,
       drop_bit 20 (inp ! 2) mod push_bit 6 1, drop_bit 26 (inp ! 2), drop_bit 0 (inp ! 3) mod push_bit 6 1,
       drop_bit 6 (inp ! 3) mod push_bit 6 1, drop_bit 12 (inp ! 3) mod push_bit 6 1,
       drop_bit 18 (inp ! 3) mod push_bit 6 1, drop_bit 24 (inp ! 3) mod push_bit 6 1,
       drop_bit 30 (inp ! 3) OR push_bit (6 - 4) (inp ! 4 mod push_bit 4 1), drop_bit 4 (inp ! 4) mod push_bit 6 1,
       drop_bit 10 (inp ! 4) mod push_bit 6 1, drop_bit 16 (inp ! 4) mod push_bit 6 1,
       drop_bit 22 (inp ! 4) mod push_bit 6 1, drop_bit 28 (inp ! 4) OR push_bit (6 - 2) (inp ! 5 mod push_bit 2 1),
       drop_bit 2 (inp ! 5) mod push_bit 6 1, drop_bit 8 (inp ! 5) mod push_bit 6 1,
       drop_bit 14 (inp ! 5) mod push_bit 6 1, drop_bit 20 (inp ! 5) mod push_bit 6 1, drop_bit 26 (inp ! 5)]"

definition integratedfastunpack7 :: "u32 \<Rightarrow> u32 list \<Rightarrow> u32 list" where
  "integratedfastunpack7 initoffset inp =
    sums initoffset
      [drop_bit 0 (inp ! 0) mod push_bit 7 1, drop_bit 7 (inp ! 0) mod push_bit 7 1,
       drop_bit 14 (inp ! 0) mod push_bit 7 1, drop_bit 21 (inp ! 0) mod push_bit 7 1,
       drop_bit 28 (inp ! 0) OR push_bit (7 - 3) (inp ! 1 mod push_bit 3 1), drop_bit 3 (inp ! 1) mod push_bit 7 1,
       drop_bit 10 (inp ! 1) mod push_bit 7 1, drop_bit 17 (inp ! 1) mod push_bit 7 1,
       drop_bit 24 (inp ! 1) mod push_bit 7 1, drop_bit 31 (inp ! 1) OR push_bit (7 - 6) (inp ! 2 mod push_bit 6 1),
       drop_bit 6 (inp ! 2) mod push_bit 7 1, drop_bit 13 (inp ! 2) mod push_bit 7 1,
       drop_bit 20 (inp ! 2) mod push_bit 7 1, drop_bit 27 (inp ! 2) OR push_bit (7 - 2) (inp ! 3 mod push_bit 2 1),
       drop_bit 2 (inp ! 3) mod push_bit 7 1, drop_bit 9 (inp ! 3) mod push_bit 7 1,
       drop_bit 16 (inp ! 3) mod push_bit 7 1, drop_bit 23 (inp ! 3) mod push_bit 7 1,
       drop_bit 30 (inp ! 3) OR push_bit (7 - 5) (inp ! 4 mod push_bit 5 1), drop_bit 5 (inp ! 4) mod push_bit 7 1,
       drop_bit 12 (inp ! 4) mod push_bit 7 1, drop_bit 19 (inp ! 4) mod push_bit 7 1,
       drop_bit 26 (inp ! 4) OR push_bit (7 - 1) (inp ! 5 mod push_bit 1 1), drop_bit 1 (inp ! 5) mod push_bit 7 1,
       drop_bit 8 (inp ! 5) mod push_bit 7 1, drop_bit 15 (inp ! 5) mod push_bit 7 1,
       drop_bit 22 (inp ! 5) mod push_bit 7 1, drop_bit 29 (inp ! 5) OR push_bit (7 - 4) (inp ! 6 mod push_bit 4 1),
       drop_bit 4 (inp ! 6) mod push_bit 7 1, drop_bit 11 (inp ! 6) mod push_bit 7 1,
       drop_bit 18 (inp ! 6) mod push_bit 7 1, drop_bit 25 (inp ! 6)]"

definition integratedfastunpack8 :: "u32 \<Rightarrow> u32 list \<Rightarrow> u32 list" where
  "integratedfastunpack8 initoffset inp =
    sums initoffset
      ((inp ! 0 mod push_bit 8 1) # map (\<lambda>k. drop_bit (8 * k) (inp ! 0) mod push_bit 8 1) [1..<4] @
       concat (map (\<lambda>w. map (\<lambda>k. drop_bit (8 * k) (inp ! w) mod push_bit 8 1) [0..<4]) [1..<8]))"

definition integratedfastunpack9 :: "u32 \<Rightarrow> u32 list \<Rightarrow> u32 list" where
  "integratedfastunpack9 initoffset inp =
    sums initoffset
      [drop_bit 0 (inp ! 0) mod push_bit 9 1, drop_bit 9 (inp ! 0) mod push_bit 9 1,
       drop_bit 18 (inp ! 0) mod push_bit 9 1, drop_bit 27 (inp ! 0) OR push_bit (9 - 4) (inp ! 1 mod push_bit 4 1),
       drop_bit 4 (inp ! 1) mod push_bit 9 1, drop_bit 13 (inp ! 1) mod push_bit 9 1,
       drop_bit 22 (inp ! 1) mod push_bit 9 1, drop_bit 31 (inp ! 1) OR push_bit (9 - 8) (inp ! 2 mod push_bit 8 1),
       drop_bit 8 (inp ! 2) mod push_bit 9 1, drop_bit 17 (inp ! 2) mod push_bit 9 1,
       drop_bit 26 (inp ! 2) OR push_bit (9 - 3) (inp ! 3 mod push_bit 3 1), drop_bit 3 (inp ! 3) mod push_bit 9 1,
       drop_bit 12 (inp ! 3) mod push_bit 9 1, drop_bit 21 (inp ! 3) mod push_bit 9 1,
       drop_bit 30 (inp ! 3) OR push_bit (9 - 7) (inp ! 4 mod push_bit 7 1), drop_bit 7 (inp ! 4) mod push_bit 9 1,
       drop_bit 16 (inp ! 4) mod push_bit 9 1, drop_bit 25 (inp ! 4) OR push_bit (9 - 2) (inp ! 5 mod push_bit 2 1),
       drop_bit 2 (inp ! 5) mod push_bit 9 1, drop_bit 11 (inp ! 5) mod push_bit 9 1,
       drop_bit 20 (inp ! 5) mod push_bit 9 1, drop_bit 29 (inp ! 5) OR push_bit (9 - 6) (inp ! 6 mod push_bit 6 1),
       drop_bit 6 (inp ! 6) mod push_bit 9 1, drop_bit 15 (inp ! 6) mod push_bit 9 1,
       drop_bit 24 (inp ! 6) OR push_bit (9 - 1) (inp ! 7 mod push_bit 1 1), drop_bit 1 (inp ! 7) mod push_bit 9 1,
       drop_bit 10 (inp ! 7) mod push_bit 9 1, drop_bit 19 (inp ! 7) mod push_bit 9 1,
       drop_bit 28 (inp ! 7) OR push_bit (9 - 5) (inp ! 8 mod push_bit 5 1), drop_bit 5 (inp ! 8) mod push_bit 9 1,
       drop_bit 14 (inp ! 8) mod push_bit 9 1, drop_bit 23 (inp ! 8)]"

definition integratedfastunpack10 :: "u32 \<Rightarrow> u32 list \<Rightarrow> u32 list" where
  "integratedfastunpack10 initoffset inp =
    sums initoffset
      [drop_bit 0 (inp ! 0) mod push_bit 10 1, drop_bit 10 (inp ! 0) mod push_bit 10 1,
       drop_bit 20 (inp ! 0) mod push_bit 10 1, drop_bit 30 (inp ! 0) OR push_bit (10 - 8) (inp ! 1 mod push_bit 8 1),
       drop_bit 8 (inp ! 1) mod push_bit 10 1, drop_bit 18 (inp ! 1) mod push_bit 10 1,
       drop_bit 28 (inp ! 1) OR push_bit (10 - 6) (inp ! 2 mod push_bit 6 1), drop_bit 6 (inp ! 2) mod push_bit 10 1,
       drop_bit 16 (inp ! 2) mod push_bit 10 1, drop_bit 26 (inp ! 2) OR push_bit (10 - 4) (inp ! 3 mod push_bit 4 1),
       drop_bit 4 (inp ! 3) mod push_bit 10 1, drop_bit 14 (inp ! 3) mod push_bit 10 1,
       drop_bit 24 (inp ! 3) OR push_bit (10 - 2) (inp ! 4 mod push_bit 2 1), drop_bit 2 (inp ! 4) mod push_bit 10 1,
       drop_bit 12 (inp ! 4) mod push_bit 10 1, drop_bit 22 (inp ! 4), drop_bit 0 (inp ! 5) mod push_bit 10 1,
       drop_bit 10 (inp ! 5) mod push_bit 10 1, drop_bit 20 (inp ! 5) mod push_bit 10 1,
       drop_bit 30 (inp ! 5) OR push_bit (10 - 8) (inp ! 6 mod push_bit 8 1), drop_bit 8 (inp ! 6) mod push_bit 10 1,
       drop_bit 18 (inp ! 6) mod push_bit 10 1, drop_bit 28 (inp ! 6) OR push_bit (10 - 6) (inp ! 7 mod push_bit 6 1),
       drop_bit 6 (inp ! 7) mod push_bit 10 1, drop_bit 16 (inp ! 7) mod push_bit 10 1,
       drop_bit 26 (inp ! 7) OR push_bit (10 - 4) (inp ! 8 mod push_bit 4 1), drop_bit 4 (inp ! 8) mod push_bit 10 1,
       drop_bit 14 (inp ! 8) mod push_bit 10 1, drop_bit 24 (inp ! 8) OR push_bit (10 - 2) (inp ! 9 mod push_bit 2 1),
       drop_bit 2 (inp ! 9) mod push_bit 10 1, drop_bit 12 (inp ! 9) mod push_bit 10 1, drop_bit 22 (inp ! 9)]"

definition integratedfastunpack11 :: "u32 \<Rightarrow> u32 list \<Rightarrow> u32 list" where
  "integratedfastunpack11 initoffset inp =
    sums initoffset
      [drop_bit 0 (inp ! 0) mod push_bit 11 1, drop_bit 11 (inp ! 0) mod push_bit 11 1,
       drop_bit 22 (inp ! 0) OR push_bit (11 - 1) (inp ! 1 mod push_bit 1 1), drop_bit 1 (inp ! 1) mod push_bit 11 1,
       drop_bit 12 (inp ! 1) mod push_bit 11 1, drop_bit 23 (inp ! 1) OR push_bit (11 - 2) (inp ! 2 mod push_bit 2 1),
       drop_bit 2 (inp ! 2) mod push_bit 11 1, drop_bit 13 (inp ! 2) mod push_bit 11 1,
       drop_bit 24 (inp ! 2) OR push_bit (11 - 3) (inp ! 3 mod push_bit 3 1), drop_bit 3 (inp ! 3) mod push_bit 11 1,
       drop_bit 14 (inp ! 3) mod push_bit 11 1, drop_bit 25 (inp ! 3) OR push_bit (11 - 4) (inp ! 4 mod push_bit 4 1),
       drop_bit 4 (inp ! 4) mod push_bit 11 1, drop_bit 15 (inp ! 4) mod push_bit 11 1,
       drop_bit 26 (inp ! 4) OR push_bit (11 - 5) (inp ! 5 mod push_bit 5 1), drop_bit 5 (inp ! 5) mod push_bit 11 1,
       drop_bit 16 (inp ! 5) mod push_bit 11 1, drop_bit 27 (inp ! 5) OR push_bit (11 - 6) (inp ! 6 mod push_bit 6 1),
       drop_bit 6 (inp ! 6) mod push_bit 11 1, drop_bit 17 (inp ! 6) mod push_bit 11 1,
       drop_bit 28 (inp ! 6) OR push_bit (11 - 7) (inp ! 7 mod push_bit 7 1), drop_bit 7 (inp ! 7) mod push_bit 11 1,
       drop_bit 18 (inp ! 7) mod push_bit 11 1, drop_bit 29 (inp ! 7) OR push_bit (11 - 8) (inp ! 8 mod push_bit 8 1),
       drop_bit 8 (inp ! 8) mod push_bit 11 1, drop_bit 19 (inp ! 8) mod push_bit 11 1,
       drop_bit 30 (inp ! 8) OR push_bit (11 - 9) (inp ! 9 mod push_bit 9 1), drop_bit 9 (inp ! 9) mod push_bit 11 1,
       drop_bit 20 (inp ! 9) mod push_bit 11 1,
       drop_bit 31 (inp ! 9) OR push_bit (11 - 10) (inp ! 10 mod push_bit 10 1),
       drop_bit 10 (inp ! 10) mod push_bit 11 1, drop_bit 21 (inp ! 10)]"

definition integratedfastunpack12 :: "u32 \<Rightarrow> u32 list \<Rightarrow> u32 list" where
  "integratedfastunpack12 initoffset inp =
    sums initoffset
      [drop_bit 0 (inp ! 0) mod push_bit 12 1, drop_bit 12 (inp ! 0) mod push_bit 12 1,
       drop_bit 24 (inp ! 0) OR push_bit (12 - 4) (inp ! 1 mod push_bit 4 1), drop_bit 4 (inp ! 1) mod push_bit 12 1,
       drop_bit 16 (inp ! 1) mod push_bit 12 1, drop_bit 28 (inp ! 1) OR push_bit (12 - 8) (inp ! 2 mod push_bit 8 1),
       drop_bit 8 (inp ! 2) mod push_bit 12 1, drop_bit 20 (inp ! 2), drop_bit 0 (inp ! 3) mod push_bit 12 1,
       drop_bit 12 (inp ! 3) mod push_bit 12 1, drop_bit 24 (inp ! 3) OR push_bit (12 - 4) (inp ! 4 mod push_bit 4 1),
       drop_bit 4 (inp ! 4) mod push_bit 12 1, drop_bit 16 (inp ! 4) mod push_bit 12 1,
       drop_bit 28 (inp ! 4) OR push_bit (12 - 8) (inp ! 5 mod push_bit 8 1), drop_bit 8 (inp ! 5) mod push_bit 12 1,
       drop_bit 20 (inp ! 5), drop_bit 0 (inp ! 6) mod push_bit 12 1, drop_bit 12 (inp ! 6) mod push_bit 12 1,
       drop_bit 24 (inp ! 6) OR push_bit (12 - 4) (inp ! 7 mod push_bit 4 1), drop_bit 4 (inp ! 7) mod push_bit 12 1,
       drop_bit 16 (inp ! 7) mod push_bit 12 1, drop_bit 28 (inp ! 7) OR push_bit (12 - 8) (inp ! 8 mod push_bit 8 1),
       drop_bit 8 (inp ! 8) mod push_bit 12 1, drop_bit 20 (inp ! 8), drop_bit 0 (inp ! 9) mod push_bit 12 1,
       drop_bit 12 (inp ! 9) mod push_bit 12 1,
       drop_bit 24 (inp ! 9) OR push_bit (12 - 4) (inp ! 10 mod push_bit 4 1),
       drop_bit 4 (inp ! 10) mod push_bit 12 1, drop_bit 16 (inp ! 10) mod push_bit 12 1,
       drop_bit 28 (inp ! 10) OR push_bit (12 - 8) (inp ! 11 mod push_bit 8 1),
       drop_bit 8 (inp ! 11) mod push_bit 12 1, drop_bit 20 (inp ! 11)]"

definition integratedfastunpack13 :: "u32 \<Rightarrow> u32 list \<Rightarrow> u32 list" where
  "integratedfastunpack13 initoffset inp =
    sums initoffset
      [drop_bit 0 (inp ! 0) mod push_bit 13 1, drop_bit 13 (inp ! 0) mod push_bit 13 1,
       drop_bit 26 (inp ! 0) OR push_bit (13 - 7) (inp ! 1 mod push_bit 7 1), drop_bit 7 (inp ! 1) mod push_bit 13 1,
       drop_bit 20 (inp ! 1) OR push_bit (13 - 1) (inp ! 2 mod push_bit 1 1), drop_bit 1 (inp ! 2) mod push_bit 13 1,
       drop_bit 14 (inp ! 2) mod push_bit 13 1, drop_bit 27 (inp ! 2) OR push_bit (13 - 8) (inp ! 3 mod push_bit 8 1),
       drop_bit 8 (inp ! 3) mod push_bit 13 1, drop_bit 21 (inp ! 3) OR push_bit (13 - 2) (inp ! 4 mod push_bit 2 1),
       drop_bit 2 (inp ! 4) mod push_bit 13 1, drop_bit 15 (inp ! 4) mod push_bit 13 1,
       drop_bit 28 (inp ! 4) OR push_bit (13 - 9) (inp ! 5 mod push_bit 9 1), drop_bit 9 (inp ! 5) mod push_bit 13 1,
       drop_bit 22 (inp ! 5) OR push_bit (13 - 3) (inp ! 6 mod push_bit 3 1), drop_bit 3 (inp ! 6) mod push_bit 13 1,
       drop_bit 16 (inp ! 6) mod push_bit 13 1,
       drop_bit 29 (inp ! 6) OR push_bit (13 - 10) (inp ! 7 mod push_bit 10 1),
       drop_bit 10 (inp ! 7) mod push_bit 13 1, drop_bit 23 (inp ! 7) OR push_bit (13 - 4) (inp ! 8 mod push_bit 4 1),
       drop_bit 4 (inp ! 8) mod push_bit 13 1, drop_bit 17 (inp ! 8) mod push_bit 13 1,
       drop_bit 30 (inp ! 8) OR push_bit (13 - 11) (inp ! 9 mod push_bit 11 1),
       drop_bit 11 (inp ! 9) mod push_bit 13 1,
       drop_bit 24 (inp ! 9) OR push_bit (13 - 5) (inp ! 10 mod push_bit 5 1),
       drop_bit 5 (inp ! 10) mod push_bit 13 1, drop_bit 18 (inp ! 10) mod push_bit 13 1,
       drop_bit 31 (inp ! 10) OR push_bit (13 - 12) (inp ! 11 mod push_bit 12 1),
       drop_bit 12 (inp ! 11) mod push_bit 13 1,
       drop_bit 25 (inp ! 11) OR push_bit (13 - 6) (inp ! 12 mod push_bit 6 1),
       drop_bit 6 (inp ! 12) mod push_bit 13 1, drop_bit 19 (inp ! 12)]"

definition integratedfastunpack14 :: "u32 \<Rightarrow> u32 list \<Rightarrow> u32 list" where
  "integratedfastunpack14 initoffset inp =
    sums initoffset
      [drop_bit 0 (inp ! 0) mod push_bit 14 1, drop_bit 14 (inp ! 0) mod push_bit 14 1,
       drop_bit 28 (inp ! 0) OR push_bit (14 - 10) (inp ! 1 mod push_bit 10 1),
       drop_bit 10 (inp ! 1) mod push_bit 14 1, drop_bit 24 (inp ! 1) OR push_bit (14 - 6) (inp ! 2 mod push_bit 6 1),
       drop_bit 6 (inp ! 2) mod push_bit 14 1, drop_bit 20 (inp ! 2) OR push_bit (14 - 2) (inp ! 3 mod push_bit 2 1),
       drop_bit 2 (inp ! 3) mod push_bit 14 1, drop_bit 16 (inp ! 3) mod push_bit 14 1,
       drop_bit 30 (inp ! 3) OR push_bit (14 - 12) (inp ! 4 mod push_bit 12 1),
       drop_bit 12 (inp ! 4) mod push_bit 14 1, drop_bit 26 (inp ! 4) OR push_bit (14 - 8) (inp ! 5 mod push_bit 8 1),
       drop_bit 8 (inp ! 5) mod push_bit 14 1, drop_bit 22 (inp ! 5) OR push_bit (14 - 4) (inp ! 6 mod push_bit 4 1),
       drop_bit 4 (inp ! 6) mod push_bit 14 1, drop_bit 18 (inp ! 6), drop_bit 0 (inp ! 7) mod push_bit 14 1,
       drop_bit 14 (inp ! 7) mod push_bit 14 1,
       drop_bit 28 (inp ! 7) OR push_bit (14 - 10) (inp ! 8 mod push_bit 10 1),
       drop_bit 10 (inp ! 8) mod push_bit 14 1, drop_bit 24 (inp ! 8) OR push_bit (14 - 6) (inp ! 9 mod push_bit 6 1),
       drop_bit 6 (inp ! 9) mod push_bit 14 1, drop_bit 20 (inp ! 9) OR push_bit (14 - 2) (inp ! 10 mod push_bit 2 1),
       drop_bit 2 (inp ! 10) mod push_bit 14 1, drop_bit 16 (inp ! 10) mod push_bit 14 1,
       drop_bit 30 (inp ! 10) OR push_bit (14 - 12) (inp ! 11 mod push_bit 12 1),
       drop_bit 12 (inp ! 11) mod push_bit 14 1,
       drop_bit 26 (inp ! 11) OR push_bit (14 - 8) (inp ! 12 mod push_bit 8 1),
       drop_bit 8 (inp ! 12) mod push_bit 14 1,
       drop_bit 22 (inp ! 12) OR push_bit (14 - 4) (inp ! 13 mod push_bit 4 1),
       drop_bit 4 (inp ! 13) mod push_bit 14 1, drop_bit 18 (inp ! 13)]"

definition integratedfastunpack15 :: "u32 \<Rightarrow> u32 list \<Rightarrow> u32 list" where
  "integratedfastunpack15 initoffset inp =
    sums initoffset
      [drop_bit 0 (inp ! 0) mod push_bit 15 1, drop_bit 15 (inp ! 0) mod push_bit 15 1,
       drop_bit 30 (inp ! 0) OR push_bit (15 - 13) (inp ! 1 mod push_bit 13 1),
       drop_bit 13 (inp ! 1) mod push_bit 15 1,
       drop_bit 28 (inp ! 1) OR push_bit (15 - 11) (inp ! 2 mod push_bit 11 1),
       drop_bit 11 (inp ! 2) mod push_bit 15 1, drop_bit 26 (inp ! 2) OR push_bit (15 - 9) (inp ! 3 mod push_bit 9 1),
       drop_bit 9 (inp ! 3) mod push_bit 15 1, drop_bit 24 (inp ! 3) OR push_bit (15 - 7) (inp ! 4 mod push_bit 7 1),
       drop_bit 7 (inp ! 4) mod push_bit 15 1, drop_bit 22 (inp ! 4) OR push_bit (15 - 5) (inp ! 5 mod push_bit 5 1),
       drop_bit 5 (inp ! 5) mod push_bit 15 1, drop_bit 20 (inp ! 5) OR push_bit (15 - 3) (inp ! 6 mod push_bit 3 1),
       drop_bit 3 (inp ! 6) mod push_bit 15 1, drop_bit 18 (inp ! 6) OR push_bit (15 - 1) (inp ! 7 mod push_bit 1 1),
       drop_bit 1 (inp ! 7) mod push_bit 15 1, drop_bit 16 (inp ! 7) mod push_bit 15 1,
       drop_bit 31 (inp ! 7) OR push_bit (15 - 14) (inp ! 8 mod push_bit 14 1),
       drop_bit 14 (inp ! 8) mod push_bit 15 1,
       drop_bit 29 (inp ! 8) OR push_bit (15 - 12) (inp ! 9 mod push_bit 12 1),
       drop_bit 12 (inp ! 9) mod push_bit 15 1,
       drop_bit 27 (inp ! 9) OR push_bit (15 - 10) (inp ! 10 mod push_bit 10 1),
       drop_bit 10 (inp ! 10) mod push_bit 15 1,
       drop_bit 25 (inp ! 10) OR push_bit (15 - 8) (inp ! 11 mod push_bit 8 1),
       drop_bit 8 (inp ! 11) mod push_bit 15 1,
       drop_bit 23 (inp ! 11) OR push_bit (15 - 6) (inp ! 12 mod push_bit 6 1),
       drop_bit 6 (inp ! 12) mod push_bit 15 1,
       drop_bit 21 (inp ! 12) OR push_bit (15 - 4) (inp ! 13 mod push_bit 4 1),
       drop_bit 4 (inp ! 13) mod push_bit 15 1,
       drop_bit 19 (inp ! 13) OR push_bit (15 - 2) (inp ! 14 mod push_bit 2 1),
       drop_bit 2 (inp ! 14) mod push_bit 15 1, drop_bit 17 (inp ! 14)]"

definition integratedfastunpack16 :: "u32 \<Rightarrow> u32 list \<Rightarrow> u32 list" where
  "integratedfastunpack16 initoffset inp =
    sums initoffset
      ((inp ! 0 mod push_bit 16 1) # map (\<lambda>k. drop_bit (16 * k) (inp ! 0) mod push_bit 16 1) [1..<2] @
       concat (map (\<lambda>w. map (\<lambda>k. drop_bit (16 * k) (inp ! w) mod push_bit 16 1) [0..<2]) [1..<16]))"

definition integratedfastunpack17 :: "u32 \<Rightarrow> u32 list \<Rightarrow> u32 list" where
  "integratedfastunpack17 initoffset inp =
    sums initoffset
      [drop_bit 0 (inp ! 0) mod push_bit 17 1, drop_bit 17 (inp ! 0) OR push_bit (17 - 2) (inp ! 1 mod push_bit 2 1),
       drop_bit 2 (inp ! 1) mod push_bit 17 1, drop_bit 19 (inp ! 1) OR push_bit (17 - 4) (inp ! 2 mod push_bit 4 1),
       drop_bit 4 (inp ! 2) mod push_bit 17 1, drop_bit 21 (inp ! 2) OR push_bit (17 - 6) (inp ! 3 mod push_bit 6 1),
       drop_bit 6 (inp ! 3) mod push_bit 17 1, drop_bit 23 (inp ! 3) OR push_bit (17 - 8) (inp ! 4 mod push_bit 8 1),
       drop_bit 8 (inp ! 4) mod push_bit 17 1,
       drop_bit 25 (inp ! 4) OR push_bit (17 - 10) (inp ! 5 mod push_bit 10 1),
       drop_bit 10 (inp ! 5) mod push_bit 17 1,
       drop_bit 27 (inp ! 5) OR push_bit (17 - 12) (inp ! 6 mod push_bit 12 1),
       drop_bit 12 (inp ! 6) mod push_bit 17 1,
       drop_bit 29 (inp ! 6) OR push_bit (17 - 14) (inp ! 7 mod push_bit 14 1),
       drop_bit 14 (inp ! 7) mod push_bit 17 1,
       drop_bit 31 (inp ! 7) OR push_bit (17 - 16) (inp ! 8 mod push_bit 16 1),
       drop_bit 16 (inp ! 8) OR push_bit (17 - 1) (inp ! 9 mod push_bit 1 1), drop_bit 1 (inp ! 9) mod push_bit 17 1,
       drop_bit 18 (inp ! 9) OR push_bit (17 - 3) (inp ! 10 mod push_bit 3 1),
       drop_bit 3 (inp ! 10) mod push_bit 17 1,
       drop_bit 20 (inp ! 10) OR push_bit (17 - 5) (inp ! 11 mod push_bit 5 1),
       drop_bit 5 (inp ! 11) mod push_bit 17 1,
       drop_bit 22 (inp ! 11) OR push_bit (17 - 7) (inp ! 12 mod push_bit 7 1),
       drop_bit 7 (inp ! 12) mod push_bit 17 1,
       drop_bit 24 (inp ! 12) OR push_bit (17 - 9) (inp ! 13 mod push_bit 9 1),
       drop_bit 9 (inp ! 13) mod push_bit 17 1,
       drop_bit 26 (inp ! 13) OR push_bit (17 - 11) (inp ! 14 mod push_bit 11 1),
       drop_bit 11 (inp ! 14) mod push_bit 17 1,
       drop_bit 28 (inp ! 14) OR push_bit (17 - 13) (inp ! 15 mod push_bit 13 1),
       drop_bit 13 (inp ! 15) mod push_bit 17 1,
       drop_bit 30 (inp ! 15) OR push_bit (17 - 15) (inp ! 16 mod push_bit 15 1), drop_bit 15 (inp ! 16)]"

definition integratedfastunpack18 :: "u32 \<Rightarrow> u32 list \<Rightarrow> u32 list" where
  "integratedfastunpack18 initoffset inp =
    sums initoffset
      [drop_bit 0 (inp ! 0) mod push_bit 18 1, drop_bit 18 (inp ! 0) OR push_bit (18 - 4) (inp ! 1 mod push_bit 4 1),
       drop_bit 4 (inp ! 1) mod push_bit 18 1, drop_bit 22 (inp ! 1) OR push_bit (18 - 8) (inp ! 2 mod push_bit 8 1),
       drop_bit 8 (inp ! 2) mod push_bit 18 1,
       drop_bit 26 (inp ! 2) OR push_bit (18 - 12) (inp ! 3 mod push_bit 12 1),
       drop_bit 12 (inp ! 3) mod push_bit 18 1,
       drop_bit 30 (inp ! 3) OR push_bit (18 - 16) (inp ! 4 mod push_bit 16 1),
       drop_bit 16 (inp ! 4) OR push_bit (18 - 2) (inp ! 5 mod push_bit 2 1), drop_bit 2 (inp ! 5) mod push_bit 18 1,
       drop_bit 20 (inp ! 5) OR push_bit (18 - 6) (inp ! 6 mod push_bit 6 1), drop_bit 6 (inp ! 6) mod push_bit 18 1,
       drop_bit 24 (inp ! 6) OR push_bit (18 - 10) (inp ! 7 mod push_bit 10 1),
       drop_bit 10 (inp ! 7) mod push_bit 18 1,
       drop_bit 28 (inp ! 7) OR push_bit (18 - 14) (inp ! 8 mod push_bit 14 1), drop_bit 14 (inp ! 8),
       drop_bit 0 (inp ! 9) mod push_bit 18 1, drop_bit 18 (inp ! 9) OR push_bit (18 - 4) (inp ! 10 mod push_bit 4 1),
       drop_bit 4 (inp ! 10) mod push_bit 18 1,
       drop_bit 22 (inp ! 10) OR push_bit (18 - 8) (inp ! 11 mod push_bit 8 1),
       drop_bit 8 (inp ! 11) mod push_bit 18 1,
       drop_bit 26 (inp ! 11) OR push_bit (18 - 12) (inp ! 12 mod push_bit 12 1),
       drop_bit 12 (inp ! 12) mod push_bit 18 1,
       drop_bit 30 (inp ! 12) OR push_bit (18 - 16) (inp ! 13 mod push_bit 16 1),
       drop_bit 16 (inp ! 13) OR push_bit (18 - 2) (inp ! 14 mod push_bit 2 1),
       drop_bit 2 (inp ! 14) mod push_bit 18 1,
       drop_bit 20 (inp ! 14) OR push_bit (18 - 6) (inp ! 15 mod push_bit 6 1),
       drop_bit 6 (inp ! 15) mod push_bit 18 1,
       drop_bit 24 (inp ! 15) OR push_bit (18 - 10) (inp ! 16 mod push_bit 10 1),
       drop_bit 10 (inp ! 16) mod push_bit 18 1,
       drop_bit 28 (inp ! 16) OR push_bit (18 - 14) (inp ! 17 mod push_bit 14 1), drop_bit 14 (inp ! 17)]"

definition integratedfastunpack19 :: "u32 \<Rightarrow> u32 list \<Rightarrow> u32 list" where
  "integratedfastunpack19 initoffset inp =
    sums initoffset
      [drop_bit 0 (inp ! 0) mod push_bit 19 1, drop_bit 19 (inp ! 0) OR push_bit (19 - 6) (inp ! 1 mod push_bit 6 1),
       drop_bit 6 (inp ! 1) mod push_bit 19 1,
       drop_bit 25 (inp ! 1) OR push_bit (19 - 12) (inp ! 2 mod push_bit 12 1),
       drop_bit 12 (inp ! 2) mod push_bit 19 1,
       drop_bit 31 (inp ! 2) OR push_bit (19 - 18) (inp ! 3 mod push_bit 18 1),
       drop_bit 18 (inp ! 3) OR push_bit (19 - 5) (inp ! 4 mod push_bit 5 1), drop_bit 5 (inp ! 4) mod push_bit 19 1,
       drop_bit 24 (inp ! 4) OR push_bit (19 - 11) (inp ! 5 mod push_bit 11 1),
       drop_bit 11 (inp ! 5) mod push_bit 19 1,
       drop_bit 30 (inp ! 5) OR push_bit (19 - 17) (inp ! 6 mod push_bit 17 1),
       drop_bit 17 (inp ! 6) OR push_bit (19 - 4) (inp ! 7 mod push_bit 4 1), drop_bit 4 (inp ! 7) mod push_bit 19 1,
       drop_bit 23 (inp ! 7) OR push_bit (19 - 10) (inp ! 8 mod push_bit 10 1),
       drop_bit 10 (inp ! 8) mod push_bit 19 1,
       drop_bit 29 (inp ! 8) OR push_bit (19 - 16) (inp ! 9 mod push_bit 16 1),
       drop_bit 16 (inp ! 9) OR push_bit (19 - 3) (inp ! 10 mod push_bit 3 1),
       drop_bit 3 (inp ! 10) mod push_bit 19 1,
       drop_bit 22 (inp ! 10) OR push_bit (19 - 9) (inp ! 11 mod push_bit 9 1),
       drop_bit 9 (inp ! 11) mod push_bit 19 1,
       drop_bit 28 (inp ! 11) OR push_bit (19 - 15) (inp ! 12 mod push_bit 15 1),
       drop_bit 15 (inp ! 12) OR push_bit (19 - 2) (inp ! 13 mod push_bit 2 1),
       drop_bit 2 (inp ! 13) mod push_bit 19 1,
       drop_bit 21 (inp ! 13) OR push_bit (19 - 8) (inp ! 14 mod push_bit 8 1),
       drop_bit 8 (inp ! 14) mod push_bit 19 1,
       drop_bit 27 (inp ! 14) OR push_bit (19 - 14) (inp ! 15 mod push_bit 14 1),
       drop_bit 14 (inp ! 15) OR push_bit (19 - 1) (inp ! 16 mod push_bit 1 1),
       drop_bit 1 (inp ! 16) mod push_bit 19 1,
       drop_bit 20 (inp ! 16) OR push_bit (19 - 7) (inp ! 17 mod push_bit 7 1),
       drop_bit 7 (inp ! 17) mod push_bit 19 1,
       drop_bit 26 (inp ! 17) OR push_bit (19 - 13) (inp ! 18 mod push_bit 13 1), drop_bit 13 (inp ! 18)]"

definition integratedfastunpack20 :: "u32 \<Rightarrow> u32 list \<Rightarrow> u32 list" where
  "integratedfastunpack20 initoffset inp =
    sums initoffset
      [drop_bit 0 (inp ! 0) mod push_bit 20 1, drop_bit 20 (inp ! 0) OR push_bit (20 - 8) (inp ! 1 mod push_bit 8 1),
       drop_bit 8 (inp ! 1) mod push_bit 20 1,
       drop_bit 28 (inp ! 1) OR push_bit (20 - 16) (inp ! 2 mod push_bit 16 1),
       drop_bit 16 (inp ! 2) OR push_bit (20 - 4) (inp ! 3 mod push_bit 4 1), drop_bit 4 (inp ! 3) mod push_bit 20 1,
       drop_bit 24 (inp ! 3) OR push_bit (20 - 12) (inp ! 4 mod push_bit 12 1), drop_bit 12 (inp ! 4),
       drop_bit 0 (inp ! 5) mod push_bit 20 1, drop_bit 20 (inp ! 5) OR push_bit (20 - 8) (inp ! 6 mod push_bit 8 1),
       drop_bit 8 (inp ! 6) mod push_bit 20 1,
       drop_bit 28 (inp ! 6) OR push_bit (20 - 16) (inp ! 7 mod push_bit 16 1),
       drop_bit 16 (inp ! 7) OR push_bit (20 - 4) (inp ! 8 mod push_bit 4 1), drop_bit 4 (inp ! 8) mod push_bit 20 1,
       drop_bit 24 (inp ! 8) OR push_bit (20 - 12) (inp ! 9 mod push_bit 12 1), drop_bit 12 (inp ! 9),
       drop_bit 0 (inp ! 10) mod push_bit 20 1,
       drop_bit 20 (inp ! 10) OR push_bit (20 - 8) (inp ! 11 mod push_bit 8 1),
       drop_bit 8 (inp ! 11) mod push_bit 20 1,
       drop_bit 28 (inp ! 11) OR push_bit (20 - 16) (inp ! 12 mod push_bit 16 1),
       drop_bit 16 (inp ! 12) OR push_bit (20 - 4) (inp ! 13 mod push_bit 4 1),
       drop_bit 4 (inp ! 13) mod push_bit 20 1,
       drop_bit 24 (inp ! 13) OR push_bit (20 - 12) (inp ! 14 mod push_bit 12 1), drop_bit 12 (inp ! 14),
       drop_bit 0 (inp ! 15) mod push_bit 20 1,
       drop_bit 20 (inp ! 15) OR push_bit (20 - 8) (inp ! 16 mod push_bit 8 1),
       drop_bit 8 (inp ! 16) mod push_bit 20 1,
       drop_bit 28 (inp ! 16) OR push_bit (20 - 16) (inp ! 17 mod push_bit 16 1),
       drop_bit 16 (inp ! 17) OR push_bit (20 - 4) (inp ! 18 mod push_bit 4 1),
       drop_bit 4 (inp ! 18) mod push_bit 20 1,
       drop_bit 24 (inp ! 18) OR push_bit (20 - 12) (inp ! 19 mod push_bit 12 1), drop_bit 12 (inp ! 19)]"

definition integratedfastunpack21 :: "u32 \<Rightarrow> u32 list \<Rightarrow> u32 list" where
  "integratedfastunpack21 initoffset inp =
    sums initoffset
      [drop_bit 0 (inp ! 0) mod push_bit 21 1,
       drop_bit 21 (inp ! 0) OR push_bit (21 - 10) (inp ! 1 mod push_bit 10 1),
       drop_bit 10 (inp ! 1) mod push_bit 21 1,
       drop_bit 31 (inp ! 1) OR push_bit (21 - 20) (inp ! 2 mod push_bit 20 1),
       drop_bit 20 (inp ! 2) OR push_bit (21 - 9) (inp ! 3 mod push_bit 9 1), drop_bit 9 (inp ! 3) mod push_bit 21 1,
       drop_bit 30 (inp ! 3) OR push_bit (21 - 19) (inp ! 4 mod push_bit 19 1),
       drop_bit 19 (inp ! 4) OR push_bit (21 - 8) (inp ! 5 mod push_bit 8 1), drop_bit 8 (inp ! 5) mod push_bit 21 1,
       drop_bit 29 (inp ! 5) OR push_bit (21 - 18) (inp ! 6 mod push_bit 18 1),
       drop_bit 18 (inp ! 6) OR push_bit (21 - 7) (inp ! 7 mod push_bit 7 1), drop_bit 7 (inp ! 7) mod push_bit 21 1,
       drop_bit 28 (inp ! 7) OR push_bit (21 - 17) (inp ! 8 mod push_bit 17 1),
       drop_bit 17 (inp ! 8) OR push_bit (21 - 6) (inp ! 9 mod push_bit 6 1), drop_bit 6 (inp ! 9) mod push_bit 21 1,
       drop_bit 27 (inp ! 9) OR push_bit (21 - 16) (inp ! 10 mod push_bit 16 1),
       drop_bit 16 (inp ! 10) OR push_bit (21 - 5) (inp ! 11 mod push_bit 5 1),
       drop_bit 5 (inp ! 11) mod push_bit 21 1,
       drop_bit 26 (inp ! 11) OR push_bit (21 - 15) (inp ! 12 mod push_bit 15 1),
       drop_bit 15 (inp ! 12) OR push_bit (21 - 4) (inp ! 13 mod push_bit 4 1),
       drop_bit 4 (inp ! 13) mod push_bit 21 1,
       drop_bit 25 (inp ! 13) OR push_bit (21 - 14) (inp ! 14 mod push_bit 14 1),
       drop_bit 14 (inp ! 14) OR push_bit (21 - 3) (inp ! 15 mod push_bit 3 1),
       drop_bit 3 (inp ! 15) mod push_bit 21 1,
       drop_bit 24 (inp ! 15) OR push_bit (21 - 13) (inp ! 16 mod push_bit 13 1),
       drop_bit 13 (inp ! 16) OR push_bit (21 - 2) (inp ! 17 mod push_bit 2 1),
       drop_bit 2 (inp ! 17) mod push_bit 21 1,
       drop_bit 23 (inp ! 17) OR push_bit (21 - 12) (inp ! 18 mod push_bit 12 1),
       drop_bit 12 (inp ! 18) OR push_bit (21 - 1) (inp ! 19 mod push_bit 1 1),
       drop_bit 1 (inp ! 19) mod push_bit 21 1,
       drop_bit 22 (inp ! 19) OR push_bit (21 - 11) (inp ! 20 mod push_bit 11 1), drop_bit 11 (inp ! 20)]"

definition integratedfastunpack22 :: "u32 \<Rightarrow> u32 list \<Rightarrow> u32 list" where
  "integratedfastunpack22 initoffset inp =
    sums initoffset
      [drop_bit 0 (inp ! 0) mod push_bit 22 1,
       drop_bit 22 (inp ! 0) OR push_bit (22 - 12) (inp ! 1 mod push_bit 12 1),
       drop_bit 12 (inp ! 1) OR push_bit (22 - 2) (inp ! 2 mod push_bit 2 1), drop_bit 2 (inp ! 2) mod push_bit 22 1,
       drop_bit 24 (inp ! 2) OR push_bit (22 - 14) (inp ! 3 mod push_bit 14 1),
       drop_bit 14 (inp ! 3) OR push_bit (22 - 4) (inp ! 4 mod push_bit 4 1), drop_bit 4 (inp ! 4) mod push_bit 22 1,
       drop_bit 26 (inp ! 4) OR push_bit (22 - 16) (inp ! 5 mod push_bit 16 1),
       drop_bit 16 (inp ! 5) OR push_bit (22 - 6) (inp ! 6 mod push_bit 6 1), drop_bit 6 (inp ! 6) mod push_bit 22 1,
       drop_bit 28 (inp ! 6) OR push_bit (22 - 18) (inp ! 7 mod push_bit 18 1),
       drop_bit 18 (inp ! 7) OR push_bit (22 - 8) (inp ! 8 mod push_bit 8 1), drop_bit 8 (inp ! 8) mod push_bit 22 1,
       drop_bit 30 (inp ! 8) OR push_bit (22 - 20) (inp ! 9 mod push_bit 20 1),
       drop_bit 20 (inp ! 9) OR push_bit (22 - 10) (inp ! 10 mod push_bit 10 1), drop_bit 10 (inp ! 10),
       drop_bit 0 (inp ! 11) mod push_bit 22 1,
       drop_bit 22 (inp ! 11) OR push_bit (22 - 12) (inp ! 12 mod push_bit 12 1),
       drop_bit 12 (inp ! 12) OR push_bit (22 - 2) (inp ! 13 mod push_bit 2 1),
       drop_bit 2 (inp ! 13) mod push_bit 22 1,
       drop_bit 24 (inp ! 13) OR push_bit (22 - 14) (inp ! 14 mod push_bit 14 1),
       drop_bit 14 (inp ! 14) OR push_bit (22 - 4) (inp ! 15 mod push_bit 4 1),
       drop_bit 4 (inp ! 15) mod push_bit 22 1,
       drop_bit 26 (inp ! 15) OR push_bit (22 - 16) (inp ! 16 mod push_bit 16 1),
       drop_bit 16 (inp ! 16) OR push_bit (22 - 6) (inp ! 17 mod push_bit 6 1),
       drop_bit 6 (inp ! 17) mod push_bit 22 1,
       drop_bit 28 (inp ! 17) OR push_bit (22 - 18) (inp ! 18 mod push_bit 18 1),
       drop_bit 18 (inp ! 18) OR push_bit (22 - 8) (inp ! 19 mod push_bit 8 1),
       drop_bit 8 (inp ! 19) mod push_bit 22 1,
       drop_bit 30 (inp ! 19) OR push_bit (22 - 20) (inp ! 20 mod push_bit 20 1),
       drop_bit 20 (inp ! 20) OR push_bit (22 - 10) (inp ! 21 mod push_bit 10 1), drop_bit 10 (inp ! 21)]"

definition integratedfastunpack23 :: "u32 \<Rightarrow> u32 list \<Rightarrow> u32 list" where
  "integratedfastunpack23 initoffset inp =
    sums initoffset
      [drop_bit 0 (inp ! 0) mod push_bit 23 1,
       drop_bit 23 (inp ! 0) OR push_bit (23 - 14) (inp ! 1 mod push_bit 14 1),
       drop_bit 14 (inp ! 1) OR push_bit (23 - 5) (inp ! 2 mod push_bit 5 1), drop_bit 5 (inp ! 2) mod push_bit 23 1,
       drop_bit 28 (inp ! 2) OR push_bit (23 - 19) (inp ! 3 mod push_bit 19 1),
       drop_bit 19 (inp ! 3) OR push_bit (23 - 10) (inp ! 4 mod push_bit 10 1),
       drop_bit 10 (inp ! 4) OR push_bit (23 - 1) (inp ! 5 mod push_bit 1 1), drop_bit 1 (inp ! 5) mod push_bit 23 1,
       drop_bit 24 (inp ! 5) OR push_bit (23 - 15) (inp ! 6 mod push_bit 15 1),
       drop_bit 15 (inp ! 6) OR push_bit (23 - 6) (inp ! 7 mod push_bit 6 1), drop_bit 6 (inp ! 7) mod push_bit 23 1,
       drop_bit 29 (inp ! 7) OR push_bit (23 - 20) (inp ! 8 mod push_bit 20 1),
       drop_bit 20 (inp ! 8) OR push_bit (23 - 11) (inp ! 9 mod push_bit 11 1),
       drop_bit 11 (inp ! 9) OR push_bit (23 - 2) (inp ! 10 mod push_bit 2 1),
       drop_bit 2 (inp ! 10) mod push_bit 23 1,
       drop_bit 25 (inp ! 10) OR push_bit (23 - 16) (inp ! 11 mod push_bit 16 1),
       drop_bit 16 (inp ! 11) OR push_bit (23 - 7) (inp ! 12 mod push_bit 7 1),
       drop_bit 7 (inp ! 12) mod push_bit 23 1,
       drop_bit 30 (inp ! 12) OR push_bit (23 - 21) (inp ! 13 mod push_bit 21 1),
       drop_bit 21 (inp ! 13) OR push_bit (23 - 12) (inp ! 14 mod push_bit 12 1),
       drop_bit 12 (inp ! 14) OR push_bit (23 - 3) (inp ! 15 mod push_bit 3 1),
       drop_bit 3 (inp ! 15) mod push_bit 23 1,
       drop_bit 26 (inp ! 15) OR push_bit (23 - 17) (inp ! 16 mod push_bit 17 1),
       drop_bit 17 (inp ! 16) OR push_bit (23 - 8) (inp ! 17 mod push_bit 8 1),
       drop_bit 8 (inp ! 17) mod push_bit 23 1,
       drop_bit 31 (inp ! 17) OR push_bit (23 - 22) (inp ! 18 mod push_bit 22 1),
       drop_bit 22 (inp ! 18) OR push_bit (23 - 13) (inp ! 19 mod push_bit 13 1),
       drop_bit 13 (inp ! 19) OR push_bit (23 - 4) (inp ! 20 mod push_bit 4 1),
       drop_bit 4 (inp ! 20) mod push_bit 23 1,
       drop_bit 27 (inp ! 20) OR push_bit (23 - 18) (inp ! 21 mod push_bit 18 1),
       drop_bit 18 (inp ! 21) OR push_bit (23 - 9) (inp ! 22 mod push_bit 9 1), drop_bit 9 (inp ! 22)]"

definition integratedfastunpack24 :: "u32 \<Rightarrow> u32 list \<Rightarrow> u32 list" where
  "integratedfastunpack24 initoffset inp =
    sums initoffset
      [drop_bit 0 (inp ! 0) mod push_bit 24 1,
       drop_bit 24 (inp ! 0) OR push_bit (24 - 16) (inp ! 1 mod push_bit 16 1),
       drop_bit 16 (inp ! 1) OR push_bit (24 - 8) (inp ! 2 mod push_bit 8 1), drop_bit 8 (inp ! 2),
       drop_bit 0 (inp ! 3) mod push_bit 24 1,
       drop_bit 24 (inp ! 3) OR push_bit (24 - 16) (inp ! 4 mod push_bit 16 1),
       drop_bit 16 (inp ! 4) OR push_bit (24 - 8) (inp ! 5 mod push_bit 8 1), drop_bit 8 (inp ! 5),
       drop_bit 0 (inp ! 6) mod push_bit 24 1,
       drop_bit 24 (inp ! 6) OR push_bit (24 - 16) (inp ! 7 mod push_bit 16 1),
       drop_bit 16 (inp ! 7) OR push_bit (24 - 8) (inp ! 8 mod push_bit 8 1), drop_bit 8 (inp ! 8),
       drop_bit 0 (inp ! 9) mod push_bit 24 1,
       drop_bit 24 (inp ! 9) OR push_bit (24 - 16) (inp ! 10 mod push_bit 16 1),
       drop_bit 16 (inp ! 10) OR push_bit (24 - 8) (inp ! 11 mod push_bit 8 1), drop_bit 8 (inp ! 11),
       drop_bit 0 (inp ! 12) mod push_bit 24 1,
       drop_bit 24 (inp ! 12) OR push_bit (24 - 16) (inp ! 13 mod push_bit 16 1),
       drop_bit 16 (inp ! 13) OR push_bit (24 - 8) (inp ! 14 mod push_bit 8 1), drop_bit 8 (inp ! 14),
       drop_bit 0 (inp ! 15) mod push_bit 24 1,
       drop_bit 24 (inp ! 15) OR push_bit (24 - 16) (inp ! 16 mod push_bit 16 1),
       drop_bit 16 (inp ! 16) OR push_bit (24 - 8) (inp ! 17 mod push_bit 8 1), drop_bit 8 (inp ! 17),
       drop_bit 0 (inp ! 18) mod push_bit 24 1,
       drop_bit 24 (inp ! 18) OR push_bit (24 - 16) (inp ! 19 mod push_bit 16 1),
       drop_bit 16 (inp ! 19) OR push_bit (24 - 8) (inp ! 20 mod push_bit 8 1), drop_bit 8 (inp ! 20),
       drop_bit 0 (inp ! 21) mod push_bit 24 1,
       drop_bit 24 (inp ! 21) OR push_bit (24 - 16) (inp ! 22 mod push_bit 16 1),
       drop_bit 16 (inp ! 22) OR push_bit (24 - 8) (inp ! 23 mod push_bit 8 1), drop_bit 8 (inp ! 23)]"

definition integratedfastunpack25 :: "u32 \<Rightarrow> u32 list \<Rightarrow> u32 list" where
  "integratedfastunpack25 initoffset inp =
    sums initoffset
      [drop_bit 0 (inp ! 0) mod push_bit 25 1,
       drop_bit 25 (inp ! 0) OR push_bit (25 - 18) (inp ! 1 mod push_bit 18 1),
       drop_bit 18 (inp ! 1) OR push_bit (25 - 11) (inp ! 2 mod push_bit 11 1),
       drop_bit 11 (inp ! 2) OR push_bit (25 - 4) (inp ! 3 mod push_bit 4 1), drop_bit 4 (inp ! 3) mod push_bit 25 1,
       drop_bit 29 (inp ! 3) OR push_bit (25 - 22) (inp ! 4 mod push_bit 22 1),
       drop_bit 22 (inp ! 4) OR push_bit (25 - 15) (inp ! 5 mod push_bit 15 1),
       drop_bit 15 (inp ! 5) OR push_bit (25 - 8) (inp ! 6 mod push_bit 8 1),
       drop_bit 8 (inp ! 6) OR push_bit (25 - 1) (inp ! 7 mod push_bit 1 1), drop_bit 1 (inp ! 7) mod push_bit 25 1,
       drop_bit 26 (inp ! 7) OR push_bit (25 - 19) (inp ! 8 mod push_bit 19 1),
       drop_bit 19 (inp ! 8) OR push_bit (25 - 12) (inp ! 9 mod push_bit 12 1),
       drop_bit 12 (inp ! 9) OR push_bit (25 - 5) (inp ! 10 mod push_bit 5 1),
       drop_bit 5 (inp ! 10) mod push_bit 25 1,
       drop_bit 30 (inp ! 10) OR push_bit (25 - 23) (inp ! 11 mod push_bit 23 1),
       drop_bit 23 (inp ! 11) OR push_bit (25 - 16) (inp ! 12 mod push_bit 16 1),
       drop_bit 16 (inp ! 12) OR push_bit (25 - 9) (inp ! 13 mod push_bit 9 1),
       drop_bit 9 (inp ! 13) OR push_bit (25 - 2) (inp ! 14 mod push_bit 2 1),
       drop_bit 2 (inp ! 14) mod push_bit 25 1,
       drop_bit 27 (inp ! 14) OR push_bit (25 - 20) (inp ! 15 mod push_bit 20 1),
       drop_bit 20 (inp ! 15) OR push_bit (25 - 13) (inp ! 16 mod push_bit 13 1),
       drop_bit 13 (inp ! 16) OR push_bit (25 - 6) (inp ! 17 mod push_bit 6 1),
       drop_bit 6 (inp ! 17) mod push_bit 25 1,
       drop_bit 31 (inp ! 17) OR push_bit (25 - 24) (inp ! 18 mod push_bit 24 1),
       drop_bit 24 (inp ! 18) OR push_bit (25 - 17) (inp ! 19 mod push_bit 17 1),
       drop_bit 17 (inp ! 19) OR push_bit (25 - 10) (inp ! 20 mod push_bit 10 1),
       drop_bit 10 (inp ! 20) OR push_bit (25 - 3) (inp ! 21 mod push_bit 3 1),
       drop_bit 3 (inp ! 21) mod push_bit 25 1,
       drop_bit 28 (inp ! 21) OR push_bit (25 - 21) (inp ! 22 mod push_bit 21 1),
       drop_bit 21 (inp ! 22) OR push_bit (25 - 14) (inp ! 23 mod push_bit 14 1),
       drop_bit 14 (inp ! 23) OR push_bit (25 - 7) (inp ! 24 mod push_bit 7 1), drop_bit 7 (inp ! 24)]"

definition integratedfastunpack26 :: "u32 \<Rightarrow> u32 list \<Rightarrow> u32 list" where
  "integratedfastunpack26 initoffset inp =
    sums initoffset
      [drop_bit 0 (inp ! 0) mod push_bit 26 1,
       drop_bit 26 (inp ! 0) OR push_bit (26 - 20) (inp ! 1 mod push_bit 20 1),
       drop_bit 20 (inp ! 1) OR push_bit (26 - 14) (inp ! 2 mod push_bit 14 1),
       drop_bit 14 (inp ! 2) OR push_bit (26 - 8) (inp ! 3 mod push_bit 8 1),
       drop_bit 8 (inp ! 3) OR push_bit (26 - 2) (inp ! 4 mod push_bit 2 1), drop_bit 2 (inp ! 4) mod push_bit 26 1,
       drop_bit 28 (inp ! 4) OR push_bit (26 - 22) (inp ! 5 mod push_bit 22 1),
       drop_bit 22 (inp ! 5) OR push_bit (26 - 16) (inp ! 6 mod push_bit 16 1),
       drop_bit 16 (inp ! 6) OR push_bit (26 - 10) (inp ! 7 mod push_bit 10 1),
       drop_bit 10 (inp ! 7) OR push_bit (26 - 4) (inp ! 8 mod push_bit 4 1), drop_bit 4 (inp ! 8) mod push_bit 26 1,
       drop_bit 30 (inp ! 8) OR push_bit (26 - 24) (inp ! 9 mod push_bit 24 1),
       drop_bit 24 (inp ! 9) OR push_bit (26 - 18) (inp ! 10 mod push_bit 18 1),
       drop_bit 18 (inp ! 10) OR push_bit (26 - 12) (inp ! 11 mod push_bit 12 1),
       drop_bit 12 (inp ! 11) OR push_bit (26 - 6) (inp ! 12 mod push_bit 6 1), drop_bit 6 (inp ! 12),
       drop_bit 0 (inp ! 13) mod push_bit 26 1,
       drop_bit 26 (inp ! 13) OR push_bit (26 - 20) (inp ! 14 mod push_bit 20 1),
       drop_bit 20 (inp ! 14) OR push_bit (26 - 14) (inp ! 15 mod push_bit 14 1),
       drop_bit 14 (inp ! 15) OR push_bit (26 - 8) (inp ! 16 mod push_bit 8 1),
       drop_bit 8 (inp ! 16) OR push_bit (26 - 2) (inp ! 17 mod push_bit 2 1),
       drop_bit 2 (inp ! 17) mod push_bit 26 1,
       drop_bit 28 (inp ! 17) OR push_bit (26 - 22) (inp ! 18 mod push_bit 22 1),
       drop_bit 22 (inp ! 18) OR push_bit (26 - 16) (inp ! 19 mod push_bit 16 1),
       drop_bit 16 (inp ! 19) OR push_bit (26 - 10) (inp ! 20 mod push_bit 10 1),
       drop_bit 10 (inp ! 20) OR push_bit (26 - 4) (inp ! 21 mod push_bit 4 1),
       drop_bit 4 (inp ! 21) mod push_bit 26 1,
       drop_bit 30 (inp ! 21) OR push_bit (26 - 24) (inp ! 22 mod push_bit 24 1),
       drop_bit 24 (inp ! 22) OR push_bit (26 - 18) (inp ! 23 mod push_bit 18 1),
       drop_bit 18 (inp ! 23) OR push_bit (26 - 12) (inp ! 24 mod push_bit 12 1),
       drop_bit 12 (inp ! 24) OR push_bit (26 - 6) (inp ! 25 mod push_bit 6 1), drop_bit 6 (inp ! 25)]"

definition integratedfastunpack27 :: "u32 \<Rightarrow> u32 list \<Rightarrow> u32 list" where
  "integratedfastunpack27 initoffset inp =
    sums initoffset
      [drop_bit 0 (inp ! 0) mod push_bit 27 1,
       drop_bit 27 (inp ! 0) OR push_bit (27 - 22) (inp ! 1 mod push_bit 22 1),
       drop_bit 22 (inp ! 1) OR push_bit (27 - 17) (inp ! 2 mod push_bit 17 1),
       drop_bit 17 (inp ! 2) OR push_bit (27 - 12) (inp ! 3 mod push_bit 12 1),
       drop_bit 12 (inp ! 3) OR push_bit (27 - 7) (inp ! 4 mod push_bit 7 1),
       drop_bit 7 (inp ! 4) OR push_bit (27 - 2) (inp ! 5 mod push_bit 2 1), drop_bit 2 (inp ! 5) mod push_bit 27 1,
       drop_bit 29 (inp ! 5) OR push_bit (27 - 24) (inp ! 6 mod push_bit 24 1),
       drop_bit 24 (inp ! 6) OR push_bit (27 - 19) (inp ! 7 mod push_bit 19 1),
       drop_bit 19 (inp ! 7) OR push_bit (27 - 14) (inp ! 8 mod push_bit 14 1),
       drop_bit 14 (inp ! 8) OR push_bit (27 - 9) (inp ! 9 mod push_bit 9 1),
       drop_bit 9 (inp ! 9) OR push_bit (27 - 4) (inp ! 10 mod push_bit 4 1), drop_bit 4 (inp ! 10) mod push_bit 27 1,
       drop_bit 31 (inp ! 10) OR push_bit (27 - 26) (inp ! 11 mod push_bit 26 1),
       drop_bit 26 (inp ! 11) OR push_bit (27 - 21) (inp ! 12 mod push_bit 21 1),
       drop_bit 21 (inp ! 12) OR push_bit (27 - 16) (inp ! 13 mod push_bit 16 1),
       drop_bit 16 (inp ! 13) OR push_bit (27 - 11) (inp ! 14 mod push_bit 11 1),
       drop_bit 11 (inp ! 14) OR push_bit (27 - 6) (inp ! 15 mod push_bit 6 1),
       drop_bit 6 (inp ! 15) OR push_bit (27 - 1) (inp ! 16 mod push_bit 1 1),
       drop_bit 1 (inp ! 16) mod push_bit 27 1,
       drop_bit 28 (inp ! 16) OR push_bit (27 - 23) (inp ! 17 mod push_bit 23 1),
       drop_bit 23 (inp ! 17) OR push_bit (27 - 18) (inp ! 18 mod push_bit 18 1),
       drop_bit 18 (inp ! 18) OR push_bit (27 - 13) (inp ! 19 mod push_bit 13 1),
       drop_bit 13 (inp ! 19) OR push_bit (27 - 8) (inp ! 20 mod push_bit 8 1),
       drop_bit 8 (inp ! 20) OR push_bit (27 - 3) (inp ! 21 mod push_bit 3 1),
       drop_bit 3 (inp ! 21) mod push_bit 27 1,
       drop_bit 30 (inp ! 21) OR push_bit (27 - 25) (inp ! 22 mod push_bit 25 1),
       drop_bit 25 (inp ! 22) OR push_bit (27 - 20) (inp ! 23 mod push_bit 20 1),
       drop_bit 20 (inp ! 23) OR push_bit (27 - 15) (inp ! 24 mod push_bit 15 1),
       drop_bit 15 (inp ! 24) OR push_bit (27 - 10) (inp ! 25 mod push_bit 10 1),
       drop_bit 10 (inp ! 25) OR push_bit (27 - 5) (inp ! 26 mod push_bit 5 1), drop_bit 5 (inp ! 26)]"

definition integratedfastunpack28 :: "u32 \<Rightarrow> u32 list \<Rightarrow> u32 list" where
  "integratedfastunpack28 initoffset inp =
    sums initoffset
      [drop_bit 0 (inp ! 0) mod push_bit 28 1,
       drop_bit 28 (inp ! 0) OR push_bit (28 - 24) (inp ! 1 mod push_bit 24 1),
       drop_bit 24 (inp ! 1) OR push_bit (28 - 20) (inp ! 2 mod push_bit 20 1),
       drop_bit 20 (inp ! 2) OR push_bit (28 - 16) (inp ! 3 mod push_bit 16 1),
       drop_bit 16 (inp ! 3) OR push_bit (28 - 12) (inp ! 4 mod push_bit 12 1),
       drop_bit 12 (inp ! 4) OR push_bit (28 - 8) (inp ! 5 mod push_bit 8 1),
       drop_bit 8 (inp ! 5) OR push_bit (28 - 4) (inp ! 6 mod push_bit 4 1), drop_bit 4 (inp ! 6),
       drop_bit 0 (inp ! 7) mod push_bit 28 1,
       drop_bit 28 (inp ! 7) OR push_bit (28 - 24) (inp ! 8 mod push_bit 24 1),
       drop_bit 24 (inp ! 8) OR push_bit (28 - 20) (inp ! 9 mod push_bit 20 1),
       drop_bit 20 (inp ! 9) OR push_bit (28 - 16) (inp ! 10 mod push_bit 16 1),
       drop_bit 16 (inp ! 10) OR push_bit (28 - 12) (inp ! 11 mod push_bit 12 1),
       drop_bit 12 (inp ! 11) OR push_bit (28 - 8) (inp ! 12 mod push_bit 8 1),
       drop_bit 8 (inp ! 12) OR push_bit (28 - 4) (inp ! 13 mod push_bit 4 1), drop_bit 4 (inp ! 13),
       drop_bit 0 (inp ! 14) mod push_bit 28 1,
       drop_bit 28 (inp ! 14) OR push_bit (28 - 24) (inp ! 15 mod push_bit 24 1),
       drop_bit 24 (inp ! 15) OR push_bit (28 - 20) (inp ! 16 mod push_bit 20 1),
       drop_bit 20 (inp ! 16) OR push_bit (28 - 16) (inp ! 17 mod push_bit 16 1),
       drop_bit 16 (inp ! 17) OR push_bit (28 - 12) (inp ! 18 mod push_bit 12 1),
       drop_bit 12 (inp ! 18) OR push_bit (28 - 8) (inp ! 19 mod push_bit 8 1),
       drop_bit 8 (inp ! 19) OR push_bit (28 - 4) (inp ! 20 mod push_bit 4 1), drop_bit 4 (inp ! 20),
       drop_bit 0 (inp ! 21) mod push_bit 28 1,
       drop_bit 28 (inp ! 21) OR push_bit (28 - 24) (inp ! 22 mod push_bit 24 1),
       drop_bit 24 (inp ! 22) OR push_bit (28 - 20) (inp ! 23 mod push_bit 20 1),
       drop_bit 20 (inp ! 23) OR push_bit (28 - 16) (inp ! 24 mod push_bit 16 1),
       drop_bit 16 (inp ! 24) OR push_bit (28 - 12) (inp ! 25 mod push_bit 12 1),
       drop_bit 12 (inp ! 25) OR push_bit (28 - 8) (inp ! 26 mod push_bit 8 1),
       drop_bit 8 (inp ! 26) OR push_bit (28 - 4) (inp ! 27 mod push_bit 4 1), drop_bit 4 (inp ! 27)]"

definition integratedfastunpack29 :: "u32 \<Rightarrow> u32 list \<Rightarrow> u32 list" where
  "integratedfastunpack29 initoffset inp =
    sums initoffset
      [drop_bit 0 (inp ! 0) mod push_bit 29 1,
       drop_bit 29 (inp ! 0) OR push_bit (29 - 26) (inp ! 1 mod push_bit 26 1),
       drop_bit 26 (inp ! 1) OR push_bit (29 - 23) (inp ! 2 mod push_bit 23 1),
       drop_bit 23 (inp ! 2) OR push_bit (29 - 20) (inp ! 3 mod push_bit 20 1),
       drop_bit 20 (inp ! 3) OR push_bit (29 - 17) (inp ! 4 mod push_bit 17 1),
       drop_bit 17 (inp ! 4) OR push_bit (29 - 14) (inp ! 5 mod push_bit 14 1),
       drop_bit 14 (inp ! 5) OR push_bit (29 - 11) (inp ! 6 mod push_bit 11 1),
       drop_bit 11 (inp ! 6) OR push_bit (29 - 8) (inp ! 7 mod push_bit 8 1),
       drop_bit 8 (inp ! 7) OR push_bit (29 - 5) (inp ! 8 mod push_bit 5 1),
       drop_bit 5 (inp ! 8) OR push_bit (29 - 2) (inp ! 9 mod push_bit 2 1), drop_bit 2 (inp ! 9) mod push_bit 29 1,
       drop_bit 31 (inp ! 9) OR push_bit (29 - 28) (inp ! 10 mod push_bit 28 1),
       drop_bit 28 (inp ! 10) OR push_bit (29 - 25) (inp ! 11 mod push_bit 25 1),
       drop_bit 25 (inp ! 11) OR push_bit (29 - 22) (inp ! 12 mod push_bit 22 1),
       drop_bit 22 (inp ! 12) OR push_bit (29 - 19) (inp ! 13 mod push_bit 19 1),
       drop_bit 19 (inp ! 13) OR push_bit (29 - 16) (inp ! 14 mod push_bit 16 1),
       drop_bit 16 (inp ! 14) OR push_bit (29 - 13) (inp ! 15 mod push_bit 13 1),
       drop_bit 13 (inp ! 15) OR push_bit (29 - 10) (inp ! 16 mod push_bit 10 1),
       drop_bit 10 (inp ! 16) OR push_bit (29 - 7) (inp ! 17 mod push_bit 7 1),
       drop_bit 7 (inp ! 17) OR push_bit (29 - 4) (inp ! 18 mod push_bit 4 1),
       drop_bit 4 (inp ! 18) OR push_bit (29 - 1) (inp ! 19 mod push_bit 1 1),
       drop_bit 1 (inp ! 19) mod push_bit 29 1,
       drop_bit 30 (inp ! 19) OR push_bit (29 - 27) (inp ! 20 mod push_bit 27 1),
       drop_bit 27 (inp ! 20) OR push_bit (29 - 24) (inp ! 21 mod push_bit 24 1),
       drop_bit 24 (inp ! 21) OR push_bit (29 - 21) (inp ! 22 mod push_bit 21 1),
       drop_bit 21 (inp ! 22) OR push_bit (29 - 18) (inp ! 23 mod push_bit 18 1),
       drop_bit 18 (inp ! 23) OR push_bit (29 - 15) (inp ! 24 mod push_bit 15 1),
       drop_bit 15 (inp ! 24) OR push_bit (29 - 12) (inp ! 25 mod push_bit 12 1),
       drop_bit 12 (inp ! 25) OR push_bit (29 - 9) (inp ! 26 mod push_bit 9 1),
       drop_bit 9 (inp ! 26) OR push_bit (29 - 6) (inp ! 27 mod push_bit 6 1),
       drop_bit 6 (inp ! 27) OR push_bit (29 - 3) (inp ! 28 mod push_bit 3 1), drop_bit 3 (inp ! 28)]"

definition integratedfastunpack30 :: "u32 \<Rightarrow> u32 list \<Rightarrow> u32 list" where
  "integratedfastunpack30 initoffset inp =
    sums initoffset
      [drop_bit 0 (inp ! 0) mod push_bit 30 1,
       drop_bit 30 (inp ! 0) OR push_bit (30 - 28) (inp ! 1 mod push_bit 28 1),
       drop_bit 28 (inp ! 1) OR push_bit (30 - 26) (inp ! 2 mod push_bit 26 1),
       drop_bit 26 (inp ! 2) OR push_bit (30 - 24) (inp ! 3 mod push_bit 24 1),
       drop_bit 24 (inp ! 3) OR push_bit (30 - 22) (inp ! 4 mod push_bit 22 1),
       drop_bit 22 (inp ! 4) OR push_bit (30 - 20) (inp ! 5 mod push_bit 20 1),
       drop_bit 20 (inp ! 5) OR push_bit (30 - 18) (inp ! 6 mod push_bit 18 1),
       drop_bit 18 (inp ! 6) OR push_bit (30 - 16) (inp ! 7 mod push_bit 16 1),
       drop_bit 16 (inp ! 7) OR push_bit (30 - 14) (inp ! 8 mod push_bit 14 1),
       drop_bit 14 (inp ! 8) OR push_bit (30 - 12) (inp ! 9 mod push_bit 12 1),
       drop_bit 12 (inp ! 9) OR push_bit (30 - 10) (inp ! 10 mod push_bit 10 1),
       drop_bit 10 (inp ! 10) OR push_bit (30 - 8) (inp ! 11 mod push_bit 8 1),
       drop_bit 8 (inp ! 11) OR push_bit (30 - 6) (inp ! 12 mod push_bit 6 1),
       drop_bit 6 (inp ! 12) OR push_bit (30 - 4) (inp ! 13 mod push_bit 4 1),
       drop_bit 4 (inp ! 13) OR push_bit (30 - 2) (inp ! 14 mod push_bit 2 1), drop_bit 2 (inp ! 14),
       drop_bit 0 (inp ! 15) mod push_bit 30 1,
       drop_bit 30 (inp ! 15) OR push_bit (30 - 28) (inp ! 16 mod push_bit 28 1),
       drop_bit 28 (inp ! 16) OR push_bit (30 - 26) (inp ! 17 mod push_bit 26 1),
       drop_bit 26 (inp ! 17) OR push_bit (30 - 24) (inp ! 18 mod push_bit 24 1),
       drop_bit 24 (inp ! 18) OR push_bit (30 - 22) (inp ! 19 mod push_bit 22 1),
       drop_bit 22 (inp ! 19) OR push_bit (30 - 20) (inp ! 20 mod push_bit 20 1),
       drop_bit 20 (inp ! 20) OR push_bit (30 - 18) (inp ! 21 mod push_bit 18 1),
       drop_bit 18 (inp ! 21) OR push_bit (30 - 16) (inp ! 22 mod push_bit 16 1),
       drop_bit 16 (inp ! 22) OR push_bit (30 - 14) (inp ! 23 mod push_bit 14 1),
       drop_bit 14 (inp ! 23) OR push_bit (30 - 12) (inp ! 24 mod push_bit 12 1),
       drop_bit 12 (inp ! 24) OR push_bit (30 - 10) (inp ! 25 mod push_bit 10 1),
       drop_bit 10 (inp ! 25) OR push_bit (30 - 8) (inp ! 26 mod push_bit 8 1),
       drop_bit 8 (inp ! 26) OR push_bit (30 - 6) (inp ! 27 mod push_bit 6 1),
       drop_bit 6 (inp ! 27) OR push_bit (30 - 4) (inp ! 28 mod push_bit 4 1),
       drop_bit 4 (inp ! 28) OR push_bit (30 - 2) (inp ! 29 mod push_bit 2 1), drop_bit 2 (inp ! 29)]"

definition integratedfastunpack31 :: "u32 \<Rightarrow> u32 list \<Rightarrow> u32 list" where
  "integratedfastunpack31 initoffset inp =
    sums initoffset
      [drop_bit 0 (inp ! 0) mod push_bit 31 1,
       drop_bit 31 (inp ! 0) OR push_bit (31 - 30) (inp ! 1 mod push_bit 30 1),
       drop_bit 30 (inp ! 1) OR push_bit (31 - 29) (inp ! 2 mod push_bit 29 1),
       drop_bit 29 (inp ! 2) OR push_bit (31 - 28) (inp ! 3 mod push_bit 28 1),
       drop_bit 28 (inp ! 3) OR push_bit (31 - 27) (inp ! 4 mod push_bit 27 1),
       drop_bit 27 (inp ! 4) OR push_bit (31 - 26) (inp ! 5 mod push_bit 26 1),
       drop_bit 26 (inp ! 5) OR push_bit (31 - 25) (inp ! 6 mod push_bit 25 1),
       drop_bit 25 (inp ! 6) OR push_bit (31 - 24) (inp ! 7 mod push_bit 24 1),
       drop_bit 24 (inp ! 7) OR push_bit (31 - 23) (inp ! 8 mod push_bit 23 1),
       drop_bit 23 (inp ! 8) OR push_bit (31 - 22) (inp ! 9 mod push_bit 22 1),
       drop_bit 22 (inp ! 9) OR push_bit (31 - 21) (inp ! 10 mod push_bit 21 1),
       drop_bit 21 (inp ! 10) OR push_bit (31 - 20) (inp ! 11 mod push_bit 20 1),
       drop_bit 20 (inp ! 11) OR push_bit (31 - 19) (inp ! 12 mod push_bit 19 1),
       drop_bit 19 (inp ! 12) OR push_bit (31 - 18) (inp ! 13 mod push_bit 18 1),
       drop_bit 18 (inp ! 13) OR push_bit (31 - 17) (inp ! 14 mod push_bit 17 1),
       drop_bit 17 (inp ! 14) OR push_bit (31 - 16) (inp ! 15 mod push_bit 16 1),
       drop_bit 16 (inp ! 15) OR push_bit (31 - 15) (inp ! 16 mod push_bit 15 1),
       drop_bit 15 (inp ! 16) OR push_bit (31 - 14) (inp ! 17 mod push_bit 14 1),
       drop_bit 14 (inp ! 17) OR push_bit (31 - 13) (inp ! 18 mod push_bit 13 1),
       drop_bit 13 (inp ! 18) OR push_bit (31 - 12) (inp ! 19 mod push_bit 12 1),
       drop_bit 12 (inp ! 19) OR push_bit (31 - 11) (inp ! 20 mod push_bit 11 1),
       drop_bit 11 (inp ! 20) OR push_bit (31 - 10) (inp ! 21 mod push_bit 10 1),
       drop_bit 10 (inp ! 21) OR push_bit (31 - 9) (inp ! 22 mod push_bit 9 1),
       drop_bit 9 (inp ! 22) OR push_bit (31 - 8) (inp ! 23 mod push_bit 8 1),
       drop_bit 8 (inp ! 23) OR push_bit (31 - 7) (inp ! 24 mod push_bit 7 1),
       drop_bit 7 (inp ! 24) OR push_bit (31 - 6) (inp ! 25 mod push_bit 6 1),
       drop_bit 6 (inp ! 25) OR push_bit (31 - 5) (inp ! 26 mod push_bit 5 1),
       drop_bit 5 (inp ! 26) OR push_bit (31 - 4) (inp ! 27 mod push_bit 4 1),
       drop_bit 4 (inp ! 27) OR push_bit (31 - 3) (inp ! 28 mod push_bit 3 1),
       drop_bit 3 (inp ! 28) OR push_bit (31 - 2) (inp ! 29 mod push_bit 2 1),
       drop_bit 2 (inp ! 29) OR push_bit (31 - 1) (inp ! 30 mod push_bit 1 1), drop_bit 1 (inp ! 30)]"

definition integratedfastunpack32 :: "u32 \<Rightarrow> u32 list \<Rightarrow> u32 list" where
  "integratedfastunpack32 initoffset inp = map (\<lambda>k. inp ! k) [0..<32]"

definition integratedfastpack0 :: "u32 \<Rightarrow> u32 list \<Rightarrow> u32 list" where
  "integratedfastpack0 initoffset inp = []"

definition integratedfastpack1 :: "u32 \<Rightarrow> u32 list \<Rightarrow> u32 list" where
  "integratedfastpack1 initoffset inp =
    (let d = diff_at initoffset inp in [accum (d 0) (map (\<lambda>i. push_bit i (d i)) [1..<32])])"

definition integratedfastpack2 :: "u32 \<Rightarrow> u32 list \<Rightarrow> u32 list" where
  "integratedfastpack2 initoffset inp =
    (let d = diff_at initoffset inp in
     [accum (d 0 mod push_bit 2 1)
        [push_bit 2 (d 1 mod push_bit 2 1), push_bit 4 (d 2 mod push_bit 2 1), push_bit 6 (d 3 mod push_bit 2 1),
         push_bit 8 (d 4 mod push_bit 2 1), push_bit 10 (d 5 mod push_bit 2 1), push_bit 12 (d 6 mod push_bit 2 1),
         push_bit 14 (d 7 mod push_bit 2 1), push_bit 16 (d 8 mod push_bit 2 1), push_bit 18 (d 9 mod push_bit 2 1),
         push_bit 20 (d 10 mod push_bit 2 1), push_bit 22 (d 11 mod push_bit 2 1), push_bit 24 (d 12 mod push_bit 2 1),
         push_bit 26 (d 13 mod push_bit 2 1), push_bit 28 (d 14 mod push_bit 2 1), push_bit 30 (d 15)],
      accum (d 16 mod push_bit 2 1)
        [push_bit 2 (d 17 mod push_bit 2 1), push_bit 4 (d 18 mod push_bit 2 1), push_bit 6 (d 19 mod push_bit 2 1),
         push_bit 8 (d 20 mod push_bit 2 1), push_bit 10 (d 21 mod push_bit 2 1), push_bit 12 (d 22 mod push_bit 2 1),
         push_bit 14 (d 23 mod push_bit 2 1), push_bit 16 (d 24 mod push_bit 2 1), push_bit 18 (d 25 mod push_bit 2 1),
         push_bit 20 (d 26 mod push_bit 2 1), push_bit 22 (d 27 mod push_bit 2 1), push_bit 24 (d 28 mod push_bit 2 1),
         push_bit 26 (d 29 mod push_bit 2 1), push_bit 28 (d 30 mod push_bit 2 1), push_bit 30 (d 31)]])"

definition integratedfastpack3 :: "u32 \<Rightarrow> u32 list \<Rightarrow> u32 list" where
  "integratedfastpack3 initoffset inp =
    (let d = diff_at initoffset inp in
     [accum (d 0 mod push_bit 3 1)
        [push_bit 3 (d 1 mod push_bit 3 1), push_bit 6 (d 2 mod push_bit 3 1), push_bit 9 (d 3 mod push_bit 3 1),
         push_bit 12 (d 4 mod push_bit 3 1), push_bit 15 (d 5 mod push_bit 3 1), push_bit 18 (d 6 mod push_bit 3 1),
         push_bit 21 (d 7 mod push_bit 3 1), push_bit 24 (d 8 mod push_bit 3 1), push_bit 27 (d 9 mod push_bit 3 1),
         push_bit 30 (d 10)],
      accum (drop_bit (3 - 1) (d 10 mod push_bit 3 1))
        [push_bit 1 (d 11 mod push_bit 3 1), push_bit 4 (d 12 mod push_bit 3 1), push_bit 7 (d 13 mod push_bit 3 1),
         push_bit 10 (d 14 mod push_bit 3 1), push_bit 13 (d 15 mod push_bit 3 1), push_bit 16 (d 16 mod push_bit 3 1),
         push_bit 19 (d 17 mod push_bit 3 1), push_bit 22 (d 18 mod push_bit 3 1), push_bit 25 (d 19 mod push_bit 3 1),
         push_bit 28 (d 20 mod push_bit 3 1), push_bit 31 (d 21)],
      accum (drop_bit (3 - 2) (d 21 mod push_bit 3 1))
        [push_bit 2 (d 22 mod push_bit 3 1), push_bit 5 (d 23 mod push_bit 3 1), push_bit 8 (d 24 mod push_bit 3 1),
         push_bit 11 (d 25 mod push_bit 3 1), push_bit 14 (d 26 mod push_bit 3 1), push_bit 17 (d 27 mod push_bit 3 1),
         push_bit 20 (d 28 mod push_bit 3 1), push_bit 23 (d 29 mod push_bit 3 1), push_bit 26 (d 30 mod push_bit 3 1),
         push_bit 29 (d 31)]])"

definition integratedfastpack4 :: "u32 \<Rightarrow> u32 list \<Rightarrow> u32 list" where
  "integratedfastpack4 initoffset inp =
    (let d = diff_at initoffset inp in
     map (\<lambda>w. accum (d (8 * w)) (map (\<lambda>k. push_bit (4 * k) (d (8 * w + k))) [1..<8])) [0..<4])"

definition integratedfastpack5 :: "u32 \<Rightarrow> u32 list \<Rightarrow> u32 list" where
  "integratedfastpack5 initoffset inp =
    (let d = diff_at initoffset inp in
     [accum (d 0 mod push_bit 5 1)
        [push_bit 5 (d 1 mod push_bit 5 1), push_bit 10 (d 2 mod push_bit 5 1), push_bit 15 (d 3 mod push_bit 5 1),
         push_bit 20 (d 4 mod push_bit 5 1), push_bit 25 (d 5 mod push_bit 5 1), push_bit 30 (d 6)],
      accum (drop_bit (5 - 3) (d 6 mod push_bit 5 1))
        [push_bit 3 (d 7 mod push_bit 5 1), push_bit 8 (d 8 mod push_bit 5 1), push_bit 13 (d 9 mod push_bit 5 1),
         push_bit 18 (d 10 mod push_bit 5 1), push_bit 23 (d 11 mod push_bit 5 1), push_bit 28 (d 12)],
      accum (drop_bit (5 - 1) (d 12 mod push_bit 5 1))
        [push_bit 1 (d 13 mod push_bit 5 1), push_bit 6 (d 14 mod push_bit 5 1), push_bit 11 (d 15 mod push_bit 5 1),
         push_bit 16 (d 16 mod push_bit 5 1), push_bit 21 (d 17 mod push_bit 5 1), push_bit 26 (d 18 mod push_bit 5 1),
         push_bit 31 (d 19)],
      accum (drop_bit (5 - 4) (d 19 mod push_bit 5 1))
        [push_bit 4 (d 20 mod push_bit 5 1), push_bit 9 (d 21 mod push_bit 5 1), push_bit 14 (d 22 mod push_bit 5 1),
         push_bit 19 (d 23 mod push_bit 5 1), push_bit 24 (d 24 mod push_bit 5 1), push_bit 29 (d 25)],
      accum (drop_bit (5 - 2) (d 25 mod push_bit 5 1))
        [push_bit 2 (d 26 mod push_bit 5 1), push_bit 7 (d 27 mod push_bit 5 1), push_bit 12 (d 28 mod push_bit 5 1),
         push_bit 17 (d 29 mod push_bit 5 1), push_bit 22 (d 30 mod push_bit 5 1), push_bit 27 (d 31)]])"

definition integratedfastpack6 :: "u32 \<Rightarrow> u32 list \<Rightarrow> u32 list" where
  "integratedfastpack6 initoffset inp =
    (let d = diff_at initoffset inp in
     [accum (d 0 mod push_bit 6 1)
        [push_bit 6 (d 1 mod push_bit 6 1), push_bit 12 (d 2 mod push_bit 6 1), push_bit 18 (d 3 mod push_bit 6 1),
         push_bit 24 (d 4 mod push_bit 6 1), push_bit 30 (d 5)],
      accum (drop_bit (6 - 4) (d 5 mod push_bit 6 1))
        [push_bit 4 (d 6 mod push_bit 6 1), push_bit 10 (d 7 mod push_bit 6 1), push_bit 16 (d 8 mod push_bit 6 1),
         push_bit 22 (d 9 mod push_bit 6 1), push_bit 28 (d 10)],
      accum (drop_bit (6 - 2) (d 10 mod push_bit 6 1))
        [push_bit 2 (d 11 mod push_bit 6 1), push_bit 8 (d 12 mod push_bit 6 1), push_bit 14 (d 13 mod push_bit 6 1),
         push_bit 20 (d 14 mod push_bit 6 1), push_bit 26 (d 15)],
      accum (d 16 mod push_bit 6 1)
        [push_bit 6 (d 17 mod push_bit 6 1), push_bit 12 (d 18 mod push_bit 6 1), push_bit 18 (d 19 mod push_bit 6 1),
         push_bit 24 (d 20 mod push_bit 6 1), push_bit 30 (d 21)],
      accum (drop_bit (6 - 4) (d 21 mod push_bit 6 1))
        [push_bit 4 (d 22 mod push_bit 6 1), push_bit 10 (d 23 mod push_bit 6 1), push_bit 16 (d 24 mod push_bit 6 1),
         push_bit 22 (d 25 mod push_bit 6 1), push_bit 28 (d 26)],
      accum (drop_bit (6 - 2) (d 26 mod push_bit 6 1))
        [push_bit 2 (d 27 mod push_bit 6 1), push_bit 8 (d 28 mod push_bit 6 1), push_bit 14 (d 29 mod push_bit 6 1),
         push_bit 20 (d 30 mod push_bit 6 1), push_bit 26 (d 31)]])"

definition integratedfastpack7 :: "u32 \<Rightarrow> u32 list \<Rightarrow> u32 list" where
  "integratedfastpack7 initoffset inp =
    (let d = diff_at initoffset inp in
     [accum (d 0 mod push_bit 7 1)
        [push_bit 7 (d 1 mod push_bit 7 1), push_bit 14 (d 2 mod push_bit 7 1), push_bit 21 (d 3 mod push_bit 7 1),
         push_bit 28 (d 4)],
      accum (drop_bit (7 - 3) (d 4 mod push_bit 7 1))
        [push_bit 3 (d 5 mod push_bit 7 1), push_bit 10 (d 6 mod push_bit 7 1), push_bit 17 (d 7 mod push_bit 7 1),
         push_bit 24 (d 8 mod push_bit 7 1), push_bit 31 (d 9)],
      accum (drop_bit (7 - 6) (d 9 mod push_bit 7 1))
        [push_bit 6 (d 10 mod push_bit 7 1), push_bit 13 (d 11 mod push_bit 7 1), push_bit 20 (d 12 mod push_bit 7 1),
         push_bit 27 (d 13)],
      accum (drop_bit (7 - 2) (d 13 mod push_bit 7 1))
        [push_bit 2 (d 14 mod push_bit 7 1), push_bit 9 (d 15 mod push_bit 7 1), push_bit 16 (d 16 mod push_bit 7 1),
         push_bit 23 (d 17 mod push_bit 7 1), push_bit 30 (d 18)],
      accum (drop_bit (7 - 5) (d 18 mod push_bit 7 1))
        [push_bit 5 (d 19 mod push_bit 7 1), push_bit 12 (d 20 mod push_bit 7 1), push_bit 19 (d 21 mod push_bit 7 1),
         push_bit 26 (d 22)],
      accum (drop_bit (7 - 1) (d 22 mod push_bit 7 1))
        [push_bit 1 (d 23 mod push_bit 7 1), push_bit 8 (d 24 mod push_bit 7 1), push_bit 15 (d 25 mod push_bit 7 1),
         push_bit 22 (d 26 mod push_bit 7 1), push_bit 29 (d 27)],
      accum (drop_bit (7 - 4) (d 27 mod push_bit 7 1))
        [push_bit 4 (d 28 mod push_bit 7 1), push_bit 11 (d 29 mod push_bit 7 1), push_bit 18 (d 30 mod push_bit 7 1),
         push_bit 25 (d 31)]])"

definition integratedfastpack8 :: "u32 \<Rightarrow> u32 list \<Rightarrow> u32 list" where
  "integratedfastpack8 initoffset inp =
    (let d = diff_at initoffset inp in
     map (\<lambda>w. accum (d (4 * w)) (map (\<lambda>k. push_bit (8 * k) (d (4 * w + k))) [1..<4])) [0..<8])"

definition integratedfastpack9 :: "u32 \<Rightarrow> u32 list \<Rightarrow> u32 list" where
  "integratedfastpack9 initoffset inp =
    (let d = diff_at initoffset inp in
     [accum (d 0 mod push_bit 9 1)
        [push_bit 9 (d 1 mod push_bit 9 1), push_bit 18 (d 2 mod push_bit 9 1), push_bit 27 (d 3)],
      accum (drop_bit (9 - 4) (d 3 mod push_bit 9 1))
        [push_bit 4 (d 4 mod push_bit 9 1), push_bit 13 (d 5 mod push_bit 9 1), push_bit 22 (d 6 mod push_bit 9 1),
         push_bit 31 (d 7)],
      accum (drop_bit (9 - 8) (d 7 mod push_bit 9 1))
        [push_bit 8 (d 8 mod push_bit 9 1), push_bit 17 (d 9 mod push_bit 9 1), push_bit 26 (d 10)],
      accum (drop_bit (9 - 3) (d 10 mod push_bit 9 1))
        [push_bit 3 (d 11 mod push_bit 9 1), push_bit 12 (d 12 mod push_bit 9 1), push_bit 21 (d 13 mod push_bit 9 1),
         push_bit 30 (d 14)],
      accum (drop_bit (9 - 7) (d 14 mod push_bit 9 1))
        [push_bit 7 (d 15 mod push_bit 9 1), push_bit 16 (d 16 mod push_bit 9 1), push_bit 25 (d 17)],
      accum (drop_bit (9 - 2) (d 17 mod push_bit 9 1))
        [push_bit 2 (d 18 mod push_bit 9 1), push_bit 11 (d 19 mod push_bit 9 1), push_bit 20 (d 20 mod push_bit 9 1),
         push_bit 29 (d 21)],
      accum (drop_bit (9 - 6) (d 21 mod push_bit 9 1))
        [push_bit 6 (d 22 mod push_bit 9 1), push_bit 15 (d 23 mod push_bit 9 1), push_bit 24 (d 24)],
      accum (drop_bit (9 - 1) (d 24 mod push_bit 9 1))
        [push_bit 1 (d 25 mod push_bit 9 1), push_bit 10 (d 26 mod push_bit 9 1), push_bit 19 (d 27 mod push_bit 9 1),
         push_bit 28 (d 28)],
      accum (drop_bit (9 - 5) (d 28 mod push_bit 9 1))
        [push_bit 5 (d 29 mod push_bit 9 1), push_bit 14 (d 30 mod push_bit 9 1), push_bit 23 (d 31)]])"

definition integratedfastpack10 :: "u32 \<Rightarrow> u32 list \<Rightarrow> u32 list" where
  "integratedfastpack10 initoffset inp =
    (let d = diff_at initoffset inp in
     [accum (d 0 mod push_bit 10 1)
        [push_bit 10 (d 1 mod push_bit 10 1), push_bit 20 (d 2 mod push_bit 10 1), push_bit 30 (d 3)],
      accum (drop_bit (10 - 8) (d 3 mod push_bit 10 1))
        [push_bit 8 (d 4 mod push_bit 10 1), push_bit 18 (d 5 mod push_bit 10 1), push_bit 28 (d 6)],
      accum (drop_bit (10 - 6) (d 6 mod push_bit 10 1))
        [push_bit 6 (d 7 mod push_bit 10 1), push_bit 16 (d 8 mod push_bit 10 1), push_bit 26 (d 9)],
      accum (drop_bit (10 - 4) (d 9 mod push_bit 10 1))
        [push_bit 4 (d 10 mod push_bit 10 1), push_bit 14 (d 11 mod push_bit 10 1), push_bit 24 (d 12)],
      accum (drop_bit (10 - 2) (d 12 mod push_bit 10 1))
        [push_bit 2 (d 13 mod push_bit 10 1), push_bit 12 (d 14 mod push_bit 10 1), push_bit 22 (d 15)],
      accum (d 16 mod push_bit 10 1)
        [push_bit 10 (d 17 mod push_bit 10 1), push_bit 20 (d 18 mod push_bit 10 1), push_bit 30 (d 19)],
      accum (drop_bit (10 - 8) (d 19 mod push_bit 10 1))
        [push_bit 8 (d 20 mod push_bit 10 1), push_bit 18 (d 21 mod push_bit 10 1), push_bit 28 (d 22)],
      accum (drop_bit (10 - 6) (d 22 mod push_bit 10 1))
        [push_bit 6 (d 23 mod push_bit 10 1), push_bit 16 (d 24 mod push_bit 10 1), push_bit 26 (d 25)],
      accum (drop_bit (10 - 4) (d 25 mod push_bit 10 1))
        [push_bit 4 (d 26 mod push_bit 10 1), push_bit 14 (d 27 mod push_bit 10 1), push_bit 24 (d 28)],
      accum (drop_bit (10 - 2) (d 28 mod push_bit 10 1))
        [push_bit 2 (d 29 mod push_bit 10 1), push_bit 12 (d 30 mod push_bit 10 1), push_bit 22 (d 31)]])"

definition integratedfastpack11 :: "u32 \<Rightarrow> u32 list \<Rightarrow> u32 list" where
  "integratedfastpack11 initoffset inp =
    (let d = diff_at initoffset inp in
     [accum (d 0 mod push_bit 11 1)
        [push_bit 11 (d 1 mod push_bit 11 1), push_bit 22 (d 2)],
      accum (drop_bit (11 - 1) (d 2 mod push_bit 11 1))
        [push_bit 1 (d 3 mod push_bit 11 1), push_bit 12 (d 4 mod push_bit 11 1), push_bit 23 (d 5)],
      accum (drop_bit (11 - 2) (d 5 mod push_bit 11 1))
        [push_bit 2 (d 6 mod push_bit 11 1), push_bit 13 (d 7 mod push_bit 11 1), push_bit 24 (d 8)],
      accum (drop_bit (11 - 3) (d 8 mod push_bit 11 1))
        [push_bit 3 (d 9 mod push_bit 11 1), push_bit 14 (d 10 mod push_bit 11 1), push_bit 25 (d 11)],
      accum (drop_bit (11 - 4) (d 11 mod push_bit 11 1))
        [push_bit 4 (d 12 mod push_bit 11 1), push_bit 15 (d 13 mod push_bit 11 1), push_bit 26 (d 14)],
      accum (drop_bit (11 - 5) (d 14 mod push_bit 11 1))
        [push_bit 5 (d 15 mod push_bit 11 1), push_bit 16 (d 16 mod push_bit 11 1), push_bit 27 (d 17)],
      accum (drop_bit (11 - 6) (d 17 mod push_bit 11 1))
        [push_bit 6 (d 18 mod push_bit 11 1), push_bit 17 (d 19 mod push_bit 11 1), push_bit 28 (d 20)],
      accum (drop_bit (11 - 7) (d 20 mod push_bit 11 1))
        [push_bit 7 (d 21 mod push_bit 11 1), push_bit 18 (d 22 mod push_bit 11 1), push_bit 29 (d 23)],
      accum (drop_bit (11 - 8) (d 23 mod push_bit 11 1))
        [push_bit 8 (d 24 mod push_bit 11 1), push_bit 19 (d 25 mod push_bit 11 1), push_bit 30 (d 26)],
      accum (drop_bit (11 - 9) (d 26 mod push_bit 11 1))
        [push_bit 9 (d 27 mod push_bit 11 1), push_bit 20 (d 28 mod push_bit 11 1), push_bit 31 (d 29)],
      accum (drop_bit (11 - 10) (d 29 mod push_bit 11 1))
        [push_bit 10 (d 30 mod push_bit 11 1), push_bit 21 (d 31)]])"

definition integratedfastpack12 :: "u32 \<Rightarrow> u32 list \<Rightarrow> u32 list" where
  "integratedfastpack12 initoffset inp =
    (let d = diff_at initoffset inp in
     [accum (d 0 mod push_bit 12 1)
        [push_bit 12 (d 1 mod push_bit 12 1), push_bit 24 (d 2)],
      accum (drop_bit (12 - 4) (d 2 mod push_bit 12 1))
        [push_bit 4 (d 3 mod push_bit 12 1), push_bit 16 (d 4 mod push_bit 12 1), push_bit 28 (d 5)],
      accum (drop_bit (12 - 8) (d 5 mod push_bit 12 1))
        [push_bit 8 (d 6 mod push_bit 12 1), push_bit 20 (d 7)],
      accum (d 8 mod push_bit 12 1)
        [push_bit 12 (d 9 mod push_bit 12 1), push_bit 24 (d 10)],
      accum (drop_bit (12 - 4) (d 10 mod push_bit 12 1))
        [push_bit 4 (d 11 mod push_bit 12 1), push_bit 16 (d 12 mod push_bit 12 1), push_bit 28 (d 13)],
      accum (drop_bit (12 - 8) (d 13 mod push_bit 12 1))
        [push_bit 8 (d 14 mod push_bit 12 1), push_bit 20 (d 15)],
      accum (d 16 mod push_bit 12 1)
        [push_bit 12 (d 17 mod push_bit 12 1), push_bit 24 (d 18)],
      accum (drop_bit (12 - 4) (d 18 mod push_bit 12 1))
        [push_bit 4 (d 19 mod push_bit 12 1), push_bit 16 (d 20 mod push_bit 12 1), push_bit 28 (d 21)],
      accum (drop_bit (12 - 8) (d 21 mod push_bit 12 1))
        [push_bit 8 (d 22 mod push_bit 12 1), push_bit 20 (d 23)],
      accum (d 24 mod push_bit 12 1)
        [push_bit 12 (d 25 mod push_bit 12 1), push_bit 24 (d 26)],
      accum (drop_bit (12 - 4) (d 26 mod push_bit 12 1))
        [push_bit 4 (d 27 mod push_bit 12 1), push_bit 16 (d 28 mod push_bit 12 1), push_bit 28 (d 29)],
      accum (drop_bit (12 - 8) (d 29 mod push_bit 12 1))
        [push_bit 8 (d 30 mod push_bit 12 1), push_bit 20 (d 31)]])"

definition integratedfastpack13 :: "u32 \<Rightarrow> u32 list \<Rightarrow> u32 list" where
  "integratedfastpack13 initoffset inp =
    (let d = diff_at initoffset inp in
     [accum (d 0 mod push_bit 13 1)
        [push_bit 13 (d 1 mod push_bit 13 1), push_bit 26 (d 2)],
      accum (drop_bit (13 - 7) (d 2 mod push_bit 13 1))
        [push_bit 7 (d 3 mod push_bit 13 1), push_bit 20 (d 4)],
      accum (drop_bit (13 - 1) (d 4 mod push_bit 13 1))
        [push_bit 1 (d 5 mod push_bit 13 1), push_bit 14 (d 6 mod push_bit 13 1), push_bit 27 (d 7)],
      accum (drop_bit (13 - 8) (d 7 mod push_bit 13 1))
        [push_bit 8 (d 8 mod push_bit 13 1), push_bit 21 (d 9)],
      accum (drop_bit (13 - 2) (d 9 mod push_bit 13 1))
        [push_bit 2 (d 10 mod push_bit 13 1), push_bit 15 (d 11 mod push_bit 13 1), push_bit 28 (d 12)],
      accum (drop_bit (13 - 9) (d 12 mod push_bit 13 1))
        [push_bit 9 (d 13 mod push_bit 13 1), push_bit 22 (d 14)],
      accum (drop_bit (13 - 3) (d 14 mod push_bit 13 1))
        [push_bit 3 (d 15 mod push_bit 13 1), push_bit 16 (d 16 mod push_bit 13 1), push_bit 29 (d 17)],
      accum (drop_bit (13 - 10) (d 17 mod push_bit 13 1))
        [push_bit 10 (d 18 mod push_bit 13 1), push_bit 23 (d 19)],
      accum (drop_bit (13 - 4) (d 19 mod push_bit 13 1))
        [push_bit 4 (d 20 mod push_bit 13 1), push_bit 17 (d 21 mod push_bit 13 1), push_bit 30 (d 22)],
      accum (drop_bit (13 - 11) (d 22 mod push_bit 13 1))
        [push_bit 11 (d 23 mod push_bit 13 1), push_bit 24 (d 24)],
      accum (drop_bit (13 - 5) (d 24 mod push_bit 13 1))
        [push_bit 5 (d 25 mod push_bit 13 1), push_bit 18 (d 26 mod push_bit 13 1), push_bit 31 (d 27)],
      accum (drop_bit (13 - 12) (d 27 mod push_bit 13 1))
        [push_bit 12 (d 28 mod push_bit 13 1), push_bit 25 (d 29)],
      accum (drop_bit (13 - 6) (d 29 mod push_bit 13 1))
        [push_bit 6 (d 30 mod push_bit 13 1), push_bit 19 (d 31)]])"

definition integratedfastpack14 :: "u32 \<Rightarrow> u32 list \<Rightarrow> u32 list" where
  "integratedfastpack14 initoffset inp =
    (let d = diff_at initoffset inp in
     [accum (d 0 mod push_bit 14 1)
        [push_bit 14 (d 1 mod push_bit 14 1), push_bit 28 (d 2)],
      accum (drop_bit (14 - 10) (d 2 mod push_bit 14 1))
        [push_bit 10 (d 3 mod push_bit 14 1), push_bit 24 (d 4)],
      accum (drop_bit (14 - 6) (d 4 mod push_bit 14 1))
        [push_bit 6 (d 5 mod push_bit 14 1), push_bit 20 (d 6)],
      accum (drop_bit (14 - 2) (d 6 mod push_bit 14 1))
        [push_bit 2 (d 7 mod push_bit 14 1), push_bit 16 (d 8 mod push_bit 14 1), push_bit 30 (d 9)],
      accum (drop_bit (14 - 12) (d 9 mod push_bit 14 1))
        [push_bit 12 (d 10 mod push_bit 14 1), push_bit 26 (d 11)],
      accum (drop_bit (14 - 8) (d 11 mod push_bit 14 1))
        [push_bit 8 (d 12 mod push_bit 14 1), push_bit 22 (d 13)],
      accum (drop_bit (14 - 4) (d 13 mod push_bit 14 1))
        [push_bit 4 (d 14 mod push_bit 14 1), push_bit 18 (d 15)],
      accum (d 16 mod push_bit 14 1)
        [push_bit 14 (d 17 mod push_bit 14 1), push_bit 28 (d 18)],
      accum (drop_bit (14 - 10) (d 18 mod push_bit 14 1))
        [push_bit 10 (d 19 mod push_bit 14 1), push_bit 24 (d 20)],
      accum (drop_bit (14 - 6) (d 20 mod push_bit 14 1))
        [push_bit 6 (d 21 mod push_bit 14 1), push_bit 20 (d 22)],
      accum (drop_bit (14 - 2) (d 22 mod push_bit 14 1))
        [push_bit 2 (d 23 mod push_bit 14 1), push_bit 16 (d 24 mod push_bit 14 1), push_bit 30 (d 25)],
      accum (drop_bit (14 - 12) (d 25 mod push_bit 14 1))
        [push_bit 12 (d 26 mod push_bit 14 1), push_bit 26 (d 27)],
      accum (drop_bit (14 - 8) (d 27 mod push_bit 14 1))
        [push_bit 8 (d 28 mod push_bit 14 1), push_bit 22 (d 29)],
      accum (drop_bit (14 - 4) (d 29 mod push_bit 14 1))
        [push_bit 4 (d 30 mod push_bit 14 1), push_bit 18 (d 31)]])"

definition integratedfastpack15 :: "u32 \<Rightarrow> u32 list \<Rightarrow> u32 list" where
  "integratedfastpack15 initoffset inp =
    (let d = diff_at initoffset inp in
     [accum (d 0 mod push_bit 15 1)
        [push_bit 15 (d 1 mod push_bit 15 1), push_bit 30 (d 2)],
      accum (drop_bit (15 - 13) (d 2 mod push_bit 15 1))
        [push_bit 13 (d 3 mod push_bit 15 1), push_bit 28 (d 4)],
      accum (drop_bit (15 - 11) (d 4 mod push_bit 15 1))
        [push_bit 11 (d 5 mod push_bit 15 1), push_bit 26 (d 6)],
      accum (drop_bit (15 - 9) (d 6 mod push_bit 15 1))
        [push_bit 9 (d 7 mod push_bit 15 1), push_bit 24 (d 8)],
      accum (drop_bit (15 - 7) (d 8 mod push_bit 15 1))
        [push_bit 7 (d 9 mod push_bit 15 1), push_bit 22 (d 10)],
      accum (drop_bit (15 - 5) (d 10 mod push_bit 15 1))
        [push_bit 5 (d 11 mod push_bit 15 1), push_bit 20 (d 12)],
      accum (drop_bit (15 - 3) (d 12 mod push_bit 15 1))
        [push_bit 3 (d 13 mod push_bit 15 1), push_bit 18 (d 14)],
      accum (drop_bit (15 - 1) (d 14 mod push_bit 15 1))
        [push_bit 1 (d 15 mod push_bit 15 1), push_bit 16 (d 16 mod push_bit 15 1), push_bit 31 (d 17)],
      accum (drop_bit (15 - 14) (d 17 mod push_bit 15 1))
        [push_bit 14 (d 18 mod push_bit 15 1), push_bit 29 (d 19)],
      accum (drop_bit (15 - 12) (d 19 mod push_bit 15 1))
        [push_bit 12 (d 20 mod push_bit 15 1), push_bit 27 (d 21)],
      accum (drop_bit (15 - 10) (d 21 mod push_bit 15 1))
        [push_bit 10 (d 22 mod push_bit 15 1), push_bit 25 (d 23)],
      accum (drop_bit (15 - 8) (d 23 mod push_bit 15 1))
        [push_bit 8 (d 24 mod push_bit 15 1), push_bit 23 (d 25)],
      accum (drop_bit (15 - 6) (d 25 mod push_bit 15 1))
        [push_bit 6 (d 26 mod push_bit 15 1), push_bit 21 (d 27)],
      accum (drop_bit (15 - 4) (d 27 mod push_bit 15 1))
        [push_bit 4 (d 28 mod push_bit 15 1), push_bit 19 (d 29)],
      accum (drop_bit (15 - 2) (d 29 mod push_bit 15 1))
        [push_bit 2 (d 30 mod push_bit 15 1), push_bit 17 (d 31)]])"

definition integratedfastpack16 :: "u32 \<Rightarrow> u32 list \<Rightarrow> u32 list" where
  "integratedfastpack16 initoffset inp =
    (let d = diff_at initoffset inp in
     map (\<lambda>w. accum (d (2 * w)) (map (\<lambda>k. push_bit (16 * k) (d (2 * w + k))) [1..<2])) [0..<16])"

definition integratedfastpack17 :: "u32 \<Rightarrow> u32 list \<Rightarrow> u32 list" where
  "integratedfastpack17 initoffset inp =
    (let d = diff_at initoffset inp in
     [accum (d 0 mod push_bit 17 1)
        [push_bit 17 (d 1)],
      accum (drop_bit (17 - 2) (d 1 mod push_bit 17 1))
        [push_bit 2 (d 2 mod push_bit 17 1), push_bit 19 (d 3)],
      accum (drop_bit (17 - 4) (d 3 mod push_bit 17 1))
        [push_bit 4 (d 4 mod push_bit 17 1), push_bit 21 (d 5)],
      accum (drop_bit (17 - 6) (d 5 mod push_bit 17 1))
        [push_bit 6 (d 6 mod push_bit 17 1), push_bit 23 (d 7)],
      accum (drop_bit (17 - 8) (d 7 mod push_bit 17 1))
        [push_bit 8 (d 8 mod push_bit 17 1), push_bit 25 (d 9)],
      accum (drop_bit (17 - 10) (d 9 mod push_bit 17 1))
        [push_bit 10 (d 10 mod push_bit 17 1), push_bit 27 (d 11)],
      accum (drop_bit (17 - 12) (d 11 mod push_bit 17 1))
        [push_bit 12 (d 12 mod push_bit 17 1), push_bit 29 (d 13)],
      accum (drop_bit (17 - 14) (d 13 mod push_bit 17 1))
        [push_bit 14 (d 14 mod push_bit 17 1), push_bit 31 (d 15)],
      accum (drop_bit (17 - 16) (d 15 mod push_bit 17 1))
        [push_bit 16 (d 16)],
      accum (drop_bit (17 - 1) (d 16 mod push_bit 17 1))
        [push_bit 1 (d 17 mod push_bit 17 1), push_bit 18 (d 18)],
      accum (drop_bit (17 - 3) (d 18 mod push_bit 17 1))
        [push_bit 3 (d 19 mod push_bit 17 1), push_bit 20 (d 20)],
      accum (drop_bit (17 - 5) (d 20 mod push_bit 17 1))
        [push_bit 5 (d 21 mod push_bit 17 1), push_bit 22 (d 22)],
      accum (drop_bit (17 - 7) (d 22 mod push_bit 17 1))
        [push_bit 7 (d 23 mod push_bit 17 1), push_bit 24 (d 24)],
      accum (drop_bit (17 - 9) (d 24 mod push_bit 17 1))
        [push_bit 9 (d 25 mod push_bit 17 1), push_bit 26 (d 26)],
      accum (drop_bit (17 - 11) (d 26 mod push_bit 17 1))
        [push_bit 11 (d 27 mod push_bit 17 1), push_bit 28 (d 28)],
      accum (drop_bit (17 - 13) (d 28 mod push_bit 17 1))
        [push_bit 13 (d 29 mod push_bit 17 1), push_bit 30 (d 30)],
      accum (drop_bit (17 - 15) (d 30 mod push_bit 17 1))
        [push_bit 15 (d 31)]])"

definition integratedfastpack18 :: "u32 \<Rightarrow> u32 list \<Rightarrow> u32 list" where
  "integratedfastpack18 initoffset inp =
    (let d = diff_at initoffset inp in
     [accum (d 0 mod push_bit 18 1)
        [push_bit 18 (d 1)],
      accum (drop_bit (18 - 4) (d 1 mod push_bit 18 1))
        [push_bit 4 (d 2 mod push_bit 18 1), push_bit 22 (d 3)],
      accum (drop_bit (18 - 8) (d 3 mod push_bit 18 1))
        [push_bit 8 (d 4 mod push_bit 18 1), push_bit 26 (d 5)],
      accum (drop_bit (18 - 12) (d 5 mod push_bit 18 1))
        [push_bit 12 (d 6 mod push_bit 18 1), push_bit 30 (d 7)],
      accum (drop_bit (18 - 16) (d 7 mod push_bit 18 1))
        [push_bit 16 (d 8)],
      accum (drop_bit (18 - 2) (d 8 mod push_bit 18 1))
        [push_bit 2 (d 9 mod push_bit 18 1), push_bit 20 (d 10)],
      accum (drop_bit (18 - 6) (d 10 mod push_bit 18 1))
        [push_bit 6 (d 11 mod push_bit 18 1), push_bit 24 (d 12)],
      accum (drop_bit (18 - 10) (d 12 mod push_bit 18 1))
        [push_bit 10 (d 13 mod push_bit 18 1), push_bit 28 (d 14)],
      accum (drop_bit (18 - 14) (d 14 mod push_bit 18 1))
        [push_bit 14 (d 15)],
      accum (d 16 mod push_bit 18 1)
        [push_bit 18 (d 17)],
      accum (drop_bit (18 - 4) (d 17 mod push_bit 18 1))
        [push_bit 4 (d 18 mod push_bit 18 1), push_bit 22 (d 19)],
      accum (drop_bit (18 - 8) (d 19 mod push_bit 18 1))
        [push_bit 8 (d 20 mod push_bit 18 1), push_bit 26 (d 21)],
      accum (drop_bit (18 - 12) (d 21 mod push_bit 18 1))
        [push_bit 12 (d 22 mod push_bit 18 1), push_bit 30 (d 23)],
      accum (drop_bit (18 - 16) (d 23 mod push_bit 18 1))
        [push_bit 16 (d 24)],
      accum (drop_bit (18 - 2) (d 24 mod push_bit 18 1))
        [push_bit 2 (d 25 mod push_bit 18 1), push_bit 20 (d 26)],
      accum (drop_bit (18 - 6) (d 26 mod push_bit 18 1))
        [push_bit 6 (d 27 mod push_bit 18 1), push_bit 24 (d 28)],
      accum (drop_bit (18 - 10) (d 28 mod push_bit 18 1))
        [push_bit 10 (d 29 mod push_bit 18 1), push_bit 28 (d 30)],
      accum (drop_bit (18 - 14) (d 30 mod push_bit 18 1))
        [push_bit 14 (d 31)]])"

definition integratedfastpack19 :: "u32 \<Rightarrow> u32 list \<Rightarrow> u32 list" where
  "integratedfastpack19 initoffset inp =
    (let d = diff_at initoffset inp in
     [accum (d 0 mod push_bit 19 1)
        [push_bit 19 (d 1)],
      accum (drop_bit (19 - 6) (d 1 mod push_bit 19 1))
        [push_bit 6 (d 2 mod push_bit 19 1), push_bit 25 (d 3)],
      accum (drop_bit (19 - 12) (d 3 mod push_bit 19 1))
        [push_bit 12 (d 4 mod push_bit 19 1), push_bit 31 (d 5)],
      accum (drop_bit (19 - 18) (d 5 mod push_bit 19 1))
        [push_bit 18 (d 6)],
      accum (drop_bit (19 - 5) (d 6 mod push_bit 19 1))
        [push_bit 5 (d 7 mod push_bit 19 1), push_bit 24 (d 8)],
      accum (drop_bit (19 - 11) (d 8 mod push_bit 19 1))
        [push_bit 11 (d 9 mod push_bit 19 1), push_bit 30 (d 10)],
      accum (drop_bit (19 - 17) (d 10 mod push_bit 19 1))
        [push_bit 17 (d 11)],
      accum (drop_bit (19 - 4) (d 11 mod push_bit 19 1))
        [push_bit 4 (d 12 mod push_bit 19 1), push_bit 23 (d 13)],
      accum (drop_bit (19 - 10) (d 13 mod push_bit 19 1))
        [push_bit 10 (d 14 mod push_bit 19 1), push_bit 29 (d 15)],
      accum (drop_bit (19 - 16) (d 15 mod push_bit 19 1))
        [push_bit 16 (d 16)],
      accum (drop_bit (19 - 3) (d 16 mod push_bit 19 1))
        [push_bit 3 (d 17 mod push_bit 19 1), push_bit 22 (d 18)],
      accum (drop_bit (19 - 9) (d 18 mod push_bit 19 1))
        [push_bit 9 (d 19 mod push_bit 19 1), push_bit 28 (d 20)],
      accum (drop_bit (19 - 15) (d 20 mod push_bit 19 1))
        [push_bit 15 (d 21)],
      accum (drop_bit (19 - 2) (d 21 mod push_bit 19 1))
        [push_bit 2 (d 22 mod push_bit 19 1), push_bit 21 (d 23)],
      accum (drop_bit (19 - 8) (d 23 mod push_bit 19 1))
        [push_bit 8 (d 24 mod push_bit 19 1), push_bit 27 (d 25)],
      accum (drop_bit (19 - 14) (d 25 mod push_bit 19 1))
        [push_bit 14 (d 26)],
      accum (drop_bit (19 - 1) (d 26 mod push_bit 19 1))
        [push_bit 1 (d 27 mod push_bit 19 1), push_bit 20 (d 28)],
      accum (drop_bit (19 - 7) (d 28 mod push_bit 19 1))
        [push_bit 7 (d 29 mod push_bit 19 1), push_bit 26 (d 30)],
      accum (drop_bit (19 - 13) (d 30 mod push_bit 19 1))
        [push_bit 13 (d 31)]])"

definition integratedfastpack20 :: "u32 \<Rightarrow> u32 list \<Rightarrow> u32 list" where
  "integratedfastpack20 initoffset inp =
    (let d = diff_at initoffset inp in
     [accum (d 0 mod push_bit 20 1)
        [push_bit 20 (d 1)],
      accum (drop_bit (20 - 8) (d 1 mod push_bit 20 1))
        [push_bit 8 (d 2 mod push_bit 20 1), push_bit 28 (d 3)],
      accum (drop_bit (20 - 16) (d 3 mod push_bit 20 1))
        [push_bit 16 (d 4)],
      accum (drop_bit (20 - 4) (d 4 mod push_bit 20 1))
        [push_bit 4 (d 5 mod push_bit 20 1), push_bit 24 (d 6)],
      accum (drop_bit (20 - 12) (d 6 mod push_bit 20 1))
        [push_bit 12 (d 7)],
      accum (d 8 mod push_bit 20 1)
        [push_bit 20 (d 9)],
      accum (drop_bit (20 - 8) (d 9 mod push_bit 20 1))
        [push_bit 8 (d 10 mod push_bit 20 1), push_bit 28 (d 11)],
      accum (drop_bit (20 - 16) (d 11 mod push_bit 20 1))
        [push_bit 16 (d 12)],
      accum (drop_bit (20 - 4) (d 12 mod push_bit 20 1))
        [push_bit 4 (d 13 mod push_bit 20 1), push_bit 24 (d 14)],
      accum (drop_bit (20 - 12) (d 14 mod push_bit 20 1))
        [push_bit 12 (d 15)],
      accum (d 16 mod push_bit 20 1)
        [push_bit 20 (d 17)],
      accum (drop_bit (20 - 8) (d 17 mod push_bit 20 1))
        [push_bit 8 (d 18 mod push_bit 20 1), push_bit 28 (d 19)],
      accum (drop_bit (20 - 16) (d 19 mod push_bit 20 1))
        [push_bit 16 (d 20)],
      accum (drop_bit (20 - 4) (d 20 mod push_bit 20 1))
        [push_bit 4 (d 21 mod push_bit 20 1), push_bit 24 (d 22)],
      accum (drop_bit (20 - 12) (d 22 mod push_bit 20 1))
        [push_bit 12 (d 23)],
      accum (d 24 mod push_bit 20 1)
        [push_bit 20 (d 25)],
      accum (drop_bit (20 - 8) (d 25 mod push_bit 20 1))
        [push_bit 8 (d 26 mod push_bit 20 1), push_bit 28 (d 27)],
      accum (drop_bit (20 - 16) (d 27 mod push_bit 20 1))
        [push_bit 16 (d 28)],
      accum (drop_bit (20 - 4) (d 28 mod push_bit 20 1))
        [push_bit 4 (d 29 mod push_bit 20 1), push_bit 24 (d 30)],
      accum (drop_bit (20 - 12) (d 30 mod push_bit 20 1))
        [push_bit 12 (d 31)]])"

definition integratedfastpack21 :: "u32 \<Rightarrow> u32 list \<Rightarrow> u32 list" where
  "integratedfastpack21 initoffset inp =
    (let d = diff_at initoffset inp in
     [accum (d 0 mod push_bit 21 1)
        [push_bit 21 (d 1)],
      accum (drop_bit (21 - 10) (d 1 mod push_bit 21 1))
        [push_bit 10 (d 2 mod push_bit 21 1), push_bit 31 (d 3)],
      accum (drop_bit (21 - 20) (d 3 mod push_bit 21 1))
        [push_bit 20 (d 4)],
      accum (drop_bit (21 - 9) (d 4 mod push_bit 21 1))
        [push_bit 9 (d 5 mod push_bit 21 1), push_bit 30 (d 6)],
      accum (drop_bit (21 - 19) (d 6 mod push_bit 21 1))
        [push_bit 19 (d 7)],
      accum (drop_bit (21 - 8) (d 7 mod push_bit 21 1))
        [push_bit 8 (d 8 mod push_bit 21 1), push_bit 29 (d 9)],
      accum (drop_bit (21 - 18) (d 9 mod push_bit 21 1))
        [push_bit 18 (d 10)],
      accum (drop_bit (21 - 7) (d 10 mod push_bit 21 1))
        [push_bit 7 (d 11 mod push_bit 21 1), push_bit 28 (d 12)],
      accum (drop_bit (21 - 17) (d 12 mod push_bit 21 1))
        [push_bit 17 (d 13)],
      accum (drop_bit (21 - 6) (d 13 mod push_bit 21 1))
        [push_bit 6 (d 14 mod push_bit 21 1), push_bit 27 (d 15)],
      accum (drop_bit (21 - 16) (d 15 mod push_bit 21 1))
        [push_bit 16 (d 16)],
      accum (drop_bit (21 - 5) (d 16 mod push_bit 21 1))
        [push_bit 5 (d 17 mod push_bit 21 1), push_bit 26 (d 18)],
      accum (drop_bit (21 - 15) (d 18 mod push_bit 21 1))
        [push_bit 15 (d 19)],
      accum (drop_bit (21 - 4) (d 19 mod push_bit 21 1))
        [push_bit 4 (d 20 mod push_bit 21 1), push_bit 25 (d 21)],
      accum (drop_bit (21 - 14) (d 21 mod push_bit 21 1))
        [push_bit 14 (d 22)],
      accum (drop_bit (21 - 3) (d 22 mod push_bit 21 1))
        [push_bit 3 (d 23 mod push_bit 21 1), push_bit 24 (d 24)],
      accum (drop_bit (21 - 13) (d 24 mod push_bit 21 1))
        [push_bit 13 (d 25)],
      accum (drop_bit (21 - 2) (d 25 mod push_bit 21 1))
        [push_bit 2 (d 26 mod push_bit 21 1), push_bit 23 (d 27)],
      accum (drop_bit (21 - 12) (d 27 mod push_bit 21 1))
        [push_bit 12 (d 28)],
      accum (drop_bit (21 - 1) (d 28 mod push_bit 21 1))
        [push_bit 1 (d 29 mod push_bit 21 1), push_bit 22 (d 30)],
      accum (drop_bit (21 - 11) (d 30 mod push_bit 21 1))
        [push_bit 11 (d 31)]])"

definition integratedfastpack22 :: "u32 \<Rightarrow> u32 list \<Rightarrow> u32 list" where
  "integratedfastpack22 initoffset inp =
    (let d = diff_at initoffset inp in
     [accum (d 0 mod push_bit 22 1)
        [push_bit 22 (d 1)],
      accum (drop_bit (22 - 12) (d 1 mod push_bit 22 1))
        [push_bit 12 (d 2)],
      accum (drop_bit (22 - 2) (d 2 mod push_bit 22 1))
        [push_bit 2 (d 3 mod push_bit 22 1), push_bit 24 (d 4)],
      accum (drop_bit (22 - 14) (d 4 mod push_bit 22 1))
        [push_bit 14 (d 5)],
      accum (drop_bit (22 - 4) (d 5 mod push_bit 22 1))
        [push_bit 4 (d 6 mod push_bit 22 1), push_bit 26 (d 7)],
      accum (drop_bit (22 - 16) (d 7 mod push_bit 22 1))
        [push_bit 16 (d 8)],
      accum (drop_bit (22 - 6) (d 8 mod push_bit 22 1))
        [push_bit 6 (d 9 mod push_bit 22 1), push_bit 28 (d 10)],
      accum (drop_bit (22 - 18) (d 10 mod push_bit 22 1))
        [push_bit 18 (d 11)],
      accum (drop_bit (22 - 8) (d 11 mod push_bit 22 1))
        [push_bit 8 (d 12 mod push_bit 22 1), push_bit 30 (d 13)],
      accum (drop_bit (22 - 20) (d 13 mod push_bit 22 1))
        [push_bit 20 (d 14)],
      accum (drop_bit (22 - 10) (d 14 mod push_bit 22 1))
        [push_bit 10 (d 15)],
      accum (d 16 mod push_bit 22 1)
        [push_bit 22 (d 17)],
      accum (drop_bit (22 - 12) (d 17 mod push_bit 22 1))
        [push_bit 12 (d 18)],
      accum (drop_bit (22 - 2) (d 18 mod push_bit 22 1))
        [push_bit 2 (d 19 mod push_bit 22 1), push_bit 24 (d 20)],
      accum (drop_bit (22 - 14) (d 20 mod push_bit 22 1))
        [push_bit 14 (d 21)],
      accum (drop_bit (22 - 4) (d 21 mod push_bit 22 1))
        [push_bit 4 (d 22 mod push_bit 22 1), push_bit 26 (d 23)],
      accum (drop_bit (22 - 16) (d 23 mod push_bit 22 1))
        [push_bit 16 (d 24)],
      accum (drop_bit (22 - 6) (d 24 mod push_bit 22 1))
        [push_bit 6 (d 25 mod push_bit 22 1), push_bit 28 (d 26)],
      accum (drop_bit (22 - 18) (d 26 mod push_bit 22 1))
        [push_bit 18 (d 27)],
      accum (drop_bit (22 - 8) (d 27 mod push_bit 22 1))
        [push_bit 8 (d 28 mod push_bit 22 1), push_bit 30 (d 29)],
      accum (drop_bit (22 - 20) (d 29 mod push_bit 22 1))
        [push_bit 20 (d 30)],
      accum (drop_bit (22 - 10) (d 30 mod push_bit 22 1))
        [push_bit 10 (d 31)]])"

definition integratedfastpack23 :: "u32 \<Rightarrow> u32 list \<Rightarrow> u32 list" where
  "integratedfastpack23 initoffset inp =
    (let d = diff_at initoffset inp in
     [accum (d 0 mod push_bit 23 1)
        [push_bit 23 (d 1)],
      accum (drop_bit (23 - 14) (d 1 mod push_bit 23 1))
        [push_bit 14 (d 2)],
      accum (drop_bit (23 - 5) (d 2 mod push_bit 23 1))
        [push_bit 5 (d 3 mod push_bit 23 1), push_bit 28 (d 4)],
      accum (drop_bit (23 - 19) (d 4 mod push_bit 23 1))
        [push_bit 19 (d 5)],
      accum (drop_bit (23 - 10) (d 5 mod push_bit 23 1))
        [push_bit 10 (d 6)],
      accum (drop_bit (23 - 1) (d 6 mod push_bit 23 1))
        [push_bit 1 (d 7 mod push_bit 23 1), push_bit 24 (d 8)],
      accum (drop_bit (23 - 15) (d 8 mod push_bit 23 1))
        [push_bit 15 (d 9)],
      accum (drop_bit (23 - 6) (d 9 mod push_bit 23 1))
        [push_bit 6 (d 10 mod push_bit 23 1), push_bit 29 (d 11)],
      accum (drop_bit (23 - 20) (d 11 mod push_bit 23 1))
        [push_bit 20 (d 12)],
      accum (drop_bit (23 - 11) (d 12 mod push_bit 23 1))
        [push_bit 11 (d 13)],
      accum (drop_bit (23 - 2) (d 13 mod push_bit 23 1))
        [push_bit 2 (d 14 mod push_bit 23 1), push_bit 25 (d 15)],
      accum (drop_bit (23 - 16) (d 15 mod push_bit 23 1))
        [push_bit 16 (d 16)],
      accum (drop_bit (23 - 7) (d 16 mod push_bit 23 1))
        [push_bit 7 (d 17 mod push_bit 23 1), push_bit 30 (d 18)],
      accum (drop_bit (23 - 21) (d 18 mod push_bit 23 1))
        [push_bit 21 (d 19)],
      accum (drop_bit (23 - 12) (d 19 mod push_bit 23 1))
        [push_bit 12 (d 20)],
      accum (drop_bit (23 - 3) (d 20 mod push_bit 23 1))
        [push_bit 3 (d 21 mod push_bit 23 1), push_bit 26 (d 22)],
      accum (drop_bit (23 - 17) (d 22 mod push_bit 23 1))
        [push_bit 17 (d 23)],
      accum (drop_bit (23 - 8) (d 23 mod push_bit 23 1))
        [push_bit 8 (d 24 mod push_bit 23 1), push_bit 31 (d 25)],
      accum (drop_bit (23 - 22) (d 25 mod push_bit 23 1))
        [push_bit 22 (d 26)],
      accum (drop_bit (23 - 13) (d 26 mod push_bit 23 1))
        [push_bit 13 (d 27)],
      accum (drop_bit (23 - 4) (d 27 mod push_bit 23 1))
        [push_bit 4 (d 28 mod push_bit 23 1), push_bit 27 (d 29)],
      accum (drop_bit (23 - 18) (d 29 mod push_bit 23 1))
        [push_bit 18 (d 30)],
      accum (drop_bit (23 - 9) (d 30 mod push_bit 23 1))
        [push_bit 9 (d 31)]])"

definition integratedfastpack24 :: "u32 \<Rightarrow> u32 list \<Rightarrow> u32 list" where
  "integratedfastpack24 initoffset inp =
    (let d = diff_at initoffset inp in
     [accum (d 0 mod push_bit 24 1)
        [push_bit 24 (d 1)],
      accum (drop_bit (24 - 16) (d 1 mod push_bit 24 1))
        [push_bit 16 (d 2)],
      accum (drop_bit (24 - 8) (d 2 mod push_bit 24 1))
        [push_bit 8 (d 3)],
      accum (d 4 mod push_bit 24 1)
        [push_bit 24 (d 5)],
      accum (drop_bit (24 - 16) (d 5 mod push_bit 24 1))
        [push_bit 16 (d 6)],
      accum (drop_bit (24 - 8) (d 6 mod push_bit 24 1))
        [push_bit 8 (d 7)],
      accum (d 8 mod push_bit 24 1)
        [push_bit 24 (d 9)],
      accum (drop_bit (24 - 16) (d 9 mod push_bit 24 1))
        [push_bit 16 (d 10)],
      accum (drop_bit (24 - 8) (d 10 mod push_bit 24 1))
        [push_bit 8 (d 11)],
      accum (d 12 mod push_bit 24 1)
        [push_bit 24 (d 13)],
      accum (drop_bit (24 - 16) (d 13 mod push_bit 24 1))
        [push_bit 16 (d 14)],
      accum (drop_bit (24 - 8) (d 14 mod push_bit 24 1))
        [push_bit 8 (d 15)],
      accum (d 16 mod push_bit 24 1)
        [push_bit 24 (d 17)],
      accum (drop_bit (24 - 16) (d 17 mod push_bit 24 1))
        [push_bit 16 (d 18)],
      accum (drop_bit (24 - 8) (d 18 mod push_bit 24 1))
        [push_bit 8 (d 19)],
      accum (d 20 mod push_bit 24 1)
        [push_bit 24 (d 21)],
      accum (drop_bit (24 - 16) (d 21 mod push_bit 24 1))
        [push_bit 16 (d 22)],
      accum (drop_bit (24 - 8) (d 22 mod push_bit 24 1))
        [push_bit 8 (d 23)],
      accum (d 24 mod push_bit 24 1)
        [push_bit 24 (d 25)],
      accum (drop_bit (24 - 16) (d 25 mod push_bit 24 1))
        [push_bit 16 (d 26)],
      accum (drop_bit (24 - 8) (d 26 mod push_bit 24 1))
        [push_bit 8 (d 27)],
      accum (d 28 mod push_bit 24 1)
        [push_bit 24 (d 29)],
      accum (drop_bit (24 - 16) (d 29 mod push_bit 24 1))
        [push_bit 16 (d 30)],
      accum (drop_bit (24 - 8) (d 30 mod push_bit 24 1))
        [push_bit 8 (d 31)]])"

definition integratedfastpack25 :: "u32 \<Rightarrow> u32 list \<Rightarrow> u32 list" where
  "integratedfastpack25 initoffset inp =
    (let d = diff_at initoffset inp in
     [accum (d 0 mod push_bit 25 1)
        [push_bit 25 (d 1)],
      accum (drop_bit (25 - 18) (d 1 mod push_bit 25 1))
        [push_bit 18 (d 2)],
      accum (drop_bit (25 - 11) (d 2 mod push_bit 25 1))
        [push_bit 11 (d 3)],
      accum (drop_bit (25 - 4) (d 3 mod push_bit 25 1))
        [push_bit 4 (d 4 mod push_bit 25 1), push_bit 29 (d 5)],
      accum (drop_bit (25 - 22) (d 5 mod push_bit 25 1))
        [push_bit 22 (d 6)],
      accum (drop_bit (25 - 15) (d 6 mod push_bit 25 1))
        [push_bit 15 (d 7)],
      accum (drop_bit (25 - 8) (d 7 mod push_bit 25 1))
        [push_bit 8 (d 8)],
      accum (drop_bit (25 - 1) (d 8 mod push_bit 25 1))
        [push_bit 1 (d 9 mod push_bit 25 1), push_bit 26 (d 10)],
      accum (drop_bit (25 - 19) (d 10 mod push_bit 25 1))
        [push_bit 19 (d 11)],
      accum (drop_bit (25 - 12) (d 11 mod push_bit 25 1))
        [push_bit 12 (d 12)],
      accum (drop_bit (25 - 5) (d 12 mod push_bit 25 1))
        [push_bit 5 (d 13 mod push_bit 25 1), push_bit 30 (d 14)],
      accum (drop_bit (25 - 23) (d 14 mod push_bit 25 1))
        [push_bit 23 (d 15)],
      accum (drop_bit (25 - 16) (d 15 mod push_bit 25 1))
        [push_bit 16 (d 16)],
      accum (drop_bit (25 - 9) (d 16 mod push_bit 25 1))
        [push_bit 9 (d 17)],
      accum (drop_bit (25 - 2) (d 17 mod push_bit 25 1))
        [push_bit 2 (d 18 mod push_bit 25 1), push_bit 27 (d 19)],
      accum (drop_bit (25 - 20) (d 19 mod push_bit 25 1))
        [push_bit 20 (d 20)],
      accum (drop_bit (25 - 13) (d 20 mod push_bit 25 1))
        [push_bit 13 (d 21)],
      accum (drop_bit (25 - 6) (d 21 mod push_bit 25 1))
        [push_bit 6 (d 22 mod push_bit 25 1), push_bit 31 (d 23)],
      accum (drop_bit (25 - 24) (d 23 mod push_bit 25 1))
        [push_bit 24 (d 24)],
      accum (drop_bit (25 - 17) (d 24 mod push_bit 25 1))
        [push_bit 17 (d 25)],
      accum (drop_bit (25 - 10) (d 25 mod push_bit 25 1))
        [push_bit 10 (d 26)],
      accum (drop_bit (25 - 3) (d 26 mod push_bit 25 1))
        [push_bit 3 (d 27 mod push_bit 25 1), push_bit 28 (d 28)],
      accum (drop_bit (25 - 21) (d 28 mod push_bit 25 1))
        [push_bit 21 (d 29)],
      accum (drop_bit (25 - 14) (d 29 mod push_bit 25 1))
        [push_bit 14 (d 30)],
      accum (drop_bit (25 - 7) (d 30 mod push_bit 25 1))
        [push_bit 7 (d 31)]])"

definition integratedfastpack26 :: "u32 \<Rightarrow> u32 list \<Rightarrow> u32 list" where
  "integratedfastpack26 initoffset inp =
    (let d = diff_at initoffset inp in
     [accum (d 0 mod push_bit 26 1)
        [push_bit 26 (d 1)],
      accum (drop_bit (26 - 20) (d 1 mod push_bit 26 1))
        [push_bit 20 (d 2)],
      accum (drop_bit (26 - 14) (d 2 mod push_bit 26 1))
        [push_bit 14 (d 3)],
      accum (drop_bit (26 - 8) (d 3 mod push_bit 26 1))
        [push_bit 8 (d 4)],
      accum (drop_bit (26 - 2) (d 4 mod push_bit 26 1))
        [push_bit 2 (d 5 mod push_bit 26 1), push_bit 28 (d 6)],
      accum (drop_bit (26 - 22) (d 6 mod push_bit 26 1))
        [push_bit 22 (d 7)],
      accum (drop_bit (26 - 16) (d 7 mod push_bit 26 1))
        [push_bit 16 (d 8)],
      accum (drop_bit (26 - 10) (d 8 mod push_bit 26 1))
        [push_bit 10 (d 9)],
      accum (drop_bit (26 - 4) (d 9 mod push_bit 26 1))
        [push_bit 4 (d 10 mod push_bit 26 1), push_bit 30 (d 11)],
      accum (drop_bit (26 - 24) (d 11 mod push_bit 26 1))
        [push_bit 24 (d 12)],
      accum (drop_bit (26 - 18) (d 12 mod push_bit 26 1))
        [push_bit 18 (d 13)],
      accum (drop_bit (26 - 12) (d 13 mod push_bit 26 1))
        [push_bit 12 (d 14)],
      accum (drop_bit (26 - 6) (d 14 mod push_bit 26 1))
        [push_bit 6 (d 15)],
      accum (d 16 mod push_bit 26 1)
        [push_bit 26 (d 17)],
      accum (drop_bit (26 - 20) (d 17 mod push_bit 26 1))
        [push_bit 20 (d 18)],
      accum (drop_bit (26 - 14) (d 18 mod push_bit 26 1))
        [push_bit 14 (d 19)],
      accum (drop_bit (26 - 8) (d 19 mod push_bit 26 1))
        [push_bit 8 (d 20)],
      accum (drop_bit (26 - 2) (d 20 mod push_bit 26 1))
        [push_bit 2 (d 21 mod push_bit 26 1), push_bit 28 (d 22)],
      accum (drop_bit (26 - 22) (d 22 mod push_bit 26 1))
        [push_bit 22 (d 23)],
      accum (drop_bit (26 - 16) (d 23 mod push_bit 26 1))
        [push_bit 16 (d 24)],
      accum (drop_bit (26 - 10) (d 24 mod push_bit 26 1))
        [push_bit 10 (d 25)],
      accum (drop_bit (26 - 4) (d 25 mod push_bit 26 1))
        [push_bit 4 (d 26 mod push_bit 26 1), push_bit 30 (d 27)],
      accum (drop_bit (26 - 24) (d 27 mod push_bit 26 1))
        [push_bit 24 (d 28)],
      accum (drop_bit (26 - 18) (d 28 mod push_bit 26 1))
        [push_bit 18 (d 29)],
      accum (drop_bit (26 - 12) (d 29 mod push_bit 26 1))
        [push_bit 12 (d 30)],
      accum (drop_bit (26 - 6) (d 30 mod push_bit 26 1))
        [push_bit 6 (d 31)]])"

definition integratedfastpack27 :: "u32 \<Rightarrow> u32 list \<Rightarrow> u32 list" where
  "integratedfastpack27 initoffset inp =
    (let d = diff_at initoffset inp in
     [accum (d 0 mod push_bit 27 1)
        [push_bit 27 (d 1)],
      accum (drop_bit (27 - 22) (d 1 mod push_bit 27 1))
        [push_bit 22 (d 2)],
      accum (drop_bit (27 - 17) (d 2 mod push_bit 27 1))
        [push_bit 17 (d 3)],
      accum (drop_bit (27 - 12) (d 3 mod push_bit 27 1))
        [push_bit 12 (d 4)],
      accum (drop_bit (27 - 7) (d 4 mod push_bit 27 1))
        [push_bit 7 (d 5)],
      accum (drop_bit (27 - 2) (d 5 mod push_bit 27 1))
        [push_bit 2 (d 6 mod push_bit 27 1), push_bit 29 (d 7)],
      accum (drop_bit (27 - 24) (d 7 mod push_bit 27 1))
        [push_bit 24 (d 8)],
      accum (drop_bit (27 - 19) (d 8 mod push_bit 27 1))
        [push_bit 19 (d 9)],
      accum (drop_bit (27 - 14) (d 9 mod push_bit 27 1))
        [push_bit 14 (d 10)],
      accum (drop_bit (27 - 9) (d 10 mod push_bit 27 1))
        [push_bit 9 (d 11)],
      accum (drop_bit (27 - 4) (d 11 mod push_bit 27 1))
        [push_bit 4 (d 12 mod push_bit 27 1), push_bit 31 (d 13)],
      accum (drop_bit (27 - 26) (d 13 mod push_bit 27 1))
        [push_bit 26 (d 14)],
      accum (drop_bit (27 - 21) (d 14 mod push_bit 27 1))
        [push_bit 21 (d 15)],
      accum (drop_bit (27 - 16) (d 15 mod push_bit 27 1))
        [push_bit 16 (d 16)],
      accum (drop_bit (27 - 11) (d 16 mod push_bit 27 1))
        [push_bit 11 (d 17)],
      accum (drop_bit (27 - 6) (d 17 mod push_bit 27 1))
        [push_bit 6 (d 18)],
      accum (drop_bit (27 - 1) (d 18 mod push_bit 27 1))
        [push_bit 1 (d 19 mod push_bit 27 1), push_bit 28 (d 20)],
      accum (drop_bit (27 - 23) (d 20 mod push_bit 27 1))
        [push_bit 23 (d 21)],
      accum (drop_bit (27 - 18) (d 21 mod push_bit 27 1))
        [push_bit 18 (d 22)],
      accum (drop_bit (27 - 13) (d 22 mod push_bit 27 1))
        [push_bit 13 (d 23)],
      accum (drop_bit (27 - 8) (d 23 mod push_bit 27 1))
        [push_bit 8 (d 24)],
      accum (drop_bit (27 - 3) (d 24 mod push_bit 27 1))
        [push_bit 3 (d 25 mod push_bit 27 1), push_bit 30 (d 26)],
      accum (drop_bit (27 - 25) (d 26 mod push_bit 27 1))
        [push_bit 25 (d 27)],
      accum (drop_bit (27 - 20) (d 27 mod push_bit 27 1))
        [push_bit 20 (d 28)],
      accum (drop_bit (27 - 15) (d 28 mod push_bit 27 1))
        [push_bit 15 (d 29)],
      accum (drop_bit (27 - 10) (d 29 mod push_bit 27 1))
        [push_bit 10 (d 30)],
      accum (drop_bit (27 - 5) (d 30 mod push_bit 27 1))
        [push_bit 5 (d 31)]])"

definition integratedfastpack28 :: "u32 \<Rightarrow> u32 list \<Rightarrow> u32 list" where
  "integratedfastpack28 initoffset inp =
    (let d = diff_at initoffset inp in
     [accum (d 0 mod push_bit 28 1)
        [push_bit 28 (d 1)],
      accum (drop_bit (28 - 24) (d 1 mod push_bit 28 1))
        [push_bit 24 (d 2)],
      accum (drop_bit (28 - 20) (d 2 mod push_bit 28 1))
        [push_bit 20 (d 3)],
      accum (drop_bit (28 - 16) (d 3 mod push_bit 28 1))
        [push_bit 16 (d 4)],
      accum (drop_bit (28 - 12) (d 4 mod push_bit 28 1))
        [push_bit 12 (d 5)],
      accum (drop_bit (28 - 8) (d 5 mod push_bit 28 1))
        [push_bit 8 (d 6)],
      accum (drop_bit (28 - 4) (d 6 mod push_bit 28 1))
        [push_bit 4 (d 7)],
      accum (d 8 mod push_bit 28 1)
        [push_bit 28 (d 9)],
      accum (drop_bit (28 - 24) (d 9 mod push_bit 28 1))
        [push_bit 24 (d 10)],
      accum (drop_bit (28 - 20) (d 10 mod push_bit 28 1))
        [push_bit 20 (d 11)],
      accum (drop_bit (28 - 16) (d 11 mod push_bit 28 1))
        [push_bit 16 (d 12)],
      accum (drop_bit (28 - 12) (d 12 mod push_bit 28 1))
        [push_bit 12 (d 13)],
      accum (drop_bit (28 - 8) (d 13 mod push_bit 28 1))
        [push_bit 8 (d 14)],
      accum (drop_bit (28 - 4) (d 14 mod push_bit 28 1))
        [push_bit 4 (d 15)],
      accum (d 16 mod push_bit 28 1)
        [push_bit 28 (d 17)],
      accum (drop_bit (28 - 24) (d 17 mod push_bit 28 1))
        [push_bit 24 (d 18)],
      accum (drop_bit (28 - 20) (d 18 mod push_bit 28 1))
        [push_bit 20 (d 19)],
      accum (drop_bit (28 - 16) (d 19 mod push_bit 28 1))
        [push_bit 16 (d 20)],
      accum (drop_bit (28 - 12) (d 20 mod push_bit 28 1))
        [push_bit 12 (d 21)],
      accum (drop_bit (28 - 8) (d 21 mod push_bit 28 1))
        [push_bit 8 (d 22)],
      accum (drop_bit (28 - 4) (d 22 mod push_bit 28 1))
        [push_bit 4 (d 23)],
      accum (d 24 mod push_bit 28 1)
        [push_bit 28 (d 25)],
      accum (drop_bit (28 - 24) (d 25 mod push_bit 28 1))
        [push_bit 24 (d 26)],
      accum (drop_bit (28 - 20) (d 26 mod push_bit 28 1))
        [push_bit 20 (d 27)],
      accum (drop_bit (28 - 16) (d 27 mod push_bit 28 1))
        [push_bit 16 (d 28)],
      accum (drop_bit (28 - 12) (d 28 mod push_bit 28 1))
        [push_bit 12 (d 29)],
      accum (drop_bit (28 - 8) (d 29 mod push_bit 28 1))
        [push_bit 8 (d 30)],
      accum (drop_bit (28 - 4) (d 30 mod push_bit 28 1))
        [push_bit 4 (d 31)]])"

definition integratedfastpack29 :: "u32 \<Rightarrow> u32 list \<Rightarrow> u32 list" where
  "integratedfastpack29 initoffset inp =
    (let d = diff_at initoffset inp in
     [accum (d 0 mod push_bit 29 1)
        [push_bit 29 (d 1)],
      accum (drop_bit (29 - 26) (d 1 mod push_bit 29 1))
        [push_bit 26 (d 2)],
      accum (drop_bit (29 - 23) (d 2 mod push_bit 29 1))
        [push_bit 23 (d 3)],
      accum (drop_bit (29 - 20) (d 3 mod push_bit 29 1))
        [push_bit 20 (d 4)],
      accum (drop_bit (29 - 17) (d 4 mod push_bit 29 1))
        [push_bit 17 (d 5)],
      accum (drop_bit (29 - 14) (d 5 mod push_bit 29 1))
        [push_bit 14 (d 6)],
      accum (drop_bit (29 - 11) (d 6 mod push_bit 29 1))
        [push_bit 11 (d 7)],
      accum (drop_bit (29 - 8) (d 7 mod push_bit 29 1))
        [push_bit 8 (d 8)],
      accum (drop_bit (29 - 5) (d 8 mod push_bit 29 1))
        [push_bit 5 (d 9)],
      accum (drop_bit (29 - 2) (d 9 mod push_bit 29 1))
        [push_bit 2 (d 10 mod push_bit 29 1), push_bit 31 (d 11)],
      accum (drop_bit (29 - 28) (d 11 mod push_bit 29 1))
        [push_bit 28 (d 12)],
      accum (drop_bit (29 - 25) (d 12 mod push_bit 29 1))
        [push_bit 25 (d 13)],
      accum (drop_bit (29 - 22) (d 13 mod push_bit 29 1))
        [push_bit 22 (d 14)],
      accum (drop_bit (29 - 19) (d 14 mod push_bit 29 1))
        [push_bit 19 (d 15)],
      accum (drop_bit (29 - 16) (d 15 mod push_bit 29 1))
        [push_bit 16 (d 16)],
      accum (drop_bit (29 - 13) (d 16 mod push_bit 29 1))
        [push_bit 13 (d 17)],
      accum (drop_bit (29 - 10) (d 17 mod push_bit 29 1))
        [push_bit 10 (d 18)],
      accum (drop_bit (29 - 7) (d 18 mod push_bit 29 1))
        [push_bit 7 (d 19)],
      accum (drop_bit (29 - 4) (d 19 mod push_bit 29 1))
        [push_bit 4 (d 20)],
      accum (drop_bit (29 - 1) (d 20 mod push_bit 29 1))
        [push_bit 1 (d 21 mod push_bit 29 1), push_bit 30 (d 22)],
      accum (drop_bit (29 - 27) (d 22 mod push_bit 29 1))
        [push_bit 27 (d 23)],
      accum (drop_bit (29 - 24) (d 23 mod push_bit 29 1))
        [push_bit 24 (d 24)],
      accum (drop_bit (29 - 21) (d 24 mod push_bit 29 1))
        [push_bit 21 (d 25)],
      accum (drop_bit (29 - 18) (d 25 mod push_bit 29 1))
        [push_bit 18 (d 26)],
      accum (drop_bit (29 - 15) (d 26 mod push_bit 29 1))
        [push_bit 15 (d 27)],
      accum (drop_bit (29 - 12) (d 27 mod push_bit 29 1))
        [push_bit 12 (d 28)],
      accum (drop_bit (29 - 9) (d 28 mod push_bit 29 1))
        [push_bit 9 (d 29)],
      accum (drop_bit (29 - 6) (d 29 mod push_bit 29 1))
        [push_bit 6 (d 30)],
      accum (drop_bit (29 - 3) (d 30 mod push_bit 29 1))
        [push_bit 3 (d 31)]])"

definition integratedfastpack30 :: "u32 \<Rightarrow> u32 list \<Rightarrow> u32 list" where
  "integratedfastpack30 initoffset inp =
    (let d = diff_at initoffset inp in
     [accum (d 0 mod push_bit 30 1)
        [push_bit 30 (d 1)],
      accum (drop_bit (30 - 28) (d 1 mod push_bit 30 1))
        [push_bit 28 (d 2)],
      accum (drop_bit (30 - 26) (d 2 mod push_bit 30 1))
        [push_bit 26 (d 3)],
      accum (drop_bit (30 - 24) (d 3 mod push_bit 30 1))
        [push_bit 24 (d 4)],
      accum (drop_bit (30 - 22) (d 4 mod push_bit 30 1))
        [push_bit 22 (d 5)],
      accum (drop_bit (30 - 20) (d 5 mod push_bit 30 1))
        [push_bit 20 (d 6)],
      accum (drop_bit (30 - 18) (d 6 mod push_bit 30 1))
        [push_bit 18 (d 7)],
      accum (drop_bit (30 - 16) (d 7 mod push_bit 30 1))
        [push_bit 16 (d 8)],
      accum (drop_bit (30 - 14) (d 8 mod push_bit 30 1))
        [push_bit 14 (d 9)],
      accum (drop_bit (30 - 12) (d 9 mod push_bit 30 1))
        [push_bit 12 (d 10)],
      accum (drop_bit (30 - 10) (d 10 mod push_bit 30 1))
        [push_bit 10 (d 11)],
      accum (drop_bit (30 - 8) (d 11 mod push_bit 30 1))
        [push_bit 8 (d 12)],
      accum (drop_bit (30 - 6) (d 12 mod push_bit 30 1))
        [push_bit 6 (d 13)],
      accum (drop_bit (30 - 4) (d 13 mod push_bit 30 1))
        [push_bit 4 (d 14)],
      accum (drop_bit (30 - 2) (d 14 mod push_bit 30 1))
        [push_bit 2 (d 15)],
      accum (d 16 mod push_bit 30 1)
        [push_bit 30 (d 17)],
      accum (drop_bit (30 - 28) (d 17 mod push_bit 30 1))
        [push_bit 28 (d 18)],
      accum (drop_bit (30 - 26) (d 18 mod push_bit 30 1))
        [push_bit 26 (d 19)],
      accum (drop_bit (30 - 24) (d 19 mod push_bit 30 1))
        [push_bit 24 (d 20)],
      accum (drop_bit (30 - 22) (d 20 mod push_bit 30 1))
        [push_bit 22 (d 21)],
      accum (drop_bit (30 - 20) (d 21 mod push_bit 30 1))
        [push_bit 20 (d 22)],
      accum (drop_bit (30 - 18) (d 22 mod push_bit 30 1))
        [push_bit 18 (d 23)],
      accum (drop_bit (30 - 16) (d 23 mod push_bit 30 1))
        [push_bit 16 (d 24)],
      accum (drop_bit (30 - 14) (d 24 mod push_bit 30 1))
        [push_bit 14 (d 25)],
      accum (drop_bit (30 - 12) (d 25 mod push_bit 30 1))
        [push_bit 12 (d 26)],
      accum (drop_bit (30 - 10) (d 26 mod push_bit 30 1))
        [push_bit 10 (d 27)],
      accum (drop_bit (30 - 8) (d 27 mod push_bit 30 1))
        [push_bit 8 (d 28)],
      accum (drop_bit (30 - 6) (d 28 mod push_bit 30 1))
        [push_bit 6 (d 29)],
      accum (drop_bit (30 - 4) (d 29 mod push_bit 30 1))
        [push_bit 4 (d 30)],
      accum (drop_bit (30 - 2) (d 30 mod push_bit 30 1))
        [push_bit 2 (d 31)]])"

definition integratedfastpack31 :: "u32 \<Rightarrow> u32 list \<Rightarrow> u32 list" where
  "integratedfastpack31 initoffset inp =
    (let d = diff_at initoffset inp in
     [accum (d 0 mod push_bit 31 1)
        [push_bit 31 (d 1)],
      accum (drop_bit (31 - 30) (d 1 mod push_bit 31 1))
        [push_bit 30 (d 2)],
      accum (drop_bit (31 - 29) (d 2 mod push_bit 31 1))
        [push_bit 29 (d 3)],
      accum (drop_bit (31 - 28) (d 3 mod push_bit 31 1))
        [push_bit 28 (d 4)],
      accum (drop_bit (31 - 27) (d 4 mod push_bit 31 1))
        [push_bit 27 (d 5)],
      accum (drop_bit (31 - 26) (d 5 mod push_bit 31 1))
        [push_bit 26 (d 6)],
      accum (drop_bit (31 - 25) (d 6 mod push_bit 31 1))
        [push_bit 25 (d 7)],
      accum (drop_bit (31 - 24) (d 7 mod push_bit 31 1))
        [push_bit 24 (d 8)],
      accum (drop_bit (31 - 23) (d 8 mod push_bit 31 1))
        [push_bit 23 (d 9)],
      accum (drop_bit (31 - 22) (d 9 mod push_bit 31 1))
        [push_bit 22 (d 10)],
      accum (drop_bit (31 - 21) (d 10 mod push_bit 31 1))
        [push_bit 21 (d 11)],
      accum (drop_bit (31 - 20) (d 11 mod push_bit 31 1))
        [push_bit 20 (d 12)],
      accum (drop_bit (31 - 19) (d 12 mod push_bit 31 1))
        [push_bit 19 (d 13)],
      accum (drop_bit (31 - 18) (d 13 mod push_bit 31 1))
        [push_bit 18 (d 14)],
      accum (drop_bit (31 - 17) (d 14 mod push_bit 31 1))
        [push_bit 17 (d 15)],
      accum (drop_bit (31 - 16) (d 15 mod push_bit 31 1))
        [push_bit 16 (d 16)],
      accum (drop_bit (31 - 15) (d 16 mod push_bit 31 1))
        [push_bit 15 (d 17)],
      accum (drop_bit (31 - 14) (d 17 mod push_bit 31 1))
        [push_bit 14 (d 18)],
      accum (drop_bit (31 - 13) (d 18 mod push_bit 31 1))
        [push_bit 13 (d 19)],
      accum (drop_bit (31 - 12) (d 19 mod push_bit 31 1))
        [push_bit 12 (d 20)],
      accum (drop_bit (31 - 11) (d 20 mod push_bit 31 1))
        [push_bit 11 (d 21)],
      accum (drop_bit (31 - 10) (d 21 mod push_bit 31 1))
        [push_bit 10 (d 22)],
      accum (drop_bit (31 - 9) (d 22 mod push_bit 31 1))
        [push_bit 9 (d 23)],
      accum (drop_bit (31 - 8) (d 23 mod push_bit 31 1))
        [push_bit 8 (d 24)],
      accum (drop_bit (31 - 7) (d 24 mod push_bit 31 1))
        [push_bit 7 (d 25)],
      accum (drop_bit (31 - 6) (d 25 mod push_bit 31 1))
        [push_bit 6 (d 26)],
      accum (drop_bit (31 - 5) (d 26 mod push_bit 31 1))
        [push_bit 5 (d 27)],
      accum (drop_bit (31 - 4) (d 27 mod push_bit 31 1))
        [push_bit 4 (d 28)],
      accum (drop_bit (31 - 3) (d 28 mod push_bit 31 1))
        [push_bit 3 (d 29)],
      accum (drop_bit (31 - 2) (d 29 mod push_bit 31 1))
        [push_bit 2 (d 30)],
      accum (drop_bit (31 - 1) (d 30 mod push_bit 31 1))
        [push_bit 1 (d 31)]])"

definition integratedfastpack32 :: "u32 \<Rightarrow> u32 list \<Rightarrow> u32 list" where
  "integratedfastpack32 initoffset inp = map (\<lambda>k. inp ! k) [0..<32]"

section \<open>Every routine is the reference on differences\<close>

lemma integratedfastunpack0_eq: "integratedfastunpack0 i inp = sums i (unpack_ref 0 inp)"
  by (simp add: integratedfastunpack0_def unpack_ref_0 sums_zeros map_replicate_const)

lemma integratedfastunpack1_eq: "integratedfastunpack1 i inp = sums i (unpack_ref 1 inp)"
  by (simp add: integratedfastunpack1_def unpack_simps drop_bit_mod_2 del: One_nat_def add_Suc_right)

lemma integratedfastunpack2_eq: "integratedfastunpack2 i inp = sums i (unpack_ref 2 inp)"
  by (simp add: integratedfastunpack2_def unpack_simps del: One_nat_def add_Suc_right)

lemma integratedfastunpack3_eq: "integratedfastunpack3 i inp = sums i (unpack_ref 3 inp)"
  by (simp add: integratedfastunpack3_def unpack_simps del: One_nat_def add_Suc_right)

lemma integratedfastunpack4_eq: "integratedfastunpack4 i inp = sums i (unpack_ref 4 inp)"
  by (simp add: integratedfastunpack4_def unpack_simps drop_bit_mod_top del: One_nat_def add_Suc_right)

lemma integratedfastunpack5_eq: "integratedfastunpack5 i inp = sums i (unpack_ref 5 inp)"
  by (simp add: integratedfastunpack5_def unpack_simps del: One_nat_def add_Suc_right)

lemma integratedfastunpack6_eq: "integratedfastunpack6 i inp = sums i (unpack_ref 6 inp)"
  by (simp add: integratedfastunpack6_def unpack_simps del: One_nat_def add_Suc_right)

lemma integratedfastunpack7_eq: "integratedfastunpack7 i inp = sums i (unpack_ref 7 inp)"
  by (simp add: integratedfastunpack7_def unpack_simps del: One_nat_def add_Suc_right)

lemma integratedfastunpack8_eq: "integratedfastunpack8 i inp = sums i (unpack_ref 8 inp)"
  by (simp add: integratedfastunpack8_def unpack_simps drop_bit_mod_top del: One_nat_def add_Suc_right)

lemma integratedfastunpack9_eq: "integratedfastunpack9 i inp = sums i (unpack_ref 9 inp)"
  by (simp add: integratedfastunpack9_def unpack_simps del: One_nat_def add_Suc_right)

lemma integratedfastunpack10_eq: "integratedfastunpack10 i inp = sums i (unpack_ref 10 inp)"
  by (simp add: integratedfastunpack10_def unpack_simps del: One_nat_def add_Suc_right)

lemma integratedfastunpack11_eq: "integratedfastunpack11 i inp = sums i (unpack_ref 11 inp)"
  by (simp add: integratedfastunpack11_def unpack_simps del: One_nat_def add_Suc_right)

lemma integratedfastunpack12_eq: "integratedfastunpack12 i inp = sums i (unpack_ref 12 inp)"
  by (simp add: integratedfastunpack12_def unpack_simps del: One_nat_def add_Suc_right)

lemma integratedfastunpack13_eq: "integratedfastunpack13 i inp = sums i (unpack_ref 13 inp)"
  by (simp add: integratedfastunpack13_def unpack_simps del: One_nat_def add_Suc_right)

lemma integratedfastunpack14_eq: "integratedfastunpack14 i inp = sums i (unpack_ref 14 inp)"
  by (simp add: integratedfastunpack14_def unpack_simps del: One_nat_def add_Suc_right)

lemma integratedfastunpack15_eq: "integratedfastunpack15 i inp = sums i (unpack_ref 15 inp)"
  by (simp add: integratedfastunpack15_def unpack_simps del: One_nat_def add_Suc_right)

lemma integratedfastunpack16_eq: "integratedfastunpack16 i inp = sums i (unpack_ref 16 inp)"
  by (simp add: integratedfastunpack16_def unpack_simps drop_bit_mod_top del: One_nat_def add_Suc_right)

lemma integratedfastunpack17_eq: "integratedfastunpack17 i inp = sums i (unpack_ref 17 inp)"
  by (simp add: integratedfastunpack17_def unpack_simps del: One_nat_def add_Suc_right)

lemma integratedfastunpack18_eq: "integratedfastunpack18 i inp = sums i (unpack_ref 18 inp)"
  by (simp add: integratedfastunpack18_def unpack_simps del: One_nat_def add_Suc_right)

lemma integratedfastunpack19_eq: "integratedfastunpack19 i inp = sums i (unpack_ref 19 inp)"
  by (simp add: integratedfastunpack19_def unpack_simps del: One_nat_def add_Suc_right)

lemma integratedfastunpack20_eq: "integratedfastunpack20 i inp = sums i (unpack_ref 20 inp)"
  by (simp add: integratedfastunpack20_def unpack_simps del: One_nat_def add_Suc_right)

lemma integratedfastunpack21_eq: "integratedfastunpack21 i inp = sums i (unpack_ref 21 inp)"
  by (simp add: integratedfastunpack21_def unpack_simps del: One_nat_def add_Suc_right)

lemma integratedfastunpack22_eq: "integratedfastunpack22 i inp = sums i (unpack_ref 22 inp)"
  by (simp add: integratedfastunpack22_def unpack_simps del: One_nat_def add_Suc_right)

lemma integratedfastunpack23_eq: "integratedfastunpack23 i inp = sums i (unpack_ref 23 inp)"
  by (simp add: integratedfastunpack23_def unpack_simps del: One_nat_def add_Suc_right)

lemma integratedfastunpack24_eq: "integratedfastunpack24 i inp = sums i (unpack_ref 24 inp)"
  by (simp add: integratedfastunpack24_def unpack_simps del: One_nat_def add_Suc_right)

lemma integratedfastunpack25_eq: "integratedfastunpack25 i inp = sums i (unpack_ref 25 inp)"
  by (simp add: integratedfastunpack25_def unpack_simps del: One_nat_def add_Suc_right)

lemma integratedfastunpack26_eq: "integratedfastunpack26 i inp = sums i (unpack_ref 26 inp)"
  by (simp add: integratedfastunpack26_def unpack_simps del: One_nat_def add_Suc_right)

lemma integratedfastunpack27_eq: "integratedfastunpack27 i inp = sums i (unpack_ref 27 inp)"
  by (simp add: integratedfastunpack27_def unpack_simps del: One_nat_def add_Suc_right)

lemma integratedfastunpack28_eq: "integratedfastunpack28 i inp = sums i (unpack_ref 28 inp)"
  by (simp add: integratedfastunpack28_def unpack_simps del: One_nat_def add_Suc_right)

lemma integratedfastunpack29_eq: "integratedfastunpack29 i inp = sums i (unpack_ref 29 inp)"
  by (simp add: integratedfastunpack29_def unpack_simps del: One_nat_def add_Suc_right)

lemma integratedfastunpack30_eq: "integratedfastunpack30 i inp = sums i (unpack_ref 30 inp)"
  by (simp add: integratedfastunpack30_def unpack_simps del: One_nat_def add_Suc_right)

lemma integratedfastunpack31_eq: "integratedfastunpack31 i inp = sums i (unpack_ref 31 inp)"
  by (simp add: integratedfastunpack31_def unpack_simps del: One_nat_def add_Suc_right)

lemma integratedfastunpack32_eq: "integratedfastunpack32 i inp = unpack_ref 32 inp"
  by (simp add: integratedfastunpack32_def unpack_simps del: One_nat_def add_Suc_right)

lemma integratedfastpack0_eq: "integratedfastpack0 i inp = pack_ref 0 (diffs_from i inp)"
  by (simp add: integratedfastpack0_def pack_words)

lemma integratedfastpack1_eq: "integratedfastpack1 i inp = pack_nomask_ref 1 (diffs_from i inp)"
  by (simp add: integratedfastpack1_def pack_words Let_def del: One_nat_def add_Suc_right)
     (simp add: pack_simps nth_diffs del: One_nat_def add_Suc_right)

lemma integratedfastpack2_eq: "integratedfastpack2 i inp = pack_ref 2 (diffs_from i inp)"
  by (simp add: integratedfastpack2_def pack_words Let_def del: One_nat_def add_Suc_right)
     (simp add: pack_simps nth_diffs del: One_nat_def add_Suc_right)

lemma integratedfastpack3_eq: "integratedfastpack3 i inp = pack_ref 3 (diffs_from i inp)"
  by (simp add: integratedfastpack3_def pack_words Let_def del: One_nat_def add_Suc_right)
     (simp add: pack_simps nth_diffs del: One_nat_def add_Suc_right)

lemma integratedfastpack4_eq: "integratedfastpack4 i inp = pack_nomask_ref 4 (diffs_from i inp)"
  by (simp add: integratedfastpack4_def pack_words Let_def del: One_nat_def add_Suc_right)
     (simp add: pack_simps nth_diffs numeral_2_eq_2 [symmetric] del: One_nat_def add_Suc_right)

lemma integratedfastpack5_eq: "integratedfastpack5 i inp = pack_ref 5 (diffs_from i inp)"
  by (simp add: integratedfastpack5_def pack_words Let_def del: One_nat_def add_Suc_right)
     (simp add: pack_simps nth_diffs del: One_nat_def add_Suc_right)

lemma integratedfastpack6_eq: "integratedfastpack6 i inp = pack_ref 6 (diffs_from i inp)"
  by (simp add: integratedfastpack6_def pack_words Let_def del: One_nat_def add_Suc_right)
     (simp add: pack_simps nth_diffs del: One_nat_def add_Suc_right)

lemma integratedfastpack7_eq: "integratedfastpack7 i inp = pack_ref 7 (diffs_from i inp)"
  by (simp add: integratedfastpack7_def pack_words Let_def del: One_nat_def add_Suc_right)
     (simp add: pack_simps nth_diffs del: One_nat_def add_Suc_right)

lemma integratedfastpack8_eq: "integratedfastpack8 i inp = pack_nomask_ref 8 (diffs_from i inp)"
  by (simp add: integratedfastpack8_def pack_words Let_def del: One_nat_def add_Suc_right)
     (simp add: pack_simps nth_diffs numeral_2_eq_2 [symmetric] del: One_nat_def add_Suc_right)

lemma integratedfastpack9_eq: "integratedfastpack9 i inp = pack_ref 9 (diffs_from i inp)"
  by (simp add: integratedfastpack9_def pack_words Let_def del: One_nat_def add_Suc_right)
     (simp add: pack_simps nth_diffs del: One_nat_def add_Suc_right)

lemma integratedfastpack10_eq: "integratedfastpack10 i inp = pack_ref 10 (diffs_from i inp)"
  by (simp add: integratedfastpack10_def pack_words Let_def del: One_nat_def add_Suc_right)
     (simp add: pack_simps nth_diffs del: One_nat_def add_Suc_right)

lemma integratedfastpack11_eq: "integratedfastpack11 i inp = pack_ref 11 (diffs_from i inp)"
  by (simp add: integratedfastpack11_def pack_words Let_def del: One_nat_def add_Suc_right)
     (simp add: pack_simps nth_diffs del: One_nat_def add_Suc_right)

lemma integratedfastpack12_eq: "integratedfastpack12 i inp = pack_ref 12 (diffs_from i inp)"
  by (simp add: integratedfastpack12_def pack_words Let_def del: One_nat_def add_Suc_right)
     (simp add: pack_simps nth_diffs del: One_nat_def add_Suc_right)

lemma integratedfastpack13_eq: "integratedfastpack13 i inp = pack_ref 13 (diffs_from i inp)"
  by (simp add: integratedfastpack13_def pack_words Let_def del: One_nat_def add_Suc_right)
     (simp add: pack_simps nth_diffs del: One_nat_def add_Suc_right)

lemma integratedfastpack14_eq: "integratedfastpack14 i inp = pack_ref 14 (diffs_from i inp)"
  by (simp add: integratedfastpack14_def pack_words Let_def del: One_nat_def add_Suc_right)
     (simp add: pack_simps nth_diffs del: One_nat_def add_Suc_right)

lemma integratedfastpack15_eq: "integratedfastpack15 i inp = pack_ref 15 (diffs_from i inp)"
  by (simp add: integratedfastpack15_def pack_words Let_def del: One_nat_def add_Suc_right)
     (simp add: pack_simps nth_diffs del: One_nat_def add_Suc_right)

lemma integratedfastpack16_eq: "integratedfastpack16 i inp = pack_nomask_ref 16 (diffs_from i inp)"
  by (simp add: integratedfastpack16_def pack_words Let_def del: One_nat_def add_Suc_right)
     (simp add: pack_simps nth_diffs del: One_nat_def add_Suc_right)

lemma integratedfastpack17_eq: "integratedfastpack17 i inp = pack_ref 17 (diffs_from i inp)"
  by (simp add: integratedfastpack17_def pack_words Let_def del: One_nat_def add_Suc_right)
     (simp add: pack_simps nth_diffs del: One_nat_def add_Suc_right)

lemma integratedfastpack18_eq: "integratedfastpack18 i inp = pack_ref 18 (diffs_from i inp)"
  by (simp add: integratedfastpack18_def pack_words Let_def del: One_nat_def add_Suc_right)
     (simp add: pack_simps nth_diffs del: One_nat_def add_Suc_right)

lemma integratedfastpack19_eq: "integratedfastpack19 i inp = pack_ref 19 (diffs_from i inp)"
  by (simp add: integratedfastpack19_def pack_words Let_def del: One_nat_def add_Suc_right)
     (simp add: pack_simps nth_diffs del: One_nat_def add_Suc_right)

lemma integratedfastpack20_eq: "integratedfastpack20 i inp = pack_ref 20 (diffs_from i inp)"
  by (simp add: integratedfastpack20_def pack_words Let_def del: One_nat_def add_Suc_right)
     (simp add: pack_simps nth_diffs del: One_nat_def add_Suc_right)

lemma integratedfastpack21_eq: "integratedfastpack21 i inp = pack_ref 21 (diffs_from i inp)"
  by (simp add: integratedfastpack21_def pack_words Let_def del: One_nat_def add_Suc_right)
     (simp add: pack_simps nth_diffs del: One_nat_def add_Suc_right)

lemma integratedfastpack22_eq: "integratedfastpack22 i inp = pack_ref 22 (diffs_from i inp)"
  by (simp add: integratedfastpack22_def pack_words Let_def del: One_nat_def add_Suc_right)
     (simp add: pack_simps nth_diffs del: One_nat_def add_Suc_right)

lemma integratedfastpack23_eq: "integratedfastpack23 i inp = pack_ref 23 (diffs_from i inp)"
  by (simp add: integratedfastpack23_def pack_words Let_def del: One_nat_def add_Suc_right)
     (simp add: pack_simps nth_diffs del: One_nat_def add_Suc_right)

lemma integratedfastpack24_eq: "integratedfastpack24 i inp = pack_ref 24 (diffs_from i inp)"
  by (simp add: integratedfastpack24_def pack_words Let_def del: One_nat_def add_Suc_right)
     (simp add: pack_simps nth_diffs del: One_nat_def add_Suc_right)

lemma integratedfastpack25_eq: "integratedfastpack25 i inp = pack_ref 25 (diffs_from i inp)"
  by (simp add: integratedfastpack25_def pack_words Let_def del: One_nat_def add_Suc_right)
     (simp add: pack_simps nth_diffs del: One_nat_def add_Suc_right)

lemma integratedfastpack26_eq: "integratedfastpack26 i inp = pack_ref 26 (diffs_from i inp)"
  by (simp add: integratedfastpack26_def pack_words Let_def del: One_nat_def add_Suc_right)
     (simp add: pack_simps nth_diffs del: One_nat_def add_Suc_right)

lemma integratedfastpack27_eq: "integratedfastpack27 i inp = pack_ref 27 (diffs_from i inp)"
  by (simp add: integratedfastpack27_def pack_words Let_def del: One_nat_def add_Suc_right)
     (simp add: pack_simps nth_diffs del: One_nat_def add_Suc_right)

lemma integratedfastpack28_eq: "integratedfastpack28 i inp = pack_ref 28 (diffs_from i inp)"
  by (simp add: integratedfastpack28_def pack_words Let_def del: One_nat_def add_Suc_right)
     (simp add: pack_simps nth_diffs del: One_nat_def add_Suc_right)

lemma integratedfastpack29_eq: "integratedfastpack29 i inp = pack_ref 29 (diffs_from i inp)"
  by (simp add: integratedfastpack29_def pack_words Let_def del: One_nat_def add_Suc_right)
     (simp add: pack_simps nth_diffs del: One_nat_def add_Suc_right)

lemma integratedfastpack30_eq: "integratedfastpack30 i inp = pack_ref 30 (diffs_from i inp)"
  by (simp add: integratedfastpack30_def pack_words Let_def del: One_nat_def add_Suc_right)
     (simp add: pack_simps nth_diffs del: One_nat_def add_Suc_right)

lemma integratedfastpack31_eq: "integratedfastpack31 i inp = pack_ref 31 (diffs_from i inp)"
  by (simp add: integratedfastpack31_def pack_words Let_def del: One_nat_def add_Suc_right)
     (simp add: pack_simps nth_diffs del: One_nat_def add_Suc_right)

lemma integratedfastpack32_eq: "integratedfastpack32 i inp = pack_ref 32 inp"
  by (simp add: integratedfastpack32_def pack_words del: One_nat_def add_Suc_right)
     (simp add: pack_simps del: One_nat_def add_Suc_right)

section \<open>The routines in the order of their widths\<close>

definition integratedfastunpack_table :: "(u32 \<Rightarrow> u32 list \<Rightarrow> u32 list) list" where
  "integratedfastunpack_table =
    [integratedfastunpack0, integratedfastunpack1, integratedfastunpack2, integratedfastunpack3,
     integratedfastunpack4, integratedfastunpack5, integratedfastunpack6, integratedfastunpack7,
     integratedfastunpack8, integratedfastunpack9, integratedfastunpack10, integratedfastunpack11,
     integratedfastunpack12, integratedfastunpack13, integratedfastunpack14, integratedfastunpack15,
     integratedfastunpack16, integratedfastunpack17, integratedfastunpack18, integratedfastunpack19,
     integratedfastunpack20, integratedfastunpack21, integratedfastunpack22, integratedfastunpack23,
     integratedfastunpack24, integratedfastunpack25, integratedfastunpack26, integratedfastunpack27,
     integratedfastunpack28, integratedfastunpack29, integratedfastunpack30, integratedfastunpack31,
     integratedfastunpack32]"

definition integratedfastpack_table :: "(u32 \<Rightarrow> u32 list \<Rightarrow> u32 list) list" where
  "integratedfastpack_table =
    [integratedfastpack0, integratedfastpack1, integratedfastpack2, integratedfastpack3, integratedfastpack4,
     integratedfastpack5, integratedfastpack6, integratedfastpack7, integratedfastpack8, integratedfastpack9,
     integratedfastpack10, integratedfastpack11, integratedfastpack12, integratedfastpack13, integratedfastpack14,
     integratedfastpack15, integratedfastpack16, integratedfastpack17, integratedfastpack18, integratedfastpack19,
     integratedfastpack20, integratedfastpack21, integratedfastpack22, integratedfastpack23, integratedfastpack24,
     integratedfastpack25, integratedfastpack26, integratedfastpack27, integratedfastpack28, integratedfastpack29,
     integratedfastpack30, integratedfastpack31, integratedfastpack32]"

lemmas integratedfastunpack_eqs =
  integratedfastunpack0_eq integratedfastunpack1_eq integratedfastunpack2_eq integratedfastunpack3_eq
  integratedfastunpack4_eq integratedfastunpack5_eq integratedfastunpack6_eq integratedfastunpack7_eq
  integratedfastunpack8_eq integratedfastunpack9_eq integratedfastunpack10_eq integratedfastunpack11_eq
  integratedfastunpack12_eq integratedfastunpack13_eq integratedfastunpack14_eq integratedfastunpack15_eq
  integratedfastunpack16_eq integratedfastunpack17_eq integratedfastunpack18_eq integratedfastunpack19_eq
  integratedfastunpack20_eq integratedfastunpack21_eq integratedfastunpack22_eq integratedfastunpack23_eq
  integratedfastunpack24_eq integratedfastunpack25_eq integratedfastunpack26_eq integratedfastunpack27_eq
  integratedfastunpack28_eq integratedfastunpack29_eq integratedfastunpack30_eq integratedfastunpack31_eq
  integratedfastunpack32_eq

lemmas integratedfastpack_eqs =
  integratedfastpack0_eq integratedfastpack1_eq integratedfastpack2_eq integratedfastpack3_eq
  integratedfastpack4_eq integratedfastpack5_eq integratedfastpack6_eq integratedfastpack7_eq
  integratedfastpack8_eq integratedfastpack9_eq integratedfastpack10_eq integratedfastpack11_eq
  integratedfastpack12_eq integratedfastpack13_eq integratedfastpack14_eq integratedfastpack15_eq
  integratedfastpack16_eq integratedfastpack17_eq integratedfastpack18_eq integratedfastpack19_eq
  integratedfastpack20_eq integratedfastpack21_eq integratedfastpack22_eq integratedfastpack23_eq
  integratedfastpack24_eq integratedfastpack25_eq integratedfastpack26_eq integratedfastpack27_eq
  integratedfastpack28_eq integratedfastpack29_eq integratedfastpack30_eq integratedfastpack31_eq
  integratedfastpack32_eq

end
