(* ===== verification/Scalar_Helpers.thy ===== *)
theory Scalar_Helpers
  imports Codec_Base Scalar_Unpack Scalar_Pack Scalar_NoMask Scalar_Integrated
begin

text \<open>
  \<open>delta\<close> and \<open>inverseDelta\<close> of \<open>include/util/compression/simd-compression/delta.h\<close>, and the class \<open>BitPackingHelpers\<close> of
  \<open>bitpackinghelpers.h\<close>: the switches over the widths of the scalar routines and the loops over blocks of 32 integers. Packing with differences
  overwrites the integers of the caller by them, so a packer gives the words and what the input holds afterwards.
\<close>

section \<open>Differences in place\<close>

text \<open>The loop of \<open>delta\<close> runs from the last integer down to the second.\<close>

primrec delta_loop :: "nat \<Rightarrow> u32 list \<Rightarrow> u32 list" where
  "delta_loop 0 data = data"
| "delta_loop (Suc i) data = delta_loop i (data[Suc i := data ! Suc i - data ! i])"

definition delta :: "u32 \<Rightarrow> u32 list \<Rightarrow> u32 list" where
  "delta initoffset data =
     (if data = [] then data else let data = delta_loop (length data - 1) data in data[0 := data ! 0 - initoffset])"

text \<open>\<open>inverseDelta\<close> adds four at a time as long as \<open>i < sz0 - UnrollQty\<close>, and then one at a time.\<close>

function inverse_unrolled :: "nat \<Rightarrow> u32 list \<Rightarrow> nat \<Rightarrow> u32 \<Rightarrow> u32 list \<times> nat" where
  "inverse_unrolled stop data i a =
     (if i < stop then
        let a = data ! i + a; data = data[i := a];
            a = data ! (i + 1) + a; data = data[i + 1 := a];
            a = data ! (i + 2) + a; data = data[i + 2 := a];
            a = data ! (i + 3) + a; data = data[i + 3 := a]
        in inverse_unrolled stop data (i + 4) a
      else (data, i))"
  by pat_completeness auto
termination by (relation "measure (\<lambda>(stop, data, i, a). stop - i)") auto

definition inverse_rest :: "u32 list \<Rightarrow> nat \<Rightarrow> u32 list" where
  "inverse_rest data i = foldl (\<lambda>data i. data[i := data ! i + data ! (i - 1)]) data [i..<length data]"

definition inverseDelta :: "u32 \<Rightarrow> u32 list \<Rightarrow> u32 list" where
  "inverseDelta initoffset data =
     (if data = [] then data
      else let data = data[0 := data ! 0 + initoffset]; sz0 = length data div 4 * 4;
               (data, i) = (if 4 \<le> sz0 then inverse_unrolled (sz0 - 4) data 1 (data ! 0) else (data, 1))
           in inverse_rest data i)"

declare inverse_unrolled.simps [simp del]

lemma delta_loop_nth:
  assumes "i < length data"
  shows "length (delta_loop i data) = length data"
    and "k < length data \<Longrightarrow> delta_loop i data ! k = (if 0 < k \<and> k \<le> i then data ! k - data ! (k - 1) else data ! k)"
  using assms
proof (induction i arbitrary: data)
  case (Suc i)
  { case 1 then show ?case using Suc.IH(1) [of "data[Suc i := data ! Suc i - data ! i]"] by simp
  next
    case 2
    then show ?case using Suc.IH(2) [of "data[Suc i := data ! Suc i - data ! i]"]
      by (cases "k = Suc i") (auto simp: nth_list_update) }
qed auto

lemma delta_eq: "delta i data = map (diff_at i data) [0..<length data]"
proof (cases "data = []")
  case False
  then show ?thesis
    using delta_loop_nth [of "length data - 1" data]
    by (intro nth_equalityI) (auto simp: delta_def Let_def nth_list_update diff_at_def)
qed (simp add: delta_def)

lemma delta_block: "length xs = 32 \<Longrightarrow> delta i xs = diffs_from i xs"
  by (simp add: delta_eq diffs_from_def)

text \<open>Where both loops of \<open>inverseDelta\<close> stand at position \<open>i\<close>, the integers before \<open>i\<close> are summed already.\<close>

definition summed :: "u32 \<Rightarrow> u32 list \<Rightarrow> nat \<Rightarrow> u32 list" where
  "summed a xs i = take i (sums a xs) @ drop i xs"

lemma length_summed [simp]: "length (summed a xs i) = length xs"
  by (simp add: summed_def)

lemma nth_sums: "i < length xs \<Longrightarrow> sums a xs ! i = xs ! i + (if i = 0 then a else sums a xs ! (i - 1))"
proof (induction xs arbitrary: a i)
  case (Cons x xs)
  then show ?case by (cases i) (auto simp: sums.simps nth_Cons')
qed simp

lemma summed_step:
  assumes "0 < i" "i < length xs"
  shows "(summed a xs i)[i := xs ! i + sums a xs ! (i - 1)] = summed a xs (i + 1)"
    and "summed a xs i ! i = xs ! i" and "summed a xs i ! (i - 1) = sums a xs ! (i - 1)"
proof -
  have "xs ! i + sums a xs ! (i - 1) = sums a xs ! i" using assms nth_sums [of i xs a] by simp
  then show "(summed a xs i)[i := xs ! i + sums a xs ! (i - 1)] = summed a xs (i + 1)"
    using assms by (intro nth_equalityI) (auto simp: summed_def nth_list_update nth_append less_Suc_eq)
  show "summed a xs i ! i = xs ! i" "summed a xs i ! (i - 1) = sums a xs ! (i - 1)"
    using assms by (simp_all add: summed_def nth_append)
qed

lemma inverse_rest_summed:
  assumes "0 < i" "i \<le> length xs"
  shows "inverse_rest (summed a xs i) i = sums a xs"
  using assms
proof (induction "length xs - i" arbitrary: i)
  case 0
  then show ?case by (simp add: inverse_rest_def summed_def)
next
  case (Suc n)
  then have i: "0 < i" "i < length xs" by auto
  have "inverse_rest (summed a xs i) i = inverse_rest (summed a xs (i + 1)) (i + 1)"
    using summed_step [OF i, of a] i by (simp add: inverse_rest_def upt_conv_Cons)
  also have "\<dots> = sums a xs" using Suc.hyps(1) [of "i + 1"] Suc.hyps(2) i by simp
  finally show ?case .
qed

lemma inverse_unrolled_summed:
  assumes "0 < i" "stop + 4 \<le> length xs" "i \<le> length xs"
  shows "\<exists>j. inverse_unrolled stop (summed a xs i) i (sums a xs ! (i - 1)) = (summed a xs j, j) \<and> 0 < j \<and> j \<le> length xs"
  using assms
proof (induction "stop - i" arbitrary: i rule: less_induct)
  case less
  show ?case
  proof (cases "i < stop")
    case False
    then show ?thesis using less.prems by (subst inverse_unrolled.simps) auto
  next
    case True
    have step: "summed a xs k ! k + sums a xs ! (k - 1) = sums a xs ! k" "(summed a xs k)[k := sums a xs ! k] = summed a xs (k + 1)"
      if "0 < k" "k < length xs" for k
      using summed_step [OF that, of a] nth_sums [OF that(2), of a] that(1) by simp_all
    have k: "i < length xs" "i + 1 < length xs" "i + 2 < length xs" "i + 3 < length xs" using True less.prems by auto
    have steps:
      "summed a xs i ! i + sums a xs ! (i - 1) = sums a xs ! i" "(summed a xs i)[i := sums a xs ! i] = summed a xs (i + 1)"
      "summed a xs (i + 1) ! (i + 1) + sums a xs ! i = sums a xs ! (i + 1)"
      "(summed a xs (i + 1))[i + 1 := sums a xs ! (i + 1)] = summed a xs (i + 2)"
      "summed a xs (i + 2) ! (i + 2) + sums a xs ! (i + 1) = sums a xs ! (i + 2)"
      "(summed a xs (i + 2))[i + 2 := sums a xs ! (i + 2)] = summed a xs (i + 3)"
      "summed a xs (i + 3) ! (i + 3) + sums a xs ! (i + 2) = sums a xs ! (i + 3)"
      "(summed a xs (i + 3))[i + 3 := sums a xs ! (i + 3)] = summed a xs (i + 4)"
      using less.prems(1) k step [of i] step [of "i + 1"] step [of "i + 2"] step [of "i + 3"] by (simp_all add: eval_nat_numeral)
    have "i + 4 - 1 = i + 3" by simp
    then have "inverse_unrolled stop (summed a xs i) i (sums a xs ! (i - 1)) =
        inverse_unrolled stop (summed a xs (i + 4)) (i + 4) (sums a xs ! (i + 4 - 1))"
      by (subst inverse_unrolled.simps) (simp only: True if_True Let_def steps)
    then show ?thesis using less.hyps [of "i + 4"] True less.prems by simp
  qed
qed

lemma inverseDelta_eq: "inverseDelta a xs = sums a xs"
proof (cases "xs = []")
  case False
  have s0: "sums a xs ! 0 = xs ! 0 + a" using False nth_sums [of 0 xs a] by simp
  have first: "xs[0 := xs ! 0 + a] = summed a xs 1"
    using False s0 by (cases xs) (simp_all add: summed_def sums.simps)
  have at0: "summed a xs 1 ! 0 = sums a xs ! (1 - 1)" using False by (simp add: summed_def nth_append)
  show ?thesis
  proof (cases "4 \<le> length xs div 4 * 4")
    case True
    then have "length xs div 4 * 4 - 4 + 4 \<le> length xs" by simp
    from inverse_unrolled_summed [of 1, OF _ this, of a] False obtain j where
      j: "inverse_unrolled (length xs div 4 * 4 - 4) (summed a xs 1) 1 (sums a xs ! (1 - 1)) = (summed a xs j, j)" "0 < j" "j \<le> length xs"
      by (auto simp: Suc_le_eq)
    then show ?thesis using False True inverse_rest_summed [OF j(2,3)] unfolding inverseDelta_def Let_def first at0 by simp
  next
    case no: False
    then show ?thesis using False inverse_rest_summed [of 1 xs a] by (simp add: inverseDelta_def first Suc_le_eq)
  qed
qed (simp add: inverseDelta_def sums.simps)

section \<open>The switches\<close>

text \<open>Above 32 bits nothing is stored, so that the output keeps what it held: the model leaves this undefined.\<close>

definition BPH_fastunpack :: "u32 list \<Rightarrow> nat \<Rightarrow> u32 list option" where
  "BPH_fastunpack inp b = (if 32 < b then None else do { ws \<leftarrow> rd_seq inp 0 b; Some ((sc_fastunpack_table ! b) ws) })"

definition BPH_fastpack :: "u32 list \<Rightarrow> nat \<Rightarrow> u32 list option" where
  "BPH_fastpack inp b = (if 32 < b then None else do { xs \<leftarrow> rd_seq inp 0 32; Some ((sc_fastpack_table ! b) xs) })"

definition BPH_fastpackwithoutmask :: "u32 list \<Rightarrow> nat \<Rightarrow> u32 list option" where
  "BPH_fastpackwithoutmask inp b =
     (if 32 < b then None else do { xs \<leftarrow> rd_seq inp 0 32; Some ((sc_fastpackwithoutmask_table ! b) xs) })"

definition BPH_integratedfastunpack :: "u32 \<Rightarrow> u32 list \<Rightarrow> nat \<Rightarrow> u32 list option" where
  "BPH_integratedfastunpack initoffset inp b =
     (if 32 < b then None else do { ws \<leftarrow> rd_seq inp 0 b; Some ((integratedfastunpack_table ! b) initoffset ws) })"

definition BPH_integratedfastpackwithoutmask :: "u32 \<Rightarrow> u32 list \<Rightarrow> nat \<Rightarrow> u32 list option" where
  "BPH_integratedfastpackwithoutmask initoffset inp b =
     (if 32 < b then None else do { xs \<leftarrow> rd_seq inp 0 32; Some ((integratedfastpack_table ! b) initoffset xs) })"

text \<open>The tables are the references.\<close>

lemma integratedfastunpack_table_eq:
  "b \<le> 32 \<Longrightarrow> (integratedfastunpack_table ! b) i inp = (if b < 32 then sums i (unpack_ref b inp) else unpack_ref 32 inp)"
proof -
  have table: "integratedfastunpack_table =
      map (\<lambda>b i inp. if b < 32 then sums i (unpack_ref b inp) else unpack_ref 32 inp) [0..<33]"
    by (simp add: integratedfastunpack_table_def fun_eq_iff integratedfastunpack_eqs upt_step del: One_nat_def add_Suc_right)
  assume "b \<le> 32"
  then show ?thesis unfolding table by (simp del: upt.simps)
qed

lemma integratedfastpack_table_eq:
  "b \<le> 32 \<Longrightarrow> (integratedfastpack_table ! b) i inp =
     (if b = 32 then pack_ref 32 inp
      else if b \<in> {1, 4, 8, 16} then pack_nomask_ref b (diffs_from i inp) else pack_ref b (diffs_from i inp))"
proof -
  have table: "integratedfastpack_table =
      map (\<lambda>b i inp. if b = 32 then pack_ref 32 inp
        else if b \<in> {1, 4, 8, 16} then pack_nomask_ref b (diffs_from i inp) else pack_ref b (diffs_from i inp)) [0..<33]"
    by (simp add: integratedfastpack_table_def fun_eq_iff integratedfastpack_eqs upt_step del: One_nat_def add_Suc_right)
  assume "b \<le> 32"
  then show ?thesis unfolding table by (simp del: upt.simps)
qed

lemma length_pack_nomask_ref [simp]: "length (pack_nomask_ref b xs) = b"
  by (simp add: pack_nomask_ref_def)

lemma fits_map_idI: "(\<And>x. x \<in> set xs \<Longrightarrow> take_bit b x = x) \<Longrightarrow> map (take_bit b) xs = (xs :: u32 list)"
  by (rule map_idI)

text \<open>Integers that fit the width come back from their words.\<close>

lemma BPH_pack_unpack:
  assumes "b \<le> 32" "length xs = 32" "\<And>x. x \<in> set xs \<Longrightarrow> take_bit b x = x"
  shows "\<exists>ws. BPH_fastpack xs b = Some ws \<and> BPH_fastpackwithoutmask xs b = Some ws \<and> length ws = b \<and>
    (\<forall>rest. BPH_fastunpack (ws @ rest) b = Some xs)"
proof -
  have "pack_nomask_ref b xs = pack_ref b xs" using assms by (intro pack_nomask_eq) auto
  moreover have "unpack_ref b (pack_ref b xs) = xs"
    using assms fits_map_idI [of xs b] by (simp add: unpack_pack_ref)
  ultimately show ?thesis
    using assms(1,2) by (simp add: BPH_fastpack_def BPH_fastpackwithoutmask_def BPH_fastunpack_def rd_seq_def
        sc_fastpack_table_eq sc_fastpackwithoutmask_table_eq sc_fastunpack_table_eq del: upt.simps)
qed

lemma BPH_integrated:
  assumes "b \<le> 32" "length xs = 32" "\<And>x. b < 32 \<Longrightarrow> x \<in> set (diffs_from i xs) \<Longrightarrow> take_bit b x = x"
  shows "\<exists>ws. BPH_integratedfastpackwithoutmask i xs b = Some ws \<and> length ws = b \<and>
    (\<forall>rest. BPH_integratedfastunpack i (ws @ rest) b = Some xs)"
proof (cases "b = 32")
  case True
  have "unpack_ref 32 (pack_ref 32 xs) = xs"
    using assms(2) fits_map_idI [of xs 32] by (simp add: unpack_pack_ref take_bit_word_eq_self)
  then show ?thesis
    using True assms(2) by (simp add: BPH_integratedfastpackwithoutmask_def BPH_integratedfastunpack_def rd_seq_def
        integratedfastpack_table_eq integratedfastunpack_table_eq)
next
  case False
  then have b: "b < 32" using assms(1) by simp
  have "pack_nomask_ref b (diffs_from i xs) = pack_ref b (diffs_from i xs)"
    using assms(1,3) b by (intro pack_nomask_eq) auto
  moreover have "unpack_ref b (pack_ref b (diffs_from i xs)) = diffs_from i xs"
    using assms b fits_map_idI [of "diffs_from i xs" b] by (simp add: unpack_pack_ref)
  ultimately show ?thesis
    using b assms(2) by (auto simp: BPH_integratedfastpackwithoutmask_def BPH_integratedfastunpack_def rd_seq_def
        integratedfastpack_table_eq integratedfastunpack_table_eq sums_diffs_from)
qed

section \<open>The loops over blocks of 32 integers\<close>

text \<open>A block is packed from the last integer of the block before it, as it was before the differences were taken. The loops give the words and the integers that
  the input holds afterwards.\<close>

primrec pack_chunks ::
  "(u32 \<Rightarrow> u32 list \<Rightarrow> (u32 list \<times> u32 list) option) \<Rightarrow> nat \<Rightarrow> u32 \<Rightarrow> u32 list \<Rightarrow> (u32 list \<times> u32 list) option"
where
  "pack_chunks pk 0 initoffset inp = Some ([], inp)"
| "pack_chunks pk (Suc k) initoffset inp = do {
     xs \<leftarrow> rd_seq inp 0 32;
     (ws, ys) \<leftarrow> pk initoffset xs;
     (ws', ys') \<leftarrow> pack_chunks pk k (xs ! 31) (drop 32 inp);
     Some (ws @ ws', ys @ ys')
   }"

primrec unpack_chunks ::
  "(u32 \<Rightarrow> u32 list \<Rightarrow> u32 list option) \<Rightarrow> nat \<Rightarrow> nat \<Rightarrow> u32 \<Rightarrow> u32 list \<Rightarrow> u32 list option"
where
  "unpack_chunks up b 0 initoffset inp = Some []"
| "unpack_chunks up b (Suc k) initoffset inp = do {
     xs \<leftarrow> up initoffset inp;
     xs' \<leftarrow> unpack_chunks up b k (xs ! 31) (drop b inp);
     Some (xs @ xs')
   }"

definition whole_blocks :: "nat \<Rightarrow> 'a option \<Rightarrow> 'a codec_result" where
  "whole_blocks Qty r = (if Qty mod 32 \<noteq> 0 then Some (Inl LogicError) else do { x \<leftarrow> r; Some (Inr x) })"

definition BPH_ipackwithoutmask :: "u32 list \<Rightarrow> nat \<Rightarrow> (u32 list \<times> u32 list) codec_result" where
  "BPH_ipackwithoutmask inp b = whole_blocks (length inp)
     (pack_chunks (\<lambda>initoffset xs. do { ws \<leftarrow> BPH_integratedfastpackwithoutmask initoffset xs b; Some (ws, xs) })
        (length inp div 32) 0 inp)"

definition BPH_pack :: "u32 list \<Rightarrow> nat \<Rightarrow> (u32 list \<times> u32 list) codec_result" where
  "BPH_pack inp b = whole_blocks (length inp)
     (pack_chunks (\<lambda>initoffset xs. let ys = (if b < 32 then delta initoffset xs else xs)
                                   in do { ws \<leftarrow> BPH_fastpack ys b; Some (ws, ys) }) (length inp div 32) 0 inp)"

definition BPH_packwithoutmask :: "u32 list \<Rightarrow> nat \<Rightarrow> (u32 list \<times> u32 list) codec_result" where
  "BPH_packwithoutmask inp b = whole_blocks (length inp)
     (pack_chunks (\<lambda>initoffset xs. let ys = (if b < 32 then delta initoffset xs else xs)
                                   in do { ws \<leftarrow> BPH_fastpackwithoutmask ys b; Some (ws, ys) }) (length inp div 32) 0 inp)"

text \<open>\<open>packWithoutDelta\<close>, \<open>packwithoutmaskWithoutDelta\<close> and \<open>unpackWithoutDelta\<close> do not look at \<open>Qty % BlockSize\<close>: what is left over is not packed.\<close>

definition BPH_packWithoutDelta :: "u32 list \<Rightarrow> nat \<Rightarrow> u32 list option" where
  "BPH_packWithoutDelta inp b = map_option fst
     (pack_chunks (\<lambda>_ xs. do { ws \<leftarrow> BPH_fastpack xs b; Some (ws, xs) }) (length inp div 32) 0 inp)"

definition BPH_packwithoutmaskWithoutDelta :: "u32 list \<Rightarrow> nat \<Rightarrow> u32 list option" where
  "BPH_packwithoutmaskWithoutDelta inp b = map_option fst
     (pack_chunks (\<lambda>_ xs. do { ws \<leftarrow> BPH_fastpackwithoutmask xs b; Some (ws, xs) }) (length inp div 32) 0 inp)"

definition BPH_unpack :: "u32 list \<Rightarrow> nat \<Rightarrow> nat \<Rightarrow> u32 list codec_result" where
  "BPH_unpack inp Qty b = whole_blocks Qty
     (unpack_chunks (\<lambda>initoffset inp. do { xs \<leftarrow> BPH_fastunpack inp b; Some (if b < 32 then inverseDelta initoffset xs else xs) })
        b (Qty div 32) 0 inp)"

definition BPH_unpackWithoutDelta :: "u32 list \<Rightarrow> nat \<Rightarrow> nat \<Rightarrow> u32 list option" where
  "BPH_unpackWithoutDelta inp Qty b = unpack_chunks (\<lambda>_ inp. BPH_fastunpack inp b) b (Qty div 32) 0 inp"

definition BPH_iunpack :: "u32 list \<Rightarrow> nat \<Rightarrow> nat \<Rightarrow> u32 list codec_result" where
  "BPH_iunpack inp Qty b = whole_blocks Qty
     (unpack_chunks (\<lambda>initoffset inp. BPH_integratedfastunpack initoffset inp b) b (Qty div 32) 0 inp)"

section \<open>Round trip of the loops\<close>

text \<open>What one turn of a pair of loops promises for the blocks that fit the width.\<close>

locale chunk_packer =
  fixes pk :: "nat \<Rightarrow> u32 \<Rightarrow> u32 list \<Rightarrow> (u32 list \<times> u32 list) option"
    and up :: "nat \<Rightarrow> u32 \<Rightarrow> u32 list \<Rightarrow> u32 list option"
    and fits :: "nat \<Rightarrow> u32 \<Rightarrow> u32 list \<Rightarrow> bool"
  assumes packed: "\<lbrakk>b \<le> 32; length xs = 32; fits b i xs\<rbrakk> \<Longrightarrow>
      \<exists>ws ys. pk b i xs = Some (ws, ys) \<and> length ws = b \<and> (\<forall>rest. up b i (ws @ rest) = Some xs)"
begin

lemma chunks_round_trip:
  assumes "b \<le> 32" "length xs = 32 * k"
    and "\<forall>j < k. fits b (if j = 0 then i else xs ! (32 * j - 1)) (take 32 (drop (32 * j) xs))"
  shows "\<exists>ws ys. pack_chunks (pk b) k i xs = Some (ws, ys) \<and> length ws = k * b \<and>
    (\<forall>rest. unpack_chunks (up b) b k i (ws @ rest) = Some xs)"
  using assms(2,3)
proof (induction k arbitrary: i xs)
  case (Suc k)
  let ?x = "take 32 xs"
  have l: "length ?x = 32" "length (drop 32 xs) = 32 * k" using Suc.prems(1) by simp_all
  have x31: "?x ! 31 = xs ! 31" by simp
  have "fits b i ?x" using Suc.prems(2) by force
  from packed [OF assms(1) l(1) this] obtain ws ys where
    1: "pk b i ?x = Some (ws, ys)" "length ws = b" "\<And>rest. up b i (ws @ rest) = Some ?x" by blast
  have f: "\<forall>j < k. fits b (if j = 0 then xs ! 31 else drop 32 xs ! (32 * j - 1)) (take 32 (drop (32 * j) (drop 32 xs)))"
  proof (intro allI impI)
    fix j assume j: "j < k"
    have "fits b (xs ! (32 * Suc j - 1)) (take 32 (drop (32 * Suc j) xs))"
      using Suc.prems(2) [rule_format, OF Suc_mono [OF j]] by simp
    moreover have "xs ! (32 * Suc j - 1) = (if j = 0 then xs ! 31 else drop 32 xs ! (32 * j - 1))"
      using Suc.prems(1) by (cases j) simp_all
    ultimately show "fits b (if j = 0 then xs ! 31 else drop 32 xs ! (32 * j - 1)) (take 32 (drop (32 * j) (drop 32 xs)))"
      by (simp add: add.commute)
  qed
  from Suc.IH [OF l(2) f] obtain ws' ys' where
    2: "pack_chunks (pk b) k (xs ! 31) (drop 32 xs) = Some (ws', ys')" "length ws' = k * b"
       "\<And>rest. unpack_chunks (up b) b k (xs ! 31) (ws' @ rest) = Some (drop 32 xs)" by blast
  have "pack_chunks (pk b) (Suc k) i xs = Some (ws @ ws', ys @ ys')"
    using 1(1) 2(1) Suc.prems(1) by (simp add: rd_seq_def)
  moreover have "unpack_chunks (up b) b (Suc k) i ((ws @ ws') @ rest) = Some xs" for rest
    using 1(2,3) 2(3) x31 by simp
  ultimately show ?case using 1(2) 2(2) by (metis add.commute length_append mult_Suc)
qed simp

end

definition fits_diffs :: "nat \<Rightarrow> u32 \<Rightarrow> u32 list \<Rightarrow> bool" where
  "fits_diffs b i xs \<longleftrightarrow> b = 32 \<or> list_all (\<lambda>x. take_bit b x = x) (diffs_from i xs)"

interpretation integrated: chunk_packer
  "\<lambda>b i xs. do { ws \<leftarrow> BPH_integratedfastpackwithoutmask i xs b; Some (ws, xs) }"
  "\<lambda>b i inp. BPH_integratedfastunpack i inp b" fits_diffs
proof
  fix b :: nat and i :: u32 and xs :: "u32 list"
  assume a: "b \<le> 32" "length xs = 32" "fits_diffs b i xs"
  have "\<And>x. b < 32 \<Longrightarrow> x \<in> set (diffs_from i xs) \<Longrightarrow> take_bit b x = x"
    using a(3) by (auto simp: fits_diffs_def list_all_iff)
  from BPH_integrated [where i = i, OF a(1,2) this] obtain ws where
    "BPH_integratedfastpackwithoutmask i xs b = Some ws" "length ws = b"
    "\<And>rest. BPH_integratedfastunpack i (ws @ rest) b = Some xs" by blast
  then show "\<exists>ws ys. do { ws \<leftarrow> BPH_integratedfastpackwithoutmask i xs b; Some (ws, xs) } = Some (ws, ys) \<and> length ws = b \<and>
      (\<forall>rest. BPH_integratedfastunpack i (ws @ rest) b = Some xs)" by simp
qed

text \<open>With the differences taken in place, with and without masks.\<close>

lemma delta_packer:
  assumes "pk = BPH_fastpack \<or> pk = BPH_fastpackwithoutmask"
  shows "chunk_packer
    (\<lambda>b i xs. let ys = (if b < 32 then delta i xs else xs) in do { ws \<leftarrow> pk ys b; Some (ws, ys) })
    (\<lambda>b i inp. do { xs \<leftarrow> BPH_fastunpack inp b; Some (if b < 32 then inverseDelta i xs else xs) }) fits_diffs"
proof
  fix b :: nat and i :: u32 and xs :: "u32 list"
  assume a: "b \<le> 32" "length xs = 32" "fits_diffs b i xs"
  define ys where "ys = (if b < 32 then delta i xs else xs)"
  have ys: "length ys = 32" "\<And>x. x \<in> set ys \<Longrightarrow> take_bit b x = x"
    using a by (auto simp: ys_def fits_diffs_def delta_block list_all_iff take_bit_word_eq_self split: if_splits)
  from BPH_pack_unpack [OF a(1) ys] assms obtain ws where
    "pk ys b = Some ws" "length ws = b" "\<And>rest. BPH_fastunpack (ws @ rest) b = Some ys" by auto
  moreover have "(if b < 32 then inverseDelta i ys else ys) = xs"
    using a(2) by (simp add: ys_def inverseDelta_eq delta_block sums_diffs_from)
  ultimately show "\<exists>ws zs. (let ys = (if b < 32 then delta i xs else xs) in do { ws \<leftarrow> pk ys b; Some (ws, ys) }) = Some (ws, zs) \<and>
      length ws = b \<and>
      (\<forall>rest. do { xs \<leftarrow> BPH_fastunpack (ws @ rest) b; Some (if b < 32 then inverseDelta i xs else xs) } = Some xs)"
    unfolding ys_def [symmetric] by simp
qed

interpretation delta_masked: chunk_packer
  "\<lambda>b i xs. let ys = (if b < 32 then delta i xs else xs) in do { ws \<leftarrow> BPH_fastpack ys b; Some (ws, ys) }"
  "\<lambda>b i inp. do { xs \<leftarrow> BPH_fastunpack inp b; Some (if b < 32 then inverseDelta i xs else xs) }" fits_diffs
  by (rule delta_packer) simp

interpretation delta_unmasked: chunk_packer
  "\<lambda>b i xs. let ys = (if b < 32 then delta i xs else xs) in do { ws \<leftarrow> BPH_fastpackwithoutmask ys b; Some (ws, ys) }"
  "\<lambda>b i inp. do { xs \<leftarrow> BPH_fastunpack inp b; Some (if b < 32 then inverseDelta i xs else xs) }" fits_diffs
  by (rule delta_packer) simp

text \<open>The differences of a whole array, from an integer \<open>i\<close> in front of it on.\<close>

lemma block_diffs:
  assumes "32 * j + 32 \<le> length xs"
  shows "diffs_from (if j = 0 then i else xs ! (32 * j - 1)) (take 32 (drop (32 * j) xs)) = map (\<lambda>k. diff_at i xs (32 * j + k)) [0..<32]"
proof (rule nth_equalityI)
  fix k assume "k < length (diffs_from (if j = 0 then i else xs ! (32 * j - 1)) (take 32 (drop (32 * j) xs)))"
  then have k: "k < 32" by simp
  then show "diffs_from (if j = 0 then i else xs ! (32 * j - 1)) (take 32 (drop (32 * j) xs)) ! k =
      map (\<lambda>k. diff_at i xs (32 * j + k)) [0..<32] ! k"
    using assms by (cases k) (auto simp: nth_diffs diff_at_def simp del: upt.simps)
qed simp

lemma fits_blocks:
  assumes "length xs = 32 * k" "b = 32 \<or> (\<forall>n < length xs. take_bit b (diff_at i xs n) = diff_at i xs n)"
  shows "\<forall>j < k. fits_diffs b (if j = 0 then i else xs ! (32 * j - 1)) (take 32 (drop (32 * j) xs))"
proof (intro allI impI)
  fix j assume j: "j < k"
  then have "32 * j + 32 \<le> length xs" using assms(1) by simp
  from block_diffs [OF this, of i] show "fits_diffs b (if j = 0 then i else xs ! (32 * j - 1)) (take 32 (drop (32 * j) xs))"
    using assms j by (auto simp: fits_diffs_def list_all_iff simp del: upt.simps)
qed

section \<open>Properties\<close>

text \<open>C39. Whole blocks whose differences, the first from 0, fit the width \<open>b\<close> are packed into \<open>b\<close> words a block and come back, whatever follows the words: with
  the differences taken in place, with and without masks, and with the integrated routines. At 32 bits no differences are taken. Other lengths are refused.\<close>

theorem BitPackingHelpers_round_trip:
  assumes "b \<le> 32" and "b = 32 \<or> (\<forall>n < length xs. take_bit b (diff_at 0 xs n) = diff_at 0 xs n)"
    and "pack = BPH_pack \<and> unpack = BPH_unpack \<or> pack = BPH_packwithoutmask \<and> unpack = BPH_unpack \<or>
      pack = BPH_ipackwithoutmask \<and> unpack = BPH_iunpack"
  shows "if length xs mod 32 = 0
    then \<exists>ws ys. pack xs b = Some (Inr (ws, ys)) \<and> length ws = length xs div 32 * b \<and>
      (\<forall>rest. unpack (ws @ rest) (length xs) b = Some (Inr xs))
    else pack xs b = Some (Inl LogicError) \<and> (\<forall>ws. unpack ws (length xs) b = Some (Inl LogicError))"
proof (cases "length xs mod 32 = 0")
  case True
  then have l: "length xs = 32 * (length xs div 32)" by auto
  note fits = fits_blocks [OF l assms(2)]
  note rts = delta_masked.chunks_round_trip [OF assms(1) l fits] delta_unmasked.chunks_round_trip [OF assms(1) l fits]
    integrated.chunks_round_trip [OF assms(1) l fits]
  from assms(3) True show ?thesis
    by (elim disjE conjE; use rts in \<open>force simp: whole_blocks_def BPH_pack_def BPH_packwithoutmask_def BPH_ipackwithoutmask_def
        BPH_unpack_def BPH_iunpack_def\<close>)
next
  case False
  then show ?thesis
    using assms(3) by (auto simp: whole_blocks_def BPH_pack_def BPH_packwithoutmask_def BPH_ipackwithoutmask_def
        BPH_unpack_def BPH_iunpack_def)
qed

theorem BitPackingHelpers_round_trip_witness:
  "(\<exists>ws ys. BPH_ipackwithoutmask (replicate 64 5) 3 = Some (Inr (ws, ys)) \<and> length ws = 6 \<and>
      BPH_iunpack (ws @ [9]) 64 3 = Some (Inr (replicate 64 5))) \<and>
    BPH_pack [1, 2] 2 = Some (Inl LogicError)"
proof -
  have f: "take_bit 3 (5 :: u32) = 5" by (simp add: take_bit_eq_mod)
  then have "\<forall>n < length (replicate 64 (5 :: u32)). take_bit 3 (diff_at 0 (replicate 64 5) n) = diff_at 0 (replicate 64 5) n"
    by (simp add: diff_at_def)
  then have 1: "\<exists>ws ys. BPH_ipackwithoutmask (replicate 64 5) 3 = Some (Inr (ws, ys)) \<and> length ws = 6 \<and>
      BPH_iunpack (ws @ [9]) 64 3 = Some (Inr (replicate 64 5))"
    using BitPackingHelpers_round_trip [of 3 "replicate 64 5" BPH_ipackwithoutmask BPH_iunpack] by fastforce
  have "\<forall>n < length [1, 2 :: u32]. take_bit 2 (diff_at 0 [1, 2] n) = diff_at 0 [1, 2] n"
    by (simp add: less_Suc_eq diff_at_def take_bit_eq_mod)
  then have "BPH_pack [1, 2] 2 = Some (Inl LogicError)"
    using BitPackingHelpers_round_trip [of 2 "[1, 2]" BPH_pack BPH_unpack] by simp
  with 1 show ?thesis by blast
qed

end
