(* ===== verification/Scalar_Codec.thy ===== *)
theory Scalar_Codec
  imports Scalar_Helpers Block_Loops
begin

text \<open>
  \<open>include/util/compression/simd-compression/binarypacking.h\<close>: the block packers and the codec \<open>BinaryPacking\<close>, which groups four blocks of 32 integers
  behind a word that holds their widths. The last group may have fewer blocks; its word has four widths all the same. \<open>encodeArray\<close> may overwrite the
  integers of its caller by differences, so it gives the words it stores and what the input holds afterwards.
\<close>

section \<open>The block packers\<close>

text \<open>The class the codec is instantiated with. Each function takes \<open>initoffset\<close> and gives its new value; \<open>packblockwithoutmask\<close> also gives what the
  input holds afterwards.\<close>

record scalar_block_packer =
  pk_maxbits :: "u32 list \<Rightarrow> u32 \<Rightarrow> (nat \<times> u32) option"
  packblockwithoutmask :: "u32 list \<Rightarrow> nat \<Rightarrow> u32 \<Rightarrow> (u32 list \<times> u32 list \<times> u32) option"
  pk_unpackblock :: "u32 list \<Rightarrow> nat \<Rightarrow> u32 \<Rightarrow> (u32 list \<times> u32) option"

definition delta_maxbits :: "u32 list \<Rightarrow> u32 \<Rightarrow> (nat \<times> u32) option" where
  "delta_maxbits inp initoffset = do {
     xs \<leftarrow> rd_seq inp 0 32;
     b \<leftarrow> gccbits (foldl (\<lambda>acc k. acc OR (xs ! k - xs ! (k - 1))) (xs ! 0 - initoffset) [1..<32]);
     Some (b, xs ! 31)
   }"

definition BasicBlockPacker :: scalar_block_packer where
  "BasicBlockPacker = \<lparr>
     pk_maxbits = delta_maxbits,
     packblockwithoutmask = (\<lambda>inp b initoffset. do {
       xs \<leftarrow> rd_seq inp 0 32;
       let nextoffset = xs ! 31;
       let ys = (if b < 32 then delta initoffset xs else xs);
       ws \<leftarrow> BPH_fastpackwithoutmask ys b;
       Some (ws, ys, nextoffset)
     }),
     pk_unpackblock = (\<lambda>inp b initoffset. do {
       xs \<leftarrow> BPH_fastunpack inp b;
       let xs = (if b < 32 then inverseDelta initoffset xs else xs);
       Some (xs, xs ! 31)
     })\<rparr>"

definition NoDeltaBlockPacker :: scalar_block_packer where
  "NoDeltaBlockPacker = \<lparr>
     pk_maxbits = (\<lambda>inp initoffset. do {
       xs \<leftarrow> rd_seq inp 0 32;
       b \<leftarrow> gccbits (foldl (OR) 0 xs);
       Some (b, initoffset)
     }),
     packblockwithoutmask = (\<lambda>inp b initoffset. do {
       xs \<leftarrow> rd_seq inp 0 32;
       ws \<leftarrow> BPH_fastpackwithoutmask xs b;
       Some (ws, xs, initoffset)
     }),
     pk_unpackblock = (\<lambda>inp b initoffset. do { xs \<leftarrow> BPH_fastunpack inp b; Some (xs, initoffset) })\<rparr>"

definition IntegratedBlockPacker :: scalar_block_packer where
  "IntegratedBlockPacker = \<lparr>
     pk_maxbits = delta_maxbits,
     packblockwithoutmask = (\<lambda>inp b initoffset. do {
       xs \<leftarrow> rd_seq inp 0 32;
       ws \<leftarrow> BPH_integratedfastpackwithoutmask initoffset xs b;
       Some (ws, xs, xs ! 31)
     }),
     pk_unpackblock = (\<lambda>inp b initoffset. do { xs \<leftarrow> BPH_integratedfastunpack initoffset inp b; Some (xs, xs ! 31) })\<rparr>"

section \<open>The codec\<close>

primrec group_bits :: "scalar_block_packer \<Rightarrow> nat \<Rightarrow> u32 list \<Rightarrow> u32 \<Rightarrow> nat list option" where
  "group_bits p 0 inp tmpinit = Some []"
| "group_bits p (Suc n) inp tmpinit = do {
     (b, tmpinit) \<leftarrow> pk_maxbits p inp tmpinit;
     Bs \<leftarrow> group_bits p n (drop 32 inp) tmpinit;
     Some (b # Bs)
   }"

definition group_head :: "nat list \<Rightarrow> u32" where
  "group_head Bs =
     push_bit 24 (of_nat (Bs ! 0)) OR push_bit 16 (of_nat (Bs ! 1)) OR push_bit 8 (of_nat (Bs ! 2)) OR of_nat (Bs ! 3)"

definition head_bits :: "u32 \<Rightarrow> nat list" where
  "head_bits w = [unat (ucast (drop_bit 24 w) :: u8), unat (ucast (drop_bit 16 w) :: u8),
                  unat (ucast (drop_bit 8 w) :: u8), unat (ucast w :: u8)]"

text \<open>The blocks of a group; \<open>kept\<close> collects what the input holds afterwards.\<close>

primrec put_group ::
  "scalar_block_packer \<Rightarrow> nat \<Rightarrow> nat list \<Rightarrow> u32 list \<Rightarrow> u32 \<Rightarrow> u32 list \<Rightarrow> u32 list \<Rightarrow> (u32 list \<times> u32 list \<times> u32) codec_result"
where
  "put_group p cap [] inp init out kept = Some (Inr (out, kept, init))"
| "put_group p cap (b # Bs) inp init out kept = do {
     (ws, ys, init) \<leftarrow> packblockwithoutmask p inp b init;
     and_then (emit cap out ws) (\<lambda>out. put_group p cap Bs (drop 32 inp) init out (kept @ ys))
   }"

definition store_group ::
  "scalar_block_packer \<Rightarrow> nat \<Rightarrow> nat \<Rightarrow> u32 list \<Rightarrow> u32 \<Rightarrow> u32 list \<Rightarrow> u32 list \<Rightarrow> (u32 list \<times> u32 list \<times> u32) codec_result"
where
  "store_group p cap howmany inp init out kept = do {
     Bs \<leftarrow> group_bits p howmany inp init;
     and_then (emit cap out [group_head (Bs @ replicate (4 - howmany) 0)]) (\<lambda>out.
       put_group p cap Bs inp init out kept)
   }"

primrec store_groups ::
  "scalar_block_packer \<Rightarrow> nat \<Rightarrow> nat \<Rightarrow> u32 list \<Rightarrow> u32 \<Rightarrow> u32 list \<Rightarrow> u32 list \<Rightarrow> (u32 list \<times> u32 list) codec_result"
where
  "store_groups p cap 0 inp init out kept =
     (if inp \<noteq> [] then
        and_then (store_group p cap (length inp div 32) inp init out kept) (\<lambda>(out, kept, init). Some (Inr (out, kept)))
      else Some (Inr (out, kept)))"
| "store_groups p cap (Suc k) inp init out kept =
     and_then (store_group p cap 4 inp init out kept) (\<lambda>(out, kept, init).
       store_groups p cap k (drop 128 inp) init out kept)"

definition SBP_encode :: "scalar_block_packer \<Rightarrow> nat \<Rightarrow> u32 list \<Rightarrow> (u32 list \<times> u32 list) codec_result" where
  "SBP_encode p cap inp =
     and_then (checkifdivisibleby (length inp) 32) (\<lambda>_.
     and_then (emit cap [] [of_nat (length inp)]) (\<lambda>out.
       store_groups p cap (length inp div 128) inp 0 out []))"

primrec get_group ::
  "scalar_block_packer \<Rightarrow> nat \<Rightarrow> nat list \<Rightarrow> u32 list \<Rightarrow> u32 \<Rightarrow> u32 list \<Rightarrow> (u32 list \<times> u32 list \<times> u32) codec_result"
where
  "get_group p nvalue [] inp init out = Some (Inr (out, inp, init))"
| "get_group p nvalue (b # Bs) inp init out = do {
     (xs, init) \<leftarrow> pk_unpackblock p inp b init;
     and_then (emit nvalue out xs) (\<lambda>out. get_group p nvalue Bs (drop b inp) init out)
   }"

definition load_group ::
  "scalar_block_packer \<Rightarrow> nat \<Rightarrow> nat \<Rightarrow> u32 list \<Rightarrow> u32 \<Rightarrow> u32 list \<Rightarrow> (u32 list \<times> u32 list \<times> u32) codec_result"
where
  "load_group p nvalue howmany inp init out = do {
     w \<leftarrow> rd inp 0;
     get_group p nvalue (take howmany (head_bits w)) (drop 1 inp) init out
   }"

primrec load_groups ::
  "scalar_block_packer \<Rightarrow> nat \<Rightarrow> nat \<Rightarrow> nat \<Rightarrow> u32 list \<Rightarrow> u32 \<Rightarrow> u32 list \<Rightarrow> (u32 list \<times> u32 list) codec_result"
where
  "load_groups p nvalue howmany 0 inp init out =
     (if 0 < howmany then
        and_then (load_group p nvalue howmany inp init out) (\<lambda>(out, inp, init). Some (Inr (out, inp)))
      else Some (Inr (out, inp)))"
| "load_groups p nvalue howmany (Suc k) inp init out =
     and_then (load_group p nvalue 4 inp init out) (\<lambda>(out, inp, init). load_groups p nvalue howmany k inp init out)"

definition SBP_decode :: "scalar_block_packer \<Rightarrow> u32 list \<Rightarrow> nat \<Rightarrow> nat \<Rightarrow> (u32 list \<times> u32 list) codec_result" where
  "SBP_decode p inp len nvalue = do {
     actuallength \<leftarrow> rd inp 0;
     let n = unat actuallength;
     and_then (checkifdivisibleby n 32) (\<lambda>_. load_groups p nvalue (n mod 128 div 32) (n div 128) (drop 1 inp) 0 [])
   }"

section \<open>What the codec relies on\<close>

lemma head_bits_head:
  assumes "length Bs = 4" "\<forall>b \<in> set Bs. b \<le> 32"
  shows "head_bits (group_head Bs) = Bs"
proof -
  from assms(1) obtain a b c d where Bs: "Bs = [a, b, c, d]" by (auto simp: numeral_eq_Suc length_Suc_conv)
  have t: "take_bit 8 (of_nat n :: u32) = of_nat n" "unat (ucast (of_nat n :: u32) :: u8) = n" if "n \<le> 32" for n
    using that by (simp_all add: take_bit_of_nat take_bit_nat_eq_self unsigned_ucast_eq unsigned_of_nat)
  have n: "a \<le> 32" "b \<le> 32" "c \<le> 32" "d \<le> 32" using assms(2) by (simp_all add: Bs)
  note bytes = head_bytes [OF t(1) [OF n(1)] t(1) [OF n(2)] t(1) [OF n(3)] t(1) [OF n(4)]]
  show ?thesis using n by (simp add: group_head_def head_bits_def Bs bytes t del: drop_bit_or)
qed

text \<open>With less room for the words a group is stored as with more, or not at all.\<close>

lemma put_group_mono:
  assumes "\<And>cap out kept. length out + length ws \<le> cap \<Longrightarrow> put_group p cap Bs inp i out kept = Some (Inr (out @ ws, kept @ ys, j))"
  shows "put_group p cap Bs inp i out kept = None \<or> put_group p cap Bs inp i out kept = Some (Inr (out @ ws, kept @ ys, j))"
proof -
  have "put_group p cap Bs inp i out kept = None \<or> put_group p cap Bs inp i out kept = put_group p cap' Bs inp i out kept"
    if "cap \<le> cap'" for cap'
    using that by (induction Bs arbitrary: inp i out kept)
      (auto simp: emit_def within_def split: Option.bind_splits)
  from this [of "max cap (length out + length ws)"] show ?thesis using assms [of out "max cap (length out + length ws)" kept] by auto
qed

text \<open>The widths of the first \<open>n\<close> blocks are defined, and \<open>initoffset\<close> becomes \<open>i'\<close>.\<close>

primrec all_defined :: "scalar_block_packer \<Rightarrow> nat \<Rightarrow> u32 list \<Rightarrow> u32 \<Rightarrow> u32 option" where
  "all_defined p 0 inp i = Some i"
| "all_defined p (Suc n) inp i = do { (b, i) \<leftarrow> pk_maxbits p inp i; all_defined p n (drop 32 inp) i }"

text \<open>A packer whose width is defined packs the block, unpacks it again, and moves \<open>initoffset\<close> alike in all three.\<close>

locale packer =
  fixes p :: scalar_block_packer
  assumes block: "\<lbrakk>32 \<le> length inp; pk_maxbits p inp i = Some (b, i')\<rbrakk> \<Longrightarrow>
      b \<le> 32 \<and> (\<exists>ws ys. packblockwithoutmask p inp b i = Some (ws, ys, i') \<and> length ws = b \<and>
        (\<forall>rest. pk_unpackblock p (ws @ rest) b i = Some (take 32 inp, i')))"
begin

lemma defined_add: "all_defined p (n + m) inp i = do { i \<leftarrow> all_defined p n inp i; all_defined p m (drop (n * 32) inp) i }"
  by (induction n arbitrary: inp i) (auto simp: add.commute split: option.splits Option.bind_splits)

lemma group_round_trip:
  assumes "n * 32 \<le> length inp" "all_defined p n inp i = Some i'"
  shows "\<exists>Bs ws ys. group_bits p n inp i = Some Bs \<and> length Bs = n \<and> (\<forall>b \<in> set Bs. b \<le> 32) \<and>
    (\<forall>cap out kept. length out + length ws \<le> cap \<longrightarrow>
       put_group p cap Bs inp i out kept = Some (Inr (out @ ws, kept @ ys, i'))) \<and>
    (\<forall>nvalue rest out. length out + n * 32 \<le> nvalue \<longrightarrow>
       get_group p nvalue Bs (ws @ rest) i out = Some (Inr (out @ take (n * 32) inp, rest, i')))"
  using assms
proof (induction n arbitrary: inp i)
  case 0
  then show ?case by (intro exI [of _ "[]"]) simp
next
  case (Suc n)
  obtain b j where b: "pk_maxbits p inp i = Some (b, j)" "all_defined p n (drop 32 inp) j = Some i'"
    using Suc.prems(2) by (auto split: Option.bind_splits)
  have l: "32 \<le> length inp" "n * 32 \<le> length (drop 32 inp)" using Suc.prems(1) by simp_all
  from block [OF l(1) b(1)] obtain ws ys where
    1: "b \<le> 32" "packblockwithoutmask p inp b i = Some (ws, ys, j)" "length ws = b"
       "\<And>rest. pk_unpackblock p (ws @ rest) b i = Some (take 32 inp, j)" by blast
  from Suc.IH [OF l(2) b(2)] obtain Bs ws' ys' where
    2: "group_bits p n (drop 32 inp) j = Some Bs" "length Bs = n" "\<forall>b \<in> set Bs. b \<le> 32"
       "\<And>cap out kept. length out + length ws' \<le> cap \<Longrightarrow>
          put_group p cap Bs (drop 32 inp) j out kept = Some (Inr (out @ ws', kept @ ys', i'))"
       "\<And>nvalue rest out. length out + n * 32 \<le> nvalue \<Longrightarrow>
          get_group p nvalue Bs (ws' @ rest) j out = Some (Inr (out @ take (n * 32) (drop 32 inp), rest, i'))"
    by blast
  have "group_bits p (Suc n) inp i = Some (b # Bs)" using b(1) 2(1) by simp
  moreover have "put_group p cap (b # Bs) inp i out kept = Some (Inr (out @ ws @ ws', kept @ ys @ ys', i'))"
    if "length out + length (ws @ ws') \<le> cap" for cap out kept
    using that 1(2) 2(4) [of "out @ ws" cap "kept @ ys"] by (simp add: emit_def within_def)
  moreover have "get_group p nvalue (b # Bs) ((ws @ ws') @ rest) i out =
      Some (Inr (out @ take (Suc n * 32) inp, rest, i'))" if "length out + Suc n * 32 \<le> nvalue" for nvalue rest out
    using that l(1) 1(3) 1(4) [of "ws' @ rest"] 2(5) [of "out @ take 32 inp" nvalue rest]
    by (simp add: emit_def within_def take_add)
  ultimately show ?case using 1(1) 2(2,3) by (intro exI [of _ "b # Bs"] exI [of _ "ws @ ws'"] exI [of _ "ys @ ys'"]) auto
qed

lemma store_round_trip:
  assumes "n \<le> 4" "n * 32 \<le> length inp" "all_defined p n inp i = Some i'"
  shows "\<exists>ws ys. (\<forall>cap out kept. length out + length ws \<le> cap \<longrightarrow>
       store_group p cap n inp i out kept = Some (Inr (out @ ws, kept @ ys, i'))) \<and>
    (\<forall>nvalue rest out. length out + n * 32 \<le> nvalue \<longrightarrow>
       load_group p nvalue n (ws @ rest) i out = Some (Inr (out @ take (n * 32) inp, rest, i')))"
proof -
  from group_round_trip [OF assms(2,3)] obtain Bs ws ys where
    1: "group_bits p n inp i = Some Bs" "length Bs = n" "\<forall>b \<in> set Bs. b \<le> 32"
       "\<And>cap out kept. length out + length ws \<le> cap \<Longrightarrow> put_group p cap Bs inp i out kept = Some (Inr (out @ ws, kept @ ys, i'))"
       "\<And>nvalue rest out. length out + n * 32 \<le> nvalue \<Longrightarrow>
          get_group p nvalue Bs (ws @ rest) i out = Some (Inr (out @ take (n * 32) inp, rest, i'))"
    by blast
  let ?B = "Bs @ replicate (4 - n) 0"
  have "length ?B = 4" "\<forall>b \<in> set ?B. b \<le> 32" using 1(2,3) assms(1) by auto
  then have "head_bits (group_head ?B) = ?B" by (rule head_bits_head)
  then have h: "take n (head_bits (group_head ?B)) = Bs" using 1(2) by simp
  have "store_group p cap n inp i out kept = Some (Inr (out @ group_head ?B # ws, kept @ ys, i'))"
    if "length out + length (group_head ?B # ws) \<le> cap" for cap out kept
    using that 1(1) 1(4) [of "out @ [group_head ?B]" cap kept] by (simp add: store_group_def emit_def within_def)
  moreover have "load_group p nvalue n ((group_head ?B # ws) @ rest) i out = Some (Inr (out @ take (n * 32) inp, rest, i'))"
    if "length out + n * 32 \<le> nvalue" for nvalue rest out
    using that 1(5) h by (simp add: load_group_def rd_def)
  ultimately show ?thesis by blast
qed

lemma groups_round_trip:
  assumes "length inp = k * 128 + r * 32" "r < 4" "all_defined p (k * 4 + r) inp i \<noteq> None"
  shows "\<exists>ws ys. (\<forall>cap out kept. length out + length ws \<le> cap \<longrightarrow>
       store_groups p cap k inp i out kept = Some (Inr (out @ ws, kept @ ys))) \<and>
    (\<forall>nvalue rest out. length out + length inp \<le> nvalue \<longrightarrow>
       load_groups p nvalue r k (ws @ rest) i out = Some (Inr (out @ inp, rest)))"
  using assms(1,3)
proof (induction k arbitrary: inp i)
  case 0
  show ?case
  proof (cases "r = 0")
    case True
    then show ?thesis using 0 by (intro exI [of _ "[]"]) simp
  next
    case False
    obtain i' where d: "all_defined p r inp i = Some i'" using 0(2) by auto
    have l: "r * 32 \<le> length inp" "length inp div 32 = r" "inp \<noteq> []" "take (r * 32) inp = inp" using 0(1) False by auto
    have "r \<le> 4" using assms(2) by simp
    from store_round_trip [OF this l(1) d] obtain ws ys where
      1: "\<And>cap out kept. length out + length ws \<le> cap \<Longrightarrow> store_group p cap r inp i out kept = Some (Inr (out @ ws, kept @ ys, i'))"
         "\<And>nvalue rest out. length out + r * 32 \<le> nvalue \<Longrightarrow>
            load_group p nvalue r (ws @ rest) i out = Some (Inr (out @ take (r * 32) inp, rest, i'))"
      by blast
    show ?thesis using 1 l 0(1) False by (intro exI [of _ ws] exI [of _ ys]) simp
  qed
next
  case (Suc k)
  have "all_defined p (4 + (k * 4 + r)) inp i \<noteq> None" using Suc.prems(2) by (simp add: add.assoc del: all_defined.simps)
  then obtain j where d: "all_defined p 4 inp i = Some j" "all_defined p (k * 4 + r) (drop 128 inp) j \<noteq> None"
    by (auto simp: defined_add split: Option.bind_splits simp del: all_defined.simps)
  have l: "4 * 32 \<le> length inp" "length (drop 128 inp) = k * 128 + r * 32" using Suc.prems(1) by simp_all
  from store_round_trip [OF order_refl l(1) d(1)] obtain ws ys where
    1: "\<And>cap out kept. length out + length ws \<le> cap \<Longrightarrow> store_group p cap 4 inp i out kept = Some (Inr (out @ ws, kept @ ys, j))"
       "\<And>nvalue rest out. length out + 4 * 32 \<le> nvalue \<Longrightarrow>
          load_group p nvalue 4 (ws @ rest) i out = Some (Inr (out @ take (4 * 32) inp, rest, j))"
    by blast
  from Suc.IH [OF l(2) d(2)] obtain ws' ys' where
    2: "\<And>cap out kept. length out + length ws' \<le> cap \<Longrightarrow>
          store_groups p cap k (drop 128 inp) j out kept = Some (Inr (out @ ws', kept @ ys'))"
       "\<And>nvalue rest out. length out + length (drop 128 inp) \<le> nvalue \<Longrightarrow>
          load_groups p nvalue r k (ws' @ rest) j out = Some (Inr (out @ drop 128 inp, rest))"
    by blast
  have "store_groups p cap (Suc k) inp i out kept = Some (Inr (out @ ws @ ws', kept @ ys @ ys'))"
    if "length out + length (ws @ ws') \<le> cap" for cap out kept
    using that 1(1) [of out cap kept] 2(1) [of "out @ ws" cap "kept @ ys"] by simp
  moreover have "load_groups p nvalue r (Suc k) ((ws @ ws') @ rest) i out = Some (Inr (out @ inp, rest))"
    if "length out + length inp \<le> nvalue" for nvalue rest out
    using that l 1(2) [of out nvalue "ws' @ rest"] 2(2) [of "out @ take 128 inp" nvalue rest] by simp
  ultimately show ?case by blast
qed

text \<open>Where a width is not defined, nothing is encoded.\<close>

lemma group_bits_defined: "n * 32 \<le> length inp \<Longrightarrow> all_defined p n inp i = None \<longleftrightarrow> group_bits p n inp i = None"
  by (induction n arbitrary: inp i) (auto split: Option.bind_splits)

lemma scalar_groups_undefined:
  assumes "length inp = k * 128 + r * 32" "r < 4" "all_defined p (k * 4 + r) inp i = None"
  shows "store_groups p cap k inp i out kept = None"
  using assms(1,3)
proof (induction k arbitrary: inp i out kept)
  case 0
  have "r \<noteq> 0"
  proof
    assume "r = 0"
    with 0 show False by simp
  qed
  moreover from this 0 have "length inp div 32 = r" "inp \<noteq> []" by auto
  moreover have "group_bits p r inp i = None" using 0 group_bits_defined [of r inp i] by simp
  ultimately show ?case by (simp add: store_group_def)
next
  case (Suc k)
  have l: "4 * 32 \<le> length inp" "length (drop 128 inp) = k * 128 + r * 32" using Suc.prems(1) by simp_all
  have "all_defined p (4 + (k * 4 + r)) inp i = None" using Suc.prems(2) by (simp add: add.assoc del: all_defined.simps)
  then have "all_defined p 4 inp i = None \<or> (\<exists>j. all_defined p 4 inp i = Some j \<and> all_defined p (k * 4 + r) (drop 128 inp) j = None)"
    by (auto simp: defined_add split: Option.bind_splits simp del: all_defined.simps)
  then show ?case
  proof (elim disjE exE conjE)
    assume "all_defined p 4 inp i = None"
    then have "group_bits p 4 inp i = None" using group_bits_defined [OF l(1)] by simp
    then show ?thesis by (simp add: store_group_def)
  next
    fix j assume j: "all_defined p 4 inp i = Some j" "all_defined p (k * 4 + r) (drop 128 inp) j = None"
    from group_round_trip [OF l(1) j(1)] obtain Bs ws ys where
      g: "group_bits p 4 inp i = Some Bs"
      "\<And>cap out kept. length out + length ws \<le> cap \<Longrightarrow> put_group p cap Bs inp i out kept = Some (Inr (out @ ws, kept @ ys, j))"
      by blast
    note m = put_group_mono [OF g(2), of cap "out @ [group_head Bs]" kept]
    have "store_group p cap 4 inp i out kept = None \<or> (\<exists>out' kept'. store_group p cap 4 inp i out kept = Some (Inr (out', kept', j)))"
      using g(1) m by (auto simp: store_group_def emit_def within_def)
    then show ?thesis using Suc.IH [OF l(2) j(2)] by auto
  qed
qed

lemma packer_round_trip:
  assumes "length xs mod 32 = 0" "length xs < 2 ^ 32"
  shows "all_defined p (length xs div 32) xs 0 \<noteq> None \<Longrightarrow>
      \<exists>ws ys. (\<forall>cap. length ws \<le> cap \<longrightarrow> SBP_encode p cap xs = Some (Inr (ws, ys))) \<and>
        (\<forall>nvalue len rest. length xs \<le> nvalue \<longrightarrow> SBP_decode p (ws @ rest) len nvalue = Some (Inr (xs, rest)))"
    and "all_defined p (length xs div 32) xs 0 = None \<Longrightarrow> SBP_encode p cap xs = None"
proof -
  define k r where "k = length xs div 128" and "r = length xs mod 128 div 32"
  have l: "length xs = k * 128 + r * 32" "r < 4" "length xs div 32 = k * 4 + r"
  proof -
    obtain m where m: "length xs = 32 * m" using assms(1) by (auto elim: dvdE dest: mod_0_imp_dvd)
    have "32 * m div 128 = m div 4" "32 * m mod 128 = 32 * (m mod 4)"
      using div_mult_mult1 [of 32 m 4] mult_mod_right [of 32 m 4] by simp_all
    then have kr: "k = m div 4" "r = m mod 4" by (simp_all add: k_def r_def m)
    have "4 * k + r = m" "r < 4" unfolding kr by simp_all
    then show "length xs = k * 128 + r * 32" "r < 4" "length xs div 32 = k * 4 + r" using m by auto
  qed
  have u: "unat (of_nat (length xs) :: u32) = length xs" using assms(2) by (simp add: unat_of_nat)
  show "\<exists>ws ys. (\<forall>cap. length ws \<le> cap \<longrightarrow> SBP_encode p cap xs = Some (Inr (ws, ys))) \<and>
      (\<forall>nvalue len rest. length xs \<le> nvalue \<longrightarrow> SBP_decode p (ws @ rest) len nvalue = Some (Inr (xs, rest)))"
    if d: "all_defined p (length xs div 32) xs 0 \<noteq> None"
  proof -
    from groups_round_trip [OF l(1,2) d [unfolded l(3)]] obtain ws ys where
      1: "\<And>cap out kept. length out + length ws \<le> cap \<Longrightarrow> store_groups p cap k xs 0 out kept = Some (Inr (out @ ws, kept @ ys))"
         "\<And>nvalue rest out. length out + length xs \<le> nvalue \<Longrightarrow>
            load_groups p nvalue r k (ws @ rest) 0 out = Some (Inr (out @ xs, rest))" by blast
    let ?h = "of_nat (length xs) :: u32"
    have "SBP_encode p cap xs = Some (Inr (?h # ws, ys))" if "length (?h # ws) \<le> cap" for cap
      using that assms(1) 1(1) [of "[?h]" cap "[]"]
      by (simp add: SBP_encode_def checkifdivisibleby_def emit_def within_def k_def [symmetric])
    moreover have "SBP_decode p ((?h # ws) @ rest) len nvalue = Some (Inr (xs, rest))" if "length xs \<le> nvalue" for nvalue len rest
      using that assms(1) u 1(2) [of "[]" nvalue rest]
      by (simp add: SBP_decode_def rd_def checkifdivisibleby_def k_def [symmetric] r_def [symmetric])
    ultimately show ?thesis by blast
  qed
  show "SBP_encode p cap xs = None" if d: "all_defined p (length xs div 32) xs 0 = None"
    using scalar_groups_undefined [OF l(1,2) d [unfolded l(3)]] assms(1)
    by (simp add: SBP_encode_def checkifdivisibleby_def emit_def within_def k_def [symmetric])
qed

end

section \<open>The three packers\<close>

lemma foldl_OR_diffs: "foldl (\<lambda>acc k. acc OR (xs ! k - xs ! (k - 1))) (xs ! 0 - i) [1..<32] = foldl (OR) 0 (diffs_from i xs)"
proof -
  have "[0..<32] = 0 # [1..<32 :: nat]" by (simp add: upt_conv_Cons)
  then have "foldl (OR) 0 (diffs_from i xs) = foldl (OR) (diff_at i xs 0) (map (diff_at i xs) [1..<32])"
    by (simp add: diffs_from_def del: upt.simps)
  also have "\<dots> = foldl (\<lambda>acc k. acc OR diff_at i xs k) (diff_at i xs 0) [1..<32]" by (simp add: foldl_map)
  also have "\<dots> = foldl (\<lambda>acc k. acc OR (xs ! k - xs ! (k - 1))) (xs ! 0 - i) [1..<32]"
    by (rule foldl_cong) (simp_all add: diff_at_def)
  finally show ?thesis ..
qed

lemma delta_maxbits_eq:
  "32 \<le> length inp \<Longrightarrow>
   delta_maxbits inp i = do { b \<leftarrow> maxbits (diffs_from i (take 32 inp)); Some (b, inp ! 31) }"
  using foldl_OR_diffs [of "take 32 inp" i] by (simp add: delta_maxbits_def rd_seq_def maxbits_def)

lemma delta_maxbits_fits:
  assumes "32 \<le> length inp" "delta_maxbits inp i = Some (b, i')"
  shows "b \<le> 32" and "fits_diffs b i (take 32 inp)" and "i' = inp ! 31"
proof -
  from assms have m: "maxbits (diffs_from i (take 32 inp)) = Some b" and "i' = inp ! 31"
    by (auto simp: delta_maxbits_eq split: Option.bind_splits)
  then show "i' = inp ! 31" by simp
  from maxbits_fits [OF m] show "b \<le> 32" "fits_diffs b i (take 32 inp)" by (auto simp: fits_diffs_def list_all_iff)
qed

interpretation basic: packer BasicBlockPacker
proof
  fix inp :: "u32 list" and i b i'
  assume l: "32 \<le> length inp" and "pk_maxbits BasicBlockPacker inp i = Some (b, i')"
  then have m: "delta_maxbits inp i = Some (b, i')" by (simp add: BasicBlockPacker_def)
  note f = delta_maxbits_fits [OF l m]
  have l': "length (take 32 inp) = 32" using l by simp
  from delta_unmasked.packed [OF f(1) l' f(2)] obtain ws ys where
    "(let ys = if b < 32 then delta i (take 32 inp) else take 32 inp in do { ws \<leftarrow> BPH_fastpackwithoutmask ys b; Some (ws, ys) }) = Some (ws, ys)"
    "length ws = b"
    "\<And>rest. do { xs \<leftarrow> BPH_fastunpack (ws @ rest) b; Some (if b < 32 then inverseDelta i xs else xs) } = Some (take 32 inp)"
    by blast
  note 1 = this
  have "packblockwithoutmask BasicBlockPacker inp b i = Some (ws, ys, i')"
    using 1(1) f(3) l by (cases "b < 32") (auto simp: BasicBlockPacker_def rd_seq_def Let_def split: Option.bind_splits)
  moreover have "pk_unpackblock BasicBlockPacker (ws @ rest) b i = Some (take 32 inp, i')" for rest
    using 1(3) [of rest] f(3) l by (auto simp: BasicBlockPacker_def Let_def split: Option.bind_splits)
  ultimately show "b \<le> 32 \<and> (\<exists>ws ys. packblockwithoutmask BasicBlockPacker inp b i = Some (ws, ys, i') \<and> length ws = b \<and>
      (\<forall>rest. pk_unpackblock BasicBlockPacker (ws @ rest) b i = Some (take 32 inp, i')))"
    using f(1) 1(2) by blast
qed

interpretation integrated_packer: packer IntegratedBlockPacker
proof
  fix inp :: "u32 list" and i b i'
  assume l: "32 \<le> length inp" and "pk_maxbits IntegratedBlockPacker inp i = Some (b, i')"
  then have m: "delta_maxbits inp i = Some (b, i')" by (simp add: IntegratedBlockPacker_def)
  note f = delta_maxbits_fits [OF l m]
  have l': "length (take 32 inp) = 32" using l by simp
  from integrated.packed [OF f(1) l' f(2)]
  show "b \<le> 32 \<and> (\<exists>ws ys. packblockwithoutmask IntegratedBlockPacker inp b i = Some (ws, ys, i') \<and> length ws = b \<and>
      (\<forall>rest. pk_unpackblock IntegratedBlockPacker (ws @ rest) b i = Some (take 32 inp, i')))"
    using f l by (auto simp: IntegratedBlockPacker_def rd_seq_def split: Option.bind_splits)
qed

interpretation no_delta_packer: packer NoDeltaBlockPacker
proof
  fix inp :: "u32 list" and i b i'
  assume l: "32 \<le> length inp" and "pk_maxbits NoDeltaBlockPacker inp i = Some (b, i')"
  then have m: "maxbits (take 32 inp) = Some b" "i' = i"
    by (auto simp: NoDeltaBlockPacker_def rd_seq_def maxbits_def split: Option.bind_splits)
  have l': "length (take 32 inp) = 32" using l by simp
  from BPH_pack_unpack [OF maxbits_fits(1) [OF m(1)] l' maxbits_fits(2) [OF m(1)]] maxbits_fits(1) [OF m(1)] m(2) l
  show "b \<le> 32 \<and> (\<exists>ws ys. packblockwithoutmask NoDeltaBlockPacker inp b i = Some (ws, ys, i') \<and> length ws = b \<and>
      (\<forall>rest. pk_unpackblock NoDeltaBlockPacker (ws @ rest) b i = Some (take 32 inp, i')))"
    by (auto simp: NoDeltaBlockPacker_def rd_seq_def)
qed

text \<open>The widths are defined when no block consists of zeros, or of zero differences.\<close>

lemma maxbits_None: "maxbits xs = None \<longleftrightarrow> (\<forall>x \<in> set xs. x = 0)"
proof
  assume n: "maxbits xs = None"
  show "\<forall>x \<in> set xs. x = 0"
  proof (rule ccontr)
    assume "\<not> (\<forall>x \<in> set xs. x = 0)"
    then have "list_ex (\<lambda>x. x \<noteq> 0) xs" by (auto simp: list_ex_iff)
    then show False using n maxbits_defined [of xs thesis for thesis] by auto
  qed
next
  assume "\<forall>x \<in> set xs. x = 0"
  then have "foldl (OR) 0 xs = 0" by (intro bit_eqI) (auto simp: bit_foldl_OR)
  then show "maxbits xs = None" by (simp add: maxbits_def gccbits_eq)
qed

definition no_zero_block :: "nat \<Rightarrow> u32 list \<Rightarrow> bool" where
  "no_zero_block n ds \<longleftrightarrow> (\<forall>j < n. \<exists>k < 32. ds ! (32 * j + k) \<noteq> 0)"

lemma no_zero_block_Suc:
  assumes "Suc n * 32 \<le> length ds"
  shows "no_zero_block (Suc n) ds \<longleftrightarrow> (\<exists>x \<in> set (take 32 ds). x \<noteq> 0) \<and> no_zero_block n (drop 32 ds)"
proof -
  have "(\<exists>x \<in> set (take 32 ds). x \<noteq> 0) \<longleftrightarrow> (\<exists>k < 32. ds ! k \<noteq> 0)"
    using assms by (auto simp: in_set_conv_nth Bex_def)
  moreover have "(\<forall>j < Suc n. P j) \<longleftrightarrow> P 0 \<and> (\<forall>j < n. P (Suc j))" for P using less_Suc_eq_0_disj by auto
  ultimately show ?thesis using assms by (simp add: no_zero_block_def add.assoc)
qed

lemma defined_no_delta:
  "n * 32 \<le> length inp \<Longrightarrow> all_defined NoDeltaBlockPacker n inp i \<noteq> None \<longleftrightarrow> no_zero_block n inp"
proof (induction n arbitrary: inp i)
  case (Suc n)
  have "all_defined NoDeltaBlockPacker (Suc n) inp i \<noteq> None \<longleftrightarrow>
      maxbits (take 32 inp) \<noteq> None \<and> all_defined NoDeltaBlockPacker n (drop 32 inp) i \<noteq> None"
    using Suc.prems by (auto simp: NoDeltaBlockPacker_def rd_seq_def maxbits_def split: Option.bind_splits)
  then show ?case
    using Suc.IH [of "drop 32 inp" i] Suc.prems no_zero_block_Suc [OF Suc.prems] by (auto simp: maxbits_None simp del: all_defined.simps)
qed (simp add: no_zero_block_def)

definition all_diffs :: "u32 \<Rightarrow> u32 list \<Rightarrow> u32 list" where
  "all_diffs i xs = map (diff_at i xs) [0..<length xs]"

lemma all_diffs_drop: "32 \<le> length xs \<Longrightarrow> drop 32 (all_diffs i xs) = all_diffs (xs ! 31) (drop 32 xs)"
  by (intro nth_equalityI) (auto simp: all_diffs_def diff_at_def)

lemma all_diffs_take: "32 \<le> length xs \<Longrightarrow> take 32 (all_diffs i xs) = diffs_from i (take 32 xs)"
  by (intro nth_equalityI) (auto simp: all_diffs_def diffs_from_def diff_at_def)

lemma defined_delta:
  assumes "pk_maxbits p = delta_maxbits" "n * 32 \<le> length inp"
  shows "all_defined p n inp i \<noteq> None \<longleftrightarrow> no_zero_block n (all_diffs i inp)"
  using assms(2)
proof (induction n arbitrary: inp i)
  case (Suc n)
  have l: "32 \<le> length inp" "Suc n * 32 \<le> length (all_diffs i inp)" "n * 32 \<le> length (drop 32 inp)"
    using Suc.prems by (simp_all add: all_diffs_def)
  have "all_defined p (Suc n) inp i \<noteq> None \<longleftrightarrow>
      maxbits (diffs_from i (take 32 inp)) \<noteq> None \<and> all_defined p n (drop 32 inp) (inp ! 31) \<noteq> None"
    using l(1) by (auto simp: assms(1) delta_maxbits_eq split: Option.bind_splits)
  then show ?case
    using Suc.IH [OF l(3), of "inp ! 31"] no_zero_block_Suc [OF l(2)] l(1)
    by (auto simp: maxbits_None all_diffs_drop all_diffs_take simp del: all_defined.simps)
qed (simp add: no_zero_block_def)

section \<open>Properties\<close>

text \<open>C40. \<open>BinaryPacking\<close> of simd-compression, with each of its three block packers: an array of whole blocks is encoded when no block of 32 integers, or of their
  differences for the packers that take them, is zero throughout, and then the decoder gives it back whatever follows it; otherwise encoding is undefined.\<close>

theorem scalar_BinaryPacking_round_trip:
  assumes "length xs mod 32 = 0" and "length xs < 2 ^ 32"
    and "p = NoDeltaBlockPacker \<and> ds = xs \<or> (p = BasicBlockPacker \<or> p = IntegratedBlockPacker) \<and> ds = all_diffs 0 xs"
  shows "if no_zero_block (length xs div 32) ds
    then \<exists>ws ys. (\<forall>cap. length ws \<le> cap \<longrightarrow> SBP_encode p cap xs = Some (Inr (ws, ys))) \<and>
      (\<forall>nvalue len rest. length xs \<le> nvalue \<longrightarrow> SBP_decode p (ws @ rest) len nvalue = Some (Inr (xs, rest)))
    else \<forall>cap. SBP_encode p cap xs = None"
proof -
  have l: "length xs div 32 * 32 \<le> length xs" by simp
  have d: "no_zero_block (length xs div 32) ds \<longleftrightarrow> all_defined p (length xs div 32) xs 0 \<noteq> None"
    using assms(3) defined_no_delta [OF l, of 0] defined_delta [OF _ l, of p 0]
    by (auto simp: BasicBlockPacker_def IntegratedBlockPacker_def)
  have "packer p"
    using assms(3) basic.packer_axioms integrated_packer.packer_axioms no_delta_packer.packer_axioms by blast
  note rt = packer.packer_round_trip [OF this assms(1,2)]
  show ?thesis
  proof (cases "no_zero_block (length xs div 32) ds")
    case True
    then show ?thesis using rt(1) d by (simp only: if_True simp_thms)
  next
    case False
    then show ?thesis using rt(2) d by (simp only: if_False simp_thms not_not)
  qed
qed

theorem scalar_BinaryPacking_round_trip_witness:
  "(\<exists>ws ys. SBP_encode BasicBlockPacker (length ws) (map of_nat [7..<167]) = Some (Inr (ws, ys)) \<and>
      SBP_decode BasicBlockPacker (ws @ [9]) 0 160 = Some (Inr (map of_nat [7..<167], [9]))) \<and>
    SBP_encode IntegratedBlockPacker 100 (replicate 64 5) = None"
proof -
  let ?xs = "map of_nat [7..<167] :: u32 list"
  have "no_zero_block 5 (all_diffs 0 ?xs)"
    unfolding no_zero_block_def
  proof (intro allI impI)
    fix j :: nat assume "j < 5"
    then have "all_diffs 0 ?xs ! (32 * j + 1) = 1" by (simp add: all_diffs_def diff_at_def del: upt.simps upt_rec_numeral)
    then have "all_diffs 0 ?xs ! (32 * j + 1) \<noteq> 0" by simp
    then show "\<exists>k < 32. all_diffs 0 ?xs ! (32 * j + k) \<noteq> 0" by (intro exI [of _ 1]) simp
  qed
  moreover have "length ?xs div 32 = 5" "length ?xs mod 32 = 0" "length ?xs < 2 ^ 32" by simp_all
  ultimately obtain ws ys where "\<forall>cap. length ws \<le> cap \<longrightarrow> SBP_encode BasicBlockPacker cap ?xs = Some (Inr (ws, ys))"
    and "\<forall>nvalue len rest. length ?xs \<le> nvalue \<longrightarrow> SBP_decode BasicBlockPacker (ws @ rest) len nvalue = Some (Inr (?xs, rest))"
    using scalar_BinaryPacking_round_trip [of ?xs BasicBlockPacker "all_diffs 0 ?xs"] by (auto simp del: upt.simps upt_rec_numeral)
  then have "SBP_encode BasicBlockPacker (length ws) ?xs = Some (Inr (ws, ys)) \<and>
      SBP_decode BasicBlockPacker (ws @ [9]) 0 160 = Some (Inr (?xs, [9]))"
    by (simp del: upt.simps upt_rec_numeral)
  moreover have "SBP_encode IntegratedBlockPacker 100 (replicate 64 5) = None"
  proof -
    have "\<not> no_zero_block 2 (all_diffs 0 (replicate 64 5))"
      by (auto simp: no_zero_block_def all_diffs_def diff_at_def intro!: exI [of _ 1])
    then show ?thesis
      using scalar_BinaryPacking_round_trip [of "replicate 64 5" IntegratedBlockPacker "all_diffs 0 (replicate 64 5)"] by simp
  qed
  ultimately show ?thesis by blast
qed

end
