(* ===== verification/BE_Mappers.thy ===== *)
theory BE_Mappers
  imports Byte_Stream "HOL-Library.AList" "HOL-Library.Char_ord" "HOL-Library.List_Lexorder" "HOL-Library.Product_Lexorder"
begin

text \<open>
  The identifier maps of the boolean-expression index (\<open>include/ir/be_index\<close>): \<open>IDMapper.hpp\<close>, which
  numbers strings in the order it first sees them, \<open>AVMapper.hpp\<close>, which numbers attributes and, for
  each attribute, its values, and the raw serialisation of \<open>SimpleSerialization.hpp\<close>. A
  \<open>boost::unordered_map\<close> is an association list whose order no operation depends on: the writers sort it.
  The locale \<open>id_assigner\<close> states what the indexes rely on; both maps are interpretations of it.
\<close>

section \<open>IDMapper\<close>

record IDMapper =
  dict :: "(string \<times> u32) list"

definition IDMapper_new :: IDMapper where
  "IDMapper_new = \<lparr>dict = []\<rparr>"

definition IDMapper_insert :: "IDMapper \<Rightarrow> string \<Rightarrow> IDMapper \<times> (u32 \<times> bool)" where
  "IDMapper_insert m attr =
     (case map_of (dict m) attr of
        Some i \<Rightarrow> (m, (i, False))
      | None \<Rightarrow> let ret = of_nat (length (dict m)) in
          (m\<lparr>dict := dict m @ [(attr, ret)]\<rparr>, (ret, True)))"

definition IDMapper_has :: "IDMapper \<Rightarrow> string \<Rightarrow> u32 \<times> bool" where
  "IDMapper_has m attr = (case map_of (dict m) attr of Some i \<Rightarrow> (i, True) | None \<Rightarrow> (0, False))"

definition IDMapper_size :: "IDMapper \<Rightarrow> u32" where
  "IDMapper_size m = of_nat (length (dict m))"

section \<open>AVMapper\<close>

record AVMapper =
  attrMapper :: IDMapper
  valueMapper :: "IDMapper list"

definition AVMapper_new :: AVMapper where
  "AVMapper_new = \<lparr>attrMapper = IDMapper_new, valueMapper = []\<rparr>"

definition AVMapper_insert ::
  "AVMapper \<Rightarrow> string \<Rightarrow> string \<Rightarrow> (AVMapper \<times> ((u32 \<times> bool) \<times> (u32 \<times> bool))) option" where
  "AVMapper_insert m attr value = do {
     let (am, attrResult) = IDMapper_insert (attrMapper m) attr;
     let vms = (if snd attrResult then valueMapper m @ [IDMapper_new] else valueMapper m);
     vm \<leftarrow> rd vms (unat (fst attrResult));
     let (vm', valueResult) = IDMapper_insert vm value;
     Some (\<lparr>attrMapper = am, valueMapper = vms[unat (fst attrResult) := vm']\<rparr>, (attrResult, valueResult))
   }"

definition AVMapper_has :: "AVMapper \<Rightarrow> string \<Rightarrow> string \<Rightarrow> ((u32 \<times> bool) \<times> (u32 \<times> bool)) option" where
  "AVMapper_has m attr value =
     (let hasAttr = IDMapper_has (attrMapper m) attr in
      if \<not> snd hasAttr then Some (hasAttr, (0, False))
      else do {
        vm \<leftarrow> rd (valueMapper m) (unat (fst hasAttr));
        Some (hasAttr, IDMapper_has vm value)
      })"

section \<open>Serialisation\<close>

text \<open>A \<open>size_t\<close> takes eight bytes, a \<open>uint32_t\<close> four, a \<open>bool\<close> one; a string is its size and its characters. A
  byte other than 0 and 1 is no \<open>bool\<close>.\<close>

definition put_size :: "nat \<Rightarrow> u8 list" where
  "put_size n = put64 (of_nat n)"

definition get_size :: "u8 list \<Rightarrow> (nat \<times> u8 list) option" where
  "get_size s = do { (n, s') \<leftarrow> get64 s; Some (unat n, s') }"

definition put_bool :: "bool \<Rightarrow> u8 list" where
  "put_bool b = [if b then 1 else 0]"

definition get_bool :: "u8 list \<Rightarrow> (bool \<times> u8 list) option" where
  "get_bool s = (case s of [] \<Rightarrow> None | c # s' \<Rightarrow>
     if c = 0 then Some (False, s') else if c = 1 then Some (True, s') else None)"

definition put_string :: "string \<Rightarrow> u8 list" where
  "put_string str = put_size (length str) @ map of_char str"

definition get_string :: "u8 list \<Rightarrow> (string \<times> u8 list) option" where
  "get_string s = do {
     (n, s1) \<leftarrow> get_size s;
     if n \<le> length s1 then Some (map (\<lambda>c. char_of (unat c)) (take n s1), drop n s1) else None
   }"

text \<open>The loops that read \<open>n\<close> items.\<close>

primrec get_n :: "(u8 list \<Rightarrow> ('a \<times> u8 list) option) \<Rightarrow> nat \<Rightarrow> u8 list \<Rightarrow> ('a list \<times> u8 list) option" where
  "get_n get 0 s = Some ([], s)"
| "get_n get (Suc n) s = do {
     (x, s1) \<leftarrow> get s;
     (xs, s2) \<leftarrow> get_n get n s1;
     Some (x # xs, s2)
   }"

definition put_vector :: "('a \<Rightarrow> u8 list) \<Rightarrow> 'a list \<Rightarrow> u8 list" where
  "put_vector put xs = put_size (length xs) @ concat (map put xs)"

definition get_vector :: "(u8 list \<Rightarrow> ('a \<times> u8 list) option) \<Rightarrow> u8 list \<Rightarrow> ('a list \<times> u8 list) option" where
  "get_vector get s = do { (n, s1) \<leftarrow> get_size s; get_n get n s1 }"

definition IDMapper_save_binary :: "IDMapper \<Rightarrow> u8 list" where
  "IDMapper_save_binary m = put_vector (\<lambda>(k, i). put_string k @ put32 i) (sort (dict m))"

definition IDMapper_load_binary :: "u8 list \<Rightarrow> (IDMapper \<times> u8 list) option" where
  "IDMapper_load_binary s = do {
     (es, s') \<leftarrow> get_vector (\<lambda>s. do { (k, s1) \<leftarrow> get_string s; (i, s2) \<leftarrow> get32 s1; Some ((k, i), s2) }) s;
     Some (\<lparr>dict = foldl (\<lambda>d (k, i). AList.update k i d) [] es\<rparr>, s')
   }"

definition AVMapper_save_binary :: "AVMapper \<Rightarrow> u8 list" where
  "AVMapper_save_binary m = IDMapper_save_binary (attrMapper m) @ put_vector IDMapper_save_binary (valueMapper m)"

definition AVMapper_load_binary :: "u8 list \<Rightarrow> (AVMapper \<times> u8 list) option" where
  "AVMapper_load_binary s = do {
     (am, s1) \<leftarrow> IDMapper_load_binary s;
     (vms, s2) \<leftarrow> get_vector IDMapper_load_binary s1;
     Some (\<lparr>attrMapper = am, valueMapper = vms\<rparr>, s2)
   }"

section \<open>The interface\<close>

text \<open>An assigner of identifiers keeps the identifier of a key for ever, never gives two keys the same one,
  and only adds the key it is asked for. \<open>room m n\<close>: \<open>n\<close> more keys fit before 32 bits are exhausted.\<close>

locale id_assigner =
  fixes ok :: "'m \<Rightarrow> bool" and room :: "'m \<Rightarrow> nat \<Rightarrow> bool"
    and look :: "'m \<Rightarrow> 'k \<Rightarrow> 'i option" and ins :: "'m \<Rightarrow> 'k \<Rightarrow> ('m \<times> 'i) option"
  assumes ins_total: "ok m \<Longrightarrow> room m (Suc n) \<Longrightarrow> \<exists>m' i. ins m k = Some (m', i) \<and> ok m' \<and> room m' n \<and>
      look m' = (look m)(k \<mapsto> i) \<and> (\<forall>j. look m k = Some j \<longrightarrow> j = i)"
    and ins_known: "ok m \<Longrightarrow> look m k = Some i \<Longrightarrow> ins m k = Some (m, i)"
    and look_inj: "ok m \<Longrightarrow> look m k = Some i \<Longrightarrow> look m k' = Some i \<Longrightarrow> k = k'"
begin

text \<open>Numbering a list of keys, as a loop over it does.\<close>

primrec ins_all :: "'m \<Rightarrow> 'k list \<Rightarrow> ('m \<times> 'i list) option" where
  "ins_all m [] = Some (m, [])"
| "ins_all m (k # ks) = do {
     (m1, i) \<leftarrow> ins m k;
     (m2, is) \<leftarrow> ins_all m1 ks;
     Some (m2, i # is)
   }"

definition extends :: "'m \<Rightarrow> 'm \<Rightarrow> bool" where
  "extends m m' \<longleftrightarrow> look m \<subseteq>\<^sub>m look m'"

lemma extends_refl: "extends m m"
  by (simp add: extends_def)

lemma extends_trans: "extends m m1 \<Longrightarrow> extends m1 m2 \<Longrightarrow> extends m m2"
  unfolding extends_def by (rule map_le_trans)

lemma extends_look: "extends m m' \<Longrightarrow> look m k = Some i \<Longrightarrow> look m' k = Some i"
  by (auto simp: extends_def map_le_def dest!: bspec)

lemma ins_extends:
  assumes "ok m" "room m (Suc n)"
  obtains m' i where "ins m k = Some (m', i)" "ok m'" "room m' n" "extends m m'" "look m' = (look m)(k \<mapsto> i)"
proof -
  from ins_total [OF assms, of k] obtain m' i where
    "ins m k = Some (m', i)" "ok m'" "room m' n" "look m' = (look m)(k \<mapsto> i)" "\<forall>j. look m k = Some j \<longrightarrow> j = i"
    by blast
  moreover from this have "extends m m'" by (auto simp: extends_def map_le_def)
  ultimately show ?thesis using that by blast
qed

lemma ins_all_total:
  assumes "ok m" "room m (length ks + n)"
  shows "\<exists>m' is. ins_all m ks = Some (m', is) \<and> ok m' \<and> room m' n \<and> extends m m' \<and>
    length is = length ks \<and> (\<forall>j < length ks. look m' (ks ! j) = Some (is ! j)) \<and>
    dom (look m') = dom (look m) \<union> set ks"
  using assms
proof (induction ks arbitrary: m)
  case (Cons k ks)
  have "room m (Suc (length ks + n))" using Cons.prems(2) by simp
  from ins_extends [OF Cons.prems(1) this, of k] obtain m1 i where
    1: "ins m k = Some (m1, i)" "ok m1" "room m1 (length ks + n)" "extends m m1" "look m1 = (look m)(k \<mapsto> i)" .
  from Cons.IH [OF 1(2,3)] obtain m2 "is" where
    2: "ins_all m1 ks = Some (m2, is)" "ok m2" "room m2 n" "extends m1 m2" "length is = length ks"
      "\<forall>j < length ks. look m2 (ks ! j) = Some (is ! j)" "dom (look m2) = dom (look m1) \<union> set ks" by blast
  have "look m2 k = Some i" using extends_look [OF 2(4), of k i] 1(5) by simp
  with 1 2 extends_trans [OF 1(4) 2(4)] show ?case
    by (auto simp: nth_Cons split: nat.splits)
qed (simp add: extends_refl)

text \<open>A key that was not known does not get an identifier in use.\<close>

lemma fresh_id:
  assumes "ok m'" "extends m m'" "look m' k = Some i" "look m k = None"
  shows "i \<notin> ran (look m)"
proof
  assume "i \<in> ran (look m)"
  then obtain k' where k': "look m k' = Some i" by (auto simp: ran_def)
  with extends_look [OF assms(2) this] look_inj [OF assms(1,3)] assms(4) show False by fastforce
qed

end

section \<open>The maps are assigners\<close>

definition IDMapper_ok :: "IDMapper \<Rightarrow> bool" where
  "IDMapper_ok m \<longleftrightarrow> distinct (map fst (dict m)) \<and> distinct (map snd (dict m)) \<and>
     list_all (\<lambda>(_, i). unat i < length (dict m)) (dict m)"

definition IDMapper_room :: "IDMapper \<Rightarrow> nat \<Rightarrow> bool" where
  "IDMapper_room m n \<longleftrightarrow> length (dict m) + n \<le> 2 ^ 32"

definition IDMapper_look :: "IDMapper \<Rightarrow> string \<Rightarrow> u32 option" where
  "IDMapper_look m = map_of (dict m)"

lemma IDMapper_new_ok: "IDMapper_ok IDMapper_new" "IDMapper_look IDMapper_new = Map.empty"
  by (simp_all add: IDMapper_ok_def IDMapper_new_def IDMapper_look_def)

lemma IDMapper_look_less: "IDMapper_ok m \<Longrightarrow> IDMapper_look m k = Some i \<Longrightarrow> unat i < length (dict m)"
  by (auto simp: IDMapper_ok_def IDMapper_look_def list_all_iff dest!: map_of_SomeD)

lemma IDMapper_look_inj:
  "IDMapper_ok m \<Longrightarrow> IDMapper_look m k = Some i \<Longrightarrow> IDMapper_look m k' = Some i \<Longrightarrow> k = k'"
  unfolding IDMapper_ok_def IDMapper_look_def distinct_map inj_on_def
  using map_of_SomeD [of "dict m" k i] map_of_SomeD [of "dict m" k' i] by (metis fst_conv snd_conv)

lemma IDMapper_insert_known: "IDMapper_look m k = Some i \<Longrightarrow> IDMapper_insert m k = (m, (i, False))"
  by (simp add: IDMapper_insert_def IDMapper_look_def)

lemma IDMapper_insert_new:
  assumes "IDMapper_ok m" "IDMapper_room m (Suc n)" "IDMapper_look m k = None"
  shows "\<exists>m'. IDMapper_insert m k = (m', (of_nat (length (dict m)), True)) \<and> IDMapper_ok m' \<and> IDMapper_room m' n \<and>
    IDMapper_look m' = (IDMapper_look m)(k \<mapsto> of_nat (length (dict m))) \<and> length (dict m') = Suc (length (dict m))"
proof -
  let ?n = "of_nat (length (dict m)) :: u32" and ?m = "m\<lparr>dict := dict m @ [(k, of_nat (length (dict m)))]\<rparr>"
  have u: "unat ?n = length (dict m)" using assms(2) by (simp add: IDMapper_room_def unat_of_nat)
  have k: "k \<notin> fst ` set (dict m)" using assms(3) by (simp add: IDMapper_look_def map_of_eq_None_iff)
  have n: "?n \<notin> snd ` set (dict m)"
  proof
    assume "?n \<in> snd ` set (dict m)"
    then have "unat ?n < length (dict m)" using assms(1) by (auto simp: IDMapper_ok_def list_all_iff)
    then show False using u by simp
  qed
  have "IDMapper_ok ?m" using assms(1) k n u by (auto simp: IDMapper_ok_def list_all_iff)
  moreover have "IDMapper_look ?m = (IDMapper_look m)(k \<mapsto> ?n)"
    using assms(3) by (auto simp: IDMapper_look_def map_add_def fun_eq_iff split: option.splits)
  ultimately show ?thesis using assms(2,3)
    by (intro exI [of _ ?m]) (simp add: IDMapper_insert_def IDMapper_look_def IDMapper_room_def Let_def)
qed

interpretation strings: id_assigner IDMapper_ok IDMapper_room IDMapper_look
  "\<lambda>m k. let (m', (i, _)) = IDMapper_insert m k in Some (m', i)"
proof
  fix m n k assume m: "IDMapper_ok m" "IDMapper_room m (Suc n)"
  show "\<exists>m' i. (let (m', (i, _)) = IDMapper_insert m k in Some (m', i)) = Some (m', i) \<and> IDMapper_ok m' \<and>
      IDMapper_room m' n \<and> IDMapper_look m' = (IDMapper_look m)(k \<mapsto> i) \<and> (\<forall>j. IDMapper_look m k = Some j \<longrightarrow> j = i)"
  proof (cases "IDMapper_look m k")
    case None
    from IDMapper_insert_new [OF m this] None show ?thesis by auto
  next
    case (Some i)
    with m show ?thesis by (auto simp: IDMapper_insert_known IDMapper_room_def fun_eq_iff)
  qed
qed (auto simp: IDMapper_insert_known intro: IDMapper_look_inj)

definition AVMapper_ok :: "AVMapper \<Rightarrow> bool" where
  "AVMapper_ok m \<longleftrightarrow> IDMapper_ok (attrMapper m) \<and> length (valueMapper m) = length (dict (attrMapper m)) \<and>
     list_all IDMapper_ok (valueMapper m)"

definition AVMapper_room :: "AVMapper \<Rightarrow> nat \<Rightarrow> bool" where
  "AVMapper_room m n \<longleftrightarrow> n \<le> 2 ^ 32 \<and> IDMapper_room (attrMapper m) n \<and> list_all (\<lambda>vm. IDMapper_room vm n) (valueMapper m)"

definition AVMapper_look :: "AVMapper \<Rightarrow> string \<times> string \<Rightarrow> (u32 \<times> u32) option" where
  "AVMapper_look m = (\<lambda>(attr, value). case IDMapper_look (attrMapper m) attr of
      None \<Rightarrow> None
    | Some i \<Rightarrow> map_option (Pair i) (IDMapper_look (valueMapper m ! unat i) value))"

definition AVMapper_ids :: "AVMapper \<Rightarrow> string \<times> string \<Rightarrow> (AVMapper \<times> (u32 \<times> u32)) option" where
  "AVMapper_ids m k = map_option (\<lambda>(m', ((i, _), (j, _))). (m', (i, j))) (AVMapper_insert m (fst k) (snd k))"

lemma AVMapper_new_ok: "AVMapper_ok AVMapper_new" "AVMapper_look AVMapper_new = Map.empty"
  by (auto simp: AVMapper_ok_def AVMapper_new_def AVMapper_look_def IDMapper_new_ok)
    (simp add: IDMapper_new_def)

lemma AVMapper_look_inj:
  assumes "AVMapper_ok m" "AVMapper_look m k = Some ij" "AVMapper_look m k' = Some ij"
  shows "k = k'"
proof -
  obtain a v a' v' i j where k: "k = (a, v)" "k' = (a', v')" "ij = (i, j)" by (metis surj_pair)
  have a: "IDMapper_look (attrMapper m) a = Some i" "IDMapper_look (attrMapper m) a' = Some i"
    and v: "IDMapper_look (valueMapper m ! unat i) v = Some j" "IDMapper_look (valueMapper m ! unat i) v' = Some j"
    using assms(2,3) by (auto simp: k AVMapper_look_def split: option.splits)
  have "unat i < length (valueMapper m)"
    using IDMapper_look_less [OF _ a(1)] assms(1) by (simp add: AVMapper_ok_def)
  then have "IDMapper_ok (valueMapper m ! unat i)"
    using assms(1) by (simp add: AVMapper_ok_def list_all_length)
  with a v assms(1) IDMapper_look_inj show ?thesis unfolding k AVMapper_ok_def by blast
qed

lemma room_mono: "IDMapper_room m (Suc n) \<Longrightarrow> IDMapper_room m n"
  by (simp add: IDMapper_room_def)

text \<open>Numbering the attribute adds an empty map of values, so no pair is added yet.\<close>

lemma attr_step:
  assumes "AVMapper_ok m" "AVMapper_room m (Suc n)"
  obtains am i new vms where "IDMapper_insert (attrMapper m) a = (am, (i, new))"
    "vms = (if new then valueMapper m @ [IDMapper_new] else valueMapper m)"
    "AVMapper_ok \<lparr>attrMapper = am, valueMapper = vms\<rparr>" "IDMapper_look am a = Some i" "unat i < length vms"
    "AVMapper_look \<lparr>attrMapper = am, valueMapper = vms\<rparr> = AVMapper_look m"
    "IDMapper_room am n" "list_all (\<lambda>vm. IDMapper_room vm (Suc n)) vms"
proof -
  have ok: "IDMapper_ok (attrMapper m)" "IDMapper_room (attrMapper m) (Suc n)" "n < 2 ^ 32"
    "length (valueMapper m) = length (dict (attrMapper m))" "list_all (\<lambda>vm. IDMapper_room vm (Suc n)) (valueMapper m)"
    using assms by (auto simp: AVMapper_ok_def AVMapper_room_def)
  show thesis
  proof (cases "IDMapper_look (attrMapper m) a")
    case (Some i)
    have m: "\<lparr>attrMapper = attrMapper m, valueMapper = valueMapper m\<rparr> = m" by simp
    from Some show thesis
      using that [of "attrMapper m" i False "valueMapper m", unfolded m] ok room_mono assms(1) IDMapper_look_less [OF ok(1) Some]
      by (simp add: IDMapper_insert_known)
  next
    case None
    let ?n = "length (dict (attrMapper m))"
    from IDMapper_insert_new [OF ok(1,2) None] obtain am where
      am: "IDMapper_insert (attrMapper m) a = (am, (of_nat ?n, True))" "IDMapper_ok am" "IDMapper_room am n"
        "IDMapper_look am = (IDMapper_look (attrMapper m))(a \<mapsto> of_nat ?n)" "length (dict am) = Suc ?n" by blast
    have u: "unat (of_nat ?n :: u32) = ?n" using ok(2) by (simp add: IDMapper_room_def unat_of_nat)
    have "AVMapper_look \<lparr>attrMapper = am, valueMapper = valueMapper m @ [IDMapper_new]\<rparr> = AVMapper_look m"
      using None u ok(1,4) IDMapper_look_less [OF ok(1)]
      by (auto simp: AVMapper_look_def am(4) fun_eq_iff nth_append IDMapper_new_ok split: option.splits)
    then show thesis
      using that [of am "of_nat ?n" True "valueMapper m @ [IDMapper_new]"] am assms(1) u ok
      by (simp add: AVMapper_ok_def IDMapper_new_ok) (simp add: IDMapper_room_def IDMapper_new_def)
  qed
qed

text \<open>Numbering the value in the map of its attribute.\<close>

lemma value_step:
  assumes "AVMapper_ok m" "IDMapper_look (attrMapper m) a = Some i" "unat i < length (valueMapper m)"
    "list_all (\<lambda>vm. IDMapper_room vm (Suc n)) (valueMapper m)"
  obtains vm j f where "IDMapper_insert (valueMapper m ! unat i) v = (vm, (j, f))"
    "AVMapper_ok (m\<lparr>valueMapper := (valueMapper m)[unat i := vm]\<rparr>)"
    "AVMapper_look (m\<lparr>valueMapper := (valueMapper m)[unat i := vm]\<rparr>) = (AVMapper_look m)((a, v) \<mapsto> (i, j))"
    "list_all (\<lambda>vm. IDMapper_room vm n) ((valueMapper m)[unat i := vm])"
    "\<forall>ij. AVMapper_look m (a, v) = Some ij \<longrightarrow> ij = (i, j)"
proof -
  let ?vm = "valueMapper m ! unat i"
  have ok: "IDMapper_ok ?vm" "IDMapper_room ?vm (Suc n)" "IDMapper_ok (attrMapper m)"
    using assms by (auto simp: AVMapper_ok_def list_all_length)
  from strings.ins_total [OF ok(1,2), of v] obtain vm j f where
    vm: "IDMapper_insert ?vm v = (vm, (j, f))" "IDMapper_ok vm" "IDMapper_room vm n"
      "IDMapper_look vm = (IDMapper_look ?vm)(v \<mapsto> j)" "\<forall>j'. IDMapper_look ?vm v = Some j' \<longrightarrow> j' = j"
    by (auto simp: split_beta Let_def) (metis prod.collapse)
  have inj: "unat i' = unat i \<Longrightarrow> IDMapper_look (attrMapper m) b = Some i' \<Longrightarrow> b = a" for b i'
    using IDMapper_look_inj [OF ok(3) assms(2)] by (metis unsigned_word_eqI)
  show thesis
  proof (rule that [OF vm(1)])
    show "AVMapper_ok (m\<lparr>valueMapper := (valueMapper m)[unat i := vm]\<rparr>)"
      using assms(1,3) vm(2) by (auto simp: AVMapper_ok_def list_all_length nth_list_update)
    show "AVMapper_look (m\<lparr>valueMapper := (valueMapper m)[unat i := vm]\<rparr>) = (AVMapper_look m)((a, v) \<mapsto> (i, j))"
    proof (rule ext, clarify)
      fix b w
      show "AVMapper_look (m\<lparr>valueMapper := (valueMapper m)[unat i := vm]\<rparr>) (b, w) = ((AVMapper_look m)((a, v) \<mapsto> (i, j))) (b, w)"
      proof (cases "b = a")
        case True
        then show ?thesis using assms(2,3) vm(4) by (simp add: AVMapper_look_def)
      next
        case False
        then have "\<And>i'. IDMapper_look (attrMapper m) b = Some i' \<Longrightarrow> unat i \<noteq> unat i'" using inj [of _ b] by fastforce
        then show ?thesis using False by (simp add: AVMapper_look_def nth_list_update split: option.split)
      qed
    qed
    show "list_all (\<lambda>vm. IDMapper_room vm n) ((valueMapper m)[unat i := vm])"
      using assms(3,4) vm(3) room_mono by (auto simp: list_all_length nth_list_update)
    show "\<forall>ij. AVMapper_look m (a, v) = Some ij \<longrightarrow> ij = (i, j)"
      using assms(2) vm(5) by (auto simp: AVMapper_look_def)
  qed
qed

lemma AVMapper_ids_total:
  assumes "AVMapper_ok m" "AVMapper_room m (Suc n)"
  shows "\<exists>m' ij. AVMapper_ids m k = Some (m', ij) \<and> AVMapper_ok m' \<and> AVMapper_room m' n \<and>
    AVMapper_look m' = (AVMapper_look m)(k \<mapsto> ij) \<and> (\<forall>j. AVMapper_look m k = Some j \<longrightarrow> j = ij)"
proof -
  obtain a v where k: "k = (a, v)" by (metis surj_pair)
  from attr_step [OF assms, of a] obtain am i new vms where
    1: "IDMapper_insert (attrMapper m) a = (am, (i, new))" "vms = (if new then valueMapper m @ [IDMapper_new] else valueMapper m)"
    "AVMapper_ok \<lparr>attrMapper = am, valueMapper = vms\<rparr>" "IDMapper_look am a = Some i" "unat i < length vms"
    "AVMapper_look \<lparr>attrMapper = am, valueMapper = vms\<rparr> = AVMapper_look m"
    "IDMapper_room am n" "list_all (\<lambda>vm. IDMapper_room vm (Suc n)) vms" .
  let ?m = "\<lparr>attrMapper = am, valueMapper = vms\<rparr>"
  have "IDMapper_look (attrMapper ?m) a = Some i" "unat i < length (valueMapper ?m)"
    "list_all (\<lambda>vm. IDMapper_room vm (Suc n)) (valueMapper ?m)" using 1 by simp_all
  from value_step [OF 1(3) this, of v] obtain vm j f where
    2: "IDMapper_insert (vms ! unat i) v = (vm, (j, f))" "AVMapper_ok \<lparr>attrMapper = am, valueMapper = vms[unat i := vm]\<rparr>"
    "AVMapper_look \<lparr>attrMapper = am, valueMapper = vms[unat i := vm]\<rparr> = (AVMapper_look m)((a, v) \<mapsto> (i, j))"
    "list_all (\<lambda>vm. IDMapper_room vm n) (vms[unat i := vm])" "\<forall>ij. AVMapper_look m (a, v) = Some ij \<longrightarrow> ij = (i, j)"
    by (auto simp: 1(6))
  have "AVMapper_insert m a v = Some (\<lparr>attrMapper = am, valueMapper = vms[unat i := vm]\<rparr>, ((i, new), (j, f)))"
    unfolding AVMapper_insert_def 1(1) Let_def prod.case snd_conv fst_conv 1(2) [symmetric] using 1(5) 2(1) by (simp add: rd_def)
  with 1 2 assms(2) show ?thesis by (auto simp: k AVMapper_room_def AVMapper_ids_def)
qed

interpretation pairs: id_assigner AVMapper_ok AVMapper_room AVMapper_look AVMapper_ids
proof (unfold_locales, rule AVMapper_ids_total)
  fix m k ij assume m: "AVMapper_ok m" "AVMapper_look m k = Some ij"
  obtain a v i j where k: "k = (a, v)" "ij = (i, j)" by (metis surj_pair)
  have a: "IDMapper_look (attrMapper m) a = Some i" "IDMapper_look (valueMapper m ! unat i) v = Some j"
    using m(2) by (auto simp: k AVMapper_look_def split: option.splits)
  have "unat i < length (valueMapper m)"
    using IDMapper_look_less [OF _ a(1)] m(1) by (simp add: AVMapper_ok_def)
  then show "AVMapper_ids m k = Some (m, ij)"
    using a by (simp add: k AVMapper_ids_def AVMapper_insert_def IDMapper_insert_known Let_def rd_def)
qed (erule (2) AVMapper_look_inj | assumption)+

section \<open>Reading back what was written\<close>

lemma get_put_size [simp]: "n < 2 ^ 64 \<Longrightarrow> get_size (put_size n @ s) = Some (n, s)"
  by (simp add: get_size_def put_size_def unat_of_nat)

lemma get_put_bool [simp]: "get_bool (put_bool b @ s) = Some (b, s)"
  by (simp add: get_bool_def put_bool_def)

lemma get_put_string: "length str < 2 ^ 64 \<Longrightarrow> get_string (put_string str @ s) = Some (str, s)"
  by (simp add: get_string_def put_string_def char_byte comp_def)

text \<open>A reader undoes a writer up to a relation, which is the identity but where maps are re-ordered.\<close>

lemma get_n_rel:
  assumes "\<And>x s. x \<in> set xs \<Longrightarrow> \<exists>y. get (put x @ s) = Some (y, s) \<and> R x y"
  shows "\<exists>ys. get_n get (length xs) (concat (map put xs) @ s) = Some (ys, s) \<and> list_all2 R xs ys"
  using assms
proof (induction xs)
  case (Cons x xs)
  obtain y where y: "get (put x @ concat (map put xs) @ s) = Some (y, concat (map put xs) @ s)" "R x y"
    using Cons.prems [of x] by auto
  obtain ys where "get_n get (length xs) (concat (map put xs) @ s) = Some (ys, s)" "list_all2 R xs ys"
    using Cons by auto
  with y show ?case by auto
qed simp

lemma get_vector_rel:
  assumes "\<And>x s. x \<in> set xs \<Longrightarrow> \<exists>y. get (put x @ s) = Some (y, s) \<and> R x y" "length xs < 2 ^ 64"
  shows "\<exists>ys. get_vector get (put_vector put xs @ s) = Some (ys, s) \<and> list_all2 R xs ys"
  using get_n_rel [of xs get put R s, OF assms(1)] assms(2) by (simp add: get_vector_def put_vector_def)

lemma get_put_vector:
  assumes "\<And>x s. x \<in> set xs \<Longrightarrow> get (put x @ s) = Some (x, s)" "length xs < 2 ^ 64"
  shows "get_vector get (put_vector put xs @ s) = Some (xs, s)"
  using get_vector_rel [of xs get put "(=)" s] assms by (auto simp: list.rel_eq)

lemma get_vector_map:
  assumes "\<And>x s. x \<in> set xs \<Longrightarrow> get (put x @ s) = Some (f x, s)" "length xs < 2 ^ 64"
  shows "get_vector get (put_vector put xs @ s) = Some (map f xs, s)"
proof -
  obtain ys where "get_vector get (put_vector put xs @ s) = Some (ys, s)" "list_all2 (\<lambda>x y. y = f x) xs ys"
    using get_vector_rel [of xs get put "\<lambda>x y. y = f x" s] assms by auto
  moreover from this have "ys = map f xs" by (auto simp: list_all2_conv_all_nth intro: nth_equalityI)
  ultimately show ?thesis by simp
qed

lemma foldl_update_distinct:
  "distinct (map fst (d @ es)) \<Longrightarrow> foldl (\<lambda>d (k, i). AList.update k i d) d es = d @ es"
proof (induction es arbitrary: d)
  case (Cons e es)
  obtain k i where e: "e = (k, i)" by (metis surj_pair)
  have "AList.update k i d = d @ [(k, i)]"
    using Cons.prems by (induction d) (auto simp: e)
  then show ?case using Cons by (simp add: e)
qed simp

definition IDMapper_sized :: "IDMapper \<Rightarrow> bool" where
  "IDMapper_sized m \<longleftrightarrow> length (dict m) < 2 ^ 64 \<and> list_all (\<lambda>(k, _). length k < 2 ^ 64) (dict m)"

lemma IDMapper_load_save:
  assumes "IDMapper_ok m" "IDMapper_sized m"
  shows "IDMapper_load_binary (IDMapper_save_binary m @ s) = Some (\<lparr>dict = sort (dict m)\<rparr>, s)"
proof -
  have d: "distinct (map fst (sort (dict m)))" using assms(1)
    by (metis IDMapper_ok_def distinct_map distinct_sort set_sort)
  have "get_vector (\<lambda>s. do { (k, s1) \<leftarrow> get_string s; (i, s2) \<leftarrow> get32 s1; Some ((k, i), s2) })
      (IDMapper_save_binary m @ s) = Some (sort (dict m), s)"
    unfolding IDMapper_save_binary_def using assms(2)
    by (intro get_put_vector) (auto simp: IDMapper_sized_def list_all_iff get_put_string)
  with d foldl_update_distinct [of "[]"] show ?thesis by (simp add: IDMapper_load_binary_def)
qed

text \<open>A reloaded map differs only in its order, so it numbers the same keys the same way.\<close>

definition IDMapper_eq :: "IDMapper \<Rightarrow> IDMapper \<Rightarrow> bool" where
  "IDMapper_eq m m' \<longleftrightarrow> IDMapper_ok m' \<and> IDMapper_look m' = IDMapper_look m \<and> length (dict m') = length (dict m)"

lemma IDMapper_sort_eq:
  assumes "IDMapper_ok m"
  shows "IDMapper_eq m \<lparr>dict = sort (dict m)\<rparr>"
proof -
  have d: "distinct (map fst (sort (dict m)))" "distinct (map snd (sort (dict m)))" using assms
    unfolding IDMapper_ok_def distinct_map by simp_all
  then have "map_of (sort (dict m)) = map_of (dict m)"
    using assms by (intro map_of_inject_set [THEN iffD2]) (auto simp: IDMapper_ok_def)
  with d assms show ?thesis
    by (simp add: IDMapper_eq_def IDMapper_ok_def IDMapper_look_def list_all_iff)
qed

definition AVMapper_eq :: "AVMapper \<Rightarrow> AVMapper \<Rightarrow> bool" where
  "AVMapper_eq m m' \<longleftrightarrow> AVMapper_ok m' \<and> AVMapper_look m' = AVMapper_look m \<and>
     (\<forall>n. AVMapper_room m n \<longrightarrow> AVMapper_room m' n)"

definition AVMapper_sized :: "AVMapper \<Rightarrow> bool" where
  "AVMapper_sized m \<longleftrightarrow> IDMapper_sized (attrMapper m) \<and> list_all IDMapper_sized (valueMapper m)"

lemma AVMapper_load_save:
  assumes "AVMapper_ok m" "AVMapper_sized m"
  shows "\<exists>m'. AVMapper_load_binary (AVMapper_save_binary m @ s) = Some (m', s) \<and> AVMapper_eq m m'"
proof -
  let ?am = "\<lparr>dict = sort (dict (attrMapper m))\<rparr>"
  have am: "IDMapper_load_binary (IDMapper_save_binary (attrMapper m) @ s) = Some (?am, s)" for s
    using assms by (intro IDMapper_load_save) (auto simp: AVMapper_ok_def AVMapper_sized_def)
  have eq: "IDMapper_eq (attrMapper m) ?am" using assms by (intro IDMapper_sort_eq) (simp add: AVMapper_ok_def)
  have "\<exists>vm'. IDMapper_load_binary (IDMapper_save_binary vm @ s) = Some (vm', s) \<and> IDMapper_eq vm vm'"
    if "vm \<in> set (valueMapper m)" for vm s
    using that assms IDMapper_load_save [of vm s] IDMapper_sort_eq [of vm]
    by (auto simp: AVMapper_ok_def AVMapper_sized_def list_all_iff)
  moreover have "length (valueMapper m) < 2 ^ 64"
    using assms by (simp add: AVMapper_ok_def AVMapper_sized_def IDMapper_sized_def)
  ultimately obtain vms where
    vms: "get_vector IDMapper_load_binary (put_vector IDMapper_save_binary (valueMapper m) @ s) = Some (vms, s)"
      "list_all2 IDMapper_eq (valueMapper m) vms"
    using get_vector_rel [of "valueMapper m" IDMapper_load_binary IDMapper_save_binary IDMapper_eq s] by blast
  let ?m = "\<lparr>attrMapper = ?am, valueMapper = vms\<rparr>"
  have l: "length vms = length (valueMapper m)" "\<And>i. i < length vms \<Longrightarrow> IDMapper_eq (valueMapper m ! i) (vms ! i)"
    using vms(2) by (auto simp: list_all2_conv_all_nth)
  have ok: "AVMapper_ok ?m"
    using assms(1) eq l by (auto simp: AVMapper_ok_def IDMapper_eq_def list_all_length)
  have "AVMapper_look ?m k = AVMapper_look m k" for k
    using eq l assms(1) IDMapper_look_less [of "attrMapper m"]
    by (auto simp: AVMapper_look_def IDMapper_eq_def AVMapper_ok_def split: prod.splits option.splits)
  moreover have "AVMapper_room ?m n" if "AVMapper_room m n" for n
    using that eq l by (auto simp: AVMapper_room_def IDMapper_eq_def IDMapper_room_def list_all_length)
  ultimately have "AVMapper_eq m ?m" using ok by (auto simp: AVMapper_eq_def)
  with am vms(1) show ?thesis by (simp add: AVMapper_load_binary_def AVMapper_save_binary_def)
qed

end
