(* ===== verification/BE_Index.thy ===== *)
theory BE_Index
  imports BE_Mappers "HOL-Library.Multiset"
begin

text \<open>
  The inverted index over conjunctions of the boolean-expression index
  (\<open>include/ir/be_index/DNF.hpp\<close> and class \<open>ConjunctionInvIndex\<close> of \<open>InvIndex.hpp\<close>). A conjunction is a list of
  assignments, each saying that an attribute takes, or does not take, one of some values; given the
  attributes of a user, \<open>retrieve\<close> finds the conjunctions they satisfy. The index keeps, for every number
  \<open>K\<close> of positive assignments and every attribute-value pair, the list of the conjunctions that mention the pair,
  and walks \<open>K\<close> of these lists in parallel.
\<close>

section \<open>Boolean expressions\<close>

record Assignment =
  attribute :: string
  belongsTo :: bool
  vals :: "string list"

record Conjunction =
  assignments :: "Assignment list"

definition getK :: "Conjunction \<Rightarrow> u32" where
  "getK c = foldl (\<lambda>ret a. if belongsTo a then ret + 1 else ret) 0 (assignments c)"

section \<open>The index\<close>

type_synonym posting = "u32 \<times> bool"
type_synonym inner = "((u32 \<times> u32) \<times> posting list) list"

record ConjunctionInvIndex =
  index :: "(u32 \<times> inner) list"
  zeroConjunctionList :: "posting list"
  avMapper :: AVMapper

definition ConjunctionInvIndex_new :: ConjunctionInvIndex where
  "ConjunctionInvIndex_new = \<lparr>index = [], zeroConjunctionList = [], avMapper = AVMapper_new\<rparr>"

text \<open>\<open>m[k]\<close> of an ordered and of an unordered map creates an empty entry before it is updated.\<close>

fun smap_upd :: "u32 \<Rightarrow> ('v list \<Rightarrow> 'v list) \<Rightarrow> (u32 \<times> 'v list) list \<Rightarrow> (u32 \<times> 'v list) list" where
  "smap_upd k f [] = [(k, f [])]"
| "smap_upd k f ((k', v) # m) =
     (if k = k' then (k, f v) # m
      else if k < k' then (k, f []) # (k', v) # m
      else (k', v) # smap_upd k f m)"

definition entry :: "('k \<times> 'v list) list \<Rightarrow> 'k \<Rightarrow> 'v list" where
  "entry m k = (case map_of m k of None \<Rightarrow> [] | Some v \<Rightarrow> v)"

definition hmap_upd :: "'k \<Rightarrow> ('v list \<Rightarrow> 'v list) \<Rightarrow> ('k \<times> 'v list) list \<Rightarrow> ('k \<times> 'v list) list" where
  "hmap_upd k f m = AList.update k (f (entry m k)) m"

definition add_posting ::
  "u32 \<Rightarrow> u32 \<Rightarrow> bool \<Rightarrow> string \<times> string \<Rightarrow> ConjunctionInvIndex \<Rightarrow> ConjunctionInvIndex option" where
  "add_posting K cid b av ci = do {
     (m, ids) \<leftarrow> AVMapper_ids (avMapper ci) av;
     Some (ci\<lparr>avMapper := m, index := smap_upd K (hmap_upd ids (\<lambda>ps. ps @ [(cid, b)])) (index ci)\<rparr>)
   }"

primrec add_values :: "u32 \<Rightarrow> u32 \<Rightarrow> Assignment \<Rightarrow> string list \<Rightarrow> ConjunctionInvIndex \<Rightarrow> ConjunctionInvIndex option" where
  "add_values K cid a [] ci = Some ci"
| "add_values K cid a (v # vs) ci = do {
     ci1 \<leftarrow> add_posting K cid (belongsTo a) (attribute a, v) ci;
     add_values K cid a vs ci1
   }"

primrec add_assignments :: "u32 \<Rightarrow> u32 \<Rightarrow> Assignment list \<Rightarrow> ConjunctionInvIndex \<Rightarrow> ConjunctionInvIndex option" where
  "add_assignments K cid [] ci = Some ci"
| "add_assignments K cid (a # as) ci = do {
     ci1 \<leftarrow> add_values K cid a (vals a) ci;
     add_assignments K cid as ci1
   }"

definition addConjunction :: "u32 \<Rightarrow> Conjunction \<Rightarrow> ConjunctionInvIndex \<Rightarrow> ConjunctionInvIndex option" where
  "addConjunction conjunctionID c ci =
     (let K = getK c;
          ci1 = (if K = 0 then ci\<lparr>zeroConjunctionList := zeroConjunctionList ci @ [(conjunctionID, True)]\<rparr> else ci)
      in add_assignments K conjunctionID (assignments c) ci1)"

section \<open>Retrieval\<close>

text \<open>An element of \<open>lists\<close> with the matching one of \<open>positions\<close>.\<close>

type_synonym cursor = "posting list \<times> nat"

primrec initPostingLists ::
  "AVMapper \<Rightarrow> (string \<times> string) list \<Rightarrow> inner \<Rightarrow> (AVMapper \<times> cursor list) option" where
  "initPostingLists m [] inn = Some (m, [])"
| "initPostingLists m (p # ps) inn = do {
     (m1, ids) \<leftarrow> AVMapper_ids m p;
     (m2, cs) \<leftarrow> initPostingLists m1 ps inn;
     Some (m2, (case map_of inn ids of None \<Rightarrow> cs | Some l \<Rightarrow> (l, 0) # cs))
   }"

function advance :: "posting list \<Rightarrow> u32 \<Rightarrow> nat \<Rightarrow> nat" where
  "advance l cid j = (if j < length l \<and> fst (l ! j) < cid then advance l cid (j + 1) else j)"
  by auto

termination advance
  by (relation "measure (\<lambda>(l, cid, j). length l - j)") auto

definition skipTo :: "cursor list \<Rightarrow> u32 \<Rightarrow> cursor list" where
  "skipTo cs cid = filter (\<lambda>(l, j). j \<noteq> length l) (map (\<lambda>(l, j). (l, advance l cid j)) cs)"

text \<open>One pass over the heads of the lists: the \<open>priority_queue\<close> keeps the \<open>K\<close> smallest identifiers (as an ascending
  list whose last element is the top), \<open>min\<close> the smallest one, \<open>minCnt\<close> how many lists start with
  it and \<open>invalid\<close> whether one of them does so negatively.\<close>

definition scan_head :: "nat \<Rightarrow> u32 list \<times> u32 \<times> u32 \<times> bool \<Rightarrow> posting \<Rightarrow> u32 list \<times> u32 \<times> u32 \<times> bool" where
  "scan_head K st h =
     (let (pq, mn, minCnt, invalid) = st; (cid, b) = h;
          pq' = (if length pq < K then insort cid pq
                 else if cid < last pq then insort cid (butlast pq) else pq)
      in if cid < mn then (pq', cid, 1, \<not> b)
         else if cid = mn then (pq', mn, minCnt + 1, invalid \<or> \<not> b)
         else (pq', mn, minCnt, invalid))"

partial_function (option) retrieve_loop :: "u32 \<Rightarrow> cursor list \<Rightarrow> u32 list \<Rightarrow> u32 list option" where
  "retrieve_loop K cs out =
     (if length cs < unat K then Some out else do {
        hs \<leftarrow> those (map (\<lambda>(l, j). rd l j) cs);
        h \<leftarrow> rd hs 0;
        let (pq, mn, minCnt, invalid) = foldl (scan_head (unat K)) ([], fst h, 0, False) hs;
        let out' = (if minCnt = K \<and> \<not> invalid then out @ [mn] else out);
        if pq = [] then None
        else retrieve_loop K (skipTo cs (if mn = last pq then mn + 1 else last pq)) out'
      })"

declare retrieve_loop.simps [code]

primrec retrieve_index ::
  "posting list \<Rightarrow> (string \<times> string) list \<Rightarrow> (u32 \<times> inner) list \<Rightarrow> AVMapper \<Rightarrow> u32 list \<Rightarrow>
   (AVMapper \<times> u32 list) option" where
  "retrieve_index zero asg [] m out = Some (m, out)"
| "retrieve_index zero asg (e # es) m out =
     (if unat (fst e) \<le> length asg then do {
        (m1, cs) \<leftarrow> initPostingLists m asg (snd e);
        out1 \<leftarrow> retrieve_loop (if fst e = 0 then 1 else fst e) (if fst e = 0 then (zero, 0) # cs else cs) out;
        retrieve_index zero asg es m1 out1
      } else Some (m, out))"

definition retrieve :: "(string \<times> string) list \<Rightarrow> ConjunctionInvIndex \<Rightarrow> u32 list \<Rightarrow> (ConjunctionInvIndex \<times> u32 list) option" where
  "retrieve asg ci out = do {
     (m, out') \<leftarrow> retrieve_index (zeroConjunctionList ci) asg (index ci) (avMapper ci) out;
     Some (ci\<lparr>avMapper := m\<rparr>, out')
   }"

section \<open>What a query should find\<close>

definition satisfies :: "(string \<times> string) list \<Rightarrow> Conjunction \<Rightarrow> bool" where
  "satisfies asg c \<longleftrightarrow>
     list_all (\<lambda>a. belongsTo a = list_ex (\<lambda>v. (attribute a, v) \<in> set asg) (vals a)) (assignments c)"

text \<open>A well-formed conjunction mentions an attribute once and a value once.\<close>

definition wf_conj :: "Conjunction \<Rightarrow> bool" where
  "wf_conj c \<longleftrightarrow> assignments c \<noteq> [] \<and> length (assignments c) < 2 ^ 32 \<and> distinct (map attribute (assignments c)) \<and>
     list_all (\<lambda>a. vals a \<noteq> [] \<and> distinct (vals a)) (assignments c)"

section \<open>One pass over the heads\<close>

definition pq_step :: "nat \<Rightarrow> u32 list \<Rightarrow> u32 \<Rightarrow> u32 list" where
  "pq_step K pq cid = (if length pq < K then insort cid pq
     else if cid < last pq then insort cid (butlast pq) else pq)"

definition min_step :: "u32 \<times> u32 \<times> bool \<Rightarrow> posting \<Rightarrow> u32 \<times> u32 \<times> bool" where
  "min_step st h = (let (mn, n, i) = st in
     if fst h < mn then (fst h, 1, \<not> snd h)
     else if fst h = mn then (mn, n + 1, i \<or> \<not> snd h) else (mn, n, i))"

lemma scan_split:
  "foldl (scan_head K) (pq, st) hs = (foldl (pq_step K) pq (map fst hs), foldl min_step st hs)"
proof (induction hs arbitrary: pq st)
  case (Cons h hs)
  have "scan_head K (pq, st) h = (pq_step K pq (fst h), min_step st h)"
    by (cases h, cases st) (simp add: scan_head_def pq_step_def min_step_def Let_def)
  then show ?case using Cons by simp
qed simp

lemma take_insort_before:
  "sorted xs \<Longrightarrow> length xs \<le> k \<or> c \<le> xs ! k \<Longrightarrow> take (Suc k) (insort c xs) = insort c (take k xs)"
proof (induction xs arbitrary: k)
  case (Cons x xs)
  show ?case
  proof (cases "c \<le> x")
    case True
    then show ?thesis by (cases k) simp_all
  next
    case False
    then obtain k' where k: "k = Suc k'" using Cons.prems by (cases k) auto
    then show ?thesis using False Cons by (auto simp: not_le)
  qed
qed simp

lemma take_insort_after:
  "sorted xs \<Longrightarrow> k < length xs \<Longrightarrow> xs ! k \<le> (c :: 'a::linorder) \<Longrightarrow> take (Suc k) (insort c xs) = take (Suc k) xs"
proof (induction xs arbitrary: k)
  case (Cons x xs)
  show ?case
  proof (cases "c \<le> x")
    case True
    have all: "(x # xs) ! i = c" if "i \<le> k" for i
    proof (rule antisym)
      have "(x # xs) ! i \<le> (x # xs) ! k" using that Cons.prems(1,2) by (intro sorted_nth_mono)
      then show "(x # xs) ! i \<le> c" using Cons.prems(3) by simp
      have "(x # xs) ! 0 \<le> (x # xs) ! i" using that Cons.prems(1,2) by (intro sorted_nth_mono) simp_all
      then show "c \<le> (x # xs) ! i" using True by simp
    qed
    have "take j (x # xs) = replicate j c" if "j \<le> Suc k" for j
      using that Cons.prems(2) all by (intro nth_equalityI) auto
    from this [of "Suc k"] this [of k] show ?thesis using True by simp
  next
    case False
    then show ?thesis using Cons by (cases k) (auto simp: not_le)
  qed
qed simp

lemma pq_step_take:
  assumes "sorted xs" "0 < K"
  shows "pq_step K (take K xs) c = take K (insort c xs)"
proof -
  obtain k where K: "K = Suc k" using assms(2) by (cases K) auto
  show ?thesis
  proof (cases "length xs < K")
    case True
    then show ?thesis by (simp add: pq_step_def)
  next
    case False
    then have l: "last (take K xs) = xs ! k" "butlast (take K xs) = take k xs" "k < length xs"
      by (simp_all add: K take_Suc_conv_app_nth)
    then show ?thesis
      using False take_insort_before [OF assms(1), of k c] take_insort_after [OF assms(1), of k c]
      by (auto simp: pq_step_def K min_def not_less)
  qed
qed

lemma pq_steps:
  assumes "sorted xs" "0 < K"
  shows "\<exists>ys. foldl (pq_step K) (take K xs) cs = take K ys \<and> sorted ys \<and> mset ys = mset xs + mset cs"
  using assms(1)
proof (induction cs arbitrary: xs)
  case Nil
  then show ?case by (intro exI [of _ xs]) simp
next
  case (Cons c cs)
  have "sorted (insort c xs)" using Cons.prems by (simp add: sorted_insort)
  from Cons.IH [OF this] show ?case using pq_step_take [OF Cons.prems assms(2), of c] by simp
qed

text \<open>The top of the queue is the \<open>K\<close>-th smallest head: fewer than \<open>K\<close> heads lie below it.\<close>

lemma pq_top:
  assumes "0 < K" "K \<le> length cs"
  defines "pq \<equiv> foldl (pq_step K) [] cs"
  shows "pq \<noteq> []" and "last pq \<in> set cs" and "length (filter (\<lambda>c. c < last pq) cs) < K"
proof -
  from pq_steps [of "[]" K cs] assms obtain ys where ys: "pq = take K ys" "sorted ys" "mset ys = mset cs" by auto
  have l: "length ys = length cs" using ys(3) by (rule mset_eq_length)
  then show ne: "pq \<noteq> []" using ys(1) assms(1,2) by auto
  obtain k where K: "K = Suc k" using assms(1) by (cases K) auto
  have last: "last pq = ys ! k" using ys(1) l assms(2) K by (simp add: take_Suc_conv_app_nth)
  have k: "k < length ys" using K l assms(2) by simp
  have "ys ! k \<in> set ys" using k by (rule nth_mem)
  also have "set ys = set cs" using ys(3) by (rule mset_eq_setD)
  finally show "last pq \<in> set cs" using last by simp
  have "filter (\<lambda>c. c < ys ! k) (drop k ys) = []"
    using ys(2) k by (auto simp: filter_empty_conv in_set_conv_nth sorted_iff_nth_mono not_less)
  then have "length (filter (\<lambda>c. c < ys ! k) ys) \<le> k"
    using length_filter_le [of "\<lambda>c. c < ys ! k" "take k ys"] filter_append [of "\<lambda>c. c < ys ! k" "take k ys" "drop k ys"] k
    by simp
  moreover have "length (filter P ys) = length (filter P cs)" for P
    using ys(3) by (metis mset_filter size_mset)
  ultimately show "length (filter (\<lambda>c. c < last pq) cs) < K" using last K by simp
qed

lemma min_steps:
  assumes "foldl min_step (m0, n0, i0) hs = (mn, n, i)"
  shows "mn \<le> m0" and "\<And>h. h \<in> set hs \<Longrightarrow> mn \<le> fst h" and "mn = m0 \<or> mn \<in> fst ` set hs"
    and "n = (if mn = m0 then n0 else 0) + of_nat (length (filter (\<lambda>h. fst h = mn) hs))"
    and "i \<longleftrightarrow> (mn = m0 \<and> i0) \<or> (mn, False) \<in> set hs"
proof -
  have "mn \<le> m0 \<and> (\<forall>h \<in> set hs. mn \<le> fst h) \<and> (mn = m0 \<or> mn \<in> fst ` set hs) \<and>
      n = (if mn = m0 then n0 else 0) + of_nat (length (filter (\<lambda>h. fst h = mn) hs)) \<and>
      (i \<longleftrightarrow> (mn = m0 \<and> i0) \<or> (mn, False) \<in> set hs)"
    using assms
  proof (induction hs arbitrary: m0 n0 i0)
    case (Cons h hs)
    obtain c b where h: "h = (c, b)" by (metis surj_pair)
    consider "c < m0" | "c = m0" | "m0 < c" by (metis linorder_cases)
    then show ?case
    proof cases
      case 1
      then have "min_step (m0, n0, i0) h = (c, 1, \<not> b)" by (simp add: h min_step_def)
      with Cons.prems have "foldl min_step (c, 1, \<not> b) hs = (mn, n, i)" by simp
      from Cons.IH [OF this] 1 show ?thesis by (auto simp: h)
    next
      case 2
      then have "min_step (m0, n0, i0) h = (m0, n0 + 1, i0 \<or> \<not> b)" by (simp add: h min_step_def)
      with Cons.prems have "foldl min_step (m0, n0 + 1, i0 \<or> \<not> b) hs = (mn, n, i)" by simp
      from Cons.IH [OF this] 2 show ?thesis by (auto simp: h)
    next
      case 3
      then have "min_step (m0, n0, i0) h = (m0, n0, i0)" by (auto simp: h min_step_def)
      with Cons.prems have "foldl min_step (m0, n0, i0) hs = (mn, n, i)" by simp
      from Cons.IH [OF this] 3 show ?thesis by (auto simp: h)
    qed
  qed simp
  then show "mn \<le> m0" and "\<And>h. h \<in> set hs \<Longrightarrow> mn \<le> fst h" and "mn = m0 \<or> mn \<in> fst ` set hs"
    and "n = (if mn = m0 then n0 else 0) + of_nat (length (filter (\<lambda>h. fst h = mn) hs))"
    and "i \<longleftrightarrow> (mn = m0 \<and> i0) \<or> (mn, False) \<in> set hs" by blast+
qed

section \<open>Walking the lists\<close>

text \<open>What is left of the lists; how many of them mention an identifier, and whether one does so negatively.\<close>

definition rest_of :: "cursor \<Rightarrow> posting list" where
  "rest_of cu = drop (snd cu) (fst cu)"

definition ascending :: "posting list \<Rightarrow> bool" where
  "ascending l \<longleftrightarrow> sorted_wrt (\<lambda>x y. fst x < fst y) l"

definition mentions :: "posting list list \<Rightarrow> u32 \<Rightarrow> nat" where
  "mentions rs c = length (filter (\<lambda>r. c \<in> fst ` set r) rs)"

definition denied :: "posting list list \<Rightarrow> u32 \<Rightarrow> bool" where
  "denied rs c \<longleftrightarrow> (\<exists>r \<in> set rs. (c, False) \<in> set r)"

definition skip :: "u32 \<Rightarrow> posting list list \<Rightarrow> posting list list" where
  "skip x rs = filter (\<lambda>r. r \<noteq> []) (map (dropWhile (\<lambda>h. fst h < x)) rs)"

lemma set_dropWhile_asc:
  "ascending r \<Longrightarrow> set (dropWhile (\<lambda>h. fst h < x) r) = {h \<in> set r. x \<le> fst h}"
  by (induction r) (auto simp: ascending_def not_less dest: less_imp_le less_le_trans)

lemma ascending_dropWhile: "ascending r \<Longrightarrow> ascending (dropWhile P r)"
  unfolding ascending_def by (induction r) auto

lemma ascending_head:
  assumes "ascending r" "(c, b) \<in> set r"
  shows "fst (hd r) \<le> c" and "fst (hd r) = c \<Longrightarrow> hd r = (c, b)"
  using assms by (cases r; auto simp: ascending_def)+

lemma mentions_Cons: "mentions (r # rs) c = (if c \<in> fst ` set r then 1 else 0) + mentions rs c"
  by (simp add: mentions_def)

lemma mentions_le: "mentions rs c \<le> length rs"
  by (simp add: mentions_def)

lemma skip_Cons: "skip x (r # rs) = (let d = dropWhile (\<lambda>h. fst h < x) r in if d = [] then skip x rs else d # skip x rs)"
  by (simp add: skip_def Let_def)

lemma mentions_skip:
  assumes "list_all ascending rs"
  shows "mentions (skip x rs) c = (if x \<le> c then mentions rs c else 0)"
    and "denied (skip x rs) c \<longleftrightarrow> x \<le> c \<and> denied rs c"
proof -
  show "mentions (skip x rs) c = (if x \<le> c then mentions rs c else 0)" using assms
  proof (induction rs)
    case (Cons r rs)
    have "c \<in> fst ` set (dropWhile (\<lambda>h. fst h < x) r) \<longleftrightarrow> x \<le> c \<and> c \<in> fst ` set r"
      using Cons.prems by (auto simp: set_dropWhile_asc)
    then have "mentions (skip x (r # rs)) c = (if x \<le> c \<and> c \<in> fst ` set r then 1 else 0) + mentions (skip x rs) c"
      unfolding skip_Cons Let_def
      by (cases "dropWhile (\<lambda>h. fst h < x) r") (auto simp: mentions_Cons simp del: dropWhile_eq_Nil_conv)
    then show ?case using Cons by (simp add: mentions_Cons)
  qed (simp add: mentions_def skip_def)
  show "denied (skip x rs) c \<longleftrightarrow> x \<le> c \<and> denied rs c"
  proof -
    have "denied (skip x rs) c \<longleftrightarrow> (\<exists>r \<in> set rs. (c, False) \<in> set (dropWhile (\<lambda>h. fst h < x) r))"
      unfolding denied_def skip_def by (auto simp del: dropWhile_eq_Nil_conv) (metis empty_iff list.set(1))
    also have "\<dots> \<longleftrightarrow> (\<exists>r \<in> set rs. x \<le> c \<and> (c, False) \<in> set r)"
      using assms by (intro bex_cong) (auto simp: list_all_iff set_dropWhile_asc)
    finally show ?thesis by (auto simp: denied_def)
  qed
qed

lemma skip_ok:
  assumes "list_all ascending rs"
  shows "list_all ascending (skip x rs)" "list_all (\<lambda>r. r \<noteq> []) (skip x rs)"
  using assms by (auto simp: skip_def list_all_iff ascending_dropWhile)

lemma skip_shrinks:
  assumes "r \<in> set rs" "r \<noteq> []" "fst (hd r) < x"
  shows "sum_list (map length (skip x rs)) < sum_list (map length rs)"
proof -
  have le: "sum_list (map length (skip x rs')) \<le> sum_list (map length rs')" for rs'
  proof (induction rs')
    case (Cons a rs')
    then show ?case using length_dropWhile_le [of "\<lambda>h. fst h < x" a] by (auto simp: skip_def)
  qed (simp add: skip_def)
  from assms(1) obtain us vs where rs: "rs = us @ r # vs" by (metis split_list)
  have "length (dropWhile (\<lambda>h. fst h < x) r) < length r"
    using assms(2,3) by (cases r) (auto intro: le_less_trans [OF length_dropWhile_le])
  moreover have "sum_list (map length (skip x rs)) =
      sum_list (map length (skip x us)) + length (dropWhile (\<lambda>h. fst h < x) r) + sum_list (map length (skip x vs))"
    by (auto simp: rs skip_def)
  ultimately show ?thesis using le [of us] le [of vs] by (simp add: rs)
qed

declare advance.simps [simp del]

lemma advance_drop:
  "j \<le> length l \<Longrightarrow> advance l cid j \<le> length l \<and> drop (advance l cid j) l = dropWhile (\<lambda>h. fst h < cid) (drop j l)"
proof (induction l cid j rule: advance.induct)
  case (1 l cid j)
  show ?case
  proof (cases "j < length l \<and> fst (l ! j) < cid")
    case True
    then have "drop j l = l ! j # drop (Suc j) l" by (simp add: Cons_nth_drop_Suc)
    with True 1 show ?thesis by (simp add: advance.simps [of l cid j])
  next
    case False
    then have "dropWhile (\<lambda>h. fst h < cid) (drop j l) = drop j l"
      using 1(2) by (cases "j < length l") (simp_all add: Cons_nth_drop_Suc [symmetric])
    with False 1(2) show ?thesis by (auto simp: advance.simps [of l cid j])
  qed
qed

lemma length_skipTo: "length (skipTo cs x) \<le> length cs"
  unfolding skipTo_def by (rule order_trans [OF length_filter_le]) simp

definition cursor_ok :: "cursor \<Rightarrow> bool" where
  "cursor_ok cu \<longleftrightarrow> snd cu < length (fst cu) \<and> ascending (rest_of cu)"

lemma skipTo_skip:
  assumes "list_all cursor_ok cs"
  shows "map rest_of (skipTo cs x) = skip x (map rest_of cs)" "list_all cursor_ok (skipTo cs x)"
proof -
  have adv: "advance (fst cu) x (snd cu) \<le> length (fst cu) \<and>
      drop (advance (fst cu) x (snd cu)) (fst cu) = dropWhile (\<lambda>h. fst h < x) (rest_of cu)" if "cursor_ok cu" for cu
    using that advance_drop [of "snd cu" "fst cu" x] by (simp add: cursor_ok_def rest_of_def)
  show "map rest_of (skipTo cs x) = skip x (map rest_of cs)" using assms
  proof (induction cs)
    case (Cons cu cs)
    obtain l j where cu: "cu = (l, j)" by (metis surj_pair)
    define d where "d = dropWhile (\<lambda>h. fst h < x) (rest_of cu)"
    have d: "advance l x j \<le> length l" "drop (advance l x j) l = d"
      using adv [of cu] Cons.prems by (simp_all add: cu d_def)
    then have "advance l x j = length l \<longleftrightarrow> d = []" by (metis drop_all drop_eq_Nil le_antisym order_refl)
    moreover have "skipTo (cu # cs) x = (if advance l x j = length l then skipTo cs x else (l, advance l x j) # skipTo cs x)"
      by (simp add: skipTo_def cu)
    ultimately show ?case using Cons d
      by (simp add: skip_Cons Let_def d_def [symmetric]) (simp add: rest_of_def)
  qed (simp add: skipTo_def skip_def)
  show "list_all cursor_ok (skipTo cs x)"
    using assms adv ascending_dropWhile
    by (fastforce simp: skipTo_def list_all_iff cursor_ok_def rest_of_def le_less)
qed

text \<open>After one pass, the identifiers up to the next target other than the smallest are mentioned by fewer
  than \<open>K\<close> lists.\<close>

lemma scan_pass:
  assumes rs: "list_all ascending rs" "list_all (\<lambda>r. r \<noteq> []) rs" and K: "0 < K" "K \<le> length rs"
    and small: "\<forall>r \<in> set rs. \<forall>h \<in> set r. fst h \<noteq> - 1"
    and scan: "foldl (scan_head K) ([], fst (hd (hd rs)), 0, False) (map hd rs) = (pq, mn, n, i)"
  defines "x \<equiv> (if mn = last pq then mn + 1 else last pq)"
  shows "pq \<noteq> []" and "mn < x" and "n = of_nat (mentions rs mn)" and "i \<longleftrightarrow> denied rs mn"
    and "\<And>c. c < x \<Longrightarrow> c \<noteq> mn \<Longrightarrow> mentions rs c \<noteq> K" and "\<exists>r \<in> set rs. fst (hd r) < x"
proof -
  let ?hs = "map hd rs" and ?cs = "map (\<lambda>r. fst (hd r)) rs"
  have pq: "pq = foldl (pq_step K) [] ?cs" and st: "foldl min_step (fst (hd (hd rs)), 0, False) ?hs = (mn, n, i)"
    using scan by (simp_all add: scan_split comp_def)
  have ne: "rs \<noteq> []" using K by auto
  note top = pq_top [of K ?cs, folded pq, simplified, OF K]
  note mins = min_steps [OF st]
  have r: "r \<noteq> []" "ascending r" if "r \<in> set rs" for r using rs that by (auto simp: list_all_iff)
  have mn_in: "mn \<in> set ?cs" using mins(3) ne by (force simp: image_iff)
  have mn_le: "mn \<le> fst (hd r)" if "r \<in> set rs" for r using mins(2) that by auto
  have at_mn: "(mn, b) \<in> set r \<longleftrightarrow> hd r = (mn, b)" if "r \<in> set rs" for r b
    using ascending_head [OF r(2) [OF that], of mn b] mn_le [OF that] r(1) [OF that] by (auto simp: hd_in_set) (metis hd_in_set)
  show "pq \<noteq> []" by (rule top(1))
  have max: "mn \<noteq> - 1" using mn_in small r(1) hd_in_set by fastforce
  have "mn \<le> last pq" using top(2) mn_le by auto
  moreover have "mn < mn + 1" using max inc_less_eq_triv_imp [of mn] by (auto simp: not_le [symmetric])
  ultimately show mx: "mn < x" unfolding x_def by auto
  have "mentions rs mn = length (filter (\<lambda>h. fst h = mn) ?hs)"
    unfolding mentions_def filter_map comp_def length_map
  proof (intro arg_cong [where f = length] filter_cong refl)
    fix r assume r_in: "r \<in> set rs"
    show "mn \<in> fst ` set r \<longleftrightarrow> fst (hd r) = mn"
    proof
      assume "mn \<in> fst ` set r"
      then obtain b where "(mn, b) \<in> set r" by auto
      then show "fst (hd r) = mn" using at_mn [OF r_in] by simp
    next
      assume "fst (hd r) = mn"
      then show "mn \<in> fst ` set r" using hd_in_set [OF r(1) [OF r_in]] by blast
    qed
  qed
  then show "n = of_nat (mentions rs mn)" using mins(4) by simp
  have "i \<longleftrightarrow> (\<exists>r \<in> set rs. hd r = (mn, False))" using mins(5) by force
  then show "i \<longleftrightarrow> denied rs mn" using at_mn by (simp add: denied_def)
  show "\<exists>r \<in> set rs. fst (hd r) < x" using mn_in mx by auto
  fix c assume c: "c < x" "c \<noteq> mn"
  have le: "mentions rs c \<le> length (filter (\<lambda>r. fst (hd r) \<le> c) rs)"
    unfolding mentions_def using ascending_head(1) r(2) by (intro length_filter_mono) auto
  show "mentions rs c \<noteq> K"
  proof (cases "mn = last pq")
    case True
    then have "\<not> mn < c" using c inc_le [of mn c] unfolding x_def by auto
    then have "c < mn" using c(2) by simp
    then have "filter (\<lambda>r. fst (hd r) \<le> c) rs = []" using mn_le by (auto simp: filter_empty_conv not_le dest: less_le_trans)
    then show ?thesis using le K by simp
  next
    case False
    then have "length (filter (\<lambda>r. fst (hd r) \<le> c) rs) \<le> length (filter (\<lambda>c. c < last pq) ?cs)"
      using c unfolding x_def filter_map comp_def length_map by (intro length_filter_mono) auto
    then show ?thesis using le top(3) by simp
  qed
qed

lemma heads_of:
  "list_all cursor_ok cs \<Longrightarrow> those (map (\<lambda>(l, j). rd l j) cs) = Some (map hd (map rest_of cs))"
  by (induction cs) (auto simp: cursor_ok_def rest_of_def rd_def hd_drop_conv_nth split_beta)

lemma cursor_rests:
  assumes "list_all cursor_ok cs"
  shows "list_all ascending (map rest_of cs)" "list_all (\<lambda>r. r \<noteq> []) (map rest_of cs)"
  using assms by (auto simp: list_all_iff cursor_ok_def rest_of_def)

lemma set_skip: "r \<in> set (skip x rs) \<Longrightarrow> h \<in> set r \<Longrightarrow> \<exists>r' \<in> set rs. h \<in> set r'"
  unfolding skip_def by (auto dest: set_dropWhileD)

text \<open>The loop ends, and gives in ascending order the identifiers that \<open>K\<close> lists mention and none denies.\<close>

lemma retrieve_loop_ok:
  assumes "list_all cursor_ok cs" "0 < K" "length cs < 2 ^ 32"
    and "\<forall>r \<in> set (map rest_of cs). \<forall>h \<in> set r. fst h \<noteq> - 1"
  shows "\<exists>out'. retrieve_loop K cs out = Some (out @ out') \<and> sorted_wrt (<) out' \<and>
    set out' = {c. mentions (map rest_of cs) c = unat K \<and> \<not> denied (map rest_of cs) c}"
  using assms
proof (induction "sum_list (map length (map rest_of cs))" arbitrary: cs out rule: less_induct)
  case less
  let ?rs = "map rest_of cs"
  have K: "0 < unat K" using less.prems(2) unfolding word_less_nat_alt by simp
  show ?case
  proof (cases "length cs < unat K")
    case True
    have "mentions ?rs c \<le> length cs" for c using mentions_le [of ?rs c] by simp
    then have "mentions ?rs c \<noteq> unat K" for c using True by (metis leD)
    then show ?thesis using True by (intro exI [of _ "[]"]) (simp add: retrieve_loop.simps)
  next
    case False
    then have ne: "cs \<noteq> []" using K by auto
    obtain pq mn n i where sc: "foldl (scan_head (unat K)) ([], fst (hd (hd ?rs)), 0, False) (map hd ?rs) = (pq, mn, n, i)"
      by (metis prod_cases4)
    define x where "x = (if mn = last pq then mn + 1 else last pq)"
    note rs = cursor_rests [OF less.prems(1)]
    note p = scan_pass [OF rs K _ less.prems(4) sc, folded x_def, simplified length_map, OF False [THEN leI]]
    let ?cs = "skipTo cs x"
    have sk: "map rest_of ?cs = skip x ?rs" "list_all cursor_ok ?cs" using skipTo_skip [OF less.prems(1)] by simp_all
    have len: "length ?cs < 2 ^ 32" using length_skipTo less.prems(3) by (rule le_less_trans)
    have dec: "sum_list (map length (map rest_of ?cs)) < sum_list (map length ?rs)"
    proof -
      from p(6) obtain r where r: "r \<in> set ?rs" "fst (hd r) < x" by blast
      then have "r \<noteq> []" using rs(2) unfolding list_all_iff by blast
      from skip_shrinks [OF r(1) this r(2)] show ?thesis unfolding sk(1) .
    qed
    define o1 where "o1 = (if n = K \<and> \<not> i then [mn] else [])"
    have "rd (map hd ?rs) 0 = Some (hd (hd ?rs))" using ne by (cases cs) (simp_all add: rd_def)
    then have step: "retrieve_loop K cs out = retrieve_loop K ?cs (out @ o1)"
      using False p(1) by (simp only: retrieve_loop.simps [of K cs] heads_of [OF less.prems(1)] bind.bind_lunit
        Let_def sc prod.case if_False x_def [symmetric]) (simp add: o1_def)
    have "\<forall>r \<in> set (map rest_of ?cs). \<forall>h \<in> set r. fst h \<noteq> - 1"
      unfolding sk(1) using set_skip less.prems(4) by blast
    from less.hyps [OF dec sk(2) less.prems(2) len this, of "out @ o1"] obtain o2 where
      o2: "retrieve_loop K ?cs (out @ o1) = Some ((out @ o1) @ o2)" "sorted_wrt (<) o2"
        "set o2 = {c. mentions (skip x ?rs) c = unat K \<and> \<not> denied (skip x ?rs) c}" unfolding sk(1) by blast
    have o2': "set o2 = {c. x \<le> c \<and> mentions ?rs c = unat K \<and> \<not> denied ?rs c}"
      using o2(3) mentions_skip [OF rs(1)] K by auto
    have "mentions ?rs mn < 2 ^ 32"
      using less.prems(3) mentions_le [of ?rs mn] by simp
    then have "unat n = mentions ?rs mn" using p(3) by (simp add: unat_of_nat)
    then have "n = K \<longleftrightarrow> mentions ?rs mn = unat K" by (metis unsigned_word_eqI)
    then have "set o1 = {c. c = mn \<and> mentions ?rs c = unat K \<and> \<not> denied ?rs c}" using p(4) by (auto simp: o1_def)
    with o2' have "set (o1 @ o2) = {c. mentions ?rs c = unat K \<and> \<not> denied ?rs c}"
      using p(2,5) by (auto simp: not_le)
    moreover have "sorted_wrt (<) (o1 @ o2)"
      using o2(2) o2' p(2) by (auto simp: o1_def)
    ultimately show ?thesis using step o2(1) by (intro exI [of _ "o1 @ o2"]) simp
  qed
qed

lemma AVMapper_room_mono: "n \<le> k \<Longrightarrow> AVMapper_room m k \<Longrightarrow> AVMapper_room m n"
  by (auto simp: AVMapper_room_def IDMapper_room_def list_all_iff)

section \<open>What the index stores\<close>

text \<open>The posting list of a pair among the conjunctions with \<open>K\<close> positive assignments, and the invariant of the maps.\<close>

definition post_of :: "ConjunctionInvIndex \<Rightarrow> u32 \<Rightarrow> string \<times> string \<Rightarrow> posting list" where
  "post_of ci K p = (case AVMapper_look (avMapper ci) p of None \<Rightarrow> [] | Some ids \<Rightarrow> entry (entry (index ci) K) ids)"

definition inner_ok :: "AVMapper \<Rightarrow> inner \<Rightarrow> bool" where
  "inner_ok m inn \<longleftrightarrow> distinct (map fst inn) \<and>
     list_all (\<lambda>(ids, ps). ps \<noteq> [] \<and> ids \<in> ran (AVMapper_look m)) inn"

definition index_ok :: "ConjunctionInvIndex \<Rightarrow> bool" where
  "index_ok ci \<longleftrightarrow> AVMapper_ok (avMapper ci) \<and> sorted_wrt (<) (map fst (index ci)) \<and>
     list_all (\<lambda>(K, inn). inn \<noteq> [] \<and> inner_ok (avMapper ci) inn) (index ci)"

lemma entry_simps [simp]: "entry [] k = []" "entry ((k', v) # m) k = (if k = k' then v else entry m k)"
  by (simp_all add: entry_def)

lemma entry_absent: "k \<notin> fst ` set m \<Longrightarrow> entry m k = []"
  by (simp add: entry_def map_of_eq_None_iff [THEN iffD2])

lemma entry_hmap_upd: "entry (hmap_upd k f m) k' = (if k' = k then f (entry m k) else entry m k')"
  by (simp add: entry_def hmap_upd_def update_conv')

lemma entry_smap_upd:
  "sorted_wrt (<) (map fst m) \<Longrightarrow> entry (smap_upd k f m) k' = (if k' = k then f (entry m k) else entry m k')"
proof (induction k f m rule: smap_upd.induct)
  case (2 k f k1 v m)
  have "k < k1 \<Longrightarrow> k \<notin> fst ` set m" using 2(2) by auto
  then show ?case using 2 by (auto simp: entry_absent)
qed simp

lemma smap_upd_keys: "set (map fst (smap_upd k f m)) = insert k (set (map fst m))"
  by (induction k f m rule: smap_upd.induct) auto

lemma smap_upd_sorted: "sorted_wrt (<) (map fst m) \<Longrightarrow> sorted_wrt (<) (map fst (smap_upd k f m))"
proof (induction k f m rule: smap_upd.induct)
  case (2 k f k1 v m)
  have "sorted_wrt (<) (map fst m)" "\<forall>c \<in> set (map fst m). k1 < c" using 2(2) by simp_all
  moreover from this have "k1 < k \<Longrightarrow> \<forall>c \<in> set (map fst (smap_upd k f m)). k1 < c" unfolding smap_upd_keys by simp
  ultimately show ?case using 2(1) by auto
qed simp

lemma smap_upd_values:
  assumes "(k', v) \<in> set (smap_upd k f m)" "sorted_wrt (<) (map fst m)"
  shows "(k', v) \<in> set m \<or> k' = k \<and> v = f (entry m k)"
  using assms
proof (induction k f m rule: smap_upd.induct)
  case (2 k f k1 w m)
  have "k < k1 \<Longrightarrow> k \<notin> fst ` set m" using 2(3) by auto
  then show ?case using 2 by (auto simp: entry_absent split: if_splits)
qed simp

lemma entry_mem: "entry m k \<noteq> [] \<Longrightarrow> (k, entry m k) \<in> set m"
  by (auto simp: entry_def dest: map_of_SomeD split: option.splits)

lemma inner_ok_entry:
  assumes "index_ok ci" shows "inner_ok (avMapper ci) (entry (index ci) K)"
proof (cases "entry (index ci) K = []")
  case True
  then show ?thesis by (simp add: inner_ok_def)
next
  case False
  from entry_mem [OF this] assms show ?thesis by (auto simp: index_ok_def list_all_iff)
qed

lemma inner_ok_alt:
  "inner_ok m inn \<longleftrightarrow> distinct (map fst inn) \<and>
     (\<forall>ids ps. (ids, ps) \<in> set inn \<longrightarrow> ps \<noteq> [] \<and> ids \<in> ran (AVMapper_look m))"
  by (auto simp: inner_ok_def list_all_iff)

lemma ran_extends: "pairs.extends m m' \<Longrightarrow> i \<in> ran (AVMapper_look m) \<Longrightarrow> i \<in> ran (AVMapper_look m')"
  unfolding ran_def using pairs.extends_look by blast

lemma inner_ok_mono: "pairs.extends m m' \<Longrightarrow> inner_ok m inn \<Longrightarrow> inner_ok m' inn"
  unfolding inner_ok_alt using ran_extends by blast

lemma inner_ok_upd:
  assumes "inner_ok m inn" "ids \<in> ran (AVMapper_look m)"
  shows "inner_ok m (hmap_upd ids (\<lambda>ps. ps @ [x]) inn)"
proof -
  have "set (AList.update ids v inn) \<subseteq> insert (ids, v) (set inn)" for v by (induction inn) auto
  from this [of "entry inn ids @ [x]"] show ?thesis
    using assms unfolding inner_ok_alt hmap_upd_def by (auto simp: distinct_update dest!: subsetD)
qed

lemma add_posting_ok:
  assumes "index_ok ci" "AVMapper_room (avMapper ci) (Suc n)"
  shows "\<exists>ci'. add_posting K cid b p ci = Some ci' \<and> index_ok ci' \<and> AVMapper_room (avMapper ci') n \<and>
    zeroConjunctionList ci' = zeroConjunctionList ci \<and>
    dom (AVMapper_look (avMapper ci')) = insert p (dom (AVMapper_look (avMapper ci))) \<and>
    (\<forall>K' q. post_of ci' K' q = post_of ci K' q @ (if K' = K \<and> q = p then [(cid, b)] else []))"
proof -
  have ok: "AVMapper_ok (avMapper ci)" using assms(1) by (simp add: index_ok_def)
  from pairs.ins_extends [OF ok assms(2), of p] obtain m ids where
    m: "AVMapper_ids (avMapper ci) p = Some (m, ids)" "AVMapper_ok m" "AVMapper_room m n"
      "pairs.extends (avMapper ci) m" "AVMapper_look m = (AVMapper_look (avMapper ci))(p \<mapsto> ids)" .
  define ci' where "ci' = ci\<lparr>avMapper := m, index := smap_upd K (hmap_upd ids (\<lambda>ps. ps @ [(cid, b)])) (index ci)\<rparr>"
  have srt: "sorted_wrt (<) (map fst (index ci))" using assms(1) by (simp add: index_ok_def)
  have ids: "ids \<in> ran (AVMapper_look m)" using m(5) ranI [of "AVMapper_look m" p ids] by simp
  have "inner_ok m (hmap_upd ids (\<lambda>ps. ps @ [(cid, b)]) (entry (index ci) K))"
    by (rule inner_ok_upd [OF inner_ok_mono [OF m(4) inner_ok_entry [OF assms(1)]] ids])
  moreover have "hmap_upd ids f inn \<noteq> []" for f and inn :: inner
    by (cases inn) (auto simp: hmap_upd_def)
  moreover have "index_ok ci'"
  proof -
    have "inn \<noteq> [] \<and> inner_ok m inn" if "(K', inn) \<in> set (index ci')" for K' inn
    proof -
      have "(K', inn) \<in> set (smap_upd K (hmap_upd ids (\<lambda>ps. ps @ [(cid, b)])) (index ci))"
        using that by (simp add: ci'_def)
      from smap_upd_values [OF this srt] show ?thesis
      proof
        assume "(K', inn) \<in> set (index ci)"
        then have "inn \<noteq> []" "inner_ok (avMapper ci) inn" using assms(1) by (auto simp: index_ok_def list_all_iff)
        then show ?thesis using inner_ok_mono [OF m(4)] by blast
      qed (simp add: calculation)
    qed
    then show ?thesis using smap_upd_sorted [OF srt] m(2) by (auto simp: index_ok_def ci'_def list_all_iff)
  qed
  moreover have "post_of ci' K' q = post_of ci K' q @ (if K' = K \<and> q = p then [(cid, b)] else [])" for K' q
  proof (cases "q = p")
    case True
    have "entry (entry (index ci) K') ids = post_of ci K' p"
    proof (cases "AVMapper_look (avMapper ci) p")
      case None
      have "ids \<notin> ran (AVMapper_look (avMapper ci))"
        by (rule pairs.fresh_id [OF m(2,4) _ None]) (simp add: m(5))
      then have "ids \<notin> fst ` set (entry (index ci) K')"
        using inner_ok_entry [OF assms(1), of K'] by (auto simp: inner_ok_def list_all_iff)
      then show ?thesis using None by (simp add: post_of_def entry_absent)
    next
      case (Some i)
      then have "i = ids" using pairs.extends_look [OF m(4) Some] m(5) by simp
      then show ?thesis using Some by (simp add: post_of_def)
    qed
    moreover have "post_of ci' K' p = entry (entry (index ci) K') ids @ (if K' = K then [(cid, b)] else [])"
      using srt m(5) by (simp add: post_of_def ci'_def entry_smap_upd entry_hmap_upd)
    ultimately show ?thesis using True by simp
  next
    case False
    have "i \<noteq> ids" if "AVMapper_look (avMapper ci) q = Some i" for i
    proof
      assume "i = ids"
      moreover have "AVMapper_look m p = Some ids" by (simp add: m(5))
      ultimately show False using pairs.look_inj [OF m(2) pairs.extends_look [OF m(4) that]] False by blast
    qed
    then show ?thesis using False srt m(5)
      by (auto simp: post_of_def ci'_def entry_smap_upd entry_hmap_upd split: option.splits)
  qed
  moreover have "add_posting K cid b p ci = Some ci'" using m(1) by (simp add: add_posting_def ci'_def)
  ultimately show ?thesis using m(3,5) by (intro exI [of _ ci']) (auto simp: ci'_def)
qed

text \<open>The pairs a conjunction mentions, with their sign, and what adding it stores.\<close>

definition av_pairs :: "Conjunction \<Rightarrow> ((string \<times> string) \<times> bool) list" where
  "av_pairs c = concat (map (\<lambda>a. map (\<lambda>v. ((attribute a, v), belongsTo a)) (vals a)) (assignments c))"

definition new_posts :: "u32 \<Rightarrow> ((string \<times> string) \<times> bool) list \<Rightarrow> string \<times> string \<Rightarrow> posting list" where
  "new_posts cid ps q = map (\<lambda>(_, b). (cid, b)) (filter (\<lambda>(p, b). p = q) ps)"

primrec add_pairs :: "u32 \<Rightarrow> u32 \<Rightarrow> ((string \<times> string) \<times> bool) list \<Rightarrow> ConjunctionInvIndex \<Rightarrow> ConjunctionInvIndex option" where
  "add_pairs K cid [] ci = Some ci"
| "add_pairs K cid (pb # ps) ci = do { ci1 \<leftarrow> add_posting K cid (snd pb) (fst pb) ci; add_pairs K cid ps ci1 }"

lemma add_pairs_append: "add_pairs K cid (ps @ qs) ci = add_pairs K cid ps ci \<bind> add_pairs K cid qs"
  by (induction ps arbitrary: ci) (auto simp: bind_eq_Some_conv split: Option.bind_splits)

lemma add_values_pairs:
  "add_values K cid a vs ci = add_pairs K cid (map (\<lambda>v. ((attribute a, v), belongsTo a)) vs) ci"
  by (induction vs arbitrary: ci) (auto intro!: Option.bind_cong)

lemma add_assignments_pairs: "add_assignments K cid as ci = add_pairs K cid (av_pairs \<lparr>assignments = as\<rparr>) ci"
  by (induction as arbitrary: ci) (auto simp: av_pairs_def add_pairs_append add_values_pairs intro!: Option.bind_cong)

lemma add_pairs_ok:
  assumes "index_ok ci" "AVMapper_room (avMapper ci) (length ps + n)"
  shows "\<exists>ci'. add_pairs K cid ps ci = Some ci' \<and> index_ok ci' \<and> AVMapper_room (avMapper ci') n \<and>
    zeroConjunctionList ci' = zeroConjunctionList ci \<and>
    dom (AVMapper_look (avMapper ci')) = dom (AVMapper_look (avMapper ci)) \<union> fst ` set ps \<and>
    (\<forall>K' q. post_of ci' K' q = post_of ci K' q @ (if K' = K then new_posts cid ps q else []))"
  using assms
proof (induction ps arbitrary: ci)
  case Nil
  then show ?case by (simp add: new_posts_def)
next
  case (Cons pb ps)
  obtain p b where pb: "pb = (p, b)" by (metis surj_pair)
  have "AVMapper_room (avMapper ci) (Suc (length ps + n))" using Cons.prems(2) by simp
  from add_posting_ok [OF Cons.prems(1) this, of K cid b p] obtain ci1 where
    1: "add_posting K cid b p ci = Some ci1" "index_ok ci1" "AVMapper_room (avMapper ci1) (length ps + n)"
      "zeroConjunctionList ci1 = zeroConjunctionList ci"
      "dom (AVMapper_look (avMapper ci1)) = insert p (dom (AVMapper_look (avMapper ci)))"
      "\<forall>K' q. post_of ci1 K' q = post_of ci K' q @ (if K' = K \<and> q = p then [(cid, b)] else [])" by blast
  from Cons.IH [OF 1(2,3)] obtain ci2 where
    2: "add_pairs K cid ps ci1 = Some ci2" "index_ok ci2" "AVMapper_room (avMapper ci2) n"
      "zeroConjunctionList ci2 = zeroConjunctionList ci1"
      "dom (AVMapper_look (avMapper ci2)) = dom (AVMapper_look (avMapper ci1)) \<union> fst ` set ps"
      "\<forall>K' q. post_of ci2 K' q = post_of ci1 K' q @ (if K' = K then new_posts cid ps q else [])" by blast
  have "post_of ci2 K' q = post_of ci K' q @ (if K' = K then new_posts cid (pb # ps) q else [])" for K' q
    using 1(6) [rule_format, of K' q] 2(6) [rule_format, of K' q] by (simp add: new_posts_def pb)
  with 1 2 show ?case by (auto simp: pb)
qed

lemma index_ok_zero: "index_ok (ci\<lparr>zeroConjunctionList := z\<rparr>) = index_ok ci"
  "post_of (ci\<lparr>zeroConjunctionList := z\<rparr>) = post_of ci"
proof -
  show "index_ok (ci\<lparr>zeroConjunctionList := z\<rparr>) = index_ok ci" by (simp add: index_ok_def)
  show "post_of (ci\<lparr>zeroConjunctionList := z\<rparr>) = post_of ci" by (intro ext) (simp add: post_of_def split: option.split)
qed

lemma addConjunction_ok:
  assumes "index_ok ci" "AVMapper_room (avMapper ci) (length (av_pairs c) + n)"
  shows "\<exists>ci'. addConjunction cid c ci = Some ci' \<and> index_ok ci' \<and> AVMapper_room (avMapper ci') n \<and>
    zeroConjunctionList ci' = zeroConjunctionList ci @ (if getK c = 0 then [(cid, True)] else []) \<and>
    dom (AVMapper_look (avMapper ci')) = dom (AVMapper_look (avMapper ci)) \<union> fst ` set (av_pairs c) \<and>
    (\<forall>K q. post_of ci' K q = post_of ci K q @ (if K = getK c then new_posts cid (av_pairs c) q else []))"
proof -
  let ?ci = "if getK c = 0 then ci\<lparr>zeroConjunctionList := zeroConjunctionList ci @ [(cid, True)]\<rparr> else ci"
  have c: "av_pairs \<lparr>assignments = assignments c\<rparr> = av_pairs c" by (simp add: av_pairs_def)
  have "index_ok ?ci" "AVMapper_room (avMapper ?ci) (length (av_pairs c) + n)"
    using assms by (simp_all add: index_ok_zero)
  from add_pairs_ok [OF this, of "getK c" cid] show ?thesis
    by (auto simp: addConjunction_def Let_def add_assignments_pairs c index_ok_zero)
qed

section \<open>The index of a list of conjunctions\<close>

text \<open>The conjunctions are numbered in the order they are added.\<close>

definition posts :: "Conjunction list \<Rightarrow> u32 \<Rightarrow> string \<times> string \<Rightarrow> posting list" where
  "posts cs K q = concat (map (\<lambda>i. if getK (cs ! i) = K then new_posts (of_nat i) (av_pairs (cs ! i)) q else []) [0..<length cs])"

definition zeros :: "Conjunction list \<Rightarrow> posting list" where
  "zeros cs = map (\<lambda>i. (of_nat i, True)) (filter (\<lambda>i. getK (cs ! i) = 0) [0..<length cs])"

definition indexes :: "ConjunctionInvIndex \<Rightarrow> Conjunction list \<Rightarrow> bool" where
  "indexes ci cs \<longleftrightarrow> index_ok ci \<and> post_of ci = posts cs \<and> zeroConjunctionList ci = zeros cs"

lemma posts_snoc:
  "posts (cs @ [c]) K q = posts cs K q @ (if getK c = K then new_posts (of_nat (length cs)) (av_pairs c) q else [])"
proof -
  have "map (\<lambda>i. if getK ((cs @ [c]) ! i) = K then new_posts (of_nat i) (av_pairs ((cs @ [c]) ! i)) q else []) [0..<length cs] =
      map (\<lambda>i. if getK (cs ! i) = K then new_posts (of_nat i) (av_pairs (cs ! i)) q else []) [0..<length cs]"
    by (intro map_cong refl) (simp add: nth_append)
  then show ?thesis by (simp add: posts_def del: map_eq_conv)
qed

lemma zeros_snoc: "zeros (cs @ [c]) = zeros cs @ (if getK c = 0 then [(of_nat (length cs), True)] else [])"
proof -
  have "filter (\<lambda>i. getK ((cs @ [c]) ! i) = 0) [0..<length cs] = filter (\<lambda>i. getK (cs ! i) = 0) [0..<length cs]"
    by (intro filter_cong refl) (simp add: nth_append)
  then show ?thesis by (simp add: zeros_def)
qed

lemma indexes_new: "indexes ConjunctionInvIndex_new []"
  by (auto simp: indexes_def index_ok_def ConjunctionInvIndex_new_def AVMapper_new_ok post_of_def posts_def zeros_def
      intro!: ext)

lemma indexes_add:
  assumes "indexes ci cs" "AVMapper_room (avMapper ci) (length (av_pairs c) + n)"
  shows "\<exists>ci'. addConjunction (of_nat (length cs)) c ci = Some ci' \<and> indexes ci' (cs @ [c]) \<and> AVMapper_room (avMapper ci') n"
proof -
  from assms(1) have ci: "index_ok ci" "post_of ci = posts cs" "zeroConjunctionList ci = zeros cs" by (simp_all add: indexes_def)
  from addConjunction_ok [OF ci(1) assms(2), of "of_nat (length cs)"] obtain ci' where
    c: "addConjunction (of_nat (length cs)) c ci = Some ci'" "index_ok ci'" "AVMapper_room (avMapper ci') n"
      "zeroConjunctionList ci' = zeros cs @ (if getK c = 0 then [(of_nat (length cs), True)] else [])"
      "\<forall>K q. post_of ci' K q = posts cs K q @ (if K = getK c then new_posts (of_nat (length cs)) (av_pairs c) q else [])"
    unfolding ci by blast
  have "post_of ci' = posts (cs @ [c])" unfolding posts_snoc fun_eq_iff using c(5) by (auto simp del: split_paired_All)
  with c show ?thesis by (auto simp: indexes_def zeros_snoc)
qed

text \<open>The lists a query walks.\<close>

abbreviation lists_of :: "ConjunctionInvIndex \<Rightarrow> u32 \<Rightarrow> (string \<times> string) list \<Rightarrow> posting list list" where
  "lists_of ci K asg \<equiv> filter (\<lambda>l. l \<noteq> []) (map (post_of ci K) asg)"

lemma list_for_pair:
  assumes "index_ok ci" "AVMapper_ok m" "pairs.extends (avMapper ci) m" "AVMapper_look m p = Some ids"
  shows "map_of (entry (index ci) K) ids = (if post_of ci K p = [] then None else Some (post_of ci K p))"
proof -
  let ?inn = "entry (index ci) K"
  have inn: "inner_ok (avMapper ci) ?inn" by (rule inner_ok_entry [OF assms(1)])
  show ?thesis
  proof (cases "AVMapper_look (avMapper ci) p")
    case None
    have "ids \<notin> ran (AVMapper_look (avMapper ci))" by (rule pairs.fresh_id [OF assms(2-4) None])
    then have "map_of ?inn ids = None" using inn by (auto simp: inner_ok_alt map_of_eq_None_iff)
    then show ?thesis using None by (simp add: post_of_def)
  next
    case (Some i)
    then have "i = ids" using pairs.extends_look [OF assms(3) Some] assms(4) by simp
    then have p: "post_of ci K p = entry ?inn ids" using Some by (simp add: post_of_def)
    show ?thesis
    proof (cases "map_of ?inn ids")
      case (Some l)
      then have "l \<noteq> []" using inn map_of_SomeD [OF Some] unfolding inner_ok_alt by blast
      then show ?thesis using Some p by (simp add: entry_def [of ?inn])
    qed (simp add: p entry_def [of ?inn])
  qed
qed

lemma initPostingLists_known:
  assumes "index_ok ci" "AVMapper_ok m" "pairs.extends (avMapper ci) m" "set asg \<subseteq> dom (AVMapper_look m)"
  shows "initPostingLists m asg (entry (index ci) K) = Some (m, map (\<lambda>l. (l, 0)) (lists_of ci K asg))"
  using assms(4)
proof (induction asg)
  case (Cons p asg)
  then obtain ids where ids: "AVMapper_look m p = Some ids" by auto
  from Cons pairs.ins_known [OF assms(2) ids] list_for_pair [OF assms(1-3) ids, of K] show ?case by simp
qed simp

lemma initPostingLists_ok:
  assumes "index_ok ci" "AVMapper_ok m" "pairs.extends (avMapper ci) m" "AVMapper_room m (length asg + n)"
  shows "\<exists>m'. initPostingLists m asg (entry (index ci) K) = Some (m', map (\<lambda>l. (l, 0)) (lists_of ci K asg)) \<and>
    AVMapper_ok m' \<and> pairs.extends m m' \<and> AVMapper_room m' n \<and> set asg \<subseteq> dom (AVMapper_look m')"
  using assms(2-4)
proof (induction asg arbitrary: m)
  case Nil
  then show ?case by (simp add: pairs.extends_refl)
next
  case (Cons p asg)
  have "AVMapper_room m (Suc (length asg + n))" using Cons.prems(3) by simp
  from pairs.ins_extends [OF Cons.prems(1) this, of p] obtain m1 ids where
    1: "AVMapper_ids m p = Some (m1, ids)" "AVMapper_ok m1" "AVMapper_room m1 (length asg + n)" "pairs.extends m m1"
      "AVMapper_look m1 = (AVMapper_look m)(p \<mapsto> ids)" .
  have ex: "pairs.extends (avMapper ci) m1" by (rule pairs.extends_trans [OF Cons.prems(2) 1(4)])
  from Cons.IH [OF 1(2) ex 1(3)] obtain m2 where
    2: "initPostingLists m1 asg (entry (index ci) K) = Some (m2, map (\<lambda>l. (l, 0)) (lists_of ci K asg))"
      "AVMapper_ok m2" "pairs.extends m1 m2" "AVMapper_room m2 n" "set asg \<subseteq> dom (AVMapper_look m2)" by blast
  have l: "AVMapper_look m1 p = Some ids" by (simp add: 1(5))
  have "AVMapper_look m2 p = Some ids" by (rule pairs.extends_look [OF 2(3) l])
  then show ?case using 1(1) 2 pairs.extends_trans [OF 1(4) 2(3)] list_for_pair [OF assms(1) 1(2) ex l, of K]
    by (auto simp: domI)
qed

text \<open>A query numbers its pairs on the first pass and finds them numbered on the later ones.\<close>

definition prepared :: "AVMapper \<Rightarrow> (string \<times> string) list \<Rightarrow> nat \<Rightarrow> bool" where
  "prepared m asg n \<longleftrightarrow> AVMapper_room m (length asg + n) \<or> set asg \<subseteq> dom (AVMapper_look m) \<and> AVMapper_room m n"

lemma initPostingLists_prepared:
  assumes "index_ok ci" "AVMapper_ok m" "pairs.extends (avMapper ci) m" "prepared m asg n"
  shows "\<exists>m'. initPostingLists m asg (entry (index ci) K) = Some (m', map (\<lambda>l. (l, 0)) (lists_of ci K asg)) \<and>
    AVMapper_ok m' \<and> pairs.extends (avMapper ci) m' \<and> prepared m' asg n \<and> AVMapper_room m' n"
proof -
  from assms(4) consider "AVMapper_room m (length asg + n)" | "set asg \<subseteq> dom (AVMapper_look m)" "AVMapper_room m n"
    unfolding prepared_def by blast
  then show ?thesis
  proof cases
    case 1
    from initPostingLists_ok [OF assms(1-3) this, of K] show ?thesis
      unfolding prepared_def using pairs.extends_trans [OF assms(3)] by blast
  next
    case 2
    with initPostingLists_known [OF assms(1-3), of asg K] assms(2,3) show ?thesis
      unfolding prepared_def by blast
  qed
qed

section \<open>Counting matches\<close>

text \<open>A conjunction is satisfied exactly when as many pairs of the query occur in it as it has positive assignments,
  none of them in a negative one.\<close>

lemma set_av_pairs:
  "(p, b) \<in> set (av_pairs c) \<longleftrightarrow> (\<exists>a \<in> set (assignments c). belongsTo a = b \<and> fst p = attribute a \<and> snd p \<in> set (vals a))"
  by (cases p) (auto simp: av_pairs_def)

lemma fst_av_pairs:
  "p \<in> fst ` set (av_pairs c) \<longleftrightarrow> (\<exists>a \<in> set (assignments c). fst p = attribute a \<and> snd p \<in> set (vals a))"
  unfolding in_keys set_av_pairs by auto

lemma getK_eq: "getK c = of_nat (length (filter belongsTo (assignments c)))"
proof -
  have "foldl (\<lambda>ret a. if belongsTo a then ret + 1 else ret) n as = n + of_nat (length (filter belongsTo as))"
    for n :: u32 and as :: "Assignment list" by (induction as arbitrary: n) simp_all
  then show ?thesis by (simp add: getK_def)
qed

lemma unat_getK:
  assumes "wf_conj c" shows "unat (getK c) = length (filter belongsTo (assignments c))"
proof -
  have "length (filter belongsTo (assignments c)) < 2 ^ 32"
    using assms length_filter_le [of belongsTo "assignments c"] unfolding wf_conj_def by linarith
  then show ?thesis by (simp add: getK_eq unat_of_nat)
qed

definition matched :: "(string \<times> string) list \<Rightarrow> Conjunction \<Rightarrow> (string \<times> string) list" where
  "matched asg c = filter (\<lambda>p. p \<in> fst ` set (av_pairs c)) asg"

lemma satisfies_iff:
  assumes "wf_conj c" "distinct (map fst asg)"
  shows "satisfies asg c \<longleftrightarrow>
    length (matched asg c) = unat (getK c) \<and> (\<forall>p \<in> set asg. (p, False) \<notin> set (av_pairs c))"
proof -
  define hit where "hit = (\<lambda>a :: Assignment. list_ex (\<lambda>v. (attribute a, v) \<in> set asg) (vals a))"
  let ?as = "assignments c"
  have hit: "hit a \<longleftrightarrow> (\<exists>p \<in> set asg. fst p = attribute a \<and> snd p \<in> set (vals a))" for a
    by (force simp: hit_def list_ex_iff)
  have "distinct (map fst (matched asg c))"
    unfolding matched_def using assms(2) by (simp add: distinct_map_filter)
  moreover have "distinct (map attribute (filter hit ?as))"
    using assms(1) by (simp add: wf_conj_def distinct_map_filter)
  moreover have "fst ` set (matched asg c) = attribute ` set (filter hit ?as)"
    unfolding matched_def by (force simp: fst_av_pairs hit)
  ultimately have len: "length (matched asg c) = length (filter hit ?as)" by (rule length_eq_keys)
  have neg: "(\<forall>p \<in> set asg. (p, False) \<notin> set (av_pairs c)) \<longleftrightarrow> (\<forall>a \<in> set ?as. hit a \<longrightarrow> belongsTo a)"
    by (auto simp: set_av_pairs hit simp del: split_paired_All split_paired_Ex)
  have "length (filter hit ?as) = length (filter belongsTo ?as) \<longleftrightarrow> (\<forall>a \<in> set ?as. hit a = belongsTo a)"
    if "\<forall>a \<in> set ?as. hit a \<longrightarrow> belongsTo a" using that by (intro length_filter_eq) auto
  moreover have "satisfies asg c \<longleftrightarrow> (\<forall>a \<in> set ?as. belongsTo a = hit a)"
    by (simp add: satisfies_def hit_def list_all_iff)
  ultimately show ?thesis unfolding len neg unat_getK [OF assms(1)] by auto
qed

lemma set_new_posts: "(x, b) \<in> set (new_posts cid ps q) \<longleftrightarrow> x = cid \<and> (q, b) \<in> set ps"
  by (force simp: new_posts_def)

lemma set_posts:
  "(x, b) \<in> set (posts cs K q) \<longleftrightarrow> (\<exists>i < length cs. x = of_nat i \<and> getK (cs ! i) = K \<and> (q, b) \<in> set (av_pairs (cs ! i)))"
  by (auto simp: posts_def set_new_posts split: if_splits)

lemma av_pairs_distinct:
  assumes "wf_conj c" shows "distinct (map fst (av_pairs c))"
proof -
  have "distinct (map attribute as) \<Longrightarrow> list_all (\<lambda>a. vals a \<noteq> [] \<and> distinct (vals a)) as \<Longrightarrow>
      distinct (map fst (av_pairs \<lparr>assignments = as\<rparr>))" for as
  proof (induction as)
    case (Cons a as)
    have "map fst (av_pairs \<lparr>assignments = a # as\<rparr>) = map (Pair (attribute a)) (vals a) @ map fst (av_pairs \<lparr>assignments = as\<rparr>)"
      by (simp add: av_pairs_def)
    moreover have "(attribute a, v) \<notin> set (map fst (av_pairs \<lparr>assignments = as\<rparr>))" for v
      using Cons.prems(1) by (auto simp: fst_av_pairs simp del: ex_simps)
    moreover have "distinct (map (Pair (attribute a)) (vals a))" using Cons.prems(2) by (simp add: distinct_map inj_on_def)
    ultimately show ?case using Cons by auto
  qed (simp add: av_pairs_def)
  from this [of "assignments c"] assms show ?thesis by (simp add: wf_conj_def av_pairs_def)
qed

lemma new_posts_short: "distinct (map fst ps) \<Longrightarrow> length (new_posts cid ps q) \<le> 1"
proof (induction ps)
  case (Cons p ps)
  have "new_posts cid ps q = []" if "fst p = q" using Cons.prems that
    by (auto simp: new_posts_def filter_empty_conv image_iff)
  then show ?case using Cons by (auto simp: new_posts_def split_beta)
qed (simp add: new_posts_def)

lemma ascending_posts:
  assumes "list_all wf_conj cs" "length cs \<le> 2 ^ 32"
  shows "ascending (posts cs K q)"
  using assms
proof (induction cs rule: rev_induct)
  case Nil
  then show ?case by (simp add: posts_def ascending_def)
next
  case (snoc c cs)
  have "length (new_posts (of_nat (length cs)) (av_pairs c) q) \<le> 1"
    using snoc.prems(1) by (intro new_posts_short av_pairs_distinct) simp
  then have "ascending (new_posts (of_nat (length cs)) (av_pairs c) q)"
    by (cases "new_posts (of_nat (length cs)) (av_pairs c) q") (auto simp: ascending_def)
  moreover have "(of_nat i :: u32) < of_nat (length cs)" if "i < length cs" for i
    using that snoc.prems(2) by (simp add: word_less_nat_alt unat_of_nat)
  ultimately show ?case using snoc
    by (auto simp: posts_snoc ascending_def sorted_wrt_append set_posts set_new_posts)
qed

section \<open>Retrieval is exact\<close>

definition hits :: "Conjunction list \<Rightarrow> (string \<times> string) list \<Rightarrow> u32 set \<Rightarrow> u32 set" where
  "hits cs asg Ks = {of_nat i | i. i < length cs \<and> getK (cs ! i) \<in> Ks \<and> satisfies asg (cs ! i)}"

definition query_ok :: "Conjunction list \<Rightarrow> (string \<times> string) list \<Rightarrow> bool" where
  "query_ok cs asg \<longleftrightarrow> list_all wf_conj cs \<and> length cs < 2 ^ 32 \<and> distinct (map fst asg) \<and> length asg + 1 < 2 ^ 32"

lemma of_nat_u32_inj: "i < 2 ^ 32 \<Longrightarrow> j < 2 ^ 32 \<Longrightarrow> (of_nat i :: u32) = of_nat j \<longleftrightarrow> i = j"
  by (auto dest!: arg_cong [where f = unat] simp: unat_of_nat)

lemma mentions_append: "mentions (rs @ rs') x = mentions rs x + mentions rs' x"
  by (simp add: mentions_def)

lemma mentions_lists:
  assumes "query_ok cs asg" "i < length cs"
  shows "mentions (filter (\<lambda>l. l \<noteq> []) (map (posts cs K) asg)) (of_nat i) =
      (if getK (cs ! i) = K then length (matched asg (cs ! i)) else 0)"
    and "denied (filter (\<lambda>l. l \<noteq> []) (map (posts cs K) asg)) (of_nat i) \<longleftrightarrow>
      getK (cs ! i) = K \<and> (\<exists>p \<in> set asg. (p, False) \<in> set (av_pairs (cs ! i)))"
proof -
  have small: "length cs < 2 ^ 32" using assms(1) by (simp add: query_ok_def)
  have mem: "(of_nat i, b) \<in> set (posts cs K p) \<longleftrightarrow> getK (cs ! i) = K \<and> (p, b) \<in> set (av_pairs (cs ! i))" for p b
    using small assms(2) unfolding set_posts by (auto simp: of_nat_u32_inj)
  have "of_nat i \<in> fst ` set (posts cs K p) \<longleftrightarrow> getK (cs ! i) = K \<and> p \<in> fst ` set (av_pairs (cs ! i))" for p
    unfolding in_keys mem by simp
  then have "filter (\<lambda>p. of_nat i \<in> fst ` set (posts cs K p)) asg = (if getK (cs ! i) = K then matched asg (cs ! i) else [])"
    by (auto simp: matched_def)
  moreover have "mentions (filter (\<lambda>l. l \<noteq> []) (map (posts cs K) asg)) x =
      length (filter (\<lambda>p. x \<in> fst ` set (posts cs K p)) asg)" for x
    by (induction asg) (auto simp: mentions_def)
  ultimately show "mentions (filter (\<lambda>l. l \<noteq> []) (map (posts cs K) asg)) (of_nat i) =
      (if getK (cs ! i) = K then length (matched asg (cs ! i)) else 0)" by simp
  have "denied (filter (\<lambda>l. l \<noteq> []) (map (posts cs K) asg)) (of_nat i) \<longleftrightarrow> (\<exists>p \<in> set asg. (of_nat i, False) \<in> set (posts cs K p))"
    unfolding denied_def by (auto simp del: split_paired_Ex) (metis empty_iff list.set(1))
  then show "denied (filter (\<lambda>l. l \<noteq> []) (map (posts cs K) asg)) (of_nat i) \<longleftrightarrow>
      getK (cs ! i) = K \<and> (\<exists>p \<in> set asg. (p, False) \<in> set (av_pairs (cs ! i)))" by (simp add: mem)
qed

lemma set_zeros: "(x, b) \<in> set (zeros cs) \<longleftrightarrow> b \<and> (\<exists>i < length cs. x = of_nat i \<and> getK (cs ! i) = 0)"
  by (auto simp: zeros_def)

lemma ascending_zeros: "length cs \<le> 2 ^ 32 \<Longrightarrow> ascending (zeros cs)"
proof (induction cs rule: rev_induct)
  case (snoc c cs)
  have "(of_nat i :: u32) < of_nat (length cs)" if "i < length cs" for i
    using that snoc.prems by (simp add: word_less_nat_alt unat_of_nat)
  with snoc show ?case by (auto simp: zeros_snoc ascending_def sorted_wrt_append set_zeros)
qed (simp add: zeros_def ascending_def)

definition walked :: "Conjunction list \<Rightarrow> u32 \<Rightarrow> (string \<times> string) list \<Rightarrow> posting list list" where
  "walked cs K asg = (if K = 0 then [zeros cs] else []) @ filter (\<lambda>l. l \<noteq> []) (map (posts cs K) asg)"

lemma length_walked: "length (walked cs K asg) \<le> length asg + 1"
proof -
  have "length (filter (\<lambda>l. l \<noteq> []) (map (posts cs K) asg)) \<le> length asg"
    by (rule order_trans [OF length_filter_le]) simp
  then show ?thesis unfolding walked_def by (cases "K = 0") (simp_all add: le_SucI del: filter_map)
qed

lemma walked_ids:
  assumes "l \<in> set (walked cs K asg)" "(x, b) \<in> set l"
  shows "\<exists>i < length cs. x = of_nat i"
  using assms by (auto simp: walked_def set_zeros set_posts split: if_splits)

lemma walked_hits:
  assumes "query_ok cs asg"
  shows "{x. mentions (walked cs K asg) x = unat (if K = 0 then 1 else K) \<and> \<not> denied (walked cs K asg) x} = hits cs asg {K}"
proof (rule set_eqI)
  fix x
  have small: "length cs < 2 ^ 32" using assms by (simp add: query_ok_def)
  show "x \<in> {x. mentions (walked cs K asg) x = unat (if K = 0 then 1 else K) \<and> \<not> denied (walked cs K asg) x} \<longleftrightarrow> x \<in> hits cs asg {K}"
  proof (cases "\<exists>i < length cs. x = of_nat i")
    case True
    then obtain i where i: "i < length cs" "x = of_nat i" by blast
    have z: "x \<in> fst ` set (zeros cs) \<longleftrightarrow> getK (cs ! i) = 0"
      using i small unfolding in_keys set_zeros by (auto simp: of_nat_u32_inj)
    have m: "mentions (walked cs K asg) x =
        (if K = 0 \<and> getK (cs ! i) = 0 then 1 else 0) + (if getK (cs ! i) = K then length (matched asg (cs ! i)) else 0)"
      using mentions_lists(1) [OF assms i(1), of K] z i(2) by (simp add: walked_def mentions_append) (simp add: mentions_def)
    have d: "denied (walked cs K asg) x \<longleftrightarrow> getK (cs ! i) = K \<and> (\<exists>p \<in> set asg. (p, False) \<in> set (av_pairs (cs ! i)))"
      using mentions_lists(2) [OF assms i(1), of K] i(2) by (auto simp: walked_def denied_def set_zeros)
    have s: "satisfies asg (cs ! i) \<longleftrightarrow> length (matched asg (cs ! i)) = unat (getK (cs ! i)) \<and>
        (\<forall>p \<in> set asg. (p, False) \<notin> set (av_pairs (cs ! i)))"
      using assms i(1) by (intro satisfies_iff) (simp_all add: query_ok_def list_all_length)
    have "x \<in> hits cs asg {K} \<longleftrightarrow> getK (cs ! i) = K \<and> satisfies asg (cs ! i)"
      using i small by (auto simp: hits_def of_nat_u32_inj)
    moreover have "0 < unat K" if "K \<noteq> 0" using that by (simp add: unat_gt_0)
    ultimately show ?thesis unfolding mem_Collect_eq m d s by auto
  next
    case False
    then have "mentions (walked cs K asg) x = 0"
      using walked_ids [of _ cs K asg x] by (fastforce simp: mentions_def filter_empty_conv)
    moreover have "0 < unat (if K = 0 then 1 else K)" by (simp add: unat_gt_0)
    moreover have "x \<notin> hits cs asg {K}" using False by (auto simp: hits_def)
    ultimately show ?thesis by simp
  qed
qed

lemma retrieve_pass:
  assumes "query_ok cs asg" "K = 0 \<Longrightarrow> zeros cs \<noteq> []"
  shows "\<exists>out'. retrieve_loop (if K = 0 then 1 else K) (map (\<lambda>l. (l, 0)) (walked cs K asg)) out = Some (out @ out') \<and>
    sorted_wrt (<) out' \<and> set out' = hits cs asg {K}"
proof -
  let ?cus = "map (\<lambda>l. (l, 0 :: nat)) (walked cs K asg)"
  have small: "length cs < 2 ^ 32" "length asg + 1 < 2 ^ 32" "list_all wf_conj cs" using assms(1) by (simp_all add: query_ok_def)
  have rest: "map rest_of ?cus = walked cs K asg" by (simp add: comp_def rest_of_def)
  have "list_all cursor_ok ?cus"
    using assms(2) ascending_zeros [of cs] ascending_posts [OF small(3)] small(1)
    by (auto simp: list_all_iff cursor_ok_def rest_of_def walked_def)
  moreover have "length ?cus < 2 ^ 32"
    using small(2) length_walked [of cs K asg] by simp
  moreover have "\<forall>r \<in> set (map rest_of ?cus). \<forall>h \<in> set r. fst h \<noteq> - 1"
  proof (intro ballI)
    fix r h assume "r \<in> set (map rest_of ?cus)" "h \<in> set r"
    then obtain i where "i < length cs" "fst h = of_nat i" using walked_ids [of r cs K asg "fst h" "snd h"] unfolding rest by auto
    then have "unat (fst h) < 2 ^ 32 - 1" using small(1) by (simp add: unat_of_nat)
    moreover have "unat (0xFFFFFFFF :: u32) = 2 ^ 32 - 1" "(0xFFFFFFFF :: u32) = - 1" by simp_all
    ultimately show "fst h \<noteq> - 1" by auto
  qed
  moreover have "0 < (if K = 0 then 1 else K)" by (simp add: word_gt_0)
  ultimately show ?thesis
    using retrieve_loop_ok [of ?cus "if K = 0 then 1 else K" out] unfolding rest walked_hits [OF assms(1)] by blast
qed

lemma hits_Un: "hits cs asg (Ks \<union> Ls) = hits cs asg Ks \<union> hits cs asg Ls"
  by (auto simp: hits_def)

lemma hits_few:
  assumes "query_ok cs asg" "\<forall>K \<in> Ks. length asg < unat K"
  shows "hits cs asg Ks = {}"
proof -
  have "\<not> satisfies asg (cs ! i)" if "i < length cs" "getK (cs ! i) \<in> Ks" for i
  proof -
    have "length (matched asg (cs ! i)) \<le> length asg" by (simp add: matched_def)
    moreover have "wf_conj (cs ! i)" "distinct (map fst asg)" using assms(1) that(1) by (simp_all add: query_ok_def list_all_length)
    ultimately show ?thesis using satisfies_iff [of "cs ! i" asg] assms(2) that(2) by auto
  qed
  then show ?thesis by (auto simp: hits_def)
qed

lemma disjoint_hits:
  assumes "query_ok cs asg" "Ks \<inter> Ls = {}" shows "hits cs asg Ks \<inter> hits cs asg Ls = {}"
proof -
  have "length cs < 2 ^ 32" using assms(1) by (simp add: query_ok_def)
  then show ?thesis using assms(2) by (auto simp: hits_def of_nat_u32_inj)
qed

lemma retrieve_index_ok:
  assumes ci: "indexes ci cs" and q: "query_ok cs asg"
    and es: "\<forall>(K, inn) \<in> set es. inn = entry (index ci) K \<and> (K = 0 \<longrightarrow> zeros cs \<noteq> [])" "sorted_wrt (<) (map fst es)"
    and m: "AVMapper_ok m" "pairs.extends (avMapper ci) m" "prepared m asg n"
  shows "\<exists>m' out'. retrieve_index (zeros cs) asg es m out = Some (m', out @ out') \<and> distinct out' \<and>
    set out' = hits cs asg (fst ` set es) \<and> AVMapper_ok m' \<and> pairs.extends (avMapper ci) m' \<and> prepared m' asg n"
  using es m
proof (induction es arbitrary: m out)
  case Nil
  then show ?case by (auto simp: hits_def)
next
  case (Cons e es)
  obtain K inn where e: "e = (K, inn)" by (metis surj_pair)
  have inn: "inn = entry (index ci) K" "K = 0 \<Longrightarrow> zeros cs \<noteq> []" using Cons.prems(1) by (auto simp: e)
  have ok: "index_ok ci" "post_of ci = posts cs" using ci by (simp_all add: indexes_def)
  show ?case
  proof (cases "unat K \<le> length asg")
    case False
    have "hits cs asg (fst ` set (e # es)) = {}"
      using Cons.prems(2) False by (intro hits_few [OF q]) (auto simp: e word_less_nat_alt)
    then show ?thesis using False Cons.prems by (simp add: e)
  next
    case True
    from initPostingLists_prepared [OF ok(1) Cons.prems(3-5), of K] obtain m1 where
      1: "initPostingLists m asg inn = Some (m1, map (\<lambda>l. (l, 0)) (lists_of ci K asg))" "AVMapper_ok m1"
        "pairs.extends (avMapper ci) m1" "prepared m1 asg n" unfolding inn(1) by blast
    from retrieve_pass [of cs asg K out, OF q inn(2)] obtain o1 where
      o1: "retrieve_loop (if K = 0 then 1 else K) (map (\<lambda>l. (l, 0)) (walked cs K asg)) out = Some (out @ o1)"
        "sorted_wrt (<) o1" "set o1 = hits cs asg {K}" by blast
    have "map (\<lambda>l. (l, 0)) (walked cs K asg) =
        (if K = 0 then (zeros cs, 0) # map (\<lambda>l. (l, 0)) (lists_of ci K asg) else map (\<lambda>l. (l, 0)) (lists_of ci K asg))"
      by (simp add: walked_def ok(2))
    note o1 = o1(1) [unfolded this] o1(2,3)
    have "\<forall>(K, inn) \<in> set es. inn = entry (index ci) K \<and> (K = 0 \<longrightarrow> zeros cs \<noteq> [])" "sorted_wrt (<) (map fst es)"
      using Cons.prems(1,2) by auto
    from Cons.IH [OF this 1(2-4), of "out @ o1"] obtain m2 o2 where
      2: "retrieve_index (zeros cs) asg es m1 (out @ o1) = Some (m2, (out @ o1) @ o2)" "distinct o2"
        "set o2 = hits cs asg (fst ` set es)" "AVMapper_ok m2" "pairs.extends (avMapper ci) m2" "prepared m2 asg n" by blast
    have "{K} \<inter> fst ` set es = {}" using Cons.prems(2) by (auto simp: e)
    then have "distinct (o1 @ o2)"
      using 2(2,3) o1(2,3) disjoint_hits [OF q] by (simp add: strict_sorted_iff)
    moreover have "set (o1 @ o2) = hits cs asg (fst ` set (e # es))"
      using 2(3) o1(3) hits_Un [of cs asg "{K}" "fst ` set es"] by (simp add: e)
    moreover have "retrieve_index (zeros cs) asg (e # es) m out = Some (m2, out @ o1 @ o2)"
      unfolding retrieve_index.simps e fst_conv snd_conv 1(1) using True 2(1)
      by (simp only: if_True bind.bind_lunit prod.case o1(1) append_assoc)
    ultimately show ?thesis using 2(4-6) by blast
  qed
qed

text \<open>The keys of the outer map: every conjunction with a pair has one, and the one for \<open>0\<close> comes with a zero conjunction.\<close>

lemma index_key:
  assumes "indexes ci cs" "i < length cs" "wf_conj (cs ! i)"
  shows "getK (cs ! i) \<in> fst ` set (index ci)"
proof (rule ccontr)
  assume no: "getK (cs ! i) \<notin> fst ` set (index ci)"
  obtain a v where "a \<in> set (assignments (cs ! i))" "v \<in> set (vals a)"
    using assms(3) by (fastforce simp: wf_conj_def list_all_iff neq_Nil_conv)
  then have "((attribute a, v), belongsTo a) \<in> set (av_pairs (cs ! i))" by (auto simp: set_av_pairs)
  then have "posts cs (getK (cs ! i)) (attribute a, v) \<noteq> []"
    using assms(2) set_posts [of "of_nat i" "belongsTo a" cs "getK (cs ! i)" "(attribute a, v)"] by force
  moreover have "post_of ci (getK (cs ! i)) p = []" for p
    using entry_absent [OF no] by (simp add: post_of_def split: option.split)
  ultimately show False using assms(1) by (simp add: indexes_def)
qed

lemma zero_key:
  assumes "indexes ci cs" "(0, inn) \<in> set (index ci)"
  shows "zeros cs \<noteq> []"
proof -
  have ci: "index_ok ci" "post_of ci = posts cs" using assms(1) by (simp_all add: indexes_def)
  then have inn: "inn \<noteq> []" "inner_ok (avMapper ci) inn" using assms(2) by (auto simp: index_ok_def list_all_iff)
  then obtain ids ps where ps: "(ids, ps) \<in> set inn" by (metis hd_in_set surj_pair)
  with inn have "ps \<noteq> []" "ids \<in> ran (AVMapper_look (avMapper ci))" unfolding inner_ok_alt by blast+
  then obtain p where p: "AVMapper_look (avMapper ci) p = Some ids" by (auto simp: ran_def simp del: split_paired_Ex)
  have "distinct (map fst (index ci))" using ci(1) by (simp add: index_ok_def strict_sorted_iff)
  then have "entry (index ci) 0 = inn" using assms(2) by (simp add: entry_def)
  moreover have "entry inn ids = ps" using inn(2) ps by (simp add: entry_def inner_ok_def)
  ultimately have "posts cs 0 p = ps" using p unfolding ci(2) [symmetric] by (simp add: post_of_def)
  then obtain x b where "(x, b) \<in> set (posts cs 0 p)" using \<open>ps \<noteq> []\<close> by (metis hd_in_set surj_pair)
  then obtain i where "i < length cs" "getK (cs ! i) = 0" by (auto simp: set_posts)
  then have "(of_nat i, True) \<in> set (zeros cs)" by (auto simp: set_zeros)
  then show ?thesis by auto
qed

lemma indexes_avMapper:
  assumes "indexes ci cs" "AVMapper_ok m" "pairs.extends (avMapper ci) m"
  shows "indexes (ci\<lparr>avMapper := m\<rparr>) cs"
proof -
  have ok: "index_ok ci" using assms(1) by (simp add: indexes_def)
  then have "index_ok (ci\<lparr>avMapper := m\<rparr>)"
    using assms(2) inner_ok_mono [OF assms(3)] by (auto simp: index_ok_def list_all_iff)
  moreover have "post_of (ci\<lparr>avMapper := m\<rparr>) K p = post_of ci K p" for K p
  proof (cases "AVMapper_look m p")
    case None
    then have "AVMapper_look (avMapper ci) p = None" using pairs.extends_look [OF assms(3), of p] by (cases "AVMapper_look (avMapper ci) p") auto
    then show ?thesis using None by (simp add: post_of_def)
  next
    case (Some ids)
    from list_for_pair [OF ok assms(2,3) Some, of K] Some show ?thesis by (simp add: post_of_def entry_def)
  qed
  ultimately show ?thesis using assms(1) by (auto simp: indexes_def intro!: ext)
qed

lemma retrieve_ok:
  assumes "indexes ci cs" "query_ok cs asg" "AVMapper_room (avMapper ci) (length asg + n)"
  shows "\<exists>ci' out. retrieve asg ci [] = Some (ci', out) \<and> distinct out \<and> set out = hits cs asg UNIV \<and>
    indexes ci' cs \<and> AVMapper_room (avMapper ci') n"
proof -
  have ci: "AVMapper_ok (avMapper ci)" "sorted_wrt (<) (map fst (index ci))" "zeroConjunctionList ci = zeros cs"
    using assms(1) by (simp_all add: indexes_def index_ok_def)
  have "\<forall>(K, inn) \<in> set (index ci). inn = entry (index ci) K \<and> (K = 0 \<longrightarrow> zeros cs \<noteq> [])"
    using ci(2) zero_key [OF assms(1)] by (auto simp: entry_def strict_sorted_iff)
  moreover have "prepared (avMapper ci) asg n" using assms(3) by (simp add: prepared_def)
  ultimately obtain m' out where
    r: "retrieve_index (zeros cs) asg (index ci) (avMapper ci) [] = Some (m', [] @ out)" "distinct out"
      "set out = hits cs asg (fst ` set (index ci))" "AVMapper_ok m'" "pairs.extends (avMapper ci) m'" "prepared m' asg n"
    using retrieve_index_ok [OF assms(1,2) _ ci(2,1) pairs.extends_refl, of n "[]"] by blast
  have "hits cs asg (fst ` set (index ci)) = hits cs asg UNIV"
    using index_key [OF assms(1)] assms(2) by (auto simp: hits_def query_ok_def list_all_length)
  moreover have "AVMapper_room m' n" using r(6) AVMapper_room_mono [of n "length asg + n" m'] by (auto simp: prepared_def)
  ultimately show ?thesis using r indexes_avMapper [OF assms(1) r(4,5)] by (simp add: retrieve_def ci(3))
qed

section \<open>Serialisation\<close>

definition put_posting :: "posting \<Rightarrow> u8 list" where
  "put_posting p = put32 (fst p) @ put_bool (snd p)"

definition get_posting :: "u8 list \<Rightarrow> (posting \<times> u8 list) option" where
  "get_posting s = do { (c, s1) \<leftarrow> get32 s; (b, s2) \<leftarrow> get_bool s1; Some ((c, b), s2) }"

definition put_inner_entry :: "(u32 \<times> u32) \<times> posting list \<Rightarrow> u8 list" where
  "put_inner_entry e = put32 (fst (fst e)) @ put32 (snd (fst e)) @ put_vector put_posting (snd e)"

definition get_inner_entry :: "u8 list \<Rightarrow> (((u32 \<times> u32) \<times> posting list) \<times> u8 list) option" where
  "get_inner_entry s = do {
     (i, s1) \<leftarrow> get32 s; (j, s2) \<leftarrow> get32 s1;
     (ps, s3) \<leftarrow> get_vector get_posting s2;
     Some (((i, j), ps), s3)
   }"

definition put_outer_entry :: "u32 \<times> inner \<Rightarrow> u8 list" where
  "put_outer_entry e = put32 (fst e) @ put_vector put_inner_entry (sort (snd e))"

definition get_outer_entry :: "u8 list \<Rightarrow> ((u32 \<times> inner) \<times> u8 list) option" where
  "get_outer_entry s = do {
     (K, s1) \<leftarrow> get32 s;
     (es, s2) \<leftarrow> get_vector get_inner_entry s1;
     Some ((K, foldl (\<lambda>d (k, v). AList.update k v d) [] es), s2)
   }"

definition ConjunctionInvIndex_save_binary :: "ConjunctionInvIndex \<Rightarrow> u8 list" where
  "ConjunctionInvIndex_save_binary ci = put_vector put_outer_entry (index ci) @
     put_vector put_posting (zeroConjunctionList ci) @ AVMapper_save_binary (avMapper ci)"

definition ConjunctionInvIndex_load_binary :: "u8 list \<Rightarrow> (ConjunctionInvIndex \<times> u8 list) option" where
  "ConjunctionInvIndex_load_binary s = do {
     (es, s1) \<leftarrow> get_vector get_outer_entry s;
     (zs, s2) \<leftarrow> get_vector get_posting s1;
     (m, s3) \<leftarrow> AVMapper_load_binary s2;
     Some (\<lparr>index = foldl (\<lambda>d (K, inn). smap_upd K (\<lambda>_. inn) d) [] es, zeroConjunctionList = zs, avMapper = m\<rparr>, s3)
   }"

text \<open>Every vector and string fits the address space.\<close>

definition index_sized :: "ConjunctionInvIndex \<Rightarrow> bool" where
  "index_sized ci \<longleftrightarrow> AVMapper_sized (avMapper ci) \<and> length (zeroConjunctionList ci) < 2 ^ 64 \<and> length (index ci) < 2 ^ 64 \<and>
     list_all (\<lambda>(_, inn). length inn < 2 ^ 64 \<and> list_all (\<lambda>(_, ps). length ps < 2 ^ 64) inn) (index ci)"

lemma get_put_posting: "get_posting (put_posting p @ s) = Some (p, s)"
  by (simp add: get_posting_def put_posting_def)

lemma get_put_inner_entry: "length (snd e) < 2 ^ 64 \<Longrightarrow> get_inner_entry (put_inner_entry e @ s) = Some (e, s)"
  using get_put_vector [of "snd e" get_posting put_posting s]
  by (simp add: get_inner_entry_def put_inner_entry_def get_put_posting)

lemma get_put_outer_entry:
  assumes "distinct (map fst inn)" "length inn < 2 ^ 64" "list_all (\<lambda>(_, ps). length ps < 2 ^ 64) inn"
  shows "get_outer_entry (put_outer_entry (K, inn) @ s) = Some ((K, sort inn), s)"
proof -
  have "get_vector get_inner_entry (put_vector put_inner_entry (sort inn) @ s) = Some (sort inn, s)"
    using assms(2,3) by (intro get_put_vector get_put_inner_entry) (auto simp: list_all_iff)
  moreover have "distinct (map fst (sort inn))" using assms(1) by (simp add: distinct_map)
  ultimately show ?thesis using foldl_update_distinct [of "[]" "sort inn"]
    by (simp add: get_outer_entry_def put_outer_entry_def)
qed

lemma smap_upd_last: "\<forall>x \<in> set m. fst x < k \<Longrightarrow> smap_upd k f m = m @ [(k, f [])]"
  by (induction k f m rule: smap_upd.induct) auto

lemma foldl_smap_upd:
  "sorted_wrt (<) (map fst (d @ es)) \<Longrightarrow> foldl (\<lambda>d (K, inn). smap_upd K (\<lambda>_. inn) d) d es = d @ es"
proof (induction es arbitrary: d)
  case (Cons e es)
  have "smap_upd (fst e) (\<lambda>_. snd e) d = d @ [e]"
    using Cons.prems smap_upd_last [of d "fst e" "\<lambda>_. snd e"] by (auto simp: sorted_wrt_append)
  then show ?case using Cons by (simp add: split_beta)
qed simp

lemma entry_map_sort: "entry (map (\<lambda>(K, inn). (K, sort inn)) m) K = sort (entry m K)"
  by (induction m) auto

lemma entry_sort: "distinct (map fst inn) \<Longrightarrow> entry (sort inn) k = entry inn k"
  using map_of_inject_set [of "sort inn" inn] by (simp add: entry_def distinct_map)

lemma load_save_index:
  assumes "indexes ci cs" "index_sized ci"
  shows "\<exists>ci'. ConjunctionInvIndex_load_binary (ConjunctionInvIndex_save_binary ci @ s) = Some (ci', s) \<and> indexes ci' cs \<and>
    (\<forall>n. AVMapper_room (avMapper ci) n \<longrightarrow> AVMapper_room (avMapper ci') n)"
proof -
  have ok: "index_ok ci" using assms(1) by (simp add: indexes_def)
  let ?ix = "map (\<lambda>(K, inn). (K, sort inn)) (index ci)"
  have inn: "inner_ok (avMapper ci) inn" "inn \<noteq> []" "length inn < 2 ^ 64" "list_all (\<lambda>(_, ps). length ps < 2 ^ 64) inn"
    if "(K, inn) \<in> set (index ci)" for K inn
    using that ok assms(2) by (auto simp: index_ok_def index_sized_def list_all_iff)
  have "get_outer_entry (put_outer_entry e @ s) = Some ((\<lambda>(K, inn). (K, sort inn)) e, s)" if "e \<in> set (index ci)" for e s
    using get_put_outer_entry [of "snd e" "fst e" s] inn [of "fst e" "snd e"] that by (cases e) (simp add: inner_ok_def)
  then have 1: "get_vector get_outer_entry (put_vector put_outer_entry (index ci) @ s) = Some (?ix, s)" for s
    using assms(2) by (intro get_vector_map) (simp_all add: index_sized_def)
  have 2: "get_vector get_posting (put_vector put_posting (zeroConjunctionList ci) @ s) = Some (zeroConjunctionList ci, s)" for s
    using assms(2) by (intro get_put_vector get_put_posting) (simp add: index_sized_def)
  obtain m where 3: "AVMapper_load_binary (AVMapper_save_binary (avMapper ci) @ s) = Some (m, s)" "AVMapper_eq (avMapper ci) m"
    using AVMapper_load_save [of "avMapper ci" s] ok assms(2) by (auto simp: index_ok_def index_sized_def)
  have keys: "map fst ?ix = map fst (index ci)" by (simp add: split_beta)
  have srt: "sorted_wrt (<) (map fst ?ix)" unfolding keys using ok by (simp add: index_ok_def)
  let ?ci = "\<lparr>index = ?ix, zeroConjunctionList = zeroConjunctionList ci, avMapper = m\<rparr>"
  have "ConjunctionInvIndex_load_binary (ConjunctionInvIndex_save_binary ci @ s) = Some (?ci, s)"
    using 1 2 3(1) foldl_smap_upd [of "[]" ?ix] srt
    by (simp add: ConjunctionInvIndex_load_binary_def ConjunctionInvIndex_save_binary_def)
  moreover have look: "AVMapper_look m = AVMapper_look (avMapper ci)" using 3(2) by (simp add: AVMapper_eq_def)
  moreover have "inner_ok m (sort inn) \<and> sort inn \<noteq> []" if "(K, inn) \<in> set (index ci)" for K inn
  proof
    show "inner_ok m (sort inn)" using inn(1) [OF that] by (simp add: inner_ok_alt look distinct_map)
    show "sort inn \<noteq> []" using inn(2) [OF that] by (metis set_empty set_sort)
  qed
  then have "index_ok ?ci" using srt 3(2) by (auto simp: index_ok_def AVMapper_eq_def list_all_iff)
  moreover have "post_of ?ci K p = post_of ci K p" for K p
  proof -
    have "entry (sort (entry (index ci) K)) ids = entry (entry (index ci) K) ids" for ids
      using inner_ok_entry [OF ok, of K] by (intro entry_sort) (simp add: inner_ok_def)
    then show ?thesis by (simp add: post_of_def look entry_map_sort split: option.split)
  qed
  ultimately have "indexes ?ci cs" using assms(1) by (auto simp: indexes_def intro!: ext)
  with \<open>ConjunctionInvIndex_load_binary _ = _\<close> 3(2) show ?thesis by (auto simp: AVMapper_eq_def)
qed

end
