(* ===== verification/BE_DNF.thy ===== *)
theory BE_DNF
  imports BE_Index
begin

text \<open>
  The index over formulas in disjunctive normal form: class \<open>DNFInvIndex\<close> of
  \<open>include/ir/be_index/InvIndex.hpp\<close>, with the printing functions of \<open>DNF.hpp\<close> it identifies conjunctions by.
  An index is used through \<open>addDNF\<close>, \<open>retrieve\<close> and the two halves of the binary serialisation in any
  order; \<open>run\<close> is that step relation, and its invariant gives that a query always returns exactly the
  formulas the user satisfies.
\<close>

section \<open>Printing\<close>

text \<open>\<open>toString\<close> of something empty runs \<open>size() - 1\<close> below zero.\<close>

definition join :: "'a list \<Rightarrow> 'a list list \<Rightarrow> 'a list" where
  "join sep xss = concat (map (\<lambda>xs. xs @ sep) (butlast xss)) @ last xss"

definition Assignment_toString :: "Assignment \<Rightarrow> string option" where
  "Assignment_toString a =
     (if vals a = [] then None
      else Some (attribute a @ '' '' @ (if belongsTo a then ''t'' else ''f'') @ '' '' @ join '' '' (vals a)))"

definition Conjunction_toString :: "Conjunction \<Rightarrow> string option" where
  "Conjunction_toString c =
     (if assignments c = [] then None
      else map_option (join '' & '') (those (map Assignment_toString (assignments c))))"

record DNF =
  conjunctions :: "Conjunction list"

definition DNF_toString :: "DNF \<Rightarrow> string option" where
  "DNF_toString d =
     (if conjunctions d = [] then None
      else map_option (join '' | '') (those (map Conjunction_toString (conjunctions d))))"

section \<open>The index\<close>

record DNFInvIndex =
  conjIndex :: ConjunctionInvIndex
  dnf_index :: "(u32 \<times> u32 list) list"
  conjunctionMapper :: IDMapper
  numDNF :: u32

definition DNFInvIndex_new :: DNFInvIndex where
  "DNFInvIndex_new = \<lparr>conjIndex = ConjunctionInvIndex_new, dnf_index = [], conjunctionMapper = IDMapper_new, numDNF = 0\<rparr>"

definition link_conjunction :: "u32 \<Rightarrow> Conjunction \<Rightarrow> DNFInvIndex \<Rightarrow> DNFInvIndex option" where
  "link_conjunction dnfID c ix = do {
     str \<leftarrow> Conjunction_toString c;
     let (cm, (cid, new)) = IDMapper_insert (conjunctionMapper ix) str;
     ci \<leftarrow> (if new then addConjunction cid c (conjIndex ix) else Some (conjIndex ix));
     Some (ix\<lparr>conjIndex := ci, conjunctionMapper := cm,
              dnf_index := hmap_upd cid (\<lambda>ds. ds @ [dnfID]) (dnf_index ix)\<rparr>)
   }"

primrec link_conjunctions :: "u32 \<Rightarrow> Conjunction list \<Rightarrow> DNFInvIndex \<Rightarrow> DNFInvIndex option" where
  "link_conjunctions dnfID [] ix = Some ix"
| "link_conjunctions dnfID (c # cs) ix = do { ix1 \<leftarrow> link_conjunction dnfID c ix; link_conjunctions dnfID cs ix1 }"

definition addDNF :: "u32 \<Rightarrow> DNF \<Rightarrow> DNFInvIndex \<Rightarrow> DNFInvIndex option" where
  "addDNF dnfID dnf ix = do {
     ix1 \<leftarrow> link_conjunctions dnfID (conjunctions dnf) ix;
     Some (ix1\<lparr>numDNF := numDNF ix1 + 1\<rparr>)
   }"

text \<open>\<open>index[id]\<close> creates an empty entry for an identifier that has none.\<close>

primrec collect_dnfs :: "u32 list \<Rightarrow> (u32 \<times> u32 list) list \<Rightarrow> u32 set \<Rightarrow> (u32 \<times> u32 list) list \<times> u32 set" where
  "collect_dnfs [] m S = (m, S)"
| "collect_dnfs (c # cs) m S = collect_dnfs cs (hmap_upd c (\<lambda>ds. ds) m) (S \<union> set (entry m c))"

definition DNFInvIndex_retrieve :: "(string \<times> string) list \<Rightarrow> DNFInvIndex \<Rightarrow> u32 set \<Rightarrow> (DNFInvIndex \<times> u32 set) option" where
  "DNFInvIndex_retrieve asg ix S = do {
     (ci, cids) \<leftarrow> retrieve asg (conjIndex ix) [];
     let (m, S') = collect_dnfs cids (dnf_index ix) S;
     Some (ix\<lparr>conjIndex := ci, dnf_index := m\<rparr>, S')
   }"

definition totalNumDNF :: "DNFInvIndex \<Rightarrow> u32" where
  "totalNumDNF ix = numDNF ix"

definition DNFInvIndex_save_binary :: "DNFInvIndex \<Rightarrow> u8 list" where
  "DNFInvIndex_save_binary ix = ConjunctionInvIndex_save_binary (conjIndex ix) @
     put_vector (\<lambda>(c, ds). put32 c @ put_vector put32 ds) (sort (dnf_index ix)) @
     IDMapper_save_binary (conjunctionMapper ix) @ put32 (numDNF ix)"

definition DNFInvIndex_load_binary :: "u8 list \<Rightarrow> (DNFInvIndex \<times> u8 list) option" where
  "DNFInvIndex_load_binary s = do {
     (ci, s1) \<leftarrow> ConjunctionInvIndex_load_binary s;
     (es, s2) \<leftarrow> get_vector (\<lambda>s. do { (c, s1) \<leftarrow> get32 s; (ds, s2) \<leftarrow> get_vector get32 s1; Some ((c, ds), s2) }) s1;
     (cm, s3) \<leftarrow> IDMapper_load_binary s2;
     (n, s4) \<leftarrow> get32 s3;
     Some (\<lparr>conjIndex = ci, dnf_index = foldl (\<lambda>d (k, v). AList.update k v d) [] es, conjunctionMapper = cm, numDNF = n\<rparr>, s4)
   }"

section \<open>Conjunctions print differently\<close>

text \<open>Joining pieces with a separator element that occurs in none of them loses nothing.\<close>

lemma join_Cons: "xss \<noteq> [] \<Longrightarrow> join sep (xs # xss) = xs @ sep @ join sep xss"
  by (simp add: join_def)

lemma join_inj:
  assumes "xss \<noteq> []" "yss \<noteq> []" "list_all (\<lambda>xs. c \<notin> set xs) xss" "list_all (\<lambda>ys. c \<notin> set ys) yss"
    and "join [c] xss = join [c] yss"
  shows "xss = yss"
  using assms
proof (induction xss arbitrary: yss)
  case (Cons xs xss)
  obtain ys yss' where yss: "yss = ys # yss'" using Cons.prems(2) by (cases yss) auto
  have c: "c \<notin> set xs" "c \<notin> set ys" using Cons.prems(3,4) by (simp_all add: yss)
  have hd_eq: "us = vs \<and> us' = vs'" if "us @ c # us' = vs @ c # vs'" "c \<notin> set us" "c \<notin> set vs" for us us' vs vs'
    using that
  proof (induction us arbitrary: vs)
    case Nil
    then show ?case by (cases vs) auto
  next
    case (Cons u us)
    then show ?case by (cases vs) auto
  qed
  consider "xss = []" "yss' = []" | "xss = []" "yss' \<noteq> []" | "xss \<noteq> []" "yss' = []" | "xss \<noteq> []" "yss' \<noteq> []" by blast
  then show ?case
  proof cases
    case 1
    then show ?thesis using Cons.prems(5) by (simp add: yss join_def)
  next
    case 2
    then have "xs = ys @ c # join [c] yss'" using Cons.prems(5) by (simp add: yss join_Cons) (simp add: join_def)
    then show ?thesis using c by simp
  next
    case 3
    then have "ys = xs @ c # join [c] xss" using Cons.prems(5) by (simp add: yss join_Cons) (simp add: join_def)
    then show ?thesis using c by simp
  next
    case 4
    then have "xs @ c # join [c] xss = ys @ c # join [c] yss'" using Cons.prems(5) by (simp add: yss join_Cons)
    from hd_eq [OF this c] show ?thesis using Cons.IH [of yss'] Cons.prems(3,4) 4 by (simp add: yss)
  qed
qed simp

text \<open>The words of a printed conjunction.\<close>

definition tokens :: "Assignment \<Rightarrow> string list" where
  "tokens a = attribute a # (if belongsTo a then ''t'' else ''f'') # vals a"

text \<open>A plain string has no space in it and is not the ampersand.\<close>

definition plain :: "string \<Rightarrow> bool" where
  "plain s \<longleftrightarrow> CHR '' '' \<notin> set s \<and> s \<noteq> ''&''"

definition plain_conj :: "Conjunction \<Rightarrow> bool" where
  "plain_conj c \<longleftrightarrow> list_all (\<lambda>a. plain (attribute a) \<and> list_all plain (vals a)) (assignments c)"

lemma join_append:
  "xss \<noteq> [] \<Longrightarrow> yss \<noteq> [] \<Longrightarrow> join sep (xss @ yss) = join sep xss @ sep @ join sep yss"
proof (induction xss)
  case (Cons xs xss)
  then show ?case by (cases "xss = []") (simp_all add: join_Cons, simp add: join_def)
qed simp

lemma join_ne: "xss \<noteq> [] \<Longrightarrow> list_all (\<lambda>xs. xs \<noteq> []) xss \<Longrightarrow> join sep xss \<noteq> []"
  by (cases xss rule: rev_cases) (auto simp: join_def)

lemma join_join:
  "tss \<noteq> [] \<Longrightarrow> list_all (\<lambda>ts. ts \<noteq> []) tss \<Longrightarrow> join '' & '' (map (join '' '') tss) = join '' '' (join [''&''] tss)"
proof (induction tss)
  case (Cons ts tss)
  show ?case
  proof (cases "tss = []")
    case True
    then show ?thesis by (simp add: join_def)
  next
    case False
    have ne: "ts \<noteq> []" "join [''&''] tss \<noteq> []" using Cons.prems False by (simp_all add: join_ne)
    then have "join '' '' (ts @ ''&'' # join [''&''] tss) = join '' '' ts @ '' & '' @ join '' '' (join [''&''] tss)"
      using join_append [of ts "''&'' # join [''&''] tss" "'' ''"] by (simp add: join_Cons)
    then show ?thesis using Cons False by (simp add: join_Cons)
  qed
qed simp

lemma Assignment_tokens: "vals a \<noteq> [] \<Longrightarrow> Assignment_toString a = Some (join '' '' (tokens a))"
  by (simp add: Assignment_toString_def tokens_def join_Cons)

lemma Conjunction_tokens:
  assumes "wf_conj c"
  shows "Conjunction_toString c = Some (join '' '' (join [''&''] (map tokens (assignments c))))"
proof -
  have wf: "assignments c \<noteq> []" "list_all (\<lambda>a. vals a \<noteq> []) (assignments c)"
    using assms by (auto simp: wf_conj_def list_all_iff)
  have "those (map Assignment_toString (assignments c)) = Some (map (\<lambda>a. join '' '' (tokens a)) (assignments c))"
  proof -
    have "map Assignment_toString (assignments c) = map Some (map (\<lambda>a. join '' '' (tokens a)) (assignments c))"
      using wf(2) by (simp add: list_all_iff Assignment_tokens)
    then show ?thesis by (simp only: those_map_Some)
  qed
  moreover have "join '' & '' (map (join '' '') (map tokens (assignments c))) = join '' '' (join [''&''] (map tokens (assignments c)))"
    using wf by (intro join_join) (auto simp: list_all_iff tokens_def)
  ultimately show ?thesis using wf(1) by (simp add: Conjunction_toString_def comp_def)
qed

lemma set_join: "x \<in> set (join sep xss) \<Longrightarrow> x \<in> set sep \<or> (\<exists>xs \<in> set xss. x \<in> set xs) \<or> xss = []"
  by (auto simp: join_def dest: in_set_butlastD split: if_splits)

lemma tokens_inj: "tokens a = tokens b \<Longrightarrow> a = b"
  by (cases a, cases b) (auto simp: tokens_def split: if_splits)

lemma toString_inj:
  assumes "wf_conj c" "wf_conj d" "plain_conj c" "plain_conj d" "Conjunction_toString c = Conjunction_toString d"
  shows "c = d"
proof -
  let ?t = "\<lambda>c. map tokens (assignments c)"
  have ne: "?t c \<noteq> []" "?t d \<noteq> []" using assms(1,2) by (simp_all add: wf_conj_def)
  have amp: "list_all (\<lambda>ts. ''&'' \<notin> set ts) (?t e)" "list_all (\<lambda>ts. list_all (\<lambda>t. CHR '' '' \<notin> set t) ts) (?t e)" if "plain_conj e" for e
    using that by (auto simp: plain_conj_def plain_def tokens_def list_all_iff)
  have sp: "list_all (\<lambda>t. CHR '' '' \<notin> set t) (join [''&''] (?t e))" if "plain_conj e" "?t e \<noteq> []" for e
    using amp(2) [OF that(1)] that(2) by (auto simp: list_all_iff dest!: set_join)
  have jne: "join [''&''] (?t e) \<noteq> []" if "?t e \<noteq> []" for e
    using that by (intro join_ne) (auto simp: list_all_iff tokens_def)
  have "join [''&''] (?t c) = join [''&''] (?t d)"
    using assms(5) unfolding Conjunction_tokens [OF assms(1)] Conjunction_tokens [OF assms(2)]
    by (intro join_inj [of _ _ "CHR '' ''"] jne ne sp assms) simp
  then have "?t c = ?t d" by (intro join_inj [of _ _ "''&''"] ne amp assms)
  then have "assignments c = assignments d" using tokens_inj by (metis inj_map_eq_map injI)
  then show ?thesis by simp
qed

section \<open>The invariant\<close>

text \<open>\<open>cs\<close>: the conjunctions in the order of their identifiers; \<open>ls\<close>: which formula was added with which conjunction.\<close>

definition good :: "Conjunction \<Rightarrow> bool" where
  "good c \<longleftrightarrow> wf_conj c \<and> plain_conj c"

definition mapper_serves :: "IDMapper \<Rightarrow> Conjunction list \<Rightarrow> bool" where
  "mapper_serves cm cs \<longleftrightarrow> IDMapper_ok cm \<and> length (dict cm) = length cs \<and>
     (\<forall>i < length cs. \<exists>s. Conjunction_toString (cs ! i) = Some s \<and> IDMapper_look cm s = Some (of_nat i)) \<and>
     (\<forall>s j. IDMapper_look cm s = Some j \<longrightarrow> (\<exists>i < length cs. j = of_nat i \<and> Conjunction_toString (cs ! i) = Some s))"

definition links_serve :: "(u32 \<times> u32 list) list \<Rightarrow> Conjunction list \<Rightarrow> (u32 \<times> Conjunction) list \<Rightarrow> bool" where
  "links_serve m cs ls \<longleftrightarrow> distinct (map fst m) \<and>
     (\<forall>i < length cs. entry m (of_nat i) = map fst (filter (\<lambda>l. snd l = cs ! i) ls)) \<and>
     (\<forall>k \<in> fst ` set m. \<exists>i < length cs. k = of_nat i)"

definition serves :: "DNFInvIndex \<Rightarrow> Conjunction list \<Rightarrow> (u32 \<times> Conjunction) list \<Rightarrow> bool" where
  "serves ix cs ls \<longleftrightarrow> indexes (conjIndex ix) cs \<and> mapper_serves (conjunctionMapper ix) cs \<and>
     links_serve (dnf_index ix) cs ls \<and> set cs = snd ` set ls \<and> list_all good cs"

lemma serves_new: "serves DNFInvIndex_new [] []"
  by (simp add: serves_def DNFInvIndex_new_def indexes_new mapper_serves_def IDMapper_new_ok links_serve_def)
    (simp add: IDMapper_new_def)

lemma mapper_known:
  assumes "mapper_serves cm cs" "list_all good cs" "good c" "Conjunction_toString c = Some s" "IDMapper_look cm s = Some j"
  shows "\<exists>i < length cs. j = of_nat i \<and> cs ! i = c"
proof -
  obtain i where i: "i < length cs" "j = of_nat i" "Conjunction_toString (cs ! i) = Some s"
    using assms(1,5) unfolding mapper_serves_def by blast
  have "cs ! i = c"
    using assms(2-4) i(1,3) by (intro toString_inj) (simp_all add: good_def list_all_length)
  with i show ?thesis by blast
qed

lemma mapper_distinct:
  assumes "mapper_serves cm cs" "length cs < 2 ^ 32" "i < length cs" "j < length cs" "cs ! i = cs ! j"
  shows "i = j"
proof -
  obtain s t where "Conjunction_toString (cs ! i) = Some s" "IDMapper_look cm s = Some (of_nat i)"
    "Conjunction_toString (cs ! j) = Some t" "IDMapper_look cm t = Some (of_nat j)"
    using assms(1,3,4) unfolding mapper_serves_def by metis
  with assms(5) have "(of_nat i :: u32) = of_nat j" by simp
  then show ?thesis using assms(2-4) by (simp add: of_nat_u32_inj)
qed

lemma mapper_add:
  assumes "mapper_serves cm cs" "length cs < 2 ^ 32" "Conjunction_toString c = Some s" "IDMapper_look cm s = None"
  shows "\<exists>cm'. IDMapper_insert cm s = (cm', (of_nat (length cs), True)) \<and> mapper_serves cm' (cs @ [c])"
proof -
  have cm: "IDMapper_ok cm" "length (dict cm) = length cs" using assms(1) by (simp_all add: mapper_serves_def)
  then have "IDMapper_room cm (Suc 0)" using assms(2) by (simp add: IDMapper_room_def)
  from IDMapper_insert_new [OF cm(1) this assms(4), unfolded cm(2)] obtain cm' where
    cm': "IDMapper_insert cm s = (cm', (of_nat (length cs), True))" "IDMapper_ok cm'"
      "IDMapper_look cm' = (IDMapper_look cm)(s \<mapsto> of_nat (length cs))" "length (dict cm') = Suc (length cs)" by blast
  have "\<exists>t. Conjunction_toString ((cs @ [c]) ! i) = Some t \<and> IDMapper_look cm' t = Some (of_nat i)" if "i < length (cs @ [c])" for i
  proof (cases "i = length cs")
    case False
    with that have i: "i < length cs" by simp
    then obtain t where "Conjunction_toString (cs ! i) = Some t" "IDMapper_look cm t = Some (of_nat i)"
      using assms(1) by (auto simp: mapper_serves_def)
    moreover from this assms(4) have "t \<noteq> s" by auto
    ultimately show ?thesis using i by (simp add: cm'(3) nth_append)
  qed (simp add: assms(3) cm'(3))
  moreover have "\<exists>i < length (cs @ [c]). j = of_nat i \<and> Conjunction_toString ((cs @ [c]) ! i) = Some t"
    if "IDMapper_look cm' t = Some j" for t j
  proof (cases "t = s")
    case True
    then show ?thesis using that assms(3) by (intro exI [of _ "length cs"]) (simp add: cm'(3))
  next
    case False
    then have "IDMapper_look cm t = Some j" using that by (simp add: cm'(3))
    then obtain i where "i < length cs" "j = of_nat i" "Conjunction_toString (cs ! i) = Some t"
      using assms(1) unfolding mapper_serves_def by blast
    then show ?thesis by (intro exI [of _ i]) (simp add: nth_append)
  qed
  ultimately have "mapper_serves cm' (cs @ [c])" using cm'(2,4) unfolding mapper_serves_def by simp
  with cm'(1) show ?thesis by blast
qed

lemma hmap_upd_keys: "fst ` set (hmap_upd k f m) = insert k (fst ` set m)"
  by (simp add: hmap_upd_def dom_map_of_conv_image_fst [symmetric] update_conv')

lemma hmap_upd_distinct: "distinct (map fst m) \<Longrightarrow> distinct (map fst (hmap_upd k f m))"
  by (simp add: hmap_upd_def distinct_update)

lemma links_known:
  assumes "links_serve m cs ls" "length cs < 2 ^ 32" "i < length cs" "\<And>j. j < length cs \<Longrightarrow> cs ! j = cs ! i \<Longrightarrow> j = i"
  shows "links_serve (hmap_upd (of_nat i) (\<lambda>ds. ds @ [d]) m) cs (ls @ [(d, cs ! i)])"
proof -
  have "entry (hmap_upd (of_nat i) (\<lambda>ds. ds @ [d]) m) (of_nat j) = map fst (filter (\<lambda>l. snd l = cs ! j) (ls @ [(d, cs ! i)]))"
    if "j < length cs" for j
  proof -
    have "(of_nat j :: u32) = of_nat i \<longleftrightarrow> j = i" using that assms(2,3) by (simp add: of_nat_u32_inj)
    moreover have "cs ! i = cs ! j \<longleftrightarrow> j = i" using assms(4) [OF that] by auto
    moreover have "entry m (of_nat j) = map fst (filter (\<lambda>l. snd l = cs ! j) ls)" using assms(1) that by (simp add: links_serve_def)
    ultimately show ?thesis by (auto simp: entry_hmap_upd)
  qed
  then show ?thesis using assms(1,3) unfolding links_serve_def hmap_upd_keys by (auto simp: hmap_upd_distinct)
qed

lemma links_add:
  assumes "links_serve m cs ls" "length cs < 2 ^ 32" "c \<notin> set cs" "set cs = snd ` set ls"
  shows "links_serve (hmap_upd (of_nat (length cs)) (\<lambda>ds. ds @ [d]) m) (cs @ [c]) (ls @ [(d, c)])"
proof -
  have "of_nat (length cs) \<notin> fst ` set m"
  proof
    assume "of_nat (length cs) \<in> fst ` set m"
    then obtain i where "i < length cs" "(of_nat (length cs) :: u32) = of_nat i" using assms(1) by (auto simp: links_serve_def)
    then show False using assms(2) by (simp add: of_nat_u32_inj)
  qed
  then have e: "entry m (of_nat (length cs)) = []" by (rule entry_absent)
  have "filter (\<lambda>l. snd l = c) ls = []" using assms(3,4) by (auto simp: filter_empty_conv)
  with e have "entry (hmap_upd (of_nat (length cs)) (\<lambda>ds. ds @ [d]) m) (of_nat i) =
      map fst (filter (\<lambda>l. snd l = (cs @ [c]) ! i) (ls @ [(d, c)]))" if "i < length (cs @ [c])" for i
    using that assms(1-3) by (auto simp: links_serve_def entry_hmap_upd of_nat_u32_inj nth_append less_Suc_eq)
  moreover have "\<exists>i < length (cs @ [c]). k = of_nat i" if "k \<in> fst ` set (hmap_upd (of_nat (length cs)) (\<lambda>ds. ds @ [d]) m)" for k
  proof (cases "k = of_nat (length cs)")
    case False
    with that have "k \<in> fst ` set m" by (simp add: hmap_upd_keys)
    then obtain i where "i < length cs" "k = of_nat i" using assms(1) unfolding links_serve_def by blast
    then show ?thesis by (intro exI [of _ i]) simp
  qed (intro exI [of _ "length cs"], simp)
  ultimately show ?thesis using assms(1) unfolding links_serve_def by (simp add: hmap_upd_distinct)
qed

text \<open>Adding.\<close>

lemma link_conjunction_ok:
  assumes "serves ix cs ls" "good c" "length cs < 2 ^ 32" "AVMapper_room (avMapper (conjIndex ix)) (length (av_pairs c) + n)"
  shows "\<exists>ix' cs'. link_conjunction d c ix = Some ix' \<and> serves ix' cs' (ls @ [(d, c)]) \<and> length cs' \<le> Suc (length cs) \<and>
    AVMapper_room (avMapper (conjIndex ix')) n \<and> numDNF ix' = numDNF ix"
proof -
  have ix: "indexes (conjIndex ix) cs" "mapper_serves (conjunctionMapper ix) cs" "links_serve (dnf_index ix) cs ls"
    "set cs = snd ` set ls" "list_all good cs" using assms(1) by (simp_all add: serves_def)
  obtain s where s: "Conjunction_toString c = Some s" using assms(2) Conjunction_tokens by (simp add: good_def)
  show ?thesis
  proof (cases "IDMapper_look (conjunctionMapper ix) s")
    case (Some j)
    from mapper_known [OF ix(2,5) assms(2) s this] obtain i where i: "i < length cs" "j = of_nat i" "cs ! i = c" by blast
    let ?ix = "ix\<lparr>dnf_index := hmap_upd j (\<lambda>ds. ds @ [d]) (dnf_index ix)\<rparr>"
    have "links_serve (dnf_index ?ix) cs (ls @ [(d, c)])"
    proof -
      have "links_serve (hmap_upd (of_nat i) (\<lambda>ds. ds @ [d]) (dnf_index ix)) cs (ls @ [(d, cs ! i)])"
        by (rule links_known [OF ix(3) assms(3) i(1)]) (rule mapper_distinct [OF ix(2) assms(3) _ i(1)])
      then show ?thesis by (simp add: i(2,3))
    qed
    moreover have "link_conjunction d c ix = Some ?ix"
      using s Some by (simp add: link_conjunction_def IDMapper_insert_known)
    moreover have "c \<in> set cs" using i by auto
    moreover have "AVMapper_room (avMapper (conjIndex ix)) n" 
      using assms(4) AVMapper_room_mono [of n "length (av_pairs c) + n"] by simp
    ultimately show ?thesis using ix by (intro exI [of _ ?ix] exI [of _ cs]) (auto simp: serves_def)
  next
    case None
    from mapper_add [OF ix(2) assms(3) s None] obtain cm where
      cm: "IDMapper_insert (conjunctionMapper ix) s = (cm, (of_nat (length cs), True))" "mapper_serves cm (cs @ [c])" by blast
    from indexes_add [OF ix(1) assms(4)] obtain ci where
      ci: "addConjunction (of_nat (length cs)) c (conjIndex ix) = Some ci" "indexes ci (cs @ [c])" "AVMapper_room (avMapper ci) n"
      by blast
    have "c \<notin> set cs"
    proof
      assume "c \<in> set cs"
      then obtain i where "i < length cs" "cs ! i = c" by (auto simp: in_set_conv_nth)
      with ix(2) s None show False by (force simp: mapper_serves_def)
    qed
    from links_add [OF ix(3) assms(3) this ix(4), of d]
    show ?thesis using s cm ci ix(4,5) assms(2)
      by (intro exI [of _ "ix\<lparr>conjIndex := ci, conjunctionMapper := cm,
          dnf_index := hmap_upd (of_nat (length cs)) (\<lambda>ds. ds @ [d]) (dnf_index ix)\<rparr>"] exI [of _ "cs @ [c]"])
        (auto simp: serves_def link_conjunction_def)
  qed
qed

definition pairs_of :: "Conjunction list \<Rightarrow> nat" where
  "pairs_of cs = sum_list (map (\<lambda>c. length (av_pairs c)) cs)"

lemma link_conjunctions_ok:
  assumes "serves ix cs ls" "list_all good cs1" "length cs + length cs1 \<le> 2 ^ 32"
    "AVMapper_room (avMapper (conjIndex ix)) (pairs_of cs1 + n)"
  shows "\<exists>ix' cs'. link_conjunctions d cs1 ix = Some ix' \<and> serves ix' cs' (ls @ map (Pair d) cs1) \<and>
    length cs' \<le> length cs + length cs1 \<and> AVMapper_room (avMapper (conjIndex ix')) n \<and> numDNF ix' = numDNF ix"
  using assms
proof (induction cs1 arbitrary: ix cs ls)
  case Nil
  then show ?case by (auto simp: pairs_of_def)
next
  case (Cons c cs1)
  have r: "AVMapper_room (avMapper (conjIndex ix)) (length (av_pairs c) + (pairs_of cs1 + n))"
    using Cons.prems(4) by (simp add: pairs_of_def add.assoc)
  have "good c" "length cs < 2 ^ 32" using Cons.prems(2,3) by simp_all
  from link_conjunction_ok [OF Cons.prems(1) this r, of d] obtain ix1 cs' where
    1: "link_conjunction d c ix = Some ix1" "serves ix1 cs' (ls @ [(d, c)])" "length cs' \<le> Suc (length cs)"
      "AVMapper_room (avMapper (conjIndex ix1)) (pairs_of cs1 + n)" "numDNF ix1 = numDNF ix" by blast
  have "list_all good cs1" "length cs' + length cs1 \<le> 2 ^ 32" using Cons.prems(2,3) 1(3) by simp_all
  from Cons.IH [OF 1(2) this 1(4)] obtain ix2 cs'' where
    2: "link_conjunctions d cs1 ix1 = Some ix2" "serves ix2 cs'' ((ls @ [(d, c)]) @ map (Pair d) cs1)"
      "length cs'' \<le> length cs' + length cs1" "AVMapper_room (avMapper (conjIndex ix2)) n" "numDNF ix2 = numDNF ix1" by blast
  show ?case
    using 1 2 by (intro exI [of _ ix2] exI [of _ cs'']) simp
qed

text \<open>Retrieving.\<close>

lemma collect_dnfs_ok:
  assumes "links_serve m cs ls" "set cids \<subseteq> {of_nat i | i. i < length cs}" "collect_dnfs cids m S = (m', S')"
  shows "links_serve m' cs ls \<and> S' = S \<union> (\<Union>x \<in> set cids. set (entry m x))"
  using assms
proof (induction cids arbitrary: m S)
  case (Cons x cids)
  let ?m = "hmap_upd x (\<lambda>ds. ds) m"
  obtain i where i: "i < length cs" "x = of_nat i" using Cons.prems(2) by auto
  have e: "entry ?m = entry m" by (rule ext) (simp add: entry_hmap_upd)
  have "\<exists>i < length cs. k = of_nat i" if "k \<in> fst ` set ?m" for k
    using that Cons.prems(1) i unfolding links_serve_def hmap_upd_keys by blast
  then have "links_serve ?m cs ls" using Cons.prems(1) unfolding links_serve_def e by (simp add: hmap_upd_distinct)
  from Cons.IH [OF this, of "S \<union> set (entry m x)"] Cons.prems(2,3) show ?case by (auto simp: e)
qed auto

lemma DNFInvIndex_retrieve_ok:
  assumes "serves ix cs ls" "query_ok cs asg" "AVMapper_room (avMapper (conjIndex ix)) (length asg + n)"
  shows "\<exists>ix'. DNFInvIndex_retrieve asg ix S = Some (ix', S \<union> {d. \<exists>c. (d, c) \<in> set ls \<and> satisfies asg c}) \<and>
    serves ix' cs ls \<and> AVMapper_room (avMapper (conjIndex ix')) n"
proof -
  have ix: "indexes (conjIndex ix) cs" "links_serve (dnf_index ix) cs ls" "set cs = snd ` set ls"
    using assms(1) by (simp_all add: serves_def)
  from retrieve_ok [OF ix(1) assms(2,3)] obtain ci out where
    r: "retrieve asg (conjIndex ix) [] = Some (ci, out)" "set out = hits cs asg UNIV" "indexes ci cs" "AVMapper_room (avMapper ci) n"
    by blast
  obtain m S' where col: "collect_dnfs out (dnf_index ix) S = (m, S')" by (metis surj_pair)
  have "set out \<subseteq> {of_nat i | i. i < length cs}" unfolding r(2) hits_def by auto
  from collect_dnfs_ok [OF ix(2) this col] have
    c: "links_serve m cs ls" "S' = S \<union> (\<Union>x \<in> set out. set (entry (dnf_index ix) x))" by simp_all
  have e: "set (entry (dnf_index ix) (of_nat i)) = {d. (d, cs ! i) \<in> set ls}" if "i < length cs" for i
    using ix(2) that by (force simp: links_serve_def)
  have "(\<Union>x \<in> set out. set (entry (dnf_index ix) x)) = {d. \<exists>i < length cs. satisfies asg (cs ! i) \<and> (d, cs ! i) \<in> set ls}"
    unfolding r(2) hits_def using e by auto
  also have "\<dots> = {d. \<exists>c. (d, c) \<in> set ls \<and> satisfies asg c}"
  proof -
    have "\<exists>i < length cs. cs ! i = c" if "(d, c) \<in> set ls" for d c
      using that ix(3) unfolding in_set_conv_nth [symmetric] by force
    then show ?thesis by blast
  qed
  finally show ?thesis using r col c assms(1)
    by (intro exI [of _ "ix\<lparr>conjIndex := ci, dnf_index := m\<rparr>"]) (simp add: DNFInvIndex_retrieve_def serves_def)
qed

text \<open>Saving and loading.\<close>

definition DNFInvIndex_sized :: "DNFInvIndex \<Rightarrow> bool" where
  "DNFInvIndex_sized ix \<longleftrightarrow> index_sized (conjIndex ix) \<and> IDMapper_sized (conjunctionMapper ix) \<and>
     length (dnf_index ix) < 2 ^ 64 \<and> list_all (\<lambda>(_, ds). length ds < 2 ^ 64) (dnf_index ix)"

lemma get_put_link:
  assumes "length (snd e) < 2 ^ 64"
  shows "(do { (c, s1) \<leftarrow> get32 ((\<lambda>(c, ds). put32 c @ put_vector put32 ds) e @ s); (ds, s2) \<leftarrow> get_vector get32 s1; Some ((c, ds), s2) }) = Some (e, s)"
  using get_put_vector [of "snd e" get32 put32 s] assms by (cases e) simp

lemma load_save_DNF:
  assumes "serves ix cs ls" "DNFInvIndex_sized ix"
  shows "\<exists>ix'. DNFInvIndex_load_binary (DNFInvIndex_save_binary ix @ s) = Some (ix', s) \<and> serves ix' cs ls \<and>
    numDNF ix' = numDNF ix \<and> (\<forall>n. AVMapper_room (avMapper (conjIndex ix)) n \<longrightarrow> AVMapper_room (avMapper (conjIndex ix')) n)"
proof -
  have ix: "indexes (conjIndex ix) cs" "mapper_serves (conjunctionMapper ix) cs" "links_serve (dnf_index ix) cs ls"
    using assms(1) by (simp_all add: serves_def)
  have sz: "index_sized (conjIndex ix)" "IDMapper_sized (conjunctionMapper ix)" "length (dnf_index ix) < 2 ^ 64"
    "\<And>e. e \<in> set (dnf_index ix) \<Longrightarrow> length (snd e) < 2 ^ 64"
    using assms(2) by (auto simp: DNFInvIndex_sized_def list_all_iff)
  let ?g = "\<lambda>s. do { (c, s1) \<leftarrow> get32 s; (ds, s2) \<leftarrow> get_vector get32 s1; Some ((c, ds), s2) }"
    and ?p = "\<lambda>(c, ds). put32 c @ put_vector put32 ds"
  from load_save_index [OF ix(1) sz(1)] obtain ci where
    ci: "ConjunctionInvIndex_load_binary (ConjunctionInvIndex_save_binary (conjIndex ix) @ put_vector ?p (sort (dnf_index ix)) @
        IDMapper_save_binary (conjunctionMapper ix) @ put32 (numDNF ix) @ s) = Some (ci, put_vector ?p (sort (dnf_index ix)) @
        IDMapper_save_binary (conjunctionMapper ix) @ put32 (numDNF ix) @ s)" "indexes ci cs"
      "\<forall>n. AVMapper_room (avMapper (conjIndex ix)) n \<longrightarrow> AVMapper_room (avMapper ci) n" by blast
  have links: "get_vector ?g (put_vector ?p (sort (dnf_index ix)) @ s) = Some (sort (dnf_index ix), s)" for s
    using sz(3,4) by (intro get_put_vector get_put_link) simp_all
  let ?cm = "\<lparr>dict = sort (dict (conjunctionMapper ix))\<rparr>"
  have cm: "IDMapper_load_binary (IDMapper_save_binary (conjunctionMapper ix) @ s) = Some (?cm, s)" for s
    using ix(2) sz(2) by (intro IDMapper_load_save) (simp_all add: mapper_serves_def)
  have "IDMapper_eq (conjunctionMapper ix) ?cm" using ix(2) by (intro IDMapper_sort_eq) (simp add: mapper_serves_def)
  then have "mapper_serves ?cm cs" using ix(2) by (simp add: mapper_serves_def IDMapper_eq_def)
  moreover have d: "distinct (map fst (dnf_index ix))" using ix(3) by (simp add: links_serve_def)
  then have "links_serve (sort (dnf_index ix)) cs ls" using ix(3) by (simp add: links_serve_def entry_sort distinct_map)
  moreover have "foldl (\<lambda>d (k, v). AList.update k v d) [] (sort (dnf_index ix)) = sort (dnf_index ix)"
    using foldl_update_distinct [of "[]" "sort (dnf_index ix)"] d by (simp add: distinct_map)
  ultimately show ?thesis using ci links cm assms(1)
    by (simp add: DNFInvIndex_load_binary_def DNFInvIndex_save_binary_def serves_def)
qed

section \<open>Using the index\<close>

text \<open>\<open>run ds qs ix\<close>: the index \<open>ix\<close> was reached by adding the formulas \<open>ds\<close> and answering the queries \<open>qs\<close> (latest first), in
  any order, with any reloads of an index of fewer than \<open>2 ^ 64\<close> elements per container between. \<open>seen\<close> counts the attribute-value pairs
  of them all, which bounds the identifiers the index has given out.\<close>

inductive run :: "(u32 \<times> DNF) list \<Rightarrow> (string \<times> string) list list \<Rightarrow> DNFInvIndex \<Rightarrow> bool" where
  run_new: "run [] [] DNFInvIndex_new"
| run_add: "run ds qs ix \<Longrightarrow> addDNF d dnf ix = Some ix' \<Longrightarrow> run (ds @ [(d, dnf)]) qs ix'"
| run_retrieve: "run ds qs ix \<Longrightarrow> DNFInvIndex_retrieve asg ix S = Some (ix', S') \<Longrightarrow> run ds (asg # qs) ix'"
| run_reload: "run ds qs ix \<Longrightarrow> DNFInvIndex_sized ix \<Longrightarrow>
    DNFInvIndex_load_binary (DNFInvIndex_save_binary ix) = Some (ix', []) \<Longrightarrow> run ds qs ix'"

definition seen :: "(u32 \<times> DNF) list \<Rightarrow> (string \<times> string) list list \<Rightarrow> nat" where
  "seen ds qs = (\<Sum>(d, dnf) \<leftarrow> ds. pairs_of (conjunctions dnf)) + (\<Sum>q \<leftarrow> qs. length q)"

text \<open>What the theorems ask of the formulas and of the queries.\<close>

definition good_formulas :: "(u32 \<times> DNF) list \<Rightarrow> bool" where
  "good_formulas ds \<longleftrightarrow> (\<forall>(d, dnf) \<in> set ds. list_all good (conjunctions dnf))"

definition good_queries :: "(string \<times> string) list list \<Rightarrow> bool" where
  "good_queries qs \<longleftrightarrow> (\<forall>q \<in> set qs. distinct (map fst q))"

definition links :: "(u32 \<times> DNF) list \<Rightarrow> (u32 \<times> Conjunction) list" where
  "links ds = concat (map (\<lambda>(d, dnf). map (Pair d) (conjunctions dnf)) ds)"

definition index_inv :: "(u32 \<times> DNF) list \<Rightarrow> nat \<Rightarrow> DNFInvIndex \<Rightarrow> Conjunction list \<Rightarrow> bool" where
  "index_inv ds n ix cs \<longleftrightarrow> serves ix cs (links ds) \<and> length cs \<le> n \<and>
     AVMapper_room (avMapper (conjIndex ix)) (2 ^ 32 - n) \<and> numDNF ix = of_nat (length ds)"

lemma pairs_of_ge:
  assumes "list_all good cs" shows "length cs \<le> pairs_of cs"
proof -
  have "0 < length (av_pairs c)" if "good c" for c
    using that by (auto simp: good_def wf_conj_def av_pairs_def list_all_iff neq_Nil_conv)
  then have "list_all (\<lambda>c. 0 < length (av_pairs c)) cs" using assms by (auto simp: list_all_iff)
  then show ?thesis by (induction cs) (simp_all add: pairs_of_def del: length_greater_0_conv)
qed

lemma add_inv:
  assumes "index_inv ds n ix cs" "list_all good (conjunctions dnf)" "n + pairs_of (conjunctions dnf) \<le> 2 ^ 32"
  shows "\<exists>ix' cs'. addDNF d dnf ix = Some ix' \<and> index_inv (ds @ [(d, dnf)]) (n + pairs_of (conjunctions dnf)) ix' cs'"
proof -
  let ?p = "pairs_of (conjunctions dnf)"
  have r: "AVMapper_room (avMapper (conjIndex ix)) (?p + (2 ^ 32 - (n + ?p)))"
    using assms(1,3) by (simp add: index_inv_def)
  have l: "length cs + length (conjunctions dnf) \<le> 2 ^ 32" "length cs \<le> n"
    using assms(1,3) pairs_of_ge [OF assms(2)] by (simp_all add: index_inv_def)
  from assms(1) have "serves ix cs (links ds)" by (simp add: index_inv_def)
  from link_conjunctions_ok [OF this assms(2) l(1) r, of d] obtain ix' cs' where
    ix': "link_conjunctions d (conjunctions dnf) ix = Some ix'" "serves ix' cs' (links ds @ map (Pair d) (conjunctions dnf))"
      "length cs' \<le> length cs + length (conjunctions dnf)" "AVMapper_room (avMapper (conjIndex ix')) (2 ^ 32 - (n + ?p))"
      "numDNF ix' = numDNF ix" by blast
  have "index_inv (ds @ [(d, dnf)]) (n + ?p) (ix'\<lparr>numDNF := numDNF ix' + 1\<rparr>) cs'"
    using ix' assms(1) l(2) pairs_of_ge [OF assms(2)] by (simp add: index_inv_def links_def serves_def)
  with ix'(1) show ?thesis by (auto simp: addDNF_def)
qed

lemma retrieve_inv:
  assumes "index_inv ds n ix cs" "distinct (map fst asg)" "n + length asg + 1 < 2 ^ 32"
  shows "\<exists>ix'. DNFInvIndex_retrieve asg ix S =
      Some (ix', S \<union> {d. \<exists>dnf. (d, dnf) \<in> set ds \<and> list_ex (satisfies asg) (conjunctions dnf)}) \<and>
    index_inv ds (n + length asg) ix' cs"
proof -
  have ix: "serves ix cs (links ds)" "length cs \<le> n" "AVMapper_room (avMapper (conjIndex ix)) (2 ^ 32 - n)" "numDNF ix = of_nat (length ds)"
    using assms(1) by (simp_all add: index_inv_def)
  have "query_ok cs asg"
    using ix(1,2) assms(2,3) by (auto simp: query_ok_def serves_def good_def list_all_iff)
  moreover have "AVMapper_room (avMapper (conjIndex ix)) (length asg + (2 ^ 32 - (n + length asg)))" using ix(3) assms(3) by simp
  ultimately obtain ix' where
    ix': "DNFInvIndex_retrieve asg ix S = Some (ix', S \<union> {d. \<exists>c. (d, c) \<in> set (links ds) \<and> satisfies asg c})"
      "serves ix' cs (links ds)" "AVMapper_room (avMapper (conjIndex ix')) (2 ^ 32 - (n + length asg))"
    using DNFInvIndex_retrieve_ok [OF ix(1)] by blast
  have "{d. \<exists>c. (d, c) \<in> set (links ds) \<and> satisfies asg c} = {d. \<exists>dnf. (d, dnf) \<in> set ds \<and> list_ex (satisfies asg) (conjunctions dnf)}"
    by (force simp: links_def list_ex_iff)
  moreover have "numDNF ix' = numDNF ix" using ix'(1) by (auto simp: DNFInvIndex_retrieve_def split: prod.splits Option.bind_splits)
  ultimately show ?thesis using ix' ix by (auto simp: index_inv_def)
qed

lemma reload_inv:
  assumes "index_inv ds n ix cs" "DNFInvIndex_sized ix"
  shows "\<exists>ix'. DNFInvIndex_load_binary (DNFInvIndex_save_binary ix @ s) = Some (ix', s) \<and> index_inv ds n ix' cs"
  using load_save_DNF [of ix cs "links ds" s] assms by (auto simp: index_inv_def)

lemma index_inv_new: "index_inv [] 0 DNFInvIndex_new []"
proof -
  have "AVMapper_room AVMapper_new (2 ^ 32)" by (simp add: AVMapper_room_def AVMapper_new_def IDMapper_room_def IDMapper_new_def)
  then show ?thesis using serves_new
    by (auto simp: index_inv_def links_def DNFInvIndex_new_def ConjunctionInvIndex_new_def)
qed

lemma run_invariant:
  "run ds qs ix \<Longrightarrow> good_formulas ds \<Longrightarrow> good_queries qs \<Longrightarrow> seen ds qs + 1 < 2 ^ 32 \<Longrightarrow> \<exists>cs. index_inv ds (seen ds qs) ix cs"
proof (induction rule: run.induct)
  case run_new
  then show ?case using index_inv_new by (auto simp: seen_def)
next
  case (run_add ds qs ix d dnf ix')
  have n: "seen (ds @ [(d, dnf)]) qs = seen ds qs + pairs_of (conjunctions dnf)" by (simp add: seen_def)
  have g: "good_formulas ds" "list_all good (conjunctions dnf)" using run_add.prems(1) by (auto simp: good_formulas_def)
  then obtain cs where "index_inv ds (seen ds qs) ix cs" using run_add.IH run_add.prems(2,3) n by auto
  from add_inv [OF this g(2), of d] run_add.hyps(2) run_add.prems(3) n show ?case by auto
next
  case (run_retrieve ds qs ix asg S ix' S')
  have n: "seen ds (asg # qs) = seen ds qs + length asg" by (simp add: seen_def)
  have g: "good_queries qs" "distinct (map fst asg)" using run_retrieve.prems(2) by (auto simp: good_queries_def)
  then obtain cs where "index_inv ds (seen ds qs) ix cs" using run_retrieve.IH run_retrieve.prems(1,3) n by auto
  from retrieve_inv [OF this g(2), of S] run_retrieve.hyps(2) run_retrieve.prems(3) n show ?case by auto
next
  case (run_reload ds qs ix ix')
  then obtain cs where "index_inv ds (seen ds qs) ix cs" by auto
  from reload_inv [OF this run_reload.hyps(2), of "[]"] run_reload.hyps(3) show ?case by auto
qed

section \<open>Conjunctions that print the same\<close>

text \<open>\<open>addDNF\<close> files the formula of a conjunction under the first conjunction with the same printed form, which then answers for both.\<close>

definition single :: "Conjunction \<Rightarrow> DNF" where
  "single c = \<lparr>conjunctions = [c]\<rparr>"

lemma same_print:
  assumes "wf_conj c" "Conjunction_toString c' = Conjunction_toString c" "distinct (map fst asg)"
    and "length (av_pairs c) + length asg + 1 < 2 ^ 32"
  shows "\<exists>ix1 ix2 ix3. addDNF d1 (single c) DNFInvIndex_new = Some ix1 \<and> addDNF d2 (single c') ix1 = Some ix2 \<and>
    DNFInvIndex_retrieve asg ix2 S = Some (ix3, S \<union> (if satisfies asg c then {d1, d2} else {}))"
proof -
  obtain s where s: "Conjunction_toString c = Some s" "Conjunction_toString c' = Some s"
    using Conjunction_tokens [OF assms(1)] assms(2) by simp
  have "mapper_serves IDMapper_new []" by (simp add: mapper_serves_def IDMapper_new_ok) (simp add: IDMapper_new_def)
  from mapper_add [OF this _ s(1)] obtain cm where
    cm: "IDMapper_insert IDMapper_new s = (cm, (0, True))" "mapper_serves cm [c]" by (auto simp: IDMapper_new_ok)
  have room: "AVMapper_room (avMapper ConjunctionInvIndex_new) (length (av_pairs c) + (length asg + 1))"
    using assms(4) by (simp add: ConjunctionInvIndex_new_def AVMapper_room_def AVMapper_new_def IDMapper_room_def IDMapper_new_def)
  from indexes_add [OF indexes_new room] obtain ci where
    ci: "addConjunction 0 c ConjunctionInvIndex_new = Some ci" "indexes ci [c]" "AVMapper_room (avMapper ci) (length asg + 1)" by auto
  have known: "IDMapper_insert cm s = (cm, (0, False))"
    using cm(2) s(1) by (intro IDMapper_insert_known) (simp add: mapper_serves_def)
  have add: "addDNF d1 (single c) DNFInvIndex_new = Some \<lparr>conjIndex = ci, dnf_index = [(0, [d1])], conjunctionMapper = cm, numDNF = 1\<rparr>"
    "addDNF d2 (single c') \<lparr>conjIndex = ci, dnf_index = [(0, [d1])], conjunctionMapper = cm, numDNF = 1\<rparr> =
      Some \<lparr>conjIndex = ci, dnf_index = [(0, [d1, d2])], conjunctionMapper = cm, numDNF = 2\<rparr>"
    using s cm(1) ci(1) known by (simp_all add: addDNF_def link_conjunction_def DNFInvIndex_new_def single_def hmap_upd_def)
  have "query_ok [c] asg" using assms(1,3,4) by (simp add: query_ok_def)
  from retrieve_ok [OF ci(2) this ci(3)] obtain ci' out where
    r: "retrieve asg ci [] = Some (ci', out)" "distinct out" "set out = (if satisfies asg c then {0} else {})"
    by (auto simp: hits_def split: if_splits)
  have "out = (if satisfies asg c then [0] else [])"
    using r(2,3) by (cases out; cases "tl out") (auto split: if_splits)
  with r(1) have "\<exists>ix3. DNFInvIndex_retrieve asg \<lparr>conjIndex = ci, dnf_index = [(0, [d1, d2])], conjunctionMapper = cm, numDNF = 2\<rparr> S =
      Some (ix3, S \<union> (if satisfies asg c then {d1, d2} else {}))"
    by (simp add: DNFInvIndex_retrieve_def hmap_upd_def)
  with add show ?thesis by blast
qed

text \<open>One value with a space in it, and the two values it looks like.\<close>

definition one_value :: "string \<Rightarrow> string \<Rightarrow> string \<Rightarrow> Conjunction" where
  "one_value at u v = \<lparr>assignments = [\<lparr>attribute = at, belongsTo = True, vals = [u @ '' '' @ v]\<rparr>]\<rparr>"

definition two_values :: "string \<Rightarrow> string \<Rightarrow> string \<Rightarrow> Conjunction" where
  "two_values at u v = \<lparr>assignments = [\<lparr>attribute = at, belongsTo = True, vals = [u, v]\<rparr>]\<rparr>"

lemma values_print: "Conjunction_toString (two_values at u v) = Conjunction_toString (one_value at u v)"
  by (simp add: Conjunction_toString_def Assignment_toString_def one_value_def two_values_def join_def)

lemma one_value_satisfies: "satisfies asg (one_value at u v) \<longleftrightarrow> (at, u @ '' '' @ v) \<in> set asg"
  by (simp add: satisfies_def one_value_def)

lemma two_values_satisfies: "satisfies asg (two_values at u v) \<longleftrightarrow> (at, u) \<in> set asg \<or> (at, v) \<in> set asg"
  by (auto simp: satisfies_def two_values_def)

section \<open>Properties\<close>

text \<open>A small index for the examples: formula 1 asks for age 3 and not state CA, formula 2 for gender F or for
  age 3 or 4.\<close>

definition c_age :: Conjunction where
  "c_age = \<lparr>assignments = [\<lparr>attribute = ''age'', belongsTo = True, vals = [''3'']\<rparr>,
     \<lparr>attribute = ''state'', belongsTo = False, vals = [''CA'']\<rparr>]\<rparr>"

definition c_ages :: Conjunction where
  "c_ages = \<lparr>assignments = [\<lparr>attribute = ''age'', belongsTo = True, vals = [''3'', ''4'']\<rparr>]\<rparr>"

lemma good_examples: "good c_age" "good c_ages"
  by (simp_all add: good_def wf_conj_def plain_conj_def plain_def c_age_def c_ages_def)

definition example_index :: DNFInvIndex where
  "example_index =
     \<lparr>conjIndex = \<lparr>index = [(1, [((0, 0), [(0, True), (1, True)]), ((1, 0), [(0, False)]), ((0, 1), [(1, True)])])],
        zeroConjunctionList = [],
        avMapper = \<lparr>attrMapper = \<lparr>dict = [(''age'', 0), (''state'', 1)]\<rparr>,
          valueMapper = [\<lparr>dict = [(''3'', 0), (''4'', 1)]\<rparr>, \<lparr>dict = [(''CA'', 0)]\<rparr>]\<rparr>\<rparr>,
      dnf_index = [(0, [1]), (1, [2])],
      conjunctionMapper = \<lparr>dict = [(''age t 3 & state f CA'', 0), (''age t 3 4'', 1)]\<rparr>,
      numDNF = 2\<rparr>"

lemma example_run:
  "run [(1, \<lparr>conjunctions = [c_age]\<rparr>), (2, \<lparr>conjunctions = [c_ages]\<rparr>)] [] example_index" "DNFInvIndex_sized example_index"
proof -
  have "addDNF 1 \<lparr>conjunctions = [c_age]\<rparr> DNFInvIndex_new \<bind> addDNF 2 \<lparr>conjunctions = [c_ages]\<rparr> = Some example_index"
    by code_simp
  then obtain ix1 where a: "addDNF 1 \<lparr>conjunctions = [c_age]\<rparr> DNFInvIndex_new = Some ix1"
      "addDNF 2 \<lparr>conjunctions = [c_ages]\<rparr> ix1 = Some example_index" by (auto simp: bind_eq_Some_conv)
  from run_add [OF run_add [OF run_new a(1)] a(2)]
  show "run [(1, \<lparr>conjunctions = [c_age]\<rparr>), (2, \<lparr>conjunctions = [c_ages]\<rparr>)] [] example_index" by simp
  show "DNFInvIndex_sized example_index"
    by (simp add: DNFInvIndex_sized_def index_sized_def AVMapper_sized_def IDMapper_sized_def example_index_def)
qed

lemma example_good: "good_formulas [(1, \<lparr>conjunctions = [c_age]\<rparr>), (2, \<lparr>conjunctions = [c_ages]\<rparr>)]"
  by (simp add: good_formulas_def good_examples)

lemma example_seen: "seen [(1, \<lparr>conjunctions = [c_age]\<rparr>), (2, \<lparr>conjunctions = [c_ages]\<rparr>)] qs = 4 + (\<Sum>q \<leftarrow> qs. length q)"
  by (simp add: seen_def pairs_of_def av_pairs_def c_age_def c_ages_def)

text \<open>C17. A query returns exactly the identifiers of the formulas that the given attributes satisfy, and adds them to the given set, whatever
  sequence of additions, queries and reloads led to the index: the parallel walk over the posting lists ends, and misses and invents
  nothing. The conditions are that every conjunction of every formula added is well-formed (it has assignments, each attribute once and with a
  value, each value once) and printed from plain strings (no spaces, not the ampersand), that this query and every earlier
  one has each attribute once, and that all of them together have fewer than \<open>2 ^ 32 - 1\<close> attribute-value pairs. Without the plain strings it
  is false: see the last property of this theory.\<close>

theorem retrieve_exact:
  assumes "run ds qs ix" "good_formulas ds" "good_queries (asg # qs)" "seen ds (asg # qs) + 1 < 2 ^ 32"
  shows "\<exists>ix'. DNFInvIndex_retrieve asg ix S =
      Some (ix', S \<union> {d. \<exists>dnf. (d, dnf) \<in> set ds \<and> list_ex (satisfies asg) (conjunctions dnf)}) \<and>
    run ds (asg # qs) ix'"
proof -
  have q: "good_queries qs" "distinct (map fst asg)" "seen ds qs + length asg + 1 < 2 ^ 32" "seen ds qs + 1 < 2 ^ 32"
    using assms(3,4) by (simp_all add: good_queries_def seen_def)
  obtain cs where "index_inv ds (seen ds qs) ix cs" using run_invariant [OF assms(1,2) q(1,4)] by blast
  from retrieve_inv [OF this q(2,3)] show ?thesis using run_retrieve [OF assms(1)] by blast
qed

theorem retrieve_exact_witness:
  "\<exists>ix'. DNFInvIndex_retrieve [(''age'', ''3''), (''state'', ''CA'')] example_index {} = Some (ix', {2}) \<and>
    run [(1, \<lparr>conjunctions = [c_age]\<rparr>), (2, \<lparr>conjunctions = [c_ages]\<rparr>)] [[(''age'', ''3''), (''state'', ''CA'')]] ix'"
proof -
  let ?ds = "[(1 :: u32, \<lparr>conjunctions = [c_age]\<rparr>), (2, \<lparr>conjunctions = [c_ages]\<rparr>)]"
    and ?asg = "[(''age'', ''3''), (''state'', ''CA'')]"
  from retrieve_exact [OF example_run(1) example_good, of ?asg "{}"] obtain ix' where
    "DNFInvIndex_retrieve ?asg example_index {} = Some (ix', {} \<union> {d. \<exists>dnf. (d, dnf) \<in> set ?ds \<and> list_ex (satisfies ?asg) (conjunctions dnf)})"
    "run ?ds [?asg] ix'" by (auto simp: example_seen good_queries_def)
  moreover have "{} \<union> {d. \<exists>dnf. (d, dnf) \<in> set ?ds \<and> list_ex (satisfies ?asg) (conjunctions dnf)} = {2}"
    by (auto simp: satisfies_def c_age_def c_ages_def)
  ultimately show ?thesis by auto
qed

text \<open>C18. Adding a formula keeps the invariant of the index and succeeds while identifiers last. The invariant \<open>index_inv ds n ix cs\<close> is about what the
  index stores: the posting lists of every size and attribute-value pair hold, in the order of their identifiers, exactly the conjunctions
  \<open>cs\<close> that mention the pair; the mapper numbers the printed forms of \<open>cs\<close> in that order; each identifier is linked to exactly the formulas
  of \<open>ds\<close> that contain its conjunction; at most \<open>n\<close> identifiers are used and the formulas are counted. The formula added has
  well-formed conjunctions of plain strings, and the pairs together with the \<open>n\<close> seen before are no more than \<open>2 ^ 32\<close>.\<close>

theorem addDNF_succeeds:
  assumes "index_inv ds n ix cs" "list_all good (conjunctions dnf)" "n + pairs_of (conjunctions dnf) \<le> 2 ^ 32"
  shows "\<exists>ix' cs'. addDNF d dnf ix = Some ix' \<and> index_inv (ds @ [(d, dnf)]) (n + pairs_of (conjunctions dnf)) ix' cs' \<and>
    totalNumDNF ix' = of_nat (length ds + 1)"
  using add_inv [OF assms, of d] by (auto simp: index_inv_def totalNumDNF_def)

theorem addDNF_succeeds_witness:
  "\<exists>ix' cs'. addDNF 5 \<lparr>conjunctions = [c_age, c_ages]\<rparr> DNFInvIndex_new = Some ix' \<and>
    index_inv ([] @ [(5, \<lparr>conjunctions = [c_age, c_ages]\<rparr>)]) (0 + pairs_of (conjunctions \<lparr>conjunctions = [c_age, c_ages]\<rparr>)) ix' cs' \<and>
    totalNumDNF ix' = of_nat (length ([] :: (u32 \<times> DNF) list) + 1)"
  by (rule addDNF_succeeds [OF index_inv_new])
    (simp_all add: good_examples pairs_of_def av_pairs_def c_age_def c_ages_def, simp_all add: good_examples [unfolded c_age_def c_ages_def])

text \<open>C19. An index that is saved and loaded again answers every query as the original does, counts as many formulas, and the bytes behind it
  are left alone. The conditions on the formulas and the queries are those of the exactness of a query.\<close>

theorem reload_same_answers:
  assumes "run ds qs ix" "good_formulas ds" "DNFInvIndex_sized ix" "good_queries (asg # qs)" "seen ds (asg # qs) + 1 < 2 ^ 32"
  shows "\<exists>ix'. DNFInvIndex_load_binary (DNFInvIndex_save_binary ix @ s) = Some (ix', s) \<and> totalNumDNF ix' = totalNumDNF ix \<and>
    map_option snd (DNFInvIndex_retrieve asg ix' S) = map_option snd (DNFInvIndex_retrieve asg ix S)"
proof -
  have q: "good_queries qs" "distinct (map fst asg)" "seen ds qs + length asg + 1 < 2 ^ 32" "seen ds qs + 1 < 2 ^ 32"
    using assms(4,5) by (simp_all add: good_queries_def seen_def)
  obtain cs where cs: "index_inv ds (seen ds qs) ix cs" using run_invariant [OF assms(1,2) q(1,4)] by blast
  from reload_inv [OF this assms(3), of s] obtain ix' where
    ix': "DNFInvIndex_load_binary (DNFInvIndex_save_binary ix @ s) = Some (ix', s)" "index_inv ds (seen ds qs) ix' cs" by blast
  from retrieve_inv [OF cs q(2,3), of S] retrieve_inv [OF ix'(2) q(2,3), of S] ix' cs
  show ?thesis by (auto simp: index_inv_def totalNumDNF_def)
qed

theorem reload_same_answers_witness:
  "\<exists>ix'. DNFInvIndex_load_binary (DNFInvIndex_save_binary example_index @ [7]) = Some (ix', [7]) \<and>
    totalNumDNF ix' = totalNumDNF example_index \<and>
    map_option snd (DNFInvIndex_retrieve [(''age'', ''4'')] ix' {}) = map_option snd (DNFInvIndex_retrieve [(''age'', ''4'')] example_index {})"
  by (rule reload_same_answers [OF example_run(1) example_good example_run(2)]) (simp_all add: example_seen good_queries_def)

text \<open>C20. Conjunctions whose attributes and values have no spaces in them and are not the ampersand are told apart by their
  printed form, by which \<open>addDNF\<close> identifies them.\<close>

theorem toString_identifies:
  assumes "wf_conj c" "wf_conj d" "plain_conj c" "plain_conj d"
  shows "Conjunction_toString c = Conjunction_toString d \<longleftrightarrow> c = d"
  using toString_inj [OF assms] by auto

theorem toString_identifies_witness: "Conjunction_toString c_age = Conjunction_toString c_ages \<longleftrightarrow> c_age = c_ages"
  using good_examples by (intro toString_identifies) (simp_all add: good_def)

text \<open>C21. With a space in a value it is not. For every attribute \<open>at\<close> and all strings \<open>u\<close>, \<open>v\<close>, the conjunctions
  "\<open>at\<close> is the one value \<open>u v\<close>" and "\<open>at\<close> is \<open>u\<close> or \<open>v\<close>" print the same but mean different things. When a formula \<open>d1\<close> of the
  first and then a formula \<open>d2\<close> of the second are added to a new index, the second is filed under the first
  conjunction: every query with distinct attributes gets both formulas or none, by whether it satisfies the first. So the
  query that \<open>at\<close> is \<open>u\<close> satisfies \<open>d2\<close> and does not find it.\<close>

theorem toString_collision:
  assumes "distinct (map fst asg)" "length asg + 2 < 2 ^ 32"
  shows "Conjunction_toString (two_values at u v) = Conjunction_toString (one_value at u v) \<and>
    satisfies [(at, u)] (two_values at u v) \<and> \<not> satisfies [(at, u)] (one_value at u v) \<and>
    (\<exists>ix1 ix2 ix3. addDNF d1 (single (one_value at u v)) DNFInvIndex_new = Some ix1 \<and> addDNF d2 (single (two_values at u v)) ix1 = Some ix2 \<and>
      DNFInvIndex_retrieve asg ix2 S = Some (ix3, S \<union> (if satisfies asg (one_value at u v) then {d1, d2} else {})))"
proof -
  have "wf_conj (one_value at u v)" "length (av_pairs (one_value at u v)) = 1" by (simp_all add: wf_conj_def one_value_def av_pairs_def)
  moreover have "u \<noteq> u @ '' '' @ v" by simp
  ultimately show ?thesis
    using same_print [OF _ values_print assms(1), of at u v d1 d2 S] assms(2) values_print
    by (simp add: one_value_satisfies two_values_satisfies)
qed

theorem toString_collision_witness:
  "\<exists>ix1 ix2 ix3. addDNF 1 (single (one_value ''age'' ''3'' ''4'')) DNFInvIndex_new = Some ix1 \<and>
    addDNF 2 (single (two_values ''age'' ''3'' ''4'')) ix1 = Some ix2 \<and> DNFInvIndex_retrieve [(''age'', ''3'')] ix2 {} = Some (ix3, {})"
  using toString_collision [of "[(''age'', ''3'')]" "''age''" "''3''" "''4''" 1 2 "{}"] by (simp add: one_value_satisfies)

end
