(* ===== verification/Zambezi_Bloom.thy ===== *)
theory Zambezi_Bloom
  imports Zambezi_Utils
begin

text \<open>
  The Bloom filters of the positional index (\<open>source/ir/Zambezi/bloom/BloomFilter.cpp\<close>): a filter is an array of
  32-bit words, a value sets one bit for each round of the chained integer hash. All sizes are
  \<open>uint32_t\<close> and wrap; a modulus of zero is undefined.
\<close>

definition BLOOM_FILTER_UNIT_SIZE :: u32 where "BLOOM_FILTER_UNIT_SIZE = 32"
definition DEFAULT_HASH_SEED :: u32 where "DEFAULT_HASH_SEED = 0x7ed55d16"

definition computeLength :: "u32 \<Rightarrow> u32 \<Rightarrow> u32" where
  "computeLength df bitsPerElement =
     (df * bitsPerElement + BLOOM_FILTER_UNIT_SIZE - 1) div BLOOM_FILTER_UNIT_SIZE"

text \<open>One round: the next seed and the cell and bit it selects in a filter of \<open>bits\<close> bits.\<close>

definition bloom_step :: "u32 \<Rightarrow> u32 \<Rightarrow> u32 \<Rightarrow> (u32 \<times> nat \<times> nat) option" where
  "bloom_step bits val seed =
     (let seed' = hash val seed in
      if bits = 0 then None
      else let h = seed' mod bits in
        Some (seed', unat (h div BLOOM_FILTER_UNIT_SIZE), unat (h mod BLOOM_FILTER_UNIT_SIZE)))"

primrec bloom_insert_loop :: "u32 list \<Rightarrow> u32 \<Rightarrow> u32 \<Rightarrow> u32 \<Rightarrow> nat \<Rightarrow> u32 list option" where
  "bloom_insert_loop flt bits val seed 0 = Some flt"
| "bloom_insert_loop flt bits val seed (Suc n) = do {
     (seed', i, k) \<leftarrow> bloom_step bits val seed;
     w \<leftarrow> rd flt i;
     flt' \<leftarrow> wr flt i (w OR push_bit k 1);
     bloom_insert_loop flt' bits val seed' n
   }"

definition bloom_insert :: "u32 list \<Rightarrow> u32 \<Rightarrow> u32 \<Rightarrow> u32 \<Rightarrow> u32 list option" where
  "bloom_insert flt filterSize nbHash val =
     bloom_insert_loop flt (filterSize * BLOOM_FILTER_UNIT_SIZE) val DEFAULT_HASH_SEED (unat nbHash)"

primrec bloom_contains_loop :: "u32 list \<Rightarrow> u32 \<Rightarrow> u32 \<Rightarrow> u32 \<Rightarrow> nat \<Rightarrow> bool option" where
  "bloom_contains_loop flt bits val seed 0 = Some True"
| "bloom_contains_loop flt bits val seed (Suc n) = do {
     (seed', i, k) \<leftarrow> bloom_step bits val seed;
     w \<leftarrow> rd flt i;
     if w AND push_bit k 1 = 0 then Some False else bloom_contains_loop flt bits val seed' n
   }"

definition bloom_contains :: "u32 list \<Rightarrow> u32 \<Rightarrow> u32 \<Rightarrow> u32 \<Rightarrow> bool option" where
  "bloom_contains flt filterSize nbHash val =
     bloom_contains_loop flt (filterSize * BLOOM_FILTER_UNIT_SIZE) val DEFAULT_HASH_SEED (unat nbHash)"

section \<open>Proofs\<close>

text \<open>\<open>covers\<close>: every bit of the first filter is set in the second.\<close>

definition covers :: "u32 list \<Rightarrow> u32 list \<Rightarrow> bool" where
  "covers f g \<longleftrightarrow> length f = length g \<and> (\<forall>i < length f. \<forall>k. bit (f ! i) k \<longrightarrow> bit (g ! i) k)"

lemma covers_bit: "covers f g \<Longrightarrow> i < length f \<Longrightarrow> bit (f ! i) k \<Longrightarrow> bit (g ! i) k"
  by (simp add: covers_def)

lemma covers_refl: "covers f f"
  by (simp add: covers_def)

lemma covers_trans: "covers f g \<Longrightarrow> covers g h \<Longrightarrow> covers f h"
  by (simp add: covers_def)

lemma covers_set: "covers f (f[i := f ! i OR v])"
  by (cases "i < length f") (auto simp: covers_def nth_list_update bit_or_iff)

text \<open>The cell a round selects lies in the filter when the bit count does not wrap.\<close>

lemma bloom_step_bound:
  assumes "unat n * 32 < 2 ^ 32" and "0 < n"
  obtains seed' i k where "bloom_step (n * BLOOM_FILTER_UNIT_SIZE) val seed = Some (seed', i, k)" "i < unat n" "k < 32"
proof -
  have b: "unat (n * 32) = unat n * 32" using assms(1) by (simp add: unat_mult_lem [THEN iffD1])
  then have nz: "n * 32 \<noteq> 0" using assms(2) by (metis mult_eq_0_iff unat_0 unat_eq_0 zero_neq_numeral word_less_nat_alt less_irrefl)
  let ?h = "hash val seed mod (n * 32)"
  have "unat ?h < unat n * 32" using nz b by (metis unat_mod mod_less_divisor unat_gt_0 unat_mod)
  then have "unat (?h div 32) < unat n" by (simp add: unat_div less_mult_imp_div_less)
  moreover have "unat (?h mod 32) < 32" by (simp add: unat_mod)
  ultimately show thesis
    using nz by (intro that) (auto simp: bloom_step_def BLOOM_FILTER_UNIT_SIZE_def Let_def)
qed

lemma bloom_insert_loop_ok:
  assumes "unat n * 32 < 2 ^ 32" "0 < n" "unat n \<le> length flt"
  shows "\<exists>flt'. bloom_insert_loop flt (n * BLOOM_FILTER_UNIT_SIZE) val seed j = Some flt' \<and> covers flt flt' \<and>
    (\<forall>g. covers flt' g \<longrightarrow> bloom_contains_loop g (n * BLOOM_FILTER_UNIT_SIZE) val seed j = Some True)"
  using assms(3)
proof (induction j arbitrary: flt seed)
  case (Suc j)
  from bloom_step_bound [OF assms(1,2), of val seed] obtain seed' i k where
    st: "bloom_step (n * BLOOM_FILTER_UNIT_SIZE) val seed = Some (seed', i, k)" "i < unat n" "k < 32" .
  define flt1 where "flt1 = flt[i := flt ! i OR push_bit k 1]"
  have i: "i < length flt" using st(2) Suc.prems by simp
  have "unat n \<le> length flt1" using Suc.prems by (simp add: flt1_def)
  from Suc.IH [OF this, of seed'] obtain flt' where
    f: "bloom_insert_loop flt1 (n * BLOOM_FILTER_UNIT_SIZE) val seed' j = Some flt'" "covers flt1 flt'"
      "\<And>g. covers flt' g \<Longrightarrow> bloom_contains_loop g (n * BLOOM_FILTER_UNIT_SIZE) val seed' j = Some True" by blast
  have c: "covers flt flt1" by (simp add: flt1_def covers_set)
  have "bloom_contains_loop g (n * BLOOM_FILTER_UNIT_SIZE) val seed (Suc j) = Some True" if "covers flt' g" for g
  proof -
    have len: "length g = length flt" using that f(2) c by (simp add: covers_def)
    have "bit (flt1 ! i) k" using i st(3) by (simp add: flt1_def bit_simps)
    then have "bit (g ! i) k"
      using covers_bit [OF covers_trans [OF f(2) that], of i k] i by (simp add: flt1_def)
    then have "bit (g ! i AND push_bit k 1) k" using st(3) by (simp add: bit_simps)
    then have "g ! i AND push_bit k 1 \<noteq> 0" by (metis bit_0_eq bot_apply bot_bool_def)
    then show ?thesis using st(1) i len f(3) [OF that] by (simp add: rd_def)
  qed
  moreover have "bloom_insert_loop flt (n * BLOOM_FILTER_UNIT_SIZE) val seed (Suc j) = Some flt'"
    using st(1) i f(1) by (simp add: rd_def wr_def flt1_def)
  ultimately show ?case using covers_trans [OF c f(2)] by blast
qed (auto intro: covers_refl)

primrec bloom_insert_all :: "u32 list \<Rightarrow> u32 \<Rightarrow> u32 \<Rightarrow> u32 list \<Rightarrow> u32 list option" where
  "bloom_insert_all flt n nbHash [] = Some flt"
| "bloom_insert_all flt n nbHash (v # vs) = do {
     flt' \<leftarrow> bloom_insert flt n nbHash v;
     bloom_insert_all flt' n nbHash vs
   }"

lemma bloom_insert_all_ok:
  assumes "unat n * 32 < 2 ^ 32" "0 < n" "unat n \<le> length flt"
  shows "\<exists>flt'. bloom_insert_all flt n nbHash vs = Some flt' \<and> covers flt flt' \<and>
    (\<forall>v \<in> set vs. bloom_contains flt' n nbHash v = Some True)"
  using assms(3)
proof (induction vs arbitrary: flt)
  case (Cons v vs)
  from bloom_insert_loop_ok [OF assms(1,2) Cons.prems, of v DEFAULT_HASH_SEED "unat nbHash"] obtain f1 where
    f1: "bloom_insert flt n nbHash v = Some f1" "covers flt f1"
      "\<And>g. covers f1 g \<Longrightarrow> bloom_contains g n nbHash v = Some True"
    by (auto simp: bloom_insert_def bloom_contains_def)
  from f1(2) Cons.prems have "unat n \<le> length f1" by (simp add: covers_def)
  from Cons.IH [OF this] obtain f2 where
    f2: "bloom_insert_all f1 n nbHash vs = Some f2" "covers f1 f2"
      "\<And>v. v \<in> set vs \<Longrightarrow> bloom_contains f2 n nbHash v = Some True" by blast
  show ?case using f1 f2 covers_trans [OF f1(2) f2(2)] by auto
qed (simp add: covers_refl)

section \<open>Properties\<close>

text \<open>C31. A Bloom filter has no false negatives and is never indexed outside its array: from any filter of \<open>n\<close> words, with
  \<open>32 * n\<close> below \<open>2 ^ 32\<close>, any values can be inserted, and every one of them is found afterwards.\<close>

theorem bloom_no_false_negative:
  assumes "unat n * 32 < 2 ^ 32" and "0 < n" and "unat n \<le> length flt"
  shows "\<exists>flt'. bloom_insert_all flt n nbHash vs = Some flt' \<and> length flt' = length flt \<and>
    (\<forall>v \<in> set vs. bloom_contains flt' n nbHash v = Some True)"
  using bloom_insert_all_ok [OF assms, of nbHash vs] by (auto simp: covers_def)

theorem bloom_no_false_negative_witness:
  "\<exists>flt'. bloom_insert_all [0, 0] 2 3 [7, 9] = Some flt' \<and> length flt' = length [0, 0 :: u32] \<and>
    bloom_contains flt' 2 3 7 = Some True \<and> bloom_contains flt' 2 3 9 = Some True"
  using bloom_no_false_negative [of 2 "[0, 0]" 3 "[7, 9]"] by auto

end
