(* ===== verification/Zambezi_Buffers.thy ===== *)
theory Zambezi_Buffers
  imports Zambezi_SegmentPool
begin

text \<open>
  The in-memory postings of the attribute-score index (\<open>include/ir/Zambezi/buffer/AttrScoreBufferMaps.hpp\<close>,
  \<open>source/ir/Zambezi/buffer/AttrScoreBufferMaps.cpp\<close>): for each term an array that holds its capacity, its
  size, two unused cells, the docids and the scores. A reversed index fills both halves from the back. The spin locks of
  \<open>flags\<close> guard the swap of a pointer against concurrent readers; the model is of one thread, and keeps of them
  how many there are.
\<close>

section \<open>The model\<close>

record AttrScoreBufferMaps =
  capacity :: u32
  flags :: nat
  buffer :: "u32 list option list"
  tailPointer :: "u64 list"

definition AttrScoreBufferMaps_new :: "u32 \<Rightarrow> AttrScoreBufferMaps" where
  "AttrScoreBufferMaps_new initialSize =
     \<lparr> capacity = initialSize, flags = unat initialSize, buffer = replicate (unat initialSize) None,
       tailPointer = replicate (unat initialSize) UNDEFINED_POINTER \<rparr>"

definition getBuffer :: "AttrScoreBufferMaps \<Rightarrow> u32 \<Rightarrow> u32 list option option" where
  "getBuffer bm tid = (if unat tid < flags bm then rd (buffer bm) (unat tid) else None)"

text \<open>The copy of \<open>resetBuffer\<close> from the old array to the new one.\<close>

definition copy_postings :: "u32 list \<Rightarrow> u32 list \<Rightarrow> u32 \<Rightarrow> bool \<Rightarrow> u32 list option" where
  "copy_postings new_buffer old_buffer new_cap reverse = do {
     old_cap \<leftarrow> rd old_buffer 0;
     old_size \<leftarrow> rd old_buffer 1;
     nb1 \<leftarrow> wr new_buffer 1 old_size;
     if reverse then do {
       ds \<leftarrow> rd_seq old_buffer (unat (4 + old_cap - old_size)) (unat old_size);
       nb2 \<leftarrow> wr_seq nb1 (unat (4 + new_cap - old_size)) ds;
       ss \<leftarrow> rd_seq old_buffer (unat (4 + old_cap * 2 - old_size)) (unat old_size);
       wr_seq nb2 (unat (4 + new_cap * 2 - old_size)) ss
     } else do {
       ds \<leftarrow> rd_seq old_buffer 4 (unat old_size);
       nb2 \<leftarrow> wr_seq nb1 4 ds;
       ss \<leftarrow> rd_seq old_buffer (unat (4 + old_cap)) (unat old_size);
       wr_seq nb2 (unat (4 + new_cap)) ss
     }
   }"

definition new_posting_array :: "u32 \<Rightarrow> u32 list option" where
  "new_posting_array new_cap =
     (let n = unat (new_cap * 2 + 4) in
      if n = 0 then None else Some (new_cap # replicate (n - 1) 0))"

definition resetBuffer :: "AttrScoreBufferMaps \<Rightarrow> u32 \<Rightarrow> u32 \<Rightarrow> bool \<Rightarrow> bool \<Rightarrow> AttrScoreBufferMaps option" where
  "resetBuffer bm tid new_cap reverse copy = do {
     new_buffer \<leftarrow> new_posting_array new_cap;
     old_buffer \<leftarrow> rd (buffer bm) (unat tid);
     new_buffer' \<leftarrow> (case old_buffer of
         None \<Rightarrow> Some new_buffer
       | Some old \<Rightarrow>
           if copy then do {
             old_size \<leftarrow> rd old 1;
             if old_size > 0 then copy_postings new_buffer old new_cap reverse else Some new_buffer
           } else Some new_buffer);
     if unat tid < flags bm then Some (bm \<lparr> buffer := (buffer bm)[unat tid := Some new_buffer'] \<rparr>) else None
   }"

text \<open>\<open>expand\<close> doubles the capacity until it suffices, or for ever when it wraps to 0; it leaves \<open>flags\<close> as they
  are.\<close>

partial_function (option) expand_loop :: "u32 \<Rightarrow> u32 \<Rightarrow> u32 option" where
  "expand_loop newSize c = (if newSize > c then expand_loop newSize (c * 2) else Some c)"

definition expand :: "AttrScoreBufferMaps \<Rightarrow> u32 \<Rightarrow> AttrScoreBufferMaps option" where
  "expand bm newSize =
     (if newSize \<le> capacity bm then Some bm
      else do {
        c \<leftarrow> (if capacity bm = 0 then Some newSize else expand_loop newSize (capacity bm));
        Some (bm \<lparr> capacity := c, buffer := resize None (unat c) (buffer bm),
                   tailPointer := resize UNDEFINED_POINTER (unat c) (tailPointer bm) \<rparr>)
      })"

partial_function (option) nextIndex :: "AttrScoreBufferMaps \<Rightarrow> u32 \<Rightarrow> u32 \<Rightarrow> u32 option" where
  "nextIndex bm pos minLength =
     (let pos' = pos + 1 in
      if pos' \<ge> capacity bm then Some UNDEFINED_OFFSET
      else do {
        a \<leftarrow> rd (buffer bm) (unat pos');
        skip \<leftarrow> (case a of
            None \<Rightarrow> Some True
          | Some arr \<Rightarrow> do {
              n \<leftarrow> rd arr 1;
              c \<leftarrow> rd arr 0;
              Some (n = 0 \<or> c \<le> minLength)
            });
        if skip then nextIndex bm pos' minLength else Some pos'
      })"

text \<open>\<open>save\<close> writes the arrays up to the first null one, \<open>load\<close> reads up to the capacity 0 that stands for it.\<close>

definition save_buffer :: "u32 list \<Rightarrow> bool \<Rightarrow> u8 list option" where
  "save_buffer arr reverse = do {
     buffer_cap \<leftarrow> rd arr 0;
     sz \<leftarrow> rd arr 1;
     ds \<leftarrow> rd_seq arr (if reverse then unat (4 + buffer_cap - sz) else 4) (unat sz);
     ss \<leftarrow> rd_seq arr (if reverse then unat (4 + buffer_cap * 2 - sz) else unat (4 + buffer_cap)) (unat sz);
     Some (put32 buffer_cap @ put32 sz @ put32s ds @ put32s ss)
   }"

fun save_buffers :: "u32 list option list \<Rightarrow> bool \<Rightarrow> (u8 list \<times> nat) option" where
  "save_buffers [] reverse = Some ([], 0)"
| "save_buffers (None # bs) reverse = Some (put32 0, 0)"
| "save_buffers (Some arr # bs) reverse = do {
     b \<leftarrow> save_buffer arr reverse;
     (rest, termNum) \<leftarrow> save_buffers bs reverse;
     Some (b @ rest, Suc termNum)
   }"

definition BufferMaps_save :: "AttrScoreBufferMaps \<Rightarrow> bool \<Rightarrow> u8 list option" where
  "BufferMaps_save bm reverse = do {
     bs \<leftarrow> rd_seq (buffer bm) 0 (unat (capacity bm));
     (bytes, termNum) \<leftarrow> save_buffers bs reverse;
     ts \<leftarrow> rd_seq (tailPointer bm) 0 termNum;
     Some (put32 (capacity bm) @ bytes @ concat (map put64 ts))
   }"

definition load_buffer ::
  "AttrScoreBufferMaps \<Rightarrow> nat \<Rightarrow> u32 \<Rightarrow> bool \<Rightarrow> u8 list \<Rightarrow> (AttrScoreBufferMaps \<times> u8 list) option" where
  "load_buffer bm k buffer_cap reverse s = do {
     bm1 \<leftarrow> resetBuffer bm (of_nat k) buffer_cap reverse False;
     a \<leftarrow> rd (buffer bm1) k;
     arr \<leftarrow> a;
     (sz, s1) \<leftarrow> get32 s;
     (ds, s2) \<leftarrow> get32s (unat sz) s1;
     arr1 \<leftarrow> wr_seq arr (if reverse then unat (4 + buffer_cap - sz) else 4) ds;
     (ss, s3) \<leftarrow> get32s (unat sz) s2;
     arr2 \<leftarrow> wr_seq arr1 (if reverse then unat (4 + buffer_cap * 2 - sz) else unat (4 + buffer_cap)) ss;
     arr3 \<leftarrow> wr arr2 1 sz;
     Some (bm1 \<lparr> buffer := (buffer bm1)[k := Some arr3] \<rparr>, s3)
   }"

text \<open>\<open>n\<close> is the number of terms still to be read.\<close>

fun load_buffers ::
  "AttrScoreBufferMaps \<Rightarrow> nat \<Rightarrow> nat \<Rightarrow> bool \<Rightarrow> u8 list \<Rightarrow> (AttrScoreBufferMaps \<times> nat \<times> u8 list) option" where
  "load_buffers bm k 0 reverse s = Some (bm, k, s)"
| "load_buffers bm k (Suc n) reverse s = do {
     (buffer_cap, s1) \<leftarrow> get32 s;
     if buffer_cap = 0 then Some (bm, k, s1)
     else do {
       (bm', s2) \<leftarrow> load_buffer bm k buffer_cap reverse s1;
       load_buffers bm' (Suc k) n reverse s2
     }
   }"

primrec get64s :: "nat \<Rightarrow> u8 list \<Rightarrow> (u64 list \<times> u8 list) option" where
  "get64s 0 s = Some ([], s)"
| "get64s (Suc n) s = do {
     (w, s1) \<leftarrow> get64 s;
     (ws, s2) \<leftarrow> get64s n s1;
     Some (w # ws, s2)
   }"

definition BufferMaps_load :: "AttrScoreBufferMaps \<Rightarrow> u8 list \<Rightarrow> bool \<Rightarrow> (AttrScoreBufferMaps \<times> u8 list) option" where
  "BufferMaps_load bm s reverse = do {
     (c, s1) \<leftarrow> get32 s;
     let bm1 = bm \<lparr> capacity := c, flags := unat c, buffer := resize None (unat c) (buffer bm) \<rparr>;
     (bm2, termNum, s2) \<leftarrow> load_buffers bm1 0 (unat c) reverse s1;
     (ts, s3) \<leftarrow> get64s termNum s2;
     tp \<leftarrow> wr_seq (resize UNDEFINED_POINTER (unat c) (tailPointer bm)) 0 ts;
     Some (bm2 \<lparr> tailPointer := tp \<rparr>, s3)
   }"

section \<open>The contents of an array\<close>

text \<open>The docids and scores of one term in the order of their insertion.\<close>

definition half :: "bool \<Rightarrow> nat \<Rightarrow> u32 list \<Rightarrow> u32 list" where
  "half r cap xs = (if r then replicate (cap - length xs) 0 @ rev xs else xs @ replicate (cap - length xs) 0)"

definition posting_array :: "bool \<Rightarrow> nat \<Rightarrow> u32 list \<Rightarrow> u32 list \<Rightarrow> u32 list" where
  "posting_array r cap docs scores =
     [of_nat cap, of_nat (length docs), 0, 0] @ half r cap docs @ half r cap scores"

lemma length_half [simp]: "length xs \<le> cap \<Longrightarrow> length (half r cap xs) = cap"
  by (simp add: half_def)

lemma half_full: "length xs = cap \<Longrightarrow> half r cap xs = (if r then rev xs else xs)"
  by (simp add: half_def)

lemma half_snoc:
  assumes "length xs < cap"
  shows "(half r cap xs)[(if r then cap - length xs - 1 else length xs) := x] = half r cap (xs @ [x])"
proof -
  from assms obtain m where m: "cap = length xs + Suc m" by (metis less_imp_Suc_add add_Suc_right)
  have r: "replicate (Suc m) (0 :: u32) = replicate m 0 @ [0]" by (simp add: replicate_append_same)
  show ?thesis
  proof (cases r)
    case True
    have "(replicate (Suc m) 0 @ rev xs)[m := x] = replicate m 0 @ x # rev xs"
      unfolding r by (simp add: list_update_append)
    with True m show ?thesis by (simp add: half_def del: replicate_Suc)
  qed (simp add: half_def m)
qed

text \<open>The \<open>uint32_t\<close> arithmetic of the indices does not wrap.\<close>

lemma unat_idx:
  assumes "cap < 2 ^ 29" "n \<le> cap"
  shows "unat (4 + of_nat cap - of_nat n :: u32) = 4 + cap - n"
    and "unat (4 + of_nat cap * 2 - of_nat n :: u32) = 4 + 2 * cap - n"
    and "unat (4 + of_nat cap :: u32) = 4 + cap"
    and "unat (of_nat cap * 2 + 4 :: u32) = 2 * cap + 4"
    and "unat (of_nat n :: u32) = n" and "unat (of_nat cap :: u32) = cap"
proof -
  have w: "4 + cap - n < 2 ^ 32" "4 + 2 * cap - n < 2 ^ 32" "4 + cap < 2 ^ 32" "2 * cap + 4 < 2 ^ 32" "n < 2 ^ 32" "cap < 2 ^ 32"
    using assms by auto
  have "(4 + of_nat cap - of_nat n :: u32) = of_nat (4 + cap - n)"
    "(4 + of_nat cap * 2 - of_nat n :: u32) = of_nat (4 + 2 * cap - n)"
    "(4 + of_nat cap :: u32) = of_nat (4 + cap)" "(of_nat cap * 2 + 4 :: u32) = of_nat (2 * cap + 4)"
    using assms(2) by (simp_all add: of_nat_diff)
  then show "unat (4 + of_nat cap - of_nat n :: u32) = 4 + cap - n"
    "unat (4 + of_nat cap * 2 - of_nat n :: u32) = 4 + 2 * cap - n"
    "unat (4 + of_nat cap :: u32) = 4 + cap" "unat (of_nat cap * 2 + 4 :: u32) = 2 * cap + 4"
    "unat (of_nat n :: u32) = n" "unat (of_nat cap :: u32) = cap"
    using w by (simp_all only: unat_of_nat32)
qed

lemma new_posting_array_ok:
  assumes "cap < 2 ^ 29"
  shows "new_posting_array (of_nat cap) = Some (posting_array r cap [] [])"
proof -
  have "2 * cap + 4 - 1 = 3 + cap + cap" by simp
  then have "replicate (2 * cap + 4 - 1) (0 :: u32) = [0, 0, 0] @ replicate cap 0 @ replicate cap 0"
    by (simp only: replicate_add) (simp add: numeral_3_eq_3)
  then show ?thesis
    using unat_idx(4) [OF assms order_refl] by (simp add: new_posting_array_def posting_array_def half_def Let_def)
qed

text \<open>The used part of a half, and writing it into an empty one.\<close>

lemma half_rd: "length xs = n \<Longrightarrow> n \<le> cap \<Longrightarrow> rd_seq (half r cap xs) (if r then cap - n else 0) n = Some (if r then rev xs else xs)"
  by (auto simp: half_def rd_seq_def)

lemma half_wr:
  "length xs = n \<Longrightarrow> n \<le> cap \<Longrightarrow>
     wr_seq (half r cap []) (if r then cap - n else 0) (if r then rev xs else xs) = Some (half r cap xs)"
  by (auto simp: half_def wr_seq_def)

definition doc_at :: "bool \<Rightarrow> nat \<Rightarrow> nat \<Rightarrow> nat" where
  "doc_at r cap n = 4 + (if r then cap - n else 0)"

lemma posting_rd:
  assumes "length docs = n" "length scores = n" "n \<le> cap"
  shows "rd_seq (posting_array r cap docs scores) (doc_at r cap n) n = Some (if r then rev docs else docs)"
    and "rd_seq (posting_array r cap docs scores) (cap + doc_at r cap n) n = Some (if r then rev scores else scores)"
proof -
  let ?h = "[of_nat cap, of_nat n, 0, 0] :: u32 list" and ?i = "if r then cap - n else 0"
  have i: "?i + n \<le> cap" using assms(3) by auto
  have d: "doc_at r cap n = length ?h + ?i" by (simp add: doc_at_def)
  have a: "posting_array r cap docs scores = ?h @ half r cap docs @ half r cap scores"
    using assms by (simp add: posting_array_def)
  show "rd_seq (posting_array r cap docs scores) (doc_at r cap n) n = Some (if r then rev docs else docs)"
    unfolding a d rd_seq_right using rd_seq_left [of ?i n "half r cap docs" "half r cap scores"] half_rd [OF assms(1,3), of r] i assms
    by simp
  have "cap + doc_at r cap n = length (?h @ half r cap docs) + ?i" using assms by (simp add: doc_at_def)
  then show "rd_seq (posting_array r cap docs scores) (cap + doc_at r cap n) n = Some (if r then rev scores else scores)"
    using rd_seq_right [of "?h @ half r cap docs" "half r cap scores" ?i n] half_rd [OF assms(2,3), of r]
    by (simp add: a)
qed

text \<open>Filling an empty array with docids and scores, the common part of \<open>resetBuffer\<close> and \<open>load\<close>.\<close>

lemma posting_wr:
  assumes "length docs = n" "length scores = n" "n \<le> cap"
  shows "wr_seq ([of_nat cap, w, 0, 0] @ half r cap [] @ half r cap []) (doc_at r cap n) (if r then rev docs else docs) =
      Some ([of_nat cap, w, 0, 0] @ half r cap docs @ half r cap [])"
    and "wr_seq ([of_nat cap, w, 0, 0] @ half r cap docs @ half r cap []) (cap + doc_at r cap n) (if r then rev scores else scores) =
      Some ([of_nat cap, w, 0, 0] @ half r cap docs @ half r cap scores)"
proof -
  let ?h = "[of_nat cap, w, 0, 0] :: u32 list" and ?i = "if r then cap - n else 0"
  have d: "doc_at r cap n = length ?h + ?i" by (simp add: doc_at_def)
  have l: "length (if r then rev docs else docs) = n" using assms by auto
  have i: "?i + n \<le> cap" using assms(3) by auto
  have "wr_seq (half r cap [] @ half r cap []) ?i (if r then rev docs else docs) = Some (half r cap docs @ half r cap [])"
    using wr_seq_left [of ?i "if r then rev docs else docs" "half r cap []" "half r cap []"] half_wr [OF assms(1,3), of r] i l by simp
  then show "wr_seq (?h @ half r cap [] @ half r cap []) (doc_at r cap n) (if r then rev docs else docs) =
      Some (?h @ half r cap docs @ half r cap [])"
    unfolding d wr_seq_right by simp
  have "cap + doc_at r cap n = length (?h @ half r cap docs) + ?i" using assms by (simp add: doc_at_def)
  then show "wr_seq (?h @ half r cap docs @ half r cap []) (cap + doc_at r cap n) (if r then rev scores else scores) =
      Some (?h @ half r cap docs @ half r cap scores)"
    using wr_seq_right [of "?h @ half r cap docs" "half r cap []" ?i] half_wr [OF assms(2,3), of r] by simp
qed

lemma unat_doc_at:
  assumes "cap < 2 ^ 29" "n \<le> cap"
  shows "(if r then unat (4 + of_nat cap - of_nat n :: u32) else 4) = doc_at r cap n"
    and "(if r then unat (4 + of_nat cap * 2 - of_nat n :: u32) else unat (4 + of_nat cap :: u32)) = cap + doc_at r cap n"
  using unat_idx [OF assms] assms(2) by (auto simp: doc_at_def)

lemma posting_array_head [simp]:
  "rd (posting_array r cap docs scores) 0 = Some (of_nat cap)"
  "rd (posting_array r cap docs scores) (Suc 0) = Some (of_nat (length docs))"
  by (simp_all add: posting_array_def rd_def)

lemma copy_postings_ok:
  assumes "length scores = length docs" "length docs \<le> cap" "cap \<le> new_cap" "new_cap < 2 ^ 29"
  shows "copy_postings (posting_array r new_cap [] []) (posting_array r cap docs scores) (of_nat new_cap) r =
    Some (posting_array r new_cap docs scores)"
proof -
  let ?n = "length docs"
  have c: "cap < 2 ^ 29" "?n \<le> new_cap" using assms by auto
  note idx = unat_doc_at [OF c(1) assms(2), of r] unat_doc_at [OF assms(4) c(2), of r]
  have n: "unat (of_nat ?n :: u32) = ?n" using unat_idx(5) [OF c(1) assms(2)] .
  have w1: "wr (posting_array r new_cap [] []) (Suc 0) (of_nat ?n) = Some ([of_nat new_cap, of_nat ?n, 0, 0] @ half r new_cap [] @ half r new_cap [])"
    by (simp add: posting_array_def wr_def)
  note rdp = posting_rd [OF refl assms(1,2), of r]
  note wrp = posting_wr [OF refl assms(1) c(2), of "of_nat ?n" r]
  show ?thesis
    using idx n w1 rdp wrp posting_array_def [of r new_cap docs scores] by (cases r) (simp_all add: copy_postings_def)
qed

lemma resetBuffer_new:
  assumes "cap < 2 ^ 29" "unat tid < flags bm" "unat tid < length (buffer bm)"
  shows "resetBuffer bm tid (of_nat cap) r False =
    Some (bm \<lparr> buffer := (buffer bm)[unat tid := Some (posting_array r cap [] [])] \<rparr>)"
  using assms new_posting_array_ok [OF assms(1), of r]
  by (simp add: resetBuffer_def rd_def split: option.splits)

lemma resetBuffer_copy:
  assumes "new_cap < 2 ^ 29" "unat tid < flags bm" "unat tid < length (buffer bm)"
    "buffer bm ! unat tid = Some (posting_array r cap docs scores)"
    "length scores = length docs" "length docs \<le> cap" "cap \<le> new_cap" "docs \<noteq> []"
  shows "resetBuffer bm tid (of_nat new_cap) r True =
    Some (bm \<lparr> buffer := (buffer bm)[unat tid := Some (posting_array r new_cap docs scores)] \<rparr>)"
proof -
  have "unat (of_nat (length docs) :: u32) = length docs" using assms by (intro unat_of_nat32) simp
  then have "(of_nat (length docs) :: u32) > 0" using assms(8) by (simp add: word_less_nat_alt)
  then show ?thesis
    using assms new_posting_array_ok [OF assms(1), of r] copy_postings_ok [OF assms(5,6,7,1), of r]
    by (simp add: resetBuffer_def rd_Some)
qed

section \<open>Saving and loading\<close>

text \<open>One term: its capacity, docids and scores.\<close>

type_synonym term_buffer = "nat \<times> u32 list \<times> u32 list"

definition tb_ok :: "term_buffer \<Rightarrow> bool" where
  "tb_ok = (\<lambda>(cap, docs, scores). 0 < cap \<and> cap < 2 ^ 29 \<and> length docs \<le> cap \<and> length scores = length docs)"

definition tb_array :: "bool \<Rightarrow> term_buffer \<Rightarrow> u32 list" where
  "tb_array r = (\<lambda>(cap, docs, scores). posting_array r cap docs scores)"

definition tb_bytes :: "bool \<Rightarrow> term_buffer \<Rightarrow> u8 list" where
  "tb_bytes r = (\<lambda>(cap, docs, scores). put32 (of_nat cap) @ put32 (of_nat (length docs)) @
     put32s (if r then rev docs else docs) @ put32s (if r then rev scores else scores))"

lemma save_buffer_ok:
  assumes "tb_ok tb"
  shows "save_buffer (tb_array r tb) r = Some (tb_bytes r tb)"
proof -
  obtain cap docs scores where tb: "tb = (cap, docs, scores)" by (cases tb)
  have a: "cap < 2 ^ 29" "length docs \<le> cap" "length scores = length docs" using assms tb by (auto simp: tb_ok_def)
  show ?thesis
    using posting_rd [OF refl a(3,2), of r] unat_doc_at [OF a(1,2), of r] unat_idx(5) [OF a(1,2)]
    by (cases r) (simp_all add: tb tb_array_def tb_bytes_def save_buffer_def)
qed

lemma save_buffers_ok:
  assumes "list_all tb_ok tbs"
  shows "save_buffers (map (\<lambda>tb. Some (tb_array r tb)) tbs @ replicate k None) r =
    Some (concat (map (tb_bytes r) tbs) @ (if k = 0 then [] else put32 0), length tbs)"
  using assms by (induction tbs) (cases k; simp add: save_buffer_ok)+

lemma load_buffer_ok:
  assumes "tb_ok tb" and k: "k < length (buffer bm)" "flags bm = length (buffer bm)" "length (buffer bm) < 2 ^ 32"
  shows "load_buffer bm k (of_nat (fst tb)) r (drop 4 (tb_bytes r tb) @ s) =
    Some (bm \<lparr> buffer := (buffer bm)[k := Some (tb_array r tb)] \<rparr>, s)"
proof -
  obtain cap docs scores where tb: "tb = (cap, docs, scores)" by (cases tb)
  have a: "cap < 2 ^ 29" "length docs \<le> cap" "length scores = length docs" using assms(1) tb by (auto simp: tb_ok_def)
  have u: "unat (of_nat k :: u32) = k" using k by (intro unat_of_nat32) simp
  have n: "unat (of_nat (length docs) :: u32) = length docs" using unat_idx(5) [OF a(1,2)] .
  have g: "get32s (length docs) (put32s (if r then rev xs else xs) @ s) = Some (if r then rev xs else xs, s)"
    if "length xs = length docs" for xs s
    using get_put32s [of "if r then rev xs else xs" s] that by (cases r) simp_all
  have w: "wr ([of_nat cap, 0, 0, 0] @ half r cap docs @ half r cap scores) (Suc 0) (of_nat (length docs)) =
      Some (posting_array r cap docs scores)"
    by (simp add: wr_def posting_array_def)
  have e: "posting_array r cap [] [] = [of_nat cap, 0, 0, 0] @ half r cap [] @ half r cap []"
    by (simp add: posting_array_def)
  have b: "drop 4 (tb_bytes r tb) = put32 (of_nat (length docs)) @
     put32s (if r then rev docs else docs) @ put32s (if r then rev scores else scores)"
    by (simp add: tb_bytes_def tb)
  show ?thesis
    unfolding load_buffer_def b
    using resetBuffer_new [OF a(1), of "of_nat k" bm r] u k unat_doc_at [OF a(1,2), of r] posting_wr [OF refl a(3,2), of 0 r] w g a(3) e
    by (cases r) (simp_all add: tb rd_Some n tb_array_def del: append.simps)
qed

lemma load_buffers_ok:
  assumes "list_all tb_ok tbs" and "flags bm = length (buffer bm)" "length (buffer bm) < 2 ^ 32"
    "buffer bm = bs @ replicate (length tbs + k) None"
  shows "load_buffers bm (length bs) (length tbs + k) r
      (concat (map (tb_bytes r) tbs) @ (if k = 0 then [] else put32 0) @ s) =
    Some (bm \<lparr> buffer := bs @ map (\<lambda>tb. Some (tb_array r tb)) tbs @ replicate k None \<rparr>, length bs + length tbs, s)"
  using assms
proof (induction tbs arbitrary: bm bs)
  case Nil
  then show ?case by (cases k) simp_all
next
  case (Cons tb tbs)
  let ?bm = "bm \<lparr> buffer := (bs @ [Some (tb_array r tb)]) @ replicate (length tbs + k) None \<rparr>"
  let ?rest = "concat (map (tb_bytes r) tbs) @ (if k = 0 then [] else put32 0) @ s"
  have "0 < fst tb" "fst tb < 2 ^ 32" using Cons.prems(1) by (auto simp: tb_ok_def)
  then have c: "(of_nat (fst tb) :: u32) \<noteq> 0" using unat_of_nat32 [of "fst tb"] by auto
  have p: "tb_bytes r tb = put32 (of_nat (fst tb)) @ drop 4 (tb_bytes r tb)"
    by (cases tb) (simp add: tb_bytes_def)
  have "load_buffer bm (length bs) (of_nat (fst tb)) r (drop 4 (tb_bytes r tb) @ ?rest) = Some (?bm, ?rest)"
    using load_buffer_ok [of tb "length bs" bm r ?rest] Cons.prems by (simp add: list_update_append)
  moreover have "load_buffers ?bm (length (bs @ [Some (tb_array r tb)])) (length tbs + k) r ?rest =
     Some (?bm \<lparr> buffer := (bs @ [Some (tb_array r tb)]) @ map (\<lambda>tb. Some (tb_array r tb)) tbs @ replicate k None \<rparr>,
       length (bs @ [Some (tb_array r tb)]) + length tbs, s)"
    using Cons.prems by (intro Cons.IH) auto
  ultimately show ?case using c
    by (simp only: list.map concat.simps append_assoc) (subst p, simp)
qed

lemma get_put64s: "get64s (length ws) (concat (map put64 ws) @ s) = Some (ws, s)"
  by (induction ws) simp_all

definition stored :: "bool \<Rightarrow> u32 \<Rightarrow> term_buffer list \<Rightarrow> u64 list \<Rightarrow> AttrScoreBufferMaps" where
  "stored r cap tbs tails =
     \<lparr> capacity = cap, flags = unat cap,
       buffer = map (\<lambda>tb. Some (tb_array r tb)) tbs @ replicate (unat cap - length tbs) None,
       tailPointer = tails @ replicate (unat cap - length tbs) UNDEFINED_POINTER \<rparr>"

lemma resize_replicate [simp]: "resize d n (replicate m d) = replicate n d"
  by (simp add: resize_def min_def replicate_add [symmetric])

lemma BufferMaps_load_save:
  assumes "list_all tb_ok tbs" "length tails = length tbs" "length tbs \<le> unat cap"
  shows "\<exists>bytes. BufferMaps_save (stored r cap tbs tails) r = Some bytes \<and>
    BufferMaps_load (AttrScoreBufferMaps_new n) (bytes @ rest) r = Some (stored r cap tbs tails, rest)"
proof -
  let ?k = "unat cap - length tbs" and ?bm = "stored r cap tbs tails"
  define tm where "tm = (if ?k = 0 then [] else put32 0)"
  let ?b = "concat (map (tb_bytes r) tbs) @ tm"
  have l: "length tbs + ?k = unat cap" using assms(3) by simp
  have sv: "BufferMaps_save ?bm r = Some (put32 cap @ ?b @ concat (map put64 tails))"
    using save_buffers_ok [OF assms(1), of r ?k, folded tm_def] assms(2,3) by (simp add: BufferMaps_save_def stored_def rd_seq_def)
  define bm1 where "bm1 = AttrScoreBufferMaps_new n \<lparr> capacity := cap, flags := unat cap,
      buffer := replicate (unat cap) None \<rparr>"
  have "load_buffers bm1 (length ([] :: u32 list option list)) (length tbs + ?k) r (concat (map (tb_bytes r) tbs) @ tm @
      concat (map put64 tails) @ rest) =
    Some (bm1 \<lparr> buffer := [] @ map (\<lambda>tb. Some (tb_array r tb)) tbs @ replicate ?k None \<rparr>, length ([] :: u32 list option list) + length tbs,
      concat (map put64 tails) @ rest)"
    unfolding tm_def by (rule load_buffers_ok [OF assms(1)]) (use u32_less [of cap] l in \<open>simp_all add: bm1_def\<close>)
  then have "BufferMaps_load (AttrScoreBufferMaps_new n) ((put32 cap @ ?b @ concat (map put64 tails)) @ rest) r = Some (?bm, rest)"
    using get_put64s [of tails rest] assms(2,3) l
    by (simp add: BufferMaps_load_def bm1_def AttrScoreBufferMaps_new_def wr_seq_def stored_def)
  with sv show ?thesis by blast
qed

section \<open>Growing\<close>

lemma expand_loop_ends:
  assumes "0 < c" "newSize \<le> 2 ^ 31"
  shows "\<exists>c'. expand_loop newSize c = Some c' \<and> newSize \<le> c' \<and> c \<le> c'"
  using assms(1)
proof (induction "2 ^ 31 - unat c" arbitrary: c rule: less_induct)
  case less
  show ?case
  proof (cases "newSize > c")
    case True
    then have c: "unat c < 2 ^ 31" "0 < unat c" using assms(2) less.prems by (simp_all add: word_less_nat_alt word_le_nat_alt)
    then have d: "unat (c * 2) = unat c * 2" by (simp add: unat_mult_lem [THEN iffD1])
    with c have "0 < c * 2" "2 ^ 31 - unat (c * 2) < 2 ^ 31 - unat c" by (simp_all add: word_less_nat_alt)
    from less.hyps [OF this(2,1)] obtain c' where "expand_loop newSize (c * 2) = Some c'" "newSize \<le> c'" "c * 2 \<le> c'" by blast
    moreover have "c \<le> c * 2" using d by (simp add: word_le_nat_alt)
    ultimately show ?thesis using True by (subst expand_loop.simps) auto
  next
    case False
    then show ?thesis by (subst expand_loop.simps) auto
  qed
qed

section \<open>Properties\<close>

text \<open>Saved buffer maps are restored by \<open>load\<close>, whatever the capacity of the maps they are loaded into: the capacity, every
  term's docids and scores at the cells they were kept in, and the tail pointers, provided that the terms that have a buffer come before
  those that have none. The bytes behind them in the stream are left.\<close>

theorem BufferMaps_round_trip:
  assumes "list_all tb_ok tbs" and "length tails = length tbs" and "length tbs \<le> unat cap"
  shows "\<exists>bytes. BufferMaps_save (stored r cap tbs tails) r = Some bytes \<and>
    BufferMaps_load (AttrScoreBufferMaps_new n) (bytes @ rest) r = Some (stored r cap tbs tails, rest)"
  using BufferMaps_load_save [OF assms] .

theorem BufferMaps_round_trip_witness:
  "\<exists>bytes. BufferMaps_save (stored True 3 [(2, [5, 7], [1, 1]), (4, [7], [9])] [0, 12]) True = Some bytes \<and>
    BufferMaps_load (AttrScoreBufferMaps_new 1) (bytes @ [8]) True =
      Some (stored True 3 [(2, [5, 7], [1, 1]), (4, [7], [9])] [0, 12], [8])"
  by (rule BufferMaps_round_trip) (simp_all add: tb_ok_def)

text \<open>C27. \<open>expand\<close> ends for every new size up to \<open>2 ^ 31\<close> and makes room for it, but not for the locks: fetching or resetting
  the buffer of a term that was added by it indexes \<open>flags\<close> past its end.\<close>

theorem expand_ends_without_locks:
  assumes "newSize \<le> 2 ^ 31" and "capacity bm < newSize" and "flags bm = unat (capacity bm)"
  shows "\<exists>bm'. expand bm newSize = Some bm' \<and> newSize \<le> capacity bm' \<and> length (buffer bm') = unat (capacity bm') \<and>
    (\<forall>tid. capacity bm \<le> tid \<longrightarrow> getBuffer bm' tid = None \<and> resetBuffer bm' tid c r copy = None)"
proof -
  have "\<exists>c'. (if capacity bm = 0 then Some newSize else expand_loop newSize (capacity bm)) = Some c' \<and> newSize \<le> c'"
    using expand_loop_ends [of "capacity bm" newSize] assms(1) by (auto simp: word_gt_0)
  then obtain c' where c: "(if capacity bm = 0 then Some newSize else expand_loop newSize (capacity bm)) = Some c'" "newSize \<le> c'"
    by blast
  have l: "length (resize d (unat c') xs) = unat c'" for d :: "u32 list option" and xs by simp
  have r: "resetBuffer b tid c r copy = None" if "\<not> unat tid < flags b" for b tid
    using that by (auto simp: resetBuffer_def split: bind_split)
  show ?thesis
    using c assms(2,3) r l
    by (intro exI [of _ "bm \<lparr> capacity := c', buffer := resize None (unat c') (buffer bm),
        tailPointer := resize UNDEFINED_POINTER (unat c') (tailPointer bm) \<rparr>"])
      (auto simp: expand_def getBuffer_def word_le_nat_alt word_less_nat_alt not_less)
qed

theorem expand_ends_without_locks_witness:
  "\<exists>bm'. expand (AttrScoreBufferMaps_new 2) 5 = Some bm' \<and> 5 \<le> capacity bm' \<and> getBuffer bm' 3 = None"
  using expand_ends_without_locks [of 5 "AttrScoreBufferMaps_new 2" 0 False False]
  by (auto simp: AttrScoreBufferMaps_new_def)

end
