(* ===== verification/Zambezi_Chains.thy ===== *)
theory Zambezi_Chains
  imports Zambezi_SegmentPool
begin

text \<open>
  What both inverted indexes need of the segment pool: how much space an append takes, what the words of a block are,
  and how the chain of a term grows while the chains of the other terms stay as they are.
\<close>

text \<open>The array a pointer points into.\<close>

definition pool_array_of :: "SegmentPool \<Rightarrow> u64 \<Rightarrow> u32 list option" where
  "pool_array_of sp pointer = do { a \<leftarrow> rd (pool sp) (unat (DECODE_SEGMENT pointer)); a }"

section \<open>The space of the pool\<close>

text \<open>What an append does to the counters of the pool.\<close>

definition only_pool :: "SegmentPool \<Rightarrow> SegmentPool \<Rightarrow> bool" where
  "only_pool sp sp' \<longleftrightarrow> (\<exists>q. sp' = sp \<lparr> pool := q \<rparr> \<and> length q = length (pool sp))"

lemma only_pool_trans: "only_pool a b \<Longrightarrow> only_pool b c \<Longrightarrow> only_pool a c"
  by (auto simp: only_pool_def)

lemma only_poolD:
  assumes "only_pool sp sp'"
  shows "maxPoolSize sp' = maxPoolSize sp" "segment sp' = segment sp" "offset sp' = offset sp" "length (pool sp') = length (pool sp)"
  using assms by (auto simp: only_pool_def)

lemma only_pool_steps:
  "set_cells sp s i vs = Some sp' \<Longrightarrow> only_pool sp sp'" "set_cell sp s i v = Some sp' \<Longrightarrow> only_pool sp sp'"
  "alloc_pool junk sp s = Some sp' \<Longrightarrow> only_pool sp sp'"
proof -
  show 1: "set_cells sp s i vs = Some sp' \<Longrightarrow> only_pool sp sp'" for sp' i vs
    by (auto simp: set_cells_def only_pool_def split: bind_splits)
  show "set_cell sp s i v = Some sp' \<Longrightarrow> only_pool sp sp'" by (auto simp: set_cell_def intro: 1)
  show "alloc_pool junk sp s = Some sp' \<Longrightarrow> only_pool sp sp'"
    by (auto simp: alloc_pool_def only_pool_def split: bind_splits option.splits intro: exI [of _ "pool sp"])
qed

lemma only_pool_write:
  "write_block sp reqspace dat m len nx = Some sp' \<Longrightarrow> only_pool sp sp'" "link_last sp l = Some sp' \<Longrightarrow> only_pool sp sp'"
proof -
  show "write_block sp reqspace dat m len nx = Some sp' \<Longrightarrow> only_pool sp sp'"
    unfolding write_block_def Let_def
    by (auto split: bind_splits) (meson only_pool_steps only_pool_trans)
  have "only_pool sp sp" by (auto simp: only_pool_def intro: exI [of _ "pool sp"])
  then show "link_last sp l = Some sp' \<Longrightarrow> only_pool sp sp'"
    unfolding link_last_def Let_def
    by (auto split: bind_splits if_splits) (meson only_pool_steps only_pool_trans)
qed

lemma appendSegment_counters:
  assumes "appendSegment junk sp dat m len l nx = Some (p, sp')"
  shows "maxPoolSize sp' = maxPoolSize sp" "length (pool sp') = length (pool sp)"
    "if len + 4 > maxPoolSize sp - offset sp
     then segment sp' = segment sp + 1 \<and> offset sp' = len + 4 \<and> p = ENCODE_POINTER (segment sp + 1) 0
     else segment sp' = segment sp \<and> offset sp' = offset sp + (len + 4) \<and> p = ENCODE_POINTER (segment sp) (offset sp)"
proof -
  from assms obtain sp1 sp2 sp3 sp4 where
    s: "roll_pool sp (len + 4) = Some sp1" "alloc_pool junk sp1 (unat (segment sp1)) = Some sp2"
      "write_block sp2 (len + 4) dat m len nx = Some sp3" "link_last sp3 l = Some sp4"
      "p = ENCODE_POINTER (segment sp4) (offset sp4)" "sp' = sp4 \<lparr> offset := offset sp4 + (len + 4) \<rparr>"
    by (auto simp: appendSegment_def Let_def split: bind_splits)
  from only_pool_steps(3) [OF s(2)] only_pool_write(1) [OF s(3)] only_pool_write(2) [OF s(4)] have
    o: "only_pool sp1 sp4" by (meson only_pool_trans)
  have r: "maxPoolSize sp1 = maxPoolSize sp \<and> length (pool sp1) = length (pool sp) \<and>
    (if len + 4 > maxPoolSize sp - offset sp then segment sp1 = segment sp + 1 \<and> offset sp1 = 0
     else segment sp1 = segment sp \<and> offset sp1 = offset sp)"
    using s(1) by (auto simp: roll_pool_def only_pool_def split: if_splits bind_splits dest!: only_pool_steps(1))
  then show "maxPoolSize sp' = maxPoolSize sp" "length (pool sp') = length (pool sp)"
    "if len + 4 > maxPoolSize sp - offset sp
     then segment sp' = segment sp + 1 \<and> offset sp' = len + 4 \<and> p = ENCODE_POINTER (segment sp + 1) 0
     else segment sp' = segment sp \<and> offset sp' = offset sp + (len + 4) \<and> p = ENCODE_POINTER (segment sp) (offset sp)"
    using only_poolD [OF o] s(5,6) by (auto split: if_splits)
qed

text \<open>The words that are free for blocks of up to 4064 words: the rest of the current array, and of every further
  array all but the words such a block may leave unused at its end. An append takes at most 4064 of them.\<close>

definition pool_free :: "SegmentPool \<Rightarrow> nat" where
  "pool_free sp = (length (pool sp) - 1 - unat (segment sp)) * (unat (maxPoolSize sp) - 4064) +
     (unat (maxPoolSize sp) - unat (offset sp))"

lemma pool_room:
  assumes "4064 \<le> unat (maxPoolSize sp)" "n \<le> 4060" "4064 \<le> pool_free sp"
  shows "room sp n"
proof (cases "unat (offset sp) + n + 4 \<le> unat (maxPoolSize sp)")
  case True
  then show ?thesis using assms by (simp add: room_def)
next
  case False
  then have "0 < length (pool sp) - 1 - unat (segment sp)"
    using assms(2,3) unfolding pool_free_def by (cases "length (pool sp) - 1 - unat (segment sp)") auto
  then show ?thesis using assms by (simp add: room_def)
qed

lemma pool_append_take:
  assumes "n \<le> length seg" "n < 2 ^ 32"
  shows "appendSegment junk sp seg m (of_nat n) l nx = pool_append junk sp (take n seg) m l nx"
proof -
  have "rd_seq (take n seg) 0 n = rd_seq seg 0 n" using assms(1) by (simp add: rd_seq_def)
  moreover have "unat (of_nat n :: u32) = n" using assms(2) by (rule unat_of_nat32)
  ultimately have "write_block sp w (take n seg) m (of_nat n) nx = write_block sp w seg m (of_nat n) nx" for sp w
    by (simp add: write_block_def)
  moreover have "length (take n seg) = n" using assms(1) by simp
  ultimately show ?thesis unfolding pool_append_def by (simp only: appendSegment_def)
qed

text \<open>An append of at most 4060 words uses at most 4064 of them.\<close>

lemma pool_append_free:
  assumes s: "pool_ok sp" "4064 \<le> unat (maxPoolSize sp)" and n: "length dat \<le> 4060" and f: "4064 \<le> pool_free sp"
    and a: "pool_append junk sp dat m l nx = Some (p, sp')"
  shows "pool_free sp \<le> pool_free sp' + 4064" "maxPoolSize sp' = maxPoolSize sp"
proof -
  let ?n = "of_nat (length dat) :: u32" and ?M = "unat (maxPoolSize sp)" and ?o = "unat (offset sp)" and ?s = "unat (segment sp)"
  have b: "?s < length (pool sp)" "length (pool sp) < 4294967296" "?o \<le> ?M"
    using s(1) by (auto simp: pool_ok_def word_le_nat_alt)
  have u: "unat (?n + 4) = length dat + 4"
    using n unat_of_nat32 [of "length dat"] by (subst unat_add32) simp_all
  have d: "unat (maxPoolSize sp - offset sp) = ?M - ?o" using b(3) by (simp add: unat_sub_if_size)
  note c = appendSegment_counters [OF a [unfolded pool_append_def]]
  have r: "room sp (length dat)" by (rule pool_room [OF s(2) n f])
  have inc: "unat (segment sp + 1) = ?s + 1" using b by (subst unat_add32) auto
  show "pool_free sp \<le> pool_free sp' + 4064"
  proof (cases "?n + 4 > maxPoolSize sp - offset sp")
    case True
    then have t: "?M - ?o < length dat + 4" by (simp only: word_less_nat_alt u d)
    with r have "?s + 1 < length (pool sp)" by (auto simp: room_def)
    then obtain k where k: "length (pool sp) - 1 - ?s = Suc k" "length (pool sp) - 1 - (?s + 1) = k"
      by (metis Suc_diff_Suc diff_Suc_eq_diff_pred Suc_eq_plus1 less_diff_conv)
    have "pool_free sp' = k * (?M - 4064) + (?M - (length dat + 4))"
      using c True k(2) by (simp add: pool_free_def u inc del: One_nat_def)
    moreover have "pool_free sp = k * (?M - 4064) + (?M - 4064) + (?M - ?o)"
      unfolding pool_free_def k(1) by simp
    ultimately show ?thesis using t n s(2) by linarith
  next
    case False
    then have t: "length dat + 4 \<le> ?M - ?o" by (simp only: word_less_nat_alt u d not_less)
    have "unat (offset sp + (?n + 4)) = ?o + (length dat + 4)"
      using t u b(3) u32_less [of "maxPoolSize sp"] by (subst unat_add32) auto
    then show ?thesis using c False t n by (simp add: pool_free_def)
  qed
  show "maxPoolSize sp' = maxPoolSize sp" by (rule c(1))
qed

section \<open>The words of a block\<close>

lemma those_eq_Some: "those xs = Some ys \<longleftrightarrow> xs = map Some ys"
proof (induction xs arbitrary: ys)
  case (Cons x xs)
  then show ?case by (cases ys) (auto split: option.splits)
qed auto

lemma block_at_array:
  assumes "store_ok sp L" "p \<in> L" "block_at sp p = Some (m, dat)"
  obtains arr rest where "pool_array_of sp p = Some arr" "drop (off_of p + 4) arr = dat @ rest"
    "off_of p + 4 + length dat \<le> length arr" "length arr < 2 ^ 32"
proof -
  have v: "pool_ok sp" "valid sp p" using assms(1,2) by (auto simp: store_ok_def)
  from assms(3) obtain w where w: "cell sp (seg_of p, off_of p) = Some w"
    "those (map (\<lambda>k. cell sp (seg_of p, off_of p + 4 + k)) [0..<unat w - 4]) = Some dat"
    by (auto simp: block_at_def split: bind_splits)
  have t: "map (\<lambda>k. cell sp (seg_of p, off_of p + 4 + k)) [0..<unat w - 4] = map Some dat"
    using w(2) by (simp add: those_eq_Some)
  from map_eq_imp_length_eq [OF t] have len: "length dat = unat w - 4" by simp
  from w(1) obtain arr where arr: "seg_of p < length (pool sp)" "pool sp ! seg_of p = Some arr" "off_of p < length arr"
    by (auto simp: cell_Some)
  have c: "off_of p + 4 + k < length arr \<and> arr ! (off_of p + 4 + k) = dat ! k" if "k < length dat" for k
  proof -
    have "map (\<lambda>k. cell sp (seg_of p, off_of p + 4 + k)) [0..<unat w - 4] ! k = map Some dat ! k" by (simp only: t)
    then have "cell sp (seg_of p, off_of p + 4 + k) = Some (dat ! k)" using that len by simp
    then show ?thesis using arr(2) by (auto simp: cell_Some)
  qed
  have v3: "off_of p + 3 < length arr"
    using valid_cell [OF v, of 3] arr(2) by (auto simp: cell_Some)
  have le: "off_of p + 4 + length dat \<le> length arr"
    using c [of "length dat - 1"] v3 by (cases "length dat") auto
  have "take (length dat) (drop (off_of p + 4) arr) = dat"
    using c le by (intro nth_equalityI) auto
  then have "drop (off_of p + 4) arr = dat @ drop (length dat) (drop (off_of p + 4) arr)"
    by (metis append_take_drop_id)
  moreover have "length arr < 2 ^ 32"
    using v(1) arr u32_less [of "maxPoolSize sp"] by (auto simp: pool_ok_def split: option.splits)
  moreover have "pool_array_of sp p = Some arr" using arr by (simp add: pool_array_of_def rd_def)
  ultimately show thesis using that le by blast
qed

section \<open>Chains\<close>

text \<open>Postings are kept in the order of their insertion here; a reversed index stores them the other way round.\<close>

definition index_order :: "bool \<Rightarrow> 'a list \<Rightarrow> 'a list" where
  "index_order r xs = (if r then rev xs else xs)"

text \<open>The postings of a full buffer end up in the chain: in front of it when the index is reversed, behind it otherwise.\<close>

definition add_run :: "bool \<Rightarrow> 'a list \<Rightarrow> 'a list \<Rightarrow> 'a list" where
  "add_run r new old = (if r then new @ old else old @ new)"

text \<open>Chains that do not share a block with \<open>S\<close> are as before.\<close>

definition framed :: "SegmentPool \<Rightarrow> u64 set \<Rightarrow> SegmentPool \<Rightarrow> u64 set \<Rightarrow> u64 set \<Rightarrow> bool" where
  "framed sp L sp' L' S \<longleftrightarrow> L \<subseteq> L' \<and>
     (\<forall>qs cs g. posting_chain sp L qs cs g \<and> set qs \<inter> S = {} \<longrightarrow> posting_chain sp' L' qs cs g)"

lemma framed_trans:
  assumes "framed sp L sp' L' S" "framed sp' L' sp'' L'' S'" "S' \<inter> L \<subseteq> S"
  shows "framed sp L sp'' L'' S"
proof -
  have "posting_chain sp'' L'' qs cs g" if "posting_chain sp L qs cs g" "set qs \<inter> S = {}" for qs cs g
  proof -
    have "set qs \<subseteq> L" using that(1) by (simp add: posting_chain_def)
    then have "set qs \<inter> S' = {}" using that(2) assms(3) by blast
    moreover have "posting_chain sp' L' qs cs g" using assms(1) that by (simp add: framed_def)
    ultimately show ?thesis using assms(2) by (simp add: framed_def)
  qed
  with assms(1,2) show ?thesis by (auto simp: framed_def)
qed

lemma framed_refl: "framed sp L sp L S"
  by (simp add: framed_def)

lemma posting_chain_head: "posting_chain sp L ps bs h \<Longrightarrow> h = UNDEFINED_POINTER \<or> h \<in> L"
  by (cases ps) (auto simp: posting_chain_def)

lemma posting_chain_live: "posting_chain sp L ps bs h \<Longrightarrow> UNDEFINED_POINTER \<notin> set ps"
  using pool.live [of sp L] by (auto simp: posting_chain_def)

lemma pool_holdsI: "posting_chain sp L ps bs h \<Longrightarrow> pool.holds sp L ps bs h"
  by (simp add: posting_chain_holds)

lemma framed_live:
  assumes "framed sp L sp' L' {l}" "store_ok sp L" "l = UNDEFINED_POINTER \<or> l \<in> S"
  shows "framed sp L sp' L' S"
proof -
  have "{l} \<inter> L \<subseteq> S" using assms(2,3) pool.live [of sp L] by auto
  with framed_trans [OF framed_refl assms(1)] show ?thesis by blast
qed

lemma framed_weaken: "framed sp L sp' L' {} \<Longrightarrow> framed sp L sp' L' S"
  by (auto simp: framed_def)

text \<open>A pool with room for blocks of up to 4060 words, and the chain of a term in it: \<open>h\<close> is the head pointer, \<open>t\<close> the pointer the next block is
  linked to.\<close>

definition pool_roomy :: "SegmentPool \<Rightarrow> u64 set \<Rightarrow> bool" where
  "pool_roomy sp L \<longleftrightarrow> store_ok sp L \<and> 4064 \<le> unat (maxPoolSize sp)"

definition chain_at :: "bool \<Rightarrow> SegmentPool \<Rightarrow> u64 set \<Rightarrow> u64 list \<Rightarrow> (u32 \<times> u32 list) list \<Rightarrow> u64 \<Rightarrow> u64 \<Rightarrow> bool" where
  "chain_at r sp L ps bs h t \<longleftrightarrow> posting_chain sp L ps bs h \<and>
     t = (if r then h else if ps = [] then UNDEFINED_POINTER else last ps)"

text \<open>One more block, whichever block it is linked to.\<close>

lemma roomy_append:
  assumes g: "pool_roomy sp L" and n: "length dat \<le> 4060" "4064 \<le> pool_free sp"
    and l: "lst = UNDEFINED_POINTER \<or> lst \<in> L" "nxt = UNDEFINED_POINTER \<or> nxt \<in> L"
    and a: "pool_append junk sp dat m lst nxt = Some (p, sp')"
  shows "room sp (length dat)" "p \<notin> L" "pool_roomy sp' (insert p L)" "pool_free sp \<le> pool_free sp' + 4064"
    "block_at sp' p = Some (m, dat)" "lst = UNDEFINED_POINTER \<or> lst \<in> S \<Longrightarrow> framed sp L sp' (insert p L) S"
proof -
  have ok: "store_ok sp L" "4064 \<le> unat (maxPoolSize sp)" "pool_ok sp" using g by (auto simp: pool_roomy_def store_ok_def)
  show r: "room sp (length dat)" by (rule pool_room [OF ok(2) n])
  from pool.append_ok [OF ok(1) r l, of junk m] a have
    p: "p \<notin> L" "store_ok sp' (insert p L)" "block_at sp' p = Some (m, dat)" by auto
  show "p \<notin> L" "block_at sp' p = Some (m, dat)" by fact+
  show "pool_free sp \<le> pool_free sp' + 4064" by (rule pool_append_free(1) [OF ok(3,2) n a])
  show "pool_roomy sp' (insert p L)" using p(2) ok(2) pool_append_free(2) [OF ok(3,2) n a] by (simp add: pool_roomy_def)
  have "framed sp L sp' (insert p L) {lst}"
    unfolding framed_def posting_chain_holds using pool.append_frame [OF _ r l(1) _ l(2) a] by auto
  then show "framed sp L sp' (insert p L) S" if "lst = UNDEFINED_POINTER \<or> lst \<in> S" using framed_live [OF _ ok(1) that] by blast
qed

text \<open>A forward index appends behind the last block.\<close>

lemma append_back:
  assumes c: "chain_at False sp L ps bs h t" and g: "pool_roomy sp L" and n: "length dat \<le> 4060" "4064 \<le> pool_free sp"
  obtains p sp' where "pool_append junk sp dat m t UNDEFINED_POINTER = Some (p, sp')" "p \<notin> L" "pool_roomy sp' (insert p L)"
    "pool_free sp \<le> pool_free sp' + 4064" "chain_at False sp' (insert p L) (ps @ [p]) (bs @ [(m, dat)]) (if h = UNDEFINED_POINTER then p else h) p"
    "framed sp L sp' (insert p L) (set ps)"
proof -
  have pc: "posting_chain sp L ps bs h" and t: "t = (if ps = [] then UNDEFINED_POINTER else last ps)" using c by (auto simp: chain_at_def)
  have r: "room sp (length dat)" using pool_room [OF _ n] g by (simp add: pool_roomy_def)
  have ts: "t = UNDEFINED_POINTER \<or> t \<in> set ps" using t by auto
  have tl: "t = UNDEFINED_POINTER \<or> t \<in> L" using ts pc by (auto simp: posting_chain_def)
  obtain p sp' where p: "pool_append junk sp dat m t UNDEFINED_POINTER = Some (p, sp')"
    "posting_chain sp' (insert p L) (ps @ [p]) (bs @ [(m, dat)]) (if h = UNDEFINED_POINTER then p else h)"
  proof (cases ps rule: rev_cases)
    case Nil
    then have "h = UNDEFINED_POINTER" "bs = []" using pc by (auto simp: posting_chain_def)
    then show thesis using pool.append_head [OF pool_holdsI [OF pc] r, of junk m] t Nil that
      by (auto simp: posting_chain_holds)
  next
    case (snoc ps' q)
    then have "h \<noteq> UNDEFINED_POINTER" using pc by (cases ps') (auto simp: posting_chain_def)
    then show thesis using pool.append_tail [OF pool_holdsI [OF pc [unfolded snoc]] r, of junk m] t snoc that
      by (auto simp: posting_chain_holds)
  qed
  note ra = roomy_append [OF g n tl disjI1 [OF refl] p(1)]
  have "chain_at False sp' (insert p L) (ps @ [p]) (bs @ [(m, dat)]) (if h = UNDEFINED_POINTER then p else h) p"
    using p(2) by (simp add: chain_at_def)
  with that [OF p(1) ra(2,3,4)] ra(6) [OF ts] show thesis by blast
qed

text \<open>A reversed index writes the blocks of a buffer, latest first, each behind the one before and all in front of the old chain, whose head is \<open>t\<close>.
  \<open>cur\<close> is the first of the new blocks \<open>new\<close>, \<open>lst\<close> the last.\<close>

definition front_run ::
  "SegmentPool \<Rightarrow> u64 set \<Rightarrow> u64 list \<Rightarrow> u64 list \<Rightarrow> (u32 \<times> u32 list) list \<Rightarrow> (u32 \<times> u32 list) list \<Rightarrow> u64 \<Rightarrow> u64 \<Rightarrow> u64 \<Rightarrow> bool" where
  "front_run sp L new old nbs obs cur lst t \<longleftrightarrow> length nbs = length new \<and>
     (if new = [] then cur = UNDEFINED_POINTER \<and> lst = UNDEFINED_POINTER \<and> posting_chain sp L old obs t
      else cur = hd new \<and> lst = last new \<and> posting_chain sp L (new @ old) (nbs @ obs) cur \<and> nextPointer sp lst = Some t)"

lemma append_front:
  assumes c: "front_run sp L new old nbs obs cur lst t" and g: "pool_roomy sp L" and n: "length dat \<le> 4060" "4064 \<le> pool_free sp"
  obtains p sp' where "pool_append junk sp dat m lst t = Some (p, sp')" "p \<notin> L" "pool_roomy sp' (insert p L)"
    "pool_free sp \<le> pool_free sp' + 4064"
    "front_run sp' (insert p L) (new @ [p]) old (nbs @ [(m, dat)]) obs (if cur = UNDEFINED_POINTER then p else cur) p t"
    "framed sp L sp' (insert p L) (set new)"
proof (cases "new = []")
  case True
  then have pc: "posting_chain sp L old obs t" "cur = UNDEFINED_POINTER" "lst = UNDEFINED_POINTER" "nbs = []"
    using c by (auto simp: front_run_def)
  have r: "room sp (length dat)" using pool_room [OF _ n] g by (simp add: pool_roomy_def)
  from pool.append_head [OF pool_holdsI [OF pc(1)] r, of junk m] obtain p sp' where
    p: "pool_append junk sp dat m UNDEFINED_POINTER t = Some (p, sp')" "posting_chain sp' (insert p L) (p # old) ((m, dat) # obs) p"
    by (auto simp: posting_chain_holds)
  note ra = roomy_append [OF g n disjI1 [OF refl] posting_chain_head [OF pc(1)] p(1)]
  have nx: "nextPointer sp' p = Some t"
  proof -
    have "store_ok sp L" using g by (simp add: pool_roomy_def)
    from pool.append_ok [OF this r disjI1 [OF refl] posting_chain_head [OF pc(1)], of junk m] p(1) show ?thesis by auto
  qed
  with that [of p sp'] p pc ra(2,3,4) ra(6) [OF disjI1 [OF refl]] True show thesis by (simp add: front_run_def)
next
  case False
  then have pc: "posting_chain sp L (new @ old) (nbs @ obs) cur" "cur = hd new" "lst = last new" "nextPointer sp lst = Some t"
    "length nbs = length new" using c by (auto simp: front_run_def)
  have r: "room sp (length dat)" using pool_room [OF _ n] g by (simp add: pool_roomy_def)
  define as where "as = butlast new"
  have new: "new = as @ [lst]" using False pc(3) by (simp add: as_def)
  have pc': "pool.holds sp L (as @ lst # old) (nbs @ obs) cur" using pool_holdsI [OF pc(1)] new by simp
  from pool.append_between [OF pc' _ pc(4) r, of junk m] pc(5) new obtain p sp' where
    p: "pool_append junk sp dat m lst t = Some (p, sp')" "nextPointer sp' p = Some t"
      "posting_chain sp' (insert p L) (as @ lst # p # old) (nbs @ (m, dat) # obs) cur"
    by (auto simp: posting_chain_holds)
  have l: "lst \<in> L" "lst \<in> set new" using pc(1) new by (auto simp: posting_chain_def)
  have "chain (nextPointer sp) old t" using pc(1) pc(4) chain_suffix [of "nextPointer sp" as lst old cur] new by (simp add: posting_chain_def)
  then have tl: "t = UNDEFINED_POINTER \<or> t \<in> L" using pc(1) by (cases old) (auto simp: posting_chain_def)
  note ra = roomy_append [OF g n disjI2 [OF l(1)] tl p(1)]
  have cur: "cur \<noteq> UNDEFINED_POINTER" using posting_chain_live [OF pc(1)] False pc(2) by (metis UnCI hd_in_set set_append)
  show thesis
  proof (rule that [OF p(1) ra(2,3,4) _ ra(6) [OF disjI2 [OF l(2)]]])
    have "posting_chain sp' (insert p L) ((new @ [p]) @ old) ((nbs @ [(m, dat)]) @ obs) cur" using p(3) new by simp
    moreover have "cur = hd (new @ [p])" using pc(2) False by simp
    ultimately show "front_run sp' (insert p L) (new @ [p]) old (nbs @ [(m, dat)]) obs (if cur = UNDEFINED_POINTER then p else cur) p t"
      unfolding front_run_def using pc(5) p(2) cur by (simp del: append_assoc)
  qed
qed

lemma front_run_chain:
  assumes "front_run sp L new old nbs obs cur lst t" "new \<noteq> []"
  shows "chain_at True sp L (new @ old) (nbs @ obs) cur cur"
  using assms unfolding front_run_def chain_at_def by metis

lemma posting_chain_suffix:
  assumes "posting_chain sp L (ps1 @ q # ps2) (bs1 @ bs2) h" "length ps1 = length bs1"
  shows "posting_chain sp L (q # ps2) bs2 q"
  using assms chain_suffix [of _ ps1 q ps2] by (auto simp: posting_chain_def simp del: chain.simps)

end
