(* ===== verification/Zambezi_Tables.thy ===== *)
theory Zambezi_Tables
  imports Zambezi_Utils Byte_Stream "HOL-Library.AList" "HOL-Library.Char_ord" "HOL-Library.List_Lexorder"
    "HOL-Library.Product_Lexorder"
begin

text \<open>
  The tables of the Zambezi indexes: the fixed-size counters of \<open>buffer/FixedCounter.hpp\<close>, the per-term and
  per-document statistics of \<open>Pointers.hpp\<close> and \<open>Pointers.cpp\<close>, the dictionary of \<open>Dictionary.hpp\<close> that
  numbers the terms, and the filter interface of \<open>FilterBase.hpp\<close>. A failed assertion is \<^const>\<open>None\<close>, as is
  an access outside a vector. The locale \<open>doc_filter\<close> is what the queries rely on in a filter.
\<close>

section \<open>FixedCounter\<close>

record 'a FixedCounter =
  defaultValue :: 'a
  counter :: "'a list"

definition FixedCounter_new :: "u32 \<Rightarrow> 'a \<Rightarrow> 'a FixedCounter" where
  "FixedCounter_new initialSize dflt = \<lparr> defaultValue = dflt, counter = replicate (unat initialSize) dflt \<rparr>"

definition FixedCounter_size :: "'a FixedCounter \<Rightarrow> u32" where
  "FixedCounter_size c = of_nat (length (filter (\<lambda>x. x \<noteq> defaultValue c) (counter c)))"

definition FixedCounter_get :: "'a FixedCounter \<Rightarrow> u32 \<Rightarrow> 'a" where
  "FixedCounter_get c i = (if unat i < length (counter c) then counter c ! unat i else defaultValue c)"

text \<open>The second \<open>get\<close> gives a reference and asserts that the index is in range; \<open>FixedCounter_put\<close> is the
  write through it.\<close>

definition FixedCounter_ref :: "'a FixedCounter \<Rightarrow> u32 \<Rightarrow> 'a option" where
  "FixedCounter_ref c i = rd (counter c) (unat i)"

definition FixedCounter_put :: "'a FixedCounter \<Rightarrow> u32 \<Rightarrow> 'a \<Rightarrow> 'a FixedCounter option" where
  "FixedCounter_put c i v = do { xs \<leftarrow> wr (counter c) (unat i) v; Some (c \<lparr> counter := xs \<rparr>) }"

definition FixedCounter_set :: "'a FixedCounter \<Rightarrow> u32 \<Rightarrow> 'a \<Rightarrow> 'a FixedCounter" where
  "FixedCounter_set c i v =
     (if unat i < length (counter c) then c \<lparr> counter := (counter c)[unat i := v] \<rparr> else c)"

definition FixedCounter_add :: "('a::len) word FixedCounter \<Rightarrow> u32 \<Rightarrow> 'a word \<Rightarrow> 'a word FixedCounter" where
  "FixedCounter_add c i v =
     (if unat i < length (counter c) then c \<lparr> counter := (counter c)[unat i := counter c ! unat i + v] \<rparr> else c)"

definition FixedCounter_increment :: "('a::len) word FixedCounter \<Rightarrow> u32 \<Rightarrow> 'a word FixedCounter" where
  "FixedCounter_increment c i =
     (if unat i < length (counter c) then c \<lparr> counter := (counter c)[unat i := counter c ! unat i + 1] \<rparr> else c)"

definition FixedCounter_reset :: "'a FixedCounter \<Rightarrow> u32 \<Rightarrow> 'a FixedCounter" where
  "FixedCounter_reset c i =
     (if unat i < length (counter c) then c \<lparr> counter := (counter c)[unat i := defaultValue c] \<rparr> else c)"

text \<open>\<open>nextIndex\<close> increments \<open>pos\<close> with wrap-around, so \<open>INVALID_ID\<close> starts the iteration at 0.\<close>

partial_function (option) FixedCounter_nextIndex :: "'a FixedCounter \<Rightarrow> u32 \<Rightarrow> u32 option" where
  "FixedCounter_nextIndex c pos =
     (let pos' = pos + 1 in
      if unat pos' \<ge> length (counter c) then Some (- 1)
      else if counter c ! unat pos' = defaultValue c then FixedCounter_nextIndex c pos'
      else Some pos')"

section \<open>Pointers\<close>

text \<open>The default values that \<open>updateDefaultValues_\<close> derives from \<open>totalDocs\<close> serve the floating-point scorers only
  and are left out.\<close>

record Pointers =
  totalDocs :: u32
  totalDocLen :: u64
  df :: "u32 FixedCounter"
  cf :: "u64 FixedCounter"
  headPointers :: "u64 FixedCounter"
  maxTf :: "u32 FixedCounter"
  maxTfDocLen :: "u32 FixedCounter"
  docLen :: "u32 FixedCounter"

definition Pointers_new :: "u32 \<Rightarrow> u32 \<Rightarrow> Pointers" where
  "Pointers_new termNum docNum =
     \<lparr> totalDocs = 0, totalDocLen = 0, df = FixedCounter_new termNum 0, cf = FixedCounter_new termNum 0,
       headPointers = FixedCounter_new termNum UNDEFINED_POINTER, maxTf = FixedCounter_new termNum 0,
       maxTfDocLen = FixedCounter_new termNum 0, docLen = FixedCounter_new docNum 0 \<rparr>"

definition setDocLen :: "Pointers \<Rightarrow> u32 \<Rightarrow> u32 \<Rightarrow> Pointers" where
  "setDocLen p docid len =
     p \<lparr> docLen := FixedCounter_set (docLen p) docid len, totalDocLen := totalDocLen p + ucast len \<rparr>"

definition setMaxTf :: "Pointers \<Rightarrow> u32 \<Rightarrow> u32 \<Rightarrow> u32 \<Rightarrow> Pointers" where
  "setMaxTf p tm tf dl =
     p \<lparr> maxTf := FixedCounter_set (maxTf p) tm tf, maxTfDocLen := FixedCounter_set (maxTfDocLen p) tm dl \<rparr>"

definition nextTerm :: "Pointers \<Rightarrow> u32 \<Rightarrow> u32 option" where
  "nextTerm p currentTermId = FixedCounter_nextIndex (headPointers p) currentTermId"

text \<open>An array of counters in the stream: \<open>size\<close> cells from cell 0 on.\<close>

definition put_cells :: "nat \<Rightarrow> ('a::len) word FixedCounter \<Rightarrow> nat \<Rightarrow> u8 list option" where
  "put_cells bytes c sz = do {
     ws \<leftarrow> rd_seq (counter c) 0 sz;
     Some (concat (map (put_le bytes) ws))
   }"

primrec get_words :: "nat \<Rightarrow> nat \<Rightarrow> u8 list \<Rightarrow> (('a::len) word list \<times> u8 list) option" where
  "get_words bytes 0 s = Some ([], s)"
| "get_words bytes (Suc n) s = do {
     (w, s1) \<leftarrow> get_le bytes s;
     (ws, s2) \<leftarrow> get_words bytes n s1;
     Some (w # ws, s2)
   }"

text \<open>Reading takes the address of \<open>get(0)\<close>, whose assertion fails on an empty counter.\<close>

definition get_cells ::
  "nat \<Rightarrow> ('a::len) word FixedCounter \<Rightarrow> nat \<Rightarrow> u8 list \<Rightarrow> ('a word FixedCounter \<times> u8 list) option" where
  "get_cells bytes c sz s = do {
     _ \<leftarrow> FixedCounter_ref c 0;
     (ws, s') \<leftarrow> get_words bytes sz s;
     xs \<leftarrow> wr_seq (counter c) 0 ws;
     Some (c \<lparr> counter := xs \<rparr>, s')
   }"

definition Pointers_save :: "Pointers \<Rightarrow> u8 list option" where
  "Pointers_save p = do {
     let size = FixedCounter_size (df p);
     b1 \<leftarrow> put_cells 4 (df p) (unat size);
     b2 \<leftarrow> put_cells 8 (cf p) (unat size);
     b3 \<leftarrow> put_cells 8 (headPointers p) (unat size);
     let size' = FixedCounter_size (maxTf p);
     b4 \<leftarrow> put_cells 4 (maxTf p) (unat size');
     b5 \<leftarrow> put_cells 4 (maxTfDocLen p) (unat size');
     let size'' = FixedCounter_size (docLen p);
     b6 \<leftarrow> put_cells 4 (docLen p) (unat size'');
     Some (put32 size @ b1 @ b2 @ b3 @ put32 size' @ b4 @ b5 @ put32 size'' @ b6 @
           put32 (totalDocs p) @ put64 (totalDocLen p))
   }"

definition Pointers_load :: "Pointers \<Rightarrow> u8 list \<Rightarrow> (Pointers \<times> u8 list) option" where
  "Pointers_load p s = do {
     (size, s0) \<leftarrow> get32 s;
     if unat size > length (counter (df p)) then None else do {
       (df', s1) \<leftarrow> get_cells 4 (df p) (unat size) s0;
       (cf', s2) \<leftarrow> get_cells 8 (cf p) (unat size) s1;
       (hp', s3) \<leftarrow> get_cells 8 (headPointers p) (unat size) s2;
       (size', s4) \<leftarrow> get32 s3;
       if unat size' > length (counter (maxTf p)) then None else do {
         (mt', s5) \<leftarrow> get_cells 4 (maxTf p) (unat size') s4;
         (ml', s6) \<leftarrow> get_cells 4 (maxTfDocLen p) (unat size') s5;
         (size'', s7) \<leftarrow> get32 s6;
         if unat size'' > length (counter (docLen p)) then None else do {
           (dl', s8) \<leftarrow> get_cells 4 (docLen p) (unat size'') s7;
           (td, s9) \<leftarrow> get32 s8;
           (tl, s10) \<leftarrow> get64 s9;
           Some (\<lparr> totalDocs = td, totalDocLen = tl, df = df', cf = cf', headPointers = hp',
                   maxTf = mt', maxTfDocLen = ml', docLen = dl' \<rparr>, s10)
         }
       }
     }
   }"

section \<open>Dictionary\<close>

text \<open>The hash table is \<open>boost::unordered_map\<close>. Its test \<open>load_factor() < max_load_factor()\<close> is the parameter
  \<open>accepts\<close> of the number of stored words, of which nothing is assumed but what a theorem says.\<close>

type_synonym Dictionary = "(string \<times> u32) list"

definition getTermId :: "Dictionary \<Rightarrow> string \<Rightarrow> u32" where
  "getTermId d wrd = (case map_of d wrd of None \<Rightarrow> INVALID_ID | Some i \<Rightarrow> i)"

definition insertTerm :: "(nat \<Rightarrow> bool) \<Rightarrow> Dictionary \<Rightarrow> string \<Rightarrow> u32 \<times> Dictionary" where
  "insertTerm accepts d wrd =
     (if accepts (length d) then
        (case map_of d wrd of
           Some i \<Rightarrow> (i, d)
         | None \<Rightarrow> (of_nat (length d), d @ [(wrd, of_nat (length d))]))
      else (getTermId d wrd, d))"

definition put_entry :: "string \<times> u32 \<Rightarrow> u8 list" where
  "put_entry = (\<lambda>(wrd, i). put32 (of_nat (length wrd)) @ map of_char wrd @ put32 i)"

definition Dictionary_save :: "Dictionary \<Rightarrow> u8 list" where
  "Dictionary_save d = put32 (of_nat (length d)) @ concat (map put_entry (sort d))"

definition get_entry :: "u8 list \<Rightarrow> ((string \<times> u32) \<times> u8 list) option" where
  "get_entry s = do {
     (slen, s1) \<leftarrow> get32 s;
     if unat slen > length s1 then None else do {
       (i, s2) \<leftarrow> get32 (drop (unat slen) s1);
       Some ((map (\<lambda>b. char_of (unat b)) (take (unat slen) s1), i), s2)
     }
   }"

primrec load_entries :: "Dictionary \<Rightarrow> nat \<Rightarrow> u8 list \<Rightarrow> (Dictionary \<times> u8 list) option" where
  "load_entries d 0 s = Some (d, s)"
| "load_entries d (Suc n) s = do {
     ((wrd, i), s1) \<leftarrow> get_entry s;
     load_entries (AList.update wrd i d) n s1
   }"

definition Dictionary_load :: "Dictionary \<Rightarrow> u8 list \<Rightarrow> (Dictionary \<times> u8 list) option" where
  "Dictionary_load d s = do {
     (vocabSize, s1) \<leftarrow> get32 s;
     load_entries d (unat vocabSize) s1
   }"

section \<open>FilterBase\<close>

text \<open>The virtual functions of \<open>FilterBase\<close>, and the filter that accepts every document.\<close>

record FilterBase =
  test :: "u32 \<Rightarrow> bool"
  find_first :: "bool \<Rightarrow> u32"
  find_next :: "u32 \<Rightarrow> bool \<Rightarrow> u32"

definition FilterBase_default :: FilterBase where
  "FilterBase_default =
     \<lparr> test = (\<lambda>id. True),
       find_first = (\<lambda>reverse. if reverse then 0x7fffffff else 1),
       find_next = (\<lambda>id reverse. if reverse then id - 1 else id + 1) \<rparr>"

text \<open>What a query needs of a filter: walking it finds every document it accepts, in index order, and never
  stands still. Documents are the ids from 1 to \<open>2 ^ 31 - 1\<close>.\<close>

abbreviation is_docid :: "u32 \<Rightarrow> bool" where
  "is_docid x \<equiv> 0 < x \<and> x < 2 ^ 31"

locale doc_filter =
  fixes flt :: FilterBase
  assumes first: "is_docid x \<Longrightarrow> test flt x \<Longrightarrow> find_first flt r \<noteq> INVALID_ID \<and> \<not> LESS_THAN x (find_first flt r) r"
    and next_progress: "is_docid i \<Longrightarrow> find_next flt i r \<noteq> INVALID_ID \<Longrightarrow> LESS_THAN i (find_next flt i r) r"
    and "next": "is_docid i \<Longrightarrow> is_docid x \<Longrightarrow> test flt x \<Longrightarrow> LESS_THAN i x r \<Longrightarrow>
      find_next flt i r \<noteq> INVALID_ID \<and> \<not> LESS_THAN x (find_next flt i r) r"
    and first_int: "find_first flt True < 2 ^ 31 \<or> find_first flt True = INVALID_ID"
    and next_int: "is_docid i \<Longrightarrow> find_next flt i True < 2 ^ 31 \<or> find_next flt i True = INVALID_ID"

section \<open>Proofs\<close>

lemma docid_step:
  "0 < i \<Longrightarrow> unat (i - 1) = unat i - 1" "i < 2 ^ 31 \<Longrightarrow> unat (i + 1) = unat i + 1" for i :: u32
proof -
  show "0 < i \<Longrightarrow> unat (i - 1) = unat i - 1" by (simp add: unat_minus_one word_gt_0)
  show "i < 2 ^ 31 \<Longrightarrow> unat (i + 1) = unat i + 1" by (subst unat_add32) (simp_all add: word_less_nat_alt)
qed

interpretation default_filter: doc_filter FilterBase_default
proof unfold_locales
  fix i x :: u32 and r
  assume "is_docid i" "is_docid x" "LESS_THAN i x r"
  then show "find_next FilterBase_default i r \<noteq> INVALID_ID \<and> \<not> LESS_THAN x (find_next FilterBase_default i r) r"
    using docid_step [of i] unat_INVALID_ID
    by (auto simp: FilterBase_default_def LESS_THAN_def word_less_nat_alt split: if_splits dest: arg_cong [of _ _ unat])
next
  fix i :: u32 and r
  assume "is_docid i"
  then show "LESS_THAN i (find_next FilterBase_default i r) r"
    using docid_step [of i] by (auto simp: FilterBase_default_def LESS_THAN_def word_less_nat_alt)
next
  fix i :: u32
  assume "is_docid i"
  then show "find_next FilterBase_default i True < 2 ^ 31 \<or> find_next FilterBase_default i True = INVALID_ID"
    using docid_step [of i] by (auto simp: FilterBase_default_def word_less_nat_alt)
next
  fix x :: u32 and r
  assume "is_docid x"
  then show "find_first FilterBase_default r \<noteq> INVALID_ID \<and> \<not> LESS_THAN x (find_first FilterBase_default r) r"
    by (auto simp: FilterBase_default_def LESS_THAN_def INVALID_ID_def word_less_nat_alt)
qed (simp add: FilterBase_default_def)

subsection \<open>Counters\<close>

lemma FixedCounter_get_new [simp]: "FixedCounter_get (FixedCounter_new n d) i = d"
  by (simp add: FixedCounter_get_def FixedCounter_new_def)

lemma length_counter_increment [simp]:
  "length (counter (FixedCounter_increment c i)) = length (counter c)"
  "defaultValue (FixedCounter_increment c i) = defaultValue c"
  by (simp_all add: FixedCounter_increment_def)

lemma FixedCounter_get_increment:
  assumes "unat i < length (counter c)"
  shows "FixedCounter_get (FixedCounter_increment c i) j = FixedCounter_get c j + (if j = i then 1 else 0)"
  using assms by (auto simp: FixedCounter_increment_def FixedCounter_get_def nth_list_update simp flip: word_unat_eq_iff)

lemma FixedCounter_put_ok:
  assumes "unat i < length (counter c)"
  obtains c' where "FixedCounter_put c i v = Some c'" "length (counter c') = length (counter c)"
    "defaultValue c' = defaultValue c"
    "\<And>j. FixedCounter_get c' j = (if j = i then v else FixedCounter_get c j)"
proof
  show "FixedCounter_put c i v = Some (c \<lparr> counter := (counter c)[unat i := v] \<rparr>)"
    using assms by (simp add: FixedCounter_put_def wr_def)
qed (use assms in \<open>auto simp: FixedCounter_get_def nth_list_update simp flip: word_unat_eq_iff\<close>)

text \<open>\<open>nextIndex\<close> ends and finds the next counter that is set.\<close>

lemma nextIndex_ok:
  assumes "length (counter c) < 2 ^ 32" and "k < 2 ^ 32"
  shows "FixedCounter_nextIndex c (of_nat k - 1) =
    Some (case find (\<lambda>i. counter c ! i \<noteq> defaultValue c) [k..<length (counter c)] of None \<Rightarrow> - 1 | Some i \<Rightarrow> of_nat i)"
  using assms(2)
proof (induction "length (counter c) - k" arbitrary: k)
  case 0
  then have "length (counter c) \<le> k" by simp
  with 0 show ?case by (subst FixedCounter_nextIndex.simps) (simp add: unat_of_nat)
next
  case (Suc n)
  then have k: "k < length (counter c)" "n = length (counter c) - Suc k" "Suc k < 2 ^ 32" using assms(1) by auto
  have u: "unat (of_nat k :: u32) = k" using Suc.prems by (simp add: unat_of_nat)
  show ?case
  proof (cases "counter c ! k = defaultValue c")
    case True
    then show ?thesis using Suc.hyps(1) [OF k(2,3)] k(1) u
      by (subst FixedCounter_nextIndex.simps) (simp add: upt_conv_Cons)
  next
    case False
    then show ?thesis using k(1) u by (subst FixedCounter_nextIndex.simps) (simp add: upt_conv_Cons)
  qed
qed

subsection \<open>Saving and loading the counters\<close>

lemma get_words_put:
  assumes "LENGTH('a) \<le> 8 * b"
  shows "get_words b (length ws) (concat (map (put_le b) ws) @ s) = Some (ws :: 'a::len word list, s)"
  by (induction ws) (simp_all add: get_put_le [OF assms])

text \<open>What is left of a counter when its first \<open>n\<close> cells are saved and read into a new counter.\<close>

definition kept :: "nat \<Rightarrow> 'a FixedCounter \<Rightarrow> 'a FixedCounter" where
  "kept n c = c \<lparr> counter := take n (counter c) @ replicate (length (counter c) - n) (defaultValue c) \<rparr>"

definition prefix_set :: "nat \<Rightarrow> 'a FixedCounter \<Rightarrow> bool" where
  "prefix_set n c \<longleftrightarrow> list_all (\<lambda>x. x = defaultValue c) (drop n (counter c))"

lemma replicate_eq_iff: "replicate (length ys) d = ys \<longleftrightarrow> list_all (\<lambda>x. x = d) ys"
  by (induction ys) auto

lemma kept_iff: "kept n c = c \<longleftrightarrow> prefix_set n c"
proof (cases c)
  case (fields d xs)
  have "take n xs @ replicate (length xs - n) d = xs \<longleftrightarrow> replicate (length (drop n xs)) d = drop n xs"
    using same_append_eq [of "take n xs" "replicate (length (drop n xs)) d" "drop n xs"] by simp
  then show ?thesis by (simp only: fields kept_def prefix_set_def replicate_eq_iff) simp
qed

lemma cells_round_trip:
  assumes "LENGTH('a) \<le> 8 * b" "length (counter c) = unat n" "0 < unat n" "k \<le> unat n"
    "defaultValue c = (d :: 'a::len word)"
  obtains bytes where "put_cells b c k = Some bytes"
    "\<And>s. get_cells b (FixedCounter_new n d) k (bytes @ s) = Some (kept k c, s)"
proof
  show "put_cells b c k = Some (concat (map (put_le b) (take k (counter c))))"
    using assms by (simp add: put_cells_def rd_seq_def)
  show "get_cells b (FixedCounter_new n d) k (concat (map (put_le b) (take k (counter c))) @ s) = Some (kept k c, s)" for s
    using get_words_put [OF assms(1), of "take k (counter c)" s] assms(2-)
    by (simp add: get_cells_def FixedCounter_ref_def FixedCounter_new_def rd_def wr_seq_def kept_def)
qed

lemma counter_size_le:
  assumes "length (counter c) = unat (n :: u32)"
  shows "unat (FixedCounter_size c) \<le> unat n"
    and "unat (FixedCounter_size c) = length (filter (\<lambda>x. x \<noteq> defaultValue c) (counter c))"
proof -
  have l: "length (filter (\<lambda>x. x \<noteq> defaultValue c) (counter c)) \<le> unat n"
    using assms length_filter_le [of _ "counter c"] by metis
  then show "unat (FixedCounter_size c) = length (filter (\<lambda>x. x \<noteq> defaultValue c) (counter c))"
    using u32_less [of n] by (simp add: FixedCounter_size_def unat_of_nat)
  with l show "unat (FixedCounter_size c) \<le> unat n" by simp
qed

text \<open>A table of \<open>t\<close> terms and \<open>d\<close> documents.\<close>

definition Pointers_shaped :: "u32 \<Rightarrow> u32 \<Rightarrow> Pointers \<Rightarrow> bool" where
  "Pointers_shaped t d p \<longleftrightarrow>
     length (counter (df p)) = unat t \<and> length (counter (cf p)) = unat t \<and>
     length (counter (headPointers p)) = unat t \<and> length (counter (maxTf p)) = unat t \<and>
     length (counter (maxTfDocLen p)) = unat t \<and> length (counter (docLen p)) = unat d \<and>
     defaultValue (df p) = 0 \<and> defaultValue (cf p) = 0 \<and> defaultValue (headPointers p) = UNDEFINED_POINTER \<and>
     defaultValue (maxTf p) = 0 \<and> defaultValue (maxTfDocLen p) = 0 \<and> defaultValue (docLen p) = 0"

lemma Pointers_shaped_new: "Pointers_shaped t d (Pointers_new t d)"
  by (simp add: Pointers_shaped_def Pointers_new_def FixedCounter_new_def)

text \<open>The counters that are set form a prefix of each table, so that saving their number of cells saves them.\<close>

definition gap_free :: "Pointers \<Rightarrow> bool" where
  "gap_free p \<longleftrightarrow>
     prefix_set (unat (FixedCounter_size (df p))) (df p) \<and> prefix_set (unat (FixedCounter_size (df p))) (cf p) \<and>
     prefix_set (unat (FixedCounter_size (df p))) (headPointers p) \<and>
     prefix_set (unat (FixedCounter_size (maxTf p))) (maxTf p) \<and>
     prefix_set (unat (FixedCounter_size (maxTf p))) (maxTfDocLen p) \<and>
     prefix_set (unat (FixedCounter_size (docLen p))) (docLen p)"

definition Pointers_kept :: "Pointers \<Rightarrow> Pointers" where
  "Pointers_kept p =
     (let n = unat (FixedCounter_size (df p)); m = unat (FixedCounter_size (maxTf p));
          l = unat (FixedCounter_size (docLen p))
      in p \<lparr> df := kept n (df p), cf := kept n (cf p), headPointers := kept n (headPointers p),
             maxTf := kept m (maxTf p), maxTfDocLen := kept m (maxTfDocLen p), docLen := kept l (docLen p) \<rparr>)"

lemma Pointers_kept_iff: "Pointers_kept p = p \<longleftrightarrow> gap_free p"
  by (cases p) (simp add: Pointers_kept_def gap_free_def kept_iff Let_def)

lemma Pointers_load_save:
  assumes "Pointers_shaped t d p" "0 < t" "0 < d"
  shows "\<exists>bytes. Pointers_save p = Some bytes \<and>
    Pointers_load (Pointers_new t d) (bytes @ rest) = Some (Pointers_kept p, rest)"
proof -
  have sh: "length (counter (df p)) = unat t" "length (counter (cf p)) = unat t"
    "length (counter (headPointers p)) = unat t" "length (counter (maxTf p)) = unat t"
    "length (counter (maxTfDocLen p)) = unat t" "length (counter (docLen p)) = unat d"
    "defaultValue (df p) = 0" "defaultValue (cf p) = 0" "defaultValue (headPointers p) = UNDEFINED_POINTER"
    "defaultValue (maxTf p) = 0" "defaultValue (maxTfDocLen p) = 0" "defaultValue (docLen p) = 0"
    using assms(1) by (simp_all add: Pointers_shaped_def)
  have pos: "0 < unat t" "0 < unat d" using assms(2,3) by (simp_all add: word_less_nat_alt)
  define n m l where nml: "n = FixedCounter_size (df p)" "m = FixedCounter_size (maxTf p)" "l = FixedCounter_size (docLen p)"
  have le: "unat n \<le> unat t" "unat m \<le> unat t" "unat l \<le> unat d"
    using counter_size_le sh by (simp_all add: nml)
  from cells_round_trip [of 4 "df p" t "unat n" 0] sh pos le obtain b1 where
    1: "put_cells 4 (df p) (unat n) = Some b1" "\<And>s. get_cells 4 (FixedCounter_new t 0) (unat n) (b1 @ s) = Some (kept (unat n) (df p), s)" by auto
  from cells_round_trip [of 8 "cf p" t "unat n" 0] sh pos le obtain b2 where
    2: "put_cells 8 (cf p) (unat n) = Some b2" "\<And>s. get_cells 8 (FixedCounter_new t 0) (unat n) (b2 @ s) = Some (kept (unat n) (cf p), s)" by auto
  from cells_round_trip [of 8 "headPointers p" t "unat n" UNDEFINED_POINTER] sh pos le obtain b3 where
    3: "put_cells 8 (headPointers p) (unat n) = Some b3"
      "\<And>s. get_cells 8 (FixedCounter_new t UNDEFINED_POINTER) (unat n) (b3 @ s) = Some (kept (unat n) (headPointers p), s)" by auto
  from cells_round_trip [of 4 "maxTf p" t "unat m" 0] sh pos le obtain b4 where
    4: "put_cells 4 (maxTf p) (unat m) = Some b4" "\<And>s. get_cells 4 (FixedCounter_new t 0) (unat m) (b4 @ s) = Some (kept (unat m) (maxTf p), s)" by auto
  from cells_round_trip [of 4 "maxTfDocLen p" t "unat m" 0] sh pos le obtain b5 where
    5: "put_cells 4 (maxTfDocLen p) (unat m) = Some b5" "\<And>s. get_cells 4 (FixedCounter_new t 0) (unat m) (b5 @ s) = Some (kept (unat m) (maxTfDocLen p), s)" by auto
  from cells_round_trip [of 4 "docLen p" d "unat l" 0] sh pos le obtain b6 where
    6: "put_cells 4 (docLen p) (unat l) = Some b6" "\<And>s. get_cells 4 (FixedCounter_new d 0) (unat l) (b6 @ s) = Some (kept (unat l) (docLen p), s)" by auto
  note all = 1 2 3 4 5 6
  have new: "length (counter (df (Pointers_new t d))) = unat t" "length (counter (maxTf (Pointers_new t d))) = unat t"
    "length (counter (docLen (Pointers_new t d))) = unat d"
    by (simp_all add: Pointers_new_def FixedCounter_new_def)
  have sv: "Pointers_save p = Some (put32 n @ b1 @ b2 @ b3 @ put32 m @ b4 @ b5 @ put32 l @ b6 @
      put32 (totalDocs p) @ put64 (totalDocLen p))"
    by (simp add: Pointers_save_def nml [symmetric] all)
  show ?thesis
    unfolding sv Pointers_load_def new
    by (simp add: Pointers_new_def all le not_less [symmetric] Pointers_kept_def Let_def nml [symmetric])
       (simp add: not_less le)
qed

subsection \<open>The dictionary\<close>

text \<open>The words are distinct, numbered in the order of their insertion, and no number is \<open>INVALID_ID\<close>.\<close>

definition dict_ok :: "Dictionary \<Rightarrow> bool" where
  "dict_ok d \<longleftrightarrow> distinct (map fst d) \<and> map snd d = map of_nat [0..<length d] \<and> length d < 2 ^ 32"

lemma dict_ok_nth:
  assumes "dict_ok d" "k < length d"
  shows "snd (d ! k) = of_nat k" "map_of d (fst (d ! k)) = Some (of_nat k)"
proof -
  have "map snd d ! k = map of_nat [0..<length d] ! k" using assms(1) by (simp add: dict_ok_def)
  then show s: "snd (d ! k) = of_nat k" using assms(2) by simp
  then show "map_of d (fst (d ! k)) = Some (of_nat k)"
    using assms by (intro map_of_is_SomeI) (auto simp: dict_ok_def intro!: nth_mem [of k d, THEN back_subst [of "\<lambda>x. x \<in> set d"]] prod_eqI)
qed

lemma dict_ok_map_of:
  assumes "dict_ok d" "map_of d wrd = Some i"
  shows "unat i < length d" "d ! unat i = (wrd, i)"
proof -
  from map_of_SomeD [OF assms(2)] obtain k where k: "k < length d" "d ! k = (wrd, i)"
    by (auto simp: in_set_conv_nth)
  then have "i = of_nat k" using dict_ok_nth(1) [OF assms(1) k(1)] by simp
  then have "unat i = k" using k(1) assms(1) by (simp add: dict_ok_def unat_of_nat)
  with k show "unat i < length d" "d ! unat i = (wrd, i)" by auto
qed

lemma dict_ok_inj:
  assumes "dict_ok d" "map_of d v = Some i" "map_of d w = Some i"
  shows "v = w"
  using dict_ok_map_of(2) [OF assms(1,2)] dict_ok_map_of(2) [OF assms(1,3)] by simp

lemma dict_ok_insert:
  assumes "dict_ok d" "map_of d wrd = None" "length d < 2 ^ 32 - 1"
  shows "dict_ok (d @ [(wrd, of_nat (length d))])"
  using assms by (auto simp: dict_ok_def map_of_eq_None_iff)

text \<open>Inserting a word gives its number, or \<open>INVALID_ID\<close> when the word is new and the table full.\<close>

lemma insertTerm_cases:
  assumes "dict_ok d" and "accepts (length d) \<Longrightarrow> map_of d wrd = None \<Longrightarrow> length d < 2 ^ 32 - 1"
  obtains (known) i where "map_of d wrd = Some i" "insertTerm accepts d wrd = (i, d)"
  | (new) "map_of d wrd = None" "accepts (length d)"
      "insertTerm accepts d wrd = (of_nat (length d), d @ [(wrd, of_nat (length d))])"
      "dict_ok (d @ [(wrd, of_nat (length d))])"
  | (full) "map_of d wrd = None" "\<not> accepts (length d)" "insertTerm accepts d wrd = (INVALID_ID, d)"
proof (cases "map_of d wrd")
  case None
  then show ?thesis
    using assms dict_ok_insert [OF assms(1) None] that(2,3) by (cases "accepts (length d)") (auto simp: insertTerm_def getTermId_def)
next
  case (Some i)
  then show ?thesis using that(1) by (simp add: insertTerm_def getTermId_def)
qed

text \<open>A set of words for which a table of \<open>v\<close> places has room: while one of them is missing, there is a free place. Nothing is
  asked of the hash table here; it may refuse a word at any time.\<close>

definition words_fit :: "string set \<Rightarrow> nat \<Rightarrow> string set \<Rightarrow> bool" where
  "words_fit W v D \<longleftrightarrow> finite W \<and> card W \<le> v \<and> D \<subseteq> W"

lemma words_fit_card:
  assumes "words_fit W v D" "w \<in> W" "w \<notin> D" shows "card D < v"
proof -
  have "D \<subset> W" using assms by (auto simp: words_fit_def)
  then show ?thesis using assms(1) psubset_card_mono [of W D] by (simp add: words_fit_def)
qed

lemma words_fit_mono: "words_fit W v D \<Longrightarrow> D' \<subseteq> D \<union> W \<Longrightarrow> words_fit W v D'"
  by (auto simp: words_fit_def)

text \<open>The map from the words to what an index keeps for their numbers.\<close>

definition abs_of :: "Dictionary \<Rightarrow> 'a list \<Rightarrow> string \<rightharpoonup> 'a" where
  "abs_of d ts = (\<lambda>wrd. map_option (\<lambda>i. ts ! unat i) (map_of d wrd))"

lemma card_dom_abs_of:
  assumes "dict_ok dic" shows "card (dom (abs_of dic ts)) = length dic"
proof -
  have "dom (abs_of dic ts) = set (map fst dic)" unfolding set_map dom_map_of_conv_image_fst [symmetric] by (auto simp: abs_of_def)
  with assms show ?thesis by (metis dict_ok_def distinct_card length_map)
qed

lemma abs_of_update:
  assumes "dict_ok dic" "map_of dic wrd = Some i" "length dic \<le> length ts"
  shows "abs_of dic (ts[unat i := P]) = (abs_of dic ts)(wrd \<mapsto> P)"
proof
  fix v
  show "abs_of dic (ts[unat i := P]) v = ((abs_of dic ts)(wrd \<mapsto> P)) v"
  proof (cases "v = wrd")
    case False
    have "unat j \<noteq> unat i" if "map_of dic v = Some j" for j
      using dict_ok_map_of(2) [OF assms(1,2)] dict_ok_map_of(2) [OF assms(1) that] False by auto
    with False show ?thesis by (auto simp: abs_of_def map_option_case split: option.split)
  qed (use assms dict_ok_map_of(1) [OF assms(1,2)] in \<open>simp add: abs_of_def\<close>)
qed

lemma abs_of_longer:
  assumes "dict_ok dic" "length dic \<le> length ts"
  shows "abs_of dic (ts @ us) = abs_of dic ts"
proof
  fix v
  have "unat j < length ts" if "map_of dic v = Some j" for j
    using dict_ok_map_of(1) [OF assms(1) that] assms(2) by simp
  then show "abs_of dic (ts @ us) v = abs_of dic ts v" by (auto simp: abs_of_def map_option_case nth_append split: option.split)
qed

lemma abs_of_new:
  assumes "dict_ok dic" "map_of dic wrd = None"
  shows "abs_of (dic @ [(wrd, of_nat (length dic))]) ts = (abs_of dic ts)(wrd \<mapsto> ts ! length dic)"
proof
  fix v
  have u: "unat (of_nat (length dic) :: u32) = length dic" using assms by (simp add: dict_ok_def unat_of_nat32)
  show "abs_of (dic @ [(wrd, of_nat (length dic))]) ts v = ((abs_of dic ts)(wrd \<mapsto> ts ! length dic)) v"
    using assms(2) u by (auto simp: abs_of_def map_add_def split: option.split)
qed

lemma get_put_entry:
  assumes "length wrd < 2 ^ 32"
  shows "get_entry (put_entry (wrd, i) @ s) = Some ((wrd, i), s)"
  using assms by (simp add: get_entry_def put_entry_def unat_of_nat char_byte comp_def)

lemma load_entries_put:
  assumes "list_all (\<lambda>(wrd, i). length wrd < 2 ^ 32) es" "distinct (map fst (d @ es))"
  shows "load_entries d (length es) (concat (map put_entry es) @ s) = Some (d @ es, s)"
  using assms
proof (induction es arbitrary: d)
  case (Cons e es)
  obtain wrd i where e: "e = (wrd, i)" by fastforce
  have "wrd \<notin> fst ` set d" using Cons.prems(2) e by auto
  then have "AList.update wrd i d = d @ [(wrd, i)]"
    by (induction d) auto
  then show ?case using Cons.prems Cons.IH [of "d @ [(wrd, i)]"] get_put_entry [of wrd i] e by simp
qed simp

lemma Dictionary_load_save:
  assumes "dict_ok d" "list_all (\<lambda>(wrd, i). length wrd < 2 ^ 32) d"
  shows "Dictionary_load [] (Dictionary_save d @ rest) = Some (sort d, rest)"
proof -
  have "distinct (map fst (sort d))"
    using assms(1) by (metis dict_ok_def distinct_map distinct_sort set_sort)
  moreover have "list_all (\<lambda>(wrd, i). length wrd < 2 ^ 32) (sort d)" using assms(2) by (simp add: list_all_iff)
  ultimately have "load_entries [] (length (sort d)) (concat (map put_entry (sort d)) @ rest) = Some ([] @ sort d, rest)"
    by (intro load_entries_put) simp_all
  then show ?thesis
    using assms(1) by (simp add: Dictionary_load_def Dictionary_save_def unat_of_nat dict_ok_def)
qed

lemma replicate_3: "replicate 3 x = [x, x, x]"
  by (simp add: numeral_3_eq_3)

section \<open>Properties\<close>

text \<open>C28. Saving the statistics and loading them into tables of the same size always succeeds, and gives the same statistics
  back exactly when the terms and documents that have a value form a prefix of their tables: \<open>save\<close> takes
  the number of counters that are set for the length of the prefix it writes.\<close>

theorem Pointers_save_load_iff:
  assumes "Pointers_shaped t d p" and "0 < t" and "0 < d"
  shows "\<exists>bytes p'. Pointers_save p = Some bytes \<and> Pointers_load (Pointers_new t d) (bytes @ rest) = Some (p', rest) \<and>
    (p' = p \<longleftrightarrow> gap_free p)"
  using Pointers_load_save [OF assms, of rest] Pointers_kept_iff [of p] by blast

theorem Pointers_save_load_iff_witness:
  "\<exists>bytes p'. Pointers_save (setDocLen (Pointers_new 1 3) 0 4) = Some bytes \<and>
    Pointers_load (Pointers_new 1 3) (bytes @ [9]) = Some (p', [9]) \<and> p' = setDocLen (Pointers_new 1 3) 0 4"
proof -
  have "Pointers_shaped 1 3 (setDocLen (Pointers_new 1 3) 0 4)"
    by (simp add: Pointers_shaped_def Pointers_new_def setDocLen_def FixedCounter_new_def FixedCounter_set_def)
  moreover have "gap_free (setDocLen (Pointers_new 1 3) 0 4)"
    by (simp add: gap_free_def Pointers_new_def setDocLen_def FixedCounter_new_def FixedCounter_set_def prefix_set_def
        FixedCounter_size_def replicate_3)
  ultimately show ?thesis using Pointers_save_load_iff [of 1 3 "setDocLen (Pointers_new 1 3) 0 4" "[9]"] by auto
qed

text \<open>C29. When the documents are numbered from 1, as \<open>find_first\<close> of the filters has it, saving and loading loses the
  length of the last document: cell 0 is unused, so the prefix written is one cell short.\<close>

theorem last_docLen_lost:
  assumes "Pointers_shaped t d p" and "0 < t" and "counter (docLen p) = 0 # ls @ replicate k 0"
    and "ls \<noteq> []" and "list_all (\<lambda>l. l \<noteq> 0) ls"
  shows "\<exists>bytes p'. Pointers_save p = Some bytes \<and> Pointers_load (Pointers_new t d) (bytes @ rest) = Some (p', rest) \<and>
    FixedCounter_get (docLen p) (of_nat (length ls)) \<noteq> 0 \<and> FixedCounter_get (docLen p') (of_nat (length ls)) = 0"
proof -
  have sh: "length (counter (docLen p)) = unat d" "defaultValue (docLen p) = 0"
    using assms(1) by (simp_all add: Pointers_shaped_def)
  have d: "0 < d" using sh(1) assms(3) by (auto simp: word_less_nat_alt)
  have n: "length ls < 2 ^ 32" using sh(1) assms(3) u32_less [of d] by simp
  have "filter (\<lambda>x. x \<noteq> 0) ls = ls" using assms(5) by (simp add: list_all_iff)
  then have "unat (FixedCounter_size (docLen p)) = length ls"
    using counter_size_le(2) [OF sh(1)] sh(2) assms(3) by simp
  then have "counter (docLen (Pointers_kept p)) = take (length ls) (0 # ls @ replicate k 0) @ replicate (Suc k) 0"
    using assms(3) sh(2) by (simp add: Pointers_kept_def Let_def kept_def del: replicate_Suc)
  then have "FixedCounter_get (docLen (Pointers_kept p)) (of_nat (length ls)) = 0"
    using n by (simp add: FixedCounter_get_def unat_of_nat nth_append del: replicate_Suc)
  moreover have "FixedCounter_get (docLen p) (of_nat (length ls)) = last ls"
    using n assms(3,4) by (simp add: FixedCounter_get_def unat_of_nat nth_append nth_Cons' last_conv_nth)
  moreover have "last ls \<noteq> 0" using assms(4,5) by (simp add: list_all_iff)
  ultimately show ?thesis using Pointers_load_save [OF assms(1,2) d, of rest] by auto
qed

theorem last_docLen_lost_witness:
  "\<exists>bytes p'. Pointers_save (setDocLen (Pointers_new 1 3) 1 4) = Some bytes \<and>
    Pointers_load (Pointers_new 1 3) (bytes @ [9]) = Some (p', [9]) \<and>
    FixedCounter_get (docLen (setDocLen (Pointers_new 1 3) 1 4)) (of_nat (length [4 :: u32])) \<noteq> 0 \<and>
    FixedCounter_get (docLen p') (of_nat (length [4 :: u32])) = 0"
proof (rule last_docLen_lost [where k = 1])
  show "Pointers_shaped 1 3 (setDocLen (Pointers_new 1 3) 1 4)"
    by (simp add: Pointers_shaped_def Pointers_new_def setDocLen_def FixedCounter_new_def FixedCounter_set_def)
qed (simp_all add: Pointers_new_def setDocLen_def FixedCounter_new_def FixedCounter_set_def replicate_3)

text \<open>C30. A dictionary keeps its words distinct and numbered in the order of their insertion whatever is inserted, and a saved
  dictionary loaded into an empty one gives every word the number it had and leaves the bytes behind it.\<close>

theorem Dictionary_round_trip:
  assumes "\<forall>n. accepts n \<longrightarrow> n < 2 ^ 32 - 1" and "list_all (\<lambda>wrd. length wrd < 2 ^ 32) wrds"
  shows "let d = fold (\<lambda>wrd d. snd (insertTerm accepts d wrd)) wrds [] in
    dict_ok d \<and> (\<exists>d'. Dictionary_load [] (Dictionary_save d @ rest) = Some (d', rest) \<and> getTermId d' = getTermId d)"
proof -
  define d where "d = fold (\<lambda>wrd d. snd (insertTerm accepts d wrd)) wrds []"
  have step: "dict_ok (snd (insertTerm accepts e w)) \<and> list_all (\<lambda>(wrd, i). length wrd < 2 ^ 32) (snd (insertTerm accepts e w))"
    if "dict_ok e" "list_all (\<lambda>(wrd, i). length wrd < 2 ^ 32) e" "length w < 2 ^ 32" for e w
    by (rule insertTerm_cases [OF that(1), of accepts w]) (use assms(1) that in auto)
  have "dict_ok (fold (\<lambda>wrd d. snd (insertTerm accepts d wrd)) ws e) \<and>
      list_all (\<lambda>(wrd, i). length wrd < 2 ^ 32) (fold (\<lambda>wrd d. snd (insertTerm accepts d wrd)) ws e)"
    if "dict_ok e" "list_all (\<lambda>(wrd, i). length wrd < 2 ^ 32) e" "list_all (\<lambda>wrd. length wrd < 2 ^ 32) ws" for ws e
    using that by (induction ws arbitrary: e) (use step in \<open>auto\<close>)
  from this [of "[]" wrds] assms(2) have d: "dict_ok d" "list_all (\<lambda>(wrd, i). length wrd < 2 ^ 32) d"
    by (auto simp: d_def dict_ok_def)
  have "map_of (sort d) = map_of d"
    using d(1) unfolding dict_ok_def distinct_map by (intro map_of_inject_set [THEN iffD2]) (simp_all add: distinct_map)
  then have "getTermId (sort d) = getTermId d" by (simp add: getTermId_def fun_eq_iff)
  with Dictionary_load_save [OF d, of rest] d(1) show ?thesis by (simp add: d_def [symmetric])
qed

theorem Dictionary_round_trip_witness:
  "let d = fold (\<lambda>wrd d. snd (insertTerm (\<lambda>n. n < 2) d wrd)) [''b'', ''a'', ''b'', ''c''] [] in
    dict_ok d \<and> (\<exists>d'. Dictionary_load [] (Dictionary_save d @ [1]) = Some (d', [1]) \<and> getTermId d' = getTermId d)"
  by (rule Dictionary_round_trip) simp_all

end
