(* ===== verification/Zambezi_Search.thy ===== *)
theory Zambezi_Search
  imports Zambezi_Utils
begin

text \<open>
  The two block searches of the Zambezi index: \<open>gallopSearch\<close>
  (\<open>source/ir/Zambezi/search/GallopSearch.cpp\<close>), its member-function twin
  \<open>PositionalInvertedIndex::gallopSearch_\<close>, and the SIMD \<open>linearSearch\<close>
  (\<open>source/ir/Zambezi/search/LinearSearch.cpp\<close>). Both look, from a start index on, for the
  first docid that does not precede a pivot. The locale \<open>posting_search\<close> states that
  contract; the query evaluators use a search only through it.
\<close>

section \<open>The contract of a block search\<close>

text \<open>\<open>found block r pivot lo i\<close>: \<open>i\<close> is the first position from \<open>lo\<close> on whose docid does not
  precede the pivot.\<close>

abbreviation found :: "u32 list \<Rightarrow> bool \<Rightarrow> u32 \<Rightarrow> nat \<Rightarrow> nat \<Rightarrow> bool" where
  "found block r pivot \<equiv> first_at (\<lambda>i. \<not> LESS_THAN (block ! i) pivot r)"

locale posting_search =
  fixes search :: "u32 list \<Rightarrow> bool \<Rightarrow> nat \<Rightarrow> nat \<Rightarrow> u32 \<Rightarrow> nat option"
    and ready :: "u32 list \<Rightarrow> bool \<Rightarrow> nat \<Rightarrow> nat \<Rightarrow> u32 \<Rightarrow> bool"
  assumes ready_bound: "ready block r count index pivot \<Longrightarrow> index < count \<and> count \<le> length block"
    and ready_tail: "ready block r count index pivot \<Longrightarrow> \<not> LESS_THAN (block ! (count - 1)) pivot r"
    and search_found: "ready block r count index pivot \<Longrightarrow>
      \<exists>i. search block r count index pivot = Some i \<and> found block r pivot index i"
begin

lemma search_in_block:
  assumes "ready block r count index pivot"
  shows "\<exists>i. search block r count index pivot = Some i \<and> index \<le> i \<and> i < count"
proof -
  from search_found [OF assms] obtain i where
    i: "search block r count index pivot = Some i" "found block r pivot index i" by blast
  from ready_bound [OF assms] have lt: "index < count" by simp
  have "i \<le> count - 1"
  proof (rule ccontr)
    assume "\<not> i \<le> count - 1"
    then have "index \<le> count - 1 \<and> count - 1 < i" using lt by simp
    with i(2) have "LESS_THAN (block ! (count - 1)) pivot r" by (auto simp: first_at_def)
    with ready_tail [OF assms] show False by simp
  qed
  with i lt show ?thesis by (auto simp: first_at_def)
qed

text \<open>On a posting list the search decides membership and loses no docid from the pivot on.\<close>

lemma search_mem:
  assumes "ready block r count index pivot" and "postings r (take count block)"
    and "search block r count index pivot = Some i"
  shows "pivot \<in> set (drop index (take count block)) \<longleftrightarrow> block ! i = pivot"
proof -
  from search_in_block [OF assms(1)] assms(3) have i: "index \<le> i" "i < count" by auto
  from search_found [OF assms(1)] assms(3) have f: "found block r pivot index i" by auto
  from ready_bound [OF assms(1)] have len: "count \<le> length block" by simp
  have mem: "pivot \<in> set (drop index (take count block)) \<longleftrightarrow>
      (\<exists>j. index \<le> j \<and> j < count \<and> block ! j = pivot)"
  proof
    assume "pivot \<in> set (drop index (take count block))"
    then obtain k where "k < count - index" "take count block ! (index + k) = pivot"
      using len by (auto simp: in_set_conv_nth)
    then show "\<exists>j. index \<le> j \<and> j < count \<and> block ! j = pivot"
      by (intro exI [of _ "index + k"]) auto
  next
    assume "\<exists>j. index \<le> j \<and> j < count \<and> block ! j = pivot"
    then obtain j where "index \<le> j" "j < count" "block ! j = pivot" by blast
    then show "pivot \<in> set (drop index (take count block))"
      using len by (auto simp: in_set_conv_nth intro!: exI [of _ "j - index"])
  qed
  have "block ! j = pivot \<Longrightarrow> index \<le> j \<Longrightarrow> j < count \<Longrightarrow> j = i" for j
  proof -
    assume j: "block ! j = pivot" "index \<le> j" "j < count"
    then have "i \<le> j" using f by (auto simp: first_at_def not_less [symmetric])
    moreover have "\<not> i < j"
    proof
      assume "i < j"
      with postings_nth_less [OF assms(2), of i j] j len i
      have "LESS_THAN (block ! i) pivot r" by simp
      with f show False by (simp add: first_at_def)
    qed
    ultimately show ?thesis by simp
  qed
  with mem i show ?thesis by blast
qed

end

section \<open>gallopSearch\<close>

text \<open>
  The indices are C \<open>int\<close>s: an addition or doubling that leaves the \<open>int\<close> range, and a
  read outside \<open>block\<close>, is \<^const>\<open>None\<close>. \<open>gallop_up\<close>, \<open>gallop_down\<close> and \<open>bin_search\<close> are
  the three loops, in the order of the source.
\<close>

partial_function (option) gallop_up ::
  "u32 list \<Rightarrow> bool \<Rightarrow> nat \<Rightarrow> u32 \<Rightarrow> int \<Rightarrow> int \<Rightarrow> int \<Rightarrow> int option"
where
  "gallop_up block reverse count pivot beginIndex hop tempIndex =
     (if nat (tempIndex mod 2 ^ 32) < count then do {
        x \<leftarrow> rd_int block tempIndex;
        if LESS_THAN_EQUAL x pivot reverse then do {
          tempIndex' \<leftarrow> chk_int (tempIndex + hop);
          hop' \<leftarrow> chk_int (hop * 2);
          gallop_up block reverse count pivot tempIndex hop' tempIndex'
        } else Some beginIndex
      } else Some beginIndex)"

partial_function (option) gallop_down ::
  "u32 list \<Rightarrow> bool \<Rightarrow> u32 \<Rightarrow> int \<Rightarrow> int \<Rightarrow> int \<Rightarrow> int option"
where
  "gallop_down block reverse pivot endIndex hop tempIndex =
     (if tempIndex \<ge> 0 then do {
        x \<leftarrow> rd_int block tempIndex;
        if GREATER_THAN x pivot reverse then do {
          tempIndex' \<leftarrow> chk_int (tempIndex - hop);
          hop' \<leftarrow> chk_int (hop * 2);
          gallop_down block reverse pivot tempIndex hop' tempIndex'
        } else Some endIndex
      } else Some endIndex)"

text \<open>The two tests of the binary search are parameters, since its two callers spell them
  differently (\<open>GREATER_THAN(block[mid], pivot)\<close> and \<open>LESS_THAN(pivot, block[mid])\<close>).\<close>

partial_function (option) bin_search ::
  "u32 list \<Rightarrow> (u32 \<Rightarrow> bool) \<Rightarrow> (u32 \<Rightarrow> bool) \<Rightarrow> int \<Rightarrow> int \<Rightarrow> int option"
where
  "bin_search block gt lt beginIndex endIndex =
     (if beginIndex < endIndex then do {
        let mid = beginIndex + (endIndex - beginIndex) div 2;
        x \<leftarrow> rd_int block mid;
        if gt x then bin_search block gt lt beginIndex mid
        else if lt x then bin_search block gt lt (mid + 1) endIndex
        else Some mid
      } else Some endIndex)"

definition gallopSearch :: "u32 list \<Rightarrow> bool \<Rightarrow> nat \<Rightarrow> nat \<Rightarrow> u32 \<Rightarrow> u32 option" where
  "gallopSearch block reverse count index pivot =
     (if index \<ge> count then Some INVALID_ID else do {
        lst \<leftarrow> rd block (count - 1);
        if LESS_THAN lst pivot reverse then Some INVALID_ID else do {
          x \<leftarrow> rd block index;
          if GREATER_THAN_EQUAL x pivot reverse then Some (of_nat index)
          else if lst = pivot then Some (of_nat (count - 1))
          else do {
            beginIndex \<leftarrow> gallop_up block reverse count pivot (int index) 1 (int index + 1);
            b \<leftarrow> rd_int block beginIndex;
            if b = pivot then Some (of_int beginIndex)
            else do {
              endIndex \<leftarrow> gallop_down block reverse pivot (int count - 1) 1 (int count - 2);
              e \<leftarrow> rd_int block endIndex;
              if e = pivot then Some (of_int endIndex)
              else do {
                i \<leftarrow> bin_search block (\<lambda>x. GREATER_THAN x pivot reverse)
                       (\<lambda>x. LESS_THAN x pivot reverse) beginIndex endIndex;
                Some (of_int i)
              }
            }
          }
        }
      })"

text \<open>\<open>PositionalInvertedIndex::gallopSearch_\<close>: the same search, which reports success as a
  boolean and leaves the position in its reference argument \<open>index\<close>.\<close>

definition pos_gallopSearch :: "u32 list \<Rightarrow> bool \<Rightarrow> nat \<Rightarrow> nat \<Rightarrow> u32 \<Rightarrow> (bool \<times> nat) option" where
  "pos_gallopSearch block reverse count index pivot =
     (if index \<ge> count then Some (False, index) else do {
        lst \<leftarrow> rd block (count - 1);
        if LESS_THAN lst pivot reverse then Some (False, index) else do {
          x \<leftarrow> rd block index;
          if GREATER_THAN_EQUAL x pivot reverse then Some (True, index)
          else if lst = pivot then Some (True, count - 1)
          else do {
            beginIndex \<leftarrow> gallop_up block reverse count pivot (int index) 1 (int index + 1);
            b \<leftarrow> rd_int block beginIndex;
            if b = pivot then Some (True, unat (of_int beginIndex :: u32))
            else do {
              endIndex \<leftarrow> gallop_down block reverse pivot (int count - 1) 1 (int count - 2);
              e \<leftarrow> rd_int block endIndex;
              if e = pivot then Some (True, unat (of_int endIndex :: u32))
              else do {
                i \<leftarrow> bin_search block (\<lambda>x. LESS_THAN pivot x reverse)
                       (\<lambda>x. GREATER_THAN pivot x reverse) beginIndex endIndex;
                Some (True, unat (of_int i :: u32))
              }
            }
          }
        }
      })"

text \<open>
  The three loops, with the invariant each keeps. A block is \<open>searchable\<close> when its first
  \<open>count\<close> docids are a posting list and \<open>count\<close> is at most \<open>2 ^ 30\<close>, which keeps every
  intermediate index inside the \<open>int\<close> range.
\<close>

definition searchable :: "u32 list \<Rightarrow> bool \<Rightarrow> nat \<Rightarrow> bool" where
  "searchable block r count \<longleftrightarrow>
     count \<le> length block \<and> count \<le> 2 ^ 30 \<and> postings r (take count block)"

lemma searchable_less:
  "searchable block r count \<Longrightarrow> i < j \<Longrightarrow> j < count \<Longrightarrow> LESS_THAN (block ! i) (block ! j) r"
  using postings_nth_less [of r "take count block" i j] by (simp add: searchable_def)

lemma searchable_mono:
  assumes "searchable block r count" and "i \<le> j" and "j < count" and "LESS_THAN (block ! j) p r"
  shows "LESS_THAN (block ! i) p r"
  using assms searchable_less [of block r count i j] LESS_THAN_trans by (cases "i = j") auto

lemma gallop_up_spec:
  assumes s: "searchable block r count" and i: "index < count"
    and "1 \<le> hop" "tempIndex = int index + hop" "int index \<le> beginIndex" "beginIndex < int count"
    and "beginIndex < tempIndex"
    and "hop \<le> 2 * int count"
    and "\<not> LESS_THAN pivot (block ! nat beginIndex) r"
  shows "\<exists>b. gallop_up block r count pivot beginIndex hop tempIndex = Some b \<and>
           int index \<le> b \<and> b < int count \<and> \<not> LESS_THAN pivot (block ! nat b) r"
  using assms(3-)
proof (induction "nat (int count - tempIndex)" arbitrary: beginIndex hop tempIndex rule: less_induct)
  case less
  have cnt: "int count \<le> 2 ^ 30" "count \<le> length block"
    using s by (auto simp: searchable_def simp flip: of_nat_power)
  have t0: "0 \<le> tempIndex" "tempIndex < 2 ^ 32" using less.prems cnt i by auto
  show ?case
  proof (cases "tempIndex < int count \<and> \<not> LESS_THAN pivot (block ! nat tempIndex) r")
    case True
    then have rd: "rd_int block tempIndex = Some (block ! nat tempIndex)"
      using t0 cnt by (intro rd_int_Some) auto
    have h: "hop < int count" using less.prems True i by linarith
    have c1: "chk_int (tempIndex + hop) = Some (tempIndex + hop)"
      using less.prems True cnt h t0 by (intro chk_int_Some) auto
    have c2: "chk_int (hop * 2) = Some (hop * 2)"
      using less.prems h cnt by (intro chk_int_Some) auto
    have "\<exists>b. gallop_up block r count pivot tempIndex (hop * 2) (tempIndex + hop) = Some b \<and>
           int index \<le> b \<and> b < int count \<and> \<not> LESS_THAN pivot (block ! nat b) r"
      by (rule less.hyps) (use less.prems True h in auto)
    then show ?thesis
      using True t0 rd c1 c2
      by (subst gallop_up.simps) (simp add: cmp_macros nat_less_iff)
  next
    case False
    have rd: "tempIndex < int count \<Longrightarrow> rd_int block tempIndex = Some (block ! nat tempIndex)"
      using t0 cnt by (intro rd_int_Some) auto
    show ?thesis
      using False t0 rd less.prems
      by (subst gallop_up.simps) (auto simp: cmp_macros)
  qed
qed

lemma gallop_down_spec:
  assumes s: "searchable block r count" and c: "0 < count"
    and "1 \<le> hop" "tempIndex = int count - 1 - hop" "tempIndex < endIndex" "endIndex < int count"
    and "0 \<le> endIndex"
    and "hop \<le> 2 * int count"
    and "LESS_THAN pivot (block ! nat endIndex) r"
  shows "\<exists>e. gallop_down block r pivot endIndex hop tempIndex = Some e \<and>
           0 \<le> e \<and> e < int count \<and> LESS_THAN pivot (block ! nat e) r"
  using assms(3-)
proof (induction "nat (tempIndex + 1)" arbitrary: endIndex hop tempIndex rule: less_induct)
  case less
  have cnt: "int count \<le> 2 ^ 30" "count \<le> length block"
    using s by (auto simp: searchable_def simp flip: of_nat_power)
  show ?case
  proof (cases "0 \<le> tempIndex \<and> LESS_THAN pivot (block ! nat tempIndex) r")
    case True
    then have rd: "rd_int block tempIndex = Some (block ! nat tempIndex)"
      using less.prems cnt by (intro rd_int_Some) auto
    have h: "hop < int count" using less.prems True by linarith
    have c1: "chk_int (tempIndex - hop) = Some (tempIndex - hop)"
      using less.prems True cnt h by (intro chk_int_Some) auto
    have c2: "chk_int (hop * 2) = Some (hop * 2)"
      using less.prems h cnt by (intro chk_int_Some) auto
    have "\<exists>e. gallop_down block r pivot tempIndex (hop * 2) (tempIndex - hop) = Some e \<and>
           0 \<le> e \<and> e < int count \<and> LESS_THAN pivot (block ! nat e) r"
      by (rule less.hyps) (use less.prems True h in auto)
    then show ?thesis
      using True rd c1 c2
      by (subst gallop_down.simps) (simp add: cmp_macros)
  next
    case False
    have rd: "0 \<le> tempIndex \<Longrightarrow> rd_int block tempIndex = Some (block ! nat tempIndex)"
      using less.prems cnt by (intro rd_int_Some) auto
    show ?thesis
      using False rd less.prems
      by (subst gallop_down.simps) (auto simp: cmp_macros)
  qed
qed

lemma bin_search_spec:
  assumes s: "searchable block r count"
    and "0 \<le> beginIndex" "beginIndex \<le> endIndex" "endIndex < int count"
    and "\<And>j. j < nat beginIndex \<Longrightarrow> LESS_THAN (block ! j) pivot r"
    and "LESS_THAN pivot (block ! nat endIndex) r"
  shows "\<exists>i. bin_search block (\<lambda>x. LESS_THAN pivot x r) (\<lambda>x. LESS_THAN x pivot r) beginIndex endIndex
             = Some (int i) \<and> i < count \<and>
           \<not> LESS_THAN (block ! i) pivot r \<and> (\<forall>j < i. LESS_THAN (block ! j) pivot r)"
  using assms(2-)
proof (induction "nat (endIndex - beginIndex)" arbitrary: beginIndex endIndex rule: less_induct)
  case less
  show ?case
  proof (cases "beginIndex < endIndex")
    case False
    then have "beginIndex = endIndex" using less.prems by simp
    then show ?thesis
      using less.prems LESS_THAN_asym
      by (subst bin_search.simps) (auto intro!: exI [of _ "nat endIndex"])
  next
    case True
    define mid where "mid = beginIndex + (endIndex - beginIndex) div 2"
    have m: "beginIndex \<le> mid" "mid < endIndex" using True by (auto simp: mid_def)
    have rd: "rd_int block mid = Some (block ! nat mid)"
      using m less.prems s by (intro rd_int_Some) (auto simp: searchable_def)
    let ?bs = "bin_search block (\<lambda>x. LESS_THAN pivot x r) (\<lambda>x. LESS_THAN x pivot r)"
    have unfold: "?bs beginIndex endIndex =
        (if LESS_THAN pivot (block ! nat mid) r then ?bs beginIndex mid
         else if LESS_THAN (block ! nat mid) pivot r then ?bs (mid + 1) endIndex
         else Some mid)"
      using True rd by (subst bin_search.simps) (simp add: cmp_macros mid_def [symmetric] Let_def)
    consider (gt) "LESS_THAN pivot (block ! nat mid) r" | (lt) "LESS_THAN (block ! nat mid) pivot r"
      | (eq) "block ! nat mid = pivot"
      using LESS_THAN_linear by blast
    then show ?thesis
    proof cases
      case gt
      have "nat (mid - beginIndex) < nat (endIndex - beginIndex)" using m by simp
      from less.hyps [OF this] gt m less.prems show ?thesis by (simp add: unfold)
    next
      case lt
      have "nat (endIndex - (mid + 1)) < nat (endIndex - beginIndex)" using m by simp
      moreover have "j < nat (mid + 1) \<Longrightarrow> LESS_THAN (block ! j) pivot r" for j
        using searchable_mono [OF s, of j "nat mid" pivot] lt m less.prems by auto
      ultimately show ?thesis
        using less.hyps [of endIndex "mid + 1"] lt m less.prems LESS_THAN_asym [OF lt]
        by (simp add: unfold)
    next
      case eq
      have "j < nat mid \<Longrightarrow> LESS_THAN (block ! j) pivot r" for j
        using searchable_less [OF s, of j "nat mid"] eq m less.prems by auto
      then show ?thesis using eq m less.prems by (auto simp: unfold intro!: exI [of _ "nat mid"])
    qed
  qed
qed

text \<open>The position of the pivot itself, in a posting list, is the one the search wants.\<close>

lemma found_at_pivot:
  assumes s: "searchable block r count" and "i < count" "index \<le> i" "block ! i = pivot"
  shows "found block r pivot index i"
  unfolding first_at_def
proof (intro conjI allI impI)
  fix j assume "index \<le> j \<and> j < i"
  with searchable_less [OF s, of j i] assms show "\<not> \<not> LESS_THAN (block ! j) pivot r" by simp
qed (use assms in auto)

lemma gallopSearch_hit:
  assumes s: "searchable block r count" and i: "index < count"
    and tail: "\<not> LESS_THAN (block ! (count - 1)) pivot r"
  shows "\<exists>i. gallopSearch block r count index pivot = Some (of_nat i) \<and> i < count \<and>
           found block r pivot index i"
proof -
  have len: "count \<le> length block" using s by (simp add: searchable_def)
  then have rds: "rd block (count - 1) = Some (block ! (count - 1))" "rd block index = Some (block ! index)"
    using i by (auto intro!: rd_Some)
  consider (here) "\<not> LESS_THAN (block ! index) pivot r"
    | (last) "LESS_THAN (block ! index) pivot r" "block ! (count - 1) = pivot"
    | (inner) "LESS_THAN (block ! index) pivot r" "block ! (count - 1) \<noteq> pivot" by blast
  then show ?thesis
  proof cases
    case here
    then show ?thesis using i tail rds
      by (auto simp: gallopSearch_def cmp_macros first_at_def intro!: exI [of _ index])
  next
    case last
    then show ?thesis using i tail rds found_at_pivot [OF s, of "count - 1" index]
      by (auto simp: gallopSearch_def cmp_macros intro!: exI [of _ "count - 1"])
  next
    case inner
    have gt: "LESS_THAN pivot (block ! (count - 1)) r"
      using inner(2) tail LESS_THAN_linear [of pivot "block ! (count - 1)" r] by auto
    have ne: "index \<noteq> count - 1" using gt inner(1) LESS_THAN_asym by metis
    from gallop_up_spec [OF s i, of 1 "int index + 1" "int index" pivot] inner(1) i
    obtain b where b: "gallop_up block r count pivot (int index) 1 (int index + 1) = Some b"
      "int index \<le> b" "b < int count" "\<not> LESS_THAN pivot (block ! nat b) r"
      using LESS_THAN_asym by auto
    from gallop_down_spec [OF s, of 1 "int count - 2" "int count - 1" pivot] i gt
    obtain e where e: "gallop_down block r pivot (int count - 1) 1 (int count - 2) = Some e"
      "0 \<le> e" "e < int count" "LESS_THAN pivot (block ! nat e) r"
      by (auto simp: nat_diff_distrib)
    have rb: "rd_int block b = Some (block ! nat b)" and re: "rd_int block e = Some (block ! nat e)"
      using b e len by (auto intro!: rd_int_Some)
    have e_ne: "block ! nat e \<noteq> pivot" using e(4) by auto
    show ?thesis
    proof (cases "block ! nat b = pivot")
      case True
      moreover have "found block r pivot index (nat b)"
        using True b by (intro found_at_pivot [OF s]) auto
      ultimately show ?thesis using inner i tail rds b rb
        by (auto simp: gallopSearch_def cmp_macros intro!: exI [of _ "nat b"])
    next
      case False
      then have blt: "LESS_THAN (block ! nat b) pivot r"
        using b(4) LESS_THAN_linear [of "block ! nat b" pivot r] by blast
      have be: "b \<le> e"
      proof (rule ccontr)
        assume "\<not> b \<le> e"
        then have "LESS_THAN (block ! nat e) (block ! nat b) r"
          using b e by (intro searchable_less [OF s]) auto
        with blt e(4) show False using LESS_THAN_trans LESS_THAN_asym by metis
      qed
      have below: "j < nat b \<Longrightarrow> LESS_THAN (block ! j) pivot r" for j
        using searchable_mono [OF s, of j "nat b"] blt b by auto
      from bin_search_spec [OF s _ be, of pivot] below b e
      obtain i' where i': "bin_search block (\<lambda>x. LESS_THAN pivot x r) (\<lambda>x. LESS_THAN x pivot r) b e
          = Some (int i')" "i' < count"
        "\<not> LESS_THAN (block ! i') pivot r" "\<forall>j < i'. LESS_THAN (block ! j) pivot r" by auto
      have "index \<le> i'" using i'(3) inner(1) below b(2) blt by (metis i'(4) not_le_imp_less searchable_mono [OF s] i less_imp_le_nat i'(2))
      then have "found block r pivot index i'" using i' by (simp add: first_at_def)
      then show ?thesis using inner i tail rds b rb e re e_ne False i'
        by (auto simp: gallopSearch_def cmp_macros intro!: exI [of _ i'])
    qed
  qed
qed

lemma gallopSearch_miss:
  assumes "searchable block r count"
    and "index \<ge> count \<or> LESS_THAN (block ! (count - 1)) pivot r"
  shows "gallopSearch block r count index pivot = Some INVALID_ID"
  using assms by (auto simp: gallopSearch_def searchable_def rd_def)

text \<open>The two galloping searches agree: one returns the index or \<open>INVALID_ID\<close>, the other a flag and
  the index.\<close>

lemma gallopSearch_eq:
  "gallopSearch block r count index pivot =
     map_option (\<lambda>(ok, i). if ok then of_nat i else INVALID_ID) (pos_gallopSearch block r count index pivot)"
  by (simp add: gallopSearch_def pos_gallopSearch_def cmp_macros split: bind_splits)

lemma pos_gallopSearch_hit:
  assumes s: "searchable block r count" and i: "index < count"
    and tail: "\<not> LESS_THAN (block ! (count - 1)) pivot r"
  shows "\<exists>i. pos_gallopSearch block r count index pivot = Some (True, i) \<and> i < count \<and>
           found block r pivot index i"
proof -
  have c: "count \<le> 2 ^ 30" using s by (simp add: searchable_def)
  from gallopSearch_hit [OF assms] obtain i where
    i: "gallopSearch block r count index pivot = Some (of_nat i)" "i < count" "found block r pivot index i"
    by blast
  then obtain ok j where j: "pos_gallopSearch block r count index pivot = Some (ok, j)"
    "(if ok then of_nat j else INVALID_ID) = (of_nat i :: u32)"
    by (auto simp: gallopSearch_eq)
  have small: "unat (of_nat i :: u32) = i" using i(2) c by (simp add: unat_of_nat)
  have "i \<noteq> unat INVALID_ID" using i(2) c by (simp add: unat_INVALID_ID)
  then have ok: ok using j(2) small by (metis (full_types))
  have "j < 2 ^ 32" using j(1) ok c \<open>index < count\<close>
    by (auto simp: pos_gallopSearch_def u32_less split: bind_splits if_splits)
  then have "j = i" using j(2) ok small by (auto simp: unat_of_nat dest: arg_cong [where f = unat])
  with i j ok show ?thesis by auto
qed

section \<open>Lists of docids\<close>

lemma postings_drop: "postings r xs \<Longrightarrow> postings r (drop n xs)"
  by (simp add: postings_def sorted_wrt_drop)

lemma first_at_dropWhile:
  assumes "first_at (\<lambda>j. \<not> P (xs ! j)) i j" "j < length xs"
  shows "dropWhile P (drop i xs) = drop j xs" "dropWhile P (drop i xs) \<noteq> []"
proof -
  have ij: "i \<le> j" "\<not> P (xs ! j)" and before: "\<And>k. i \<le> k \<Longrightarrow> k < j \<Longrightarrow> P (xs ! k)"
    using assms(1) by (auto simp: first_at_def)
  have "drop i xs = take (j - i) (drop i xs) @ drop j xs"
    using ij(1) by (metis append_take_drop_id drop_drop le_add_diff_inverse2)
  moreover have "\<forall>x \<in> set (take (j - i) (drop i xs)). P x"
    using before assms(2) by (auto simp: in_set_conv_nth)
  moreover have "drop j xs = xs ! j # drop (Suc j) xs" using assms(2) by (simp add: Cons_nth_drop_Suc)
  ultimately show "dropWhile P (drop i xs) = drop j xs" "dropWhile P (drop i xs) \<noteq> []"
    using ij(2) by (metis dropWhile_append2 dropWhile.simps(2) list.distinct(1))+
qed

section \<open>linearSearch\<close>

text \<open>
  The SSE intrinsics of the search, lane by lane: a signed comparison of four 32-bit lanes gives
  all ones or all zeros, the two packs saturate 32-bit lanes to 16 and 16-bit lanes to 8 bits,
  and the mask collects the sign bits of sixteen bytes.
\<close>

definition mm_cmpgt_epi32 :: "u32 list \<Rightarrow> u32 list \<Rightarrow> u32 list" where
  "mm_cmpgt_epi32 a b = map2 (\<lambda>x y. if sint x > sint y then - 1 else 0) a b"

definition sat16 :: "u32 \<Rightarrow> u16" where
  "sat16 x = (if sint x > 32767 then 32767 else if sint x < - 32768 then - 32768 else of_int (sint x))"

definition sat8 :: "u16 \<Rightarrow> u8" where
  "sat8 x = (if sint x > 127 then 127 else if sint x < - 128 then - 128 else of_int (sint x))"

definition mm_packs_epi32 :: "u32 list \<Rightarrow> u32 list \<Rightarrow> u16 list" where
  "mm_packs_epi32 a b = map sat16 (a @ b)"

definition mm_packs_epi16 :: "u16 list \<Rightarrow> u16 list \<Rightarrow> u8 list" where
  "mm_packs_epi16 a b = map sat8 (a @ b)"

definition mm_movemask_epi8 :: "u8 list \<Rightarrow> u32" where
  "mm_movemask_epi8 a = horner_sum of_bool 2 (map (\<lambda>x. bit x 7) a)"

definition builtin_ctz :: "u32 \<Rightarrow> nat" where
  "builtin_ctz w = length (takeWhile (\<lambda>i. \<not> bit w i) [0..<32])"

text \<open>The mask of one round: sixteen docids from \<open>tmp\<close> on against the pivot.\<close>

definition linear_mask :: "bool \<Rightarrow> u32 \<Rightarrow> u32 list \<Rightarrow> u32" where
  "linear_mask reverse pivot xs =
     (let pivot4 = replicate 4 pivot;
          lane = (\<lambda>k. take 4 (drop (4 * k) xs));
          cmp = (\<lambda>k. if reverse then mm_cmpgt_epi32 (lane k) pivot4 else mm_cmpgt_epi32 pivot4 (lane k))
      in mm_movemask_epi8
           (mm_packs_epi16 (mm_packs_epi32 (cmp 0) (cmp 1)) (mm_packs_epi32 (cmp 2) (cmp 3))))"

partial_function (option) linear_loop :: "u32 list \<Rightarrow> bool \<Rightarrow> u32 \<Rightarrow> nat \<Rightarrow> nat option" where
  "linear_loop block reverse pivot tmp = do {
     xs \<leftarrow> rd_seq block tmp 16;
     let res = linear_mask reverse pivot xs;
     if res \<noteq> 0xffff then Some (tmp + builtin_ctz (NOT res))
     else linear_loop block reverse pivot (tmp + 16)
   }"

definition linearSearch :: "u32 list \<Rightarrow> bool \<Rightarrow> nat \<Rightarrow> nat \<Rightarrow> u32 \<Rightarrow> nat option" where
  "linearSearch block reverse count index pivot = linear_loop block reverse pivot index"

lemma sat_mask: "sat8 (sat16 (- 1)) = - 1" "sat8 (sat16 0) = 0"
  by (simp_all add: sat16_def sat8_def)

lemma list_chunks4:
  assumes "length xs = 16"
  shows "xs = take 4 xs @ take 4 (drop 4 xs) @ take 4 (drop 8 xs) @ take 4 (drop 12 xs)"
proof -
  have "xs = take 4 xs @ drop 4 xs" by simp
  also have "drop 4 xs = take 4 (drop 4 xs) @ drop 8 xs"
    using append_take_drop_id [of 4 "drop 4 xs"] by (simp del: append_take_drop_id)
  also have "drop 8 xs = take 4 (drop 8 xs) @ drop 12 xs"
    using append_take_drop_id [of 4 "drop 8 xs"] by (simp del: append_take_drop_id)
  also have "drop 12 xs = take 4 (drop 12 xs)" using assms by simp
  finally show ?thesis by simp
qed

lemma cmpgt_pivot:
  assumes "length ys = 4"
  shows "mm_cmpgt_epi32 ys (replicate 4 p) = map (\<lambda>x. if sint x > sint p then - 1 else 0) ys"
    and "mm_cmpgt_epi32 (replicate 4 p) ys = map (\<lambda>x. if sint p > sint x then - 1 else 0) ys"
  using assms by (auto simp: mm_cmpgt_epi32_def intro!: nth_equalityI)

lemma linear_mask_eq:
  assumes "length xs = 16"
  shows "linear_mask r p xs =
    horner_sum of_bool 2 (map (\<lambda>x. if r then sint p < sint x else sint x < sint p) xs)"
proof -
  have lanes: "length (take 4 (drop (4 * k) xs)) = 4" if "k < 4" for k
    using that assms by simp
  have "map f xs = map f (take 4 xs) @ map f (take 4 (drop 4 xs))
      @ map f (take 4 (drop 8 xs)) @ map f (take 4 (drop 12 xs))" for f :: "u32 \<Rightarrow> bool"
    using list_chunks4 [OF assms] by (metis map_append)
  then show ?thesis
    using lanes [of 0] lanes [of 1] lanes [of 2] lanes [of 3]
    by (cases r) (simp_all add: linear_mask_def mm_movemask_epi8_def mm_packs_epi16_def
        mm_packs_epi32_def cmpgt_pivot comp_def sat_mask if_distrib [of sat16] if_distrib [of sat8]
        if_distrib [of "\<lambda>w. bit w 7"] del: take_drop cong: if_cong)
qed

lemma bit_linear_mask:
  assumes "length xs = 16"
  shows "bit (linear_mask r p xs) i \<longleftrightarrow>
    i < 16 \<and> (if r then sint p < sint (xs ! i) else sint (xs ! i) < sint p)"
  using assms by (auto simp: linear_mask_eq bit_horner_sum_bit_word_iff)

lemma builtin_ctz_first:
  assumes "first_at (bit w) 0 k" and "k < 32"
  shows "builtin_ctz w = k"
proof -
  have "[0..<32] = [0..<k] @ k # [Suc k..<32]"
    using \<open>k < 32\<close> upt_add_eq_append [of 0 k "32 - k"] by (simp add: upt_conv_Cons [symmetric])
  moreover have "takeWhile (\<lambda>i. \<not> bit w i) ([0..<k] @ k # [Suc k..<32]) = [0..<k]"
    using assms(1) by (subst takeWhile_append2) (auto simp: first_at_def)
  ultimately show ?thesis by (simp add: builtin_ctz_def)
qed

text \<open>A block is \<open>scannable\<close> when the docids of the scanned part and the pivot fit a C \<open>int\<close>
  and fifteen more cells can be loaded behind the last docid.\<close>

definition scannable :: "u32 list \<Rightarrow> bool \<Rightarrow> nat \<Rightarrow> nat \<Rightarrow> u32 \<Rightarrow> bool" where
  "scannable block r count index pivot \<longleftrightarrow>
     index < count \<and> count + 15 \<le> length block \<and> pivot < 2 ^ 31 \<and>
     list_all (\<lambda>x. x < 2 ^ 31) (drop index (take count block)) \<and>
     \<not> LESS_THAN (block ! (count - 1)) pivot r"

lemma scannable_docid:
  assumes "scannable block r count index pivot" and "index \<le> i" "i < count"
  shows "block ! i < 2 ^ 31"
proof -
  have "\<forall>n < count - index. block ! (index + n) < 2 ^ 31"
    using assms by (auto simp: scannable_def list_all_length)
  then have "block ! (index + (i - index)) < 2 ^ 31" using assms by (meson diff_less_mono)
  with assms show ?thesis by simp
qed

lemma scannable_later:
  assumes "scannable block r count index pivot" and "index \<le> i" "i < count"
  shows "scannable block r count i pivot"
proof -
  have "drop i (take count block) = drop (i - index) (drop index (take count block))"
    using assms by simp
  then have "list_all (\<lambda>x. x < 2 ^ 31) (drop i (take count block))"
    using assms(1) by (metis scannable_def in_set_dropD list.pred_set)
  with assms show ?thesis by (simp add: scannable_def)
qed

lemma linear_mask_docids:
  assumes "length xs = 16" "i < 16" "xs ! i < 2 ^ 31" "p < 2 ^ 31"
  shows "bit (linear_mask r p xs) i \<longleftrightarrow> LESS_THAN (xs ! i) p r"
  using assms by (simp add: bit_linear_mask sint_docid LESS_THAN_def word_less_def)

lemma linear_mask_full:
  assumes "length xs = 16"
  shows "linear_mask r p xs = 0xffff \<longleftrightarrow> (\<forall>i < 16. bit (linear_mask r p xs) i)"
proof -
  have m: "(0xffff :: u32) = mask 16" by (simp add: mask_eq_exp_minus_1)
  have "bit (linear_mask r p xs) i \<Longrightarrow> i < 16" for i
    using bit_linear_mask [OF assms] by blast
  then show ?thesis by (auto simp: m bit_eq_iff bit_simps)
qed

lemma linear_loop_spec:
  assumes "scannable block r count index pivot"
  shows "\<exists>i. linear_loop block r pivot index = Some i \<and> found block r pivot index i"
  using assms
proof (induction "count - index" arbitrary: index rule: less_induct)
  case less
  let ?xs = "take 16 (drop index block)"
  let ?m = "linear_mask r pivot ?xs"
  let ?stop = "\<lambda>i. \<not> LESS_THAN (block ! i) pivot r"
  have b: "index < count" "count + 15 \<le> length block" "pivot < 2 ^ 31" "?stop (count - 1)"
    using less.prems by (auto simp: scannable_def)
  note ids = scannable_docid [OF less.prems]
  have len: "length ?xs = 16" and rd: "rd_seq block index 16 = Some ?xs"
    using b by (auto simp: rd_seq_def)
  have lane: "bit ?m k \<longleftrightarrow> \<not> ?stop (index + k)" if "k < 16" "index + k < count" for k
    using that len b ids by (subst linear_mask_docids) auto
  have "index \<le> count - 1" using b by simp
  from first_at_exists [of ?stop, OF b(4) this] obtain i where
    i: "i \<le> count - 1" "first_at ?stop index i" by blast
  show ?case
  proof (cases "i < index + 16")
    case True
    define k where "k = i - index"
    have k: "k < 16" "i = index + k" using True i(2) by (auto simp: k_def first_at_def)
    have "first_at (bit (NOT ?m)) 0 k"
      using i k b lane by (auto simp: first_at_def bit_not_iff)
    then have "builtin_ctz (NOT ?m) = k" using k by (intro builtin_ctz_first) auto
    moreover have "?m \<noteq> 0xffff"
      using lane [of k] k i b linear_mask_full [OF len, of r pivot] by (auto simp: first_at_def)
    ultimately show ?thesis
      using rd i k by (subst linear_loop.simps) simp
  next
    case False
    have "?m = 0xffff"
      using lane False i(1) i(2) b by (subst linear_mask_full [OF len]) (auto simp: first_at_def)
    moreover have "scannable block r count (index + 16) pivot"
      using False i b by (intro scannable_later [OF less.prems]) auto
    then have "\<exists>i. linear_loop block r pivot (index + 16) = Some i \<and> found block r pivot (index + 16) i"
      using b by (intro less.hyps) auto
    then obtain j where j: "linear_loop block r pivot (index + 16) = Some j"
      "found block r pivot (index + 16) j" by blast
    moreover have "first_at ?stop (index + 16) i"
      using False i(2) by (auto simp: first_at_def)
    ultimately show ?thesis
      using rd i first_at_unique [of ?stop "index + 16" i j] by (subst linear_loop.simps) simp
  qed
qed

section \<open>Both searches meet the contract\<close>

text \<open>\<open>gallopSearch\<close> with its result read as a position; it is \<open>INVALID_ID\<close> only on a miss.\<close>

definition gallop_index :: "u32 list \<Rightarrow> bool \<Rightarrow> nat \<Rightarrow> nat \<Rightarrow> u32 \<Rightarrow> nat option" where
  "gallop_index block r count index pivot = map_option unat (gallopSearch block r count index pivot)"

definition gallop_ready :: "u32 list \<Rightarrow> bool \<Rightarrow> nat \<Rightarrow> nat \<Rightarrow> u32 \<Rightarrow> bool" where
  "gallop_ready block r count index pivot \<longleftrightarrow>
     searchable block r count \<and> index < count \<and> \<not> LESS_THAN (block ! (count - 1)) pivot r"

interpretation gallop: posting_search gallop_index gallop_ready
proof unfold_locales
  fix block r count index pivot
  assume r: "gallop_ready block r count index pivot"
  then show "index < count \<and> count \<le> length block"
    and "\<not> LESS_THAN (block ! (count - 1)) pivot r"
    by (auto simp: gallop_ready_def searchable_def)
  from r gallopSearch_hit [of block r count index pivot]
  obtain i where "gallopSearch block r count index pivot = Some (of_nat i)" "i < count"
    "found block r pivot index i" "count \<le> 2 ^ 30"
    by (auto simp: gallop_ready_def searchable_def)
  then show "\<exists>i. gallop_index block r count index pivot = Some i \<and> found block r pivot index i"
    by (auto simp: gallop_index_def unat_of_nat)
qed

interpretation linear: posting_search linearSearch scannable
proof unfold_locales
  fix block r count index pivot
  assume r: "scannable block r count index pivot"
  then show "index < count \<and> count \<le> length block"
    and "\<not> LESS_THAN (block ! (count - 1)) pivot r"
    by (auto simp: scannable_def)
  from linear_loop_spec [OF r]
  show "\<exists>i. linearSearch block r count index pivot = Some i \<and> found block r pivot index i"
    by (simp add: linearSearch_def)
qed

section \<open>Properties\<close>

text \<open>C8. On every block whose first \<open>count\<close> docids are in index order, \<open>gallopSearch\<close> ends, reads
  only inside the block, overflows no \<open>int\<close>, and returns the first position from \<open>index\<close> on
  whose docid does not precede the pivot, or \<open>INVALID_ID\<close> when there is none.\<close>

theorem gallopSearch_correct:
  assumes "searchable block r count"
  shows "\<exists>res. gallopSearch block r count index pivot = Some res \<and>
    (if \<exists>i < count. found block r pivot index i
     then unat res < count \<and> found block r pivot index (unat res)
     else res = INVALID_ID)"
proof (cases "index \<ge> count \<or> LESS_THAN (block ! (count - 1)) pivot r")
  case True
  have "\<not> found block r pivot index i" if "i < count" for i
    using True that searchable_mono [OF assms, of i "count - 1" pivot] by (auto simp: first_at_def)
  with gallopSearch_miss [OF assms True] show ?thesis by auto
next
  case False
  with gallopSearch_hit [OF assms] obtain i where
    "gallopSearch block r count index pivot = Some (of_nat i)" "i < count" "found block r pivot index i"
    by (metis not_le_imp_less)
  moreover have "unat (of_nat i :: u32) = i"
    using \<open>i < count\<close> assms by (simp add: searchable_def unat_of_nat)
  ultimately show ?thesis by auto
qed

theorem gallopSearch_correct_witness:
  "\<exists>res. gallopSearch [2, 5, 9, 14, 20] False 5 1 10 = Some res \<and>
    (if \<exists>i < 5. found [2, 5, 9, 14, 20] False 10 1 i
     then unat res < 5 \<and> found [2, 5, 9, 14, 20] False 10 1 (unat res)
     else res = INVALID_ID)"
  by (rule gallopSearch_correct) (simp add: searchable_def postings_def LESS_THAN_def)

text \<open>C9. The SIMD \<open>linearSearch\<close>, with sixteen comparisons packed into one mask a round, ends
  within the block and decides membership of the pivot in a posting list: the position it returns
  holds the pivot exactly when the pivot occurs from \<open>index\<close> on.\<close>

theorem linearSearch_decides_membership:
  assumes "scannable block r count index pivot" and "postings r (take count block)"
  shows "\<exists>i. linearSearch block r count index pivot = Some i \<and> index \<le> i \<and> i < count \<and>
    (pivot \<in> set (drop index (take count block)) \<longleftrightarrow> block ! i = pivot)"
  using linear.search_in_block [OF assms(1)] linear.search_mem [OF assms] by blast

theorem linearSearch_decides_membership_witness:
  "\<exists>i. linearSearch ([3, 8] @ replicate 15 0) False 2 0 8 = Some i \<and> 0 \<le> i \<and> i < 2 \<and>
    (8 \<in> set (drop 0 (take 2 ([3, 8] @ replicate 15 (0 :: u32)))) \<longleftrightarrow>
      ([3, 8] @ replicate 15 (0 :: u32)) ! i = 8)"
  by (rule linearSearch_decides_membership) (simp_all add: scannable_def postings_def LESS_THAN_def)

text \<open>The three searches agree: where both may be called the vectorised scan returns the
  position the galloping search returns, and the member function of the positional index
  computes the same index with a success flag.\<close>

theorem searches_agree:
  assumes "searchable block r count" and "scannable block r count index pivot"
  shows "\<exists>i. linearSearch block r count index pivot = Some i \<and>
    gallopSearch block r count index pivot = Some (of_nat i) \<and>
    pos_gallopSearch block r count index pivot = Some (True, i)"
proof -
  have ready: "index < count" "\<not> LESS_THAN (block ! (count - 1)) pivot r"
    using assms(2) by (auto simp: scannable_def)
  from linear.search_found [OF assms(2)] obtain i where
    i: "linearSearch block r count index pivot = Some i" "found block r pivot index i" by blast
  from pos_gallopSearch_hit [OF assms(1) ready] obtain j where
    j: "pos_gallopSearch block r count index pivot = Some (True, j)" "found block r pivot index j" by blast
  have "i = j" using i(2) j(2) by (rule first_at_unique)
  with i j show ?thesis by (simp add: gallopSearch_eq)
qed

theorem searches_agree_witness:
  "\<exists>i. linearSearch ([9, 4] @ replicate 15 0) True 2 0 4 = Some i \<and>
    gallopSearch ([9, 4] @ replicate 15 0) True 2 0 4 = Some (of_nat i) \<and>
    pos_gallopSearch ([9, 4] @ replicate 15 0) True 2 0 4 = Some (True, i)"
  by (rule searches_agree) (simp_all add: searchable_def scannable_def postings_def LESS_THAN_def)

end
