(* ===== verification/Zambezi_Attr.thy ===== *)
theory Zambezi_Attr
  imports Zambezi_Buffers Zambezi_Chains Zambezi_Tables Zambezi_Search SIMD_Codec
begin

text \<open>
  The attribute-score inverted index (\<open>include/ir/Zambezi/AttrScoreInvertedIndex.hpp\<close>,
  \<open>source/ir/Zambezi/AttrScoreInvertedIndex.cpp\<close>), composed from the dictionary, the buffer maps, the codecs and the
  segment pool: inserting a document, writing the postings of a term to the pool when its buffer is full,
  iterating over the postings of a term, and the conjunctive queries. The parameters are \<open>junk\<close>, the contents of fresh
  memory, and \<open>accepts\<close>, the load-factor test of the dictionary's hash table.
\<close>

section \<open>State\<close>

record AttrScoreInvertedIndex =
  bufferMaps :: AttrScoreBufferMaps
  segmentPool :: SegmentPool
  dictionary :: Dictionary
  pointers :: Pointers
  reversed :: bool
  segmentBuf :: "u32 list"

definition BUFFER_SIZE :: nat where "BUFFER_SIZE = 4096"

definition AttrIndex_new :: "(nat \<Rightarrow> u32) \<Rightarrow> u32 \<Rightarrow> u32 \<Rightarrow> u32 \<Rightarrow> bool \<Rightarrow> AttrScoreInvertedIndex" where
  "AttrIndex_new junk maxSize number vocabSize r =
     \<lparr> bufferMaps = AttrScoreBufferMaps_new vocabSize, segmentPool = SegmentPool_new maxSize number,
       dictionary = [], pointers = Pointers_new vocabSize 0, reversed = r, segmentBuf = map junk [0..<BUFFER_SIZE] \<rparr>"

text \<open>No function of the index catches the exceptions of a codec: they end the operation.\<close>

definition uncaught :: "'a codec_result \<Rightarrow> 'a option" where
  "uncaught r = (case r of Some (Inr x) \<Rightarrow> Some x | _ \<Rightarrow> None)"

section \<open>Blocks\<close>

text \<open>A block is laid out in the scratch array \<open>segment_\<close> and appended to the pool: the number of docids, the
  size of the encoded docids, that size rounded up to whole vectors, the size of the encoded scores, and both
  codes. \<open>d\<close> and \<open>s\<close> are the positions of the docids and the scores in the buffer; the arrays start at
  16-byte boundaries, so that positions serve as addresses.\<close>

definition fill_segment :: "bool \<Rightarrow> u32 list \<Rightarrow> u32 list \<Rightarrow> nat \<Rightarrow> nat \<Rightarrow> nat \<Rightarrow> (u32 list \<times> nat) option" where
  "fill_segment reverse seg posting d s len = do {
     seg1 \<leftarrow> wr seg 0 (of_nat len);
     seg2 \<leftarrow> wr_seq seg1 4 (replicate len 0);
     docs \<leftarrow> rd_seq posting d len;
     ws \<leftarrow> uncaught (docCodec_encode reverse d 4 (length seg2 - 4) len docs);
     seg3 \<leftarrow> wr_seq seg2 4 ws;
     seg4 \<leftarrow> wr seg3 1 (of_nat (length ws));
     let csize = (length ws + 3) div 4 * 4;
     seg5 \<leftarrow> wr seg4 2 (of_nat csize);
     seg6 \<leftarrow> wr_seq seg5 (csize + 4) (replicate len 0);
     scores \<leftarrow> rd_seq posting s len;
     vs \<leftarrow> uncaught (noDeltaCodec_encode s (csize + 4) (length seg6 - (csize + 4)) len scores);
     seg7 \<leftarrow> wr_seq seg6 (csize + 4) vs;
     seg8 \<leftarrow> wr seg7 3 (of_nat (length vs));
     let scsize = (length vs + 3) div 4 * 4;
     Some (seg8, csize + scsize + 4)
   }"

definition compressAndAppendBlock ::
  "(nat \<Rightarrow> u32) \<Rightarrow> AttrScoreInvertedIndex \<Rightarrow> u32 list \<Rightarrow> nat \<Rightarrow> nat \<Rightarrow> nat \<Rightarrow> u64 \<Rightarrow> u64 \<Rightarrow>
   (u64 \<times> AttrScoreInvertedIndex) option" where
  "compressAndAppendBlock junk idx posting d s len lastPointer nextPtr = do {
     maxDocId \<leftarrow> rd posting (d + len - 1);
     (seg, n) \<leftarrow> fill_segment (reversed idx) (segmentBuf idx) posting d s len;
     (p, sp) \<leftarrow> appendSegment junk (segmentPool idx) seg maxDocId (of_nat n) lastPointer nextPtr;
     Some (p, idx \<lparr> segmentBuf := seg, segmentPool := sp \<rparr>)
   }"

text \<open>The decoders write over the start of the caller's array.\<close>

definition decompressDocidBlock ::
  "bool \<Rightarrow> SegmentPool \<Rightarrow> u32 list \<Rightarrow> u64 \<Rightarrow> (u32 list \<times> u32) option" where
  "decompressDocidBlock reverse sp outBlock pointer = do {
     arr \<leftarrow> pool_array_of sp pointer;
     let pOffset = DECODE_OFFSET pointer;
     csize \<leftarrow> rd arr (unat (pOffset + 5));
     block \<leftarrow> (if unat (pOffset + 8) \<le> length arr then Some (drop (unat (pOffset + 8)) arr) else None);
     (xs, _) \<leftarrow> uncaught (docCodec_decode reverse (unat (pOffset + 8)) 0 (length outBlock) block (unat csize) BP_BLOCK_SIZE);
     out \<leftarrow> wr_seq outBlock 0 xs;
     n \<leftarrow> rd arr (unat (pOffset + 4));
     Some (out, n)
   }"

definition decompressScoreBlock :: "SegmentPool \<Rightarrow> u32 list \<Rightarrow> u64 \<Rightarrow> (u32 list \<times> u32) option" where
  "decompressScoreBlock sp outBlock pointer = do {
     arr \<leftarrow> pool_array_of sp pointer;
     let pOffset = DECODE_OFFSET pointer;
     csize \<leftarrow> rd arr (unat (pOffset + 6));
     block \<leftarrow> (if unat (pOffset + csize + 8) \<le> length arr then Some (drop (unat (pOffset + csize + 8)) arr) else None);
     scsize \<leftarrow> rd arr (unat (pOffset + 7));
     (xs, _) \<leftarrow> uncaught (noDeltaCodec_decode (unat (pOffset + csize + 8)) 0 (length outBlock) block (unat scsize) BP_BLOCK_SIZE);
     out \<leftarrow> wr_seq outBlock 0 xs;
     n \<leftarrow> rd arr (unat (pOffset + 4));
     Some (out, n)
   }"

section \<open>Inserting documents\<close>

text \<open>Positions in a buffer are computed in \<open>uint32_t\<close>.\<close>

definition idx32 :: "nat \<Rightarrow> nat \<Rightarrow> nat" where
  "idx32 a b = unat (of_nat a - of_nat b :: u32)"

text \<open>\<open>processTermBuffer_\<close> writes a full buffer in blocks of \<open>BP_BLOCK_SIZE\<close>. In a reversed index the last block in time comes
  first: the shorter block, then block \<open>nb\<close> down to block 1, each linked behind the one before and in front
  of the old head.\<close>

primrec reverse_blocks ::
  "(nat \<Rightarrow> u32) \<Rightarrow> AttrScoreInvertedIndex \<Rightarrow> u32 list \<Rightarrow> nat \<Rightarrow> u64 \<Rightarrow> u64 \<Rightarrow> u64 \<Rightarrow> nat \<Rightarrow> (u64 \<times> AttrScoreInvertedIndex) option" where
  "reverse_blocks junk idx posting cap tailPtr curPointer lastPointer 0 = Some (curPointer, idx)"
| "reverse_blocks junk idx posting cap tailPtr curPointer lastPointer (Suc i) = do {
     (lastPointer', idx') \<leftarrow> compressAndAppendBlock junk idx posting (idx32 (4 + cap) (Suc i * BP_BLOCK_SIZE))
        (idx32 (4 + cap * 2) (Suc i * BP_BLOCK_SIZE)) BP_BLOCK_SIZE lastPointer tailPtr;
     reverse_blocks junk idx' posting cap tailPtr
       (if curPointer = UNDEFINED_POINTER then lastPointer' else curPointer) lastPointer' i
   }"

text \<open>In a forward index the blocks are appended behind the tail; \<open>i\<close> counts up from 0, \<open>n\<close> are left.\<close>

primrec forward_blocks ::
  "(nat \<Rightarrow> u32) \<Rightarrow> AttrScoreInvertedIndex \<Rightarrow> u32 list \<Rightarrow> nat \<Rightarrow> nat \<Rightarrow> u64 \<Rightarrow> u64 \<Rightarrow> nat \<Rightarrow> (u64 \<times> u64 \<times> AttrScoreInvertedIndex) option" where
  "forward_blocks junk idx posting cap i tailPtr headPtr 0 = Some (tailPtr, headPtr, idx)"
| "forward_blocks junk idx posting cap i tailPtr headPtr (Suc n) = do {
     (tailPtr', idx') \<leftarrow> compressAndAppendBlock junk idx posting (idx32 (4 + i * BP_BLOCK_SIZE) 0)
        (idx32 (4 + cap + i * BP_BLOCK_SIZE) 0) BP_BLOCK_SIZE tailPtr UNDEFINED_POINTER;
     forward_blocks junk idx' posting cap (Suc i) tailPtr'
       (if headPtr = UNDEFINED_POINTER then tailPtr' else headPtr) n
   }"

text \<open>The result is the new tail pointer, the new head pointer and the index.\<close>

definition processTermBuffer ::
  "(nat \<Rightarrow> u32) \<Rightarrow> AttrScoreInvertedIndex \<Rightarrow> u32 list \<Rightarrow> u64 \<Rightarrow> u64 \<Rightarrow> (u64 \<times> u64 \<times> AttrScoreInvertedIndex) option" where
  "processTermBuffer junk idx posting tailPtr headPtr = do {
     c \<leftarrow> rd posting 0;
     sz \<leftarrow> rd posting 1;
     let cap = unat c;
     let nb = unat sz div BP_BLOCK_SIZE;
     let res = unat sz mod BP_BLOCK_SIZE;
     if reversed idx then do {
       (curPointer, idx1) \<leftarrow> (if res > 0
          then compressAndAppendBlock junk idx posting (idx32 (4 + cap) (unat sz)) (idx32 (4 + cap * 2) (unat sz)) res
                 UNDEFINED_POINTER tailPtr
          else Some (UNDEFINED_POINTER, idx));
       (curPointer', idx2) \<leftarrow> reverse_blocks junk idx1 posting cap tailPtr curPointer curPointer nb;
       Some (curPointer', curPointer', idx2)
     } else do {
       (tailPtr1, headPtr1, idx1) \<leftarrow> forward_blocks junk idx posting cap 0 tailPtr headPtr nb;
       if res > 0 then do {
         (tailPtr2, idx2) \<leftarrow> compressAndAppendBlock junk idx1 posting (idx32 (4 + nb * BP_BLOCK_SIZE) 0)
            (idx32 (4 + cap + nb * BP_BLOCK_SIZE) 0) res tailPtr1 UNDEFINED_POINTER;
         Some (tailPtr2, if headPtr1 = UNDEFINED_POINTER then tailPtr2 else headPtr1, idx2)
       } else Some (tailPtr1, headPtr1, idx1)
     }
   }"

text \<open>The body of the loop of \<open>insertDoc\<close> in its three parts: find or make the term's buffer, store the posting
  in it, and empty or enlarge it when it is full.\<close>

definition buffer_of :: "AttrScoreInvertedIndex \<Rightarrow> u32 \<Rightarrow> u32 list option option" where
  "buffer_of idx tid = rd (buffer (bufferMaps idx)) (unat tid)"

definition ensure_buffer :: "AttrScoreInvertedIndex \<Rightarrow> u32 \<Rightarrow> AttrScoreInvertedIndex option" where
  "ensure_buffer idx tid = do {
     b \<leftarrow> buffer_of idx tid;
     case b of
       Some _ \<Rightarrow> Some idx
     | None \<Rightarrow> do {
         bm \<leftarrow> resetBuffer (bufferMaps idx) tid (of_nat DF_CUTOFF) (reversed idx) False;
         Some (idx \<lparr> bufferMaps := bm \<rparr>)
       }
   }"

definition add_posting :: "bool \<Rightarrow> u32 list \<Rightarrow> u32 \<Rightarrow> u32 \<Rightarrow> u32 list option" where
  "add_posting reverse posting docid score = do {
     c \<leftarrow> rd posting 0;
     n \<leftarrow> rd posting 1;
     p1 \<leftarrow> wr posting (if reverse then unat (3 + c - n) else unat (4 + n)) docid;
     p2 \<leftarrow> wr p1 (if reverse then unat (3 + 2 * c - n) else unat (4 + c + n)) score;
     wr p2 1 (n + 1)
   }"

definition full_buffer :: "(nat \<Rightarrow> u32) \<Rightarrow> AttrScoreInvertedIndex \<Rightarrow> u32 \<Rightarrow> u32 list \<Rightarrow> AttrScoreInvertedIndex option" where
  "full_buffer junk idx tid posting = do {
     c \<leftarrow> rd posting 0;
     if unat c < BLOCK_SIZE then do {
       bm \<leftarrow> resetBuffer (bufferMaps idx) tid (c * of_nat EXPANSION_RATE) (reversed idx) True;
       Some (idx \<lparr> bufferMaps := bm \<rparr>)
     } else do {
       t \<leftarrow> rd (tailPointer (bufferMaps idx)) (unat tid);
       h \<leftarrow> FixedCounter_ref (headPointers (pointers idx)) tid;
       (t', h', idx1) \<leftarrow> processTermBuffer junk idx posting t h;
       hp \<leftarrow> FixedCounter_put (headPointers (pointers idx1)) tid h';
       tp \<leftarrow> wr (tailPointer (bufferMaps idx1)) (unat tid) t';
       let newLen = c * (if unat c < MAX_BLOCK_SIZE then of_nat EXPANSION_RATE else 1);
       bm \<leftarrow> resetBuffer ((bufferMaps idx1) \<lparr> tailPointer := tp \<rparr>) tid newLen (reversed idx1) False;
       Some (idx1 \<lparr> bufferMaps := bm, pointers := (pointers idx1) \<lparr> headPointers := hp \<rparr> \<rparr>)
     }
   }"

definition store_posting :: "(nat \<Rightarrow> u32) \<Rightarrow> AttrScoreInvertedIndex \<Rightarrow> u32 \<Rightarrow> u32 \<Rightarrow> u32 \<Rightarrow> AttrScoreInvertedIndex option" where
  "store_posting junk idx tid docid score = do {
     b \<leftarrow> buffer_of idx tid;
     posting \<leftarrow> b;
     posting' \<leftarrow> add_posting (reversed idx) posting docid score;
     let idx1 = idx \<lparr> bufferMaps := (bufferMaps idx) \<lparr> buffer := (buffer (bufferMaps idx))[unat tid := Some posting'] \<rparr>,
                      pointers := (pointers idx) \<lparr> df := FixedCounter_increment (df (pointers idx)) tid,
                                                   cf := FixedCounter_increment (cf (pointers idx)) tid \<rparr> \<rparr>;
     c \<leftarrow> rd posting' 0;
     n \<leftarrow> rd posting' 1;
     if c = n then full_buffer junk idx1 tid posting' else Some idx1
   }"

definition insert_term ::
  "(nat \<Rightarrow> u32) \<Rightarrow> (nat \<Rightarrow> bool) \<Rightarrow> AttrScoreInvertedIndex \<Rightarrow> u32 \<Rightarrow> string \<Rightarrow> u32 \<Rightarrow> AttrScoreInvertedIndex option" where
  "insert_term junk accepts idx docid tm score =
     (let (tid, d) = insertTerm accepts (dictionary idx) tm in
      if tid = INVALID_ID then Some (idx \<lparr> dictionary := d \<rparr>)
      else do {
        idx1 \<leftarrow> ensure_buffer (idx \<lparr> dictionary := d \<rparr>) tid;
        store_posting junk idx1 tid docid score
      })"

fun insert_terms ::
  "(nat \<Rightarrow> u32) \<Rightarrow> (nat \<Rightarrow> bool) \<Rightarrow> AttrScoreInvertedIndex \<Rightarrow> u32 \<Rightarrow> string list \<Rightarrow> u32 list \<Rightarrow> AttrScoreInvertedIndex option" where
  "insert_terms junk accepts idx docid [] scores = Some idx"
| "insert_terms junk accepts idx docid (tm # tms) [] =
     (if fst (insertTerm accepts (dictionary idx) tm) = INVALID_ID
      then insert_terms junk accepts (idx \<lparr> dictionary := snd (insertTerm accepts (dictionary idx) tm) \<rparr>) docid tms []
      else None)"
| "insert_terms junk accepts idx docid (tm # tms) (s # scores) = do {
     idx' \<leftarrow> insert_term junk accepts idx docid tm s;
     insert_terms junk accepts idx' docid tms scores
   }"

definition insertDoc ::
  "(nat \<Rightarrow> u32) \<Rightarrow> (nat \<Rightarrow> bool) \<Rightarrow> AttrScoreInvertedIndex \<Rightarrow> u32 \<Rightarrow> string list \<Rightarrow> u32 list \<Rightarrow> AttrScoreInvertedIndex option" where
  "insertDoc junk accepts idx docid term_list score_list = do {
     idx' \<leftarrow> insert_terms junk accepts idx docid term_list score_list;
     Some (idx' \<lparr> pointers := (pointers idx') \<lparr> totalDocs := totalDocs (pointers idx') + 1 \<rparr> \<rparr>)
   }"

definition totalDocNum :: "AttrScoreInvertedIndex \<Rightarrow> u32" where
  "totalDocNum idx = totalDocs (pointers idx)"

section \<open>Saving and loading\<close>

definition AttrIndex_save :: "AttrScoreInvertedIndex \<Rightarrow> u8 list option" where
  "AttrIndex_save idx = do {
     b1 \<leftarrow> BufferMaps_save (bufferMaps idx) (reversed idx);
     b2 \<leftarrow> save (segmentPool idx);
     b3 \<leftarrow> Pointers_save (pointers idx);
     Some ([if reversed idx then 1 else 0] @ b1 @ b2 @ Dictionary_save (dictionary idx) @ b3)
   }"

text \<open>An empty stream is \<open>None\<close>, although \<open>istr.read\<close> itself would only set a flag. So is \<open>docLen.get(0)\<close> in \<open>Pointers::load\<close>
  when the table of document lengths has no cells, as in this index: its assertion fails in builds with assertions; with
  \<open>NDEBUG\<close> it is a reference into an empty vector, from which nothing is read.\<close>

definition AttrIndex_load :: "(nat \<Rightarrow> u32) \<Rightarrow> AttrScoreInvertedIndex \<Rightarrow> u8 list \<Rightarrow> (AttrScoreInvertedIndex \<times> u8 list) option" where
  "AttrIndex_load junk idx s = (case s of
       [] \<Rightarrow> None
     | b # s0 \<Rightarrow> do {
         let r = (b \<noteq> 0);
         (bm, s1) \<leftarrow> BufferMaps_load (bufferMaps idx) s0 r;
         (sp, s2) \<leftarrow> load junk (segmentPool idx) s1;
         (d, s3) \<leftarrow> Dictionary_load (dictionary idx) s2;
         (p, s4) \<leftarrow> Pointers_load (pointers idx) s3;
         Some (idx \<lparr> bufferMaps := bm, segmentPool := sp, dictionary := d, pointers := p, reversed := r \<rparr>, s4)
       })"

section \<open>Iterating over the postings of a term\<close>

text \<open>The reference parameters of \<open>unionIterate_\<close>.\<close>

record posting_iter =
  in_buffer :: bool
  docid_seg :: "u32 list"
  score_seg :: "u32 list"
  it_count :: u32
  it_tail :: u32
  it_index :: u32
  it_pointer :: u64
  it_docid :: u32
  it_score :: u32

text \<open>The condition that the block at hand has no posting from the pivot on, with the index it leaves.\<close>

definition it_miss :: "bool \<Rightarrow> u32 list \<Rightarrow> posting_iter \<Rightarrow> u32 \<Rightarrow> (bool \<times> u32) option" where
  "it_miss reverse block it pivot =
     (if it_index it \<ge> it_count it \<or> LESS_THAN (it_tail it) pivot reverse then Some (True, it_index it)
      else do {
        i \<leftarrow> linearSearch block reverse (unat (it_count it)) (unat (it_index it)) pivot;
        Some (of_nat i = INVALID_ID, of_nat i)
      })"

text \<open>Decode the block at a pointer and look for the pivot in it.\<close>

definition it_block :: "bool \<Rightarrow> SegmentPool \<Rightarrow> posting_iter \<Rightarrow> u64 \<Rightarrow> u32 \<Rightarrow> posting_iter option" where
  "it_block reverse sp it p pivot = do {
     (ds, n) \<leftarrow> decompressDocidBlock reverse sp (docid_seg it) p;
     t \<leftarrow> rd ds (unat (n - 1));
     (ss, _) \<leftarrow> decompressScoreBlock sp (score_seg it) p;
     i \<leftarrow> linearSearch ds reverse (unat n) 0 pivot;
     Some (it \<lparr> in_buffer := False, docid_seg := ds, score_seg := ss, it_count := n, it_tail := t,
               it_index := of_nat i, it_pointer := p \<rparr>)
   }"

text \<open>\<open>buf\<close> is the whole buffer array; the source's \<open>buffer\<close> points at its cell 4.\<close>

definition it_take_block :: "posting_iter \<Rightarrow> posting_iter option" where
  "it_take_block it = do {
     d \<leftarrow> rd (docid_seg it) (unat (it_index it));
     s \<leftarrow> rd (score_seg it) (unat (it_index it));
     Some (it \<lparr> it_docid := d, it_score := s \<rparr>)
   }"

definition it_take_buffer :: "u32 list \<Rightarrow> posting_iter \<Rightarrow> u32 \<Rightarrow> posting_iter option" where
  "it_take_buffer buf it scoreOffset = do {
     d \<leftarrow> rd buf (4 + unat (it_index it));
     s \<leftarrow> rd buf (4 + unat (scoreOffset + it_index it));
     Some (it \<lparr> it_docid := d, it_score := s \<rparr>)
   }"

definition unionIterate :: "bool \<Rightarrow> SegmentPool \<Rightarrow> u32 list \<Rightarrow> posting_iter \<Rightarrow> u32 \<Rightarrow> (bool \<times> posting_iter) option" where
  "unionIterate reverse sp buf it pivot =
     (if in_buffer it then do {
        (miss, i) \<leftarrow> it_miss reverse (drop 4 buf) it pivot;
        let it1 = it \<lparr> it_index := i \<rparr>;
        if miss then
          if \<not> reverse then Some (False, it1)
          else do {
            p \<leftarrow> nextPointer_pivot sp (it_pointer it) pivot reverse;
            if p = UNDEFINED_POINTER then Some (False, it1 \<lparr> it_pointer := p \<rparr>)
            else do {
              it2 \<leftarrow> it_block reverse sp it1 p pivot;
              it3 \<leftarrow> it_take_block it2;
              Some (True, it3)
            }
          }
        else do {
          c \<leftarrow> rd buf 0;
          it2 \<leftarrow> it_take_buffer buf it1 (if reverse then it_count it1 else c);
          Some (True, it2)
        }
      } else do {
        (miss, i) \<leftarrow> it_miss reverse (docid_seg it) it pivot;
        let it1 = it \<lparr> it_index := i \<rparr>;
        if miss then do {
          p \<leftarrow> nextPointer_pivot sp (it_pointer it) pivot reverse;
          if p = UNDEFINED_POINTER then
            if reverse then Some (False, it1 \<lparr> it_pointer := p \<rparr>)
            else do {
              n \<leftarrow> rd buf 1;
              t \<leftarrow> rd buf (4 + unat (n - 1));
              let it2 = it1 \<lparr> it_pointer := p, it_count := n, it_tail := t \<rparr>;
              if n = 0 \<or> LESS_THAN t pivot reverse then Some (False, it2)
              else do {
                j \<leftarrow> linearSearch (drop 4 buf) reverse (unat n) 0 pivot;
                let it3 = it2 \<lparr> it_index := of_nat j \<rparr>;
                if of_nat j = INVALID_ID then Some (False, it3)
                else do {
                  c \<leftarrow> rd buf 0;
                  it4 \<leftarrow> it_take_buffer buf (it3 \<lparr> in_buffer := True \<rparr>) c;
                  Some (True, it4)
                }
              }
            }
          else do {
            it2 \<leftarrow> it_block reverse sp it1 p pivot;
            it3 \<leftarrow> it_take_block it2;
            Some (True, it3)
          }
        }
        else do {
          it2 \<leftarrow> it_take_block it1;
          Some (True, it2)
        }
      })"

text \<open>The iterator of a term as the queries set it up, with the term's buffer.\<close>

definition it_start :: "(nat \<Rightarrow> u32) \<Rightarrow> AttrScoreInvertedIndex \<Rightarrow> u32 \<Rightarrow> (u32 list \<times> posting_iter) option" where
  "it_start junk idx tid = do {
     b \<leftarrow> getBuffer (bufferMaps idx) tid;
     buf \<leftarrow> b;
     b0 \<leftarrow> rd buf 0;
     b1 \<leftarrow> rd buf 1;
     t \<leftarrow> (if reversed idx then rd buf (unat (b0 + 3)) else Some 0);
     Some (buf, \<lparr> in_buffer = reversed idx, docid_seg = map junk [0..<BP_BLOCK_SIZE + 15],
       score_seg = map junk [0..<BP_BLOCK_SIZE], it_count = (if reversed idx then b0 else 0), it_tail = t,
       it_index = (if reversed idx then b0 - b1 else 0),
       it_pointer = FixedCounter_get (headPointers (pointers idx)) tid, it_docid = 0, it_score = 0 \<rparr>)
   }"

section \<open>Queries\<close>

text \<open>The scores of the results are \<open>float\<close>s. All that occur are naturals: an unsigned integer converted to
  \<open>float\<close>, or the sum of two such values, each rounded to 24 significant bits, ties to even.\<close>

fun bitlen :: "nat \<Rightarrow> nat" where
  "bitlen n = (if n = 0 then 0 else Suc (bitlen (n div 2)))"

declare bitlen.simps [simp del]

definition to_float :: "nat \<Rightarrow> nat" where
  "to_float n =
     (let k = bitlen n - 24; q = n div 2 ^ k; r = n mod 2 ^ k
      in if k = 0 then n
         else (if 2 * r > 2 ^ k \<or> 2 * r = 2 ^ k \<and> odd q then q + 1 else q) * 2 ^ k)"

type_synonym result_lists = "u32 list \<times> nat list"

partial_function (option) single_loop ::
  "bool \<Rightarrow> SegmentPool \<Rightarrow> FilterBase \<Rightarrow> u32 list \<Rightarrow> nat \<Rightarrow> posting_iter \<Rightarrow> u32 \<Rightarrow> result_lists \<Rightarrow> result_lists option" where
  "single_loop reverse sp flt buf len it eligible res = do {
     let hit = (it_docid it = eligible);
     let res1 = (if hit then (fst res @ [it_docid it], snd res @ [to_float (unat (it_score it))]) else res);
     let eligible1 = (if hit then find_next flt eligible reverse else eligible);
     if hit \<and> (length (fst res1) = len \<or> eligible1 = INVALID_ID) then Some res1
     else do {
       (ok, it1) \<leftarrow> unionIterate reverse sp buf it eligible1;
       if \<not> ok then Some res1
       else
         let eligible2 = (if test flt (it_docid it1) then it_docid it1 else find_next flt (it_docid it1) reverse)
         in if eligible2 = INVALID_ID then Some res1
            else single_loop reverse sp flt buf len it1 eligible2 res1
     }
   }"

definition retrieve_single ::
  "(nat \<Rightarrow> u32) \<Rightarrow> AttrScoreInvertedIndex \<Rightarrow> u32 \<Rightarrow> FilterBase \<Rightarrow> u32 \<Rightarrow> u32 \<Rightarrow> result_lists \<Rightarrow> result_lists option" where
  "retrieve_single junk idx tid flt minDf hits res = do {
     let r = reversed idx;
     (buf, it) \<leftarrow> it_start junk idx tid;
     let eligible = find_first flt r;
     if eligible = INVALID_ID then Some res
     else do {
       (ok, it1) \<leftarrow> unionIterate r (segmentPool idx) buf it eligible;
       if \<not> ok then Some res
       else
         let eligible1 = (if test flt (it_docid it1) then it_docid it1 else find_next flt (it_docid it1) r)
         in if eligible1 = INVALID_ID then Some res
            else single_loop r (segmentPool idx) flt buf (unat (min minDf hits)) it1 eligible1 res
     }
   }"

text \<open>The two lists of the smallest terms are intersected by moving the iterator that is behind.\<close>

partial_function (option) pair_loop ::
  "bool \<Rightarrow> SegmentPool \<Rightarrow> FilterBase \<Rightarrow> u32 list \<Rightarrow> u32 list \<Rightarrow> int \<Rightarrow> int \<Rightarrow> u32 \<Rightarrow> posting_iter \<Rightarrow> posting_iter \<Rightarrow>
   result_lists \<Rightarrow> result_lists option" where
  "pair_loop reverse sp flt buf0 buf1 weight0 weight1 hits it0 it1 res = do {
     let id0 = it_docid it0;
     let id1 = it_docid it1;
     if id0 = id1 then do {
       let res1 = (if test flt id0
         then (fst res @ [id0], snd res @ [to_float (unat (it_score it0 * of_int weight0 + it_score it1 * of_int weight1))])
         else res);
       let e = find_next flt id0 reverse;
       if test flt id0 \<and> length (fst res1) = unat hits \<or> e = INVALID_ID then Some res1
       else do {
         (ok0, it0') \<leftarrow> unionIterate reverse sp buf0 it0 e;
         if \<not> ok0 then Some res1
         else do {
           (ok1, it1') \<leftarrow> unionIterate reverse sp buf1 it1 (it_docid it0');
           if \<not> ok1 then Some res1
           else pair_loop reverse sp flt buf0 buf1 weight0 weight1 hits it0' it1' res1
         }
       }
     }
     else if LESS_THAN id0 id1 reverse then do {
       (ok0, it0') \<leftarrow> unionIterate reverse sp buf0 it0 id1;
       if \<not> ok0 then Some res
       else pair_loop reverse sp flt buf0 buf1 weight0 weight1 hits it0' it1 res
     }
     else do {
       (ok1, it1') \<leftarrow> unionIterate reverse sp buf1 it1 id0;
       if \<not> ok1 then Some res
       else pair_loop reverse sp flt buf0 buf1 weight0 weight1 hits it0 it1' res
     }
   }"

definition intersectPostingsLists ::
  "(nat \<Rightarrow> u32) \<Rightarrow> AttrScoreInvertedIndex \<Rightarrow> FilterBase \<Rightarrow> u32 \<Rightarrow> u32 \<Rightarrow> int \<Rightarrow> int \<Rightarrow> result_lists \<Rightarrow> u32 \<Rightarrow> result_lists option" where
  "intersectPostingsLists junk idx flt term0 term1 weight0 weight1 res hits = do {
     let r = reversed idx;
     let sp = segmentPool idx;
     (buf0, it0) \<leftarrow> it_start junk idx term0;
     (buf1, it1) \<leftarrow> it_start junk idx term1;
     let e = find_first flt r;
     if e = INVALID_ID then Some res
     else do {
       (ok0, it0') \<leftarrow> unionIterate r sp buf0 it0 e;
       if \<not> ok0 then Some res
       else do {
         (ok1, it1') \<leftarrow> unionIterate r sp buf1 it1 (it_docid it0');
         if \<not> ok1 then Some res
         else pair_loop r sp flt buf0 buf1 weight0 weight1 hits it0' it1' res
       }
     }
   }"

text \<open>Each further term filters the result lists in place. The search reads up to fifteen cells behind the list: \<open>cap\<close> is the
  number of cells the vector has reserved, and those behind its elements hold anything.\<close>

definition set_search :: "(nat \<Rightarrow> u32) \<Rightarrow> bool \<Rightarrow> nat \<Rightarrow> u32 list \<Rightarrow> u32 \<Rightarrow> u32 \<Rightarrow> u32 \<Rightarrow> u32 \<Rightarrow> (u32 option) option" where
  "set_search junk reverse cap ds tail iCount iCurrent docid =
     (if iCurrent \<ge> iCount \<or> LESS_THAN tail docid reverse then Some None
      else do {
        i \<leftarrow> linearSearch (ds @ map junk [0..<cap - length ds]) reverse (unat iCount) (unat iCurrent) docid;
        Some (if of_nat i = INVALID_ID then None else Some (of_nat i))
      })"

partial_function (option) set_loop ::
  "(nat \<Rightarrow> u32) \<Rightarrow> bool \<Rightarrow> SegmentPool \<Rightarrow> u32 list \<Rightarrow> int \<Rightarrow> nat \<Rightarrow> u32 \<Rightarrow> u32 \<Rightarrow> posting_iter \<Rightarrow> u32 \<Rightarrow> u32 \<Rightarrow>
   result_lists \<Rightarrow> result_lists option" where
  "set_loop junk reverse sp buf weight cap tail iCount it iSet iCurrent res = do {
     d \<leftarrow> rd (fst res) (unat iCurrent);
     (iSet1, iCurrent1, res1) \<leftarrow>
       (if it_docid it = d then do {
          s \<leftarrow> rd (snd res) (unat iCurrent);
          ds \<leftarrow> wr (fst res) (unat iSet) d;
          ss \<leftarrow> wr (snd res) (unat iSet) (to_float (s + to_float (unat (it_score it * of_int weight))));
          Some (iSet + 1, iCurrent + 1, (ds, ss))
        } else Some (iSet, iCurrent, res));
     if it_docid it = d \<and> unat iCurrent1 = length (fst res1) then Some (take (unat iSet1) (fst res1), take (unat iSet1) (snd res1))
     else do {
       d1 \<leftarrow> rd (fst res1) (unat iCurrent1);
       (ok, it1) \<leftarrow> unionIterate reverse sp buf it d1;
       if \<not> ok then Some (take (unat iSet1) (fst res1), take (unat iSet1) (snd res1))
       else do {
         s \<leftarrow> set_search junk reverse cap (fst res1) tail iCount iCurrent1 (it_docid it1);
         case s of
           None \<Rightarrow> Some (take (unat iSet1) (fst res1), take (unat iSet1) (snd res1))
         | Some iCurrent2 \<Rightarrow> set_loop junk reverse sp buf weight cap tail iCount it1 iSet1 iCurrent2 res1
       }
     }
   }"

definition intersectSetPostingsList ::
  "(nat \<Rightarrow> u32) \<Rightarrow> AttrScoreInvertedIndex \<Rightarrow> nat \<Rightarrow> u32 \<Rightarrow> int \<Rightarrow> result_lists \<Rightarrow> result_lists option" where
  "intersectSetPostingsList junk idx cap tid weight res = do {
     (buf, it) \<leftarrow> it_start junk idx tid;
     let iCount = of_nat (length (fst res));
     tail \<leftarrow> rd (fst res) (length (fst res) - 1);
     d \<leftarrow> rd (fst res) 0;
     (ok, it1) \<leftarrow> unionIterate (reversed idx) (segmentPool idx) buf it d;
     if \<not> ok then Some res
     else do {
       s \<leftarrow> set_search junk (reversed idx) cap (fst res) tail iCount 0 (it_docid it1);
       case s of
         None \<Rightarrow> Some res
       | Some iCurrent \<Rightarrow>
           set_loop junk (reversed idx) (segmentPool idx) buf weight cap tail iCount it1 0 iCurrent res
     }
   }"

fun intersect_rest ::
  "(nat \<Rightarrow> u32) \<Rightarrow> AttrScoreInvertedIndex \<Rightarrow> nat \<Rightarrow> (u32 \<times> int) list \<Rightarrow> result_lists \<Rightarrow> (bool \<times> result_lists) option" where
  "intersect_rest junk idx cap [] res = Some (True, res)"
| "intersect_rest junk idx cap ((tid, weight) # qs) res =
     (if fst res = [] then Some (False, res)
      else do {
        res' \<leftarrow> intersectSetPostingsList junk idx cap tid weight res;
        intersect_rest junk idx cap qs res'
      })"

definition intersectSvS ::
  "(nat \<Rightarrow> u32) \<Rightarrow> AttrScoreInvertedIndex \<Rightarrow> (u32 \<times> int) list \<Rightarrow> FilterBase \<Rightarrow> u32 \<Rightarrow> u32 \<Rightarrow> result_lists \<Rightarrow> result_lists option" where
  "intersectSvS junk idx qs flt minDf hits res = (case qs of
       [] \<Rightarrow> None
     | [q] \<Rightarrow> retrieve_single junk idx (fst q) flt minDf hits res
     | q0 # q1 # qs' \<Rightarrow> do {
         res1 \<leftarrow> intersectPostingsLists junk idx flt (fst q0) (fst q1) (snd q0) (snd q1) res hits;
         (completed, res2) \<leftarrow> intersect_rest junk idx (unat (minDf + 15)) qs' res1;
         Some (if completed \<and> unat hits < length (fst res2)
           then (take (unat hits) (fst res2), take (unat hits) (snd res2)) else res2)
       })"

text \<open>The terms of a query are looked up and sorted by the number of their documents. A term that is not in the dictionary ends the
  query, which is the result \<^const>\<open>None\<close> of \<open>lookup_terms\<close>.\<close>

fun lookup_terms :: "AttrScoreInvertedIndex \<Rightarrow> (string \<times> int) list \<Rightarrow> ((u32 \<times> u32) \<times> int) list option" where
  "lookup_terms idx [] = Some []"
| "lookup_terms idx ((tm, w) # tms) =
     (let tid = getTermId (dictionary idx) tm in
      if tid = INVALID_ID then None
      else map_option ((#) ((FixedCounter_get (df (pointers idx)) tid, tid), w)) (lookup_terms idx tms))"

definition retrieve_attr ::
  "(nat \<Rightarrow> u32) \<Rightarrow> AttrScoreInvertedIndex \<Rightarrow> Algorithm \<Rightarrow> (string \<times> int) list \<Rightarrow> FilterBase \<Rightarrow> u32 \<Rightarrow> result_lists \<Rightarrow> result_lists option" where
  "retrieve_attr junk idx algorithm term_list flt hits res =
     (if term_list = [] then Some res
      else case lookup_terms idx term_list of
          None \<Rightarrow> Some res
        | Some queries \<Rightarrow>
            let minimumDf = fold (\<lambda>q m. min (fst (fst q)) m) queries 0xFFFFFFFF;
                sorted = sort queries
            in if algorithm = SVS
               then intersectSvS junk idx (map (\<lambda>q. (snd (fst q), snd q)) sorted) flt minimumDf hits res
               else Some res)"

end
