(* ===== verification/Zambezi_AttrBlock.thy ===== *)
theory Zambezi_AttrBlock
  imports Zambezi_Attr
begin

text \<open>
  The posting blocks of the attribute-score index: the scratch array holds every block the index writes, and a block
  read back from the pool gives the docids and scores that were written.
\<close>

section \<open>Writing a block\<close>

definition round4 :: "nat \<Rightarrow> nat" where
  "round4 n = (n + 3) div 4 * 4"

lemma round4: "n \<le> round4 n" "round4 n mod 4 = 0" "round4 n \<le> n + 3"
  unfolding round4_def by presburger+

lemma round4_le: "n \<le> m \<Longrightarrow> m mod 4 = 0 \<Longrightarrow> round4 n \<le> m"
  unfolding round4_def by presburger

text \<open>The words \<open>dat\<close> of a block stand for the docids \<open>ds\<close>, in index order, and the scores \<open>ss\<close>.\<close>

definition attr_block :: "bool \<Rightarrow> u32 list \<Rightarrow> u32 list \<Rightarrow> u32 list \<Rightarrow> bool" where
  "attr_block r dat ds ss \<longleftrightarrow> (\<exists>ws vs.
     encodes (docCodec_encode r) (docCodec_decode r) ds ws \<and> encodes noDeltaCodec_encode noDeltaCodec_decode ss vs \<and>
     4 + round4 (length ws) + length vs \<le> length dat \<and> length dat \<le> 4060 \<and> length ss = length ds \<and>
     take 4 dat = [of_nat (length ds), of_nat (length ws), of_nat (round4 (length ws)), of_nat (length vs)] \<and>
     take (length ws) (drop 4 dat) = ws \<and> take (length vs) (drop (4 + round4 (length ws)) dat) = vs)"

text \<open>A run of postings that is written as one block: a multiple of 128 up to \<open>BP_BLOCK_SIZE\<close> of them, in index order, with scores
  that are not zero.\<close>

definition block_ok :: "bool \<Rightarrow> u32 list \<Rightarrow> u32 list \<Rightarrow> bool" where
  "block_ok r ds ss \<longleftrightarrow> postings r ds \<and> list_all (\<lambda>x. x < 2 ^ 31) ds \<and> list_all (\<lambda>x. x \<noteq> 0) ss \<and>
     length ss = length ds \<and> length ds mod 128 = 0 \<and> ds \<noteq> [] \<and> length ds \<le> BP_BLOCK_SIZE"

lemma BP_BLOCK_SIZE_eq: "BP_BLOCK_SIZE = 2048"
  by (simp add: BP_BLOCK_SIZE_def BLOCK_SIZE_def)

lemma nonzero_blocks_all:
  assumes "list_all (\<lambda>x. x \<noteq> 0) xs"
  shows "nonzero_blocks xs"
  unfolding nonzero_blocks_def list_all_iff
proof
  fix j assume "j \<in> set [0..<length xs div 128]"
  then have "Suc j \<le> length xs div 128" by simp
  then have "Suc j * 128 \<le> length xs" by (simp only: less_eq_div_iff_mult_less_eq)
  then have "128 * j < length xs" by simp
  then have "take 128 (drop (128 * j) xs) \<noteq> []" by simp
  then obtain x where x: "x \<in> set (take 128 (drop (128 * j) xs))" by (meson last_in_set)
  then have "x \<in> set xs" by (meson in_set_dropD in_set_takeD)
  then have "x \<noteq> 0" using assms by (simp add: list_all_iff)
  with x show "list_ex (\<lambda>x. x \<noteq> 0) (take 128 (drop (128 * j) xs))" by (auto simp: list_ex_iff)
qed

lemma block_codes:
  assumes "block_ok r ds ss"
  obtains ws vs where "encodes (docCodec_encode r) (docCodec_decode r) ds ws" "length ws \<le> 1996"
    "encodes noDeltaCodec_encode noDeltaCodec_decode ss vs" "length vs \<le> 2056"
proof -
  have b: "length ds mod 128 = 0" "length ds div 128 \<le> 16" "length ss = length ds" "length ds < 2 ^ 32"
    using assms by (auto simp: block_ok_def BP_BLOCK_SIZE_eq)
  have "sorted_wrt (\<lambda>x y. if r then x > y else x < y) ds"
    using assms by (simp add: block_ok_def postings_def LESS_THAN_def)
  from doc_encodes [OF this b(4)] obtain ws where
    ws: "encodes (docCodec_encode r) (docCodec_decode r) ds ws"
      "length ws \<le> 8 + 4 * ((length ds div 128 + 15) div 16) + 124 * (length ds div 128)"
    using assms b(1) by (auto simp: block_ok_def)
  have "nonzero_blocks ss" using assms by (intro nonzero_blocks_all) (simp add: block_ok_def)
  from no_delta_encodes [OF this] b obtain vs where
    vs: "encodes noDeltaCodec_encode noDeltaCodec_decode ss vs"
      "length vs \<le> 4 + 4 * ((length ss div 128 + 15) div 16) + 128 * (length ss div 128)" by auto
  define n q where nq: "n = length ds div 128" "q = (length ds div 128 + 15) div 16"
  have "q \<le> (16 + 15) div 16" unfolding nq using b(2) by (intro div_le_mono add_right_mono)
  then have m: "q \<le> 1" "n \<le> 16" using b(2) by (simp_all add: nq)
  have "length ws \<le> 8 + 4 * q + 124 * n" "length vs \<le> 4 + 4 * q + 128 * n"
    using ws(2) vs(2) unfolding b(3) nq by blast+
  with m show thesis by (intro that [OF ws(1) _ vs(1)]) linarith+
qed

lemma encodesD:
  assumes "encodes enc dec xs ws" "length xs mod 128 = 0"
  shows "ia mod 4 = 0 \<Longrightarrow> oa mod 4 = 0 \<Longrightarrow> length ws \<le> rm \<Longrightarrow> enc ia oa rm nvalue xs = Some (Inr ws)"
    and "ia mod 4 = 0 \<Longrightarrow> oa mod 4 = 0 \<Longrightarrow> length xs \<le> rm \<Longrightarrow> length xs \<le> nvalue \<Longrightarrow>
      dec ia oa rm (ws @ rest) (length ws) nvalue = Some (Inr (xs, rest))"
  using assms by (auto simp: encodes_def)

lemma uncaught_simps [simp]: "uncaught (Some (Inr x)) = Some x"
  by (simp add: uncaught_def)

lemma drop4: "drop (4 + n) (a # b # c # d # xs) = drop n xs"
  by (simp add: eval_nat_numeral)

lemma fill_segment_ok:
  assumes b: "block_ok r ds ss" and rd: "rd_seq posting d (length ds) = Some ds" "rd_seq posting s (length ds) = Some ss"
    and a: "d mod 4 = 0" "s mod 4 = 0" and seg: "length seg = BUFFER_SIZE"
  shows "\<exists>seg' n. fill_segment r seg posting d s (length ds) = Some (seg', n) \<and> length seg' = BUFFER_SIZE \<and>
    n \<le> 4060 \<and> n mod 4 = 0 \<and> attr_block r (take n seg') ds ss"
proof -
  let ?len = "length ds"
  obtain ws vs where ws: "encodes (docCodec_encode r) (docCodec_decode r) ds ws" "length ws \<le> 1996"
    and vs: "encodes noDeltaCodec_encode noDeltaCodec_decode ss vs" "length vs \<le> 2056" by (rule block_codes [OF b])
  have len: "?len \<le> 2048" "?len mod 128 = 0" "length ss = ?len" using b by (auto simp: block_ok_def BP_BLOCK_SIZE_eq)
  define c where "c = round4 (length ws)"
  have c: "length ws \<le> c" "c mod 4 = 0" "c \<le> 1996"
    using round4 [of "length ws"] round4_le [OF ws(2)] by (simp_all add: c_def)
  define e where "e = round4 (length vs)"
  have e: "length vs \<le> e" "e mod 4 = 0" "e \<le> 2056"
    using round4 [of "length vs"] round4_le [OF vs(2)] by (simp_all add: e_def)
  have "Suc (Suc (Suc (Suc 0))) \<le> length seg" using seg by (simp add: BUFFER_SIZE_def)
  then obtain h0 h1 h2 h3 body where "seg = h0 # h1 # h2 # h3 # body" by (auto simp: Suc_le_length_iff)
  then have body: "seg = [h0, h1, h2, h3] @ body" "length body = 4092" using seg by (simp_all add: BUFFER_SIZE_def)
  define b1 where "b1 = replicate ?len 0 @ drop ?len body"
  define b2 where "b2 = ws @ drop (length ws) b1"
  define b3 where "b3 = take c b2 @ replicate ?len 0 @ drop (c + ?len) b2"
  define b4 where "b4 = take c b3 @ vs @ drop (c + length vs) b3"
  have l: "length b1 = 4092" "length b2 = 4092" "length b3 = 4092" "length b4 = 4092"
  proof -
    show 1: "length b1 = 4092" using body(2) len(1) by (simp add: b1_def)
    then show 2: "length b2 = 4092" using ws(2) by (simp add: b2_def)
    then show 3: "length b3 = 4092" using c(3) len(1) by (simp add: b3_def)
    then show "length b4 = 4092" using c(3) vs(2) by (simp add: b4_def)
  qed
  have w: "wr_seq ([x0, x1, x2, x3] @ xs) (i + 4) ys = Some ([x0, x1, x2, x3] @ take i xs @ ys @ drop (i + length ys) xs)"
    if "i + length ys \<le> length xs" for x0 x1 x2 x3 :: u32 and xs i ys
  proof -
    have "i + 4 = length [x0, x1, x2, x3] + i" by simp
    then show ?thesis using that by (simp only: wr_seq_right wr_seq_Some option.map)
  qed
  have "docCodec_encode r d 4 4092 ?len ds = Some (Inr ws)"
    by (rule encodesD(1) [OF ws(1) len(2)]) (use a ws(2) in simp_all)
  moreover have "noDeltaCodec_encode s (c + 4) (4092 - c) ?len ss = Some (Inr vs)"
    by (rule encodesD(1) [OF vs(1)]) (use a c len vs(2) in auto)
  moreover have "wr_seq ([h0', h1, h2, h3] @ body) 4 (replicate ?len 0) = Some ([h0', h1, h2, h3] @ b1)" for h0'
    using w [of 0 "replicate ?len 0" body] body(2) len(1) by (simp add: b1_def)
  moreover have "wr_seq ([h0', h1, h2, h3] @ b1) 4 ws = Some ([h0', h1, h2, h3] @ b2)" for h0'
    using w [of 0 ws b1] l ws(2) by (simp add: b2_def)
  moreover have "wr_seq ([h0', h1', h2', h3] @ b2) (c + 4) (replicate ?len 0) = Some ([h0', h1', h2', h3] @ b3)" for h0' h1' h2'
    using w [of c "replicate ?len 0" b2] l c len(1) by (simp add: b3_def)
  moreover have "wr_seq ([h0', h1', h2', h3] @ b3) (c + 4) vs = Some ([h0', h1', h2', h3] @ b4)" for h0' h1' h2'
    using w [of c vs b3] l c vs(2) by (simp add: b4_def)
  ultimately have f: "fill_segment r seg posting d s ?len =
     Some ([of_nat ?len, of_nat (length ws), of_nat c, of_nat (length vs)] @ b4, c + e + 4)"
    using rd l body(2) len(3)
    by (simp add: fill_segment_def body(1) wr_def Let_def c_def [unfolded round4_def, symmetric] e_def [unfolded round4_def, symmetric])
  have "take c b3 = take c b2" using l c by (simp add: b3_def)
  then have "take (length ws) b4 = ws"
    using l c by (simp add: b4_def b2_def min_def)
  moreover have "take (length vs) (drop c b4) = vs" using l c by (simp add: b4_def)
  ultimately have "attr_block r (take (c + e + 4) ([of_nat ?len, of_nat (length ws), of_nat c, of_nat (length vs)] @ b4)) ds ss"
    using ws vs c e l len unfolding attr_block_def
    by - (rule exI [of _ ws], rule exI [of _ vs], simp add: c_def [symmetric] drop_take min_def drop4)
  with f show ?thesis using c e l by (auto simp: BUFFER_SIZE_def mod_add_eq [symmetric])
qed

section \<open>Appending a block\<close>

lemma rd_seq_last:
  assumes "rd_seq xs i n = Some ys" "0 < n"
  shows "rd xs (i + n - 1) = Some (last ys)"
proof -
  obtain k where k: "n = Suc k" using assms(2) gr0_implies_Suc by blast
  from rd_seq_SomeD [OF assms(1)] have ys: "i + Suc k \<le> length xs" "ys = take (Suc k) (drop i xs)" by (simp_all add: k)
  then have "last ys = ys ! k" by (simp add: last_conv_nth)
  then show ?thesis using ys by (simp add: rd_def k)
qed

text \<open>The pool as the index keeps it: its blocks start at 16-byte boundaries.\<close>

definition pool_good :: "SegmentPool \<Rightarrow> u64 set \<Rightarrow> bool" where
  "pool_good sp L \<longleftrightarrow> store_ok sp L \<and> 4064 \<le> unat (maxPoolSize sp) \<and> unat (offset sp) mod 4 = 0 \<and>
     (\<forall>p \<in> L. off_of p mod 4 = 0)"

lemma pool_append_good:
  assumes g: "pool_good sp L" and n: "length dat \<le> 4060" "length dat mod 4 = 0" and f: "4064 \<le> pool_free sp"
    and a: "pool_append junk sp dat m l nx = Some (p, sp')" and s: "store_ok sp' (insert p L)"
  shows "pool_good sp' (insert p L)" "pool_free sp \<le> pool_free sp' + 4064"
proof -
  let ?n = "of_nat (length dat) :: u32" and ?M = "unat (maxPoolSize sp)" and ?o = "unat (offset sp)"
  have ok: "pool_ok sp" "4064 \<le> ?M" "?o mod 4 = 0" using g by (auto simp: pool_good_def store_ok_def)
  note free = pool_append_free [OF ok(1,2) n(1) f a]
  show "pool_free sp \<le> pool_free sp' + 4064" by (rule free(1))
  have b: "?o \<le> ?M" using ok(1) by (auto simp: pool_ok_def word_le_nat_alt)
  have u: "unat (?n + 4) = length dat + 4"
    using n(1) unat_of_nat32 [of "length dat"] by (subst unat_add32) simp_all
  have d: "unat (maxPoolSize sp - offset sp) = ?M - ?o" using b by (simp add: unat_sub_if_size)
  note c = appendSegment_counters [OF a [unfolded pool_append_def]]
  have "unat (offset sp') mod 4 = 0 \<and> off_of p mod 4 = 0"
  proof (cases "?n + 4 > maxPoolSize sp - offset sp")
    case True
    then show ?thesis using c n(2) by (simp add: u)
  next
    case False
    then have t: "length dat + 4 \<le> ?M - ?o" by (simp only: word_less_nat_alt u d not_less)
    have "unat (offset sp + (?n + 4)) = ?o + (length dat + 4)"
      using t u b u32_less [of "maxPoolSize sp"] by (subst unat_add32) auto
    then show ?thesis using c False n(2) ok(3) by (simp add: mod_add_eq [symmetric])
  qed
  then show "pool_good sp' (insert p L)" using g s free(2) by (auto simp: pool_good_def)
qed

text \<open>Compressing a block and appending it: the scratch array suffices, and the pool gets one more block, which stands for the
  postings.\<close>

lemma compressAndAppendBlock_ok:
  assumes b: "block_ok (reversed idx) ds ss"
    and rd: "rd_seq posting d (length ds) = Some ds" "rd_seq posting s (length ds) = Some ss"
    and a: "d mod 4 = 0" "s mod 4 = 0" and seg: "length (segmentBuf idx) = BUFFER_SIZE"
    and g: "pool_good (segmentPool idx) L" and f: "4064 \<le> pool_free (segmentPool idx)"
    and l: "lst = UNDEFINED_POINTER \<or> lst \<in> L" "nxt = UNDEFINED_POINTER \<or> nxt \<in> L"
  obtains p seg' sp' dat where
    "compressAndAppendBlock junk idx posting d s (length ds) lst nxt = Some (p, idx \<lparr> segmentBuf := seg', segmentPool := sp' \<rparr>)"
    "length seg' = BUFFER_SIZE" "pool_append junk (segmentPool idx) dat (last ds) lst nxt = Some (p, sp')"
    "attr_block (reversed idx) dat ds ss" "room (segmentPool idx) (length dat)" "p \<notin> L"
    "pool_good sp' (insert p L)" "pool_free (segmentPool idx) \<le> pool_free sp' + 4064"
proof -
  from fill_segment_ok [OF b rd a seg] obtain seg' n where
    n: "fill_segment (reversed idx) (segmentBuf idx) posting d s (length ds) = Some (seg', n)"
      "length seg' = BUFFER_SIZE" "n \<le> 4060" "n mod 4 = 0" "attr_block (reversed idx) (take n seg') ds ss" by auto
  let ?dat = "take n seg'"
  have len: "length ?dat = n" "n \<le> length seg'" "n < 2 ^ 32" using n(2,3) by (simp_all add: BUFFER_SIZE_def)
  have mx: "4064 \<le> unat (maxPoolSize (segmentPool idx))" using g by (simp add: pool_good_def)
  have r: "room (segmentPool idx) (length ?dat)" using pool_room [OF mx n(3) f] len(1) by simp
  have so: "store_ok (segmentPool idx) L" using g by (simp add: pool_good_def)
  from pool.append_ok [OF so r l, of junk "last ds"] obtain p sp' where
    p: "pool_append junk (segmentPool idx) ?dat (last ds) lst nxt = Some (p, sp')" "p \<notin> L" "store_ok sp' (insert p L)" by blast
  have ne: "ds \<noteq> []" using b by (simp add: block_ok_def)
  then have "rd posting (d + length ds - 1) = Some (last ds)" using rd_seq_last [OF rd(1)] by simp
  then have "compressAndAppendBlock junk idx posting d s (length ds) lst nxt = Some (p, idx \<lparr> segmentBuf := seg', segmentPool := sp' \<rparr>)"
    using n(1) p(1) by (simp add: compressAndAppendBlock_def pool_append_take [OF len(2,3)])
  moreover have "pool_good sp' (insert p L)" "pool_free (segmentPool idx) \<le> pool_free sp' + 4064"
    using pool_append_good [OF g _ _ f p(1,3)] n(3,4) len(1) by simp_all
  ultimately show thesis by (rule that [OF _ n(2) p(1) n(5) r p(2)])
qed

section \<open>Reading a block\<close>

lemma decompress_ok:
  assumes "pool_good sp L" "p \<in> L" "block_at sp p = Some (m, dat)" "attr_block r dat ds ss"
    "length ds mod 128 = 0" "length ds \<le> BP_BLOCK_SIZE"
  shows "length ds \<le> length out \<Longrightarrow> decompressDocidBlock r sp out p = Some (ds @ drop (length ds) out, of_nat (length ds))"
    and "length ds \<le> length out' \<Longrightarrow> decompressScoreBlock sp out' p = Some (ss @ drop (length ds) out', of_nat (length ds))"
proof -
  have so: "store_ok sp L" using assms(1) by (simp add: pool_good_def)
  obtain arr rest where arr: "pool_array_of sp p = Some arr" "drop (off_of p + 4) arr = dat @ rest"
    "off_of p + 4 + length dat \<le> length arr" "length arr < 2 ^ 32" by (rule block_at_array [OF so assms(2,3)])
  from assms(4) obtain ws vs where
    e: "encodes (docCodec_encode r) (docCodec_decode r) ds ws" "encodes noDeltaCodec_encode noDeltaCodec_decode ss vs"
      "4 + round4 (length ws) + length vs \<le> length dat" "length dat \<le> 4060" "length ss = length ds"
      "take 4 dat = [of_nat (length ds), of_nat (length ws), of_nat (round4 (length ws)), of_nat (length vs)]"
      "take (length ws) (drop 4 dat) = ws" "take (length vs) (drop (4 + round4 (length ws)) dat) = vs"
    unfolding attr_block_def by auto
  define c where "c = round4 (length ws)"
  have c: "length ws \<le> c" "c mod 4 = 0" using round4 [of "length ws"] by (simp_all add: c_def)
  let ?o = "off_of p"
  have o: "unat (DECODE_OFFSET p + of_nat k) = ?o + k" if "k \<le> 4 + length dat" for k
    using that arr(3,4) e(4) unat_of_nat32 [of k] by (subst unat_add32) auto
  have ok: "unat (DECODE_OFFSET p + 4) = ?o + 4" "unat (DECODE_OFFSET p + 5) = ?o + 5" "unat (DECODE_OFFSET p + 6) = ?o + 6"
    "unat (DECODE_OFFSET p + 7) = ?o + 7" "unat (DECODE_OFFSET p + 8) = ?o + 8"
    using o [of 4] o [of 5] o [of 6] o [of 7] o [of 8] e(3) by simp_all
  have oc: "unat (DECODE_OFFSET p + of_nat c + 8) = ?o + 8 + c"
    using o [of "c + 8"] e(3) by (simp add: c_def add.assoc add.commute add.left_commute)
  have h: "rd arr (?o + 4 + k) = Some (take 4 dat ! k)" if "k < 4" for k
  proof -
    have "arr ! (?o + 4 + k) = (dat @ rest) ! k" using arr(3) that e(3) by (simp flip: arr(2))
    then show ?thesis using that e(3) arr(3) by (simp add: rd_def nth_append)
  qed
  have hd: "rd arr (?o + 4) = Some (of_nat (length ds))" "rd arr (?o + 5) = Some (of_nat (length ws))"
    "rd arr (?o + 6) = Some (of_nat c)" "rd arr (?o + 7) = Some (of_nat (length vs))"
    using h [of 0] h [of 1] h [of 2] h [of 3] unfolding e(6) by (simp_all add: c_def numeral_3_eq_3 add.commute)
  have u: "unat (of_nat (length ws) :: u32) = length ws" "unat (of_nat (length vs) :: u32) = length vs"
    using e(3,4) c c_def by (simp_all add: unat_of_nat32)
  have a: "?o mod 4 = 0" using assms(1,2) by (simp add: pool_good_def)
  have d1: "drop (?o + 8) arr = ws @ drop (length ws) (drop 4 dat @ rest)"
  proof -
    have "drop (?o + 8) arr = drop 4 (dat @ rest)" by (simp add: add.commute flip: arr(2))
    also have "\<dots> = drop 4 dat @ rest" using e(3) by simp
    also have "\<dots> = take (length ws) (drop 4 dat @ rest) @ drop (length ws) (drop 4 dat @ rest)" by (metis append_take_drop_id)
    also have "take (length ws) (drop 4 dat @ rest) = ws" using e(3,7) c c_def by simp
    finally show ?thesis .
  qed
  have d2: "drop (?o + 8 + c) arr = vs @ drop (length vs) (drop (4 + c) dat @ rest)"
  proof -
    have "drop (?o + 8 + c) arr = drop (4 + c) (dat @ rest)" by (simp add: add.commute add.left_commute flip: arr(2))
    also have "\<dots> = drop (4 + c) dat @ rest" using e(3) c_def by simp
    also have "\<dots> = take (length vs) (drop (4 + c) dat @ rest) @ drop (length vs) (drop (4 + c) dat @ rest)" by (metis append_take_drop_id)
    also have "take (length vs) (drop (4 + c) dat @ rest) = vs" using e(3,8) c_def by simp
    finally show ?thesis .
  qed
  have le: "?o + 8 \<le> length arr" "?o + 8 + c \<le> length arr" using arr(3) e(3) c_def by simp_all
  show "decompressDocidBlock r sp out p = Some (ds @ drop (length ds) out, of_nat (length ds))" if "length ds \<le> length out"
    using encodesD(2) [OF e(1) assms(5), of "?o + 8" 0 "length out" BP_BLOCK_SIZE] that a assms(6) hd u d1 le
    by (simp add: decompressDocidBlock_def arr(1) ok wr_seq_def mod_add_eq [symmetric])
  show "decompressScoreBlock sp out' p = Some (ss @ drop (length ds) out', of_nat (length ds))" if "length ds \<le> length out'"
    using encodesD(2) [OF e(2), of "?o + 8 + c" 0 "length out'" BP_BLOCK_SIZE] that a c assms(5,6) hd u d2 le e(5)
    by (simp add: decompressScoreBlock_def arr(1) ok oc wr_seq_def mod_add_eq [symmetric])
qed

section \<open>Properties\<close>

text \<open>A block of 128 postings in each order, and a pool to put it in.\<close>

definition sample_docs :: "bool \<Rightarrow> u32 list" where
  "sample_docs r = (if r then rev (map of_nat [1..<129]) else map of_nat [1..<129])"

definition sample_pool :: SegmentPool where
  "sample_pool = SegmentPool_new 8192 2"

lemma sample_ascending: "sorted_wrt (<) (map of_nat [1..<129] :: u32 list)" "list_all (\<lambda>x. x < 2 ^ 31) (map of_nat [1..<129] :: u32 list)"
proof -
  have "sorted_wrt (\<lambda>x y. (of_nat x :: u32) < of_nat y) [1..<129]"
    by (rule sorted_wrt_mono_rel [OF _ sorted_wrt_upt]) (simp add: word_less_nat_alt unat_of_nat)
  then show "sorted_wrt (<) (map of_nat [1..<129] :: u32 list)" by (simp add: sorted_wrt_map del: upt.simps)
  show "list_all (\<lambda>x. x < 2 ^ 31) (map of_nat [1..<129] :: u32 list)"
    by (simp add: list_all_iff word_less_nat_alt unat_of_nat del: upt.simps)
qed

lemma sample_block: "block_ok r (sample_docs r) (replicate 128 7)"
proof -
  have "postings r (sample_docs r)"
    using sample_ascending(1) by (cases r) (simp_all add: sample_docs_def postings_def LESS_THAN_def sorted_wrt_rev del: upt.simps)
  moreover have "list_all (\<lambda>x. x < 2 ^ 31) (sample_docs r)"
    using sample_ascending(2) by (simp add: sample_docs_def list_all_iff del: upt.simps)
  ultimately show ?thesis by (simp add: block_ok_def sample_docs_def BP_BLOCK_SIZE_eq list_all_iff del: upt.simps)
qed

lemma sample_pool_good: "pool_good sample_pool {}" "4064 \<le> pool_free sample_pool"
  using store_ok_new [of 2 8192] by (simp_all add: sample_pool_def pool_good_def pool_free_def SegmentPool_new_def)

text \<open>C26. The scratch array \<open>segment_\<close> of 4096 words holds every block the index compresses: whatever the array held before, a run of up to
  \<open>BP_BLOCK_SIZE\<close> postings that is a multiple of 128 long, with docids below \<open>2 ^ 31\<close> in index order and scores that are not zero, is
  laid out in at most 4060 words, without an exception and without a write outside the array.\<close>

theorem block_fits_scratch:
  assumes "block_ok r ds ss" and "rd_seq posting d (length ds) = Some ds" and "rd_seq posting s (length ds) = Some ss"
    and "d mod 4 = 0" and "s mod 4 = 0" and "length seg = BUFFER_SIZE"
  shows "\<exists>seg' n. fill_segment r seg posting d s (length ds) = Some (seg', n) \<and> length seg' = BUFFER_SIZE \<and> n \<le> 4060 \<and> n mod 4 = 0"
  using fill_segment_ok [OF assms] by auto

theorem block_fits_scratch_witness:
  "\<exists>seg' n. fill_segment True (replicate 4096 1) (sample_docs True @ replicate 128 7) 0 128 (length (sample_docs True)) = Some (seg', n) \<and>
    length seg' = BUFFER_SIZE \<and> n \<le> 4060 \<and> n mod 4 = 0"
  by (rule block_fits_scratch [OF sample_block])
     (simp_all add: rd_seq_def sample_docs_def BUFFER_SIZE_def del: upt.simps)

text \<open>A block appended to the pool is read back: from any well-formed pool with room for it the compression and the append succeed, and
  decompressing the pointer they return gives the docids and the scores, in front of what the caller's arrays hold behind
  them.\<close>

theorem block_round_trip:
  assumes "block_ok (reversed idx) ds ss" and "rd_seq posting d (length ds) = Some ds" and "rd_seq posting s (length ds) = Some ss"
    and "d mod 4 = 0" and "s mod 4 = 0" and "length (segmentBuf idx) = BUFFER_SIZE"
    and "pool_good (segmentPool idx) L" and "4064 \<le> pool_free (segmentPool idx)"
    and "lst = UNDEFINED_POINTER \<or> lst \<in> L" and "nxt = UNDEFINED_POINTER \<or> nxt \<in> L"
    and "length ds \<le> length out" and "length ds \<le> length out'"
  shows "\<exists>p idx'. compressAndAppendBlock junk idx posting d s (length ds) lst nxt = Some (p, idx') \<and>
    decompressDocidBlock (reversed idx) (segmentPool idx') out p = Some (ds @ drop (length ds) out, of_nat (length ds)) \<and>
    decompressScoreBlock (segmentPool idx') out' p = Some (ss @ drop (length ds) out', of_nat (length ds))"
proof -
  obtain p seg' sp' dat where p:
    "compressAndAppendBlock junk idx posting d s (length ds) lst nxt = Some (p, idx \<lparr> segmentBuf := seg', segmentPool := sp' \<rparr>)"
    "pool_append junk (segmentPool idx) dat (last ds) lst nxt = Some (p, sp')" "attr_block (reversed idx) dat ds ss"
    "room (segmentPool idx) (length dat)" "pool_good sp' (insert p L)"
    by (rule compressAndAppendBlock_ok [OF assms(1-10)])
  have "store_ok (segmentPool idx) L" using assms(7) by (simp add: pool_good_def)
  from pool.append_ok [OF this p(4) assms(9,10), of junk "last ds"] p(2)
  have b: "block_at sp' p = Some (last ds, dat)" by auto
  have len: "length ds mod 128 = 0" "length ds \<le> BP_BLOCK_SIZE" using assms(1) by (simp_all add: block_ok_def)
  note dec = decompress_ok [OF p(5) insertI1 b p(3) len]
  from dec(1) [OF assms(11)] dec(2) [OF assms(12)] p(1) show ?thesis by auto
qed

theorem block_round_trip_witness:
  "\<exists>p idx'. compressAndAppendBlock (\<lambda>_. 0) ((AttrIndex_new (\<lambda>_. 0) 8192 2 1 False) \<lparr> segmentPool := sample_pool \<rparr>)
      (sample_docs False @ replicate 128 7) 0 128 (length (sample_docs False)) UNDEFINED_POINTER UNDEFINED_POINTER = Some (p, idx') \<and>
    decompressDocidBlock (reversed ((AttrIndex_new (\<lambda>_. 0) 8192 2 1 False) \<lparr> segmentPool := sample_pool \<rparr>)) (segmentPool idx')
      (replicate 2063 0) p = Some (sample_docs False @ drop (length (sample_docs False)) (replicate 2063 0), of_nat (length (sample_docs False))) \<and>
    decompressScoreBlock (segmentPool idx') (replicate 2048 0) p =
      Some (replicate 128 7 @ drop (length (sample_docs False)) (replicate 2048 0), of_nat (length (sample_docs False)))"
proof (rule block_round_trip [where L = "{}"])
  show "block_ok (reversed ((AttrIndex_new (\<lambda>_. 0) 8192 2 1 False) \<lparr> segmentPool := sample_pool \<rparr>)) (sample_docs False) (replicate 128 7)"
    using sample_block [of False] by (simp add: AttrIndex_new_def)
qed (use sample_pool_good in \<open>simp_all add: rd_seq_def sample_docs_def BUFFER_SIZE_def AttrIndex_new_def del: upt.simps\<close>)

end
