(* ===== verification/Zambezi_AttrInsert.thy ===== *)
theory Zambezi_AttrInsert
  imports Zambezi_AttrBlock
begin

text \<open>
  Inserting documents into the attribute-score index refines an abstract index, a map from words to the list of their
  postings: \<open>attr_rep\<close> relates the two. It says where each posting is, in a block of the term's chain or in the
  term's buffer, and that the chains of different terms are disjoint.
\<close>

section \<open>The chain of a term\<close>

type_synonym posting = "u32 \<times> u32"

definition blocks_hold :: "bool \<Rightarrow> (u32 \<times> u32 list) list \<Rightarrow> (u32 list \<times> u32 list) list \<Rightarrow> bool" where
  "blocks_hold r bs blks \<longleftrightarrow>
     list_all2 (\<lambda>(m, dat) (ds, ss). attr_block r dat ds ss \<and> block_ok r ds ss \<and> m = last ds) bs blks"

definition block_postings :: "(u32 list \<times> u32 list) list \<Rightarrow> posting list" where
  "block_postings blks = concat (map (\<lambda>(ds, ss). zip ds ss) blks)"

text \<open>\<open>chain_state r sp L ps h t blks\<close>: the chain \<open>ps\<close>, from the head pointer \<open>h\<close> on, holds the runs of postings \<open>blks\<close>; \<open>t\<close> is the
  pointer the next block is linked to.\<close>

definition chain_state ::
  "bool \<Rightarrow> SegmentPool \<Rightarrow> u64 set \<Rightarrow> u64 list \<Rightarrow> u64 \<Rightarrow> u64 \<Rightarrow> (u32 list \<times> u32 list) list \<Rightarrow> bool" where
  "chain_state r sp L ps h t blks \<longleftrightarrow>
     (\<exists>bs. posting_chain sp L ps bs h \<and> blocks_hold r bs blks) \<and>
     t = (if r then h else if ps = [] then UNDEFINED_POINTER else last ps)"

text \<open>The part of a buffer that becomes a block.\<close>

definition chunk :: "u32 list \<Rightarrow> nat \<Rightarrow> nat \<Rightarrow> u32 list \<Rightarrow> u32 list \<Rightarrow> bool" where
  "chunk posting d s ds ss \<longleftrightarrow> rd_seq posting d (length ds) = Some ds \<and> rd_seq posting s (length ds) = Some ss \<and>
     d mod 4 = 0 \<and> s mod 4 = 0"

text \<open>One block in a forward index, and in a reversed one the first and the second block of a buffer.\<close>

lemma append_block:
  assumes b: "block_ok (reversed idx) ds ss" "chunk posting d s ds ss"
    and seg: "length (segmentBuf idx) = BUFFER_SIZE" and g: "pool_good (segmentPool idx) L"
    and f: "4064 \<le> pool_free (segmentPool idx)"
    and l: "lst = UNDEFINED_POINTER \<or> lst \<in> L" "nxt = UNDEFINED_POINTER \<or> nxt \<in> L"
    and c: "posting_chain (segmentPool idx) L ps bs h"
    and step: "\<And>dat p sp'. room (segmentPool idx) (length dat) \<Longrightarrow>
      pool_append junk (segmentPool idx) dat (last ds) lst nxt = Some (p, sp') \<Longrightarrow>
      posting_chain sp' (insert p L) (ps' p) (bs' (last ds, dat)) (h' p)"
  obtains p seg' sp' dat where
    "compressAndAppendBlock junk idx posting d s (length ds) lst nxt = Some (p, idx \<lparr> segmentBuf := seg', segmentPool := sp' \<rparr>)"
    "length seg' = BUFFER_SIZE" "pool_good sp' (insert p L)" "pool_free (segmentPool idx) \<le> pool_free sp' + 4064" "p \<notin> L"
    "attr_block (reversed idx) dat ds ss" "posting_chain sp' (insert p L) (ps' p) (bs' (last ds, dat)) (h' p)"
    "framed (segmentPool idx) L sp' (insert p L) {lst}"
proof -
  from b(2) have ch: "rd_seq posting d (length ds) = Some ds" "rd_seq posting s (length ds) = Some ss" "d mod 4 = 0" "s mod 4 = 0"
    by (simp_all add: chunk_def)
  obtain p seg' sp' dat where
    p: "compressAndAppendBlock junk idx posting d s (length ds) lst nxt = Some (p, idx \<lparr> segmentBuf := seg', segmentPool := sp' \<rparr>)"
      "length seg' = BUFFER_SIZE" "pool_append junk (segmentPool idx) dat (last ds) lst nxt = Some (p, sp')"
      "attr_block (reversed idx) dat ds ss" "room (segmentPool idx) (length dat)" "p \<notin> L"
      "pool_good sp' (insert p L)" "pool_free (segmentPool idx) \<le> pool_free sp' + 4064"
    by (rule compressAndAppendBlock_ok [OF b(1) ch seg g f l])
  have "framed (segmentPool idx) L sp' (insert p L) {lst}"
    unfolding framed_def posting_chain_holds using pool.append_frame [OF _ p(5) l(1) _ l(2) p(3)] by auto
  with p show thesis using step [OF p(5,3)] by (intro that)
qed

lemma forward_block:
  assumes b: "block_ok False ds ss" "chunk posting d s ds ss" and r: "\<not> reversed idx"
    and seg: "length (segmentBuf idx) = BUFFER_SIZE" and g: "pool_good (segmentPool idx) L"
    and f: "4064 \<le> pool_free (segmentPool idx)" and c: "chain_state False (segmentPool idx) L ps h t blks"
  obtains p seg' sp' where
    "compressAndAppendBlock junk idx posting d s (length ds) t UNDEFINED_POINTER = Some (p, idx \<lparr> segmentBuf := seg', segmentPool := sp' \<rparr>)"
    "length seg' = BUFFER_SIZE" "pool_good sp' (insert p L)" "pool_free (segmentPool idx) \<le> pool_free sp' + 4064" "p \<notin> L"
    "chain_state False sp' (insert p L) (ps @ [p]) (if h = UNDEFINED_POINTER then p else h) p (blks @ [(ds, ss)])"
    "framed (segmentPool idx) L sp' (insert p L) (set ps)"
proof -
  from c obtain bs where
    pc: "posting_chain (segmentPool idx) L ps bs h" and bl: "blocks_hold False bs blks"
    and t: "t = (if ps = [] then UNDEFINED_POINTER else last ps)" by (auto simp: chain_state_def)
  have sub: "set ps \<subseteq> L" using pc by (simp add: posting_chain_def)
  have ts: "t = UNDEFINED_POINTER \<or> t \<in> set ps" using t by auto
  then have tl: "t = UNDEFINED_POINTER \<or> t \<in> L" using sub by auto
  have step: "posting_chain sp' (insert p L) (ps @ [p]) (bs @ [(last ds, dat)]) (if h = UNDEFINED_POINTER then p else h)"
    if "room (segmentPool idx) (length dat)"
      "pool_append junk (segmentPool idx) dat (last ds) t UNDEFINED_POINTER = Some (p, sp')" for dat p sp'
  proof (cases ps rule: rev_cases)
    case Nil
    then have "h = UNDEFINED_POINTER" "bs = []" using pc by (auto simp: posting_chain_def)
    then show ?thesis using pool.append_head [OF pool_holdsI [OF pc] that(1), of junk "last ds"] that(2) t Nil
      by (auto simp: posting_chain_holds)
  next
    case (snoc ps' q)
    then have "h \<noteq> UNDEFINED_POINTER" using pc by (cases ps') (auto simp: posting_chain_def)
    then show ?thesis using pool.append_tail [OF pool_holdsI [OF pc [unfolded snoc]] that(1), of junk "last ds"] that(2) t snoc
      by (auto simp: posting_chain_holds)
  qed
  have r': "reversed idx = False" using r by simp
  obtain p seg' sp' dat where
    p: "compressAndAppendBlock junk idx posting d s (length ds) t UNDEFINED_POINTER = Some (p, idx \<lparr> segmentBuf := seg', segmentPool := sp' \<rparr>)"
    "length seg' = BUFFER_SIZE" "pool_good sp' (insert p L)" "pool_free (segmentPool idx) \<le> pool_free sp' + 4064" "p \<notin> L"
    "attr_block False dat ds ss" "posting_chain sp' (insert p L) (ps @ [p]) (bs @ [(last ds, dat)]) (if h = UNDEFINED_POINTER then p else h)"
    "framed (segmentPool idx) L sp' (insert p L) {t}"
    by (rule append_block [OF b(1) [folded r'] b(2) seg g f tl disjI1 [OF refl] pc, where junk = junk
        and ps' = "\<lambda>p. ps @ [p]" and bs' = "\<lambda>b. bs @ [b]" and h' = "\<lambda>p. if h = UNDEFINED_POINTER then p else h", unfolded r', OF step])
  have "blocks_hold False (bs @ [(last ds, dat)]) (blks @ [(ds, ss)])"
    using bl p(6) b(1) by (simp add: blocks_hold_def list_all2_appendI)
  then have "chain_state False sp' (insert p L) (ps @ [p]) (if h = UNDEFINED_POINTER then p else h) p (blks @ [(ds, ss)])"
    using p(7) unfolding chain_state_def by auto
  moreover have "store_ok (segmentPool idx) L" using g by (simp add: pool_good_def)
  ultimately show thesis using p framed_live [OF p(8) _ ts] that by blast
qed

lemma reverse_block1:
  assumes b: "block_ok True ds ss" "chunk posting d s ds ss" and r: "reversed idx"
    and seg: "length (segmentBuf idx) = BUFFER_SIZE" and g: "pool_good (segmentPool idx) L"
    and f: "4064 \<le> pool_free (segmentPool idx)" and c: "chain_state True (segmentPool idx) L ps h t blks"
  obtains p seg' sp' where
    "compressAndAppendBlock junk idx posting d s (length ds) UNDEFINED_POINTER t = Some (p, idx \<lparr> segmentBuf := seg', segmentPool := sp' \<rparr>)"
    "length seg' = BUFFER_SIZE" "pool_good sp' (insert p L)" "pool_free (segmentPool idx) \<le> pool_free sp' + 4064" "p \<notin> L"
    "chain_state True sp' (insert p L) (p # ps) p p ((ds, ss) # blks)" "nextPointer sp' p = Some t"
    "framed (segmentPool idx) L sp' (insert p L) {}"
proof -
  from c obtain bs where
    pc: "posting_chain (segmentPool idx) L ps bs t" and bl: "blocks_hold True bs blks" by (auto simp: chain_state_def)
  have step: "posting_chain sp' (insert p L) (p # ps) ((last ds, dat) # bs) p"
    if "room (segmentPool idx) (length dat)"
      "pool_append junk (segmentPool idx) dat (last ds) UNDEFINED_POINTER t = Some (p, sp')" for dat p sp'
    using pool.append_head [OF pool_holdsI [OF pc] that(1), of junk "last ds"] that(2) by (auto simp: posting_chain_holds)
  have r': "reversed idx = True" using r by simp
  obtain p seg' sp' dat where
    p: "compressAndAppendBlock junk idx posting d s (length ds) UNDEFINED_POINTER t = Some (p, idx \<lparr> segmentBuf := seg', segmentPool := sp' \<rparr>)"
    "length seg' = BUFFER_SIZE" "pool_good sp' (insert p L)" "pool_free (segmentPool idx) \<le> pool_free sp' + 4064" "p \<notin> L"
    "attr_block True dat ds ss" "posting_chain sp' (insert p L) (p # ps) ((last ds, dat) # bs) p"
    "framed (segmentPool idx) L sp' (insert p L) {UNDEFINED_POINTER}"
    by (rule append_block [OF b(1) [folded r'] b(2) seg g f disjI1 [OF refl] posting_chain_head [OF pc] pc, where junk = junk
        and ps' = "\<lambda>p. p # ps" and bs' = "\<lambda>b. b # bs" and h' = "\<lambda>p. p", unfolded r', OF step])
  have "chain_state True sp' (insert p L) (p # ps) p p ((ds, ss) # blks)"
    using p(6,7) bl b(1) unfolding chain_state_def by (auto simp: blocks_hold_def)
  moreover have "nextPointer sp' p = Some t"
  proof -
    from p(7) obtain n where n: "nextPointer sp' p = Some n" "chain (nextPointer sp') ps n"
      by (auto simp: posting_chain_def split: option.splits)
    have "n = t" using n(2) pc by (cases ps) (auto simp: posting_chain_def)
    with n(1) show ?thesis by simp
  qed
  moreover have "store_ok (segmentPool idx) L" using g by (simp add: pool_good_def)
  ultimately show thesis using p framed_live [OF p(8) _ disjI1 [OF refl]] that by blast
qed

lemma reverse_block2:
  assumes b: "block_ok True ds ss" "chunk posting d s ds ss" and r: "reversed idx"
    and seg: "length (segmentBuf idx) = BUFFER_SIZE" and g: "pool_good (segmentPool idx) L"
    and f: "4064 \<le> pool_free (segmentPool idx)" and n: "nextPointer (segmentPool idx) q = Some t"
    and c: "chain_state True (segmentPool idx) L (q # ps) q q (blk # blks)"
  obtains p seg' sp' where
    "compressAndAppendBlock junk idx posting d s (length ds) q t = Some (p, idx \<lparr> segmentBuf := seg', segmentPool := sp' \<rparr>)"
    "length seg' = BUFFER_SIZE" "pool_good sp' (insert p L)" "pool_free (segmentPool idx) \<le> pool_free sp' + 4064" "p \<notin> L"
    "chain_state True sp' (insert p L) (q # p # ps) q q (blk # (ds, ss) # blks)"
    "framed (segmentPool idx) L sp' (insert p L) {q}"
proof -
  from c obtain b1 bs where
    pc: "posting_chain (segmentPool idx) L (q # ps) (b1 # bs) q" and bl: "blocks_hold True (b1 # bs) (blk # blks)"
    by (auto simp: chain_state_def blocks_hold_def list_all2_Cons2)
  have ql: "q = UNDEFINED_POINTER \<or> q \<in> L" using pc by (simp add: posting_chain_def)
  have "chain (nextPointer (segmentPool idx)) ps t" using pc n by (simp add: posting_chain_def)
  then have tl: "t = UNDEFINED_POINTER \<or> t \<in> L" using pc by (cases ps) (auto simp: posting_chain_def)
  have step: "posting_chain sp' (insert p L) (q # p # ps) (b1 # (last ds, dat) # bs) q"
    if "room (segmentPool idx) (length dat)"
      "pool_append junk (segmentPool idx) dat (last ds) q t = Some (p, sp')" for dat p sp'
    using pool.append_second [OF pool_holdsI [OF pc] n that(1), of junk "last ds"] that(2) by (auto simp: posting_chain_holds)
  have r': "reversed idx = True" using r by simp
  obtain p seg' sp' dat where
    p: "compressAndAppendBlock junk idx posting d s (length ds) q t = Some (p, idx \<lparr> segmentBuf := seg', segmentPool := sp' \<rparr>)"
    "length seg' = BUFFER_SIZE" "pool_good sp' (insert p L)" "pool_free (segmentPool idx) \<le> pool_free sp' + 4064" "p \<notin> L"
    "attr_block True dat ds ss" "posting_chain sp' (insert p L) (q # p # ps) (b1 # (last ds, dat) # bs) q"
    "framed (segmentPool idx) L sp' (insert p L) {q}"
    by (rule append_block [OF b(1) [folded r'] b(2) seg g f ql tl pc, where junk = junk
        and ps' = "\<lambda>p. q # p # ps" and bs' = "\<lambda>b. b1 # b # bs" and h' = "\<lambda>p. q", unfolded r', OF step])
  have "chain_state True sp' (insert p L) (q # p # ps) q q (blk # (ds, ss) # blks)"
    using p(6,7) bl b(1) unfolding chain_state_def by (auto simp: blocks_hold_def)
  with p that show thesis by blast
qed

section \<open>Writing out a full buffer\<close>

lemma idx32_eq: "b \<le> a \<Longrightarrow> a < 2 ^ 32 \<Longrightarrow> idx32 a b = a - b"
  using unat_of_nat32 [of "a - b"] by (simp add: idx32_def of_nat_diff)

lemma full_chunk:
  assumes "length X = cap" "length Y = cap" "i + n \<le> cap" "cap mod 4 = 0" "i mod 4 = 0"
  shows "chunk ([a, b, c, e] @ X @ Y) (4 + i) (4 + cap + i) (take n (drop i X)) (take n (drop i Y))"
proof -
  have l: "length (take n (drop i X)) = n" using assms(1,3) by simp
  have 1: "4 + i = length [a, b, c, e] + i" "4 + cap + i = length ([a, b, c, e] @ X) + i" using assms(1) by simp_all
  have "rd_seq ([a, b, c, e] @ X @ Y) (4 + i) n = Some (take n (drop i X))"
    unfolding 1(1) rd_seq_right using assms(1,3) by (simp add: rd_seq_def)
  moreover have "rd_seq ([a, b, c, e] @ X @ Y) (4 + cap + i) n = Some (take n (drop i Y))"
    unfolding 1(2) append_assoc [symmetric] rd_seq_right using assms(2,3) by (simp add: rd_seq_def)
  moreover have "(4 + i) mod 4 = 0" "(4 + cap + i) mod 4 = 0" using assms(4,5) by presburger+
  ultimately show ?thesis unfolding chunk_def l by blast
qed

lemma block_part:
  assumes "postings r X" "list_all (\<lambda>x. x < 2 ^ 31) X" "list_all (\<lambda>x. x \<noteq> 0) Y" "length Y = length X"
    "i + n \<le> length X" "n mod 128 = 0" "0 < n" "n \<le> BP_BLOCK_SIZE"
  shows "block_ok r (take n (drop i X)) (take n (drop i Y))"
proof -
  have "sorted_wrt P (take n (drop i X))" if "sorted_wrt P X" for P
    using that by (simp add: sorted_wrt_take sorted_wrt_drop)
  then have "postings r (take n (drop i X))" using assms(1) by (simp add: postings_def)
  then show ?thesis
    using assms(2-) by (auto simp: block_ok_def list_all_iff dest!: in_set_takeD in_set_dropD)
qed

definition full_caps :: "nat set" where
  "full_caps = {128, 256, 512, 1024, 2048, 4096}"

text \<open>What \<open>processTermBuffer_\<close> comes to for the capacities that occur.\<close>

lemma process_single:
  assumes "cap \<in> full_caps" "cap \<noteq> 4096" "rd posting 0 = Some (of_nat cap)" "rd posting 1 = Some (of_nat cap)"
  shows "reversed idx \<Longrightarrow> processTermBuffer junk idx posting t h = do {
      (p, idx1) \<leftarrow> compressAndAppendBlock junk idx posting 4 (4 + cap) cap UNDEFINED_POINTER t;
      Some (p, p, idx1) }"
    and "\<not> reversed idx \<Longrightarrow> processTermBuffer junk idx posting t h = do {
      (p, idx1) \<leftarrow> compressAndAppendBlock junk idx posting 4 (4 + cap) cap t UNDEFINED_POINTER;
      Some (p, if h = UNDEFINED_POINTER then p else h, idx1) }"
proof -
  have u: "unat (of_nat cap :: u32) = cap" using assms(1) by (intro unat_of_nat32) (auto simp: full_caps_def)
  have i: "idx32 (4 + cap) cap = 4" "idx32 (4 + cap * 2) cap = 4 + cap" "idx32 4 0 = 4" "idx32 (4 + cap) 0 = 4 + cap"
    using assms(1) by (auto simp: idx32_eq full_caps_def)
  have c: "cap < 2048 \<or> cap = 2048" using assms(1,2) by (auto simp: full_caps_def)
  have pos: "cap \<noteq> 0" using assms(1) by (auto simp: full_caps_def)
  show "processTermBuffer junk idx posting t h = do {
      (p, idx1) \<leftarrow> compressAndAppendBlock junk idx posting 4 (4 + cap) cap UNDEFINED_POINTER t;
      Some (p, p, idx1) }" if "reversed idx"
    using c
  proof
    assume "cap < 2048"
    then have "cap div 2048 = 0" "cap mod 2048 = cap" by simp_all
    then show ?thesis using that assms(3,4) pos
      by (simp add: processTermBuffer_def u BP_BLOCK_SIZE_eq i Let_def split: bind_split)
  next
    assume k: "cap = 2048"
    show ?thesis using that assms(3,4) i by (simp add: processTermBuffer_def BP_BLOCK_SIZE_eq Let_def k split: bind_split)
  qed
  show "processTermBuffer junk idx posting t h = do {
      (p, idx1) \<leftarrow> compressAndAppendBlock junk idx posting 4 (4 + cap) cap t UNDEFINED_POINTER;
      Some (p, if h = UNDEFINED_POINTER then p else h, idx1) }" if "\<not> reversed idx"
    using c
  proof
    assume "cap < 2048"
    then have "cap div 2048 = 0" "cap mod 2048 = cap" by simp_all
    then show ?thesis using that assms(3,4) pos
      by (simp add: processTermBuffer_def u BP_BLOCK_SIZE_eq i Let_def split: bind_split)
  next
    assume k: "cap = 2048"
    show ?thesis using that assms(3,4) i by (simp add: processTermBuffer_def BP_BLOCK_SIZE_eq Let_def k split: bind_split)
  qed
qed

lemma process_double:
  assumes "rd posting 0 = Some 4096" "rd posting 1 = Some 4096"
  shows "reversed idx \<Longrightarrow> processTermBuffer junk idx posting t h = do {
      (p, idx1) \<leftarrow> compressAndAppendBlock junk idx posting 4 4100 2048 UNDEFINED_POINTER t;
      (q, idx2) \<leftarrow> compressAndAppendBlock junk idx1 posting 2052 6148 2048 p t;
      Some (if p = UNDEFINED_POINTER then q else p, if p = UNDEFINED_POINTER then q else p, idx2) }"
    and "\<not> reversed idx \<Longrightarrow> processTermBuffer junk idx posting t h = do {
      (p, idx1) \<leftarrow> compressAndAppendBlock junk idx posting 4 4100 2048 t UNDEFINED_POINTER;
      (q, idx2) \<leftarrow> compressAndAppendBlock junk idx1 posting 2052 6148 2048 p UNDEFINED_POINTER;
      let h1 = (if h = UNDEFINED_POINTER then p else h) in
      Some (q, if h1 = UNDEFINED_POINTER then q else h1, idx2) }"
proof -
  have i: "idx32 4100 4096 = 4" "idx32 8196 4096 = 4100" "idx32 4100 2048 = 2052" "idx32 8196 2048 = 6148" "idx32 4 0 = 4" "idx32 4100 0 = 4100"
    "idx32 2052 0 = 2052" "idx32 6148 0 = 6148"
    by (simp_all add: idx32_eq)
  have rb: "reverse_blocks junk idx posting 4096 t UNDEFINED_POINTER UNDEFINED_POINTER 2 = do {
      (p, idx1) \<leftarrow> compressAndAppendBlock junk idx posting 4 4100 2048 UNDEFINED_POINTER t;
      (q, idx2) \<leftarrow> compressAndAppendBlock junk idx1 posting 2052 6148 2048 p t;
      Some (if p = UNDEFINED_POINTER then q else p, idx2) }"
    unfolding numeral_2_eq_2 using i by (simp add: BP_BLOCK_SIZE_eq)
  have fb: "forward_blocks junk idx posting 4096 0 t h 2 = do {
      (p, idx1) \<leftarrow> compressAndAppendBlock junk idx posting 4 4100 2048 t UNDEFINED_POINTER;
      (q, idx2) \<leftarrow> compressAndAppendBlock junk idx1 posting 2052 6148 2048 p UNDEFINED_POINTER;
      let h1 = (if h = UNDEFINED_POINTER then p else h) in
      Some (q, if h1 = UNDEFINED_POINTER then q else h1, idx2) }"
    unfolding numeral_2_eq_2 using i by (simp add: BP_BLOCK_SIZE_eq Let_def)
  show "reversed idx \<Longrightarrow> processTermBuffer junk idx posting t h = do {
      (p, idx1) \<leftarrow> compressAndAppendBlock junk idx posting 4 4100 2048 UNDEFINED_POINTER t;
      (q, idx2) \<leftarrow> compressAndAppendBlock junk idx1 posting 2052 6148 2048 p t;
      Some (if p = UNDEFINED_POINTER then q else p, if p = UNDEFINED_POINTER then q else p, idx2) }"
    using assms rb fb by (simp add: processTermBuffer_def BP_BLOCK_SIZE_eq split: bind_split)
  show "\<not> reversed idx \<Longrightarrow> processTermBuffer junk idx posting t h = do {
      (p, idx1) \<leftarrow> compressAndAppendBlock junk idx posting 4 4100 2048 t UNDEFINED_POINTER;
      (q, idx2) \<leftarrow> compressAndAppendBlock junk idx1 posting 2052 6148 2048 p UNDEFINED_POINTER;
      let h1 = (if h = UNDEFINED_POINTER then p else h) in
      Some (q, if h1 = UNDEFINED_POINTER then q else h1, idx2) }"
    using assms rb fb by (simp add: processTermBuffer_def BP_BLOCK_SIZE_eq split: bind_split)
qed

lemma block_postings_simps [simp]:
  "block_postings [] = []" "block_postings (b # bs) = zip (fst b) (snd b) @ block_postings bs"
  "block_postings (as @ bs) = block_postings as @ block_postings bs"
  by (simp_all add: block_postings_def split_def)

definition processed ::
  "AttrScoreInvertedIndex \<Rightarrow> u64 set \<Rightarrow> u64 list \<Rightarrow> (u32 list \<times> u32 list) list \<Rightarrow> u32 list \<Rightarrow> u32 list \<Rightarrow>
   (u64 \<times> u64 \<times> AttrScoreInvertedIndex) option \<Rightarrow> bool" where
  "processed idx L ps blks X Y res \<longleftrightarrow> (\<exists>t' h' seg' sp' L' ps' blks'. res = Some (t', h', idx \<lparr> segmentBuf := seg', segmentPool := sp' \<rparr>) \<and>
     length seg' = BUFFER_SIZE \<and> pool_good sp' L' \<and> pool_free (segmentPool idx) \<le> pool_free sp' + 8128 \<and>
     chain_state (reversed idx) sp' L' ps' h' t' blks' \<and>
     block_postings blks' = add_run (reversed idx) (zip X Y) (block_postings blks) \<and>
     framed (segmentPool idx) L sp' L' (set ps) \<and> set ps' \<subseteq> set ps \<union> (L' - L))"

lemma processedI:
  assumes "res = Some (t', h', idx \<lparr> segmentBuf := seg', segmentPool := sp' \<rparr>)" "length seg' = BUFFER_SIZE" "pool_good sp' L'"
    "pool_free (segmentPool idx) \<le> pool_free sp' + 8128" "chain_state (reversed idx) sp' L' ps' h' t' blks'"
    "block_postings blks' = add_run (reversed idx) (zip X Y) (block_postings blks)"
    "framed (segmentPool idx) L sp' L' (set ps)" "set ps' \<subseteq> set ps \<union> (L' - L)"
  shows "processed idx L ps blks X Y res"
  unfolding processed_def using assms by blast

lemma processed_single:
  assumes b: "block_ok (reversed idx) X Y" "chunk po 4 (4 + cap) X Y" "length X = cap"
    and cap: "cap \<in> full_caps" "cap \<noteq> 4096" and hd: "rd po 0 = Some (of_nat cap)" "rd po 1 = Some (of_nat cap)"
    and seg: "length (segmentBuf idx) = BUFFER_SIZE" and g: "pool_good (segmentPool idx) L"
    and f: "4064 \<le> pool_free (segmentPool idx)" and c: "chain_state (reversed idx) (segmentPool idx) L ps h t blks"
  shows "processed idx L ps blks X Y (processTermBuffer junk idx po t h)"
proof (cases "reversed idx")
  case True
  then have r: "reversed idx = True" by simp
  obtain p seg' sp' where p:
    "compressAndAppendBlock junk idx po 4 (4 + cap) (length X) UNDEFINED_POINTER t = Some (p, idx \<lparr> segmentBuf := seg', segmentPool := sp' \<rparr>)"
    "length seg' = BUFFER_SIZE" "pool_good sp' (insert p L)" "pool_free (segmentPool idx) \<le> pool_free sp' + 4064" "p \<notin> L"
    "chain_state True sp' (insert p L) (p # ps) p p ((X, Y) # blks)" "framed (segmentPool idx) L sp' (insert p L) {}"
    by (rule reverse_block1 [where junk = junk, OF b(1) [unfolded r] b(2) True seg g f c [unfolded r]])
  show ?thesis
    by (rule processedI [OF _ p(2,3) _ p(6) [folded r] _ framed_weaken [OF p(7)]])
      (use process_single(1) [OF cap hd True] p b(3) r in \<open>auto simp: add_run_def\<close>)
next
  case False
  then have r: "reversed idx = False" by simp
  obtain p seg' sp' where p:
    "compressAndAppendBlock junk idx po 4 (4 + cap) (length X) t UNDEFINED_POINTER = Some (p, idx \<lparr> segmentBuf := seg', segmentPool := sp' \<rparr>)"
    "length seg' = BUFFER_SIZE" "pool_good sp' (insert p L)" "pool_free (segmentPool idx) \<le> pool_free sp' + 4064" "p \<notin> L"
    "chain_state False sp' (insert p L) (ps @ [p]) (if h = UNDEFINED_POINTER then p else h) p (blks @ [(X, Y)])"
    "framed (segmentPool idx) L sp' (insert p L) (set ps)"
    by (rule forward_block [where junk = junk, OF b(1) [unfolded r] b(2) False seg g f c [unfolded r]])
  show ?thesis
    by (rule processedI [OF _ p(2,3) _ p(6) [folded r] _ p(7)])
      (use process_single(2) [OF cap hd False] p b(3) r in \<open>auto simp: add_run_def\<close>)
qed

text \<open>A buffer of 4096 postings becomes two blocks.\<close>

lemma processed_double_reverse:
  assumes r: "reversed idx = True" and hd: "rd po 0 = Some 4096" "rd po 1 = Some 4096"
    and b1: "block_ok True X1 Y1" "chunk po 4 4100 X1 Y1" "length X1 = 2048" "length Y1 = 2048"
    and b2: "block_ok True X2 Y2" "chunk po 2052 6148 X2 Y2" "length X2 = 2048" "length Y2 = 2048"
    and seg: "length (segmentBuf idx) = BUFFER_SIZE" and g: "pool_good (segmentPool idx) L"
    and f: "8128 \<le> pool_free (segmentPool idx)" and c: "chain_state True (segmentPool idx) L ps h t blks"
  shows "processed idx L ps blks (X1 @ X2) (Y1 @ Y2) (processTermBuffer junk idx po t h)"
proof -
  have R: "reversed idx" and f1: "4064 \<le> pool_free (segmentPool idx)" using r f by simp_all
  obtain p seg1 sp1 where p:
    "compressAndAppendBlock junk idx po 4 4100 (length X1) UNDEFINED_POINTER t = Some (p, idx \<lparr> segmentBuf := seg1, segmentPool := sp1 \<rparr>)"
    "length seg1 = BUFFER_SIZE" "pool_good sp1 (insert p L)" "pool_free (segmentPool idx) \<le> pool_free sp1 + 4064" "p \<notin> L"
    "chain_state True sp1 (insert p L) (p # ps) p p ((X1, Y1) # blks)" "nextPointer sp1 p = Some t"
    "framed (segmentPool idx) L sp1 (insert p L) {}"
    by (rule reverse_block1 [where junk = junk, OF b1(1,2) R seg g f1 c])
  define idx1 where "idx1 = idx \<lparr> segmentBuf := seg1, segmentPool := sp1 \<rparr>"
  have i1: "reversed idx1" "length (segmentBuf idx1) = BUFFER_SIZE" "pool_good (segmentPool idx1) (insert p L)"
    "4064 \<le> pool_free (segmentPool idx1)" "nextPointer (segmentPool idx1) p = Some t"
    "chain_state True (segmentPool idx1) (insert p L) (p # ps) p p ((X1, Y1) # blks)"
    using R p f by (simp_all add: idx1_def)
  obtain q seg2 sp2 where q:
    "compressAndAppendBlock junk idx1 po 2052 6148 (length X2) p t = Some (q, idx1 \<lparr> segmentBuf := seg2, segmentPool := sp2 \<rparr>)"
    "length seg2 = BUFFER_SIZE" "pool_good sp2 (insert q (insert p L))" "pool_free (segmentPool idx1) \<le> pool_free sp2 + 4064" "q \<notin> insert p L"
    "chain_state True sp2 (insert q (insert p L)) (p # q # ps) p p ((X1, Y1) # (X2, Y2) # blks)"
    "framed (segmentPool idx1) (insert p L) sp2 (insert q (insert p L)) {p}"
    by (rule reverse_block2 [where junk = junk, OF b2(1,2) i1])
  have fr: "framed (segmentPool idx) L sp2 (insert q (insert p L)) {}"
    using framed_trans [OF p(8) q(7) [unfolded idx1_def, simplified]] p(5) by blast
  have "p \<noteq> UNDEFINED_POINTER" using q(6) by (auto simp: chain_state_def dest!: posting_chain_live)
  then show ?thesis
    by (intro processedI [OF _ q(2,3) _ q(6) [folded r] _ framed_weaken [OF fr]])
      (use process_double(1) [OF hd R] p(1,4,5) q b1(3,4) b2(3,4) R in \<open>auto simp: add_run_def idx1_def\<close>)
qed

lemma processed_double_forward:
  assumes r: "reversed idx = False" and hd: "rd po 0 = Some 4096" "rd po 1 = Some 4096"
    and b1: "block_ok False X1 Y1" "chunk po 4 4100 X1 Y1" "length X1 = 2048" "length Y1 = 2048"
    and b2: "block_ok False X2 Y2" "chunk po 2052 6148 X2 Y2" "length X2 = 2048" "length Y2 = 2048"
    and seg: "length (segmentBuf idx) = BUFFER_SIZE" and g: "pool_good (segmentPool idx) L"
    and f: "8128 \<le> pool_free (segmentPool idx)" and c: "chain_state False (segmentPool idx) L ps h t blks"
  shows "processed idx L ps blks (X1 @ X2) (Y1 @ Y2) (processTermBuffer junk idx po t h)"
proof -
  have F: "\<not> reversed idx" and f1: "4064 \<le> pool_free (segmentPool idx)" using r f by simp_all
  define h1 where "h1 p = (if h = UNDEFINED_POINTER then p else h)" for p
  obtain p seg1 sp1 where p:
    "compressAndAppendBlock junk idx po 4 4100 (length X1) t UNDEFINED_POINTER = Some (p, idx \<lparr> segmentBuf := seg1, segmentPool := sp1 \<rparr>)"
    "length seg1 = BUFFER_SIZE" "pool_good sp1 (insert p L)" "pool_free (segmentPool idx) \<le> pool_free sp1 + 4064" "p \<notin> L"
    "chain_state False sp1 (insert p L) (ps @ [p]) (h1 p) p (blks @ [(X1, Y1)])"
    "framed (segmentPool idx) L sp1 (insert p L) (set ps)"
    unfolding h1_def by (rule forward_block [where junk = junk, OF b1(1,2) F seg g f1 c])
  define idx1 where "idx1 = idx \<lparr> segmentBuf := seg1, segmentPool := sp1 \<rparr>"
  have i1: "\<not> reversed idx1" "length (segmentBuf idx1) = BUFFER_SIZE" "pool_good (segmentPool idx1) (insert p L)"
    "4064 \<le> pool_free (segmentPool idx1)"
    "chain_state False (segmentPool idx1) (insert p L) (ps @ [p]) (h1 p) p (blks @ [(X1, Y1)])"
    using F p f by (simp_all add: idx1_def)
  obtain q seg2 sp2 where q:
    "compressAndAppendBlock junk idx1 po 2052 6148 (length X2) p UNDEFINED_POINTER = Some (q, idx1 \<lparr> segmentBuf := seg2, segmentPool := sp2 \<rparr>)"
    "length seg2 = BUFFER_SIZE" "pool_good sp2 (insert q (insert p L))" "pool_free (segmentPool idx1) \<le> pool_free sp2 + 4064" "q \<notin> insert p L"
    "chain_state False sp2 (insert q (insert p L)) ((ps @ [p]) @ [q]) (if h1 p = UNDEFINED_POINTER then q else h1 p) q ((blks @ [(X1, Y1)]) @ [(X2, Y2)])"
    "framed (segmentPool idx1) (insert p L) sp2 (insert q (insert p L)) (set (ps @ [p]))"
    by (rule forward_block [where junk = junk, OF b2(1,2) i1])
  have fr: "framed (segmentPool idx) L sp2 (insert q (insert p L)) (set ps)"
    using framed_trans [OF p(7) q(7) [unfolded idx1_def, simplified]] p(5) by auto
  show ?thesis
    by (rule processedI [OF _ q(2,3) _ q(6) [folded r] _ fr])
      (use process_double(2) [OF hd F] p(1,4,5) q b1(3,4) b2(3,4) r in \<open>auto simp: add_run_def idx1_def Let_def h1_def\<close>)
qed

lemma process_ok:
  assumes wf: "postings (reversed idx) X" "list_all (\<lambda>x. x < 2 ^ 31) X" "list_all (\<lambda>x. x \<noteq> 0) Y"
    and len: "length X = cap" "length Y = cap" and cap: "cap \<in> full_caps"
    and seg: "length (segmentBuf idx) = BUFFER_SIZE" and g: "pool_good (segmentPool idx) L"
    and f: "8128 \<le> pool_free (segmentPool idx)" and c: "chain_state (reversed idx) (segmentPool idx) L ps h t blks"
  shows "processed idx L ps blks X Y (processTermBuffer junk idx ([of_nat cap, of_nat cap, 0, 0] @ X @ Y) t h)"
proof -
  let ?po = "[of_nat cap, of_nat cap, 0, 0] @ X @ Y"
  have hd: "rd ?po 0 = Some (of_nat cap)" "rd ?po 1 = Some (of_nat cap)" by (simp_all add: rd_def)
  have c4: "cap mod 4 = 0" using cap by (auto simp: full_caps_def)
  have part: "block_ok (reversed idx) (take n (drop i X)) (take n (drop i Y))" "chunk ?po (4 + i) (4 + cap + i) (take n (drop i X)) (take n (drop i Y))"
    "length (take n (drop i X)) = n"
    if "i + n \<le> cap" "n mod 128 = 0" "0 < n" "n \<le> 2048" "i mod 4 = 0" for n i
    using block_part [OF wf, of i n] full_chunk [OF len that(1) c4 that(5)] that len by (simp_all add: BP_BLOCK_SIZE_eq)
  show ?thesis
  proof (cases "cap = 4096")
    case False
    then have k: "cap mod 128 = 0" "0 < cap" "cap \<le> 2048" using cap by (auto simp: full_caps_def)
    from part [of 0 cap] k len have b: "block_ok (reversed idx) X Y" "chunk ?po 4 (4 + cap) X Y" by simp_all
    from f have "4064 \<le> pool_free (segmentPool idx)" by simp
    from processed_single [OF b len(1) cap False hd seg g this c] show ?thesis .
  next
    case True
    then have hd': "rd ?po 0 = Some 4096" "rd ?po 1 = Some 4096" by (simp_all add: rd_def)
    let ?X1 = "take 2048 X" and ?Y1 = "take 2048 Y" and ?X2 = "drop 2048 X" and ?Y2 = "drop 2048 Y"
    have b1: "block_ok (reversed idx) ?X1 ?Y1" "chunk ?po 4 4100 ?X1 ?Y1" "length ?X1 = 2048" "length ?Y1 = 2048"
      using part [of 0 2048] True len by simp_all
    have b2: "block_ok (reversed idx) ?X2 ?Y2" "chunk ?po 2052 6148 ?X2 ?Y2" "length ?X2 = 2048" "length ?Y2 = 2048"
      using part [of 2048 2048] True len by simp_all
    show ?thesis
    proof (cases "reversed idx")
      case r: True
      then have r: "reversed idx = True" by simp
      from processed_double_reverse [OF r hd' b1 [unfolded r] b2 [unfolded r] seg g f c [unfolded r]] show ?thesis by simp
    next
      case r: False
      then have r: "reversed idx = False" by simp
      from processed_double_forward [OF r hd' b1 [unfolded r] b2 [unfolded r] seg g f c [unfolded r]] show ?thesis by simp
    qed
  qed
qed

section \<open>The invariant\<close>

definition term_caps :: "nat set" where
  "term_caps = {16, 32, 64} \<union> full_caps"

text \<open>Postings with ascending docids and scores that are not zero.\<close>

definition wf_postings :: "posting list \<Rightarrow> bool" where
  "wf_postings P \<longleftrightarrow> sorted_wrt (<) (map fst P) \<and> list_all (\<lambda>(d, s). is_docid d \<and> s \<noteq> 0) P"

abbreviation head_of :: "AttrScoreInvertedIndex \<Rightarrow> nat \<Rightarrow> u64" where
  "head_of idx k \<equiv> FixedCounter_get (headPointers (pointers idx)) (of_nat k)"

text \<open>Term \<open>k\<close> has the postings \<open>P\<close>: those in the blocks \<open>ps\<close> and behind them those in its buffer.\<close>

definition term_ok :: "AttrScoreInvertedIndex \<Rightarrow> u64 set \<Rightarrow> nat \<Rightarrow> u64 list \<Rightarrow> posting list \<Rightarrow> bool" where
  "term_ok idx L k ps P \<longleftrightarrow> (\<exists>cap docs scores blks old.
     buffer (bufferMaps idx) ! k = Some (posting_array (reversed idx) cap docs scores) \<and>
     length scores = length docs \<and> length docs < cap \<and> cap \<in> term_caps \<and> P = old @ zip docs scores \<and>
     chain_state (reversed idx) (segmentPool idx) L ps (head_of idx k) (tailPointer (bufferMaps idx) ! k) blks \<and>
     block_postings blks = index_order (reversed idx) old) \<and>
   FixedCounter_get (df (pointers idx)) (of_nat k) = of_nat (length P)"

lemma term_okI:
  assumes "buffer (bufferMaps idx) ! k = Some (posting_array (reversed idx) cap docs scores)"
    "length scores = length docs" "length docs < cap" "cap \<in> term_caps" "P = old @ zip docs scores"
    "chain_state (reversed idx) (segmentPool idx) L ps (head_of idx k) (tailPointer (bufferMaps idx) ! k) blks"
    "block_postings blks = index_order (reversed idx) old" "FixedCounter_get (df (pointers idx)) (of_nat k) = of_nat (length P)"
  shows "term_ok idx L k ps P"
  unfolding term_ok_def
  by (intro conjI exI [of _ cap] exI [of _ docs] exI [of _ scores] exI [of _ blks] exI [of _ old] assms)

lemma term_okE:
  assumes "term_ok idx L k ps P"
  obtains cap docs scores blks old where "buffer (bufferMaps idx) ! k = Some (posting_array (reversed idx) cap docs scores)"
    "length scores = length docs" "length docs < cap" "cap \<in> term_caps" "P = old @ zip docs scores"
    "chain_state (reversed idx) (segmentPool idx) L ps (head_of idx k) (tailPointer (bufferMaps idx) ! k) blks"
    "block_postings blks = index_order (reversed idx) old" "FixedCounter_get (df (pointers idx)) (of_nat k) = of_nat (length P)"
  using assms unfolding term_ok_def by blast

definition unused :: "AttrScoreInvertedIndex \<Rightarrow> nat \<Rightarrow> bool" where
  "unused idx k \<longleftrightarrow> buffer (bufferMaps idx) ! k = None \<and> tailPointer (bufferMaps idx) ! k = UNDEFINED_POINTER \<and>
     head_of idx k = UNDEFINED_POINTER \<and> FixedCounter_get (df (pointers idx)) (of_nat k) = 0"

definition vocab :: "AttrScoreInvertedIndex \<Rightarrow> nat" where
  "vocab idx = length (buffer (bufferMaps idx))"

definition tables_ok :: "AttrScoreInvertedIndex \<Rightarrow> bool" where
  "tables_ok idx \<longleftrightarrow> vocab idx < 2 ^ 32 \<and> flags (bufferMaps idx) = vocab idx \<and> length (tailPointer (bufferMaps idx)) = vocab idx \<and>
     length (counter (df (pointers idx))) = vocab idx \<and> length (counter (cf (pointers idx))) = vocab idx \<and>
     length (counter (headPointers (pointers idx))) = vocab idx \<and>
     defaultValue (headPointers (pointers idx)) = UNDEFINED_POINTER \<and> defaultValue (df (pointers idx)) = 0 \<and>
     length (segmentBuf idx) = BUFFER_SIZE"

definition attr_inv :: "AttrScoreInvertedIndex \<Rightarrow> u64 set \<Rightarrow> u64 list list \<Rightarrow> posting list list \<Rightarrow> bool" where
  "attr_inv idx L pss ts \<longleftrightarrow> tables_ok idx \<and> pool_good (segmentPool idx) L \<and> dict_ok (dictionary idx) \<and>
     length (dictionary idx) = length ts \<and> length pss = length ts \<and> length ts \<le> vocab idx \<and>
     (\<forall>k < length ts. term_ok idx L k (pss ! k) (ts ! k) \<and> wf_postings (ts ! k)) \<and>
     (\<forall>j < length ts. \<forall>k < length ts. j \<noteq> k \<longrightarrow> set (pss ! j) \<inter> set (pss ! k) = {}) \<and>
     (\<forall>k. length ts \<le> k \<and> k < vocab idx \<longrightarrow> unused idx k)"

text \<open>The abstract index and the relation to it.\<close>

type_synonym abs_index = "string \<rightharpoonup> posting list"

definition attr_rep :: "AttrScoreInvertedIndex \<Rightarrow> abs_index \<Rightarrow> bool" where
  "attr_rep idx A \<longleftrightarrow> (\<exists>L pss ts. attr_inv idx L pss ts \<and> A = abs_of (dictionary idx) ts)"

lemma attr_rep_new:
  assumes "0 < n" "4064 \<le> unat m"
  shows "attr_rep (AttrIndex_new junk m n v r) Map.empty"
proof -
  let ?idx = "AttrIndex_new junk m n v r"
  have "tables_ok ?idx"
    using u32_less [of v] by (simp add: tables_ok_def vocab_def AttrIndex_new_def AttrScoreBufferMaps_new_def Pointers_new_def FixedCounter_new_def)
  moreover have "pool_good (segmentPool ?idx) {}"
    using assms store_ok_new [of n m] by (simp add: pool_good_def AttrIndex_new_def SegmentPool_new_def)
  moreover have "unused ?idx k" if "k < vocab ?idx" for k
    using that by (simp add: unused_def vocab_def AttrIndex_new_def AttrScoreBufferMaps_new_def Pointers_new_def)
  ultimately have "attr_inv ?idx {} [] []"
    by (simp add: attr_inv_def AttrIndex_new_def dict_ok_def)
  then show ?thesis unfolding attr_rep_def by (auto simp: abs_of_def AttrIndex_new_def intro!: exI)
qed

section \<open>One posting\<close>

lemma unat_idx3:
  assumes "cap < 2 ^ 29" "n < cap"
  shows "(if r then unat (3 + of_nat cap - of_nat n :: u32) else unat (4 + of_nat n :: u32)) = 4 + (if r then cap - n - 1 else n)"
    and "(if r then unat (3 + 2 * of_nat cap - of_nat n :: u32) else unat (4 + of_nat cap + of_nat n :: u32)) = 4 + cap + (if r then cap - n - 1 else n)"
proof -
  have "(3 + of_nat cap - of_nat n :: u32) = of_nat (3 + cap - n)" "(4 + of_nat n :: u32) = of_nat (4 + n)"
    "(3 + 2 * of_nat cap - of_nat n :: u32) = of_nat (3 + 2 * cap - n)" "(4 + of_nat cap + of_nat n :: u32) = of_nat (4 + cap + n)"
    using assms by (simp_all add: of_nat_diff)
  moreover have "unat (of_nat (3 + cap - n) :: u32) = 3 + cap - n" "unat (of_nat (4 + n) :: u32) = 4 + n"
    "unat (of_nat (3 + 2 * cap - n) :: u32) = 3 + 2 * cap - n" "unat (of_nat (4 + cap + n) :: u32) = 4 + cap + n"
    using assms by (intro unat_of_nat32; simp)+
  ultimately show "(if r then unat (3 + of_nat cap - of_nat n :: u32) else unat (4 + of_nat n :: u32)) = 4 + (if r then cap - n - 1 else n)"
    "(if r then unat (3 + 2 * of_nat cap - of_nat n :: u32) else unat (4 + of_nat cap + of_nat n :: u32)) = 4 + cap + (if r then cap - n - 1 else n)"
    using assms(2) by simp_all
qed

lemma wr_append: "length xs = n \<Longrightarrow> i < length ys \<Longrightarrow> wr (xs @ ys) (n + i) v = Some (xs @ ys[i := v])"
  by (auto simp: wr_def list_update_append)

lemma add_posting_stores:
  assumes "length scores = length docs" "length docs < cap" "cap < 2 ^ 29"
  shows "add_posting r (posting_array r cap docs scores) d s = Some (posting_array r cap (docs @ [d]) (scores @ [s]))"
proof -
  let ?n = "length docs"
  define j where "j = (if r then cap - ?n - 1 else ?n)"
  have j: "j < cap" using assms(2) by (auto simp: j_def)
  have i: "(if r then unat (3 + of_nat cap - of_nat ?n :: u32) else unat (4 + of_nat ?n :: u32)) = 4 + j"
    "(if r then unat (3 + 2 * of_nat cap - of_nat ?n :: u32) else unat (4 + of_nat cap + of_nat ?n :: u32)) = 4 + cap + j"
    using unat_idx3 [OF assms(3,2), of r] by (simp_all only: j_def)
  let ?h = "[of_nat cap, of_nat ?n, 0, 0] :: u32 list"
  have up: "(half r cap docs)[j := d] = half r cap (docs @ [d])" "(half r cap scores)[j := s] = half r cap (scores @ [s])"
    using half_snoc [of docs cap r d] half_snoc [of scores cap r s] assms(1,2) by (simp_all only: j_def)
  have l: "length (half r cap docs) = cap" "length (half r cap scores) = cap" "length (half r cap (docs @ [d])) = cap"
    using assms by simp_all
  have w1: "wr (?h @ half r cap docs @ half r cap scores) (4 + j) d = Some (?h @ half r cap (docs @ [d]) @ half r cap scores)"
    using wr_append [of ?h 4 j "half r cap docs @ half r cap scores" d] j l(1) up(1) by (simp add: list_update_append)
  have w2: "wr (?h @ half r cap (docs @ [d]) @ half r cap scores) (4 + cap + j) s = Some (?h @ half r cap (docs @ [d]) @ half r cap (scores @ [s]))"
    using wr_append [of "?h @ half r cap (docs @ [d])" "4 + cap" j "half r cap scores" s] j l up(2) by simp
  have p: "posting_array r cap docs scores = ?h @ half r cap docs @ half r cap scores" by (simp add: posting_array_def)
  show ?thesis
    unfolding add_posting_def p using w1 w2 by (simp add: rd_def i wr_def [of _ "Suc 0"] posting_array_def add.commute)
qed

text \<open>What a step must leave alone for the other terms.\<close>

lemma chain_state_framed:
  assumes "chain_state r sp L ps h t blks" "framed sp L sp' L' S" "set ps \<inter> S = {}"
  shows "chain_state r sp' L' ps h t blks"
proof -
  from assms(1) obtain bs where "posting_chain sp L ps bs h" "blocks_hold r bs blks"
    "t = (if r then h else if ps = [] then UNDEFINED_POINTER else last ps)" by (auto simp: chain_state_def)
  with assms(2,3) show ?thesis unfolding chain_state_def framed_def by blast
qed

lemma term_ok_frame:
  assumes "term_ok idx L k ps P" "framed (segmentPool idx) L (segmentPool idx') L' S" "set ps \<inter> S = {}"
    "reversed idx' = reversed idx" "buffer (bufferMaps idx') ! k = buffer (bufferMaps idx) ! k"
    "tailPointer (bufferMaps idx') ! k = tailPointer (bufferMaps idx) ! k" "head_of idx' k = head_of idx k"
    "FixedCounter_get (df (pointers idx')) (of_nat k) = FixedCounter_get (df (pointers idx)) (of_nat k)"
  shows "term_ok idx' L' k ps P"
proof -
  obtain cap docs scores blks old where t:
    "buffer (bufferMaps idx) ! k = Some (posting_array (reversed idx) cap docs scores)"
    "length scores = length docs" "length docs < cap" "cap \<in> term_caps" "P = old @ zip docs scores"
    "chain_state (reversed idx) (segmentPool idx) L ps (head_of idx k) (tailPointer (bufferMaps idx) ! k) blks"
    "block_postings blks = index_order (reversed idx) old" "FixedCounter_get (df (pointers idx)) (of_nat k) = of_nat (length P)"
    by (rule term_okE [OF assms(1)])
  from chain_state_framed [OF t(6) assms(2,3)] show ?thesis
    by (intro term_okI [OF _ t(2-5), where blks = blks]) (use t assms(4-) in simp_all)
qed

lemma term_ok_live: "term_ok idx L k ps P \<Longrightarrow> set ps \<subseteq> L"
  by (auto simp: term_ok_def chain_state_def posting_chain_def)

text \<open>A step that changes one term keeps the invariant.\<close>

lemma attr_inv_update:
  assumes inv: "attr_inv idx L pss ts" and k: "k < length ts"
    and same: "tables_ok idx'" "vocab idx' = vocab idx" "dictionary idx' = dictionary idx" "reversed idx' = reversed idx"
    and pool: "pool_good (segmentPool idx') L'" "framed (segmentPool idx) L (segmentPool idx') L' (set (pss ! k))"
    and new: "set ps' \<subseteq> set (pss ! k) \<union> (L' - L)" "term_ok idx' L' k ps' P'" "wf_postings P'"
    and other: "\<And>j. j \<noteq> k \<Longrightarrow> j < vocab idx \<Longrightarrow> buffer (bufferMaps idx') ! j = buffer (bufferMaps idx) ! j \<and>
      tailPointer (bufferMaps idx') ! j = tailPointer (bufferMaps idx) ! j \<and> head_of idx' j = head_of idx j \<and>
      FixedCounter_get (df (pointers idx')) (of_nat j) = FixedCounter_get (df (pointers idx)) (of_nat j)"
  shows "attr_inv idx' L' (pss[k := ps']) (ts[k := P'])"
proof -
  have v: "length ts \<le> vocab idx" "length pss = length ts" using inv by (simp_all add: attr_inv_def)
  have t: "term_ok idx L j (pss ! j) (ts ! j)" "wf_postings (ts ! j)" if "j < length ts" for j
    using inv that by (simp_all add: attr_inv_def)
  have dj: "set (pss ! i) \<inter> set (pss ! j) = {}" if "i < length ts" "j < length ts" "i \<noteq> j" for i j
    using inv that by (simp add: attr_inv_def)
  have "term_ok idx' L' j (pss[k := ps'] ! j) (ts[k := P'] ! j) \<and> wf_postings (ts[k := P'] ! j)" if "j < length ts" for j
  proof (cases "j = k")
    case False
    have "term_ok idx' L' j (pss ! j) (ts ! j)"
      by (rule term_ok_frame [OF t(1) [OF that] pool(2) dj [OF that k False] same(4)]) (use other [OF False] that v in auto)
    with False t(2) [OF that] show ?thesis by simp
  qed (use new k v in simp)
  moreover have "set (pss[k := ps'] ! i) \<inter> set (pss[k := ps'] ! j) = {}" if ij: "i < length ts" "j < length ts" "i \<noteq> j" for i j
  proof -
    have fresh: "set ps' \<inter> set (pss ! j) = {}" if "j < length ts" "j \<noteq> k" for j
      using new(1) dj [OF k that(1)] that(2) term_ok_live [OF t(1) [OF that(1)]] by blast
    show ?thesis using fresh [OF ij(1)] fresh [OF ij(2)] dj [OF ij] ij v by (cases "i = k"; cases "j = k") auto
  qed
  moreover have "unused idx' j" if "length ts \<le> j" "j < vocab idx" for j
    using inv that k other [of j] by (auto simp: attr_inv_def unused_def)
  ultimately show ?thesis
    using inv same pool(1) by (auto simp: attr_inv_def)
qed

lemma term_caps_bound: "cap \<in> term_caps \<Longrightarrow> 0 < cap \<and> cap \<le> 4096"
  by (auto simp: term_caps_def full_caps_def)

lemma wf_postings_append:
  "wf_postings P \<Longrightarrow> is_docid d \<Longrightarrow> s \<noteq> 0 \<Longrightarrow> (\<forall>x \<in> set P. fst x < d) \<Longrightarrow> wf_postings (P @ [(d, s)])"
  by (auto simp: wf_postings_def sorted_wrt_append)

lemma wf_postings_suffix:
  assumes "wf_postings (old @ zip docs scores)" "length scores = length docs"
  shows "postings r (index_order r docs)" "list_all (\<lambda>x. x < 2 ^ 31) (index_order r docs)" "list_all (\<lambda>x. x \<noteq> 0) (index_order r scores)"
proof -
  have m: "map fst (zip docs scores) = docs" "map snd (zip docs scores) = scores" using assms(2) by simp_all
  have "sorted_wrt (<) (map fst old @ map fst (zip docs scores))" using assms(1) by (simp add: wf_postings_def)
  then have "sorted_wrt (<) docs" unfolding m by (simp add: sorted_wrt_append)
  then show "postings r (index_order r docs)"
    by (cases r) (simp_all add: index_order_def postings_def LESS_THAN_def sorted_wrt_rev)
  have w: "list_all (\<lambda>(d, s). is_docid d \<and> s \<noteq> 0) (zip docs scores)" using assms(1) by (simp add: wf_postings_def)
  have "list_all (\<lambda>x. x < 2 ^ 31) (map fst (zip docs scores))" "list_all (\<lambda>x. x \<noteq> 0) (map snd (zip docs scores))"
    using w by (auto simp: list_all_iff)
  then show "list_all (\<lambda>x. x < 2 ^ 31) (index_order r docs)" "list_all (\<lambda>x. x \<noteq> 0) (index_order r scores)"
    unfolding m by (simp_all add: index_order_def list_all_iff)
qed

text \<open>The index after a posting has been put into a buffer: everything but the term's buffer and its counters is as before.\<close>

definition buffered :: "AttrScoreInvertedIndex \<Rightarrow> nat \<Rightarrow> u32 list \<Rightarrow> AttrScoreInvertedIndex" where
  "buffered idx k posting =
     idx \<lparr> bufferMaps := (bufferMaps idx) \<lparr> buffer := (buffer (bufferMaps idx))[k := Some posting] \<rparr>,
           pointers := (pointers idx) \<lparr> df := FixedCounter_increment (df (pointers idx)) (of_nat k),
                                        cf := FixedCounter_increment (cf (pointers idx)) (of_nat k) \<rparr> \<rparr>"

lemma buffered_simps [simp]:
  "segmentPool (buffered idx k a) = segmentPool idx" "reversed (buffered idx k a) = reversed idx"
  "dictionary (buffered idx k a) = dictionary idx" "vocab (buffered idx k a) = vocab idx"
  "tailPointer (bufferMaps (buffered idx k a)) = tailPointer (bufferMaps idx)"
  "headPointers (pointers (buffered idx k a)) = headPointers (pointers idx)"
  "segmentBuf (buffered idx k a) = segmentBuf idx" "flags (bufferMaps (buffered idx k a)) = flags (bufferMaps idx)"
  "buffer (bufferMaps (buffered idx k a)) = (buffer (bufferMaps idx))[k := Some a]"
  "df (pointers (buffered idx k a)) = FixedCounter_increment (df (pointers idx)) (of_nat k)"
  "cf (pointers (buffered idx k a)) = FixedCounter_increment (cf (pointers idx)) (of_nat k)"
  by (simp_all add: buffered_def vocab_def)

lemma buffered_tables: "tables_ok idx \<Longrightarrow> tables_ok (buffered idx k a)"
  by (simp add: tables_ok_def)

lemma buffered_df:
  assumes "tables_ok idx" "k < vocab idx" "j < vocab idx"
  shows "FixedCounter_get (df (pointers (buffered idx k a))) (of_nat j) =
    FixedCounter_get (df (pointers idx)) (of_nat j) + (if j = k then 1 else 0)"
proof -
  have "unat (of_nat k :: u32) = k" using assms(1,2) by (intro unat_of_nat32) (simp add: tables_ok_def)
  then show ?thesis
    using assms of_nat_u32_eq [of j k] by (simp add: FixedCounter_get_increment tables_ok_def)
qed

text \<open>Three ways to go on: the buffer has room, it is enlarged, or it is written out.\<close>

lemma full_buffer_copy:
  assumes "tables_ok idx" "k < vocab idx" "buffer (bufferMaps idx) ! k = Some (posting_array (reversed idx) cap docs scores)"
    "length scores = length docs" "length docs = cap" "cap \<in> {16, 32, 64}"
  shows "full_buffer junk idx (of_nat k) (posting_array (reversed idx) cap docs scores) =
    Some (idx \<lparr> bufferMaps := (bufferMaps idx) \<lparr> buffer := (buffer (bufferMaps idx))[k := Some (posting_array (reversed idx) (2 * cap) docs scores)] \<rparr> \<rparr>)"
proof -
  have u: "unat (of_nat k :: u32) = k" "unat (of_nat cap :: u32) = cap"
    using assms by (auto intro!: unat_of_nat32 simp: tables_ok_def)
  have "docs \<noteq> []" using assms(5,6) by auto
  moreover have "(of_nat cap * of_nat EXPANSION_RATE :: u32) = of_nat (2 * cap)" by (simp add: EXPANSION_RATE_def)
  ultimately show ?thesis
    using resetBuffer_copy [of "2 * cap" "of_nat k" "bufferMaps idx" "reversed idx" cap docs scores] assms u
    by (auto simp: full_buffer_def BLOCK_SIZE_def tables_ok_def vocab_def)
qed

lemma full_buffer_process:
  assumes t: "tables_ok idx" "k < vocab idx" and cap: "cap \<in> full_caps" and len: "length scores = length docs" "length docs = cap"
    and p: "processTermBuffer junk idx (posting_array (reversed idx) cap docs scores) (tailPointer (bufferMaps idx) ! k) (head_of idx k) =
      Some (t', h', idx \<lparr> segmentBuf := seg', segmentPool := sp' \<rparr>)"
  obtains hp where "full_buffer junk idx (of_nat k) (posting_array (reversed idx) cap docs scores) =
      Some (idx \<lparr> segmentBuf := seg', segmentPool := sp', bufferMaps := (bufferMaps idx) \<lparr>
          tailPointer := (tailPointer (bufferMaps idx))[k := t'],
          buffer := (buffer (bufferMaps idx))[k := Some (posting_array (reversed idx) (if cap < 4096 then 2 * cap else cap) [] [])] \<rparr>,
        pointers := (pointers idx) \<lparr> headPointers := hp \<rparr> \<rparr>)"
    "length (counter hp) = vocab idx" "defaultValue hp = UNDEFINED_POINTER"
    "\<forall>j. FixedCounter_get hp j = (if j = of_nat k then h' else FixedCounter_get (headPointers (pointers idx)) j)"
proof -
  have c: "cap \<le> 4096" "128 \<le> cap" using cap by (auto simp: full_caps_def)
  have u: "unat (of_nat k :: u32) = k" "unat (of_nat cap :: u32) = cap"
    using t c by (auto intro!: unat_of_nat32 simp: tables_ok_def)
  have hl: "length (counter (headPointers (pointers idx))) = vocab idx" "defaultValue (headPointers (pointers idx)) = UNDEFINED_POINTER"
    using t(1) by (simp_all add: tables_ok_def)
  obtain hp where hp: "FixedCounter_put (headPointers (pointers idx)) (of_nat k) h' = Some hp" "length (counter hp) = vocab idx"
    "defaultValue hp = UNDEFINED_POINTER"
    "\<forall>j. FixedCounter_get hp j = (if j = of_nat k then h' else FixedCounter_get (headPointers (pointers idx)) j)"
    using FixedCounter_put_ok [of "of_nat k" "headPointers (pointers idx)" h'] hl t(2) u(1) by metis
  have ref: "FixedCounter_ref (headPointers (pointers idx)) (of_nat k) = Some (head_of idx k)"
    using hl t(2) u(1) by (simp add: FixedCounter_ref_def FixedCounter_get_def rd_def)
  define new where "new = (if cap < 4096 then 2 * cap else cap)"
  have n: "(of_nat cap * (if cap < 4096 then 2 else 1) :: u32) = of_nat new" by (simp add: new_def)
  have nb: "new < 2 ^ 29" using c by (simp add: new_def)
  have "resetBuffer ((bufferMaps idx) \<lparr> tailPointer := (tailPointer (bufferMaps idx))[k := t'] \<rparr>) (of_nat k) (of_nat new) (reversed idx) False =
    Some ((bufferMaps idx) \<lparr> tailPointer := (tailPointer (bufferMaps idx))[k := t'],
      buffer := (buffer (bufferMaps idx))[k := Some (posting_array (reversed idx) new [] [])] \<rparr>)"
    using resetBuffer_new [of new "of_nat k" "(bufferMaps idx) \<lparr> tailPointer := (tailPointer (bufferMaps idx))[k := t'] \<rparr>" "reversed idx"]
      t c u nb by (simp add: tables_ok_def vocab_def)
  moreover have "rd (tailPointer (bufferMaps idx)) k = Some (tailPointer (bufferMaps idx) ! k)"
    "wr (tailPointer (bufferMaps idx)) k t' = Some ((tailPointer (bufferMaps idx))[k := t'])"
    using t by (simp_all add: rd_def wr_def tables_ok_def)
  ultimately have "full_buffer junk idx (of_nat k) (posting_array (reversed idx) cap docs scores) =
      Some (idx \<lparr> segmentBuf := seg', segmentPool := sp', bufferMaps := (bufferMaps idx) \<lparr>
          tailPointer := (tailPointer (bufferMaps idx))[k := t'],
          buffer := (buffer (bufferMaps idx))[k := Some (posting_array (reversed idx) new [] [])] \<rparr>,
        pointers := (pointers idx) \<lparr> headPointers := hp \<rparr> \<rparr>)"
    unfolding full_buffer_def
    using p ref hp(1) u c n by (cases "cap < 4096") (simp_all add: BLOCK_SIZE_def MAX_BLOCK_SIZE_def EXPANSION_RATE_def)
  from that [OF this [unfolded new_def] hp(2-4)] show thesis .
qed

text \<open>The effect of one more posting of term \<open>k\<close> on the state the postings describe.\<close>

definition stored :: "AttrScoreInvertedIndex \<Rightarrow> nat \<Rightarrow> posting list list \<Rightarrow> AttrScoreInvertedIndex \<Rightarrow> bool" where
  "stored idx k ts idx' \<longleftrightarrow> (\<exists>L' pss'. attr_inv idx' L' pss' ts) \<and> dictionary idx' = dictionary idx \<and>
     reversed idx' = reversed idx \<and> vocab idx' = vocab idx \<and> totalDocs (pointers idx') = totalDocs (pointers idx) \<and>
     pool_free (segmentPool idx) \<le> pool_free (segmentPool idx') + 8128"

lemma store_posting_eq:
  assumes "unat (of_nat k :: u32) = k" "k < vocab idx" "buffer (bufferMaps idx) ! k = Some (posting_array (reversed idx) cap docs scores)"
    "length scores = length docs" "length docs < cap" "cap \<le> 4096"
  shows "store_posting junk idx (of_nat k) d s =
    (let a = posting_array (reversed idx) cap (docs @ [d]) (scores @ [s]) in
     if Suc (length docs) = cap then full_buffer junk (buffered idx k a) (of_nat k) a else Some (buffered idx k a))"
proof -
  let ?a = "posting_array (reversed idx) cap (docs @ [d]) (scores @ [s])"
  have "add_posting (reversed idx) (posting_array (reversed idx) cap docs scores) d s = Some ?a"
    using add_posting_stores [OF assms(4,5)] assms(6) by simp
  moreover have "rd ?a 0 = Some (of_nat cap)" "rd ?a 1 = Some (of_nat (Suc (length docs)))"
    by (simp_all add: posting_array_def rd_def)
  moreover have "(of_nat cap :: u32) = of_nat (Suc (length docs)) \<longleftrightarrow> Suc (length docs) = cap"
    using of_nat_u32_eq [of cap "Suc (length docs)"] assms(5,6) by auto
  ultimately show ?thesis
    using assms(1-3) by (simp add: store_posting_def buffer_of_def rd_def vocab_def buffered_def Let_def)
qed

lemma buffered_df_length:
  assumes "tables_ok idx" "k < vocab idx" "FixedCounter_get (df (pointers idx)) (of_nat k) = of_nat (length P)"
  shows "FixedCounter_get (FixedCounter_increment (df (pointers idx)) (of_nat k)) (of_nat k) = of_nat (length (P @ [x]))"
  using buffered_df [OF assms(1,2,2), of undefined] assms(3) by simp

text \<open>The posting is in the buffer, which has grown to \<open>cap'\<close>.\<close>

lemma stored_in_buffer:
  assumes inv: "attr_inv idx L pss ts" and k: "k < length ts" and wf: "wf_postings (ts ! k @ [(d, s)])"
    and t: "length scores = length docs" "cap' \<in> term_caps" "Suc (length docs) < cap'" "ts ! k = old @ zip docs scores"
      "chain_state (reversed idx) (segmentPool idx) L (pss ! k) (head_of idx k) (tailPointer (bufferMaps idx) ! k) blks"
      "block_postings blks = index_order (reversed idx) old"
  shows "stored idx k (ts[k := ts ! k @ [(d, s)]]) (buffered idx k (posting_array (reversed idx) cap' (docs @ [d]) (scores @ [s])))"
proof -
  let ?a = "posting_array (reversed idx) cap' (docs @ [d]) (scores @ [s])"
  let ?idx = "buffered idx k ?a"
  have tb: "tables_ok idx" "k < vocab idx" "pool_good (segmentPool idx) L" and to: "term_ok idx L k (pss ! k) (ts ! k)"
    using inv k by (auto simp: attr_inv_def)
  have "FixedCounter_get (df (pointers idx)) (of_nat k) = of_nat (length (ts ! k))" using to by (rule term_okE)
  note df = buffered_df_length [OF tb(1,2) this]
  have "term_ok ?idx L k (pss ! k) (ts ! k @ [(d, s)])"
    by (rule term_okI [where cap = cap' and docs = "docs @ [d]" and scores = "scores @ [s]" and old = old and blks = blks])
      (use t tb df in \<open>simp_all add: vocab_def\<close>)
  from attr_inv_update [OF inv k buffered_tables [OF tb(1)] _ _ _ _ _ _ this wf]
  have "attr_inv ?idx L (pss[k := pss ! k]) (ts[k := ts ! k @ [(d, s)]])"
    using tb buffered_df [OF tb(1,2)] framed_refl by simp
  then show ?thesis by (auto simp: stored_def buffered_def vocab_def)
qed

text \<open>The buffer is full and its postings are in the chain.\<close>

lemma stored_in_chain:
  assumes inv: "attr_inv idx L pss ts" and k: "k < length ts" and wf: "wf_postings (ts ! k @ [(d, s)])"
    and free: "8128 \<le> pool_free (segmentPool idx)"
    and t: "length scores = length docs" "cap \<in> full_caps" "Suc (length docs) = cap" "ts ! k = old @ zip docs scores"
      "chain_state (reversed idx) (segmentPool idx) L (pss ! k) (head_of idx k) (tailPointer (bufferMaps idx) ! k) blks"
      "block_postings blks = index_order (reversed idx) old"
    and a: "a = posting_array (reversed idx) cap (docs @ [d]) (scores @ [s])"
  shows "\<exists>idx'. full_buffer junk (buffered idx k a) (of_nat k) a = Some idx' \<and> stored idx k (ts[k := ts ! k @ [(d, s)]]) idx'"
proof -
  let ?r = "reversed idx" and ?P = "ts ! k @ [(d, s)]" and ?idx = "buffered idx k a"
  let ?X = "index_order ?r (docs @ [d])" and ?Y = "index_order ?r (scores @ [s])"
  have tb: "tables_ok idx" "k < vocab idx" "pool_good (segmentPool idx) L" and to: "term_ok idx L k (pss ! k) (ts ! k)"
    using inv k by (auto simp: attr_inv_def)
  have tb': "tables_ok ?idx" "k < vocab ?idx" using tb buffered_tables by simp_all
  have P: "?P = old @ zip (docs @ [d]) (scores @ [s])" using t(1,4) by simp
  have arr: "a = [of_nat cap, of_nat cap, 0, 0] @ ?X @ ?Y"
    using t(1,3) by (auto simp: a posting_array_def half_full index_order_def)
  have X: "postings ?r ?X" "list_all (\<lambda>x. x < 2 ^ 31) ?X" "list_all (\<lambda>x. x \<noteq> 0) ?Y"
    using wf_postings_suffix [OF wf [unfolded P]] t(1) by simp_all
  have pre: "postings (reversed ?idx) ?X" "list_all (\<lambda>x. x < 2 ^ 31) ?X" "list_all (\<lambda>x. x \<noteq> 0) ?Y" "length ?X = cap" "length ?Y = cap"
    "cap \<in> full_caps" "length (segmentBuf ?idx) = BUFFER_SIZE" "pool_good (segmentPool ?idx) L" "8128 \<le> pool_free (segmentPool ?idx)"
    "chain_state (reversed ?idx) (segmentPool ?idx) L (pss ! k) (head_of ?idx k) (tailPointer (bufferMaps ?idx) ! k) blks"
    using X tb free t by (simp_all add: index_order_def tables_ok_def)
  obtain t' h' seg' sp' L' ps' blks' where pr:
    "processTermBuffer junk ?idx a (tailPointer (bufferMaps ?idx) ! k) (head_of ?idx k) =
      Some (t', h', ?idx \<lparr> segmentBuf := seg', segmentPool := sp' \<rparr>)"
    "length seg' = BUFFER_SIZE" "pool_good sp' L'" "pool_free (segmentPool idx) \<le> pool_free sp' + 8128"
    "chain_state ?r sp' L' ps' h' t' blks'" "block_postings blks' = add_run ?r (zip ?X ?Y) (block_postings blks)"
    "framed (segmentPool idx) L sp' L' (set (pss ! k))" "set ps' \<subseteq> set (pss ! k) \<union> (L' - L)"
    using process_ok [of ?idx ?X ?Y cap L "pss ! k" "head_of ?idx k" "tailPointer (bufferMaps ?idx) ! k" blks junk, folded arr] pre by (auto simp: processed_def)
  have l2: "length (scores @ [s]) = length (docs @ [d])" "length (docs @ [d]) = cap" using t by simp_all
  have a2: "a = posting_array (reversed ?idx) cap (docs @ [d]) (scores @ [s])" by (simp add: a)
  obtain hp where full: "full_buffer junk ?idx (of_nat k) a =
      Some (?idx \<lparr> segmentBuf := seg', segmentPool := sp', bufferMaps := (bufferMaps ?idx) \<lparr>
          tailPointer := (tailPointer (bufferMaps ?idx))[k := t'],
          buffer := (buffer (bufferMaps ?idx))[k := Some (posting_array (reversed ?idx) (if cap < 4096 then 2 * cap else cap) [] [])] \<rparr>,
        pointers := (pointers ?idx) \<lparr> headPointers := hp \<rparr> \<rparr>)"
    "length (counter hp) = vocab ?idx" "defaultValue hp = UNDEFINED_POINTER"
    "\<forall>j. FixedCounter_get hp j = (if j = of_nat k then h' else FixedCounter_get (headPointers (pointers ?idx)) j)"
    by (rule full_buffer_process [OF tb' t(2) l2, folded a2, OF pr(1)])
  define idx' where "idx' = ?idx \<lparr> segmentBuf := seg', segmentPool := sp', bufferMaps := (bufferMaps ?idx) \<lparr>
          tailPointer := (tailPointer (bufferMaps ?idx))[k := t'],
          buffer := (buffer (bufferMaps ?idx))[k := Some (posting_array (reversed ?idx) (if cap < 4096 then 2 * cap else cap) [] [])] \<rparr>,
        pointers := (pointers ?idx) \<lparr> headPointers := hp \<rparr> \<rparr>"
  have df: "FixedCounter_get (df (pointers idx')) (of_nat j) = FixedCounter_get (df (pointers idx)) (of_nat j) + (if j = k then 1 else 0)"
    if "j < vocab idx" for j
    using buffered_df [OF tb(1,2) that] by (simp add: idx'_def)
  have hd: "head_of idx' j = (if j = k then h' else head_of idx j)" if "j < vocab idx" for j
    using full(4) of_nat_u32_eq [of j k] that tb(1,2) by (simp add: idx'_def tables_ok_def)
  have tb'': "tables_ok idx'" "vocab idx' = vocab idx"
    using tb' full(2,3) pr(2) by (simp_all add: idx'_def tables_ok_def vocab_def)
  have len: "length (buffer (bufferMaps idx)) = vocab idx" "length (tailPointer (bufferMaps idx)) = vocab idx"
    using tb(1) by (simp_all add: tables_ok_def vocab_def)
  have run: "block_postings blks' = index_order ?r ?P"
    using pr(6) t(1,6) P by (auto simp: add_run_def index_order_def zip_rev)
  have "FixedCounter_get (df (pointers idx)) (of_nat k) = of_nat (length (ts ! k))" using to by (rule term_okE)
  then have "term_ok idx' L' k ps' ?P"
    by (intro term_okI [where cap = "if cap < 4096 then 2 * cap else cap" and docs = "[]" and scores = "[]" and old = ?P and blks = blks'])
      (use t pr(5) tb(2) run hd [OF tb(2)] df [OF tb(2)] len in \<open>auto simp: idx'_def term_caps_def full_caps_def\<close>)
  from attr_inv_update [OF inv k tb'' _ _ _ _ pr(8) this wf]
  have "attr_inv idx' L' (pss[k := ps']) (ts[k := ?P])"
    using pr(3,7) df hd by (simp add: idx'_def)
  moreover have "dictionary idx' = dictionary idx" "reversed idx' = ?r" "totalDocs (pointers idx') = totalDocs (pointers idx)"
    "segmentPool idx' = sp'"
    by (simp_all add: idx'_def buffered_def)
  ultimately have "stored idx k (ts[k := ?P]) idx'" using tb''(2) pr(4) by (auto simp: stored_def)
  with full(1) show ?thesis by (simp only: idx'_def) blast
qed

lemma store_posting_ok:
  assumes inv: "attr_inv idx L pss ts" and k: "k < length ts" and d: "is_docid d" "s \<noteq> 0" "\<forall>x \<in> set (ts ! k). fst x < d"
    and free: "8128 \<le> pool_free (segmentPool idx)"
  shows "\<exists>idx'. store_posting junk idx (of_nat k) d s = Some idx' \<and> stored idx k (ts[k := ts ! k @ [(d, s)]]) idx'"
proof -
  have tb: "tables_ok idx" "k < vocab idx" and to: "term_ok idx L k (pss ! k) (ts ! k)" and "wf_postings (ts ! k)"
    using inv k by (auto simp: attr_inv_def)
  then have wf: "wf_postings (ts ! k @ [(d, s)])" using d wf_postings_append by blast
  have u: "unat (of_nat k :: u32) = k" using tb by (intro unat_of_nat32) (simp add: tables_ok_def)
  obtain cap docs scores blks old where t:
    "buffer (bufferMaps idx) ! k = Some (posting_array (reversed idx) cap docs scores)"
    "length scores = length docs" "length docs < cap" "cap \<in> term_caps" "ts ! k = old @ zip docs scores"
    "chain_state (reversed idx) (segmentPool idx) L (pss ! k) (head_of idx k) (tailPointer (bufferMaps idx) ! k) blks"
    "block_postings blks = index_order (reversed idx) old"
    by (rule term_okE [OF to])
  define a where "a = posting_array (reversed idx) cap (docs @ [d]) (scores @ [s])"
  have eq: "store_posting junk idx (of_nat k) d s =
      (if Suc (length docs) = cap then full_buffer junk (buffered idx k a) (of_nat k) a else Some (buffered idx k a))"
    using store_posting_eq [OF u tb(2) t(1-3)] term_caps_bound [OF t(4)] by (simp add: a_def Let_def)
  note in_buffer = stored_in_buffer [OF inv k wf t(2) _ _ t(5-7)]
  consider (room) "Suc (length docs) \<noteq> cap" | (small) "Suc (length docs) = cap" "cap \<in> {16, 32, 64}"
    | (full) "Suc (length docs) = cap" "cap \<in> full_caps"
    using t(4) by (auto simp: term_caps_def)
  then show ?thesis
  proof cases
    case room
    with in_buffer [OF t(4)] t(3) show ?thesis by (simp add: eq a_def)
  next
    case small
    let ?b = "posting_array (reversed idx) (2 * cap) (docs @ [d]) (scores @ [s])"
    have "full_buffer junk (buffered idx k a) (of_nat k) a = Some (buffered idx k ?b)"
      using full_buffer_copy [OF buffered_tables [OF tb(1)], of k k a cap "docs @ [d]" "scores @ [s]" junk] tb(2) t(2) small
      by (simp add: a_def buffered_def vocab_def)
    moreover have "2 * cap \<in> term_caps" "Suc (length docs) < 2 * cap" using small by (auto simp: term_caps_def full_caps_def)
    ultimately show ?thesis using in_buffer [of "2 * cap"] small by (simp add: eq)
  next
    case full
    from stored_in_chain [OF inv k wf free t(2) full(2,1) t(5-7) a_def] full(1) show ?thesis by (simp add: eq)
  qed
qed

section \<open>Refinement of the abstract index\<close>

text \<open>The abstract index appends the posting to the word's list; a word that is new is left out when the dictionary's
  table takes no more words.\<close>

definition abs_insert :: "(nat \<Rightarrow> bool) \<Rightarrow> u32 \<Rightarrow> string \<Rightarrow> u32 \<Rightarrow> abs_index \<Rightarrow> abs_index" where
  "abs_insert accepts d wrd s A =
     (if wrd \<in> dom A \<or> accepts (card (dom A)) then A(wrd \<mapsto> (case A wrd of None \<Rightarrow> [] | Some P \<Rightarrow> P) @ [(d, s)]) else A)"

text \<open>A term that is new gets the next number and a buffer of 16 postings.\<close>

lemma ensure_new:
  assumes inv: "attr_inv idx L pss ts" and v: "length ts < vocab idx" and dic: "dict_ok dic" "length dic = Suc (length ts)"
  shows "\<exists>idx'. ensure_buffer (idx \<lparr> dictionary := dic \<rparr>) (of_nat (length ts)) = Some idx' \<and>
    attr_inv idx' L (pss @ [[]]) (ts @ [[]]) \<and> dictionary idx' = dic \<and> reversed idx' = reversed idx \<and> vocab idx' = vocab idx \<and>
    pointers idx' = pointers idx \<and> segmentPool idx' = segmentPool idx"
proof -
  let ?k = "length ts"
  have tb: "tables_ok idx" "pool_good (segmentPool idx) L" "length pss = ?k" and un: "\<And>j. ?k \<le> j \<Longrightarrow> j < vocab idx \<Longrightarrow> unused idx j"
    and t: "\<And>j. j < ?k \<Longrightarrow> term_ok idx L j (pss ! j) (ts ! j) \<and> wf_postings (ts ! j)"
    and dj: "\<And>i j. i < ?k \<Longrightarrow> j < ?k \<Longrightarrow> i \<noteq> j \<Longrightarrow> set (pss ! i) \<inter> set (pss ! j) = {}"
    using inv by (auto simp: attr_inv_def)
  have u: "unat (of_nat ?k :: u32) = ?k" using v tb(1) by (intro unat_of_nat32) (simp add: tables_ok_def)
  define idx' where "idx' = idx \<lparr> dictionary := dic, bufferMaps := (bufferMaps idx) \<lparr> buffer :=
      (buffer (bufferMaps idx))[?k := Some (posting_array (reversed idx) 16 [] [])] \<rparr> \<rparr>"
  have "buffer (bufferMaps idx) ! ?k = None" using un [of ?k] v by (simp add: unused_def)
  then have "ensure_buffer (idx \<lparr> dictionary := dic \<rparr>) (of_nat ?k) = Some idx'"
    using resetBuffer_new [of 16 "of_nat ?k" "bufferMaps idx" "reversed idx"] tb(1) v u
    by (simp add: ensure_buffer_def buffer_of_def rd_def vocab_def DF_CUTOFF_def tables_ok_def idx'_def)
  moreover have same: "tables_ok idx'" "vocab idx' = vocab idx" "segmentPool idx' = segmentPool idx" "reversed idx' = reversed idx"
      "dictionary idx' = dic" "pointers idx' = pointers idx" "tailPointer (bufferMaps idx') = tailPointer (bufferMaps idx)"
      "buffer (bufferMaps idx') = (buffer (bufferMaps idx))[?k := Some (posting_array (reversed idx) 16 [] [])]"
    using tb(1) by (simp_all add: idx'_def tables_ok_def vocab_def)
  moreover have "attr_inv idx' L (pss @ [[]]) (ts @ [[]])"
  proof -
    have old: "term_ok idx' L j (pss ! j) (ts ! j)" if "j < ?k" for j
      by (rule term_ok_frame [where S = "{}" and idx = idx and L = L]) (use t [OF that] that same framed_refl in auto)
    have "chain_state (reversed idx) (segmentPool idx) L [] UNDEFINED_POINTER UNDEFINED_POINTER []"
      using tb(2) by (simp add: chain_state_def posting_chain_def blocks_hold_def pool_good_def)
    then have new: "term_ok idx' L ?k [] []"
      by (intro term_okI [where cap = 16 and docs = "[]" and scores = "[]" and old = "[]" and blks = "[]"])
        (use un [of ?k] v same in \<open>auto simp: unused_def term_caps_def index_order_def vocab_def\<close>)
    have rest: "unused idx' j" if "Suc ?k \<le> j" "j < vocab idx" for j
      using un [of j] that same by (simp add: unused_def)
    have "wf_postings []" by (simp add: wf_postings_def)
    then show ?thesis
      unfolding attr_inv_def using same(1-3,5) tb(2,3) dic v
      by (auto simp: nth_append less_Suc_eq old new t rest dj)
  qed
  ultimately show ?thesis by (intro exI [of _ idx']) simp
qed

text \<open>What an operation that stores \<open>n\<close> postings leaves as it is, and the space of the pool it uses at most.\<close>

definition index_kept :: "nat \<Rightarrow> AttrScoreInvertedIndex \<Rightarrow> AttrScoreInvertedIndex \<Rightarrow> bool" where
  "index_kept n idx idx' \<longleftrightarrow> reversed idx' = reversed idx \<and> vocab idx' = vocab idx \<and> totalDocs (pointers idx') = totalDocs (pointers idx) \<and>
     pool_free (segmentPool idx) \<le> pool_free (segmentPool idx') + 8128 * n"

lemma index_kept_refl: "index_kept n idx idx"
  by (simp add: index_kept_def)

lemma index_kept_trans: "index_kept m idx idx1 \<Longrightarrow> index_kept n idx1 idx2 \<Longrightarrow> index_kept (m + n) idx idx2"
  by (simp add: index_kept_def)

lemma store_refines:
  assumes inv: "attr_inv idx L pss ts" and i: "map_of (dictionary idx) wrd = Some i" and d: "is_docid d" "s \<noteq> 0"
    "\<forall>x \<in> set (ts ! unat i). fst x < d" and free: "8128 \<le> pool_free (segmentPool idx)"
  shows "\<exists>idx'. store_posting junk idx i d s = Some idx' \<and> index_kept 1 idx idx' \<and>
    attr_rep idx' ((abs_of (dictionary idx) ts)(wrd \<mapsto> ts ! unat i @ [(d, s)]))"
proof -
  have dic: "dict_ok (dictionary idx)" "length ts = length (dictionary idx)" using inv by (simp_all add: attr_inv_def)
  have k: "unat i < length ts" using dict_ok_map_of(1) [OF dic(1) i] dic(2) by simp
  from store_posting_ok [OF inv k d free, of junk] obtain idx' where
    "store_posting junk idx i d s = Some idx'" "stored idx (unat i) (ts[unat i := ts ! unat i @ [(d, s)]]) idx'" by auto
  moreover from this(2) have "attr_rep idx' (abs_of (dictionary idx) (ts[unat i := ts ! unat i @ [(d, s)]]))"
    by (auto simp: stored_def attr_rep_def)
  ultimately show ?thesis using abs_of_update [OF dic(1) i, of ts] dic(2) by (auto simp: stored_def index_kept_def)
qed

lemma abs_insert_fit:
  assumes "words_fit W v (dom A)" "wrd \<in> W" shows "words_fit W v (dom (abs_insert accepts d wrd s A))"
  by (rule words_fit_mono [OF assms(1)]) (use assms(2) in \<open>auto simp: abs_insert_def\<close>)

lemma insert_term_refines:
  assumes rep: "attr_rep idx A" and fit: "words_fit W (vocab idx) (dom A)" "wrd \<in> W" and d: "is_docid d" "s \<noteq> 0"
    "\<forall>P. A wrd = Some P \<longrightarrow> (\<forall>x \<in> set P. fst x < d)" and free: "8128 \<le> pool_free (segmentPool idx)"
  shows "\<exists>idx'. insert_term junk accepts idx d wrd s = Some idx' \<and> index_kept 1 idx idx' \<and> attr_rep idx' (abs_insert accepts d wrd s A)"
proof -
  obtain L pss ts where inv: "attr_inv idx L pss ts" and A: "A = abs_of (dictionary idx) ts" using rep by (auto simp: attr_rep_def)
  have dic: "dict_ok (dictionary idx)" "length (dictionary idx) = length ts" "vocab idx < 2 ^ 32" "length ts \<le> vocab idx"
    using inv by (simp_all add: attr_inv_def tables_ok_def)
  have c: "card (dom A) = length ts" using card_dom_abs_of [OF dic(1), of ts] dic(2) A by simp
  have acc: "length (dictionary idx) < vocab idx" if "map_of (dictionary idx) wrd = None"
    using words_fit_card [OF fit] that c dic(2) by (auto simp: A abs_of_def domIff)
  then have acc': "length (dictionary idx) < 2 ^ 32 - 1" if "map_of (dictionary idx) wrd = None" using that dic(3) by fastforce
  show ?thesis
  proof (rule insertTerm_cases [OF dic(1) acc', of accepts wrd])
    fix i assume i: "map_of (dictionary idx) wrd = Some i" "insertTerm accepts (dictionary idx) wrd = (i, dictionary idx)"
    have k: "unat i < length ts" using dict_ok_map_of(1) [OF dic(1) i(1)] dic(2) by simp
    then obtain a where "buffer (bufferMaps idx) ! unat i = Some a" "unat i < vocab idx"
      using inv dic(4) by (auto simp: attr_inv_def elim!: term_okE)
    then have e: "ensure_buffer idx i = Some idx" by (simp add: ensure_buffer_def buffer_of_def rd_def vocab_def)
    have w: "A wrd = Some (ts ! unat i)" using i(1) by (simp add: A abs_of_def)
    have "i \<noteq> INVALID_ID" using k dic(3,4) by (auto simp: INVALID_ID_def)
    with e store_refines [OF inv i(1) d(1,2) _ free] d(3) w i(2) show ?thesis
      by (auto simp: insert_term_def abs_insert_def A)
  next
    assume new: "map_of (dictionary idx) wrd = None" "accepts (length (dictionary idx))"
      "insertTerm accepts (dictionary idx) wrd = (of_nat (length (dictionary idx)), dictionary idx @ [(wrd, of_nat (length (dictionary idx)))])"
      "dict_ok (dictionary idx @ [(wrd, of_nat (length (dictionary idx)))])"
    let ?d = "dictionary idx @ [(wrd, of_nat (length ts))]"
    have v: "length ts < vocab idx" "length ts < 2 ^ 32 - 1" using acc acc' new(1) dic(2) by auto
    obtain idx1 where e: "ensure_buffer (idx \<lparr> dictionary := ?d \<rparr>) (of_nat (length ts)) = Some idx1"
      "attr_inv idx1 L (pss @ [[]]) (ts @ [[]])" "dictionary idx1 = ?d" "reversed idx1 = reversed idx" "vocab idx1 = vocab idx"
      "pointers idx1 = pointers idx" "segmentPool idx1 = segmentPool idx"
      using ensure_new [OF inv v(1), of ?d] new(4) dic(2) by auto
    have u: "unat (of_nat (length ts) :: u32) = length ts" using v by (intro unat_of_nat32) simp
    then have "(of_nat (length ts) :: u32) \<noteq> INVALID_ID" using v by (auto simp: INVALID_ID_def)
    moreover have "map_of (dictionary idx1) wrd = Some (of_nat (length ts))" using new(1) e(3) by (simp add: map_add_def)
    from store_refines [OF e(2) this d(1,2), of junk] free e u
    obtain idx' where "store_posting junk idx1 (of_nat (length ts)) d s = Some idx'" "index_kept 1 idx1 idx'"
      "attr_rep idx' ((abs_of ?d (ts @ [[]]))(wrd \<mapsto> [(d, s)]))" by auto
    moreover have "abs_of ?d (ts @ [[]]) = A(wrd \<mapsto> [])" using abs_of_new [OF dic(1) new(1), of "ts @ [[]]"] abs_of_longer [OF dic(1), of ts] dic(2) A by (simp add: nth_append)
    moreover have "A wrd = None" using new(1) by (simp add: A abs_of_def)
    ultimately show ?thesis using e new(2,3) dic(2) c by (auto simp: insert_term_def abs_insert_def index_kept_def)
  next
    assume "map_of (dictionary idx) wrd = None" "\<not> accepts (length (dictionary idx))"
      "insertTerm accepts (dictionary idx) wrd = (INVALID_ID, dictionary idx)"
    moreover from this(1) have "A wrd = None" by (simp add: A abs_of_def)
    ultimately show ?thesis using rep dic(2) c by (auto simp: insert_term_def abs_insert_def index_kept_refl)
  qed
qed

text \<open>A document, and a run of documents.\<close>

definition abs_doc :: "(nat \<Rightarrow> bool) \<Rightarrow> u32 \<Rightarrow> string list \<Rightarrow> u32 list \<Rightarrow> abs_index \<Rightarrow> abs_index" where
  "abs_doc accepts d tms scores A = fold (\<lambda>(wrd, s). abs_insert accepts d wrd s) (zip tms scores) A"

lemma insert_terms_refines:
  assumes "attr_rep idx A" "words_fit W (vocab idx) (dom A)" "set tms \<subseteq> W" "is_docid d" "list_all (\<lambda>s. s \<noteq> 0) scores"
    "length scores = length tms" "distinct tms" "\<forall>wrd \<in> set tms. \<forall>P. A wrd = Some P \<longrightarrow> (\<forall>x \<in> set P. fst x < d)"
    "8128 * length tms \<le> pool_free (segmentPool idx)"
  shows "\<exists>idx'. insert_terms junk accepts idx d tms scores = Some idx' \<and> index_kept (length tms) idx idx' \<and>
    attr_rep idx' (abs_doc accepts d tms scores A) \<and> words_fit W (vocab idx') (dom (abs_doc accepts d tms scores A))"
  using assms
proof (induction tms arbitrary: idx A scores)
  case (Cons tm tms)
  from Cons.prems(6) obtain s ss where s: "scores = s # ss" "length ss = length tms" by (cases scores) auto
  have tm: "tm \<in> W" "set tms \<subseteq> W" using Cons.prems(3) by simp_all
  from insert_term_refines [OF Cons.prems(1,2) tm(1) Cons.prems(4), of s junk accepts] Cons.prems s
  obtain idx1 where i: "insert_term junk accepts idx d tm s = Some idx1" "index_kept 1 idx idx1"
    "attr_rep idx1 (abs_insert accepts d tm s A)" by auto
  have "\<forall>wrd \<in> set tms. \<forall>P. abs_insert accepts d tm s A wrd = Some P \<longrightarrow> (\<forall>x \<in> set P. fst x < d)"
    using Cons.prems(7,8) by (auto simp: abs_insert_def split: if_splits)
  moreover have "words_fit W (vocab idx1) (dom (abs_insert accepts d tm s A))" "8128 * length tms \<le> pool_free (segmentPool idx1)"
    using i(2) Cons.prems(9) abs_insert_fit [OF Cons.prems(2) tm(1)] by (auto simp: index_kept_def)
  ultimately obtain idx2 where "insert_terms junk accepts idx1 d tms ss = Some idx2" "index_kept (length tms) idx1 idx2"
    "attr_rep idx2 (abs_doc accepts d tms ss (abs_insert accepts d tm s A))"
    "words_fit W (vocab idx2) (dom (abs_doc accepts d tms ss (abs_insert accepts d tm s A)))"
    using Cons.IH [OF i(3) _ tm(2), of ss] Cons.prems(4,5,7) s by auto
  with i index_kept_trans [OF i(2)] show ?case by (auto simp: s(1) abs_doc_def)
qed (simp add: abs_doc_def index_kept_refl)

lemma attr_rep_totalDocs: "attr_rep (idx \<lparr> pointers := (pointers idx) \<lparr> totalDocs := n \<rparr> \<rparr>) A = attr_rep idx A"
  by (simp add: attr_rep_def attr_inv_def tables_ok_def vocab_def unused_def term_ok_def)

type_synonym document = "u32 \<times> string list \<times> u32 list"

fun doc_ok :: "document \<Rightarrow> bool" where
  "doc_ok (d, tms, scores) \<longleftrightarrow> is_docid d \<and> distinct tms \<and> length scores = length tms \<and> list_all (\<lambda>s. s \<noteq> 0) scores"

definition newer :: "u32 \<Rightarrow> abs_index \<Rightarrow> bool" where
  "newer d A \<longleftrightarrow> (\<forall>P \<in> ran A. \<forall>x \<in> set P. fst x < d)"

primrec insert_docs :: "(nat \<Rightarrow> u32) \<Rightarrow> (nat \<Rightarrow> bool) \<Rightarrow> AttrScoreInvertedIndex \<Rightarrow> document list \<Rightarrow> AttrScoreInvertedIndex option" where
  "insert_docs junk accepts idx [] = Some idx"
| "insert_docs junk accepts idx (doc # docs) = do {
     idx' \<leftarrow> insertDoc junk accepts idx (fst doc) (fst (snd doc)) (snd (snd doc));
     insert_docs junk accepts idx' docs
   }"

definition abs_docs :: "(nat \<Rightarrow> bool) \<Rightarrow> document list \<Rightarrow> abs_index \<Rightarrow> abs_index" where
  "abs_docs accepts docs A = fold (\<lambda>(d, tms, scores). abs_doc accepts d tms scores) docs A"

lemma newer_abs_doc:
  assumes "newer d A" "d < e" shows "newer e (abs_doc accepts d tms scores A)"
proof -
  have "newer e (abs_insert accepts d wrd s B)" if "newer e B" for wrd s B
    using that assms(2) by (fastforce simp: newer_def abs_insert_def ran_def split: option.splits if_splits)
  then have "newer e (fold (\<lambda>(wrd, s). abs_insert accepts d wrd s) xs B)" if "newer e B" for xs B
    using that by (induction xs arbitrary: B) auto
  moreover have "newer e A" using assms by (fastforce simp: newer_def)
  ultimately show ?thesis by (simp add: abs_doc_def)
qed

lemma insertDoc_refines:
  assumes rep: "attr_rep idx A" and fit: "words_fit W (vocab idx) (dom A)" "set tms \<subseteq> W" and d: "doc_ok (d, tms, scores)" "newer d A"
    and free: "8128 * length tms \<le> pool_free (segmentPool idx)"
  shows "\<exists>idx'. insertDoc junk accepts idx d tms scores = Some idx' \<and> attr_rep idx' (abs_doc accepts d tms scores A) \<and>
    reversed idx' = reversed idx \<and> vocab idx' = vocab idx \<and> totalDocNum idx' = totalDocNum idx + 1 \<and>
    pool_free (segmentPool idx) \<le> pool_free (segmentPool idx') + 8128 * length tms \<and>
    words_fit W (vocab idx') (dom (abs_doc accepts d tms scores A))"
proof -
  have "\<forall>wrd \<in> set tms. \<forall>P. A wrd = Some P \<longrightarrow> (\<forall>x \<in> set P. fst x < d)" using d(2) by (auto simp: newer_def ran_def)
  with insert_terms_refines [OF rep fit _ _ _ _ _ free, of d scores junk accepts] d(1)
  obtain idx' where "insert_terms junk accepts idx d tms scores = Some idx'" "index_kept (length tms) idx idx'"
    "attr_rep idx' (abs_doc accepts d tms scores A)" "words_fit W (vocab idx') (dom (abs_doc accepts d tms scores A))" by auto
  then show ?thesis by (simp add: insertDoc_def attr_rep_totalDocs index_kept_def totalDocNum_def vocab_def)
qed

lemma insert_docs_refines:
  assumes "attr_rep idx A" "words_fit W (vocab idx) (dom A)" "\<forall>doc \<in> set docs. set (fst (snd doc)) \<subseteq> W"
    "list_all doc_ok docs" "sorted_wrt (<) (map fst docs)"
    "\<forall>doc \<in> set docs. newer (fst doc) A" "8128 * (\<Sum>doc \<leftarrow> docs. length (fst (snd doc))) \<le> pool_free (segmentPool idx)"
  shows "\<exists>idx'. insert_docs junk accepts idx docs = Some idx' \<and> attr_rep idx' (abs_docs accepts docs A) \<and>
    reversed idx' = reversed idx \<and> totalDocNum idx' = totalDocNum idx + of_nat (length docs)"
  using assms
proof (induction docs arbitrary: idx A)
  case (Cons doc docs)
  obtain d tms scores where doc: "doc = (d, tms, scores)" by (cases doc)
  have tms: "set tms \<subseteq> W" "\<forall>doc \<in> set docs. set (fst (snd doc)) \<subseteq> W" using Cons.prems(3) doc by simp_all
  from insertDoc_refines [OF Cons.prems(1,2) tms(1), of d scores junk accepts] Cons.prems(4-7) doc
  obtain idx1 where i: "insertDoc junk accepts idx d tms scores = Some idx1" "attr_rep idx1 (abs_doc accepts d tms scores A)"
    "reversed idx1 = reversed idx" "vocab idx1 = vocab idx" "totalDocNum idx1 = totalDocNum idx + 1"
    "pool_free (segmentPool idx) \<le> pool_free (segmentPool idx1) + 8128 * length tms"
    "words_fit W (vocab idx1) (dom (abs_doc accepts d tms scores A))"
    by auto
  have "\<forall>e \<in> set docs. newer (fst e) (abs_doc accepts d tms scores A)"
    using newer_abs_doc [of d A] Cons.prems(5,6) doc by auto
  with Cons.IH [OF i(2,7) tms(2)] i Cons.prems doc obtain idx2 where "insert_docs junk accepts idx1 docs = Some idx2"
    "attr_rep idx2 (abs_docs accepts docs (abs_doc accepts d tms scores A))" "reversed idx2 = reversed idx1"
    "totalDocNum idx2 = totalDocNum idx1 + of_nat (length docs)"
    by auto
  with i show ?case by (simp add: doc abs_docs_def)
qed (simp add: abs_docs_def)

lemma vocab_new: "vocab (AttrIndex_new junk m n v r) = unat v"
  by (simp add: vocab_def AttrIndex_new_def AttrScoreBufferMaps_new_def)

lemma pool_free_new: "0 < n \<Longrightarrow> pool_free (segmentPool (AttrIndex_new junk m n v r)) = (unat n - 1) * (unat m - 4064) + unat m"
  by (simp add: pool_free_def AttrIndex_new_def SegmentPool_new_def)

lemma newer_empty [simp]: "newer d Map.empty"
  by (simp add: newer_def)

text \<open>C1. Inserting documents into an empty attribute-score index refines the abstract index. When the documents come with
  ascending docids below \<open>2 ^ 31\<close>, each with distinct terms and as many scores, none of them zero, when they have
  altogether no more different words than the index has buffers, and when the pool has at least one array, arrays of at least 4064
  words and 8128 words for each posting (not counting 4064 words at the end of each array but the last), every
  insertion succeeds, whatever the load-factor test \<open>accepts\<close> of the hash table says: a word it refuses is left out. The index it leaves holds, for each word, exactly the postings of the abstract index in the order of their
  insertion, in the blocks of a chain of the word's own and behind them in the word's buffer, and has counted the documents.\<close>

theorem insertDoc_refines_abstract:
  assumes "0 < n" "4064 \<le> unat m" "card (\<Union>doc \<in> set docs. set (fst (snd doc))) \<le> unat v"
    and "list_all doc_ok docs" "sorted_wrt (<) (map fst docs)"
    and "8128 * (\<Sum>doc \<leftarrow> docs. length (fst (snd doc))) \<le> (unat n - 1) * (unat m - 4064) + unat m"
  shows "\<exists>idx. insert_docs junk accepts (AttrIndex_new junk m n v r) docs = Some idx \<and>
    attr_rep idx (abs_docs accepts docs Map.empty) \<and> totalDocNum idx = of_nat (length docs)"
proof -
  let ?W = "\<Union>doc \<in> set docs. set (fst (snd doc))"
  have "words_fit ?W (unat v) {}" using assms(3) by (simp add: words_fit_def)
  moreover have "totalDocNum (AttrIndex_new junk m n v r) = 0" by (simp add: totalDocNum_def AttrIndex_new_def Pointers_new_def)
  ultimately show ?thesis
    using insert_docs_refines [OF attr_rep_new [OF assms(1,2)] _ _ assms(4,5), of ?W junk v r junk accepts] assms(6)
    by (auto simp: vocab_new pool_free_new [OF assms(1)])
qed

theorem insertDoc_refines_abstract_witness:
  "\<exists>idx. insert_docs (\<lambda>i. of_nat i) (\<lambda>i. i < 2) (AttrIndex_new (\<lambda>i. of_nat i) 40000 3 3 True)
      [(3, [''a'', ''b''], [7, 8]), (5, [''b'', ''c''], [9, 1])] = Some idx \<and>
    attr_rep idx (abs_docs (\<lambda>i. i < 2) [(3, [''a'', ''b''], [7, 8]), (5, [''b'', ''c''], [9, 1])] Map.empty) \<and>
    totalDocNum idx = of_nat (length [(3 :: u32, [''a'', ''b''], [7 :: u32, 8]), (5, [''b'', ''c''], [9, 1])])"
  by (rule insertDoc_refines_abstract) (simp_all add: card_insert_if)

end
