(* ===== verification/Zambezi_AttrQuery.thy ===== *)
theory Zambezi_AttrQuery
  imports Zambezi_AttrInsert
begin

text \<open>
  Reading the attribute-score index: the iterator \<open>unionIterate_\<close> runs through the postings of a term in index order,
  the queries with one and with two terms return what the abstract index says, and the ways in which reading fails.
\<close>

section \<open>The iterator\<close>

abbreviation behind :: "bool \<Rightarrow> u32 \<Rightarrow> posting \<Rightarrow> bool" where
  "behind r pivot x \<equiv> LESS_THAN (fst x) pivot r"

text \<open>What is left of an array of docids and one of scores from an index on.\<close>

definition view :: "u32 list \<Rightarrow> u32 list \<Rightarrow> nat \<Rightarrow> nat \<Rightarrow> posting list" where
  "view xs ys c i = drop i (zip (take c xs) (take c ys))"

lemma view_drop: "view xs ys c (i + n) = drop n (view xs ys c i)"
  by (simp add: view_def add.commute)

lemma view_Nil [simp]: "c \<le> length xs \<Longrightarrow> c \<le> length ys \<Longrightarrow> view xs ys c i = [] \<longleftrightarrow> c \<le> i"
  by (simp add: view_def)

lemma view_hd: "c \<le> length xs \<Longrightarrow> c \<le> length ys \<Longrightarrow> i < c \<Longrightarrow> view xs ys c i = (xs ! i, ys ! i) # view xs ys c (Suc i)"
  by (simp add: view_def Cons_nth_drop_Suc [symmetric])

lemma view_fst: "c \<le> length xs \<Longrightarrow> c \<le> length ys \<Longrightarrow> map fst (view xs ys c i) = drop i (take c xs)"
  by (simp add: view_def drop_map [symmetric])

lemma view_append: "c = length xs \<Longrightarrow> c = length ys \<Longrightarrow> view (xs @ xs') (ys @ ys') c i = drop i (zip xs ys)"
  by (simp add: view_def)

text \<open>The search in an array, as far as the list of postings sees it.\<close>

definition view_ok :: "bool \<Rightarrow> u32 list \<Rightarrow> u32 list \<Rightarrow> nat \<Rightarrow> nat \<Rightarrow> bool" where
  "view_ok r xs ys c i \<longleftrightarrow> c + 15 \<le> length xs \<and> c \<le> length ys \<and> c < 2 ^ 32 - 1 \<and> i \<le> c \<and>
     postings r (drop i (take c xs)) \<and> list_all (\<lambda>x. x < 2 ^ 31) (drop i (take c xs))"

lemma it_miss_ok:
  assumes v: "view_ok r xs ys c i" and it: "it_count it = of_nat c" "it_index it = of_nat i" "i < c \<Longrightarrow> it_tail it = xs ! (c - 1)"
    and p: "pivot < 2 ^ 31"
  shows "dropWhile (behind r pivot) (view xs ys c i) = [] \<Longrightarrow> it_miss r xs it pivot = Some (True, it_index it)"
    and "dropWhile (behind r pivot) (view xs ys c i) \<noteq> [] \<Longrightarrow>
      \<exists>j. it_miss r xs it pivot = Some (False, of_nat j) \<and> i \<le> j \<and> j < c \<and>
        dropWhile (behind r pivot) (view xs ys c i) = view xs ys c j"
proof -
  have len: "c \<le> length xs" "c \<le> length ys" "i \<le> c" "c < 2 ^ 32 - 1" and po: "postings r (drop i (take c xs))"
    using v by (auto simp: view_ok_def)
  have u: "unat (it_count it) = c" "unat (it_index it) = i" using it(1,2) len by (simp_all add: unat_of_nat32)
  have le: "it_index it \<ge> it_count it \<longleftrightarrow> c \<le> i" by (simp add: word_le_nat_alt u)
  have last: "(xs ! (c - 1), ys ! (c - 1)) \<in> set (view xs ys c i)" if "i < c"
    using that len by (auto simp: view_def in_set_conv_nth intro!: exI [of _ "c - 1 - i"])
  have all: "dropWhile (behind r pivot) (view xs ys c i) = [] \<longleftrightarrow> c \<le> i \<or> LESS_THAN (it_tail it) pivot r"
  proof (cases "c \<le> i")
    case False
    then have t: "it_tail it = xs ! (c - 1)" using it(3) by simp
    have b: "\<not> LESS_THAN (xs ! (c - 1)) x r" if "x \<in> set (drop i (take c xs))" for x
    proof -
      from that obtain k where k: "k < c - i" "x = drop i (take c xs) ! k" using len by (auto simp: in_set_conv_nth)
      have "x = xs ! (c - 1) \<or> LESS_THAN x (xs ! (c - 1)) r"
        using k False len postings_nth_less [OF po, of k "c - 1 - i"] by (cases "k = c - 1 - i") auto
      then show ?thesis using LESS_THAN_asym by fastforce
    qed
    have "behind r pivot x" if "LESS_THAN (it_tail it) pivot r" "x \<in> set (view xs ys c i)" for x
    proof -
      have "fst x \<in> set (drop i (take c xs))" using that(2) len by (metis view_fst image_eqI set_map)
      with b t that(1) show ?thesis by (metis LESS_THAN_linear LESS_THAN_trans)
    qed
    with last False t show ?thesis by (fastforce simp: dropWhile_eq_Nil_conv)
  qed (use len in \<open>simp add: view_def\<close>)
  show "it_miss r xs it pivot = Some (True, it_index it)" if "dropWhile (behind r pivot) (view xs ys c i) = []"
    using that all le by (simp add: it_miss_def)
  show "\<exists>j. it_miss r xs it pivot = Some (False, of_nat j) \<and> i \<le> j \<and> j < c \<and>
      dropWhile (behind r pivot) (view xs ys c i) = view xs ys c j" if "dropWhile (behind r pivot) (view xs ys c i) \<noteq> []"
  proof -
    have nm: "\<not> c \<le> i" "\<not> LESS_THAN (it_tail it) pivot r" using that all by auto
    then have sc: "scannable xs r c i pivot" using v p it(3) by (auto simp: scannable_def view_ok_def)
    from linear.search_in_block [OF sc] linear.search_found [OF sc] obtain j where
      j: "linearSearch xs r c i pivot = Some j" "i \<le> j" "j < c" "found xs r pivot i j" by auto
    have "first_at (\<lambda>k. \<not> behind r pivot (zip (take c xs) (take c ys) ! k)) i j"
      using j(2-4) len by (auto simp: first_at_def)
    from first_at_dropWhile(1) [OF this] j(3) len have "dropWhile (behind r pivot) (view xs ys c i) = view xs ys c j"
      by (simp add: view_def)
    moreover have "(of_nat j :: u32) \<noteq> INVALID_ID"
      using j(3) len(4) of_nat_u32_eq [of j "2 ^ 32 - 1"] by (auto simp: INVALID_ID_def)
    ultimately show ?thesis using j nm le by (auto simp: it_miss_def u)
  qed
qed

text \<open>Skipping blocks: the first block whose last docid is not before the pivot has the first posting that is not.\<close>

lemma block_all_behind:
  assumes "postings r ds" "LESS_THAN (last ds) pivot r" "x \<in> set (zip ds ss)"
  shows "behind r pivot x"
proof -
  have "fst x \<in> set ds" using assms(3) set_zip_leftD [of "fst x" "snd x" ds ss] by simp
  then obtain k where k: "k < length ds" "fst x = ds ! k" by (auto simp: in_set_conv_nth)
  then have "last ds = ds ! (length ds - 1)" by (intro last_conv_nth) auto
  with k have "fst x = last ds \<or> LESS_THAN (fst x) (last ds) r"
    using postings_nth_less [OF assms(1), of k "length ds - 1"] by (cases "k = length ds - 1") auto
  with assms(2) show ?thesis by (metis LESS_THAN_trans)
qed

lemma dropWhile_block:
  assumes "ds \<noteq> []" "length ss = length ds" "\<not> LESS_THAN (last ds) pivot r"
  shows "dropWhile (behind r pivot) (zip ds ss @ R) = dropWhile (behind r pivot) (zip ds ss) @ R"
    "dropWhile (behind r pivot) (zip ds ss) \<noteq> []"
proof -
  have "zip ds ss \<noteq> []" using assms(1,2) by (cases ds; cases ss) simp_all
  then have "last (zip ds ss) \<in> set (zip ds ss)" by (rule last_in_set)
  moreover have "fst (last (zip ds ss)) = last ds" using assms(1,2) by (subst last_zip) auto
  ultimately have "\<exists>x \<in> set (zip ds ss). \<not> behind r pivot x" using assms(3) by metis
  then show "dropWhile (behind r pivot) (zip ds ss @ R) = dropWhile (behind r pivot) (zip ds ss) @ R"
    "dropWhile (behind r pivot) (zip ds ss) \<noteq> []"
    by (auto simp: dropWhile_append1)
qed

lemma chain_find_None:
  assumes "blocks_hold r bs blks" "length ps = length bs" "find (\<lambda>(q, m, dat). \<not> LESS_THAN m pivot r) (zip ps bs) = None"
  shows "dropWhile (behind r pivot) (block_postings blks @ R) = dropWhile (behind r pivot) R"
  using assms
proof (induction blks arbitrary: ps bs)
  case (Cons b blks)
  obtain ds ss where b: "b = (ds, ss)" by fastforce
  from Cons.prems obtain m dat bs' p ps' where e: "bs = (m, dat) # bs'" "ps = p # ps'"
    by (cases bs; cases ps) (auto simp: blocks_hold_def)
  from Cons.prems have h: "block_ok r ds ss" "m = last ds" "blocks_hold r bs' blks" "LESS_THAN m pivot r"
    "find (\<lambda>(q, m, dat). \<not> LESS_THAN m pivot r) (zip ps' bs') = None" "length ps' = length bs'"
    by (auto simp: e b blocks_hold_def split: if_splits)
  have "\<forall>x \<in> set (zip ds ss). behind r pivot x"
    using block_all_behind [of r ds pivot _ ss] h(1,2,4) by (auto simp: block_ok_def)
  then show ?case using Cons.IH [OF h(3,6,5)] by (simp add: b)
qed (simp add: blocks_hold_def)

lemma chain_find_Some:
  assumes "blocks_hold r bs blks" "length ps = length bs" "find (\<lambda>(q, m, dat). \<not> LESS_THAN m pivot r) (zip ps bs) = Some (q, b)"
  shows "\<exists>ps1 ps2 bs1 bs2 ds ss blks2. ps = ps1 @ q # ps2 \<and> bs = bs1 @ b # bs2 \<and> length ps1 = length bs1 \<and>
    blocks_hold r (b # bs2) ((ds, ss) # blks2) \<and> \<not> LESS_THAN (last ds) pivot r \<and>
    (\<forall>R. dropWhile (behind r pivot) (block_postings blks @ R) = dropWhile (behind r pivot) (zip ds ss) @ block_postings blks2 @ R)"
  using assms
proof (induction blks arbitrary: ps bs)
  case (Cons bl blks)
  obtain ds ss where bl: "bl = (ds, ss)" by fastforce
  from Cons.prems(1,2) obtain m dat bs' p ps' where e: "bs = (m, dat) # bs'" "ps = p # ps'" "length ps' = length bs'"
    by (cases bs; cases ps) (auto simp: blocks_hold_def)
  from Cons.prems(1) have h: "block_ok r ds ss" "m = last ds" "blocks_hold r bs' blks" by (auto simp: e bl blocks_hold_def)
  then have d: "ds \<noteq> []" "length ss = length ds" "postings r ds" by (simp_all add: block_ok_def)
  show ?case
  proof (cases "LESS_THAN m pivot r")
    case False
    then have "q = p" "b = (m, dat)" using Cons.prems(3) e by auto
    then show ?thesis
      using Cons.prems(1) e h(2) False dropWhile_block(1) [OF d(1,2), of pivot r] unfolding bl
      by (intro exI [of _ "[]"] exI [of _ ps'] exI [of _ bs'] exI [of _ ds] exI [of _ ss] exI [of _ blks]) simp
  next
    case True
    then have f: "find (\<lambda>(q, m, dat). \<not> LESS_THAN m pivot r) (zip ps' bs') = Some (q, b)" using Cons.prems(3) e by simp
    have a: "\<forall>x \<in> set (zip ds ss). behind r pivot x" using block_all_behind [OF d(3)] True h(2) by blast
    from Cons.IH [OF h(3) e(3) f] obtain ps1 ps2 bs1 bs2 ds' ss' blks2 where "ps' = ps1 @ q # ps2" "bs' = bs1 @ b # bs2"
      "length ps1 = length bs1" "blocks_hold r (b # bs2) ((ds', ss') # blks2)" "\<not> LESS_THAN (last ds') pivot r"
      "\<forall>R. dropWhile (behind r pivot) (block_postings blks @ R) = dropWhile (behind r pivot) (zip ds' ss') @ block_postings blks2 @ R"
      by auto
    with a e show ?thesis unfolding bl
      by (intro exI [of _ "p # ps1"] exI [of _ ps2] exI [of _ "(m, dat) # bs1"] exI [of _ bs2] exI [of _ ds'] exI [of _ ss'] exI [of _ blks2])
        simp
  qed
qed (simp add: blocks_hold_def)

text \<open>The iterator stands at posting \<open>i\<close> of a block it has decoded.\<close>

definition it_arrays :: "posting_iter \<Rightarrow> bool" where
  "it_arrays it \<longleftrightarrow> length (docid_seg it) = BP_BLOCK_SIZE + 15 \<and> length (score_seg it) = BP_BLOCK_SIZE"

definition in_block :: "posting_iter \<Rightarrow> u32 list \<Rightarrow> u32 list \<Rightarrow> nat \<Rightarrow> bool" where
  "in_block it ds ss i \<longleftrightarrow> \<not> in_buffer it \<and> (\<exists>xs ys. docid_seg it = ds @ xs \<and> score_seg it = ss @ ys) \<and>
     it_count it = of_nat (length ds) \<and> it_index it = of_nat i \<and> i < length ds \<and> it_tail it = last ds"

lemma block_ok_view:
  assumes "block_ok r ds ss" "docid_seg it = ds @ xs" "score_seg it = ss @ ys" "it_arrays it" "i \<le> length ds"
  shows "view_ok r (docid_seg it) (score_seg it) (length ds) i" "view (docid_seg it) (score_seg it) (length ds) i = drop i (zip ds ss)"
proof -
  have l: "length (docid_seg it) = BP_BLOCK_SIZE + 15" "length (score_seg it) = BP_BLOCK_SIZE" using assms(4) by (simp_all add: it_arrays_def)
  have b: "postings r ds" "list_all (\<lambda>x. x < 2 ^ 31) ds" "length ss = length ds" "length ds \<le> BP_BLOCK_SIZE"
    using assms(1) by (simp_all add: block_ok_def)
  have "postings r (drop i ds)" "list_all (\<lambda>x. x < 2 ^ 31) (drop i ds)"
    using b(1,2) by (auto intro: postings_drop list_all_drop)
  moreover have "take (length ds) (docid_seg it) = ds" using assms(2) by simp
  ultimately show "view_ok r (docid_seg it) (score_seg it) (length ds) i"
    using b(4) l assms(5) unfolding view_ok_def by (simp add: BP_BLOCK_SIZE_eq)
  show "view (docid_seg it) (score_seg it) (length ds) i = drop i (zip ds ss)"
    by (simp only: assms(2,3) view_append [OF refl b(3) [symmetric]])
qed

lemma in_block_take:
  assumes "in_block it ds ss i" "length ss = length ds" "length ds \<le> BP_BLOCK_SIZE"
  shows "it_take_block it = Some (it \<lparr> it_docid := ds ! i, it_score := ss ! i \<rparr>)"
proof -
  from assms(1) obtain xs ys where x: "docid_seg it = ds @ xs" "score_seg it = ss @ ys" "it_index it = of_nat i" "i < length ds"
    by (auto simp: in_block_def)
  have "unat (of_nat i :: u32) = i" using x(4) assms(3) by (intro unat_of_nat32) (simp add: BP_BLOCK_SIZE_eq)
  then show ?thesis using x assms(2) by (simp add: it_take_block_def rd_def nth_append)
qed

text \<open>Decoding the block the pivot is in.\<close>

lemma it_block_ok:
  assumes g: "pool_good sp L" and c: "posting_chain sp L (q # ps) ((m, dat) # bs) q" and h: "blocks_hold r ((m, dat) # bs) ((ds, ss) # blks)"
    and a: "it_arrays it" and p: "pivot < 2 ^ 31" "\<not> LESS_THAN (last ds) pivot r"
  shows "\<exists>i it'. it_block r sp it q pivot = Some it' \<and> in_block it' ds ss i \<and> it_arrays it' \<and> it_pointer it' = q \<and>
    drop i (zip ds ss) = dropWhile (behind r pivot) (zip ds ss)"
proof -
  have b: "attr_block r dat ds ss" "block_ok r ds ss" "m = last ds" using h by (simp_all add: blocks_hold_def)
  have l: "length ss = length ds" "ds \<noteq> []" "length ds mod 128 = 0" "length ds \<le> BP_BLOCK_SIZE" "length ds < 2 ^ 32" "0 < length ds"
    using b(2) by (auto simp: block_ok_def BP_BLOCK_SIZE_eq)
  have q: "q \<in> L" "block_at sp q = Some (m, dat)" using c by (simp_all add: posting_chain_def)
  have al: "length ds \<le> length (docid_seg it)" "length ds \<le> length (score_seg it)" using a l(4) by (simp_all add: it_arrays_def)
  define xs ys where "xs = drop (length ds) (docid_seg it)" and "ys = drop (length ds) (score_seg it)"
  define it1 where "it1 = it \<lparr> in_buffer := False, docid_seg := ds @ xs, score_seg := ss @ ys, it_count := of_nat (length ds),
    it_tail := last ds, it_index := 0, it_pointer := q \<rparr>"
  have dec: "decompressDocidBlock r sp (docid_seg it) q = Some (ds @ xs, of_nat (length ds))"
    "decompressScoreBlock sp (score_seg it) q = Some (ss @ ys, of_nat (length ds))"
    using decompress_ok [OF g q b(1) l(3,4)] al by (simp_all add: xs_def ys_def)
  have a1: "it_arrays it1" using a al l(1) by (simp add: it_arrays_def it1_def xs_def ys_def)
  note v = block_ok_view [OF b(2), of it1 xs ys 0]
  have v1: "view_ok r (ds @ xs) (ss @ ys) (length ds) 0" "view (ds @ xs) (ss @ ys) (length ds) 0 = zip ds ss"
    using v a1 by (simp_all add: it1_def)
  have t: "it_tail it1 = (ds @ xs) ! (length ds - 1)" using l(2) by (simp add: it1_def nth_append last_conv_nth)
  have ne: "dropWhile (behind r pivot) (view (ds @ xs) (ss @ ys) (length ds) 0) \<noteq> []"
    using dropWhile_block(2) [OF l(2,1) p(2)] v1(2) by simp
  from it_miss_ok(2) [OF v1(1) _ _ t p(1) ne] obtain j where
    j: "it_miss r (ds @ xs) it1 pivot = Some (False, of_nat j)" "j < length ds" "dropWhile (behind r pivot) (zip ds ss) = view (ds @ xs) (ss @ ys) (length ds) j"
    by (auto simp: it1_def v1(2))
  have u: "unat (of_nat (length ds) :: u32) = length ds" using l(5) by (rule unat_of_nat32)
  then have "unat (of_nat (length ds) - 1 :: u32) = length ds - 1" using l(6) by (simp add: docid_step(1) word_less_nat_alt)
  moreover from j(1) obtain k where "linearSearch (ds @ xs) r (length ds) 0 pivot = Some k" "(of_nat k :: u32) = of_nat j"
    by (auto simp: it_miss_def it1_def u split: if_splits bind_splits)
  ultimately have "it_block r sp it q pivot = Some (it1 \<lparr> it_index := of_nat j \<rparr>)"
    using dec l(2,6) u by (simp add: it_block_def it1_def rd_def nth_append last_conv_nth trans_less_add1)
  moreover have "view (ds @ xs) (ss @ ys) (length ds) j = drop j (zip ds ss)" by (rule view_append [OF refl l(1) [symmetric]])
  ultimately show ?thesis
    using j(2,3) a1 by (intro exI [of _ j] exI [of _ "it1 \<lparr> it_index := of_nat j \<rparr>"]) (simp add: in_block_def it1_def it_arrays_def)
qed

text \<open>The iterator is in a block, with the postings \<open>T\<close> left in the chain.\<close>

definition block_state :: "bool \<Rightarrow> SegmentPool \<Rightarrow> u64 set \<Rightarrow> posting_iter \<Rightarrow> posting list \<Rightarrow> bool" where
  "block_state r sp L it T \<longleftrightarrow> (\<exists>ps bs ds ss blks i. posting_chain sp L ps bs (it_pointer it) \<and> blocks_hold r bs ((ds, ss) # blks) \<and>
     in_block it ds ss i \<and> T = drop i (zip ds ss) @ block_postings blks)"

abbreviation posting_at :: "posting_iter \<Rightarrow> posting" where
  "posting_at it \<equiv> (it_docid it, it_score it)"

lemma next_block:
  assumes g: "pool_good sp L" and c: "posting_chain sp L ps bs h" and b: "blocks_hold r bs blks" and a: "it_arrays it" and p: "pivot < 2 ^ 31"
  obtains (skipped) "nextPointer_pivot sp h pivot r = Some UNDEFINED_POINTER"
      "\<forall>R. dropWhile (behind r pivot) (block_postings blks @ R) = dropWhile (behind r pivot) R"
    | (block) q it2 it3 T where "nextPointer_pivot sp h pivot r = Some q" "q \<noteq> UNDEFINED_POINTER"
      "it_block r sp it q pivot = Some it2" "it_take_block it2 = Some it3" "it_arrays it3" "block_state r sp L it3 (posting_at it3 # T)"
      "\<forall>R. dropWhile (behind r pivot) (block_postings blks @ R) = posting_at it3 # T @ R" "\<not> in_buffer it3"
proof (cases "find (\<lambda>(q, m, dat). \<not> LESS_THAN m pivot r) (zip ps bs)")
  case None
  have "length ps = length bs" using c by (simp add: posting_chain_def) (metis length_map)
  with None chain_find_None [OF b] nextPointer_pivot_find [OF c, of pivot r] show thesis by (intro skipped) auto
next
  case (Some x)
  obtain q m dat where x: "x = (q, (m, dat))" by (cases x)
  have l: "length ps = length bs" using c by (simp add: posting_chain_def) (metis length_map)
  from chain_find_Some [OF b l Some [unfolded x]] obtain ps1 ps2 bs1 bs2 ds ss blks2 where s: "ps = ps1 @ q # ps2" "bs = bs1 @ (m, dat) # bs2"
    "length ps1 = length bs1" "blocks_hold r ((m, dat) # bs2) ((ds, ss) # blks2)" "\<not> LESS_THAN (last ds) pivot r"
    "\<forall>R. dropWhile (behind r pivot) (block_postings blks @ R) = dropWhile (behind r pivot) (zip ds ss) @ block_postings blks2 @ R"
    by auto
  have n: "nextPointer_pivot sp h pivot r = Some q" using nextPointer_pivot_find [OF c, of pivot r] Some x by simp
  have c2: "posting_chain sp L (q # ps2) ((m, dat) # bs2) q" using posting_chain_suffix [OF c [unfolded s(1,2)] s(3)] .
  then have q: "q \<noteq> UNDEFINED_POINTER" using posting_chain_live by fastforce
  from it_block_ok [OF g c2 s(4) a p s(5)] obtain i it2 where
    i: "it_block r sp it q pivot = Some it2" "in_block it2 ds ss i" "it_arrays it2" "it_pointer it2 = q"
      "drop i (zip ds ss) = dropWhile (behind r pivot) (zip ds ss)" by auto
  have d: "length ss = length ds" "length ds \<le> BP_BLOCK_SIZE" using s(4) by (simp_all add: blocks_hold_def block_ok_def)
  define it3 where "it3 = it2 \<lparr> it_docid := ds ! i, it_score := ss ! i \<rparr>"
  have i3: "it_take_block it2 = Some it3" "in_block it3 ds ss i" "it_arrays it3" "it_pointer it3 = q"
    using in_block_take [OF i(2) d] i by (simp_all add: it3_def in_block_def it_arrays_def)
  have "i < length ds" using i(2) by (simp add: in_block_def)
  then have dr: "drop i (zip ds ss) = posting_at it3 # drop (Suc i) (zip ds ss)"
    using d(1) by (simp add: it3_def Cons_nth_drop_Suc [symmetric])
  have "block_state r sp L it3 (posting_at it3 # (drop (Suc i) (zip ds ss) @ block_postings blks2))"
    unfolding block_state_def using c2 s(4) i3 dr
    by (intro exI [of _ "q # ps2"] exI [of _ "(m, dat) # bs2"] exI [of _ ds] exI [of _ ss] exI [of _ blks2] exI [of _ i]) simp
  moreover have "\<forall>R. dropWhile (behind r pivot) (block_postings blks @ R) = posting_at it3 # (drop (Suc i) (zip ds ss) @ block_postings blks2) @ R"
    using s(6) i(5) dr by simp
  moreover have "\<not> in_buffer it3" using i3(2) by (simp add: in_block_def)
  ultimately show thesis using block [OF n q i(1) i3(1,3)] by blast
qed

text \<open>The term's buffer.\<close>

definition buffer_ok :: "bool \<Rightarrow> nat \<Rightarrow> u32 list \<Rightarrow> u32 list \<Rightarrow> bool" where
  "buffer_ok r cap docs scores \<longleftrightarrow> length scores = length docs \<and> length docs < cap \<and> cap \<in> term_caps \<and>
     postings r (index_order r docs) \<and> list_all (\<lambda>x. x < 2 ^ 31) docs"

definition buf_first :: "bool \<Rightarrow> nat \<Rightarrow> u32 list \<Rightarrow> nat" where
  "buf_first r cap docs = (if r then cap - length docs else 0)"

definition buf_count :: "bool \<Rightarrow> nat \<Rightarrow> u32 list \<Rightarrow> nat" where
  "buf_count r cap docs = (if r then cap else length docs)"

lemma buffer_view:
  assumes b: "buffer_ok r cap docs scores" and i: "buf_first r cap docs \<le> i" "i \<le> buf_count r cap docs"
  shows "view_ok r (drop 4 (posting_array r cap docs scores)) (half r cap scores) (buf_count r cap docs) i"
    and "view (drop 4 (posting_array r cap docs scores)) (half r cap scores) (buf_count r cap docs) (buf_first r cap docs) =
      zip (index_order r docs) (index_order r scores)"
proof -
  let ?c = "buf_count r cap docs"
  have l: "length scores = length docs" "length docs < cap" "16 \<le> cap" "cap \<le> 4096"
    using b term_caps_bound [of cap] by (auto simp: buffer_ok_def term_caps_def full_caps_def)
  have x: "drop 4 (posting_array r cap docs scores) = half r cap docs @ half r cap scores" by (simp add: posting_array_def)
  have t: "take ?c (half r cap docs @ half r cap scores) = (if r then replicate (cap - length docs) 0 @ rev docs else docs)"
    "take ?c (half r cap scores) = (if r then replicate (cap - length docs) 0 @ rev scores else scores)"
    using l by (simp_all add: buf_count_def half_def)
  have dr: "drop i (take ?c (half r cap docs @ half r cap scores)) = drop (i - buf_first r cap docs) (index_order r docs)"
    using i l(1,2) unfolding t by (cases r) (simp_all add: buf_first_def index_order_def)
  have "postings r (index_order r docs)" "list_all (\<lambda>x. x < 2 ^ 31) (index_order r docs)"
    using b by (simp_all add: buffer_ok_def index_order_def list_all_iff)
  then have "postings r (drop (i - buf_first r cap docs) (index_order r docs))"
    "list_all (\<lambda>x. x < 2 ^ 31) (drop (i - buf_first r cap docs) (index_order r docs))"
    by (simp_all add: postings_drop list_all_drop)
  then show "view_ok r (drop 4 (posting_array r cap docs scores)) (half r cap scores) ?c i"
    unfolding view_ok_def x dr using i(2) l by (simp add: buf_count_def)
  show "view (drop 4 (posting_array r cap docs scores)) (half r cap scores) ?c (buf_first r cap docs) =
      zip (index_order r docs) (index_order r scores)"
    unfolding view_def x t using l by (simp add: buf_first_def index_order_def)
qed

lemma it_take_buffer_ok:
  assumes "buffer_ok r cap docs scores" "j < buf_count r cap docs" "it_index it = of_nat j"
  shows "it_take_buffer (posting_array r cap docs scores) it (of_nat cap) =
    Some (it \<lparr> it_docid := drop 4 (posting_array r cap docs scores) ! j, it_score := half r cap scores ! j \<rparr>)"
proof -
  have l: "length scores = length docs" "length docs < cap" "cap \<le> 4096" "j < cap"
    using assms(1,2) term_caps_bound [of cap] by (auto simp: buffer_ok_def buf_count_def split: if_splits)
  have "unat (of_nat cap + it_index it) = cap + j" using l unat_of_nat32 [of "cap + j"] by (simp add: assms(3))
  moreover have "unat (it_index it) = j" using l by (simp add: assms(3) unat_of_nat32)
  ultimately show ?thesis using l by (simp add: it_take_buffer_def rd_def posting_array_def nth_append)
qed

text \<open>\<open>it_at r sp L cap docs scores it Q\<close>: the postings \<open>Q\<close> are what the iterator has left. It is in the buffer, in a block, or, in a
  forward index, still before the first block. In a reversed index the buffer comes first, in a forward one last.\<close>

definition in_buf :: "bool \<Rightarrow> nat \<Rightarrow> u32 list \<Rightarrow> u32 list \<Rightarrow> posting_iter \<Rightarrow> nat \<Rightarrow> bool" where
  "in_buf r cap docs scores it i \<longleftrightarrow> in_buffer it \<and> it_count it = of_nat (buf_count r cap docs) \<and> it_index it = of_nat i \<and>
     buf_first r cap docs \<le> i \<and> i \<le> buf_count r cap docs \<and>
     it_tail it = drop 4 (posting_array r cap docs scores) ! (buf_count r cap docs - 1)"

abbreviation buf_view :: "bool \<Rightarrow> nat \<Rightarrow> u32 list \<Rightarrow> u32 list \<Rightarrow> nat \<Rightarrow> posting list" where
  "buf_view r cap docs scores i \<equiv> view (drop 4 (posting_array r cap docs scores)) (half r cap scores) (buf_count r cap docs) i"

definition it_ctx :: "bool \<Rightarrow> SegmentPool \<Rightarrow> u64 set \<Rightarrow> nat \<Rightarrow> u32 list \<Rightarrow> u32 list \<Rightarrow> posting_iter \<Rightarrow> bool" where
  "it_ctx r sp L cap docs scores it \<longleftrightarrow> it_arrays it \<and> pool_good sp L \<and> buffer_ok r cap docs scores \<and> (r \<or> docs \<noteq> [])"

inductive it_at :: "bool \<Rightarrow> SegmentPool \<Rightarrow> u64 set \<Rightarrow> nat \<Rightarrow> u32 list \<Rightarrow> u32 list \<Rightarrow> posting_iter \<Rightarrow> posting list \<Rightarrow> bool"
  for r sp L cap docs scores where
  at_buffer: "it_ctx r sp L cap docs scores it \<Longrightarrow> posting_chain sp L ps bs (it_pointer it) \<Longrightarrow> blocks_hold r bs blks \<Longrightarrow>
    in_buf r cap docs scores it i \<Longrightarrow>
    it_at r sp L cap docs scores it (buf_view r cap docs scores i @ (if r then block_postings blks else []))"
| at_block: "it_ctx r sp L cap docs scores it \<Longrightarrow> block_state r sp L it T \<Longrightarrow>
    it_at r sp L cap docs scores it (T @ (if r then [] else zip docs scores))"
| at_start: "it_ctx r sp L cap docs scores it \<Longrightarrow> posting_chain sp L ps bs (it_pointer it) \<Longrightarrow> blocks_hold r bs blks \<Longrightarrow>
    \<not> r \<Longrightarrow> \<not> in_buffer it \<Longrightarrow> it_count it = 0 \<Longrightarrow> it_index it = 0 \<Longrightarrow>
    it_at r sp L cap docs scores it (block_postings blks @ zip docs scores)"

definition iterated :: "bool \<Rightarrow> SegmentPool \<Rightarrow> u64 set \<Rightarrow> nat \<Rightarrow> u32 list \<Rightarrow> u32 list \<Rightarrow> posting list \<Rightarrow> (bool \<times> posting_iter) option \<Rightarrow> bool" where
  "iterated r sp L cap docs scores Q res \<longleftrightarrow> (case Q of
       [] \<Rightarrow> (\<exists>it'. res = Some (False, it'))
     | q # Q' \<Rightarrow> (\<exists>it'. res = Some (True, it') \<and> it_at r sp L cap docs scores it' Q \<and> posting_at it' = q))"

lemma iteratedI: "it_at r sp L cap docs scores it' (posting_at it' # Q) \<Longrightarrow> iterated r sp L cap docs scores (posting_at it' # Q) (Some (True, it'))"
  by (simp add: iterated_def)

lemma iterated_Nil [simp]: "iterated r sp L cap docs scores [] (Some (False, it'))"
  by (simp add: iterated_def)

text \<open>A posting in the buffer.\<close>

lemma buffer_hit:
  assumes x: "it_ctx r sp L cap docs scores it" and it: "in_buf r cap docs scores it i"
    and c: "posting_chain sp L ps bs (it_pointer it)" "blocks_hold r bs blks"
    and j: "i \<le> j" "j < buf_count r cap docs"
  shows "\<exists>it'. it_take_buffer (posting_array r cap docs scores) (it \<lparr> it_index := of_nat j \<rparr>) (of_nat cap) = Some it' \<and>
    iterated r sp L cap docs scores (buf_view r cap docs scores j @ (if r then block_postings blks else [])) (Some (True, it'))"
proof -
  let ?a = "posting_array r cap docs scores"
  have b: "buffer_ok r cap docs scores" using x by (simp add: it_ctx_def)
  define it' where "it' = it \<lparr> it_index := of_nat j, it_docid := drop 4 ?a ! j, it_score := half r cap scores ! j \<rparr>"
  have t: "it_take_buffer ?a (it \<lparr> it_index := of_nat j \<rparr>) (of_nat cap) = Some it'"
    using it_take_buffer_ok [OF b j(2)] by (simp add: it'_def)
  have fi: "buf_first r cap docs \<le> i" using it(1) by (simp add: in_buf_def)
  have v: "view_ok r (drop 4 ?a) (half r cap scores) (buf_count r cap docs) j"
    by (rule buffer_view(1) [OF b]) (use fi j in auto)
  then have len: "buf_count r cap docs \<le> length (drop 4 ?a)" "buf_count r cap docs \<le> length (half r cap scores)"
    unfolding view_ok_def by linarith+
  have hd: "buf_view r cap docs scores j = posting_at it' # buf_view r cap docs scores (Suc j)"
    using view_hd [OF len j(2)] by (simp add: it'_def)
  have "in_buf r cap docs scores it' j" using it(1) fi j by (simp add: in_buf_def it'_def)
  moreover have "posting_chain sp L ps bs (it_pointer it')" "it_ctx r sp L cap docs scores it'"
    using c(1) x by (simp_all add: it'_def it_ctx_def it_arrays_def)
  ultimately have "it_at r sp L cap docs scores it' (buf_view r cap docs scores j @ (if r then block_postings blks else []))"
    using at_buffer c(2) by blast
  with hd t show ?thesis by (simp add: iterated_def)
qed

text \<open>A posting in a block.\<close>

lemma block_hit:
  assumes "it_ctx r sp L cap docs scores it3" "block_state r sp L it3 (posting_at it3 # T)"
  shows "iterated r sp L cap docs scores (posting_at it3 # T @ (if r then [] else zip docs scores)) (Some (True, it3))"
  using at_block [OF assms] by (simp add: iterated_def)

text \<open>Nothing is left where the iterator is, and it goes on to the blocks from its pointer on.\<close>

lemma go_on_reverse:
  assumes x: "it_ctx True sp L cap docs scores it" and c: "posting_chain sp L ps bs (it_pointer it)" "blocks_hold True bs blks"
    and p: "pivot < 2 ^ 31"
  shows "iterated True sp L cap docs scores (dropWhile (behind True pivot) (block_postings blks)) (do {
      q \<leftarrow> nextPointer_pivot sp (it_pointer it) pivot True;
      if q = UNDEFINED_POINTER then Some (False, it \<lparr> it_pointer := q \<rparr>)
      else do { it2 \<leftarrow> it_block True sp it q pivot; it3 \<leftarrow> it_take_block it2; Some (True, it3) } })"
proof -
  have a: "pool_good sp L" "it_arrays it" using x by (simp_all add: it_ctx_def)
  show ?thesis
  proof (rule next_block [OF a(1) c a(2) p])
    assume "nextPointer_pivot sp (it_pointer it) pivot True = Some UNDEFINED_POINTER"
      "\<forall>R. dropWhile (behind True pivot) (block_postings blks @ R) = dropWhile (behind True pivot) R"
    moreover from this(2) have "dropWhile (behind True pivot) (block_postings blks) = []" by (metis append_Nil2 dropWhile.simps(1))
    ultimately show ?thesis by (simp del: dropWhile_eq_Nil_conv)
  next
    fix q it2 it3 T
    assume h: "nextPointer_pivot sp (it_pointer it) pivot True = Some q" "q \<noteq> UNDEFINED_POINTER"
      "it_block True sp it q pivot = Some it2" "it_take_block it2 = Some it3" "it_arrays it3" "block_state True sp L it3 (posting_at it3 # T)"
      "\<forall>R. dropWhile (behind True pivot) (block_postings blks @ R) = posting_at it3 # T @ R"
    then have "dropWhile (behind True pivot) (block_postings blks) = posting_at it3 # T" by (metis append_Nil2)
    moreover have "it_ctx True sp L cap docs scores it3" using x h(5) by (simp add: it_ctx_def)
    ultimately show ?thesis using h block_hit [of True sp L cap docs scores it3 T] by simp
  qed
qed


text \<open>In a forward index the buffer follows the last block. It must not be empty: the code reads its last docid first.\<close>

definition enter_buffer :: "u32 list \<Rightarrow> posting_iter \<Rightarrow> u32 \<Rightarrow> (bool \<times> posting_iter) option" where
  "enter_buffer buf it pivot = do {
     n \<leftarrow> rd buf 1;
     t \<leftarrow> rd buf (4 + unat (n - 1));
     let it2 = it \<lparr> it_pointer := UNDEFINED_POINTER, it_count := n, it_tail := t \<rparr>;
     if n = 0 \<or> LESS_THAN t pivot False then Some (False, it2)
     else do {
       j \<leftarrow> linearSearch (drop 4 buf) False (unat n) 0 pivot;
       let it3 = it2 \<lparr> it_index := of_nat j \<rparr>;
       if of_nat j = INVALID_ID then Some (False, it3)
       else do {
         c \<leftarrow> rd buf 0;
         it4 \<leftarrow> it_take_buffer buf (it3 \<lparr> in_buffer := True \<rparr>) c;
         Some (True, it4)
       }
     }
   }"

lemma enter_buffer_ok:
  assumes x: "it_ctx False sp L cap docs scores it" and p: "pivot < 2 ^ 31"
  shows "iterated False sp L cap docs scores (dropWhile (behind False pivot) (zip docs scores))
    (enter_buffer (posting_array False cap docs scores) it pivot)"
proof -
  let ?a = "posting_array False cap docs scores" and ?n = "length docs"
  have b: "buffer_ok False cap docs scores" "docs \<noteq> []" "pool_good sp L" using x by (simp_all add: it_ctx_def)
  have l: "?n < cap" "cap \<le> 4096" "0 < ?n" using b term_caps_bound [of cap] by (auto simp: buffer_ok_def)
  have c: "buf_count False cap docs = ?n" "buf_first False cap docs = 0" by (simp_all add: buf_count_def buf_first_def)
  have u: "unat (of_nat ?n :: u32) = ?n" using l by (intro unat_of_nat32) simp
  then have u1: "unat (of_nat ?n - 1 :: u32) = ?n - 1" "(of_nat ?n :: u32) \<noteq> 0" using l(3) by (auto simp: docid_step(1) word_less_nat_alt)
  have r: "rd ?a 0 = Some (of_nat cap)" "rd ?a 1 = Some (of_nat ?n)" "rd ?a (4 + (?n - 1)) = Some (drop 4 ?a ! (?n - 1))"
    using l by (simp_all add: rd_def posting_array_def half_def nth_append)
  define it2 where "it2 = it \<lparr> in_buffer := True, it_pointer := UNDEFINED_POINTER, it_count := of_nat ?n, it_tail := drop 4 ?a ! (?n - 1), it_index := 0 \<rparr>"
  have i2: "in_buf False cap docs scores it2 0" by (simp add: in_buf_def it2_def c)
  have x2: "it_ctx False sp L cap docs scores it2" using x by (simp add: it_ctx_def it2_def it_arrays_def)
  have ch: "posting_chain sp L [] [] (it_pointer it2)" "blocks_hold False [] []"
    using b(3) by (simp_all add: posting_chain_def it2_def pool_good_def blocks_hold_def)
  have v: "view_ok False (drop 4 ?a) (half False cap scores) ?n 0" "buf_view False cap docs scores 0 = zip docs scores"
    using buffer_view [OF b(1), of 0] by (simp_all add: c index_order_def)
  have it2: "it_count it2 = of_nat ?n" "it_index it2 = of_nat 0" "it_tail it2 = drop 4 ?a ! (?n - 1)" by (simp_all add: it2_def)
  note m = it_miss_ok [OF v(1) it2(1,2) it2(3) p, folded c(1), unfolded v(2)]
  have e: "enter_buffer ?a it pivot = do {
      (miss, i) \<leftarrow> it_miss False (drop 4 ?a) it2 pivot;
      if miss then Some (False, it \<lparr> it_pointer := UNDEFINED_POINTER, it_count := of_nat ?n, it_tail := drop 4 ?a ! (?n - 1), it_index := (if LESS_THAN (it_tail it2) pivot False then it_index it else i) \<rparr>)
      else do { it4 \<leftarrow> it_take_buffer ?a (it2 \<lparr> it_index := i \<rparr>) (of_nat cap); Some (True, it4) } }"
    using u1 l(3) r by (cases it) (auto simp: enter_buffer_def it_miss_def it2_def u word_le_nat_alt split: bind_splits if_splits)
  show ?thesis
  proof (cases "dropWhile (behind False pivot) (zip docs scores) = []")
    case True
    with m(1) show ?thesis by (simp add: e del: dropWhile_eq_Nil_conv)
  next
    case False
    from m(2) [OF False] obtain j where j: "it_miss False (drop 4 ?a) it2 pivot = Some (False, of_nat j)" "j < buf_count False cap docs"
      "dropWhile (behind False pivot) (zip docs scores) = buf_view False cap docs scores j" by auto
    from buffer_hit [OF x2 i2 ch, of j] j show ?thesis by (auto simp: e)
  qed
qed

lemma go_on_forward:
  assumes x: "it_ctx False sp L cap docs scores it" and c: "posting_chain sp L ps bs (it_pointer it)" "blocks_hold False bs blks"
    and p: "pivot < 2 ^ 31"
  shows "iterated False sp L cap docs scores (dropWhile (behind False pivot) (block_postings blks @ zip docs scores)) (do {
      q \<leftarrow> nextPointer_pivot sp (it_pointer it) pivot False;
      if q = UNDEFINED_POINTER then enter_buffer (posting_array False cap docs scores) it pivot
      else do { it2 \<leftarrow> it_block False sp it q pivot; it3 \<leftarrow> it_take_block it2; Some (True, it3) } })"
proof -
  have a: "pool_good sp L" "it_arrays it" using x by (simp_all add: it_ctx_def)
  show ?thesis
  proof (rule next_block [OF a(1) c a(2) p])
    assume "nextPointer_pivot sp (it_pointer it) pivot False = Some UNDEFINED_POINTER"
      "\<forall>R. dropWhile (behind False pivot) (block_postings blks @ R) = dropWhile (behind False pivot) R"
    with enter_buffer_ok [OF x p] show ?thesis by simp
  next
    fix q it2 it3 T
    assume h: "nextPointer_pivot sp (it_pointer it) pivot False = Some q" "q \<noteq> UNDEFINED_POINTER"
      "it_block False sp it q pivot = Some it2" "it_take_block it2 = Some it3" "it_arrays it3" "block_state False sp L it3 (posting_at it3 # T)"
      "\<forall>R. dropWhile (behind False pivot) (block_postings blks @ R) = posting_at it3 # T @ R"
    moreover have "it_ctx False sp L cap docs scores it3" using x h(5) by (simp add: it_ctx_def)
    ultimately show ?thesis using block_hit [of False sp L cap docs scores it3 T] by simp
  qed
qed

lemma unionIterate_buffer:
  assumes "in_buffer it"
  shows "unionIterate r sp buf it pivot = do {
      (miss, i) \<leftarrow> it_miss r (drop 4 buf) it pivot;
      if miss then
        (if r then do {
           q \<leftarrow> nextPointer_pivot sp (it_pointer (it \<lparr> it_index := i \<rparr>)) pivot True;
           if q = UNDEFINED_POINTER then Some (False, it \<lparr> it_index := i, it_pointer := q \<rparr>)
           else do { it2 \<leftarrow> it_block True sp (it \<lparr> it_index := i \<rparr>) q pivot; it3 \<leftarrow> it_take_block it2; Some (True, it3) } }
         else Some (False, it \<lparr> it_index := i \<rparr>))
      else do { c \<leftarrow> rd buf 0; it2 \<leftarrow> it_take_buffer buf (it \<lparr> it_index := i \<rparr>) (if r then it_count it else c); Some (True, it2) } }"
  using assms by (auto simp: unionIterate_def split: bind_split)

lemma unionIterate_block:
  assumes "\<not> in_buffer it"
  shows "unionIterate r sp buf it pivot = do {
      (miss, i) \<leftarrow> it_miss r (docid_seg it) it pivot;
      if miss then do {
        q \<leftarrow> nextPointer_pivot sp (it_pointer (it \<lparr> it_index := i \<rparr>)) pivot r;
        if q = UNDEFINED_POINTER then
          (if r then Some (False, it \<lparr> it_index := i, it_pointer := q \<rparr>) else enter_buffer buf (it \<lparr> it_index := i \<rparr>) pivot)
        else do { it2 \<leftarrow> it_block r sp (it \<lparr> it_index := i \<rparr>) q pivot; it3 \<leftarrow> it_take_block it2; Some (True, it3) } }
      else do { it2 \<leftarrow> it_take_block (it \<lparr> it_index := i \<rparr>); Some (True, it2) } }"
  using assms by (auto simp: unionIterate_def enter_buffer_def Let_def intro!: Option.bind_cong [OF refl])

lemma it_ctx_index [simp]: "it_ctx r sp L cap docs scores (it \<lparr> it_index := i \<rparr>) = it_ctx r sp L cap docs scores it"
  by (simp add: it_ctx_def it_arrays_def)

lemma iterate_buffer:
  assumes x: "it_ctx r sp L cap docs scores it" and c: "posting_chain sp L ps bs (it_pointer it)" "blocks_hold r bs blks"
    and i: "in_buf r cap docs scores it i" and p: "pivot < 2 ^ 31"
  shows "iterated r sp L cap docs scores
    (dropWhile (behind r pivot) (buf_view r cap docs scores i @ (if r then block_postings blks else [])))
    (unionIterate r sp (posting_array r cap docs scores) it pivot)"
proof -
  let ?a = "posting_array r cap docs scores" and ?V = "buf_view r cap docs scores" and ?R = "if r then block_postings blks else []"
  have b: "buffer_ok r cap docs scores" using x by (simp add: it_ctx_def)
  have ib: "in_buffer it" "it_count it = of_nat (buf_count r cap docs)" "it_index it = of_nat i" "buf_first r cap docs \<le> i"
    "i \<le> buf_count r cap docs" "it_tail it = drop 4 ?a ! (buf_count r cap docs - 1)"
    using i by (simp_all add: in_buf_def)
  note m = it_miss_ok [OF buffer_view(1) [OF b ib(4,5)] ib(2,3,6) p]
  show ?thesis
  proof (cases "dropWhile (behind r pivot) (?V i) = []")
    case none: True
    then have d: "dropWhile (behind r pivot) (?V i @ ?R) = dropWhile (behind r pivot) ?R"
      by (rule dropWhile_append_miss)
    show ?thesis
    proof (cases r)
      case True
      then have r: "r = True" by simp
      have "posting_chain sp L ps bs (it_pointer (it \<lparr> it_index := it_index it \<rparr>))" using c(1) by simp
      from go_on_reverse [OF _ this c(2) [unfolded r] p, of cap docs scores] x r m(1) [OF none] d
      show ?thesis by (simp add: unionIterate_buffer [OF ib(1)])
    next
      case False
      with m(1) [OF none] none d show ?thesis by (simp add: unionIterate_buffer [OF ib(1)] del: dropWhile_eq_Nil_conv)
    qed
  next
    case False
    from m(2) [OF False] obtain j where j: "it_miss r (drop 4 ?a) it pivot = Some (False, of_nat j)" "i \<le> j" "j < buf_count r cap docs"
      "dropWhile (behind r pivot) (?V i) = ?V j" by auto
    have "dropWhile (behind r pivot) (?V i @ ?R) = ?V j @ ?R"
      using dropWhile_append_hit [OF False] j(4) by simp
    moreover have "rd ?a 0 = Some (of_nat cap)" by (simp add: rd_def posting_array_def)
    moreover have "r \<Longrightarrow> it_count it = of_nat cap" using ib(2) by (simp add: buf_count_def)
    ultimately show ?thesis
      using buffer_hit [OF x i c j(2,3)] j(1) by (auto simp: unionIterate_buffer [OF ib(1)])
  qed
qed

lemma iterate_block:
  assumes x: "it_ctx r sp L cap docs scores it" and s: "block_state r sp L it T" and p: "pivot < 2 ^ 31"
  shows "iterated r sp L cap docs scores (dropWhile (behind r pivot) (T @ (if r then [] else zip docs scores)))
    (unionIterate r sp (posting_array r cap docs scores) it pivot)"
proof -
  let ?R = "if r then [] else zip docs scores"
  from s obtain ps bs ds ss blks i where c: "posting_chain sp L ps bs (it_pointer it)" "blocks_hold r bs ((ds, ss) # blks)"
    "in_block it ds ss i" "T = drop i (zip ds ss) @ block_postings blks" by (auto simp: block_state_def)
  from c(3) obtain xs ys where ib: "docid_seg it = ds @ xs" "score_seg it = ss @ ys" "\<not> in_buffer it"
    "it_count it = of_nat (length ds)" "it_index it = of_nat i" "i < length ds" "it_tail it = last ds" by (auto simp: in_block_def)
  have bo: "block_ok r ds ss" using c(2) by (auto simp: blocks_hold_def list_all2_Cons2)
  then have l: "length ss = length ds" "length ds \<le> BP_BLOCK_SIZE" "postings r ds" by (simp_all add: block_ok_def)
  have a: "it_arrays it" using x by (simp add: it_ctx_def)
  note v = block_ok_view [OF bo ib(1,2) a less_imp_le [OF ib(6)]]
  have t: "it_tail it = docid_seg it ! (length ds - 1)" using ib(1,6,7) by (cases ds) (auto simp: nth_append last_conv_nth)
  note m = it_miss_ok [OF v(1) ib(4,5) t p, unfolded v(2)]
  show ?thesis
  proof (cases "dropWhile (behind r pivot) (drop i (zip ds ss)) = []")
    case none: True
    have "(ds ! (length ds - 1), ss ! (length ds - 1)) \<in> set (drop i (zip ds ss))"
      using ib(6) l(1) by (auto simp: in_set_conv_nth intro!: exI [of _ "length ds - 1 - i"])
    moreover have "last ds = ds ! (length ds - 1)" using ib(6) by (cases ds) (simp_all add: last_conv_nth)
    ultimately have "LESS_THAN (last ds) pivot r" using none by (fastforce simp: dropWhile_eq_Nil_conv)
    then have "\<forall>z \<in> set (zip ds ss). behind r pivot z" using block_all_behind [OF l(3)] by blast
    then have d: "dropWhile (behind r pivot) (T @ ?R) = dropWhile (behind r pivot) (block_postings ((ds, ss) # blks) @ ?R)"
      using none c(4) by (auto simp: dropWhile_eq_Nil_conv)
    have ch: "posting_chain sp L ps bs (it_pointer (it \<lparr> it_index := it_index it \<rparr>))" using c(1) by simp
    show ?thesis
    proof (cases r)
      case True
      then have r: "r = True" by simp
      from go_on_reverse [OF _ ch c(2) [unfolded r] p, of cap docs scores] x r m(1) [OF none] d
      show ?thesis unfolding unionIterate_block [OF ib(3)] r if_True by simp
    next
      case False
      then have r: "r = False" by simp
      from go_on_forward [OF _ ch c(2) [unfolded r] p, of cap docs scores] x r m(1) [OF none] d
      show ?thesis unfolding unionIterate_block [OF ib(3)] r if_False by simp
    qed
  next
    case False
    from m(2) [OF False] obtain j where j: "it_miss r (docid_seg it) it pivot = Some (False, of_nat j)" "i \<le> j" "j < length ds"
      "dropWhile (behind r pivot) (drop i (zip ds ss)) = drop j (zip ds ss)"
      using view_append [OF refl l(1) [symmetric], of xs ys] by (auto simp: ib(1,2))
    define it2 where "it2 = it \<lparr> it_index := of_nat j, it_docid := ds ! j, it_score := ss ! j \<rparr>"
    have "in_block (it \<lparr> it_index := of_nat j \<rparr>) ds ss j" using c(3) j(3) by (simp add: in_block_def)
    from in_block_take [OF this l(1,2)] have tk: "it_take_block (it \<lparr> it_index := of_nat j \<rparr>) = Some it2" by (simp add: it2_def)
    have dr: "drop j (zip ds ss) = posting_at it2 # drop (Suc j) (zip ds ss)"
      using j(3) l(1) by (simp add: it2_def Cons_nth_drop_Suc [symmetric])
    have bs2: "block_state r sp L it2 (posting_at it2 # (drop (Suc j) (zip ds ss) @ block_postings blks))"
      unfolding block_state_def using c j(3) dr
      by (intro exI [of _ ps] exI [of _ bs] exI [of _ ds] exI [of _ ss] exI [of _ blks] exI [of _ j]) (simp add: it2_def in_block_def)
    have x2: "it_ctx r sp L cap docs scores it2" using x by (simp add: it_ctx_def it2_def it_arrays_def)
    have "dropWhile (behind r pivot) (T @ ?R) = posting_at it2 # (drop (Suc j) (zip ds ss) @ block_postings blks) @ ?R"
      using dropWhile_append_hit [OF False] j(4) c(4) dr by simp
    with block_hit [OF x2 bs2] j(1) tk show ?thesis by (simp only: unionIterate_block [OF ib(3)] bind.bind_lunit prod.case if_False)
  qed
qed

lemma iterate_start:
  assumes x: "it_ctx False sp L cap docs scores it" and c: "posting_chain sp L ps bs (it_pointer it)" "blocks_hold False bs blks"
    and s: "\<not> in_buffer it" "it_count it = 0" "it_index it = 0" and p: "pivot < 2 ^ 31"
  shows "iterated False sp L cap docs scores (dropWhile (behind False pivot) (block_postings blks @ zip docs scores))
    (unionIterate False sp (posting_array False cap docs scores) it pivot)"
proof -
  have "it_miss False (docid_seg it) it pivot = Some (True, it_index it)" using s by (simp add: it_miss_def)
  moreover have "posting_chain sp L ps bs (it_pointer (it \<lparr> it_index := it_index it \<rparr>))" using c(1) by simp
  from go_on_forward [OF _ this c(2) p, of cap docs scores] x
  have "iterated False sp L cap docs scores (dropWhile (behind False pivot) (block_postings blks @ zip docs scores)) (do {
      q \<leftarrow> nextPointer_pivot sp (it_pointer (it \<lparr> it_index := it_index it \<rparr>)) pivot False;
      if q = UNDEFINED_POINTER then enter_buffer (posting_array False cap docs scores) (it \<lparr> it_index := it_index it \<rparr>) pivot
      else do { it2 \<leftarrow> it_block False sp (it \<lparr> it_index := it_index it \<rparr>) q pivot; it3 \<leftarrow> it_take_block it2; Some (True, it3) } })"
    by simp
  ultimately show ?thesis unfolding unionIterate_block [OF s(1)] if_False by simp
qed

lemma iterate_ok:
  assumes "it_at r sp L cap docs scores it Q" "pivot < 2 ^ 31"
  shows "iterated r sp L cap docs scores (dropWhile (behind r pivot) Q) (unionIterate r sp (posting_array r cap docs scores) it pivot)"
  using assms(1)
proof cases
  case (at_buffer ps bs blks i)
  from iterate_buffer [OF at_buffer(2-5) assms(2)] at_buffer(1) show ?thesis by simp
next
  case (at_block T)
  from iterate_block [OF at_block(2,3) assms(2)] at_block(1) show ?thesis by simp
next
  case (at_start ps bs blks)
  then have r: "r = False" by simp
  from iterate_start [OF at_start(2-4) [unfolded r] at_start(6-8) assms(2)] at_start(1) r show ?thesis by simp
qed

subsection \<open>The contract of an iterator\<close>

text \<open>An iterator has a list of postings left. A step to a pivot drops those before it and stops at the next one, or reports
  that there is none.\<close>

locale posting_iterator =
  fixes r :: bool and iterate :: "'it \<Rightarrow> u32 \<Rightarrow> (bool \<times> 'it) option" and current :: "'it \<Rightarrow> posting" and left :: "'it \<Rightarrow> posting list \<Rightarrow> bool"
  assumes step_hit: "left it Q \<Longrightarrow> pivot < 2 ^ 31 \<Longrightarrow> dropWhile (behind r pivot) Q = q # Q' \<Longrightarrow>
      \<exists>it'. iterate it pivot = Some (True, it') \<and> left it' (q # Q') \<and> current it' = q"
    and step_miss: "left it Q \<Longrightarrow> pivot < 2 ^ 31 \<Longrightarrow> dropWhile (behind r pivot) Q = [] \<Longrightarrow> \<exists>it'. iterate it pivot = Some (False, it')"
begin

text \<open>It never gets stuck, and it does not miss a docid that is there.\<close>

lemma step_total: "left it Q \<Longrightarrow> pivot < 2 ^ 31 \<Longrightarrow> \<exists>res. iterate it pivot = Some res"
  using step_hit step_miss by (cases "dropWhile (behind r pivot) Q") blast+

lemma step_cases:
  assumes "left it Q" "pivot < 2 ^ 31"
  obtains (hit) it' q Q' where "iterate it pivot = Some (True, it')" "left it' (q # Q')" "current it' = q" "dropWhile (behind r pivot) Q = q # Q'"
  | (miss) it' where "iterate it pivot = Some (False, it')" "dropWhile (behind r pivot) Q = []"
  using step_hit [OF assms] step_miss [OF assms] by (cases "dropWhile (behind r pivot) Q") blast+

end

interpretation attr_iter: posting_iterator r "unionIterate r sp (posting_array r cap docs scores)" posting_at "it_at r sp L cap docs scores"
  for r sp L cap docs scores
proof
  fix it Q q Q' and pivot :: u32
  assume a: "it_at r sp L cap docs scores it Q" "pivot < 2 ^ 31"
  note i = iterate_ok [OF a]
  show "\<exists>it'. unionIterate r sp (posting_array r cap docs scores) it pivot = Some (True, it') \<and> it_at r sp L cap docs scores it' (q # Q') \<and> posting_at it' = q"
    if "dropWhile (behind r pivot) Q = q # Q'"
    using i that by (simp add: iterated_def)
  show "\<exists>it'. unionIterate r sp (posting_array r cap docs scores) it pivot = Some (False, it')" if "dropWhile (behind r pivot) Q = []"
    using i that by (simp add: iterated_def del: dropWhile_eq_Nil_conv)
qed

subsection \<open>Starting\<close>

text \<open>A term can be read when the index is reversed or the term's buffer is not empty.\<close>

definition readable :: "AttrScoreInvertedIndex \<Rightarrow> u32 \<Rightarrow> bool" where
  "readable idx tid \<longleftrightarrow> reversed idx \<or> (case getBuffer (bufferMaps idx) tid of Some (Some a) \<Rightarrow> rd a 1 \<noteq> Some 0 | _ \<Rightarrow> False)"

lemma it_start_ok:
  assumes inv: "attr_inv idx L pss ts" and k: "k < length ts" and rd: "readable idx (of_nat k)"
  shows "\<exists>cap docs scores it. it_start junk idx (of_nat k) = Some (posting_array (reversed idx) cap docs scores, it) \<and>
    it_at (reversed idx) (segmentPool idx) L cap docs scores it (index_order (reversed idx) (ts ! k))"
proof -
  let ?r = "reversed idx"
  have tb: "tables_ok idx" "k < vocab idx" "pool_good (segmentPool idx) L" and to: "term_ok idx L k (pss ! k) (ts ! k)" and wf: "wf_postings (ts ! k)"
    using inv k by (auto simp: attr_inv_def)
  have u: "unat (of_nat k :: u32) = k" using tb by (intro unat_of_nat32) (simp add: tables_ok_def)
  obtain cap docs scores blks old where t:
    "buffer (bufferMaps idx) ! k = Some (posting_array ?r cap docs scores)"
    "length scores = length docs" "length docs < cap" "cap \<in> term_caps" "ts ! k = old @ zip docs scores"
    "chain_state ?r (segmentPool idx) L (pss ! k) (head_of idx k) (tailPointer (bufferMaps idx) ! k) blks"
    "block_postings blks = index_order ?r old"
    by (rule term_okE [OF to])
  let ?a = "posting_array ?r cap docs scores"
  have c: "16 \<le> cap" "cap \<le> 4096" using t(4) term_caps_bound [of cap] by (auto simp: term_caps_def full_caps_def)
  have gb: "getBuffer (bufferMaps idx) (of_nat k) = Some (Some ?a)" using t(1) tb(1,2) u by (simp add: getBuffer_def rd_def vocab_def tables_ok_def)
  have "list_all (\<lambda>x. x < 2 ^ 31) (index_order ?r docs)" using wf_postings_suffix(2) [OF wf [unfolded t(5)] t(2), of ?r] .
  then have b: "buffer_ok ?r cap docs scores"
    using wf_postings_suffix(1) [OF wf [unfolded t(5)] t(2), of ?r] t(2-4) by (simp add: buffer_ok_def index_order_def list_all_iff split: if_splits)
  have ne: "?r \<or> docs \<noteq> []" using rd gb by (auto simp: readable_def rd_def posting_array_def)
  from t(6) obtain bs where ch: "posting_chain (segmentPool idx) L (pss ! k) bs (head_of idx k)" "blocks_hold ?r bs blks"
    by (auto simp: chain_state_def)
  have r01: "rd ?a 0 = Some (of_nat cap)" "rd ?a 1 = Some (of_nat (length docs))" by (simp_all add: rd_def posting_array_def)
  have u3: "unat (of_nat cap + 3 :: u32) = 4 + (cap - 1)" using c unat_of_nat32 [of "cap + 3"] by simp
  have tl: "rd ?a (4 + (cap - 1)) = Some (drop 4 ?a ! (cap - 1))" using c t(2,3) by (simp add: rd_def posting_array_def)
  define it where "it = \<lparr> in_buffer = ?r, docid_seg = map junk [0..<BP_BLOCK_SIZE + 15], score_seg = map junk [0..<BP_BLOCK_SIZE],
    it_count = (if ?r then of_nat cap else 0), it_tail = (if ?r then drop 4 ?a ! (cap - 1) else 0),
    it_index = (if ?r then of_nat cap - of_nat (length docs) else 0), it_pointer = head_of idx k, it_docid = 0, it_score = 0 \<rparr>"
  have st: "it_start junk idx (of_nat k) = Some (?a, it)"
    using gb r01 u3 tl by (cases ?r) (simp_all add: it_start_def it_def)
  have x: "it_ctx ?r (segmentPool idx) L cap docs scores it" using b ne tb(3) by (simp add: it_ctx_def it_arrays_def it_def)
  have "it_at ?r (segmentPool idx) L cap docs scores it (index_order ?r (ts ! k))"
  proof (cases ?r)
    case True
    have "in_buf ?r cap docs scores it (cap - length docs)"
      using True t(3) by (simp add: in_buf_def it_def buf_count_def buf_first_def of_nat_diff)
    from at_buffer [OF x _ ch(2) this] ch(1)
    have "it_at ?r (segmentPool idx) L cap docs scores it (buf_view ?r cap docs scores (buf_first ?r cap docs) @ block_postings blks)"
      using True by (simp add: it_def buf_first_def)
    moreover have "buf_view ?r cap docs scores (buf_first ?r cap docs) @ block_postings blks = index_order ?r (ts ! k)"
      using buffer_view(2) [OF b, of "buf_first ?r cap docs"] True t(2,3,5,7)
      by (simp add: index_order_def zip_rev buf_count_def buf_first_def)
    ultimately show ?thesis by simp
  next
    case False
    from at_start [OF x _ ch(2)] ch(1) False t(5,7) show ?thesis by (simp add: it_def index_order_def)
  qed
  with st show ?thesis by blast
qed

section \<open>Queries\<close>

text \<open>The postings of a term in a reversed index, from the latest docid down.\<close>

definition descending :: "posting list \<Rightarrow> bool" where
  "descending Q \<longleftrightarrow> sorted_wrt (\<lambda>x y. fst y < fst x) Q \<and> (\<forall>x \<in> set Q. is_docid (fst x))"

lemma descending_rev: "wf_postings P \<Longrightarrow> descending (rev P)"
  by (auto simp: descending_def wf_postings_def sorted_wrt_rev sorted_wrt_map list_all_iff)

lemma descending_Cons: "descending (q # Q) \<longleftrightarrow> is_docid (fst q) \<and> (\<forall>x \<in> set Q. fst x < fst q) \<and> descending Q"
  by (auto simp: descending_def)

lemma descending_dropWhile: "descending Q \<Longrightarrow> descending (dropWhile P Q)"
  by (induction Q) (auto simp: descending_Cons)

text \<open>The lists of results for some postings.\<close>

definition results :: "posting list \<Rightarrow> result_lists" where
  "results zs = (map fst zs, map (\<lambda>z. to_float (unat (snd z))) zs)"

context doc_filter
begin

abbreviation tested :: "posting list \<Rightarrow> posting list" where
  "tested Q \<equiv> filter (\<lambda>x. test flt (fst x)) Q"

text \<open>Going on to the next docid that can be a result drops no result.\<close>

lemma tested_drop:
  assumes "\<forall>x \<in> set Q. test flt (fst x) \<longrightarrow> fst x \<le> e"
  shows "tested (dropWhile (behind True e) Q) = tested Q"
  using assms by (induction Q) (auto simp: LESS_THAN_def)

lemma next_below:
  assumes "is_docid i" "is_docid x" "test flt x" "x < i"
  shows "find_next flt i True \<noteq> INVALID_ID" "x \<le> find_next flt i True"
  using "next" [OF assms(1-3), of True] assms(4) by (simp_all add: LESS_THAN_def not_less)

lemma next_pivot:
  assumes "is_docid i" "find_next flt i True \<noteq> INVALID_ID"
  shows "find_next flt i True < i" "find_next flt i True < 2 ^ 31"
  using next_progress [OF assms] next_int [OF assms(1)] assms(2) by (auto simp: LESS_THAN_def)

text \<open>The docid the loop of the one-term query waits for: that of the posting at hand, or the next one the filter lets
  through.\<close>

definition awaited :: "u32 \<Rightarrow> u32" where
  "awaited d = (if test flt d then d else find_next flt d True)"

text \<open>The rest of a round: on to the posting from \<open>e\<close> on, and around again.\<close>

definition single_round :: "SegmentPool \<Rightarrow> u32 list \<Rightarrow> nat \<Rightarrow> posting_iter \<Rightarrow> u32 \<Rightarrow> result_lists \<Rightarrow> result_lists option" where
  "single_round sp buf len it e res = do {
     (ok, it1) \<leftarrow> unionIterate True sp buf it e;
     if \<not> ok then Some res
     else let e2 = awaited (it_docid it1)
       in if e2 = INVALID_ID then Some res else single_loop True sp flt buf len it1 e2 res }"

lemma single_loop_unfold:
  "single_loop True sp flt buf len it e res =
     (let hit = (it_docid it = e);
          res1 = (if hit then (fst res @ [it_docid it], snd res @ [to_float (unat (it_score it))]) else res);
          e1 = (if hit then find_next flt e True else e)
      in if hit \<and> (length (fst res1) = len \<or> e1 = INVALID_ID) then Some res1 else single_round sp buf len it e1 res1)"
  unfolding single_round_def awaited_def Let_def by (subst single_loop.simps) (simp only: Let_def)

lemma single_loop_hit:
  assumes "posting_at it = q" "test flt (fst q)"
  shows "single_loop True sp flt buf len it (awaited (fst q)) (results acc) =
    (if Suc (length acc) = len \<or> find_next flt (fst q) True = INVALID_ID then Some (results (acc @ [q]))
     else single_round sp buf len it (find_next flt (fst q) True) (results (acc @ [q])))"
proof -
  have q: "it_docid it = fst q" "it_score it = snd q" using assms(1) by auto
  have "awaited (fst q) = fst q" using assms(2) by (simp add: awaited_def)
  then show ?thesis by (simp add: single_loop_unfold q results_def)
qed

lemma single_loop_skip:
  assumes "it_docid it = d" "\<not> test flt d" "find_next flt d True \<noteq> d"
  shows "single_loop True sp flt buf len it (awaited d) res = single_round sp buf len it (find_next flt d True) res"
proof -
  have "awaited d = find_next flt d True" using assms(2) by (simp add: awaited_def)
  then show ?thesis using assms(1,3) by (simp add: single_loop_unfold)
qed

text \<open>No posting is a result when the filter has no docid left for the first.\<close>

lemma awaited_none:
  assumes "descending (q # Q)" "awaited (fst q) = INVALID_ID"
  shows "tested (q # Q) = []"
proof -
  have q: "\<not> test flt (fst q)" "find_next flt (fst q) True = INVALID_ID"
    using assms by (auto simp: awaited_def descending_Cons INVALID_ID_def split: if_splits)
  have "\<not> test flt (fst x)" if "x \<in> set Q" for x
    using next_below(1) [of "fst q" "fst x"] assms(1) that q(2) by (auto simp: descending_def)
  with q(1) show ?thesis by simp
qed

lemma single_round_ok:
  assumes it: "it_at True sp L cap docs scores it (q # Q)" and de: "descending (q # Q)" and n: "find_next flt (fst q) True \<noteq> INVALID_ID"
    and loop: "\<And>it' q' Q'. length Q' < length Q \<Longrightarrow> it_at True sp L cap docs scores it' (q' # Q') \<Longrightarrow> posting_at it' = q' \<Longrightarrow>
      descending (q' # Q') \<Longrightarrow> awaited (fst q') \<noteq> INVALID_ID \<Longrightarrow>
      single_loop True sp flt (posting_array True cap docs scores) len it' (awaited (fst q')) (results acc) = Some (f (tested (q' # Q')))"
    and none: "f [] = results acc"
  shows "single_round sp (posting_array True cap docs scores) len it (find_next flt (fst q) True) (results acc) = Some (f (tested Q))"
proof -
  let ?e = "find_next flt (fst q) True"
  have d: "is_docid (fst q)" "\<forall>x \<in> set Q. fst x < fst q \<and> is_docid (fst x)" "descending Q"
    using de by (auto simp: descending_Cons descending_def)
  have dq: "dropWhile (behind True ?e) (q # Q) = dropWhile (behind True ?e) Q" using next_pivot(1) [OF d(1) n] by (simp add: LESS_THAN_def)
  have t: "tested (dropWhile (behind True ?e) Q) = tested Q"
    using next_below(2) [OF d(1)] d(2) by (intro tested_drop) blast
  show ?thesis
  proof (rule attr_iter.step_cases [OF it next_pivot(2) [OF d(1) n]])
    fix it' q' Q'
    assume h: "unionIterate True sp (posting_array True cap docs scores) it ?e = Some (True, it')"
      "it_at True sp L cap docs scores it' (q' # Q')" "posting_at it' = q'" "dropWhile (behind True ?e) (q # Q) = q' # Q'"
    have dr: "dropWhile (behind True ?e) Q = q' # Q'" using h(4) dq by simp
    have de': "descending (q' # Q')" using descending_dropWhile [OF d(3)] dr by metis
    have sh: "length Q' < length Q" using length_dropWhile_le [of "behind True ?e" Q] dr by simp
    have tq: "tested Q = tested (q' # Q')" using t dr by simp
    show ?thesis
    proof (cases "awaited (fst q') = INVALID_ID")
      case True
      with awaited_none [OF de' True] tq h(1,3) none show ?thesis by (auto simp: single_round_def)
    next
      case False
      from loop [OF sh h(2,3) de' False] show ?thesis using h(1,3) False tq by (auto simp: single_round_def)
    qed
  next
    fix it' assume h: "unionIterate True sp (posting_array True cap docs scores) it ?e = Some (False, it')" "dropWhile (behind True ?e) (q # Q) = []"
    have "tested Q = []" using t h(2) dq by (metis filter.simps(1))
    then show ?thesis using h(1) none by (simp add: single_round_def)
  qed
qed

lemma single_loop_ok:
  assumes "it_at True sp L cap docs scores it (q # Q)" "posting_at it = q" "descending (q # Q)" "awaited (fst q) \<noteq> INVALID_ID"
    "len = 0 \<or> length acc < len"
  shows "single_loop True sp flt (posting_array True cap docs scores) len it (awaited (fst q)) (results acc) =
    Some (results (acc @ (if len = 0 then tested (q # Q) else take (len - length acc) (tested (q # Q)))))"
  using assms
proof (induction "length Q" arbitrary: it q Q acc rule: less_induct)
  case less
  have d: "is_docid (fst q)" "\<forall>x \<in> set Q. fst x < fst q \<and> is_docid (fst x)"
    using less.prems(3) by (auto simp: descending_Cons descending_def)
  have round: "single_round sp (posting_array True cap docs scores) len it (find_next flt (fst q) True) (results acc') =
      Some (results (acc' @ (if len = 0 then tested Q else take (len - length acc') (tested Q))))"
    if "find_next flt (fst q) True \<noteq> INVALID_ID" "len = 0 \<or> length acc' < len" for acc'
    by (rule single_round_ok [OF less.prems(1,3) that(1)]) (use less.hyps that(2) in simp_all)
  show ?case
  proof (cases "test flt (fst q)")
    case True
    note e = single_loop_hit [OF less.prems(2) True, of sp "posting_array True cap docs scores" len acc]
    show ?thesis
    proof (cases "Suc (length acc) = len \<or> find_next flt (fst q) True = INVALID_ID")
      case stop: True
      have "len \<noteq> 0 \<and> len - length acc = 1 \<or> tested Q = []"
        using stop next_below(1) [OF d(1)] d(2) by (auto simp: filter_empty_conv)
      then show ?thesis using e stop True less.prems(5) by (auto simp: take_Cons')
    next
      case go_on: False
      then have "len = 0 \<or> length (acc @ [q]) < len" using less.prems(5) by auto
      moreover have "take (len - length acc) (q # tested Q) = q # take (len - length (acc @ [q])) (tested Q)" if "len \<noteq> 0"
        using that less.prems(5) by (simp add: take_Cons' diff_diff_left)
      ultimately show ?thesis using True e go_on round [of "acc @ [q]"] by auto
    qed
  next
    case False
    then have aw: "find_next flt (fst q) True \<noteq> INVALID_ID" "find_next flt (fst q) True \<noteq> fst q"
      using next_pivot(1) [OF d(1)] less.prems(4) by (auto simp: awaited_def)
    have "it_docid it = fst q" using less.prems(2) by auto
    from single_loop_skip [OF this False aw(2)] round [OF aw(1) less.prems(5)] False show ?thesis by simp
  qed
qed

text \<open>The first posting a query looks at.\<close>

lemma first_posting:
  assumes it: "it_at True sp L cap docs scores it Q" and de: "descending Q"
  obtains (none) "find_first flt True = INVALID_ID" "tested Q = []"
  | (miss) it' where "find_first flt True \<noteq> INVALID_ID"
      "unionIterate True sp (posting_array True cap docs scores) it (find_first flt True) = Some (False, it')" "tested Q = []"
  | (hit) it' q' Q' where "find_first flt True \<noteq> INVALID_ID"
      "unionIterate True sp (posting_array True cap docs scores) it (find_first flt True) = Some (True, it')"
      "it_at True sp L cap docs scores it' (q' # Q')" "posting_at it' = q'" "descending (q' # Q')" "tested Q = tested (q' # Q')"
      "dropWhile (behind True (find_first flt True)) Q = q' # Q'"
proof -
  let ?e = "find_first flt True"
  have f: "?e \<noteq> INVALID_ID \<and> fst x \<le> ?e" if "x \<in> set Q" "test flt (fst x)" for x
    using first [of "fst x" True] that de by (auto simp: descending_def LESS_THAN_def not_less)
  have t: "tested (dropWhile (behind True ?e) Q) = tested Q" using f by (intro tested_drop) blast
  show thesis
  proof (cases "?e = INVALID_ID")
    case True
    with f show ?thesis by (intro none) (auto simp: filter_empty_conv)
  next
    case False
    then have p: "?e < 2 ^ 31" using first_int by blast
    show ?thesis
    proof (rule attr_iter.step_cases [OF it p])
      fix it' q' Q'
      assume h: "unionIterate True sp (posting_array True cap docs scores) it ?e = Some (True, it')"
        "it_at True sp L cap docs scores it' (q' # Q')" "posting_at it' = q'" "dropWhile (behind True ?e) Q = q' # Q'"
      then have "descending (q' # Q')" using descending_dropWhile [OF de, of "behind True ?e"] by simp
      with hit [OF False h(1-3)] h(4) t show ?thesis by simp
    next
      fix it' assume h: "unionIterate True sp (posting_array True cap docs scores) it ?e = Some (False, it')" "dropWhile (behind True ?e) Q = []"
      then have "tested Q = []" using t by (metis filter.simps(1))
      then show ?thesis by (rule miss [OF False h(1)])
    qed
  qed
qed

lemma retrieve_single_ok:
  assumes inv: "attr_inv idx L pss ts" and r: "reversed idx = True" and k: "k < length ts"
  shows "retrieve_single junk idx (of_nat k) flt minDf hits ([], []) =
    Some (results (at_most (unat (min minDf hits)) (tested (rev (ts ! k)))))"
proof -
  have "readable idx (of_nat k)" using r by (simp add: readable_def)
  from it_start_ok [OF inv k this, of junk] obtain cap docs scores it where
    it: "it_start junk idx (of_nat k) = Some (posting_array True cap docs scores, it)"
      "it_at True (segmentPool idx) L cap docs scores it (rev (ts ! k))"
    unfolding r by (auto simp: index_order_def)
  have "wf_postings (ts ! k)" using inv k by (simp add: attr_inv_def)
  then have de: "descending (rev (ts ! k))" by (rule descending_rev)
  have e: "([], []) = results []" by (simp add: results_def)
  show ?thesis
  proof (rule first_posting [OF it(2) de])
    fix it' q' Q'
    assume h: "find_first flt True \<noteq> INVALID_ID"
      "unionIterate True (segmentPool idx) (posting_array True cap docs scores) it (find_first flt True) = Some (True, it')"
      "it_at True (segmentPool idx) L cap docs scores it' (q' # Q')" "posting_at it' = q'" "descending (q' # Q')"
      "tested (rev (ts ! k)) = tested (q' # Q')"
    have id: "it_docid it' = fst q'" using h(4) by auto
    show ?thesis
    proof (cases "awaited (fst q') = INVALID_ID")
      case True
      with awaited_none [OF h(5) True] h r it(1) id show ?thesis
        by (simp add: retrieve_single_def awaited_def [symmetric] results_def at_most_def)
    next
      case False
      define len where "len = unat (min minDf hits)"
      have "single_loop True (segmentPool idx) flt (posting_array True cap docs scores) len it' (awaited (fst q')) (results []) =
          Some (results (at_most len (tested (rev (ts ! k)))))"
        using single_loop_ok [OF h(3,4,5) False, of len "[]"] by (cases "len = 0") (simp_all add: at_most_def h(6))
      then show ?thesis using h(1,2) r it(1) id False
        by (simp add: retrieve_single_def awaited_def [symmetric] e len_def del: min_def)
    qed
  qed (use it(1) r in \<open>simp_all add: retrieve_single_def results_def at_most_def\<close>)
qed

end

subsection \<open>Two terms\<close>

text \<open>The docids in both lists that the filter lets through, with their weighted scores.\<close>

definition pair_score :: "int \<Rightarrow> int \<Rightarrow> u32 \<Rightarrow> u32 \<Rightarrow> nat" where
  "pair_score w0 w1 s0 s1 = to_float (unat (s0 * of_int w0 + s1 * of_int w1))"

definition pair_hit :: "FilterBase \<Rightarrow> int \<Rightarrow> int \<Rightarrow> posting list \<Rightarrow> posting \<Rightarrow> (u32 \<times> nat) list" where
  "pair_hit flt w0 w1 Q1 x = (case map_of Q1 (fst x) of
       Some s1 \<Rightarrow> if test flt (fst x) then [(fst x, pair_score w0 w1 (snd x) s1)] else []
     | None \<Rightarrow> [])"

definition pair_hits :: "FilterBase \<Rightarrow> int \<Rightarrow> int \<Rightarrow> posting list \<Rightarrow> posting list \<Rightarrow> (u32 \<times> nat) list" where
  "pair_hits flt w0 w1 Q0 Q1 = concat (map (pair_hit flt w0 w1 Q1) Q0)"

lemma pair_hit_none: "(test flt (fst x) \<Longrightarrow> fst x \<notin> fst ` set Q1) \<Longrightarrow> pair_hit flt w0 w1 Q1 x = []"
  by (auto simp: pair_hit_def map_of_eq_None_iff [symmetric] split: option.split)

lemma pair_hits_none: "(\<And>x. x \<in> set Q0 \<Longrightarrow> test flt (fst x) \<Longrightarrow> fst x \<notin> fst ` set Q1) \<Longrightarrow> pair_hits flt w0 w1 Q0 Q1 = []"
  by (auto simp: pair_hits_def intro!: pair_hit_none)

lemma pair_hits_drop0:
  assumes "\<And>x. x \<in> set Q0 \<Longrightarrow> P x \<Longrightarrow> test flt (fst x) \<Longrightarrow> fst x \<notin> fst ` set Q1"
  shows "pair_hits flt w0 w1 (dropWhile P Q0) Q1 = pair_hits flt w0 w1 Q0 Q1"
  using assms
proof (induction Q0)
  case (Cons x Q0)
  then show ?case using pair_hit_none [of flt x Q1] by (auto simp: pair_hits_def)
qed simp

lemma pair_hits_cong:
  assumes "\<And>x. x \<in> set Q0 \<Longrightarrow> map_of Q1 (fst x) = map_of Q1' (fst x)"
  shows "pair_hits flt w0 w1 Q0 Q1 = pair_hits flt w0 w1 Q0 Q1'"
  unfolding pair_hits_def by (rule arg_cong [of _ _ concat], rule map_cong) (auto simp: pair_hit_def assms)

lemma map_of_dropWhile: "(\<And>x. x \<in> set Q \<Longrightarrow> P x \<Longrightarrow> fst x \<noteq> d) \<Longrightarrow> map_of (dropWhile P Q) d = map_of Q d"
  by (induction Q) auto

lemma pair_hits_drop1:
  assumes "\<And>x. x \<in> set Q1 \<Longrightarrow> P x \<Longrightarrow> fst x \<notin> fst ` set Q0"
  shows "pair_hits flt w0 w1 Q0 (dropWhile P Q1) = pair_hits flt w0 w1 Q0 Q1"
  by (rule pair_hits_cong, rule map_of_dropWhile) (use assms in force)

lemma pair_hits_Cons:
  assumes "descending (q0 # Q0)" "fst q1 = fst q0"
  shows "pair_hits flt w0 w1 (q0 # Q0) (q1 # Q1) =
    (if test flt (fst q0) then [(fst q0, pair_score w0 w1 (snd q0) (snd q1))] else []) @ pair_hits flt w0 w1 Q0 Q1"
proof -
  have "pair_hits flt w0 w1 Q0 (q1 # Q1) = pair_hits flt w0 w1 Q0 Q1"
    by (rule pair_hits_cong) (use assms in \<open>auto simp: descending_Cons\<close>)
  then show ?thesis using assms(2) by (cases q0; cases q1) (simp add: pair_hits_def pair_hit_def)
qed

definition pair_results :: "(u32 \<times> nat) list \<Rightarrow> result_lists" where
  "pair_results zs = (map fst zs, map snd zs)"

text \<open>The three cases of a round.\<close>

definition pair_round ::
  "FilterBase \<Rightarrow> SegmentPool \<Rightarrow> u32 list \<Rightarrow> u32 list \<Rightarrow> int \<Rightarrow> int \<Rightarrow> u32 \<Rightarrow> posting_iter \<Rightarrow> posting_iter \<Rightarrow> u32 \<Rightarrow> result_lists \<Rightarrow> result_lists option" where
  "pair_round flt sp buf0 buf1 w0 w1 hits it0 it1 e res = do {
     (ok0, it0') \<leftarrow> unionIterate True sp buf0 it0 e;
     if \<not> ok0 then Some res
     else do {
       (ok1, it1') \<leftarrow> unionIterate True sp buf1 it1 (it_docid it0');
       if \<not> ok1 then Some res else pair_loop True sp flt buf0 buf1 w0 w1 hits it0' it1' res
     }
   }"

lemma pair_loop_unfold:
  assumes "it_docid it0 = d" "it_docid it1 = d"
  shows "pair_loop True sp flt buf0 buf1 w0 w1 hits it0 it1 res =
    (let res1 = (if test flt d then (fst res @ [d], snd res @ [to_float (unat (it_score it0 * of_int w0 + it_score it1 * of_int w1))]) else res)
     in if test flt d \<and> length (fst res1) = unat hits \<or> find_next flt d True = INVALID_ID then Some res1
        else pair_round flt sp buf0 buf1 w0 w1 hits it0 it1 (find_next flt d True) res1)"
  unfolding pair_round_def Let_def by (subst pair_loop.simps) (simp only: Let_def assms if_True simp_thms)

lemma pair_loop_equal:
  assumes "posting_at it0 = q0" "posting_at it1 = q1" "fst q0 = fst q1"
  shows "pair_loop True sp flt buf0 buf1 w0 w1 hits it0 it1 (pair_results acc) =
    (let acc1 = acc @ (if test flt (fst q0) then [(fst q0, pair_score w0 w1 (snd q0) (snd q1))] else [])
     in if test flt (fst q0) \<and> length acc1 = unat hits \<or> find_next flt (fst q0) True = INVALID_ID then Some (pair_results acc1)
        else pair_round flt sp buf0 buf1 w0 w1 hits it0 it1 (find_next flt (fst q0) True) (pair_results acc1))"
proof -
  have q: "it_docid it0 = fst q0" "it_docid it1 = fst q0" "it_score it0 = snd q0" "it_score it1 = snd q1" using assms by auto
  show ?thesis by (cases "test flt (fst q0)") (simp_all add: pair_loop_unfold [OF q(1,2)] q(3,4) pair_results_def pair_score_def Let_def)
qed

lemma pair_loop_less:
  assumes "it_docid it1 < it_docid it0"
  shows "pair_loop True sp flt buf0 buf1 w0 w1 hits it0 it1 res = do {
      (ok0, it0') \<leftarrow> unionIterate True sp buf0 it0 (it_docid it1);
      if \<not> ok0 then Some res else pair_loop True sp flt buf0 buf1 w0 w1 hits it0' it1 res }"
proof -
  have "it_docid it0 \<noteq> it_docid it1" using assms by auto
  with assms show ?thesis by (subst pair_loop.simps) (simp add: LESS_THAN_def Let_def)
qed

lemma pair_loop_greater:
  assumes "it_docid it0 < it_docid it1"
  shows "pair_loop True sp flt buf0 buf1 w0 w1 hits it0 it1 res = do {
      (ok1, it1') \<leftarrow> unionIterate True sp buf1 it1 (it_docid it0);
      if \<not> ok1 then Some res else pair_loop True sp flt buf0 buf1 w0 w1 hits it0 it1' res }"
proof -
  have "it_docid it0 \<noteq> it_docid it1" "\<not> it_docid it1 < it_docid it0" using assms by auto
  then show ?thesis by (subst pair_loop.simps) (simp add: LESS_THAN_def Let_def)
qed

lemma pair_drop_above:
  assumes "descending Q0" "descending Q1" "\<forall>x \<in> set Q1. fst x \<le> d"
  shows "pair_hits flt w0 w1 (dropWhile (behind True d) Q0) Q1 = pair_hits flt w0 w1 Q0 Q1"
    and "pair_hits flt w0 w1 Q1 (dropWhile (behind True d) Q0) = pair_hits flt w0 w1 Q1 Q0"
proof -
  have "fst x \<notin> fst ` set Q1" if "behind True d x" for x
    using assms(3) that by (force simp: LESS_THAN_def)
  then show "pair_hits flt w0 w1 (dropWhile (behind True d) Q0) Q1 = pair_hits flt w0 w1 Q0 Q1"
    "pair_hits flt w0 w1 Q1 (dropWhile (behind True d) Q0) = pair_hits flt w0 w1 Q1 Q0"
    by (auto intro!: pair_hits_drop0 pair_hits_drop1)
qed

lemma descending_le: "descending (q # Q) \<Longrightarrow> \<forall>x \<in> set (q # Q). fst x \<le> fst q"
  by (auto simp: descending_Cons)

context doc_filter
begin

lemma pair_round_ok:
  assumes it: "it_at True sp L cap0 docs0 scores0 it0 (q0 # Q0)" "it_at True sp L cap1 docs1 scores1 it1 (q1 # Q1)"
    and de: "descending (q0 # Q0)" "descending (q1 # Q1)" and eq: "fst q0 = fst q1" and n: "find_next flt (fst q0) True \<noteq> INVALID_ID"
    and loop: "\<And>it0' it1' q0' Q0' q1' Q1'. length Q0' + length Q1' < length Q0 + length Q1 \<Longrightarrow>
      it_at True sp L cap0 docs0 scores0 it0' (q0' # Q0') \<Longrightarrow> it_at True sp L cap1 docs1 scores1 it1' (q1' # Q1') \<Longrightarrow>
      posting_at it0' = q0' \<Longrightarrow> posting_at it1' = q1' \<Longrightarrow> descending (q0' # Q0') \<Longrightarrow> descending (q1' # Q1') \<Longrightarrow>
      pair_loop True sp flt (posting_array True cap0 docs0 scores0) (posting_array True cap1 docs1 scores1) w0 w1 hits it0' it1' (pair_results acc) =
        Some (f (pair_hits flt w0 w1 (q0' # Q0') (q1' # Q1')))"
    and none: "f [] = pair_results acc"
  shows "pair_round flt sp (posting_array True cap0 docs0 scores0) (posting_array True cap1 docs1 scores1) w0 w1 hits it0 it1
    (find_next flt (fst q0) True) (pair_results acc) = Some (f (pair_hits flt w0 w1 Q0 Q1))"
proof -
  let ?e = "find_next flt (fst q0) True"
  let ?b0 = "posting_array True cap0 docs0 scores0" and ?b1 = "posting_array True cap1 docs1 scores1"
  have d: "is_docid (fst q0)" "\<forall>x \<in> set Q0. fst x < fst q0 \<and> is_docid (fst x)" "descending Q0" "descending Q1"
    using de by (auto simp: descending_Cons descending_def)
  have p: "?e < 2 ^ 31" "?e < fst q0" using next_pivot [OF d(1) n] by simp_all
  have dq: "dropWhile (behind True ?e) (q0 # Q0) = dropWhile (behind True ?e) Q0" using p(2) by (simp add: LESS_THAN_def)
  have t: "pair_hits flt w0 w1 (dropWhile (behind True ?e) Q0) Q1 = pair_hits flt w0 w1 Q0 Q1"
  proof (rule pair_hits_drop0)
    fix x assume x: "x \<in> set Q0" "behind True ?e x" "test flt (fst x)"
    then have "fst x \<le> ?e" using next_below(2) [OF d(1)] d(2) by blast
    with x(2) show "fst x \<notin> fst ` set Q1" by (simp add: LESS_THAN_def)
  qed
  show ?thesis
  proof (rule attr_iter.step_cases [OF it(1) p(1)])
    fix it0' q0' Q0'
    assume h0: "unionIterate True sp ?b0 it0 ?e = Some (True, it0')" "it_at True sp L cap0 docs0 scores0 it0' (q0' # Q0')"
      "posting_at it0' = q0'" "dropWhile (behind True ?e) (q0 # Q0) = q0' # Q0'"
    have dr: "dropWhile (behind True ?e) Q0 = q0' # Q0'" using h0(4) dq by simp
    have de0: "descending (q0' # Q0')" using descending_dropWhile [OF d(3)] dr by metis
    have q0': "q0' \<in> set Q0" using dr by (metis list.set_intros(1) set_dropWhileD)
    have sh: "length Q0' < length Q0" using length_dropWhile_le [of "behind True ?e" Q0] dr by simp
    have id: "it_docid it0' = fst q0'" using h0(3) by auto
    have p1: "fst q0' < 2 ^ 31" "behind True (fst q0') q1" using d(2) q0' eq by (auto simp: LESS_THAN_def)
    then have dq1: "dropWhile (behind True (fst q0')) (q1 # Q1) = dropWhile (behind True (fst q0')) Q1" by simp
    have t1: "pair_hits flt w0 w1 (q0' # Q0') (dropWhile (behind True (fst q0')) Q1) = pair_hits flt w0 w1 Q0 Q1"
      using pair_drop_above(2) [OF d(4) de0 descending_le [OF de0]] t dr by simp
    show ?thesis
    proof (rule attr_iter.step_cases [OF it(2) p1(1)])
      fix it1' q1' Q1'
      assume h1: "unionIterate True sp ?b1 it1 (fst q0') = Some (True, it1')" "it_at True sp L cap1 docs1 scores1 it1' (q1' # Q1')"
        "posting_at it1' = q1'" "dropWhile (behind True (fst q0')) (q1 # Q1) = q1' # Q1'"
      have dr1: "dropWhile (behind True (fst q0')) Q1 = q1' # Q1'" using h1(4) dq1 by simp
      have de1: "descending (q1' # Q1')" using descending_dropWhile [OF d(4)] dr1 by metis
      have "length Q1' < length Q1" using length_dropWhile_le [of "behind True (fst q0')" Q1] dr1 by simp
      with sh have "length Q0' + length Q1' < length Q0 + length Q1" by simp
      from loop [OF this h0(2) h1(2) h0(3) h1(3) de0 de1] h0(1) h1(1) id t1 dr1 show ?thesis by (simp add: pair_round_def)
    next
      fix it1' assume h1: "unionIterate True sp ?b1 it1 (fst q0') = Some (False, it1')" "dropWhile (behind True (fst q0')) (q1 # Q1) = []"
      have "pair_hits flt w0 w1 Q0 Q1 = []"
        using t1 h1(2) dq1 pair_hits_none [of "q0' # Q0'" flt "[]"] by (metis empty_iff empty_set image_empty)
      then show ?thesis using h0(1) h1(1) id none by (simp add: pair_round_def)
    qed
  next
    fix it0' assume h0: "unionIterate True sp ?b0 it0 ?e = Some (False, it0')" "dropWhile (behind True ?e) (q0 # Q0) = []"
    have "pair_hits flt w0 w1 Q0 Q1 = []" using t h0(2) dq by (metis concat.simps(1) list.map(1) pair_hits_def)
    then show ?thesis using h0(1) none by (simp add: pair_round_def)
  qed
qed

lemma pair_loop_ok:
  assumes "it_at True sp L cap0 docs0 scores0 it0 (q0 # Q0)" "it_at True sp L cap1 docs1 scores1 it1 (q1 # Q1)"
    "posting_at it0 = q0" "posting_at it1 = q1" "descending (q0 # Q0)" "descending (q1 # Q1)" "unat hits = 0 \<or> length acc < unat hits"
  shows "pair_loop True sp flt (posting_array True cap0 docs0 scores0) (posting_array True cap1 docs1 scores1) w0 w1 hits it0 it1 (pair_results acc) =
    Some (pair_results (up_to (unat hits) acc (pair_hits flt w0 w1 (q0 # Q0) (q1 # Q1))))"
  using assms
proof (induction "length Q0 + length Q1" arbitrary: it0 it1 q0 Q0 q1 Q1 acc rule: less_induct)
  case less
  let ?b0 = "posting_array True cap0 docs0 scores0" and ?b1 = "posting_array True cap1 docs1 scores1"
  have id: "it_docid it0 = fst q0" "it_docid it1 = fst q1" using less.prems(3,4) by auto
  have d: "is_docid (fst q0)" "is_docid (fst q1)" using less.prems(5,6) by (simp_all add: descending_Cons)
  consider (eq) "fst q0 = fst q1" | (behind0) "fst q1 < fst q0" | (behind1) "fst q0 < fst q1" by fastforce
  then show ?case
  proof cases
    case eq
    define acc1 where "acc1 = acc @ (if test flt (fst q0) then [(fst q0, pair_score w0 w1 (snd q0) (snd q1))] else [])"
    have l: "pair_loop True sp flt ?b0 ?b1 w0 w1 hits it0 it1 (pair_results acc) =
      (if test flt (fst q0) \<and> length acc1 = unat hits \<or> find_next flt (fst q0) True = INVALID_ID then Some (pair_results acc1)
       else pair_round flt sp ?b0 ?b1 w0 w1 hits it0 it1 (find_next flt (fst q0) True) (pair_results acc1))"
      unfolding pair_loop_equal [OF less.prems(3,4) eq] acc1_def Let_def ..
    have z: "up_to (unat hits) acc (pair_hits flt w0 w1 (q0 # Q0) (q1 # Q1)) = up_to (unat hits) acc1 (pair_hits flt w0 w1 Q0 Q1)"
      using pair_hits_Cons [OF less.prems(5) eq [symmetric], of flt w0 w1 Q1] up_to_snoc [OF less.prems(7)] by (simp add: acc1_def)
    show ?thesis
    proof (cases "test flt (fst q0) \<and> length acc1 = unat hits \<or> find_next flt (fst q0) True = INVALID_ID")
      case True
      have "up_to (unat hits) acc1 (pair_hits flt w0 w1 Q0 Q1) = acc1"
        using True
      proof
        assume f: "find_next flt (fst q0) True = INVALID_ID"
        have "pair_hits flt w0 w1 Q0 Q1 = []"
          using next_below(1) [OF d(1)] less.prems(5) f by (intro pair_hits_none) (auto simp: descending_def)
        then show ?thesis by simp
      qed (auto simp: up_to_full acc1_def)
      with True l z show ?thesis by simp
    next
      case False
      then have a: "unat hits = 0 \<or> length acc1 < unat hits" using less.prems(7) by (auto simp: acc1_def)
      have "pair_round flt sp ?b0 ?b1 w0 w1 hits it0 it1 (find_next flt (fst q0) True) (pair_results acc1) =
          Some (pair_results (up_to (unat hits) acc1 (pair_hits flt w0 w1 Q0 Q1)))"
        by (rule pair_round_ok [OF less.prems(1,2,5,6) eq]) (use False less.hyps a in auto)
      with False l z show ?thesis by auto
    qed
  next
    case behind0
    have lp: "it_docid it1 < it_docid it0" using behind0 id by simp
    have p: "fst q1 < 2 ^ 31" using d(2) by simp
    have dq: "dropWhile (behind True (fst q1)) (q0 # Q0) = dropWhile (behind True (fst q1)) Q0" using behind0 by (simp add: LESS_THAN_def)
    have t: "pair_hits flt w0 w1 (dropWhile (behind True (fst q1)) (q0 # Q0)) (q1 # Q1) = pair_hits flt w0 w1 (q0 # Q0) (q1 # Q1)"
      by (rule pair_drop_above(1) [OF less.prems(5,6) descending_le [OF less.prems(6)]])
    show ?thesis
    proof (rule attr_iter.step_cases [OF less.prems(1) p])
      fix it0' q0' Q0'
      assume h: "unionIterate True sp ?b0 it0 (fst q1) = Some (True, it0')" "it_at True sp L cap0 docs0 scores0 it0' (q0' # Q0')"
        "posting_at it0' = q0'" "dropWhile (behind True (fst q1)) (q0 # Q0) = q0' # Q0'"
      have de: "descending (q0' # Q0')" using descending_dropWhile [OF less.prems(5), of "behind True (fst q1)"] h(4) by simp
      have sh: "length Q0' + length Q1 < length Q0 + length Q1"
        using length_dropWhile_le [of "behind True (fst q1)" Q0, folded dq, unfolded h(4)] by simp
      from less.hyps [OF sh h(2) less.prems(2) h(3) less.prems(4) de less.prems(6,7)] t h(1,4) id show ?thesis by (simp add: pair_loop_less [OF lp])
    next
      fix it0' assume h: "unionIterate True sp ?b0 it0 (fst q1) = Some (False, it0')" "dropWhile (behind True (fst q1)) (q0 # Q0) = []"
      have "pair_hits flt w0 w1 (q0 # Q0) (q1 # Q1) = []" using t h(2) pair_hits_none [of "[]" flt "q1 # Q1" w0 w1] by simp
      then show ?thesis using h(1) id by (simp add: pair_loop_less [OF lp])
    qed
  next
    case behind1
    have lp: "it_docid it0 < it_docid it1" using behind1 id by simp
    have p: "fst q0 < 2 ^ 31" using d(1) by simp
    have dq: "dropWhile (behind True (fst q0)) (q1 # Q1) = dropWhile (behind True (fst q0)) Q1" using behind1 by (simp add: LESS_THAN_def)
    have t: "pair_hits flt w0 w1 (q0 # Q0) (dropWhile (behind True (fst q0)) (q1 # Q1)) = pair_hits flt w0 w1 (q0 # Q0) (q1 # Q1)"
      by (rule pair_drop_above(2) [OF less.prems(6,5) descending_le [OF less.prems(5)]])
    show ?thesis
    proof (rule attr_iter.step_cases [OF less.prems(2) p])
      fix it1' q1' Q1'
      assume h: "unionIterate True sp ?b1 it1 (fst q0) = Some (True, it1')" "it_at True sp L cap1 docs1 scores1 it1' (q1' # Q1')"
        "posting_at it1' = q1'" "dropWhile (behind True (fst q0)) (q1 # Q1) = q1' # Q1'"
      have de: "descending (q1' # Q1')" using descending_dropWhile [OF less.prems(6), of "behind True (fst q0)"] h(4) by simp
      have sh: "length Q0 + length Q1' < length Q0 + length Q1"
        using length_dropWhile_le [of "behind True (fst q0)" Q1, folded dq, unfolded h(4)] by simp
      from less.hyps [OF sh less.prems(1) h(2) less.prems(3) h(3) less.prems(5) de less.prems(7)] t h(1,4) id show ?thesis by (simp add: pair_loop_greater [OF lp])
    next
      fix it1' assume h: "unionIterate True sp ?b1 it1 (fst q0) = Some (False, it1')" "dropWhile (behind True (fst q0)) (q1 # Q1) = []"
      have "pair_hits flt w0 w1 (q0 # Q0) (q1 # Q1) = []" using t h(2) pair_hits_none [of "q0 # Q0" flt "[]" w0 w1] by simp
      then show ?thesis using h(1) id by (simp add: pair_loop_greater [OF lp])
    qed
  qed
qed

lemma intersectPostingsLists_ok:
  assumes inv: "attr_inv idx L pss ts" and r: "reversed idx = True" and k: "k0 < length ts" "k1 < length ts"
  shows "intersectPostingsLists junk idx flt (of_nat k0) (of_nat k1) w0 w1 ([], []) hits =
    Some (pair_results (up_to (unat hits) [] (pair_hits flt w0 w1 (rev (ts ! k0)) (rev (ts ! k1)))))"
proof -
  let ?Q0 = "rev (ts ! k0)" and ?Q1 = "rev (ts ! k1)" and ?e = "find_first flt True" and ?sp = "segmentPool idx"
  have "readable idx (of_nat k0)" "readable idx (of_nat k1)" using r by (simp_all add: readable_def)
  from it_start_ok [OF inv k(1) this(1), of junk] it_start_ok [OF inv k(2) this(2), of junk]
  obtain cap0 docs0 scores0 it0 cap1 docs1 scores1 it1 where
    it0: "it_start junk idx (of_nat k0) = Some (posting_array True cap0 docs0 scores0, it0)" "it_at True ?sp L cap0 docs0 scores0 it0 ?Q0" and
    it1: "it_start junk idx (of_nat k1) = Some (posting_array True cap1 docs1 scores1, it1)" "it_at True ?sp L cap1 docs1 scores1 it1 ?Q1"
    unfolding r by (auto simp: index_order_def)
  have de: "descending ?Q0" "descending ?Q1" using inv k by (auto simp: attr_inv_def intro: descending_rev)
  have e: "([], []) = pair_results []" by (simp add: pair_results_def)
  have none: "pair_hits flt w0 w1 ?Q0 ?Q1 = []" if "tested ?Q0 = []"
    using that by (intro pair_hits_none) (auto simp: filter_empty_conv)
  show ?thesis
  proof (rule first_posting [OF it0(2) de(1)])
    fix it0' q0 Q0
    assume h: "?e \<noteq> INVALID_ID" "unionIterate True ?sp (posting_array True cap0 docs0 scores0) it0 ?e = Some (True, it0')"
      "it_at True ?sp L cap0 docs0 scores0 it0' (q0 # Q0)" "posting_at it0' = q0" "descending (q0 # Q0)"
      "dropWhile (behind True ?e) ?Q0 = q0 # Q0"
    have id: "it_docid it0' = fst q0" "fst q0 < 2 ^ 31" using h(4,5) by (auto simp: descending_Cons)
    have "pair_hits flt w0 w1 (dropWhile (behind True ?e) ?Q0) ?Q1 = pair_hits flt w0 w1 ?Q0 ?Q1"
    proof (rule pair_hits_drop0)
      fix x assume x: "x \<in> set ?Q0" "behind True ?e x" "test flt (fst x)"
      then have "is_docid (fst x)" using de(1) by (simp add: descending_def)
      from first [OF this x(3), of True] x(2) show "fst x \<notin> fst ` set ?Q1" by simp
    qed
    then have z: "pair_hits flt w0 w1 (q0 # Q0) (dropWhile (behind True (fst q0)) ?Q1) = pair_hits flt w0 w1 ?Q0 ?Q1"
      using pair_drop_above(2) [OF de(2) h(5) descending_le [OF h(5)]] h(6) by simp
    show ?thesis
    proof (rule attr_iter.step_cases [OF it1(2) id(2)])
      fix it1' q1 Q1
      assume h1: "unionIterate True ?sp (posting_array True cap1 docs1 scores1) it1 (fst q0) = Some (True, it1')"
        "it_at True ?sp L cap1 docs1 scores1 it1' (q1 # Q1)" "posting_at it1' = q1" "dropWhile (behind True (fst q0)) ?Q1 = q1 # Q1"
      have "descending (q1 # Q1)" using descending_dropWhile [OF de(2), of "behind True (fst q0)"] h1(4) by simp
      from pair_loop_ok [OF h(3) h1(2) h(4) h1(3) h(5) this, of hits "[]" w0 w1] z h1(1,4) h(1,2) id(1) it0(1) it1(1) r
      show ?thesis by (auto simp: intersectPostingsLists_def e)
    next
      fix it1' assume h1: "unionIterate True ?sp (posting_array True cap1 docs1 scores1) it1 (fst q0) = Some (False, it1')"
        "dropWhile (behind True (fst q0)) ?Q1 = []"
      have "pair_hits flt w0 w1 ?Q0 ?Q1 = []" using z h1(2) pair_hits_none [of "q0 # Q0" flt "[]" w0 w1] by simp
      then show ?thesis using h1(1) h(1,2) id(1) it0(1) it1(1) r by (simp add: intersectPostingsLists_def e)
    qed
  qed (use none it0(1) it1(1) r in \<open>simp_all add: intersectPostingsLists_def e\<close>)
qed

end

text \<open>The order of the terms makes no difference.\<close>

lemma set_pair_hits:
  assumes "descending Q1"
  shows "set (pair_hits flt w0 w1 Q0 Q1) =
    {(d, pair_score w0 w1 s0 s1) | d s0 s1. (d, s0) \<in> set Q0 \<and> (d, s1) \<in> set Q1 \<and> test flt d}"
proof -
  have "distinct (map fst Q1)"
    using assms by (induction Q1) (auto simp: descending_Cons)
  then have "map_of Q1 d = Some s \<longleftrightarrow> (d, s) \<in> set Q1" for d s by simp
  then show ?thesis by (force simp: pair_hits_def pair_hit_def split: option.splits if_splits)
qed

lemma pair_hits_sorted: "descending Q0 \<Longrightarrow> sorted_wrt (\<lambda>x y. fst y < fst x) (pair_hits flt w0 w1 Q0 Q1)"
proof (induction Q0)
  case (Cons q Q0)
  have "fst x \<in> fst ` set Q0" if "x \<in> set (pair_hits flt w0 w1 Q0 Q1)" for x
    using that by (force simp: pair_hits_def pair_hit_def split: option.splits if_splits)
  with Cons show ?case
    by (fastforce simp: pair_hits_def [of _ _ _ "q # Q0"] pair_hits_def [symmetric] pair_hit_def descending_Cons sorted_wrt_append split: option.split)
qed (simp add: pair_hits_def)

lemma pair_hits_commute:
  assumes "descending Q0" "descending Q1"
  shows "pair_hits flt w0 w1 Q0 Q1 = pair_hits flt w1 w0 Q1 Q0"
proof -
  let ?a = "pair_hits flt w0 w1 Q0 Q1" and ?b = "pair_hits flt w1 w0 Q1 Q0"
  have "pair_score w0 w1 s0 s1 = pair_score w1 w0 s1 s0" for s0 s1 by (simp add: pair_score_def add.commute)
  then have "set ?a = set ?b" unfolding set_pair_hits [OF assms(1)] set_pair_hits [OF assms(2)] by auto
  moreover have "sorted_wrt (<) (rev ?a)" "sorted_wrt (<) (rev ?b)"
    unfolding sorted_wrt_rev
    by (rule sorted_wrt_mono_rel [OF _ pair_hits_sorted [OF assms(1)]], simp add: less_prod_def)
      (rule sorted_wrt_mono_rel [OF _ pair_hits_sorted [OF assms(2)]], simp add: less_prod_def)
  ultimately have "rev ?a = rev ?b" by (intro strict_sorted_equal) auto
  then show ?thesis by simp
qed

section \<open>Properties\<close>

text \<open>Looking up words in an index that stands for the abstract index \<open>A\<close>.\<close>

lemma distinct_docids:
  assumes "wf_postings P" shows "length P < 2 ^ 32"
proof -
  have "sorted_wrt (<) (map fst P)" using assms by (simp add: wf_postings_def)
  then have "distinct (map fst P)" by (simp add: strict_sorted_iff)
  moreover have "set (map fst P) \<subseteq> UNIV - {0}" using assms by (auto simp: wf_postings_def list_all_iff)
  ultimately have "length P \<le> card (UNIV - {0 :: u32})" by (metis card_mono distinct_card finite_code length_map finite_Diff)
  also have "\<dots> < 2 ^ 32" by (simp add: card_Diff_singleton card_word)
  finally show ?thesis .
qed

lemma attr_rep_lookup:
  assumes "attr_inv idx L pss ts" "abs_of (dictionary idx) ts wrd = Some P"
  obtains k where "k < length ts" "getTermId (dictionary idx) wrd = of_nat k" "(of_nat k :: u32) \<noteq> INVALID_ID" "P = ts ! k"
    "FixedCounter_get (df (pointers idx)) (of_nat k) = of_nat (length P)" "length P < 2 ^ 32"
proof -
  from assms(2) obtain i where i: "map_of (dictionary idx) wrd = Some i" "P = ts ! unat i" by (auto simp: abs_of_def)
  have a: "dict_ok (dictionary idx)" "length (dictionary idx) = length ts" "length ts \<le> vocab idx" "vocab idx < 2 ^ 32"
    using assms(1) by (simp_all add: attr_inv_def tables_ok_def)
  have k: "unat i < length ts" using dict_ok_map_of(1) [OF a(1) i(1)] a(2) by simp
  then have "term_ok idx L (unat i) (pss ! unat i) (ts ! unat i)" "wf_postings (ts ! unat i)" using assms(1) by (simp_all add: attr_inv_def)
  then have "FixedCounter_get (df (pointers idx)) (of_nat (unat i)) = of_nat (length P)" "length P < 2 ^ 32"
    using i(2) distinct_docids by (auto elim: term_okE)
  moreover have "i \<noteq> INVALID_ID" using k a(3,4) by (auto simp: INVALID_ID_def)
  moreover have "getTermId (dictionary idx) wrd = of_nat (unat i)" using i(1) by (simp add: getTermId_def)
  ultimately show thesis using that [OF k] i(2) by simp
qed

lemma attr_rep_unknown:
  assumes "attr_inv idx L pss ts" "abs_of (dictionary idx) ts wrd = None"
  shows "getTermId (dictionary idx) wrd = INVALID_ID"
  using assms(2) by (simp add: abs_of_def getTermId_def)

lemma sample_index:
  obtains idx where
    "insert_docs of_nat (\<lambda>i. i < 2) (AttrIndex_new of_nat 40000 3 3 True) [(3, [''a'', ''b''], [7, 8]), (5, [''b'', ''c''], [9, 1])] = Some idx"
    "attr_rep idx [''a'' \<mapsto> [(3, 7)], ''b'' \<mapsto> [(3, 8), (5, 9)]]" "reversed idx"
proof -
  let ?new = "AttrIndex_new of_nat 40000 3 3 True" and ?docs = "[(3, [''a'', ''b''], [7, 8]), (5, [''b'', ''c''], [9, 1])] :: document list"
  have "attr_rep ?new Map.empty" by (rule attr_rep_new) simp_all
  then have "\<exists>idx. insert_docs of_nat (\<lambda>i. i < 2) ?new ?docs = Some idx \<and> attr_rep idx (abs_docs (\<lambda>i. i < 2) ?docs Map.empty) \<and>
      reversed idx = reversed ?new \<and> totalDocNum idx = totalDocNum ?new + of_nat (length ?docs)"
    by (rule insert_docs_refines [where W = "{''a'', ''b'', ''c''}"]) (simp_all add: vocab_new pool_free_new words_fit_def card_insert_if)
  moreover have "abs_docs (\<lambda>i. i < 2) ?docs Map.empty = [''a'' \<mapsto> [(3, 7)], ''b'' \<mapsto> [(3, 8), (5, 9)]]"
    by (simp add: abs_docs_def abs_doc_def abs_insert_def)
  ultimately show thesis using that by (auto simp: AttrIndex_new_def)
qed

text \<open>C2. A query for one word on a reversed index answers as the abstract index does: the postings of the word, latest docid
  first, that the filter lets through, cut off at \<open>hits\<close>. With \<open>hits\<close> zero it is not cut off at all, and a word that is not in the index has no
  results. The filter is any that keeps the contract of \<open>find_first\<close> and \<open>find_next\<close>.\<close>

theorem retrieve_one_term:
  assumes "attr_rep idx A" and "reversed idx" and "doc_filter flt"
  shows "retrieve_attr junk idx SVS [(wrd, w)] flt hits ([], []) = Some (results (case A wrd of
      None \<Rightarrow> [] | Some P \<Rightarrow> at_most (unat hits) (filter (\<lambda>x. test flt (fst x)) (rev P))))"
proof -
  from assms(1) obtain L pss ts where inv: "attr_inv idx L pss ts" and A: "A = abs_of (dictionary idx) ts" by (auto simp: attr_rep_def)
  have r: "reversed idx = True" using assms(2) by simp
  show ?thesis
  proof (cases "A wrd")
    case None
    with attr_rep_unknown [OF inv] A show ?thesis by (simp add: retrieve_attr_def results_def)
  next
    case (Some P)
    from Some A have "abs_of (dictionary idx) ts wrd = Some P" by simp
    from attr_rep_lookup [OF inv this] obtain k where k: "k < length ts" "getTermId (dictionary idx) wrd = of_nat k"
      "(of_nat k :: u32) \<noteq> INVALID_ID" "P = ts ! k" "FixedCounter_get (df (pointers idx)) (of_nat k) = of_nat (length P)" "length P < 2 ^ 32" .
    let ?z = "filter (\<lambda>x. test flt (fst x)) (rev P)"
    have "length ?z \<le> length P" by (metis length_filter_le length_rev)
    moreover have "unat (min (of_nat (length P)) hits) = min (length P) (unat hits)"
      using k(6) by (simp add: min_def word_le_nat_alt unat_of_nat32)
    ultimately have "at_most (unat (min (of_nat (length P)) hits)) ?z = at_most (unat hits) ?z"
      by (cases "length P = 0") (auto simp: at_most_def min_def)
    moreover have "min (of_nat (length P)) (0xFFFFFFFF :: u32) = of_nat (length P)"
      using u32_less [of "of_nat (length P)"] by (simp add: min_def word_le_nat_alt)
    ultimately show ?thesis
      using doc_filter.retrieve_single_ok [OF assms(3) inv r k(1), of junk "of_nat (length P)" hits] k(2-5) Some
      by (simp add: retrieve_attr_def intersectSvS_def)
  qed
qed

theorem retrieve_one_term_witness:
  "\<exists>idx. insert_docs of_nat (\<lambda>i. i < 2) (AttrIndex_new of_nat 40000 3 3 True) [(3, [''a'', ''b''], [7, 8]), (5, [''b'', ''c''], [9, 1])] = Some idx \<and>
    retrieve_attr of_nat idx SVS [(''b'', 1)] FilterBase_default 1 ([], []) = Some (results [(5, 9)])"
proof -
  obtain idx where i: "insert_docs of_nat (\<lambda>i. i < 2) (AttrIndex_new of_nat 40000 3 3 True)
      [(3, [''a'', ''b''], [7, 8]), (5, [''b'', ''c''], [9, 1])] = Some idx"
    "attr_rep idx [''a'' \<mapsto> [(3, 7)], ''b'' \<mapsto> [(3, 8), (5, 9)]]" "reversed idx" by (rule sample_index)
  from retrieve_one_term [OF i(2,3) default_filter.doc_filter_axioms, of of_nat "''b''" 1 1] i(1) show ?thesis
    by (simp add: FilterBase_default_def at_most_def)
qed

text \<open>C3. A query for two words on a reversed index gives the docids both words have, latest first, that the filter lets
  through, each with the weighted sum of its scores in 32-bit arithmetic, cut off at \<open>hits\<close>, whatever the order
  of the words.\<close>

theorem retrieve_two_terms:
  assumes "attr_rep idx A" and "reversed idx" and "doc_filter flt" and "A wrd0 = Some P0" and "A wrd1 = Some P1"
  shows "retrieve_attr junk idx SVS [(wrd0, w0), (wrd1, w1)] flt hits ([], []) =
    Some (pair_results (take (unat hits) (pair_hits flt w0 w1 (rev P0) (rev P1))))"
proof -
  from assms(1) obtain L pss ts where inv: "attr_inv idx L pss ts" and A: "A = abs_of (dictionary idx) ts" by (auto simp: attr_rep_def)
  have r: "reversed idx = True" using assms(2) by simp
  from attr_rep_lookup [OF inv, of wrd0 P0] assms(4) A obtain k0 where k0: "k0 < length ts" "getTermId (dictionary idx) wrd0 = of_nat k0"
    "(of_nat k0 :: u32) \<noteq> INVALID_ID" "P0 = ts ! k0" by metis
  from attr_rep_lookup [OF inv, of wrd1 P1] assms(5) A obtain k1 where k1: "k1 < length ts" "getTermId (dictionary idx) wrd1 = of_nat k1"
    "(of_nat k1 :: u32) \<noteq> INVALID_ID" "P1 = ts ! k1" by metis
  have de: "descending (rev P0)" "descending (rev P1)"
    using inv k0(1,4) k1(1,4) by (auto simp: attr_inv_def intro: descending_rev)
  have cut: "(if unat hits < length (fst (pair_results (up_to (unat hits) [] zs)))
      then (take (unat hits) (fst (pair_results (up_to (unat hits) [] zs))), take (unat hits) (snd (pair_results (up_to (unat hits) [] zs))))
      else pair_results (up_to (unat hits) [] zs)) = pair_results (take (unat hits) zs)" for zs
    by (auto simp: pair_results_def up_to_def take_map)
  note q = doc_filter.intersectPostingsLists_ok [OF assms(3) inv r]
  have "intersectSvS junk idx [(of_nat k0, w0), (of_nat k1, w1)] flt m hits ([], []) =
      Some (pair_results (take (unat hits) (pair_hits flt w0 w1 (rev P0) (rev P1))))"
    "intersectSvS junk idx [(of_nat k1, w1), (of_nat k0, w0)] flt m hits ([], []) =
      Some (pair_results (take (unat hits) (pair_hits flt w0 w1 (rev P0) (rev P1))))" for m
    using q [OF k0(1) k1(1), of junk w0 w1 hits] q [OF k1(1) k0(1), of junk w1 w0 hits] k0(4) k1(4) pair_hits_commute [OF de, of flt w0 w1] cut
    by (simp_all add: intersectSvS_def)
  then show ?thesis using k0(2,3) k1(2,3) by (simp add: retrieve_attr_def Let_def)
qed

theorem retrieve_two_terms_witness:
  "\<exists>idx. insert_docs of_nat (\<lambda>i. i < 2) (AttrIndex_new of_nat 40000 3 3 True) [(3, [''a'', ''b''], [7, 8]), (5, [''b'', ''c''], [9, 1])] = Some idx \<and>
    retrieve_attr of_nat idx SVS [(''b'', 2), (''a'', - 1)] FilterBase_default 4 ([], []) = Some (pair_results [(3, pair_score 2 (- 1) 8 7)])"
proof -
  obtain idx where i: "insert_docs of_nat (\<lambda>i. i < 2) (AttrIndex_new of_nat 40000 3 3 True)
      [(3, [''a'', ''b''], [7, 8]), (5, [''b'', ''c''], [9, 1])] = Some idx"
    "attr_rep idx [''a'' \<mapsto> [(3, 7)], ''b'' \<mapsto> [(3, 8), (5, 9)]]" "reversed idx" by (rule sample_index)
  have "retrieve_attr of_nat idx SVS [(''b'', 2), (''a'', - 1)] FilterBase_default 4 ([], []) =
      Some (pair_results (take (unat (4 :: u32)) (pair_hits FilterBase_default 2 (- 1) (rev [(3, 8), (5, 9)]) (rev [(3, 7)]))))"
    by (rule retrieve_two_terms [OF i(2,3) default_filter.doc_filter_axioms]) simp_all
  with i(1) show ?thesis by (simp add: pair_hits_def pair_hit_def FilterBase_default_def)
qed

text \<open>C33. In a forward index a term whose buffer is empty, as every buffer is right after it was written out, cannot be read to
  its end: behind the last block \<open>unionIterate_\<close> reads the last docid of the buffer before it checks that there is one, at a
  position that is off by \<open>2 ^ 32\<close>.\<close>

theorem empty_buffer_wild_read:
  assumes "\<not> reversed idx" and "getBuffer (bufferMaps idx) tid = Some (Some buf)" and "rd buf 0 = Some c" and "rd buf 1 = Some 0"
    and "length buf \<le> 2 ^ 32"
    and "nextPointer_pivot (segmentPool idx) (FixedCounter_get (headPointers (pointers idx)) tid) pivot False = Some UNDEFINED_POINTER"
  shows "\<exists>it. it_start junk idx tid = Some (buf, it) \<and> unionIterate False (segmentPool idx) buf it pivot = None"
proof -
  define it where "it = \<lparr> in_buffer = False, docid_seg = map junk [0..<BP_BLOCK_SIZE + 15], score_seg = map junk [0..<BP_BLOCK_SIZE],
    it_count = 0, it_tail = 0, it_index = 0, it_pointer = FixedCounter_get (headPointers (pointers idx)) tid, it_docid = 0, it_score = 0 \<rparr>"
  have "it_start junk idx tid = Some (buf, it)" using assms(1-4) by (simp add: it_start_def it_def)
  moreover have "unat (- 1 :: u32) = 2 ^ 32 - 1" by (simp add: unsigned_minus_1_eq_mask mask_eq_exp_minus_1)
  then have "rd buf (4 + unat (- 1 :: u32)) = None" using assms(5) by (simp add: rd_def)
  ultimately show ?thesis using assms(4,6) by (simp add: unionIterate_def it_miss_def it_def)
qed

theorem empty_buffer_wild_read_witness:
  "let idx = AttrIndex_new of_nat 4096 1 1 False \<lparr> bufferMaps := (AttrScoreBufferMaps_new 1) \<lparr> buffer := [Some (posting_array False 16 [] [])] \<rparr> \<rparr>
   in \<exists>it. it_start of_nat idx 0 = Some (posting_array False 16 [] [], it) \<and>
     unionIterate False (segmentPool idx) (posting_array False 16 [] []) it 7 = None"
  unfolding Let_def
  by (rule empty_buffer_wild_read)
    (simp_all add: AttrIndex_new_def AttrScoreBufferMaps_new_def getBuffer_def rd_def posting_array_def half_def Pointers_new_def nextPointer_pivot_def)

text \<open>C32. A query for three or more words can return documents that one of the words does not occur in: when all documents of the
  third word come before the first result, \<open>intersectSetPostingsList_\<close> returns before it has cut the result lists
  down, and they stay as the first two words left them.\<close>

theorem third_term_ignored:
  assumes "attr_rep idx A" and "reversed idx" and "A wrd = Some P" and "\<forall>x \<in> set P. d < fst x" and "is_docid d"
  shows "intersectSetPostingsList junk idx cap (getTermId (dictionary idx) wrd) weight (d # ds, scores) = Some (d # ds, scores)"
proof -
  from assms(1) obtain L pss ts where inv: "attr_inv idx L pss ts" and A: "A = abs_of (dictionary idx) ts" by (auto simp: attr_rep_def)
  have r: "reversed idx = True" using assms(2) by simp
  from attr_rep_lookup [OF inv, of wrd P] assms(3) A obtain k where k: "k < length ts" "getTermId (dictionary idx) wrd = of_nat k" "P = ts ! k"
    by metis
  have "readable idx (of_nat k)" using r by (simp add: readable_def)
  from it_start_ok [OF inv k(1) this, of junk] obtain c docs sc it where
    it: "it_start junk idx (of_nat k) = Some (posting_array True c docs sc, it)" "it_at True (segmentPool idx) L c docs sc it (rev P)"
    unfolding r k(3) by (auto simp: index_order_def)
  have "dropWhile (behind True d) (rev P) = []" using assms(4) by (auto simp: dropWhile_eq_Nil_conv LESS_THAN_def)
  from attr_iter.step_miss [OF it(2) _ this] assms(5) it(1) k(2) r show ?thesis
    by (auto simp: intersectSetPostingsList_def rd_def)
qed

theorem third_term_ignored_witness:
  "\<exists>idx. insert_docs of_nat (\<lambda>i. i < 2) (AttrIndex_new of_nat 40000 3 3 True) [(3, [''a'', ''b''], [7, 8]), (5, [''b'', ''c''], [9, 1])] = Some idx \<and>
    intersectSetPostingsList of_nat idx 17 (getTermId (dictionary idx) ''a'') 1 ([2, 1], [5, 6]) = Some ([2, 1], [5, 6])"
proof -
  obtain idx where i: "insert_docs of_nat (\<lambda>i. i < 2) (AttrIndex_new of_nat 40000 3 3 True)
      [(3, [''a'', ''b''], [7, 8]), (5, [''b'', ''c''], [9, 1])] = Some idx"
    "attr_rep idx [''a'' \<mapsto> [(3, 7)], ''b'' \<mapsto> [(3, 8), (5, 9)]]" "reversed idx" by (rule sample_index)
  have "intersectSetPostingsList of_nat idx 17 (getTermId (dictionary idx) ''a'') 1 (2 # [1], [5, 6]) = Some (2 # [1], [5, 6])"
    by (rule third_term_ignored [OF i(2,3), where P = "[(3, 7)]"]) simp_all
  with i(1) show ?thesis by simp
qed

end
