(* ===== verification/Zambezi_Pos.thy ===== *)
theory Zambezi_Pos
  imports FastPFor Zambezi_Chains Zambezi_Bloom Zambezi_Tables Zambezi_Search
begin

text \<open>
  The positional inverted index (\<open>include/ir/Zambezi/PositionalInvertedIndex.hpp\<close>,
  \<open>source/ir/Zambezi/PositionalInvertedIndex.cpp\<close>) and its buffers (\<open>buffer/PositionalBufferMaps.cpp\<close>): docids, and for
  two of the index types term frequencies and positions, are kept in a growing vector per term and written out in blocks of 128
  with the FastPFor codec and a Bloom filter of their docids. The parameters are \<open>junk\<close>, the contents of fresh or unused
  memory, \<open>pad\<close> and \<open>cd\<close>, what the padding bytes and the exception vectors of a codec hold, \<open>accepts\<close>, the load-factor
  test of the dictionary's hash table, and \<open>F\<close>, the arithmetic of \<open>float\<close>.
\<close>

section \<open>Vectors\<close>

text \<open>A \<open>std::vector\<close> of which the source looks at the capacity, with the growth of libstdc++: doubling.\<close>

record vec =
  vcap :: nat
  velems :: "u32 list"

abbreviation vempty :: vec where
  "vempty \<equiv> \<lparr> vcap = 0, velems = [] \<rparr>"

definition vreserve :: "nat \<Rightarrow> vec \<Rightarrow> vec" where
  "vreserve n v = v \<lparr> vcap := max n (vcap v) \<rparr>"

definition vpush :: "u32 \<Rightarrow> vec \<Rightarrow> vec" where
  "vpush x v =
     \<lparr> vcap = (if length (velems v) < vcap v then vcap v else length (velems v) + max 1 (length (velems v))),
       velems = velems v @ [x] \<rparr>"

definition vresize :: "nat \<Rightarrow> vec \<Rightarrow> vec" where
  "vresize n v =
     \<lparr> vcap = (if n \<le> vcap v then vcap v else length (velems v) + max (length (velems v)) (n - length (velems v))),
       velems = resize 0 n (velems v) \<rparr>"

definition vclear :: "vec \<Rightarrow> vec" where
  "vclear v = v \<lparr> velems := [] \<rparr>"

definition vback :: "vec \<Rightarrow> u32 option" where
  "vback v = (if velems v = [] then None else Some (last (velems v)))"

definition vset_back :: "u32 \<Rightarrow> vec \<Rightarrow> vec" where
  "vset_back x v = v \<lparr> velems := butlast (velems v) @ [x] \<rparr>"

text \<open>The memory of a vector: its elements and the cells behind them.\<close>

definition vmem :: "(nat \<Rightarrow> u32) \<Rightarrow> vec \<Rightarrow> u32 list" where
  "vmem junk v = velems v @ map junk [0..<vcap v - length (velems v)]"

section \<open>PositionalBufferMaps\<close>

record PositionalBufferMaps =
  bm_type :: IndexType
  bm_capacity :: u32
  bm_docid :: "vec list"
  bm_tf :: "vec list"
  bm_position :: "vec list"
  bm_posBlockCount :: "vec list"
  bm_tailPointer :: "u64 list"

definition PositionalBufferMaps_new :: "u32 \<Rightarrow> IndexType \<Rightarrow> PositionalBufferMaps" where
  "PositionalBufferMaps_new initialSize ty =
     \<lparr> bm_type = ty, bm_capacity = initialSize, bm_docid = replicate (unat initialSize) vempty,
       bm_tf = replicate (unat initialSize) vempty, bm_position = replicate (unat initialSize) vempty,
       bm_posBlockCount = replicate (unat initialSize) vempty,
       bm_tailPointer = replicate (unat initialSize) UNDEFINED_POINTER \<rparr>"

partial_function (option) pos_expand_loop :: "u32 \<Rightarrow> u32 \<Rightarrow> u32 option" where
  "pos_expand_loop newSize c = (if newSize > c then pos_expand_loop newSize (c * 2) else Some c)"

definition pos_expand :: "PositionalBufferMaps \<Rightarrow> u32 \<Rightarrow> PositionalBufferMaps option" where
  "pos_expand bm newSize =
     (if newSize \<le> bm_capacity bm then Some bm else do {
        c \<leftarrow> (if bm_capacity bm = 0 then Some newSize else pos_expand_loop newSize (bm_capacity bm));
        let n = unat c;
        Some (bm \<lparr> bm_capacity := c, bm_docid := resize vempty n (bm_docid bm),
          bm_tailPointer := resize UNDEFINED_POINTER n (bm_tailPointer bm),
          bm_tf := (if bm_type bm \<noteq> NON_POSITIONAL then resize vempty n (bm_tf bm) else bm_tf bm),
          bm_position := (if bm_type bm = POSITIONAL then resize vempty n (bm_position bm) else bm_position bm),
          bm_posBlockCount := (if bm_type bm = POSITIONAL then resize vempty n (bm_posBlockCount bm) else bm_posBlockCount bm) \<rparr>)
      })"

definition containsKey :: "PositionalBufferMaps \<Rightarrow> u32 \<Rightarrow> bool option" where
  "containsKey bm k = do { v \<leftarrow> rd (bm_docid bm) (unat k); Some (velems v \<noteq> []) }"

partial_function (option) pos_nextIndex :: "PositionalBufferMaps \<Rightarrow> u32 \<Rightarrow> nat \<Rightarrow> u32 option" where
  "pos_nextIndex bm p minLength =
     (let p' = p + 1 in
      if p' \<ge> bm_capacity bm then Some (- 1)
      else do {
        v \<leftarrow> rd (bm_docid bm) (unat p');
        if velems v = [] \<or> vcap v \<le> minLength then pos_nextIndex bm p' minLength else Some p'
      })"

text \<open>Saving stops at the first term that has no buffer. The last position blocks are written with the number of the docids.\<close>

definition pos_save_term :: "PositionalBufferMaps \<Rightarrow> nat \<Rightarrow> u8 list option" where
  "pos_save_term bm k = do {
     d \<leftarrow> rd (bm_docid bm) k;
     let sz = length (velems d);
     tfs \<leftarrow> (if bm_type bm \<noteq> NON_POSITIONAL then do {
               v \<leftarrow> rd (bm_tf bm) k; ws \<leftarrow> rd_seq (velems v) 0 sz; Some (put32s ws) } else Some []);
     poss \<leftarrow> (if bm_type bm = POSITIONAL then do {
               c \<leftarrow> rd (bm_posBlockCount bm) k;
               cs \<leftarrow> rd_seq (velems c) 0 sz;
               p \<leftarrow> rd (bm_position bm) k;
               Some (put32s cs @ put32 (of_nat (vcap p)) @ put32 (of_nat (length (velems p))) @ put32s (velems p))
             } else Some []);
     Some (put32 (of_nat (vcap d)) @ put32 (of_nat sz) @ put32s (velems d) @ tfs @ poss)
   }"

primrec pos_save_terms :: "PositionalBufferMaps \<Rightarrow> nat \<Rightarrow> nat \<Rightarrow> (u8 list \<times> nat) option" where
  "pos_save_terms bm k 0 = Some ([], k)"
| "pos_save_terms bm k (Suc n) = do {
     d \<leftarrow> rd (bm_docid bm) k;
     if (of_nat (vcap d) :: u32) = 0 then Some (put32 0, k)
     else do {
       bs \<leftarrow> pos_save_term bm k;
       (rest, termNum) \<leftarrow> pos_save_terms bm (Suc k) n;
       Some (bs @ rest, termNum)
     }
   }"

definition PositionalBufferMaps_save :: "PositionalBufferMaps \<Rightarrow> u8 list option" where
  "PositionalBufferMaps_save bm = do {
     (bs, termNum) \<leftarrow> pos_save_terms bm 0 (unat (bm_capacity bm));
     ts \<leftarrow> rd_seq (bm_tailPointer bm) 0 termNum;
     Some (put32 (bm_capacity bm) @ bs @ concat (map put64 ts))
   }"

text \<open>\<open>get_vec\<close> reserves, resizes and reads the elements.\<close>

definition get_vec :: "nat \<Rightarrow> nat \<Rightarrow> vec \<Rightarrow> u8 list \<Rightarrow> (vec \<times> u8 list) option" where
  "get_vec c sz v s = do {
     (ws, s') \<leftarrow> get32s sz s;
     Some (vresize sz (vreserve c v) \<lparr> velems := ws \<rparr>, s')
   }"

definition pos_load_term :: "PositionalBufferMaps \<Rightarrow> nat \<Rightarrow> u32 \<Rightarrow> u8 list \<Rightarrow> (PositionalBufferMaps \<times> u8 list) option" where
  "pos_load_term bm k c s = do {
     d \<leftarrow> rd (bm_docid bm) k;
     (sz, s1) \<leftarrow> get32 s;
     (d', s2) \<leftarrow> get_vec (unat c) (unat sz) d s1;
     let bm1 = bm \<lparr> bm_docid := (bm_docid bm)[k := d'] \<rparr>;
     (bm2, s3) \<leftarrow> (if bm_type bm \<noteq> NON_POSITIONAL then do {
        v \<leftarrow> rd (bm_tf bm) k;
        (v', s') \<leftarrow> get_vec (unat c) (unat sz) v s2;
        Some (bm1 \<lparr> bm_tf := (bm_tf bm)[k := v'] \<rparr>, s') } else Some (bm1, s2));
     if bm_type bm = POSITIONAL then do {
        v \<leftarrow> rd (bm_posBlockCount bm) k;
        (v', s4) \<leftarrow> get_vec (unat c) (unat sz) v s3;
        (pc, s5) \<leftarrow> get32 s4;
        (psz, s6) \<leftarrow> get32 s5;
        p \<leftarrow> rd (bm_position bm) k;
        (p', s7) \<leftarrow> get_vec (unat pc) (unat psz) p s6;
        Some (bm2 \<lparr> bm_posBlockCount := (bm_posBlockCount bm)[k := v'], bm_position := (bm_position bm)[k := p'] \<rparr>, s7)
     } else Some (bm2, s3)
   }"

primrec pos_load_terms :: "PositionalBufferMaps \<Rightarrow> nat \<Rightarrow> nat \<Rightarrow> u8 list \<Rightarrow> (PositionalBufferMaps \<times> nat \<times> u8 list) option" where
  "pos_load_terms bm k 0 s = Some (bm, k, s)"
| "pos_load_terms bm k (Suc n) s = do {
     (c, s1) \<leftarrow> get32 s;
     if c = 0 then Some (bm, k, s1)
     else do {
       (bm', s2) \<leftarrow> pos_load_term bm k c s1;
       pos_load_terms bm' (Suc k) n s2
     }
   }"

primrec pos_get64s :: "nat \<Rightarrow> u8 list \<Rightarrow> (u64 list \<times> u8 list) option" where
  "pos_get64s 0 s = Some ([], s)"
| "pos_get64s (Suc n) s = do { (w, s1) \<leftarrow> get64 s; (ws, s2) \<leftarrow> pos_get64s n s1; Some (w # ws, s2) }"

definition PositionalBufferMaps_load :: "PositionalBufferMaps \<Rightarrow> u8 list \<Rightarrow> (PositionalBufferMaps \<times> u8 list) option" where
  "PositionalBufferMaps_load bm s = do {
     (c, s1) \<leftarrow> get32 s;
     let n = unat c;
     let bm1 = bm \<lparr> bm_capacity := c, bm_docid := resize vempty n (bm_docid bm),
          bm_tf := (if bm_type bm \<noteq> NON_POSITIONAL then resize vempty n (bm_tf bm) else bm_tf bm),
          bm_position := (if bm_type bm = POSITIONAL then resize vempty n (bm_position bm) else bm_position bm),
          bm_posBlockCount := (if bm_type bm = POSITIONAL then resize vempty n (bm_posBlockCount bm) else bm_posBlockCount bm) \<rparr>;
     (bm2, termNum, s2) \<leftarrow> pos_load_terms bm1 0 n s1;
     (ts, s3) \<leftarrow> pos_get64s termNum s2;
     tp \<leftarrow> wr_seq (resize UNDEFINED_POINTER n (bm_tailPointer bm)) 0 ts;
     Some (bm2 \<lparr> bm_tailPointer := tp \<rparr>, s3)
   }"

section \<open>Floating-point arithmetic\<close>

text \<open>The \<open>float\<close> operations of the platform are a parameter; the formulas of \<open>Utils.hpp\<close> are built from them in the order of
  the source.\<close>

record 'f float_ops =
  f_zero :: 'f
  f_half :: 'f
  f_one :: 'f
  f_b :: 'f
  f_of :: "nat \<Rightarrow> 'f"
  f_add :: "'f \<Rightarrow> 'f \<Rightarrow> 'f"
  f_sub :: "'f \<Rightarrow> 'f \<Rightarrow> 'f"
  f_mul :: "'f \<Rightarrow> 'f \<Rightarrow> 'f"
  f_div :: "'f \<Rightarrow> 'f \<Rightarrow> 'f"
  f_log :: "'f \<Rightarrow> 'f"
  f_less :: "'f \<Rightarrow> 'f \<Rightarrow> bool"
  f_eq :: "'f \<Rightarrow> 'f \<Rightarrow> bool"

definition idf :: "'f float_ops \<Rightarrow> u32 \<Rightarrow> u32 \<Rightarrow> 'f" where
  "idf F numDocs n =
     f_log F (f_div F (f_sub F (f_add F (f_half F) (f_of F (unat numDocs))) (f_of F (unat n))) (f_add F (f_half F) (f_of F (unat n))))"

definition DEFAULT_K1 :: "'f float_ops \<Rightarrow> 'f" where "DEFAULT_K1 F = f_half F"
definition DEFAULT_B :: "'f float_ops \<Rightarrow> 'f" where "DEFAULT_B F = f_b F"

definition default_bm25tf :: "'f float_ops \<Rightarrow> u32 \<Rightarrow> u32 \<Rightarrow> 'f \<Rightarrow> 'f" where
  "default_bm25tf F tf dl avgDocLen =
     f_div F (f_mul F (f_add F (f_one F) (DEFAULT_K1 F)) (f_of F (unat tf)))
       (f_add F (f_mul F (DEFAULT_K1 F)
          (f_add F (f_sub F (f_one F) (DEFAULT_B F)) (f_div F (f_mul F (DEFAULT_B F) (f_of F (unat dl))) avgDocLen)))
        (f_of F (unat tf)))"

definition default_bm25 :: "'f float_ops \<Rightarrow> u32 \<Rightarrow> u32 \<Rightarrow> u32 \<Rightarrow> u32 \<Rightarrow> 'f \<Rightarrow> 'f" where
  "default_bm25 F tf n numDocs dl avgDocLen = f_mul F (default_bm25tf F tf dl avgDocLen) (idf F numDocs n)"

section \<open>PositionalInvertedIndex\<close>

record PositionalInvertedIndex =
  px_type :: IndexType
  px_buffer :: PositionalBufferMaps
  px_pool :: SegmentPool
  px_dictionary :: Dictionary
  px_pointers :: Pointers
  px_bloomEnabled :: bool
  px_nbHash :: u32
  px_bitsPerElement :: u32
  px_reverse :: bool
  px_segment :: "u32 list"

definition DEFAULT_COLLECTION_SIZE :: u32 where "DEFAULT_COLLECTION_SIZE = 30000000"

definition SEGMENT_SIZE :: nat where "SEGMENT_SIZE = 4096"

definition PosIndex_new :: "(nat \<Rightarrow> u32) \<Rightarrow> IndexType \<Rightarrow> u32 \<Rightarrow> u32 \<Rightarrow> u32 \<Rightarrow> bool \<Rightarrow> bool \<Rightarrow> u32 \<Rightarrow> u32 \<Rightarrow> PositionalInvertedIndex" where
  "PosIndex_new junk ty maxSize number vocabSize r bloom hashes bits =
     \<lparr> px_type = ty, px_buffer = PositionalBufferMaps_new vocabSize ty, px_pool = SegmentPool_new maxSize number,
       px_dictionary = [], px_pointers = Pointers_new vocabSize DEFAULT_COLLECTION_SIZE, px_bloomEnabled = bloom,
       px_nbHash = hashes, px_bitsPerElement = bits, px_reverse = r, px_segment = map junk [0..<SEGMENT_SIZE] \<rparr>"

definition PosIndex_totalDocNum :: "PositionalInvertedIndex \<Rightarrow> u32" where
  "PosIndex_totalDocNum idx = totalDocs (px_pointers idx)"

text \<open>An exception of the codec is not caught: it ends the operation.\<close>

definition caught :: "'a codec_result \<Rightarrow> 'a option" where
  "caught r = (case r of Some (Inr x) \<Rightarrow> Some x | _ \<Rightarrow> None)"

section \<open>Blocks\<close>

text \<open>The Bloom filter of a block is made at the end of the scratch array.\<close>

definition bloom_segment :: "PositionalInvertedIndex \<Rightarrow> u32 list \<Rightarrow> u32 list \<Rightarrow> (u32 list \<times> nat) option" where
  "bloom_segment idx seg docs =
     (if px_bloomEnabled idx then do {
        let filterSize = computeLength (of_nat (length docs)) (px_bitsPerElement idx);
        let n = unat filterSize;
        if n > SEGMENT_SIZE then None else do {
          flt \<leftarrow> bloom_insert_all (replicate n 0) filterSize (px_nbHash idx) docs;
          seg' \<leftarrow> wr_seq seg (SEGMENT_SIZE - n) flt;
          Some (seg', n)
        }
      } else Some (seg, 0))"

text \<open>Differences of the docids, from the last one down.\<close>

definition delta_block :: "u32 list \<Rightarrow> u32 list" where
  "delta_block xs = map (\<lambda>i. if i = 0 then xs ! 0 else xs ! i - xs ! (i - 1)) [0..<length xs]"

text \<open>The positions of the postings in reverse order: \<open>cur\<close> positions are left in front.\<close>

fun regroup :: "nat \<Rightarrow> u32 list \<Rightarrow> u32 list \<Rightarrow> u32 list option" where
  "regroup cur [] ps = Some []"
| "regroup cur (t # tfs) ps =
     (if unat t \<le> cur then do {
        rest \<leftarrow> regroup (cur - unat t) tfs ps;
        Some (take (unat t) (drop (cur - unat t) ps) @ rest)
      } else None)"

text \<open>One array of 128 integers in the scratch array: its encoded size and the code.\<close>

definition put_code :: "(nat \<Rightarrow> nat \<Rightarrow> u8) \<Rightarrow> u32 list \<Rightarrow> u32 list \<times> nat \<Rightarrow> (u32 list \<times> nat) option" where
  "put_code pad xs = (\<lambda>(seg, reqspace). do {
     seg1 \<leftarrow> wr_seq seg (reqspace + 1) (replicate (BLOCK_SIZE * 2) 0);
     ws \<leftarrow> caught (FastPFor_encode 65536 pad (BLOCK_SIZE * 2) xs);
     seg2 \<leftarrow> wr_seq seg1 (reqspace + 1) ws;
     seg3 \<leftarrow> wr seg2 reqspace (of_nat (length ws));
     Some (seg3, reqspace + length ws + 1)
   })"

primrec put_positions :: "(nat \<Rightarrow> nat \<Rightarrow> u8) \<Rightarrow> u32 list \<Rightarrow> nat \<Rightarrow> nat \<Rightarrow> u32 list \<times> nat \<Rightarrow> (u32 list \<times> nat) option" where
  "put_positions pad ps i 0 st = Some st"
| "put_positions pad ps i (Suc n) st = do {
     xs \<leftarrow> rd_seq ps (i * BLOCK_SIZE) BLOCK_SIZE;
     st' \<leftarrow> put_code pad xs st;
     put_positions pad ps (Suc i) n st'
   }"

text \<open>The blocks are the memory from the given addresses on. The changes that the source makes to them are not kept: the
  buffers are cleared when all their blocks, which do not overlap, have been written.\<close>

definition pos_compress ::
  "(nat \<Rightarrow> u32) \<Rightarrow> (nat \<Rightarrow> nat \<Rightarrow> u8) \<Rightarrow> PositionalInvertedIndex \<Rightarrow> u32 list \<Rightarrow> u32 list \<Rightarrow> u32 list \<Rightarrow> nat \<Rightarrow> nat \<Rightarrow> nat \<Rightarrow>
   u64 \<Rightarrow> u64 \<Rightarrow> (u64 \<times> PositionalInvertedIndex) option" where
  "pos_compress junk pad idx docBlock tfBlock posBlock len tflen plen lastPointer nextPtr =
     (if len = 0 then None else do {
        let r = px_reverse idx;
        maxDocId \<leftarrow> rd docBlock (if r then 0 else len - 1);
        docs \<leftarrow> rd_seq docBlock 0 len;
        tfs \<leftarrow> rd_seq tfBlock 0 tflen;
        poss \<leftarrow> rd_seq posBlock 0 plen;
        (seg0, filterSize) \<leftarrow> bloom_segment idx (px_segment idx) docs;
        let deltas = (if r then rev (delta_block docs) else delta_block docs);
        let tfs1 = (if r then rev tfs else tfs);
        poss1 \<leftarrow> (if r then do { g \<leftarrow> regroup plen tfs1 poss; Some (resize 0 plen g) } else Some poss);
        deltas1 \<leftarrow> (if len < BLOCK_SIZE
          then if BLOCK_SIZE \<le> length docBlock then Some (deltas @ replicate (BLOCK_SIZE - len) 0) else None
          else Some (take BLOCK_SIZE deltas));
        tfs2 \<leftarrow> (if len < BLOCK_SIZE \<and> tflen = len
          then if BLOCK_SIZE \<le> length tfBlock then Some (tfs1 @ replicate (BLOCK_SIZE - tflen) 0) else None
          else Some (tfs1 @ drop tflen tfBlock));
        seg1 \<leftarrow> wr seg0 0 0;
        seg2 \<leftarrow> wr seg1 1 (of_nat len);
        st1 \<leftarrow> put_code pad deltas1 (seg2, 2);
        st2 \<leftarrow> (if tflen > 0 then do {
            xs \<leftarrow> rd_seq tfs2 0 BLOCK_SIZE;
            st' \<leftarrow> put_code pad xs st1;
            if plen > 0 then do {
              seg' \<leftarrow> wr (fst st') (snd st') (of_nat plen);
              let res = plen mod BLOCK_SIZE;
              poss2 \<leftarrow> (if res > 0
                then if plen + (BLOCK_SIZE - res) \<le> length posBlock then Some (poss1 @ replicate (BLOCK_SIZE - res) 0) else None
                else Some poss1);
              put_positions pad poss2 0 ((plen + BLOCK_SIZE - 1) div BLOCK_SIZE) (seg', snd st' + 1)
            } else Some st'
          } else Some st1);
        let reqspace = snd st2;
        seg3 \<leftarrow> wr (fst st2) 0 (of_nat (reqspace + 4));
        (seg4, reqspace1) \<leftarrow> (if px_bloomEnabled idx then do {
            s \<leftarrow> wr seg3 reqspace (of_nat filterSize);
            flt \<leftarrow> rd_seq s (SEGMENT_SIZE - filterSize) filterSize;
            s' \<leftarrow> wr_seq s (reqspace + 1) flt;
            if filterSize > 0 \<and> reqspace + 1 + filterSize > SEGMENT_SIZE - filterSize then None
            else Some (s', reqspace + filterSize + 1)
          } else Some (seg3, reqspace));
        (p, sp) \<leftarrow> appendSegment junk (px_pool idx) seg4 maxDocId (of_nat reqspace1) lastPointer nextPtr;
        Some (p, idx \<lparr> px_segment := seg4, px_pool := sp \<rparr>)
      })"

text \<open>Reading a block: the decoders clear and fill the caller's array of \<open>BLOCK_SIZE\<close> cells.\<close>

fun undelta :: "u32 \<Rightarrow> u32 list \<Rightarrow> u32 list" where
  "undelta a [] = []"
| "undelta a (x # xs) = (a + x) # undelta (a + x) xs"

definition get_code :: "u32 list list \<Rightarrow> u32 list \<Rightarrow> u32 \<Rightarrow> u32 \<Rightarrow> u32 list \<Rightarrow> u32 list option" where
  "get_code cd arr at csize out = do {
     block \<leftarrow> (if unat at \<le> length arr then Some (drop (unat at) arr) else None);
     (xs, _) \<leftarrow> caught (FastPFor_decode 65536 cd block (unat csize) BLOCK_SIZE);
     wr_seq out 0 xs
   }"

definition pos_decompressDocidBlock :: "u32 list list \<Rightarrow> bool \<Rightarrow> SegmentPool \<Rightarrow> u32 list \<Rightarrow> u64 \<Rightarrow> (u32 list \<times> nat) option" where
  "pos_decompressDocidBlock cd r sp outBlock pointer = do {
     arr \<leftarrow> pool_array_of sp pointer;
     let pOffset = DECODE_OFFSET pointer;
     csize \<leftarrow> rd arr (unat (pOffset + 6));
     out0 \<leftarrow> wr_seq outBlock 0 (replicate BLOCK_SIZE 0);
     out \<leftarrow> get_code cd arr (pOffset + 7) csize out0;
     n \<leftarrow> rd arr (unat (pOffset + 5));
     let len = unat n;
     ds \<leftarrow> rd_seq out 0 len;
     Some ((if r then rev (undelta 0 (rev ds)) else undelta 0 ds) @ drop len out, len)
   }"

definition pos_decompressTfBlock :: "u32 list list \<Rightarrow> SegmentPool \<Rightarrow> u32 list \<Rightarrow> u64 \<Rightarrow> (u32 list \<times> u32) option" where
  "pos_decompressTfBlock cd sp outBlock pointer = do {
     arr \<leftarrow> pool_array_of sp pointer;
     let pOffset = DECODE_OFFSET pointer;
     csize \<leftarrow> rd arr (unat (pOffset + 6));
     tfcsize \<leftarrow> rd arr (unat (pOffset + csize + 7));
     out0 \<leftarrow> wr_seq outBlock 0 (replicate BLOCK_SIZE 0);
     out \<leftarrow> get_code cd arr (pOffset + csize + 8) tfcsize out0;
     n \<leftarrow> rd arr (unat (pOffset + 5));
     Some (out, n)
   }"

definition position_count :: "u32 list \<Rightarrow> u32 \<Rightarrow> (u32 \<times> u32 \<times> u32) option" where
  "position_count arr pOffset = do {
     csize \<leftarrow> rd arr (unat (pOffset + 6));
     tfcsize \<leftarrow> rd arr (unat (pOffset + csize + 7));
     plen \<leftarrow> rd arr (unat (pOffset + csize + tfcsize + 8));
     Some (csize, tfcsize, plen)
   }"

definition numberOfPositionBlocks :: "SegmentPool \<Rightarrow> u64 \<Rightarrow> u32 option" where
  "numberOfPositionBlocks sp pointer = do {
     arr \<leftarrow> pool_array_of sp pointer;
     (_, _, plen) \<leftarrow> position_count arr (DECODE_OFFSET pointer);
     Some ((plen + of_nat BLOCK_SIZE - 1) div of_nat BLOCK_SIZE)
   }"

primrec position_blocks :: "u32 list list \<Rightarrow> u32 list \<Rightarrow> u32 \<Rightarrow> nat \<Rightarrow> nat \<Rightarrow> u32 list \<Rightarrow> u32 list option" where
  "position_blocks cd arr index i 0 out = Some out"
| "position_blocks cd arr index i (Suc n) out = do {
     sb \<leftarrow> rd arr (unat index);
     block \<leftarrow> (if unat (index + 1) \<le> length arr then Some (drop (unat (index + 1)) arr) else None);
     (xs, _) \<leftarrow> caught (FastPFor_decode 65536 cd block (unat sb) BLOCK_SIZE);
     out' \<leftarrow> wr_seq out (i * BLOCK_SIZE) xs;
     position_blocks cd arr (index + sb + 1) (Suc i) n out'
   }"

definition pos_decompressPositionBlock :: "u32 list list \<Rightarrow> SegmentPool \<Rightarrow> u32 list \<Rightarrow> u64 \<Rightarrow> (u32 list \<times> u32) option" where
  "pos_decompressPositionBlock cd sp outBlock pointer = do {
     arr \<leftarrow> pool_array_of sp pointer;
     let pOffset = DECODE_OFFSET pointer;
     (csize, tfcsize, plen) \<leftarrow> position_count arr pOffset;
     let nb = (plen + of_nat BLOCK_SIZE - 1) div of_nat BLOCK_SIZE;
     out \<leftarrow> position_blocks cd arr (pOffset + csize + tfcsize + 9) 0 (unat nb) outBlock;
     Some (out, plen)
   }"

text \<open>\<open>decompressPositions_\<close> decodes the position blocks that the positions of one posting are in.\<close>

primrec skip_blocks :: "u32 list \<Rightarrow> u32 \<Rightarrow> nat \<Rightarrow> u32 option" where
  "skip_blocks arr at 0 = Some at"
| "skip_blocks arr at (Suc n) = do { sb \<leftarrow> rd arr (unat at); skip_blocks arr (at + sb + 1) n }"

primrec copy_positions ::
  "u32 list list \<Rightarrow> u32 list \<Rightarrow> u32 \<Rightarrow> nat \<Rightarrow> nat \<Rightarrow> nat \<Rightarrow> nat \<Rightarrow> u32 list \<Rightarrow> u32 list option" where
  "copy_positions cd arr at cindex left rindex 0 out = Some out"
| "copy_positions cd arr at cindex left rindex (Suc n) out = do {
     let tocopy = (if rindex + left > BLOCK_SIZE then BLOCK_SIZE - rindex else left);
     sb \<leftarrow> rd arr (unat at);
     temp \<leftarrow> get_code cd arr (at + 1) sb (replicate BLOCK_SIZE 0);
     xs \<leftarrow> rd_seq temp rindex tocopy;
     out' \<leftarrow> wr_seq out cindex xs;
     copy_positions cd arr (at + sb + 1) (cindex + tocopy) (left - tocopy) 0 n out'
   }"

definition pos_decompressPositions ::
  "u32 list list \<Rightarrow> SegmentPool \<Rightarrow> u32 list \<Rightarrow> nat \<Rightarrow> u64 \<Rightarrow> u32 list \<Rightarrow> u32 list option" where
  "pos_decompressPositions cd sp tf_list index pointer out = do {
     arr \<leftarrow> pool_array_of sp pointer;
     let pOffset = DECODE_OFFSET pointer;
     csize \<leftarrow> rd arr (unat (pOffset + 6));
     tfcsize \<leftarrow> rd arr (unat (pOffset + 7 + csize));
     before \<leftarrow> rd_seq tf_list 0 index;
     t \<leftarrow> rd tf_list index;
     let nb = sum_list before;
     let lnb = nb + t - 1;
     let r = nb mod of_nat BLOCK_SIZE;
     let nb' = unat nb div BLOCK_SIZE;
     let lnb' = unat lnb div BLOCK_SIZE;
     at \<leftarrow> skip_blocks arr (pOffset + csize + tfcsize + 9) nb';
     out1 \<leftarrow> copy_positions cd arr at 0 (unat t) (unat r) (Suc lnb' - nb') out;
     ps \<leftarrow> rd_seq out1 0 (unat t);
     Some (undelta 0 ps @ drop (unat t) out1)
   }"

section \<open>Inserting documents\<close>

definition ceil_block :: "u32 \<Rightarrow> u32" where
  "ceil_block ps = (ps + of_nat BLOCK_SIZE - 1) div of_nat BLOCK_SIZE * of_nat BLOCK_SIZE"

text \<open>\<open>processTermBuffer_\<close> writes the blocks of a buffer: from the last to the first when the index is reversed, all of them linked in front of the
  old head, and from the first to the last behind the tail otherwise. \<open>ps\<close> is the end of the positions of the block at hand.\<close>

primrec pos_reverse_blocks ::
  "(nat \<Rightarrow> u32) \<Rightarrow> (nat \<Rightarrow> nat \<Rightarrow> u8) \<Rightarrow> PositionalInvertedIndex \<Rightarrow> vec \<Rightarrow> vec \<Rightarrow> vec \<Rightarrow> u32 list \<Rightarrow> u64 \<Rightarrow> u64 \<Rightarrow> u64 \<Rightarrow> u32 \<Rightarrow> nat \<Rightarrow>
   (u64 \<times> PositionalInvertedIndex) option" where
  "pos_reverse_blocks junk pad idx doc tf ppos counts tp cur lst ps 0 = Some (cur, idx)"
| "pos_reverse_blocks junk pad idx doc tf ppos counts tp cur lst ps (Suc i) = do {
     last_ps \<leftarrow> (if counts = [] \<or> i = 0 then Some 0 else rd counts (i - 1));
     let c = ceil_block last_ps;
     (p, idx') \<leftarrow> pos_compress junk pad idx (drop (i * BLOCK_SIZE) (vmem junk doc)) (drop (i * BLOCK_SIZE) (vmem junk tf))
        (drop (unat c) (vmem junk ppos)) BLOCK_SIZE (if velems tf = [] then 0 else BLOCK_SIZE) (unat (ps - c)) lst tp;
     pos_reverse_blocks junk pad idx' doc tf ppos counts tp (if cur = UNDEFINED_POINTER then p else cur) p last_ps i
   }"

primrec pos_forward_blocks ::
  "(nat \<Rightarrow> u32) \<Rightarrow> (nat \<Rightarrow> nat \<Rightarrow> u8) \<Rightarrow> PositionalInvertedIndex \<Rightarrow> vec \<Rightarrow> vec \<Rightarrow> vec \<Rightarrow> u32 list \<Rightarrow> nat \<Rightarrow> u64 \<Rightarrow> u64 \<Rightarrow> u32 \<Rightarrow> nat \<Rightarrow>
   (u64 \<times> u64 \<times> u32 \<times> PositionalInvertedIndex) option" where
  "pos_forward_blocks junk pad idx doc tf ppos counts i tp hp ps 0 = Some (tp, hp, ps, idx)"
| "pos_forward_blocks junk pad idx doc tf ppos counts i tp hp ps (Suc n) = do {
     next_ps \<leftarrow> (if counts = [] then Some 0 else rd counts i);
     (p, idx') \<leftarrow> pos_compress junk pad idx (drop (i * BLOCK_SIZE) (vmem junk doc)) (drop (i * BLOCK_SIZE) (vmem junk tf))
        (drop (unat ps) (vmem junk ppos)) BLOCK_SIZE (if velems tf = [] then 0 else BLOCK_SIZE) (unat (next_ps - ps)) tp UNDEFINED_POINTER;
     pos_forward_blocks junk pad idx' doc tf ppos counts (Suc i) p (if hp = UNDEFINED_POINTER then p else hp) (ceil_block next_ps) n
   }"

text \<open>The result is the new tail pointer, the new head pointer and the index. The source passes \<open>&tfBuffer[k]\<close> and \<open>&posBuffer[k]\<close> also when these
  vectors are empty, with a length of 0; the model takes that for the address of nothing, as compilers do, and not for undefined behaviour.\<close>

definition pos_processTermBuffer ::
  "(nat \<Rightarrow> u32) \<Rightarrow> (nat \<Rightarrow> nat \<Rightarrow> u8) \<Rightarrow> PositionalInvertedIndex \<Rightarrow> vec \<Rightarrow> vec \<Rightarrow> vec \<Rightarrow> u32 list \<Rightarrow> u64 \<Rightarrow> u64 \<Rightarrow>
   (u64 \<times> u64 \<times> PositionalInvertedIndex) option" where
  "pos_processTermBuffer junk pad idx doc tf ppos counts tp hp = do {
     let nb = length (velems doc) div BLOCK_SIZE;
     let res = length (velems doc) mod BLOCK_SIZE;
     if px_reverse idx then do {
       ps \<leftarrow> (if counts = [] then Some 0 else if nb = 0 then None else rd counts (nb - 1));
       (cur, idx1) \<leftarrow> (if res > 0
          then let c = ceil_block ps in
            pos_compress junk pad idx (drop (nb * BLOCK_SIZE) (vmem junk doc)) (drop (nb * BLOCK_SIZE) (vmem junk tf))
              (drop (unat c) (vmem junk ppos)) res (if velems tf = [] then 0 else res)
              (unat (of_nat (length (velems ppos)) - c)) UNDEFINED_POINTER tp
          else Some (UNDEFINED_POINTER, idx));
       (cur', idx2) \<leftarrow> pos_reverse_blocks junk pad idx1 doc tf ppos counts tp cur cur ps nb;
       Some (if cur' \<noteq> UNDEFINED_POINTER then (cur', cur', idx2) else (tp, hp, idx2))
     } else do {
       (tp1, hp1, ps, idx1) \<leftarrow> pos_forward_blocks junk pad idx doc tf ppos counts 0 tp hp 0 nb;
       if res > 0 then do {
         (p, idx2) \<leftarrow> pos_compress junk pad idx1 (drop (nb * BLOCK_SIZE) (vmem junk doc)) (drop (nb * BLOCK_SIZE) (vmem junk tf))
              (drop (unat ps) (vmem junk ppos)) res (if velems tf = [] then 0 else res)
              (unat (of_nat (length (velems ppos)) - ps)) tp1 UNDEFINED_POINTER;
         Some (p, if hp1 = UNDEFINED_POINTER then p else hp1, idx2)
       } else Some (tp1, hp1, idx1)
     }
   }"

text \<open>Writing out the buffer of a term, which is left empty.\<close>

definition pos_process_term ::
  "(nat \<Rightarrow> u32) \<Rightarrow> (nat \<Rightarrow> nat \<Rightarrow> u8) \<Rightarrow> PositionalInvertedIndex \<Rightarrow> u32 \<Rightarrow> PositionalInvertedIndex option" where
  "pos_process_term junk pad idx tid = do {
     let k = unat tid;
     let bm = px_buffer idx;
     d \<leftarrow> rd (bm_docid bm) k;
     t \<leftarrow> rd (bm_tf bm) k;
     p \<leftarrow> rd (bm_position bm) k;
     c \<leftarrow> rd (bm_posBlockCount bm) k;
     tl \<leftarrow> rd (bm_tailPointer bm) k;
     h \<leftarrow> FixedCounter_ref (headPointers (px_pointers idx)) tid;
     (tl', h', idx1) \<leftarrow> pos_processTermBuffer junk pad idx d t p (velems c) tl h;
     hp \<leftarrow> FixedCounter_put (headPointers (px_pointers idx1)) tid h';
     Some (idx1 \<lparr> px_buffer := bm \<lparr> bm_docid := (bm_docid bm)[k := vclear d], bm_tf := (bm_tf bm)[k := vclear t],
             bm_position := (bm_position bm)[k := vclear p], bm_posBlockCount := (bm_posBlockCount bm)[k := vclear c],
             bm_tailPointer := (bm_tailPointer bm)[k := tl'] \<rparr>,
           px_pointers := (px_pointers idx1) \<lparr> headPointers := hp \<rparr> \<rparr>)
   }"

text \<open>The first loop of \<open>insertDoc\<close>: the terms of the document are numbered, and their frequencies and positions kept. The set
  \<open>uniqueTerms\<close> is a sorted list.\<close>

definition pos_count_term ::
  "(nat \<Rightarrow> bool) \<Rightarrow> PositionalInvertedIndex \<times> u32 list \<Rightarrow> nat \<Rightarrow> string \<Rightarrow> (PositionalInvertedIndex \<times> u32 list) option" where
  "pos_count_term accepts st i tm =
     (let (idx, uniq) = st; (tid, d) = insertTerm accepts (px_dictionary idx) tm; idx0 = idx \<lparr> px_dictionary := d \<rparr> in
      if tid = INVALID_ID then Some (idx0, uniq)
      else do {
        let added = (tid \<notin> set uniq);
        let uniq' = insort_insert tid uniq;
        let idx1 = idx0 \<lparr> px_pointers := (px_pointers idx) \<lparr> cf := FixedCounter_increment (cf (px_pointers idx)) tid \<rparr> \<rparr>;
        let bm = px_buffer idx;
        case px_type idx of
          NON_POSITIONAL \<Rightarrow> Some (idx1, uniq')
        | TF_ONLY \<Rightarrow> do {
            t \<leftarrow> rd (bm_tf bm) (unat tid);
            let t1 = (if vcap t = 0 then vreserve (DF_CUTOFF + 1) t else t);
            t2 \<leftarrow> (if added then do { b \<leftarrow> vback t1; Some (vset_back (b + 1) t1) } else Some (vpush 1 t1));
            Some (idx1 \<lparr> px_buffer := bm \<lparr> bm_tf := (bm_tf bm)[unat tid := t2] \<rparr> \<rparr>, uniq')
          }
        | POSITIONAL \<Rightarrow> do {
            t \<leftarrow> rd (bm_tf bm) (unat tid);
            p \<leftarrow> rd (bm_position bm) (unat tid);
            let p1 = (if vcap p = 0 then vreserve BLOCK_SIZE p else p);
            let t1 = (if vcap p = 0 then vreserve (DF_CUTOFF + 1) t else t);
            (p2, t2) \<leftarrow> (if added then Some (vpush (of_nat (i + 1)) p1, vpush 1 t1)
              else do { pb \<leftarrow> vback p1; tb \<leftarrow> vback t1; Some (vpush (of_nat (i + 1) - pb) p1, vset_back (tb + 1) t1) });
            Some (idx1 \<lparr> px_buffer := bm \<lparr> bm_tf := (bm_tf bm)[unat tid := t2],
                      bm_position := (bm_position bm)[unat tid := p2] \<rparr> \<rparr>, uniq')
          }
      })"

fun pos_count_terms ::
  "(nat \<Rightarrow> bool) \<Rightarrow> PositionalInvertedIndex \<times> u32 list \<Rightarrow> nat \<Rightarrow> string list \<Rightarrow> (PositionalInvertedIndex \<times> u32 list) option" where
  "pos_count_terms accepts st i [] = Some st"
| "pos_count_terms accepts st i (tm # tms) = do {
     st' \<leftarrow> pos_count_term accepts st i tm;
     pos_count_terms accepts st' (Suc i) tms
   }"

text \<open>The second loop: the statistics of a term, and its posting. The greatest frequency of a term is tracked by the BM25 score it gives.\<close>

definition pos_track_tf :: "'f float_ops \<Rightarrow> PositionalInvertedIndex \<Rightarrow> u32 \<Rightarrow> u32 \<Rightarrow> PositionalInvertedIndex option" where
  "pos_track_tf F idx docid tid =
     (if px_type idx = NON_POSITIONAL then Some idx
      else do {
        let pt = px_pointers idx;
        t \<leftarrow> rd (bm_tf (px_buffer idx)) (unat tid);
        tf \<leftarrow> vback t;
        dl \<leftarrow> FixedCounter_ref (docLen pt) docid;
        let avg = f_div F (f_of F (unat (totalDocLen pt))) (f_of F (unat (totalDocs pt)));
        mtf \<leftarrow> FixedCounter_ref (maxTf pt) tid;
        mdl \<leftarrow> FixedCounter_ref (maxTfDocLen pt) tid;
        Some (if f_less F (default_bm25tf F mtf mdl avg) (default_bm25tf F tf dl avg)
              then idx \<lparr> px_pointers := setMaxTf pt tid tf dl \<rparr> else idx)
      })"

text \<open>A frequent term has buffers of whole blocks.\<close>

definition pos_enlarge :: "PositionalInvertedIndex \<Rightarrow> nat \<Rightarrow> PositionalInvertedIndex option" where
  "pos_enlarge idx k = do {
     let bm = px_buffer idx;
     d \<leftarrow> rd (bm_docid bm) k;
     t \<leftarrow> rd (bm_tf bm) k;
     p \<leftarrow> rd (bm_position bm) k;
     if vcap d < BLOCK_SIZE then
       Some (idx \<lparr> px_buffer := bm \<lparr> bm_docid := (bm_docid bm)[k := vreserve BLOCK_SIZE d],
          bm_tf := (if px_type idx \<noteq> NON_POSITIONAL then (bm_tf bm)[k := vreserve BLOCK_SIZE t] else bm_tf bm),
          bm_position := (if px_type idx = POSITIONAL
            then (bm_position bm)[k := vreserve (2 * (vcap p div BLOCK_SIZE + 1) * BLOCK_SIZE) p] else bm_position bm) \<rparr> \<rparr>)
     else Some idx
   }"

text \<open>The end of a block of postings: its positions are filled up to a whole number of blocks.\<close>

definition pos_end_block :: "PositionalInvertedIndex \<Rightarrow> nat \<Rightarrow> PositionalInvertedIndex option" where
  "pos_end_block idx k = do {
     let bm = px_buffer idx;
     d \<leftarrow> rd (bm_docid bm) k;
     if px_type idx = POSITIONAL \<and> length (velems d) mod BLOCK_SIZE = 0 then do {
       p \<leftarrow> rd (bm_position bm) k;
       c \<leftarrow> rd (bm_posBlockCount bm) k;
       let sz = length (velems p);
       Some (idx \<lparr> px_buffer := bm \<lparr> bm_posBlockCount := (bm_posBlockCount bm)[k := vpush (of_nat sz) c],
          bm_position := (bm_position bm)[k := vresize ((sz + BLOCK_SIZE - 1) div BLOCK_SIZE * BLOCK_SIZE) p] \<rparr> \<rparr>)
     } else Some idx
   }"

definition pos_full_buffer ::
  "(nat \<Rightarrow> u32) \<Rightarrow> (nat \<Rightarrow> nat \<Rightarrow> u8) \<Rightarrow> PositionalInvertedIndex \<Rightarrow> u32 \<Rightarrow> PositionalInvertedIndex option" where
  "pos_full_buffer junk pad idx tid = do {
     let k = unat tid;
     idx1 \<leftarrow> pos_process_term junk pad idx tid;
     let bm = px_buffer idx1;
     d \<leftarrow> rd (bm_docid bm) k;
     t \<leftarrow> rd (bm_tf bm) k;
     if vcap d < MAX_BLOCK_SIZE then do {
       let newLen = vcap d * EXPANSION_RATE;
       Some (idx1 \<lparr> px_buffer := bm \<lparr> bm_docid := (bm_docid bm)[k := vreserve newLen d],
          bm_tf := (if px_type idx \<noteq> NON_POSITIONAL then (bm_tf bm)[k := vreserve newLen t] else bm_tf bm) \<rparr> \<rparr>)
     } else Some idx1
   }"

definition pos_push_doc :: "PositionalInvertedIndex \<Rightarrow> nat \<Rightarrow> u32 \<Rightarrow> vec \<Rightarrow> PositionalInvertedIndex" where
  "pos_push_doc idx k docid d =
     idx \<lparr> px_buffer := (px_buffer idx) \<lparr> bm_docid := (bm_docid (px_buffer idx))[k := vpush docid d] \<rparr> \<rparr>"

definition pos_add_posting ::
  "'f float_ops \<Rightarrow> (nat \<Rightarrow> u32) \<Rightarrow> (nat \<Rightarrow> nat \<Rightarrow> u8) \<Rightarrow> u32 \<Rightarrow> PositionalInvertedIndex \<Rightarrow> u32 \<Rightarrow> PositionalInvertedIndex option" where
  "pos_add_posting F junk pad docid idx tid = do {
     let k = unat tid;
     idx1 \<leftarrow> pos_track_tf F idx docid tid;
     let pt = (px_pointers idx1) \<lparr> df := FixedCounter_increment (df (px_pointers idx1)) tid \<rparr>;
     let idx2 = idx1 \<lparr> px_pointers := pt \<rparr>;
     n \<leftarrow> FixedCounter_ref (df pt) tid;
     d \<leftarrow> rd (bm_docid (px_buffer idx2)) k;
     if n \<le> of_nat DF_CUTOFF
     then Some (pos_push_doc idx2 k docid (if vcap d = 0 then vreserve DF_CUTOFF d else d))
     else do {
       idx3 \<leftarrow> pos_enlarge idx2 k;
       d' \<leftarrow> rd (bm_docid (px_buffer idx3)) k;
       idx4 \<leftarrow> pos_end_block (pos_push_doc idx3 k docid d') k;
       d'' \<leftarrow> rd (bm_docid (px_buffer idx4)) k;
       if length (velems d'') = vcap d'' then pos_full_buffer junk pad idx4 tid else Some idx4
     }
   }"

fun pos_add_postings ::
  "'f float_ops \<Rightarrow> (nat \<Rightarrow> u32) \<Rightarrow> (nat \<Rightarrow> nat \<Rightarrow> u8) \<Rightarrow> u32 \<Rightarrow> PositionalInvertedIndex \<Rightarrow> u32 list \<Rightarrow> PositionalInvertedIndex option" where
  "pos_add_postings F junk pad docid idx [] = Some idx"
| "pos_add_postings F junk pad docid idx (tid # tids) = do {
     idx' \<leftarrow> pos_add_posting F junk pad docid idx tid;
     pos_add_postings F junk pad docid idx' tids
   }"

definition pos_insertDoc ::
  "'f float_ops \<Rightarrow> (nat \<Rightarrow> u32) \<Rightarrow> (nat \<Rightarrow> nat \<Rightarrow> u8) \<Rightarrow> (nat \<Rightarrow> bool) \<Rightarrow> PositionalInvertedIndex \<Rightarrow> u32 \<Rightarrow> string list \<Rightarrow>
   PositionalInvertedIndex option" where
  "pos_insertDoc F junk pad accepts idx docid term_list = do {
     (idx1, uniqueTerms) \<leftarrow> pos_count_terms accepts (idx, []) 0 term_list;
     let pt = px_pointers idx1;
     let idx2 = idx1 \<lparr> px_pointers := pt \<lparr> docLen := FixedCounter_set (docLen pt) docid (of_nat (length term_list)),
                        totalDocs := totalDocs pt + 1 \<rparr> \<rparr>;
     pos_add_postings F junk pad docid idx2 uniqueTerms
   }"

partial_function (option) pos_flush_loop ::
  "(nat \<Rightarrow> u32) \<Rightarrow> (nat \<Rightarrow> nat \<Rightarrow> u8) \<Rightarrow> PositionalInvertedIndex \<Rightarrow> u32 \<Rightarrow> PositionalInvertedIndex option" where
  "pos_flush_loop junk pad idx tm = do {
     tm' \<leftarrow> pos_nextIndex (px_buffer idx) tm DF_CUTOFF;
     if tm' = INVALID_ID then Some idx
     else do {
       idx' \<leftarrow> pos_process_term junk pad idx tm';
       pos_flush_loop junk pad idx' tm'
     }
   }"

definition pos_flush :: "(nat \<Rightarrow> u32) \<Rightarrow> (nat \<Rightarrow> nat \<Rightarrow> u8) \<Rightarrow> PositionalInvertedIndex \<Rightarrow> PositionalInvertedIndex option" where
  "pos_flush junk pad idx = pos_flush_loop junk pad idx INVALID_ID"

section \<open>Saving and loading\<close>

definition put_flag :: "bool \<Rightarrow> u8 list" where "put_flag b = [if b then 1 else 0]"

definition get_flag :: "u8 list \<Rightarrow> (bool \<times> u8 list) option" where
  "get_flag s = (case s of [] \<Rightarrow> None | b # s' \<Rightarrow> Some (b \<noteq> 0, s'))"

definition PosIndex_save :: "PositionalInvertedIndex \<Rightarrow> u8 list option" where
  "PosIndex_save idx = do {
     b \<leftarrow> PositionalBufferMaps_save (px_buffer idx);
     p \<leftarrow> save (px_pool idx);
     t \<leftarrow> Pointers_save (px_pointers idx);
     Some (put_flag (px_reverse idx) @ b @ p @ Dictionary_save (px_dictionary idx) @ t @
       put_flag (px_bloomEnabled idx) @ put32 (px_nbHash idx) @ put32 (px_bitsPerElement idx))
   }"

definition PosIndex_load :: "(nat \<Rightarrow> u32) \<Rightarrow> PositionalInvertedIndex \<Rightarrow> u8 list \<Rightarrow> (PositionalInvertedIndex \<times> u8 list) option" where
  "PosIndex_load junk idx s = do {
     (r, s0) \<leftarrow> get_flag s;
     (b, s1) \<leftarrow> PositionalBufferMaps_load (px_buffer idx) s0;
     (p, s2) \<leftarrow> load junk (px_pool idx) s1;
     (d, s3) \<leftarrow> Dictionary_load (px_dictionary idx) s2;
     (t, s4) \<leftarrow> Pointers_load (px_pointers idx) s3;
     (be, s5) \<leftarrow> get_flag s4;
     (nh, s6) \<leftarrow> get32 s5;
     (bpe, s7) \<leftarrow> get32 s6;
     Some (idx \<lparr> px_reverse := r, px_buffer := b, px_pool := p, px_dictionary := d, px_pointers := t,
       px_bloomEnabled := be, px_nbHash := nh, px_bitsPerElement := bpe \<rparr>, s7)
   }"


section \<open>Iterating over the blocks of a term\<close>

text \<open>The variables of a caller of \<open>iterateSegment_\<close>: the decoded block, the number of its docids, the position in it, and the pointer to it.\<close>

record seg_iter =
  si_block :: "u32 list"
  si_count :: nat
  si_index :: nat
  si_pointer :: u64

definition si_start :: "(nat \<Rightarrow> u32) \<Rightarrow> u64 \<Rightarrow> seg_iter" where
  "si_start junk pointer = \<lparr> si_block = map junk [0..<BLOCK_SIZE], si_count = 0, si_index = 0, si_pointer = pointer \<rparr>"

definition si_current :: "seg_iter \<Rightarrow> u32 option" where
  "si_current it = rd (si_block it) (si_index it)"

definition iterateSegment :: "u32 list list \<Rightarrow> bool \<Rightarrow> SegmentPool \<Rightarrow> seg_iter \<Rightarrow> u32 \<Rightarrow> (bool \<times> seg_iter) option" where
  "iterateSegment cd r sp it pivot = do {
     past \<leftarrow> (if si_count it = 0 then Some True else do { x \<leftarrow> rd (si_block it) (si_count it - 1); Some (LESS_THAN x pivot r) });
     p \<leftarrow> (if past then nextPointer_pivot sp (si_pointer it) pivot r else Some (si_pointer it));
     if past \<and> p = UNDEFINED_POINTER then Some (False, it \<lparr> si_pointer := p \<rparr>)
     else do {
       it1 \<leftarrow> (if past then do {
           (block, n) \<leftarrow> pos_decompressDocidBlock cd r sp (si_block it) p;
           Some (it \<lparr> si_block := block, si_count := n, si_index := 0, si_pointer := p \<rparr>)
         } else Some it);
       (ok, i) \<leftarrow> pos_gallopSearch (si_block it1) r (si_count it1) (si_index it1) pivot;
       Some (ok, it1 \<lparr> si_index := i \<rparr>)
     }
   }"

text \<open>\<open>containsDocid_\<close> asks the Bloom filter of the block a docid would be in, and moves the pointer on to that block.\<close>

partial_function (option) contains_loop :: "SegmentPool \<Rightarrow> u32 \<Rightarrow> bool \<Rightarrow> u32 \<Rightarrow> u32 \<Rightarrow> u64 option" where
  "contains_loop sp docid r pSegment pOffset = do {
     m \<leftarrow> cell sp (unat pSegment, unat (pOffset + 3));
     if LESS_THAN m docid r then do {
       s \<leftarrow> cell sp (unat pSegment, unat (pOffset + 1));
       if s = UNDEFINED_SEGMENT then Some UNDEFINED_POINTER
       else do {
         off \<leftarrow> cell sp (unat pSegment, unat (pOffset + 2));
         contains_loop sp docid r s off
       }
     }
     else Some (ENCODE_POINTER pSegment pOffset)
   }"

definition containsDocid :: "bool \<Rightarrow> SegmentPool \<Rightarrow> u32 \<Rightarrow> u32 \<Rightarrow> u64 \<Rightarrow> (bool \<times> u64) option" where
  "containsDocid r sp nbHash docid pointer =
     (if pointer = UNDEFINED_POINTER then Some (False, pointer)
      else do {
        p \<leftarrow> contains_loop sp docid r (DECODE_SEGMENT pointer) (DECODE_OFFSET pointer);
        if p = UNDEFINED_POINTER then Some (False, UNDEFINED_POINTER)
        else do {
          arr \<leftarrow> pool_array_of sp p;
          let off = DECODE_OFFSET p;
          m \<leftarrow> rd arr (unat (off + 3));
          if m = docid then Some (True, pointer)
          else do {
            bloomOffset \<leftarrow> rd arr (unat (off + 4));
            n \<leftarrow> rd arr (unat (off + bloomOffset));
            flt \<leftarrow> (if unat (off + bloomOffset + 1) \<le> length arr then Some (drop (unat (off + bloomOffset + 1)) arr) else None);
            b \<leftarrow> bloom_contains flt n nbHash docid;
            Some (b, p)
          }
        }
      })"

section \<open>Queries\<close>

text \<open>The docid from which the queries go on: the one at hand if the filter lets it through, else the next one that it does.\<close>

definition eligible_from :: "FilterBase \<Rightarrow> bool \<Rightarrow> u32 \<Rightarrow> u32" where
  "eligible_from flt r d = (if test flt d then d else find_next flt d r)"

text \<open>\<open>bwandAnd_\<close>: the docids of the shortest list, checked against the Bloom filters of the others.\<close>

fun contains_all :: "bool \<Rightarrow> SegmentPool \<Rightarrow> u32 \<Rightarrow> u32 \<Rightarrow> u64 list \<Rightarrow> (bool \<times> u64 list) option" where
  "contains_all r sp nbHash docid [] = Some (True, [])"
| "contains_all r sp nbHash docid (p # ps) = do {
     (b, p') \<leftarrow> containsDocid r sp nbHash docid p;
     if b then do {
       (b', ps') \<leftarrow> contains_all r sp nbHash docid ps;
       Some (b', p' # ps')
     } else Some (False, p' # ps)
   }"

partial_function (option) bwandAnd_loop ::
  "u32 list list \<Rightarrow> bool \<Rightarrow> SegmentPool \<Rightarrow> u32 \<Rightarrow> FilterBase \<Rightarrow> u32 \<Rightarrow> seg_iter \<Rightarrow> u32 \<Rightarrow> u64 list \<Rightarrow> u32 list \<Rightarrow> u32 list option" where
  "bwandAnd_loop cd r sp nbHash flt hits it eligible ps res = do {
     d \<leftarrow> si_current it;
     (stop, eligible1, ps1, res1) \<leftarrow>
       (if d = eligible then do {
          (found, ps') \<leftarrow> contains_all r sp nbHash eligible ps;
          let res' = (if found then res @ [eligible] else res);
          let e = find_next flt eligible r;
          Some (found \<and> length res' \<ge> unat hits \<or> e = INVALID_ID, e, ps', res')
        } else Some (False, eligible, ps, res));
     if stop then Some res1
     else do {
       (ok, it1) \<leftarrow> iterateSegment cd r sp it eligible1;
       if \<not> ok then Some res1
       else do {
         d1 \<leftarrow> si_current it1;
         let e = eligible_from flt r d1;
         if e = INVALID_ID then Some res1 else bwandAnd_loop cd r sp nbHash flt hits it1 e ps1 res1
       }
     }
   }"

definition bwandAnd ::
  "u32 list list \<Rightarrow> (nat \<Rightarrow> u32) \<Rightarrow> bool \<Rightarrow> SegmentPool \<Rightarrow> u32 \<Rightarrow> u64 list \<Rightarrow> FilterBase \<Rightarrow> u32 \<Rightarrow> u32 list \<Rightarrow> u32 list option" where
  "bwandAnd cd junk r sp nbHash headPtrs flt hits res = do {
     h \<leftarrow> rd headPtrs 0;
     (ok, it) \<leftarrow> iterateSegment cd r sp (si_start junk h) (find_first flt r);
     if \<not> ok then Some res
     else do {
       d \<leftarrow> si_current it;
       let e = eligible_from flt r d;
       if e = INVALID_ID then Some res
       else bwandAnd_loop cd r sp nbHash flt hits it e (tl headPtrs) res
     }
   }"

text \<open>\<open>intersectSvS_\<close> with one term, with two terms, and the filtering of the result list by each further term.\<close>

partial_function (option) svs_single_loop ::
  "u32 list list \<Rightarrow> bool \<Rightarrow> SegmentPool \<Rightarrow> FilterBase \<Rightarrow> nat \<Rightarrow> seg_iter \<Rightarrow> u32 \<Rightarrow> u32 list \<Rightarrow> u32 list option" where
  "svs_single_loop cd r sp flt len it eligible res = do {
     d \<leftarrow> si_current it;
     let hit = (d = eligible);
     let res1 = (if hit then res @ [eligible] else res);
     let eligible1 = (if hit then find_next flt eligible r else eligible);
     if hit \<and> (length res1 = len \<or> eligible1 = INVALID_ID) then Some res1
     else do {
       (ok, it1) \<leftarrow> iterateSegment cd r sp it eligible1;
       if \<not> ok then Some res1
       else do {
         d1 \<leftarrow> si_current it1;
         let e = eligible_from flt r d1;
         if e = INVALID_ID then Some res1 else svs_single_loop cd r sp flt len it1 e res1
       }
     }
   }"

definition svs_single ::
  "u32 list list \<Rightarrow> (nat \<Rightarrow> u32) \<Rightarrow> bool \<Rightarrow> SegmentPool \<Rightarrow> u64 \<Rightarrow> FilterBase \<Rightarrow> u32 \<Rightarrow> u32 \<Rightarrow> u32 list \<Rightarrow> u32 list option" where
  "svs_single cd junk r sp h flt minDf hits res = do {
     (ok, it) \<leftarrow> iterateSegment cd r sp (si_start junk h) (find_first flt r);
     if \<not> ok then Some res
     else do {
       d \<leftarrow> si_current it;
       let e = eligible_from flt r d;
       if e = INVALID_ID then Some res
       else svs_single_loop cd r sp flt (unat (min minDf hits)) it e res
     }
   }"

partial_function (option) svs_pair_loop ::
  "u32 list list \<Rightarrow> bool \<Rightarrow> SegmentPool \<Rightarrow> FilterBase \<Rightarrow> seg_iter \<Rightarrow> seg_iter \<Rightarrow> u32 list \<Rightarrow> u32 list option" where
  "svs_pair_loop cd r sp flt it0 it1 res = do {
     d0 \<leftarrow> si_current it0;
     d1 \<leftarrow> si_current it1;
     if d1 = d0 then do {
       let res1 = res @ [d0];
       let e = find_next flt d0 r;
       if e = INVALID_ID then Some res1
       else do {
         (ok0, it0') \<leftarrow> iterateSegment cd r sp it0 e;
         if \<not> ok0 then Some res1
         else do {
           d0' \<leftarrow> si_current it0';
           let e' = eligible_from flt r d0';
           if e' = INVALID_ID then Some res1
           else do {
             (ok1, it1') \<leftarrow> iterateSegment cd r sp it1 e';
             if \<not> ok1 then Some res1 else svs_pair_loop cd r sp flt it0' it1' res1
           }
         }
       }
     }
     else if LESS_THAN d0 d1 r then do {
       let e = eligible_from flt r d1;
       if e = INVALID_ID then Some res
       else do {
         (ok0, it0') \<leftarrow> iterateSegment cd r sp it0 e;
         if \<not> ok0 then Some res else svs_pair_loop cd r sp flt it0' it1 res
       }
     }
     else do {
       let e = eligible_from flt r d0;
       if e = INVALID_ID then Some res
       else do {
         (ok1, it1') \<leftarrow> iterateSegment cd r sp it1 e;
         if \<not> ok1 then Some res else svs_pair_loop cd r sp flt it0 it1' res
       }
     }
   }"

definition svs_pair ::
  "u32 list list \<Rightarrow> (nat \<Rightarrow> u32) \<Rightarrow> bool \<Rightarrow> SegmentPool \<Rightarrow> FilterBase \<Rightarrow> u64 \<Rightarrow> u64 \<Rightarrow> u32 list \<Rightarrow> u32 list option" where
  "svs_pair cd junk r sp flt pointer0 pointer1 res = do {
     (ok0, it0) \<leftarrow> iterateSegment cd r sp (si_start junk pointer0) (find_first flt r);
     if \<not> ok0 then Some res
     else do {
       d0 \<leftarrow> si_current it0;
       let e = eligible_from flt r d0;
       if e = INVALID_ID then Some res
       else do {
         (ok1, it1) \<leftarrow> iterateSegment cd r sp (si_start junk pointer1) e;
         if \<not> ok1 then Some res else svs_pair_loop cd r sp flt it0 it1 res
       }
     }
   }"

partial_function (option) svs_set_loop ::
  "u32 list list \<Rightarrow> bool \<Rightarrow> SegmentPool \<Rightarrow> seg_iter \<Rightarrow> nat \<Rightarrow> nat \<Rightarrow> u32 list \<Rightarrow> u32 list option" where
  "svs_set_loop cd r sp it iSet iCurrent res = do {
     d \<leftarrow> si_current it;
     x \<leftarrow> rd res iCurrent;
     res1 \<leftarrow> (if d = x then wr res iSet x else Some res);
     let iSet1 = (if d = x then iSet + 1 else iSet);
     let iCurrent1 = (if d = x then iCurrent + 1 else iCurrent);
     if d = x \<and> iCurrent1 = length res then Some (take iSet1 res1)
     else do {
       y \<leftarrow> rd res1 iCurrent1;
       (ok, it1) \<leftarrow> iterateSegment cd r sp it y;
       if \<not> ok then Some (take iSet1 res1)
       else do {
         d1 \<leftarrow> si_current it1;
         (ok', i) \<leftarrow> pos_gallopSearch res1 r (length res1) iCurrent1 d1;
         if \<not> ok' then Some (take iSet1 res1) else svs_set_loop cd r sp it1 iSet1 i res1
       }
     }
   }"

definition svs_set :: "u32 list list \<Rightarrow> (nat \<Rightarrow> u32) \<Rightarrow> bool \<Rightarrow> SegmentPool \<Rightarrow> u64 \<Rightarrow> u32 list \<Rightarrow> u32 list option" where
  "svs_set cd junk r sp pointer res = do {
     x \<leftarrow> rd res 0;
     (ok, it) \<leftarrow> iterateSegment cd r sp (si_start junk pointer) x;
     if \<not> ok then Some res
     else do {
       d \<leftarrow> si_current it;
       (ok', i) \<leftarrow> pos_gallopSearch res r (length res) 0 d;
       if \<not> ok' then Some res else svs_set_loop cd r sp it 0 i res
     }
   }"

fun svs_rest :: "u32 list list \<Rightarrow> (nat \<Rightarrow> u32) \<Rightarrow> bool \<Rightarrow> SegmentPool \<Rightarrow> u64 list \<Rightarrow> u32 list \<Rightarrow> (bool \<times> u32 list) option" where
  "svs_rest cd junk r sp [] res = Some (True, res)"
| "svs_rest cd junk r sp (p # ps) res =
     (if res = [] then Some (False, res)
      else do {
        res' \<leftarrow> svs_set cd junk r sp p res;
        svs_rest cd junk r sp ps res'
      })"

definition pos_intersectSvS ::
  "u32 list list \<Rightarrow> (nat \<Rightarrow> u32) \<Rightarrow> bool \<Rightarrow> SegmentPool \<Rightarrow> u64 list \<Rightarrow> FilterBase \<Rightarrow> u32 \<Rightarrow> u32 \<Rightarrow> u32 list \<Rightarrow> u32 list option" where
  "pos_intersectSvS cd junk r sp headPtrs flt minDf hits res = (case headPtrs of
       [] \<Rightarrow> None
     | [h] \<Rightarrow> svs_single cd junk r sp h flt minDf hits res
     | h0 # h1 # hs \<Rightarrow> do {
         res1 \<leftarrow> svs_pair cd junk r sp flt h0 h1 res;
         (completed, res2) \<leftarrow> svs_rest cd junk r sp hs res1;
         Some (if completed \<and> unat hits < length res2 then take (unat hits) res2 else res2)
       })"


text \<open>The heaps of \<open>bwandOr_\<close> and \<open>wand_\<close> have the smallest result in front: pairs of a score and a docid. The model keeps them in ascending
  order, of which the source sees only the first.\<close>

definition pair_less :: "'f float_ops \<Rightarrow> 'f \<times> u32 \<Rightarrow> 'f \<times> u32 \<Rightarrow> bool" where
  "pair_less F x y \<longleftrightarrow> f_less F (fst x) (fst y) \<or> \<not> f_less F (fst y) (fst x) \<and> snd x < snd y"

fun heap_push :: "'f float_ops \<Rightarrow> 'f \<times> u32 \<Rightarrow> ('f \<times> u32) list \<Rightarrow> ('f \<times> u32) list" where
  "heap_push F x [] = [x]"
| "heap_push F x (y # ys) = (if pair_less F y x then y # heap_push F x ys else x # y # ys)"

definition heap_replace :: "'f float_ops \<Rightarrow> 'f \<times> u32 \<Rightarrow> ('f \<times> u32) list \<Rightarrow> ('f \<times> u32) list" where
  "heap_replace F x ys = heap_push F x (tl ys)"

fun bloom_score :: "'f float_ops \<Rightarrow> bool \<Rightarrow> SegmentPool \<Rightarrow> u32 \<Rightarrow> u32 \<Rightarrow> u64 list \<Rightarrow> 'f list \<Rightarrow> 'f \<Rightarrow> ('f \<times> u64 list) option" where
  "bloom_score F r sp nbHash docid [] ubs score = Some (score, [])"
| "bloom_score F r sp nbHash docid (p # ps) [] score = None"
| "bloom_score F r sp nbHash docid (p # ps) (u # ubs) score = do {
     (b, p') \<leftarrow> containsDocid r sp nbHash docid p;
     (score', ps') \<leftarrow> bloom_score F r sp nbHash docid ps ubs (if b then f_add F score u else score);
     Some (score', p' # ps')
   }"

partial_function (option) bwandOr_loop ::
  "'f float_ops \<Rightarrow> u32 list list \<Rightarrow> bool \<Rightarrow> SegmentPool \<Rightarrow> u32 \<Rightarrow> FilterBase \<Rightarrow> u32 \<Rightarrow> 'f \<Rightarrow> 'f \<Rightarrow> 'f list \<Rightarrow> seg_iter \<Rightarrow> u32 \<Rightarrow> u64 list \<Rightarrow>
   'f \<Rightarrow> ('f \<times> u32) list \<Rightarrow> ('f \<times> u32) list option" where
  "bwandOr_loop F cd r sp nbHash flt hits sumOfUB ub0 ubs it eligible ps threshold heap = do {
     d \<leftarrow> si_current it;
     (stop, eligible1, ps1, threshold1, heap1) \<leftarrow>
       (if d = eligible then do {
          (score, ps') \<leftarrow> bloom_score F r sp nbHash eligible ps ubs ub0;
          heap' \<leftarrow> (if length heap < unat hits then Some (heap_push F (score, eligible) heap)
             else if f_less F threshold score then if heap = [] then None else Some (heap_replace F (score, eligible) heap)
             else Some heap);
          x \<leftarrow> rd heap' 0;
          let e = find_next flt eligible r;
          Some (length heap' = unat hits \<and> f_eq F (fst x) sumOfUB \<or> e = INVALID_ID, e, ps', fst x, heap')
        } else Some (False, eligible, ps, threshold, heap));
     if stop then Some heap1
     else do {
       (ok, it1) \<leftarrow> iterateSegment cd r sp it eligible1;
       if \<not> ok then Some heap1
       else do {
         d1 \<leftarrow> si_current it1;
         let e = eligible_from flt r d1;
         if e = INVALID_ID then Some heap1
         else bwandOr_loop F cd r sp nbHash flt hits sumOfUB ub0 ubs it1 e ps1 threshold1 heap1
       }
     }
   }"

definition bwandOr ::
  "'f float_ops \<Rightarrow> u32 list list \<Rightarrow> (nat \<Rightarrow> u32) \<Rightarrow> bool \<Rightarrow> SegmentPool \<Rightarrow> u32 \<Rightarrow> u64 list \<Rightarrow> 'f list \<Rightarrow> FilterBase \<Rightarrow> u32 \<Rightarrow>
   ('f \<times> u32) list option" where
  "bwandOr F cd junk r sp nbHash headPtrs UB flt hits = do {
     h \<leftarrow> rd headPtrs 0;
     u \<leftarrow> rd UB 0;
     (ok, it) \<leftarrow> iterateSegment cd r sp (si_start junk h) (find_first flt r);
     if \<not> ok then Some []
     else do {
       d \<leftarrow> si_current it;
       let e = eligible_from flt r d;
       if e = INVALID_ID then Some []
       else do {
         heap \<leftarrow> bwandOr_loop F cd r sp nbHash flt hits (foldl (f_add F) (f_zero F) UB) u (tl UB) it e (tl headPtrs) (f_zero F) [];
         Some (if r then rev (sort_key snd heap) else sort_key snd heap)
       }
     }
   }"

text \<open>\<open>wand_\<close>. The terms that still have postings are numbered in \<open>mapping\<close>.\<close>

record wand_state =
  w_its :: "seg_iter list"
  w_tfs :: "u32 list list"
  w_mapping :: "nat list"

primrec wand_init ::
  "'f float_ops \<Rightarrow> u32 list list \<Rightarrow> bool \<Rightarrow> SegmentPool \<Rightarrow> bool \<Rightarrow> 'f list \<Rightarrow> u32 \<Rightarrow> u64 list \<Rightarrow> nat \<Rightarrow> (wand_state \<times> 'f) option" where
  "wand_init F cd r sp hasTf UB eligible headPtrs 0 = Some (\<lparr> w_its = [], w_tfs = [], w_mapping = [] \<rparr>, f_zero F)"
| "wand_init F cd r sp hasTf UB eligible headPtrs (Suc i) = do {
     (st, threshold) \<leftarrow> wand_init F cd r sp hasTf UB eligible headPtrs i;
     h \<leftarrow> rd headPtrs i;
     u \<leftarrow> rd UB i;
     (ok, it) \<leftarrow> iterateSegment cd r sp (si_start (\<lambda>_. 0) h) eligible;
     if \<not> ok then Some (st \<lparr> w_its := w_its st @ [it], w_tfs := w_tfs st @ [[]] \<rparr>, threshold)
     else do {
       tfs \<leftarrow> (if hasTf then map_option fst (pos_decompressTfBlock cd sp (replicate BLOCK_SIZE 0) (si_pointer it)) else Some []);
       Some (\<lparr> w_its = w_its st @ [it], w_tfs = w_tfs st @ [tfs], w_mapping = w_mapping st @ [i] \<rparr>,
             if f_less F u threshold \<or> f_eq F u threshold then f_sub F u (f_one F) else threshold)
     }
   }"

text \<open>The terms are sorted once by the first docids of their blocks, by selection, and after each step by their current docids, by bubbling.\<close>

definition w_first :: "wand_state \<Rightarrow> nat \<Rightarrow> u32 option" where
  "w_first st j = do { m \<leftarrow> rd (w_mapping st) j; it \<leftarrow> rd (w_its st) m; rd (si_block it) 0 }"

definition w_current :: "wand_state \<Rightarrow> nat \<Rightarrow> u32 option" where
  "w_current st j = do { m \<leftarrow> rd (w_mapping st) j; it \<leftarrow> rd (w_its st) m; si_current it }"

definition w_swap :: "wand_state \<Rightarrow> nat \<Rightarrow> nat \<Rightarrow> wand_state" where
  "w_swap st i j = st \<lparr> w_mapping := (w_mapping st)[i := w_mapping st ! j, j := w_mapping st ! i] \<rparr>"

fun w_least :: "bool \<Rightarrow> wand_state \<Rightarrow> nat \<Rightarrow> nat list \<Rightarrow> nat option" where
  "w_least r st least [] = Some least"
| "w_least r st least (j # js) = do {
     x \<leftarrow> w_first st least;
     y \<leftarrow> w_first st j;
     w_least r st (if GREATER_THAN x y r then j else least) js
   }"

fun w_select :: "bool \<Rightarrow> wand_state \<Rightarrow> nat list \<Rightarrow> wand_state option" where
  "w_select r st [] = Some st"
| "w_select r st (i # is) = do {
     l \<leftarrow> w_least r st i [i + 1..<length (w_mapping st)];
     w_select r (w_swap st i l) is
   }"

fun w_bubble_pass :: "bool \<Rightarrow> wand_state \<Rightarrow> bool \<Rightarrow> nat list \<Rightarrow> (wand_state \<times> bool) option" where
  "w_bubble_pass r st unchanged [] = Some (st, unchanged)"
| "w_bubble_pass r st unchanged (j # js) = do {
     x \<leftarrow> w_current st (j - 1);
     y \<leftarrow> w_current st j;
     if GREATER_THAN x y r then w_bubble_pass r (w_swap st (j - 1) j) False js else w_bubble_pass r st unchanged js
   }"

fun w_bubble :: "bool \<Rightarrow> wand_state \<Rightarrow> nat list \<Rightarrow> wand_state option" where
  "w_bubble r st [] = Some st"
| "w_bubble r st (i # is) = do {
     (st', unchanged) \<leftarrow> w_bubble_pass r st True [i + 1..<length (w_mapping st)];
     if unchanged then Some st' else w_bubble r st' is
   }"

text \<open>The pivot: the first term at which the bounds of the terms so far exceed the threshold and whose successor has another docid. The second
  component of the result is the sum of the bounds.\<close>

fun w_pivot :: "'f float_ops \<Rightarrow> wand_state \<Rightarrow> 'f list \<Rightarrow> 'f \<Rightarrow> 'f \<Rightarrow> nat list \<Rightarrow> (nat option \<times> 'f) option" where
  "w_pivot F st UB threshold ub [] = Some (None, ub)"
| "w_pivot F st UB threshold ub (i # is) = do {
     m \<leftarrow> rd (w_mapping st) i;
     u \<leftarrow> rd UB m;
     let ub1 = f_add F ub u;
     hit \<leftarrow> (if f_less F threshold ub1 then
         if i = length (w_mapping st) - 1 then Some True
         else do { x \<leftarrow> w_current st i; y \<leftarrow> w_current st (i + 1); Some (x \<noteq> y) }
       else Some False);
     if hit then Some (Some i, ub1) else w_pivot F st UB threshold ub1 is
   }"

fun w_tf_score :: "'f float_ops \<Rightarrow> wand_state \<Rightarrow> u32 list \<Rightarrow> u32 \<Rightarrow> u32 \<Rightarrow> 'f \<Rightarrow> 'f \<Rightarrow> nat list \<Rightarrow> 'f option" where
  "w_tf_score F st dfs totDocs dl avg score [] = Some score"
| "w_tf_score F st dfs totDocs dl avg score (i # is) = do {
     m \<leftarrow> rd (w_mapping st) i;
     it \<leftarrow> rd (w_its st) m;
     tfs \<leftarrow> rd (w_tfs st) m;
     tf \<leftarrow> rd tfs (si_index it);
     n \<leftarrow> rd dfs m;
     w_tf_score F st dfs totDocs dl avg (f_add F score (default_bm25 F tf n totDocs dl avg)) is
   }"

text \<open>The terms before \<open>eligible\<close> go on to it; the comparison does not look at the order of the index. Terms that are at their end
  leave the mapping.\<close>

fun w_advance ::
  "u32 list list \<Rightarrow> bool \<Rightarrow> SegmentPool \<Rightarrow> bool \<Rightarrow> u32 \<Rightarrow> wand_state \<Rightarrow> nat list \<Rightarrow> (wand_state \<times> nat list) option" where
  "w_advance cd r sp hasTf eligible st [] = Some (st, [])"
| "w_advance cd r sp hasTf eligible st (m # ms) = do {
     it \<leftarrow> rd (w_its st) m;
     d \<leftarrow> si_current it;
     if d \<ge> eligible then Some (st, m # ms)
     else do {
       (ok, it1) \<leftarrow> iterateSegment cd r sp it eligible;
       let st1 = st \<lparr> w_its := (w_its st)[m := it1] \<rparr>;
       if \<not> ok then w_advance cd r sp hasTf eligible st1 ms
       else do {
         st2 \<leftarrow> (if hasTf \<and> si_pointer it1 \<noteq> si_pointer it then do {
             t \<leftarrow> rd (w_tfs st) m;
             (t', _) \<leftarrow> pos_decompressTfBlock cd sp t (si_pointer it1);
             Some (st1 \<lparr> w_tfs := (w_tfs st)[m := t'] \<rparr>)
           } else Some st1);
         (st3, ms') \<leftarrow> w_advance cd r sp hasTf eligible st2 ms;
         Some (st3, m # ms')
       }
     }
   }"

partial_function (option) wand_loop ::
  "'f float_ops \<Rightarrow> u32 list list \<Rightarrow> bool \<Rightarrow> SegmentPool \<Rightarrow> FilterBase \<Rightarrow> bool \<Rightarrow> 'f list \<Rightarrow> u32 list \<Rightarrow> u32 list \<Rightarrow> u32 \<Rightarrow> 'f \<Rightarrow> u32 \<Rightarrow> wand_state \<Rightarrow> 'f \<Rightarrow>
   ('f \<times> u32) list \<Rightarrow> ('f \<times> u32) list option" where
  "wand_loop F cd r sp flt hasTf UB dfs docLens totDocs avg hits st threshold heap = do {
     (pv, sum) \<leftarrow> w_pivot F st UB threshold (f_zero F) [0..<length (w_mapping st)];
     case pv of
       None \<Rightarrow> Some heap
     | Some j \<Rightarrow>
       if f_eq F sum (f_zero F) then Some heap
       else do {
         pivot \<leftarrow> w_current st j;
         d0 \<leftarrow> w_current st 0;
         (full, threshold1, heap1) \<leftarrow>
           (if d0 = pivot \<and> test flt pivot then do {
              score \<leftarrow> (if hasTf then do { dl \<leftarrow> rd docLens (unat pivot); w_tf_score F st dfs totDocs dl avg (f_zero F) [0..<j + 1] }
                        else Some sum);
              if f_less F threshold score then do {
                heap' \<leftarrow> (if length heap < unat hits then Some (heap_push F (score, pivot) heap)
                  else do { x \<leftarrow> rd heap 0; Some (if f_less F (fst x) score then heap_replace F (score, pivot) heap else heap) });
                if length heap' = unat hits then
                  if \<not> hasTf \<and> length (w_mapping st) = 1 then Some (True, threshold, heap')
                  else do { x \<leftarrow> rd heap' 0; Some (False, fst x, heap') }
                else Some (False, threshold, heap')
              } else Some (False, threshold, heap)
            } else Some (False, threshold, heap));
         if full then Some heap1
         else do {
           let eligible = (if d0 \<noteq> pivot \<and> test flt pivot then pivot else find_next flt pivot r);
           if eligible = INVALID_ID then Some heap1
           else do {
             (st1, ms) \<leftarrow> w_advance cd r sp hasTf eligible st (w_mapping st);
             let st2 = st1 \<lparr> w_mapping := ms \<rparr>;
             st3 \<leftarrow> w_bubble r st2 [0..<length ms];
             wand_loop F cd r sp flt hasTf UB dfs docLens totDocs avg hits st3 threshold1 heap1
           }
         }
       }
   }"

definition wand ::
  "'f float_ops \<Rightarrow> u32 list list \<Rightarrow> bool \<Rightarrow> SegmentPool \<Rightarrow> u64 list \<Rightarrow> u32 list \<Rightarrow> 'f list \<Rightarrow> u32 list \<Rightarrow> FilterBase \<Rightarrow> u32 \<Rightarrow> 'f \<Rightarrow> u32 \<Rightarrow> bool \<Rightarrow>
   ('f \<times> u32) list option" where
  "wand F cd r sp headPtrs dfs UB docLens flt totDocs avg hits hasTf = do {
     let eligible = find_first flt r;
     if eligible = INVALID_ID then Some []
     else do {
       (st, threshold) \<leftarrow> wand_init F cd r sp hasTf UB eligible headPtrs (length headPtrs);
       if w_mapping st = [] then Some []
       else do {
         st1 \<leftarrow> w_select r st [0..<length (w_mapping st) - 1];
         heap \<leftarrow> wand_loop F cd r sp flt hasTf UB dfs docLens totDocs avg hits st1 threshold [];
         Some (rev heap)
       }
     }
   }"

text \<open>\<open>retrieve\<close>: terms that are not in the dictionary or have no blocks are left out. Terms with equal frequencies stay in the order of the
  query when they are sorted, while \<open>std::sort\<close> may put them in any order. The result lists, empty at the call, are docids with scores; the conjunctive algorithms give the score 0.\<close>

fun pos_lookup :: "PositionalInvertedIndex \<Rightarrow> string list \<Rightarrow> (u32 \<times> u32 \<times> u64) list" where
  "pos_lookup idx [] = []"
| "pos_lookup idx (tm # tms) =
     (let tid = getTermId (px_dictionary idx) tm; p = FixedCounter_get (headPointers (px_pointers idx)) tid in
      if tid = INVALID_ID \<or> p = UNDEFINED_POINTER then pos_lookup idx tms
      else (FixedCounter_get (df (px_pointers idx)) tid, tid, p) # pos_lookup idx tms)"

definition pos_retrieve ::
  "'f float_ops \<Rightarrow> u32 list list \<Rightarrow> (nat \<Rightarrow> u32) \<Rightarrow> PositionalInvertedIndex \<Rightarrow> Algorithm \<Rightarrow> string list \<Rightarrow> FilterBase \<Rightarrow> u32 \<Rightarrow>
   (u32 list \<times> 'f list) option" where
  "pos_retrieve F cd junk idx algorithm term_list flt hits =
     (let queries = pos_lookup idx term_list; r = px_reverse idx; sp = px_pool idx; pt = px_pointers idx;
          minimumDf = fold (\<lambda>q m. min (fst q) m) queries 0xFFFFFFFF;
          qs = (if algorithm \<in> {BWAND_OR, BWAND_AND, SVS} then sort_key fst queries else queries);
          qdf = map fst qs; qheads = map (\<lambda>q. snd (snd q)) qs;
          avg = f_div F (f_of F (unat (totalDocLen pt))) (f_of F (unat (totalDocs pt)));
          conj = (\<lambda>res. map_option (\<lambda>ds. (ds, replicate (length ds) (f_zero F))) res)
      in if queries = [] then Some ([], [])
         else case algorithm of
           BWAND_OR \<Rightarrow>
             map_option (\<lambda>xs. (map snd xs, map fst xs))
               (bwandOr F cd junk r sp (px_nbHash idx) qheads (map (\<lambda>n. idf F (totalDocs pt) n) qdf) flt hits)
         | BWAND_AND \<Rightarrow> conj (bwandAnd cd junk r sp (px_nbHash idx) qheads flt (if hits = 0 then minimumDf else hits) [])
         | SVS \<Rightarrow> conj (pos_intersectSvS cd junk r sp qheads flt minimumDf hits [])
         | _ \<Rightarrow>
             let hasTf = (algorithm = WAND \<and> px_type idx \<noteq> NON_POSITIONAL);
                 UB = map (\<lambda>(n, tid, p). if hasTf
                        then default_bm25 F (FixedCounter_get (maxTf pt) tid) n (totalDocs pt) (FixedCounter_get (maxTfDocLen pt) tid) avg
                        else idf F (totalDocs pt) n) qs
             in map_option (\<lambda>xs. (map snd xs, map fst xs))
                  (wand F cd r sp qheads qdf UB (counter (docLen pt)) flt (totalDocs pt) avg hits hasTf))"


end
