(* ===== verification/Zambezi_PosBlock.thy ===== *)
theory Zambezi_PosBlock
  imports Zambezi_Pos
begin

text \<open>
  The blocks of the positional index: the code of 128 integers is short enough for the scratch array, a block without
  frequencies is written to the pool and read back, and the Bloom filter stored with it knows all its docids.
\<close>

section \<open>The size of a code\<close>

lemma packed_vector_length:
  assumes "packmeupwithoutmask xs k = Some ws" "k \<le> 32" "length xs < 2 ^ 31" "list_all (\<lambda>x. take_bit k x = x) xs" "xs \<noteq> []"
  shows "length ws = 1 + (length xs + 31) div 32 * k"
proof -
  let ?n = "length xs"
  let ?r = "round_up ?n"
  have r: "?r = 32 * ((?n + 31) div 32)" "?n \<le> ?r" "?r < 2 ^ 32"
    using assms(3) by (auto simp: round_up_def PACKSIZE_def)
  let ?p = "xs @ replicate (?r - ?n) 0"
  have lp: "length ?p = ?r" using r(2) by simp
  have v: "list_all (\<lambda>x. take_bit k x = x) ?p" using assms(4) by (auto simp: list_all_iff)
  from unmasked.loops [of k 0 "(?n + 31) div 32" ?r ?p "[]"] v r lp assms(2) obtain out where
    "pack_loop fastpackwithoutmask ?r ?p k 0 = Some out" "length out = (?n + 31) div 32 * k" by auto
  then show ?thesis using assms(1,2,5) lp by (auto simp: packmeupwithoutmask_def packme_def)
qed

lemma pack_one_exception:
  assumes "pack_exceptions dat ks = Some ws" "distinct ks" "\<forall>k \<in> set ks. dat ! k \<noteq> [] \<longrightarrow> k = i"
    and "i \<le> 32" "length (dat ! i) < 2 ^ 31" "list_all (\<lambda>x. take_bit i x = x) (dat ! i)"
  shows "length ws \<le> (if dat ! i = [] then 0 else 1 + (length (dat ! i) + 31) div 32 * i)"
  using assms(1-3)
proof (induction ks arbitrary: ws)
  case (Cons k ks)
  show ?case
  proof (cases "dat ! k = []")
    case True
    then have "pack_exceptions dat ks = Some ws" "distinct ks" "\<forall>j \<in> set ks. dat ! j \<noteq> [] \<longrightarrow> j = i"
      using Cons.prems by simp_all
    then show ?thesis by (rule Cons.IH)
  next
    case False
    then have k: "k = i" using Cons.prems(3) by simp
    from Cons.prems(1) False obtain v rest where v: "packmeupwithoutmask (dat ! k) k = Some v" "pack_exceptions dat ks = Some rest" "ws = v @ rest"
      by (cases "packmeupwithoutmask (dat ! k) k"; cases "pack_exceptions dat ks") auto
    have "dat ! j = []" if "j \<in> set ks" for j
    proof -
      have "j \<noteq> i" using Cons.prems(2) that k by auto
      then show ?thesis using bspec [OF Cons.prems(3), of j] that by simp
    qed
    then have "pack_exceptions dat ks = Some []" by (induction ks) auto
    with v packed_vector_length [OF v(1)] assms(4-6) False k show ?thesis by simp
  qed
qed simp

lemma exceptions_cost:
  assumes "getBestBFromData blk = (b, c, m)" "length blk = 128" "0 < c"
  shows "(c + 31) div 32 * (m - b) + 4 * b \<le> 160"
proof -
  have l: "length blk = BlockSize" using assms(2) by (simp add: BlockSize_def)
  note w = block_widths [OF assms(1) l]
  have bm: "b < m" using w(5) assms(3) by simp
  have "width_cost (take BlockSize blk) m b \<le> width_cost (take BlockSize blk) m m"
    by (rule getBest_least [OF assms(1) order_refl])
  then have "c * 8 + c * (m - b) + b * 128 + 8 \<le> m * 128"
    using bm w(3) l by (simp add: width_cost_def BlockSize_def)
  moreover have "(c + 31) div 32 * (m - b) * 32 \<le> (c + 31) * (m - b)"
  proof -
    have "(c + 31) div 32 * 32 \<le> c + 31" by simp
    then have "(c + 31) div 32 * 32 * (m - b) \<le> (c + 31) * (m - b)" by (rule mult_le_mono1)
    then show ?thesis by (simp only: mult.assoc mult.commute [of 32])
  qed
  moreover have "(c + 31) * (m - b) = c * (m - b) + 31 * (m - b)" by (simp add: add_mult_distrib)
  ultimately have "((c + 31) div 32 * (m - b) + 4 * b) * 32 \<le> m * 128 + 31 * (m - b)" by simp
  also have "\<dots> \<le> 32 * 128 + 31 * 32" using w(2) by (intro add_mono mult_le_mono) auto
  finally show ?thesis by simp
qed

lemma page_size:
  assumes "length xs = 128" "encode_page 65536 pad xs = Some (Inr ws)"
  shows "length ws \<le> 200"
proof -
  have l: "length xs = BlockSize" using assms(1) by (simp add: BlockSize_def)
  obtain b c m where g: "getBestBFromData xs = (b, c, m)" by (metis prod_cases3)
  note w = block_widths [OF g l]
  from pack_block [OF w(1) l] obtain pk where pk: "packblockup BlockSize xs b = Some pk" "length pk = 4 * b" by blast
  define dat where "dat = map (\<lambda>k. replicate 33 [] ! k @ exc_of xs k) [0..<33]"
  from encode_block_ok [OF l, of "replicate 33 []" "[]" "[]"] obtain pk' where
    e: "encode_block ([], [], replicate 33 []) xs = Some (pk', bytes_of xs, dat)" by (auto simp: dat_def)
  have "pk' = pk" using e pk(1) g by (auto simp: encode_block_def Let_def split: if_splits)
  moreover have "encode_blocks ([], [], replicate 33 []) xs = Some (pk', bytes_of xs, dat)"
    using e assms(1) by (subst encode_blocks.simps, simp add: BlockSize_def) (subst encode_blocks.simps, simp add: BlockSize_def)
  ultimately obtain exc where ws: "ws = of_nat (length pk + 1) # pk @ of_nat (length (bytes_of xs)) # words_of (bytes_of xs @ padding pad (bytes_of xs)) @
      bitmap_of dat # exc" "pack_exceptions dat [1..<33] = Some exc"
    using assms by (auto simp: encode_page_def checkifdivisibleby_def BlockSize_def split: bind_splits if_splits)
  have len: "length ws = 4 + 4 * b + (length (bytes_of xs) + 3) div 4 + length exc - 1"
    using ws(1) pk(2) padded_bytes(2) [of "bytes_of xs" pad] by simp
  have d: "dat ! k = exc_of xs k" if "k < 33" for k using that by (simp add: dat_def)
  show ?thesis
  proof (cases "0 < c")
    case True
    let ?i = "m - b"
    have ks: "length (exception_positions b xs) = c"
      using length_positions [OF l] w(1,3,5) w(2) True by simp
    have byt: "length (bytes_of xs) = 3 + c" using g True ks by (simp add: bytes_of_def)
    have i: "?i < 33" "?i \<le> 32" using w(2) by simp_all
    have ex: "exc_of xs k \<noteq> [] \<Longrightarrow> k = ?i" for k using g by (auto simp: exc_of_def split: if_splits)
    have li: "length (exc_of xs ?i) = c" using g True ks by (simp add: exc_of_def)
    have "length exc \<le> (if dat ! ?i = [] then 0 else 1 + (length (dat ! ?i) + 31) div 32 * ?i)"
    proof (rule pack_one_exception [OF ws(2)])
      show "\<forall>k \<in> set [1..<33]. dat ! k \<noteq> [] \<longrightarrow> k = ?i" using ex d by auto
      show "length (dat ! ?i) < 2 ^ 31" using li w(4) d [OF i(1)] by simp
      show "list_all (\<lambda>x. take_bit ?i x = x) (dat ! ?i)" using exc_of_fits(2) [OF l] d [OF i(1)] by simp
    qed (use i in simp_all)
    then have "length exc \<le> 1 + (c + 31) div 32 * ?i" using li d [OF i(1)] by (auto split: if_splits)
    with len byt exceptions_cost [OF g assms(1) True] w(4) show ?thesis by linarith
  next
    case False
    have "length (bytes_of xs) = 2" using g False by (simp add: bytes_of_def)
    moreover have "dat ! k = []" if "k < 33" for k using d [OF that] g False by (simp add: exc_of_def)
    then have "\<forall>k \<in> set [1..<33]. dat ! k = []" by simp
    then have "pack_exceptions dat ks = Some []" if "set ks \<subseteq> set [1..<33]" for ks
      using that by (induction ks) auto
    then have "exc = []" using ws(2) by (metis option.inject subset_refl)
    ultimately show ?thesis using len w(1) by simp
  qed
qed

text \<open>\<open>ws\<close> is a code, of at most 201 words, of the 128 integers \<open>xs\<close>.\<close>

definition pfor_code :: "u32 list \<Rightarrow> u32 list \<Rightarrow> bool" where
  "pfor_code xs ws \<longleftrightarrow> length xs = 128 \<and> length ws \<le> 201 \<and>
     (\<forall>cd rest len. length cd = 33 \<longrightarrow> FastPFor_decode 65536 cd (ws @ rest) len 128 = Some (Inr (xs, rest)))"

text \<open>Blocks of 128 integers: their code has at most 201 words and is decoded whatever an earlier call left in the codec.\<close>

lemma pfor_block:
  assumes "length xs = 128"
  shows "\<exists>ws. pfor_code xs ws \<and> (\<forall>cap. length ws \<le> cap \<longrightarrow> FastPFor_encode 65536 pad cap xs = Some (Inr ws))"
proof -
  have p: "length xs = 1 * BlockSize" "(65536 :: nat) = 512 * BlockSize" "(65536 :: nat) < 2 ^ 30" "(0 :: nat) < 512"
    using assms by (simp_all add: BlockSize_def)
  from pages_round_trip [OF p, of pad 0] obtain ws where
    ws: "encode_pages 65536 pad 0 xs = Some (Inr ws)"
    "\<And>rest cd. length cd = 33 \<Longrightarrow> decode_pages 65536 cd (ws @ rest) (length xs) = Some (xs, rest)" by auto
  have "xs \<noteq> []" using assms by auto
  then have "encode_page 65536 (pad 0) xs = Some (Inr ws)"
    using ws(1) assms by (subst (asm) encode_pages.simps, subst (asm) encode_pages.simps) (auto split: bind_splits sum.splits)
  then have l: "length ws \<le> 200" by (rule page_size [OF assms])
  have e: "FastPFor_encode 65536 pad cap xs = Some (Inr (of_nat (length xs) # ws))"
    if "length (of_nat (length xs) # ws :: u32 list) \<le> cap" for cap
    using that ws(1) assms by (simp add: FastPFor_encode_def checkifdivisibleby_def within_def BlockSize_def)
  have "FastPFor_decode 65536 cd ((of_nat (length xs) # ws) @ rest) len 128 = Some (Inr (xs, rest))" if "length cd = 33" for cd rest len
    using ws(2) [OF that, of rest] assms by (simp add: FastPFor_decode_def rd_def)
  with e l assms show ?thesis by (intro exI [of _ "of_nat (length xs) # ws"]) (auto simp: pfor_code_def)
qed

section \<open>Codes in the scratch array\<close>

lemma caught_simps [simp]: "caught (Some (Inr x)) = Some x"
  by (simp add: caught_def)

lemma wr_seq_append: "length ys \<le> length body \<Longrightarrow> wr_seq (pre @ body) (length pre) ys = Some (pre @ ys @ drop (length ys) body)"
  by (simp add: wr_seq_def)

lemma put_code_ok:
  assumes "length xs = 128" "257 \<le> length body"
  obtains ws T where "pfor_code xs ws" "put_code pad xs (pre @ body, length pre) = Some (pre @ of_nat (length ws) # ws @ T, length pre + length ws + 1)"
    "length T = length body - 1 - length ws" "\<And>k. 257 \<le> k \<Longrightarrow> drop (k - 1 - length ws) T = drop k body"
proof -
  from pfor_block [OF assms(1), of pad] obtain ws where
    c: "pfor_code xs ws" and e: "\<forall>cap. length ws \<le> cap \<longrightarrow> FastPFor_encode 65536 pad cap xs = Some (Inr ws)" by blast
  have ws: "length ws \<le> 201" using c by (simp add: pfor_code_def)
  obtain a body' where b: "body = a # body'" using assms(2) by (cases body) auto
  define Z :: "u32 list" where "Z = replicate 256 0 @ drop 256 body'"
  define T where "T = drop (length ws) Z"
  have lb: "256 \<le> length body'" using assms(2) b by simp
  have z: "length Z = length body'" using lb by (simp add: Z_def)
  have 1: "wr_seq (pre @ body) (length pre + 1) (replicate (BLOCK_SIZE * 2) 0) = Some ((pre @ [a]) @ Z)"
    using wr_seq_append [of "replicate 256 0" body' "pre @ [a]"] lb by (simp add: b Z_def BLOCK_SIZE_def)
  have 2: "wr_seq ((pre @ [a]) @ Z) (length pre + 1) ws = Some ((pre @ [a]) @ ws @ T)"
    using wr_seq_append [of ws Z "pre @ [a]"] ws lb z by (simp add: T_def)
  have 3: "wr ((pre @ [a]) @ ws @ T) (length pre) (of_nat (length ws)) = Some (pre @ of_nat (length ws) # ws @ T)"
    by (simp add: wr_def list_update_append)
  have ec: "caught (FastPFor_encode 65536 pad (BLOCK_SIZE * 2) xs) = Some ws" using e ws by (simp add: BLOCK_SIZE_def)
  have "put_code pad xs (pre @ body, length pre) = Some (pre @ of_nat (length ws) # ws @ T, length pre + length ws + 1)"
    unfolding put_code_def prod.case 1 Option.bind.bind_lunit ec 2 3 ..
  moreover have "drop (k - 1 - length ws) T = drop k body" if "257 \<le> k" for k
  proof -
    have "drop (k - 1 - length ws) T = drop (k - 1) Z" using that ws by (simp add: T_def)
    also have "\<dots> = drop (k - 1) body'" using that by (simp add: Z_def)
    also have "\<dots> = drop k body" using that by (simp add: b drop_Cons')
    finally show ?thesis .
  qed
  moreover have "length T = length body - 1 - length ws" using z b by (simp add: T_def)
  ultimately show thesis using c by (intro that [of ws T]) auto
qed

section \<open>Bloom filters in the scratch array\<close>

text \<open>A filter of \<open>n\<close> words, with anything behind it, answers for every docid, and says yes for those of the block.\<close>

definition bloom_block :: "u32 \<Rightarrow> u32 list \<Rightarrow> u32 list \<Rightarrow> bool" where
  "bloom_block nh flt ds \<longleftrightarrow> (\<forall>d rest. \<exists>b. bloom_contains (flt @ rest) (of_nat (length flt)) nh d = Some b \<and> (d \<in> set ds \<longrightarrow> b))"

lemma bloom_contains_prefix:
  "bloom_contains_loop flt bits v seed n = Some b \<Longrightarrow> bloom_contains_loop (flt @ rest) bits v seed n = Some b"
proof (induction n arbitrary: seed)
  case (Suc n)
  from Suc.prems obtain seed' i k w where s: "bloom_step bits v seed = Some (seed', i, k)" "rd flt i = Some w"
    "(if w AND push_bit k 1 = 0 then Some False else bloom_contains_loop flt bits v seed' n) = Some b"
    by (auto split: bind_splits)
  have "rd (flt @ rest) i = Some w" using s(2) by (auto simp: rd_def nth_append split: if_splits)
  then show ?case using s Suc.IH by (auto split: if_splits)
qed simp

lemma bloom_contains_total:
  assumes "unat n * 32 < 2 ^ 32" "0 < n" "unat n \<le> length flt"
  shows "\<exists>b. bloom_contains_loop flt (n * BLOOM_FILTER_UNIT_SIZE) v seed j = Some b"
proof (induction j arbitrary: seed)
  case (Suc j)
  from bloom_step_bound [OF assms(1,2), of v seed] obtain seed' i k where
    s: "bloom_step (n * BLOOM_FILTER_UNIT_SIZE) v seed = Some (seed', i, k)" "i < unat n" .
  then show ?case using Suc.IH [of seed'] assms(3) by (auto simp: rd_def)
qed auto

lemma bloom_block_made:
  assumes "bloom_insert_all (replicate (unat n) 0) n nh ds = Some flt" "unat n * 32 < 2 ^ 32" "0 < n"
  shows "length flt = unat n" "bloom_block nh flt ds"
proof -
  from bloom_insert_all_ok [OF assms(2,3), of "replicate (unat n) 0" nh ds] assms(1) have
    c: "length flt = unat n" "\<And>d. d \<in> set ds \<Longrightarrow> bloom_contains flt n nh d = Some True" by (auto simp: covers_def)
  show "length flt = unat n" by (rule c(1))
  have n: "of_nat (length flt) = n" using c(1) by simp
  show "bloom_block nh flt ds" unfolding bloom_block_def n
  proof (intro allI)
    fix d rest
    have "unat n \<le> length (flt @ rest)" using c(1) by simp
    from bloom_contains_total [OF assms(2,3) this, of d DEFAULT_HASH_SEED "unat nh"] obtain b where
      b: "bloom_contains (flt @ rest) n nh d = Some b" by (auto simp: bloom_contains_def)
    moreover have "b" if "d \<in> set ds"
      using bloom_contains_prefix [OF c(2) [OF that, unfolded bloom_contains_def], of rest] b by (simp add: bloom_contains_def)
    ultimately show "\<exists>b. bloom_contains (flt @ rest) n nh d = Some b \<and> (d \<in> set ds \<longrightarrow> b)" by blast
  qed
qed

definition bloom_ok :: "PositionalInvertedIndex \<Rightarrow> bool" where
  "bloom_ok idx \<longleftrightarrow> (px_bloomEnabled idx \<longrightarrow> 0 < px_bitsPerElement idx \<and> px_bitsPerElement idx \<le> 480)"

lemma computeLength_bound:
  assumes "0 < n" "n \<le> 128" "0 < b" "b \<le> (480 :: u32)"
  shows "0 < unat (computeLength (of_nat n) b)" "unat (computeLength (of_nat n) b) \<le> 1920"
proof -
  have b: "0 < unat b" "unat b \<le> 480" using assms(3,4) by (simp_all add: word_less_nat_alt word_le_nat_alt)
  have "n * unat b \<le> 128 * 480" using assms(2) b(2) by (rule mult_le_mono)
  then have m: "n * unat b \<le> 61440" by simp
  have "unat (of_nat n * b + 31 :: u32) = n * unat b + 31"
  proof -
    have "unat (of_nat n * b :: u32) = n * unat b"
      using m assms(2) unat_of_nat32 [of n] unat_mult_lem [of "of_nat n :: u32" b] by simp
    with m show ?thesis by (subst unat_add32) simp_all
  qed
  then have e: "unat (computeLength (of_nat n) b) = (n * unat b + 31) div 32"
    by (simp add: computeLength_def BLOOM_FILTER_UNIT_SIZE_def unat_div add.commute [of 31])
  have "1 \<le> n * unat b" using assms(1) b(1) by simp
  then have "32 div 32 \<le> (n * unat b + 31) div 32" by (intro div_le_mono) simp
  then show "0 < unat (computeLength (of_nat n) b)" using e by simp
  have "(n * unat b + 31) div 32 \<le> (61440 + 31) div 32" using m by (intro div_le_mono) simp
  then show "unat (computeLength (of_nat n) b) \<le> 1920" using e by simp
qed

lemma bloom_segment_ok:
  assumes "bloom_ok idx" "0 < length docs" "length docs \<le> 128" "length seg = SEGMENT_SIZE"
  obtains pre flt where "bloom_segment idx seg docs = Some (pre @ flt, length flt)" "length (pre @ flt) = SEGMENT_SIZE" "length flt \<le> 1920"
    "px_bloomEnabled idx \<Longrightarrow> bloom_block (px_nbHash idx) flt docs" "\<not> px_bloomEnabled idx \<Longrightarrow> flt = []"
proof (cases "px_bloomEnabled idx")
  case True
  define n where "n = computeLength (of_nat (length docs)) (px_bitsPerElement idx)"
  have b: "0 < unat n" "unat n \<le> 1920"
    using computeLength_bound [OF assms(2,3), of "px_bitsPerElement idx"] assms(1) True by (simp_all add: bloom_ok_def n_def)
  then have n: "unat n * 32 < 2 ^ 32" "0 < n" by (simp_all add: word_less_nat_alt)
  from bloom_insert_all_ok [OF n, of "replicate (unat n) 0" "px_nbHash idx" docs] obtain flt where
    f: "bloom_insert_all (replicate (unat n) 0) n (px_nbHash idx) docs = Some flt" by auto
  note fb = bloom_block_made [OF f n]
  let ?pre = "take (SEGMENT_SIZE - unat n) seg"
  have "wr_seq seg (SEGMENT_SIZE - unat n) flt = Some (?pre @ flt)"
    using fb(1) b(2) assms(4) by (simp add: wr_seq_def SEGMENT_SIZE_def)
  moreover have "\<not> unat n > SEGMENT_SIZE" using b(2) by (simp add: SEGMENT_SIZE_def)
  ultimately have "bloom_segment idx seg docs = Some (?pre @ flt, length flt)"
    using True f fb(1) by (simp add: bloom_segment_def n_def [symmetric] Let_def)
  moreover have "length (?pre @ flt) = SEGMENT_SIZE" using fb(1) b(2) assms(4) by (simp add: SEGMENT_SIZE_def)
  ultimately show thesis using that [of ?pre flt] fb b True by simp
next
  case False
  then show thesis using that [of seg "[]"] assms(4) by (simp add: bloom_segment_def)
qed


section \<open>Blocks of docids\<close>

lemma delta_block_snoc: "delta_block (xs @ [y]) = delta_block xs @ [if xs = [] then y else y - last xs]"
proof -
  have "map (\<lambda>i. if i = 0 then (xs @ [y]) ! 0 else (xs @ [y]) ! i - (xs @ [y]) ! (i - 1)) [0..<length xs] = delta_block xs"
    unfolding delta_block_def by (rule map_cong) (auto simp: nth_append)
  then show ?thesis by (auto simp: delta_block_def nth_append last_conv_nth)
qed

lemma undelta_snoc: "undelta a (xs @ [y]) = undelta a xs @ [last (a # undelta a xs) + y]"
  by (induction xs arbitrary: a) auto

lemma length_undelta [simp]: "length (undelta a xs) = length xs"
  by (induction xs arbitrary: a) auto

lemma length_delta_block [simp]: "length (delta_block xs) = length xs"
  by (simp add: delta_block_def)

lemma undelta_delta: "undelta 0 (delta_block xs) = xs"
proof (induction xs rule: rev_induct)
  case (snoc y xs)
  then show ?case by (cases "xs = []") (simp_all add: delta_block_snoc undelta_snoc, simp add: delta_block_def)
qed (simp add: delta_block_def)

text \<open>The words of a block without frequencies.\<close>

definition pos_block :: "bool \<Rightarrow> bool \<Rightarrow> u32 \<Rightarrow> u32 list \<Rightarrow> u32 list \<Rightarrow> bool" where
  "pos_block r bloom nh docs dat \<longleftrightarrow> 0 < length docs \<and> length docs \<le> 128 \<and>
     (\<exists>ws flt. dat = [of_nat (length ws + 7), of_nat (length docs), of_nat (length ws)] @ ws @ (if bloom then of_nat (length flt) # flt else []) \<and>
        length flt \<le> 1920 \<and> pfor_code (resize 0 128 (index_order r (delta_block docs))) ws \<and> (bloom \<longrightarrow> bloom_block nh flt docs))"

abbreviation idx_block :: "PositionalInvertedIndex \<Rightarrow> u32 list \<Rightarrow> u32 list \<Rightarrow> bool" where
  "idx_block idx \<equiv> pos_block (px_reverse idx) (px_bloomEnabled idx) (px_nbHash idx)"

lemma pos_block_length: "pos_block r bloom nh docs dat \<Longrightarrow> length dat \<le> 4060"
  by (auto simp: pos_block_def pfor_code_def)

lemma pos_compress_ok:
  assumes l: "0 < len" "len \<le> 128" "128 \<le> length docBlock" and b: "bloom_ok idx" and s: "length (px_segment idx) = SEGMENT_SIZE"
  obtains dat seg where "idx_block idx (take len docBlock) dat" "length seg = SEGMENT_SIZE"
    "pos_compress junk pad idx docBlock tfBlock posBlock len 0 0 lst nxt =
       map_option (\<lambda>(p, sp). (p, idx \<lparr> px_segment := seg, px_pool := sp \<rparr>))
         (pool_append junk (px_pool idx) dat (docBlock ! (if px_reverse idx then 0 else len - 1)) lst nxt)"
proof -
  define docs where "docs = take len docBlock"
  have ld: "length docs = len" "0 < length docs" "length docs \<le> 128" using l by (simp_all add: docs_def)
  from bloom_segment_ok [OF b ld(2,3) s] obtain pre flt where
    bs: "bloom_segment idx (px_segment idx) docs = Some (pre @ flt, length flt)" "length (pre @ flt) = SEGMENT_SIZE" "length flt \<le> 1920"
    and fb: "px_bloomEnabled idx \<Longrightarrow> bloom_block (px_nbHash idx) flt docs" "\<not> px_bloomEnabled idx \<Longrightarrow> flt = []" by blast
  define xs where "xs = resize 0 128 (index_order (px_reverse idx) (delta_block docs))"
  have lx: "length xs = 128" by (simp add: xs_def)
  obtain a0 a1 body where pre: "pre = a0 # a1 # body"
    using bs(2,3) by (cases pre; cases "tl pre") (auto simp: SEGMENT_SIZE_def)
  have lb: "length body + length flt = 4094" using bs(2) pre by (simp add: SEGMENT_SIZE_def)
  define hd2 :: "u32 list" where "hd2 = [0, of_nat len]"
  have body: "257 \<le> length (body @ flt)" using lb by simp
  obtain ws T where w: "pfor_code xs ws"
    "put_code pad xs (hd2 @ body @ flt, length hd2) = Some (hd2 @ of_nat (length ws) # ws @ T, length hd2 + length ws + 1)"
    "length T = length (body @ flt) - 1 - length ws" "\<And>k. 257 \<le> k \<Longrightarrow> drop (k - 1 - length ws) T = drop k (body @ flt)"
    using put_code_ok [OF lx body, of pad hd2] by metis
  have lw: "length ws \<le> 201" using w(1) by (simp add: pfor_code_def)
  define H :: "u32 list" where "H = [of_nat (length ws + 7), of_nat len, of_nat (length ws)]"
  have xs: "(if len < BLOCK_SIZE then if BLOCK_SIZE \<le> length docBlock then Some (ds @ replicate (BLOCK_SIZE - len) 0) else None
      else Some (take BLOCK_SIZE ds)) = Some xs" if "ds = (if px_reverse idx then rev (delta_block docs) else delta_block docs)" for ds
    using l ld that by (auto simp: xs_def resize_def index_order_def BLOCK_SIZE_def)
  have seg2: "wr (pre @ flt) 0 0 = Some (0 # a1 # body @ flt)" "wr (0 # a1 # body @ flt) 1 (of_nat len) = Some (hd2 @ body @ flt)"
    by (simp_all add: pre wr_def hd2_def)
  define R where "R = length (H @ ws)"
  have put: "put_code pad xs (hd2 @ body @ flt, 2) = Some (hd2 @ of_nat (length ws) # ws @ T, R)"
    using w(2) by (simp add: R_def hd2_def H_def numeral_2_eq_2)
  have seg3: "wr (hd2 @ of_nat (length ws) # ws @ T) 0 (of_nat R + 4) = Some (H @ ws @ T)"
    by (simp add: wr_def hd2_def H_def R_def add.commute)
  obtain t0 T' where T: "T = t0 # T'" using w(3) lb lw by (cases T) auto
  define dat where "dat = H @ ws @ (if px_bloomEnabled idx then of_nat (length flt) # flt else [])"
  obtain rest where fin: "(if px_bloomEnabled idx then do {
            s \<leftarrow> wr (H @ ws @ T) (R) (of_nat (length flt));
            g \<leftarrow> rd_seq s (SEGMENT_SIZE - length flt) (length flt);
            s' \<leftarrow> wr_seq s (R + 1) g;
            if length flt > 0 \<and> R + 1 + length flt > SEGMENT_SIZE - length flt then None
            else Some (s', R + length flt + 1)
          } else Some (H @ ws @ T, R)) = Some (dat @ rest, length dat)" "length (dat @ rest) = SEGMENT_SIZE"
  proof (cases "px_bloomEnabled idx")
    case True
    let ?n = "length flt" and ?q = "length (H @ ws) + 1"
    have 1: "wr (H @ ws @ T) (length (H @ ws)) (of_nat ?n) = Some ((H @ ws @ [of_nat ?n]) @ T')"
      by (simp add: T wr_def list_update_append)
    have q: "?q = length (H @ ws @ [of_nat ?n])" "?q + ?n \<le> SEGMENT_SIZE - ?n" "length T' = SEGMENT_SIZE - ?q" "?n \<le> length T'"
      using lw bs(3) w(3) lb T by (simp_all add: H_def SEGMENT_SIZE_def)
    have "drop (SEGMENT_SIZE - ?n) ((H @ ws @ [of_nat ?n]) @ T') = drop (length body - 1 - length ws) T"
    proof -
      have "length body = 4094 - ?n" using lb by simp
      then show ?thesis using bs(3) lw by (simp add: T H_def SEGMENT_SIZE_def drop_Cons')
    qed
    also have "\<dots> = drop (length body) (body @ flt)" using lb bs(3) by (intro w(4)) simp
    finally have "drop (SEGMENT_SIZE - ?n) ((H @ ws @ [of_nat ?n]) @ T') = flt" by simp
    then have 2: "rd_seq ((H @ ws @ [of_nat ?n]) @ T') (SEGMENT_SIZE - ?n) ?n = Some flt"
      using q by (simp add: rd_seq_def)
    have 3: "wr_seq ((H @ ws @ [of_nat ?n]) @ T') ?q flt = Some ((H @ ws @ [of_nat ?n]) @ flt @ drop ?n T')"
      unfolding q(1) by (rule wr_seq_append [OF q(4)])
    show thesis
      by (rule that [of "drop ?n T'"]) (use True 1 2 3 q in \<open>simp_all add: dat_def R_def\<close>)
  next
    case False
    then show thesis using that [of T] w(3) lb fb(2) lw by (simp add: dat_def H_def R_def SEGMENT_SIZE_def)
  qed
  have r0: "rd docBlock (if px_reverse idx then 0 else len - 1) = Some (docBlock ! (if px_reverse idx then 0 else len - 1))"
    using l by (auto simp: rd_def)
  have r1: "rd_seq docBlock 0 len = Some docs" "rd_seq tfBlock 0 0 = Some []" "rd_seq posBlock 0 0 = Some []"
    using l by (simp_all add: rd_seq_def docs_def)
  have "pos_compress junk pad idx docBlock tfBlock posBlock len 0 0 lst nxt =
    do { (p, sp) \<leftarrow> appendSegment junk (px_pool idx) (dat @ rest) (docBlock ! (if px_reverse idx then 0 else len - 1)) (of_nat (length dat)) lst nxt;
         Some (p, idx \<lparr> px_segment := dat @ rest, px_pool := sp \<rparr>) }"
    unfolding pos_compress_def Let_def using l fin(1)
    by (simp add: r0 r1 bs(1) xs [OF refl] seg2 put seg3 resize_def del: One_nat_def cong: if_cong split del: if_split)
  also have "appendSegment junk (px_pool idx) (dat @ rest) m (of_nat (length dat)) lst nxt = pool_append junk (px_pool idx) dat m lst nxt" for m
    using pool_append_take [of "length dat" "dat @ rest"] fin(2) by (simp add: SEGMENT_SIZE_def)
  finally have c: "pos_compress junk pad idx docBlock tfBlock posBlock len 0 0 lst nxt =
       map_option (\<lambda>(p, sp). (p, idx \<lparr> px_segment := dat @ rest, px_pool := sp \<rparr>))
         (pool_append junk (px_pool idx) dat (docBlock ! (if px_reverse idx then 0 else len - 1)) lst nxt)"
    by (auto split: bind_splits simp: map_option_case split: option.splits)
  have "idx_block idx (take len docBlock) dat"
    using ld bs(3) w(1) fb(1) unfolding pos_block_def docs_def [symmetric] dat_def H_def xs_def by auto
  with fin(2) c show thesis by (intro that [of dat "dat @ rest"])
qed

lemma pos_decompress_ok:
  assumes p: "store_ok sp L" "p \<in> L" "block_at sp p = Some (m, dat)" and b: "pos_block r bloom nh docs dat"
    and c: "length cd = 33" "length out = 128"
  shows "pos_decompressDocidBlock cd r sp out p = Some (index_order r docs @ replicate (128 - length docs) 0, length docs)"
proof -
  from b obtain ws flt where d: "dat = [of_nat (length ws + 7), of_nat (length docs), of_nat (length ws)] @ ws @ (if bloom then of_nat (length flt) # flt else [])"
    "pfor_code (resize 0 128 (index_order r (delta_block docs))) ws" "length docs \<le> 128" by (auto simp: pos_block_def)
  from block_at_array [OF p] obtain arr rest where a: "pool_array_of sp p = Some arr" "drop (off_of p + 4) arr = dat @ rest"
    "off_of p + 4 + length dat \<le> length arr" "length arr < 2 ^ 32" .
  have at: "unat (DECODE_OFFSET p + of_nat k) = off_of p + k" if "k \<le> 4 + length dat" for k
    using that a(3,4) pos_block_length [OF b] unat_of_nat32 [of k] by (subst unat_add32) auto
  have ld: "3 \<le> length dat" using d(1) by simp
  have o: "unat (DECODE_OFFSET p + 5) = off_of p + 5" "unat (DECODE_OFFSET p + 6) = off_of p + 6" "unat (DECODE_OFFSET p + 7) = off_of p + 7"
    using at [of 5] at [of 6] at [of 7] ld by simp_all
  have nth: "rd arr (off_of p + 4 + k) = Some (dat ! k)" if "k < length dat" for k
  proof -
    have "arr ! (off_of p + 4 + k) = (dat @ rest) ! k" using a(3) that by (simp flip: a(2))
    then show ?thesis using that a(3) by (simp add: rd_def nth_append)
  qed
  have rds: "rd arr (off_of p + 5) = Some (of_nat (length docs))" "rd arr (off_of p + 6) = Some (of_nat (length ws))"
    using nth [of 1] nth [of 2] ld by (simp_all add: d(1) add.commute)
  let ?xs = "resize 0 128 (index_order r (delta_block docs))"
  obtain rest' where "drop (off_of p + 7) arr = ws @ rest'"
  proof -
    have "drop (off_of p + 7) arr = drop 3 (drop (off_of p + 4) arr)" by (simp add: add.commute)
    then show thesis using that unfolding a(2) d(1) by simp
  qed
  then have "FastPFor_decode 65536 cd (drop (off_of p + 7) arr) n 128 = Some (Inr (?xs, rest'))" for n
    using d(2) c(1) by (simp add: pfor_code_def)
  then have g: "get_code cd arr (DECODE_OFFSET p + 7) n (replicate 128 0) = Some ?xs" for n
    using a(3) ld by (simp add: get_code_def o BLOCK_SIZE_def wr_seq_def)
  have len: "unat (of_nat (length docs) :: u32) = length docs" using d(3) by (intro unat_of_nat32) simp
  have ds: "rd_seq ?xs 0 (length docs) = Some (index_order r (delta_block docs))" "drop (length docs) ?xs = replicate (128 - length docs) 0"
    using d(3) by (auto simp: rd_seq_def resize_def index_order_def)
  show ?thesis
    using c(2) by (simp add: pos_decompressDocidBlock_def a(1) o rds g len ds BLOCK_SIZE_def wr_seq_def) (simp add: index_order_def undelta_delta Let_def)
qed

end
