(* ===== verification/Zambezi_PosInsert.thy ===== *)
theory Zambezi_PosInsert
  imports Zambezi_PosBlock
begin

text \<open>
  Inserting documents into a positional index of type \<open>NON_POSITIONAL\<close>: the buffers of a term are written to its chain in blocks
  of 128 docids, and the index refines the abstract index, a map from words to lists of docids.
\<close>

section \<open>Chains of docids\<close>

text \<open>The blocks of a chain hold the docids \<open>blks\<close>, each in the order of insertion, and the greatest docid in the order of the index.\<close>

definition doc_blocks :: "PositionalInvertedIndex \<Rightarrow> (u32 \<times> u32 list) list \<Rightarrow> u32 list list \<Rightarrow> bool" where
  "doc_blocks idx bs blks \<longleftrightarrow>
     list_all2 (\<lambda>b docs. idx_block idx docs (snd b) \<and> fst b = (if px_reverse idx then hd docs else last docs)) bs blks"

definition doc_chain :: "PositionalInvertedIndex \<Rightarrow> SegmentPool \<Rightarrow> u64 set \<Rightarrow> u64 list \<Rightarrow> u64 \<Rightarrow> u64 \<Rightarrow> u32 list list \<Rightarrow> bool" where
  "doc_chain idx sp L ps h t blks \<longleftrightarrow> (\<exists>bs. chain_at (px_reverse idx) sp L ps bs h t \<and> doc_blocks idx bs blks)"

definition doc_front ::
  "PositionalInvertedIndex \<Rightarrow> SegmentPool \<Rightarrow> u64 set \<Rightarrow> u64 list \<Rightarrow> u64 list \<Rightarrow> u64 \<Rightarrow> u64 \<Rightarrow> u64 \<Rightarrow> u32 list list \<Rightarrow> u32 list list \<Rightarrow> bool" where
  "doc_front idx sp L new old cur lst t nblks oblks \<longleftrightarrow>
     (\<exists>nbs obs. front_run sp L new old nbs obs cur lst t \<and> doc_blocks idx nbs nblks \<and> doc_blocks idx obs oblks)"

text \<open>What writing \<open>n\<close> blocks to the chain \<open>ps\<close> leaves as it is.\<close>

definition chain_grown :: "SegmentPool \<Rightarrow> u64 set \<Rightarrow> u64 list \<Rightarrow> SegmentPool \<Rightarrow> u64 set \<Rightarrow> u64 list \<Rightarrow> nat \<Rightarrow> bool" where
  "chain_grown sp L ps sp' L' ps' n \<longleftrightarrow> pool_roomy sp' L' \<and> pool_free sp \<le> pool_free sp' + 4064 * n \<and>
     framed sp L sp' L' (set ps) \<and> set ps' \<subseteq> set ps \<union> (L' - L)"

lemma chain_grown_refl: "pool_roomy sp L \<Longrightarrow> chain_grown sp L ps sp L ps n"
  by (simp add: chain_grown_def framed_refl)

lemma chain_grown_trans:
  assumes "chain_grown sp L ps sp1 L1 ps1 m" "chain_grown sp1 L1 ps1 sp2 L2 ps2 n"
  shows "chain_grown sp L ps sp2 L2 ps2 (m + n)"
proof -
  have "L \<subseteq> L1" "L1 \<subseteq> L2" "set ps1 \<subseteq> set ps \<union> (L1 - L)" "set ps2 \<subseteq> set ps1 \<union> (L2 - L1)"
    using assms by (auto simp: chain_grown_def framed_def)
  then have "set ps1 \<inter> L \<subseteq> set ps" "set ps2 \<subseteq> set ps \<union> (L2 - L)" by blast+
  with assms framed_trans [of sp L sp1 L1 "set ps" sp2 L2 "set ps1"] show ?thesis by (auto simp: chain_grown_def)
qed

lemma chain_grown_mono: "chain_grown sp L ps sp' L' ps' m \<Longrightarrow> m \<le> n \<Longrightarrow> chain_grown sp L ps sp' L' ps' n"
  by (auto simp: chain_grown_def)

text \<open>An index and its scratch array; the parameters of the blocks do not change.\<close>

definition same_params :: "PositionalInvertedIndex \<Rightarrow> PositionalInvertedIndex \<Rightarrow> bool" where
  "same_params idx idx' \<longleftrightarrow> px_reverse idx' = px_reverse idx \<and> px_bloomEnabled idx' = px_bloomEnabled idx \<and>
     px_nbHash idx' = px_nbHash idx \<and> px_bitsPerElement idx' = px_bitsPerElement idx"

lemma same_params_cong:
  assumes "same_params idx idx'"
  shows "doc_blocks idx' = doc_blocks idx" "doc_chain idx' = doc_chain idx" "doc_front idx' = doc_front idx" "bloom_ok idx' = bloom_ok idx"
  using assms by (simp_all add: same_params_def doc_blocks_def doc_chain_def doc_front_def bloom_ok_def fun_eq_iff)

abbreviation with_pool :: "PositionalInvertedIndex \<Rightarrow> u32 list \<Rightarrow> SegmentPool \<Rightarrow> PositionalInvertedIndex" where
  "with_pool idx seg sp \<equiv> idx \<lparr> px_segment := seg, px_pool := sp \<rparr>"

lemma same_params_pool: "same_params idx (with_pool idx seg sp)"
  by (simp add: same_params_def)

lemmas with_pool_cong = same_params_cong [OF same_params_pool]

definition scratch_ok :: "PositionalInvertedIndex \<Rightarrow> bool" where
  "scratch_ok idx \<longleftrightarrow> bloom_ok idx \<and> length (px_segment idx) = SEGMENT_SIZE"

lemma doc_blocks_snoc:
  "doc_blocks idx bs blks \<Longrightarrow> idx_block idx docs dat \<Longrightarrow> m = (if px_reverse idx then hd docs else last docs) \<Longrightarrow>
    doc_blocks idx (bs @ [(m, dat)]) (blks @ [docs])"
  by (auto simp: doc_blocks_def intro!: list_all2_appendI)

lemma block_max:
  assumes "0 < len" "len \<le> length docBlock"
  shows "docBlock ! (if r then 0 else len - 1) = (if r then hd (take len docBlock) else last (take len docBlock))"
proof -
  have "take len docBlock \<noteq> []" using assms by auto
  from hd_conv_nth [OF this] last_conv_nth [OF this] show ?thesis using assms by simp
qed

text \<open>One block, behind the chain or as the next one of the run in front of it.\<close>

lemma compress_back:
  assumes r: "\<not> px_reverse idx" and s: "scratch_ok idx" and l: "0 < len" "len \<le> 128" "128 \<le> length docBlock"
    and c: "doc_chain idx (px_pool idx) L ps h t blks" and g: "pool_roomy (px_pool idx) L" "4064 \<le> pool_free (px_pool idx)"
  shows "\<exists>p seg sp. pos_compress junk pad idx docBlock tfBlock posBlock len 0 0 t UNDEFINED_POINTER = Some (p, with_pool idx seg sp) \<and>
    scratch_ok (with_pool idx seg sp) \<and> doc_chain idx sp (insert p L) (ps @ [p]) (if h = UNDEFINED_POINTER then p else h) p (blks @ [take len docBlock]) \<and>
    chain_grown (px_pool idx) L ps sp (insert p L) (ps @ [p]) 1"
proof -
  from c r obtain bs where bs: "chain_at False (px_pool idx) L ps bs h t" "doc_blocks idx bs blks" by (auto simp: doc_chain_def)
  have s': "bloom_ok idx" "length (px_segment idx) = SEGMENT_SIZE" using s by (simp_all add: scratch_ok_def)
  obtain dat seg where d: "idx_block idx (take len docBlock) dat" "length seg = SEGMENT_SIZE"
    "pos_compress junk pad idx docBlock tfBlock posBlock len 0 0 t UNDEFINED_POINTER =
       map_option (\<lambda>(p, sp). (p, with_pool idx seg sp))
         (pool_append junk (px_pool idx) dat (docBlock ! (if px_reverse idx then 0 else len - 1)) t UNDEFINED_POINTER)"
    using pos_compress_ok [OF l s'] by metis
  from append_back [OF bs(1) g(1) pos_block_length [OF d(1)] g(2), of junk "docBlock ! (len - 1)"] obtain p sp where
    p: "pool_append junk (px_pool idx) dat (docBlock ! (len - 1)) t UNDEFINED_POINTER = Some (p, sp)" "p \<notin> L" "pool_roomy sp (insert p L)"
    "pool_free (px_pool idx) \<le> pool_free sp + 4064"
    "chain_at False sp (insert p L) (ps @ [p]) (bs @ [(docBlock ! (len - 1), dat)]) (if h = UNDEFINED_POINTER then p else h) p"
    "framed (px_pool idx) L sp (insert p L) (set ps)" by blast
  have "doc_blocks idx (bs @ [(docBlock ! (len - 1), dat)]) (blks @ [take len docBlock])"
    using doc_blocks_snoc [OF bs(2) d(1) block_max [of len docBlock]] l r by simp
  then have "doc_chain idx sp (insert p L) (ps @ [p]) (if h = UNDEFINED_POINTER then p else h) p (blks @ [take len docBlock])"
    using p(5) r unfolding doc_chain_def by auto
  moreover have "chain_grown (px_pool idx) L ps sp (insert p L) (ps @ [p]) 1"
    using p(2-4,6) by (auto simp: chain_grown_def)
  moreover have "scratch_ok (with_pool idx seg sp)" using d(2) s'(1) by (simp add: scratch_ok_def with_pool_cong)
  ultimately show ?thesis using d(3) p(1) r by (intro exI [of _ p] exI [of _ seg] exI [of _ sp]) simp
qed

lemma compress_front:
  assumes r: "px_reverse idx" and s: "scratch_ok idx" and l: "0 < len" "len \<le> 128" "128 \<le> length docBlock"
    and c: "doc_front idx (px_pool idx) L new old cur lst t nblks oblks" and g: "pool_roomy (px_pool idx) L" "4064 \<le> pool_free (px_pool idx)"
  shows "\<exists>p seg sp. pos_compress junk pad idx docBlock tfBlock posBlock len 0 0 lst t = Some (p, with_pool idx seg sp) \<and>
    scratch_ok (with_pool idx seg sp) \<and> doc_front idx sp (insert p L) (new @ [p]) old (if cur = UNDEFINED_POINTER then p else cur) p t (nblks @ [take len docBlock]) oblks \<and>
    chain_grown (px_pool idx) L new sp (insert p L) (new @ [p]) 1"
proof -
  from c obtain nbs obs where bs: "front_run (px_pool idx) L new old nbs obs cur lst t" "doc_blocks idx nbs nblks" "doc_blocks idx obs oblks"
    by (auto simp: doc_front_def)
  have s': "bloom_ok idx" "length (px_segment idx) = SEGMENT_SIZE" using s by (simp_all add: scratch_ok_def)
  obtain dat seg where d: "idx_block idx (take len docBlock) dat" "length seg = SEGMENT_SIZE"
    "pos_compress junk pad idx docBlock tfBlock posBlock len 0 0 lst t =
       map_option (\<lambda>(p, sp). (p, with_pool idx seg sp))
         (pool_append junk (px_pool idx) dat (docBlock ! (if px_reverse idx then 0 else len - 1)) lst t)"
    using pos_compress_ok [OF l s'] by metis
  from append_front [OF bs(1) g(1) pos_block_length [OF d(1)] g(2), of junk "docBlock ! 0"] obtain p sp where
    p: "pool_append junk (px_pool idx) dat (docBlock ! 0) lst t = Some (p, sp)" "p \<notin> L" "pool_roomy sp (insert p L)"
    "pool_free (px_pool idx) \<le> pool_free sp + 4064"
    "front_run sp (insert p L) (new @ [p]) old (nbs @ [(docBlock ! 0, dat)]) obs (if cur = UNDEFINED_POINTER then p else cur) p t"
    "framed (px_pool idx) L sp (insert p L) (set new)" by blast
  have "doc_blocks idx (nbs @ [(docBlock ! 0, dat)]) (nblks @ [take len docBlock])"
    using doc_blocks_snoc [OF bs(2) d(1) block_max [of len docBlock]] l r by simp
  then have "doc_front idx sp (insert p L) (new @ [p]) old (if cur = UNDEFINED_POINTER then p else cur) p t (nblks @ [take len docBlock]) oblks"
    using p(5) bs(3) unfolding doc_front_def by blast
  moreover have "chain_grown (px_pool idx) L new sp (insert p L) (new @ [p]) 1"
    using p(2-4,6) by (auto simp: chain_grown_def)
  moreover have "scratch_ok (with_pool idx seg sp)" using d(2) s'(1) by (simp add: scratch_ok_def with_pool_cong)
  ultimately show ?thesis using d(3) p(1) r by (intro exI [of _ p] exI [of _ seg] exI [of _ sp]) simp
qed

section \<open>Writing out a buffer\<close>

text \<open>The blocks of a buffer, from the \<open>i\<close>-th on.\<close>

definition doc_chunk :: "u32 list \<Rightarrow> nat \<Rightarrow> u32 list" where
  "doc_chunk xs i = take 128 (drop (i * 128) xs)"

lemma concat_chunks: "concat (map (doc_chunk xs) [0..<n]) = take (n * 128) xs"
proof (induction n)
  case (Suc n)
  have "take (Suc n * 128) xs = take (n * 128) xs @ take 128 (drop (n * 128) xs)"
    using take_add [of "n * 128" 128 xs] by (simp add: add.commute)
  with Suc show ?case by (simp add: doc_chunk_def)
qed simp

lemma length_vmem [simp]: "length (velems v) \<le> vcap v \<Longrightarrow> length (vmem junk v) = vcap v"
  by (simp add: vmem_def)

lemma take_vmem:
  assumes "i + n \<le> length (velems v)"
  shows "take n (drop i (vmem junk v)) = take n (drop i (velems v))"
  using assms by (simp add: vmem_def)

lemma ceil_block_0 [simp]: "ceil_block 0 = 0"
  by (simp add: ceil_block_def BLOCK_SIZE_def)

lemma forward_blocks_ok:
  assumes "\<not> px_reverse idx" "scratch_ok idx" "velems tf = []" "(i + n) * 128 \<le> length (velems doc)" "length (velems doc) \<le> vcap doc"
    and "doc_chain idx (px_pool idx) L ps h t blks" "pool_roomy (px_pool idx) L" "4064 * n \<le> pool_free (px_pool idx)"
  shows "\<exists>t' h' seg sp L' ps'. pos_forward_blocks junk pad idx doc tf ppos [] i t h 0 n = Some (t', h', 0, with_pool idx seg sp) \<and>
    scratch_ok (with_pool idx seg sp) \<and> doc_chain idx sp L' ps' h' t' (blks @ map (doc_chunk (velems doc)) [i..<i + n]) \<and>
    chain_grown (px_pool idx) L ps sp L' ps' n"
  using assms
proof (induction n arbitrary: idx L ps h t blks i)
  case 0
  then show ?case using chain_grown_refl [OF 0(7)] by (intro exI [of _ t] exI [of _ h] exI [of _ "px_segment idx"] exI [of _ "px_pool idx"]) auto
next
  case (Suc n)
  let ?db = "drop (i * 128) (vmem junk doc)"
  have c: "take 128 ?db = doc_chunk (velems doc) i" using Suc.prems(4) by (simp add: take_vmem doc_chunk_def)
  have l: "128 \<le> length ?db" using Suc.prems(4,5) by simp
  from compress_back [OF Suc.prems(1,2) _ _ l Suc.prems(6,7), of 128 junk pad "drop (i * 128) (vmem junk tf)" "vmem junk ppos"] Suc.prems(8)
  obtain p seg sp where p: "pos_compress junk pad idx ?db (drop (i * 128) (vmem junk tf)) (vmem junk ppos) 128 0 0 t UNDEFINED_POINTER = Some (p, with_pool idx seg sp)"
    "scratch_ok (with_pool idx seg sp)" "doc_chain idx sp (insert p L) (ps @ [p]) (if h = UNDEFINED_POINTER then p else h) p (blks @ [doc_chunk (velems doc) i])"
    "chain_grown (px_pool idx) L ps sp (insert p L) (ps @ [p]) 1" by (auto simp: c)
  let ?idx = "with_pool idx seg sp"
  have g: "pool_roomy (px_pool ?idx) (insert p L)" "4064 * n \<le> pool_free (px_pool ?idx)" using p(4) Suc.prems(8) by (auto simp: chain_grown_def)
  have n: "(Suc i + n) * 128 \<le> length (velems doc)" and r: "\<not> px_reverse ?idx" using Suc.prems(1,4) by simp_all
  have c': "doc_chain ?idx (px_pool ?idx) (insert p L) (ps @ [p]) (if h = UNDEFINED_POINTER then p else h) p (blks @ [doc_chunk (velems doc) i])"
    using p(3) by (simp add: with_pool_cong)
  obtain t' h' seg' sp' L' ps' where q: "pos_forward_blocks junk pad ?idx doc tf ppos [] (Suc i) p (if h = UNDEFINED_POINTER then p else h) 0 n =
      Some (t', h', 0, with_pool idx seg' sp')" "scratch_ok (with_pool idx seg' sp')"
    "doc_chain idx sp' L' ps' h' t' ((blks @ [doc_chunk (velems doc) i]) @ map (doc_chunk (velems doc)) [Suc i..<Suc i + n])"
    "chain_grown sp (insert p L) (ps @ [p]) sp' L' ps' n"
    using Suc.IH [OF r p(2) Suc.prems(3) n Suc.prems(5) c' g] by (auto simp: with_pool_cong simp del: upt_Suc append_assoc)
  have "pos_forward_blocks junk pad idx doc tf ppos [] i t h 0 (Suc n) = Some (t', h', 0, with_pool idx seg' sp')"
    using p(1) q(1) Suc.prems(3) by (simp add: BLOCK_SIZE_def)
  moreover have "doc_chain idx sp' L' ps' h' t' (blks @ map (doc_chunk (velems doc)) [i..<i + Suc n])"
    using q(3) by (simp add: upt_conv_Cons del: upt_Suc)
  moreover have "chain_grown (px_pool idx) L ps sp' L' ps' (Suc n)" using chain_grown_trans [OF p(4) q(4)] by simp
  ultimately show ?case using q(2) by blast
qed

lemma reverse_blocks_ok:
  assumes "px_reverse idx" "scratch_ok idx" "velems tf = []" "n * 128 \<le> length (velems doc)" "length (velems doc) \<le> vcap doc"
    and "doc_front idx (px_pool idx) L new old cur lst t nblks oblks" "pool_roomy (px_pool idx) L" "4064 * n \<le> pool_free (px_pool idx)"
  shows "\<exists>cur' lst' seg sp L' new'. pos_reverse_blocks junk pad idx doc tf ppos [] t cur lst 0 n = Some (cur', with_pool idx seg sp) \<and>
    scratch_ok (with_pool idx seg sp) \<and> doc_front idx sp L' new' old cur' lst' t (nblks @ map (doc_chunk (velems doc)) (rev [0..<n])) oblks \<and>
    chain_grown (px_pool idx) L new sp L' new' n"
  using assms
proof (induction n arbitrary: idx L new cur lst nblks)
  case 0
  then show ?case using chain_grown_refl [OF 0(7)] by (intro exI [of _ cur] exI [of _ lst] exI [of _ "px_segment idx"] exI [of _ "px_pool idx"]) auto
next
  case (Suc n)
  let ?db = "drop (n * 128) (vmem junk doc)" and ?tf = "drop (n * 128) (vmem junk tf)"
  have c: "take 128 ?db = doc_chunk (velems doc) n" using Suc.prems(4) by (simp add: take_vmem doc_chunk_def)
  have l: "128 \<le> length ?db" using Suc.prems(4,5) by simp
  from compress_front [OF Suc.prems(1,2) _ _ l Suc.prems(6,7), of 128 junk pad ?tf "vmem junk ppos"] Suc.prems(8)
  obtain p seg sp where p: "pos_compress junk pad idx ?db ?tf (vmem junk ppos) 128 0 0 lst t = Some (p, with_pool idx seg sp)"
    "scratch_ok (with_pool idx seg sp)"
    "doc_front idx sp (insert p L) (new @ [p]) old (if cur = UNDEFINED_POINTER then p else cur) p t (nblks @ [doc_chunk (velems doc) n]) oblks"
    "chain_grown (px_pool idx) L new sp (insert p L) (new @ [p]) 1" by (auto simp: c)
  let ?idx = "with_pool idx seg sp"
  have g: "pool_roomy (px_pool ?idx) (insert p L)" "4064 * n \<le> pool_free (px_pool ?idx)" using p(4) Suc.prems(8) by (auto simp: chain_grown_def)
  have n: "n * 128 \<le> length (velems doc)" and r: "px_reverse ?idx" using Suc.prems(1,4) by simp_all
  have c': "doc_front ?idx (px_pool ?idx) (insert p L) (new @ [p]) old (if cur = UNDEFINED_POINTER then p else cur) p t (nblks @ [doc_chunk (velems doc) n]) oblks"
    using p(3) by (simp add: with_pool_cong)
  obtain cur' lst' seg' sp' L' new' where q: "pos_reverse_blocks junk pad ?idx doc tf ppos [] t (if cur = UNDEFINED_POINTER then p else cur) p 0 n =
      Some (cur', with_pool idx seg' sp')" "scratch_ok (with_pool idx seg' sp')"
    "doc_front idx sp' L' new' old cur' lst' t ((nblks @ [doc_chunk (velems doc) n]) @ map (doc_chunk (velems doc)) (rev [0..<n])) oblks"
    "chain_grown sp (insert p L) (new @ [p]) sp' L' new' n"
    using Suc.IH [OF r p(2) Suc.prems(3) n Suc.prems(5) c' g] by (auto simp: with_pool_cong simp del: upt_Suc append_assoc)
  have "pos_reverse_blocks junk pad idx doc tf ppos [] t cur lst 0 (Suc n) = Some (cur', with_pool idx seg' sp')"
    using p(1) q(1) Suc.prems(3) by (simp add: BLOCK_SIZE_def)
  moreover have "doc_front idx sp' L' new' old cur' lst' t (nblks @ map (doc_chunk (velems doc)) (rev [0..<Suc n])) oblks"
    using q(3) by simp
  moreover have "chain_grown (px_pool idx) L new sp' L' new' (Suc n)" using chain_grown_trans [OF p(4) q(4)] by simp
  ultimately show ?case using q(2) by blast
qed

text \<open>Writing out a whole buffer.\<close>

definition chain_docs :: "PositionalInvertedIndex \<Rightarrow> u32 list list \<Rightarrow> u32 list" where
  "chain_docs idx blks = concat (map (index_order (px_reverse idx)) blks)"

lemma chain_docs_append [simp]: "chain_docs idx (xs @ ys) = chain_docs idx xs @ chain_docs idx ys"
  by (simp add: chain_docs_def)

definition full_vec :: "vec \<Rightarrow> bool" where
  "full_vec v \<longleftrightarrow> velems v \<noteq> [] \<and> length (velems v) \<le> vcap v \<and> 128 dvd vcap v"

lemma last_block:
  assumes "full_vec v" "length (velems v) mod 128 \<noteq> 0"
  defines "m \<equiv> length (velems v) div 128 * 128"
  shows "128 \<le> length (drop m (vmem junk v))"
    "take (length (velems v) mod 128) (drop m (vmem junk v)) = drop m (velems v)"
proof -
  have v: "length (velems v) \<le> vcap v" "128 dvd vcap v" using assms(1) by (simp_all add: full_vec_def)
  obtain k where k: "vcap v = 128 * k" using v(2) by blast
  have "length (velems v) \<noteq> k * 128" using assms(2) by auto
  then have "length (velems v) < k * 128" using v(1) k by simp
  then have "length (velems v) div 128 < k" by (rule less_mult_imp_div_less)
  then have "m + 128 \<le> vcap v" using k by (simp add: m_def)
  then show "128 \<le> length (drop m (vmem junk v))" using v(1) by simp
  have "m + length (velems v) mod 128 = length (velems v)" by (simp add: m_def)
  then show "take (length (velems v) mod 128) (drop m (vmem junk v)) = drop m (velems v)"
    by (subst take_vmem) simp_all
qed

lemma process_forward:
  assumes r: "\<not> px_reverse idx" and s: "scratch_ok idx" and tf: "velems tf = []" "velems ppos = []" and v: "full_vec doc"
    and c: "doc_chain idx (px_pool idx) L ps h t blks" and g: "pool_roomy (px_pool idx) L" "4064 * length (velems doc) \<le> pool_free (px_pool idx)"
  shows "\<exists>t' h' seg sp L' ps' blks'. pos_processTermBuffer junk pad idx doc tf ppos [] t h = Some (t', h', with_pool idx seg sp) \<and>
    scratch_ok (with_pool idx seg sp) \<and> doc_chain idx sp L' ps' h' t' blks' \<and> chain_docs idx blks' = chain_docs idx blks @ velems doc \<and>
    chain_grown (px_pool idx) L ps sp L' ps' (length (velems doc))"
proof -
  let ?xs = "velems doc" and ?n = "length (velems doc) div 128" and ?k = "length (velems doc) mod 128"
  have vl: "length ?xs \<le> vcap doc" "?xs \<noteq> []" using v by (simp_all add: full_vec_def)
  have n: "(0 + ?n) * 128 \<le> length ?xs" by simp
  have nl: "?n + (if ?k = 0 then 0 else 1) \<le> length ?xs"
    using vl(2) by (cases "?k = 0") (auto simp: Suc_le_eq div_less_dividend intro: div_le_dividend)
  have "4064 * ?n \<le> 4064 * length ?xs" by simp
  then have gn: "4064 * ?n \<le> pool_free (px_pool idx)" using g(2) by linarith
  from forward_blocks_ok [OF r s tf(1) n vl(1) c g(1) gn, of junk pad ppos] obtain t1 h1 seg sp L1 ps1 where
    f: "pos_forward_blocks junk pad idx doc tf ppos [] 0 t h 0 ?n = Some (t1, h1, 0, with_pool idx seg sp)" "scratch_ok (with_pool idx seg sp)"
    "doc_chain idx sp L1 ps1 h1 t1 (blks @ map (doc_chunk ?xs) [0..<?n])" "chain_grown (px_pool idx) L ps sp L1 ps1 ?n" by auto
  have d: "chain_docs idx (blks @ map (doc_chunk ?xs) [0..<?n]) = chain_docs idx blks @ take (?n * 128) ?xs"
    using r concat_chunks [of ?xs ?n] by (simp add: chain_docs_def index_order_def o_def)
  show ?thesis
  proof (cases "?k = 0")
    case True
    then have "take (?n * 128) ?xs = ?xs" by auto
    with f(1,3) d True r chain_grown_mono [OF f(4)] nl f(2) show ?thesis
      by (intro exI [of _ t1] exI [of _ h1] exI [of _ seg] exI [of _ sp] exI [of _ L1] exI [of _ ps1] exI [of _ "blks @ map (doc_chunk ?xs) [0..<?n]"])
        (simp add: pos_processTermBuffer_def BLOCK_SIZE_def)
  next
    case False
    let ?db = "drop (?n * 128) (vmem junk doc)" and ?tf = "drop (?n * 128) (vmem junk tf)"
    note lb = last_block [OF v False, of junk]
    let ?idx = "with_pool idx seg sp" and ?blks = "blks @ map (doc_chunk ?xs) [0..<?n]"
    have "4064 * (?n + 1) \<le> 4064 * length ?xs" using nl False by (intro mult_le_mono2) simp
    then have sp: "pool_roomy (px_pool ?idx) L1" "4064 \<le> pool_free (px_pool ?idx)" "\<not> px_reverse ?idx"
      "doc_chain ?idx (px_pool ?idx) L1 ps1 h1 t1 ?blks"
      using g(2) f(3,4) r by (auto simp: chain_grown_def with_pool_cong)
    have k: "0 < ?k" "?k \<le> 128" using False by auto
    obtain p seg2 sp2 where p: "pos_compress junk pad (with_pool idx seg sp) ?db ?tf (vmem junk ppos) ?k 0 0 t1 UNDEFINED_POINTER = Some (p, with_pool idx seg2 sp2)"
      "scratch_ok (with_pool idx seg2 sp2)"
      "doc_chain idx sp2 (insert p L1) (ps1 @ [p]) (if h1 = UNDEFINED_POINTER then p else h1) p (?blks @ [take ?k ?db])"
      "chain_grown sp L1 ps1 sp2 (insert p L1) (ps1 @ [p]) 1"
      using compress_back [OF sp(3) f(2) k lb(1) sp(4,1,2), of junk pad ?tf "vmem junk ppos"]
      by (auto simp: with_pool_cong simp del: append_assoc)
    have "pos_processTermBuffer junk pad idx doc tf ppos [] t h = Some (p, if h1 = UNDEFINED_POINTER then p else h1, with_pool idx seg2 sp2)"
      using r f(1) p(1) tf k(1) by (simp add: pos_processTermBuffer_def BLOCK_SIZE_def)
    moreover have "chain_docs idx (?blks @ [take ?k ?db]) = chain_docs idx blks @ ?xs"
      using d lb(2) r by (simp add: chain_docs_def index_order_def)
    moreover have "chain_grown (px_pool idx) L ps sp2 (insert p L1) (ps1 @ [p]) (length ?xs)"
      using chain_grown_mono [OF chain_grown_trans [OF f(4) p(4)]] nl False by simp
    ultimately show ?thesis using p(2,3) by blast
  qed
qed

lemma process_reverse:
  assumes r: "px_reverse idx" and s: "scratch_ok idx" and tf: "velems tf = []" "velems ppos = []" and v: "full_vec doc"
    and c: "doc_chain idx (px_pool idx) L ps h t blks" and g: "pool_roomy (px_pool idx) L" "4064 * length (velems doc) \<le> pool_free (px_pool idx)"
  shows "\<exists>t' h' seg sp L' ps' blks'. pos_processTermBuffer junk pad idx doc tf ppos [] t h = Some (t', h', with_pool idx seg sp) \<and>
    scratch_ok (with_pool idx seg sp) \<and> doc_chain idx sp L' ps' h' t' blks' \<and> chain_docs idx blks' = rev (velems doc) @ chain_docs idx blks \<and>
    chain_grown (px_pool idx) L ps sp L' ps' (length (velems doc))"
proof -
  let ?xs = "velems doc" and ?n = "length (velems doc) div 128" and ?k = "length (velems doc) mod 128"
  let ?db = "drop (?n * 128) (vmem junk doc)" and ?tf = "drop (?n * 128) (vmem junk tf)"
  define j where "j = (if ?k = 0 then 0 else 1 :: nat)"
  have vl: "length ?xs \<le> vcap doc" "?xs \<noteq> []" using v by (simp_all add: full_vec_def)
  have nl: "?n + j \<le> length ?xs"
    using vl(2) by (cases "?k = 0") (auto simp: j_def Suc_le_eq div_less_dividend intro: div_le_dividend)
  have "4064 * (?n + j) \<le> 4064 * length ?xs" using nl by (rule mult_le_mono2)
  then have gn: "4064 * (?n + j) \<le> pool_free (px_pool idx)" using g(2) by linarith
  from c r have t: "t = h" and front: "doc_front idx (px_pool idx) L [] ps UNDEFINED_POINTER UNDEFINED_POINTER t [] blks"
    by (auto simp: doc_chain_def doc_front_def chain_at_def front_run_def doc_blocks_def)
  obtain cur seg sp L1 new nblks where f: "(if ?k > 0 then pos_compress junk pad idx ?db ?tf (vmem junk ppos) ?k 0 0 UNDEFINED_POINTER t
      else Some (UNDEFINED_POINTER, idx)) = Some (cur, with_pool idx seg sp)" "scratch_ok (with_pool idx seg sp)"
    "doc_front idx sp L1 new ps cur cur t nblks blks" "chain_docs idx nblks = rev (drop (?n * 128) ?xs)"
    "chain_grown (px_pool idx) L [] sp L1 new j" "j = 0 \<or> new \<noteq> []"
  proof (cases "?k = 0")
    case True
    then have "drop (?n * 128) ?xs = []" by auto
    with True that [of UNDEFINED_POINTER "px_pool idx" "px_segment idx" L "[]" "[]"] s front chain_grown_refl [OF g(1)] show thesis
      by (simp add: chain_docs_def j_def)
  next
    case False
    note lb = last_block [OF v False, of junk]
    have k: "0 < ?k" "?k \<le> 128" using False by auto
    have "4064 \<le> pool_free (px_pool idx)" using gn False by (simp add: j_def)
    from compress_front [OF r s k lb(1) front g(1) this, of junk pad ?tf "vmem junk ppos"] lb(2) obtain p seg sp where
      p: "pos_compress junk pad idx ?db ?tf (vmem junk ppos) ?k 0 0 UNDEFINED_POINTER t = Some (p, with_pool idx seg sp)"
      "scratch_ok (with_pool idx seg sp)" "doc_front idx sp (insert p L) [p] ps p p t [drop (?n * 128) ?xs] blks"
      "chain_grown (px_pool idx) L [] sp (insert p L) [p] 1" by auto
    with False r k show thesis by (intro that [of p sp seg "insert p L" "[p]" "[drop (?n * 128) ?xs]"]) (simp_all add: chain_docs_def index_order_def j_def)
  qed
  let ?idx = "with_pool idx seg sp"
  have sp: "px_reverse ?idx" "?n * 128 \<le> length ?xs" "doc_front ?idx (px_pool ?idx) L1 new ps cur cur t nblks blks"
    "pool_roomy (px_pool ?idx) L1" "4064 * ?n \<le> pool_free (px_pool ?idx)"
    using r f(3,5) gn by (auto simp: with_pool_cong chain_grown_def)
  obtain cur' lst' seg2 sp2 L2 new2 where q: "pos_reverse_blocks junk pad ?idx doc tf ppos [] t cur cur 0 ?n = Some (cur', with_pool idx seg2 sp2)"
    "scratch_ok (with_pool idx seg2 sp2)" "doc_front idx sp2 L2 new2 ps cur' lst' t (nblks @ map (doc_chunk ?xs) (rev [0..<?n])) blks"
    "chain_grown sp L1 new sp2 L2 new2 ?n"
    using reverse_blocks_ok [OF sp(1) f(2) tf(1) sp(2) vl(1) sp(3-5), of junk pad ppos] by (auto simp: with_pool_cong simp del: append_assoc)
  let ?nb = "nblks @ map (doc_chunk ?xs) (rev [0..<?n])"
  have nb: "chain_docs idx ?nb = rev ?xs"
  proof -
    have "chain_docs idx (map (doc_chunk ?xs) (rev [0..<?n])) = rev (concat (map (doc_chunk ?xs) [0..<?n]))"
      using r by (simp add: chain_docs_def index_order_def rev_concat rev_map o_def)
    with f(4) show ?thesis unfolding concat_chunks chain_docs_append by (simp flip: rev_append)
  qed
  have "?nb \<noteq> []"
  proof
    assume "?nb = []"
    then have "chain_docs idx ?nb = []" unfolding chain_docs_def by simp
    with nb vl(2) show False by simp
  qed
  with q(3) have new2: "new2 \<noteq> []" by (auto simp: doc_front_def front_run_def doc_blocks_def)
  have dc: "doc_chain idx sp2 L2 (new2 @ ps) cur' cur' (?nb @ blks)"
  proof -
    from q(3) obtain nbs obs where n: "front_run sp2 L2 new2 ps nbs obs cur' lst' t" "doc_blocks idx nbs ?nb" "doc_blocks idx obs blks"
      unfolding doc_front_def by blast
    have "doc_blocks idx (nbs @ obs) (?nb @ blks)" using n(2,3) unfolding doc_blocks_def by (rule list_all2_appendI)
    with front_run_chain [OF n(1) new2] r show ?thesis unfolding doc_chain_def by (intro exI [of _ "nbs @ obs"]) simp
  qed
  have "cur' \<noteq> UNDEFINED_POINTER"
  proof -
    from dc obtain bs where "posting_chain sp2 L2 (new2 @ ps) bs cur'" by (auto simp: doc_chain_def chain_at_def)
    with posting_chain_live [OF this] new2 show ?thesis by (cases new2) (auto simp: posting_chain_def)
  qed
  with q(1) f(1) r tf have "pos_processTermBuffer junk pad idx doc tf ppos [] t h = Some (cur', cur', with_pool idx seg2 sp2)"
    by (simp add: pos_processTermBuffer_def BLOCK_SIZE_def Let_def cong: if_cong split del: if_split)
  moreover have "chain_docs idx (?nb @ blks) = rev ?xs @ chain_docs idx blks" using nb by (simp only: chain_docs_append)
  moreover have "chain_grown (px_pool idx) L ps sp2 L2 (new2 @ ps) (length ?xs)"
    using chain_grown_mono [OF chain_grown_trans [OF f(5) q(4)], of "length ?xs"] nl by (auto simp: chain_grown_def framed_weaken add.commute)
  ultimately show ?thesis using q(2) dc by blast
qed

lemma process_buffer_ok:
  assumes "scratch_ok idx" "velems tf = []" "velems ppos = []" "full_vec doc" "doc_chain idx (px_pool idx) L ps h t blks"
    "pool_roomy (px_pool idx) L" "4064 * length (velems doc) \<le> pool_free (px_pool idx)"
  shows "\<exists>t' h' seg sp L' ps' blks'. pos_processTermBuffer junk pad idx doc tf ppos [] t h = Some (t', h', with_pool idx seg sp) \<and>
    scratch_ok (with_pool idx seg sp) \<and> doc_chain idx sp L' ps' h' t' blks' \<and>
    chain_docs idx blks' = add_run (px_reverse idx) (index_order (px_reverse idx) (velems doc)) (chain_docs idx blks) \<and>
    chain_grown (px_pool idx) L ps sp L' ps' (length (velems doc))"
proof (cases "px_reverse idx")
  case True
  from process_reverse [OF True assms] show ?thesis by (simp add: True add_run_def index_order_def)
next
  case False
  from process_forward [OF False assms] show ?thesis by (simp add: False add_run_def index_order_def)
qed

section \<open>The invariant\<close>

abbreviation px_head :: "PositionalInvertedIndex \<Rightarrow> nat \<Rightarrow> u64" where
  "px_head idx k \<equiv> FixedCounter_get (headPointers (px_pointers idx)) (of_nat k)"

abbreviation px_docs :: "PositionalInvertedIndex \<Rightarrow> vec list" where
  "px_docs idx \<equiv> bm_docid (px_buffer idx)"

abbreviation px_tail :: "PositionalInvertedIndex \<Rightarrow> nat \<Rightarrow> u64" where
  "px_tail idx k \<equiv> bm_tailPointer (px_buffer idx) ! k"

abbreviation px_df :: "PositionalInvertedIndex \<Rightarrow> nat \<Rightarrow> u32" where
  "px_df idx k \<equiv> FixedCounter_get (df (px_pointers idx)) (of_nat k)"

definition px_vocab :: "PositionalInvertedIndex \<Rightarrow> nat" where
  "px_vocab idx = length (px_docs idx)"

definition px_tables :: "PositionalInvertedIndex \<Rightarrow> bool" where
  "px_tables idx \<longleftrightarrow> px_type idx = NON_POSITIONAL \<and> px_vocab idx < 2 ^ 32 \<and> unat (bm_capacity (px_buffer idx)) = px_vocab idx \<and>
     bm_tf (px_buffer idx) = replicate (px_vocab idx) vempty \<and> bm_position (px_buffer idx) = replicate (px_vocab idx) vempty \<and>
     bm_posBlockCount (px_buffer idx) = replicate (px_vocab idx) vempty \<and> length (bm_tailPointer (px_buffer idx)) = px_vocab idx \<and>
     length (counter (df (px_pointers idx))) = px_vocab idx \<and> length (counter (headPointers (px_pointers idx))) = px_vocab idx \<and>
     defaultValue (headPointers (px_pointers idx)) = UNDEFINED_POINTER \<and> scratch_ok idx"

text \<open>The capacities of the buffer of a term with more than 16 postings.\<close>

definition doc_caps :: "nat set" where
  "doc_caps = {128, 256, 512, 1024, 2048, 4096}"

text \<open>Term \<open>k\<close> has the postings \<open>P\<close>: those in the blocks \<open>ps\<close> and behind them those in its buffer. A term with at most 16 postings has all of them in
  its buffer.\<close>

definition doc_term :: "PositionalInvertedIndex \<Rightarrow> u64 set \<Rightarrow> nat \<Rightarrow> u64 list \<Rightarrow> u32 list \<Rightarrow> bool" where
  "doc_term idx L k ps P \<longleftrightarrow> px_df idx k = of_nat (length P) \<and> length (velems (px_docs idx ! k)) \<le> vcap (px_docs idx ! k) \<and>
     (if length P \<le> 16 then ps = [] \<and> vcap (px_docs idx ! k) = (if P = [] then 0 else 16) else vcap (px_docs idx ! k) \<in> doc_caps) \<and>
     (\<exists>blks old. doc_chain idx (px_pool idx) L ps (px_head idx k) (px_tail idx k) blks \<and>
        chain_docs idx blks = index_order (px_reverse idx) old \<and> P = old @ velems (px_docs idx ! k))"

definition pos_inv :: "PositionalInvertedIndex \<Rightarrow> u64 set \<Rightarrow> u64 list list \<Rightarrow> u32 list list \<Rightarrow> bool" where
  "pos_inv idx L pss ts \<longleftrightarrow> px_tables idx \<and> pool_roomy (px_pool idx) L \<and> dict_ok (px_dictionary idx) \<and>
     length (px_dictionary idx) \<le> px_vocab idx \<and> length pss = px_vocab idx \<and> length ts = px_vocab idx \<and>
     (\<forall>k < px_vocab idx. doc_term idx L k (pss ! k) (ts ! k)) \<and>
     (\<forall>j < px_vocab idx. \<forall>k < px_vocab idx. j \<noteq> k \<longrightarrow> set (pss ! j) \<inter> set (pss ! k) = {}) \<and>
     (\<forall>k < px_vocab idx. length (px_dictionary idx) \<le> k \<longrightarrow> ts ! k = [])"

text \<open>Between two operations no buffer is full.\<close>

definition px_steady :: "PositionalInvertedIndex \<Rightarrow> bool" where
  "px_steady idx \<longleftrightarrow> (\<forall>v \<in> set (px_docs idx). vcap v \<in> doc_caps \<longrightarrow> length (velems v) < vcap v)"

text \<open>The space for \<open>n\<close> more postings: each of them, and each posting in a buffer, may end up in a block of its own.\<close>

definition px_space :: "PositionalInvertedIndex \<Rightarrow> nat \<Rightarrow> bool" where
  "px_space idx n \<longleftrightarrow> 4064 * (n + (\<Sum>v \<leftarrow> px_docs idx. length (velems v))) \<le> pool_free (px_pool idx)"

definition px_kept :: "PositionalInvertedIndex \<Rightarrow> PositionalInvertedIndex \<Rightarrow> bool" where
  "px_kept idx idx' \<longleftrightarrow> same_params idx idx' \<and> px_vocab idx' = px_vocab idx \<and> totalDocs (px_pointers idx') = totalDocs (px_pointers idx) \<and>
     totalDocLen (px_pointers idx') = totalDocLen (px_pointers idx)"

lemma px_kept_refl: "px_kept idx idx"
  by (simp add: px_kept_def same_params_def)

lemma px_kept_trans: "px_kept idx idx1 \<Longrightarrow> px_kept idx1 idx2 \<Longrightarrow> px_kept idx idx2"
  by (simp add: px_kept_def same_params_def)

lemma doc_chain_framed:
  assumes "doc_chain idx sp L ps h t blks" "framed sp L sp' L' S" "set ps \<inter> S = {}"
  shows "doc_chain idx sp' L' ps h t blks"
  using assms unfolding doc_chain_def chain_at_def framed_def by blast

lemma chain_docs_cong: "same_params idx idx' \<Longrightarrow> chain_docs idx' = chain_docs idx"
  by (simp add: chain_docs_def same_params_def fun_eq_iff)

lemma doc_term_frame:
  assumes "doc_term idx L k ps P" "framed (px_pool idx) L (px_pool idx') L' S" "set ps \<inter> S = {}" "same_params idx idx'"
    "px_docs idx' ! k = px_docs idx ! k \<and> px_tail idx' k = px_tail idx k \<and> px_head idx' k = px_head idx k \<and> px_df idx' k = px_df idx k"
  shows "doc_term idx' L' k ps P"
proof -
  from assms(1) obtain blks old where b: "doc_chain idx (px_pool idx) L ps (px_head idx k) (px_tail idx k) blks"
    "chain_docs idx blks = index_order (px_reverse idx) old" "P = old @ velems (px_docs idx ! k)" by (auto simp: doc_term_def)
  from doc_chain_framed [OF b(1) assms(2,3)] have "doc_chain idx' (px_pool idx') L' ps (px_head idx' k) (px_tail idx' k) blks"
    using assms(5) by (simp add: same_params_cong [OF assms(4)])
  moreover have "px_reverse idx' = px_reverse idx" using assms(4) by (simp add: same_params_def)
  ultimately show ?thesis using assms(1,5) b(2,3) chain_docs_cong [OF assms(4)] by (auto simp: doc_term_def)
qed

lemma doc_term_live: "doc_term idx L k ps P \<Longrightarrow> set ps \<subseteq> L"
  by (auto simp: doc_term_def doc_chain_def chain_at_def posting_chain_def)

lemma pos_inv_update:
  assumes inv: "pos_inv idx L pss ts" and k: "k < px_vocab idx"
    and same: "px_tables idx'" "px_vocab idx' = px_vocab idx" "px_dictionary idx' = px_dictionary idx" "same_params idx idx'"
    and pool: "pool_roomy (px_pool idx') L'" "framed (px_pool idx) L (px_pool idx') L' (set (pss ! k))"
    and new: "set ps' \<subseteq> set (pss ! k) \<union> (L' - L)" "doc_term idx' L' k ps' P'" "k < length (px_dictionary idx) \<or> P' = []"
    and other: "\<And>j. j \<noteq> k \<Longrightarrow> j < px_vocab idx \<Longrightarrow> px_docs idx' ! j = px_docs idx ! j \<and> px_tail idx' j = px_tail idx j \<and>
      px_head idx' j = px_head idx j \<and> px_df idx' j = px_df idx j"
  shows "pos_inv idx' L' (pss[k := ps']) (ts[k := P'])"
proof -
  have v: "length ts = px_vocab idx" "length pss = px_vocab idx" using inv by (simp_all add: pos_inv_def)
  have t: "doc_term idx L j (pss ! j) (ts ! j)" if "j < px_vocab idx" for j using inv that by (simp add: pos_inv_def)
  have dj: "set (pss ! i) \<inter> set (pss ! j) = {}" if "i < px_vocab idx" "j < px_vocab idx" "i \<noteq> j" for i j
    using inv that by (simp add: pos_inv_def)
  have "doc_term idx' L' j (pss[k := ps'] ! j) (ts[k := P'] ! j)" if "j < px_vocab idx" for j
  proof (cases "j = k")
    case False
    from doc_term_frame [OF t [OF that] pool(2) dj [OF that k False] same(4) other [OF False that]] False show ?thesis by simp
  qed (use new k v in simp)
  moreover have "set (pss[k := ps'] ! i) \<inter> set (pss[k := ps'] ! j) = {}" if ij: "i < px_vocab idx" "j < px_vocab idx" "i \<noteq> j" for i j
  proof -
    have fresh: "set ps' \<inter> set (pss ! j) = {}" if "j < px_vocab idx" "j \<noteq> k" for j
      using new(1) dj [OF k that(1)] that(2) doc_term_live [OF t [OF that(1)]] by blast
    show ?thesis using fresh [OF ij(1)] fresh [OF ij(2)] dj [OF ij] ij v by (cases "i = k"; cases "j = k") auto
  qed
  moreover have "ts[k := P'] ! j = []" if "j < px_vocab idx" "length (px_dictionary idx) \<le> j" for j
    using inv that k new(3) v by (cases "j = k") (auto simp: pos_inv_def)
  ultimately show ?thesis using inv same pool(1) by (auto simp: pos_inv_def)
qed

section \<open>Writing out the buffer of a term\<close>

lemma doc_caps_full: "c \<in> doc_caps \<Longrightarrow> 128 dvd c \<and> 0 < c \<and> c \<le> 4096"
  by (auto simp: doc_caps_def)

lemma px_index:
  assumes "px_tables idx" "k < px_vocab idx" "j < px_vocab idx"
  shows "unat (of_nat k :: u32) = k" "(of_nat j :: u32) = of_nat k \<longleftrightarrow> j = k"
  using assms unat_of_nat32 [of k] of_nat_u32_eq [of j k] by (auto simp: px_tables_def)

lemma process_term_ok:
  assumes inv: "pos_inv idx L pss ts" and k: "k < px_vocab idx" and b: "vcap (px_docs idx ! k) \<in> doc_caps" "velems (px_docs idx ! k) \<noteq> []"
    and f: "4064 * length (velems (px_docs idx ! k)) \<le> pool_free (px_pool idx)"
  shows "\<exists>idx' L' pss'. pos_process_term junk pad idx (of_nat k) = Some idx' \<and> pos_inv idx' L' pss' ts \<and>
    px_docs idx' = (px_docs idx)[k := vclear (px_docs idx ! k)] \<and> px_dictionary idx' = px_dictionary idx \<and> px_kept idx idx' \<and>
    pool_free (px_pool idx) \<le> pool_free (px_pool idx') + 4064 * length (velems (px_docs idx ! k))"
proof -
  let ?v = "px_docs idx ! k" and ?bm = "px_buffer idx"
  have tb: "px_tables idx" "pool_roomy (px_pool idx) L" and to: "doc_term idx L k (pss ! k) (ts ! k)" and lts: "length ts = px_vocab idx"
    and dic: "k < length (px_dictionary idx) \<or> ts ! k = []"
    using inv k by (auto simp: pos_inv_def not_less)
  from to b obtain blks old where
    c: "doc_chain idx (px_pool idx) L (pss ! k) (px_head idx k) (px_tail idx k) blks" "chain_docs idx blks = index_order (px_reverse idx) old"
      "ts ! k = old @ velems ?v" "length (velems ?v) \<le> vcap ?v" "16 < length (ts ! k)" "px_df idx k = of_nat (length (ts ! k))"
    by (auto simp: doc_term_def doc_caps_def split: if_splits)
  have v: "full_vec ?v" using b c(4) doc_caps_full by (auto simp: full_vec_def)
  have s: "scratch_ok idx" using tb(1) by (simp add: px_tables_def)
  obtain t' h' seg sp L' ps' blks' where p: "pos_processTermBuffer junk pad idx ?v vempty vempty [] (px_tail idx k) (px_head idx k) = Some (t', h', with_pool idx seg sp)"
    "scratch_ok (with_pool idx seg sp)" "doc_chain idx sp L' ps' h' t' blks'"
    "chain_docs idx blks' = add_run (px_reverse idx) (index_order (px_reverse idx) (velems ?v)) (chain_docs idx blks)"
    "chain_grown (px_pool idx) L (pss ! k) sp L' ps' (length (velems ?v))"
    using process_buffer_ok [OF s _ _ v c(1) tb(2) f, of vempty vempty junk pad] by auto
  have run: "chain_docs idx blks' = index_order (px_reverse idx) (ts ! k)"
    using p(4) c(2,3) by (auto simp: add_run_def index_order_def)
  have u: "unat (of_nat k :: u32) = k" by (rule px_index(1) [OF tb(1) k k])
  have kl: "unat (of_nat k :: u32) < length (counter (headPointers (px_pointers idx)))" using tb(1) k u by (simp add: px_tables_def)
  obtain hp where hp: "FixedCounter_put (headPointers (px_pointers idx)) (of_nat k) h' = Some hp"
    "length (counter hp) = length (counter (headPointers (px_pointers idx)))" "defaultValue hp = defaultValue (headPointers (px_pointers idx))"
    "\<And>j. FixedCounter_get hp j = (if j = of_nat k then h' else FixedCounter_get (headPointers (px_pointers idx)) j)"
    by (rule FixedCounter_put_ok [OF kl, of h']) blast
  define idx' where "idx' = idx \<lparr> px_segment := seg, px_pool := sp, px_buffer := ?bm \<lparr> bm_docid := (px_docs idx)[k := vclear ?v],
      bm_tailPointer := (bm_tailPointer ?bm)[k := t'] \<rparr>, px_pointers := (px_pointers idx) \<lparr> headPointers := hp \<rparr> \<rparr>"
  have e: "vclear vempty = vempty" by (simp add: vclear_def)
  have bl: "k < length (px_docs idx)" "k < length (bm_tailPointer ?bm)" "bm_tf ?bm = replicate (px_vocab idx) vempty" "bm_position ?bm = replicate (px_vocab idx) vempty"
    "bm_posBlockCount ?bm = replicate (px_vocab idx) vempty" using tb(1) k by (simp_all add: px_tables_def px_vocab_def)
  have "FixedCounter_ref (headPointers (px_pointers idx)) (of_nat k) = Some (px_head idx k)"
    using kl by (simp add: FixedCounter_ref_def FixedCounter_get_def rd_def)
  then have run_eq: "pos_process_term junk pad idx (of_nat k) = Some idx'"
    using p(1) bl k e hp(1) by (simp add: pos_process_term_def Let_def u rd_def idx'_def list_update_same_conv)
  have sp: "same_params idx idx'" by (simp add: idx'_def same_params_def)
  have tb': "px_tables idx'" "px_vocab idx' = px_vocab idx"
    using tb(1) hp(2,3) p(2) by (simp_all add: idx'_def px_tables_def px_vocab_def scratch_ok_def bloom_ok_def)
  have hd: "px_head idx' j = (if j = k then h' else px_head idx j)" if "j < px_vocab idx" for j
    using hp(4) px_index(2) [OF tb(1) k that] by (simp add: idx'_def)
  have term_new: "doc_term idx' L' k ps' (ts ! k)"
  proof -
    have "doc_chain idx' (px_pool idx') L' ps' (px_head idx' k) (px_tail idx' k) blks'"
      using p(3) hd [OF k] bl(2) by (simp add: same_params_cong [OF sp]) (simp add: idx'_def)
    moreover have "chain_docs idx' blks' = index_order (px_reverse idx') (ts ! k)" using run sp by (simp add: chain_docs_cong [OF sp]) (simp add: same_params_def)
    moreover have "px_docs idx' ! k = vclear ?v" "px_df idx' k = px_df idx k" using bl(1) by (simp_all add: idx'_def)
    ultimately show ?thesis using c(4-6) b(1) by (auto simp: doc_term_def vclear_def)
  qed
  from p(5) have g: "pool_roomy (px_pool idx') L'" "framed (px_pool idx) L (px_pool idx') L' (set (pss ! k))" "set ps' \<subseteq> set (pss ! k) \<union> (L' - L)"
    "pool_free (px_pool idx) \<le> pool_free (px_pool idx') + 4064 * length (velems ?v)"
    by (auto simp: chain_grown_def idx'_def)
  have d': "px_dictionary idx' = px_dictionary idx" by (simp add: idx'_def)
  have "pos_inv idx' L' (pss[k := ps']) (ts[k := ts ! k])"
    by (rule pos_inv_update [OF inv k tb' d' sp g(1-3) term_new dic]) (use hd in \<open>simp add: idx'_def\<close>)
  then have "pos_inv idx' L' (pss[k := ps']) ts" by simp
  moreover have "px_kept idx idx'" using sp tb'(2) by (simp add: px_kept_def idx'_def)
  moreover have "px_docs idx' = (px_docs idx)[k := vclear ?v]" by (simp add: idx'_def)
  ultimately show ?thesis using run_eq g(4) d' by blast
qed

section \<open>One posting\<close>

text \<open>The index with another buffer, and other frequencies, for term \<open>k\<close>.\<close>

definition revec :: "PositionalInvertedIndex \<Rightarrow> nat \<Rightarrow> vec \<Rightarrow> u32 FixedCounter \<Rightarrow> PositionalInvertedIndex" where
  "revec idx k w c = idx \<lparr> px_buffer := (px_buffer idx) \<lparr> bm_docid := (px_docs idx)[k := w] \<rparr>, px_pointers := (px_pointers idx) \<lparr> df := c \<rparr> \<rparr>"

lemma revec_simps [simp]:
  "px_pool (revec idx k w c) = px_pool idx" "px_dictionary (revec idx k w c) = px_dictionary idx" "px_docs (revec idx k w c) = (px_docs idx)[k := w]"
  "df (px_pointers (revec idx k w c)) = c" "px_vocab (revec idx k w c) = px_vocab idx" "px_kept idx (revec idx k w c)" "same_params idx (revec idx k w c)"
  "px_head (revec idx k w c) j = px_head idx j" "px_tail (revec idx k w c) j = px_tail idx j"
  by (simp_all add: revec_def px_vocab_def px_kept_def same_params_def)

lemma revec_ok:
  assumes inv: "pos_inv idx L pss ts" and k: "k < length (px_dictionary idx)" and w: "velems w = velems (px_docs idx ! k) @ xs" "length (velems w) \<le> vcap w"
    and cap: "if length (ts ! k @ xs) \<le> 16 then vcap w = (if ts ! k @ xs = [] then 0 else 16) else vcap w \<in> doc_caps"
    and c: "length (counter c) = px_vocab idx" "\<And>j. j < px_vocab idx \<Longrightarrow> FixedCounter_get c (of_nat j) = of_nat (length (ts[k := ts ! k @ xs] ! j))"
  shows "pos_inv (revec idx k w c) L pss (ts[k := ts ! k @ xs])"
proof -
  let ?idx = "revec idx k w c"
  have kv: "k < px_vocab idx" and tb: "px_tables idx" "pool_roomy (px_pool idx) L" and to: "\<And>j. j < px_vocab idx \<Longrightarrow> doc_term idx L j (pss ! j) (ts ! j)"
    and lts: "length ts = px_vocab idx"
    using inv k by (auto simp: pos_inv_def)
  have lk: "k < length (px_docs idx)" using kv by (simp add: px_vocab_def)
  from to [OF kv] obtain blks old where b: "doc_chain idx (px_pool idx) L (pss ! k) (px_head idx k) (px_tail idx k) blks"
    "chain_docs idx blks = index_order (px_reverse idx) old" "ts ! k = old @ velems (px_docs idx ! k)" by (auto simp: doc_term_def)
  have tb': "px_tables ?idx" using tb(1) c(1) by (simp add: px_tables_def px_vocab_def revec_def scratch_ok_def bloom_ok_def)
  have dfs: "px_df ?idx j = px_df idx j" if "j \<noteq> k" "j < px_vocab idx" for j
    using c(2) [OF that(2)] to [OF that(2)] that(1) by (simp add: doc_term_def)
  have sp: "same_params idx ?idx" by simp
  have "doc_chain ?idx (px_pool ?idx) L (pss ! k) (px_head ?idx k) (px_tail ?idx k) blks" using b(1) by (simp add: same_params_cong [OF sp])
  moreover have "chain_docs ?idx blks = index_order (px_reverse ?idx) old" using b(2) by (simp add: chain_docs_cong [OF sp]) (simp add: revec_def)
  moreover have "ts ! k @ xs = old @ velems (px_docs ?idx ! k)" using b(3) w(1) lk by simp
  moreover have "px_df ?idx k = of_nat (length (ts ! k @ xs))" using c(2) [OF kv] kv lts by simp
  moreover have "pss ! k = []" if "length (ts ! k @ xs) \<le> 16" using to [OF kv] that by (simp add: doc_term_def)
  ultimately have "doc_term ?idx L k (pss ! k) (ts ! k @ xs)"
    unfolding doc_term_def using w(2) cap lk by (auto split: if_splits)
  from pos_inv_update [OF inv kv tb' _ _ sp _ _ _ this] have "pos_inv ?idx L (pss[k := pss ! k]) (ts[k := ts ! k @ xs])"
    using k tb(2) framed_refl dfs by simp
  then show ?thesis by simp
qed

text \<open>Pushing a docid to the buffer that is large enough for it.\<close>

definition room_for :: "nat \<Rightarrow> vec \<Rightarrow> vec" where
  "room_for n v = vreserve (if n < 16 then 16 else 128) v"

lemma add_posting_eq:
  assumes t: "px_tables idx" "k < px_vocab idx" and n: "px_df idx k = of_nat n" "n + 1 < 2 ^ 32"
    and v: "v = px_docs idx ! k" "n < 16 \<Longrightarrow> vcap v \<in> {0, 16}" and w: "w = vpush d (room_for n v)"
    and c: "c = FixedCounter_increment (df (px_pointers idx)) (of_nat k)"
  shows "pos_add_posting F junk pad d idx (of_nat k) =
    (if n < 16 \<or> length (velems w) \<noteq> vcap w then Some (revec idx k w c) else pos_full_buffer junk pad (revec idx k w c) (of_nat k))"
proof -
  have u: "unat (of_nat k :: u32) = k" by (rule px_index(1) [OF t t(2)])
  have kd: "k < length (counter (df (px_pointers idx)))" "k < length (px_docs idx)" using t by (simp_all add: px_tables_def px_vocab_def)
  define m :: u32 where "m = of_nat (n + 1)"
  have "FixedCounter_get c (of_nat k) = m"
    using FixedCounter_get_increment [of "of_nat k" "df (px_pointers idx)" "of_nat k"] kd u n(1) by (simp add: c m_def)
  then have ref: "FixedCounter_ref c (of_nat k) = Some m"
    using kd u by (simp add: FixedCounter_ref_def FixedCounter_get_def rd_def c)
  have le: "m \<le> of_nat DF_CUTOFF \<longleftrightarrow> n < 16"
    unfolding m_def using n(2) unat_of_nat32 [of "n + 1"] unat_of_nat32 [of 16] by (auto simp: word_le_nat_alt DF_CUTOFF_def)
  have ty: "px_type idx = NON_POSITIONAL" "k < length (bm_tf (px_buffer idx))" "k < length (bm_position (px_buffer idx))" using t by (simp_all add: px_tables_def)
  define idx2 where "idx2 = idx \<lparr> px_pointers := (px_pointers idx) \<lparr> df := c \<rparr> \<rparr>"
  have push: "pos_push_doc (idx2 \<lparr> px_buffer := (px_buffer idx) \<lparr> bm_docid := (px_docs idx)[k := x] \<rparr> \<rparr>) k d y = revec idx k (vpush d y) c" for x y
    by (simp add: pos_push_doc_def idx2_def revec_def)
  have idx2: "px_buffer idx2 = px_buffer idx" "px_type idx2 = NON_POSITIONAL" using ty by (simp_all add: idx2_def)
  have same: "idx2 \<lparr> px_buffer := (px_buffer idx) \<lparr> bm_docid := (px_docs idx)[k := v] \<rparr> \<rparr> = idx2" by (simp add: v(1) idx2_def)
  have rdd: "rd (px_docs idx) k = Some v" using kd by (simp add: rd_def v(1))
  show ?thesis
  proof (cases "n < 16")
    case True
    then have "(if vcap v = 0 then vreserve DF_CUTOFF v else v) = room_for n v" using v(2) by (auto simp: room_for_def DF_CUTOFF_def vreserve_def)
    with push [of v "room_for n v"] True rdd show ?thesis
      unfolding same by (simp add: pos_add_posting_def pos_track_tf_def ty Let_def c [symmetric] ref le u idx2_def [symmetric] idx2 w)
  next
    case False
    have "vreserve BLOCK_SIZE v = room_for n v" "\<not> vcap v < BLOCK_SIZE \<Longrightarrow> room_for n v = v"
      using False by (simp_all add: room_for_def BLOCK_SIZE_def vreserve_def)
    then have "pos_enlarge idx2 k = Some (idx2 \<lparr> px_buffer := (px_buffer idx) \<lparr> bm_docid := (px_docs idx)[k := room_for n v] \<rparr> \<rparr>)"
      using same by (cases "vcap v < BLOCK_SIZE") (simp_all add: pos_enlarge_def Let_def rd_def kd ty idx2 v(1) [symmetric])
    moreover have "pos_end_block (revec idx k w c) k = Some (revec idx k w c)" using kd ty by (simp add: pos_end_block_def revec_def rd_def)
    moreover have "rd ((px_docs idx)[k := x]) k = Some x" for x using kd by (simp add: rd_def)
    ultimately show ?thesis using False push [of "room_for n v" "room_for n v"] rdd
      by (simp add: pos_add_posting_def pos_track_tf_def ty Let_def c [symmetric] ref le u idx2_def [symmetric] idx2 w)
  qed
qed

lemma vclear_eq: "vclear v = \<lparr> vcap = vcap v, velems = [] \<rparr>"
  by (cases v) (simp add: vclear_def)

lemma full_buffer_ok:
  assumes inv: "pos_inv idx L pss ts" and k: "k < length (px_dictionary idx)" and b: "vcap (px_docs idx ! k) \<in> doc_caps" "velems (px_docs idx ! k) \<noteq> []"
    and f: "4064 * length (velems (px_docs idx ! k)) \<le> pool_free (px_pool idx)"
  shows "\<exists>idx' L' pss' c. pos_full_buffer junk pad idx (of_nat k) = Some idx' \<and> pos_inv idx' L' pss' ts \<and> c \<in> doc_caps \<and>
    px_docs idx' = (px_docs idx)[k := \<lparr> vcap = c, velems = [] \<rparr>] \<and> px_dictionary idx' = px_dictionary idx \<and> px_kept idx idx' \<and>
    pool_free (px_pool idx) \<le> pool_free (px_pool idx') + 4064 * length (velems (px_docs idx ! k))"
proof -
  let ?v = "px_docs idx ! k" and ?w = "vclear (px_docs idx ! k)"
  have kv: "k < px_vocab idx" and ty: "px_type idx = NON_POSITIONAL" "px_tables idx" using inv k by (auto simp: pos_inv_def px_tables_def)
  from process_term_ok [OF inv kv b f, of junk pad] obtain idx1 L' pss' where
    p: "pos_process_term junk pad idx (of_nat k) = Some idx1" "pos_inv idx1 L' pss' ts" "px_docs idx1 = (px_docs idx)[k := ?w]"
      "px_dictionary idx1 = px_dictionary idx" "px_kept idx idx1"
      "pool_free (px_pool idx) \<le> pool_free (px_pool idx1) + 4064 * length (velems ?v)" by blast
  have tb1: "px_tables idx1" and kv1: "k < px_vocab idx1" using p(2,5) kv by (auto simp: pos_inv_def px_kept_def)
  have u: "unat (of_nat k :: u32) = k" by (rule px_index(1) [OF ty(2) kv kv])
  have rds: "rd (px_docs idx1) k = Some ?w" "rd (bm_tf (px_buffer idx1)) k = Some vempty"
    using p(3) kv tb1 kv1 by (simp_all add: rd_def px_vocab_def px_tables_def)
  define x where "x = vreserve (2 * vcap ?v) ?w"
  have e: "pos_full_buffer junk pad idx (of_nat k) =
      Some (if vcap ?v < 4096 then revec idx1 k x (df (px_pointers idx1)) else idx1)"
    using p(1) rds ty by (simp add: pos_full_buffer_def Let_def u x_def vclear_def revec_def MAX_BLOCK_SIZE_def BLOCK_SIZE_def EXPANSION_RATE_def mult.commute)
  show ?thesis
  proof (cases "vcap ?v < 4096")
    case True
    have x: "x = \<lparr> vcap = 2 * vcap ?v, velems = [] \<rparr>" by (simp add: x_def vreserve_def vclear_def)
    have c: "2 * vcap ?v \<in> doc_caps" using b(1) True by (auto simp: doc_caps_def)
    have cnt: "FixedCounter_get (df (px_pointers idx1)) (of_nat j) = of_nat (length (ts[k := ts ! k @ []] ! j))" if "j < px_vocab idx1" for j
      using p(2) that by (simp add: pos_inv_def doc_term_def)
    have dk: "px_docs idx1 ! k = ?w" using p(3) kv by (simp add: px_vocab_def)
    have big: "\<not> length (ts ! k) \<le> 16" using inv kv b(1) by (auto simp: pos_inv_def doc_term_def doc_caps_def split: if_splits)
    have "pos_inv (revec idx1 k x (df (px_pointers idx1))) L' pss' (ts[k := ts ! k @ []])"
      by (rule revec_ok [OF p(2) _ _ _ _ _ cnt]) (use k p(4) x c dk big tb1 in \<open>auto simp: vclear_def px_tables_def\<close>)
    moreover have "px_kept idx (revec idx1 k x (df (px_pointers idx1)))" by (rule px_kept_trans [OF p(5)]) simp
    ultimately show ?thesis using e True c p(3,4,6) x by (intro exI [of _ "revec idx1 k x (df (px_pointers idx1))"] exI [of _ L'] exI [of _ pss'] exI [of _ "2 * vcap ?v"]) simp
  next
    case False
    then show ?thesis using e b(1) p by (intro exI [of _ idx1] exI [of _ L'] exI [of _ pss'] exI [of _ "vcap ?v"]) (simp add: vclear_eq)
  qed
qed

lemma vpush_room:
  assumes "length (velems v) \<le> vcap v" "n < 16 \<Longrightarrow> vcap v \<in> {0, 16} \<and> length (velems v) = n"
    "\<not> n < 16 \<Longrightarrow> vcap v = 16 \<or> vcap v \<in> doc_caps \<and> length (velems v) < vcap v"
  shows "velems (vpush d (room_for n v)) = velems v @ [d]" "length (velems v) < vcap (vpush d (room_for n v))"
    "n < 16 \<Longrightarrow> vcap (vpush d (room_for n v)) = 16" "\<not> n < 16 \<Longrightarrow> vcap (vpush d (room_for n v)) \<in> doc_caps"
  using assms by (auto simp: vpush_def room_for_def vreserve_def doc_caps_def max_def split: if_splits)

lemma sum_update:
  "k < length vs \<Longrightarrow> (\<Sum>v \<leftarrow> vs[k := w]. length (velems v)) + length (velems (vs ! k)) = (\<Sum>v \<leftarrow> vs. length (velems v)) + length (velems w)"
  by (induction vs arbitrary: k) (auto split: nat.split)

lemma steady_update:
  assumes "px_steady idx" "px_docs idx' = (px_docs idx)[k := w]" "vcap w \<in> doc_caps \<Longrightarrow> length (velems w) < vcap w"
  shows "px_steady idx'"
  using assms set_update_subset_insert [of "px_docs idx" k w] unfolding px_steady_def by auto

lemma posting_added_ok:
  assumes inv: "pos_inv idx L pss ts" and st: "px_steady idx" and k: "k < length (px_dictionary idx)" and n: "length (ts ! k) + 1 < 2 ^ 32"
    and f: "px_space idx (Suc m)"
  shows "\<exists>idx' L' pss'. pos_add_posting F junk pad d idx (of_nat k) = Some idx' \<and> pos_inv idx' L' pss' (ts[k := ts ! k @ [d]]) \<and> px_steady idx' \<and>
    px_space idx' m \<and> px_dictionary idx' = px_dictionary idx \<and> px_kept idx idx'"
proof -
  let ?v = "px_docs idx ! k" and ?n = "length (ts ! k)"
  define w where "w = vpush d (room_for ?n ?v)"
  define c where "c = FixedCounter_increment (df (px_pointers idx)) (of_nat k)"
  define idx1 where "idx1 = revec idx k w c"
  have kv: "k < px_vocab idx" and tb: "px_tables idx" and lts: "length ts = px_vocab idx" using inv k by (auto simp: pos_inv_def)
  have kd: "k < length (px_docs idx)" using kv by (simp add: px_vocab_def)
  have to: "doc_term idx L k (pss ! k) (ts ! k)" using inv kv by (simp add: pos_inv_def)
  have steady: "vcap ?v \<in> doc_caps \<longrightarrow> length (velems ?v) < vcap ?v" using st kd by (simp add: px_steady_def)
  have v: "?n < 16 \<Longrightarrow> vcap ?v \<in> {0, 16} \<and> length (velems ?v) = ?n" "length (velems ?v) \<le> vcap ?v"
    "\<not> ?n < 16 \<Longrightarrow> vcap ?v = 16 \<or> vcap ?v \<in> doc_caps \<and> length (velems ?v) < vcap ?v"
    using to steady by (auto simp: doc_term_def doc_chain_def chain_at_def posting_chain_def chain_docs_def doc_blocks_def index_order_def split: if_splits)
  note vw = vpush_room [OF v(2) v(1) v(3), where d = d, folded w_def]
  have eq: "pos_add_posting F junk pad d idx (of_nat k) =
    (if ?n < 16 \<or> length (velems w) \<noteq> vcap w then Some idx1 else pos_full_buffer junk pad idx1 (of_nat k))"
    unfolding idx1_def using to by (intro add_posting_eq [OF tb kv _ n refl _ w_def c_def]) (use v(1) in \<open>simp_all add: doc_term_def\<close>)
  have cl: "length (counter c) = px_vocab idx" using tb by (simp add: c_def px_tables_def)
  have cnt: "FixedCounter_get c (of_nat j) = of_nat (length (ts[k := ts ! k @ [d]] ! j))" if "j < px_vocab idx" for j
  proof -
    have "px_df idx j = of_nat (length (ts ! j))" using inv that by (simp add: pos_inv_def doc_term_def)
    moreover have "FixedCounter_get c (of_nat j) = px_df idx j + (if j = k then 1 else 0)"
      using FixedCounter_get_increment [of "of_nat k" "df (px_pointers idx)" "of_nat j"] tb kv px_index [OF tb kv that] by (simp add: c_def px_tables_def)
    ultimately show ?thesis using kv lts by (cases "j = k") simp_all
  qed
  have inv1: "pos_inv idx1 L pss (ts[k := ts ! k @ [d]])"
    unfolding idx1_def by (rule revec_ok [OF inv k vw(1) _ _ cl cnt]) (use vw in \<open>auto simp: Suc_le_eq\<close>)
  have sum: "(\<Sum>v \<leftarrow> px_docs idx1. length (velems v)) = Suc (\<Sum>v \<leftarrow> px_docs idx. length (velems v))"
    using sum_update [OF kd, of w] vw(1) by (simp add: idx1_def)
  show ?thesis
  proof (cases "?n < 16 \<or> length (velems w) \<noteq> vcap w")
    case True
    have "px_steady idx1" by (rule steady_update [OF st, of _ k w]) (use vw True in \<open>auto simp: idx1_def doc_caps_def\<close>)
    moreover have "px_space idx1 m" using f sum by (simp add: px_space_def idx1_def)
    ultimately show ?thesis using eq inv1 True by (intro exI [of _ idx1] exI [of _ L] exI [of _ pss]) (simp add: idx1_def)
  next
    case False
    have k1: "k < length (px_dictionary idx1)" "px_docs idx1 ! k = w" using k kd by (simp_all add: idx1_def)
    have "length (velems w) \<le> (\<Sum>v \<leftarrow> px_docs idx1. length (velems v))"
      using elem_le_sum_list [of k "map (\<lambda>v. length (velems v)) (px_docs idx1)"] kd k1(2) by (simp add: idx1_def)
    then have "4064 * length (velems w) \<le> 4064 * (Suc m + (\<Sum>v \<leftarrow> px_docs idx. length (velems v)))" using sum by (intro mult_le_mono2) linarith
    then have f1: "4064 * length (velems (px_docs idx1 ! k)) \<le> pool_free (px_pool idx1)"
      unfolding k1(2) using f by (simp add: px_space_def idx1_def)
    from full_buffer_ok [OF inv1 k1(1) _ _ f1, of junk pad] vw False k1 obtain idx2 L' pss' c' where
      q: "pos_full_buffer junk pad idx1 (of_nat k) = Some idx2" "pos_inv idx2 L' pss' (ts[k := ts ! k @ [d]])" "c' \<in> doc_caps"
        "px_docs idx2 = (px_docs idx1)[k := \<lparr> vcap = c', velems = [] \<rparr>]" "px_dictionary idx2 = px_dictionary idx1" "px_kept idx1 idx2"
        "pool_free (px_pool idx1) \<le> pool_free (px_pool idx2) + 4064 * length (velems w)" by auto
    have "px_steady idx2" by (rule steady_update [OF st, of _ k "\<lparr> vcap = c', velems = [] \<rparr>"]) (use q(3,4) doc_caps_full [OF q(3)] in \<open>auto simp: idx1_def\<close>)
    moreover have "px_space idx2 m"
      using f q(7) sum_update [of k "px_docs idx1" "\<lparr> vcap = c', velems = [] \<rparr>"] sum kd k1(2) by (simp add: px_space_def q(4)) (simp add: idx1_def)
    moreover have "px_kept idx idx2" by (rule px_kept_trans [OF _ q(6)]) (simp add: idx1_def)
    ultimately show ?thesis using eq q(1,2,5) False by (intro exI [of _ idx2] exI [of _ L'] exI [of _ pss']) (simp add: idx1_def)
  qed
qed

section \<open>Refinement of the abstract index\<close>

text \<open>The abstract index maps the words to the docids of their documents. A word that is new is left out when the dictionary's table takes no more
  words. A document is added once to each of its words.\<close>

type_synonym abs_docids = "string \<rightharpoonup> u32 list"

definition abs_word :: "(nat \<Rightarrow> bool) \<Rightarrow> string \<Rightarrow> abs_docids \<Rightarrow> abs_docids" where
  "abs_word accepts wrd A = (if wrd \<notin> dom A \<and> accepts (card (dom A)) then A(wrd \<mapsto> []) else A)"

definition abs_insert_doc :: "(nat \<Rightarrow> bool) \<Rightarrow> u32 \<Rightarrow> string list \<Rightarrow> abs_docids \<Rightarrow> abs_docids" where
  "abs_insert_doc accepts d tms A =
     (\<lambda>wrd. map_option (\<lambda>P. if wrd \<in> set tms then P @ [d] else P) (fold (abs_word accepts) tms A wrd))"

definition pos_rep :: "PositionalInvertedIndex \<Rightarrow> abs_docids \<Rightarrow> bool" where
  "pos_rep idx A \<longleftrightarrow> (\<exists>L pss ts. pos_inv idx L pss ts \<and> px_steady idx \<and> A = abs_of (px_dictionary idx) ts)"

lemma abs_word_mono: "A wrd = Some P \<Longrightarrow> fold (abs_word accepts) tms A wrd = Some P"
proof (induction tms arbitrary: A)
  case (Cons tm tms)
  from Cons.prems have "abs_word accepts tm A wrd = Some P" by (auto simp: abs_word_def)
  with Cons.IH show ?case by simp
qed simp

lemma abs_word_fit:
  assumes "words_fit W v (dom A)" "tm \<in> W" shows "words_fit W v (dom (abs_word accepts tm A))"
  by (rule words_fit_mono [OF assms(1)]) (use assms(2) in \<open>auto simp: abs_word_def\<close>)

lemma abs_insert_doc_fit:
  assumes "words_fit W v (dom A)" "set tms \<subseteq> W" shows "words_fit W v (dom (abs_insert_doc accepts d tms A))"
proof -
  have "words_fit W v (dom (fold (abs_word accepts) tms A))"
    using assms by (induction tms arbitrary: A) (simp_all add: abs_word_fit)
  moreover have "dom (abs_insert_doc accepts d tms A) = dom (fold (abs_word accepts) tms A)" by (auto simp: abs_insert_doc_def)
  ultimately show ?thesis by simp
qed

lemma abs_word_full: "\<not> accepts (card (dom A)) \<Longrightarrow> fold (abs_word accepts) tms A = A"
  by (induction tms) (auto simp: abs_word_def)

text \<open>The first loop numbers the words of a document and collects the numbers.\<close>

definition words_counted :: "PositionalInvertedIndex \<Rightarrow> u64 set \<Rightarrow> u64 list list \<Rightarrow> u32 list list \<Rightarrow> abs_docids \<Rightarrow> PositionalInvertedIndex \<Rightarrow> bool" where
  "words_counted idx L pss ts A idx' \<longleftrightarrow> pos_inv idx' L pss ts \<and> px_docs idx' = px_docs idx \<and> px_pool idx' = px_pool idx \<and> px_kept idx idx' \<and>
     abs_of (px_dictionary idx') ts = A"

lemma pos_inv_words:
  assumes "pos_inv idx L pss ts" "dict_ok dic" "length (px_dictionary idx) \<le> length dic" "length dic \<le> px_vocab idx"
  shows "pos_inv (idx \<lparr> px_dictionary := dic, px_pointers := (px_pointers idx) \<lparr> cf := c \<rparr> \<rparr>) L pss ts"
proof -
  let ?idx = "idx \<lparr> px_dictionary := dic, px_pointers := (px_pointers idx) \<lparr> cf := c \<rparr> \<rparr>"
  have sp: "same_params idx ?idx" by (simp add: same_params_def)
  have "doc_term ?idx L k ps P" if "doc_term idx L k ps P" for k ps P
    by (rule doc_term_frame [where S = "{}", OF that _ _ sp]) (simp_all add: framed_refl)
  moreover have "px_tables ?idx" "px_vocab ?idx = px_vocab idx" using assms(1) by (auto simp: pos_inv_def px_tables_def px_vocab_def scratch_ok_def bloom_ok_def)
  ultimately show ?thesis using assms by (auto simp: pos_inv_def)
qed

lemma count_term_ok:
  assumes inv: "pos_inv idx L pss ts" and fit: "words_fit W (px_vocab idx) (dom A)" "tm \<in> W" and A: "A = abs_of (px_dictionary idx) ts"
  shows "\<exists>idx' uniq'. pos_count_term accepts (idx, uniq) i tm = Some (idx', uniq') \<and> words_counted idx L pss ts (abs_word accepts tm A) idx' \<and>
    set uniq' = set uniq \<union> set_option (map_of (px_dictionary idx') tm) \<and> (distinct uniq \<longrightarrow> distinct uniq') \<and>
    (\<forall>w j. map_of (px_dictionary idx) w = Some j \<longrightarrow> map_of (px_dictionary idx') w = Some j)"
proof -
  have dic: "dict_ok (px_dictionary idx)" "px_vocab idx < 2 ^ 32" "length (px_dictionary idx) \<le> px_vocab idx" "px_type idx = NON_POSITIONAL"
    using inv by (auto simp: pos_inv_def px_tables_def)
  have c: "card (dom A) = length (px_dictionary idx)" using card_dom_abs_of [OF dic(1), of ts] A by simp
  have acc: "length (px_dictionary idx) < px_vocab idx" if "map_of (px_dictionary idx) tm = None"
    using words_fit_card [OF fit] that c by (auto simp: A abs_of_def domIff)
  then have acc': "length (px_dictionary idx) < 2 ^ 32 - 1" if "map_of (px_dictionary idx) tm = None" using that dic(2) by fastforce
  have kept: "px_kept idx (idx \<lparr> px_dictionary := d, px_pointers := (px_pointers idx) \<lparr> cf := c \<rparr> \<rparr>)" for d c
    by (simp add: px_kept_def same_params_def px_vocab_def)
  have uq: "set (insort_insert j uniq) = insert j (set uniq)" "distinct uniq \<Longrightarrow> distinct (insort_insert j uniq)" for j
    by (simp_all add: set_insort_insert distinct_insort_insert)
  have valid: "of_nat (length (px_dictionary idx)) \<noteq> (INVALID_ID :: u32)" if "map_of (px_dictionary idx) tm = None"
    using acc' [OF that] unat_of_nat32 [of "length (px_dictionary idx)"] by (auto simp: INVALID_ID_def)
  show ?thesis
  proof (rule insertTerm_cases [OF dic(1) acc', of accepts tm])
    fix j assume j: "map_of (px_dictionary idx) tm = Some j" "insertTerm accepts (px_dictionary idx) tm = (j, px_dictionary idx)"
    then have "j \<noteq> INVALID_ID" using dict_ok_map_of(1) [OF dic(1) j(1)] dic(2,3) by (auto simp: INVALID_ID_def)
    moreover have "tm \<in> dom A" using j(1) by (simp add: A abs_of_def dom_def)
    ultimately show ?thesis using j dic(4) pos_inv_words [OF inv dic(1) order_refl dic(3)] kept [of _ "px_dictionary idx"] uq A
      by (auto simp: pos_count_term_def words_counted_def abs_word_def)
  next
    let ?d = "px_dictionary idx @ [(tm, of_nat (length (px_dictionary idx)))]"
    assume n: "map_of (px_dictionary idx) tm = None" "accepts (length (px_dictionary idx))"
      "insertTerm accepts (px_dictionary idx) tm = (of_nat (length (px_dictionary idx)), ?d)" "dict_ok ?d"
    have l: "length (px_dictionary idx) < px_vocab idx" using acc n(1) by simp
    then have "ts ! length (px_dictionary idx) = []" using inv by (simp add: pos_inv_def)
    then have a: "abs_of ?d ts = abs_word accepts tm A" using abs_of_new [OF dic(1) n(1), of ts] n(1,2) c by (auto simp: A abs_word_def abs_of_def dom_def)
    show ?thesis using n valid dic(4) pos_inv_words [OF inv n(4)] l kept uq a
      by (auto simp: pos_count_term_def words_counted_def map_add_def)
  next
    assume n: "map_of (px_dictionary idx) tm = None" "\<not> accepts (length (px_dictionary idx))"
      "insertTerm accepts (px_dictionary idx) tm = (INVALID_ID, px_dictionary idx)"
    then show ?thesis using inv c A px_kept_refl by (simp add: pos_count_term_def words_counted_def abs_word_def)
  qed
qed

lemma count_terms_ok:
  assumes "pos_inv idx L pss ts" "words_fit W (px_vocab idx) (dom A)" "set tms \<subseteq> W" "A = abs_of (px_dictionary idx) ts"
  shows "\<exists>idx' uniq'. pos_count_terms accepts (idx, uniq) i tms = Some (idx', uniq') \<and> words_counted idx L pss ts (fold (abs_word accepts) tms A) idx' \<and>
    set uniq' = set uniq \<union> (\<Union>tm \<in> set tms. set_option (map_of (px_dictionary idx') tm)) \<and> (distinct uniq \<longrightarrow> distinct uniq') \<and>
    (\<forall>w j. map_of (px_dictionary idx) w = Some j \<longrightarrow> map_of (px_dictionary idx') w = Some j) \<and> (distinct uniq \<longrightarrow> length uniq' \<le> length uniq + length tms)"
  using assms
proof (induction tms arbitrary: idx uniq i A)
  case Nil
  then show ?case using px_kept_refl by (auto simp: words_counted_def)
next
  case (Cons tm tms)
  have tm: "tm \<in> W" "set tms \<subseteq> W" using Cons.prems(3) by simp_all
  from count_term_ok [OF Cons.prems(1,2) tm(1) Cons.prems(4), of accepts uniq i] obtain idx1 uniq1 where
    a: "pos_count_term accepts (idx, uniq) i tm = Some (idx1, uniq1)" "words_counted idx L pss ts (abs_word accepts tm A) idx1"
      "set uniq1 = set uniq \<union> set_option (map_of (px_dictionary idx1) tm)" "distinct uniq \<longrightarrow> distinct uniq1"
      "\<forall>w j. map_of (px_dictionary idx) w = Some j \<longrightarrow> map_of (px_dictionary idx1) w = Some j" by blast
  have b: "pos_inv idx1 L pss ts" "words_fit W (px_vocab idx1) (dom (abs_word accepts tm A))" "abs_word accepts tm A = abs_of (px_dictionary idx1) ts"
    using a(2) abs_word_fit [OF Cons.prems(2) tm(1)] by (auto simp: words_counted_def px_kept_def)
  from Cons.IH [OF b(1,2) tm(2) b(3), of uniq1 "Suc i"] obtain idx2 uniq2 where
    c: "pos_count_terms accepts (idx1, uniq1) (Suc i) tms = Some (idx2, uniq2)"
      "words_counted idx1 L pss ts (fold (abs_word accepts) tms (abs_word accepts tm A)) idx2"
      "set uniq2 = set uniq1 \<union> (\<Union>tm \<in> set tms. set_option (map_of (px_dictionary idx2) tm))" "distinct uniq1 \<longrightarrow> distinct uniq2"
      "\<forall>w j. map_of (px_dictionary idx1) w = Some j \<longrightarrow> map_of (px_dictionary idx2) w = Some j"
      "distinct uniq1 \<longrightarrow> length uniq2 \<le> length uniq1 + length tms" by blast
  have dom: "dom (abs_of dic ts) = dom (map_of dic)" for dic by (auto simp: abs_of_def)
  have "set_option (map_of (px_dictionary idx2) tm) = set_option (map_of (px_dictionary idx1) tm)"
  proof (cases "map_of (px_dictionary idx1) tm")
    case None
    then have n: "tm \<notin> dom (abs_word accepts tm A)" using b(3) dom [of "px_dictionary idx1"] by auto
    then have "\<not> accepts (card (dom A))" "abs_word accepts tm A = A" by (auto simp: abs_word_def split: if_splits)
    then have "fold (abs_word accepts) tms (abs_word accepts tm A) = A" using abs_word_full by simp
    then have "dom (map_of (px_dictionary idx2)) = dom A" using c(2) dom [of "px_dictionary idx2"] by (simp add: words_counted_def)
    with n \<open>abs_word accepts tm A = A\<close> None show ?thesis by (auto simp: domIff)
  qed (use c(5) in simp)
  moreover have "words_counted idx L pss ts (fold (abs_word accepts) (tm # tms) A) idx2"
    using a(2) c(2) px_kept_trans by (auto simp: words_counted_def)
  moreover have "length uniq1 \<le> Suc (length uniq)" if "distinct uniq"
  proof -
    have "card (set uniq1) \<le> card (insert (the (map_of (px_dictionary idx1) tm)) (set uniq))" using a(3) by (intro card_mono) auto
    also have "\<dots> \<le> Suc (card (set uniq))" by (rule card_insert_le_m1) simp_all
    finally show ?thesis using that a(4) by (simp add: distinct_card)
  qed
  ultimately show ?case using a(1,3,4,5) c by auto
qed

text \<open>The second loop adds the docid to the postings of each of the numbers.\<close>

lemma add_postings_ok:
  assumes "pos_inv idx L pss ts" "px_steady idx" "distinct tids" "\<forall>t \<in> set tids. unat t < length (px_dictionary idx) \<and> length (ts ! unat t) + 1 < 2 ^ 32"
    "px_space idx (length tids + m)"
  shows "\<exists>idx' L' pss' ts'. pos_add_postings F junk pad d idx tids = Some idx' \<and> pos_inv idx' L' pss' ts' \<and> px_steady idx' \<and> px_space idx' m \<and>
    px_dictionary idx' = px_dictionary idx \<and> px_kept idx idx' \<and>
    (\<forall>k < px_vocab idx. ts' ! k = ts ! k @ (if of_nat k \<in> set tids then [d] else []))"
  using assms
proof (induction tids arbitrary: idx L pss ts)
  case Nil
  then show ?case using px_kept_refl by fastforce
next
  case (Cons t tids)
  let ?k = "unat t"
  have sp: "px_space idx (Suc (length tids + m))" using Cons.prems(5) by simp
  from posting_added_ok [OF Cons.prems(1,2) _ _ sp, of ?k F junk pad d] Cons.prems(4) obtain idx1 L1 pss1 where
    a: "pos_add_posting F junk pad d idx t = Some idx1" "pos_inv idx1 L1 pss1 (ts[?k := ts ! ?k @ [d]])" "px_steady idx1" "px_space idx1 (length tids + m)"
      "px_dictionary idx1 = px_dictionary idx" "px_kept idx idx1" by auto
  have "?k \<noteq> unat t'" if "t' \<in> set tids" for t' using that Cons.prems(3) by (auto simp flip: word_unat_eq_iff)
  then have b: "\<forall>t' \<in> set tids. unat t' < length (px_dictionary idx1) \<and> length (ts[?k := ts ! ?k @ [d]] ! unat t') + 1 < 2 ^ 32"
    using Cons.prems(4) a(5) by simp
  from Cons.IH [OF a(2,3) _ b a(4)] Cons.prems(3) obtain idx2 L2 pss2 ts2 where
    c: "pos_add_postings F junk pad d idx1 tids = Some idx2" "pos_inv idx2 L2 pss2 ts2" "px_steady idx2" "px_space idx2 m"
      "px_dictionary idx2 = px_dictionary idx1" "px_kept idx1 idx2"
      "\<forall>k < px_vocab idx1. ts2 ! k = ts[?k := ts ! ?k @ [d]] ! k @ (if of_nat k \<in> set tids then [d] else [])" by auto
  have v: "px_vocab idx1 = px_vocab idx" "length ts = px_vocab idx" "px_vocab idx < 2 ^ 32"
    using a(6) Cons.prems(1) by (auto simp: px_kept_def pos_inv_def px_tables_def)
  have "ts2 ! k = ts ! k @ (if of_nat k \<in> set (t # tids) then [d] else [])" if "k < px_vocab idx" for k
  proof (cases "k = ?k")
    case True
    then have "of_nat k = t" by simp
    then show ?thesis using c(7) Cons.prems(3) True that v by simp
  next
    case False
    then have "of_nat k \<noteq> t" using that v unat_of_nat32 [of k] by auto
    then show ?thesis using c(7) False that v by simp
  qed
  then have "\<forall>k < px_vocab idx. ts2 ! k = ts ! k @ (if of_nat k \<in> set (t # tids) then [d] else [])" by blast
  moreover have "pos_add_postings F junk pad d idx (t # tids) = Some idx2" using a(1) c(1) by simp
  ultimately show ?case using a(5) c(2-5) px_kept_trans [OF a(6) c(6)] by (intro exI [of _ idx2] exI [of _ L2] exI [of _ pss2] exI [of _ ts2]) simp
qed

lemma add_doc_abs:
  assumes inv: "pos_inv idx L pss ts" and ts': "length ts' = px_vocab idx" "\<forall>k < px_vocab idx. ts' ! k = ts ! k @ (if of_nat k \<in> set tids then [d] else [])"
    and tids: "set tids = (\<Union>tm \<in> set tms. set_option (map_of (px_dictionary idx) tm))"
  shows "abs_of (px_dictionary idx) ts' = (\<lambda>wrd. map_option (\<lambda>P. if wrd \<in> set tms then P @ [d] else P) (abs_of (px_dictionary idx) ts wrd))"
proof
  fix wrd
  have dic: "dict_ok (px_dictionary idx)" "length (px_dictionary idx) \<le> px_vocab idx" using inv by (auto simp: pos_inv_def)
  show "abs_of (px_dictionary idx) ts' wrd = map_option (\<lambda>P. if wrd \<in> set tms then P @ [d] else P) (abs_of (px_dictionary idx) ts wrd)"
  proof (cases "map_of (px_dictionary idx) wrd")
    case (Some i)
    have "wrd \<in> set tms" if "i \<in> set tids"
    proof -
      from that tids obtain tm where "tm \<in> set tms" "map_of (px_dictionary idx) tm = Some i" by (auto simp: elem_set)
      with dict_ok_inj [OF dic(1) this(2) Some] show ?thesis by simp
    qed
    moreover have "i \<in> set tids" if "wrd \<in> set tms" using tids Some that by force
    ultimately have "i \<in> set tids \<longleftrightarrow> wrd \<in> set tms" by blast
    moreover have "unat i < px_vocab idx" using dict_ok_map_of(1) [OF dic(1) Some] dic(2) by simp
    ultimately show ?thesis using ts'(2) Some by (simp add: abs_of_def)
  qed (simp add: abs_of_def)
qed

lemma pos_inv_docLen:
  assumes "pos_inv idx L pss ts"
  shows "pos_inv (idx \<lparr> px_pointers := (px_pointers idx) \<lparr> docLen := c, totalDocs := n \<rparr> \<rparr>) L pss ts"
proof -
  let ?idx = "idx \<lparr> px_pointers := (px_pointers idx) \<lparr> docLen := c, totalDocs := n \<rparr> \<rparr>"
  have sp: "same_params idx ?idx" by (simp add: same_params_def)
  have "doc_term ?idx L k ps P" if "doc_term idx L k ps P" for k ps P
    by (rule doc_term_frame [where S = "{}", OF that _ _ sp]) (simp_all add: framed_refl)
  moreover have "px_tables ?idx" "px_vocab ?idx = px_vocab idx" using assms(1) by (auto simp: pos_inv_def px_tables_def px_vocab_def scratch_ok_def bloom_ok_def)
  ultimately show ?thesis using assms by (auto simp: pos_inv_def)
qed

text \<open>The lists of the abstract index are short enough for the 32-bit document frequencies.\<close>

definition abs_few :: "nat \<Rightarrow> abs_docids \<Rightarrow> bool" where
  "abs_few n A \<longleftrightarrow> (\<forall>P \<in> ran A. length P + n < 2 ^ 32)"

lemma abs_few_words: "abs_few n A \<Longrightarrow> n < 2 ^ 32 \<Longrightarrow> abs_few n (fold (abs_word accepts) tms A)"
proof (induction tms arbitrary: A)
  case (Cons tm tms)
  have "abs_few n (abs_word accepts tm A)" using Cons.prems by (auto simp: abs_few_def abs_word_def ran_def)
  with Cons.IH Cons.prems(2) show ?case by simp
qed simp

lemma insert_doc_refines:
  assumes rep: "pos_rep idx A" and fit: "words_fit W (px_vocab idx) (dom A)" "set tms \<subseteq> W" and few: "abs_few 1 A" and sp: "px_space idx (length tms + m)"
  shows "\<exists>idx'. pos_insertDoc F junk pad accepts idx d tms = Some idx' \<and> pos_rep idx' (abs_insert_doc accepts d tms A) \<and> px_space idx' m \<and>
    same_params idx idx' \<and> px_vocab idx' = px_vocab idx \<and> PosIndex_totalDocNum idx' = PosIndex_totalDocNum idx + 1 \<and>
    totalDocLen (px_pointers idx') = totalDocLen (px_pointers idx)"
proof -
  from rep obtain L pss ts where r: "pos_inv idx L pss ts" "px_steady idx" "A = abs_of (px_dictionary idx) ts" by (auto simp: pos_rep_def)
  let ?B = "fold (abs_word accepts) tms A"
  from count_terms_ok [OF r(1) fit r(3), of accepts "[]" 0] obtain idx1 tids where
    c: "pos_count_terms accepts (idx, []) 0 tms = Some (idx1, tids)" "words_counted idx L pss ts ?B idx1"
      "set tids = (\<Union>tm \<in> set tms. set_option (map_of (px_dictionary idx1) tm))" "distinct tids" "length tids \<le> length tms" by auto
  define idx2 where "idx2 = idx1 \<lparr> px_pointers := (px_pointers idx1) \<lparr>
      docLen := FixedCounter_set (docLen (px_pointers idx1)) d (of_nat (length tms)), totalDocs := totalDocs (px_pointers idx1) + 1 \<rparr> \<rparr>"
  have w: "pos_inv idx1 L pss ts" "px_docs idx1 = px_docs idx" "px_pool idx1 = px_pool idx" "px_kept idx idx1" "abs_of (px_dictionary idx1) ts = ?B"
    using c(2) by (simp_all add: words_counted_def)
  have inv2: "pos_inv idx2 L pss ts" unfolding idx2_def by (rule pos_inv_docLen [OF w(1)])
  have st2: "px_steady idx2" "px_dictionary idx2 = px_dictionary idx1" "px_vocab idx2 = px_vocab idx" "same_params idx idx2"
    using r(2) w(2,4) by (simp_all add: px_steady_def idx2_def px_kept_def px_vocab_def same_params_def)
  have "px_space idx2 (length tids + m)"
    using sp c(5) w(2,3) by (simp add: px_space_def idx2_def)
  moreover have "unat t < length (px_dictionary idx2) \<and> length (ts ! unat t) + 1 < 2 ^ 32" if "t \<in> set tids" for t
  proof -
    from that c(3) obtain tm where tm: "map_of (px_dictionary idx1) tm = Some t" by (auto simp: elem_set)
    then have "ts ! unat t \<in> ran ?B" unfolding w(5) [symmetric] by (auto simp: abs_of_def ran_def)
    then have "length (ts ! unat t) + 1 < 2 ^ 32" using abs_few_words [OF few, of accepts tms] by (auto simp: abs_few_def)
    moreover have "dict_ok (px_dictionary idx1)" using w(1) by (simp add: pos_inv_def)
    ultimately show ?thesis using dict_ok_map_of(1) [OF _ tm] st2(2) by simp
  qed
  ultimately obtain idx' L' pss' ts' where p: "pos_add_postings F junk pad d idx2 tids = Some idx'" "pos_inv idx' L' pss' ts'" "px_steady idx'"
      "px_space idx' m" "px_dictionary idx' = px_dictionary idx2" "px_kept idx2 idx'"
      "\<forall>k < px_vocab idx2. ts' ! k = ts ! k @ (if of_nat k \<in> set tids then [d] else [])"
    using add_postings_ok [OF inv2 st2(1) c(4)] by blast
  have "length ts' = px_vocab idx2" using p(2,6) by (simp add: pos_inv_def px_kept_def)
  from add_doc_abs [OF inv2 this p(7), of tms] c(3) st2(2) w(5) have "abs_of (px_dictionary idx') ts' = abs_insert_doc accepts d tms A"
    by (simp add: p(5) abs_insert_doc_def)
  then have "pos_rep idx' (abs_insert_doc accepts d tms A)" using p(2,3) unfolding pos_rep_def by metis
  moreover have "pos_insertDoc F junk pad accepts idx d tms = Some idx'" using c(1) p(1) by (simp add: pos_insertDoc_def Let_def idx2_def)
  ultimately show ?thesis using p(4,6) st2(3,4) w(4)
    by (auto simp: px_kept_def same_params_def PosIndex_totalDocNum_def idx2_def)
qed

text \<open>A run of documents.\<close>

primrec pos_insert_docs ::
  "'f float_ops \<Rightarrow> (nat \<Rightarrow> u32) \<Rightarrow> (nat \<Rightarrow> nat \<Rightarrow> u8) \<Rightarrow> (nat \<Rightarrow> bool) \<Rightarrow> PositionalInvertedIndex \<Rightarrow> (u32 \<times> string list) list \<Rightarrow>
   PositionalInvertedIndex option" where
  "pos_insert_docs F junk pad accepts idx [] = Some idx"
| "pos_insert_docs F junk pad accepts idx (doc # docs) = do {
     idx' \<leftarrow> pos_insertDoc F junk pad accepts idx (fst doc) (snd doc);
     pos_insert_docs F junk pad accepts idx' docs
   }"

definition abs_insert_docs :: "(nat \<Rightarrow> bool) \<Rightarrow> (u32 \<times> string list) list \<Rightarrow> abs_docids \<Rightarrow> abs_docids" where
  "abs_insert_docs accepts docs A = fold (\<lambda>(d, tms). abs_insert_doc accepts d tms) docs A"

lemma abs_few_insert:
  assumes "abs_few (Suc n) A" "Suc n < 2 ^ 32" shows "abs_few n (abs_insert_doc accepts d tms A)"
proof -
  have f: "abs_few (Suc n) (fold (abs_word accepts) tms A)" by (rule abs_few_words [OF assms])
  have "length Q + n < 2 ^ 32" if "Q \<in> ran (abs_insert_doc accepts d tms A)" for Q
  proof -
    from that obtain wrd P where P: "fold (abs_word accepts) tms A wrd = Some P" "Q = (if wrd \<in> set tms then P @ [d] else P)"
      by (auto simp: ran_def abs_insert_doc_def)
    then have "length P + Suc n < 2 ^ 32" using f by (auto simp: abs_few_def ran_def)
    then show ?thesis using P(2) by auto
  qed
  then show ?thesis by (simp add: abs_few_def)
qed

lemma abs_few_le: "abs_few n A \<Longrightarrow> m \<le> n \<Longrightarrow> abs_few m A"
  by (fastforce simp: abs_few_def)

lemma insert_docs_refine:
  assumes "pos_rep idx A" "words_fit W (px_vocab idx) (dom A)" "\<forall>doc \<in> set docs. set (snd doc) \<subseteq> W" "abs_few (length docs) A" "length docs < 2 ^ 32"
    "px_space idx (\<Sum>doc \<leftarrow> docs. length (snd doc))"
  shows "\<exists>idx'. pos_insert_docs F junk pad accepts idx docs = Some idx' \<and> pos_rep idx' (abs_insert_docs accepts docs A) \<and> px_space idx' 0 \<and>
    same_params idx idx' \<and> px_vocab idx' = px_vocab idx \<and> PosIndex_totalDocNum idx' = PosIndex_totalDocNum idx + of_nat (length docs) \<and>
    totalDocLen (px_pointers idx') = totalDocLen (px_pointers idx)"
  using assms
proof (induction docs arbitrary: idx A)
  case Nil
  then show ?case by (simp add: abs_insert_docs_def same_params_def)
next
  case (Cons doc docs)
  have few: "abs_few 1 A" using Cons.prems(4) by (rule abs_few_le) simp
  have sp: "px_space idx (length (snd doc) + (\<Sum>doc \<leftarrow> docs. length (snd doc)))" using Cons.prems(6) by simp
  have tms: "set (snd doc) \<subseteq> W" "\<forall>doc \<in> set docs. set (snd doc) \<subseteq> W" using Cons.prems(3) by simp_all
  from insert_doc_refines [OF Cons.prems(1,2) tms(1) few sp, of F junk pad accepts "fst doc"] obtain idx1 where
    a: "pos_insertDoc F junk pad accepts idx (fst doc) (snd doc) = Some idx1" "pos_rep idx1 (abs_insert_doc accepts (fst doc) (snd doc) A)"
      "px_space idx1 (\<Sum>doc \<leftarrow> docs. length (snd doc))" "same_params idx idx1" "px_vocab idx1 = px_vocab idx"
      "PosIndex_totalDocNum idx1 = PosIndex_totalDocNum idx + 1" "totalDocLen (px_pointers idx1) = totalDocLen (px_pointers idx)" by blast
  have b: "words_fit W (px_vocab idx1) (dom (abs_insert_doc accepts (fst doc) (snd doc) A))" "abs_few (length docs) (abs_insert_doc accepts (fst doc) (snd doc) A)" "length docs < 2 ^ 32"
    using abs_insert_doc_fit [OF Cons.prems(2) tms(1)] Cons.prems(4,5) a(5) abs_few_insert by simp_all
  from Cons.IH [OF a(2) b(1) tms(2) b(2,3) a(3)] obtain idx2 where
    "pos_insert_docs F junk pad accepts idx1 docs = Some idx2" "pos_rep idx2 (abs_insert_docs accepts docs (abs_insert_doc accepts (fst doc) (snd doc) A))"
    "px_space idx2 0" "same_params idx1 idx2" "px_vocab idx2 = px_vocab idx1" "PosIndex_totalDocNum idx2 = PosIndex_totalDocNum idx1 + of_nat (length docs)"
    "totalDocLen (px_pointers idx2) = totalDocLen (px_pointers idx1)" by blast
  with a show ?case by (simp add: abs_insert_docs_def case_prod_beta same_params_def)
qed

section \<open>Flushing\<close>

definition flushable :: "vec \<Rightarrow> bool" where
  "flushable v \<longleftrightarrow> velems v \<noteq> [] \<and> 16 < vcap v"

lemma pos_nextIndex_ok:
  assumes "unat (bm_capacity bm) = length (bm_docid bm)" "length (bm_docid bm) < 2 ^ 32" "k \<le> length (bm_docid bm)"
  shows "pos_nextIndex bm (of_nat k - 1) 16 =
    Some (case find (\<lambda>i. flushable (bm_docid bm ! i)) [k..<length (bm_docid bm)] of None \<Rightarrow> - 1 | Some i \<Rightarrow> of_nat i)"
  using assms(3)
proof (induction "length (bm_docid bm) - k" arbitrary: k)
  case 0
  then have k: "k = length (bm_docid bm)" by simp
  have "(of_nat k :: u32) \<ge> bm_capacity bm" using assms(1,2) unat_of_nat32 [of k] by (simp add: word_le_nat_alt k)
  then show ?case by (subst pos_nextIndex.simps) (simp add: k)
next
  case (Suc n)
  then have k: "k < length (bm_docid bm)" "n = length (bm_docid bm) - Suc k" "Suc k \<le> length (bm_docid bm)" by auto
  have u: "unat (of_nat k :: u32) = k" using k assms(2) by (intro unat_of_nat32) simp
  have "\<not> (of_nat k :: u32) \<ge> bm_capacity bm" using assms(1) k u by (simp add: word_le_nat_alt)
  then show ?case using Suc.hyps(1) [OF k(2,3)] k(1) u
    by (subst pos_nextIndex.simps) (auto simp: upt_conv_Cons rd_def flushable_def Let_def)
qed

lemma flush_loop_ok:
  assumes "pos_inv idx L pss ts" "px_steady idx" "px_space idx 0" "k \<le> px_vocab idx"
  shows "\<exists>idx' L' pss'. pos_flush_loop junk pad idx (of_nat k - 1) = Some idx' \<and> pos_inv idx' L' pss' ts \<and> px_steady idx' \<and> px_space idx' 0 \<and>
    px_dictionary idx' = px_dictionary idx \<and> px_kept idx idx' \<and>
    (\<forall>j < px_vocab idx. px_docs idx' ! j = (if k \<le> j \<and> flushable (px_docs idx ! j) then vclear (px_docs idx ! j) else px_docs idx ! j))"
  using assms
proof (induction "px_vocab idx - k" arbitrary: idx L pss k rule: less_induct)
  case less
  have tb: "px_tables idx" using less.prems(1) by (simp add: pos_inv_def)
  then have c: "unat (bm_capacity (px_buffer idx)) = length (px_docs idx)" "length (px_docs idx) < 2 ^ 32" by (simp_all add: px_tables_def px_vocab_def)
  have ni: "pos_nextIndex (px_buffer idx) (of_nat k - 1) DF_CUTOFF =
      Some (case find (\<lambda>i. flushable (px_docs idx ! i)) [k..<px_vocab idx] of None \<Rightarrow> - 1 | Some i \<Rightarrow> of_nat i)"
    using pos_nextIndex_ok [OF c] less.prems(4) by (simp add: DF_CUTOFF_def px_vocab_def)
  show ?case
  proof (cases "find (\<lambda>i. flushable (px_docs idx ! i)) [k..<px_vocab idx]")
    case None
    then have "\<not> flushable (px_docs idx ! j)" if "k \<le> j" "j < px_vocab idx" for j using that by (auto simp: find_None_iff)
    moreover have "pos_flush_loop junk pad idx (of_nat k - 1) = Some idx" using ni None by (subst pos_flush_loop.simps) (simp add: INVALID_ID_def)
    ultimately show ?thesis using less.prems px_kept_refl by (intro exI [of _ idx] exI [of _ L] exI [of _ pss]) auto
  next
    case (Some i)
    obtain i: "k \<le> i" "i < px_vocab idx" "flushable (px_docs idx ! i)" "\<And>j. k \<le> j \<Longrightarrow> j < i \<Longrightarrow> \<not> flushable (px_docs idx ! j)"
    proof -
      from Some obtain m where m: "m < px_vocab idx - k" "flushable (px_docs idx ! i)" "i = k + m" "\<forall>j < m. \<not> flushable (px_docs idx ! (k + j))"
        by (auto simp: find_Some_iff)
      have "\<not> flushable (px_docs idx ! j)" if "k \<le> j" "j < i" for j using m(3,4) that by (metis le_add_diff_inverse less_diff_conv2 add.commute nat_add_left_cancel_less)
      with m show thesis using that by simp
    qed
    let ?v = "px_docs idx ! i"
    have l: "i < length (px_docs idx)" using i(2) by (simp add: px_vocab_def)
    have cap: "vcap ?v \<in> doc_caps" "velems ?v \<noteq> []"
      using less.prems(1) i(2,3) by (auto simp: pos_inv_def doc_term_def flushable_def split: if_splits)
    have "length (velems ?v) \<le> (\<Sum>v \<leftarrow> px_docs idx. length (velems v))"
      using elem_le_sum_list [of i "map (\<lambda>v. length (velems v)) (px_docs idx)"] l by simp
    then have "4064 * length (velems ?v) \<le> pool_free (px_pool idx)" using less.prems(3) by (simp add: px_space_def)
    from process_term_ok [OF less.prems(1) i(2) cap this, of junk pad] obtain idx1 L1 pss1 where
      p: "pos_process_term junk pad idx (of_nat i) = Some idx1" "pos_inv idx1 L1 pss1 ts" "px_docs idx1 = (px_docs idx)[i := vclear ?v]"
        "px_dictionary idx1 = px_dictionary idx" "px_kept idx idx1" "pool_free (px_pool idx) \<le> pool_free (px_pool idx1) + 4064 * length (velems ?v)" by blast
    have v1: "px_vocab idx1 = px_vocab idx" using p(5) by (simp add: px_kept_def)
    have st: "px_steady idx1" using steady_update [OF less.prems(2) p(3)] doc_caps_full [OF cap(1)] by (simp add: vclear_eq)
    have sp: "px_space idx1 0"
      using less.prems(3) p(6) sum_update [OF l, of "vclear ?v"] by (simp add: px_space_def p(3) vclear_eq)
    have lt: "px_vocab idx1 - Suc i < px_vocab idx - k" "Suc i \<le> px_vocab idx1" using i(1,2) v1 by auto
    from less.hyps [OF lt(1) p(2) st sp lt(2)] obtain idx2 L2 pss2 where
      q: "pos_flush_loop junk pad idx1 (of_nat (Suc i) - 1) = Some idx2" "pos_inv idx2 L2 pss2 ts" "px_steady idx2" "px_space idx2 0"
        "px_dictionary idx2 = px_dictionary idx1" "px_kept idx1 idx2"
        "\<forall>j < px_vocab idx1. px_docs idx2 ! j = (if Suc i \<le> j \<and> flushable (px_docs idx1 ! j) then vclear (px_docs idx1 ! j) else px_docs idx1 ! j)" by blast
    have "(of_nat i :: u32) \<noteq> INVALID_ID" using i(2) tb unat_of_nat32 [of i] by (auto simp: px_tables_def INVALID_ID_def)
    then have run: "pos_flush_loop junk pad idx (of_nat k - 1) = Some idx2"
      using ni Some p(1) q(1) by (subst pos_flush_loop.simps) simp
    have "px_docs idx2 ! j = (if k \<le> j \<and> flushable (px_docs idx ! j) then vclear (px_docs idx ! j) else px_docs idx ! j)" if "j < px_vocab idx" for j
      using q(7) that v1 i p(3) l by (cases j i rule: linorder_cases) (auto simp: Suc_le_eq)
    with run q(2-5) p(4) px_kept_trans [OF p(5) q(6)] show ?thesis
      by (intro exI [of _ idx2] exI [of _ L2] exI [of _ pss2]) simp
  qed
qed

text \<open>After a flush the terms with more than 16 postings have all of them in blocks.\<close>

definition pos_flushed :: "PositionalInvertedIndex \<Rightarrow> bool" where
  "pos_flushed idx \<longleftrightarrow> (\<forall>v \<in> set (px_docs idx). vcap v \<in> doc_caps \<longrightarrow> velems v = [])"

lemma flush_refines:
  assumes "pos_rep idx A" "px_space idx 0"
  shows "\<exists>idx'. pos_flush junk pad idx = Some idx' \<and> pos_rep idx' A \<and> pos_flushed idx' \<and> px_space idx' 0 \<and> px_kept idx idx'"
proof -
  from assms(1) obtain L pss ts where r: "pos_inv idx L pss ts" "px_steady idx" "A = abs_of (px_dictionary idx) ts" by (auto simp: pos_rep_def)
  from flush_loop_ok [OF r(1,2) assms(2), of 0 junk pad] obtain idx' L' pss' where
    f: "pos_flush_loop junk pad idx (of_nat 0 - 1) = Some idx'" "pos_inv idx' L' pss' ts" "px_steady idx'" "px_space idx' 0"
      "px_dictionary idx' = px_dictionary idx" "px_kept idx idx'"
      "\<forall>j < px_vocab idx. px_docs idx' ! j = (if flushable (px_docs idx ! j) then vclear (px_docs idx ! j) else px_docs idx ! j)" by auto
  have "pos_flushed idx'"
  proof -
    have "length (px_docs idx') = px_vocab idx" using f(6) by (simp add: px_kept_def px_vocab_def)
    moreover have "vcap (px_docs idx' ! j) \<in> doc_caps \<longrightarrow> velems (px_docs idx' ! j) = []" if "j < px_vocab idx" for j
      using f(7) that by (auto simp: flushable_def doc_caps_def vclear_eq)
    ultimately show ?thesis by (auto simp: pos_flushed_def in_set_conv_nth)
  qed
  moreover have "(INVALID_ID :: u32) = of_nat 0 - 1" by (simp add: INVALID_ID_def)
  then have "pos_flush junk pad idx = Some idx'" using f(1) by (simp only: pos_flush_def)
  ultimately show ?thesis using f(2-6) r(3) by (auto simp: pos_rep_def)
qed

section \<open>A new index\<close>

lemma pos_rep_new:
  assumes "0 < n" "4064 \<le> unat m" "bloom \<longrightarrow> 0 < bits \<and> bits \<le> 480"
  shows "pos_rep (PosIndex_new junk NON_POSITIONAL m n v r bloom nh bits) Map.empty"
proof -
  let ?idx = "PosIndex_new junk NON_POSITIONAL m n v r bloom nh bits"
  have tb: "px_tables ?idx"
    using u32_less [of v] assms(3)
    by (simp add: px_tables_def px_vocab_def PosIndex_new_def PositionalBufferMaps_new_def Pointers_new_def FixedCounter_new_def scratch_ok_def bloom_ok_def)
  have pool: "pool_roomy (px_pool ?idx) {}"
    using assms store_ok_new [of n m] by (simp add: pool_roomy_def PosIndex_new_def SegmentPool_new_def)
  have t: "doc_term ?idx {} k [] []" if "k < px_vocab ?idx" for k
  proof -
    have "posting_chain (px_pool ?idx) {} [] [] UNDEFINED_POINTER" using pool by (simp add: posting_chain_def pool_roomy_def)
    then have "doc_chain ?idx (px_pool ?idx) {} [] UNDEFINED_POINTER UNDEFINED_POINTER []" by (simp add: doc_chain_def chain_at_def doc_blocks_def)
    then show ?thesis using that
      by (auto simp: doc_term_def chain_docs_def index_order_def px_vocab_def PosIndex_new_def PositionalBufferMaps_new_def Pointers_new_def)
  qed
  let ?n = "px_vocab ?idx"
  have "pos_inv ?idx {} (replicate ?n []) (replicate ?n [])"
    using tb pool t by (simp add: pos_inv_def) (simp add: PosIndex_new_def dict_ok_def)
  moreover have "px_steady ?idx" by (simp add: px_steady_def PosIndex_new_def PositionalBufferMaps_new_def doc_caps_def)
  moreover have "abs_of (px_dictionary ?idx) ts = Map.empty" for ts :: "u32 list list" by (simp add: abs_of_def PosIndex_new_def)
  ultimately show ?thesis unfolding pos_rep_def by metis
qed

lemma pos_index_run:
  assumes "0 < n" "4064 \<le> unat m" "bloom \<longrightarrow> 0 < bits \<and> bits \<le> 480" "card (\<Union>doc \<in> set docs. set (snd doc)) \<le> unat v" "length docs < 2 ^ 32"
    and "4064 * (\<Sum>doc \<leftarrow> docs. length (snd doc)) \<le> (unat n - 1) * (unat m - 4064) + unat m"
  shows "\<exists>idx idx'. pos_insert_docs F junk pad accepts (PosIndex_new junk NON_POSITIONAL m n v r bloom nh bits) docs = Some idx \<and>
    pos_rep idx (abs_insert_docs accepts docs Map.empty) \<and> PosIndex_totalDocNum idx = of_nat (length docs) \<and> totalDocLen (px_pointers idx) = 0 \<and>
    pos_flush junk pad idx = Some idx' \<and> pos_rep idx' (abs_insert_docs accepts docs Map.empty) \<and> pos_flushed idx' \<and>
    same_params (PosIndex_new junk NON_POSITIONAL m n v r bloom nh bits) idx'"
proof -
  let ?idx = "PosIndex_new junk NON_POSITIONAL m n v r bloom nh bits"
  have v: "px_vocab ?idx = unat v" "PosIndex_totalDocNum ?idx = 0" "totalDocLen (px_pointers ?idx) = 0"
    by (simp_all add: px_vocab_def PosIndex_new_def PositionalBufferMaps_new_def PosIndex_totalDocNum_def Pointers_new_def)
  have "px_space ?idx (\<Sum>doc \<leftarrow> docs. length (snd doc))"
    using assms(1,6) by (simp add: px_space_def PosIndex_new_def PositionalBufferMaps_new_def pool_free_def SegmentPool_new_def sum_list_replicate)
  moreover have "abs_few (length docs) Map.empty" by (simp add: abs_few_def)
  moreover have "words_fit (\<Union>doc \<in> set docs. set (snd doc)) (unat v) {}" using assms(4) by (simp add: words_fit_def)
  ultimately obtain idx where i: "pos_insert_docs F junk pad accepts ?idx docs = Some idx" "pos_rep idx (abs_insert_docs accepts docs Map.empty)" "px_space idx 0"
    "PosIndex_totalDocNum idx = of_nat (length docs)" "totalDocLen (px_pointers idx) = 0" "same_params ?idx idx"
    using insert_docs_refine [OF pos_rep_new [OF assms(1-3), of junk v r nh], where W = "\<Union>doc \<in> set docs. set (snd doc)" and docs = docs and F = F and junk = junk and pad = pad and accepts = accepts] assms(5) v by auto
  from flush_refines [OF i(2,3), of junk pad] obtain idx' where f: "pos_flush junk pad idx = Some idx'"
    "pos_rep idx' (abs_insert_docs accepts docs Map.empty)" "pos_flushed idx'" "px_kept idx idx'" by blast
  then have "same_params ?idx idx'" using i(6) by (simp add: px_kept_def same_params_def)
  with i f show ?thesis by blast
qed

text \<open>C4. Inserting documents into a new positional index that keeps no frequencies, and flushing it, refines the abstract index, for both orders of the index and with or without
  Bloom filters of 1 to 480 bits per document. When there are fewer than \<open>2 ^ 32\<close> documents with altogether no more different words than the index has buffers, and the pool
  has at least one array, arrays of at least 4064 words and 4064 words for each word of each document (not counting 4064 words at the end of each array but the last), every insertion succeeds and so does the flush, whatever the float operations do and
  whatever the load-factor test \<open>accepts\<close> of the hash table says: a word it refuses is left out. The index then holds for each word exactly the
  docids of the documents with that word, in the order of their insertion: in the blocks of a chain of its own and behind them in its buffer. After the
  flush every word with more than 16 documents has all its postings in blocks. The documents are counted, but their total length stays 0.\<close>

theorem pos_index_refines_abstract:
  assumes "0 < n" "4064 \<le> unat m" "bloom \<longrightarrow> 0 < bits \<and> bits \<le> 480" "card (\<Union>doc \<in> set docs. set (snd doc)) \<le> unat v" "length docs < 2 ^ 32"
    and "4064 * (\<Sum>doc \<leftarrow> docs. length (snd doc)) \<le> (unat n - 1) * (unat m - 4064) + unat m"
  shows "\<exists>idx idx'. pos_insert_docs F junk pad accepts (PosIndex_new junk NON_POSITIONAL m n v r bloom nh bits) docs = Some idx \<and>
    pos_rep idx (abs_insert_docs accepts docs Map.empty) \<and> PosIndex_totalDocNum idx = of_nat (length docs) \<and> totalDocLen (px_pointers idx) = 0 \<and>
    pos_flush junk pad idx = Some idx' \<and> pos_rep idx' (abs_insert_docs accepts docs Map.empty) \<and> pos_flushed idx'"
  using pos_index_run [OF assms, of F junk pad accepts r nh] by blast

theorem pos_index_refines_abstract_witness:
  "\<exists>idx idx'. pos_insert_docs \<lparr> f_zero = 0, f_half = 0, f_one = 1, f_b = 0, f_of = int, f_add = (+), f_sub = (-), f_mul = (*), f_div = (div), f_log = id,
        f_less = (<), f_eq = (=) \<rparr> (\<lambda>i. of_nat i) (\<lambda>i j. 0) (\<lambda>i. i < 2)
        (PosIndex_new (\<lambda>i. of_nat i) NON_POSITIONAL 40000 3 3 True True 6 16) [(3, [''a'', ''b'', ''a'']), (5, [''b'', ''c''])] = Some idx \<and>
    pos_rep idx (abs_insert_docs (\<lambda>i. i < 2) [(3, [''a'', ''b'', ''a'']), (5, [''b'', ''c''])] Map.empty) \<and>
    PosIndex_totalDocNum idx = of_nat (length [(3 :: u32, [''a'', ''b'', ''a'']), (5, [''b'', ''c''])]) \<and> totalDocLen (px_pointers idx) = 0 \<and>
    pos_flush (\<lambda>i. of_nat i) (\<lambda>i j. 0) idx = Some idx' \<and>
    pos_rep idx' (abs_insert_docs (\<lambda>i. i < 2) [(3, [''a'', ''b'', ''a'']), (5, [''b'', ''c''])] Map.empty) \<and> pos_flushed idx'"
  by (rule pos_index_refines_abstract) (simp_all add: card_insert_if)

end
