(* ===== verification/Zambezi_PosIter.thy ===== *)
theory Zambezi_PosIter
  imports Zambezi_PosInsert
begin

text \<open>
  Reading the blocks of a term of a positional index: \<open>iterateSegment_\<close> runs through the docids of a term in index order. The locale \<open>docid_iterator\<close> is
  its contract, and the queries in \<open>Zambezi_PosQuery\<close> rest on its interpretation \<open>segment_iter\<close>.
\<close>

section \<open>The iterator\<close>

abbreviation before :: "bool \<Rightarrow> u32 \<Rightarrow> u32 \<Rightarrow> bool" where
  "before r pivot d \<equiv> LESS_THAN d pivot r"

lemma index_order_simps [simp]: "index_order r xs = [] \<longleftrightarrow> xs = []" "length (index_order r xs) = length xs" "set (index_order r xs) = set xs"
  by (simp_all add: index_order_def)

lemma block_last: "d \<noteq> [] \<Longrightarrow> (if r then hd d else last d) = last (index_order r d)"
  by (simp add: index_order_def last_rev)

lemma chain_docs_Cons: "chain_docs idx (d # blks) = index_order (px_reverse idx) d @ chain_docs idx blks"
  by (simp add: chain_docs_def)

lemma before_last:
  assumes "postings r ds" "before r pivot (last ds)" "x \<in> set ds" shows "before r pivot x"
proof -
  from assms(3) obtain k where k: "k < length ds" "x = ds ! k" by (auto simp: in_set_conv_nth)
  then have "last ds = ds ! (length ds - 1)" by (intro last_conv_nth) auto
  with k have "x = last ds \<or> LESS_THAN x (last ds) r"
    using postings_nth_less [OF assms(1), of k "length ds - 1"] by (cases "k = length ds - 1") auto
  with assms(2) show ?thesis by (metis LESS_THAN_trans)
qed

lemma not_before_last:
  assumes "ds \<noteq> []" "\<not> before r pivot (last ds)"
  shows "dropWhile (before r pivot) ds \<noteq> []" "dropWhile (before r pivot) (ds @ R) = dropWhile (before r pivot) ds @ R"
proof -
  have "last ds \<in> set ds" using assms(1) by simp
  then show "dropWhile (before r pivot) ds \<noteq> []" using assms(2) by (auto simp: dropWhile_eq_Nil_conv)
  then show "dropWhile (before r pivot) (ds @ R) = dropWhile (before r pivot) ds @ R" by (rule dropWhile_append_hit)
qed

lemma block_size: "idx_block idx d dat \<Longrightarrow> d \<noteq> [] \<and> length d \<le> 128"
  by (auto simp: pos_block_def)

lemma blocks_first:
  assumes "doc_blocks idx bs (d # blks)"
  shows "\<exists>b bs'. bs = b # bs' \<and> idx_block idx d (snd b) \<and> d \<noteq> [] \<and> length d \<le> 128"
  using assms block_size by (auto simp: doc_blocks_def list_all2_Cons2)

text \<open>Skipping blocks by their last docids finds the block with the first docid that is not before the pivot.\<close>

lemma skip_to_block:
  assumes "posting_chain sp L ps bs h" "doc_blocks idx bs blks" "r = px_reverse idx" "postings r (chain_docs idx blks)"
  shows "case find (\<lambda>(q, m, dat). \<not> before r pivot m) (zip ps bs) of
      None \<Rightarrow> dropWhile (before r pivot) (chain_docs idx blks) = []
    | Some (q, b) \<Rightarrow> \<exists>ps2 bs2 d blks2. posting_chain sp L (q # ps2) (b # bs2) q \<and> doc_blocks idx (b # bs2) (d # blks2) \<and>
        \<not> before r pivot (last (index_order r d)) \<and> postings r (chain_docs idx (d # blks2)) \<and>
        dropWhile (before r pivot) (chain_docs idx blks) = dropWhile (before r pivot) (index_order r d) @ chain_docs idx blks2 \<and>
        (\<exists>pre. chain_docs idx blks = pre @ chain_docs idx (d # blks2) \<and> (\<forall>x \<in> set pre. before r pivot x))"
  using assms
proof (induction blks arbitrary: ps bs h)
  case Nil
  then show ?case by (auto simp: doc_blocks_def chain_docs_def)
next
  case (Cons d blks)
  from Cons.prems(2) obtain b bs' where b: "bs = b # bs'" "doc_blocks idx bs' blks" "idx_block idx d (snd b)" "fst b = (if px_reverse idx then hd d else last d)"
    by (auto simp: doc_blocks_def list_all2_Cons2)
  from Cons.prems(1) b(1) obtain p ps' where p: "ps = p # ps'" by (cases ps) (auto simp: posting_chain_def)
  have d: "d \<noteq> []" using b(3) by (auto simp: pos_block_def)
  have m: "fst b = last (index_order r d)" using b(4) block_last [OF d, of r] Cons.prems(3) by simp
  have po: "postings r (index_order r d)" "postings r (chain_docs idx blks)"
    using Cons.prems(3,4) by (simp_all add: chain_docs_Cons postings_def sorted_wrt_append)
  show ?case
  proof (cases "before r pivot (fst b)")
    case True
    have all: "\<forall>x \<in> set (index_order r d). before r pivot x" using before_last [OF po(1)] True m by metis
    then have "dropWhile (before r pivot) (index_order r d) = []" by simp
    from dropWhile_append_miss [OF this] have dw: "dropWhile (before r pivot) (chain_docs idx (d # blks)) = dropWhile (before r pivot) (chain_docs idx blks)"
      using Cons.prems(3) by (simp add: chain_docs_Cons)
    from Cons.prems(1) obtain h' where "posting_chain sp L ps' bs' h'" by (auto simp: p b(1) posting_chain_def split: option.splits)
    note ih = Cons.IH [OF this b(2) Cons.prems(3) po(2)]
    have f: "find (\<lambda>(q, m, dat). \<not> before r pivot m) (zip ps bs) = find (\<lambda>(q, m, dat). \<not> before r pivot m) (zip ps' bs')"
      using True by (simp add: p b(1) case_prod_beta)
    show ?thesis
    proof (cases "find (\<lambda>(q, m, dat). \<not> before r pivot m) (zip ps' bs')")
      case None
      with ih show ?thesis unfolding dw f by simp
    next
      case (Some qb)
      obtain q b2 where qb: "qb = (q, b2)" by (rule prod.exhaust)
      from ih Some qb obtain ps2 bs2 d2 blks2 pre where k: "posting_chain sp L (q # ps2) (b2 # bs2) q" "doc_blocks idx (b2 # bs2) (d2 # blks2)"
        "\<not> before r pivot (last (index_order r d2))" "postings r (chain_docs idx (d2 # blks2))"
        "dropWhile (before r pivot) (chain_docs idx blks) = dropWhile (before r pivot) (index_order r d2) @ chain_docs idx blks2"
        "chain_docs idx blks = pre @ chain_docs idx (d2 # blks2)" "\<forall>x \<in> set pre. before r pivot x" by auto
      have "chain_docs idx (d # blks) = (index_order r d @ pre) @ chain_docs idx (d2 # blks2)" using k(6) Cons.prems(3) by (simp add: chain_docs_Cons)
      moreover have "\<forall>x \<in> set (index_order r d @ pre). before r pivot x" using all k(7) by auto
      ultimately show ?thesis unfolding dw f using Some qb k(1-5) by (simp only: option.case prod.case) blast
    qed
  next
    case False
    have "h = p" using Cons.prems(1) by (auto simp: p posting_chain_def)
    then have f: "find (\<lambda>(q, m, dat). \<not> before r pivot m) (zip ps bs) = Some (h, b)" using False by (simp add: p b(1) case_prod_beta)
    have "dropWhile (before r pivot) (chain_docs idx (d # blks)) = dropWhile (before r pivot) (index_order r d) @ chain_docs idx blks"
      using Cons.prems(3) not_before_last(2) [where ds = "index_order r d"] False m d by (simp add: chain_docs_Cons)
    moreover have "posting_chain sp L (h # ps') (b # bs') h" "doc_blocks idx (b # bs') (d # blks)" "\<not> before r pivot (last (index_order r d))"
      using Cons.prems(1,2) \<open>h = p\<close> p b(1) False m by simp_all
    moreover have "\<exists>pre. chain_docs idx (d # blks) = pre @ chain_docs idx (d # blks) \<and> (\<forall>x \<in> set pre. before r pivot x)" by (rule exI [of _ "[]"]) simp
    ultimately show ?thesis unfolding f using Cons.prems(4) by (simp only: option.case prod.case) blast
  qed
qed
text \<open>The docids \<open>Q\<close> are what the iterator has left: all those of the chain from its pointer on when it has no block yet, else the rest of its block and the
  blocks behind it.\<close>

definition pos_left :: "PositionalInvertedIndex \<Rightarrow> u64 set \<Rightarrow> seg_iter \<Rightarrow> u32 list \<Rightarrow> bool" where
  "pos_left idx L it Q \<longleftrightarrow> length (si_block it) = 128 \<and>
     (\<exists>ps bs blks. posting_chain (px_pool idx) L ps bs (si_pointer it) \<and> doc_blocks idx bs blks \<and> postings (px_reverse idx) (chain_docs idx blks) \<and>
        (if si_count it = 0 then Q = chain_docs idx blks
         else \<exists>d blks'. blks = d # blks' \<and> si_count it = length d \<and> si_index it < length d \<and>
           take (length d) (si_block it) = index_order (px_reverse idx) d \<and> Q = drop (si_index it) (index_order (px_reverse idx) d) @ chain_docs idx blks'))"

lemma pos_leftI:
  assumes "length (si_block it) = 128" "posting_chain (px_pool idx) L ps bs (si_pointer it)" "doc_blocks idx bs (d # blks)"
    "postings (px_reverse idx) (chain_docs idx (d # blks))" "si_count it = length d" "si_index it < length d"
    "take (length d) (si_block it) = index_order (px_reverse idx) d"
  shows "pos_left idx L it (drop (si_index it) (index_order (px_reverse idx) d) @ chain_docs idx blks)"
  using assms unfolding pos_left_def by (auto intro!: exI [of _ ps] exI [of _ bs])

lemma left_current:
  assumes "length (si_block it) = 128" "take (length d) (si_block it) = index_order r d" "si_index it < length d"
  shows "\<exists>Q. drop (si_index it) (index_order r d) = index_order r d ! si_index it # Q" "si_current it = Some (index_order r d ! si_index it)"
proof -
  have "length (take (length d) (si_block it)) = length (index_order r d)" using assms(2) by (rule arg_cong)
  then have "length d \<le> 128" using assms(1) by simp
  then show "si_current it = Some (index_order r d ! si_index it)"
    using assms by (simp add: si_current_def rd_def flip: assms(2))
  show "\<exists>Q. drop (si_index it) (index_order r d) = index_order r d ! si_index it # Q" using assms(3) by (simp add: Cons_nth_drop_Suc [symmetric])
qed

lemma block_last_nth:
  assumes "take (length d) block = index_order r d" "i < length d"
  shows "last (index_order r d) = block ! (length d - 1)"
proof -
  have "length (take (length d) block) = length (index_order r d)" using assms(1) by (rule arg_cong)
  then have "length d \<le> length block" by simp
  then show ?thesis using assms(2) by (subst last_conv_nth) (auto simp flip: assms(1))
qed

text \<open>Searching the block at hand.\<close>

lemma gallop_block:
  assumes l: "length block = 128" "take (length d) block = index_order r d" "length d \<le> 128" and i: "i < length d"
    and p: "postings r (index_order r d)" "\<not> before r pivot (last (index_order r d))"
  shows "\<exists>j. pos_gallopSearch block r (length d) i pivot = Some (True, j) \<and> j < length d \<and>
    dropWhile (before r pivot) (drop i (index_order r d)) = drop j (index_order r d)"
proof -
  have s: "searchable block r (length d)" using l p by (simp add: searchable_def)
  have nth: "block ! k = index_order r d ! k" if "k < length d" for k using that by (simp flip: l(2))
  have "last (index_order r d) = index_order r d ! (length d - 1)" using i by (subst last_conv_nth) auto
  then have "\<not> before r pivot (block ! (length d - 1))" using p(2) nth [of "length d - 1"] i by simp
  from pos_gallopSearch_hit [OF s i this] obtain j where
    j: "pos_gallopSearch block r (length d) i pivot = Some (True, j)" "j < length d" "found block r pivot i j" by blast
  from j(2,3) nth have "first_at (\<lambda>k. \<not> before r pivot (index_order r d ! k)) i j" by (auto simp: first_at_def)
  from first_at_dropWhile(1) [OF this] j(2) have "dropWhile (before r pivot) (drop i (index_order r d)) = drop j (index_order r d)" by simp
  with j show ?thesis by blast
qed

lemma segment_iterate_ok:
  assumes left: "pos_left idx L it Q" and cd: "length cd = 33" and r: "r = px_reverse idx"
  shows "case dropWhile (before r pivot) Q of
      [] \<Rightarrow> \<exists>it'. iterateSegment cd r (px_pool idx) it pivot = Some (False, it')
    | q # Q' \<Rightarrow> \<exists>it'. iterateSegment cd r (px_pool idx) it pivot = Some (True, it') \<and> pos_left idx L it' (q # Q') \<and> si_current it' = Some q"
proof -
  from left obtain ps bs blks where c: "length (si_block it) = 128" "posting_chain (px_pool idx) L ps bs (si_pointer it)" "doc_blocks idx bs blks"
    "postings r (chain_docs idx blks)" and Q: "if si_count it = 0 then Q = chain_docs idx blks
         else \<exists>d blks'. blks = d # blks' \<and> si_count it = length d \<and> si_index it < length d \<and>
           take (length d) (si_block it) = index_order r d \<and> Q = drop (si_index it) (index_order r d) @ chain_docs idx blks'"
    unfolding pos_left_def r by blast
  have so: "store_ok (px_pool idx) L" using c(2) by (simp add: posting_chain_def)
  define past where "past = (si_count it = 0 \<or> before r pivot (si_block it ! (si_count it - 1)))"
  show ?thesis
  proof (cases past)
    case False
    then obtain d blks' where d: "blks = d # blks'" "si_count it = length d" "si_index it < length d" "take (length d) (si_block it) = index_order r d"
      "Q = drop (si_index it) (index_order r d) @ chain_docs idx blks'" using Q by (auto simp: past_def)
    have b: "length d \<le> 128" using blocks_first [of idx bs d blks'] c(3) by (auto simp: d(1))
    have po: "postings r (index_order r d)" using c(4) r by (simp add: d(1) chain_docs_Cons postings_append)
    note last = block_last_nth [OF d(4,3)]
    then have nb: "\<not> before r pivot (last (index_order r d))" using False d(2,3) by (simp add: past_def)
    from gallop_block [OF c(1) d(4) b d(3) po nb] obtain j where
      j: "pos_gallopSearch (si_block it) r (length d) (si_index it) pivot = Some (True, j)" "j < length d"
        "dropWhile (before r pivot) (drop (si_index it) (index_order r d)) = drop j (index_order r d)" by blast
    let ?it = "it \<lparr> si_index := j \<rparr>"
    have "iterateSegment cd r (px_pool idx) it pivot = Some (True, ?it)"
      using False d(2,3) j(1) b c(1) by (simp add: iterateSegment_def past_def rd_def)
    moreover have "pos_left idx L ?it (drop (si_index ?it) (index_order (px_reverse idx) d) @ chain_docs idx blks')"
      by (rule pos_leftI [where ps = ps and bs = bs]) (use c d j(2) r in simp_all)
    moreover have "dropWhile (before r pivot) Q = drop j (index_order r d) @ chain_docs idx blks'"
      using dropWhile_append_hit [of "before r pivot" "drop (si_index it) (index_order r d)"] j(2,3) by (simp add: d(5))
    ultimately show ?thesis using left_current [of ?it d r] c(1) d(4) j(2) r by auto
  next
    case True
    have dq: "dropWhile (before r pivot) Q = dropWhile (before r pivot) (chain_docs idx blks)"
    proof (cases "si_count it = 0")
      case False
      then obtain d blks' where d: "blks = d # blks'" "si_count it = length d" "si_index it < length d" "take (length d) (si_block it) = index_order r d"
        "Q = drop (si_index it) (index_order r d) @ chain_docs idx blks'" using Q by auto
      note block_last_nth [OF d(4,3)]
      moreover have "postings r (index_order r d)" using c(4) r by (simp add: d(1) chain_docs_Cons postings_append)
      ultimately have all: "\<forall>x \<in> set (index_order r d). before r pivot x"
        using before_last [of r "index_order r d" pivot] True False d(2) by (auto simp: past_def)
      have e0: "dropWhile (before r pivot) (index_order r d) = []" using all by simp
      have e: "dropWhile (before r pivot) (drop (si_index it) (index_order r d)) = []" using all by (auto dest: in_set_dropD)
      have "dropWhile (before r pivot) Q = dropWhile (before r pivot) (chain_docs idx blks')" unfolding d(5) by (rule dropWhile_append_miss [OF e])
      also have "\<dots> = dropWhile (before r pivot) (index_order r d @ chain_docs idx blks')" by (rule dropWhile_append_miss [OF e0, symmetric])
      finally show ?thesis using r by (simp add: d(1) chain_docs_Cons)
    qed (use Q in simp)
    note np = nextPointer_pivot_find [OF c(2), where pivot = pivot and r = r]
    note sk = skip_to_block [OF c(2,3) r c(4), where pivot = pivot]
    have len: "si_count it \<le> 128" using Q c(3) by (auto split: if_splits dest!: blocks_first)
    have pa: "(if si_count it = 0 then Some True else do { x \<leftarrow> rd (si_block it) (si_count it - 1); Some (LESS_THAN x pivot r) }) = Some True"
      using True len c(1) by (auto simp: past_def rd_def)
    show ?thesis
    proof (cases "find (\<lambda>(q, m, dat). \<not> before r pivot m) (zip ps bs)")
      case None
      then show ?thesis using np sk dq by (simp add: iterateSegment_def pa del: dropWhile_eq_Nil_conv)
    next
      case (Some qb)
      obtain q b where qb: "qb = (q, b)" by (rule prod.exhaust)
      from sk Some qb obtain ps2 bs2 d blks2 where k: "posting_chain (px_pool idx) L (q # ps2) (b # bs2) q" "doc_blocks idx (b # bs2) (d # blks2)"
        "\<not> before r pivot (last (index_order r d))" "postings r (chain_docs idx (d # blks2))"
        "dropWhile (before r pivot) (chain_docs idx blks) = dropWhile (before r pivot) (index_order r d) @ chain_docs idx blks2" by auto
      have b: "idx_block idx d (snd b)" "d \<noteq> []" "length d \<le> 128" using blocks_first [OF k(2)] by auto
      have po: "postings r (index_order r d)" using k(4) r by (simp add: chain_docs_Cons postings_append)
      have q: "q \<in> L" "q \<noteq> UNDEFINED_POINTER" "block_at (px_pool idx) q = Some (fst b, snd b)" using k(1) by (auto simp: posting_chain_def)
      let ?block = "index_order r d @ replicate (128 - length d) 0"
      have dec: "pos_decompressDocidBlock cd r (px_pool idx) (si_block it) q = Some (?block, length d)"
        using pos_decompress_ok [OF so q(1,3) b(1) cd c(1)] r by simp
      have bl: "length ?block = 128" "take (length d) ?block = index_order r d" "0 < length d" using b(2,3) by simp_all
      from gallop_block [OF bl(1,2) b(3) bl(3) po k(3)] obtain j where
        j: "pos_gallopSearch ?block r (length d) 0 pivot = Some (True, j)" "j < length d"
          "dropWhile (before r pivot) (index_order r d) = drop j (index_order r d)" by auto
      let ?it = "it \<lparr> si_block := ?block, si_count := length d, si_index := j, si_pointer := q \<rparr>"
      have "iterateSegment cd r (px_pool idx) it pivot = Some (True, ?it)"
        using np Some qb q(2) dec j(1) by (simp add: iterateSegment_def pa)
      moreover have "pos_left idx L ?it (drop (si_index ?it) (index_order (px_reverse idx) d) @ chain_docs idx blks2)"
        by (rule pos_leftI [where ps = "q # ps2" and bs = "b # bs2"]) (use k bl j(2) r in simp_all)
      ultimately show ?thesis using left_current [of ?it d r] bl j(2,3) r dq k(5) by auto
    qed
  qed
qed


text \<open>The contract of the iterator: a step to a pivot drops the docids before it and stops at the next one, or reports that there is none.\<close>

locale docid_iterator =
  fixes r :: bool and iterate :: "'it \<Rightarrow> u32 \<Rightarrow> (bool \<times> 'it) option" and current :: "'it \<Rightarrow> u32 option" and left :: "'it \<Rightarrow> u32 list \<Rightarrow> bool"
  assumes step_hit: "left it Q \<Longrightarrow> dropWhile (before r pivot) Q = q # Q' \<Longrightarrow>
      \<exists>it'. iterate it pivot = Some (True, it') \<and> left it' (q # Q') \<and> current it' = Some q"
    and step_miss: "left it Q \<Longrightarrow> dropWhile (before r pivot) Q = [] \<Longrightarrow> \<exists>it'. iterate it pivot = Some (False, it')"
begin

text \<open>A step loses none of the wanted docids when these are not before the pivot.\<close>

lemma reach:
  assumes "left it Q" "\<And>x. x \<in> set Q \<Longrightarrow> K x \<Longrightarrow> \<not> before r e x"
  obtains (hit) it' q Q' where "iterate it e = Some (True, it')" "left it' (q # Q')" "current it' = Some q" "dropWhile (before r e) Q = q # Q'"
      "filter K (q # Q') = filter K Q" "\<not> before r e q"
  | (miss) it' where "iterate it e = Some (False, it')" "filter K Q = []"
proof -
  have k: "filter K (dropWhile (before r e) Q) = filter K Q" using assms(2) by (induction Q) auto
  show thesis
  proof (cases "dropWhile (before r e) Q")
    case Nil
    with k have "filter K Q = []" by (metis filter.simps(1))
    with step_miss [OF assms(1) Nil] show ?thesis using miss by blast
  next
    case (Cons q Q')
    moreover have "\<not> before r e q" using Cons by (auto simp: dropWhile_eq_Cons_conv)
    ultimately show ?thesis using step_hit [OF assms(1) Cons] k hit by metis
  qed
qed

text \<open>A step from a docid before the pivot goes on.\<close>

lemma reach_on:
  assumes "left it (d # Q)" "before r e d" "\<And>x. x \<in> set Q \<Longrightarrow> K x \<Longrightarrow> \<not> before r e x"
  obtains (hit) it' q Q' where "iterate it e = Some (True, it')" "left it' (q # Q')" "current it' = Some q" "dropWhile (before r e) Q = q # Q'"
      "filter K (q # Q') = filter K Q" "\<not> before r e q" "length Q' < length Q"
  | (miss) it' where "iterate it e = Some (False, it')" "filter K Q = []"
proof -
  have k: "\<not> before r e x" if "x \<in> set (d # Q)" "x \<in> set Q \<and> K x" for x using assms(3) that by blast
  show thesis
  proof (rule reach [OF assms(1), of "\<lambda>x. x \<in> set Q \<and> K x" e, OF k], assumption, assumption)
    fix it' assume "iterate it e = Some (False, it')" "filter (\<lambda>x. x \<in> set Q \<and> K x) (d # Q) = []"
    then show thesis by (intro miss) (auto simp only: filter_empty_conv list.set)
  next
    fix it' q Q' assume h: "iterate it e = Some (True, it')" "left it' (q # Q')" "current it' = Some q" "dropWhile (before r e) (d # Q) = q # Q'" "\<not> before r e q"
    then have dr: "dropWhile (before r e) Q = q # Q'" using assms(2) by simp
    moreover have "filter K (dropWhile (before r e) Q) = filter K Q" using assms(3) by (induction Q) auto
    moreover have "length Q' < length Q" using length_dropWhile_le [of "before r e" Q] dr by simp
    ultimately show thesis using hit [OF h(1-3)] h(5) by simp
  qed
qed

end

definition segment_left :: "u32 list list \<Rightarrow> PositionalInvertedIndex \<Rightarrow> u64 set \<Rightarrow> seg_iter \<Rightarrow> u32 list \<Rightarrow> bool" where
  "segment_left cd idx L it Q \<longleftrightarrow> length cd = 33 \<and> pos_left idx L it Q"

interpretation segment_iter: docid_iterator "px_reverse idx" "iterateSegment cd (px_reverse idx) (px_pool idx)" si_current "segment_left cd idx L"
  for cd idx L
proof
  fix it Q q Q' and pivot :: u32
  assume a: "segment_left cd idx L it Q"
  then have "pos_left idx L it Q" "length cd = 33" by (simp_all add: segment_left_def)
  note i = segment_iterate_ok [OF this refl, of pivot]
  show "\<exists>it'. iterateSegment cd (px_reverse idx) (px_pool idx) it pivot = Some (True, it') \<and> segment_left cd idx L it' (q # Q') \<and> si_current it' = Some q"
    if "dropWhile (before (px_reverse idx) pivot) Q = q # Q'"
    using i that a by (simp add: segment_left_def)
  show "\<exists>it'. iterateSegment cd (px_reverse idx) (px_pool idx) it pivot = Some (False, it')" if "dropWhile (before (px_reverse idx) pivot) Q = []"
    using i that by (simp del: dropWhile_eq_Nil_conv)
qed

end
