(* ===== verification/Zambezi_PosQuery.thy ===== *)
theory Zambezi_PosQuery
  imports Zambezi_PosIter
begin

text \<open>
  The queries of a flushed positional index: the conjunctive queries of one word and of two words return what the abstract index says, a query of any number of words
  through the Bloom filters misses no document, and words in at most 16 documents are not found. The functional results hold for both orders of the index, every filter
  that keeps the contract \<open>doc_filter\<close>, and whatever the float operations do.
\<close>

section \<open>The filter of a query\<close>

definition docids :: "bool \<Rightarrow> u32 list \<Rightarrow> bool" where
  "docids r Q \<longleftrightarrow> postings r Q \<and> (\<forall>x \<in> set Q. is_docid x)"

lemma docids_Cons: "docids r (d # Q) \<longleftrightarrow> is_docid d \<and> (\<forall>x \<in> set Q. LESS_THAN d x r) \<and> docids r Q"
  by (auto simp: docids_def postings_def)

lemma docidsD: "docids r Q \<Longrightarrow> x \<in> set Q \<Longrightarrow> is_docid x"
  by (simp add: docids_def)

lemma docids_dropWhile: "docids r Q \<Longrightarrow> docids r (dropWhile P Q)"
  by (induction Q) (auto simp: docids_Cons)

lemma not_docid: "\<not> is_docid INVALID_ID"
  by (simp add: INVALID_ID_def)

context doc_filter
begin

text \<open>The docid \<open>eligible_from\<close> gives is at or behind the one at hand, it is that one iff the filter lets it through, and none that the filter lets through is
  before it.\<close>

lemma eligible_none:
  assumes "docids r (d # Q)" "eligible_from flt r d = INVALID_ID" "x \<in> set (d # Q)" shows "\<not> test flt x"
proof -
  have d: "is_docid d" "d \<noteq> INVALID_ID" using assms(1) not_docid by (auto simp: docids_Cons)
  then have n: "\<not> test flt d" "find_next flt d r = INVALID_ID" using assms(2) by (auto simp: eligible_from_def split: if_splits)
  have "is_docid x \<and> LESS_THAN d x r" if "x \<noteq> d" using assms(1,3) that by (auto simp: docids_Cons dest: docidsD)
  with "next" [OF d(1), of x r] n show ?thesis by (cases "x = d") auto
qed

lemma eligible_some:
  assumes "docids r (d # Q)" "eligible_from flt r d \<noteq> INVALID_ID"
  shows "eligible_from flt r d = d \<longleftrightarrow> test flt d" "\<not> test flt d \<Longrightarrow> LESS_THAN d (eligible_from flt r d) r" "\<not> LESS_THAN (eligible_from flt r d) d r"
    "\<And>x. x \<in> set (d # Q) \<Longrightarrow> test flt x \<Longrightarrow> \<not> before r (eligible_from flt r d) x"
proof -
  have d: "is_docid d" using assms(1) by (simp add: docids_Cons)
  have p: "LESS_THAN d (eligible_from flt r d) r" if "\<not> test flt d" using next_progress [OF d] assms(2) that by (simp add: eligible_from_def)
  then show "eligible_from flt r d = d \<longleftrightarrow> test flt d" "\<not> test flt d \<Longrightarrow> LESS_THAN d (eligible_from flt r d) r" "\<not> LESS_THAN (eligible_from flt r d) d r"
    by (auto simp: eligible_from_def dest: LESS_THAN_asym)
  show "\<not> before r (eligible_from flt r d) x" if x: "x \<in> set (d # Q)" "test flt x" for x
  proof (cases "x = d")
    case False
    then have "is_docid x" "LESS_THAN d x r" using assms(1) x(1) by (auto simp: docids_Cons dest: docidsD)
    with "next" [OF d, of x r] x(2) show ?thesis by (auto simp: eligible_from_def dest: LESS_THAN_asym)
  qed (use x in \<open>simp add: eligible_from_def\<close>)
qed

text \<open>The same for the docid after the one at hand.\<close>

lemma next_none:
  assumes "docids r (d # Q)" "find_next flt d r = INVALID_ID" shows "filter (test flt) Q = []"
proof -
  have "is_docid d" "\<And>x. x \<in> set Q \<Longrightarrow> is_docid x \<and> LESS_THAN d x r" using assms(1) by (auto simp: docids_Cons dest: docidsD)
  with "next" [of d _ r] assms(2) show ?thesis unfolding filter_empty_conv by blast
qed

lemma next_some:
  assumes "docids r (d # Q)" "find_next flt d r \<noteq> INVALID_ID"
  shows "before r (find_next flt d r) d" "\<And>x. x \<in> set Q \<Longrightarrow> test flt x \<Longrightarrow> \<not> before r (find_next flt d r) x"
  using assms next_progress [of d r] "next" [of d _ r] by (auto simp: docids_Cons dest: docidsD)

lemma first_some: "docids r Q \<Longrightarrow> x \<in> set Q \<Longrightarrow> test flt x \<Longrightarrow> \<not> before r (find_first flt r) x"
  using first [of x r] by (auto simp: docids_def)


text \<open>The query for one word. The rest of a round of its loop goes on behind the docid at hand.\<close>

definition single_on :: "u32 list list \<Rightarrow> bool \<Rightarrow> SegmentPool \<Rightarrow> nat \<Rightarrow> seg_iter \<Rightarrow> u32 \<Rightarrow> u32 list \<Rightarrow> u32 list option" where
  "single_on cd r sp len it e res = do {
     (ok, it1) \<leftarrow> iterateSegment cd r sp it e;
     if \<not> ok then Some res
     else do {
       d1 \<leftarrow> si_current it1;
       let e = eligible_from flt r d1;
       if e = INVALID_ID then Some res else svs_single_loop cd r sp flt len it1 e res
     }
   }"

lemma svs_single_loop_unfold:
  assumes "si_current it = Some d" "docids r (d # Q)" "eligible_from flt r d \<noteq> INVALID_ID"
  shows "svs_single_loop cd r sp flt len it (eligible_from flt r d) res =
    (let res1 = (if test flt d then res @ [d] else res)
     in if test flt d \<and> (length res1 = len \<or> find_next flt d r = INVALID_ID) then Some res1 else single_on cd r sp len it (find_next flt d r) res1)"
proof (cases "test flt d")
  case True
  then have "eligible_from flt r d = d" by (simp add: eligible_from_def)
  then show ?thesis using assms(1) True unfolding single_on_def by (simp add: svs_single_loop.simps [of cd r sp flt len it] Let_def cong: if_cong split del: if_split)
next
  case False
  then have "eligible_from flt r d = find_next flt d r" "d \<noteq> eligible_from flt r d"
    using eligible_some(1) [OF assms(2,3)] by (auto simp: eligible_from_def)
  then show ?thesis using assms(1) False by (subst svs_single_loop.simps) (simp add: single_on_def Let_def)
qed

lemma svs_single_loop_ok:
  assumes "segment_left cd idx L it (d # Q)" "si_current it = Some d" "docids (px_reverse idx) (d # Q)"
    "eligible_from flt (px_reverse idx) d \<noteq> INVALID_ID" "len = 0 \<or> length res < len"
  shows "svs_single_loop cd (px_reverse idx) (px_pool idx) flt len it (eligible_from flt (px_reverse idx) d) res =
    Some (up_to len res (filter (test flt) (d # Q)))"
  using assms
proof (induction "length Q" arbitrary: it d Q res rule: less_induct)
  case less
  let ?r = "px_reverse idx"
  have on: "single_on cd ?r (px_pool idx) len it (find_next flt d ?r) res' = Some (up_to len res' (filter (test flt) Q))"
    if n: "find_next flt d ?r \<noteq> INVALID_ID" "len = 0 \<or> length res' < len" for res'
  proof (rule segment_iter.reach_on [OF less.prems(1) next_some [OF less.prems(3) n(1)]], assumption, assumption)
    fix it' assume "iterateSegment cd ?r (px_pool idx) it (find_next flt d ?r) = Some (False, it')" "filter (test flt) Q = []"
    then show ?thesis by (simp add: single_on_def)
  next
    fix it' q Q' assume h: "iterateSegment cd ?r (px_pool idx) it (find_next flt d ?r) = Some (True, it')" "segment_left cd idx L it' (q # Q')"
      "si_current it' = Some q" "dropWhile (before ?r (find_next flt d ?r)) Q = q # Q'" "filter (test flt) (q # Q') = filter (test flt) Q" "length Q' < length Q"
    have dc: "docids ?r (q # Q')" using less.prems(3) docids_dropWhile [of ?r Q] h(4) by (metis docids_Cons)
    show ?thesis
    proof (cases "eligible_from flt ?r q = INVALID_ID")
      case True
      then have "filter (test flt) Q = []" using eligible_none [OF dc True] h(5) by (metis filter_False)
      then show ?thesis using h(1,3) True by (simp add: single_on_def)
    next
      case False
      from less.hyps [OF h(6,2,3) dc False n(2)] show ?thesis using h(1,3,5) False by (simp add: single_on_def)
    qed
  qed
  show ?case
  proof (cases "test flt d")
    case True
    have snoc: "up_to len res (filter (test flt) (d # Q)) = up_to len (res @ [d]) (filter (test flt) Q)" using True up_to_snoc [OF less.prems(5)] by simp
    note u = svs_single_loop_unfold [OF less.prems(2-4), of cd "px_pool idx" len res]
    consider (full) "length (res @ [d]) = len" | (none) "find_next flt d ?r = INVALID_ID" | (go) "len = 0 \<or> length (res @ [d]) < len" "find_next flt d ?r \<noteq> INVALID_ID"
      using less.prems(5) by fastforce
    then show ?thesis
    proof cases
      case full
      then show ?thesis unfolding u snoc using True up_to_full [OF full] by auto
    next
      case none
      then show ?thesis unfolding u snoc using True next_none [OF less.prems(3) none] by simp
    next
      case go
      then show ?thesis unfolding u snoc using True on [OF go(2,1)] by auto
    qed
  next
    case False
    then have "find_next flt d ?r \<noteq> INVALID_ID" using less.prems(4) by (simp add: eligible_from_def)
    from on [OF this less.prems(5)] show ?thesis using False svs_single_loop_unfold [OF less.prems(2-4), of cd "px_pool idx" len res] by simp
  qed
qed

lemma svs_single_ok:
  assumes "segment_left cd idx L (si_start junk h) Q" "docids (px_reverse idx) Q"
  shows "svs_single cd junk (px_reverse idx) (px_pool idx) h flt minDf hits [] = Some (at_most (unat (min minDf hits)) (filter (test flt) Q))"
proof (rule segment_iter.reach [OF assms(1) first_some [OF assms(2)]], assumption, assumption)
  let ?r = "px_reverse idx"
  fix it' assume "iterateSegment cd ?r (px_pool idx) (si_start junk h) (find_first flt ?r) = Some (False, it')" "filter (test flt) Q = []"
  then show ?thesis by (simp add: svs_single_def at_most_def)
next
  let ?r = "px_reverse idx"
  fix it' q Q' assume h: "iterateSegment cd ?r (px_pool idx) (si_start junk h) (find_first flt ?r) = Some (True, it')" "segment_left cd idx L it' (q # Q')"
    "si_current it' = Some q" "dropWhile (before ?r (find_first flt ?r)) Q = q # Q'" "filter (test flt) (q # Q') = filter (test flt) Q"
  have dc: "docids ?r (q # Q')" using docids_dropWhile [OF assms(2)] h(4) by metis
  show ?thesis
  proof (cases "eligible_from flt ?r q = INVALID_ID")
    case True
    then have "filter (test flt) Q = []" using eligible_none [OF dc True] h(5) by (metis filter_False)
    then show ?thesis using h(1,3) True by (simp add: svs_single_def at_most_def)
  next
    case False
    have "unat (min minDf hits) = 0 \<or> length ([] :: u32 list) < unat (min minDf hits)" by (cases "unat (min minDf hits)") auto
    from svs_single_loop_ok [OF h(2,3) dc False this] show ?thesis using h(1,3,5) False by (simp add: svs_single_def up_to_def at_most_def)
  qed
qed


text \<open>The query for two words: the docids of one list that are in the other one as well.\<close>

definition both :: "u32 list \<Rightarrow> u32 list \<Rightarrow> u32 list" where
  "both Q0 Q1 = filter (\<lambda>d. test flt d \<and> d \<in> set Q1) Q0"

lemma both_simps [simp]: "both [] Q1 = []" "both Q0 [] = []"
  by (simp_all add: both_def)

lemma both_cong1:
  assumes "filter (\<lambda>d. test flt d \<and> d \<in> set Q0) Q1' = filter (\<lambda>d. test flt d \<and> d \<in> set Q0) Q1" shows "both Q0 Q1' = both Q0 Q1"
proof -
  have "d \<in> set Q1' \<longleftrightarrow> d \<in> set Q1" if "d \<in> set Q0" "test flt d" for d
    using arg_cong [OF assms, of set] that by auto
  then show ?thesis unfolding both_def by (intro filter_cong) auto
qed

lemma both_untested: "\<forall>x \<in> set Q0. \<not> test flt x \<Longrightarrow> both Q0 Q1 = []" "\<forall>x \<in> set Q1. \<not> test flt x \<Longrightarrow> both Q0 Q1 = []"
  by (auto simp: both_def filter_empty_conv)

lemma both_hit:
  assumes "docids r (d # Q0)" "docids r (d # Q1)" "test flt d" shows "both (d # Q0) (d # Q1) = d # both Q0 Q1"
proof -
  have "\<forall>x \<in> set Q0. x \<noteq> d" using assms(1) by (auto simp: docids_Cons)
  then have "filter (\<lambda>x. test flt x \<and> x \<in> set (d # Q1)) Q0 = both Q0 Q1" unfolding both_def by (intro filter_cong) auto
  then show ?thesis using assms(3) by (simp add: both_def)
qed

lemma both_skip:
  assumes "docids r (d0 # Q0)" "docids r (d1 # Q1)"
  shows "LESS_THAN d0 d1 r \<Longrightarrow> both (d0 # Q0) (d1 # Q1) = both Q0 (d1 # Q1)" "LESS_THAN d1 d0 r \<Longrightarrow> both (d0 # Q0) (d1 # Q1) = both (d0 # Q0) Q1"
proof -
  show "both (d0 # Q0) (d1 # Q1) = both Q0 (d1 # Q1)" if "LESS_THAN d0 d1 r"
    using assms(2) that by (auto simp: both_def docids_Cons dest: LESS_THAN_asym)
  assume l: "LESS_THAN d1 d0 r"
  then have "\<forall>x \<in> set (d0 # Q0). x \<noteq> d1" using assms(1) by (auto simp: docids_Cons dest: LESS_THAN_asym)
  then show "both (d0 # Q0) (d1 # Q1) = both (d0 # Q0) Q1" unfolding both_def by (intro filter_cong) auto
qed

text \<open>A docid at the head of both lists has passed the filter.\<close>

definition pair_at :: "u32 list list \<Rightarrow> PositionalInvertedIndex \<Rightarrow> u64 set \<Rightarrow> seg_iter \<Rightarrow> seg_iter \<Rightarrow> u32 \<Rightarrow> u32 list \<Rightarrow> u32 \<Rightarrow> u32 list \<Rightarrow> bool" where
  "pair_at cd idx L it0 it1 d0 Q0 d1 Q1 \<longleftrightarrow> segment_left cd idx L it0 (d0 # Q0) \<and> segment_left cd idx L it1 (d1 # Q1) \<and>
     si_current it0 = Some d0 \<and> si_current it1 = Some d1 \<and> docids (px_reverse idx) (d0 # Q0) \<and> docids (px_reverse idx) (d1 # Q1) \<and> (d0 = d1 \<longrightarrow> test flt d0)"

text \<open>Going on in one list to where the other one is.\<close>

lemma eligible_meets:
  assumes "docids r (d # Q)" "eligible_from flt r d \<noteq> INVALID_ID" "\<not> before r (eligible_from flt r d) q" "q = d" shows "test flt d"
  using eligible_some(2) [OF assms(1,2)] assms(3,4) by blast

lemma eligible_behind:
  assumes "docids r (d # Q)" "eligible_from flt r d \<noteq> INVALID_ID" "LESS_THAN d' d r" shows "before r (eligible_from flt r d) d'"
  using eligible_some(3) [OF assms(1,2)] assms(3) by (metis LESS_THAN_le_trans)


lemma pair_move:
  assumes "segment_left cd idx L it (a # A)" "docids (px_reverse idx) (a # A)" "docids (px_reverse idx) (b # B)" "LESS_THAN a b (px_reverse idx)"
    and e: "e = eligible_from flt (px_reverse idx) b" "e \<noteq> INVALID_ID"
  obtains (hit) it' q A' where "iterateSegment cd (px_reverse idx) (px_pool idx) it e = Some (True, it')" "segment_left cd idx L it' (q # A')"
      "si_current it' = Some q" "docids (px_reverse idx) (q # A')" "length A' < length A" "q = b \<Longrightarrow> test flt b"
      "both (q # A') (b # B) = both A (b # B)" "both (b # B) (q # A') = both (b # B) A"
  | (miss) it' where "iterateSegment cd (px_reverse idx) (px_pool idx) it e = Some (False, it')" "both A (b # B) = []" "both (b # B) A = []"
proof (rule segment_iter.reach_on [OF assms(1), of e "\<lambda>d. test flt d \<and> d \<in> set (b # B)"])
  let ?r = "px_reverse idx"
  show "before ?r e a" unfolding e(1) by (rule eligible_behind [OF assms(3) e(2) [unfolded e(1)] assms(4)])
  show "\<not> before ?r e x" if "test flt x \<and> x \<in> set (b # B)" for x
    using eligible_some(4) [OF assms(3) e(2) [unfolded e(1)]] that unfolding e(1) by blast
next
  fix it' assume h: "iterateSegment cd (px_reverse idx) (px_pool idx) it e = Some (False, it')" "filter (\<lambda>d. test flt d \<and> d \<in> set (b # B)) A = []"
  moreover have "both (b # B) A = both (b # B) []" by (rule both_cong1) (simp only: h(2) filter.simps)
  ultimately show thesis by (intro miss) (simp_all add: both_def)
next
  let ?r = "px_reverse idx"
  fix it' q A' assume h: "iterateSegment cd ?r (px_pool idx) it e = Some (True, it')" "segment_left cd idx L it' (q # A')" "si_current it' = Some q"
    "dropWhile (before ?r e) A = q # A'" "filter (\<lambda>d. test flt d \<and> d \<in> set (b # B)) (q # A') = filter (\<lambda>d. test flt d \<and> d \<in> set (b # B)) A"
    "\<not> before ?r e q" "length A' < length A"
  have "docids ?r (q # A')" using assms(2) docids_dropWhile [of ?r A] h(4) by (metis docids_Cons)
  moreover have "q = b \<Longrightarrow> test flt b" using eligible_meets [OF assms(3) e(2) [unfolded e(1)]] h(6) e(1) by blast
  moreover have "both (q # A') (b # B) = both A (b # B)" using h(5) by (simp only: both_def)
  moreover have "both (b # B) (q # A') = both (b # B) A" by (rule both_cong1 [OF h(5)])
  ultimately show thesis using hit h(1-3,7) by blast
qed

text \<open>The loop is right on all pairs of lists with fewer than \<open>n\<close> docids left.\<close>

definition pairs_shorter :: "u32 list list \<Rightarrow> PositionalInvertedIndex \<Rightarrow> u64 set \<Rightarrow> nat \<Rightarrow> bool" where
  "pairs_shorter cd idx L n \<longleftrightarrow> (\<forall>it0 it1 d0 Q0 d1 Q1 res. length Q0 + length Q1 < n \<longrightarrow> pair_at cd idx L it0 it1 d0 Q0 d1 Q1 \<longrightarrow>
     svs_pair_loop cd (px_reverse idx) (px_pool idx) flt it0 it1 res = Some (res @ both (d0 # Q0) (d1 # Q1)))"

lemma pairs_shorterD:
  assumes "pairs_shorter cd idx L n" "length Q0 + length Q1 < n" "pair_at cd idx L it0 it1 d0 Q0 d1 Q1"
  shows "svs_pair_loop cd (px_reverse idx) (px_pool idx) flt it0 it1 res = Some (res @ both (d0 # Q0) (d1 # Q1))"
  using assms by (simp add: pairs_shorter_def)

lemma pair_atD:
  assumes "pair_at cd idx L it0 it1 d0 Q0 d1 Q1"
  shows "segment_left cd idx L it0 (d0 # Q0)" "segment_left cd idx L it1 (d1 # Q1)" "si_current it0 = Some d0" "si_current it1 = Some d1"
    "docids (px_reverse idx) (d0 # Q0)" "docids (px_reverse idx) (d1 # Q1)" "d0 = d1 \<Longrightarrow> test flt d0"
  using assms by (simp_all add: pair_at_def)

lemma svs_pair_equal:
  assumes "pair_at cd idx L it0 it1 d0 Q0 d1 Q1" "d0 = d1" "pairs_shorter cd idx L (length Q0 + length Q1)"
  shows "svs_pair_loop cd (px_reverse idx) (px_pool idx) flt it0 it1 res = Some (res @ both (d0 # Q0) (d1 # Q1))"
proof -
  let ?r = "px_reverse idx"
  note at = pair_atD [OF assms(1)]
  note u = svs_pair_loop.simps [of cd ?r "px_pool idx" flt it0 it1 res]
  have eq: "d1 = d0" using assms(2) by simp
  let ?e = "find_next flt d0 ?r"
  have b: "both (d0 # Q0) (d1 # Q1) = d0 # both Q0 Q1" using both_hit at(5-7) eq by simp
  show ?thesis
  proof (cases "?e = INVALID_ID")
    case True
    then have "both Q0 Q1 = []" using next_none [OF at(5)] by (intro both_untested) (auto simp: filter_empty_conv)
    then show ?thesis unfolding u b using at(3,4) eq True by (simp add: Let_def)
  next
    case False
    note ns = next_some [OF at(5) False]
    show ?thesis
    proof (rule segment_iter.reach_on [OF at(1) ns(1), of "\<lambda>d. test flt d \<and> d \<in> set Q1"])
      show "\<not> before ?r ?e x" if "x \<in> set Q0" "test flt x \<and> x \<in> set Q1" for x using ns(2) that by blast
    next
      fix it' assume "iterateSegment cd ?r (px_pool idx) it0 ?e = Some (False, it')" "filter (\<lambda>d. test flt d \<and> d \<in> set Q1) Q0 = []"
      then show ?thesis unfolding u b using at(3,4) eq False by (simp add: Let_def both_def)
    next
      fix it0' q Q0' assume h: "iterateSegment cd ?r (px_pool idx) it0 ?e = Some (True, it0')" "segment_left cd idx L it0' (q # Q0')" "si_current it0' = Some q"
        "dropWhile (before ?r ?e) Q0 = q # Q0'" "filter (\<lambda>d. test flt d \<and> d \<in> set Q1) (q # Q0') = filter (\<lambda>d. test flt d \<and> d \<in> set Q1) Q0"
        "length Q0' < length Q0"
      have bb: "both (q # Q0') Q1 = both Q0 Q1" using h(5) by (simp only: both_def)
      have dc: "docids ?r (q # Q0')" using at(5) docids_dropWhile [of ?r Q0] h(4) by (metis docids_Cons)
      have "q \<in> set Q0" using h(4) by (metis list.set_intros(1) set_dropWhileD)
      then have lt: "LESS_THAN d1 q ?r" using at(5) eq by (simp add: docids_Cons)
      show ?thesis
      proof (cases "eligible_from flt ?r q = INVALID_ID")
        case True
        then have "both Q0 Q1 = []" using both_untested(1) [of "q # Q0'" Q1] eligible_none [OF dc True] bb by simp
        then show ?thesis unfolding u b using at(3,4) eq False True h(1,3) by (simp add: Let_def)
      next
        case e: False
        show ?thesis
        proof (rule pair_move [OF at(2,6) dc lt refl e])
          fix it' assume "iterateSegment cd ?r (px_pool idx) it1 (eligible_from flt ?r q) = Some (False, it')" "both (q # Q0') Q1 = []"
          then show ?thesis unfolding u b using at(3,4) eq False e h(1,3) bb by (simp add: Let_def)
        next
          fix it1' q1 Q1' assume m: "iterateSegment cd ?r (px_pool idx) it1 (eligible_from flt ?r q) = Some (True, it1')" "segment_left cd idx L it1' (q1 # Q1')"
            "si_current it1' = Some q1" "docids ?r (q1 # Q1')" "length Q1' < length Q1" "q1 = q \<Longrightarrow> test flt q" "both (q # Q0') (q1 # Q1') = both (q # Q0') Q1"
          have "pair_at cd idx L it0' it1' q Q0' q1 Q1'" using h(2,3) m(2-4,6) dc by (auto simp: pair_at_def)
          from pairs_shorterD [OF assms(3) _ this, of "res @ [d0]"] show ?thesis unfolding u b using at(3,4) eq False e h(1,3,6) m(1,5,7) bb by (simp add: Let_def)
        qed
      qed
    qed
  qed
qed

lemma svs_pair_less:
  assumes "pair_at cd idx L it0 it1 d0 Q0 d1 Q1" "LESS_THAN d0 d1 (px_reverse idx)" "pairs_shorter cd idx L (length Q0 + length Q1)"
  shows "svs_pair_loop cd (px_reverse idx) (px_pool idx) flt it0 it1 res = Some (res @ both (d0 # Q0) (d1 # Q1))"
proof -
  let ?r = "px_reverse idx"
  note at = pair_atD [OF assms(1)]
  note u = svs_pair_loop.simps [of cd ?r "px_pool idx" flt it0 it1 res]
  note lt = assms(2)
  have ne: "d1 \<noteq> d0" using lt by auto
  note b = both_skip(1) [OF at(5,6) lt]
  show ?thesis
  proof (cases "eligible_from flt ?r d1 = INVALID_ID")
    case True
    then have "both Q0 (d1 # Q1) = []" using eligible_none [OF at(6) True] by (intro both_untested(2)) simp
    then show ?thesis unfolding u b using at(3,4) lt ne True by (simp add: Let_def)
  next
    case e: False
    show ?thesis
    proof (rule pair_move [OF at(1,5,6) lt refl e])
      fix it' assume "iterateSegment cd ?r (px_pool idx) it0 (eligible_from flt ?r d1) = Some (False, it')" "both Q0 (d1 # Q1) = []"
      then show ?thesis unfolding u b using at(3,4) lt ne e by (simp add: Let_def)
    next
      fix it0' q Q0' assume m: "iterateSegment cd ?r (px_pool idx) it0 (eligible_from flt ?r d1) = Some (True, it0')" "segment_left cd idx L it0' (q # Q0')"
        "si_current it0' = Some q" "docids ?r (q # Q0')" "length Q0' < length Q0" "q = d1 \<Longrightarrow> test flt d1" "both (q # Q0') (d1 # Q1) = both Q0 (d1 # Q1)"
      have "pair_at cd idx L it0' it1 q Q0' d1 Q1" using at(2,4,6) m(2-4,6) by (auto simp: pair_at_def)
      from pairs_shorterD [OF assms(3) _ this, of res] show ?thesis unfolding u b using at(3,4) lt ne e m(1,5,7) by (simp add: Let_def)
    qed
  qed
qed

lemma svs_pair_greater:
  assumes "pair_at cd idx L it0 it1 d0 Q0 d1 Q1" "LESS_THAN d1 d0 (px_reverse idx)" "pairs_shorter cd idx L (length Q0 + length Q1)"
  shows "svs_pair_loop cd (px_reverse idx) (px_pool idx) flt it0 it1 res = Some (res @ both (d0 # Q0) (d1 # Q1))"
proof -
  let ?r = "px_reverse idx"
  note at = pair_atD [OF assms(1)]
  note u = svs_pair_loop.simps [of cd ?r "px_pool idx" flt it0 it1 res]
  note gt = assms(2)
  have ne: "d1 \<noteq> d0" "\<not> LESS_THAN d0 d1 ?r" using gt by (auto dest: LESS_THAN_asym)
  note b = both_skip(2) [OF at(5,6) gt]
  show ?thesis
  proof (cases "eligible_from flt ?r d0 = INVALID_ID")
    case True
    then have "both (d0 # Q0) Q1 = []" using eligible_none [OF at(5) True] by (intro both_untested(1)) simp
    then show ?thesis unfolding u b using at(3,4) ne True by (simp add: Let_def)
  next
    case e: False
    show ?thesis
    proof (rule pair_move [OF at(2,6,5) gt refl e])
      fix it' assume "iterateSegment cd ?r (px_pool idx) it1 (eligible_from flt ?r d0) = Some (False, it')" "both (d0 # Q0) Q1 = []"
      then show ?thesis unfolding u b using at(3,4) ne e by (simp add: Let_def)
    next
      fix it1' q Q1' assume m: "iterateSegment cd ?r (px_pool idx) it1 (eligible_from flt ?r d0) = Some (True, it1')" "segment_left cd idx L it1' (q # Q1')"
        "si_current it1' = Some q" "docids ?r (q # Q1')" "length Q1' < length Q1" "q = d0 \<Longrightarrow> test flt d0" "both (d0 # Q0) (q # Q1') = both (d0 # Q0) Q1"
      have "pair_at cd idx L it0 it1' d0 Q0 q Q1'" using at(1,3,5) m(2-4,6) by (auto simp: pair_at_def)
      from pairs_shorterD [OF assms(3) _ this, of res] show ?thesis unfolding u b using at(3,4) ne e m(1,5,7) by (simp add: Let_def)
    qed
  qed
qed

lemma svs_pair_loop_ok:
  assumes "pair_at cd idx L it0 it1 d0 Q0 d1 Q1"
  shows "svs_pair_loop cd (px_reverse idx) (px_pool idx) flt it0 it1 res = Some (res @ both (d0 # Q0) (d1 # Q1))"
  using assms
proof (induction "length Q0 + length Q1" arbitrary: it0 it1 d0 Q0 d1 Q1 res rule: less_induct)
  case less
  then have "pairs_shorter cd idx L (length Q0 + length Q1)" by (simp add: pairs_shorter_def)
  with less.prems LESS_THAN_linear [of d0 d1 "px_reverse idx"] show ?case by (metis svs_pair_equal svs_pair_less svs_pair_greater)
qed

lemma svs_pair_ok:
  assumes "segment_left cd idx L (si_start junk h0) Q0" "segment_left cd idx L (si_start junk h1) Q1" "docids (px_reverse idx) Q0" "docids (px_reverse idx) Q1"
  shows "svs_pair cd junk (px_reverse idx) (px_pool idx) flt h0 h1 [] = Some (both Q0 Q1)"
proof (rule segment_iter.reach [OF assms(1), of "\<lambda>d. test flt d \<and> d \<in> set Q1" "find_first flt (px_reverse idx)"])
  show "\<not> before (px_reverse idx) (find_first flt (px_reverse idx)) x" if "x \<in> set Q0" "test flt x \<and> x \<in> set Q1" for x
    using first_some [OF assms(3) that(1)] that(2) by blast
next
  let ?r = "px_reverse idx"
  fix it' assume "iterateSegment cd ?r (px_pool idx) (si_start junk h0) (find_first flt ?r) = Some (False, it')" "filter (\<lambda>d. test flt d \<and> d \<in> set Q1) Q0 = []"
  then show ?thesis by (simp add: svs_pair_def both_def)
next
  let ?r = "px_reverse idx"
  fix it0 d0 Q0' assume h: "iterateSegment cd ?r (px_pool idx) (si_start junk h0) (find_first flt ?r) = Some (True, it0)" "segment_left cd idx L it0 (d0 # Q0')"
    "si_current it0 = Some d0" "dropWhile (before ?r (find_first flt ?r)) Q0 = d0 # Q0'"
    "filter (\<lambda>d. test flt d \<and> d \<in> set Q1) (d0 # Q0') = filter (\<lambda>d. test flt d \<and> d \<in> set Q1) Q0"
  have bb: "both (d0 # Q0') Q1 = both Q0 Q1" using h(5) by (simp only: both_def)
  have dc: "docids ?r (d0 # Q0')" using docids_dropWhile [OF assms(3)] h(4) by metis
  show ?thesis
  proof (cases "eligible_from flt ?r d0 = INVALID_ID")
    case True
    then have "both Q0 Q1 = []" using both_untested(1) [of "d0 # Q0'" Q1] eligible_none [OF dc True] bb by simp
    then show ?thesis using h(1,3) True by (simp add: svs_pair_def)
  next
    case e: False
    show ?thesis
    proof (rule segment_iter.reach [OF assms(2), of "\<lambda>d. test flt d \<and> d \<in> set (d0 # Q0')" "eligible_from flt ?r d0"])
      show "\<not> before ?r (eligible_from flt ?r d0) x" if "test flt x \<and> x \<in> set (d0 # Q0')" for x using eligible_some(4) [OF dc e] that by blast
    next
      fix it' assume m: "iterateSegment cd ?r (px_pool idx) (si_start junk h1) (eligible_from flt ?r d0) = Some (False, it')"
        "filter (\<lambda>d. test flt d \<and> d \<in> set (d0 # Q0')) Q1 = []"
      have "both (d0 # Q0') Q1 = both (d0 # Q0') []" by (rule both_cong1 [symmetric]) (simp only: m(2) filter.simps)
      then show ?thesis using h(1,3) e m(1) bb by (simp add: svs_pair_def)
    next
      fix it1 d1 Q1' assume m: "iterateSegment cd ?r (px_pool idx) (si_start junk h1) (eligible_from flt ?r d0) = Some (True, it1)" "segment_left cd idx L it1 (d1 # Q1')"
        "si_current it1 = Some d1" "dropWhile (before ?r (eligible_from flt ?r d0)) Q1 = d1 # Q1'"
        "filter (\<lambda>d. test flt d \<and> d \<in> set (d0 # Q0')) (d1 # Q1') = filter (\<lambda>d. test flt d \<and> d \<in> set (d0 # Q0')) Q1" "\<not> before ?r (eligible_from flt ?r d0) d1"
      have "docids ?r (d1 # Q1')" using docids_dropWhile [OF assms(4)] m(4) by metis
      moreover have "d0 = d1 \<Longrightarrow> test flt d0" using eligible_meets [OF dc e m(6)] by blast
      ultimately have "pair_at cd idx L it0 it1 d0 Q0' d1 Q1'" using h(2,3) m(2,3) dc by (simp add: pair_at_def)
      from svs_pair_loop_ok [OF this, of "[]"] show ?thesis using h(1,3) e m(1) bb both_cong1 [OF m(5)] by (simp add: svs_pair_def)
    qed
  qed
qed

end

section \<open>Asking the Bloom filters\<close>

lemma contains_loop_eq:
  assumes "nextPointer_loop sp d r s off = Some y" shows "contains_loop sp d r s off = Some y"
proof (rule nextPointer_loop.raw_induct [OF _ assms, where P = "\<lambda>sp d r s off y. contains_loop sp d r s off = Some y"])
  fix f sp and d :: u32 and r s off y
  assume "\<And>sp d r s off y. f sp d r s off = Some y \<Longrightarrow> contains_loop sp d r s off = Some y"
    "do {
       m \<leftarrow> cell sp (unat s, unat (off + 3));
       if LESS_THAN m d r then do {
         s' \<leftarrow> cell sp (unat s, unat (off + 1));
         if s' = UNDEFINED_SEGMENT then Some UNDEFINED_POINTER else do {
           off' \<leftarrow> cell sp (unat s, unat (off + 2));
           f sp d r s' off'
         }
       } else Some (ENCODE_POINTER s off)
     } = Some y"
  then show "contains_loop sp d r s off = Some y" by (subst contains_loop.simps) (auto split: bind_splits if_splits)
qed

text \<open>From the pointer \<open>p\<close> on there are all docids of the list \<open>P\<close> that are not before \<open>d\<close>.\<close>

definition docs_ahead :: "PositionalInvertedIndex \<Rightarrow> u64 set \<Rightarrow> u32 \<Rightarrow> u64 \<Rightarrow> u32 list \<Rightarrow> bool" where
  "docs_ahead idx L d p P \<longleftrightarrow> (\<exists>ps bs blks old. posting_chain (px_pool idx) L ps bs p \<and> doc_blocks idx bs blks \<and>
     postings (px_reverse idx) (chain_docs idx blks) \<and> P = old @ chain_docs idx blks \<and> (\<forall>x \<in> set old. before (px_reverse idx) d x))"

lemma docs_ahead_mono: "docs_ahead idx L d p P \<Longrightarrow> \<not> LESS_THAN d' d (px_reverse idx) \<Longrightarrow> docs_ahead idx L d' p P"
  unfolding docs_ahead_def by (metis LESS_THAN_le_trans)


lemma contains_block:
  assumes p: "store_ok sp L" "p \<in> L" "block_at sp p = Some (m, dat)" and b: "pos_block r True nh docs dat"
  obtains arr bo n c where "pool_array_of sp p = Some arr" "rd arr (unat (DECODE_OFFSET p + 3)) = Some m" "rd arr (unat (DECODE_OFFSET p + 4)) = Some bo"
    "rd arr (unat (DECODE_OFFSET p + bo)) = Some n" "unat (DECODE_OFFSET p + bo + 1) \<le> length arr"
    "bloom_contains (drop (unat (DECODE_OFFSET p + bo + 1)) arr) n nh d = Some c" "d \<in> set docs \<Longrightarrow> c"
proof -
  from b obtain ws flt where d: "dat = [of_nat (length ws + 7), of_nat (length docs), of_nat (length ws)] @ ws @ of_nat (length flt) # flt"
    "bloom_block nh flt docs" by (auto simp: pos_block_def)
  from block_at_array [OF p] obtain arr rest where a: "pool_array_of sp p = Some arr" "drop (off_of p + 4) arr = dat @ rest"
    "off_of p + 4 + length dat \<le> length arr" "length arr < 2 ^ 32" .
  have at: "unat (DECODE_OFFSET p + of_nat k) = off_of p + k" if "k \<le> 4 + length dat" for k
    using that a(3,4) pos_block_length [OF b] unat_of_nat32 [of k] by (subst unat_add32) auto
  have nth: "rd arr (off_of p + 4 + k) = Some (dat ! k)" if "k < length dat" for k
  proof -
    have "arr ! (off_of p + 4 + k) = (dat @ rest) ! k" using a(3) that by (simp flip: a(2))
    then show ?thesis using that a(3) by (simp add: rd_def nth_append)
  qed
  let ?bo = "of_nat (length ws + 7) :: u32"
  have o: "unat (DECODE_OFFSET p + 4) = off_of p + 4" "unat (DECODE_OFFSET p + ?bo) = off_of p + 4 + (length ws + 3)"
    "unat (DECODE_OFFSET p + ?bo + 1) = off_of p + 4 + (length ws + 4)"
    using at [of 4] at [of "length ws + 7"] at [of "length ws + 8"] by (simp_all add: d(1) add_ac)
  have r3: "rd arr (unat (DECODE_OFFSET p + 3)) = Some m"
    using block_at_max [OF _ _ p(3)] p(1,2) a(1) by (auto simp: store_ok_def cell_def pool_array_of_def split: bind_splits)
  have dn: "dat ! (length ws + 3) = of_nat (length flt)" "length dat = length ws + 4 + length flt" by (simp_all add: d(1) nth_append)
  define pre where "pre = [of_nat (length ws + 7), of_nat (length docs), of_nat (length ws)] @ ws @ [of_nat (length flt) :: u32]"
  have "dat @ rest = pre @ flt @ rest" "length pre = length ws + 4" by (simp_all add: d(1) pre_def)
  then have "drop (length ws + 4) (drop (off_of p + 4) arr) = flt @ rest" unfolding a(2) by (metis append_eq_conv_conj)
  then have dr: "drop (off_of p + 4 + (length ws + 4)) arr = flt @ rest" by (simp add: add_ac)
  from d(2) obtain c where c: "bloom_contains (flt @ rest) (of_nat (length flt)) nh d = Some c" "d \<in> set docs \<longrightarrow> c" unfolding bloom_block_def by blast
  show thesis
    by (rule that [of arr ?bo "of_nat (length flt)" c])
      (use a(1,3) r3 nth [of 0] nth [of "length ws + 3"] dn c in \<open>simp_all only: o dr, simp_all add: d(1)\<close>)
qed

text \<open>A filter that is asked for a docid of the list says yes, and nothing that lies ahead is lost.\<close>

lemma containsDocid_ok:
  assumes a: "docs_ahead idx L d p P" and en: "px_bloomEnabled idx"
  shows "\<exists>b p'. containsDocid (px_reverse idx) (px_pool idx) (px_nbHash idx) d p = Some (b, p') \<and> docs_ahead idx L d p' P \<and> (d \<in> set P \<longrightarrow> b)"
proof -
  let ?r = "px_reverse idx" and ?sp = "px_pool idx"
  from a obtain ps bs blks old where c: "posting_chain ?sp L ps bs p" "doc_blocks idx bs blks" "postings ?r (chain_docs idx blks)"
    "P = old @ chain_docs idx blks" "\<forall>x \<in> set old. before ?r d x" unfolding docs_ahead_def by blast
  have so: "store_ok ?sp L" using c(1) by (simp add: posting_chain_def)
  show ?thesis
  proof (cases "p = UNDEFINED_POINTER")
    case True
    then have "ps = []" using c(1) by (cases ps) (auto simp: posting_chain_def)
    then have "blks = []" using c(1,2) by (auto simp: posting_chain_def doc_blocks_def)
    then have "d \<notin> set P" using c(4,5) by (auto simp: chain_docs_def)
    moreover have "containsDocid ?r ?sp (px_nbHash idx) d p = Some (False, p)" using True by (simp add: containsDocid_def)
    ultimately show ?thesis using a by blast
  next
    case False
    note np = nextPointer_pivot_find [OF c(1), where pivot = d and r = ?r]
    have cl: "contains_loop ?sp d ?r (DECODE_SEGMENT p) (DECODE_OFFSET p) =
        Some (case find (\<lambda>(q, m, dat). \<not> before ?r d m) (zip ps bs) of None \<Rightarrow> UNDEFINED_POINTER | Some (q, _) \<Rightarrow> q)"
      by (rule contains_loop_eq) (use np False in \<open>simp add: nextPointer_pivot_def\<close>)
    note sk = skip_to_block [OF c(1,2) refl c(3), where pivot = d]
    show ?thesis
    proof (cases "find (\<lambda>(q, m, dat). \<not> before ?r d m) (zip ps bs)")
      case None
      then have "\<forall>x \<in> set (chain_docs idx blks). before ?r d x" using sk by simp
      then have all: "\<forall>x \<in> set P. before ?r d x" using c(4,5) by auto
      have "docs_ahead idx L d UNDEFINED_POINTER P"
        unfolding docs_ahead_def by (intro exI [of _ "[]"] exI [of _ P]) (use so all in \<open>simp add: posting_chain_def doc_blocks_def chain_docs_def postings_def\<close>)
      moreover have "d \<notin> set P" using all by auto
      moreover have "containsDocid ?r ?sp (px_nbHash idx) d p = Some (False, UNDEFINED_POINTER)" using cl None False by (simp add: containsDocid_def)
      ultimately show ?thesis by blast
    next
      case (Some qb)
      obtain q m dat where qb: "qb = (q, m, dat)" by (metis prod.exhaust)
      from sk Some qb obtain ps2 bs2 e blks2 pre where k: "posting_chain ?sp L (q # ps2) ((m, dat) # bs2) q" "doc_blocks idx ((m, dat) # bs2) (e # blks2)"
        "\<not> before ?r d (last (index_order ?r e))" "postings ?r (chain_docs idx (e # blks2))"
        "chain_docs idx blks = pre @ chain_docs idx (e # blks2)" "\<forall>x \<in> set pre. before ?r d x" by auto
      have q: "q \<in> L" "q \<noteq> UNDEFINED_POINTER" "block_at ?sp q = Some (m, dat)" using k(1) by (auto simp: posting_chain_def)
      have b: "pos_block ?r True (px_nbHash idx) e dat" "e \<noteq> []" using blocks_first [OF k(2)] en by auto
      have "d \<in> set e" if "d \<in> set P"
      proof -
        have "d \<in> set (chain_docs idx (e # blks2))" using that c(4,5) k(5,6) by auto
        moreover have "last (index_order ?r e) \<in> set (index_order ?r e)" using b(2) by (intro last_in_set) simp
        ultimately show ?thesis using k(3,4) by (auto simp: chain_docs_Cons postings_append)
      qed
      with contains_block [OF so q(1,3) b(1), of d] obtain arr bo n x where x: "pool_array_of ?sp q = Some arr" "rd arr (unat (DECODE_OFFSET q + 3)) = Some m"
        "rd arr (unat (DECODE_OFFSET q + 4)) = Some bo" "rd arr (unat (DECODE_OFFSET q + bo)) = Some n" "unat (DECODE_OFFSET q + bo + 1) \<le> length arr"
        "bloom_contains (drop (unat (DECODE_OFFSET q + bo + 1)) arr) n (px_nbHash idx) d = Some x" "d \<in> set P \<longrightarrow> x" by metis
      have cd: "containsDocid ?r ?sp (px_nbHash idx) d p = Some (if m = d then (True, p) else (x, q))"
        using cl Some qb False q(2) x(1-6) by (simp add: containsDocid_def)
      have "docs_ahead idx L d q P"
        unfolding docs_ahead_def
        by (rule exI [of _ "q # ps2"], rule exI [of _ "(m, dat) # bs2"], rule exI [of _ "e # blks2"], rule exI [of _ "old @ pre"]) (use k c(4,5) in auto)
      then show ?thesis using cd a x(7) by auto
    qed
  qed
qed


text \<open>A choice that keeps every docid all of the lists \<open>Ps\<close> have.\<close>

definition misses_none :: "(u32 \<Rightarrow> bool) \<Rightarrow> u32 list list \<Rightarrow> bool" where
  "misses_none maybe Ps \<longleftrightarrow> (\<forall>x. (\<forall>P \<in> set Ps. x \<in> set P) \<longrightarrow> maybe x)"

lemma misses_none_upd: "misses_none maybe Ps \<Longrightarrow> (\<forall>P \<in> set Ps. d \<in> set P) \<longrightarrow> b \<Longrightarrow> misses_none (maybe(d := b)) Ps"
  by (simp add: misses_none_def)

lemma contains_all_ok:
  assumes "list_all2 (docs_ahead idx L d) ps Ps" "ps \<noteq> [] \<Longrightarrow> px_bloomEnabled idx"
  shows "\<exists>b ps'. contains_all (px_reverse idx) (px_pool idx) (px_nbHash idx) d ps = Some (b, ps') \<and> list_all2 (docs_ahead idx L d) ps' Ps \<and>
    ((\<forall>P \<in> set Ps. d \<in> set P) \<longrightarrow> b)"
  using assms
proof (induction ps Ps rule: list_all2_induct)
  case (Cons p ps P Ps)
  from containsDocid_ok [OF Cons.hyps(1)] Cons.prems obtain b p' where
    p: "containsDocid (px_reverse idx) (px_pool idx) (px_nbHash idx) d p = Some (b, p')" "docs_ahead idx L d p' P" "d \<in> set P \<longrightarrow> b" by auto
  from Cons.IH Cons.prems obtain b2 ps' where
    ih: "contains_all (px_reverse idx) (px_pool idx) (px_nbHash idx) d ps = Some (b2, ps')" "list_all2 (docs_ahead idx L d) ps' Ps"
      "(\<forall>P \<in> set Ps. d \<in> set P) \<longrightarrow> b2" by auto
  show ?case using p ih Cons.hyps(2) by (cases b) auto
next
  case Nil
  show ?case by (rule exI [of _ True]) simp
qed

context doc_filter
begin

text \<open>The query through the Bloom filters of the longer lists.\<close>

definition and_on :: "u32 list list \<Rightarrow> bool \<Rightarrow> SegmentPool \<Rightarrow> u32 \<Rightarrow> u32 \<Rightarrow> seg_iter \<Rightarrow> u32 \<Rightarrow> u64 list \<Rightarrow> u32 list \<Rightarrow> u32 list option" where
  "and_on cd r sp nbHash hits it e ps res = do {
     (ok, it1) \<leftarrow> iterateSegment cd r sp it e;
     if \<not> ok then Some res
     else do {
       d1 \<leftarrow> si_current it1;
       let e = eligible_from flt r d1;
       if e = INVALID_ID then Some res else bwandAnd_loop cd r sp nbHash flt hits it1 e ps res
     }
   }"

lemma bwandAnd_loop_unfold:
  assumes "si_current it = Some d" "docids r (d # Q)" "eligible_from flt r d \<noteq> INVALID_ID"
  shows "bwandAnd_loop cd r sp nbHash flt hits it (eligible_from flt r d) ps res =
    (if test flt d then do {
       (found, ps') \<leftarrow> contains_all r sp nbHash d ps;
       let res' = (if found then res @ [d] else res);
       if found \<and> length res' \<ge> unat hits \<or> find_next flt d r = INVALID_ID then Some res' else and_on cd r sp nbHash hits it (find_next flt d r) ps' res'
     } else and_on cd r sp nbHash hits it (find_next flt d r) ps res)"
proof (cases "test flt d")
  case True
  then have "eligible_from flt r d = d" by (simp add: eligible_from_def)
  then show ?thesis using assms(1) True unfolding and_on_def
    by (cases "contains_all r sp nbHash d ps")
      (simp_all add: bwandAnd_loop.simps [of cd r sp nbHash flt hits it] Let_def case_prod_beta cong: if_cong split del: if_split)
next
  case False
  then have "eligible_from flt r d = find_next flt d r" "d \<noteq> eligible_from flt r d"
    using eligible_some(1) [OF assms(2,3)] by (auto simp: eligible_from_def)
  then show ?thesis using assms(1) False unfolding and_on_def by (subst bwandAnd_loop.simps) (simp add: Let_def)
qed

lemma bwandAnd_loop_ok:
  assumes "segment_left cd idx L it (d # Q)" "si_current it = Some d" "docids (px_reverse idx) (d # Q)"
    "eligible_from flt (px_reverse idx) d \<noteq> INVALID_ID" "length res < unat hits" "list_all2 (docs_ahead idx L d) ps Ps" "ps \<noteq> [] \<Longrightarrow> px_bloomEnabled idx"
  shows "\<exists>maybe. bwandAnd_loop cd (px_reverse idx) (px_pool idx) (px_nbHash idx) flt hits it (eligible_from flt (px_reverse idx) d) ps res =
    Some (up_to (unat hits) res (filter maybe (filter (test flt) (d # Q)))) \<and> misses_none maybe Ps"
  using assms
proof (induction "length Q" arbitrary: it d Q res ps rule: less_induct)
  case less
  let ?r = "px_reverse idx" and ?nh = "px_nbHash idx"
  have on: "\<exists>maybe. and_on cd ?r (px_pool idx) ?nh hits it (find_next flt d ?r) ps' res' =
      Some (up_to (unat hits) res' (filter maybe (filter (test flt) Q))) \<and> misses_none maybe Ps"
    if n: "find_next flt d ?r \<noteq> INVALID_ID" "length res' < unat hits" "list_all2 (docs_ahead idx L d) ps' Ps" for res' ps'
  proof (rule segment_iter.reach_on [OF less.prems(1) next_some [OF less.prems(3) n(1)]], assumption, assumption)
    fix it' assume "iterateSegment cd ?r (px_pool idx) it (find_next flt d ?r) = Some (False, it')" "filter (test flt) Q = []"
    then show ?thesis by (intro exI [of _ "\<lambda>_. True"]) (simp add: and_on_def misses_none_def)
  next
    fix it' q Q' assume h: "iterateSegment cd ?r (px_pool idx) it (find_next flt d ?r) = Some (True, it')" "segment_left cd idx L it' (q # Q')"
      "si_current it' = Some q" "dropWhile (before ?r (find_next flt d ?r)) Q = q # Q'" "filter (test flt) (q # Q') = filter (test flt) Q" "length Q' < length Q"
    have dc: "docids ?r (q # Q')" using less.prems(3) docids_dropWhile [of ?r Q] h(4) by (metis docids_Cons)
    have "q \<in> set Q" using h(4) by (metis list.set_intros(1) set_dropWhileD)
    then have "\<not> LESS_THAN q d ?r" using less.prems(3) by (auto simp: docids_Cons dest: LESS_THAN_asym)
    with n(3) have ah: "list_all2 (docs_ahead idx L q) ps' Ps" by (auto intro: docs_ahead_mono elim!: list_all2_mono)
    have ne: "ps' \<noteq> [] \<Longrightarrow> px_bloomEnabled idx" using n(3) less.prems(6,7) by (cases Ps) auto
    show ?thesis
    proof (cases "eligible_from flt ?r q = INVALID_ID")
      case True
      then have "filter (test flt) Q = []" using eligible_none [OF dc True] h(5) by (metis filter_False)
      then show ?thesis using h(1,3) True by (intro exI [of _ "\<lambda>_. True"]) (simp add: and_on_def misses_none_def)
    next
      case False
      from less.hyps [OF h(6,2,3) dc False n(2) ah ne] show ?thesis using h(1,3,5) False by (simp add: and_on_def)
    qed
  qed
  note u = bwandAnd_loop_unfold [OF less.prems(2-4), of cd "px_pool idx" ?nh hits ps res]
  show ?case
  proof (cases "test flt d")
    case True
    from contains_all_ok [OF less.prems(6,7)] obtain b ps' where
      c: "contains_all ?r (px_pool idx) ?nh d ps = Some (b, ps')" "list_all2 (docs_ahead idx L d) ps' Ps" "(\<forall>P \<in> set Ps. d \<in> set P) \<longrightarrow> b" by blast
    define res' where "res' = (if b then res @ [d] else res)"
    have upd: "up_to (unat hits) res (filter (maybe(d := b)) (filter (test flt) (d # Q))) = up_to (unat hits) res' (filter maybe (filter (test flt) Q))" for maybe
    proof -
      have "filter (maybe(d := b)) (filter (test flt) Q) = filter maybe (filter (test flt) Q)"
        using less.prems(3) by (intro filter_cong) (auto simp: docids_Cons)
      moreover have "filter (maybe(d := b)) (d # filter (test flt) Q) = (if b then [d] else []) @ filter (maybe(d := b)) (filter (test flt) Q)" by simp
      ultimately have f: "filter (maybe(d := b)) (filter (test flt) (d # Q)) = (if b then [d] else []) @ filter maybe (filter (test flt) Q)"
        using True by (simp only: filter.simps if_True)
      show ?thesis unfolding f using less.prems(5) by (simp add: res'_def up_to_snoc)
    qed
    have "\<exists>maybe. bwandAnd_loop cd ?r (px_pool idx) ?nh flt hits it (eligible_from flt ?r d) ps res =
        Some (up_to (unat hits) res' (filter maybe (filter (test flt) Q))) \<and> misses_none maybe Ps"
    proof (cases "b \<and> length res' \<ge> unat hits \<or> find_next flt d ?r = INVALID_ID")
      case stop: True
      have "up_to (unat hits) res' (filter (\<lambda>_. True) (filter (test flt) Q)) = res'"
        using stop next_none [OF less.prems(3)] less.prems(5) by (auto simp: up_to_def res'_def)
      then show ?thesis unfolding u using True c(1) stop
        by (intro exI [of _ "\<lambda>_. True"]) (simp add: res'_def [symmetric] misses_none_def Let_def del: filter_True)
    next
      case False
      then have "length res' < unat hits" using less.prems(5) by (auto simp: res'_def)
      moreover have "bwandAnd_loop cd ?r (px_pool idx) ?nh flt hits it (eligible_from flt ?r d) ps res =
          and_on cd ?r (px_pool idx) ?nh hits it (find_next flt d ?r) ps' res'"
        unfolding u res'_def using True c(1) False by (auto simp: res'_def Let_def)
      ultimately show ?thesis using on [OF _ _ c(2)] False by simp
    qed
    then show ?thesis using upd misses_none_upd [OF _ c(3)] by metis
  next
    case False
    then have "find_next flt d ?r \<noteq> INVALID_ID" using less.prems(4) by (simp add: eligible_from_def)
    from on [OF this less.prems(5,6)] show ?thesis unfolding u using False by simp
  qed
qed

lemma bwandAnd_ok:
  assumes "segment_left cd idx L (si_start junk h) Q" "docids (px_reverse idx) Q" "0 < hits" "\<And>d. list_all2 (docs_ahead idx L d) hs Ps"
    "hs \<noteq> [] \<Longrightarrow> px_bloomEnabled idx"
  shows "\<exists>maybe. bwandAnd cd junk (px_reverse idx) (px_pool idx) (px_nbHash idx) (h # hs) flt hits [] =
    Some (take (unat hits) (filter maybe (filter (test flt) Q))) \<and> misses_none maybe Ps"
proof (rule segment_iter.reach [OF assms(1) first_some [OF assms(2)]], assumption, assumption)
  let ?r = "px_reverse idx"
  fix it' assume "iterateSegment cd ?r (px_pool idx) (si_start junk h) (find_first flt ?r) = Some (False, it')" "filter (test flt) Q = []"
  then show ?thesis by (intro exI [of _ "\<lambda>_. True"]) (simp add: bwandAnd_def rd_def misses_none_def)
next
  let ?r = "px_reverse idx"
  fix it' q Q' assume h: "iterateSegment cd ?r (px_pool idx) (si_start junk h) (find_first flt ?r) = Some (True, it')" "segment_left cd idx L it' (q # Q')"
    "si_current it' = Some q" "dropWhile (before ?r (find_first flt ?r)) Q = q # Q'" "filter (test flt) (q # Q') = filter (test flt) Q"
  have dc: "docids ?r (q # Q')" using docids_dropWhile [OF assms(2)] h(4) by metis
  show ?thesis
  proof (cases "eligible_from flt ?r q = INVALID_ID")
    case True
    then have "filter (test flt) Q = []" using eligible_none [OF dc True] h(5) by (metis filter_False)
    then show ?thesis using h(1,3) True by (intro exI [of _ "\<lambda>_. True"]) (simp add: bwandAnd_def rd_def misses_none_def)
  next
    case False
    have "length ([] :: u32 list) < unat hits" "unat hits \<noteq> 0" using assms(3) by (simp_all add: word_less_nat_alt)
    with bwandAnd_loop_ok [OF h(2,3) dc False this(1) assms(4,5)] show ?thesis using h(1,3,5) False by (simp add: bwandAnd_def rd_def up_to_def)
  qed
qed

end


section \<open>Queries on a flushed index\<close>

definition pos_entry :: "PositionalInvertedIndex \<Rightarrow> string \<Rightarrow> u32 \<times> u32 \<times> u64" where
  "pos_entry idx wrd = (let tid = getTermId (px_dictionary idx) wrd in (FixedCounter_get (df (px_pointers idx)) tid, tid, FixedCounter_get (headPointers (px_pointers idx)) tid))"

abbreviation entry_head :: "PositionalInvertedIndex \<Rightarrow> string \<Rightarrow> u64" where
  "entry_head idx wrd \<equiv> snd (snd (pos_entry idx wrd))"

text \<open>A word with more than 16 documents, whose docids are in ascending order, is found, and all its docids are in its chain.\<close>

definition indexed :: "abs_docids \<Rightarrow> string \<Rightarrow> bool" where
  "indexed A wrd \<longleftrightarrow> (\<exists>P. A wrd = Some P \<and> 16 < length P \<and> docids False P)"

lemma docids_length:
  assumes "docids False P" shows "length P < 2 ^ 32"
proof -
  have "distinct P" "unat ` set P \<subseteq> {..<2 ^ 31}" using assms postings_distinct [of False P] by (auto simp: docids_def word_less_nat_alt)
  moreover have "inj_on unat (set P)" by (rule inj_onI) (simp add: word_unat_eq_iff)
  ultimately have "length P = card (unat ` set P)" by (simp add: card_image distinct_card)
  also have "\<dots> \<le> card {..<2 ^ 31 :: nat}" using \<open>unat ` set P \<subseteq> {..<2 ^ 31}\<close> by (intro card_mono) auto
  finally show ?thesis by simp
qed

lemma docids_order: "docids False P \<Longrightarrow> docids r (index_order r P)"
  by (cases r) (auto simp: docids_def index_order_def postings_rev)

lemma chain_ready:
  assumes "posting_chain (px_pool idx) L ps bs h" "doc_blocks idx bs blks" "docids (px_reverse idx) (chain_docs idx blks)" "length cd = 33"
  shows "segment_left cd idx L (si_start junk h) (chain_docs idx blks)" "docs_ahead idx L d h (chain_docs idx blks)"
proof -
  show "segment_left cd idx L (si_start junk h) (chain_docs idx blks)"
    using assms by (auto simp: segment_left_def pos_left_def si_start_def BLOCK_SIZE_def docids_def)
  show "docs_ahead idx L d h (chain_docs idx blks)" unfolding docs_ahead_def
    by (rule exI [of _ ps], rule exI [of _ bs], rule exI [of _ blks], rule exI [of _ "[]"]) (use assms in \<open>simp add: docids_def\<close>)
qed

lemma indexed_word:
  assumes inv: "pos_inv idx L pss ts" "pos_flushed idx" and cd: "length cd = 33" and a: "abs_of (px_dictionary idx) ts wrd = Some P" and P: "16 < length P" "docids False P"
  shows "pos_lookup idx (wrd # ws) = pos_entry idx wrd # pos_lookup idx ws" "fst (pos_entry idx wrd) = of_nat (length P)"
    "segment_left cd idx L (si_start junk (entry_head idx wrd)) (index_order (px_reverse idx) P)" "docids (px_reverse idx) (index_order (px_reverse idx) P)"
    "docs_ahead idx L d (entry_head idx wrd) (index_order (px_reverse idx) P)"
proof -
  from a obtain tid where m: "map_of (px_dictionary idx) wrd = Some tid" "P = ts ! unat tid" by (auto simp: abs_of_def)
  have d: "dict_ok (px_dictionary idx)" using inv(1) by (simp add: pos_inv_def)
  let ?k = "unat tid"
  have k: "?k < length (px_dictionary idx)" "length (px_dictionary idx) < 2 ^ 32" using dict_ok_map_of(1) [OF d m(1)] d by (simp_all add: dict_ok_def)
  have kv: "?k < px_vocab idx" using k(1) inv(1) by (simp add: pos_inv_def)
  have tm: "doc_term idx L ?k (pss ! ?k) P" using inv(1) kv m(2) by (auto simp: pos_inv_def)
  have cap: "vcap (px_docs idx ! ?k) \<in> doc_caps" using tm P(1) by (simp add: doc_term_def)
  have e: "velems (px_docs idx ! ?k) = []" using inv(2) cap kv by (auto simp: pos_flushed_def px_vocab_def)
  from tm e obtain bs blks where c: "posting_chain (px_pool idx) L (pss ! ?k) bs (px_head idx ?k)" "doc_blocks idx bs blks"
    "chain_docs idx blks = index_order (px_reverse idx) P" by (auto simp: doc_term_def doc_chain_def chain_at_def)
  have dc: "docids (px_reverse idx) (index_order (px_reverse idx) P)" by (rule docids_order [OF P(2)])
  have en: "pos_entry idx wrd = (px_df idx ?k, tid, px_head idx ?k)" using m(1) by (simp add: pos_entry_def getTermId_def Let_def)
  show "fst (pos_entry idx wrd) = of_nat (length P)" using tm en by (simp add: doc_term_def)
  show "segment_left cd idx L (si_start junk (entry_head idx wrd)) (index_order (px_reverse idx) P)" "docs_ahead idx L d (entry_head idx wrd) (index_order (px_reverse idx) P)"
    using chain_ready(1) [OF c(1,2) _ cd] chain_ready(2) [OF c(1,2) _ cd] c(3) dc en by simp_all
  show "docids (px_reverse idx) (index_order (px_reverse idx) P)" by (rule dc)
  have "tid \<noteq> INVALID_ID" using k unat_INVALID_ID by auto
  moreover have "px_head idx ?k \<noteq> UNDEFINED_POINTER"
  proof
    assume u: "px_head idx ?k = UNDEFINED_POINTER"
    then have "pss ! ?k = []" using c(1) by (cases "pss ! ?k") (auto simp: posting_chain_def)
    then have "chain_docs idx blks = []" using c(1,2) by (auto simp: posting_chain_def doc_blocks_def chain_docs_def)
    then show False using c(3) P(1) by simp
  qed
  ultimately show "pos_lookup idx (wrd # ws) = pos_entry idx wrd # pos_lookup idx ws" using m(1) en by (simp add: pos_entry_def getTermId_def Let_def)
qed

lemma lookup_indexed:
  assumes "pos_inv idx L pss ts" "pos_flushed idx" "\<forall>w \<in> set ws. indexed (abs_of (px_dictionary idx) ts) w"
  shows "pos_lookup idx ws = map (pos_entry idx) ws"
  using assms(3)
proof (induction ws)
  case (Cons w ws)
  then obtain P where "abs_of (px_dictionary idx) ts w = Some P" "16 < length P" "docids False P" by (auto simp: indexed_def)
  from indexed_word(1) [OF assms(1,2) _ this, of "replicate 33 []"] Cons show ?case by simp
qed simp

text \<open>A word in at most 16 documents has no block, so a query drops it as it drops an unknown word.\<close>

lemma lookup_rare:
  assumes "pos_inv idx L pss ts" "abs_of (px_dictionary idx) ts wrd = Some P" "length P \<le> 16"
  shows "pos_lookup idx (wrd # ws) = pos_lookup idx ws"
proof -
  from assms(2) obtain tid where m: "map_of (px_dictionary idx) wrd = Some tid" "P = ts ! unat tid" by (auto simp: abs_of_def)
  let ?k = "unat tid"
  have "dict_ok (px_dictionary idx)" using assms(1) by (simp add: pos_inv_def)
  from dict_ok_map_of(1) [OF this m(1)] have "?k < px_vocab idx" using assms(1) by (simp add: pos_inv_def)
  then have "doc_term idx L ?k (pss ! ?k) P" using assms(1) m(2) by (auto simp: pos_inv_def)
  then have "px_head idx ?k = UNDEFINED_POINTER" using assms(3) by (auto simp: doc_term_def doc_chain_def chain_at_def posting_chain_def)
  then show ?thesis using m(1) by (simp add: getTermId_def Let_def)
qed

lemma lookup_unknown: "abs_of (px_dictionary idx) ts wrd = None \<Longrightarrow> pos_lookup idx (wrd # ws) = pos_lookup idx ws"
  by (simp add: abs_of_def getTermId_def Let_def)

lemma lookup_kept:
  assumes "pos_inv idx L pss ts" "pos_flushed idx" "\<forall>w \<in> set ws. \<forall>P. abs_of (px_dictionary idx) ts w = Some P \<longrightarrow> docids False P"
  shows "pos_lookup idx ws = pos_lookup idx (filter (indexed (abs_of (px_dictionary idx) ts)) ws)"
  using assms(3)
proof (induction ws)
  case (Cons w ws)
  let ?A = "abs_of (px_dictionary idx) ts"
  have IH: "pos_lookup idx ws = pos_lookup idx (filter (indexed ?A) ws)" using Cons by simp
  consider "?A w = None" | P where "?A w = Some P" "length P \<le> 16" | P where "?A w = Some P" "16 < length P" by (cases "?A w") (auto simp: not_less [symmetric])
  then show ?case
  proof cases
    case 1
    then have "\<not> indexed ?A w" by (simp add: indexed_def)
    then show ?thesis using lookup_unknown [OF 1, of ws] IH by (simp del: pos_lookup.simps)
  next
    case 2
    then have "\<not> indexed ?A w" by (simp add: indexed_def)
    then show ?thesis using lookup_rare [OF assms(1) 2, of ws] IH by (simp del: pos_lookup.simps)
  next
    case 3
    then have d: "docids False P" using Cons.prems by simp
    have look: "pos_lookup idx (w # us) = pos_entry idx w # pos_lookup idx us" for us
      by (rule indexed_word(1) [OF assms(1,2) _ 3 d, of "replicate 33 []"]) simp
    have "indexed ?A w" using 3 d by (simp add: indexed_def)
    then show ?thesis using IH look by (simp del: pos_lookup.simps)
  qed
qed simp

lemma docids_unique: "docids r xs \<Longrightarrow> docids r ys \<Longrightarrow> set xs = set ys \<Longrightarrow> xs = ys"
proof (induction xs arbitrary: ys)
  case (Cons x xs)
  then obtain y ys' where y: "ys = y # ys'" by (cases ys) auto
  have x: "x = y"
  proof (rule ccontr)
    assume "x \<noteq> y"
    then have "x \<in> set ys'" "y \<in> set xs" using Cons.prems(3) y by auto
    then show False using Cons.prems(1,2) y by (auto simp: docids_Cons dest: LESS_THAN_asym)
  qed
  have "x \<notin> set xs" "x \<notin> set ys'" using Cons.prems(1,2) y x by (auto simp: docids_Cons)
  then have "set xs = set ys'" using Cons.prems(3) y x by auto
  with Cons.IH [of ys'] Cons.prems(1,2) y x show ?case by (simp add: docids_Cons)
qed simp

lemma docids_filter: "docids r Q \<Longrightarrow> docids r (filter P Q)"
  by (auto simp: docids_def postings_def sorted_wrt_filter)

lemma both_commute:
  assumes "docids r Q0" "docids r Q1"
  shows "filter (\<lambda>d. K d \<and> d \<in> set Q1) Q0 = filter (\<lambda>d. K d \<and> d \<in> set Q0) Q1"
  by (rule docids_unique [OF docids_filter docids_filter]) (use assms in auto)

lemma svs_two:
  assumes "svs_pair cd junk r sp flt h0 h1 [] = Some ds"
  shows "pos_intersectSvS cd junk r sp [h0, h1] flt minDf hits [] = Some (take (unat hits) ds)"
  using assms by (simp add: pos_intersectSvS_def)

text \<open>An index with Bloom filters, from the latest docid down, with two words in more than 16 documents.\<close>

lemma abs_insert_known:
  assumes "set tms \<subseteq> dom A"
  shows "abs_insert_docs accepts (map (\<lambda>d. (d, tms)) ds) A = (\<lambda>wrd. map_option (\<lambda>P. if wrd \<in> set tms then P @ ds else P) (A wrd))"
  using assms
proof (induction ds arbitrary: A)
  case Nil
  then show ?case by (auto simp: abs_insert_docs_def fun_eq_iff map_option_case split: option.split)
next
  case (Cons d ds)
  have "fold (abs_word accepts) us A = A" if "set us \<subseteq> dom A" for us using that by (induction us) (auto simp: abs_word_def)
  then have one: "abs_insert_doc accepts d tms A = (\<lambda>v. map_option (\<lambda>P. if v \<in> set tms then P @ [d] else P) (A v))"
    using Cons.prems by (simp add: abs_insert_doc_def)
  then have "set tms \<subseteq> dom (abs_insert_doc accepts d tms A)" using Cons.prems by auto
  moreover have "abs_insert_docs accepts (map (\<lambda>d. (d, tms)) (d # ds)) A =
      abs_insert_docs accepts (map (\<lambda>d. (d, tms)) ds) (abs_insert_doc accepts d tms A)" by (simp add: abs_insert_docs_def)
  ultimately show ?case unfolding Cons.IH [of "abs_insert_doc accepts d tms A"] using Cons.IH [of "abs_insert_doc accepts d tms A"] one
    by (auto simp: fun_eq_iff option.map_comp comp_def intro!: option.map_cong0)
qed

definition int_ops :: "int float_ops" where
  "int_ops = \<lparr> f_zero = 0, f_half = 0, f_one = 1, f_b = 0, f_of = int, f_add = (+), f_sub = (-), f_mul = (*), f_div = (div), f_log = id, f_less = (<), f_eq = (=) \<rparr>"

definition sample_docs :: "(u32 \<times> string list) list" where
  "sample_docs = [(1, [''b'', ''a'']), (2, [''b''])] @ map (\<lambda>d. (d, [''a'', ''b''])) [3, 4, 5, 6, 7, 8, 9, 10, 11, 12, 13, 14, 15, 16, 17, 18, 19]"

definition sample_words :: "abs_docids" where
  "sample_words = abs_insert_docs (\<lambda>i. i < 2) sample_docs Map.empty"

lemma sample_words_at:
  "sample_words ''a'' = Some [1, 3, 4, 5, 6, 7, 8, 9, 10, 11, 12, 13, 14, 15, 16, 17, 18, 19]"
  "sample_words ''b'' = Some [1, 2, 3, 4, 5, 6, 7, 8, 9, 10, 11, 12, 13, 14, 15, 16, 17, 18, 19]"
proof -
  let ?ds = "[3, 4, 5, 6, 7, 8, 9, 10, 11, 12, 13, 14, 15, 16, 17, 18, 19]"
  define A where "A = abs_insert_doc (\<lambda>i. i < 2) 1 [''b'', ''a''] Map.empty"
  have a: "A ''a'' = Some [1]" "A ''b'' = Some [1]" by (simp_all add: A_def abs_insert_doc_def abs_word_def)
  then have d1: "set [''b''] \<subseteq> dom A" by auto
  have d2: "set [''a'', ''b''] \<subseteq> dom (\<lambda>wrd. map_option (\<lambda>P. if wrd \<in> set [''b''] then P @ [2] else P) (A wrd))" using a by auto
  have "sample_words = abs_insert_docs (\<lambda>i. i < 2) (map (\<lambda>d. (d, [''a'', ''b''])) ?ds) (abs_insert_docs (\<lambda>i. i < 2) (map (\<lambda>d. (d, [''b''])) [2]) A)"
    by (simp add: sample_words_def sample_docs_def abs_insert_docs_def A_def)
  then have s: "sample_words = (\<lambda>wrd. map_option (\<lambda>P. if wrd \<in> set [''a'', ''b''] then P @ ?ds else P)
      (map_option (\<lambda>P. if wrd \<in> set [''b''] then P @ [2] else P) (A wrd)))"
    by (simp only: abs_insert_known [OF d1] abs_insert_known [OF d2])
  show "sample_words ''a'' = Some [1, 3, 4, 5, 6, 7, 8, 9, 10, 11, 12, 13, 14, 15, 16, 17, 18, 19]"
    "sample_words ''b'' = Some [1, 2, 3, 4, 5, 6, 7, 8, 9, 10, 11, 12, 13, 14, 15, 16, 17, 18, 19]"
    unfolding s by (simp_all add: a)
qed

lemma sample_index_flushed:
  obtains idx idx' where "pos_insert_docs int_ops (\<lambda>i. of_nat i) (\<lambda>i j. 0) (\<lambda>i. i < 2)
      (PosIndex_new (\<lambda>i. of_nat i) NON_POSITIONAL 40000 5 2 True True 6 16) sample_docs = Some idx"
    "pos_flush (\<lambda>i. of_nat i) (\<lambda>i j. 0) idx = Some idx'" "pos_rep idx' sample_words" "pos_flushed idx'" "px_bloomEnabled idx'" "px_reverse idx'"
proof -
  have "\<exists>idx idx'. pos_insert_docs int_ops (\<lambda>i. of_nat i) (\<lambda>i j. 0) (\<lambda>i. i < 2)
      (PosIndex_new (\<lambda>i. of_nat i) NON_POSITIONAL 40000 5 2 True True 6 16) sample_docs = Some idx \<and>
    pos_rep idx (abs_insert_docs (\<lambda>i. i < 2) sample_docs Map.empty) \<and> PosIndex_totalDocNum idx = of_nat (length sample_docs) \<and> totalDocLen (px_pointers idx) = 0 \<and>
    pos_flush (\<lambda>i. of_nat i) (\<lambda>i j. 0) idx = Some idx' \<and> pos_rep idx' (abs_insert_docs (\<lambda>i. i < 2) sample_docs Map.empty) \<and> pos_flushed idx' \<and>
    same_params (PosIndex_new (\<lambda>i. of_nat i) NON_POSITIONAL 40000 5 2 True True 6 16) idx'"
    by (rule pos_index_run) (simp_all add: sample_docs_def card_insert_if)
  then show thesis using that unfolding sample_words_def by (fastforce simp: same_params_def PosIndex_new_def)
qed

lemma sample_docids: "docids False [1, 3, 4, 5, 6, 7, 8, 9, 10, 11, 12, 13, 14, 15, 16, 17, 18, 19]"
  "docids False [1, 2, 3, 4, 5, 6, 7, 8, 9, 10, 11, 12, 13, 14, 15, 16, 17, 18, 19]"
  by (simp_all add: docids_def postings_def LESS_THAN_def)

text \<open>C5. On a flushed positional index without frequencies, an \<open>SVS\<close> query for one word that is in more than 16 documents, inserted with ascending docids below
  \<open>2 ^ 31\<close>, answers with the docids of the word that the filter lets through, in the order of the index, cut off after \<open>hits\<close> of them, or with all of them when
  \<open>hits\<close> is 0. The scores are all 0. (A word in at most 16 documents is not found at all, see below.)\<close>

theorem pos_retrieve_one_word:
  assumes "pos_rep idx A" "pos_flushed idx" "length cd = 33" "doc_filter flt" "A wrd = Some P" "16 < length P" "docids False P"
  shows "pos_retrieve F cd junk idx SVS [wrd] flt hits =
    (let ds = at_most (unat hits) (filter (test flt) (index_order (px_reverse idx) P)) in Some (ds, replicate (length ds) (f_zero F)))"
proof -
  from assms(1) obtain L pss ts where inv: "pos_inv idx L pss ts" "A = abs_of (px_dictionary idx) ts" by (auto simp: pos_rep_def)
  note w = indexed_word [OF inv(1) assms(2,3) assms(5) [unfolded inv(2)] assms(6,7)]
  let ?n = "fst (pos_entry idx wrd)" and ?R = "filter (test flt) (index_order (px_reverse idx) P)"
  have "unat ?n = length P" using w(2) docids_length [OF assms(7)] by (simp add: unat_of_nat32)
  moreover have "length ?R \<le> length P" using length_filter_le [of "test flt" "index_order (px_reverse idx) P"] by simp
  ultimately have "at_most (unat (min ?n hits)) ?R = at_most (unat hits) ?R"
    using assms(6) by (auto simp: at_most_def min_def word_le_nat_alt)
  with doc_filter.svs_single_ok [OF assms(4) w(3,4), where minDf = ?n and hits = hits] have
    s: "svs_single cd junk (px_reverse idx) (px_pool idx) (entry_head idx wrd) flt ?n hits [] = Some (at_most (unat hits) ?R)" by simp
  have "min ?n 0xFFFFFFFF = ?n" using u32_le_max [of ?n] by (rule min_absorb1)
  with s w(1) show ?thesis by (simp add: pos_retrieve_def pos_intersectSvS_def Let_def)
qed

theorem pos_retrieve_one_word_witness:
  "\<exists>idx idx'. pos_insert_docs int_ops (\<lambda>i. of_nat i) (\<lambda>i j. 0) (\<lambda>i. i < 2)
      (PosIndex_new (\<lambda>i. of_nat i) NON_POSITIONAL 40000 5 2 True True 6 16) sample_docs = Some idx \<and> pos_flush (\<lambda>i. of_nat i) (\<lambda>i j. 0) idx = Some idx' \<and>
    pos_retrieve int_ops (replicate 33 []) (\<lambda>i. of_nat i) idx' SVS [''a''] FilterBase_default 3 = Some ([19, 18, 17], [0, 0, 0])"
proof -
  obtain idx idx' where i: "pos_insert_docs int_ops (\<lambda>i. of_nat i) (\<lambda>i j. 0) (\<lambda>i. i < 2)
      (PosIndex_new (\<lambda>i. of_nat i) NON_POSITIONAL 40000 5 2 True True 6 16) sample_docs = Some idx"
    "pos_flush (\<lambda>i. of_nat i) (\<lambda>i j. 0) idx = Some idx'" "pos_rep idx' sample_words" "pos_flushed idx'" "px_bloomEnabled idx'" "px_reverse idx'"
    by (rule sample_index_flushed)
  have "length (replicate 33 [] :: u32 list list) = 33" by simp
  from pos_retrieve_one_word [OF i(3,4) this default_filter.doc_filter_axioms sample_words_at(1) _ sample_docids(1), of int_ops "\<lambda>i. of_nat i" 3] i(1,2,6)
  show ?thesis by (simp add: FilterBase_default_def at_most_def index_order_def int_ops_def Let_def)
qed

text \<open>C6. On a flushed positional index without frequencies, an \<open>SVS\<close> query for two words, each of them in more than 16 documents with ascending docids below \<open>2 ^ 31\<close>, answers
  with the docids both words have that the filter lets through, in the order of the index, cut off after \<open>hits\<close> of them. (If one of the words is in fewer documents,
  the query is answered as if it had not been given.)\<close>

theorem pos_retrieve_two_words:
  assumes "pos_rep idx A" "pos_flushed idx" "length cd = 33" "doc_filter flt"
    and "A wrd0 = Some P0" "16 < length P0" "docids False P0" "A wrd1 = Some P1" "16 < length P1" "docids False P1"
  shows "pos_retrieve F cd junk idx SVS [wrd0, wrd1] flt hits =
    (let ds = take (unat hits) (filter (\<lambda>d. test flt d \<and> d \<in> set P1) (index_order (px_reverse idx) P0)) in Some (ds, replicate (length ds) (f_zero F)))"
proof -
  from assms(1) obtain L pss ts where inv: "pos_inv idx L pss ts" "A = abs_of (px_dictionary idx) ts" by (auto simp: pos_rep_def)
  let ?r = "px_reverse idx"
  note w0 = indexed_word [OF inv(1) assms(2,3) assms(5) [unfolded inv(2)] assms(6,7)]
  note w1 = indexed_word [OF inv(1) assms(2,3) assms(8) [unfolded inv(2)] assms(9,10)]
  let ?both = "filter (\<lambda>d. test flt d \<and> d \<in> set P1) (index_order ?r P0)"
  have p01: "svs_pair cd junk ?r (px_pool idx) flt (entry_head idx wrd0) (entry_head idx wrd1) [] = Some ?both"
    using doc_filter.svs_pair_ok [OF assms(4) w0(3) w1(3) w0(4) w1(4)] by (simp add: doc_filter.both_def [OF assms(4)])
  have p10: "svs_pair cd junk ?r (px_pool idx) flt (entry_head idx wrd1) (entry_head idx wrd0) [] = Some ?both"
    using doc_filter.svs_pair_ok [OF assms(4) w1(3) w0(3) w1(4) w0(4)] both_commute [OF w0(4) w1(4), of "test flt"] by (simp add: doc_filter.both_def [OF assms(4)])
  show ?thesis using svs_two [OF p01] svs_two [OF p10] w0(1) w1(1) by (simp add: pos_retrieve_def Let_def)
qed


theorem pos_retrieve_two_words_witness:
  "\<exists>idx idx'. pos_insert_docs int_ops (\<lambda>i. of_nat i) (\<lambda>i j. 0) (\<lambda>i. i < 2)
      (PosIndex_new (\<lambda>i. of_nat i) NON_POSITIONAL 40000 5 2 True True 6 16) sample_docs = Some idx \<and> pos_flush (\<lambda>i. of_nat i) (\<lambda>i j. 0) idx = Some idx' \<and>
    pos_retrieve int_ops (replicate 33 []) (\<lambda>i. of_nat i) idx' SVS [''b'', ''a''] FilterBase_default 4 =
      Some ([19, 18, 17, 16], [0, 0, 0, 0])"
proof -
  obtain idx idx' where i: "pos_insert_docs int_ops (\<lambda>i. of_nat i) (\<lambda>i j. 0) (\<lambda>i. i < 2)
      (PosIndex_new (\<lambda>i. of_nat i) NON_POSITIONAL 40000 5 2 True True 6 16) sample_docs = Some idx"
    "pos_flush (\<lambda>i. of_nat i) (\<lambda>i j. 0) idx = Some idx'" "pos_rep idx' sample_words" "pos_flushed idx'" "px_bloomEnabled idx'" "px_reverse idx'"
    by (rule sample_index_flushed)
  have cd: "length (replicate 33 [] :: u32 list list) = 33" by simp
  from pos_retrieve_two_words [OF i(3,4) cd default_filter.doc_filter_axioms sample_words_at(2) _ sample_docids(2) sample_words_at(1) _ sample_docids(1),
      of int_ops "\<lambda>i. of_nat i" 4] i(1,2,6)
  show ?thesis by (simp add: FilterBase_default_def index_order_def int_ops_def Let_def)
qed

text \<open>The words in the order of their document frequencies, and the limit of a query without one.\<close>

lemma words_by_df:
  assumes "ws \<noteq> []"
  obtains w0 wr where "sort_key fst (map (pos_entry idx) ws) = map (pos_entry idx) (w0 # wr)" "set (w0 # wr) = set ws" "length (w0 # wr) = length ws"
    "fold (\<lambda>q m. min (fst q) m) (map (pos_entry idx) ws) 0xFFFFFFFF = fst (pos_entry idx w0)"
proof -
  define ss where "ss = sort_key (fst \<circ> pos_entry idx) ws"
  have s: "set ss = set ws" "length ss = length ws" "sorted (map (fst \<circ> pos_entry idx) ss)" by (simp_all add: ss_def)
  with assms obtain w0 wr where w: "ss = w0 # wr" by (cases ss) auto
  have le: "fst (pos_entry idx w0) \<le> fst (pos_entry idx v)" if "v \<in> set ws" for v
    using s(1,3) that w by auto
  have "fst (pos_entry idx w0) \<le> 0xFFFFFFFF" by (rule u32_le_max)
  then have "fst (pos_entry idx w0) \<le> fold (\<lambda>q m. min (fst q) m) (map (pos_entry idx) ws) 0xFFFFFFFF"
    using le by (intro fold_min_ge) auto
  moreover have "pos_entry idx w0 \<in> set (map (pos_entry idx) ws)" using s(1) w by auto
  ultimately have "fold (\<lambda>q m. min (fst q) m) (map (pos_entry idx) ws) 0xFFFFFFFF = fst (pos_entry idx w0)"
    using fold_min_le by (metis order.antisym)
  then show thesis using that [of w0 wr] s(1,2) w by (simp add: sort_key_map ss_def [symmetric])
qed

lemma and_complete:
  assumes "pos_rep idx A" "pos_flushed idx" "length cd = 33" "doc_filter flt" "ws \<noteq> []" "\<forall>w \<in> set ws. indexed A w" "px_bloomEnabled idx \<or> length ws = 1"
  shows "\<exists>ds. pos_retrieve F cd junk idx BWAND_AND ws flt hits = Some (ds, replicate (length ds) (f_zero F)) \<and> docids (px_reverse idx) ds \<and>
    (\<forall>d \<in> set ds. test flt d) \<and> (\<exists>w \<in> set ws. set ds \<subseteq> set (the (A w))) \<and> (hits = 0 \<or> length ds \<le> unat hits) \<and>
    (hits = 0 \<or> length ds < unat hits \<longrightarrow> {d. test flt d \<and> (\<forall>w \<in> set ws. d \<in> set (the (A w)))} \<subseteq> set ds)"
proof -
  from assms(1) obtain L pss ts where inv: "pos_inv idx L pss ts" "A = abs_of (px_dictionary idx) ts" by (auto simp: pos_rep_def)
  let ?r = "px_reverse idx" and ?docs = "\<lambda>w. index_order (px_reverse idx) (the (A w))"
  from words_by_df [OF assms(5), of idx] obtain w0 wr where s: "sort_key fst (map (pos_entry idx) ws) = map (pos_entry idx) (w0 # wr)" "set (w0 # wr) = set ws"
    "length (w0 # wr) = length ws" "fold (\<lambda>q m. min (fst q) m) (map (pos_entry idx) ws) 0xFFFFFFFF = fst (pos_entry idx w0)" .
  have ix: "segment_left cd idx L (si_start junk (entry_head idx w)) (?docs w)" "docids ?r (?docs w)" "docs_ahead idx L d (entry_head idx w) (?docs w)"
    "fst (pos_entry idx w) = of_nat (length (the (A w)))" "16 < length (the (A w))" "length (the (A w)) < 2 ^ 32" if wi: "w \<in> set ws" for w d
  proof -
    obtain P where P: "A w = Some P" "16 < length P" "docids False P" using assms(6) wi by (auto simp: indexed_def)
    note x = indexed_word [OF inv(1) assms(2,3) P(1) [unfolded inv(2)] P(2,3)]
    show "segment_left cd idx L (si_start junk (entry_head idx w)) (?docs w)" "docids ?r (?docs w)" "docs_ahead idx L d (entry_head idx w) (?docs w)"
      "fst (pos_entry idx w) = of_nat (length (the (A w)))" "16 < length (the (A w))" "length (the (A w)) < 2 ^ 32"
      using x(2-5) P docids_length [OF P(3)] by simp_all
  qed
  have w0: "w0 \<in> set ws" using s(2) by auto
  define lim where "lim = (if hits = 0 then fst (pos_entry idx w0) else hits)"
  have df0: "unat (fst (pos_entry idx w0)) = length (the (A w0))" using ix(4,6) [OF w0] by (simp add: unat_of_nat32)
  have lim: "0 < lim" using df0 ix(5) [OF w0] by (auto simp: lim_def word_less_nat_alt unat_gt_0)
  have ah: "list_all2 (docs_ahead idx L d) (map (entry_head idx) wr) (map ?docs wr)" for d
    using ix(3) s(2) by (auto simp: list_all2_map1 list_all2_map2 intro: list.rel_refl_strong)
  have bl: "map (entry_head idx) wr \<noteq> [] \<Longrightarrow> px_bloomEnabled idx" using assms(7) s(3) by auto
  from doc_filter.bwandAnd_ok [OF assms(4) ix(1,2) [OF w0] lim ah bl] obtain maybe where
    m: "bwandAnd cd junk ?r (px_pool idx) (px_nbHash idx) (map (entry_head idx) (w0 # wr)) flt lim [] =
      Some (take (unat lim) (filter maybe (filter (test flt) (?docs w0))))" "misses_none maybe (map ?docs wr)" by auto
  let ?all = "filter maybe (filter (test flt) (?docs w0))" and ?ds = "take (unat lim) (filter maybe (filter (test flt) (?docs w0)))"
  have "pos_lookup idx ws = map (pos_entry idx) ws" using lookup_indexed [OF inv(1) assms(2)] assms(6) inv(2) by simp
  then have ret: "pos_retrieve F cd junk idx BWAND_AND ws flt hits = Some (?ds, replicate (length ?ds) (f_zero F))"
    using m(1) s(1,4) assms(5) by (cases "hits = 0") (simp_all add: pos_retrieve_def Let_def lim_def comp_def)
  have dc: "docids ?r ?all" by (intro docids_filter ix(2) w0)
  then have d: "docids ?r ?ds" by (auto simp: docids_def postings_def sorted_wrt_take dest: in_set_takeD)
  have sub: "\<forall>d \<in> set ?ds. test flt d" "set ?ds \<subseteq> set (the (A w0))" by (auto dest: in_set_takeD)
  have "length ?all \<le> length (the (A w0))"
    using length_filter_le [of maybe "filter (test flt) (?docs w0)"] length_filter_le [of "test flt" "?docs w0"] by simp
  then have whole: "?ds = ?all" if "hits = 0 \<or> length ?ds < unat hits" using that df0 by (auto simp: lim_def split: if_splits)
  let ?with_all = "{d. test flt d \<and> (\<forall>w \<in> set ws. d \<in> set (the (A w)))}"
  have all: "?with_all \<subseteq> set ?all"
    using m(2) s(2) by (auto simp: misses_none_def)
  have complete: "hits = 0 \<or> length ?ds < unat hits \<longrightarrow> ?with_all \<subseteq> set ?ds"
  proof
    assume "hits = 0 \<or> length ?ds < unat hits"
    from whole [OF this] show "?with_all \<subseteq> set ?ds" using all by (simp only:)
  qed
  have few: "hits = 0 \<or> length ?ds \<le> unat hits" by (simp add: lim_def)
  show ?thesis by (rule exI [of _ ?ds], intro conjI bexI [of _ w0]) (fact ret d sub w0 few complete)+
qed

text \<open>C7. A \<open>BWAND_AND\<close> query for any number of words on a flushed positional index without frequencies, whose documents came with ascending docids below \<open>2 ^ 31\<close>. The words
  that are unknown or in at most 16 documents are dropped. When none is left, the answer is empty. Otherwise the query ends and answers with docids of one of the words left that
  the filter lets through, in the order of the index and at most \<open>hits\<close> of them, and when it is not cut off it misses no document that has all of the words left; it
  may find more, by the false positives of the Bloom filters. With two or more words left the index needs Bloom filters.\<close>

theorem pos_retrieve_and_complete:
  assumes "pos_rep idx A" "pos_flushed idx" "length cd = 33" "doc_filter flt" "\<forall>w \<in> set ws. \<forall>P. A w = Some P \<longrightarrow> docids False P"
    and "px_bloomEnabled idx \<or> length (filter (indexed A) ws) \<le> 1"
  shows "if filter (indexed A) ws = [] then pos_retrieve F cd junk idx BWAND_AND ws flt hits = Some ([], [])
    else \<exists>ds. pos_retrieve F cd junk idx BWAND_AND ws flt hits = Some (ds, replicate (length ds) (f_zero F)) \<and> docids (px_reverse idx) ds \<and>
      (\<forall>d \<in> set ds. test flt d) \<and> (\<exists>w \<in> set ws. indexed A w \<and> set ds \<subseteq> set (the (A w))) \<and> (hits = 0 \<or> length ds \<le> unat hits) \<and>
      (hits = 0 \<or> length ds < unat hits \<longrightarrow> {d. test flt d \<and> (\<forall>w \<in> set ws. indexed A w \<longrightarrow> d \<in> set (the (A w)))} \<subseteq> set ds)"
proof -
  let ?ks = "filter (indexed A) ws"
  from assms(1) obtain L pss ts where inv: "pos_inv idx L pss ts" "A = abs_of (px_dictionary idx) ts" by (auto simp: pos_rep_def)
  have "pos_lookup idx ws = pos_lookup idx ?ks" using lookup_kept [OF inv(1) assms(2)] assms(5) inv(2) by simp
  then have same: "pos_retrieve F cd junk idx BWAND_AND ws flt hits = pos_retrieve F cd junk idx BWAND_AND ?ks flt hits"
    by (simp only: pos_retrieve_def)
  show ?thesis
  proof (cases "?ks = []")
    case True
    then show ?thesis using same by (simp add: pos_retrieve_def)
  next
    case False
    then have "length ?ks \<noteq> 0" by simp
    then have one: "px_bloomEnabled idx \<or> length ?ks = 1" using assms(6) by linarith
    have "\<forall>w \<in> set ?ks. indexed A w" by simp
    from and_complete [OF assms(1-4) False this one, of F junk hits] obtain ds where
      ds: "pos_retrieve F cd junk idx BWAND_AND ?ks flt hits = Some (ds, replicate (length ds) (f_zero F))" "docids (px_reverse idx) ds"
        "\<forall>d \<in> set ds. test flt d" "\<exists>w \<in> set ?ks. set ds \<subseteq> set (the (A w))" "hits = 0 \<or> length ds \<le> unat hits"
        "hits = 0 \<or> length ds < unat hits \<longrightarrow> {d. test flt d \<and> (\<forall>w \<in> set ?ks. d \<in> set (the (A w)))} \<subseteq> set ds" by blast
    have "(\<forall>w \<in> set ?ks. d \<in> set (the (A w))) \<longleftrightarrow> (\<forall>w \<in> set ws. indexed A w \<longrightarrow> d \<in> set (the (A w)))" for d by auto
    moreover have "\<exists>w \<in> set ws. indexed A w \<and> set ds \<subseteq> set (the (A w))" using ds(4) by auto
    ultimately show ?thesis using ds(1-3,5,6) False unfolding same by (simp only: if_False) blast
  qed
qed

theorem pos_retrieve_and_complete_witness:
  "\<exists>idx idx' ds. pos_insert_docs int_ops (\<lambda>i. of_nat i) (\<lambda>i j. 0) (\<lambda>i. i < 2)
      (PosIndex_new (\<lambda>i. of_nat i) NON_POSITIONAL 40000 5 2 True True 6 16) sample_docs = Some idx \<and> pos_flush (\<lambda>i. of_nat i) (\<lambda>i j. 0) idx = Some idx' \<and>
    pos_retrieve int_ops (replicate 33 []) (\<lambda>i. of_nat i) idx' BWAND_AND [''b'', ''a''] FilterBase_default 0 = Some (ds, replicate (length ds) 0) \<and>
    {1, 3, 4, 5, 6, 7, 8, 9, 10, 11, 12, 13, 14, 15, 16, 17, 18, 19} \<subseteq> set ds"
proof -
  obtain idx idx' where i: "pos_insert_docs int_ops (\<lambda>i. of_nat i) (\<lambda>i j. 0) (\<lambda>i. i < 2)
      (PosIndex_new (\<lambda>i. of_nat i) NON_POSITIONAL 40000 5 2 True True 6 16) sample_docs = Some idx"
    "pos_flush (\<lambda>i. of_nat i) (\<lambda>i j. 0) idx = Some idx'" "pos_rep idx' sample_words" "pos_flushed idx'" "px_bloomEnabled idx'" "px_reverse idx'"
    by (rule sample_index_flushed)
  have cd: "length (replicate 33 [] :: u32 list list) = 33" by simp
  have ix: "indexed sample_words ''a''" "indexed sample_words ''b''" using sample_words_at sample_docids by (simp_all add: indexed_def)
  have "\<forall>w \<in> set [''b'', ''a'']. \<forall>P. sample_words w = Some P \<longrightarrow> docids False P" using sample_words_at sample_docids by simp
  from pos_retrieve_and_complete [OF i(3,4) cd default_filter.doc_filter_axioms this disjI1 [OF i(5)], of int_ops "\<lambda>i. of_nat i" 0] ix obtain ds where
    d: "pos_retrieve int_ops (replicate 33 []) (\<lambda>i. of_nat i) idx' BWAND_AND [''b'', ''a''] FilterBase_default 0 = Some (ds, replicate (length ds) (f_zero int_ops))"
      "{d. test FilterBase_default d \<and> (\<forall>w \<in> set [''b'', ''a'']. indexed sample_words w \<longrightarrow> d \<in> set (the (sample_words w)))} \<subseteq> set ds" by auto
  have "{1, 3, 4, 5, 6, 7, 8, 9, 10, 11, 12, 13, 14, 15, 16, 17, 18, 19} \<subseteq> set ds"
    using d(2) ix by (simp add: sample_words_at FilterBase_default_def subset_iff)
  with i(1,2) d(1) show ?thesis by (auto simp: int_ops_def)
qed

text \<open>C35. A word in at most 16 documents is not found by any of the algorithms, before or after a flush: its postings stay in its buffer, and the queries of a positional
  index read blocks only.\<close>

theorem pos_rare_word_not_found:
  assumes "pos_rep idx A" "A wrd = Some P" "length P \<le> 16"
  shows "pos_retrieve F cd junk idx algorithm [wrd] flt hits = Some ([], [])"
proof -
  from assms(1) obtain L pss ts where inv: "pos_inv idx L pss ts" "A = abs_of (px_dictionary idx) ts" by (auto simp: pos_rep_def)
  from lookup_rare [OF inv(1) assms(2) [unfolded inv(2)] assms(3), of "[]"] show ?thesis
    by (simp add: pos_retrieve_def del: pos_lookup.simps(2))
qed

theorem pos_rare_word_not_found_witness:
  "\<exists>idx idx'. pos_insert_docs int_ops (\<lambda>i. of_nat i) (\<lambda>i j. 0) (\<lambda>i. i < 2)
      (PosIndex_new (\<lambda>i. of_nat i) NON_POSITIONAL 40000 3 2 True True 6 16) [(3, [''a'']), (5, [''b'', ''a''])] = Some idx \<and>
    pos_flush (\<lambda>i. of_nat i) (\<lambda>i j. 0) idx = Some idx' \<and>
    pos_retrieve int_ops (replicate 33 []) (\<lambda>i. of_nat i) idx' SVS [''a''] FilterBase_default 10 = Some ([], [])"
proof -
  let ?docs = "[(3, [''a'']), (5, [''b'', ''a''])] :: (u32 \<times> string list) list"
  have "\<exists>idx idx'. pos_insert_docs int_ops (\<lambda>i. of_nat i) (\<lambda>i j. 0) (\<lambda>i. i < 2)
      (PosIndex_new (\<lambda>i. of_nat i) NON_POSITIONAL 40000 3 2 True True 6 16) ?docs = Some idx \<and>
    pos_rep idx (abs_insert_docs (\<lambda>i. i < 2) ?docs Map.empty) \<and> PosIndex_totalDocNum idx = of_nat (length ?docs) \<and> totalDocLen (px_pointers idx) = 0 \<and>
    pos_flush (\<lambda>i. of_nat i) (\<lambda>i j. 0) idx = Some idx' \<and> pos_rep idx' (abs_insert_docs (\<lambda>i. i < 2) ?docs Map.empty) \<and> pos_flushed idx' \<and>
    same_params (PosIndex_new (\<lambda>i. of_nat i) NON_POSITIONAL 40000 3 2 True True 6 16) idx'"
    by (rule pos_index_run) (simp_all add: card_insert_if)
  then obtain idx idx' where i: "pos_insert_docs int_ops (\<lambda>i. of_nat i) (\<lambda>i j. 0) (\<lambda>i. i < 2)
      (PosIndex_new (\<lambda>i. of_nat i) NON_POSITIONAL 40000 3 2 True True 6 16) ?docs = Some idx" "pos_flush (\<lambda>i. of_nat i) (\<lambda>i j. 0) idx = Some idx'"
    "pos_rep idx' (abs_insert_docs (\<lambda>i. i < 2) ?docs Map.empty)" by blast
  define A where "A = abs_insert_doc (\<lambda>i. i < 2) 3 [''a''] Map.empty"
  have a: "A = [''a'' \<mapsto> [3]]" by (auto simp: A_def abs_insert_doc_def abs_word_def fun_eq_iff)
  have "abs_insert_docs (\<lambda>i. i < 2) ?docs Map.empty ''a'' = Some [3, 5]"
    by (simp add: abs_insert_docs_def A_def [symmetric]) (simp add: a abs_insert_doc_def abs_word_def)
  from pos_rare_word_not_found [OF i(3) this, of int_ops "replicate 33 []" "\<lambda>i. of_nat i" SVS FilterBase_default 10] i(1,2) show ?thesis by auto
qed

text \<open>C36. The first word of a document inserted into an index that keeps frequencies but no positions is undefined behaviour: the branches for a word that is new in the document
  and for one that is not are swapped, so that the last element of an empty vector is incremented.\<close>

theorem TF_ONLY_insert_undefined:
  assumes "accepts 0" "0 < v"
  shows "pos_insertDoc F junk pad accepts (PosIndex_new junk TF_ONLY m n v r bloom nh bits) docid (wrd # wrds) = None"
proof -
  let ?idx = "PosIndex_new junk TF_ONLY m n v r bloom nh bits"
  have "insertTerm accepts (px_dictionary ?idx) wrd = (0, [(wrd, 0)])" using assms(1) by (simp add: PosIndex_new_def insertTerm_def getTermId_def)
  moreover have "px_type ?idx = TF_ONLY" "rd (bm_tf (px_buffer ?idx)) 0 = Some vempty"
    using assms(2) by (simp_all add: PosIndex_new_def PositionalBufferMaps_new_def rd_def word_less_nat_alt)
  moreover have "(0 :: u32) \<noteq> INVALID_ID" by (simp add: INVALID_ID_def)
  ultimately have "pos_count_term accepts (?idx, []) 0 wrd = None" by (simp add: pos_count_term_def vreserve_def vback_def Let_def)
  then show ?thesis by (simp add: pos_insertDoc_def)
qed

theorem TF_ONLY_insert_undefined_witness:
  "pos_insertDoc int_ops (\<lambda>i. of_nat i) (\<lambda>i j. 0) (\<lambda>i. i < 2) (PosIndex_new (\<lambda>i. of_nat i) TF_ONLY 40000 3 2 True True 6 16) 3 [''a''] = None"
  by (rule TF_ONLY_insert_undefined) simp_all

end
