(* ===== verification/Spec2Isabelle.thy ===== *)
theory Spec2Isabelle
  imports Zambezi_SegmentPool SIMD_Tables Short_Tables Block_Packing Scalar_Codec BE_DNF Zambezi_Bloom Zambezi_AttrQuery Zambezi_PosQuery
begin

text \<open>
  A verification library for the index and compression core of izenelib, the C++ library under the search engine
  SF1R. Paths below are relative to \<^verbatim>\<open>src/\<close>.

  \<^bold>\<open>The program.\<close> Three parts of the library are modelled, with everything they call.

  \<^item> The integer codecs. \<^verbatim>\<open>include/util/compression/int/fastpfor\<close> and
    \<^verbatim>\<open>include/util/compression/simd-compression\<close> turn arrays of 32-bit integers into fewer words. At the bottom are
    unrolled routines that pack a block of integers at a fixed width, one function per width, written out by a
    generator in \<^verbatim>\<open>source/util/compression\<close>; above them are width switches, block packers, codecs that choose the
    width and store exceptions, and composites that hand the rest of an array to a byte codec.

  \<^item> The Zambezi inverted index, \<^verbatim>\<open>ir/Zambezi\<close> in both trees. A posting of a term is first kept in a buffer of the
    term. A full buffer is cut into blocks of 128 postings, compressed with the codecs above, and written to the
    segment pool, an array of word arrays in which the blocks of one term form a linked list. A query walks the list
    and the buffer with an iterator that can skip to a docid. There are two such indexes: the attribute-score index
    keeps a score with each docid, and the positional index keeps frequencies and positions, or docids only, with a
    Bloom filter in each block if it is asked to.

  \<^item> The boolean-expression index, \<^verbatim>\<open>include/ir/be_index\<close>: formulas in disjunctive normal form over attributes are
    stored in posting lists of their conjunctions; a query gives an assignment and gets back the formulas that hold.

  \<^bold>\<open>Conventions.\<close> A C++ integer of \<open>w\<close> bits is a \<open>w word\<close>, so that it wraps as in the source; signed arithmetic that
  may overflow goes through the checked operations of \<^verbatim>\<open>Izene_Prelude\<close>. A class is a record and a
  member function takes and returns the record. Where a function can only succeed or throw, its result is a sum with
  the exception at the left. Everywhere else the result is an option: \<open>None\<close> stands for undefined behaviour (an access
  outside an array, \<^verbatim>\<open>__builtin_clz(0)\<close>, signed overflow), a failed assertion, an uncaught exception, or a loop that
  does not end. A theorem that a function gives \<open>Some\<close> therefore states that none of these happens. Memory that
  \<^verbatim>\<open>new\<close> or \<^verbatim>\<open>malloc\<close> leaves uninitialised is a parameter \<open>junk\<close> of the model, and results are proved for every
  value of it. The load-factor test of \<^verbatim>\<open>boost::unordered_map\<close> is a parameter \<open>accepts\<close>, of which the insertion
  theorems assume nothing. The operations on
  \<^verbatim>\<open>float\<close> are a parameter, the record \<open>float_ops\<close>, of whose fields nothing is assumed. The model has one thread.
  Loops are structural recursions, functions with a termination proof, or \<open>partial_function (option)\<close>; there is no fuel.

  \<^bold>\<open>The theories and the sources.\<close>

  \<^item> \<^verbatim>\<open>Izene_Prelude\<close>: integer types, checked array access, lemmas on words, lists and options.
    \<^verbatim>\<open>Byte_Stream\<close>: integers as the bytes that streams write and read, with round trips for each.

  \<^item> \<^verbatim>\<open>Bitpack_Ref\<close>: the bit stream a packed block stands for, with the reference \<open>pack\<close> and \<open>unpack\<close> at every
    width. \<^verbatim>\<open>Bitpack_Unpack\<close>, \<^verbatim>\<open>Bitpack_Pack\<close>, \<^verbatim>\<open>Bitpack_NoMask\<close>: the 99 unrolled routines of
    \<^verbatim>\<open>source/util/compression/int/fastpfor/bitpacking.cpp\<close>, each proved equal to the reference of its width.
    \<^verbatim>\<open>Bitpack\<close>: the switches of \<^verbatim>\<open>bitpackinghelpers.h\<close> and the vectors of \<^verbatim>\<open>packingvectors.h\<close>.

  \<^item> \<^verbatim>\<open>Codec_Base\<close>: the interface \<^verbatim>\<open>IntegerCODEC\<close> of \<^verbatim>\<open>codecs.h\<close> as a locale, its vector wrappers
    \<open>compress\<close> and \<open>uncompress\<close>, the codecs \<^verbatim>\<open>JustCopy\<close> and \<^verbatim>\<open>PackedCODEC\<close>, and \<^verbatim>\<open>CompositeCodec\<close>, whose
    round trip is proved once for any two codecs. \<^verbatim>\<open>FastPFor\<close>: \<^verbatim>\<open>fastpfor.h\<close>, from the choice of the width to pages.
    \<^verbatim>\<open>VariableByte\<close>: \<^verbatim>\<open>variablebyte.h\<close> and the composite registered in \<^verbatim>\<open>codecfactory.h\<close>.

  \<^item> \<^verbatim>\<open>Bitpack_Short\<close>: the reference for packing fewer than 32 integers. \<^verbatim>\<open>Aligned_Unpack\<close>, \<^verbatim>\<open>Aligned_Pack\<close>,
    \<^verbatim>\<open>Unaligned_Bitpack\<close>: the unrolled routines of \<^verbatim>\<open>bitpackingaligned.cpp\<close> and \<^verbatim>\<open>bitpackingunaligned.cpp\<close>.
    \<^verbatim>\<open>Aligned_Bitpack\<close>, \<^verbatim>\<open>Short_Tables\<close>: their width switches. \<^verbatim>\<open>Block_Loops\<close>: the loops of the codecs of
    \<^verbatim>\<open>blockpacking.h\<close>, as a locale over the way the widths and the miniblocks are stored; \<^verbatim>\<open>Block_Packing\<close>: these codecs.

  \<^item> \<^verbatim>\<open>Scalar_Unpack\<close>, \<^verbatim>\<open>Scalar_Pack\<close>, \<^verbatim>\<open>Scalar_NoMask\<close>, \<^verbatim>\<open>Scalar_Integrated\<close>: the routines of
    \<^verbatim>\<open>bitpacking.cpp\<close> and \<^verbatim>\<open>integratedbitpacking.cpp\<close> of simd-compression, the latter on differences.
    \<^verbatim>\<open>Scalar_Helpers\<close>: \<^verbatim>\<open>delta.h\<close> and the class \<^verbatim>\<open>BitPackingHelpers\<close>. \<^verbatim>\<open>Scalar_Codec\<close>: \<^verbatim>\<open>binarypacking.h\<close>, its
    block packers as values of a record and the codec in a locale over what it relies on.

  \<^item> \<^verbatim>\<open>SIMD_Ref\<close>: the SSE2 registers as four lanes, the intrinsics the sources use, and the lane-wise reference.
    \<^verbatim>\<open>SIMD_Pack\<close>, \<^verbatim>\<open>SIMD_Unpack\<close>, \<^verbatim>\<open>SIMD_Unaligned\<close>, \<^verbatim>\<open>SIMD_FastPFor\<close>, \<^verbatim>\<open>SIMD_Integrated\<close>: the unrolled
    routines of \<^verbatim>\<open>simdbitpacking.cpp\<close> (both copies), \<^verbatim>\<open>usimdbitpacking.cpp\<close> and
    \<^verbatim>\<open>simdintegratedbitpacking.cpp\<close>. \<^verbatim>\<open>SIMD_Blocks\<close>: the differential encodings of \<^verbatim>\<open>deltatemplates.h\<close> and the
    block packers. \<^verbatim>\<open>SIMD_Codec\<close>: \<^verbatim>\<open>simdbinarypacking.h\<close>, \<^verbatim>\<open>variablebyte.h\<close>, \<^verbatim>\<open>compositecodec.h\<close> and the three codecs
    that the inverted indexes instantiate. \<^verbatim>\<open>SIMD_Tables\<close>: the width switches.

  \<^item> \<^verbatim>\<open>Zambezi_Utils\<close>: \<^verbatim>\<open>Consts.hpp\<close> and \<^verbatim>\<open>Utils.hpp\<close>. \<^verbatim>\<open>Zambezi_Search\<close>: \<^verbatim>\<open>search/GallopSearch.cpp\<close>,
    \<^verbatim>\<open>search/LinearSearch.cpp\<close>. \<^verbatim>\<open>Zambezi_Bloom\<close>: \<^verbatim>\<open>bloom/BloomFilter.cpp\<close>. \<^verbatim>\<open>Zambezi_SegmentPool\<close>:
    \<^verbatim>\<open>SegmentPool.cpp\<close>. \<^verbatim>\<open>Zambezi_Buffers\<close>: \<^verbatim>\<open>buffer/AttrScoreBufferMaps.cpp\<close>. \<^verbatim>\<open>Zambezi_Tables\<close>:
    \<^verbatim>\<open>buffer/FixedCounter.hpp\<close>, \<^verbatim>\<open>Pointers.cpp\<close>, \<^verbatim>\<open>Dictionary.hpp\<close> and \<^verbatim>\<open>FilterBase.hpp\<close>, the last as a locale of
    what queries rely on.

  \<^item> \<^verbatim>\<open>Zambezi_Attr\<close>: all of \<^verbatim>\<open>AttrScoreInvertedIndex.cpp\<close>: \<^verbatim>\<open>insertDoc\<close>, \<^verbatim>\<open>processTermBuffer_\<close>,
    \<^verbatim>\<open>compressAndAppendBlock_\<close>, the two decompressions, the iterator \<^verbatim>\<open>unionIterate_\<close>, the intersections, \<^verbatim>\<open>retrieval\<close>,
    \<^verbatim>\<open>save\<close> and \<^verbatim>\<open>load\<close>. \<^verbatim>\<open>Zambezi_AttrBlock\<close>: one block, from the scratch array through the pool and back.
    \<^verbatim>\<open>Zambezi_AttrInsert\<close>: the invariant of the index and the refinement of an abstract index.
    \<^verbatim>\<open>Zambezi_AttrQuery\<close>: the iterator as an instance of a locale of posting iterators, and the queries.

  \<^item> \<^verbatim>\<open>Zambezi_Pos\<close>: \<^verbatim>\<open>buffer/PositionalBufferMaps.cpp\<close> and all of \<^verbatim>\<open>PositionalInvertedIndex.cpp\<close>: insertion and
    \<^verbatim>\<open>flush\<close>, the compression and decompression of docids, frequencies and positions, \<^verbatim>\<open>iterateSegment_\<close>,
    \<^verbatim>\<open>containsDocid_\<close>, the five query algorithms, \<^verbatim>\<open>save\<close> and \<^verbatim>\<open>load\<close>. \<^verbatim>\<open>Zambezi_Chains\<close>: chains of blocks that grow at
    either end, shared by the proofs. \<^verbatim>\<open>Zambezi_PosBlock\<close>: one block of docids with its Bloom filter.
    \<^verbatim>\<open>Zambezi_PosInsert\<close>: the invariant and the refinement of an abstract index by insertion and flush.
    \<^verbatim>\<open>Zambezi_PosIter\<close>: the iterator, as an instance of the locale \<open>docid_iterator\<close>. \<^verbatim>\<open>Zambezi_PosQuery\<close>: the
    conjunctive queries.

  \<^item> \<^verbatim>\<open>BE_Mappers\<close>: \<^verbatim>\<open>IDMapper.hpp\<close>, \<^verbatim>\<open>AVMapper.hpp\<close> and \<^verbatim>\<open>SimpleSerialization.hpp\<close>. \<^verbatim>\<open>BE_Index\<close>: the class
    \<^verbatim>\<open>ConjunctionInvIndex\<close> of \<^verbatim>\<open>InvIndex.hpp\<close>. \<^verbatim>\<open>BE_DNF\<close>: its class \<^verbatim>\<open>DNFInvIndex\<close>, and \<^verbatim>\<open>DNF.hpp\<close>.

  \<^bold>\<open>What is proved.\<close>

  \<^item> Codecs. Every unrolled routine, scalar or vectorised, is the reference of its width; so unpacking inverts packing
    at all widths and for all nine differential encodings. FastPFor, VariableByte, PackedCODEC, the binary packing
    codecs (of both libraries, for every size of miniblocks and every block packer) and the composites restore their
    input, stop right behind the words they wrote, and stay within the output they are given; the inputs on which they
    throw or are undefined are characterised.

  \<^item> Segment pool. Appending a block extends the chain of its term at the end, or at the front in a reversed index, and
    leaves every other chain alone; skipping to a docid stops at the right block; saved pools are restored.

  \<^item> Attribute-score index. Under an invariant that new indexes have and insertions keep, inserting documents refines
    a map from words to postings (\<^verbatim>\<open>Zambezi_AttrInsert\<close>), for both orders of the index. Queries with one and with two
    words on a reversed index return exactly the postings, or the common docids with their weighted scores, that the
    filter lets through (\<^verbatim>\<open>Zambezi_AttrQuery\<close>). Insertion asks for ascending docids below \<open>2 ^ 31\<close>, distinct words and nonzero
    scores in each document, no more different words than the index has buffers, and 8128 words in the pool for each
    posting, which is what a buffer of postings needs at most. The hash table of the dictionary may refuse any word, which is
    then left out.

  \<^item> Positional index, without frequencies. Inserting documents and flushing succeeds and refines a map from words to
    docids, in both orders and with or without Bloom filters of at most 480 bits (\<^verbatim>\<open>Zambezi_PosInsert\<close>); the documents have
    no more different words than the index has buffers, and the pool must have 4064 words for each posting, the most a
    block takes. On a flushed index the queries with one and with two words, each in more than 16 documents with
    ascending docids, return exactly the docids, or the common docids, that the filter lets through. A query through the
    Bloom filters drops the words in at most 16 documents, which are never found, and returns filtered docids and
    misses none that has all the other words (\<^verbatim>\<open>Zambezi_PosQuery\<close>).

  \<^item> Boolean-expression index. After any sequence of additions, queries and reloads a query ends and returns exactly the
    formulas the assignment satisfies, for formulas of well-formed conjunctions of plain strings and queries with distinct
    attributes. The index identifies conjunctions by their printed forms, which differ for plain strings; for values with
    spaces they need not, and then the second of two formulas is answered by the conjunction of the first.

  \<^item> Errors. The theorems of kind error state, for concrete or for all states, where the code reads outside an array
    or loses data: a reloaded segment pool, statistics that lose a document length, buffer maps
    that grow without their locks, a query with a third word, an iterator over an empty buffer, a positional index
    that does not find rare words, and one with frequencies that cannot insert its first word.

  \<^bold>\<open>Not modelled, or not proved.\<close> The frequencies and positions of the positional index and its ranked queries
  (\<^verbatim>\<open>WAND\<close>, \<^verbatim>\<open>BWAND_OR\<close>) are modelled, with the float operations as a parameter, but no contract is proved of them. The
  scorers in \<^verbatim>\<open>ir/Zambezi/scorer\<close> are not modelled; the indexes do not call them. The JSON forms of the
  boolean-expression index are the vendored JSON library's. Of the codecs no index uses, FastPFor and the
  sorted packing of simd-compression, the vectorised FastPFor, Simple8b, VarIntG8IU, \<^verbatim>\<open>ByteAlignedPacking\<close> and those of
  VSEncoding are not modelled. Threads: the spin locks of the buffer maps only count. No
  contract is proved of the queries of forward attribute-score indexes,
  where reading behind the last block is undefined as soon as a buffer is empty. The disk containers, network layer,
  index manager, Unicode strings and the other utilities are separate parts of the library, which the modelled parts do
  not call.
\<close>

end
